(* ===== verification/Prelude.thy ===== *)
theory Prelude
  imports Complex_Main "HOL-Library.Multiset"
begin

text \<open>
  Shared vocabulary of the development: JavaScript truthiness and defaulting, the insertion
  ordered \<open>Map\<close> of JavaScript, the stable \<open>Array.prototype.sort\<close>, and the collections of
  automation rules (\<open>js_simps\<close>, \<open>inv_intros\<close>) the component theories add to.
\<close>

named_theorems js_simps
named_theorems inv_intros

subsection \<open>Truthiness and defaulting\<close>

text \<open>An absent property is \<open>None\<close>; \<open>undefined\<close> and the empty string are both falsy.\<close>

definition truthy :: "string option \<Rightarrow> bool" where
  "truthy v \<longleftrightarrow> (case v of None \<Rightarrow> False | Some s \<Rightarrow> s \<noteq> [])"

text \<open>\<open>v || d\<close> on an optional string.\<close>

definition js_or :: "string option \<Rightarrow> string \<Rightarrow> string" where
  "js_or v d = (case v of None \<Rightarrow> d | Some s \<Rightarrow> if s = [] then d else s)"

text \<open>\<open>a || b\<close> on two strings.\<close>

definition str_or :: "string \<Rightarrow> string \<Rightarrow> string" where
  "str_or a b = (if a = [] then b else a)"

lemma truthy_simps [simp]:
  "truthy None = False" "truthy (Some s) = (s \<noteq> [])"
  by (simp_all add: truthy_def)

lemma js_or_simps [simp]:
  "js_or None d = d" "s \<noteq> [] \<Longrightarrow> js_or (Some s) d = s" "js_or (Some []) d = d"
  by (simp_all add: js_or_def)

lemma js_or_truthy: "truthy v \<Longrightarrow> Some (js_or v d) = v"
  by (cases v) auto

subsection \<open>Stable sorting with a comparator\<close>

text \<open>
  \<open>xs.sort(cmp)\<close> is stable since ECMAScript 2019: elements that compare equal keep their
  order. For a consistent comparator the result is the one of stable insertion sort.
\<close>

fun js_insert :: "('a \<Rightarrow> 'a \<Rightarrow> int) \<Rightarrow> 'a \<Rightarrow> 'a list \<Rightarrow> 'a list" where
  "js_insert cmp x [] = [x]"
| "js_insert cmp x (y # ys) = (if cmp x y \<le> 0 then x # y # ys else y # js_insert cmp x ys)"

fun js_sort :: "('a \<Rightarrow> 'a \<Rightarrow> int) \<Rightarrow> 'a list \<Rightarrow> 'a list" where
  "js_sort cmp [] = []"
| "js_sort cmp (x # xs) = js_insert cmp x (js_sort cmp xs)"

lemma mset_js_insert [simp]: "mset (js_insert cmp x ys) = add_mset x (mset ys)"
  by (induction ys) auto

lemma mset_js_sort [simp]: "mset (js_sort cmp xs) = mset xs"
  by (induction xs) auto

lemma set_js_sort [simp]: "set (js_sort cmp xs) = set xs"
  by (metis mset_js_sort set_mset_mset)

lemma length_js_sort [simp]: "length (js_sort cmp xs) = length xs"
  by (metis mset_js_sort size_mset)

lemma distinct_js_sort [simp]: "distinct (js_sort cmp xs) = distinct xs"
  by (metis distinct_count_atmost_1 mset_js_sort set_js_sort)

lemma distinct_map_js_sort [simp]: "distinct (map f (js_sort cmp xs)) = distinct (map f xs)"
  by (metis distinct_count_atmost_1 mset_js_sort mset_map set_js_sort list.set_map)

text \<open>The contract a comparator has to meet for \<open>sort\<close> to be defined by the language.\<close>

locale comparator =
  fixes cmp :: "'a \<Rightarrow> 'a \<Rightarrow> int"
  assumes cmp_total: "cmp x y \<le> 0 \<or> cmp y x \<le> 0"
    and cmp_trans: "cmp x y \<le> 0 \<Longrightarrow> cmp y z \<le> 0 \<Longrightarrow> cmp x z \<le> 0"
begin

abbreviation le_cmp :: "'a \<Rightarrow> 'a \<Rightarrow> bool" where
  "le_cmp x y \<equiv> cmp x y \<le> 0"

lemma sorted_js_insert:
  "sorted_wrt le_cmp ys \<Longrightarrow> sorted_wrt le_cmp (js_insert cmp x ys)"
proof (induction ys)
  case Nil
  show ?case by simp
next
  case (Cons y ys)
  have set_ins: "set (js_insert cmp x ys) = insert x (set ys)"
    by (metis mset_js_insert set_mset_add_mset_insert set_mset_mset)
  show ?case
    using Cons cmp_total [of x y] by (auto simp: set_ins intro: cmp_trans)
qed

lemma sorted_js_sort: "sorted_wrt le_cmp (js_sort cmp xs)"
  by (induction xs) (auto intro: sorted_js_insert)

lemma js_insert_le:
  "\<forall>y \<in> set ys. cmp x y \<le> 0 \<Longrightarrow> js_insert cmp x ys = x # ys"
  by (cases ys) auto

lemma js_sort_sorted: "sorted_wrt le_cmp xs \<Longrightarrow> js_sort cmp xs = xs"
  by (induction xs) (auto simp: js_insert_le)

lemma js_sort_idem: "js_sort cmp (js_sort cmp xs) = js_sort cmp xs"
  by (rule js_sort_sorted [OF sorted_js_sort])

end

text \<open>A comparator whose sign flips with its arguments, as \<open>java.util.Comparator\<close> demands.\<close>

locale comparator_sgn = comparator cmp for cmp :: "'a \<Rightarrow> 'a \<Rightarrow> int" +
  assumes cmp_sgn: "cmp x y < 0 \<longleftrightarrow> cmp y x > 0"
begin

lemma not_lt_le: "\<not> cmp x y < 0 \<Longrightarrow> cmp y x \<le> 0"
  using cmp_sgn by (simp add: not_less)

lemma cmp_refl: "cmp x x \<le> 0"
  using cmp_total [of x x] by simp

lemma cmp_self [simp]: "cmp x x = 0"
  using cmp_sgn [of x x] by linarith

lemma cmp_zero_sym: "cmp x y = 0 \<longleftrightarrow> cmp y x = 0"
  using cmp_sgn [of x y] cmp_sgn [of y x] by linarith

lemma lt_trans: "cmp x y < 0 \<Longrightarrow> cmp y z \<le> 0 \<Longrightarrow> cmp x z < 0"
  using cmp_trans [of z x y] cmp_trans [of y z x] cmp_trans [of x y z] cmp_sgn [of x z] cmp_sgn [of z x] cmp_sgn [of x y] cmp_sgn [of z y] cmp_sgn [of y z]
  by linarith

lemma lt_trans2: "cmp x y \<le> 0 \<Longrightarrow> cmp y z < 0 \<Longrightarrow> cmp x z < 0"
  using cmp_trans [of z x y] cmp_trans [of y z x] cmp_trans [of x y z] cmp_sgn [of x z] cmp_sgn [of z x] cmp_sgn [of y z] cmp_sgn [of y x] cmp_sgn [of x y]
  by linarith

end

subsection \<open>The insertion ordered Map\<close>

text \<open>
  A JavaScript \<open>Map\<close> iterates its entries in insertion order, and \<open>set\<close> on a key that is
  present replaces the value in place.
\<close>

fun jm_set :: "('k \<times> 'v) list \<Rightarrow> 'k \<Rightarrow> 'v \<Rightarrow> ('k \<times> 'v) list" where
  "jm_set [] k v = [(k, v)]"
| "jm_set ((k', v') # m) k v = (if k' = k then (k, v) # m else (k', v') # jm_set m k v)"

definition jm_get :: "('k \<times> 'v) list \<Rightarrow> 'k \<Rightarrow> 'v option" where
  "jm_get m k = map_of m k"

definition jm_values :: "('k \<times> 'v) list \<Rightarrow> 'v list" where
  "jm_values m = map snd m"

definition jm_of :: "('k \<times> 'v) list \<Rightarrow> ('k \<times> 'v) list" where
  "jm_of kvs = fold (\<lambda>(k, v) m. jm_set m k v) kvs []"

abbreviation jm_inv :: "('k \<times> 'v) list \<Rightarrow> bool" where
  "jm_inv m \<equiv> distinct (map fst m)"

lemma jm_keys_set: "fst ` set (jm_set m k v) = insert k (fst ` set m)"
  by (induction m k v rule: jm_set.induct) auto

lemma jm_inv_set [simp]: "jm_inv m \<Longrightarrow> jm_inv (jm_set m k v)"
proof (induction m k v rule: jm_set.induct)
  case (2 k' v' m k v)
  then show ?case using jm_keys_set [of m k v] by (auto simp flip: set_map)
qed simp

lemma jm_get_set: "jm_get (jm_set m k v) k' = (if k' = k then Some v else jm_get m k')"
  by (induction m k v rule: jm_set.induct) (auto simp: jm_get_def)

lemma jm_get_Nil [simp]: "jm_get [] k = None"
  by (simp add: jm_get_def)

lemma jm_values_get:
  "jm_inv m \<Longrightarrow> set (jm_values m) = {v. \<exists>k. jm_get m k = Some v}"
  by (force simp: jm_values_def jm_get_def)

text \<open>
  What the clients of a \<open>Map\<close> rely on: a lookup after a store, and the values of the map
  being exactly what its keys are bound to.
\<close>

locale keyed_store =
  fixes put :: "'m \<Rightarrow> 'k \<Rightarrow> 'v \<Rightarrow> 'm"
    and lookup :: "'m \<Rightarrow> 'k \<Rightarrow> 'v option"
    and vals :: "'m \<Rightarrow> 'v list"
    and good :: "'m \<Rightarrow> bool"
  assumes lookup_put: "lookup (put m k v) k' = (if k' = k then Some v else lookup m k')"
    and good_put: "good m \<Longrightarrow> good (put m k v)"
    and set_vals: "good m \<Longrightarrow> set (vals m) = {v. \<exists>k. lookup m k = Some v}"
begin

definition put_all :: "('v \<Rightarrow> 'k) \<Rightarrow> 'v list \<Rightarrow> 'm \<Rightarrow> 'm" where
  "put_all key vs m = fold (\<lambda>v m. put m (key v) v) vs m"

lemma put_all_Nil [simp]: "put_all key [] m = m"
  by (simp add: put_all_def)

lemma put_all_Cons [simp]: "put_all key (v # vs) m = put_all key vs (put m (key v) v)"
  by (simp add: put_all_def)

lemma put_all_append: "put_all key (us @ vs) m = put_all key vs (put_all key us m)"
  by (simp add: put_all_def)

lemma good_put_all: "good m \<Longrightarrow> good (put_all key vs m)"
  by (induction vs arbitrary: m) (auto intro: good_put)

lemma lookup_put_all_notin: "k \<notin> key ` set vs \<Longrightarrow> lookup (put_all key vs m) k = lookup m k"
  by (induction vs arbitrary: m) (auto simp: lookup_put)

text \<open>Every key that was stored is bound, to a value that was stored under it.\<close>

lemma lookup_put_all_in:
  "k \<in> key ` set vs \<Longrightarrow> \<exists>v \<in> set vs. key v = k \<and> lookup (put_all key vs m) k = Some v"
proof (induction vs rule: rev_induct)
  case Nil
  then show ?case by simp
next
  case (snoc v vs)
  then show ?case by (auto simp: put_all_append lookup_put)
qed

lemma keys_of_vals_put_all:
  assumes "\<And>k v. lookup m k = Some v \<Longrightarrow> key v = k"
    and "lookup (put_all key vs m) k = Some v"
  shows "key v = k"
proof (cases "k \<in> key ` set vs")
  case True
  from lookup_put_all_in [OF this, of m] assms(2) show ?thesis by auto
next
  case False
  with assms show ?thesis by (simp add: lookup_put_all_notin)
qed

end

interpretation jm: keyed_store jm_set jm_get jm_values jm_inv
  by unfold_locales (auto simp: jm_get_set jm_values_get)

end
