(* ===== verification/ExplorerGraph.thy ===== *)
theory ExplorerGraph
  imports Prelude
begin

text \<open>
  The topology data of the Explorer (\<open>internal/ui/web/app.ts\<close>) and the construction of the
  graph that is sent to the layout worker: \<open>projectMapToTopology\<close>, \<open>visibleTopology\<close>,
  \<open>refID\<close>, \<open>safeClass\<close>, \<open>elkNodeForGroup\<close>, \<open>buildELKGraph\<close> and \<open>flatten\<close>. Optional JSON
  properties are \<open>option\<close> fields; characters are code units below 256. The collation
  \<open>localeCompare\<close> depends on the browser's locale and is the parameter \<open>lc\<close>.
\<close>

subsection \<open>Data\<close>

record group_rec =
  grp_id :: string
  grp_parent :: "string option"
  grp_visible :: bool
  grp_display :: "string option"

record node_rec =
  node_id :: string
  node_group :: "string option"

record edge_rec =
  edge_from :: string
  edge_to :: string
  edge_digest :: "string option"
  edge_count :: nat

record page_rec =
  page_count :: nat
  page_next :: "int option"

record project_map =
  pm_groups :: "group_rec list option"
  pm_nodes :: "node_rec list option"
  pm_lanes :: "string list option"
  pm_edges :: "edge_rec list option"
  pm_edgePage :: "page_rec option"
  pm_edgeIndexRef :: "string option"
  pm_headSequence :: "int option"
  pm_graphRevision :: "string option"
  pm_snapshotRef :: string
  pm_name :: "string option"

record topology =
  t_groups :: "group_rec list option"
  t_nodes :: "node_rec list option"
  t_lanes :: "string list option"
  t_edges :: "edge_rec list option"
  t_backbone :: "edge_rec list option"
  t_edgePage :: "page_rec option"
  t_edgeIndexRef :: "string option"
  t_headSequence :: "int option"
  t_graphRevision :: "string option"

record visible =
  v_groups :: "group_rec list"
  v_nodes :: "node_rec list"
  v_edges :: "edge_rec list"
  v_lanes :: "string list"

definition list_or :: "'a list option \<Rightarrow> 'a list" where
  "list_or v = (case v of None \<Rightarrow> [] | Some xs \<Rightarrow> xs)"

lemma list_or_simps [simp]: "list_or None = []" "list_or (Some xs) = xs"
  by (simp_all add: list_or_def)

definition projectMapToTopology :: "project_map \<Rightarrow> topology" where
  "projectMapToTopology m =
     \<lparr>t_groups = pm_groups m, t_nodes = pm_nodes m, t_lanes = pm_lanes m,
      t_edges = pm_edges m, t_backbone = pm_edges m, t_edgePage = pm_edgePage m,
      t_edgeIndexRef = pm_edgeIndexRef m, t_headSequence = pm_headSequence m,
      t_graphRevision = pm_graphRevision m\<rparr>"

definition empty_project_map :: project_map where
  "empty_project_map =
     \<lparr>pm_groups = None, pm_nodes = None, pm_lanes = None, pm_edges = None,
      pm_edgePage = None, pm_edgeIndexRef = None, pm_headSequence = None,
      pm_graphRevision = None, pm_snapshotRef = [], pm_name = None\<rparr>"

definition visibleTopology :: "topology option \<Rightarrow> project_map option \<Rightarrow> visible" where
  "visibleTopology tp mp =
     (let t = (case tp of Some t \<Rightarrow> t
               | None \<Rightarrow> projectMapToTopology (case mp of Some m \<Rightarrow> m | None \<Rightarrow> empty_project_map))
      in \<lparr>v_groups = filter grp_visible (list_or (t_groups t)),
          v_nodes = list_or (t_nodes t), v_edges = list_or (t_edges t),
          v_lanes = list_or (t_lanes t)\<rparr>)"

subsection \<open>References and class names\<close>

text \<open>\<open>ref.replace(/^(group|node):/,'')\<close>\<close>

definition refID :: "string \<Rightarrow> string" where
  "refID r =
     (if take 6 r = ''group:'' then drop 6 r
      else if take 5 r = ''node:'' then drop 5 r
      else r)"

lemma refID_group: "refID (''group:'' @ s) = s"
  by (simp add: refID_def)

lemma refID_node: "refID (''node:'' @ s) = s"
  by (simp add: refID_def)

definition lower_char :: "char \<Rightarrow> char" where
  "lower_char c =
     (let n = of_char c :: nat
      in if 65 \<le> n \<and> n \<le> 90 \<or> 192 \<le> n \<and> n \<le> 222 \<and> n \<noteq> 215 then char_of (n + 32) else c)"

definition class_char :: "char \<Rightarrow> bool" where
  "class_char c \<longleftrightarrow>
     (let n = of_char c :: nat in 97 \<le> n \<and> n \<le> 122 \<or> 48 \<le> n \<and> n \<le> 57 \<or> n = 45)"

text \<open>\<open>String(value||'unknown').toLowerCase().replace(/[^a-z0-9-]/g,'-')\<close>\<close>

definition safeClass :: "string option \<Rightarrow> string" where
  "safeClass v =
     map (\<lambda>c. if class_char c then c else CHR ''-'') (map lower_char (js_or v ''unknown''))"

subsection \<open>The layout graph\<close>

datatype elk_node =
  ElkNode (elk_id: string) (elk_width: nat) (elk_height: nat)
    (elk_children: "elk_node list") (elk_options: "(string \<times> string) list")

record elk_edge =
  ee_id :: string
  ee_sources :: "string list"
  ee_targets :: "string list"

record elk_graph =
  eg_children :: "elk_node list"
  eg_edges :: "elk_edge list"
  eg_options :: "(string \<times> string) list"

definition byID :: "(string \<Rightarrow> string \<Rightarrow> int) \<Rightarrow> ('a \<Rightarrow> string) \<Rightarrow> 'a \<Rightarrow> 'a \<Rightarrow> int" where
  "byID lc key a b = lc (key a) (key b)"

definition leaf_node :: "node_rec \<Rightarrow> elk_node" where
  "leaf_node n = ElkNode (node_id n) 142 52 [] []"

definition group_options :: "(string \<times> string) list" where
  "group_options =
     [(''elk.padding'', ''[top=46,left=18,bottom=18,right=18]''),
      (''elk.spacing.nodeNode'', ''24''), (''elk.direction'', ''DOWN'')]"

definition child_groups :: "group_rec list \<Rightarrow> group_rec \<Rightarrow> group_rec list" where
  "child_groups gs g = filter (\<lambda>h. grp_parent h = Some (grp_id g)) gs"

definition child_nodes :: "node_rec list \<Rightarrow> group_rec \<Rightarrow> node_rec list" where
  "child_nodes ns g = filter (\<lambda>n. node_group n = Some (grp_id g)) ns"

text \<open>
  The recursion follows parent links, which the data does not promise to be acyclic: the
  fuel is the depth of the call stack, and running out is \<open>None\<close>.
\<close>

fun elkNodeForGroup ::
  "(string \<Rightarrow> string \<Rightarrow> int) \<Rightarrow> group_rec list \<Rightarrow> node_rec list \<Rightarrow> nat \<Rightarrow> group_rec \<Rightarrow> elk_node option"
where
  "elkNodeForGroup lc gs ns 0 g = None"
| "elkNodeForGroup lc gs ns (Suc fuel) g =
     (case those (map (elkNodeForGroup lc gs ns fuel)
                   (js_sort (byID lc grp_id) (child_groups gs g))) of
        None \<Rightarrow> None
      | Some kids \<Rightarrow>
          (let cs = kids @ map leaf_node (js_sort (byID lc node_id) (child_nodes ns g))
           in Some (ElkNode (grp_id g) 168 76 cs (if cs = [] then [] else group_options))))"

definition is_root_group :: "group_rec list \<Rightarrow> group_rec \<Rightarrow> bool" where
  "is_root_group gs g \<longleftrightarrow>
     \<not> truthy (grp_parent g) \<or> grp_parent g \<notin> Some ` set (map grp_id gs)"

definition is_root_node :: "group_rec list \<Rightarrow> node_rec \<Rightarrow> bool" where
  "is_root_node gs n \<longleftrightarrow>
     \<not> truthy (node_group n) \<or> node_group n \<notin> Some ` set (map grp_id gs)"

fun show_nat :: "nat \<Rightarrow> string" where
  "show_nat n = (if n < 10 then [char_of (48 + n)] else show_nat (n div 10) @ [char_of (48 + n mod 10)])"

declare show_nat.simps [simp del]

definition elk_edge_of :: "edge_rec \<times> nat \<Rightarrow> elk_edge" where
  "elk_edge_of = (\<lambda>(e, i).
     \<lparr>ee_id = js_or (edge_digest e) (''edge-'' @ show_nat i),
      ee_sources = [refID (edge_from e)], ee_targets = [refID (edge_to e)]\<rparr>)"

definition edge_ok :: "string set \<Rightarrow> elk_edge \<Rightarrow> bool" where
  "edge_ok avail e \<longleftrightarrow>
     hd (ee_sources e) \<in> avail \<and> hd (ee_targets e) \<in> avail \<and>
     hd (ee_sources e) \<noteq> hd (ee_targets e)"

definition root_options :: "(string \<times> string) list" where
  "root_options =
     [(''elk.algorithm'', ''layered''), (''elk.direction'', ''DOWN''),
      (''elk.edgeRouting'', ''ORTHOGONAL''),
      (''elk.layered.spacing.nodeNodeBetweenLayers'', ''92''),
      (''elk.spacing.nodeNode'', ''42''),
      (''elk.layered.crossingMinimization.strategy'', ''LAYER_SWEEP''),
      (''elk.layered.considerModelOrder.strategy'', ''NODES_AND_EDGES''),
      (''elk.layered.crossingMinimization.forceNodeModelOrder'', ''true''),
      (''elk.layered.nodePlacement.strategy'', ''BRANDES_KOEPF''),
      (''elk.padding'', ''[top=44,left=44,bottom=44,right=44]'')]"

text \<open>The call stack never needs more frames than there are groups (see \<open>elk_total\<close>).\<close>

definition buildELKGraph ::
  "(string \<Rightarrow> string \<Rightarrow> int) \<Rightarrow> group_rec list \<Rightarrow> node_rec list \<Rightarrow> edge_rec list \<Rightarrow> elk_graph option"
where
  "buildELKGraph lc gs ns es =
     (case those (map (elkNodeForGroup lc gs ns (length gs))
                   (js_sort (byID lc grp_id) (filter (is_root_group gs) gs))) of
        None \<Rightarrow> None
      | Some roots \<Rightarrow>
          Some \<lparr>eg_children =
                  roots @ map leaf_node (js_sort (byID lc node_id) (filter (is_root_node gs) ns)),
                eg_edges =
                  js_sort (byID lc ee_id)
                    (filter (edge_ok (set (map grp_id gs) \<union> set (map node_id ns)))
                      (map elk_edge_of (zip es [0..<length es]))),
                eg_options = root_options\<rparr>)"

fun elk_ids :: "elk_node \<Rightarrow> string list" where
  "elk_ids (ElkNode i w h cs opts) = i # concat (map elk_ids cs)"

subsection \<open>Termination: the levels of the group forest\<close>

definition kids :: "group_rec list \<Rightarrow> group_rec list \<Rightarrow> group_rec list" where
  "kids gs xs = filter (\<lambda>h. \<exists>g \<in> set xs. grp_parent h = Some (grp_id g)) gs"

definition level :: "group_rec list \<Rightarrow> nat \<Rightarrow> group_rec list" where
  "level gs k = (kids gs ^^ k) (filter (is_root_group gs) gs)"

text \<open>What the API promises about group identifiers.\<close>

definition ids_ok :: "group_rec list \<Rightarrow> bool" where
  "ids_ok gs \<longleftrightarrow> distinct (map grp_id gs) \<and> [] \<notin> set (map grp_id gs)"

lemma kids_Nil [simp]: "kids gs [] = []"
  by (simp add: kids_def)

lemma funpow_kids_Nil [simp]: "(kids gs ^^ k) [] = []"
  by (induction k) auto

lemma level_0: "level gs 0 = filter (is_root_group gs) gs"
  by (simp add: level_def)

lemma level_Suc: "level gs (Suc k) = kids gs (level gs k)"
  by (simp add: level_def)

lemma set_level: "set (level gs k) \<subseteq> set gs"
  by (cases k) (auto simp: level_0 level_Suc kids_def)

lemma those_eq_None: "those xs = None \<longleftrightarrow> None \<in> set xs"
  by (induction xs) (auto split: option.splits)

lemma those_eq_Some: "those xs = Some ys \<longleftrightarrow> xs = map Some ys"
  by (induction xs arbitrary: ys) (auto split: option.splits simp: Cons_eq_map_conv)

lemma elk_returns:
  "(kids gs ^^ f) xs = [] \<Longrightarrow> g \<in> set xs \<Longrightarrow> elkNodeForGroup lc gs ns f g \<noteq> None"
proof (induction f arbitrary: xs g)
  case 0
  then show ?case by simp
next
  case (Suc f)
  have "(kids gs ^^ f) (kids gs xs) = []"
    using Suc.prems(1) by (simp add: funpow_swap1)
  then have "elkNodeForGroup lc gs ns f c \<noteq> None" if "c \<in> set (child_groups gs g)" for c
    by (rule Suc.IH) (use that Suc.prems(2) in \<open>auto simp: child_groups_def kids_def\<close>)
  then have "None \<notin> elkNodeForGroup lc gs ns f ` set (child_groups gs g)"
    by (metis imageE)
  then show ?case
    by (auto simp: those_eq_None Let_def split: option.splits)
qed

lemma level_Suc_parent:
  "h \<in> set (level gs (Suc k)) \<longleftrightarrow>
     h \<in> set gs \<and> (\<exists>g \<in> set (level gs k). grp_parent h = Some (grp_id g))"
  by (auto simp: level_Suc kids_def)

lemma ids_ok_inj: "ids_ok gs \<Longrightarrow> g \<in> set gs \<Longrightarrow> h \<in> set gs \<Longrightarrow> grp_id g = grp_id h \<Longrightarrow> g = h"
  by (auto simp: ids_ok_def distinct_map inj_on_def)

lemma level_disjoint:
  assumes "ids_ok gs"
  shows "i < j \<Longrightarrow> set (level gs i) \<inter> set (level gs j) = {}"
proof (induction i arbitrary: j)
  case 0
  have "\<not> is_root_group gs h" if "h \<in> set (level gs j)" for h
  proof -
    obtain j' where "j = Suc j'" using 0 by (cases j) auto
    with that obtain g where "g \<in> set (level gs j')" "grp_parent h = Some (grp_id g)"
      by (auto simp: level_Suc_parent)
    moreover from this(1) set_level have "g \<in> set gs" by blast
    ultimately show ?thesis
      using assms by (force simp: is_root_group_def ids_ok_def)
  qed
  then show ?case by (auto simp: level_0)
next
  case (Suc i)
  then obtain j' where j: "j = Suc j'" "i < j'" by (cases j) auto
  show ?case
  proof (rule equals0I)
    fix h assume "h \<in> set (level gs (Suc i)) \<inter> set (level gs j)"
    then obtain g g' where gg: "g \<in> set (level gs i)" "g' \<in> set (level gs j')"
      "grp_id g = grp_id g'"
      by (auto simp: j level_Suc_parent)
    with set_level have "g = g'"
      by (intro ids_ok_inj [OF assms]) blast+
    with gg Suc.IH [OF j(2)] show False by blast
  qed
qed

lemma distinct_level: "distinct gs \<Longrightarrow> distinct (level gs k)"
  by (cases k) (auto simp: level_0 level_Suc kids_def)

lemma ids_ok_nonempty: "ids_ok gs \<Longrightarrow> g \<in> set gs \<Longrightarrow> grp_id g \<noteq> []"
  by (force simp: ids_ok_def)

lemma ids_ok_distinct: "ids_ok gs \<Longrightarrow> distinct gs"
  by (auto simp: ids_ok_def distinct_map)

lemma level_empty_mono: "k \<le> m \<Longrightarrow> level gs k = [] \<Longrightarrow> level gs m = []"
  by (induction m rule: dec_induct) (auto simp: level_Suc)

lemma level_exhausted:
  assumes ok: "ids_ok gs"
  shows "level gs (length gs) = []"
proof (rule ccontr)
  assume ne: "level gs (length gs) \<noteq> []"
  let ?n = "length gs"
  have ne': "level gs k \<noteq> []" if "k \<le> ?n" for k
    using level_empty_mono [OF that] ne by blast
  have "card (\<Union>k\<in>{..?n}. set (level gs k)) = (\<Sum>k\<in>{..?n}. card (set (level gs k)))"
    by (rule card_UN_disjoint) (use level_disjoint [OF ok] in \<open>auto simp: Int_commute neq_iff\<close>)
  also have "\<dots> \<ge> (\<Sum>k\<in>{..?n}. 1)"
    by (rule sum_mono) (use ne' in \<open>auto simp: Suc_le_eq card_gt_0_iff\<close>)
  finally have "Suc ?n \<le> card (\<Union>k\<in>{..?n}. set (level gs k))" by simp
  also have "\<dots> \<le> card (set gs)"
    by (rule card_mono) (use set_level in auto)
  also have "\<dots> \<le> ?n" by (rule card_length)
  finally show False by simp
qed

lemma elk_total:
  assumes "ids_ok gs" and "g \<in> set gs" and "is_root_group gs g"
  shows "elkNodeForGroup lc gs ns (length gs) g \<noteq> None"
  by (rule elk_returns [where xs = "filter (is_root_group gs) gs"])
     (use assms level_exhausted [OF assms(1)] in \<open>auto simp: level_def\<close>)

subsection \<open>Coverage: every group and node is placed exactly once\<close>

text \<open>The parent links that stay inside the list lead to a root.\<close>

definition parents_acyclic :: "group_rec list \<Rightarrow> bool" where
  "parents_acyclic gs \<longleftrightarrow> (\<forall>h \<in> set gs. \<exists>k. h \<in> set (level gs k))"

text \<open>A sufficient check: a rank that every link to a listed parent decreases.\<close>

lemma parents_acyclic_rank:
  assumes ok: "ids_ok gs"
    and rank: "\<And>g h. g \<in> set gs \<Longrightarrow> h \<in> set gs \<Longrightarrow> grp_parent h = Some (grp_id g) \<Longrightarrow>
      rank g < (rank h :: nat)"
  shows "parents_acyclic gs"
proof -
  have "h \<in> set gs \<Longrightarrow> \<exists>k. h \<in> set (level gs k)" for h
  proof (induction "rank h" arbitrary: h rule: less_induct)
    case less
    show ?case
    proof (cases "is_root_group gs h")
      case True
      with less.prems have "h \<in> set (level gs 0)" by (simp add: level_0)
      then show ?thesis ..
    next
      case False
      then obtain g where g: "g \<in> set gs" "grp_parent h = Some (grp_id g)"
        by (auto simp: is_root_group_def)
      then obtain k where "g \<in> set (level gs k)"
        using less.hyps rank less.prems by blast
      with g less.prems have "h \<in> set (level gs (Suc k))"
        by (auto simp: level_Suc_parent)
      then show ?thesis ..
    qed
  qed
  then show ?thesis by (auto simp: parents_acyclic_def)
qed

definition ids_at :: "(string \<Rightarrow> string \<Rightarrow> int) \<Rightarrow> group_rec list \<Rightarrow> node_rec list \<Rightarrow> nat \<Rightarrow>
    group_rec \<Rightarrow> string multiset" where
  "ids_at lc gs ns f g =
     (case elkNodeForGroup lc gs ns f g of None \<Rightarrow> {#} | Some t \<Rightarrow> mset (elk_ids t))"

lemma mset_concat_map: "mset (concat (map f xs)) = (\<Sum>x\<in>#mset xs. mset (f x))"
  by (induction xs) auto

lemma elk_ids_leaf: "elk_ids (leaf_node n) = [node_id n]"
  by (simp add: leaf_node_def)

lemma concat_ids_leaves: "concat (map (elk_ids \<circ> leaf_node) ns) = map node_id ns"
  by (induction ns) (auto simp: elk_ids_leaf)

lemma forest_ids:
  "map (elkNodeForGroup lc gs ns f) cs = map Some ks \<Longrightarrow>
     mset (concat (map elk_ids ks)) = (\<Sum>c\<in>#mset cs. ids_at lc gs ns f c)"
  by (induction cs arbitrary: ks) (auto simp: ids_at_def Cons_eq_map_conv)

lemma ids_at_Suc:
  assumes "elkNodeForGroup lc gs ns (Suc f) g \<noteq> None"
  shows "ids_at lc gs ns (Suc f) g =
    add_mset (grp_id g)
      ((\<Sum>c\<in>#mset (child_groups gs g). ids_at lc gs ns f c) + mset (map node_id (child_nodes ns g)))"
proof -
  let ?cs = "js_sort (byID lc grp_id) (child_groups gs g)"
  from assms obtain ks where ks: "those (map (elkNodeForGroup lc gs ns f) ?cs) = Some ks"
    by (auto split: option.splits)
  then have "mset (concat (map elk_ids ks)) = (\<Sum>c\<in>#mset ?cs. ids_at lc gs ns f c)"
    by (intro forest_ids) (simp add: those_eq_Some)
  with ks show ?thesis
    by (simp add: ids_at_def Let_def concat_ids_leaves)
qed

lemma filter_split:
  "(\<And>h. h \<in> set hs \<Longrightarrow> \<not> (P h \<and> Q h)) \<Longrightarrow>
     mset (filter (\<lambda>h. P h \<or> Q h) hs) = mset (filter P hs) + mset (filter Q hs)"
  by (induction hs) auto

text \<open>Selecting by parent, one parent at a time or all at once.\<close>

lemma select_by_parent:
  assumes "distinct (map grp_id xs)"
  shows "(\<Sum>g\<in>#mset xs. mset (filter (\<lambda>h. par h = Some (grp_id g)) hs)) =
    mset (filter (\<lambda>h. \<exists>g \<in> set xs. par h = Some (grp_id g)) hs)"
  using assms
proof (induction xs)
  case Nil
  show ?case by simp
next
  case (Cons x xs)
  have "mset (filter (\<lambda>h. par h = Some (grp_id x) \<or> (\<exists>g \<in> set xs. par h = Some (grp_id g))) hs) =
    mset (filter (\<lambda>h. par h = Some (grp_id x)) hs) +
    mset (filter (\<lambda>h. \<exists>g \<in> set xs. par h = Some (grp_id g)) hs)"
    by (rule filter_split) (use Cons.prems in \<open>auto simp: image_iff\<close>)
  with Cons show ?case by simp
qed

lemma ids_ok_sub:
  assumes "ids_ok gs" "distinct xs" "set xs \<subseteq> set gs"
  shows "distinct (map grp_id xs)"
  using assms by (auto simp: ids_ok_def distinct_map intro: inj_on_subset)

lemma sum_image_mset_bind:
  "(\<Sum>x\<in>#M. \<Sum>y\<in>#f x. h y) = (\<Sum>y\<in>#(\<Sum>x\<in>#M. f x). h y)"
  by (induction M) auto

lemma sum_image_mset: "(\<Sum>x\<in>#M. image_mset f (N x)) = image_mset f (\<Sum>x\<in>#M. N x)"
  by (induction M) auto

lemma sum_mset_split:
  fixes F :: "'a \<Rightarrow> 'b::comm_monoid_add"
  shows "(\<And>g. g \<in># M \<Longrightarrow> F g = G g + H g) \<Longrightarrow>
    (\<Sum>g\<in>#M. F g) = (\<Sum>g\<in>#M. G g) + (\<Sum>g\<in>#M. H g)"
  by (induction M) (auto simp: ac_simps)

text \<open>
  Summing over the trees of a forest: \<open>total f g\<close> is what the tree of \<open>g\<close> counts with \<open>f\<close> frames, \<open>own g\<close>
  what the group itself adds.
\<close>

lemma forest_total:
  fixes total :: "nat \<Rightarrow> group_rec \<Rightarrow> 'b multiset"
  assumes ok: "ids_ok gs"
    and unfold: "\<And>f g. g \<in> set gs \<Longrightarrow> elkNodeForGroup lc gs ns (Suc f) g \<noteq> None \<Longrightarrow>
      total (Suc f) g = own g + (\<Sum>c\<in>#mset (child_groups gs g). total f c)"
  shows "(kids gs ^^ f) xs = [] \<Longrightarrow> distinct xs \<Longrightarrow> set xs \<subseteq> set gs \<Longrightarrow>
    (\<Sum>g\<in>#mset xs. total f g) = (\<Sum>k<f. \<Sum>g\<in>#mset ((kids gs ^^ k) xs). own g)"
proof (induction f arbitrary: xs)
  case 0
  then show ?case by simp
next
  case (Suc f)
  have d: "distinct (map grp_id xs)"
    by (rule ids_ok_sub [OF ok Suc.prems(2,3)])
  have "total (Suc f) g = own g + (\<Sum>c\<in>#mset (child_groups gs g). total f c)" if "g \<in># mset xs" for g
    using unfold [OF _ elk_returns [OF Suc.prems(1)]] that Suc.prems(3) by auto
  then have "(\<Sum>g\<in>#mset xs. total (Suc f) g) =
      (\<Sum>g\<in>#mset xs. own g) + (\<Sum>g\<in>#mset xs. \<Sum>c\<in>#mset (child_groups gs g). total f c)"
    by (rule sum_mset_split)
  also have "(\<Sum>g\<in>#mset xs. \<Sum>c\<in>#mset (child_groups gs g). total f c) = (\<Sum>c\<in>#mset (kids gs xs). total f c)"
    unfolding sum_image_mset_bind child_groups_def select_by_parent [OF d] kids_def ..
  also have "\<dots> = (\<Sum>k<f. \<Sum>g\<in>#mset ((kids gs ^^ k) (kids gs xs)). own g)"
  proof (rule Suc.IH)
    show "(kids gs ^^ f) (kids gs xs) = []"
      using Suc.prems(1) by (simp add: funpow_swap1)
  qed (use ids_ok_distinct [OF ok] in \<open>auto simp: kids_def\<close>)
  finally show ?case
    by (simp add: sum.lessThan_Suc_shift funpow_swap1 del: sum.lessThan_Suc)
qed

lemma ids_forest:
  assumes ok: "ids_ok gs"
  shows "(kids gs ^^ f) xs = [] \<Longrightarrow> distinct xs \<Longrightarrow> set xs \<subseteq> set gs \<Longrightarrow>
    (\<Sum>g\<in>#mset xs. ids_at lc gs ns f g) =
    (\<Sum>k<f. \<Sum>g\<in>#mset ((kids gs ^^ k) xs). add_mset (grp_id g) (mset (map node_id (child_nodes ns g))))"
  by (rule forest_total [OF ok, where lc = lc and ns = ns])
     (simp_all add: ids_at_Suc del: elkNodeForGroup.simps)

lemma sum_mset_levels:
  fixes F :: "'a \<Rightarrow> 'b::comm_monoid_add" and n :: nat
  shows "(\<Sum>k<n. \<Sum>h\<in>#M k. F h) = (\<Sum>h\<in>#(\<Sum>k<n. M k). F h)"
  by (induction n) auto

lemma levels_cover:
  assumes ok: "ids_ok gs" and acyc: "parents_acyclic gs"
  shows "(\<Sum>k<length gs. mset (level gs k)) = mset gs"
proof -
  have one: "count (\<Sum>k<length gs. mset (level gs k)) x = 1" if x: "x \<in> set gs" for x
  proof -
    obtain k where k: "x \<in> set (level gs k)"
      using acyc x unfolding parents_acyclic_def by blast
    have lt: "k < length gs"
    proof (rule ccontr)
      assume "\<not> k < length gs"
      then have "level gs k = []"
        using level_empty_mono [OF _ level_exhausted [OF ok]] by simp
      with k show False by simp
    qed
    have "count (mset (level gs j)) x = (if j = k then 1 else 0)" for j
    proof (cases "j = k")
      case True
      with k distinct_level [OF ids_ok_distinct [OF ok], of k] show ?thesis
        by (simp add: distinct_count_atmost_1)
    next
      case False
      then have "set (level gs j) \<inter> set (level gs k) = {}"
        using level_disjoint [OF ok] by (metis Int_commute linorder_neqE_nat)
      with k False show ?thesis
        by (auto simp: count_eq_zero_iff)
    qed
    then show ?thesis using lt by (simp add: count_sum)
  qed
  show ?thesis
  proof (rule multiset_eqI)
    fix x
    show "count (\<Sum>k<length gs. mset (level gs k)) x = count (mset gs) x"
    proof (cases "x \<in> set gs")
      case True
      then show ?thesis
        using one [OF True] ids_ok_distinct [OF ok] by (simp add: distinct_count_atmost_1)
    next
      case False
      then have "x \<notin> set (level gs k)" for k using set_level by blast
      then have z: "count (mset (level gs k)) x = 0" for k by (simp add: count_eq_zero_iff)
      have "count (mset gs) x = 0" using False by (simp add: count_eq_zero_iff)
      then show ?thesis unfolding count_sum z by simp
    qed
  qed
qed

definition tree_ids :: "elk_graph \<Rightarrow> string list" where
  "tree_ids g = concat (map elk_ids (eg_children g))"

subsection \<open>Placement: every group and node stands under its own parent\<close>

text \<open>What a tree places: the identifier above (if any), the own identifier, width and height.\<close>

type_synonym place_rec = "string option \<times> string \<times> nat \<times> nat"

fun elk_places :: "string option \<Rightarrow> elk_node \<Rightarrow> place_rec list" where
  "elk_places p (ElkNode i w h cs opts) = (p, i, w, h) # concat (map (elk_places (Some i)) cs)"

definition graph_places :: "elk_graph \<Rightarrow> place_rec list" where
  "graph_places g = concat (map (elk_places None) (eg_children g))"

text \<open>Where a group and a node belong: under the group they name, at the top if it is not one of the list.\<close>

definition group_place :: "group_rec list \<Rightarrow> group_rec \<Rightarrow> place_rec" where
  "group_place gs g = (if is_root_group gs g then None else grp_parent g, grp_id g, 168, 76)"

definition node_place :: "group_rec list \<Rightarrow> node_rec \<Rightarrow> place_rec" where
  "node_place gs n = (if is_root_node gs n then None else node_group n, node_id n, 142, 52)"

definition places_at :: "(string \<Rightarrow> string \<Rightarrow> int) \<Rightarrow> group_rec list \<Rightarrow> node_rec list \<Rightarrow> nat \<Rightarrow>
    group_rec \<Rightarrow> place_rec multiset" where
  "places_at lc gs ns f g =
     (case elkNodeForGroup lc gs ns f g of
        None \<Rightarrow> {#}
      | Some t \<Rightarrow> mset (elk_places (fst (group_place gs g)) t))"

definition own_places :: "group_rec list \<Rightarrow> node_rec list \<Rightarrow> group_rec \<Rightarrow> place_rec multiset" where
  "own_places gs ns g = add_mset (group_place gs g) (mset (map (node_place gs) (child_nodes ns g)))"

lemma child_group_place:
  "ids_ok gs \<Longrightarrow> g \<in> set gs \<Longrightarrow> c \<in> set (child_groups gs g) \<Longrightarrow> fst (group_place gs c) = Some (grp_id g)"
  by (auto simp: child_groups_def group_place_def is_root_group_def dest: ids_ok_nonempty)

lemma child_node_place:
  "ids_ok gs \<Longrightarrow> g \<in> set gs \<Longrightarrow> n \<in> set (child_nodes ns g) \<Longrightarrow>
     node_place gs n = (Some (grp_id g), node_id n, 142, 52)"
  by (auto simp: child_nodes_def node_place_def is_root_node_def dest: ids_ok_nonempty)

lemma places_leaves:
  "concat (map (elk_places p \<circ> leaf_node) ns) = map (\<lambda>n. (p, node_id n, 142, 52)) ns"
  by (induction ns) (auto simp: leaf_node_def)

lemma forest_places:
  "map (elkNodeForGroup lc gs ns f) cs = map Some ks \<Longrightarrow>
     (\<And>c. c \<in> set cs \<Longrightarrow> fst (group_place gs c) = p) \<Longrightarrow>
     mset (concat (map (elk_places p) ks)) = (\<Sum>c\<in>#mset cs. places_at lc gs ns f c)"
  by (induction cs arbitrary: ks) (auto simp: places_at_def Cons_eq_map_conv)

lemma places_at_Suc:
  assumes ok: "ids_ok gs" "g \<in> set gs" and some: "elkNodeForGroup lc gs ns (Suc f) g \<noteq> None"
  shows "places_at lc gs ns (Suc f) g =
    own_places gs ns g + (\<Sum>c\<in>#mset (child_groups gs g). places_at lc gs ns f c)"
proof -
  let ?cs = "js_sort (byID lc grp_id) (child_groups gs g)"
  let ?ns = "js_sort (byID lc node_id) (child_nodes ns g)"
  from some obtain ks where ks: "those (map (elkNodeForGroup lc gs ns f) ?cs) = Some ks"
    by (auto split: option.splits)
  then have kids: "mset (concat (map (elk_places (Some (grp_id g))) ks)) = (\<Sum>c\<in>#mset ?cs. places_at lc gs ns f c)"
    using child_group_place [OF ok] by (intro forest_places) (simp_all add: those_eq_Some)
  have "mset (map (\<lambda>n. (Some (grp_id g), node_id n, 142, 52)) ?ns) = mset (map (node_place gs) (child_nodes ns g))"
    unfolding mset_map mset_js_sort
    by (rule image_mset_cong) (simp add: child_node_place [OF ok])
  with ks kids show ?thesis
    by (simp add: places_at_def own_places_def Let_def places_leaves group_place_def)
qed

lemma placed_forest:
  assumes ok: "ids_ok gs"
  shows "(kids gs ^^ f) xs = [] \<Longrightarrow> distinct xs \<Longrightarrow> set xs \<subseteq> set gs \<Longrightarrow>
    (\<Sum>g\<in>#mset xs. places_at lc gs ns f g) =
    (\<Sum>k<f. \<Sum>g\<in>#mset ((kids gs ^^ k) xs). own_places gs ns g)"
  by (rule forest_total [OF ok, where lc = lc and ns = ns]) (rule places_at_Suc [OF ok])

lemma build_returns:
  assumes "ids_ok gs"
  shows "those (map (elkNodeForGroup lc gs ns (length gs))
     (js_sort (byID lc grp_id) (filter (is_root_group gs) gs))) \<noteq> None"
proof -
  have "elkNodeForGroup lc gs ns (length gs) g \<noteq> None" if "g \<in> set (filter (is_root_group gs) gs)" for g
    using elk_total [OF assms, of g] that by simp
  then show ?thesis
    unfolding those_eq_None set_map set_js_sort by (metis imageE)
qed

lemma nodes_split:
  assumes "ids_ok gs"
  shows "mset (filter (\<lambda>n. \<exists>g \<in> set gs. node_group n = Some (grp_id g)) ns) +
    mset (filter (is_root_node gs) ns) = mset ns"
proof -
  let ?P = "\<lambda>n. \<exists>g \<in> set gs. node_group n = Some (grp_id g)"
  have eq: "filter (is_root_node gs) ns = filter (\<lambda>n. \<not> ?P n) ns"
    by (rule filter_cong)
       (use ids_ok_nonempty [OF assms] in \<open>auto simp: is_root_node_def truthy_def split: option.splits\<close>)
  show ?thesis
    unfolding eq using multiset_partition [of "mset ns" ?P] by (simp only: mset_filter)
qed

lemma graph_places_exact:
  assumes ok: "ids_ok gs" and acyc: "parents_acyclic gs"
    and built: "buildELKGraph lc gs ns es = Some g"
  shows "mset (graph_places g) = mset (map (group_place gs) gs @ map (node_place gs) ns)"
proof -
  let ?roots = "filter (is_root_group gs) gs" and ?f = "length gs"
  from built obtain ts where ts: "those (map (elkNodeForGroup lc gs ns ?f)
      (js_sort (byID lc grp_id) ?roots)) = Some ts"
    and g: "eg_children g = ts @ map leaf_node (js_sort (byID lc node_id) (filter (is_root_node gs) ns))"
    by (auto simp: buildELKGraph_def split: option.splits)
  have "mset (concat (map (elk_places None) ts)) =
      (\<Sum>h\<in>#mset (js_sort (byID lc grp_id) ?roots). places_at lc gs ns ?f h)"
    by (rule forest_places) (use ts in \<open>simp_all add: those_eq_Some group_place_def\<close>)
  also have "\<dots> = (\<Sum>h\<in>#mset ?roots. places_at lc gs ns ?f h)" by simp
  also have "\<dots> = (\<Sum>k<?f. \<Sum>h\<in>#mset (level gs k). own_places gs ns h)"
    unfolding level_def
    by (rule placed_forest [OF ok])
       (use level_exhausted [OF ok] ids_ok_distinct [OF ok] in \<open>auto simp: level_def\<close>)
  also have "\<dots> = (\<Sum>h\<in>#mset gs. own_places gs ns h)"
    unfolding sum_mset_levels levels_cover [OF ok acyc] ..
  also have "\<dots> = (\<Sum>h\<in>#mset gs. {#group_place gs h#}) +
      (\<Sum>h\<in>#mset gs. image_mset (node_place gs) (mset (child_nodes ns h)))"
    by (rule sum_mset_split) (simp add: own_places_def)
  also have "(\<Sum>h\<in>#mset gs. image_mset (node_place gs) (mset (child_nodes ns h))) =
      image_mset (node_place gs) (\<Sum>h\<in>#mset gs. mset (child_nodes ns h))"
    by (rule sum_image_mset)
  also have "(\<Sum>h\<in>#mset gs. mset (child_nodes ns h)) =
      mset (filter (\<lambda>n. \<exists>h \<in> set gs. node_group n = Some (grp_id h)) ns)"
    unfolding child_nodes_def by (rule select_by_parent) (use ok in \<open>simp add: ids_ok_def\<close>)
  finally have "mset (graph_places g) = image_mset (group_place gs) (mset gs) +
      (image_mset (node_place gs) (mset (filter (\<lambda>n. \<exists>h \<in> set gs. node_group n = Some (grp_id h)) ns)) +
       mset (map (\<lambda>n. (None, node_id n, 142, 52)) (filter (is_root_node gs) ns)))"
    by (simp add: graph_places_def g places_leaves sum_mset_singleton_mset ac_simps)
  also have "mset (map (\<lambda>n. (None, node_id n, 142, 52)) (filter (is_root_node gs) ns)) =
      image_mset (node_place gs) (mset (filter (is_root_node gs) ns))"
    unfolding mset_map by (rule image_mset_cong) (simp add: node_place_def)
  finally show ?thesis
    using nodes_split [OF ok, of ns] by (simp flip: image_mset_union)
qed

subsection \<open>Edges\<close>

lemma comparator_byID: "comparator lc \<Longrightarrow> comparator (byID lc key)"
  by (auto simp: comparator_def byID_def)

lemma edge_of_ends:
  "hd (ee_sources (elk_edge_of (e, i))) = refID (edge_from e)"
  "hd (ee_targets (elk_edge_of (e, i))) = refID (edge_to e)"
  by (simp_all add: elk_edge_of_def)

lemma build_edges:
  "buildELKGraph lc gs ns es = Some g \<Longrightarrow>
     mset (eg_edges g) = mset (filter (edge_ok (set (map grp_id gs) \<union> set (map node_id ns)))
       (map elk_edge_of (zip es [0..<length es])))"
  by (auto simp: buildELKGraph_def split: option.splits)

text \<open>
  Claim C30. For group identifiers that are distinct and not empty, \<open>buildELKGraph\<close> always
  returns, even when the parent links of the data form cycles: the recursion of
  \<open>elkNodeForGroup\<close> needs no more stack frames than there are groups.
\<close>

theorem buildELKGraph_returns:
  assumes "ids_ok gs"
  shows "\<exists>g. buildELKGraph lc gs ns es = Some g"
  using build_returns [OF assms, of lc ns] by (auto simp: buildELKGraph_def)

definition grp :: "string \<Rightarrow> string option \<Rightarrow> group_rec" where
  "grp i p = \<lparr>grp_id = i, grp_parent = p, grp_visible = True, grp_display = None\<rparr>"

definition nd :: "string \<Rightarrow> string option \<Rightarrow> node_rec" where
  "nd i p = \<lparr>node_id = i, node_group = p\<rparr>"

theorem buildELKGraph_returns_witness:
  "\<exists>g. buildELKGraph (\<lambda>_ _. 0)
     [grp ''a'' None, grp ''b'' (Some ''c''), grp ''c'' (Some ''b'')] [] [] = Some g"
  by (rule buildELKGraph_returns) (simp add: ids_ok_def grp_def)

text \<open>
  Claim C1. When moreover the parent links are acyclic, the graph handed to the layout worker
  holds every group and every node exactly once, with its size, directly under the group that it names as its
  parent, or at the top when it names none of the list, however groups are nested and whatever the
  collation does.
\<close>

theorem buildELKGraph_exact:
  assumes "ids_ok gs" and "parents_acyclic gs"
  shows "\<exists>g. buildELKGraph lc gs ns es = Some g \<and>
    mset (graph_places g) = mset (map (group_place gs) gs @ map (node_place gs) ns)"
proof -
  obtain g where "buildELKGraph lc gs ns es = Some g"
    using build_returns [OF assms(1), of lc ns] by (auto simp: buildELKGraph_def)
  with graph_places_exact [OF assms this] show ?thesis by blast
qed

theorem buildELKGraph_exact_witness:
  "\<exists>g. buildELKGraph (\<lambda>_ _. 0)
     [grp ''b'' (Some ''a''), grp ''a'' None] [nd ''n'' (Some ''b''), nd ''m'' (Some ''z'')] [] = Some g \<and>
     mset (graph_places g) =
       {#(Some ''a'', ''b'', 168, 76), (None, ''a'', 168, 76), (Some ''b'', ''n'', 142, 52), (None, ''m'', 142, 52)#}"
proof -
  let ?gs = "[grp ''b'' (Some ''a''), grp ''a'' None]" and ?ns = "[nd ''n'' (Some ''b''), nd ''m'' (Some ''z'')]"
  have ok: "ids_ok ?gs" by (simp add: ids_ok_def grp_def)
  have "parents_acyclic ?gs"
    by (rule parents_acyclic_rank [OF ok, where rank = "\<lambda>g. if grp_id g = ''a'' then 0 else 1"])
       (auto simp: grp_def)
  from buildELKGraph_exact [OF ok this, of "\<lambda>_ _. 0" ?ns "[]"] show ?thesis
    by (simp add: group_place_def node_place_def is_root_group_def is_root_node_def grp_def nd_def)
qed

text \<open>Which aggregate edges can be drawn: both ends are known and they differ.\<close>

definition usable :: "group_rec list \<Rightarrow> node_rec list \<Rightarrow> edge_rec \<Rightarrow> bool" where
  "usable gs ns x \<longleftrightarrow>
     refID (edge_from x) \<in> set (map grp_id gs @ map node_id ns) \<and>
     refID (edge_to x) \<in> set (map grp_id gs @ map node_id ns) \<and>
     refID (edge_from x) \<noteq> refID (edge_to x)"

lemma edge_ok_usable:
  "edge_ok (grp_id ` set gs \<union> node_id ` set ns) (elk_edge_of (x, i)) = usable gs ns x"
  by (simp add: edge_ok_def usable_def elk_edge_of_def)

lemma zip_upt_map: "zip es [0..<length es] = map (\<lambda>i. (es ! i, i)) [0..<length es]"
  by (rule nth_equalityI) auto

text \<open>
  Claim C29. The edges of the layout graph are exactly the usable edges of the topology, one for each: an edge of the topology
  is sent, with its digest as identifier (or else its position) and its two ends without their prefixes, if and
  only if its ends are two different identifiers that are groups or nodes of the topology; and for a
  collation that is a consistent comparator the edges are sent in the order of their identifiers.
\<close>

theorem buildELKGraph_edges:
  assumes "buildELKGraph lc gs ns es = Some g" and "comparator lc"
  shows "mset (eg_edges g) =
      {#\<lparr>ee_id = js_or (edge_digest (es ! i)) (''edge-'' @ show_nat i),
         ee_sources = [refID (edge_from (es ! i))], ee_targets = [refID (edge_to (es ! i))]\<rparr>.
        i \<in># mset (filter (\<lambda>i. usable gs ns (es ! i)) [0..<length es])#}
    \<and> sorted_wrt (\<lambda>a b. lc (ee_id a) (ee_id b) \<le> 0) (eg_edges g)"
proof
  let ?ok = "edge_ok (set (map grp_id gs) \<union> set (map node_id ns))"
  have eq: "filter ?ok (map elk_edge_of (zip es [0..<length es])) =
      map (\<lambda>i. elk_edge_of (es ! i, i)) (filter (\<lambda>i. usable gs ns (es ! i)) [0..<length es])"
    by (simp add: zip_upt_map filter_map comp_def edge_ok_usable)
  show "mset (eg_edges g) =
      {#\<lparr>ee_id = js_or (edge_digest (es ! i)) (''edge-'' @ show_nat i),
         ee_sources = [refID (edge_from (es ! i))], ee_targets = [refID (edge_to (es ! i))]\<rparr>.
        i \<in># mset (filter (\<lambda>i. usable gs ns (es ! i)) [0..<length es])#}"
    unfolding build_edges [OF assms(1)] eq mset_map by (simp only: elk_edge_of_def prod.case)
  have "sorted_wrt (\<lambda>a b. byID lc ee_id a b \<le> 0) (eg_edges g)"
    using assms(1) comparator.sorted_js_sort [OF comparator_byID [OF assms(2)]]
    by (auto simp: buildELKGraph_def split: option.splits)
  then show "sorted_wrt (\<lambda>a b. lc (ee_id a) (ee_id b) \<le> 0) (eg_edges g)"
    by (simp add: byID_def)
qed

definition len_cmp :: "string \<Rightarrow> string \<Rightarrow> int" where
  "len_cmp a b = int (length a) - int (length b)"

definition sample_edge :: "string \<Rightarrow> string \<Rightarrow> edge_rec" where
  "sample_edge a b = \<lparr>edge_from = a, edge_to = b, edge_digest = None, edge_count = 1\<rparr>"

theorem buildELKGraph_edges_witness:
  "\<exists>g. buildELKGraph len_cmp [] [nd ''n'' None, nd ''m'' None]
      [sample_edge ''node:n'' ''node:n'', sample_edge ''node:n'' ''node:z'',
       sample_edge ''node:n'' ''node:m''\<lparr>edge_digest := Some ''d''\<rparr>] = Some g \<and>
     eg_edges g = [\<lparr>ee_id = ''d'', ee_sources = [''n''], ee_targets = [''m'']\<rparr>]"
proof -
  let ?es = "[sample_edge ''node:n'' ''node:n'', sample_edge ''node:n'' ''node:z'',
    sample_edge ''node:n'' ''node:m''\<lparr>edge_digest := Some ''d''\<rparr>]"
  obtain g where g: "buildELKGraph len_cmp [] [nd ''n'' None, nd ''m'' None] ?es = Some g"
    by (simp add: buildELKGraph_def)
  have "comparator len_cmp"
    by unfold_locales (auto simp: len_cmp_def)
  from buildELKGraph_edges [OF g this]
  have "eg_edges g = [\<lparr>ee_id = ''d'', ee_sources = [''n''], ee_targets = [''m'']\<rparr>]"
    by (simp add: usable_def refID_def sample_edge_def nd_def upt_rec)
  with g show ?thesis by blast
qed

end
