(* ===== verification/ExplorerRender.thy ===== *)
theory ExplorerRender
  imports ExplorerGraph
begin

text \<open>
  Drawing a laid out graph (\<open>app.ts\<close>): \<open>flatten\<close>, the selection spotlight of \<open>renderEdges\<close>,
  \<open>renderNodes\<close> and \<open>updateSpotlight\<close>, the routes of \<open>renderEdges\<close>, and the zoom of
  \<open>fitView\<close>, \<open>centerRef\<close> and the zoom buttons. Coordinates are elements of an ordered field:
  the rounding of JavaScript numbers is not modelled.
\<close>

subsection \<open>Absolute positions\<close>

datatype 'n lnode =
  LNode (ln_id: string) (ln_x: "'n option") (ln_y: "'n option")
    (ln_w: "'n option") (ln_h: "'n option") (ln_kids: "'n lnode list")

text \<open>\<open>v || 0\<close>: an absent number and zero both give zero.\<close>

definition num_or :: "'n option \<Rightarrow> 'n \<Rightarrow> 'n::linordered_field" where
  "num_or v d = (case v of None \<Rightarrow> d | Some n \<Rightarrow> if n = 0 then d else n)"

fun flatten ::
  "'n::linordered_field lnode \<Rightarrow> 'n \<Rightarrow> 'n \<Rightarrow> (string \<times> 'n lnode \<times> 'n \<times> 'n) list \<Rightarrow>
     (string \<times> 'n lnode \<times> 'n \<times> 'n) list"
  and flatten_kids ::
  "'n::linordered_field lnode list \<Rightarrow> 'n \<Rightarrow> 'n \<Rightarrow> (string \<times> 'n lnode \<times> 'n \<times> 'n) list \<Rightarrow>
     (string \<times> 'n lnode \<times> 'n \<times> 'n) list"
where
  "flatten (LNode i x y w h cs) ox oy r =
     (let x' = ox + num_or x 0; y' = oy + num_or y 0
      in flatten_kids cs x' y' (jm_set r i (LNode i x y w h cs, x', y')))"
| "flatten_kids [] x y r = r"
| "flatten_kids (c # cs) x y r = flatten_kids cs x y (flatten c x y r)"

fun all_ids :: "'n lnode \<Rightarrow> string list" where
  "all_ids (LNode i x y w h cs) = i # concat (map all_ids cs)"

fun descend :: "'n lnode \<Rightarrow> nat list \<Rightarrow> 'n lnode option" where
  "descend n [] = Some n"
| "descend n (k # p) = (if k < length (ln_kids n) then descend (ln_kids n ! k) p else None)"

fun path_sum :: "('n lnode \<Rightarrow> 'n option) \<Rightarrow> 'n::linordered_field lnode \<Rightarrow> nat list \<Rightarrow> 'n" where
  "path_sum f n [] = num_or (f n) 0"
| "path_sum f n (k # p) = num_or (f n) 0 + path_sum f (ln_kids n ! k) p"

lemma flatten_other:
  "i \<notin> set (all_ids n) \<Longrightarrow> jm_get (flatten n ox oy r) i = jm_get r i"
  "i \<notin> set (concat (map all_ids cs)) \<Longrightarrow> jm_get (flatten_kids cs ox oy r) i = jm_get r i"
  by (induction n ox oy r and cs ox oy r rule: flatten_flatten_kids.induct)
     (auto simp: Let_def jm_get_set)

lemma flatten_kids_get:
  "k < length cs \<Longrightarrow> distinct (concat (map all_ids cs)) \<Longrightarrow> i \<in> set (all_ids (cs ! k)) \<Longrightarrow>
     \<exists>r'. jm_get (flatten_kids cs x y r) i = jm_get (flatten (cs ! k) x y r') i"
proof (induction cs arbitrary: k r)
  case Nil
  then show ?case by simp
next
  case (Cons c cs)
  show ?case
  proof (cases k)
    case 0
    with Cons.prems have "i \<notin> set (concat (map all_ids cs))" by auto
    with 0 show ?thesis
      by (auto simp: flatten_other(2) simp del: flatten.simps)
  next
    case (Suc k')
    with Cons show ?thesis by auto
  qed
qed

lemma descend_in: "descend n p = Some m \<Longrightarrow> ln_id m \<in> set (all_ids n)"
proof (induction p arbitrary: n)
  case Nil
  then show ?case by (cases n) auto
next
  case (Cons k p)
  then show ?case by (cases n) (force split: if_splits)
qed

lemma flatten_get:
  "distinct (all_ids n) \<Longrightarrow> descend n p = Some m \<Longrightarrow>
     jm_get (flatten n ox oy r) (ln_id m) = Some (m, ox + path_sum ln_x n p, oy + path_sum ln_y n p)"
proof (induction p arbitrary: n ox oy r)
  case Nil
  then show ?case
    by (cases n) (auto simp: Let_def flatten_other(2) jm_get_set)
next
  case (Cons k p)
  obtain i x y w h cs where n: "n = LNode i x y w h cs" by (cases n)
  from Cons.prems have k: "k < length cs" "descend (cs ! k) p = Some m"
    by (auto simp: n split: if_splits)
  have d: "distinct (concat (map all_ids cs))" "distinct (all_ids (cs ! k))"
    using Cons.prems(1) k(1) by (auto simp: n distinct_concat_iff)
  from flatten_kids_get [OF k(1) d(1) descend_in [OF k(2)]] Cons.IH [OF d(2) k(2)]
  show ?case by (simp add: n Let_def add.assoc)
qed

subsection \<open>Spotlight\<close>

text \<open>\<open>state.selectedGroup||state.selectedNode\<close> and the neighbours collected from the edges.\<close>

definition neighbors_of :: "string \<Rightarrow> edge_rec list \<Rightarrow> string set" where
  "neighbors_of sel es =
     (if sel = [] then {} else {sel}) \<union>
     (\<Union>e \<in> set es. if refID (edge_from e) = sel \<or> refID (edge_to e) = sel
                    then {refID (edge_from e), refID (edge_to e)} else {})"

definition edge_muted :: "string \<Rightarrow> string set \<Rightarrow> string \<Rightarrow> string \<Rightarrow> bool" where
  "edge_muted sel nb a b \<longleftrightarrow> sel \<noteq> [] \<and> \<not> (a \<in> nb \<and> b \<in> nb)"

definition spotlight_muted :: "string \<Rightarrow> string set \<Rightarrow> string \<Rightarrow> bool" where
  "spotlight_muted sel nb i \<longleftrightarrow> sel \<noteq> [] \<and> i \<notin> nb"

subsection \<open>Edge routes\<close>

record 'n section_rec =
  sec_start :: "'n \<times> 'n"
  sec_bends :: "('n \<times> 'n) list option"
  sec_end :: "'n \<times> 'n"

record 'n drawn =
  dr_points :: "('n \<times> 'n) list"
  dr_label :: "('n \<times> 'n \<times> nat) option"
  dr_muted :: bool
  dr_from :: string
  dr_to :: string

definition section_points :: "'n section_rec \<Rightarrow> ('n \<times> 'n) list" where
  "section_points s = sec_start s # list_or (sec_bends s) @ [sec_end s]"

definition straight_points ::
  "'n::linordered_field lnode \<times> 'n \<times> 'n \<Rightarrow> 'n lnode \<times> 'n \<times> 'n \<Rightarrow> ('n \<times> 'n) list" where
  "straight_points = (\<lambda>(fn, fx, fy) (tn, tx, ty).
     let x1 = fx + num_or (ln_w fn) 0 / 2; y1 = fy + num_or (ln_h fn) 0;
         x2 = tx + num_or (ln_w tn) 0 / 2; y2 = ty; mid = y1 + (y2 - y1) / 2
     in [(x1, y1), (x1, mid), (x2, mid), (x2, y2)])"

text \<open>The label anchor: the middle point of a routed edge, else the middle of the elbow.\<close>

definition label_at :: "'n::linordered_field section_rec option \<Rightarrow> ('n \<times> 'n) list \<Rightarrow> 'n \<times> 'n" where
  "label_at sec ps =
     (case sec of
        Some _ \<Rightarrow> (case ps ! (length ps div 2) of (x, y) \<Rightarrow> (x + 5, y - 5))
      | None \<Rightarrow> ((fst (ps ! 0) + fst (ps ! 3)) / 2 + 5, snd (ps ! 1) - 5))"

definition draw_edge ::
  "string \<Rightarrow> string set \<Rightarrow> (string \<times> 'n::linordered_field lnode \<times> 'n \<times> 'n) list \<Rightarrow>
     (string \<times> 'n section_rec list option) list \<Rightarrow> edge_rec \<times> nat \<Rightarrow> 'n drawn option" where
  "draw_edge sel nb positions routes = (\<lambda>(e, i).
     (case (jm_get positions (refID (edge_from e)), jm_get positions (refID (edge_to e))) of
        (Some f, Some t) \<Rightarrow>
          (let sec = (case jm_get routes (js_or (edge_digest e) (''edge-'' @ show_nat i)) of
                        Some (Some (s # _)) \<Rightarrow> Some s | _ \<Rightarrow> None);
               ps = (case sec of Some s \<Rightarrow> section_points s | None \<Rightarrow> straight_points f t)
           in Some \<lparr>dr_points = ps,
                 dr_label = (if edge_count e > 1
                   then Some (fst (label_at sec ps), snd (label_at sec ps), edge_count e) else None),
                 dr_muted = edge_muted sel nb (refID (edge_from e)) (refID (edge_to e)),
                 dr_from = refID (edge_from e), dr_to = refID (edge_to e)\<rparr>)
      | _ \<Rightarrow> None))"

definition renderEdges ::
  "'n::linordered_field lnode \<Rightarrow> (string \<times> 'n section_rec list option) list \<Rightarrow> string \<Rightarrow>
     edge_rec list \<Rightarrow> 'n drawn list" where
  "renderEdges layout routes sel es =
     List.map_filter (draw_edge sel (neighbors_of sel es) (flatten layout 0 0 []) (jm_of routes))
       (zip es [0..<length es])"

lemma flatten_jm_inv:
  "jm_inv r \<Longrightarrow> jm_inv (flatten n ox oy r)"
  "jm_inv r \<Longrightarrow> jm_inv (flatten_kids cs ox oy r)"
  by (induction n ox oy r and cs ox oy r rule: flatten_flatten_kids.induct) (auto simp: Let_def)

subsection \<open>Zoom\<close>

text \<open>\<open>Math.min(hi, Math.max(lo, v))\<close>\<close>

definition clamp :: "'n::linordered_field \<Rightarrow> 'n \<Rightarrow> 'n \<Rightarrow> 'n" where
  "clamp lo hi v = min hi (max lo v)"

definition zoom_in :: "'n::linordered_field \<Rightarrow> 'n" where
  "zoom_in z = min (18 / 10) (z + 15 / 100)"

definition zoom_out :: "'n::linordered_field \<Rightarrow> 'n" where
  "zoom_out z = max (3 / 10) (z - 15 / 100)"

definition fit_zoom :: "'n::linordered_field \<Rightarrow> 'n \<Rightarrow> 'n option \<Rightarrow> 'n option \<Rightarrow> 'n" where
  "fit_zoom cw ch lw lh =
     clamp (32 / 100) 1 (min ((cw - 48) / num_or lw 1) ((ch - 48) / num_or lh 1))"

definition center_zoom :: "'n::linordered_field \<Rightarrow> 'n \<Rightarrow> 'n \<Rightarrow> 'n \<Rightarrow> 'n" where
  "center_zoom cw ch bw bh =
     clamp (48 / 100) (115 / 100) (min ((cw - 96) / (bw + 240)) ((ch - 96) / (bh + 180)))"

definition inspector_width :: "'n::linordered_field \<Rightarrow> 'n" where
  "inspector_width w = clamp 280 560 w"

text \<open>What changes \<open>state.zoom\<close>, from its initial value 1.\<close>

datatype 'n zoom_event =
  ZoomIn | ZoomOut | Fit 'n 'n "'n option" "'n option" | Center 'n 'n 'n 'n | Expand | Collapse

text \<open>
  \<open>toggleGroup\<close> saves the zoom in \<open>state.viewport\<close> unless one is saved already, and
  \<open>collapseGroup\<close> restores it and clears the viewport. The other events are \<open>fitView\<close>,
  \<open>centerRef\<close> and the two zoom buttons.
\<close>

fun zoom_step :: "'n::linordered_field \<times> 'n option \<Rightarrow> 'n zoom_event \<Rightarrow> 'n \<times> 'n option" where
  "zoom_step (z, v) ZoomIn = (zoom_in z, v)"
| "zoom_step (z, v) ZoomOut = (zoom_out z, v)"
| "zoom_step (z, v) (Fit cw ch lw lh) = (fit_zoom cw ch lw lh, v)"
| "zoom_step (z, v) (Center cw ch bw bh) = (center_zoom cw ch bw bh, v)"
| "zoom_step (z, v) Expand = (z, (case v of None \<Rightarrow> Some z | Some p \<Rightarrow> Some p))"
| "zoom_step (z, v) Collapse = ((case v of None \<Rightarrow> z | Some p \<Rightarrow> p), None)"

definition zoom_ok :: "'n::linordered_field \<Rightarrow> bool" where
  "zoom_ok z \<longleftrightarrow> 3 / 10 \<le> z \<and> z \<le> 18 / 10"

definition zoom_inv :: "'n::linordered_field \<times> 'n option \<Rightarrow> bool" where
  "zoom_inv s \<longleftrightarrow> zoom_ok (fst s) \<and> (\<forall>p. snd s = Some p \<longrightarrow> zoom_ok p)"

lemma clamp_bounds: "lo \<le> hi \<Longrightarrow> lo \<le> clamp lo hi v \<and> clamp lo hi v \<le> hi"
  by (simp add: clamp_def)

lemma zoom_ok_clamp:
  "3 / 10 \<le> lo \<Longrightarrow> lo \<le> hi \<Longrightarrow> hi \<le> 18 / 10 \<Longrightarrow> zoom_ok (clamp lo hi v)"
  by (auto simp: zoom_ok_def clamp_def min_def max_def)

lemma zoom_step_inv: "zoom_inv s \<Longrightarrow> zoom_inv (zoom_step s e)"
proof (cases s; cases e)
  fix z v cw ch lw lh
  assume "zoom_inv s" "s = (z, v)" "e = Fit cw ch lw lh"
  then show ?thesis
    by (auto simp: zoom_inv_def fit_zoom_def intro!: zoom_ok_clamp)
next
  fix z v cw ch bw bh
  assume "zoom_inv s" "s = (z, v)" "e = Center cw ch bw bh"
  then show ?thesis
    by (auto simp: zoom_inv_def center_zoom_def intro!: zoom_ok_clamp)
qed (auto simp: zoom_inv_def zoom_ok_def zoom_in_def zoom_out_def min_def max_def split: option.splits)

lemma zoom_run_inv: "zoom_inv s \<Longrightarrow> zoom_inv (fold (\<lambda>e s. zoom_step s e) es s)"
  by (induction es arbitrary: s) (simp_all add: zoom_step_inv)

subsection \<open>Properties\<close>

text \<open>
  Claim C34. \<open>flatten\<close> binds the identifier of every node of a layout tree with distinct
  identifiers to that node and to its absolute position: the offset plus the sum of the
  relative coordinates along the path to it, absent coordinates counting as zero.
\<close>

theorem flatten_absolute:
  assumes "distinct (all_ids n)" and "descend n p = Some m"
  shows "jm_get (flatten n ox oy []) (ln_id m) =
    Some (m, ox + path_sum ln_x n p, oy + path_sum ln_y n p)"
  using assms by (rule flatten_get)

definition sample_layout :: "rat lnode" where
  "sample_layout = LNode ''root'' None None (Some 100) (Some 100)
     [LNode ''g'' (Some 10) (Some 20) (Some 50) (Some 50)
        [LNode ''n'' (Some 5) None (Some 142) (Some 52) []]]"

theorem flatten_absolute_witness:
  "jm_get (flatten sample_layout 0 0 []) ''n'' =
     Some (LNode ''n'' (Some 5) None (Some 142) (Some 52) [], 15, 20)"
proof -
  have "distinct (all_ids sample_layout)"
    and "descend sample_layout [0, 0] = Some (LNode ''n'' (Some 5) None (Some 142) (Some 52) [])"
    by (simp_all add: sample_layout_def)
  from flatten_absolute [OF this, of 0 0] show ?thesis
    by (simp add: sample_layout_def num_or_def)
qed

text \<open>
  With a selection, the identifiers left out of the dimming are exactly the selected
  one and those an edge of the topology joins to it, and an edge incident to the selection is
  never dimmed; without a selection nothing is dimmed.
\<close>

theorem spotlight_exact:
  "(\<not> spotlight_muted sel (neighbors_of sel es) i \<longleftrightarrow>
      sel = [] \<or> i = sel \<or>
      (\<exists>e \<in> set es. (refID (edge_from e) = sel \<and> refID (edge_to e) = i) \<or>
                 (refID (edge_to e) = sel \<and> refID (edge_from e) = i)))
   \<and> {e \<in> set es. refID (edge_from e) = sel \<or> refID (edge_to e) = sel} \<subseteq>
     {e. \<not> edge_muted sel (neighbors_of sel es) (refID (edge_from e)) (refID (edge_to e))}"
  by (auto simp: spotlight_muted_def neighbors_of_def edge_muted_def)

lemma map_filter_in: "y \<in> set (List.map_filter f xs) \<Longrightarrow> \<exists>x \<in> set xs. f x = Some y"
  by (auto simp: map_filter_def)

fun axis_parallel :: "('n \<times> 'n) list \<Rightarrow> bool" where
  "axis_parallel (p # q # ps) = ((fst p = fst q \<or> snd p = snd q) \<and> axis_parallel (q # ps))"
| "axis_parallel _ = True"

text \<open>
  An edge the layout gives no route for is drawn as an orthogonal polyline from the
  middle of the bottom side of its source to the middle of the top side of its target, both taken
  at their absolute positions, and it carries a count label exactly when it stands for several edges.
\<close>

theorem renderEdges_fallback:
  assumes "d \<in> set (renderEdges layout [] sel es)"
  shows "\<exists>e \<in> set es. \<exists>f fx fy t tx ty.
    dr_from d = refID (edge_from e) \<and> dr_to d = refID (edge_to e) \<and>
    jm_get (flatten layout 0 0 []) (dr_from d) = Some (f, fx, fy) \<and>
    jm_get (flatten layout 0 0 []) (dr_to d) = Some (t, tx, ty) \<and>
    hd (dr_points d) = (fx + num_or (ln_w f) 0 / 2, fy + num_or (ln_h f) 0) \<and>
    last (dr_points d) = (tx + num_or (ln_w t) 0 / 2, ty) \<and>
    axis_parallel (dr_points d) \<and> (dr_label d \<noteq> None) = (edge_count e > 1)"
proof -
  from assms obtain e i where e: "(e, i) \<in> set (zip es [0..<length es])"
    and d: "draw_edge sel (neighbors_of sel es) (flatten layout 0 0 []) (jm_of []) (e, i) = Some d"
    unfolding renderEdges_def by (auto dest!: map_filter_in)
  show ?thesis
  proof (rule bexI)
    show "e \<in> set es" using e by (rule set_zip_leftD)
    show "\<exists>f fx fy t tx ty.
      dr_from d = refID (edge_from e) \<and> dr_to d = refID (edge_to e) \<and>
      jm_get (flatten layout 0 0 []) (dr_from d) = Some (f, fx, fy) \<and>
      jm_get (flatten layout 0 0 []) (dr_to d) = Some (t, tx, ty) \<and>
      hd (dr_points d) = (fx + num_or (ln_w f) 0 / 2, fy + num_or (ln_h f) 0) \<and>
      last (dr_points d) = (tx + num_or (ln_w t) 0 / 2, ty) \<and>
      axis_parallel (dr_points d) \<and> (dr_label d \<noteq> None) = (edge_count e > 1)"
      using d by (auto simp: draw_edge_def jm_of_def straight_points_def Let_def split: option.splits)
  qed
qed

theorem renderEdges_fallback_witness:
  "\<exists>d. renderEdges sample_layout [] [] [\<lparr>edge_from = ''group:g'', edge_to = ''node:n'',
       edge_digest = None, edge_count = 2\<rparr>] = [d] \<and> axis_parallel (dr_points d)"
proof -
  let ?r = "renderEdges sample_layout [] [] [\<lparr>edge_from = ''group:g'', edge_to = ''node:n'',
       edge_digest = None, edge_count = 2\<rparr>]"
  obtain d where d: "?r = [d]"
    by (simp add: renderEdges_def draw_edge_def sample_layout_def jm_of_def refID_def jm_get_def
        num_or_def map_filter_def Let_def)
  then have "d \<in> set ?r" by simp
  from renderEdges_fallback [OF this] d show ?thesis by auto
qed

text \<open>
  Whatever sequence of expansions, collapses, fits, centrings and zoom buttons the user
  drives from the initial zoom 1, the zoom stays between 0.3 and 1.8.
\<close>

theorem zoom_bounded:
  "zoom_ok (fst (fold (\<lambda>e s. zoom_step s e) es (1 :: 'n::linordered_field, None)))"
proof -
  have "zoom_inv (1 :: 'n, None)" by (simp add: zoom_inv_def zoom_ok_def)
  from zoom_run_inv [OF this, of es] show ?thesis by (simp add: zoom_inv_def)
qed

end
