(* ===== verification/ExplorerDom.thy ===== *)
theory ExplorerDom
  imports ExplorerRender
begin

text \<open>
  The elements that the Explorer creates (\<open>app.ts\<close>): \<open>svg\<close>, \<open>dom\<close>, \<open>iconSVG\<close>, \<open>renderNodes\<close>,
  \<open>renderGroup\<close>, \<open>renderNode\<close>, \<open>renderMinimap\<close>, and \<open>updateSpotlight\<close>, which later changes them in place.
  An element is a value: its tag, attributes, class list, \<open>data-ref\<close>, text (UTF-16 code units) and
  children. Event listeners are left to \<open>ExplorerLoads\<close>; the shapes of the icons come from a package
  and are fields of the environment.
\<close>

subsection \<open>Elements\<close>

datatype 'n attr = Str string | Num 'n | Translate 'n 'n

datatype 'n elem =
  Elem (el_tag: string) (el_attrs: "(string \<times> 'n attr) list") (el_class: "string list")
    (el_ref: "string option") (el_text: "nat list") (el_children: "'n elem list")

definition units :: "string \<Rightarrow> nat list" where
  "units s = map of_char s"

text \<open>\<open>${v}\<close> of an absent property\<close>

definition templ :: "string option \<Rightarrow> string" where
  "templ v = (case v of None \<Rightarrow> ''undefined'' | Some s \<Rightarrow> s)"

definition templ_nat :: "nat option \<Rightarrow> string" where
  "templ_nat v = (case v of None \<Rightarrow> ''undefined'' | Some n \<Rightarrow> show_nat n)"

definition svg :: "string \<Rightarrow> (string \<times> 'n attr) list \<Rightarrow> string list \<Rightarrow> 'n elem" where
  "svg t as cl = Elem t as cl None [] []"

definition with_text :: "nat list \<Rightarrow> 'n elem \<Rightarrow> 'n elem" where
  "with_text s e = Elem (el_tag e) (el_attrs e) (el_class e) (el_ref e) s (el_children e)"

definition append_kids :: "'n elem list \<Rightarrow> 'n elem \<Rightarrow> 'n elem" where
  "append_kids es e = Elem (el_tag e) (el_attrs e) (el_class e) (el_ref e) (el_text e) (el_children e @ es)"

definition with_ref :: "string \<Rightarrow> 'n elem \<Rightarrow> 'n elem" where
  "with_ref r e = Elem (el_tag e) (el_attrs e) (el_class e) (Some r) (el_text e) (el_children e)"

definition with_class :: "string list \<Rightarrow> 'n elem \<Rightarrow> 'n elem" where
  "with_class cl e = Elem (el_tag e) (el_attrs e) cl (el_ref e) (el_text e) (el_children e)"

lemmas elem_updates = svg_def with_text_def append_kids_def with_ref_def with_class_def

definition iconSVG :: "'n::linordered_field elem list \<Rightarrow> 'n elem" where
  "iconSVG node =
     append_kids node
       (svg ''svg'' [(''viewBox'', Str ''0 0 24 24''), (''width'', Num 18), (''height'', Num 18),
          (''fill'', Str ''none''), (''stroke'', Str ''currentColor''), (''stroke-width'', Num 2),
          (''stroke-linecap'', Str ''round''), (''stroke-linejoin'', Str ''round'')] [])"

subsection \<open>Groups and nodes\<close>

record group_dom = group_rec +
  grp_title :: "string option"
  grp_count :: "nat option"

record node_dom = node_rec +
  nd_title :: "string option"
  nd_status :: "string option"
  nd_readiness :: "string option"

text \<open>What the rendering reads: \<open>data\<close>, \<open>state\<close> and the two icons.\<close>

record 'n render_env =
  re_groups :: "group_dom list"
  re_nodes :: "node_dom list"
  re_edges :: "edge_rec list"
  re_selected :: string
  re_expanded :: string
  re_maximize :: "'n elem list"
  re_minimize :: "'n elem list"

definition re_neighbors :: "'n render_env \<Rightarrow> string set" where
  "re_neighbors env = neighbors_of (re_selected env) (re_edges env)"

text \<open>The dash and the dot of the labels are the code units 8212 and 183.\<close>

definition renderGroup :: "'n::linordered_field render_env \<Rightarrow> 'n lnode \<Rightarrow> group_dom \<Rightarrow> 'n \<Rightarrow> 'n \<Rightarrow> 'n elem" where
  "renderGroup env item g x y =
     (let i = grp_id g; ex = (re_expanded env = i); status = templ (grp_display g);
          root = with_ref i (svg ''g''
            [(''transform'', Translate x y), (''tabindex'', Num 0), (''role'', Str ''button''),
             (''aria-expanded'', Str (if ex then ''true'' else ''false'')),
             (''aria-label'', Str (i @ '', '' @ status @ '', '' @ templ_nat (grp_count g) @ '' nodes''))]
            ([''dag-group'', ''status-'' @ safeClass (grp_display g)] @ (if ex then [''expanded''] else []) @
             (if re_selected env = i then [''selected''] else []) @
             (if spotlight_muted (re_selected env) (re_neighbors env) i then [''spotlight-muted''] else [])));
          rect = svg ''rect'' [(''width'', Num (num_or (ln_w item) 168)), (''height'', Num (num_or (ln_h item) 76)), (''rx'', Num 12)] [];
          title = with_text (units i) (svg ''text'' [(''x'', Num 16), (''y'', Num 28)] [''node-id'']);
          line = with_text (units status @ [32, 183, 32] @ units (templ_nat (grp_count g) @ '' nodes''))
            (svg ''text'' [(''x'', Num 16), (''y'', Num 51)] [''node-status'']);
          action = append_kids [iconSVG (if ex then re_minimize env else re_maximize env)]
            (svg ''g'' [(''transform'', Translate (num_or (ln_w item) 168 - 34) 16)] [''expand-glyph'']);
          full = with_text (units (templ (grp_title g)) @ [32, 8212, 32] @ units status) (svg ''title'' [] [])
      in append_kids [full] (append_kids [rect, title, line, action] root))"

text \<open>\<open>node.readiness||node.status\<close>\<close>

definition node_state :: "node_dom \<Rightarrow> string option" where
  "node_state n = (if truthy (nd_readiness n) then nd_readiness n else nd_status n)"

definition renderNode :: "'n::linordered_field render_env \<Rightarrow> 'n lnode \<Rightarrow> node_dom \<Rightarrow> 'n \<Rightarrow> 'n \<Rightarrow> 'n elem" where
  "renderNode env item n x y =
     (let i = node_id n;
          root = with_ref i (svg ''g''
            [(''transform'', Translate x y), (''tabindex'', Num 0), (''role'', Str ''button''),
             (''aria-label'', Str (i @ '', '' @ templ (node_state n)))]
            ([''dag-node'', ''status-'' @ safeClass (node_state n)] @
             (if re_selected env = i then [''selected''] else []) @
             (if spotlight_muted (re_selected env) (re_neighbors env) i then [''spotlight-muted''] else [])));
          rect = svg ''rect'' [(''width'', Num (num_or (ln_w item) 142)), (''height'', Num (num_or (ln_h item) 52)), (''rx'', Num 9)] [];
          title = with_text (units i) (svg ''text'' [(''x'', Num 14), (''y'', Num 22)] [''node-id'']);
          line = with_text (units (js_or (node_state n) [])) (svg ''text'' [(''x'', Num 14), (''y'', Num 40)] [''node-status'']);
          full = with_text (units (templ (nd_title n)) @ [32, 8212, 32] @ units (templ (node_state n))) (svg ''title'' [] [])
      in append_kids [full] (append_kids [rect, title, line] root))"

definition group_of :: "'n render_env \<Rightarrow> string \<Rightarrow> group_dom option" where
  "group_of env i = jm_get (jm_of (map (\<lambda>g. (grp_id g, g)) (re_groups env))) i"

definition node_of :: "'n render_env \<Rightarrow> string \<Rightarrow> node_dom option" where
  "node_of env i = jm_get (jm_of (map (\<lambda>n. (node_id n, n)) (re_nodes env))) i"

fun renderNodes :: "'n::linordered_field render_env \<Rightarrow> 'n lnode \<Rightarrow> 'n \<Rightarrow> 'n \<Rightarrow> 'n elem list" where
  "renderNodes env (LNode i0 x0 y0 w0 h0 cs) ox oy =
     concat (map (\<lambda>item.
       let x = ox + num_or (ln_x item) 0; y = oy + num_or (ln_y item) 0
       in (case group_of env (ln_id item) of
             Some g \<Rightarrow> [renderGroup env item g x y]
           | None \<Rightarrow> (case node_of env (ln_id item) of Some n \<Rightarrow> [renderNode env item n x y] | None \<Rightarrow> [])) @
          renderNodes env item x y) cs)"

subsection \<open>Spotlight and minimap\<close>

definition toggle_class :: "string \<Rightarrow> bool \<Rightarrow> string list \<Rightarrow> string list" where
  "toggle_class c on cl = (if on then (if c \<in> set cl then cl else cl @ [c]) else filter (\<lambda>d. d \<noteq> c) cl)"

definition drawn_neighbors :: "string \<Rightarrow> 'n drawn list \<Rightarrow> string set" where
  "drawn_neighbors sel ds =
     (if sel = [] then {} else {sel}) \<union>
     (\<Union>d \<in> set ds. if dr_from d = sel \<or> dr_to d = sel then {dr_from d, dr_to d} else {})"

text \<open>It reads the selection and the elements on the page: the edges, and all those with \<open>data-ref\<close>.\<close>

definition updateSpotlight :: "string \<Rightarrow> 'n drawn list \<Rightarrow> 'n elem list \<Rightarrow> 'n drawn list \<times> 'n elem list" where
  "updateSpotlight sel ds items =
     (let nb = drawn_neighbors sel ds
      in (map (\<lambda>d. d\<lparr>dr_muted := edge_muted sel nb (dr_from d) (dr_to d)\<rparr>) ds,
          map (\<lambda>e. case el_ref e of None \<Rightarrow> e
             | Some i \<Rightarrow> with_class (toggle_class ''spotlight-muted'' (spotlight_muted sel nb i)
                 (toggle_class ''selected'' (i = sel) (el_class e))) e) items))"

definition renderMinimap :: "'n::linordered_field lnode \<Rightarrow> edge_rec list \<Rightarrow> 'n elem list" where
  "renderMinimap layout es =
     (let positions = flatten layout 0 0 []
      in List.map_filter (\<lambda>e.
           case (jm_get positions (refID (edge_from e)), jm_get positions (refID (edge_to e))) of
             (Some (fn, fx, fy), Some (tn, tx, ty)) \<Rightarrow>
               Some (svg ''line'' [(''x1'', Num (fx + num_or (ln_w fn) 0 / 2)), (''y1'', Num (fy + num_or (ln_h fn) 0 / 2)),
                 (''x2'', Num (tx + num_or (ln_w tn) 0 / 2)), (''y2'', Num (ty + num_or (ln_h tn) 0 / 2))] [''mini-edge''])
           | _ \<Rightarrow> None) es @
         List.map_filter (\<lambda>(n, x, y).
           if ln_id n = ''root'' then None
           else Some (svg ''rect'' [(''x'', Num x), (''y'', Num y), (''width'', Num (num_or (ln_w n) 10)),
             (''height'', Num (num_or (ln_h n) 10)), (''rx'', Num 3)] [''mini-node''])) (jm_values positions))"

subsection \<open>Where the elements stand\<close>

fun positions :: "'n::linordered_field lnode \<Rightarrow> 'n \<Rightarrow> 'n \<Rightarrow> (string \<times> 'n \<times> 'n) list" where
  "positions (LNode i x y w h cs) ox oy =
     (i, ox + num_or x 0, oy + num_or y 0) #
       concat (map (\<lambda>c. positions c (ox + num_or x 0) (oy + num_or y 0)) cs)"

definition known :: "'n render_env \<Rightarrow> string \<Rightarrow> bool" where
  "known env i \<longleftrightarrow> group_of env i \<noteq> None \<or> node_of env i \<noteq> None"

definition placed :: "'n elem \<Rightarrow> string option \<times> 'n attr option" where
  "placed e = (el_ref e, map_of (el_attrs e) ''transform'')"

lemma positions_ids: "map fst (positions n ox oy) = all_ids n"
  by (induction n ox oy rule: positions.induct) (auto simp: map_concat comp_def cong: map_cong)

lemma jm_get_fold:
  "jm_get (fold (\<lambda>(k, v) m. jm_set m k v) kvs m) i = Some v \<Longrightarrow> jm_get m i = Some v \<or> (i, v) \<in> set kvs"
proof (induction kvs arbitrary: m)
  case (Cons kv kvs)
  then show ?case by (cases kv) (fastforce simp: jm_get_set split: if_splits)
qed simp

lemma group_of_id: "group_of env i = Some g \<Longrightarrow> grp_id g = i"
  using jm_get_fold [of "map (\<lambda>g. (grp_id g, g)) (re_groups env)" "[]" i g] by (auto simp: group_of_def jm_of_def)

lemma node_of_id: "node_of env i = Some n \<Longrightarrow> node_id n = i"
  using jm_get_fold [of "map (\<lambda>g. (node_id g, g)) (re_nodes env)" "[]" i n] by (auto simp: node_of_def jm_of_def)

lemma placed_group: "group_of env i = Some g \<Longrightarrow> placed (renderGroup env item g x y) = (Some i, Some (Translate x y))"
  by (auto simp: placed_def renderGroup_def elem_updates Let_def dest: group_of_id)

lemma placed_node: "node_of env i = Some n \<Longrightarrow> placed (renderNode env item n x y) = (Some i, Some (Translate x y))"
  by (auto simp: placed_def renderNode_def elem_updates Let_def dest: node_of_id)

definition place :: "string \<times> 'n \<times> 'n \<Rightarrow> string option \<times> 'n attr option" where
  "place = (\<lambda>(i, x, y). (Some i, Some (Translate x y)))"

lemma place_simp [simp]: "place (i, x, y) = (Some i, Some (Translate x y))"
  by (simp add: place_def)

lemma known_simps:
  "group_of env i = Some g \<Longrightarrow> known env i" "node_of env i = Some n \<Longrightarrow> known env i"
  "group_of env i = None \<Longrightarrow> node_of env i = None \<Longrightarrow> \<not> known env i"
  by (simp_all add: known_def)

lemma renderNodes_placed:
  "map placed (renderNodes env n ox oy) =
     map place (filter (\<lambda>p. known env (fst p)) (concat (map (\<lambda>c. positions c ox oy) (ln_kids n))))"
proof (induction env n ox oy rule: renderNodes.induct)
  case (1 env i0 x0 y0 w0 h0 cs ox oy)
  have "map placed
      ((case group_of env (ln_id item) of
          Some g \<Rightarrow> [renderGroup env item g (ox + num_or (ln_x item) 0) (oy + num_or (ln_y item) 0)]
        | None \<Rightarrow> (case node_of env (ln_id item) of
            Some n \<Rightarrow> [renderNode env item n (ox + num_or (ln_x item) 0) (oy + num_or (ln_y item) 0)] | None \<Rightarrow> [])) @
       renderNodes env item (ox + num_or (ln_x item) 0) (oy + num_or (ln_y item) 0)) =
      map place (filter (\<lambda>p. known env (fst p)) (positions item ox oy))" if "item \<in> set cs" for item
    using 1 [OF that refl refl]
    by (cases item) (auto simp: known_simps placed_group placed_node split: option.split)
  then show ?case by (simp add: map_concat filter_concat comp_def Let_def cong: map_cong)
qed

lemma flatten_positions:
  "distinct (all_ids n) \<Longrightarrow> (i, x, y) \<in> set (positions n ox oy) \<Longrightarrow>
   \<exists>m. jm_get (flatten n ox oy r) i = Some (m, x, y)"
proof (induction n ox oy arbitrary: r rule: positions.induct)
  case (1 j x0 y0 w h cs ox oy)
  let ?x = "ox + num_or x0 0" and ?y = "oy + num_or y0 0"
  from 1(3) consider "(i, x, y) = (j, ?x, ?y)" | c where "c \<in> set cs" "(i, x, y) \<in> set (positions c ?x ?y)" by auto
  then show ?case
  proof cases
    case 1
    with \<open>distinct _\<close> show ?thesis by (auto simp: Let_def flatten_other(2) jm_get_set)
  next
    case (2 c)
    then obtain k where k: "k < length cs" "c = cs ! k" by (metis in_set_conv_nth)
    have d: "distinct (concat (map all_ids cs))" "distinct (all_ids c)"
      using 1(2) 2(1) by (auto simp: distinct_concat_iff)
    have "i \<in> set (all_ids c)" using 2(2) positions_ids [of c ?x ?y] by (metis fst_conv image_eqI set_map)
    from flatten_kids_get [OF k(1) d(1), of i] this k(2)
    obtain r' where "jm_get (flatten_kids cs ?x ?y (jm_set r j (LNode j x0 y0 w h cs, ?x, ?y))) i = jm_get (flatten c ?x ?y r') i"
      by blast
    with 1(1) [OF 2(1) d(2) 2(2), of r'] show ?thesis by (simp add: Let_def)
  qed
qed

definition at_flatten :: "(string \<times> 'n lnode \<times> 'n \<times> 'n) list \<Rightarrow> string \<Rightarrow> string option \<times> 'n attr option" where
  "at_flatten ps i = (Some i, map_option (\<lambda>(m, x, y). Translate x y) (jm_get ps i))"

text \<open>
  Claim C18. For a layout with distinct identifiers whose root stands at the origin, \<open>renderNodes\<close> draws
  one element for each identifier below the root that is a group or a node of the data, in the order
  of the layout tree, and translates it to the place that \<open>flatten\<close>, which positions the edges,
  gives to that identifier.
\<close>

theorem renderNodes_at_flatten:
  assumes "distinct (all_ids layout)" and "num_or (ln_x layout) 0 = 0" and "num_or (ln_y layout) 0 = 0"
  shows "map placed (renderNodes env layout 0 0) =
    map (at_flatten (flatten layout 0 0 [])) (filter (known env) (tl (all_ids layout)))"
proof -
  obtain i x y w h cs where l: "layout = LNode i x y w h cs" by (cases layout)
  define ps where "ps = concat (map (\<lambda>c. positions c 0 0) cs)"
  have all: "positions layout 0 0 = (i, 0, 0) # ps" using assms(2,3) by (simp add: l ps_def)
  have "place p = at_flatten (flatten layout 0 0 []) (fst p)" if "p \<in> set ps" for p
  proof (cases p)
    case (fields j px py)
    with that have "(j, px, py) \<in> set (positions layout 0 0)" by (simp add: all)
    from flatten_positions [OF assms(1) this, of "[]"] fields show ?thesis by (auto simp: at_flatten_def)
  qed
  then have "map place (filter (\<lambda>p. known env (fst p)) ps) =
      map (at_flatten (flatten layout 0 0 [])) (map fst (filter (\<lambda>p. known env (fst p)) ps))"
    by simp
  also have "map fst (filter (\<lambda>p. known env (fst p)) ps) = filter (known env) (map fst ps)"
    by (simp add: filter_map comp_def)
  also have "map fst ps = tl (all_ids layout)"
    using positions_ids [of layout 0 0] all by (metis list.sel(3) map_tl)
  finally show ?thesis using renderNodes_placed [of env layout 0 0] by (simp add: l ps_def)
qed

definition dom_group :: "string \<Rightarrow> string option \<Rightarrow> group_dom" where
  "dom_group i p = \<lparr>grp_id = i, grp_parent = p, grp_visible = True, grp_display = None, grp_title = None, grp_count = Some 3\<rparr>"

definition dom_node :: "string \<Rightarrow> string option \<Rightarrow> node_dom" where
  "dom_node i p = \<lparr>node_id = i, node_group = p, nd_title = None, nd_status = Some ''ready'', nd_readiness = None\<rparr>"

definition sample_env :: "rat render_env" where
  "sample_env = \<lparr>re_groups = [dom_group ''g'' None], re_nodes = [dom_node ''n'' (Some ''g'')],
     re_edges = [sample_edge ''node:n'' ''group:g''], re_selected = ''n'', re_expanded = ''g'',
     re_maximize = [], re_minimize = []\<rparr>"

theorem renderNodes_at_flatten_witness:
  "map placed (renderNodes sample_env sample_layout 0 0) =
     [(Some ''g'', Some (Translate 10 20)), (Some ''n'', Some (Translate 15 20))]"
proof -
  have 1: "distinct (all_ids sample_layout)" "num_or (ln_x sample_layout) 0 = 0" "num_or (ln_y sample_layout) 0 = 0"
    by (simp_all add: sample_layout_def num_or_def)
  show ?thesis unfolding renderNodes_at_flatten [OF 1]
    by (simp add: sample_layout_def sample_env_def known_def group_of_def node_of_def dom_group_def dom_node_def
        jm_of_def jm_get_def at_flatten_def num_or_def)
qed

subsection \<open>The spotlight after the first drawing\<close>

lemma flatten_keys:
  "fst ` set (flatten n ox oy r) = fst ` set r \<union> set (all_ids n)"
  "fst ` set (flatten_kids cs ox oy r) = fst ` set r \<union> set (concat (map all_ids cs))"
  by (induction n ox oy r and cs ox oy r rule: flatten_flatten_kids.induct) (auto simp: Let_def jm_keys_set)

lemma flatten_known: "jm_get (flatten n ox oy []) i \<noteq> None \<longleftrightarrow> i \<in> set (all_ids n)"
  using flatten_keys(1) [of n ox oy "[]"] by (simp add: jm_get_def map_of_eq_None_iff)

lemma draw_edge_Some:
  "draw_edge sel nb (flatten layout 0 0 []) routes (e, k) = Some d \<Longrightarrow>
   dr_from d = refID (edge_from e) \<and> dr_to d = refID (edge_to e) \<and>
   dr_muted d = edge_muted sel nb (refID (edge_from e)) (refID (edge_to e)) \<and>
   refID (edge_from e) \<in> set (all_ids layout) \<and> refID (edge_to e) \<in> set (all_ids layout)"
  using flatten_known [of layout 0 0 "refID (edge_from e)"] flatten_known [of layout 0 0 "refID (edge_to e)"]
  by (auto simp: draw_edge_def Let_def split: option.splits)

lemma draw_edge_None:
  "draw_edge sel nb (flatten layout 0 0 []) routes (e, k) = None \<Longrightarrow>
   refID (edge_from e) \<notin> set (all_ids layout) \<or> refID (edge_to e) \<notin> set (all_ids layout)"
  using flatten_known [of layout 0 0 "refID (edge_from e)"] flatten_known [of layout 0 0 "refID (edge_to e)"]
  by (auto simp: draw_edge_def Let_def split: option.splits)

lemma renderEdges_set:
  "d \<in> set (renderEdges layout routes sel es) \<longleftrightarrow>
   (\<exists>e k. (e, k) \<in> set (zip es [0..<length es]) \<and>
      draw_edge sel (neighbors_of sel es) (flatten layout 0 0 []) (jm_of routes) (e, k) = Some d)"
  by (force simp: renderEdges_def map_filter_def image_iff)

lemma in_zip_upt: "e \<in> set es \<Longrightarrow> \<exists>k. (e, k) \<in> set (zip es [0..<length es])"
  by (force simp: in_set_conv_nth in_set_zip)

lemma drawn_neighbors_eq:
  assumes "sel \<noteq> []" "sel \<in> set (all_ids layout)" "i \<in> set (all_ids layout)"
  shows "i \<in> drawn_neighbors sel (renderEdges layout routes sel es) \<longleftrightarrow> i \<in> neighbors_of sel es"
proof
  assume "i \<in> drawn_neighbors sel (renderEdges layout routes sel es)"
  then consider "sel \<noteq> []" "i = sel" | d where "d \<in> set (renderEdges layout routes sel es)" "dr_from d = sel \<or> dr_to d = sel" "i \<in> {dr_from d, dr_to d}"
    by (auto simp: drawn_neighbors_def split: if_splits)
  then show "i \<in> neighbors_of sel es"
  proof cases
    case 2
    then obtain e k where "(e, k) \<in> set (zip es [0..<length es])"
      "draw_edge sel (neighbors_of sel es) (flatten layout 0 0 []) (jm_of routes) (e, k) = Some d"
      by (auto simp: renderEdges_set)
    from set_zip_leftD [OF this(1)] draw_edge_Some [OF this(2)] 2 show ?thesis
      by (force simp: neighbors_of_def)
  qed (simp add: neighbors_of_def)
next
  assume "i \<in> neighbors_of sel es"
  then consider "i = sel" | e where "e \<in> set es" "refID (edge_from e) = sel \<or> refID (edge_to e) = sel"
    "i \<in> {refID (edge_from e), refID (edge_to e)}" "i \<noteq> sel"
    by (auto simp: neighbors_of_def split: if_splits)
  then show "i \<in> drawn_neighbors sel (renderEdges layout routes sel es)"
  proof cases
    case 2
    obtain k where k: "(e, k) \<in> set (zip es [0..<length es])" using in_zip_upt [OF 2(1)] ..
    show ?thesis
    proof (cases "draw_edge sel (neighbors_of sel es) (flatten layout 0 0 []) (jm_of routes) (e, k)")
      case None
      from draw_edge_None [OF this] 2 assms show ?thesis by auto
    next
      case (Some d)
      with k have "d \<in> set (renderEdges layout routes sel es)" by (auto simp: renderEdges_set)
      with draw_edge_Some [OF Some] 2 show ?thesis by (force simp: drawn_neighbors_def)
    qed
  qed (simp add: drawn_neighbors_def assms(1))
qed

lemma ref_render:
  "group_of env i = Some g \<Longrightarrow> el_ref (renderGroup env item g x y) = Some i"
  "node_of env i = Some n \<Longrightarrow> el_ref (renderNode env item n x y) = Some i"
  using placed_group [of env i g item x y] placed_node [of env i n item x y] by (auto simp: placed_def)

lemma renderNodes_elem:
  "e \<in> set (renderNodes env n ox oy) \<Longrightarrow>
   \<exists>item x y. (\<exists>g. group_of env (ln_id item) = Some g \<and> e = renderGroup env item g x y) \<or>
     (\<exists>m. node_of env (ln_id item) = Some m \<and> e = renderNode env item m x y)"
proof (induction env n ox oy rule: renderNodes.induct)
  case (1 env i x0 y0 w h cs ox oy)
  from 1(2) obtain item where item: "item \<in> set cs"
    and e: "e \<in> set ((case group_of env (ln_id item) of
          Some g \<Rightarrow> [renderGroup env item g (ox + num_or (ln_x item) 0) (oy + num_or (ln_y item) 0)]
        | None \<Rightarrow> (case node_of env (ln_id item) of
            Some n \<Rightarrow> [renderNode env item n (ox + num_or (ln_x item) 0) (oy + num_or (ln_y item) 0)] | None \<Rightarrow> [])))
      \<or> e \<in> set (renderNodes env item (ox + num_or (ln_x item) 0) (oy + num_or (ln_y item) 0))"
    by (auto simp: Let_def)
  from e show ?case
  proof
    assume "e \<in> set (renderNodes env item (ox + num_or (ln_x item) 0) (oy + num_or (ln_y item) 0))"
    from 1(1) [OF item refl refl this] show ?thesis .
  next
    assume h: "e \<in> set ((case group_of env (ln_id item) of
          Some g \<Rightarrow> [renderGroup env item g (ox + num_or (ln_x item) 0) (oy + num_or (ln_y item) 0)]
        | None \<Rightarrow> (case node_of env (ln_id item) of
            Some n \<Rightarrow> [renderNode env item n (ox + num_or (ln_x item) 0) (oy + num_or (ln_y item) 0)] | None \<Rightarrow> [])))"
    show ?thesis
    proof (cases "group_of env (ln_id item)")
      case None
      with h obtain m where "node_of env (ln_id item) = Some m"
        "e = renderNode env item m (ox + num_or (ln_x item) 0) (oy + num_or (ln_y item) 0)"
        by (cases "node_of env (ln_id item)") simp_all
      then show ?thesis by blast
    next
      case (Some g)
      with h have "e = renderGroup env item g (ox + num_or (ln_x item) 0) (oy + num_or (ln_y item) 0)" by simp
      with Some show ?thesis by blast
    qed
  qed
qed

lemma renderNodes_ids: "e \<in> set (renderNodes env n ox oy) \<Longrightarrow> \<exists>i \<in> set (all_ids n). el_ref e = Some i"
proof -
  assume "e \<in> set (renderNodes env n ox oy)"
  then have "placed e \<in> set (map placed (renderNodes env n ox oy))" by simp
  then obtain p where p: "p \<in> set (concat (map (\<lambda>c. positions c ox oy) (ln_kids n)))" "placed e = place p"
    unfolding renderNodes_placed by auto
  then obtain c where c: "c \<in> set (ln_kids n)" "p \<in> set (positions c ox oy)" by auto
  have "fst p \<in> set (all_ids c)" using c(2) positions_ids [of c ox oy] by (metis image_eqI set_map)
  with c(1) have "fst p \<in> set (all_ids n)" by (cases n) auto
  moreover have "el_ref e = Some (fst p)" using p(2) by (cases p) (simp add: placed_def)
  ultimately show ?thesis by blast
qed

text \<open>The classes that the first drawing gives an element.\<close>

definition fresh_class :: "'n render_env \<Rightarrow> string \<Rightarrow> string list \<Rightarrow> bool" where
  "fresh_class env i cl \<longleftrightarrow>
     (\<exists>pre. ''selected'' \<notin> set pre \<and> ''spotlight-muted'' \<notin> set pre \<and>
        cl = pre @ (if re_selected env = i then [''selected''] else []) @
             (if spotlight_muted (re_selected env) (re_neighbors env) i then [''spotlight-muted''] else []))"

lemma fresh_group: "group_of env i = Some g \<Longrightarrow> fresh_class env i (el_class (renderGroup env item g x y))"
  unfolding fresh_class_def
  by (rule exI [of _ "[''dag-group'', ''status-'' @ safeClass (grp_display g)] @ (if re_expanded env = i then [''expanded''] else [])"])
     (auto simp: renderGroup_def elem_updates Let_def dest: group_of_id)

lemma fresh_node: "node_of env i = Some n \<Longrightarrow> fresh_class env i (el_class (renderNode env item n x y))"
  unfolding fresh_class_def
  by (rule exI [of _ "[''dag-node'', ''status-'' @ safeClass (node_state n)]"])
     (auto simp: renderNode_def elem_updates Let_def dest: node_of_id)

lemma toggle_fresh_class:
  assumes "fresh_class env i cl"
    and "spotlight_muted (re_selected env) nb i = spotlight_muted (re_selected env) (re_neighbors env) i"
  shows "toggle_class ''spotlight-muted'' (spotlight_muted (re_selected env) nb i)
      (toggle_class ''selected'' (i = re_selected env) cl) = cl"
  using assms by (auto simp: fresh_class_def toggle_class_def filter_id_conv)

lemma with_class_self [simp]: "with_class (el_class e) e = e"
  by (cases e) (simp add: with_class_def)

lemma spotlight_visible:
  assumes "sel = []  \<or> sel \<in> set (all_ids layout)" and "re_selected env = sel" and "re_edges env = es"
  shows "updateSpotlight sel (renderEdges layout routes sel es) (renderNodes env layout 0 0) =
    (renderEdges layout routes sel es, renderNodes env layout 0 0)"
proof -
  let ?ds = "renderEdges layout routes sel es"
  let ?nb = "drawn_neighbors sel ?ds"
  have nb: "spotlight_muted sel ?nb i = spotlight_muted sel (neighbors_of sel es) i" if "i \<in> set (all_ids layout)" for i
    using drawn_neighbors_eq [OF _ _ that] assms(1) by (auto simp: spotlight_muted_def)
  have "d\<lparr>dr_muted := edge_muted sel ?nb (dr_from d) (dr_to d)\<rparr> = d" if d: "d \<in> set ?ds" for d
  proof -
    from d obtain e k where "draw_edge sel (neighbors_of sel es) (flatten layout 0 0 []) (jm_of routes) (e, k) = Some d"
      by (auto simp: renderEdges_set)
    from draw_edge_Some [OF this] have "dr_muted d = edge_muted sel (neighbors_of sel es) (dr_from d) (dr_to d)"
      "dr_from d \<in> set (all_ids layout)" "dr_to d \<in> set (all_ids layout)" by simp_all
    with nb [of "dr_from d"] nb [of "dr_to d"] have "edge_muted sel ?nb (dr_from d) (dr_to d) = dr_muted d"
      by (auto simp: edge_muted_def spotlight_muted_def)
    then show ?thesis by simp
  qed
  moreover have "with_class (toggle_class ''spotlight-muted'' (spotlight_muted sel ?nb i)
      (toggle_class ''selected'' (i = sel) (el_class e))) e = e"
    if e: "e \<in> set (renderNodes env layout 0 0)" and i: "el_ref e = Some i" for e i
  proof -
    have fresh: "fresh_class env i (el_class e)" using renderNodes_elem [OF e] i
      by (auto simp: ref_render intro: fresh_group fresh_node)
    have "i \<in> set (all_ids layout)" using renderNodes_ids [OF e] i by auto
    with toggle_fresh_class [OF fresh, of ?nb] nb [of i] assms(2,3) show ?thesis by (simp add: re_neighbors_def)
  qed
  ultimately show ?thesis
    unfolding updateSpotlight_def Let_def by (auto intro!: map_idI split: option.split)
qed

text \<open>No edge of a selection that is not in the layout is drawn, so it has no neighbours on the page.\<close>

lemma hidden_neighbors:
  assumes "sel \<noteq> []" "sel \<notin> set (all_ids layout)"
  shows "drawn_neighbors sel (renderEdges layout routes sel es) = {sel}"
proof -
  have "dr_from d \<noteq> sel \<and> dr_to d \<noteq> sel" if "d \<in> set (renderEdges layout routes sel es)" for d
    using that assms(2) by (auto simp: renderEdges_set dest!: draw_edge_Some)
  with assms(1) show ?thesis by (auto simp: drawn_neighbors_def)
qed

lemma spotlight_hidden:
  assumes sel: "sel \<noteq> []" "sel \<notin> set (all_ids layout)"
  shows "d \<in> set (fst (updateSpotlight sel (renderEdges layout routes sel es) (renderNodes env layout 0 0))) \<Longrightarrow> dr_muted d"
    and "e \<in> set (snd (updateSpotlight sel (renderEdges layout routes sel es) (renderNodes env layout 0 0))) \<Longrightarrow>
      ''spotlight-muted'' \<in> set (el_class e) \<and> ''selected'' \<notin> set (el_class e)"
proof -
  note nb = hidden_neighbors [OF sel, of routes es]
  assume "d \<in> set (fst (updateSpotlight sel (renderEdges layout routes sel es) (renderNodes env layout 0 0)))"
  then obtain c where c: "c \<in> set (renderEdges layout routes sel es)"
    and d: "d = c\<lparr>dr_muted := edge_muted sel {sel} (dr_from c) (dr_to c)\<rparr>"
    by (auto simp: updateSpotlight_def Let_def nb)
  from c sel(2) have "dr_from c \<noteq> sel" by (auto simp: renderEdges_set dest!: draw_edge_Some)
  with sel(1) show "dr_muted d" by (simp add: d edge_muted_def)
next
  note nb = hidden_neighbors [OF sel, of routes es]
  assume "e \<in> set (snd (updateSpotlight sel (renderEdges layout routes sel es) (renderNodes env layout 0 0)))"
  then obtain c where c: "c \<in> set (renderNodes env layout 0 0)"
    and e: "e = (case el_ref c of None \<Rightarrow> c
      | Some i \<Rightarrow> with_class (toggle_class ''spotlight-muted'' (spotlight_muted sel {sel} i)
          (toggle_class ''selected'' (i = sel) (el_class c))) c)"
    by (auto simp: updateSpotlight_def Let_def nb)
  from renderNodes_ids [OF c] obtain i where i: "el_ref c = Some i" "i \<in> set (all_ids layout)" by blast
  with sel show "''spotlight-muted'' \<in> set (el_class e) \<and> ''selected'' \<notin> set (el_class e)"
    by (auto simp: e spotlight_muted_def toggle_class_def with_class_def)
qed

text \<open>
  Claim C20. What \<open>updateSpotlight\<close> does to a page that was just drawn. Without a selection, or with one that is in the layout,
  it changes nothing: recomputed from the edges and elements on the page, the neighbours of the selection
  are those that \<open>renderEdges\<close> and \<open>renderNodes\<close> took from the data, and so are all classes. With a selection that is
  not in the layout (a node inside a collapsed group) it has no neighbours on the page, and every edge and
  every element is dimmed, also those that the drawing had left bright.
\<close>

theorem updateSpotlight_fresh:
  assumes "re_selected env = sel" and "re_edges env = es"
  shows "let ds = renderEdges layout routes sel es; items = renderNodes env layout 0 0;
      page = updateSpotlight sel ds items
    in (sel = [] \<or> sel \<in> set (all_ids layout) \<longrightarrow> page = (ds, items)) \<and>
       (sel \<noteq> [] \<and> sel \<notin> set (all_ids layout) \<longrightarrow>
         (\<forall>d \<in> set (fst page). dr_muted d) \<and>
         (\<forall>e \<in> set (snd page). ''spotlight-muted'' \<in> set (el_class e) \<and> ''selected'' \<notin> set (el_class e)))"
  unfolding Let_def using spotlight_visible [OF _ assms] spotlight_hidden by blast

definition hidden_env :: "rat render_env" where
  "hidden_env = sample_env\<lparr>re_selected := ''z'', re_edges := [sample_edge ''node:z'' ''group:g'']\<rparr>"

theorem updateSpotlight_fresh_witness:
  "updateSpotlight ''n'' (renderEdges sample_layout [] ''n'' [sample_edge ''node:n'' ''group:g'']) (renderNodes sample_env sample_layout 0 0) =
     (renderEdges sample_layout [] ''n'' [sample_edge ''node:n'' ''group:g''], renderNodes sample_env sample_layout 0 0) \<and>
   list_all (\<lambda>e. ''spotlight-muted'' \<in> set (el_class e))
     (snd (updateSpotlight ''z'' (renderEdges sample_layout [] ''z'' [sample_edge ''node:z'' ''group:g''])
        (renderNodes hidden_env sample_layout 0 0)))"
proof -
  have "re_selected sample_env = ''n''" "re_edges sample_env = [sample_edge ''node:n'' ''group:g'']"
    by (simp_all add: sample_env_def)
  note 1 = updateSpotlight_fresh [OF this, of sample_layout "[]"]
  have "re_selected hidden_env = ''z''" "re_edges hidden_env = [sample_edge ''node:z'' ''group:g'']"
    by (simp_all add: hidden_env_def)
  note 2 = updateSpotlight_fresh [OF this, of sample_layout "[]"]
  have "''n'' \<in> set (all_ids sample_layout)" "''z'' \<notin> set (all_ids sample_layout)"
    by (simp_all add: sample_layout_def)
  with 1 2 show ?thesis unfolding Let_def list_all_iff by blast
qed

end
