(* ===== verification/ExplorerNavigator.thy ===== *)
theory ExplorerNavigator
  imports ExplorerDom
begin

text \<open>
  The navigator tree of the Explorer (\<open>app.ts\<close>, \<open>renderNavigator\<close>): groups are collected by parent in
  a \<open>Map\<close>, each list is sorted, and the recursive \<open>branch\<close> appends one row per group, depth first. A
  call stack that is exceeded is \<open>None\<close>.
\<close>

subsection \<open>The code\<close>

text \<open>\<open>byParent.get(p)||[]\<close>\<close>

definition items_at :: "(string \<times> 'a list) list \<Rightarrow> string \<Rightarrow> 'a list" where
  "items_at m p = (case jm_get m p of None \<Rightarrow> [] | Some items \<Rightarrow> items)"

definition by_parent :: "(string \<Rightarrow> string \<Rightarrow> int) \<Rightarrow> group_dom list \<Rightarrow> (string \<times> group_dom list) list" where
  "by_parent lc gs =
     map (\<lambda>(p, items). (p, js_sort (\<lambda>a b. lc (grp_id a) (grp_id b)) items))
       (fold (\<lambda>g m. let p = js_or (grp_parent g) []
                     in jm_set m p (items_at m p @ [g])) gs [])"

definition tree_row :: "string \<Rightarrow> 'n elem \<Rightarrow> group_dom \<Rightarrow> nat \<Rightarrow> 'n elem" where
  "tree_row sel chevron g depth =
     with_ref (grp_id g)
       (append_kids [chevron,
            with_text (units (grp_id g)) (svg ''span'' [] [''tree-id'']),
            svg ''span'' [] [''status-dot'', ''status-'' @ safeClass (grp_display g)]]
          (svg ''button'' [(''type'', Str ''button''), (''--depth'', Str (show_nat depth)), (''title'', Str (templ (grp_title g)))]
             (''tree-row'' # (if sel = grp_id g then [''selected''] else []))))"

fun branch ::
  "string \<Rightarrow> 'n elem \<Rightarrow> (string \<times> group_dom list) list \<Rightarrow> nat \<Rightarrow> string \<Rightarrow> nat \<Rightarrow> (nat \<times> string \<times> 'n elem) list option"
where
  "branch sel chevron m 0 p d = None"
| "branch sel chevron m (Suc fuel) p d =
     map_option concat
       (those (map (\<lambda>g. map_option (\<lambda>rows. (d, grp_id g, tree_row sel chevron g d) # rows)
                          (branch sel chevron m fuel (grp_id g) (Suc d)))
                (items_at m p)))"

text \<open>The rows with their depth and the group that a click toggles.\<close>

definition renderNavigator ::
  "(string \<Rightarrow> string \<Rightarrow> int) \<Rightarrow> string \<Rightarrow> 'n elem \<Rightarrow> group_dom list \<Rightarrow> (nat \<times> string \<times> 'n elem) list option"
where
  "renderNavigator lc sel chevron gs = branch sel chevron (by_parent lc gs) (Suc (length gs)) [] 0"

subsection \<open>Grouping by parent\<close>

lemma jm_get_map: "jm_get (map (\<lambda>(p, xs). (p, f xs)) m) p = map_option f (jm_get m p)"
  by (simp add: jm_get_def map_of_map)

lemma items_at_set: "items_at (jm_set m q xs) p = (if p = q then xs else items_at m p)"
  by (simp add: items_at_def jm_get_set)

lemma items_at_Nil [simp]: "items_at [] p = []"
  by (simp add: items_at_def)

lemma items_at_map: "f [] = [] \<Longrightarrow> items_at (map (\<lambda>(q, xs). (q, f xs)) m) p = f (items_at m p)"
  by (simp add: items_at_def jm_get_map split: option.split)

lemma items_at_fold:
  "items_at (fold (\<lambda>g m. let p = key g in jm_set m p (items_at m p @ [g])) gs m) p =
   items_at m p @ filter (\<lambda>g. key g = p) gs"
  by (induction gs arbitrary: m) (auto simp: Let_def items_at_set)

lemma items_at_by_parent:
  "items_at (by_parent lc gs) p =
     js_sort (\<lambda>a b. lc (grp_id a) (grp_id b)) (filter (\<lambda>g. js_or (grp_parent g) [] = p) gs)"
  unfolding by_parent_def
  by (simp add: items_at_map items_at_fold [where key = "\<lambda>g. js_or (grp_parent g) []"])

lemma js_insert_map:
  "(\<And>a b. cmp' (f a) (f b) = cmp a b) \<Longrightarrow> map f (js_insert cmp x xs) = js_insert cmp' (f x) (map f xs)"
  by (induction xs) auto

lemma js_sort_map:
  "(\<And>a b. cmp' (f a) (f b) = cmp a b) \<Longrightarrow> map f (js_sort cmp xs) = js_sort cmp' (map f xs)"
proof (induction xs)
  case (Cons x xs)
  then show ?case using js_insert_map [of cmp' f cmp x "js_sort cmp xs"] by simp
qed simp

declare branch.simps(2) [simp del]

subsection \<open>The rows and the group forest\<close>

abbreviation base :: "group_dom list \<Rightarrow> group_rec list" where
  "base gs \<equiv> map group_rec.truncate gs"

lemma base_sel [simp]: "grp_id (group_rec.truncate g) = grp_id g" "grp_parent (group_rec.truncate g) = grp_parent g"
  by (simp_all add: group_rec.truncate_def)

definition children_of :: "group_dom list \<Rightarrow> string \<Rightarrow> group_dom list" where
  "children_of gs p = filter (\<lambda>g. js_or (grp_parent g) [] = p) gs"

lemma items_by_parent: "items_at (by_parent lc gs) p = js_sort (byID lc grp_id) (children_of gs p)"
  by (simp add: items_at_by_parent children_of_def byID_def [abs_def])

lemma base_children:
  "i \<noteq> [] \<Longrightarrow> grp_id g = i \<Longrightarrow> map group_rec.truncate (children_of gs i) = child_groups (base gs) g"
  by (induction gs) (auto simp: children_of_def child_groups_def js_or_def split: option.splits)

lemma base_sort:
  "map group_rec.truncate (js_sort (byID lc grp_id) xs) = js_sort (byID lc grp_id) (base xs)"
  by (rule js_sort_map) (simp add: byID_def)

lemma children_sub: "set (children_of gs p) \<subseteq> set gs"
  by (auto simp: children_of_def)

lemma those_map_Some:
  "(\<And>x. x \<in> set xs \<Longrightarrow> f x = Some (g x)) \<Longrightarrow> those (map f xs) = Some (map g xs)"
  by (induction xs) auto

text \<open>Below a group, \<open>branch\<close> makes a row for each identifier that \<open>elkNodeForGroup\<close> would place.\<close>

lemma branch_elk:
  "[] \<notin> set (map grp_id gs) \<Longrightarrow> g \<in> set gs \<Longrightarrow> elkNodeForGroup lc (base gs) [] f (group_rec.truncate g) = Some t \<Longrightarrow>
   \<exists>rows. branch sel ch (by_parent lc gs) f (grp_id g) d = Some rows \<and> grp_id g # map (fst \<circ> snd) rows = elk_ids t"
proof (induction f arbitrary: g t d)
  case (Suc f)
  have ne: "grp_id g \<noteq> []" using Suc.prems(1,2) by (metis image_eqI set_map)
  let ?items = "js_sort (byID lc grp_id) (children_of gs (grp_id g))"
  have items: "js_sort (byID lc grp_id) (child_groups (base gs) (group_rec.truncate g)) = base ?items"
    using base_children [OF ne, of "group_rec.truncate g" gs] by (simp add: base_sort)
  from Suc.prems(3) obtain ks where ks: "map (elkNodeForGroup lc (base gs) [] f) (base ?items) = map Some ks"
    "elk_ids t = grp_id g # concat (map elk_ids ks)"
    by (auto simp: items those_eq_Some child_nodes_def Let_def split: option.splits)
  have len: "length ks = length ?items" using arg_cong [OF ks(1), of length] by simp
  have "\<forall>k < length ?items. \<exists>rows. branch sel ch (by_parent lc gs) f (grp_id (?items ! k)) (Suc d) = Some rows \<and>
      grp_id (?items ! k) # map (fst \<circ> snd) rows = elk_ids (ks ! k)"
  proof (intro allI impI)
    fix k assume k: "k < length ?items"
    then have "?items ! k \<in> set gs" using children_sub nth_mem [OF k] by (auto simp: set_js_sort)
    moreover have "elkNodeForGroup lc (base gs) [] f (group_rec.truncate (?items ! k)) = Some (ks ! k)"
      using arg_cong [OF ks(1), of "\<lambda>xs. xs ! k"] k len by simp
    ultimately show "\<exists>rows. branch sel ch (by_parent lc gs) f (grp_id (?items ! k)) (Suc d) = Some rows \<and>
      grp_id (?items ! k) # map (fst \<circ> snd) rows = elk_ids (ks ! k)"
      by (rule Suc.IH [OF Suc.prems(1)])
  qed
  then obtain R where R: "\<And>k. k < length ?items \<Longrightarrow> branch sel ch (by_parent lc gs) f (grp_id (?items ! k)) (Suc d) = Some (R k)"
    "\<And>k. k < length ?items \<Longrightarrow> grp_id (?items ! k) # map (fst \<circ> snd) (R k) = elk_ids (ks ! k)"
    by metis
  define rowss where "rowss = map (\<lambda>k. (d, grp_id (?items ! k), tree_row sel ch (?items ! k) d) # R k) [0..<length ?items]"
  have "those (map (\<lambda>g. map_option (\<lambda>rows. (d, grp_id g, tree_row sel ch g d) # rows)
      (branch sel ch (by_parent lc gs) f (grp_id g) (Suc d))) ?items) = Some rowss"
    unfolding those_eq_Some by (rule nth_equalityI) (simp_all add: rowss_def R(1))
  moreover have "concat (map elk_ids ks) = map (fst \<circ> snd) (concat rowss)"
  proof -
    have "map elk_ids ks = map (map (fst \<circ> snd)) rowss"
      by (rule nth_equalityI) (simp_all add: rowss_def len flip: R(2))
    then show ?thesis by (simp add: map_concat)
  qed
  ultimately show ?case by (simp add: branch.simps(2) items_by_parent ks(2))
qed simp

subsection \<open>Depths\<close>

fun reach :: "group_dom list \<Rightarrow> nat \<Rightarrow> group_dom set \<Rightarrow> group_dom set" where
  "reach gs 0 X = X"
| "reach gs (Suc k) X = reach gs k (\<Union>x \<in> X. set (children_of gs (grp_id x)))"

lemma reach_Union: "reach gs k (\<Union>i \<in> I. F i) = (\<Union>i \<in> I. reach gs k (F i))"
proof (induction k arbitrary: I F)
  case (Suc k)
  have "(\<Union>x \<in> \<Union> (F ` I). set (children_of gs (grp_id x))) = (\<Union>i \<in> I. \<Union>x \<in> F i. set (children_of gs (grp_id x)))" by blast
  then show ?case using Suc.IH [of "\<lambda>i. \<Union>x \<in> F i. set (children_of gs (grp_id x))" I] by simp
qed simp

lemma reach_last: "reach gs (Suc k) X = (\<Union>x \<in> reach gs k X. set (children_of gs (grp_id x)))"
proof (induction k arbitrary: X)
  case (Suc k)
  let ?C = "\<Union>x \<in> X. set (children_of gs (grp_id x))"
  have "reach gs (Suc (Suc k)) X = reach gs (Suc k) ?C" by (rule reach.simps(2))
  also have "\<dots> = (\<Union>x \<in> reach gs k ?C. set (children_of gs (grp_id x)))" by (rule Suc.IH)
  also have "reach gs k ?C = reach gs (Suc k) X" by (rule reach.simps(2) [symmetric])
  finally show ?case .
qed simp

definition rows_from :: "string \<Rightarrow> 'n elem \<Rightarrow> group_dom list \<Rightarrow> nat \<Rightarrow> group_dom set \<Rightarrow> (nat \<times> string \<times> 'n elem) set" where
  "rows_from sel ch gs d X = (\<Union>k. (\<lambda>g. (d + k, grp_id g, tree_row sel ch g (d + k))) ` reach gs k X)"

lemma rows_from_unfold:
  "rows_from sel ch gs d X =
     (\<Union>g \<in> X. insert (d, grp_id g, tree_row sel ch g d) (rows_from sel ch gs (Suc d) (set (children_of gs (grp_id g)))))"
  (is "?l = ?r")
proof
  show "?l \<subseteq> ?r"
  proof
    fix r assume "r \<in> ?l"
    then obtain k g where r: "r = (d + k, grp_id g, tree_row sel ch g (d + k))" "g \<in> reach gs k X"
      by (auto simp: rows_from_def)
    show "r \<in> ?r"
    proof (cases k)
      case 0
      with r show ?thesis by auto
    next
      case (Suc j)
      with r(2) obtain x where "x \<in> X" "g \<in> reach gs j (set (children_of gs (grp_id x)))"
        by (auto simp: reach_Union)
      with r(1) Suc show ?thesis by (force simp: rows_from_def)
    qed
  qed
  show "?r \<subseteq> ?l"
  proof
    fix r assume "r \<in> ?r"
    then obtain x where x: "x \<in> X"
      "r = (d, grp_id x, tree_row sel ch x d) \<or> r \<in> rows_from sel ch gs (Suc d) (set (children_of gs (grp_id x)))" by blast
    from x(2) show "r \<in> ?l"
    proof
      assume "r = (d, grp_id x, tree_row sel ch x d)"
      then have "r \<in> (\<lambda>g. (d + 0, grp_id g, tree_row sel ch g (d + 0))) ` reach gs 0 X" using x(1) by simp
      then show ?thesis unfolding rows_from_def by blast
    next
      assume "r \<in> rows_from sel ch gs (Suc d) (set (children_of gs (grp_id x)))"
      then obtain k g where g: "r = (d + Suc k, grp_id g, tree_row sel ch g (d + Suc k))"
        "g \<in> reach gs k (set (children_of gs (grp_id x)))"
        by (auto simp: rows_from_def)
      then have "g \<in> reach gs (Suc k) X" using x(1) by (auto simp: reach_Union)
      with g(1) show ?thesis unfolding rows_from_def by blast
    qed
  qed
qed

lemma branch_rows:
  "branch sel ch (by_parent lc gs) f p d = Some rows \<Longrightarrow> set rows = rows_from sel ch gs d (set (children_of gs p))"
proof (induction f arbitrary: p d rows)
  case (Suc f)
  let ?items = "js_sort (byID lc grp_id) (children_of gs p)"
  let ?h = "\<lambda>g. map_option (\<lambda>rows. (d, grp_id g, tree_row sel ch g d) # rows) (branch sel ch (by_parent lc gs) f (grp_id g) (Suc d))"
  from Suc.prems obtain rowss where r: "map ?h ?items = map Some rowss" "rows = concat rowss"
    by (auto simp: branch.simps(2) items_by_parent those_eq_Some)
  have "set ` set rowss = (\<lambda>g. insert (d, grp_id g, tree_row sel ch g d)
      (rows_from sel ch gs (Suc d) (set (children_of gs (grp_id g))))) ` set ?items"
  proof -
    have each: "set (the (?h g)) = insert (d, grp_id g, tree_row sel ch g d)
      (rows_from sel ch gs (Suc d) (set (children_of gs (grp_id g))))" if "g \<in> set ?items" for g
    proof -
      have "?h g \<in> set (map Some rowss)" using that unfolding r(1) [symmetric] by simp
      then obtain rs where rs: "branch sel ch (by_parent lc gs) f (grp_id g) (Suc d) = Some rs" by auto
      from Suc.IH [OF this] rs show ?thesis by simp
    qed
    have "rowss = map (\<lambda>g. the (?h g)) ?items"
      using arg_cong [OF r(1), of "map the"] by (simp add: comp_def)
    then have "set ` set rowss = (\<lambda>g. set (the (?h g))) ` set ?items" by auto
    also have "\<dots> = (\<lambda>g. insert (d, grp_id g, tree_row sel ch g d)
        (rows_from sel ch gs (Suc d) (set (children_of gs (grp_id g))))) ` set ?items"
      by (rule image_cong [OF refl each])
    finally show ?thesis .
  qed
  then have "set rows = (\<Union>g \<in> set (children_of gs p). insert (d, grp_id g, tree_row sel ch g d)
      (rows_from sel ch gs (Suc d) (set (children_of gs (grp_id g)))))"
    by (simp add: r(2) set_js_sort)
  then show ?case using rows_from_unfold [of sel ch gs d "set (children_of gs p)"] by simp
qed simp

subsection \<open>The whole navigator\<close>

lemma kids_mono: "set xs \<subseteq> set ys \<Longrightarrow> set ((kids bs ^^ k) xs) \<subseteq> set ((kids bs ^^ k) ys)"
  by (induction k) (auto simp: kids_def)

lemma distinct_kids: "distinct bs \<Longrightarrow> distinct xs \<Longrightarrow> distinct ((kids bs ^^ k) xs)"
  by (cases k) (simp_all add: kids_def)

definition nav_roots :: "group_dom list \<Rightarrow> group_rec list" where
  "nav_roots gs = base (children_of gs [])"

lemma nav_roots_sub: "set (nav_roots gs) \<subseteq> set (level (base gs) 0)"
  by (auto simp: nav_roots_def level_0 children_of_def is_root_group_def js_or_def truthy_def split: option.splits if_splits)

lemma nav_level_sub: "set ((kids (base gs) ^^ k) (nav_roots gs)) \<subseteq> set (level (base gs) k)"
  using kids_mono [OF nav_roots_sub [of gs], where k = k and bs = "base gs"] by (simp add: level_def)

lemma truncate_inj: "ids_ok (base gs) \<Longrightarrow> distinct (map grp_id gs)"
  by (simp add: ids_ok_def comp_def)

lemma distinct_nav_roots: "ids_ok (base gs) \<Longrightarrow> distinct (nav_roots gs)"
proof -
  assume "ids_ok (base gs)"
  then have "distinct (map grp_id (children_of gs []))"
    using truncate_inj distinct_map_filter unfolding children_of_def by blast
  then have "distinct (map grp_id (nav_roots gs))" by (simp add: nav_roots_def comp_def)
  then show ?thesis by (simp add: distinct_map)
qed

lemma nav_sum_sub:
  assumes ok: "ids_ok bs" and sub: "\<And>k. set (L k) \<subseteq> set (level bs k)" and d: "\<And>k. distinct (L k)"
  shows "(\<Sum>k<n. mset (L k)) \<subseteq># mset bs"
proof (rule mset_subset_eqI)
  fix x
  have c: "count (mset (L k)) x = (if x \<in> set (L k) then 1 else 0)" for k
    using d [of k] by (simp add: distinct_count_atmost_1)
  show "count (\<Sum>k<n. mset (L k)) x \<le> count (mset bs) x"
  proof (cases "\<exists>k<n. x \<in> set (L k)")
    case True
    then obtain k where k: "k < n" "x \<in> set (L k)" by blast
    have "x \<notin> set (L j)" if "j \<noteq> k" for j
      using k(2) sub [of k] sub [of j] level_disjoint [OF ok, of j k] level_disjoint [OF ok, of k j] that
      by (cases "j < k") (auto simp: not_less)
    then have "count (mset (L j)) x = (if j = k then 1 else 0)" for j using c [of j] k(2) by auto
    then have "count (\<Sum>k<n. mset (L k)) x = 1" using k(1) by (simp add: count_sum)
    moreover have "x \<in> set bs" using k(2) sub [of k] set_level [of bs k] by blast
    ultimately show ?thesis using ids_ok_distinct [OF ok] by (simp add: distinct_count_atmost_1)
  next
    case False
    then show ?thesis using c by (simp add: count_sum)
  qed
qed

lemma distinct_sub: "mset xs \<subseteq># mset ys \<Longrightarrow> distinct ys \<Longrightarrow> distinct xs"
proof (induction xs)
  case (Cons x xs)
  have sub: "mset xs \<subseteq># mset ys" using Cons.prems(1) by (metis mset.simps(2) mset_subset_eq_insertD subset_mset.less_imp_le)
  have "count (mset (x # xs)) x \<le> count (mset ys) x" using mset_subset_eq_count [OF Cons.prems(1)] .
  also have "\<dots> \<le> 1" using Cons.prems(2) by (simp add: distinct_count_atmost_1)
  finally have "x \<notin> set xs" by (simp add: count_eq_zero_iff [symmetric] del: count_eq_zero_iff flip: count_mset_0_iff)
  with Cons.IH [OF sub Cons.prems(2)] show ?case by simp
qed simp

lemma navigator_ids:
  assumes ok: "ids_ok (base gs)"
  shows "\<exists>rows. renderNavigator lc sel ch gs = Some rows \<and> distinct (map (fst \<circ> snd) rows)"
proof -
  let ?n = "length gs" and ?items = "js_sort (byID lc grp_id) (children_of gs [])"
  have ne: "[] \<notin> set (map grp_id gs)" using ok by (simp add: ids_ok_def comp_def)
  have "\<exists>t rows. elkNodeForGroup lc (base gs) [] ?n (group_rec.truncate g) = Some t \<and>
      branch sel ch (by_parent lc gs) ?n (grp_id g) (Suc 0) = Some rows \<and> grp_id g # map (fst \<circ> snd) rows = elk_ids t"
    if g: "g \<in> set ?items" for g
  proof -
    have "group_rec.truncate g \<in> set (nav_roots gs)" using g by (auto simp: nav_roots_def set_js_sort)
    with nav_roots_sub have "group_rec.truncate g \<in> set (base gs)" "is_root_group (base gs) (group_rec.truncate g)"
      by (auto simp: level_0)
    from elk_total [OF ok this, of lc "[]"] obtain t where
      t: "elkNodeForGroup lc (base gs) [] ?n (group_rec.truncate g) = Some t" by auto
    have "g \<in> set gs" using g children_sub by (auto simp: set_js_sort)
    from branch_elk [OF ne this t, of sel ch "Suc 0"] t show ?thesis by blast
  qed
  then obtain T R where tr: "\<And>g. g \<in> set ?items \<Longrightarrow> elkNodeForGroup lc (base gs) [] ?n (group_rec.truncate g) = Some (T g)"
    "\<And>g. g \<in> set ?items \<Longrightarrow> branch sel ch (by_parent lc gs) ?n (grp_id g) (Suc 0) = Some (R g)"
    "\<And>g. g \<in> set ?items \<Longrightarrow> grp_id g # map (fst \<circ> snd) (R g) = elk_ids (T g)"
    by metis
  let ?rows = "concat (map (\<lambda>g. (0, grp_id g, tree_row sel ch g 0) # R g) ?items)"
  have "renderNavigator lc sel ch gs = Some ?rows"
    unfolding renderNavigator_def branch.simps(2) items_by_parent
    by (subst those_map_Some [where g = "\<lambda>g. (0, grp_id g, tree_row sel ch g 0) # R g"]) (simp_all add: tr(2))
  moreover have "distinct (map (fst \<circ> snd) ?rows)"
  proof -
    have "map (fst \<circ> snd) ?rows = concat (map (elk_ids \<circ> T) ?items)"
      unfolding map_concat by (rule arg_cong [of _ _ concat]) (use tr(3) in auto)
    then have "mset (map (fst \<circ> snd) ?rows) = (\<Sum>g\<in>#mset ?items. mset (elk_ids (T g)))"
      by (simp add: mset_concat_map)
    also have "\<dots> = (\<Sum>g\<in>#mset ?items. ids_at lc (base gs) [] ?n (group_rec.truncate g))"
      by (rule arg_cong [of _ _ sum_mset], rule image_mset_cong) (use tr(1) in \<open>auto simp: ids_at_def\<close>)
    also have "\<dots> = (\<Sum>g\<in>#mset (nav_roots gs). ids_at lc (base gs) [] ?n g)"
      by (simp add: nav_roots_def multiset.map_comp comp_def)
    also have "\<dots> = (\<Sum>k<?n. \<Sum>g\<in>#mset ((kids (base gs) ^^ k) (nav_roots gs)). {#grp_id g#})"
    proof -
      have "(kids (base gs) ^^ ?n) (nav_roots gs) = []"
        using nav_level_sub [of ?n gs] level_exhausted [OF ok] by simp
      from ids_forest [OF ok this distinct_nav_roots [OF ok], of lc "[]"] show ?thesis
        using nav_roots_sub [of gs] set_level [of "base gs" 0] by (auto simp: child_nodes_def)
    qed
    also have "\<dots> = image_mset grp_id (\<Sum>k<?n. mset ((kids (base gs) ^^ k) (nav_roots gs)))"
      unfolding sum_mset_levels by (simp add: sum_mset_singleton_mset)
    also have "\<dots> \<subseteq># image_mset grp_id (mset (base gs))"
      by (rule image_mset_subseteq_mono, rule nav_sum_sub [OF ok nav_level_sub])
         (rule distinct_kids [OF ids_ok_distinct [OF ok] distinct_nav_roots [OF ok]])
    finally have sub: "mset (map (fst \<circ> snd) ?rows) \<subseteq># mset (map grp_id (base gs))" by (simp only: mset_map)
    have "distinct (map grp_id (base gs))" using ok by (simp add: ids_ok_def)
    with sub show ?thesis by (rule distinct_sub)
  qed
  ultimately show ?thesis by blast
qed

text \<open>The groups whose parents lead, in \<open>k\<close> steps, to a group without a parent.\<close>

fun nav_level :: "group_dom list \<Rightarrow> nat \<Rightarrow> group_dom list" where
  "nav_level gs 0 = filter (\<lambda>g. \<not> truthy (grp_parent g)) gs"
| "nav_level gs (Suc k) = filter (\<lambda>g. \<exists>h \<in> set (nav_level gs k). grp_parent g = Some (grp_id h)) gs"

lemma children_Nil: "[] \<notin> set (map grp_id gs) \<Longrightarrow> set (children_of gs []) = set (nav_level gs 0)"
  by (auto simp: children_of_def js_or_def truthy_def split: option.splits)

lemma children_id: "i \<noteq> [] \<Longrightarrow> set (children_of gs i) = {g \<in> set gs. grp_parent g = Some i}"
  by (auto simp: children_of_def js_or_def split: option.splits if_splits)

lemma reach_nav_level:
  assumes "[] \<notin> set (map grp_id gs)"
  shows "reach gs k (set (children_of gs [])) = set (nav_level gs k)"
proof (induction k)
  case 0
  show ?case using children_Nil [OF assms] by simp
next
  case (Suc k)
  have sub: "set (nav_level gs k) \<subseteq> set gs" by (cases k) auto
  have "grp_id h \<noteq> []" if "h \<in> set (nav_level gs k)" for h using assms sub that by (metis image_eqI set_map subsetD)
  then have "(\<Union>x \<in> set (nav_level gs k). set (children_of gs (grp_id x))) = set (nav_level gs (Suc k))"
    by (auto simp: children_id)
  then show ?case unfolding reach_last Suc.IH .
qed

text \<open>
  Claim C19. For distinct nonempty group identifiers the navigator is always built, even when parent
  links form cycles. It has one row for each group whose parents lead to a group without a parent,
  at the depth of that chain, and no group has two rows.
\<close>

theorem renderNavigator_rows:
  assumes "distinct (map grp_id gs)" and "[] \<notin> set (map grp_id gs)"
  shows "\<exists>rows. renderNavigator lc sel ch gs = Some rows \<and> distinct (map (fst \<circ> snd) rows) \<and>
    set rows = {(k, grp_id g, tree_row sel ch g k) | k g. g \<in> set (nav_level gs k)}"
proof -
  have "ids_ok (base gs)" using assms by (simp add: ids_ok_def comp_def)
  from navigator_ids [OF this, of lc sel ch] obtain rows
    where rows: "renderNavigator lc sel ch gs = Some rows" "distinct (map (fst \<circ> snd) rows)" by blast
  have "set rows = rows_from sel ch gs 0 (set (children_of gs []))"
    using branch_rows [OF rows(1) [unfolded renderNavigator_def]] .
  also have "\<dots> = {(k, grp_id g, tree_row sel ch g k) | k g. g \<in> set (nav_level gs k)}"
    by (auto simp: rows_from_def reach_nav_level [OF assms(2)])
  finally show ?thesis using rows by blast
qed

theorem renderNavigator_rows_witness:
  "\<exists>rows. renderNavigator (\<lambda>_ _. 0) [] (svg ''span'' [] [])
      [dom_group ''b'' (Some ''a''), dom_group ''a'' None, dom_group ''x'' (Some ''y''), dom_group ''y'' (Some ''x'')] = Some rows \<and>
    distinct (map (fst \<circ> snd) rows)"
  using renderNavigator_rows [of "[dom_group ''b'' (Some ''a''), dom_group ''a'' None, dom_group ''x'' (Some ''y''), dom_group ''y'' (Some ''x'')]"
      "\<lambda>_ _. 0" "[]" "svg ''span'' [] []"]
  by (simp add: dom_group_def) blast

text \<open>
  A group whose parent is not in the data is placed at the top level of the map by
  \<open>buildELKGraph\<close>, but the navigator has no row for it.
\<close>

lemma navigator_omits_orphans:
  "\<exists>gs rows g. renderNavigator lc sel ch gs = Some rows \<and>
     buildELKGraph lc (map group_rec.truncate gs) [] [] = Some g \<and>
     tree_ids g = [''a''] \<and> map grp_id gs = [''a''] \<and> rows = []"
proof (intro exI conjI)
  let ?gs = "[dom_group ''a'' (Some ''p'')]"
  show "renderNavigator lc sel ch ?gs = Some []"
    by (simp add: renderNavigator_def branch.simps(2) items_by_parent children_of_def dom_group_def)
  show "buildELKGraph lc (map group_rec.truncate ?gs) [] [] =
      Some \<lparr>eg_children = [ElkNode ''a'' 168 76 [] []], eg_edges = [], eg_options = root_options\<rparr>"
    by (simp add: buildELKGraph_def is_root_group_def dom_group_def group_rec.truncate_def child_groups_def child_nodes_def)
qed (simp_all add: tree_ids_def dom_group_def)

end
