(* ===== verification/ExplorerPaging.thy ===== *)
theory ExplorerPaging
  imports ExplorerGraph
begin

text \<open>
  The two paging loops of the Explorer, \<open>neighborhoodEdges\<close> and \<open>loadGroupTopology\<close> of
  \<open>app.ts\<close>, and the Go side they talk to: the cursor arithmetic of \<open>aggregateEdgeViews\<close> in
  \<open>internal/ui/api.go\<close>. A loop is fuelled by the number of requests it may send: \<open>None\<close> is a
  loop that is still asking, \<open>Some (Inl e)\<close> a thrown error, \<open>Some (Inr r)\<close> the result. What the
  client relies on is the locale \<open>paged_api\<close>; the Go model is its interpretation.
\<close>

subsection \<open>The server's pages\<close>

record page_info =
  pi_cursor :: nat
  pi_limit :: nat
  pi_total :: nat
  pi_next :: "nat option"
  pi_truncated :: bool

definition aggregateEdgeViews :: "'a list \<Rightarrow> nat \<Rightarrow> nat \<Rightarrow> 'a list \<times> page_info" where
  "aggregateEdgeViews source cursor0 limit =
     (let total = length source;
          cursor = (if cursor0 > total then total else cursor0);
          end = (if cursor + limit > total then total else cursor + limit)
      in (take (end - cursor) (drop cursor source),
          \<lparr>pi_cursor = cursor, pi_limit = limit, pi_total = total,
           pi_next = (if end < total then Some end else None), pi_truncated = (end < total)\<rparr>))"

subsection \<open>The client\<close>

record edge_request =
  rq_ref :: string
  rq_focus :: string
  rq_cursor :: nat
  rq_limit :: nat

record edge_page =
  ep_head :: "int option"
  ep_edges :: "edge_rec list"
  ep_next :: "nat option"

record members_page =
  mp_snapshotRef :: string
  mp_topology :: topology
  mp_next :: "nat option"

type_synonym edge_map = "(string option \<times> edge_rec) list"

fun edges_loop ::
  "(edge_request \<Rightarrow> string + edge_page) \<Rightarrow> string \<Rightarrow> string \<Rightarrow> int option \<Rightarrow> nat \<Rightarrow> nat \<Rightarrow>
     edge_map \<Rightarrow> (string + edge_map) option"
where
  "edges_loop srv ref focus head 0 cursor m = None"
| "edges_loop srv ref focus head (Suc fuel) cursor m =
     (case srv \<lparr>rq_ref = ref, rq_focus = focus, rq_cursor = cursor, rq_limit = 100\<rparr> of
        Inl e \<Rightarrow> Some (Inl e)
      | Inr p \<Rightarrow>
          if ep_head p \<noteq> head
          then Some (Inl ''Topology changed while loading dependency edges'')
          else (let m' = fold (\<lambda>e m. jm_set m (edge_digest e) e) (ep_edges p) m
                in case ep_next p of
                     None \<Rightarrow> Some (Inr m')
                   | Some c \<Rightarrow> edges_loop srv ref focus head fuel c m'))"

definition base_edges :: "topology \<Rightarrow> edge_rec list" where
  "base_edges t = (case t_backbone t of Some b \<Rightarrow> b | None \<Rightarrow> list_or (t_edges t))"

definition neighborhoodEdges ::
  "(edge_request \<Rightarrow> string + edge_page) \<Rightarrow> nat \<Rightarrow> topology \<Rightarrow> string \<Rightarrow> (string + edge_rec list) option"
where
  "neighborhoodEdges srv fuel t focus =
     (if focus = [] \<or> \<not> truthy (t_edgeIndexRef t) then Some (Inr (base_edges t))
      else map_option (map_sum id jm_values)
             (edges_loop srv (js_or (t_edgeIndexRef t) []) focus (t_headSequence t) fuel 0
               (jm_of (map (\<lambda>e. (edge_digest e, e)) (base_edges t)))))"

record members_acc =
  ma_nodes :: "(string \<times> node_rec) list"
  ma_groups :: "(string \<times> group_rec) list"
  ma_combined :: "topology option"

fun members_loop ::
  "(string \<Rightarrow> nat \<Rightarrow> nat \<Rightarrow> string \<Rightarrow> string + members_page) \<Rightarrow> string \<Rightarrow> string \<Rightarrow> nat \<Rightarrow> nat \<Rightarrow>
     members_acc \<Rightarrow> (string + members_acc) option"
where
  "members_loop srv gid snap 0 cursor a = None"
| "members_loop srv gid snap (Suc fuel) cursor a =
     (case srv gid cursor 200 snap of
        Inl e \<Rightarrow> Some (Inl e)
      | Inr p \<Rightarrow>
          if mp_snapshotRef p \<noteq> snap
          then Some (Inl ''Project changed while expanding the group'')
          else (let page = mp_topology p;
                    a' = \<lparr>ma_nodes = fold (\<lambda>n m. jm_set m (node_id n) n) (list_or (t_nodes page)) (ma_nodes a),
                          ma_groups = fold (\<lambda>g m. jm_set m (grp_id g) g) (list_or (t_groups page)) (ma_groups a),
                          ma_combined = (case ma_combined a of None \<Rightarrow> Some page | Some c \<Rightarrow> Some c)\<rparr>
                in case mp_next p of
                     None \<Rightarrow> Some (Inr a')
                   | Some c \<Rightarrow> members_loop srv gid snap fuel c a'))"

definition loadGroupTopology ::
  "(string \<Rightarrow> nat \<Rightarrow> nat \<Rightarrow> string \<Rightarrow> string + members_page) \<Rightarrow> nat \<Rightarrow> string \<Rightarrow> project_map \<Rightarrow>
     (string + topology) option"
where
  "loadGroupTopology srv fuel gid pm =
     map_option (\<lambda>r. case r of
         Inl e \<Rightarrow> Inl e
       | Inr a \<Rightarrow>
           (case ma_combined a of
              None \<Rightarrow> Inl ''Group members are unavailable''
            | Some c \<Rightarrow> Inr (c\<lparr>t_nodes := Some (jm_values (ma_nodes a)),
                              t_groups := Some (jm_values (ma_groups a)),
                              t_backbone := Some (list_or (t_edges c))\<rparr>)))
       (members_loop srv gid (pm_snapshotRef pm) fuel 0
         \<lparr>ma_nodes = jm_of (map (\<lambda>n. (node_id n, n)) (list_or (pm_nodes pm))),
          ma_groups = jm_of (map (\<lambda>g. (grp_id g, g)) (list_or (pm_groups pm))),
          ma_combined = None\<rparr>)"

subsection \<open>The contract between the loops and the server\<close>

text \<open>All the items a client sees that follows the cursors from \<open>c\<close>.\<close>

fun gather :: "(nat \<Rightarrow> 'e list \<times> nat option) \<Rightarrow> nat \<Rightarrow> nat \<Rightarrow> 'e list option" where
  "gather fetch 0 c = None"
| "gather fetch (Suc fuel) c =
     (case snd (fetch c) of
        None \<Rightarrow> Some (fst (fetch c))
      | Some c' \<Rightarrow> map_option ((@) (fst (fetch c))) (gather fetch fuel c'))"

text \<open>
  \<open>fetch c\<close> answers the request with cursor \<open>c\<close>: the next \<open>limit\<close> items, and where to go on.
\<close>

locale paged_api =
  fixes fetch :: "nat \<Rightarrow> 'e list \<times> nat option" and items :: "'e list" and limit :: nat
  assumes limit_pos: "0 < limit"
    and fetch_items: "c \<le> length items \<Longrightarrow> fst (fetch c) = take limit (drop c items)"
    and fetch_next: "c \<le> length items \<Longrightarrow>
      snd (fetch c) = (if c + limit < length items then Some (c + limit) else None)"
begin

lemma gather_all:
  "c \<le> length items \<Longrightarrow> length items - c < fuel * limit \<Longrightarrow> gather fetch fuel c = Some (drop c items)"
proof (induction fuel arbitrary: c)
  case 0
  then show ?case by simp
next
  case (Suc fuel)
  show ?case
  proof (cases "c + limit < length items")
    case True
    then have "gather fetch fuel (c + limit) = Some (drop (c + limit) items)"
      using Suc.prems by (intro Suc.IH) auto
    moreover have "take limit (drop c items) @ drop (c + limit) items = drop c items"
      by (metis append_take_drop_id drop_drop add.commute)
    ultimately show ?thesis
      using True Suc.prems(1) by (simp add: fetch_items fetch_next)
  next
    case False
    with Suc.prems show ?thesis by (simp add: fetch_items fetch_next)
  qed
qed

end

lemma aggregateEdgeViews_items:
  "c \<le> length xs \<Longrightarrow> fst (aggregateEdgeViews xs c n) = take n (drop c xs)"
  by (simp add: aggregateEdgeViews_def Let_def)

lemma aggregateEdgeViews_next:
  "c \<le> length xs \<Longrightarrow>
     pi_next (snd (aggregateEdgeViews xs c n)) = (if c + n < length xs then Some (c + n) else None)"
  by (simp add: aggregateEdgeViews_def Let_def)

definition edge_fetch :: "'a list \<Rightarrow> nat \<Rightarrow> 'a list \<times> nat option" where
  "edge_fetch xs c = map_prod id pi_next (aggregateEdgeViews xs c 100)"

interpretation edge_api: paged_api "edge_fetch xs" xs 100 for xs :: "'a list"
  by unfold_locales (simp_all add: edge_fetch_def aggregateEdgeViews_items aggregateEdgeViews_next)

subsection \<open>The edge loop collects what the server pages out\<close>

definition go_edge_server :: "edge_rec list \<Rightarrow> int option \<Rightarrow> edge_request \<Rightarrow> string + edge_page" where
  "go_edge_server xs head rq =
     (case aggregateEdgeViews xs (rq_cursor rq) (rq_limit rq) of
        (es, p) \<Rightarrow> Inr \<lparr>ep_head = head, ep_edges = es, ep_next = pi_next p\<rparr>)"

lemma edges_loop_gather:
  "edges_loop (go_edge_server xs head) ref focus head fuel c m =
     map_option (\<lambda>es. Inr (jm.put_all edge_digest es m)) (gather (edge_fetch xs) fuel c)"
proof (induction fuel arbitrary: c m)
  case 0
  then show ?case by simp
next
  case (Suc fuel)
  obtain es p where v: "aggregateEdgeViews xs c 100 = (es, p)" by fastforce
  have r: "go_edge_server xs head \<lparr>rq_ref = ref, rq_focus = focus, rq_cursor = c, rq_limit = 100\<rparr> =
      Inr \<lparr>ep_head = head, ep_edges = es, ep_next = pi_next p\<rparr>"
    by (simp add: go_edge_server_def v)
  have f: "edge_fetch xs c = (es, pi_next p)"
    by (simp add: edge_fetch_def v)
  show ?case
    by (simp add: r f Suc.IH jm.put_all_def Let_def option.map_comp o_def split: option.splits)
qed

lemma jm_of_put_all:
  "jm_of (map (\<lambda>e. (key e, e)) es) = jm.put_all key es []"
  by (simp add: jm_of_def jm.put_all_def fold_map o_def)

lemma put_all_distinct_lookup:
  assumes "distinct (map key es)"
  shows "e \<in> set es \<Longrightarrow> jm_get (jm.put_all key es m) (key e) = Some e"
  using jm.lookup_put_all_in [of "key e" key es m] assms
  by (auto simp: distinct_map inj_on_def)

lemma jm_inv_put_all: "jm_inv m \<Longrightarrow> jm_inv (jm.put_all key es m)"
  by (rule jm.good_put_all)

lemma put_all_lookup_iff:
  assumes "distinct (map key es)"
  shows "jm_get (jm.put_all key es []) (key v) = Some v \<longleftrightarrow> v \<in> set es"
proof (cases "key v \<in> key ` set es")
  case True
  then obtain u where u: "u \<in> set es" "key u = key v" by auto
  with put_all_distinct_lookup [OF assms, of u "[]"] assms show ?thesis
    by (auto simp: distinct_map inj_on_def)
next
  case False
  then show ?thesis by (auto simp: jm.lookup_put_all_notin)
qed

text \<open>A map whose values carry their keys lists each key once.\<close>

lemma keys_of_values:
  assumes "jm_inv m" and "\<And>k v. jm_get m k = Some v \<Longrightarrow> key v = k"
  shows "map key (jm_values m) = map fst m"
  unfolding jm_values_def map_map
  by (rule map_cong) (use assms in \<open>auto simp: jm_get_def\<close>)

lemma merged_values:
  assumes "distinct (map key base)" and "distinct (map key xs)"
  shows "set (jm_values (jm.put_all key xs (jm.put_all key base []))) =
    set xs \<union> {e \<in> set base. key e \<notin> key ` set xs}" (is ?vals)
    and "distinct (map key (jm_values (jm.put_all key xs (jm.put_all key base []))))" (is ?once)
proof -
  let ?b = "jm.put_all key base []" and ?m = "jm.put_all key xs (jm.put_all key base [])"
  have bk: "key u = k" if "jm_get ?b k = Some u" for k u
    by (rule jm.keys_of_vals_put_all [OF _ that]) simp
  have keyed: "key u = k" if "jm_get ?m k = Some u" for k u
    by (rule jm.keys_of_vals_put_all [OF bk that])
  have inv: "jm_inv ?m" by (simp add: jm_inv_put_all)
  have "map key (jm_values ?m) = map fst ?m" by (rule keys_of_values [OF inv keyed])
  with inv show ?once by simp
  have vals: "set (jm_values ?m) = {u. jm_get ?m (key u) = Some u}"
    using keyed by (subst jm_values_get) (auto simp: jm_inv_put_all)
  have "jm_get ?m (key v) = Some v \<longleftrightarrow> v \<in> set xs \<or> v \<in> set base \<and> key v \<notin> key ` set xs" for v
  proof (cases "key v \<in> key ` set xs")
    case True
    then obtain u where u: "u \<in> set xs" "key u = key v" by auto
    with put_all_distinct_lookup [OF assms(2), of u ?b]
    have "jm_get ?m (key v) = Some u" by simp
    with u assms(2) True show ?thesis
      by (auto simp: distinct_map inj_on_def)
  next
    case False
    show ?thesis
      unfolding jm.lookup_put_all_notin [OF False] put_all_lookup_iff [OF assms(1)]
      using False by blast
  qed
  then show ?vals unfolding vals by auto
qed

subsection \<open>Properties\<close>

text \<open>
  Claim C2. Against the Go server's cursor arithmetic the edge loop returns after at most one
  request per hundred edges (and one more), whatever the number of edges; when digests identify
  edges, the result is every edge the server holds for the focus together with the backbone
  edges the server did not send again, each of them once.
\<close>

theorem neighborhoodEdges_complete:
  assumes "length xs < fuel * 100"
    and "truthy (t_edgeIndexRef t)" and "focus \<noteq> []"
    and "distinct (map edge_digest (base_edges t))" and "distinct (map edge_digest xs)"
  shows "\<exists>es. neighborhoodEdges (go_edge_server xs (t_headSequence t)) fuel t focus = Some (Inr es) \<and>
    set es = set xs \<union> {e \<in> set (base_edges t). edge_digest e \<notin> edge_digest ` set xs} \<and>
    distinct (map edge_digest es)"
proof -
  have "gather (edge_fetch xs) fuel 0 = Some xs"
    using edge_api.gather_all [of 0 xs fuel] assms(1) by simp
  then have "neighborhoodEdges (go_edge_server xs (t_headSequence t)) fuel t focus =
      Some (Inr (jm_values (jm.put_all edge_digest xs (jm.put_all edge_digest (base_edges t) []))))"
    using assms(2,3) by (simp add: neighborhoodEdges_def edges_loop_gather jm_of_put_all)
  then show ?thesis
    using merged_values [OF assms(4,5)] by simp
qed

definition sample_topology :: topology where
  "sample_topology =
     \<lparr>t_groups = None, t_nodes = None, t_lanes = None,
      t_edges = Some [sample_edge ''group:a'' ''group:b''\<lparr>edge_digest := Some ''d0''\<rparr>,
                      sample_edge ''group:a'' ''group:c''\<lparr>edge_digest := Some ''d1''\<rparr>],
      t_backbone = None, t_edgePage = None, t_edgeIndexRef = Some ''aggregate-edges:1'',
      t_headSequence = Some 7, t_graphRevision = None\<rparr>"

theorem neighborhoodEdges_complete_witness:
  "\<exists>es. neighborhoodEdges
      (go_edge_server [sample_edge ''node:x'' ''node:y''\<lparr>edge_digest := Some ''d1''\<rparr>] (Some 7))
      1 sample_topology ''x'' = Some (Inr es) \<and> length es = 2"
proof -
  let ?xs = "[sample_edge ''node:x'' ''node:y''\<lparr>edge_digest := Some ''d1''\<rparr>]"
  have "length ?xs < 1 * 100" "truthy (t_edgeIndexRef sample_topology)" "''x'' \<noteq> []"
    "distinct (map edge_digest (base_edges sample_topology))" "distinct (map edge_digest ?xs)"
    by (simp_all add: sample_topology_def base_edges_def sample_edge_def)
  from neighborhoodEdges_complete [OF this] obtain es where
    es: "neighborhoodEdges (go_edge_server ?xs (t_headSequence sample_topology)) 1 sample_topology ''x'' = Some (Inr es)"
      "set es = set ?xs \<union> {e \<in> set (base_edges sample_topology). edge_digest e \<notin> edge_digest ` set ?xs}"
      "distinct (map edge_digest es)"
    by blast
  have "set es = set (?xs @ filter (\<lambda>e. edge_digest e \<notin> edge_digest ` set ?xs) (base_edges sample_topology))"
    unfolding es(2) by auto
  then have "edge_digest ` set es = {Some ''d0'', Some ''d1''}"
    by (simp add: sample_topology_def base_edges_def sample_edge_def insert_commute)
  with distinct_card [OF es(3)] have "length es = 2" by simp
  with es(1) show ?thesis by (auto simp: sample_topology_def)
qed

end
