(* ===== verification/ExplorerState.thy ===== *)
theory ExplorerState
  imports ExplorerGraph
begin

text \<open>
  The Explorer's address bar and theme (\<open>app.ts\<close>): \<open>writeURL\<close>, \<open>readURL\<close>, \<open>setTheme\<close>,
  \<open>cycleTheme\<close>, \<open>resolveTheme\<close>, and \<open>short\<close>. Query parameters are the list of name/value pairs
  of a \<open>URLSearchParams\<close>; its percent encoding belongs to the platform.
\<close>

subsection \<open>The part of the state the address bar shows\<close>

datatype view = MapView | ExecutionView | TimelineView | OperationsView

record nav =
  nv_view :: view
  nv_expanded :: string
  nv_selectedGroup :: string
  nv_selectedNode :: string
  nv_search :: string

fun view_name :: "view \<Rightarrow> string" where
  "view_name MapView = ''map''"
| "view_name ExecutionView = ''execution''"
| "view_name TimelineView = ''timeline''"
| "view_name OperationsView = ''operations''"

type_synonym params = "(string \<times> string) list"

definition set_param :: "bool \<Rightarrow> string \<Rightarrow> string \<Rightarrow> params \<Rightarrow> params" where
  "set_param cond k v ps = (if cond then jm_set ps k v else ps)"

definition writeURL :: "nav \<Rightarrow> params" where
  "writeURL s =
     set_param (nv_search s \<noteq> []) ''q'' (nv_search s)
       (set_param (nv_selectedNode s \<noteq> []) ''node'' (nv_selectedNode s)
         (set_param (nv_expanded s \<noteq> []) ''group'' (nv_expanded s)
           (set_param (nv_view s \<noteq> MapView) ''view'' (view_name (nv_view s)) [])))"

text \<open>\<open>params.get(k)||''\<close>\<close>

definition get_param :: "params \<Rightarrow> string \<Rightarrow> string" where
  "get_param ps k = js_or (map_of ps k) []"

definition readURL :: "params \<Rightarrow> nav" where
  "readURL ps =
     (let v = map_of ps ''view''
      in \<lparr>nv_view =
             (if v = Some ''execution'' then ExecutionView
              else if v = Some ''timeline'' then TimelineView
              else if v = Some ''operations'' then OperationsView
              else MapView),
           nv_expanded = get_param ps ''group'',
           nv_selectedGroup = get_param ps ''group'',
           nv_selectedNode = get_param ps ''node'',
           nv_search = get_param ps ''q''\<rparr>)"

lemma writeURL_get:
  "map_of (writeURL s) ''view'' = (if nv_view s = MapView then None else Some (view_name (nv_view s)))"
  "get_param (writeURL s) ''group'' = nv_expanded s"
  "get_param (writeURL s) ''node'' = nv_selectedNode s"
  "get_param (writeURL s) ''q'' = nv_search s"
  by (simp_all add: writeURL_def set_param_def get_param_def)

text \<open>
  Claim C37. Reading back what \<open>writeURL\<close> wrote restores the view, the expanded group, the
  selected node and the search text; the group selection becomes the expanded group. Writing
  the restored state gives the same address again.
\<close>

theorem url_roundtrip:
  "readURL (writeURL s) = s\<lparr>nv_selectedGroup := nv_expanded s\<rparr> \<and>
   writeURL (readURL (writeURL s)) = writeURL s"
proof
  show *: "readURL (writeURL s) = s\<lparr>nv_selectedGroup := nv_expanded s\<rparr>"
    by (cases "nv_view s"; cases s) (simp_all add: readURL_def writeURL_get)
  show "writeURL (readURL (writeURL s)) = writeURL s"
    unfolding * by (simp add: writeURL_def)
qed

subsection \<open>Themes\<close>

datatype theme = System | Light | Dark

text \<open>What \<open>setTheme\<close> records: the state, the stored preference, and the announced successor.\<close>

record theme_state =
  th_theme :: theme
  th_stored :: theme
  th_resolved :: theme
  th_next :: theme

definition resolveTheme :: "bool \<Rightarrow> theme \<Rightarrow> theme" where
  "resolveTheme prefersDark t = (if t = Dark \<or> t = System \<and> prefersDark then Dark else Light)"

definition setTheme :: "bool \<Rightarrow> theme \<Rightarrow> theme_state" where
  "setTheme prefersDark t =
     \<lparr>th_theme = t, th_stored = t, th_resolved = resolveTheme prefersDark t,
      th_next = (if t = System then Light else if t = Light then Dark else System)\<rparr>"

definition cycleTheme :: "bool \<Rightarrow> theme_state \<Rightarrow> theme_state" where
  "cycleTheme prefersDark s =
     setTheme prefersDark
       (if th_theme s = System then Light else if th_theme s = Light then Dark else System)"

text \<open>
  The theme button does what its label announces, stores what it shows, resolves to
  dark exactly for the dark theme or a dark system, and returns to the start after three presses.
\<close>

lemma theme_cycle:
  "th_theme (cycleTheme d (setTheme d t)) = th_next (setTheme d t) \<and>
   th_stored (cycleTheme d s) = th_theme (cycleTheme d s) \<and>
   (th_resolved (cycleTheme d s) = Dark \<longleftrightarrow>
      th_theme (cycleTheme d s) = Dark \<or> th_theme (cycleTheme d s) = System \<and> d) \<and>
   cycleTheme d (cycleTheme d (cycleTheme d (setTheme d t))) = setTheme d t"
  by (cases t) (auto simp: cycleTheme_def setTheme_def resolveTheme_def)

subsection \<open>Class names of statuses\<close>

lemma lower_class: "class_char c \<Longrightarrow> lower_char c = c"
  by (auto simp: class_char_def lower_char_def Let_def)

lemma dash_class: "class_char CHR ''-''"
  by (simp add: class_char_def)

lemma safeClass_fixed: "s \<noteq> [] \<Longrightarrow> set s \<subseteq> {c. class_char c} \<Longrightarrow> safeClass (Some s) = s"
  unfolding safeClass_def by (auto intro!: map_idI simp: lower_class)

lemma safeClass_chars: "safeClass v \<noteq> [] \<and> set (safeClass v) \<subseteq> {c. class_char c}"
  by (auto simp: safeClass_def dash_class js_or_def split: option.splits)

text \<open>
  The class name made of a status is a single nonempty token over lower case letters,
  digits and dashes, whatever the status text holds, and sanitising it again changes nothing.
\<close>

theorem safeClass_token:
  "safeClass v \<noteq> [] \<and> set (safeClass v) \<subseteq> {c. class_char c} \<and>
   safeClass (Some (safeClass v)) = safeClass v"
  using safeClass_chars [of v] safeClass_fixed [of "safeClass v"] by blast

end
