(* ===== verification/ExplorerLoads.thy ===== *)
theory ExplorerLoads
  imports ExplorerGraph
begin

text \<open>
  The overlapping asynchronous loads of the Explorer (\<open>app.ts\<close>: \<open>loadProject\<close> with
  \<open>renderGraph\<close> and \<open>layoutGraph\<close>, started by \<open>toggleGroup\<close>, \<open>collapseGroup\<close>,
  \<open>selectLocatedNode\<close>, \<open>pollHead\<close>, the refresh button and \<open>popstate\<close>). Each load in flight is a
  record with the place it is suspended at; one step of the relation is one turn of the event
  loop: a handler that starts a load, or the continuation of one load. A fetch whose signal is
  aborted rejects with \<open>AbortError\<close>; a worker that was terminated never answers.
\<close>

subsection \<open>State\<close>

text \<open>Where a load is suspended. \<open>AtLayout r\<close> waits for the worker of layout request \<open>r\<close>.\<close>

datatype load_pc = AtMap | AtGroup string | AtEdges | AtLayout nat

text \<open>
  What the caller does once \<open>await loadProject(...)\<close> returns: \<open>collapseGroup\<close> drops the saved
  viewport, \<open>selectLocatedNode\<close> selects the located node, the other callers do nothing.
\<close>

datatype resume = Nothing | DropViewport | ThenSelect string

record load =
  ld_id :: nat
  ld_aborted :: bool
  ld_pc :: load_pc
  ld_resume :: resume

record explorer =
  xs_expanded :: string
  xs_selectedGroup :: string
  xs_selectedNode :: string
  xs_viewport :: "string option"
  xs_busy :: bool
  xs_controller :: "nat option"
  xs_next :: nat
  xs_loads :: "load list"
  xs_worker :: "nat option"
  xs_requestID :: nat
  xs_map :: "nat option"
  xs_layout :: "nat option"
  xs_error :: bool
  xs_polls :: nat

text \<open>
  \<open>xs_map\<close> and \<open>xs_layout\<close> hold the load that wrote \<open>state.map\<close> and \<open>state.layout\<close>;
  \<open>xs_error\<close> is the visible error of \<open>showError\<close> / \<open>clearError\<close>; \<open>xs_viewport\<close> is the focus
  saved in \<open>state.viewport\<close>; \<open>xs_next\<close> numbers the abort controllers; \<open>xs_polls\<close> counts the
  head requests of \<open>pollHead\<close> in flight.
\<close>

definition init_explorer :: "string \<Rightarrow> string \<Rightarrow> explorer" where
  "init_explorer gid nid =
     \<lparr>xs_expanded = gid, xs_selectedGroup = gid, xs_selectedNode = nid, xs_viewport = None,
      xs_busy = False, xs_controller = None, xs_next = 0, xs_loads = [], xs_worker = None,
      xs_requestID = 0, xs_map = None, xs_layout = None, xs_error = False, xs_polls = 0\<rparr>"

definition set_pc :: "nat \<Rightarrow> load_pc \<Rightarrow> load list \<Rightarrow> load list" where
  "set_pc c pc ls = map (\<lambda>l. if ld_id l = c then l\<lparr>ld_pc := pc\<rparr> else l) ls"

definition abort :: "nat option \<Rightarrow> load list \<Rightarrow> load list" where
  "abort ctl ls = map (\<lambda>l. if Some (ld_id l) = ctl then l\<lparr>ld_aborted := True\<rparr> else l) ls"

subsection \<open>The pieces of loadProject\<close>

text \<open>Up to the first \<open>await\<close>.\<close>

definition start_load :: "resume \<Rightarrow> explorer \<Rightarrow> explorer" where
  "start_load k s =
     s\<lparr>xs_loads := \<lparr>ld_id = xs_next s, ld_aborted = False, ld_pc = AtMap, ld_resume = k\<rparr> #
                    abort (xs_controller s) (xs_loads s),
       xs_controller := Some (xs_next s), xs_next := Suc (xs_next s), xs_busy := True\<rparr>"

text \<open>\<open>selectNode\<close>, without the detail request, which starts no load.\<close>

definition selectNode :: "string \<Rightarrow> explorer \<Rightarrow> explorer" where
  "selectNode i s = s\<lparr>xs_selectedNode := i, xs_selectedGroup := []\<rparr>"

fun resume_with :: "resume \<Rightarrow> explorer \<Rightarrow> explorer" where
  "resume_with Nothing s = s"
| "resume_with DropViewport s = s\<lparr>xs_viewport := None\<rparr>"
| "resume_with (ThenSelect i) s = selectNode i s"

text \<open>The \<open>finally\<close> block, then the rest of the caller.\<close>

definition finish :: "nat \<Rightarrow> explorer \<Rightarrow> explorer" where
  "finish c s =
     (let ks = map ld_resume (filter (\<lambda>l. ld_id l = c) (xs_loads s));
          s' = s\<lparr>xs_loads := filter (\<lambda>l. ld_id l \<noteq> c) (xs_loads s)\<rparr>;
          t = (if xs_controller s = Some c then s'\<lparr>xs_controller := None, xs_busy := False\<rparr> else s')
      in fold resume_with ks t)"

text \<open>The \<open>catch\<close> block: an \<open>AbortError\<close> is silent, any other error is shown.\<close>

definition fail :: "nat \<Rightarrow> explorer \<Rightarrow> explorer" where
  "fail c s = finish c (s\<lparr>xs_error := True\<rparr>)"

text \<open>\<open>layoutGraph\<close>: terminate the previous worker, start a new one under a new request id.\<close>

definition start_layout :: "nat \<Rightarrow> explorer \<Rightarrow> explorer" where
  "start_layout c s =
     (let r = Suc (xs_requestID s)
      in s\<lparr>xs_requestID := r, xs_worker := Some r, xs_loads := set_pc c (AtLayout r) (xs_loads s)\<rparr>)"

text \<open>
  \<open>renderGraph\<close> up to its next suspension: \<open>neighborhoodEdges\<close> asks the server only when
  something is selected and the topology has an edge index (\<open>indexed\<close>).
\<close>

definition enter_render :: "nat \<Rightarrow> bool \<Rightarrow> explorer \<Rightarrow> explorer" where
  "enter_render c indexed s =
     (if str_or (xs_selectedGroup s) (xs_selectedNode s) \<noteq> [] \<and> indexed
      then s\<lparr>xs_loads := set_pc c AtEdges (xs_loads s)\<rparr>
      else start_layout c s)"

text \<open>The project map has arrived.\<close>

definition after_map :: "nat \<Rightarrow> bool \<Rightarrow> explorer \<Rightarrow> explorer" where
  "after_map c indexed s =
     (if xs_controller s \<noteq> Some c then finish c s
      else (let s' = s\<lparr>xs_map := Some c\<rparr>
            in if xs_expanded s \<noteq> []
               then s'\<lparr>xs_loads := set_pc c (AtGroup (xs_expanded s)) (xs_loads s')\<rparr>
               else enter_render c indexed s'))"

text \<open>The layout has arrived: draw it, clear the error, write the address, finish.\<close>

definition after_layout :: "nat \<Rightarrow> explorer \<Rightarrow> explorer" where
  "after_layout c s = finish c (s\<lparr>xs_layout := Some c, xs_error := False\<rparr>)"

subsection \<open>Handlers\<close>

definition collapseGroup :: "explorer \<Rightarrow> explorer" where
  "collapseGroup s = start_load DropViewport (s\<lparr>xs_expanded := [], xs_selectedGroup := []\<rparr>)"

definition toggleGroup :: "string \<Rightarrow> explorer \<Rightarrow> explorer" where
  "toggleGroup g s =
     (if xs_busy s then s
      else if xs_expanded s = g then collapseGroup s
      else start_load Nothing (s\<lparr>xs_viewport := (case xs_viewport s of
                              None \<Rightarrow> Some (str_or (xs_selectedGroup s) (xs_selectedNode s))
                            | Some v \<Rightarrow> Some v),
                         xs_expanded := g, xs_selectedGroup := g, xs_selectedNode := []\<rparr>))"

text \<open>\<open>selectLocatedNode\<close> up to its first \<open>await\<close>; \<open>parent\<close> is the last ancestor or empty.\<close>

definition selectLocatedNode :: "string \<Rightarrow> string \<Rightarrow> explorer \<Rightarrow> explorer" where
  "selectLocatedNode parent i s =
     (if parent \<noteq> [] \<and> xs_expanded s \<noteq> parent
      then start_load (ThenSelect i)
             (s\<lparr>xs_selectedNode := [], xs_selectedGroup := [], xs_expanded := parent\<rparr>)
      else selectNode i s)"

definition closeInspector :: "explorer \<Rightarrow> explorer" where
  "closeInspector s = s\<lparr>xs_selectedNode := [], xs_selectedGroup := xs_expanded s\<rparr>"

definition escapeKey :: "explorer \<Rightarrow> explorer" where
  "escapeKey s =
     (if xs_selectedNode s \<noteq> [] then closeInspector s
      else if xs_expanded s \<noteq> [] then collapseGroup s else s)"

definition popState :: "string \<Rightarrow> string \<Rightarrow> explorer \<Rightarrow> explorer" where
  "popState gid nid s =
     start_load Nothing (s\<lparr>xs_loads := abort (xs_controller s) (xs_loads s), xs_expanded := gid,
                           xs_selectedGroup := gid, xs_selectedNode := nid\<rparr>)"

text \<open>
  \<open>pollHead\<close>: the guard before the head request (\<open>away\<close> is a hidden page or a focused input),
  and its continuation. The guard is not looked at again when the answer arrives.
\<close>

datatype head_answer = HeadChanged | HeadSame | HeadError

definition pollHead :: "bool \<Rightarrow> explorer \<Rightarrow> explorer" where
  "pollHead away s =
     (if xs_busy s \<or> xs_selectedNode s \<noteq> [] \<or> xs_selectedGroup s \<noteq> [] \<or> away then s
      else s\<lparr>xs_polls := Suc (xs_polls s)\<rparr>)"

definition pollAnswer :: "head_answer \<Rightarrow> explorer \<Rightarrow> explorer" where
  "pollAnswer a s =
     (let s' = s\<lparr>xs_polls := xs_polls s - 1\<rparr>
      in case a of
           HeadChanged \<Rightarrow> start_load Nothing s'
         | HeadSame \<Rightarrow> s'\<lparr>xs_error := False\<rparr>
         | HeadError \<Rightarrow> s'\<lparr>xs_error := True\<rparr>)"

subsection \<open>Turns of the event loop\<close>

definition fetching :: "load_pc \<Rightarrow> bool" where
  "fetching pc \<longleftrightarrow> (case pc of AtLayout _ \<Rightarrow> False | _ \<Rightarrow> True)"

text \<open>The user and the browser: handlers that may run at any turn.\<close>

inductive user_step :: "explorer \<Rightarrow> explorer \<Rightarrow> bool" where
  refresh: "user_step s (start_load Nothing s)"
| toggle: "user_step s (toggleGroup g s)"
| select: "user_step s (selectNode i s)"
| locate: "user_step s (selectLocatedNode p i s)"
| close: "user_step s (closeInspector s)"
| escape: "user_step s (escapeKey s)"
| pop: "user_step s (popState g i s)"
| poll: "user_step s (pollHead away s)"
| polled: "0 < xs_polls s \<Longrightarrow> user_step s (pollAnswer a s)"

text \<open>Continuations of load \<open>c\<close>.\<close>

inductive load_step :: "nat \<Rightarrow> explorer \<Rightarrow> explorer \<Rightarrow> bool" where
  map_ok: "\<lbrakk>l \<in> set (xs_loads s); ld_id l = c; ld_pc l = AtMap; \<not> ld_aborted l\<rbrakk>
     \<Longrightarrow> load_step c s (after_map c indexed s)"
| group_ok: "\<lbrakk>l \<in> set (xs_loads s); ld_id l = c; ld_pc l = AtGroup g; \<not> ld_aborted l\<rbrakk>
     \<Longrightarrow> load_step c s (enter_render c indexed s)"
| edges_ok: "\<lbrakk>l \<in> set (xs_loads s); ld_id l = c; ld_pc l = AtEdges; \<not> ld_aborted l\<rbrakk>
     \<Longrightarrow> load_step c s (start_layout c s)"
| layout_ok: "\<lbrakk>l \<in> set (xs_loads s); ld_id l = c; ld_pc l = AtLayout r; xs_worker s = Some r\<rbrakk>
     \<Longrightarrow> load_step c s (after_layout c s)"
| fetch_err: "\<lbrakk>l \<in> set (xs_loads s); ld_id l = c; fetching (ld_pc l); \<not> ld_aborted l\<rbrakk>
     \<Longrightarrow> load_step c s (fail c s)"
| layout_err: "\<lbrakk>l \<in> set (xs_loads s); ld_id l = c; ld_pc l = AtLayout r; xs_worker s = Some r\<rbrakk>
     \<Longrightarrow> load_step c s (fail c s)"
| aborted: "\<lbrakk>l \<in> set (xs_loads s); ld_id l = c; fetching (ld_pc l); ld_aborted l\<rbrakk>
     \<Longrightarrow> load_step c s (finish c s)"

inductive reachable :: "explorer \<Rightarrow> bool" where
  start: "reachable (start_load Nothing (init_explorer g i))"
| user: "reachable s \<Longrightarrow> user_step s t \<Longrightarrow> reachable t"
| load: "reachable s \<Longrightarrow> load_step c s t \<Longrightarrow> reachable t"

inductive load_steps :: "nat \<Rightarrow> explorer \<Rightarrow> explorer \<Rightarrow> bool" for c where
  stop: "load_steps c s s"
| more: "load_step c s t \<Longrightarrow> load_steps c t u \<Longrightarrow> load_steps c s u"

subsection \<open>The invariant\<close>

text \<open>
  The page is busy exactly while a load is current; the current load is in flight, not aborted,
  and when it waits for a layout its worker is the live one; every other load in flight is
  aborted; load and request numbers are fresh.
\<close>

definition current_ok :: "explorer \<Rightarrow> bool" where
  "current_ok s \<longleftrightarrow> (\<forall>c. xs_controller s = Some c \<longrightarrow>
     (\<exists>l \<in> set (xs_loads s). ld_id l = c \<and> \<not> ld_aborted l \<and>
        (\<forall>r. ld_pc l = AtLayout r \<longrightarrow> xs_worker s = Some r)))"

definition loads_inv :: "explorer \<Rightarrow> bool" where
  "loads_inv s \<longleftrightarrow>
     xs_busy s = (xs_controller s \<noteq> None) \<and> current_ok s \<and>
     (\<forall>l \<in> set (xs_loads s). ld_aborted l \<or> xs_controller s = Some (ld_id l)) \<and>
     distinct (map ld_id (xs_loads s)) \<and>
     (\<forall>l \<in> set (xs_loads s). ld_id l < xs_next s)"

lemma ids_abort [simp]: "map ld_id (abort c ls) = map ld_id ls"
  by (simp add: abort_def comp_def)

lemma ids_set_pc [simp]: "map ld_id (set_pc c pc ls) = map ld_id ls"
  by (simp add: set_pc_def comp_def)

lemma in_abort: "l \<in> set (abort c ls) \<Longrightarrow>
    \<exists>l' \<in> set ls. ld_id l = ld_id l' \<and> (ld_aborted l \<longleftrightarrow> ld_aborted l' \<or> c = Some (ld_id l'))"
  by (auto simp: abort_def split: if_splits)

lemma start_load_inv: "loads_inv s \<Longrightarrow> loads_inv (start_load k s)"
proof -
  assume inv: "loads_inv s"
  let ?ls = "abort (xs_controller s) (xs_loads s)"
  have ab: "ld_aborted l \<and> ld_id l < xs_next s" if "l \<in> set ?ls" for l
    using in_abort [OF that] inv by (auto simp: loads_inv_def)
  then have "xs_next s \<notin> ld_id ` set ?ls" by (metis imageE less_irrefl)
  with inv ab show ?thesis
    by (auto simp: loads_inv_def start_load_def current_ok_def intro: less_SucI)
qed

text \<open>Changing only the selection, the drawing or the error keeps the invariant.\<close>

lemma loads_inv_select [simp]:
  "loads_inv (s\<lparr>xs_expanded := a\<rparr>) = loads_inv s"
  "loads_inv (s\<lparr>xs_selectedGroup := a\<rparr>) = loads_inv s"
  "loads_inv (s\<lparr>xs_selectedNode := a\<rparr>) = loads_inv s"
  "loads_inv (s\<lparr>xs_viewport := v\<rparr>) = loads_inv s"
  "loads_inv (s\<lparr>xs_map := m\<rparr>) = loads_inv s"
  "loads_inv (s\<lparr>xs_layout := m\<rparr>) = loads_inv s"
  "loads_inv (s\<lparr>xs_error := e\<rparr>) = loads_inv s"
  "loads_inv (s\<lparr>xs_polls := n\<rparr>) = loads_inv s"
  by (simp_all add: loads_inv_def current_ok_def)

lemma abort_abort [simp]: "abort c (abort c ls) = abort c ls"
  by (simp add: abort_def comp_def)

lemma popState_start:
  "popState g i s = start_load Nothing (s\<lparr>xs_expanded := g, xs_selectedGroup := g, xs_selectedNode := i\<rparr>)"
  by (simp add: popState_def start_load_def)

lemma user_step_inv: "user_step s t \<Longrightarrow> loads_inv s \<Longrightarrow> loads_inv t"
  by (induction rule: user_step.induct)
    (simp_all add: start_load_inv toggleGroup_def collapseGroup_def selectNode_def popState_start
      selectLocatedNode_def closeInspector_def escapeKey_def pollHead_def pollAnswer_def Let_def
      split: head_answer.split)

lemma resume_inv: "loads_inv (fold resume_with ks s) = loads_inv s"
proof (induction ks arbitrary: s)
  case (Cons k ks)
  then show ?case by (cases k) (simp_all add: selectNode_def)
qed simp

lemma resume_fields [simp]:
  "xs_loads (fold resume_with ks s) = xs_loads s"
  "xs_controller (fold resume_with ks s) = xs_controller s"
  "xs_busy (fold resume_with ks s) = xs_busy s"
  "xs_worker (fold resume_with ks s) = xs_worker s"
  "xs_requestID (fold resume_with ks s) = xs_requestID s"
  "xs_error (fold resume_with ks s) = xs_error s"
  "xs_layout (fold resume_with ks s) = xs_layout s"
  "xs_map (fold resume_with ks s) = xs_map s"
proof (induction ks arbitrary: s)
  case (Cons k ks)
  { case 1 with Cons show ?case by (cases k) (simp_all add: selectNode_def) next
    case 2 with Cons show ?case by (cases k) (simp_all add: selectNode_def) next
    case 3 with Cons show ?case by (cases k) (simp_all add: selectNode_def) next
    case 4 with Cons show ?case by (cases k) (simp_all add: selectNode_def) next
    case 5 with Cons show ?case by (cases k) (simp_all add: selectNode_def) next
    case 6 with Cons show ?case by (cases k) (simp_all add: selectNode_def) next
    case 7 with Cons show ?case by (cases k) (simp_all add: selectNode_def) next
    case 8 with Cons show ?case by (cases k) (simp_all add: selectNode_def) }
qed simp_all

lemma distinct_drop: "distinct (map ld_id ls) \<Longrightarrow> distinct (map ld_id (filter P ls))"
  by (induction ls) auto

lemma finish_inv: "loads_inv s \<Longrightarrow> loads_inv (finish c s)"
  unfolding finish_def Let_def resume_inv
  by (fastforce simp: loads_inv_def current_ok_def intro: distinct_drop)

lemma fail_inv: "loads_inv s \<Longrightarrow> loads_inv (fail c s)"
  by (simp add: fail_def finish_inv)

lemma after_layout_inv: "loads_inv s \<Longrightarrow> loads_inv (after_layout c s)"
proof -
  assume "loads_inv s"
  then have "loads_inv (s\<lparr>xs_error := False\<rparr>\<lparr>xs_layout := Some c\<rparr>)" by (simp only: loads_inv_select)
  then show ?thesis by (simp add: after_layout_def finish_inv)
qed

lemma in_set_pc: "l \<in> set (set_pc c pc ls) \<Longrightarrow>
    \<exists>l' \<in> set ls. ld_id l = ld_id l' \<and> ld_aborted l = ld_aborted l'"
  by (auto simp: set_pc_def split: if_splits)

lemma pc_fields [simp]:
  "ld_id (if b then l\<lparr>ld_pc := pc\<rparr> else l) = ld_id l"
  "ld_aborted (if b then l\<lparr>ld_pc := pc\<rparr> else l) = ld_aborted l"
  "ld_pc (if b then l\<lparr>ld_pc := pc\<rparr> else l) = (if b then pc else ld_pc l)"
  by simp_all

lemma current_ok_set_pc:
  assumes "current_ok s" "\<And>r. pc = AtLayout r \<Longrightarrow> xs_controller s = Some c \<and> w = Some r"
    and "xs_controller s = Some c \<or> w = xs_worker s"
  shows "current_ok (s\<lparr>xs_requestID := n, xs_worker := w, xs_loads := set_pc c pc (xs_loads s)\<rparr>)"
proof -
  have "\<exists>l \<in> set (set_pc c pc (xs_loads s)). ld_id l = d \<and> \<not> ld_aborted l \<and>
          (\<forall>r. ld_pc l = AtLayout r \<longrightarrow> w = Some r)" if d: "xs_controller s = Some d" for d
  proof -
    from assms(1) d obtain l where l: "l \<in> set (xs_loads s)" "ld_id l = d" "\<not> ld_aborted l"
      "\<forall>r. ld_pc l = AtLayout r \<longrightarrow> xs_worker s = Some r" unfolding current_ok_def by blast
    let ?l = "if ld_id l = c then l\<lparr>ld_pc := pc\<rparr> else l"
    have "?l \<in> set (set_pc c pc (xs_loads s))" using l(1) by (auto simp: set_pc_def)
    moreover have "\<forall>r. ld_pc ?l = AtLayout r \<longrightarrow> w = Some r" using l d assms(2,3) by auto
    ultimately show ?thesis using l(2,3) by (metis pc_fields(1,2))
  qed
  then show ?thesis by (simp add: current_ok_def)
qed

lemma loads_inv_set_pc:
  assumes "loads_inv s" "\<And>r. pc = AtLayout r \<Longrightarrow> xs_controller s = Some c \<and> w = Some r"
    and "xs_controller s = Some c \<or> w = xs_worker s"
  shows "loads_inv (s\<lparr>xs_requestID := n, xs_worker := w, xs_loads := set_pc c pc (xs_loads s)\<rparr>)"
proof -
  from assms(1) have "current_ok s" by (simp add: loads_inv_def)
  from current_ok_set_pc [where n = n and pc = pc, OF this assms(2,3)] assms(1)
  show ?thesis by (auto simp: loads_inv_def dest!: in_set_pc)
qed

lemma set_pc_inv:
  assumes "loads_inv s" "fetching pc"
  shows "loads_inv (s\<lparr>xs_loads := set_pc c pc (xs_loads s)\<rparr>)"
  using loads_inv_set_pc [OF assms(1), of pc c "xs_worker s" "xs_requestID s"] assms(2)
  by (simp add: fetching_def split: load_pc.splits)

lemma start_layout_inv:
  assumes "loads_inv s" "xs_controller s = Some c"
  shows "loads_inv (start_layout c s)"
  using loads_inv_set_pc [OF assms(1), of "AtLayout (Suc (xs_requestID s))" c] assms(2)
  by (simp add: start_layout_def Let_def)

lemma enter_render_inv:
  assumes "loads_inv s" "xs_controller s = Some c"
  shows "loads_inv (enter_render c indexed s)"
  using assms by (simp add: enter_render_def set_pc_inv start_layout_inv fetching_def)

lemma after_map_inv:
  assumes "loads_inv s"
  shows "loads_inv (after_map c indexed s)"
proof -
  have "loads_inv (s\<lparr>xs_map := Some c\<rparr>)" using assms by simp
  from set_pc_inv [OF this, of "AtGroup (xs_expanded s)" c] enter_render_inv [OF this]
  show ?thesis using assms by (simp add: after_map_def finish_inv fetching_def Let_def)
qed

lemma running_is_current:
  assumes "loads_inv s" "l \<in> set (xs_loads s)" "\<not> ld_aborted l"
  shows "xs_controller s = Some (ld_id l)"
  using assms by (auto simp: loads_inv_def)

lemma load_step_inv: "load_step c s t \<Longrightarrow> loads_inv s \<Longrightarrow> loads_inv t"
proof (induction rule: load_step.induct)
  case (group_ok l s c g indexed)
  then show ?case using running_is_current enter_render_inv by metis
next
  case (edges_ok l s c)
  then show ?case using running_is_current start_layout_inv by metis
qed (simp_all add: after_map_inv after_layout_inv fail_inv finish_inv)

lemma init_inv: "loads_inv (init_explorer g i)"
  by (simp add: init_explorer_def loads_inv_def current_ok_def)

lemma reachable_inv: "reachable s \<Longrightarrow> loads_inv s"
  by (induction rule: reachable.induct)
    (auto intro: start_load_inv init_inv user_step_inv load_step_inv)

lemmas load_defs = start_load_def finish_def fail_def start_layout_def enter_render_def
  after_map_def after_layout_def set_pc_def abort_def Let_def

subsection \<open>Properties\<close>

text \<open>
  Claim C15. In every reachable state the page shows the busy indicator exactly while some load is the
  current one; that load is in flight and not aborted, and if it waits for a layout, its worker is
  the live one; every other load in flight has been aborted.
\<close>

theorem busy_tracks_current:
  "reachable s \<Longrightarrow>
     xs_busy s = (xs_controller s \<noteq> None) \<and>
     (\<forall>c. xs_controller s = Some c \<longrightarrow> (\<exists>l \<in> set (xs_loads s). ld_id l = c \<and> \<not> ld_aborted l \<and>
        (\<forall>r. ld_pc l = AtLayout r \<longrightarrow> xs_worker s = Some r))) \<and>
     (\<forall>l \<in> set (xs_loads s). xs_controller s \<noteq> Some (ld_id l) \<longrightarrow> ld_aborted l)"
  using reachable_inv [of s] by (auto simp: loads_inv_def current_ok_def)

theorem busy_tracks_current_witness:
  "xs_busy (start_load Nothing (init_explorer ''g'' '''')) =
     (xs_controller (start_load Nothing (init_explorer ''g'' '''')) \<noteq> None)"
  using busy_tracks_current [OF reachable.start] by blast

text \<open>The rest of the current load, from any place where it can be suspended.\<close>

lemma finish_idle:
  assumes "xs_controller s = Some c"
  shows "\<not> xs_busy (finish c s)"
  using assms by (simp add: finish_def Let_def)

lemma current_finishes:
  assumes "loads_inv s" "xs_controller s = Some c"
  shows "\<exists>t. load_steps c s t \<and> \<not> xs_busy t \<and> xs_layout t = Some c"
proof -
  have layout: "\<exists>t. load_steps c u t \<and> \<not> xs_busy t \<and> xs_layout t = Some c"
    if "l \<in> set (xs_loads u)" "ld_id l = c" "ld_pc l = AtLayout r" "xs_worker u = Some r"
      "xs_controller u = Some c" for u l r
  proof -
    from that have "load_step c u (after_layout c u)" by (blast intro: layout_ok)
    moreover have "\<not> xs_busy (after_layout c u)" "xs_layout (after_layout c u) = Some c"
      using that(5) by (simp_all add: after_layout_def finish_def Let_def)
    ultimately show ?thesis by (blast intro: load_steps.intros)
  qed
  have launch: "\<exists>t. load_steps c (start_layout c u) t \<and> \<not> xs_busy t \<and> xs_layout t = Some c"
    if "l \<in> set (xs_loads u)" "ld_id l = c" "xs_controller u = Some c" for u l
  proof -
    have "l\<lparr>ld_pc := AtLayout (Suc (xs_requestID u))\<rparr> \<in> set (xs_loads (start_layout c u))"
      using that by (force simp: start_layout_def Let_def set_pc_def)
    from layout [OF this] that(2,3) show ?thesis by (simp add: start_layout_def Let_def)
  qed
  have render: "\<exists>t. load_steps c (enter_render c i u) t \<and> \<not> xs_busy t \<and> xs_layout t = Some c"
    if u: "l \<in> set (xs_loads u)" "ld_id l = c" "\<not> ld_aborted l" "xs_controller u = Some c" for u l i
  proof (cases "str_or (xs_selectedGroup u) (xs_selectedNode u) \<noteq> [] \<and> i")
    case True
    let ?u = "enter_render c i u" and ?l = "l\<lparr>ld_pc := AtEdges\<rparr>"
    have l: "?l \<in> set (xs_loads ?u)" using True u by (force simp: enter_render_def set_pc_def)
    then have "load_step c ?u (start_layout c ?u)" using u by (auto intro: edges_ok)
    moreover have "xs_controller ?u = Some c" using u True by (simp add: enter_render_def)
    with launch [OF l] u have "\<exists>t. load_steps c (start_layout c ?u) t \<and> \<not> xs_busy t \<and> xs_layout t = Some c"
      by simp
    ultimately show ?thesis by (blast intro: load_steps.more)
  next
    case False
    then have "enter_render c i u = start_layout c u" by (auto simp: enter_render_def)
    with launch [OF u(1,2,4)] show ?thesis by simp
  qed
  from assms obtain l where l: "l \<in> set (xs_loads s)" "ld_id l = c" "\<not> ld_aborted l"
    "\<forall>r. ld_pc l = AtLayout r \<longrightarrow> xs_worker s = Some r" unfolding loads_inv_def current_ok_def by blast
  show ?thesis
  proof (cases "ld_pc l")
    case AtMap
    then have step: "load_step c s (after_map c False s)" using l by (auto intro: map_ok)
    let ?s = "s\<lparr>xs_map := Some c\<rparr>"
    have "\<exists>t. load_steps c (after_map c False s) t \<and> \<not> xs_busy t \<and> xs_layout t = Some c"
    proof (cases "xs_expanded s = []")
      case True
      then have "after_map c False s = enter_render c False ?s" using assms by (simp add: after_map_def Let_def)
      with render [of l ?s] l assms show ?thesis by simp
    next
      case False
      let ?u = "after_map c False s" and ?l = "l\<lparr>ld_pc := AtGroup (xs_expanded s)\<rparr>"
      have u: "?l \<in> set (xs_loads ?u)" "xs_controller ?u = Some c"
        using False assms l by (force simp: after_map_def set_pc_def Let_def)+
      then have "load_step c ?u (enter_render c False ?u)" using l by (auto intro: group_ok)
      moreover have "\<exists>t. load_steps c (enter_render c False ?u) t \<and> \<not> xs_busy t \<and> xs_layout t = Some c"
        using render [OF u(1)] u(2) l by simp
      ultimately show ?thesis by (blast intro: load_steps.more)
    qed
    with step show ?thesis by (blast intro: load_steps.more)
  next
    case (AtGroup g)
    then have "load_step c s (enter_render c False s)" using l by (auto intro: group_ok)
    with render [OF l(1-3) assms(2)] show ?thesis by (blast intro: load_steps.more)
  next
    case AtEdges
    then have "load_step c s (start_layout c s)" using l by (auto intro: edges_ok)
    with launch [OF l(1,2) assms(2)] show ?thesis by (blast intro: load_steps.more)
  next
    case (AtLayout r)
    with layout [OF l(1,2)] l(4) assms(2) show ?thesis by blast
  qed
qed

text \<open>
  Claim C3. The current load can always run to its end by its own continuations alone: from every
  reachable busy state there are answers of the server and of the worker after which the page is
  idle and shows the layout of that load. No handler and no other load can leave it stuck.
\<close>

theorem busy_load_completes:
  "reachable s \<Longrightarrow> xs_busy s \<Longrightarrow>
     \<exists>c t. xs_controller s = Some c \<and> load_steps c s t \<and> \<not> xs_busy t \<and> xs_layout t = Some c"
proof -
  assume "reachable s" "xs_busy s"
  then have inv: "loads_inv s" by (simp add: reachable_inv)
  with \<open>xs_busy s\<close> obtain c where "xs_controller s = Some c" by (auto simp: loads_inv_def)
  with current_finishes [OF inv] show ?thesis by blast
qed

theorem busy_load_completes_witness:
  "\<exists>c t. load_steps c (start_load Nothing (init_explorer ''g'' ''n'')) t \<and> \<not> xs_busy t \<and> xs_layout t = Some c"
  using busy_load_completes [OF reachable.start] by (fastforce simp: start_load_def)

text \<open>
  Claim C32. Only the current load replaces the layout worker or the project map: a load that has been
  superseded never terminates the worker of its successor and never overwrites its map.
\<close>

theorem superseded_load_harmless:
  "reachable s \<Longrightarrow> load_step c s t \<Longrightarrow> xs_controller s \<noteq> Some c \<Longrightarrow>
     xs_worker t = xs_worker s \<and> xs_requestID t = xs_requestID s \<and> xs_map t = xs_map s \<and>
     xs_busy t = xs_busy s \<and> xs_controller t = xs_controller s"
proof -
  assume r: "reachable s" and st: "load_step c s t" and n: "xs_controller s \<noteq> Some c"
  from r have inv: "loads_inv s" by (rule reachable_inv)
  from st show ?thesis
  proof cases
    case (map_ok l)
    then show ?thesis using running_is_current [OF inv] n by blast
  next
    case (group_ok l)
    then show ?thesis using running_is_current [OF inv] n by blast
  next
    case (edges_ok l)
    then show ?thesis using running_is_current [OF inv] n by blast
  qed (use n in \<open>auto simp: after_layout_def fail_def finish_def Let_def\<close>)
qed

text \<open>
  The run in which a superseded load hides an error: the first load waits for its layout, the user
  refreshes, the second load fails and its error is shown, then the first layout arrives.
\<close>

definition stale_start :: explorer where
  "stale_start = start_load Nothing (init_explorer [] [])"

definition stale_failed :: explorer where
  "stale_failed = fail 1 (start_load Nothing (after_map 0 False stale_start))"

lemma stale_values:
  "xs_error stale_failed \<and> \<not> xs_busy stale_failed \<and> xs_controller stale_failed = None"
  "xs_loads stale_failed =
     [\<lparr>ld_id = 0, ld_aborted = True, ld_pc = AtLayout 1, ld_resume = Nothing\<rparr>]"
  "xs_worker stale_failed = Some 1"
  by (simp_all add: stale_failed_def stale_start_def load_defs init_explorer_def str_or_def)

lemma stale_reachable: "reachable stale_failed"
proof -
  let ?a = "after_map 0 False stale_start" and ?b = "start_load Nothing (after_map 0 False stale_start)"
  have 0: "reachable stale_start" unfolding stale_start_def by (rule reachable.start)
  have "load_step 0 stale_start ?a"
    by (rule load_step.map_ok [where l = "hd (xs_loads stale_start)"])
      (simp_all add: stale_start_def start_load_def abort_def init_explorer_def)
  with 0 have "reachable ?a" by (rule reachable.load)
  then have b: "reachable ?b" using user_step.refresh by (rule reachable.user)
  have "load_step 1 ?b stale_failed" unfolding stale_failed_def
    by (rule load_step.fetch_err [where l = "hd (xs_loads ?b)"])
      (simp_all add: stale_start_def load_defs init_explorer_def fetching_def str_or_def)
  with b show ?thesis by (rule reachable.load)
qed

text \<open>
  Claim C36. \<open>loadProject\<close> does not look at its signal again after the layout: there is a reachable idle
  state that shows the error of the latest load, in which the continuation of an older, aborted
  load still draws its layout and hides that error.
\<close>

theorem stale_layout_clears_error:
  "\<exists>s t l. reachable s \<and> xs_error s \<and> \<not> xs_busy s \<and> l \<in> set (xs_loads s) \<and> ld_aborted l \<and>
     load_step (ld_id l) s t \<and> \<not> xs_error t \<and> xs_layout t = Some (ld_id l)"
proof -
  let ?l = "hd (xs_loads stale_failed)"
  have "load_step 0 stale_failed (after_layout 0 stale_failed)"
    by (rule load_step.layout_ok [where l = ?l and r = 1]) (simp_all add: stale_values)
  moreover have "?l \<in> set (xs_loads stale_failed)" "ld_aborted ?l" "ld_id ?l = 0"
    by (simp_all add: stale_values)
  moreover have "\<not> xs_error (after_layout 0 stale_failed) \<and> xs_layout (after_layout 0 stale_failed) = Some 0"
    by (simp add: after_layout_def finish_def Let_def)
  ultimately show ?thesis using stale_reachable stale_values(1) by metis
qed

theorem superseded_load_harmless_witness:
  "xs_worker (after_layout 0 stale_failed) = xs_worker stale_failed \<and>
   \<not> xs_busy (after_layout 0 stale_failed)"
proof -
  have "load_step 0 stale_failed (after_layout 0 stale_failed)"
    by (rule load_step.layout_ok [where l = "hd (xs_loads stale_failed)" and r = 1])
      (simp_all add: stale_values)
  moreover have "xs_controller stale_failed \<noteq> Some 0" by (simp add: stale_values)
  ultimately show ?thesis
    using superseded_load_harmless [OF stale_reachable] stale_values(1) by simp
qed

end
