(* ===== verification/ExplorerRequests.thy ===== *)
theory ExplorerRequests
  imports ExplorerState
begin

text \<open>
  Requests of the Explorer that carry no guard against overtaking (\<open>app.ts\<close>): \<open>switchView\<close> with
  \<open>renderAudit\<close>, and the search box with \<open>locate\<close>. Each has a list of requests that are on their way;
  a response may arrive for any of them, or, when the network keeps the order, for the oldest.
\<close>

subsection \<open>Panels that show the answer of a request\<close>

text \<open>
  What a panel needs to show what was asked last: a question is put at the end of the list of
  requests, and with responses in order an answer to the oldest request is shown.
\<close>

locale ordered_panel =
  fixes pending :: "'s \<Rightarrow> 'r list" and wanted :: "'s \<Rightarrow> 'r option" and shows_now :: "'s \<Rightarrow> 'r \<Rightarrow> bool"
    and step :: "'s \<Rightarrow> 's \<Rightarrow> bool" and start :: 's
  assumes start_law: "wanted start = None"
    and step_law: "step s t \<Longrightarrow>
      (\<exists>r. pending t = pending s @ [r] \<and> wanted t = Some r) \<or> wanted t = None \<or>
      (\<exists>r. pending s = r # pending t \<and> wanted t = wanted s \<and> shows_now t r)"
begin

lemma panel_inv:
  assumes "step\<^sup>*\<^sup>* start s" "wanted s = Some r"
  shows "(pending s = [] \<and> shows_now s r) \<or> (pending s \<noteq> [] \<and> last (pending s) = r)"
  using assms
proof (induction arbitrary: r rule: rtranclp_induct)
  case base
  then show ?case using start_law by simp
next
  case (step s t)
  from step_law [OF step.hyps(2)] show ?case
  proof (elim disjE exE conjE)
    fix q assume q: "pending s = q # pending t" "wanted t = wanted s" "shows_now t q"
    with step.IH step.prems have "last (pending s) = r" by auto
    with q show ?thesis by (cases "pending t") auto
  qed (use step.prems in auto)
qed

lemma panel_settled: "step\<^sup>*\<^sup>* start s \<Longrightarrow> wanted s = Some r \<Longrightarrow> pending s = [] \<Longrightarrow> shows_now s r"
  using panel_inv by blast

end

subsection \<open>The audit views\<close>

datatype 'p audit_content = Empty | Skeleton view | Payload view 'p | ErrorCard string

record 'p audit =
  au_view :: view
  au_hidden :: bool
  au_content :: "'p audit_content"
  au_pending :: "view list"

definition audit_start :: "'p audit" where
  "audit_start = \<lparr>au_view = MapView, au_hidden = True, au_content = Empty, au_pending = []\<rparr>"

definition switchView :: "view \<Rightarrow> 'p audit \<Rightarrow> 'p audit" where
  "switchView v s =
     (let s = s\<lparr>au_view := v, au_hidden := (v = MapView)\<rparr>
      in if v = MapView then s else s\<lparr>au_content := Skeleton v, au_pending := au_pending s @ [v]\<rparr>)"

definition renderAudit :: "view \<Rightarrow> 'p \<Rightarrow> 'p audit \<Rightarrow> 'p audit" where
  "renderAudit v p s = s\<lparr>au_content := Payload v p\<rparr>"

definition drop_nth :: "nat \<Rightarrow> 'a list \<Rightarrow> 'a list" where
  "drop_nth k xs = take k xs @ drop (Suc k) xs"

text \<open>The continuation of the request at index \<open>k\<close>: its answer, or the \<open>catch\<close> branch.\<close>

definition audit_reply :: "nat \<Rightarrow> string + 'p \<Rightarrow> 'p audit \<Rightarrow> 'p audit" where
  "audit_reply k a s =
     (let v = au_pending s ! k; s = s\<lparr>au_pending := drop_nth k (au_pending s)\<rparr>
      in case a of Inr p \<Rightarrow> renderAudit v p s | Inl e \<Rightarrow> s\<lparr>au_content := ErrorCard e\<rparr>)"

inductive audit_step :: "bool \<Rightarrow> 'p audit \<Rightarrow> 'p audit \<Rightarrow> bool" for in_order where
  audit_switch: "audit_step in_order s (switchView v s)"
| audit_answer: "k < length (au_pending s) \<Longrightarrow> in_order \<longrightarrow> k = 0 \<Longrightarrow> audit_step in_order s (audit_reply k a s)"

definition shows_view :: "'p audit \<Rightarrow> view \<Rightarrow> bool" where
  "shows_view s v \<longleftrightarrow> (\<exists>p. au_content s = Payload v p) \<or> (\<exists>e. au_content s = ErrorCard e)"

definition audit_wanted :: "'p audit \<Rightarrow> view option" where
  "audit_wanted s = (if au_view s = MapView then None else Some (au_view s))"

interpretation audit_panel: ordered_panel au_pending audit_wanted shows_view "audit_step True" audit_start
proof
  show "audit_wanted audit_start = None" by (simp add: audit_wanted_def audit_start_def)
next
  fix s t :: "'a audit" assume "audit_step True s t"
  then show "(\<exists>r. au_pending t = au_pending s @ [r] \<and> audit_wanted t = Some r) \<or> audit_wanted t = None \<or>
      (\<exists>r. au_pending s = r # au_pending t \<and> audit_wanted t = audit_wanted s \<and> shows_view t r)"
  proof (cases rule: audit_step.cases)
    case (audit_switch v)
    then show ?thesis by (auto simp: switchView_def audit_wanted_def Let_def)
  next
    case (audit_answer k a)
    then show ?thesis
      by (cases "au_pending s")
         (auto simp: audit_reply_def drop_nth_def Let_def audit_wanted_def shows_view_def renderAudit_def split: sum.split)
  qed
qed

text \<open>
  Claim C21. When responses arrive in the order of their requests and none is outstanding, an audit
  view shows the payload of that view or an error. When they do not, the page can come to rest on
  the timeline tab with the payload of the execution view, because \<open>switchView\<close> neither aborts the
  request before nor compares the view when its answer arrives.
\<close>

theorem audit_in_order_only:
  "((audit_step True)\<^sup>*\<^sup>* audit_start s \<and> au_pending s = [] \<and> au_view s \<noteq> MapView \<longrightarrow> shows_view s (au_view s)) \<and>
   (\<exists>t. (audit_step False)\<^sup>*\<^sup>* audit_start t \<and> au_pending t = [] \<and> au_view t = TimelineView \<and> \<not> au_hidden t \<and>
      au_content t = Payload ExecutionView p)"
proof
  show "(audit_step True)\<^sup>*\<^sup>* audit_start s \<and> au_pending s = [] \<and> au_view s \<noteq> MapView \<longrightarrow> shows_view s (au_view s)"
    using audit_panel.panel_settled [of s "au_view s"] by (simp add: audit_wanted_def)
  let ?s1 = "switchView ExecutionView audit_start" and ?s2 = "switchView TimelineView (switchView ExecutionView audit_start)"
  let ?s3 = "audit_reply 1 (Inr p) ?s2"
  let ?s4 = "audit_reply 0 (Inr p) ?s3"
  have "audit_step False audit_start ?s1" "audit_step False ?s1 ?s2" by (rule audit_switch)+
  moreover have "audit_step False ?s2 ?s3" by (rule audit_answer) (simp_all add: switchView_def audit_start_def)
  moreover have "audit_step False ?s3 ?s4"
    by (rule audit_answer) (simp_all add: switchView_def audit_start_def audit_reply_def drop_nth_def renderAudit_def Let_def)
  ultimately have "(audit_step False)\<^sup>*\<^sup>* audit_start ?s4" by (meson rtranclp.rtrancl_into_rtrancl rtranclp.rtrancl_refl)
  moreover have "au_pending ?s4 = [] \<and> au_view ?s4 = TimelineView \<and> \<not> au_hidden ?s4 \<and> au_content ?s4 = Payload ExecutionView p"
    by (simp add: switchView_def audit_start_def audit_reply_def drop_nth_def renderAudit_def Let_def)
  ultimately show "\<exists>t. (audit_step False)\<^sup>*\<^sup>* audit_start t \<and> au_pending t = [] \<and> au_view t = TimelineView \<and> \<not> au_hidden t \<and>
      au_content t = Payload ExecutionView p" by blast
qed

theorem audit_in_order_only_witness:
  "shows_view (audit_reply 0 (Inr ()) (switchView OperationsView audit_start)) OperationsView"
proof -
  let ?s = "audit_reply 0 (Inr ()) (switchView OperationsView audit_start)"
  have "audit_step True audit_start (switchView OperationsView audit_start)" by (rule audit_switch)
  moreover have "audit_step True (switchView OperationsView audit_start) ?s"
    by (rule audit_answer) (simp_all add: switchView_def audit_start_def)
  ultimately have "(audit_step True)\<^sup>*\<^sup>* audit_start ?s" by (meson rtranclp.rtrancl_into_rtrancl rtranclp.rtrancl_refl)
  moreover have "au_pending ?s = [] \<and> au_view ?s = OperationsView"
    by (simp add: switchView_def audit_start_def audit_reply_def drop_nth_def renderAudit_def Let_def)
  ultimately show ?thesis using audit_in_order_only [of ?s "()"] by simp
qed

subsection \<open>The search box\<close>

text \<open>The list below the search box: nothing, or the results for a query.\<close>

record search =
  se_query :: string
  se_snapshot :: string
  se_timer :: "string option"
  se_pending :: "string list"
  se_results :: "string option"

definition search_start :: "string \<Rightarrow> search" where
  "search_start snap = \<lparr>se_query = [], se_snapshot = snap, se_timer = None, se_pending = [], se_results = None\<rparr>"

definition is_space :: "char \<Rightarrow> bool" where
  "is_space c \<longleftrightarrow> of_char c \<in> {9, 10, 11, 12, 13, 32, 160 :: nat}"

definition js_trim :: "string \<Rightarrow> string" where
  "js_trim s = rev (dropWhile is_space (rev (dropWhile is_space s)))"

definition locate :: "string \<Rightarrow> search \<Rightarrow> search" where
  "locate q s = s\<lparr>se_timer := Some q\<rparr>"

text \<open>The \<open>input\<close> event sets \<open>state.search\<close>.\<close>

definition search_input :: "string \<Rightarrow> search \<Rightarrow> search" where
  "search_input q s = locate q (s\<lparr>se_query := q\<rparr>)"

definition search_timer :: "search \<Rightarrow> search" where
  "search_timer s =
     (case se_timer s of
        None \<Rightarrow> s
      | Some q \<Rightarrow>
          (if js_trim q = [] then s\<lparr>se_timer := None, se_results := None\<rparr>
           else s\<lparr>se_timer := None, se_pending := se_pending s @ [js_trim q]\<rparr>))"

text \<open>\<open>result.snapshotRef\<close> is an argument; a failed request (\<open>None\<close>) leaves the list as it is.\<close>

definition search_reply :: "nat \<Rightarrow> string option \<Rightarrow> search \<Rightarrow> search" where
  "search_reply k snap s =
     (let q = se_pending s ! k; s = s\<lparr>se_pending := drop_nth k (se_pending s)\<rparr>
      in if snap = Some (se_snapshot s) then s\<lparr>se_results := Some q\<rparr> else s)"

inductive search_step :: "bool \<Rightarrow> search \<Rightarrow> search \<Rightarrow> bool" for in_order where
  search_type: "search_step in_order s (search_input q s)"
| search_wait: "search_step in_order s (search_timer s)"
| search_answer: "k < length (se_pending s) \<Longrightarrow> in_order \<longrightarrow> k = 0 \<Longrightarrow> search_step in_order s (search_reply k snap s)"

lemmas search_simps = search_start_def search_input_def locate_def search_timer_def search_reply_def drop_nth_def Let_def

text \<open>
  Claim C40. Emptying the search box clears the list, but a request that was on its way then still fills it: even
  with responses in order the page comes to rest with an empty box and the results of an old query.
\<close>

theorem search_shows_stale:
  "\<exists>s. (search_step True)\<^sup>*\<^sup>* (search_start snap) s \<and> se_pending s = [] \<and> se_timer s = None \<and>
     se_query s = [] \<and> se_results s = Some ''a''"
proof -
  let ?s1 = "search_input ''a'' (search_start snap)"
  let ?s2 = "search_timer ?s1"
  let ?s3 = "search_input [] ?s2"
  let ?s4 = "search_timer ?s3"
  have a: "js_trim ''a'' = ''a''" "js_trim [] = []" by (simp_all add: js_trim_def is_space_def)
  have "search_step True (search_start snap) ?s1" "search_step True ?s1 ?s2" "search_step True ?s2 ?s3" "search_step True ?s3 ?s4"
    by (rule search_type search_wait)+
  moreover have "search_step True ?s4 (search_reply 0 (Some snap) ?s4)"
    by (rule search_answer) (simp_all add: search_simps a)
  ultimately have "(search_step True)\<^sup>*\<^sup>* (search_start snap) (search_reply 0 (Some snap) ?s4)"
    by (meson rtranclp.rtrancl_into_rtrancl rtranclp.rtrancl_refl)
  then show ?thesis by (intro exI [of _ "search_reply 0 (Some snap) ?s4"]) (simp add: search_simps a)
qed

end
