(* ===== verification/LayoutProtocol.thy ===== *)
theory LayoutProtocol
  imports Prelude
begin

text \<open>
  The message protocol between the Explorer and the layout worker. The worker side is the
  dispatcher of \<open>layout-worker.js\<close> (\<open>dHd\<close> with \<open>dispatch\<close> and \<open>saveDispatch\<close>, the registration
  \<open>hHd\<close>); the client side is \<open>layoutGraph\<close> of \<open>app.ts\<close>. The layout engine that the dispatcher
  calls (\<open>fHd\<close>) is a parameter: from the registered algorithms and a graph it gives an error or
  the laid out graph, which is the same object after the call.
\<close>

subsection \<open>Messages\<close>

text \<open>
  An algorithm name of a \<open>register\<close> message that is not a string is \<open>None\<close>: asking it for its
  characters raises.
\<close>

datatype 'g cmd = Algorithms | Categories | Options | Register "string option list" | Layout 'g | Unknown string

record 'g request =
  rq_id :: nat
  rq_cmd :: "'g cmd"

datatype 'g answer = Registered | Described | LaidOut 'g | Failed string

record 'g reply =
  rp_id :: nat
  rp_answer :: "'g answer"

subsection \<open>The dispatcher\<close>

definition known_algorithms :: "string list" where
  "known_algorithms =
     [''layered'', ''force'', ''stress'', ''mrtree'', ''radial'', ''sporeOverlap'', ''sporeCompaction'',
      ''rectpacking'']"

definition register_one :: "string \<Rightarrow> string list \<Rightarrow> string list" where
  "register_one a known = (if a \<in> set known_algorithms \<and> a \<notin> set known then a # known else known)"

text \<open>\<open>hHd\<close>: names before a faulty one stay registered when the loop raises.\<close>

fun registerAll :: "string option list \<Rightarrow> string list \<Rightarrow> string list \<times> string option" where
  "registerAll [] known = (known, None)"
| "registerAll (None # xs) known = (known, Some ''TypeError'')"
| "registerAll (Some a # xs) known = registerAll xs (register_one a known)"

text \<open>\<open>saveDispatch\<close>: one request against the registered algorithms; the replies it posts.\<close>

fun saveDispatch ::
  "(string list \<Rightarrow> 'g \<Rightarrow> string + 'g) \<Rightarrow> 'g request \<Rightarrow> string list \<Rightarrow> string list \<times> 'g reply list" where
  "saveDispatch engine rq known =
     (case rq_cmd rq of
        Register as \<Rightarrow>
          (case registerAll as known of
             (known', None) \<Rightarrow> (known', [\<lparr>rp_id = rq_id rq, rp_answer = Registered\<rparr>])
           | (known', Some e) \<Rightarrow> (known', [\<lparr>rp_id = rq_id rq, rp_answer = Failed e\<rparr>]))
      | Layout g \<Rightarrow>
          (case engine known g of
             Inl e \<Rightarrow> (known, [\<lparr>rp_id = rq_id rq, rp_answer = Failed e\<rparr>])
           | Inr g' \<Rightarrow> (known, [\<lparr>rp_id = rq_id rq, rp_answer = LaidOut g'\<rparr>]))
      | Unknown c \<Rightarrow> (known, [])
      | _ \<Rightarrow> (known, [\<lparr>rp_id = rq_id rq, rp_answer = Described\<rparr>]))"

lemma registerAll_known: "set (fst (registerAll as known)) \<subseteq> set known \<union> set known_algorithms"
  by (induction as known rule: registerAll.induct) (auto simp: register_one_def split: if_splits)

lemma registerAll_keeps: "set known \<subseteq> set (fst (registerAll as known))"
  by (induction as known rule: registerAll.induct) (auto simp: register_one_def)

lemma registerAll_ok: "None \<notin> set as \<Longrightarrow>
    snd (registerAll as known) = None \<and>
    set (fst (registerAll as known)) = set known \<union> {a \<in> set known_algorithms. Some a \<in> set as}"
  by (induction as known rule: registerAll.induct) (auto simp: register_one_def)

lemma registerAll_raises: "None \<in> set as \<Longrightarrow> snd (registerAll as known) = Some ''TypeError''"
  by (induction as known rule: registerAll.induct) auto

text \<open>
  The dispatcher answers every request of a command it knows with exactly one reply, under the
  id of the request; it answers with an error exactly when the registration or the engine raises,
  and it drops a request of any other command without a reply.
\<close>

theorem saveDispatch_replies:
  "(case rq_cmd rq of
      Unknown c \<Rightarrow> saveDispatch engine rq known = (known, [])
    | c \<Rightarrow> \<exists>a. snd (saveDispatch engine rq known) = [\<lparr>rp_id = rq_id rq, rp_answer = a\<rparr>] \<and>
        ((\<exists>e. a = Failed e) =
           (case c of Register as \<Rightarrow> None \<in> set as | Layout g \<Rightarrow> isl (engine known g) | _ \<Rightarrow> False)))"
proof (cases "rq_cmd rq")
  case (Register as)
  then show ?thesis
    using registerAll_ok [of as known] registerAll_raises [of as known]
    by (cases "None \<in> set as") (auto split: prod.splits option.splits)
next
  case (Layout g)
  then show ?thesis by (cases "engine known g") auto
qed auto

subsection \<open>The client\<close>

text \<open>
  One call of \<open>layoutGraph\<close>: the state of its promise, its worker's queues (requests on the way to
  the worker, replies on the way back), the algorithms registered in it, and whether it has been
  terminated by a later call.
\<close>

text \<open>\<open>ResolvedOther\<close> is a promise resolved with data that are not a graph, or with none.\<close>

datatype 'g promise = Pending | Resolved 'g | ResolvedOther | Rejected string

record 'g call =
  cl_id :: nat
  cl_graph :: 'g
  cl_promise :: "'g promise"
  cl_inbox :: "'g request list"
  cl_outbox :: "'g reply list"
  cl_known :: "string list"
  cl_dead :: bool

definition registerID :: "nat \<Rightarrow> nat" where
  "registerID r = r * 2"

definition layoutID :: "nat \<Rightarrow> nat" where
  "layoutID r = registerID r + 1"

definition new_call :: "nat \<Rightarrow> 'g \<Rightarrow> 'g call" where
  "new_call r g =
     \<lparr>cl_id = r, cl_graph = g, cl_promise = Pending,
      cl_inbox = [\<lparr>rq_id = registerID r, rq_cmd = Register [Some ''layered'']\<rparr>],
      cl_outbox = [], cl_known = [], cl_dead = False\<rparr>"

text \<open>A promise keeps the first outcome it gets.\<close>

definition settle :: "'g promise \<Rightarrow> 'g call \<Rightarrow> 'g call" where
  "settle p c = (if cl_promise c = Pending then c\<lparr>cl_promise := p\<rparr> else c)"

text \<open>The listener of \<open>message\<close>. A \<open>LaidOut\<close> answer carries \<open>event.data.data\<close>.\<close>

definition onmessage :: "'g reply \<Rightarrow> 'g call \<Rightarrow> 'g call" where
  "onmessage rp c =
     (if rp_id rp = registerID (cl_id c)
      then (case rp_answer rp of
              Failed e \<Rightarrow> settle (Rejected e) c
            | _ \<Rightarrow> c\<lparr>cl_inbox := cl_inbox c @ [\<lparr>rq_id = layoutID (cl_id c), rq_cmd = Layout (cl_graph c)\<rparr>]\<rparr>)
      else if rp_id rp \<noteq> layoutID (cl_id c) then c
      else (case rp_answer rp of
              Failed e \<Rightarrow> settle (Rejected e) c
            | LaidOut g \<Rightarrow> settle (Resolved g) c
            | _ \<Rightarrow> settle ResolvedOther c))"

text \<open>
  Turns: the worker handles its next request, the client the next reply. Besides them an error event of the
  worker may come at any time.
\<close>

inductive call_turn ::
  "(string list \<Rightarrow> 'g \<Rightarrow> string + 'g) \<Rightarrow> 'g call \<Rightarrow> 'g call \<Rightarrow> bool" for engine where
  work: "\<lbrakk>\<not> cl_dead c; cl_inbox c = rq # rqs; saveDispatch engine rq (cl_known c) = (known, rps)\<rbrakk>
     \<Longrightarrow> call_turn engine c (c\<lparr>cl_inbox := rqs, cl_known := known, cl_outbox := cl_outbox c @ rps\<rparr>)"
| deliver: "\<lbrakk>\<not> cl_dead c; cl_outbox c = rp # rps\<rbrakk>
     \<Longrightarrow> call_turn engine c (onmessage rp (c\<lparr>cl_outbox := rps\<rparr>))"

inductive call_step ::
  "(string list \<Rightarrow> 'g \<Rightarrow> string + 'g) \<Rightarrow> 'g call \<Rightarrow> 'g call \<Rightarrow> bool" for engine where
  normal: "call_turn engine c d \<Longrightarrow> call_step engine c d"
| broken: "\<not> cl_dead c \<Longrightarrow> call_step engine c (settle (Rejected e) c)"

text \<open>The page: the calls so far, the latest first.\<close>

inductive page_step ::
  "(string list \<Rightarrow> 'g \<Rightarrow> string + 'g) \<Rightarrow> 'g call list \<Rightarrow> 'g call list \<Rightarrow> bool" for engine where
  layoutGraph: "page_step engine cs
     (new_call (Suc (length cs)) g # map (\<lambda>c. c\<lparr>cl_dead := True\<rparr>) cs)"
| turn: "call_step engine c c' \<Longrightarrow> page_step engine (xs @ c # ys) (xs @ c' # ys)"

inductive page_reachable ::
  "(string list \<Rightarrow> 'g \<Rightarrow> string + 'g) \<Rightarrow> 'g call list \<Rightarrow> bool" for engine where
  none: "page_reachable engine []"
| step: "page_reachable engine cs \<Longrightarrow> page_step engine cs ds \<Longrightarrow> page_reachable engine ds"

inductive_cases turnE: "call_turn engine c c'"
inductive_cases stepE: "call_step engine c c'"
inductive_cases page_stepE: "page_step engine cs ds"

subsection \<open>The invariant of one call\<close>

text \<open>
  A call is in one of five phases: register sent, register answered, layout sent, layout answered,
  done. The engine only ever sees the graph of the call and the algorithm \<open>layered\<close>.
\<close>

definition registered_reply :: "'g call \<Rightarrow> 'g reply" where
  "registered_reply c = \<lparr>rp_id = registerID (cl_id c), rp_answer = Registered\<rparr>"

definition outcome :: "(string list \<Rightarrow> 'g \<Rightarrow> string + 'g) \<Rightarrow> 'g \<Rightarrow> 'g answer" where
  "outcome engine g = (case engine [''layered''] g of Inl e \<Rightarrow> Failed e | Inr g' \<Rightarrow> LaidOut g')"

definition layout_reply :: "(string list \<Rightarrow> 'g \<Rightarrow> string + 'g) \<Rightarrow> 'g call \<Rightarrow> 'g reply" where
  "layout_reply engine c = \<lparr>rp_id = layoutID (cl_id c), rp_answer = outcome engine (cl_graph c)\<rparr>"

datatype phase = Sent | Acked | Asked | Answered | Done

definition in_phase :: "(string list \<Rightarrow> 'g \<Rightarrow> string + 'g) \<Rightarrow> phase \<Rightarrow> 'g call \<Rightarrow> bool" where
  "in_phase engine p c \<longleftrightarrow>
     (case p of
        Sent \<Rightarrow> cl_inbox c = [\<lparr>rq_id = registerID (cl_id c), rq_cmd = Register [Some ''layered'']\<rparr>] \<and>
                cl_outbox c = [] \<and> cl_known c = []
      | Acked \<Rightarrow> cl_inbox c = [] \<and> cl_outbox c = [registered_reply c] \<and> cl_known c = [''layered'']
      | Asked \<Rightarrow> cl_inbox c = [\<lparr>rq_id = layoutID (cl_id c), rq_cmd = Layout (cl_graph c)\<rparr>] \<and>
                 cl_outbox c = [] \<and> cl_known c = [''layered'']
      | Answered \<Rightarrow> cl_inbox c = [] \<and> cl_outbox c = [layout_reply engine c] \<and> cl_known c = [''layered'']
      | Done \<Rightarrow> cl_inbox c = [] \<and> cl_outbox c = [] \<and> cl_promise c \<noteq> Pending)"

definition call_inv :: "(string list \<Rightarrow> 'g \<Rightarrow> string + 'g) \<Rightarrow> 'g call \<Rightarrow> bool" where
  "call_inv engine c \<longleftrightarrow>
     (\<exists>p. in_phase engine p c) \<and>
     (\<forall>g. cl_promise c = Resolved g \<longrightarrow> engine [''layered''] (cl_graph c) = Inr g)"

lemma ids_differ [simp]: "layoutID r \<noteq> registerID r" "registerID r \<noteq> layoutID r"
  by (simp_all add: layoutID_def)

lemma settle_fields [simp]:
  "cl_id (settle p c) = cl_id c" "cl_graph (settle p c) = cl_graph c"
  "cl_inbox (settle p c) = cl_inbox c" "cl_outbox (settle p c) = cl_outbox c"
  "cl_known (settle p c) = cl_known c" "cl_dead (settle p c) = cl_dead c"
  "cl_promise (settle p c) = (if cl_promise c = Pending then p else cl_promise c)"
  by (simp_all add: settle_def)

lemma new_call_inv: "call_inv engine (new_call r g)"
  by (auto simp: call_inv_def new_call_def in_phase_def intro!: exI [of _ Sent])

lemma register_layered: "registerAll [Some ''layered''] [] = ([''layered''], None)"
  by (simp add: register_one_def known_algorithms_def)

lemma work_phase:
  assumes "in_phase engine p c" "cl_inbox c = rq # rqs"
    and "saveDispatch engine rq (cl_known c) = (known, rps)"
  shows "\<exists>p'. in_phase engine p'
    (c\<lparr>cl_inbox := rqs, cl_known := known, cl_outbox := cl_outbox c @ rps\<rparr>)"
proof (cases p)
  case Sent
  with assms have "known = [''layered'']" "rqs = []" "rps = [registered_reply c]" "cl_outbox c = []"
    by (auto simp: in_phase_def register_layered registered_reply_def
        simp del: registerAll.simps)
  then show ?thesis by (intro exI [of _ Acked]) (simp add: in_phase_def registered_reply_def)
next
  case Asked
  with assms have "known = [''layered'']" "rqs = []" "rps = [layout_reply engine c]" "cl_outbox c = []"
    by (auto simp: in_phase_def layout_reply_def outcome_def split: sum.splits)
  then show ?thesis by (intro exI [of _ Answered]) (simp add: in_phase_def layout_reply_def)
qed (use assms in \<open>simp_all add: in_phase_def\<close>)

lemma deliver_inv:
  assumes "call_inv engine c" "cl_outbox c = rp # rps"
  shows "call_inv engine (onmessage rp (c\<lparr>cl_outbox := rps\<rparr>))"
proof -
  from assms(1) obtain p where p: "in_phase engine p c" by (auto simp: call_inv_def)
  show ?thesis
  proof (cases p)
    case Acked
    with p assms have "rp = registered_reply c" "rps = []" by (auto simp: in_phase_def)
    with Acked p have "in_phase engine Asked (onmessage rp (c\<lparr>cl_outbox := rps\<rparr>))"
      by (simp add: in_phase_def onmessage_def registered_reply_def)
    moreover have "cl_promise (onmessage rp (c\<lparr>cl_outbox := rps\<rparr>)) = cl_promise c"
      "cl_graph (onmessage rp (c\<lparr>cl_outbox := rps\<rparr>)) = cl_graph c"
      using \<open>rp = _\<close> by (simp_all add: onmessage_def registered_reply_def)
    ultimately show ?thesis using assms(1) by (auto simp: call_inv_def)
  next
    case Answered
    with p assms have rp: "rp = layout_reply engine c" "rps = []" by (auto simp: in_phase_def)
    with Answered p have "in_phase engine Done (onmessage rp (c\<lparr>cl_outbox := rps\<rparr>))"
      by (simp add: in_phase_def onmessage_def layout_reply_def outcome_def split: sum.splits)
    moreover have "cl_promise (onmessage rp (c\<lparr>cl_outbox := rps\<rparr>)) =
        (if cl_promise c = Pending
         then (case engine [''layered''] (cl_graph c) of Inl e \<Rightarrow> Rejected e | Inr g \<Rightarrow> Resolved g)
         else cl_promise c)"
      "cl_graph (onmessage rp (c\<lparr>cl_outbox := rps\<rparr>)) = cl_graph c"
      using rp by (simp_all add: onmessage_def layout_reply_def outcome_def split: sum.splits)
    ultimately show ?thesis using assms(1) by (auto simp: call_inv_def split: sum.splits if_splits)
  qed (use p assms in \<open>simp_all add: in_phase_def\<close>)
qed

lemma in_phase_settle: "in_phase engine p c \<Longrightarrow> in_phase engine p (settle (Rejected e) c)"
  by (cases p) (simp_all add: in_phase_def registered_reply_def layout_reply_def)

lemma call_turn_inv:
  assumes "call_turn engine c c'" "call_inv engine c"
  shows "call_inv engine c'"
  using assms(1)
proof cases
  case (work rq rqs known rps)
  with assms(2) show ?thesis using work_phase [of engine _ c rq rqs known rps] by (auto simp: call_inv_def)
next
  case (deliver rp rps)
  with assms(2) deliver_inv show ?thesis by blast
qed

lemma call_step_inv:
  assumes "call_step engine c c'" "call_inv engine c"
  shows "call_inv engine c'"
  using assms(1)
proof cases
  case normal
  then show ?thesis using assms(2) by (rule call_turn_inv)
next
  case (broken e)
  with assms(2) show ?thesis using in_phase_settle [of engine _ c e] by (auto simp: call_inv_def split: if_splits)
qed

lemma in_phase_dead [simp]: "in_phase engine p (c\<lparr>cl_dead := b\<rparr>) = in_phase engine p c"
  by (cases p) (simp_all add: in_phase_def registered_reply_def layout_reply_def)

lemma call_inv_dead [simp]: "call_inv engine (c\<lparr>cl_dead := b\<rparr>) = call_inv engine c"
  by (simp add: call_inv_def)

lemma onmessage_fields:
  "cl_id (onmessage rp c) = cl_id c" "cl_graph (onmessage rp c) = cl_graph c"
  "cl_dead (onmessage rp c) = cl_dead c"
  by (cases "rp_answer rp"; simp add: onmessage_def)+

lemma call_step_fields:
  "call_step engine c c' \<Longrightarrow> cl_id c' = cl_id c \<and> cl_graph c' = cl_graph c \<and>
     cl_dead c' = cl_dead c \<and> \<not> cl_dead c"
  by (auto elim!: stepE turnE simp: onmessage_fields)

definition page_inv :: "(string list \<Rightarrow> 'g \<Rightarrow> string + 'g) \<Rightarrow> 'g call list \<Rightarrow> bool" where
  "page_inv engine cs \<longleftrightarrow>
     (\<forall>c \<in> set cs. call_inv engine c) \<and> map cl_id cs = rev [1..<Suc (length cs)] \<and>
     (\<forall>c \<in> set (tl cs). cl_dead c)"

lemma page_step_inv: "page_step engine cs ds \<Longrightarrow> page_inv engine cs \<Longrightarrow> page_inv engine ds"
proof (induction rule: page_step.induct)
  case (layoutGraph cs g)
  have "cl_id (new_call r g) = r" for r by (simp add: new_call_def)
  with layoutGraph show ?case by (auto simp: page_inv_def new_call_inv comp_def)
next
  case (turn c c' xs ys)
  from call_step_fields [OF turn(1)] call_step_inv [OF turn(1)] turn(2)
  have "\<forall>d \<in> set (xs @ c' # ys). call_inv engine d" "map cl_id (xs @ c' # ys) = map cl_id (xs @ c # ys)"
    by (auto simp: page_inv_def)
  moreover have "xs = []" using call_step_fields [OF turn(1)] turn(2) by (cases xs) (auto simp: page_inv_def)
  ultimately show ?case using turn(2) by (simp add: page_inv_def)
qed

lemma page_reachable_inv: "page_reachable engine cs \<Longrightarrow> page_inv engine cs"
proof (induction rule: page_reachable.induct)
  case none
  show ?case by (simp add: page_inv_def)
qed (rule page_step_inv)


subsection \<open>A call that is not superseded settles\<close>

text \<open>The turns that a call still has before it.\<close>

definition turns_left :: "phase \<Rightarrow> nat" where
  "turns_left p = (case p of Sent \<Rightarrow> 4 | Acked \<Rightarrow> 3 | Asked \<Rightarrow> 2 | Answered \<Rightarrow> 1 | Done \<Rightarrow> 0)"

definition engine_outcome :: "(string list \<Rightarrow> 'g \<Rightarrow> string + 'g) \<Rightarrow> 'g \<Rightarrow> 'g promise" where
  "engine_outcome engine g = (case engine [''layered''] g of Inl e \<Rightarrow> Rejected e | Inr g' \<Rightarrow> Resolved g')"

text \<open>A call in phase \<open>p\<close> that has met no error event: pending until the last reply is there, then settled by it.\<close>

definition on_course :: "(string list \<Rightarrow> 'g \<Rightarrow> string + 'g) \<Rightarrow> 'g \<Rightarrow> phase \<Rightarrow> 'g call \<Rightarrow> bool" where
  "on_course engine g p c \<longleftrightarrow>
     in_phase engine p c \<and> \<not> cl_dead c \<and> cl_graph c = g \<and>
     cl_promise c = (if p = Done then engine_outcome engine g else Pending)"

lemma engine_outcome_settles: "engine_outcome engine g \<noteq> Pending"
  by (simp add: engine_outcome_def split: sum.split)

lemma turn_work:
  assumes "call_turn engine c d" "cl_inbox c = [rq]" "cl_outbox c = []"
    and "saveDispatch engine rq (cl_known c) = (known, rps)"
  shows "d = c\<lparr>cl_inbox := [], cl_known := known, cl_outbox := rps\<rparr>"
  using assms(1) by cases (use assms(2-4) in simp_all)

lemma turn_deliver:
  assumes "call_turn engine c d" "cl_inbox c = []" "cl_outbox c = [rp]"
  shows "d = onmessage rp (c\<lparr>cl_outbox := []\<rparr>)"
  using assms(1) by cases (use assms(2,3) in simp_all)

lemma no_turn: "cl_inbox c = [] \<Longrightarrow> cl_outbox c = [] \<Longrightarrow> \<not> call_turn engine c d"
  by (auto elim: turnE)

text \<open>In every phase but the last exactly one turn can come, and it leads to the next phase.\<close>

lemma on_course_turn:
  assumes "on_course engine g p c" "call_turn engine c d"
  shows "\<exists>q. on_course engine g q d \<and> turns_left p = Suc (turns_left q)"
proof (cases p)
  case Sent
  with assms(1) have "saveDispatch engine \<lparr>rq_id = registerID (cl_id c), rq_cmd = Register [Some ''layered'']\<rparr> (cl_known c) =
      ([''layered''], [registered_reply c])"
    by (simp add: on_course_def in_phase_def register_layered registered_reply_def del: registerAll.simps)
  note dispatch = turn_work [OF assms(2) _ _ this]
  from assms(1) Sent have "d = c\<lparr>cl_inbox := [], cl_known := [''layered''], cl_outbox := [registered_reply c]\<rparr>"
    by (intro dispatch) (simp_all add: on_course_def in_phase_def)
  with assms(1) Sent have "on_course engine g Acked d"
    by (simp add: on_course_def in_phase_def registered_reply_def)
  with Sent show ?thesis by (intro exI [of _ Acked]) (simp add: turns_left_def)
next
  case Acked
  with assms(1) have "d = onmessage (registered_reply c) (c\<lparr>cl_outbox := []\<rparr>)"
    by (intro turn_deliver [OF assms(2)]) (simp_all add: on_course_def in_phase_def)
  with assms(1) Acked have "on_course engine g Asked d"
    by (simp add: on_course_def in_phase_def onmessage_def registered_reply_def)
  with Acked show ?thesis by (intro exI [of _ Asked]) (simp add: turns_left_def)
next
  case Asked
  with assms(1) have "saveDispatch engine \<lparr>rq_id = layoutID (cl_id c), rq_cmd = Layout (cl_graph c)\<rparr> (cl_known c) =
      ([''layered''], [layout_reply engine c])"
    by (simp add: on_course_def in_phase_def layout_reply_def outcome_def split: sum.split)
  note dispatch = turn_work [OF assms(2) _ _ this]
  from assms(1) Asked have "d = c\<lparr>cl_inbox := [], cl_known := [''layered''], cl_outbox := [layout_reply engine c]\<rparr>"
    by (intro dispatch) (simp_all add: on_course_def in_phase_def)
  with assms(1) Asked have "on_course engine g Answered d"
    by (simp add: on_course_def in_phase_def layout_reply_def)
  with Asked show ?thesis by (intro exI [of _ Answered]) (simp add: turns_left_def)
next
  case Answered
  with assms(1) have "d = onmessage (layout_reply engine c) (c\<lparr>cl_outbox := []\<rparr>)"
    by (intro turn_deliver [OF assms(2)]) (simp_all add: on_course_def in_phase_def)
  with assms(1) Answered have "on_course engine g Done d"
    by (simp add: on_course_def in_phase_def onmessage_def layout_reply_def outcome_def engine_outcome_def split: sum.split)
  with Answered show ?thesis by (intro exI [of _ Done]) (simp add: turns_left_def)
next
  case Done
  with assms(1) no_turn [of c engine d] assms(2) show ?thesis by (simp add: on_course_def in_phase_def)
qed

lemma on_course_enabled:
  assumes "on_course engine g p c" "p \<noteq> Done"
  shows "\<exists>d. call_turn engine c d"
proof -
  have live: "\<not> cl_dead c" using assms(1) by (simp add: on_course_def)
  have "cl_inbox c \<noteq> [] \<or> cl_outbox c \<noteq> []"
    using assms by (cases p) (auto simp: on_course_def in_phase_def)
  then show ?thesis
  proof
    assume "cl_inbox c \<noteq> []"
    then obtain rq rqs where "cl_inbox c = rq # rqs" by (cases "cl_inbox c") auto
    with live show ?thesis using call_turn.work [of c rq rqs engine] by (metis surj_pair)
  next
    assume "cl_outbox c \<noteq> []"
    then obtain rp rps where "cl_outbox c = rp # rps" by (cases "cl_outbox c") auto
    with live show ?thesis using call_turn.deliver by blast
  qed
qed

lemma on_course_run:
  "(call_turn engine ^^ n) c d \<Longrightarrow> on_course engine g p c \<Longrightarrow>
     \<exists>q. on_course engine g q d \<and> turns_left p = n + turns_left q"
proof (induction n arbitrary: d)
  case 0
  then show ?case by auto
next
  case (Suc n)
  then obtain e where "(call_turn engine ^^ n) c e" "call_turn engine e d" by auto
  with Suc.IH [of e] Suc.prems(2) obtain q where "on_course engine g q e" "turns_left p = n + turns_left q" by blast
  with on_course_turn [of engine g q e d] \<open>call_turn engine e d\<close> show ?case by auto
qed

text \<open>
  Claim C31. A pending call of \<open>layoutGraph\<close> in any reachable page, not superseded by a later call and without an error
  event of its worker (and with an engine that returns), settles with the outcome of the engine, whichever way its turns
  go: there are at most four turns; as long as the promise is pending another turn can come; and when none can come the
  promise is resolved with the laid out graph, or rejected with the error that the engine raised.
\<close>

theorem layoutGraph_settles:
  assumes "page_reachable engine (c # cs)" and "\<not> cl_dead c" and "cl_promise c = Pending"
  shows "(\<forall>n d. (call_turn engine ^^ n) c d \<longrightarrow> n \<le> 4 \<and>
      (if cl_promise d = Pending then \<exists>e. call_turn engine d e
       else (\<nexists>e. call_turn engine d e) \<and>
         cl_promise d = (case engine [''layered''] (cl_graph c) of Inl e \<Rightarrow> Rejected e | Inr g \<Rightarrow> Resolved g)))"
proof (intro allI impI)
  fix n d assume run: "(call_turn engine ^^ n) c d"
  from page_reachable_inv [OF assms(1)] obtain p where "in_phase engine p c"
    by (auto simp: page_inv_def call_inv_def)
  with assms(2,3) have p: "on_course engine (cl_graph c) p c" by (auto simp: on_course_def in_phase_def)
  from on_course_run [OF run this] obtain q where
    q: "on_course engine (cl_graph c) q d" "turns_left p = n + turns_left q" by blast
  have "turns_left p \<le> 4" by (simp add: turns_left_def split: phase.split)
  with q(2) have "n \<le> 4" by simp
  moreover have "(\<exists>e. call_turn engine d e) \<longleftrightarrow> q \<noteq> Done"
    using on_course_enabled [OF q(1)] on_course_turn [OF q(1)] by (auto simp: turns_left_def)
  moreover have "cl_promise d = (if q = Done then engine_outcome engine (cl_graph c) else Pending)"
    using q(1) by (simp add: on_course_def)
  ultimately show "n \<le> 4 \<and>
      (if cl_promise d = Pending then \<exists>e. call_turn engine d e
       else (\<nexists>e. call_turn engine d e) \<and>
         cl_promise d = (case engine [''layered''] (cl_graph c) of Inl e \<Rightarrow> Rejected e | Inr g \<Rightarrow> Resolved g))"
    using engine_outcome_settles [of engine "cl_graph c"] by (auto simp: engine_outcome_def)
qed

text \<open>An engine and a page on which the properties above apply.\<close>

definition sample_engine :: "string list \<Rightarrow> nat \<Rightarrow> string + nat" where
  "sample_engine known g = (if ''layered'' \<in> set known then Inr (g + 1) else Inl ''no algorithm'')"

lemma sample_page: "page_reachable sample_engine [new_call 1 (7::nat)]"
  using page_reachable.step [OF page_reachable.none page_step.layoutGraph [of sample_engine "[]" 7]] by simp


text \<open>Some run of four turns settles the call of the sample page: every shorter run can go on.\<close>

theorem layoutGraph_settles_witness:
  "\<exists>d. (call_turn sample_engine ^^ 4) (new_call 1 7) d \<and> cl_promise d = Resolved 8"
proof -
  let ?c = "new_call 1 (7::nat)"
  have "\<not> cl_dead ?c" "cl_promise ?c = Pending" by (simp_all add: new_call_def)
  note settles = layoutGraph_settles [OF sample_page this, rule_format]
  have "on_course sample_engine 7 Sent ?c" by (simp add: on_course_def in_phase_def new_call_def)
  note course = on_course_run [OF _ this]
  have "\<exists>d. (call_turn sample_engine ^^ n) ?c d" if "n \<le> 4" for n
    using that
  proof (induction n)
    case (Suc n)
    then obtain d where d: "(call_turn sample_engine ^^ n) ?c d" by auto
    from course [OF d] obtain q where "on_course sample_engine 7 q d" "4 = n + turns_left q"
      by (auto simp: turns_left_def)
    with Suc.prems have "cl_promise d = Pending" by (auto simp: on_course_def turns_left_def)
    with settles [OF d] d show ?case by (auto intro: relcomppI)
  qed auto
  then obtain d where d: "(call_turn sample_engine ^^ 4) ?c d" by blast
  from course [OF d] obtain q where "on_course sample_engine 7 q d" "turns_left q = 0" by (auto simp: turns_left_def)
  then have "cl_promise d \<noteq> Pending"
    by (cases q) (auto simp: on_course_def turns_left_def engine_outcome_settles)
  with settles [OF d] have "cl_promise d = Resolved 8" by (simp add: sample_engine_def new_call_def)
  with d show ?thesis by blast
qed

end
