(* ===== verification/ExplorerInspector.thy ===== *)
theory ExplorerInspector
  imports ExplorerNavigator
begin

text \<open>
  The inspector of the Explorer (\<open>app.ts\<close>): the elements of \<open>definitionList\<close>, \<open>section\<close>,
  \<open>renderGroupDetail\<close>, \<open>renderNodeDetail\<close>, \<open>renderInspectorSkeleton\<close> and \<open>renderInspector\<close>, and
  \<open>selectNode\<close> with \<open>refreshSpotlightEdges\<close> and \<open>restoreBackboneEdges\<close>: the requests that a selection
  sends, their abort controller, and what their answers do to the page, together with the other handlers and the
  stages of a load that touch the same state. Texts are UTF-16 code units;
  the dash, the dot and the ellipsis are the units 8212, 183 and 8230.
\<close>

subsection \<open>Elements\<close>

text \<open>A value of a row: absent or \<open>null\<close>, a text, or a number.\<close>

datatype cell = Missing | Words "nat list" | Count nat

definition dom :: "string \<Rightarrow> string list \<Rightarrow> nat list \<Rightarrow> 'n elem" where
  "dom t cl s = Elem t [] cl None s []"

definition cell_text :: "cell \<Rightarrow> nat list" where
  "cell_text v = (case v of Missing \<Rightarrow> [8212] | Words s \<Rightarrow> (if s = [] then [8212] else s) | Count n \<Rightarrow> units (show_nat n))"

definition definitionList :: "(string \<times> cell) list \<Rightarrow> 'n elem" where
  "definitionList rows =
     append_kids (concat (map (\<lambda>(k, v). [dom ''dt'' [] (units k), dom ''dd'' [] (cell_text v)]) rows))
       (dom ''dl'' [''detail-list''] [])"

definition section_el :: "string \<Rightarrow> 'n elem \<Rightarrow> 'n elem" where
  "section_el t c = append_kids [dom ''h3'' [] (units t), c] (dom ''section'' [''inspector-section''] [])"

record group_detail =
  gt_id :: string
  gt_title :: cell
  gt_lifecycle :: cell
  gt_health :: cell
  gt_display :: cell
  gt_nodes :: cell
  gt_ready :: cell
  gt_attempts :: cell
  gt_incidents :: cell
  gt_effects :: cell
  gt_resources :: cell

record counts =
  ct_attempts :: cell
  ct_incidents :: cell
  ct_effects :: cell
  ct_resources :: cell
  ct_incoming :: cell
  ct_outgoing :: cell

text \<open>\<open>outcomes\<close> are pairs of identifier and class; \<open>readiness\<close> is a state and the codes of its reasons.\<close>

record node_detail =
  nt_head :: nat
  nt_id :: string
  nt_title :: cell
  nt_kind :: cell
  nt_role :: cell
  nt_group :: cell
  nt_objective :: cell
  nt_outcomes :: "(nat list \<times> nat list) list option"
  nt_status :: cell
  nt_outcome :: cell
  nt_readiness :: "(cell \<times> nat list list option) option"
  nt_counts :: counts

text \<open>\<open>xs.join(', ')\<close>\<close>

fun join_comma :: "nat list list \<Rightarrow> nat list" where
  "join_comma [] = []"
| "join_comma [x] = x"
| "join_comma (x # y # xs) = x @ units '', '' @ join_comma (y # xs)"

definition or_nil :: "'a list option \<Rightarrow> 'a list" where
  "or_nil xs = (case xs of None \<Rightarrow> [] | Some ys \<Rightarrow> ys)"

definition group_rows :: "group_detail \<Rightarrow> (string \<times> cell) list" where
  "group_rows g =
     [(''Title'', gt_title g), (''Lifecycle'', gt_lifecycle g), (''Health'', gt_health g), (''Display'', gt_display g),
      (''Nodes'', gt_nodes g), (''Ready'', gt_ready g), (''Active attempts'', gt_attempts g),
      (''Open incidents'', gt_incidents g), (''Uncertain effects'', gt_effects g), (''Unclosed resources'', gt_resources g)]"

definition contract_rows :: "node_detail \<Rightarrow> (string \<times> cell) list" where
  "contract_rows d =
     [(''Title'', nt_title d), (''Kind'', nt_kind d), (''Role'', nt_role d), (''Group'', nt_group d), (''Objective'', nt_objective d),
      (''Outcomes'', Words (join_comma (map (\<lambda>(i, c). i @ [32, 183, 32] @ c) (or_nil (nt_outcomes d)))))]"

definition runtime_rows :: "node_detail \<Rightarrow> (string \<times> cell) list" where
  "runtime_rows d =
     [(''Status'', nt_status d), (''Readiness'', case nt_readiness d of None \<Rightarrow> Missing | Some (st, _) \<Rightarrow> st),
      (''Outcome'', nt_outcome d), (''Attempts'', ct_attempts (nt_counts d)), (''Incidents'', ct_incidents (nt_counts d)),
      (''Effects'', ct_effects (nt_counts d)), (''Resources'', ct_resources (nt_counts d))]"

definition dependency_rows :: "node_detail \<Rightarrow> (string \<times> cell) list" where
  "dependency_rows d =
     [(''Incoming'', ct_incoming (nt_counts d)), (''Outgoing'', ct_outgoing (nt_counts d)),
      (''Blockers'', Words (join_comma (case nt_readiness d of None \<Rightarrow> [] | Some (_, rs) \<Rightarrow> or_nil rs)))]"

record 'n panel =
  pn_open :: bool
  pn_title :: string
  pn_content :: "'n elem list"

definition renderGroupDetail :: "group_detail \<Rightarrow> 'n panel \<Rightarrow> 'n panel" where
  "renderGroupDetail g p = p\<lparr>pn_open := True, pn_title := gt_id g,
     pn_content := [section_el ''Summary'' (definitionList (group_rows g))]\<rparr>"

definition renderNodeDetail :: "node_detail \<Rightarrow> 'n panel \<Rightarrow> 'n panel" where
  "renderNodeDetail d p = p\<lparr>pn_open := True, pn_title := nt_id d,
     pn_content := [section_el ''Contract'' (definitionList (contract_rows d)),
       section_el ''Runtime'' (definitionList (runtime_rows d)),
       section_el ''Dependencies'' (definitionList (dependency_rows d))]\<rparr>"

definition skeleton_el :: "'n elem" where
  "skeleton_el = dom ''div'' [''skeleton''] (units ''Loading node details'' @ [8230])"

definition renderInspectorSkeleton :: "string \<Rightarrow> 'n panel \<Rightarrow> 'n panel" where
  "renderInspectorSkeleton i p = p\<lparr>pn_open := True, pn_title := i, pn_content := [skeleton_el]\<rparr>"

definition renderInspector :: "string \<Rightarrow> string \<Rightarrow> group_detail list \<Rightarrow> 'n panel \<Rightarrow> 'n panel" where
  "renderInspector node gid gs p =
     (if node \<noteq> [] then p
      else if gid \<noteq> []
      then (case find (\<lambda>g. gt_id g = gid) gs of Some g \<Rightarrow> renderGroupDetail g p | None \<Rightarrow> p)
      else p\<lparr>pn_open := False, pn_content := []\<rparr>)"

text \<open>What a list of rows shows: each row in order, and never an empty value.\<close>

fun shown_rows :: "'n elem list \<Rightarrow> (string \<times> nat list \<times> nat list) list" where
  "shown_rows (a # b # es) = (el_tag a, el_text a, el_text b) # shown_rows es"
| "shown_rows es = []"

lemma definitionList_shows:
  "shown_rows (el_children (definitionList rows)) = map (\<lambda>(k, v). (''dt'', units k, cell_text v)) rows"
proof -
  have "shown_rows (concat (map (\<lambda>(k, v). [dom ''dt'' [] (units k), dom ''dd'' [] (cell_text v)]) rows)) =
      map (\<lambda>(k, v). (''dt'', units k, cell_text v)) rows"
    by (induction rows) (auto simp: dom_def)
  then show ?thesis by (simp add: definitionList_def append_kids_def dom_def)
qed

lemma units_Nil [simp]: "units s = [] \<longleftrightarrow> s = []"
  by (simp add: units_def)

lemma show_nat_nonempty: "show_nat n \<noteq> []"
  by (subst show_nat.simps) simp

lemma cell_text_nonempty: "cell_text v \<noteq> []"
  by (cases v) (simp_all add: cell_text_def show_nat_nonempty)

subsection \<open>Selections and their requests\<close>

text \<open>A selection sends a request for the details and one for the edges; both carry its signal.\<close>

datatype asked = AskDetail string | AskEdges string

record request =
  rq_asked :: asked
  rq_aborted :: bool

record 'n selection =
  sl_node :: string
  sl_group :: string
  sl_expanded :: string
  sl_groups :: "group_detail list"
  sl_head :: nat
  sl_panel :: "'n panel"
  sl_edges :: "edge_rec list"
  sl_backbone :: "edge_rec list option"
  sl_error :: bool
  sl_requests :: "request list"

definition abort_all :: "request list \<Rightarrow> request list" where
  "abort_all = map (\<lambda>r. r\<lparr>rq_aborted := True\<rparr>)"

text \<open>\<open>detailController\<close> is the controller of the last selection; aborting it stops the requests still on their way.\<close>

definition selectNode :: "string \<Rightarrow> 'n selection \<Rightarrow> 'n selection" where
  "selectNode i s =
     s\<lparr>sl_node := i, sl_group := [], sl_panel := renderInspectorSkeleton i (sl_panel s),
       sl_requests := abort_all (sl_requests s) @
         [\<lparr>rq_asked = AskEdges i, rq_aborted = False\<rparr>, \<lparr>rq_asked = AskDetail i, rq_aborted = False\<rparr>]\<rparr>"

definition restoreBackboneEdges :: "'n selection \<Rightarrow> 'n selection" where
  "restoreBackboneEdges s = s\<lparr>sl_edges := (case sl_backbone s of Some b \<Rightarrow> b | None \<Rightarrow> sl_edges s)\<rparr>"

text \<open>The close button, and the escape key when a node is selected.\<close>

definition closeInspector :: "'n selection \<Rightarrow> 'n selection" where
  "closeInspector s =
     restoreBackboneEdges (s\<lparr>sl_node := [], sl_group := sl_expanded s,
       sl_panel := renderInspector [] (sl_expanded s) (sl_groups s) (sl_panel s)\<rparr>)"

text \<open>
  The other handlers that change the selection: the group buttons, the first half of \<open>selectLocatedNode\<close> (the node is
  selected when its load has ended), the escape key, and \<open>readURL\<close> when the address is navigated. None of them
  aborts the requests of the selection before, and none of them draws the inspector.
\<close>

definition collapseGroup :: "'n selection \<Rightarrow> 'n selection" where
  "collapseGroup s = s\<lparr>sl_expanded := [], sl_group := []\<rparr>"

definition toggleGroup :: "string \<Rightarrow> 'n selection \<Rightarrow> 'n selection" where
  "toggleGroup g s =
     (if sl_expanded s = g then collapseGroup s else s\<lparr>sl_expanded := g, sl_group := g, sl_node := []\<rparr>)"

definition open_parent :: "string \<Rightarrow> 'n selection \<Rightarrow> 'n selection" where
  "open_parent g s =
     (if g \<noteq> [] \<and> sl_expanded s \<noteq> g then s\<lparr>sl_node := [], sl_group := [], sl_expanded := g\<rparr> else s)"

definition escapeKey :: "'n selection \<Rightarrow> 'n selection" where
  "escapeKey s =
     (if sl_node s \<noteq> [] then closeInspector s else if sl_expanded s \<noteq> [] then collapseGroup s else s)"

definition read_address :: "string \<Rightarrow> string \<Rightarrow> 'n selection \<Rightarrow> 'n selection" where
  "read_address g i s = s\<lparr>sl_expanded := g, sl_group := g, sl_node := i\<rparr>"

text \<open>
  What a load (\<open>loadProject\<close>, also the refresh button and the automatic refresh) does to this state, in this order: the
  new snapshot replaces \<open>state.map\<close>, the topology is replaced, \<open>renderGraph\<close> takes the edges that it asked for, and
  \<open>renderInspector\<close> is called. \<open>ExplorerLoads\<close> tells which loads get how far.
\<close>

definition take_map :: "group_detail list \<Rightarrow> nat \<Rightarrow> 'n selection \<Rightarrow> 'n selection" where
  "take_map gs h s = s\<lparr>sl_groups := gs, sl_head := h\<rparr>"

definition take_topology :: "edge_rec list option \<Rightarrow> edge_rec list \<Rightarrow> 'n selection \<Rightarrow> 'n selection" where
  "take_topology b es s = s\<lparr>sl_backbone := b, sl_edges := es\<rparr>"

definition take_edges :: "edge_rec list \<Rightarrow> 'n selection \<Rightarrow> 'n selection" where
  "take_edges es s =
     s\<lparr>sl_backbone := Some (case sl_backbone s of Some b \<Rightarrow> b | None \<Rightarrow> sl_edges s), sl_edges := es\<rparr>"

definition draw_inspector :: "'n selection \<Rightarrow> 'n selection" where
  "draw_inspector s = s\<lparr>sl_panel := renderInspector (sl_node s) (sl_group s) (sl_groups s) (sl_panel s)\<rparr>"

definition drop_request :: "nat \<Rightarrow> 'n selection \<Rightarrow> 'n selection" where
  "drop_request k s = s\<lparr>sl_requests := take k (sl_requests s) @ drop (Suc k) (sl_requests s)\<rparr>"

text \<open>
  The continuations. An aborted request ends in an \<open>AbortError\<close>, which \<open>selectNode\<close> ignores; the edges
  have no handler at all, their rejection reaches no element.
\<close>

definition detail_reply :: "node_detail option \<Rightarrow> 'n selection \<Rightarrow> 'n selection" where
  "detail_reply a s =
     (case a of
        None \<Rightarrow> s\<lparr>sl_error := True\<rparr>
      | Some d \<Rightarrow> (if nt_head d \<noteq> sl_head s then s\<lparr>sl_error := True\<rparr>
                  else s\<lparr>sl_panel := renderNodeDetail d (sl_panel s)\<rparr>))"

definition edges_reply :: "edge_rec list option \<Rightarrow> 'n selection \<Rightarrow> 'n selection" where
  "edges_reply a s = (case a of None \<Rightarrow> s | Some es \<Rightarrow> s\<lparr>sl_edges := es\<rparr>)"

text \<open>
  The steps: the handlers, the answers, and the effects of loads in any order and number, which covers every way in which
  loads interleave. The server answers a request for the details of a node with details of that node.
  The flag says whether the address may be navigated.
\<close>

inductive select_step :: "bool \<Rightarrow> (string \<Rightarrow> edge_rec list) \<Rightarrow> 'n selection \<Rightarrow> 'n selection \<Rightarrow> bool"
  for nav and nbh where
  step_select: "i \<noteq> [] \<Longrightarrow> select_step nav nbh s (selectNode i s)"
| step_close: "select_step nav nbh s (closeInspector s)"
| step_escape: "select_step nav nbh s (escapeKey s)"
| step_toggle: "g \<noteq> [] \<Longrightarrow> select_step nav nbh s (toggleGroup g s)"
| step_open: "select_step nav nbh s (open_parent g s)"
| step_address: "nav \<Longrightarrow> select_step nav nbh s (read_address g i s)"
| step_map: "select_step nav nbh s (take_map gs h s)"
| step_topology: "select_step nav nbh s (take_topology b es s)"
| step_graph: "es = nbh i \<or> sl_backbone s = Some es \<or> sl_edges s = es \<Longrightarrow> select_step nav nbh s (take_edges es s)"
| step_inspector: "select_step nav nbh s (draw_inspector s)"
| step_aborted: "k < length (sl_requests s) \<Longrightarrow> rq_aborted (sl_requests s ! k) \<Longrightarrow> select_step nav nbh s (drop_request k s)"
| step_detail: "k < length (sl_requests s) \<Longrightarrow> sl_requests s ! k = \<lparr>rq_asked = AskDetail i, rq_aborted = False\<rparr> \<Longrightarrow>
    (\<And>d. a = Some d \<Longrightarrow> nt_id d = i) \<Longrightarrow> select_step nav nbh s (detail_reply a (drop_request k s))"
| step_edges: "k < length (sl_requests s) \<Longrightarrow> sl_requests s ! k = \<lparr>rq_asked = AskEdges i, rq_aborted = False\<rparr> \<Longrightarrow>
    a = None \<or> a = Some (nbh i) \<Longrightarrow> select_step nav nbh s (edges_reply a (drop_request k s))"

definition selection_start :: "group_detail list \<Rightarrow> nat \<Rightarrow> edge_rec list \<Rightarrow> 'n selection" where
  "selection_start gs h es =
     \<lparr>sl_node = [], sl_group = [], sl_expanded = [], sl_groups = gs, sl_head = h,
      sl_panel = \<lparr>pn_open = False, pn_title = [], pn_content = []\<rparr>, sl_edges = es, sl_backbone = Some es,
      sl_error = False, sl_requests = []\<rparr>"

text \<open>A panel on node \<open>i\<close>: the skeleton, or details of \<open>i\<close> of a snapshot that satisfies \<open>ok\<close>.\<close>

definition panel_on :: "string \<Rightarrow> (nat \<Rightarrow> bool) \<Rightarrow> 'n panel \<Rightarrow> bool" where
  "panel_on i ok p \<longleftrightarrow>
     pn_open p \<and> pn_title p = i \<and>
     (pn_content p = [skeleton_el] \<or> (\<exists>d q. nt_id d = i \<and> ok (nt_head d) \<and> p = renderNodeDetail d q))"

text \<open>
  While a node is selected, the requests that were not aborted are its own and the panel is on it, with details of a
  snapshot that the page \<open>held\<close> at some time.
\<close>

definition select_inv :: "(string \<Rightarrow> nat \<Rightarrow> bool) \<Rightarrow> 'n selection \<Rightarrow> bool" where
  "select_inv held s \<longleftrightarrow>
     (sl_node s \<noteq> [] \<longrightarrow>
       (\<forall>r \<in> set (sl_requests s). \<not> rq_aborted r \<longrightarrow> rq_asked r = AskDetail (sl_node s) \<or> rq_asked r = AskEdges (sl_node s)) \<and>
       panel_on (sl_node s) (held (sl_node s)) (sl_panel s))"

lemma panel_on_mono: "panel_on i ok p \<Longrightarrow> (\<And>h. ok h \<Longrightarrow> ok' h) \<Longrightarrow> panel_on i ok' p"
  by (auto simp: panel_on_def)

lemma select_inv_mono: "select_inv held s \<Longrightarrow> (\<And>i h. held i h \<Longrightarrow> held' i h) \<Longrightarrow> select_inv held' s"
  by (auto simp: select_inv_def elim: panel_on_mono)

lemma select_inv_select: "select_inv held (selectNode i s)"
  by (auto simp: select_inv_def panel_on_def selectNode_def renderInspectorSkeleton_def abort_all_def)

lemma set_drop_nth: "set (take k xs @ drop (Suc k) xs) \<subseteq> set xs"
  by (auto dest: in_set_takeD in_set_dropD)

lemma select_inv_drop: "select_inv held s \<Longrightarrow> select_inv held (drop_request k s)"
  using set_drop_nth [of k "sl_requests s"] by (auto simp: select_inv_def drop_request_def)

text \<open>Handlers that deselect, or touch neither the node nor its requests nor an open panel.\<close>

lemma select_inv_handlers:
  assumes "select_inv held s"
  shows "select_inv held (closeInspector s)" "select_inv held (escapeKey s)" "select_inv held (toggleGroup g s)"
    "select_inv held (open_parent g s)" "select_inv held (take_map gs h s)" "select_inv held (take_topology b es s)"
    "select_inv held (take_edges es s)" "select_inv held (draw_inspector s)"
  using assms
  by (auto simp: select_inv_def closeInspector_def restoreBackboneEdges_def escapeKey_def toggleGroup_def collapseGroup_def
      open_parent_def take_map_def take_topology_def take_edges_def draw_inspector_def renderInspector_def)

lemma select_inv_step:
  assumes "select_step False nbh s t" "select_inv held s" "held (sl_node s) (sl_head s)"
  shows "select_inv held t"
  using assms
proof (induction rule: select_step.induct)
  case (step_select i s)
  show ?case by (rule select_inv_select)
next
  case (step_detail k s i a)
  show ?case
  proof (cases "sl_node s = []")
    case True
    then show ?thesis
      by (simp add: select_inv_def detail_reply_def drop_request_def split: option.split)
  next
    case False
    have "rq_asked (sl_requests s ! k) = AskDetail (sl_node s) \<or> rq_asked (sl_requests s ! k) = AskEdges (sl_node s)"
      using step_detail.prems(1) step_detail.hyps(1,2) nth_mem [OF step_detail.hyps(1)] False unfolding select_inv_def by auto
    then have i: "i = sl_node s" using step_detail.hyps(2) by simp
    from select_inv_drop [OF step_detail.prems(1), of k] show ?thesis
      using step_detail.prems(2) i step_detail.hyps(3)
      by (auto simp: select_inv_def panel_on_def detail_reply_def drop_request_def renderNodeDetail_def split: option.split)
  qed
next
  case (step_edges k s i a)
  from select_inv_drop [OF step_edges.prems(1), of k] show ?case
    by (auto simp: select_inv_def edges_reply_def split: option.split)
qed (simp_all add: select_inv_handlers select_inv_drop)

text \<open>The snapshots that the page held while node \<open>i\<close> was selected, on some run from \<open>a\<close> to \<open>s\<close>.\<close>

definition held_on :: "(string \<Rightarrow> edge_rec list) \<Rightarrow> 'n selection \<Rightarrow> 'n selection \<Rightarrow> string \<Rightarrow> nat \<Rightarrow> bool" where
  "held_on nbh a s i h \<longleftrightarrow>
     (\<exists>u. (select_step False nbh)\<^sup>*\<^sup>* a u \<and> (select_step False nbh)\<^sup>*\<^sup>* u s \<and> sl_node u = i \<and> sl_head u = h)"

lemma select_inv_reach:
  "(select_step False nbh)\<^sup>*\<^sup>* (selectNode i s0) s \<Longrightarrow> select_inv (held_on nbh (selectNode i s0) s) s"
proof (induction rule: rtranclp_induct)
  case base
  show ?case by (rule select_inv_select)
next
  case (step s t)
  have "held_on nbh (selectNode i s0) s (sl_node s) (sl_head s)"
    using step.hyps(1) unfolding held_on_def by blast
  with step have "select_inv (held_on nbh (selectNode i s0) s) t" by (blast intro: select_inv_step)
  then show ?case
    by (rule select_inv_mono) (use step.hyps(2) in \<open>auto simp: held_on_def intro: rtranclp.rtrancl_into_rtrancl\<close>)
qed


definition plain_counts :: counts where
  "plain_counts = \<lparr>ct_attempts = Count 0, ct_incidents = Count 0, ct_effects = Count 0, ct_resources = Count 0,
     ct_incoming = Count 1, ct_outgoing = Count 0\<rparr>"

definition plain_detail :: node_detail where
  "plain_detail = \<lparr>nt_head = 3, nt_id = ''n1'', nt_title = Words (units ''Build''), nt_kind = Missing, nt_role = Missing,
     nt_group = Missing, nt_objective = Missing, nt_outcomes = None, nt_status = Words (units ''ready''), nt_outcome = Missing,
     nt_readiness = None, nt_counts = plain_counts\<rparr>"

lemma drop_request_simps [simp]:
  "sl_requests (drop_request k s) = take k (sl_requests s) @ drop (Suc k) (sl_requests s)"
  "sl_node (drop_request k s) = sl_node s" "sl_head (drop_request k s) = sl_head s" "sl_panel (drop_request k s) = sl_panel s"
  by (simp_all add: drop_request_def)

lemma detail_arrives:
  assumes "sl_requests s = \<lparr>rq_asked = AskDetail i, rq_aborted = False\<rparr> # rs" "nt_id d = i"
  shows "select_step nav nbh s (detail_reply (Some d) (drop_request 0 s))"
  using assms by (intro step_detail [where i = i]) auto

lemma edges_arrive:
  assumes "sl_requests s = \<lparr>rq_asked = AskEdges i, rq_aborted = False\<rparr> # rs"
  shows "select_step nav nbh s (edges_reply (Some (nbh i)) (drop_request 0 s))"
  using assms by (intro step_edges [where i = i]) auto

text \<open>Selecting a node, its edges and then its details: the page at rest.\<close>

definition settled :: "(string \<Rightarrow> edge_rec list) \<Rightarrow> node_detail \<Rightarrow> 'n selection \<Rightarrow> 'n selection" where
  "settled nbh d s =
     detail_reply (Some d) (drop_request 0 (edges_reply (Some (nbh (nt_id d))) (drop_request 0 (selectNode (nt_id d) s))))"

lemma settled_fields:
  assumes "sl_requests s = []" "sl_head s = nt_head d"
  shows "sl_requests (settled nbh d s) = []" "sl_node (settled nbh d s) = nt_id d" "sl_error (settled nbh d s) = sl_error s"
    "sl_panel (settled nbh d s) = renderNodeDetail d (renderInspectorSkeleton (nt_id d) (sl_panel s))"
    "sl_head (settled nbh d s) = nt_head d" "sl_edges (settled nbh d s) = nbh (nt_id d)"
  by (simp_all add: settled_def selectNode_def abort_all_def detail_reply_def edges_reply_def drop_request_def assms)

lemma settled_reach:
  assumes "sl_requests s = []" "sl_head s = nt_head d"
  shows "(select_step nav nbh)\<^sup>*\<^sup>* (selectNode (nt_id d) s) (settled nbh d s)"
proof -
  let ?e = "edges_reply (Some (nbh (nt_id d))) (drop_request 0 (selectNode (nt_id d) s))"
  have "sl_requests ?e = [\<lparr>rq_asked = AskDetail (nt_id d), rq_aborted = False\<rparr>]"
    by (simp add: selectNode_def abort_all_def edges_reply_def assms)
  then have "select_step nav nbh ?e (settled nbh d s)" unfolding settled_def by (rule detail_arrives) simp
  moreover have "select_step nav nbh (selectNode (nt_id d) s) ?e"
    by (rule edges_arrive) (simp add: selectNode_def abort_all_def assms)
  ultimately show ?thesis by (meson rtranclp.rtrancl_refl converse_rtranclp_into_rtranclp)
qed

text \<open>A load that runs to its end.\<close>

lemma load_reach:
  "(select_step nav nbh)\<^sup>*\<^sup>* u (draw_inspector (take_edges (nbh i) (take_topology b es (take_map gs h u))))"
proof -
  have "select_step nav nbh u (take_map gs h u)" by (rule step_map)
  moreover have "select_step nav nbh (take_map gs h u) (take_topology b es (take_map gs h u))" by (rule step_topology)
  moreover have "select_step nav nbh (take_topology b es (take_map gs h u)) (take_edges (nbh i) (take_topology b es (take_map gs h u)))"
    by (rule step_graph) blast
  moreover note step_inspector [of nav nbh "take_edges (nbh i) (take_topology b es (take_map gs h u))"]
  ultimately show ?thesis by (meson rtranclp.rtrancl_refl converse_rtranclp_into_rtranclp)
qed


text \<open>
  Claim C28. A refresh does not renew the inspector: \<open>renderInspector\<close> returns at once while a node is selected. A node is selected and
  its details arrive; then a load replaces the snapshot and the groups and runs to its end. The page comes to rest
  without an error, in the new snapshot, with the inspector still showing the details of the old one.
\<close>

theorem refresh_keeps_old_details:
  fixes d :: node_detail
  assumes "nt_id d \<noteq> []"
  shows "\<exists>u s :: 'n selection. (select_step False nbh)\<^sup>*\<^sup>* (selection_start gs (nt_head d) es) u \<and>
    s = draw_inspector (take_edges (nbh (nt_id d)) (take_topology (Some es') es' (take_map gs' h' u))) \<and>
    (select_step False nbh)\<^sup>*\<^sup>* u s \<and> sl_node s = nt_id d \<and> sl_requests s = [] \<and> \<not> sl_error s \<and>
    sl_head s = h' \<and> sl_groups s = gs' \<and> (\<exists>p. sl_panel s = renderNodeDetail d p)"
proof -
  let ?start = "selection_start gs (nt_head d) es :: 'n selection"
  have 0: "sl_requests ?start = []" "sl_head ?start = nt_head d" by (simp_all add: selection_start_def)
  define u where "u = settled nbh d ?start"
  define s where "s = draw_inspector (take_edges (nbh (nt_id d)) (take_topology (Some es') es' (take_map gs' h' u)))"
  note uf = settled_fields [OF 0, of nbh, folded u_def]
  have sf: "sl_node s = nt_id d" "sl_requests s = []" "sl_error s = sl_error ?start" "sl_head s = h'" "sl_groups s = gs'"
    "sl_panel s = sl_panel u"
    using assms by (simp_all add: s_def draw_inspector_def take_edges_def take_topology_def take_map_def renderInspector_def uf)
  have "select_step False nbh ?start (selectNode (nt_id d) ?start)" using assms by (rule step_select)
  then have 1: "(select_step False nbh)\<^sup>*\<^sup>* ?start u"
    using settled_reach [OF 0, of False nbh] unfolding u_def by (rule converse_rtranclp_into_rtranclp)
  have 2: "(select_step False nbh)\<^sup>*\<^sup>* u s" unfolding s_def by (rule load_reach)
  show ?thesis
    by (rule exI [of _ u], rule exI [of _ s]) (use 1 2 sf uf(4) s_def in \<open>auto simp: selection_start_def\<close>)
qed

theorem refresh_keeps_old_details_witness:
  "\<exists>s :: int selection. sl_node s = ''n1'' \<and> sl_head s = 4 \<and> (\<exists>p. sl_panel s = renderNodeDetail plain_detail p) \<and>
     nt_head plain_detail = 3"
proof -
  have i: "nt_id plain_detail = ''n1''" "nt_head plain_detail = 3" by (simp_all add: plain_detail_def)
  then have "nt_id plain_detail \<noteq> []" by simp
  from refresh_keeps_old_details [OF this, where 'n = int and nbh = "\<lambda>_. []" and h' = 4] show ?thesis
    unfolding i by blast
qed

text \<open>
  An address that names a node selects it, and no load opens the inspector: the page comes to rest with a
  selected node and a closed inspector.
\<close>

theorem address_leaves_inspector_closed:
  assumes "i \<noteq> []"
  shows "\<exists>s :: 'n selection. (select_step True nbh)\<^sup>*\<^sup>* (selection_start gs h es) s \<and>
    s = draw_inspector (take_edges (nbh i) (take_topology (Some es') es' (take_map gs' h' (read_address g i (selection_start gs h es))))) \<and>
    sl_node s = i \<and> sl_requests s = [] \<and> \<not> sl_error s \<and> \<not> pn_open (sl_panel s)"
proof (intro exI conjI)
  have "select_step True nbh (selection_start gs h es) (read_address g i (selection_start gs h es))"
    by (rule step_address) simp
  then show "(select_step True nbh)\<^sup>*\<^sup>* (selection_start gs h es)
    (draw_inspector (take_edges (nbh i) (take_topology (Some es') es' (take_map gs' h' (read_address g i (selection_start gs h es))))))"
    using load_reach by (rule converse_rtranclp_into_rtranclp)
qed (use assms in \<open>simp_all add: draw_inspector_def take_edges_def take_topology_def take_map_def read_address_def
      renderInspector_def selection_start_def\<close>)

text \<open>
  Claim C33. Closing the inspector does not abort the requests of the selection: a node is selected, the
  inspector is closed, and then the answers arrive. The page comes to rest with nothing selected, but with the
  inspector open on the node and with the edges of its neighbourhood in place of the backbone.
\<close>

theorem closed_inspector_reopens:
  fixes d :: node_detail
  assumes "nt_id d \<noteq> []" "nt_head d = h"
  shows "\<exists>s :: 'n selection. (select_step False nbh)\<^sup>*\<^sup>* (selection_start gs h es) s \<and> sl_node s = [] \<and> sl_group s = [] \<and> sl_requests s = [] \<and>
    \<not> sl_error s \<and> pn_open (sl_panel s) \<and> pn_title (sl_panel s) = nt_id d \<and> sl_edges s = nbh (nt_id d)"
proof -
  define i where "i = nt_id d"
  define s1 :: "'n selection" where "s1 = selectNode i (selection_start gs h es)"
  define s2 where "s2 = closeInspector s1"
  define s3 where "s3 = edges_reply (Some (nbh i)) (drop_request 0 s2)"
  define s4 where "s4 = detail_reply (Some d) (drop_request 0 s3)"
  have 1: "sl_requests s1 = [\<lparr>rq_asked = AskEdges i, rq_aborted = False\<rparr>, \<lparr>rq_asked = AskDetail i, rq_aborted = False\<rparr>]"
    "sl_head s1 = h" "sl_expanded s1 = []" "\<not> sl_error s1"
    by (simp_all add: s1_def selectNode_def selection_start_def abort_all_def)
  have 2: "sl_requests s2 = sl_requests s1" "sl_head s2 = h" "\<not> sl_error s2" "sl_node s2 = []" "sl_group s2 = []"
    by (simp_all add: s2_def closeInspector_def restoreBackboneEdges_def 1)
  have 3: "sl_requests s3 = [\<lparr>rq_asked = AskDetail i, rq_aborted = False\<rparr>]" "sl_head s3 = h" "\<not> sl_error s3"
    "sl_node s3 = []" "sl_group s3 = []" "sl_edges s3 = nbh i"
    by (simp_all add: s3_def edges_reply_def drop_request_def 2 1)
  have 4: "sl_requests s4 = []" "\<not> sl_error s4" "sl_node s4 = []" "sl_group s4 = []" "sl_edges s4 = nbh i"
    "pn_open (sl_panel s4)" "pn_title (sl_panel s4) = nt_id d"
    using assms(2) by (simp_all add: s4_def detail_reply_def drop_request_def renderNodeDetail_def 3)
  have "select_step False nbh (selection_start gs h es) s1" unfolding s1_def by (rule step_select) (simp add: i_def assms(1))
  moreover have "select_step False nbh s1 s2" unfolding s2_def by (rule step_close)
  moreover have "select_step False nbh s2 s3" unfolding s3_def by (rule edges_arrive) (simp add: 2 1)
  moreover have "select_step False nbh s3 s4" unfolding s4_def by (rule detail_arrives) (simp_all add: 3 i_def)
  ultimately have "(select_step False nbh)\<^sup>*\<^sup>* (selection_start gs h es) s4"
    by (elim converse_rtranclp_into_rtranclp) (rule rtranclp.rtrancl_refl)
  with 4 show ?thesis unfolding i_def by blast
qed

theorem closed_inspector_reopens_witness:
  "\<exists>s :: int selection. (select_step False (\<lambda>_. []))\<^sup>*\<^sup>* (selection_start [] 3 []) s \<and> sl_node s = [] \<and> pn_title (sl_panel s) = ''n1''"
proof -
  have i: "nt_id plain_detail = ''n1''" and h: "nt_head plain_detail = 3" by (simp_all add: plain_detail_def)
  then have "nt_id plain_detail \<noteq> []" by simp
  from closed_inspector_reopens [OF this h, of "\<lambda>_. []" "[]" "[]"] obtain s :: "int selection" where
    "(select_step False (\<lambda>_. []))\<^sup>*\<^sup>* (selection_start [] 3 []) s" "sl_node s = []" "pn_title (sl_panel s) = nt_id plain_detail"
    by blast
  then show ?thesis unfolding i by blast
qed

end
