(* ===== verification/ExplorerViewport.thy ===== *)
theory ExplorerViewport
  imports ExplorerDom
begin

text \<open>
  The canvas of the Explorer as a scroll container (\<open>app.ts\<close>): the box that shows the visible part on
  the minimap (\<open>updateViewportBox\<close>), the click on the minimap (\<open>navigateMinimap\<close>), \<open>applyZoom\<close>, and
  dragging the canvas with the pointer. A browser keeps a scroll position between 0 and the extent of
  the content minus the size of the container.
\<close>

subsection \<open>The canvas\<close>

record 'n canvas =
  cv_left :: 'n
  cv_top :: 'n
  cv_width :: 'n
  cv_height :: 'n
  cv_extent_x :: 'n
  cv_extent_y :: 'n
  cv_zoom :: 'n

definition clamp :: "'n::linordered_field \<Rightarrow> 'n \<Rightarrow> 'n" where
  "clamp hi x = max 0 (min x hi)"

definition scroll_left :: "'n::linordered_field \<Rightarrow> 'n canvas \<Rightarrow> 'n canvas" where
  "scroll_left x c = c\<lparr>cv_left := clamp (cv_extent_x c - cv_width c) x\<rparr>"

definition scroll_top :: "'n::linordered_field \<Rightarrow> 'n canvas \<Rightarrow> 'n canvas" where
  "scroll_top y c = c\<lparr>cv_top := clamp (cv_extent_y c - cv_height c) y\<rparr>"

definition scrollTo :: "'n::linordered_field \<Rightarrow> 'n \<Rightarrow> 'n canvas \<Rightarrow> 'n canvas" where
  "scrollTo x y c = scroll_top y (scroll_left x c)"

lemma scrollTo_fields:
  "cv_left (scrollTo x y c) = clamp (cv_extent_x c - cv_width c) x" "cv_top (scrollTo x y c) = clamp (cv_extent_y c - cv_height c) y"
  "cv_width (scrollTo x y c) = cv_width c" "cv_height (scrollTo x y c) = cv_height c" "cv_zoom (scrollTo x y c) = cv_zoom c"
  "cv_extent_x (scrollTo x y c) = cv_extent_x c" "cv_extent_y (scrollTo x y c) = cv_extent_y c"
  by (simp_all add: scrollTo_def scroll_top_def scroll_left_def)

subsection \<open>The minimap\<close>

definition viewport_class :: "string list" where
  "viewport_class = [''mini-viewport'']"

definition is_viewport :: "'n elem \<Rightarrow> bool" where
  "is_viewport e \<longleftrightarrow> ''mini-viewport'' \<in> set (el_class e)"

text \<open>\<open>querySelector(...)?.remove()\<close> takes the first match away.\<close>

fun remove_first :: "('a \<Rightarrow> bool) \<Rightarrow> 'a list \<Rightarrow> 'a list" where
  "remove_first p [] = []"
| "remove_first p (x # xs) = (if p x then xs else x # remove_first p xs)"

definition viewport_box :: "'n::linordered_field canvas \<Rightarrow> 'n elem" where
  "viewport_box c = svg ''rect''
     [(''x'', Num (cv_left c / cv_zoom c)), (''y'', Num (cv_top c / cv_zoom c)),
      (''width'', Num (cv_width c / cv_zoom c)), (''height'', Num (cv_height c / cv_zoom c))] viewport_class"

definition updateViewportBox :: "'n::linordered_field lnode option \<Rightarrow> 'n canvas \<Rightarrow> 'n elem list \<Rightarrow> 'n elem list" where
  "updateViewportBox layout c mini =
     (case layout of None \<Rightarrow> mini | Some l \<Rightarrow> remove_first is_viewport mini @ [viewport_box c])"

record 'n rect_rec =
  rc_left :: 'n
  rc_top :: 'n
  rc_width :: 'n
  rc_height :: 'n

definition mini_x :: "'n::linordered_field lnode \<Rightarrow> 'n rect_rec \<Rightarrow> 'n \<Rightarrow> 'n" where
  "mini_x l r px = (px - rc_left r) / rc_width r * num_or (ln_w l) 1"

definition mini_y :: "'n::linordered_field lnode \<Rightarrow> 'n rect_rec \<Rightarrow> 'n \<Rightarrow> 'n" where
  "mini_y l r py = (py - rc_top r) / rc_height r * num_or (ln_h l) 1"

definition navigateMinimap ::
  "'n::linordered_field lnode option \<Rightarrow> 'n rect_rec \<Rightarrow> 'n \<Rightarrow> 'n \<Rightarrow> 'n canvas \<Rightarrow> 'n canvas" where
  "navigateMinimap layout r px py c =
     (case layout of
        None \<Rightarrow> c
      | Some l \<Rightarrow> scrollTo (mini_x l r px * cv_zoom c - cv_width c / 2) (mini_y l r py * cv_zoom c - cv_height c / 2) c)"

text \<open>\<open>applyZoom\<close>: the size of the drawing; the label shows the zoom in percent.\<close>

definition applyZoom :: "'n::linordered_field lnode option \<Rightarrow> 'n \<Rightarrow> ('n \<times> 'n) \<Rightarrow> ('n \<times> 'n)" where
  "applyZoom layout z old =
     (case layout of None \<Rightarrow> old | Some l \<Rightarrow> (num_or (ln_w l) 1 * z, num_or (ln_h l) 1 * z))"

lemma filter_remove_first: "filter p (remove_first p xs) = drop 1 (filter p xs)"
  by (induction xs) auto

lemma one_viewport:
  "length (filter is_viewport mini) \<le> 1 \<Longrightarrow> filter is_viewport (updateViewportBox (Some l) c mini) = [viewport_box c]"
  by (simp add: updateViewportBox_def filter_remove_first viewport_box_def is_viewport_def svg_def viewport_class_def)

lemma clamp_divide: "0 < z \<Longrightarrow> clamp hi x / z = clamp (hi / z) (x / (z::'n::linordered_field))"
  by (simp add: clamp_def max_def min_def divide_le_cancel zero_le_divide_iff)

text \<open>
  Where a browser shows a point of the layout on the minimap. The \<open>svg\<close> element has a \<open>viewBox\<close> and no
  \<open>preserveAspectRatio\<close>, so the drawing is scaled by one factor for both axes, the largest that fits the content box
  (\<open>xMidYMid meet\<close>), and centred in it; \<open>b\<close> is the width of the border, which the client rectangle includes.
\<close>

definition layout_width :: "'n::linordered_field lnode \<Rightarrow> 'n" where
  "layout_width l = num_or (ln_w l) 1"

definition layout_height :: "'n::linordered_field lnode \<Rightarrow> 'n" where
  "layout_height l = num_or (ln_h l) 1"

definition meet_scale :: "'n::linordered_field lnode \<Rightarrow> 'n rect_rec \<Rightarrow> 'n \<Rightarrow> 'n" where
  "meet_scale l r b = min ((rc_width r - 2 * b) / layout_width l) ((rc_height r - 2 * b) / layout_height l)"

definition shown_x :: "'n::linordered_field lnode \<Rightarrow> 'n rect_rec \<Rightarrow> 'n \<Rightarrow> 'n \<Rightarrow> 'n" where
  "shown_x l r b x = rc_left r + b + (rc_width r - 2 * b - meet_scale l r b * layout_width l) / 2 + meet_scale l r b * x"

definition shown_y :: "'n::linordered_field lnode \<Rightarrow> 'n rect_rec \<Rightarrow> 'n \<Rightarrow> 'n \<Rightarrow> 'n" where
  "shown_y l r b y = rc_top r + b + (rc_height r - 2 * b - meet_scale l r b * layout_height l) / 2 + meet_scale l r b * y"

lemma layout_size [simp]: "layout_width l \<noteq> 0" "layout_height l \<noteq> 0"
  by (simp_all add: layout_width_def layout_height_def num_or_def split: option.split)

text \<open>The point of the layout that the code takes for the one under the pointer.\<close>

lemma mini_shown:
  "0 < rc_width r \<Longrightarrow> mini_x l r (shown_x l r b x) =
     layout_width l / 2 + meet_scale l r b * layout_width l / rc_width r * (x - layout_width l / 2)"
  "0 < rc_height r \<Longrightarrow> mini_y l r (shown_y l r b y) =
     layout_height l / 2 + meet_scale l r b * layout_height l / rc_height r * (y - layout_height l / 2)"
  by (simp_all add: mini_x_def mini_y_def shown_x_def shown_y_def field_simps flip: layout_width_def layout_height_def)

lemma meet_scale_exact:
  assumes "rc_width r * layout_height l = rc_height r * layout_width l"
  shows "meet_scale l r 0 * layout_width l = rc_width r" "meet_scale l r 0 * layout_height l = rc_height r"
proof -
  have eq: "rc_width r / layout_width l = rc_height r / layout_height l"
    using assms by (simp add: field_simps)
  have 1: "meet_scale l r 0 = rc_width r / layout_width l" by (simp add: meet_scale_def eq)
  then show "meet_scale l r 0 * layout_width l = rc_width r" by simp
  from 1 have "meet_scale l r 0 = rc_height r / layout_height l" by (simp only: eq)
  then show "meet_scale l r 0 * layout_height l = rc_height r" by simp
qed

lemma meet_scale_wide:
  assumes "0 \<le> b" "0 < layout_width l" "0 < layout_height l" "0 < rc_width r"
    and "rc_height r * layout_width l < rc_width r * layout_height l"
  shows "meet_scale l r b * layout_width l / rc_width r < 1"
proof -
  have "meet_scale l r b \<le> (rc_height r - 2 * b) / layout_height l" by (simp add: meet_scale_def)
  also have "\<dots> \<le> rc_height r / layout_height l" using assms(1,3) by (simp add: divide_right_mono)
  also have "\<dots> < rc_width r / layout_width l" using assms(2,3,5) by (simp add: field_simps)
  finally have "meet_scale l r b < rc_width r / layout_width l" .
  then show ?thesis using assms(2,4) by (simp add: field_simps)
qed


definition mini_canvas :: "rat canvas" where
  "mini_canvas = \<lparr>cv_left = 0, cv_top = 0, cv_width = 100, cv_height = 100, cv_extent_x = 800, cv_extent_y = 400, cv_zoom = 2\<rparr>"

definition mini_layout :: "rat lnode" where
  "mini_layout = LNode ''root'' None None (Some 400) (Some 200) []"


subsection \<open>Dragging the canvas\<close>

text \<open>
  The local variables of the listeners. The pointer goes down on an element with a \<open>data-ref\<close> or not, with
  a button; \<open>pointerup\<close> and \<open>pointercancel\<close> do the same.
\<close>

record 'n drag =
  dg_dragging :: bool
  dg_x :: 'n
  dg_y :: 'n
  dg_left :: 'n
  dg_top :: 'n
  dg_canvas :: "'n canvas"

datatype 'n pointer = Down bool nat 'n 'n | Move 'n 'n | Up

fun drag_step :: "'n::linordered_field pointer \<Rightarrow> 'n drag \<Rightarrow> 'n drag" where
  "drag_step (Down on_ref button x y) s =
     (if on_ref \<and> button = 0 then s
      else if button \<noteq> 0 \<and> button \<noteq> 1 then s
      else s\<lparr>dg_dragging := True, dg_x := x, dg_y := y, dg_left := cv_left (dg_canvas s), dg_top := cv_top (dg_canvas s)\<rparr>)"
| "drag_step (Move x y) s =
     (if \<not> dg_dragging s then s
      else s\<lparr>dg_canvas := scroll_top (dg_top s - (y - dg_y s)) (scroll_left (dg_left s - (x - dg_x s)) (dg_canvas s))\<rparr>)"
| "drag_step Up s = (if \<not> dg_dragging s then s else s\<lparr>dg_dragging := False\<rparr>)"

definition drag_run :: "'n::linordered_field pointer list \<Rightarrow> 'n drag \<Rightarrow> 'n drag" where
  "drag_run = fold drag_step"

lemma drag_moves:
  assumes "dg_dragging s" "moves \<noteq> []"
  shows "drag_run (map (\<lambda>(x, y). Move x y) moves) s =
    s\<lparr>dg_canvas := scrollTo (dg_left s - (fst (last moves) - dg_x s)) (dg_top s - (snd (last moves) - dg_y s)) (dg_canvas s)\<rparr>"
  using assms
proof (induction moves arbitrary: s)
  case (Cons m moves)
  obtain x y where m: "m = (x, y)" by (cases m)
  let ?s = "drag_step (Move x y) s"
  have s: "dg_dragging ?s" "dg_left ?s = dg_left s" "dg_x ?s = dg_x s" "dg_top ?s = dg_top s" "dg_y ?s = dg_y s"
    "dg_canvas ?s = scrollTo (dg_left s - (x - dg_x s)) (dg_top s - (y - dg_y s)) (dg_canvas s)"
    using Cons.prems(1) by (simp_all add: scrollTo_def)
  have twice: "scrollTo a b (scrollTo a' b' c) = scrollTo a b c" for a b a' b' and c :: "'a canvas"
    by (simp add: scrollTo_def scroll_top_def scroll_left_def)
  show ?case
  proof (cases "moves = []")
    case True
    then show ?thesis using Cons.prems(1) by (simp add: m drag_run_def scrollTo_def)
  next
    case False
    from Cons.IH [OF s(1) False] show ?thesis using Cons.prems(1) False
      by (simp add: m drag_run_def s twice del: drag_step.simps)
  qed
qed simp

lemma drag_idle: "\<not> dg_dragging s \<Longrightarrow> drag_run (map (\<lambda>(x, y). Move x y) moves) s = s"
  by (induction moves) (auto simp: drag_run_def)

lemma drag_not_on_node: "drag_step (Down True 0 x y) s = s"
  by simp

text \<open>
  Pressing the pointer on the canvas, moving it along any path and letting it go scrolls the canvas by
  the way from the first to the last point alone, as far as the canvas can be scrolled; moves after that change
  nothing, and neither does pressing the left button on a node.
\<close>

theorem drag_follows_pointer:
  assumes "\<not> (on_ref \<and> button = 0)" "button \<le> 1" "moves \<noteq> []"
  shows "dg_canvas (drag_run (Down on_ref button x y # map (\<lambda>(x, y). Move x y) moves @ Up # map (\<lambda>(x, y). Move x y) later) s) =
      scrollTo (cv_left (dg_canvas s) - (fst (last moves) - x)) (cv_top (dg_canvas s) - (snd (last moves) - y)) (dg_canvas s) \<and>
    drag_run (Down True 0 x y # map (\<lambda>(x, y). Move x y) later) (s\<lparr>dg_dragging := False\<rparr>) = s\<lparr>dg_dragging := False\<rparr>"
proof
  let ?d = "drag_step (Down on_ref button x y) s"
  have d: "dg_dragging ?d" "dg_x ?d = x" "dg_y ?d = y" "dg_left ?d = cv_left (dg_canvas s)" "dg_top ?d = cv_top (dg_canvas s)"
    "dg_canvas ?d = dg_canvas s" using assms(1,2) by auto
  let ?m = "drag_run (map (\<lambda>(x, y). Move x y) moves) ?d"
  have split: "drag_run (Down on_ref button x y # map (\<lambda>(x, y). Move x y) moves @ Up # map (\<lambda>(x, y). Move x y) later) s =
      drag_run (map (\<lambda>(x, y). Move x y) later) (drag_step Up ?m)"
    by (simp add: drag_run_def)
  have up: "\<not> dg_dragging (drag_step Up ?m)" "dg_canvas (drag_step Up ?m) = dg_canvas ?m" by simp_all
  show "dg_canvas (drag_run (Down on_ref button x y # map (\<lambda>(x, y). Move x y) moves @ Up # map (\<lambda>(x, y). Move x y) later) s) =
      scrollTo (cv_left (dg_canvas s) - (fst (last moves) - x)) (cv_top (dg_canvas s) - (snd (last moves) - y)) (dg_canvas s)"
    unfolding split drag_idle [OF up(1), of later] up(2)
    by (simp only: drag_moves [OF d(1) assms(3)]) (simp add: d del: drag_step.simps)
  show "drag_run (Down True 0 x y # map (\<lambda>(x, y). Move x y) later) (s\<lparr>dg_dragging := False\<rparr>) = s\<lparr>dg_dragging := False\<rparr>"
    using drag_idle [of "s\<lparr>dg_dragging := False\<rparr>" later] by (simp add: drag_run_def)
qed

definition still :: "rat drag" where
  "still = \<lparr>dg_dragging = False, dg_x = 0, dg_y = 0, dg_left = 0, dg_top = 0,
     dg_canvas = \<lparr>cv_left = 50, cv_top = 50, cv_width = 100, cv_height = 100, cv_extent_x = 400, cv_extent_y = 400, cv_zoom = 1\<rparr>\<rparr>"

theorem drag_follows_pointer_witness:
  "cv_left (dg_canvas (drag_run [Down False 0 10 10, Move 90 0, Move 5 5, Up, Move 70 70] still)) = 55"
  using drag_follows_pointer [of False 0 "[(90, 0), (5, 5)]" 10 10 "[(70, 70)]" still]
  by (simp add: scrollTo_fields clamp_def still_def)

end
