(* ===== verification/ExplorerServer.thy ===== *)
theory ExplorerServer
  imports ExplorerGraph
begin

text \<open>
  How the Explorer talks to the server (\<open>app.ts\<close>): \<open>api\<close> with its error messages, \<open>short\<close>,
  \<open>snapshotParams\<close>, the status line (\<open>setBusy\<close>, \<open>showError\<close>, \<open>clearError\<close>), and the timer of the
  automatic refresh (\<open>scheduleRefresh\<close>, \<open>pollHead\<close>, the selection of the interval).
\<close>

subsection \<open>Requests\<close>

text \<open>A response: its status and its body, \<open>None\<close> when it is no JSON; \<open>bd_error\<close> is its field \<open>error\<close>.\<close>

record 'v body =
  bd_error :: "string option"
  bd_value :: 'v

record 'v response =
  rs_ok :: bool
  rs_status :: nat
  rs_body :: "'v body option"

definition api :: "'v response \<Rightarrow> string + 'v" where
  "api r =
     (case rs_body r of
        None \<Rightarrow> Inl (''Explorer returned '' @ show_nat (rs_status r))
      | Some b \<Rightarrow> (if \<not> rs_ok r then Inl (js_or (bd_error b) (''Explorer returned '' @ show_nat (rs_status r)))
                  else Inr (bd_value b)))"

lemma api_value: "api r = Inr v \<longleftrightarrow> rs_ok r \<and> (\<exists>b. rs_body r = Some b \<and> bd_value b = v)"
  by (auto simp: api_def split: option.splits)

lemma api_message: "api r = Inl e \<Longrightarrow> e \<noteq> []"
  by (auto simp: api_def js_or_def split: option.splits if_splits)

definition short :: "string \<Rightarrow> string" where
  "short v = (if v = [] then ''uninitialized'' else take 10 v)"

lemma short_bounds: "0 < length (short v) \<and> length (short v) \<le> 13"
  by (cases v) (auto simp: short_def)

definition snapshotParams :: "string \<Rightarrow> string \<Rightarrow> (string \<times> string) list" where
  "snapshotParams expanded snapshot =
     (if expanded = [] then [] else [(''expanded'', expanded)]) @
     (if snapshot = [] then [] else [(''snapshotRef'', snapshot)]) @ [(''groupState'', ''collapsed'')]"

record status_line =
  sx_busy :: bool
  sx_progress_hidden :: bool
  sx_label :: string
  sx_error :: string
  sx_error_hidden :: bool
  sx_connected :: bool

definition setBusy :: "bool \<Rightarrow> string \<Rightarrow> status_line \<Rightarrow> status_line" where
  "setBusy v msg s = s\<lparr>sx_busy := v, sx_progress_hidden := \<not> v, sx_label := str_or msg ''Updating view''\<rparr>"

definition showError :: "string \<Rightarrow> status_line \<Rightarrow> status_line" where
  "showError e s = s\<lparr>sx_error := e, sx_error_hidden := False, sx_connected := False\<rparr>"

definition clearError :: "status_line \<Rightarrow> status_line" where
  "clearError s = s\<lparr>sx_error := [], sx_error_hidden := True, sx_connected := True\<rparr>"

text \<open>The error is hidden exactly while the page says that it is connected, and the progress bar exactly while it is idle.\<close>

definition status_ok :: "status_line \<Rightarrow> bool" where
  "status_ok s \<longleftrightarrow> sx_error_hidden s = sx_connected s \<and> sx_progress_hidden s = (\<not> sx_busy s)"

lemma status_ok_ops [simp]:
  "status_ok s \<Longrightarrow> status_ok (setBusy v m s)" "status_ok s \<Longrightarrow> status_ok (showError e s)" "status_ok s \<Longrightarrow> status_ok (clearError s)"
  by (simp_all add: status_ok_def setBusy_def showError_def clearError_def)

subsection \<open>The timer of the automatic refresh\<close>

text \<open>
  \<open>rf_timers\<close> are the timers that will still fire, \<open>rf_timer\<close> is \<open>state.timer\<close>, \<open>rf_polls\<close> counts the polls
  that wait for the server, \<open>rf_load\<close> says that a load is current.
\<close>

record refresh =
  rf_auto :: nat
  rf_timers :: "nat list"
  rf_timer :: nat
  rf_next :: nat
  rf_polls :: nat
  rf_load :: bool

definition scheduleRefresh :: "refresh \<Rightarrow> refresh" where
  "scheduleRefresh s =
     (let s = s\<lparr>rf_timers := filter (\<lambda>t. t \<noteq> rf_timer s) (rf_timers s)\<rparr>
      in if rf_auto s = 0 then s
         else s\<lparr>rf_timers := rf_timers s @ [rf_next s], rf_timer := rf_next s, rf_next := Suc (rf_next s)\<rparr>)"

text \<open>A timer fires: \<open>pollHead\<close> up to its request. \<open>blocked\<close> is its guard: busy, a selection, a hidden page or a text field in use.\<close>

definition fire :: "bool \<Rightarrow> nat \<Rightarrow> refresh \<Rightarrow> refresh" where
  "fire blocked t s =
     (let s = s\<lparr>rf_timers := filter (\<lambda>u. u \<noteq> t) (rf_timers s)\<rparr>
      in if blocked then scheduleRefresh s else s\<lparr>rf_polls := Suc (rf_polls s)\<rparr>)"

text \<open>The answer of a poll: \<open>changed\<close> starts a load; otherwise, and on an error, the timer is set again.\<close>

definition poll_reply :: "bool \<Rightarrow> refresh \<Rightarrow> refresh" where
  "poll_reply changed s =
     (let s = s\<lparr>rf_polls := rf_polls s - 1\<rparr> in if changed then s\<lparr>rf_load := True\<rparr> else scheduleRefresh s)"

text \<open>Only the current load clears the controller and sets the timer.\<close>

definition load_done :: "refresh \<Rightarrow> refresh" where
  "load_done s = scheduleRefresh (s\<lparr>rf_load := False\<rparr>)"

definition set_interval :: "nat \<Rightarrow> refresh \<Rightarrow> refresh" where
  "set_interval n s = scheduleRefresh (s\<lparr>rf_auto := n\<rparr>)"

inductive refresh_step :: "refresh \<Rightarrow> refresh \<Rightarrow> bool" where
  rf_fire: "t \<in> set (rf_timers s) \<Longrightarrow> refresh_step s (fire blocked t s)"
| rf_reply: "0 < rf_polls s \<Longrightarrow> refresh_step s (poll_reply changed s)"
| rf_done: "rf_load s \<Longrightarrow> refresh_step s (load_done s)"
| rf_start: "refresh_step s (s\<lparr>rf_load := True\<rparr>)"
| rf_choose: "refresh_step s (set_interval n s)"

definition refresh_start :: "nat \<Rightarrow> refresh" where
  "refresh_start n = \<lparr>rf_auto = n, rf_timers = [], rf_timer = 0, rf_next = 1, rf_polls = 0, rf_load = True\<rparr>"

definition refresh_inv :: "refresh \<Rightarrow> bool" where
  "refresh_inv s \<longleftrightarrow> (rf_timers s = [] \<or> rf_timers s = [rf_timer s]) \<and>
     (rf_auto s \<noteq> 0 \<longrightarrow> rf_timers s \<noteq> [] \<or> 0 < rf_polls s \<or> rf_load s) \<and> (rf_auto s = 0 \<longrightarrow> rf_timers s = [])"

lemma scheduleRefresh_inv:
  "rf_timers s = [] \<or> rf_timers s = [rf_timer s] \<Longrightarrow> refresh_inv (scheduleRefresh s)"
  by (auto simp: refresh_inv_def scheduleRefresh_def Let_def)

lemma refresh_inv_start: "refresh_inv (refresh_start n)"
  by (simp add: refresh_inv_def refresh_start_def)

lemma refresh_inv_timers: "refresh_inv s \<Longrightarrow> rf_timers s = [] \<or> rf_timers s = [rf_timer s]"
  by (simp add: refresh_inv_def)

lemma refresh_inv_step: "refresh_step s t \<Longrightarrow> refresh_inv s \<Longrightarrow> refresh_inv t"
proof (induction rule: refresh_step.induct)
  case (rf_fire t s blocked)
  then have "rf_timers s = [t]" "rf_timer s = t" by (auto simp: refresh_inv_def)
  then show ?case using rf_fire.prems
    by (cases blocked) (simp_all add: fire_def Let_def scheduleRefresh_inv, simp add: refresh_inv_def)
next
  case (rf_reply s changed)
  then show ?case
    by (cases changed) (simp_all add: poll_reply_def Let_def scheduleRefresh_inv refresh_inv_timers, auto simp: refresh_inv_def)
next
  case (rf_done s)
  then show ?case unfolding load_done_def by (intro scheduleRefresh_inv) (simp add: refresh_inv_timers)
next
  case (rf_start s)
  then show ?case by (auto simp: refresh_inv_def)
next
  case (rf_choose s n)
  then show ?case unfolding set_interval_def by (intro scheduleRefresh_inv) (simp add: refresh_inv_timers)
qed

text \<open>
  Claim C17. At most one timer is ever pending, and none when the automatic refresh is off; while it is on it
  never dies: a timer is pending, a poll waits for the server, or a load is current.
\<close>

theorem refresh_alive:
  assumes "refresh_step\<^sup>*\<^sup>* (refresh_start n) s"
  shows "length (rf_timers s) \<le> 1 \<and> (rf_auto s = 0 \<longrightarrow> rf_timers s = []) \<and>
    (rf_auto s \<noteq> 0 \<longrightarrow> rf_timers s \<noteq> [] \<or> 0 < rf_polls s \<or> rf_load s)"
proof -
  from assms have "refresh_inv s"
    by (induction rule: rtranclp_induct) (simp_all add: refresh_inv_start refresh_inv_step)
  then show ?thesis by (auto simp: refresh_inv_def)
qed

theorem refresh_alive_witness:
  "rf_timers (load_done (refresh_start 30)) = [1] \<and> length (rf_timers (load_done (refresh_start 30))) \<le> 1"
proof -
  have "refresh_step\<^sup>*\<^sup>* (refresh_start 30) (load_done (refresh_start 30))"
    by (rule r_into_rtranclp, rule rf_done) (simp add: refresh_start_def)
  from refresh_alive [OF this] show ?thesis
    by (simp add: load_done_def scheduleRefresh_def refresh_start_def Let_def)
qed

end
