(* ===== verification/BuildText.thy ===== *)
theory BuildText
  imports Prelude
begin

text \<open>
  The text step of \<open>build.mjs\<close>: the worker file copied from the package is read, blanks at the end
  of every line are removed (\<open>/[ \t]+$/gm\<close>), the newlines at the end of the file are removed
  (\<open>/\n*$/\<close>) and one newline is added. A text is the list of its UTF-16 code units. The bundling by
  esbuild and the file operations are not modelled.
\<close>

definition is_blank :: "nat \<Rightarrow> bool" where
  "is_blank c \<longleftrightarrow> c = 32 \<or> c = 9"

text \<open>The line terminators in front of which \<open>$\<close> matches under the flag \<open>m\<close>.\<close>

definition is_eol :: "nat \<Rightarrow> bool" where
  "is_eol c \<longleftrightarrow> c = 10 \<or> c = 13 \<or> c = 8232 \<or> c = 8233"

fun blank_to_eol :: "nat list \<Rightarrow> bool" where
  "blank_to_eol [] = True"
| "blank_to_eol (c # cs) = (is_eol c \<or> is_blank c \<and> blank_to_eol cs)"

fun strip_blanks :: "nat list \<Rightarrow> nat list" where
  "strip_blanks [] = []"
| "strip_blanks (c # cs) = (if is_blank c \<and> blank_to_eol cs then strip_blanks cs else c # strip_blanks cs)"

definition strip_newlines :: "nat list \<Rightarrow> nat list" where
  "strip_newlines cs = rev (dropWhile (\<lambda>c. c = 10) (rev cs))"

definition normalise_worker :: "nat list \<Rightarrow> nat list" where
  "normalise_worker cs = strip_newlines (strip_blanks cs) @ [10]"

text \<open>No blank is followed by the end of its line.\<close>

fun trimmed :: "nat list \<Rightarrow> bool" where
  "trimmed [] = True"
| "trimmed (c # cs) = (\<not> (is_blank c \<and> blank_to_eol cs) \<and> trimmed cs)"

lemma eol_not_blank: "is_eol c \<Longrightarrow> \<not> is_blank c"
  by (auto simp: is_eol_def is_blank_def)

lemma blank_to_eol_strip [simp]: "blank_to_eol (strip_blanks cs) = blank_to_eol cs"
  by (induction cs) (auto simp: eol_not_blank)

lemma trimmed_strip: "trimmed (strip_blanks cs)"
  by (induction cs) auto

lemma strip_blanks_id: "trimmed cs \<Longrightarrow> strip_blanks cs = cs"
  by (induction cs) auto

lemma blank_to_eol_snoc: "blank_to_eol (cs @ [10]) = blank_to_eol cs"
  by (induction cs) (auto simp: is_eol_def)

lemma trimmed_snoc: "trimmed (cs @ [10]) = trimmed cs"
  by (induction cs) (auto simp: blank_to_eol_snoc is_blank_def)

lemma strip_newlines_snoc [simp]: "strip_newlines (cs @ [10]) = strip_newlines cs"
  by (simp add: strip_newlines_def)

lemma strip_newlines_decomp: "\<exists>k. cs = strip_newlines cs @ replicate k 10"
proof (induction cs rule: rev_induct)
  case (snoc c cs)
  then obtain k where k: "cs = strip_newlines cs @ replicate k 10" by blast
  show ?case
  proof (cases "c = 10")
    case True
    with k have "cs @ [c] = strip_newlines (cs @ [c]) @ replicate (Suc k) 10"
      by (metis append.assoc replicate_append_same replicate_Suc strip_newlines_snoc)
    then show ?thesis by blast
  next
    case False
    then show ?thesis by (intro exI [of _ 0]) (simp add: strip_newlines_def)
  qed
qed (simp add: strip_newlines_def)

lemma trimmed_replicate: "trimmed (cs @ replicate k 10) = trimmed cs"
  by (induction k) (simp_all add: trimmed_snoc flip: replicate_append_same append_assoc)

lemma trimmed_strip_newlines: "trimmed (strip_newlines cs) = trimmed cs"
  using strip_newlines_decomp [of cs] trimmed_replicate by metis

lemma strip_newlines_idem [simp]: "strip_newlines (strip_newlines cs) = strip_newlines cs"
  by (simp add: strip_newlines_def)

lemma strip_newlines_last: "strip_newlines cs = [] \<or> last (strip_newlines cs) \<noteq> 10"
  using hd_dropWhile [of "\<lambda>c. c = 10" "rev cs"]
  by (cases "dropWhile (\<lambda>c. c = 10) (rev cs) = []") (simp_all add: strip_newlines_def last_rev)

text \<open>
  The checked-in worker is in normal form: no line ends in a blank, the file ends in one
  newline and no more, only blanks and newlines have been taken out, and running the step on its own
  output changes nothing, so that rebuilding is stable.
\<close>

theorem normalise_worker_normal:
  "trimmed (normalise_worker cs) \<and>
   (\<exists>body. normalise_worker cs = body @ [10] \<and> last (0 # body) \<noteq> 10) \<and>
   filter (\<lambda>c. \<not> is_blank c \<and> c \<noteq> 10) (normalise_worker cs) = filter (\<lambda>c. \<not> is_blank c \<and> c \<noteq> 10) cs \<and>
   normalise_worker (normalise_worker cs) = normalise_worker cs"
proof -
  let ?n = "normalise_worker cs"
  have t: "trimmed ?n"
    by (simp add: normalise_worker_def trimmed_snoc trimmed_strip_newlines trimmed_strip)
  have "filter P (strip_blanks cs) = filter P cs" if "\<And>c. is_blank c \<Longrightarrow> \<not> P c" for P
    using that by (induction cs) auto
  moreover have "filter P (strip_newlines ds) = filter P ds" if "\<not> P 10" for P and ds :: "nat list"
    using strip_newlines_decomp [of ds] that by (metis append_Nil2 filter_append filter_replicate)
  ultimately have "filter (\<lambda>c. \<not> is_blank c \<and> c \<noteq> 10) ?n = filter (\<lambda>c. \<not> is_blank c \<and> c \<noteq> 10) cs"
    by (simp add: normalise_worker_def)
  moreover have "normalise_worker ?n = ?n"
    using strip_blanks_id [OF t] by (simp add: normalise_worker_def)
  ultimately show ?thesis
    using t strip_newlines_last [of "strip_blanks cs"] by (auto simp: normalise_worker_def)
qed

end
