(* ===== verification/JsNumber.thy ===== *)
theory JsNumber
  imports Prelude "HOL-Library.Word"
begin

text \<open>
  The 32-bit operations of JavaScript on numbers that hold integers: every operand is first
  converted to a signed 32-bit integer (\<open>>>>\<close> to an unsigned one), a shift count counts modulo 32.
\<close>

definition to_int32 :: "int \<Rightarrow> int" where
  "to_int32 n = (n + 2 ^ 31) mod 2 ^ 32 - 2 ^ 31"

definition js_and :: "int \<Rightarrow> int \<Rightarrow> int" where
  "js_and x y = Bit_Operations.and (to_int32 x) (to_int32 y)"

definition js_bor :: "int \<Rightarrow> int \<Rightarrow> int" where
  "js_bor x y = Bit_Operations.or (to_int32 x) (to_int32 y)"

definition js_xor :: "int \<Rightarrow> int \<Rightarrow> int" where
  "js_xor x y = Bit_Operations.xor (to_int32 x) (to_int32 y)"

definition js_not :: "int \<Rightarrow> int" where
  "js_not x = - to_int32 x - 1"

definition js_shl :: "int \<Rightarrow> int \<Rightarrow> int" where
  "js_shl x k = to_int32 (to_int32 x * 2 ^ nat (k mod 32))"

definition js_shr :: "int \<Rightarrow> int \<Rightarrow> int" where
  "js_shr x k = to_int32 x div 2 ^ nat (k mod 32)"

definition js_ushr :: "int \<Rightarrow> int \<Rightarrow> int" where
  "js_ushr x k = (x mod 2 ^ 32) div 2 ^ nat (k mod 32)"

lemma to_int32_id: "- (2 ^ 31) \<le> x \<Longrightarrow> x < 2 ^ 31 \<Longrightarrow> to_int32 x = x"
  by (simp add: to_int32_def)

lemma to_int32_range: "- (2 ^ 31) \<le> to_int32 x" "to_int32 x < 2 ^ 31"
proof -
  have "0 \<le> (x + 2 ^ 31) mod 2 ^ 32" "(x + 2 ^ 31) mod 2 ^ 32 < 2 ^ 32" by simp_all
  moreover have "(2::int) ^ 32 = 2 ^ 31 + 2 ^ 31" by simp
  ultimately show "- (2 ^ 31) \<le> to_int32 x" "to_int32 x < 2 ^ 31" unfolding to_int32_def by linarith+
qed

lemma to_int32_cong: "\<exists>k. to_int32 x = x + k * 2 ^ 32"
proof -
  have "(x + 2 ^ 31) mod 2 ^ 32 = x + 2 ^ 31 - 2 ^ 32 * ((x + 2 ^ 31) div 2 ^ 32)"
    by (rule minus_mult_div_eq_mod [symmetric])
  then have "to_int32 x = x + (- ((x + 2 ^ 31) div 2 ^ 32)) * 2 ^ 32"
    unfolding to_int32_def by simp
  then show ?thesis by blast
qed

lemma to_int32_mod:
  assumes "n \<le> 32"
  shows "to_int32 x mod 2 ^ n = x mod 2 ^ n"
proof -
  obtain k where k: "to_int32 x = x + k * 2 ^ 32" using to_int32_cong by blast
  have "(2::int) ^ 32 = 2 ^ (32 - n) * 2 ^ n" using assms by (simp flip: power_add)
  then have "to_int32 x = x + (k * 2 ^ (32 - n)) * 2 ^ n" using k by simp
  then show ?thesis by simp
qed

lemma and_low_mask: "Bit_Operations.and x (2 ^ n - 1) = (x::int) mod 2 ^ n"
  using take_bit_eq_mask [of n x] by (simp add: mask_eq_exp_minus_1 take_bit_eq_mod)

lemma js_and_mask:
  assumes "n \<le> 31"
  shows "js_and x (2 ^ n - 1) = x mod 2 ^ n"
proof -
  have "(2::int) ^ n \<le> 2 ^ 31" using assms by (intro power_increasing) simp_all
  moreover have "(0::int) < 2 ^ n" by simp
  ultimately have "- (2 ^ 31) \<le> (2::int) ^ n - 1" "(2::int) ^ n - 1 < 2 ^ 31" by linarith+
  then have "to_int32 (2 ^ n - 1) = 2 ^ n - 1" by (rule to_int32_id)
  then show ?thesis using assms by (simp add: js_and_def and_low_mask to_int32_mod)
qed

text \<open>The masks the long arithmetic uses.\<close>

lemma js_and_4194303: "js_and x 4194303 = x mod 4194304"
  using js_and_mask [of 22 x] by simp

lemma js_and_1048575: "js_and x 1048575 = x mod 1048576"
  using js_and_mask [of 20 x] by simp

lemma js_and_8191: "js_and x 8191 = x mod 8192"
  using js_and_mask [of 13 x] by simp

lemma js_and_15: "js_and x 15 = x mod 16"
  using js_and_mask [of 4 x] by simp

lemma js_and_255: "js_and x 255 = x mod 256"
  using js_and_mask [of 8 x] by simp

lemma js_and_511: "js_and x 511 = x mod 512"
  using js_and_mask [of 9 x] by simp

lemma js_and_262143: "js_and x 262143 = x mod 262144"
  using js_and_mask [of 18 x] by simp

lemma js_and_31: "js_and x 31 = x mod 32"
  using js_and_mask [of 5 x] by simp

lemma js_and_4095: "js_and x 4095 = x mod 4096"
  using js_and_mask [of 12 x] by simp

lemma js_and_63: "js_and x 63 = x mod 64"
  using js_and_mask [of 6 x] by simp

lemmas js_masks = js_and_4194303 js_and_1048575 js_and_8191 js_and_15 js_and_255 js_and_511 js_and_262143 js_and_31 js_and_4095 js_and_63

lemma js_shr_id: "- (2 ^ 31) \<le> x \<Longrightarrow> x < 2 ^ 31 \<Longrightarrow> 0 \<le> k \<Longrightarrow> k < 32 \<Longrightarrow> js_shr x k = x div 2 ^ nat k"
  by (simp add: js_shr_def to_int32_id)

lemma js_shl_id: "0 \<le> x \<Longrightarrow> 0 \<le> k \<Longrightarrow> k < 32 \<Longrightarrow> x * 2 ^ nat k < 2 ^ 31 \<Longrightarrow> js_shl x k = x * 2 ^ nat k"
proof -
  assume a: "0 \<le> x" "0 \<le> k" "k < 32" "x * 2 ^ nat k < 2 ^ 31"
  have "x * 1 \<le> x * 2 ^ nat k" using a by (intro mult_left_mono) simp_all
  then have "to_int32 x = x" using a by (intro to_int32_id) auto
  moreover have "to_int32 (x * 2 ^ nat k) = x * 2 ^ nat k"
    using a by (intro to_int32_id) (auto intro: order_trans [of _ 0])
  ultimately show ?thesis using a by (simp add: js_shl_def)
qed

end
