(* ===== verification/ObjectCode.thy ===== *)
theory ObjectCode
  imports JsNumber
begin

text \<open>
  The object layer of the layout worker (\<open>layout-worker.js\<close>, the JavaScript that the GWT compiler
  produced for the layout engine). Its constructors, accessors, static initialisers and forwarding
  functions, and the loops of its collections and small algorithms, are code over objects. This theory
  gives the values, the store, the expressions and statements of that code and their evaluation; the
  functions themselves are the tables from \<open>ObjectTable1\<close> on, and \<open>ObjectLayer\<close> links them.

  Evaluation is total: what the model does not decide (a function of no table, a number outside the
  integers that a double holds exactly, a conversion of an object to a primitive value) is the
  outcome \<open>Stuck\<close>, a raised exception is \<open>Thrown\<close>, and a call depth or a loop beyond the fuel is
  \<open>NoFuel\<close>.
\<close>

named_theorems js_names \<open>the names a table of functions declares\<close>

subsection \<open>Values and the store\<close>

datatype jval = JUndef | JNull | JBool bool | JNum int | JStr string | JRef nat | JFun string

text \<open>An object: the constructor that made it and its own fields.\<close>

record jobj =
  j_cls :: string
  j_flds :: "string \<Rightarrow> jval option"

record jst =
  j_heap :: "nat \<Rightarrow> jobj option"
  j_next :: nat
  j_glob :: "string \<Rightarrow> jval option"

definition empty_st :: jst where
  "empty_st = \<lparr>j_heap = (\<lambda>_. None), j_next = 0, j_glob = (\<lambda>_. None)\<rparr>"

datatype bop = Plus | Minus | Times | Divide | Modulo | Lt | Gt | Le | Ge
  | BitAnd | BitOr | BitXor | Shl | Shr | Ushr | DivInt

text \<open>\<open>DivInt\<close> is the compiler's \<open>a/b|0\<close>, \<open>IsArr\<close> is \<open>Array.isArray\<close>.\<close>

datatype jexp =
    V nat | This | G string | K jval
  | Dot jexp string | Idx jexp jexp
  | New string "jexp list" | NewLit "(string \<times> jexp) list" | NewArr "jexp list"
  | Call string "jexp list" | Super string "jexp list" | Meth jexp string "jexp list"
  | SetV nat jexp | SetG string jexp | Put jexp string jexp | PutIdx jexp jexp jexp
  | Neg jexp | Minus1 jexp | Compl jexp | And jexp jexp | Or jexp jexp | Cond jexp jexp jexp | Seq jexp jexp
  | Same jexp jexp | Loose jexp jexp | Bin bop jexp jexp | Typeof jexp | IsArr jexp

text \<open>
  \<open>Loop a xs ps\<close> is \<open>for(;a;ps)xs\<close>, whose \<open>continue\<close> goes to \<open>ps\<close>; a \<open>do\<close> loop tests at the end of \<open>ps\<close>. The cases
  of a \<open>Switch\<close> have a literal each, \<open>None\<close> is \<open>default\<close>. \<open>Try xs i hs\<close> binds the exception to local \<open>i\<close>.
\<close>

datatype jstm =
    Do jexp | Ret jexp | Raise jexp | When jexp "jstm list" "jstm list"
  | Loop jexp "jstm list" "jstm list" | Break | Continue
  | Switch jexp "(jval option \<times> jstm list) list" | Try "jstm list" nat "jstm list"

text \<open>A function: parameters, further local variables, body.\<close>

record jfun =
  f_params :: nat
  f_locals :: nat
  f_body :: "jstm list"

definition fn :: "string \<Rightarrow> nat \<Rightarrow> nat \<Rightarrow> jstm list \<Rightarrow> string \<times> jfun" where
  "fn name ps ls body = (name, \<lparr>f_params = ps, f_locals = ls, f_body = body\<rparr>)"

text \<open>A program: its functions and the fields that a class's prototype chain provides.\<close>

record jprog =
  p_fun :: "string \<Rightarrow> jfun option"
  p_proto :: "string \<Rightarrow> string \<Rightarrow> jval option"

subsection \<open>Outcomes\<close>

datatype ('a, 's) outcome = Ok 'a 's | Thrown jval 's | Stuck | NoFuel

fun bnd :: "('a, 's) outcome \<Rightarrow> ('a \<Rightarrow> 's \<Rightarrow> ('b, 's) outcome) \<Rightarrow> ('b, 's) outcome" where
  "bnd (Ok a s) k = k a s"
| "bnd (Thrown e s) k = Thrown e s"
| "bnd Stuck k = Stuck"
| "bnd NoFuel k = NoFuel"

subsection \<open>Primitive operations\<close>

definition type_error :: jval where
  "type_error = JStr ''TypeError''"

fun truthy_val :: "jval \<Rightarrow> bool" where
  "truthy_val JUndef = False"
| "truthy_val JNull = False"
| "truthy_val (JBool b) = b"
| "truthy_val (JNum n) = (n \<noteq> 0)"
| "truthy_val (JStr s) = (s \<noteq> [])"
| "truthy_val _ = True"

text \<open>Integers that a double represents exactly, with all their neighbours.\<close>

definition exact :: "int \<Rightarrow> bool" where
  "exact n \<longleftrightarrow> \<bar>n\<bar> < 2 ^ 53"

definition digit_char :: "nat \<Rightarrow> char" where
  "digit_char n = char_of (48 + n)"

fun show_num :: "nat \<Rightarrow> string" where
  "show_num n = (if n < 10 then [digit_char n] else show_num (n div 10) @ [digit_char (n mod 10)])"

definition show_int :: "int \<Rightarrow> string" where
  "show_int n = (if n < 0 then ''-'' @ show_num (nat (- n)) else show_num (nat n))"

declare show_num.simps [simp del]

fun to_str :: "jval \<Rightarrow> string option" where
  "to_str (JStr s) = Some s"
| "to_str (JNum n) = Some (show_int n)"
| "to_str JNull = Some ''null''"
| "to_str JUndef = Some ''undefined''"
| "to_str (JBool b) = Some (if b then ''true'' else ''false'')"
| "to_str _ = None"

definition is_str :: "jval \<Rightarrow> bool" where
  "is_str v = (case v of JStr _ \<Rightarrow> True | _ \<Rightarrow> False)"

definition bits32 :: "bop \<Rightarrow> int \<Rightarrow> int \<Rightarrow> int" where
  "bits32 b m n =
     (case b of
        BitAnd \<Rightarrow> js_and m n
      | BitOr \<Rightarrow> js_bor m n
      | BitXor \<Rightarrow> js_xor m n
      | Shl \<Rightarrow> js_shl m n
      | Shr \<Rightarrow> js_shr m n
      | _ \<Rightarrow> js_ushr m n)"

definition arith :: "bop \<Rightarrow> int \<Rightarrow> int \<Rightarrow> jval option" where
  "arith b m n =
     (let num = (\<lambda>r. if exact r then Some (JNum r) else None)
      in case b of
           Plus \<Rightarrow> num (m + n)
         | Minus \<Rightarrow> num (m - n)
         | Times \<Rightarrow> num (m * n)
         | Divide \<Rightarrow> if n \<noteq> 0 \<and> n dvd m then num (m div n) else None
         | DivInt \<Rightarrow> if \<bar>m\<bar> < 2 ^ 31 \<and> \<bar>n\<bar> < 2 ^ 31 then Some (JNum (if n = 0 then 0 else sgn m * sgn n * (\<bar>m\<bar> div \<bar>n\<bar>))) else None
         | Modulo \<Rightarrow> if n \<noteq> 0 then num (sgn m * (\<bar>m\<bar> mod \<bar>n\<bar>)) else None
         | Lt \<Rightarrow> Some (JBool (m < n))
         | Gt \<Rightarrow> Some (JBool (m > n))
         | Le \<Rightarrow> Some (JBool (m \<le> n))
         | Ge \<Rightarrow> Some (JBool (m \<ge> n))
         | _ \<Rightarrow> num (bits32 b m n))"

definition binop :: "bop \<Rightarrow> jval \<Rightarrow> jval \<Rightarrow> jval option" where
  "binop b v w =
     (case (v, w) of
        (JNum m, JNum n) \<Rightarrow> arith b m n
      | _ \<Rightarrow> (if b = Plus \<and> (is_str v \<or> is_str w)
             then (case (to_str v, to_str w) of (Some x, Some y) \<Rightarrow> Some (JStr (x @ y)) | _ \<Rightarrow> None)
             else None))"

text \<open>\<open>==\<close>: strict on values of one type, \<open>null\<close> and \<open>undefined\<close> equal each other and nothing else.\<close>

fun loose_eq :: "jval \<Rightarrow> jval \<Rightarrow> bool option" where
  "loose_eq JNull w = Some (w = JNull \<or> w = JUndef)"
| "loose_eq JUndef w = Some (w = JNull \<or> w = JUndef)"
| "loose_eq v JNull = Some False"
| "loose_eq v JUndef = Some False"
| "loose_eq (JNum m) (JNum n) = Some (m = n)"
| "loose_eq (JStr m) (JStr n) = Some (m = n)"
| "loose_eq (JBool m) (JBool n) = Some (m = n)"
| "loose_eq (JRef m) (JRef n) = Some (m = n)"
| "loose_eq (JRef m) (JFun n) = Some False"
| "loose_eq (JFun m) (JRef n) = Some False"
| "loose_eq (JFun m) (JFun n) = Some (m = n)"
| "loose_eq _ _ = None"

fun type_name :: "jval \<Rightarrow> string" where
  "type_name JUndef = ''undefined''"
| "type_name (JBool _) = ''boolean''"
| "type_name (JNum _) = ''number''"
| "type_name (JStr _) = ''string''"
| "type_name (JFun _) = ''function''"
| "type_name _ = ''object''"

definition lift_opt :: "'a option \<Rightarrow> 's \<Rightarrow> ('a, 's) outcome" where
  "lift_opt x s = (case x of Some v \<Rightarrow> Ok v s | None \<Rightarrow> Stuck)"

subsection \<open>Objects\<close>

definition alloc :: "string \<Rightarrow> jst \<Rightarrow> nat \<times> jst" where
  "alloc c s =
     (j_next s, s\<lparr>j_heap := (j_heap s)(j_next s \<mapsto> \<lparr>j_cls = c, j_flds = (\<lambda>_. None)\<rparr>),
                  j_next := Suc (j_next s)\<rparr>)"

text \<open>A property of a value: \<open>Inl\<close> is the \<open>TypeError\<close> of \<open>null\<close> and \<open>undefined\<close>.\<close>

definition get_prop :: "jprog \<Rightarrow> jval \<Rightarrow> string \<Rightarrow> jst \<Rightarrow> (jval, jst) outcome" where
  "get_prop p v f s =
     (case v of
        JNull \<Rightarrow> Thrown type_error s
      | JUndef \<Rightarrow> Thrown type_error s
      | JStr x \<Rightarrow> (if f = ''length'' then Ok (JNum (int (length x))) s else Stuck)
      | JRef r \<Rightarrow> (case j_heap s r of
                    None \<Rightarrow> Stuck
                  | Some ob \<Rightarrow> (case j_flds ob f of
                        Some w \<Rightarrow> Ok w s
                      | None \<Rightarrow> (case p_proto p (j_cls ob) f of Some w \<Rightarrow> Ok w s | None \<Rightarrow> Ok JUndef s)))
      | _ \<Rightarrow> Stuck)"

definition put_prop :: "jval \<Rightarrow> string \<Rightarrow> jval \<Rightarrow> jst \<Rightarrow> (jval, jst) outcome" where
  "put_prop v f w s =
     (case v of
        JNull \<Rightarrow> Thrown type_error s
      | JUndef \<Rightarrow> Thrown type_error s
      | JRef r \<Rightarrow> (case j_heap s r of
                    None \<Rightarrow> Stuck
                  | Some ob \<Rightarrow> Ok w (s\<lparr>j_heap := (j_heap s)(r \<mapsto> ob\<lparr>j_flds := (j_flds ob)(f \<mapsto> w)\<rparr>)\<rparr>))
      | _ \<Rightarrow> Stuck)"

text \<open>
  An index of an array. Storing at or beyond the length of an array extends it. An index that is no
  natural number, and an index of anything but an array, is not modelled.
\<close>

definition array_len :: "jval \<Rightarrow> jst \<Rightarrow> int option" where
  "array_len v s =
     (case v of
        JRef r \<Rightarrow> (case j_heap s r of
                    Some ob \<Rightarrow> (if j_cls ob = ''Array''
                       then (case j_flds ob ''length'' of Some (JNum n) \<Rightarrow> Some n | _ \<Rightarrow> None) else None)
                  | None \<Rightarrow> None)
      | _ \<Rightarrow> None)"

definition is_arr :: "jval \<Rightarrow> jst \<Rightarrow> bool" where
  "is_arr v s =
     (case v of JRef r \<Rightarrow> (case j_heap s r of Some ob \<Rightarrow> j_cls ob = ''Array'' | None \<Rightarrow> False) | _ \<Rightarrow> False)"

definition get_idx :: "jprog \<Rightarrow> jval \<Rightarrow> jval \<Rightarrow> jst \<Rightarrow> (jval, jst) outcome" where
  "get_idx p v i s =
     (if v = JNull \<or> v = JUndef then Thrown type_error s
      else case (array_len v s, i) of
             (Some n, JNum k) \<Rightarrow> (if 0 \<le> k then get_prop p v (show_int k) s else Stuck)
           | _ \<Rightarrow> Stuck)"

definition put_idx :: "jval \<Rightarrow> jval \<Rightarrow> jval \<Rightarrow> jst \<Rightarrow> (jval, jst) outcome" where
  "put_idx v i w s =
     (if v = JNull \<or> v = JUndef then Thrown type_error s
      else case (array_len v s, i) of
             (Some n, JNum k) \<Rightarrow>
               (if 0 \<le> k then bnd (put_prop v (show_int k) w s)
                  (\<lambda>u t. if n \<le> k then bnd (put_prop v ''length'' (JNum (k + 1)) t) (\<lambda>_. Ok u) else Ok u t)
                else Stuck)
           | _ \<Rightarrow> Stuck)"

definition glob_val :: "jprog \<Rightarrow> string \<Rightarrow> jst \<Rightarrow> jval option" where
  "glob_val p x s =
     (case j_glob s x of
        Some v \<Rightarrow> Some v
      | None \<Rightarrow> (if p_fun p x = None then None else Some (JFun x)))"

subsection \<open>Evaluation\<close>

text \<open>
  \<open>ev\<close> and \<open>exs\<close> evaluate under \<open>call\<close>, the behaviour of a function: its name, \<open>this\<close>, the
  arguments and the store. The state is the list of local variables and the store.
\<close>

type_synonym jcall = "string \<Rightarrow> jval \<Rightarrow> jval list \<Rightarrow> jst \<Rightarrow> (jval, jst) outcome"
type_synonym jenv = "jval list \<times> jst"

definition on_st :: "(jst \<Rightarrow> ('a, jst) outcome) \<Rightarrow> jenv \<Rightarrow> ('a, jenv) outcome" where
  "on_st f e = (case f (snd e) of
      Ok v s \<Rightarrow> Ok v (fst e, s) | Thrown x s \<Rightarrow> Thrown x (fst e, s) | Stuck \<Rightarrow> Stuck | NoFuel \<Rightarrow> NoFuel)"

definition call_val :: "jcall \<Rightarrow> jval \<Rightarrow> jval \<Rightarrow> jval list \<Rightarrow> jenv \<Rightarrow> (jval, jenv) outcome" where
  "call_val call f this args e = (case f of JFun g \<Rightarrow> on_st (call g this args) e | _ \<Rightarrow> Stuck)"

text \<open>\<open>new\<close>: a constructor that returns an object replaces the new one.\<close>

definition new_val :: "jcall \<Rightarrow> jval \<Rightarrow> jval list \<Rightarrow> jenv \<Rightarrow> (jval, jenv) outcome" where
  "new_val call f args e =
     (case f of
        JFun g \<Rightarrow> (let (r, s) = alloc g (snd e)
                   in bnd (on_st (call g (JRef r) args) (fst e, s))
                        (\<lambda>v e'. Ok (case v of JRef q \<Rightarrow> JRef q | _ \<Rightarrow> JRef r) e'))
      | _ \<Rightarrow> Stuck)"

fun put_all_props :: "jval \<Rightarrow> (string \<times> jval) list \<Rightarrow> jst \<Rightarrow> (jval, jst) outcome" where
  "put_all_props v [] s = Ok v s"
| "put_all_props v ((f, w) # fs) s = bnd (put_prop v f w s) (\<lambda>_. put_all_props v fs)"

definition array_props :: "jval list \<Rightarrow> (string \<times> jval) list" where
  "array_props vs =
     (''length'', JNum (int (length vs))) # map (\<lambda>i. (show_int (int i), vs ! i)) [0..<length vs]"

fun ev :: "jprog \<Rightarrow> jcall \<Rightarrow> jval \<Rightarrow> jexp \<Rightarrow> jenv \<Rightarrow> (jval, jenv) outcome"
and evs :: "jprog \<Rightarrow> jcall \<Rightarrow> jval \<Rightarrow> jexp list \<Rightarrow> jenv \<Rightarrow> (jval list, jenv) outcome"
and evf :: "jprog \<Rightarrow> jcall \<Rightarrow> jval \<Rightarrow> (string \<times> jexp) list \<Rightarrow> jenv \<Rightarrow> ((string \<times> jval) list, jenv) outcome"
where
  "ev p c t (V i) e = (if i < length (fst e) then Ok (fst e ! i) e else Stuck)"
| "ev p c t This e = Ok t e"
| "ev p c t (G x) e = lift_opt (glob_val p x (snd e)) e"
| "ev p c t (K v) e = Ok v e"
| "ev p c t (Dot a f) e = bnd (ev p c t a e) (\<lambda>v. on_st (get_prop p v f))"
| "ev p c t (Idx a b) e = bnd (ev p c t a e) (\<lambda>v e. bnd (ev p c t b e) (\<lambda>i. on_st (get_idx p v i)))"
| "ev p c t (New f as) e = bnd (lift_opt (glob_val p f (snd e)) e)
     (\<lambda>g e. bnd (evs p c t as e) (\<lambda>vs. new_val c g vs))"
| "ev p c t (NewLit fs) e = bnd (evf p c t fs e)
     (\<lambda>vs e. let (r, s) = alloc ''Object'' (snd e) in on_st (put_all_props (JRef r) vs) (fst e, s))"
| "ev p c t (NewArr as) e = bnd (evs p c t as e)
     (\<lambda>vs e. let (r, s) = alloc ''Array'' (snd e)
            in on_st (put_all_props (JRef r) (array_props vs)) (fst e, s))"
| "ev p c t (Call f as) e = bnd (lift_opt (glob_val p f (snd e)) e)
     (\<lambda>g e. bnd (evs p c t as e) (\<lambda>vs. call_val c g JUndef vs))"
| "ev p c t (Super f as) e = bnd (lift_opt (glob_val p f (snd e)) e)
     (\<lambda>g e. bnd (evs p c t as e) (\<lambda>vs. call_val c g t vs))"
| "ev p c t (Meth a m as) e = bnd (ev p c t a e)
     (\<lambda>v e. bnd (on_st (get_prop p v m) e) (\<lambda>g e. bnd (evs p c t as e) (\<lambda>vs. call_val c g v vs)))"
| "ev p c t (SetV i a) e = bnd (ev p c t a e)
     (\<lambda>v e. if i < length (fst e) then Ok v ((fst e)[i := v], snd e) else Stuck)"
| "ev p c t (SetG x a) e = bnd (ev p c t a e)
     (\<lambda>v e. Ok v (fst e, (snd e)\<lparr>j_glob := (j_glob (snd e))(x \<mapsto> v)\<rparr>))"
| "ev p c t (Put a f b) e = bnd (ev p c t a e)
     (\<lambda>v e. bnd (ev p c t b e) (\<lambda>w. on_st (put_prop v f w)))"
| "ev p c t (PutIdx a i b) e = bnd (ev p c t a e) (\<lambda>v e. bnd (ev p c t i e)
     (\<lambda>k e. bnd (ev p c t b e) (\<lambda>w. on_st (put_idx v k w))))"
| "ev p c t (Neg a) e = bnd (ev p c t a e) (\<lambda>v. Ok (JBool (\<not> truthy_val v)))"
| "ev p c t (Minus1 a) e = bnd (ev p c t a e)
     (\<lambda>v e. case v of JNum n \<Rightarrow> Ok (JNum (- n)) e | _ \<Rightarrow> Stuck)"
| "ev p c t (Compl a) e = bnd (ev p c t a e)
     (\<lambda>v e. case v of JNum n \<Rightarrow> Ok (JNum (- to_int32 n - 1)) e | _ \<Rightarrow> Stuck)"
| "ev p c t (And a b) e = bnd (ev p c t a e) (\<lambda>v e. if truthy_val v then ev p c t b e else Ok v e)"
| "ev p c t (Or a b) e = bnd (ev p c t a e) (\<lambda>v e. if truthy_val v then Ok v e else ev p c t b e)"
| "ev p c t (Cond a b d) e = bnd (ev p c t a e)
     (\<lambda>v e. if truthy_val v then ev p c t b e else ev p c t d e)"
| "ev p c t (Seq a b) e = bnd (ev p c t a e) (\<lambda>_ e. ev p c t b e)"
| "ev p c t (Same a b) e = bnd (ev p c t a e)
     (\<lambda>v e. bnd (ev p c t b e) (\<lambda>w. Ok (JBool (v = w))))"
| "ev p c t (Loose a b) e = bnd (ev p c t a e)
     (\<lambda>v e. bnd (ev p c t b e) (\<lambda>w. lift_opt (map_option JBool (loose_eq v w))))"
| "ev p c t (Bin o' a b) e = bnd (ev p c t a e)
     (\<lambda>v e. bnd (ev p c t b e) (\<lambda>w. lift_opt (binop o' v w)))"
| "ev p c t (Typeof a) e = bnd (ev p c t a e) (\<lambda>v. Ok (JStr (type_name v)))"
| "ev p c t (IsArr a) e = bnd (ev p c t a e) (\<lambda>v e. Ok (JBool (is_arr v (snd e))) e)"
| "evs p c t [] e = Ok [] e"
| "evs p c t (a # as) e = bnd (ev p c t a e) (\<lambda>v e. bnd (evs p c t as e) (\<lambda>vs. Ok (v # vs)))"
| "evf p c t [] e = Ok [] e"
| "evf p c t ((f, a) # fs) e = bnd (ev p c t a e) (\<lambda>v e. bnd (evf p c t fs e) (\<lambda>vs. Ok ((f, v) # vs)))"

text \<open>How a list of statements ends.\<close>

datatype jend = Next | Return jval | Broken | Continued

text \<open>Iterating the body of a loop until it ends the loop, at most as often as the fuel.\<close>

primrec iter :: "nat \<Rightarrow> (jenv \<Rightarrow> (jend option, jenv) outcome) \<Rightarrow> jenv \<Rightarrow> (jend, jenv) outcome" where
  "iter 0 f e = NoFuel"
| "iter (Suc n) f e = bnd (f e) (\<lambda>r e. case r of None \<Rightarrow> iter n f e | Some k \<Rightarrow> Ok k e)"

definition caught :: "('a, jenv) outcome \<Rightarrow> nat \<Rightarrow> (jenv \<Rightarrow> ('a, jenv) outcome) \<Rightarrow> ('a, jenv) outcome" where
  "caught r i h =
     (case r of
        Thrown x e \<Rightarrow> (if i < length (fst e) then h ((fst e)[i := x], snd e) else Stuck)
      | _ \<Rightarrow> r)"

text \<open>After the body of a loop: leave it, or run \<open>ps\<close>; after \<open>ps\<close>: leave it, or go round again.\<close>

definition after_body :: "jend \<Rightarrow> (jenv \<Rightarrow> (jend, jenv) outcome) \<Rightarrow> jenv \<Rightarrow> (jend option, jenv) outcome" where
  "after_body k ps e =
     (case k of
        Return w \<Rightarrow> Ok (Some (Return w)) e
      | Broken \<Rightarrow> Ok (Some Next) e
      | _ \<Rightarrow> bnd (ps e) (\<lambda>k e. Ok (case k of Return w \<Rightarrow> Some (Return w) | Broken \<Rightarrow> Some Next | _ \<Rightarrow> None) e))"

definition then_rest :: "jend \<Rightarrow> (jenv \<Rightarrow> (jend, jenv) outcome) \<Rightarrow> jenv \<Rightarrow> (jend, jenv) outcome" where
  "then_rest k rest e = (if k = Next then rest e else Ok k e)"

text \<open>The case of a \<open>switch\<close> that is entered: one equal to the value, else \<open>default\<close>.\<close>

definition target :: "jval \<Rightarrow> (jval option \<times> 'a) list \<Rightarrow> jval option" where
  "target v cs = (if Some v \<in> set (map fst cs) then Some v else None)"

fun exs :: "jprog \<Rightarrow> jcall \<Rightarrow> nat \<Rightarrow> jval \<Rightarrow> jstm list \<Rightarrow> jenv \<Rightarrow> (jend, jenv) outcome"
and excs :: "jprog \<Rightarrow> jcall \<Rightarrow> nat \<Rightarrow> jval \<Rightarrow> jval option \<Rightarrow> bool \<Rightarrow> (jval option \<times> jstm list) list \<Rightarrow> jenv \<Rightarrow> (jend, jenv) outcome"
where
  "exs p c n t [] e = Ok Next e"
| "exs p c n t (Do a # ss) e = bnd (ev p c t a e) (\<lambda>_ e. exs p c n t ss e)"
| "exs p c n t (Ret a # ss) e = bnd (ev p c t a e) (\<lambda>v. Ok (Return v))"
| "exs p c n t (Raise a # ss) e = bnd (ev p c t a e) Thrown"
| "exs p c n t (When a xs ys # ss) e = bnd (ev p c t a e)
     (\<lambda>v e. bnd (if truthy_val v then exs p c n t xs e else exs p c n t ys e)
        (\<lambda>k e. then_rest k (exs p c n t ss) e))"
| "exs p c n t (Loop a xs ps # ss) e =
     bnd (iter n (\<lambda>e. bnd (ev p c t a e)
            (\<lambda>v e. if truthy_val v then bnd (exs p c n t xs e) (\<lambda>k e. after_body k (exs p c n t ps) e)
                   else Ok (Some Next) e)) e)
       (\<lambda>k e. then_rest k (exs p c n t ss) e)"
| "exs p c n t (Break # ss) e = Ok Broken e"
| "exs p c n t (Continue # ss) e = Ok Continued e"
| "exs p c n t (Switch a cs # ss) e = bnd (ev p c t a e)
     (\<lambda>v e. bnd (excs p c n t (target v cs) False cs e)
        (\<lambda>k e. then_rest (if k = Broken then Next else k) (exs p c n t ss) e))"
| "exs p c n t (Try xs i hs # ss) e =
     bnd (caught (exs p c n t xs e) i (exs p c n t hs)) (\<lambda>k e. then_rest k (exs p c n t ss) e)"
| "excs p c n t w b [] e = Ok Next e"
| "excs p c n t w b ((g, xs) # cs) e =
     (if b \<or> g = w then bnd (exs p c n t xs e) (\<lambda>k e. then_rest k (excs p c n t w True cs) e)
      else excs p c n t w b cs e)"

definition init_vars :: "jfun \<Rightarrow> jval list \<Rightarrow> jval list" where
  "init_vars f args =
     take (f_params f) (args @ replicate (f_params f) JUndef) @ replicate (f_locals f) JUndef"

definition run_body :: "jprog \<Rightarrow> jcall \<Rightarrow> nat \<Rightarrow> jfun \<Rightarrow> jval \<Rightarrow> jval list \<Rightarrow> jst \<Rightarrow> (jval, jst) outcome" where
  "run_body p c n f t args s =
     (case exs p c n t (f_body f) (init_vars f args, s) of
        Ok k e \<Rightarrow> (case k of Next \<Rightarrow> Ok JUndef (snd e) | Return v \<Rightarrow> Ok v (snd e) | _ \<Rightarrow> Stuck)
      | Thrown x e \<Rightarrow> Thrown x (snd e)
      | Stuck \<Rightarrow> Stuck
      | NoFuel \<Rightarrow> NoFuel)"

text \<open>Calls nested at most as deep as the fuel, and no loop with more iterations.\<close>

primrec run :: "jprog \<Rightarrow> nat \<Rightarrow> jcall" where
  "run p 0 = (\<lambda>f t args s. NoFuel)"
| "run p (Suc n) = (\<lambda>f t args s.
     (case p_fun p f of None \<Rightarrow> Stuck | Some fd \<Rightarrow> run_body p (run p n) n fd t args s))"

subsection \<open>Tables of functions\<close>

text \<open>The first function of a name.\<close>

fun find_fn :: "string \<Rightarrow> (string \<times> jfun) list \<Rightarrow> jfun option" where
  "find_fn x [] = None"
| "find_fn x ((y, fd) # t) = (if x = y then Some fd else find_fn x t)"

lemma find_fn_Cons: "find_fn x (fn y ps ls b # t) =
    (if x = y then Some \<lparr>f_params = ps, f_locals = ls, f_body = b\<rparr> else find_fn x t)"
  by (simp add: fn_def)

lemma find_fn_append: "find_fn x (t @ u) = (case find_fn x t of None \<Rightarrow> find_fn x u | Some fd \<Rightarrow> Some fd)"
  by (induction t) auto

lemma find_fn_None: "x \<notin> set (map fst t) \<Longrightarrow> find_fn x t = None"
  by (induction t) auto

lemma find_fn_skip: "x \<notin> set (map fst t) \<Longrightarrow> find_fn x (t @ u) = find_fn x u"
  by (simp add: find_fn_append find_fn_None)

lemma find_fn_hit: "find_fn x t = Some fd \<Longrightarrow> find_fn x (t @ u) = Some fd"
  by (simp add: find_fn_append)

end
