(* ===== verification/JsLibrary.thy ===== *)
theory JsLibrary
  imports ObjectCode
begin

text \<open>
  What the layout worker uses of JavaScript's arrays: the constructor \<open>Array\<close> and the methods
  \<open>push\<close>, \<open>splice\<close> and \<open>slice\<close>, as functions of the same language. They cover the calls of the worker: a
  length that is a natural number, one argument of \<open>push\<close>, \<open>splice\<close> that only deletes and whose result
  is not used, bounds of \<open>slice\<close> within the array. Other calls go to a name that nothing defines, so
  they are \<open>Stuck\<close>.
\<close>

abbreviation uncovered :: jstm where
  "uncovered \<equiv> Do (G ''a call that is not modelled'')"

text \<open>\<open>new Array(n)\<close>: no element is stored, the elements read as \<open>undefined\<close>.\<close>

definition Array_fun :: jfun where
  "Array_fun = \<lparr>f_params = 1, f_locals = 0, f_body =
     [When (Same (Typeof (V 0)) (K (JStr ''undefined''))) [Do (Put This ''length'' (K (JNum 0)))]
       [When (And (Same (Typeof (V 0)) (K (JStr ''number''))) (Bin Ge (V 0) (K (JNum 0))))
         [Do (Put This ''length'' (V 0))] [uncovered]]]\<rparr>"

definition push_fun :: jfun where
  "push_fun = \<lparr>f_params = 1, f_locals = 0, f_body =
     [Do (PutIdx This (Dot This ''length'') (V 0)), Ret (Dot This ''length'')]\<rparr>"

text \<open>\<open>xs.splice(a, n)\<close> moves the elements behind the gap down and takes the last ones away.\<close>

definition splice_fun :: jfun where
  "splice_fun = \<lparr>f_params = 3, f_locals = 2, f_body =
     [Do (SetV 3 (Dot This ''length'')),
      When (And (Same (V 2) (K JUndef)) (And (Bin Ge (V 0) (K (JNum 0))) (And (Bin Ge (V 1) (K (JNum 0)))
          (Bin Le (Bin Plus (V 0) (V 1)) (V 3))))) [] [uncovered],
      Do (SetV 4 (V 0)),
      Loop (Bin Lt (Bin Plus (V 4) (V 1)) (V 3)) [Do (PutIdx This (V 4) (Idx This (Bin Plus (V 4) (V 1))))]
        [Do (SetV 4 (Bin Plus (V 4) (K (JNum 1))))],
      Loop (Bin Lt (V 4) (V 3)) [Do (PutIdx This (V 4) (K JUndef))] [Do (SetV 4 (Bin Plus (V 4) (K (JNum 1))))],
      Do (Put This ''length'' (Bin Minus (V 3) (V 1))), Ret (K JUndef)]\<rparr>"

definition slice_fun :: jfun where
  "slice_fun = \<lparr>f_params = 2, f_locals = 2, f_body =
     [When (Same (V 0) (K JUndef)) [Do (SetV 0 (K (JNum 0)))] [],
      When (Same (V 1) (K JUndef)) [Do (SetV 1 (Dot This ''length''))] [],
      When (And (Bin Ge (V 0) (K (JNum 0))) (Bin Le (V 1) (Dot This ''length''))) [] [uncovered],
      Do (SetV 2 (NewArr [])), Do (SetV 3 (V 0)),
      Loop (Bin Lt (V 3) (V 1)) [Do (PutIdx (V 2) (Bin Minus (V 3) (V 0)) (Idx This (V 3)))]
        [Do (SetV 3 (Bin Plus (V 3) (K (JNum 1))))],
      Ret (V 2)]\<rparr>"

definition js_library :: "(string \<times> jfun) list" where
  "js_library = [(''Array'', Array_fun), (''Array.push'', push_fun), (''Array.splice'', splice_fun), (''Array.slice'', slice_fun)]"

text \<open>The methods that the prototype of arrays provides.\<close>

definition array_methods :: "string \<Rightarrow> jval option" where
  "array_methods f =
     (if f = ''push'' then Some (JFun ''Array.push'')
      else if f = ''splice'' then Some (JFun ''Array.splice'')
      else if f = ''slice'' then Some (JFun ''Array.slice'')
      else None)"

definition with_arrays :: "(string \<Rightarrow> string \<Rightarrow> jval option) \<Rightarrow> string \<Rightarrow> string \<Rightarrow> jval option" where
  "with_arrays proto c f = (if c = ''Array'' then array_methods f else proto c f)"

lemma library_names [js_names]: "map fst js_library = [''Array'', ''Array.push'', ''Array.splice'', ''Array.slice'']"
  by (simp add: js_library_def)

lemma find_library:
  "find_fn ''Array'' js_library = Some Array_fun" "find_fn ''Array.push'' js_library = Some push_fun"
  "find_fn ''Array.splice'' js_library = Some splice_fun" "find_fn ''Array.slice'' js_library = Some slice_fun"
  by (simp_all add: js_library_def)

end
