(* ===== verification/ObjectTable1.thy ===== *)
theory ObjectTable1
  imports ObjectCode
begin

text \<open>
  Functions of \<open>layout-worker.js\<close>, lines 19 to 864, in the order of the file, one per line:
  the empty constructors, the functions that only run a static initialiser, and the one-field constructors and setters.
  An entry has the name, the number of parameters, the number of further local variables and the
  body; parameters and locals are numbered from 0. Lines with a construct outside \<open>jexp\<close> and
  \<open>jstm\<close> (loops, \<open>in\<close>, host objects) are left out.
\<close>

definition code_19_159 :: "(string \<times> jfun) list" where
  "code_19_159 = [
    fn ''nb'' 0 0 [],
    fn ''xb'' 0 0 [],
    fn ''Fd'' 0 0 [],
    fn ''Fy'' 0 0 [],
    fn ''fh'' 0 0 [],
    fn ''fq'' 0 0 [],
    fn ''Hq'' 0 0 [],
    fn ''Dl'' 0 0 [],
    fn ''Ns'' 0 0 [],
    fn ''Rw'' 0 0 [],
    fn ''bx'' 0 0 [],
    fn ''jx'' 0 0 [],
    fn ''kx'' 0 0 [],
    fn ''Vz'' 0 0 [],
    fn ''eA'' 0 0 [],
    fn ''lA'' 0 0 [],
    fn ''UA'' 0 0 [],
    fn ''XA'' 0 0 [],
    fn ''XB'' 0 0 [],
    fn ''bB'' 0 0 [],
    fn ''udb'' 0 0 [],
    fn ''qdb'' 0 0 [],
    fn ''ydb'' 0 0 [],
    fn ''snb'' 0 0 [],
    fn ''Tnb'' 0 0 [],
    fn ''_nb'' 0 0 [],
    fn ''kob'' 0 0 [],
    fn ''sob'' 0 0 [],
    fn ''vqb'' 0 0 [],
    fn ''Eqb'' 0 0 [],
    fn ''Jqb'' 0 0 [],
    fn ''Xqb'' 0 0 [],
    fn ''tsb'' 0 0 [],
    fn ''Aub'' 0 0 [],
    fn ''Fub'' 0 0 [],
    fn ''Hub'' 0 0 [],
    fn ''fxb'' 0 0 [],
    fn ''Nyb'' 0 0 [],
    fn ''NAb'' 0 0 [],
    fn ''bAb'' 0 0 [],
    fn ''zAb'' 0 0 [],
    fn ''PAb'' 0 0 [],
    fn ''RAb'' 0 0 [],
    fn ''TAb'' 0 0 [],
    fn ''VAb'' 0 0 [],
    fn ''Vzb'' 0 0 [],
    fn ''ZAb'' 0 0 [],
    fn ''YCb'' 0 0 [],
    fn ''_Cb'' 0 0 [],
    fn ''bDb'' 0 0 [],
    fn ''dDb'' 0 0 [],
    fn ''zDb'' 0 0 [],
    fn ''YDb'' 0 0 [],
    fn ''aEb'' 0 0 [],
    fn ''QEb'' 0 0 [],
    fn ''TEb'' 0 0 [],
    fn ''TIb'' 0 0 [],
    fn ''PIb'' 0 0 [],
    fn ''RIb'' 0 0 [],
    fn ''VIb'' 0 0 [],
    fn ''VFb'' 0 0 [],
    fn ''pFb'' 0 0 [],
    fn ''HFb'' 0 0 [],
    fn ''MFb'' 0 0 [],
    fn ''QFb'' 0 0 [],
    fn ''eHb'' 0 0 [],
    fn ''iJb'' 0 0 [],
    fn ''mJb'' 0 0 [],
    fn ''nKb'' 0 0 [],
    fn ''pKb'' 0 0 [],
    fn ''rKb'' 0 0 [],
    fn ''BKb'' 0 0 [],
    fn ''pLb'' 0 0 [],
    fn ''rLb'' 0 0 [],
    fn ''FLb'' 0 0 [],
    fn ''JLb'' 0 0 [],
    fn ''iMb'' 0 0 [],
    fn ''FMb'' 0 0 [],
    fn ''KMb'' 0 0 [],
    fn ''OMb'' 0 0 [],
    fn ''WMb'' 0 0 [],
    fn ''YMb'' 0 0 [],
    fn ''sNb'' 0 0 [],
    fn ''ePb'' 0 0 [],
    fn ''LPb'' 0 0 [],
    fn ''QPb'' 0 0 [],
    fn ''LQb'' 0 0 [],
    fn ''PQb'' 0 0 [],
    fn ''jRb'' 0 0 [],
    fn ''BRb'' 0 0 [],
    fn ''ERb'' 0 0 [],
    fn ''HRb'' 0 0 [],
    fn ''RRb'' 0 0 [],
    fn ''jSb'' 0 0 [],
    fn ''BSb'' 0 0 [],
    fn ''GSb'' 0 0 [],
    fn ''wTb'' 0 0 [],
    fn ''DTb'' 0 0 [],
    fn ''HTb'' 0 0 [],
    fn ''LTb'' 0 0 [],
    fn ''PTb'' 0 0 [],
    fn ''TTb'' 0 0 [],
    fn ''PUb'' 0 0 [],
    fn ''oVb'' 0 0 [],
    fn ''zVb'' 0 0 [],
    fn ''DVb'' 0 0 [],
    fn ''HVb'' 0 0 [],
    fn ''RVb'' 0 0 [],
    fn ''CXb'' 0 0 [],
    fn ''GXb'' 0 0 [],
    fn ''eZb'' 0 0 [],
    fn ''$Zb'' 0 0 [],
    fn ''d$b'' 0 0 [],
    fn ''h$b'' 0 0 [],
    fn ''l$b'' 0 0 [],
    fn ''p$b'' 0 0 [],
    fn ''t$b'' 0 0 [],
    fn ''a_b'' 0 0 [],
    fn ''c_b'' 0 0 [],
    fn ''i_b'' 0 0 [],
    fn ''m_b'' 0 0 [],
    fn ''q_b'' 0 0 [],
    fn ''V_b'' 0 0 [],
    fn ''X_b'' 0 0 [],
    fn ''Z_b'' 0 0 [],
    fn ''c0b'' 0 0 [],
    fn ''h0b'' 0 0 [],
    fn ''k0b'' 0 0 [],
    fn ''s0b'' 0 0 [],
    fn ''w0b'' 0 0 [],
    fn ''z0b'' 0 0 [],
    fn ''B0b'' 0 0 [],
    fn ''D0b'' 0 0 [],
    fn ''P0b'' 0 0 [],
    fn ''T0b'' 0 0 [],
    fn ''X0b'' 0 0 [],
    fn ''_0b'' 0 0 [],
    fn ''o1b'' 0 0 [],
    fn ''t1b'' 0 0 [],
    fn ''v1b'' 0 0 [],
    fn ''x1b'' 0 0 []]"

definition code_160_300 :: "(string \<times> jfun) list" where
  "code_160_300 = [
    fn ''z1b'' 0 0 [],
    fn ''B1b'' 0 0 [],
    fn ''O1b'' 0 0 [],
    fn ''Q1b'' 0 0 [],
    fn ''S1b'' 0 0 [],
    fn ''U1b'' 0 0 [],
    fn ''W1b'' 0 0 [],
    fn ''$1b'' 0 0 [],
    fn ''L2b'' 0 0 [],
    fn ''T2b'' 0 0 [],
    fn ''W2b'' 0 0 [],
    fn ''a3b'' 0 0 [],
    fn ''o3b'' 0 0 [],
    fn ''r3b'' 0 0 [],
    fn ''w3b'' 0 0 [],
    fn ''C3b'' 0 0 [],
    fn ''O3b'' 0 0 [],
    fn ''P3b'' 0 0 [],
    fn ''S3b'' 0 0 [],
    fn ''$3b'' 0 0 [],
    fn ''b4b'' 0 0 [],
    fn ''d4b'' 0 0 [],
    fn ''f4b'' 0 0 [],
    fn ''j4b'' 0 0 [],
    fn ''m4b'' 0 0 [],
    fn ''p4b'' 0 0 [],
    fn ''u4b'' 0 0 [],
    fn ''A4b'' 0 0 [],
    fn ''G4b'' 0 0 [],
    fn ''g6b'' 0 0 [],
    fn ''m6b'' 0 0 [],
    fn ''o6b'' 0 0 [],
    fn ''q6b'' 0 0 [],
    fn ''B6b'' 0 0 [],
    fn ''I6b'' 0 0 [],
    fn ''K6b'' 0 0 [],
    fn ''m7b'' 0 0 [],
    fn ''o7b'' 0 0 [],
    fn ''u7b'' 0 0 [],
    fn ''z7b'' 0 0 [],
    fn ''N7b'' 0 0 [],
    fn ''V7b'' 0 0 [],
    fn ''r8b'' 0 0 [],
    fn ''u8b'' 0 0 [],
    fn ''y8b'' 0 0 [],
    fn ''E8b'' 0 0 [],
    fn ''G8b'' 0 0 [],
    fn ''Z8b'' 0 0 [],
    fn ''Z9b'' 0 0 [],
    fn ''c9b'' 0 0 [],
    fn ''g9b'' 0 0 [],
    fn ''u9b'' 0 0 [],
    fn ''C9b'' 0 0 [],
    fn ''F9b'' 0 0 [],
    fn ''L9b'' 0 0 [],
    fn ''O9b'' 0 0 [],
    fn ''T9b'' 0 0 [],
    fn ''aac'' 0 0 [],
    fn ''cac'' 0 0 [],
    fn ''eac'' 0 0 [],
    fn ''iac'' 0 0 [],
    fn ''Dac'' 0 0 [],
    fn ''Hac'' 0 0 [],
    fn ''Lac'' 0 0 [],
    fn ''Nac'' 0 0 [],
    fn ''Pac'' 0 0 [],
    fn ''Vac'' 0 0 [],
    fn ''Yac'' 0 0 [],
    fn ''cbc'' 0 0 [],
    fn ''ebc'' 0 0 [],
    fn ''gbc'' 0 0 [],
    fn ''ibc'' 0 0 [],
    fn ''mbc'' 0 0 [],
    fn ''rbc'' 0 0 [],
    fn ''ubc'' 0 0 [],
    fn ''wbc'' 0 0 [],
    fn ''ybc'' 0 0 [],
    fn ''Abc'' 0 0 [],
    fn ''Cbc'' 0 0 [],
    fn ''Gbc'' 0 0 [],
    fn ''Nbc'' 0 0 [],
    fn ''Pbc'' 0 0 [],
    fn ''Rbc'' 0 0 [],
    fn ''Tbc'' 0 0 [],
    fn ''$bc'' 0 0 [],
    fn ''acc'' 0 0 [],
    fn ''ccc'' 0 0 [],
    fn ''ecc'' 0 0 [],
    fn ''jcc'' 0 0 [],
    fn ''ncc'' 0 0 [],
    fn ''pcc'' 0 0 [],
    fn ''rcc'' 0 0 [],
    fn ''vcc'' 0 0 [],
    fn ''ycc'' 0 0 [],
    fn ''Ecc'' 0 0 [],
    fn ''Scc'' 0 0 [],
    fn ''$cc'' 0 0 [],
    fn ''cdc'' 0 0 [],
    fn ''edc'' 0 0 [],
    fn ''kdc'' 0 0 [],
    fn ''odc'' 0 0 [],
    fn ''sdc'' 0 0 [],
    fn ''udc'' 0 0 [],
    fn ''Adc'' 0 0 [],
    fn ''Edc'' 0 0 [],
    fn ''Gdc'' 0 0 [],
    fn ''Mdc'' 0 0 [],
    fn ''Qdc'' 0 0 [],
    fn ''Sdc'' 0 0 [],
    fn ''gec'' 0 0 [],
    fn ''Nec'' 0 0 [],
    fn ''Pec'' 0 0 [],
    fn ''Rec'' 0 0 [],
    fn ''Tec'' 0 0 [],
    fn ''Vec'' 0 0 [],
    fn ''Xec'' 0 0 [],
    fn ''Zec'' 0 0 [],
    fn ''ffc'' 0 0 [],
    fn ''hfc'' 0 0 [],
    fn ''nfc'' 0 0 [],
    fn ''pfc'' 0 0 [],
    fn ''rfc'' 0 0 [],
    fn ''tfc'' 0 0 [],
    fn ''xfc'' 0 0 [],
    fn ''zfc'' 0 0 [],
    fn ''Hfc'' 0 0 [],
    fn ''Jfc'' 0 0 [],
    fn ''Lfc'' 0 0 [],
    fn ''Ufc'' 0 0 [],
    fn ''Chc'' 0 0 [],
    fn ''Ghc'' 0 0 [],
    fn ''Bic'' 0 0 [],
    fn ''Dic'' 0 0 [],
    fn ''Fic'' 0 0 [],
    fn ''Hic'' 0 0 [],
    fn ''Nic'' 0 0 [],
    fn ''Ric'' 0 0 [],
    fn ''Tic'' 0 0 [],
    fn ''Vic'' 0 0 [],
    fn ''Xic'' 0 0 [],
    fn ''Zic'' 0 0 []]"

definition code_301_441 :: "(string \<times> jfun) list" where
  "code_301_441 = [
    fn ''_ic'' 0 0 [],
    fn ''_jc'' 0 0 [],
    fn ''wjc'' 0 0 [],
    fn ''yjc'' 0 0 [],
    fn ''Ajc'' 0 0 [],
    fn ''Cjc'' 0 0 [],
    fn ''Gjc'' 0 0 [],
    fn ''Kjc'' 0 0 [],
    fn ''Ojc'' 0 0 [],
    fn ''dkc'' 0 0 [],
    fn ''tkc'' 0 0 [],
    fn ''zkc'' 0 0 [],
    fn ''Qkc'' 0 0 [],
    fn ''Ukc'' 0 0 [],
    fn ''Wkc'' 0 0 [],
    fn ''glc'' 0 0 [],
    fn ''qlc'' 0 0 [],
    fn ''Dlc'' 0 0 [],
    fn ''Flc'' 0 0 [],
    fn ''Hlc'' 0 0 [],
    fn ''_lc'' 0 0 [],
    fn ''bmc'' 0 0 [],
    fn ''jmc'' 0 0 [],
    fn ''Fmc'' 0 0 [],
    fn ''Hmc'' 0 0 [],
    fn ''Jmc'' 0 0 [],
    fn ''Omc'' 0 0 [],
    fn ''Qmc'' 0 0 [],
    fn ''cnc'' 0 0 [],
    fn ''enc'' 0 0 [],
    fn ''gnc'' 0 0 [],
    fn ''mnc'' 0 0 [],
    fn ''pnc'' 0 0 [],
    fn ''unc'' 0 0 [],
    fn ''uDc'' 0 0 [],
    fn ''ADc'' 0 0 [],
    fn ''AHc'' 0 0 [],
    fn ''qHc'' 0 0 [],
    fn ''CHc'' 0 0 [],
    fn ''GHc'' 0 0 [],
    fn ''YHc'' 0 0 [],
    fn ''ryc'' 0 0 [],
    fn ''rLc'' 0 0 [],
    fn ''vLc'' 0 0 [],
    fn ''FLc'' 0 0 [],
    fn ''HLc'' 0 0 [],
    fn ''HEc'' 0 0 [],
    fn ''hCc'' 0 0 [],
    fn ''NCc'' 0 0 [],
    fn ''NLc'' 0 0 [],
    fn ''JLc'' 0 0 [],
    fn ''TLc'' 0 0 [],
    fn ''XLc'' 0 0 [],
    fn ''ZLc'' 0 0 [],
    fn ''_Lc'' 0 0 [],
    fn ''hGc'' 0 0 [],
    fn ''PJc'' 0 0 [],
    fn ''bMc'' 0 0 [],
    fn ''fMc'' 0 0 [],
    fn ''jMc'' 0 0 [],
    fn ''oMc'' 0 0 [],
    fn ''qMc'' 0 0 [],
    fn ''wMc'' 0 0 [],
    fn ''yMc'' 0 0 [],
    fn ''CMc'' 0 0 [],
    fn ''EMc'' 0 0 [],
    fn ''IMc'' 0 0 [],
    fn ''KMc'' 0 0 [],
    fn ''MMc'' 0 0 [],
    fn ''OMc'' 0 0 [],
    fn ''BNc'' 0 0 [],
    fn ''SNc'' 0 0 [],
    fn ''qOc'' 0 0 [],
    fn ''$Oc'' 0 0 [],
    fn ''gPc'' 0 0 [],
    fn ''iPc'' 0 0 [],
    fn ''kPc'' 0 0 [],
    fn ''mPc'' 0 0 [],
    fn ''oPc'' 0 0 [],
    fn ''qPc'' 0 0 [],
    fn ''lQc'' 0 0 [],
    fn ''rQc'' 0 0 [],
    fn ''tQc'' 0 0 [],
    fn ''vQc'' 0 0 [],
    fn ''GQc'' 0 0 [],
    fn ''IQc'' 0 0 [],
    fn ''URc'' 0 0 [],
    fn ''WRc'' 0 0 [],
    fn ''iSc'' 0 0 [],
    fn ''rSc'' 0 0 [],
    fn ''tSc'' 0 0 [],
    fn ''tTc'' 0 0 [],
    fn ''dTc'' 0 0 [],
    fn ''gTc'' 0 0 [],
    fn ''jTc'' 0 0 [],
    fn ''zTc'' 0 0 [],
    fn ''DTc'' 0 0 [],
    fn ''_Tc'' 0 0 [],
    fn ''tUc'' 0 0 [],
    fn ''xUc'' 0 0 [],
    fn ''BUc'' 0 0 [],
    fn ''JUc'' 0 0 [],
    fn ''XUc'' 0 0 [],
    fn ''aVc'' 0 0 [],
    fn ''iVc'' 0 0 [],
    fn ''mVc'' 0 0 [],
    fn ''oVc'' 0 0 [],
    fn ''qVc'' 0 0 [],
    fn ''sVc'' 0 0 [],
    fn ''NVc'' 0 0 [],
    fn ''RVc'' 0 0 [],
    fn ''TVc'' 0 0 [],
    fn ''$Vc'' 0 0 [],
    fn ''cWc'' 0 0 [],
    fn ''eWc'' 0 0 [],
    fn ''jWc'' 0 0 [],
    fn ''pWc'' 0 0 [],
    fn ''WXc'' 0 0 [],
    fn ''WZc'' 0 0 [],
    fn ''IZc'' 0 0 [],
    fn ''MZc'' 0 0 [],
    fn ''OZc'' 0 0 [],
    fn ''SZc'' 0 0 [],
    fn ''YZc'' 0 0 [],
    fn ''LYc'' 0 0 [],
    fn ''NYc'' 0 0 [],
    fn ''PYc'' 0 0 [],
    fn ''VYc'' 0 0 [],
    fn ''ZYc'' 0 0 [],
    fn ''a$c'' 0 0 [],
    fn ''e$c'' 0 0 [],
    fn ''g$c'' 0 0 [],
    fn ''m$c'' 0 0 [],
    fn ''q$c'' 0 0 [],
    fn ''u$c'' 0 0 [],
    fn ''A$c'' 0 0 [],
    fn ''E$c'' 0 0 [],
    fn ''I$c'' 0 0 [],
    fn ''M$c'' 0 0 [],
    fn ''W$c'' 0 0 [],
    fn ''$$c'' 0 0 []]"

definition code_442_582 :: "(string \<times> jfun) list" where
  "code_442_582 = [
    fn ''H_c'' 0 0 [],
    fn ''K_c'' 0 0 [],
    fn ''j0c'' 0 0 [],
    fn ''o0c'' 0 0 [],
    fn ''r0c'' 0 0 [],
    fn ''t0c'' 0 0 [],
    fn ''v0c'' 0 0 [],
    fn ''z0c'' 0 0 [],
    fn ''D0c'' 0 0 [],
    fn ''N1c'' 0 0 [],
    fn ''m2c'' 0 0 [],
    fn ''p2c'' 0 0 [],
    fn ''s2c'' 0 0 [],
    fn ''w2c'' 0 0 [],
    fn ''E2c'' 0 0 [],
    fn ''$2c'' 0 0 [],
    fn ''b3c'' 0 0 [],
    fn ''r3c'' 0 0 [],
    fn ''u3c'' 0 0 [],
    fn ''x3c'' 0 0 [],
    fn ''C3c'' 0 0 [],
    fn ''W4c'' 0 0 [],
    fn ''c5c'' 0 0 [],
    fn ''e5c'' 0 0 [],
    fn ''j5c'' 0 0 [],
    fn ''m5c'' 0 0 [],
    fn ''p5c'' 0 0 [],
    fn ''M5c'' 0 0 [],
    fn ''S5c'' 0 0 [],
    fn ''j6c'' 0 0 [],
    fn ''n6c'' 0 0 [],
    fn ''s6c'' 0 0 [],
    fn ''M7c'' 0 0 [],
    fn ''n9c'' 0 0 [],
    fn ''T9c'' 0 0 [],
    fn ''qad'' 0 0 [],
    fn ''Oad'' 0 0 [],
    fn ''Wad'' 0 0 [],
    fn ''mbd'' 0 0 [],
    fn ''obd'' 0 0 [],
    fn ''qbd'' 0 0 [],
    fn ''Cbd'' 0 0 [],
    fn ''Ubd'' 0 0 [],
    fn ''Ybd'' 0 0 [],
    fn ''dcd'' 0 0 [],
    fn ''Bcd'' 0 0 [],
    fn ''Dcd'' 0 0 [],
    fn ''Xcd'' 0 0 [],
    fn ''_cd'' 0 0 [],
    fn ''mdd'' 0 0 [],
    fn ''Edd'' 0 0 [],
    fn ''Fdd'' 0 0 [],
    fn ''Hdd'' 0 0 [],
    fn ''Jdd'' 0 0 [],
    fn ''Ldd'' 0 0 [],
    fn ''Ndd'' 0 0 [],
    fn ''Pdd'' 0 0 [],
    fn ''Rdd'' 0 0 [],
    fn ''Tdd'' 0 0 [],
    fn ''Vdd'' 0 0 [],
    fn ''Xdd'' 0 0 [],
    fn ''Zdd'' 0 0 [],
    fn ''_dd'' 0 0 [],
    fn ''bed'' 0 0 [],
    fn ''ded'' 0 0 [],
    fn ''fed'' 0 0 [],
    fn ''hed'' 0 0 [],
    fn ''jed'' 0 0 [],
    fn ''led'' 0 0 [],
    fn ''ned'' 0 0 [],
    fn ''ped'' 0 0 [],
    fn ''Ped'' 0 0 [],
    fn ''fhd'' 0 0 [],
    fn ''Kkd'' 0 0 [],
    fn ''Umd'' 0 0 [],
    fn ''Lod'' 0 0 [],
    fn ''Lqd'' 0 0 [],
    fn ''lqd'' 0 0 [],
    fn ''Dqd'' 0 0 [],
    fn ''Fqd'' 0 0 [],
    fn ''Qqd'' 0 0 [],
    fn ''_qd'' 0 0 [],
    fn ''mpd'' 0 0 [],
    fn ''qpd'' 0 0 [],
    fn ''upd'' 0 0 [],
    fn ''ypd'' 0 0 [],
    fn ''Cpd'' 0 0 [],
    fn ''Crd'' 0 0 [],
    fn ''usd'' 0 0 [],
    fn ''uwd'' 0 0 [],
    fn ''Nwd'' 0 0 [],
    fn ''tvd'' 0 0 [],
    fn ''lxd'' 0 0 [],
    fn ''eyd'' 0 0 [],
    fn ''Dzd'' 0 0 [],
    fn ''vAd'' 0 0 [],
    fn ''XAd'' 0 0 [],
    fn ''nGd'' 0 0 [],
    fn ''SGd'' 0 0 [],
    fn ''$Gd'' 0 0 [],
    fn ''wJd'' 0 0 [],
    fn ''wOd'' 0 0 [],
    fn ''POd'' 0 0 [],
    fn ''sNd'' 0 0 [],
    fn ''_Qd'' 0 0 [],
    fn ''mRd'' 0 0 [],
    fn ''xSd'' 0 0 [],
    fn ''gTd'' 0 0 [],
    fn ''CTd'' 0 0 [],
    fn ''hZd'' 0 0 [],
    fn ''kZd'' 0 0 [],
    fn ''nZd'' 0 0 [],
    fn ''vZd'' 0 0 [],
    fn ''IZd'' 0 0 [],
    fn ''LZd'' 0 0 [],
    fn ''s_d'' 0 0 [],
    fn ''Y3d'' 0 0 [],
    fn ''I4d'' 0 0 [],
    fn ''o6d'' 0 0 [],
    fn ''r6d'' 0 0 [],
    fn ''u6d'' 0 0 [],
    fn ''x6d'' 0 0 [],
    fn ''A6d'' 0 0 [],
    fn ''D6d'' 0 0 [],
    fn ''G6d'' 0 0 [],
    fn ''J6d'' 0 0 [],
    fn ''M6d'' 0 0 [],
    fn ''i8d'' 0 0 [],
    fn ''m8d'' 0 0 [],
    fn ''Z8d'' 0 0 [],
    fn ''p9d'' 0 0 [],
    fn ''r9d'' 0 0 [],
    fn ''u9d'' 0 0 [],
    fn ''x9d'' 0 0 [],
    fn ''A9d'' 0 0 [],
    fn ''D9d'' 0 0 [],
    fn ''G9d'' 0 0 [],
    fn ''J9d'' 0 0 [],
    fn ''M9d'' 0 0 [],
    fn ''P9d'' 0 0 [],
    fn ''S9d'' 0 0 []]"

definition code_583_723 :: "(string \<times> jfun) list" where
  "code_583_723 = [
    fn ''V9d'' 0 0 [],
    fn ''Y9d'' 0 0 [],
    fn ''_9d'' 0 0 [],
    fn ''cae'' 0 0 [],
    fn ''fae'' 0 0 [],
    fn ''iae'' 0 0 [],
    fn ''lae'' 0 0 [],
    fn ''oae'' 0 0 [],
    fn ''rae'' 0 0 [],
    fn ''uae'' 0 0 [],
    fn ''xae'' 0 0 [],
    fn ''Aae'' 0 0 [],
    fn ''Dae'' 0 0 [],
    fn ''Gae'' 0 0 [],
    fn ''Jae'' 0 0 [],
    fn ''Mae'' 0 0 [],
    fn ''Pae'' 0 0 [],
    fn ''Sae'' 0 0 [],
    fn ''Vae'' 0 0 [],
    fn ''Yae'' 0 0 [],
    fn ''_ae'' 0 0 [],
    fn ''cbe'' 0 0 [],
    fn ''fbe'' 0 0 [],
    fn ''ibe'' 0 0 [],
    fn ''lbe'' 0 0 [],
    fn ''obe'' 0 0 [],
    fn ''rbe'' 0 0 [],
    fn ''ube'' 0 0 [],
    fn ''xbe'' 0 0 [],
    fn ''Abe'' 0 0 [],
    fn ''Dbe'' 0 0 [],
    fn ''Gbe'' 0 0 [],
    fn ''Jbe'' 0 0 [],
    fn ''Uge'' 0 0 [],
    fn ''Eie'' 0 0 [],
    fn ''Ele'' 0 0 [],
    fn ''Rle'' 0 0 [],
    fn ''Tle'' 0 0 [],
    fn ''Wle'' 0 0 [],
    fn ''Zle'' 0 0 [],
    fn ''Lke'' 0 0 [],
    fn ''ame'' 0 0 [],
    fn ''dme'' 0 0 [],
    fn ''gme'' 0 0 [],
    fn ''jme'' 0 0 [],
    fn ''mme'' 0 0 [],
    fn ''pme'' 0 0 [],
    fn ''sme'' 0 0 [],
    fn ''vme'' 0 0 [],
    fn ''yme'' 0 0 [],
    fn ''Bme'' 0 0 [],
    fn ''Eme'' 0 0 [],
    fn ''Hme'' 0 0 [],
    fn ''Kme'' 0 0 [],
    fn ''Nme'' 0 0 [],
    fn ''Qme'' 0 0 [],
    fn ''Tme'' 0 0 [],
    fn ''Wme'' 0 0 [],
    fn ''Zme'' 0 0 [],
    fn ''ane'' 0 0 [],
    fn ''dne'' 0 0 [],
    fn ''gne'' 0 0 [],
    fn ''jne'' 0 0 [],
    fn ''mne'' 0 0 [],
    fn ''pne'' 0 0 [],
    fn ''sne'' 0 0 [],
    fn ''vne'' 0 0 [],
    fn ''yne'' 0 0 [],
    fn ''Bne'' 0 0 [],
    fn ''Ene'' 0 0 [],
    fn ''Hne'' 0 0 [],
    fn ''Kne'' 0 0 [],
    fn ''Nne'' 0 0 [],
    fn ''Qne'' 0 0 [],
    fn ''Tne'' 0 0 [],
    fn ''Wne'' 0 0 [],
    fn ''Zne'' 0 0 [],
    fn ''aoe'' 0 0 [],
    fn ''doe'' 0 0 [],
    fn ''goe'' 0 0 [],
    fn ''joe'' 0 0 [],
    fn ''moe'' 0 0 [],
    fn ''poe'' 0 0 [],
    fn ''soe'' 0 0 [],
    fn ''voe'' 0 0 [],
    fn ''yoe'' 0 0 [],
    fn ''Boe'' 0 0 [],
    fn ''Eoe'' 0 0 [],
    fn ''Hoe'' 0 0 [],
    fn ''epe'' 0 0 [],
    fn ''Fse'' 0 0 [],
    fn ''Rse'' 0 0 [],
    fn ''fYb'' 1 0 [],
    fn ''W1d'' 1 0 [],
    fn ''xl'' 0 0 [Do (Call ''wb'' [])],
    fn ''rOb'' 0 0 [Do (Call ''qOb'' [])],
    fn ''cPb'' 0 0 [Do (Call ''aPb'' [])],
    fn ''tPb'' 0 0 [Do (Call ''sPb'' [])],
    fn ''JPb'' 0 0 [Do (Call ''HPb'' [])],
    fn ''z_b'' 0 0 [Do (Call ''t_b'' [])],
    fn ''z6b'' 0 0 [Do (Call ''v6b'' [])],
    fn ''d7b'' 0 0 [Do (Call ''N6b'' [])],
    fn ''d8b'' 0 0 [Do (Call ''Y7b'' [])],
    fn ''l1b'' 0 0 [Do (Call ''e1b'' [])],
    fn ''M3b'' 0 0 [Do (Call ''G3b'' [])],
    fn ''xac'' 0 0 [Do (Call ''sac'' [])],
    fn ''nic'' 0 0 [Do (Call ''Yhc'' [])],
    fn ''Okc'' 0 0 [Do (Call ''Ckc'' [])],
    fn ''rvc'' 0 0 [Do (Call ''qvc'' [])],
    fn ''sCc'' 0 0 [Do (Call ''qCc'' [])],
    fn ''mCc'' 0 0 [Do (Call ''jCc'' [])],
    fn ''JCc'' 0 0 [Do (Call ''HCc'' [])],
    fn ''LBc'' 0 0 [Do (Call ''HBc'' [])],
    fn ''DBc'' 0 0 [Do (Call ''zBc'' [])],
    fn ''UBc'' 0 0 [Do (Call ''RBc'' [])],
    fn ''pyc'' 0 0 [Do (Call ''nyc'' [])],
    fn ''pEc'' 0 0 [Do (Call ''jEc'' [])],
    fn ''aEc'' 0 0 [Do (Call ''WDc'' [])],
    fn ''qDc'' 0 0 [Do (Call ''kDc'' [])],
    fn ''JDc'' 0 0 [Do (Call ''FDc'' [])],
    fn ''RDc'' 0 0 [Do (Call ''NDc'' [])],
    fn ''uGc'' 0 0 [Do (Call ''qGc'' [])],
    fn ''wYc'' 0 0 [Do (Call ''qYc'' [])],
    fn ''EYc'' 0 0 [Do (Call ''AYc'' [])],
    fn ''oIc'' 0 0 [Do (Call ''mIc'' [])],
    fn ''n1c'' 0 0 [Do (Call ''m1c'' [])],
    fn ''L1c'' 0 0 [Do (Call ''J1c'' [])],
    fn ''mKc'' 0 0 [Do (Call ''jKc'' [])],
    fn ''CKc'' 0 0 [Do (Call ''sKc'' [])],
    fn ''TMc'' 0 0 [Do (Call ''RMc'' [])],
    fn ''FOc'' 0 0 [Do (Call ''COc'' [])],
    fn ''lXc'' 0 0 [Do (Call ''kXc'' [])],
    fn ''UXc'' 0 0 [Do (Call ''SXc'' [])],
    fn ''U4c'' 0 0 [Do (Call ''S4c'' [])],
    fn ''p4c'' 0 0 [Do (Call ''o4c'' [])],
    fn ''gZc'' 0 0 [Do (Call ''aZc'' [])],
    fn ''sZc'' 0 0 [Do (Call ''kZc'' [])],
    fn ''l9c'' 0 0 [Do (Call ''j9c'' [])],
    fn ''H9c'' 0 0 [Do (Call ''G9c'' [])],
    fn ''R9c'' 0 0 [Do (Call ''P9c'' [])],
    fn ''wcd'' 0 0 [Do (Call ''vcd'' [])]]"

definition code_724_864 :: "(string \<times> jfun) list" where
  "code_724_864 = [
    fn ''wjd'' 0 0 [Do (Call ''vjd'' [])],
    fn ''dhd'' 0 0 [Do (Call ''bhd'' [])],
    fn ''Ikd'' 0 0 [Do (Call ''Gkd'' [])],
    fn ''Smd'' 0 0 [Do (Call ''Qmd'' [])],
    fn ''Uxd'' 0 0 [Do (Call ''Mxd'' [])],
    fn ''UWd'' 0 0 [Do (Call ''yWd'' [])],
    fn ''sSd'' 0 0 [Do (Call ''eSd'' [])],
    fn ''tie'' 0 0 [Do (Call ''Ese'' [])],
    fn ''dxb'' 1 0 [Do (Call ''NDb'' [V 0])],
    fn ''Yb'' 1 0 [Do (Put This ''a'' (V 0))],
    fn ''cc'' 1 0 [Do (Put This ''a'' (V 0))],
    fn ''bf'' 1 0 [Do (Put This ''a'' (V 0))],
    fn ''hf'' 1 0 [Do (Put This ''a'' (V 0))],
    fn ''hh'' 1 0 [Do (Put This ''a'' (V 0))],
    fn ''rh'' 1 0 [Do (Put This ''a'' (V 0))],
    fn ''zh'' 1 0 [Do (Put This ''a'' (V 0))],
    fn ''Vh'' 1 0 [Do (Put This ''a'' (V 0))],
    fn ''Bi'' 1 0 [Do (Put This ''a'' (V 0))],
    fn ''Ii'' 1 0 [Do (Put This ''a'' (V 0))],
    fn ''ij'' 1 0 [Do (Put This ''a'' (V 0))],
    fn ''oj'' 1 0 [Do (Put This ''a'' (V 0))],
    fn ''Jj'' 1 0 [Do (Put This ''a'' (V 0))],
    fn ''yj'' 1 0 [Do (Put This ''c'' (V 0))],
    fn ''yq'' 1 0 [Do (Put This ''a'' (V 0))],
    fn ''cq'' 1 0 [Do (Put This ''a'' (V 0))],
    fn ''rq'' 1 0 [Do (Put This ''a'' (V 0))],
    fn ''Aq'' 1 0 [Do (Put This ''a'' (V 0))],
    fn ''Pq'' 1 0 [Do (Put This ''a'' (V 0))],
    fn ''Rq'' 1 0 [Do (Put This ''a'' (V 0))],
    fn ''Rn'' 1 0 [Do (Put This ''a'' (V 0))],
    fn ''Gk'' 1 0 [Do (Put This ''a'' (V 0))],
    fn ''Ok'' 1 0 [Do (Put This ''a'' (V 0))],
    fn ''hm'' 1 0 [Do (Put This ''a'' (V 0))],
    fn ''gp'' 1 0 [Do (Put This ''a'' (V 0))],
    fn ''Fp'' 1 0 [Do (Put This ''a'' (V 0))],
    fn ''Fr'' 1 0 [Do (Put This ''a'' (V 0))],
    fn ''Fw'' 1 0 [Do (Put This ''a'' (V 0))],
    fn ''cw'' 1 0 [Do (Put This ''a'' (V 0))],
    fn ''mw'' 1 0 [Do (Put This ''a'' (V 0))],
    fn ''mu'' 1 0 [Do (Put This ''a'' (V 0))],
    fn ''Zv'' 1 0 [Do (Put This ''a'' (V 0))],
    fn ''Zw'' 1 0 [Do (Put This ''a'' (V 0))],
    fn ''Aw'' 1 0 [Do (Put This ''a'' (V 0))],
    fn ''Kw'' 1 0 [Do (Put This ''a'' (V 0))],
    fn ''Yw'' 1 0 [Do (Put This ''a'' (V 0))],
    fn ''dx'' 1 0 [Do (Put This ''a'' (V 0))],
    fn ''hy'' 1 0 [Do (Put This ''a'' (V 0))],
    fn ''Hy'' 1 0 [Do (Put This ''a'' (V 0))],
    fn ''FB'' 1 0 [Do (Put This ''a'' (V 0))],
    fn ''PB'' 1 0 [Do (Put This ''a'' (V 0))],
    fn ''_B'' 1 0 [Do (Put This ''a'' (V 0))],
    fn ''nC'' 1 0 [Do (Put This ''a'' (V 0))],
    fn ''xs'' 1 0 [Do (Put This ''b'' (V 0))],
    fn ''EB'' 0 0 [Do (Put This ''a'' (NewArr []))],
    fn ''$Cb'' 2 0 [Do (Put (V 0) ''a'' (V 1))],
    fn ''jYb'' 2 0 [Do (Put (V 0) ''a'' (V 1))],
    fn ''kYb'' 2 0 [Do (Put (V 0) ''b'' (V 1))],
    fn ''lYb'' 2 0 [Do (Put (V 0) ''c'' (V 1))],
    fn ''DNb'' 2 0 [Do (Put (V 0) ''c'' (V 1))],
    fn ''ENb'' 2 0 [Do (Put (V 0) ''d'' (V 1))],
    fn ''mYb'' 2 0 [Do (Put (V 0) ''d'' (V 1))],
    fn ''OYb'' 2 0 [Do (Put (V 0) ''k'' (V 1))],
    fn ''tHb'' 2 0 [Do (Put (V 0) ''j'' (V 1))],
    fn ''vZb'' 2 0 [Do (Put (V 0) ''c'' (V 1))],
    fn ''chc'' 2 0 [Do (Put (V 0) ''c'' (V 1))],
    fn ''bhc'' 2 0 [Do (Put (V 0) ''a'' (V 1))],
    fn ''XFc'' 2 0 [Do (Put (V 0) ''a'' (V 1))],
    fn ''YFc'' 2 0 [Do (Put (V 0) ''f'' (V 1))],
    fn ''wPc'' 2 0 [Do (Put (V 0) ''a'' (V 1))],
    fn ''xPc'' 2 0 [Do (Put (V 0) ''b'' (V 1))],
    fn ''yPc'' 2 0 [Do (Put (V 0) ''d'' (V 1))],
    fn ''zPc'' 2 0 [Do (Put (V 0) ''i'' (V 1))],
    fn ''APc'' 2 0 [Do (Put (V 0) ''o'' (V 1))],
    fn ''BPc'' 2 0 [Do (Put (V 0) ''r'' (V 1))],
    fn ''hRc'' 2 0 [Do (Put (V 0) ''a'' (V 1))],
    fn ''iRc'' 2 0 [Do (Put (V 0) ''b'' (V 1))],
    fn ''__c'' 2 0 [Do (Put (V 0) ''e'' (V 1))],
    fn ''U6c'' 2 0 [Do (Put (V 0) ''e'' (V 1))],
    fn ''V6c'' 2 0 [Do (Put (V 0) ''f'' (V 1))],
    fn ''a0c'' 2 0 [Do (Put (V 0) ''f'' (V 1))],
    fn ''b0c'' 2 0 [Do (Put (V 0) ''g'' (V 1))],
    fn ''g7c'' 2 0 [Do (Put (V 0) ''f'' (V 1))],
    fn ''nrd'' 2 0 [Do (Put (V 0) ''a'' (V 1))],
    fn ''ord'' 2 0 [Do (Put (V 0) ''b'' (V 1))],
    fn ''OUd'' 2 0 [Do (Put (V 0) ''n'' (V 1))],
    fn ''lde'' 2 0 [Do (Put (V 0) ''a'' (V 1))],
    fn ''ude'' 2 0 [Do (Put (V 0) ''a'' (V 1))],
    fn ''Qde'' 2 0 [Do (Put (V 0) ''a'' (V 1))],
    fn ''mde'' 2 0 [Do (Put (V 0) ''c'' (V 1))],
    fn ''vde'' 2 0 [Do (Put (V 0) ''c'' (V 1))],
    fn ''Rde'' 2 0 [Do (Put (V 0) ''c'' (V 1))],
    fn ''wde'' 2 0 [Do (Put (V 0) ''d'' (V 1))],
    fn ''Sde'' 2 0 [Do (Put (V 0) ''d'' (V 1))],
    fn ''xde'' 2 0 [Do (Put (V 0) ''e'' (V 1))],
    fn ''Tde'' 2 0 [Do (Put (V 0) ''e'' (V 1))],
    fn ''yde'' 2 0 [Do (Put (V 0) ''g'' (V 1))],
    fn ''Ude'' 2 0 [Do (Put (V 0) ''f'' (V 1))],
    fn ''Vde'' 2 0 [Do (Put (V 0) ''j'' (V 1))],
    fn ''Jke'' 2 0 [Do (Put (V 0) ''a'' (V 1))],
    fn ''Ske'' 2 0 [Do (Put (V 0) ''a'' (V 1))],
    fn ''Kke'' 2 0 [Do (Put (V 0) ''b'' (V 1))],
    fn ''rgc'' 1 0 [Do (Put (V 0) ''b'' (Dot (V 0) ''a''))],
    fn ''Jg'' 1 0 [Do (Put (V 0) ''c'' (Dot (Dot (V 0) ''d'') ''d''))],
    fn ''Jfb'' 1 0 [Do (Put This ''a'' (V 0))],
    fn ''bfb'' 1 0 [Do (Put This ''a'' (V 0))],
    fn ''pfb'' 1 0 [Do (Put This ''a'' (V 0))],
    fn ''Bdb'' 1 0 [Do (Put This ''a'' (V 0))],
    fn ''aeb'' 1 0 [Do (Put This ''a'' (V 0))],
    fn ''leb'' 1 0 [Do (Put This ''a'' (V 0))],
    fn ''lkb'' 1 0 [Do (Put This ''a'' (V 0))],
    fn ''fkb'' 1 0 [Do (Put This ''a'' (V 0))],
    fn ''fgb'' 1 0 [Do (Put This ''a'' (V 0))],
    fn ''wjb'' 1 0 [Do (Put This ''a'' (V 0))],
    fn ''wob'' 1 0 [Do (Put This ''a'' (V 0))],
    fn ''qkb'' 1 0 [Do (Put This ''a'' (V 0))],
    fn ''vkb'' 1 0 [Do (Put This ''a'' (V 0))],
    fn ''Zkb'' 1 0 [Do (Put This ''b'' (V 0))],
    fn ''Hob'' 1 0 [Do (Put This ''b'' (V 0))],
    fn ''Yob'' 1 0 [Do (Put This ''b'' (V 0))],
    fn ''Njb'' 1 0 [Do (Put This ''d'' (V 0))],
    fn ''Nqb'' 1 0 [Do (Put This ''a'' (V 0))],
    fn ''eqb'' 1 0 [Do (Put This ''a'' (V 0))],
    fn ''jqb'' 1 0 [Do (Put This ''a'' (V 0))],
    fn ''jlb'' 1 0 [Do (Put This ''a'' (V 0))],
    fn ''clb'' 1 0 [Do (Put This ''a'' (V 0))],
    fn ''prb'' 1 0 [Do (Put This ''a'' (V 0))],
    fn ''ksb'' 1 0 [Do (Put This ''a'' (V 0))],
    fn ''Dtb'' 1 0 [Do (Put This ''a'' (V 0))],
    fn ''Dpb'' 1 0 [Do (Put This ''c'' (V 0))],
    fn ''Kmb'' 1 0 [Do (Put This ''c'' (V 0))],
    fn ''Gvb'' 1 0 [Do (Put This ''c'' (V 0))],
    fn ''hwb'' 1 0 [Do (Put This ''a'' (V 0))],
    fn ''jwb'' 1 0 [Do (Put This ''a'' (V 0))],
    fn ''lwb'' 1 0 [Do (Put This ''a'' (V 0))],
    fn ''nwb'' 1 0 [Do (Put This ''a'' (V 0))],
    fn ''Hzb'' 1 0 [Do (Put This ''a'' (V 0))],
    fn ''Rzb'' 1 0 [Do (Put This ''a'' (V 0))],
    fn ''Tzb'' 1 0 [Do (Put This ''a'' (V 0))],
    fn ''Xzb'' 1 0 [Do (Put This ''a'' (V 0))],
    fn ''uBb'' 1 0 [Do (Put This ''a'' (V 0))],
    fn ''wBb'' 1 0 [Do (Put This ''a'' (V 0))]]"

definition object_table1 :: "(string \<times> jfun) list" where
  "object_table1 = code_19_159 @ code_160_300 @ code_301_441 @ code_442_582 @ code_583_723 @ code_724_864"

lemmas object_table1_defs = object_table1_def code_19_159_def code_160_300_def code_301_441_def code_442_582_def code_583_723_def code_724_864_def

text \<open>The names each table declares.\<close>

lemma names_19_159 [js_names]: "map fst code_19_159 = [
    ''nb'', ''xb'', ''Fd'', ''Fy'', ''fh'', ''fq'', ''Hq'', ''Dl'', ''Ns'', ''Rw'',
    ''bx'', ''jx'', ''kx'', ''Vz'', ''eA'', ''lA'', ''UA'', ''XA'', ''XB'', ''bB'',
    ''udb'', ''qdb'', ''ydb'', ''snb'', ''Tnb'', ''_nb'', ''kob'', ''sob'', ''vqb'', ''Eqb'',
    ''Jqb'', ''Xqb'', ''tsb'', ''Aub'', ''Fub'', ''Hub'', ''fxb'', ''Nyb'', ''NAb'', ''bAb'',
    ''zAb'', ''PAb'', ''RAb'', ''TAb'', ''VAb'', ''Vzb'', ''ZAb'', ''YCb'', ''_Cb'', ''bDb'',
    ''dDb'', ''zDb'', ''YDb'', ''aEb'', ''QEb'', ''TEb'', ''TIb'', ''PIb'', ''RIb'', ''VIb'',
    ''VFb'', ''pFb'', ''HFb'', ''MFb'', ''QFb'', ''eHb'', ''iJb'', ''mJb'', ''nKb'', ''pKb'',
    ''rKb'', ''BKb'', ''pLb'', ''rLb'', ''FLb'', ''JLb'', ''iMb'', ''FMb'', ''KMb'', ''OMb'',
    ''WMb'', ''YMb'', ''sNb'', ''ePb'', ''LPb'', ''QPb'', ''LQb'', ''PQb'', ''jRb'', ''BRb'',
    ''ERb'', ''HRb'', ''RRb'', ''jSb'', ''BSb'', ''GSb'', ''wTb'', ''DTb'', ''HTb'', ''LTb'',
    ''PTb'', ''TTb'', ''PUb'', ''oVb'', ''zVb'', ''DVb'', ''HVb'', ''RVb'', ''CXb'', ''GXb'',
    ''eZb'', ''$Zb'', ''d$b'', ''h$b'', ''l$b'', ''p$b'', ''t$b'', ''a_b'', ''c_b'', ''i_b'',
    ''m_b'', ''q_b'', ''V_b'', ''X_b'', ''Z_b'', ''c0b'', ''h0b'', ''k0b'', ''s0b'', ''w0b'',
    ''z0b'', ''B0b'', ''D0b'', ''P0b'', ''T0b'', ''X0b'', ''_0b'', ''o1b'', ''t1b'', ''v1b'',
    ''x1b'']"
  by (simp add: code_19_159_def fn_def)

lemma names_160_300 [js_names]: "map fst code_160_300 = [
    ''z1b'', ''B1b'', ''O1b'', ''Q1b'', ''S1b'', ''U1b'', ''W1b'', ''$1b'', ''L2b'', ''T2b'',
    ''W2b'', ''a3b'', ''o3b'', ''r3b'', ''w3b'', ''C3b'', ''O3b'', ''P3b'', ''S3b'', ''$3b'',
    ''b4b'', ''d4b'', ''f4b'', ''j4b'', ''m4b'', ''p4b'', ''u4b'', ''A4b'', ''G4b'', ''g6b'',
    ''m6b'', ''o6b'', ''q6b'', ''B6b'', ''I6b'', ''K6b'', ''m7b'', ''o7b'', ''u7b'', ''z7b'',
    ''N7b'', ''V7b'', ''r8b'', ''u8b'', ''y8b'', ''E8b'', ''G8b'', ''Z8b'', ''Z9b'', ''c9b'',
    ''g9b'', ''u9b'', ''C9b'', ''F9b'', ''L9b'', ''O9b'', ''T9b'', ''aac'', ''cac'', ''eac'',
    ''iac'', ''Dac'', ''Hac'', ''Lac'', ''Nac'', ''Pac'', ''Vac'', ''Yac'', ''cbc'', ''ebc'',
    ''gbc'', ''ibc'', ''mbc'', ''rbc'', ''ubc'', ''wbc'', ''ybc'', ''Abc'', ''Cbc'', ''Gbc'',
    ''Nbc'', ''Pbc'', ''Rbc'', ''Tbc'', ''$bc'', ''acc'', ''ccc'', ''ecc'', ''jcc'', ''ncc'',
    ''pcc'', ''rcc'', ''vcc'', ''ycc'', ''Ecc'', ''Scc'', ''$cc'', ''cdc'', ''edc'', ''kdc'',
    ''odc'', ''sdc'', ''udc'', ''Adc'', ''Edc'', ''Gdc'', ''Mdc'', ''Qdc'', ''Sdc'', ''gec'',
    ''Nec'', ''Pec'', ''Rec'', ''Tec'', ''Vec'', ''Xec'', ''Zec'', ''ffc'', ''hfc'', ''nfc'',
    ''pfc'', ''rfc'', ''tfc'', ''xfc'', ''zfc'', ''Hfc'', ''Jfc'', ''Lfc'', ''Ufc'', ''Chc'',
    ''Ghc'', ''Bic'', ''Dic'', ''Fic'', ''Hic'', ''Nic'', ''Ric'', ''Tic'', ''Vic'', ''Xic'',
    ''Zic'']"
  by (simp add: code_160_300_def fn_def)

lemma names_301_441 [js_names]: "map fst code_301_441 = [
    ''_ic'', ''_jc'', ''wjc'', ''yjc'', ''Ajc'', ''Cjc'', ''Gjc'', ''Kjc'', ''Ojc'', ''dkc'',
    ''tkc'', ''zkc'', ''Qkc'', ''Ukc'', ''Wkc'', ''glc'', ''qlc'', ''Dlc'', ''Flc'', ''Hlc'',
    ''_lc'', ''bmc'', ''jmc'', ''Fmc'', ''Hmc'', ''Jmc'', ''Omc'', ''Qmc'', ''cnc'', ''enc'',
    ''gnc'', ''mnc'', ''pnc'', ''unc'', ''uDc'', ''ADc'', ''AHc'', ''qHc'', ''CHc'', ''GHc'',
    ''YHc'', ''ryc'', ''rLc'', ''vLc'', ''FLc'', ''HLc'', ''HEc'', ''hCc'', ''NCc'', ''NLc'',
    ''JLc'', ''TLc'', ''XLc'', ''ZLc'', ''_Lc'', ''hGc'', ''PJc'', ''bMc'', ''fMc'', ''jMc'',
    ''oMc'', ''qMc'', ''wMc'', ''yMc'', ''CMc'', ''EMc'', ''IMc'', ''KMc'', ''MMc'', ''OMc'',
    ''BNc'', ''SNc'', ''qOc'', ''$Oc'', ''gPc'', ''iPc'', ''kPc'', ''mPc'', ''oPc'', ''qPc'',
    ''lQc'', ''rQc'', ''tQc'', ''vQc'', ''GQc'', ''IQc'', ''URc'', ''WRc'', ''iSc'', ''rSc'',
    ''tSc'', ''tTc'', ''dTc'', ''gTc'', ''jTc'', ''zTc'', ''DTc'', ''_Tc'', ''tUc'', ''xUc'',
    ''BUc'', ''JUc'', ''XUc'', ''aVc'', ''iVc'', ''mVc'', ''oVc'', ''qVc'', ''sVc'', ''NVc'',
    ''RVc'', ''TVc'', ''$Vc'', ''cWc'', ''eWc'', ''jWc'', ''pWc'', ''WXc'', ''WZc'', ''IZc'',
    ''MZc'', ''OZc'', ''SZc'', ''YZc'', ''LYc'', ''NYc'', ''PYc'', ''VYc'', ''ZYc'', ''a$c'',
    ''e$c'', ''g$c'', ''m$c'', ''q$c'', ''u$c'', ''A$c'', ''E$c'', ''I$c'', ''M$c'', ''W$c'',
    ''$$c'']"
  by (simp add: code_301_441_def fn_def)

lemma names_442_582 [js_names]: "map fst code_442_582 = [
    ''H_c'', ''K_c'', ''j0c'', ''o0c'', ''r0c'', ''t0c'', ''v0c'', ''z0c'', ''D0c'', ''N1c'',
    ''m2c'', ''p2c'', ''s2c'', ''w2c'', ''E2c'', ''$2c'', ''b3c'', ''r3c'', ''u3c'', ''x3c'',
    ''C3c'', ''W4c'', ''c5c'', ''e5c'', ''j5c'', ''m5c'', ''p5c'', ''M5c'', ''S5c'', ''j6c'',
    ''n6c'', ''s6c'', ''M7c'', ''n9c'', ''T9c'', ''qad'', ''Oad'', ''Wad'', ''mbd'', ''obd'',
    ''qbd'', ''Cbd'', ''Ubd'', ''Ybd'', ''dcd'', ''Bcd'', ''Dcd'', ''Xcd'', ''_cd'', ''mdd'',
    ''Edd'', ''Fdd'', ''Hdd'', ''Jdd'', ''Ldd'', ''Ndd'', ''Pdd'', ''Rdd'', ''Tdd'', ''Vdd'',
    ''Xdd'', ''Zdd'', ''_dd'', ''bed'', ''ded'', ''fed'', ''hed'', ''jed'', ''led'', ''ned'',
    ''ped'', ''Ped'', ''fhd'', ''Kkd'', ''Umd'', ''Lod'', ''Lqd'', ''lqd'', ''Dqd'', ''Fqd'',
    ''Qqd'', ''_qd'', ''mpd'', ''qpd'', ''upd'', ''ypd'', ''Cpd'', ''Crd'', ''usd'', ''uwd'',
    ''Nwd'', ''tvd'', ''lxd'', ''eyd'', ''Dzd'', ''vAd'', ''XAd'', ''nGd'', ''SGd'', ''$Gd'',
    ''wJd'', ''wOd'', ''POd'', ''sNd'', ''_Qd'', ''mRd'', ''xSd'', ''gTd'', ''CTd'', ''hZd'',
    ''kZd'', ''nZd'', ''vZd'', ''IZd'', ''LZd'', ''s_d'', ''Y3d'', ''I4d'', ''o6d'', ''r6d'',
    ''u6d'', ''x6d'', ''A6d'', ''D6d'', ''G6d'', ''J6d'', ''M6d'', ''i8d'', ''m8d'', ''Z8d'',
    ''p9d'', ''r9d'', ''u9d'', ''x9d'', ''A9d'', ''D9d'', ''G9d'', ''J9d'', ''M9d'', ''P9d'',
    ''S9d'']"
  by (simp add: code_442_582_def fn_def)

lemma names_583_723 [js_names]: "map fst code_583_723 = [
    ''V9d'', ''Y9d'', ''_9d'', ''cae'', ''fae'', ''iae'', ''lae'', ''oae'', ''rae'', ''uae'',
    ''xae'', ''Aae'', ''Dae'', ''Gae'', ''Jae'', ''Mae'', ''Pae'', ''Sae'', ''Vae'', ''Yae'',
    ''_ae'', ''cbe'', ''fbe'', ''ibe'', ''lbe'', ''obe'', ''rbe'', ''ube'', ''xbe'', ''Abe'',
    ''Dbe'', ''Gbe'', ''Jbe'', ''Uge'', ''Eie'', ''Ele'', ''Rle'', ''Tle'', ''Wle'', ''Zle'',
    ''Lke'', ''ame'', ''dme'', ''gme'', ''jme'', ''mme'', ''pme'', ''sme'', ''vme'', ''yme'',
    ''Bme'', ''Eme'', ''Hme'', ''Kme'', ''Nme'', ''Qme'', ''Tme'', ''Wme'', ''Zme'', ''ane'',
    ''dne'', ''gne'', ''jne'', ''mne'', ''pne'', ''sne'', ''vne'', ''yne'', ''Bne'', ''Ene'',
    ''Hne'', ''Kne'', ''Nne'', ''Qne'', ''Tne'', ''Wne'', ''Zne'', ''aoe'', ''doe'', ''goe'',
    ''joe'', ''moe'', ''poe'', ''soe'', ''voe'', ''yoe'', ''Boe'', ''Eoe'', ''Hoe'', ''epe'',
    ''Fse'', ''Rse'', ''fYb'', ''W1d'', ''xl'', ''rOb'', ''cPb'', ''tPb'', ''JPb'', ''z_b'',
    ''z6b'', ''d7b'', ''d8b'', ''l1b'', ''M3b'', ''xac'', ''nic'', ''Okc'', ''rvc'', ''sCc'',
    ''mCc'', ''JCc'', ''LBc'', ''DBc'', ''UBc'', ''pyc'', ''pEc'', ''aEc'', ''qDc'', ''JDc'',
    ''RDc'', ''uGc'', ''wYc'', ''EYc'', ''oIc'', ''n1c'', ''L1c'', ''mKc'', ''CKc'', ''TMc'',
    ''FOc'', ''lXc'', ''UXc'', ''U4c'', ''p4c'', ''gZc'', ''sZc'', ''l9c'', ''H9c'', ''R9c'',
    ''wcd'']"
  by (simp add: code_583_723_def fn_def)

lemma names_724_864 [js_names]: "map fst code_724_864 = [
    ''wjd'', ''dhd'', ''Ikd'', ''Smd'', ''Uxd'', ''UWd'', ''sSd'', ''tie'', ''dxb'', ''Yb'',
    ''cc'', ''bf'', ''hf'', ''hh'', ''rh'', ''zh'', ''Vh'', ''Bi'', ''Ii'', ''ij'',
    ''oj'', ''Jj'', ''yj'', ''yq'', ''cq'', ''rq'', ''Aq'', ''Pq'', ''Rq'', ''Rn'',
    ''Gk'', ''Ok'', ''hm'', ''gp'', ''Fp'', ''Fr'', ''Fw'', ''cw'', ''mw'', ''mu'',
    ''Zv'', ''Zw'', ''Aw'', ''Kw'', ''Yw'', ''dx'', ''hy'', ''Hy'', ''FB'', ''PB'',
    ''_B'', ''nC'', ''xs'', ''EB'', ''$Cb'', ''jYb'', ''kYb'', ''lYb'', ''DNb'', ''ENb'',
    ''mYb'', ''OYb'', ''tHb'', ''vZb'', ''chc'', ''bhc'', ''XFc'', ''YFc'', ''wPc'', ''xPc'',
    ''yPc'', ''zPc'', ''APc'', ''BPc'', ''hRc'', ''iRc'', ''__c'', ''U6c'', ''V6c'', ''a0c'',
    ''b0c'', ''g7c'', ''nrd'', ''ord'', ''OUd'', ''lde'', ''ude'', ''Qde'', ''mde'', ''vde'',
    ''Rde'', ''wde'', ''Sde'', ''xde'', ''Tde'', ''yde'', ''Ude'', ''Vde'', ''Jke'', ''Ske'',
    ''Kke'', ''rgc'', ''Jg'', ''Jfb'', ''bfb'', ''pfb'', ''Bdb'', ''aeb'', ''leb'', ''lkb'',
    ''fkb'', ''fgb'', ''wjb'', ''wob'', ''qkb'', ''vkb'', ''Zkb'', ''Hob'', ''Yob'', ''Njb'',
    ''Nqb'', ''eqb'', ''jqb'', ''jlb'', ''clb'', ''prb'', ''ksb'', ''Dtb'', ''Dpb'', ''Kmb'',
    ''Gvb'', ''hwb'', ''jwb'', ''lwb'', ''nwb'', ''Hzb'', ''Rzb'', ''Tzb'', ''Xzb'', ''uBb'',
    ''wBb'']"
  by (simp add: code_724_864_def fn_def)

end
