(* ===== verification/ObjectTable2.thy ===== *)
theory ObjectTable2
  imports ObjectCode
begin

text \<open>
  Functions of \<open>layout-worker.js\<close>, lines 865 to 1510, in the order of the file, one per line:
  one-field constructors, constructors that delegate to the superclass, accessors and fluent setters, lazy static singletons.
  An entry has the name, the number of parameters, the number of further local variables and the
  body; parameters and locals are numbered from 0. Lines with a construct outside \<open>jexp\<close> and
  \<open>jstm\<close> (loops, \<open>in\<close>, host objects) are left out.
\<close>

definition code_865_1005 :: "(string \<times> jfun) list" where
  "code_865_1005 = [
    fn ''yBb'' 1 0 [Do (Put This ''a'' (V 0))],
    fn ''NBb'' 1 0 [Do (Put This ''a'' (V 0))],
    fn ''rCb'' 1 0 [Do (Put This ''a'' (V 0))],
    fn ''tCb'' 1 0 [Do (Put This ''a'' (V 0))],
    fn ''xCb'' 1 0 [Do (Put This ''a'' (V 0))],
    fn ''fDb'' 1 0 [Do (Put This ''a'' (V 0))],
    fn ''jDb'' 1 0 [Do (Put This ''a'' (V 0))],
    fn ''$Db'' 1 0 [Do (Put This ''a'' (V 0))],
    fn ''eEb'' 1 0 [Do (Put This ''a'' (V 0))],
    fn ''jEb'' 1 0 [Do (Put This ''a'' (V 0))],
    fn ''nFb'' 1 0 [Do (Put This ''a'' (V 0))],
    fn ''kHb'' 1 0 [Do (Put This ''a'' (V 0))],
    fn ''sHb'' 1 0 [Do (Put This ''a'' (V 0))],
    fn ''PKb'' 1 0 [Do (Put This ''a'' (V 0))],
    fn ''YLb'' 1 0 [Do (Put This ''a'' (V 0))],
    fn ''kMb'' 1 0 [Do (Put This ''a'' (V 0))],
    fn ''iQb'' 1 0 [Do (Put This ''a'' (V 0))],
    fn ''wQb'' 1 0 [Do (Put This ''a'' (V 0))],
    fn ''yQb'' 1 0 [Do (Put This ''a'' (V 0))],
    fn ''JQb'' 1 0 [Do (Put This ''a'' (V 0))],
    fn ''NQb'' 1 0 [Do (Put This ''a'' (V 0))],
    fn ''qWb'' 1 0 [Do (Put This ''a'' (V 0))],
    fn ''XWb'' 1 0 [Do (Put This ''a'' (V 0))],
    fn ''AZb'' 1 0 [Do (Put This ''a'' (V 0))],
    fn ''DZb'' 1 0 [Do (Put This ''a'' (V 0))],
    fn ''IZb'' 1 0 [Do (Put This ''a'' (V 0))],
    fn ''LZb'' 1 0 [Do (Put This ''a'' (V 0))],
    fn ''e_b'' 1 0 [Do (Put This ''a'' (V 0))],
    fn ''g_b'' 1 0 [Do (Put This ''a'' (V 0))],
    fn ''k_b'' 1 0 [Do (Put This ''a'' (V 0))],
    fn ''o_b'' 1 0 [Do (Put This ''a'' (V 0))],
    fn ''C_b'' 1 0 [Do (Put This ''a'' (V 0))],
    fn ''E_b'' 1 0 [Do (Put This ''a'' (V 0))],
    fn ''G_b'' 1 0 [Do (Put This ''a'' (V 0))],
    fn ''I_b'' 1 0 [Do (Put This ''a'' (V 0))],
    fn ''Z0b'' 1 0 [Do (Put This ''a'' (V 0))],
    fn ''b1b'' 1 0 [Do (Put This ''a'' (V 0))],
    fn ''Y1b'' 1 0 [Do (Put This ''a'' (V 0))],
    fn ''x2b'' 1 0 [Do (Put This ''a'' (V 0))],
    fn ''D4b'' 1 0 [Do (Put This ''a'' (V 0))],
    fn ''J4b'' 1 0 [Do (Put This ''a'' (V 0))],
    fn ''M4b'' 1 0 [Do (Put This ''a'' (V 0))],
    fn ''P4b'' 1 0 [Do (Put This ''a'' (V 0))],
    fn ''q7b'' 1 0 [Do (Put This ''a'' (V 0))],
    fn ''s7b'' 1 0 [Do (Put This ''a'' (V 0))],
    fn ''j9b'' 1 0 [Do (Put This ''a'' (V 0))],
    fn ''m9b'' 1 0 [Do (Put This ''a'' (V 0))],
    fn ''Q9b'' 1 0 [Do (Put This ''a'' (V 0))],
    fn ''iXb'' 1 0 [Do (Put This ''e'' (V 0))],
    fn ''gac'' 1 0 [Do (Put This ''a'' (V 0))],
    fn ''kac'' 1 0 [Do (Put This ''a'' (V 0))],
    fn ''kbc'' 1 0 [Do (Put This ''a'' (V 0))],
    fn ''Ebc'' 1 0 [Do (Put This ''a'' (V 0))],
    fn ''Ibc'' 1 0 [Do (Put This ''a'' (V 0))],
    fn ''Gcc'' 1 0 [Do (Put This ''a'' (V 0))],
    fn ''Wcc'' 1 0 [Do (Put This ''a'' (V 0))],
    fn ''gdc'' 1 0 [Do (Put This ''a'' (V 0))],
    fn ''qdc'' 1 0 [Do (Put This ''a'' (V 0))],
    fn ''dec'' 1 0 [Do (Put This ''a'' (V 0))],
    fn ''iec'' 1 0 [Do (Put This ''a'' (V 0))],
    fn ''_ec'' 1 0 [Do (Put This ''a'' (V 0))],
    fn ''bfc'' 1 0 [Do (Put This ''a'' (V 0))],
    fn ''dfc'' 1 0 [Do (Put This ''a'' (V 0))],
    fn ''jfc'' 1 0 [Do (Put This ''a'' (V 0))],
    fn ''lfc'' 1 0 [Do (Put This ''a'' (V 0))],
    fn ''vfc'' 1 0 [Do (Put This ''a'' (V 0))],
    fn ''Bfc'' 1 0 [Do (Put This ''a'' (V 0))],
    fn ''Dfc'' 1 0 [Do (Put This ''a'' (V 0))],
    fn ''Nfc'' 1 0 [Do (Put This ''a'' (V 0))],
    fn ''Jic'' 1 0 [Do (Put This ''a'' (V 0))],
    fn ''Lic'' 1 0 [Do (Put This ''a'' (V 0))],
    fn ''Ejc'' 1 0 [Do (Put This ''a'' (V 0))],
    fn ''jlc'' 1 0 [Do (Put This ''a'' (V 0))],
    fn ''llc'' 1 0 [Do (Put This ''a'' (V 0))],
    fn ''inc'' 1 0 [Do (Put This ''a'' (V 0))],
    fn ''knc'' 1 0 [Do (Put This ''a'' (V 0))],
    fn ''bDc'' 1 0 [Do (Put This ''a'' (V 0))],
    fn ''fDc'' 1 0 [Do (Put This ''a'' (V 0))],
    fn ''eEc'' 1 0 [Do (Put This ''a'' (V 0))],
    fn ''bFc'' 1 0 [Do (Put This ''a'' (V 0))],
    fn ''zFc'' 1 0 [Do (Put This ''a'' (V 0))],
    fn ''VFc'' 1 0 [Do (Put This ''a'' (V 0))],
    fn ''xFc'' 1 0 [Do (Put This ''c'' (V 0))],
    fn ''vmc'' 1 0 [Do (Put This ''b'' (V 0))],
    fn ''yGc'' 1 0 [Do (Put This ''a'' (V 0))],
    fn ''aHc'' 1 0 [Do (Put This ''a'' (V 0))],
    fn ''cHc'' 1 0 [Do (Put This ''a'' (V 0))],
    fn ''eHc'' 1 0 [Do (Put This ''a'' (V 0))],
    fn ''hIc'' 1 0 [Do (Put This ''a'' (V 0))],
    fn ''qJc'' 1 0 [Do (Put This ''a'' (V 0))],
    fn ''uJc'' 1 0 [Do (Put This ''a'' (V 0))],
    fn ''yJc'' 1 0 [Do (Put This ''a'' (V 0))],
    fn ''CJc'' 1 0 [Do (Put This ''a'' (V 0))],
    fn ''GJc'' 1 0 [Do (Put This ''a'' (V 0))],
    fn ''IJc'' 1 0 [Do (Put This ''a'' (V 0))],
    fn ''LJc'' 1 0 [Do (Put This ''a'' (V 0))],
    fn ''UJc'' 1 0 [Do (Put This ''a'' (V 0))],
    fn ''LLc'' 1 0 [Do (Put This ''a'' (V 0))],
    fn ''RLc'' 1 0 [Do (Put This ''a'' (V 0))],
    fn ''VLc'' 1 0 [Do (Put This ''a'' (V 0))],
    fn ''hMc'' 1 0 [Do (Put This ''a'' (V 0))],
    fn ''lMc'' 1 0 [Do (Put This ''a'' (V 0))],
    fn ''sMc'' 1 0 [Do (Put This ''a'' (V 0))],
    fn ''AMc'' 1 0 [Do (Put This ''a'' (V 0))],
    fn ''GMc'' 1 0 [Do (Put This ''a'' (V 0))],
    fn ''XNc'' 1 0 [Do (Put This ''a'' (V 0))],
    fn ''gQc'' 1 0 [Do (Put This ''a'' (V 0))],
    fn ''lTc'' 1 0 [Do (Put This ''a'' (V 0))],
    fn ''nTc'' 1 0 [Do (Put This ''a'' (V 0))],
    fn ''rTc'' 1 0 [Do (Put This ''a'' (V 0))],
    fn ''xTc'' 1 0 [Do (Put This ''a'' (V 0))],
    fn ''OTc'' 1 0 [Do (Put This ''a'' (V 0))],
    fn ''RTc'' 1 0 [Do (Put This ''a'' (V 0))],
    fn ''nUc'' 1 0 [Do (Put This ''a'' (V 0))],
    fn ''FUc'' 1 0 [Do (Put This ''a'' (V 0))],
    fn ''HUc'' 1 0 [Do (Put This ''a'' (V 0))],
    fn ''LUc'' 1 0 [Do (Put This ''a'' (V 0))],
    fn ''NUc'' 1 0 [Do (Put This ''a'' (V 0))],
    fn ''PUc'' 1 0 [Do (Put This ''a'' (V 0))],
    fn ''TUc'' 1 0 [Do (Put This ''a'' (V 0))],
    fn ''TYc'' 1 0 [Do (Put This ''a'' (V 0))],
    fn ''RYc'' 1 0 [Do (Put This ''a'' (V 0))],
    fn ''y$c'' 1 0 [Do (Put This ''a'' (V 0))],
    fn ''O7c'' 1 0 [Do (Put This ''a'' (V 0))],
    fn ''Q7c'' 1 0 [Do (Put This ''a'' (V 0))],
    fn ''S7c'' 1 0 [Do (Put This ''a'' (V 0))],
    fn ''U7c'' 1 0 [Do (Put This ''a'' (V 0))],
    fn ''$7c'' 1 0 [Do (Put This ''a'' (V 0))],
    fn ''tad'' 1 0 [Do (Put This ''a'' (V 0))],
    fn ''Fad'' 1 0 [Do (Put This ''a'' (V 0))],
    fn ''Had'' 1 0 [Do (Put This ''a'' (V 0))],
    fn ''Wbd'' 1 0 [Do (Put This ''a'' (V 0))],
    fn ''$bd'' 1 0 [Do (Put This ''a'' (V 0))],
    fn ''Fcd'' 1 0 [Do (Put This ''a'' (V 0))],
    fn ''Rod'' 1 0 [Do (Put This ''a'' (V 0))],
    fn ''Apd'' 1 0 [Do (Put This ''a'' (V 0))],
    fn ''Epd'' 1 0 [Do (Put This ''a'' (V 0))],
    fn ''uqd'' 1 0 [Do (Put This ''a'' (V 0))],
    fn ''vrd'' 1 0 [Do (Put This ''a'' (V 0))],
    fn ''Urd'' 1 0 [Do (Put This ''a'' (V 0))],
    fn ''xCd'' 1 0 [Do (Put This ''a'' (V 0))]]"

definition code_1006_1146 :: "(string \<times> jfun) list" where
  "code_1006_1146 = [
    fn ''PCd'' 1 0 [Do (Put This ''a'' (V 0))],
    fn ''RCd'' 1 0 [Do (Put This ''a'' (V 0))],
    fn ''TCd'' 1 0 [Do (Put This ''a'' (V 0))],
    fn ''VCd'' 1 0 [Do (Put This ''a'' (V 0))],
    fn ''XCd'' 1 0 [Do (Put This ''a'' (V 0))],
    fn ''ZCd'' 1 0 [Do (Put This ''a'' (V 0))],
    fn ''_Cd'' 1 0 [Do (Put This ''a'' (V 0))],
    fn ''bDd'' 1 0 [Do (Put This ''a'' (V 0))],
    fn ''dDd'' 1 0 [Do (Put This ''a'' (V 0))],
    fn ''lDd'' 1 0 [Do (Put This ''a'' (V 0))],
    fn ''pDd'' 1 0 [Do (Put This ''a'' (V 0))],
    fn ''rDd'' 1 0 [Do (Put This ''a'' (V 0))],
    fn ''tDd'' 1 0 [Do (Put This ''a'' (V 0))],
    fn ''vDd'' 1 0 [Do (Put This ''a'' (V 0))],
    fn ''xDd'' 1 0 [Do (Put This ''a'' (V 0))],
    fn ''zDd'' 1 0 [Do (Put This ''a'' (V 0))],
    fn ''HDd'' 1 0 [Do (Put This ''a'' (V 0))],
    fn ''NDd'' 1 0 [Do (Put This ''a'' (V 0))],
    fn ''PDd'' 1 0 [Do (Put This ''a'' (V 0))],
    fn ''RDd'' 1 0 [Do (Put This ''a'' (V 0))],
    fn ''TDd'' 1 0 [Do (Put This ''a'' (V 0))],
    fn ''VDd'' 1 0 [Do (Put This ''a'' (V 0))],
    fn ''dEd'' 1 0 [Do (Put This ''a'' (V 0))],
    fn ''fEd'' 1 0 [Do (Put This ''a'' (V 0))],
    fn ''hEd'' 1 0 [Do (Put This ''a'' (V 0))],
    fn ''jEd'' 1 0 [Do (Put This ''a'' (V 0))],
    fn ''NEd'' 1 0 [Do (Put This ''a'' (V 0))],
    fn ''CEd'' 1 0 [Do (Put This ''b'' (V 0))],
    fn ''nsd'' 1 0 [Do (Put This ''f'' (V 0))],
    fn ''fFd'' 1 0 [Do (Put This ''a'' (V 0))],
    fn ''mNd'' 1 0 [Do (Put This ''a'' (V 0))],
    fn ''uNd'' 1 0 [Do (Put This ''a'' (V 0))],
    fn ''ANd'' 1 0 [Do (Put This ''a'' (V 0))],
    fn ''GNd'' 1 0 [Do (Put This ''a'' (V 0))],
    fn ''YNd'' 1 0 [Do (Put This ''a'' (V 0))],
    fn ''JYd'' 1 0 [Do (Put This ''a'' (V 0))],
    fn ''rZd'' 1 0 [Do (Put This ''a'' (V 0))],
    fn ''p_d'' 1 0 [Do (Put This ''a'' (V 0))],
    fn ''p0d'' 1 0 [Do (Put This ''a'' (V 0))],
    fn ''y3d'' 1 0 [Do (Put This ''a'' (V 0))],
    fn ''V7d'' 1 0 [Do (Put This ''a'' (V 0))],
    fn ''C8d'' 1 0 [Do (Put This ''a'' (V 0))],
    fn ''K8d'' 1 0 [Do (Put This ''a'' (V 0))],
    fn ''b$d'' 1 0 [Do (Put This ''b'' (V 0))],
    fn ''Y4d'' 1 0 [Do (Put This ''c'' (V 0))],
    fn ''G5d'' 1 0 [Do (Put This ''e'' (V 0))],
    fn ''dce'' 1 0 [Do (Put This ''d'' (V 0))],
    fn ''kce'' 1 0 [Do (Put This ''a'' (V 0))],
    fn ''zce'' 1 0 [Do (Put This ''a'' (V 0))],
    fn ''Hhe'' 1 0 [Do (Put This ''a'' (V 0))],
    fn ''Ore'' 1 0 [Do (Put This ''a'' (V 0))],
    fn ''hre'' 1 0 [Do (Put This ''e'' (V 0))],
    fn ''xqd'' 0 0 [Do (Put This ''a'' (K (JNum 0)))],
    fn ''lmb'' 0 0 [Do (Call ''Zlb'' [This])],
    fn ''_rb'' 0 0 [Do (Call ''kjb'' [This])],
    fn ''vFb'' 0 0 [Do (Call ''uFb'' [This])],
    fn ''nYb'' 0 0 [Do (Call ''fYb'' [This])],
    fn ''F0d'' 0 0 [Do (Put This ''c'' (G ''q0d''))],
    fn ''rmc'' 2 0 [Do (Put (V 0) ''b'' (Bin Plus (Dot (V 0) ''b'') (V 1)))],
    fn ''fie'' 2 0 [Do (Meth (V 1) ''Wb'' [V 0])],
    fn ''fC'' 1 0 [Ret (Dot (V 0) ''a'')],
    fn ''tC'' 1 0 [Ret (Dot (V 0) ''a'')],
    fn ''MC'' 1 0 [Ret (Dot (V 0) ''a'')],
    fn ''LB'' 1 0 [Ret (Dot (V 0) ''a'')],
    fn ''TB'' 1 0 [Ret (Dot (V 0) ''a'')],
    fn ''Lcb'' 1 0 [Ret (Dot (V 0) ''e'')],
    fn ''$B'' 0 0 [Ret (K JNull)],
    fn ''EC'' 0 0 [Ret (K JNull)],
    fn ''Ey'' 1 0 [Raise (Call ''Lcb'' [V 0])],
    fn ''xy'' 1 0 [Do (Put This ''a'' (Call ''Qb'' [V 0]))],
    fn ''c0d'' 0 0 [Do (Put This ''a'' This)],
    fn ''pz'' 0 0 [Do (Super ''ez'' [])],
    fn ''VJb'' 1 0 [Do (Meth (Dot (V 0) ''b'') ''Mf'' [Dot (V 0) ''e''])],
    fn ''eUb'' 1 0 [Do (Put (V 0) ''b'' (New ''Pi'' []))],
    fn ''m2b'' 2 0 [Do (Put (V 0) ''b'' (Bin Minus (V 1) (Dot (V 0) ''b'')))],
    fn ''j2b'' 2 0 [Do (Put (V 0) ''a'' (Bin Minus (V 1) (Dot (V 0) ''a'')))],
    fn ''z2c'' 2 0 [Do (Meth (V 1) ''gd'' [Dot (V 0) ''a''])],
    fn ''fjc'' 2 0 [Do (Call ''xZb'' [V 1, V 0])],
    fn ''qDb'' 2 0 [Do (Meth (V 0) ''push'' [V 1])],
    fn ''uDb'' 2 0 [Do (Meth (V 0) ''sort'' [V 1])],
    fn ''np'' 3 0 [Do (Meth (V 0) ''Wd'' [V 2, V 1])],
    fn ''Js'' 2 0 [Do (Put (V 0) ''e'' (V 1)), Do (Put (V 1) ''b'' (V 0))],
    fn ''$z'' 1 0 [Do (Call ''Zz'' []), Do (Meth (G ''Yz'') ''je'' [V 0])],
    fn ''vdb'' 0 0 [Do (Call ''bHd'' []), Do (Call ''dHd'' [])],
    fn ''Edb'' 0 0 [Do (Super ''pz'' [])],
    fn ''Idb'' 0 0 [Do (Super ''pz'' [])],
    fn ''Mdb'' 0 0 [Do (Super ''ez'' [])],
    fn ''Reb'' 0 0 [Do (Super ''pz'' [])],
    fn ''Rqb'' 0 0 [Do (Super ''pz'' [])],
    fn ''$qb'' 0 0 [Do (Super ''pz'' [])],
    fn ''jfb'' 0 0 [Do (Super ''pz'' [])],
    fn ''mfb'' 0 0 [Do (Super ''pz'' [])],
    fn ''Xfb'' 0 0 [Do (Super ''pz'' [])],
    fn ''thb'' 0 0 [Do (Super ''pz'' [])],
    fn ''Kub'' 0 0 [Do (Super ''pz'' [])],
    fn ''Dbd'' 0 0 [Do (Super ''pz'' [])],
    fn ''x_d'' 0 0 [Do (Put This ''Bb'' (Bin BitOr (Dot This ''Bb'') (K (JNum 256))))],
    fn ''ZPb'' 0 0 [Do (Put This ''b'' (New ''vt'' []))],
    fn ''nA'' 0 0 [Do (SetG ''nA'' (G ''qdb'')), Do (New ''_rb'' [])],
    fn ''tDb'' 2 0 [Do (Put (V 0) ''length'' (V 1))],
    fn ''kxb'' 2 0 [Do (Call ''_lb'' [Dot (V 0) ''a'', V 1])],
    fn ''OKb'' 2 0 [Do (Call ''oIb'' [Dot (V 0) ''c'', V 1])],
    fn ''_Nc'' 2 0 [Do (Call ''esb'' [Dot (V 0) ''b'', V 1])],
    fn ''jNd'' 2 0 [Do (Call ''jMd'' [Dot (V 0) ''a'', V 1])],
    fn ''kNd'' 2 0 [Do (Call ''kMd'' [Dot (V 0) ''a'', V 1])],
    fn ''rXd'' 2 0 [Do (Call ''Osd'' [Dot (V 0) ''e'', V 1])],
    fn ''Pie'' 1 0 [Do (Call ''oee'' [Dot (V 0) ''c'', Dot (V 0) ''b''])],
    fn ''sj'' 2 0 [Do (Meth (Meth (V 0) ''kc'' []) ''Nb'' [V 1])],
    fn ''cfb'' 1 0 [Do (Put This ''a'' (Call ''hfb'' [V 0]))],
    fn ''hsb'' 0 0 [Do (Put This ''a'' (New ''_rb'' []))],
    fn ''gAb'' 0 0 [Do (Put This ''a'' (New ''_rb'' []))],
    fn ''nxb'' 0 0 [Do (Put This ''a'' (New ''lmb'' []))],
    fn ''fGb'' 0 0 [Do (Put This ''a'' (New ''lmb'' []))],
    fn ''kGb'' 0 0 [Do (Put This ''a'' (New ''lmb'' []))],
    fn ''aGb'' 0 0 [Do (Put This ''a'' (New ''VFb'' []))],
    fn ''LGb'' 0 0 [Do (Put This ''a'' (New ''hGb'' []))],
    fn ''Ezb'' 0 0 [Do (Put This ''a'' (New ''kyb'' []))],
    fn ''CEb'' 0 0 [Do (Put This ''a'' (New ''yEb'' []))],
    fn ''JEb'' 0 0 [Do (Put This ''a'' (New ''DEb'' []))],
    fn ''kNb'' 0 0 [Do (Put This ''a'' (New ''WMb'' []))],
    fn ''RQb'' 0 0 [Do (Put This ''a'' (New ''tQb'' []))],
    fn ''iTb'' 0 0 [Do (Put This ''a'' (New ''lmb'' []))],
    fn ''iVb'' 0 0 [Do (Put This ''a'' (New ''lmb'' []))],
    fn ''nUb'' 0 0 [Do (Put This ''a'' (New ''lmb'' []))],
    fn ''WUb'' 0 0 [Do (Put This ''a'' (New ''lmb'' []))],
    fn ''BLb'' 0 0 [Do (Put This ''d'' (New ''lmb'' []))],
    fn ''cVb'' 0 0 [Do (Put This ''a'' (New ''hsb'' []))],
    fn ''Y$b'' 0 0 [Do (Put This ''a'' (New ''_rb'' []))],
    fn ''iWb'' 0 0 [Do (Put This ''b'' (New ''_rb'' []))],
    fn ''DDc'' 0 0 [Do (Put This ''b'' (New ''lmb'' []))],
    fn ''IKc'' 0 0 [Do (Put This ''e'' (New ''lmb'' []))],
    fn ''abc'' 0 0 [Do (Put This ''a'' (New ''nic'' []))],
    fn ''DNc'' 0 0 [Do (Put This ''d'' (New ''lmb'' []))],
    fn ''ELc'' 0 0 [Do (Super ''lmb'' [])],
    fn ''Gdb'' 0 0 [Do (Super ''Edb'' [])],
    fn ''Mxb'' 0 0 [Do (Super ''nxb'' [])],
    fn ''rUb'' 0 0 [Do (Super ''nUb'' [])],
    fn ''uYb'' 0 0 [Do (Super ''nYb'' [])],
    fn ''yYb'' 0 0 [Do (Super ''uYb'' [])],
    fn ''KHb'' 0 0 [Do (Super ''uHb'' [])],
    fn ''gZb'' 0 0 [Do (Super ''nYb'' [])]]"

definition code_1147_1282 :: "(string \<times> jfun) list" where
  "code_1147_1282 = [
    fn ''jZb'' 0 0 [Do (Super ''gZb'' [])],
    fn ''dOc'' 0 0 [Do (Super ''cOc'' [])],
    fn ''kOc'' 0 0 [Do (Super ''cOc'' [])],
    fn ''NQc'' 0 0 [Do (Super ''LQc'' [])],
    fn ''SQc'' 0 0 [Do (Super ''LQc'' [])],
    fn ''XQc'' 0 0 [Do (Super ''LQc'' [])],
    fn ''Cad'' 0 0 [Do (Super ''yad'' [])],
    fn ''Wzd'' 0 0 [Do (Super ''uwd'' [])],
    fn ''jAd'' 0 0 [Do (Super ''uwd'' [])],
    fn ''ygd'' 0 0 [Do (Super ''dub'' [])],
    fn ''$Od'' 0 0 [Do (Super ''LOd'' [])],
    fn ''zPd'' 0 0 [Do (Super ''LOd'' [])],
    fn ''ZQd'' 0 0 [Do (Super ''_rb'' [])],
    fn ''gRd'' 0 0 [Do (Super ''_rb'' [])],
    fn ''rRd'' 0 0 [Do (Super ''_rb'' [])],
    fn ''zVd'' 0 0 [Do (Super ''UUd'' [])],
    fn ''v_d'' 0 0 [Do (Super ''hsb'' [])],
    fn ''N_d'' 0 0 [Do (Super ''x_d'' [])],
    fn ''D2d'' 0 0 [Do (Super ''qUd'' [])],
    fn ''_3d'' 0 0 [Do (Super ''_rb'' [])],
    fn ''c4d'' 0 0 [Do (Super ''qUd'' [])],
    fn ''y8d'' 0 0 [Do (Super ''_rb'' [])],
    fn ''P8d'' 0 0 [Do (Super ''_rb'' [])],
    fn ''Bke'' 0 0 [Do (Super ''xSd'' [])],
    fn ''Uke'' 0 0 [Do (Super ''Bke'' [])],
    fn ''$ke'' 0 0 [Do (Super ''xSd'' [])],
    fn ''Tpe'' 0 0 [Do (Super ''epe'' [])],
    fn ''LQc'' 0 0 [Do (Put This ''a'' (New ''hsb'' []))],
    fn ''YVc'' 0 0 [Do (Put This ''a'' (New ''_rb'' []))],
    fn ''yad'' 0 0 [Do (Put This ''a'' (New ''_rb'' []))],
    fn ''ood'' 0 0 [Do (Put This ''a'' (New ''dub'' []))],
    fn ''mWc'' 0 0 [Do (Put This ''a'' (New ''lmb'' []))],
    fn ''Jbd'' 0 0 [Do (Put This ''j'' (New ''lmb'' []))],
    fn ''LOd'' 0 0 [Do (Put This ''a'' (New ''POd'' []))],
    fn ''A2c'' 0 0 [Do (Put This ''a'' (New ''E2c'' []))],
    fn ''k8c'' 0 0 [Do (Put This ''a'' (New ''j8c'' []))],
    fn ''il'' 0 0 [Do (SetG ''il'' (G ''qdb'')), Do (SetG ''hl'' (New ''jl'' []))],
    fn ''wb'' 0 0 [Do (SetG ''wb'' (G ''qdb'')), Do (SetG ''vb'' (New ''xb'' []))],
    fn ''Uk'' 0 0 [Do (SetG ''Uk'' (G ''qdb'')), Do (SetG ''Tk'' (New ''Vk'' []))],
    fn ''Vk'' 0 0 [Do (Super ''Ok'' [K (JStr '''')])],
    fn ''jl'' 0 0 [Do (Super ''Ok'' [K (JStr '''')])],
    fn ''Dd'' 1 0 [Do (Super ''yd'' [V 0])],
    fn ''Hd'' 1 0 [Do (Super ''yd'' [V 0])],
    fn ''vh'' 1 0 [Do (Super ''rh'' [V 0])],
    fn ''Yh'' 1 0 [Do (Super ''Wc'' [V 0])],
    fn ''Oi'' 1 0 [Do (Super ''Wc'' [V 0])],
    fn ''ui'' 1 0 [Do (Super ''Yh'' [V 0])],
    fn ''Mp'' 1 0 [Do (Super ''Yh'' [V 0])],
    fn ''As'' 1 0 [Do (Super ''Yh'' [V 0])],
    fn ''Dp'' 1 0 [Do (Super ''Ro'' [V 0])],
    fn ''Kp'' 1 0 [Do (Super ''Ro'' [V 0])],
    fn ''Zp'' 1 0 [Do (Super ''ao'' [V 0])],
    fn ''wv'' 1 0 [Do (Super ''lv'' [V 0])],
    fn ''Tv'' 1 0 [Do (Super ''Kr'' [V 0])],
    fn ''Vv'' 1 0 [Do (Super ''Kr'' [V 0])],
    fn ''Tw'' 1 0 [Do (Super ''Kr'' [V 0])],
    fn ''qz'' 1 0 [Do (Super ''fz'' [V 0])],
    fn ''UB'' 1 0 [Do (Super ''qz'' [V 0])],
    fn ''mC'' 0 0 [Do (Super ''nC'' [NewLit []])],
    fn ''Vub'' 1 0 [Do (Call ''Rub'' []), Do (Put This ''a'' (V 0))],
    fn ''Sxb'' 1 0 [Do (Put (V 0) ''b'' (K JNull)), Do (Put (V 0) ''c'' (K (JNum 0)))],
    fn ''cz'' 2 0 [Do (Put (V 0) ''e'' (V 1)), Do (Call ''_y'' [V 0, V 1])],
    fn ''rSb'' 2 0 [Do (Put (V 0) ''a'' (V 1)), Do (Call ''tSb'' [V 0])],
    fn ''HIb'' 3 0 [Do (PutIdx (Dot (V 0) ''a'') (Dot (V 1) ''g'') (V 2))],
    fn ''_pd'' 3 0 [Do (Call ''hqd'' [V 2, V 0, V 1])],
    fn ''sbc'' 2 0 [Do (Call ''ghc'' [Dot (V 1) ''i'', Dot (V 0) ''n''])],
    fn ''wyc'' 2 0 [Do (Meth (Call ''xyc'' [V 0]) ''Ad'' [V 1])],
    fn ''cOb'' 2 0 [Ret (Bin Divide (Bin Times (V 0) (V 0)) (V 1))],
    fn ''bs'' 2 0 [Ret (Bin Minus (Dot (V 0) ''g'') (Dot (V 1) ''g''))],
    fn ''pw'' 2 0 [Do (Meth (Meth (Dot (V 0) ''a'') ''ec'' []) ''Kc'' [V 1])],
    fn ''BC'' 1 0 [Ret (New ''_B'' [V 0])],
    fn ''DC'' 1 0 [Ret (New ''GC'' [V 0])],
    fn ''Ddb'' 1 0 [Do (Super ''qz'' [V 0])],
    fn ''Fdb'' 1 0 [Do (Super ''qz'' [V 0])],
    fn ''Jdb'' 1 0 [Do (Super ''qz'' [V 0])],
    fn ''Kdb'' 1 0 [Do (Super ''fz'' [V 0])],
    fn ''ZGc'' 1 0 [Do (Call ''DGc'' []), Do (Put This ''a'' (V 0))],
    fn ''Zrd'' 1 0 [Do (Call ''Lrd'' []), Do (Put This ''f'' (V 0))],
    fn ''Xrd'' 1 0 [Do (Call ''Lrd'' []), Do (Put This ''f'' (V 0))],
    fn ''Pbe'' 1 0 [Do (Call ''_Kd'' []), Do (Put This ''a'' (V 0))],
    fn ''Seb'' 1 0 [Do (Super ''qz'' [V 0])],
    fn ''kfb'' 1 0 [Do (Super ''qz'' [V 0])],
    fn ''nfb'' 1 0 [Do (Super ''qz'' [V 0])],
    fn ''Wfb'' 1 0 [Do (Super ''qz'' [V 0])],
    fn ''Yfb'' 1 0 [Do (Super ''qz'' [V 0])],
    fn ''Rdb'' 1 0 [Ret (Seq (Call ''NDb'' [V 0]) (V 0))],
    fn ''Ueb'' 1 0 [Ret (Seq (Call ''NDb'' [V 0]) (V 0))],
    fn ''Web'' 1 0 [Ret (Seq (Call ''NDb'' [V 0]) (V 0))],
    fn ''Cgb'' 1 0 [Ret (Seq (Call ''NDb'' [V 0]) (V 0))],
    fn ''Mgb'' 1 0 [Ret (Seq (Call ''NDb'' [V 0]) (V 0))],
    fn ''xlb'' 1 0 [Ret (Loose (Dot (V 0) ''b'') (Dot (V 0) ''c''))],
    fn ''ayb'' 1 0 [Ret (And (Neg (Neg (V 0))) (Dot (V 0) ''b''))],
    fn ''LIb'' 1 0 [Ret (And (Neg (Neg (V 0))) (Dot (V 0) ''k''))],
    fn ''MIb'' 1 0 [Ret (And (Neg (Neg (V 0))) (Dot (V 0) ''j''))],
    fn ''wnb'' 1 0 [Do (Call ''NDb'' [V 0]), Do (Put This ''a'' (V 0))],
    fn ''cSb'' 1 0 [Do (Call ''YRb'' [V 0]), Ret (V 0)],
    fn ''Xmb'' 1 0 [Do (Call ''anb'' [V 0, Dot (V 0) ''length''])],
    fn ''uhb'' 1 0 [Do (Super ''qz'' [V 0])],
    fn ''Ebd'' 1 0 [Do (Super ''qz'' [V 0])],
    fn ''Fbd'' 1 0 [Do (Super ''qz'' [V 0])],
    fn ''YAd'' 1 0 [Do (Super ''qz'' [V 0])],
    fn ''Yoe'' 1 0 [Do (Super ''qz'' [V 0])],
    fn ''Zje'' 1 0 [Do (Super ''qz'' [V 0])],
    fn ''pc'' 1 0 [Do (Super ''qc'' [V 0, K (JNum 0)])],
    fn ''Pi'' 0 0 [Do (Super ''Qi'' [K (JNum 12), K (JNum 3)])],
    fn ''Gb'' 0 0 [Do (Put This ''a'' (Call ''OD'' [Call ''Qb'' [G ''Ete'']]))],
    fn ''jc'' 0 0 [Raise (Call ''Lcb'' [New ''thb'' []])],
    fn ''Fh'' 0 0 [Raise (Call ''Lcb'' [New ''thb'' []])],
    fn ''Vi'' 0 0 [Raise (Call ''Lcb'' [New ''thb'' []])],
    fn ''Vj'' 0 0 [Raise (Call ''Lcb'' [New ''thb'' []])],
    fn ''Wj'' 0 0 [Raise (Call ''Lcb'' [New ''thb'' []])],
    fn ''dn'' 0 0 [Raise (Call ''Lcb'' [New ''thb'' []])],
    fn ''sz'' 0 0 [Do (SetG ''sz'' (G ''qdb'')), Do (SetG ''rz'' (New ''nb'' []))],
    fn ''Sz'' 0 0 [Do (SetG ''Sz'' (G ''qdb'')), Do (SetG ''Rz'' (New ''Vz'' []))],
    fn ''SA'' 0 0 [Do (SetG ''SA'' (G ''qdb'')), Do (SetG ''RA'' (New ''UA'' []))],
    fn ''ns'' 0 0 [Do (SetG ''ns'' (G ''qdb'')), Do (SetG ''ms'' (New ''os'' []))],
    fn ''WB'' 0 0 [Do (SetG ''WB'' (G ''qdb'')), Do (SetG ''VB'' (New ''XB'' []))],
    fn ''Iz'' 0 0 [Do (SetG ''Iz'' (G ''qdb'')), Do (Neg (Neg (Seq (Call ''Zz'' []) (G ''Yz''))))],
    fn ''$gb'' 0 0 [Do (Super ''Bdb'' [K (JStr '''')])],
    fn ''_gb'' 0 0 [Do (Super ''Bdb'' [K (JStr '''')])],
    fn ''lhb'' 0 0 [Do (Super ''Bdb'' [K (JStr '''')])],
    fn ''mhb'' 0 0 [Do (Super ''Bdb'' [K (JStr '''')])],
    fn ''ohb'' 1 0 [Do (Super ''Fdb'' [V 0])],
    fn ''Hdb'' 1 0 [Do (Super ''Fdb'' [V 0])],
    fn ''dgb'' 1 0 [Do (Super ''kfb'' [V 0])],
    fn ''Tpb'' 1 0 [Do (Super ''Hob'' [V 0])],
    fn ''$pb'' 1 0 [Do (Super ''Tpb'' [V 0])],
    fn ''qqb'' 1 0 [Do (Super ''bpb'' [V 0])],
    fn ''jVb'' 3 0 [Do (Meth (Dot (V 0) ''c'') ''Cf'' [V 1, V 2])],
    fn ''Mwb'' 3 0 [Do (Meth (V 1) ''Ad'' [Idx (Dot (V 0) ''a'') (V 2)])],
    fn ''Rwb'' 3 0 [Do (Meth (V 1) ''Ne'' [Idx (Dot (V 0) ''a'') (V 2)])],
    fn ''_db'' 2 0 [Ret (Bin Minus (Dot (V 0) ''a'') (Dot (V 1) ''a''))],
    fn ''keb'' 2 0 [Ret (Bin Minus (Dot (V 0) ''a'') (Dot (V 1) ''a''))],
    fn ''egb'' 2 0 [Ret (Bin Minus (Dot (V 0) ''a'') (Dot (V 1) ''a''))],
    fn ''vDb'' 2 0 [Ret (Call ''XC'' [V 0, V 1])],
    fn ''OC'' 2 0 [Ret (Call ''Heb'' [V 0, V 1])]]"

definition code_1284_1363 :: "(string \<times> jfun) list" where
  "code_1284_1363 = [
    fn ''avb'' 1 0 [Ret (Cond (Dot (V 0) ''a'') (Dot (V 0) ''b'') (K (JNum 0)))],
    fn ''jvb'' 1 0 [Ret (Cond (Dot (V 0) ''a'') (Dot (V 0) ''b'') (K (JNum 0)))],
    fn ''jFb'' 2 0 [Do (Put (V 0) ''f'' (V 1)), Ret (V 0)],
    fn ''hFb'' 2 0 [Do (Put (V 0) ''b'' (V 1)), Ret (V 0)],
    fn ''iFb'' 2 0 [Do (Put (V 0) ''c'' (V 1)), Ret (V 0)],
    fn ''kFb'' 2 0 [Do (Put (V 0) ''g'' (V 1)), Ret (V 0)],
    fn ''bHb'' 2 0 [Do (Put (V 0) ''a'' (V 1)), Ret (V 0)],
    fn ''cHb'' 2 0 [Do (Put (V 0) ''f'' (V 1)), Ret (V 0)],
    fn ''dHb'' 2 0 [Do (Put (V 0) ''k'' (V 1)), Ret (V 0)],
    fn ''zLb'' 2 0 [Do (Put (V 0) ''a'' (V 1)), Ret (V 0)],
    fn ''ALb'' 2 0 [Do (Put (V 0) ''e'' (V 1)), Ret (V 0)],
    fn ''fSb'' 2 0 [Do (Put (V 0) ''e'' (V 1)), Ret (V 0)],
    fn ''gSb'' 2 0 [Do (Put (V 0) ''f'' (V 1)), Ret (V 0)],
    fn ''ZHb'' 2 0 [Do (Put (V 0) ''b'' (New ''mgd'' [V 1]))],
    fn ''Ks'' 2 0 [Do (Meth (V 0) ''_d'' [V 1]), Do (Meth (V 1) ''$d'' [V 0])],
    fn ''Lec'' 2 0 [Do (Call ''mec'' []), Do (Put (Dot (V 1) ''n'') ''a'' (Bin Plus (Dot (Dot (V 1) ''n'') ''a'') (V 0)))],
    fn ''oic'' 2 0 [Do (Call ''Yhc'' []), Do (Call ''wZb'' [V 1, V 0])],
    fn ''FKc'' 2 0 [Ret (Bin Minus (Dot (V 0) ''b'') (Dot (V 1) ''b''))],
    fn ''tPc'' 2 0 [Ret (Bin Minus (Dot (V 0) ''g'') (Dot (V 1) ''g''))],
    fn ''dSc'' 2 0 [Ret (Bin Minus (Dot (V 0) ''s'') (Dot (V 1) ''s''))],
    fn ''Agc'' 2 0 [Ret (Cond (V 0) (K (JNum 0)) (Bin Minus (V 1) (K (JNum 1))))],
    fn ''KGc'' 2 0 [Ret (Cond (V 0) (K (JNum 0)) (Bin Minus (V 1) (K (JNum 1))))],
    fn ''JGc'' 2 0 [Ret (Cond (V 0) (Bin Minus (V 1) (K (JNum 1))) (K (JNum 0)))],
    fn ''Sbd'' 2 0 [Ret (Meth (V 1) ''pg'' [V 0])],
    fn ''Scd'' 2 0 [Do (Put (V 0) ''b'' (V 1)), Ret (V 0)],
    fn ''Rcd'' 2 0 [Do (Put (V 0) ''a'' (V 1)), Ret (V 0)],
    fn ''Tcd'' 2 0 [Do (Put (V 0) ''c'' (V 1)), Ret (V 0)],
    fn ''Ucd'' 2 0 [Do (Put (V 0) ''d'' (V 1)), Ret (V 0)],
    fn ''Vcd'' 2 0 [Do (Put (V 0) ''e'' (V 1)), Ret (V 0)],
    fn ''Wcd'' 2 0 [Do (Put (V 0) ''f'' (V 1)), Ret (V 0)],
    fn ''jdd'' 2 0 [Do (Put (V 0) ''a'' (V 1)), Ret (V 0)],
    fn ''kdd'' 2 0 [Do (Put (V 0) ''b'' (V 1)), Ret (V 0)],
    fn ''ldd'' 2 0 [Do (Put (V 0) ''c'' (V 1)), Ret (V 0)],
    fn ''Hed'' 2 0 [Do (Put (V 0) ''c'' (V 1)), Ret (V 0)],
    fn ''Ged'' 2 0 [Do (Put (V 0) ''b'' (V 1)), Ret (V 0)],
    fn ''Ied'' 2 0 [Do (Put (V 0) ''d'' (V 1)), Ret (V 0)],
    fn ''Jed'' 2 0 [Do (Put (V 0) ''e'' (V 1)), Ret (V 0)],
    fn ''Ked'' 2 0 [Do (Put (V 0) ''f'' (V 1)), Ret (V 0)],
    fn ''Led'' 2 0 [Do (Put (V 0) ''g'' (V 1)), Ret (V 0)],
    fn ''Med'' 2 0 [Do (Put (V 0) ''a'' (V 1)), Ret (V 0)],
    fn ''Ned'' 2 0 [Do (Put (V 0) ''i'' (V 1)), Ret (V 0)],
    fn ''Oed'' 2 0 [Do (Put (V 0) ''j'' (V 1)), Ret (V 0)],
    fn ''lod'' 2 0 [Do (Put (V 0) ''j'' (V 1)), Ret (V 0)],
    fn ''kod'' 2 0 [Do (Put (V 0) ''k'' (V 1)), Ret (V 0)],
    fn ''jgd'' 0 0 [Do (Put This ''a'' (K (JNum 0))), Do (Put This ''b'' (K (JNum 0)))],
    fn ''jQc'' 0 0 [Do (Put This ''b'' (K (JNum 0))), Do (Put This ''a'' (K (JNum 0)))],
    fn ''KHc'' 1 0 [Do (Super ''WEc'' [V 0])],
    fn ''rIc'' 1 0 [Do (Super ''WEc'' [V 0])],
    fn ''zgd'' 1 0 [Do (Super ''eub'' [V 0])],
    fn ''xJd'' 1 0 [Do (Super ''oGd'' [V 0])],
    fn ''TNd'' 1 0 [Do (Super ''NNd'' [V 0])],
    fn ''VNd'' 1 0 [Do (Super ''NNd'' [V 0])],
    fn ''cYb'' 0 0 [Do (Super ''dYb'' [K (JStr '''')])],
    fn ''Msb'' 0 0 [Do (SetG ''Msb'' (G ''qdb'')), Do (SetG ''Lsb'' (Call ''Osb'' []))],
    fn ''zsd'' 0 0 [Do (SetG ''zsd'' (G ''qdb'')), Do (SetG ''ysd'' (Call ''iyd'' []))],
    fn ''Bsd'' 0 0 [Do (SetG ''Bsd'' (G ''qdb'')), Do (SetG ''Asd'' (Call ''wzd'' []))],
    fn ''bHd'' 0 0 [Do (SetG ''bHd'' (G ''qdb'')), Do (SetG ''aHd'' (Call ''vdd'' []))],
    fn ''wRd'' 0 0 [Do (SetG ''wRd'' (G ''qdb'')), Do (SetG ''vRd'' (Call ''b9d'' []))],
    fn ''_je'' 0 0 [Do (SetG ''_je'' (G ''qdb'')), Do (SetG ''$je'' (Call ''Ile'' []))],
    fn ''bke'' 0 0 [Do (SetG ''bke'' (G ''qdb'')), Do (SetG ''ake'' (Call ''Ple'' []))],
    fn ''web'' 1 0 [Ret (And (Dot (V 0) ''e'') (Meth (V 0) ''e'' []))],
    fn ''Oc'' 2 0 [Ret (Meth (Dot (V 0) ''c'') ''_b'' [V 1])],
    fn ''yn'' 2 0 [Ret (Call ''Nv'' [Dot (V 0) ''b'', V 1])],
    fn ''Ew'' 2 0 [Ret (Call ''zw'' [Dot (V 0) ''a'', V 1])],
    fn ''yVd'' 2 0 [Do (Put (V 0) ''b'' (K (JNum 0))), Do (Call ''oUd'' [V 0, V 1])],
    fn ''Ide'' 2 0 [Do (Put (V 0) ''c'' (V 1)), Do (Put (V 0) ''b'' (K (JBool True)))],
    fn ''Ugb'' 2 0 [Do (Put (V 0) ''a'' (Bin Plus (Dot (V 0) ''a'') (V 1))), Ret (V 0)],
    fn ''Vgb'' 2 0 [Do (Put (V 0) ''a'' (Bin Plus (Dot (V 0) ''a'') (V 1))), Ret (V 0)],
    fn ''Ygb'' 2 0 [Do (Put (V 0) ''a'' (Bin Plus (Dot (V 0) ''a'') (V 1))), Ret (V 0)],
    fn ''chb'' 2 0 [Do (Put (V 0) ''a'' (Bin Plus (Dot (V 0) ''a'') (V 1))), Ret (V 0)],
    fn ''xeb'' 1 0 [Do (Call ''veb'' [V 0]), Ret (Dot (V 0) ''o'')],
    fn ''Lhb'' 1 0 [Do (Call ''Dhb'' []), Do (Call ''Fhb'' [This, V 0])],
    fn ''gtb'' 0 0 [Raise (Call ''Lcb'' [New ''thb'' []])],
    fn ''Aob'' 0 0 [Raise (Call ''Lcb'' [New ''thb'' []])],
    fn ''Bob'' 0 0 [Raise (Call ''Lcb'' [New ''thb'' []])],
    fn ''Cob'' 0 0 [Raise (Call ''Lcb'' [New ''thb'' []])],
    fn ''Fob'' 0 0 [Raise (Call ''Lcb'' [New ''thb'' []])],
    fn ''Xob'' 0 0 [Raise (Call ''Lcb'' [New ''thb'' []])],
    fn ''isb'' 1 0 [Do (Put This ''a'' (New ''asb'' [V 0]))],
    fn ''Gzb'' 1 0 [Do (Put This ''a'' (New ''lyb'' [V 0]))]]"

definition code_1366_1510 :: "(string \<times> jfun) list" where
  "code_1366_1510 = [
    fn ''Z7c'' 3 0 [Do (Call ''X7c'' [Dot (V 0) ''a'', V 1, V 2])],
    fn ''rDb'' 3 0 [Do (Meth (V 0) ''splice'' [V 1, V 2])],
    fn ''V9b'' 2 0 [Ret (Call ''W9b'' [V 1, V 0])],
    fn ''jJc'' 2 0 [Ret (Idx (Dot (V 0) ''d'') (Dot (V 1) ''p''))],
    fn ''kub'' 1 0 [Ret (Neg (Loose (Dot (V 0) ''b'') (Dot (Dot (V 0) ''d'') ''c'')))],
    fn ''xD'' 1 0 [Ret (Bin BitOr (Dot (V 0) ''l'') (Bin Shl (Dot (V 0) ''m'') (K (JNum 22))))],
    fn ''Vd'' 1 0 [Ret (Cond (Neg (V 0)) (K JNull) (Dot (V 0) ''d''))],
    fn ''Mv'' 1 0 [Ret (Cond (Neg (V 0)) (K JNull) (Dot (V 0) ''g''))],
    fn ''Rv'' 1 0 [Ret (Cond (Neg (V 0)) (K JNull) (Dot (V 0) ''i''))],
    fn ''lbd'' 2 0 [Ret (Call ''ibd'' [V 0, V 1])],
    fn ''hCb'' 1 0 [Do (Call ''cBb'' [V 0]), Ret (Dot (V 0) ''a'')],
    fn ''qIb'' 1 0 [Do (Cond (Dot (V 0) ''c'') (Call ''pIb'' [V 0]) (Call ''rIb'' [V 0]))],
    fn ''CSc'' 0 0 [Do (Put This ''b'' (New ''Rbd'' [G ''LZ'']))],
    fn ''W7c'' 0 0 [Do (Put This ''b'' (New ''Rbd'' [G ''O0'']))],
    fn ''j8c'' 0 0 [Do (Put This ''b'' (New ''Rbd'' [G ''O0'']))],
    fn ''q_c'' 0 0 [Do (Put This ''a'' (New ''Rbd'' [G ''w_'']))],
    fn ''W2c'' 0 0 [Do (Put This ''a'' (New ''Rbd'' [G ''Z_'']))],
    fn ''C_c'' 1 0 [Do (Put This ''a'' (K (JNum 0))), Do (Put This ''b'' (V 0))],
    fn ''COd'' 0 0 [Raise (Call ''Lcb'' [New ''thb'' []])],
    fn ''BOd'' 0 0 [Raise (Call ''Lcb'' [New ''thb'' []])],
    fn ''DOd'' 0 0 [Raise (Call ''Lcb'' [New ''thb'' []])],
    fn ''EOd'' 0 0 [Raise (Call ''Lcb'' [New ''thb'' []])],
    fn ''FOd'' 0 0 [Raise (Call ''Lcb'' [New ''thb'' []])],
    fn ''GOd'' 0 0 [Raise (Call ''Lcb'' [New ''thb'' []])],
    fn ''HOd'' 0 0 [Raise (Call ''Lcb'' [New ''thb'' []])],
    fn ''IOd'' 0 0 [Raise (Call ''Lcb'' [New ''thb'' []])],
    fn ''JOd'' 0 0 [Raise (Call ''Lcb'' [New ''thb'' []])],
    fn ''KOd'' 0 0 [Raise (Call ''Lcb'' [New ''thb'' []])],
    fn ''Ose'' 0 0 [Raise (Call ''Lcb'' [New ''Kub'' []])],
    fn ''Pse'' 0 0 [Raise (Call ''Lcb'' [New ''Kub'' []])],
    fn ''Bse'' 1 0 [Do (Put This ''a'' (New ''Qre'' [V 0]))],
    fn ''pf'' 1 0 [Do (Put This ''b'' (Call ''JD'' [Call ''Qb'' [V 0], K (JNum 92)]))],
    fn ''Ff'' 2 0 [Do (Put This ''b'' (V 0)), Do (Put This ''c'' (V 1))],
    fn ''me'' 2 0 [Do (Put This ''e'' (V 0)), Do (Put This ''d'' (V 1))],
    fn ''Wc'' 1 0 [Do (Call ''Lb'' [Meth (V 0) ''dc'' []]), Do (Put This ''c'' (V 0))],
    fn ''Lj'' 2 0 [Do (Put This ''a'' (V 0)), Do (Put This ''b'' (V 1))],
    fn ''fk'' 2 0 [Do (Put This ''a'' (V 0)), Do (Put This ''b'' (V 1))],
    fn ''lk'' 2 0 [Do (Put This ''a'' (V 0)), Do (Put This ''b'' (V 1))],
    fn ''nk'' 2 0 [Do (Put This ''a'' (V 0)), Do (Put This ''b'' (V 1))],
    fn ''vk'' 2 0 [Do (Put This ''a'' (V 0)), Do (Put This ''b'' (V 1))],
    fn ''xk'' 2 0 [Do (Put This ''a'' (V 0)), Do (Put This ''b'' (V 1))],
    fn ''Ik'' 2 0 [Do (Put This ''a'' (V 0)), Do (Put This ''b'' (V 1))],
    fn ''Yo'' 2 0 [Do (Put This ''b'' (V 0)), Do (Put This ''a'' (V 1))],
    fn ''ap'' 2 0 [Do (Put This ''g'' (V 0)), Do (Put This ''i'' (V 1))],
    fn ''wp'' 2 0 [Do (Put This ''b'' (V 0)), Do (Put This ''a'' (V 1))],
    fn ''cg'' 2 0 [Do (Super ''xf'' [V 0, V 1])],
    fn ''eg'' 2 0 [Do (Super ''cg'' [V 0, V 1])],
    fn ''Mq'' 2 0 [Do (Put This ''a'' (V 0)), Do (Put This ''b'' (V 1))],
    fn ''mr'' 2 0 [Do (Put This ''a'' (V 0)), Do (Put This ''b'' (V 1))],
    fn ''hr'' 2 0 [Do (Put This ''b'' (V 0)), Do (Put This ''a'' (V 1))],
    fn ''Ir'' 2 0 [Do (Put This ''b'' (V 0)), Do (Put This ''a'' (V 1))],
    fn ''es'' 2 0 [Do (Put This ''f'' (V 0)), Do (Put This ''g'' (V 1))],
    fn ''Kr'' 1 0 [Do (Put This ''b'' (Call ''JD'' [Call ''Qb'' [V 0], K (JNum 50)]))],
    fn ''ju'' 2 0 [Do (Put This ''a'' (V 0)), Do (Put This ''b'' (V 1))],
    fn ''yu'' 2 0 [Do (Put This ''a'' (V 0)), Do (Put This ''f'' (V 1))],
    fn ''gv'' 1 0 [Do (Put This ''a'' (Call ''JD'' [Call ''Qb'' [V 0], K (JNum 16)]))],
    fn ''lv'' 1 0 [Do (Put This ''a'' (Call ''JD'' [Call ''Qb'' [V 0], K (JNum 16)]))],
    fn ''xv'' 2 0 [Do (Put This ''b'' (V 0)), Do (Put This ''c'' (V 1))],
    fn ''ew'' 1 0 [Do (Put This ''a'' (Call ''JD'' [Call ''Qb'' [V 0], K (JNum 92)]))],
    fn ''wx'' 2 0 [Do (Put This ''a'' (V 0)), Do (Put This ''b'' (V 1))],
    fn ''ay'' 2 0 [Do (Put This ''a'' (V 0)), Do (Put This ''b'' (V 1))],
    fn ''st'' 2 0 [Ret (Call ''cjb'' [Dot (V 0) ''b'', V 1])],
    fn ''Rp'' 2 0 [Ret (And (Bin Gt (V 0) (V 1)) (Bin Lt (V 1) (G ''vue'')))],
    fn ''Poe'' 1 0 [Ret (Neg (Loose (Idx (G ''Koe'') (V 0)) (K (JNum (- 1)))))],
    fn ''rte'' 1 0 [Ret (Or (Neg (V 0)) (Call ''qte'' [V 0]))],
    fn ''Qre'' 1 0 [Do (Call ''Pre'' [This, V 0, Call ''Fqe'' []])],
    fn ''zZd'' 2 0 [Do (Call ''GJd'' [Call ''KWd'' [Dot (V 0) ''a''], V 1])],
    fn ''EZd'' 2 0 [Do (Call ''GJd'' [Call ''KWd'' [Dot (V 0) ''a''], V 1])],
    fn ''Eob'' 2 0 [Ret (Meth (Dot (V 0) ''b'') ''Hc'' [V 1])],
    fn ''Dob'' 2 0 [Ret (Meth (Dot (V 0) ''b'') ''Gc'' [V 1])],
    fn ''Gob'' 2 0 [Ret (Meth (Dot (V 0) ''b'') ''Oc'' [V 1])],
    fn ''ypb'' 2 0 [Ret (Meth (Dot (V 0) ''c'') ''uc'' [V 1])],
    fn ''Xpb'' 2 0 [Ret (Meth (Dot (V 0) ''b'') ''Gc'' [V 1])],
    fn ''Apb'' 2 0 [Ret (Call ''pb'' [Dot (V 0) ''c'', V 1])],
    fn ''AC'' 1 0 [Ret (Seq (Call ''OB'' []) (Cond (V 0) (G ''NB'') (G ''MB'')))],
    fn ''ljb'' 1 0 [Ret (Bin Plus (Dot (Dot (V 0) ''f'') ''c'') (Dot (Dot (V 0) ''i'') ''c''))],
    fn ''fsb'' 2 0 [Ret (Meth (Dot (V 0) ''a'') ''_b'' [V 1])],
    fn ''uC'' 2 0 [Do (Put This ''a'' (V 0)), Do (Put This ''b'' (V 1))],
    fn ''Wrb'' 1 0 [Do (Put This ''c'' (V 0)), Do (Call ''Trb'' [This])],
    fn ''dub'' 0 0 [Do (Call ''Stb'' [This]), Do (Call ''cub'' [This])],
    fn ''$ub'' 0 0 [Do (SetG ''$ub'' (G ''qdb'')), Do (SetG ''Zub'' (New ''cvb'' []))],
    fn ''$nb'' 0 0 [Do (SetG ''$nb'' (G ''qdb'')), Do (SetG ''Znb'' (New ''_nb'' []))],
    fn ''qhb'' 0 0 [Do (SetG ''qhb'' (G ''qdb'')), Do (SetG ''phb'' (New ''ydb'' []))],
    fn ''ivb'' 0 0 [Do (SetG ''ivb'' (G ''qdb'')), Do (SetG ''hvb'' (New ''kvb'' []))],
    fn ''$zb'' 0 0 [Do (SetG ''$zb'' (G ''qdb'')), Do (SetG ''Zzb'' (New ''bAb'' []))],
    fn ''Qz'' 0 0 [Do (And (Neg (Loose (G ''Fz'') (K (JNum 0)))) (SetG ''Fz'' (K (JNum 0)))), Do (SetG ''Hz'' (K (JNum (- 1))))],
    fn ''ldb'' 0 0 [Do (And (Loose (G ''jdb'') (K JNull)) (SetG ''jdb'' (NewArr [])))],
    fn ''asb'' 1 0 [Do (Super ''mjb'' [V 0, K (JNum 0)])],
    fn ''kyb'' 0 0 [Do (Super ''lyb'' [K JNull])],
    fn ''KBb'' 0 0 [Do (Super ''eBb'' [K JNull])],
    fn ''QBb'' 0 0 [Do (SetG ''QBb'' (G ''qdb'')), Do (SetG ''PBb'' (New ''bDb'' []))],
    fn ''YBb'' 2 0 [Do (Call ''cBb'' [V 0]), Do (Meth (Dot (V 0) ''a'') ''Nb'' [V 1])],
    fn ''zzb'' 2 0 [Ret (Meth (Dot (V 0) ''a'') ''Vc'' [V 1])],
    fn ''Azb'' 2 0 [Ret (Meth (Dot (V 0) ''a'') ''Wc'' [V 1])],
    fn ''Bzb'' 2 0 [Ret (Meth (Dot (V 0) ''a'') ''Yc'' [V 1])],
    fn ''Czb'' 2 0 [Ret (Meth (Dot (V 0) ''a'') ''Zc'' [V 1])],
    fn ''MAb'' 2 0 [Ret (Seq (Meth (V 0) ''Fc'' [V 1]) (V 0))],
    fn ''AEb'' 2 0 [Do (Put (Dot (V 0) ''a'') ''f'' (V 1)), Ret (V 0)],
    fn ''GEb'' 2 0 [Do (Put (Dot (V 0) ''a'') ''d'' (V 1)), Ret (V 0)],
    fn ''HEb'' 2 0 [Do (Put (Dot (V 0) ''a'') ''g'' (V 1)), Ret (V 0)],
    fn ''IEb'' 2 0 [Do (Put (Dot (V 0) ''a'') ''j'' (V 1)), Ret (V 0)],
    fn ''YFb'' 2 0 [Do (Put (Dot (V 0) ''a'') ''a'' (V 1)), Ret (V 0)],
    fn ''ZFb'' 2 0 [Do (Put (Dot (V 0) ''a'') ''d'' (V 1)), Ret (V 0)],
    fn ''$Fb'' 2 0 [Do (Put (Dot (V 0) ''a'') ''e'' (V 1)), Ret (V 0)],
    fn ''_Fb'' 2 0 [Do (Put (Dot (V 0) ''a'') ''g'' (V 1)), Ret (V 0)],
    fn ''KGb'' 2 0 [Do (Put (Dot (V 0) ''a'') ''f'' (V 1)), Ret (V 0)],
    fn ''nHb'' 1 0 [Do (Put (V 0) ''b'' (K (JBool False))), Ret (V 0)],
    fn ''t_b'' 0 0 [Do (SetG ''t_b'' (G ''qdb'')), Do (SetG ''s_b'' (New ''jgd'' []))],
    fn ''dRb'' 0 0 [Do (SetG ''dRb'' (G ''qdb'')), Do (SetG ''cRb'' (New ''jRb'' []))],
    fn ''QRb'' 0 0 [Do (SetG ''QRb'' (G ''qdb'')), Do (SetG ''PRb'' (New ''RRb'' []))],
    fn ''VRb'' 0 0 [Do (SetG ''VRb'' (G ''qdb'')), Do (SetG ''URb'' (New ''uSb'' []))],
    fn ''PEb'' 0 0 [Do (SetG ''PEb'' (G ''qdb'')), Do (SetG ''OEb'' (New ''QEb'' []))],
    fn ''rTb'' 0 0 [Do (SetG ''rTb'' (G ''qdb'')), Do (SetG ''qTb'' (New ''wTb'' []))],
    fn ''MVb'' 0 0 [Do (SetG ''MVb'' (G ''qdb'')), Do (SetG ''LVb'' (New ''RVb'' []))],
    fn ''OWb'' 0 0 [Do (SetG ''OWb'' (G ''qdb'')), Do (SetG ''NWb'' (New ''CXb'' []))],
    fn ''e1b'' 0 0 [Do (SetG ''e1b'' (G ''qdb'')), Do (SetG ''d1b'' (New ''o1b'' []))],
    fn ''v6b'' 0 0 [Do (SetG ''v6b'' (G ''qdb'')), Do (SetG ''u6b'' (New ''B6b'' []))],
    fn ''vyc'' 0 0 [Do (SetG ''vyc'' (G ''qdb'')), Do (SetG ''uyc'' (New ''ypd'' []))],
    fn ''Xdc'' 0 0 [Do (SetG ''Xdc'' (G ''qdb'')), Do (SetG ''Wdc'' (New ''Ufc'' []))],
    fn ''Ckc'' 0 0 [Do (SetG ''Ckc'' (G ''qdb'')), Do (SetG ''Bkc'' (New ''Qkc'' []))],
    fn ''o8c'' 0 0 [Do (SetG ''o8c'' (G ''qdb'')), Do (SetG ''n8c'' (New ''q8c'' []))],
    fn ''y8c'' 0 0 [Do (SetG ''y8c'' (G ''qdb'')), Do (SetG ''x8c'' (New ''z8c'' []))],
    fn ''X9c'' 0 0 [Do (SetG ''X9c'' (G ''qdb'')), Do (SetG ''W9c'' (New ''Z9c'' []))],
    fn ''$Cc'' 0 0 [Do (Call ''SCc'' []), Do (Put This ''c'' (New ''Pi'' []))],
    fn ''q8c'' 0 0 [Do (Super ''es'' [G ''ize'', K (JNum 0)])],
    fn ''GKb'' 4 0 [Do (Call ''FKb'' [V 0, V 3, V 1, V 2])],
    fn ''H0b'' 4 0 [Do (Call ''M0b'' [V 3, V 0, V 1, V 2])],
    fn ''j6b'' 4 0 [Do (Call ''k6b'' [V 3, V 0, V 1, V 2])],
    fn ''Hcd'' 3 0 [Do (Call ''ijb'' [Dot (V 0) ''d'', Dot (V 1) ''f'', V 2])],
    fn ''zdd'' 2 0 [Do (Call ''ltb'' [Dot (Dot (V 0) ''c'') ''b'', Dot (V 1) ''c'', V 1])],
    fn ''Add'' 2 0 [Do (Call ''ltb'' [Dot (Dot (V 0) ''c'') ''c'', Dot (V 1) ''b'', V 1])],
    fn ''mcd'' 2 0 [Do (Put (V 0) ''a'' (Dot (V 1) ''g'')), Ret (V 0)],
    fn ''Jrd'' 0 0 [Do (SetG ''Jrd'' (G ''qdb'')), Do (SetG ''Ird'' (New ''usd'' []))],
    fn ''lRd'' 0 0 [Do (SetG ''lRd'' (G ''qdb'')), Do (SetG ''kRd'' (New ''mRd'' []))],
    fn ''eRd'' 0 0 [Do (SetG ''eRd'' (G ''qdb'')), Do (SetG ''dRd'' (New ''gRd'' []))],
    fn ''pRd'' 0 0 [Do (SetG ''pRd'' (G ''qdb'')), Do (SetG ''oRd'' (New ''rRd'' []))],
    fn ''jRd'' 0 0 [Do (SetG ''jRd'' (G ''qdb'')), Do (SetG ''iRd'' (New ''_3d'' []))],
    fn ''uRd'' 0 0 [Do (SetG ''uRd'' (G ''qdb'')), Do (SetG ''tRd'' (New ''P8d'' []))],
    fn ''aQd'' 0 0 [Do (SetG ''aQd'' (G ''qdb'')), Do (SetG ''_Pd'' (New ''_rb'' []))],
    fn ''e9d'' 0 0 [Do (SetG ''e9d'' (G ''qdb'')), Do (SetG ''c9d'' (New ''lmb'' []))],
    fn ''$0d'' 0 0 [Do (SetG ''$0d'' (G ''qdb'')), Do (SetG ''Z0d'' (New ''fge'' []))],
    fn ''w1d'' 0 0 [Do (SetG ''w1d'' (G ''qdb'')), Do (SetG ''v1d'' (New ''jge'' []))],
    fn ''Tge'' 0 0 [Do (SetG ''Tge'' (G ''qdb'')), Do (SetG ''Sge'' (New ''Uge'' []))],
    fn ''Aie'' 0 0 [Do (SetG ''Aie'' (G ''qdb'')), Do (SetG ''zie'' (New ''Eie'' []))],
    fn ''Jse'' 0 0 [Do (SetG ''Jse'' (G ''qdb'')), Do (SetG ''Ise'' (New ''Rse'' []))]]"

definition object_table2 :: "(string \<times> jfun) list" where
  "object_table2 = code_865_1005 @ code_1006_1146 @ code_1147_1282 @ code_1284_1363 @ code_1366_1510"

lemmas object_table2_defs = object_table2_def code_865_1005_def code_1006_1146_def code_1147_1282_def code_1284_1363_def code_1366_1510_def

text \<open>The names each table declares.\<close>

lemma names_865_1005 [js_names]: "map fst code_865_1005 = [
    ''yBb'', ''NBb'', ''rCb'', ''tCb'', ''xCb'', ''fDb'', ''jDb'', ''$Db'', ''eEb'', ''jEb'',
    ''nFb'', ''kHb'', ''sHb'', ''PKb'', ''YLb'', ''kMb'', ''iQb'', ''wQb'', ''yQb'', ''JQb'',
    ''NQb'', ''qWb'', ''XWb'', ''AZb'', ''DZb'', ''IZb'', ''LZb'', ''e_b'', ''g_b'', ''k_b'',
    ''o_b'', ''C_b'', ''E_b'', ''G_b'', ''I_b'', ''Z0b'', ''b1b'', ''Y1b'', ''x2b'', ''D4b'',
    ''J4b'', ''M4b'', ''P4b'', ''q7b'', ''s7b'', ''j9b'', ''m9b'', ''Q9b'', ''iXb'', ''gac'',
    ''kac'', ''kbc'', ''Ebc'', ''Ibc'', ''Gcc'', ''Wcc'', ''gdc'', ''qdc'', ''dec'', ''iec'',
    ''_ec'', ''bfc'', ''dfc'', ''jfc'', ''lfc'', ''vfc'', ''Bfc'', ''Dfc'', ''Nfc'', ''Jic'',
    ''Lic'', ''Ejc'', ''jlc'', ''llc'', ''inc'', ''knc'', ''bDc'', ''fDc'', ''eEc'', ''bFc'',
    ''zFc'', ''VFc'', ''xFc'', ''vmc'', ''yGc'', ''aHc'', ''cHc'', ''eHc'', ''hIc'', ''qJc'',
    ''uJc'', ''yJc'', ''CJc'', ''GJc'', ''IJc'', ''LJc'', ''UJc'', ''LLc'', ''RLc'', ''VLc'',
    ''hMc'', ''lMc'', ''sMc'', ''AMc'', ''GMc'', ''XNc'', ''gQc'', ''lTc'', ''nTc'', ''rTc'',
    ''xTc'', ''OTc'', ''RTc'', ''nUc'', ''FUc'', ''HUc'', ''LUc'', ''NUc'', ''PUc'', ''TUc'',
    ''TYc'', ''RYc'', ''y$c'', ''O7c'', ''Q7c'', ''S7c'', ''U7c'', ''$7c'', ''tad'', ''Fad'',
    ''Had'', ''Wbd'', ''$bd'', ''Fcd'', ''Rod'', ''Apd'', ''Epd'', ''uqd'', ''vrd'', ''Urd'',
    ''xCd'']"
  by (simp add: code_865_1005_def fn_def)

lemma names_1006_1146 [js_names]: "map fst code_1006_1146 = [
    ''PCd'', ''RCd'', ''TCd'', ''VCd'', ''XCd'', ''ZCd'', ''_Cd'', ''bDd'', ''dDd'', ''lDd'',
    ''pDd'', ''rDd'', ''tDd'', ''vDd'', ''xDd'', ''zDd'', ''HDd'', ''NDd'', ''PDd'', ''RDd'',
    ''TDd'', ''VDd'', ''dEd'', ''fEd'', ''hEd'', ''jEd'', ''NEd'', ''CEd'', ''nsd'', ''fFd'',
    ''mNd'', ''uNd'', ''ANd'', ''GNd'', ''YNd'', ''JYd'', ''rZd'', ''p_d'', ''p0d'', ''y3d'',
    ''V7d'', ''C8d'', ''K8d'', ''b$d'', ''Y4d'', ''G5d'', ''dce'', ''kce'', ''zce'', ''Hhe'',
    ''Ore'', ''hre'', ''xqd'', ''lmb'', ''_rb'', ''vFb'', ''nYb'', ''F0d'', ''rmc'', ''fie'',
    ''fC'', ''tC'', ''MC'', ''LB'', ''TB'', ''Lcb'', ''$B'', ''EC'', ''Ey'', ''xy'',
    ''c0d'', ''pz'', ''VJb'', ''eUb'', ''m2b'', ''j2b'', ''z2c'', ''fjc'', ''qDb'', ''uDb'',
    ''np'', ''Js'', ''$z'', ''vdb'', ''Edb'', ''Idb'', ''Mdb'', ''Reb'', ''Rqb'', ''$qb'',
    ''jfb'', ''mfb'', ''Xfb'', ''thb'', ''Kub'', ''Dbd'', ''x_d'', ''ZPb'', ''nA'', ''tDb'',
    ''kxb'', ''OKb'', ''_Nc'', ''jNd'', ''kNd'', ''rXd'', ''Pie'', ''sj'', ''cfb'', ''hsb'',
    ''gAb'', ''nxb'', ''fGb'', ''kGb'', ''aGb'', ''LGb'', ''Ezb'', ''CEb'', ''JEb'', ''kNb'',
    ''RQb'', ''iTb'', ''iVb'', ''nUb'', ''WUb'', ''BLb'', ''cVb'', ''Y$b'', ''iWb'', ''DDc'',
    ''IKc'', ''abc'', ''DNc'', ''ELc'', ''Gdb'', ''Mxb'', ''rUb'', ''uYb'', ''yYb'', ''KHb'',
    ''gZb'']"
  by (simp add: code_1006_1146_def fn_def)

lemma names_1147_1282 [js_names]: "map fst code_1147_1282 = [
    ''jZb'', ''dOc'', ''kOc'', ''NQc'', ''SQc'', ''XQc'', ''Cad'', ''Wzd'', ''jAd'', ''ygd'',
    ''$Od'', ''zPd'', ''ZQd'', ''gRd'', ''rRd'', ''zVd'', ''v_d'', ''N_d'', ''D2d'', ''_3d'',
    ''c4d'', ''y8d'', ''P8d'', ''Bke'', ''Uke'', ''$ke'', ''Tpe'', ''LQc'', ''YVc'', ''yad'',
    ''ood'', ''mWc'', ''Jbd'', ''LOd'', ''A2c'', ''k8c'', ''il'', ''wb'', ''Uk'', ''Vk'',
    ''jl'', ''Dd'', ''Hd'', ''vh'', ''Yh'', ''Oi'', ''ui'', ''Mp'', ''As'', ''Dp'',
    ''Kp'', ''Zp'', ''wv'', ''Tv'', ''Vv'', ''Tw'', ''qz'', ''UB'', ''mC'', ''Vub'',
    ''Sxb'', ''cz'', ''rSb'', ''HIb'', ''_pd'', ''sbc'', ''wyc'', ''cOb'', ''bs'', ''pw'',
    ''BC'', ''DC'', ''Ddb'', ''Fdb'', ''Jdb'', ''Kdb'', ''ZGc'', ''Zrd'', ''Xrd'', ''Pbe'',
    ''Seb'', ''kfb'', ''nfb'', ''Wfb'', ''Yfb'', ''Rdb'', ''Ueb'', ''Web'', ''Cgb'', ''Mgb'',
    ''xlb'', ''ayb'', ''LIb'', ''MIb'', ''wnb'', ''cSb'', ''Xmb'', ''uhb'', ''Ebd'', ''Fbd'',
    ''YAd'', ''Yoe'', ''Zje'', ''pc'', ''Pi'', ''Gb'', ''jc'', ''Fh'', ''Vi'', ''Vj'',
    ''Wj'', ''dn'', ''sz'', ''Sz'', ''SA'', ''ns'', ''WB'', ''Iz'', ''$gb'', ''_gb'',
    ''lhb'', ''mhb'', ''ohb'', ''Hdb'', ''dgb'', ''Tpb'', ''$pb'', ''qqb'', ''jVb'', ''Mwb'',
    ''Rwb'', ''_db'', ''keb'', ''egb'', ''vDb'', ''OC'']"
  by (simp add: code_1147_1282_def fn_def)

lemma names_1284_1363 [js_names]: "map fst code_1284_1363 = [
    ''avb'', ''jvb'', ''jFb'', ''hFb'', ''iFb'', ''kFb'', ''bHb'', ''cHb'', ''dHb'', ''zLb'',
    ''ALb'', ''fSb'', ''gSb'', ''ZHb'', ''Ks'', ''Lec'', ''oic'', ''FKc'', ''tPc'', ''dSc'',
    ''Agc'', ''KGc'', ''JGc'', ''Sbd'', ''Scd'', ''Rcd'', ''Tcd'', ''Ucd'', ''Vcd'', ''Wcd'',
    ''jdd'', ''kdd'', ''ldd'', ''Hed'', ''Ged'', ''Ied'', ''Jed'', ''Ked'', ''Led'', ''Med'',
    ''Ned'', ''Oed'', ''lod'', ''kod'', ''jgd'', ''jQc'', ''KHc'', ''rIc'', ''zgd'', ''xJd'',
    ''TNd'', ''VNd'', ''cYb'', ''Msb'', ''zsd'', ''Bsd'', ''bHd'', ''wRd'', ''_je'', ''bke'',
    ''web'', ''Oc'', ''yn'', ''Ew'', ''yVd'', ''Ide'', ''Ugb'', ''Vgb'', ''Ygb'', ''chb'',
    ''xeb'', ''Lhb'', ''gtb'', ''Aob'', ''Bob'', ''Cob'', ''Fob'', ''Xob'', ''isb'', ''Gzb'']"
  by (simp add: code_1284_1363_def fn_def)

lemma names_1366_1510 [js_names]: "map fst code_1366_1510 = [
    ''Z7c'', ''rDb'', ''V9b'', ''jJc'', ''kub'', ''xD'', ''Vd'', ''Mv'', ''Rv'', ''lbd'',
    ''hCb'', ''qIb'', ''CSc'', ''W7c'', ''j8c'', ''q_c'', ''W2c'', ''C_c'', ''COd'', ''BOd'',
    ''DOd'', ''EOd'', ''FOd'', ''GOd'', ''HOd'', ''IOd'', ''JOd'', ''KOd'', ''Ose'', ''Pse'',
    ''Bse'', ''pf'', ''Ff'', ''me'', ''Wc'', ''Lj'', ''fk'', ''lk'', ''nk'', ''vk'',
    ''xk'', ''Ik'', ''Yo'', ''ap'', ''wp'', ''cg'', ''eg'', ''Mq'', ''mr'', ''hr'',
    ''Ir'', ''es'', ''Kr'', ''ju'', ''yu'', ''gv'', ''lv'', ''xv'', ''ew'', ''wx'',
    ''ay'', ''st'', ''Rp'', ''Poe'', ''rte'', ''Qre'', ''zZd'', ''EZd'', ''Eob'', ''Dob'',
    ''Gob'', ''ypb'', ''Xpb'', ''Apb'', ''AC'', ''ljb'', ''fsb'', ''uC'', ''Wrb'', ''dub'',
    ''$ub'', ''$nb'', ''qhb'', ''ivb'', ''$zb'', ''Qz'', ''ldb'', ''asb'', ''kyb'', ''KBb'',
    ''QBb'', ''YBb'', ''zzb'', ''Azb'', ''Bzb'', ''Czb'', ''MAb'', ''AEb'', ''GEb'', ''HEb'',
    ''IEb'', ''YFb'', ''ZFb'', ''$Fb'', ''_Fb'', ''KGb'', ''nHb'', ''t_b'', ''dRb'', ''QRb'',
    ''VRb'', ''PEb'', ''rTb'', ''MVb'', ''OWb'', ''e1b'', ''v6b'', ''vyc'', ''Xdc'', ''Ckc'',
    ''o8c'', ''y8c'', ''X9c'', ''$Cc'', ''q8c'', ''GKb'', ''H0b'', ''j6b'', ''Hcd'', ''zdd'',
    ''Add'', ''mcd'', ''Jrd'', ''lRd'', ''eRd'', ''pRd'', ''jRd'', ''uRd'', ''aQd'', ''e9d'',
    ''$0d'', ''w1d'', ''Tge'', ''Aie'', ''Jse'']"
  by (simp add: code_1366_1510_def fn_def)

end
