(* ===== verification/ObjectTable3.thy ===== *)
theory ObjectTable3
  imports ObjectCode
begin

text \<open>
  Functions of \<open>layout-worker.js\<close>, lines 1512 to 2012, in the order of the file, one per line:
  two-field constructors, enum constructors, forwarding functions and predicates.
  An entry has the name, the number of parameters, the number of further local variables and the
  body; parameters and locals are numbered from 0. Lines with a construct outside \<open>jexp\<close> and
  \<open>jstm\<close> (loops, \<open>in\<close>, host objects) are left out.
\<close>

definition code_1512_1630 :: "(string \<times> jfun) list" where
  "code_1512_1630 = [
    fn ''qw'' 1 0 [Do (Put This ''a'' (Call ''JD'' [Call ''Qb'' [V 0], K (JNum 229)]))],
    fn ''Sv'' 1 0 [Ret (Meth (Call ''JD'' [V 0, K (JNum 45)]) ''jd'' [])],
    fn ''hQc'' 1 0 [Ret (Bin Divide (Bin Plus (Dot (V 0) ''c'') (Dot (V 0) ''a'')) (K (JNum 2)))],
    fn ''jVc'' 1 0 [Ret (Bin Plus (Dot (Dot (V 0) ''e'') ''a'') (Dot (Dot (V 0) ''f'') ''a''))],
    fn ''kVc'' 1 0 [Ret (Bin Plus (Dot (Dot (V 0) ''e'') ''b'') (Dot (Dot (V 0) ''f'') ''b''))],
    fn ''$_d'' 1 0 [Ret (Cond (Dot (V 0) ''b'') (Dot (V 0) ''b'') (Dot (V 0) ''a''))],
    fn ''zw'' 2 0 [Ret (Meth (Dot (Dot (V 0) ''a'') ''a'') ''cc'' [V 1])],
    fn ''o0d'' 2 0 [Ret (Call ''yA'' [Dot (V 0) ''a'', V 1])],
    fn ''Tcb'' 2 0 [Ret (Bin Gt (Call ''Ocb'' [V 0, V 1]) (K (JNum 0)))],
    fn ''Wcb'' 2 0 [Ret (Bin Lt (Call ''Ocb'' [V 0, V 1]) (K (JNum 0)))],
    fn ''wdb'' 2 0 [Ret (Meth (V 1) ''split'' [V 0])],
    fn ''Kjb'' 1 0 [Ret (Bin Lt (Dot (V 0) ''b'') (Meth (Dot (V 0) ''d'') ''gc'' []))],
    fn ''arb'' 2 0 [Ret (Call ''Jrb'' [Dot (V 0) ''a'', V 1])],
    fn ''Ldb'' 2 0 [Do (Super ''gz'' [V 0, V 1])],
    fn ''Ix'' 1 0 [Do (Call ''Hx'' []), Do (Super ''An'' [V 0])],
    fn ''Jx'' 1 0 [Do (Call ''Hx'' []), Do (Super ''Ix'' [V 0])],
    fn ''Mx'' 1 0 [Do (Call ''Lx'' []), Do (Super ''ao'' [V 0])],
    fn ''Vmb'' 2 0 [Do (Call ''Zmb'' [V 0, Dot (V 0) ''length'', V 1])],
    fn ''Wmb'' 2 0 [Do (Call ''_mb'' [V 0, Dot (V 0) ''length'', V 1])],
    fn ''Ssb'' 2 0 [Ret (Meth (Dot (V 0) ''a'') ''get'' [V 1])],
    fn ''jtb'' 2 0 [Ret (Call ''cjb'' [Dot (V 0) ''e'', V 1])],
    fn ''exb'' 1 0 [Ret (Seq (Call ''NDb'' [V 0]) (K (JBool False)))],
    fn ''Qsb'' 0 0 [Do (Call ''Msb'' []), Ret (New ''Lsb'' [])],
    fn ''_ub'' 1 0 [Do (Call ''LDb'' [Dot (V 0) ''a'']), Ret (Dot (V 0) ''b'')],
    fn ''Arb'' 2 0 [Do (Put This ''b'' (V 0)), Do (Put This ''a'' (V 1))],
    fn ''Hkb'' 2 0 [Do (Put This ''d'' (V 0)), Do (Put This ''e'' (V 1))],
    fn ''CCb'' 2 0 [Do (Put This ''a'' (V 0)), Do (Put This ''b'' (V 1))],
    fn ''ICb'' 2 0 [Do (Put This ''a'' (V 0)), Do (Put This ''b'' (V 1))],
    fn ''OCb'' 2 0 [Do (Put This ''a'' (V 0)), Do (Put This ''b'' (V 1))],
    fn ''UCb'' 2 0 [Do (Put This ''a'' (V 0)), Do (Put This ''b'' (V 1))],
    fn ''hDb'' 2 0 [Do (Put This ''b'' (V 0)), Do (Put This ''a'' (V 1))],
    fn ''kEb'' 2 0 [Do (Put This ''a'' (V 0)), Do (Put This ''b'' (V 1))],
    fn ''kzb'' 2 0 [Do (Super ''es'' [V 0, V 1])],
    fn ''GAb'' 2 0 [Do (Super ''es'' [V 0, V 1])],
    fn ''DHb'' 2 0 [Do (Super ''es'' [V 0, V 1])],
    fn ''iIb'' 2 0 [Do (Super ''es'' [V 0, V 1])],
    fn ''_Ib'' 2 0 [Do (Super ''es'' [V 0, V 1])],
    fn ''SLb'' 2 0 [Do (Super ''es'' [V 0, V 1])],
    fn ''fwb'' 1 0 [Do (Super ''Zvb'' [V 0, K (JNum 21)])],
    fn ''fNb'' 2 0 [Do (Put This ''b'' (V 0)), Do (Put This ''a'' (V 1))],
    fn ''LFb'' 2 0 [Do (Put This ''b'' (V 0)), Do (Put This ''a'' (V 1))],
    fn ''JMb'' 2 0 [Do (Put This ''b'' (V 0)), Do (Put This ''a'' (V 1))],
    fn ''wOb'' 2 0 [Do (Super ''es'' [V 0, V 1])],
    fn ''dQb'' 2 0 [Do (Super ''es'' [V 0, V 1])],
    fn ''ZQb'' 2 0 [Do (Super ''es'' [V 0, V 1])],
    fn ''FSb'' 2 0 [Do (Put This ''b'' (V 0)), Do (Put This ''a'' (V 1))],
    fn ''KSb'' 2 0 [Do (Put This ''c'' (V 0)), Do (Put This ''d'' (V 1))],
    fn ''WSb'' 2 0 [Do (Super ''es'' [V 0, V 1])],
    fn ''zUb'' 2 0 [Do (Super ''es'' [V 0, V 1])],
    fn ''vXb'' 2 0 [Do (Put This ''e'' (V 0)), Do (Put This ''d'' (V 1))],
    fn ''_Yb'' 2 0 [Do (Super ''es'' [V 0, V 1])],
    fn ''QZb'' 2 0 [Do (Put This ''a'' (V 0)), Do (Put This ''b'' (V 1))],
    fn ''C2b'' 2 0 [Do (Super ''es'' [V 0, V 1])],
    fn ''Y5b'' 2 0 [Do (Super ''es'' [V 0, V 1])],
    fn ''l8b'' 2 0 [Do (Super ''es'' [V 0, V 1])],
    fn ''oDb'' 3 0 [Do (Meth (V 0) ''splice'' [V 1, K (JNum 0), V 2])],
    fn ''gr'' 3 0 [Do (And (Meth (V 0) ''Mb'' [V 2]) (Meth (V 1) ''Ad'' [V 2]))],
    fn ''ECb'' 3 0 [Do (Meth (V 1) ''Ne'' [Meth (Dot (V 0) ''a'') ''We'' [V 2]])],
    fn ''KCb'' 3 0 [Do (Meth (V 1) ''Bd'' [Meth (Dot (V 0) ''a'') ''Xe'' [V 2]])],
    fn ''QCb'' 3 0 [Do (Meth (V 1) ''Ad'' [Meth (Dot (V 0) ''a'') ''Kb'' [V 2]])],
    fn ''KRb'' 2 0 [Ret (Call ''Krb'' [Dot (V 0) ''c'', V 1])],
    fn ''vEb'' 2 0 [Ret (Call ''Krb'' [Dot (V 0) ''e'', V 1])],
    fn ''gcc'' 2 0 [Do (Put This ''a'' (V 0)), Do (Put This ''b'' (V 1))],
    fn ''Ycc'' 2 0 [Do (Put This ''a'' (V 0)), Do (Put This ''b'' (V 1))],
    fn ''wdc'' 2 0 [Do (Put This ''a'' (V 0)), Do (Put This ''b'' (V 1))],
    fn ''ydc'' 2 0 [Do (Put This ''a'' (V 0)), Do (Put This ''b'' (V 1))],
    fn ''Idc'' 2 0 [Do (Put This ''a'' (V 0)), Do (Put This ''b'' (V 1))],
    fn ''Udc'' 2 0 [Do (Put This ''a'' (V 0)), Do (Put This ''b'' (V 1))],
    fn ''Ffc'' 2 0 [Do (Put This ''a'' (V 0)), Do (Put This ''b'' (V 1))],
    fn ''Pfc'' 2 0 [Do (Put This ''a'' (V 0)), Do (Put This ''b'' (V 1))],
    fn ''idc'' 2 0 [Do (Put This ''b'' (V 0)), Do (Put This ''a'' (V 1))],
    fn ''Kdc'' 2 0 [Do (Put This ''b'' (V 0)), Do (Put This ''a'' (V 1))],
    fn ''vkc'' 2 0 [Do (Put This ''b'' (V 0)), Do (Put This ''a'' (V 1))],
    fn ''Dgc'' 2 0 [Do (Put This ''b'' (V 1)), Do (Put This ''c'' (V 0))],
    fn ''qhc'' 2 0 [Do (Super ''es'' [V 0, V 1])],
    fn ''Ohc'' 2 0 [Do (Super ''es'' [V 0, V 1])],
    fn ''Onc'' 2 0 [Do (Super ''es'' [V 0, V 1])],
    fn ''Gnc'' 2 0 [Do (Super ''es'' [V 0, V 1])],
    fn ''Znc'' 2 0 [Do (Super ''es'' [V 0, V 1])],
    fn ''wic'' 2 0 [Do (Super ''es'' [V 0, V 1])],
    fn ''ioc'' 2 0 [Do (Super ''es'' [V 0, V 1])],
    fn ''yoc'' 2 0 [Do (Super ''es'' [V 0, V 1])],
    fn ''Ioc'' 2 0 [Do (Super ''es'' [V 0, V 1])],
    fn ''Roc'' 2 0 [Do (Super ''es'' [V 0, V 1])],
    fn ''cpc'' 2 0 [Do (Super ''es'' [V 0, V 1])],
    fn ''kpc'' 2 0 [Do (Super ''es'' [V 0, V 1])],
    fn ''wpc'' 2 0 [Do (Super ''es'' [V 0, V 1])],
    fn ''Ipc'' 2 0 [Do (Super ''es'' [V 0, V 1])],
    fn ''Ypc'' 2 0 [Do (Super ''es'' [V 0, V 1])],
    fn ''fqc'' 2 0 [Do (Super ''es'' [V 0, V 1])],
    fn ''oqc'' 2 0 [Do (Super ''es'' [V 0, V 1])],
    fn ''xqc'' 2 0 [Do (Super ''es'' [V 0, V 1])],
    fn ''Fqc'' 2 0 [Do (Super ''es'' [V 0, V 1])],
    fn ''bsc'' 2 0 [Do (Super ''es'' [V 0, V 1])],
    fn ''jsc'' 2 0 [Do (Super ''es'' [V 0, V 1])],
    fn ''Syc'' 2 0 [Do (Super ''es'' [V 0, V 1])],
    fn ''Szc'' 2 0 [Do (Super ''es'' [V 0, V 1])],
    fn ''czc'' 2 0 [Do (Super ''es'' [V 0, V 1])],
    fn ''nzc'' 2 0 [Do (Super ''es'' [V 0, V 1])],
    fn ''Azc'' 2 0 [Do (Super ''es'' [V 0, V 1])],
    fn ''AAc'' 2 0 [Do (Super ''es'' [V 0, V 1])],
    fn ''aAc'' 2 0 [Do (Super ''es'' [V 0, V 1])],
    fn ''iAc'' 2 0 [Do (Super ''es'' [V 0, V 1])],
    fn ''rAc'' 2 0 [Do (Super ''es'' [V 0, V 1])],
    fn ''JAc'' 2 0 [Do (Super ''es'' [V 0, V 1])],
    fn ''bBc'' 2 0 [Do (Super ''es'' [V 0, V 1])],
    fn ''kBc'' 2 0 [Do (Super ''es'' [V 0, V 1])],
    fn ''tBc'' 2 0 [Do (Super ''es'' [V 0, V 1])],
    fn ''lHc'' 2 0 [Do (Super ''es'' [V 0, V 1])],
    fn ''NJc'' 2 0 [Do (Put This ''b'' (V 0)), Do (Put This ''a'' (V 1))],
    fn ''cKc'' 2 0 [Do (Super ''es'' [V 0, V 1])],
    fn ''zLc'' 2 0 [Do (Put This ''a'' (V 0)), Do (Put This ''b'' (V 1))],
    fn ''PLc'' 2 0 [Do (Put This ''a'' (V 0)), Do (Put This ''b'' (V 1))],
    fn ''uMc'' 2 0 [Do (Put This ''a'' (V 0)), Do (Put This ''b'' (V 1))],
    fn ''gNc'' 2 0 [Do (Super ''es'' [V 0, V 1])],
    fn ''oNc'' 2 0 [Do (Super ''es'' [V 0, V 1])],
    fn ''vNc'' 2 0 [Do (Put This ''a'' (V 0)), Do (Put This ''b'' (V 1))],
    fn ''oJc'' 2 0 [Do (Call ''OIc'' []), Ret (Neg (Loose (V 1) (V 0)))],
    fn ''WRb'' 1 0 [Do (Call ''XRb'' [V 0, Dot (V 0) ''c'']), Ret (V 0)]]"

definition code_1632_1758 :: "(string \<times> jfun) list" where
  "code_1632_1758 = [
    fn ''RPc'' 2 0 [Do (Super ''es'' [V 0, V 1])],
    fn ''PRc'' 2 0 [Do (Super ''es'' [V 0, V 1])],
    fn ''YRc'' 2 0 [Do (Put This ''a'' (V 0)), Do (Put This ''b'' (V 1))],
    fn ''$Rc'' 2 0 [Do (Put This ''a'' (V 0)), Do (Put This ''b'' (V 1))],
    fn ''gOc'' 2 0 [Do (Put This ''b'' (V 0)), Do (Put This ''d'' (V 1))],
    fn ''pTc'' 2 0 [Do (Put This ''a'' (V 0)), Do (Put This ''b'' (V 1))],
    fn ''rUc'' 2 0 [Do (Put This ''b'' (V 0)), Do (Put This ''a'' (V 1))],
    fn ''JSc'' 2 0 [Do (Super ''es'' [V 0, V 1])],
    fn ''GVc'' 2 0 [Do (Super ''es'' [V 0, V 1])],
    fn ''vWc'' 2 0 [Do (Super ''es'' [V 0, V 1])],
    fn ''cYc'' 2 0 [Do (Super ''es'' [V 0, V 1])],
    fn ''kYc'' 2 0 [Do (Super ''es'' [V 0, V 1])],
    fn ''k$c'' 2 0 [Do (Put This ''b'' (V 0)), Do (Put This ''a'' (V 1))],
    fn ''i$c'' 2 0 [Do (Put This ''b'' (V 0)), Do (Put This ''a'' (V 1))],
    fn ''O$c'' 2 0 [Do (Put This ''b'' (V 0)), Do (Put This ''a'' (V 1))],
    fn ''Q$c'' 2 0 [Do (Put This ''b'' (V 0)), Do (Put This ''a'' (V 1))],
    fn ''i_c'' 2 0 [Do (Super ''es'' [V 0, V 1])],
    fn ''S_c'' 2 0 [Do (Super ''es'' [V 0, V 1])],
    fn ''J0c'' 2 0 [Do (Super ''es'' [V 0, V 1])],
    fn ''T0c'' 2 0 [Do (Super ''es'' [V 0, V 1])],
    fn ''W1c'' 2 0 [Do (Super ''es'' [V 0, V 1])],
    fn ''e2c'' 2 0 [Do (Super ''es'' [V 0, V 1])],
    fn ''R2c'' 2 0 [Do (Super ''es'' [V 0, V 1])],
    fn ''k3c'' 2 0 [Do (Super ''es'' [V 0, V 1])],
    fn ''U3c'' 2 0 [Do (Super ''es'' [V 0, V 1])],
    fn ''w5c'' 2 0 [Do (Super ''es'' [V 0, V 1])],
    fn ''$5c'' 2 0 [Do (Super ''es'' [V 0, V 1])],
    fn ''z6c'' 2 0 [Do (Super ''es'' [V 0, V 1])],
    fn ''p7c'' 2 0 [Do (Super ''es'' [V 0, V 1])],
    fn ''d8c'' 2 0 [Do (Super ''es'' [V 0, V 1])],
    fn ''J8c'' 2 0 [Do (Super ''es'' [V 0, V 1])],
    fn ''U8c'' 2 0 [Do (Super ''es'' [V 0, V 1])],
    fn ''iad'' 2 0 [Do (Super ''es'' [V 0, V 1])],
    fn ''h6c'' 2 0 [Do (Put This ''a'' (V 0)), Do (Put This ''b'' (V 1))],
    fn ''sbd'' 2 0 [Do (Put This ''a'' (V 0)), Do (Put This ''b'' (V 1))],
    fn ''acd'' 2 0 [Do (Put This ''a'' (V 0)), Do (Put This ''b'' (V 1))],
    fn ''Jcd'' 2 0 [Ret (Call ''Krb'' [Dot (V 0) ''g'', V 1])],
    fn ''hlc'' 2 0 [Ret (Call ''Krb'' [Dot (V 1) ''b'', V 0])],
    fn ''Dad'' 2 0 [Ret (Minus1 (Meth (Dot (V 0) ''b'') ''$e'' [V 1]))],
    fn ''Wed'' 2 0 [Do (Super ''es'' [V 0, V 1])],
    fn ''ifd'' 2 0 [Do (Super ''es'' [V 0, V 1])],
    fn ''Mgd'' 2 0 [Do (Super ''es'' [V 0, V 1])],
    fn ''phd'' 2 0 [Do (Super ''es'' [V 0, V 1])],
    fn ''Hjd'' 2 0 [Do (Super ''es'' [V 0, V 1])],
    fn ''Rjd'' 2 0 [Do (Super ''es'' [V 0, V 1])],
    fn ''$jd'' 2 0 [Do (Super ''es'' [V 0, V 1])],
    fn ''ikd'' 2 0 [Do (Super ''es'' [V 0, V 1])],
    fn ''ukd'' 2 0 [Do (Super ''es'' [V 0, V 1])],
    fn ''Rkd'' 2 0 [Do (Super ''es'' [V 0, V 1])],
    fn ''ald'' 2 0 [Do (Super ''es'' [V 0, V 1])],
    fn ''pld'' 2 0 [Do (Super ''es'' [V 0, V 1])],
    fn ''Bld'' 2 0 [Do (Super ''es'' [V 0, V 1])],
    fn ''Pld'' 2 0 [Do (Super ''es'' [V 0, V 1])],
    fn ''_ld'' 2 0 [Do (Super ''es'' [V 0, V 1])],
    fn ''_md'' 2 0 [Do (Super ''es'' [V 0, V 1])],
    fn ''Fmd'' 2 0 [Do (Super ''es'' [V 0, V 1])],
    fn ''jnd'' 2 0 [Do (Super ''es'' [V 0, V 1])],
    fn ''ynd'' 2 0 [Do (Super ''es'' [V 0, V 1])],
    fn ''Hnd'' 2 0 [Do (Super ''es'' [V 0, V 1])],
    fn ''Rnd'' 2 0 [Do (Super ''es'' [V 0, V 1])],
    fn ''hpd'' 2 0 [Do (Super ''es'' [V 0, V 1])],
    fn ''Gpd'' 2 0 [Do (Put This ''a'' (V 0)), Do (Put This ''b'' (V 1))],
    fn ''Ipd'' 2 0 [Do (Put This ''a'' (V 0)), Do (Put This ''b'' (V 1))],
    fn ''Kpd'' 2 0 [Do (Put This ''a'' (V 0)), Do (Put This ''b'' (V 1))],
    fn ''lgd'' 2 0 [Do (Put This ''a'' (V 0)), Do (Put This ''b'' (V 1))],
    fn ''oqd'' 2 0 [Do (Put This ''a'' (V 0)), Do (Put This ''b'' (V 1))],
    fn ''qqd'' 2 0 [Do (Put This ''a'' (V 0)), Do (Put This ''b'' (V 1))],
    fn ''sqd'' 2 0 [Do (Put This ''a'' (V 0)), Do (Put This ''b'' (V 1))],
    fn ''prd'' 2 0 [Do (Put This ''a'' (V 0)), Do (Put This ''b'' (V 1))],
    fn ''Wqd'' 2 0 [Do (Super ''es'' [V 0, V 1])],
    fn ''tCd'' 2 0 [Do (Put This ''a'' (V 0)), Do (Put This ''b'' (V 1))],
    fn ''vCd'' 2 0 [Do (Put This ''a'' (V 0)), Do (Put This ''b'' (V 1))],
    fn ''zCd'' 2 0 [Do (Put This ''a'' (V 0)), Do (Put This ''b'' (V 1))],
    fn ''BCd'' 2 0 [Do (Put This ''a'' (V 0)), Do (Put This ''b'' (V 1))],
    fn ''HCd'' 2 0 [Do (Put This ''a'' (V 0)), Do (Put This ''b'' (V 1))],
    fn ''JCd'' 2 0 [Do (Put This ''a'' (V 0)), Do (Put This ''b'' (V 1))],
    fn ''LCd'' 2 0 [Do (Put This ''b'' (V 0)), Do (Put This ''a'' (V 1))],
    fn ''NCd'' 2 0 [Do (Put This ''b'' (V 0)), Do (Put This ''a'' (V 1))],
    fn ''fDd'' 2 0 [Do (Put This ''b'' (V 0)), Do (Put This ''a'' (V 1))],
    fn ''hDd'' 2 0 [Do (Put This ''b'' (V 0)), Do (Put This ''a'' (V 1))],
    fn ''jDd'' 2 0 [Do (Put This ''a'' (V 0)), Do (Put This ''b'' (V 1))],
    fn ''nDd'' 2 0 [Do (Put This ''a'' (V 0)), Do (Put This ''b'' (V 1))],
    fn ''FDd'' 2 0 [Do (Put This ''a'' (V 0)), Do (Put This ''b'' (V 1))],
    fn ''JDd'' 2 0 [Do (Put This ''a'' (V 0)), Do (Put This ''b'' (V 1))],
    fn ''uEd'' 2 0 [Do (Super ''es'' [V 0, V 1])],
    fn ''LGd'' 2 0 [Do (Put This ''f'' (V 0)), Do (Put This ''c'' (V 1))],
    fn ''LNc'' 0 0 [Do (Call ''FNc'' []), Do (Put This ''b'' (New ''hsb'' []))],
    fn ''WOc'' 0 0 [Do (Call ''OOc'' []), Do (Put This ''a'' (New ''hsb'' []))],
    fn ''U8b'' 0 0 [Do (Call ''K8b'' []), Do (Put This ''a'' (New ''S_b'' []))],
    fn ''XRd'' 2 0 [Do (Put This ''a'' (V 0)), Do (Put This ''b'' (V 1))],
    fn ''$Rd'' 2 0 [Do (Put This ''a'' (V 0)), Do (Put This ''b'' (V 1))],
    fn ''QLd'' 2 0 [Do (Put This ''i'' (V 0)), Do (Put This ''g'' (V 1))],
    fn ''xXd'' 2 0 [Do (Put This ''d'' (V 0)), Do (Put This ''e'' (V 1))],
    fn ''O3d'' 2 0 [Do (Put This ''a'' (V 0)), Do (Put This ''b'' (V 1))],
    fn ''k5d'' 2 0 [Do (Put This ''a'' (V 0)), Do (Put This ''b'' (V 1))],
    fn ''nde'' 2 0 [Do (Put This ''d'' (V 0)), Do (Put This ''b'' (V 1))],
    fn ''Jde'' 2 0 [Do (Put This ''e'' (V 0)), Do (Put This ''a'' (V 1))],
    fn ''LUd'' 2 0 [Do (Put (V 0) ''i'' (K JNull)), Do (Call ''MUd'' [V 0, V 1])],
    fn ''ZGd'' 2 0 [Do (And (Neg (Neg (V 0))) (Call ''hjb'' [G ''TGd'', V 0, V 1]))],
    fn ''XNd'' 2 0 [Ret (Call ''fMd'' [Dot (V 0) ''a'', V 1])],
    fn ''Qie'' 1 0 [Ret (Call ''Cee'' [Dot (V 0) ''c'', Dot (V 0) ''b''])],
    fn ''SD'' 1 0 [Ret (Same (Typeof (V 0)) (G ''wte''))],
    fn ''TD'' 1 0 [Ret (Same (Typeof (V 0)) (G ''xte''))],
    fn ''VD'' 1 0 [Ret (Same (Typeof (V 0)) (G ''yte''))],
    fn ''XD'' 1 0 [Ret (Cond (Loose (V 0) (K JNull)) (K JNull) (V 0))],
    fn ''ZD'' 1 0 [Do (Call ''VDb'' [Loose (V 0) (K JNull)]), Ret (V 0)],
    fn ''Wd'' 1 0 [Ret (Cond (Neg (V 0)) (K JNull) (Meth (V 0) ''kd'' []))],
    fn ''ig'' 1 0 [Do (Call ''gg'' [V 0]), Ret (Meth (Dot (V 0) ''d'') ''gc'' [])],
    fn ''Nm'' 2 0 [Ret (Meth (Meth (V 0) ''Pd'' []) ''Xb'' [V 1])],
    fn ''Wq'' 2 0 [Ret (Call ''qr'' [Meth (V 0) ''Jc'' [], V 1])],
    fn ''pte'' 2 0 [Do (Call ''tte'' [New ''uKd'' [V 0], V 1])],
    fn ''SBd'' 3 0 [Do (Call ''LAd'' [V 1, Call ''pBd'' [V 0, V 2]])],
    fn ''TBd'' 3 0 [Do (Call ''LAd'' [V 1, Call ''pBd'' [V 0, V 2]])],
    fn ''KJc'' 2 0 [Do (Call ''pJc'' [Dot (V 0) ''a'', Call ''JD'' [V 1, K (JNum 12)]])],
    fn ''Oje'' 2 0 [Do (Put This ''a'' (V 0)), Do (Put This ''b'' (V 1))],
    fn ''Rie'' 2 0 [Do (Put This ''b'' (V 0)), Do (Put This ''c'' (V 1))],
    fn ''Rcb'' 2 0 [Ret (Loose (Call ''Ocb'' [V 0, V 1]) (K (JNum 0)))],
    fn ''Ucb'' 2 0 [Ret (Bin Ge (Call ''Ocb'' [V 0, V 1]) (K (JNum 0)))],
    fn ''$cb'' 2 0 [Ret (Neg (Loose (Call ''Ocb'' [V 0, V 1]) (K (JNum 0))))],
    fn ''dhb'' 2 0 [Ret (Seq (Put (V 0) ''a'' (Bin Plus (Dot (V 0) ''a'') (Bin Plus (K (JStr '''')) (V 1)))) (V 0))],
    fn ''Zeb'' 1 0 [Ret (Bin Plus (K (JStr '''')) (Seq (Call ''NDb'' [V 0]) (V 0)))],
    fn ''kB'' 2 0 [Do (Meth (Dot (V 0) ''q'') ''setTime'' [Call ''fdb'' [V 1]])],
    fn ''Wgb'' 2 0 [Do (Put (V 0) ''a'' (Bin Plus (Dot (V 0) ''a'') (Bin Plus (K (JStr '''')) (V 1)))), Ret (V 0)],
    fn ''Xgb'' 2 0 [Do (Put (V 0) ''a'' (Bin Plus (Dot (V 0) ''a'') (Bin Plus (K (JStr '''')) (V 1)))), Ret (V 0)],
    fn ''ehb'' 2 0 [Do (Put (V 0) ''a'' (Bin Plus (Dot (V 0) ''a'') (Bin Plus (K (JStr '''')) (V 1)))), Ret (V 0)],
    fn ''ghb'' 2 0 [Do (Put (V 0) ''a'' (Bin Plus (Dot (V 0) ''a'') (Bin Plus (K (JStr '''')) (V 1)))), Ret (V 0)],
    fn ''hhb'' 2 0 [Do (Put (V 0) ''a'' (Bin Plus (Dot (V 0) ''a'') (Bin Plus (K (JStr '''')) (V 1)))), Ret (V 0)]]"

definition code_1759_1885 :: "(string \<times> jfun) list" where
  "code_1759_1885 = [
    fn ''Snb'' 1 0 [Do (Call ''MDb'' [V 0, K (JNum 0)]), Ret (K JNull)],
    fn ''bsb'' 1 0 [Do (Call ''kjb'' [This]), Do (Call ''Ld'' [This, V 0])],
    fn ''wwb'' 2 0 [Do (Super ''rwb'' [V 0, V 1])],
    fn ''Awb'' 2 0 [Do (Super ''rwb'' [V 0, V 1])],
    fn ''Ewb'' 2 0 [Do (Super ''rwb'' [V 0, V 1])],
    fn ''ECc'' 0 0 [Do (Call ''wCc'' []), Do (Super ''yCc'' [])],
    fn ''CCc'' 0 0 [Do (Call ''wCc'' []), Do (Super ''yCc'' [])],
    fn ''dCc'' 0 0 [Do (Call ''YBc'' []), Do (Super ''_Bc'' [])],
    fn ''LVc'' 0 0 [Do (SetG ''LVc'' (G ''qdb'')), Do (SetG ''KVc'' (Call ''gs'' [Call ''JVc'' []]))],
    fn ''UJb'' 0 0 [Do (SetG ''UJb'' (G ''qdb'')), Do (SetG ''TJb'' (Call ''gs'' [Call ''SJb'' []]))],
    fn ''b6b'' 0 0 [Do (SetG ''b6b'' (G ''qdb'')), Do (SetG ''a6b'' (Call ''gs'' [Call ''_5b'' []]))],
    fn ''vt'' 0 0 [Do (Put This ''b'' (New ''asb'' [Call ''Jv'' [K (JNum 12)]]))],
    fn ''cvb'' 0 0 [Do (Put This ''b'' (K (JNum 0))), Do (Put This ''a'' (K (JBool False)))],
    fn ''kvb'' 0 0 [Do (Put This ''b'' (K (JNum 0))), Do (Put This ''a'' (K (JBool False)))],
    fn ''Utb'' 2 0 [Do (Call ''Wtb'' [V 0, V 1, Dot (V 0) ''a'', Dot (Dot (V 0) ''a'') ''a''])],
    fn ''Vtb'' 2 0 [Do (Call ''Wtb'' [V 0, V 1, Dot (Dot (V 0) ''c'') ''b'', Dot (V 0) ''c''])],
    fn ''cQd'' 2 0 [Do (Call ''aQd'' []), Do (Call ''hjb'' [G ''_Pd'', V 0, V 1])],
    fn ''EEd'' 2 0 [Do (Super ''DEd'' [V 0, V 1])],
    fn ''PLd'' 2 0 [Do (Super ''rKd'' [V 0, V 1])],
    fn ''$Yd'' 2 0 [Do (Super ''QLd'' [V 0, V 1])],
    fn ''hge'' 2 0 [Do (Super ''b1d'' [V 0, V 1])],
    fn ''dge'' 2 0 [Do (Super ''age'' [V 0, V 1])],
    fn ''Bl'' 1 0 [Do (Put This ''a'' (V 0)), Do (Super ''xl'' [])],
    fn ''Hl'' 1 0 [Do (Put This ''a'' (V 0)), Do (Super ''xl'' [])],
    fn ''cgd'' 1 0 [Do (Put (V 0) ''a'' (K (JNum 0))), Do (Put (V 0) ''b'' (K (JNum 0))), Ret (V 0)],
    fn ''lcd'' 2 0 [Do (Put (V 0) ''a'' (Bin Plus (Dot (V 1) ''g'') (K (JNum 1)))), Ret (V 0)],
    fn ''YKc'' 2 0 [Ret (Loose (Idx (Dot (V 0) ''j'') (Dot (V 1) ''p'')) (K (JNum 2)))],
    fn ''Adb'' 2 0 [Ret (Call ''Jgb'' [Dot (V 0) ''a'', K (JNum 0), V 1])],
    fn ''afb'' 2 0 [Ret (Call ''$eb'' [Dot (V 0) ''a'', Dot (V 1) ''a''])],
    fn ''ofb'' 2 0 [Ret (Call ''rfb'' [Dot (V 0) ''a'', Dot (V 1) ''a''])],
    fn ''Ifb'' 2 0 [Ret (Call ''Kfb'' [Dot (V 0) ''a'', Dot (V 1) ''a''])],
    fn ''mb'' 2 0 [Ret (Same (Call ''XD'' [V 0]) (Call ''XD'' [V 1]))],
    fn ''Agb'' 2 0 [Ret (Meth (V 0) ''indexOf'' [V 1])],
    fn ''Yq'' 1 0 [Ret (Seq (Call ''Qb'' [V 0]) (New ''Bl'' [V 0]))],
    fn ''$C'' 1 0 [Ret (Call ''_C'' [Dot (V 0) ''l'', Dot (V 0) ''m'', Dot (V 0) ''h''])],
    fn ''Xeb'' 1 0 [Ret (Call ''YD'' [Seq (Call ''NDb'' [V 0]) (V 0)])],
    fn ''Yeb'' 1 0 [Ret (Call ''YD'' [Seq (Call ''NDb'' [V 0]) (V 0)])],
    fn ''hJb'' 2 0 [Ret (Call ''rfb'' [Dot (V 0) ''g'', Dot (V 1) ''g''])],
    fn ''Vcb'' 1 0 [Ret (Same (Typeof (V 0)) (G ''xte''))],
    fn ''VSb'' 1 0 [Ret (Or (Loose (V 0) (G ''PSb'')) (Loose (V 0) (G ''QSb'')))],
    fn ''USb'' 1 0 [Ret (Or (Loose (V 0) (G ''PSb'')) (Loose (V 0) (G ''SSb'')))],
    fn ''sB'' 1 0 [Ret (Cond (Bin Lt (V 0) (K (JNum 10))) (Bin Plus (K (JStr ''0'')) (V 0)) (Bin Plus (K (JStr '''')) (V 0)))],
    fn ''x$b'' 1 0 [Ret (Call ''emb'' [Dot (Dot (V 0) ''b'') ''b'', V 0, K (JNum 0)])],
    fn ''hnb'' 2 0 [Do (Call ''enb'' [V 0, K (JNum 0), Dot (V 0) ''length'', V 1])],
    fn ''Lxb'' 2 0 [Do (Call ''_lb'' [Dot (V 0) ''a'', V 1]), Ret (V 1)],
    fn ''Hec'' 2 0 [Do (Call ''mec'' []), Ret (Put (V 1) ''a'' (Bin Plus (Dot (V 1) ''a'') (V 0)))],
    fn ''Jec'' 2 0 [Do (Call ''mec'' []), Ret (Put (V 1) ''a'' (Bin Plus (Dot (V 1) ''a'') (V 0)))],
    fn ''Iec'' 2 0 [Do (Call ''mec'' []), Ret (Put (V 1) ''c'' (Bin Plus (Dot (V 1) ''c'') (V 0)))],
    fn ''dbd'' 2 0 [Do (Call ''_lb'' [Dot (V 0) ''c'', V 1]), Ret (V 0)],
    fn ''Kbd'' 2 0 [Do (Call ''jcd'' [Dot (V 0) ''a'', V 1]), Ret (V 0)],
    fn ''Bsb'' 1 0 [Do (Put This ''a'' (Call ''Qsb'' [])), Do (Put This ''b'' (V 0))],
    fn ''Vsb'' 1 0 [Do (Put This ''a'' (Call ''Qsb'' [])), Do (Put This ''b'' (V 0))],
    fn ''mgd'' 1 0 [Do (Put This ''a'' (Dot (V 0) ''a'')), Do (Put This ''b'' (Dot (V 0) ''b''))],
    fn ''Ptb'' 0 0 [Do (Super ''ksb'' [New ''otb'' []])],
    fn ''vYb'' 0 0 [Do (Super ''oYb'' [K (JNum 0), K (JNum 0), K (JNum 0), K (JNum 0)])],
    fn ''Ofd'' 0 0 [Do (Super ''Pfd'' [K (JNum 0), K (JNum 0), K (JNum 0), K (JNum 0)])],
    fn ''qcd'' 1 0 [Ret (Call ''jcd'' [New ''pcd'' [], V 0])],
    fn ''kqd'' 1 0 [Ret (Call ''Gvd'' [Call ''JD'' [V 0, K (JNum 125)]])],
    fn ''itd'' 1 0 [Ret (And (Meth (V 0) ''sh'' []) (Meth (V 0) ''th'' []))],
    fn ''Old'' 1 0 [Ret (And (Neg (Loose (V 0) (G ''Kld''))) (Neg (Loose (V 0) (G ''Lld''))))],
    fn ''Ejd'' 1 0 [Ret (Or (Loose (V 0) (G ''zjd'')) (Loose (V 0) (G ''Ajd'')))],
    fn ''Fjd'' 1 0 [Ret (Or (Loose (V 0) (G ''Cjd'')) (Loose (V 0) (G ''yjd'')))],
    fn ''mzc'' 1 0 [Ret (Or (Loose (V 0) (G ''izc'')) (Loose (V 0) (G ''hzc'')))],
    fn ''w3c'' 2 0 [Ret (Call ''$eb'' [Dot (V 1) ''f'', Dot (V 0) ''f''])],
    fn ''Ulc'' 2 0 [Ret (Call ''rfb'' [Dot (V 0) ''g'', Dot (V 1) ''g''])],
    fn ''jee'' 2 0 [Ret (New ''age'' [V 1, V 0])],
    fn ''kee'' 2 0 [Ret (New ''age'' [V 1, V 0])],
    fn ''qvd'' 3 0 [Do (Call ''rvd'' [V 0, V 1]), Do (Call ''svd'' [V 0, V 2])],
    fn ''Xvd'' 3 0 [Do (Call ''$vd'' [V 0, V 1]), Do (Call ''Yvd'' [V 0, V 2])],
    fn ''Zvd'' 3 0 [Do (Call ''_vd'' [V 0, V 1]), Do (Call ''awd'' [V 0, V 2])],
    fn ''axd'' 3 0 [Do (Call ''bxd'' [V 0, V 1]), Do (Call ''cxd'' [V 0, V 2])],
    fn ''hxd'' 3 0 [Do (Call ''ixd'' [V 0, V 1]), Do (Call ''jxd'' [V 0, V 2])],
    fn ''VVd'' 2 0 [Do (Call ''LVd'' [V 0, V 1]), Do (Call ''MVd'' [V 0, Dot (V 0) ''D''])],
    fn ''QGd'' 1 0 [Do (Super ''LGd'' [V 0, K (JBool True)])],
    fn ''bh'' 3 0 [Do (Super ''_g'' [V 0, V 1, V 2])],
    fn ''pzb'' 0 0 [Do (Super ''kzb'' [K (JStr ''Head''), K (JNum 1)])],
    fn ''uzb'' 0 0 [Do (Super ''kzb'' [K (JStr ''Tail''), K (JNum 3)])],
    fn ''oib'' 1 0 [Do (Call ''Zhb'' []), Do (Super ''pib'' [V 0])],
    fn ''hZb'' 1 0 [Do (Super ''oYb'' [V 0, V 0, V 0, V 0])],
    fn ''Zlb'' 1 0 [Do (Put (V 0) ''c'' (Call ''SC'' [G ''aJ'', G ''Gte'', K (JNum 1), K (JNum 0), K (JNum 5), K (JNum 1)]))],
    fn ''gHb'' 1 0 [Do (Call ''cmb'' [Meth (V 0) ''Qf'' [], New ''kHb'' [V 0]])],
    fn ''Nub'' 1 0 [Ret (Cond (Neg (Loose (V 0) (K JNull))) (Call ''tb'' [V 0]) (K (JNum 0)))],
    fn ''Z$b'' 2 0 [Ret (Call ''cFd'' [V 1, Call ''gAd'' [V 0]])],
    fn ''$$b'' 2 0 [Ret (Call ''cFd'' [V 1, Call ''gAd'' [V 0]])],
    fn ''pBb'' 2 0 [Ret (PutIdx (V 0) (Dot (V 0) ''length'') (V 1))],
    fn ''sBb'' 2 0 [Ret (PutIdx (V 0) (Dot (V 0) ''length'') (V 1))],
    fn ''bBd'' 2 0 [Ret (Call ''fp'' [Call ''wo'' [Dot (V 0) ''f''], V 1])],
    fn ''cBd'' 2 0 [Ret (Call ''fp'' [Call ''wo'' [Dot (V 0) ''n''], V 1])],
    fn ''dBd'' 2 0 [Ret (Call ''fp'' [Call ''wo'' [Dot (V 0) ''p''], V 1])],
    fn ''cr'' 1 0 [Ret (Call ''ur'' [Meth (Dot (V 0) ''b'') ''Jc'' [], Dot (V 0) ''a''])],
    fn ''rMd'' 1 0 [Ret (Cond (Loose (V 0) (K JNull)) (K (JNum 0)) (Call ''tb'' [V 0]))],
    fn ''FEd'' 2 0 [Do (Super ''DEd'' [Dot (V 0) ''b'', V 1])],
    fn ''F$d'' 2 0 [Do (Call ''lFd'' [Call ''GWd'' [Dot (V 0) ''a''], Call ''I$d'' [V 1]])],
    fn ''O2d'' 2 0 [Do (Call ''lFd'' [Call ''B2d'' [Dot (V 0) ''a''], Call ''R2d'' [V 1]])],
    fn ''aqd'' 3 0 [Do (Call ''Zvd'' [V 2, Bin Plus (Dot (V 2) ''i'') (V 0), Bin Plus (Dot (V 2) ''j'') (V 1)])],
    fn ''VAc'' 3 0 [Do (Call ''VC'' [Idx (Dot (V 0) ''c'') (Dot (V 1) ''g''), Dot (V 1) ''g'', V 2])],
    fn ''MTd'' 3 0 [Do (Meth (Call ''JD'' [Dot (V 0) ''c'', K (JNum 72)]) ''Ei'' [V 1, V 2])],
    fn ''aLd'' 3 0 [Do (Call ''VC'' [V 0, V 1, V 2]), Ret (V 2)],
    fn ''uAb'' 2 0 [When (G ''lAb'') [Ret (K JUndef)] [], Do (Put (V 0) ''b'' (V 1))],
    fn ''OA'' 0 0 [Do (SetG ''OA'' (G ''qdb'')), Do (Call ''nA'' []), Do (SetG ''NA'' (New ''_rb'' []))],
    fn ''oOc'' 0 0 [Do (SetG ''oOc'' (G ''qdb'')), Do (SetG ''nOc'' (New ''frb'' [G ''B2'']))],
    fn ''Sy'' 0 0 [Do (SetG ''Sy'' (G ''qdb'')), Do (Meth (Dot (G ''$wnd'') ''Math'') ''log'' [K (JNum 2)])],
    fn ''F5d'' 0 0 [Do (SetG ''F5d'' (G ''qdb'')), Do (SetG ''E5d'' (Seq (Call ''lRd'' []) (G ''kRd'')))],
    fn ''Ube'' 0 0 [Do (SetG ''Ube'' (G ''qdb'')), Do (New ''Vbe'' []), Do (New ''lmb'' [])],
    fn ''Vbe'' 0 0 [Do (New ''_rb'' []), Do (New ''_rb'' []), Do (New ''_rb'' [])],
    fn ''Qse'' 0 0 [Raise (Call ''Lcb'' [New ''uhb'' [G ''nKe'']])],
    fn ''Nse'' 0 0 [Raise (Call ''Lcb'' [New ''uhb'' [G ''mKe'']])],
    fn ''ate'' 0 0 [Raise (Call ''Lcb'' [New ''uhb'' [G ''mKe'']])],
    fn ''dte'' 0 0 [Raise (Call ''Lcb'' [New ''uhb'' [G ''nKe'']])],
    fn ''vse'' 1 0 [Do (Call ''gre'' []), Do (Super ''hre'' [V 0])],
    fn ''Sg'' 1 0 [Do (Put This ''a'' (V 0)), Do (Super ''Mg'' [V 0])],
    fn ''Ap'' 1 0 [Do (Put This ''a'' (V 0)), Do (Super ''pf'' [V 0])],
    fn ''Hp'' 1 0 [Do (Put This ''a'' (V 0)), Do (Super ''pf'' [V 0])],
    fn ''jmb'' 2 0 [Do (Call ''gnb'' [Dot (V 0) ''c'', Dot (Dot (V 0) ''c'') ''length'', V 1])],
    fn ''Hmb'' 1 0 [Ret (Bin Lt (Dot (V 0) ''a'') (Dot (Dot (Dot (V 0) ''c'') ''c'') ''length''))],
    fn ''Urb'' 1 0 [Ret (Bin Lt (Dot (V 0) ''a'') (Dot (Dot (Dot (V 0) ''c'') ''a'') ''length''))],
    fn ''bvb'' 2 0 [Ret (Cond (Dot (V 0) ''a'') (Dot (V 0) ''b'') (Meth (V 1) ''Ue'' []))],
    fn ''rfb'' 2 0 [Ret (Cond (Bin Lt (V 0) (V 1)) (K (JNum (- 1))) (Cond (Bin Gt (V 0) (V 1)) (K (JNum 1)) (K (JNum 0))))],
    fn ''Ufb'' 2 0 [Ret (Cond (Bin Gt (Call ''Ocb'' [V 0, V 1]) (K (JNum 0))) (V 0) (V 1))],
    fn ''_C'' 3 0 [Ret (NewLit [(''l'', V 0), (''m'', V 1), (''h'', V 2)])],
    fn ''Tub'' 2 0 [Do (And (Neg (Loose (Dot (V 0) ''a'') (K JNull))) (Call ''KJc'' [V 1, Dot (V 0) ''a'']))],
    fn ''Lbc'' 1 0 [Do (Call ''CWb'' [V 0, K JNull]), Do (Call ''DWb'' [V 0, K JNull])],
    fn ''zec'' 3 0 [Ret (Call ''hjb'' [Dot (V 0) ''g'', V 2, V 1])],
    fn ''Hh'' 2 0 [Do (Call ''Qb'' [V 1]), Do (Meth (Call ''Gh'' [V 0]) ''Ic'' [New ''bx'' []])],
    fn ''HQb'' 0 0 [Do (Call ''DQb'' []), Do (Put This ''a'' (New ''Rbd'' [G ''BO'']))],
    fn ''rEb'' 1 0 [Do (Put This ''b'' (V 0)), Do (Put This ''a'' (New ''lmb'' []))],
    fn ''yMb'' 1 0 [Do (Put This ''b'' (New ''KMb'' [])), Do (Put This ''a'' (V 0))]]"

definition code_1886_2012 :: "(string \<times> jfun) list" where
  "code_1886_2012 = [
    fn ''dYb'' 1 0 [Do (Super ''aYb'' []), Do (Put This ''a'' (V 0))],
    fn ''PNb'' 1 0 [Do (Super ''xNb'' []), Do (Put This ''b'' (V 0))],
    fn ''rzb'' 0 0 [Do (Super ''kzb'' [K (JStr ''Range''), K (JNum 2)])],
    fn ''Yy'' 1 0 [Do (Put (V 0) ''j'' (Call ''SC'' [G ''dJ'', G ''aue'', K (JNum 325), K (JNum 0), K (JNum 0), K (JNum 1)]))],
    fn ''Stb'' 1 0 [Do (Put (V 0) ''a'' (New ''Aub'' [])), Do (Put (V 0) ''c'' (New ''Aub'' []))],
    fn ''Jlc'' 1 0 [Do (Put (V 0) ''a'' (New ''_rb'' [])), Do (Put (V 0) ''e'' (New ''_rb'' []))],
    fn ''JPc'' 1 0 [Do (Call ''KPc'' [V 0, K JNull]), Do (Call ''LPc'' [V 0, K JNull])],
    fn ''$Kc'' 3 0 [Do (Call ''_Kc'' [V 0, V 1, V 2]), Ret (V 2)],
    fn ''oLc'' 2 0 [Do (Call ''OKc'' []), Ret (Put (Dot (V 1) ''n'') ''b'' (Bin Plus (Dot (Dot (V 1) ''n'') ''b'') (V 0)))],
    fn ''SAc'' 3 0 [Ret (Call ''QAc'' [V 1, V 2, Dot (V 0) ''c''])],
    fn ''UKc'' 3 0 [Ret (Call ''hjb'' [Dot (V 0) ''k'', V 2, V 1])],
    fn ''xad'' 2 0 [Ret (Call ''hjb'' [Dot (V 0) ''a'', Dot (V 1) ''a'', V 1])],
    fn ''n0d'' 2 0 [Ret (Call ''pA'' [Dot (V 0) ''a'', V 1, K JNull])],
    fn ''nBd'' 2 0 [Ret (Call ''MD'' [Call ''ejb'' [Dot (V 0) ''i'', V 1]])],
    fn ''oBd'' 2 0 [Ret (Call ''MD'' [Call ''ejb'' [Dot (V 0) ''j'', V 1]])],
    fn ''Nie'' 2 0 [Ret (Call ''eee'' [Dot (V 0) ''c'', Dot (V 0) ''b'', V 1])],
    fn ''Kfd'' 1 0 [Ret (New ''lgd'' [Dot (V 0) ''c'', Dot (V 0) ''d''])],
    fn ''Lfd'' 1 0 [Ret (New ''lgd'' [Dot (V 0) ''c'', Dot (V 0) ''d''])],
    fn ''Xfd'' 1 0 [Ret (New ''lgd'' [Dot (V 0) ''a'', Dot (V 0) ''b''])],
    fn ''RD'' 2 0 [Ret (And (Neg (Loose (V 0) (K JNull))) (Call ''ID'' [V 0, V 1]))],
    fn ''Xq'' 2 0 [Ret (Neg (Loose (Call ''Ar'' [Meth (V 0) ''Jc'' [], V 1]) (K (JNum (- 1)))))],
    fn ''yr'' 1 0 [Ret (Cond (Meth (V 0) ''Ob'' []) (Meth (V 0) ''Pb'' []) (K JNull))],
    fn ''Iv'' 2 0 [Ret (New ''Xv'' [Meth (V 0) ''Jc'' [], V 1])],
    fn ''gB'' 2 0 [Do (Meth (Dot (V 0) ''q'') ''setHours'' [V 1]), Do (Call ''eB'' [V 0, V 1])],
    fn ''dMd'' 3 0 [Do (Meth (Dot (V 0) ''c'') ''_c'' [V 1, Call ''JD'' [V 2, K (JNum 136)]])],
    fn ''vMd'' 3 0 [Do (Meth (Dot (V 0) ''c'') ''Si'' [V 1, Call ''JD'' [V 2, K (JNum 136)]])],
    fn ''uXd'' 2 0 [Do (Call ''JJd'' [V 0]), Do (Meth (V 0) ''Fc'' [Call ''JD'' [V 1, K (JNum 16)]])],
    fn ''gsb'' 2 0 [Ret (Neg (Loose (Meth (Dot (V 0) ''a'') ''Ac'' [V 1]) (K JNull)))],
    fn ''Rgb'' 1 0 [Ret (Call ''Sgb'' [V 0, K (JNum 0), Dot (V 0) ''length''])],
    fn ''fge'' 0 0 [Do (Super ''b1d'' [K JNull, K JNull])],
    fn ''jge'' 0 0 [Do (Super ''C1d'' [K JNull, K JNull])],
    fn ''os'' 0 0 [Do (Super ''es'' [K (JStr ''INSTANCE''), K (JNum 0)])],
    fn ''ao'' 1 0 [Do (Put This ''a'' (Seq (Call ''Inb'' []) (New ''Tpb'' [V 0])))],
    fn ''Vp'' 1 0 [Do (Put This ''b'' (Seq (Call ''Inb'' []) (New ''Dpb'' [V 0])))],
    fn ''Mie'' 1 0 [Do (Put This ''a'' (V 0)), Do (Super ''_rb'' [])],
    fn ''Glb'' 0 0 [Do (Put This ''a'' (Call ''SC'' [G ''aJ'', G ''Gte'', K (JNum 1), K (JNum 8), K (JNum 5), K (JNum 1)]))],
    fn ''YHb'' 4 0 [Do (Call ''VC'' [Idx (Dot (V 0) ''a'') (Dot (V 1) ''g''), Dot (V 2) ''g'', V 3])],
    fn ''THb'' 3 0 [Ret (Idx (Idx (Dot (V 0) ''a'') (Dot (V 1) ''g'')) (Dot (V 2) ''g''))],
    fn ''JFc'' 2 0 [Ret (Idx (Idx (Dot (V 0) ''a'') (Dot (Dot (V 1) ''c'') ''p'')) (Dot (V 1) ''p''))],
    fn ''lFc'' 2 0 [Ret (Idx (Idx (Dot (V 0) ''c'') (Dot (Dot (V 1) ''c'') ''p'')) (Dot (V 1) ''p''))],
    fn ''UEc'' 2 0 [Ret (Idx (Idx (Dot (V 0) ''e'') (Dot (Dot (V 1) ''c'') ''p'')) (Dot (V 1) ''p''))],
    fn ''XKc'' 2 0 [Ret (PutIdx (Dot (V 0) ''j'') (Dot (V 1) ''p'') (Call ''jLc'' [V 1]))],
    fn ''sed'' 2 0 [Ret (Call ''tgb'' [Dot (V 0) ''f'', Meth (V 1) ''Og'' []])],
    fn ''fUc'' 2 0 [Ret (Bin Le (Call ''Ueb'' [Call ''MD'' [Dot (V 1) ''a'']]) (V 0))],
    fn ''gUc'' 2 0 [Ret (Bin Ge (Call ''Ueb'' [Call ''MD'' [Dot (V 1) ''a'']]) (V 0))],
    fn ''Dzb'' 2 0 [Ret (Neg (Loose (Meth (Dot (V 0) ''a'') ''Ac'' [V 1]) (K JNull)))],
    fn ''wqd'' 2 0 [Ret (Cond (Bin Lt (Dot (V 0) ''a'') (Call ''$db'' [V 1])) (K (JNum (- 1))) (K (JNum 1)))],
    fn ''Zfd'' 2 0 [Ret (Bin Plus (Bin Times (Dot (V 0) ''a'') (Dot (V 1) ''a'')) (Bin Times (Dot (V 0) ''b'') (Dot (V 1) ''b'')))],
    fn ''zEd'' 2 0 [Ret (Call ''tgb'' [Dot (V 0) ''b'', Meth (V 1) ''Og'' []])],
    fn ''REc'' 3 0 [Ret (Cond (V 2) (Neg (Loose (V 1) (K (JNum 0)))) (Neg (Loose (V 1) (Bin Minus (V 0) (K (JNum 1))))))],
    fn ''Tvb'' 3 0 [Do (Put (V 0) ''a'' (Bin BitXor (V 1) (K (JNum 1502)))), Do (Put (V 0) ''b'' (Bin BitXor (V 2) (G ''$ve'')))],
    fn ''fgd'' 3 0 [Do (Put (V 0) ''a'' (V 1)), Do (Put (V 0) ''b'' (V 2)), Ret (V 0)],
    fn ''dgd'' 2 0 [Do (Put (V 0) ''a'' (Bin Times (Dot (V 0) ''a'') (V 1))), Do (Put (V 0) ''b'' (Bin Times (Dot (V 0) ''b'') (V 1))), Ret (V 0)],
    fn ''_lb'' 2 0 [Do (Call ''qDb'' [Dot (V 0) ''c'', V 1]), Ret (K (JBool True))],
    fn ''bGd'' 3 0 [Do (Call ''VC'' [Dot (V 0) ''g'', V 1, V 2]), Ret (V 2)],
    fn ''mtb'' 2 0 [When (Dot (V 0) ''c'') [Do (Call ''ztb'' [V 1]), Do (Call ''ytb'' [V 1])] []],
    fn ''mYd'' 3 0 [Do (Super ''iYd'' [V 0, V 1, V 2])],
    fn ''iYd'' 3 0 [Do (Super ''aYd'' [V 0, V 1, V 2])],
    fn ''nge'' 3 0 [Do (Super ''Xde'' [V 0, V 1, V 2])],
    fn ''rge'' 3 0 [Do (Super ''Xde'' [V 0, V 1, V 2])],
    fn ''tge'' 3 0 [Do (Super ''nge'' [V 0, V 1, V 2])],
    fn ''vge'' 3 0 [Do (Super ''iYd'' [V 0, V 1, V 2])],
    fn ''yge'' 3 0 [Do (Super ''mYd'' [V 0, V 1, V 2])],
    fn ''Ige'' 3 0 [Do (Super ''aYd'' [V 0, V 1, V 2])],
    fn ''Mge'' 3 0 [Do (Super ''aYd'' [V 0, V 1, V 2])],
    fn ''Pge'' 3 0 [Do (Super ''Ige'' [V 0, V 1, V 2])],
    fn ''ete'' 1 0 [Do (Put This ''c'' (V 0)), Do (Put This ''a'' (Dot (Dot This ''c'') ''a''))],
    fn ''uKd'' 1 0 [Do (Put This ''i'' (V 0)), Do (Put This ''f'' (Dot (Dot This ''i'') ''j''))],
    fn ''qUd'' 0 0 [Do (Put This ''Bb'' (Bin BitOr (Dot This ''Bb'') (K (JNum 256)))), Do (Put This ''Bb'' (Bin BitOr (Dot This ''Bb'') (K (JNum 512))))],
    fn ''xf'' 2 0 [Do (Put This ''a'' (V 0)), Do (Super ''pf'' [V 1])],
    fn ''Eb'' 2 0 [Ret (Dot (Call ''Db'' [V 0, New ''lhb'' [], V 1]) ''a'')],
    fn ''Lb'' 1 0 [When (Neg (V 0)) [Raise (Call ''Lcb'' [New ''jfb'' []])] []],
    fn ''Ub'' 1 0 [When (Neg (V 0)) [Raise (Call ''Lcb'' [New ''mfb'' []])] []],
    fn ''$wb'' 0 0 [Do (SetG ''$wb'' (G ''qdb'')), Do (Call ''$wb'' []), Do (SetG ''Zwb'' (New ''fxb'' []))],
    fn ''sie'' 0 0 [Do (SetG ''sie'' (G ''qdb'')), Do (Call ''Tge'' []), Do (SetG ''rie'' (New ''tie'' []))],
    fn ''Rub'' 0 0 [Do (SetG ''Rub'' (G ''qdb'')), Do (SetG ''Qub'' (New ''Vub'' [K JNull]))],
    fn ''dFd'' 1 0 [Do (Call ''Pub'' [V 0, G ''TGe'']), Do (Call ''Lwd'' [V 0, Call ''ZEd'' [V 0]])],
    fn ''DLd'' 1 0 [Do (Put (V 0) ''a'' (Call ''JD'' [Call ''uud'' [Dot (Dot (V 0) ''b'') ''a'', K (JNum 4)], K (JNum 129)]))],
    fn ''LLd'' 1 0 [Do (Put (V 0) ''a'' (Call ''JD'' [Call ''uud'' [Dot (Dot (V 0) ''b'') ''a'', K (JNum 4)], K (JNum 129)]))],
    fn ''Kg'' 1 0 [Do (Meth (Dot (V 0) ''b'') ''Qb'' []), Do (Put (Dot (Dot (V 0) ''d'') ''f'') ''d'' (Bin Minus (Dot (Dot (Dot (V 0) ''d'') ''f'') ''d'') (K (JNum 1)))), Do (Call ''hg'' [Dot (V 0) ''d''])],
    fn ''Xj'' 1 0 [Do (Put This ''a'' (V 0)), Do (Super ''yj'' [Dot (V 0) ''d''])],
    fn ''gj'' 2 0 [Do (Put This ''a'' (V 0)), Do (Super ''pc'' [V 1])],
    fn ''qj'' 2 0 [Do (Put This ''a'' (V 0)), Do (Super ''pc'' [V 1])],
    fn ''Pj'' 2 0 [Do (Put This ''a'' (V 0)), Do (Super ''pc'' [V 1])],
    fn ''Jl'' 2 0 [Do (Put This ''a'' (V 1)), Do (Super ''pc'' [V 0])],
    fn ''Wo'' 2 0 [Do (Put This ''a'' (V 1)), Do (Super ''Ro'' [V 0])],
    fn ''up'' 2 0 [Do (Put This ''a'' (V 0)), Do (Super ''Ro'' [V 1])],
    fn ''Pr'' 2 0 [Do (Put This ''a'' (V 1)), Do (Super ''Kr'' [V 0])],
    fn ''Xv'' 2 0 [Do (Put This ''a'' (V 1)), Do (Super ''Kr'' [V 0])],
    fn ''Dr'' 2 0 [Do (Call ''Qb'' [V 1]), Ret (New ''Pr'' [V 0, V 1])],
    fn ''iu'' 2 0 [Ret (New ''Fu'' [Dot (V 0) ''a'', Dot (V 0) ''b'', V 1])],
    fn ''Dgb'' 2 0 [Ret (Meth (V 0) ''lastIndexOf'' [V 1])],
    fn ''Bgb'' 3 0 [Ret (Meth (V 0) ''indexOf'' [V 1, V 2])],
    fn ''Qgb'' 1 0 [Ret (Cond (Loose (V 0) (K JNull)) (G ''Kte'') (Call ''tdb'' [V 0]))],
    fn ''wz'' 1 0 [Ret (Cond (Loose (V 0) (K JNull)) (K JNull) (Dot (V 0) ''name''))],
    fn ''iD'' 1 0 [Ret (Bin Plus (Bin Plus (Dot (V 0) ''l'') (Bin Times (Dot (V 0) ''m'') (G ''uve''))) (Bin Times (Dot (V 0) ''h'') (G ''vve'')))],
    fn ''xr'' 1 0 [Ret (Cond (Call ''kub'' [Dot (V 0) ''a'']) (Call ''wr'' [V 0]) (K JNull))],
    fn ''bl'' 1 0 [Do (Super ''Ok'' [Call ''JD'' [Call ''Qb'' [V 0], K (JNum 35)]])],
    fn ''rl'' 1 0 [Do (Super ''Ok'' [Call ''JD'' [Call ''Qb'' [V 0], K (JNum 35)]])],
    fn ''ahb'' 1 0 [Do (Super ''Bdb'' [Seq (Call ''NDb'' [V 0]) (V 0)])],
    fn ''nhb'' 1 0 [Do (Super ''Bdb'' [Seq (Call ''NDb'' [V 0]) (V 0)])],
    fn ''Qtb'' 1 0 [Do (Super ''ksb'' [New ''ptb'' [V 0]])],
    fn ''bpb'' 1 0 [Do (Super ''Hob'' [V 0]), Do (Put This ''a'' (V 0))],
    fn ''qpb'' 1 0 [Do (Super ''Yob'' [V 0]), Do (Put This ''a'' (V 0))],
    fn ''rqb'' 1 0 [Do (Super ''Tpb'' [V 0]), Do (Put This ''a'' (V 0))],
    fn ''Fzb'' 1 0 [Do (Super ''Ezb'' []), Do (Call ''xe'' [This, V 0])],
    fn ''Kyb'' 1 0 [Do (Put This ''a'' (V 0)), Do (Super ''Zkb'' [V 0])],
    fn ''ez'' 0 0 [Do (Call ''Yy'' [This]), Do (Call ''$y'' [This]), Do (Meth This ''he'' [])],
    fn ''Qdb'' 0 0 [Do (SetG ''Qdb'' (G ''qdb'')), Do (SetG ''Odb'' (K (JBool False))), Do (SetG ''Pdb'' (K (JBool True)))],
    fn ''khb'' 3 0 [Do (Call ''zdb'' [V 0, V 1, V 1, V 2]), Ret (V 0)],
    fn ''FEb'' 2 0 [Do (Call ''_lb'' [Dot (V 1) ''b'', Dot (V 0) ''a'']), Ret (Dot (V 0) ''a'')],
    fn ''zEb'' 2 0 [Do (Call ''_lb'' [Dot (V 1) ''a'', Dot (V 0) ''a'']), Ret (Dot (V 0) ''a'')],
    fn ''JGb'' 2 0 [Do (Call ''_lb'' [Dot (V 1) ''a'', Dot (V 0) ''a'']), Ret (Dot (V 0) ''a'')],
    fn ''Sub'' 1 0 [Do (Call ''LDb'' [Neg (Loose (Dot (V 0) ''a'') (K JNull))]), Ret (Dot (V 0) ''a'')],
    fn ''Uub'' 1 0 [Ret (Cond (Neg (Loose (Dot (V 0) ''a'') (K JNull))) (Dot (V 0) ''a'') (K JNull))],
    fn ''DDb'' 1 0 [Ret (Or (Dot (V 0) ''$H'') (Put (V 0) ''$H'' (SetG ''BDb'' (Bin Minus (G ''BDb'') (K (JNum (- 1)))))))],
    fn ''TZb'' 1 0 [Ret (Or (Call ''Hmb'' [Dot (V 0) ''a'']) (Call ''Hmb'' [Dot (V 0) ''b'']))],
    fn ''qLb'' 2 0 [Ret (Call ''$eb'' [Dot (Dot (V 0) ''c'') ''d'', Dot (Dot (V 1) ''c'') ''d''])],
    fn ''CLb'' 2 0 [Ret (Call ''$eb'' [Dot (Dot (V 0) ''c'') ''c'', Dot (Dot (V 1) ''c'') ''c''])],
    fn ''q3b'' 2 0 [Ret (Call ''$eb'' [Dot (Dot (V 0) ''n'') ''a'', Dot (Dot (V 1) ''n'') ''a''])],
    fn ''fUb'' 2 0 [Ret (Call ''JD'' [Call ''Qc'' [Dot (V 0) ''b'', V 1], K (JNum 16)])],
    fn ''v4b'' 2 0 [Ret (Put (Dot (V 0) ''n'') ''b'' (Seq (Call ''NDb'' [V 1]) (V 1)))],
    fn ''w4b'' 2 0 [Ret (Put (Dot (V 0) ''n'') ''b'' (Seq (Call ''NDb'' [V 1]) (V 1)))],
    fn ''Krb'' 2 0 [Ret (And (Neg (Neg (V 1))) (Loose (Idx (Dot (V 0) ''b'') (Dot (V 1) ''g'')) (V 1)))],
    fn ''dUc'' 2 0 [Ret (Call ''$eb'' [Dot (Dot (V 0) ''e'') ''b'', Dot (Dot (V 1) ''e'') ''b''])],
    fn ''lUc'' 2 0 [Ret (Call ''$eb'' [Dot (Dot (V 0) ''e'') ''a'', Dot (Dot (V 1) ''e'') ''a''])],
    fn ''OAc'' 3 0 [Ret (Call ''PAc'' [V 0, V 1, V 2, Dot (V 0) ''b''])]]"

definition object_table3 :: "(string \<times> jfun) list" where
  "object_table3 = code_1512_1630 @ code_1632_1758 @ code_1759_1885 @ code_1886_2012"

lemmas object_table3_defs = object_table3_def code_1512_1630_def code_1632_1758_def code_1759_1885_def code_1886_2012_def

text \<open>The names each table declares.\<close>

lemma names_1512_1630 [js_names]: "map fst code_1512_1630 = [
    ''qw'', ''Sv'', ''hQc'', ''jVc'', ''kVc'', ''$_d'', ''zw'', ''o0d'', ''Tcb'', ''Wcb'',
    ''wdb'', ''Kjb'', ''arb'', ''Ldb'', ''Ix'', ''Jx'', ''Mx'', ''Vmb'', ''Wmb'', ''Ssb'',
    ''jtb'', ''exb'', ''Qsb'', ''_ub'', ''Arb'', ''Hkb'', ''CCb'', ''ICb'', ''OCb'', ''UCb'',
    ''hDb'', ''kEb'', ''kzb'', ''GAb'', ''DHb'', ''iIb'', ''_Ib'', ''SLb'', ''fwb'', ''fNb'',
    ''LFb'', ''JMb'', ''wOb'', ''dQb'', ''ZQb'', ''FSb'', ''KSb'', ''WSb'', ''zUb'', ''vXb'',
    ''_Yb'', ''QZb'', ''C2b'', ''Y5b'', ''l8b'', ''oDb'', ''gr'', ''ECb'', ''KCb'', ''QCb'',
    ''KRb'', ''vEb'', ''gcc'', ''Ycc'', ''wdc'', ''ydc'', ''Idc'', ''Udc'', ''Ffc'', ''Pfc'',
    ''idc'', ''Kdc'', ''vkc'', ''Dgc'', ''qhc'', ''Ohc'', ''Onc'', ''Gnc'', ''Znc'', ''wic'',
    ''ioc'', ''yoc'', ''Ioc'', ''Roc'', ''cpc'', ''kpc'', ''wpc'', ''Ipc'', ''Ypc'', ''fqc'',
    ''oqc'', ''xqc'', ''Fqc'', ''bsc'', ''jsc'', ''Syc'', ''Szc'', ''czc'', ''nzc'', ''Azc'',
    ''AAc'', ''aAc'', ''iAc'', ''rAc'', ''JAc'', ''bBc'', ''kBc'', ''tBc'', ''lHc'', ''NJc'',
    ''cKc'', ''zLc'', ''PLc'', ''uMc'', ''gNc'', ''oNc'', ''vNc'', ''oJc'', ''WRb'']"
  by (simp add: code_1512_1630_def fn_def)

lemma names_1632_1758 [js_names]: "map fst code_1632_1758 = [
    ''RPc'', ''PRc'', ''YRc'', ''$Rc'', ''gOc'', ''pTc'', ''rUc'', ''JSc'', ''GVc'', ''vWc'',
    ''cYc'', ''kYc'', ''k$c'', ''i$c'', ''O$c'', ''Q$c'', ''i_c'', ''S_c'', ''J0c'', ''T0c'',
    ''W1c'', ''e2c'', ''R2c'', ''k3c'', ''U3c'', ''w5c'', ''$5c'', ''z6c'', ''p7c'', ''d8c'',
    ''J8c'', ''U8c'', ''iad'', ''h6c'', ''sbd'', ''acd'', ''Jcd'', ''hlc'', ''Dad'', ''Wed'',
    ''ifd'', ''Mgd'', ''phd'', ''Hjd'', ''Rjd'', ''$jd'', ''ikd'', ''ukd'', ''Rkd'', ''ald'',
    ''pld'', ''Bld'', ''Pld'', ''_ld'', ''_md'', ''Fmd'', ''jnd'', ''ynd'', ''Hnd'', ''Rnd'',
    ''hpd'', ''Gpd'', ''Ipd'', ''Kpd'', ''lgd'', ''oqd'', ''qqd'', ''sqd'', ''prd'', ''Wqd'',
    ''tCd'', ''vCd'', ''zCd'', ''BCd'', ''HCd'', ''JCd'', ''LCd'', ''NCd'', ''fDd'', ''hDd'',
    ''jDd'', ''nDd'', ''FDd'', ''JDd'', ''uEd'', ''LGd'', ''LNc'', ''WOc'', ''U8b'', ''XRd'',
    ''$Rd'', ''QLd'', ''xXd'', ''O3d'', ''k5d'', ''nde'', ''Jde'', ''LUd'', ''ZGd'', ''XNd'',
    ''Qie'', ''SD'', ''TD'', ''VD'', ''XD'', ''ZD'', ''Wd'', ''ig'', ''Nm'', ''Wq'',
    ''pte'', ''SBd'', ''TBd'', ''KJc'', ''Oje'', ''Rie'', ''Rcb'', ''Ucb'', ''$cb'', ''dhb'',
    ''Zeb'', ''kB'', ''Wgb'', ''Xgb'', ''ehb'', ''ghb'', ''hhb'']"
  by (simp add: code_1632_1758_def fn_def)

lemma names_1759_1885 [js_names]: "map fst code_1759_1885 = [
    ''Snb'', ''bsb'', ''wwb'', ''Awb'', ''Ewb'', ''ECc'', ''CCc'', ''dCc'', ''LVc'', ''UJb'',
    ''b6b'', ''vt'', ''cvb'', ''kvb'', ''Utb'', ''Vtb'', ''cQd'', ''EEd'', ''PLd'', ''$Yd'',
    ''hge'', ''dge'', ''Bl'', ''Hl'', ''cgd'', ''lcd'', ''YKc'', ''Adb'', ''afb'', ''ofb'',
    ''Ifb'', ''mb'', ''Agb'', ''Yq'', ''$C'', ''Xeb'', ''Yeb'', ''hJb'', ''Vcb'', ''VSb'',
    ''USb'', ''sB'', ''x$b'', ''hnb'', ''Lxb'', ''Hec'', ''Jec'', ''Iec'', ''dbd'', ''Kbd'',
    ''Bsb'', ''Vsb'', ''mgd'', ''Ptb'', ''vYb'', ''Ofd'', ''qcd'', ''kqd'', ''itd'', ''Old'',
    ''Ejd'', ''Fjd'', ''mzc'', ''w3c'', ''Ulc'', ''jee'', ''kee'', ''qvd'', ''Xvd'', ''Zvd'',
    ''axd'', ''hxd'', ''VVd'', ''QGd'', ''bh'', ''pzb'', ''uzb'', ''oib'', ''hZb'', ''Zlb'',
    ''gHb'', ''Nub'', ''Z$b'', ''$$b'', ''pBb'', ''sBb'', ''bBd'', ''cBd'', ''dBd'', ''cr'',
    ''rMd'', ''FEd'', ''F$d'', ''O2d'', ''aqd'', ''VAc'', ''MTd'', ''aLd'', ''uAb'', ''OA'',
    ''oOc'', ''Sy'', ''F5d'', ''Ube'', ''Vbe'', ''Qse'', ''Nse'', ''ate'', ''dte'', ''vse'',
    ''Sg'', ''Ap'', ''Hp'', ''jmb'', ''Hmb'', ''Urb'', ''bvb'', ''rfb'', ''Ufb'', ''_C'',
    ''Tub'', ''Lbc'', ''zec'', ''Hh'', ''HQb'', ''rEb'', ''yMb'']"
  by (simp add: code_1759_1885_def fn_def)

lemma names_1886_2012 [js_names]: "map fst code_1886_2012 = [
    ''dYb'', ''PNb'', ''rzb'', ''Yy'', ''Stb'', ''Jlc'', ''JPc'', ''$Kc'', ''oLc'', ''SAc'',
    ''UKc'', ''xad'', ''n0d'', ''nBd'', ''oBd'', ''Nie'', ''Kfd'', ''Lfd'', ''Xfd'', ''RD'',
    ''Xq'', ''yr'', ''Iv'', ''gB'', ''dMd'', ''vMd'', ''uXd'', ''gsb'', ''Rgb'', ''fge'',
    ''jge'', ''os'', ''ao'', ''Vp'', ''Mie'', ''Glb'', ''YHb'', ''THb'', ''JFc'', ''lFc'',
    ''UEc'', ''XKc'', ''sed'', ''fUc'', ''gUc'', ''Dzb'', ''wqd'', ''Zfd'', ''zEd'', ''REc'',
    ''Tvb'', ''fgd'', ''dgd'', ''_lb'', ''bGd'', ''mtb'', ''mYd'', ''iYd'', ''nge'', ''rge'',
    ''tge'', ''vge'', ''yge'', ''Ige'', ''Mge'', ''Pge'', ''ete'', ''uKd'', ''qUd'', ''xf'',
    ''Eb'', ''Lb'', ''Ub'', ''$wb'', ''sie'', ''Rub'', ''dFd'', ''DLd'', ''LLd'', ''Kg'',
    ''Xj'', ''gj'', ''qj'', ''Pj'', ''Jl'', ''Wo'', ''up'', ''Pr'', ''Xv'', ''Dr'',
    ''iu'', ''Dgb'', ''Bgb'', ''Qgb'', ''wz'', ''iD'', ''xr'', ''bl'', ''rl'', ''ahb'',
    ''nhb'', ''Qtb'', ''bpb'', ''qpb'', ''rqb'', ''Fzb'', ''Kyb'', ''ez'', ''Qdb'', ''khb'',
    ''FEb'', ''zEb'', ''JGb'', ''Sub'', ''Uub'', ''DDb'', ''TZb'', ''qLb'', ''CLb'', ''q3b'',
    ''fUb'', ''v4b'', ''w4b'', ''Krb'', ''dUc'', ''lUc'', ''OAc'']"
  by (simp add: code_1886_2012_def fn_def)

end
