(* ===== verification/ObjectTable4.thy ===== *)
theory ObjectTable4
  imports ObjectCode
begin

text \<open>
  Functions of \<open>layout-worker.js\<close>, lines 2013 to 2503, in the order of the file, one per line:
  accessors, enum lookups by name, three-field constructors and forwarding functions.
  An entry has the name, the number of parameters, the number of further local variables and the
  body; parameters and locals are numbered from 0. Lines with a construct outside \<open>jexp\<close> and
  \<open>jstm\<close> (loops, \<open>in\<close>, host objects) are left out.
\<close>

definition code_2013_2137 :: "(string \<times> jfun) list" where
  "code_2013_2137 = [
    fn ''RAc'' 3 0 [Ret (Call ''PAc'' [V 0, V 1, V 2, Dot (V 0) ''c''])],
    fn ''Kec'' 1 0 [Do (Call ''mec'' []), Ret (And (Neg (Neg (V 0))) (Neg (Meth (V 0) ''dc'' [])))],
    fn ''iGb'' 2 0 [Do (Put (V 0) ''b'' (Bin Minus (Dot (V 0) ''b'') (K (JNum (- 1))))), Ret (Call ''_lb'' [Dot (V 0) ''a'', V 1])],
    fn ''jGb'' 2 0 [Do (Put (V 0) ''b'' (Bin Minus (Dot (V 0) ''b'') (K (JNum (- 1))))), Ret (Call ''gmb'' [Dot (V 0) ''a'', V 1])],
    fn ''mRb'' 2 0 [Do (Super ''nRb'' [V 0, V 1, K JNull])],
    fn ''bsd'' 2 0 [Do (Call ''Lrd'' []), Do (Put This ''f'' (V 1)), Do (Put This ''d'' (V 0))],
    fn ''b1d'' 2 0 [Do (Call ''$0d'' []), Do (Put This ''a'' (V 0)), Do (Put This ''b'' (V 1))],
    fn ''C1d'' 2 0 [Do (Call ''w1d'' []), Do (Put This ''b'' (V 0)), Do (Put This ''c'' (V 1))],
    fn ''Zdc'' 0 0 [Do (Call ''Xdc'' []), Do (Put This ''b'' (New ''dec'' [This]))],
    fn ''DKd'' 1 0 [Do (Put This ''d'' (V 0)), Do (Super ''uKd'' [V 0])],
    fn ''PKd'' 1 0 [Do (Put This ''c'' (V 0)), Do (Super ''uKd'' [V 0])],
    fn ''SKd'' 1 0 [Do (Put This ''c'' (V 0)), Do (Super ''DKd'' [V 0])],
    fn ''Ig'' 4 0 [Do (Super ''wg'' [V 0, V 1, V 2, V 3])],
    fn ''ocd'' 3 0 [Do (Meth (Call ''JD'' [Call ''Hbd'' [V 0, V 1], K (JNum 22)]) ''Ec'' [V 2])],
    fn ''lNd'' 3 0 [Do (Call ''kMd'' [Dot (V 0) ''a'', V 2]), Do (Call ''jMd'' [Dot (V 0) ''a'', V 1])],
    fn ''xj'' 2 0 [Ret (Meth (Meth (Call ''cn'' [Dot (V 0) ''c'']) ''Kd'' []) ''Xb'' [V 1])],
    fn ''rm'' 2 0 [Ret (New ''_p'' [V 0, Meth (V 0) ''gc'' [], V 1])],
    fn ''kre'' 1 0 [Do (SetG ''fre'' (Bin Minus (G ''fre'') (K (JNum (- 1))))), Ret (New ''Xre'' [K (JNum 3), V 0])],
    fn ''Xu'' 1 0 [Do (Call ''bk'' [V 0, G ''wue'']), Ret (New ''mmb'' [V 0])],
    fn ''ts'' 1 0 [Do (Call ''ns'' []), Ret (Call ''ks'' [Seq (Call ''ws'' []) (G ''vs''), V 0])],
    fn ''bA'' 1 0 [Do (Call ''Zz'' []), Ret (Or (Call ''parseInt'' [V 0]) (K (JNum (- 1))))],
    fn ''zgb'' 3 0 [Ret (Call ''Bgb'' [V 0, Call ''Pgb'' [V 1], V 2])],
    fn ''$t'' 3 1 [Do (SetV 3 (Meth (V 0) ''dd'' [V 1])), Do (Meth (V 3) ''Rb'' [V 2])],
    fn ''q2b'' 1 1 [Do (SetV 1 (Dot (V 0) ''a'')), Do (Put (V 0) ''a'' (Dot (V 0) ''b'')), Do (Put (V 0) ''b'' (V 1))],
    fn ''qc'' 2 0 [Do (Call ''Sb'' [V 1, V 0]), Do (Put This ''c'' (V 0)), Do (Put This ''b'' (V 1))],
    fn ''Zgb'' 2 0 [Do (Call ''zdb'' [V 0, V 1, Bin Plus (V 1) (K (JNum 1)), K (JStr '''')]), Ret (V 0)],
    fn ''Xtb'' 1 0 [Do (Call ''LDb'' [Neg (Loose (Dot (V 0) ''b'') (K (JNum 0)))]), Ret (Dot (Dot (Dot (V 0) ''a'') ''a'') ''c'')],
    fn ''Ytb'' 1 0 [Do (Call ''LDb'' [Neg (Loose (Dot (V 0) ''b'') (K (JNum 0)))]), Ret (Dot (Dot (Dot (V 0) ''c'') ''b'') ''c'')],
    fn ''YKb'' 0 0 [Do (SetG ''YKb'' (G ''qdb'')), Do (SetG ''XKb'' (New ''DEd'' [G ''bxe'', K (JNum 0)]))],
    fn ''Cyb'' 1 0 [Ret (Put (V 0) ''b'' (Call ''JD'' [Call ''Ljb'' [Dot (V 0) ''a''], K (JNum 45)]))],
    fn ''cs'' 1 0 [Ret (Cond (Neg (Loose (Dot (V 0) ''f'') (K JNull))) (Dot (V 0) ''f'') (Bin Plus (K (JStr '''')) (Dot (V 0) ''g'')))],
    fn ''ds'' 1 0 [Ret (Cond (Neg (Loose (Dot (V 0) ''f'') (K JNull))) (Dot (V 0) ''f'') (Bin Plus (K (JStr '''')) (Dot (V 0) ''g'')))],
    fn ''htb'' 1 0 [Do (Put (V 0) ''d'' (New ''Atb'' [V 0])), Do (Put (V 0) ''e'' (New ''_rb'' []))],
    fn ''Jlb'' 1 0 [When (Neg (V 0)) [Raise (Call ''Lcb'' [New ''Rqb'' []])] []],
    fn ''EDb'' 1 0 [When (Neg (V 0)) [Raise (Call ''Lcb'' [New ''jfb'' []])] []],
    fn ''RDb'' 1 0 [When (Neg (V 0)) [Raise (Call ''Lcb'' [New ''mfb'' []])] []],
    fn ''IDb'' 1 0 [When (Neg (V 0)) [Raise (Call ''Lcb'' [New ''Idb'' []])] []],
    fn ''LDb'' 1 0 [When (Neg (V 0)) [Raise (Call ''Lcb'' [New ''Kub'' []])] []],
    fn ''lvb'' 1 0 [Do (Call ''ivb'' []), Do (Put This ''b'' (V 0)), Do (Put This ''a'' (K (JBool True)))],
    fn ''dvb'' 1 0 [Do (Call ''$ub'' []), Do (Put This ''b'' (V 0)), Do (Put This ''a'' (K (JBool True)))],
    fn ''gUb'' 1 0 [Do (Call ''dUb'' []), Do (Call ''eUb'' [This]), Do (Meth This ''Df'' [V 0])],
    fn ''Atb'' 1 0 [Do (Super ''Btb'' [V 0, K JNull, K JNull])],
    fn ''sgc'' 1 0 [Do (Put This ''c'' (V 0)), Do (Put This ''a'' (K (JNum 1))), Do (Put This ''b'' (K (JNum 1)))],
    fn ''EZc'' 1 0 [Do (Call ''kZc'' []), Ret (Bin Plus (Dot (Dot (V 0) ''e'') ''b'') (Bin Divide (Dot (Dot (V 0) ''f'') ''b'') (K (JNum 2))))],
    fn ''uZc'' 1 0 [Do (Call ''kZc'' []), Ret (Bin Plus (Dot (Dot (V 0) ''e'') ''a'') (Bin Divide (Dot (Dot (V 0) ''f'') ''a'') (K (JNum 2))))],
    fn ''wZc'' 3 0 [Do (Call ''kZc'' []), Ret (Bin Minus (Dot (Dot (V 2) ''e'') ''a'') (Bin Times (V 0) (V 1)))],
    fn ''GZc'' 3 0 [Do (Call ''kZc'' []), Ret (Bin Minus (Dot (Dot (V 2) ''e'') ''b'') (Bin Times (V 0) (V 1)))],
    fn ''Cyc'' 3 0 [Do (Call ''vyc'' []), Ret (Meth (V 2) ''Lg'' [V 0, V 1])],
    fn ''pic'' 2 0 [Do (Call ''Yhc'' []), Ret (Call ''Rc'' [V 0, Dot (V 1) ''e'', V 1])],
    fn ''Mbd'' 3 0 [Ret (Call ''_lb'' [V 1, Call ''Obd'' [V 0, V 2]])],
    fn ''M_b'' 2 0 [Ret (Call ''JD'' [Call ''ktb'' [Dot (V 0) ''a'', V 1], K (JNum 35)])],
    fn ''pNb'' 2 0 [Ret (And (Neg (Neg (Dot (V 0) ''q''))) (Call ''cjb'' [Dot (V 0) ''q'', V 1]))],
    fn ''hOb'' 2 0 [Ret (Cond (Bin Gt (V 0) (K (JNum 0))) (Bin Divide (Bin Times (V 1) (V 1)) (V 0)) (Bin Times (Bin Times (V 1) (V 1)) (K (JNum 100))))],
    fn ''aOb'' 2 0 [Ret (Cond (Bin Gt (V 0) (K (JNum 0))) (Bin Divide (V 1) (Bin Times (V 0) (V 0))) (Bin Times (V 1) (K (JNum 100))))],
    fn ''ggd'' 2 0 [Do (Put (V 0) ''a'' (Dot (V 1) ''a'')), Do (Put (V 0) ''b'' (Dot (V 1) ''b'')), Ret (V 0)],
    fn ''agd'' 1 0 [Do (Put (V 0) ''a'' (Minus1 (Dot (V 0) ''a''))), Do (Put (V 0) ''b'' (Minus1 (Dot (V 0) ''b''))), Ret (V 0)],
    fn ''hgd'' 3 0 [Do (Put (V 0) ''a'' (Bin Minus (Dot (V 0) ''a'') (V 1))), Do (Put (V 0) ''b'' (Bin Minus (Dot (V 0) ''b'') (V 2))), Ret (V 0)],
    fn ''Ufd'' 3 0 [Do (Put (V 0) ''a'' (Bin Plus (Dot (V 0) ''a'') (V 1))), Do (Put (V 0) ''b'' (Bin Plus (Dot (V 0) ''b'') (V 2))), Ret (V 0)],
    fn ''zcd'' 3 0 [Do (Call ''vcd'' []), Do (And (Meth (V 0) ''nf'' [V 1]) (Meth (V 2) ''Ad'' [V 0]))],
    fn ''apd'' 1 0 [Do (Put This ''c'' (V 0)), Do (Call ''_vd'' [V 0, K (JNum 0)]), Do (Call ''awd'' [V 0, K (JNum 0)])],
    fn ''Agd'' 1 0 [Do (Super ''dub'' []), Do (Call ''tgd'' [This, V 0])],
    fn ''z8c'' 0 0 [Do (Super ''es'' [K (JStr ''GROW_TREE''), K (JNum 0)])],
    fn ''dUd'' 3 0 [Do (Super ''QTd'' [V 0, V 1, V 2, K (JNum 2)])],
    fn ''r1d'' 2 0 [Do (Call ''$0d'' []), Do (Super ''b1d'' [V 0, V 1])],
    fn ''Q1d'' 2 0 [Do (Call ''w1d'' []), Do (Super ''C1d'' [V 0, V 1])],
    fn ''U1d'' 2 0 [Do (Call ''w1d'' []), Do (Super ''C1d'' [V 0, V 1])],
    fn ''S1d'' 2 0 [Do (Call ''w1d'' []), Do (Super ''Q1d'' [V 0, V 1])],
    fn ''eMd'' 2 0 [Ret (Meth (Dot (V 0) ''c'') ''Ec'' [Call ''JD'' [V 1, K (JNum 136)]])],
    fn ''eBd'' 2 0 [Ret (Call ''JD'' [Call ''ejb'' [Dot (V 0) ''e'', V 1], K (JNum 26)])],
    fn ''fBd'' 2 0 [Ret (Call ''JD'' [Call ''ejb'' [Dot (V 0) ''e'', V 1], K (JNum 26)])],
    fn ''N2d'' 3 0 [Do (Call ''kFd'' [Call ''B2d'' [Dot (V 0) ''a''], V 1, Call ''R2d'' [V 2]])],
    fn ''E$d'' 3 0 [Do (Call ''kFd'' [Call ''GWd'' [Dot (V 0) ''a''], V 1, Call ''I$d'' [V 2]])],
    fn ''k7d'' 2 0 [Do (Call ''F5d'' []), Do (Super ''$6d'' [V 0, V 1])],
    fn ''A7d'' 2 0 [Do (Call ''F5d'' []), Do (Super ''$6d'' [V 0, V 1])],
    fn ''I7d'' 2 0 [Do (Call ''F5d'' []), Do (Super ''$6d'' [V 0, V 1])],
    fn ''m7d'' 2 0 [Do (Call ''F5d'' []), Do (Super ''k7d'' [V 0, V 1])],
    fn ''o7d'' 2 0 [Do (Call ''F5d'' []), Do (Super ''k7d'' [V 0, V 1])],
    fn ''q7d'' 2 0 [Do (Call ''F5d'' []), Do (Super ''o7d'' [V 0, V 1])],
    fn ''C7d'' 2 0 [Do (Call ''F5d'' []), Do (Super ''A7d'' [V 0, V 1])],
    fn ''hde'' 3 0 [Ret (Call ''Gde'' [Call ''ade'' [V 0, V 1], V 2])],
    fn ''yee'' 3 0 [Ret (Meth (V 1) ''xl'' [Dot (V 0) ''e'', Dot (V 0) ''c'', V 2])],
    fn ''Aee'' 3 0 [Ret (Meth (V 1) ''yl'' [Dot (V 0) ''e'', Dot (V 0) ''c'', V 2])],
    fn ''Nee'' 2 0 [Ret (Call ''rtd'' [Dot (V 0) ''e'', Call ''JD'' [V 1, K (JNum 52)]])],
    fn ''Hse'' 2 0 [Ret (Bin Plus (Seq (Call ''NDb'' [V 0]) (V 0)) (Call ''$db'' [V 1]))],
    fn ''tle'' 1 0 [Ret (Cond (Loose (V 0) (K JNull)) (K JNull) (Call ''tdb'' [V 0]))],
    fn ''ule'' 1 0 [Ret (Cond (Loose (V 0) (K JNull)) (K JNull) (Call ''tdb'' [V 0]))],
    fn ''mle'' 1 0 [Ret (Cond (Loose (V 0) (K JNull)) (K JNull) (Call ''Ooe'' [V 0]))],
    fn ''qle'' 1 0 [Ret (Cond (Loose (V 0) (K JNull)) (K JNull) (Call ''Voe'' [V 0]))],
    fn ''veb'' 1 0 [When (Neg (Loose (Dot (V 0) ''o'') (K JNull))) [Ret (K JUndef)] [], Do (Call ''Leb'' [V 0])],
    fn ''LD'' 1 0 [Do (Call ''VDb'' [Or (Loose (V 0) (K JNull)) (Call ''SD'' [V 0])]), Ret (V 0)],
    fn ''MD'' 1 0 [Do (Call ''VDb'' [Or (Loose (V 0) (K JNull)) (Call ''TD'' [V 0])]), Ret (V 0)],
    fn ''OD'' 1 0 [Do (Call ''VDb'' [Or (Loose (V 0) (K JNull)) (Call ''VD'' [V 0])]), Ret (V 0)],
    fn ''wxd'' 1 0 [Do (And (Call ''RD'' [V 0, K (JNum 161)]) (Meth (Call ''JD'' [V 0, K (JNum 161)]) ''mi'' []))],
    fn ''q4d'' 0 0 [Do (Super ''UUd'' []), Do (Put This ''Bb'' (Bin BitOr (Dot This ''Bb'') (G ''Hve'')))],
    fn ''Ng'' 2 0 [Do (Put This ''d'' (V 0)), Do (Call ''Jg'' [This]), Do (Put This ''b'' (V 1))],
    fn ''Kf'' 2 0 [Do (Put This ''c'' (V 0)), Do (Super ''me'' [V 0, V 1])],
    fn ''Sf'' 2 0 [Do (Put This ''a'' (V 0)), Do (Super ''Kf'' [V 0, V 1])],
    fn ''_g'' 3 0 [Do (Super ''jg'' [V 0, V 1, V 2, K JNull])],
    fn ''dh'' 3 0 [Do (Super ''jg'' [V 0, V 1, V 2, K JNull])],
    fn ''nBb'' 2 0 [Do (Super ''eBb'' [V 0]), Do (Put This ''a'' (V 1))],
    fn ''HBb'' 2 0 [Do (Super ''eBb'' [V 0]), Do (Put This ''a'' (V 1))],
    fn ''rn'' 2 0 [Ret (Seq (Call ''ak'' [V 0, V 1]) (New ''ry'' [V 0, V 1]))],
    fn ''Pzb'' 3 0 [Ret (Cond (Bin Le (Meth (V 0) ''Le'' [V 1, V 2]) (K (JNum 0))) (V 2) (V 1))],
    fn ''Qzb'' 3 0 [Ret (Cond (Bin Le (Meth (V 0) ''Le'' [V 1, V 2]) (K (JNum 0))) (V 1) (V 2))],
    fn ''Tdb'' 1 0 [Ret (Cond (Seq (Call ''NDb'' [V 0]) (V 0)) (K (JNum 1231)) (K (JNum 1237)))],
    fn ''AMb'' 2 0 [Do (Cond (Dot (V 1) ''a'') (Call ''BMb'' [V 0, V 1]) (Call ''Dzb'' [Dot (V 0) ''a'', Dot (V 1) ''b'']))],
    fn ''qAb'' 2 0 [When (G ''lAb'') [Ret (K JUndef)] [], Do (Call ''_lb'' [Dot (V 0) ''a'', V 1])],
    fn ''B_b'' 2 0 [Do (Call ''t_b'' []), Ret (Call ''UXb'' [Dot (Dot (V 1) ''d'') ''i'', V 0])],
    fn ''e7b'' 2 0 [Do (Call ''N6b'' []), Ret (New ''l7b'' [V 1, V 0])],
    fn ''odd'' 2 0 [Ret (Call ''JD'' [Call ''ktb'' [Dot (V 0) ''b'', V 1], K (JNum 144)])],
    fn ''qdd'' 2 0 [Ret (Call ''JD'' [Call ''ktb'' [Dot (V 0) ''c'', V 1], K (JNum 233)])],
    fn ''lgc'' 1 0 [Ret (Call ''JD'' [Call ''dmb'' [Dot (V 0) ''a'', Dot (V 0) ''b''], K (JNum 295)])],
    fn ''Hfd'' 1 0 [Ret (New ''lgd'' [Dot (V 0) ''c'', Bin Plus (Dot (V 0) ''d'') (Dot (V 0) ''a'')])],
    fn ''nMc'' 1 0 [Ret (Seq (Call ''OKc'' []) (Call ''mzc'' [Call ''JD'' [V 0, K (JNum 203)]]))],
    fn ''mBd'' 2 0 [Ret (Call ''JD'' [Call ''ejb'' [Dot (V 0) ''b'', V 1], K (JNum 278)])],
    fn ''vIb'' 2 0 [Do (Call ''Pub'' [V 1, G ''Vwe'']), Do (Put (V 0) ''f'' (V 1)), Ret (V 0)],
    fn ''Ewd'' 3 0 [Do (SetV 2 (Call ''Vsd'' [V 0, V 1, K (JNum 3), V 2])), Ret (V 2)],
    fn ''Xwd'' 3 0 [Do (SetV 2 (Call ''Vsd'' [V 0, V 1, K (JNum 6), V 2])), Ret (V 2)],
    fn ''eAd'' 3 0 [Do (SetV 2 (Call ''Vsd'' [V 0, V 1, K (JNum 9), V 2])), Ret (V 2)],
    fn ''rHd'' 3 0 [Do (Put (V 0) ''j'' (Bin Minus (Dot (V 0) ''j'') (K (JNum (- 1))))), Do (Meth (V 0) ''rj'' []), Do (Call ''pFd'' [V 0, V 1, V 2])],
    fn ''pHd'' 3 0 [Do (Put (V 0) ''j'' (Bin Minus (Dot (V 0) ''j'') (K (JNum (- 1))))), Do (Meth (V 0) ''oj'' [V 1, Meth (V 0) ''Xi'' [V 1, V 2]])],
    fn ''O0d'' 3 1 [Do (SetV 3 (Meth (V 0) ''dd'' [V 1])), Do (Meth (V 3) ''Rb'' [V 2])],
    fn ''oKd'' 2 0 [Do (Put This ''c'' (V 0)), Do (Super ''oGd'' [V 1])],
    fn ''J$d'' 2 0 [Do (Put This ''a'' (V 0)), Do (Super ''b$d'' [V 1])],
    fn ''S2d'' 2 0 [Do (Put This ''a'' (V 0)), Do (Super ''b$d'' [V 1])]]"

definition code_2139_2260 :: "(string \<times> jfun) list" where
  "code_2139_2260 = [
    fn ''g0c'' 0 0 [Do (Put This ''a'' (New ''Np'' [])), Do (Put This ''b'' (New ''Np'' []))],
    fn ''yOd'' 0 0 [Do (SetG ''yOd'' (G ''qdb'')), Do (SetG ''xOd'' (New ''$Od'' [])), Do (New ''zPd'' [])],
    fn ''d_c'' 0 0 [Do (SetG ''d_c'' (G ''qdb'')), Do (SetG ''c_c'' (New ''CEd'' [K (JStr ''root'')]))],
    fn ''uKb'' 0 0 [Do (SetG ''uKb'' (G ''qdb'')), Do (SetG ''tKb'' (Call ''Frb'' [Seq (Call ''ind'' []) (G ''hnd'')]))],
    fn ''fg'' 1 0 [Do (Cond (Dot (V 0) ''b'') (Call ''fg'' [Dot (V 0) ''b'']) (Meth (Dot (Dot (V 0) ''f'') ''c'') ''yc'' [Dot (V 0) ''e'', Dot (V 0) ''d'']))],
    fn ''vy'' 1 0 [Do (Put This ''a'' (Seq (Call ''Inb'' []) (New ''wob'' [Call ''Qb'' [V 0]])))],
    fn ''bq'' 1 0 [Do (Put This ''a'' (Seq (Call ''bk'' [V 0, G ''wue'']) (New ''mmb'' [V 0])))],
    fn ''iq'' 1 0 [Do (Put This ''a'' (Seq (Call ''bk'' [V 0, G ''wue'']) (New ''mmb'' [V 0])))],
    fn ''vz'' 1 0 [Ret (Cond (Loose (V 0) (K JNull)) (K JNull) (Dot (V 0) ''message''))],
    fn ''PD'' 1 0 [Ret (Meth (G ''String'') ''fromCharCode'' [V 0])],
    fn ''Pfb'' 1 0 [Ret (Bin BitXor (Call ''gdb'' [Call ''cdb'' [V 0, K (JNum 32)]]) (Call ''gdb'' [V 0]))],
    fn ''sMd'' 2 0 [Ret (Bin Modulo (Bin BitAnd (V 1) (G ''Ate'')) (Dot (Dot (V 0) ''d'') ''length''))],
    fn ''Oie'' 3 0 [Ret (Call ''nee'' [Dot (V 0) ''c'', Dot (V 0) ''b'', V 1, V 2])],
    fn ''Jz'' 3 1 [Ret (Meth (V 0) ''apply'' [V 1, V 2])],
    fn ''drb'' 3 0 [Ret (Call ''crb'' [V 0, Call ''JD'' [V 1, K (JNum 24)], V 2])],
    fn ''jhb'' 3 0 [Do (Put (V 0) ''a'' (Bin Plus (Dot (V 0) ''a'') (Call ''Sgb'' [V 1, K (JNum 0), V 2]))), Ret (V 0)],
    fn ''Akb'' 2 1 [Do (SetV 2 (Dot (V 0) ''e'')), Do (Put (V 0) ''e'' (V 1)), Ret (V 2)],
    fn ''Mkb'' 2 1 [Do (SetV 2 (V 1)), Ret (Neg (Neg (Meth (V 0) ''De'' [V 2])))],
    fn ''Jsb'' 2 1 [Do (SetV 2 (Idx (V 0) (G ''Xve''))), Do (Meth (V 2) ''call'' [V 0, V 1])],
    fn ''Ksb'' 2 1 [Do (SetV 2 (Idx (V 0) (G ''Xve''))), Do (Meth (V 2) ''call'' [V 0, V 1])],
    fn ''Sjb'' 2 0 [Do (Meth (Dot (V 0) ''a'') ''_c'' [Dot (V 0) ''b'', V 1]), Do (Put (V 0) ''b'' (Bin Minus (Dot (V 0) ''b'') (K (JNum (- 1))))), Do (Put (V 0) ''c'' (K (JNum (- 1))))],
    fn ''itb'' 1 0 [Do (Call ''kjb'' [Dot (V 0) ''e'']), Do (Put (Dot (V 0) ''d'') ''b'' (Dot (V 0) ''d'')), Do (Put (Dot (V 0) ''d'') ''a'' (Dot (V 0) ''d''))],
    fn ''mCb'' 3 0 [Do (Call ''QBb'' []), Do (Call ''$Cb'' [V 0, Meth (V 1) ''Te'' [Dot (V 0) ''a'', V 2]])],
    fn ''Udb'' 2 0 [Do (Call ''Qdb'' []), Ret (Cond (Loose (V 0) (V 1)) (K (JNum 0)) (Cond (V 0) (K (JNum 1)) (K (JNum (- 1)))))],
    fn ''nDb'' 2 0 [Ret (Call ''vDb'' [New ''Array'' [V 1], V 0])],
    fn ''DEd'' 2 0 [Do (Super ''CEd'' [V 0]), Do (Put This ''a'' (V 1))],
    fn ''f5d'' 2 0 [Do (Super ''Y4d'' [V 0]), Do (Put This ''a'' (V 1))],
    fn ''d8d'' 2 0 [Do (Super ''Y4d'' [V 0]), Do (Put This ''a'' (V 1))],
    fn ''wHb'' 0 0 [Do (Super ''uHb'' []), Do (Put This ''a'' (New ''jgd'' []))],
    fn ''aYb'' 0 0 [Do (Put This ''n'' (New ''jgd'' [])), Do (Put This ''o'' (New ''jgd'' []))],
    fn ''DEb'' 0 0 [Do (Put This ''b'' (New ''jgd'' [])), Do (Put This ''c'' (New ''lmb'' []))],
    fn ''GNb'' 0 0 [Do (Put This ''a'' (New ''lmb'' [])), Do (Put This ''b'' (New ''lmb'' []))],
    fn ''OPb'' 0 0 [Do (Put This ''a'' (New ''WMb'' [])), Do (Put This ''b'' (New ''ZPb'' []))],
    fn ''S_b'' 0 0 [Do (Put This ''b'' (New ''otb'' [])), Do (Put This ''a'' (New ''otb'' []))],
    fn ''DEc'' 0 0 [Do (Put This ''b'' (New ''hsb'' [])), Do (Put This ''a'' (New ''hsb'' []))],
    fn ''WJc'' 0 0 [Do (Put This ''a'' (New ''lmb'' [])), Do (Put This ''d'' (New ''lmb'' []))],
    fn ''eVc'' 0 0 [Do (Put This ''b'' (New ''_rb'' [])), Do (Put This ''a'' (New ''_rb'' []))],
    fn ''QSc'' 0 0 [Do (Put This ''b'' (New ''CSc'' [])), Do (Put This ''a'' (New ''rSc'' []))],
    fn ''Ybc'' 0 0 [Do (Put This ''a'' (New ''Okc'' [])), Do (Put This ''b'' (New ''glc'' []))],
    fn ''uHb'' 0 0 [Do (Put This ''n'' (New ''gZb'' [])), Do (Put This ''i'' (New ''Ofd'' []))],
    fn ''TA'' 1 0 [Do (And (Neg (Dot (V 0) ''a'')) (Put (V 0) ''a'' (New ''bB'' []))), Ret (Dot (V 0) ''a'')],
    fn ''Vfd'' 2 0 [Do (Put (V 0) ''a'' (Bin Plus (Dot (V 0) ''a'') (Dot (V 1) ''a''))), Do (Put (V 0) ''b'' (Bin Plus (Dot (V 0) ''b'') (Dot (V 1) ''b''))), Ret (V 0)],
    fn ''igd'' 2 0 [Do (Put (V 0) ''a'' (Bin Minus (Dot (V 0) ''a'') (Dot (V 1) ''a''))), Do (Put (V 0) ''b'' (Bin Minus (Dot (V 0) ''b'') (Dot (V 1) ''b''))), Ret (V 0)],
    fn ''ncd'' 1 0 [Do (Call ''tDb'' [Dot (Dot (V 0) ''j'') ''c'', K (JNum 0)]), Do (Put (V 0) ''a'' (K (JNum (- 1)))), Ret (V 0)],
    fn ''Nzd'' 3 0 [Do (SetV 2 (Call ''Vsd'' [V 0, V 1, K (JNum 11), V 2])), Ret (V 2)],
    fn ''yBd'' 3 0 [Do (And (Neg (Loose (V 2) (K JNull))) (Call ''exd'' [V 1, Call ''dCd'' [V 0, V 2]]))],
    fn ''zBd'' 3 0 [Do (And (Neg (Loose (V 2) (K JNull))) (Call ''fxd'' [V 1, Call ''dCd'' [V 0, V 2]]))],
    fn ''T3d'' 4 0 [Do (Super ''P3d'' [V 0, V 1, V 2, V 3])],
    fn ''wYb'' 4 0 [Do (Super ''oYb'' [V 0, V 1, V 2, V 3])],
    fn ''Bge'' 4 0 [Do (Super ''P3d'' [V 0, V 1, V 2, V 3])],
    fn ''Fge'' 4 0 [Do (Super ''Bge'' [V 0, V 1, V 2, V 3])],
    fn ''$ge'' 4 0 [Do (Super ''Vge'' [V 0, V 1, V 2, V 3])],
    fn ''ahe'' 4 0 [Do (Super ''Vge'' [V 0, V 1, V 2, V 3])],
    fn ''ehe'' 4 0 [Do (Super ''ahe'' [V 0, V 1, V 2, V 3])],
    fn ''ghe'' 4 0 [Do (Super ''Vge'' [V 0, V 1, V 2, V 3])],
    fn ''jhe'' 4 0 [Do (Super ''ghe'' [V 0, V 1, V 2, V 3])],
    fn ''lhe'' 4 0 [Do (Super ''ahe'' [V 0, V 1, V 2, V 3])],
    fn ''ohe'' 4 0 [Do (Super ''lhe'' [V 0, V 1, V 2, V 3])],
    fn ''Qhe'' 4 0 [Do (Super ''Jhe'' [V 0, V 1, V 2, V 3])],
    fn ''rKd'' 2 0 [Do (Super ''Fdb'' [Bin Plus (Bin Plus (Bin Plus (G ''SHe'') (V 0)) (G ''YGe'')) (V 1)])],
    fn ''ghc'' 2 0 [Do (Cond (Call ''Ejd'' [Dot (V 0) ''f'']) (Call ''hhc'' [V 0, V 1]) (Call ''ihc'' [V 0, V 1]))],
    fn ''Uhe'' 2 0 [Ret (Meth (Meth (Meth (V 0) ''hk'' []) ''ti'' []) ''oi'' [V 0, V 1])],
    fn ''Vhe'' 2 0 [Ret (Meth (Meth (Meth (V 0) ''hk'' []) ''ti'' []) ''qi'' [V 0, V 1])],
    fn ''x4b'' 2 0 [Ret (Put (Dot (V 0) ''n'') ''a'' (Bin Plus (Seq (Call ''NDb'' [V 1]) (V 1)) (K (JNum 10))))],
    fn ''y4b'' 2 0 [Ret (Put (Dot (V 0) ''n'') ''a'' (Bin Plus (Seq (Call ''NDb'' [V 1]) (V 1)) (K (JNum 10))))],
    fn ''zk'' 2 0 [Ret (Put (V 0) ''e'' (Call ''JD'' [Meth (Dot (V 0) ''d'') ''Kb'' [V 1], K (JNum 162)]))],
    fn ''QWd'' 2 0 [Ret (Or (Loose (V 1) (V 0)) (Call ''eGd'' [Call ''FWd'' [V 1], V 0]))],
    fn ''Egb'' 3 0 [Ret (Meth (V 0) ''lastIndexOf'' [V 1, V 2])],
    fn ''vgb'' 2 0 [Ret (Seq (Call ''NDb'' [V 0]) (Same (Call ''XD'' [V 0]) (Call ''XD'' [V 1])))],
    fn ''Veb'' 2 0 [Ret (Seq (Call ''NDb'' [V 0]) (Same (Call ''XD'' [V 0]) (Call ''XD'' [V 1])))],
    fn ''A8d'' 2 0 [Ret (Loose (Call ''hjb'' [Dot (V 0) ''a'', V 1, K (JStr '''')]) (K JNull))],
    fn ''FCb'' 2 0 [Ret (Meth (Dot (V 0) ''b'') ''zd'' [New ''ICb'' [V 0, V 1]])],
    fn ''LCb'' 2 0 [Ret (Meth (Dot (V 0) ''b'') ''zd'' [New ''OCb'' [V 0, V 1]])],
    fn ''RCb'' 2 0 [Ret (Meth (Dot (V 0) ''b'') ''zd'' [New ''UCb'' [V 0, V 1]])],
    fn ''vQb'' 2 0 [Ret (Call ''rNb'' [V 1, Seq (Call ''nyc'' []) (G ''Svc''), V 0])],
    fn ''$Pb'' 3 0 [Ret (Call ''$eb'' [Idx (V 0) (Dot (V 1) ''a''), Idx (V 0) (Dot (V 2) ''a'')])],
    fn ''Zjc'' 2 0 [Ret (Call ''rfb'' [Dot (Dot (Dot (V 0) ''a'') ''d'') ''p'', Dot (Dot (Dot (V 1) ''a'') ''d'') ''p''])],
    fn ''$jc'' 2 0 [Ret (Call ''rfb'' [Dot (Dot (Dot (V 1) ''a'') ''d'') ''p'', Dot (Dot (Dot (V 0) ''a'') ''d'') ''p''])],
    fn ''A_b'' 2 0 [Do (Call ''t_b'' []), Ret (Neg (Call ''UXb'' [Dot (Dot (V 1) ''d'') ''i'', V 0]))],
    fn ''vAb'' 2 0 [When (G ''lAb'') [Ret (K JUndef)] [], Do (And (Neg (Neg (V 1))) (Put (V 0) ''d'' (V 1)))],
    fn ''Swb'' 2 0 [Do (Super ''Twb'' [V 0, Dot (V 0) ''length'', V 1])],
    fn ''pCb'' 1 0 [Do (Put This ''c'' (V 0)), Do (Super ''Ewb'' [G ''fue'', K (JNum 0)])],
    fn ''_p'' 3 0 [Do (Put This ''a'' (V 0)), Do (Super ''qc'' [V 1, V 2])],
    fn ''TKd'' 2 0 [Do (Put This ''c'' (V 0)), Do (Super ''EKd'' [V 0, V 1])],
    fn ''pk'' 3 0 [Do (Put This ''c'' (V 1)), Do (Put This ''b'' (V 2)), Do (Put This ''a'' (V 0))],
    fn ''mJc'' 1 0 [Do (Call ''OIc'' []), Do (Put This ''d'' (V 0)), Do (Put This ''a'' (New ''Glb'' []))],
    fn ''KJd'' 1 0 [Ret (Cond (Bin Lt (V 0) (K (JNum 100))) (K JNull) (New ''xJd'' [V 0]))],
    fn ''FYb'' 1 0 [Ret (Cond (Neg (Dot (V 0) ''c'')) (K (JNum (- 1))) (Call ''emb'' [Dot (Dot (V 0) ''c'') ''a'', V 0, K (JNum 0)]))],
    fn ''bTc'' 2 0 [Ret (Call ''$eb'' [Dot (Dot (Dot (V 0) ''c'') ''e'') ''a'', Dot (Dot (Dot (V 1) ''c'') ''e'') ''a''])],
    fn ''_Sc'' 2 0 [Ret (Call ''$eb'' [Dot (Dot (Dot (V 0) ''b'') ''e'') ''a'', Dot (Dot (Dot (V 1) ''b'') ''e'') ''a''])],
    fn ''iQc'' 2 0 [Ret (Call ''$eb'' [Bin Minus (Dot (V 0) ''c'') (Dot (V 0) ''s''), Bin Minus (Dot (V 1) ''c'') (Dot (V 1) ''s'')])],
    fn ''NTd'' 3 0 [Ret (Meth (Call ''JD'' [Dot (V 0) ''c'', K (JNum 72)]) ''Uk'' [V 1, V 2])],
    fn ''OTd'' 3 0 [Ret (Meth (Call ''JD'' [Dot (V 0) ''c'', K (JNum 72)]) ''Vk'' [V 1, V 2])],
    fn ''zee'' 3 0 [Ret (Call ''yee'' [V 0, Call ''JD'' [V 1, K (JNum 344)], V 2])],
    fn ''Bee'' 3 0 [Ret (Call ''Aee'' [V 0, Call ''JD'' [V 1, K (JNum 344)], V 2])],
    fn ''Vee'' 3 0 [Ret (Call ''Uee'' [V 0, Call ''JD'' [V 1, K (JNum 344)], V 2])],
    fn ''Xee'' 3 0 [Ret (Call ''Wee'' [V 0, Call ''JD'' [V 1, K (JNum 344)], V 2])],
    fn ''oMd'' 2 0 [Ret (And (Call ''RD'' [V 1, K (JNum 16)]) (Call ''qFd'' [Dot (V 0) ''c'', V 1]))],
    fn ''zn'' 2 0 [Ret (Cond (Loose (V 1) (K JNull)) (K JNull) (Call ''Ov'' [Dot (V 0) ''b'', V 1]))],
    fn ''Nld'' 1 0 [Ret (Or (Or (Loose (V 0) (G ''Gld'')) (Loose (V 0) (G ''Ild''))) (Loose (V 0) (G ''Hld'')))],
    fn ''$db'' 1 0 [Ret (Cond (Call ''TD'' [V 0]) (Seq (Call ''NDb'' [V 0]) (V 0)) (Meth (V 0) ''se'' []))],
    fn ''_eb'' 1 0 [Ret (And (Neg (Call ''isNaN'' [V 0])) (Neg (Call ''isFinite'' [V 0])))],
    fn ''eub'' 1 0 [Do (Call ''Stb'' [This]), Do (Call ''cub'' [This]), Do (Call ''xe'' [This, V 0])],
    fn ''nmb'' 1 0 [Do (Call ''Zlb'' [This]), Do (Call ''pDb'' [Dot This ''c'', K (JNum 0), Meth (V 0) ''Nc'' []])],
    fn ''Nrb'' 3 0 [Do (Put This ''a'' (V 0)), Do (Put This ''b'' (V 1)), Do (Put This ''c'' (V 2))],
    fn ''btb'' 3 0 [Do (Put This ''a'' (V 0)), Do (Put This ''b'' (V 1)), Do (Put This ''c'' (V 2))],
    fn ''oub'' 3 0 [Do (Put This ''d'' (V 0)), Do (Put This ''b'' (V 2)), Do (Put This ''a'' (V 1))],
    fn ''iAb'' 1 0 [Do (Put This ''a'' (V 0)), Do (Call ''qhb'' []), Do (Call ''Scb'' [Meth (G ''Date'') ''now'' []])],
    fn ''Vb'' 1 0 [When (Neg (V 0)) [Raise (Call ''Lcb'' [New ''nfb'' [G ''Ite'']])] []],
    fn ''Mb'' 2 0 [When (Neg (V 0)) [Raise (Call ''Lcb'' [New ''kfb'' [V 1]])] []],
    fn ''KDb'' 2 0 [When (Neg (Loose (V 0) (V 1))) [Raise (Call ''Lcb'' [New ''Rqb'' []])] []],
    fn ''Eub'' 0 0 [Do (SetG ''Eub'' (G ''qdb'')), Do (SetG ''Cub'' (New ''Fub'' [])), Do (SetG ''Dub'' (New ''Hub'' []))],
    fn ''fHb'' 1 1 [Do (SetV 1 (New ''eHb'' [])), Do (Put (V 1) ''e'' (V 0)), Ret (V 1)],
    fn ''Uce'' 2 1 [Do (SetV 2 (Meth (V 1) ''ni'' [Dot (V 0) ''a''])), Ret (V 2)],
    fn ''lCb'' 3 0 [Do (Call ''QBb'' []), Do (Meth (Dot (V 0) ''a'') ''Wd'' [V 1, V 2]), Ret (V 1)],
    fn ''Dyb'' 1 0 [Do (Call ''Mjb'' [Dot (V 0) ''a'']), Do (Call ''dyb'' [Dot (V 0) ''c'', Dot (V 0) ''b'']), Do (Put (V 0) ''b'' (K JNull))],
    fn ''RJb'' 1 0 [Do (Call ''MJb'' []), Ret (Call ''ks'' [Seq (Call ''UJb'' []) (G ''TJb''), V 0])],
    fn ''aJb'' 1 0 [Do (Call ''$Ib'' []), Ret (Call ''ks'' [Seq (Call ''dJb'' []) (G ''cJb''), V 0])],
    fn ''jIb'' 1 0 [Do (Call ''hIb'' []), Ret (Call ''ks'' [Seq (Call ''mIb'' []) (G ''lIb''), V 0])],
    fn ''nzb'' 1 0 [Do (Call ''jzb'' []), Ret (Call ''ks'' [Seq (Call ''xzb'' []) (G ''wzb''), V 0])],
    fn ''HAb'' 1 0 [Do (Call ''FAb'' []), Ret (Call ''ks'' [Seq (Call ''KAb'' []) (G ''JAb''), V 0])],
    fn ''EHb'' 1 0 [Do (Call ''CHb'' []), Ret (Call ''ks'' [Seq (Call ''HHb'' []) (G ''GHb''), V 0])]]"

definition code_2261_2382 :: "(string \<times> jfun) list" where
  "code_2261_2382 = [
    fn ''TLb'' 1 0 [Do (Call ''RLb'' []), Ret (Call ''ks'' [Seq (Call ''WLb'' []) (G ''VLb''), V 0])],
    fn ''xOb'' 1 0 [Do (Call ''vOb'' []), Ret (Call ''ks'' [Seq (Call ''AOb'' []) (G ''zOb''), V 0])],
    fn ''eQb'' 1 0 [Do (Call ''cQb'' []), Ret (Call ''ks'' [Seq (Call ''hQb'' []) (G ''gQb''), V 0])],
    fn ''$Qb'' 1 0 [Do (Call ''YQb'' []), Ret (Call ''ks'' [Seq (Call ''bRb'' []) (G ''aRb''), V 0])],
    fn ''ZSb'' 1 0 [Do (Call ''TSb'' []), Ret (Call ''ks'' [Seq (Call ''aTb'' []) (G ''_Sb''), V 0])],
    fn ''AUb'' 1 0 [Do (Call ''yUb'' []), Ret (Call ''ks'' [Seq (Call ''DUb'' []) (G ''CUb''), V 0])],
    fn ''aZb'' 1 0 [Do (Call ''$Yb'' []), Ret (Call ''ks'' [Seq (Call ''dZb'' []) (G ''cZb''), V 0])],
    fn ''iZb'' 1 0 [Do (Super ''oYb'' [Dot (V 0) ''d'', Dot (V 0) ''c'', Dot (V 0) ''a'', Dot (V 0) ''b''])],
    fn ''xYb'' 1 0 [Do (Super ''oYb'' [Dot (V 0) ''d'', Dot (V 0) ''c'', Dot (V 0) ''a'', Dot (V 0) ''b''])],
    fn ''IKb'' 3 0 [Do (Put This ''b'' (V 0)), Do (Put This ''c'' (V 1)), Do (Put This ''a'' (V 2))],
    fn ''nWb'' 3 0 [Do (Put This ''b'' (V 0)), Do (Put This ''a'' (V 1)), Do (Put This ''c'' (V 2))],
    fn ''mMb'' 3 0 [Do (Put This ''a'' (V 0)), Do (Put This ''b'' (V 1)), Do (Put This ''c'' (V 2))],
    fn ''V0b'' 3 0 [Do (Put This ''a'' (V 0)), Do (Put This ''b'' (V 1)), Do (Put This ''c'' (V 2))],
    fn ''a4b'' 3 0 [Do (Put This ''a'' (V 0)), Do (Put This ''b'' (V 1)), Do (Put This ''c'' (V 2))],
    fn ''s6b'' 3 0 [Do (Put This ''b'' (V 0)), Do (Put This ''a'' (V 1)), Do (Put This ''c'' (V 2))],
    fn ''kXb'' 3 0 [Do (Put This ''e'' (V 1)), Do (Put This ''b'' (V 0)), Do (Put This ''d'' (V 2))],
    fn ''ELb'' 1 1 [Do (SetV 1 (New ''BLb'' [])), Do (Put (V 1) ''b'' (V 0)), Ret (V 1)],
    fn ''G3b'' 0 0 [Do (SetG ''G3b'' (G ''qdb'')), Do (SetG ''E3b'' (New ''P3b'' [])), Do (SetG ''F3b'' (New ''S3b'' []))],
    fn ''K8b'' 0 0 [Do (SetG ''K8b'' (G ''qdb'')), Do (SetG ''J8b'' (New ''Z8b'' [])), Do (SetG ''I8b'' (New ''c9b'' []))],
    fn ''mec'' 0 0 [Do (SetG ''mec'' (G ''qdb'')), Do (SetG ''kec'' (New ''Pec'' [])), Do (SetG ''lec'' (New ''Rec'' []))],
    fn ''_Kd'' 0 0 [Do (SetG ''_Kd'' (G ''qdb'')), Do (SetG ''$Kd'' (Call ''SC'' [G ''aJ'', G ''Gte'', K (JNum 1), K (JNum 0), K (JNum 5), K (JNum 1)]))],
    fn ''eSd'' 0 0 [Do (SetG ''eSd'' (G ''qdb'')), Do (SetG ''dSd'' (Call ''SC'' [G ''aJ'', G ''Gte'', K (JNum 1), K (JNum 0), K (JNum 5), K (JNum 1)]))],
    fn ''LSd'' 0 0 [Do (SetG ''LSd'' (G ''qdb'')), Do (SetG ''KSd'' (Call ''SC'' [G ''aJ'', G ''Gte'', K (JNum 1), K (JNum 0), K (JNum 5), K (JNum 1)]))],
    fn ''D2b'' 1 0 [Do (Call ''B2b'' []), Ret (Call ''ks'' [Seq (Call ''G2b'' []) (G ''F2b''), V 0])],
    fn ''$5b'' 1 0 [Do (Call ''X5b'' []), Ret (Call ''ks'' [Seq (Call ''b6b'' []) (G ''a6b''), V 0])],
    fn ''m8b'' 1 0 [Do (Call ''j8b'' []), Ret (Call ''ks'' [Seq (Call ''p8b'' []) (G ''o8b''), V 0])],
    fn ''rhc'' 1 0 [Do (Call ''phc'' []), Ret (Call ''ks'' [Seq (Call ''uhc'' []) (G ''thc''), V 0])],
    fn ''Qhc'' 1 0 [Do (Call ''Nhc'' []), Ret (Call ''ks'' [Seq (Call ''Thc'' []) (G ''Shc''), V 0])],
    fn ''Pnc'' 1 0 [Do (Call ''Nnc'' []), Ret (Call ''ks'' [Seq (Call ''Snc'' []) (G ''Rnc''), V 0])],
    fn ''Hnc'' 1 0 [Do (Call ''Fnc'' []), Ret (Call ''ks'' [Seq (Call ''Knc'' []) (G ''Jnc''), V 0])],
    fn ''aoc'' 1 0 [Do (Call ''Xnc'' []), Ret (Call ''ks'' [Seq (Call ''doc'' []) (G ''coc''), V 0])],
    fn ''joc'' 1 0 [Do (Call ''hoc'' []), Ret (Call ''ks'' [Seq (Call ''moc'' []) (G ''loc''), V 0])],
    fn ''Boc'' 1 0 [Do (Call ''woc'' []), Ret (Call ''ks'' [Seq (Call ''Eoc'' []) (G ''Doc''), V 0])],
    fn ''Joc'' 1 0 [Do (Call ''Hoc'' []), Ret (Call ''ks'' [Seq (Call ''Moc'' []) (G ''Loc''), V 0])],
    fn ''Soc'' 1 0 [Do (Call ''Qoc'' []), Ret (Call ''ks'' [Seq (Call ''Voc'' []) (G ''Uoc''), V 0])],
    fn ''xic'' 1 0 [Do (Call ''vic'' []), Ret (Call ''ks'' [Seq (Call ''Aic'' []) (G ''zic''), V 0])],
    fn ''xpc'' 1 0 [Do (Call ''vpc'' []), Ret (Call ''ks'' [Seq (Call ''Apc'' []) (G ''zpc''), V 0])],
    fn ''dpc'' 1 0 [Do (Call ''apc'' []), Ret (Call ''ks'' [Seq (Call ''gpc'' []) (G ''fpc''), V 0])],
    fn ''lpc'' 1 0 [Do (Call ''jpc'' []), Ret (Call ''ks'' [Seq (Call ''opc'' []) (G ''npc''), V 0])],
    fn ''Jpc'' 1 0 [Do (Call ''Hpc'' []), Ret (Call ''ks'' [Seq (Call ''Mpc'' []) (G ''Lpc''), V 0])],
    fn ''Zpc'' 1 0 [Do (Call ''Xpc'' []), Ret (Call ''ks'' [Seq (Call ''aqc'' []) (G ''_pc''), V 0])],
    fn ''gqc'' 1 0 [Do (Call ''eqc'' []), Ret (Call ''ks'' [Seq (Call ''jqc'' []) (G ''iqc''), V 0])],
    fn ''pqc'' 1 0 [Do (Call ''nqc'' []), Ret (Call ''ks'' [Seq (Call ''sqc'' []) (G ''rqc''), V 0])],
    fn ''yqc'' 1 0 [Do (Call ''wqc'' []), Ret (Call ''ks'' [Seq (Call ''Bqc'' []) (G ''Aqc''), V 0])],
    fn ''Gqc'' 1 0 [Do (Call ''Eqc'' []), Ret (Call ''ks'' [Seq (Call ''Jqc'' []) (G ''Iqc''), V 0])],
    fn ''sjc'' 1 0 [Do (Call ''qjc'' []), Ret (Call ''ks'' [Seq (Call ''vjc'' []) (G ''ujc''), V 0])],
    fn ''csc'' 1 0 [Do (Call ''asc'' []), Ret (Call ''ks'' [Seq (Call ''fsc'' []) (G ''esc''), V 0])],
    fn ''ksc'' 1 0 [Do (Call ''isc'' []), Ret (Call ''ks'' [Seq (Call ''nsc'' []) (G ''msc''), V 0])],
    fn ''Vyc'' 1 0 [Do (Call ''Qyc'' []), Ret (Call ''ks'' [Seq (Call ''Yyc'' []) (G ''Xyc''), V 0])],
    fn ''dzc'' 1 0 [Do (Call ''azc'' []), Ret (Call ''ks'' [Seq (Call ''gzc'' []) (G ''fzc''), V 0])],
    fn ''pzc'' 1 0 [Do (Call ''lzc'' []), Ret (Call ''ks'' [Seq (Call ''szc'' []) (G ''rzc''), V 0])],
    fn ''Dzc'' 1 0 [Do (Call ''yzc'' []), Ret (Call ''ks'' [Seq (Call ''Gzc'' []) (G ''Fzc''), V 0])],
    fn ''Tzc'' 1 0 [Do (Call ''Rzc'' []), Ret (Call ''ks'' [Seq (Call ''Wzc'' []) (G ''Vzc''), V 0])],
    fn ''bAc'' 1 0 [Do (Call ''_zc'' []), Ret (Call ''ks'' [Seq (Call ''eAc'' []) (G ''dAc''), V 0])],
    fn ''jAc'' 1 0 [Do (Call ''hAc'' []), Ret (Call ''ks'' [Seq (Call ''mAc'' []) (G ''lAc''), V 0])],
    fn ''sAc'' 1 0 [Do (Call ''qAc'' []), Ret (Call ''ks'' [Seq (Call ''vAc'' []) (G ''uAc''), V 0])],
    fn ''BAc'' 1 0 [Do (Call ''zAc'' []), Ret (Call ''ks'' [Seq (Call ''EAc'' []) (G ''DAc''), V 0])],
    fn ''KAc'' 1 0 [Do (Call ''IAc'' []), Ret (Call ''ks'' [Seq (Call ''NAc'' []) (G ''MAc''), V 0])],
    fn ''cBc'' 1 0 [Do (Call ''aBc'' []), Ret (Call ''ks'' [Seq (Call ''fBc'' []) (G ''eBc''), V 0])],
    fn ''lBc'' 1 0 [Do (Call ''jBc'' []), Ret (Call ''ks'' [Seq (Call ''oBc'' []) (G ''nBc''), V 0])],
    fn ''uBc'' 1 0 [Do (Call ''sBc'' []), Ret (Call ''ks'' [Seq (Call ''xBc'' []) (G ''wBc''), V 0])],
    fn ''mHc'' 1 0 [Do (Call ''kHc'' []), Ret (Call ''ks'' [Seq (Call ''pHc'' []) (G ''oHc''), V 0])],
    fn ''dKc'' 1 0 [Do (Call ''bKc'' []), Ret (Call ''ks'' [Seq (Call ''gKc'' []) (G ''fKc''), V 0])],
    fn ''hNc'' 1 0 [Do (Call ''fNc'' []), Ret (Call ''ks'' [Seq (Call ''kNc'' []) (G ''jNc''), V 0])],
    fn ''pNc'' 1 0 [Do (Call ''nNc'' []), Ret (Call ''ks'' [Seq (Call ''sNc'' []) (G ''rNc''), V 0])],
    fn ''SPc'' 1 0 [Do (Call ''QPc'' []), Ret (Call ''ks'' [Seq (Call ''VPc'' []) (G ''UPc''), V 0])],
    fn ''QRc'' 1 0 [Do (Call ''ORc'' []), Ret (Call ''ks'' [Seq (Call ''TRc'' []) (G ''SRc''), V 0])],
    fn ''MSc'' 1 0 [Do (Call ''HSc'' []), Ret (Call ''ks'' [Seq (Call ''PSc'' []) (G ''OSc''), V 0])],
    fn ''IVc'' 1 0 [Do (Call ''FVc'' []), Ret (Call ''ks'' [Seq (Call ''LVc'' []) (G ''KVc''), V 0])],
    fn ''wWc'' 1 0 [Do (Call ''uWc'' []), Ret (Call ''ks'' [Seq (Call ''zWc'' []) (G ''yWc''), V 0])],
    fn ''dYc'' 1 0 [Do (Call ''bYc'' []), Ret (Call ''ks'' [Seq (Call ''gYc'' []) (G ''fYc''), V 0])],
    fn ''lYc'' 1 0 [Do (Call ''jYc'' []), Ret (Call ''ks'' [Seq (Call ''oYc'' []) (G ''nYc''), V 0])],
    fn ''l_c'' 1 0 [Do (Call ''g_c'' []), Ret (Call ''ks'' [Seq (Call ''o_c'' []) (G ''n_c''), V 0])],
    fn ''U_c'' 1 0 [Do (Call ''R_c'' []), Ret (Call ''ks'' [Seq (Call ''X_c'' []) (G ''W_c''), V 0])],
    fn ''U0c'' 1 0 [Do (Call ''R0c'' []), Ret (Call ''ks'' [Seq (Call ''X0c'' []) (G ''W0c''), V 0])],
    fn ''K0c'' 1 0 [Do (Call ''H0c'' []), Ret (Call ''ks'' [Seq (Call ''N0c'' []) (G ''M0c''), V 0])],
    fn ''X1c'' 1 0 [Do (Call ''U1c'' []), Ret (Call ''ks'' [Seq (Call ''$1c'' []) (G ''Z1c''), V 0])],
    fn ''f2c'' 1 0 [Do (Call ''c2c'' []), Ret (Call ''ks'' [Seq (Call ''i2c'' []) (G ''h2c''), V 0])],
    fn ''S2c'' 1 0 [Do (Call ''Q2c'' []), Ret (Call ''ks'' [Seq (Call ''V2c'' []) (G ''U2c''), V 0])],
    fn ''m3c'' 1 0 [Do (Call ''j3c'' []), Ret (Call ''ks'' [Seq (Call ''p3c'' []) (G ''o3c''), V 0])],
    fn ''V3c'' 1 0 [Do (Call ''T3c'' []), Ret (Call ''ks'' [Seq (Call ''Y3c'' []) (G ''X3c''), V 0])],
    fn ''z5c'' 1 0 [Do (Call ''u5c'' []), Ret (Call ''ks'' [Seq (Call ''C5c'' []) (G ''B5c''), V 0])],
    fn ''b6c'' 1 0 [Do (Call ''Y5c'' []), Ret (Call ''ks'' [Seq (Call ''e6c'' []) (G ''d6c''), V 0])],
    fn ''C6c'' 1 0 [Do (Call ''x6c'' []), Ret (Call ''ks'' [Seq (Call ''F6c'' []) (G ''E6c''), V 0])],
    fn ''C8c'' 1 0 [Do (Call ''y8c'' []), Ret (Call ''ks'' [Seq (Call ''F8c'' []) (G ''E8c''), V 0])],
    fn ''e8c'' 1 0 [Do (Call ''c8c'' []), Ret (Call ''ks'' [Seq (Call ''h8c'' []) (G ''g8c''), V 0])],
    fn ''t8c'' 1 0 [Do (Call ''o8c'' []), Ret (Call ''ks'' [Seq (Call ''w8c'' []) (G ''v8c''), V 0])],
    fn ''K8c'' 1 0 [Do (Call ''I8c'' []), Ret (Call ''ks'' [Seq (Call ''N8c'' []) (G ''M8c''), V 0])],
    fn ''V8c'' 1 0 [Do (Call ''T8c'' []), Ret (Call ''ks'' [Seq (Call ''Y8c'' []) (G ''X8c''), V 0])],
    fn ''q7c'' 1 0 [Do (Call ''o7c'' []), Ret (Call ''ks'' [Seq (Call ''t7c'' []) (G ''s7c''), V 0])],
    fn ''aad'' 1 0 [Do (Call ''X9c'' []), Ret (Call ''ks'' [Seq (Call ''dad'' []) (G ''cad''), V 0])],
    fn ''lad'' 1 0 [Do (Call ''gad'' []), Ret (Call ''ks'' [Seq (Call ''oad'' []) (G ''nad''), V 0])],
    fn ''Xed'' 1 0 [Do (Call ''Ved'' []), Ret (Call ''ks'' [Seq (Call ''$ed'' []) (G ''Zed''), V 0])],
    fn ''jfd'' 1 0 [Do (Call ''hfd'' []), Ret (Call ''ks'' [Seq (Call ''mfd'' []) (G ''lfd''), V 0])],
    fn ''Ngd'' 1 0 [Do (Call ''Lgd'' []), Ret (Call ''ks'' [Seq (Call ''Qgd'' []) (G ''Pgd''), V 0])],
    fn ''qhd'' 1 0 [Do (Call ''ohd'' []), Ret (Call ''ks'' [Seq (Call ''thd'' []) (G ''shd''), V 0])],
    fn ''Ijd'' 1 0 [Do (Call ''Djd'' []), Ret (Call ''ks'' [Seq (Call ''Ljd'' []) (G ''Kjd''), V 0])],
    fn ''Sjd'' 1 0 [Do (Call ''Qjd'' []), Ret (Call ''ks'' [Seq (Call ''Vjd'' []) (G ''Ujd''), V 0])],
    fn ''_jd'' 1 0 [Do (Call ''Zjd'' []), Ret (Call ''ks'' [Seq (Call ''ckd'' []) (G ''bkd''), V 0])],
    fn ''jkd'' 1 0 [Do (Call ''hkd'' []), Ret (Call ''ks'' [Seq (Call ''mkd'' []) (G ''lkd''), V 0])],
    fn ''vkd'' 1 0 [Do (Call ''tkd'' []), Ret (Call ''ks'' [Seq (Call ''ykd'' []) (G ''xkd''), V 0])],
    fn ''Skd'' 1 0 [Do (Call ''Qkd'' []), Ret (Call ''ks'' [Seq (Call ''Vkd'' []) (G ''Ukd''), V 0])],
    fn ''bld'' 1 0 [Do (Call ''$kd'' []), Ret (Call ''ks'' [Seq (Call ''eld'' []) (G ''dld''), V 0])],
    fn ''rld'' 1 0 [Do (Call ''old'' []), Ret (Call ''ks'' [Seq (Call ''uld'' []) (G ''tld''), V 0])],
    fn ''Cld'' 1 0 [Do (Call ''Ald'' []), Ret (Call ''ks'' [Seq (Call ''Fld'' []) (G ''Eld''), V 0])],
    fn ''Qld'' 1 0 [Do (Call ''Mld'' []), Ret (Call ''ks'' [Seq (Call ''Tld'' []) (G ''Sld''), V 0])],
    fn ''cmd'' 1 0 [Do (Call ''$ld'' []), Ret (Call ''ks'' [Seq (Call ''fmd'' []) (G ''emd''), V 0])],
    fn ''Hmd'' 1 0 [Do (Call ''Bmd'' []), Ret (Call ''ks'' [Seq (Call ''Kmd'' []) (G ''Jmd''), V 0])],
    fn ''and'' 1 0 [Do (Call ''$md'' []), Ret (Call ''ks'' [Seq (Call ''dnd'' []) (G ''cnd''), V 0])],
    fn ''knd'' 1 0 [Do (Call ''ind'' []), Ret (Call ''ks'' [Seq (Call ''nnd'' []) (G ''mnd''), V 0])],
    fn ''znd'' 1 0 [Do (Call ''xnd'' []), Ret (Call ''ks'' [Seq (Call ''Cnd'' []) (G ''Bnd''), V 0])],
    fn ''Ind'' 1 0 [Do (Call ''Gnd'' []), Ret (Call ''ks'' [Seq (Call ''Lnd'' []) (G ''Knd''), V 0])],
    fn ''Snd'' 1 0 [Do (Call ''Qnd'' []), Ret (Call ''ks'' [Seq (Call ''cod'' []) (G ''bod''), V 0])],
    fn ''ipd'' 1 0 [Do (Call ''gpd'' []), Ret (Call ''ks'' [Seq (Call ''lpd'' []) (G ''kpd''), V 0])],
    fn ''Xqd'' 1 0 [Do (Call ''Vqd'' []), Ret (Call ''ks'' [Seq (Call ''$qd'' []) (G ''Zqd''), V 0])],
    fn ''bnc'' 2 0 [Ret (Bin Plus (Seq (Call ''NDb'' [V 0]) (V 0)) (Seq (Call ''NDb'' [V 1]) (V 1)))],
    fn ''kQc'' 2 0 [Do (Put This ''c'' (V 0)), Do (Put This ''a'' (V 1)), Do (Put This ''b'' (Bin Minus (V 1) (V 0)))],
    fn ''OBc'' 3 0 [Do (Put This ''a'' (V 0)), Do (Put This ''c'' (V 1)), Do (Put This ''b'' (V 2))],
    fn ''DDd'' 3 0 [Do (Put This ''a'' (V 0)), Do (Put This ''c'' (V 1)), Do (Put This ''b'' (V 2))],
    fn ''LDd'' 3 0 [Do (Put This ''a'' (V 0)), Do (Put This ''b'' (V 1)), Do (Put This ''c'' (V 2))],
    fn ''Rad'' 3 0 [Do (Put This ''a'' (V 0)), Do (Put This ''b'' (V 1)), Do (Put This ''c'' (V 2))],
    fn ''Zad'' 3 0 [Do (Put This ''a'' (V 0)), Do (Put This ''b'' (V 1)), Do (Put This ''c'' (V 2))]]"

definition code_2383_2503 :: "(string \<times> jfun) list" where
  "code_2383_2503 = [
    fn ''Erd'' 3 0 [Do (Put This ''a'' (V 0)), Do (Put This ''b'' (V 1)), Do (Put This ''c'' (V 2))],
    fn ''mOd'' 3 0 [Do (Put This ''a'' (V 0)), Do (Put This ''b'' (V 1)), Do (Put This ''c'' (V 2))],
    fn ''b5c'' 3 0 [Do (Put This ''a'' (V 0)), Do (Put This ''b'' (V 1)), Do (Put This ''c'' (V 2))],
    fn ''t5d'' 3 0 [Do (Put This ''e'' (V 0)), Do (Put This ''a'' (V 1)), Do (Put This ''c'' (V 2))],
    fn ''X5d'' 3 0 [Do (Call ''F5d'' []), Do (Super ''P5d'' [V 0, V 1, V 2])],
    fn ''s7d'' 3 0 [Do (Call ''F5d'' []), Do (Super ''_6d'' [V 0, V 1, V 2])],
    fn ''E7d'' 3 0 [Do (Call ''F5d'' []), Do (Super ''_6d'' [V 0, V 1, V 2])],
    fn ''K7d'' 3 0 [Do (Call ''F5d'' []), Do (Super ''_6d'' [V 0, V 1, V 2])],
    fn ''u7d'' 3 0 [Do (Call ''F5d'' []), Do (Super ''s7d'' [V 0, V 1, V 2])],
    fn ''w7d'' 3 0 [Do (Call ''F5d'' []), Do (Super ''s7d'' [V 0, V 1, V 2])],
    fn ''y7d'' 3 0 [Do (Call ''F5d'' []), Do (Super ''w7d'' [V 0, V 1, V 2])],
    fn ''G7d'' 3 0 [Do (Call ''F5d'' []), Do (Super ''E7d'' [V 0, V 1, V 2])],
    fn ''M7d'' 3 0 [Do (Call ''F5d'' []), Do (Super ''K7d'' [V 0, V 1, V 2])],
    fn ''vEd'' 1 0 [Do (Call ''tEd'' []), Ret (Call ''ks'' [Seq (Call ''yEd'' []) (G ''xEd''), V 0])],
    fn ''ek'' 2 0 [Do (Call ''Qb'' [V 0]), Do (Call ''Qb'' [V 1]), Ret (New ''fk'' [V 0, V 1])],
    fn ''Zq'' 2 0 [Do (Call ''Qb'' [V 0]), Do (Call ''Qb'' [V 1]), Ret (New ''dr'' [V 0, V 1])],
    fn ''br'' 2 0 [Do (Call ''Qb'' [V 0]), Do (Call ''Qb'' [V 1]), Ret (New ''jr'' [V 0, V 1])],
    fn ''ur'' 2 0 [Do (Call ''Qb'' [V 0]), Do (Call ''Qb'' [V 1]), Ret (New ''Ir'' [V 0, V 1])],
    fn ''xx'' 2 0 [Do (Super ''wx'' [V 0, Call ''Mm'' [New ''wnb'' [V 1]]])],
    fn ''cB'' 2 0 [Do (Put This ''c'' (V 0)), Do (Put This ''b'' (V 1)), Do (Put This ''a'' (K (JBool False)))],
    fn ''Mg'' 1 0 [Do (Put This ''d'' (V 0)), Do (Call ''Jg'' [This]), Do (Put This ''b'' (Call ''ed'' [Dot (V 0) ''d'']))],
    fn ''Btb'' 3 0 [Do (Put This ''c'' (V 0)), Do (Super ''Hkb'' [V 1, V 2])],
    fn ''DYd'' 1 0 [Do (And (Neg (Dot (V 0) ''c'')) (Put (V 0) ''c'' (New ''i8d'' []))), Ret (Dot (V 0) ''c'')],
    fn ''QFc'' 1 0 [Do (And (Neg (Dot (V 0) ''e'')) (Put (V 0) ''e'' (New ''lmb'' []))), Ret (Dot (V 0) ''e'')],
    fn ''Vu'' 1 1 [Do (SetV 1 (New ''lmb'' [])), Do (Call ''or'' [V 1, V 0]), Ret (V 1)],
    fn ''Rx'' 1 1 [Do (SetV 1 (New ''hsb'' [])), Do (Call ''or'' [V 1, V 0]), Ret (V 1)],
    fn ''Ux'' 1 1 [Do (SetV 1 (New ''Ezb'' [])), Do (Call ''Vq'' [V 1, V 0]), Ret (V 1)],
    fn ''Zu'' 1 1 [Do (SetV 1 (New ''dub'' [])), Do (Call ''Vq'' [V 1, V 0]), Ret (V 1)],
    fn ''JD'' 2 0 [Do (Call ''VDb'' [Or (Loose (V 0) (K JNull)) (Call ''ID'' [V 0, V 1])]), Ret (V 0)],
    fn ''Twb'' 3 0 [Do (Super ''Hwb'' [V 1, V 2]), Do (Put This ''a'' (V 0))],
    fn ''rBb'' 3 0 [Do (Put This ''b'' (V 0)), Do (Super ''wwb'' [V 1, V 2])],
    fn ''pDb'' 3 0 [Do (Call ''mDb'' [V 2, K (JNum 0), V 0, V 1, Dot (V 2) ''length'', K (JBool False)])],
    fn ''FDb'' 2 0 [When (Neg (V 0)) [Raise (Call ''Lcb'' [New ''kfb'' [V 1]])] []],
    fn ''SDb'' 2 0 [When (Neg (V 0)) [Raise (Call ''Lcb'' [New ''nfb'' [V 1]])] []],
    fn ''JDb'' 2 0 [When (Neg (V 0)) [Raise (Call ''Lcb'' [New ''Jdb'' [V 1]])] []],
    fn ''oCb'' 2 0 [When (V 1) [Do (Put (V 0) ''b'' (V 1)), Do (Put (V 0) ''a'' (Seq (Call ''cBb'' [V 1]) (Dot (V 1) ''a'')))] []],
    fn ''nSb'' 5 0 [Do (Put (V 0) ''b'' (V 1)), Do (Put (V 0) ''c'' (V 2)), Do (Put (V 0) ''d'' (V 3)), Do (Put (V 0) ''a'' (V 4))],
    fn ''iYb'' 5 0 [Do (Put (V 0) ''d'' (V 1)), Do (Put (V 0) ''c'' (V 2)), Do (Put (V 0) ''a'' (V 3)), Do (Put (V 0) ''b'' (V 4))],
    fn ''n2b'' 1 2 [Do (SetV 2 (Dot (V 0) ''d'')), Do (SetV 1 (Dot (V 0) ''a'')), Do (Put (V 0) ''d'' (V 1)), Do (Put (V 0) ''a'' (V 2))],
    fn ''k2b'' 1 2 [Do (SetV 1 (Dot (V 0) ''b'')), Do (SetV 2 (Dot (V 0) ''c'')), Do (Put (V 0) ''b'' (V 2)), Do (Put (V 0) ''c'' (V 1))],
    fn ''aub'' 1 0 [Do (Call ''LDb'' [Neg (Loose (Dot (V 0) ''b'') (K (JNum 0)))]), Ret (Call ''bub'' [V 0, Dot (Dot (V 0) ''c'') ''b''])],
    fn ''_tb'' 1 0 [Do (Call ''LDb'' [Neg (Loose (Dot (V 0) ''b'') (K (JNum 0)))]), Ret (Call ''bub'' [V 0, Dot (Dot (V 0) ''a'') ''a''])],
    fn ''DZc'' 2 0 [Do (Call ''kZc'' []), Ret (Call ''$eb'' [Dot (Dot (V 0) ''e'') ''a'', Dot (Dot (V 1) ''e'') ''a''])],
    fn ''CZc'' 2 0 [Do (Call ''kZc'' []), Ret (Call ''$eb'' [Dot (Dot (V 0) ''e'') ''b'', Dot (Dot (V 1) ''e'') ''b''])],
    fn ''Pkc'' 2 0 [Do (Call ''Ckc'' []), Ret (Call ''rfb'' [Dot (Dot (V 0) ''d'') ''p'', Dot (Dot (V 1) ''d'') ''p''])],
    fn ''hjc'' 2 0 [Ret (Call ''rfb'' [Call ''uZb'' [Dot (V 0) ''d''], Call ''uZb'' [Dot (V 1) ''d'']])],
    fn ''Pyb'' 2 0 [Ret (Cond (And (Neg (Neg (V 1))) (Call ''Qyb'' [V 0, Dot (V 1) ''d''])) (V 1) (K JNull))],
    fn ''jgc'' 2 0 [Ret (Cond (Loose (V 1) (Seq (Call ''Bmd'' []) (G ''Amd''))) (Dot (V 0) ''c'') (Dot (V 0) ''d''))],
    fn ''OIc'' 0 0 [Do (SetG ''OIc'' (G ''qdb'')), Do (SetG ''MIc'' (Seq (Call ''Bmd'' []) (G ''Amd''))), Do (SetG ''NIc'' (G ''gmd''))],
    fn ''bOb'' 0 0 [Do (Put This ''b'' (Call ''Ueb'' [Call ''MD'' [Call ''BEd'' [Seq (Call ''aPb'' []) (G ''WOb'')]]]))],
    fn ''XAb'' 0 0 [Do (Put This ''a'' (K (JStr '';,;''))), Do (Put This ''b'' (K (JStr ''''))), Do (Put This ''c'' (K (JStr '''')))],
    fn ''LSb'' 3 0 [Do (Super ''KSb'' [V 0, V 1]), Do (Put This ''b'' (V 2))],
    fn ''aYd'' 3 0 [Do (Super ''xXd'' [V 0, V 1]), Do (Put This ''c'' (V 2))],
    fn ''MSd'' 1 0 [Do (Call ''LSd'' []), Do (Super ''xSd'' []), Do (Meth This ''_h'' [V 0])],
    fn ''AZd'' 3 0 [Do (Put This ''a'' (V 0)), Do (Super ''$Yd'' [V 1, V 2])],
    fn ''FZd'' 3 0 [Do (Put This ''a'' (V 0)), Do (Super ''$Yd'' [V 1, V 2])],
    fn ''Xde'' 3 0 [Do (Super ''xXd'' [V 0, V 1]), Do (Put This ''c'' (V 2))],
    fn ''jde'' 0 0 [Do (Call ''Ece'' []), Do (Super ''kde'' [Seq (Call ''jRd'' []) (G ''iRd'')])],
    fn ''jre'' 1 0 [Do (Call ''gre'' []), Do (SetG ''fre'' (Bin Minus (G ''fre'') (K (JNum (- 1))))), Ret (New ''Ure'' [K (JNum 0), V 0])],
    fn ''Hie'' 0 0 [Do (SetG ''Hie'' (G ''qdb'')), Do (SetG ''Gie'' (Seq (Call ''Inb'' []) (New ''wob'' [G ''pJe''])))],
    fn ''Ifd'' 1 0 [Ret (New ''lgd'' [Bin Plus (Dot (V 0) ''c'') (Dot (V 0) ''b''), Bin Plus (Dot (V 0) ''d'') (Dot (V 0) ''a'')])],
    fn ''TQd'' 1 0 [Ret (And (Neg (Loose (V 0) (K JNull))) (Neg (Call ''zQd'' [V 0, G ''nQd'', G ''oQd''])))],
    fn ''QQd'' 2 0 [Ret (Bin BitAnd (Bin BitOr (Bin Shl (Call ''WQd'' [V 0]) (K (JNum 4))) (Call ''WQd'' [V 1])) (G ''Pue''))],
    fn ''H4d'' 2 1 [Do (SetV 2 (Dot (V 0) ''c'')), Do (Call ''G4d'' [V 0, V 1]), Ret (V 2)],
    fn ''nod'' 2 0 [Do (Cond (Bin Lt (V 1) (K (JNum 0))) (Put (V 0) ''g'' (K (JNum (- 1)))) (Put (V 0) ''g'' (V 1))), Ret (V 0)],
    fn ''egd'' 2 0 [Do (Call ''bgd'' [V 0]), Do (Put (V 0) ''a'' (Bin Times (Dot (V 0) ''a'') (V 1))), Do (Put (V 0) ''b'' (Bin Times (Dot (V 0) ''b'') (V 1))), Ret (V 0)],
    fn ''Mfd'' 5 0 [Do (Put (V 0) ''c'' (V 1)), Do (Put (V 0) ''d'' (V 2)), Do (Put (V 0) ''b'' (V 3)), Do (Put (V 0) ''a'' (V 4))],
    fn ''Ttb'' 2 0 [Do (Call ''Wtb'' [V 0, V 1, Dot (Dot (V 0) ''c'') ''b'', Dot (V 0) ''c'']), Ret (K (JBool True))],
    fn ''ztb'' 1 0 [Do (Put (Dot (V 0) ''a'') ''b'' (Dot (V 0) ''b'')), Do (Put (Dot (V 0) ''b'') ''a'' (Dot (V 0) ''a'')), Do (Put (V 0) ''a'' (Put (V 0) ''b'' (K JNull)))],
    fn ''Jq'' 1 0 [Do (Put This ''b'' (V 0)), Do (Put This ''a'' (Meth (Call ''bn'' [Dot (Dot This ''b'') ''a'']) ''Md'' []))],
    fn ''dr'' 2 0 [Do (Put This ''b'' (V 0)), Do (Put This ''a'' (V 1)), Do (Super ''xl'' [])],
    fn ''jr'' 2 0 [Do (Put This ''a'' (V 0)), Do (Put This ''b'' (V 1)), Do (Super ''xl'' [])],
    fn ''Nwb'' 2 0 [Do (Super ''Hwb'' [V 1, K (JNum 1040)]), Do (Put This ''a'' (V 0))],
    fn ''Tr'' 1 0 [Do (Super ''qc'' [Dot (V 0) ''length'', K (JNum 0)]), Do (Put This ''a'' (V 0))],
    fn ''VDb'' 1 0 [When (Neg (V 0)) [Raise (Call ''Lcb'' [New ''Seb'' [K JNull]])] []],
    fn ''lDb'' 1 1 [Do (SetV 1 (Meth (V 0) ''slice'' [])), Ret (Call ''XC'' [V 1, V 0])],
    fn ''vHb'' 1 1 [Do (SetV 1 (Dot (V 0) ''n'')), Ret (Bin Plus (Bin Plus (Dot (Dot (V 0) ''a'') ''b'') (Dot (V 1) ''d'')) (Dot (V 1) ''a''))],
    fn ''sIb'' 1 1 [Do (SetV 1 (Dot (V 0) ''n'')), Ret (Bin Plus (Bin Plus (Dot (Dot (V 0) ''e'') ''b'') (Dot (V 1) ''d'')) (Dot (V 1) ''a''))],
    fn ''tIb'' 1 1 [Do (SetV 1 (Dot (V 0) ''n'')), Ret (Bin Plus (Bin Plus (Dot (Dot (V 0) ''e'') ''a'') (Dot (V 1) ''b'')) (Dot (V 1) ''c''))],
    fn ''bYb'' 1 0 [When (Dot (V 0) ''a'') [Ret (Dot (V 0) ''a'')] [], Ret (Call ''vWb'' [V 0])],
    fn ''RUb'' 2 0 [Ret (Call ''QUb'' [V 0, New ''KSb'' [Dot (V 1) ''a'', Dot (V 1) ''b'']])],
    fn ''zWb'' 1 0 [Ret (And (Neg (Call ''AWb'' [V 0])) (Loose (Dot (Dot (Dot (V 0) ''c'') ''i'') ''c'') (Dot (Dot (Dot (V 0) ''d'') ''i'') ''c'')))],
    fn ''qgc'' 2 0 [Ret (Cond (Bin Lt (Dot (V 0) ''c'') (Dot (V 1) ''c'')) (K (JNum (- 1))) (Cond (Loose (Dot (V 0) ''c'') (Dot (V 1) ''c'')) (K (JNum 0)) (K (JNum 1))))],
    fn ''Ehc'' 1 0 [Ret (Bin Minus (Dot (Dot (Dot (V 0) ''b'') ''c'') ''length'') (Dot (Dot (Dot (V 0) ''e'') ''c'') ''length''))],
    fn ''uZb'' 1 0 [Ret (Bin Minus (Dot (Dot (Dot (V 0) ''e'') ''c'') ''length'') (Dot (Dot (Dot (V 0) ''g'') ''c'') ''length''))],
    fn ''sZb'' 1 0 [Ret (Bin Plus (Dot (Dot (Dot (V 0) ''e'') ''c'') ''length'') (Dot (Dot (Dot (V 0) ''g'') ''c'') ''length''))],
    fn ''Vfb'' 1 0 [Ret (Cond (Or (Loose (V 0) (K (JNum 0))) (Call ''isNaN'' [V 0])) (V 0) (Cond (Bin Lt (V 0) (K (JNum 0))) (K (JNum (- 1))) (K (JNum 1))))],
    fn ''KYc'' 1 0 [Ret (Seq (Call ''AYc'' []) (Call ''SC'' [G ''b$'', G ''QCe'', K (JNum 40), V 0, K (JNum 0), K (JNum 1)]))],
    fn ''BRc'' 3 0 [Ret (Call ''hjb'' [Dot (V 0) ''b'', Call ''JD'' [Dot (V 2) ''b'', K (JNum 17)], V 1])],
    fn ''CRc'' 3 0 [Ret (Call ''hjb'' [Dot (V 0) ''b'', Call ''JD'' [Dot (V 2) ''b'', K (JNum 17)], V 1])],
    fn ''FZc'' 3 0 [Do (Call ''kZc'' []), Ret (Bin Plus (Bin Plus (Dot (Dot (V 2) ''e'') ''b'') (Dot (Dot (V 2) ''f'') ''b'')) (Bin Times (V 0) (V 1)))],
    fn ''vZc'' 3 0 [Do (Call ''kZc'' []), Ret (Bin Plus (Bin Plus (Dot (Dot (V 2) ''e'') ''a'') (Dot (Dot (V 2) ''f'') ''a'')) (Bin Times (V 0) (V 1)))],
    fn ''mLc'' 1 0 [Do (Call ''OKc'' []), Ret (Meth (Seq (Call ''Bmd'' []) (G ''lmd'')) ''Gc'' [Dot (V 0) ''j''])],
    fn ''bqd'' 2 0 [Ret (Call ''_lb'' [V 0, New ''lgd'' [Dot (V 1) ''a'', Dot (V 1) ''b'']])],
    fn ''OAd'' 3 1 [Do (SetV 3 (New ''GC'' [V 2])), Do (Call ''kC'' [V 0, V 1, V 3])],
    fn ''sDb'' 3 1 [Do (SetV 3 (Idx (V 0) (V 1))), Do (PutIdx (V 0) (V 1) (V 2)), Ret (V 3)],
    fn ''tHd'' 2 1 [Do (Put (V 0) ''j'' (Bin Minus (Dot (V 0) ''j'') (K (JNum (- 1))))), Do (SetV 2 (Meth (V 0) ''Aj'' [V 1])), Ret (V 2)],
    fn ''kcd'' 3 0 [Do (Put (V 0) ''a'' (K (JNum (- 1)))), Do (Call ''ocd'' [V 0, Dot (V 1) ''g'', V 2]), Ret (V 0)],
    fn ''h7c'' 4 0 [Do (Super ''i7c'' [V 0, V 1, V 2, V 3, K (JNum 0), K (JNum 0)])],
    fn ''Bje'' 2 0 [Do (Super ''Rie'' [V 0, V 1]), Do (Put This ''a'' This)],
    fn ''YSd'' 1 0 [Do (Call ''LSd'' []), Do (Super ''MSd'' [V 0]), Do (Put This ''a'' (K (JNum (- 1))))],
    fn ''Vnd'' 0 0 [Do (Super ''Rnd'' [K (JStr ''COUNT_CHILDREN''), K (JNum 0)])],
    fn ''oSb'' 0 0 [Do (Call ''nSb'' [This, K (JBool False), K (JBool False), K (JBool False), K (JBool False)])],
    fn ''Efb'' 0 0 [Do (SetG ''Efb'' (G ''qdb'')), Do (SetG ''Dfb'' (Call ''SC'' [G ''UI'', G ''aue'', K (JNum 15), K (JNum 256), K (JNum 0), K (JNum 1)]))],
    fn ''mx'' 0 0 [Do (SetG ''mx'' (G ''qdb'')), Do (New ''ox'' [Seq (Call ''il'' []) (G ''hl''), Seq (Call ''Uk'' []) (G ''Tk'')])],
    fn ''_w'' 1 0 [Do (Meth (Dot (V 0) ''a'') ''jd'' []), Do (Meth (Call ''JD'' [Meth (Dot (V 0) ''a'') ''kd'' [], K (JNum 18)]) ''gc'' []), Do (Call ''Fh'' [])],
    fn ''bj'' 1 0 [Ret (Bin Times (Meth (Meth (Dot (V 0) ''e'') ''Pd'' []) ''gc'' []) (Meth (Meth (Dot (V 0) ''c'') ''Pd'' []) ''gc'' []))],
    fn ''dk'' 3 0 [Ret (New ''pk'' [Meth (Call ''ABb'' [V 0]) ''Ze'' [], V 2, V 1])],
    fn ''Dx'' 0 0 [Do (SetG ''Dx'' (G ''qdb'')), Do (SetG ''Cx'' (New ''Ex'' [Seq (Seq (Call ''Inb'' []) (Call ''Inb'' [])) (G ''Fnb'')]))],
    fn ''Lx'' 0 0 [Do (SetG ''Lx'' (G ''qdb'')), Do (SetG ''Kx'' (New ''Mx'' [Seq (Seq (Call ''Inb'' []) (Call ''Inb'' [])) (G ''Hnb'')]))],
    fn ''heb'' 0 0 [Do (SetG ''heb'' (G ''qdb'')), Do (SetG ''geb'' (Call ''SC'' [G ''HI'', G ''aue'', K (JNum 221), K (JNum 256), K (JNum 0), K (JNum 1)]))],
    fn ''teb'' 0 0 [Do (SetG ''teb'' (G ''qdb'')), Do (SetG ''seb'' (Call ''SC'' [G ''II'', G ''aue'', K (JNum 180), K (JNum 128), K (JNum 0), K (JNum 1)]))],
    fn ''Tfb'' 0 0 [Do (SetG ''Tfb'' (G ''qdb'')), Do (SetG ''Sfb'' (Call ''SC'' [G ''XI'', G ''aue'', K (JNum 190), K (JNum 256), K (JNum 0), K (JNum 1)]))],
    fn ''ngb'' 0 0 [Do (SetG ''ngb'' (G ''qdb'')), Do (SetG ''mgb'' (Call ''SC'' [G ''cJ'', G ''aue'', K (JNum 191), K (JNum 256), K (JNum 0), K (JNum 1)]))],
    fn ''zTd'' 2 0 [Do (Call ''ATd'' [V 0, Cond (Loose (V 1) (K JNull)) (K JNull) (Seq (Call ''NDb'' [V 1]) (V 1))])],
    fn ''D4d'' 2 0 [Do (Call ''F4d'' [V 0, Cond (Loose (V 1) (K JNull)) (K JNull) (Seq (Call ''NDb'' [V 1]) (V 1))])],
    fn ''E4d'' 2 0 [Do (Call ''F4d'' [V 0, Cond (Loose (V 1) (K JNull)) (K JNull) (Seq (Call ''NDb'' [V 1]) (V 1))])],
    fn ''Eeb'' 2 1 [Do (SetV 2 (Call ''Beb'' [V 0, V 1])), Do (Put (V 2) ''i'' (K (JNum 2))), Ret (V 2)],
    fn ''ihb'' 2 0 [Do (Put (V 0) ''a'' (Bin Plus (Dot (V 0) ''a'') (Call ''Sgb'' [V 1, K (JNum 0), Dot (V 1) ''length'']))), Ret (V 0)],
    fn ''dmb'' 2 0 [Do (Call ''MDb'' [V 1, Dot (Dot (V 0) ''c'') ''length'']), Ret (Idx (Dot (V 0) ''c'') (V 1))],
    fn ''unb'' 2 0 [Do (Call ''MDb'' [V 1, Dot (Dot (V 0) ''a'') ''length'']), Ret (Idx (Dot (V 0) ''a'') (V 1))]]"

definition object_table4 :: "(string \<times> jfun) list" where
  "object_table4 = code_2013_2137 @ code_2139_2260 @ code_2261_2382 @ code_2383_2503"

lemmas object_table4_defs = object_table4_def code_2013_2137_def code_2139_2260_def code_2261_2382_def code_2383_2503_def

text \<open>The names each table declares.\<close>

lemma names_2013_2137 [js_names]: "map fst code_2013_2137 = [
    ''RAc'', ''Kec'', ''iGb'', ''jGb'', ''mRb'', ''bsd'', ''b1d'', ''C1d'', ''Zdc'', ''DKd'',
    ''PKd'', ''SKd'', ''Ig'', ''ocd'', ''lNd'', ''xj'', ''rm'', ''kre'', ''Xu'', ''ts'',
    ''bA'', ''zgb'', ''$t'', ''q2b'', ''qc'', ''Zgb'', ''Xtb'', ''Ytb'', ''YKb'', ''Cyb'',
    ''cs'', ''ds'', ''htb'', ''Jlb'', ''EDb'', ''RDb'', ''IDb'', ''LDb'', ''lvb'', ''dvb'',
    ''gUb'', ''Atb'', ''sgc'', ''EZc'', ''uZc'', ''wZc'', ''GZc'', ''Cyc'', ''pic'', ''Mbd'',
    ''M_b'', ''pNb'', ''hOb'', ''aOb'', ''ggd'', ''agd'', ''hgd'', ''Ufd'', ''zcd'', ''apd'',
    ''Agd'', ''z8c'', ''dUd'', ''r1d'', ''Q1d'', ''U1d'', ''S1d'', ''eMd'', ''eBd'', ''fBd'',
    ''N2d'', ''E$d'', ''k7d'', ''A7d'', ''I7d'', ''m7d'', ''o7d'', ''q7d'', ''C7d'', ''hde'',
    ''yee'', ''Aee'', ''Nee'', ''Hse'', ''tle'', ''ule'', ''mle'', ''qle'', ''veb'', ''LD'',
    ''MD'', ''OD'', ''wxd'', ''q4d'', ''Ng'', ''Kf'', ''Sf'', ''_g'', ''dh'', ''nBb'',
    ''HBb'', ''rn'', ''Pzb'', ''Qzb'', ''Tdb'', ''AMb'', ''qAb'', ''B_b'', ''e7b'', ''odd'',
    ''qdd'', ''lgc'', ''Hfd'', ''nMc'', ''mBd'', ''vIb'', ''Ewd'', ''Xwd'', ''eAd'', ''rHd'',
    ''pHd'', ''O0d'', ''oKd'', ''J$d'', ''S2d'']"
  by (simp add: code_2013_2137_def fn_def)

lemma names_2139_2260 [js_names]: "map fst code_2139_2260 = [
    ''g0c'', ''yOd'', ''d_c'', ''uKb'', ''fg'', ''vy'', ''bq'', ''iq'', ''vz'', ''PD'',
    ''Pfb'', ''sMd'', ''Oie'', ''Jz'', ''drb'', ''jhb'', ''Akb'', ''Mkb'', ''Jsb'', ''Ksb'',
    ''Sjb'', ''itb'', ''mCb'', ''Udb'', ''nDb'', ''DEd'', ''f5d'', ''d8d'', ''wHb'', ''aYb'',
    ''DEb'', ''GNb'', ''OPb'', ''S_b'', ''DEc'', ''WJc'', ''eVc'', ''QSc'', ''Ybc'', ''uHb'',
    ''TA'', ''Vfd'', ''igd'', ''ncd'', ''Nzd'', ''yBd'', ''zBd'', ''T3d'', ''wYb'', ''Bge'',
    ''Fge'', ''$ge'', ''ahe'', ''ehe'', ''ghe'', ''jhe'', ''lhe'', ''ohe'', ''Qhe'', ''rKd'',
    ''ghc'', ''Uhe'', ''Vhe'', ''x4b'', ''y4b'', ''zk'', ''QWd'', ''Egb'', ''vgb'', ''Veb'',
    ''A8d'', ''FCb'', ''LCb'', ''RCb'', ''vQb'', ''$Pb'', ''Zjc'', ''$jc'', ''A_b'', ''vAb'',
    ''Swb'', ''pCb'', ''_p'', ''TKd'', ''pk'', ''mJc'', ''KJd'', ''FYb'', ''bTc'', ''_Sc'',
    ''iQc'', ''NTd'', ''OTd'', ''zee'', ''Bee'', ''Vee'', ''Xee'', ''oMd'', ''zn'', ''Nld'',
    ''$db'', ''_eb'', ''eub'', ''nmb'', ''Nrb'', ''btb'', ''oub'', ''iAb'', ''Vb'', ''Mb'',
    ''KDb'', ''Eub'', ''fHb'', ''Uce'', ''lCb'', ''Dyb'', ''RJb'', ''aJb'', ''jIb'', ''nzb'',
    ''HAb'', ''EHb'']"
  by (simp add: code_2139_2260_def fn_def)

lemma names_2261_2382 [js_names]: "map fst code_2261_2382 = [
    ''TLb'', ''xOb'', ''eQb'', ''$Qb'', ''ZSb'', ''AUb'', ''aZb'', ''iZb'', ''xYb'', ''IKb'',
    ''nWb'', ''mMb'', ''V0b'', ''a4b'', ''s6b'', ''kXb'', ''ELb'', ''G3b'', ''K8b'', ''mec'',
    ''_Kd'', ''eSd'', ''LSd'', ''D2b'', ''$5b'', ''m8b'', ''rhc'', ''Qhc'', ''Pnc'', ''Hnc'',
    ''aoc'', ''joc'', ''Boc'', ''Joc'', ''Soc'', ''xic'', ''xpc'', ''dpc'', ''lpc'', ''Jpc'',
    ''Zpc'', ''gqc'', ''pqc'', ''yqc'', ''Gqc'', ''sjc'', ''csc'', ''ksc'', ''Vyc'', ''dzc'',
    ''pzc'', ''Dzc'', ''Tzc'', ''bAc'', ''jAc'', ''sAc'', ''BAc'', ''KAc'', ''cBc'', ''lBc'',
    ''uBc'', ''mHc'', ''dKc'', ''hNc'', ''pNc'', ''SPc'', ''QRc'', ''MSc'', ''IVc'', ''wWc'',
    ''dYc'', ''lYc'', ''l_c'', ''U_c'', ''U0c'', ''K0c'', ''X1c'', ''f2c'', ''S2c'', ''m3c'',
    ''V3c'', ''z5c'', ''b6c'', ''C6c'', ''C8c'', ''e8c'', ''t8c'', ''K8c'', ''V8c'', ''q7c'',
    ''aad'', ''lad'', ''Xed'', ''jfd'', ''Ngd'', ''qhd'', ''Ijd'', ''Sjd'', ''_jd'', ''jkd'',
    ''vkd'', ''Skd'', ''bld'', ''rld'', ''Cld'', ''Qld'', ''cmd'', ''Hmd'', ''and'', ''knd'',
    ''znd'', ''Ind'', ''Snd'', ''ipd'', ''Xqd'', ''bnc'', ''kQc'', ''OBc'', ''DDd'', ''LDd'',
    ''Rad'', ''Zad'']"
  by (simp add: code_2261_2382_def fn_def)

lemma names_2383_2503 [js_names]: "map fst code_2383_2503 = [
    ''Erd'', ''mOd'', ''b5c'', ''t5d'', ''X5d'', ''s7d'', ''E7d'', ''K7d'', ''u7d'', ''w7d'',
    ''y7d'', ''G7d'', ''M7d'', ''vEd'', ''ek'', ''Zq'', ''br'', ''ur'', ''xx'', ''cB'',
    ''Mg'', ''Btb'', ''DYd'', ''QFc'', ''Vu'', ''Rx'', ''Ux'', ''Zu'', ''JD'', ''Twb'',
    ''rBb'', ''pDb'', ''FDb'', ''SDb'', ''JDb'', ''oCb'', ''nSb'', ''iYb'', ''n2b'', ''k2b'',
    ''aub'', ''_tb'', ''DZc'', ''CZc'', ''Pkc'', ''hjc'', ''Pyb'', ''jgc'', ''OIc'', ''bOb'',
    ''XAb'', ''LSb'', ''aYd'', ''MSd'', ''AZd'', ''FZd'', ''Xde'', ''jde'', ''jre'', ''Hie'',
    ''Ifd'', ''TQd'', ''QQd'', ''H4d'', ''nod'', ''egd'', ''Mfd'', ''Ttb'', ''ztb'', ''Jq'',
    ''dr'', ''jr'', ''Nwb'', ''Tr'', ''VDb'', ''lDb'', ''vHb'', ''sIb'', ''tIb'', ''bYb'',
    ''RUb'', ''zWb'', ''qgc'', ''Ehc'', ''uZb'', ''sZb'', ''Vfb'', ''KYc'', ''BRc'', ''CRc'',
    ''FZc'', ''vZc'', ''mLc'', ''bqd'', ''OAd'', ''sDb'', ''tHd'', ''kcd'', ''h7c'', ''Bje'',
    ''YSd'', ''Vnd'', ''oSb'', ''Efb'', ''mx'', ''_w'', ''bj'', ''dk'', ''Dx'', ''Lx'',
    ''heb'', ''teb'', ''Tfb'', ''ngb'', ''zTd'', ''D4d'', ''E4d'', ''Eeb'', ''ihb'', ''dmb'',
    ''unb'']"
  by (simp add: code_2383_2503_def fn_def)

end
