(* ===== verification/ObjectTable5.thy ===== *)
theory ObjectTable5
  imports ObjectCode
begin

text \<open>
  Functions of \<open>layout-worker.js\<close>, lines 2504 to 2974, in the order of the file, one per line:
  operations of the runtime's collections, iterators and text buffers, accessors and small algorithms
  of the layout engine, with their loops, \<open>switch\<close> and \<open>try\<close> statements. An entry has the name, the
  number of parameters, the number of further local variables and the body; parameters and locals
  are numbered from 0, the variable of a \<open>catch\<close> has a number of its own, \<open>x++\<close> is \<open>(x=x+1)-1\<close>. Lines
  with a construct outside \<open>jexp\<close> and \<open>jstm\<close> (closures, \<open>in\<close>, floating-point literals, host objects) are
  left out.
\<close>

definition code_2504_2548 :: "(string \<times> jfun) list" where
  "code_2504_2548 = [
    fn ''$mb'' 2 1 [Do (SetV 2 (K (JNum 0))), Loop (Bin Lt (V 2) (V 1)) [Do (PutIdx (V 0) (V 2) (K (JNum (- 1))))] [Do (SetV 2 (Bin Minus (V 2) (K (JNum (- 1)))))]],
    fn ''Dqb'' 2 0 [Ret (Seq (Call ''NDb'' [V 0]) (Call ''Vdb'' [V 0, Seq (Call ''NDb'' [V 1]) (V 1)]))],
    fn ''Iqb'' 2 0 [Ret (Seq (Call ''NDb'' [V 1]) (Call ''Vdb'' [V 1, Seq (Call ''NDb'' [V 0]) (V 0)]))],
    fn ''nNb'' 1 0 [Ret (Cond (Neg (Dot (V 0) ''q'')) (Seq (Seq (Call ''Inb'' []) (Call ''Inb'' [])) (G ''Gnb'')) (Dot (V 0) ''q''))],
    fn ''rr'' 1 0 [Do (Call ''Qb'' [V 0]), Loop (Meth (V 0) ''Ob'' []) [Do (Meth (V 0) ''Pb'' []), Do (Meth (V 0) ''Qb'' [])] []],
    fn ''kt'' 1 0 [When (Neg (Loose (Dot (Dot (V 0) ''c'') ''e'') (Dot (V 0) ''a''))) [Raise (Call ''Lcb'' [New ''Rqb'' []])] []],
    fn ''ru'' 1 0 [When (Neg (Loose (Dot (Dot (V 0) ''e'') ''c'') (Dot (V 0) ''b''))) [Raise (Call ''Lcb'' [New ''Rqb'' []])] []],
    fn ''vrb'' 1 0 [Do (Put This ''c'' (V 0)), Do (Put This ''a'' (New ''Wrb'' [Dot (Dot This ''c'') ''a'']))],
    fn ''Vgc'' 1 0 [Do (Put This ''a'' (V 0)), Do (Put This ''c'' (New ''_rb'' [])), Do (Call ''Pgc'' [This])],
    fn ''kf'' 1 0 [Do (Put This ''c'' (V 0)), Do (Put This ''b'' (Meth (Meth (Dot (Dot This ''c'') ''d'') ''vc'' []) ''Jc'' []))],
    fn ''jsb'' 1 0 [Do (Put This ''a'' (New ''asb'' [Meth (V 0) ''gc'' []])), Do (Call ''xe'' [This, V 0])],
    fn ''Rtb'' 1 0 [Do (Super ''ksb'' [New ''otb'' []]), Do (Call ''xe'' [This, V 0])],
    fn ''jCb'' 2 0 [Do (Call ''QBb'' []), Do (Super ''eBb'' [V 0]), Do (Put This ''a'' (V 1))],
    fn ''oYb'' 4 0 [Do (Call ''fYb'' [This]), Do (Call ''iYb'' [This, V 0, V 1, V 2, V 3])],
    fn ''QC'' 6 0 [Ret (Call ''RC'' [V 0, V 1, V 2, V 3, V 4, K (JNum 0), V 5])],
    fn ''ilc'' 3 0 [Ret (Call ''rfb'' [Idx (Dot (V 1) ''d'') (Dot (V 0) ''g''), Idx (Dot (V 2) ''d'') (Dot (V 0) ''g'')])],
    fn ''iJc'' 3 0 [Ret (Call ''rfb'' [Idx (Dot (V 0) ''d'') (Dot (V 1) ''p''), Idx (Dot (V 0) ''d'') (Dot (V 2) ''p'')])],
    fn ''fJc'' 3 0 [Ret (Call ''rfb'' [Idx (Dot (V 0) ''d'') (Dot (V 1) ''p''), Idx (Dot (V 0) ''d'') (Dot (V 2) ''p'')])],
    fn ''gJc'' 3 0 [Ret (Call ''rfb'' [Idx (Dot (V 0) ''d'') (Dot (V 1) ''p''), Idx (Dot (V 0) ''d'') (Dot (V 2) ''p'')])],
    fn ''hJc'' 3 0 [Ret (Call ''rfb'' [Idx (Dot (V 0) ''d'') (Dot (V 1) ''p''), Idx (Dot (V 0) ''d'') (Dot (V 2) ''p'')])],
    fn ''w7c'' 3 0 [Ret (Meth (Dot (G ''$wnd'') ''Math'') ''min'' [Bin Divide (V 2) (V 0), Bin Divide (K (JNum 1)) (V 1)])],
    fn ''kFc'' 2 0 [Ret (Cond (V 0) (K (JNum 0)) (Meth (Dot (G ''$wnd'') ''Math'') ''max'' [K (JNum 0), Bin Minus (V 1) (K (JNum 1))]))],
    fn ''kgc'' 1 0 [Ret (Bin Minus (Dot (V 0) ''c'') (Dot (Call ''JD'' [Call ''dmb'' [Dot (V 0) ''a'', Dot (V 0) ''b''], K (JNum 295)]) ''b''))],
    fn ''DQd'' 2 0 [Ret (Cond (Loose (V 0) (K JNull)) (Loose (V 1) (K JNull)) (Call ''vgb'' [V 0, V 1]))],
    fn ''EQd'' 2 0 [Ret (Cond (Loose (V 0) (K JNull)) (Loose (V 1) (K JNull)) (Call ''wgb'' [V 0, V 1]))],
    fn ''lre'' 2 0 [Do (Call ''gre'' []), Do (SetG ''fre'' (Bin Minus (G ''fre'') (K (JNum (- 1))))), Ret (New ''bse'' [V 0, V 1])],
    fn ''Ure'' 2 0 [Do (Call ''gre'' []), Do (Super ''hre'' [V 0]), Do (Put This ''a'' (V 1))],
    fn ''$6d'' 2 0 [Do (Call ''F5d'' []), Do (Super ''G5d'' [V 1]), Do (Put This ''a'' (V 0))],
    fn ''aRd'' 1 0 [Do (Super ''oGd'' [Meth (V 0) ''gc'' []]), Do (Call ''nFd'' [This, V 0])],
    fn ''v8d'' 3 0 [Do (Put This ''a'' (V 0)), Do (Super ''iYd'' [V 1, V 2, K (JNum 2)])],
    fn ''Pqd'' 1 0 [Do (Put This ''b'' (New ''dub'' [])), Do (Put This ''a'' (V 0)), Do (Put This ''c'' (K (JNum (- 1))))],
    fn ''Vod'' 1 0 [When (Dot (V 0) ''c'') [Ret (Dot (Dot (V 0) ''c'') ''f'')] [], Ret (Dot (Dot (V 0) ''e'') ''b'')],
    fn ''Wod'' 1 0 [When (Dot (V 0) ''c'') [Ret (Dot (Dot (V 0) ''c'') ''g'')] [], Ret (Dot (Dot (V 0) ''e'') ''a'')],
    fn ''gdb'' 1 0 [When (Call ''Vcb'' [V 0]) [Ret (Bin BitOr (V 0) (K (JNum 0)))] [], Ret (Call ''xD'' [V 0])],
    fn ''u_c'' 1 1 [Do (SetV 1 (Call ''A_c'' [V 0])), Ret (Cond (Neg (V 1)) (V 0) (Call ''u_c'' [V 1]))],
    fn ''$mc'' 2 0 [Do (And (Loose (Dot (V 0) ''a'') (K JNull)) (Call ''Ymc'' [V 0])), Ret (Idx (Dot (V 0) ''a'') (V 1))],
    fn ''Wz'' 2 0 [Do (And (Neg (V 0)) (SetV 0 (NewArr []))), Do (PutIdx (V 0) (Dot (V 0) ''length'') (V 1)), Ret (V 0)],
    fn ''Grb'' 2 1 [Do (SetV 2 (Call ''Frb'' [V 0])), Do (Call ''Jnb'' [V 2, V 1]), Ret (V 2)],
    fn ''Zmb'' 3 1 [Do (SetV 3 (K (JNum 0))), Loop (Bin Lt (V 3) (V 1)) [Do (PutIdx (V 0) (V 3) (V 2))] [Do (SetV 3 (Bin Minus (V 3) (K (JNum (- 1)))))]],
    fn ''$lb'' 3 0 [Do (Call ''PDb'' [V 1, Dot (Dot (V 0) ''c'') ''length'']), Do (Call ''oDb'' [Dot (V 0) ''c'', V 1, V 2])],
    fn ''gnb'' 3 0 [Do (Call ''GDb'' [K (JNum 0), V 1, Dot (V 0) ''length'']), Do (Call ''enb'' [V 0, K (JNum 0), V 1, V 2])],
    fn ''Jrb'' 2 0 [Ret (And (Call ''RD'' [V 1, K (JNum 24)]) (Call ''Krb'' [V 0, Call ''JD'' [V 1, K (JNum 24)]]))],
    fn ''Lrb'' 2 0 [Ret (And (Call ''RD'' [V 1, K (JNum 24)]) (Call ''Mrb'' [V 0, Call ''JD'' [V 1, K (JNum 24)]]))],
    fn ''ysb'' 2 0 [Ret (Call ''wsb'' [V 0, V 1, Call ''xsb'' [V 0, Meth (Dot (V 0) ''b'') ''Ae'' [V 1]]])],
    fn ''Rsb'' 2 0 [Ret (Neg (Same (Meth (Dot (V 0) ''a'') ''get'' [V 1]) (K JUndef)))]]"

definition code_2550_2598 :: "(string \<times> jfun) list" where
  "code_2550_2598 = [
    fn ''Pvb'' 1 0 [Ret (Bin Plus (Bin Times (Call ''Rvb'' [V 0, K (JNum 26)]) (G ''Yve'')) (Bin Times (Call ''Rvb'' [V 0, K (JNum 27)]) (G ''Zve'')))],
    fn ''sMb'' 2 0 [Do (Call ''tMb'' [V 0, Call ''igd'' [New ''lgd'' [Dot (V 1) ''a'', Dot (V 1) ''b''], Dot (V 0) ''c'']])],
    fn ''tMb'' 2 0 [Do (Call ''Vfd'' [Dot (V 0) ''c'', V 1]), Do (Put (Dot (V 0) ''b'') ''c'' (Bin Plus (Dot (Dot (V 0) ''b'') ''c'') (Dot (V 1) ''a''))), Do (Put (Dot (V 0) ''b'') ''d'' (Bin Plus (Dot (Dot (V 0) ''b'') ''d'') (Dot (V 1) ''b'')))],
    fn ''hg'' 1 0 [Do (Cond (Dot (V 0) ''b'') (Call ''hg'' [Dot (V 0) ''b'']) (And (Meth (Dot (V 0) ''d'') ''dc'' []) (Meth (Dot (Dot (V 0) ''f'') ''c'') ''Ac'' [Dot (V 0) ''e''])))],
    fn ''IHb'' 3 1 [When (V 0) [Do (SetV 3 (Dot (V 0) ''i'')), Do (Put (V 3) ''c'' (V 1)), Do (Put (V 3) ''b'' (V 2))] []],
    fn ''JHb'' 3 1 [When (V 0) [Do (SetV 3 (Dot (V 0) ''i'')), Do (Put (V 3) ''d'' (V 1)), Do (Put (V 3) ''a'' (V 2))] []],
    fn ''XCc'' 3 0 [Ret (Minus1 (Call ''rfb'' [Idx (Dot (V 0) ''f'') (Dot (V 1) ''p''), Idx (Dot (V 0) ''f'') (Dot (V 2) ''p'')]))],
    fn ''X7c'' 3 0 [Ret (Call ''esb'' [V 0, New ''kEb'' [Dot (V 1) ''a'', Dot (V 2) ''a'']])],
    fn ''Ncc'' 3 0 [Do (Call ''Icc'' [V 2, V 0, K (JNum 1)]), Do (Call ''_lb'' [V 1, New ''ydc'' [V 2, V 0]])],
    fn ''Occ'' 3 0 [Do (Call ''Jcc'' [V 2, V 0, K (JNum 1)]), Do (Call ''_lb'' [V 1, New ''Kdc'' [V 2, V 0]])],
    fn ''xzd'' 3 0 [Do (SetV 2 (Call ''Vsd'' [V 0, Call ''JD'' [V 1, K (JNum 52)], K (JNum 7), V 2])), Ret (V 2)],
    fn ''uTd'' 3 0 [Do (SetV 2 (Call ''Vsd'' [V 0, Call ''JD'' [V 1, K (JNum 52)], K (JNum 3), V 2])), Ret (V 2)],
    fn ''icd'' 3 0 [Do (Put (V 0) ''a'' (K (JNum (- 1)))), Do (Call ''ocd'' [V 0, Bin Plus (Dot (V 1) ''g'') (K (JNum 1)), V 2]), Ret (V 0)],
    fn ''uYd'' 3 0 [Do (Put This ''a'' (V 0)), Do (Super ''mYd'' [V 1, V 2, K (JNum 22)])],
    fn ''F3d'' 3 0 [Do (Put This ''a'' (V 0)), Do (Super ''mYd'' [V 1, V 2, K (JNum 14)])],
    fn ''R6d'' 4 0 [Do (Call ''F5d'' []), Do (Super ''$5d'' [V 0, V 1, V 2, V 3])],
    fn ''Y6d'' 4 0 [Do (Call ''F5d'' []), Do (Super ''$5d'' [V 0, V 1, V 2, V 3])],
    fn ''qZd'' 2 0 [Do (And (And (Neg (Loose (Bin BitAnd (Dot (V 1) ''Bb'') (G ''$Fe'')) (K (JNum 0)))) (Neg (Dot (Dot (V 0) ''a'') ''o''))) (Put (Dot (V 0) ''a'') ''o'' (V 1)))],
    fn ''XLb'' 2 0 [Do (Put This ''b'' (New ''dub'' [])), Do (Put This ''a'' (V 0)), Do (Put This ''c'' (V 1))],
    fn ''uSb'' 0 0 [Do (Put This ''b'' (New ''GSb'' [])), Do (Put This ''c'' (New ''ySb'' [This]))],
    fn ''yFb'' 0 0 [Do (Put This ''d'' (New ''MFb'' [])), Do (Put This ''e'' (New ''EFb'' [This]))],
    fn ''hLc'' 0 0 [Do (Call ''OKc'' []), Do (Put This ''k'' (New ''_rb'' [])), Do (Put This ''d'' (New ''hsb'' []))],
    fn ''_Bc'' 0 0 [Do (Call ''YBc'' []), Do (Put This ''g'' (New ''dub'' [])), Do (Put This ''f'' (New ''dub'' []))],
    fn ''Kse'' 1 0 [Do (Call ''Jse'' []), Do (Put This ''a'' (K (JNum 0))), Do (Put This ''b'' (Bin Minus (V 0) (K (JNum 1)))), Do (Put This ''c'' (K (JNum 1)))],
    fn ''pre'' 1 0 [Do (Call ''gre'' []), Do (SetG ''fre'' (Bin Minus (G ''fre'') (K (JNum (- 1))))), Ret (New ''rse'' [K (JNum 10), V 0, K (JNum 0)])],
    fn ''ee'' 1 1 [Do (SetV 1 (Dot (V 0) ''f'')), Ret (Cond (Neg (V 1)) (Put (V 0) ''f'' (Meth (V 0) ''Cc'' [])) (V 1))],
    fn ''Ec'' 1 1 [Do (SetV 1 (Dot (V 0) ''i'')), Ret (Cond (Neg (V 1)) (Put (V 0) ''i'' (Meth (V 0) ''bc'' [])) (V 1))],
    fn ''Nfe'' 1 0 [When (Neg (Loose (Dot (Dot (V 0) ''e'') ''j'') (Dot (V 0) ''d''))) [Raise (Call ''Lcb'' [New ''Rqb'' []])] []],
    fn ''bn'' 1 0 [When (Dot (V 0) ''c'') [Ret (Dot (V 0) ''c'')] [], Ret (Put (V 0) ''c'' (Meth (V 0) ''Qd'' []))],
    fn ''cn'' 1 0 [When (Dot (V 0) ''d'') [Ret (Dot (V 0) ''d'')] [], Ret (Put (V 0) ''d'' (Meth (V 0) ''Rd'' []))],
    fn ''fde'' 2 0 [Ret (Cond (Call ''Hde'' [Call ''ade'' [V 0, V 1]]) (Meth (V 1) ''wi'' []) (K JNull))],
    fn ''ed'' 1 0 [Ret (Cond (Call ''RD'' [V 0, K (JNum 16)]) (Meth (Call ''JD'' [V 0, K (JNum 16)]) ''cd'' []) (Meth (V 0) ''Jc'' []))],
    fn ''Ce'' 1 0 [Ret (Meth (V 0) ''Oc'' [Call ''SC'' [G ''aJ'', G ''Gte'', K (JNum 1), Meth (V 0) ''gc'' [], K (JNum 5), K (JNum 1)]])],
    fn ''Sr'' 0 0 [Do (SetG ''Sr'' (G ''qdb'')), Do (SetG ''Rr'' (New ''Tr'' [Call ''SC'' [G ''aJ'', G ''Gte'', K (JNum 1), K (JNum 0), K (JNum 5), K (JNum 1)]]))],
    fn ''Lrd'' 0 0 [Do (SetG ''Lrd'' (G ''qdb'')), Do (SetG ''Krd'' (New ''FEd'' [Seq (Call ''vjd'' []) (G ''Eid''), K (JNum 0)]))],
    fn ''Xnd'' 0 0 [Do (Super ''Rnd'' [K (JStr ''LOOKAHEAD_LAYOUT''), K (JNum 1)])],
    fn ''fz'' 1 0 [Do (Call ''Yy'' [This]), Do (Put This ''g'' (V 0)), Do (Call ''$y'' [This]), Do (Meth This ''he'' [])],
    fn ''wg'' 4 0 [Do (Put This ''a'' (V 0)), Do (Super ''jg'' [V 0, V 1, V 2, V 3])],
    fn ''Yr'' 1 0 [Do (Put This ''a'' (Seq (Call ''Sr'' []) (G ''Rr''))), Do (Put This ''d'' (Call ''JD'' [Call ''Qb'' [V 0], K (JNum 50)]))],
    fn ''adb'' 2 0 [Ret (Call ''Pcb'' [Call ''sD'' [Cond (Call ''Vcb'' [V 0]) (Call ''edb'' [V 0]) (V 0), V 1]])],
    fn ''bdb'' 2 0 [Ret (Call ''Pcb'' [Call ''tD'' [Cond (Call ''Vcb'' [V 0]) (Call ''edb'' [V 0]) (V 0), V 1]])],
    fn ''cdb'' 2 0 [Ret (Call ''Pcb'' [Call ''uD'' [Cond (Call ''Vcb'' [V 0]) (Call ''edb'' [V 0]) (V 0), V 1]])],
    fn ''Sdb'' 2 0 [Ret (Call ''Udb'' [Seq (Call ''NDb'' [V 0]) (V 0), Seq (Call ''NDb'' [V 1]) (V 1)])],
    fn ''Teb'' 2 0 [Ret (Call ''$eb'' [Seq (Call ''NDb'' [V 0]) (V 0), Seq (Call ''NDb'' [V 1]) (V 1)])],
    fn ''nx'' 2 0 [Ret (Seq (Call ''Qb'' [V 1]) (And (Meth (Dot (V 0) ''a'') ''Hd'' [V 1]) (Neg (Meth (Dot (V 0) ''b'') ''Hd'' [V 1]))))],
    fn ''lD'' 2 0 [Ret (Call ''_C'' [Bin BitAnd (Dot (V 0) ''l'') (Dot (V 1) ''l''), Bin BitAnd (Dot (V 0) ''m'') (Dot (V 1) ''m''), Bin BitAnd (Dot (V 0) ''h'') (Dot (V 1) ''h'')])],
    fn ''rD'' 2 0 [Ret (Call ''_C'' [Bin BitOr (Dot (V 0) ''l'') (Dot (V 1) ''l''), Bin BitOr (Dot (V 0) ''m'') (Dot (V 1) ''m''), Bin BitOr (Dot (V 0) ''h'') (Dot (V 1) ''h'')])],
    fn ''zD'' 2 0 [Ret (Call ''_C'' [Bin BitXor (Dot (V 0) ''l'') (Dot (V 1) ''l''), Bin BitXor (Dot (V 0) ''m'') (Dot (V 1) ''m''), Bin BitXor (Dot (V 0) ''h'') (Dot (V 1) ''h'')])],
    fn ''UD'' 1 0 [Ret (And (And (Neg (Loose (V 0) (K JNull))) (Call ''WD'' [V 0])) (Neg (Same (Dot (V 0) ''Rm'') (G ''udb''))))]]"

definition code_2600_2681 :: "(string \<times> jfun) list" where
  "code_2600_2681 = [
    fn ''aCb'' 2 0 [Ret (Call ''dCb'' [V 0, Seq (Call ''NDb'' [V 1]) (New ''Rzb'' [V 1])])],
    fn ''bCb'' 2 0 [Ret (Call ''dCb'' [V 0, Seq (Call ''NDb'' [V 1]) (New ''Tzb'' [V 1])])],
    fn ''ZZb'' 1 0 [Ret (Seq (Call ''qZb'' []) (Neg (Loose (Dot (Dot (Dot (Call ''JD'' [V 0, K (JNum 12)]) ''e'') ''c'') ''length'') (K (JNum 0)))))],
    fn ''c$b'' 1 0 [Ret (Seq (Call ''qZb'' []) (Neg (Loose (Dot (Dot (Dot (Call ''JD'' [V 0, K (JNum 12)]) ''g'') ''c'') ''length'') (K (JNum 0)))))],
    fn ''g7b'' 2 0 [Do (Call ''N6b'' []), Ret (Call ''$eb'' [Dot (Dot (Dot (V 1) ''a'') ''o'') ''a'', Dot (Dot (Dot (V 0) ''a'') ''o'') ''a''])],
    fn ''hdb'' 1 0 [When (Call ''Vcb'' [V 0]) [Ret (Bin Plus (K (JStr '''')) (V 0))] [], Ret (Call ''yD'' [V 0])],
    fn ''sxb'' 2 0 [When (Or (Bin Lt (V 0) (K (JNum 0))) (Bin Ge (V 0) (V 1))) [Raise (Call ''Lcb'' [New ''Gdb'' []])] []],
    fn ''zCb'' 3 0 [When (Meth (Dot (V 0) ''a'') ''Mb'' [V 2]) [Do (Put (V 0) ''b'' (K (JBool True))), Do (Meth (V 1) ''Ad'' [V 2])] []],
    fn ''Xvb'' 1 0 [When (Neg (Dot (V 0) ''d'')) [Do (Put (V 0) ''d'' (Meth (Dot (V 0) ''b'') ''Jc'' [])), Do (Put (V 0) ''c'' (Meth (Dot (V 0) ''b'') ''gc'' []))] []],
    fn ''pmc'' 1 0 [When (Dot (V 0) ''e'') [Ret (Call ''umc'' [Dot (V 0) ''e''])] [], Ret (K JNull)],
    fn ''Mlc'' 3 0 [Ret (Call ''Nlc'' [V 0, Call ''JD'' [V 1, K (JNum 12)], Call ''JD'' [V 2, K (JNum 12)]])],
    fn ''Byc'' 3 0 [Do (Meth (V 1) ''of'' [V 2, Bin Times (Call ''Ueb'' [Call ''MD'' [Call ''ejb'' [Dot (V 0) ''b'', V 2]]]) (Dot (V 0) ''a'')])],
    fn ''vfd'' 3 0 [Do (Call ''qfd'' []), Ret (And (Call ''ufd'' [V 0, V 1]) (Call ''ufd'' [V 0, V 2]))],
    fn ''C0c'' 2 0 [Do (Meth (V 1) ''Tg'' [K (JStr (''General '' @ CHR 0x27 # ''Rotator'')), K (JNum 1)]), Do (Call ''B0c'' [V 0])],
    fn ''Tjc'' 4 1 [Do (SetV 4 (Dot (V 0) ''i'')), Do (Put (V 4) ''i'' (V 1)), Do (Put (V 4) ''a'' (V 2)), Do (Put (V 4) ''b'' (V 3))],
    fn ''GKc'' 1 1 [Do (SetV 1 (V 0)), Loop (Dot (V 1) ''f'') [Do (SetV 1 (Dot (V 1) ''f''))] [], Ret (V 1)],
    fn ''rwb'' 2 0 [Do (Put This ''e'' (V 0)), Do (Put This ''d'' (Cond (Neg (Loose (Bin BitAnd (V 1) (K (JNum 64))) (K (JNum 0)))) (Bin BitOr (V 1) (G ''bue'')) (V 1)))],
    fn ''Hwb'' 2 0 [Do (Put This ''c'' (K (JNum 0))), Do (Put This ''d'' (V 0)), Do (Put This ''b'' (Bin BitOr (Bin BitOr (V 1) (K (JNum 64))) (G ''bue'')))],
    fn ''wvb'' 1 0 [Do (Put This ''b'' (New ''mmb'' [K (JNum 11)])), Do (Put This ''a'' (Seq (Call ''Cqb'' []) (V 0)))],
    fn ''lyb'' 1 0 [Do (Put This ''b'' (K JNull)), Do (Put This ''a'' (Seq (Call ''Cqb'' []) (Cond (Neg (V 0)) (G ''zqb'') (V 0))))],
    fn ''wIc'' 1 0 [Do (Put This ''a'' (Call ''uIc'' [Dot (V 0) ''a''])), Do (Put This ''b'' (New ''nmb'' [Dot (V 0) ''b'']))],
    fn ''ELd'' 1 0 [Do (Put This ''b'' (V 0)), Do (Super ''DKd'' [V 0]), Do (Call ''DLd'' [This])],
    fn ''MLd'' 1 0 [Do (Put This ''b'' (V 0)), Do (Super ''SKd'' [V 0]), Do (Call ''LLd'' [This])],
    fn ''W3d'' 3 0 [Do (Put This ''a'' (V 0)), Do (Super ''T3d'' [V 1, V 2, K (JNum 5), K (JNum 6)])],
    fn ''$1d'' 5 0 [Do (Super ''_1d'' [V 0, V 1, V 2, V 3, V 4, K (JNum (- 1))])],
    fn ''o2d'' 5 0 [Do (Super ''p2d'' [V 0, V 1, V 2, V 3, V 4, K (JNum (- 1))])],
    fn ''P3d'' 4 0 [Do (Super ''iYd'' [V 0, V 1, V 2]), Do (Put This ''b'' (V 3))],
    fn ''Vge'' 4 0 [Do (Super ''aYd'' [V 0, V 1, V 2]), Do (Put This ''b'' (V 3))],
    fn ''ice'' 1 0 [Do (Super ''LGd'' [V 0, K (JBool False)]), Do (Put This ''a'' (K (JBool False)))],
    fn ''_nd'' 0 0 [Do (Super ''Rnd'' [K (JStr ''LAYOUT_NEXT_LEVEL''), K (JNum 3)])],
    fn ''Jhe'' 4 0 [Do (Put This ''b'' (V 0)), Do (Super ''iYd'' [V 1, V 2, V 3])],
    fn ''Rj'' 2 0 [Do (Put This ''b'' (V 0)), Do (Super ''yj'' [Dot (V 0) ''b'']), Do (Put This ''a'' (V 1))],
    fn ''kv'' 2 1 [Do (SetV 2 (Meth (Dot (V 0) ''a'') ''gc'' [])), Do (Call ''Sb'' [V 1, V 2]), Ret (Bin Minus (V 2) (V 1))],
    fn ''_Zd'' 2 0 [Ret (Cond (Meth (V 1) ''Sh'' []) (Call ''rtd'' [Dot (V 0) ''b'', Call ''JD'' [V 1, K (JNum 52)]]) (V 1))],
    fn ''Ggb'' 2 0 [Ret (Call ''vgb'' [Meth (V 0) ''substr'' [K (JNum 0), Dot (V 1) ''length''], V 1])],
    fn ''Gl'' 1 0 [Ret (New ''Yr'' [New ''Jl'' [Dot (Dot (V 0) ''a'') ''length'', Dot (V 0) ''a'']])],
    fn ''Jfd'' 1 0 [Ret (New ''lgd'' [Bin Plus (Dot (V 0) ''c'') (Bin Divide (Dot (V 0) ''b'') (K (JNum 2))), Bin Plus (Dot (V 0) ''d'') (Bin Divide (Dot (V 0) ''a'') (K (JNum 2)))])],
    fn ''qD'' 1 0 [Ret (Call ''_C'' [Bin BitAnd (Compl (Dot (V 0) ''l'')) (G ''rve''), Bin BitAnd (Compl (Dot (V 0) ''m'')) (G ''rve''), Bin BitAnd (Compl (Dot (V 0) ''h'')) (G ''sve'')])],
    fn ''WD'' 1 0 [Ret (Or (Same (Typeof (V 0)) (G ''vte'')) (Same (Typeof (V 0)) (G ''zte'')))],
    fn ''cjb'' 2 0 [Ret (Cond (Call ''VD'' [V 1]) (Call ''gjb'' [V 0, V 1]) (Neg (Neg (Call ''ysb'' [Dot (V 0) ''f'', V 1]))))],
    fn ''mre'' 2 0 [Do (Call ''gre'' []), Do (SetG ''fre'' (Bin Minus (G ''fre'') (K (JNum (- 1))))), Ret (New ''nse'' [V 0, V 1, K (JNum 0)])],
    fn ''ore'' 2 0 [Do (Call ''gre'' []), Do (SetG ''fre'' (Bin Minus (G ''fre'') (K (JNum (- 1))))), Ret (New ''nse'' [K (JNum 6), V 0, V 1])],
    fn ''ftb'' 2 0 [Do (Call ''NDb'' [V 1]), Loop (Meth (V 0) ''Ob'' []) [Do (Meth (V 1) ''Ad'' [Meth (V 0) ''Pb'' []])] []],
    fn ''mib'' 3 0 [Do (Call ''Zhb'' []), Do (Put This ''e'' (V 0)), Do (Put This ''d'' (V 1)), Do (Put This ''a'' (V 2))],
    fn ''Umb'' 4 0 [Do (Call ''GDb'' [V 1, V 2, Dot (V 0) ''length'']), Do (Call ''Ymb'' [V 0, V 1, V 2, V 3])],
    fn ''crb'' 3 0 [Do (Call ''Hrb'' [Dot (V 0) ''a'', V 1]), Ret (Call ''sDb'' [Dot (V 0) ''b'', Dot (V 1) ''g'', V 2])],
    fn ''esb'' 2 1 [Do (SetV 2 (Meth (Dot (V 0) ''a'') ''yc'' [V 1, V 0])), Ret (Loose (V 2) (K JNull))],
    fn ''anb'' 2 1 [Do (SetV 2 (K (JNum 0))), Loop (Bin Lt (V 2) (V 1)) [Do (PutIdx (V 0) (V 2) (K (JBool False)))] [Do (SetV 2 (Bin Minus (V 2) (K (JNum (- 1)))))]],
    fn ''Ymb'' 4 1 [Do (SetV 4 (V 1)), Loop (Bin Lt (V 4) (V 2)) [Do (PutIdx (V 0) (V 4) (V 3))] [Do (SetV 4 (Bin Minus (V 4) (K (JNum (- 1)))))]],
    fn ''LAb'' 3 0 [Do (Put This ''c'' (V 0)), Do (Put This ''a'' (V 1)), Do (Call ''Inb'' []), Do (Put This ''b'' (V 2))],
    fn ''mxb'' 3 0 [Do (Call ''sxb'' [V 2, Dot (Dot (Dot (V 0) ''a'') ''c'') ''length'']), Do (Call ''imb'' [Dot (V 0) ''a'', V 2, V 1])],
    fn ''yzb'' 2 0 [Ret (Loose (Meth (Dot (V 0) ''a'') ''yc'' [V 1, Seq (Call ''Qdb'' []) (G ''Odb'')]) (K JNull))],
    fn ''YNb'' 2 0 [Ret (Cond (Bin Gt (V 0) (K (JNum 0))) (Meth (Dot (G ''$wnd'') ''Math'') ''log'' [Bin Divide (V 0) (V 1)]) (K (JNum (- 100))))],
    fn ''jnb'' 1 0 [Ret (New ''jCb'' [K JNull, Call ''inb'' [V 0, Dot (V 0) ''length'']])],
    fn ''kjb'' 1 0 [Do (Put (V 0) ''f'' (New ''Bsb'' [V 0])), Do (Put (V 0) ''i'' (New ''Vsb'' [V 0])), Do (Put (V 0) ''g'' (Bin Minus (Dot (V 0) ''g'') (K (JNum (- 1)))))],
    fn ''Ukb'' 1 0 [When (Neg (V 0)) [Raise (Call ''Lcb'' [New ''Kub'' []])] [], Ret (Dot (V 0) ''d'')],
    fn ''ODb'' 2 0 [When (Loose (V 0) (K JNull)) [Raise (Call ''Lcb'' [New ''Yfb'' [V 1]])] []],
    fn ''Lmc'' 2 0 [When (Neg (V 1)) [Ret (K (JBool False))] [], Ret (Call ''xe'' [V 0, V 1])],
    fn ''amd'' 1 0 [Do (Call ''$ld'' []), Ret (And (Neg (Meth (V 0) ''Gc'' [G ''Wld''])) (Neg (Meth (V 0) ''Gc'' [G ''Yld''])))],
    fn ''Jmb'' 1 0 [Do (Call ''RDb'' [Neg (Loose (Dot (V 0) ''b'') (K (JNum (- 1))))]), Do (Call ''fmb'' [Dot (V 0) ''c'', Put (V 0) ''a'' (Dot (V 0) ''b'')]), Do (Put (V 0) ''b'' (K (JNum (- 1))))],
    fn ''Qbd'' 3 0 [Do (Call ''Ibd'' [V 0, Dot (V 1) ''g'', V 2]), Do (Call ''Hrb'' [Dot (V 0) ''c'', V 1]), Ret (V 0)],
    fn ''BDd'' 3 0 [Do (Call ''QBd'' [Dot (V 0) ''a'', Dot (V 0) ''b'', Dot (V 0) ''d'', Dot (V 0) ''c'', Call ''JD'' [V 1, K (JNum 170)], V 2])],
    fn ''Qee'' 2 0 [Do (Call ''uXd'' [V 0, Cond (Call ''RD'' [V 1, K (JNum 163)]) (V 1) (Meth (Call ''JD'' [V 1, K (JNum 2001)]) ''Pl'' [])])],
    fn ''bSb'' 1 0 [Do (Call ''_Rb'' [V 0, Seq (Call ''Djd'' []) (G ''zjd'')]), Do (Put (V 0) ''d'' (K (JBool True))), Ret (V 0)],
    fn ''Pde'' 1 0 [Do (And (Neg (Dot (V 0) ''j'')) (Call ''Vde'' [V 0, Call ''Qce'' [Dot (V 0) ''g'', Dot (V 0) ''b'']])), Ret (Dot (V 0) ''j'')],
    fn ''Clb'' 1 1 [Do (SetV 1 (Call ''ylb'' [V 0])), Do (Call ''LDb'' [Neg (Loose (V 1) (K JNull))]), Ret (V 1)],
    fn ''Dlb'' 1 1 [Do (SetV 1 (Call ''zlb'' [V 0])), Do (Call ''LDb'' [Neg (Loose (V 1) (K JNull))]), Ret (V 1)],
    fn ''CB'' 3 1 [Do (SetV 3 (Call ''BB'' [V 0, V 1])), Do (Call ''DB'' [V 0, V 1, V 2]), Ret (V 3)],
    fn ''EKd'' 2 0 [Do (Put This ''d'' (V 0)), Do (Super ''uKd'' [V 0]), Do (Put This ''e'' (V 1))],
    fn ''bse'' 2 0 [Do (Super ''hre'' [K (JNum 1)]), Do (Put This ''a'' (V 0)), Do (Put This ''b'' (V 1))],
    fn ''Kfb'' 2 0 [Ret (Cond (Bin Lt (Call ''Ocb'' [V 0, V 1]) (K (JNum 0))) (K (JNum (- 1))) (Cond (Bin Gt (Call ''Ocb'' [V 0, V 1]) (K (JNum 0))) (K (JNum 1)) (K (JNum 0))))],
    fn ''inb'' 2 0 [Ret (Seq (Call ''qwb'' [V 1, Dot (V 0) ''length'']) (New ''Nwb'' [V 0, V 1]))],
    fn ''fib'' 1 0 [Ret (Cond (Loose (Dot (V 0) ''e'') (K (JNum 0))) (V 0) (New ''mib'' [Minus1 (Dot (V 0) ''e''), Dot (V 0) ''d'', Dot (V 0) ''a'']))],
    fn ''nle'' 1 0 [Ret (Cond (Loose (V 0) (G ''Cve'')) (G ''xJe'') (Cond (Loose (V 0) (G ''Dve'')) (K (JStr ''-INF'')) (Bin Plus (K (JStr '''')) (V 0))))],
    fn ''ple'' 1 0 [Ret (Cond (Loose (V 0) (G ''Cve'')) (G ''xJe'') (Cond (Loose (V 0) (G ''Dve'')) (K (JStr ''-INF'')) (Bin Plus (K (JStr '''')) (V 0))))],
    fn ''DLb'' 2 0 [Ret (Call ''$eb'' [Bin Plus (Dot (Dot (V 0) ''c'') ''c'') (Dot (Dot (V 0) ''c'') ''b''), Bin Plus (Dot (Dot (V 1) ''c'') ''c'') (Dot (Dot (V 1) ''c'') ''b'')])],
    fn ''jub'' 2 0 [Do (Call ''Wtb'' [Dot (V 0) ''d'', V 1, Dot (Dot (V 0) ''b'') ''b'', Dot (V 0) ''b'']), Do (Put (V 0) ''a'' (Bin Minus (Dot (V 0) ''a'') (K (JNum (- 1))))), Do (Put (V 0) ''c'' (K JNull))],
    fn ''aBb'' 2 0 [Do (Cond (Neg (Dot (V 0) ''c'')) (Call ''_lb'' [Dot (V 0) ''b'', V 1]) (Call ''aBb'' [Dot (V 0) ''c'', V 1])), Ret (V 0)],
    fn ''Zhc'' 2 0 [Do (Call ''YBb'' [Call ''ZBb'' [Meth (V 0) ''Mc'' [], New ''Hic'' []], New ''Jic'' [V 1]])],
    fn ''aic'' 5 0 [Do (Call ''_hc'' [V 0, Call ''JD'' [Call ''Qc'' [Dot (V 1) ''k'', V 2], K (JNum 16)], V 2, V 3, V 4])],
    fn ''xgb'' 5 0 [Loop (Bin Lt (V 1) (V 2)) [Do (PutIdx (V 3) (Bin Minus (SetV 4 (Bin Minus (V 4) (K (JNum (- 1))))) (K (JNum 1))) (Call ''sgb'' [V 0, Bin Minus (SetV 1 (Bin Minus (V 1) (K (JNum (- 1))))) (K (JNum 1))]))] []],
    fn ''_mb'' 3 1 [Do (SetV 3 (K (JNum 0))), Loop (Bin Lt (V 3) (V 1)) [Do (Call ''VC'' [V 0, V 3, V 2])] [Do (SetV 3 (Bin Minus (V 3) (K (JNum (- 1)))))]]]"

definition code_2683_2703 :: "(string \<times> jfun) list" where
  "code_2683_2703 = [
    fn ''rt'' 1 0 [Do (Put (V 0) ''a'' (K JNull)), Do (Put (V 0) ''e'' (K JNull)), Do (Call ''kjb'' [Dot (V 0) ''b'']), Do (Put (V 0) ''d'' (K (JNum 0))), Do (Put (V 0) ''c'' (Bin Minus (Dot (V 0) ''c'') (K (JNum (- 1)))))],
    fn ''pLc'' 1 0 [Ret (Bin Minus (Meth (Dot (G ''$wnd'') ''Math'') ''abs'' [Bin Minus (Dot (Dot (V 0) ''d'') ''e'') (Dot (Dot (V 0) ''e'') ''e'')]) (Dot (V 0) ''a''))],
    fn ''cUc'' 2 0 [Ret (Call ''$eb'' [Bin Plus (Dot (Dot (V 0) ''e'') ''a'') (Dot (Dot (V 0) ''f'') ''a''), Bin Plus (Dot (Dot (V 1) ''e'') ''a'') (Dot (Dot (V 1) ''f'') ''a'')])],
    fn ''eUc'' 2 0 [Ret (Call ''$eb'' [Bin Plus (Dot (Dot (V 0) ''e'') ''b'') (Dot (Dot (V 0) ''f'') ''b''), Bin Plus (Dot (Dot (V 1) ''e'') ''b'') (Dot (Dot (V 1) ''f'') ''b'')])],
    fn ''BMd'' 3 0 [Ret (Call ''JD'' [Meth (Dot (V 0) ''c'') ''fd'' [V 1, Call ''JD'' [V 2, K (JNum 136)]], K (JNum 45)])],
    fn ''us'' 0 0 [Do (Call ''ns'' []), Ret (Call ''WC'' [Call ''OC'' [G ''IG'', K (JNum 1)], G ''xue'', K (JNum 538), K (JNum 0), NewArr [G ''ms'']])],
    fn ''OB'' 0 0 [Do (SetG ''OB'' (G ''qdb'')), Do (SetG ''MB'' (New ''PB'' [K (JBool False)])), Do (SetG ''NB'' (New ''PB'' [K (JBool True)]))],
    fn ''yRd'' 0 0 [Do (SetG ''yRd'' (G ''qdb'')), Do (SetG ''xRd'' (Call ''m9d'' [])), Do (And (Neg (Neg (Seq (Call ''WRd'' []) (G ''ARd'')))) (Call ''o9d'' []))],
    fn ''NWd'' 1 0 [Ret (Dot (Seq (And (Loose (Dot (V 0) ''i'') (K JNull)) (Call ''EWd'' [V 0])) (Dot (V 0) ''i'')) ''length'')],
    fn ''_Dd'' 2 0 [Do (Call ''KAd'' [V 0, New ''GC'' [Cond (Neg (Loose (Dot (V 1) ''f'') (K JNull))) (Dot (V 1) ''f'') (Bin Plus (K (JStr '''')) (Dot (V 1) ''g''))]])],
    fn ''bEd'' 2 0 [Do (Call ''KAd'' [V 0, New ''GC'' [Cond (Neg (Loose (Dot (V 1) ''f'') (K JNull))) (Dot (V 1) ''f'') (Bin Plus (K (JStr '''')) (Dot (V 1) ''g''))]])],
    fn ''nFd'' 2 0 [Do (And (Meth (V 0) ''Qi'' []) (SetV 1 (Call ''sFd'' [V 0, V 1]))), Ret (Meth (V 0) ''Di'' [V 1])],
    fn ''gUd'' 2 0 [Do (SetV 1 (Meth (V 0) ''Wk'' [K JNull, V 1])), Ret (Call ''fUd'' [V 0, K JNull, V 1])],
    fn ''nre'' 3 0 [Do (Call ''gre'' []), Do (SetG ''fre'' (Bin Minus (G ''fre'') (K (JNum (- 1))))), Ret (New ''jse'' [V 0, V 1, V 2])],
    fn ''hee'' 2 0 [Do (Put (V 0) ''j'' (Bin Minus (Dot (V 0) ''j'') (K (JNum (- 1))))), Do (Call ''efe'' [V 0, Dot (V 0) ''i'', V 1]), Do (Call ''gee'' [V 0, Call ''JD'' [V 1, K (JNum 344)]])],
    fn ''Ceb'' 3 1 [Do (SetV 3 (Call ''Beb'' [V 0, V 1])), Do (Call ''Peb'' [V 2, V 3]), Ret (V 3)],
    fn ''Beb'' 2 1 [Do (SetV 2 (New ''zeb'' [])), Do (Put (V 2) ''j'' (V 0)), Do (Put (V 2) ''d'' (V 1)), Ret (V 2)],
    fn ''Qb'' 1 0 [When (Loose (V 0) (K JNull)) [Raise (Call ''Lcb'' [New ''Xfb'' []])] [], Ret (V 0)],
    fn ''yNb'' 1 0 [Do (Super ''xNb'' []), Do (Put This ''a'' (V 0)), Do (Call ''_lb'' [Dot (V 0) ''a'', This])],
    fn ''kie'' 0 0 [Do (Super ''otb'' []), Do (Put This ''a'' (K (JBool True))), Do (Put This ''b'' (K (JBool True)))],
    fn ''$vb'' 1 0 [Do (Put This ''d'' (Seq (Call ''NDb'' [V 0]) (V 0))), Do (Put This ''a'' (K (JNum 0))), Do (Put This ''c'' (G ''fue''))]]"

definition code_2705_2717 :: "(string \<times> jfun) list" where
  "code_2705_2717 = [
    fn ''qq'' 2 0 [Ret (Meth (Call ''JD'' [Meth (Meth (Call ''bn'' [Dot (V 0) ''a'']) ''Kd'' []) ''Xb'' [V 1], K (JNum 45)]) ''jd'' [])],
    fn ''Pc'' 1 1 [Ret (Seq (SetV 1 (Dot (V 0) ''g'')) (Cond (Neg (V 1)) (Put (V 0) ''g'' (New ''rh'' [V 0])) (V 1)))],
    fn ''Uc'' 1 1 [Ret (Seq (SetV 1 (Dot (V 0) ''k'')) (Cond (Neg (V 1)) (Put (V 0) ''k'' (New ''zh'' [V 0])) (V 1)))],
    fn ''ii'' 1 1 [Ret (Seq (SetV 1 (Dot (V 0) ''k'')) (Cond (Neg (V 1)) (Put (V 0) ''k'' (New ''zh'' [V 0])) (V 1)))],
    fn ''cj'' 1 1 [Ret (Seq (SetV 1 (Dot (V 0) ''i'')) (Cond (Neg (V 1)) (Put (V 0) ''i'' (New ''Ii'' [V 0])) (V 1)))],
    fn ''Fc'' 1 1 [Do (SetV 1 (Dot (V 0) ''j'')), Ret (Cond (Neg (V 1)) (Put (V 0) ''j'' (New ''Kw'' [V 0])) (V 1))],
    fn ''_i'' 1 1 [Do (SetV 1 (Dot (V 0) ''f'')), Ret (Cond (Neg (V 1)) (Put (V 0) ''f'' (New ''Xj'' [V 0])) (V 1))],
    fn ''wo'' 1 1 [Do (SetV 1 (Dot (V 0) ''d'')), Ret (Cond (Neg (V 1)) (Put (V 0) ''d'' (New ''gp'' [V 0])) (V 1))],
    fn ''Vx'' 1 0 [When (Call ''RD'' [V 0, K (JNum 607)]) [Ret (V 0)] [], Ret (New ''ly'' [V 0])],
    fn ''wj'' 2 0 [Do (Call ''Pb'' [V 1, Meth (Dot (Dot (Dot (V 0) ''c'') ''b'') ''c'') ''gc'' []]), Ret (New ''Lj'' [V 0, V 1])],
    fn ''Igb'' 2 0 [Do (Call ''UDb'' [V 1, Bin Plus (Dot (V 0) ''length'') (K (JNum 1))]), Ret (Meth (V 0) ''substr'' [V 1])],
    fn ''VC'' 3 0 [Do (Call ''IDb'' [Or (Loose (V 2) (K JNull)) (Call ''NC'' [V 0, V 2])]), Ret (PutIdx (V 0) (V 1) (V 2))],
    fn ''jv'' 2 1 [Do (SetV 2 (Meth (Dot (V 0) ''a'') ''gc'' [])), Do (Call ''Pb'' [V 1, V 2]), Ret (Bin Minus (Bin Minus (V 2) (K (JNum 1))) (V 1))]]"

definition code_2719_2743 :: "(string \<times> jfun) list" where
  "code_2719_2743 = [
    fn ''ejb'' 2 0 [Ret (Cond (Call ''VD'' [V 1]) (Call ''fjb'' [V 0, V 1]) (Call ''Wd'' [Call ''ysb'' [Dot (V 0) ''f'', V 1]]))],
    fn ''jHd'' 1 0 [Do (Cond (V 0) (Call ''az'' [V 0, Seq (Call ''qhb'' []) (G ''phb''), K (JStr '''')]) (Call ''xdb'' [Seq (Call ''qhb'' []) (V 0)]))],
    fn ''PA'' 1 0 [Do (Call ''nA'' []), Do (Put This ''b'' (New ''lmb'' [])), Do (Put This ''a'' (V 0)), Do (Call ''AA'' [This, V 0])],
    fn ''LRb'' 1 0 [Do (Put This ''b'' (New ''lmb'' [])), Do (Put This ''a'' (New ''lmb'' [])), Do (Put This ''c'' (V 0))],
    fn ''y$b'' 1 0 [Do (Put This ''c'' (New ''jgd'' [])), Do (Put This ''a'' (New ''lmb'' [])), Do (Put This ''b'' (V 0))],
    fn ''Ktb'' 1 0 [Do (Put This ''d'' (V 0)), Do (Put This ''c'' (Dot (Dot (Dot (V 0) ''a'') ''d'') ''a'')), Do (Put This ''b'' (Dot (Dot (Dot (V 0) ''a'') ''e'') ''g''))],
    fn ''Qs'' 1 0 [Do (Put This ''b'' (V 0)), Do (Put This ''a'' (Call ''JD'' [Call ''Oub'' [Dot (Dot (Dot This ''b'') ''a'') ''e''], K (JNum 227)]))],
    fn ''BBc'' 1 0 [Loop (Neg (Loose (Dot (Dot (V 0) ''a'') ''b'') (K (JNum 0)))) [Do (Call ''ABc'' [V 0, Call ''JD'' [Call ''$tb'' [Dot (V 0) ''a''], K (JNum 9)]])] []],
    fn ''Fwb'' 2 0 [Do (Call ''NDb'' [V 1]), Loop (Bin Lt (Dot (V 0) ''c'') (Dot (V 0) ''d'')) [Do (Meth (V 0) ''Qe'' [V 1, Bin Minus (Put (V 0) ''c'' (Bin Minus (Dot (V 0) ''c'') (K (JNum (- 1))))) (K (JNum 1))])] []],
    fn ''f7b'' 2 0 [Do (Call ''N6b'' []), Ret (Meth (Call ''JD'' [Call ''brb'' [V 0, Dot (V 1) ''d''], K (JNum 16)]) ''Ec'' [V 1])],
    fn ''$9b'' 2 0 [Ret (Bin Lt (Dot (Call ''JD'' [Call ''oNb'' [V 1, Seq (Call ''nyc'' []) (G ''ixc'')], K (JNum 15)]) ''a'') (V 0))],
    fn ''VPb'' 4 0 [Ret (Or (Or (Loose (V 2) (K (JNum 0))) (Bin Lt (Bin Divide (Bin Minus (V 2) (V 3)) (V 2)) (Dot (V 0) ''e''))) (Bin Ge (V 1) (Dot (V 0) ''g'')))],
    fn ''WIc'' 3 1 [Do (SetV 3 (Call ''aJc'' [V 0, V 1, V 2])), Ret (Call ''VIc'' [V 0, V 3])],
    fn ''KAd'' 2 1 [Do (SetV 2 (Dot (Dot (V 0) ''a'') ''length'')), Do (Call ''BB'' [V 0, V 2]), Do (Call ''DB'' [V 0, V 2, V 1])],
    fn ''qHd'' 2 1 [Do (Put (V 0) ''j'' (Bin Minus (Dot (V 0) ''j'') (K (JNum (- 1))))), Do (SetV 2 (Meth (V 0) ''Cj'' [])), Do (Meth (V 0) ''pj'' [Meth (V 0) ''Xi'' [V 2, V 1]])],
    fn ''Kad'' 3 0 [Do (Call ''JD'' [Dot (V 1) ''b'', K (JNum 68)]), Do (Call ''cmb'' [Dot (V 1) ''a'', New ''Rad'' [V 0, V 2, V 1]])],
    fn ''_6d'' 3 0 [Do (Super ''G5d'' [V 1]), Do (Put This ''a'' (V 0)), Do (Put This ''b'' (V 2))],
    fn ''Q7d'' 3 0 [Do (Put This ''a'' (V 0)), Do (Super ''Y4d'' [V 1]), Do (Put This ''b'' (V 2))],
    fn ''Sbe'' 3 0 [Do (Put This ''a'' (V 0)), Do (Super ''bJd'' [K (JNum 8), V 1, K JNull, V 2])],
    fn ''kde'' 1 0 [Do (Put This ''a'' (Seq (Call ''NDb'' [G ''BIe'']) (G ''BIe''))), Do (Put This ''b'' (V 0)), Do (New ''_3d'' [])],
    fn ''Ddd'' 1 0 [Do (Put This ''c'' (V 0)), Do (Put This ''a'' (New ''dub'' [])), Do (Put This ''b'' (New ''dub'' []))],
    fn ''nse'' 3 0 [Do (Super ''hre'' [V 0]), Do (Put This ''a'' (V 1)), Do (Put This ''b'' (V 2))],
    fn ''GC'' 1 0 [When (Loose (V 0) (K JNull)) [Raise (Call ''Lcb'' [New ''Xfb'' []])] [], Do (Put This ''a'' (V 0))],
    fn ''wTd'' 1 0 [Do (And (Neg (Dot (V 0) ''a'')) (Put (V 0) ''a'' (New ''iYd'' [G ''C6'', V 0, K (JNum 4)]))), Ret (Dot (V 0) ''a'')],
    fn ''w0d'' 1 0 [Do (And (Neg (Dot (V 0) ''d'')) (Put (V 0) ''d'' (New ''iYd'' [G ''z6'', V 0, K (JNum 1)]))), Ret (Dot (V 0) ''d'')]]"

definition code_2746_2795 :: "(string \<times> jfun) list" where
  "code_2746_2795 = [
    fn ''Oub'' 1 0 [When (Loose (V 0) (K JNull)) [Raise (Call ''Lcb'' [New ''Xfb'' []])] [], Ret (V 0)],
    fn ''xre'' 1 0 [When (Neg (G ''Nqe'')) [Ret (K (JBool False))] [], Ret (Call ''gjb'' [G ''Nqe'', V 0])],
    fn ''qte'' 1 0 [When (V 0) [Ret (Meth (V 0) ''dc'' [])] [], Ret (Neg (Meth (Meth (V 0) ''Jc'' []) ''Ob'' []))],
    fn ''Fb'' 1 0 [Do (Call ''Oub'' [V 0]), Ret (Cond (Call ''RD'' [V 0, K (JNum 472)]) (Call ''JD'' [V 0, K (JNum 472)]) (Call ''tdb'' [V 0]))],
    fn ''_0d'' 1 0 [Ret (And (Call ''RD'' [V 0, K (JNum 103)]) (Neg (Loose (Bin BitAnd (Dot (Call ''JD'' [V 0, K (JNum 19)]) ''Bb'') (G ''$Fe'')) (K (JNum 0)))))],
    fn ''_fd'' 1 0 [Ret (Meth (Dot (G ''$wnd'') ''Math'') ''sqrt'' [Bin Plus (Bin Times (Dot (V 0) ''a'') (Dot (V 0) ''a'')) (Bin Times (Dot (V 0) ''b'') (Dot (V 0) ''b''))])],
    fn ''Qyb'' 2 0 [Ret (Call ''$xb'' [Dot (V 0) ''c'', Dot (V 0) ''f'', V 1, Dot (V 0) ''b'', Dot (V 0) ''a'', Dot (V 0) ''e'', Dot (V 0) ''d''])],
    fn ''lxb'' 2 0 [Ret (Seq (Call ''sxb'' [V 1, Dot (Dot (Dot (V 0) ''a'') ''c'') ''length'']) (Call ''dmb'' [Dot (V 0) ''a'', V 1]))],
    fn ''Hb'' 2 0 [Ret (Or (Same (Call ''XD'' [V 0]) (Call ''XD'' [V 1])) (And (Neg (Loose (V 0) (K JNull))) (Call ''pb'' [V 0, V 1])))],
    fn ''fMb'' 2 0 [Do (Call ''tMb'' [Call ''JD'' [Dot (V 1) ''b'', K (JNum 68)], V 0]), Do (Call ''cmb'' [Dot (V 1) ''a'', New ''kMb'' [V 0]])],
    fn ''cBb'' 1 0 [When (Neg (Dot (V 0) ''c'')) [Do (Call ''dBb'' [V 0]), Do (Put (V 0) ''d'' (K (JBool True)))] [Do (Call ''cBb'' [Dot (V 0) ''c''])]],
    fn ''_Ab'' 1 0 [When (Neg (Dot (V 0) ''c'')) [Do (Put (V 0) ''d'' (K (JBool True))), Do (Call ''bBb'' [V 0])] [Do (Meth (Dot (V 0) ''c'') ''Ye'' [])]],
    fn ''_qb'' 1 0 [Do (Call ''ze'' [Dot (V 0) ''a'']), Do (Put (V 0) ''b'' (Call ''SC'' [G ''aJ'', G ''Gte'', K (JNum 1), Dot (Dot (V 0) ''b'') ''length'', K (JNum 5), K (JNum 1)]))],
    fn ''Mjb'' 1 0 [Do (Call ''RDb'' [Neg (Loose (Dot (V 0) ''c'') (K (JNum (- 1))))]), Do (Meth (Dot (V 0) ''d'') ''ed'' [Dot (V 0) ''c'']), Do (Put (V 0) ''b'' (Dot (V 0) ''c'')), Do (Put (V 0) ''c'' (K (JNum (- 1))))],
    fn ''uFb'' 1 0 [Do (Put (V 0) ''b'' (K (JBool False))), Do (Put (V 0) ''c'' (K (JBool False))), Do (Put (V 0) ''d'' (K (JBool False))), Do (Put (V 0) ''a'' (K (JBool False)))],
    fn ''lt'' 1 0 [Do (Put This ''c'' (V 0)), Do (Put This ''b'' (Dot (Dot This ''c'') ''a'')), Do (Put This ''a'' (Dot (Dot This ''c'') ''e''))],
    fn ''pcd'' 0 0 [Do (Super ''Jbd'' []), Do (Call ''tDb'' [Dot (Dot This ''j'') ''c'', K (JNum 0)]), Do (Put This ''a'' (K (JNum (- 1))))],
    fn ''Z9c'' 0 0 [Do (Super ''es'' [K (JStr ''DELAUNAY_TRIANGULATION''), K (JNum 0)])],
    fn ''xtd'' 2 1 [Do (SetV 2 (Meth (V 0) ''Fh'' [V 1])), Do (Cond (Bin Ge (V 2) (K (JNum 0))) (Meth (V 0) ''hi'' [V 2]) (Call ''ptd'' [V 0, V 1]))],
    fn ''dJc'' 1 2 [Do (SetV 1 (Dot (Dot (Dot (V 0) ''c'') ''i'') ''c'')), Do (SetV 2 (Dot (Dot (Dot (V 0) ''d'') ''i'') ''c'')), Ret (Loose (V 1) (V 2))],
    fn ''DYb'' 1 0 [When (And (Neg (Dot (V 0) ''a'')) (Neg (Neg (Dot (V 0) ''c'')))) [Ret (Dot (Dot (V 0) ''c'') ''b'')] [], Ret (Dot (V 0) ''a'')],
    fn ''ABb'' 1 0 [When (Bin Ge (K (JNum 0)) (V 0)) [Ret (New ''KBb'' [])] [], Ret (Call ''BBb'' [Bin Minus (V 0) (K (JNum 1))])],
    fn ''NDb'' 1 0 [When (Loose (V 0) (K JNull)) [Raise (Call ''Lcb'' [New ''Xfb'' []])] [], Ret (V 0)],
    fn ''NId'' 1 0 [When (Neg (Loose (Dot (V 0) ''p'') (K (JNum 6)))) [Raise (Call ''Lcb'' [New ''mfb'' []])] [], Ret (Dot (V 0) ''f'')],
    fn ''WId'' 1 0 [When (Neg (Loose (Dot (V 0) ''p'') (K (JNum 6)))) [Raise (Call ''Lcb'' [New ''mfb'' []])] [], Ret (Dot (V 0) ''k'')],
    fn ''KId'' 1 0 [When (Neg (Loose (Dot (V 0) ''p'') (K (JNum 3)))) [Raise (Call ''Lcb'' [New ''mfb'' []])] [], Ret (Dot (V 0) ''e'')],
    fn ''LId'' 1 0 [When (Neg (Loose (Dot (V 0) ''p'') (K (JNum 4)))) [Raise (Call ''Lcb'' [New ''mfb'' []])] [], Ret (Dot (V 0) ''e'')],
    fn ''UId'' 1 0 [When (Neg (Loose (Dot (V 0) ''p'') (K (JNum 4)))) [Raise (Call ''Lcb'' [New ''mfb'' []])] [], Ret (Dot (V 0) ''j'')],
    fn ''TId'' 1 0 [When (Neg (Loose (Dot (V 0) ''p'') (K (JNum 3)))) [Raise (Call ''Lcb'' [New ''mfb'' []])] [], Ret (Dot (V 0) ''j'')],
    fn ''l8d'' 1 0 [Do (And (Neg (Dot (V 0) ''b'')) (Put (V 0) ''b'' (New ''C8d'' [New ''y8d'' []]))), Ret (Dot (V 0) ''b'')],
    fn ''Lde'' 1 0 [Do (And (Loose (Dot (V 0) ''c'') (K (JNum (- 2)))) (Call ''Rde'' [V 0, Call ''Ice'' [Dot (V 0) ''g'', Dot (V 0) ''b'']])), Ret (Dot (V 0) ''c'')],
    fn ''Feb'' 2 1 [Do (SetV 2 (Call ''Beb'' [K (JStr ''''), V 0])), Do (Put (V 2) ''n'' (V 1)), Do (Put (V 2) ''i'' (K (JNum 1))), Ret (V 2)],
    fn ''ep'' 4 0 [Do (Super ''ap'' [V 0, V 2]), Do (Put This ''a'' (V 1)), Do (Put This ''f'' (V 3))],
    fn ''Vs'' 4 0 [Do (Super ''ap'' [V 0, V 1]), Do (Put This ''d'' (V 2)), Do (Put This ''a'' (V 3))],
    fn ''FLd'' 2 0 [Do (Put This ''b'' (V 0)), Do (Super ''EKd'' [V 0, V 1]), Do (Call ''DLd'' [This])],
    fn ''NLd'' 2 0 [Do (Put This ''b'' (V 0)), Do (Super ''TKd'' [V 0, V 1]), Do (Call ''LLd'' [This])],
    fn ''l9d'' 0 0 [Do (Super ''_yd'' [G ''LIe'', Seq (Call ''wRd'' []) (G ''vRd'')]), Do (Call ''f9d'' [This])],
    fn ''Ole'' 0 0 [Do (Super ''_yd'' [G ''oJe'', Seq (Call ''_je'' []) (G ''$je'')]), Do (Call ''Kle'' [This])],
    fn ''ry'' 2 0 [Do (Super ''Vp'' [Call ''Qnb'' [Call ''Qb'' [V 0], Call ''Qb'' [V 1]]]), Do (Put This ''a'' (V 1))],
    fn ''Oqd'' 2 0 [Do (Cond (Or (Bin Lt (Dot (V 0) ''c'') (K (JNum 0))) (Bin Lt (Dot (Dot (V 0) ''b'') ''b'') (Dot (V 0) ''c''))) (Call ''Vtb'' [Dot (V 0) ''b'', V 1]) (Meth (Dot (V 0) ''a'') ''vf'' [V 1]))],
    fn ''wyd'' 2 0 [Do (Call ''lFd'' [Seq (And (Neg (Dot (V 0) ''a'')) (Put (V 0) ''a'' (New ''S2d'' [V 0, V 0]))) (Dot (V 0) ''a''), V 1])],
    fn ''sgb'' 2 0 [Do (Call ''UDb'' [V 1, Dot (V 0) ''length'']), Ret (Meth (V 0) ''charCodeAt'' [V 1])],
    fn ''gjc'' 2 0 [Ret (Call ''rfb'' [Dot (Dot (Dot (V 1) ''j'') ''c'') ''length'', Dot (Dot (Dot (V 0) ''j'') ''c'') ''length''])],
    fn ''hjb'' 3 0 [Ret (Cond (Call ''VD'' [V 1]) (Call ''ijb'' [V 0, V 1, V 2]) (Call ''zsb'' [Dot (V 0) ''f'', V 1, V 2]))],
    fn ''Pnb'' 1 0 [Do (Call ''Inb'' []), Ret (Cond (Neg (V 0)) (Seq (Seq (Call ''Cqb'' []) (Call ''Cqb'' [])) (G ''Bqb'')) (Meth (V 0) ''Me'' []))],
    fn ''Qu'' 1 0 [Do (Call ''bk'' [V 0, G ''zue'']), Ret (Call ''Xy'' [Call ''Mcb'' [Call ''Mcb'' [K (JNum 5), V 0], Bin DivInt (V 0) (K (JNum 10))]])],
    fn ''jbd'' 3 0 [Do (Call ''cbd'' []), Ret (Meth (V 2) ''Kg'' [V 0, Call ''JD'' [Meth (V 1) ''jd'' [], K (JNum 147)]])],
    fn ''qx'' 2 0 [Do (Call ''mx'' []), Ret (New ''ox'' [New ''rl'' [V 0], New ''bl'' [V 1]])],
    fn ''Mub'' 2 0 [Ret (Or (Same (Call ''XD'' [V 0]) (Call ''XD'' [V 1])) (And (Neg (Loose (V 0) (K JNull))) (Call ''pb'' [V 0, V 1])))],
    fn ''brb'' 2 0 [Ret (Cond (Call ''Jrb'' [Dot (V 0) ''a'', V 1]) (Idx (Dot (V 0) ''b'') (Dot (Call ''JD'' [V 1, K (JNum 24)]) ''g'')) (K JNull))]]"

definition code_2797_2898 :: "(string \<times> jfun) list" where
  "code_2797_2898 = [
    fn ''Cpb'' 1 0 [Do (And (Neg (Dot (V 0) ''d'')) (Put (V 0) ''d'' (New ''Hob'' [Meth (Dot (V 0) ''c'') ''Bc'' []]))), Ret (Dot (V 0) ''d'')],
    fn ''zpb'' 1 0 [Do (And (Neg (Dot (V 0) ''a'')) (Put (V 0) ''a'' (New ''$pb'' [Meth (Dot (V 0) ''c'') ''vc'' []]))), Ret (Dot (V 0) ''a'')],
    fn ''Bpb'' 1 0 [Do (And (Neg (Dot (V 0) ''b'')) (Put (V 0) ''b'' (New ''Tpb'' [Meth (Dot (V 0) ''c'') ''ec'' []]))), Ret (Dot (V 0) ''b'')],
    fn ''Nbd'' 1 0 [Do (Put (Dot (Dot (V 0) ''j'') ''c'') ''length'' (K (JNum 0))), Do (Call ''ze'' [Dot (V 0) ''c'']), Do (Call ''ncd'' [Dot (V 0) ''a'']), Ret (V 0)],
    fn ''VCc'' 2 1 [Do (SetV 2 (New ''y$b'' [V 0])), Do (Call ''qDb'' [Dot (V 1) ''c'', V 2]), Ret (V 2)],
    fn ''Gvd'' 1 0 [Do (And (Neg (Dot (V 0) ''n'')) (Put (V 0) ''n'' (New ''P3d'' [G ''S3'', V 0, K (JNum 1), K (JNum 7)]))), Ret (Dot (V 0) ''n'')],
    fn ''Hwd'' 1 0 [Do (And (Neg (Dot (V 0) ''b'')) (Put (V 0) ''b'' (New ''jhe'' [G ''O3'', V 0, K (JNum 4), K (JNum 7)]))), Ret (Dot (V 0) ''b'')],
    fn ''Iwd'' 1 0 [Do (And (Neg (Dot (V 0) ''c'')) (Put (V 0) ''c'' (New ''jhe'' [G ''O3'', V 0, K (JNum 5), K (JNum 8)]))), Ret (Dot (V 0) ''c'')],
    fn ''Szd'' 1 0 [Do (And (Neg (Dot (V 0) ''c'')) (Put (V 0) ''c'' (New ''P3d'' [G ''U3'', V 0, K (JNum 9), K (JNum 9)]))), Ret (Dot (V 0) ''c'')],
    fn ''Tyd'' 4 0 [Do (Call ''Syd'' [V 0, V 1, V 2, K (JBool False)]), Do (Call ''w_d'' [V 0, V 3]), Ret (V 0)],
    fn ''Afb'' 2 0 [Loop (Bin Gt (Bin Minus (SetV 1 (Bin Minus (V 1) (K (JNum 1)))) (K (JNum (- 1)))) (K (JNum 0))) [Do (SetV 0 (Bin BitOr (Bin Shl (V 0) (K (JNum 1))) (Cond (Bin Lt (V 0) (K (JNum 0))) (K (JNum 1)) (K (JNum 0)))))] [], Ret (V 0)],
    fn ''iKb'' 2 0 [Do (And (Meth (Dot (V 0) ''u'') ''Gc'' [Seq (Call ''$ld'' []) (G ''Wld'')]) (Call ''gKb'' [V 0, V 1])), Do (Call ''kKb'' [V 0, V 1])],
    fn ''tBd'' 2 0 [Do (Call ''VEd'' [V 0, Call ''Ueb'' [Call ''RAd'' [V 1, K (JStr ''x'')]], Call ''Ueb'' [Call ''RAd'' [V 1, K (JStr ''y'')]]])],
    fn ''GBd'' 2 0 [Do (Call ''VEd'' [V 0, Call ''Ueb'' [Call ''RAd'' [V 1, K (JStr ''x'')]], Call ''Ueb'' [Call ''RAd'' [V 1, K (JStr ''y'')]]])],
    fn ''bad'' 0 0 [Do (Call ''X9c'' []), Ret (Call ''WC'' [Call ''OC'' [G ''_0'', K (JNum 1)], G ''xue'', K (JNum 528), K (JNum 0), NewArr [G ''W9c'']])],
    fn ''D8c'' 0 0 [Do (Call ''y8c'' []), Ret (Call ''WC'' [Call ''OC'' [G ''T0'', K (JNum 1)], G ''xue'', K (JNum 547), K (JNum 0), NewArr [G ''x8c'']])],
    fn ''u8c'' 0 0 [Do (Call ''o8c'' []), Ret (Call ''WC'' [Call ''OC'' [G ''S0'', K (JNum 1)], G ''xue'', K (JNum 477), K (JNum 0), NewArr [G ''n8c'']])],
    fn ''Hx'' 0 0 [Do (SetG ''Hx'' (G ''qdb'')), Do (SetG ''Gx'' (New ''Jx'' [Call ''WC'' [Call ''OC'' [G ''LK'', K (JNum 1)], G ''mue'', K (JNum 45), K (JNum 0), NewArr []]]))],
    fn ''JQd'' 1 0 [Ret (And (Neg (Loose (V 0) (K JNull))) (Call ''Dob'' [G ''rQd'', Meth (V 0) ''toLowerCase'' []]))],
    fn ''My'' 2 0 [Ret (New ''Ky'' [Call ''JD'' [Call ''Qb'' [V 0], K (JNum 51)], Call ''JD'' [Call ''Qb'' [V 1], K (JNum 51)]])],
    fn ''Ak'' 3 1 [Do (SetV 3 (Call ''JD'' [Meth (Dot (V 0) ''d'') ''Kb'' [V 2], K (JNum 162)])), Do (And (Neg (Neg (V 3))) (Meth (V 3) ''Nb'' [V 1]))],
    fn ''ze'' 1 1 [Do (SetV 1 (Meth (V 0) ''Jc'' [])), Loop (Meth (V 1) ''Ob'' []) [Do (Meth (V 1) ''Pb'' []), Do (Meth (V 1) ''Qb'' [])] []],
    fn ''Gh'' 1 1 [Do (SetV 1 (Dot (V 0) ''b'')), Do (And (Neg (V 1)) (Put (V 0) ''b'' (SetV 1 (New ''Vh'' [V 0])))), Ret (V 1)],
    fn ''Nde'' 1 0 [Do (And (Loose (Dot (V 0) ''e'') (G ''qJe'')) (Call ''Tde'' [V 0, Call ''Nce'' [Dot (V 0) ''g'', Dot (V 0) ''b'']])), Ret (Dot (V 0) ''e'')],
    fn ''Ode'' 1 0 [Do (And (Loose (Dot (V 0) ''f'') (G ''qJe'')) (Call ''Ude'' [V 0, Call ''Oce'' [Dot (V 0) ''g'', Dot (V 0) ''b'']])), Ret (Dot (V 0) ''f'')],
    fn ''Ulb'' 1 0 [Do (Put This ''d'' (V 0)), Do (Put This ''a'' (Dot (Dot This ''d'') ''b'')), Do (Put This ''b'' (Dot (Dot This ''d'') ''c''))],
    fn ''jy'' 2 0 [Do (Put This ''b'' (V 0)), Do (Put This ''c'' (V 1)), Do (Put This ''a'' (New ''Wrb'' [Dot This ''b'']))],
    fn ''ogb'' 3 0 [Do (Put This ''a'' (G ''Mue'')), Do (Put This ''d'' (V 0)), Do (Put This ''b'' (V 1)), Do (Put This ''c'' (V 2))],
    fn ''_vb'' 2 0 [Do (Put This ''d'' (Seq (Call ''NDb'' [V 0]) (V 0))), Do (Put This ''a'' (K (JNum 16449))), Do (Put This ''c'' (V 1))],
    fn ''GFb'' 2 0 [Ret (Call ''$eb'' [Bin Plus (Dot (Dot (V 0) ''d'') ''c'') (Bin Divide (Dot (Dot (V 0) ''d'') ''b'') (K (JNum 2))), Bin Plus (Dot (Dot (V 1) ''d'') ''c'') (Bin Divide (Dot (Dot (V 1) ''d'') ''b'') (K (JNum 2)))])],
    fn ''ASb'' 2 0 [Ret (Call ''$eb'' [Bin Plus (Dot (Dot (V 0) ''g'') ''c'') (Bin Divide (Dot (Dot (V 0) ''g'') ''b'') (K (JNum 2))), Bin Plus (Dot (Dot (V 1) ''g'') ''c'') (Bin Divide (Dot (Dot (V 1) ''g'') ''b'') (K (JNum 2)))])],
    fn ''vTb'' 2 0 [Do (Call ''rTb'' []), Ret (Call ''$eb'' [Seq (Call ''NDb'' [V 0]) (V 0), Seq (Call ''NDb'' [V 1]) (V 1)])],
    fn ''VBb'' 2 0 [Do (Call ''dBb'' [V 0]), Ret (New ''jCb'' [V 0, New ''ACb'' [V 1, Dot (V 0) ''a'']])],
    fn ''ZBb'' 2 0 [Do (Call ''dBb'' [V 0]), Ret (New ''jCb'' [V 0, New ''SCb'' [V 1, Dot (V 0) ''a'']])],
    fn ''$Bb'' 2 0 [Do (Call ''dBb'' [V 0]), Ret (New ''nBb'' [V 0, New ''GCb'' [V 1, Dot (V 0) ''a'']])],
    fn ''_Bb'' 2 0 [Do (Call ''dBb'' [V 0]), Ret (New ''HBb'' [V 0, New ''MCb'' [V 1, Dot (V 0) ''a'']])],
    fn ''Vbc'' 3 0 [Do (Call ''Jkc'' [Dot (V 0) ''a'', V 2]), Do (Call ''Yjc'' [V 2]), Do (Call ''$kc'' [Dot (V 0) ''b'', V 2]), Do (Call ''rkc'' [V 1, V 2])],
    fn ''ZJc'' 4 0 [Do (Put This ''a'' (V 0)), Do (Put This ''c'' (V 1)), Do (Put This ''b'' (V 2)), Do (Put This ''d'' (V 3))],
    fn ''ALc'' 4 0 [Do (Put This ''c'' (V 0)), Do (Put This ''b'' (V 1)), Do (Put This ''a'' (V 2)), Do (Put This ''d'' (V 3))],
    fn ''dMc'' 4 0 [Do (Put This ''c'' (V 0)), Do (Put This ''b'' (V 1)), Do (Put This ''d'' (V 2)), Do (Put This ''a'' (V 3))],
    fn ''$Wb'' 4 0 [Do (Put This ''a'' (V 0)), Do (Put This ''e'' (V 1)), Do (Put This ''d'' (V 2)), Do (Put This ''c'' (V 3))],
    fn ''pQc'' 4 0 [Do (Put This ''a'' (V 0)), Do (Put This ''d'' (V 1)), Do (Put This ''c'' (V 2)), Do (Put This ''b'' (V 3))],
    fn ''Pfd'' 4 0 [Do (Put This ''c'' (V 0)), Do (Put This ''d'' (V 1)), Do (Put This ''b'' (V 2)), Do (Put This ''a'' (V 3))],
    fn ''rjc'' 4 0 [Do (Super ''es'' [V 0, V 1]), Do (Put This ''a'' (V 2)), Do (Put This ''b'' (V 3))],
    fn ''zlc'' 4 0 [Do (Super ''ylc'' [V 0, V 2, V 3, K (JBool False)]), Do (Put This ''f'' (V 1))],
    fn ''Jtd'' 3 2 [Do (SetV 3 (Call ''BQd'' [V 0])), Do (SetV 4 (Meth (V 1) ''qi'' [V 2, V 3])), Ret (V 4)],
    fn ''Hyd'' 1 2 [Do (SetV 2 (Seq (SetV 1 (New ''F0d'' [])) (V 1))), Do (Call ''y0d'' [V 2, V 0]), Ret (V 2)],
    fn ''Iyd'' 1 2 [Do (SetV 2 (Seq (SetV 1 (New ''F0d'' [])) (V 1))), Do (Call ''C0d'' [V 2, V 0]), Ret (V 2)],
    fn ''Qzd'' 1 0 [Do (And (Neg (Dot (V 0) ''b'')) (Put (V 0) ''b'' (New ''P3d'' [G ''Q3'', V 0, K (JNum 12), K (JNum 3)]))), Ret (Dot (V 0) ''b'')],
    fn ''vWb'' 1 1 [Do (SetV 1 (Call ''L_b'' [V 0])), When (V 1) [Ret (V 1)] [], Ret (K JNull)],
    fn ''Fec'' 1 1 [Do (Call ''mec'' []), Do (SetV 1 (Call ''JD'' [Dot (V 0) ''g'', K (JNum 9)])), Do (Put (Dot (V 1) ''n'') ''a'' (Bin Plus (Dot (Dot (V 0) ''d'') ''c'') (Dot (Dot (V 1) ''d'') ''b'')))],
    fn ''WEc'' 1 0 [Do (Put This ''a'' (New ''lmb'' [])), Do (Put This ''e'' (Call ''SC'' [G ''cE'', G ''aue'', K (JNum 54), V 0, K (JNum 0), K (JNum 2)]))],
    fn ''NNd'' 1 0 [Do (Put This ''f'' (V 0)), Do (Put This ''c'' (Dot (Dot This ''f'') ''e'')), Do (And (Bin Gt (Dot (V 0) ''f'') (K (JNum 0))) (Call ''MNd'' [This]))],
    fn ''K5d'' 4 0 [Do (Put This ''a'' (V 0)), Do (Put This ''c'' (V 1)), Do (Put This ''d'' (V 2)), Do (Put This ''b'' (V 3))],
    fn ''CDd'' 4 0 [Do (Put This ''a'' (V 0)), Do (Put This ''b'' (V 1)), Do (Put This ''d'' (V 2)), Do (Put This ''c'' (V 3))],
    fn ''DCd'' 4 0 [Do (Put This ''a'' (V 0)), Do (Put This ''b'' (V 1)), Do (Put This ''c'' (V 2)), Do (Put This ''d'' (V 3))],
    fn ''FCd'' 4 0 [Do (Put This ''a'' (V 0)), Do (Put This ''b'' (V 1)), Do (Put This ''c'' (V 2)), Do (Put This ''d'' (V 3))],
    fn ''u5d'' 4 0 [Do (Put This ''e'' (V 0)), Do (Put This ''a'' (V 1)), Do (Put This ''c'' (V 2)), Do (Put This ''d'' (V 3))],
    fn ''P6d'' 4 0 [Do (Call ''F5d'' []), Do (Super ''Z5d'' [V 1, V 2, V 3]), Do (Put This ''a'' (V 0))],
    fn ''W6d'' 4 0 [Do (Call ''F5d'' []), Do (Super ''Z5d'' [V 1, V 2, V 3]), Do (Put This ''a'' (V 0))],
    fn ''Tg'' 2 0 [Do (Put This ''a'' (V 0)), Do (Super ''Ng'' [V 0, Meth (Call ''JD'' [Dot (V 0) ''d'', K (JNum 16)]) ''dd'' [V 1]])],
    fn ''Nod'' 2 0 [Ret (Call ''$eb'' [Bin Times (Call ''Wod'' [V 0]) (Call ''Vod'' [V 0]), Bin Times (Call ''Wod'' [V 1]) (Call ''Vod'' [V 1])])],
    fn ''Ood'' 2 0 [Ret (Call ''$eb'' [Bin Times (Call ''Wod'' [V 0]) (Call ''Vod'' [V 0]), Bin Times (Call ''Wod'' [V 1]) (Call ''Vod'' [V 1])])],
    fn ''nd'' 1 1 [Ret (Seq (SetV 1 (Dot (V 0) ''f'')) (Cond (Neg (V 1)) (Put (V 0) ''f'' (New ''me'' [V 0, Dot (V 0) ''c''])) (V 1)))],
    fn ''Inb'' 0 0 [Do (SetG ''Inb'' (G ''qdb'')), Do (SetG ''Fnb'' (New ''Tnb'' [])), Do (SetG ''Gnb'' (New ''kob'' [])), Do (SetG ''Hnb'' (New ''sob'' []))],
    fn ''Cqb'' 0 0 [Do (SetG ''Cqb'' (G ''qdb'')), Do (SetG ''zqb'' (New ''Eqb'' [])), Do (SetG ''Aqb'' (New ''Eqb'' [])), Do (SetG ''Bqb'' (New ''Jqb'' []))],
    fn ''Lg'' 1 0 [Do (Call ''gg'' [Dot (V 0) ''d'']), When (Neg (Loose (Dot (Dot (V 0) ''d'') ''d'') (Dot (V 0) ''c''))) [Raise (Call ''Lcb'' [New ''Rqb'' []])] []],
    fn ''Ljb'' 1 0 [Do (Call ''LDb'' [Bin Lt (Dot (V 0) ''b'') (Meth (Dot (V 0) ''d'') ''gc'' [])]), Ret (Meth (Dot (V 0) ''d'') ''Xb'' [Put (V 0) ''c'' (Bin Minus (Put (V 0) ''b'' (Bin Minus (Dot (V 0) ''b'') (K (JNum (- 1))))) (K (JNum 1)))])],
    fn ''cub'' 1 0 [Do (Put (Dot (V 0) ''a'') ''a'' (Dot (V 0) ''c'')), Do (Put (Dot (V 0) ''c'') ''b'' (Dot (V 0) ''a'')), Do (Put (Dot (V 0) ''a'') ''b'' (Put (Dot (V 0) ''c'') ''a'' (K JNull))), Do (Put (V 0) ''b'' (K (JNum 0)))],
    fn ''hYb'' 2 0 [Do (Put (V 0) ''b'' (Dot (V 1) ''b'')), Do (Put (V 0) ''c'' (Dot (V 1) ''c'')), Do (Put (V 0) ''d'' (Dot (V 1) ''d'')), Do (Put (V 0) ''a'' (Dot (V 1) ''a'')), Ret (V 0)],
    fn ''hq'' 3 0 [Do (Call ''_lb'' [Dot (V 0) ''a'', Seq (Call ''ak'' [V 1, V 2]) (New ''ap'' [V 1, V 2])]), Ret (V 0)],
    fn ''ND'' 1 0 [Do (Call ''VDb'' [Or (Loose (V 0) (K JNull)) (And (Call ''WD'' [V 0]) (Neg (Same (Dot (V 0) ''Rm'') (G ''udb''))))]), Ret (V 0)],
    fn ''$y'' 1 0 [When (Dot (V 0) ''n'') [Do (And (Neg (Same (Dot (V 0) ''e'') (G ''Fue''))) (Meth (V 0) ''he'' [])), Do (Put (V 0) ''j'' (K JNull))] [], Ret (V 0)],
    fn ''Gse'' 1 0 [When (Bin Gt (Dot (V 0) ''length'') (K (JNum 0))) [Ret (Call ''Wu'' [V 0])] [], Ret (New ''lmb'' [])],
    fn ''lcc'' 2 0 [Do (Meth (Call ''JD'' [Call ''oNb'' [V 0, Seq (Call ''Wrc'' []) (G ''hrc'')], K (JNum 16)]) ''Ec'' [V 1]), Ret (V 1)],
    fn ''M9b'' 2 0 [Ret (Call ''Rc'' [V 0, Call ''JD'' [Call ''oNb'' [V 1, Seq (Call ''nyc'' []) (G ''ixc'')], K (JNum 15)], V 1])],
    fn ''_$b'' 1 0 [Ret (And (Call ''Kwd'' [V 0]) (Call ''Rdb'' [Call ''LD'' [Call ''cvd'' [V 0, Seq (Call ''nyc'' []) (G ''ywc'')]]]))],
    fn ''bec'' 3 0 [Do (Call ''Xdc'' []), Ret (Call ''sFb'' [Call ''JD'' [Call ''ejb'' [Dot (V 0) ''e'', V 1], K (JNum 517)], V 2])],
    fn ''dgc'' 3 0 [Do (Put (V 0) ''i'' (K (JNum 0))), Do (Put (V 0) ''e'' (K (JNum 0))), When (Loose (V 1) (V 2)) [Ret (K JUndef)] [], Do (Call ''_fc'' [V 0, V 1, V 2])],
    fn ''egc'' 3 0 [Do (Put (V 0) ''i'' (K (JNum 0))), Do (Put (V 0) ''e'' (K (JNum 0))), When (Loose (V 1) (V 2)) [Ret (K JUndef)] [], Do (Call ''agc'' [V 0, V 1, V 2])],
    fn ''vCb'' 4 0 [Do (Put This ''b'' (V 0)), Do (Put This ''c'' (V 3)), Do (Super ''Ewb'' [V 1, V 2])],
    fn ''SFc'' 2 0 [Do (Put This ''g'' (V 0)), Do (Put This ''d'' (Call ''WC'' [Call ''OC'' [G ''SP'', K (JNum 1)], G ''Bye'', K (JNum 9), K (JNum 0), NewArr [V 1]]))],
    fn ''smc'' 2 0 [When (And (Neg (Neg (Dot (V 0) ''d''))) (Neg (Dot (Dot (V 0) ''d'') ''a''))) [Do (Call ''rmc'' [Dot (V 0) ''d'', V 1]), Do (Call ''smc'' [Dot (V 0) ''d'', V 1])] []],
    fn ''tmc'' 2 0 [When (And (Neg (Neg (Dot (V 0) ''e''))) (Neg (Dot (Dot (V 0) ''e'') ''a''))) [Do (Call ''rmc'' [Dot (V 0) ''e'', V 1]), Do (Call ''tmc'' [Dot (V 0) ''e'', V 1])] []],
    fn ''YPc'' 2 0 [Ret (Bin Plus (Call ''EQc'' [Dot (V 0) ''j'', Dot (V 1) ''s'', Dot (V 1) ''c'']) (Call ''EQc'' [Dot (V 1) ''e'', Dot (V 0) ''s'', Dot (V 0) ''c'']))],
    fn ''Iqd'' 1 0 [Ret (Bin Plus (Bin Plus (Meth (Call ''JD'' [Meth (V 0) ''jd'' [], K (JNum 147)]) ''Og'' []) (K (JStr '':''))) (Call ''tdb'' [Meth (V 0) ''kd'' []]))],
    fn ''Mod'' 2 0 [Ret (Minus1 (Call ''$eb'' [Bin Times (Call ''Wod'' [V 0]) (Call ''Vod'' [V 0]), Bin Times (Call ''Wod'' [V 1]) (Call ''Vod'' [V 1])]))],
    fn ''ccd'' 2 0 [Do (Call ''rb'' [V 0]), Do (Call ''rb'' [V 1]), Ret (Call ''bs'' [Call ''JD'' [V 0, K (JNum 24)], Call ''JD'' [V 1, K (JNum 24)]])],
    fn ''MAd'' 3 2 [Do (SetV 3 (Call ''$db'' [V 2])), Do (SetV 4 (New ''_B'' [V 3])), Do (Call ''kC'' [V 0, V 1, V 4])],
    fn ''FTc'' 2 0 [Do (New ''dub'' []), Do (Put This ''a'' (New ''ygd'' [])), Do (Put This ''b'' (V 0)), Do (Put This ''c'' (V 1))],
    fn ''s1b'' 1 0 [Do (Put This ''b'' (New ''lmb'' [])), Do (Call ''bmb'' [Dot This ''b'', Dot This ''b'']), Do (Put This ''a'' (V 0))],
    fn ''NHc'' 1 0 [Do (Put This ''b'' (New ''YHc'' [])), Do (Put This ''a'' (V 0)), Do (Meth (Dot (G ''$wnd'') ''Math'') ''random'' [])],
    fn ''$yd'' 0 0 [Do (Call ''Xyd'' [This, New ''Uxd'' []]), Do (Put This ''wb'' (Seq (Call ''yRd'' []) (G ''xRd''))), Do (Call ''wRd'' [])],
    fn ''Lub'' 0 0 [Do (Super ''qz'' [K (JStr ''There is no more element.'')])],
    fn ''Fhe'' 4 0 [Do (Super ''xXd'' [V 1, V 2]), Do (Put This ''b'' (V 0)), Do (Put This ''a'' (V 3))],
    fn ''q2d'' 6 0 [Do (Super ''p2d'' [V 0, V 1, V 2, V 3, V 4, Cond (V 5) (K (JNum (- 2))) (K (JNum (- 1)))])],
    fn ''Pzd'' 1 0 [Do (And (Neg (Dot (V 0) ''a'')) (Put (V 0) ''a'' (New ''P3d'' [G ''T3'', V 0, K (JNum 10), K (JNum 11)]))), Ret (Dot (V 0) ''a'')],
    fn ''HWd'' 1 0 [Do (And (Neg (Dot (V 0) ''q'')) (Put (V 0) ''q'' (New ''P3d'' [G ''D6'', V 0, K (JNum 11), K (JNum 10)]))), Ret (Dot (V 0) ''q'')],
    fn ''KWd'' 1 0 [Do (And (Neg (Dot (V 0) ''s'')) (Put (V 0) ''s'' (New ''P3d'' [G ''J6'', V 0, K (JNum 21), K (JNum 17)]))), Ret (Dot (V 0) ''s'')],
    fn ''Rb'' 2 0 [When (Loose (V 0) (K JNull)) [Raise (Call ''Lcb'' [New ''Yfb'' [V 1]])] [], Ret (V 0)],
    fn ''Ky'' 2 0 [Do (Super ''ui'' [New ''lyb'' [V 0]]), Do (Put This ''a'' (V 0)), Do (Put This ''b'' (V 1))],
    fn ''xu'' 1 0 [Do (Put This ''b'' (V 0)), Do (Put This ''c'' (V 0)), Do (Put (V 0) ''e'' (K JNull)), Do (Put (V 0) ''c'' (K JNull)), Do (Put This ''a'' (K (JNum 1)))]]"

definition code_2900_2933 :: "(string \<times> jfun) list" where
  "code_2900_2933 = [
    fn ''$q'' 1 0 [Do (Call ''Qb'' [V 0]), Ret (Call ''vr'' [New ''Yr'' [Call ''Dr'' [Meth (Dot (V 0) ''a'') ''Jc'' [], New ''Dl'' []]]])],
    fn ''Rnb'' 1 0 [Do (Call ''Inb'' []), Ret (Cond (Call ''RD'' [V 0, K (JNum 59)]) (New ''qqb'' [V 0]) (New ''bpb'' [V 0]))],
    fn ''Qx'' 1 0 [Ret (Cond (Call ''RD'' [V 0, K (JNum 18)]) (New ''jsb'' [Call ''JD'' [V 0, K (JNum 18)]]) (Call ''Rx'' [Meth (V 0) ''Jc'' []]))],
    fn ''Ti'' 1 0 [Ret (New ''gj'' [V 0, Bin Times (Meth (Meth (Dot (V 0) ''e'') ''Pd'' []) ''gc'' []) (Meth (Meth (Dot (V 0) ''c'') ''Pd'' []) ''gc'' [])])],
    fn ''dj'' 1 0 [Ret (New ''qj'' [V 0, Bin Times (Meth (Meth (Dot (V 0) ''e'') ''Pd'' []) ''gc'' []) (Meth (Meth (Dot (V 0) ''c'') ''Pd'' []) ''gc'' [])])],
    fn ''Az'' 1 0 [Ret (Cond (And (Neg (Neg (V 0))) (Neg (Neg (Dot (V 0) ''hashCode'')))) (Meth (V 0) ''hashCode'' []) (Call ''DDb'' [V 0]))],
    fn ''gjb'' 2 0 [Ret (Cond (Loose (V 1) (K JNull)) (Neg (Neg (Call ''ysb'' [Dot (V 0) ''f'', K JNull]))) (Call ''Rsb'' [Dot (V 0) ''i'', V 1]))],
    fn ''NRb'' 2 1 [Do (SetV 2 (Call ''gsb'' [Dot (V 0) ''a'', V 1])), Do (And (V 2) (Put (V 1) ''d'' (K JNull))), Ret (V 2)],
    fn ''dFb'' 3 0 [When (Dot (V 0) ''f'') [Ret (Meth (Dot (V 0) ''f'') ''cf'' [V 1, V 2])] [], Ret (K (JBool False))],
    fn ''TAc'' 4 0 [Do (Call ''VC'' [Idx (Dot (V 0) ''c'') (Dot (V 1) ''g''), Dot (V 2) ''g'', V 3]), Do (Call ''VC'' [Idx (Dot (V 0) ''c'') (Dot (V 2) ''g''), Dot (V 1) ''g'', V 3])],
    fn ''WAc'' 4 0 [Do (Call ''VC'' [Idx (Dot (V 0) ''c'') (Dot (V 1) ''g''), Dot (V 1) ''g'', V 2]), Do (Call ''VC'' [Idx (Dot (V 0) ''b'') (Dot (V 1) ''g''), Dot (V 1) ''g'', V 3])],
    fn ''nIc'' 1 0 [Do (Meth (V 0) ''Tg'' [K (JStr ''No crossing minimization''), K (JNum 1)]), Do (Meth (V 0) ''Ug'' [])],
    fn ''EFb'' 1 0 [Do (Put This ''c'' (V 0)), Do (Put This ''b'' (New ''Gzb'' [Call ''JD'' [Call ''Qb'' [New ''HFb'' []], K (JNum 51)]]))],
    fn ''ySb'' 1 0 [Do (Put This ''c'' (V 0)), Do (Put This ''b'' (New ''Gzb'' [Call ''JD'' [Call ''Qb'' [New ''BSb'' []], K (JNum 51)]]))],
    fn ''CMb'' 1 0 [Do (Put This ''b'' (V 0)), Do (Put This ''a'' (New ''Gzb'' [Call ''JD'' [Call ''Qb'' [New ''FMb'' []], K (JNum 51)]]))],
    fn ''cOc'' 0 0 [Do (Put This ''b'' (New ''hsb'' [])), Do (Put This ''d'' (New ''dub'' [])), Do (Put This ''e'' (New ''Mxb'' []))],
    fn ''yCc'' 0 0 [Do (Put This ''d'' (New ''dub'' [])), Do (Put This ''b'' (New ''_rb'' [])), Do (Put This ''c'' (New ''lmb'' []))],
    fn ''xNb'' 0 0 [Do (Put This ''c'' (New ''jgd'' [])), Do (Put This ''d'' (New ''jgd'' [])), Do (Put This ''e'' (New ''jgd'' []))],
    fn ''GWb'' 0 0 [Do (Put This ''a'' (New ''ygd'' [])), Do (Put This ''b'' (Seq (Call ''bk'' [K (JNum 3), G ''wue'']) (New ''mmb'' [K (JNum 3)])))],
    fn ''Qfd'' 1 0 [Do (Put This ''c'' (Dot (V 0) ''c'')), Do (Put This ''d'' (Dot (V 0) ''d'')), Do (Put This ''b'' (Dot (V 0) ''b'')), Do (Put This ''a'' (Dot (V 0) ''a''))],
    fn ''rJd'' 6 0 [Do (Put This ''a'' (V 0)), Do (Super ''cJd'' [V 1, V 2, V 3, V 4, V 5])],
    fn ''kKd'' 6 0 [Do (Put This ''a'' (V 0)), Do (Super ''cJd'' [V 1, V 2, V 3, V 4, V 5])],
    fn ''v5d'' 2 0 [Do (Put This ''e'' (V 0)), Do (Put This ''a'' (G ''aJ'')), Do (Put This ''b'' (Call ''Che'' [V 1])), Do (Put This ''c'' (V 1))],
    fn ''AEd'' 2 0 [Ret (And (Call ''RD'' [V 1, K (JNum 147)]) (Call ''vgb'' [Dot (V 0) ''b'', Meth (Call ''JD'' [V 1, K (JNum 147)]) ''Og'' []]))],
    fn ''ece'' 2 0 [Ret (Cond (Dot (V 0) ''a'') (Meth (Meth (V 1) ''Dh'' []) ''Jc'' []) (Meth (Call ''JD'' [Meth (V 1) ''Dh'' [], K (JNum 72)]) ''Gi'' []))],
    fn ''bUc'' 3 0 [Ret (And (Bin Le (Call ''Ueb'' [Call ''MD'' [Dot (V 2) ''a'']]) (V 0)) (Bin Ge (Call ''Ueb'' [Call ''MD'' [Dot (V 2) ''b'']]) (V 1)))],
    fn ''Hgb'' 3 0 [Ret (And (Bin Ge (V 2) (K (JNum 0))) (Call ''vgb'' [Meth (V 0) ''substr'' [V 2, Dot (V 1) ''length''], V 1]))],
    fn ''see'' 7 0 [Ret (New ''yje'' [Dot (V 0) ''e'', V 1, V 2, V 3, V 4, V 5, V 6])],
    fn ''Jgb'' 3 0 [Do (Call ''TDb'' [V 1, V 2, Dot (V 0) ''length'']), Ret (Meth (V 0) ''substr'' [V 1, Bin Minus (V 2) (V 1)])],
    fn ''dz'' 2 1 [Do (SetV 2 (Call ''xeb'' [Dot (V 0) ''Pm''])), Ret (Cond (Loose (V 1) (K JNull)) (V 2) (Bin Plus (Bin Plus (V 2) (K (JStr '': ''))) (V 1)))],
    fn ''Ypb'' 2 1 [Do (SetV 2 (Meth (Dot (V 0) ''b'') ''Oc'' [V 1])), Do (Call ''Zpb'' [V 2, Meth (Dot (V 0) ''b'') ''gc'' []]), Ret (V 2)],
    fn ''Pub'' 2 0 [When (Loose (V 0) (K JNull)) [Raise (Call ''Lcb'' [New ''Yfb'' [V 1]])] [], Ret (V 0)],
    fn ''MWd'' 1 0 [When (Neg (Dot (V 0) ''u'')) [Do (Call ''LWd'' [V 0]), Do (Put (V 0) ''u'' (New ''J$d'' [V 0, V 0]))] [], Ret (Dot (V 0) ''u'')],
    fn ''qud'' 1 1 [Do (SetV 1 (Call ''JD'' [Call ''uud'' [V 0, K (JNum 16)], K (JNum 29)])), Ret (Cond (Neg (V 1)) (Meth (V 0) ''fi'' []) (V 1))]]"

definition code_2935_2974 :: "(string \<times> jfun) list" where
  "code_2935_2974 = [
    fn ''YEb'' 0 0 [Do (SetG ''YEb'' (G ''qdb'')), Do (SetG ''VEb'' (New ''TEb'' [])), Do (SetG ''XEb'' (New ''yFb'' [])), Do (SetG ''WEb'' (New ''pFb'' []))],
    fn ''Zz'' 0 2 [Do (SetG ''Zz'' (G ''qdb'')), Do (SetV 1 (Neg (Call ''dA'' []))), Do (SetV 0 (New ''lA'' [])), Do (SetG ''Yz'' (Cond (V 1) (New ''eA'' []) (V 0)))],
    fn ''Qnc'' 0 0 [Do (Call ''Nnc'' []), Ret (Call ''WC'' [Call ''OC'' [G ''TV'', K (JNum 1)], G ''xue'', K (JNum 422), K (JNum 0), NewArr [G ''Lnc'', G ''Mnc'']])],
    fn ''Koc'' 0 0 [Do (Call ''Hoc'' []), Ret (Call ''WC'' [Call ''OC'' [G ''XV'', K (JNum 1)], G ''xue'', K (JNum 419), K (JNum 0), NewArr [G ''Foc'', G ''Goc'']])],
    fn ''mpc'' 0 0 [Do (Call ''jpc'' []), Ret (Call ''WC'' [Call ''OC'' [G ''$V'', K (JNum 1)], G ''xue'', K (JNum 476), K (JNum 0), NewArr [G ''ipc'', G ''hpc'']])],
    fn ''Hqc'' 0 0 [Do (Call ''Eqc'' []), Ret (Call ''WC'' [Call ''OC'' [G ''fW'', K (JNum 1)], G ''xue'', K (JNum 420), K (JNum 0), NewArr [G ''Cqc'', G ''Dqc'']])],
    fn ''lsc'' 0 0 [Do (Call ''isc'' []), Ret (Call ''WC'' [Call ''OC'' [G ''hW'', K (JNum 1)], G ''xue'', K (JNum 423), K (JNum 0), NewArr [G ''hsc'', G ''gsc'']])],
    fn ''kAc'' 0 0 [Do (Call ''hAc'' []), Ret (Call ''WC'' [Call ''OC'' [G ''sW'', K (JNum 1)], G ''xue'', K (JNum 421), K (JNum 0), NewArr [G ''fAc'', G ''gAc'']])],
    fn ''eKc'' 0 0 [Do (Call ''bKc'' []), Ret (Call ''WC'' [Call ''OC'' [G ''QX'', K (JNum 1)], G ''xue'', K (JNum 519), K (JNum 0), NewArr [G ''aKc'', G ''_Jc'']])],
    fn ''iNc'' 0 0 [Do (Call ''fNc'' []), Ret (Call ''WC'' [Call ''OC'' [G ''JY'', K (JNum 1)], G ''xue'', K (JNum 510), K (JNum 0), NewArr [G ''eNc'', G ''dNc'']])],
    fn ''qNc'' 0 0 [Do (Call ''nNc'' []), Ret (Call ''WC'' [Call ''OC'' [G ''KY'', K (JNum 1)], G ''xue'', K (JNum 509), K (JNum 0), NewArr [G ''lNc'', G ''mNc'']])],
    fn ''TPc'' 0 0 [Do (Call ''QPc'' []), Ret (Call ''WC'' [Call ''OC'' [G ''fZ'', K (JNum 1)], G ''xue'', K (JNum 516), K (JNum 0), NewArr [G ''PPc'', G ''OPc'']])],
    fn ''RRc'' 0 0 [Do (Call ''ORc'' []), Ret (Call ''WC'' [Call ''OC'' [G ''AZ'', K (JNum 1)], G ''xue'', K (JNum 454), K (JNum 0), NewArr [G ''MRc'', G ''NRc'']])],
    fn ''mYc'' 0 0 [Do (Call ''jYc'' []), Ret (Call ''WC'' [Call ''OC'' [G ''O$'', K (JNum 1)], G ''xue'', K (JNum 425), K (JNum 0), NewArr [G ''iYc'', G ''hYc'']])],
    fn ''m_c'' 0 0 [Do (Call ''g_c'' []), Ret (Call ''WC'' [Call ''OC'' [G ''w_'', K (JNum 1)], G ''xue'', K (JNum 487), K (JNum 0), NewArr [G ''e_c'', G ''f_c'']])],
    fn ''L0c'' 0 0 [Do (Call ''H0c'' []), Ret (Call ''WC'' [Call ''OC'' [G ''L_'', K (JNum 1)], G ''xue'', K (JNum 426), K (JNum 0), NewArr [G ''F0c'', G ''G0c'']])],
    fn ''A5c'' 0 0 [Do (Call ''u5c'' []), Ret (Call ''WC'' [Call ''OC'' [G ''r0'', K (JNum 1)], G ''xue'', K (JNum 478), K (JNum 0), NewArr [G ''s5c'', G ''t5c'']])],
    fn ''L8c'' 0 0 [Do (Call ''I8c'' []), Ret (Call ''WC'' [Call ''OC'' [G ''U0'', K (JNum 1)], G ''xue'', K (JNum 428), K (JNum 0), NewArr [G ''H8c'', G ''G8c'']])],
    fn ''yOb'' 0 0 [Do (Call ''vOb'' []), Ret (Call ''WC'' [Call ''OC'' [G ''hO'', K (JNum 1)], G ''xue'', K (JNum 424), K (JNum 0), NewArr [G ''tOb'', G ''uOb'']])],
    fn ''E2b'' 0 0 [Do (Call ''B2b'' []), Ret (Call ''WC'' [Call ''OC'' [G ''dR'', K (JNum 1)], G ''xue'', K (JNum 503), K (JNum 0), NewArr [G ''A2b'', G ''z2b'']])],
    fn ''mad'' 0 0 [Do (Call ''gad'' []), Ret (Call ''WC'' [Call ''OC'' [G ''a1'', K (JNum 1)], G ''xue'', K (JNum 427), K (JNum 0), NewArr [G ''fad'', G ''ead'']])],
    fn ''ftd'' 4 0 [Ret (Cond (Bin Ge (V 2) (K (JNum 0))) (Meth (V 0) ''Rh'' [V 1, V 2, V 3]) (Meth (V 0) ''zh'' [K JNull, V 2, V 3]))],
    fn ''Nqd'' 1 0 [When (Loose (Dot (Dot (V 0) ''b'') ''b'') (K (JNum 0))) [Ret (Meth (Dot (V 0) ''a'') ''uf'' [])] [], Ret (Call ''_tb'' [Dot (V 0) ''b''])],
    fn ''MId'' 1 0 [When (Neg (Loose (Dot (V 0) ''p'') (K (JNum 5)))) [Raise (Call ''Lcb'' [New ''mfb'' []])] [], Ret (Call ''gdb'' [Dot (V 0) ''f''])],
    fn ''VId'' 1 0 [When (Neg (Loose (Dot (V 0) ''p'') (K (JNum 5)))) [Raise (Call ''Lcb'' [New ''mfb'' []])] [], Ret (Call ''gdb'' [Dot (V 0) ''k''])],
    fn ''aZd'' 1 0 [Do (And (Same (Call ''XD'' [Dot (V 0) ''a'']) (Call ''XD'' [Seq (Call ''yWd'' []) (G ''xWd'')])) (Call ''bZd'' [V 0])), Ret (Dot (V 0) ''a'')],
    fn ''kRc'' 2 0 [Do (Call ''hRc'' [This, New ''lgd'' [Dot (V 0) ''a'', Dot (V 0) ''b'']]), Do (Call ''iRc'' [This, Call ''Zu'' [V 1]])],
    fn ''yIb'' 2 0 [Do (Super ''uHb'' []), Do (Call ''nIb'' [This]), Do (Put This ''a'' (V 0)), Do (Put This ''c'' (V 1))],
    fn ''P5d'' 3 0 [Do (Call ''F5d'' []), Do (Super ''G5d'' [V 1]), Do (Put This ''a'' (V 0)), Do (Put This ''b'' (V 2))],
    fn ''rse'' 3 0 [Do (Call ''gre'' []), Do (Super ''hre'' [V 0]), Do (Put This ''b'' (V 1)), Do (Put This ''a'' (V 2))],
    fn ''Np'' 0 0 [Do (Super ''Mp'' [New ''asb'' [Call ''Jv'' [K (JNum 12)]]]), Do (Call ''Lb'' [K (JBool True)]), Do (Put This ''a'' (K (JNum 2)))],
    fn ''Znd'' 0 0 [Do (Super ''Rnd'' [K (JStr ''FIXED_INTEGER_RATIO_BOXES''), K (JNum 2)])],
    fn ''ORc'' 0 0 [Do (SetG ''ORc'' (G ''qdb'')), Do (SetG ''MRc'' (New ''PRc'' [G ''Twe'', K (JNum 0)])), Do (SetG ''NRc'' (New ''PRc'' [G ''Uwe'', K (JNum 1)]))],
    fn ''fNc'' 0 0 [Do (SetG ''fNc'' (G ''qdb'')), Do (SetG ''eNc'' (New ''gNc'' [G ''Uwe'', K (JNum 0)])), Do (SetG ''dNc'' (New ''gNc'' [G ''Twe'', K (JNum 1)]))],
    fn ''f7c'' 2 0 [Do (Put (V 0) ''c'' (V 1)), Do (And (And (Bin Gt (Dot (V 0) ''c'') (K (JNum 0))) (Bin Gt (Dot (V 0) ''b'') (K (JNum 0)))) (Put (V 0) ''g'' (Call ''w7c'' [Dot (V 0) ''c'', Dot (V 0) ''b'', Dot (V 0) ''a''])))],
    fn ''e7c'' 2 0 [Do (Put (V 0) ''b'' (V 1)), Do (And (And (Bin Gt (Dot (V 0) ''c'') (K (JNum 0))) (Bin Gt (Dot (V 0) ''b'') (K (JNum 0)))) (Put (V 0) ''g'' (Call ''w7c'' [Dot (V 0) ''c'', Dot (V 0) ''b'', Dot (V 0) ''a''])))],
    fn ''ytb'' 1 1 [Do (SetV 1 (Dot (Dot (Dot (V 0) ''c'') ''d'') ''b'')), Do (Put (V 0) ''b'' (V 1)), Do (Put (V 0) ''a'' (Dot (Dot (V 0) ''c'') ''d'')), Do (Put (V 1) ''a'' (Put (Dot (Dot (V 0) ''c'') ''d'') ''b'' (V 0)))],
    fn ''iEb'' 1 1 [Do (Call ''hHb'' [Dot (V 0) ''a'']), Do (Call ''gHb'' [Dot (V 0) ''a'']), Do (SetV 1 (New ''sHb'' [Dot (V 0) ''a''])), Do (Call ''oHb'' [V 1])],
    fn ''fjb'' 2 0 [Ret (Cond (Loose (V 1) (K JNull)) (Call ''Wd'' [Call ''ysb'' [Dot (V 0) ''f'', K JNull]]) (Call ''Ssb'' [Dot (V 0) ''i'', V 1]))],
    fn ''$tb'' 1 0 [Ret (Cond (Loose (Dot (V 0) ''b'') (K (JNum 0))) (K JNull) (Seq (Call ''LDb'' [Neg (Loose (Dot (V 0) ''b'') (K (JNum 0)))]) (Call ''bub'' [V 0, Dot (Dot (V 0) ''a'') ''a''])))]]"

definition object_table5 :: "(string \<times> jfun) list" where
  "object_table5 = code_2504_2548 @ code_2550_2598 @ code_2600_2681 @ code_2683_2703 @ code_2705_2717 @ code_2719_2743 @ code_2746_2795 @ code_2797_2898 @ code_2900_2933 @ code_2935_2974"

text \<open>The names each table declares.\<close>

lemma names_2504_2548 [js_names]: "map fst code_2504_2548 = [
    ''$mb'', ''Dqb'', ''Iqb'', ''nNb'', ''rr'', ''kt'', ''ru'', ''vrb'', ''Vgc'', ''kf'',
    ''jsb'', ''Rtb'', ''jCb'', ''oYb'', ''QC'', ''ilc'', ''iJc'', ''fJc'', ''gJc'', ''hJc'',
    ''w7c'', ''kFc'', ''kgc'', ''DQd'', ''EQd'', ''lre'', ''Ure'', ''$6d'', ''aRd'', ''v8d'',
    ''Pqd'', ''Vod'', ''Wod'', ''gdb'', ''u_c'', ''$mc'', ''Wz'', ''Grb'', ''Zmb'', ''$lb'',
    ''gnb'', ''Jrb'', ''Lrb'', ''ysb'', ''Rsb'']"
  by (simp add: code_2504_2548_def fn_def)

lemma names_2550_2598 [js_names]: "map fst code_2550_2598 = [
    ''Pvb'', ''sMb'', ''tMb'', ''hg'', ''IHb'', ''JHb'', ''XCc'', ''X7c'', ''Ncc'', ''Occ'',
    ''xzd'', ''uTd'', ''icd'', ''uYd'', ''F3d'', ''R6d'', ''Y6d'', ''qZd'', ''XLb'', ''uSb'',
    ''yFb'', ''hLc'', ''_Bc'', ''Kse'', ''pre'', ''ee'', ''Ec'', ''Nfe'', ''bn'', ''cn'',
    ''fde'', ''ed'', ''Ce'', ''Sr'', ''Lrd'', ''Xnd'', ''fz'', ''wg'', ''Yr'', ''adb'',
    ''bdb'', ''cdb'', ''Sdb'', ''Teb'', ''nx'', ''lD'', ''rD'', ''zD'', ''UD'']"
  by (simp add: code_2550_2598_def fn_def)

lemma names_2600_2681 [js_names]: "map fst code_2600_2681 = [
    ''aCb'', ''bCb'', ''ZZb'', ''c$b'', ''g7b'', ''hdb'', ''sxb'', ''zCb'', ''Xvb'', ''pmc'',
    ''Mlc'', ''Byc'', ''vfd'', ''C0c'', ''Tjc'', ''GKc'', ''rwb'', ''Hwb'', ''wvb'', ''lyb'',
    ''wIc'', ''ELd'', ''MLd'', ''W3d'', ''$1d'', ''o2d'', ''P3d'', ''Vge'', ''ice'', ''_nd'',
    ''Jhe'', ''Rj'', ''kv'', ''_Zd'', ''Ggb'', ''Gl'', ''Jfd'', ''qD'', ''WD'', ''cjb'',
    ''mre'', ''ore'', ''ftb'', ''mib'', ''Umb'', ''crb'', ''esb'', ''anb'', ''Ymb'', ''LAb'',
    ''mxb'', ''yzb'', ''YNb'', ''jnb'', ''kjb'', ''Ukb'', ''ODb'', ''Lmc'', ''amd'', ''Jmb'',
    ''Qbd'', ''BDd'', ''Qee'', ''bSb'', ''Pde'', ''Clb'', ''Dlb'', ''CB'', ''EKd'', ''bse'',
    ''Kfb'', ''inb'', ''fib'', ''nle'', ''ple'', ''DLb'', ''jub'', ''aBb'', ''Zhc'', ''aic'',
    ''xgb'', ''_mb'']"
  by (simp add: code_2600_2681_def fn_def)

lemma names_2683_2703 [js_names]: "map fst code_2683_2703 = [
    ''rt'', ''pLc'', ''cUc'', ''eUc'', ''BMd'', ''us'', ''OB'', ''yRd'', ''NWd'', ''_Dd'',
    ''bEd'', ''nFd'', ''gUd'', ''nre'', ''hee'', ''Ceb'', ''Beb'', ''Qb'', ''yNb'', ''kie'',
    ''$vb'']"
  by (simp add: code_2683_2703_def fn_def)

lemma names_2705_2717 [js_names]: "map fst code_2705_2717 = [
    ''qq'', ''Pc'', ''Uc'', ''ii'', ''cj'', ''Fc'', ''_i'', ''wo'', ''Vx'', ''wj'',
    ''Igb'', ''VC'', ''jv'']"
  by (simp add: code_2705_2717_def fn_def)

lemma names_2719_2743 [js_names]: "map fst code_2719_2743 = [
    ''ejb'', ''jHd'', ''PA'', ''LRb'', ''y$b'', ''Ktb'', ''Qs'', ''BBc'', ''Fwb'', ''f7b'',
    ''$9b'', ''VPb'', ''WIc'', ''KAd'', ''qHd'', ''Kad'', ''_6d'', ''Q7d'', ''Sbe'', ''kde'',
    ''Ddd'', ''nse'', ''GC'', ''wTd'', ''w0d'']"
  by (simp add: code_2719_2743_def fn_def)

lemma names_2746_2795 [js_names]: "map fst code_2746_2795 = [
    ''Oub'', ''xre'', ''qte'', ''Fb'', ''_0d'', ''_fd'', ''Qyb'', ''lxb'', ''Hb'', ''fMb'',
    ''cBb'', ''_Ab'', ''_qb'', ''Mjb'', ''uFb'', ''lt'', ''pcd'', ''Z9c'', ''xtd'', ''dJc'',
    ''DYb'', ''ABb'', ''NDb'', ''NId'', ''WId'', ''KId'', ''LId'', ''UId'', ''TId'', ''l8d'',
    ''Lde'', ''Feb'', ''ep'', ''Vs'', ''FLd'', ''NLd'', ''l9d'', ''Ole'', ''ry'', ''Oqd'',
    ''wyd'', ''sgb'', ''gjc'', ''hjb'', ''Pnb'', ''Qu'', ''jbd'', ''qx'', ''Mub'', ''brb'']"
  by (simp add: code_2746_2795_def fn_def)

lemma names_2797_2898 [js_names]: "map fst code_2797_2898 = [
    ''Cpb'', ''zpb'', ''Bpb'', ''Nbd'', ''VCc'', ''Gvd'', ''Hwd'', ''Iwd'', ''Szd'', ''Tyd'',
    ''Afb'', ''iKb'', ''tBd'', ''GBd'', ''bad'', ''D8c'', ''u8c'', ''Hx'', ''JQd'', ''My'',
    ''Ak'', ''ze'', ''Gh'', ''Nde'', ''Ode'', ''Ulb'', ''jy'', ''ogb'', ''_vb'', ''GFb'',
    ''ASb'', ''vTb'', ''VBb'', ''ZBb'', ''$Bb'', ''_Bb'', ''Vbc'', ''ZJc'', ''ALc'', ''dMc'',
    ''$Wb'', ''pQc'', ''Pfd'', ''rjc'', ''zlc'', ''Jtd'', ''Hyd'', ''Iyd'', ''Qzd'', ''vWb'',
    ''Fec'', ''WEc'', ''NNd'', ''K5d'', ''CDd'', ''DCd'', ''FCd'', ''u5d'', ''P6d'', ''W6d'',
    ''Tg'', ''Nod'', ''Ood'', ''nd'', ''Inb'', ''Cqb'', ''Lg'', ''Ljb'', ''cub'', ''hYb'',
    ''hq'', ''ND'', ''$y'', ''Gse'', ''lcc'', ''M9b'', ''_$b'', ''bec'', ''dgc'', ''egc'',
    ''vCb'', ''SFc'', ''smc'', ''tmc'', ''YPc'', ''Iqd'', ''Mod'', ''ccd'', ''MAd'', ''FTc'',
    ''s1b'', ''NHc'', ''$yd'', ''Lub'', ''Fhe'', ''q2d'', ''Pzd'', ''HWd'', ''KWd'', ''Rb'',
    ''Ky'', ''xu'']"
  by (simp add: code_2797_2898_def fn_def)

lemma names_2900_2933 [js_names]: "map fst code_2900_2933 = [
    ''$q'', ''Rnb'', ''Qx'', ''Ti'', ''dj'', ''Az'', ''gjb'', ''NRb'', ''dFb'', ''TAc'',
    ''WAc'', ''nIc'', ''EFb'', ''ySb'', ''CMb'', ''cOc'', ''yCc'', ''xNb'', ''GWb'', ''Qfd'',
    ''rJd'', ''kKd'', ''v5d'', ''AEd'', ''ece'', ''bUc'', ''Hgb'', ''see'', ''Jgb'', ''dz'',
    ''Ypb'', ''Pub'', ''MWd'', ''qud'']"
  by (simp add: code_2900_2933_def fn_def)

lemma names_2935_2974 [js_names]: "map fst code_2935_2974 = [
    ''YEb'', ''Zz'', ''Qnc'', ''Koc'', ''mpc'', ''Hqc'', ''lsc'', ''kAc'', ''eKc'', ''iNc'',
    ''qNc'', ''TPc'', ''RRc'', ''mYc'', ''m_c'', ''L0c'', ''A5c'', ''L8c'', ''yOb'', ''E2b'',
    ''mad'', ''ftd'', ''Nqd'', ''MId'', ''VId'', ''aZd'', ''kRc'', ''yIb'', ''P5d'', ''rse'',
    ''Np'', ''Znd'', ''ORc'', ''fNc'', ''f7c'', ''e7c'', ''ytb'', ''iEb'', ''fjb'', ''$tb'']"
  by (simp add: code_2935_2974_def fn_def)

end
