(* ===== verification/ObjectTable6.thy ===== *)
theory ObjectTable6
  imports ObjectCode
begin

text \<open>
  Functions of \<open>layout-worker.js\<close>, lines 2976 to 3310, in the order of the file, one per line:
  operations of the runtime's collections, iterators and text buffers, accessors and small algorithms
  of the layout engine, with their loops, \<open>switch\<close> and \<open>try\<close> statements. An entry has the name, the
  number of parameters, the number of further local variables and the body; parameters and locals
  are numbered from 0, the variable of a \<open>catch\<close> has a number of its own, \<open>x++\<close> is \<open>(x=x+1)-1\<close>. Lines
  with a construct outside \<open>jexp\<close> and \<open>jstm\<close> (closures, \<open>in\<close>, floating-point literals, host objects) are
  left out.
\<close>

definition code_2976_2995 :: "(string \<times> jfun) list" where
  "code_2976_2995 = [
    fn ''iyb'' 5 0 [Ret (New ''Ryb'' [V 0, Seq (Call ''jzb'' []) (G ''hzb''), V 1, V 2, V 3, V 4])],
    fn ''Pmb'' 2 0 [Do (Call ''HDb'' [V 1]), Ret (Call ''Rmb'' [V 0, Call ''SC'' [G ''cE'', G ''bve'', K (JNum 30), V 1, K (JNum 15), K (JNum 1)], V 1])],
    fn ''AZc'' 2 0 [Do (Call ''kZc'' []), Ret (Loose (Dot (Call ''JD'' [Call ''oNb'' [V 1, Seq (Call ''SXc'' []) (G ''QXc'')], K (JNum 15)]) ''a'') (V 0))],
    fn ''EKb'' 2 0 [Do (Call ''DKb'' [V 0, K (JBool True)]), Do (Call ''cmb'' [Meth (Dot (V 0) ''e'') ''Pf'' [], New ''IKb'' [V 0, K (JBool True), V 1]])],
    fn ''Px'' 2 0 [Do (Call ''Rb'' [V 0, K (JStr ''set1'')]), Do (Call ''Rb'' [V 1, K (JStr ''set2'')]), Ret (New ''ay'' [V 0, V 1])],
    fn ''Cz'' 2 1 [Do (SetV 2 (Idx (G ''Bz'') (Meth (V 0) ''charCodeAt'' [K (JNum 0)]))), Ret (Cond (Loose (V 2) (K JNull)) (V 0) (V 2))],
    fn ''wRb'' 2 1 [Do (SetV 2 (Call ''fRb'' [Dot (V 0) ''f'', V 1])), Ret (Call ''Vfd'' [Call ''agd'' [V 2], Dot (Dot (V 0) ''f'') ''d''])],
    fn ''cyb'' 2 2 [Do (SetV 2 (V 1)), Do (SetV 3 (New ''Nyb'' [])), Do (Call ''eyb'' [V 0, V 2, V 3]), Ret (Dot (V 3) ''d'')],
    fn ''hKb'' 4 1 [Do (SetV 4 (New ''wHb'' [])), Do (PutIdx (Dot (V 1) ''a'') (Dot (V 2) ''g'') (V 4)), Do (Call ''crb'' [Dot (V 0) ''b'', V 3, V 4])],
    fn ''ttd'' 3 1 [Do (SetV 3 (Meth (V 0) ''Fh'' [V 1])), Do (Cond (Bin Ge (V 3) (K (JNum 0))) (Meth (V 0) ''$h'' [V 3, V 2]) (Call ''otd'' [V 0, V 1, V 2]))],
    fn ''YGd'' 3 0 [Do (Call ''VGd'' []), Do (And (Neg (Neg (V 0))) (Call ''hjb'' [G ''UGd'', V 0, V 1])), Do (And (Neg (Neg (V 0))) (Call ''hjb'' [G ''TGd'', V 0, V 2]))],
    fn ''m8c'' 3 0 [Do (Put This ''i'' (New ''lmb'' [])), Do (Put This ''b'' (V 0)), Do (Put This ''g'' (V 1)), Do (Put This ''a'' (V 2))],
    fn ''X6c'' 3 0 [Do (Put This ''c'' (New ''lmb'' [])), Do (Put This ''e'' (V 0)), Do (Put This ''f'' (V 1)), Do (Put This ''b'' (V 2))],
    fn ''d7c'' 3 0 [Do (Put This ''a'' (New ''lmb'' [])), Do (Put This ''e'' (V 0)), Do (Put This ''f'' (V 1)), Do (Put This ''c'' (V 2))],
    fn ''wIb'' 1 0 [Do (Super ''uHb'' []), Do (Call ''nIb'' [This]), Do (Put This ''a'' (V 0)), Do (Put This ''c'' (K (JBool True)))],
    fn ''ly'' 1 0 [Do (Put This ''a'' (Call ''JD'' [Call ''Qb'' [V 0], K (JNum 277)])), Do (Put This ''b'' (Seq (Call ''Inb'' []) (New ''rqb'' [V 0])))],
    fn ''gz'' 2 0 [Do (Call ''Yy'' [This]), Do (Put This ''f'' (V 1)), Do (Put This ''g'' (V 0)), Do (Call ''$y'' [This]), Do (Meth This ''he'' [])],
    fn ''fB'' 2 1 [Do (SetV 2 (Meth (Dot (V 0) ''q'') ''getHours'' [])), Do (Meth (Dot (V 0) ''q'') ''setDate'' [V 1]), Do (Call ''eB'' [V 0, V 2])],
    fn ''to'' 2 1 [Do (Call ''Qb'' [V 1]), Do (SetV 2 (Dot (V 0) ''a'')), Loop (V 2) [Do (Meth (V 1) ''Wd'' [Dot (V 2) ''g'', Dot (V 2) ''i''])] [Do (SetV 2 (Dot (V 2) ''c''))]],
    fn ''Sx'' 1 1 [Do (SetV 1 (New ''isb'' [Call ''Jv'' [Dot (V 0) ''length'']])), Do (Call ''Jnb'' [V 1, V 0]), Ret (V 1)]]"

definition code_2998_3112 :: "(string \<times> jfun) list" where
  "code_2998_3112 = [
    fn ''Alb'' 2 0 [When (Call ''ulb'' [V 0, V 1]) [Do (Call ''Tlb'' [V 0]), Ret (K (JBool True))] [], Ret (K (JBool False))],
    fn ''iC'' 2 0 [When (Loose (V 1) (K JNull)) [Raise (Call ''Lcb'' [New ''Xfb'' []])] [], Ret (Call ''jC'' [V 0, V 1])],
    fn ''Jeb'' 1 1 [When (Meth (V 0) ''ye'' []) [Ret (K JNull)] [], Do (SetV 1 (Dot (V 0) ''n'')), Ret (Idx (G ''odb'') (V 1))],
    fn ''Gwd'' 1 0 [When (Neg (Loose (Bin Shr (Dot (V 0) ''Db'') (K (JNum 16))) (K (JNum 3)))) [Ret (K JNull)] [], Ret (Call ''JD'' [Dot (V 0) ''Cb'', K (JNum 26)])],
    fn ''gAd'' 1 0 [When (Neg (Loose (Bin Shr (Dot (V 0) ''Db'') (K (JNum 16))) (K (JNum 9)))) [Ret (K JNull)] [], Ret (Call ''JD'' [Dot (V 0) ''Cb'', K (JNum 26)])],
    fn ''_wd'' 1 0 [When (Neg (Loose (Bin Shr (Dot (V 0) ''Db'') (K (JNum 16))) (K (JNum 6)))) [Ret (K JNull)] [], Ret (Call ''JD'' [Dot (V 0) ''Cb'', K (JNum 85)])],
    fn ''htd'' 2 1 [Do (SetV 2 (Meth (V 0) ''Fh'' [V 1])), Ret (Cond (Bin Ge (V 2) (K (JNum 0))) (Meth (V 0) ''Th'' [V 2]) (Call ''ntd'' [V 0, V 1]))],
    fn ''$Ic'' 3 1 [Do (SetV 3 (Call ''_Ic'' [V 0, V 1, V 2])), Do (Put (V 0) ''b'' (New ''KIc'' [Dot (Dot (V 3) ''c'') ''length'']))],
    fn ''nNc'' 0 0 [Do (SetG ''nNc'' (G ''qdb'')), Do (SetG ''lNc'' (New ''oNc'' [G ''dxe'', K (JNum 0)])), Do (SetG ''mNc'' (New ''oNc'' [K (JStr ''UP''), K (JNum 1)]))],
    fn ''ws'' 0 0 [Do (SetG ''ws'' (G ''qdb'')), Do (SetG ''vs'' (Call ''gs'' [Seq (Call ''ns'' []) (Call ''WC'' [Call ''OC'' [G ''IG'', K (JNum 1)], G ''xue'', K (JNum 538), K (JNum 0), NewArr [G ''ms'']])]))],
    fn ''uHc'' 1 0 [Do (Put This ''a'' (V 0)), Do (Put This ''b'' (Call ''SC'' [G ''sX'', G ''aue'', K (JNum 2008), Dot (Dot (V 0) ''e'') ''length'', K (JNum 0), K (JNum 2)]))],
    fn ''yEb'' 0 0 [Do (Put This ''a'' (New ''Ptb'' [])), Do (Put This ''e'' (New ''hsb'' [])), Do (Put This ''g'' (K (JNum 0))), Do (Put This ''i'' (K (JNum 0)))],
    fn ''Tzd'' 1 0 [Ret (Seq (And (Neg (Dot (V 0) ''a'')) (Put (V 0) ''a'' (New ''P3d'' [G ''T3'', V 0, K (JNum 10), K (JNum 11)]))) (Bin Gt (Dot (Dot (V 0) ''a'') ''i'') (K (JNum 0))))],
    fn ''D1b'' 2 0 [Ret (Cond (Bin Lt (Meth (Dot (G ''$wnd'') ''Math'') ''abs'' [V 0]) (Meth (Dot (G ''$wnd'') ''Math'') ''abs'' [V 1])) (V 0) (V 1))],
    fn ''W8b'' 2 0 [Do (Call ''K8b'' []), Ret (Seq (Call ''Qdb'' []) (Cond (Bin Lt (Dot (Call ''JD'' [Dot (V 1) ''a'', K (JNum 15)]) ''a'') (V 0)) (K (JBool True)) (K (JBool False))))],
    fn ''V8b'' 2 0 [Do (Call ''K8b'' []), Ret (Seq (Call ''Qdb'' []) (Cond (Bin Lt (Dot (Call ''JD'' [Dot (V 1) ''b'', K (JNum 15)]) ''a'') (V 0)) (K (JBool True)) (K (JBool False))))],
    fn ''gYb'' 2 0 [Do (Put (V 0) ''b'' (Bin Plus (Dot (V 0) ''b'') (Dot (V 1) ''b''))), Do (Put (V 0) ''c'' (Bin Plus (Dot (V 0) ''c'') (Dot (V 1) ''c''))), Do (Put (V 0) ''d'' (Bin Plus (Dot (V 0) ''d'') (Dot (V 1) ''d''))), Do (Put (V 0) ''a'' (Bin Plus (Dot (V 0) ''a'') (Dot (V 1) ''a''))), Ret (V 0)],
    fn ''JGd'' 1 1 [Do (SetV 1 (Dot (V 0) ''d'')), Do (SetV 1 (Meth (V 0) ''_i'' [Dot (V 0) ''f''])), Do (Call ''lFd'' [V 0, V 1]), Ret (Meth (V 1) ''Ob'' [])],
    fn ''sFd'' 2 1 [Do (SetV 2 (New ''Rtb'' [V 1])), Do (Call ''Te'' [V 2, V 0]), Ret (New ''nmb'' [V 2])],
    fn ''HId'' 1 0 [When (Neg (Loose (Dot (V 0) ''p'') (K (JNum 0)))) [Raise (Call ''Lcb'' [New ''mfb'' []])] [], Ret (Call ''$cb'' [Dot (V 0) ''f'', K (JNum 0)])],
    fn ''QId'' 1 0 [When (Neg (Loose (Dot (V 0) ''p'') (K (JNum 0)))) [Raise (Call ''Lcb'' [New ''mfb'' []])] [], Ret (Call ''$cb'' [Dot (V 0) ''k'', K (JNum 0)])],
    fn ''Cyd'' 1 0 [When (Neg (Loose (Bin Shr (Dot (V 0) ''Db'') (K (JNum 16))) (K (JNum 7)))) [Ret (K JNull)] [], Ret (Call ''JD'' [Dot (V 0) ''Cb'', K (JNum 241)])],
    fn ''KVd'' 1 0 [When (Neg (Loose (Bin Shr (Dot (V 0) ''Db'') (K (JNum 16))) (K (JNum 6)))) [Ret (K JNull)] [], Ret (Call ''JD'' [Dot (V 0) ''Cb'', K (JNum 241)])],
    fn ''zzd'' 1 0 [When (Neg (Loose (Bin Shr (Dot (V 0) ''Db'') (K (JNum 16))) (K (JNum 7)))) [Ret (K JNull)] [], Ret (Call ''JD'' [Dot (V 0) ''Cb'', K (JNum 174)])],
    fn ''xTd'' 1 0 [When (Neg (Loose (Bin Shr (Dot (V 0) ''Db'') (K (JNum 16))) (K (JNum 3)))) [Ret (K JNull)] [], Ret (Call ''JD'' [Dot (V 0) ''Cb'', K (JNum 158)])],
    fn ''Rzd'' 1 0 [When (Neg (Loose (Bin Shr (Dot (V 0) ''Db'') (K (JNum 16))) (K (JNum 11)))) [Ret (K JNull)] [], Ret (Call ''JD'' [Dot (V 0) ''Cb'', K (JNum 26)])],
    fn ''HUd'' 1 0 [When (Neg (Loose (Bin Shr (Dot (V 0) ''Db'') (K (JNum 16))) (K (JNum 17)))) [Ret (K JNull)] [], Ret (Call ''JD'' [Dot (V 0) ''Cb'', K (JNum 29)])],
    fn ''UBb'' 1 1 [Do (Call ''dBb'' [V 0]), Do (SetV 1 (New ''hsb'' [])), Ret (Call ''VBb'' [V 0, New ''tCb'' [V 1]])],
    fn ''Heb'' 2 1 [Do (SetV 2 (Put (V 0) ''a'' (Or (Dot (V 0) ''a'') (NewArr [])))), Ret (Or (Idx (V 2) (V 1)) (PutIdx (V 2) (V 1) (Meth (V 0) ''te'' [V 1])))],
    fn ''iB'' 2 1 [Do (SetV 2 (Meth (Dot (V 0) ''q'') ''getHours'' [])), Do (Meth (Dot (V 0) ''q'') ''setMonth'' [V 1]), Do (Call ''eB'' [V 0, V 2])],
    fn ''CWb'' 2 0 [Do (And (Neg (Neg (Dot (V 0) ''c''))) (Call ''gmb'' [Dot (Dot (V 0) ''c'') ''g'', V 0])), Do (Put (V 0) ''c'' (V 1)), Do (And (Neg (Neg (Dot (V 0) ''c''))) (Call ''_lb'' [Dot (Dot (V 0) ''c'') ''g'', V 0]))],
    fn ''NYb'' 2 0 [Do (And (Neg (Neg (Dot (V 0) ''c''))) (Call ''gmb'' [Dot (Dot (V 0) ''c'') ''a'', V 0])), Do (Put (V 0) ''c'' (V 1)), Do (And (Neg (Neg (Dot (V 0) ''c''))) (Call ''_lb'' [Dot (Dot (V 0) ''c'') ''a'', V 0]))],
    fn ''DWb'' 2 0 [Do (And (Neg (Neg (Dot (V 0) ''d''))) (Call ''gmb'' [Dot (Dot (V 0) ''d'') ''e'', V 0])), Do (Put (V 0) ''d'' (V 1)), Do (And (Neg (Neg (Dot (V 0) ''d''))) (Call ''_lb'' [Dot (Dot (V 0) ''d'') ''e'', V 0]))],
    fn ''wZb'' 2 0 [Do (And (Neg (Neg (Dot (V 0) ''i''))) (Call ''gmb'' [Dot (Dot (V 0) ''i'') ''j'', V 0])), Do (Put (V 0) ''i'' (V 1)), Do (And (Neg (Neg (Dot (V 0) ''i''))) (Call ''_lb'' [Dot (Dot (V 0) ''i'') ''j'', V 0]))],
    fn ''ijb'' 3 0 [Ret (Cond (Loose (V 1) (K JNull)) (Call ''zsb'' [Dot (V 0) ''f'', K JNull, V 2]) (Call ''Tsb'' [Dot (V 0) ''i'', V 1, V 2]))],
    fn ''qXd'' 6 0 [Ret (New ''a2d'' [Dot (V 0) ''e'', V 1, Meth (V 0) ''Jj'' [], V 2, V 3, V 4, V 5])],
    fn ''CRb'' 1 0 [Do (Call ''rRb'' []), Ret (Seq (Call ''Qdb'' []) (Cond (Neg (Loose (Dot (Dot (Call ''JD'' [Dot (V 0) ''a'', K (JNum 82)]) ''d'') ''e'') (K (JNum 0)))) (K (JBool True)) (K (JBool False))))],
    fn ''vMb'' 2 0 [Do (Put This ''a'' (V 0)), Do (Put This ''c'' (Call ''Xfd'' [Dot This ''a''])), Do (Put This ''b'' (New ''Qfd'' [V 1]))],
    fn ''tEb'' 3 0 [Do (Put This ''a'' (V 1)), Do (Put This ''c'' (V 0)), Do (Put This ''b'' (Seq (Call ''Qb'' [V 2]) (New ''nmb'' [V 2])))],
    fn ''YTb'' 3 0 [Do (Put This ''a'' (V 1)), Do (Put This ''c'' (V 0)), Do (Put This ''b'' (Seq (Call ''Qb'' [V 2]) (New ''nmb'' [V 2])))],
    fn ''PDb'' 2 0 [When (Or (Bin Lt (V 0) (K (JNum 0))) (Bin Gt (V 0) (V 1))) [Raise (Call ''Lcb'' [New ''Fdb'' [Bin Plus (Bin Plus (Bin Plus (G ''qwe'') (V 0)) (G ''rwe'')) (V 1)]])] []],
    fn ''VGd'' 0 0 [Do (SetG ''VGd'' (G ''qdb'')), Do (SetG ''UGd'' (New ''_rb'' [])), Do (SetG ''TGd'' (New ''_rb'' [])), Do (Call ''ZGd'' [G ''qK'', New ''$Gd'' []])],
    fn ''zBc'' 0 0 [Do (SetG ''zBc'' (G ''qdb'')), Do (SetG ''yBc'' (Call ''icd'' [New ''pcd'' [], Seq (Call ''YQb'' []) (G ''XQb''), Seq (Call ''X5b'' []) (G ''O5b'')]))],
    fn ''HBc'' 0 0 [Do (SetG ''HBc'' (G ''qdb'')), Do (SetG ''GBc'' (Call ''icd'' [New ''pcd'' [], Seq (Call ''YQb'' []) (G ''XQb''), Seq (Call ''X5b'' []) (G ''O5b'')]))],
    fn ''RBc'' 0 0 [Do (SetG ''RBc'' (G ''qdb'')), Do (SetG ''QBc'' (Call ''icd'' [New ''pcd'' [], Seq (Call ''YQb'' []) (G ''XQb''), Seq (Call ''X5b'' []) (G ''O5b'')]))],
    fn ''YBc'' 0 0 [Do (SetG ''YBc'' (G ''qdb'')), Do (SetG ''XBc'' (Call ''icd'' [New ''pcd'' [], Seq (Call ''YQb'' []) (G ''XQb''), Seq (Call ''X5b'' []) (G ''O5b'')]))],
    fn ''qCc'' 0 0 [Do (SetG ''qCc'' (G ''qdb'')), Do (SetG ''pCc'' (Call ''icd'' [New ''pcd'' [], Seq (Call ''YQb'' []) (G ''XQb''), Seq (Call ''X5b'' []) (G ''O5b'')]))],
    fn ''wCc'' 0 0 [Do (SetG ''wCc'' (G ''qdb'')), Do (SetG ''vCc'' (Call ''icd'' [New ''pcd'' [], Seq (Call ''YQb'' []) (G ''XQb''), Seq (Call ''X5b'' []) (G ''O5b'')]))],
    fn ''jKc'' 0 0 [Do (SetG ''jKc'' (G ''qdb'')), Do (SetG ''iKc'' (Call ''kcd'' [New ''pcd'' [], Seq (Call ''YQb'' []) (G ''XQb''), Seq (Call ''X5b'' []) (G ''l5b'')]))],
    fn ''OKc'' 0 0 [Do (SetG ''OKc'' (G ''qdb'')), Do (SetG ''NKc'' (Call ''kcd'' [New ''pcd'' [], Seq (Call ''YQb'' []) (G ''XQb''), Seq (Call ''X5b'' []) (G ''l5b'')]))],
    fn ''RMc'' 0 0 [Do (SetG ''RMc'' (G ''qdb'')), Do (SetG ''QMc'' (Call ''kcd'' [New ''pcd'' [], Seq (Call ''YQb'' []) (G ''XQb''), Seq (Call ''X5b'' []) (G ''l5b'')]))],
    fn ''FNc'' 0 0 [Do (SetG ''FNc'' (G ''qdb'')), Do (SetG ''ENc'' (Call ''kcd'' [New ''pcd'' [], Seq (Call ''YQb'' []) (G ''XQb''), Seq (Call ''X5b'' []) (G ''l5b'')]))],
    fn ''qYc'' 0 0 [Do (SetG ''qYc'' (G ''qdb'')), Do (SetG ''pYc'' (Call ''icd'' [New ''pcd'' [], Seq (Call ''HSc'' []) (G ''FSc''), Seq (Call ''FVc'' []) (G ''vVc'')]))],
    fn ''MPc'' 4 0 [Do (Put This ''c'' (V 0)), Do (Put This ''d'' (V 3)), Do (Call ''KPc'' [This, V 1]), Do (Call ''LPc'' [This, V 2])],
    fn ''cdd'' 1 0 [Do (Put This ''c'' (New ''dub'' [])), Do (Put This ''b'' (Dot (V 0) ''b'')), Do (Put This ''d'' (Dot (V 0) ''c'')), Do (Put This ''a'' (Dot (V 0) ''a''))],
    fn ''kgd'' 1 0 [Do (Put This ''a'' (Meth (Dot (G ''$wnd'') ''Math'') ''cos'' [V 0])), Do (Put This ''b'' (Meth (Dot (G ''$wnd'') ''Math'') ''sin'' [V 0]))],
    fn ''KPc'' 2 0 [Do (And (Neg (Neg (Dot (V 0) ''a''))) (Call ''gmb'' [Dot (Dot (V 0) ''a'') ''k'', V 0])), Do (Put (V 0) ''a'' (V 1)), Do (And (Neg (Neg (Dot (V 0) ''a''))) (Call ''_lb'' [Dot (Dot (V 0) ''a'') ''k'', V 0]))],
    fn ''LPc'' 2 0 [Do (And (Neg (Neg (Dot (V 0) ''b''))) (Call ''gmb'' [Dot (Dot (V 0) ''b'') ''f'', V 0])), Do (Put (V 0) ''b'' (V 1)), Do (And (Neg (Neg (Dot (V 0) ''b''))) (Call ''_lb'' [Dot (Dot (V 0) ''b'') ''f'', V 0]))],
    fn ''Jad'' 2 0 [Do (Call ''Kad'' [V 0, Dot (V 0) ''b'', Dot (V 0) ''c'']), Do (Call ''JD'' [Dot (Dot (V 0) ''b'') ''b'', K (JNum 68)]), Do (And (Neg (Neg (V 1))) (Dot (Call ''JD'' [Dot (V 1) ''b'', K (JNum 68)]) ''b''))],
    fn ''m4d'' 2 0 [Do (Call ''n4d'' [V 0, V 1]), Do (And (Call ''RD'' [Dot (V 0) ''Cb'', K (JNum 88)]) (Call ''IYd'' [Call ''LWd'' [Call ''JD'' [Dot (V 0) ''Cb'', K (JNum 88)]], K (JNum 2)]))],
    fn ''PUd'' 2 0 [Do (And (Call ''RD'' [Dot (V 0) ''Cb'', K (JNum 88)]) (Call ''IYd'' [Call ''LWd'' [Call ''JD'' [Dot (V 0) ''Cb'', K (JNum 88)]], K (JNum 4)])), Do (Call ''jyd'' [V 0, V 1])],
    fn ''YVd'' 2 0 [Do (And (Call ''RD'' [Dot (V 0) ''Cb'', K (JNum 184)]) (Put (Call ''JD'' [Dot (V 0) ''Cb'', K (JNum 184)]) ''tb'' (K JNull))), Do (Call ''jyd'' [V 0, V 1])],
    fn ''Iw'' 2 1 [Do (SetV 2 (Call ''JD'' [Call ''Ov'' [Call ''nd'' [Dot (V 0) ''a''], V 1], K (JNum 18)])), Ret (Cond (Neg (V 2)) (K (JNum 0)) (Meth (V 2) ''gc'' []))],
    fn ''I$d'' 1 2 [Do (SetV 2 (Seq (Seq (Call ''wRd'' []) (SetV 1 (New ''F0d'' []))) (V 1))), Do (Call ''y0d'' [V 2, V 0]), Ret (V 2)],
    fn ''R2d'' 1 2 [Do (SetV 2 (Seq (Seq (Call ''wRd'' []) (SetV 1 (New ''F0d'' []))) (V 1))), Do (Call ''y0d'' [V 2, V 0]), Ret (V 2)],
    fn ''wr'' 1 1 [Loop (K (JBool True)) [Do (SetV 1 (Meth (V 0) ''Pb'' [])), When (Neg (Meth (V 0) ''Ob'' [])) [Ret (V 1)] []] []],
    fn ''yib'' 1 0 [Do (Call ''Zhb'' []), Ret (Cond (Bin Ge (Call ''Ocb'' [V 0, K (JNum 0)]) (K (JNum 0))) (Call ''tib'' [V 0]) (Call ''fib'' [Call ''tib'' [Call ''Zcb'' [V 0]]]))],
    fn ''Uvb'' 2 0 [Do (Call ''Tvb'' [V 0, Call ''gdb'' [Call ''Ncb'' [Call ''bdb'' [V 1, K (JNum 24)], G ''bwe'']], Call ''gdb'' [Call ''Ncb'' [V 1, G ''bwe'']]])],
    fn ''U$c'' 2 0 [Ret (Call ''$eb'' [Dot (Dot (Dot (Call ''JD'' [Dot (V 0) ''c'', K (JNum 65)]) ''c'') ''e'') ''b'', Dot (Dot (Dot (Call ''JD'' [Dot (V 1) ''c'', K (JNum 65)]) ''c'') ''e'') ''b''])],
    fn ''V$c'' 2 0 [Ret (Call ''$eb'' [Dot (Dot (Dot (Call ''JD'' [Dot (V 0) ''c'', K (JNum 65)]) ''c'') ''e'') ''a'', Dot (Dot (Dot (Call ''JD'' [Dot (V 1) ''c'', K (JNum 65)]) ''c'') ''e'') ''a''])],
    fn ''Eee'' 2 0 [Ret (Seq (Call ''Aie'' []) (Cond (Call ''JUd'' [V 1]) (New ''Bje'' [V 1, V 0]) (New ''Rie'' [V 1, V 0])))],
    fn ''Yxb'' 3 0 [Ret (New ''Ryb'' [V 0, Seq (Call ''jzb'' []) (G ''gzb''), K JNull, K (JBool False), V 1, V 2])],
    fn ''jyb'' 3 0 [Ret (New ''Ryb'' [V 0, Seq (Call ''jzb'' []) (G ''izb''), V 1, V 2, K JNull, K (JBool False)])],
    fn ''hmb'' 3 1 [Do (Call ''QDb'' [V 1, V 2, Dot (Dot (V 0) ''c'') ''length'']), Do (SetV 3 (Bin Minus (V 2) (V 1))), Do (Call ''rDb'' [Dot (V 0) ''c'', V 1, V 3])],
    fn ''_jb'' 3 0 [Do (Call ''QDb'' [V 1, V 2, Meth (V 0) ''gc'' []]), Do (Put This ''c'' (V 0)), Do (Put This ''a'' (V 1)), Do (Put This ''b'' (Bin Minus (V 2) (V 1)))],
    fn ''Zvb'' 2 0 [Do (Put This ''b'' (Seq (Call ''NDb'' [V 0]) (V 0))), Do (Put This ''a'' (Cond (Loose (Bin BitAnd (V 1) (G ''Eve'')) (K (JNum 0))) (Bin BitOr (Bin BitOr (V 1) (K (JNum 64))) (G ''bue'')) (V 1)))],
    fn ''MDb'' 2 0 [When (Or (Bin Lt (V 0) (K (JNum 0))) (Bin Ge (V 0) (V 1))) [Raise (Call ''Lcb'' [New ''Fdb'' [Bin Plus (Bin Plus (Bin Plus (G ''qwe'') (V 0)) (G ''rwe'')) (V 1)]])] []],
    fn ''UDb'' 2 0 [When (Or (Bin Lt (V 0) (K (JNum 0))) (Bin Ge (V 0) (V 1))) [Raise (Call ''Lcb'' [New ''ohb'' [Bin Plus (Bin Plus (Bin Plus (G ''qwe'') (V 0)) (G ''rwe'')) (V 1)]])] []],
    fn ''aEd'' 2 2 [Do (SetV 2 (Dot (V 1) ''c'')), Do (SetV 3 (Neg (Loose (V 2) (K JNull)))), Do (And (V 3) (Call ''KAd'' [V 0, New ''GC'' [Dot (V 1) ''c'']]))],
    fn ''eNb'' 3 1 [Do (SetV 3 (New ''mgd'' [Dot (V 2) ''d''])), Do (Call ''Vfd'' [V 3, V 0]), Do (Call ''VEd'' [V 1, Dot (V 3) ''a'', Dot (V 3) ''b''])],
    fn ''fCb'' 1 1 [Do (Call ''dBb'' [V 0]), Do (SetV 1 (Seq (Seq (Call ''Cqb'' []) (Call ''Cqb'' [])) (G ''Aqb''))), Ret (Call ''gCb'' [V 0, V 1])],
    fn ''rZb'' 1 0 [Ret (Call ''rgd'' [Call ''WC'' [Call ''OC'' [G ''r2'', K (JNum 1)], G ''aue'', K (JNum 8), K (JNum 0), NewArr [Dot (Dot (V 0) ''i'') ''n'', Dot (V 0) ''n'', Dot (V 0) ''a'']]])],
    fn ''fQb'' 0 0 [Do (Call ''cQb'' []), Ret (Call ''WC'' [Call ''OC'' [G ''pO'', K (JNum 1)], G ''xue'', K (JNum 384), K (JNum 0), NewArr [G ''aQb'', G ''_Pb'', G ''bQb'']])],
    fn ''IAb'' 0 0 [Do (Call ''FAb'' []), Ret (Call ''WC'' [Call ''OC'' [G ''HL'', K (JNum 1)], G ''xue'', K (JNum 130), K (JNum 0), NewArr [G ''CAb'', G ''DAb'', G ''EAb'']])],
    fn ''FHb'' 0 0 [Do (Call ''CHb'' []), Ret (Call ''WC'' [Call ''OC'' [G ''hN'', K (JNum 1)], G ''xue'', K (JNum 237), K (JNum 0), NewArr [G ''zHb'', G ''AHb'', G ''BHb'']])],
    fn ''kIb'' 0 0 [Do (Call ''hIb'' []), Ret (Call ''WC'' [Call ''OC'' [G ''kN'', K (JNum 1)], G ''xue'', K (JNum 461), K (JNum 0), NewArr [G ''fIb'', G ''eIb'', G ''gIb'']])],
    fn ''bJb'' 0 0 [Do (Call ''$Ib'' []), Ret (Call ''WC'' [Call ''OC'' [G ''rN'', K (JNum 1)], G ''xue'', K (JNum 462), K (JNum 0), NewArr [G ''ZIb'', G ''YIb'', G ''XIb'']])],
    fn ''ezc'' 0 0 [Do (Call ''azc'' []), Ret (Call ''WC'' [Call ''OC'' [G ''nW'', K (JNum 1)], G ''xue'', K (JNum 352), K (JNum 0), NewArr [G ''Zyc'', G ''$yc'', G ''_yc'']])],
    fn ''hqc'' 0 0 [Do (Call ''eqc'' []), Ret (Call ''WC'' [Call ''OC'' [G ''cW'', K (JNum 1)], G ''xue'', K (JNum 302), K (JNum 0), NewArr [G ''cqc'', G ''dqc'', G ''bqc'']])],
    fn ''qqc'' 0 0 [Do (Call ''nqc'' []), Ret (Call ''WC'' [Call ''OC'' [G ''dW'', K (JNum 1)], G ''xue'', K (JNum 329), K (JNum 0), NewArr [G ''mqc'', G ''lqc'', G ''kqc'']])],
    fn ''zqc'' 0 0 [Do (Call ''wqc'' []), Ret (Call ''WC'' [Call ''OC'' [G ''eW'', K (JNum 1)], G ''xue'', K (JNum 316), K (JNum 0), NewArr [G ''uqc'', G ''vqc'', G ''tqc'']])],
    fn ''yic'' 0 0 [Do (Call ''vic'' []), Ret (Call ''WC'' [Call ''OC'' [G ''KU'', K (JNum 1)], G ''xue'', K (JNum 368), K (JNum 0), NewArr [G ''uic'', G ''tic'', G ''sic'']])],
    fn ''LAc'' 0 0 [Do (Call ''IAc'' []), Ret (Call ''WC'' [Call ''OC'' [G ''vW'', K (JNum 1)], G ''xue'', K (JNum 348), K (JNum 0), NewArr [G ''HAc'', G ''FAc'', G ''GAc'']])],
    fn ''CAc'' 0 0 [Do (Call ''zAc'' []), Ret (Call ''WC'' [Call ''OC'' [G ''uW'', K (JNum 1)], G ''xue'', K (JNum 381), K (JNum 0), NewArr [G ''wAc'', G ''xAc'', G ''yAc'']])],
    fn ''tAc'' 0 0 [Do (Call ''qAc'' []), Ret (Call ''WC'' [Call ''OC'' [G ''tW'', K (JNum 1)], G ''xue'', K (JNum 452), K (JNum 0), NewArr [G ''pAc'', G ''nAc'', G ''oAc'']])],
    fn ''dBc'' 0 0 [Do (Call ''aBc'' []), Ret (Call ''WC'' [Call ''OC'' [G ''xW'', K (JNum 1)], G ''xue'', K (JNum 349), K (JNum 0), NewArr [G ''ZAc'', G ''$Ac'', G ''_Ac'']])],
    fn ''mBc'' 0 0 [Do (Call ''jBc'' []), Ret (Call ''WC'' [Call ''OC'' [G ''yW'', K (JNum 1)], G ''xue'', K (JNum 351), K (JNum 0), NewArr [G ''iBc'', G ''gBc'', G ''hBc'']])],
    fn ''vBc'' 0 0 [Do (Call ''sBc'' []), Ret (Call ''WC'' [Call ''OC'' [G ''zW'', K (JNum 1)], G ''xue'', K (JNum 382), K (JNum 0), NewArr [G ''qBc'', G ''rBc'', G ''pBc'']])],
    fn ''xWc'' 0 0 [Do (Call ''uWc'' []), Ret (Call ''WC'' [Call ''OC'' [G ''J$'', K (JNum 1)], G ''xue'', K (JNum 385), K (JNum 0), NewArr [G ''tWc'', G ''sWc'', G ''rWc'']])],
    fn ''V0c'' 0 0 [Do (Call ''R0c'' []), Ret (Call ''WC'' [Call ''OC'' [G ''M_'', K (JNum 1)], G ''xue'', K (JNum 386), K (JNum 0), NewArr [G ''O0c'', G ''P0c'', G ''Q0c'']])],
    fn ''W3c'' 0 0 [Do (Call ''T3c'' []), Ret (Call ''WC'' [Call ''OC'' [G ''g0'', K (JNum 1)], G ''xue'', K (JNum 387), K (JNum 0), NewArr [G ''R3c'', G ''S3c'', G ''Q3c'']])],
    fn ''koc'' 0 0 [Do (Call ''hoc'' []), Ret (Call ''WC'' [Call ''OC'' [G ''VV'', K (JNum 1)], G ''xue'', K (JNum 350), K (JNum 0), NewArr [G ''eoc'', G ''goc'', G ''foc'']])],
    fn ''Toc'' 0 0 [Do (Call ''Qoc'' []), Ret (Call ''WC'' [Call ''OC'' [G ''YV'', K (JNum 1)], G ''xue'', K (JNum 449), K (JNum 0), NewArr [G ''Ooc'', G ''Noc'', G ''Poc'']])],
    fn ''T2c'' 0 0 [Do (Call ''Q2c'' []), Ret (Call ''WC'' [Call ''OC'' [G ''Z_'', K (JNum 1)], G ''xue'', K (JNum 436), K (JNum 0), NewArr [G ''N2c'', G ''O2c'', G ''P2c'']])],
    fn ''g2c'' 0 0 [Do (Call ''c2c'' []), Ret (Call ''WC'' [Call ''OC'' [G ''R_'', K (JNum 1)], G ''xue'', K (JNum 304), K (JNum 0), NewArr [G ''a2c'', G ''b2c'', G ''_1c'']])],
    fn ''D6c'' 0 0 [Do (Call ''x6c'' []), Ret (Call ''WC'' [Call ''OC'' [G ''z0'', K (JNum 1)], G ''xue'', K (JNum 430), K (JNum 0), NewArr [G ''u6c'', G ''w6c'', G ''v6c'']])],
    fn ''c6c'' 0 0 [Do (Call ''Y5c'' []), Ret (Call ''WC'' [Call ''OC'' [G ''u0'', K (JNum 1)], G ''xue'', K (JNum 429), K (JNum 0), NewArr [G ''V5c'', G ''X5c'', G ''W5c'']])],
    fn ''f8c'' 0 0 [Do (Call ''c8c'' []), Ret (Call ''WC'' [Call ''OC'' [G ''O0'', K (JNum 1)], G ''xue'', K (JNum 435), K (JNum 0), NewArr [G ''_7c'', G ''a8c'', G ''b8c'']])],
    fn ''akd'' 0 0 [Do (Call ''Zjd'' []), Ret (Call ''WC'' [Call ''OC'' [G ''A2'', K (JNum 1)], G ''xue'', K (JNum 279), K (JNum 0), NewArr [G ''Wjd'', G ''Xjd'', G ''Yjd'']])],
    fn ''Tkd'' 0 0 [Do (Call ''Qkd'' []), Ret (Call ''WC'' [Call ''OC'' [G ''F2'', K (JNum 1)], G ''xue'', K (JNum 347), K (JNum 0), NewArr [G ''Okd'', G ''Nkd'', G ''Pkd'']])],
    fn ''bnd'' 0 0 [Do (Call ''$md'' []), Ret (Call ''WC'' [Call ''OC'' [G ''P2'', K (JNum 1)], G ''xue'', K (JNum 300), K (JNum 0), NewArr [G ''Xmd'', G ''Ymd'', G ''Zmd'']])],
    fn ''Jnd'' 0 0 [Do (Call ''Gnd'' []), Ret (Call ''WC'' [Call ''OC'' [G ''S2'', K (JNum 1)], G ''xue'', K (JNum 281), K (JNum 0), NewArr [G ''End'', G ''Dnd'', G ''Fnd'']])],
    fn ''$dc'' 1 0 [Do (Call ''Xdc'' []), When (Call ''RD'' [Dot (V 0) ''g'', K (JNum 9)]) [Ret (Call ''JD'' [Dot (V 0) ''g'', K (JNum 9)])] [], Ret (K JNull)],
    fn ''Kde'' 1 0 [Do (And (Loose (Dot (V 0) ''a'') (Seq (Call ''Ece'' []) (G ''Dce''))) (Call ''Qde'' [V 0, Call ''Fce'' [Dot (V 0) ''g'', Dot (V 0) ''b'']])), Ret (Dot (V 0) ''a'')],
    fn ''Mde'' 1 0 [Do (And (Loose (Dot (V 0) ''d'') (Seq (Call ''Ece'' []) (G ''Dce''))) (Call ''Sde'' [V 0, Call ''Jce'' [Dot (V 0) ''g'', Dot (V 0) ''b'']])), Ret (Dot (V 0) ''d'')]]"

definition code_3114_3197 :: "(string \<times> jfun) list" where
  "code_3114_3197 = [
    fn ''CNc'' 3 1 [Do (SetV 3 (New ''BNc'' [])), Do (Put (V 3) ''b'' (V 1)), Do (Put (V 3) ''a'' (V 2)), Do (Put (V 1) ''b'' (Bin Minus (Dot (V 1) ''b'') (K (JNum (- 1))))), Do (Call ''_lb'' [Dot (V 0) ''d'', V 3])],
    fn ''N6c'' 3 1 [Do (SetV 3 (Call ''O6c'' [V 0, V 1, K (JBool False)])), Ret (And (Bin Le (Dot (V 3) ''b'') (V 1)) (Bin Le (Dot (V 3) ''a'') (V 2)))],
    fn ''iv'' 2 2 [Do (SetV 3 (Call ''kv'' [V 0, V 1])), Do (SetV 2 (Meth (Dot (V 0) ''a'') ''dd'' [V 3])), Ret (New ''xv'' [V 0, V 2])],
    fn ''PVd'' 1 0 [When (Neg (Loose (Bin Shr (Dot (V 0) ''Db'') (K (JNum 16))) (K (JNum 6)))) [Ret (K JNull)] [], Ret (Call ''JD'' [Call ''Wsd'' [V 0], K (JNum 241)])],
    fn ''JId'' 1 0 [When (Neg (Loose (Dot (V 0) ''p'') (K (JNum 2)))) [Raise (Call ''Lcb'' [New ''mfb'' []])] [], Ret (Bin BitAnd (Call ''gdb'' [Dot (V 0) ''f'']) (G ''Pue''))],
    fn ''SId'' 1 0 [When (Neg (Loose (Dot (V 0) ''p'') (K (JNum 2)))) [Raise (Call ''Lcb'' [New ''mfb'' []])] [], Ret (Bin BitAnd (Call ''gdb'' [Dot (V 0) ''k'']) (G ''Pue''))],
    fn ''Uu'' 1 0 [Do (Call ''Qb'' [V 0]), Ret (Cond (Call ''RD'' [V 0, K (JNum 18)]) (New ''nmb'' [Call ''JD'' [V 0, K (JNum 18)]]) (Call ''Vu'' [Meth (V 0) ''Jc'' []]))],
    fn ''Ex'' 1 0 [Do (Call ''Dx'' []), Do (Put This ''a'' (Seq (Call ''Inb'' []) (Cond (Call ''RD'' [V 0, K (JNum 59)]) (New ''qqb'' [V 0]) (New ''bpb'' [V 0]))))],
    fn ''Ncb'' 2 0 [Ret (Call ''Pcb'' [Call ''lD'' [Cond (Call ''Vcb'' [V 0]) (Call ''edb'' [V 0]) (V 0), Cond (Call ''Vcb'' [V 1]) (Call ''edb'' [V 1]) (V 1)]])],
    fn ''_cb'' 2 0 [Ret (Call ''Pcb'' [Call ''rD'' [Cond (Call ''Vcb'' [V 0]) (Call ''edb'' [V 0]) (V 0), Cond (Call ''Vcb'' [V 1]) (Call ''edb'' [V 1]) (V 1)]])],
    fn ''idb'' 2 0 [Ret (Call ''Pcb'' [Call ''zD'' [Cond (Call ''Vcb'' [V 0]) (Call ''edb'' [V 0]) (V 0), Cond (Call ''Vcb'' [V 1]) (Call ''edb'' [V 1]) (V 1)]])],
    fn ''erb'' 2 0 [Ret (Cond (Call ''Lrb'' [Dot (V 0) ''a'', V 1]) (Call ''sDb'' [Dot (V 0) ''b'', Dot (Call ''JD'' [V 1, K (JNum 24)]) ''g'', K JNull]) (K JNull))],
    fn ''Svb'' 1 0 [Ret (Call ''Mcb'' [Call ''adb'' [Call ''Scb'' [Call ''Rvb'' [V 0, K (JNum 32)]], K (JNum 32)], Call ''Scb'' [Call ''Rvb'' [V 0, K (JNum 32)]]])],
    fn ''Irb'' 1 1 [Do (SetV 1 (Call ''JD'' [Call ''lDb'' [Dot (V 0) ''b''], K (JNum 10)])), Ret (New ''Nrb'' [Dot (V 0) ''a'', V 1, Dot (V 0) ''c''])],
    fn ''qHb'' 2 1 [Do (SetV 2 (Call ''Ueb'' [Call ''MD'' [Meth (Dot (V 0) ''a'') ''mf'' [Seq (Call ''vjd'' []) (G ''ajd'')]]])), Do (Call ''rHb'' [V 0, V 1, V 2])],
    fn ''lib'' 2 0 [Do (Super ''mib'' [K (JNum 1), K (JNum 2), Call ''WC'' [Call ''OC'' [G ''cE'', K (JNum 1)], G ''bve'', K (JNum 30), K (JNum 15), NewArr [V 0, V 1]]])],
    fn ''Qi'' 2 0 [Do (Super ''Oi'' [New ''asb'' [Call ''Jv'' [V 0]]]), Do (Call ''bk'' [V 1, G ''_te'']), Do (Put This ''a'' (V 1))],
    fn ''jse'' 3 0 [Do (Super ''hre'' [K (JNum 25)]), Do (Put This ''b'' (V 0)), Do (Put This ''a'' (V 1)), Do (Put This ''c'' (V 2))],
    fn ''Kre'' 1 0 [Do (Call ''gre'' []), Do (Super ''hre'' [V 0]), Do (Put This ''c'' (K (JBool False))), Do (Put This ''a'' (K (JBool False)))],
    fn ''tQb'' 0 0 [Do (Put This ''c'' (New ''HQb'' [])), Do (Put This ''a'' (New ''mVb'' [])), Do (Put This ''b'' (New ''iWb'' [])), Do (Call ''MVb'' [])],
    fn ''jYc'' 0 0 [Do (SetG ''jYc'' (G ''qdb'')), Do (SetG ''iYc'' (New ''kYc'' [K (JStr ''DFS''), K (JNum 0)])), Do (SetG ''hYc'' (New ''kYc'' [K (JStr ''BFS''), K (JNum 1)]))],
    fn ''ONb'' 1 0 [Ret (Cond (Or (Loose (Dot (V 0) ''b'') (K JNull)) (Loose (Dot (Dot (V 0) ''b'') ''length'') (K (JNum 0)))) (Bin Plus (K (JStr ''n_'')) (Dot (V 0) ''a'')) (Bin Plus (K (JStr ''n_'')) (Dot (V 0) ''b'')))],
    fn ''$Xb'' 1 0 [Ret (Call ''JD'' [Call ''kmb'' [V 0, Call ''SC'' [G ''SP'', G ''Bye'', K (JNum 9), Dot (Dot (V 0) ''c'') ''length'', K (JNum 0), K (JNum 1)]], K (JNum 199)])],
    fn ''zz'' 2 0 [Ret (Cond (And (Neg (Neg (V 0))) (Neg (Neg (Dot (V 0) ''equals'')))) (Meth (V 0) ''equals'' [V 1]) (Same (Call ''XD'' [V 0]) (Call ''XD'' [V 1])))],
    fn ''kTb'' 2 0 [Do (Call ''gTb'' []), Ret (Cond (Loose (Dot (V 0) ''c'') (Dot (V 1) ''c'')) (Call ''$eb'' [Dot (V 1) ''d'', Dot (V 0) ''d'']) (Call ''$eb'' [Dot (V 0) ''c'', Dot (V 1) ''c'']))],
    fn ''lTb'' 2 0 [Do (Call ''gTb'' []), Ret (Cond (Loose (Dot (V 0) ''c'') (Dot (V 1) ''c'')) (Call ''$eb'' [Dot (V 0) ''d'', Dot (V 1) ''d'']) (Call ''$eb'' [Dot (V 0) ''c'', Dot (V 1) ''c'']))],
    fn ''nTb'' 2 0 [Do (Call ''gTb'' []), Ret (Cond (Loose (Dot (V 0) ''c'') (Dot (V 1) ''c'')) (Call ''$eb'' [Dot (V 0) ''d'', Dot (V 1) ''d'']) (Call ''$eb'' [Dot (V 1) ''c'', Dot (V 0) ''c'']))],
    fn ''mTb'' 2 0 [Do (Call ''gTb'' []), Ret (Cond (Loose (Dot (V 0) ''c'') (Dot (V 1) ''c'')) (Call ''$eb'' [Dot (V 1) ''d'', Dot (V 0) ''d'']) (Call ''$eb'' [Dot (V 1) ''c'', Dot (V 0) ''c'']))],
    fn ''rFb'' 2 0 [Do (Put (V 0) ''b'' (Bin BitOr (Dot (V 0) ''b'') (Dot (V 1) ''b''))), Do (Put (V 0) ''c'' (Bin BitOr (Dot (V 0) ''c'') (Dot (V 1) ''c''))), Do (Put (V 0) ''d'' (Bin BitOr (Dot (V 0) ''d'') (Dot (V 1) ''d''))), Do (Put (V 0) ''a'' (Bin BitOr (Dot (V 0) ''a'') (Dot (V 1) ''a'')))],
    fn ''lJc'' 3 1 [Do (SetV 3 (Idx (Dot (V 0) ''d'') (Dot (V 1) ''p''))), Do (PutIdx (Dot (V 0) ''d'') (Dot (V 1) ''p'') (Idx (Dot (V 0) ''d'') (Dot (V 2) ''p''))), Do (PutIdx (Dot (V 0) ''d'') (Dot (V 2) ''p'') (V 3))],
    fn ''jod'' 3 1 [When (And (And (Dot (V 0) ''n'') (Neg (Neg (V 1)))) (Neg (Neg (V 2)))) [Do (SetV 3 (New ''Qqd'' [])), Do (Call ''_lb'' [Dot (V 0) ''e'', V 3])] []],
    fn ''wec'' 2 1 [Do (SetV 2 (Call ''JD'' [Call ''ejb'' [Dot (V 0) ''g'', V 1], K (JNum 60)])), Do (Call ''cmb'' [Dot (V 1) ''d'', New ''Ffc'' [V 0, V 2]])],
    fn ''nVb'' 2 2 [Do (SetV 2 (Call ''SXb'' [V 0])), Do (SetV 3 (Call ''SXb'' [V 1])), Ret (Cond (Bin Lt (V 2) (V 3)) (K (JNum (- 1))) (Cond (Bin Gt (V 2) (V 3)) (K (JNum 1)) (K (JNum 0))))],
    fn ''Sgc'' 2 2 [Do (SetV 2 (Call ''Rgc'' [V 1])), Do (SetV 3 (V 2)), Ret (Dot (Call ''JD'' [Call ''ejb'' [Dot (V 0) ''c'', V 3], K (JNum 15)]) ''a'')],
    fn ''fVc'' 2 1 [Do (SetV 2 (Bin Plus (V 0) (K (JStr '''')))), Loop (Bin Lt (Dot (V 2) ''length'') (V 1)) [Do (SetV 2 (Bin Plus (K (JStr ''0'')) (V 2)))] [], Ret (V 2)],
    fn ''LTc'' 1 0 [Ret (Cond (Or (Loose (Dot (V 0) ''c'') (K JNull)) (Loose (Dot (Dot (V 0) ''c'') ''length'') (K (JNum 0)))) (Bin Plus (K (JStr ''n_'')) (Dot (V 0) ''g'')) (Bin Plus (K (JStr ''n_'')) (Dot (V 0) ''c'')))],
    fn ''PWd'' 1 0 [Ret (And (And (Neg (Neg (Dot (V 0) ''u''))) (Neg (Loose (Dot (Call ''GWd'' [Dot (Dot (V 0) ''u'') ''a'']) ''i'') (K (JNum 0))))) (Neg (And (Neg (Neg (Dot (V 0) ''n''))) (Call ''qYd'' [Dot (V 0) ''n'']))))],
    fn ''$ud'' 2 0 [When (Loose (V 1) (K (JNum 0))) [Ret (And (Neg (Neg (Dot (V 0) ''o''))) (Neg (Loose (Dot (Dot (V 0) ''o'') ''f'') (K (JNum 0)))))] [], Ret (Call ''gtd'' [V 0, V 1])],
    fn ''Imb'' 1 0 [Do (Call ''LDb'' [Bin Lt (Dot (V 0) ''a'') (Dot (Dot (Dot (V 0) ''c'') ''c'') ''length'')]), Do (Put (V 0) ''b'' (Bin Minus (Put (V 0) ''a'' (Bin Minus (Dot (V 0) ''a'') (K (JNum (- 1))))) (K (JNum 1)))), Ret (Idx (Dot (Dot (V 0) ''c'') ''c'') (Dot (V 0) ''b''))],
    fn ''MRb'' 2 0 [Do (Call ''esb'' [Dot (V 0) ''a'', V 1]), When (Dot (V 1) ''d'') [Raise (Call ''Lcb'' [New ''qz'' [G ''xwe'']])] [], Do (Put (V 1) ''d'' (V 0))],
    fn ''D7c'' 2 0 [Do (Put This ''a'' (New ''lmb'' [])), Do (Put This ''d'' (New ''lmb'' [])), Do (Put This ''f'' (V 0)), Do (Put This ''c'' (V 1))],
    fn ''hbd'' 0 0 [Do (Call ''cbd'' []), Do (Put This ''b'' (New ''_rb'' [])), Do (Put This ''a'' (New ''_rb'' [])), Do (Put This ''c'' (New ''lmb'' []))],
    fn ''_Id'' 3 0 [Do (Put This ''d'' (V 0)), Do (Put This ''j'' (V 1)), Do (Put This ''e'' (V 2)), Do (Put This ''o'' (K (JNum (- 1)))), Do (Put This ''p'' (K (JNum 3)))],
    fn ''aJd'' 3 0 [Do (Put This ''d'' (V 0)), Do (Put This ''k'' (V 1)), Do (Put This ''f'' (V 2)), Do (Put This ''o'' (K (JNum (- 1)))), Do (Put This ''p'' (K (JNum 5)))],
    fn ''u2d'' 6 0 [Do (Super ''t2d'' [V 0, V 1, V 2, V 3, V 4]), Do (And (V 5) (Put This ''o'' (K (JNum (- 2)))))],
    fn ''d2d'' 6 0 [Do (Super ''c2d'' [V 0, V 1, V 2, V 3, V 4]), Do (And (V 5) (Put This ''o'' (K (JNum (- 2)))))],
    fn ''f2d'' 6 0 [Do (Super ''e2d'' [V 0, V 1, V 2, V 3, V 4]), Do (And (V 5) (Put This ''o'' (K (JNum (- 2)))))],
    fn ''h2d'' 6 0 [Do (Super ''g2d'' [V 0, V 1, V 2, V 3, V 4]), Do (And (V 5) (Put This ''o'' (K (JNum (- 2)))))],
    fn ''j2d'' 6 0 [Do (Super ''i2d'' [V 0, V 1, V 2, V 3, V 4]), Do (And (V 5) (Put This ''o'' (K (JNum (- 2)))))],
    fn ''l2d'' 6 0 [Do (Super ''k2d'' [V 0, V 1, V 2, V 3, V 4]), Do (And (V 5) (Put This ''o'' (K (JNum (- 2)))))],
    fn ''n2d'' 6 0 [Do (Super ''m2d'' [V 0, V 1, V 2, V 3, V 4]), Do (And (V 5) (Put This ''o'' (K (JNum (- 2)))))],
    fn ''s2d'' 6 0 [Do (Super ''r2d'' [V 0, V 1, V 2, V 3, V 4]), Do (And (V 5) (Put This ''o'' (K (JNum (- 2)))))],
    fn ''$5d'' 4 0 [Do (Super ''G5d'' [V 2]), Do (Put This ''b'' (V 0)), Do (Put This ''c'' (V 1)), Do (Put This ''d'' (V 3))],
    fn ''zde'' 2 0 [Do (Put This ''f'' (V 0)), Do (Put This ''a'' (Seq (Call ''Ece'' []) (G ''Cce''))), Do (Put This ''c'' (G ''Cce'')), Do (Put This ''b'' (V 1))],
    fn ''Wde'' 2 0 [Do (Put This ''g'' (V 0)), Do (Put This ''d'' (Seq (Call ''Ece'' []) (G ''Dce''))), Do (Put This ''a'' (G ''Dce'')), Do (Put This ''b'' (V 1))],
    fn ''Tke'' 2 0 [Do (And (Neg (Dot (V 0) ''c'')) (Put (V 0) ''c'' (New ''ffe'' [V 0, K (JNum 0)]))), Do (Call ''See'' [Dot (V 0) ''c'', Seq (Call ''Ake'' []) (G ''ske''), V 1])],
    fn ''_ee'' 2 0 [Ret (Call ''afe'' [V 0, V 1, And (Call ''RD'' [V 1, K (JNum 103)]) (Neg (Loose (Bin BitAnd (Dot (Call ''JD'' [V 1, K (JNum 19)]) ''Bb'') (G ''Hve'')) (K (JNum 0))))])],
    fn ''dB'' 2 0 [Ret (Call ''Kfb'' [Call ''Scb'' [Meth (Dot (V 0) ''q'') ''getTime'' []], Call ''Scb'' [Meth (Dot (V 1) ''q'') ''getTime'' []]])],
    fn ''ej'' 1 0 [Ret (Call ''dk'' [Bin Times (Meth (Meth (Dot (V 0) ''e'') ''Pd'' []) ''gc'' []) (Meth (Meth (Dot (V 0) ''c'') ''Pd'' []) ''gc'' []), K (JNum 16), New ''oj'' [V 0]])],
    fn ''C2d'' 1 0 [Ret (And (And (Neg (Neg (Dot (V 0) ''a''))) (Neg (Loose (Dot (Call ''B2d'' [Dot (Dot (V 0) ''a'') ''a'']) ''i'') (K (JNum 0))))) (Neg (And (Neg (Neg (Dot (V 0) ''b''))) (Call ''B3d'' [Dot (V 0) ''b'']))))],
    fn ''Pxb'' 1 0 [Ret (Cond (Neg (Dot (V 0) ''a'')) (Dot (V 0) ''c'') (Cond (Loose (Dot (Dot (V 0) ''e'') ''length'') (K (JNum 0))) (Dot (Dot (V 0) ''a'') ''a'') (Bin Plus (Dot (Dot (V 0) ''a'') ''a'') (Bin Plus (K (JStr '''')) (Dot (V 0) ''e'')))))],
    fn ''_hb'' 1 0 [Loop (And (Bin Gt (Dot (V 0) ''d'') (K (JNum 0))) (Loose (Idx (Dot (V 0) ''a'') (Put (V 0) ''d'' (Bin Minus (Dot (V 0) ''d'') (K (JNum 1))))) (K (JNum 0)))) [] [], Do (And (Loose (Idx (Dot (V 0) ''a'') (Bin Minus (Put (V 0) ''d'' (Bin Minus (Dot (V 0) ''d'') (K (JNum (- 1))))) (K (JNum 1)))) (K (JNum 0))) (Put (V 0) ''e'' (K (JNum 0))))],
    fn ''mub'' 1 0 [Do (Call ''LDb'' [Neg (Loose (Dot (Dot (V 0) ''b'') ''b'') (Dot (Dot (V 0) ''d'') ''a''))]), Do (Put (V 0) ''c'' (Put (V 0) ''b'' (Dot (Dot (V 0) ''b'') ''b''))), Do (Put (V 0) ''a'' (Bin Minus (Dot (V 0) ''a'') (K (JNum 1)))), Ret (Dot (Dot (V 0) ''c'') ''c'')],
    fn ''gyb'' 2 1 [Do (SetV 2 (Bin Minus (K (JNum 1)) (V 1))), Do (PutIdx (Dot (V 0) ''a'') (V 2) (Call ''hyb'' [Idx (Dot (V 0) ''a'') (V 2), V 2])), Ret (Call ''hyb'' [V 0, V 1])],
    fn ''WDb'' 2 2 [Do (SetV 3 (Call ''Ncb'' [V 0, G ''Mve''])), Do (SetV 2 (Call ''adb'' [V 1, K (JNum 32)])), Ret (Call ''_cb'' [V 2, V 3])],
    fn ''Cc'' 3 1 [Do (SetV 3 (Call ''JD'' [Meth (Meth (V 0) ''Zb'' []) ''xc'' [V 1], K (JNum 18)])), Ret (And (Neg (Neg (V 3))) (Meth (V 3) ''Gc'' [V 2]))],
    fn ''Gc'' 3 1 [Do (SetV 3 (Call ''JD'' [Meth (Meth (V 0) ''Zb'' []) ''xc'' [V 1], K (JNum 18)])), Ret (And (Neg (Neg (V 3))) (Meth (V 3) ''Kc'' [V 2]))],
    fn ''uEb'' 3 1 [Do (SetV 3 (Seq (Call ''Qb'' [V 0]) (New ''nmb'' [V 0]))), Do (Call ''sEb'' [New ''tEb'' [V 3, V 1, V 2]])],
    fn ''ZTb'' 3 1 [Do (SetV 3 (Seq (Call ''Qb'' [V 0]) (New ''nmb'' [V 0]))), Do (Call ''XTb'' [New ''YTb'' [V 3, V 1, V 2]])],
    fn ''bOc'' 3 0 [Do (Put (V 0) ''a'' (V 1)), Do (Put (V 0) ''c'' (V 2)), Do (Meth (Dot (Dot (V 0) ''b'') ''a'') ''$b'' []), Do (Call ''cub'' [Dot (V 0) ''d'']), Do (Call ''tDb'' [Dot (Dot (Dot (V 0) ''e'') ''a'') ''c'', K (JNum 0)])],
    fn ''Ryd'' 6 0 [Do (Call ''Syd'' [V 0, V 1, V 2, V 5]), Do (Call ''RWd'' [V 0, V 3]), Do (Call ''SWd'' [V 0, V 4]), Ret (V 0)],
    fn ''fhb'' 4 0 [Do (Put (V 0) ''a'' (Bin Plus (Dot (V 0) ''a'') (Bin Plus (K (JStr '''')) (Call ''Jgb'' [Cond (Loose (V 1) (K JNull)) (G ''Kte'') (Call ''tdb'' [V 1]), V 2, V 3])))), Ret (V 0)],
    fn ''Tjb'' 2 0 [Do (Put This ''a'' (V 0)), Do (Super ''Njb'' [V 0]), Do (Call ''PDb'' [V 1, Meth (V 0) ''gc'' []]), Do (Put This ''b'' (V 1))],
    fn ''I2c'' 2 1 [Do (Put (V 0) ''e'' (New ''A2c'' [])), Do (SetV 2 (Call ''z_c'' [V 1])), Do (Call ''jmb'' [V 2, Dot (V 0) ''c'']), Do (Call ''J2c'' [V 0, V 2, K (JNum 0)])],
    fn ''wdd'' 4 1 [Do (SetV 4 (New ''Edd'' [])), Do (Put (V 4) ''a'' (V 1)), Do (Put (V 4) ''b'' (V 2)), Do (Put (V 4) ''c'' (V 3)), Do (Call ''Ttb'' [Dot (V 0) ''a'', V 4])],
    fn ''xdd'' 4 1 [Do (SetV 4 (New ''Edd'' [])), Do (Put (V 4) ''a'' (V 1)), Do (Put (V 4) ''b'' (V 2)), Do (Put (V 4) ''c'' (V 3)), Do (Call ''Ttb'' [Dot (V 0) ''b'', V 4])],
    fn ''hUc'' 2 0 [Ret (New ''Erd'' [V 1, Call ''hgd'' [Call ''Xfd'' [Dot (V 1) ''e''], V 0, V 0], Seq (Call ''Qdb'' []) (K (JBool True))])],
    fn ''HYc'' 2 0 [Do (Call ''AYc'' []), Ret (Bin Ge (Dot (Call ''JD'' [Call ''oNb'' [V 1, Seq (Call ''SXc'' []) (G ''FXc'')], K (JNum 15)]) ''a'') (Meth (V 0) ''gc'' []))],
    fn ''lLc'' 1 0 [Do (Call ''OKc'' []), Ret (And (Neg (Call ''AWb'' [V 0])) (Neg (And (Neg (Call ''AWb'' [V 0])) (Loose (Dot (Dot (Dot (V 0) ''c'') ''i'') ''c'') (Dot (Dot (Dot (V 0) ''d'') ''i'') ''c'')))))],
    fn ''ZXb'' 1 0 [Ret (Call ''JD'' [Call ''kmb'' [V 0, Call ''SC'' [G ''DP'', G ''Aye'', K (JNum 17), Dot (Dot (V 0) ''c'') ''length'', K (JNum 0), K (JNum 1)]], K (JNum 324)])],
    fn ''Yu'' 1 0 [Ret (New ''mmb'' [Seq (Call ''bk'' [V 0, G ''zue'']) (Call ''Xy'' [Call ''Mcb'' [Call ''Mcb'' [K (JNum 5), V 0], Bin DivInt (V 0) (K (JNum 10))]])])],
    fn ''Ui'' 1 0 [Ret (Call ''dk'' [Bin Times (Meth (Meth (Dot (V 0) ''e'') ''Pd'' []) ''gc'' []) (Meth (Meth (Dot (V 0) ''c'') ''Pd'' []) ''gc'' []), K (JNum 273), New ''ij'' [V 0]])],
    fn ''B3c'' 1 0 [Do (Call ''AOd'' [Seq (And (Neg (Dot (V 0) ''a'')) (Put (V 0) ''a'' (New ''P3d'' [G ''T3'', V 0, K (JNum 10), K (JNum 11)]))) (Dot (V 0) ''a''), New ''x3c'' []])],
    fn ''g9d'' 0 3 [Do (SetV 1 (Seq (SetV 2 (Seq (SetV 0 (New ''F0d'' [])) (V 0))) (V 2))), Do (Call ''_lb'' [G ''c9d'', V 1]), Ret (V 1)]]"

definition code_3199_3210 :: "(string \<times> jfun) list" where
  "code_3199_3210 = [
    fn ''vjb'' 2 0 [When (Call ''RD'' [V 1, K (JNum 45)]) [Ret (Call ''Jd'' [Dot (V 0) ''a'', Call ''JD'' [V 1, K (JNum 45)]])] [], Ret (K (JBool False))],
    fn ''orb'' 2 0 [When (Call ''RD'' [V 1, K (JNum 45)]) [Ret (Call ''Jd'' [Dot (V 0) ''a'', Call ''JD'' [V 1, K (JNum 45)]])] [], Ret (K (JBool False))],
    fn ''Ctb'' 2 0 [When (Call ''RD'' [V 1, K (JNum 45)]) [Ret (Call ''Jd'' [Dot (V 0) ''a'', Call ''JD'' [V 1, K (JNum 45)]])] [], Ret (K (JBool False))],
    fn ''CBb'' 2 0 [When (Bin Le (Dot (V 0) ''a'') (Dot (V 0) ''b'')) [Do (Meth (V 1) ''Bd'' [Bin Minus (Put (V 0) ''a'' (Bin Minus (Dot (V 0) ''a'') (K (JNum (- 1))))) (K (JNum 1))]), Ret (K (JBool True))] [], Ret (K (JBool False))],
    fn ''Pb'' 2 0 [When (Or (Bin Lt (V 0) (K (JNum 0))) (Bin Ge (V 0) (V 1))) [Raise (Call ''Lcb'' [New ''Fdb'' [Call ''Ib'' [V 0, V 1]]])] [], Ret (V 0)],
    fn ''Tb'' 3 0 [When (Or (Or (Bin Lt (V 0) (K (JNum 0))) (Bin Lt (V 1) (V 0))) (Bin Gt (V 1) (V 2))) [Raise (Call ''Lcb'' [New ''Fdb'' [Call ''Kb'' [V 0, V 1, V 2]]])] []],
    fn ''EWb'' 3 0 [Do (And (Neg (Neg (Dot (V 0) ''d''))) (Call ''gmb'' [Dot (Dot (V 0) ''d'') ''e'', V 0])), Do (Put (V 0) ''d'' (V 1)), Do (And (Neg (Neg (Dot (V 0) ''d''))) (Call ''$lb'' [Dot (Dot (V 0) ''d'') ''e'', V 2, V 0]))],
    fn ''c2b'' 2 0 [Do (Call ''i2b'' [V 1, V 0]), Do (Call ''k2b'' [Dot (V 0) ''d'']), Do (Call ''k2b'' [Call ''JD'' [Call ''oNb'' [V 0, Seq (Call ''nyc'' []) (G ''Swc'')], K (JNum 213)]])],
    fn ''d2b'' 2 0 [Do (Call ''l2b'' [V 1, V 0]), Do (Call ''n2b'' [Dot (V 0) ''d'']), Do (Call ''n2b'' [Call ''JD'' [Call ''oNb'' [V 0, Seq (Call ''nyc'' []) (G ''Swc'')], K (JNum 213)]])],
    fn ''iBb'' 1 1 [Do (Call ''cBb'' [V 0]), Do (SetV 1 (New ''Xqb'' [])), Do (Call ''pwb'' [Dot (V 0) ''a'', New ''yBb'' [V 1]]), Ret (V 1)],
    fn ''FBb'' 1 1 [Do (Call ''cBb'' [V 0]), Do (SetV 1 (New ''tsb'' [])), Do (Call ''pwb'' [Dot (V 0) ''a'', New ''NBb'' [V 1]]), Ret (V 1)],
    fn ''fx'' 1 0 [When (Meth (Call ''Gh'' [V 0]) ''dc'' []) [Ret (K (JBool False))] [], Do (Call ''Hh'' [V 0, New ''jx'' []]), Ret (K (JBool True))]]"

definition code_3213_3276 :: "(string \<times> jfun) list" where
  "code_3213_3276 = [
    fn ''SAd'' 2 2 [Do (SetV 2 (Call ''iC'' [V 0, V 1])), Do (SetV 3 (K JNull)), Do (And (Neg (Neg (V 2))) (SetV 3 (Meth (V 2) ''ne'' []))), Ret (V 3)],
    fn ''TAd'' 2 2 [Do (SetV 2 (Call ''BB'' [V 0, V 1])), Do (SetV 3 (K JNull)), Do (And (Neg (Neg (V 2))) (SetV 3 (Meth (V 2) ''qe'' []))), Ret (V 3)],
    fn ''UAd'' 2 2 [Do (SetV 2 (Call ''iC'' [V 0, V 1])), Do (SetV 3 (K JNull)), Do (And (Neg (Neg (V 2))) (SetV 3 (Meth (V 2) ''qe'' []))), Ret (V 3)],
    fn ''VAd'' 2 2 [Do (SetV 2 (Call ''iC'' [V 0, V 1])), Do (SetV 3 (K JNull)), Do (And (Neg (Neg (V 2))) (SetV 3 (Call ''WAd'' [V 2]))), Ret (V 3)],
    fn ''_Bd'' 3 1 [Do (SetV 3 (Call ''QAd'' [V 2])), Do (Call ''xo'' [Dot (V 0) ''n'', V 3, V 1]), Do (Call ''xo'' [Dot (V 0) ''o'', V 1, V 2]), Ret (V 1)],
    fn ''mFc'' 3 0 [Do (Put This ''d'' (New ''zFc'' [This])), Do (Put This ''e'' (V 0)), Do (Put This ''i'' (V 1)), Do (Put This ''f'' (V 2))],
    fn ''bJd'' 4 0 [Do (Put This ''d'' (V 0)), Do (Put This ''n'' (V 1)), Do (Put This ''g'' (V 2)), Do (Put This ''o'' (V 3)), Do (Put This ''p'' (K (JNum (- 1))))],
    fn ''Vc'' 4 0 [Ret (Cond (Call ''RD'' [V 2, K (JNum 59)]) (New ''Ig'' [V 0, V 1, V 2, V 3]) (New ''wg'' [V 0, V 1, V 2, V 3]))],
    fn ''_Xb'' 1 0 [Ret (Call ''JD'' [Call ''kmb'' [V 0, Call ''SC'' [G ''eQ'', G ''Cye'', K (JNum 12), Dot (Dot (V 0) ''c'') ''length'', K (JNum 0), K (JNum 1)]], K (JNum 2007)])],
    fn ''Hlb'' 1 0 [Do (Put This ''a'' (Call ''SC'' [G ''aJ'', G ''Gte'', K (JNum 1), Bin Shl (Call ''wfb'' [Meth (Dot (G ''$wnd'') ''Math'') ''max'' [K (JNum 8), V 0]]) (K (JNum 1)), K (JNum 5), K (JNum 1)]))],
    fn ''Eyb'' 1 0 [Do (Super ''Fyb'' [V 0, Seq (Call ''jzb'' []) (G ''fzb''), K JNull, K (JBool False), K JNull, K (JBool False)])],
    fn ''mie'' 1 1 [Do (SetV 1 (Meth (V 0) ''Dh'' [])), Do (Put This ''a'' (Cond (Call ''RD'' [V 1, K (JNum 72)]) (Meth (Call ''JD'' [V 1, K (JNum 72)]) ''Gi'' []) (Meth (V 1) ''Jc'' [])))],
    fn ''hx'' 1 0 [Ret (New ''Zvb'' [Call ''Nnb'' [Meth (Call ''JD'' [Meth (Dot (V 0) ''a'') ''kd'' [], K (JNum 18)]) ''gc'' [], Meth (Dot (V 0) ''a'') ''jd'' []], K (JNum 16)])],
    fn ''ar'' 1 0 [When (Call ''RD'' [V 0, K (JNum 18)]) [Ret (Meth (Call ''JD'' [V 0, K (JNum 18)]) ''dc'' [])] [], Ret (Neg (Meth (Meth (V 0) ''Jc'' []) ''Ob'' []))],
    fn ''Qo'' 1 0 [When (Neg (Loose (Dot (Dot (V 0) ''e'') ''g'') (Dot (V 0) ''b''))) [Raise (Call ''Lcb'' [New ''Rqb'' []])] [], Ret (And (Neg (Neg (Dot (V 0) ''c''))) (Bin Gt (Dot (V 0) ''d'') (K (JNum 0))))],
    fn ''lub'' 1 0 [Do (Call ''LDb'' [Neg (Loose (Dot (V 0) ''b'') (Dot (Dot (V 0) ''d'') ''c''))]), Do (Put (V 0) ''c'' (Dot (V 0) ''b'')), Do (Put (V 0) ''b'' (Dot (Dot (V 0) ''b'') ''a'')), Do (Put (V 0) ''a'' (Bin Minus (Dot (V 0) ''a'') (K (JNum (- 1))))), Ret (Dot (Dot (V 0) ''c'') ''c'')],
    fn ''slb'' 2 0 [Do (Call ''NDb'' [V 1]), Do (Call ''VC'' [Dot (V 0) ''a'', Dot (V 0) ''c'', V 1]), Do (Put (V 0) ''c'' (Bin BitAnd (Bin Plus (Dot (V 0) ''c'') (K (JNum 1))) (Bin Minus (Dot (Dot (V 0) ''a'') ''length'') (K (JNum 1))))), Do (Call ''wlb'' [V 0])],
    fn ''rlb'' 2 0 [Do (Call ''NDb'' [V 1]), Do (Put (V 0) ''b'' (Bin BitAnd (Bin Minus (Dot (V 0) ''b'') (K (JNum 1))) (Bin Minus (Dot (Dot (V 0) ''a'') ''length'') (K (JNum 1))))), Do (Call ''VC'' [Dot (V 0) ''a'', Dot (V 0) ''b'', V 1]), Do (Call ''wlb'' [V 0])],
    fn ''WDc'' 0 0 [Do (SetG ''WDc'' (G ''qdb'')), Do (SetG ''VDc'' (Call ''qx'' [Call ''Cfb'' [K (JNum 1)], Call ''Cfb'' [K (JNum 4)]])), Do (SetG ''UDc'' (Call ''qx'' [Call ''Cfb'' [K (JNum 1)], Call ''Cfb'' [K (JNum 2)]]))],
    fn ''w8c'' 0 0 [Do (SetG ''w8c'' (G ''qdb'')), Do (SetG ''v8c'' (Call ''gs'' [Seq (Call ''o8c'' []) (Call ''WC'' [Call ''OC'' [G ''S0'', K (JNum 1)], G ''xue'', K (JNum 477), K (JNum 0), NewArr [G ''n8c'']])]))],
    fn ''F8c'' 0 0 [Do (SetG ''F8c'' (G ''qdb'')), Do (SetG ''E8c'' (Call ''gs'' [Seq (Call ''y8c'' []) (Call ''WC'' [Call ''OC'' [G ''T0'', K (JNum 1)], G ''xue'', K (JNum 547), K (JNum 0), NewArr [G ''x8c'']])]))],
    fn ''dad'' 0 0 [Do (SetG ''dad'' (G ''qdb'')), Do (SetG ''cad'' (Call ''gs'' [Seq (Call ''X9c'' []) (Call ''WC'' [Call ''OC'' [G ''_0'', K (JNum 1)], G ''xue'', K (JNum 528), K (JNum 0), NewArr [G ''W9c'']])]))],
    fn ''$Sb'' 0 0 [Do (Call ''TSb'' []), Ret (Call ''WC'' [Call ''OC'' [G ''UO'', K (JNum 1)], G ''xue'', K (JNum 408), K (JNum 0), NewArr [G ''PSb'', G ''SSb'', G ''QSb'', G ''RSb'']])],
    fn ''ULb'' 0 0 [Do (Call ''RLb'' []), Ret (Call ''WC'' [Call ''OC'' [G ''HN'', K (JNum 1)], G ''xue'', K (JNum 409), K (JNum 0), NewArr [G ''QLb'', G ''NLb'', G ''OLb'', G ''PLb'']])],
    fn ''ozb'' 0 0 [Do (Call ''jzb'' []), Ret (Call ''WC'' [Call ''OC'' [G ''rL'', K (JNum 1)], G ''xue'', K (JNum 310), K (JNum 0), NewArr [G ''fzb'', G ''gzb'', G ''hzb'', G ''izb'']])],
    fn ''n8b'' 0 0 [Do (Call ''j8b'' []), Ret (Call ''WC'' [Call ''OC'' [G ''$R'', K (JNum 1)], G ''xue'', K (JNum 367), K (JNum 0), NewArr [G ''i8b'', G ''g8b'', G ''h8b'', G ''f8b'']])],
    fn ''BUb'' 0 0 [Do (Call ''yUb'' []), Ret (Call ''WC'' [Call ''OC'' [G ''jP'', K (JNum 1)], G ''xue'', K (JNum 383), K (JNum 0), NewArr [G ''xUb'', G ''vUb'', G ''uUb'', G ''wUb'']])],
    fn ''shc'' 0 0 [Do (Call ''phc'' []), Ret (Call ''WC'' [Call ''OC'' [G ''BU'', K (JNum 1)], G ''xue'', K (JNum 413), K (JNum 0), NewArr [G ''lhc'', G ''mhc'', G ''nhc'', G ''ohc'']])],
    fn ''eic'' 1 1 [Ret (And (Loose (Dot (V 0) ''j'') (Seq (Call ''Bmd'' []) (G ''ymd''))) (Seq (SetV 1 (Call ''fic'' [V 0])) (Call ''Krb'' [V 1, G ''gmd''])))],
    fn ''boc'' 0 0 [Do (Call ''Xnc'' []), Ret (Call ''WC'' [Call ''OC'' [G ''UV'', K (JNum 1)], G ''xue'', K (JNum 301), K (JNum 0), NewArr [G ''Unc'', G ''Vnc'', G ''Tnc'', G ''Wnc'']])],
    fn ''qzc'' 0 0 [Do (Call ''lzc'' []), Ret (Call ''WC'' [Call ''OC'' [G ''oW'', K (JNum 1)], G ''xue'', K (JNum 203), K (JNum 0), NewArr [G ''jzc'', G ''kzc'', G ''izc'', G ''hzc'']])],
    fn ''cAc'' 0 0 [Do (Call ''_zc'' []), Ret (Call ''WC'' [Call ''OC'' [G ''rW'', K (JNum 1)], G ''xue'', K (JNum 269), K (JNum 0), NewArr [G ''Yzc'', G ''Xzc'', G ''Zzc'', G ''$zc'']])],
    fn ''Mkc'' 2 0 [Ret (Call ''JD'' [Call ''Sub'' [Call ''aCb'' [Meth (Call ''JD'' [Call ''Qc'' [Dot (V 0) ''k'', V 1], K (JNum 16)]) ''Mc'' [], G ''Bkc'']], K (JNum 113)])],
    fn ''Nkc'' 2 0 [Ret (Call ''JD'' [Call ''Sub'' [Call ''bCb'' [Meth (Call ''JD'' [Call ''Qc'' [Dot (V 0) ''k'', V 1], K (JNum 16)]) ''Mc'' [], G ''Bkc'']], K (JNum 113)])],
    fn ''qbc'' 2 1 [Do (SetV 2 (Dot (V 1) ''a'')), Do (Call ''CWb'' [V 2, Dot (Dot (V 1) ''c'') ''d'']), Do (Call ''DWb'' [V 2, Dot (Dot (V 1) ''d'') ''d'']), Do (Call ''wgd'' [Dot (V 2) ''a'', Dot (V 0) ''n''])],
    fn ''N_b'' 2 1 [Do (SetV 2 (Call ''JD'' [Call ''ktb'' [Dot (V 0) ''b'', V 1], K (JNum 66)])), Do (And (Neg (V 2)) (SetV 2 (New ''dub'' []))), Ret (V 2)],
    fn ''_dc'' 1 0 [Do (Call ''Xdc'' []), When (Call ''RD'' [Dot (V 0) ''g'', K (JNum 156)]) [Ret (Call ''JD'' [Dot (V 0) ''g'', K (JNum 156)])] [], Ret (K JNull)],
    fn ''RNc'' 1 0 [Do (Put (V 0) ''a'' (K JNull)), Do (Put (V 0) ''e'' (K JNull)), Do (Call ''tDb'' [Dot (Dot (V 0) ''b'') ''c'', K (JNum 0)]), Do (Call ''tDb'' [Dot (Dot (V 0) ''f'') ''c'', K (JNum 0)]), Do (Put (V 0) ''c'' (K JNull))],
    fn ''Kk'' 4 0 [Do (Put This ''e'' (K JNull)), Do (Put This ''c'' (V 0)), Do (Put This ''d'' (V 1)), Do (Put This ''a'' (V 2)), Do (Put This ''b'' (V 3))],
    fn ''lmc'' 5 0 [Do (Put This ''i'' (V 0)), Do (Put This ''a'' (V 1)), Do (Put This ''e'' (V 2)), Do (Put This ''j'' (V 3)), Do (Put This ''f'' (V 4))],
    fn ''PAc'' 4 1 [Do (SetV 4 (Idx (Idx (V 3) (Dot (V 1) ''g'')) (Dot (V 2) ''g''))), Ret (Call ''Ueb'' [Call ''MD'' [Call ''oNb'' [Dot (V 0) ''a'', V 4]]])],
    fn ''Gbd'' 2 1 [Do (SetV 2 (Dot (Dot (Dot (V 0) ''j'') ''c'') ''length'')), Loop (Bin Lt (V 2) (V 1)) [Do (Call ''_lb'' [Dot (V 0) ''j'', Meth (V 0) ''Mg'' []])] [Do (Bin Minus (SetV 2 (Bin Minus (V 2) (K (JNum (- 1))))) (K (JNum 1)))]],
    fn ''YSc'' 2 0 [Ret (Call ''Zfd'' [New ''lgd'' [Bin Plus (Dot (Dot (V 1) ''e'') ''a'') (Bin Divide (Dot (Dot (V 1) ''f'') ''a'') (K (JNum 2))), Bin Plus (Dot (Dot (V 1) ''e'') ''b'') (Bin Divide (Dot (Dot (V 1) ''f'') ''b'') (K (JNum 2)))], V 0])],
    fn ''eYc'' 0 0 [Do (Call ''bYc'' []), Ret (Call ''WC'' [Call ''OC'' [G ''N$'', K (JNum 1)], G ''xue'', K (JNum 353), K (JNum 0), NewArr [G ''aYc'', G ''$Xc'', G ''_Xc'', G ''ZXc'']])],
    fn ''Y1c'' 0 0 [Do (Call ''U1c'' []), Ret (Call ''WC'' [Call ''OC'' [G ''Q_'', K (JNum 1)], G ''xue'', K (JNum 354), K (JNum 0), NewArr [G ''T1c'', G ''R1c'', G ''S1c'', G ''Q1c'']])],
    fn ''nHc'' 0 0 [Do (Call ''kHc'' []), Ret (Call ''WC'' [Call ''OC'' [G ''pX'', K (JNum 1)], G ''xue'', K (JNum 404), K (JNum 0), NewArr [G ''gHc'', G ''iHc'', G ''jHc'', G ''hHc'']])],
    fn ''n3c'' 0 0 [Do (Call ''j3c'' []), Ret (Call ''WC'' [Call ''OC'' [G ''b0'', K (JNum 1)], G ''xue'', K (JNum 401), K (JNum 0), NewArr [G ''i3c'', G ''f3c'', G ''h3c'', G ''g3c'']])],
    fn ''NSc'' 0 0 [Do (Call ''HSc'' []), Ret (Call ''WC'' [Call ''OC'' [G ''LZ'', K (JNum 1)], G ''xue'', K (JNum 398), K (JNum 0), NewArr [G ''DSc'', G ''ESc'', G ''FSc'', G ''GSc'']])],
    fn ''Tjd'' 0 0 [Do (Call ''Qjd'' []), Ret (Call ''WC'' [Call ''OC'' [G ''z2'', K (JNum 1)], G ''xue'', K (JNum 278), K (JNum 0), NewArr [G ''Njd'', G ''Mjd'', G ''Ojd'', G ''Pjd'']])],
    fn ''Tnd'' 0 0 [Do (Call ''Qnd'' []), Ret (Call ''WC'' [Call ''OC'' [G ''X2'', K (JNum 1)], G ''xue'', K (JNum 288), K (JNum 0), NewArr [G ''Mnd'', G ''Pnd'', G ''Nnd'', G ''Ond'']])],
    fn ''lnd'' 0 0 [Do (Call ''ind'' []), Ret (Call ''WC'' [Call ''OC'' [G ''Q2'', K (JNum 1)], G ''xue'', K (JNum 380), K (JNum 0), NewArr [G ''gnd'', G ''hnd'', G ''fnd'', G ''end'']])],
    fn ''kkd'' 0 0 [Do (Call ''hkd'' []), Ret (Call ''WC'' [Call ''OC'' [G ''B2'', K (JNum 1)], G ''xue'', K (JNum 222), K (JNum 0), NewArr [G ''gkd'', G ''ekd'', G ''dkd'', G ''fkd'']])],
    fn ''cld'' 0 0 [Do (Call ''$kd'' []), Ret (Call ''WC'' [Call ''OC'' [G ''H2'', K (JNum 1)], G ''xue'', K (JNum 292), K (JNum 0), NewArr [G ''Zkd'', G ''Wkd'', G ''Xkd'', G ''Ykd'']])],
    fn ''jpd'' 0 0 [Do (Call ''gpd'' []), Ret (Call ''WC'' [Call ''OC'' [G ''a3'', K (JNum 1)], G ''xue'', K (JNum 327), K (JNum 0), NewArr [G ''fpd'', G ''cpd'', G ''epd'', G ''dpd'']])],
    fn ''Yqd'' 0 0 [Do (Call ''Vqd'' []), Ret (Call ''WC'' [Call ''OC'' [G ''y3'', K (JNum 1)], G ''xue'', K (JNum 407), K (JNum 0), NewArr [G ''Sqd'', G ''Tqd'', G ''Rqd'', G ''Uqd'']])],
    fn ''XGd'' 1 0 [Do (Call ''VGd'' []), Ret (Cond (Call ''cjb'' [G ''UGd'', V 0]) (Meth (Call ''JD'' [Call ''ejb'' [G ''UGd'', V 0], K (JNum 342)]) ''Pg'' []) (K JNull))],
    fn ''Ysd'' 3 0 [Ret (Cond (Bin Lt (V 1) (K (JNum 0))) (Call ''ntd'' [V 0, V 2]) (Meth (Meth (Call ''JD'' [V 2, K (JNum 69)]) ''uk'' []) ''zk'' [V 0, Meth (V 0) ''ei'' [], V 1]))],
    fn ''$Bd'' 3 1 [Do (SetV 3 (Call ''QAd'' [V 2])), Do (Call ''xo'' [Dot (V 0) ''f'', V 3, V 1]), Do (Call ''hjb'' [Dot (V 0) ''g'', V 1, V 2]), Ret (V 1)],
    fn ''aCd'' 3 1 [Do (SetV 3 (Call ''QAd'' [V 2])), Do (Call ''xo'' [Dot (V 0) ''p'', V 3, V 1]), Do (Call ''hjb'' [Dot (V 0) ''q'', V 1, V 2]), Ret (V 1)],
    fn ''WEd'' 1 2 [Do (SetV 1 (Seq (Seq (Call ''zsd'' []) (SetV 2 (New ''Nwd'' []))) (V 2))), Do (And (Neg (Neg (V 0))) (Call ''Lwd'' [V 1, V 0])), Ret (V 1)],
    fn ''lGd'' 1 1 [Do (SetV 1 (Meth (V 0) ''$i'' [Dot (V 0) ''i''])), Do (And (Bin Gt (Dot (V 0) ''i'') (K (JNum 0))) (Call ''rhb'' [Dot (V 0) ''g'', K (JNum 0), V 1, K (JNum 0), Dot (V 0) ''i''])), Ret (V 1)],
    fn ''Br'' 1 1 [Do (SetV 1 (K (JNum 0))), Loop (Meth (V 0) ''Ob'' []) [Do (Meth (V 0) ''Pb'' []), Do (SetV 1 (Call ''Mcb'' [V 1, K (JNum 1)]))] [], Ret (Call ''Xy'' [V 1])],
    fn ''vx'' 2 1 [Do (SetV 2 (New ''mhb'' [])), Do (Meth (V 0) ''Ed'' [V 2]), Do (Put (V 2) ''a'' (Bin Plus (Dot (V 2) ''a'') (K (JStr ''..'')))), Do (Meth (V 1) ''Fd'' [V 2]), Ret (Dot (V 2) ''a'')],
    fn ''bQd'' 2 1 [Do (Call ''aQd'' []), Do (SetV 2 (Call ''JD'' [Call ''ejb'' [G ''_Pd'', V 0], K (JNum 58)])), Ret (Or (Neg (V 2)) (Meth (V 2) ''dk'' [V 1]))]]"

definition code_3278_3304 :: "(string \<times> jfun) list" where
  "code_3278_3304 = [
    fn ''eib'' 2 0 [When (Or (Loose (Dot (V 1) ''e'') (K (JNum 0))) (Loose (Dot (V 0) ''e'') (K (JNum 0)))) [Ret (G ''Yhb'')] [], Ret (Seq (Call ''Vib'' []) (Call ''Wib'' [V 0, V 1]))],
    fn ''IId'' 1 0 [When (Neg (Loose (Dot (V 0) ''p'') (K (JNum 1)))) [Raise (Call ''Lcb'' [New ''mfb'' []])] [], Ret (Bin Shr (Bin Shl (Call ''gdb'' [Dot (V 0) ''f'']) (K (JNum 24))) (K (JNum 24)))],
    fn ''RId'' 1 0 [When (Neg (Loose (Dot (V 0) ''p'') (K (JNum 1)))) [Raise (Call ''Lcb'' [New ''mfb'' []])] [], Ret (Bin Shr (Bin Shl (Call ''gdb'' [Dot (V 0) ''k'']) (K (JNum 24))) (K (JNum 24)))],
    fn ''XId'' 1 0 [When (Neg (Loose (Dot (V 0) ''p'') (K (JNum 7)))) [Raise (Call ''Lcb'' [New ''mfb'' []])] [], Ret (Bin Shr (Bin Shl (Call ''gdb'' [Dot (V 0) ''k'']) (K (JNum 16))) (K (JNum 16)))],
    fn ''OId'' 1 0 [When (Neg (Loose (Dot (V 0) ''p'') (K (JNum 7)))) [Raise (Call ''Lcb'' [New ''mfb'' []])] [], Ret (Bin Shr (Bin Shl (Call ''gdb'' [Dot (V 0) ''f'']) (K (JNum 16))) (K (JNum 16)))],
    fn ''Eqc'' 0 0 [Do (SetG ''Eqc'' (G ''qdb'')), Do (SetG ''Cqc'' (New ''Fqc'' [G ''Qwe'', K (JNum 0)])), Do (SetG ''Dqc'' (New ''Fqc'' [K (JStr ''TOP_LEFT''), K (JNum 1)]))],
    fn ''bKc'' 0 0 [Do (SetG ''bKc'' (G ''qdb'')), Do (SetG ''aKc'' (New ''cKc'' [K (JStr ''UPPER''), K (JNum 0)])), Do (SetG ''_Jc'' (New ''cKc'' [K (JStr ''LOWER''), K (JNum 1)]))],
    fn ''yec'' 3 1 [Do (SetV 3 (Call ''JD'' [Call ''ejb'' [Dot (V 0) ''g'', V 2], K (JNum 60)])), Do (Call ''_lb'' [Dot (Dot (V 0) ''a'') ''c'', New ''prd'' [V 1, V 3]])],
    fn ''aQc'' 5 1 [Do (SetV 5 (Call ''XPc'' [V 4, V 2, V 3])), Do (Call ''_lb'' [V 1, Call ''CPc'' [V 4, V 5]]), Do (Call ''eQc'' [V 0, V 4, V 1])],
    fn ''bgc'' 3 0 [Do (Put (V 0) ''i'' (K (JNum 0))), Do (Put (V 0) ''e'' (K (JNum 0))), When (Loose (V 1) (V 2)) [Ret (K JUndef)] [], Do (Call ''agc'' [V 0, V 1, V 2]), Do (Call ''_fc'' [V 0, V 1, V 2])],
    fn ''dEb'' 3 0 [Ret (Call ''Teb'' [Call ''MD'' [Call ''Wd'' [Call ''ysb'' [Dot (V 0) ''f'', V 1]]], Call ''MD'' [Call ''Wd'' [Call ''ysb'' [Dot (V 0) ''f'', V 2]]]])],
    fn ''XQd'' 2 0 [Ret (Call ''JD'' [Cond (Loose (V 1) (K JNull)) (Call ''Wd'' [Call ''ysb'' [Dot (V 0) ''f'', K JNull]]) (Call ''Ssb'' [Dot (V 0) ''i'', V 1]), K (JNum 290)])],
    fn ''Nd'' 2 0 [Ret (Cond (Same (Call ''XD'' [V 1]) (Call ''XD'' [V 0])) (K (JStr ''(this Map)'')) (Cond (Loose (V 1) (K JNull)) (G ''Kte'') (Call ''tdb'' [V 1])))],
    fn ''SKc'' 2 0 [Ret (Cond (And (Loose (V 0) (Seq (Call ''$Yb'' []) (G ''XYb''))) (Loose (V 1) (G ''XYb''))) (K (JNum 4)) (Cond (Or (Loose (V 0) (G ''XYb'')) (Loose (V 1) (G ''XYb''))) (K (JNum 8)) (K (JNum 32))))],
    fn ''pee'' 3 0 [Ret (Call ''qee'' [V 0, V 1, V 2, And (Call ''RD'' [V 1, K (JNum 103)]) (Neg (Loose (Bin BitAnd (Dot (Call ''JD'' [V 1, K (JNum 19)]) ''Bb'') (G ''Hve'')) (K (JNum 0))))])],
    fn ''wee'' 3 0 [Ret (Call ''xee'' [V 0, V 1, V 2, And (Call ''RD'' [V 1, K (JNum 103)]) (Neg (Loose (Bin BitAnd (Dot (Call ''JD'' [V 1, K (JNum 19)]) ''Bb'') (G ''Hve'')) (K (JNum 0))))])],
    fn ''bfe'' 3 0 [Ret (Call ''cfe'' [V 0, V 1, V 2, And (Call ''RD'' [V 1, K (JNum 103)]) (Neg (Loose (Bin BitAnd (Dot (Call ''JD'' [V 1, K (JNum 19)]) ''Bb'') (G ''Hve'')) (K (JNum 0))))])],
    fn ''Bie'' 2 1 [Do (Call ''Aie'' []), Do (SetV 2 (Meth (Call ''JD'' [V 0, K (JNum 69)]) ''tk'' [])), Do (Call ''X4d'' [V 2, V 1]), Ret (Meth (V 2) ''vl'' [V 1])],
    fn ''kib'' 2 0 [Do (Call ''Zhb'' []), Do (Super ''mib'' [V 0, K (JNum 1), Call ''WC'' [Call ''OC'' [G ''cE'', K (JNum 1)], G ''bve'', K (JNum 30), K (JNum 15), NewArr [V 1]]])],
    fn ''Xre'' 2 0 [Do (Call ''gre'' []), Do (Super ''hre'' [V 0]), Do (Put This ''a'' (V 1)), Do (Put This ''c'' (K (JNum (- 1)))), Do (Put This ''b'' (K (JNum (- 1))))],
    fn ''MNb'' 2 0 [Do (Super ''xNb'' []), Do (Put This ''a'' (V 0)), Do (Put This ''b'' (V 1)), Do (Call ''_lb'' [Dot (Dot This ''a'') ''b'', This])],
    fn ''Vrb'' 1 0 [Do (Call ''LDb'' [Bin Lt (Dot (V 0) ''a'') (Dot (Dot (Dot (V 0) ''c'') ''a'') ''length'')]), Do (Put (V 0) ''b'' (Dot (V 0) ''a'')), Do (Call ''Trb'' [V 0]), Ret (Idx (Dot (Dot (V 0) ''c'') ''b'') (Dot (V 0) ''b''))],
    fn ''GWd'' 1 0 [When (Neg (Dot (V 0) ''n'')) [Do (Call ''LWd'' [V 0]), Do (Put (V 0) ''n'' (New ''uYd'' [V 0, G ''z6'', V 0])), Do (Call ''MWd'' [V 0])] [], Ret (Dot (V 0) ''n'')],
    fn ''fqd'' 2 1 [Do (SetV 2 (V 1)), Loop (V 2) [Do (Call ''Ufd'' [V 0, Dot (V 2) ''i'', Dot (V 2) ''j'']), Do (SetV 2 (Call ''Rzd'' [V 2]))] [], Ret (V 0)],
    fn ''Zpb'' 2 1 [Do (SetV 2 (K (JNum 0))), Loop (Bin Lt (V 2) (V 1)) [Do (Call ''VC'' [V 0, V 2, New ''jqb'' [Call ''JD'' [Idx (V 0) (V 2), K (JNum 45)]]])] [Do (SetV 2 (Bin Minus (V 2) (K (JNum (- 1)))))]],
    fn ''lB'' 2 1 [Do (SetV 2 (Meth (Dot (V 0) ''q'') ''getHours'' [])), Do (Meth (Dot (V 0) ''q'') ''setFullYear'' [Bin Plus (V 1) (G ''ave'')]), Do (Call ''eB'' [V 0, V 2])],
    fn ''yac'' 2 1 [Do (Call ''sac'' []), Do (SetV 2 (Bin Minus (Dot (Dot (V 0) ''j'') ''g'') (Dot (Dot (V 1) ''j'') ''g''))), When (Neg (Loose (V 2) (K (JNum 0)))) [Ret (V 2)] [], Ret (K (JNum 0))]]"

definition code_3306_3310 :: "(string \<times> jfun) list" where
  "code_3306_3310 = [
    fn ''HDb'' 1 0 [When (Bin Lt (V 0) (K (JNum 0))) [Raise (Call ''Lcb'' [New ''Wfb'' [Bin Plus (K (JStr ''Negative array size: '')) (V 0)]])] []],
    fn ''$cd'' 1 0 [Do (And (And (Call ''RD'' [V 0, K (JNum 206)]) (Neg (Call ''Rdb'' [Call ''LD'' [Meth (V 0) ''mf'' [Seq (Call ''vjd'' []) (G ''pid'')]]]))) (Call ''Ycd'' [Call ''JD'' [V 0, K (JNum 26)]]))],
    fn ''FNb'' 1 0 [Ret (Cond (And (Neg (Neg (Dot (V 0) ''c''))) (Neg (Neg (Dot (V 0) ''d'')))) (Bin Plus (Bin Plus (Call ''ONb'' [Dot (V 0) ''c'']) (K (JStr ''->''))) (Call ''ONb'' [Dot (V 0) ''d''])) (Bin Plus (K (JStr ''e_'')) (Call ''DDb'' [V 0])))],
    fn ''fRd'' 2 1 [Ret (Seq (SetV 2 (Cond (Neg (Loose (V 1) (K JNull))) (Call ''fjb'' [V 0, V 1]) (Call ''Wd'' [Call ''ysb'' [Dot (V 0) ''f'', V 1]]))) (Call ''ZD'' [V 2]))],
    fn ''qRd'' 2 1 [Ret (Seq (SetV 2 (Cond (Neg (Loose (V 1) (K JNull))) (Call ''fjb'' [V 0, V 1]) (Call ''Wd'' [Call ''ysb'' [Dot (V 0) ''f'', V 1]]))) (Call ''ZD'' [V 2]))]]"

definition object_table6 :: "(string \<times> jfun) list" where
  "object_table6 = code_2976_2995 @ code_2998_3112 @ code_3114_3197 @ code_3199_3210 @ code_3213_3276 @ code_3278_3304 @ code_3306_3310"

text \<open>The names each table declares.\<close>

lemma names_2976_2995 [js_names]: "map fst code_2976_2995 = [
    ''iyb'', ''Pmb'', ''AZc'', ''EKb'', ''Px'', ''Cz'', ''wRb'', ''cyb'', ''hKb'', ''ttd'',
    ''YGd'', ''m8c'', ''X6c'', ''d7c'', ''wIb'', ''ly'', ''gz'', ''fB'', ''to'', ''Sx'']"
  by (simp add: code_2976_2995_def fn_def)

lemma names_2998_3112 [js_names]: "map fst code_2998_3112 = [
    ''Alb'', ''iC'', ''Jeb'', ''Gwd'', ''gAd'', ''_wd'', ''htd'', ''$Ic'', ''nNc'', ''ws'',
    ''uHc'', ''yEb'', ''Tzd'', ''D1b'', ''W8b'', ''V8b'', ''gYb'', ''JGd'', ''sFd'', ''HId'',
    ''QId'', ''Cyd'', ''KVd'', ''zzd'', ''xTd'', ''Rzd'', ''HUd'', ''UBb'', ''Heb'', ''iB'',
    ''CWb'', ''NYb'', ''DWb'', ''wZb'', ''ijb'', ''qXd'', ''CRb'', ''vMb'', ''tEb'', ''YTb'',
    ''PDb'', ''VGd'', ''zBc'', ''HBc'', ''RBc'', ''YBc'', ''qCc'', ''wCc'', ''jKc'', ''OKc'',
    ''RMc'', ''FNc'', ''qYc'', ''MPc'', ''cdd'', ''kgd'', ''KPc'', ''LPc'', ''Jad'', ''m4d'',
    ''PUd'', ''YVd'', ''Iw'', ''I$d'', ''R2d'', ''wr'', ''yib'', ''Uvb'', ''U$c'', ''V$c'',
    ''Eee'', ''Yxb'', ''jyb'', ''hmb'', ''_jb'', ''Zvb'', ''MDb'', ''UDb'', ''aEd'', ''eNb'',
    ''fCb'', ''rZb'', ''fQb'', ''IAb'', ''FHb'', ''kIb'', ''bJb'', ''ezc'', ''hqc'', ''qqc'',
    ''zqc'', ''yic'', ''LAc'', ''CAc'', ''tAc'', ''dBc'', ''mBc'', ''vBc'', ''xWc'', ''V0c'',
    ''W3c'', ''koc'', ''Toc'', ''T2c'', ''g2c'', ''D6c'', ''c6c'', ''f8c'', ''akd'', ''Tkd'',
    ''bnd'', ''Jnd'', ''$dc'', ''Kde'', ''Mde'']"
  by (simp add: code_2998_3112_def fn_def)

lemma names_3114_3197 [js_names]: "map fst code_3114_3197 = [
    ''CNc'', ''N6c'', ''iv'', ''PVd'', ''JId'', ''SId'', ''Uu'', ''Ex'', ''Ncb'', ''_cb'',
    ''idb'', ''erb'', ''Svb'', ''Irb'', ''qHb'', ''lib'', ''Qi'', ''jse'', ''Kre'', ''tQb'',
    ''jYc'', ''ONb'', ''$Xb'', ''zz'', ''kTb'', ''lTb'', ''nTb'', ''mTb'', ''rFb'', ''lJc'',
    ''jod'', ''wec'', ''nVb'', ''Sgc'', ''fVc'', ''LTc'', ''PWd'', ''$ud'', ''Imb'', ''MRb'',
    ''D7c'', ''hbd'', ''_Id'', ''aJd'', ''u2d'', ''d2d'', ''f2d'', ''h2d'', ''j2d'', ''l2d'',
    ''n2d'', ''s2d'', ''$5d'', ''zde'', ''Wde'', ''Tke'', ''_ee'', ''dB'', ''ej'', ''C2d'',
    ''Pxb'', ''_hb'', ''mub'', ''gyb'', ''WDb'', ''Cc'', ''Gc'', ''uEb'', ''ZTb'', ''bOc'',
    ''Ryd'', ''fhb'', ''Tjb'', ''I2c'', ''wdd'', ''xdd'', ''hUc'', ''HYc'', ''lLc'', ''ZXb'',
    ''Yu'', ''Ui'', ''B3c'', ''g9d'']"
  by (simp add: code_3114_3197_def fn_def)

lemma names_3199_3210 [js_names]: "map fst code_3199_3210 = [
    ''vjb'', ''orb'', ''Ctb'', ''CBb'', ''Pb'', ''Tb'', ''EWb'', ''c2b'', ''d2b'', ''iBb'',
    ''FBb'', ''fx'']"
  by (simp add: code_3199_3210_def fn_def)

lemma names_3213_3276 [js_names]: "map fst code_3213_3276 = [
    ''SAd'', ''TAd'', ''UAd'', ''VAd'', ''_Bd'', ''mFc'', ''bJd'', ''Vc'', ''_Xb'', ''Hlb'',
    ''Eyb'', ''mie'', ''hx'', ''ar'', ''Qo'', ''lub'', ''slb'', ''rlb'', ''WDc'', ''w8c'',
    ''F8c'', ''dad'', ''$Sb'', ''ULb'', ''ozb'', ''n8b'', ''BUb'', ''shc'', ''eic'', ''boc'',
    ''qzc'', ''cAc'', ''Mkc'', ''Nkc'', ''qbc'', ''N_b'', ''_dc'', ''RNc'', ''Kk'', ''lmc'',
    ''PAc'', ''Gbd'', ''YSc'', ''eYc'', ''Y1c'', ''nHc'', ''n3c'', ''NSc'', ''Tjd'', ''Tnd'',
    ''lnd'', ''kkd'', ''cld'', ''jpd'', ''Yqd'', ''XGd'', ''Ysd'', ''$Bd'', ''aCd'', ''WEd'',
    ''lGd'', ''Br'', ''vx'', ''bQd'']"
  by (simp add: code_3213_3276_def fn_def)

lemma names_3278_3304 [js_names]: "map fst code_3278_3304 = [
    ''eib'', ''IId'', ''RId'', ''XId'', ''OId'', ''Eqc'', ''bKc'', ''yec'', ''aQc'', ''bgc'',
    ''dEb'', ''XQd'', ''Nd'', ''SKc'', ''pee'', ''wee'', ''bfe'', ''Bie'', ''kib'', ''Xre'',
    ''MNb'', ''Vrb'', ''GWd'', ''fqd'', ''Zpb'', ''lB'', ''yac'']"
  by (simp add: code_3278_3304_def fn_def)

lemma names_3306_3310 [js_names]: "map fst code_3306_3310 = [
    ''HDb'', ''$cd'', ''FNb'', ''fRd'', ''qRd'']"
  by (simp add: code_3306_3310_def fn_def)

end
