(* ===== verification/ObjectTable7.thy ===== *)
theory ObjectTable7
  imports ObjectCode
begin

text \<open>
  Functions of \<open>layout-worker.js\<close>, lines 3313 to 3590, in the order of the file, one per line:
  operations of the runtime's collections, iterators and text buffers, accessors and small algorithms
  of the layout engine, with their loops, \<open>switch\<close> and \<open>try\<close> statements. An entry has the name, the
  number of parameters, the number of further local variables and the body; parameters and locals
  are numbered from 0, the variable of a \<open>catch\<close> has a number of its own, \<open>x++\<close> is \<open>(x=x+1)-1\<close>. Lines
  with a construct outside \<open>jexp\<close> and \<open>jstm\<close> (closures, \<open>in\<close>, floating-point literals, host objects) are
  left out.
\<close>

definition code_3313_3378 :: "(string \<times> jfun) list" where
  "code_3313_3378 = [
    fn ''w5d'' 3 0 [Do (Put This ''e'' (V 0)), Do (Put This ''a'' (G ''aJ'')), Do (Put This ''b'' (Call ''Che'' [V 1])), Do (Put This ''c'' (V 1)), Do (Put This ''d'' (V 2))],
    fn ''Ro'' 1 0 [Do (Put This ''e'' (V 0)), Do (Put This ''c'' (Dot (Dot This ''e'') ''a'')), Do (Put This ''b'' (Dot (Dot This ''e'') ''g'')), Do (Put This ''d'' (Dot (Dot This ''e'') ''i''))],
    fn ''$7d'' 1 0 [Do (Put This ''c'' (V 0)), Do (Put This ''a'' (Call ''JD'' [Call ''hUd'' [V 0], K (JNum 159)])), Do (Put This ''b'' (Meth (Meth (Dot This ''a'') ''hk'' []) ''ti'' []))],
    fn ''Y1d'' 4 0 [Do (Super ''_Id'' [K (JNum 1), V 2, V 3]), Do (Call ''W1d'' [This]), Do (Put This ''c'' (V 0)), Do (Put This ''b'' (V 1))],
    fn ''Z1d'' 4 0 [Do (Super ''aJd'' [K (JNum 1), V 2, V 3]), Do (Call ''W1d'' [This]), Do (Put This ''c'' (V 0)), Do (Put This ''b'' (V 1))],
    fn ''yje'' 7 0 [Do (Super ''cJd'' [V 1, V 3, V 4, V 5, V 6]), Do (Put This ''c'' (V 0)), Do (Put This ''a'' (V 2))],
    fn ''otb'' 0 0 [Do (Super ''_rb'' []), Do (Call ''htb'' [This]), Do (Put (Dot This ''d'') ''b'' (Dot This ''d'')), Do (Put (Dot This ''d'') ''a'' (Dot This ''d''))],
    fn ''Ysb'' 1 0 [Do (Put This ''d'' (V 0)), Do (Put This ''b'' (Meth (Dot (Dot This ''d'') ''a'') ''entries'' [])), Do (Put This ''a'' (Meth (Dot This ''b'') ''next'' []))],
    fn ''Wvb'' 1 0 [Do (Call ''Ovb'' []), Do (Call ''Tvb'' [This, Call ''gdb'' [Call ''Ncb'' [Call ''bdb'' [V 0, K (JNum 24)], G ''bwe'']], Call ''gdb'' [Call ''Ncb'' [V 0, G ''bwe'']]])],
    fn ''SBb'' 2 1 [Ret (Meth (Dot (V 1) ''b'') ''Kb'' [Call ''cCb'' [V 0, Meth (Dot (V 1) ''c'') ''Ve'' [], Seq (SetV 2 (New ''fDb'' [V 1])) (V 2)]])],
    fn ''Qmb'' 2 1 [Do (Call ''HDb'' [V 1]), Ret (Seq (Seq (SetV 2 (Meth (V 0) ''slice'' [K (JNum 0), V 1])) (Put (V 2) ''length'' (V 1))) (Call ''XC'' [V 2, V 0]))],
    fn ''Tx'' 1 1 [When (V 0) [Ret (New ''Rtb'' [V 0])] [], Do (SetV 1 (New ''Ptb'' [])), Do (Call ''Vq'' [V 1, V 0]), Ret (V 1)],
    fn ''bib'' 2 1 [Do (SetV 2 (Bin Minus (Dot (V 0) ''d'') (K (JNum 1)))), Loop (And (Bin Ge (V 2) (K (JNum 0))) (Same (Idx (Dot (V 0) ''a'') (V 2)) (Idx (V 1) (V 2)))) [] [Do (Bin Minus (SetV 2 (Bin Minus (V 2) (K (JNum 1)))) (K (JNum (- 1))))], Ret (Bin Lt (V 2) (K (JNum 0)))],
    fn ''ygc'' 2 2 [Do (SetV 3 (K (JBool False))), Loop (K (JBool True)) [Do (SetV 2 (Call ''Bgc'' [V 0, V 1])), Do (SetV 3 (Bin BitOr (V 3) (V 2)))] [When (V 2) [] [Break]], Ret (V 3)],
    fn ''Wtb'' 4 1 [Do (SetV 4 (New ''Aub'' [])), Do (Put (V 4) ''c'' (V 1)), Do (Put (V 4) ''b'' (V 2)), Do (Put (V 4) ''a'' (V 3)), Do (Put (V 3) ''b'' (Put (V 2) ''a'' (V 4))), Do (Put (V 0) ''b'' (Bin Minus (Dot (V 0) ''b'') (K (JNum (- 1)))))],
    fn ''Qnd'' 0 0 [Do (SetG ''Qnd'' (G ''qdb'')), Do (SetG ''Mnd'' (New ''Vnd'' [])), Do (SetG ''Pnd'' (New ''Xnd'' [])), Do (SetG ''Nnd'' (New ''Znd'' [])), Do (SetG ''Ond'' (New ''_nd'' []))],
    fn ''isc'' 0 0 [Do (SetG ''isc'' (G ''qdb'')), Do (SetG ''hsc'' (New ''jsc'' [G ''qye'', K (JNum 0)])), Do (SetG ''gsc'' (New ''jsc'' [K (JStr ''ALTERNATING''), K (JNum 1)]))],
    fn ''opc'' 0 0 [Do (SetG ''opc'' (G ''qdb'')), Do (SetG ''npc'' (Call ''gs'' [Seq (Call ''jpc'' []) (Call ''WC'' [Call ''OC'' [G ''$V'', K (JNum 1)], G ''xue'', K (JNum 476), K (JNum 0), NewArr [G ''ipc'', G ''hpc'']])]))],
    fn ''Snc'' 0 0 [Do (SetG ''Snc'' (G ''qdb'')), Do (SetG ''Rnc'' (Call ''gs'' [Seq (Call ''Nnc'' []) (Call ''WC'' [Call ''OC'' [G ''TV'', K (JNum 1)], G ''xue'', K (JNum 422), K (JNum 0), NewArr [G ''Lnc'', G ''Mnc'']])]))],
    fn ''Moc'' 0 0 [Do (SetG ''Moc'' (G ''qdb'')), Do (SetG ''Loc'' (Call ''gs'' [Seq (Call ''Hoc'' []) (Call ''WC'' [Call ''OC'' [G ''XV'', K (JNum 1)], G ''xue'', K (JNum 419), K (JNum 0), NewArr [G ''Foc'', G ''Goc'']])]))],
    fn ''Jqc'' 0 0 [Do (SetG ''Jqc'' (G ''qdb'')), Do (SetG ''Iqc'' (Call ''gs'' [Seq (Call ''Eqc'' []) (Call ''WC'' [Call ''OC'' [G ''fW'', K (JNum 1)], G ''xue'', K (JNum 420), K (JNum 0), NewArr [G ''Cqc'', G ''Dqc'']])]))],
    fn ''nsc'' 0 0 [Do (SetG ''nsc'' (G ''qdb'')), Do (SetG ''msc'' (Call ''gs'' [Seq (Call ''isc'' []) (Call ''WC'' [Call ''OC'' [G ''hW'', K (JNum 1)], G ''xue'', K (JNum 423), K (JNum 0), NewArr [G ''hsc'', G ''gsc'']])]))],
    fn ''mAc'' 0 0 [Do (SetG ''mAc'' (G ''qdb'')), Do (SetG ''lAc'' (Call ''gs'' [Seq (Call ''hAc'' []) (Call ''WC'' [Call ''OC'' [G ''sW'', K (JNum 1)], G ''xue'', K (JNum 421), K (JNum 0), NewArr [G ''fAc'', G ''gAc'']])]))],
    fn ''gKc'' 0 0 [Do (SetG ''gKc'' (G ''qdb'')), Do (SetG ''fKc'' (Call ''gs'' [Seq (Call ''bKc'' []) (Call ''WC'' [Call ''OC'' [G ''QX'', K (JNum 1)], G ''xue'', K (JNum 519), K (JNum 0), NewArr [G ''aKc'', G ''_Jc'']])]))],
    fn ''kNc'' 0 0 [Do (SetG ''kNc'' (G ''qdb'')), Do (SetG ''jNc'' (Call ''gs'' [Seq (Call ''fNc'' []) (Call ''WC'' [Call ''OC'' [G ''JY'', K (JNum 1)], G ''xue'', K (JNum 510), K (JNum 0), NewArr [G ''eNc'', G ''dNc'']])]))],
    fn ''sNc'' 0 0 [Do (SetG ''sNc'' (G ''qdb'')), Do (SetG ''rNc'' (Call ''gs'' [Seq (Call ''nNc'' []) (Call ''WC'' [Call ''OC'' [G ''KY'', K (JNum 1)], G ''xue'', K (JNum 509), K (JNum 0), NewArr [G ''lNc'', G ''mNc'']])]))],
    fn ''VPc'' 0 0 [Do (SetG ''VPc'' (G ''qdb'')), Do (SetG ''UPc'' (Call ''gs'' [Seq (Call ''QPc'' []) (Call ''WC'' [Call ''OC'' [G ''fZ'', K (JNum 1)], G ''xue'', K (JNum 516), K (JNum 0), NewArr [G ''PPc'', G ''OPc'']])]))],
    fn ''TRc'' 0 0 [Do (SetG ''TRc'' (G ''qdb'')), Do (SetG ''SRc'' (Call ''gs'' [Seq (Call ''ORc'' []) (Call ''WC'' [Call ''OC'' [G ''AZ'', K (JNum 1)], G ''xue'', K (JNum 454), K (JNum 0), NewArr [G ''MRc'', G ''NRc'']])]))],
    fn ''oYc'' 0 0 [Do (SetG ''oYc'' (G ''qdb'')), Do (SetG ''nYc'' (Call ''gs'' [Seq (Call ''jYc'' []) (Call ''WC'' [Call ''OC'' [G ''O$'', K (JNum 1)], G ''xue'', K (JNum 425), K (JNum 0), NewArr [G ''iYc'', G ''hYc'']])]))],
    fn ''o_c'' 0 0 [Do (SetG ''o_c'' (G ''qdb'')), Do (SetG ''n_c'' (Call ''gs'' [Seq (Call ''g_c'' []) (Call ''WC'' [Call ''OC'' [G ''w_'', K (JNum 1)], G ''xue'', K (JNum 487), K (JNum 0), NewArr [G ''e_c'', G ''f_c'']])]))],
    fn ''N0c'' 0 0 [Do (SetG ''N0c'' (G ''qdb'')), Do (SetG ''M0c'' (Call ''gs'' [Seq (Call ''H0c'' []) (Call ''WC'' [Call ''OC'' [G ''L_'', K (JNum 1)], G ''xue'', K (JNum 426), K (JNum 0), NewArr [G ''F0c'', G ''G0c'']])]))],
    fn ''C5c'' 0 0 [Do (SetG ''C5c'' (G ''qdb'')), Do (SetG ''B5c'' (Call ''gs'' [Seq (Call ''u5c'' []) (Call ''WC'' [Call ''OC'' [G ''r0'', K (JNum 1)], G ''xue'', K (JNum 478), K (JNum 0), NewArr [G ''s5c'', G ''t5c'']])]))],
    fn ''N8c'' 0 0 [Do (SetG ''N8c'' (G ''qdb'')), Do (SetG ''M8c'' (Call ''gs'' [Seq (Call ''I8c'' []) (Call ''WC'' [Call ''OC'' [G ''U0'', K (JNum 1)], G ''xue'', K (JNum 428), K (JNum 0), NewArr [G ''H8c'', G ''G8c'']])]))],
    fn ''AOb'' 0 0 [Do (SetG ''AOb'' (G ''qdb'')), Do (SetG ''zOb'' (Call ''gs'' [Seq (Call ''vOb'' []) (Call ''WC'' [Call ''OC'' [G ''hO'', K (JNum 1)], G ''xue'', K (JNum 424), K (JNum 0), NewArr [G ''tOb'', G ''uOb'']])]))],
    fn ''G2b'' 0 0 [Do (SetG ''G2b'' (G ''qdb'')), Do (SetG ''F2b'' (Call ''gs'' [Seq (Call ''B2b'' []) (Call ''WC'' [Call ''OC'' [G ''dR'', K (JNum 1)], G ''xue'', K (JNum 503), K (JNum 0), NewArr [G ''A2b'', G ''z2b'']])]))],
    fn ''oad'' 0 0 [Do (SetG ''oad'' (G ''qdb'')), Do (SetG ''nad'' (Call ''gs'' [Seq (Call ''gad'' []) (Call ''WC'' [Call ''OC'' [G ''a1'', K (JNum 1)], G ''xue'', K (JNum 427), K (JNum 0), NewArr [G ''fad'', G ''ead'']])]))],
    fn ''Jjd'' 0 0 [Do (Call ''Djd'' []), Ret (Call ''WC'' [Call ''OC'' [G ''y2'', K (JNum 1)], G ''xue'', K (JNum 86), K (JNum 0), NewArr [G ''Bjd'', G ''Ajd'', G ''zjd'', G ''yjd'', G ''Cjd'']])],
    fn ''Imd'' 0 0 [Do (Call ''Bmd'' []), Ret (Call ''WC'' [Call ''OC'' [G ''M2'', K (JNum 1)], G ''sye'', K (JNum 64), K (JNum 0), NewArr [G ''zmd'', G ''hmd'', G ''gmd'', G ''ymd'', G ''Amd'']])],
    fn ''YQd'' 3 0 [Ret (Call ''JD'' [Cond (Loose (V 1) (K JNull)) (Call ''zsb'' [Dot (V 0) ''f'', K JNull, V 2]) (Call ''Tsb'' [Dot (V 0) ''i'', V 1, V 2]), K (JNum 290)])],
    fn ''x0b'' 1 0 [Ret (And (Or (Loose (Dot (V 0) ''k'') (Seq (Call ''$Yb'' []) (G ''XYb''))) (Loose (Dot (V 0) ''k'') (G ''TYb''))) (Call ''pNb'' [V 0, Seq (Call ''Wrc'' []) (G ''Vqc'')]))],
    fn ''tlb'' 1 0 [When (Loose (Dot (V 0) ''b'') (Dot (V 0) ''c'')) [Ret (K JUndef)] [], Do (Put (V 0) ''a'' (Call ''SC'' [G ''aJ'', G ''Gte'', K (JNum 1), K (JNum 8), K (JNum 5), K (JNum 1)])), Do (Put (V 0) ''b'' (K (JNum 0))), Do (Put (V 0) ''c'' (K (JNum 0)))],
    fn ''le'' 2 1 [Do (SetV 2 (Meth (V 1) ''jd'' [])), Ret (New ''ap'' [V 2, Meth (Dot (V 0) ''e'') ''pc'' [V 2, Call ''JD'' [Meth (V 1) ''kd'' [], K (JNum 18)]]])],
    fn ''gqd'' 2 1 [Do (SetV 2 (V 1)), Loop (V 2) [Do (Call ''Ufd'' [V 0, Minus1 (Dot (V 2) ''i''), Minus1 (Dot (V 2) ''j'')]), Do (SetV 2 (Call ''Rzd'' [V 2]))] [], Ret (V 0)],
    fn ''IIc'' 2 2 [Do (SetV 2 (V 1)), Do (SetV 3 (K (JNum 0))), Loop (Bin Gt (V 2) (K (JNum 0))) [Do (SetV 3 (Bin Plus (V 3) (Idx (Dot (V 0) ''a'') (V 2)))), Do (SetV 2 (Bin Minus (V 2) (Bin BitAnd (V 2) (Minus1 (V 2)))))] [], Ret (V 3)],
    fn ''imb'' 3 1 [Do (SetV 3 (Seq (Call ''MDb'' [V 1, Dot (Dot (V 0) ''c'') ''length'']) (Idx (Dot (V 0) ''c'') (V 1)))), Do (PutIdx (Dot (V 0) ''c'') (V 1) (V 2)), Ret (V 3)],
    fn ''Hfb'' 2 2 [Do (Call ''NDb'' [V 1]), Do (SetV 3 (Meth (V 0) ''Jc'' [])), Loop (Meth (V 3) ''Ob'' []) [Do (SetV 2 (Meth (V 3) ''Pb'' [])), Do (Meth (V 1) ''Ad'' [V 2])] []],
    fn ''Lkb'' 2 2 [Do (SetV 2 (Meth (V 1) ''jd'' [])), Do (SetV 3 (Meth (V 0) ''De'' [V 2])), Ret (And (Neg (Neg (V 3))) (Call ''Mub'' [Dot (V 3) ''e'', Meth (V 1) ''kd'' []]))],
    fn ''xsb'' 2 1 [Do (SetV 2 (Meth (Dot (V 0) ''a'') ''get'' [V 1])), Ret (Cond (Loose (V 2) (K JNull)) (Call ''SC'' [G ''aJ'', G ''Gte'', K (JNum 1), K (JNum 0), K (JNum 5), K (JNum 1)]) (V 2))],
    fn ''qo'' 1 0 [Do (Put (V 0) ''i'' (K (JNum 0))), Do (Call ''Wmb'' [Dot (V 0) ''b'', K JNull]), Do (Call ''Wmb'' [Dot (V 0) ''c'', K JNull]), Do (Put (V 0) ''a'' (K JNull)), Do (Put (V 0) ''e'' (K JNull)), Do (Put (V 0) ''g'' (Bin Minus (Dot (V 0) ''g'') (K (JNum (- 1)))))],
    fn ''OEc'' 3 0 [Do (Put (Dot (Dot (V 0) ''a'') ''c'') ''length'' (K (JNum 0))), Do (Call ''SEc'' [V 0, V 1, V 2]), Do (Or (Loose (Dot (Dot (Dot (V 0) ''a'') ''c'') ''length'') (K (JNum 0))) (Call ''LEc'' [V 0, V 1]))],
    fn ''DBb'' 2 0 [Do (Put This ''c'' (K (JNum 0))), Do (Put This ''b'' (V 1)), Do (Super ''Awb'' [V 0, K (JNum 17493)]), Do (Put This ''a'' (Dot This ''c''))],
    fn ''wVb'' 1 0 [Do (Call ''tVb'' []), Do (Call ''eUb'' [This]), Do (Put This ''a'' (New ''dub'' [])), Do (Call ''uVb'' [This, V 0]), Do (Call ''Ttb'' [Dot This ''a'', V 0])],
    fn ''SUb'' 0 0 [Do (Call ''Zlb'' [This]), Do (Put This ''b'' (New ''lgd'' [G ''Cve'', G ''Cve''])), Do (Put This ''a'' (New ''lgd'' [G ''Dve'', G ''Dve'']))],
    fn ''wAb'' 1 0 [Do (Call ''oAb'' []), When (G ''lAb'') [Ret (K JUndef)] [], Do (Put This ''c'' (V 0)), Do (Put This ''e'' (K (JBool True))), Do (Put This ''a'' (New ''lmb'' []))],
    fn ''oAb'' 0 0 [Do (SetG ''oAb'' (G ''qdb'')), Do (SetG ''lAb'' (K (JBool True))), Do (SetG ''jAb'' (K (JBool False))), Do (SetG ''kAb'' (K (JBool False))), Do (SetG ''nAb'' (K (JBool False))), Do (SetG ''mAb'' (K (JBool False)))],
    fn ''u5c'' 0 0 [Do (SetG ''u5c'' (G ''qdb'')), Do (SetG ''s5c'' (New ''w5c'' [G ''hze'', K (JNum 0)])), Do (SetG ''t5c'' (New ''w5c'' [K (JStr ''TARGET_WIDTH''), K (JNum 1)]))],
    fn ''RBb'' 2 0 [Ret (Meth (Seq (Call ''dBb'' [V 0]) (Call ''hCb'' [New ''jCb'' [V 0, New ''ACb'' [V 1, Dot (V 0) ''a'']]])) ''zd'' [G ''PBb''])],
    fn ''_Qb'' 0 0 [Do (Call ''YQb'' []), Ret (Call ''WC'' [Call ''OC'' [G ''BO'', K (JNum 1)], G ''xue'', K (JNum 363), K (JNum 0), NewArr [G ''TQb'', G ''UQb'', G ''VQb'', G ''WQb'', G ''XQb'']])],
    fn ''V_c'' 0 0 [Do (Call ''R_c'' []), Ret (Call ''WC'' [Call ''OC'' [G ''B_'', K (JNum 1)], G ''xue'', K (JNum 364), K (JNum 0), NewArr [G ''P_c'', G ''M_c'', G ''Q_c'', G ''N_c'', G ''O_c'']])],
    fn ''r7c'' 0 0 [Do (Call ''o7c'' []), Ret (Call ''WC'' [Call ''OC'' [G ''D0'', K (JNum 1)], G ''xue'', K (JNum 369), K (JNum 0), NewArr [G ''k7c'', G ''j7c'', G ''m7c'', G ''l7c'', G ''n7c'']])],
    fn ''W8c'' 0 0 [Do (Call ''T8c'' []), Ret (Call ''WC'' [Call ''OC'' [G ''V0'', K (JNum 1)], G ''xue'', K (JNum 330), K (JNum 0), NewArr [G ''O8c'', G ''P8c'', G ''S8c'', G ''Q8c'', G ''R8c'']])],
    fn ''Rhc'' 0 0 [Do (Call ''Nhc'' []), Ret (Call ''WC'' [Call ''OC'' [G ''JU'', K (JNum 1)], G ''xue'', K (JNum 371), K (JNum 0), NewArr [G ''Jhc'', G ''Lhc'', G ''Mhc'', G ''Khc'', G ''Ihc'']])],
    fn ''Ezc'' 0 0 [Do (Call ''yzc'' []), Ret (Call ''WC'' [Call ''OC'' [G ''pW'', K (JNum 1)], G ''xue'', K (JNum 303), K (JNum 0), NewArr [G ''xzc'', G ''uzc'', G ''vzc'', G ''tzc'', G ''wzc'']])],
    fn ''dsc'' 0 0 [Do (Call ''asc'' []), Ret (Call ''WC'' [Call ''OC'' [G ''gW'', K (JNum 1)], G ''xue'', K (JNum 165), K (JNum 0), NewArr [G ''_rc'', G ''Xrc'', G ''Yrc'', G ''Zrc'', G ''$rc'']])],
    fn ''Yed'' 0 0 [Do (Call ''Ved'' []), Ret (Call ''WC'' [Call ''OC'' [G ''j2'', K (JNum 1)], G ''xue'', K (JNum 160), K (JNum 0), NewArr [G ''Ted'', G ''Sed'', G ''Qed'', G ''Ued'', G ''Red'']])],
    fn ''Dld'' 0 0 [Do (Call ''Ald'' []), Ret (Call ''WC'' [Call ''OC'' [G ''J2'', K (JNum 1)], G ''xue'', K (JNum 257), K (JNum 0), NewArr [G ''xld'', G ''zld'', G ''vld'', G ''wld'', G ''yld'']])]]"

definition code_3380_3487 :: "(string \<times> jfun) list" where
  "code_3380_3487 = [
    fn ''AWb'' 1 0 [When (Or (Neg (Dot (V 0) ''c'')) (Neg (Dot (V 0) ''d''))) [Ret (K (JBool False))] [], Ret (And (Neg (Neg (Dot (Dot (V 0) ''c'') ''i''))) (Loose (Dot (Dot (V 0) ''c'') ''i'') (Dot (Dot (V 0) ''d'') ''i'')))],
    fn ''Icd'' 2 0 [When (Call ''RD'' [V 1, K (JNum 144)]) [Ret (Call ''vgb'' [Dot (V 0) ''c'', Dot (Call ''JD'' [V 1, K (JNum 144)]) ''c''])] [], Ret (K (JBool False))],
    fn ''LWd'' 1 0 [When (Neg (Dot (V 0) ''t'')) [Do (Put (V 0) ''t'' (New ''JYd'' [V 0])), Do (Call ''kFd'' [New ''Pbe'' [V 0], K (JNum 0), Dot (V 0) ''t''])] [], Ret (Dot (V 0) ''t'')],
    fn ''j4d'' 1 1 [When (Neg (Dot (V 0) ''c'')) [Do (SetV 1 (Dot (V 0) ''r'')), Do (And (Call ''RD'' [V 1, K (JNum 88)]) (Put (V 0) ''c'' (Call ''JD'' [V 1, K (JNum 29)])))] [], Ret (Dot (V 0) ''c'')],
    fn ''rdd'' 2 1 [Do (SetV 2 (Call ''JD'' [Call ''ktb'' [Dot (V 0) ''d'', V 1], K (JNum 21)])), Ret (Cond (V 2) (V 2) (Call ''JD'' [Call ''ktb'' [Dot (V 0) ''e'', V 1], K (JNum 21)]))],
    fn ''ALd'' 1 0 [Do (Put This ''b'' (V 0)), Do (Super ''uKd'' [V 0]), Do (Put This ''a'' (Call ''JD'' [Call ''uud'' [Dot (Dot This ''b'') ''a'', K (JNum 4)], K (JNum 129)]))],
    fn ''JLd'' 1 0 [Do (Put This ''b'' (V 0)), Do (Super ''PKd'' [V 0]), Do (Put This ''a'' (Call ''JD'' [Call ''uud'' [Dot (Dot This ''b'') ''a'', K (JNum 4)], K (JNum 129)]))],
    fn ''b2d'' 5 0 [Do (Super ''dJd'' [V 1, V 3, V 4]), Do (Call ''W1d'' [This]), Do (Put This ''c'' (V 0)), Do (Put This ''b'' (V 2))],
    fn ''t2d'' 5 0 [Do (Super ''dJd'' [V 1, V 3, V 4]), Do (Call ''W1d'' [This]), Do (Put This ''c'' (V 0)), Do (Put This ''a'' (V 2))],
    fn ''k2d'' 5 0 [Do (Super ''aJd'' [V 1, V 3, V 4]), Do (Call ''W1d'' [This]), Do (Put This ''c'' (V 0)), Do (Put This ''a'' (V 2))],
    fn ''g2d'' 5 0 [Do (Super ''_Id'' [V 1, V 3, V 4]), Do (Call ''W1d'' [This]), Do (Put This ''c'' (V 0)), Do (Put This ''a'' (V 2))],
    fn ''Ndb'' 1 0 [Do (Super ''Ldb'' [Cond (Loose (V 0) (K JNull)) (G ''Kte'') (Call ''tdb'' [V 0]), Cond (Call ''RD'' [V 0, K (JNum 80)]) (Call ''JD'' [V 0, K (JNum 80)]) (K JNull)])],
    fn ''Nz'' 1 0 [Do (And (V 0) (Call ''Uz'' [Seq (Call ''Sz'' []) (G ''Rz'')])), Do (SetG ''Fz'' (Bin Minus (G ''Fz'') (K (JNum 1)))), When (V 0) [When (Neg (Loose (G ''Hz'') (K (JNum (- 1))))) [Do (Call ''Pz'' [G ''Hz'']), Do (SetG ''Hz'' (K (JNum (- 1))))] []] []],
    fn ''Tc'' 2 2 [Do (SetV 2 (Call ''JD'' [Call ''Pv'' [Dot (V 0) ''c'', V 1], K (JNum 18)])), When (V 2) [Do (SetV 3 (Meth (V 2) ''gc'' [])), Do (Meth (V 2) ''$b'' []), Do (Put (V 0) ''d'' (Bin Minus (Dot (V 0) ''d'') (V 3)))] []],
    fn ''ZC'' 1 3 [Do (SetV 1 (Bin BitAnd (V 0) (G ''rve''))), Do (SetV 2 (Bin BitAnd (Bin Shr (V 0) (K (JNum 22))) (G ''rve''))), Do (SetV 3 (Cond (Bin Lt (V 0) (K (JNum 0))) (G ''sve'') (K (JNum 0)))), Ret (Call ''_C'' [V 1, V 2, V 3])],
    fn ''_7b'' 1 2 [Do (SetV 1 (Dot (Dot (V 0) ''c'') ''i'')), Do (SetV 2 (Dot (Dot (V 0) ''d'') ''i'')), Ret (And (Loose (Dot (V 1) ''k'') (Seq (Call ''$Yb'' []) (G ''TYb''))) (Loose (Dot (V 2) ''k'') (G ''TYb'')))],
    fn ''ugb'' 1 1 [Do (SetV 1 (Dot (V 0) ''length'')), Ret (Call ''vgb'' [Meth (G ''Gve'') ''substr'' [Bin Minus (Dot (G ''Gve'') ''length'') (V 1), V 1], V 0])],
    fn ''Xr'' 1 0 [When (Call ''Wr'' [V 0]) [Do (Put (V 0) ''c'' (Dot (V 0) ''a'')), Ret (Meth (Dot (V 0) ''a'') ''Pb'' [])] [Raise (Call ''Lcb'' [New ''Kub'' []])]],
    fn ''hib'' 2 0 [When (Or (Loose (V 1) (K (JNum 0))) (Loose (Dot (V 0) ''e'') (K (JNum 0)))) [Ret (V 0)] [], Ret (Cond (Bin Gt (V 1) (K (JNum 0))) (Call ''Aib'' [V 0, V 1]) (Call ''Dib'' [V 0, Minus1 (V 1)]))],
    fn ''iib'' 2 0 [When (Or (Loose (V 1) (K (JNum 0))) (Loose (Dot (V 0) ''e'') (K (JNum 0)))) [Ret (V 0)] [], Ret (Cond (Bin Gt (V 1) (K (JNum 0))) (Call ''Dib'' [V 0, V 1]) (Call ''Aib'' [V 0, Minus1 (V 1)]))],
    fn ''zc'' 1 0 [Do (Put (V 0) ''e'' (K (JNum 3))), Do (Put (V 0) ''d'' (Meth (V 0) ''Yb'' [])), When (Neg (Loose (Dot (V 0) ''e'') (K (JNum 2)))) [Do (Put (V 0) ''e'' (K (JNum 0))), Ret (K (JBool True))] [], Ret (K (JBool False))],
    fn ''YVb'' 1 1 [Do (SetV 1 (New ''GWb'' [])), Do (Call ''mNb'' [V 1, V 0]), Do (Call ''rNb'' [V 1, Seq (Call ''nyc'' []) (G ''Bwc''), K JNull]), Ret (V 1)],
    fn ''btd'' 3 1 [Ret (Seq (SetV 3 (Meth (V 0) ''Fh'' [V 1])) (Cond (Bin Ge (V 3) (K (JNum 0))) (Meth (V 0) ''Ih'' [V 3, V 2, K (JBool True)]) (Call ''mtd'' [V 0, V 1, V 2])))],
    fn ''jUc'' 3 0 [Ret (Call ''$eb'' [Call ''Zfd'' [Call ''USc'' [V 0], Call ''Xfd'' [Dot (V 1) ''b'']], Call ''Zfd'' [Call ''USc'' [V 0], Call ''Xfd'' [Dot (V 2) ''b'']]])],
    fn ''kUc'' 3 0 [Ret (Call ''$eb'' [Call ''Zfd'' [Call ''USc'' [V 0], Call ''Xfd'' [Dot (V 1) ''e'']], Call ''Zfd'' [Call ''USc'' [V 0], Call ''Xfd'' [Dot (V 2) ''e'']]])],
    fn ''G7c'' 2 0 [Ret (Meth (Dot (G ''$wnd'') ''Math'') ''min'' [Call ''Yfd'' [Dot (V 1) ''a'', Dot (Dot (Dot (V 0) ''d'') ''d'') ''c''], Call ''Yfd'' [Dot (V 1) ''b'', Dot (Dot (Dot (V 0) ''d'') ''d'') ''c'']])],
    fn ''Lie'' 3 1 [Do (SetV 3 (New ''Mie'' [Dot (V 0) ''a''])), Do (Call ''Ld'' [V 3, Dot (Dot (V 0) ''a'') ''a'']), Do (Call ''zsb'' [Dot (V 3) ''f'', V 1, V 2]), Do (Put (Dot (V 0) ''a'') ''a'' (V 3))],
    fn ''RHb'' 4 1 [Do (SetV 4 (K (JNum 0))), Loop (Bin Lt (V 4) (G ''OHb'')) [Do (Call ''IHb'' [Idx (Idx (Dot (V 0) ''a'') (V 4)) (Dot (V 1) ''g''), V 2, Idx (V 3) (Dot (V 1) ''g'')])] [Do (Bin Minus (SetV 4 (Bin Minus (V 4) (K (JNum (- 1))))) (K (JNum 1)))]],
    fn ''QHb'' 4 1 [Do (SetV 4 (K (JNum 0))), Loop (Bin Lt (V 4) (G ''NHb'')) [Do (Call ''JHb'' [Idx (Idx (Dot (V 0) ''a'') (Dot (V 1) ''g'')) (V 4), V 2, Idx (V 3) (Dot (V 1) ''g'')])] [Do (Bin Minus (SetV 4 (Bin Minus (V 4) (K (JNum (- 1))))) (K (JNum 1)))]],
    fn ''Qc'' 2 1 [Do (SetV 2 (Call ''JD'' [Meth (Dot (V 0) ''c'') ''xc'' [V 1], K (JNum 18)])), Do (And (Neg (V 2)) (SetV 2 (Meth (V 0) ''ic'' [V 1]))), Ret (Meth (V 0) ''pc'' [V 1, V 2])],
    fn ''sm'' 1 1 [Do (SetV 1 (Seq (Call ''Qb'' [V 0]) (Cond (V 0) (New ''nmb'' [V 0]) (Call ''Vu'' [Meth (V 0) ''Jc'' []])))), Do (Call ''Onb'' [V 1]), Ret (Call ''Mm'' [V 1])],
    fn ''Wu'' 1 2 [Do (Call ''Qb'' [V 0]), Do (SetV 1 (Call ''Qu'' [Dot (V 0) ''length''])), Do (SetV 2 (New ''mmb'' [V 1])), Do (Call ''Jnb'' [V 2, V 0]), Ret (V 2)],
    fn ''dGd'' 1 2 [Do (Put (V 0) ''j'' (Bin Minus (Dot (V 0) ''j'') (K (JNum (- 1))))), Do (SetV 1 (Dot (V 0) ''g'')), Do (SetV 2 (Dot (V 0) ''i'')), Do (Put (V 0) ''g'' (K JNull)), Do (Put (V 0) ''i'' (K (JNum 0))), Do (Meth (V 0) ''Mi'' [V 2, V 1]), Do (Meth (V 0) ''Li'' [])],
    fn ''aGd'' 2 0 [Do (Meth (V 0) ''Zi'' [Bin Plus (Dot (V 0) ''i'') (K (JNum 1))]), Do (Call ''bGd'' [V 0, Dot (V 0) ''i'', Meth (V 0) ''Xi'' [Dot (V 0) ''i'', V 1]]), Do (Meth (V 0) ''Ki'' [Bin Minus (Put (V 0) ''i'' (Bin Minus (Dot (V 0) ''i'') (K (JNum (- 1))))) (K (JNum 1)), V 1]), Do (Meth (V 0) ''Li'' [])],
    fn ''jjb'' 2 0 [Ret (Cond (Call ''VD'' [V 1]) (Cond (Loose (V 1) (K JNull)) (Call ''Asb'' [Dot (V 0) ''f'', K JNull]) (Call ''Usb'' [Dot (V 0) ''i'', V 1])) (Call ''Asb'' [Dot (V 0) ''f'', V 1]))],
    fn ''fmb'' 2 1 [Do (SetV 2 (Seq (Call ''MDb'' [V 1, Dot (Dot (V 0) ''c'') ''length'']) (Idx (Dot (V 0) ''c'') (V 1)))), Do (Call ''rDb'' [Dot (V 0) ''c'', V 1, K (JNum 1)]), Ret (V 2)],
    fn ''Rib'' 4 1 [Do (SetV 4 (Call ''SC'' [G ''cE'', G ''bve'', K (JNum 30), V 1, K (JNum 15), K (JNum 1)])), Do (Call ''Sib'' [V 4, V 0, V 1, V 2, V 3]), Ret (V 4)],
    fn ''Nxb'' 2 0 [Do (Cond (Neg (Dot (V 0) ''a'')) (Put (V 0) ''a'' (New ''nhb'' [Dot (V 0) ''d''])) (Call ''hhb'' [Dot (V 0) ''a'', Dot (V 0) ''b''])), Do (Call ''ehb'' [Dot (V 0) ''a'', V 1]), Ret (V 0)],
    fn ''Sb'' 2 0 [When (Or (Bin Lt (V 0) (K (JNum 0))) (Bin Gt (V 0) (V 1))) [Raise (Call ''Lcb'' [New ''Fdb'' [Call ''Jb'' [V 0, V 1, K (JStr ''index'')]]])] [], Ret (V 0)],
    fn ''Wqb'' 1 1 [Do (SetV 1 (Bin Plus (Dot (V 0) ''e'') (Dot (V 0) ''f''))), When (And (Call ''isNaN'' [V 1]) (Call ''_eb'' [Dot (V 0) ''d''])) [Ret (Dot (V 0) ''d'')] [], Ret (V 1)],
    fn ''tgb'' 2 2 [Do (SetV 2 (Seq (Call ''NDb'' [V 0]) (V 0))), Do (SetV 3 (Seq (Call ''NDb'' [V 1]) (V 1))), Ret (Cond (Loose (V 2) (V 3)) (K (JNum 0)) (Cond (Bin Lt (V 2) (V 3)) (K (JNum (- 1))) (K (JNum 1))))],
    fn ''hB'' 2 1 [Do (SetV 2 (Bin Plus (Meth (Dot (V 0) ''q'') ''getHours'' []) (Bin DivInt (V 1) (K (JNum 60))))), Do (Meth (Dot (V 0) ''q'') ''setMinutes'' [V 1]), Do (Call ''eB'' [V 0, V 2])],
    fn ''Z5d'' 3 0 [Do (Super ''G5d'' [V 2]), Do (Put This ''b'' (V 0)), Do (Put This ''c'' (V 1)), Do (Put This ''d'' (Seq (Call ''n6d'' []) (G ''l6d'')))],
    fn ''dJd'' 3 0 [Do (Put This ''d'' (V 0)), Do (Put This ''k'' (Cond (V 1) (K (JNum 1)) (K (JNum 0)))), Do (Put This ''f'' (Cond (V 2) (K (JNum 1)) (K (JNum 0)))), Do (Put This ''o'' (K (JNum (- 1)))), Do (Put This ''p'' (K (JNum 0)))],
    fn ''UZb'' 1 0 [Do (Put This ''c'' (V 0)), Do (Put This ''a'' (New ''Kmb'' [Dot (Dot This ''c'') ''a''])), Do (Put This ''b'' (New ''Kmb'' [Dot (Dot This ''c'') ''b'']))],
    fn ''KNb'' 0 0 [Do (Put This ''e'' (New ''lmb'' [])), Do (Put This ''c'' (New ''lmb'' [])), Do (Put This ''d'' (New ''lmb'' [])), Do (Put This ''b'' (New ''lmb'' []))],
    fn ''hGb'' 0 0 [Do (Put This ''g'' (New ''kGb'' [])), Do (Put This ''b'' (New ''kGb'' [])), Do (Put This ''a'' (New ''lmb'' [])), Do (Put This ''k'' (New ''lmb'' []))],
    fn ''mVb'' 0 0 [Do (Put This ''a'' (New ''nUb'' [])), Do (Put This ''b'' (New ''rUb'' [])), Do (Put This ''d'' (New ''DVb'' [])), Do (Put This ''e'' (New ''zVb'' []))],
    fn ''whc'' 3 0 [Do (Put This ''a'' (V 0)), Do (Put This ''c'' (V 1)), Do (Put This ''d'' (V 2)), Do (Call ''_lb'' [Dot (V 1) ''e'', This]), Do (Call ''_lb'' [Dot (V 2) ''b'', This])],
    fn ''GCb'' 2 0 [Do (Super ''wwb'' [Meth (V 1) ''xd'' [], Bin BitAnd (Meth (V 1) ''wd'' []) (K (JNum (- 6)))]), Do (Call ''NDb'' [V 0]), Do (Put This ''a'' (V 0)), Do (Put This ''b'' (V 1))],
    fn ''MCb'' 2 0 [Do (Super ''Awb'' [Meth (V 1) ''xd'' [], Bin BitAnd (Meth (V 1) ''wd'' []) (K (JNum (- 6)))]), Do (Call ''NDb'' [V 0]), Do (Put This ''a'' (V 0)), Do (Put This ''b'' (V 1))],
    fn ''SCb'' 2 0 [Do (Super ''Ewb'' [Meth (V 1) ''xd'' [], Bin BitAnd (Meth (V 1) ''wd'' []) (K (JNum (- 6)))]), Do (Call ''NDb'' [V 0]), Do (Put This ''a'' (V 0)), Do (Put This ''b'' (V 1))],
    fn ''KRc'' 3 0 [Do (Put This ''a'' (V 0)), Do (Put This ''b'' (V 1)), Do (Put This ''c'' (V 2)), Do (Call ''_lb'' [Dot (V 0) ''t'', This]), Do (Call ''_lb'' [Dot (V 1) ''i'', This])],
    fn ''HTc'' 0 0 [Do (Put This ''b'' (New ''dub'' [])), Do (Put This ''a'' (New ''dub'' [])), Do (Put This ''b'' (New ''dub'' [])), Do (Put This ''a'' (New ''dub'' []))],
    fn ''Ece'' 0 2 [Do (SetG ''Ece'' (G ''qdb'')), Do (SetG ''Cce'' (Seq (Seq (Call ''wRd'' []) (SetV 1 (New ''x_d'' []))) (V 1))), Do (SetG ''Dce'' (Seq (SetV 0 (New ''zVd'' [])) (V 0)))],
    fn ''QPc'' 0 0 [Do (SetG ''QPc'' (G ''qdb'')), Do (SetG ''PPc'' (New ''RPc'' [K (JStr ''REGULAR''), K (JNum 0)])), Do (SetG ''OPc'' (New ''RPc'' [K (JStr ''CRITICAL''), K (JNum 1)]))],
    fn ''I8c'' 0 0 [Do (SetG ''I8c'' (G ''qdb'')), Do (SetG ''H8c'' (New ''J8c'' [K (JStr ''FIXED''), K (JNum 0)])), Do (SetG ''G8c'' (New ''J8c'' [K (JStr ''CENTER_NODE''), K (JNum 1)]))],
    fn ''Y7b'' 0 0 [Do (SetG ''Y7b'' (G ''qdb'')), Do (SetG ''X7b'' (New ''DEd'' [K (JStr ''separateLayerConnections''), Seq (Call ''j8b'' []) (G ''i8b'')]))],
    fn ''ofd'' 0 0 [Do (SetG ''ofd'' (G ''qdb'')), Do (SetG ''nfd'' (New ''CEd'' [K (JStr ''org.eclipse.elk.labels.labelManager'')]))],
    fn ''umc'' 1 0 [When (Dot (V 0) ''a'') [When (Dot (V 0) ''e'') [Ret (Call ''umc'' [Dot (V 0) ''e''])] []] [Ret (V 0)], Ret (K JNull)],
    fn ''GEc'' 2 0 [When (Bin Lt (Dot (V 0) ''p'') (Dot (V 1) ''p'')) [Ret (K (JNum 1))] [When (Bin Gt (Dot (V 0) ''p'') (Dot (V 1) ''p'')) [Ret (K (JNum (- 1)))] []], Ret (K (JNum 0))],
    fn ''B8d'' 2 0 [When (Call ''cjb'' [Dot (V 0) ''a'', V 1]) [Do (Call ''jjb'' [Dot (V 0) ''a'', V 1]), Ret (K (JBool True))] [Ret (K (JBool False))]],
    fn ''fd'' 1 2 [Do (SetV 1 (Meth (V 0) ''jd'' [])), Do (SetV 2 (Call ''JD'' [Meth (V 0) ''kd'' [], K (JNum 18)])), Ret (Call ''ek'' [Meth (V 2) ''Lc'' [], New ''hh'' [V 1]])],
    fn ''KTc'' 1 1 [Do (SetV 1 (Dot (V 0) ''b'')), When (Loose (Dot (V 1) ''b'') (K (JNum 0))) [Ret (K JNull)] [], Ret (Dot (Call ''JD'' [Call ''au'' [V 1, K (JNum 0)], K (JNum 65)]) ''b'')],
    fn ''YIc'' 2 1 [Do (SetV 2 (Call ''cJc'' [V 0, V 1])), Do (Put (V 0) ''b'' (New ''KIc'' [Dot (Dot (V 2) ''c'') ''length''])), Ret (Call ''XIc'' [V 0, V 2])],
    fn ''lBb'' 1 1 [Do (Call ''dBb'' [V 0]), Do (SetV 1 (New ''rBb'' [V 0, Dot (Dot (V 0) ''a'') ''e'', Bin BitOr (Dot (Dot (V 0) ''a'') ''d'') (K (JNum 4))])), Ret (New ''nBb'' [V 0, V 1])],
    fn ''TBb'' 1 1 [Do (Call ''cBb'' [V 0]), Do (SetV 1 (K (JNum 0))), Loop (Meth (Dot (V 0) ''a'') ''zd'' [New ''dDb'' []]) [Do (SetV 1 (Call ''Mcb'' [V 1, K (JNum 1)]))] [], Ret (V 1)],
    fn ''uVd'' 1 1 [When (Neg (Dot (V 0) ''a'')) [Do (SetV 1 (Dot (V 0) ''r'')), Do (And (Call ''RD'' [V 1, K (JNum 159)]) (Put (V 0) ''a'' (Call ''JD'' [V 1, K (JNum 159)])))] [], Ret (Dot (V 0) ''a'')],
    fn ''zMd'' 3 1 [Do (Put (V 0) ''e'' (Bin Minus (Dot (V 0) ''e'') (K (JNum (- 1))))), Do (Put (V 0) ''f'' (Bin Minus (Dot (V 0) ''f'') (K (JNum 1)))), Do (SetV 3 (Call ''JD'' [Meth (Idx (Dot (V 0) ''d'') (V 1)) ''ed'' [V 2], K (JNum 136)])), Ret (Meth (V 3) ''kd'' [])],
    fn ''Si'' 3 0 [Do (Call ''Pb'' [V 1, Meth (Meth (Dot (V 0) ''e'') ''Pd'' []) ''gc'' []]), Do (Call ''Pb'' [V 2, Meth (Meth (Dot (V 0) ''c'') ''Pd'' []) ''gc'' []]), Ret (Idx (Idx (Dot (V 0) ''a'') (V 1)) (V 2))],
    fn ''Gwb'' 2 0 [Do (Call ''NDb'' [V 1]), When (Bin Lt (Dot (V 0) ''c'') (Dot (V 0) ''d'')) [Do (Meth (V 0) ''Qe'' [V 1, Bin Minus (Put (V 0) ''c'' (Bin Minus (Dot (V 0) ''c'') (K (JNum (- 1))))) (K (JNum 1))]), Ret (K (JBool True))] [], Ret (K (JBool False))],
    fn ''kKb'' 2 1 [When (Dot (V 0) ''C'') [Do (SetV 2 (Dot (Call ''JD'' [Call ''brb'' [Dot (V 0) ''b'', V 1], K (JNum 127)]) ''n'')), Do (Put (V 2) ''d'' (Dot (Dot (V 0) ''C'') ''d'')), Do (Put (V 2) ''a'' (Dot (Dot (V 0) ''C'') ''a''))] []],
    fn ''r2b'' 1 4 [Do (SetV 4 (Dot (V 0) ''d'')), Do (SetV 1 (Dot (V 0) ''a'')), Do (SetV 2 (Dot (V 0) ''b'')), Do (SetV 3 (Dot (V 0) ''c'')), Do (Put (V 0) ''d'' (V 2)), Do (Put (V 0) ''a'' (V 3)), Do (Put (V 0) ''b'' (V 4)), Do (Put (V 0) ''c'' (V 1))],
    fn ''MEc'' 3 2 [Do (SetV 3 (K (JNum 0))), Do (SetV 4 (K (JNum 0))), Loop (Bin Lt (V 4) (Dot (V 1) ''length'')) [Do (SetV 3 (Bin Plus (V 3) (Meth (V 0) ''sg'' [Idx (V 1) (V 4), V 3, V 2])))] [Do (Bin Minus (SetV 4 (Bin Minus (V 4) (K (JNum (- 1))))) (K (JNum 1)))]],
    fn ''jg'' 4 0 [Do (Put This ''f'' (V 0)), Do (Put This ''e'' (V 1)), Do (Put This ''d'' (V 2)), Do (Put This ''b'' (V 3)), Do (Put This ''c'' (Cond (Neg (V 3)) (K JNull) (Dot (V 3) ''d'')))],
    fn ''y7b'' 2 0 [Do (Meth (V 1) ''Tg'' [K (JStr ''Label management''), K (JNum 1)]), Do (Call ''ZD'' [Call ''oNb'' [V 0, Seq (Call ''ofd'' []) (G ''nfd'')]]), Do (Meth (V 1) ''Ug'' [])],
    fn ''mIb'' 0 0 [Do (SetG ''mIb'' (G ''qdb'')), Do (SetG ''lIb'' (Call ''gs'' [Seq (Call ''hIb'' []) (Call ''WC'' [Call ''OC'' [G ''kN'', K (JNum 1)], G ''xue'', K (JNum 461), K (JNum 0), NewArr [G ''fIb'', G ''eIb'', G ''gIb'']])]))],
    fn ''dJb'' 0 0 [Do (SetG ''dJb'' (G ''qdb'')), Do (SetG ''cJb'' (Call ''gs'' [Seq (Call ''$Ib'' []) (Call ''WC'' [Call ''OC'' [G ''rN'', K (JNum 1)], G ''xue'', K (JNum 462), K (JNum 0), NewArr [G ''ZIb'', G ''YIb'', G ''XIb'']])]))],
    fn ''HHb'' 0 0 [Do (SetG ''HHb'' (G ''qdb'')), Do (SetG ''GHb'' (Call ''gs'' [Seq (Call ''CHb'' []) (Call ''WC'' [Call ''OC'' [G ''hN'', K (JNum 1)], G ''xue'', K (JNum 237), K (JNum 0), NewArr [G ''zHb'', G ''AHb'', G ''BHb'']])]))],
    fn ''KAb'' 0 0 [Do (SetG ''KAb'' (G ''qdb'')), Do (SetG ''JAb'' (Call ''gs'' [Seq (Call ''FAb'' []) (Call ''WC'' [Call ''OC'' [G ''HL'', K (JNum 1)], G ''xue'', K (JNum 130), K (JNum 0), NewArr [G ''CAb'', G ''DAb'', G ''EAb'']])]))],
    fn ''hQb'' 0 0 [Do (SetG ''hQb'' (G ''qdb'')), Do (SetG ''gQb'' (Call ''gs'' [Seq (Call ''cQb'' []) (Call ''WC'' [Call ''OC'' [G ''pO'', K (JNum 1)], G ''xue'', K (JNum 384), K (JNum 0), NewArr [G ''aQb'', G ''_Pb'', G ''bQb'']])]))],
    fn ''jqc'' 0 0 [Do (SetG ''jqc'' (G ''qdb'')), Do (SetG ''iqc'' (Call ''gs'' [Seq (Call ''eqc'' []) (Call ''WC'' [Call ''OC'' [G ''cW'', K (JNum 1)], G ''xue'', K (JNum 302), K (JNum 0), NewArr [G ''cqc'', G ''dqc'', G ''bqc'']])]))],
    fn ''sqc'' 0 0 [Do (SetG ''sqc'' (G ''qdb'')), Do (SetG ''rqc'' (Call ''gs'' [Seq (Call ''nqc'' []) (Call ''WC'' [Call ''OC'' [G ''dW'', K (JNum 1)], G ''xue'', K (JNum 329), K (JNum 0), NewArr [G ''mqc'', G ''lqc'', G ''kqc'']])]))],
    fn ''Bqc'' 0 0 [Do (SetG ''Bqc'' (G ''qdb'')), Do (SetG ''Aqc'' (Call ''gs'' [Seq (Call ''wqc'' []) (Call ''WC'' [Call ''OC'' [G ''eW'', K (JNum 1)], G ''xue'', K (JNum 316), K (JNum 0), NewArr [G ''uqc'', G ''vqc'', G ''tqc'']])]))],
    fn ''Aic'' 0 0 [Do (SetG ''Aic'' (G ''qdb'')), Do (SetG ''zic'' (Call ''gs'' [Seq (Call ''vic'' []) (Call ''WC'' [Call ''OC'' [G ''KU'', K (JNum 1)], G ''xue'', K (JNum 368), K (JNum 0), NewArr [G ''uic'', G ''tic'', G ''sic'']])]))],
    fn ''NAc'' 0 0 [Do (SetG ''NAc'' (G ''qdb'')), Do (SetG ''MAc'' (Call ''gs'' [Seq (Call ''IAc'' []) (Call ''WC'' [Call ''OC'' [G ''vW'', K (JNum 1)], G ''xue'', K (JNum 348), K (JNum 0), NewArr [G ''HAc'', G ''FAc'', G ''GAc'']])]))],
    fn ''EAc'' 0 0 [Do (SetG ''EAc'' (G ''qdb'')), Do (SetG ''DAc'' (Call ''gs'' [Seq (Call ''zAc'' []) (Call ''WC'' [Call ''OC'' [G ''uW'', K (JNum 1)], G ''xue'', K (JNum 381), K (JNum 0), NewArr [G ''wAc'', G ''xAc'', G ''yAc'']])]))],
    fn ''vAc'' 0 0 [Do (SetG ''vAc'' (G ''qdb'')), Do (SetG ''uAc'' (Call ''gs'' [Seq (Call ''qAc'' []) (Call ''WC'' [Call ''OC'' [G ''tW'', K (JNum 1)], G ''xue'', K (JNum 452), K (JNum 0), NewArr [G ''pAc'', G ''nAc'', G ''oAc'']])]))],
    fn ''fBc'' 0 0 [Do (SetG ''fBc'' (G ''qdb'')), Do (SetG ''eBc'' (Call ''gs'' [Seq (Call ''aBc'' []) (Call ''WC'' [Call ''OC'' [G ''xW'', K (JNum 1)], G ''xue'', K (JNum 349), K (JNum 0), NewArr [G ''ZAc'', G ''$Ac'', G ''_Ac'']])]))],
    fn ''gzc'' 0 0 [Do (SetG ''gzc'' (G ''qdb'')), Do (SetG ''fzc'' (Call ''gs'' [Seq (Call ''azc'' []) (Call ''WC'' [Call ''OC'' [G ''nW'', K (JNum 1)], G ''xue'', K (JNum 352), K (JNum 0), NewArr [G ''Zyc'', G ''$yc'', G ''_yc'']])]))],
    fn ''oBc'' 0 0 [Do (SetG ''oBc'' (G ''qdb'')), Do (SetG ''nBc'' (Call ''gs'' [Seq (Call ''jBc'' []) (Call ''WC'' [Call ''OC'' [G ''yW'', K (JNum 1)], G ''xue'', K (JNum 351), K (JNum 0), NewArr [G ''iBc'', G ''gBc'', G ''hBc'']])]))],
    fn ''xBc'' 0 0 [Do (SetG ''xBc'' (G ''qdb'')), Do (SetG ''wBc'' (Call ''gs'' [Seq (Call ''sBc'' []) (Call ''WC'' [Call ''OC'' [G ''zW'', K (JNum 1)], G ''xue'', K (JNum 382), K (JNum 0), NewArr [G ''qBc'', G ''rBc'', G ''pBc'']])]))],
    fn ''zWc'' 0 0 [Do (SetG ''zWc'' (G ''qdb'')), Do (SetG ''yWc'' (Call ''gs'' [Seq (Call ''uWc'' []) (Call ''WC'' [Call ''OC'' [G ''J$'', K (JNum 1)], G ''xue'', K (JNum 385), K (JNum 0), NewArr [G ''tWc'', G ''sWc'', G ''rWc'']])]))],
    fn ''X0c'' 0 0 [Do (SetG ''X0c'' (G ''qdb'')), Do (SetG ''W0c'' (Call ''gs'' [Seq (Call ''R0c'' []) (Call ''WC'' [Call ''OC'' [G ''M_'', K (JNum 1)], G ''xue'', K (JNum 386), K (JNum 0), NewArr [G ''O0c'', G ''P0c'', G ''Q0c'']])]))],
    fn ''Y3c'' 0 0 [Do (SetG ''Y3c'' (G ''qdb'')), Do (SetG ''X3c'' (Call ''gs'' [Seq (Call ''T3c'' []) (Call ''WC'' [Call ''OC'' [G ''g0'', K (JNum 1)], G ''xue'', K (JNum 387), K (JNum 0), NewArr [G ''R3c'', G ''S3c'', G ''Q3c'']])]))],
    fn ''moc'' 0 0 [Do (SetG ''moc'' (G ''qdb'')), Do (SetG ''loc'' (Call ''gs'' [Seq (Call ''hoc'' []) (Call ''WC'' [Call ''OC'' [G ''VV'', K (JNum 1)], G ''xue'', K (JNum 350), K (JNum 0), NewArr [G ''eoc'', G ''goc'', G ''foc'']])]))],
    fn ''Voc'' 0 0 [Do (SetG ''Voc'' (G ''qdb'')), Do (SetG ''Uoc'' (Call ''gs'' [Seq (Call ''Qoc'' []) (Call ''WC'' [Call ''OC'' [G ''YV'', K (JNum 1)], G ''xue'', K (JNum 449), K (JNum 0), NewArr [G ''Ooc'', G ''Noc'', G ''Poc'']])]))],
    fn ''V2c'' 0 0 [Do (SetG ''V2c'' (G ''qdb'')), Do (SetG ''U2c'' (Call ''gs'' [Seq (Call ''Q2c'' []) (Call ''WC'' [Call ''OC'' [G ''Z_'', K (JNum 1)], G ''xue'', K (JNum 436), K (JNum 0), NewArr [G ''N2c'', G ''O2c'', G ''P2c'']])]))],
    fn ''i2c'' 0 0 [Do (SetG ''i2c'' (G ''qdb'')), Do (SetG ''h2c'' (Call ''gs'' [Seq (Call ''c2c'' []) (Call ''WC'' [Call ''OC'' [G ''R_'', K (JNum 1)], G ''xue'', K (JNum 304), K (JNum 0), NewArr [G ''a2c'', G ''b2c'', G ''_1c'']])]))],
    fn ''F6c'' 0 0 [Do (SetG ''F6c'' (G ''qdb'')), Do (SetG ''E6c'' (Call ''gs'' [Seq (Call ''x6c'' []) (Call ''WC'' [Call ''OC'' [G ''z0'', K (JNum 1)], G ''xue'', K (JNum 430), K (JNum 0), NewArr [G ''u6c'', G ''w6c'', G ''v6c'']])]))],
    fn ''e6c'' 0 0 [Do (SetG ''e6c'' (G ''qdb'')), Do (SetG ''d6c'' (Call ''gs'' [Seq (Call ''Y5c'' []) (Call ''WC'' [Call ''OC'' [G ''u0'', K (JNum 1)], G ''xue'', K (JNum 429), K (JNum 0), NewArr [G ''V5c'', G ''X5c'', G ''W5c'']])]))],
    fn ''h8c'' 0 0 [Do (SetG ''h8c'' (G ''qdb'')), Do (SetG ''g8c'' (Call ''gs'' [Seq (Call ''c8c'' []) (Call ''WC'' [Call ''OC'' [G ''O0'', K (JNum 1)], G ''xue'', K (JNum 435), K (JNum 0), NewArr [G ''_7c'', G ''a8c'', G ''b8c'']])]))],
    fn ''ckd'' 0 0 [Do (SetG ''ckd'' (G ''qdb'')), Do (SetG ''bkd'' (Call ''gs'' [Seq (Call ''Zjd'' []) (Call ''WC'' [Call ''OC'' [G ''A2'', K (JNum 1)], G ''xue'', K (JNum 279), K (JNum 0), NewArr [G ''Wjd'', G ''Xjd'', G ''Yjd'']])]))],
    fn ''Vkd'' 0 0 [Do (SetG ''Vkd'' (G ''qdb'')), Do (SetG ''Ukd'' (Call ''gs'' [Seq (Call ''Qkd'' []) (Call ''WC'' [Call ''OC'' [G ''F2'', K (JNum 1)], G ''xue'', K (JNum 347), K (JNum 0), NewArr [G ''Okd'', G ''Nkd'', G ''Pkd'']])]))],
    fn ''dnd'' 0 0 [Do (SetG ''dnd'' (G ''qdb'')), Do (SetG ''cnd'' (Call ''gs'' [Seq (Call ''$md'' []) (Call ''WC'' [Call ''OC'' [G ''P2'', K (JNum 1)], G ''xue'', K (JNum 300), K (JNum 0), NewArr [G ''Xmd'', G ''Ymd'', G ''Zmd'']])]))],
    fn ''Lnd'' 0 0 [Do (SetG ''Lnd'' (G ''qdb'')), Do (SetG ''Knd'' (Call ''gs'' [Seq (Call ''Gnd'' []) (Call ''WC'' [Call ''OC'' [G ''S2'', K (JNum 1)], G ''xue'', K (JNum 281), K (JNum 0), NewArr [G ''End'', G ''Dnd'', G ''Fnd'']])]))],
    fn ''Nnc'' 0 0 [Do (SetG ''Nnc'' (G ''qdb'')), Do (SetG ''Lnc'' (New ''Onc'' [K (JStr ''QUADRATIC''), K (JNum 0)])), Do (SetG ''Mnc'' (New ''Onc'' [K (JStr ''SCANLINE''), K (JNum 1)]))],
    fn ''uMd'' 1 0 [Do (And (Neg (Dot (V 0) ''g'')) (Put (V 0) ''g'' (New ''wOd'' []))), Do (And (Neg (Dot (Dot (V 0) ''g'') ''c'')) (Put (Dot (V 0) ''g'') ''c'' (New ''YNd'' [V 0]))), Ret (Dot (Dot (V 0) ''g'') ''c'')]]"

definition code_3488_3590 :: "(string \<times> jfun) list" where
  "code_3488_3590 = [
    fn ''nMd'' 1 0 [Do (And (Neg (Dot (V 0) ''g'')) (Put (V 0) ''g'' (New ''wOd'' []))), Do (And (Neg (Dot (Dot (V 0) ''g'') ''a'')) (Put (Dot (V 0) ''g'') ''a'' (New ''GNd'' [V 0]))), Ret (Dot (Dot (V 0) ''g'') ''a'')],
    fn ''tMd'' 1 0 [Do (And (Neg (Dot (V 0) ''g'')) (Put (V 0) ''g'' (New ''wOd'' []))), Do (And (Neg (Dot (Dot (V 0) ''g'') ''b'')) (Put (Dot (V 0) ''g'') ''b'' (New ''uNd'' [V 0]))), Ret (Dot (Dot (V 0) ''g'') ''b'')],
    fn ''CMd'' 1 0 [Do (And (Neg (Dot (V 0) ''g'')) (Put (V 0) ''g'' (New ''wOd'' []))), Do (And (Neg (Dot (Dot (V 0) ''g'') ''d'')) (Put (Dot (V 0) ''g'') ''d'' (New ''ANd'' [V 0]))), Ret (Dot (Dot (V 0) ''g'') ''d'')],
    fn ''O7d'' 4 0 [Do (And (Neg (Neg (V 2))) (SetV 3 (Meth (V 2) ''Oh'' [V 1, Call ''OWd'' [Meth (V 2) ''Ah'' [], Meth (Dot (V 0) ''c'') ''sk'' []], K JNull, V 3]))), Ret (V 3)],
    fn ''P7d'' 4 0 [Do (And (Neg (Neg (V 2))) (SetV 3 (Meth (V 2) ''Qh'' [V 1, Call ''OWd'' [Meth (V 2) ''Ah'' [], Meth (Dot (V 0) ''c'') ''sk'' []], K JNull, V 3]))), Ret (V 3)],
    fn ''Mib'' 4 1 [Do (SetV 4 (Call ''SC'' [G ''cE'', G ''bve'', K (JNum 30), Bin Plus (V 1) (K (JNum 1)), K (JNum 15), K (JNum 1)])), Do (Call ''Nib'' [V 4, V 0, V 1, V 2, V 3]), Ret (V 4)],
    fn ''SC'' 6 1 [Do (SetV 6 (Call ''TC'' [V 4, V 3])), Do (And (Neg (Loose (V 4) (K (JNum 10)))) (Call ''WC'' [Call ''OC'' [V 0, V 5], V 1, V 2, V 4, V 6])), Ret (V 6)],
    fn ''lee'' 3 2 [Do (SetV 4 (New ''age'' [V 1, V 0])), Do (SetV 3 (K (JNum 0))), Loop (Bin Lt (V 3) (V 2)) [Do (Call ''Qfe'' [V 4])] [Do (SetV 3 (Bin Minus (V 3) (K (JNum (- 1)))))], Ret (V 4)],
    fn ''pFd'' 3 2 [When (Neg (Loose (V 2) (K JNull))) [Do (SetV 3 (K (JNum 0))), Loop (Bin Lt (V 3) (V 1)) [Do (SetV 4 (Idx (V 2) (V 3))), Do (Meth (V 0) ''Oi'' [V 3, V 4])] [Do (SetV 3 (Bin Minus (V 3) (K (JNum (- 1)))))]] []],
    fn ''dyb'' 2 1 [Do (SetV 2 (New ''Nyb'' [])), Do (Put (V 2) ''c'' (K (JBool True))), Do (Put (V 2) ''d'' (Meth (V 1) ''kd'' [])), Ret (Call ''eyb'' [V 0, Meth (V 1) ''jd'' [], V 2])],
    fn ''jB'' 2 1 [Do (SetV 2 (Bin Plus (Meth (Dot (V 0) ''q'') ''getHours'' []) (Bin DivInt (V 1) (K (JNum 3600))))), Do (Meth (Dot (V 0) ''q'') ''setSeconds'' [V 1]), Do (Call ''eB'' [V 0, V 2])],
    fn ''tt'' 2 2 [Do (SetV 2 (V 1)), Do (SetV 3 (Call ''Rnb'' [Call ''Vu'' [New ''Eu'' [V 0, V 2]]])), Do (Call ''rr'' [New ''Eu'' [V 0, V 2]]), Ret (V 3)],
    fn ''dvd'' 2 0 [Ret (Seq (And (Neg (Dot (V 0) ''o'')) (Put (V 0) ''o'' (New ''QTd'' [Seq (Call ''Nsd'' []) (G ''Ksd''), G ''f4'', V 0, K (JNum 0)]))) (Call ''fMd'' [Dot (V 0) ''o'', V 1]))],
    fn ''dMb'' 3 0 [Do (Call ''JD'' [Dot (V 0) ''b'', K (JNum 68)]), Do (Call ''JD'' [Dot (V 0) ''b'', K (JNum 68)]), Do (Call ''JD'' [Dot (V 0) ''b'', K (JNum 68)]), Do (Call ''cmb'' [Dot (V 0) ''a'', New ''mMb'' [V 2, V 1, V 0]])],
    fn ''Jee'' 4 0 [Do (Call ''Iee'' [V 0, V 1, V 2, Call ''xee'' [V 0, V 1, V 3, And (Call ''RD'' [V 1, K (JNum 103)]) (Neg (Loose (Bin BitAnd (Dot (Call ''JD'' [V 1, K (JNum 19)]) ''Bb'') (G ''Hve'')) (K (JNum 0))))]])],
    fn ''TDb'' 3 0 [When (Or (Or (Bin Lt (V 0) (K (JNum 0))) (Bin Gt (V 1) (V 2))) (Bin Lt (V 1) (V 0))) [Raise (Call ''Lcb'' [New ''ohb'' [Bin Plus (Bin Plus (Bin Plus (Bin Plus (Bin Plus (G ''nwe'') (V 0)) (G ''pwe'')) (V 1)) (G ''cwe'')) (V 2)]])] []],
    fn ''F$b'' 3 0 [Do (Put This ''d'' (New ''Mxb'' [])), Do (Put This ''c'' (New ''_rb'' [])), Do (Put This ''a'' (V 0)), Do (Put This ''e'' (V 1)), Do (Put This ''c'' (V 2))],
    fn ''eBb'' 1 0 [When (Neg (V 0)) [Do (Put This ''c'' (K JNull)), Do (Put This ''b'' (New ''lmb'' []))] [Do (Put This ''c'' (V 0)), Do (Put This ''b'' (K JNull))]],
    fn ''Myb'' 2 0 [Do (Super ''Hkb'' [V 0, V 1]), Do (Put This ''a'' (Call ''SC'' [G ''mL'', G ''mue'', K (JNum 438), K (JNum 2), K (JNum 0), K (JNum 1)])), Do (Put This ''b'' (K (JBool True)))],
    fn ''ptb'' 1 0 [Do (Super ''mjb'' [V 0, K (JNum 0)]), Do (Call ''htb'' [This]), Do (Put (Dot This ''d'') ''b'' (Dot This ''d'')), Do (Put (Dot This ''d'') ''a'' (Dot This ''d''))],
    fn ''Esb'' 1 0 [Do (Put This ''e'' (V 0)), Do (Put This ''b'' (Meth (Dot (Dot This ''e'') ''a'') ''entries'' [])), Do (Put This ''a'' (Call ''SC'' [G ''aJ'', G ''Gte'', K (JNum 1), K (JNum 0), K (JNum 5), K (JNum 1)]))],
    fn ''mmb'' 1 0 [Do (Call ''Zlb'' [This]), Do (Call ''FDb'' [Bin Ge (V 0) (K (JNum 0)), K (JStr ''Initial capacity must not be negative'')])],
    fn ''Yfd'' 2 2 [Do (SetV 2 (Bin Minus (Dot (V 0) ''a'') (Dot (V 1) ''a''))), Do (SetV 3 (Bin Minus (Dot (V 0) ''b'') (Dot (V 1) ''b''))), Ret (Meth (Dot (G ''$wnd'') ''Math'') ''sqrt'' [Bin Plus (Bin Times (V 2) (V 2)) (Bin Times (V 3) (V 3))])],
    fn ''sHc'' 3 1 [Do (SetV 3 (Idx (Idx (Dot (V 0) ''b'') (Dot (Dot (V 2) ''c'') ''p'')) (Dot (V 2) ''p''))), Do (Put (V 3) ''b'' (Bin Plus (Dot (V 3) ''b'') (Dot (V 1) ''b''))), Do (Put (V 3) ''c'' (Bin Plus (Dot (V 3) ''c'') (Dot (V 1) ''c''))), Do (Put (V 3) ''a'' (Bin Plus (Dot (V 3) ''a'') (Dot (V 1) ''a''))), Do (Put (V 3) ''a'' (Bin Minus (Dot (V 3) ''a'') (K (JNum (- 1)))))],
    fn ''jCc'' 0 0 [Do (SetG ''jCc'' (G ''qdb'')), Do (SetG ''iCc'' (Call ''icd'' [Call ''kcd'' [New ''pcd'' [], Seq (Call ''YQb'' []) (G ''TQb''), Seq (Call ''X5b'' []) (G ''r5b'')], G ''XQb'', G ''O5b'']))],
    fn ''Inc'' 0 0 [Do (Call ''Fnc'' []), Ret (Call ''WC'' [Call ''OC'' [G ''SV'', K (JNum 1)], G ''xue'', K (JNum 231), K (JNum 0), NewArr [G ''Bnc'', G ''Dnc'', G ''Anc'', G ''Cnc'', G ''Enc'', G ''znc'']])],
    fn ''epc'' 0 0 [Do (Call ''apc'' []), Ret (Call ''WC'' [Call ''OC'' [G ''ZV'', K (JNum 1)], G ''xue'', K (JNum 284), K (JNum 0), NewArr [G ''Xoc'', G ''Woc'', G ''Zoc'', G ''Yoc'', G ''_oc'', G ''$oc'']])],
    fn ''ypc'' 0 0 [Do (Call ''vpc'' []), Ret (Call ''WC'' [Call ''OC'' [G ''_V'', K (JNum 1)], G ''xue'', K (JNum 282), K (JNum 0), NewArr [G ''spc'', G ''rpc'', G ''upc'', G ''qpc'', G ''tpc'', G ''ppc'']])],
    fn ''Kpc'' 0 0 [Do (Call ''Hpc'' []), Ret (Call ''WC'' [Call ''OC'' [G ''aW'', K (JNum 1)], G ''xue'', K (JNum 283), K (JNum 0), NewArr [G ''Fpc'', G ''Cpc'', G ''Gpc'', G ''Epc'', G ''Dpc'', G ''Bpc'']])],
    fn ''Ogd'' 0 0 [Do (Call ''Lgd'' []), Ret (Call ''WC'' [Call ''OC'' [G ''t2'', K (JNum 1)], G ''xue'', K (JNum 256), K (JNum 0), NewArr [G ''Fgd'', G ''Igd'', G ''Jgd'', G ''Kgd'', G ''Ggd'', G ''Hgd'']])],
    fn ''Rld'' 0 0 [Do (Call ''Mld'' []), Ret (Call ''WC'' [Call ''OC'' [G ''K2'', K (JNum 1)], G ''xue'', K (JNum 102), K (JNum 0), NewArr [G ''Lld'', G ''Kld'', G ''Jld'', G ''Gld'', G ''Ild'', G ''Hld'']])],
    fn ''dmd'' 0 0 [Do (Call ''$ld'' []), Ret (Call ''WC'' [Call ''OC'' [G ''L2'', K (JNum 1)], G ''xue'', K (JNum 280), K (JNum 0), NewArr [G ''Yld'', G ''Wld'', G ''Xld'', G ''Vld'', G ''Uld'', G ''Zld'']])],
    fn ''rhd'' 0 0 [Do (Call ''ohd'' []), Ret (Call ''WC'' [Call ''OC'' [G ''w2'', K (JNum 1)], G ''xue'', K (JNum 299), K (JNum 0), NewArr [G ''nhd'', G ''mhd'', G ''lhd'', G ''jhd'', G ''ihd'', G ''khd'']])],
    fn ''wkd'' 0 0 [Do (Call ''tkd'' []), Ret (Call ''WC'' [Call ''OC'' [G ''C2'', K (JNum 1)], G ''xue'', K (JNum 328), K (JNum 0), NewArr [G ''rkd'', G ''pkd'', G ''skd'', G ''nkd'', G ''qkd'', G ''okd'']])],
    fn ''X1d'' 1 1 [When (And (Neg (Dot (V 0) ''a'')) (Neg (Loose (Dot (V 0) ''b'') (K (JNum (- 1)))))) [Do (SetV 1 (Meth (Dot (V 0) ''c'') ''Ah'' [])), Do (Put (V 0) ''a'' (Call ''IWd'' [V 1, Dot (V 0) ''b'']))] [], Ret (Dot (V 0) ''a'')],
    fn ''lFd'' 2 0 [When (And (Meth (V 0) ''Qi'' []) (Meth (V 0) ''Gc'' [V 1])) [Ret (K (JBool False))] [Do (Meth (V 0) ''Fi'' [V 1]), Ret (K (JBool True))]],
    fn ''uIb'' 2 0 [Do (Call ''Pub'' [V 1, K (JStr ''Horizontal alignment cannot be null'')]), Do (Put (V 0) ''b'' (V 1)), Ret (V 0)],
    fn ''vre'' 3 1 [Do (Call ''gre'' []), Do (SetV 3 (Call ''ure'' [V 0, V 1])), Do (And (And (And (V 2) (Neg (Neg (V 3)))) (Call ''xre'' [V 0])) (SetV 3 (K JNull))), Ret (V 3)],
    fn ''bUb'' 3 2 [Do (SetV 4 (Meth (V 0) ''Jc'' [])), Loop (Meth (V 4) ''Ob'' []) [Do (SetV 3 (Call ''JD'' [Meth (V 4) ''Pb'' [], K (JNum 36)])), Do (Call ''aUb'' [V 3, V 1, V 2])] []],
    fn ''_Tb'' 2 2 [Do (SetV 3 (Meth (V 1) ''Jc'' [])), Loop (Meth (V 3) ''Ob'' []) [Do (SetV 2 (Call ''JD'' [Meth (V 3) ''Pb'' [], K (JNum 36)])), Do (Call ''$Tb'' [V 0, V 2, K (JNum 0), K (JNum 0)])] []],
    fn ''pZc'' 1 2 [Do (SetV 2 (Call ''Ztb'' [Dot (V 0) ''a'', K (JNum 0)])), Loop (Neg (Loose (Dot (V 2) ''b'') (Dot (Dot (V 2) ''d'') ''c''))) [Do (SetV 1 (Call ''JD'' [Call ''lub'' [V 2], K (JNum 65)])), Do (Call ''qZc'' [V 1])] []],
    fn ''zhc'' 2 0 [Do (Or (Call ''jtb'' [Dot (V 0) ''e'', V 1]) (Call ''ltb'' [Dot (V 0) ''e'', V 1, New ''Fhc'' [V 1]])), Ret (Call ''JD'' [Call ''ktb'' [Dot (V 0) ''e'', V 1], K (JNum 113)])],
    fn ''BAb'' 4 0 [Do (Call ''NDb'' [V 0]), Do (Call ''NDb'' [V 1]), Do (Call ''NDb'' [V 2]), Do (Call ''NDb'' [V 3]), Ret (New ''LAb'' [V 0, V 1, New ''Vzb'' []])],
    fn ''QTd'' 4 0 [Do (Meth This ''$j'' []), Do (Put This ''a'' (V 1)), Do (Put This ''b'' (V 0)), Do (Put This ''c'' (New ''Jhe'' [This, V 1, V 2, V 3]))],
    fn ''_1d'' 6 0 [Do (Super ''bJd'' [V 1, V 3, V 4, V 5]), Do (Call ''W1d'' [This]), Do (Put This ''c'' (V 0)), Do (Put This ''b'' (V 2))],
    fn ''p2d'' 6 0 [Do (Super ''bJd'' [V 1, V 3, V 4, V 5]), Do (Call ''W1d'' [This]), Do (Put This ''c'' (V 0)), Do (Put This ''a'' (V 2))],
    fn ''M6c'' 2 3 [Do (SetV 4 (Dot (V 0) ''r'')), Do (SetV 3 (Dot (V 0) ''d'')), Do (SetV 2 (Call ''O6c'' [V 0, V 1, K (JBool True)])), Ret (Or (Neg (Loose (Dot (V 2) ''b'') (V 4))) (Neg (Loose (Dot (V 2) ''a'') (V 3))))],
    fn ''gde'' 3 2 [Do (SetV 4 (Seq (SetV 3 (Call ''$3d'' [Dot (V 0) ''b'', V 1])) (V 3))), Ret (Cond (Neg (V 4)) (K JNull) (Call ''Gde'' [Call ''ade'' [V 0, V 4], V 2]))],
    fn ''HBd'' 3 3 [Do (SetV 3 (Call ''iC'' [V 0, V 2])), Do (SetV 4 (K JNull)), Do (And (Neg (Neg (V 3))) (SetV 4 (Call ''WAd'' [V 3]))), Do (SetV 5 (V 4)), Do (Call ''bCd'' [V 1, V 2, V 5])],
    fn ''IBd'' 3 3 [Do (SetV 3 (Call ''iC'' [V 0, V 2])), Do (SetV 4 (K JNull)), Do (And (Neg (Neg (V 3))) (SetV 4 (Call ''WAd'' [V 3]))), Do (SetV 5 (V 4)), Do (Call ''bCd'' [V 1, V 2, V 5])],
    fn ''dhc'' 3 1 [Do (PutIdx (Dot (V 0) ''d'') (Dot (V 1) ''g'') (V 2)), Do (SetV 3 (Dot (Dot (V 0) ''g'') ''c'')), Do (PutIdx (V 3) (Dot (V 1) ''g'') (Meth (Dot (G ''$wnd'') ''Math'') ''max'' [Idx (V 3) (Dot (V 1) ''g''), Bin Plus (V 2) (K (JNum 1))]))],
    fn ''atd'' 2 1 [Ret (Seq (SetV 2 (Meth (V 0) ''Fh'' [V 1])) (Cond (Bin Ge (V 2) (K (JNum 0))) (Meth (V 0) ''Ih'' [V 2, K (JBool True), K (JBool True)]) (Call ''mtd'' [V 0, V 1, K (JBool True)])))],
    fn ''jBd'' 2 1 [Do (SetV 2 (Call ''ejb'' [Dot (V 0) ''k'', V 1])), Do (Call ''YBd'' [V 0, V 1]), Do (Call ''XBd'' [V 0, V 1]), Do (Call ''gCd'' [V 0, V 1, V 2]), Ret (K JNull)],
    fn ''eFd'' 1 1 [When (Neg (Dot (V 0) ''a'')) [Raise (Call ''Lcb'' [New ''Lub'' []])] [], Do (SetV 1 (Dot (V 0) ''a'')), Do (Put (V 0) ''a'' (Call ''Rzd'' [Dot (V 0) ''a''])), Ret (V 1)],
    fn ''cte'' 1 0 [When (Bin Le (Dot (V 0) ''b'') (K (JNum 0))) [Raise (Call ''Lcb'' [New ''Kub'' []])] [], Do (Put (V 0) ''b'' (Bin Minus (Dot (V 0) ''b'') (K (JNum 1)))), Do (Put (V 0) ''a'' (Bin Minus (Dot (V 0) ''a'') (Dot (Dot (V 0) ''c'') ''c''))), Ret (Call ''Cfb'' [Dot (V 0) ''a''])],
    fn ''RIc'' 3 1 [Do (SetV 3 (Call ''_Ic'' [V 0, V 1, V 2])), Do (Put (V 0) ''b'' (New ''KIc'' [Dot (Dot (V 3) ''c'') ''length''])), Ret (Call ''TIc'' [V 0, V 3])],
    fn ''Er'' 1 1 [Do (Call ''Qb'' [V 0]), When (Call ''RD'' [V 0, K (JNum 204)]) [Do (SetV 1 (Call ''JD'' [V 0, K (JNum 204)])), Ret (V 1)] [], Ret (New ''Fr'' [V 0])],
    fn ''nCb'' 1 0 [Loop (Neg (Dot (V 0) ''a'')) [When (Neg (Call ''RCb'' [Dot (V 0) ''c'', New ''rCb'' [V 0]])) [Ret (K (JBool False))] []] [], Ret (K (JBool True))],
    fn ''sTb'' 2 0 [When (Bin Gt (Meth (Dot (V 0) ''a'') ''Le'' [Dot (V 1) ''d'', Dot (V 0) ''b'']) (K (JNum 0))) [Do (Call ''_lb'' [Dot (V 0) ''c'', New ''LSb'' [Dot (V 1) ''c'', Dot (V 1) ''d'', Dot (V 0) ''d'']]), Do (Put (V 0) ''b'' (Dot (V 1) ''d''))] []],
    fn ''cGd'' 2 0 [When (Or (Loose (Dot (V 0) ''g'') (K JNull)) (Bin Ge (V 1) (Dot (V 0) ''i''))) [Raise (Call ''Lcb'' [New ''PLd'' [V 1, Dot (V 0) ''i'']])] [], Ret (Idx (Dot (V 0) ''g'') (V 1))],
    fn ''vXd'' 1 1 [When (Meth (V 0) ''ll'' []) [Do (SetV 1 (Bin Minus (Dot (V 0) ''i'') (K (JNum 1)))), Loop (Bin Ge (V 1) (K (JNum 0))) [Do (Call ''fGd'' [V 0, V 1])] [Do (SetV 1 (Bin Minus (V 1) (K (JNum 1))))]] [], Ret (Call ''lGd'' [V 0])],
    fn ''xcd'' 1 0 [Do (Call ''vcd'' []), Do (Meth (Call ''JD'' [Meth (V 0) ''mf'' [Seq (Call ''vjd'' []) (G ''Jid'')], K (JNum 182)]) ''Ec'' [Seq (Call ''$ld'' []) (G ''Xld'')]), Do (Meth (V 0) ''of'' [G ''Iid'', K JNull])],
    fn ''vcd'' 0 0 [Do (SetG ''vcd'' (G ''qdb'')), Do (SetG ''scd'' (New ''Bcd'' [])), Do (SetG ''ucd'' (New ''Dcd'' [])), Do (SetG ''tcd'' (Call ''sn'' [Seq (Call ''vjd'' []) (G ''Iid''), G ''scd'', G ''nid'', G ''ucd'']))],
    fn ''H0c'' 0 0 [Do (SetG ''H0c'' (G ''qdb'')), Do (SetG ''F0c'' (New ''J0c'' [K (JStr ''LEAF_NUMBER''), K (JNum 0)])), Do (SetG ''G0c'' (New ''J0c'' [K (JStr ''NODE_SIZE''), K (JNum 1)]))],
    fn ''kle'' 0 0 [Do (SetG ''kle'' (G ''qdb'')), Do (Call ''Mxd'' []), Do (SetG ''hle'' (G ''Cve'')), Do (SetG ''gle'' (G ''Dve'')), Do (SetG ''jle'' (New ''bfb'' [G ''Cve''])), Do (SetG ''ile'' (New ''bfb'' [G ''Dve'']))],
    fn ''U8d'' 1 0 [When (Call ''RD'' [V 0, K (JNum 180)]) [Ret (Bin Plus (K (JStr '''')) (Dot (Call ''JD'' [V 0, K (JNum 180)]) ''a''))] [], Ret (Cond (Loose (V 0) (K JNull)) (K JNull) (Call ''tdb'' [V 0]))],
    fn ''V8d'' 1 0 [When (Call ''RD'' [V 0, K (JNum 180)]) [Ret (Bin Plus (K (JStr '''')) (Dot (Call ''JD'' [V 0, K (JNum 180)]) ''a''))] [], Ret (Cond (Loose (V 0) (K JNull)) (K JNull) (Call ''tdb'' [V 0]))],
    fn ''Xsd'' 5 0 [Ret (Cond (Bin Lt (V 1) (K (JNum 0))) (Call ''mtd'' [V 0, V 2, V 3]) (Meth (Meth (Call ''JD'' [V 2, K (JNum 69)]) ''uk'' []) ''wk'' [V 0, Meth (V 0) ''ei'' [], V 1, V 3, V 4]))],
    fn ''enb'' 4 1 [Do (SetV 3 (Seq (Call ''Cqb'' []) (Cond (Neg (V 3)) (G ''zqb'') (V 3)))), Do (SetV 4 (Meth (V 0) ''slice'' [V 1, V 2])), Do (Call ''fnb'' [V 4, V 0, V 1, V 2, Minus1 (V 1), V 3])],
    fn ''Zi'' 2 2 [Do (SetV 3 (Bin DivInt (V 1) (Meth (Meth (Dot (V 0) ''c'') ''Pd'' []) ''gc'' []))), Do (SetV 2 (Bin Modulo (V 1) (Meth (Meth (Dot (V 0) ''c'') ''Pd'' []) ''gc'' []))), Ret (Call ''Si'' [V 0, V 3, V 2])],
    fn ''Uxb'' 1 2 [When (Neg (Dot (V 0) ''b'')) [Ret (K JNull)] [], Do (SetV 2 (Dot (V 0) ''b'')), Loop (SetV 1 (Idx (Dot (V 2) ''a'') (K (JNum 0)))) [Do (SetV 2 (V 1))] [], Ret (V 2)],
    fn ''Vxb'' 1 2 [When (Neg (Dot (V 0) ''b'')) [Ret (K JNull)] [], Do (SetV 2 (Dot (V 0) ''b'')), Loop (SetV 1 (Idx (Dot (V 2) ''a'') (K (JNum 1)))) [Do (SetV 2 (V 1))] [], Ret (V 2)],
    fn ''a$d'' 3 0 [Do (Call ''xFd'' [V 0, V 2]), When (And (Neg (Loose (V 2) (K JNull))) (Neg (Meth (V 0) ''dk'' [V 2]))) [Raise (Call ''Lcb'' [New ''Idb'' []])] [], Ret (V 2)],
    fn ''XC'' 2 0 [Do (And (Neg (Loose (Call ''PC'' [V 1]) (K (JNum 10)))) (Call ''WC'' [Call ''rb'' [V 1], Dot (V 1) ''Qm'', Dot (V 1) ''__elementTypeId$'', Call ''PC'' [V 1], V 0])), Ret (V 0)],
    fn ''ACb'' 2 0 [Do (Super ''Ewb'' [Meth (V 1) ''xd'' [], Bin BitAnd (Meth (V 1) ''wd'' []) (K (JNum (- 16449)))]), Do (Call ''NDb'' [V 0]), Do (Put This ''a'' (V 0)), Do (Put This ''c'' (V 1))],
    fn ''Qlc'' 5 0 [Do (Call ''Jlc'' [This]), Do (Put This ''b'' (V 0)), Do (Put This ''d'' (V 1)), Do (Put This ''f'' (V 2)), Do (Put This ''g'' (V 3)), Do (Put This ''c'' (V 4))],
    fn ''xEb'' 2 0 [When (Dot (V 1) ''a'') [Raise (Call ''Lcb'' [New ''qz'' [G ''xwe'']])] [], Do (Call ''esb'' [Dot (V 0) ''a'', V 1]), Do (Put (V 1) ''a'' (V 0)), Do (And (Neg (Dot (V 0) ''j'')) (Put (V 0) ''j'' (V 1)))],
    fn ''hIb'' 0 0 [Do (SetG ''hIb'' (G ''qdb'')), Do (SetG ''fIb'' (New ''iIb'' [G ''Twe'', K (JNum 0)])), Do (SetG ''eIb'' (New ''iIb'' [G ''Qwe'', K (JNum 1)])), Do (SetG ''gIb'' (New ''iIb'' [G ''Uwe'', K (JNum 2)]))],
    fn ''jzb'' 0 0 [Do (SetG ''jzb'' (G ''qdb'')), Do (SetG ''fzb'' (New ''kzb'' [K (JStr ''All''), K (JNum 0)])), Do (SetG ''gzb'' (New ''pzb'' [])), Do (SetG ''hzb'' (New ''rzb'' [])), Do (SetG ''izb'' (New ''uzb'' []))],
    fn ''xzb'' 0 0 [Do (SetG ''xzb'' (G ''qdb'')), Do (SetG ''wzb'' (Call ''gs'' [Seq (Call ''jzb'' []) (Call ''WC'' [Call ''OC'' [G ''rL'', K (JNum 1)], G ''xue'', K (JNum 310), K (JNum 0), NewArr [G ''fzb'', G ''gzb'', G ''hzb'', G ''izb'']])]))],
    fn ''p8b'' 0 0 [Do (SetG ''p8b'' (G ''qdb'')), Do (SetG ''o8b'' (Call ''gs'' [Seq (Call ''j8b'' []) (Call ''WC'' [Call ''OC'' [G ''$R'', K (JNum 1)], G ''xue'', K (JNum 367), K (JNum 0), NewArr [G ''i8b'', G ''g8b'', G ''h8b'', G ''f8b'']])]))],
    fn ''DUb'' 0 0 [Do (SetG ''DUb'' (G ''qdb'')), Do (SetG ''CUb'' (Call ''gs'' [Seq (Call ''yUb'' []) (Call ''WC'' [Call ''OC'' [G ''jP'', K (JNum 1)], G ''xue'', K (JNum 383), K (JNum 0), NewArr [G ''xUb'', G ''vUb'', G ''uUb'', G ''wUb'']])]))],
    fn ''WLb'' 0 0 [Do (SetG ''WLb'' (G ''qdb'')), Do (SetG ''VLb'' (Call ''gs'' [Seq (Call ''RLb'' []) (Call ''WC'' [Call ''OC'' [G ''HN'', K (JNum 1)], G ''xue'', K (JNum 409), K (JNum 0), NewArr [G ''QLb'', G ''NLb'', G ''OLb'', G ''PLb'']])]))],
    fn ''aTb'' 0 0 [Do (SetG ''aTb'' (G ''qdb'')), Do (SetG ''_Sb'' (Call ''gs'' [Seq (Call ''TSb'' []) (Call ''WC'' [Call ''OC'' [G ''UO'', K (JNum 1)], G ''xue'', K (JNum 408), K (JNum 0), NewArr [G ''PSb'', G ''SSb'', G ''QSb'', G ''RSb'']])]))],
    fn ''doc'' 0 0 [Do (SetG ''doc'' (G ''qdb'')), Do (SetG ''coc'' (Call ''gs'' [Seq (Call ''Xnc'' []) (Call ''WC'' [Call ''OC'' [G ''UV'', K (JNum 1)], G ''xue'', K (JNum 301), K (JNum 0), NewArr [G ''Unc'', G ''Vnc'', G ''Tnc'', G ''Wnc'']])]))],
    fn ''szc'' 0 0 [Do (SetG ''szc'' (G ''qdb'')), Do (SetG ''rzc'' (Call ''gs'' [Seq (Call ''lzc'' []) (Call ''WC'' [Call ''OC'' [G ''oW'', K (JNum 1)], G ''xue'', K (JNum 203), K (JNum 0), NewArr [G ''jzc'', G ''kzc'', G ''izc'', G ''hzc'']])]))],
    fn ''eAc'' 0 0 [Do (SetG ''eAc'' (G ''qdb'')), Do (SetG ''dAc'' (Call ''gs'' [Seq (Call ''_zc'' []) (Call ''WC'' [Call ''OC'' [G ''rW'', K (JNum 1)], G ''xue'', K (JNum 269), K (JNum 0), NewArr [G ''Yzc'', G ''Xzc'', G ''Zzc'', G ''$zc'']])]))],
    fn ''uhc'' 0 0 [Do (SetG ''uhc'' (G ''qdb'')), Do (SetG ''thc'' (Call ''gs'' [Seq (Call ''phc'' []) (Call ''WC'' [Call ''OC'' [G ''BU'', K (JNum 1)], G ''xue'', K (JNum 413), K (JNum 0), NewArr [G ''lhc'', G ''mhc'', G ''nhc'', G ''ohc'']])]))],
    fn ''pHc'' 0 0 [Do (SetG ''pHc'' (G ''qdb'')), Do (SetG ''oHc'' (Call ''gs'' [Seq (Call ''kHc'' []) (Call ''WC'' [Call ''OC'' [G ''pX'', K (JNum 1)], G ''xue'', K (JNum 404), K (JNum 0), NewArr [G ''gHc'', G ''iHc'', G ''jHc'', G ''hHc'']])]))],
    fn ''$1c'' 0 0 [Do (SetG ''$1c'' (G ''qdb'')), Do (SetG ''Z1c'' (Call ''gs'' [Seq (Call ''U1c'' []) (Call ''WC'' [Call ''OC'' [G ''Q_'', K (JNum 1)], G ''xue'', K (JNum 354), K (JNum 0), NewArr [G ''T1c'', G ''R1c'', G ''S1c'', G ''Q1c'']])]))],
    fn ''gYc'' 0 0 [Do (SetG ''gYc'' (G ''qdb'')), Do (SetG ''fYc'' (Call ''gs'' [Seq (Call ''bYc'' []) (Call ''WC'' [Call ''OC'' [G ''N$'', K (JNum 1)], G ''xue'', K (JNum 353), K (JNum 0), NewArr [G ''aYc'', G ''$Xc'', G ''_Xc'', G ''ZXc'']])]))],
    fn ''PSc'' 0 0 [Do (SetG ''PSc'' (G ''qdb'')), Do (SetG ''OSc'' (Call ''gs'' [Seq (Call ''HSc'' []) (Call ''WC'' [Call ''OC'' [G ''LZ'', K (JNum 1)], G ''xue'', K (JNum 398), K (JNum 0), NewArr [G ''DSc'', G ''ESc'', G ''FSc'', G ''GSc'']])]))],
    fn ''p3c'' 0 0 [Do (SetG ''p3c'' (G ''qdb'')), Do (SetG ''o3c'' (Call ''gs'' [Seq (Call ''j3c'' []) (Call ''WC'' [Call ''OC'' [G ''b0'', K (JNum 1)], G ''xue'', K (JNum 401), K (JNum 0), NewArr [G ''i3c'', G ''f3c'', G ''h3c'', G ''g3c'']])]))],
    fn ''Vjd'' 0 0 [Do (SetG ''Vjd'' (G ''qdb'')), Do (SetG ''Ujd'' (Call ''gs'' [Seq (Call ''Qjd'' []) (Call ''WC'' [Call ''OC'' [G ''z2'', K (JNum 1)], G ''xue'', K (JNum 278), K (JNum 0), NewArr [G ''Njd'', G ''Mjd'', G ''Ojd'', G ''Pjd'']])]))],
    fn ''mkd'' 0 0 [Do (SetG ''mkd'' (G ''qdb'')), Do (SetG ''lkd'' (Call ''gs'' [Seq (Call ''hkd'' []) (Call ''WC'' [Call ''OC'' [G ''B2'', K (JNum 1)], G ''xue'', K (JNum 222), K (JNum 0), NewArr [G ''gkd'', G ''ekd'', G ''dkd'', G ''fkd'']])]))],
    fn ''eld'' 0 0 [Do (SetG ''eld'' (G ''qdb'')), Do (SetG ''dld'' (Call ''gs'' [Seq (Call ''$kd'' []) (Call ''WC'' [Call ''OC'' [G ''H2'', K (JNum 1)], G ''xue'', K (JNum 292), K (JNum 0), NewArr [G ''Zkd'', G ''Wkd'', G ''Xkd'', G ''Ykd'']])]))],
    fn ''cod'' 0 0 [Do (SetG ''cod'' (G ''qdb'')), Do (SetG ''bod'' (Call ''gs'' [Seq (Call ''Qnd'' []) (Call ''WC'' [Call ''OC'' [G ''X2'', K (JNum 1)], G ''xue'', K (JNum 288), K (JNum 0), NewArr [G ''Mnd'', G ''Pnd'', G ''Nnd'', G ''Ond'']])]))],
    fn ''nnd'' 0 0 [Do (SetG ''nnd'' (G ''qdb'')), Do (SetG ''mnd'' (Call ''gs'' [Seq (Call ''ind'' []) (Call ''WC'' [Call ''OC'' [G ''Q2'', K (JNum 1)], G ''xue'', K (JNum 380), K (JNum 0), NewArr [G ''gnd'', G ''hnd'', G ''fnd'', G ''end'']])]))],
    fn ''lpd'' 0 0 [Do (SetG ''lpd'' (G ''qdb'')), Do (SetG ''kpd'' (Call ''gs'' [Seq (Call ''gpd'' []) (Call ''WC'' [Call ''OC'' [G ''a3'', K (JNum 1)], G ''xue'', K (JNum 327), K (JNum 0), NewArr [G ''fpd'', G ''cpd'', G ''epd'', G ''dpd'']])]))],
    fn ''$qd'' 0 0 [Do (SetG ''$qd'' (G ''qdb'')), Do (SetG ''Zqd'' (Call ''gs'' [Seq (Call ''Vqd'' []) (Call ''WC'' [Call ''OC'' [G ''y3'', K (JNum 1)], G ''xue'', K (JNum 407), K (JNum 0), NewArr [G ''Sqd'', G ''Tqd'', G ''Rqd'', G ''Uqd'']])]))],
    fn ''jpc'' 0 0 [Do (SetG ''jpc'' (G ''qdb'')), Do (SetG ''ipc'' (New ''kpc'' [G ''qye'', K (JNum 0)])), Do (SetG ''hpc'' (New ''kpc'' [K (JStr ''IMPROVE_STRAIGHTNESS''), K (JNum 1)]))],
    fn ''Y5c'' 0 0 [Do (SetG ''Y5c'' (G ''qdb'')), Do (SetG ''V5c'' (New ''$5c'' [G ''kDe'', K (JNum 0)])), Do (SetG ''X5c'' (New ''$5c'' [G ''kCe'', K (JNum 1)])), Do (SetG ''W5c'' (New ''$5c'' [G ''qye'', K (JNum 2)]))],
    fn ''HIc'' 1 0 [Do (Put (V 0) ''a'' (Call ''SC'' [G ''cE'', G ''bve'', K (JNum 30), Bin Plus (Dot (V 0) ''b'') (K (JNum 1)), K (JNum 15), K (JNum 1)])), Do (Put (V 0) ''c'' (Call ''SC'' [G ''cE'', G ''bve'', K (JNum 30), Dot (V 0) ''b'', K (JNum 15), K (JNum 1)])), Do (Put (V 0) ''d'' (K (JNum 0)))]]"

definition object_table7 :: "(string \<times> jfun) list" where
  "object_table7 = code_3313_3378 @ code_3380_3487 @ code_3488_3590"

text \<open>The names each table declares.\<close>

lemma names_3313_3378 [js_names]: "map fst code_3313_3378 = [
    ''w5d'', ''Ro'', ''$7d'', ''Y1d'', ''Z1d'', ''yje'', ''otb'', ''Ysb'', ''Wvb'', ''SBb'',
    ''Qmb'', ''Tx'', ''bib'', ''ygc'', ''Wtb'', ''Qnd'', ''isc'', ''opc'', ''Snc'', ''Moc'',
    ''Jqc'', ''nsc'', ''mAc'', ''gKc'', ''kNc'', ''sNc'', ''VPc'', ''TRc'', ''oYc'', ''o_c'',
    ''N0c'', ''C5c'', ''N8c'', ''AOb'', ''G2b'', ''oad'', ''Jjd'', ''Imd'', ''YQd'', ''x0b'',
    ''tlb'', ''le'', ''gqd'', ''IIc'', ''imb'', ''Hfb'', ''Lkb'', ''xsb'', ''qo'', ''OEc'',
    ''DBb'', ''wVb'', ''SUb'', ''wAb'', ''oAb'', ''u5c'', ''RBb'', ''_Qb'', ''V_c'', ''r7c'',
    ''W8c'', ''Rhc'', ''Ezc'', ''dsc'', ''Yed'', ''Dld'']"
  by (simp add: code_3313_3378_def fn_def)

lemma names_3380_3487 [js_names]: "map fst code_3380_3487 = [
    ''AWb'', ''Icd'', ''LWd'', ''j4d'', ''rdd'', ''ALd'', ''JLd'', ''b2d'', ''t2d'', ''k2d'',
    ''g2d'', ''Ndb'', ''Nz'', ''Tc'', ''ZC'', ''_7b'', ''ugb'', ''Xr'', ''hib'', ''iib'',
    ''zc'', ''YVb'', ''btd'', ''jUc'', ''kUc'', ''G7c'', ''Lie'', ''RHb'', ''QHb'', ''Qc'',
    ''sm'', ''Wu'', ''dGd'', ''aGd'', ''jjb'', ''fmb'', ''Rib'', ''Nxb'', ''Sb'', ''Wqb'',
    ''tgb'', ''hB'', ''Z5d'', ''dJd'', ''UZb'', ''KNb'', ''hGb'', ''mVb'', ''whc'', ''GCb'',
    ''MCb'', ''SCb'', ''KRc'', ''HTc'', ''Ece'', ''QPc'', ''I8c'', ''Y7b'', ''ofd'', ''umc'',
    ''GEc'', ''B8d'', ''fd'', ''KTc'', ''YIc'', ''lBb'', ''TBb'', ''uVd'', ''zMd'', ''Si'',
    ''Gwb'', ''kKb'', ''r2b'', ''MEc'', ''jg'', ''y7b'', ''mIb'', ''dJb'', ''HHb'', ''KAb'',
    ''hQb'', ''jqc'', ''sqc'', ''Bqc'', ''Aic'', ''NAc'', ''EAc'', ''vAc'', ''fBc'', ''gzc'',
    ''oBc'', ''xBc'', ''zWc'', ''X0c'', ''Y3c'', ''moc'', ''Voc'', ''V2c'', ''i2c'', ''F6c'',
    ''e6c'', ''h8c'', ''ckd'', ''Vkd'', ''dnd'', ''Lnd'', ''Nnc'', ''uMd'']"
  by (simp add: code_3380_3487_def fn_def)

lemma names_3488_3590 [js_names]: "map fst code_3488_3590 = [
    ''nMd'', ''tMd'', ''CMd'', ''O7d'', ''P7d'', ''Mib'', ''SC'', ''lee'', ''pFd'', ''dyb'',
    ''jB'', ''tt'', ''dvd'', ''dMb'', ''Jee'', ''TDb'', ''F$b'', ''eBb'', ''Myb'', ''ptb'',
    ''Esb'', ''mmb'', ''Yfd'', ''sHc'', ''jCc'', ''Inc'', ''epc'', ''ypc'', ''Kpc'', ''Ogd'',
    ''Rld'', ''dmd'', ''rhd'', ''wkd'', ''X1d'', ''lFd'', ''uIb'', ''vre'', ''bUb'', ''_Tb'',
    ''pZc'', ''zhc'', ''BAb'', ''QTd'', ''_1d'', ''p2d'', ''M6c'', ''gde'', ''HBd'', ''IBd'',
    ''dhc'', ''atd'', ''jBd'', ''eFd'', ''cte'', ''RIc'', ''Er'', ''nCb'', ''sTb'', ''cGd'',
    ''vXd'', ''xcd'', ''vcd'', ''H0c'', ''kle'', ''U8d'', ''V8d'', ''Xsd'', ''enb'', ''Zi'',
    ''Uxb'', ''Vxb'', ''a$d'', ''XC'', ''ACb'', ''Qlc'', ''xEb'', ''hIb'', ''jzb'', ''xzb'',
    ''p8b'', ''DUb'', ''WLb'', ''aTb'', ''doc'', ''szc'', ''eAc'', ''uhc'', ''pHc'', ''$1c'',
    ''gYc'', ''PSc'', ''p3c'', ''Vjd'', ''mkd'', ''eld'', ''cod'', ''nnd'', ''lpd'', ''$qd'',
    ''jpc'', ''Y5c'', ''HIc'']"
  by (simp add: code_3488_3590_def fn_def)

end
