(* ===== verification/ObjectTable8.thy ===== *)
theory ObjectTable8
  imports ObjectCode
begin

text \<open>
  Functions of \<open>layout-worker.js\<close>, lines 3592 to 3856, in the order of the file, one per line:
  operations of the runtime's collections, iterators and text buffers, accessors and small algorithms
  of the layout engine, with their loops, \<open>switch\<close> and \<open>try\<close> statements. An entry has the name, the
  number of parameters, the number of further local variables and the body; parameters and locals
  are numbered from 0, the variable of a \<open>catch\<close> has a number of its own, \<open>x++\<close> is \<open>(x=x+1)-1\<close>. Lines
  with a construct outside \<open>jexp\<close> and \<open>jstm\<close> (closures, \<open>in\<close>, floating-point literals, host objects) are
  left out.
\<close>

definition code_3592_3644 :: "(string \<times> jfun) list" where
  "code_3592_3644 = [
    fn ''GId'' 1 1 [Do (SetV 1 (Meth (V 0) ''hj'' [])), Do (And (And (Neg (Loose (V 1) (K JNull))) (Neg (Loose (Dot (V 0) ''d'') (K (JNum (- 1)))))) (Meth (Call ''JD'' [V 1, K (JNum 94)]) ''uh'' [V 0])), Do (And (Neg (Neg (Dot (V 0) ''i''))) (Meth (Dot (V 0) ''i'') ''mj'' []))],
    fn ''Zcb'' 1 1 [When (Call ''Vcb'' [V 0]) [Do (SetV 1 (Bin Minus (K (JNum 0)) (V 0))), When (Neg (Call ''isNaN'' [V 1])) [Ret (V 1)] []] [], Ret (Call ''Pcb'' [Call ''pD'' [V 0]])],
    fn ''yc'' 1 1 [When (Neg (Call ''xc'' [V 0])) [Raise (Call ''Lcb'' [New ''Kub'' []])] [], Do (Put (V 0) ''e'' (K (JNum 1))), Do (SetV 1 (Dot (V 0) ''d'')), Do (Put (V 0) ''d'' (K JNull)), Ret (V 1)],
    fn ''Eu'' 2 1 [Do (Put This ''f'' (V 0)), Do (Put This ''b'' (V 1)), Do (SetV 2 (Call ''JD'' [Call ''ejb'' [Dot (V 0) ''b'', V 1], K (JNum 262)])), Do (Put This ''c'' (Cond (Neg (V 2)) (K JNull) (Dot (V 2) ''b'')))],
    fn ''gmb'' 2 1 [Do (SetV 2 (Call ''emb'' [V 0, V 1, K (JNum 0)])), When (Loose (V 2) (K (JNum (- 1)))) [Ret (K (JBool False))] [], Do (Call ''fmb'' [V 0, V 2]), Ret (K (JBool True))],
    fn ''ntb'' 2 1 [Do (SetV 2 (Call ''JD'' [Call ''jjb'' [Dot (V 0) ''e'', V 1], K (JNum 393)])), When (V 2) [Do (Call ''ztb'' [V 2]), Ret (Dot (V 2) ''e'')] [], Ret (K JNull)],
    fn ''emb'' 3 0 [Loop (Bin Lt (V 2) (Dot (Dot (V 0) ''c'') ''length'')) [When (Call ''Mub'' [V 1, Idx (Dot (V 0) ''c'') (V 2)]) [Ret (V 2)] []] [Do (SetV 2 (Bin Minus (V 2) (K (JNum (- 1)))))], Ret (K (JNum (- 1)))],
    fn ''cCb'' 3 1 [Do (Call ''cBb'' [V 0]), Do (SetV 3 (New ''_Cb'' [])), Do (Put (V 3) ''a'' (V 1)), Do (Meth (Dot (V 0) ''a'') ''Nb'' [New ''hDb'' [V 3, V 2]]), Ret (Dot (V 3) ''a'')],
    fn ''mBb'' 1 1 [Do (Call ''cBb'' [V 0]), Do (SetV 1 (Call ''SC'' [G ''aE'', G ''Jve'', K (JNum 30), K (JNum 0), K (JNum 15), K (JNum 1)])), Do (Call ''pwb'' [Dot (V 0) ''a'', New ''wBb'' [V 1]]), Ret (V 1)],
    fn ''v3b'' 2 0 [Ret (Call ''$eb'' [Call ''Ueb'' [Call ''MD'' [Call ''oNb'' [V 0, Seq (Call ''Wrc'' []) (G ''Drc'')]]], Call ''Ueb'' [Call ''MD'' [Call ''oNb'' [V 1, G ''Drc'']]]])],
    fn ''iUc'' 2 0 [Ret (New ''Erd'' [V 1, Call ''Ufd'' [Call ''Xfd'' [Dot (V 1) ''e''], Bin Plus (Dot (Dot (V 1) ''f'') ''a'') (V 0), Bin Plus (Dot (Dot (V 1) ''f'') ''b'') (V 0)], Seq (Call ''Qdb'' []) (K (JBool False))])],
    fn ''nJc'' 2 0 [Do (Call ''OIc'' []), Ret (Call ''_lb'' [V 0, New ''prd'' [V 1, Call ''Cfb'' [Bin Plus (Dot (Dot (Dot (V 1) ''e'') ''c'') ''length'') (Dot (Dot (Dot (V 1) ''g'') ''c'') ''length'')]]])],
    fn ''pJc'' 2 0 [Do (Call ''OIc'' []), Ret (Call ''_lb'' [V 0, New ''prd'' [V 1, Call ''Cfb'' [Bin Plus (Dot (Dot (Dot (V 1) ''e'') ''c'') ''length'') (Dot (Dot (Dot (V 1) ''g'') ''c'') ''length'')]]])],
    fn ''nEb'' 2 0 [Ret (Or (Or (Call ''Mub'' [V 1, Call ''dmb'' [Dot (V 0) ''f'', K (JNum 0)]]) (Call ''Mub'' [V 1, Call ''dmb'' [Dot (V 0) ''f'', K (JNum 1)]])) (Call ''Mub'' [V 1, Call ''dmb'' [Dot (V 0) ''f'', K (JNum 2)]]))],
    fn ''Hbd'' 2 0 [When (Bin Lt (V 1) (K (JNum 0))) [Raise (Call ''Lcb'' [New ''Fdb'' [Bin Plus (G ''DEe'') (V 1)]])] [], Do (Call ''Gbd'' [V 0, Bin Plus (V 1) (K (JNum 1))]), Ret (Call ''dmb'' [Dot (V 0) ''j'', V 1])],
    fn ''AAb'' 5 0 [Do (Call ''NDb'' [V 0]), Do (Call ''NDb'' [V 1]), Do (Call ''NDb'' [V 2]), Do (Call ''NDb'' [V 3]), Do (Call ''NDb'' [V 4]), Ret (New ''LAb'' [V 0, V 1, V 3])],
    fn ''aec'' 2 2 [Do (Call ''Xdc'' []), Do (SetV 2 (Call ''_dc'' [V 0])), Do (SetV 3 (Call ''_dc'' [V 1])), Ret (And (And (Neg (Neg (V 2))) (Neg (Neg (V 3)))) (Neg (Call ''Knb'' [Dot (V 2) ''k'', Dot (V 3) ''k''])))],
    fn ''ade'' 2 2 [Do (SetV 2 (Call ''JD'' [V 1, K (JNum 680)])), Do (SetV 3 (Meth (V 2) ''ui'' [])), Do (And (Neg (V 3)) (Meth (V 2) ''xi'' [SetV 3 (New ''Jde'' [V 0, V 1])])), Ret (V 3)],
    fn ''bde'' 2 2 [Do (SetV 2 (Call ''JD'' [V 1, K (JNum 682)])), Do (SetV 3 (Meth (V 2) ''Yk'' [])), Do (And (Neg (V 3)) (Meth (V 2) ''al'' [SetV 3 (New ''Wde'' [V 0, V 1])])), Ret (V 3)],
    fn ''Rgc'' 1 2 [Do (SetV 2 (Call ''JD'' [Call ''dmb'' [Dot (V 0) ''j'', K (JNum 0)], K (JNum 12)])), Do (SetV 1 (Call ''JD'' [Call ''oNb'' [V 2, Seq (Call ''Wrc'' []) (G ''urc'')], K (JNum 12)])), Ret (V 1)],
    fn ''B2d'' 1 0 [When (Neg (Dot (V 0) ''b'')) [Do (Put (V 0) ''b'' (New ''F3d'' [V 0, G ''z6'', V 0])), Do (And (Neg (Dot (V 0) ''a'')) (Put (V 0) ''a'' (New ''S2d'' [V 0, V 0])))] [], Ret (Dot (V 0) ''b'')],
    fn ''cQb'' 0 0 [Do (SetG ''cQb'' (G ''qdb'')), Do (SetG ''aQb'' (New ''dQb'' [K (JStr ''XY''), K (JNum 0)])), Do (SetG ''_Pb'' (New ''dQb'' [K (JStr ''X''), K (JNum 1)])), Do (SetG ''bQb'' (New ''dQb'' [K (JStr ''Y''), K (JNum 2)]))],
    fn ''hAc'' 0 0 [Do (SetG ''hAc'' (G ''qdb'')), Do (SetG ''fAc'' (New ''iAc'' [K (JStr ''INPUT_ORDER''), K (JNum 0)])), Do (SetG ''gAc'' (New ''iAc'' [K (JStr ''PORT_DEGREE''), K (JNum 1)]))],
    fn ''Eec'' 0 0 [Do (Call ''mec'' []), Do (Put This ''b'' (New ''_rb'' [])), Do (Put This ''f'' (New ''_rb'' [])), Do (Put This ''g'' (New ''_rb'' [])), Do (Put This ''e'' (New ''_rb'' []))],
    fn ''cRd'' 1 0 [Do (Call ''Yy'' [This]), Do (Put This ''g'' (Cond (Neg (V 0)) (K JNull) (Call ''dz'' [V 0, Meth (V 0) ''ge'' []]))), Do (Put This ''f'' (V 0)), Do (Call ''$y'' [This]), Do (Meth This ''he'' [])],
    fn ''a2d'' 7 0 [Do (Super ''cJd'' [V 1, V 3, V 4, V 5, V 6]), Do (Call ''W1d'' [This]), Do (Put This ''c'' (V 0)), Do (Put This ''b'' (V 2))],
    fn ''Ob'' 4 0 [When (Neg (V 0)) [Raise (Call ''Lcb'' [New ''kfb'' [Call ''hc'' [V 1, Call ''WC'' [Call ''OC'' [G ''aJ'', K (JNum 1)], G ''Gte'', K (JNum 1), K (JNum 5), NewArr [V 2, V 3]]]]])] []],
    fn ''MA'' 3 2 [Do (SetV 3 (K (JNum 10))), Do (SetV 4 (K (JNum 0))), Loop (Bin Lt (V 4) (Bin Minus (V 2) (K (JNum 1)))) [Do (And (Bin Lt (V 1) (V 3)) (Seq (Put (V 0) ''a'' (Bin Plus (Dot (V 0) ''a'') (K (JStr ''0'')))) (V 0))), Do (SetV 3 (Bin Times (V 3) (K (JNum 10))))] [Do (Bin Minus (SetV 4 (Bin Minus (V 4) (K (JNum (- 1))))) (K (JNum 1)))], Do (Put (V 0) ''a'' (Bin Plus (Dot (V 0) ''a'') (V 1)))],
    fn ''bMb'' 2 0 [Do (SetG ''aMb'' (New ''OMb'' [])), Do (SetG ''$Lb'' (V 1)), Do (SetG ''_Lb'' (V 0)), Do (Call ''JD'' [Dot (G ''_Lb'') ''b'', K (JNum 68)]), Do (Call ''dMb'' [G ''_Lb'', G ''aMb'', K JNull]), Do (Call ''cMb'' [G ''_Lb''])],
    fn ''Kgb'' 1 2 [Do (SetV 2 (Dot (V 0) ''length'')), Do (SetV 1 (Call ''SC'' [G ''_D'', G ''Nue'', K (JNum 30), V 2, K (JNum 15), K (JNum 1)])), Do (Call ''xgb'' [V 0, K (JNum 0), V 2, V 1, K (JNum 0)]), Ret (V 1)],
    fn ''ieb'' 1 2 [Do (Call ''heb'' []), Do (SetV 1 (Bin Plus (V 0) (K (JNum 128)))), Do (SetV 2 (Idx (G ''geb'') (V 1))), Do (And (Neg (V 2)) (SetV 2 (PutIdx (G ''geb'') (V 1) (New ''aeb'' [V 0])))), Ret (V 2)],
    fn ''Jtb'' 1 0 [Do (Call ''KDb'' [Dot (Dot (Dot (Dot (V 0) ''d'') ''a'') ''e'') ''g'', Dot (V 0) ''b'']), Do (Call ''LDb'' [Neg (Loose (Dot (V 0) ''c'') (Dot (Dot (Dot (V 0) ''d'') ''a'') ''d''))]), Do (Put (V 0) ''a'' (Dot (V 0) ''c'')), Do (Put (V 0) ''c'' (Dot (Dot (V 0) ''c'') ''a'')), Ret (Dot (V 0) ''a'')],
    fn ''Ejb'' 1 0 [Do (Call ''RDb'' [Neg (Neg (Dot (V 0) ''c''))]), Do (Call ''KDb'' [Dot (Dot (V 0) ''f'') ''g'', Dot (V 0) ''d'']), Do (Meth (Dot (V 0) ''c'') ''Qb'' []), Do (Put (V 0) ''c'' (K JNull)), Do (Put (V 0) ''b'' (Call ''Cjb'' [V 0])), Do (Put (V 0) ''d'' (Dot (Dot (V 0) ''f'') ''g''))],
    fn ''utd'' 1 1 [When (Neg (Meth (V 0) ''Lh'' [])) [Do (SetV 1 (Bin Minus (Call ''NWd'' [Meth (V 0) ''Ah'' []]) (Meth (V 0) ''gi'' []))), Do (Meth (Meth (V 0) ''Xh'' []) ''Kk'' [V 1])] [], Ret (Meth (V 0) ''wh'' [])],
    fn ''rud'' 1 1 [Do (SetV 1 (Call ''KD'' [Call ''uud'' [V 0, K (JNum 32)]])), When (Loose (V 1) (K JNull)) [Do (Call ''sud'' [V 0]), Do (SetV 1 (Call ''KD'' [Call ''uud'' [V 0, K (JNum 32)]]))] [], Ret (V 1)],
    fn ''ctd'' 2 1 [Do (SetV 2 (Call ''OWd'' [Dot (V 0) ''d'', V 1])), Ret (Cond (Bin Ge (V 2) (K (JNum 0))) (Call ''_sd'' [V 0, V 2, K (JBool True), K (JBool True)]) (Call ''mtd'' [V 0, V 1, K (JBool True)]))],
    fn ''asd'' 2 0 [Do (And (Call ''Nld'' [Call ''JD'' [Meth (Call ''JD'' [Dot (V 0) ''f'', K (JNum 26)]) ''mf'' [Seq (Call ''vjd'' []) (G ''Fid'')], K (JNum 102)]]) (Call ''AOd'' [Call ''Szd'' [Call ''JD'' [Dot (V 0) ''f'', K (JNum 26)]], V 1]))],
    fn ''MBd'' 2 0 [Do (Call ''_vd'' [V 0, Cond (Or (Or (Loose (V 1) (K JNull)) (Call ''_eb'' [Seq (Call ''NDb'' [V 1]) (V 1)])) (Call ''isNaN'' [Seq (Call ''NDb'' [V 1]) (V 1)])) (K (JNum 0)) (Seq (Call ''NDb'' [V 1]) (V 1))])],
    fn ''OBd'' 2 0 [Do (Call ''$vd'' [V 0, Cond (Or (Or (Loose (V 1) (K JNull)) (Call ''_eb'' [Seq (Call ''NDb'' [V 1]) (V 1)])) (Call ''isNaN'' [Seq (Call ''NDb'' [V 1]) (V 1)])) (K (JNum 0)) (Seq (Call ''NDb'' [V 1]) (V 1))])],
    fn ''PBd'' 2 0 [Do (Call ''Yvd'' [V 0, Cond (Or (Or (Loose (V 1) (K JNull)) (Call ''_eb'' [Seq (Call ''NDb'' [V 1]) (V 1)])) (Call ''isNaN'' [Seq (Call ''NDb'' [V 1]) (V 1)])) (K (JNum 0)) (Seq (Call ''NDb'' [V 1]) (V 1))])],
    fn ''NBd'' 2 0 [Do (Call ''awd'' [V 0, Cond (Or (Or (Loose (V 1) (K JNull)) (Call ''_eb'' [Seq (Call ''NDb'' [V 1]) (V 1)])) (Call ''isNaN'' [Seq (Call ''NDb'' [V 1]) (V 1)])) (K (JNum 0)) (Seq (Call ''NDb'' [V 1]) (V 1))])],
    fn ''Gqd'' 1 0 [Do (Meth (Cond (Neg (Dot This ''q'')) (Seq (Seq (Call ''Inb'' []) (Call ''Inb'' [])) (G ''Gnb'')) (Dot This ''q'')) ''zc'' [Cond (Neg (Dot (V 0) ''q'')) (Seq (Seq (Call ''Inb'' []) (Call ''Inb'' [])) (G ''Gnb'')) (Dot (V 0) ''q'')])],
    fn ''jGd'' 3 1 [Do (SetV 3 (Idx (Dot (V 0) ''g'') (V 1))), Do (Call ''bGd'' [V 0, V 1, Meth (V 0) ''Xi'' [V 1, V 2]]), Do (Meth (V 0) ''Pi'' [V 1, V 2, V 3]), Do (Meth (V 0) ''Li'' []), Ret (V 3)],
    fn ''uFd'' 2 1 [Do (SetV 2 (Meth (V 0) ''bd'' [V 1])), When (Bin Ge (V 2) (K (JNum 0))) [Do (Meth (V 0) ''ed'' [V 2]), Ret (K (JBool True))] [Ret (K (JBool False))]],
    fn ''JUd'' 1 1 [When (Neg (Loose (Dot (V 0) ''d'') (Dot (V 0) ''r''))) [Do (SetV 1 (Call ''hUd'' [V 0])), Do (Put (V 0) ''e'' (And (Neg (Neg (V 1))) (Loose (Meth (V 1) ''jk'' []) (G ''mIe'')))), Do (Put (V 0) ''d'' (V 1))] [], Ret (Dot (V 0) ''e'')],
    fn ''or'' 2 1 [Do (Call ''Qb'' [V 0]), Do (Call ''Qb'' [V 1]), Do (SetV 2 (K (JBool False))), Loop (Meth (V 1) ''Ob'' []) [Do (SetV 2 (Bin BitOr (V 2) (Meth (V 0) ''Ec'' [Meth (V 1) ''Pb'' []])))] [], Ret (V 2)],
    fn ''ktb'' 2 1 [Do (SetV 2 (Call ''JD'' [Call ''ejb'' [Dot (V 0) ''e'', V 1], K (JNum 393)])), When (V 2) [Do (Call ''mtb'' [V 0, V 2]), Ret (Dot (V 2) ''e'')] [], Ret (K JNull)],
    fn ''tvb'' 1 1 [Do (SetV 1 (Cond (Loose (Dot (Dot (Dot (V 0) ''b'') ''c'') ''length'') (K (JNum 0))) (K JNull) (Call ''dmb'' [Dot (V 0) ''b'', K (JNum 0)]))), Do (And (Neg (Loose (V 1) (K JNull))) (Call ''vvb'' [V 0, K (JNum 0)])), Ret (V 1)],
    fn ''XBb'' 2 2 [Do (Call ''dBb'' [V 0]), Do (SetV 3 (New ''SCb'' [V 1, Dot (V 0) ''a''])), Do (SetV 2 (New ''pCb'' [V 3])), Ret (New ''jCb'' [V 0, V 2])],
    fn ''$Ib'' 0 0 [Do (SetG ''$Ib'' (G ''qdb'')), Do (SetG ''ZIb'' (New ''_Ib'' [K (JStr ''TOP''), K (JNum 0)])), Do (SetG ''YIb'' (New ''_Ib'' [G ''Qwe'', K (JNum 1)])), Do (SetG ''XIb'' (New ''_Ib'' [G ''Wwe'', K (JNum 2)]))],
    fn ''wqc'' 0 0 [Do (SetG ''wqc'' (G ''qdb'')), Do (SetG ''uqc'' (New ''xqc'' [G ''qye'', K (JNum 0)])), Do (SetG ''vqc'' (New ''xqc'' [K (JStr ''TOP''), K (JNum 1)])), Do (SetG ''tqc'' (New ''xqc'' [G ''Wwe'', K (JNum 2)]))],
    fn ''gTb'' 0 0 [Do (SetG ''gTb'' (G ''qdb'')), Do (SetG ''dTb'' (New ''DTb'' [])), Do (SetG ''eTb'' (New ''HTb'' [])), Do (SetG ''bTb'' (New ''LTb'' [])), Do (SetG ''cTb'' (New ''PTb'' [])), Do (SetG ''fTb'' (New ''TTb'' []))],
    fn ''ED'' 0 0 [Do (SetG ''ED'' (G ''qdb'')), Do (SetG ''AD'' (Call ''_C'' [G ''rve'', G ''rve'', K (JNum 524287)])), Do (SetG ''BD'' (Call ''_C'' [K (JNum 0), K (JNum 0), G ''tve''])), Do (SetG ''CD'' (Call ''ZC'' [K (JNum 1)])), Do (Call ''ZC'' [K (JNum 2)]), Do (SetG ''DD'' (Call ''ZC'' [K (JNum 0)]))]]"

definition code_3646_3700 :: "(string \<times> jfun) list" where
  "code_3646_3700 = [
    fn ''aB'' 1 2 [Do (SetV 1 (Bin DivInt (V 0) (K (JNum 60)))), Do (SetV 2 (Bin Modulo (V 0) (K (JNum 60)))), When (Loose (V 2) (K (JNum 0))) [Ret (Bin Plus (K (JStr '''')) (V 1))] [], Ret (Bin Plus (Bin Plus (Bin Plus (K (JStr '''')) (V 1)) (K (JStr '':''))) (Bin Plus (K (JStr '''')) (V 2)))],
    fn ''wD'' 1 0 [When (Bin Lt (Call ''mD'' [V 0, Seq (Call ''ED'' []) (G ''DD'')]) (K (JNum 0))) [Ret (Minus1 (Call ''iD'' [Call ''pD'' [V 0]]))] [], Ret (Bin Plus (Bin Plus (Dot (V 0) ''l'') (Bin Times (Dot (V 0) ''m'') (G ''uve''))) (Bin Times (Dot (V 0) ''h'') (G ''vve'')))],
    fn ''bzc'' 1 0 [Switch (Dot (V 0) ''g'') [(Some (JNum 0), [Ret (G ''Ate'')]), (Some (JNum 1), [Ret (G ''Eue'')]), (None, [Ret (K (JNum 0))])]],
    fn ''PC'' 1 0 [Ret (Cond (Loose (Dot (V 0) ''__elementTypeCategory$'') (K JNull)) (K (JNum 10)) (Dot (V 0) ''__elementTypeCategory$''))],
    fn ''Dee'' 2 0 [Ret (Cond (And (Call ''RD'' [V 1, K (JNum 103)]) (Neg (Loose (Bin BitAnd (Dot (Call ''JD'' [V 1, K (JNum 19)]) ''Bb'') (G ''Hve'')) (K (JNum 0))))) (New ''dge'' [V 1, V 0]) (New ''age'' [V 1, V 0]))],
    fn ''Fee'' 2 0 [Ret (Cond (And (Call ''RD'' [V 1, K (JNum 103)]) (Neg (Loose (Bin BitAnd (Dot (Call ''JD'' [V 1, K (JNum 19)]) ''Bb'') (G ''Hve'')) (K (JNum 0))))) (New ''dge'' [V 1, V 0]) (New ''age'' [V 1, V 0]))],
    fn ''ZSc'' 3 0 [Ret (Loose (Call ''Zfd'' [New ''lgd'' [Bin Plus (Dot (Dot (V 2) ''e'') ''a'') (Bin Divide (Dot (Dot (V 2) ''f'') ''a'') (K (JNum 2))), Bin Plus (Dot (Dot (V 2) ''e'') ''b'') (Bin Divide (Dot (Dot (V 2) ''f'') ''b'') (K (JNum 2)))], V 0]) (Seq (Call ''NDb'' [V 1]) (V 1)))],
    fn ''vec'' 2 3 [Do (SetV 4 (Dot (Dot (V 1) ''c'') ''i'')), Do (SetV 2 (Call ''JD'' [Call ''ejb'' [Dot (V 0) ''f'', V 4], K (JNum 60)])), Do (SetV 3 (Bin Minus (Dot (Dot (V 2) ''d'') ''c'') (Dot (Dot (V 2) ''e'') ''c''))), Do (Call ''vgd'' [Dot (V 1) ''a'', V 3, K (JNum 0)])],
    fn ''GIc'' 2 1 [Do (Put (V 0) ''d'' (Bin Minus (Dot (V 0) ''d'') (K (JNum (- 1))))), Do (PutIdx (Dot (V 0) ''c'') (V 1) (Bin Minus (Idx (Dot (V 0) ''c'') (V 1)) (K (JNum (- 1))))), Do (SetV 2 (Bin Plus (V 1) (K (JNum 1)))), Loop (Bin Lt (V 2) (Dot (Dot (V 0) ''a'') ''length'')) [Do (PutIdx (Dot (V 0) ''a'') (V 2) (Bin Minus (Idx (Dot (V 0) ''a'') (V 2)) (K (JNum (- 1))))), Do (SetV 2 (Bin Plus (V 2) (Bin BitAnd (V 2) (Minus1 (V 2)))))] []],
    fn ''tte'' 2 1 [Do (SetV 2 (K (JNum 0))), Loop (Neg (Loose (Dot (V 0) ''e'') (Meth (Dot (V 0) ''i'') ''gc'' []))) [Do (Call ''BDd'' [V 1, Call ''sKd'' [V 0], Call ''Cfb'' [V 2]]), Do (And (Neg (Loose (V 2) (G ''Ate''))) (SetV 2 (Bin Minus (V 2) (K (JNum (- 1))))))] []],
    fn ''Trb'' 1 1 [Do (Put (V 0) ''a'' (Bin Minus (Dot (V 0) ''a'') (K (JNum (- 1))))), Do (SetV 1 (Dot (Dot (Dot (V 0) ''c'') ''a'') ''length'')), Loop (Bin Lt (Dot (V 0) ''a'') (V 1)) [When (Idx (Dot (Dot (V 0) ''c'') ''b'') (Dot (V 0) ''a'')) [Ret (K JUndef)] []] [Do (Put (V 0) ''a'' (Bin Minus (Dot (V 0) ''a'') (K (JNum (- 1)))))]],
    fn ''Tz'' 1 2 [When (Dot (V 0) ''a'') [Do (SetV 2 (K JNull)), Loop (K (JBool True)) [Do (SetV 1 (Dot (V 0) ''a'')), Do (Put (V 0) ''a'' (K JNull)), Do (SetV 2 (Call ''Xz'' [V 1, V 2]))] [When (Dot (V 0) ''a'') [] [Break]], Do (Put (V 0) ''a'' (V 2))] []],
    fn ''Uz'' 1 2 [When (Dot (V 0) ''b'') [Do (SetV 2 (K JNull)), Loop (K (JBool True)) [Do (SetV 1 (Dot (V 0) ''b'')), Do (Put (V 0) ''b'' (K JNull)), Do (SetV 2 (Call ''Xz'' [V 1, V 2]))] [When (Dot (V 0) ''b'') [] [Break]], Do (Put (V 0) ''b'' (V 2))] []],
    fn ''Cu'' 1 0 [When (Neg (Dot (V 0) ''c'')) [Raise (Call ''Lcb'' [New ''Kub'' []])] [], Do (Put (V 0) ''e'' (Put (V 0) ''a'' (Dot (V 0) ''c''))), Do (Put (V 0) ''c'' (Dot (Dot (V 0) ''c'') ''c'')), Do (Put (V 0) ''d'' (Bin Minus (Dot (V 0) ''d'') (K (JNum (- 1))))), Ret (Dot (Dot (V 0) ''a'') ''f'')],
    fn ''Du'' 1 0 [When (Neg (Dot (V 0) ''e'')) [Raise (Call ''Lcb'' [New ''Kub'' []])] [], Do (Put (V 0) ''c'' (Put (V 0) ''a'' (Dot (V 0) ''e''))), Do (Put (V 0) ''e'' (Dot (Dot (V 0) ''e'') ''e'')), Do (Put (V 0) ''d'' (Bin Minus (Dot (V 0) ''d'') (K (JNum 1)))), Ret (Dot (Dot (V 0) ''a'') ''f'')],
    fn ''Wfc'' 2 1 [Do (SetV 2 (Call ''Ty'' [Dot (Dot (V 0) ''e'') ''c'', Dot (Dot (V 1) ''e'') ''c''])), When (Loose (V 2) (K (JNum 0))) [Ret (Call ''$eb'' [Dot (Dot (V 0) ''e'') ''d'', Dot (Dot (V 1) ''e'') ''d''])] [], Ret (V 2)],
    fn ''X6b'' 2 2 [Do (SetV 3 (Dot (V 1) ''c'')), Do (SetV 2 (Bin Plus (V 3) (K (JNum 1)))), Loop (Bin Le (V 2) (Dot (V 1) ''f'')) [Do (And (Bin Gt (Idx (Dot (V 0) ''a'') (V 2)) (Idx (Dot (V 0) ''a'') (V 3))) (SetV 3 (V 2)))] [Do (Bin Minus (SetV 2 (Bin Minus (V 2) (K (JNum (- 1))))) (K (JNum 1)))], Ret (V 3)],
    fn ''mmc'' 1 1 [Do (SetV 1 (Call ''JD'' [Call ''oNb'' [V 0, Seq (Call ''Wrc'' []) (G ''Mqc'')], K (JNum 318)])), When (V 1) [Ret (Loose (Dot (V 1) ''a'') (V 0))] [], Ret (K (JBool False))],
    fn ''nmc'' 1 1 [Do (SetV 1 (Call ''JD'' [Call ''oNb'' [V 0, Seq (Call ''Wrc'' []) (G ''Mqc'')], K (JNum 318)])), When (V 1) [Ret (Loose (Dot (V 1) ''i'') (V 0))] [], Ret (K (JBool False))],
    fn ''Lgb'' 2 0 [Ret (Cond (Loose (V 1) (Seq (Seq (Call ''Eub'' []) (Call ''Eub'' [])) (G ''Dub''))) (Meth (V 0) ''toLocaleLowerCase'' []) (Meth (V 0) ''toLowerCase'' []))],
    fn ''bRb'' 0 0 [Do (SetG ''bRb'' (G ''qdb'')), Do (SetG ''aRb'' (Call ''gs'' [Seq (Call ''YQb'' []) (Call ''WC'' [Call ''OC'' [G ''BO'', K (JNum 1)], G ''xue'', K (JNum 363), K (JNum 0), NewArr [G ''TQb'', G ''UQb'', G ''VQb'', G ''WQb'', G ''XQb'']])]))],
    fn ''Gzc'' 0 0 [Do (SetG ''Gzc'' (G ''qdb'')), Do (SetG ''Fzc'' (Call ''gs'' [Seq (Call ''yzc'' []) (Call ''WC'' [Call ''OC'' [G ''pW'', K (JNum 1)], G ''xue'', K (JNum 303), K (JNum 0), NewArr [G ''xzc'', G ''uzc'', G ''vzc'', G ''tzc'', G ''wzc'']])]))],
    fn ''Thc'' 0 0 [Do (SetG ''Thc'' (G ''qdb'')), Do (SetG ''Shc'' (Call ''gs'' [Seq (Call ''Nhc'' []) (Call ''WC'' [Call ''OC'' [G ''JU'', K (JNum 1)], G ''xue'', K (JNum 371), K (JNum 0), NewArr [G ''Jhc'', G ''Lhc'', G ''Mhc'', G ''Khc'', G ''Ihc'']])]))],
    fn ''X_c'' 0 0 [Do (SetG ''X_c'' (G ''qdb'')), Do (SetG ''W_c'' (Call ''gs'' [Seq (Call ''R_c'' []) (Call ''WC'' [Call ''OC'' [G ''B_'', K (JNum 1)], G ''xue'', K (JNum 364), K (JNum 0), NewArr [G ''P_c'', G ''M_c'', G ''Q_c'', G ''N_c'', G ''O_c'']])]))],
    fn ''t7c'' 0 0 [Do (SetG ''t7c'' (G ''qdb'')), Do (SetG ''s7c'' (Call ''gs'' [Seq (Call ''o7c'' []) (Call ''WC'' [Call ''OC'' [G ''D0'', K (JNum 1)], G ''xue'', K (JNum 369), K (JNum 0), NewArr [G ''k7c'', G ''j7c'', G ''m7c'', G ''l7c'', G ''n7c'']])]))],
    fn ''Y8c'' 0 0 [Do (SetG ''Y8c'' (G ''qdb'')), Do (SetG ''X8c'' (Call ''gs'' [Seq (Call ''T8c'' []) (Call ''WC'' [Call ''OC'' [G ''V0'', K (JNum 1)], G ''xue'', K (JNum 330), K (JNum 0), NewArr [G ''O8c'', G ''P8c'', G ''S8c'', G ''Q8c'', G ''R8c'']])]))],
    fn ''fsc'' 0 0 [Do (SetG ''fsc'' (G ''qdb'')), Do (SetG ''esc'' (Call ''gs'' [Seq (Call ''asc'' []) (Call ''WC'' [Call ''OC'' [G ''gW'', K (JNum 1)], G ''xue'', K (JNum 165), K (JNum 0), NewArr [G ''_rc'', G ''Xrc'', G ''Yrc'', G ''Zrc'', G ''$rc'']])]))],
    fn ''$ed'' 0 0 [Do (SetG ''$ed'' (G ''qdb'')), Do (SetG ''Zed'' (Call ''gs'' [Seq (Call ''Ved'' []) (Call ''WC'' [Call ''OC'' [G ''j2'', K (JNum 1)], G ''xue'', K (JNum 160), K (JNum 0), NewArr [G ''Ted'', G ''Sed'', G ''Qed'', G ''Ued'', G ''Red'']])]))],
    fn ''Ljd'' 0 0 [Do (SetG ''Ljd'' (G ''qdb'')), Do (SetG ''Kjd'' (Call ''gs'' [Seq (Call ''Djd'' []) (Call ''WC'' [Call ''OC'' [G ''y2'', K (JNum 1)], G ''xue'', K (JNum 86), K (JNum 0), NewArr [G ''Bjd'', G ''Ajd'', G ''zjd'', G ''yjd'', G ''Cjd'']])]))],
    fn ''Kmd'' 0 0 [Do (SetG ''Kmd'' (G ''qdb'')), Do (SetG ''Jmd'' (Call ''gs'' [Seq (Call ''Bmd'' []) (Call ''WC'' [Call ''OC'' [G ''M2'', K (JNum 1)], G ''sye'', K (JNum 64), K (JNum 0), NewArr [G ''zmd'', G ''hmd'', G ''gmd'', G ''ymd'', G ''Amd'']])]))],
    fn ''Fld'' 0 0 [Do (SetG ''Fld'' (G ''qdb'')), Do (SetG ''Eld'' (Call ''gs'' [Seq (Call ''Ald'' []) (Call ''WC'' [Call ''OC'' [G ''J2'', K (JNum 1)], G ''xue'', K (JNum 257), K (JNum 0), NewArr [G ''xld'', G ''zld'', G ''vld'', G ''wld'', G ''yld'']])]))],
    fn ''vOb'' 0 0 [Do (SetG ''vOb'' (G ''qdb'')), Do (SetG ''tOb'' (New ''wOb'' [K (JStr ''EADES''), K (JNum 0)])), Do (SetG ''uOb'' (New ''wOb'' [K (JStr ''FRUCHTERMAN_REINGOLD''), K (JNum 1)]))],
    fn ''Hoc'' 0 0 [Do (SetG ''Hoc'' (G ''qdb'')), Do (SetG ''Foc'' (New ''Ioc'' [K (JStr ''READING_DIRECTION''), K (JNum 0)])), Do (SetG ''Goc'' (New ''Ioc'' [K (JStr ''ROTATION''), K (JNum 1)]))],
    fn ''BTb'' 1 0 [Do (Put This ''g'' (V 0)), Do (Put This ''f'' (New ''lmb'' [])), Do (Put This ''a'' (Meth (Dot (G ''$wnd'') ''Math'') ''min'' [Dot (Dot (Dot This ''g'') ''c'') ''c'', Dot (Dot (Dot This ''g'') ''d'') ''c'']))],
    fn ''wEb'' 1 0 [Do (Put This ''b'' (New ''lmb'' [])), Do (Put This ''a'' (New ''lmb'' [])), Do (Put This ''c'' (New ''lmb'' [])), Do (Put This ''d'' (New ''lmb'' [])), Do (Put This ''e'' (V 0))],
    fn ''fse'' 4 0 [Do (Call ''gre'' []), Do (Super ''hre'' [K (JNum 26)]), Do (Put This ''c'' (V 0)), Do (Put This ''a'' (V 1)), Do (Put This ''d'' (V 2)), Do (Put This ''b'' (V 3))],
    fn ''xIb'' 3 0 [Do (Super ''uHb'' []), Do (Call ''nIb'' [This]), Do (Put This ''a'' (V 0)), Do (Put This ''c'' (V 2)), Do (Put This ''b'' (Dot (V 1) ''d'')), Do (Put This ''f'' (Dot (V 1) ''e''))],
    fn ''R_b'' 3 2 [Do (SetV 4 (New ''Kmb'' [V 2])), Loop (Bin Lt (Dot (V 4) ''a'') (Dot (Dot (Dot (V 4) ''c'') ''c'') ''length'')) [Do (SetV 3 (Call ''Imb'' [V 4])), Do (Call ''Q_b'' [V 0, V 1, V 3])] []],
    fn ''WNc'' 3 1 [Do (SetV 3 (Bin Minus (Idx (Dot (Dot (V 0) ''a'') ''e'') (Dot (Call ''JD'' [Dot (V 1) ''a'', K (JNum 9)]) ''p'')) (Idx (Dot (Dot (V 0) ''a'') ''e'') (Dot (Call ''JD'' [Dot (V 2) ''a'', K (JNum 9)]) ''p'')))), Ret (Call ''YD'' [Call ''Vfb'' [V 3]])],
    fn ''fbd'' 2 1 [Do (SetV 2 (Call ''JD'' [Call ''ejb'' [Dot (V 0) ''a'', V 1], K (JNum 150)])), When (Neg (V 2)) [Do (SetV 2 (New ''sNb'' [])), Do (Call ''hjb'' [Dot (V 0) ''a'', V 1, V 2])] [], Ret (V 2)],
    fn ''kC'' 3 1 [When (Loose (V 1) (K JNull)) [Raise (Call ''Lcb'' [New ''Xfb'' []])] [], Do (SetV 3 (Call ''iC'' [V 0, V 1])), Do (Call ''lC'' [V 0, V 1, V 2]), Ret (V 3)],
    fn ''IWd'' 2 1 [Do (SetV 2 (Seq (And (Loose (Dot (V 0) ''i'') (K JNull)) (Call ''EWd'' [V 0])) (Dot (V 0) ''i''))), Ret (Cond (And (Bin Ge (V 1) (K (JNum 0))) (Bin Lt (V 1) (Dot (V 2) ''length''))) (Idx (V 2) (V 1)) (K JNull))],
    fn ''Yvb'' 2 0 [Do (Call ''NDb'' [V 1]), Do (Call ''Xvb'' [V 0]), When (Meth (Dot (V 0) ''d'') ''Ob'' []) [Do (Meth (V 1) ''Ad'' [Meth (Dot (V 0) ''d'') ''Pb'' []]), Ret (K (JBool True))] [], Ret (K (JBool False))],
    fn ''Xy'' 1 0 [When (Bin Gt (Call ''Ocb'' [V 0, G ''Ate'']) (K (JNum 0))) [Ret (G ''Ate'')] [], When (Bin Lt (Call ''Ocb'' [V 0, G ''Eue'']) (K (JNum 0))) [Ret (G ''Eue'')] [], Ret (Call ''gdb'' [V 0])],
    fn ''IYc'' 2 0 [Do (Call ''AYc'' []), Ret (Minus1 (Call ''rfb'' [Dot (Call ''JD'' [Call ''oNb'' [V 0, Seq (Call ''SXc'' []) (G ''FXc'')], K (JNum 15)]) ''a'', Dot (Call ''JD'' [Call ''oNb'' [V 1, G ''FXc''], K (JNum 15)]) ''a'']))],
    fn ''bZb'' 0 0 [Do (Call ''$Yb'' []), Ret (Call ''WC'' [Call ''OC'' [G ''QP'', K (JNum 1)], G ''xue'', K (JNum 249), K (JNum 0), NewArr [G ''XYb'', G ''VYb'', G ''TYb'', G ''YYb'', G ''UYb'', G ''SYb'', G ''ZYb'', G ''WYb'']])],
    fn ''wEd'' 0 0 [Do (Call ''tEd'' []), Ret (Call ''WC'' [Call ''OC'' [G ''c5'', K (JNum 1)], G ''xue'', K (JNum 244), K (JNum 0), NewArr [G ''sEd'', G ''pEd'', G ''qEd'', G ''oEd'', G ''rEd'', G ''mEd'', G ''lEd'', G ''nEd'']])],
    fn ''kfd'' 0 0 [Do (Call ''hfd'' []), Ret (Call ''WC'' [Call ''OC'' [G ''k2'', K (JNum 1)], G ''xue'', K (JNum 285), K (JNum 0), NewArr [G ''gfd'', G ''_ed'', G ''dfd'', G ''ffd'', G ''afd'', G ''bfd'', G ''cfd'', G ''efd'']])],
    fn ''tjc'' 0 0 [Do (Call ''qjc'' []), Ret (Call ''WC'' [Call ''OC'' [G ''ZU'', K (JNum 1)], G ''xue'', K (JNum 275), K (JNum 0), NewArr [G ''jjc'', G ''mjc'', G ''ijc'', G ''pjc'', G ''ljc'', G ''kjc'', G ''ojc'', G ''njc'']])],
    fn ''ro'' 2 0 [Ret (Neg (Neg (Call ''Bo'' [V 0, V 1, Call ''gdb'' [Call ''Ycb'' [G ''rue'', Call ''Afb'' [Call ''gdb'' [Call ''Ycb'' [Cond (Loose (V 1) (K JNull)) (K (JNum 0)) (Call ''tb'' [V 1]), G ''sue'']], K (JNum 15)]]]])))],
    fn ''god'' 2 1 [Do (SetV 2 (Cond (Bin Gt (V 1) (K (JNum 0))) (Bin Minus (V 1) (K (JNum 1))) (V 1))), Ret (Call ''kod'' [Call ''lod'' [Call ''mod'' [Call ''nod'' [New ''ood'' [], V 2], Dot (V 0) ''n''], Dot (V 0) ''j''], Dot (V 0) ''k''])],
    fn ''Jyd'' 1 2 [Do (SetV 2 (Seq (SetV 1 (New ''D2d'' [])) (V 1))), Do (Call ''lFd'' [Seq (And (Neg (Dot (V 0) ''q'')) (Put (V 0) ''q'' (New ''P3d'' [G ''D6'', V 0, K (JNum 11), K (JNum 10)]))) (Dot (V 0) ''q''), V 2])],
    fn ''je'' 2 2 [Do (SetV 2 (Call ''JD'' [Call ''Ov'' [Dot (V 0) ''d'', V 1], K (JNum 18)])), When (Neg (V 2)) [Ret (K JNull)] [], Do (SetV 3 (V 1)), Ret (Meth (Dot (V 0) ''e'') ''pc'' [V 3, V 2])],
    fn ''gCb'' 2 1 [Do (Call ''dBb'' [V 0]), Do (SetV 2 (New ''vCb'' [V 0, Meth (Dot (V 0) ''a'') ''xd'' [], Bin BitOr (Meth (Dot (V 0) ''a'') ''wd'' []) (K (JNum 4)), V 1])), Ret (New ''jCb'' [V 0, V 2])],
    fn ''nub'' 1 1 [Do (Call ''RDb'' [Neg (Neg (Dot (V 0) ''c''))]), Do (SetV 1 (Dot (Dot (V 0) ''c'') ''a'')), Do (Call ''bub'' [Dot (V 0) ''d'', Dot (V 0) ''c'']), Do (Cond (Loose (Dot (V 0) ''b'') (Dot (V 0) ''c'')) (Put (V 0) ''b'' (V 1)) (Put (V 0) ''a'' (Bin Minus (Dot (V 0) ''a'') (K (JNum 1))))), Do (Put (V 0) ''c'' (K JNull))]]"

definition code_3706_3731 :: "(string \<times> jfun) list" where
  "code_3706_3731 = [
    fn ''fee'' 4 1 [Do (Put (V 0) ''j'' (K (JNum (- 1)))), Do (Call ''FJd'' [V 0, Call ''tee'' [V 0, V 1, V 2], Seq (Seq (Call ''Aie'' []) (SetV 4 (Meth (Call ''JD'' [V 1, K (JNum 69)]) ''tk'' []))) (Meth (V 4) ''vl'' [V 3])])],
    fn ''WVb'' 6 1 [Do (SetV 6 (Call ''YVb'' [V 3])), Do (Call ''CWb'' [V 6, V 4]), Do (Call ''DWb'' [V 6, V 5]), Do (Call ''Rc'' [Dot (V 0) ''a'', V 3, New ''nWb'' [V 6, V 1, Dot (V 2) ''f'']])],
    fn ''K5c'' 2 0 [Do (Call ''evd'' [V 0, Seq (Call ''P3c'' []) (G ''L3c''), Dot (V 1) ''f'']), Do (Call ''evd'' [V 0, G ''I3c'', Dot (V 1) ''e'']), Do (Call ''evd'' [V 0, G ''K3c'', Dot (V 1) ''d'']), Do (Call ''evd'' [V 0, G ''H3c'', Dot (V 1) ''c''])],
    fn ''qwb'' 2 0 [When (Or (Bin Gt (K (JNum 0)) (V 0)) (Bin Gt (V 0) (V 1))) [Raise (Call ''Lcb'' [New ''Hdb'' [Bin Plus (Bin Plus (Bin Plus (K (JStr ''fromIndex: 0, toIndex: '')) (V 0)) (G ''cwe'')) (V 1)]])] []],
    fn ''oGd'' 1 0 [When (Bin Lt (V 0) (K (JNum 0))) [Raise (Call ''Lcb'' [New ''kfb'' [Bin Plus (K (JStr ''Illegal Capacity: '')) (V 0)]])] [], Do (Put This ''g'' (Meth This ''$i'' [V 0]))],
    fn ''yd'' 1 0 [Do (Put This ''d'' (V 0)), Do (Put This ''c'' (Meth (Meth (Dot (V 0) ''c'') ''vc'' []) ''Jc'' [])), Do (Put This ''b'' (K JNull)), Do (Put This ''a'' (K JNull)), Do (Put This ''e'' (Seq (Call ''ns'' []) (G ''ms'')))],
    fn ''cFd'' 2 1 [Do (SetV 2 (V 0)), Loop (Call ''Rzd'' [V 2]) [Do (SetV 2 (Call ''Rzd'' [V 2])), When (Loose (V 2) (V 1)) [Ret (K (JBool True))] []] [], Ret (K (JBool False))],
    fn ''Mrb'' 2 0 [When (And (Neg (Neg (V 1))) (Loose (Idx (Dot (V 0) ''b'') (Dot (V 1) ''g'')) (V 1))) [Do (Call ''VC'' [Dot (V 0) ''b'', Dot (V 1) ''g'', K JNull]), Do (Put (V 0) ''c'' (Bin Minus (Dot (V 0) ''c'') (K (JNum 1)))), Ret (K (JBool True))] [], Ret (K (JBool False))],
    fn ''bub'' 2 1 [Do (SetV 2 (Dot (V 1) ''c'')), Do (Put (Dot (V 1) ''a'') ''b'' (Dot (V 1) ''b'')), Do (Put (Dot (V 1) ''b'') ''a'' (Dot (V 1) ''a'')), Do (Put (V 1) ''a'' (Put (V 1) ''b'' (K JNull))), Do (Put (V 1) ''c'' (K JNull)), Do (Put (V 0) ''b'' (Bin Minus (Dot (V 0) ''b'') (K (JNum 1)))), Ret (V 2)],
    fn ''vtd'' 2 1 [Do (SetV 2 (Call ''JWd'' [Meth (V 0) ''Ah'' [], V 1])), When (Neg (V 2)) [Raise (Call ''Lcb'' [New ''kfb'' [Bin Plus (Bin Plus (G ''UFe'') (V 1)) (G ''XFe'')]])] [], Ret (V 2)],
    fn ''Cfd'' 1 2 [Do (Call ''qfd'' []), Do (SetV 2 (G ''NCe'')), Do (SetV 1 (K (JNum 0))), Loop (Bin Lt (V 1) (Dot (V 0) ''length'')) [Do (And (Bin Gt (Idx (V 0) (V 1)) (V 2)) (SetV 2 (Idx (V 0) (V 1))))] [Do (Bin Minus (SetV 1 (Bin Minus (V 1) (K (JNum (- 1))))) (K (JNum 1)))], Ret (V 2)],
    fn ''Dkc'' 1 1 [Do (SetV 1 (K (JNum 0))), Loop (Bin Lt (V 1) (Dot (Dot (V 0) ''c'') ''length'')) [Do (Put (Seq (Call ''MDb'' [V 1, Dot (Dot (V 0) ''c'') ''length'']) (Call ''JD'' [Idx (Dot (V 0) ''c'') (V 1), K (JNum 12)])) ''p'' (V 1))] [Do (Bin Minus (SetV 1 (Bin Minus (V 1) (K (JNum (- 1))))) (K (JNum 1)))]],
    fn ''Gkc'' 1 2 [Do (SetV 1 (Dot (Dot (Dot (V 0) ''a'') ''d'') ''j'')), Do (SetV 2 (Dot (Dot (Dot (V 0) ''c'') ''d'') ''j'')), Loop (Neg (Loose (V 1) (V 2))) [Do (Call ''Hrb'' [Dot (V 0) ''b'', V 1]), Do (SetV 1 (Call ''Emd'' [V 1]))] [], Do (Call ''Hrb'' [Dot (V 0) ''b'', V 1])],
    fn ''ax'' 2 3 [Do (SetV 3 (Meth (Dot (V 1) ''a'') ''jd'' [])), Do (SetV 2 (Meth (Call ''JD'' [Meth (Dot (V 1) ''a'') ''kd'' [], K (JNum 18)]) ''gc'' [])), Do (SetV 4 (K (JNum 0))), Loop (Bin Lt (V 4) (V 2)) [Do (Meth (V 0) ''Ad'' [V 3])] [Do (Bin Minus (SetV 4 (Bin Minus (V 4) (K (JNum (- 1))))) (K (JNum 1)))]],
    fn ''cmb'' 2 4 [Do (Call ''NDb'' [V 1]), Do (Seq (Seq (SetV 3 (Dot (V 0) ''c'')) (SetV 4 (K (JNum 0)))) (SetV 5 (Dot (V 3) ''length''))), Loop (Bin Lt (V 4) (V 5)) [Do (SetV 2 (Idx (V 3) (V 4))), Do (Meth (V 1) ''Ad'' [V 2])] [Do (SetV 4 (Bin Minus (V 4) (K (JNum (- 1)))))]],
    fn ''RFc'' 2 4 [Do (Seq (Seq (SetV 3 (Dot (V 0) ''d'')) (SetV 4 (K (JNum 0)))) (SetV 5 (Dot (V 3) ''length''))), Loop (Bin Lt (V 4) (V 5)) [Do (SetV 2 (Idx (V 3) (V 4))), Do (Put (Call ''JFc'' [Dot (V 0) ''g'', V 2]) ''a'' (V 1))] [Do (SetV 4 (Bin Minus (V 4) (K (JNum (- 1)))))]],
    fn ''VEc'' 3 3 [Do (SetV 4 (Idx (V 1) (V 2))), Do (SetV 3 (K (JNum 0))), Loop (Bin Lt (V 3) (Dot (V 4) ''length'')) [Do (SetV 5 (Idx (V 4) (V 3))), Do (PutIdx (Idx (Dot (V 0) ''e'') (Dot (Dot (V 5) ''c'') ''p'')) (Dot (V 5) ''p'') (V 3))] [Do (Bin Minus (SetV 3 (Bin Minus (V 3) (K (JNum (- 1))))) (K (JNum 1)))]],
    fn ''aNc'' 3 2 [Do (SetV 3 (V 1)), Loop (K (JBool True)) [Do (SetV 4 (Bin Plus (Call ''Ueb'' [Idx (Dot (V 0) ''p'') (Dot (V 3) ''p'')]) (V 2))), Do (PutIdx (Dot (V 0) ''p'') (Dot (V 3) ''p'') (V 4)), Do (SetV 3 (Idx (Dot (V 0) ''a'') (Dot (V 3) ''p'')))] [When (Neg (Loose (V 3) (V 1))) [] [Break]]],
    fn ''bgd'' 1 1 [Do (SetV 1 (Meth (Dot (G ''$wnd'') ''Math'') ''sqrt'' [Bin Plus (Bin Times (Dot (V 0) ''a'') (Dot (V 0) ''a'')) (Bin Times (Dot (V 0) ''b'') (Dot (V 0) ''b''))])), When (Bin Gt (V 1) (K (JNum 0))) [Do (Put (V 0) ''a'' (Bin Divide (Dot (V 0) ''a'') (V 1))), Do (Put (V 0) ''b'' (Bin Divide (Dot (V 0) ''b'') (V 1)))] [], Ret (V 0)],
    fn ''_od'' 1 0 [Do (Put This ''b'' (Seq (Call ''Qb'' [V 0]) (New ''nmb'' [V 0]))), Do (Put This ''a'' (New ''lmb'' [])), Do (Put This ''d'' (New ''lmb'' [])), Do (Put This ''e'' (New ''jgd'' []))],
    fn ''nIb'' 1 0 [Do (Put (V 0) ''b'' (Seq (Call ''hIb'' []) (G ''eIb''))), Do (Put (V 0) ''f'' (Seq (Call ''$Ib'' []) (G ''YIb''))), Do (Put (V 0) ''d'' (Seq (Call ''bk'' [K (JNum 2), G ''wue'']) (New ''mmb'' [K (JNum 2)]))), Do (Put (V 0) ''e'' (New ''jgd'' []))],
    fn ''CHb'' 0 0 [Do (SetG ''CHb'' (G ''qdb'')), Do (SetG ''zHb'' (New ''DHb'' [K (JStr ''BEGIN''), K (JNum 0)])), Do (SetG ''AHb'' (New ''DHb'' [G ''Qwe'', K (JNum 1)])), Do (SetG ''BHb'' (New ''DHb'' [K (JStr ''END''), K (JNum 2)]))],
    fn ''Zjd'' 0 0 [Do (SetG ''Zjd'' (G ''qdb'')), Do (SetG ''Wjd'' (New ''$jd'' [G ''Qwe'', K (JNum 0)])), Do (SetG ''Xjd'' (New ''$jd'' [K (JStr ''HEAD''), K (JNum 1)])), Do (SetG ''Yjd'' (New ''$jd'' [K (JStr ''TAIL''), K (JNum 2)]))],
    fn ''AYc'' 0 0 [Do (SetG ''AYc'' (G ''qdb'')), Do (SetG ''zYc'' (Call ''hcd'' [Call ''hcd'' [Call ''hcd'' [Call ''mcd'' [New ''pcd'' [], Seq (Call ''HSc'' []) (G ''ESc'')], Seq (Call ''FVc'' []) (G ''EVc'')], G ''xVc''], G ''BVc'']))],
    fn ''kZc'' 0 0 [Do (SetG ''kZc'' (G ''qdb'')), Do (SetG ''jZc'' (Call ''hcd'' [Call ''hcd'' [Call ''hcd'' [Call ''mcd'' [New ''pcd'' [], Seq (Call ''HSc'' []) (G ''GSc'')], Seq (Call ''FVc'' []) (G ''zVc'')], G ''uVc''], G ''yVc'']))],
    fn ''PHb'' 0 0 [Do (SetG ''PHb'' (G ''qdb'')), Do (SetG ''OHb'' (Dot (Seq (Call ''CHb'' []) (Call ''WC'' [Call ''OC'' [G ''hN'', K (JNum 1)], G ''xue'', K (JNum 237), K (JNum 0), NewArr [G ''zHb'', G ''AHb'', G ''BHb'']])) ''length'')), Do (SetG ''NHb'' (G ''OHb''))]]"

definition code_3733_3744 :: "(string \<times> jfun) list" where
  "code_3733_3744 = [
    fn ''y0d'' 2 2 [Do (SetV 3 (Dot (V 0) ''a'')), Do (SetV 2 (Call ''z0d'' [V 0, V 1, K JNull])), Do (And (And (Neg (Loose (V 3) (V 1))) (Neg (Dot (V 0) ''e''))) (SetV 2 (Call ''B0d'' [V 0, V 1, V 2]))), Do (And (Neg (Neg (V 2))) (Meth (V 2) ''mj'' []))],
    fn ''OVd'' 1 1 [When (Dot (V 0) ''w'') [Ret (Dot (V 0) ''w'')] [Do (SetV 1 (Call ''PVd'' [V 0])), Do (And (And (Neg (Neg (V 1))) (Neg (Meth (V 1) ''Sh'' []))) (Put (V 0) ''w'' (V 1))), Ret (V 1)]],
    fn ''T8d'' 1 1 [When (Loose (V 0) (K JNull)) [Ret (K JNull)] [Do (SetV 1 (Call ''JD'' [V 0, K (JNum 195)])), Ret (Call ''Oxd'' [V 1, Dot (V 1) ''length''])]],
    fn ''fGd'' 2 0 [When (Or (Loose (Dot (V 0) ''g'') (K JNull)) (Bin Ge (V 1) (Dot (V 0) ''i''))) [Raise (Call ''Lcb'' [New ''PLd'' [V 1, Dot (V 0) ''i'']])] [], Ret (Meth (V 0) ''Ui'' [V 1, Idx (Dot (V 0) ''g'') (V 1)])],
    fn ''Nnb'' 2 2 [Do (Call ''Inb'' []), Do (SetV 3 (New ''lmb'' [])), Do (SetV 2 (K (JNum 0))), Loop (Bin Lt (V 2) (V 0)) [Do (Call ''qDb'' [Dot (V 3) ''c'', V 1])] [Do (SetV 2 (Bin Minus (V 2) (K (JNum (- 1)))))], Ret (New ''qqb'' [V 3])],
    fn ''eCb'' 1 0 [Do (Call ''dBb'' [V 0]), Do (Call ''SDb'' [K (JBool True), K (JStr ''n may not be negative'')]), Ret (New ''jCb'' [V 0, New ''WCb'' [Dot (V 0) ''a'']])],
    fn ''yeb'' 1 0 [Ret (Bin Plus (Cond (Neg (Loose (Bin BitAnd (Dot (V 0) ''i'') (K (JNum 2))) (K (JNum 0)))) (K (JStr ''interface '')) (Cond (Neg (Loose (Bin BitAnd (Dot (V 0) ''i'') (K (JNum 1))) (K (JNum 0)))) (K (JStr '''')) (K (JStr ''class '')))) (Seq (Call ''veb'' [V 0]) (Dot (V 0) ''o'')))],
    fn ''KEb'' 2 0 [Ret (Seq (Seq (Call ''Sy'' []) (Call ''Wy'' [G ''Due''])) (Or (Or (Bin Le (Meth (Dot (G ''$wnd'') ''Math'') ''abs'' [Bin Minus (V 0) (V 1)]) (G ''Due'')) (Loose (V 0) (V 1))) (And (Call ''isNaN'' [V 0]) (Call ''isNaN'' [V 1]))))],
    fn ''Uy'' 2 0 [Do (Call ''Sy'' []), Do (Call ''Wy'' [G ''Due'']), Ret (Or (Or (Bin Le (Meth (Dot (G ''$wnd'') ''Math'') ''abs'' [Bin Minus (V 0) (V 1)]) (G ''Due'')) (Loose (V 0) (V 1))) (And (Call ''isNaN'' [V 0]) (Call ''isNaN'' [V 1])))],
    fn ''qic'' 2 0 [Do (Call ''Yhc'' []), Ret (Call ''rfb'' [Bin Minus (Dot (Dot (Dot (V 0) ''b'') ''c'') ''length'') (Dot (Dot (Dot (V 0) ''e'') ''c'') ''length''), Bin Minus (Dot (Dot (Dot (V 1) ''b'') ''c'') ''length'') (Dot (Dot (Dot (V 1) ''e'') ''c'') ''length'')])],
    fn ''uo'' 2 0 [Ret (Call ''Rv'' [Call ''Ao'' [V 0, V 1, Call ''gdb'' [Call ''Ycb'' [G ''rue'', Call ''Afb'' [Call ''gdb'' [Call ''Ycb'' [Cond (Loose (V 1) (K JNull)) (K (JNum 0)) (Call ''tb'' [V 1]), G ''sue'']], K (JNum 15)]]]]])],
    fn ''fRb'' 2 1 [Do (SetV 2 (Call ''igd'' [Call ''Xfd'' [Call ''JD'' [Call ''ejb'' [Dot (V 0) ''g'', V 1], K (JNum 8)]], Call ''Kfd'' [Dot (Call ''JD'' [Call ''ejb'' [Dot (V 0) ''f'', V 1], K (JNum 460)]) ''b'']])), Ret (V 2)]]"

definition code_3747_3773 :: "(string \<times> jfun) list" where
  "code_3747_3773 = [
    fn ''Knc'' 0 0 [Do (SetG ''Knc'' (G ''qdb'')), Do (SetG ''Jnc'' (Call ''gs'' [Seq (Call ''Fnc'' []) (Call ''WC'' [Call ''OC'' [G ''SV'', K (JNum 1)], G ''xue'', K (JNum 231), K (JNum 0), NewArr [G ''Bnc'', G ''Dnc'', G ''Anc'', G ''Cnc'', G ''Enc'', G ''znc'']])]))],
    fn ''gpc'' 0 0 [Do (SetG ''gpc'' (G ''qdb'')), Do (SetG ''fpc'' (Call ''gs'' [Seq (Call ''apc'' []) (Call ''WC'' [Call ''OC'' [G ''ZV'', K (JNum 1)], G ''xue'', K (JNum 284), K (JNum 0), NewArr [G ''Xoc'', G ''Woc'', G ''Zoc'', G ''Yoc'', G ''_oc'', G ''$oc'']])]))],
    fn ''Apc'' 0 0 [Do (SetG ''Apc'' (G ''qdb'')), Do (SetG ''zpc'' (Call ''gs'' [Seq (Call ''vpc'' []) (Call ''WC'' [Call ''OC'' [G ''_V'', K (JNum 1)], G ''xue'', K (JNum 282), K (JNum 0), NewArr [G ''spc'', G ''rpc'', G ''upc'', G ''qpc'', G ''tpc'', G ''ppc'']])]))],
    fn ''Mpc'' 0 0 [Do (SetG ''Mpc'' (G ''qdb'')), Do (SetG ''Lpc'' (Call ''gs'' [Seq (Call ''Hpc'' []) (Call ''WC'' [Call ''OC'' [G ''aW'', K (JNum 1)], G ''xue'', K (JNum 283), K (JNum 0), NewArr [G ''Fpc'', G ''Cpc'', G ''Gpc'', G ''Epc'', G ''Dpc'', G ''Bpc'']])]))],
    fn ''Qgd'' 0 0 [Do (SetG ''Qgd'' (G ''qdb'')), Do (SetG ''Pgd'' (Call ''gs'' [Seq (Call ''Lgd'' []) (Call ''WC'' [Call ''OC'' [G ''t2'', K (JNum 1)], G ''xue'', K (JNum 256), K (JNum 0), NewArr [G ''Fgd'', G ''Igd'', G ''Jgd'', G ''Kgd'', G ''Ggd'', G ''Hgd'']])]))],
    fn ''Tld'' 0 0 [Do (SetG ''Tld'' (G ''qdb'')), Do (SetG ''Sld'' (Call ''gs'' [Seq (Call ''Mld'' []) (Call ''WC'' [Call ''OC'' [G ''K2'', K (JNum 1)], G ''xue'', K (JNum 102), K (JNum 0), NewArr [G ''Lld'', G ''Kld'', G ''Jld'', G ''Gld'', G ''Ild'', G ''Hld'']])]))],
    fn ''fmd'' 0 0 [Do (SetG ''fmd'' (G ''qdb'')), Do (SetG ''emd'' (Call ''gs'' [Seq (Call ''$ld'' []) (Call ''WC'' [Call ''OC'' [G ''L2'', K (JNum 1)], G ''xue'', K (JNum 280), K (JNum 0), NewArr [G ''Yld'', G ''Wld'', G ''Xld'', G ''Vld'', G ''Uld'', G ''Zld'']])]))],
    fn ''thd'' 0 0 [Do (SetG ''thd'' (G ''qdb'')), Do (SetG ''shd'' (Call ''gs'' [Seq (Call ''ohd'' []) (Call ''WC'' [Call ''OC'' [G ''w2'', K (JNum 1)], G ''xue'', K (JNum 299), K (JNum 0), NewArr [G ''nhd'', G ''mhd'', G ''lhd'', G ''jhd'', G ''ihd'', G ''khd'']])]))],
    fn ''ykd'' 0 0 [Do (SetG ''ykd'' (G ''qdb'')), Do (SetG ''xkd'' (Call ''gs'' [Seq (Call ''tkd'' []) (Call ''WC'' [Call ''OC'' [G ''C2'', K (JNum 1)], G ''xue'', K (JNum 328), K (JNum 0), NewArr [G ''rkd'', G ''pkd'', G ''skd'', G ''nkd'', G ''qkd'', G ''okd'']])]))],
    fn ''sld'' 0 0 [Do (Call ''old'' []), Ret (Call ''WC'' [Call ''OC'' [G ''I2'', K (JNum 1)], G ''xue'', K (JNum 96), K (JNum 0), NewArr [G ''gld'', G ''fld'', G ''ild'', G ''nld'', G ''mld'', G ''lld'', G ''jld'', G ''kld'', G ''hld'']])],
    fn ''$md'' 0 0 [Do (SetG ''$md'' (G ''qdb'')), Do (SetG ''Xmd'' (New ''_md'' [G ''yFe'', K (JNum 0)])), Do (SetG ''Ymd'' (New ''_md'' [K (JStr ''PARENT''), K (JNum 1)])), Do (SetG ''Zmd'' (New ''_md'' [K (JStr ''ROOT''), K (JNum 2)]))],
    fn ''mod'' 2 0 [Do (Put (V 0) ''n'' (V 1)), When (Dot (V 0) ''n'') [Do (Put (V 0) ''f'' (New ''lmb'' [])), Do (Put (V 0) ''e'' (New ''lmb'' []))] [Do (Put (V 0) ''f'' (K JNull)), Do (Put (V 0) ''e'' (K JNull))], Ret (V 0)],
    fn ''Yvd'' 2 1 [Do (SetV 2 (Dot (V 0) ''f'')), Do (Put (V 0) ''f'' (V 1)), Do (And (And (Neg (Loose (Bin BitAnd (Dot (V 0) ''Db'') (K (JNum 4))) (K (JNum 0)))) (Loose (Bin BitAnd (Dot (V 0) ''Db'') (K (JNum 1))) (K (JNum 0)))) (Call ''Osd'' [V 0, New ''Y1d'' [V 0, K (JNum 3), V 2, Dot (V 0) ''f'']]))],
    fn ''rvd'' 2 1 [Do (SetV 2 (Dot (V 0) ''a'')), Do (Put (V 0) ''a'' (V 1)), Do (And (And (Neg (Loose (Bin BitAnd (Dot (V 0) ''Db'') (K (JNum 4))) (K (JNum 0)))) (Loose (Bin BitAnd (Dot (V 0) ''Db'') (K (JNum 1))) (K (JNum 0)))) (Call ''Osd'' [V 0, New ''Y1d'' [V 0, K (JNum 0), V 2, Dot (V 0) ''a'']]))],
    fn ''svd'' 2 1 [Do (SetV 2 (Dot (V 0) ''b'')), Do (Put (V 0) ''b'' (V 1)), Do (And (And (Neg (Loose (Bin BitAnd (Dot (V 0) ''Db'') (K (JNum 4))) (K (JNum 0)))) (Loose (Bin BitAnd (Dot (V 0) ''Db'') (K (JNum 1))) (K (JNum 0)))) (Call ''Osd'' [V 0, New ''Y1d'' [V 0, K (JNum 1), V 2, Dot (V 0) ''b'']]))],
    fn ''bxd'' 2 1 [Do (SetV 2 (Dot (V 0) ''b'')), Do (Put (V 0) ''b'' (V 1)), Do (And (And (Neg (Loose (Bin BitAnd (Dot (V 0) ''Db'') (K (JNum 4))) (K (JNum 0)))) (Loose (Bin BitAnd (Dot (V 0) ''Db'') (K (JNum 1))) (K (JNum 0)))) (Call ''Osd'' [V 0, New ''Y1d'' [V 0, K (JNum 3), V 2, Dot (V 0) ''b'']]))],
    fn ''cxd'' 2 1 [Do (SetV 2 (Dot (V 0) ''c'')), Do (Put (V 0) ''c'' (V 1)), Do (And (And (Neg (Loose (Bin BitAnd (Dot (V 0) ''Db'') (K (JNum 4))) (K (JNum 0)))) (Loose (Bin BitAnd (Dot (V 0) ''Db'') (K (JNum 1))) (K (JNum 0)))) (Call ''Osd'' [V 0, New ''Y1d'' [V 0, K (JNum 4), V 2, Dot (V 0) ''c'']]))],
    fn ''$vd'' 2 1 [Do (SetV 2 (Dot (V 0) ''g'')), Do (Put (V 0) ''g'' (V 1)), Do (And (And (Neg (Loose (Bin BitAnd (Dot (V 0) ''Db'') (K (JNum 4))) (K (JNum 0)))) (Loose (Bin BitAnd (Dot (V 0) ''Db'') (K (JNum 1))) (K (JNum 0)))) (Call ''Osd'' [V 0, New ''Y1d'' [V 0, K (JNum 4), V 2, Dot (V 0) ''g'']]))],
    fn ''_vd'' 2 1 [Do (SetV 2 (Dot (V 0) ''i'')), Do (Put (V 0) ''i'' (V 1)), Do (And (And (Neg (Loose (Bin BitAnd (Dot (V 0) ''Db'') (K (JNum 4))) (K (JNum 0)))) (Loose (Bin BitAnd (Dot (V 0) ''Db'') (K (JNum 1))) (K (JNum 0)))) (Call ''Osd'' [V 0, New ''Y1d'' [V 0, K (JNum 5), V 2, Dot (V 0) ''i'']]))],
    fn ''awd'' 2 1 [Do (SetV 2 (Dot (V 0) ''j'')), Do (Put (V 0) ''j'' (V 1)), Do (And (And (Neg (Loose (Bin BitAnd (Dot (V 0) ''Db'') (K (JNum 4))) (K (JNum 0)))) (Loose (Bin BitAnd (Dot (V 0) ''Db'') (K (JNum 1))) (K (JNum 0)))) (Call ''Osd'' [V 0, New ''Y1d'' [V 0, K (JNum 6), V 2, Dot (V 0) ''j'']]))],
    fn ''ixd'' 2 1 [Do (SetV 2 (Dot (V 0) ''j'')), Do (Put (V 0) ''j'' (V 1)), Do (And (And (Neg (Loose (Bin BitAnd (Dot (V 0) ''Db'') (K (JNum 4))) (K (JNum 0)))) (Loose (Bin BitAnd (Dot (V 0) ''Db'') (K (JNum 1))) (K (JNum 0)))) (Call ''Osd'' [V 0, New ''Y1d'' [V 0, K (JNum 1), V 2, Dot (V 0) ''j'']]))],
    fn ''jxd'' 2 1 [Do (SetV 2 (Dot (V 0) ''k'')), Do (Put (V 0) ''k'' (V 1)), Do (And (And (Neg (Loose (Bin BitAnd (Dot (V 0) ''Db'') (K (JNum 4))) (K (JNum 0)))) (Loose (Bin BitAnd (Dot (V 0) ''Db'') (K (JNum 1))) (K (JNum 0)))) (Call ''Osd'' [V 0, New ''Y1d'' [V 0, K (JNum 2), V 2, Dot (V 0) ''k'']]))],
    fn ''b0d'' 2 1 [Do (SetV 2 (Dot (V 0) ''d'')), Do (Put (V 0) ''d'' (V 1)), Do (And (And (Neg (Loose (Bin BitAnd (Dot (V 0) ''Db'') (K (JNum 4))) (K (JNum 0)))) (Loose (Bin BitAnd (Dot (V 0) ''Db'') (K (JNum 1))) (K (JNum 0)))) (Call ''Osd'' [V 0, New ''Z1d'' [V 0, K (JNum 2), V 2, Dot (V 0) ''d'']]))],
    fn ''lUd'' 2 1 [Do (SetV 2 (Dot (V 0) ''s'')), Do (Put (V 0) ''s'' (V 1)), Do (And (And (Neg (Loose (Bin BitAnd (Dot (V 0) ''Db'') (K (JNum 4))) (K (JNum 0)))) (Loose (Bin BitAnd (Dot (V 0) ''Db'') (K (JNum 1))) (K (JNum 0)))) (Call ''Osd'' [V 0, New ''Z1d'' [V 0, K (JNum 4), V 2, Dot (V 0) ''s'']]))],
    fn ''oUd'' 2 1 [Do (SetV 2 (Dot (V 0) ''t'')), Do (Put (V 0) ''t'' (V 1)), Do (And (And (Neg (Loose (Bin BitAnd (Dot (V 0) ''Db'') (K (JNum 4))) (K (JNum 0)))) (Loose (Bin BitAnd (Dot (V 0) ''Db'') (K (JNum 1))) (K (JNum 0)))) (Call ''Osd'' [V 0, New ''Z1d'' [V 0, K (JNum 5), V 2, Dot (V 0) ''t'']]))],
    fn ''MVd'' 2 1 [Do (SetV 2 (Dot (V 0) ''F'')), Do (Put (V 0) ''F'' (V 1)), Do (And (And (Neg (Loose (Bin BitAnd (Dot (V 0) ''Db'') (K (JNum 4))) (K (JNum 0)))) (Loose (Bin BitAnd (Dot (V 0) ''Db'') (K (JNum 1))) (K (JNum 0)))) (Call ''Osd'' [V 0, New ''$1d'' [V 0, K (JNum 1), K (JNum 5), V 2, V 1]]))],
    fn ''ZKd'' 2 1 [Do (SetV 2 (Call ''JD'' [Call ''ejb'' [Seq (Call ''aQd'' []) (G ''_Pd''), V 0], K (JNum 58)])), Ret (Cond (V 2) (Meth (V 2) ''ek'' [V 1]) (Call ''SC'' [G ''aJ'', G ''Gte'', K (JNum 1), V 1, K (JNum 5), K (JNum 1)]))]]"

definition code_3775_3786 :: "(string \<times> jfun) list" where
  "code_3775_3786 = [
    fn ''YEd'' 2 3 [Do (SetV 2 (Seq (Seq (SetV 3 (Seq (Seq (Call ''zsd'' []) (SetV 4 (New ''Dzd'' []))) (V 4))) (And (Neg (Neg (V 1))) (Call ''Azd'' [V 3, V 1]))) (V 3))), Do (Call ''Bzd'' [V 2, V 0]), Ret (V 2)],
    fn ''ZBd'' 3 1 [Do (SetV 3 (Call ''QAd'' [V 2])), Do (Call ''hjb'' [Dot (V 0) ''c'', V 3, V 1]), Do (Call ''hjb'' [Dot (V 0) ''d'', V 1, V 2]), Do (Call ''hjb'' [Dot (V 0) ''e'', V 1, Call ''Gwd'' [V 1]]), Ret (V 1)],
    fn ''Deb'' 6 1 [Do (SetV 6 (Call ''Beb'' [V 0, V 1])), Do (Call ''Peb'' [V 2, V 6]), Do (Put (V 6) ''i'' (Cond (V 4) (K (JNum 8)) (K (JNum 0)))), Do (Put (V 6) ''f'' (V 3)), Do (Put (V 6) ''e'' (V 4)), Do (Put (V 6) ''g'' (V 5)), Ret (V 6)],
    fn ''c2d'' 5 0 [Do (Put This ''d'' (V 1)), Do (Put This ''k'' (V 3)), Do (Put This ''f'' (V 4)), Do (Put This ''o'' (K (JNum (- 1)))), Do (Put This ''p'' (K (JNum 1))), Do (Put This ''c'' (V 0)), Do (Put This ''a'' (V 2))],
    fn ''e2d'' 5 0 [Do (Put This ''d'' (V 1)), Do (Put This ''k'' (V 3)), Do (Put This ''f'' (V 4)), Do (Put This ''o'' (K (JNum (- 1)))), Do (Put This ''p'' (K (JNum 2))), Do (Put This ''c'' (V 0)), Do (Put This ''a'' (V 2))],
    fn ''m2d'' 5 0 [Do (Put This ''d'' (V 1)), Do (Put This ''k'' (V 3)), Do (Put This ''f'' (V 4)), Do (Put This ''o'' (K (JNum (- 1)))), Do (Put This ''p'' (K (JNum 6))), Do (Put This ''c'' (V 0)), Do (Put This ''a'' (V 2))],
    fn ''r2d'' 5 0 [Do (Put This ''d'' (V 1)), Do (Put This ''k'' (V 3)), Do (Put This ''f'' (V 4)), Do (Put This ''o'' (K (JNum (- 1)))), Do (Put This ''p'' (K (JNum 7))), Do (Put This ''c'' (V 0)), Do (Put This ''a'' (V 2))],
    fn ''i2d'' 5 0 [Do (Put This ''d'' (V 1)), Do (Put This ''j'' (V 3)), Do (Put This ''e'' (V 4)), Do (Put This ''o'' (K (JNum (- 1)))), Do (Put This ''p'' (K (JNum 4))), Do (Put This ''c'' (V 0)), Do (Put This ''a'' (V 2))],
    fn ''BEb'' 2 4 [Do (Seq (Seq (SetV 3 (V 1)) (SetV 4 (K (JNum 0)))) (SetV 5 (Dot (V 3) ''length''))), Loop (Bin Lt (V 4) (V 5)) [Do (SetV 2 (Idx (V 3) (V 4))), Do (Call ''xEb'' [Dot (V 0) ''a'', V 2])] [Do (SetV 4 (Bin Minus (V 4) (K (JNum (- 1)))))], Ret (V 0)],
    fn ''yl'' 1 4 [Do (Seq (Seq (SetV 2 (V 0)) (SetV 3 (K (JNum 0)))) (SetV 4 (Dot (V 2) ''length''))), Loop (Bin Lt (V 3) (V 4)) [Do (SetV 1 (Idx (V 2) (V 3))), Do (Call ''Qb'' [V 1])] [Do (SetV 3 (Bin Minus (V 3) (K (JNum (- 1)))))], Ret (New ''Hl'' [V 0])],
    fn ''BNb'' 1 1 [Do (SetV 1 (Call ''igd'' [Call ''Xfd'' [Dot (Dot (V 0) ''d'') ''d''], Dot (Dot (V 0) ''c'') ''d''])), Do (Call ''tfd'' [V 1, Dot (Dot (Dot (V 0) ''c'') ''e'') ''a'', Dot (Dot (Dot (V 0) ''c'') ''e'') ''b'']), Ret (Call ''Vfd'' [V 1, Dot (Dot (V 0) ''c'') ''d''])],
    fn ''CNb'' 1 1 [Do (SetV 1 (Call ''igd'' [Call ''Xfd'' [Dot (Dot (V 0) ''c'') ''d''], Dot (Dot (V 0) ''d'') ''d''])), Do (Call ''tfd'' [V 1, Dot (Dot (Dot (V 0) ''d'') ''e'') ''a'', Dot (Dot (Dot (V 0) ''d'') ''e'') ''b'']), Ret (Call ''Vfd'' [V 1, Dot (Dot (V 0) ''d'') ''d''])]]"

definition code_3788_3810 :: "(string \<times> jfun) list" where
  "code_3788_3810 = [
    fn ''Peb'' 2 2 [When (Neg (V 0)) [Ret (K JUndef)] [], Do (Put (V 1) ''n'' (V 0)), Do (SetV 3 (Call ''Jeb'' [V 1])), When (Neg (V 3)) [Do (PutIdx (G ''odb'') (V 0) (NewArr [V 1])), Ret (K JUndef)] [], Do (Put (V 3) ''Pm'' (V 1))],
    fn ''Rmb'' 3 2 [Do (SetV 4 (Dot (V 0) ''length'')), Do (SetV 3 (Meth (Dot (G ''$wnd'') ''Math'') ''min'' [V 2, V 4])), Do (Call ''mDb'' [V 0, K (JNum 0), V 1, K (JNum 0), V 3, K (JBool True)]), Ret (V 1)],
    fn ''wXd'' 3 0 [Do (Call ''xFd'' [V 0, V 2]), When (And (And (Neg (Meth (V 0) ''il'' [])) (Neg (Loose (V 2) (K JNull)))) (Neg (Meth (V 0) ''dk'' [V 2]))) [Raise (Call ''Lcb'' [New ''Idb'' []])] [], Ret (V 2)],
    fn ''ks'' 2 1 [Do (Call ''NDb'' [V 1]), Do (SetV 2 (Idx (V 0) (Bin Plus (K (JStr '':'')) (V 1)))), Do (Call ''FDb'' [Neg (Neg (V 2)), Bin Plus (K (JStr ''Enum constant undefined: '')) (V 1)]), Ret (V 2)],
    fn ''$Mc'' 2 2 [Do (SetV 2 (Dot (V 0) ''c'')), Do (SetV 3 (Idx (Dot (V 1) ''e'') (Dot (V 0) ''p''))), When (Bin Gt (V 3) (K (JNum 0))) [Ret (Call ''JD'' [Call ''dmb'' [Dot (V 2) ''a'', Bin Minus (V 3) (K (JNum 1))], K (JNum 9)])] [], Ret (K JNull)],
    fn ''Wy'' 1 0 [When (Neg (Bin Ge (V 0) (K (JNum 0)))) [Raise (Call ''Lcb'' [New ''kfb'' [Bin Plus (Bin Plus (K (JStr ''tolerance ('')) (V 0)) (K (JStr '') must be >= 0''))]])] [], Ret (V 0)],
    fn ''vdd'' 0 0 [When (Neg (G ''ndd'')) [Do (SetG ''ndd'' (New ''udd'' [])), Do (Call ''tdd'' [G ''ndd'', Call ''WC'' [Call ''OC'' [G ''H1'', K (JNum 1)], G ''Gte'', K (JNum 148), K (JNum 0), NewArr [New ''wjd'' []]]])] [], Ret (G ''ndd'')],
    fn ''jBc'' 0 0 [Do (SetG ''jBc'' (G ''qdb'')), Do (SetG ''iBc'' (New ''kBc'' [K (JStr ''NO''), K (JNum 0)])), Do (SetG ''gBc'' (New ''kBc'' [G ''hze'', K (JNum 1)])), Do (SetG ''hBc'' (New ''kBc'' [K (JStr ''LOOK_BACK''), K (JNum 2)]))],
    fn ''hoc'' 0 0 [Do (SetG ''hoc'' (G ''qdb'')), Do (SetG ''eoc'' (New ''ioc'' [K (JStr ''ARD''), K (JNum 0)])), Do (SetG ''goc'' (New ''ioc'' [K (JStr ''MSD''), K (JNum 1)])), Do (SetG ''foc'' (New ''ioc'' [K (JStr ''MANUAL''), K (JNum 2)]))],
    fn ''qAc'' 0 0 [Do (SetG ''qAc'' (G ''qdb'')), Do (SetG ''pAc'' (New ''rAc'' [G ''Ywe'', K (JNum 0)])), Do (SetG ''nAc'' (New ''rAc'' [K (JStr ''INPUT''), K (JNum 1)])), Do (SetG ''oAc'' (New ''rAc'' [K (JStr ''OUTPUT''), K (JNum 2)]))],
    fn ''oFd'' 2 1 [Do (SetV 2 (Meth (V 0) ''gc'' [])), When (Or (Bin Lt (V 1) (K (JNum 0))) (Bin Gt (V 1) (V 2))) [Raise (Call ''Lcb'' [New ''rKd'' [V 1, V 2]])] [], Ret (New ''TKd'' [V 0, V 1])],
    fn ''tgd'' 2 4 [Do (Seq (Seq (SetV 3 (V 1)) (SetV 4 (K (JNum 0)))) (SetV 5 (Dot (V 3) ''length''))), Loop (Bin Lt (V 4) (V 5)) [Do (SetV 2 (Idx (V 3) (V 4))), Do (Call ''Wtb'' [V 0, V 2, Dot (Dot (V 0) ''c'') ''b'', Dot (V 0) ''c''])] [Do (SetV 4 (Bin Minus (V 4) (K (JNum (- 1)))))]],
    fn ''yMd'' 2 1 [When (Call ''RD'' [V 1, K (JNum 45)]) [Ret (Meth (Dot (V 0) ''c'') ''Kc'' [V 1])] [Do (SetV 2 (Call ''fMd'' [V 0, V 1])), Do (Call ''AMd'' [V 0, V 1]), Ret (V 2)]],
    fn ''Uyd'' 3 0 [Do (Call ''jUd'' [V 0, V 1]), Do (Call ''jyd'' [V 0, V 2]), Do (Call ''lUd'' [V 0, K (JNum 0)]), Do (Call ''oUd'' [V 0, K (JNum 1)]), Do (Call ''nUd'' [V 0, K (JBool True)]), Do (Call ''mUd'' [V 0, K (JBool True)]), Ret (V 0)],
    fn ''cJd'' 5 0 [Do (Put This ''d'' (V 0)), Do (Put This ''n'' (V 1)), Do (Put This ''g'' (V 2)), Do (Put This ''o'' (V 3)), Do (Put This ''p'' (K (JNum (- 1)))), Do (Or (V 4) (Put This ''o'' (Bin Minus (Bin Minus (K (JNum (- 2))) (V 3)) (K (JNum 1)))))],
    fn ''Phe'' 4 0 [Do (Meth This ''$j'' []), Do (Put This ''a'' (V 1)), Do (Put This ''b'' (V 0)), Do (Put This ''c'' (K JNull)), Do (Put This ''c'' (New ''Qhe'' [This, V 1, V 2, V 3]))],
    fn ''UUd'' 0 0 [Do (Super ''qUd'' []), Do (Put This ''n'' (K (JNum (- 1)))), Do (Put This ''g'' (K JNull)), Do (Put This ''i'' (K JNull)), Do (Put This ''j'' (K JNull)), Do (Put This ''Bb'' (Bin BitOr (Dot This ''Bb'') (G ''hIe'')))],
    fn ''Tlb'' 1 0 [Do (Call ''RDb'' [Bin Ge (Dot (V 0) ''c'') (K (JNum 0))]), When (Bin Lt (Call ''Blb'' [Dot (V 0) ''d'', Dot (V 0) ''c'']) (K (JNum 0))) [Do (Put (V 0) ''a'' (Bin BitAnd (Bin Minus (Dot (V 0) ''a'') (K (JNum 1))) (Bin Minus (Dot (Dot (Dot (V 0) ''d'') ''a'') ''length'') (K (JNum 1))))), Do (Put (V 0) ''b'' (Dot (Dot (V 0) ''d'') ''c''))] [], Do (Put (V 0) ''c'' (K (JNum (- 1))))],
    fn ''y7c'' 2 0 [Do (Put (V 0) ''b'' (Meth (Dot (G ''$wnd'') ''Math'') ''max'' [Dot (V 0) ''b'', Dot (V 1) ''d''])), Do (Put (V 0) ''e'' (Bin Plus (Dot (V 0) ''e'') (Bin Plus (Dot (V 1) ''r'') (Cond (Loose (Dot (Dot (Dot (V 0) ''a'') ''c'') ''length'') (K (JNum 0))) (K (JNum 0)) (Dot (V 0) ''c''))))), Do (Call ''_lb'' [Dot (V 0) ''a'', V 1])],
    fn ''P2b'' 2 0 [Do (Meth (V 1) ''Tg'' [K (JStr ''Hierarchical port constraint processing''), K (JNum 1)]), Do (Call ''Q2b'' [V 0]), Do (Call ''S2b'' [V 0]), Do (Meth (V 1) ''Ug'' [])],
    fn ''Nc'' 1 2 [Do (SetV 2 (Meth (Meth (Dot (V 0) ''c'') ''Bc'' []) ''Jc'' [])), Loop (Meth (V 2) ''Ob'' []) [Do (SetV 1 (Call ''JD'' [Meth (V 2) ''Pb'' [], K (JNum 18)])), Do (Meth (V 1) ''$b'' [])] [], Do (Meth (Dot (V 0) ''c'') ''$b'' []), Do (Put (V 0) ''d'' (K (JNum 0)))],
    fn ''Jt'' 2 2 [Do (Seq (SetV 2 (K (JNum 0))) (SetV 3 (Meth (V 0) ''gc'' []))), Loop (Bin Lt (V 2) (V 3)) [When (Call ''Mub'' [V 1, Meth (V 0) ''Xb'' [V 2]]) [Ret (V 2)] []] [Do (SetV 2 (Bin Minus (V 2) (K (JNum (- 1)))))], Ret (K (JNum (- 1)))],
    fn ''Xi'' 1 4 [Do (Seq (Seq (SetV 2 (Dot (V 0) ''a'')) (SetV 3 (K (JNum 0)))) (SetV 4 (Dot (V 2) ''length''))), Loop (Bin Lt (V 3) (V 4)) [Do (SetV 1 (Idx (V 2) (V 3))), Do (Call ''_mb'' [V 1, Dot (V 1) ''length'', K JNull])] [Do (SetV 3 (Bin Minus (V 3) (K (JNum (- 1)))))]]]"

definition code_3812_3856 :: "(string \<times> jfun) list" where
  "code_3812_3856 = [
    fn ''hHb'' 1 2 [Do (SetV 2 (New ''Kmb'' [Call ''Wrd'' [V 0]])), Loop (Bin Lt (Dot (V 2) ''a'') (Dot (Dot (Dot (V 2) ''c'') ''c'') ''length'')) [Do (SetV 1 (Call ''JD'' [Call ''Imb'' [V 2], K (JNum 685)])), Do (Meth (V 1) ''Zf'' [])] []],
    fn ''yfb'' 1 2 [When (Loose (V 0) (K (JNum 0))) [Ret (K (JNum 32))] [Do (SetV 2 (K (JNum 0))), Do (SetV 1 (K (JNum 1))), Loop (Loose (Bin BitAnd (V 1) (V 0)) (K (JNum 0))) [Do (SetV 2 (Bin Minus (V 2) (K (JNum (- 1)))))] [Do (SetV 1 (Bin Shl (V 1) (K (JNum 1))))], Ret (V 2)]],
    fn ''bk'' 2 0 [When (Bin Lt (V 0) (K (JNum 0))) [Raise (Call ''Lcb'' [New ''kfb'' [Bin Plus (Bin Plus (V 1) (K (JStr '' cannot be negative but was: ''))) (V 0)]])] [], Ret (V 0)],
    fn ''iRb'' 1 0 [Do (Call ''dRb'' []), Do (Put This ''g'' (New ''_rb'' [])), Do (Put This ''f'' (New ''_rb'' [])), Do (Put This ''b'' (New ''_rb'' [])), Do (Put This ''c'' (New ''Np'' [])), Do (Put This ''i'' (V 0))],
    fn ''JWb'' 0 0 [Do (Put This ''f'' (New ''jgd'' [])), Do (Put This ''d'' (New ''jZb'' [])), Do (Put This ''c'' (New ''jgd'' [])), Do (Put This ''a'' (New ''lmb'' [])), Do (Put This ''b'' (New ''lmb'' []))],
    fn ''WCb'' 1 0 [Do (Super ''Ewb'' [Cond (Meth (V 0) ''yd'' [K (JNum 64)]) (Call ''Ufb'' [K (JNum 0), Call ''ddb'' [Meth (V 0) ''xd'' [], K (JNum 1)]]) (G ''fue''), Meth (V 0) ''wd'' []]), Do (Put This ''b'' (K (JNum 1))), Do (Put This ''a'' (V 0))],
    fn ''xec'' 2 3 [Do (SetV 4 (Dot (Dot (V 1) ''c'') ''i'')), Do (SetV 2 (Call ''JD'' [Call ''ejb'' [Dot (V 0) ''f'', V 4], K (JNum 60)])), Do (SetV 3 (Bin Minus (Dot (Dot (V 2) ''d'') ''c'') (Dot (Dot (V 2) ''e'') ''c''))), Do (Call ''cmb'' [Dot (V 1) ''b'', New ''Dfc'' [V 3]])],
    fn ''fp'' 2 0 [Ret (Call ''Mv'' [Call ''Bo'' [Dot (V 0) ''a'', V 1, Call ''gdb'' [Call ''Ycb'' [G ''rue'', Call ''Afb'' [Call ''gdb'' [Call ''Ycb'' [Cond (Loose (V 1) (K JNull)) (K (JNum 0)) (Call ''tb'' [V 1]), G ''sue'']], K (JNum 15)]]]]])],
    fn ''And'' 0 0 [Do (Call ''xnd'' []), Ret (Call ''WC'' [Call ''OC'' [G ''R2'', K (JNum 1)], G ''xue'', K (JNum 266), K (JNum 0), NewArr [G ''qnd'', G ''snd'', G ''pnd'', G ''tnd'', G ''und'', G ''wnd'', G ''vnd'', G ''rnd'', G ''ond'']])],
    fn ''Coc'' 0 0 [Do (Call ''woc'' []), Ret (Call ''WC'' [Call ''OC'' [G ''WV'', K (JNum 1)], G ''xue'', K (JNum 267), K (JNum 0), NewArr [G ''qoc'', G ''ooc'', G ''soc'', G ''toc'', G ''roc'', G ''uoc'', G ''voc'', G ''poc'', G ''noc'']])],
    fn ''Wyc'' 0 0 [Do (Call ''Qyc'' []), Ret (Call ''WC'' [Call ''OC'' [G ''mW'', K (JNum 1)], G ''xue'', K (JNum 268), K (JNum 0), NewArr [G ''Oyc'', G ''Lyc'', G ''Myc'', G ''Iyc'', G ''Kyc'', G ''Pyc'', G ''Nyc'', G ''Hyc'', G ''Jyc'']])],
    fn ''Gfb'' 0 0 [Do (SetG ''Gfb'' (G ''qdb'')), Do (SetG ''Ffb'' (Call ''WC'' [Call ''OC'' [G ''cE'', K (JNum 1)], G ''bve'', K (JNum 30), K (JNum 15), NewArr [K (JNum 0), K (JNum 8), K (JNum 4), K (JNum 12), K (JNum 2), K (JNum 10), K (JNum 6), K (JNum 14), K (JNum 1), K (JNum 9), K (JNum 5), K (JNum 13), K (JNum 3), K (JNum 11), K (JNum 7), K (JNum 15)]]))],
    fn ''HCc'' 0 0 [Do (SetG ''HCc'' (G ''qdb'')), Do (SetG ''GCc'' (Call ''kcd'' [Call ''kcd'' [Call ''kcd'' [New ''pcd'' [], Seq (Call ''YQb'' []) (G ''TQb''), Seq (Call ''X5b'' []) (G ''b5b'')], G ''UQb'', G ''A5b''], G ''VQb'', G ''z5b'']))],
    fn ''SCc'' 0 0 [Do (SetG ''SCc'' (G ''qdb'')), Do (SetG ''RCc'' (Call ''kcd'' [Call ''kcd'' [Call ''kcd'' [New ''pcd'' [], Seq (Call ''YQb'' []) (G ''TQb''), Seq (Call ''X5b'' []) (G ''b5b'')], G ''UQb'', G ''A5b''], G ''VQb'', G ''z5b'']))],
    fn ''kDc'' 0 0 [Do (SetG ''kDc'' (G ''qdb'')), Do (SetG ''jDc'' (Call ''kcd'' [Call ''kcd'' [Call ''kcd'' [New ''pcd'' [], Seq (Call ''YQb'' []) (G ''TQb''), Seq (Call ''X5b'' []) (G ''b5b'')], G ''UQb'', G ''A5b''], G ''VQb'', G ''z5b'']))],
    fn ''FDc'' 0 0 [Do (SetG ''FDc'' (G ''qdb'')), Do (SetG ''EDc'' (Call ''kcd'' [Call ''kcd'' [Call ''kcd'' [New ''pcd'' [], Seq (Call ''YQb'' []) (G ''TQb''), Seq (Call ''X5b'' []) (G ''b5b'')], G ''UQb'', G ''A5b''], G ''VQb'', G ''z5b'']))],
    fn ''NDc'' 0 0 [Do (SetG ''NDc'' (G ''qdb'')), Do (SetG ''MDc'' (Call ''kcd'' [Call ''kcd'' [Call ''kcd'' [New ''pcd'' [], Seq (Call ''YQb'' []) (G ''TQb''), Seq (Call ''X5b'' []) (G ''b5b'')], G ''UQb'', G ''A5b''], G ''VQb'', G ''z5b'']))],
    fn ''jEc'' 0 0 [Do (SetG ''jEc'' (G ''qdb'')), Do (SetG ''iEc'' (Call ''kcd'' [Call ''kcd'' [Call ''kcd'' [New ''pcd'' [], Seq (Call ''YQb'' []) (G ''TQb''), Seq (Call ''X5b'' []) (G ''b5b'')], G ''UQb'', G ''A5b''], G ''VQb'', G ''z5b'']))],
    fn ''qGc'' 0 0 [Do (SetG ''qGc'' (G ''qdb'')), Do (SetG ''pGc'' (Call ''icd'' [Call ''kcd'' [Call ''kcd'' [New ''pcd'' [], Seq (Call ''YQb'' []) (G ''VQb''), Seq (Call ''X5b'' []) (G ''D5b'')], G ''WQb'', G ''t5b''], G ''XQb'', G ''C5b'']))],
    fn ''GYc'' 2 0 [Do (Call ''AYc'' []), Ret (And (Bin Lt (Dot (Call ''JD'' [Call ''oNb'' [V 1, Seq (Call ''SXc'' []) (G ''FXc'')], K (JNum 15)]) ''a'') (Meth (V 0) ''gc'' [])) (Bin Ge (Dot (Call ''JD'' [Call ''oNb'' [V 1, G ''FXc''], K (JNum 15)]) ''a'') (K (JNum 0))))],
    fn ''iod'' 2 0 [When (And (Bin Gt (Dot (V 0) ''r'') (K (JNum 0))) (Bin Lt (Dot (V 0) ''c'') (Dot (V 0) ''r''))) [Do (Put (V 0) ''c'' (Bin Plus (Dot (V 0) ''c'') (V 1))), Do (And (And (And (Neg (Neg (Dot (V 0) ''i''))) (Bin Gt (Dot (Dot (V 0) ''i'') ''d'') (K (JNum 0)))) (Neg (Loose (Dot (V 0) ''g'') (K (JNum 0))))) (Call ''iod'' [Dot (V 0) ''i'', Bin Times (Bin Divide (V 1) (Dot (V 0) ''r'')) (Dot (Dot (V 0) ''i'') ''d'')]))] []],
    fn ''uAd'' 2 1 [Do (SetV 2 (Dot (V 0) ''c'')), Do (Put (V 0) ''c'' (V 1)), Do (And (And (Neg (Loose (Bin BitAnd (Dot (V 0) ''Db'') (K (JNum 4))) (K (JNum 0)))) (Loose (Bin BitAnd (Dot (V 0) ''Db'') (K (JNum 1))) (K (JNum 0)))) (Call ''Osd'' [V 0, New ''$1d'' [V 0, K (JNum 1), K (JNum 1), V 2, Dot (V 0) ''c'']]))],
    fn ''a0d'' 2 1 [Do (SetV 2 (Dot (V 0) ''c'')), Do (Put (V 0) ''c'' (V 1)), Do (And (And (Neg (Loose (Bin BitAnd (Dot (V 0) ''Db'') (K (JNum 4))) (K (JNum 0)))) (Loose (Bin BitAnd (Dot (V 0) ''Db'') (K (JNum 1))) (K (JNum 0)))) (Call ''Osd'' [V 0, New ''$1d'' [V 0, K (JNum 1), K (JNum 4), V 2, Dot (V 0) ''c'']]))],
    fn ''G4d'' 2 1 [Do (SetV 2 (Dot (V 0) ''c'')), Do (Put (V 0) ''c'' (V 1)), Do (And (And (Neg (Loose (Bin BitAnd (Dot (V 0) ''Db'') (K (JNum 4))) (K (JNum 0)))) (Loose (Bin BitAnd (Dot (V 0) ''Db'') (K (JNum 1))) (K (JNum 0)))) (Call ''Osd'' [V 0, New ''$1d'' [V 0, K (JNum 1), K (JNum 1), V 2, Dot (V 0) ''c'']]))],
    fn ''ATd'' 2 1 [Do (SetV 2 (Dot (V 0) ''d'')), Do (Put (V 0) ''d'' (V 1)), Do (And (And (Neg (Loose (Bin BitAnd (Dot (V 0) ''Db'') (K (JNum 4))) (K (JNum 0)))) (Loose (Bin BitAnd (Dot (V 0) ''Db'') (K (JNum 1))) (K (JNum 0)))) (Call ''Osd'' [V 0, New ''$1d'' [V 0, K (JNum 1), K (JNum 1), V 2, Dot (V 0) ''d'']]))],
    fn ''Hvd'' 2 1 [Do (SetV 2 (Dot (V 0) ''k'')), Do (Put (V 0) ''k'' (V 1)), Do (And (And (Neg (Loose (Bin BitAnd (Dot (V 0) ''Db'') (K (JNum 4))) (K (JNum 0)))) (Loose (Bin BitAnd (Dot (V 0) ''Db'') (K (JNum 1))) (K (JNum 0)))) (Call ''Osd'' [V 0, New ''$1d'' [V 0, K (JNum 1), K (JNum 2), V 2, Dot (V 0) ''k'']]))],
    fn ''WVd'' 2 1 [Do (SetV 2 (Dot (V 0) ''D'')), Do (Put (V 0) ''D'' (V 1)), Do (And (And (Neg (Loose (Bin BitAnd (Dot (V 0) ''Db'') (K (JNum 4))) (K (JNum 0)))) (Loose (Bin BitAnd (Dot (V 0) ''Db'') (K (JNum 1))) (K (JNum 0)))) (Call ''Osd'' [V 0, New ''$1d'' [V 0, K (JNum 1), K (JNum 2), V 2, Dot (V 0) ''D'']]))],
    fn ''exd'' 2 1 [Do (SetV 2 (Dot (V 0) ''f'')), Do (Put (V 0) ''f'' (V 1)), Do (And (And (Neg (Loose (Bin BitAnd (Dot (V 0) ''Db'') (K (JNum 4))) (K (JNum 0)))) (Loose (Bin BitAnd (Dot (V 0) ''Db'') (K (JNum 1))) (K (JNum 0)))) (Call ''Osd'' [V 0, New ''$1d'' [V 0, K (JNum 1), K (JNum 8), V 2, Dot (V 0) ''f'']]))],
    fn ''fxd'' 2 1 [Do (SetV 2 (Dot (V 0) ''i'')), Do (Put (V 0) ''i'' (V 1)), Do (And (And (Neg (Loose (Bin BitAnd (Dot (V 0) ''Db'') (K (JNum 4))) (K (JNum 0)))) (Loose (Bin BitAnd (Dot (V 0) ''Db'') (K (JNum 1))) (K (JNum 0)))) (Call ''Osd'' [V 0, New ''$1d'' [V 0, K (JNum 1), K (JNum 7), V 2, Dot (V 0) ''i'']]))],
    fn ''Bzd'' 2 1 [Do (SetV 2 (Dot (V 0) ''a'')), Do (Put (V 0) ''a'' (V 1)), Do (And (And (Neg (Loose (Bin BitAnd (Dot (V 0) ''Db'') (K (JNum 4))) (K (JNum 0)))) (Loose (Bin BitAnd (Dot (V 0) ''Db'') (K (JNum 1))) (K (JNum 0)))) (Call ''Osd'' [V 0, New ''$1d'' [V 0, K (JNum 1), K (JNum 8), V 2, Dot (V 0) ''a'']]))],
    fn ''tAd'' 2 1 [Do (SetV 2 (Dot (V 0) ''b'')), Do (Put (V 0) ''b'' (V 1)), Do (And (And (Neg (Loose (Bin BitAnd (Dot (V 0) ''Db'') (K (JNum 4))) (K (JNum 0)))) (Loose (Bin BitAnd (Dot (V 0) ''Db'') (K (JNum 1))) (K (JNum 0)))) (Call ''Osd'' [V 0, New ''$1d'' [V 0, K (JNum 1), K (JNum 0), V 2, Dot (V 0) ''b'']]))],
    fn ''F4d'' 2 1 [Do (SetV 2 (Dot (V 0) ''b'')), Do (Put (V 0) ''b'' (V 1)), Do (And (And (Neg (Loose (Bin BitAnd (Dot (V 0) ''Db'') (K (JNum 4))) (K (JNum 0)))) (Loose (Bin BitAnd (Dot (V 0) ''Db'') (K (JNum 1))) (K (JNum 0)))) (Call ''Osd'' [V 0, New ''$1d'' [V 0, K (JNum 1), K (JNum 0), V 2, Dot (V 0) ''b'']]))],
    fn ''Pre'' 3 1 [Do (Put (V 0) ''b'' (V 1)), Do (Put (V 0) ''a'' (V 2)), Do (SetV 3 (Cond (Loose (Bin BitAnd (Dot (V 0) ''a'') (K (JNum 512))) (K (JNum 512))) (New ''Tpe'' []) (New ''epe'' []))), Do (Put (V 0) ''c'' (Call ''$oe'' [V 3, Dot (V 0) ''b'', Dot (V 0) ''a'']))],
    fn ''Tee'' 2 0 [Ret (Cond (Call ''Die'' [Dot (V 0) ''e'', V 1]) (Seq (Call ''Aie'' []) (Cond (Call ''JUd'' [V 1]) (New ''Bje'' [V 1, V 0]) (New ''Rie'' [V 1, V 0]))) (New ''Oje'' [V 1, V 0]))],
    fn ''BBb'' 1 2 [When (Bin Gt (K (JNum 0)) (V 0)) [Ret (New ''KBb'' [])] [], Do (SetV 1 (Bin Plus (V 0) (K (JNum 1)))), Do (SetV 2 (New ''DBb'' [V 1, V 0])), Ret (New ''HBb'' [K JNull, V 2])],
    fn ''Qnb'' 2 1 [Do (Call ''Inb'' []), Do (SetV 2 (New ''asb'' [K (JNum 1)])), Do (Cond (Call ''VD'' [V 0]) (Call ''ijb'' [V 2, V 0, V 1]) (Call ''zsb'' [Dot (V 2) ''f'', V 0, V 1])), Ret (New ''Dpb'' [V 2])],
    fn ''Tad'' 2 1 [Do (SetV 2 (New ''OMb'' [])), Do (Call ''JD'' [Dot (V 1) ''b'', K (JNum 68)]), Do (Call ''JD'' [Dot (V 1) ''b'', K (JNum 68)]), Do (Call ''JD'' [Dot (V 1) ''b'', K (JNum 68)]), Do (Call ''cmb'' [Dot (V 1) ''a'', New ''Zad'' [V 0, V 2, V 1]])],
    fn ''dxd'' 2 1 [Do (SetV 2 (Dot (V 0) ''d'')), Do (Put (V 0) ''d'' (V 1)), Do (And (And (Neg (Loose (Bin BitAnd (Dot (V 0) ''Db'') (K (JNum 4))) (K (JNum 0)))) (Loose (Bin BitAnd (Dot (V 0) ''Db'') (K (JNum 1))) (K (JNum 0)))) (Call ''Osd'' [V 0, New ''$1d'' [V 0, K (JNum 1), K (JNum 11), V 2, Dot (V 0) ''d'']]))],
    fn ''xMd'' 2 2 [Do (SetV 3 (Meth (Meth (V 1) ''vc'' []) ''Jc'' [])), Loop (Meth (V 3) ''Ob'' []) [Do (SetV 2 (Call ''JD'' [Meth (V 3) ''Pb'' [], K (JNum 45)])), Do (Call ''wMd'' [V 0, Meth (V 2) ''jd'' [], Meth (V 2) ''kd'' []])] []],
    fn ''MUd'' 2 1 [Do (SetV 2 (Dot (V 0) ''j'')), Do (Put (V 0) ''j'' (V 1)), Do (And (And (Neg (Loose (Bin BitAnd (Dot (V 0) ''Db'') (K (JNum 4))) (K (JNum 0)))) (Loose (Bin BitAnd (Dot (V 0) ''Db'') (K (JNum 1))) (K (JNum 0)))) (Call ''Osd'' [V 0, New ''$1d'' [V 0, K (JNum 1), K (JNum 13), V 2, Dot (V 0) ''j'']]))],
    fn ''$fd'' 2 1 [When (Call ''RD'' [V 1, K (JNum 8)]) [Do (SetV 2 (Call ''JD'' [V 1, K (JNum 8)])), Ret (And (Loose (Dot (V 0) ''a'') (Dot (V 2) ''a'')) (Loose (Dot (V 0) ''b'') (Dot (V 2) ''b'')))] [Ret (K (JBool False))]],
    fn ''L_b'' 1 1 [Do (SetV 1 (Call ''oNb'' [V 0, Seq (Call ''Wrc'' []) (G ''urc'')])), When (Call ''RD'' [V 1, K (JNum 174)]) [Ret (Call ''K_b'' [Call ''JD'' [V 1, K (JNum 174)]])] [], Ret (K JNull)],
    fn ''Qp'' 1 1 [Do (SetV 0 (Meth (Dot (G ''$wnd'') ''Math'') ''max'' [V 0, K (JNum 2)])), Do (SetV 1 (Call ''wfb'' [V 0])), When (Bin Gt (V 0) (V 1)) [Do (SetV 1 (Bin Shl (V 1) (K (JNum 1)))), Ret (Cond (Bin Gt (V 1) (K (JNum 0))) (V 1) (G ''vue''))] [], Ret (V 1)],
    fn ''a1d'' 1 1 [When (Loose (Dot (V 0) ''b'') (K JNull)) [Ret (Seq (Seq (Call ''w1d'' []) (Call ''w1d'' [])) (G ''v1d''))] [], Do (SetV 1 (Cond (Meth (V 0) ''sl'' []) (Meth (V 0) ''rl'' []) (Meth (V 0) ''ql'' []))), Ret (V 1)],
    fn ''Djb'' 1 1 [Do (Call ''KDb'' [Dot (Dot (V 0) ''f'') ''g'', Dot (V 0) ''d'']), Do (Call ''LDb'' [Dot (V 0) ''b'']), Do (Put (V 0) ''c'' (Dot (V 0) ''a'')), Do (SetV 1 (Call ''JD'' [Meth (Dot (V 0) ''a'') ''Pb'' [], K (JNum 45)])), Do (Put (V 0) ''b'' (Call ''Cjb'' [V 0])), Ret (V 1)]]"

definition object_table8 :: "(string \<times> jfun) list" where
  "object_table8 = code_3592_3644 @ code_3646_3700 @ code_3706_3731 @ code_3733_3744 @ code_3747_3773 @ code_3775_3786 @ code_3788_3810 @ code_3812_3856"

text \<open>The names each table declares.\<close>

lemma names_3592_3644 [js_names]: "map fst code_3592_3644 = [
    ''GId'', ''Zcb'', ''yc'', ''Eu'', ''gmb'', ''ntb'', ''emb'', ''cCb'', ''mBb'', ''v3b'',
    ''iUc'', ''nJc'', ''pJc'', ''nEb'', ''Hbd'', ''AAb'', ''aec'', ''ade'', ''bde'', ''Rgc'',
    ''B2d'', ''cQb'', ''hAc'', ''Eec'', ''cRd'', ''a2d'', ''Ob'', ''MA'', ''bMb'', ''Kgb'',
    ''ieb'', ''Jtb'', ''Ejb'', ''utd'', ''rud'', ''ctd'', ''asd'', ''MBd'', ''OBd'', ''PBd'',
    ''NBd'', ''Gqd'', ''jGd'', ''uFd'', ''JUd'', ''or'', ''ktb'', ''tvb'', ''XBb'', ''$Ib'',
    ''wqc'', ''gTb'', ''ED'']"
  by (simp add: code_3592_3644_def fn_def)

lemma names_3646_3700 [js_names]: "map fst code_3646_3700 = [
    ''aB'', ''wD'', ''bzc'', ''PC'', ''Dee'', ''Fee'', ''ZSc'', ''vec'', ''GIc'', ''tte'',
    ''Trb'', ''Tz'', ''Uz'', ''Cu'', ''Du'', ''Wfc'', ''X6b'', ''mmc'', ''nmc'', ''Lgb'',
    ''bRb'', ''Gzc'', ''Thc'', ''X_c'', ''t7c'', ''Y8c'', ''fsc'', ''$ed'', ''Ljd'', ''Kmd'',
    ''Fld'', ''vOb'', ''Hoc'', ''BTb'', ''wEb'', ''fse'', ''xIb'', ''R_b'', ''WNc'', ''fbd'',
    ''kC'', ''IWd'', ''Yvb'', ''Xy'', ''IYc'', ''bZb'', ''wEd'', ''kfd'', ''tjc'', ''ro'',
    ''god'', ''Jyd'', ''je'', ''gCb'', ''nub'']"
  by (simp add: code_3646_3700_def fn_def)

lemma names_3706_3731 [js_names]: "map fst code_3706_3731 = [
    ''fee'', ''WVb'', ''K5c'', ''qwb'', ''oGd'', ''yd'', ''cFd'', ''Mrb'', ''bub'', ''vtd'',
    ''Cfd'', ''Dkc'', ''Gkc'', ''ax'', ''cmb'', ''RFc'', ''VEc'', ''aNc'', ''bgd'', ''_od'',
    ''nIb'', ''CHb'', ''Zjd'', ''AYc'', ''kZc'', ''PHb'']"
  by (simp add: code_3706_3731_def fn_def)

lemma names_3733_3744 [js_names]: "map fst code_3733_3744 = [
    ''y0d'', ''OVd'', ''T8d'', ''fGd'', ''Nnb'', ''eCb'', ''yeb'', ''KEb'', ''Uy'', ''qic'',
    ''uo'', ''fRb'']"
  by (simp add: code_3733_3744_def fn_def)

lemma names_3747_3773 [js_names]: "map fst code_3747_3773 = [
    ''Knc'', ''gpc'', ''Apc'', ''Mpc'', ''Qgd'', ''Tld'', ''fmd'', ''thd'', ''ykd'', ''sld'',
    ''$md'', ''mod'', ''Yvd'', ''rvd'', ''svd'', ''bxd'', ''cxd'', ''$vd'', ''_vd'', ''awd'',
    ''ixd'', ''jxd'', ''b0d'', ''lUd'', ''oUd'', ''MVd'', ''ZKd'']"
  by (simp add: code_3747_3773_def fn_def)

lemma names_3775_3786 [js_names]: "map fst code_3775_3786 = [
    ''YEd'', ''ZBd'', ''Deb'', ''c2d'', ''e2d'', ''m2d'', ''r2d'', ''i2d'', ''BEb'', ''yl'',
    ''BNb'', ''CNb'']"
  by (simp add: code_3775_3786_def fn_def)

lemma names_3788_3810 [js_names]: "map fst code_3788_3810 = [
    ''Peb'', ''Rmb'', ''wXd'', ''ks'', ''$Mc'', ''Wy'', ''vdd'', ''jBc'', ''hoc'', ''qAc'',
    ''oFd'', ''tgd'', ''yMd'', ''Uyd'', ''cJd'', ''Phe'', ''UUd'', ''Tlb'', ''y7c'', ''P2b'',
    ''Nc'', ''Jt'', ''Xi'']"
  by (simp add: code_3788_3810_def fn_def)

lemma names_3812_3856 [js_names]: "map fst code_3812_3856 = [
    ''hHb'', ''yfb'', ''bk'', ''iRb'', ''JWb'', ''WCb'', ''xec'', ''fp'', ''And'', ''Coc'',
    ''Wyc'', ''Gfb'', ''HCc'', ''SCc'', ''kDc'', ''FDc'', ''NDc'', ''jEc'', ''qGc'', ''GYc'',
    ''iod'', ''uAd'', ''a0d'', ''G4d'', ''ATd'', ''Hvd'', ''WVd'', ''exd'', ''fxd'', ''Bzd'',
    ''tAd'', ''F4d'', ''Pre'', ''Tee'', ''BBb'', ''Qnb'', ''Tad'', ''dxd'', ''xMd'', ''MUd'',
    ''$fd'', ''L_b'', ''Qp'', ''a1d'', ''Djb'']"
  by (simp add: code_3812_3856_def fn_def)

end
