(* ===== verification/ObjectTable9.thy ===== *)
theory ObjectTable9
  imports ObjectCode
begin

text \<open>
  Functions of \<open>layout-worker.js\<close>, lines 3858 to 4077, in the order of the file, one per line:
  operations of the runtime's collections, iterators and text buffers, accessors and small algorithms
  of the layout engine, with their loops, \<open>switch\<close> and \<open>try\<close> statements. An entry has the name, the
  number of parameters, the number of further local variables and the body; parameters and locals
  are numbered from 0, the variable of a \<open>catch\<close> has a number of its own, \<open>x++\<close> is \<open>(x=x+1)-1\<close>. Lines
  with a construct outside \<open>jexp\<close> and \<open>jstm\<close> (closures, \<open>in\<close>, floating-point literals, host objects) are
  left out.
\<close>

definition code_3858_3896 :: "(string \<times> jfun) list" where
  "code_3858_3896 = [
    fn ''Hrb'' 2 1 [Do (Call ''NDb'' [V 1]), Do (SetV 2 (Dot (V 1) ''g'')), When (Neg (Idx (Dot (V 0) ''b'') (V 2))) [Do (Call ''VC'' [Dot (V 0) ''b'', V 2, V 1]), Do (Put (V 0) ''c'' (Bin Minus (Dot (V 0) ''c'') (K (JNum (- 1))))), Ret (K (JBool True))] [], Ret (K (JBool False))],
    fn ''uvb'' 2 1 [Do (SetV 2 (Cond (Loose (V 1) (K JNull)) (K (JNum (- 1))) (Call ''emb'' [Dot (V 0) ''b'', V 1, K (JNum 0)]))), When (Bin Lt (V 2) (K (JNum 0))) [Ret (K (JBool False))] [], Do (Call ''vvb'' [V 0, V 2]), Ret (K (JBool True))],
    fn ''vvb'' 2 1 [Do (SetV 2 (Call ''fmb'' [Dot (V 0) ''b'', Bin Minus (Dot (Dot (Dot (V 0) ''b'') ''c'') ''length'') (K (JNum 1))])), When (Bin Lt (V 1) (Dot (Dot (Dot (V 0) ''b'') ''c'') ''length'')) [Do (Call ''imb'' [Dot (V 0) ''b'', V 1, V 2]), Do (Call ''rvb'' [V 0, V 1])] []],
    fn ''eAb'' 2 0 [Do (And (Loose (Dot (Cond (Seq (Call ''oAb'' []) (G ''lAb'')) (K JNull) (Dot (V 1) ''c'')) ''length'') (K (JNum 0))) (Call ''qAb'' [V 1, New ''zAb'' []])), Do (Call ''ijb'' [Dot (V 0) ''a'', Cond (G ''lAb'') (K JNull) (Dot (V 1) ''c''), V 1])],
    fn ''o4d'' 2 1 [Do (SetV 2 (Dot (V 0) ''b'')), Do (Put (V 0) ''b'' (V 1)), Do (And (And (Neg (Loose (Bin BitAnd (Dot (V 0) ''Db'') (K (JNum 4))) (K (JNum 0)))) (Loose (Bin BitAnd (Dot (V 0) ''Db'') (K (JNum 1))) (K (JNum 0)))) (Call ''Osd'' [V 0, New ''$1d'' [V 0, K (JNum 1), K (JNum 21), V 2, Dot (V 0) ''b'']]))],
    fn ''hyb'' 2 2 [Do (SetV 2 (Bin Minus (K (JNum 1)) (V 1))), Do (SetV 3 (Idx (Dot (V 0) ''a'') (V 2))), Do (PutIdx (Dot (V 0) ''a'') (V 2) (Idx (Dot (V 3) ''a'') (V 1))), Do (PutIdx (Dot (V 3) ''a'') (V 1) (V 0)), Do (Put (V 0) ''b'' (K (JBool True))), Do (Put (V 3) ''b'' (K (JBool False))), Ret (V 3)],
    fn ''kcc'' 2 2 [Do (SetV 2 (Call ''JD'' [Call ''oNb'' [V 0, Seq (Call ''nyc'' []) (G ''xxc'')], K (JNum 8)])), Do (SetV 3 (Call ''JD'' [Call ''oNb'' [V 1, G ''xxc''], K (JNum 8)])), Ret (Call ''$eb'' [Dot (V 2) ''b'', Dot (V 3) ''b''])],
    fn ''Qcc'' 1 0 [Do (Super ''yFb'' []), Do (Put This ''b'' (Call ''Ueb'' [Call ''MD'' [Call ''oNb'' [V 0, Seq (Call ''nyc'' []) (G ''Ixc'')]]])), Do (Put This ''a'' (Call ''JD'' [Call ''oNb'' [V 0, G ''iwc''], K (JNum 222)]))],
    fn ''eIc'' 3 0 [Do (Super ''mFc'' [V 0, V 1, V 2]), Do (Put This ''a'' (New ''_rb'' [])), Do (Put This ''b'' (New ''_rb'' [])), Do (Put This ''d'' (New ''hIc'' [This]))],
    fn ''su'' 1 0 [Do (Put This ''e'' (V 0)), Do (Put This ''d'' (New ''isb'' [Call ''Jv'' [Meth (Call ''Ec'' [Dot This ''e'']) ''gc'' []]])), Do (Put This ''c'' (Dot (Dot This ''e'') ''a'')), Do (Put This ''b'' (Dot (Dot This ''e'') ''c''))],
    fn ''KIc'' 1 0 [Do (Put This ''b'' (V 0)), Do (Put This ''a'' (Call ''SC'' [G ''cE'', G ''bve'', K (JNum 30), Bin Plus (V 0) (K (JNum 1)), K (JNum 15), K (JNum 1)])), Do (Put This ''c'' (Call ''SC'' [G ''cE'', G ''bve'', K (JNum 30), V 0, K (JNum 15), K (JNum 1)])), Do (Put This ''d'' (K (JNum 0)))],
    fn ''aJc'' 3 1 [Do (SetV 3 (New ''lmb'' [])), Do (Call ''bJc'' [V 0, V 1, V 3, V 2, K (JBool True), K (JBool True)]), Do (Put (V 0) ''b'' (New ''KIc'' [Dot (Dot (V 3) ''c'') ''length''])), Ret (V 3)],
    fn ''yRc'' 2 2 [Do (SetV 3 (New ''lmb'' [])), Do (SetV 2 (V 1)), Loop (K (JBool True)) [Do (Call ''qDb'' [Dot (V 3) ''c'', V 2]), Do (SetV 2 (Call ''JD'' [Call ''ejb'' [Dot (V 0) ''k'', V 2], K (JNum 17)]))] [When (V 2) [] [Break]], Ret (V 3)],
    fn ''wNc'' 2 1 [Do (SetV 2 (Call ''JD'' [Call ''ejb'' [Dot (V 0) ''c'', V 1], K (JNum 456)])), When (Neg (V 2)) [Do (SetV 2 (New ''DNc'' [])), Do (Put (V 2) ''c'' (V 1)), Do (Call ''hjb'' [Dot (V 0) ''c'', Dot (V 2) ''c'', V 2])] [], Ret (V 2)],
    fn ''xc'' 1 0 [Do (Call ''Ub'' [Neg (Loose (Dot (V 0) ''e'') (K (JNum 3)))]), Switch (Dot (V 0) ''e'') [(Some (JNum 2), [Ret (K (JBool False))]), (Some (JNum 0), [Ret (K (JBool True))])], Ret (Call ''zc'' [V 0])],
    fn ''lPb'' 0 0 [Do (SetG ''lPb'' (G ''qdb'')), Do (SetG ''jPb'' (New ''CEd'' [G ''Yxe''])), Do (SetG ''kPb'' (New ''CEd'' [G ''Zxe''])), Do (SetG ''iPb'' (New ''CEd'' [G ''$xe''])), Do (SetG ''hPb'' (New ''CEd'' [G ''_xe'']))],
    fn ''B2b'' 0 0 [Do (SetG ''B2b'' (G ''qdb'')), Do (SetG ''A2b'' (New ''C2b'' [K (JStr ''TO_INTERNAL_LTR''), K (JNum 0)])), Do (SetG ''z2b'' (New ''C2b'' [K (JStr ''TO_INPUT_DIRECTION''), K (JNum 1)]))],
    fn ''g_c'' 0 0 [Do (SetG ''g_c'' (G ''qdb'')), Do (SetG ''e_c'' (New ''i_c'' [K (JStr ''P1_NODE_PLACEMENT''), K (JNum 0)])), Do (SetG ''f_c'' (New ''i_c'' [K (JStr ''P2_EDGE_ROUTING''), K (JNum 1)]))],
    fn ''vic'' 0 0 [Do (SetG ''vic'' (G ''qdb'')), Do (SetG ''uic'' (New ''wic'' [K (JStr ''START''), K (JNum 0)])), Do (SetG ''tic'' (New ''wic'' [K (JStr ''MIDDLE''), K (JNum 1)])), Do (SetG ''sic'' (New ''wic'' [K (JStr ''END''), K (JNum 2)]))],
    fn ''N6b'' 0 0 [Do (SetG ''N6b'' (G ''qdb'')), Do (SetG ''M6b'' (New ''DEd'' [K (JStr ''edgelabelcenterednessanalysis.includelabel''), Seq (Call ''Qdb'' []) (G ''Odb'')]))],
    fn ''zyc'' 2 0 [Do (Call ''YBb'' [Call ''VBb'' [New ''jCb'' [K JNull, New ''Zvb'' [New ''fkb'' [Dot (V 0) ''b''], K (JNum 1)]], New ''Gpd'' [V 0, V 1]], New ''Kpd'' [V 0, V 1]])],
    fn ''T_b'' 2 0 [Do (Meth (V 1) ''Tg'' [G ''Pye'', K (JNum 1)]), Do (Call ''YBb'' [Call ''XBb'' [New ''jCb'' [K JNull, New ''Zvb'' [Dot (V 0) ''b'', K (JNum 16)]], New ''X_b'' []], New ''Z_b'' []]), Do (Meth (V 1) ''Ug'' [])],
    fn ''tb'' 1 0 [Ret (Cond (Call ''VD'' [V 0]) (Call ''ygb'' [V 0]) (Cond (Call ''TD'' [V 0]) (Call ''Xeb'' [V 0]) (Cond (Call ''SD'' [V 0]) (Call ''Tdb'' [V 0]) (Cond (Call ''QD'' [V 0]) (Meth (V 0) ''Hb'' []) (Cond (Call ''UC'' [V 0]) (Call ''DDb'' [V 0]) (Call ''Az'' [V 0]))))))],
    fn ''Vq'' 2 1 [When (Call ''RD'' [V 1, K (JNum 18)]) [Do (SetV 2 (Call ''JD'' [V 1, K (JNum 18)])), Ret (Meth (V 0) ''Fc'' [V 2])] [], Ret (Call ''or'' [V 0, Meth (Call ''JD'' [Call ''Qb'' [V 1], K (JNum 20)]) ''Jc'' []])],
    fn ''jyd'' 2 1 [Do (SetV 2 (Dot (V 0) ''zb'')), Do (Put (V 0) ''zb'' (V 1)), Do (And (And (Neg (Loose (Bin BitAnd (Dot (V 0) ''Db'') (K (JNum 4))) (K (JNum 0)))) (Loose (Bin BitAnd (Dot (V 0) ''Db'') (K (JNum 1))) (K (JNum 0)))) (Call ''Osd'' [V 0, New ''$1d'' [V 0, K (JNum 1), K (JNum 1), V 2, Dot (V 0) ''zb'']]))],
    fn ''Eyd'' 2 2 [Do (SetV 2 (Seq (SetV 3 (New ''zVd'' [])) (V 3))), Do (Put (V 2) ''n'' (V 1)), Do (Call ''lFd'' [Seq (And (Neg (Dot (V 0) ''s'')) (Put (V 0) ''s'' (New ''P3d'' [G ''J6'', V 0, K (JNum 21), K (JNum 17)]))) (Dot (V 0) ''s''), V 2])],
    fn ''Kyd'' 2 2 [Do (SetV 3 (Seq (SetV 2 (New ''q4d'' [])) (V 2))), Do (Put (V 3) ''n'' (V 1)), Do (Call ''lFd'' [Seq (And (Neg (Dot (V 0) ''s'')) (Put (V 0) ''s'' (New ''P3d'' [G ''J6'', V 0, K (JNum 21), K (JNum 17)]))) (Dot (V 0) ''s''), V 3])],
    fn ''x7c'' 1 2 [Do (SetV 2 (New ''uKd'' [V 0])), Loop (Neg (Loose (Dot (V 2) ''e'') (Meth (Dot (V 2) ''i'') ''gc'' []))) [Do (SetV 1 (Call ''JD'' [Call ''sKd'' [V 2], K (JNum 26)])), Do (Call ''_vd'' [V 1, K (JNum 0)]), Do (Call ''awd'' [V 1, K (JNum 0)])] []],
    fn ''RGc'' 1 2 [Do (SetV 2 (Meth (Meth (Dot (Dot (V 0) ''c'') ''a'') ''ec'' []) ''Jc'' [])), Loop (Meth (V 2) ''Ob'' []) [Do (SetV 1 (Call ''JD'' [Meth (V 2) ''Pb'' [], K (JNum 218)])), Do (Call ''XFc'' [V 1, New ''wIc'' [Dot (V 1) ''f'']])] []],
    fn ''SGc'' 1 2 [Do (SetV 2 (Meth (Meth (Dot (Dot (V 0) ''c'') ''a'') ''ec'' []) ''Jc'' [])), Loop (Meth (V 2) ''Ob'' []) [Do (SetV 1 (Call ''JD'' [Meth (V 2) ''Pb'' [], K (JNum 218)])), Do (Call ''YFc'' [V 1, New ''xIc'' [Dot (V 1) ''e'']])] []],
    fn ''Yyd'' 2 1 [Do (SetV 2 (Dot (V 0) ''xb'')), Do (Put (V 0) ''xb'' (V 1)), Do (And (And (Neg (Loose (Bin BitAnd (Dot (V 0) ''Db'') (K (JNum 4))) (K (JNum 0)))) (Loose (Bin BitAnd (Dot (V 0) ''Db'') (K (JNum 1))) (K (JNum 0)))) (Call ''Osd'' [V 0, New ''$1d'' [V 0, K (JNum 1), K (JNum 3), V 2, Dot (V 0) ''xb'']]))],
    fn ''Zyd'' 2 1 [Do (SetV 2 (Dot (V 0) ''yb'')), Do (Put (V 0) ''yb'' (V 1)), Do (And (And (Neg (Loose (Bin BitAnd (Dot (V 0) ''Db'') (K (JNum 4))) (K (JNum 0)))) (Loose (Bin BitAnd (Dot (V 0) ''Db'') (K (JNum 1))) (K (JNum 0)))) (Call ''Osd'' [V 0, New ''$1d'' [V 0, K (JNum 1), K (JNum 2), V 2, Dot (V 0) ''yb'']]))],
    fn ''Bub'' 2 2 [Do (SetV 2 (Meth (V 0) ''Nc'' [])), Do (Call ''enb'' [V 2, K (JNum 0), Dot (V 2) ''length'', V 1]), Do (SetV 3 (K (JNum 0))), Loop (Bin Lt (V 3) (Dot (V 2) ''length'')) [Do (Meth (V 0) ''fd'' [V 3, Idx (V 2) (V 3)])] [Do (Bin Minus (SetV 3 (Bin Minus (V 3) (K (JNum (- 1))))) (K (JNum 1)))]],
    fn ''vlb'' 3 3 [Do (SetV 5 (Bin Minus (Dot (Dot (V 0) ''a'') ''length'') (K (JNum 1)))), Do (Seq (SetV 4 (Dot (V 0) ''b'')) (SetV 3 (K (JNum 0)))), Loop (Bin Lt (V 3) (V 2)) [Do (Call ''VC'' [V 1, V 3, Idx (Dot (V 0) ''a'') (V 4)])] [Do (Seq (SetV 4 (Bin BitAnd (Bin Plus (V 4) (K (JNum 1))) (V 5))) (SetV 3 (Bin Minus (V 3) (K (JNum (- 1))))))]],
    fn ''xe'' 2 3 [Do (Call ''NDb'' [V 1]), Do (SetV 2 (K (JBool False))), Do (SetV 4 (Meth (V 1) ''Jc'' [])), Loop (Meth (V 4) ''Ob'' []) [Do (SetV 3 (Meth (V 4) ''Pb'' [])), Do (SetV 2 (Bin BitOr (V 2) (Meth (V 0) ''Ec'' [V 3])))] [], Ret (V 2)],
    fn ''Ox'' 1 3 [Do (SetV 1 (K (JNum 0))), Do (SetV 3 (Meth (V 0) ''Jc'' [])), Loop (Meth (V 3) ''Ob'' []) [Do (SetV 2 (Meth (V 3) ''Pb'' [])), Do (SetV 1 (Bin Plus (V 1) (Cond (Neg (Loose (V 2) (K JNull))) (Call ''tb'' [V 2]) (K (JNum 0))))), Do (SetV 1 (Compl (Compl (V 1))))] [], Ret (V 1)],
    fn ''$A'' 1 1 [When (Loose (V 0) (K (JNum 0))) [Ret (K (JStr ''UTC''))] [], When (Bin Lt (V 0) (K (JNum 0))) [Do (SetV 0 (Minus1 (V 0))), Do (SetV 1 (K (JStr ''UTC+'')))] [Do (SetV 1 (K (JStr ''UTC-'')))], Ret (Bin Plus (V 1) (Call ''aB'' [V 0]))],
    fn ''Hhb'' 1 0 [When (Bin Lt (Dot (V 0) ''a'') (K (JNum 54))) [Ret (Cond (Bin Lt (Dot (V 0) ''f'') (K (JNum 0))) (K (JNum (- 1))) (Cond (Bin Gt (Dot (V 0) ''f'') (K (JNum 0))) (K (JNum 1)) (K (JNum 0))))] [], Ret (Dot (Seq (And (Neg (Dot (V 0) ''c'')) (Put (V 0) ''c'' (Call ''yib'' [Call ''Scb'' [Dot (V 0) ''f'']]))) (Dot (V 0) ''c'')) ''e'')],
    fn ''TVd'' 2 0 [When (V 1) [When (Loose (Dot (V 0) ''B'') (K JNull)) [Do (Put (V 0) ''B'' (Dot (V 0) ''D'')), Do (Put (V 0) ''D'' (K JNull))] []] [When (Neg (Loose (Dot (V 0) ''B'') (K JNull))) [Do (Put (V 0) ''D'' (Dot (V 0) ''B'')), Do (Put (V 0) ''B'' (K JNull))] []]]]"

definition code_3898_3972 :: "(string \<times> jfun) list" where
  "code_3898_3972 = [
    fn ''Cib'' 3 3 [Do (SetV 3 (K (JNum 0))), Do (SetV 4 (K (JNum 0))), Loop (Bin Lt (V 4) (V 2)) [Do (SetV 5 (Idx (V 1) (V 4))), Do (PutIdx (V 0) (V 4) (Bin BitOr (Bin Shl (V 5) (K (JNum 1))) (V 3))), Do (SetV 3 (Bin Ushr (V 5) (K (JNum 31))))] [Do (Bin Minus (SetV 4 (Bin Minus (V 4) (K (JNum (- 1))))) (K (JNum 1)))], Do (And (Neg (Loose (V 3) (K (JNum 0)))) (PutIdx (V 0) (V 2) (V 3)))],
    fn ''Fyb'' 6 1 [Do (Put This ''c'' (V 0)), Do (SetV 6 (New ''lmb'' [])), Do (Call ''Zxb'' [V 0, V 6, V 1, Dot (V 0) ''b'', V 2, V 3, V 4, V 5]), Do (Put This ''a'' (New ''Tjb'' [V 6, K (JNum 0)]))],
    fn ''K2c'' 0 0 [Do (Put This ''c'' (New ''C_c'' [K (JNum 0)])), Do (Put This ''b'' (New ''C_c'' [G ''ICe''])), Do (Put This ''d'' (New ''C_c'' [G ''GCe''])), Do (Put This ''a'' (New ''C_c'' [G ''HCe'']))],
    fn ''Umc'' 2 0 [Ret (Call ''Ueb'' [Call ''MD'' [Call ''Sub'' [Call ''dCb'' [Call ''ZBb'' [New ''jCb'' [K JNull, New ''Zvb'' [Dot (Dot (V 0) ''c'') ''b'', K (JNum 16)]], New ''knc'' [V 0]], V 1]]]])],
    fn ''Xmc'' 2 0 [Ret (Call ''Ueb'' [Call ''MD'' [Call ''Sub'' [Call ''dCb'' [Call ''ZBb'' [New ''jCb'' [K JNull, New ''Zvb'' [Dot (Dot (V 0) ''c'') ''b'', K (JNum 16)]], New ''inc'' [V 0]], V 1]]]])],
    fn ''C2c'' 2 2 [Do (SetV 2 (Call ''JD'' [Call ''cvd'' [V 0, Seq (Call ''J1c'' []) (G ''y1c'')], K (JNum 15)])), Do (SetV 3 (Call ''JD'' [Call ''cvd'' [V 1, G ''y1c''], K (JNum 15)])), Ret (Call ''rfb'' [Dot (V 2) ''a'', Dot (V 3) ''a''])],
    fn ''i0c'' 2 1 [Do (Meth (V 1) ''Tg'' [K (JStr ''General Compactor''), K (JNum 1)]), Do (SetV 2 (Call ''S0c'' [Call ''JD'' [Call ''cvd'' [V 0, Seq (Call ''J1c'' []) (G ''r1c'')], K (JNum 386)]])), Do (Meth (V 2) ''Bg'' [V 0])],
    fn ''vYc'' 3 0 [Do (Meth (V 2) ''Tg'' [K (JStr ''DFS Treeifying phase''), K (JNum 1)]), Do (Call ''uYc'' [V 0, V 1]), Do (Call ''sYc'' [V 0, V 1]), Do (Put (V 0) ''a'' (K JNull)), Do (Put (V 0) ''b'' (K JNull)), Do (Meth (V 2) ''Ug'' [])],
    fn ''vgd'' 3 2 [Do (SetV 4 (Call ''Ztb'' [V 0, K (JNum 0)])), Loop (Neg (Loose (Dot (V 4) ''b'') (Dot (Dot (V 4) ''d'') ''c''))) [Do (SetV 3 (Call ''JD'' [Call ''lub'' [V 4], K (JNum 8)])), Do (Put (V 3) ''a'' (Bin Plus (Dot (V 3) ''a'') (V 1))), Do (Put (V 3) ''b'' (Bin Plus (Dot (V 3) ''b'') (V 2)))] [], Ret (V 0)],
    fn ''Ao'' 3 1 [Do (SetV 3 (Idx (Dot (V 0) ''b'') (Bin BitAnd (V 2) (Dot (V 0) ''f'')))), Loop (V 3) [When (And (Loose (V 2) (Dot (V 3) ''a'')) (Call ''Hb'' [V 1, Dot (V 3) ''g''])) [Ret (V 3)] []] [Do (SetV 3 (Dot (V 3) ''b''))], Ret (K JNull)],
    fn ''Bo'' 3 1 [Do (SetV 3 (Idx (Dot (V 0) ''c'') (Bin BitAnd (V 2) (Dot (V 0) ''f'')))), Loop (V 3) [When (And (Loose (V 2) (Dot (V 3) ''f'')) (Call ''Hb'' [V 1, Dot (V 3) ''i''])) [Ret (V 3)] []] [Do (SetV 3 (Dot (V 3) ''d''))], Ret (K JNull)],
    fn ''RBd'' 4 1 [Do (SetV 4 (New ''mC'' [])), Do (Call ''MAd'' [V 4, K (JStr ''x''), Call ''kBd'' [V 0, V 1, Dot (V 3) ''a'']]), Do (Call ''MAd'' [V 4, K (JStr ''y''), Call ''lBd'' [V 0, V 1, Dot (V 3) ''b'']]), Do (Call ''KAd'' [V 2, V 4])],
    fn ''UBd'' 4 1 [Do (SetV 4 (New ''mC'' [])), Do (Call ''MAd'' [V 4, K (JStr ''x''), Call ''kBd'' [V 0, V 1, Dot (V 3) ''a'']]), Do (Call ''MAd'' [V 4, K (JStr ''y''), Call ''lBd'' [V 0, V 1, Dot (V 3) ''b'']]), Do (Call ''KAd'' [V 2, V 4])],
    fn ''Pyd'' 13 0 [Do (Call ''Wyd'' [V 0, V 1, V 2, V 3, V 4, V 5, V 6, V 7, V 8, V 9, V 10, V 11, V 12]), Do (Call ''xVd'' [V 0, K (JBool False)]), Ret (V 0)],
    fn ''PJb'' 7 0 [Do (Super ''es'' [V 0, V 1]), Do (Put This ''d'' (V 2)), Do (Put This ''e'' (V 3)), Do (Put This ''c'' (V 4)), Do (Put This ''b'' (V 5)), Do (Put This ''a'' (Call ''Wu'' [V 6]))],
    fn ''cKb'' 2 0 [Ret (Seq (Seq (Call ''Sy'' []) (Call ''Wy'' [G ''Zwe''])) (Cond (Or (Or (Bin Le (Meth (Dot (G ''$wnd'') ''Math'') ''abs'' [Bin Minus (K (JNum 0)) (V 1)]) (G ''Zwe'')) (Loose (K (JNum 0)) (V 1))) (And (Call ''isNaN'' [K (JNum 0)]) (Call ''isNaN'' [V 1]))) (K (JNum 0)) (Bin Divide (V 0) (V 1))))],
    fn ''XSb'' 2 0 [Do (Call ''TSb'' []), Ret (Or (Or (Or (And (Loose (V 0) (G ''PSb'')) (Loose (V 1) (G ''SSb''))) (And (Loose (V 0) (G ''SSb'')) (Loose (V 1) (G ''PSb'')))) (And (Loose (V 0) (G ''RSb'')) (Loose (V 1) (G ''QSb'')))) (And (Loose (V 0) (G ''QSb'')) (Loose (V 1) (G ''RSb''))))],
    fn ''YSb'' 2 0 [Do (Call ''TSb'' []), Ret (Or (Or (Or (And (Loose (V 0) (G ''PSb'')) (Loose (V 1) (G ''QSb''))) (And (Loose (V 0) (G ''PSb'')) (Loose (V 1) (G ''RSb'')))) (And (Loose (V 0) (G ''SSb'')) (Loose (V 1) (G ''RSb'')))) (And (Loose (V 0) (G ''SSb'')) (Loose (V 1) (G ''QSb''))))],
    fn ''$pc'' 0 0 [Do (Call ''Xpc'' []), Ret (Call ''WC'' [Call ''OC'' [G ''bW'', K (JNum 1)], G ''xue'', K (JNum 261), K (JNum 0), NewArr [G ''Opc'', G ''Qpc'', G ''Rpc'', G ''Spc'', G ''Tpc'', G ''Upc'', G ''Wpc'', G ''Npc'', G ''Ppc'', G ''Vpc'']])],
    fn ''Uzc'' 0 0 [Do (Call ''Rzc'' []), Ret (Call ''WC'' [Call ''OC'' [G ''qW'', K (JNum 1)], G ''xue'', K (JNum 243), K (JNum 0), NewArr [G ''Pzc'', G ''Kzc'', G ''Nzc'', G ''Lzc'', G ''Mzc'', G ''Hzc'', G ''Ozc'', G ''Qzc'', G ''Izc'', G ''Jzc'']])],
    fn ''yWd'' 0 0 [Do (SetG ''yWd'' (G ''qdb'')), Do (SetG ''vWd'' (New ''v_d'' [])), Do (SetG ''xWd'' (Call ''WC'' [Call ''OC'' [G ''J6'', K (JNum 1)], G ''wIe'', K (JNum 179), K (JNum 0), NewArr []])), Do (SetG ''wWd'' (Call ''WC'' [Call ''OC'' [G ''D6'', K (JNum 1)], G ''xIe'', K (JNum 62), K (JNum 0), NewArr []]))],
    fn ''qZb'' 0 0 [Do (SetG ''qZb'' (G ''qdb'')), Do (SetG ''nZb'' (New ''d$b'' [])), Do (SetG ''lZb'' (New ''$Zb'' [])), Do (SetG ''mZb'' (New ''h$b'' [])), Do (SetG ''kZb'' (New ''l$b'' [])), Do (SetG ''oZb'' (New ''p$b'' [])), Do (SetG ''pZb'' (New ''t$b'' []))],
    fn ''o4b'' 2 0 [Do (Meth (V 1) ''Tg'' [G ''Pye'', K (JNum 1)]), Do (Call ''oHb'' [Call ''nHb'' [New ''sHb'' [Seq (Call ''OWb'' []) (New ''$Wb'' [V 0, K (JBool False), K (JBool False), New ''GXb'' []])]]]), Do (Meth (V 1) ''Ug'' [])],
    fn ''jBb'' 1 1 [Do (SetV 1 (Call ''iBb'' [V 0])), When (Call ''Rcb'' [Dot (V 1) ''a'', K (JNum 0)]) [Ret (Seq (Seq (Call ''$ub'' []) (Call ''$ub'' [])) (G ''Zub''))] [], Ret (Seq (Call ''$ub'' []) (New ''dvb'' [Dot (V 1) ''b'']))],
    fn ''kBb'' 1 1 [Do (SetV 1 (Call ''iBb'' [V 0])), When (Call ''Rcb'' [Dot (V 1) ''a'', K (JNum 0)]) [Ret (Seq (Seq (Call ''$ub'' []) (Call ''$ub'' [])) (G ''Zub''))] [], Ret (Seq (Call ''$ub'' []) (New ''dvb'' [Dot (V 1) ''c'']))],
    fn ''GBb'' 1 1 [Do (SetV 1 (Call ''FBb'' [V 0])), When (Call ''Rcb'' [Dot (V 1) ''a'', K (JNum 0)]) [Ret (Seq (Seq (Call ''ivb'' []) (Call ''ivb'' [])) (G ''hvb''))] [], Ret (Seq (Call ''ivb'' []) (New ''lvb'' [Dot (V 1) ''b'']))],
    fn ''lWb'' 1 0 [When (Loose (Dot (Dot (Dot (Dot (V 0) ''b'') ''c'') ''i'') ''k'') (Seq (Call ''$Yb'' []) (G ''TYb''))) [Ret (Call ''JD'' [Call ''oNb'' [Dot (Dot (Dot (V 0) ''b'') ''c'') ''i'', Seq (Call ''Wrc'' []) (G ''urc'')], K (JNum 12)])] [], Ret (Dot (Dot (V 0) ''b'') ''c'')],
    fn ''mWb'' 1 0 [When (Loose (Dot (Dot (Dot (Dot (V 0) ''b'') ''d'') ''i'') ''k'') (Seq (Call ''$Yb'' []) (G ''TYb''))) [Ret (Call ''JD'' [Call ''oNb'' [Dot (Dot (Dot (V 0) ''b'') ''d'') ''i'', Seq (Call ''Wrc'' []) (G ''urc'')], K (JNum 12)])] [], Ret (Dot (Dot (V 0) ''b'') ''d'')],
    fn ''a2b'' 1 0 [Switch (Dot (V 0) ''g'') [(Some (JNum 2), [Ret (Seq (Call ''Bmd'' []) (G ''Amd''))]), (Some (JNum 4), [Ret (Seq (Call ''Bmd'' []) (G ''gmd''))]), (None, [Ret (V 0)])]],
    fn ''b2b'' 1 0 [Switch (Dot (V 0) ''g'') [(Some (JNum 1), [Ret (Seq (Call ''Bmd'' []) (G ''ymd''))]), (Some (JNum 3), [Ret (Seq (Call ''Bmd'' []) (G ''hmd''))]), (None, [Ret (V 0)])]],
    fn ''Tpd'' 2 1 [Do (SetV 2 (Call ''Ypd'' [V 0])), Ret (Call ''Spd'' [New ''lgd'' [Dot (V 2) ''c'', Dot (V 2) ''d''], New ''lgd'' [Dot (V 2) ''b'', Dot (V 2) ''a''], Meth (V 0) ''Kf'' [], V 1, Meth (V 0) ''$f'' []])],
    fn ''Ld'' 2 2 [Do (Call ''NDb'' [V 1]), Do (SetV 3 (Meth (Meth (V 1) ''vc'' []) ''Jc'' [])), Loop (Meth (V 3) ''Ob'' []) [Do (SetV 2 (Call ''JD'' [Meth (V 3) ''Pb'' [], K (JNum 45)])), Do (Meth (V 0) ''yc'' [Meth (V 2) ''jd'' [], Meth (V 2) ''kd'' []])] []],
    fn ''ree'' 3 1 [Do (SetV 3 (Meth (V 2) ''Jc'' [])), Loop (Meth (V 3) ''Ob'' []) [When (Neg (Call ''pee'' [V 0, V 1, Meth (V 3) ''Pb'' []])) [Ret (K (JBool False))] []] [], Ret (K (JBool True))],
    fn ''qr'' 2 1 [Do (Call ''Qb'' [V 1]), Loop (Meth (V 0) ''Ob'' []) [Do (SetV 2 (Meth (V 0) ''Pb'' [])), When (Neg (Call ''ZOc'' [Call ''JD'' [V 2, K (JNum 9)]])) [Ret (K (JBool False))] []] [], Ret (K (JBool True))],
    fn ''d5d'' 5 1 [When (V 2) [Do (SetV 5 (Call ''OWd'' [Meth (V 1) ''Ah'' [], Dot (V 0) ''c''])), Do (SetV 4 (Meth (V 2) ''Oh'' [V 1, Bin Minus (K (JNum (- 1))) (Cond (Loose (V 5) (K (JNum (- 1)))) (V 3) (V 5)), K JNull, V 4]))] [], Ret (V 4)],
    fn ''e5d'' 5 1 [When (V 2) [Do (SetV 5 (Call ''OWd'' [Meth (V 1) ''Ah'' [], Dot (V 0) ''c''])), Do (SetV 4 (Meth (V 2) ''Qh'' [V 1, Bin Minus (K (JNum (- 1))) (Cond (Loose (V 5) (K (JNum (- 1)))) (V 3) (V 5)), K JNull, V 4]))] [], Ret (V 4)],
    fn ''cib'' 1 1 [When (Loose (Dot (V 0) ''b'') (K (JNum (- 2)))) [When (Loose (Dot (V 0) ''e'') (K (JNum 0))) [Do (SetV 1 (K (JNum (- 1))))] [Do (SetV 1 (K (JNum 0))), Loop (Loose (Idx (Dot (V 0) ''a'') (V 1)) (K (JNum 0))) [] [Do (Bin Minus (SetV 1 (Bin Minus (V 1) (K (JNum (- 1))))) (K (JNum 1)))]], Do (Put (V 0) ''b'' (V 1))] [], Ret (Dot (V 0) ''b'')],
    fn ''pib'' 1 0 [Do (Call ''NDb'' [V 0]), When (Loose (Dot (V 0) ''length'') (K (JNum 0))) [Raise (Call ''Lcb'' [New ''dgb'' [K (JStr ''Zero length BigInteger'')]])] [], Do (Call ''wib'' [This, V 0])],
    fn ''pGd'' 1 0 [Do (Put This ''i'' (Meth (V 0) ''gc'' [])), When (Bin Gt (Dot This ''i'') (K (JNum 0))) [Do (Put This ''g'' (Meth This ''$i'' [Bin Plus (Bin Plus (Dot This ''i'') (Bin DivInt (Dot This ''i'') (K (JNum 8)))) (K (JNum 1))])), Do (Meth (V 0) ''Oc'' [Dot This ''g''])] []],
    fn ''ogc'' 3 0 [Do (Put This ''g'' (V 0)), Do (Put This ''d'' (V 1)), Do (Put This ''e'' (V 2)), Do (Put This ''a'' (New ''lmb'' [])), Do (Call ''mgc'' [This]), Do (Call ''Inb'' []), Do (Call ''jmb'' [Dot This ''a'', K JNull])],
    fn ''Y6c'' 2 0 [Do (Put (V 1) ''q'' (V 0)), Do (Put (V 0) ''d'' (Meth (Dot (G ''$wnd'') ''Math'') ''max'' [Dot (V 0) ''d'', Dot (V 1) ''r''])), Do (Put (V 0) ''b'' (Bin Plus (Dot (V 0) ''b'') (Bin Plus (Dot (V 1) ''d'') (Cond (Loose (Dot (Dot (Dot (V 0) ''a'') ''c'') ''length'') (K (JNum 0))) (K (JNum 0)) (Dot (V 0) ''c''))))), Do (Call ''_lb'' [Dot (V 0) ''a'', V 1])],
    fn ''k7b'' 2 0 [Ret (Cond (Bin Lt (V 1) (Meth (Dot (V 0) ''b'') ''gc'' [])) (Call ''JD'' [Meth (Dot (V 0) ''b'') ''Xb'' [V 1], K (JNum 9)]) (Cond (Loose (V 1) (Meth (Dot (V 0) ''b'') ''gc'' [])) (Dot (V 0) ''a'') (Call ''JD'' [Call ''dmb'' [Dot (V 0) ''e'', Bin Minus (Bin Minus (V 1) (Meth (Dot (V 0) ''b'') ''gc'' [])) (K (JNum 1))], K (JNum 9)])))],
    fn ''Vdb'' 2 0 [Do (Call ''Qdb'' []), Ret (Cond (Call ''VD'' [V 0]) (Call ''tgb'' [V 0, Call ''OD'' [V 1]]) (Cond (Call ''TD'' [V 0]) (Call ''Teb'' [V 0, Call ''MD'' [V 1]]) (Cond (Call ''SD'' [V 0]) (Call ''Sdb'' [V 0, Call ''LD'' [V 1]]) (Meth (V 0) ''Dd'' [V 1]))))],
    fn ''dic'' 1 3 [Ret (And (Loose (Dot (V 0) ''j'') (Seq (Call ''Bmd'' []) (G ''hmd''))) (Seq (Seq (Seq (SetV 1 (Call ''fic'' [V 0])) (SetV 2 (Call ''Krb'' [V 1, G ''gmd'']))) (SetV 3 (Call ''Krb'' [V 1, G ''Amd'']))) (Or (V 3) (And (V 3) (V 2)))))],
    fn ''O6b'' 1 3 [Do (SetV 3 (K (JNum 0))), Do (SetV 2 (New ''Kmb'' [Dot (V 0) ''b''])), Loop (Bin Lt (Dot (V 2) ''a'') (Dot (Dot (Dot (V 2) ''c'') ''c'') ''length'')) [Do (SetV 1 (Call ''JD'' [Call ''Imb'' [V 2], K (JNum 25)])), Do (Put (V 1) ''p'' (V 3)), Do (SetV 3 (Bin Minus (V 3) (K (JNum (- 1)))))] []],
    fn ''wgd'' 2 2 [Do (SetV 3 (Call ''Ztb'' [V 0, K (JNum 0)])), Loop (Neg (Loose (Dot (V 3) ''b'') (Dot (Dot (V 3) ''d'') ''c''))) [Do (SetV 2 (Call ''JD'' [Call ''lub'' [V 3], K (JNum 8)])), Do (Put (V 2) ''a'' (Bin Plus (Dot (V 2) ''a'') (Dot (V 1) ''a''))), Do (Put (V 2) ''b'' (Bin Plus (Dot (V 2) ''b'') (Dot (V 1) ''b'')))] [], Ret (V 0)],
    fn ''ufd'' 2 4 [Do (SetV 4 (Dot (V 0) ''c'')), Do (SetV 2 (Bin Plus (Dot (V 0) ''c'') (Dot (V 0) ''b''))), Do (SetV 5 (Dot (V 0) ''d'')), Do (SetV 3 (Bin Plus (Dot (V 0) ''d'') (Dot (V 0) ''a''))), Ret (And (And (And (Bin Gt (Dot (V 1) ''a'') (V 4)) (Bin Lt (Dot (V 1) ''a'') (V 2))) (Bin Gt (Dot (V 1) ''b'') (V 5))) (Bin Lt (Dot (V 1) ''b'') (V 3)))],
    fn ''PTd'' 2 1 [When (Call ''RD'' [V 1, K (JNum 92)]) [Do (Meth (Call ''JD'' [Dot (V 0) ''c'', K (JNum 78)]) ''Ek'' []), Do (SetV 2 (Call ''JD'' [V 1, K (JNum 92)])), Do (Call ''xMd'' [V 0, V 2])] [Do (Meth (Call ''JD'' [Dot (V 0) ''c'', K (JNum 78)]) ''Wb'' [V 1])]],
    fn ''Jub'' 2 2 [Do (Call ''NDb'' [V 1]), Do (SetV 3 (Meth (Meth (V 0) ''vc'' []) ''Jc'' [])), Loop (Meth (V 3) ''Ob'' []) [Do (SetV 2 (Call ''JD'' [Meth (V 3) ''Pb'' [], K (JNum 45)])), Do (Meth (V 1) ''Wd'' [Meth (V 2) ''jd'' [], Meth (V 2) ''kd'' []])] []],
    fn ''ffe'' 2 0 [Do (Super ''Xde'' [G ''Tab'', V 0, V 1]), Do (Put This ''b'' This), Do (Put This ''a'' (Call ''Cie'' [Meth (V 0) ''Ah'' [], Call ''IWd'' [Meth (Dot This ''e'') ''Ah'' [], Dot This ''c'']]))],
    fn ''Fjb'' 1 0 [Do (Put This ''f'' (V 0)), Do (Put This ''e'' (New ''Ysb'' [Dot (Dot This ''f'') ''i''])), Do (Put This ''a'' (Dot This ''e'')), Do (Put This ''b'' (Call ''Cjb'' [This])), Do (Put This ''d'' (Dot (Dot This ''f'') ''g''))],
    fn ''zdb'' 4 1 [Do (SetV 4 (Dot (Dot (V 0) ''a'') ''length'')), Do (Cond (Bin Gt (V 2) (V 4)) (SetV 2 (V 4)) (Call ''UDb'' [V 1, Bin Plus (V 2) (K (JNum 1))])), Do (Put (V 0) ''a'' (Bin Plus (Bin Plus (Call ''Jgb'' [Dot (V 0) ''a'', K (JNum 0), V 1]) (Bin Plus (K (JStr '''')) (V 3))) (Call ''Igb'' [Dot (V 0) ''a'', V 2])))],
    fn ''Syd'' 4 0 [Do (And (Call ''RD'' [Dot (V 0) ''Cb'', K (JNum 184)]) (Put (Call ''JD'' [Dot (V 0) ''Cb'', K (JNum 184)]) ''tb'' (K JNull))), Do (Call ''jyd'' [V 0, V 2]), Do (And (Neg (Neg (V 1))) (Call ''UVd'' [V 0, V 1])), Do (And (V 3) (Meth (V 0) ''el'' [K (JBool True)]))],
    fn ''mfd'' 0 0 [Do (SetG ''mfd'' (G ''qdb'')), Do (SetG ''lfd'' (Call ''gs'' [Seq (Call ''hfd'' []) (Call ''WC'' [Call ''OC'' [G ''k2'', K (JNum 1)], G ''xue'', K (JNum 285), K (JNum 0), NewArr [G ''gfd'', G ''_ed'', G ''dfd'', G ''ffd'', G ''afd'', G ''bfd'', G ''cfd'', G ''efd'']])]))],
    fn ''yEd'' 0 0 [Do (SetG ''yEd'' (G ''qdb'')), Do (SetG ''xEd'' (Call ''gs'' [Seq (Call ''tEd'' []) (Call ''WC'' [Call ''OC'' [G ''c5'', K (JNum 1)], G ''xue'', K (JNum 244), K (JNum 0), NewArr [G ''sEd'', G ''pEd'', G ''qEd'', G ''oEd'', G ''rEd'', G ''mEd'', G ''lEd'', G ''nEd'']])]))],
    fn ''dZb'' 0 0 [Do (SetG ''dZb'' (G ''qdb'')), Do (SetG ''cZb'' (Call ''gs'' [Seq (Call ''$Yb'' []) (Call ''WC'' [Call ''OC'' [G ''QP'', K (JNum 1)], G ''xue'', K (JNum 249), K (JNum 0), NewArr [G ''XYb'', G ''VYb'', G ''TYb'', G ''YYb'', G ''UYb'', G ''SYb'', G ''ZYb'', G ''WYb'']])]))],
    fn ''vjc'' 0 0 [Do (SetG ''vjc'' (G ''qdb'')), Do (SetG ''ujc'' (Call ''gs'' [Seq (Call ''qjc'' []) (Call ''WC'' [Call ''OC'' [G ''ZU'', K (JNum 1)], G ''xue'', K (JNum 275), K (JNum 0), NewArr [G ''jjc'', G ''mjc'', G ''ijc'', G ''pjc'', G ''ljc'', G ''kjc'', G ''ojc'', G ''njc'']])]))],
    fn ''JVc'' 0 0 [Do (Call ''FVc'' []), Ret (Call ''WC'' [Call ''OC'' [G ''y$'', K (JNum 1)], G ''xue'', K (JNum 264), K (JNum 0), NewArr [G ''EVc'', G ''xVc'', G ''BVc'', G ''CVc'', G ''AVc'', G ''wVc'', G ''DVc'', G ''uVc'', G ''zVc'', G ''yVc'', G ''vVc'']])],
    fn ''DGc'' 0 0 [Do (SetG ''DGc'' (G ''qdb'')), Do (SetG ''CGc'' (Call ''hcd'' [Call ''lcd'' [Call ''kcd'' [Call ''kcd'' [New ''pcd'' [], Seq (Call ''YQb'' []) (G ''VQb''), Seq (Call ''X5b'' []) (G ''D5b'')], G ''WQb'', G ''t5b''], G ''XQb''], G ''C5b'']))],
    fn ''mIc'' 0 0 [Do (SetG ''mIc'' (G ''qdb'')), Do (SetG ''lIc'' (Call ''hcd'' [Call ''lcd'' [Call ''kcd'' [Call ''kcd'' [New ''pcd'' [], Seq (Call ''YQb'' []) (G ''VQb''), Seq (Call ''X5b'' []) (G ''D5b'')], G ''WQb'', G ''t5b''], G ''XQb''], G ''C5b'']))],
    fn ''hAb'' 0 1 [When (Neg (G ''dAb'')) [Do (SetG ''dAb'' (New ''gAb'' [])), Do (SetV 0 (New ''wAb'' [K (JStr '''')])), Do (Call ''uAb'' [V 0, Seq (Call ''$zb'' []) (G ''Zzb'')]), Do (Call ''eAb'' [G ''dAb'', V 0])] [], Ret (G ''dAb'')],
    fn ''wKb'' 1 0 [Do (Call ''uKb'' []), When (Meth (Dot (V 0) ''A'') ''Gc'' [Seq (Call ''ind'' []) (G ''end'')]) [When (Neg (Meth (Dot (V 0) ''B'') ''Gc'' [Seq (Call ''xnd'' []) (G ''snd'')])) [Ret (Call ''vKb'' [V 0])] []] [], Ret (K JNull)],
    fn ''Zcd'' 2 1 [Do (SetV 2 (Call ''pdd'' [Call ''vdd'' [], V 0])), When (V 2) [Do (Call ''evd'' [V 1, Seq (Call ''vjd'' []) (G ''Rid''), V 2]), Ret (K (JBool True))] [Ret (K (JBool False))]],
    fn ''jcd'' 2 1 [Do (SetV 2 (K (JNum 0))), Loop (Bin Lt (V 2) (Dot (Dot (Dot (V 1) ''j'') ''c'') ''length'')) [Do (Meth (Call ''JD'' [Call ''Hbd'' [V 0, V 2], K (JNum 22)]) ''Fc'' [Call ''JD'' [Call ''Hbd'' [V 1, V 2], K (JNum 18)]])] [Do (Bin Minus (SetV 2 (Bin Minus (V 2) (K (JNum (- 1))))) (K (JNum 1)))], Ret (V 0)],
    fn ''R6b'' 2 2 [Do (SetV 3 (New ''Kmb'' [Dot (V 1) ''b''])), Loop (Bin Lt (Dot (V 3) ''a'') (Dot (Dot (Dot (V 3) ''c'') ''c'') ''length'')) [Do (SetV 2 (Call ''JD'' [Call ''Imb'' [V 3], K (JNum 25)])), Do (PutIdx (Dot (V 0) ''a'') (Dot (V 2) ''p'') (Call ''OXb'' [V 2]))] []],
    fn ''Osd'' 2 3 [Do (SetV 2 (Meth (V 0) ''qh'' [])), When (And (Neg (Loose (V 2) (K JNull))) (Meth (V 0) ''th'' [])) [Do (Seq (SetV 3 (K (JNum 0))) (SetV 4 (Dot (V 2) ''length''))), Loop (Bin Lt (V 3) (V 4)) [Do (Meth (Idx (V 2) (V 3)) ''bj'' [V 1])] [Do (SetV 3 (Bin Minus (V 3) (K (JNum (- 1)))))]] []],
    fn ''oGc'' 3 0 [Ret (Cond (Loose (V 0) (Seq (Call ''kHc'' []) (G ''jHc''))) (New ''hGc'' []) (Cond (Neg (Loose (Call ''Rvb'' [V 1, K (JNum 1)]) (K (JNum 0)))) (New ''rIc'' [Dot (V 2) ''length'']) (New ''KHc'' [Dot (V 2) ''length''])))],
    fn ''aUc'' 3 0 [Ret (Call ''$eb'' [Call ''Zfd'' [Call ''USc'' [V 0], New ''lgd'' [Dot (Dot (V 1) ''e'') ''a'', Dot (Dot (V 1) ''e'') ''b'']], Call ''Zfd'' [Call ''USc'' [V 0], New ''lgd'' [Dot (Dot (V 2) ''e'') ''a'', Dot (Dot (V 2) ''e'') ''b'']]])],
    fn ''Yi'' 3 2 [Do (SetV 4 (Call ''JD'' [Call ''zn'' [Dot (V 0) ''d'', V 1], K (JNum 15)])), Do (SetV 3 (Call ''JD'' [Call ''zn'' [Dot (V 0) ''b'', V 2], K (JNum 15)])), Ret (Cond (Or (Neg (V 4)) (Neg (V 3))) (K JNull) (Call ''Si'' [V 0, Dot (V 4) ''a'', Dot (V 3) ''a'']))],
    fn ''Pcb'' 1 1 [Do (SetV 1 (Dot (V 0) ''h'')), When (Loose (V 1) (K (JNum 0))) [Ret (Bin Plus (Dot (V 0) ''l'') (Bin Times (Dot (V 0) ''m'') (G ''uve'')))] [], When (Loose (V 1) (G ''sve'')) [Ret (Bin Minus (Bin Plus (Dot (V 0) ''l'') (Bin Times (Dot (V 0) ''m'') (G ''uve''))) (G ''vve''))] [], Ret (V 0)],
    fn ''Ps'' 1 1 [When (Loose (Dot (V 0) ''a'') (Dot (Dot (V 0) ''b'') ''a'')) [Raise (Call ''Lcb'' [New ''Kub'' []])] [], Do (SetV 1 (Dot (V 0) ''a'')), Do (Put (V 0) ''c'' (V 1)), Do (Put (V 0) ''a'' (Call ''JD'' [Call ''Oub'' [Dot (Dot (V 0) ''a'') ''e''], K (JNum 227)])), Ret (V 1)],
    fn ''iMd'' 1 1 [When (Loose (Dot (V 0) ''d'') (K JNull)) [Do (Put (V 0) ''e'' (Bin Minus (Dot (V 0) ''e'') (K (JNum (- 1))))), Do (Put (V 0) ''f'' (K (JNum 0))), Do (Call ''hMd'' [K JNull])] [Do (Put (V 0) ''e'' (Bin Minus (Dot (V 0) ''e'') (K (JNum (- 1))))), Do (SetV 1 (Dot (V 0) ''d'')), Do (Put (V 0) ''d'' (K JNull)), Do (Put (V 0) ''f'' (K (JNum 0))), Do (Call ''hMd'' [V 1])]],
    fn ''fhc'' 2 2 [Do (SetV 3 (New ''Kmb'' [V 1])), Loop (Bin Lt (Dot (V 3) ''a'') (Dot (Dot (Dot (V 3) ''c'') ''c'') ''length'')) [Do (SetV 2 (Call ''JD'' [Call ''Imb'' [V 3], K (JNum 70)])), Do (Call ''_lb'' [Dot (V 0) ''d'', V 2]), Do (Call ''jhc'' [V 0, V 2])] []],
    fn ''UXb'' 2 2 [Do (SetV 2 (V 0)), Do (SetV 3 (Dot (Call ''DYb'' [V 2]) ''e'')), Loop (V 3) [Do (SetV 2 (V 3)), When (Loose (V 2) (V 1)) [Ret (K (JBool True))] [], Do (SetV 3 (Dot (Call ''DYb'' [V 2]) ''e''))] [], Ret (K (JBool False))],
    fn ''dEc'' 3 2 [Do (SetV 3 (Idx (Dot (Dot (V 0) ''a'') ''f'') (Dot (V 1) ''p''))), Do (SetV 4 (Idx (Dot (Dot (V 0) ''a'') ''f'') (Dot (V 2) ''p''))), When (Bin Lt (V 3) (V 4)) [Ret (K (JNum (- 1)))] [], When (Loose (V 3) (V 4)) [Ret (K (JNum 0))] [], Ret (K (JNum 1))]]"

definition code_3974_4053 :: "(string \<times> jfun) list" where
  "code_3974_4053 = [
    fn ''Scb'' 1 0 [When (And (Bin Lt (G ''xve'') (V 0)) (Bin Lt (V 0) (G ''vve''))) [Ret (Cond (Bin Lt (V 0) (K (JNum 0))) (Meth (Dot (G ''$wnd'') ''Math'') ''ceil'' [V 0]) (Meth (Dot (G ''$wnd'') ''Math'') ''floor'' [V 0]))] [], Ret (Call ''Pcb'' [Call ''nD'' [V 0]])],
    fn ''ssb'' 2 0 [Do (Put (V 0) ''a'' (Call ''Mcb'' [Dot (V 0) ''a'', K (JNum 1)])), Do (Put (V 0) ''c'' (Meth (Dot (G ''$wnd'') ''Math'') ''min'' [Dot (V 0) ''c'', V 1])), Do (Put (V 0) ''b'' (Meth (Dot (G ''$wnd'') ''Math'') ''max'' [Dot (V 0) ''b'', V 1])), Do (Put (V 0) ''d'' (Call ''Mcb'' [Dot (V 0) ''d'', V 1]))],
    fn ''q0b'' 2 1 [Do (Meth (V 1) ''Tg'' [K (JStr ''Edge and layer constraint edge reversal''), K (JNum 1)]), Do (SetV 2 (Call ''p0b'' [V 0])), Do (Call ''o0b'' [V 2]), Do (Meth (V 1) ''Ug'' [])],
    fn ''X2c'' 2 2 [Do (SetV 3 (New ''uKd'' [V 0])), Loop (Neg (Loose (Dot (V 3) ''e'') (Meth (Dot (V 3) ''i'') ''gc'' []))) [Do (SetV 2 (Call ''JD'' [Call ''sKd'' [V 3], K (JNum 26)])), Do (Call ''Zvd'' [V 2, Bin Plus (Dot (V 2) ''i'') (Dot (V 1) ''b''), Bin Plus (Dot (V 2) ''j'') (Dot (V 1) ''d'')])] []],
    fn ''HFc'' 2 0 [When (Dot (V 0) ''c'') [Do (Call ''IFc'' [V 0, V 1, K (JBool True)]), Do (Call ''YBb'' [New ''jCb'' [K JNull, New ''Zvb'' [V 1, K (JNum 16)]], New ''VFc'' [V 0]])] [], Do (Call ''IFc'' [V 0, V 1, K (JBool False)])],
    fn ''Fyd'' 2 2 [Do (SetV 2 (Seq (SetV 3 (New ''UWd'' [])) (V 3))), Do (Put (V 2) ''G'' (V 1)), Do (And (Neg (Dot (V 0) ''rb'')) (Put (V 0) ''rb'' (New ''W3d'' [V 0, G ''t6'', V 0]))), Do (Call ''lFd'' [Dot (V 0) ''rb'', V 2]), Ret (V 2)],
    fn ''Gyd'' 2 2 [Do (SetV 2 (Seq (SetV 3 (New ''x_d'' [])) (V 3))), Do (Put (V 2) ''G'' (V 1)), Do (And (Neg (Dot (V 0) ''rb'')) (Put (V 0) ''rb'' (New ''W3d'' [V 0, G ''t6'', V 0]))), Do (Call ''lFd'' [Dot (V 0) ''rb'', V 2]), Ret (V 2)],
    fn ''uud'' 2 1 [When (Neg (Loose (Bin BitAnd (Dot (V 0) ''Db'') (V 1)) (K (JNum 0)))) [Do (SetV 2 (Call ''tud'' [V 0, V 1])), Ret (Cond (Loose (V 2) (K (JNum (- 1)))) (Dot (V 0) ''Eb'') (Idx (Call ''KD'' [Dot (V 0) ''Eb'']) (V 2)))] [Ret (K JNull)]],
    fn ''x1d'' 1 1 [When (Or (Bin Gt (Dot (V 0) ''g'') (K (JNum 1))) (Meth (V 0) ''Ob'' [])) [Do (Put (V 0) ''a'' (Bin Minus (Dot (V 0) ''a'') (K (JNum (- 1))))), Do (Put (V 0) ''g'' (K (JNum 0))), Do (SetV 1 (Dot (V 0) ''i'')), Do (Meth (V 0) ''Ob'' []), Ret (V 1)] [Raise (Call ''Lcb'' [New ''Kub'' []])]],
    fn ''tOc'' 1 1 [Do (Call ''oOc'' []), When (Neg (Call ''arb'' [G ''nOc'', V 0])) [Do (SetV 1 (New ''qOc'' [])), Do (Put (V 1) ''a'' (V 0)), Do (Call ''drb'' [G ''nOc'', V 0, V 1])] [], Ret (Call ''JD'' [Call ''brb'' [G ''nOc'', V 0], K (JNum 636)])],
    fn ''pOc'' 1 0 [Switch (Dot (Dot (V 0) ''a'') ''g'') [(Some (JNum 1), [Ret (New ''WOc'' [])]), (Some (JNum 3), [Ret (New ''ERc'' [])]), (None, [Ret (New ''FOc'' [])])]],
    fn ''Dvd'' 2 0 [Switch (V 1) [(Some (JNum 1), [Ret (And (Neg (Neg (Dot (V 0) ''n''))) (Neg (Loose (Dot (Dot (V 0) ''n'') ''i'') (K (JNum 0)))))]), (Some (JNum 2), [Ret (Neg (Loose (Dot (V 0) ''k'') (K JNull)))])], Ret (Call ''$ud'' [V 0, V 1])],
    fn ''reb'' 1 1 [When (Bin Lt (V 0) (K (JNum 128))) [Ret (Seq (Seq (Seq (Call ''teb'' []) (SetV 1 (Idx (G ''seb'') (V 0)))) (And (Neg (V 1)) (SetV 1 (PutIdx (G ''seb'') (V 0) (New ''leb'' [V 0]))))) (V 1))] [], Ret (New ''leb'' [V 0])],
    fn ''Su'' 1 3 [Do (SetV 1 (K (JNum 1))), Do (SetV 3 (Meth (V 0) ''Jc'' [])), Loop (Meth (V 3) ''Ob'' []) [Do (SetV 2 (Meth (V 3) ''Pb'' [])), Do (SetV 1 (Bin Plus (Bin Times (K (JNum 31)) (V 1)) (Cond (Loose (V 2) (K JNull)) (K (JNum 0)) (Call ''tb'' [V 2])))), Do (SetV 1 (Compl (Compl (V 1))))] [], Ret (V 1)],
    fn ''_x'' 1 3 [Do (SetV 3 (K (JNum 0))), Do (SetV 2 (New ''Wrb'' [Dot (V 0) ''a''])), Loop (Bin Lt (Dot (V 2) ''a'') (Dot (Dot (Dot (V 2) ''c'') ''a'') ''length'')) [Do (SetV 1 (Call ''Vrb'' [V 2])), Do (And (Meth (Dot (V 0) ''b'') ''Gc'' [V 1]) (SetV 3 (Bin Minus (V 3) (K (JNum (- 1))))))] [], Ret (V 3)],
    fn ''edb'' 1 4 [Do (SetV 4 (V 0)), Do (SetV 3 (K (JNum 0))), When (Bin Lt (V 4) (K (JNum 0))) [Do (SetV 4 (Bin Plus (V 4) (G ''vve''))), Do (SetV 3 (G ''sve''))] [], Do (SetV 2 (Call ''YD'' [Bin Divide (V 4) (G ''uve'')])), Do (SetV 1 (Call ''YD'' [Bin Minus (V 4) (Bin Times (V 2) (G ''uve''))])), Ret (Call ''_C'' [V 1, V 2, V 3])],
    fn ''Usb'' 2 1 [Do (SetV 2 (Meth (Dot (V 0) ''a'') ''get'' [V 1])), When (Same (V 2) (K JUndef)) [Do (Put (V 0) ''d'' (Bin Minus (Dot (V 0) ''d'') (K (JNum (- 1)))))] [Do (Call ''Ksb'' [Dot (V 0) ''a'', V 1]), Do (Put (V 0) ''c'' (Bin Minus (Dot (V 0) ''c'') (K (JNum 1)))), Do (Put (Dot (V 0) ''b'') ''g'' (Bin Minus (Dot (Dot (V 0) ''b'') ''g'') (K (JNum (- 1)))))], Ret (V 2)],
    fn ''mNb'' 2 1 [When (Neg (V 1)) [Ret (V 0)] [], Do (SetV 2 (Meth (V 1) ''lf'' [])), Do (Or (Meth (V 2) ''dc'' []) (Cond (Neg (Dot (V 0) ''q'')) (Put (V 0) ''q'' (New ''bsb'' [V 2])) (Call ''Ld'' [Dot (V 0) ''q'', V 2]))), Ret (V 0)],
    fn ''GVb'' 2 3 [Do (SetV 2 (Bin Minus (Dot (V 1) ''p'') (Dot (V 0) ''p''))), When (Loose (V 2) (K (JNum 0))) [Do (SetV 3 (Bin Times (Dot (Dot (V 0) ''f'') ''a'') (Dot (Dot (V 0) ''f'') ''b''))), Do (SetV 4 (Bin Times (Dot (Dot (V 1) ''f'') ''a'') (Dot (Dot (V 1) ''f'') ''b''))), Ret (Call ''$eb'' [V 3, V 4])] [], Ret (V 2)],
    fn ''gBb'' 2 2 [Try [Do (Meth (V 1) ''be'' [])] 3 [Do (SetV 3 (Call ''Kcb'' [V 3])), When (Call ''RD'' [V 3, K (JNum 80)]) [Do (SetV 2 (V 3)), Do (Call ''qDb'' [Dot (V 0) ''c'', V 2])] [Raise (Call ''Lcb'' [V 3])]]],
    fn ''wWb'' 1 0 [When (And (Neg (Loose (Dot (Dot (Dot (V 0) ''b'') ''c'') ''length'') (K (JNum 0)))) (Neg (Neg (Dot (Call ''JD'' [Call ''dmb'' [Dot (V 0) ''b'', K (JNum 0)], K (JNum 70)]) ''a'')))) [Ret (Dot (Call ''JD'' [Call ''dmb'' [Dot (V 0) ''b'', K (JNum 0)], K (JNum 70)]) ''a'')] [], Ret (Call ''vWb'' [V 0])],
    fn ''XNb'' 0 0 [Do (Put This ''a'' (Dot (Call ''JD'' [Call ''BEd'' [Seq (Call ''aPb'' []) (G ''EOb'')], K (JNum 15)]) ''a'')), Do (Put This ''c'' (Call ''Ueb'' [Call ''MD'' [Call ''BEd'' [G ''VOb'']]])), Do (Put This ''b'' (Call ''Ueb'' [Call ''MD'' [Call ''BEd'' [G ''ROb'']]]))],
    fn ''age'' 2 0 [Do (Put This ''b'' (V 0)), Do (Put This ''e'' (V 1)), Do (Put This ''d'' (Dot (V 1) ''j'')), Do (Put This ''f'' (Seq (Call ''Aie'' []) (Meth (Call ''JD'' [V 0, K (JNum 69)]) ''vk'' []))), Do (Put This ''k'' (Call ''Cie'' [Meth (Dot (V 1) ''e'') ''Ah'' [], V 0]))],
    fn ''Qxb'' 3 0 [Do (Put This ''b'' (Seq (Call ''NDb'' [V 0]) (V 0))), Do (Put This ''d'' (Seq (Call ''NDb'' [V 1]) (V 1))), Do (Put This ''e'' (Seq (Call ''NDb'' [V 2]) (V 2))), Do (Put This ''c'' (Bin Plus (Dot This ''d'') (Bin Plus (K (JStr '''')) (Dot This ''e''))))],
    fn ''xlc'' 5 0 [Do (Super ''ylc'' [V 0, V 2, V 3, V 4]), Do (Put This ''f'' (Call ''SC'' [G ''SP'', G ''Bye'', K (JNum 9), Dot (Dot (Dot (V 1) ''a'') ''c'') ''length'', K (JNum 0), K (JNum 1)])), Do (Call ''kmb'' [Dot (V 1) ''a'', Dot This ''f''])],
    fn ''UAc'' 5 0 [Do (Call ''VC'' [Idx (Dot (V 0) ''c'') (Dot (V 1) ''g''), Dot (V 2) ''g'', V 3]), Do (Call ''VC'' [Idx (Dot (V 0) ''c'') (Dot (V 2) ''g''), Dot (V 1) ''g'', V 3]), Do (Call ''VC'' [Idx (Dot (V 0) ''b'') (Dot (V 1) ''g''), Dot (V 2) ''g'', V 4]), Do (Call ''VC'' [Idx (Dot (V 0) ''b'') (Dot (V 2) ''g''), Dot (V 1) ''g'', V 4])],
    fn ''D9b'' 2 2 [Do (SetV 2 (Dot (V 0) ''j'')), Do (SetV 3 (Dot (V 1) ''j'')), Ret (Cond (Neg (Loose (V 2) (V 3))) (Bin Minus (Dot (V 2) ''g'') (Dot (V 3) ''g'')) (Cond (Loose (Dot (V 0) ''p'') (Dot (V 1) ''p'')) (K (JNum 0)) (Cond (Loose (V 2) (Seq (Call ''Bmd'' []) (G ''hmd''))) (Bin Minus (Dot (V 0) ''p'') (Dot (V 1) ''p'')) (Bin Minus (Dot (V 1) ''p'') (Dot (V 0) ''p'')))))],
    fn ''ZOc'' 1 1 [Do (SetV 1 (Call ''JD'' [Call ''oNb'' [V 0, Seq (Call ''Wrc'' []) (G ''$qc'')], K (JNum 64)])), Ret (And (Loose (Dot (V 0) ''k'') (Seq (Call ''$Yb'' []) (G ''TYb''))) (Or (Loose (V 1) (Seq (Call ''Bmd'' []) (G ''Amd''))) (Loose (V 1) (G ''gmd''))))],
    fn ''uld'' 0 0 [Do (SetG ''uld'' (G ''qdb'')), Do (SetG ''tld'' (Call ''gs'' [Seq (Call ''old'' []) (Call ''WC'' [Call ''OC'' [G ''I2'', K (JNum 1)], G ''xue'', K (JNum 96), K (JNum 0), NewArr [G ''gld'', G ''fld'', G ''ild'', G ''nld'', G ''mld'', G ''lld'', G ''jld'', G ''kld'', G ''hld'']])]))],
    fn ''Cnd'' 0 0 [Do (SetG ''Cnd'' (G ''qdb'')), Do (SetG ''Bnd'' (Call ''gs'' [Seq (Call ''xnd'' []) (Call ''WC'' [Call ''OC'' [G ''R2'', K (JNum 1)], G ''xue'', K (JNum 266), K (JNum 0), NewArr [G ''qnd'', G ''snd'', G ''pnd'', G ''tnd'', G ''und'', G ''wnd'', G ''vnd'', G ''rnd'', G ''ond'']])]))],
    fn ''Eoc'' 0 0 [Do (SetG ''Eoc'' (G ''qdb'')), Do (SetG ''Doc'' (Call ''gs'' [Seq (Call ''woc'' []) (Call ''WC'' [Call ''OC'' [G ''WV'', K (JNum 1)], G ''xue'', K (JNum 267), K (JNum 0), NewArr [G ''qoc'', G ''ooc'', G ''soc'', G ''toc'', G ''roc'', G ''uoc'', G ''voc'', G ''poc'', G ''noc'']])]))],
    fn ''Yyc'' 0 0 [Do (SetG ''Yyc'' (G ''qdb'')), Do (SetG ''Xyc'' (Call ''gs'' [Seq (Call ''Qyc'' []) (Call ''WC'' [Call ''OC'' [G ''mW'', K (JNum 1)], G ''xue'', K (JNum 268), K (JNum 0), NewArr [G ''Oyc'', G ''Lyc'', G ''Myc'', G ''Iyc'', G ''Kyc'', G ''Pyc'', G ''Nyc'', G ''Hyc'', G ''Jyc'']])]))],
    fn ''zAc'' 0 0 [Do (SetG ''zAc'' (G ''qdb'')), Do (SetG ''wAc'' (New ''AAc'' [K (JStr ''EQUALLY''), K (JNum 0)])), Do (SetG ''xAc'' (New ''AAc'' [K (JStr ''NORTH''), K (JNum 1)])), Do (SetG ''yAc'' (New ''AAc'' [K (JStr ''NORTH_SOUTH''), K (JNum 2)]))],
    fn ''eqc'' 0 0 [Do (SetG ''eqc'' (G ''qdb'')), Do (SetG ''cqc'' (New ''fqc'' [K (JStr ''ONE_SIDED''), K (JNum 0)])), Do (SetG ''dqc'' (New ''fqc'' [K (JStr ''TWO_SIDED''), K (JNum 1)])), Do (SetG ''bqc'' (New ''fqc'' [K (JStr ''OFF''), K (JNum 2)]))],
    fn ''c2c'' 0 0 [Do (SetG ''c2c'' (G ''qdb'')), Do (SetG ''a2c'' (New ''e2c'' [G ''qye'', K (JNum 0)])), Do (SetG ''b2c'' (New ''e2c'' [K (JStr ''POLAR_COORDINATE''), K (JNum 1)])), Do (SetG ''_1c'' (New ''e2c'' [K (JStr ''ID''), K (JNum 2)]))],
    fn ''phc'' 0 0 [Do (SetG ''phc'' (G ''qdb'')), Do (SetG ''lhc'' (New ''qhc'' [G ''Qwe'', K (JNum 0)])), Do (SetG ''mhc'' (New ''qhc'' [G ''Twe'', K (JNum 1)])), Do (SetG ''nhc'' (New ''qhc'' [G ''Uwe'', K (JNum 2)])), Do (SetG ''ohc'' (New ''qhc'' [K (JStr ''TOP''), K (JNum 3)]))],
    fn ''RLb'' 0 0 [Do (SetG ''RLb'' (G ''qdb'')), Do (SetG ''QLb'' (New ''SLb'' [K (JStr ''UP''), K (JNum 0)])), Do (SetG ''NLb'' (New ''SLb'' [G ''dxe'', K (JNum 1)])), Do (SetG ''OLb'' (New ''SLb'' [G ''Twe'', K (JNum 2)])), Do (SetG ''PLb'' (New ''SLb'' [G ''Uwe'', K (JNum 3)]))],
    fn ''qMb'' 0 0 [Do (SetG ''qMb'' (G ''qdb'')), Do (SetG ''oMb'' (New ''DEd'' [K (JStr ''debugSVG''), Seq (Call ''Qdb'' []) (K (JBool False))])), Do (SetG ''pMb'' (New ''DEd'' [K (JStr ''overlapsExisted''), K (JBool True)]))],
    fn ''sBc'' 0 0 [Do (SetG ''sBc'' (G ''qdb'')), Do (SetG ''qBc'' (New ''tBc'' [K (JStr ''OFF''), K (JNum 0)])), Do (SetG ''rBc'' (New ''tBc'' [K (JStr ''SINGLE_EDGE''), K (JNum 1)])), Do (SetG ''pBc'' (New ''tBc'' [K (JStr ''MULTI_EDGE''), K (JNum 2)]))],
    fn ''gad'' 0 0 [Do (SetG ''gad'' (G ''qdb'')), Do (SetG ''fad'' (New ''iad'' [K (JStr ''MINIMUM_SPANNING_TREE''), K (JNum 0)])), Do (SetG ''ead'' (New ''iad'' [K (JStr ''MAXIMUM_SPANNING_TREE''), K (JNum 1)]))],
    fn ''aSc'' 1 0 [Do (Put (V 0) ''r'' (New ''hsb'' [])), Do (Put (V 0) ''w'' (New ''hsb'' [])), Do (Put (V 0) ''t'' (New ''lmb'' [])), Do (Put (V 0) ''i'' (New ''lmb'' [])), Do (Put (V 0) ''d'' (New ''hsb'' [])), Do (Put (V 0) ''a'' (New ''Ofd'' [])), Do (Put (V 0) ''c'' (New ''_rb'' []))],
    fn ''DPc'' 1 0 [Do (Put This ''n'' (New ''lmb'' [])), Do (Put This ''e'' (New ''dub'' [])), Do (Put This ''j'' (New ''dub'' [])), Do (Put This ''k'' (New ''lmb'' [])), Do (Put This ''f'' (New ''lmb'' [])), Do (Put This ''p'' (V 0))],
    fn ''y6c'' 1 0 [Switch (Dot (V 0) ''g'') [(Some (JNum 0), [Ret (New ''n6c'' [])]), (Some (JNum 1), [Ret (New ''s6c'' [])]), (Some (JNum 2), []), (None, [Ret (K JNull)])]],
    fn ''xAb'' 0 0 [Do (Call ''oAb'' []), When (G ''lAb'') [Ret (New ''wAb'' [K JNull])] [], Ret (Call ''fAb'' [Call ''hAb'' [], K (JStr ''com.google.common.base.Strings'')])],
    fn ''_q'' 1 1 [When (V 0) [Do (SetV 1 (V 0)), When (Meth (V 1) ''dc'' []) [Raise (Call ''Lcb'' [New ''Kub'' []])] [], Ret (Meth (V 1) ''Xb'' [Bin Minus (Meth (V 1) ''gc'' []) (K (JNum 1))])] [], Ret (Call ''wr'' [Meth (V 0) ''Jc'' []])],
    fn ''vVd'' 1 1 [When (Or (Neg (Dot (V 0) ''a'')) (And (Loose (Bin BitAnd (Dot (V 0) ''Bb'') (K (JNum 1))) (K (JNum 0))) (Meth (Dot (V 0) ''a'') ''Sh'' []))) [Do (SetV 1 (Call ''hUd'' [V 0])), Do (And (Call ''RD'' [V 1, K (JNum 159)]) (Put (V 0) ''a'' (Call ''JD'' [V 1, K (JNum 159)])))] [], Ret (Dot (V 0) ''a'')],
    fn ''hCd'' 3 4 [Do (SetV 5 (K JNull)), Do (SetV 6 (V 1)), Do (SetV 4 (Call ''SAd'' [V 6, G ''tGe''])), Do (SetV 3 (New ''tCd'' [V 0, V 2])), Do (SetV 5 (Seq (Call ''rBd'' [Dot (V 3) ''a'', Dot (V 3) ''b'', V 4]) (V 4))), Ret (V 5)],
    fn ''Ayd'' 2 2 [Do (SetV 3 (Seq (SetV 2 (New ''m8d'' [])) (V 2))), Do (Call ''jyd'' [V 3, V 1]), Do (Call ''lFd'' [Seq (And (Neg (Dot (V 0) ''A'')) (Put (V 0) ''A'' (New ''vge'' [G ''K6'', V 0, K (JNum 7)]))) (Dot (V 0) ''A''), V 3]), Ret (V 3)],
    fn ''Cvd'' 4 0 [When (Loose (V 2) (K (JNum 1))) [Ret (Seq (And (Neg (Dot (V 0) ''n'')) (Put (V 0) ''n'' (New ''P3d'' [G ''S3'', V 0, K (JNum 1), K (JNum 7)]))) (Call ''IJd'' [Dot (V 0) ''n'', V 1, V 3]))] [], Ret (Call ''Zud'' [V 0, V 1, V 2, V 3])],
    fn ''Mad'' 4 0 [Do (Call ''JD'' [Dot (V 2) ''b'', K (JNum 68)]), Do (Call ''JD'' [Dot (V 2) ''b'', K (JNum 68)]), Do (Call ''JD'' [Dot (V 3) ''b'', K (JNum 68)]), Do (Call ''JD'' [Dot (V 3) ''b'', K (JNum 68)]), Do (Call ''JD'' [Dot (V 3) ''b'', K (JNum 68)]), Do (Call ''cmb'' [Dot (V 3) ''a'', New ''Rad'' [V 0, V 1, V 3]])],
    fn ''eFb'' 2 0 [Do (Cond (Or (Loose (Dot (V 0) ''d'') (Seq (Call ''Djd'' []) (G ''zjd''))) (Loose (Dot (V 0) ''d'') (G ''Cjd''))) (Meth (Dot (Call ''JD'' [Dot (V 1) ''a'', K (JNum 60)]) ''c'') ''Ec'' [Call ''JD'' [Dot (V 1) ''b'', K (JNum 60)]]) (Meth (Dot (Call ''JD'' [Dot (V 1) ''b'', K (JNum 60)]) ''c'') ''Ec'' [Call ''JD'' [Dot (V 1) ''a'', K (JNum 60)]]))],
    fn ''zYb'' 3 4 [Do (SetV 6 (Call ''DYb'' [V 0])), Do (SetV 3 (Dot (V 6) ''d'')), Do (SetV 4 (Dot (V 6) ''c'')), Do (SetV 5 (Dot (V 0) ''n'')), Do (And (V 1) (Put (V 5) ''a'' (Bin Minus (Bin Minus (Dot (V 5) ''a'') (Dot (V 3) ''b'')) (Dot (V 4) ''a'')))), Do (And (V 2) (Put (V 5) ''b'' (Bin Minus (Bin Minus (Dot (V 5) ''b'') (Dot (V 3) ''d'')) (Dot (V 4) ''b''))))],
    fn ''PVb'' 3 2 [Do (SetV 4 (Call ''JD'' [Call ''oNb'' [V 0, Seq (Call ''nyc'' []) (G ''Bwc'')], K (JNum 79)])), When (V 4) [Do (SetV 3 (New ''ygd'' [])), Do (Call ''ugd'' [V 3, K (JNum 0), V 4]), Do (Call ''wgd'' [V 3, V 2]), Do (Call ''xe'' [V 1, V 3])] []],
    fn ''bmb'' 2 2 [Do (SetV 2 (Meth (V 1) ''Nc'' [])), Do (SetV 3 (Dot (V 2) ''length'')), When (Loose (V 3) (K (JNum 0))) [Ret (K (JBool False))] [], Do (Call ''pDb'' [Dot (V 0) ''c'', Dot (Dot (V 0) ''c'') ''length'', V 2]), Ret (K (JBool True))],
    fn ''Ae'' 2 2 [Do (Call ''NDb'' [V 1]), Do (SetV 3 (Meth (V 1) ''Jc'' [])), Loop (Meth (V 3) ''Ob'' []) [Do (SetV 2 (Meth (V 3) ''Pb'' [])), When (Neg (Meth (V 0) ''Gc'' [V 2])) [Ret (K (JBool False))] []] [], Ret (K (JBool True))],
    fn ''ulb'' 2 0 [When (Loose (V 1) (K JNull)) [Ret (K (JBool False))] [], Loop (Neg (Loose (Dot (V 0) ''a'') (Dot (V 0) ''b''))) [When (Call ''pb'' [V 1, Call ''Slb'' [V 0]]) [Ret (K (JBool True))] []] [], Ret (K (JBool False))],
    fn ''Cjb'' 1 0 [When (Meth (Dot (V 0) ''a'') ''Ob'' []) [Ret (K (JBool True))] [], When (Neg (Loose (Dot (V 0) ''a'') (Dot (V 0) ''e''))) [Ret (K (JBool False))] [], Do (Put (V 0) ''a'' (New ''Esb'' [Dot (Dot (V 0) ''f'') ''f''])), Ret (Meth (Dot (V 0) ''a'') ''Ob'' [])],
    fn ''Kcb'' 1 1 [When (Call ''RD'' [V 0, K (JNum 80)]) [Ret (V 0)] [], Do (SetV 1 (And (V 0) (Dot (V 0) ''__java$exception''))), When (Neg (V 1)) [Do (SetV 1 (New ''uz'' [V 0])), Do (Call ''$z'' [V 1])] [], Ret (V 1)],
    fn ''UEd'' 1 0 [When (Call ''RD'' [V 0, K (JNum 193)]) [Ret (Call ''JD'' [V 0, K (JNum 125)])] [When (Neg (V 0)) [Raise (Call ''Lcb'' [New ''Yfb'' [G ''SGe'']])] [Ret (K JNull)]]],
    fn ''a8b'' 1 0 [Switch (Dot (Call ''JD'' [Call ''oNb'' [V 0, Seq (Call ''nyc'' []) (G ''Ewc'')], K (JNum 165)]) ''g'') [(Some (JNum 2), []), (Some (JNum 4), [Ret (K (JBool True))]), (None, [Ret (K (JBool False))])]],
    fn ''ZMc'' 2 2 [Do (SetV 2 (Dot (V 0) ''c'')), Do (SetV 3 (Idx (Dot (V 1) ''e'') (Dot (V 0) ''p''))), When (Bin Lt (V 3) (Bin Minus (Dot (Dot (Dot (V 2) ''a'') ''c'') ''length'') (K (JNum 1)))) [Ret (Call ''JD'' [Call ''dmb'' [Dot (V 2) ''a'', Bin Plus (V 3) (K (JNum 1))], K (JNum 9)])] [], Ret (K JNull)],
    fn ''Yjc'' 1 2 [Do (Call ''Ujc'' [V 0]), Do (SetV 2 (New ''Kmb'' [Dot (V 0) ''d''])), Loop (Bin Lt (Dot (V 2) ''a'') (Dot (Dot (Dot (V 2) ''c'') ''c'') ''length'')) [Do (SetV 1 (Call ''JD'' [Call ''Imb'' [V 2], K (JNum 107)])), Do (And (Neg (Neg (Dot (V 1) ''i''))) (Call ''Xjc'' [V 1]))] []],
    fn ''D7b'' 2 2 [Do (SetV 3 (New ''Kmb'' [Dot (V 0) ''b''])), Loop (Bin Lt (Dot (V 3) ''a'') (Dot (Dot (Dot (V 3) ''c'') ''c'') ''length'')) [Do (SetV 2 (Call ''JD'' [Call ''Imb'' [V 3], K (JNum 70)])), Do (Call ''rNb'' [V 2, Seq (Call ''Wrc'' []) (G ''krc''), V 1])] []],
    fn ''H6c'' 3 2 [Do (SetV 4 (New ''Kmb'' [Dot (V 0) ''b''])), Loop (Bin Lt (Dot (V 4) ''a'') (Dot (Dot (Dot (V 4) ''c'') ''c'') ''length'')) [Do (SetV 3 (Call ''JD'' [Call ''Imb'' [V 4], K (JNum 26)])), Do (Call ''Zvd'' [V 3, Bin Plus (Dot (V 3) ''i'') (V 1), Bin Plus (Dot (V 3) ''j'') (V 2)])] []],
    fn ''JTc'' 1 3 [Do (SetV 1 (New ''dub'' [])), Do (SetV 3 (Call ''Ztb'' [Dot (V 0) ''d'', K (JNum 0)])), Loop (Neg (Loose (Dot (V 3) ''b'') (Dot (Dot (V 3) ''d'') ''c''))) [Do (SetV 2 (Call ''JD'' [Call ''lub'' [V 3], K (JNum 65)])), Do (Call ''Ttb'' [V 1, Dot (V 2) ''c''])] [], Ret (V 1)],
    fn ''tFd'' 1 4 [Do (SetV 1 (K (JNum 1))), Do (Seq (SetV 2 (K (JNum 0))) (SetV 4 (Meth (V 0) ''gc'' []))), Loop (Bin Lt (V 2) (V 4)) [Do (SetV 3 (Meth (V 0) ''Ti'' [V 2])), Do (SetV 1 (Bin Plus (Bin Times (K (JNum 31)) (V 1)) (Cond (Loose (V 3) (K JNull)) (K (JNum 0)) (Call ''tb'' [V 3]))))] [Do (SetV 2 (Bin Minus (V 2) (K (JNum (- 1)))))], Ret (V 1)],
    fn ''Byd'' 1 2 [Do (SetV 2 (Seq (SetV 1 (New ''m8d'' [])) (V 1))), Do (Call ''jyd'' [V 2, K (JStr ''T'')]), Do (Call ''lFd'' [Seq (And (Neg (Dot (V 0) ''d'')) (Put (V 0) ''d'' (New ''vge'' [G ''K6'', V 0, K (JNum 11)]))) (Dot (V 0) ''d''), V 2]), Ret (V 2)],
    fn ''Pbd'' 2 1 [Do (SetV 2 (Call ''Xu'' [Meth (Dot (V 1) ''a'') ''gc'' []])), Do (Call ''YBb'' [Call ''gCb'' [New ''jCb'' [K JNull, New ''Zvb'' [V 1, K (JNum 1)]], Dot (V 0) ''i''], New ''acd'' [V 0, V 2]]), Ret (V 2)],
    fn ''aj'' 4 1 [Do (Call ''Pb'' [V 1, Meth (Meth (Dot (V 0) ''e'') ''Pd'' []) ''gc'' []]), Do (Call ''Pb'' [V 2, Meth (Meth (Dot (V 0) ''c'') ''Pd'' []) ''gc'' []]), Do (SetV 4 (Idx (Idx (Dot (V 0) ''a'') (V 1)) (V 2))), Do (Call ''VC'' [Idx (Dot (V 0) ''a'') (V 1), V 2, V 3]), Ret (V 4)],
    fn ''WC'' 5 0 [Do (Put (V 4) ''Pm'' (V 0)), Do (Put (V 4) ''Qm'' (V 1)), Do (Put (V 4) ''Rm'' (G ''udb'')), Do (Put (V 4) ''__elementTypeId$'' (V 2)), Do (Put (V 4) ''__elementTypeCategory$'' (V 3)), Ret (V 4)],
    fn ''kD'' 2 3 [Do (SetV 2 (Bin Plus (Dot (V 0) ''l'') (Dot (V 1) ''l''))), Do (SetV 3 (Bin Plus (Bin Plus (Dot (V 0) ''m'') (Dot (V 1) ''m'')) (Bin Shr (V 2) (K (JNum 22))))), Do (SetV 4 (Bin Plus (Bin Plus (Dot (V 0) ''h'') (Dot (V 1) ''h'')) (Bin Shr (V 3) (K (JNum 22))))), Ret (Call ''_C'' [Bin BitAnd (V 2) (G ''rve''), Bin BitAnd (V 3) (G ''rve''), Bin BitAnd (V 4) (G ''sve'')])],
    fn ''vD'' 2 3 [Do (SetV 2 (Bin Minus (Dot (V 0) ''l'') (Dot (V 1) ''l''))), Do (SetV 3 (Bin Plus (Bin Minus (Dot (V 0) ''m'') (Dot (V 1) ''m'')) (Bin Shr (V 2) (K (JNum 22))))), Do (SetV 4 (Bin Plus (Bin Minus (Dot (V 0) ''h'') (Dot (V 1) ''h'')) (Bin Shr (V 3) (K (JNum 22))))), Ret (Call ''_C'' [Bin BitAnd (V 2) (G ''rve''), Bin BitAnd (V 3) (G ''rve''), Bin BitAnd (V 4) (G ''sve'')])],
    fn ''Y9b'' 1 1 [Do (Call ''BWb'' [V 0, K (JBool True)]), Do (SetV 1 (G ''Oue'')), Do (And (Call ''pNb'' [V 0, Seq (Call ''nyc'' []) (G ''zxc'')]) (SetV 1 (Bin Plus (V 1) (Dot (Call ''JD'' [Call ''oNb'' [V 0, G ''zxc''], K (JNum 15)]) ''a'')))), Do (Call ''rNb'' [V 0, G ''zxc'', Call ''Cfb'' [V 1]])],
    fn ''w_c'' 1 4 [Do (SetV 4 (New ''lmb'' [])), Do (SetV 3 (Meth (V 0) ''Jc'' [])), Loop (Meth (V 3) ''Ob'' []) [Do (SetV 2 (Call ''JD'' [Meth (V 3) ''Pb'' [], K (JNum 26)])), Do (SetV 1 (Call ''z_c'' [V 2])), Do (Call ''bmb'' [V 4, V 1])] [], Ret (V 4)],
    fn ''wad'' 3 1 [Do (Call ''kjb'' [Dot (V 0) ''a'']), Do (Call ''cmb'' [Dot (V 2) ''i'', New ''Had'' [V 0]]), Do (SetV 3 (New ''rEb'' [Call ''JD'' [Call ''ejb'' [Dot (V 0) ''a'', Dot (V 1) ''b''], K (JNum 68)]])), Do (Call ''vad'' [V 0, V 3, V 1]), Do (Put (V 2) ''f'' (V 3))],
    fn ''wFb'' 2 0 [When (Or (Or (Neg (V 0)) (Neg (V 1))) (Loose (V 0) (V 1))) [Ret (K (JBool False))] [], Ret (And (Call ''MEb'' [Dot (Dot (V 0) ''d'') ''c'', Bin Plus (Dot (Dot (V 1) ''d'') ''c'') (Dot (Dot (V 1) ''d'') ''b'')]) (Call ''MEb'' [Dot (Dot (V 1) ''d'') ''c'', Bin Plus (Dot (Dot (V 0) ''d'') ''c'') (Dot (Dot (V 0) ''d'') ''b'')]))],
    fn ''wfd'' 5 0 [Do (Call ''qfd'' []), Ret (Meth (Dot (G ''$wnd'') ''Math'') ''min'' [Call ''Gfd'' [V 0, V 1, V 2, V 3, V 4], Call ''Gfd'' [V 2, V 3, V 0, V 1, Call ''agd'' [New ''lgd'' [Dot (V 4) ''a'', Dot (V 4) ''b'']]]])],
    fn ''Nb'' 2 0 [When (Neg (V 0)) [Raise (Call ''Lcb'' [New ''kfb'' [Call ''hc'' [K (JStr ''value already present: %s''), Call ''WC'' [Call ''OC'' [G ''aJ'', K (JNum 1)], G ''Gte'', K (JNum 1), K (JNum 5), NewArr [V 1]]]]])] []],
    fn ''XEd'' 1 2 [Do (SetV 2 (Seq (Seq (Call ''zsd'' []) (SetV 1 (New ''lxd'' []))) (V 1))), Do (And (Neg (Neg (V 0))) (Call ''lFd'' [Seq (And (Neg (Dot (V 0) ''a'')) (Put (V 0) ''a'' (New ''P3d'' [G ''P3'', V 0, K (JNum 6), K (JNum 6)]))) (Dot (V 0) ''a''), V 2])), Ret (V 2)],
    fn ''KQd'' 2 2 [Do (SetV 3 (K (JNum 0))), When (And (Bin Lt (V 0) (K (JNum 64))) (Bin Le (V 0) (V 1))) [Do (SetV 1 (Cond (Bin Lt (V 1) (K (JNum 64))) (V 1) (K (JNum 63)))), Do (SetV 2 (V 0)), Loop (Bin Le (V 2) (V 1)) [Do (SetV 3 (Call ''_cb'' [V 3, Call ''adb'' [K (JNum 1), V 2]]))] [Do (Bin Minus (SetV 2 (Bin Minus (V 2) (K (JNum (- 1))))) (K (JNum 1)))]] [], Ret (V 3)]]"

definition code_4054_4077 :: "(string \<times> jfun) list" where
  "code_4054_4077 = [
    fn ''Ar'' 2 2 [Do (Call ''Rb'' [V 1, K (JStr ''predicate'')]), Do (SetV 3 (K (JNum 0))), Loop (Meth (V 0) ''Ob'' []) [Do (SetV 2 (Meth (V 0) ''Pb'' [])), When (Meth (V 1) ''Lb'' [V 2]) [Ret (V 3)] []] [Do (Bin Minus (SetV 3 (Bin Minus (V 3) (K (JNum (- 1))))) (K (JNum 1)))], Ret (K (JNum (- 1)))],
    fn ''avd'' 2 0 [Switch (V 1) [(Some (JNum 0), [Do (And (Neg (Dot (V 0) ''o'')) (Put (V 0) ''o'' (New ''QTd'' [Seq (Call ''Nsd'' []) (G ''Ksd''), G ''f4'', V 0, K (JNum 0)]))), Do (Meth (Dot (Dot (V 0) ''o'') ''c'') ''$b'' []), Ret (K JUndef)])], Do (Call ''wtd'' [V 0, V 1])],
    fn ''_kd'' 1 0 [Switch (Dot (V 0) ''g'') [(Some (JNum 1), [Ret (G ''Xkd'')]), (Some (JNum 2), [Ret (G ''Wkd'')]), (Some (JNum 3), [Ret (G ''Ykd'')]), (None, [Ret (G ''Zkd'')])]],
    fn ''Lnb'' 1 3 [Do (Call ''Inb'' []), Do (SetV 3 (K (JNum 0))), Do (SetV 2 (Meth (V 0) ''Jc'' [])), Loop (Meth (V 2) ''Ob'' []) [Do (SetV 1 (Meth (V 2) ''Pb'' [])), Do (SetV 3 (Bin Plus (V 3) (Cond (Neg (Loose (V 1) (K JNull))) (Call ''tb'' [V 1]) (K (JNum 0))))), Do (SetV 3 (Bin BitOr (V 3) (K (JNum 0))))] [], Ret (V 3)],
    fn ''_A'' 1 1 [Do (SetV 1 (New ''XA'' [])), Do (Put (V 1) ''a'' (V 0)), Do (Put (V 1) ''b'' (Call ''ZA'' [V 0])), Do (Put (V 1) ''c'' (Call ''SC'' [G ''hJ'', G ''aue'', K (JNum 2), K (JNum 2), K (JNum 6), K (JNum 1)])), Do (PutIdx (Dot (V 1) ''c'') (K (JNum 0)) (Call ''$A'' [V 0])), Do (PutIdx (Dot (V 1) ''c'') (K (JNum 1)) (Call ''$A'' [V 0])), Ret (V 1)],
    fn ''j8b'' 0 0 [Do (SetG ''j8b'' (G ''qdb'')), Do (SetG ''i8b'' (New ''l8b'' [G ''qye'', K (JNum 0)])), Do (SetG ''g8b'' (New ''l8b'' [G ''Vye'', K (JNum 1)])), Do (SetG ''h8b'' (New ''l8b'' [G ''Wye'', K (JNum 2)])), Do (SetG ''f8b'' (New ''l8b'' [K (JStr ''BOTH''), K (JNum 3)]))],
    fn ''TSb'' 0 0 [Do (SetG ''TSb'' (G ''qdb'')), Do (SetG ''PSb'' (New ''WSb'' [K (JStr ''Q1''), K (JNum 0)])), Do (SetG ''SSb'' (New ''WSb'' [K (JStr ''Q4''), K (JNum 1)])), Do (SetG ''QSb'' (New ''WSb'' [K (JStr ''Q2''), K (JNum 2)])), Do (SetG ''RSb'' (New ''WSb'' [K (JStr ''Q3''), K (JNum 3)]))],
    fn ''nqc'' 0 0 [Do (SetG ''nqc'' (G ''qdb'')), Do (SetG ''mqc'' (New ''oqc'' [K (JStr ''ONLY_WITHIN_GROUP''), K (JNum 0)])), Do (SetG ''lqc'' (New ''oqc'' [G ''rye'', K (JNum 1)])), Do (SetG ''kqc'' (New ''oqc'' [K (JStr ''ENFORCED''), K (JNum 2)]))],
    fn ''Qoc'' 0 0 [Do (SetG ''Qoc'' (G ''qdb'')), Do (SetG ''Ooc'' (New ''Roc'' [G ''qye'', K (JNum 0)])), Do (SetG ''Noc'' (New ''Roc'' [K (JStr ''INCOMING_ONLY''), K (JNum 1)])), Do (SetG ''Poc'' (New ''Roc'' [K (JStr ''OUTGOING_ONLY''), K (JNum 2)]))],
    fn ''cbd'' 0 0 [Do (SetG ''cbd'' (G ''qdb'')), Do (New ''CEd'' [K (JStr ''org.eclipse.elk.addLayoutConfig'')]), Do (SetG ''abd'' (New ''obd'' [])), Do (SetG ''_ad'' (New ''qbd'' [])), Do (SetG ''bbd'' (New ''mbd'' []))],
    fn ''zC'' 0 0 [Do (SetG ''zC'' (G ''qdb'')), Do (SetG ''yC'' (NewLit [(''boolean'', G ''AC''), (''number'', G ''BC''), (''string'', G ''DC''), (''object'', G ''CC''), (''function'', G ''CC''), (''undefined'', G ''EC'')]))],
    fn ''Wzc'' 0 0 [Do (SetG ''Wzc'' (G ''qdb'')), Do (SetG ''Vzc'' (Call ''gs'' [Seq (Call ''Rzc'' []) (Call ''WC'' [Call ''OC'' [G ''qW'', K (JNum 1)], G ''xue'', K (JNum 243), K (JNum 0), NewArr [G ''Pzc'', G ''Kzc'', G ''Nzc'', G ''Lzc'', G ''Mzc'', G ''Hzc'', G ''Ozc'', G ''Qzc'', G ''Izc'', G ''Jzc'']])]))],
    fn ''aqc'' 0 0 [Do (SetG ''aqc'' (G ''qdb'')), Do (SetG ''_pc'' (Call ''gs'' [Seq (Call ''Xpc'' []) (Call ''WC'' [Call ''OC'' [G ''bW'', K (JNum 1)], G ''xue'', K (JNum 261), K (JNum 0), NewArr [G ''Opc'', G ''Qpc'', G ''Rpc'', G ''Spc'', G ''Tpc'', G ''Upc'', G ''Wpc'', G ''Npc'', G ''Ppc'', G ''Vpc'']])]))],
    fn ''sn'' 4 0 [Ret (New ''Jx'' [Call ''WC'' [Call ''OC'' [G ''LK'', K (JNum 1)], G ''mue'', K (JNum 45), K (JNum 0), NewArr [Seq (Call ''ak'' [V 0, V 1]) (New ''ap'' [V 0, V 1]), Seq (Call ''ak'' [V 2, V 3]) (New ''ap'' [V 2, V 3])]]])],
    fn ''I7c'' 2 2 [Do (SetV 2 (Call ''JD'' [Dot (Call ''JD'' [Call ''ejb'' [Dot (V 0) ''g'', Dot (V 1) ''a''], K (JNum 49)]) ''a'', K (JNum 68)])), Do (SetV 3 (Call ''JD'' [Dot (Call ''JD'' [Call ''ejb'' [Dot (V 0) ''g'', Dot (V 1) ''b''], K (JNum 49)]) ''a'', K (JNum 68)])), Ret (Call ''uMb'' [V 2, V 3])],
    fn ''mFd'' 3 1 [Do (SetV 3 (Meth (V 0) ''gc'' [])), When (Bin Gt (V 1) (V 3)) [Raise (Call ''Lcb'' [New ''rKd'' [V 1, V 3]])] [], Do (And (Meth (V 0) ''Qi'' []) (SetV 2 (Call ''sFd'' [V 0, V 2]))), Ret (Meth (V 0) ''Ci'' [V 1, V 2])],
    fn ''L1b'' 1 3 [Do (SetV 2 (Dot (V 0) ''n'')), Do (SetV 3 (Dot (V 0) ''o'')), Do (SetV 1 (Dot (V 0) ''d'')), Ret (New ''Pfd'' [Bin Minus (Dot (V 2) ''a'') (Dot (V 1) ''b''), Bin Minus (Dot (V 2) ''b'') (Dot (V 1) ''d''), Bin Plus (Dot (V 3) ''a'') (Bin Plus (Dot (V 1) ''b'') (Dot (V 1) ''c'')), Bin Plus (Dot (V 3) ''b'') (Bin Plus (Dot (V 1) ''d'') (Dot (V 1) ''a''))])],
    fn ''wMb'' 2 0 [When (Or (Or (Neg (V 0)) (Neg (V 1))) (Loose (V 0) (V 1))) [Ret (K (JBool False))] [], Ret (And (Bin Lt (Call ''Ty'' [Dot (Dot (V 0) ''b'') ''c'', Bin Plus (Dot (Dot (V 1) ''b'') ''c'') (Dot (Dot (V 1) ''b'') ''b'')]) (K (JNum 0))) (Bin Lt (Call ''Ty'' [Dot (Dot (V 1) ''b'') ''c'', Bin Plus (Dot (Dot (V 0) ''b'') ''c'') (Dot (Dot (V 0) ''b'') ''b'')]) (K (JNum 0))))],
    fn ''MQd'' 3 0 [When (Bin Ge (V 0) (K (JNum 128))) [Ret (K (JBool False))] [], Ret (Cond (Bin Lt (V 0) (K (JNum 64))) (Call ''$cb'' [Call ''Ncb'' [Call ''adb'' [K (JNum 1), V 0], V 2], K (JNum 0)]) (Call ''$cb'' [Call ''Ncb'' [Call ''adb'' [K (JNum 1), Bin Minus (V 0) (K (JNum 64))], V 1], K (JNum 0)]))],
    fn ''tFb'' 3 0 [Switch (Dot (V 2) ''g'') [(Some (JNum 2), [Do (Put (V 0) ''b'' (V 1)), Break]), (Some (JNum 1), [Do (Put (V 0) ''c'' (V 1)), Break]), (Some (JNum 4), [Do (Put (V 0) ''d'' (V 1)), Break]), (Some (JNum 3), [Do (Put (V 0) ''a'' (V 1))])]],
    fn ''ste'' 2 0 [Loop (Cond (And (Loose (Dot (V 0) ''g'') (K JNull)) (Neg (Dot (V 0) ''c''))) (Call ''JGd'' [V 0]) (Or (Loose (Dot (V 0) ''g'') (K JNull)) (And (Neg (Loose (Dot (V 0) ''i'') (K (JNum 0)))) (Meth (Call ''JD'' [Idx (Dot (V 0) ''g'') (Bin Minus (Dot (V 0) ''i'') (K (JNum 1))), K (JNum 50)]) ''Ob'' [])))) [Do (Meth (V 1) ''Bi'' [Call ''KGd'' [V 0]])] []],
    fn ''qNb'' 3 0 [Ret (Seq (Cond (Loose (V 2) (K JNull)) (Seq (And (Neg (Dot (V 0) ''q'')) (Put (V 0) ''q'' (New ''_rb'' []))) (Call ''jjb'' [Dot (V 0) ''q'', V 1])) (Seq (And (Neg (Dot (V 0) ''q'')) (Put (V 0) ''q'' (New ''_rb'' []))) (Call ''hjb'' [Dot (V 0) ''q'', V 1, V 2]))) (V 0))],
    fn ''rNb'' 3 0 [Do (Cond (Loose (V 2) (K JNull)) (Seq (And (Neg (Dot (V 0) ''q'')) (Put (V 0) ''q'' (New ''_rb'' []))) (Call ''jjb'' [Dot (V 0) ''q'', V 1])) (Seq (And (Neg (Dot (V 0) ''q'')) (Put (V 0) ''q'' (New ''_rb'' []))) (Call ''hjb'' [Dot (V 0) ''q'', V 1, V 2]))), Ret (V 0)],
    fn ''bNb'' 1 2 [Do (SetV 2 (New ''KNb'' [])), Do (Call ''mNb'' [V 2, V 0]), Do (Call ''rNb'' [V 2, Seq (Call ''lPb'' []) (G ''jPb''), V 0]), Do (SetV 1 (New ''_rb'' [])), Do (Call ''dNb'' [V 0, V 2, V 1]), Do (Call ''cNb'' [V 0, V 2, V 1]), Ret (V 2)]]"

definition object_table9 :: "(string \<times> jfun) list" where
  "object_table9 = code_3858_3896 @ code_3898_3972 @ code_3974_4053 @ code_4054_4077"

text \<open>The names each table declares.\<close>

lemma names_3858_3896 [js_names]: "map fst code_3858_3896 = [
    ''Hrb'', ''uvb'', ''vvb'', ''eAb'', ''o4d'', ''hyb'', ''kcc'', ''Qcc'', ''eIc'', ''su'',
    ''KIc'', ''aJc'', ''yRc'', ''wNc'', ''xc'', ''lPb'', ''B2b'', ''g_c'', ''vic'', ''N6b'',
    ''zyc'', ''T_b'', ''tb'', ''Vq'', ''jyd'', ''Eyd'', ''Kyd'', ''x7c'', ''RGc'', ''SGc'',
    ''Yyd'', ''Zyd'', ''Bub'', ''vlb'', ''xe'', ''Ox'', ''$A'', ''Hhb'', ''TVd'']"
  by (simp add: code_3858_3896_def fn_def)

lemma names_3898_3972 [js_names]: "map fst code_3898_3972 = [
    ''Cib'', ''Fyb'', ''K2c'', ''Umc'', ''Xmc'', ''C2c'', ''i0c'', ''vYc'', ''vgd'', ''Ao'',
    ''Bo'', ''RBd'', ''UBd'', ''Pyd'', ''PJb'', ''cKb'', ''XSb'', ''YSb'', ''$pc'', ''Uzc'',
    ''yWd'', ''qZb'', ''o4b'', ''jBb'', ''kBb'', ''GBb'', ''lWb'', ''mWb'', ''a2b'', ''b2b'',
    ''Tpd'', ''Ld'', ''ree'', ''qr'', ''d5d'', ''e5d'', ''cib'', ''pib'', ''pGd'', ''ogc'',
    ''Y6c'', ''k7b'', ''Vdb'', ''dic'', ''O6b'', ''wgd'', ''ufd'', ''PTd'', ''Jub'', ''ffe'',
    ''Fjb'', ''zdb'', ''Syd'', ''mfd'', ''yEd'', ''dZb'', ''vjc'', ''JVc'', ''DGc'', ''mIc'',
    ''hAb'', ''wKb'', ''Zcd'', ''jcd'', ''R6b'', ''Osd'', ''oGc'', ''aUc'', ''Yi'', ''Pcb'',
    ''Ps'', ''iMd'', ''fhc'', ''UXb'', ''dEc'']"
  by (simp add: code_3898_3972_def fn_def)

lemma names_3974_4053 [js_names]: "map fst code_3974_4053 = [
    ''Scb'', ''ssb'', ''q0b'', ''X2c'', ''HFc'', ''Fyd'', ''Gyd'', ''uud'', ''x1d'', ''tOc'',
    ''pOc'', ''Dvd'', ''reb'', ''Su'', ''_x'', ''edb'', ''Usb'', ''mNb'', ''GVb'', ''gBb'',
    ''wWb'', ''XNb'', ''age'', ''Qxb'', ''xlc'', ''UAc'', ''D9b'', ''ZOc'', ''uld'', ''Cnd'',
    ''Eoc'', ''Yyc'', ''zAc'', ''eqc'', ''c2c'', ''phc'', ''RLb'', ''qMb'', ''sBc'', ''gad'',
    ''aSc'', ''DPc'', ''y6c'', ''xAb'', ''_q'', ''vVd'', ''hCd'', ''Ayd'', ''Cvd'', ''Mad'',
    ''eFb'', ''zYb'', ''PVb'', ''bmb'', ''Ae'', ''ulb'', ''Cjb'', ''Kcb'', ''UEd'', ''a8b'',
    ''ZMc'', ''Yjc'', ''D7b'', ''H6c'', ''JTc'', ''tFd'', ''Byd'', ''Pbd'', ''aj'', ''WC'',
    ''kD'', ''vD'', ''Y9b'', ''w_c'', ''wad'', ''wFb'', ''wfd'', ''Nb'', ''XEd'', ''KQd'']"
  by (simp add: code_3974_4053_def fn_def)

lemma names_4054_4077 [js_names]: "map fst code_4054_4077 = [
    ''Ar'', ''avd'', ''_kd'', ''Lnb'', ''_A'', ''j8b'', ''TSb'', ''nqc'', ''Qoc'', ''cbd'',
    ''zC'', ''Wzc'', ''aqc'', ''sn'', ''I7c'', ''mFd'', ''L1b'', ''wMb'', ''MQd'', ''tFb'',
    ''ste'', ''qNb'', ''rNb'', ''bNb'']"
  by (simp add: code_4054_4077_def fn_def)

end
