(* ===== verification/ObjectTable10.thy ===== *)
theory ObjectTable10
  imports ObjectCode
begin

text \<open>
  Functions of \<open>layout-worker.js\<close>, lines 4079 to 4227, in the order of the file, one per line:
  operations of the runtime's collections, iterators and text buffers, accessors and small algorithms
  of the layout engine, with their loops, \<open>switch\<close> and \<open>try\<close> statements. An entry has the name, the
  number of parameters, the number of further local variables and the body; parameters and locals
  are numbered from 0, the variable of a \<open>catch\<close> has a number of its own, \<open>x++\<close> is \<open>(x=x+1)-1\<close>. Lines
  with a construct outside \<open>jexp\<close> and \<open>jstm\<close> (closures, \<open>in\<close>, floating-point literals, host objects) are
  left out.
\<close>

definition code_4079_4090 :: "(string \<times> jfun) list" where
  "code_4079_4090 = [
    fn ''Bgc'' 2 4 [Do (SetV 2 (K (JBool False))), Do (SetV 3 (Dot (Idx (Dot (V 0) ''a'') (V 1)) ''length'')), Do (SetV 5 (K (JNum 0))), Loop (Bin Lt (V 5) (Bin Minus (V 3) (K (JNum 1)))) [Do (SetV 4 (Bin Plus (V 5) (K (JNum 1)))), Do (SetV 2 (Bin BitOr (V 2) (Call ''Cgc'' [V 0, V 1, V 5, V 4])))] [Do (Bin Minus (SetV 5 (Bin Minus (V 5) (K (JNum (- 1))))) (K (JNum 1)))], Ret (V 2)],
    fn ''Pgc'' 1 4 [Do (Seq (Seq (SetV 2 (Dot (V 0) ''a'')) (SetV 3 (K (JNum 0)))) (SetV 4 (Dot (V 2) ''length''))), Loop (Bin Lt (V 3) (V 4)) [Do (SetV 1 (Idx (V 2) (V 3))), Do (Call ''Ugc'' [V 0, V 1, Seq (Call ''Bmd'' []) (G ''ymd'')]), Do (Call ''Ugc'' [V 0, V 1, G ''hmd''])] [Do (SetV 3 (Bin Minus (V 3) (K (JNum (- 1)))))]],
    fn ''pD'' 1 3 [Do (SetV 1 (Bin BitAnd (Bin Plus (Compl (Dot (V 0) ''l'')) (K (JNum 1))) (G ''rve''))), Do (SetV 2 (Bin BitAnd (Bin Plus (Compl (Dot (V 0) ''m'')) (Cond (Loose (V 1) (K (JNum 0))) (K (JNum 1)) (K (JNum 0)))) (G ''rve''))), Do (SetV 3 (Bin BitAnd (Bin Plus (Compl (Dot (V 0) ''h'')) (Cond (And (Loose (V 1) (K (JNum 0))) (Loose (V 2) (K (JNum 0)))) (K (JNum 1)) (K (JNum 0)))) (G ''sve''))), Ret (Call ''_C'' [V 1, V 2, V 3])],
    fn ''wEc'' 1 2 [Do (SetV 1 (Bin Gt (Bin Plus (Bin Minus (Dot (V 0) ''t'') (Bin Times (Idx (Dot (V 0) ''k'') (Dot (Dot (V 0) ''o'') ''p'')) (Dot (V 0) ''d''))) (Idx (Dot (V 0) ''j'') (Dot (Dot (V 0) ''o'') ''p''))) (Dot (V 0) ''f''))), Do (SetV 2 (Bin Gt (Bin Plus (Dot (V 0) ''u'') (Bin Times (Idx (Dot (V 0) ''e'') (Dot (Dot (V 0) ''o'') ''p'')) (Dot (V 0) ''d''))) (Bin Times (Bin Times (Dot (V 0) ''f'') (Dot (V 0) ''s'')) (Dot (V 0) ''d'')))), Ret (Or (V 1) (V 2))],
    fn ''l4d'' 1 1 [When (Or (Neg (Dot (V 0) ''c'')) (And (Loose (Bin BitAnd (Dot (V 0) ''Bb'') (K (JNum 1))) (K (JNum 0))) (Neg (Loose (Bin BitAnd (Dot (Dot (V 0) ''c'') ''Db'') (K (JNum 64))) (K (JNum 0)))))) [Do (SetV 1 (Call ''hUd'' [V 0])), Do (And (Call ''RD'' [V 1, K (JNum 88)]) (Put (V 0) ''c'' (Call ''JD'' [V 1, K (JNum 29)])))] [], Ret (Dot (V 0) ''c'')],
    fn ''wfb'' 1 1 [When (Bin Lt (V 0) (K (JNum 0))) [Ret (G ''Eue'')] [When (Loose (V 0) (K (JNum 0))) [Ret (K (JNum 0))] [Do (SetV 1 (G ''vue'')), Loop (Loose (Bin BitAnd (V 1) (V 0)) (K (JNum 0))) [] [Do (SetV 1 (Bin Shr (V 1) (K (JNum 1))))], Ret (V 1)]]],
    fn ''ZA'' 1 1 [When (Loose (V 0) (K (JNum 0))) [Ret (K (JStr ''Etc/GMT''))] [], When (Bin Lt (V 0) (K (JNum 0))) [Do (SetV 0 (Minus1 (V 0))), Do (SetV 1 (K (JStr ''Etc/GMT-'')))] [Do (SetV 1 (K (JStr ''Etc/GMT+'')))], Ret (Bin Plus (V 1) (Call ''aB'' [V 0]))],
    fn ''gD'' 1 2 [Do (SetV 2 (Call ''xfb'' [Dot (V 0) ''h''])), When (Loose (V 2) (K (JNum 32))) [Do (SetV 1 (Call ''xfb'' [Dot (V 0) ''m''])), Ret (Cond (Loose (V 1) (K (JNum 32))) (Bin Plus (Call ''xfb'' [Dot (V 0) ''l'']) (K (JNum 32))) (Bin Minus (Bin Plus (V 1) (K (JNum 20))) (K (JNum 10))))] [Ret (Bin Minus (V 2) (K (JNum 12)))]],
    fn ''ylb'' 1 1 [Do (SetV 1 (Idx (Dot (V 0) ''a'') (Dot (V 0) ''b''))), When (Loose (V 1) (K JNull)) [Ret (K JNull)] [], Do (Call ''VC'' [Dot (V 0) ''a'', Dot (V 0) ''b'', K JNull]), Do (Put (V 0) ''b'' (Bin BitAnd (Bin Plus (Dot (V 0) ''b'') (K (JNum 1))) (Bin Minus (Dot (Dot (V 0) ''a'') ''length'') (K (JNum 1))))), Ret (V 1)],
    fn ''zeb'' 0 0 [Do (SetG ''ueb'' (Bin Minus (G ''ueb'') (K (JNum (- 1))))), Do (Put This ''o'' (K JNull)), Do (Put This ''k'' (K JNull)), Do (Put This ''j'' (K JNull)), Do (Put This ''d'' (K JNull)), Do (Put This ''b'' (K JNull)), Do (Put This ''n'' (K JNull)), Do (Put This ''a'' (K JNull))],
    fn ''nj'' 2 0 [Do (Put This ''c'' (V 0)), Do (Put This ''d'' (V 1)), Do (Put This ''b'' (Bin DivInt (Dot This ''d'') (Meth (Meth (Dot (Dot This ''c'') ''c'') ''Pd'' []) ''gc'' []))), Do (Put This ''a'' (Bin Modulo (Dot This ''d'') (Meth (Meth (Dot (Dot This ''c'') ''c'') ''Pd'' []) ''gc'' [])))],
    fn ''cZd'' 2 0 [Do (Put This ''b'' (V 0)), Do (Super ''$Yd'' [Seq (Call ''JD'' [Call ''fGd'' [Call ''KWd'' [Dot (Seq (Call ''yRd'' []) (G ''xRd'')) ''o''], K (JNum 10)], K (JNum 19)]) (Dot (V 1) ''i''), Dot (V 1) ''g'']), Do (Put This ''a'' (Seq (Call ''yWd'' []) (G ''xWd'')))]]"

definition code_4092_4158 :: "(string \<times> jfun) list" where
  "code_4092_4158 = [
    fn ''byb'' 3 2 [Do (SetV 3 (New ''Myb'' [V 1, V 2])), Do (SetV 4 (New ''Nyb'' [])), Do (Put (V 0) ''b'' (Call ''_xb'' [V 0, Dot (V 0) ''b'', V 3, V 4])), Do (Or (Dot (V 4) ''b'') (Put (V 0) ''c'' (Bin Minus (Dot (V 0) ''c'') (K (JNum (- 1)))))), Do (Put (Dot (V 0) ''b'') ''b'' (K (JBool False))), Ret (Dot (V 4) ''d'')],
    fn ''Jnb'' 2 5 [Do (Call ''Inb'' []), Do (SetV 6 (K (JBool False))), Do (Seq (Seq (SetV 3 (V 1)) (SetV 4 (K (JNum 0)))) (SetV 5 (Dot (V 3) ''length''))), Loop (Bin Lt (V 4) (V 5)) [Do (SetV 2 (Idx (V 3) (V 4))), Do (SetV 6 (Bin BitOr (V 6) (Meth (V 0) ''Ec'' [V 2])))] [Do (SetV 4 (Bin Minus (V 4) (K (JNum (- 1)))))], Ret (V 6)],
    fn ''shb'' 5 2 [Do (SetV 6 (Dot (V 0) ''length'')), Do (SetV 5 (Dot (V 2) ''length'')), When (Or (Or (Or (Or (Bin Lt (V 1) (K (JNum 0))) (Bin Lt (V 3) (K (JNum 0)))) (Bin Lt (V 4) (K (JNum 0)))) (Bin Gt (Bin Plus (V 1) (V 4)) (V 6))) (Bin Gt (Bin Plus (V 3) (V 4)) (V 5))) [Raise (Call ''Lcb'' [New ''Edb'' []])] []],
    fn ''Ugc'' 3 4 [Do (SetV 6 (Call ''LIc'' [V 1, V 2])), Do (SetV 5 (K (JNum 0))), Do (SetV 4 (Meth (V 6) ''Jc'' [])), Loop (Meth (V 4) ''Ob'' []) [Do (SetV 3 (Call ''JD'' [Meth (V 4) ''Pb'' [], K (JNum 12)])), Do (Call ''hjb'' [Dot (V 0) ''c'', V 3, Call ''Cfb'' [Bin Minus (SetV 5 (Bin Minus (V 5) (K (JNum (- 1))))) (K (JNum 1))]])] []],
    fn ''dSb'' 1 2 [Do (SetV 2 (New ''Kmb'' [Dot (Dot (V 0) ''a'') ''b''])), Loop (Bin Lt (Dot (V 2) ''a'') (Dot (Dot (Dot (V 2) ''c'') ''c'') ''length'')) [Do (SetV 1 (Call ''JD'' [Call ''Imb'' [V 2], K (JNum 82)])), Do (Put (Dot (V 1) ''g'') ''c'' (Bin Minus (Minus1 (Dot (Dot (V 1) ''g'') ''c'')) (Dot (Dot (V 1) ''g'') ''b'')))] [], Do (Call ''$Rb'' [V 0])],
    fn ''fFb'' 1 2 [Do (SetV 2 (New ''Kmb'' [Dot (Dot (V 0) ''a'') ''b''])), Loop (Bin Lt (Dot (V 2) ''a'') (Dot (Dot (Dot (V 2) ''c'') ''c'') ''length'')) [Do (SetV 1 (Call ''JD'' [Call ''Imb'' [V 2], K (JNum 60)])), Do (Put (Dot (V 1) ''d'') ''c'' (Bin Minus (Minus1 (Dot (Dot (V 1) ''d'') ''c'')) (Dot (Dot (V 1) ''d'') ''b'')))] [], Do (Call ''_Eb'' [V 0])],
    fn ''Erb'' 1 3 [Do (SetV 1 (Call ''JD'' [And (Dot (V 0) ''e'') (Meth (V 0) ''e'' []), K (JNum 10)])), Do (SetV 3 (Seq (SetV 2 (Meth (V 1) ''slice'' [])) (Call ''JD'' [Call ''XC'' [V 2, V 1], K (JNum 10)]))), Ret (New ''Nrb'' [V 1, V 3, Dot (V 1) ''length''])],
    fn ''fD'' 1 3 [Do (SetV 1 (Bin BitAnd (Bin Plus (Compl (Dot (V 0) ''l'')) (K (JNum 1))) (G ''rve''))), Do (SetV 2 (Bin BitAnd (Bin Plus (Compl (Dot (V 0) ''m'')) (Cond (Loose (V 1) (K (JNum 0))) (K (JNum 1)) (K (JNum 0)))) (G ''rve''))), Do (SetV 3 (Bin BitAnd (Bin Plus (Compl (Dot (V 0) ''h'')) (Cond (And (Loose (V 1) (K (JNum 0))) (Loose (V 2) (K (JNum 0)))) (K (JNum 1)) (K (JNum 0)))) (G ''sve''))), Do (Put (V 0) ''l'' (V 1)), Do (Put (V 0) ''m'' (V 2)), Do (Put (V 0) ''h'' (V 3))],
    fn ''rgd'' 1 5 [Do (SetV 1 (New ''jgd'' [])), Do (Seq (Seq (SetV 3 (V 0)) (SetV 4 (K (JNum 0)))) (SetV 5 (Dot (V 3) ''length''))), Loop (Bin Lt (V 4) (V 5)) [Do (SetV 2 (Idx (V 3) (V 4))), Do (Put (V 1) ''a'' (Bin Plus (Dot (V 1) ''a'') (Dot (V 2) ''a''))), Do (Put (V 1) ''b'' (Bin Plus (Dot (V 1) ''b'') (Dot (V 2) ''b'')))] [Do (SetV 4 (Bin Minus (V 4) (K (JNum (- 1)))))], Ret (V 1)],
    fn ''mCd'' 3 4 [Do (SetV 5 (K JNull)), Do (SetV 6 (V 1)), Do (SetV 4 (Call ''SAd'' [V 6, K (JStr ''labels'')])), Do (SetV 3 (New ''jDd'' [V 0, V 2])), Do (SetV 5 (Seq (Call ''JBd'' [Dot (V 3) ''a'', Dot (V 3) ''b'', V 4]) (V 4))), Ret (V 5)],
    fn ''_Ic'' 3 1 [Do (SetV 3 (New ''lmb'' [])), Do (Call ''bJc'' [V 0, V 1, V 3, Seq (Call ''Bmd'' []) (G ''gmd''), K (JBool True), K (JBool False)]), Do (Call ''bJc'' [V 0, V 2, V 3, G ''Amd'', K (JBool False), K (JBool False)]), Ret (V 3)],
    fn ''Wce'' 4 1 [Do (SetV 4 (Call ''cde'' [V 0, V 1, V 2, V 3])), When (Neg (V 4)) [Do (SetV 4 (Call ''Vce'' [V 0, V 2, V 3])), When (And (Neg (Neg (V 4))) (Neg (Call ''Rce'' [V 0, V 1, V 4]))) [Ret (K JNull)] []] [], Ret (V 4)],
    fn ''Zce'' 4 1 [Do (SetV 4 (Call ''dde'' [V 0, V 1, V 2, V 3])), When (Neg (V 4)) [Do (SetV 4 (Call ''Yce'' [V 0, V 2, V 3])), When (And (Neg (Neg (V 4))) (Neg (Call ''Rce'' [V 0, V 1, V 4]))) [Ret (K JNull)] []] [], Ret (V 4)],
    fn ''Xb'' 2 1 [Do (SetV 2 (K (JNum 0))), Loop (Bin Lt (V 2) (Dot (Dot (Dot (V 0) ''a'') ''a'') ''length'')) [When (Neg (Meth (Call ''JD'' [Call ''unb'' [Dot (V 0) ''a'', V 2], K (JNum 178)]) ''Lb'' [V 1])) [Ret (K (JBool False))] []] [Do (Bin Minus (SetV 2 (Bin Minus (V 2) (K (JNum (- 1))))) (K (JNum 1)))], Ret (K (JBool True))],
    fn ''Cb'' 3 0 [Do (Call ''Qb'' [V 1]), When (Meth (V 2) ''Ob'' []) [Do (Call ''dhb'' [V 1, Call ''Fb'' [Meth (V 2) ''Pb'' []]]), Loop (Meth (V 2) ''Ob'' []) [Do (Call ''dhb'' [V 1, Dot (V 0) ''a'']), Do (Call ''dhb'' [V 1, Call ''Fb'' [Meth (V 2) ''Pb'' []]])] []] [], Ret (V 1)],
    fn ''Mnb'' 1 3 [Do (Call ''Inb'' []), Do (SetV 3 (K (JNum 1))), Do (SetV 2 (Meth (V 0) ''Jc'' [])), Loop (Meth (V 2) ''Ob'' []) [Do (SetV 1 (Meth (V 2) ''Pb'' [])), Do (SetV 3 (Bin Plus (Bin Times (K (JNum 31)) (V 3)) (Cond (Neg (Loose (V 1) (K JNull))) (Call ''tb'' [V 1]) (K (JNum 0))))), Do (SetV 3 (Bin BitOr (V 3) (K (JNum 0))))] [], Ret (V 3)],
    fn ''cD'' 5 1 [Do (SetV 5 (Call ''tD'' [V 0, V 1])), Do (And (V 2) (Call ''fD'' [V 5])), When (V 4) [Do (SetV 0 (Call ''eD'' [V 0, V 1])), Do (Cond (V 3) (SetG ''YC'' (Call ''pD'' [V 0])) (SetG ''YC'' (Call ''_C'' [Dot (V 0) ''l'', Dot (V 0) ''m'', Dot (V 0) ''h''])))] [], Ret (V 5)],
    fn ''WBb'' 1 1 [Do (Call ''cBb'' [V 0]), Do (SetV 1 (New ''_Cb'' [])), When (Meth (Dot (V 0) ''a'') ''zd'' [V 1]) [Ret (Seq (Call ''Rub'' []) (New ''Vub'' [Call ''NDb'' [Dot (V 1) ''a'']]))] [], Ret (Seq (Seq (Call ''Rub'' []) (Call ''Rub'' [])) (G ''Qub''))],
    fn ''YRb'' 1 2 [Do (SetV 2 (New ''Kmb'' [Dot (Dot (V 0) ''a'') ''b''])), Loop (Bin Lt (Dot (V 2) ''a'') (Dot (Dot (Dot (V 2) ''c'') ''c'') ''length'')) [Do (SetV 1 (Call ''JD'' [Call ''Imb'' [V 2], K (JNum 82)])), Do (Meth (Dot (V 1) ''f'') ''$b'' [])] [], Do (Call ''rSb'' [Dot (V 0) ''b'', V 0]), Do (Call ''ZRb'' [V 0])],
    fn ''jNb'' 2 0 [Switch (Dot (V 1) ''g'') [(Some (JNum 0), [Do (Or (Call ''RD'' [Dot (V 0) ''b'', K (JNum 632)]) (Put (V 0) ''b'' (New ''XNb'' []))), Break]), (Some (JNum 1), [Do (Or (Call ''RD'' [Dot (V 0) ''b'', K (JNum 633)]) (Put (V 0) ''b'' (New ''bOb'' [])))])]],
    fn ''rwd'' 2 0 [Switch (V 1) [(Some (JNum 7), [Ret (And (Neg (Neg (Dot (V 0) ''e''))) (Neg (Loose (Dot (Dot (V 0) ''e'') ''i'') (K (JNum 0)))))]), (Some (JNum 8), [Ret (And (Neg (Neg (Dot (V 0) ''d''))) (Neg (Loose (Dot (Dot (V 0) ''d'') ''i'') (K (JNum 0)))))])], Ret (Call ''Uvd'' [V 0, V 1])],
    fn ''_fc'' 3 0 [Do (Put (V 0) ''g'' (Call ''fgc'' [V 0, V 1, Seq (Call ''Bmd'' []) (G ''gmd''), Dot (V 0) ''b''])), Do (Put (V 0) ''d'' (Call ''fgc'' [V 0, V 2, G ''gmd'', Dot (V 0) ''b''])), When (Or (Loose (Dot (Dot (V 0) ''g'') ''c'') (K (JNum 0))) (Loose (Dot (Dot (V 0) ''d'') ''c'') (K (JNum 0)))) [Ret (K JUndef)] [], Do (Call ''cgc'' [V 0])],
    fn ''agc'' 3 0 [Do (Put (V 0) ''g'' (Call ''fgc'' [V 0, V 1, Seq (Call ''Bmd'' []) (G ''Amd''), Dot (V 0) ''j''])), Do (Put (V 0) ''d'' (Call ''fgc'' [V 0, V 2, G ''Amd'', Dot (V 0) ''j''])), When (Or (Loose (Dot (Dot (V 0) ''g'') ''c'') (K (JNum 0))) (Loose (Dot (Dot (V 0) ''d'') ''c'') (K (JNum 0)))) [Ret (K JUndef)] [], Do (Call ''cgc'' [V 0])],
    fn ''XSc'' 2 0 [Ret (Bin Le (Call ''Zfd'' [Call ''USc'' [Call ''JD'' [Call ''oNb'' [V 1, Seq (Call ''SXc'' []) (G ''qXc'')], K (JNum 86)]], New ''lgd'' [Bin Minus (Dot (Dot (Dot (V 0) ''c'') ''e'') ''a'') (Dot (Dot (Dot (V 0) ''b'') ''e'') ''a''), Bin Minus (Dot (Dot (Dot (V 0) ''c'') ''e'') ''b'') (Dot (Dot (Dot (V 0) ''b'') ''e'') ''b'')]]) (K (JNum 0)))],
    fn ''Ayc'' 3 0 [Ret (Neg (Meth (Call ''hCb'' [Call ''VBb'' [New ''jCb'' [K JNull, New ''Zvb'' [Dot (V 0) ''c'', K (JNum 16)]], New ''Xzb'' [New ''Ipd'' [V 1, V 2]]]]) ''zd'' [Seq (Call ''QBb'' []) (G ''PBb'')]))],
    fn ''MTc'' 3 0 [Do (Put This ''g'' (V 0)), Do (Put This ''e'' (New ''jgd'' [])), Do (Put This ''f'' (New ''jgd'' [])), Do (Put This ''d'' (New ''dub'' [])), Do (Put This ''b'' (New ''dub'' [])), Do (Put This ''a'' (V 1)), Do (Put This ''c'' (V 2))],
    fn ''R6c'' 4 0 [Do (Put This ''b'' (New ''lmb'' [])), Do (Put This ''n'' (New ''lmb'' [])), Do (Put This ''i'' (V 3)), Do (Put This ''j'' (V 2)), Do (Put This ''s'' (V 0)), Do (Put This ''t'' (V 1)), Do (Put This ''r'' (K (JNum 0))), Do (Put This ''d'' (K (JNum 0)))],
    fn ''ylc'' 4 0 [Do (Put This ''b'' (New ''_rb'' [])), Do (Put This ''g'' (New ''_rb'' [])), Do (Put This ''d'' (Seq (Call ''azc'' []) (G ''_yc''))), Do (Put This ''c'' (V 0)), Do (Put This ''e'' (V 1)), Do (Put This ''d'' (V 2)), Do (Put This ''a'' (V 3))],
    fn ''_ud'' 3 0 [Switch (V 1) [(Some (JNum 0), [Do (And (Neg (Dot (V 0) ''o'')) (Put (V 0) ''o'' (New ''QTd'' [Seq (Call ''Nsd'' []) (G ''Ksd''), G ''f4'', V 0, K (JNum 0)]))), Do (Call ''PTd'' [Dot (V 0) ''o'', V 2]), Ret (K JUndef)])], Do (Call ''std'' [V 0, V 1, V 2])],
    fn ''p8c'' 1 0 [Switch (Dot (V 0) ''g'') [(Some (JNum 0), [Ret (New ''Wad'' [])]), (None, [Raise (Call ''Lcb'' [New ''kfb'' [Bin Plus (G ''iEe'') (Cond (Neg (Loose (Dot (V 0) ''f'') (K JNull))) (Dot (V 0) ''f'') (Bin Plus (K (JStr '''')) (Dot (V 0) ''g'')))]])])]],
    fn ''Y9c'' 1 0 [Switch (Dot (V 0) ''g'') [(Some (JNum 0), [Ret (New ''qad'' [])]), (None, [Raise (Call ''Lcb'' [New ''kfb'' [Bin Plus (G ''iEe'') (Cond (Neg (Loose (Dot (V 0) ''f'') (K JNull))) (Dot (V 0) ''f'') (Bin Plus (K (JStr '''')) (Dot (V 0) ''g'')))]])])]],
    fn ''sac'' 0 0 [Do (SetG ''sac'' (G ''qdb'')), Do (SetG ''qac'' (New ''Lac'' [])), Do (SetG ''rac'' (New ''Nac'' [])), Do (SetG ''pac'' (New ''Dac'' [])), Do (SetG ''oac'' (New ''Pac'' [])), Do (SetG ''nac'' (New ''Hac'' [])), Do (SetG ''mac'' (Seq (Call ''NDb'' [G ''nac'']) (New ''vqb'' [])))],
    fn ''uWc'' 0 0 [Do (SetG ''uWc'' (G ''qdb'')), Do (SetG ''tWc'' (New ''vWc'' [G ''qye'', K (JNum 0)])), Do (SetG ''sWc'' (New ''vWc'' [K (JStr ''MIDDLE_TO_MIDDLE''), K (JNum 1)])), Do (SetG ''rWc'' (New ''vWc'' [K (JStr ''AVOID_OVERLAP''), K (JNum 2)]))],
    fn ''Cgd'' 1 3 [Do (SetV 1 (New ''ygd'' [])), Do (SetV 3 (Call ''Ztb'' [V 0, K (JNum 0)])), Loop (Neg (Loose (Dot (V 3) ''b'') (Dot (Dot (V 3) ''d'') ''c''))) [Do (SetV 2 (Call ''JD'' [Call ''lub'' [V 3], K (JNum 8)])), Do (Call ''$t'' [V 1, K (JNum 0), New ''mgd'' [V 2]])] [], Ret (V 1)],
    fn ''ygb'' 1 2 [Do (SetV 1 (K (JNum 0))), Do (SetV 2 (K (JNum 0))), Loop (Bin Lt (V 2) (Dot (V 0) ''length'')) [Do (SetV 1 (Bin BitOr (Bin Plus (Bin Minus (Bin Shl (V 1) (K (JNum 5))) (V 1)) (Seq (Call ''UDb'' [V 2, Dot (V 0) ''length'']) (Meth (V 0) ''charCodeAt'' [V 2]))) (K (JNum 0))))] [Do (Bin Minus (SetV 2 (Bin Minus (V 2) (K (JNum (- 1))))) (K (JNum 1)))], Ret (V 1)],
    fn ''g0b'' 1 2 [Do (SetV 1 (Call ''JD'' [Call ''oNb'' [V 0, Seq (Call ''Wrc'' []) (G ''Crc'')], K (JNum 9)])), When (V 1) [Do (SetV 2 (Dot (V 1) ''c'')), Do (Call ''gmb'' [Dot (V 2) ''a'', V 1]), Do (And (Loose (Dot (Dot (Dot (V 2) ''a'') ''c'') ''length'') (K (JNum 0))) (Call ''gmb'' [Dot (Call ''DYb'' [V 1]) ''b'', V 2]))] []],
    fn ''sAb'' 1 0 [When (G ''lAb'') [Ret (Call ''SC'' [G ''AL'', G ''jwe'', K (JNum 567), K (JNum 0), K (JNum 0), K (JNum 1)])] [], Ret (Call ''JD'' [Call ''kmb'' [Dot (V 0) ''a'', Call ''SC'' [G ''AL'', G ''jwe'', K (JNum 567), Dot (Dot (Dot (V 0) ''a'') ''c'') ''length'', K (JNum 0), K (JNum 1)]], K (JNum 841)])],
    fn ''vA'' 1 1 [When (Bin Le (Dot (V 0) ''b'') (K (JNum 0))) [Ret (K (JBool False))] [], Do (SetV 1 (Call ''Agb'' [K (JStr ''MLydhHmsSDkK''), Call ''Pgb'' [Call ''sgb'' [Dot (V 0) ''c'', K (JNum 0)]]])), Ret (Or (Bin Gt (V 1) (K (JNum 1))) (And (Bin Ge (V 1) (K (JNum 0))) (Bin Lt (Dot (V 0) ''b'') (K (JNum 3)))))],
    fn ''sre'' 0 1 [Do (Call ''gre'' []), When (G ''Pqe'') [Ret (G ''Pqe'')] [], Do (SetV 0 (Call ''kre'' [Call ''ure'' [K (JStr ''M''), K (JBool True)]])), Do (SetV 0 (Call ''lre'' [Call ''ure'' [K (JStr ''M''), K (JBool False)], V 0])), Do (SetG ''Pqe'' (V 0)), Ret (G ''Pqe'')],
    fn ''kSc'' 1 0 [Switch (Dot (V 0) ''g'') [(Some (JNum 1), [Ret (G ''GCe'')]), (None, []), (Some (JNum 2), [Ret (K (JNum 0))]), (Some (JNum 3), [Ret (G ''HCe'')]), (Some (JNum 4), [Ret (G ''ICe'')])]],
    fn ''xFd'' 2 0 [When (And (Neg (Meth (V 0) ''Ji'' [])) (Loose (V 1) (K JNull))) [Raise (Call ''Lcb'' [New ''kfb'' [K (JStr (''The '' @ CHR 0x27 # ''no null'' @ CHR 0x27 # '' constraint is violated''))]])] [], Ret (V 1)],
    fn ''mjb'' 2 0 [Do (Call ''FDb'' [Bin Ge (V 0) (K (JNum 0)), K (JStr ''Negative initial capacity'')]), Do (Call ''FDb'' [Bin Ge (V 1) (K (JNum 0)), K (JStr ''Non-positive load factor'')]), Do (Call ''kjb'' [This])],
    fn ''Txb'' 2 3 [Do (SetV 4 (Dot (V 0) ''b'')), Loop (V 4) [Do (SetV 2 (Meth (Dot (V 0) ''a'') ''Le'' [V 1, Dot (V 4) ''d''])), When (Loose (V 2) (K (JNum 0))) [Ret (V 4)] [], Do (SetV 3 (Cond (Bin Lt (V 2) (K (JNum 0))) (K (JNum 0)) (K (JNum 1)))), Do (SetV 4 (Idx (Dot (V 4) ''a'') (V 3)))] [], Ret (K JNull)],
    fn ''ow'' 2 1 [When (Same (V 1) (V 0)) [Ret (K (JBool True))] [], When (Call ''RD'' [V 1, K (JNum 229)]) [Do (SetV 2 (Call ''JD'' [V 1, K (JNum 229)])), Ret (Call ''pb'' [Meth (V 0) ''Zb'' [], Meth (V 2) ''Zb'' []])] [], Ret (K (JBool False))],
    fn ''uVb'' 2 0 [When (Call ''vVb'' [V 0, V 1]) [Do (Call ''Rc'' [Dot (V 0) ''b'', Call ''JD'' [Call ''oNb'' [V 1, Seq (Call ''Wrc'' []) (G ''Xqc'')], K (JNum 22)], V 1]), Do (Call ''Ttb'' [Dot (V 0) ''a'', V 1]), Ret (K (JBool True))] [Ret (K (JBool False))]],
    fn ''Y8b'' 2 0 [When (And (Call ''pNb'' [V 0, Seq (Call ''Wrc'' []) (G ''trc'')]) (Call ''pNb'' [V 1, G ''trc''])) [Ret (Bin Minus (Dot (Call ''JD'' [Call ''oNb'' [V 1, G ''trc''], K (JNum 15)]) ''a'') (Dot (Call ''JD'' [Call ''oNb'' [V 0, G ''trc''], K (JNum 15)]) ''a''))] [], Ret (K (JNum 0))],
    fn ''b9b'' 2 0 [When (And (Call ''pNb'' [V 0, Seq (Call ''Wrc'' []) (G ''trc'')]) (Call ''pNb'' [V 1, G ''trc''])) [Ret (Bin Minus (Dot (Call ''JD'' [Call ''oNb'' [V 0, G ''trc''], K (JNum 15)]) ''a'') (Dot (Call ''JD'' [Call ''oNb'' [V 1, G ''trc''], K (JNum 15)]) ''a''))] [], Ret (K (JNum 0))],
    fn ''_2c'' 2 2 [Do (SetV 2 (Dot (Call ''JD'' [Call ''cvd'' [V 0, Seq (Call ''S4c'' []) (G ''u4c'')], K (JNum 15)]) ''a'')), Do (SetV 3 (Dot (Call ''JD'' [Call ''cvd'' [V 1, G ''u4c''], K (JNum 15)]) ''a'')), Ret (Cond (Loose (V 2) (V 3)) (K (JNum (- 1))) (Cond (Bin Lt (V 2) (V 3)) (K (JNum (- 1))) (Cond (Bin Gt (V 2) (V 3)) (K (JNum 1)) (K (JNum 0)))))],
    fn ''xyc'' 1 0 [Do (Call ''_lb'' [Dot (V 0) ''c'', Seq (Call ''cbd'' []) (G ''abd'')]), When (Call ''Uy'' [Dot (V 0) ''a'', Call ''Ueb'' [Call ''MD'' [Call ''BEd'' [Seq (Call ''Fyc'' []) (G ''Dyc'')]]]]) [Ret (New ''Cpd'' [])] [], Ret (New ''Epd'' [V 0])],
    fn ''Vr'' 1 0 [Loop (Or (Neg (Dot (V 0) ''d'')) (Neg (Meth (Dot (V 0) ''d'') ''Ob'' []))) [When (And (Neg (Neg (Dot (V 0) ''b''))) (Neg (Call ''xlb'' [Dot (V 0) ''b'']))) [Do (Put (V 0) ''d'' (Call ''JD'' [Call ''Clb'' [Dot (V 0) ''b''], K (JNum 50)]))] [Ret (K JNull)]] [], Ret (Dot (V 0) ''d'')],
    fn ''wgc'' 3 0 [When (Neg (Idx (Idx (Dot (V 0) ''d'') (Dot (V 1) ''p'')) (Dot (V 2) ''p''))) [Do (Call ''vgc'' [V 0, V 1, V 2]), Do (PutIdx (Idx (Dot (V 0) ''d'') (Dot (V 1) ''p'')) (Dot (V 2) ''p'') (K (JBool True))), Do (PutIdx (Idx (Dot (V 0) ''d'') (Dot (V 2) ''p'')) (Dot (V 1) ''p'') (K (JBool True)))] [], Ret (Idx (Idx (Dot (V 0) ''a'') (Dot (V 1) ''p'')) (Dot (V 2) ''p''))],
    fn ''xyd'' 3 2 [Do (SetV 4 (Seq (SetV 3 (New ''D2d'' [])) (V 3))), Do (Call ''Uyd'' [V 4, V 1, V 2]), Do (Call ''lFd'' [Seq (And (Neg (Dot (V 0) ''q'')) (Put (V 0) ''q'' (New ''P3d'' [G ''D6'', V 0, K (JNum 11), K (JNum 10)]))) (Dot (V 0) ''q''), V 4]), Ret (V 4)],
    fn ''Txd'' 1 4 [Do (SetV 4 (Call ''wdb'' [G ''Lxd'', V 0])), Do (SetV 2 (Dot (V 4) ''length'')), Do (SetV 3 (Call ''SC'' [G ''hJ'', G ''aue'', K (JNum 2), V 2, K (JNum 6), K (JNum 1)])), Do (SetV 1 (K (JNum 0))), Loop (Bin Lt (V 1) (V 2)) [Do (PutIdx (V 3) (V 1) (Idx (V 4) (V 1)))] [Do (SetV 1 (Bin Minus (V 1) (K (JNum (- 1)))))], Ret (V 3)],
    fn ''tdd'' 2 5 [Do (Seq (Seq (SetV 3 (V 1)) (SetV 4 (K (JNum 0)))) (SetV 5 (Dot (V 3) ''length''))), Loop (Bin Lt (V 4) (V 5)) [Do (SetV 2 (Idx (V 3) (V 4))), Do (SetV 6 (New ''Ddd'' [V 0])), Do (Meth (V 2) ''tf'' [V 6]), Do (Call ''ydd'' [V 6])] [Do (SetV 4 (Bin Minus (V 4) (K (JNum (- 1)))))], Do (Call ''kjb'' [Dot (V 0) ''f''])],
    fn ''qvb'' 2 1 [When (Bin Ge (Bin Plus (Bin Times (V 1) (K (JNum 2))) (K (JNum 1))) (Dot (Dot (Dot (V 0) ''b'') ''c'') ''length'')) [Ret (K JUndef)] [], Do (Call ''qvb'' [V 0, Bin Plus (Bin Times (K (JNum 2)) (V 1)) (K (JNum 1))]), Do (SetV 2 (Bin Plus (Bin Times (K (JNum 2)) (V 1)) (K (JNum 2)))), Do (And (Bin Lt (V 2) (Dot (Dot (Dot (V 0) ''b'') ''c'') ''length'')) (Call ''qvb'' [V 0, V 2])), Do (Call ''rvb'' [V 0, V 1])],
    fn ''MGc'' 2 2 [Do (SetV 3 (Call ''Ztb'' [V 0, K (JNum 0)])), Loop (Neg (Loose (Dot (V 3) ''b'') (Dot (Dot (V 3) ''d'') ''c''))) [Do (SetV 2 (Call ''JD'' [Call ''lub'' [V 3], K (JNum 218)])), When (Bin Gt (Dot (Dot (V 2) ''e'') ''length'') (K (JNum 0))) [Do (Meth (V 1) ''Ad'' [V 2]), Do (And (Dot (V 2) ''i'') (Call ''TGc'' [V 2]))] []] []],
    fn ''Oib'' 3 1 [Do (SetV 3 (Bin Minus (V 2) (K (JNum 1)))), Loop (And (Bin Ge (V 3) (K (JNum 0))) (Same (Idx (V 0) (V 3)) (Idx (V 1) (V 3)))) [] [Do (Bin Minus (SetV 3 (Bin Minus (V 3) (K (JNum 1)))) (K (JNum (- 1))))], Ret (Cond (Bin Lt (V 3) (K (JNum 0))) (K (JNum 0)) (Cond (Call ''Wcb'' [Call ''Ncb'' [Idx (V 0) (V 3), G ''Mve''], Call ''Ncb'' [Idx (V 1) (V 3), G ''Mve'']]) (K (JNum (- 1))) (K (JNum 1))))],
    fn ''eJc'' 2 1 [When (Or (Or (Neg (V 0)) (Loose (V 0) (V 1))) (Neg (Call ''pNb'' [V 1, Seq (Call ''Wrc'' []) (G ''grc'')]))) [Ret (K (JBool False))] [], Do (SetV 2 (Call ''JD'' [Call ''oNb'' [V 1, Seq (Call ''Wrc'' []) (G ''grc'')], K (JNum 9)])), Ret (Neg (Loose (V 2) (V 0)))],
    fn ''Ofe'' 1 0 [Switch (Dot (V 0) ''i'') [(Some (JNum 2), [Ret (K (JBool True))]), (Some (JNum 1), [Ret (K (JBool False))]), (Some (JNum (- 1)), [Do (Put (V 0) ''c'' (Bin Minus (Dot (V 0) ''c'') (K (JNum (- 1)))))]), (None, [Ret (Meth (V 0) ''Yl'' [])])]],
    fn ''Pfe'' 1 0 [Switch (Dot (V 0) ''i'') [(Some (JNum (- 2)), [Ret (K (JBool True))]), (Some (JNum (- 1)), [Ret (K (JBool False))]), (Some (JNum 1), [Do (Put (V 0) ''c'' (Bin Minus (Dot (V 0) ''c'') (K (JNum 1))))]), (None, [Ret (Meth (V 0) ''Zl'' [])])]],
    fn ''Dc'' 2 2 [Do (SetV 3 (Meth (Meth (Meth (V 0) ''Zb'' []) ''Bc'' []) ''Jc'' [])), Loop (Meth (V 3) ''Ob'' []) [Do (SetV 2 (Call ''JD'' [Meth (V 3) ''Pb'' [], K (JNum 18)])), When (Meth (V 2) ''Gc'' [V 1]) [Ret (K (JBool True))] []] [], Ret (K (JBool False))],
    fn ''_t'' 3 4 [Do (Call ''NDb'' [V 2]), Do (SetV 6 (K (JBool False))), Do (SetV 5 (Meth (V 0) ''dd'' [V 1])), Do (SetV 4 (Meth (V 2) ''Jc'' [])), Loop (Meth (V 4) ''Ob'' []) [Do (SetV 3 (Meth (V 4) ''Pb'' [])), Do (Meth (V 5) ''Rb'' [V 3]), Do (SetV 6 (K (JBool True)))] [], Ret (V 6)],
    fn ''_s'' 3 2 [Do (Put This ''g'' (V 0)), Do (Put This ''c'' (V 1)), Do (Put This ''a'' This), Do (Put This ''d'' This), Do (SetV 4 (Call ''Qp'' [V 2])), Do (SetV 3 (Call ''SC'' [G ''MG'', G ''tue'', K (JNum 227), V 4, K (JNum 0), K (JNum 1)])), Do (Put This ''b'' (V 3))],
    fn ''cLd'' 2 2 [Do (SetV 3 (Call ''JD'' [Call ''uud'' [Dot (V 0) ''a'', K (JNum 4)], K (JNum 129)])), Do (SetV 2 (Call ''SC'' [G ''o5'', G ''THe'', K (JNum 415), V 1, K (JNum 0), K (JNum 1)])), Do (And (Neg (Loose (V 3) (K JNull))) (Call ''rhb'' [V 3, K (JNum 0), V 2, K (JNum 0), Dot (V 3) ''length''])), Ret (V 2)],
    fn ''uQd'' 2 1 [Do (SetV 2 (New ''yQd'' [Neg (Loose (Bin BitAnd (Dot (V 0) ''f'') (K (JNum 256))) (K (JNum 0))), Dot (V 0) ''i'', Dot (V 0) ''a'', Dot (V 0) ''d'', Neg (Loose (Bin BitAnd (Dot (V 0) ''f'') (K (JNum 16))) (K (JNum 0))), Dot (V 0) ''j'', Dot (V 0) ''g'', V 1])), Do (Or (Neg (Loose (Dot (V 0) ''e'') (K JNull))) (Put (V 2) ''c'' (V 0))), Ret (V 2)],
    fn ''Kv'' 2 1 [When (Same (V 0) (V 1)) [Ret (K (JBool True))] [When (Call ''RD'' [V 1, K (JNum 92)]) [Do (SetV 2 (Call ''JD'' [V 1, K (JNum 92)])), Ret (Call ''Nx'' [Call ''bn'' [V 0], Meth (V 2) ''vc'' []])] []], Ret (K (JBool False))],
    fn ''djb'' 3 2 [Do (SetV 4 (Meth (V 2) ''Jc'' [])), Loop (Meth (V 4) ''Ob'' []) [Do (SetV 3 (Call ''JD'' [Meth (V 4) ''Pb'' [], K (JNum 45)])), When (Meth (V 0) ''ze'' [V 1, Meth (V 3) ''kd'' []]) [Ret (K (JBool True))] []] [], Ret (K (JBool False))]]"

definition code_4160_4227 :: "(string \<times> jfun) list" where
  "code_4160_4227 = [
    fn ''rRb'' 0 0 [Do (SetG ''rRb'' (G ''qdb'')), Do (SetG ''pRb'' (Call ''Sx'' [Call ''WC'' [Call ''OC'' [G ''y2'', K (JNum 1)], G ''xue'', K (JNum 86), K (JNum 0), NewArr [Seq (Call ''Djd'' []) (G ''zjd''), G ''Ajd'']]])), Do (SetG ''qRb'' (Call ''Sx'' [Call ''WC'' [Call ''OC'' [G ''y2'', K (JNum 1)], G ''xue'', K (JNum 86), K (JNum 0), NewArr [G ''Cjd'', G ''yjd'']]]))],
    fn ''Gkd'' 0 0 [Do (SetG ''Gkd'' (G ''qdb'')), Do (SetG ''Ekd'' (New ''hZb'' [K (JNum 15)])), Do (SetG ''Dkd'' (New ''FEd'' [Seq (Call ''vjd'' []) (G ''rid''), G ''Ekd''])), Do (SetG ''Fkd'' (G ''Oid'')), Do (SetG ''zkd'' (G ''yhd'')), Do (SetG ''Akd'' (G ''iid'')), Do (SetG ''Ckd'' (G ''lid'')), Do (SetG ''Bkd'' (G ''kid''))],
    fn ''Qkd'' 0 0 [Do (SetG ''Qkd'' (G ''qdb'')), Do (SetG ''Okd'' (New ''Rkd'' [G ''yFe'', K (JNum 0)])), Do (SetG ''Nkd'' (New ''Rkd'' [K (JStr ''INCLUDE_CHILDREN''), K (JNum 1)])), Do (SetG ''Pkd'' (New ''Rkd'' [K (JStr ''SEPARATE_CHILDREN''), K (JNum 2)]))],
    fn ''R0c'' 0 0 [Do (SetG ''R0c'' (G ''qdb'')), Do (SetG ''O0c'' (New ''T0c'' [G ''qye'', K (JNum 0)])), Do (SetG ''P0c'' (New ''T0c'' [K (JStr ''RADIAL_COMPACTION''), K (JNum 1)])), Do (SetG ''Q0c'' (New ''T0c'' [K (JStr ''WEDGE_COMPACTION''), K (JNum 2)]))],
    fn ''IAc'' 0 0 [Do (SetG ''IAc'' (G ''qdb'')), Do (SetG ''HAc'' (New ''JAc'' [K (JStr ''STACKED''), K (JNum 0)])), Do (SetG ''FAc'' (New ''JAc'' [K (JStr ''REVERSE_STACKED''), K (JNum 1)])), Do (SetG ''GAc'' (New ''JAc'' [K (JStr ''SEQUENCED''), K (JNum 2)]))],
    fn ''FAb'' 0 0 [Do (SetG ''FAb'' (G ''qdb'')), Do (SetG ''CAb'' (New ''GAb'' [K (JStr ''CONCURRENT''), K (JNum 0)])), Do (SetG ''DAb'' (New ''GAb'' [K (JStr ''IDENTITY_FINISH''), K (JNum 1)])), Do (SetG ''EAb'' (New ''GAb'' [K (JStr ''UNORDERED''), K (JNum 2)]))],
    fn ''Vqd'' 0 0 [Do (SetG ''Vqd'' (G ''qdb'')), Do (SetG ''Sqd'' (New ''Wqd'' [K (JStr ''ELK''), K (JNum 0)])), Do (SetG ''Tqd'' (New ''Wqd'' [K (JStr ''JSON''), K (JNum 1)])), Do (SetG ''Rqd'' (New ''Wqd'' [K (JStr ''DOT''), K (JNum 2)])), Do (SetG ''Uqd'' (New ''Wqd'' [K (JStr ''SVG''), K (JNum 3)]))],
    fn ''bYc'' 0 0 [Do (SetG ''bYc'' (G ''qdb'')), Do (SetG ''aYc'' (New ''cYc'' [G ''rye'', K (JNum 0)])), Do (SetG ''$Xc'' (New ''cYc'' [G ''TCe'', K (JNum 1)])), Do (SetG ''_Xc'' (New ''cYc'' [K (JStr ''FAN''), K (JNum 2)])), Do (SetG ''ZXc'' (New ''cYc'' [K (JStr ''CONSTRAINT''), K (JNum 3)]))],
    fn ''aBc'' 0 0 [Do (SetG ''aBc'' (G ''qdb'')), Do (SetG ''ZAc'' (New ''bBc'' [K (JStr ''CONSERVATIVE''), K (JNum 0)])), Do (SetG ''$Ac'' (New ''bBc'' [K (JStr ''CONSERVATIVE_SOFT''), K (JNum 1)])), Do (SetG ''_Ac'' (New ''bBc'' [K (JStr ''SLOPPY''), K (JNum 2)]))],
    fn ''ugd'' 3 3 [Do (SetV 3 (New ''dub'' [])), Do (SetV 5 (Call ''Ztb'' [V 2, K (JNum 0)])), Loop (Neg (Loose (Dot (V 5) ''b'') (Dot (Dot (V 5) ''d'') ''c''))) [Do (SetV 4 (Call ''JD'' [Call ''lub'' [V 5], K (JNum 8)])), Do (Call ''Ttb'' [V 3, New ''mgd'' [V 4]])] [], Do (Call ''_t'' [V 0, V 1, V 3])],
    fn ''xgd'' 1 3 [Do (SetV 1 (K (JNum 0))), Do (SetV 3 (Call ''SC'' [G ''r2'', G ''aue'', K (JNum 8), Dot (V 0) ''b'', K (JNum 0), K (JNum 1)])), Do (SetV 2 (Call ''Ztb'' [V 0, K (JNum 0)])), Loop (Neg (Loose (Dot (V 2) ''b'') (Dot (Dot (V 2) ''d'') ''c''))) [Do (PutIdx (V 3) (Bin Minus (SetV 1 (Bin Minus (V 1) (K (JNum (- 1))))) (K (JNum 1))) (Call ''JD'' [Call ''lub'' [V 2], K (JNum 8)]))] [], Ret (V 3)],
    fn ''ke'' 2 2 [Do (SetV 2 (Call ''JD'' [Meth (Dot (V 0) ''d'') ''Ac'' [V 1], K (JNum 18)])), When (Neg (V 2)) [Ret (K JNull)] [], Do (SetV 3 (Meth (Dot (V 0) ''e'') ''hc'' [])), Do (Meth (V 3) ''Fc'' [V 2]), Do (Put (Dot (V 0) ''e'') ''d'' (Bin Minus (Dot (Dot (V 0) ''e'') ''d'') (Meth (V 2) ''gc'' []))), Do (Meth (V 2) ''$b'' []), Ret (V 3)],
    fn ''JIc'' 2 2 [Do (SetV 3 (Idx (Dot (V 0) ''c'') (V 1))), When (Loose (V 3) (K (JNum 0))) [Ret (K JUndef)] [], Do (PutIdx (Dot (V 0) ''c'') (V 1) (K (JNum 0))), Do (Put (V 0) ''d'' (Bin Minus (Dot (V 0) ''d'') (V 3))), Do (SetV 2 (Bin Plus (V 1) (K (JNum 1)))), Loop (Bin Lt (V 2) (Dot (Dot (V 0) ''a'') ''length'')) [Do (PutIdx (Dot (V 0) ''a'') (V 2) (Bin Minus (Idx (Dot (V 0) ''a'') (V 2)) (V 3))), Do (SetV 2 (Bin Plus (V 2) (Bin BitAnd (V 2) (Minus1 (V 2)))))] []],
    fn ''Kxb'' 1 1 [Do (SetV 1 (Dot (Dot (Dot (V 0) ''a'') ''c'') ''length'')), When (Bin Gt (V 1) (K (JNum 0))) [Ret (Seq (Call ''sxb'' [Bin Minus (V 1) (K (JNum 1)), Dot (Dot (Dot (V 0) ''a'') ''c'') ''length'']) (Call ''fmb'' [Dot (V 0) ''a'', Bin Minus (V 1) (K (JNum 1))]))] [Raise (Call ''Lcb'' [New ''$qb'' []])]],
    fn ''Ibd'' 3 0 [When (Bin Lt (V 1) (K (JNum 0))) [Raise (Call ''Lcb'' [New ''Fdb'' [Bin Plus (G ''DEe'') (V 1)]])] [], When (Bin Lt (V 1) (Dot (Dot (Dot (V 0) ''j'') ''c'') ''length'')) [Do (Call ''imb'' [Dot (V 0) ''j'', V 1, V 2])] [Do (Call ''Gbd'' [V 0, V 1]), Do (Call ''_lb'' [Dot (V 0) ''j'', V 2])]],
    fn ''GDb'' 3 0 [When (Bin Gt (V 0) (V 1)) [Raise (Call ''Lcb'' [New ''kfb'' [Bin Plus (Bin Plus (Bin Plus (G ''nwe'') (V 0)) (G ''owe'')) (V 1)]])] [], When (Or (Bin Lt (V 0) (K (JNum 0))) (Bin Gt (V 1) (V 2))) [Raise (Call ''Lcb'' [New ''Hdb'' [Bin Plus (Bin Plus (Bin Plus (Bin Plus (Bin Plus (G ''nwe'') (V 0)) (G ''pwe'')) (V 1)) (G ''cwe'')) (V 2)]])] []],
    fn ''red'' 1 0 [When (Or (Neg (Dot (V 0) ''a'')) (Loose (Bin BitAnd (Dot (Dot (V 0) ''a'') ''i'') (K (JNum 8))) (K (JNum 0)))) [Raise (Call ''Lcb'' [New ''nfb'' [Bin Plus (K (JStr ''Enumeration class expected for layout option '')) (Dot (V 0) ''f'')]])] []],
    fn ''lfb'' 1 0 [Do (Super ''gz'' [K (JStr ''The given string does not match the expected format for individual spacings.''), V 0])],
    fn ''Bs'' 0 0 [Do (Super ''As'' [New ''ptb'' [Call ''Jv'' [K (JNum 16)]]]), Do (Call ''bk'' [K (JNum 2), G ''_te'']), Do (Put This ''b'' (K (JNum 2))), Do (Put This ''a'' (New ''Vs'' [K JNull, K JNull, K (JNum 0), K JNull])), Do (Call ''Js'' [Dot This ''a'', Dot This ''a''])],
    fn ''uz'' 1 0 [Do (Call ''sz'' []), Do (Call ''Yy'' [This]), Do (Call ''$y'' [This]), Do (Put This ''e'' (V 0)), Do (Call ''_y'' [This, V 0]), Do (Put This ''g'' (Cond (Loose (V 0) (K JNull)) (G ''Kte'') (Call ''tdb'' [V 0]))), Do (Put This ''a'' (K (JStr ''''))), Do (Put This ''b'' (V 0)), Do (Put This ''a'' (K (JStr '''')))],
    fn ''LVd'' 2 0 [When (And (Loose (Dot (V 0) ''D'') (K JNull)) (Neg (Loose (Dot (V 0) ''B'') (K JNull)))) [Do (Put (V 0) ''D'' (Dot (V 0) ''B'')), Do (Put (V 0) ''B'' (K JNull))] [], Do (Call ''WVd'' [V 0, Cond (Loose (V 1) (K JNull)) (K JNull) (Seq (Call ''NDb'' [V 1]) (V 1))]), Do (And (Neg (Neg (Dot (V 0) ''C''))) (Meth (V 0) ''fl'' [K JNull]))],
    fn ''Elb'' 2 2 [Do (SetV 2 (Bin Minus (Dot (Dot (V 0) ''a'') ''length'') (K (JNum 1)))), Do (Put (V 0) ''c'' (Bin BitAnd (Bin Minus (Dot (V 0) ''c'') (K (JNum 1))) (V 2))), Loop (Neg (Loose (V 1) (Dot (V 0) ''c''))) [Do (SetV 3 (Bin BitAnd (Bin Plus (V 1) (K (JNum 1))) (V 2))), Do (Call ''VC'' [Dot (V 0) ''a'', V 1, Idx (Dot (V 0) ''a'') (V 3)]), Do (SetV 1 (V 3))] [], Do (Call ''VC'' [Dot (V 0) ''a'', Dot (V 0) ''c'', K JNull])],
    fn ''Flb'' 2 2 [Do (SetV 2 (Bin Minus (Dot (Dot (V 0) ''a'') ''length'') (K (JNum 1)))), Loop (Neg (Loose (V 1) (Dot (V 0) ''b''))) [Do (SetV 3 (Bin BitAnd (Bin Minus (V 1) (K (JNum 1))) (V 2))), Do (Call ''VC'' [Dot (V 0) ''a'', V 1, Idx (Dot (V 0) ''a'') (V 3)]), Do (SetV 1 (V 3))] [], Do (Call ''VC'' [Dot (V 0) ''a'', Dot (V 0) ''b'', K JNull]), Do (Put (V 0) ''b'' (Bin BitAnd (Bin Plus (Dot (V 0) ''b'') (K (JNum 1))) (V 2)))],
    fn ''amb'' 3 2 [Do (Call ''PDb'' [V 1, Dot (Dot (V 0) ''c'') ''length'']), Do (SetV 3 (Meth (V 2) ''Nc'' [])), Do (SetV 4 (Dot (V 3) ''length'')), When (Loose (V 4) (K (JNum 0))) [Ret (K (JBool False))] [], Do (Call ''pDb'' [Dot (V 0) ''c'', V 1, V 3]), Ret (K (JBool True))],
    fn ''L_d'' 1 1 [Do (SetV 1 (Seq (And (Neg (Dot (V 0) ''a'')) (Put (V 0) ''a'' (New ''P3d'' [G ''w6'', V 0, K (JNum 9), K (JNum 5)]))) (Dot (V 0) ''a''))), When (Neg (Loose (Dot (V 1) ''i'') (K (JNum 0)))) [Ret (Call ''$_d'' [Call ''JD'' [Call ''fGd'' [V 1, K (JNum 0)], K (JNum 684)]])] [], Ret (K JNull)],
    fn ''Vy'' 2 1 [Do (SetV 2 (Call ''Mcb'' [V 0, V 1])), When (Bin BitOr (Call ''Wcb'' [Call ''idb'' [V 0, V 1], K (JNum 0)]) (Call ''Ucb'' [Call ''idb'' [V 0, V 2], K (JNum 0)])) [Ret (V 2)] [], Ret (Call ''Mcb'' [G ''fue'', Call ''idb'' [Call ''cdb'' [V 2, K (JNum 63)], K (JNum 1)]])],
    fn ''yyc'' 2 1 [Do (SetV 2 (Cond (And (Neg (Loose (Call ''BEd'' [Seq (Call ''Fyc'' []) (G ''Dyc'')]) (K JNull))) (Neg (Loose (Meth (V 1) ''Rg'' []) (K JNull)))) (Bin Divide (Call ''Ueb'' [Call ''MD'' [Meth (V 1) ''Rg'' []]]) (Call ''Ueb'' [Call ''MD'' [Call ''BEd'' [G ''Dyc'']]])) (K (JNum 1)))), Do (Call ''hjb'' [Dot (V 0) ''b'', V 1, V 2])],
    fn ''kGd'' 1 1 [Do (Put (V 0) ''j'' (Bin Minus (Dot (V 0) ''j'') (K (JNum (- 1))))), When (Loose (Dot (V 0) ''i'') (K (JNum 0))) [Do (Put (V 0) ''g'' (K JNull))] [When (Bin Lt (Dot (V 0) ''i'') (Dot (Dot (V 0) ''g'') ''length'')) [Do (SetV 1 (Dot (V 0) ''g'')), Do (Put (V 0) ''g'' (Meth (V 0) ''$i'' [Dot (V 0) ''i''])), Do (Call ''rhb'' [V 1, K (JNum 0), Dot (V 0) ''g'', K (JNum 0), Dot (V 0) ''i''])] []]],
    fn ''gGb'' 1 0 [When (Or (Neg (Loose (Dot (V 0) ''c'') (Dot (Dot (V 0) ''b'') ''b''))) (Neg (Loose (Dot (V 0) ''i'') (Dot (Dot (V 0) ''g'') ''b'')))) [Do (Call ''tDb'' [Dot (Dot (V 0) ''a'') ''c'', K (JNum 0)]), Do (Call ''bmb'' [Dot (V 0) ''a'', Dot (V 0) ''b'']), Do (Call ''bmb'' [Dot (V 0) ''a'', Dot (V 0) ''g'']), Do (Put (V 0) ''c'' (Dot (Dot (V 0) ''b'') ''b'')), Do (Put (V 0) ''i'' (Dot (Dot (V 0) ''g'') ''b''))] [], Ret (Dot (V 0) ''a'')],
    fn ''GQd'' 1 2 [When (Loose (V 0) (K JNull)) [Ret (K JNull)] [], Do (Seq (SetV 1 (K (JNum 0))) (SetV 2 (Dot (V 0) ''length''))), Loop (Bin Lt (V 1) (V 2)) [When (Neg (Call ''TQd'' [Idx (V 0) (V 1)])) [Ret (Idx (V 0) (V 1))] []] [Do (Bin Minus (SetV 1 (Bin Minus (V 1) (K (JNum (- 1))))) (K (JNum 1)))], Ret (K JNull)],
    fn ''wsb'' 3 4 [Do (Seq (Seq (SetV 4 (V 2)) (SetV 5 (K (JNum 0)))) (SetV 6 (Dot (V 4) ''length''))), Loop (Bin Lt (V 5) (V 6)) [Do (SetV 3 (Idx (V 4) (V 5))), When (Meth (Dot (V 0) ''b'') ''ze'' [V 1, Meth (V 3) ''jd'' []]) [Ret (V 3)] []] [Do (SetV 5 (Bin Minus (V 5) (K (JNum (- 1)))))], Ret (K JNull)],
    fn ''bnb'' 1 5 [Do (SetV 5 (K (JNum 1))), Do (Seq (Seq (SetV 2 (V 0)) (SetV 3 (K (JNum 0)))) (SetV 4 (Dot (V 2) ''length''))), Loop (Bin Lt (V 3) (V 4)) [Do (SetV 1 (Idx (V 2) (V 3))), Do (SetV 5 (Bin Plus (Bin Times (K (JNum 31)) (V 5)) (Cond (Neg (Loose (V 1) (K JNull))) (Call ''tb'' [V 1]) (K (JNum 0))))), Do (SetV 5 (Bin BitOr (V 5) (K (JNum 0))))] [Do (SetV 3 (Bin Minus (V 3) (K (JNum (- 1)))))], Ret (V 5)],
    fn ''gs'' 1 5 [Do (SetV 1 (NewLit [])), Do (Seq (Seq (SetV 3 (V 0)) (SetV 4 (K (JNum 0)))) (SetV 5 (Dot (V 3) ''length''))), Loop (Bin Lt (V 4) (V 5)) [Do (SetV 2 (Idx (V 3) (V 4))), Do (PutIdx (V 1) (Bin Plus (K (JStr '':'')) (Cond (Neg (Loose (Dot (V 2) ''f'') (K JNull))) (Dot (V 2) ''f'') (Bin Plus (K (JStr '''')) (Dot (V 2) ''g'')))) (V 2))] [Do (SetV 4 (Bin Minus (V 4) (K (JNum (- 1)))))], Ret (V 1)],
    fn ''pr'' 1 1 [Do (Call ''Qb'' [V 0]), Do (Call ''Mb'' [K (JBool True), K (JStr ''numberToAdvance must be nonnegative'')]), Do (SetV 1 (K (JNum 0))), Loop (And (Bin Lt (V 1) (K (JNum 0))) (Call ''Wr'' [V 0])) [Do (Call ''Xr'' [V 0])] [Do (Bin Minus (SetV 1 (Bin Minus (V 1) (K (JNum (- 1))))) (K (JNum 1)))], Ret (V 1)],
    fn ''YDc'' 1 3 [Do (SetV 3 (K (JNum 0))), Do (SetV 2 (New ''Yr'' [Call ''Dr'' [Meth (Dot (V 0) ''a'') ''Jc'' [], New ''Dl'' []]])), Loop (Call ''Wr'' [V 2]) [Do (SetV 1 (Call ''JD'' [Call ''Xr'' [V 2], K (JNum 17)])), Do (Or (Loose (Dot (Dot (V 1) ''c'') ''i'') (Dot (Dot (V 1) ''d'') ''i'')) (SetV 3 (Bin Minus (V 3) (K (JNum (- 1))))))] [], Ret (V 3)],
    fn ''tWb'' 2 3 [Do (SetV 2 (V 0)), Do (SetV 4 (K (JNum 0))), Loop (K (JBool True)) [When (Loose (V 2) (V 1)) [Ret (V 4)] [], Do (SetV 3 (Dot (V 2) ''e'')), When (Neg (V 3)) [Raise (Call ''Lcb'' [New ''jfb'' []])] [], Do (SetV 2 (Call ''DYb'' [V 3])), Do (SetV 4 (Bin Minus (V 4) (K (JNum (- 1)))))] [When (K (JBool True)) [] [Break]]],
    fn ''C7c'' 2 3 [Do (SetV 4 (Bin Minus (V 1) (Dot (V 0) ''f''))), Do (SetV 3 (New ''Kmb'' [Dot (V 0) ''d''])), Loop (Bin Lt (Dot (V 3) ''a'') (Dot (Dot (Dot (V 3) ''c'') ''c'') ''length'')) [Do (SetV 2 (Call ''JD'' [Call ''Imb'' [V 3], K (JNum 320)])), Do (Call ''b7c'' [V 2, Dot (V 2) ''e'', Bin Plus (Dot (V 2) ''f'') (V 4)])] [], Do (Put (V 0) ''f'' (V 1))],
    fn ''LHb'' 2 0 [When (Neg (V 0)) [Ret (K (JNum 0))] [], When (And (V 1) (Neg (Dot (V 0) ''j''))) [Ret (K (JNum 0))] [], When (Call ''RD'' [V 0, K (JNum 127)]) [When (Loose (Dot (Dot (Call ''JD'' [V 0, K (JNum 127)]) ''a'') ''b'') (K (JNum 0))) [Ret (K (JNum 0))] []] [], Ret (Meth (V 0) ''ff'' [])],
    fn ''MHb'' 2 0 [When (Neg (V 0)) [Ret (K (JNum 0))] [], When (And (V 1) (Neg (Dot (V 0) ''k''))) [Ret (K (JNum 0))] [], When (Call ''RD'' [V 0, K (JNum 127)]) [When (Loose (Dot (Dot (Call ''JD'' [V 0, K (JNum 127)]) ''a'') ''a'') (K (JNum 0))) [Ret (K (JNum 0))] []] [], Ret (Meth (V 0) ''gf'' [])],
    fn ''$p'' 1 0 [Switch (Dot (V 0) ''c'') [(Some (JNum 0), [Ret (Seq (Call ''Lx'' []) (G ''Kx''))]), (Some (JNum 1), [Ret (New ''xy'' [Call ''zr'' [New ''Wrb'' [V 0]]])]), (None, [Ret (New ''Zp'' [V 0])])]],
    fn ''_n'' 1 0 [Switch (Meth (V 0) ''gc'' []) [(Some (JNum 0), [Ret (Seq (Call ''Lx'' []) (G ''Kx''))]), (Some (JNum 1), [Ret (New ''xy'' [Meth (Meth (V 0) ''Jc'' []) ''Pb'' []])]), (None, [Ret (New ''Mx'' [V 0])])]],
    fn ''rYb'' 2 1 [Do (SetV 2 (K (JNum 0))), Loop (Bin Lt (V 2) (Dot (V 1) ''length'')) [When (Loose (V 0) (Seq (Call ''UDb'' [V 2, Dot (V 1) ''length'']) (Meth (V 1) ''charCodeAt'' [V 2]))) [Ret (K (JBool True))] []] [Do (Bin Minus (SetV 2 (Bin Minus (V 2) (K (JNum (- 1))))) (K (JNum 1)))], Ret (K (JBool False))],
    fn ''OQd'' 2 0 [Ret (And (And (Bin Lt (V 1) (Dot (V 0) ''length'')) (Seq (Call ''UDb'' [V 1, Dot (V 0) ''length'']) (Neg (Loose (Meth (V 0) ''charCodeAt'' [V 1]) (K (JNum 63)))))) (Seq (Call ''UDb'' [V 1, Dot (V 0) ''length'']) (Neg (Loose (Meth (V 0) ''charCodeAt'' [V 1]) (K (JNum 35))))))],
    fn ''zgc'' 4 2 [Do (Put (V 0) ''a'' (V 1)), Do (SetV 5 (Cond (V 3) (K (JNum 0)) (K (JNum 1)))), Do (Put (V 0) ''f'' (Seq (SetV 4 (New ''xgc'' [Dot (V 0) ''c'', Dot (V 0) ''a'', V 2, V 5])) (New ''$gc'' [V 2, Dot (V 0) ''a'', V 4, Dot (V 0) ''e'', Dot (V 0) ''b'', Loose (Dot (V 0) ''c'') (Seq (Call ''kHc'' []) (G ''iHc''))])))],
    fn ''jUd'' 2 3 [Do (SetV 3 (Meth (V 0) ''Wk'' [V 1, K JNull])), Do (SetV 4 (K JNull)), When (V 1) [Do (SetV 4 (Seq (Seq (Call ''wRd'' []) (SetV 2 (New ''F0d'' []))) (V 2))), Do (Call ''y0d'' [V 4, Dot (V 0) ''r''])] [], Do (SetV 3 (Call ''iUd'' [V 0, V 4, V 3])), Do (And (Neg (Neg (V 3))) (Meth (V 3) ''mj'' []))],
    fn ''NGc'' 2 2 [Do (SetV 3 (Neg (Loose (Call ''Rvb'' [Dot (V 0) ''d'', K (JNum 1)]) (K (JNum 0))))), Do (SetV 2 (K (JBool True))), Loop (V 2) [Do (SetV 2 (K (JBool False))), Do (SetV 2 (Meth (Dot (V 1) ''c'') ''kg'' [Dot (V 1) ''e'', V 3])), Do (SetV 2 (Bin BitOr (V 2) (Call ''XGc'' [V 0, V 1, V 3, K (JBool False)]))), Do (SetV 3 (Neg (V 3)))] [], Do (Call ''SGc'' [V 0])],
    fn ''l0c'' 2 8 [Do (SetV 8 (Dot (V 1) ''i'')), Do (SetV 9 (Dot (V 1) ''j'')), Do (SetV 3 (Dot (V 0) ''f'')), Do (SetV 4 (Dot (V 3) ''i'')), Do (SetV 5 (Dot (V 3) ''j'')), Do (SetV 6 (Bin Minus (V 8) (V 4))), Do (SetV 7 (Bin Minus (V 9) (V 5))), Do (SetV 2 (Meth (Dot (G ''$wnd'') ''Math'') ''sqrt'' [Bin Plus (Bin Times (V 6) (V 6)) (Bin Times (V 7) (V 7))])), Ret (V 2)],
    fn ''H5c'' 2 3 [Do (SetV 3 (K (JBool False))), Do (SetV 2 (Dot (Dot (V 1) ''q'') ''d'')), When (Bin Lt (Dot (V 1) ''d'') (Dot (V 0) ''b'')) [Do (SetV 4 (Call ''_6c'' [Dot (V 1) ''q'', Dot (V 0) ''b''])), When (Bin Gt (Dot (Dot (V 1) ''q'') ''d'') (V 4)) [Do (Call ''a7c'' [Dot (V 1) ''q'', V 4]), Do (SetV 3 (Neg (Loose (V 2) (Dot (Dot (V 1) ''q'') ''d''))))] []] [], Ret (V 3)],
    fn ''pgd'' 2 1 [Do (SetV 2 (K (JNum 0))), Loop (Bin Lt (V 2) (Dot (V 1) ''length'')) [When (Loose (V 0) (Seq (Call ''UDb'' [V 2, Dot (V 1) ''length'']) (Meth (V 1) ''charCodeAt'' [V 2]))) [Ret (K (JBool True))] []] [Do (Bin Minus (SetV 2 (Bin Minus (V 2) (K (JNum (- 1))))) (K (JNum 1)))], Ret (K (JBool False))],
    fn ''BEc'' 1 2 [Do (SetV 2 (New ''Kmb'' [Dot (V 0) ''r''])), Loop (Bin Lt (Dot (V 2) ''a'') (Dot (Dot (Dot (V 2) ''c'') ''c'') ''length'')) [Do (SetV 1 (Call ''JD'' [Call ''Imb'' [V 2], K (JNum 9)])), When (Bin Le (Idx (Dot (V 0) ''n'') (Dot (V 1) ''p'')) (K (JNum 0))) [Ret (V 1)] []] [], Ret (K JNull)],
    fn ''hTb'' 1 1 [Do (SetV 1 (New ''BTb'' [V 0])), Do (Call ''ZTb'' [Dot (V 0) ''a'', G ''fTb'', New ''wnb'' [Call ''WC'' [Call ''OC'' [G ''dP'', K (JNum 1)], G ''Gte'', K (JNum 377), K (JNum 0), NewArr [V 1]]]]), Do (And (Neg (Neg (Dot (V 1) ''d''))) (Call ''_lb'' [Dot (V 1) ''f'', Dot (V 1) ''d''])), Ret (Dot (V 1) ''f'')],
    fn ''Lyd'' 2 2 [Do (SetV 3 (Call ''dtd'' [V 0])), When (Neg (V 3)) [Do (And (Neg (G ''uyd'')) (SetG ''uyd'' (New ''Y3d'' []))), Do (SetV 2 (Seq (Call ''tQd'' []) (Call ''AQd'' [V 1]))), Do (SetV 3 (New ''dce'' [V 2])), Do (Call ''lFd'' [Meth (V 3) ''Cl'' [], V 0])] [], Ret (V 3)],
    fn ''UQd'' 1 2 [When (Loose (V 0) (K JNull)) [Ret (K (JBool False))] [], Do (Seq (SetV 1 (K (JNum 0))) (SetV 2 (Dot (V 0) ''length''))), Loop (Bin Lt (V 1) (V 2)) [When (Neg (Call ''TQd'' [Idx (V 0) (V 1)])) [Ret (K (JBool False))] []] [Do (Bin Minus (SetV 1 (Bin Minus (V 1) (K (JNum (- 1))))) (K (JNum 1)))], Ret (K (JBool True))],
    fn ''bte'' 1 1 [When (Neg (Cond (Bin Lt (Dot (Dot (V 0) ''c'') ''c'') (K (JNum 0))) (Bin Ge (Dot (V 0) ''a'') (Dot (Dot (V 0) ''c'') ''b'')) (Bin Le (Dot (V 0) ''a'') (Dot (Dot (V 0) ''c'') ''b'')))) [Raise (Call ''Lcb'' [New ''Kub'' []])] [], Do (SetV 1 (Dot (V 0) ''a'')), Do (Put (V 0) ''a'' (Bin Plus (Dot (V 0) ''a'') (Dot (Dot (V 0) ''c'') ''c''))), Do (Put (V 0) ''b'' (Bin Minus (Dot (V 0) ''b'') (K (JNum (- 1))))), Ret (Call ''Cfb'' [V 1])],
    fn ''Sc'' 2 2 [Do (SetV 2 (Call ''JD'' [Meth (Dot (V 0) ''c'') ''Ac'' [V 1], K (JNum 18)])), When (Neg (V 2)) [Ret (Meth (V 0) ''jc'' [])] [], Do (SetV 3 (Meth (V 0) ''hc'' [])), Do (Meth (V 3) ''Fc'' [V 2]), Do (Put (V 0) ''d'' (Bin Minus (Dot (V 0) ''d'') (Meth (V 2) ''gc'' []))), Do (Meth (V 2) ''$b'' []), Ret (Meth (V 0) ''mc'' [V 3])],
    fn ''Pv'' 2 1 [Do (Call ''Qb'' [V 0]), Try [Ret (Meth (V 0) ''Ac'' [V 1])] 2 [Do (SetV 2 (Call ''Kcb'' [V 2])), When (Or (Call ''RD'' [V 2, K (JNum 211)]) (Call ''RD'' [V 2, K (JNum 172)])) [Ret (K JNull)] [Raise (Call ''Lcb'' [V 2])]]],
    fn ''Ov'' 2 1 [Do (Call ''Qb'' [V 0]), Try [Ret (Meth (V 0) ''xc'' [V 1])] 2 [Do (SetV 2 (Call ''Kcb'' [V 2])), When (Or (Call ''RD'' [V 2, K (JNum 211)]) (Call ''RD'' [V 2, K (JNum 172)])) [Ret (K JNull)] [Raise (Call ''Lcb'' [V 2])]]],
    fn ''Ocb'' 2 1 [When (And (Call ''Vcb'' [V 0]) (Call ''Vcb'' [V 1])) [Do (SetV 2 (Bin Minus (V 0) (V 1))), When (Neg (Call ''isNaN'' [V 2])) [Ret (V 2)] []] [], Ret (Call ''mD'' [Cond (Call ''Vcb'' [V 0]) (Call ''edb'' [V 0]) (V 0), Cond (Call ''Vcb'' [V 1]) (Call ''edb'' [V 1]) (V 1)])],
    fn ''jSc'' 3 0 [When (Or (Bin Lt (Meth (Dot (G ''$wnd'') ''Math'') ''abs'' [Bin Minus (V 1) (V 0)]) (G ''FCe'')) (Bin Lt (Meth (Dot (G ''$wnd'') ''Math'') ''abs'' [Bin Minus (V 2) (V 0)]) (G ''FCe''))) [Ret (K (JBool True))] [], Ret (Cond (Bin Gt (Bin Minus (V 1) (V 0)) (G ''FCe'')) (Bin Gt (Bin Minus (V 0) (V 2)) (G ''FCe'')) (Bin Gt (Bin Minus (V 2) (V 0)) (G ''FCe'')))],
    fn ''FC'' 1 0 [Do (Call ''zC'' []), Raise (Call ''Lcb'' [New ''UB'' [Bin Plus (Bin Plus (K (JStr (''Unexpected typeof result '' @ CHR 0x27 # ''''))) (V 0)) (K (JStr (CHR 0x27 # ''; please report this bug to the GWT team'')))]])],
    fn ''L7c'' 0 0 [Do (Put This ''a'' (New ''M7c'' [])), Do (Put This ''f'' (New ''O7c'' [This])), Do (Put This ''b'' (New ''Q7c'' [This])), Do (Put This ''i'' (New ''S7c'' [This])), Do (Put This ''e'' (New ''U7c'' [This]))],
    fn ''kHc'' 0 0 [Do (SetG ''kHc'' (G ''qdb'')), Do (SetG ''gHc'' (New ''lHc'' [K (JStr ''BARYCENTER''), K (JNum 0)])), Do (SetG ''iHc'' (New ''lHc'' [G ''Qye'', K (JNum 1)])), Do (SetG ''jHc'' (New ''lHc'' [G ''Rye'', K (JNum 2)])), Do (SetG ''hHc'' (New ''lHc'' [K (JStr ''MEDIAN''), K (JNum 3)]))],
    fn ''azc'' 0 0 [Do (SetG ''azc'' (G ''qdb'')), Do (SetG ''Zyc'' (New ''czc'' [K (JStr ''DUMMY_NODE_OVER''), K (JNum 0)])), Do (SetG ''$yc'' (New ''czc'' [K (JStr ''DUMMY_NODE_UNDER''), K (JNum 1)])), Do (SetG ''_yc'' (New ''czc'' [K (JStr ''EQUAL''), K (JNum 2)]))],
    fn ''Qjd'' 0 0 [Do (SetG ''Qjd'' (G ''qdb'')), Do (SetG ''Njd'' (New ''Rjd'' [G ''yFe'', K (JNum 0)])), Do (SetG ''Mjd'' (New ''Rjd'' [K (JStr ''CONTAINER''), K (JNum 1)])), Do (SetG ''Ojd'' (New ''Rjd'' [K (JStr ''PARENT''), K (JNum 2)])), Do (SetG ''Pjd'' (New ''Rjd'' [K (JStr ''ROOT''), K (JNum 3)]))],
    fn ''MKb'' 3 1 [Do (SetV 3 (New ''WJb'' [V 0, V 1])), Do (Call ''Rc'' [Dot (V 0) ''r'', Meth (V 1) ''$f'' [], V 3]), When (And (V 2) (Neg (Call ''amd'' [Dot (V 0) ''u'']))) [Do (Put (V 3) ''c'' (New ''wIb'' [Dot (V 0) ''d''])), Do (Call ''cmb'' [Meth (V 1) ''Pf'' [], New ''PKb'' [V 3]])] []],
    fn ''V$b'' 1 1 [Do (SetV 1 (New ''dYb'' [Dot (V 0) ''a''])), Do (Call ''mNb'' [V 1, V 0]), Do (Call ''rNb'' [V 1, Seq (Call ''Wrc'' []) (G ''urc''), V 0]), Do (Put (Dot (V 1) ''o'') ''a'' (Dot (V 0) ''g'')), Do (Put (Dot (V 1) ''o'') ''b'' (Dot (V 0) ''f'')), Do (Put (Dot (V 1) ''n'') ''a'' (Dot (V 0) ''i'')), Do (Put (Dot (V 1) ''n'') ''b'' (Dot (V 0) ''j'')), Ret (V 1)],
    fn ''Slb'' 1 1 [Do (Call ''LDb'' [Neg (Loose (Dot (V 0) ''a'') (Dot (V 0) ''b''))]), Do (SetV 1 (Idx (Dot (Dot (V 0) ''d'') ''a'') (Dot (V 0) ''a''))), Do (Call ''Jlb'' [And (Loose (Dot (V 0) ''b'') (Dot (Dot (V 0) ''d'') ''c'')) (Neg (Loose (V 1) (K JNull)))]), Do (Put (V 0) ''c'' (Dot (V 0) ''a'')), Do (Put (V 0) ''a'' (Bin BitAnd (Bin Plus (Dot (V 0) ''a'') (K (JNum 1))) (Bin Minus (Dot (Dot (Dot (V 0) ''d'') ''a'') ''length'') (K (JNum 1))))), Ret (V 1)],
    fn ''dib'' 1 1 [When (Neg (Loose (Dot (V 0) ''c'') (K (JNum 0)))) [Ret (Dot (V 0) ''c'')] [], Do (SetV 1 (K (JNum 0))), Loop (Bin Lt (V 1) (Dot (Dot (V 0) ''a'') ''length'')) [Do (Put (V 0) ''c'' (Bin Plus (Bin Times (Dot (V 0) ''c'') (K (JNum 33))) (Bin BitAnd (Idx (Dot (V 0) ''a'') (V 1)) (K (JNum (- 1))))))] [Do (Bin Minus (SetV 1 (Bin Minus (V 1) (K (JNum (- 1))))) (K (JNum 1)))], Do (Put (V 0) ''c'' (Bin Times (Dot (V 0) ''c'') (Dot (V 0) ''e''))), Ret (Dot (V 0) ''c'')]]"

definition object_table10 :: "(string \<times> jfun) list" where
  "object_table10 = code_4079_4090 @ code_4092_4158 @ code_4160_4227"

text \<open>The names each table declares.\<close>

lemma names_4079_4090 [js_names]: "map fst code_4079_4090 = [
    ''Bgc'', ''Pgc'', ''pD'', ''wEc'', ''l4d'', ''wfb'', ''ZA'', ''gD'', ''ylb'', ''zeb'',
    ''nj'', ''cZd'']"
  by (simp add: code_4079_4090_def fn_def)

lemma names_4092_4158 [js_names]: "map fst code_4092_4158 = [
    ''byb'', ''Jnb'', ''shb'', ''Ugc'', ''dSb'', ''fFb'', ''Erb'', ''fD'', ''rgd'', ''mCd'',
    ''_Ic'', ''Wce'', ''Zce'', ''Xb'', ''Cb'', ''Mnb'', ''cD'', ''WBb'', ''YRb'', ''jNb'',
    ''rwd'', ''_fc'', ''agc'', ''XSc'', ''Ayc'', ''MTc'', ''R6c'', ''ylc'', ''_ud'', ''p8c'',
    ''Y9c'', ''sac'', ''uWc'', ''Cgd'', ''ygb'', ''g0b'', ''sAb'', ''vA'', ''sre'', ''kSc'',
    ''xFd'', ''mjb'', ''Txb'', ''ow'', ''uVb'', ''Y8b'', ''b9b'', ''_2c'', ''xyc'', ''Vr'',
    ''wgc'', ''xyd'', ''Txd'', ''tdd'', ''qvb'', ''MGc'', ''Oib'', ''eJc'', ''Ofe'', ''Pfe'',
    ''Dc'', ''_t'', ''_s'', ''cLd'', ''uQd'', ''Kv'', ''djb'']"
  by (simp add: code_4092_4158_def fn_def)

lemma names_4160_4227 [js_names]: "map fst code_4160_4227 = [
    ''rRb'', ''Gkd'', ''Qkd'', ''R0c'', ''IAc'', ''FAb'', ''Vqd'', ''bYc'', ''aBc'', ''ugd'',
    ''xgd'', ''ke'', ''JIc'', ''Kxb'', ''Ibd'', ''GDb'', ''red'', ''lfb'', ''Bs'', ''uz'',
    ''LVd'', ''Elb'', ''Flb'', ''amb'', ''L_d'', ''Vy'', ''yyc'', ''kGd'', ''gGb'', ''GQd'',
    ''wsb'', ''bnb'', ''gs'', ''pr'', ''YDc'', ''tWb'', ''C7c'', ''LHb'', ''MHb'', ''$p'',
    ''_n'', ''rYb'', ''OQd'', ''zgc'', ''jUd'', ''NGc'', ''l0c'', ''H5c'', ''pgd'', ''BEc'',
    ''hTb'', ''Lyd'', ''UQd'', ''bte'', ''Sc'', ''Pv'', ''Ov'', ''Ocb'', ''jSc'', ''FC'',
    ''L7c'', ''kHc'', ''azc'', ''Qjd'', ''MKb'', ''V$b'', ''Slb'', ''dib'']"
  by (simp add: code_4160_4227_def fn_def)

end
