(* ===== verification/ObjectTable11.thy ===== *)
theory ObjectTable11
  imports ObjectCode
begin

text \<open>
  Functions of \<open>layout-worker.js\<close>, lines 4228 to 4404, in the order of the file, one per line:
  operations of the runtime's collections, iterators and text buffers, accessors and small algorithms
  of the layout engine, with their loops, \<open>switch\<close> and \<open>try\<close> statements. An entry has the name, the
  number of parameters, the number of further local variables and the body; parameters and locals
  are numbered from 0, the variable of a \<open>catch\<close> has a number of its own, \<open>x++\<close> is \<open>(x=x+1)-1\<close>. Lines
  with a construct outside \<open>jexp\<close> and \<open>jstm\<close> (closures, \<open>in\<close>, floating-point literals, host objects) are
  left out.
\<close>

definition code_4228_4288 :: "(string \<times> jfun) list" where
  "code_4228_4288 = [
    fn ''v_c'' 1 4 [Do (SetV 4 (New ''hsb'' [])), Do (SetV 3 (New ''Kmb'' [V 0])), Loop (Bin Lt (Dot (V 3) ''a'') (Dot (Dot (Dot (V 3) ''c'') ''c'') ''length'')) [Do (SetV 2 (Call ''JD'' [Call ''Imb'' [V 3], K (JNum 26)])), Do (SetV 1 (Call ''y_c'' [V 2])), Do (Call ''xe'' [V 4, V 1])] [], Ret (V 4)],
    fn ''cFb'' 3 2 [Do (SetV 4 (Meth (Meth (Dot (Dot (V 1) ''a'') ''a'') ''ec'' []) ''Jc'' [])), Loop (Meth (V 4) ''Ob'' []) [Do (SetV 3 (Call ''JD'' [Meth (V 4) ''Pb'' [], K (JNum 60)])), When (Call ''dFb'' [V 0, V 3, V 2]) [Ret (K (JBool True))] []] [], Ret (K (JBool False))],
    fn ''F6b'' 4 2 [Do (SetV 5 (Meth (V 0) ''Jc'' [])), Loop (Meth (V 5) ''Ob'' []) [Do (SetV 4 (Call ''JD'' [Meth (V 5) ''Pb'' [], K (JNum 70)])), Do (Put (Dot (V 4) ''n'') ''a'' (Bin Plus (Dot (V 1) ''a'') (Bin Divide (Bin Minus (Dot (V 3) ''a'') (Dot (Dot (V 4) ''o'') ''a'')) (K (JNum 2))))), Do (Put (Dot (V 4) ''n'') ''b'' (Dot (V 1) ''b'')), Do (Put (V 1) ''b'' (Bin Plus (Dot (V 1) ''b'') (Bin Plus (Dot (Dot (V 4) ''o'') ''b'') (V 2))))] []],
    fn ''Nxd'' 3 2 [Do (SetV 4 (Dot (V 0) ''a'')), Do (Put (V 0) ''a'' (V 1)), When (And (Neg (Loose (Bin BitAnd (Dot (V 0) ''Db'') (K (JNum 4))) (K (JNum 0)))) (Loose (Bin BitAnd (Dot (V 0) ''Db'') (K (JNum 1))) (K (JNum 0)))) [Do (SetV 3 (New ''$1d'' [V 0, K (JNum 1), K (JNum 1), V 4, V 1])), Do (Cond (Neg (V 2)) (SetV 2 (V 3)) (Meth (V 2) ''lj'' [V 3]))] [], Ret (V 2)],
    fn ''rtd'' 2 4 [Do (SetV 5 (Seq (SetV 4 (Cond (V 0) (Call ''dtd'' [V 0]) (K JNull))) (Call ''aie'' [Seq (Seq (SetV 3 (V 1)) (Cond (V 4) (Meth (V 4) ''El'' []) (K JNull))) (V 3)]))), When (Loose (V 5) (V 1)) [Do (SetV 2 (Call ''dtd'' [V 0])), Do (And (Neg (Neg (V 2))) (Meth (V 2) ''El'' []))] [], Ret (V 5)],
    fn ''r0d'' 3 2 [Do (SetV 4 (Dot (V 0) ''b'')), Do (Put (V 0) ''b'' (V 1)), When (And (Neg (Loose (Bin BitAnd (Dot (V 0) ''Db'') (K (JNum 4))) (K (JNum 0)))) (Loose (Bin BitAnd (Dot (V 0) ''Db'') (K (JNum 1))) (K (JNum 0)))) [Do (SetV 3 (New ''$1d'' [V 0, K (JNum 1), K (JNum 3), V 4, V 1])), Do (Cond (Neg (V 2)) (SetV 2 (V 3)) (Meth (V 2) ''lj'' [V 3]))] [], Ret (V 2)],
    fn ''t0d'' 3 2 [Do (SetV 4 (Dot (V 0) ''f'')), Do (Put (V 0) ''f'' (V 1)), When (And (Neg (Loose (Bin BitAnd (Dot (V 0) ''Db'') (K (JNum 4))) (K (JNum 0)))) (Loose (Bin BitAnd (Dot (V 0) ''Db'') (K (JNum 1))) (K (JNum 0)))) [Do (SetV 3 (New ''$1d'' [V 0, K (JNum 1), K (JNum 0), V 4, V 1])), Do (Cond (Neg (V 2)) (SetV 2 (V 3)) (Meth (V 2) ''lj'' [V 3]))] [], Ret (V 2)],
    fn ''Dfd'' 2 3 [Do (SetV 4 (K (JNum 1))), Do (SetV 2 (V 0)), Do (SetV 3 (Cond (Bin Ge (V 1) (K (JNum 0))) (V 1) (Minus1 (V 1)))), Loop (Bin Gt (V 3) (K (JNum 0))) [When (Loose (Bin Modulo (V 3) (K (JNum 2))) (K (JNum 0))) [Do (SetV 2 (Bin Times (V 2) (V 2))), Do (SetV 3 (Bin DivInt (V 3) (K (JNum 2))))] [Do (SetV 4 (Bin Times (V 4) (V 2))), Do (SetV 3 (Bin Minus (V 3) (K (JNum 1))))]] [], Ret (Cond (Bin Lt (V 1) (K (JNum 0))) (Bin Divide (K (JNum 1)) (V 4)) (V 4))],
    fn ''Efd'' 2 3 [Do (SetV 4 (K (JNum 1))), Do (SetV 2 (V 0)), Do (SetV 3 (Cond (Bin Ge (V 1) (K (JNum 0))) (V 1) (Minus1 (V 1)))), Loop (Bin Gt (V 3) (K (JNum 0))) [When (Loose (Bin Modulo (V 3) (K (JNum 2))) (K (JNum 0))) [Do (SetV 2 (Bin Times (V 2) (V 2))), Do (SetV 3 (Bin DivInt (V 3) (K (JNum 2))))] [Do (SetV 4 (Bin Times (V 4) (V 2))), Do (SetV 3 (Bin Minus (V 3) (K (JNum 1))))]] [], Ret (Cond (Bin Lt (V 1) (K (JNum 0))) (Bin Divide (K (JNum 1)) (V 4)) (V 4))],
    fn ''hMd'' 1 4 [When (Neg (Loose (V 0) (K JNull))) [Do (SetV 2 (K (JNum 0))), Loop (Bin Lt (V 2) (Dot (V 0) ''length'')) [Do (SetV 1 (Idx (V 0) (V 2))), When (V 1) [Do (Call ''JD'' [Dot (V 1) ''g'', K (JNum 374)]), Do (SetV 4 (Dot (V 1) ''i'')), Do (SetV 3 (K (JNum 0))), Loop (Bin Lt (V 3) (V 4)) [] [Do (SetV 3 (Bin Minus (V 3) (K (JNum (- 1)))))]] []] [Do (SetV 2 (Bin Minus (V 2) (K (JNum (- 1)))))]] []],
    fn ''rGc'' 1 1 [Do (SetV 1 (Call ''qcd'' [G ''pGc''])), Do (And (Meth (Call ''JD'' [Call ''oNb'' [V 0, Seq (Call ''Wrc'' []) (G ''brc'')], K (JNum 22)]) ''Gc'' [Seq (Call ''Xpc'' []) (G ''Tpc'')]) (Call ''kcd'' [V 1, Seq (Call ''YQb'' []) (G ''VQb''), Seq (Call ''X5b'' []) (G ''M5b'')])), Ret (V 1)],
    fn ''cSc'' 1 0 [Ret (Cond (Meth (Seq (Call ''Bmd'' []) (G ''smd'')) ''Gc'' [Dot (V 0) ''j'']) (Call ''Ueb'' [Call ''MD'' [Call ''oNb'' [V 0, Seq (Call ''Wrc'' []) (G ''Mrc'')]]]) (Dot (Call ''rgd'' [Call ''WC'' [Call ''OC'' [G ''r2'', K (JNum 1)], G ''aue'', K (JNum 8), K (JNum 0), NewArr [Dot (Dot (V 0) ''i'') ''n'', Dot (V 0) ''n'', Dot (V 0) ''a'']]]) ''b''))],
    fn ''Vlc'' 2 1 [Do (SetV 2 (New ''QYb'' [V 0])), Do (Call ''OYb'' [V 2, Seq (Call ''$Yb'' []) (G ''VYb'')]), Do (Call ''rNb'' [V 2, Seq (Call ''Wrc'' []) (G ''urc''), V 1]), Do (Call ''rNb'' [V 2, Seq (Call ''nyc'' []) (G ''qxc''), Seq (Call ''Mld'' []) (G ''Hld'')]), Ret (V 2)],
    fn ''Llc'' 3 2 [Do (SetV 4 (Meth (V 0) ''Jc'' [])), Loop (Meth (V 4) ''Ob'' []) [Do (SetV 3 (Call ''JD'' [Meth (V 4) ''Pb'' [], K (JNum 9)])), When (Loose (V 3) (V 1)) [Ret (K (JNum (- 1)))] [When (Loose (V 3) (V 2)) [Ret (K (JNum 1))] []]] [], Ret (K (JNum 0))],
    fn ''r6c'' 3 4 [Do (SetV 3 (Bin Divide (V 2) (Meth (V 0) ''gc'' []))), Do (SetV 4 (K (JNum 0))), Do (SetV 6 (Meth (V 0) ''Jc'' [])), Loop (Meth (V 6) ''Ob'' []) [Do (SetV 5 (Call ''JD'' [Meth (V 6) ''Pb'' [], K (JNum 186)])), Do (Call ''C7c'' [V 5, Bin Plus (Dot (V 5) ''f'') (Bin Times (V 3) (V 4))]), Do (Call ''z7c'' [V 5, V 1, V 3]), Do (SetV 4 (Bin Minus (V 4) (K (JNum (- 1)))))] []],
    fn ''YGc'' 1 3 [Do (SetV 3 (New ''Kmb'' [Dot (V 0) ''b''])), Loop (Bin Lt (Dot (V 3) ''a'') (Dot (Dot (Dot (V 3) ''c'') ''c'') ''length'')) [Do (SetV 2 (Call ''JD'' [Call ''Imb'' [V 3], K (JNum 218)])), Do (SetV 1 (Cond (Meth (Dot (V 2) ''c'') ''ig'' []) (Dot (V 2) ''f'') (Dot (V 2) ''a''))), Do (And (Neg (Neg (V 1))) (Call ''vIc'' [V 1, Dot (V 2) ''j'']))] []],
    fn ''$6c'' 1 3 [Do (SetV 3 (K (JNum 0))), Do (SetV 2 (New ''Kmb'' [Dot (V 0) ''a''])), Loop (Bin Lt (Dot (V 2) ''a'') (Dot (Dot (Dot (V 2) ''c'') ''c'') ''length'')) [Do (SetV 1 (Call ''JD'' [Call ''Imb'' [V 2], K (JNum 173)])), Do (SetV 3 (Meth (Dot (G ''$wnd'') ''Math'') ''max'' [V 3, Dot (V 1) ''g'']))] [], Ret (V 3)],
    fn ''Z5c'' 1 0 [Switch (Dot (V 0) ''g'') [(Some (JNum 0), [Ret (New ''M5c'' [])]), (Some (JNum 1), [Ret (New ''j6c'' [])]), (Some (JNum 2), [Ret (New ''S5c'' [])]), (None, [Ret (K JNull)])]],
    fn ''Fvd'' 2 0 [Switch (V 1) [(Some (JNum 1), [Do (And (Neg (Dot (V 0) ''n'')) (Put (V 0) ''n'' (New ''P3d'' [G ''S3'', V 0, K (JNum 1), K (JNum 7)]))), Do (Call ''JJd'' [Dot (V 0) ''n'']), Ret (K JUndef)]), (Some (JNum 2), [Do (Call ''Hvd'' [V 0, K JNull]), Ret (K JUndef)])], Do (Call ''avd'' [V 0, V 1])],
    fn ''Nv'' 2 1 [Do (Call ''Qb'' [V 0]), Try [Ret (Meth (V 0) ''_b'' [V 1])] 2 [Do (SetV 2 (Call ''Kcb'' [V 2])), When (Or (Call ''RD'' [V 2, K (JNum 211)]) (Call ''RD'' [V 2, K (JNum 172)])) [Ret (K (JBool False))] [Raise (Call ''Lcb'' [V 2])]]],
    fn ''Lk'' 2 1 [Do (Call ''Qb'' [V 0]), Try [Ret (Meth (V 0) ''Gc'' [V 1])] 2 [Do (SetV 2 (Call ''Kcb'' [V 2])), When (Or (Call ''RD'' [V 2, K (JNum 211)]) (Call ''RD'' [V 2, K (JNum 172)])) [Ret (K (JBool False))] [Raise (Call ''Lcb'' [V 2])]]],
    fn ''Mk'' 2 1 [Do (Call ''Qb'' [V 0]), Try [Ret (Meth (V 0) ''Kc'' [V 1])] 2 [Do (SetV 2 (Call ''Kcb'' [V 2])), When (Or (Call ''RD'' [V 2, K (JNum 211)]) (Call ''RD'' [V 2, K (JNum 172)])) [Ret (K (JBool False))] [Raise (Call ''Lcb'' [V 2])]]],
    fn ''qUb'' 2 1 [When (Bin Gt (Dot (Dot (Dot (V 0) ''a'') ''c'') ''length'') (K (JNum 0))) [Do (SetV 2 (Call ''JD'' [Call ''dmb'' [Dot (V 0) ''a'', Bin Minus (Dot (Dot (Dot (V 0) ''a'') ''c'') ''length'') (K (JNum 1))], K (JNum 565)])), When (Call ''uVb'' [V 2, V 1]) [Ret (K JUndef)] []] [], Do (Call ''_lb'' [Dot (V 0) ''a'', New ''wVb'' [V 1]])],
    fn ''f3b'' 2 1 [When (Loose (Dot (Dot (V 0) ''c'') ''length'') (K (JNum 0))) [Ret (K JUndef)] [], Do (SetV 2 (Call ''JD'' [Call ''kmb'' [V 0, Call ''SC'' [G ''SP'', G ''Bye'', K (JNum 9), Dot (Dot (V 0) ''c'') ''length'', K (JNum 0), K (JNum 1)]], K (JNum 199)])), Do (Call ''hnb'' [V 2, New ''r3b'' []]), Do (Call ''c3b'' [V 2, V 1])],
    fn ''l3b'' 2 1 [When (Loose (Dot (Dot (V 0) ''c'') ''length'') (K (JNum 0))) [Ret (K JUndef)] [], Do (SetV 2 (Call ''JD'' [Call ''kmb'' [V 0, Call ''SC'' [G ''SP'', G ''Bye'', K (JNum 9), Dot (Dot (V 0) ''c'') ''length'', K (JNum 0), K (JNum 1)]], K (JNum 199)])), Do (Call ''hnb'' [V 2, New ''w3b'' []]), Do (Call ''c3b'' [V 2, V 1])],
    fn ''Xib'' 5 0 [When (Or (Loose (V 1) (K (JNum 0))) (Loose (V 3) (K (JNum 0)))) [Ret (K JUndef)] [], Do (Cond (Loose (V 1) (K (JNum 1))) (PutIdx (V 4) (V 3) (Call ''Zib'' [V 4, V 2, V 3, Idx (V 0) (K (JNum 0))])) (Cond (Loose (V 3) (K (JNum 1))) (PutIdx (V 4) (V 1) (Call ''Zib'' [V 4, V 0, V 1, Idx (V 2) (K (JNum 0))])) (Call ''Yib'' [V 0, V 2, V 4, V 1, V 3])))],
    fn ''Cfb'' 1 2 [When (And (Bin Gt (V 0) (K (JNum (- 129)))) (Bin Lt (V 0) (K (JNum 128)))) [Ret (Seq (Seq (Seq (Seq (Call ''Efb'' []) (SetV 1 (Bin Plus (V 0) (K (JNum 128))))) (SetV 2 (Idx (G ''Dfb'') (V 1)))) (And (Neg (V 2)) (SetV 2 (PutIdx (G ''Dfb'') (V 1) (New ''pfb'' [V 0]))))) (V 2))] [], Ret (New ''pfb'' [V 0])],
    fn ''lgb'' 1 2 [When (And (Bin Gt (V 0) (K (JNum (- 129)))) (Bin Lt (V 0) (K (JNum 128)))) [Ret (Seq (Seq (Seq (Seq (Call ''ngb'' []) (SetV 1 (Bin Plus (V 0) (K (JNum 128))))) (SetV 2 (Idx (G ''mgb'') (V 1)))) (And (Neg (V 2)) (SetV 2 (PutIdx (G ''mgb'') (V 1) (New ''fgb'' [V 0]))))) (V 2))] [], Ret (New ''fgb'' [V 0])],
    fn ''Xfc'' 1 1 [Do (SetV 1 (New ''lhb'' [])), Do (Put (V 1) ''a'' (Bin Plus (Dot (V 1) ''a'') (K (JStr ''VerticalSegment '')))), Do (Call ''ghb'' [V 1, Dot (V 0) ''e'']), Do (Put (V 1) ''a'' (Bin Plus (Dot (V 1) ''a'') (K (JStr '' '')))), Do (Call ''hhb'' [V 1, Call ''Eb'' [New ''Gb'' [], New ''Kmb'' [Dot (V 0) ''k'']]]), Ret (Dot (V 1) ''a'')],
    fn ''Gec'' 1 2 [Do (Call ''mec'' []), Do (SetV 1 (Bin Minus (Dot (Dot (V 0) ''d'') ''c'') (Dot (Dot (V 0) ''e'') ''c''))), Do (SetV 2 (Call ''JD'' [Dot (V 0) ''g'', K (JNum 156)])), Do (Call ''cmb'' [Dot (V 2) ''b'', New ''_ec'' [V 1]]), Do (Call ''cmb'' [Dot (V 2) ''c'', New ''bfc'' [V 1]]), Do (Call ''Hfb'' [Dot (V 2) ''i'', New ''dfc'' [V 1]])],
    fn ''Ghb'' 2 1 [Do (Put (V 0) ''c'' (V 1)), Do (Put (V 0) ''a'' (Call ''zib'' [V 1])), Do (And (Bin Lt (Dot (V 0) ''a'') (K (JNum 54))) (Put (V 0) ''f'' (Seq (SetV 2 (Cond (Bin Gt (Dot (V 1) ''d'') (K (JNum 1))) (Call ''WDb'' [Idx (Dot (V 1) ''a'') (K (JNum 0)), Idx (Dot (V 1) ''a'') (K (JNum 1))]) (Call ''WDb'' [Idx (Dot (V 1) ''a'') (K (JNum 0)), K (JNum 0)]))) (Call ''fdb'' [Cond (Bin Gt (Dot (V 1) ''e'') (K (JNum 0))) (V 2) (Call ''Zcb'' [V 2])]))))],
    fn ''Qgc'' 2 3 [Do (SetV 2 (K (JNum 0))), Do (SetV 4 (Meth (Call ''IYb'' [V 0, V 1]) ''Jc'' [])), Loop (Meth (V 4) ''Ob'' []) [Do (SetV 3 (Call ''JD'' [Meth (V 4) ''Pb'' [], K (JNum 12)])), Do (SetV 2 (Bin Plus (V 2) (Cond (Neg (Loose (Call ''oNb'' [V 3, Seq (Call ''Wrc'' []) (G ''Crc'')]) (K JNull))) (K (JNum 1)) (K (JNum 0)))))] [], Ret (V 2)],
    fn ''EQc'' 3 3 [Do (SetV 3 (K (JNum 0))), Do (SetV 5 (Call ''Ztb'' [V 0, K (JNum 0)])), Loop (Neg (Loose (Dot (V 5) ''b'') (Dot (Dot (V 5) ''d'') ''c''))) [Do (SetV 4 (Call ''Ueb'' [Call ''MD'' [Call ''lub'' [V 5]]])), When (Bin Gt (V 4) (V 2)) [Break] [Do (And (Bin Ge (V 4) (V 1)) (SetV 3 (Bin Minus (V 3) (K (JNum (- 1))))))]] [], Ret (V 3)],
    fn ''Dyd'' 3 2 [Do (SetV 4 (Dot (V 0) ''sb'')), Do (Put (V 0) ''sb'' (V 1)), When (And (Neg (Loose (Bin BitAnd (Dot (V 0) ''Db'') (K (JNum 4))) (K (JNum 0)))) (Loose (Bin BitAnd (Dot (V 0) ''Db'') (K (JNum 1))) (K (JNum 0)))) [Do (SetV 3 (New ''$1d'' [V 0, K (JNum 1), K (JNum 4), V 4, V 1])), Do (Cond (Neg (V 2)) (SetV 2 (V 3)) (Meth (V 2) ''lj'' [V 3]))] [], Ret (V 2)],
    fn ''Cdd'' 1 1 [Do (SetV 1 (Call ''JD'' [Call ''ktb'' [Dot (Dot (V 0) ''c'') ''c'', K (JStr '''')], K (JNum 233)])), When (Neg (V 1)) [Do (SetV 1 (New ''cdd'' [Call ''ldd'' [Call ''kdd'' [New ''mdd'' [], K (JStr '''')], K (JStr ''Other'')]])), Do (Call ''ltb'' [Dot (Dot (V 0) ''c'') ''c'', K (JStr ''''), V 1])] [], Ret (V 1)],
    fn ''kyd'' 1 1 [When (Neg (Loose (Bin BitAnd (Dot (V 0) ''Db'') (K (JNum 64))) (K (JNum 0)))) [Ret (Call ''ytd'' [V 0])] [], Do (SetV 1 (New ''ahb'' [Call ''ytd'' [V 0]])), Do (Put (V 1) ''a'' (Bin Plus (Dot (V 1) ''a'') (K (JStr '' (name: '')))), Do (Call ''Xgb'' [V 1, Dot (V 0) ''zb'']), Do (Put (V 1) ''a'' (Bin Plus (Dot (V 1) ''a'') (K (JStr '')'')))), Ret (Dot (V 1) ''a'')],
    fn ''kUd'' 3 2 [Do (SetV 4 (Dot (V 0) ''r'')), Do (Put (V 0) ''r'' (V 1)), When (And (Neg (Loose (Bin BitAnd (Dot (V 0) ''Db'') (K (JNum 4))) (K (JNum 0)))) (Loose (Bin BitAnd (Dot (V 0) ''Db'') (K (JNum 1))) (K (JNum 0)))) [Do (SetV 3 (New ''$1d'' [V 0, K (JNum 1), K (JNum 8), V 4, Dot (V 0) ''r''])), Do (Cond (Neg (V 2)) (SetV 2 (V 3)) (Meth (V 2) ''lj'' [V 3]))] [], Ret (V 2)],
    fn ''D3d'' 3 2 [Do (SetV 3 (New ''a2d'' [Dot (V 0) ''e'', K (JNum 4), K (JNum 13), Seq (SetV 4 (Dot (V 1) ''c'')) (Cond (V 4) (V 4) (Seq (Call ''WRd'' []) (G ''JRd''))), K JNull, Call ''sXd'' [V 0, V 1], K (JBool False)])), Do (Cond (Neg (V 2)) (SetV 2 (V 3)) (Meth (V 2) ''lj'' [V 3])), Ret (V 2)],
    fn ''C3d'' 3 2 [Do (SetV 3 (New ''a2d'' [Dot (V 0) ''e'', K (JNum 3), K (JNum 13), K JNull, Seq (SetV 4 (Dot (V 1) ''c'')) (Cond (V 4) (V 4) (Seq (Call ''WRd'' []) (G ''JRd''))), Call ''sXd'' [V 0, V 1], K (JBool False)])), Do (Cond (Neg (V 2)) (SetV 2 (V 3)) (Meth (V 2) ''lj'' [V 3])), Ret (V 2)],
    fn ''_ce'' 2 2 [Do (SetV 2 (Call ''JD'' [V 1, K (JNum 681)])), Do (SetV 3 (Meth (V 2) ''cl'' [])), Do (And (Neg (V 3)) (Meth (V 2) ''dl'' [SetV 3 (Cond (Call ''RD'' [V 1, K (JNum 88)]) (New ''nde'' [V 0, Call ''JD'' [V 1, K (JNum 29)]]) (New ''zde'' [V 0, Call ''JD'' [V 1, K (JNum 159)]]))])), Ret (V 3)],
    fn ''_Fd'' 3 1 [Do (Meth (V 0) ''Zi'' [Bin Plus (Dot (V 0) ''i'') (K (JNum 1))]), Do (SetV 3 (Meth (V 0) ''Xi'' [V 1, V 2])), Do (And (Neg (Loose (V 1) (Dot (V 0) ''i''))) (Call ''rhb'' [Dot (V 0) ''g'', V 1, Dot (V 0) ''g'', Bin Plus (V 1) (K (JNum 1)), Bin Minus (Dot (V 0) ''i'') (V 1)])), Do (Call ''VC'' [Dot (V 0) ''g'', V 1, V 3]), Do (Put (V 0) ''i'' (Bin Minus (Dot (V 0) ''i'') (K (JNum (- 1))))), Do (Meth (V 0) ''Ki'' [V 1, V 2]), Do (Meth (V 0) ''Li'' [])],
    fn ''dnb'' 8 1 [Do (SetV 8 (V 2)), Loop (Bin Lt (V 5) (V 6)) [Do (Cond (Or (Bin Ge (V 8) (V 3)) (And (Bin Lt (V 1) (V 2)) (Bin Le (Meth (V 7) ''Le'' [Idx (V 0) (V 1), Idx (V 0) (V 8)]) (K (JNum 0))))) (Call ''VC'' [V 4, Bin Minus (SetV 5 (Bin Minus (V 5) (K (JNum (- 1))))) (K (JNum 1)), Idx (V 0) (Bin Minus (SetV 1 (Bin Minus (V 1) (K (JNum (- 1))))) (K (JNum 1)))]) (Call ''VC'' [V 4, Bin Minus (SetV 5 (Bin Minus (V 5) (K (JNum (- 1))))) (K (JNum 1)), Idx (V 0) (Bin Minus (SetV 8 (Bin Minus (V 8) (K (JNum (- 1))))) (K (JNum 1)))]))] []],
    fn ''Mbe'' 2 4 [Do (Meth (V 1) ''cj'' [Dot (V 0) ''a'']), Do (SetV 5 (Call ''JD'' [Call ''uud'' [Dot (V 0) ''a'', K (JNum 8)], K (JNum 2000)])), When (Neg (Loose (V 5) (K JNull))) [Do (Seq (Seq (SetV 2 (V 5)) (SetV 3 (K (JNum 0)))) (SetV 4 (Dot (V 2) ''length''))), Loop (Bin Lt (V 3) (V 4)) [Do (Meth (K JNull) ''Sm'' [])] [Do (SetV 3 (Bin Minus (V 3) (K (JNum (- 1)))))]] []],
    fn ''Oxb'' 2 1 [When (Dot (V 1) ''a'') [Do (SetV 2 (Dot (Dot (Dot (V 1) ''a'') ''a'') ''length'')), Do (Cond (Neg (Dot (V 0) ''a'')) (Put (V 0) ''a'' (New ''nhb'' [Dot (V 0) ''d''])) (Call ''hhb'' [Dot (V 0) ''a'', Dot (V 0) ''b''])), Do (Call ''fhb'' [Dot (V 0) ''a'', Dot (V 1) ''a'', Dot (Dot (V 1) ''d'') ''length'', V 2])] [], Ret (V 0)],
    fn ''dCb'' 2 1 [Do (SetV 2 (New ''_Cb'' [])), When (Neg (Meth (Dot (V 0) ''a'') ''zd'' [V 2])) [Do (Call ''cBb'' [V 0]), Ret (Seq (Seq (Call ''Rub'' []) (Call ''Rub'' [])) (G ''Qub''))] [], Ret (Seq (Call ''Rub'' []) (New ''Vub'' [Call ''NDb'' [Call ''cCb'' [V 0, Dot (V 2) ''a'', V 1]]]))],
    fn ''Nhb'' 1 1 [Do (And (Bin Lt (Call ''Ocb'' [V 0, K (JNum 0)]) (K (JNum 0))) (SetV 0 (Call ''Pcb'' [Call ''qD'' [Cond (Call ''Vcb'' [V 0]) (Call ''edb'' [V 0]) (V 0)]]))), Ret (Seq (SetV 1 (Call ''gdb'' [Call ''cdb'' [V 0, K (JNum 32)]])) (Bin Minus (K (JNum 64)) (Cond (Neg (Loose (V 1) (K (JNum 0)))) (Call ''xfb'' [V 1]) (Bin Plus (Call ''xfb'' [Call ''gdb'' [V 0]]) (K (JNum 32))))))],
    fn ''pb'' 2 0 [Ret (Cond (Call ''VD'' [V 0]) (Call ''vgb'' [V 0, V 1]) (Cond (Call ''TD'' [V 0]) (Call ''Veb'' [V 0, V 1]) (Cond (Call ''SD'' [V 0]) (Seq (Call ''NDb'' [V 0]) (Same (Call ''XD'' [V 0]) (Call ''XD'' [V 1]))) (Cond (Call ''QD'' [V 0]) (Meth (V 0) ''Fb'' [V 1]) (Cond (Call ''UC'' [V 0]) (Call ''mb'' [V 0, V 1]) (Call ''zz'' [V 0, V 1]))))))],
    fn ''bie'' 1 0 [Ret (Cond (Neg (V 0)) (K JNull) (Cond (Neg (Loose (Bin BitAnd (Dot (V 0) ''i'') (K (JNum 1))) (K (JNum 0)))) (Cond (Loose (V 0) (G ''Icb'')) (G ''GI'') (Cond (Loose (V 0) (G ''cE'')) (G ''UI'') (Cond (Loose (V 0) (G ''bE'')) (G ''QI'') (Cond (Loose (V 0) (G ''aE'')) (G ''LI'') (Cond (Loose (V 0) (G ''dE'')) (G ''XI'') (Cond (Loose (V 0) (G ''Hcb'')) (G ''cJ'') (Cond (Loose (V 0) (G ''$D'')) (G ''HI'') (G ''II'')))))))) (V 0)))],
    fn ''LIc'' 2 0 [Switch (Dot (V 1) ''g'') [(Some (JNum 2), []), (Some (JNum 1), [Ret (Call ''IYb'' [V 0, V 1])]), (Some (JNum 3), []), (Some (JNum 4), [Ret (Call ''$u'' [Call ''IYb'' [V 0, V 1]])])], Ret (Seq (Seq (Call ''Inb'' []) (Call ''Inb'' [])) (G ''Fnb''))],
    fn ''Avd'' 4 0 [Switch (V 1) [(Some (JNum 1), [Ret (Seq (And (Neg (Dot (V 0) ''n'')) (Put (V 0) ''n'' (New ''P3d'' [G ''S3'', V 0, K (JNum 1), K (JNum 7)]))) (Dot (V 0) ''n''))]), (Some (JNum 2), [Ret (Dot (V 0) ''k'')])], Ret (Call ''Yud'' [V 0, V 1, V 2, V 3])],
    fn ''$sd'' 3 0 [When (Bin Lt (V 1) (K (JNum 0))) [Do (Call ''ptd'' [V 0, V 2])] [When (Neg (Meth (V 2) ''pk'' [])) [Raise (Call ''Lcb'' [New ''kfb'' [Bin Plus (Bin Plus (G ''UFe'') (Meth (V 2) ''ve'' [])) (G ''VFe'')]])] [], Do (Meth (Meth (Call ''JD'' [V 2, K (JNum 69)]) ''uk'' []) ''Ck'' [V 0, Meth (V 0) ''ei'' [], V 1])]],
    fn ''QDb'' 3 0 [When (Or (Bin Lt (V 0) (K (JNum 0))) (Bin Gt (V 1) (V 2))) [Raise (Call ''Lcb'' [New ''Fdb'' [Bin Plus (Bin Plus (Bin Plus (Bin Plus (Bin Plus (G ''nwe'') (V 0)) (G ''pwe'')) (V 1)) (K (JStr '', size: ''))) (V 2)]])] [], When (Bin Gt (V 0) (V 1)) [Raise (Call ''Lcb'' [New ''kfb'' [Bin Plus (Bin Plus (Bin Plus (G ''nwe'') (V 0)) (G ''owe'')) (V 1)]])] []],
    fn ''mUd'' 2 1 [Do (SetV 2 (Neg (Loose (Bin BitAnd (Dot (V 0) ''Bb'') (K (JNum 256))) (K (JNum 0))))), Do (Cond (V 1) (Put (V 0) ''Bb'' (Bin BitOr (Dot (V 0) ''Bb'') (K (JNum 256)))) (Put (V 0) ''Bb'' (Bin BitAnd (Dot (V 0) ''Bb'') (K (JNum (- 257)))))), Do (And (And (Neg (Loose (Bin BitAnd (Dot (V 0) ''Db'') (K (JNum 4))) (K (JNum 0)))) (Loose (Bin BitAnd (Dot (V 0) ''Db'') (K (JNum 1))) (K (JNum 0)))) (Call ''Osd'' [V 0, New ''b2d'' [V 0, K (JNum 1), K (JNum 2), V 2, V 1]]))],
    fn ''nUd'' 2 1 [Do (SetV 2 (Neg (Loose (Bin BitAnd (Dot (V 0) ''Bb'') (K (JNum 512))) (K (JNum 0))))), Do (Cond (V 1) (Put (V 0) ''Bb'' (Bin BitOr (Dot (V 0) ''Bb'') (K (JNum 512)))) (Put (V 0) ''Bb'' (Bin BitAnd (Dot (V 0) ''Bb'') (K (JNum (- 513)))))), Do (And (And (Neg (Loose (Bin BitAnd (Dot (V 0) ''Db'') (K (JNum 4))) (K (JNum 0)))) (Loose (Bin BitAnd (Dot (V 0) ''Db'') (K (JNum 1))) (K (JNum 0)))) (Call ''Osd'' [V 0, New ''b2d'' [V 0, K (JNum 1), K (JNum 3), V 2, V 1]]))],
    fn ''RWd'' 2 1 [Do (SetV 2 (Neg (Loose (Bin BitAnd (Dot (V 0) ''Bb'') (K (JNum 256))) (K (JNum 0))))), Do (Cond (V 1) (Put (V 0) ''Bb'' (Bin BitOr (Dot (V 0) ''Bb'') (K (JNum 256)))) (Put (V 0) ''Bb'' (Bin BitAnd (Dot (V 0) ''Bb'') (K (JNum (- 257)))))), Do (And (And (Neg (Loose (Bin BitAnd (Dot (V 0) ''Db'') (K (JNum 4))) (K (JNum 0)))) (Loose (Bin BitAnd (Dot (V 0) ''Db'') (K (JNum 1))) (K (JNum 0)))) (Call ''Osd'' [V 0, New ''b2d'' [V 0, K (JNum 1), K (JNum 8), V 2, V 1]]))],
    fn ''SWd'' 2 1 [Do (SetV 2 (Neg (Loose (Bin BitAnd (Dot (V 0) ''Bb'') (K (JNum 512))) (K (JNum 0))))), Do (Cond (V 1) (Put (V 0) ''Bb'' (Bin BitOr (Dot (V 0) ''Bb'') (K (JNum 512)))) (Put (V 0) ''Bb'' (Bin BitAnd (Dot (V 0) ''Bb'') (K (JNum (- 513)))))), Do (And (And (Neg (Loose (Bin BitAnd (Dot (V 0) ''Db'') (K (JNum 4))) (K (JNum 0)))) (Loose (Bin BitAnd (Dot (V 0) ''Db'') (K (JNum 1))) (K (JNum 0)))) (Call ''Osd'' [V 0, New ''b2d'' [V 0, K (JNum 1), K (JNum 9), V 2, V 1]]))],
    fn ''BTd'' 1 1 [When (Neg (Loose (Bin BitAnd (Dot (V 0) ''Db'') (K (JNum 64))) (K (JNum 0)))) [Ret (Call ''ytd'' [V 0])] [], Do (SetV 1 (New ''ahb'' [Call ''ytd'' [V 0]])), Do (Put (V 1) ''a'' (Bin Plus (Dot (V 1) ''a'') (K (JStr '' (source: '')))), Do (Call ''Xgb'' [V 1, Dot (V 0) ''d'']), Do (Put (V 1) ''a'' (Bin Plus (Dot (V 1) ''a'') (K (JStr '')'')))), Ret (Dot (V 1) ''a'')],
    fn ''w_d'' 2 1 [Do (SetV 2 (Neg (Loose (Bin BitAnd (Dot (V 0) ''Bb'') (K (JNum 256))) (K (JNum 0))))), Do (Cond (V 1) (Put (V 0) ''Bb'' (Bin BitOr (Dot (V 0) ''Bb'') (K (JNum 256)))) (Put (V 0) ''Bb'' (Bin BitAnd (Dot (V 0) ''Bb'') (K (JNum (- 257)))))), Do (And (And (Neg (Loose (Bin BitAnd (Dot (V 0) ''Db'') (K (JNum 4))) (K (JNum 0)))) (Loose (Bin BitAnd (Dot (V 0) ''Db'') (K (JNum 1))) (K (JNum 0)))) (Call ''Osd'' [V 0, New ''b2d'' [V 0, K (JNum 1), K (JNum 8), V 2, V 1]]))],
    fn ''z0d'' 3 2 [Do (SetV 4 (Dot (V 0) ''a'')), Do (Put (V 0) ''a'' (V 1)), When (And (Neg (Loose (Bin BitAnd (Dot (V 0) ''Db'') (K (JNum 4))) (K (JNum 0)))) (Loose (Bin BitAnd (Dot (V 0) ''Db'') (K (JNum 1))) (K (JNum 0)))) [Do (SetV 3 (New ''$1d'' [V 0, K (JNum 1), K (JNum 5), V 4, Dot (V 0) ''a''])), Do (Cond (Neg (V 2)) (SetV 2 (V 3)) (Call ''FId'' [V 2, V 3]))] [], Ret (V 2)],
    fn ''xje'' 2 1 [When (And (Loose (Dot (V 0) ''b'') (K (JNum (- 1)))) (Neg (Neg (Dot (V 0) ''a'')))) [Do (SetV 2 (Meth (Dot (V 0) ''a'') ''nk'' [])), Do (Put (V 0) ''b'' (Cond (Neg (V 2)) (Call ''OWd'' [Meth (Dot (V 0) ''c'') ''Ah'' [], Dot (V 0) ''a'']) (Meth (Dot (V 0) ''c'') ''Eh'' [Meth (Dot (V 0) ''a'') ''Jj'' [], V 2])))] [], Ret (Meth (Dot (V 0) ''c'') ''vh'' [Dot (V 0) ''b'', V 1])],
    fn ''G$d'' 2 2 [Do (SetV 3 (New ''uKd'' [V 0])), Loop (Neg (Loose (Dot (V 3) ''e'') (Meth (Dot (V 3) ''i'') ''gc'' []))) [Do (SetV 2 (Call ''JD'' [Call ''sKd'' [V 3], K (JNum 29)])), When (Same (Call ''XD'' [V 1]) (Call ''XD'' [V 2])) [Ret (K (JBool True))] []] [], Ret (K (JBool False))]]"

definition code_4289_4300 :: "(string \<times> jfun) list" where
  "code_4289_4300 = [
    fn ''QJb'' 1 4 [Do (Call ''MJb'' []), Do (Seq (Seq (SetV 2 (Call ''SJb'' [])) (SetV 3 (K (JNum 0)))) (SetV 4 (Dot (V 2) ''length''))), Loop (Bin Lt (V 3) (V 4)) [Do (SetV 1 (Idx (V 2) (V 3))), When (Neg (Loose (Call ''emb'' [Dot (V 1) ''a'', V 0, K (JNum 0)]) (K (JNum (- 1))))) [Ret (V 1)] []] [Do (SetV 3 (Bin Minus (V 3) (K (JNum (- 1)))))], Ret (G ''LJb'')],
    fn ''WQd'' 1 0 [When (And (Bin Ge (V 0) (K (JNum 65))) (Bin Le (V 0) (K (JNum 70)))) [Ret (Bin Plus (Bin Minus (V 0) (K (JNum 65))) (K (JNum 10)))] [], When (And (Bin Ge (V 0) (K (JNum 97))) (Bin Le (V 0) (K (JNum 102)))) [Ret (Bin Plus (Bin Minus (V 0) (K (JNum 97))) (K (JNum 10)))] [], When (And (Bin Ge (V 0) (K (JNum 48))) (Bin Le (V 0) (K (JNum 57)))) [Ret (Bin Minus (V 0) (K (JNum 48)))] [], Ret (K (JNum 0))],
    fn ''qfb'' 1 0 [Do (SetV 0 (Bin Minus (V 0) (Bin BitAnd (Bin Shr (V 0) (K (JNum 1))) (K (JNum 1431655765))))), Do (SetV 0 (Bin Plus (Bin BitAnd (Bin Shr (V 0) (K (JNum 2))) (K (JNum 858993459))) (Bin BitAnd (V 0) (K (JNum 858993459))))), Do (SetV 0 (Bin BitAnd (Bin Plus (Bin Shr (V 0) (K (JNum 4))) (V 0)) (K (JNum 252645135)))), Do (SetV 0 (Bin Plus (V 0) (Bin Shr (V 0) (K (JNum 8))))), Do (SetV 0 (Bin Plus (V 0) (Bin Shr (V 0) (K (JNum 16))))), Ret (Bin BitAnd (V 0) (K (JNum 63)))],
    fn ''O2b'' 1 2 [Do (SetV 1 (Dot (V 0) ''k'')), When (Loose (V 1) (Seq (Call ''$Yb'' []) (G ''TYb''))) [Do (SetV 2 (Call ''JD'' [Call ''oNb'' [V 0, Seq (Call ''Wrc'' []) (G ''$qc'')], K (JNum 64)])), Ret (Or (Loose (V 2) (Seq (Call ''Bmd'' []) (G ''hmd''))) (Loose (V 2) (G ''ymd'')))] [], Ret (K (JBool False))],
    fn ''hBb'' 1 1 [Do (SetV 1 (Call ''iBb'' [V 0])), When (Call ''Rcb'' [Dot (V 1) ''a'', K (JNum 0)]) [Ret (Seq (Seq (Call ''$ub'' []) (Call ''$ub'' [])) (G ''Zub''))] [], Ret (Seq (Call ''$ub'' []) (New ''dvb'' [Cond (Call ''Tcb'' [Dot (V 1) ''a'', K (JNum 0)]) (Bin Divide (Call ''Wqb'' [V 1]) (Call ''fdb'' [Dot (V 1) ''a''])) (K (JNum 0))]))],
    fn ''Usd'' 2 1 [Do (SetV 2 (Call ''JWd'' [V 0, V 1])), When (Call ''RD'' [V 2, K (JNum 335)]) [Ret (Call ''JD'' [V 2, K (JNum 38)])] [], Raise (Call ''Lcb'' [New ''kfb'' [Bin Plus (Bin Plus (G ''UFe'') (V 1)) (K (JStr (CHR 0x27 # '' is not a valid attribute'')))]])],
    fn ''kFd'' 3 1 [Do (SetV 3 (Meth (V 0) ''gc'' [])), When (Bin Gt (V 1) (V 3)) [Raise (Call ''Lcb'' [New ''rKd'' [V 1, V 3]])] [], When (And (Meth (V 0) ''Qi'' []) (Meth (V 0) ''Gc'' [V 2])) [Raise (Call ''Lcb'' [New ''kfb'' [G ''WGe'']])] [], Do (Meth (V 0) ''Ei'' [V 1, V 2])],
    fn ''P2d'' 2 2 [Do (SetV 3 (New ''uKd'' [V 0])), Loop (Neg (Loose (Dot (V 3) ''e'') (Meth (Dot (V 3) ''i'') ''gc'' []))) [Do (SetV 2 (Call ''JD'' [Call ''sKd'' [V 3], K (JNum 143)])), When (Same (Call ''XD'' [V 1]) (Call ''XD'' [V 2])) [Ret (K (JBool True))] []] [], Ret (K (JBool False))],
    fn ''Vce'' 3 3 [Do (SetV 5 (Seq (SetV 4 (Call ''$3d'' [Dot (V 0) ''b'', V 1])) (V 4))), When (V 5) [Do (SetV 3 (Call ''JD'' [Call ''Gde'' [Call ''ade'' [V 0, V 5], K (JStr '''')], K (JNum 29)])), When (V 3) [Ret (Call ''cde'' [V 0, V 3, V 1, V 2])] []] [], Ret (K JNull)],
    fn ''Yce'' 3 3 [Do (SetV 5 (Seq (SetV 4 (Call ''$3d'' [Dot (V 0) ''b'', V 1])) (V 4))), When (V 5) [Do (SetV 3 (Call ''JD'' [Call ''Gde'' [Call ''ade'' [V 0, V 5], K (JStr '''')], K (JNum 29)])), When (V 3) [Ret (Call ''dde'' [V 0, V 3, V 1, V 2])] []] [], Ret (K JNull)],
    fn ''Qoe'' 1 3 [Do (SetV 3 (K (JNum 0))), Do (SetV 2 (Dot (V 0) ''length'')), Do (SetV 1 (K (JNum 0))), Loop (Bin Lt (V 1) (V 2)) [Do (Or (Or (Or (Or (Loose (Idx (V 0) (V 1)) (K (JNum 32))) (Loose (Idx (V 0) (V 1)) (K (JNum 13)))) (Loose (Idx (V 0) (V 1)) (K (JNum 10)))) (Loose (Idx (V 0) (V 1)) (K (JNum 9)))) (PutIdx (V 0) (Bin Minus (SetV 3 (Bin Minus (V 3) (K (JNum (- 1))))) (K (JNum 1))) (Idx (V 0) (V 1))))] [Do (Bin Minus (SetV 1 (Bin Minus (V 1) (K (JNum (- 1))))) (K (JNum 1)))], Ret (V 3)],
    fn ''zlb'' 1 1 [Do (SetV 1 (Idx (Dot (V 0) ''a'') (Bin BitAnd (Bin Minus (Dot (V 0) ''c'') (K (JNum 1))) (Bin Minus (Dot (Dot (V 0) ''a'') ''length'') (K (JNum 1)))))), When (Loose (V 1) (K JNull)) [Ret (K JNull)] [], Do (Put (V 0) ''c'' (Bin BitAnd (Bin Minus (Dot (V 0) ''c'') (K (JNum 1))) (Bin Minus (Dot (Dot (V 0) ''a'') ''length'') (K (JNum 1))))), Do (Call ''VC'' [Dot (V 0) ''a'', Dot (V 0) ''c'', K JNull]), Ret (V 1)]]"

definition code_4302_4355 :: "(string \<times> jfun) list" where
  "code_4302_4355 = [
    fn ''xLb'' 2 0 [Switch (Dot (Dot (V 0) ''b'') ''g'') [(Some (JNum 0), []), (Some (JNum 1), [Ret (V 1)]), (Some (JNum 2), []), (Some (JNum 3), [Ret (New ''Pfd'' [Dot (V 1) ''d'', K (JNum 0), Dot (V 1) ''a'', Dot (V 1) ''b''])]), (None, [Ret (K JNull)])]],
    fn ''$eb'' 2 0 [When (Bin Lt (V 0) (V 1)) [Ret (K (JNum (- 1)))] [], When (Bin Gt (V 0) (V 1)) [Ret (K (JNum 1))] [], When (Loose (V 0) (V 1)) [Ret (Cond (Loose (V 0) (K (JNum 0))) (Call ''$eb'' [Bin Divide (K (JNum 1)) (V 0), Bin Divide (K (JNum 1)) (V 1)]) (K (JNum 0)))] [], Ret (Cond (Call ''isNaN'' [V 0]) (Cond (Call ''isNaN'' [V 1]) (K (JNum 0)) (K (JNum 1))) (K (JNum (- 1))))],
    fn ''i1b'' 2 0 [Do (Meth (V 1) ''Tg'' [K (JStr ''Sort end labels''), K (JNum 1)]), Do (Call ''YBb'' [Call ''VBb'' [Call ''XBb'' [New ''jCb'' [K JNull, New ''Zvb'' [Dot (V 0) ''b'', K (JNum 16)]], New ''t1b'' []], New ''v1b'' []], New ''x1b'' []]), Do (Meth (V 1) ''Ug'' [])],
    fn ''Djd'' 0 0 [Do (SetG ''Djd'' (G ''qdb'')), Do (SetG ''Bjd'' (New ''Hjd'' [G ''Ywe'', K (JNum 0)])), Do (SetG ''Ajd'' (New ''Hjd'' [G ''Uwe'', K (JNum 1)])), Do (SetG ''zjd'' (New ''Hjd'' [G ''Twe'', K (JNum 2)])), Do (SetG ''yjd'' (New ''Hjd'' [G ''dxe'', K (JNum 3)])), Do (SetG ''Cjd'' (New ''Hjd'' [K (JStr ''UP''), K (JNum 4)]))],
    fn ''Gnd'' 0 0 [Do (SetG ''Gnd'' (G ''qdb'')), Do (SetG ''End'' (New ''Hnd'' [K (JStr ''PARALLEL_NODE''), K (JNum 0)])), Do (SetG ''Dnd'' (New ''Hnd'' [K (JStr ''HIERARCHICAL_NODE''), K (JNum 1)])), Do (SetG ''Fnd'' (New ''Hnd'' [K (JStr ''ROOT_NODE''), K (JNum 2)]))],
    fn ''c8c'' 0 0 [Do (SetG ''c8c'' (G ''qdb'')), Do (SetG ''_7c'' (New ''d8c'' [K (JStr ''P1_STRUCTURE''), K (JNum 0)])), Do (SetG ''a8c'' (New ''d8c'' [K (JStr ''P2_PROCESSING_ORDER''), K (JNum 1)])), Do (SetG ''b8c'' (New ''d8c'' [K (JStr ''P3_EXECUTION''), K (JNum 2)]))],
    fn ''x6c'' 0 0 [Do (SetG ''x6c'' (G ''qdb'')), Do (SetG ''u6c'' (New ''z6c'' [K (JStr ''EQUAL_BETWEEN_STRUCTURES''), K (JNum 0)])), Do (SetG ''w6c'' (New ''z6c'' [K (JStr ''TO_ASPECT_RATIO''), K (JNum 1)])), Do (SetG ''v6c'' (New ''z6c'' [G ''qye'', K (JNum 2)]))],
    fn ''hkd'' 0 0 [Do (SetG ''hkd'' (G ''qdb'')), Do (SetG ''gkd'' (New ''ikd'' [G ''Ywe'', K (JNum 0)])), Do (SetG ''ekd'' (New ''ikd'' [K (JStr ''POLYLINE''), K (JNum 1)])), Do (SetG ''dkd'' (New ''ikd'' [K (JStr ''ORTHOGONAL''), K (JNum 2)])), Do (SetG ''fkd'' (New ''ikd'' [K (JStr ''SPLINES''), K (JNum 3)]))],
    fn ''aZc'' 0 0 [Do (SetG ''aZc'' (G ''qdb'')), Do (SetG ''_Yc'' (Call ''hcd'' [Call ''hcd'' [Call ''mcd'' [Call ''hcd'' [Call ''hcd'' [Call ''mcd'' [Call ''kcd'' [New ''pcd'' [], Seq (Call ''HSc'' []) (G ''ESc''), Seq (Call ''FVc'' []) (G ''EVc'')], G ''FSc''], G ''AVc''], G ''CVc''], G ''GSc''], G ''wVc''], G ''DVc'']))],
    fn ''e2b'' 1 0 [Switch (Dot (Call ''JD'' [Call ''oNb'' [V 0, Seq (Call ''Wrc'' []) (G ''frc'')], K (JNum 316)]) ''g'') [(Some (JNum 1), [Do (Call ''rNb'' [V 0, G ''frc'', Seq (Call ''wqc'' []) (G ''tqc'')]), Break]), (Some (JNum 2), [Do (Call ''rNb'' [V 0, G ''frc'', Seq (Call ''wqc'' []) (G ''vqc'')])])]],
    fn ''MQc'' 1 0 [Switch (V 0) [(Some (JNum 0), [Ret (New ''XQc'' [])]), (Some (JNum 1), [Ret (New ''NQc'' [])]), (Some (JNum 2), [Ret (New ''SQc'' [])]), (None, [Raise (Call ''Lcb'' [New ''jfb'' []])])]],
    fn ''Gjd'' 1 0 [Switch (Dot (V 0) ''g'') [(Some (JNum 2), [Ret (G ''Ajd'')]), (Some (JNum 1), [Ret (G ''zjd'')]), (Some (JNum 4), [Ret (G ''yjd'')]), (Some (JNum 3), [Ret (G ''Cjd'')]), (None, [Ret (G ''Bjd'')])]],
    fn ''Cmd'' 1 0 [Switch (Dot (V 0) ''g'') [(Some (JNum 1), [Ret (G ''Amd'')]), (Some (JNum 2), [Ret (G ''hmd'')]), (Some (JNum 3), [Ret (G ''gmd'')]), (Some (JNum 4), [Ret (G ''ymd'')]), (None, [Ret (G ''zmd'')])]],
    fn ''Dmd'' 1 0 [Switch (Dot (V 0) ''g'') [(Some (JNum 1), [Ret (G ''ymd'')]), (Some (JNum 2), [Ret (G ''Amd'')]), (Some (JNum 3), [Ret (G ''hmd'')]), (Some (JNum 4), [Ret (G ''gmd'')]), (None, [Ret (G ''zmd'')])]],
    fn ''Emd'' 1 0 [Switch (Dot (V 0) ''g'') [(Some (JNum 1), [Ret (G ''gmd'')]), (Some (JNum 2), [Ret (G ''ymd'')]), (Some (JNum 3), [Ret (G ''Amd'')]), (Some (JNum 4), [Ret (G ''hmd'')]), (None, [Ret (G ''zmd'')])]],
    fn ''LJd'' 3 2 [When (Meth (V 0) ''Nj'' []) [Do (SetV 4 (Meth (V 0) ''Oj'' [])), Do (SetV 3 (Call ''hGd'' [V 0, V 1, V 2])), Do (Meth (V 0) ''Hj'' [Meth (V 0) ''Gj'' [K (JNum 7), Call ''Cfb'' [V 2], V 3, V 1, V 4]]), Ret (V 3)] [Ret (Call ''hGd'' [V 0, V 1, V 2])]],
    fn ''kMd'' 2 3 [When (Loose (Dot (V 0) ''d'') (K JNull)) [Do (Put (V 0) ''e'' (Bin Minus (Dot (V 0) ''e'') (K (JNum (- 1))))), Do (Put (V 0) ''f'' (Bin Minus (Dot (V 0) ''f'') (K (JNum 1))))] [Do (SetV 4 (Meth (V 1) ''jd'' [])), Do (SetV 2 (Meth (V 1) ''yi'' [])), Do (SetV 3 (Bin Modulo (Bin BitAnd (V 2) (G ''Ate'')) (Dot (Dot (V 0) ''d'') ''length''))), Do (Call ''zMd'' [V 0, V 3, Call ''mMd'' [V 0, V 3, V 2, V 4]])]],
    fn ''RUd'' 2 1 [Do (SetV 2 (Neg (Loose (Bin BitAnd (Dot (V 0) ''Bb'') (G ''nIe'')) (K (JNum 0))))), Do (Cond (V 1) (Put (V 0) ''Bb'' (Bin BitOr (Dot (V 0) ''Bb'') (G ''nIe''))) (Put (V 0) ''Bb'' (Bin BitAnd (Dot (V 0) ''Bb'') (K (JNum (- 8193)))))), Do (And (And (Neg (Loose (Bin BitAnd (Dot (V 0) ''Db'') (K (JNum 4))) (K (JNum 0)))) (Loose (Bin BitAnd (Dot (V 0) ''Db'') (K (JNum 1))) (K (JNum 0)))) (Call ''Osd'' [V 0, New ''b2d'' [V 0, K (JNum 1), K (JNum 15), V 2, V 1]]))],
    fn ''KUd'' 2 1 [Do (SetV 2 (Neg (Loose (Bin BitAnd (Dot (V 0) ''Bb'') (G ''hIe'')) (K (JNum 0))))), Do (Cond (V 1) (Put (V 0) ''Bb'' (Bin BitOr (Dot (V 0) ''Bb'') (G ''hIe''))) (Put (V 0) ''Bb'' (Bin BitAnd (Dot (V 0) ''Bb'') (K (JNum (- 1025)))))), Do (And (And (Neg (Loose (Bin BitAnd (Dot (V 0) ''Db'') (K (JNum 4))) (K (JNum 0)))) (Loose (Bin BitAnd (Dot (V 0) ''Db'') (K (JNum 1))) (K (JNum 0)))) (Call ''Osd'' [V 0, New ''b2d'' [V 0, K (JNum 1), K (JNum 10), V 2, V 1]]))],
    fn ''QUd'' 2 1 [Do (SetV 2 (Neg (Loose (Bin BitAnd (Dot (V 0) ''Bb'') (G ''Eve'')) (K (JNum 0))))), Do (Cond (V 1) (Put (V 0) ''Bb'' (Bin BitOr (Dot (V 0) ''Bb'') (G ''Eve''))) (Put (V 0) ''Bb'' (Bin BitAnd (Dot (V 0) ''Bb'') (K (JNum (- 4097)))))), Do (And (And (Neg (Loose (Bin BitAnd (Dot (V 0) ''Db'') (K (JNum 4))) (K (JNum 0)))) (Loose (Bin BitAnd (Dot (V 0) ''Db'') (K (JNum 1))) (K (JNum 0)))) (Call ''Osd'' [V 0, New ''b2d'' [V 0, K (JNum 1), K (JNum 12), V 2, V 1]]))],
    fn ''SUd'' 2 1 [Do (SetV 2 (Neg (Loose (Bin BitAnd (Dot (V 0) ''Bb'') (G ''bGe'')) (K (JNum 0))))), Do (Cond (V 1) (Put (V 0) ''Bb'' (Bin BitOr (Dot (V 0) ''Bb'') (G ''bGe''))) (Put (V 0) ''Bb'' (Bin BitAnd (Dot (V 0) ''Bb'') (K (JNum (- 2049)))))), Do (And (And (Neg (Loose (Bin BitAnd (Dot (V 0) ''Db'') (K (JNum 4))) (K (JNum 0)))) (Loose (Bin BitAnd (Dot (V 0) ''Db'') (K (JNum 1))) (K (JNum 0)))) (Call ''Osd'' [V 0, New ''b2d'' [V 0, K (JNum 1), K (JNum 11), V 2, V 1]]))],
    fn ''EMb'' 2 1 [Do (SetV 2 (Call ''$eb'' [Dot (Dot (V 0) ''b'') ''c'', Dot (Dot (V 1) ''b'') ''c''])), When (Neg (Loose (V 2) (K (JNum 0)))) [Ret (V 2)] [], Do (SetV 2 (Call ''$eb'' [Dot (Dot (V 0) ''a'') ''a'', Dot (Dot (V 1) ''a'') ''a''])), When (Neg (Loose (V 2) (K (JNum 0)))) [Ret (V 2)] [], Ret (Call ''$eb'' [Dot (Dot (V 0) ''a'') ''b'', Dot (Dot (V 1) ''a'') ''b''])],
    fn ''Cr'' 1 2 [Do (SetV 2 (Call ''bhb'' [New ''lhb'' [], K (JNum 91)])), Do (SetV 1 (K (JBool True))), Loop (Meth (V 0) ''Ob'' []) [Do (Or (V 1) (Seq (Put (V 2) ''a'' (Bin Plus (Dot (V 2) ''a'') (G ''Ete''))) (V 2))), Do (SetV 1 (K (JBool False))), Do (Call ''ghb'' [V 2, Meth (V 0) ''Pb'' []])] [], Ret (Dot (Seq (Put (V 2) ''a'' (Bin Plus (Dot (V 2) ''a'') (K (JStr '']'')))) (V 2)) ''a'')],
    fn ''UUb'' 1 3 [Do (SetV 1 (New ''lmb'' [])), Do (SetV 3 (New ''Kmb'' [Dot (V 0) ''b''])), Loop (Bin Lt (Dot (V 3) ''a'') (Dot (Dot (Dot (V 3) ''c'') ''c'') ''length'')) [Do (SetV 2 (Call ''JD'' [Call ''Imb'' [V 3], K (JNum 592)])), Do (Call ''bmb'' [V 1, Call ''JD'' [Meth (V 2) ''Af'' [], K (JNum 18)]])] [], Ret (V 1)],
    fn ''xRb'' 2 2 [Do (SetV 3 (New ''Kmb'' [V 1])), Loop (Bin Lt (Dot (V 3) ''a'') (Dot (Dot (Dot (V 3) ''c'') ''c'') ''length'')) [Do (SetV 2 (Call ''JD'' [Call ''Imb'' [V 3], K (JNum 49)])), Do (Call ''gmb'' [Dot (Dot (V 0) ''b'') ''b'', Dot (V 2) ''b'']), Do (Call ''NRb'' [Call ''JD'' [Dot (V 2) ''a'', K (JNum 194)], Call ''JD'' [Dot (V 2) ''b'', K (JNum 82)]])] []],
    fn ''Whe'' 1 2 [Do (SetV 2 (Meth (Call ''Xhe'' [Call ''OVd'' [V 0]]) ''Jc'' [])), Loop (Meth (V 2) ''Ob'' []) [Do (SetV 1 (Call ''OD'' [Meth (V 2) ''Pb'' []])), When (Call ''xxd'' [V 0, V 1]) [Ret (Call ''fRd'' [Seq (Call ''eRd'' []) (G ''dRd''), V 1])] []] [], Ret (K JNull)],
    fn ''_Dc'' 3 2 [Do (SetV 4 (Meth (Meth (Dot (V 0) ''a'') ''ec'' []) ''Jc'' [])), Loop (Meth (V 4) ''Ob'' []) [Do (SetV 3 (Call ''JD'' [Meth (V 4) ''Pb'' [], K (JNum 9)])), When (Call ''Ae'' [V 2, Call ''JD'' [Call ''dmb'' [V 1, Dot (V 3) ''p''], K (JNum 18)]]) [Ret (V 3)] []] [], Ret (K JNull)],
    fn ''Gee'' 3 2 [Do (SetV 4 (Cond (And (Call ''RD'' [V 1, K (JNum 103)]) (Neg (Loose (Bin BitAnd (Dot (Call ''JD'' [V 1, K (JNum 19)]) ''Bb'') (G ''Hve'')) (K (JNum 0))))) (New ''dge'' [V 1, V 0]) (New ''age'' [V 1, V 0]))), Do (SetV 3 (K (JNum 0))), Loop (Bin Lt (V 3) (V 2)) [Do (Call ''Qfe'' [V 4])] [Do (SetV 3 (Bin Minus (V 3) (K (JNum (- 1)))))], Ret (V 4)],
    fn ''$ee'' 2 5 [Do (SetV 6 (Call ''Cie'' [Meth (Dot (V 0) ''e'') ''Ah'' [], V 1])), Do (SetV 5 (K (JNum 0))), Do (SetV 2 (Call ''JD'' [Dot (V 0) ''g'', K (JNum 122)])), Do (SetV 4 (K (JNum 0))), Loop (Bin Lt (V 4) (Dot (V 0) ''i'')) [Do (SetV 3 (Idx (V 2) (V 4))), Do (And (Meth (V 6) ''$l'' [Meth (V 3) ''Jk'' []]) (SetV 5 (Bin Minus (V 5) (K (JNum (- 1))))))] [Do (SetV 4 (Bin Minus (V 4) (K (JNum (- 1)))))], Ret (V 5)],
    fn ''PXb'' 1 2 [Do (SetV 2 (Call ''JD'' [Call ''oNb'' [V 0, Seq (Call ''nyc'' []) (G ''bwc'')], K (JNum 86)])), When (Loose (V 2) (Seq (Call ''Djd'' []) (G ''Bjd''))) [Do (SetV 1 (Call ''Ueb'' [Call ''MD'' [Call ''oNb'' [V 0, G ''vvc'']]])), Ret (Cond (Bin Ge (V 1) (K (JNum 1))) (G ''Ajd'') (G ''yjd''))] [], Ret (V 2)],
    fn ''Xbc'' 1 0 [Switch (Dot (Call ''JD'' [Call ''oNb'' [V 0, Seq (Call ''nyc'' []) (G ''iwc'')], K (JNum 222)]) ''g'') [(Some (JNum 1), [Ret (New ''zkc'' [])]), (Some (JNum 3), [Ret (New ''qlc'' [])]), (None, [Ret (New ''tkc'' [])])]],
    fn ''dBb'' 1 0 [When (Dot (V 0) ''c'') [Do (Call ''dBb'' [Dot (V 0) ''c''])] [When (Dot (V 0) ''d'') [Raise (Call ''Lcb'' [New ''nfb'' [K (JStr (''Stream already terminated, can'' @ CHR 0x27 # ''t be modified or used''))]])] []]],
    fn ''qmc'' 1 1 [When (Neg (Dot (V 0) ''a'')) [Raise (Call ''Lcb'' [New ''nfb'' [K (JStr ''Cannot offset an unassigned cut.'')]])] [], Do (SetV 1 (Bin Minus (Dot (V 0) ''c'') (Dot (V 0) ''b''))), Do (Put (V 0) ''b'' (Bin Plus (Dot (V 0) ''b'') (V 1))), Do (Call ''smc'' [V 0, V 1]), Do (Call ''tmc'' [V 0, V 1])],
    fn ''$od'' 3 2 [When (Dot (V 0) ''c'') [Do (Call ''iqd'' [Dot (V 0) ''c'', V 1, V 2])] [Do (SetV 4 (New ''Kmb'' [Dot (V 0) ''b''])), Loop (Bin Lt (Dot (V 4) ''a'') (Dot (Dot (Dot (V 4) ''c'') ''c'') ''length'')) [Do (SetV 3 (Call ''JD'' [Call ''Imb'' [V 4], K (JNum 167)])), Do (Call ''$od'' [V 3, V 1, V 2])] []]],
    fn ''Be'' 2 3 [Do (Call ''NDb'' [V 1]), Do (SetV 2 (K (JBool False))), Do (SetV 3 (New ''Kmb'' [V 0])), Loop (Bin Lt (Dot (V 3) ''a'') (Dot (Dot (Dot (V 3) ''c'') ''c'') ''length'')) [Do (SetV 4 (Call ''Imb'' [V 3])), When (Meth (V 1) ''Gc'' [V 4]) [Do (Call ''Jmb'' [V 3]), Do (SetV 2 (K (JBool True)))] []] [], Ret (V 2)],
    fn ''Tsb'' 3 1 [Do (SetV 3 (Meth (Dot (V 0) ''a'') ''get'' [V 1])), Do (Meth (Dot (V 0) ''a'') ''set'' [V 1, Cond (Same (V 2) (K JUndef)) (K JNull) (V 2)]), When (Same (V 3) (K JUndef)) [Do (Put (V 0) ''c'' (Bin Minus (Dot (V 0) ''c'') (K (JNum (- 1))))), Do (Put (Dot (V 0) ''b'') ''g'' (Bin Minus (Dot (Dot (V 0) ''b'') ''g'') (K (JNum (- 1)))))] [Do (Put (V 0) ''d'' (Bin Minus (Dot (V 0) ''d'') (K (JNum (- 1)))))], Ret (V 3)],
    fn ''MEd'' 3 2 [Do (SetV 3 (Call ''JD'' [Meth (V 1) ''mf'' [Dot (V 0) ''a''], K (JNum 35)])), Do (SetV 4 (Call ''JD'' [Meth (V 2) ''mf'' [Dot (V 0) ''a''], K (JNum 35)])), Ret (Cond (And (Neg (Loose (V 3) (K JNull))) (Neg (Loose (V 4) (K JNull)))) (Call ''Vdb'' [V 3, V 4]) (Cond (Neg (Loose (V 3) (K JNull))) (K (JNum (- 1))) (Cond (Neg (Loose (V 4) (K JNull))) (K (JNum 1)) (K (JNum 0)))))],
    fn ''IYb'' 2 1 [Do (Or (Dot (V 0) ''i'') (Call ''AYb'' [V 0])), Do (SetV 2 (Call ''JD'' [Call ''brb'' [Dot (V 0) ''g'', V 1], K (JNum 49)])), Ret (Cond (Neg (V 2)) (Seq (Seq (Call ''Inb'' []) (Call ''Inb'' [])) (G ''Fnb'')) (New ''_jb'' [Dot (V 0) ''j'', Dot (Call ''JD'' [Dot (V 2) ''a'', K (JNum 15)]) ''a'', Dot (Call ''JD'' [Dot (V 2) ''b'', K (JNum 15)]) ''a'']))],
    fn ''Khb'' 2 0 [Do (Put This ''e'' (V 1)), Do (Put This ''a'' (Call ''Nhb'' [V 0])), Do (Cond (Bin Lt (Dot This ''a'') (K (JNum 54))) (Put This ''f'' (Call ''fdb'' [V 0])) (Put This ''c'' (Seq (Call ''Zhb'' []) (Cond (Bin Ge (Call ''Ocb'' [V 0, K (JNum 0)]) (K (JNum 0))) (Call ''tib'' [V 0]) (Call ''fib'' [Call ''tib'' [Call ''Zcb'' [V 0]]])))))],
    fn ''kWb'' 6 0 [Do (Put This ''e'' (New ''lmb'' [])), Do (Put This ''f'' (Seq (Call ''qAc'' []) (G ''pAc''))), Do (Call ''_lb'' [Dot This ''e'', V 0]), Do (Put This ''d'' (V 1)), Do (Put This ''a'' (V 2)), Do (Put This ''b'' (V 3)), Do (Put This ''f'' (V 4)), Do (Put This ''c'' (V 5))],
    fn ''Plc'' 5 0 [Do (Call ''Jlc'' [This]), Do (Put This ''b'' (V 0)), Do (Put This ''d'' (Call ''SC'' [G ''SP'', G ''Bye'', K (JNum 9), Dot (Dot (Dot (V 1) ''a'') ''c'') ''length'', K (JNum 0), K (JNum 1)])), Do (Put This ''f'' (V 2)), Do (Call ''kmb'' [Dot (V 1) ''a'', Dot This ''d'']), Do (Put This ''g'' (V 3)), Do (Put This ''c'' (V 4))],
    fn ''nQb'' 3 1 [Do (SetV 3 (V 2)), Do (And (Neg (V 3)) (SetV 3 (Call ''nod'' [New ''ood'' [], K (JNum 0)]))), Do (Meth (V 3) ''Tg'' [G ''jye'', K (JNum 2)]), Do (Call ''cWb'' [Dot (V 0) ''b'', V 1, Meth (V 3) ''dh'' [K (JNum 1)]]), Do (Call ''pQb'' [V 0, V 1, Meth (V 3) ''dh'' [K (JNum 1)]]), Do (Call ''NVb'' [V 1, Meth (V 3) ''dh'' [K (JNum 1)]]), Do (Meth (V 3) ''Ug'' [])],
    fn ''dZc'' 3 1 [Do (SetV 3 (K (JNum 0))), Do (And (Neg (Neg (V 1))) (Cond (Call ''Fjd'' [Dot (V 0) ''a'']) (SetV 3 (Bin Plus (V 3) (Bin Divide (Dot (Dot (V 1) ''f'') ''a'') (K (JNum 2))))) (SetV 3 (Bin Plus (V 3) (Bin Divide (Dot (Dot (V 1) ''f'') ''b'') (K (JNum 2))))))), Do (And (Neg (Neg (V 2))) (Cond (Call ''Fjd'' [Dot (V 0) ''a'']) (SetV 3 (Bin Plus (V 3) (Bin Divide (Dot (Dot (V 2) ''f'') ''a'') (K (JNum 2))))) (SetV 3 (Bin Plus (V 3) (Bin Divide (Dot (Dot (V 2) ''f'') ''b'') (K (JNum 2))))))), Ret (V 3)],
    fn ''VEd'' 3 2 [Do (SetV 3 (Seq (Seq (Call ''zsd'' []) (SetV 4 (New ''tvd'' []))) (V 4))), Do (Call ''rvd'' [V 3, V 1]), Do (Call ''svd'' [V 3, V 2]), Do (And (Neg (Neg (V 0))) (Call ''lFd'' [Seq (And (Neg (Dot (V 0) ''a'')) (Put (V 0) ''a'' (New ''iYd'' [G ''N3'', V 0, K (JNum 5)]))) (Dot (V 0) ''a''), V 3])), Ret (V 3)],
    fn ''Ivd'' 1 1 [When (Neg (Loose (Bin BitAnd (Dot (V 0) ''Db'') (K (JNum 64))) (K (JNum 0)))) [Ret (Call ''ytd'' [V 0])] [], Do (SetV 1 (New ''ahb'' [Call ''ytd'' [V 0]])), Do (Put (V 1) ''a'' (Bin Plus (Dot (V 1) ''a'') (K (JStr '' (identifier: '')))), Do (Call ''Xgb'' [V 1, Dot (V 0) ''k'']), Do (Put (V 1) ''a'' (Bin Plus (Dot (V 1) ''a'') (K (JStr '')'')))), Ret (Dot (V 1) ''a'')],
    fn ''Mm'' 1 1 [Switch (Meth (V 0) ''gc'' []) [(Some (JNum 0), [Ret (Seq (Call ''Dx'' []) (G ''Cx''))]), (Some (JNum 1), [Ret (New ''vy'' [Call ''Qb'' [Meth (V 0) ''Xb'' [K (JNum 0)]]])]), (None, [Do (SetV 1 (V 0)), Ret (New ''Ex'' [V 1])])]],
    fn ''Mcb'' 2 1 [When (And (Call ''Vcb'' [V 0]) (Call ''Vcb'' [V 1])) [Do (SetV 2 (Bin Plus (V 0) (V 1))), When (And (Bin Lt (G ''xve'') (V 2)) (Bin Lt (V 2) (G ''vve''))) [Ret (V 2)] []] [], Ret (Call ''Pcb'' [Call ''kD'' [Cond (Call ''Vcb'' [V 0]) (Call ''edb'' [V 0]) (V 0), Cond (Call ''Vcb'' [V 1]) (Call ''edb'' [V 1]) (V 1)]])],
    fn ''Ycb'' 2 1 [When (And (Call ''Vcb'' [V 0]) (Call ''Vcb'' [V 1])) [Do (SetV 2 (Bin Times (V 0) (V 1))), When (And (Bin Lt (G ''xve'') (V 2)) (Bin Lt (V 2) (G ''vve''))) [Ret (V 2)] []] [], Ret (Call ''Pcb'' [Call ''oD'' [Cond (Call ''Vcb'' [V 0]) (Call ''edb'' [V 0]) (V 0), Cond (Call ''Vcb'' [V 1]) (Call ''edb'' [V 1]) (V 1)]])],
    fn ''ddb'' 2 1 [When (And (Call ''Vcb'' [V 0]) (Call ''Vcb'' [V 1])) [Do (SetV 2 (Bin Minus (V 0) (V 1))), When (And (Bin Lt (G ''xve'') (V 2)) (Bin Lt (V 2) (G ''vve''))) [Ret (V 2)] []] [], Ret (Call ''Pcb'' [Call ''vD'' [Cond (Call ''Vcb'' [V 0]) (Call ''edb'' [V 0]) (V 0), Cond (Call ''Vcb'' [V 1]) (Call ''edb'' [V 1]) (V 1)]])],
    fn ''Db'' 3 2 [Try [Do (Call ''Cb'' [V 0, V 1, V 2])] 4 [Do (SetV 4 (Call ''Kcb'' [V 4])), When (Call ''RD'' [V 4, K (JNum 596)]) [Do (SetV 3 (V 4)), Raise (Call ''Lcb'' [New ''Ndb'' [V 3]])] [Raise (Call ''Lcb'' [V 4])]], Ret (V 1)],
    fn ''Dqe'' 1 1 [Do (SetV 1 (Call ''SC'' [G ''_D'', G ''Nue'', K (JNum 30), K (JNum 2), K (JNum 15), K (JNum 1)])), Do (SetV 0 (Bin Minus (V 0) (G ''Hve''))), Do (PutIdx (V 1) (K (JNum 0)) (Bin BitAnd (Bin Plus (Bin Shr (V 0) (K (JNum 10))) (G ''Ive'')) (G ''Pue''))), Do (PutIdx (V 1) (K (JNum 1)) (Bin BitAnd (Bin Plus (Bin BitAnd (V 0) (K (JNum 1023))) (K (JNum 56320))) (G ''Pue''))), Ret (Call ''Sgb'' [V 1, K (JNum 0), Dot (V 1) ''length''])],
    fn ''EYb'' 1 3 [Do (SetV 1 (New ''lmb'' [])), Do (SetV 3 (New ''Kmb'' [Dot (V 0) ''j''])), Loop (Bin Lt (Dot (V 3) ''a'') (Dot (Dot (Dot (V 3) ''c'') ''c'') ''length'')) [Do (SetV 2 (Call ''JD'' [Call ''Imb'' [V 3], K (JNum 12)])), Do (Call ''_lb'' [V 1, Dot (V 2) ''e''])] [], Ret (Seq (Call ''Qb'' [V 1]) (New ''Bl'' [V 1]))],
    fn ''BYb'' 1 3 [Do (SetV 1 (New ''lmb'' [])), Do (SetV 3 (New ''Kmb'' [Dot (V 0) ''j''])), Loop (Bin Lt (Dot (V 3) ''a'') (Dot (Dot (Dot (V 3) ''c'') ''c'') ''length'')) [Do (SetV 2 (Call ''JD'' [Call ''Imb'' [V 3], K (JNum 12)])), Do (Call ''_lb'' [V 1, Dot (V 2) ''b''])] [], Ret (Seq (Call ''Qb'' [V 1]) (New ''Bl'' [V 1]))],
    fn ''HYb'' 1 3 [Do (SetV 1 (New ''lmb'' [])), Do (SetV 3 (New ''Kmb'' [Dot (V 0) ''j''])), Loop (Bin Lt (Dot (V 3) ''a'') (Dot (Dot (Dot (V 3) ''c'') ''c'') ''length'')) [Do (SetV 2 (Call ''JD'' [Call ''Imb'' [V 3], K (JNum 12)])), Do (Call ''_lb'' [V 1, Dot (V 2) ''g''])] [], Ret (Seq (Call ''Qb'' [V 1]) (New ''Bl'' [V 1]))]]"

definition code_4357_4367 :: "(string \<times> jfun) list" where
  "code_4357_4367 = [
    fn ''NUd'' 2 1 [Do (SetV 2 (Neg (Loose (Bin BitAnd (Dot (V 0) ''Bb'') (G ''bue'')) (K (JNum 0))))), Do (Cond (V 1) (Put (V 0) ''Bb'' (Bin BitOr (Dot (V 0) ''Bb'') (G ''bue''))) (Put (V 0) ''Bb'' (Bin BitAnd (Dot (V 0) ''Bb'') (K (JNum (- 16385)))))), Do (And (And (Neg (Loose (Bin BitAnd (Dot (V 0) ''Db'') (K (JNum 4))) (K (JNum 0)))) (Loose (Bin BitAnd (Dot (V 0) ''Db'') (K (JNum 1))) (K (JNum 0)))) (Call ''Osd'' [V 0, New ''b2d'' [V 0, K (JNum 1), K (JNum 16), V 2, V 1]]))],
    fn ''xVd'' 2 1 [Do (SetV 2 (Neg (Loose (Bin BitAnd (Dot (V 0) ''Bb'') (G ''$Fe'')) (K (JNum 0))))), Do (Cond (V 1) (Put (V 0) ''Bb'' (Bin BitOr (Dot (V 0) ''Bb'') (G ''$Fe''))) (Put (V 0) ''Bb'' (Bin BitAnd (Dot (V 0) ''Bb'') (K (JNum (- 32769)))))), Do (And (And (Neg (Loose (Bin BitAnd (Dot (V 0) ''Db'') (K (JNum 4))) (K (JNum 0)))) (Loose (Bin BitAnd (Dot (V 0) ''Db'') (K (JNum 1))) (K (JNum 0)))) (Call ''Osd'' [V 0, New ''b2d'' [V 0, K (JNum 1), K (JNum 18), V 2, V 1]]))],
    fn ''n4d'' 2 1 [Do (SetV 2 (Neg (Loose (Bin BitAnd (Dot (V 0) ''Bb'') (G ''$Fe'')) (K (JNum 0))))), Do (Cond (V 1) (Put (V 0) ''Bb'' (Bin BitOr (Dot (V 0) ''Bb'') (G ''$Fe''))) (Put (V 0) ''Bb'' (Bin BitAnd (Dot (V 0) ''Bb'') (K (JNum (- 32769)))))), Do (And (And (Neg (Loose (Bin BitAnd (Dot (V 0) ''Db'') (K (JNum 4))) (K (JNum 0)))) (Loose (Bin BitAnd (Dot (V 0) ''Db'') (K (JNum 1))) (K (JNum 0)))) (Call ''Osd'' [V 0, New ''b2d'' [V 0, K (JNum 1), K (JNum 18), V 2, V 1]]))],
    fn ''p4d'' 2 1 [Do (SetV 2 (Neg (Loose (Bin BitAnd (Dot (V 0) ''Bb'') (G ''Hve'')) (K (JNum 0))))), Do (Cond (V 1) (Put (V 0) ''Bb'' (Bin BitOr (Dot (V 0) ''Bb'') (G ''Hve''))) (Put (V 0) ''Bb'' (Bin BitAnd (Dot (V 0) ''Bb'') (K (JNum (- 65537)))))), Do (And (And (Neg (Loose (Bin BitAnd (Dot (V 0) ''Db'') (K (JNum 4))) (K (JNum 0)))) (Loose (Bin BitAnd (Dot (V 0) ''Db'') (K (JNum 1))) (K (JNum 0)))) (Call ''Osd'' [V 0, New ''b2d'' [V 0, K (JNum 1), K (JNum 20), V 2, V 1]]))],
    fn ''G6c'' 2 0 [Do (And (Loose (Dot (Dot (Dot (V 0) ''n'') ''c'') ''length'') (K (JNum 0))) (Call ''_lb'' [Dot (V 0) ''n'', New ''X6c'' [Dot (V 0) ''s'', Dot (V 0) ''t'', Dot (V 0) ''i'']])), Do (Call ''_lb'' [Dot (V 0) ''b'', V 1]), Do (Call ''S6c'' [Call ''JD'' [Call ''dmb'' [Dot (V 0) ''n'', Bin Minus (Dot (Dot (Dot (V 0) ''n'') ''c'') ''length'') (K (JNum 1))], K (JNum 208)], V 1]), Do (Call ''I6c'' [V 0, V 1])],
    fn ''u2c'' 3 1 [Do (Meth (V 2) ''Tg'' [K (JStr ''Straight Line Edge Routing''), K (JNum 1)]), Do (Meth (V 2) ''bh'' [V 1, G ''hDe'']), Do (SetV 3 (Call ''JD'' [Call ''cvd'' [V 1, Seq (Call ''d_c'' []) (G ''c_c'')], K (JNum 26)])), Do (Call ''v2c'' [V 0, V 3]), Do (Meth (V 2) ''bh'' [V 1, G ''iDe''])],
    fn ''Zhe'' 1 2 [Do (SetV 2 (Meth (Call ''$he'' [Call ''OVd'' [Call ''HUd'' [V 0]]]) ''Jc'' [])), Loop (Meth (V 2) ''Ob'' []) [Do (SetV 1 (Call ''OD'' [Meth (V 2) ''Pb'' []])), When (Call ''xxd'' [V 0, V 1]) [Ret (Call ''qRd'' [Seq (Call ''pRd'' []) (G ''oRd''), V 1])] []] [], Ret (K JNull)],
    fn ''Lv'' 1 4 [Do (SetV 1 (New ''iq'' [Meth (Meth (V 0) ''Pd'' []) ''gc'' []])), Do (SetV 4 (K (JNum 0))), Do (SetV 3 (Call ''Er'' [Meth (Meth (V 0) ''Pd'' []) ''Jc'' []])), Loop (Meth (V 3) ''Ob'' []) [Do (SetV 2 (Meth (V 3) ''Pb'' [])), Do (Call ''hq'' [V 1, V 2, Call ''Cfb'' [Bin Minus (SetV 4 (Bin Minus (V 4) (K (JNum (- 1))))) (K (JNum 1))]])] [], Ret (Call ''nn'' [Dot (V 1) ''a''])],
    fn ''Frb'' 1 4 [Do (SetV 2 (Seq (SetV 1 (Call ''JD'' [Call ''web'' [Seq (Seq (SetV 3 (Dot (V 0) ''Pm'')) (SetV 4 (Dot (V 3) ''f''))) (Cond (Loose (V 4) (G ''MI'')) (V 3) (V 4))], K (JNum 10)])) (New ''Nrb'' [V 1, Call ''JD'' [Call ''nDb'' [V 1, Dot (V 1) ''length''], K (JNum 10)], K (JNum 0)]))), Do (Call ''Hrb'' [V 2, V 0]), Ret (V 2)],
    fn ''Fm'' 1 3 [Do (Seq (SetV 2 (K (JNum 0))) (SetV 3 (Dot (V 0) ''length''))), Loop (Bin Lt (V 2) (V 3)) [When (Loose (Idx (V 0) (V 2)) (K JNull)) [Raise (Call ''Lcb'' [New ''Yfb'' [Bin Plus (K (JStr ''at index '')) (V 2)]])] []] [Do (Bin Minus (SetV 2 (Bin Minus (V 2) (K (JNum (- 1))))) (K (JNum 1)))], Do (SetV 1 (V 0)), Ret (New ''wnb'' [V 1])],
    fn ''T3c'' 0 0 [Do (SetG ''T3c'' (G ''qdb'')), Do (SetG ''R3c'' (New ''U3c'' [K (JStr ''ASPECT_RATIO_DRIVEN''), K (JNum 0)])), Do (SetG ''S3c'' (New ''U3c'' [K (JStr ''MAX_SCALE_DRIVEN''), K (JNum 1)])), Do (SetG ''Q3c'' (New ''U3c'' [K (JStr ''AREA_DRIVEN''), K (JNum 2)]))]]"

definition code_4372_4376 :: "(string \<times> jfun) list" where
  "code_4372_4376 = [
    fn ''HPc'' 2 2 [Do (SetV 2 (Call ''Ztb'' [V 0, K (JNum 0)])), Loop (Neg (Loose (Dot (V 2) ''b'') (Dot (Dot (V 2) ''d'') ''c''))) [Do (SetV 3 (Call ''Web'' [Call ''MD'' [Call ''lub'' [V 2]]])), When (Loose (V 3) (V 1)) [Ret (K JUndef)] [When (Bin Gt (V 3) (V 1)) [Do (Call ''mub'' [V 2]), Break] []]] [], Do (Call ''jub'' [V 2, V 1])],
    fn ''Bdd'' 2 5 [Do (SetV 2 (Dot (V 1) ''f'')), Do (Call ''ltb'' [Dot (Dot (V 0) ''c'') ''d'', V 2, V 1]), When (Neg (Loose (Dot (V 1) ''g'') (K JNull))) [Do (Seq (Seq (SetV 4 (Dot (V 1) ''g'')) (SetV 5 (K (JNum 0)))) (SetV 6 (Dot (V 4) ''length''))), Loop (Bin Lt (V 5) (V 6)) [Do (SetV 3 (Idx (V 4) (V 5))), Do (Call ''ltb'' [Dot (Dot (V 0) ''c'') ''e'', V 3, V 1])] [Do (SetV 5 (Bin Minus (V 5) (K (JNum (- 1)))))]] []],
    fn ''cnb'' 4 3 [Do (SetV 4 (Bin Plus (V 1) (K (JNum 1)))), Loop (Bin Lt (V 4) (V 2)) [Do (SetV 5 (V 4)), Loop (And (Bin Gt (V 5) (V 1)) (Bin Gt (Meth (V 3) ''Le'' [Idx (V 0) (Bin Minus (V 5) (K (JNum 1))), Idx (V 0) (V 5)]) (K (JNum 0)))) [Do (SetV 6 (Idx (V 0) (V 5))), Do (Call ''VC'' [V 0, V 5, Idx (V 0) (Bin Minus (V 5) (K (JNum 1)))]), Do (Call ''VC'' [V 0, Bin Minus (V 5) (K (JNum 1)), V 6])] [Do (SetV 5 (Bin Minus (V 5) (K (JNum 1))))]] [Do (SetV 4 (Bin Minus (V 4) (K (JNum (- 1)))))]],
    fn ''Zsd'' 4 0 [When (Bin Lt (V 1) (K (JNum 0))) [Do (Call ''otd'' [V 0, V 2, V 3])] [When (Neg (Meth (V 2) ''pk'' [])) [Raise (Call ''Lcb'' [New ''kfb'' [Bin Plus (Bin Plus (G ''UFe'') (Meth (V 2) ''ve'' [])) (G ''VFe'')]])] [], Do (Meth (Meth (Call ''JD'' [V 2, K (JNum 69)]) ''uk'' []) ''Ak'' [V 0, Meth (V 0) ''ei'' [], V 1, V 3])]],
    fn ''qtd'' 2 1 [Do (SetV 2 (Call ''JWd'' [Meth (V 0) ''Ah'' [], V 1])), When (Call ''RD'' [V 2, K (JNum 103)]) [Ret (Call ''JD'' [V 2, K (JNum 19)])] [], Raise (Call ''Lcb'' [New ''kfb'' [Bin Plus (Bin Plus (G ''UFe'') (V 1)) (K (JStr (CHR 0x27 # '' is not a valid reference'')))]])]]"

definition code_4378_4404 :: "(string \<times> jfun) list" where
  "code_4378_4404 = [
    fn ''bD'' 2 0 [When (And (And (Loose (Dot (V 0) ''h'') (G ''tve'')) (Loose (Dot (V 0) ''m'') (K (JNum 0)))) (Loose (Dot (V 0) ''l'') (K (JNum 0)))) [Do (And (V 1) (SetG ''YC'' (Call ''_C'' [K (JNum 0), K (JNum 0), K (JNum 0)]))), Ret (Call ''$C'' [Seq (Call ''ED'' []) (G ''CD'')])] [], Do (And (V 1) (SetG ''YC'' (Call ''_C'' [Dot (V 0) ''l'', Dot (V 0) ''m'', Dot (V 0) ''h'']))), Ret (Call ''_C'' [K (JNum 0), K (JNum 0), K (JNum 0)])],
    fn ''sFb'' 2 0 [Switch (Dot (V 1) ''g'') [(Some (JNum 2), [Ret (Dot (V 0) ''b'')]), (Some (JNum 1), [Ret (Dot (V 0) ''c'')]), (Some (JNum 4), [Ret (Dot (V 0) ''d'')]), (Some (JNum 3), [Ret (Dot (V 0) ''a'')]), (None, [Ret (K (JBool False))])]],
    fn ''mSb'' 2 0 [Switch (Dot (V 1) ''g'') [(Some (JNum 2), [Ret (Dot (V 0) ''b'')]), (Some (JNum 1), [Ret (Dot (V 0) ''c'')]), (Some (JNum 4), [Ret (Dot (V 0) ''d'')]), (Some (JNum 3), [Ret (Dot (V 0) ''a'')]), (None, [Ret (K (JBool False))])]],
    fn ''Tvd'' 4 0 [Switch (V 1) [(Some (JNum 3), [Ret (Dot (V 0) ''f'')]), (Some (JNum 4), [Ret (Dot (V 0) ''g'')]), (Some (JNum 5), [Ret (Dot (V 0) ''i'')]), (Some (JNum 6), [Ret (Dot (V 0) ''j'')])], Ret (Call ''Avd'' [V 0, V 1, V 2, V 3])],
    fn ''jkc'' 3 0 [Switch (Dot (V 1) ''g'') [(Some (JNum 1), [Do (Put (V 0) ''b'' (Bin Minus (Dot (V 0) ''b'') (Bin Divide (Dot (V 2) ''b'') (K (JNum 2))))), Break]), (Some (JNum 3), [Do (Put (V 0) ''b'' (Bin Plus (Dot (V 0) ''b'') (Bin Divide (Dot (V 2) ''b'') (K (JNum 2))))), Break]), (Some (JNum 4), [Do (Put (V 0) ''a'' (Bin Minus (Dot (V 0) ''a'') (Bin Divide (Dot (V 2) ''a'') (K (JNum 2))))), Break]), (Some (JNum 2), [Do (Put (V 0) ''a'' (Bin Plus (Dot (V 0) ''a'') (Bin Divide (Dot (V 2) ''a'') (K (JNum 2)))))])]],
    fn ''$Sc'' 2 0 [Ret (Call ''vgb'' [Cond (And (Neg (Neg (Dot (V 1) ''b''))) (Neg (Neg (Dot (V 1) ''c'')))) (Bin Plus (Bin Plus (Call ''LTc'' [Dot (V 1) ''b'']) (K (JStr ''->''))) (Call ''LTc'' [Dot (V 1) ''c''])) (Bin Plus (K (JStr ''e_'')) (Call ''tb'' [V 1])), Cond (And (Neg (Neg (Dot (V 0) ''b''))) (Neg (Neg (Dot (V 0) ''c'')))) (Bin Plus (Bin Plus (Call ''LTc'' [Dot (V 0) ''b'']) (K (JStr ''->''))) (Call ''LTc'' [Dot (V 0) ''c''])) (Bin Plus (K (JStr ''e_'')) (Call ''tb'' [V 0]))])],
    fn ''aTc'' 2 0 [Ret (Call ''vgb'' [Cond (And (Neg (Neg (Dot (V 1) ''b''))) (Neg (Neg (Dot (V 1) ''c'')))) (Bin Plus (Bin Plus (Call ''LTc'' [Dot (V 1) ''b'']) (K (JStr ''->''))) (Call ''LTc'' [Dot (V 1) ''c''])) (Bin Plus (K (JStr ''e_'')) (Call ''tb'' [V 1])), Cond (And (Neg (Neg (Dot (V 0) ''b''))) (Neg (Neg (Dot (V 0) ''c'')))) (Bin Plus (Bin Plus (Call ''LTc'' [Dot (V 0) ''b'']) (K (JStr ''->''))) (Call ''LTc'' [Dot (V 0) ''c''])) (Bin Plus (K (JStr ''e_'')) (Call ''tb'' [V 0]))])],
    fn ''Ty'' 2 0 [Do (Call ''Sy'' []), Ret (Seq (Call ''Wy'' [G ''Due'']) (Cond (Or (Or (Bin Le (Meth (Dot (G ''$wnd'') ''Math'') ''abs'' [Bin Minus (V 0) (V 1)]) (G ''Due'')) (Loose (V 0) (V 1))) (And (Call ''isNaN'' [V 0]) (Call ''isNaN'' [V 1]))) (K (JNum 0)) (Cond (Bin Lt (V 0) (V 1)) (K (JNum (- 1))) (Cond (Bin Gt (V 0) (V 1)) (K (JNum 1)) (Call ''Udb'' [Call ''isNaN'' [V 0], Call ''isNaN'' [V 1]])))))],
    fn ''UFb'' 2 0 [When (Loose (V 1) (Dot (V 0) ''d'')) [Ret (Dot (V 0) ''e'')] [When (Loose (V 1) (Dot (V 0) ''e'')) [Ret (Dot (V 0) ''d'')] [Raise (Call ''Lcb'' [New ''kfb'' [Bin Plus (Bin Plus (Bin Plus (K (JStr ''Node '')) (V 1)) (K (JStr '' not part of edge ''))) (V 0)]])]]],
    fn ''xQd'' 1 0 [When (Loose (Dot (V 0) ''e'') (K JNull)) [Ret (V 0)] [Do (And (Neg (Dot (V 0) ''c'')) (Put (V 0) ''c'' (New ''yQd'' [Neg (Loose (Bin BitAnd (Dot (V 0) ''f'') (K (JNum 256))) (K (JNum 0))), Dot (V 0) ''i'', Dot (V 0) ''a'', Dot (V 0) ''d'', Neg (Loose (Bin BitAnd (Dot (V 0) ''f'') (K (JNum 16))) (K (JNum 0))), Dot (V 0) ''j'', Dot (V 0) ''g'', K JNull])))], Ret (Dot (V 0) ''c'')],
    fn ''Bhc'' 1 0 [When (Neg (Loose (Dot (V 0) ''k'') (Seq (Call ''$Yb'' []) (G ''XYb'')))) [Ret (K (JBool False))] [], Ret (Call ''RBb'' [New ''jCb'' [K JNull, New ''$vb'' [New ''Yr'' [Call ''Dr'' [Meth (Dot (Call ''HYb'' [V 0]) ''a'') ''Jc'' [], New ''Dl'' []]]]], New ''Chc'' []])],
    fn ''gg'' 1 1 [When (Dot (V 0) ''b'') [Do (Call ''gg'' [Dot (V 0) ''b'']), When (Neg (Loose (Dot (Dot (V 0) ''b'') ''d'') (Dot (V 0) ''c''))) [Raise (Call ''Lcb'' [New ''Rqb'' []])] []] [When (Meth (Dot (V 0) ''d'') ''dc'' []) [Do (SetV 1 (Call ''JD'' [Meth (Dot (Dot (V 0) ''f'') ''c'') ''xc'' [Dot (V 0) ''e''], K (JNum 18)])), Do (And (Neg (Neg (V 1))) (Put (V 0) ''d'' (V 1)))] []]],
    fn ''yKb'' 1 4 [Do (Call ''uKb'' []), Do (SetV 1 (Dot (Dot (V 0) ''o'') ''b'')), Do (SetV 3 (Meth (Call ''JD'' [Call ''JD'' [Call ''Qc'' [Dot (V 0) ''r'', Seq (Call ''Bmd'' []) (G ''ymd'')], K (JNum 22)], K (JNum 83)]) ''Jc'' [])), Loop (Meth (V 3) ''Ob'' []) [Do (SetV 2 (Call ''JD'' [Meth (V 3) ''Pb'' [], K (JNum 115)])), Do (SetV 4 (Dot (V 2) ''e'')), Do (Put (V 4) ''b'' (Bin Plus (Dot (V 4) ''b'') (V 1)))] []],
    fn ''AOd'' 2 4 [Do (Call ''yOd'' []), Do (SetV 3 (Call ''vXd'' [V 0])), Do (SetV 4 (V 1)), Do (Call ''enb'' [V 3, K (JNum 0), Dot (V 3) ''length'', V 4]), Do (SetV 2 (K (JNum 0))), Loop (Bin Lt (V 2) (Dot (V 3) ''length'')) [Do (SetV 5 (Call ''zOd'' [V 0, Idx (V 3) (V 2), V 2])), Do (And (Neg (Loose (V 2) (V 5))) (Call ''LJd'' [V 0, V 2, V 5]))] [Do (Bin Minus (SetV 2 (Bin Minus (V 2) (K (JNum (- 1))))) (K (JNum 1)))]],
    fn ''V6b'' 2 3 [Do (SetV 3 (Call ''S6b'' [V 0, V 1])), Do (SetV 4 (Bin Divide (Idx (V 3) (Bin Minus (Dot (V 3) ''length'') (K (JNum 1)))) (K (JNum 2)))), Do (SetV 2 (K (JNum 0))), Loop (Bin Lt (V 2) (Dot (V 3) ''length'')) [When (Bin Ge (Idx (V 3) (V 2)) (V 4)) [Ret (Bin Plus (Dot (V 1) ''c'') (V 2))] []] [Do (Bin Minus (SetV 2 (Bin Minus (V 2) (K (JNum (- 1))))) (K (JNum 1)))], Ret (Bin Plus (Dot (V 1) ''c'') (Meth (Dot (V 1) ''b'') ''gc'' []))],
    fn ''zQd'' 3 2 [Do (Seq (SetV 3 (K (JNum 0))) (SetV 4 (Dot (V 0) ''length''))), Loop (Bin Lt (V 3) (V 4)) [When (Call ''MQd'' [Seq (Call ''UDb'' [V 3, Dot (V 0) ''length'']) (Meth (V 0) ''charCodeAt'' [V 3]), V 1, V 2]) [Ret (K (JBool True))] []] [Do (Bin Minus (SetV 3 (Bin Minus (V 3) (K (JNum (- 1))))) (K (JNum 1)))], Ret (K (JBool False))],
    fn ''SQd'' 1 1 [When (Loose (V 0) (K JNull)) [Ret (K (JBool True))] [], Do (SetV 1 (Dot (V 0) ''length'')), Ret (And (And (Bin Gt (V 1) (K (JNum 0))) (Seq (Call ''UDb'' [Bin Minus (V 1) (K (JNum 1)), Dot (V 0) ''length'']) (Loose (Meth (V 0) ''charCodeAt'' [Bin Minus (V 1) (K (JNum 1))]) (K (JNum 58))))) (Neg (Call ''zQd'' [V 0, G ''nQd'', G ''oQd''])))],
    fn ''frb'' 1 1 [Do (Put This ''a'' (Seq (SetV 1 (Call ''JD'' [And (Dot (V 0) ''e'') (Meth (V 0) ''e'' []), K (JNum 10)])) (New ''Nrb'' [V 1, Call ''JD'' [Call ''nDb'' [V 1, Dot (V 1) ''length''], K (JNum 10)], K (JNum 0)]))), Do (Put This ''b'' (Call ''SC'' [G ''aJ'', G ''Gte'', K (JNum 1), Dot (Dot (Dot This ''a'') ''a'') ''length'', K (JNum 5), K (JNum 1)]))],
    fn ''Gyc'' 1 0 [Do (Call ''Fyc'' []), Do (Put This ''c'' (Call ''Wu'' [Call ''WC'' [Call ''OC'' [G ''m1'', K (JNum 1)], G ''Gte'', K (JNum 830), K (JNum 0), NewArr [G ''uyc'']]])), Do (Put This ''b'' (New ''_rb'' [])), Do (Put This ''a'' (V 0)), Do (Call ''hjb'' [Dot This ''b'', G ''Dyc'', K (JNum 1)]), Do (Call ''cmb'' [G ''Eyc'', New ''Apd'' [This]])],
    fn ''asc'' 0 0 [Do (SetG ''asc'' (G ''qdb'')), Do (SetG ''_rc'' (New ''bsc'' [G ''qye'', K (JNum 0)])), Do (SetG ''Xrc'' (New ''bsc'' [K (JStr ''FIRST''), K (JNum 1)])), Do (SetG ''Yrc'' (New ''bsc'' [G ''Vye'', K (JNum 2)])), Do (SetG ''Zrc'' (New ''bsc'' [K (JStr ''LAST''), K (JNum 3)])), Do (SetG ''$rc'' (New ''bsc'' [G ''Wye'', K (JNum 4)]))],
    fn ''Xnc'' 0 0 [Do (SetG ''Xnc'' (G ''qdb'')), Do (SetG ''Unc'' (New ''Znc'' [K (JStr ''LAYER_SWEEP''), K (JNum 0)])), Do (SetG ''Vnc'' (New ''Znc'' [K (JStr ''MEDIAN_LAYER_SWEEP''), K (JNum 1)])), Do (SetG ''Tnc'' (New ''Znc'' [G ''gze'', K (JNum 2)])), Do (SetG ''Wnc'' (New ''Znc'' [G ''qye'', K (JNum 3)]))],
    fn ''gpd'' 0 0 [Do (SetG ''gpd'' (G ''qdb'')), Do (SetG ''fpd'' (New ''hpd'' [G ''kCe'', K (JNum 0)])), Do (SetG ''cpd'' (New ''hpd'' [K (JStr ''GROUP_DEC''), K (JNum 1)])), Do (SetG ''epd'' (New ''hpd'' [K (JStr ''GROUP_MIXED''), K (JNum 2)])), Do (SetG ''dpd'' (New ''hpd'' [K (JStr ''GROUP_INC''), K (JNum 3)]))],
    fn ''YDd'' 1 5 [Do (SetV 5 (Call ''$Dd'' [V 0])), Do (SetV 2 (Call ''rte'' [Dot (V 0) ''c''])), Do (SetV 3 (Neg (V 2))), When (V 3) [Do (SetV 4 (New ''EB'' [])), Do (Call ''kC'' [V 5, K (JStr ''knownLayouters''), V 4]), Do (SetV 1 (New ''hEd'' [V 4])), Do (Call ''Hfb'' [Dot (V 0) ''c'', V 1])] [], Ret (V 5)],
    fn ''ZIc'' 5 3 [Do (SetV 6 (V 4)), Loop (Neg (Loose (Dot (V 1) ''b'') (Dot (V 1) ''c''))) [Do (SetV 5 (Call ''JD'' [Call ''Clb'' [V 1], K (JNum 9)])), Do (SetV 7 (Call ''JD'' [Meth (Call ''IYb'' [V 5, V 3]) ''Xb'' [K (JNum 0)], K (JNum 12)])), Do (PutIdx (Dot (V 0) ''d'') (Dot (V 7) ''p'') (Bin Minus (SetV 6 (Bin Minus (V 6) (K (JNum (- 1))))) (K (JNum 1)))), Do (Call ''qDb'' [Dot (V 2) ''c'', V 7])] [], Ret (V 6)],
    fn ''$Hb'' 2 6 [Do (SetV 3 (K (JNum 0))), Do (SetV 2 (K (JNum 0))), Do (Seq (Seq (SetV 5 (V 1)) (SetV 6 (K (JNum 0)))) (SetV 7 (Dot (V 5) ''length''))), Loop (Bin Lt (V 6) (V 7)) [Do (SetV 4 (Idx (V 5) (V 6))), When (Bin Gt (V 4) (K (JNum 0))) [Do (SetV 3 (Bin Plus (V 3) (V 4))), Do (SetV 2 (Bin Minus (V 2) (K (JNum (- 1)))))] []] [Do (SetV 6 (Bin Minus (V 6) (K (JNum (- 1)))))], Do (And (Bin Gt (V 2) (K (JNum 1))) (SetV 3 (Bin Plus (V 3) (Bin Times (Dot (V 0) ''d'') (Bin Minus (V 2) (K (JNum 1))))))), Ret (V 3)],
    fn ''wFd'' 1 3 [Do (SetV 3 (New ''$gb'' [])), Do (Put (V 3) ''a'' (Bin Plus (Dot (V 3) ''a'') (K (JStr ''['')))), Do (Seq (SetV 1 (K (JNum 0))) (SetV 2 (Meth (V 0) ''gc'' []))), Loop (Bin Lt (V 1) (V 2)) [Do (Call ''Xgb'' [V 3, Call ''Qgb'' [Meth (V 0) ''Ti'' [V 1]]]), Do (And (Bin Lt (SetV 1 (Bin Minus (V 1) (K (JNum (- 1))))) (V 2)) (Seq (Put (V 3) ''a'' (Bin Plus (Dot (V 3) ''a'') (G ''Ete''))) (V 3)))] [], Do (Put (V 3) ''a'' (Bin Plus (Dot (V 3) ''a'') (K (JStr '']'')))), Ret (Dot (V 3) ''a'')],
    fn ''oHb'' 1 3 [Do (SetV 3 (Call ''Ueb'' [Call ''MD'' [Meth (Dot (V 0) ''a'') ''mf'' [Seq (Call ''vjd'' []) (G ''ajd'')]]])), Do (SetV 2 (New ''Kmb'' [Meth (Dot (V 0) ''a'') ''Qf'' []])), Loop (Bin Lt (Dot (V 2) ''a'') (Dot (Dot (Dot (V 2) ''c'') ''c'') ''length'')) [Do (SetV 1 (Call ''JD'' [Call ''Imb'' [V 2], K (JNum 685)])), Do (Call ''rHb'' [V 0, V 1, V 3])] []]]"

definition object_table11 :: "(string \<times> jfun) list" where
  "object_table11 = code_4228_4288 @ code_4289_4300 @ code_4302_4355 @ code_4357_4367 @ code_4372_4376 @ code_4378_4404"

text \<open>The names each table declares.\<close>

lemma names_4228_4288 [js_names]: "map fst code_4228_4288 = [
    ''v_c'', ''cFb'', ''F6b'', ''Nxd'', ''rtd'', ''r0d'', ''t0d'', ''Dfd'', ''Efd'', ''hMd'',
    ''rGc'', ''cSc'', ''Vlc'', ''Llc'', ''r6c'', ''YGc'', ''$6c'', ''Z5c'', ''Fvd'', ''Nv'',
    ''Lk'', ''Mk'', ''qUb'', ''f3b'', ''l3b'', ''Xib'', ''Cfb'', ''lgb'', ''Xfc'', ''Gec'',
    ''Ghb'', ''Qgc'', ''EQc'', ''Dyd'', ''Cdd'', ''kyd'', ''kUd'', ''D3d'', ''C3d'', ''_ce'',
    ''_Fd'', ''dnb'', ''Mbe'', ''Oxb'', ''dCb'', ''Nhb'', ''pb'', ''bie'', ''LIc'', ''Avd'',
    ''$sd'', ''QDb'', ''mUd'', ''nUd'', ''RWd'', ''SWd'', ''BTd'', ''w_d'', ''z0d'', ''xje'',
    ''G$d'']"
  by (simp add: code_4228_4288_def fn_def)

lemma names_4289_4300 [js_names]: "map fst code_4289_4300 = [
    ''QJb'', ''WQd'', ''qfb'', ''O2b'', ''hBb'', ''Usd'', ''kFd'', ''P2d'', ''Vce'', ''Yce'',
    ''Qoe'', ''zlb'']"
  by (simp add: code_4289_4300_def fn_def)

lemma names_4302_4355 [js_names]: "map fst code_4302_4355 = [
    ''xLb'', ''$eb'', ''i1b'', ''Djd'', ''Gnd'', ''c8c'', ''x6c'', ''hkd'', ''aZc'', ''e2b'',
    ''MQc'', ''Gjd'', ''Cmd'', ''Dmd'', ''Emd'', ''LJd'', ''kMd'', ''RUd'', ''KUd'', ''QUd'',
    ''SUd'', ''EMb'', ''Cr'', ''UUb'', ''xRb'', ''Whe'', ''_Dc'', ''Gee'', ''$ee'', ''PXb'',
    ''Xbc'', ''dBb'', ''qmc'', ''$od'', ''Be'', ''Tsb'', ''MEd'', ''IYb'', ''Khb'', ''kWb'',
    ''Plc'', ''nQb'', ''dZc'', ''VEd'', ''Ivd'', ''Mm'', ''Mcb'', ''Ycb'', ''ddb'', ''Db'',
    ''Dqe'', ''EYb'', ''BYb'', ''HYb'']"
  by (simp add: code_4302_4355_def fn_def)

lemma names_4357_4367 [js_names]: "map fst code_4357_4367 = [
    ''NUd'', ''xVd'', ''n4d'', ''p4d'', ''G6c'', ''u2c'', ''Zhe'', ''Lv'', ''Frb'', ''Fm'',
    ''T3c'']"
  by (simp add: code_4357_4367_def fn_def)

lemma names_4372_4376 [js_names]: "map fst code_4372_4376 = [
    ''HPc'', ''Bdd'', ''cnb'', ''Zsd'', ''qtd'']"
  by (simp add: code_4372_4376_def fn_def)

lemma names_4378_4404 [js_names]: "map fst code_4378_4404 = [
    ''bD'', ''sFb'', ''mSb'', ''Tvd'', ''jkc'', ''$Sc'', ''aTc'', ''Ty'', ''UFb'', ''xQd'',
    ''Bhc'', ''gg'', ''yKb'', ''AOd'', ''V6b'', ''zQd'', ''SQd'', ''frb'', ''Gyc'', ''asc'',
    ''Xnc'', ''gpd'', ''YDd'', ''ZIc'', ''$Hb'', ''wFd'', ''oHb'']"
  by (simp add: code_4378_4404_def fn_def)

end
