(* ===== verification/ObjectTable12.thy ===== *)
theory ObjectTable12
  imports ObjectCode
begin

text \<open>
  Functions of \<open>layout-worker.js\<close>, lines 4406 to 4544, in the order of the file, one per line:
  operations of the runtime's collections, iterators and text buffers, accessors and small algorithms
  of the layout engine, with their loops, \<open>switch\<close> and \<open>try\<close> statements. An entry has the name, the
  number of parameters, the number of further local variables and the body; parameters and locals
  are numbered from 0, the variable of a \<open>catch\<close> has a number of its own, \<open>x++\<close> is \<open>(x=x+1)-1\<close>. Lines
  with a construct outside \<open>jexp\<close> and \<open>jstm\<close> (closures, \<open>in\<close>, floating-point literals, host objects) are
  left out.
\<close>

definition code_4406_4417 :: "(string \<times> jfun) list" where
  "code_4406_4417 = [
    fn ''sRb'' 2 2 [Do (SetV 3 (New ''Kmb'' [V 1])), Loop (Bin Lt (Dot (V 3) ''a'') (Dot (Dot (Dot (V 3) ''c'') ''c'') ''length'')) [Do (SetV 2 (Call ''JD'' [Call ''Imb'' [V 3], K (JNum 49)])), Do (Call ''_lb'' [Dot (Dot (V 0) ''b'') ''b'', Call ''JD'' [Dot (V 2) ''b'', K (JNum 82)]]), Do (Call ''MRb'' [Call ''JD'' [Dot (V 2) ''a'', K (JNum 194)], Call ''JD'' [Dot (V 2) ''b'', K (JNum 82)]])] []],
    fn ''HDc'' 3 2 [Do (SetV 4 (Dot (Dot (V 0) ''a'') ''b'')), Do (SetV 3 (Dot (Dot (V 4) ''c'') ''length'')), Loop (Bin Lt (V 3) (V 2)) [Do (Call ''$lb'' [V 4, K (JNum 0), New ''y$b'' [Dot (V 0) ''a'']])] [Do (Bin Minus (SetV 3 (Bin Minus (V 3) (K (JNum (- 1))))) (K (JNum 1)))], Do (Call ''NYb'' [V 1, Call ''JD'' [Call ''dmb'' [V 4, Bin Minus (Dot (Dot (V 4) ''c'') ''length'') (V 2)], K (JNum 25)]]), Do (PutIdx (Dot (V 0) ''b'') (Dot (V 1) ''p'') (V 2))],
    fn ''nLc'' 5 0 [Do (Call ''OKc'' []), Do (Call ''XFb'' [Call ''$Fb'' [Call ''ZFb'' [Call ''YFb'' [Call ''_Fb'' [New ''aGb'' [], K (JNum 0)], Bin Minus (Dot (Dot (V 4) ''d'') ''e'') (V 0)], V 1], Dot (V 4) ''d'']]), Do (Call ''XFb'' [Call ''$Fb'' [Call ''ZFb'' [Call ''YFb'' [Call ''_Fb'' [New ''aGb'' [], K (JNum 0)], Bin Minus (V 2) (Dot (Dot (V 4) ''a'') ''e'')], Dot (V 4) ''a''], V 3]])],
    fn ''Obd'' 2 1 [When (Dot (V 0) ''d'') [When (Call ''cjb'' [Dot (V 0) ''b'', V 1]) [Ret (Call ''JD'' [Call ''ejb'' [Dot (V 0) ''b'', V 1], K (JNum 43)])] [Do (SetV 2 (Meth (V 1) ''bg'' [])), Do (Call ''hjb'' [Dot (V 0) ''b'', V 1, V 2]), Ret (V 2)]] [Ret (Meth (V 1) ''bg'' [])]],
    fn ''aib'' 2 1 [When (Same (Call ''XD'' [V 0]) (Call ''XD'' [V 1])) [Ret (K (JBool True))] [], When (Call ''RD'' [V 1, K (JNum 91)]) [Do (SetV 2 (Call ''JD'' [V 1, K (JNum 91)])), Ret (And (And (Loose (Dot (V 0) ''e'') (Dot (V 2) ''e'')) (Loose (Dot (V 0) ''d'') (Dot (V 2) ''d''))) (Call ''bib'' [V 0, Dot (V 2) ''a'']))] [], Ret (K (JBool False))],
    fn ''Gmd'' 1 0 [Do (Call ''Bmd'' []), Switch (Dot (V 0) ''g'') [(Some (JNum 4), [Ret (G ''hmd'')]), (Some (JNum 1), [Ret (G ''gmd'')]), (Some (JNum 3), [Ret (G ''ymd'')]), (Some (JNum 2), [Ret (G ''Amd'')]), (None, [Ret (G ''zmd'')])]],
    fn ''Uvd'' 2 0 [Switch (V 1) [(Some (JNum 3), [Ret (Neg (Loose (Dot (V 0) ''f'') (K (JNum 0))))]), (Some (JNum 4), [Ret (Neg (Loose (Dot (V 0) ''g'') (K (JNum 0))))]), (Some (JNum 5), [Ret (Neg (Loose (Dot (V 0) ''i'') (K (JNum 0))))]), (Some (JNum 6), [Ret (Neg (Loose (Dot (V 0) ''j'') (K (JNum 0))))])], Ret (Call ''Dvd'' [V 0, V 1])],
    fn ''S0c'' 1 0 [Switch (Dot (V 0) ''g'') [(Some (JNum 1), [Ret (New ''o0c'' [])]), (Some (JNum 2), [Ret (New ''g0c'' [])]), (None, [Raise (Call ''Lcb'' [New ''kfb'' [Bin Plus (G ''oDe'') (Cond (Neg (Loose (Dot (V 0) ''f'') (K JNull))) (Dot (V 0) ''f'') (Bin Plus (K (JStr '''')) (Dot (V 0) ''g'')))]])])]],
    fn ''I0c'' 1 0 [Switch (Dot (V 0) ''g'') [(Some (JNum 0), [Ret (New ''p2c'' [])]), (Some (JNum 1), [Ret (New ''s2c'' [])]), (None, [Raise (Call ''Lcb'' [New ''kfb'' [Bin Plus (G ''oDe'') (Cond (Neg (Loose (Dot (V 0) ''f'') (K JNull))) (Dot (V 0) ''f'') (Bin Plus (K (JStr '''')) (Dot (V 0) ''g'')))]])])]],
    fn ''h_c'' 1 0 [Switch (Dot (V 0) ''g'') [(Some (JNum 0), [Ret (New ''m2c'' [])]), (Some (JNum 1), [Ret (New ''w2c'' [])]), (None, [Raise (Call ''Lcb'' [New ''kfb'' [Bin Plus (G ''Sye'') (Cond (Neg (Loose (Dot (V 0) ''f'') (K JNull))) (Dot (V 0) ''f'') (Bin Plus (K (JStr '''')) (Dot (V 0) ''g'')))]])])]],
    fn ''had'' 1 0 [Switch (Dot (V 0) ''g'') [(Some (JNum 0), [Ret (New ''yad'' [])]), (Some (JNum 1), [Ret (New ''Cad'' [])]), (None, [Raise (Call ''Lcb'' [New ''kfb'' [Bin Plus (G ''iEe'') (Cond (Neg (Loose (Dot (V 0) ''f'') (K JNull))) (Dot (V 0) ''f'') (Bin Plus (K (JStr '''')) (Dot (V 0) ''g'')))]])])]],
    fn ''$u'' 1 2 [When (Call ''RD'' [V 0, K (JNum 312)]) [Do (SetV 2 (Call ''sm'' [Call ''JD'' [V 0, K (JNum 312)]])), Do (SetV 1 (V 2)), Ret (V 1)] [Ret (Cond (Call ''RD'' [V 0, K (JNum 432)]) (Dot (Call ''JD'' [V 0, K (JNum 432)]) ''a'') (Cond (Call ''RD'' [V 0, K (JNum 59)]) (New ''wv'' [V 0]) (New ''lv'' [V 0])))]]]"

definition code_4420_4476 :: "(string \<times> jfun) list" where
  "code_4420_4476 = [
    fn ''rAb'' 1 2 [When (Dot (V 0) ''b'') [Ret (Dot (V 0) ''b'')] [], Do (SetV 2 (Cond (G ''lAb'') (K JNull) (Dot (V 0) ''d''))), Loop (V 2) [Do (SetV 1 (Cond (G ''lAb'') (K JNull) (Dot (V 2) ''b''))), When (V 1) [Ret (V 1)] [], Do (SetV 2 (Cond (G ''lAb'') (K JNull) (Dot (V 2) ''d'')))] [], Ret (Seq (Call ''$zb'' []) (G ''Zzb''))],
    fn ''zib'' 1 3 [When (Loose (Dot (V 0) ''e'') (K (JNum 0))) [Ret (K (JNum 0))] [], Do (SetV 1 (Bin Shl (Dot (V 0) ''d'') (K (JNum 5)))), Do (SetV 2 (Idx (Dot (V 0) ''a'') (Bin Minus (Dot (V 0) ''d'') (K (JNum 1))))), When (Bin Lt (Dot (V 0) ''e'') (K (JNum 0))) [Do (SetV 3 (Call ''cib'' [V 0])), When (Loose (V 3) (Bin Minus (Dot (V 0) ''d'') (K (JNum 1)))) [Do (SetV 2 (Bin Minus (V 2) (K (JNum 1)))), Do (SetV 2 (Bin BitOr (V 2) (K (JNum 0))))] []] [], Do (SetV 1 (Bin Minus (V 1) (Call ''xfb'' [V 2]))), Ret (V 1)],
    fn ''uib'' 1 3 [When (Bin Lt (V 0) (Dot (G ''Xhb'') ''length'')) [Ret (Idx (G ''Xhb'') (V 0))] [], Do (SetV 2 (Bin Shr (V 0) (K (JNum 5)))), Do (SetV 1 (Bin BitAnd (V 0) (K (JNum 31)))), Do (SetV 3 (Call ''SC'' [G ''cE'', G ''bve'', K (JNum 30), Bin Plus (V 2) (K (JNum 1)), K (JNum 15), K (JNum 1)])), Do (PutIdx (V 3) (V 2) (Bin Shl (K (JNum 1)) (V 1))), Ret (New ''mib'' [K (JNum 1), Bin Plus (V 2) (K (JNum 1)), V 3])],
    fn ''K_b'' 1 3 [Do (SetV 2 (Meth (V 0) ''ih'' [])), When (V 2) [Do (SetV 1 (Meth (V 0) ''Bh'' [])), When (Call ''RD'' [V 1, K (JNum 174)]) [Do (SetV 3 (Call ''K_b'' [Call ''JD'' [V 1, K (JNum 174)]])), When (Neg (Loose (V 3) (K JNull))) [Ret (Bin Plus (Bin Plus (V 3) (K (JStr ''.''))) (V 2))] []] [], Ret (V 2)] [], Ret (K JNull)],
    fn ''ye'' 3 2 [Do (SetV 4 (Meth (V 0) ''Jc'' [])), Loop (Meth (V 4) ''Ob'' []) [Do (SetV 3 (Meth (V 4) ''Pb'' [])), When (Or (Same (Call ''XD'' [V 1]) (Call ''XD'' [V 3])) (And (Neg (Loose (V 1) (K JNull))) (Call ''pb'' [V 1, V 3]))) [Do (And (V 2) (Meth (V 4) ''Qb'' [])), Ret (K (JBool True))] []] [], Ret (K (JBool False))],
    fn ''die'' 2 4 [Do (SetV 4 (New ''mmb'' [Meth (V 1) ''gc'' []])), Do (SetV 3 (Meth (V 1) ''Jc'' [])), Loop (Meth (V 3) ''Ob'' []) [Do (SetV 2 (Meth (V 3) ''Pb'' [])), Do (SetV 5 (Call ''cie'' [V 0, Call ''JD'' [V 2, K (JNum 57)]])), Do (And (Neg (Neg (V 5))) (Seq (Call ''qDb'' [Dot (V 4) ''c'', V 5]) (K (JBool True))))] [], Ret (V 4)],
    fn ''eHd'' 1 4 [Do (SetV 1 (New ''EB'' [])), Do (SetV 4 (New ''Yob'' [Meth (Dot (V 0) ''b'') ''Jc'' []])), Loop (Meth (Dot (V 4) ''b'') ''Ob'' []) [Do (SetV 3 (Call ''JD'' [Meth (Dot (V 4) ''b'') ''Pb'' [], K (JNum 690)])), Do (SetV 2 (Call ''cEd'' [V 3])), Do (Call ''CB'' [V 1, Dot (Dot (V 1) ''a'') ''length'', V 2])] [], Ret (Dot (V 1) ''a'')],
    fn ''oHd'' 3 2 [Do (Put (V 0) ''j'' (Bin Minus (Dot (V 0) ''j'') (K (JNum (- 1))))), When (Meth (V 2) ''dc'' []) [Ret (K (JBool False))] [Do (SetV 4 (Meth (V 2) ''Jc'' [])), Loop (Meth (V 4) ''Ob'' []) [Do (SetV 3 (Meth (V 4) ''Pb'' [])), Do (Meth (V 0) ''oj'' [V 1, Meth (V 0) ''Xi'' [V 1, V 3]]), Do (SetV 1 (Bin Minus (V 1) (K (JNum (- 1)))))] [], Ret (K (JBool True))]],
    fn ''vJd'' 2 2 [When (Neg (V 1)) [Ret (K (JBool False))] [Do (SetV 2 (K (JNum 0))), Loop (Bin Lt (V 2) (Dot (V 0) ''i'')) [Do (SetV 3 (Call ''JD'' [Idx (Dot (V 0) ''g'') (V 2), K (JNum 373)])), When (Meth (V 3) ''kj'' [V 1]) [Ret (K (JBool False))] []] [Do (SetV 2 (Bin Minus (V 2) (K (JNum (- 1)))))], Ret (Call ''lFd'' [V 0, V 1])]],
    fn ''OWd'' 2 3 [Do (SetV 2 (Seq (And (Loose (Dot (V 0) ''i'') (K JNull)) (Call ''EWd'' [V 0])) (Dot (V 0) ''i''))), Do (SetV 3 (Meth (V 1) ''Jj'' [])), When (Neg (Loose (V 3) (K (JNum (- 1))))) [Do (SetV 4 (Dot (V 2) ''length'')), Loop (Bin Lt (V 3) (V 4)) [When (Loose (Idx (V 2) (V 3)) (V 1)) [Ret (V 3)] []] [Do (SetV 3 (Bin Minus (V 3) (K (JNum (- 1)))))]] [], Ret (K (JNum (- 1)))],
    fn ''eZd'' 1 5 [Do (SetV 2 (Call ''JD'' [Dot (V 0) ''g'', K (JNum 679)])), Do (SetV 3 (Bin Minus (Dot (V 0) ''i'') (K (JNum 1)))), Loop (Bin Ge (V 3) (K (JNum 0))) [Do (SetV 1 (Idx (V 2) (V 3))), Do (SetV 4 (K (JNum 0))), Loop (Bin Lt (V 4) (V 3)) [Do (SetV 5 (Idx (V 2) (V 4))), When (Call ''fZd'' [V 0, V 1, V 5]) [Do (Call ''iGd'' [V 0, V 3]), Break] []] [Do (SetV 4 (Bin Minus (V 4) (K (JNum (- 1)))))]] [Do (SetV 3 (Bin Minus (V 3) (K (JNum 1))))]],
    fn ''KBd'' 2 4 [When (V 1) [Do (SetV 4 (Call ''RAd'' [V 1, K (JStr ''x'')])), Do (SetV 2 (New ''HDd'' [V 0])), Do (Call ''ixd'' [Dot (V 2) ''a'', Seq (Call ''NDb'' [V 4]) (V 4)]), Do (SetV 5 (Call ''RAd'' [V 1, K (JStr ''y'')])), Do (SetV 3 (New ''NDd'' [V 0])), Do (Call ''jxd'' [Dot (V 3) ''a'', Seq (Call ''NDb'' [V 5]) (V 5)])] []],
    fn ''VBd'' 2 4 [When (V 1) [Do (SetV 4 (Call ''RAd'' [V 1, K (JStr ''x'')])), Do (SetV 2 (New ''RDd'' [V 0])), Do (Call ''bxd'' [Dot (V 2) ''a'', Seq (Call ''NDb'' [V 4]) (V 4)]), Do (SetV 5 (Call ''RAd'' [V 1, K (JStr ''y'')])), Do (SetV 3 (New ''TDd'' [V 0])), Do (Call ''cxd'' [Dot (V 3) ''a'', Seq (Call ''NDb'' [V 5]) (V 5)])] []],
    fn ''iCb'' 2 1 [Do (SetV 2 (Call ''JD'' [Call ''SBb'' [V 0, Call ''BAb'' [New ''TAb'' [], New ''RAb'' [], New ''ZAb'' [], Call ''WC'' [Call ''OC'' [G ''HL'', K (JNum 1)], G ''xue'', K (JNum 130), K (JNum 0), NewArr [Seq (Call ''FAb'' []) (G ''DAb'')]]]], K (JNum 16)])), Ret (Meth (V 2) ''Oc'' [Call ''KYc'' [Meth (V 2) ''gc'' []]])],
    fn ''yLb'' 1 1 [Do (And (Neg (Dot (V 0) ''c'')) (Put (V 0) ''c'' (New ''pLb'' []))), Do (Call ''jmb'' [Dot (V 0) ''d'', New ''FLb'' []]), Do (Call ''vLb'' [V 0]), Do (SetV 1 (Call ''oLb'' [V 0])), Do (Call ''YBb'' [New ''jCb'' [K JNull, New ''Zvb'' [Dot (V 0) ''d'', K (JNum 16)]], New ''YLb'' [V 0]]), Ret (V 1)],
    fn ''u0b'' 2 0 [Do (Meth (V 1) ''Tg'' [K (JStr ''End label post-processing''), K (JNum 1)]), Do (Call ''YBb'' [Call ''VBb'' [Call ''XBb'' [New ''jCb'' [K JNull, New ''Zvb'' [Dot (V 0) ''b'', K (JNum 16)]], New ''z0b'' []], New ''B0b'' []], New ''D0b'' []]), Do (Meth (V 1) ''Ug'' [])],
    fn ''JYb'' 2 0 [Switch (Dot (V 1) ''g'') [(Some (JNum 1), [Ret (Call ''Zq'' [Dot (V 0) ''j'', Seq (Call ''qZb'' []) (G ''lZb'')])]), (Some (JNum 2), [Ret (Call ''Zq'' [Dot (V 0) ''j'', Seq (Call ''qZb'' []) (G ''nZb'')])]), (None, [Ret (Seq (Seq (Call ''Inb'' []) (Call ''Inb'' [])) (G ''Fnb''))])]],
    fn ''Wvd'' 2 0 [Switch (V 1) [(Some (JNum 3), [Do (Call ''Yvd'' [V 0, K (JNum 0)]), Ret (K JUndef)]), (Some (JNum 4), [Do (Call ''$vd'' [V 0, K (JNum 0)]), Ret (K JUndef)]), (Some (JNum 5), [Do (Call ''_vd'' [V 0, K (JNum 0)]), Ret (K JUndef)]), (Some (JNum 6), [Do (Call ''awd'' [V 0, K (JNum 0)]), Ret (K JUndef)])], Do (Call ''Fvd'' [V 0, V 1])],
    fn ''YTc'' 2 2 [Do (SetV 3 (New ''Hzb'' [Meth (Dot (V 0) ''a'') ''$c'' [V 1, K (JBool True)]])), When (Bin Le (Meth (Dot (V 3) ''a'') ''gc'' []) (K (JNum 1))) [Raise (Call ''Lcb'' [New ''Xfb'' []])] [], Do (SetV 2 (Meth (Meth (Dot (V 3) ''a'') ''ec'' []) ''Jc'' [])), Do (Meth (V 2) ''Pb'' []), Ret (Call ''JD'' [Meth (V 2) ''Pb'' [], K (JNum 40)])],
    fn ''WMc'' 3 2 [Do (SetV 3 (Bin Plus (Bin Plus (Bin Plus (Call ''Ueb'' [Idx (Dot (V 0) ''p'') (Dot (Dot (V 1) ''i'') ''p'')]) (Call ''Ueb'' [Idx (Dot (V 0) ''d'') (Dot (Dot (V 1) ''i'') ''p'')])) (Dot (Dot (V 1) ''n'') ''b'')) (Dot (Dot (V 1) ''a'') ''b''))), Do (SetV 4 (Bin Plus (Bin Plus (Bin Plus (Call ''Ueb'' [Idx (Dot (V 0) ''p'') (Dot (Dot (V 2) ''i'') ''p'')]) (Call ''Ueb'' [Idx (Dot (V 0) ''d'') (Dot (Dot (V 2) ''i'') ''p'')])) (Dot (Dot (V 2) ''n'') ''b'')) (Dot (Dot (V 2) ''a'') ''b''))), Ret (Bin Minus (V 4) (V 3))],
    fn ''mGd'' 2 1 [When (Bin Gt (Dot (V 0) ''i'') (K (JNum 0))) [When (Bin Lt (Dot (V 1) ''length'') (Dot (V 0) ''i'')) [Do (SetV 2 (Call ''ZKd'' [Dot (Call ''rb'' [V 1]) ''c'', Dot (V 0) ''i''])), Do (SetV 1 (V 2))] [], Do (Call ''rhb'' [Dot (V 0) ''g'', K (JNum 0), V 1, K (JNum 0), Dot (V 0) ''i''])] [], Do (And (Bin Gt (Dot (V 1) ''length'') (Dot (V 0) ''i'')) (Call ''VC'' [V 1, Dot (V 0) ''i'', K JNull])), Ret (V 1)],
    fn ''ZVd'' 1 1 [When (Neg (Loose (Bin BitAnd (Dot (V 0) ''Db'') (K (JNum 64))) (K (JNum 0)))) [Ret (Call ''kyd'' [V 0])] [], Do (SetV 1 (New ''ahb'' [Call ''kyd'' [V 0]])), Do (Put (V 1) ''a'' (Bin Plus (Dot (V 1) ''a'') (K (JStr '' (instanceClassName: '')))), Do (Call ''Xgb'' [V 1, Dot (V 0) ''D'']), Do (Put (V 1) ''a'' (Bin Plus (Dot (V 1) ''a'') (K (JStr '')'')))), Ret (Dot (V 1) ''a'')],
    fn ''LQd'' 1 4 [Do (SetV 4 (K (JNum 0))), Do (Seq (SetV 2 (K (JNum 0))) (SetV 3 (Dot (V 0) ''length''))), Loop (Bin Lt (V 2) (V 3)) [Do (SetV 1 (Seq (Call ''UDb'' [V 2, Dot (V 0) ''length'']) (Meth (V 0) ''charCodeAt'' [V 2]))), Do (And (Bin Lt (V 1) (K (JNum 64))) (SetV 4 (Call ''_cb'' [V 4, Call ''adb'' [K (JNum 1), V 1]])))] [Do (Bin Minus (SetV 2 (Bin Minus (V 2) (K (JNum (- 1))))) (K (JNum 1)))], Ret (V 4)],
    fn ''fMd'' 2 3 [When (Bin Gt (Dot (V 0) ''f'') (K (JNum 0))) [Do (Meth (V 0) ''Zj'' []), Do (SetV 3 (Cond (Loose (V 1) (K JNull)) (K (JNum 0)) (Call ''tb'' [V 1]))), Do (SetV 4 (Bin Modulo (Bin BitAnd (V 3) (G ''Ate'')) (Dot (Dot (V 0) ''d'') ''length''))), Do (SetV 2 (Call ''mMd'' [V 0, V 4, V 3, V 1])), Ret (Neg (Loose (V 2) (K (JNum (- 1)))))] [Ret (K (JBool False))]],
    fn ''Cee'' 2 4 [Do (SetV 5 (Call ''Cie'' [Meth (Dot (V 0) ''e'') ''Ah'' [], V 1])), Do (SetV 2 (Call ''JD'' [Dot (V 0) ''g'', K (JNum 122)])), Do (SetV 4 (K (JNum 0))), Loop (Bin Lt (V 4) (Dot (V 0) ''i'')) [Do (SetV 3 (Idx (V 2) (V 4))), When (Meth (V 5) ''$l'' [Meth (V 3) ''Jk'' []]) [Ret (K (JBool False))] []] [Do (SetV 4 (Bin Minus (V 4) (K (JNum (- 1)))))], Ret (K (JBool True))],
    fn ''GA'' 4 2 [Do (SetV 5 (Bin Minus (V 2) (V 1))), When (Bin Lt (V 5) (K (JNum 3))) [Loop (Bin Lt (V 5) (K (JNum 3))) [Do (SetV 0 (Bin Times (V 0) (K (JNum 10)))), Do (SetV 5 (Bin Minus (V 5) (K (JNum (- 1)))))] []] [Do (SetV 4 (K (JNum 1))), Loop (Bin Gt (V 5) (K (JNum 3))) [Do (SetV 4 (Bin Times (V 4) (K (JNum 10)))), Do (SetV 5 (Bin Minus (V 5) (K (JNum 1))))] [], Do (SetV 0 (Bin DivInt (Bin Plus (V 0) (Bin Shr (V 4) (K (JNum 1)))) (V 4)))], Do (Put (V 3) ''i'' (V 0)), Ret (K (JBool True))],
    fn ''Pib'' 3 2 [Do (SetV 3 (Call ''Ncb'' [V 2, G ''Mve''])), Do (SetV 4 (K (JNum 0))), Loop (And (Neg (Loose (Call ''Ocb'' [V 3, K (JNum 0)]) (K (JNum 0)))) (Bin Lt (V 4) (V 1))) [Do (SetV 3 (Call ''Mcb'' [V 3, Call ''Ncb'' [Idx (V 0) (V 4), G ''Mve'']])), Do (PutIdx (V 0) (V 4) (Call ''gdb'' [V 3])), Do (SetV 3 (Call ''bdb'' [V 3, K (JNum 32)]))] [Do (Bin Minus (SetV 4 (Bin Minus (V 4) (K (JNum (- 1))))) (K (JNum 1)))], Ret (Call ''gdb'' [V 3])],
    fn ''QA'' 2 2 [Do (Call ''OA'' []), Do (SetV 2 (Call ''TA'' [Seq (Seq (Call ''SA'' []) (Call ''SA'' [])) (G ''RA'')])), Do (SetV 3 (K JNull)), Do (And (Loose (V 1) (V 2)) (SetV 3 (Call ''JD'' [Call ''fjb'' [G ''NA'', V 0], K (JNum 616)]))), When (Neg (V 3)) [Do (SetV 3 (New ''PA'' [V 0])), Do (And (Loose (V 1) (V 2)) (Call ''ijb'' [G ''NA'', V 0, V 3]))] [], Ret (V 3)],
    fn ''vKb'' 1 1 [Do (Call ''uKb'' []), Do (SetV 1 (New ''mgd'' [Call ''JD'' [Meth (Dot (V 0) ''e'') ''mf'' [Seq (Call ''vjd'' []) (G ''lid'')], K (JNum 8)]])), When (Meth (Dot (V 0) ''B'') ''Gc'' [Seq (Call ''xnd'' []) (G ''qnd'')]) [Do (And (Bin Le (Dot (V 1) ''a'') (K (JNum 0))) (Put (V 1) ''a'' (K (JNum 20)))), Do (And (Bin Le (Dot (V 1) ''b'') (K (JNum 0))) (Put (V 1) ''b'' (K (JNum 20))))] [], Ret (V 1)],
    fn ''ycd'' 1 0 [Do (Call ''vcd'' []), When (Meth (Call ''JD'' [Meth (V 0) ''mf'' [Seq (Call ''vjd'' []) (G ''nid'')], K (JNum 182)]) ''Gc'' [Seq (Call ''xnd'' []) (G ''vnd'')]) [Do (Meth (Call ''JD'' [Meth (V 0) ''mf'' [G ''Jid''], K (JNum 182)]) ''Ec'' [Seq (Call ''$ld'' []) (G ''Zld'')]), Do (Meth (Call ''JD'' [Meth (V 0) ''mf'' [G ''nid''], K (JNum 182)]) ''Kc'' [G ''vnd''])] []],
    fn ''b7b'' 1 2 [Do (SetV 1 (Loose (Dot (V 0) ''d'') (Seq (Call ''Fnc'' []) (G ''Anc'')))), Do (SetV 2 (Call ''Z6b'' [V 0])), Do (Cond (Or (And (V 1) (Neg (V 2))) (And (Neg (V 1)) (V 2))) (Call ''rNb'' [Dot (V 0) ''a'', Seq (Call ''nyc'' []) (G ''tvc''), Seq (Call ''Lgd'' []) (G ''Jgd'')]) (Call ''rNb'' [Dot (V 0) ''a'', Seq (Call ''nyc'' []) (G ''tvc''), Seq (Call ''Lgd'' []) (G ''Igd'')]))],
    fn ''k1b'' 1 4 [Do (SetV 3 (Call ''f1b'' [V 0])), Do (Call ''jmb'' [V 3, G ''d1b'']), Do (SetV 4 (Dot (V 0) ''d'')), Do (Put (Dot (V 4) ''c'') ''length'' (K (JNum 0))), Do (SetV 2 (New ''Kmb'' [V 3])), Loop (Bin Lt (Dot (V 2) ''a'') (Dot (Dot (Dot (V 2) ''c'') ''c'') ''length'')) [Do (SetV 1 (Call ''JD'' [Call ''Imb'' [V 2], K (JNum 455)])), Do (Call ''bmb'' [V 4, Dot (V 1) ''b''])] []],
    fn ''HJd'' 3 3 [When (Meth (V 0) ''Nj'' []) [Do (SetV 3 (Dot (V 0) ''i'')), Do (SetV 5 (Meth (V 0) ''Oj'' [])), Do (Call ''_Fd'' [V 0, V 3, V 1]), Do (SetV 4 (Meth (V 0) ''Gj'' [K (JNum 3), K JNull, V 1, V 3, V 5])), Do (Cond (Neg (V 2)) (SetV 2 (V 4)) (Meth (V 2) ''lj'' [V 4]))] [Do (Call ''_Fd'' [V 0, Dot (V 0) ''i'', V 1])], Ret (V 2)],
    fn ''sYd'' 3 2 [Do (SetV 3 (New ''a2d'' [Dot (V 0) ''e'', K (JNum 4), K (JNum 10), Seq (SetV 4 (Dot (V 1) ''c'')) (Cond (Call ''RD'' [V 4, K (JNum 88)]) (Call ''JD'' [V 4, K (JNum 29)]) (Seq (Call ''WRd'' []) (G ''MRd''))), K JNull, Call ''sXd'' [V 0, V 1], K (JBool False)])), Do (Cond (Neg (V 2)) (SetV 2 (V 3)) (Meth (V 2) ''lj'' [V 3])), Ret (V 2)],
    fn ''rYd'' 3 2 [Do (SetV 3 (New ''a2d'' [Dot (V 0) ''e'', K (JNum 3), K (JNum 10), K JNull, Seq (SetV 4 (Dot (V 1) ''c'')) (Cond (Call ''RD'' [V 4, K (JNum 88)]) (Call ''JD'' [V 4, K (JNum 29)]) (Seq (Call ''WRd'' []) (G ''MRd''))), Call ''sXd'' [V 0, V 1], K (JBool False)])), Do (Cond (Neg (V 2)) (SetV 2 (V 3)) (Meth (V 2) ''lj'' [V 3])), Ret (V 2)],
    fn ''pMd'' 2 3 [When (Bin Gt (Dot (V 0) ''f'') (K (JNum 0))) [Do (Meth (V 0) ''Zj'' []), Do (SetV 3 (Cond (Loose (V 1) (K JNull)) (K (JNum 0)) (Call ''tb'' [V 1]))), Do (SetV 4 (Bin Modulo (Bin BitAnd (V 3) (G ''Ate'')) (Dot (Dot (V 0) ''d'') ''length''))), Do (SetV 2 (Call ''lMd'' [V 0, V 4, V 3, V 1])), When (V 2) [Ret (Meth (V 2) ''kd'' [])] []] [], Ret (K JNull)],
    fn ''Xe'' 2 3 [When (Call ''RD'' [V 1, K (JNum 45)]) [Do (SetV 2 (Call ''JD'' [V 1, K (JNum 45)])), Do (SetV 3 (Meth (V 2) ''jd'' [])), Do (SetV 4 (Call ''Ov'' [Meth (V 0) ''Pc'' [], V 3])), Ret (And (Call ''Hb'' [V 4, Meth (V 2) ''kd'' []]) (Or (Neg (Loose (V 4) (K JNull))) (Meth (Meth (V 0) ''Pc'' []) ''_b'' [V 3])))] [], Ret (K (JBool False))],
    fn ''tib'' 1 2 [Do (Call ''Zhb'' []), Do (SetV 2 (Call ''gdb'' [V 0])), Do (SetV 1 (Call ''gdb'' [Call ''cdb'' [V 0, K (JNum 32)]])), When (Neg (Loose (V 1) (K (JNum 0)))) [Ret (New ''lib'' [V 2, V 1])] [], When (Or (Bin Gt (V 2) (K (JNum 10))) (Bin Lt (V 2) (K (JNum 0)))) [Ret (New ''kib'' [K (JNum 1), V 2])] [], Ret (Idx (G ''Vhb'') (V 2))],
    fn ''ozc'' 1 1 [Do (Call ''lzc'' []), Do (Cond (Meth (Cond (Neg (Dot (V 0) ''q'')) (Seq (Seq (Call ''Inb'' []) (Call ''Inb'' [])) (G ''Gnb'')) (Dot (V 0) ''q'')) ''_b'' [Seq (Call ''nyc'' []) (G ''Ywc'')]) (SetV 1 (Call ''JD'' [Call ''oNb'' [V 0, G ''Ywc''], K (JNum 203)])) (SetV 1 (Call ''JD'' [Call ''oNb'' [Call ''DYb'' [V 0], G ''Zwc''], K (JNum 203)]))), Ret (V 1)],
    fn ''Fyc'' 0 0 [Do (SetG ''Fyc'' (G ''qdb'')), Do (Call ''vyc'' []), Do (SetG ''Dyc'' (Seq (Call ''nyc'' []) (G ''Sxc''))), Do (SetG ''Eyc'' (Call ''Wu'' [Call ''WC'' [Call ''OC'' [G ''e5'', K (JNum 1)], G ''iCe'', K (JNum 147), K (JNum 0), NewArr [G ''Hxc'', G ''Ixc'', G ''Kxc'', G ''Lxc'', G ''Oxc'', G ''Pxc'', G ''Qxc'', G ''Rxc'', G ''Uxc'', G ''Wxc'', G ''Jxc'', G ''Mxc'', G ''Txc'']]]))],
    fn ''_Hb'' 3 0 [Do (Call ''PHb'' []), Do (Super ''KHb'' []), Do (Put This ''a'' (Call ''QC'' [G ''gN'', NewArr [G ''aue'', G ''Swe''], NewArr [K (JNum 593), K (JNum 216)], K (JNum 0), NewArr [G ''OHb'', G ''NHb''], K (JNum 2)])), Do (Put This ''c'' (New ''Ofd'' [])), Do (Put This ''g'' (V 0)), Do (Put This ''f'' (V 1)), Do (Put This ''d'' (V 2))],
    fn ''AIc'' 1 0 [Do (Put This ''e'' (Call ''SC'' [G ''cE'', G ''bve'', K (JNum 30), Dot (V 0) ''length'', K (JNum 15), K (JNum 1)])), Do (Put This ''c'' (Call ''SC'' [G ''Icb'', G ''Nwe'', K (JNum 30), Dot (V 0) ''length'', K (JNum 16), K (JNum 1)])), Do (Put This ''b'' (Call ''SC'' [G ''Icb'', G ''Nwe'', K (JNum 30), Dot (V 0) ''length'', K (JNum 16), K (JNum 1)])), Do (Put This ''f'' (K (JNum 0)))],
    fn ''tEc'' 1 2 [Do (Put (V 0) ''j'' (Call ''SC'' [G ''aE'', G ''Jve'', K (JNum 30), Dot (Dot (Dot (V 0) ''p'') ''c'') ''length'', K (JNum 15), K (JNum 1)])), Do (SetV 2 (New ''Kmb'' [Dot (V 0) ''p''])), Loop (Bin Lt (Dot (V 2) ''a'') (Dot (Dot (Dot (V 2) ''c'') ''c'') ''length'')) [Do (SetV 1 (Call ''JD'' [Call ''Imb'' [V 2], K (JNum 9)])), Do (PutIdx (Dot (V 0) ''j'') (Dot (V 1) ''p'') (Bin Divide (Dot (Dot (V 1) ''o'') ''b'') (Dot (V 0) ''i'')))] []],
    fn ''Vqb'' 2 2 [Do (Put (V 0) ''a'' (Call ''Mcb'' [Dot (V 0) ''a'', K (JNum 1)])), Do (Put (V 0) ''c'' (Meth (Dot (G ''$wnd'') ''Math'') ''min'' [Dot (V 0) ''c'', V 1])), Do (Put (V 0) ''b'' (Meth (Dot (G ''$wnd'') ''Math'') ''max'' [Dot (V 0) ''b'', V 1])), Do (Put (V 0) ''d'' (Bin Plus (Dot (V 0) ''d'') (V 1))), Do (SetV 2 (Bin Minus (V 1) (Dot (V 0) ''f''))), Do (SetV 3 (Bin Plus (Dot (V 0) ''e'') (V 2))), Do (Put (V 0) ''f'' (Bin Minus (Bin Minus (V 3) (Dot (V 0) ''e'')) (V 2))), Do (Put (V 0) ''e'' (V 3))],
    fn ''Bqe'' 2 2 [Do (SetV 3 (Dot (V 1) ''length'')), Do (SetV 2 (K (JNum 0))), Loop (Bin Lt (V 2) (V 3)) [Do (Call ''Ere'' [V 0, Seq (Call ''UDb'' [V 2, Dot (V 1) ''length'']) (Meth (V 1) ''charCodeAt'' [V 2]), Seq (Call ''UDb'' [Bin Plus (V 2) (K (JNum 1)), Dot (V 1) ''length'']) (Meth (V 1) ''charCodeAt'' [Bin Plus (V 2) (K (JNum 1))])])] [Do (SetV 2 (Bin Plus (V 2) (K (JNum 2))))]],
    fn ''s2b'' 2 1 [Do (Call ''p2b'' [V 1]), Do (SetV 2 (Call ''JD'' [Call ''oNb'' [V 0, Seq (Call ''nyc'' []) (G ''hwc'')], K (JNum 284)])), Do (And (Neg (Neg (V 2))) (Call ''rNb'' [V 0, G ''hwc'', Call ''bpc'' [V 2]])), Do (Call ''q2b'' [Dot (V 0) ''c'']), Do (Call ''q2b'' [Dot (V 0) ''f'']), Do (Call ''r2b'' [Dot (V 0) ''d'']), Do (Call ''r2b'' [Call ''JD'' [Call ''oNb'' [V 0, G ''Swc''], K (JNum 213)]])],
    fn ''Xcb'' 2 1 [When (And (Call ''Vcb'' [V 0]) (Call ''Vcb'' [V 1])) [Do (SetV 2 (Bin Modulo (V 0) (V 1))), When (And (Bin Lt (G ''xve'') (V 2)) (Bin Lt (V 2) (G ''vve''))) [Ret (V 2)] []] [], Ret (Call ''Pcb'' [Seq (Call ''aD'' [Cond (Call ''Vcb'' [V 0]) (Call ''edb'' [V 0]) (V 0), Cond (Call ''Vcb'' [V 1]) (Call ''edb'' [V 1]) (V 1), K (JBool True)]) (G ''YC'')])],
    fn ''BKd'' 2 1 [Do (Meth (V 0) ''Vj'' []), Try [Do (Meth (Dot (V 0) ''d'') ''_c'' [Bin Minus (Put (V 0) ''e'' (Bin Minus (Dot (V 0) ''e'') (K (JNum (- 1))))) (K (JNum 1)), V 1]), Do (Put (V 0) ''f'' (Dot (Dot (V 0) ''d'') ''j'')), Do (Put (V 0) ''g'' (K (JNum (- 1))))] 2 [Do (SetV 2 (Call ''Kcb'' [V 2])), When (Call ''RD'' [V 2, K (JNum 99)]) [Raise (Call ''Lcb'' [New ''Rqb'' []])] [Raise (Call ''Lcb'' [V 2])]]],
    fn ''n6d'' 0 0 [Do (SetG ''n6d'' (G ''qdb'')), Do (SetG ''l6d'' (New ''o6d'' [])), Do (SetG ''e6d'' (New ''r6d'' [])), Do (SetG ''f6d'' (New ''u6d'' [])), Do (SetG ''g6d'' (New ''x6d'' [])), Do (SetG ''h6d'' (New ''A6d'' [])), Do (SetG ''i6d'' (New ''D6d'' [])), Do (SetG ''j6d'' (New ''G6d'' [])), Do (SetG ''k6d'' (New ''J6d'' [])), Do (SetG ''m6d'' (New ''M6d'' []))],
    fn ''Qmd'' 0 0 [Do (SetG ''Qmd'' (G ''qdb'')), Do (SetG ''Nmd'' (New ''hZb'' [K (JNum 15)])), Do (SetG ''Mmd'' (New ''FEd'' [Seq (Call ''vjd'' []) (G ''rid''), G ''Nmd''])), Do (SetG ''Pmd'' (New ''FEd'' [G ''djd'', K (JNum 15)])), Do (SetG ''Omd'' (New ''FEd'' [G ''Qid'', Call ''Cfb'' [K (JNum 0)]])), Do (SetG ''Lmd'' (New ''FEd'' [G ''xhd'', G ''Bxe'']))],
    fn ''Q2c'' 0 0 [Do (SetG ''Q2c'' (G ''qdb'')), Do (SetG ''N2c'' (New ''R2c'' [K (JStr ''P1_WIDTH_APPROXIMATION''), K (JNum 0)])), Do (SetG ''O2c'' (New ''R2c'' [K (JStr ''P2_PACKING''), K (JNum 1)])), Do (SetG ''P2c'' (New ''R2c'' [K (JStr ''P3_WHITESPACE_ELIMINATION''), K (JNum 2)]))],
    fn ''ind'' 0 0 [Do (SetG ''ind'' (G ''qdb'')), Do (SetG ''gnd'' (New ''jnd'' [K (JStr ''PORTS''), K (JNum 0)])), Do (SetG ''hnd'' (New ''jnd'' [K (JStr ''PORT_LABELS''), K (JNum 1)])), Do (SetG ''fnd'' (New ''jnd'' [K (JStr ''NODE_LABELS''), K (JNum 2)])), Do (SetG ''end'' (New ''jnd'' [K (JStr ''MINIMUM_SIZE''), K (JNum 3)]))],
    fn ''q3c'' 2 0 [Do (Meth (V 1) ''Tg'' [K (JStr ''Min Size Postprocessing''), K (JNum 1)]), Do (Call ''evd'' [V 0, Seq (Call ''P3c'' []) (G ''O3c''), Meth (Dot (G ''$wnd'') ''Math'') ''max'' [Call ''Ueb'' [Call ''MD'' [Call ''cvd'' [V 0, G ''O3c'']]], Call ''Ueb'' [Call ''MD'' [Call ''cvd'' [V 0, G ''M3c'']]]]]), Do (Meth (V 1) ''Ug'' [])],
    fn ''lie'' 1 0 [When (Loose (Dot (V 0) ''b'') (K JNull)) [Loop (Meth (Dot (V 0) ''a'') ''Ob'' []) [Do (Put (V 0) ''b'' (Meth (Dot (V 0) ''a'') ''Pb'' [])), When (Neg (Meth (Call ''JD'' [Dot (V 0) ''b'', K (JNum 52)]) ''Gh'' [])) [Ret (K (JBool True))] []] [], Do (Put (V 0) ''b'' (K JNull)), Ret (K (JBool False))] [Ret (K (JBool True))]],
    fn ''YAc'' 2 2 [Do (SetV 3 (K JNull)), When (Call ''pNb'' [V 0, Seq (Call ''nyc'' []) (G ''Nxc'')]) [Do (SetV 2 (Call ''JD'' [Call ''oNb'' [V 0, G ''Nxc''], K (JNum 105)])), Do (And (Meth (V 2) ''nf'' [V 1]) (SetV 3 (Meth (V 2) ''mf'' [V 1])))] [], Do (And (Loose (V 3) (K JNull)) (SetV 3 (Call ''oNb'' [Call ''DYb'' [V 0], V 1]))), Ret (V 3)],
    fn ''Aib'' 2 4 [Do (SetV 2 (Bin Shr (V 1) (K (JNum 5)))), Do (SetV 1 (Bin BitAnd (V 1) (K (JNum 31)))), Do (SetV 4 (Bin Plus (Bin Plus (Dot (V 0) ''d'') (V 2)) (Cond (Loose (V 1) (K (JNum 0))) (K (JNum 0)) (K (JNum 1))))), Do (SetV 3 (Call ''SC'' [G ''cE'', G ''bve'', K (JNum 30), V 4, K (JNum 15), K (JNum 1)])), Do (Call ''Bib'' [V 3, Dot (V 0) ''a'', V 2, V 1]), Do (SetV 5 (New ''mib'' [Dot (V 0) ''e'', V 4, V 3])), Do (Call ''_hb'' [V 5]), Ret (V 5)],
    fn ''uYc'' 2 4 [Do (SetV 5 (Dot (Dot (V 1) ''b'') ''b'')), Do (Put (V 0) ''a'' (New ''dub'' [])), Do (Put (V 0) ''b'' (Call ''SC'' [G ''cE'', G ''bve'', K (JNum 30), V 5, K (JNum 15), K (JNum 1)])), Do (SetV 2 (K (JNum 0))), Do (SetV 4 (Call ''Ztb'' [Dot (V 1) ''b'', K (JNum 0)])), Loop (Neg (Loose (Dot (V 4) ''b'') (Dot (Dot (V 4) ''d'') ''c''))) [Do (SetV 3 (Call ''JD'' [Call ''lub'' [V 4], K (JNum 40)])), Do (Put (V 3) ''g'' (Bin Minus (SetV 2 (Bin Minus (V 2) (K (JNum (- 1))))) (K (JNum 1))))] []]]"

definition code_4477_4485 :: "(string \<times> jfun) list" where
  "code_4477_4485 = [
    fn ''b7c'' 3 4 [Do (SetV 5 (Bin Minus (V 1) (Dot (V 0) ''e''))), Do (SetV 6 (Bin Minus (V 2) (Dot (V 0) ''f''))), Do (SetV 4 (New ''Kmb'' [Dot (V 0) ''a''])), Loop (Bin Lt (Dot (V 4) ''a'') (Dot (Dot (Dot (V 4) ''c'') ''c'') ''length'')) [Do (SetV 3 (Call ''JD'' [Call ''Imb'' [V 4], K (JNum 173)])), Do (Call ''Q6c'' [V 3, Bin Plus (Dot (V 3) ''s'') (V 5), Bin Plus (Dot (V 3) ''t'') (V 6)])] [], Do (Put (V 0) ''e'' (V 1)), Do (Put (V 0) ''f'' (V 2))],
    fn ''QAc'' 3 5 [Do (SetV 6 (Dot (V 0) ''k'')), Do (SetV 7 (Dot (V 1) ''k'')), Do (SetV 3 (Idx (Idx (V 2) (Dot (V 6) ''g'')) (Dot (V 7) ''g''))), Do (SetV 4 (Call ''MD'' [Call ''YAc'' [V 0, V 3]])), Do (SetV 5 (Call ''MD'' [Call ''YAc'' [V 1, V 3]])), Ret (Meth (Dot (G ''$wnd'') ''Math'') ''max'' [Seq (Call ''NDb'' [V 4]) (V 4), Seq (Call ''NDb'' [V 5]) (V 5)])],
    fn ''yre'' 3 2 [Do (SetV 3 (Call ''JD'' [Call ''fjb'' [G ''Jqe'', V 1], K (JNum 121)])), Do (SetV 4 (Call ''JD'' [Call ''fjb'' [G ''Kqe'', V 1], K (JNum 121)])), When (V 2) [Do (Call ''ijb'' [G ''Jqe'', V 0, V 3]), Do (Call ''ijb'' [G ''Kqe'', V 0, V 4])] [Do (Call ''ijb'' [G ''Kqe'', V 0, V 3]), Do (Call ''ijb'' [G ''Jqe'', V 0, V 4])]],
    fn ''Wxb'' 3 3 [Do (SetV 4 (K JNull)), Do (SetV 5 (Dot (V 0) ''b'')), Loop (V 5) [Do (SetV 3 (Meth (Dot (V 0) ''a'') ''Le'' [V 1, Dot (V 5) ''d''])), When (And (V 2) (Loose (V 3) (K (JNum 0)))) [Ret (V 5)] [], When (Bin Ge (V 3) (K (JNum 0))) [Do (SetV 5 (Idx (Dot (V 5) ''a'') (K (JNum 1))))] [Do (SetV 4 (V 5)), Do (SetV 5 (Idx (Dot (V 5) ''a'') (K (JNum 0))))]] [], Ret (V 4)],
    fn ''Xxb'' 3 3 [Do (SetV 4 (K JNull)), Do (SetV 5 (Dot (V 0) ''b'')), Loop (V 5) [Do (SetV 3 (Meth (Dot (V 0) ''a'') ''Le'' [V 1, Dot (V 5) ''d''])), When (And (V 2) (Loose (V 3) (K (JNum 0)))) [Ret (V 5)] [], When (Bin Le (V 3) (K (JNum 0))) [Do (SetV 5 (Idx (Dot (V 5) ''a'') (K (JNum 0))))] [Do (SetV 4 (V 5)), Do (SetV 5 (Idx (Dot (V 5) ''a'') (K (JNum 1))))]] [], Ret (V 4)],
    fn ''blc'' 3 4 [Do (SetV 4 (Call ''JD'' [Call ''ejb'' [Dot (V 0) ''b'', V 2], K (JNum 171)])), Do (SetV 3 (K (JNum 0))), Do (SetV 6 (New ''Kmb'' [Dot (V 1) ''j''])), Loop (Bin Lt (Dot (V 6) ''a'') (Dot (Dot (Dot (V 6) ''c'') ''c'') ''length'')) [Do (SetV 5 (Call ''JD'' [Call ''Imb'' [V 6], K (JNum 113)])), Do (And (Idx (V 4) (Dot (Dot (V 5) ''d'') ''p'')) (SetV 3 (Bin Minus (V 3) (K (JNum (- 1))))))] [], Ret (V 3)],
    fn ''Cgc'' 4 3 [Do (SetV 4 (K (JBool False))), When (Call ''Wgc'' [Dot (V 0) ''f'', V 2, V 3]) [Do (Call ''Zgc'' [Dot (V 0) ''f'', Idx (Idx (Dot (V 0) ''a'') (V 1)) (V 2), Idx (Idx (Dot (V 0) ''a'') (V 1)) (V 3)]), Do (SetV 5 (Idx (Dot (V 0) ''a'') (V 1))), Do (SetV 6 (Idx (V 5) (V 3))), Do (PutIdx (V 5) (V 3) (Idx (V 5) (V 2))), Do (PutIdx (V 5) (V 2) (V 6)), Do (SetV 4 (K (JBool True)))] [], Ret (V 4)],
    fn ''TCc'' 2 3 [Do (SetV 3 (New ''Yr'' [Call ''Dr'' [Meth (Dot (Call ''HYb'' [V 0]) ''a'') ''Jc'' [], New ''Dl'' []]])), Loop (Call ''Wr'' [V 3]) [Do (SetV 2 (Call ''JD'' [Call ''Xr'' [V 3], K (JNum 17)])), Do (SetV 4 (Dot (Dot (V 2) ''d'') ''i'')), When (Loose (Dot (V 4) ''c'') (V 1)) [Ret (K (JBool False))] []] [], Ret (K (JBool True))],
    fn ''j7b'' 1 1 [Do (SetV 1 (Dot (V 0) ''a'')), Loop (K (JBool True)) [Do (SetV 1 (Dot (Dot (Call ''JD'' [Call ''Xr'' [New ''Yr'' [Call ''Dr'' [Meth (Dot (Call ''HYb'' [V 1]) ''a'') ''Jc'' [], New ''Dl'' []]]], K (JNum 17)]) ''d'') ''i'')), Do (And (Loose (Dot (V 1) ''k'') (Seq (Call ''$Yb'' []) (G ''VYb''))) (Call ''_lb'' [Dot (V 0) ''e'', V 1]))] [When (Loose (Dot (V 1) ''k'') (Seq (Call ''$Yb'' []) (G ''VYb''))) [] [Break]]]]"

definition code_4487_4499 :: "(string \<times> jfun) list" where
  "code_4487_4499 = [
    fn ''ngc'' 1 1 [When (Loose (Dot (V 0) ''c'') (K (JNum 0))) [Ret (K JUndef)] [], Do (SetV 1 (Call ''JD'' [Call ''dmb'' [Dot (V 0) ''a'', Dot (V 0) ''b''], K (JNum 295)])), Do (Cond (Loose (Dot (V 1) ''b'') (K (JNum 1))) (Seq (Put (V 0) ''b'' (Bin Minus (Dot (V 0) ''b'') (K (JNum (- 1))))) (And (Bin Lt (Dot (V 0) ''b'') (Dot (Dot (Dot (V 0) ''a'') ''c'') ''length'')) (Call ''rgc'' [Call ''JD'' [Call ''dmb'' [Dot (V 0) ''a'', Dot (V 0) ''b''], K (JNum 295)]]))) (Put (V 1) ''b'' (Bin Minus (Dot (V 1) ''b'') (K (JNum 1))))), Do (Put (V 0) ''c'' (Bin Minus (Dot (V 0) ''c'') (K (JNum 1))))],
    fn ''Oeb'' 2 2 [Do (SetV 2 (K (JNum 0))), Loop (Or (Neg (Idx (V 1) (V 2))) (Loose (Idx (V 1) (V 2)) (K (JStr '''')))) [Do (Bin Minus (SetV 2 (Bin Minus (V 2) (K (JNum (- 1))))) (K (JNum 1)))] [], Do (SetV 3 (Idx (V 1) (Bin Minus (SetV 2 (Bin Minus (V 2) (K (JNum (- 1))))) (K (JNum 1))))), Loop (Bin Lt (V 2) (Dot (V 1) ''length'')) [When (Or (Neg (Idx (V 1) (V 2))) (Loose (Idx (V 1) (V 2)) (K (JStr '''')))) [Continue] [], Do (SetV 3 (Bin Plus (V 3) (Bin Plus (V 0) (Idx (V 1) (V 2)))))] [Do (Bin Minus (SetV 2 (Bin Minus (V 2) (K (JNum (- 1))))) (K (JNum 1)))], Ret (V 3)],
    fn ''bLd'' 1 2 [Do (SetV 1 (Call ''JD'' [Call ''uud'' [Dot (V 0) ''a'', K (JNum 4)], K (JNum 129)])), When (Neg (Loose (V 1) (K JNull))) [Do (SetV 2 (Call ''SC'' [G ''o5'', G ''THe'', K (JNum 415), Dot (V 1) ''length'', K (JNum 0), K (JNum 1)])), Do (Call ''rhb'' [V 1, K (JNum 0), V 2, K (JNum 0), Dot (V 1) ''length'']), Ret (V 2)] [Ret (G ''$Kd'')]],
    fn ''xle'' 1 5 [When (Loose (V 0) (K JNull)) [Ret (K JNull)] [], Do (SetV 5 (New ''lmb'' [])), Do (Seq (Seq (SetV 2 (Call ''Txd'' [V 0])) (SetV 3 (K (JNum 0)))) (SetV 4 (Dot (V 2) ''length''))), Loop (Bin Lt (V 3) (V 4)) [Do (SetV 1 (Idx (V 2) (V 3))), Do (Call ''_lb'' [V 5, Call ''Ase'' [V 1, K (JBool True)]])] [Do (SetV 3 (Bin Minus (V 3) (K (JNum (- 1)))))], Ret (V 5)],
    fn ''Ale'' 1 5 [When (Loose (V 0) (K JNull)) [Ret (K JNull)] [], Do (SetV 5 (New ''lmb'' [])), Do (Seq (Seq (SetV 2 (Call ''Txd'' [V 0])) (SetV 3 (K (JNum 0)))) (SetV 4 (Dot (V 2) ''length''))), Loop (Bin Lt (V 3) (V 4)) [Do (SetV 1 (Idx (V 2) (V 3))), Do (Call ''_lb'' [V 5, Call ''Ase'' [V 1, K (JBool True)]])] [Do (SetV 3 (Bin Minus (V 3) (K (JNum (- 1)))))], Ret (V 5)],
    fn ''Ble'' 1 5 [When (Loose (V 0) (K JNull)) [Ret (K JNull)] [], Do (SetV 5 (New ''lmb'' [])), Do (Seq (Seq (SetV 2 (Call ''Txd'' [V 0])) (SetV 3 (K (JNum 0)))) (SetV 4 (Dot (V 2) ''length''))), Loop (Bin Lt (V 3) (V 4)) [Do (SetV 1 (Idx (V 2) (V 3))), Do (Call ''_lb'' [V 5, Call ''Ase'' [V 1, K (JBool True)]])] [Do (SetV 3 (Bin Minus (V 3) (K (JNum (- 1)))))], Ret (V 5)],
    fn ''Sgb'' 3 4 [Do (SetV 5 (Bin Plus (V 1) (V 2))), Do (Call ''TDb'' [V 1, V 5, Dot (V 0) ''length'']), Do (SetV 6 (K (JStr ''''))), Do (SetV 4 (V 1)), Loop (Bin Lt (V 4) (V 5)) [Do (SetV 3 (Meth (Dot (G ''$wnd'') ''Math'') ''min'' [Bin Plus (V 4) (K (JNum 10000)), V 5])), Do (SetV 6 (Bin Plus (V 6) (Call ''Ogb'' [Meth (V 0) ''slice'' [V 4, V 3]]))), Do (SetV 4 (V 3))] [], Ret (V 6)],
    fn ''LEb'' 2 0 [Ret (Seq (Seq (Seq (Call ''Sy'' []) (Call ''Sy'' [])) (Call ''Wy'' [G ''Due''])) (Bin Gt (Cond (Or (Or (Bin Le (Meth (Dot (G ''$wnd'') ''Math'') ''abs'' [Bin Minus (V 0) (V 1)]) (G ''Due'')) (Loose (V 0) (V 1))) (And (Call ''isNaN'' [V 0]) (Call ''isNaN'' [V 1]))) (K (JNum 0)) (Cond (Bin Lt (V 0) (V 1)) (K (JNum (- 1))) (Cond (Bin Gt (V 0) (V 1)) (K (JNum 1)) (Call ''Udb'' [Call ''isNaN'' [V 0], Call ''isNaN'' [V 1]])))) (K (JNum 0))))],
    fn ''NEb'' 2 0 [Ret (Seq (Seq (Seq (Call ''Sy'' []) (Call ''Sy'' [])) (Call ''Wy'' [G ''Due''])) (Bin Lt (Cond (Or (Or (Bin Le (Meth (Dot (G ''$wnd'') ''Math'') ''abs'' [Bin Minus (V 0) (V 1)]) (G ''Due'')) (Loose (V 0) (V 1))) (And (Call ''isNaN'' [V 0]) (Call ''isNaN'' [V 1]))) (K (JNum 0)) (Cond (Bin Lt (V 0) (V 1)) (K (JNum (- 1))) (Cond (Bin Gt (V 0) (V 1)) (K (JNum 1)) (Call ''Udb'' [Call ''isNaN'' [V 0], Call ''isNaN'' [V 1]])))) (K (JNum 0))))],
    fn ''MEb'' 2 0 [Ret (Seq (Seq (Seq (Call ''Sy'' []) (Call ''Sy'' [])) (Call ''Wy'' [G ''Due''])) (Bin Le (Cond (Or (Or (Bin Le (Meth (Dot (G ''$wnd'') ''Math'') ''abs'' [Bin Minus (V 0) (V 1)]) (G ''Due'')) (Loose (V 0) (V 1))) (And (Call ''isNaN'' [V 0]) (Call ''isNaN'' [V 1]))) (K (JNum 0)) (Cond (Bin Lt (V 0) (V 1)) (K (JNum (- 1))) (Cond (Bin Gt (V 0) (V 1)) (K (JNum 1)) (Call ''Udb'' [Call ''isNaN'' [V 0], Call ''isNaN'' [V 1]])))) (K (JNum 0))))],
    fn ''OJb'' 1 0 [Switch (Dot (V 0) ''g'') [(Some (JNum 12), []), (Some (JNum 13), []), (Some (JNum 14), []), (Some (JNum 15), []), (Some (JNum 16), []), (Some (JNum 17), []), (Some (JNum 18), []), (Some (JNum 19), []), (Some (JNum 20), [Ret (K (JBool True))]), (None, [Ret (K (JBool False))])]],
    fn ''_zc'' 0 0 [Do (SetG ''_zc'' (G ''qdb'')), Do (SetG ''Yzc'' (New ''aAc'' [G ''qye'', K (JNum 0)])), Do (SetG ''Xzc'' (New ''aAc'' [K (JStr ''NODES_AND_EDGES''), K (JNum 1)])), Do (SetG ''Zzc'' (New ''aAc'' [K (JStr ''PREFER_EDGES''), K (JNum 2)])), Do (SetG ''$zc'' (New ''aAc'' [K (JStr ''PREFER_NODES''), K (JNum 3)]))],
    fn ''i7c'' 6 0 [Do (Put This ''a'' (V 0)), Do (Put This ''c'' (V 1)), Do (Put This ''b'' (V 2)), Do (Put This ''f'' (V 3)), Do (Put This ''d'' (V 4)), Do (Put This ''e'' (V 5)), Do (And (And (Bin Gt (Dot This ''c'') (K (JNum 0))) (Bin Gt (Dot This ''b'') (K (JNum 0)))) (Put This ''g'' (Call ''w7c'' [Dot This ''c'', Dot This ''b'', Dot This ''a''])))]]"

definition code_4502_4516 :: "(string \<times> jfun) list" where
  "code_4502_4516 = [
    fn ''bpe'' 1 2 [Do (SetV 2 (Call ''cpe'' [V 0])), Do (SetV 1 (K JNull)), Loop (Loose (Dot (V 0) ''c'') (K (JNum 2))) [Do (Call ''Zoe'' [V 0]), When (Neg (V 1)) [Do (SetV 1 (Seq (Seq (Seq (Call ''gre'' []) (Call ''gre'' [])) (SetG ''fre'' (Bin Minus (G ''fre'') (K (JNum (- 1)))))) (New ''vse'' [K (JNum 2)]))), Do (Call ''use'' [V 1, V 2]), Do (SetV 2 (V 1))] [], Do (Meth (V 2) ''Hm'' [Call ''cpe'' [V 0]])] [], Ret (V 2)],
    fn ''AMd'' 2 3 [Do (Meth (V 0) ''Zj'' []), Do (SetV 3 (Cond (Loose (V 1) (K JNull)) (K (JNum 0)) (Call ''tb'' [V 1]))), Do (SetV 4 (Bin Modulo (Bin BitAnd (V 3) (G ''Ate'')) (Dot (Dot (V 0) ''d'') ''length''))), Do (SetV 2 (Call ''lMd'' [V 0, V 4, V 3, V 1])), When (V 2) [Do (Call ''yMd'' [V 0, V 2]), Ret (Meth (V 2) ''kd'' [])] [Ret (K JNull)]],
    fn ''$hb'' 2 0 [When (Bin Gt (Dot (V 0) ''e'') (Dot (V 1) ''e'')) [Ret (K (JNum 1))] [], When (Bin Lt (Dot (V 0) ''e'') (Dot (V 1) ''e'')) [Ret (K (JNum (- 1)))] [], When (Bin Gt (Dot (V 0) ''d'') (Dot (V 1) ''d'')) [Ret (Dot (V 0) ''e'')] [], When (Bin Lt (Dot (V 0) ''d'') (Dot (V 1) ''d'')) [Ret (Minus1 (Dot (V 1) ''e''))] [], Ret (Bin Times (Dot (V 0) ''e'') (Call ''Oib'' [Dot (V 0) ''a'', Dot (V 1) ''a'', Dot (V 0) ''d'']))],
    fn ''neb'' 1 0 [When (And (Bin Ge (V 0) (K (JNum 48))) (Bin Lt (V 0) (Bin Plus (K (JNum 48)) (Meth (Dot (G ''$wnd'') ''Math'') ''min'' [K (JNum 10), K (JNum 10)])))) [Ret (Bin Minus (V 0) (K (JNum 48)))] [], When (And (Bin Ge (V 0) (K (JNum 97))) (Bin Lt (V 0) (K (JNum 97)))) [Ret (Bin Plus (Bin Minus (V 0) (K (JNum 97))) (K (JNum 10)))] [], When (And (Bin Ge (V 0) (K (JNum 65))) (Bin Lt (V 0) (K (JNum 65)))) [Ret (Bin Plus (Bin Minus (V 0) (K (JNum 65))) (K (JNum 10)))] [], Ret (K (JNum (- 1)))],
    fn ''mEc'' 2 0 [When (Loose (Dot (V 1) ''c'') (V 0)) [Ret (Dot (V 1) ''d'')] [When (Loose (Dot (V 1) ''d'') (V 0)) [Ret (Dot (V 1) ''c'')] []], Raise (Call ''Lcb'' [New ''kfb'' [K (JStr ''Input edge is not connected to the input port.'')]])],
    fn ''hcd'' 2 0 [When (Bin Lt (Dot (V 0) ''a'') (K (JNum 0))) [Raise (Call ''Lcb'' [New ''nfb'' [K (JStr ''Did not call before(...) or after(...) before calling add(...).'')]])] [], Do (Call ''ocd'' [V 0, Dot (V 0) ''a'', V 1]), Ret (V 0)],
    fn ''Xod'' 2 3 [When (Dot (V 0) ''c'') [Do (Call ''Yvd'' [Dot (V 0) ''c'', V 1])] [Do (SetV 2 (Bin Minus (V 1) (Call ''Vod'' [V 0]))), Do (SetV 4 (New ''Kmb'' [Dot (V 0) ''a''])), Loop (Bin Lt (Dot (V 4) ''a'') (Dot (Dot (Dot (V 4) ''c'') ''c'') ''length'')) [Do (SetV 3 (Call ''JD'' [Call ''Imb'' [V 4], K (JNum 167)])), Do (Call ''Xod'' [V 3, Bin Plus (Call ''Vod'' [V 3]) (V 2)])] []]],
    fn ''Yod'' 2 3 [When (Dot (V 0) ''c'') [Do (Call ''$vd'' [Dot (V 0) ''c'', V 1])] [Do (SetV 2 (Bin Minus (V 1) (Call ''Wod'' [V 0]))), Do (SetV 4 (New ''Kmb'' [Dot (V 0) ''d''])), Loop (Bin Lt (Dot (V 4) ''a'') (Dot (Dot (Dot (V 4) ''c'') ''c'') ''length'')) [Do (SetV 3 (Call ''JD'' [Call ''Imb'' [V 4], K (JNum 167)])), Do (Call ''Yod'' [V 3, Bin Plus (Call ''Wod'' [V 3]) (V 2)])] []]],
    fn ''WGd'' 1 0 [Do (Call ''VGd'' []), When (Call ''RD'' [V 0, K (JNum 166)]) [Ret (Meth (Call ''JD'' [Call ''ejb'' [G ''TGd'', G ''qK''], K (JNum 296)]) ''Qg'' [V 0])] [], When (Call ''cjb'' [G ''TGd'', Call ''rb'' [V 0]]) [Ret (Meth (Call ''JD'' [Call ''ejb'' [G ''TGd'', Call ''rb'' [V 0]], K (JNum 296)]) ''Qg'' [V 0])] [], Ret (K JNull)],
    fn ''sud'' 1 2 [When (Loose (Bin BitAnd (Dot (V 0) ''Db'') (K (JNum 32))) (K (JNum 0))) [Do (SetV 2 (Seq (SetV 1 (Call ''JD'' [Call ''uud'' [V 0, K (JNum 16)], K (JNum 29)])) (Bin Minus (Call ''NWd'' [Cond (Neg (V 1)) (Meth (V 0) ''fi'' []) (V 1)]) (Call ''NWd'' [Meth (V 0) ''fi'' []])))), Do (And (Neg (Loose (V 2) (K (JNum 0)))) (Call ''wud'' [V 0, K (JNum 32), Call ''SC'' [G ''aJ'', G ''Gte'', K (JNum 1), V 2, K (JNum 5), K (JNum 1)]]))] [], Ret (V 0)],
    fn ''wud'' 3 1 [When (Neg (Loose (Bin BitAnd (Dot (V 0) ''Db'') (V 1)) (K (JNum 0)))) [When (Loose (V 2) (K JNull)) [Do (Call ''vud'' [V 0, V 1])] [Do (SetV 3 (Call ''tud'' [V 0, V 1])), Do (Cond (Loose (V 3) (K (JNum (- 1)))) (Put (V 0) ''Eb'' (V 2)) (Call ''VC'' [Call ''KD'' [Dot (V 0) ''Eb''], V 3, V 2]))]] [Do (And (Neg (Loose (V 2) (K JNull))) (Call ''pud'' [V 0, V 1, V 2]))]],
    fn ''cQc'' 4 2 [When (Loose (Dot (Dot (V 1) ''c'') ''length'') (K (JNum 0))) [Ret (K JUndef)] [], Do (SetV 4 (Call ''$Pc'' [V 2, V 3])), Do (SetV 5 (Call ''ZPc'' [V 1])), Do (Call ''YBb'' [Call ''gCb'' [New ''jCb'' [K JNull, New ''Zvb'' [V 5, K (JNum 1)]], New ''lQc'' []], New ''pQc'' [V 0, V 2, V 4, V 3]])],
    fn ''Blb'' 2 4 [Do (SetV 3 (Bin Minus (Dot (Dot (V 0) ''a'') ''length'') (K (JNum 1)))), Do (SetV 2 (Bin BitAnd (Bin Minus (V 1) (Dot (V 0) ''b'')) (V 3))), Do (SetV 5 (Bin BitAnd (Bin Minus (Dot (V 0) ''c'') (V 1)) (V 3))), Do (SetV 4 (Bin BitAnd (Bin Minus (Dot (V 0) ''c'') (Dot (V 0) ''b'')) (V 3))), Do (Call ''Jlb'' [Bin Lt (V 2) (V 4)]), When (Bin Ge (V 2) (V 5)) [Do (Call ''Elb'' [V 0, V 1]), Ret (K (JNum (- 1)))] [Do (Call ''Flb'' [V 0, V 1]), Ret (K (JNum 1))]],
    fn ''tA'' 2 2 [Do (SetV 2 (Seq (Call ''UDb'' [V 1, Dot (V 0) ''length'']) (Meth (V 0) ''charCodeAt'' [V 1]))), Do (SetV 3 (Bin Plus (V 1) (K (JNum 1)))), Loop (And (Bin Lt (V 3) (Dot (V 0) ''length'')) (Seq (Call ''UDb'' [V 3, Dot (V 0) ''length'']) (Loose (Meth (V 0) ''charCodeAt'' [V 3]) (V 2)))) [Do (SetV 3 (Bin Minus (V 3) (K (JNum (- 1)))))] [], Ret (Bin Minus (V 3) (V 1))],
    fn ''wm'' 1 2 [Do (SetV 2 (Meth (V 0) ''Nc'' [])), Switch (Dot (V 2) ''length'') [(Some (JNum 0), [Ret (Seq (Call ''Dx'' []) (G ''Cx''))]), (Some (JNum 1), [Do (SetV 1 (Idx (V 2) (K (JNum 0)))), Ret (New ''vy'' [Call ''Qb'' [V 1]])]), (None, [Ret (New ''Ex'' [Call ''Fm'' [V 2]])])]]]"

definition code_4518_4529 :: "(string \<times> jfun) list" where
  "code_4518_4529 = [
    fn ''S8d'' 1 0 [When (Call ''wgb'' [G ''JEe'', V 0]) [Ret (Seq (Call ''Qdb'' []) (G ''Pdb''))] [When (Call ''wgb'' [G ''KEe'', V 0]) [Ret (Seq (Call ''Qdb'' []) (G ''Odb''))] [Raise (Call ''Lcb'' [New ''kfb'' [K (JStr ''Expecting true or false'')]])]]],
    fn ''VJc'' 2 0 [When (Bin Lt (Dot (V 0) ''e'') (Dot (V 1) ''e'')) [Ret (K (JNum (- 1)))] [When (Bin Gt (Dot (V 0) ''e'') (Dot (V 1) ''e'')) [Ret (K (JNum 1))] [When (Bin Lt (Dot (V 0) ''f'') (Dot (V 1) ''f'')) [Ret (K (JNum (- 1)))] [When (Bin Gt (Dot (V 0) ''f'') (Dot (V 1) ''f'')) [Ret (K (JNum 1))] []]]], Ret (Bin Minus (Call ''tb'' [V 0]) (Call ''tb'' [V 1]))],
    fn ''Se'' 2 1 [When (Same (Call ''XD'' [V 1]) (Call ''XD'' [V 0])) [Ret (K (JBool True))] [], When (Neg (Call ''RD'' [V 1, K (JNum 22)])) [Ret (K (JBool False))] [], Do (SetV 2 (Call ''JD'' [V 1, K (JNum 22)])), When (Neg (Loose (Meth (V 2) ''gc'' []) (Meth (V 0) ''gc'' []))) [Ret (K (JBool False))] [], Ret (Meth (V 0) ''Hc'' [V 2])],
    fn ''wgb'' 2 0 [Do (Call ''NDb'' [V 0]), When (Loose (V 1) (K JNull)) [Ret (K (JBool False))] [], When (Call ''vgb'' [V 0, V 1]) [Ret (K (JBool True))] [], Ret (And (Loose (Dot (V 0) ''length'') (Dot (V 1) ''length'')) (Call ''vgb'' [Meth (V 0) ''toLowerCase'' [], Meth (V 1) ''toLowerCase'' []]))],
    fn ''Rfb'' 1 2 [When (And (Bin Gt (Call ''Ocb'' [V 0, K (JNum (- 129))]) (K (JNum 0))) (Bin Lt (Call ''Ocb'' [V 0, K (JNum 128)]) (K (JNum 0)))) [Ret (Seq (Seq (Seq (Seq (Call ''Tfb'' []) (SetV 1 (Bin Plus (Call ''gdb'' [V 0]) (K (JNum 128))))) (SetV 2 (Idx (G ''Sfb'') (V 1)))) (And (Neg (V 2)) (SetV 2 (PutIdx (G ''Sfb'') (V 1) (New ''Jfb'' [V 0]))))) (V 2))] [], Ret (New ''Jfb'' [V 0])],
    fn ''vhc'' 1 2 [Do (SetV 2 (New ''Kmb'' [Dot (Dot (V 0) ''a'') ''b''])), Loop (Bin Lt (Dot (V 2) ''a'') (Dot (Dot (Dot (V 2) ''c'') ''c'') ''length'')) [Do (SetV 1 (Call ''JD'' [Call ''Imb'' [V 2], K (JNum 70)])), When (Call ''Rdb'' [Call ''LD'' [Call ''oNb'' [V 1, Seq (Call ''nyc'' []) (G ''fwc'')]]]) [Ret (K (JBool True))] []] [], Ret (K (JBool False))],
    fn ''Hde'' 1 1 [Do (Or (Dot (V 0) ''b'') (Call ''Ide'' [V 0, Seq (SetV 1 (Call ''Uce'' [Dot (V 0) ''e'', Dot (V 0) ''a''])) (Or (Neg (V 1)) (Neg (Call ''vgb'' [G ''KEe'', Call ''pMd'' [Seq (And (Neg (Dot (V 1) ''b'')) (Put (V 1) ''b'' (New ''dUd'' [Seq (Call ''WRd'' []) (G ''SRd''), G ''N7'', V 1]))) (Dot (V 1) ''b''), K (JStr ''qualified'')]])))])), Ret (Dot (V 0) ''c'')],
    fn ''yUb'' 0 0 [Do (SetG ''yUb'' (G ''qdb'')), Do (SetG ''xUb'' (New ''zUb'' [G ''qye'', K (JNum 0)])), Do (SetG ''vUb'' (New ''zUb'' [K (JStr ''INSIDE_PORT_SIDE_GROUPS''), K (JNum 1)])), Do (SetG ''uUb'' (New ''zUb'' [K (JStr ''GROUP_MODEL_ORDER''), K (JNum 2)])), Do (SetG ''wUb'' (New ''zUb'' [G ''rye'', K (JNum 3)]))],
    fn ''dtd'' 1 3 [Do (SetV 3 (Meth (V 0) ''Gh'' [])), When (Neg (V 3)) [Do (SetV 1 (K (JNum 0))), Do (SetV 2 (Meth (V 0) ''Mh'' [])), Loop (V 2) [When (Bin Gt (SetV 1 (Bin Minus (V 1) (K (JNum (- 1))))) (G ''Kve'')) [Ret (Meth (V 2) ''Nh'' [])] [], Do (SetV 3 (Meth (V 2) ''Gh'' [])), When (Or (Neg (Neg (V 3))) (Loose (V 2) (V 0))) [Break] []] [Do (SetV 2 (Meth (V 2) ''Mh'' []))]] [], Ret (V 3)],
    fn ''Q2d'' 3 3 [Do (SetV 3 (Call ''JD'' [Call ''fGd'' [Call ''B2d'' [Dot (V 0) ''a''], V 1], K (JNum 87)])), Do (SetV 5 (Seq (SetV 4 (Dot (V 3) ''c'')) (Cond (V 4) (V 4) (Seq (Call ''WRd'' []) (G ''JRd''))))), Do (Cond (Loose (Cond (Meth (V 5) ''Sh'' []) (Call ''rtd'' [Dot (V 0) ''b'', Call ''JD'' [V 5, K (JNum 52)]]) (V 5)) (V 2)) (Call ''v0d'' [V 3]) (Call ''y0d'' [V 3, V 2])), Ret (V 5)],
    fn ''vad'' 3 3 [Do (SetV 5 (New ''Kmb'' [Dot (V 2) ''a''])), Loop (Bin Lt (Dot (V 5) ''a'') (Dot (Dot (Dot (V 5) ''c'') ''c'') ''length'')) [Do (SetV 4 (Call ''JD'' [Call ''Imb'' [V 5], K (JNum 225)])), Do (SetV 3 (New ''rEb'' [Call ''JD'' [Call ''ejb'' [Dot (V 0) ''a'', Dot (V 4) ''b''], K (JNum 68)]])), Do (Call ''_lb'' [Dot (V 1) ''a'', V 3]), Do (Call ''vad'' [V 0, V 3, V 4])] []],
    fn ''GFc'' 3 3 [Do (SetV 3 (Dot (Dot (V 1) ''c'') ''p'')), Do (SetV 5 (Dot (V 1) ''p'')), Do (PutIdx (Idx (Dot (V 0) ''b'') (V 3)) (V 5) (New ''SFc'' [V 0, V 1])), When (V 2) [Do (PutIdx (Idx (Dot (V 0) ''a'') (V 3)) (V 5) (New ''xFc'' [V 1])), Do (SetV 4 (Call ''JD'' [Call ''oNb'' [V 1, Seq (Call ''Wrc'' []) (G ''grc'')], K (JNum 9)])), Do (And (Neg (Neg (V 4))) (Call ''Rc'' [Dot (V 0) ''d'', V 4, V 1]))] []]]"

definition code_4531_4544 :: "(string \<times> jfun) list" where
  "code_4531_4544 = [
    fn ''gMb'' 4 0 [Do (Cond (Loose (V 3) (V 0)) (Seq (Seq (Seq (Call ''JD'' [Dot (V 2) ''b'', K (JNum 68)]) (Call ''JD'' [Dot (V 2) ''b'', K (JNum 68)])) (Call ''JD'' [Dot (V 3) ''b'', K (JNum 68)])) (Dot (Dot (Call ''JD'' [Dot (V 3) ''b'', K (JNum 68)]) ''c'') ''b'')) (Seq (Seq (Seq (Call ''JD'' [Dot (V 2) ''b'', K (JNum 68)]) (Call ''JD'' [Dot (V 2) ''b'', K (JNum 68)])) (Call ''JD'' [Dot (V 3) ''b'', K (JNum 68)])) (Dot (Dot (Call ''JD'' [Dot (V 3) ''b'', K (JNum 68)]) ''c'') ''b''))), Do (Call ''dMb'' [V 3, V 1, V 0])],
    fn ''skc'' 3 0 [Do (Put (V 1) ''b'' (Meth (Dot (G ''$wnd'') ''Math'') ''max'' [Dot (V 1) ''b'', Minus1 (Dot (V 2) ''a'')])), Do (Put (V 1) ''c'' (Meth (Dot (G ''$wnd'') ''Math'') ''max'' [Dot (V 1) ''c'', Bin Minus (Dot (V 2) ''a'') (Dot (V 0) ''a'')])), Do (Put (V 1) ''d'' (Meth (Dot (G ''$wnd'') ''Math'') ''max'' [Dot (V 1) ''d'', Minus1 (Dot (V 2) ''b'')])), Do (Put (V 1) ''a'' (Meth (Dot (G ''$wnd'') ''Math'') ''max'' [Dot (V 1) ''a'', Bin Minus (Dot (V 2) ''b'') (Dot (V 0) ''b'')]))],
    fn ''nRb'' 3 0 [Do (Put This ''c'' (V 0)), Do (Put This ''f'' (New ''lmb'' [])), Do (Put This ''e'' (New ''jgd'' [])), Do (Put This ''j'' (New ''oSb'' [])), Do (Put This ''n'' (New ''oSb'' [])), Do (Put This ''b'' (V 1)), Do (Put This ''g'' (New ''Pfd'' [Dot (V 1) ''c'', Dot (V 1) ''d'', Dot (V 1) ''b'', Dot (V 1) ''a''])), Do (Put This ''a'' (V 2))],
    fn ''ORb'' 1 4 [Do (Put This ''a'' (New ''Ptb'' [])), Do (Put This ''d'' (New ''hsb'' [])), Do (Put This ''e'' (K (JNum 0))), Do (Seq (Seq (SetV 2 (V 0)) (SetV 3 (K (JNum 0)))) (SetV 4 (Dot (V 2) ''length''))), Loop (Bin Lt (V 3) (V 4)) [Do (SetV 1 (Idx (V 2) (V 3))), Do (And (Neg (Dot This ''f'')) (Put This ''f'' (V 1))), Do (Call ''MRb'' [This, V 1])] [Do (SetV 3 (Bin Minus (V 3) (K (JNum (- 1)))))]],
    fn ''nib'' 1 0 [Do (Call ''Zhb'' []), When (Loose (Dot (V 0) ''length'') (K (JNum 0))) [Do (Put This ''e'' (K (JNum 0))), Do (Put This ''d'' (K (JNum 1))), Do (Put This ''a'' (Call ''WC'' [Call ''OC'' [G ''cE'', K (JNum 1)], G ''bve'', K (JNum 30), K (JNum 15), NewArr [K (JNum 0)]]))] [Do (Put This ''e'' (K (JNum 1))), Do (Put This ''d'' (Dot (V 0) ''length'')), Do (Put This ''a'' (V 0)), Do (Call ''_hb'' [This])]],
    fn ''IIb'' 3 0 [Do (Super ''KHb'' []), Do (Put This ''a'' (Call ''SC'' [G ''gN'', G ''Swe'', K (JNum 216), Dot (Seq (Call ''CHb'' []) (Call ''WC'' [Call ''OC'' [G ''hN'', K (JNum 1)], G ''xue'', K (JNum 237), K (JNum 0), NewArr [G ''zHb'', G ''AHb'', G ''BHb'']])) ''length'', K (JNum 0), K (JNum 1)])), Do (Put This ''b'' (V 0)), Do (Put This ''d'' (V 1)), Do (Put This ''c'' (V 2))],
    fn ''s9b'' 1 6 [Do (SetV 6 (Call ''JD'' [Call ''oNb'' [V 0, Seq (Call ''Wrc'' []) (G ''urc'')], K (JNum 12)])), Do (Call ''rNb'' [V 6, G ''Mrc'', Dot (Dot (Dot (V 0) ''i'') ''n'') ''b'']), Do (SetV 1 (Call ''ZXb'' [Dot (V 0) ''e''])), Do (Seq (Seq (SetV 3 (V 1)) (SetV 4 (K (JNum 0)))) (SetV 5 (Dot (V 3) ''length''))), Loop (Bin Lt (V 4) (V 5)) [Do (SetV 2 (Idx (V 3) (V 4))), Do (Call ''DWb'' [V 2, V 6])] [Do (SetV 4 (Bin Minus (V 4) (K (JNum (- 1)))))]],
    fn ''t9b'' 1 6 [Do (SetV 2 (Call ''JD'' [Call ''oNb'' [V 0, Seq (Call ''Wrc'' []) (G ''urc'')], K (JNum 12)])), Do (Call ''rNb'' [V 2, G ''Mrc'', Dot (Dot (Dot (V 0) ''i'') ''n'') ''b'']), Do (SetV 1 (Call ''ZXb'' [Dot (V 0) ''g''])), Do (Seq (Seq (SetV 4 (V 1)) (SetV 5 (K (JNum 0)))) (SetV 6 (Dot (V 4) ''length''))), Loop (Bin Lt (V 5) (V 6)) [Do (SetV 3 (Idx (V 4) (V 5))), Do (Call ''CWb'' [V 3, V 2])] [Do (SetV 5 (Bin Minus (V 5) (K (JNum (- 1)))))]],
    fn ''ONc'' 2 2 [Do (Call ''FNc'' []), Do (SetV 3 (New ''Yr'' [Call ''Dr'' [Meth (Dot (Call ''BYb'' [V 0]) ''a'') ''Jc'' [], New ''Dl'' []]])), Loop (Call ''Wr'' [V 3]) [Do (SetV 2 (Call ''JD'' [Call ''Xr'' [V 3], K (JNum 17)])), When (Or (Loose (Dot (Dot (V 2) ''d'') ''i'') (V 1)) (Loose (Dot (Dot (V 2) ''c'') ''i'') (V 1))) [Ret (V 2)] []] [], Ret (K JNull)],
    fn ''Nce'' 2 2 [Do (SetV 2 (Meth (V 1) ''ni'' [Dot (V 0) ''a''])), When (V 2) [Do (SetV 3 (Call ''OD'' [Call ''pMd'' [Seq (And (Neg (Dot (V 2) ''b'')) (Put (V 2) ''b'' (New ''dUd'' [Seq (Call ''WRd'' []) (G ''SRd''), G ''N7'', V 2]))) (Dot (V 2) ''b''), G ''RGe'']])), When (Neg (Loose (V 3) (K JNull))) [Ret (V 3)] []] [], Ret (Meth (V 1) ''ve'' [])],
    fn ''Mce'' 2 2 [Do (SetV 2 (Meth (V 1) ''ni'' [Dot (V 0) ''a''])), When (V 2) [Do (SetV 3 (Call ''OD'' [Call ''pMd'' [Seq (And (Neg (Dot (V 2) ''b'')) (Put (V 2) ''b'' (New ''dUd'' [Seq (Call ''WRd'' []) (G ''SRd''), G ''N7'', V 2]))) (Dot (V 2) ''b''), G ''RGe'']])), When (Neg (Loose (V 3) (K JNull))) [Ret (V 3)] []] [], Ret (Meth (V 1) ''ve'' [])],
    fn ''n1b'' 2 2 [Do (SetV 2 (Call ''rfb'' [Dot (Dot (Dot (V 0) ''a'') ''c'') ''p'', Dot (Dot (Dot (V 1) ''a'') ''c'') ''p''])), When (Neg (Loose (V 2) (K (JNum 0)))) [Ret (V 2)] [], Do (SetV 3 (Call ''rfb'' [Dot (Dot (Dot (Dot (V 0) ''a'') ''d'') ''i'') ''p'', Dot (Dot (Dot (Dot (V 1) ''a'') ''d'') ''i'') ''p''])), When (Neg (Loose (V 3) (K (JNum 0)))) [Ret (V 3)] [], Ret (Call ''rfb'' [Dot (Dot (Dot (V 1) ''a'') ''d'') ''p'', Dot (Dot (Dot (V 0) ''a'') ''d'') ''p''])],
    fn ''TEc'' 3 4 [Do (SetV 5 (Dot (V 1) ''j'')), Do (SetV 6 (Dot (V 2) ''j'')), When (Neg (Loose (V 5) (V 6))) [Ret (Bin Minus (Dot (V 5) ''g'') (Dot (V 6) ''g''))] [Do (SetV 3 (Idx (Dot (V 0) ''f'') (Dot (V 1) ''p''))), Do (SetV 4 (Idx (Dot (V 0) ''f'') (Dot (V 2) ''p''))), Ret (Cond (And (Loose (V 3) (K (JNum 0))) (Loose (V 4) (K (JNum 0)))) (K (JNum 0)) (Cond (Loose (V 3) (K (JNum 0))) (K (JNum (- 1))) (Cond (Loose (V 4) (K (JNum 0))) (K (JNum 1)) (Call ''$eb'' [V 3, V 4]))))]],
    fn ''hie'' 2 4 [Do (Seq (SetV 3 (K (JNum 0))) (SetV 4 (Meth (V 1) ''gc'' []))), Loop (Bin Lt (V 3) (V 4)) [Do (SetV 2 (Meth (V 1) ''Rl'' [V 3])), When (And (Call ''RD'' [V 2, K (JNum 103)]) (Neg (Loose (Bin BitAnd (Dot (Call ''JD'' [V 2, K (JNum 19)]) ''Bb'') (G ''$Fe'')) (K (JNum 0))))) [Do (SetV 5 (Meth (V 1) ''Sl'' [V 3])), Do (And (Neg (Loose (V 5) (K JNull))) (Call ''cie'' [V 0, Call ''JD'' [V 5, K (JNum 57)]]))] []] [Do (SetV 3 (Bin Minus (V 3) (K (JNum (- 1)))))]]]"

definition object_table12 :: "(string \<times> jfun) list" where
  "object_table12 = code_4406_4417 @ code_4420_4476 @ code_4477_4485 @ code_4487_4499 @ code_4502_4516 @ code_4518_4529 @ code_4531_4544"

text \<open>The names each table declares.\<close>

lemma names_4406_4417 [js_names]: "map fst code_4406_4417 = [
    ''sRb'', ''HDc'', ''nLc'', ''Obd'', ''aib'', ''Gmd'', ''Uvd'', ''S0c'', ''I0c'', ''h_c'',
    ''had'', ''$u'']"
  by (simp add: code_4406_4417_def fn_def)

lemma names_4420_4476 [js_names]: "map fst code_4420_4476 = [
    ''rAb'', ''zib'', ''uib'', ''K_b'', ''ye'', ''die'', ''eHd'', ''oHd'', ''vJd'', ''OWd'',
    ''eZd'', ''KBd'', ''VBd'', ''iCb'', ''yLb'', ''u0b'', ''JYb'', ''Wvd'', ''YTc'', ''WMc'',
    ''mGd'', ''ZVd'', ''LQd'', ''fMd'', ''Cee'', ''GA'', ''Pib'', ''QA'', ''vKb'', ''ycd'',
    ''b7b'', ''k1b'', ''HJd'', ''sYd'', ''rYd'', ''pMd'', ''Xe'', ''tib'', ''ozc'', ''Fyc'',
    ''_Hb'', ''AIc'', ''tEc'', ''Vqb'', ''Bqe'', ''s2b'', ''Xcb'', ''BKd'', ''n6d'', ''Qmd'',
    ''Q2c'', ''ind'', ''q3c'', ''lie'', ''YAc'', ''Aib'', ''uYc'']"
  by (simp add: code_4420_4476_def fn_def)

lemma names_4477_4485 [js_names]: "map fst code_4477_4485 = [
    ''b7c'', ''QAc'', ''yre'', ''Wxb'', ''Xxb'', ''blc'', ''Cgc'', ''TCc'', ''j7b'']"
  by (simp add: code_4477_4485_def fn_def)

lemma names_4487_4499 [js_names]: "map fst code_4487_4499 = [
    ''ngc'', ''Oeb'', ''bLd'', ''xle'', ''Ale'', ''Ble'', ''Sgb'', ''LEb'', ''NEb'', ''MEb'',
    ''OJb'', ''_zc'', ''i7c'']"
  by (simp add: code_4487_4499_def fn_def)

lemma names_4502_4516 [js_names]: "map fst code_4502_4516 = [
    ''bpe'', ''AMd'', ''$hb'', ''neb'', ''mEc'', ''hcd'', ''Xod'', ''Yod'', ''WGd'', ''sud'',
    ''wud'', ''cQc'', ''Blb'', ''tA'', ''wm'']"
  by (simp add: code_4502_4516_def fn_def)

lemma names_4518_4529 [js_names]: "map fst code_4518_4529 = [
    ''S8d'', ''VJc'', ''Se'', ''wgb'', ''Rfb'', ''vhc'', ''Hde'', ''yUb'', ''dtd'', ''Q2d'',
    ''vad'', ''GFc'']"
  by (simp add: code_4518_4529_def fn_def)

lemma names_4531_4544 [js_names]: "map fst code_4531_4544 = [
    ''gMb'', ''skc'', ''nRb'', ''ORb'', ''nib'', ''IIb'', ''s9b'', ''t9b'', ''ONc'', ''Nce'',
    ''Mce'', ''n1b'', ''TEc'', ''hie'']"
  by (simp add: code_4531_4544_def fn_def)

end
