(* ===== verification/ObjectTable13.thy ===== *)
theory ObjectTable13
  imports ObjectCode
begin

text \<open>
  Functions of \<open>layout-worker.js\<close>, lines 4546 to 4600, in the order of the file, one per line:
  operations of the runtime's collections, iterators and text buffers, accessors and small algorithms
  of the layout engine, with their loops, \<open>switch\<close> and \<open>try\<close> statements. An entry has the name, the
  number of parameters, the number of further local variables and the body; parameters and locals
  are numbered from 0, the variable of a \<open>catch\<close> has a number of its own, \<open>x++\<close> is \<open>(x=x+1)-1\<close>. Lines
  with a construct outside \<open>jexp\<close> and \<open>jstm\<close> (closures, \<open>in\<close>, floating-point literals, host objects) are
  left out.
\<close>

definition code_4546_4599 :: "(string \<times> jfun) list" where
  "code_4546_4599 = [
    fn ''tAb'' 3 1 [Do (And (Cond (G ''jAb'') (Seq (Call ''rAb'' [V 0]) (K (JBool True))) (Cond (G ''kAb'') (Seq (Call ''$zb'' []) (K (JBool True))) (Cond (G ''nAb'') (Seq (Call ''$zb'' []) (K (JBool True))) (And (G ''mAb'') (Seq (Call ''$zb'' []) (K (JBool False))))))) (Seq (Seq (Seq (SetV 3 (New ''iAb'' [V 1])) (Put (V 3) ''b'' (V 2))) (Call ''pAb'' [V 0, V 3])) (K JUndef)))],
    fn ''TKb'' 2 1 [Do (SetV 2 (Or (Neg (Meth (Dot (V 0) ''A'') ''Gc'' [Seq (Call ''ind'' []) (G ''hnd'')])) (Loose (Dot (V 0) ''q'') (Seq (Call ''Mld'' []) (G ''Hld''))))), Do (Cond (Meth (Dot (V 0) ''u'') ''Gc'' [Seq (Call ''$ld'' []) (G ''Wld'')]) (Cond (V 2) (Call ''RKb'' [V 0, V 1]) (Call ''VKb'' [V 0, V 1])) (And (Meth (Dot (V 0) ''u'') ''Gc'' [G ''Yld'']) (Cond (V 2) (Call ''SKb'' [V 0, V 1]) (Call ''WKb'' [V 0, V 1]))))],
    fn ''wbd'' 1 1 [When (Same (Call ''XD'' [Call ''cvd'' [V 0, Seq (Call ''vjd'' []) (G ''Rhd'')]]) (Call ''XD'' [Seq (Call ''Qkd'' []) (G ''Okd'')])) [When (Neg (Call ''Rzd'' [V 0])) [Do (Call ''evd'' [V 0, G ''Rhd'', G ''Pkd''])] [Do (SetV 1 (Call ''JD'' [Call ''cvd'' [Call ''Rzd'' [V 0], G ''Rhd''], K (JNum 347)])), Do (Call ''evd'' [V 0, G ''Rhd'', V 1])]] []],
    fn ''Zgc'' 3 2 [Do (Call ''kJc'' [Dot (V 0) ''e'', V 1, V 2, Seq (Call ''Bmd'' []) (G ''Amd'')]), Do (Call ''kJc'' [Dot (V 0) ''i'', V 1, V 2, G ''gmd'']), When (Dot (V 0) ''a'') [Do (SetV 4 (Call ''JD'' [Call ''oNb'' [V 1, Seq (Call ''Wrc'' []) (G ''urc'')], K (JNum 12)])), Do (SetV 3 (Call ''JD'' [Call ''oNb'' [V 2, G ''urc''], K (JNum 12)])), Do (Call ''lJc'' [Dot (V 0) ''g'', V 4, V 3])] []],
    fn ''MUb'' 3 0 [Ret (New ''Pfd'' [Bin Minus (Meth (Dot (G ''$wnd'') ''Math'') ''min'' [Dot (V 0) ''a'', Dot (V 1) ''a'']) (Bin Divide (V 2) (K (JNum 2))), Bin Minus (Meth (Dot (G ''$wnd'') ''Math'') ''min'' [Dot (V 0) ''b'', Dot (V 1) ''b'']) (Bin Divide (V 2) (K (JNum 2))), Bin Plus (Meth (Dot (G ''$wnd'') ''Math'') ''abs'' [Bin Minus (Dot (V 0) ''a'') (Dot (V 1) ''a'')]) (V 2), Bin Plus (Meth (Dot (G ''$wnd'') ''Math'') ''abs'' [Bin Minus (Dot (V 0) ''b'') (Dot (V 1) ''b'')]) (V 2)])],
    fn ''khc'' 1 1 [Do (Put This ''d'' (New ''lmb'' [])), Do (Put This ''j'' (New ''jgd'' [])), Do (Put This ''g'' (New ''jgd'' [])), Do (SetV 1 (Dot (Dot (V 0) ''g'') ''b'')), Do (Put This ''f'' (Call ''JD'' [Call ''oNb'' [Call ''DYb'' [V 1], Seq (Call ''nyc'' []) (G ''bwc'')], K (JNum 86)])), Do (Put This ''e'' (Call ''Ueb'' [Call ''MD'' [Call ''RXb'' [V 1, G ''Oxc'']]]))],
    fn ''Ahc'' 1 0 [Do (Put This ''d'' (New ''lmb'' [])), Do (Put This ''e'' (New ''otb'' [])), Do (Put This ''c'' (Call ''SC'' [G ''cE'', G ''bve'', K (JNum 30), Dot (Seq (Call ''Bmd'' []) (Call ''WC'' [Call ''OC'' [G ''M2'', K (JNum 1)], G ''sye'', K (JNum 64), K (JNum 0), NewArr [G ''zmd'', G ''hmd'', G ''gmd'', G ''ymd'', G ''Amd'']])) ''length'', K (JNum 15), K (JNum 1)])), Do (Put This ''b'' (V 0))],
    fn ''okc'' 3 1 [Do (SetV 3 (Idx (Idx (V 2) (Dot (V 0) ''g'')) (V 1))), Switch (Dot (V 0) ''g'') [(Some (JNum 1), []), (Some (JNum 3), [Ret (New ''lgd'' [K (JNum 0), V 3])]), (Some (JNum 2), []), (Some (JNum 4), [Ret (New ''lgd'' [V 3, K (JNum 0)])]), (None, [Ret (K JNull)])]],
    fn ''gBd'' 2 1 [Do (SetV 2 (Call ''uo'' [Dot (V 0) ''o'', V 1])), When (Loose (V 2) (K JNull)) [Raise (Call ''Lcb'' [New ''YAd'' [K (JStr ''Node did not exist in input.'')]])] [], Do (Call ''YBd'' [V 0, V 1]), Do (Call ''XBd'' [V 0, V 1]), Do (Call ''gCd'' [V 0, V 1, V 2]), Ret (K JNull)],
    fn ''vnb'' 2 2 [Do (SetV 3 (Dot (Dot (V 0) ''a'') ''length'')), Do (And (Bin Lt (Dot (V 1) ''length'') (V 3)) (SetV 1 (Call ''vDb'' [New ''Array'' [V 3], V 1]))), Do (SetV 2 (K (JNum 0))), Loop (Bin Lt (V 2) (V 3)) [Do (Call ''VC'' [V 1, V 2, Idx (Dot (V 0) ''a'') (V 2)])] [Do (SetV 2 (Bin Minus (V 2) (K (JNum (- 1)))))], Do (And (Bin Gt (Dot (V 1) ''length'') (V 3)) (Call ''VC'' [V 1, V 3, K JNull])), Ret (V 1)],
    fn ''kmb'' 2 2 [Do (SetV 3 (Dot (Dot (V 0) ''c'') ''length'')), Do (And (Bin Lt (Dot (V 1) ''length'') (V 3)) (SetV 1 (Call ''vDb'' [New ''Array'' [V 3], V 1]))), Do (SetV 2 (K (JNum 0))), Loop (Bin Lt (V 2) (V 3)) [Do (Call ''VC'' [V 1, V 2, Idx (Dot (V 0) ''c'') (V 2)])] [Do (SetV 2 (Bin Minus (V 2) (K (JNum (- 1)))))], Do (And (Bin Gt (Dot (V 1) ''length'') (V 3)) (Call ''VC'' [V 1, V 3, K JNull])), Ret (V 1)],
    fn ''FQd'' 4 1 [Do (SetV 4 (Dot (V 0) ''length'')), When (Bin Ge (V 1) (V 4)) [Ret (V 4)] [], Do (SetV 1 (Cond (Bin Gt (V 1) (K (JNum 0))) (V 1) (K (JNum 0)))), Loop (Bin Lt (V 1) (V 4)) [When (Call ''MQd'' [Seq (Call ''UDb'' [V 1, Dot (V 0) ''length'']) (Meth (V 0) ''charCodeAt'' [V 1]), V 2, V 3]) [Break] []] [Do (Bin Minus (SetV 1 (Bin Minus (V 1) (K (JNum (- 1))))) (K (JNum 1)))], Ret (V 1)],
    fn ''xbd'' 3 3 [Do (SetV 4 (Call ''JD'' [Call ''Nqd'' [Dot (V 1) ''f''], K (JNum 214)])), Try [Do (Meth (V 4) ''kf'' [V 0, V 2]), Do (Call ''Oqd'' [Dot (V 1) ''f'', V 4])] 5 [Do (SetV 5 (Call ''Kcb'' [V 5])), When (Call ''RD'' [V 5, K (JNum 101)]) [Do (SetV 3 (V 5)), Raise (Call ''Lcb'' [V 3])] [Raise (Call ''Lcb'' [V 5])]]],
    fn ''bCd'' 3 6 [Do (SetV 3 (K JNull)), Do (SetV 7 (Call ''sdd'' [Call ''vdd'' [], V 1])), Do (SetV 5 (K JNull)), When (V 7) [Do (SetV 4 (K JNull)), Do (SetV 8 (Call ''wed'' [V 7, V 2])), Do (SetV 6 (K JNull)), Do (And (Neg (Loose (V 8) (K JNull))) (SetV 6 (Meth (V 0) ''of'' [V 7, V 8]))), Do (SetV 4 (V 6)), Do (SetV 5 (V 4))] [], Do (SetV 3 (V 5)), Ret (V 3)],
    fn ''E3d'' 4 3 [Do (SetV 4 (New ''a2d'' [Dot (V 0) ''e'', K (JNum 1), K (JNum 13), Seq (SetV 6 (Dot (V 1) ''c'')) (Cond (V 6) (V 6) (Seq (Call ''WRd'' []) (G ''JRd''))), Seq (SetV 5 (Dot (V 2) ''c'')) (Cond (V 5) (V 5) (Seq (Call ''WRd'' []) (G ''JRd''))), Call ''sXd'' [V 0, V 1], K (JBool False)])), Do (Cond (Neg (V 3)) (SetV 3 (V 4)) (Meth (V 3) ''lj'' [V 4])), Ret (V 3)],
    fn ''zle'' 1 1 [When (Loose (V 0) (K JNull)) [Ret (K JNull)] [], Do (SetV 1 (Call ''Uoe'' [Call ''Ase'' [V 0, K (JBool True)]])), When (Loose (V 1) (K JNull)) [Raise (Call ''Lcb'' [New ''Zje'' [Bin Plus (Bin Plus (K (JStr (''Invalid hexBinary value: '' @ CHR 0x27 # ''''))) (V 0)) (K (JStr (CHR 0x27 # '''')))]])] [], Ret (V 1)],
    fn ''oA'' 3 1 [When (Bin Gt (Dot (Dot (V 1) ''a'') ''length'') (K (JNum 0))) [Do (Call ''_lb'' [Dot (V 0) ''b'', New ''cB'' [Dot (V 1) ''a'', V 2]]), Do (SetV 3 (Dot (Dot (V 1) ''a'') ''length'')), Do (Cond (Bin Lt (K (JNum 0)) (V 3)) (Put (V 1) ''a'' (Call ''Jgb'' [Dot (V 1) ''a'', K (JNum 0), K (JNum 0)])) (And (Bin Gt (K (JNum 0)) (V 3)) (Put (V 1) ''a'' (Bin Plus (Dot (V 1) ''a'') (Call ''Rgb'' [Call ''SC'' [G ''_D'', G ''Nue'', K (JNum 30), Minus1 (V 3), K (JNum 15), K (JNum 1)]])))))] []],
    fn ''cGb'' 3 3 [When (Idx (V 2) (Dot (V 1) ''d'')) [Ret (K JUndef)] [], Do (PutIdx (V 2) (Dot (V 1) ''d'') (K (JBool True))), Do (SetV 4 (New ''Kmb'' [Call ''gGb'' [V 1]])), Loop (Bin Lt (Dot (V 4) ''a'') (Dot (Dot (Dot (V 4) ''c'') ''c'') ''length'')) [Do (SetV 3 (Call ''JD'' [Call ''Imb'' [V 4], K (JNum 217)])), Do (SetV 5 (Call ''UFb'' [V 3, V 1])), Do (Call ''cGb'' [V 0, V 5, V 2])] []],
    fn ''Wmc'' 2 4 [Do (SetV 2 (K (JNum 0))), Do (SetV 4 (New ''Kmb'' [Dot (V 1) ''a''])), Loop (Bin Lt (Dot (V 4) ''a'') (Dot (Dot (Dot (V 4) ''c'') ''c'') ''length'')) [Do (SetV 3 (Call ''JD'' [Call ''Imb'' [V 4], K (JNum 9)])), Do (SetV 5 (Bin Plus (Bin Plus (Bin Plus (Dot (Dot (V 3) ''o'') ''a'') (Dot (Dot (V 3) ''d'') ''c'')) (Dot (Dot (V 3) ''d'') ''b'')) (Dot (V 0) ''j''))), Do (SetV 2 (Meth (Dot (G ''$wnd'') ''Math'') ''max'' [V 2, V 5]))] [], Ret (V 2)],
    fn ''ltb'' 3 3 [Do (SetV 4 (Call ''JD'' [Call ''ejb'' [Dot (V 0) ''e'', V 1], K (JNum 393)])), When (Neg (V 4)) [Do (SetV 3 (New ''Btb'' [V 0, V 1, V 2])), Do (Call ''hjb'' [Dot (V 0) ''e'', V 1, V 3]), Do (Call ''ytb'' [V 3]), Ret (K JNull)] [Do (SetV 5 (Call ''Akb'' [V 4, V 2])), Do (Call ''mtb'' [V 0, V 4]), Ret (V 5)]],
    fn ''hBd'' 2 1 [Do (SetV 2 (Call ''ejb'' [Dot (V 0) ''q'', V 1])), When (Loose (V 2) (K JNull)) [Raise (Call ''Lcb'' [New ''YAd'' [K (JStr ''Port did not exist in input.'')]])] [], Do (Call ''YBd'' [V 0, V 1]), Do (Call ''XBd'' [V 0, V 1]), Do (Call ''gCd'' [V 0, V 1, V 2]), Ret (K JNull)],
    fn ''SJb'' 0 0 [Do (Call ''MJb'' []), Ret (Call ''WC'' [Call ''OC'' [G ''vN'', K (JNum 1)], G ''xue'', K (JNum 168), K (JNum 0), NewArr [G ''JJb'', G ''IJb'', G ''KJb'', G ''AJb'', G ''zJb'', G ''BJb'', G ''EJb'', G ''DJb'', G ''CJb'', G ''HJb'', G ''GJb'', G ''FJb'', G ''xJb'', G ''wJb'', G ''yJb'', G ''uJb'', G ''tJb'', G ''vJb'', G ''rJb'', G ''qJb'', G ''sJb'', G ''LJb'']])],
    fn ''USc'' 1 0 [Switch (Dot (V 0) ''g'') [(Some (JNum 4), [Ret (New ''lgd'' [K (JNum 0), K (JNum (- 1))])]), (Some (JNum 1), [Ret (New ''lgd'' [K (JNum 1), K (JNum 0)])]), (Some (JNum 2), [Ret (New ''lgd'' [K (JNum (- 1)), K (JNum 0)])]), (None, [Ret (New ''lgd'' [K (JNum 0), K (JNum 1)])])]],
    fn ''LUb'' 1 0 [Switch (Dot (V 0) ''g'') [(Some (JNum 1), [Ret (Seq (Call ''Djd'' []) (G ''Cjd''))]), (Some (JNum 4), [Ret (Seq (Call ''Djd'' []) (G ''zjd''))]), (Some (JNum 2), [Ret (Seq (Call ''Djd'' []) (G ''Ajd''))]), (Some (JNum 3), [Ret (Seq (Call ''Djd'' []) (G ''yjd''))])], Ret (Seq (Call ''Djd'' []) (G ''Bjd''))],
    fn ''FYd'' 1 1 [Do (SetV 1 (Meth (V 0) ''fj'' [K JNull])), Switch (V 1) [(Some (JNum 10), [Ret (K (JNum 0))]), (Some (JNum 15), [Ret (K (JNum 1))]), (Some (JNum 14), [Ret (K (JNum 2))]), (Some (JNum 11), [Ret (K (JNum 3))]), (Some (JNum 21), [Ret (K (JNum 4))])], Ret (K (JNum (- 1)))],
    fn ''Ved'' 0 0 [Do (SetG ''Ved'' (G ''qdb'')), Do (SetG ''Ted'' (New ''Wed'' [K (JStr ''PARENTS''), K (JNum 0)])), Do (SetG ''Sed'' (New ''Wed'' [K (JStr ''NODES''), K (JNum 1)])), Do (SetG ''Qed'' (New ''Wed'' [K (JStr ''EDGES''), K (JNum 2)])), Do (SetG ''Ued'' (New ''Wed'' [K (JStr ''PORTS''), K (JNum 3)])), Do (SetG ''Red'' (New ''Wed'' [K (JStr ''LABELS''), K (JNum 4)]))],
    fn ''Ald'' 0 0 [Do (SetG ''Ald'' (G ''qdb'')), Do (SetG ''xld'' (New ''Bld'' [K (JStr ''DISTRIBUTED''), K (JNum 0)])), Do (SetG ''zld'' (New ''Bld'' [K (JStr ''JUSTIFIED''), K (JNum 1)])), Do (SetG ''vld'' (New ''Bld'' [K (JStr ''BEGIN''), K (JNum 2)])), Do (SetG ''wld'' (New ''Bld'' [G ''Qwe'', K (JNum 3)])), Do (SetG ''yld'' (New ''Bld'' [K (JStr ''END''), K (JNum 4)]))],
    fn ''sA'' 3 1 [Do (SetV 3 (Bin Plus (Bin Minus (Meth (Dot (V 2) ''q'') ''getFullYear'' []) (G ''ave'')) (G ''ave''))), Do (And (Bin Lt (V 3) (K (JNum 0))) (SetV 3 (Minus1 (V 3)))), Switch (V 1) [(Some (JNum 1), [Do (Put (V 0) ''a'' (Bin Plus (Dot (V 0) ''a'') (V 3))), Break]), (Some (JNum 2), [Do (Call ''MA'' [V 0, Bin Modulo (V 3) (K (JNum 100)), K (JNum 2)]), Break]), (None, [Do (Call ''MA'' [V 0, V 3, V 1])])]],
    fn ''Ztb'' 2 2 [Do (Call ''PDb'' [V 1, Dot (V 0) ''b'']), When (Bin Ge (V 1) (Bin Shr (Dot (V 0) ''b'') (K (JNum 1)))) [Do (SetV 3 (Dot (V 0) ''c'')), Do (SetV 2 (Dot (V 0) ''b'')), Loop (Bin Gt (V 2) (V 1)) [Do (SetV 3 (Dot (V 3) ''b''))] [Do (SetV 2 (Bin Minus (V 2) (K (JNum 1))))]] [Do (SetV 3 (Dot (Dot (V 0) ''a'') ''a'')), Do (SetV 2 (K (JNum 0))), Loop (Bin Lt (V 2) (V 1)) [Do (SetV 3 (Dot (V 3) ''a''))] [Do (SetV 2 (Bin Minus (V 2) (K (JNum (- 1)))))]], Ret (New ''oub'' [V 0, V 1, V 3])],
    fn ''Fhc'' 1 0 [Do (Put This ''b'' (New ''lmb'' [])), Do (Put This ''e'' (New ''lmb'' [])), Do (Put This ''d'' (V 0)), Do (Put This ''a'' (Neg (Meth (Call ''hCb'' [Call ''VBb'' [New ''jCb'' [K JNull, New ''$vb'' [New ''UZb'' [Dot (V 0) ''b'']]], New ''Xzb'' [New ''Ghc'' []]]]) ''zd'' [Seq (Call ''QBb'' []) (G ''PBb'')])))],
    fn ''TGc'' 1 1 [When (And (Dot (V 0) ''g'') (Neg (Neg (Cond (Meth (Dot (V 0) ''c'') ''ig'' []) (Dot (V 0) ''f'') (Dot (V 0) ''a''))))) [Do (SetV 1 (Cond (Meth (Dot (V 0) ''c'') ''ig'' []) (Dot (V 0) ''f'') (Dot (V 0) ''a''))), Do (Call ''VGc'' [Dot (V 1) ''a'', Dot (V 0) ''o'', K (JBool True)]), Do (Call ''VGc'' [Dot (V 1) ''a'', Dot (V 0) ''o'', K (JBool False)]), Do (Call ''rNb'' [Dot (V 0) ''o'', Seq (Call ''nyc'' []) (G ''qxc''), Seq (Call ''Mld'' []) (G ''Gld'')])] []],
    fn ''xRc'' 2 3 [Do (SetV 4 (Dot (Dot (V 1) ''d'') ''i'')), Do (SetV 3 (Dot (V 4) ''k'')), When (Or (Loose (V 3) (Seq (Call ''$Yb'' []) (G ''XYb''))) (Loose (V 3) (G ''SYb''))) [Ret (K JUndef)] [], Do (SetV 2 (New ''Yr'' [Call ''Dr'' [Meth (Dot (Call ''HYb'' [V 4]) ''a'') ''Jc'' [], New ''Dl'' []]])), Do (And (Call ''Wr'' [V 2]) (Call ''hjb'' [Dot (V 0) ''k'', V 1, Call ''JD'' [Call ''Xr'' [V 2], K (JNum 17)]]))],
    fn ''xZc'' 2 0 [Do (Call ''kZc'' []), Ret (Call ''$eb'' [Dot (Cond (Loose (Dot (Dot (V 0) ''a'') ''b'') (K (JNum 0))) (New ''lgd'' [Dot (Dot (Dot (V 0) ''c'') ''e'') ''a'', Dot (Dot (Dot (V 0) ''c'') ''e'') ''b'']) (Call ''JD'' [Call ''Xtb'' [Dot (V 0) ''a''], K (JNum 8)])) ''b'', Dot (Cond (Loose (Dot (Dot (V 1) ''a'') ''b'') (K (JNum 0))) (New ''lgd'' [Dot (Dot (Dot (V 1) ''c'') ''e'') ''a'', Dot (Dot (Dot (V 1) ''c'') ''e'') ''b'']) (Call ''JD'' [Call ''Xtb'' [Dot (V 1) ''a''], K (JNum 8)])) ''b''])],
    fn ''yZc'' 2 0 [Do (Call ''kZc'' []), Ret (Call ''$eb'' [Dot (Cond (Loose (Dot (Dot (V 0) ''a'') ''b'') (K (JNum 0))) (New ''lgd'' [Dot (Dot (Dot (V 0) ''c'') ''e'') ''a'', Dot (Dot (Dot (V 0) ''c'') ''e'') ''b'']) (Call ''JD'' [Call ''Xtb'' [Dot (V 0) ''a''], K (JNum 8)])) ''a'', Dot (Cond (Loose (Dot (Dot (V 1) ''a'') ''b'') (K (JNum 0))) (New ''lgd'' [Dot (Dot (Dot (V 1) ''c'') ''e'') ''a'', Dot (Dot (Dot (V 1) ''c'') ''e'') ''b'']) (Call ''JD'' [Call ''Xtb'' [Dot (V 1) ''a''], K (JNum 8)])) ''a''])],
    fn ''BZc'' 2 0 [Do (Call ''kZc'' []), Ret (Call ''$eb'' [Dot (Cond (Loose (Dot (Dot (V 0) ''a'') ''b'') (K (JNum 0))) (New ''lgd'' [Dot (Dot (Dot (V 0) ''b'') ''e'') ''a'', Dot (Dot (Dot (V 0) ''b'') ''e'') ''b'']) (Call ''JD'' [Call ''Ytb'' [Dot (V 0) ''a''], K (JNum 8)])) ''a'', Dot (Cond (Loose (Dot (Dot (V 1) ''a'') ''b'') (K (JNum 0))) (New ''lgd'' [Dot (Dot (Dot (V 1) ''b'') ''e'') ''a'', Dot (Dot (Dot (V 1) ''b'') ''e'') ''b'']) (Call ''JD'' [Call ''Ytb'' [Dot (V 1) ''a''], K (JNum 8)])) ''a''])],
    fn ''zZc'' 2 0 [Do (Call ''kZc'' []), Ret (Call ''$eb'' [Dot (Cond (Loose (Dot (Dot (V 0) ''a'') ''b'') (K (JNum 0))) (New ''lgd'' [Dot (Dot (Dot (V 0) ''b'') ''e'') ''a'', Dot (Dot (Dot (V 0) ''b'') ''e'') ''b'']) (Call ''JD'' [Call ''Ytb'' [Dot (V 0) ''a''], K (JNum 8)])) ''b'', Dot (Cond (Loose (Dot (Dot (V 1) ''a'') ''b'') (K (JNum 0))) (New ''lgd'' [Dot (Dot (Dot (V 1) ''b'') ''e'') ''a'', Dot (Dot (Dot (V 1) ''b'') ''e'') ''b'']) (Call ''JD'' [Call ''Ytb'' [Dot (V 1) ''a''], K (JNum 8)])) ''b''])],
    fn ''gtd'' 2 3 [Do (SetV 3 (Call ''IWd'' [Meth (V 0) ''Ah'' [], V 1])), Do (SetV 2 (Bin Minus (V 1) (Meth (V 0) ''gi'' []))), Ret (Cond (Bin Lt (V 2) (K (JNum 0))) (Seq (SetV 4 (Meth (V 0) ''Fh'' [V 3])) (Cond (Bin Ge (V 4) (K (JNum 0))) (Meth (V 0) ''Th'' [V 4]) (Call ''ntd'' [V 0, V 3]))) (Cond (Bin Lt (V 2) (K (JNum 0))) (Call ''ntd'' [V 0, V 3]) (Meth (Meth (Call ''JD'' [V 3, K (JNum 69)]) ''uk'' []) ''zk'' [V 0, Meth (V 0) ''ei'' [], V 2])))],
    fn ''bvd'' 1 3 [Do (SetV 3 (Seq (And (Neg (Dot (V 0) ''o'')) (Put (V 0) ''o'' (New ''QTd'' [Seq (Call ''Nsd'' []) (G ''Ksd''), G ''f4'', V 0, K (JNum 0)]))) (Dot (V 0) ''o''))), Do (SetV 2 (Meth (Dot (V 3) ''c'') ''Jc'' [])), Loop (Neg (Loose (Dot (V 2) ''e'') (Meth (Dot (V 2) ''i'') ''gc'' []))) [Do (SetV 1 (Call ''JD'' [Meth (V 2) ''Wj'' [], K (JNum 45)])), Do (Meth (V 1) ''kd'' [])] [], Ret (Call ''uMd'' [V 3])],
    fn ''BEd'' 1 1 [When (Call ''RD'' [Dot (V 0) ''a'', K (JNum 4)]) [Do (SetV 1 (Call ''WGd'' [Dot (V 0) ''a''])), When (Loose (V 1) (K JNull)) [Raise (Call ''Lcb'' [New ''nfb'' [Bin Plus (Bin Plus (Bin Plus (Bin Plus (Bin Plus (G ''LEe'') (Dot (V 0) ''b'')) (K (JStr (CHR 0x27 # ''. '')))) (G ''HEe'')) (Seq (Call ''veb'' [G ''m5'']) (Dot (G ''m5'') ''k''))) (G ''IEe'')]])] [], Ret (V 1)] [Ret (Dot (V 0) ''a'')]],
    fn ''vle'' 1 1 [When (Loose (V 0) (K JNull)) [Ret (K JNull)] [], Do (SetV 1 (Call ''Noe'' [Call ''Ase'' [V 0, K (JBool True)]])), When (Loose (V 1) (K JNull)) [Raise (Call ''Lcb'' [New ''Zje'' [Bin Plus (Bin Plus (K (JStr (''Invalid base64Binary value: '' @ CHR 0x27 # ''''))) (V 0)) (K (JStr (CHR 0x27 # '''')))]])] [], Ret (V 1)],
    fn ''sKd'' 1 2 [Try [Do (SetV 1 (Meth (Dot (V 0) ''i'') ''Xb'' [Dot (V 0) ''e''])), Do (Meth (V 0) ''Vj'' []), Do (Put (V 0) ''g'' (Bin Minus (Put (V 0) ''e'' (Bin Minus (Dot (V 0) ''e'') (K (JNum (- 1))))) (K (JNum 1)))), Ret (V 1)] 2 [Do (SetV 2 (Call ''Kcb'' [V 2])), When (Call ''RD'' [V 2, K (JNum 99)]) [Do (Meth (V 0) ''Vj'' []), Raise (Call ''Lcb'' [New ''Kub'' []])] [Raise (Call ''Lcb'' [V 2])]]],
    fn ''OKd'' 1 2 [Try [Do (SetV 1 (Meth (Dot (V 0) ''c'') ''Ti'' [Dot (V 0) ''e''])), Do (Meth (V 0) ''Vj'' []), Do (Put (V 0) ''g'' (Bin Minus (Put (V 0) ''e'' (Bin Minus (Dot (V 0) ''e'') (K (JNum (- 1))))) (K (JNum 1)))), Ret (V 1)] 2 [Do (SetV 2 (Call ''Kcb'' [V 2])), When (Call ''RD'' [V 2, K (JNum 99)]) [Do (Meth (V 0) ''Vj'' []), Raise (Call ''Lcb'' [New ''Kub'' []])] [Raise (Call ''Lcb'' [V 2])]]],
    fn ''IQd'' 1 4 [Do (SetV 4 (K (JNum 0))), Do (Seq (SetV 2 (K (JNum 0))) (SetV 3 (Dot (V 0) ''length''))), Loop (Bin Lt (V 2) (V 3)) [Do (SetV 1 (Seq (Call ''UDb'' [V 2, Dot (V 0) ''length'']) (Meth (V 0) ''charCodeAt'' [V 2]))), Do (And (And (Bin Ge (V 1) (K (JNum 64))) (Bin Lt (V 1) (K (JNum 128)))) (SetV 4 (Call ''_cb'' [V 4, Call ''adb'' [K (JNum 1), Bin Minus (V 1) (K (JNum 64))]])))] [Do (Bin Minus (SetV 2 (Bin Minus (V 2) (K (JNum (- 1))))) (K (JNum 1)))], Ret (V 4)],
    fn ''RXb'' 2 2 [Do (SetV 3 (K JNull)), When (Call ''pNb'' [V 0, Seq (Call ''vjd'' []) (G ''$id'')]) [Do (SetV 2 (Call ''JD'' [Call ''oNb'' [V 0, G ''$id''], K (JNum 105)])), Do (And (Meth (V 2) ''nf'' [V 1]) (SetV 3 (Meth (V 2) ''mf'' [V 1])))] [], Do (And (And (Loose (V 3) (K JNull)) (Neg (Neg (Call ''DYb'' [V 0])))) (SetV 3 (Call ''oNb'' [Call ''DYb'' [V 0], V 1]))), Ret (V 3)],
    fn ''OVb'' 2 1 [Do (SetV 2 (Call ''JD'' [Call ''oNb'' [V 0, Seq (Call ''nyc'' []) (G ''Bwc'')], K (JNum 79)])), When (Call ''Xq'' [V 1, G ''LVb'']) [When (Neg (V 2)) [Do (SetV 2 (New ''ygd'' [])), Do (Call ''rNb'' [V 0, G ''Bwc'', V 2])] [Do (Call ''cub'' [V 2])]] [Do (And (Neg (Neg (V 2))) (Call ''rNb'' [V 0, G ''Bwc'', K JNull]))], Ret (V 2)],
    fn ''$6b'' 2 3 [Do (SetV 4 (New ''mmb'' [Meth (V 1) ''gc'' []])), Do (SetV 3 (Meth (V 1) ''Jc'' [])), Loop (Meth (V 3) ''Ob'' []) [Do (SetV 2 (Call ''JD'' [Meth (V 3) ''Pb'' [], K (JNum 294)])), Do (Cond (Loose (Dot (V 2) ''c'') (Dot (V 2) ''f'')) (Call ''P6b'' [V 0, V 2, Dot (V 2) ''c'']) (Or (Call ''Q6b'' [V 0, V 2]) (Seq (Call ''qDb'' [Dot (V 4) ''c'', V 2]) (K (JBool True)))))] [], Ret (V 4)],
    fn ''dLb'' 2 3 [Do (SetV 2 (Dot (V 0) ''o'')), Do (SetV 4 (Meth (Call ''JD'' [Call ''JD'' [Call ''Qc'' [Dot (V 0) ''r'', V 1], K (JNum 22)], K (JNum 83)]) ''Jc'' [])), Loop (Meth (V 4) ''Ob'' []) [Do (SetV 3 (Call ''JD'' [Meth (V 4) ''Pb'' [], K (JNum 115)])), Do (Put (Dot (V 3) ''e'') ''a'' (Call ''ZKb'' [V 3, Dot (V 2) ''a''])), Do (Put (Dot (V 3) ''e'') ''b'' (Bin Times (Dot (V 2) ''b'') (Call ''Ueb'' [Call ''MD'' [Meth (Dot (V 3) ''b'') ''mf'' [G ''XKb'']]])))] []],
    fn ''V2b'' 2 4 [Do (SetV 4 (Dot (V 0) ''k'')), Do (SetV 2 (Call ''Ueb'' [Call ''MD'' [Call ''oNb'' [V 0, Seq (Call ''Wrc'' []) (G ''Drc'')]]])), Do (SetV 5 (Dot (V 1) ''k'')), Do (SetV 3 (Call ''Ueb'' [Call ''MD'' [Call ''oNb'' [V 1, G ''Drc'']]])), Ret (Cond (Neg (Loose (V 5) (Seq (Call ''$Yb'' []) (G ''TYb'')))) (K (JNum (- 1))) (Cond (Neg (Loose (V 4) (G ''TYb''))) (K (JNum 1)) (Cond (Loose (V 2) (V 3)) (K (JNum 0)) (Cond (Bin Lt (V 2) (V 3)) (K (JNum (- 1))) (K (JNum 1))))))],
    fn ''H7c'' 2 2 [Do (SetV 2 (Call ''JD'' [Dot (Call ''JD'' [Call ''ejb'' [Dot (V 0) ''g'', Dot (V 1) ''a''], K (JNum 49)]) ''a'', K (JNum 68)])), Do (SetV 3 (Call ''JD'' [Dot (Call ''JD'' [Call ''ejb'' [Dot (V 0) ''g'', Dot (V 1) ''b''], K (JNum 49)]) ''a'', K (JNum 68)])), Ret (Bin Minus (Bin Minus (Call ''Yfd'' [Dot (V 1) ''a'', Dot (V 1) ''b'']) (Call ''Yfd'' [Dot (V 1) ''a'', Call ''Kfd'' [Dot (V 2) ''b'']])) (Call ''Yfd'' [Dot (V 1) ''b'', Call ''Kfd'' [Dot (V 3) ''b'']]))],
    fn ''Obe'' 2 2 [Do (Put (V 0) ''j'' (Bin Minus (Dot (V 0) ''j'') (K (JNum (- 1))))), When (Neg (Loose (V 1) (K JNull))) [Do (SetV 2 (Seq (SetV 3 (Dot (Dot (V 0) ''a'') ''Cb'')) (Cond (Call ''RD'' [V 3, K (JNum 100)]) (Meth (Call ''JD'' [V 3, K (JNum 100)]) ''qh'' []) (K JNull)))), When (Call ''Tmb'' [V 1, V 2]) [Do (Call ''wud'' [Dot (V 0) ''a'', K (JNum 4), V 2]), Ret (K JUndef)] []] [], Do (Call ''wud'' [Dot (V 0) ''a'', K (JNum 4), Call ''JD'' [V 1, K (JNum 129)]])],
    fn ''tTb'' 1 0 [Do (Call ''rTb'' []), Do (Put This ''c'' (New ''lmb'' [])), Do (Put This ''d'' (V 0)), Switch (Dot (V 0) ''g'') [(Some (JNum 0), []), (Some (JNum 2), [Do (Put This ''a'' (Call ''Pnb'' [G ''qTb''])), Do (Put This ''b'' (G ''Cve'')), Break]), (Some (JNum 3), []), (Some (JNum 1), [Do (Put This ''a'' (G ''qTb'')), Do (Put This ''b'' (G ''Dve''))])]],
    fn ''Q2b'' 1 1 [When (Neg (Call ''Nld'' [Call ''JD'' [Call ''oNb'' [V 0, Seq (Call ''nyc'' []) (G ''qxc'')], K (JNum 102)]])) [Ret (K JUndef)] [], Do (SetV 1 (Dot (V 0) ''b'')), Do (Call ''R2b'' [Seq (Call ''MDb'' [K (JNum 0), Dot (Dot (V 1) ''c'') ''length'']) (Call ''JD'' [Idx (Dot (V 1) ''c'') (K (JNum 0)), K (JNum 25)])]), Do (Call ''R2b'' [Call ''JD'' [Call ''dmb'' [V 1, Bin Minus (Dot (Dot (V 1) ''c'') ''length'') (K (JNum 1))], K (JNum 25)]])],
    fn ''obc'' 2 0 [Do (Meth (V 1) ''Tg'' [K (JStr ''Self-Loop post-processing''), K (JNum 1)]), Do (Call ''YBb'' [Call ''VBb'' [Call ''VBb'' [Call ''XBb'' [New ''jCb'' [K JNull, New ''Zvb'' [Dot (V 0) ''b'', K (JNum 16)]], New ''ubc'' []], New ''wbc'' []], New ''ybc'' []], New ''Abc'' []]), Do (Meth (V 1) ''Ug'' [])],
    fn ''Zod'' 3 2 [When (Dot (V 0) ''c'') [Do (Call ''_vd'' [Dot (V 0) ''c'', Bin Plus (Dot (Dot (V 0) ''c'') ''i'') (V 1)]), Do (Call ''awd'' [Dot (V 0) ''c'', Bin Plus (Dot (Dot (V 0) ''c'') ''j'') (V 2)])] [Do (SetV 4 (New ''Kmb'' [Dot (V 0) ''b''])), Loop (Bin Lt (Dot (V 4) ''a'') (Dot (Dot (Dot (V 4) ''c'') ''c'') ''length'')) [Do (SetV 3 (Call ''JD'' [Call ''Imb'' [V 4], K (JNum 167)])), Do (Call ''Zod'' [V 3, V 1, V 2])] []]]]"

definition code_4600_4600 :: "(string \<times> jfun) list" where
  "code_4600_4600 = [
    fn ''uEc'' 1 3 [Do (SetV 3 (Dot (Dot (V 0) ''c'') ''a'')), Do (Put (V 0) ''p'' (Seq (Call ''Qb'' [V 3]) (New ''nmb'' [V 3]))), Do (SetV 2 (New ''Kmb'' [V 3])), Loop (Bin Lt (Dot (V 2) ''a'') (Dot (Dot (Dot (V 2) ''c'') ''c'') ''length'')) [Do (SetV 1 (Call ''JD'' [Call ''Imb'' [V 2], K (JNum 9)])), Do (Put (V 1) ''p'' (Dot (Call ''yEc'' [V 1]) ''a''))] [], Do (Call ''Inb'' []), Do (Call ''jmb'' [Dot (V 0) ''p'', New ''HEc'' []])]]"

definition object_table13 :: "(string \<times> jfun) list" where
  "object_table13 = code_4546_4599 @ code_4600_4600"

text \<open>The names each table declares.\<close>

lemma names_4546_4599 [js_names]: "map fst code_4546_4599 = [
    ''tAb'', ''TKb'', ''wbd'', ''Zgc'', ''MUb'', ''khc'', ''Ahc'', ''okc'', ''gBd'', ''vnb'',
    ''kmb'', ''FQd'', ''xbd'', ''bCd'', ''E3d'', ''zle'', ''oA'', ''cGb'', ''Wmc'', ''ltb'',
    ''hBd'', ''SJb'', ''USc'', ''LUb'', ''FYd'', ''Ved'', ''Ald'', ''sA'', ''Ztb'', ''Fhc'',
    ''TGc'', ''xRc'', ''xZc'', ''yZc'', ''BZc'', ''zZc'', ''gtd'', ''bvd'', ''BEd'', ''vle'',
    ''sKd'', ''OKd'', ''IQd'', ''RXb'', ''OVb'', ''$6b'', ''dLb'', ''V2b'', ''H7c'', ''Obe'',
    ''tTb'', ''Q2b'', ''obc'', ''Zod'']"
  by (simp add: code_4546_4599_def fn_def)

lemma names_4600_4600 [js_names]: "map fst code_4600_4600 = [
    ''uEc'']"
  by (simp add: code_4600_4600_def fn_def)

end
