(* ===== verification/ObjectTable14.thy ===== *)
theory ObjectTable14
  imports ObjectCode
begin

text \<open>
  Functions of \<open>layout-worker.js\<close>, lines 4601 to 4734, in the order of the file, one per line:
  operations of the runtime's collections, iterators and text buffers, accessors and small algorithms
  of the layout engine, with their loops, \<open>switch\<close> and \<open>try\<close> statements. An entry has the name, the
  number of parameters, the number of further local variables and the body; parameters and locals
  are numbered from 0, the variable of a \<open>catch\<close> has a number of its own, \<open>x++\<close> is \<open>(x=x+1)-1\<close>. Lines
  with a construct outside \<open>jexp\<close> and \<open>jstm\<close> (closures, \<open>in\<close>, floating-point literals, host objects) are
  left out.
\<close>

definition code_4601_4638 :: "(string \<times> jfun) list" where
  "code_4601_4638 = [
    fn ''vQd'' 2 2 [When (Neg (Loose (Dot (Dot (V 0) ''j'') ''length'') (Dot (Dot (V 1) ''j'') ''length''))) [Ret (K (JBool False))] [], Do (Seq (SetV 2 (K (JNum 0))) (SetV 3 (Dot (Dot (V 0) ''j'') ''length''))), Loop (Bin Lt (V 2) (V 3)) [When (Neg (Call ''vgb'' [Idx (Dot (V 0) ''j'') (V 2), Idx (Dot (V 1) ''j'') (V 2)])) [Ret (K (JBool False))] []] [Do (Bin Minus (SetV 2 (Bin Minus (V 2) (K (JNum (- 1))))) (K (JNum 1)))], Ret (K (JBool True))],
    fn ''Knb'' 2 4 [Do (Call ''Inb'' []), Do (SetV 2 (V 0)), Do (SetV 5 (V 1)), When (And (Call ''RD'' [V 0, K (JNum 22)]) (Neg (Call ''RD'' [V 1, K (JNum 22)]))) [Do (SetV 2 (V 1)), Do (SetV 5 (V 0))] [], Do (SetV 4 (Meth (V 2) ''Jc'' [])), Loop (Meth (V 4) ''Ob'' []) [Do (SetV 3 (Meth (V 4) ''Pb'' [])), When (Meth (V 5) ''Gc'' [V 3]) [Ret (K (JBool False))] []] [], Ret (K (JBool True))],
    fn ''_Pc'' 4 0 [When (Bin Lt (Dot (V 1) ''a'') (Dot (V 3) ''a'')) [Ret (K (JBool True))] [When (Loose (Dot (V 1) ''a'') (Dot (V 3) ''a'')) [When (Bin Lt (Dot (V 1) ''b'') (Dot (V 3) ''b'')) [Ret (K (JBool True))] [When (Loose (Dot (V 1) ''b'') (Dot (V 3) ''b'')) [When (Bin Gt (Dot (V 0) ''b'') (Dot (V 2) ''b'')) [Ret (K (JBool True))] []] []]] []], Ret (K (JBool False))],
    fn ''PYb'' 1 1 [Do (SetV 1 (New ''lhb'' [])), Do (Put (V 1) ''a'' (Bin Plus (Dot (V 1) ''a'') (K (JStr ''n'')))), Do (And (Neg (Loose (Dot (V 0) ''k'') (Seq (Call ''$Yb'' []) (G ''XYb'')))) (Call ''hhb'' [Call ''hhb'' [Seq (Put (V 1) ''a'' (Bin Plus (Dot (V 1) ''a'') (K (JStr ''('')))) (V 1), Meth (Call ''ds'' [Dot (V 0) ''k'']) ''toLowerCase'' []], K (JStr '')'')])), Do (Call ''hhb'' [Seq (Put (V 1) ''a'' (Bin Plus (Dot (V 1) ''a'') (K (JStr ''_'')))) (V 1), Call ''CYb'' [V 0]]), Ret (Dot (V 1) ''a'')],
    fn ''yzc'' 0 0 [Do (SetG ''yzc'' (G ''qdb'')), Do (SetG ''xzc'' (New ''Azc'' [G ''kCe'', K (JNum 0)])), Do (SetG ''uzc'' (New ''Azc'' [G ''gze'', K (JNum 1)])), Do (SetG ''vzc'' (New ''Azc'' [K (JStr ''LINEAR_SEGMENTS''), K (JNum 2)])), Do (SetG ''tzc'' (New ''Azc'' [K (JStr ''BRANDES_KOEPF''), K (JNum 3)])), Do (SetG ''wzc'' (New ''Azc'' [G ''jCe'', K (JNum 4)]))],
    fn ''etd'' 4 1 [When (Bin Ge (V 2) (K (JNum 0))) [Ret (Meth (V 0) ''Ph'' [V 1, V 2, V 3])] [Do (And (Neg (Neg (Meth (V 0) ''Mh'' []))) (SetV 3 (Seq (SetV 4 (Meth (V 0) ''Ch'' [])) (Cond (Bin Ge (V 4) (K (JNum 0))) (Meth (V 0) ''xh'' [V 3]) (Meth (Meth (V 0) ''Mh'' []) ''Qh'' [V 0, Bin Minus (K (JNum (- 1))) (V 4), K JNull, V 3]))))), Ret (Meth (V 0) ''zh'' [V 1, V 2, V 3])]],
    fn ''twd'' 2 0 [Switch (V 1) [(Some (JNum 7), [Do (And (Neg (Dot (V 0) ''e'')) (Put (V 0) ''e'' (New ''jhe'' [G ''Q3'', V 0, K (JNum 7), K (JNum 4)]))), Do (Call ''JJd'' [Dot (V 0) ''e'']), Ret (K JUndef)]), (Some (JNum 8), [Do (And (Neg (Dot (V 0) ''d'')) (Put (V 0) ''d'' (New ''jhe'' [G ''Q3'', V 0, K (JNum 8), K (JNum 5)]))), Do (Call ''JJd'' [Dot (V 0) ''d'']), Ret (K JUndef)])], Do (Call ''Wvd'' [V 0, V 1])],
    fn ''evd'' 3 0 [Do (Cond (Loose (V 2) (K JNull)) (Seq (And (Neg (Dot (V 0) ''o'')) (Put (V 0) ''o'' (New ''QTd'' [Seq (Call ''Nsd'' []) (G ''Ksd''), G ''f4'', V 0, K (JNum 0)]))) (Call ''AMd'' [Dot (V 0) ''o'', V 1])) (Seq (And (Neg (Dot (V 0) ''o'')) (Put (V 0) ''o'' (New ''QTd'' [Seq (Call ''Nsd'' []) (G ''Ksd''), G ''f4'', V 0, K (JNum 0)]))) (Call ''wMd'' [Dot (V 0) ''o'', V 1, V 2]))), Ret (V 0)],
    fn ''au'' 2 2 [Do (SetV 2 (Meth (V 0) ''dd'' [V 1])), Try [Ret (Meth (V 2) ''Pb'' [])] 3 [Do (SetV 3 (Call ''Kcb'' [V 3])), When (Call ''RD'' [V 3, K (JNum 112)]) [Raise (Call ''Lcb'' [New ''Fdb'' [Bin Plus (K (JStr (''Can'' @ CHR 0x27 # ''t get element ''))) (V 1)]])] [Raise (Call ''Lcb'' [V 3])]]],
    fn ''jKb'' 2 1 [Do (SetV 2 (Dot (Call ''JD'' [Call ''brb'' [Dot (V 0) ''b'', V 1], K (JNum 127)]) ''n'')), Switch (Dot (V 1) ''g'') [(Some (JNum 1), [Do (And (Bin Ge (Dot (V 0) ''t'') (K (JNum 0))) (Put (V 2) ''d'' (Dot (V 0) ''t''))), Break]), (Some (JNum 3), [Do (And (Bin Ge (Dot (V 0) ''t'') (K (JNum 0))) (Put (V 2) ''a'' (Dot (V 0) ''t'')))])], When (Dot (V 0) ''C'') [Do (Put (V 2) ''b'' (Dot (Dot (V 0) ''C'') ''b'')), Do (Put (V 2) ''c'' (Dot (Dot (V 0) ''C'') ''c''))] []],
    fn ''i7b'' 1 1 [Do (SetV 1 (Dot (V 0) ''a'')), Loop (K (JBool True)) [Do (SetV 1 (Dot (Dot (Call ''JD'' [Call ''Xr'' [New ''Yr'' [Call ''Dr'' [Meth (Dot (Call ''EYb'' [V 1]) ''a'') ''Jc'' [], New ''Dl'' []]]], K (JNum 17)]) ''c'') ''i'')), Do (And (Loose (Dot (V 1) ''k'') (Seq (Call ''$Yb'' []) (G ''VYb''))) (Meth (Dot (V 0) ''b'') ''Ec'' [V 1]))] [When (Loose (Dot (V 1) ''k'') (Seq (Call ''$Yb'' []) (G ''VYb''))) [] [Break]], Do (Put (V 0) ''b'' (Call ''$u'' [Dot (V 0) ''b'']))],
    fn ''mDc'' 2 3 [Do (SetV 4 (V 0)), Do (SetV 3 (New ''Yr'' [Call ''Dr'' [Meth (Dot (Call ''EYb'' [V 1]) ''a'') ''Jc'' [], New ''Dl'' []]])), Loop (Call ''Wr'' [V 3]) [Do (SetV 2 (Call ''JD'' [Call ''Xr'' [V 3], K (JNum 17)])), Do (And (Neg (Neg (Dot (Dot (Dot (V 2) ''c'') ''i'') ''c''))) (SetV 4 (Meth (Dot (G ''$wnd'') ''Math'') ''max'' [V 4, Dot (Dot (Dot (Dot (V 2) ''c'') ''i'') ''c'') ''p''])))] [], Ret (V 4)],
    fn ''lLb'' 2 3 [Do (SetV 4 (K (JNum 0))), Do (SetV 3 (Meth (Call ''JD'' [Call ''JD'' [Call ''Qc'' [Dot (V 0) ''r'', V 1], K (JNum 22)], K (JNum 83)]) ''Jc'' [])), Loop (Meth (V 3) ''Ob'' []) [Do (SetV 2 (Call ''JD'' [Meth (V 3) ''Pb'' [], K (JNum 115)])), Do (SetV 4 (Bin Plus (V 4) (Bin Plus (Bin Plus (Dot (Dot (V 2) ''d'') ''d'') (Dot (Meth (Dot (V 2) ''b'') ''Kf'' []) ''b'')) (Dot (Dot (V 2) ''d'') ''a'')))), Do (And (Meth (V 3) ''Ob'' []) (SetV 4 (Bin Plus (V 4) (Dot (V 0) ''w''))))] [], Ret (V 4)],
    fn ''dKb'' 2 3 [Do (SetV 4 (K (JNum 0))), Do (SetV 3 (Meth (Call ''JD'' [Call ''JD'' [Call ''Qc'' [Dot (V 0) ''r'', V 1], K (JNum 22)], K (JNum 83)]) ''Jc'' [])), Loop (Meth (V 3) ''Ob'' []) [Do (SetV 2 (Call ''JD'' [Meth (V 3) ''Pb'' [], K (JNum 115)])), Do (SetV 4 (Bin Plus (V 4) (Bin Plus (Bin Plus (Dot (Dot (V 2) ''d'') ''b'') (Dot (Meth (Dot (V 2) ''b'') ''Kf'' []) ''a'')) (Dot (Dot (V 2) ''d'') ''c'')))), Do (And (Meth (V 3) ''Ob'' []) (SetV 4 (Bin Plus (V 4) (Dot (V 0) ''w''))))] [], Ret (V 4)],
    fn ''x_c'' 1 4 [Do (SetV 3 (K (JNum 0))), Do (SetV 4 (Call ''z_c'' [V 0])), When (Loose (Dot (Dot (V 4) ''c'') ''length'') (K (JNum 0))) [Ret (K (JNum 1))] [Do (SetV 2 (New ''Kmb'' [V 4])), Loop (Bin Lt (Dot (V 2) ''a'') (Dot (Dot (Dot (V 2) ''c'') ''c'') ''length'')) [Do (SetV 1 (Call ''JD'' [Call ''Imb'' [V 2], K (JNum 26)])), Do (SetV 3 (Bin Plus (V 3) (Call ''x_c'' [V 1])))] []], Ret (V 3)],
    fn ''VUb'' 1 2 [Do (Put This ''b'' (New ''lmb'' [])), Do (Put This ''c'' (V 0)), Do (Put This ''a'' (K (JBool False))), Do (SetV 2 (New ''Kmb'' [Dot (V 0) ''a''])), Loop (Bin Lt (Dot (V 2) ''a'') (Dot (Dot (Dot (V 2) ''c'') ''c'') ''length'')) [Do (SetV 1 (Call ''JD'' [Call ''Imb'' [V 2], K (JNum 9)])), Do (Put This ''a'' (Bin BitOr (Dot This ''a'') (Loose (Dot (V 1) ''k'') (Seq (Call ''$Yb'' []) (G ''XYb'')))))] []],
    fn ''jId'' 3 4 [Do (SetV 3 (Meth (V 0) ''bd'' [V 1])), When (Neg (Loose (V 3) (K (JNum (- 1))))) [When (Meth (V 0) ''Nj'' []) [Do (SetV 5 (Meth (V 0) ''Oj'' [])), Do (SetV 6 (Call ''tHd'' [V 0, V 3])), Do (SetV 4 (Meth (V 0) ''Gj'' [K (JNum 4), V 6, K JNull, V 3, V 5])), Do (Cond (Neg (V 2)) (SetV 2 (V 4)) (Meth (V 2) ''lj'' [V 4]))] [Do (Call ''tHd'' [V 0, V 3])]] [], Ret (V 2)],
    fn ''IJd'' 3 4 [Do (SetV 3 (Meth (V 0) ''bd'' [V 1])), When (Neg (Loose (V 3) (K (JNum (- 1))))) [When (Meth (V 0) ''Nj'' []) [Do (SetV 5 (Meth (V 0) ''Oj'' [])), Do (SetV 6 (Call ''iGd'' [V 0, V 3])), Do (SetV 4 (Meth (V 0) ''Gj'' [K (JNum 4), V 6, K JNull, V 3, V 5])), Do (Cond (Neg (V 2)) (SetV 2 (V 4)) (Meth (V 2) ''lj'' [V 4]))] [Do (Call ''iGd'' [V 0, V 3])]] [], Ret (V 2)],
    fn ''eie'' 4 3 [When (Meth (V 2) ''Uh'' [V 1]) [Do (Call ''Aie'' []), When (Call ''JUd'' [V 1]) [Do (SetV 4 (Call ''JD'' [Meth (V 2) ''Jh'' [V 1], K (JNum 163)])), Do (Call ''hie'' [V 0, V 4])] [Do (SetV 5 (Seq (SetV 6 (V 1)) (Cond (Neg (V 6)) (K JNull) (Meth (Call ''JD'' [V 3, K (JNum 52)]) ''di'' [V 6])))), Do (And (Neg (Neg (V 5))) (Call ''fie'' [Meth (V 2) ''Jh'' [V 1], V 5]))]] []],
    fn ''_sd'' 4 3 [Do (SetV 5 (Call ''IWd'' [Meth (V 0) ''Ah'' [], V 1])), Do (SetV 4 (Bin Minus (V 1) (Meth (V 0) ''gi'' []))), Ret (Cond (Bin Lt (V 4) (K (JNum 0))) (Seq (SetV 6 (Meth (V 0) ''Fh'' [V 5])) (Cond (Bin Ge (V 6) (K (JNum 0))) (Meth (V 0) ''Ih'' [V 6, V 2, K (JBool True)]) (Call ''mtd'' [V 0, V 5, V 2]))) (Meth (Meth (Call ''JD'' [V 5, K (JNum 69)]) ''uk'' []) ''wk'' [V 0, Meth (V 0) ''ei'' [], V 4, V 2, V 3]))],
    fn ''FKb'' 4 2 [Do (SetV 5 (Cond (Meth (V 1) ''nf'' [Seq (Call ''vjd'' []) (G ''gid'')]) (Call ''JD'' [Meth (V 1) ''mf'' [G ''gid''], K (JNum 22)]) (Dot (V 0) ''j''))), Do (SetV 4 (Call ''QJb'' [V 5])), When (Loose (V 4) (Seq (Call ''MJb'' []) (G ''LJb''))) [Ret (K JUndef)] [], When (And (V 2) (Neg (Call ''OJb'' [V 4]))) [Ret (K JUndef)] [], Do (Call ''oIb'' [Call ''HKb'' [V 0, V 4, V 3], V 1])],
    fn ''ID'' 2 0 [When (Call ''VD'' [V 0]) [Ret (Neg (Neg (Idx (G ''HD'') (V 1))))] [When (Dot (V 0) ''Qm'') [Ret (Neg (Neg (Idx (Dot (V 0) ''Qm'') (V 1))))] [When (Call ''TD'' [V 0]) [Ret (Neg (Neg (Idx (G ''GD'') (V 1))))] [When (Call ''SD'' [V 0]) [Ret (Neg (Neg (Idx (G ''FD'') (V 1))))] []]]], Ret (K (JBool False))],
    fn ''K0b'' 1 0 [Switch (Dot (V 0) ''g'') [(Some (JNum 1), [Ret (Seq (Call ''RLb'' []) (G ''QLb''))]), (Some (JNum 3), [Ret (Seq (Call ''RLb'' []) (G ''NLb''))]), (Some (JNum 2), [Ret (Seq (Call ''RLb'' []) (G ''PLb''))]), (Some (JNum 4), [Ret (Seq (Call ''RLb'' []) (G ''OLb''))]), (None, [Ret (K JNull)])]],
    fn ''vgc'' 3 0 [When (Dot (V 0) ''e'') [Switch (Dot (V 0) ''b'') [(Some (JNum 1), [Do (Call ''dgc'' [Dot (V 0) ''c'', V 1, V 2]), Break]), (Some (JNum 0), [Do (Call ''egc'' [Dot (V 0) ''c'', V 1, V 2])])]] [Do (Call ''bgc'' [Dot (V 0) ''c'', V 1, V 2])], Do (PutIdx (Idx (Dot (V 0) ''a'') (Dot (V 1) ''p'')) (Dot (V 2) ''p'') (Dot (Dot (V 0) ''c'') ''i'')), Do (PutIdx (Idx (Dot (V 0) ''a'') (Dot (V 2) ''p'')) (Dot (V 1) ''p'') (Dot (Dot (V 0) ''c'') ''e''))],
    fn ''uIc'' 1 2 [When (Loose (V 0) (K JNull)) [Ret (K JNull)] [], Do (SetV 2 (Call ''SC'' [G ''SP'', G ''aue'', K (JNum 199), Dot (V 0) ''length'', K (JNum 0), K (JNum 2)])), Do (SetV 1 (K (JNum 0))), Loop (Bin Lt (V 1) (Dot (V 2) ''length'')) [Do (PutIdx (V 2) (V 1) (Call ''JD'' [Call ''Qmb'' [Idx (V 0) (V 1), Dot (Idx (V 0) (V 1)) ''length''], K (JNum 199)]))] [Do (Bin Minus (SetV 1 (Bin Minus (V 1) (K (JNum (- 1))))) (K (JNum 1)))], Ret (V 2)],
    fn ''lSc'' 1 1 [Do (SetV 1 (Call ''JD'' [Call ''oNb'' [V 0, Seq (Call ''SXc'' []) (G ''CXc'')], K (JNum 104)])), Do (Call ''rNb'' [V 0, Seq (Call ''_Wc'' []) (G ''BWc''), New ''lgd'' [K (JNum 0), K (JNum 0)]]), Do (Call ''oSc'' [New ''HTc'' [], V 0, Bin Minus (Dot (V 1) ''b'') (Call ''Ueb'' [Call ''MD'' [Call ''oNb'' [V 0, G ''IWc'']]]), Bin Minus (Dot (V 1) ''d'') (Call ''Ueb'' [Call ''MD'' [Call ''oNb'' [V 0, G ''KWc'']]])])],
    fn ''Qfe'' 1 1 [When (Call ''Ofe'' [V 0]) [Do (Call ''Nfe'' [V 0]), When (Meth (V 0) ''sl'' []) [Do (SetV 1 (Call ''Oee'' [Dot (V 0) ''e'', Dot (V 0) ''b'', Dot (V 0) ''c'', Dot (V 0) ''a'', Dot (V 0) ''j''])), Do (Put (V 0) ''j'' (V 1))] [], Do (Put (V 0) ''g'' (Dot (V 0) ''a'')), Do (Put (V 0) ''a'' (Bin Minus (Dot (V 0) ''a'') (K (JNum (- 1))))), Do (Put (V 0) ''c'' (Bin Minus (Dot (V 0) ''c'') (K (JNum (- 1))))), Do (Put (V 0) ''i'' (K (JNum 0))), Ret (Dot (V 0) ''j'')] [Raise (Call ''Lcb'' [New ''Kub'' []])]],
    fn ''cWb'' 3 0 [Do (Meth (V 2) ''Tg'' [K (JStr ''Compound graph preprocessor''), K (JNum 1)]), Do (Put (V 0) ''a'' (New ''Np'' [])), Do (Call ''hWb'' [V 0, V 1, K JNull]), Do (Call ''bWb'' [V 0, V 1]), Do (Call ''gWb'' [V 0]), Do (Call ''rNb'' [V 1, Seq (Call ''Wrc'' []) (G ''Sqc''), Dot (V 0) ''a'']), Do (Put (V 0) ''a'' (K JNull)), Do (Call ''kjb'' [Dot (V 0) ''b'']), Do (Meth (V 2) ''Ug'' [])],
    fn ''Q7b'' 3 3 [Do (SetV 4 (New ''Yr'' [Call ''Dr'' [Meth (Dot (Cond (V 1) (Call ''EYb'' [V 0]) (Call ''HYb'' [V 0])) ''a'') ''Jc'' [], New ''Dl'' []]])), Loop (Call ''Wr'' [V 4]) [Do (SetV 3 (Call ''JD'' [Call ''Xr'' [V 4], K (JNum 17)])), Do (SetV 5 (Cond (V 1) (Dot (Dot (V 3) ''c'') ''i'') (Dot (Dot (V 3) ''d'') ''i''))), Do (And (Loose (Dot (V 5) ''k'') (Seq (Call ''$Yb'' []) (G ''UYb''))) (Call ''NYb'' [V 5, V 2]))] []],
    fn ''Klc'' 3 3 [Do (SetV 3 (Dot (Dot (Dot (Dot (V 1) ''i'') ''j'') ''c'') ''length'')), When (And (Call ''pNb'' [V 1, Seq (Call ''Wrc'' []) (G ''trc'')]) (Call ''pNb'' [V 2, G ''trc''])) [Do (SetV 4 (Call ''slc'' [V 1, V 2, Dot (V 0) ''b'', V 3])), Do (SetV 5 (Call ''slc'' [V 2, V 1, Dot (V 0) ''b'', V 3])), Ret (Cond (Bin Lt (V 4) (V 5)) (K (JNum (- 1))) (Cond (Bin Gt (V 4) (V 5)) (K (JNum 1)) (K (JNum 0))))] [], Ret (K (JNum 0))],
    fn ''lzc'' 0 0 [Do (SetG ''lzc'' (G ''qdb'')), Do (SetG ''jzc'' (New ''nzc'' [G ''qye'', K (JNum 0)])), Do (SetG ''kzc'' (New ''nzc'' [K (JStr ''PORT_POSITION''), K (JNum 1)])), Do (SetG ''izc'' (New ''nzc'' [K (JStr ''NODE_SIZE_WHERE_SPACE_PERMITS''), K (JNum 2)])), Do (SetG ''hzc'' (New ''nzc'' [K (JStr ''NODE_SIZE''), K (JNum 3)]))],
    fn ''oWc'' 2 3 [Do (Meth (V 1) ''Tg'' [K (JStr ''Untreeify''), K (JNum 1)]), Do (SetV 2 (Call ''JD'' [Call ''oNb'' [V 0, Seq (Call ''_Wc'' []) (G ''VWc'')], K (JNum 16)])), Do (SetV 4 (Meth (V 2) ''Jc'' [])), Loop (Meth (V 4) ''Ob'' []) [Do (SetV 3 (Call ''JD'' [Meth (V 4) ''Pb'' [], K (JNum 65)])), Do (Call ''Ttb'' [Dot (Dot (V 3) ''b'') ''d'', V 3]), Do (Call ''Ttb'' [Dot (Dot (V 3) ''c'') ''b'', V 3])] [], Do (Meth (V 1) ''Ug'' [])],
    fn ''Lgd'' 0 0 [Do (SetG ''Lgd'' (G ''qdb'')), Do (SetG ''Fgd'' (New ''Mgd'' [K (JStr ''AUTOMATIC''), K (JNum 0)])), Do (SetG ''Igd'' (New ''Mgd'' [G ''Twe'', K (JNum 1)])), Do (SetG ''Jgd'' (New ''Mgd'' [G ''Uwe'', K (JNum 2)])), Do (SetG ''Kgd'' (New ''Mgd'' [K (JStr ''TOP''), K (JNum 3)])), Do (SetG ''Ggd'' (New ''Mgd'' [G ''Wwe'', K (JNum 4)])), Do (SetG ''Hgd'' (New ''Mgd'' [G ''Qwe'', K (JNum 5)]))],
    fn ''vFd'' 3 2 [Do (SetV 4 (Meth (V 0) ''gc'' [])), When (Bin Ge (V 1) (V 4)) [Raise (Call ''Lcb'' [New ''rKd'' [V 1, V 4]])] [], When (Meth (V 0) ''Qi'' []) [Do (SetV 3 (Meth (V 0) ''bd'' [V 2])), When (And (Bin Ge (V 3) (K (JNum 0))) (Neg (Loose (V 3) (V 1)))) [Raise (Call ''Lcb'' [New ''kfb'' [G ''WGe'']])] []] [], Ret (Meth (V 0) ''Vi'' [V 1, V 2])],
    fn ''sXd'' 2 3 [Do (SetV 4 (Call ''gGd'' [V 0, V 1])), When (Bin Ge (V 4) (K (JNum 0))) [Ret (V 4)] [], When (Meth (V 0) ''ml'' []) [Do (SetV 3 (K (JNum 0))), Loop (Bin Lt (V 3) (Dot (V 0) ''i'')) [Do (SetV 2 (Meth (V 0) ''nl'' [Call ''JD'' [Idx (Dot (V 0) ''g'') (V 3), K (JNum 57)]])), When (Same (Call ''XD'' [V 2]) (Call ''XD'' [V 1])) [Ret (V 3)] []] [Do (SetV 3 (Bin Minus (V 3) (K (JNum (- 1)))))]] [], Ret (K (JNum (- 1)))],
    fn ''ox'' 2 0 [Do (Put This ''a'' (Call ''JD'' [Call ''Qb'' [V 0], K (JNum 254)])), Do (Put This ''b'' (Call ''JD'' [Call ''Qb'' [V 1], K (JNum 254)])), When (Or (Or (Bin Gt (Meth (V 0) ''Cd'' [V 1]) (K (JNum 0))) (Loose (V 0) (Seq (Call ''Uk'' []) (G ''Tk'')))) (Loose (V 1) (Seq (Call ''il'' []) (G ''hl'')))) [Raise (Call ''Lcb'' [New ''kfb'' [Bin Plus (K (JStr ''Invalid range: '')) (Call ''vx'' [V 0, V 1])]])] []],
    fn ''Zib'' 4 2 [Do (Call ''Vib'' []), Do (SetV 4 (K (JNum 0))), Do (SetV 5 (K (JNum 0))), Loop (Bin Lt (V 5) (V 2)) [Do (SetV 4 (Call ''Mcb'' [Call ''Ycb'' [Call ''Ncb'' [Idx (V 1) (V 5), G ''Mve''], Call ''Ncb'' [V 3, G ''Mve'']], Call ''Ncb'' [Call ''gdb'' [V 4], G ''Mve'']])), Do (PutIdx (V 0) (V 5) (Call ''gdb'' [V 4])), Do (SetV 4 (Call ''cdb'' [V 4, K (JNum 32)]))] [Do (Bin Minus (SetV 5 (Bin Minus (V 5) (K (JNum (- 1))))) (K (JNum 1)))], Ret (Call ''gdb'' [V 4])],
    fn ''VHb'' 3 2 [Do (SetV 4 (K (JNum 0))), Do (SetV 3 (K (JNum 0))), Loop (Bin Lt (V 3) (G ''NHb'')) [Do (SetV 4 (Meth (Dot (G ''$wnd'') ''Math'') ''max'' [V 4, Call ''LHb'' [Idx (Idx (Dot (V 0) ''a'') (Dot (V 1) ''g'')) (V 3), V 2]]))] [Do (Bin Minus (SetV 3 (Bin Minus (V 3) (K (JNum (- 1))))) (K (JNum 1)))], Do (And (And (Loose (V 1) (Seq (Call ''CHb'' []) (G ''AHb''))) (Neg (Neg (Dot (V 0) ''b'')))) (SetV 4 (Meth (Dot (G ''$wnd'') ''Math'') ''max'' [V 4, Dot (Dot (V 0) ''b'') ''b'']))), Ret (V 4)]]"

definition code_4640_4686 :: "(string \<times> jfun) list" where
  "code_4640_4686 = [
    fn ''bGb'' 2 3 [Do (SetV 2 (Call ''JGb'' [New ''LGb'' [], V 0])), Do (SetV 4 (New ''Kmb'' [V 1])), Loop (Bin Lt (Dot (V 4) ''a'') (Dot (Dot (Dot (V 4) ''c'') ''c'') ''length'')) [Do (SetV 3 (Call ''JD'' [Call ''Imb'' [V 4], K (JNum 124)])), Do (Call ''XFb'' [Call ''$Fb'' [Call ''ZFb'' [Call ''_Fb'' [Call ''YFb'' [New ''aGb'' [], K (JNum 0)], K (JNum 0)], V 2], V 3]])] [], Ret (V 2)],
    fn ''Q6c'' 3 2 [Do (Call ''H6c'' [V 0, Bin Minus (V 1) (Dot (V 0) ''s''), Bin Minus (V 2) (Dot (V 0) ''t'')]), Do (SetV 4 (New ''Kmb'' [Dot (V 0) ''n''])), Loop (Bin Lt (Dot (V 4) ''a'') (Dot (Dot (Dot (V 4) ''c'') ''c'') ''length'')) [Do (SetV 3 (Call ''JD'' [Call ''Imb'' [V 4], K (JNum 208)])), Do (Call ''U6c'' [V 3, Bin Minus (Bin Plus (Dot (V 3) ''e'') (V 1)) (Dot (V 0) ''s'')]), Do (Call ''V6c'' [V 3, Bin Minus (Bin Plus (Dot (V 3) ''f'') (V 2)) (Dot (V 0) ''t'')])] [], Do (Put (V 0) ''s'' (V 1)), Do (Put (V 0) ''t'' (V 2))],
    fn ''KXb'' 3 0 [Switch (Dot (V 2) ''g'') [(Some (JNum 1), [Do (Put (V 0) ''a'' (Bin Divide (Dot (V 1) ''a'') (K (JNum 2)))), Do (Put (V 0) ''b'' (K (JNum 0))), Break]), (Some (JNum 2), [Do (Put (V 0) ''a'' (Dot (V 1) ''a'')), Do (Put (V 0) ''b'' (Bin Divide (Dot (V 1) ''b'') (K (JNum 2)))), Break]), (Some (JNum 3), [Do (Put (V 0) ''a'' (Bin Divide (Dot (V 1) ''a'') (K (JNum 2)))), Do (Put (V 0) ''b'' (Dot (V 1) ''b'')), Break]), (Some (JNum 4), [Do (Put (V 0) ''a'' (K (JNum 0))), Do (Put (V 0) ''b'' (Bin Divide (Dot (V 1) ''b'') (K (JNum 2))))])]],
    fn ''$hc'' 4 2 [Do (SetV 4 (V 1)), Loop (Bin Lt (V 4) (Dot (Dot (V 0) ''c'') ''length'')) [Do (SetV 5 (Seq (Call ''MDb'' [V 4, Dot (Dot (V 0) ''c'') ''length'']) (Call ''JD'' [Idx (Dot (V 0) ''c'') (V 4), K (JNum 12)]))), When (Meth (V 2) ''Mb'' [V 5]) [Do (Call ''qDb'' [Dot (V 3) ''c'', V 5])] [Ret (V 4)]] [Do (Bin Minus (SetV 4 (Bin Minus (V 4) (K (JNum (- 1))))) (K (JNum 1)))], Ret (Dot (Dot (V 0) ''c'') ''length'')],
    fn ''jic'' 1 3 [Do (SetV 3 (Meth (Call ''JD'' [Call ''Qc'' [Dot (V 0) ''a'', Seq (Call ''Nhc'' []) (G ''Lhc'')], K (JNum 16)]) ''Jc'' [])), Loop (Meth (V 3) ''Ob'' []) [Do (SetV 2 (Call ''JD'' [Meth (V 3) ''Pb'' [], K (JNum 107)])), Do (SetV 1 (Call ''ric'' [V 2])), Do (Call ''aic'' [V 0, V 2, Idx (V 1) (K (JNum 0)), Seq (Call ''vic'' []) (G ''sic''), K (JNum 0)]), Do (Call ''aic'' [V 0, V 2, Idx (V 1) (K (JNum 1)), G ''uic'', K (JNum 1)])] []],
    fn ''kic'' 1 3 [Do (SetV 3 (Meth (Call ''JD'' [Call ''Qc'' [Dot (V 0) ''a'', Seq (Call ''Nhc'' []) (G ''Mhc'')], K (JNum 16)]) ''Jc'' [])), Loop (Meth (V 3) ''Ob'' []) [Do (SetV 2 (Call ''JD'' [Meth (V 3) ''Pb'' [], K (JNum 107)])), Do (SetV 1 (Call ''ric'' [V 2])), Do (Call ''aic'' [V 0, V 2, Idx (V 1) (K (JNum 0)), Seq (Call ''vic'' []) (G ''sic''), K (JNum 0)]), Do (Call ''aic'' [V 0, V 2, Idx (V 1) (K (JNum 1)), G ''uic'', K (JNum 1)])] []],
    fn ''d2c'' 1 0 [Switch (Dot (V 0) ''g'') [(Some (JNum 0), [Ret (K JNull)]), (Some (JNum 1), [Ret (New ''K2c'' [])]), (Some (JNum 2), [Ret (New ''A2c'' [])]), (None, [Raise (Call ''Lcb'' [New ''kfb'' [Bin Plus (G ''oDe'') (Cond (Neg (Loose (Dot (V 0) ''f'') (K JNull))) (Dot (V 0) ''f'') (Bin Plus (K (JStr '''')) (Dot (V 0) ''g'')))]])])]],
    fn ''Und'' 1 1 [Do (SetV 1 (Bin Times (Call ''Ueb'' [Call ''MD'' [Call ''cvd'' [V 0, Seq (Call ''vjd'' []) (G ''jjd'')]]]) (Meth (Dot (G ''$wnd'') ''Math'') ''sqrt'' [Dot (Seq (And (Neg (Dot (V 0) ''a'')) (Put (V 0) ''a'' (New ''P3d'' [G ''T3'', V 0, K (JNum 10), K (JNum 11)]))) (Dot (V 0) ''a'')) ''i'']))), Ret (New ''lgd'' [V 1, Bin Divide (V 1) (Call ''Ueb'' [Call ''MD'' [Call ''cvd'' [V 0, G ''ijd'']]])])],
    fn ''Zwd'' 1 1 [When (And (Neg (Neg (Dot (V 0) ''f''))) (Meth (Dot (V 0) ''f'') ''Sh'' [])) [Do (SetV 1 (Call ''JD'' [Dot (V 0) ''f'', K (JNum 52)])), Do (Put (V 0) ''f'' (Call ''JD'' [Call ''rtd'' [V 0, V 1], K (JNum 84)])), Do (And (And (And (Neg (Loose (Dot (V 0) ''f'') (V 1))) (Neg (Loose (Bin BitAnd (Dot (V 0) ''Db'') (K (JNum 4))) (K (JNum 0))))) (Loose (Bin BitAnd (Dot (V 0) ''Db'') (K (JNum 1))) (K (JNum 0)))) (Call ''Osd'' [V 0, New ''$1d'' [V 0, K (JNum 9), K (JNum 8), V 1, Dot (V 0) ''f'']]))] [], Ret (Dot (V 0) ''f'')],
    fn ''$wd'' 1 1 [When (And (Neg (Neg (Dot (V 0) ''i''))) (Meth (Dot (V 0) ''i'') ''Sh'' [])) [Do (SetV 1 (Call ''JD'' [Dot (V 0) ''i'', K (JNum 52)])), Do (Put (V 0) ''i'' (Call ''JD'' [Call ''rtd'' [V 0, V 1], K (JNum 84)])), Do (And (And (And (Neg (Loose (Dot (V 0) ''i'') (V 1))) (Neg (Loose (Bin BitAnd (Dot (V 0) ''Db'') (K (JNum 4))) (K (JNum 0))))) (Loose (Bin BitAnd (Dot (V 0) ''Db'') (K (JNum 1))) (K (JNum 0)))) (Call ''Osd'' [V 0, New ''$1d'' [V 0, K (JNum 9), K (JNum 7), V 1, Dot (V 0) ''i'']]))] [], Ret (Dot (V 0) ''i'')],
    fn ''k4d'' 1 1 [When (And (Neg (Neg (Dot (V 0) ''b''))) (Neg (Loose (Bin BitAnd (Dot (Dot (V 0) ''b'') ''Db'') (K (JNum 64))) (K (JNum 0))))) [Do (SetV 1 (Dot (V 0) ''b'')), Do (Put (V 0) ''b'' (Call ''JD'' [Call ''rtd'' [V 0, V 1], K (JNum 19)])), Do (And (And (And (Neg (Loose (Dot (V 0) ''b'') (V 1))) (Neg (Loose (Bin BitAnd (Dot (V 0) ''Db'') (K (JNum 4))) (K (JNum 0))))) (Loose (Bin BitAnd (Dot (V 0) ''Db'') (K (JNum 1))) (K (JNum 0)))) (Call ''Osd'' [V 0, New ''$1d'' [V 0, K (JNum 9), K (JNum 21), V 1, Dot (V 0) ''b'']]))] [], Ret (Dot (V 0) ''b'')],
    fn ''jMd'' 2 3 [When (Loose (Dot (V 0) ''d'') (K JNull)) [Do (Put (V 0) ''e'' (Bin Minus (Dot (V 0) ''e'') (K (JNum (- 1))))), Do (Put (V 0) ''f'' (Bin Minus (Dot (V 0) ''f'') (K (JNum (- 1)))))] [Do (SetV 3 (Meth (V 1) ''yi'' [])), Do (Call ''qMd'' [V 0, Bin Plus (Dot (V 0) ''f'') (K (JNum 1))]), Do (SetV 4 (Bin Modulo (Bin BitAnd (V 3) (G ''Ate'')) (Dot (Dot (V 0) ''d'') ''length''))), Do (SetV 2 (Idx (Dot (V 0) ''d'') (V 4))), Do (And (Neg (V 2)) (SetV 2 (PutIdx (Dot (V 0) ''d'') (V 4) (Meth (V 0) ''bk'' [])))), Do (Meth (V 2) ''Ec'' [V 1]), Do (Put (V 0) ''f'' (Bin Minus (Dot (V 0) ''f'') (K (JNum (- 1)))))]],
    fn ''Zee'' 3 1 [When (Meth (V 1) ''rk'' []) [Ret (K (JBool False))] [When (Neg (Loose (Meth (V 1) ''Gk'' []) (K (JNum (- 2))))) [Do (SetV 3 (Meth (V 1) ''gk'' [])), Ret (Cond (Loose (V 3) (K JNull)) (Loose (V 2) (K JNull)) (Call ''pb'' [V 3, V 2]))] [Ret (And (Loose (Meth (V 1) ''ok'' []) (Meth (Dot (V 0) ''e'') ''Ah'' [])) (Loose (V 2) (K JNull)))]]],
    fn ''Co'' 0 1 [Do (Call ''bk'' [K (JNum 16), G ''uue'']), Do (SetV 0 (Call ''Qp'' [K (JNum 16)])), Do (Put This ''b'' (Call ''SC'' [G ''QF'', G ''tue'', K (JNum 309), V 0, K (JNum 0), K (JNum 1)])), Do (Put This ''c'' (Call ''SC'' [G ''QF'', G ''tue'', K (JNum 309), V 0, K (JNum 0), K (JNum 1)])), Do (Put This ''a'' (K JNull)), Do (Put This ''e'' (K JNull)), Do (Put This ''i'' (K (JNum 0))), Do (Put This ''f'' (Bin Minus (V 0) (K (JNum 1)))), Do (Put This ''g'' (K (JNum 0)))],
    fn ''QYb'' 1 0 [Do (Super ''aYb'' []), Do (Put This ''k'' (Seq (Call ''$Yb'' []) (G ''XYb''))), Do (Put This ''j'' (Seq (Call ''bk'' [K (JNum 6), G ''wue'']) (New ''mmb'' [K (JNum 6)]))), Do (Put This ''b'' (Seq (Call ''bk'' [K (JNum 2), G ''wue'']) (New ''mmb'' [K (JNum 2)]))), Do (Put This ''d'' (New ''yYb'' [])), Do (Put This ''f'' (New ''jZb'' [])), Do (Put This ''a'' (V 0))],
    fn ''eGb'' 1 5 [Do (SetV 2 (K (JNum 0))), Do (SetV 4 (New ''Kmb'' [Dot (V 0) ''a''])), Loop (Bin Lt (Dot (V 4) ''a'') (Dot (Dot (Dot (V 4) ''c'') ''c'') ''length'')) [Do (SetV 3 (Call ''JD'' [Call ''Imb'' [V 4], K (JNum 124)])), Do (Put (V 3) ''d'' (Bin Minus (SetV 2 (Bin Minus (V 2) (K (JNum (- 1))))) (K (JNum 1))))] [], Do (SetV 1 (Call ''dGb'' [V 0])), Do (SetV 5 (K JNull)), Do (And (Bin Gt (Dot (Dot (V 1) ''c'') ''length'') (K (JNum 1))) (SetV 5 (Call ''bGb'' [V 0, V 1]))), Ret (V 5)],
    fn ''xEc'' 1 3 [Do (SetV 1 (K (JNum 0))), Do (SetV 3 (New ''Kmb'' [Dot (Dot (V 0) ''c'') ''a''])), Loop (Bin Lt (Dot (V 3) ''a'') (Dot (Dot (Dot (V 3) ''c'') ''c'') ''length'')) [Do (SetV 2 (Call ''JD'' [Call ''Imb'' [V 3], K (JNum 9)])), Do (SetV 1 (Bin Plus (V 1) (Call ''Br'' [New ''Yr'' [Call ''Dr'' [Meth (Dot (Call ''HYb'' [V 2]) ''a'') ''Jc'' [], New ''Dl'' []]]])))] [], Ret (Bin Divide (V 1) (Dot (Dot (Dot (Dot (V 0) ''c'') ''a'') ''c'') ''length''))],
    fn ''qYd'' 1 2 [Do (SetV 2 (New ''uKd'' [V 0])), Loop (Neg (Loose (Dot (V 2) ''e'') (Meth (Dot (V 2) ''i'') ''gc'' []))) [Do (SetV 1 (Call ''JD'' [Call ''sKd'' [V 2], K (JNum 87)])), When (Or (Neg (Neg (Dot (V 1) ''e''))) (Neg (Loose (Dot (Seq (And (Neg (Dot (V 1) ''d'')) (Put (V 1) ''d'' (New ''iYd'' [G ''z6'', V 1, K (JNum 1)]))) (Dot (V 1) ''d'')) ''i'') (K (JNum 0))))) [Ret (K (JBool True))] []] [], Ret (K (JBool False))],
    fn ''B3d'' 1 2 [Do (SetV 2 (New ''uKd'' [V 0])), Loop (Neg (Loose (Dot (V 2) ''e'') (Meth (Dot (V 2) ''i'') ''gc'' []))) [Do (SetV 1 (Call ''JD'' [Call ''sKd'' [V 2], K (JNum 87)])), When (Or (Neg (Neg (Dot (V 1) ''e''))) (Neg (Loose (Dot (Seq (And (Neg (Dot (V 1) ''d'')) (Put (V 1) ''d'' (New ''iYd'' [G ''z6'', V 1, K (JNum 1)]))) (Dot (V 1) ''d'')) ''i'') (K (JNum 0))))) [Ret (K (JBool True))] []] [], Ret (K (JBool False))],
    fn ''d0c'' 4 3 [Do (SetV 4 (Cond (V 3) (Call ''JD'' [Call ''Qc'' [Dot (V 0) ''a'', V 1], K (JNum 22)]) (Call ''JD'' [Call ''Qc'' [Dot (V 0) ''b'', V 1], K (JNum 22)]))), Do (SetV 6 (Meth (V 4) ''Jc'' [])), Loop (Meth (V 6) ''Ob'' []) [Do (SetV 5 (Call ''JD'' [Meth (V 6) ''Pb'' [], K (JNum 26)])), When (Call ''Z_c'' [V 0, V 2, V 5]) [Ret (K (JBool True))] []] [], Ret (K (JBool False))],
    fn ''tr'' 2 2 [Loop (Meth (V 0) ''Ob'' []) [When (Neg (Meth (V 1) ''Ob'' [])) [Ret (K (JBool False))] [], Do (SetV 2 (Meth (V 0) ''Pb'' [])), Do (SetV 3 (Meth (V 1) ''Pb'' [])), When (Neg (Or (Same (Call ''XD'' [V 2]) (Call ''XD'' [V 3])) (And (Neg (Loose (V 2) (K JNull))) (Call ''pb'' [V 2, V 3])))) [Ret (K (JBool False))] []] [], Ret (Neg (Meth (V 1) ''Ob'' []))],
    fn ''wac'' 1 2 [When (Bin Le (Dot (Dot (V 0) ''c'') ''length'') (K (JNum 1))) [Ret (K JUndef)] [], Do (SetV 1 (Call ''tac'' [V 0, Seq (Call ''Bmd'' []) (G ''ymd'')])), Do (Call ''vac'' [V 0, Dot (Call ''JD'' [Dot (V 1) ''a'', K (JNum 15)]) ''a'', Dot (Call ''JD'' [Dot (V 1) ''b'', K (JNum 15)]) ''a'']), Do (SetV 2 (Call ''tac'' [V 0, G ''Amd''])), Do (Call ''vac'' [V 0, Dot (Call ''JD'' [Dot (V 2) ''a'', K (JNum 15)]) ''a'', Dot (Call ''JD'' [Dot (V 2) ''b'', K (JNum 15)]) ''a''])],
    fn ''PDc'' 3 2 [Do (SetV 4 (Dot (Dot (V 0) ''a'') ''b'')), Do (SetV 3 (Dot (Dot (V 4) ''c'') ''length'')), Loop (Bin Lt (V 3) (V 2)) [Do (Call ''$lb'' [V 4, Dot (Dot (V 4) ''c'') ''length'', New ''y$b'' [Dot (V 0) ''a'']])] [Do (Bin Minus (SetV 3 (Bin Minus (V 3) (K (JNum (- 1))))) (K (JNum 1)))], Do (Call ''NYb'' [V 1, Seq (Call ''MDb'' [Bin Minus (V 2) (K (JNum 1)), Dot (Dot (V 4) ''c'') ''length'']) (Call ''JD'' [Idx (Dot (V 4) ''c'') (Bin Minus (V 2) (K (JNum 1))), K (JNum 25)])]), Do (PutIdx (Dot (V 0) ''b'') (Dot (V 1) ''p'') (V 2))],
    fn ''tYc'' 2 3 [Do (PutIdx (Dot (V 0) ''b'') (Dot (V 1) ''g'') (K (JNum 1))), Do (SetV 3 (Call ''Ztb'' [Dot (V 1) ''d'', K (JNum 0)])), Loop (Neg (Loose (Dot (V 3) ''b'') (Dot (Dot (V 3) ''d'') ''c''))) [Do (SetV 2 (Call ''JD'' [Call ''lub'' [V 3], K (JNum 65)])), Do (SetV 4 (Dot (V 2) ''c'')), Do (Cond (Loose (Idx (Dot (V 0) ''b'') (Dot (V 4) ''g'')) (K (JNum 1))) (Call ''Ttb'' [Dot (V 0) ''a'', V 2]) (Cond (Loose (Idx (Dot (V 0) ''b'') (Dot (V 4) ''g'')) (K (JNum 2))) (PutIdx (Dot (V 0) ''b'') (Dot (V 4) ''g'') (K (JNum 1))) (Call ''tYc'' [V 0, V 4])))] []],
    fn ''P9c'' 0 0 [Do (SetG ''P9c'' (G ''qdb'')), Do (SetG ''O9c'' (Seq (Call ''G9c'' []) (G ''F9c''))), Do (SetG ''M9c'' (New ''hZb'' [K (JNum 8)])), Do (New ''FEd'' [Seq (Call ''vjd'' []) (G ''rid''), G ''M9c'']), Do (New ''FEd'' [G ''djd'', K (JNum 8)]), Do (SetG ''N9c'' (G ''D9c'')), Do (SetG ''K9c'' (G ''t9c'')), Do (SetG ''L9c'' (G ''u9c'')), Do (SetG ''J9c'' (New ''FEd'' [G ''Ghd'', Seq (Call ''Qdb'' []) (K (JBool False))]))],
    fn ''Vad'' 3 1 [Do (Meth (V 2) ''Tg'' [K (JStr ''Shrinking tree compaction''), K (JNum 1)]), When (Call ''Rdb'' [Call ''LD'' [Call ''oNb'' [V 1, Seq (Call ''qMb'' []) (G ''oMb'')]]]) [Do (Call ''Tad'' [V 0, Dot (V 1) ''f'']), Do (Call ''bMb'' [Dot (V 1) ''f'', Seq (SetV 3 (Dot (V 1) ''c'')) (V 3)])] [Do (Call ''bMb'' [Dot (V 1) ''f'', Dot (V 1) ''c''])], Do (Meth (V 2) ''Ug'' [])],
    fn ''owd'' 4 0 [Switch (V 1) [(Some (JNum 7), [Ret (Seq (And (Neg (Dot (V 0) ''e'')) (Put (V 0) ''e'' (New ''jhe'' [G ''Q3'', V 0, K (JNum 7), K (JNum 4)]))) (Dot (V 0) ''e''))]), (Some (JNum 8), [Ret (Seq (And (Neg (Dot (V 0) ''d'')) (Put (V 0) ''d'' (New ''jhe'' [G ''Q3'', V 0, K (JNum 8), K (JNum 5)]))) (Dot (V 0) ''d''))])], Ret (Call ''Tvd'' [V 0, V 1, V 2, V 3])],
    fn ''u0d'' 1 1 [When (And (Neg (Neg (Dot (V 0) ''a''))) (Meth (Dot (V 0) ''a'') ''Sh'' [])) [Do (SetV 1 (Call ''JD'' [Dot (V 0) ''a'', K (JNum 52)])), Do (Put (V 0) ''a'' (Call ''JD'' [Call ''rtd'' [V 0, V 1], K (JNum 143)])), Do (And (And (And (Neg (Loose (Dot (V 0) ''a'') (V 1))) (Neg (Loose (Bin BitAnd (Dot (V 0) ''Db'') (K (JNum 4))) (K (JNum 0))))) (Loose (Bin BitAnd (Dot (V 0) ''Db'') (K (JNum 1))) (K (JNum 0)))) (Call ''Osd'' [V 0, New ''$1d'' [V 0, K (JNum 9), K (JNum 5), V 1, Dot (V 0) ''a'']]))] [], Ret (Dot (V 0) ''a'')],
    fn ''ipe'' 1 0 [When (Bin Lt (V 0) (K (JNum 48))) [Ret (K (JNum (- 1)))] [], When (Bin Gt (V 0) (K (JNum 102))) [Ret (K (JNum (- 1)))] [], When (Bin Le (V 0) (K (JNum 57))) [Ret (Bin Minus (V 0) (K (JNum 48)))] [], When (Bin Lt (V 0) (K (JNum 65))) [Ret (K (JNum (- 1)))] [], When (Bin Le (V 0) (K (JNum 70))) [Ret (Bin Plus (Bin Minus (V 0) (K (JNum 65))) (K (JNum 10)))] [], When (Bin Lt (V 0) (K (JNum 97))) [Ret (K (JNum (- 1)))] [], Ret (Bin Plus (Bin Minus (V 0) (K (JNum 97))) (K (JNum 10)))],
    fn ''ak'' 2 0 [When (Loose (V 0) (K JNull)) [Raise (Call ''Lcb'' [New ''Yfb'' [Bin Plus (K (JStr ''null key in entry: null='')) (V 1)]])] [When (Loose (V 1) (K JNull)) [Raise (Call ''Lcb'' [New ''Yfb'' [Bin Plus (Bin Plus (K (JStr ''null value in entry: '')) (V 0)) (K (JStr ''=null''))]])] []]],
    fn ''FIb'' 2 1 [Do (SetV 2 (Call ''WC'' [Call ''OC'' [G ''aE'', K (JNum 1)], G ''Jve'', K (JNum 30), K (JNum 15), NewArr [Call ''LHb'' [Idx (Dot (V 0) ''a'') (K (JNum 0)), V 1], Call ''LHb'' [Idx (Dot (V 0) ''a'') (K (JNum 1)), V 1], Call ''LHb'' [Idx (Dot (V 0) ''a'') (K (JNum 2)), V 1]]])), When (Dot (V 0) ''d'') [Do (PutIdx (V 2) (K (JNum 0)) (Meth (Dot (G ''$wnd'') ''Math'') ''max'' [Idx (V 2) (K (JNum 0)), Idx (V 2) (K (JNum 2))])), Do (PutIdx (V 2) (K (JNum 2)) (Idx (V 2) (K (JNum 0))))] [], Ret (V 2)],
    fn ''GIb'' 2 1 [Do (SetV 2 (Call ''WC'' [Call ''OC'' [G ''aE'', K (JNum 1)], G ''Jve'', K (JNum 30), K (JNum 15), NewArr [Call ''MHb'' [Idx (Dot (V 0) ''a'') (K (JNum 0)), V 1], Call ''MHb'' [Idx (Dot (V 0) ''a'') (K (JNum 1)), V 1], Call ''MHb'' [Idx (Dot (V 0) ''a'') (K (JNum 2)), V 1]]])), When (Dot (V 0) ''d'') [Do (PutIdx (V 2) (K (JNum 0)) (Meth (Dot (G ''$wnd'') ''Math'') ''max'' [Idx (V 2) (K (JNum 0)), Idx (V 2) (K (JNum 2))])), Do (PutIdx (V 2) (K (JNum 2)) (Idx (V 2) (K (JNum 0))))] [], Ret (V 2)],
    fn ''PEc'' 3 0 [When (Neg (Call ''Nld'' [Call ''JD'' [Call ''oNb'' [V 1, Seq (Call ''nyc'' []) (G ''qxc'')], K (JNum 102)]])) [Do (Call ''OEc'' [V 0, V 1, Call ''LYb'' [V 1, V 2]]), Do (Call ''OEc'' [V 0, V 1, Call ''LYb'' [V 1, Seq (Call ''Bmd'' []) (G ''ymd'')]]), Do (Call ''OEc'' [V 0, V 1, Call ''LYb'' [V 1, G ''hmd'']]), Do (Call ''Inb'' []), Do (Call ''jmb'' [Dot (V 1) ''j'', New ''bFc'' [V 0]])] []],
    fn ''bRc'' 1 2 [Do (Or (Dot (V 0) ''c'') (Call ''eRc'' [V 0])), Do (SetV 2 (New ''ygd'' [])), Do (SetV 1 (New ''Kmb'' [Dot (V 0) ''a''])), Do (Call ''Imb'' [V 1]), Loop (Bin Lt (Dot (V 1) ''a'') (Dot (Dot (Dot (V 1) ''c'') ''c'') ''length'')) [Do (Call ''Ttb'' [V 2, Dot (Call ''JD'' [Call ''Imb'' [V 1], K (JNum 410)]) ''a''])] [], Do (Call ''LDb'' [Neg (Loose (Dot (V 2) ''b'') (K (JNum 0)))]), Do (Call ''bub'' [V 2, Dot (Dot (V 2) ''c'') ''b'']), Ret (V 2)],
    fn ''K6c'' 3 5 [Do (SetV 7 (Bin Plus (Dot (V 0) ''r'') (V 1))), Do (Put (V 0) ''r'' (Bin Plus (Dot (V 0) ''r'') (V 1))), Do (Put (V 0) ''d'' (Bin Plus (Dot (V 0) ''d'') (V 2))), Do (SetV 3 (Bin Divide (V 2) (Dot (Dot (Dot (V 0) ''n'') ''c'') ''length''))), Do (SetV 4 (K (JNum 0))), Do (SetV 6 (New ''Kmb'' [Dot (V 0) ''n''])), Loop (Bin Lt (Dot (V 6) ''a'') (Dot (Dot (Dot (V 6) ''c'') ''c'') ''length'')) [Do (SetV 5 (Call ''JD'' [Call ''Imb'' [V 6], K (JNum 208)])), Do (Call ''T6c'' [V 5, V 7, V 3, V 4]), Do (SetV 4 (Bin Minus (V 4) (K (JNum (- 1)))))] []],
    fn ''DFb'' 1 3 [Do (Meth (Dot (Dot (V 0) ''b'') ''a'') ''$b'' []), Do (Put (V 0) ''a'' (Call ''SC'' [G ''LM'', G ''Gte'', K (JNum 60), Dot (Dot (Dot (Dot (Dot (Dot (V 0) ''c'') ''c'') ''a'') ''b'') ''c'') ''length'', K (JNum 0), K (JNum 1)])), Do (SetV 1 (K (JNum 0))), Do (SetV 3 (New ''Kmb'' [Dot (Dot (Dot (Dot (V 0) ''c'') ''c'') ''a'') ''b''])), Loop (Bin Lt (Dot (V 3) ''a'') (Dot (Dot (Dot (V 3) ''c'') ''c'') ''length'')) [Do (SetV 2 (Call ''JD'' [Call ''Imb'' [V 3], K (JNum 60)])), Do (Put (V 2) ''f'' (Bin Minus (SetV 1 (Bin Minus (V 1) (K (JNum (- 1))))) (K (JNum 1))))] []],
    fn ''xSb'' 1 3 [Do (Meth (Dot (Dot (V 0) ''b'') ''a'') ''$b'' []), Do (Put (V 0) ''a'' (Call ''SC'' [G ''KO'', G ''Gte'', K (JNum 82), Dot (Dot (Dot (Dot (Dot (Dot (V 0) ''c'') ''a'') ''a'') ''b'') ''c'') ''length'', K (JNum 0), K (JNum 1)])), Do (SetV 1 (K (JNum 0))), Do (SetV 3 (New ''Kmb'' [Dot (Dot (Dot (Dot (V 0) ''c'') ''a'') ''a'') ''b''])), Loop (Bin Lt (Dot (V 3) ''a'') (Dot (Dot (Dot (V 3) ''c'') ''c'') ''length'')) [Do (SetV 2 (Call ''JD'' [Call ''Imb'' [V 3], K (JNum 82)])), Do (Put (V 2) ''i'' (Bin Minus (SetV 1 (Bin Minus (V 1) (K (JNum (- 1))))) (K (JNum 1))))] []],
    fn ''K1b'' 1 5 [Do (SetV 3 (New ''Kmb'' [Dot (V 0) ''b''])), Loop (Bin Lt (Dot (V 3) ''a'') (Dot (Dot (Dot (V 3) ''c'') ''c'') ''length'')) [Do (SetV 2 (Call ''JD'' [Call ''Imb'' [V 3], K (JNum 25)])), Do (SetV 1 (K (JNum 0))), Do (SetV 5 (New ''Kmb'' [Dot (V 2) ''a''])), Loop (Bin Lt (Dot (V 5) ''a'') (Dot (Dot (Dot (V 5) ''c'') ''c'') ''length'')) [Do (SetV 4 (Call ''JD'' [Call ''Imb'' [V 5], K (JNum 9)])), Do (Put (V 4) ''p'' (Bin Minus (SetV 1 (Bin Minus (V 1) (K (JNum (- 1))))) (K (JNum 1))))] []] []],
    fn ''Z6c'' 3 4 [Do (SetV 6 (K (JNum 0))), Do (SetV 3 (Bin Divide (V 2) (Dot (Dot (Dot (V 0) ''a'') ''c'') ''length''))), Do (SetV 5 (New ''Kmb'' [Dot (V 0) ''a''])), Loop (Bin Lt (Dot (V 5) ''a'') (Dot (Dot (Dot (V 5) ''c'') ''c'') ''length'')) [Do (SetV 4 (Call ''JD'' [Call ''Imb'' [V 5], K (JNum 173)])), Do (Call ''Q6c'' [V 4, Dot (V 4) ''s'', Bin Plus (Dot (V 4) ''t'') (Bin Times (V 6) (V 3))]), Do (Call ''K6c'' [V 4, Bin Plus (Bin Minus (Dot (V 0) ''d'') (Dot (V 4) ''r'')) (V 1), V 3]), Do (SetV 6 (Bin Minus (V 6) (K (JNum (- 1)))))] []],
    fn ''vr'' 1 1 [Do (SetV 1 (Call ''pr'' [V 0])), When (Neg (Call ''Wr'' [V 0])) [Raise (Call ''Lcb'' [New ''Fdb'' [Bin Plus (Bin Plus (K (JStr ''position (0) must be less than the number of elements that remained ('')) (V 1)) (K (JStr '')''))]])] [], Ret (Call ''Xr'' [V 0])],
    fn ''qBb'' 2 1 [When (Neg (Dot (V 0) ''a'')) [Do (SetV 2 (Call ''SC'' [G ''aE'', G ''Jve'', K (JNum 30), K (JNum 0), K (JNum 15), K (JNum 1)])), Do (Call ''pwb'' [Dot (Dot (V 0) ''b'') ''a'', New ''uBb'' [V 2]]), Do (Call ''uDb'' [V 2, Call ''rdb'' [Dot (Dot (G ''snb'') ''prototype'') ''Ke'', G ''snb'', NewArr []]]), Do (Put (V 0) ''a'' (New ''Swb'' [V 2, Dot (V 0) ''d'']))] [], Ret (Call ''Gwb'' [Dot (V 0) ''a'', V 1])],
    fn ''v2b'' 1 0 [Switch (Dot (V 0) ''g'') [(Some (JNum 1), [Ret (Seq (Call ''Bmd'' []) (G ''Amd''))]), (Some (JNum 4), [Ret (Seq (Call ''Bmd'' []) (G ''hmd''))]), (Some (JNum 3), [Ret (Seq (Call ''Bmd'' []) (G ''gmd''))]), (Some (JNum 2), [Ret (Seq (Call ''Bmd'' []) (G ''ymd''))]), (None, [Ret (Seq (Call ''Bmd'' []) (G ''zmd''))])]],
    fn ''Tgc'' 3 0 [When (And (Loose (Dot (V 1) ''k'') (Seq (Call ''$Yb'' []) (G ''XYb''))) (Loose (Dot (V 2) ''k'') (G ''VYb''))) [Do (Put (V 0) ''d'' (Call ''Qgc'' [V 1, Seq (Call ''Bmd'' []) (G ''ymd'')])), Do (Put (V 0) ''b'' (Call ''Qgc'' [V 1, G ''hmd'']))] [], When (And (Loose (Dot (V 2) ''k'') (G ''XYb'')) (Loose (Dot (V 1) ''k'') (G ''VYb''))) [Do (Put (V 0) ''d'' (Call ''Qgc'' [V 2, Seq (Call ''Bmd'' []) (G ''hmd'')])), Do (Put (V 0) ''b'' (Call ''Qgc'' [V 2, G ''ymd'']))] []],
    fn ''Xgc'' 2 3 [Do (SetV 4 (Call ''IYb'' [V 0, V 1])), Do (SetV 3 (Meth (V 4) ''Jc'' [])), Loop (Meth (V 3) ''Ob'' []) [Do (SetV 2 (Call ''JD'' [Meth (V 3) ''Pb'' [], K (JNum 12)])), When (Or (Neg (Loose (Call ''oNb'' [V 2, Seq (Call ''Wrc'' []) (G ''Crc'')]) (K JNull))) (Call ''TZb'' [New ''UZb'' [Dot (V 2) ''b'']])) [Ret (K (JBool True))] []] [], Ret (K (JBool False))],
    fn ''AKc'' 3 0 [Do (Meth (V 2) ''Tg'' [K (JStr ''Linear segments node placement''), K (JNum 1)]), Do (Put (V 0) ''b'' (Call ''JD'' [Call ''oNb'' [V 1, Seq (Call ''Wrc'' []) (G ''Krc'')], K (JNum 317)])), Do (Call ''BKc'' [V 0, V 1]), Do (Call ''wKc'' [V 0, V 1]), Do (Call ''tKc'' [V 0, V 1]), Do (Call ''zKc'' [V 0]), Do (Put (V 0) ''a'' (K JNull)), Do (Put (V 0) ''b'' (K JNull)), Do (Meth (V 2) ''Ug'' [])],
    fn ''S6c'' 2 0 [Do (Call ''_vd'' [V 1, Bin Plus (Bin Plus (Dot (V 0) ''e'') (Dot (V 0) ''d'')) (Cond (Loose (Dot (Dot (Dot (V 0) ''c'') ''c'') ''length'') (K (JNum 0))) (K (JNum 0)) (Dot (V 0) ''b''))]), Do (Call ''awd'' [V 1, Dot (V 0) ''f'']), Do (Put (V 0) ''a'' (Meth (Dot (G ''$wnd'') ''Math'') ''max'' [Dot (V 0) ''a'', Dot (V 1) ''f''])), Do (Put (V 0) ''d'' (Bin Plus (Dot (V 0) ''d'') (Bin Plus (Dot (V 1) ''g'') (Cond (Loose (Dot (Dot (Dot (V 0) ''c'') ''c'') ''length'') (K (JNum 0))) (K (JNum 0)) (Dot (V 0) ''b''))))), Do (Call ''_lb'' [Dot (V 0) ''c'', V 1]), Ret (K (JBool True))],
    fn ''yfd'' 2 6 [Do (SetV 4 (Bin Minus (Dot (V 1) ''length'') (K (JNum 1)))), Do (SetV 6 (K (JNum 0))), Do (SetV 7 (K (JNum 0))), Do (SetV 3 (K (JNum 0))), Loop (Bin Le (V 3) (V 4)) [Do (SetV 5 (Idx (V 1) (V 3))), Do (SetV 2 (Bin Times (Bin Times (Call ''sfd'' [V 4, V 3]) (Call ''Dfd'' [Bin Minus (K (JNum 1)) (V 0), Bin Minus (V 4) (V 3)])) (Call ''Dfd'' [V 0, V 3]))), Do (SetV 6 (Bin Plus (V 6) (Bin Times (Dot (V 5) ''a'') (V 2)))), Do (SetV 7 (Bin Plus (V 7) (Bin Times (Dot (V 5) ''b'') (V 2))))] [Do (Bin Minus (SetV 3 (Bin Minus (V 3) (K (JNum (- 1))))) (K (JNum 1)))], Ret (New ''lgd'' [V 6, V 7])]]"

definition code_4687_4733 :: "(string \<times> jfun) list" where
  "code_4687_4733 = [
    fn ''$Fd'' 2 5 [Do (SetV 2 (Meth (V 1) ''gc'' [])), Do (Meth (V 0) ''Zi'' [Bin Plus (Dot (V 0) ''i'') (V 2)]), Do (SetV 5 (Meth (V 1) ''Jc'' [])), Do (SetV 6 (Dot (V 0) ''i'')), Do (Put (V 0) ''i'' (Bin Plus (Dot (V 0) ''i'') (V 2))), Do (SetV 3 (V 6)), Loop (Bin Lt (V 3) (Dot (V 0) ''i'')) [Do (SetV 4 (Meth (V 5) ''Pb'' [])), Do (Call ''bGd'' [V 0, V 3, Meth (V 0) ''Xi'' [V 3, V 4]]), Do (Meth (V 0) ''Ki'' [V 3, V 4]), Do (Meth (V 0) ''Li'' [])] [Do (SetV 3 (Bin Minus (V 3) (K (JNum (- 1)))))], Ret (Neg (Loose (V 2) (K (JNum 0))))],
    fn ''iId'' 3 3 [When (Meth (V 0) ''Nj'' []) [Do (SetV 3 (Meth (V 0) ''Cj'' [])), Do (SetV 5 (Meth (V 0) ''Oj'' [])), Do (Put (V 0) ''j'' (Bin Minus (Dot (V 0) ''j'') (K (JNum (- 1))))), Do (Meth (V 0) ''oj'' [V 3, Meth (V 0) ''Xi'' [V 3, V 1]]), Do (SetV 4 (Meth (V 0) ''Gj'' [K (JNum 3), K JNull, V 1, V 3, V 5])), Do (Cond (Neg (V 2)) (SetV 2 (V 4)) (Meth (V 2) ''lj'' [V 4]))] [Do (Call ''pHd'' [V 0, Meth (V 0) ''Cj'' [], V 1])], Ret (V 2)],
    fn ''H$d'' 3 3 [Do (SetV 3 (Call ''JD'' [Call ''fGd'' [Call ''GWd'' [Dot (V 0) ''a''], V 1], K (JNum 87)])), Do (SetV 5 (Seq (SetV 4 (Dot (V 3) ''c'')) (Cond (Call ''RD'' [V 4, K (JNum 88)]) (Call ''JD'' [V 4, K (JNum 29)]) (Seq (Call ''WRd'' []) (G ''MRd''))))), Do (Cond (Loose (Cond (Neg (Loose (Bin BitAnd (Dot (V 5) ''Db'') (K (JNum 64))) (K (JNum 0)))) (Call ''rtd'' [Dot (V 0) ''b'', V 5]) (V 5)) (V 2)) (Call ''v0d'' [V 3]) (Call ''y0d'' [V 3, V 2])), Ret (V 5)],
    fn ''Cle'' 1 1 [Ret (Cond (Loose (V 0) (K JNull)) (K JNull) (New ''oib'' [Seq (SetV 1 (Call ''Ase'' [V 0, K (JBool True)])) (Cond (And (Bin Gt (Dot (V 1) ''length'') (K (JNum 0))) (Seq (Call ''UDb'' [K (JNum 0), Dot (V 1) ''length'']) (Loose (Meth (V 1) ''charCodeAt'' [K (JNum 0)]) (K (JNum 43))))) (Seq (Call ''UDb'' [K (JNum 1), Bin Plus (Dot (V 1) ''length'') (K (JNum 1))]) (Meth (V 1) ''substr'' [K (JNum 1)])) (V 1))]))],
    fn ''Dle'' 1 1 [Ret (Cond (Loose (V 0) (K JNull)) (K JNull) (New ''oib'' [Seq (SetV 1 (Call ''Ase'' [V 0, K (JBool True)])) (Cond (And (Bin Gt (Dot (V 1) ''length'') (K (JNum 0))) (Seq (Call ''UDb'' [K (JNum 0), Dot (V 1) ''length'']) (Loose (Meth (V 1) ''charCodeAt'' [K (JNum 0)]) (K (JNum 43))))) (Seq (Call ''UDb'' [K (JNum 1), Bin Plus (Dot (V 1) ''length'') (K (JNum 1))]) (Meth (V 1) ''substr'' [K (JNum 1)])) (V 1))]))],
    fn ''Zxb'' 8 2 [When (Neg (V 3)) [Ret (K JUndef)] [], Do (SetV 8 (Idx (Dot (V 3) ''a'') (K (JNum 0)))), Do (And (Neg (Neg (V 8))) (Call ''Zxb'' [V 0, V 1, V 2, V 8, V 4, V 5, V 6, V 7])), Do (And (Call ''$xb'' [V 0, V 2, Dot (V 3) ''d'', V 4, V 5, V 6, V 7]) (Meth (V 1) ''Ec'' [V 3])), Do (SetV 9 (Idx (Dot (V 3) ''a'') (K (JNum 1)))), Do (And (Neg (Neg (V 9))) (Call ''Zxb'' [V 0, V 1, V 2, V 9, V 4, V 5, V 6, V 7]))],
    fn ''De'' 2 4 [Do (SetV 5 (Meth (V 0) ''gc'' [])), Do (And (Bin Lt (Dot (V 1) ''length'') (V 5)) (SetV 1 (Call ''vDb'' [New ''Array'' [V 5], V 1]))), Do (SetV 4 (V 1)), Do (SetV 3 (Meth (V 0) ''Jc'' [])), Do (SetV 2 (K (JNum 0))), Loop (Bin Lt (V 2) (V 5)) [Do (Call ''VC'' [V 4, V 2, Meth (V 3) ''Pb'' []])] [Do (SetV 2 (Bin Minus (V 2) (K (JNum (- 1)))))], Do (And (Bin Gt (Dot (V 1) ''length'') (V 5)) (Call ''VC'' [V 1, V 5, K JNull])), Ret (V 1)],
    fn ''Tu'' 2 2 [Do (SetV 3 (Meth (V 0) ''gc'' [])), When (Loose (V 1) (K JNull)) [Do (SetV 2 (K (JNum 0))), Loop (Bin Lt (V 2) (V 3)) [When (Loose (Meth (V 0) ''Xb'' [V 2]) (K JNull)) [Ret (V 2)] []] [Do (Bin Minus (SetV 2 (Bin Minus (V 2) (K (JNum (- 1))))) (K (JNum 1)))]] [Do (SetV 2 (K (JNum 0))), Loop (Bin Lt (V 2) (V 3)) [When (Call ''pb'' [V 1, Meth (V 0) ''Xb'' [V 2]]) [Ret (V 2)] []] [Do (Bin Minus (SetV 2 (Bin Minus (V 2) (K (JNum (- 1))))) (K (JNum 1)))]], Ret (K (JNum (- 1)))],
    fn ''Jd'' 2 3 [Do (SetV 2 (Meth (V 1) ''jd'' [])), Do (SetV 4 (Meth (V 1) ''kd'' [])), Do (SetV 3 (Meth (V 0) ''xc'' [V 2])), When (Neg (Or (Same (Call ''XD'' [V 4]) (Call ''XD'' [V 3])) (And (Neg (Loose (V 4) (K JNull))) (Call ''pb'' [V 4, V 3])))) [Ret (K (JBool False))] [], When (And (Loose (V 3) (K JNull)) (Neg (Meth (V 0) ''_b'' [V 2]))) [Ret (K (JBool False))] [], Ret (K (JBool True))],
    fn ''eD'' 2 3 [When (Bin Le (V 1) (K (JNum 22))) [Do (SetV 2 (Bin BitAnd (Dot (V 0) ''l'') (Bin Minus (Bin Shl (K (JNum 1)) (V 1)) (K (JNum 1))))), Do (SetV 3 (SetV 4 (K (JNum 0))))] [When (Bin Le (V 1) (K (JNum 44))) [Do (SetV 2 (Dot (V 0) ''l'')), Do (SetV 3 (Bin BitAnd (Dot (V 0) ''m'') (Bin Minus (Bin Shl (K (JNum 1)) (Bin Minus (V 1) (K (JNum 22)))) (K (JNum 1))))), Do (SetV 4 (K (JNum 0)))] [Do (SetV 2 (Dot (V 0) ''l'')), Do (SetV 3 (Dot (V 0) ''m'')), Do (SetV 4 (Bin BitAnd (Dot (V 0) ''h'') (Bin Minus (Bin Shl (K (JNum 1)) (Bin Minus (V 1) (K (JNum 44)))) (K (JNum 1)))))]], Ret (Call ''_C'' [V 2, V 3, V 4])],
    fn ''UKb'' 2 0 [Switch (Dot (V 1) ''g'') [(Some (JNum 1), [Ret (Bin Plus (Dot (Dot (Dot (V 0) ''f'') ''n'') ''d'') (Dot (V 0) ''t''))]), (Some (JNum 3), [Ret (Bin Plus (Dot (Dot (Dot (V 0) ''f'') ''n'') ''a'') (Dot (V 0) ''t''))]), (Some (JNum 2), [Ret (Bin Plus (Dot (Dot (Dot (V 0) ''f'') ''n'') ''c'') (Dot (V 0) ''s''))]), (Some (JNum 4), [Ret (Bin Plus (Dot (Dot (Dot (V 0) ''f'') ''n'') ''b'') (Dot (V 0) ''s''))]), (None, [Ret (K (JNum 0))])]],
    fn ''wLb'' 2 2 [Do (SetV 3 (Dot (V 1) ''c'')), Do (SetV 2 (Dot (V 1) ''a'')), Switch (Dot (Dot (V 0) ''b'') ''g'') [(Some (JNum 0), [Do (Put (V 2) ''d'' (Bin Minus (Bin Minus (Dot (V 0) ''e'') (Dot (V 3) ''a'')) (Dot (V 3) ''d''))), Break]), (Some (JNum 1), [Do (Put (V 2) ''d'' (Bin Plus (Dot (V 2) ''d'') (Dot (V 0) ''e''))), Break]), (Some (JNum 2), [Do (Put (V 2) ''c'' (Bin Minus (Bin Minus (Dot (V 0) ''e'') (Dot (V 3) ''a'')) (Dot (V 3) ''d''))), Break]), (Some (JNum 3), [Do (Put (V 2) ''c'' (Bin Plus (Dot (V 0) ''e'') (Dot (V 3) ''d'')))])]],
    fn ''U1c'' 0 0 [Do (SetG ''U1c'' (G ''qdb'')), Do (SetG ''T1c'' (New ''W1c'' [G ''qye'', K (JNum 0)])), Do (SetG ''R1c'' (New ''W1c'' [G ''jze'', K (JNum 1)])), Do (SetG ''S1c'' (New ''W1c'' [K (JStr ''EDGE_LENGTH_BY_POSITION''), K (JNum 2)])), Do (SetG ''Q1c'' (New ''W1c'' [K (JStr ''CROSSING_MINIMIZATION_BY_POSITION''), K (JNum 3)]))],
    fn ''dCd'' 2 2 [Do (SetV 2 (Call ''JD'' [Call ''uo'' [Dot (V 0) ''n'', V 1], K (JNum 26)])), When (V 2) [Ret (V 2)] [], Do (SetV 3 (Call ''JD'' [Call ''uo'' [Dot (V 0) ''p'', V 1], K (JNum 125)])), When (V 3) [Ret (V 3)] [], Raise (Call ''Lcb'' [New ''YAd'' [Bin Plus (K (JStr ''Referenced shape does not exist: '')) (V 1)]])],
    fn ''CKd'' 2 1 [When (Loose (Dot (V 0) ''g'') (K (JNum (- 1)))) [Raise (Call ''Lcb'' [New ''mfb'' []])] [], Do (Meth (V 0) ''Vj'' []), Try [Do (Meth (Dot (V 0) ''d'') ''fd'' [Dot (V 0) ''g'', V 1]), Do (Put (V 0) ''f'' (Dot (Dot (V 0) ''d'') ''j''))] 2 [Do (SetV 2 (Call ''Kcb'' [V 2])), When (Call ''RD'' [V 2, K (JNum 99)]) [Raise (Call ''Lcb'' [New ''Rqb'' []])] [Raise (Call ''Lcb'' [V 2])]]],
    fn ''Nk'' 2 3 [When (Call ''RD'' [V 1, K (JNum 254)]) [Do (SetV 3 (Call ''JD'' [V 1, K (JNum 254)])), Try [Do (SetV 2 (Meth (V 0) ''Cd'' [V 3])), Ret (Loose (V 2) (K (JNum 0)))] 4 [Do (SetV 4 (Call ''Kcb'' [V 4])), When (Call ''RD'' [V 4, K (JNum 211)]) [Ret (K (JBool False))] [Raise (Call ''Lcb'' [V 4])]]] [], Ret (K (JBool False))],
    fn ''XPb'' 2 0 [When (Loose (Dot (V 0) ''c'') (V 1)) [Ret (Dot (V 0) ''d'')] [When (Loose (Dot (V 0) ''d'') (V 1)) [Ret (Dot (V 0) ''c'')] [Raise (Call ''Lcb'' [New ''kfb'' [K (JStr (''Node '' @ CHR 0x27 # ''one'' @ CHR 0x27 # '' must be either source or target of edge '' @ CHR 0x27 # ''edge'' @ CHR 0x27 # ''.''))]])]]],
    fn ''aOc'' 2 0 [When (Loose (Dot (Dot (V 0) ''c'') ''i'') (V 1)) [Ret (Dot (Dot (V 0) ''d'') ''i'')] [When (Loose (Dot (Dot (V 0) ''d'') ''i'') (V 1)) [Ret (Dot (Dot (V 0) ''c'') ''i'')] [Raise (Call ''Lcb'' [New ''kfb'' [Bin Plus (Bin Plus (Bin Plus (K (JStr ''Node '')) (V 1)) (K (JStr '' is neither source nor target of edge ''))) (V 0)]])]]],
    fn ''$ac'' 3 0 [Do (Meth (V 2) ''Tg'' [K (JStr ''Self-Loop ordering''), K (JNum 1)]), Do (Call ''YBb'' [Call ''ZBb'' [Call ''VBb'' [Call ''VBb'' [Call ''XBb'' [New ''jCb'' [K JNull, New ''Zvb'' [Dot (V 1) ''b'', K (JNum 16)]], New ''cbc'' []], New ''ebc'' []], New ''gbc'' []], New ''ibc'' []], New ''kbc'' [V 0]]), Do (Meth (V 2) ''Ug'' [])],
    fn ''mkc'' 6 5 [Do (SetV 6 (Call ''kkc'' [V 1, V 2, V 5])), Do (SetV 7 (Cond (Or (Loose (V 2) (Seq (Call ''Bmd'' []) (G ''hmd''))) (Loose (V 2) (G ''Amd''))) (K (JNum (- 1))) (K (JNum 1)))), Do (SetV 9 (Idx (V 0) (Dot (V 2) ''g''))), Do (SetV 10 (K (JNum 0))), Loop (Bin Lt (V 10) (Dot (V 9) ''length'')) [Do (SetV 8 (Idx (V 9) (V 10))), Do (And (Bin Gt (V 8) (K (JNum 0))) (SetV 8 (Bin Plus (V 8) (V 4)))), Do (PutIdx (V 9) (V 10) (V 6)), Do (SetV 6 (Bin Plus (V 6) (Bin Times (V 7) (Bin Plus (V 8) (V 3)))))] [Do (Bin Minus (SetV 10 (Bin Minus (V 10) (K (JNum (- 1))))) (K (JNum 1)))]],
    fn ''Xlc'' 1 1 [Do (SetV 1 (K (JNum 0))), Loop (Bin Lt (V 1) (Dot (Dot (Dot (V 0) ''a'') ''c'') ''length'')) [When (Call ''pNb'' [Call ''JD'' [Call ''dmb'' [Dot (V 0) ''a'', V 1], K (JNum 9)], Seq (Call ''nyc'' []) (G ''Mwc'')]) [When (Call ''Rdb'' [Call ''LD'' [Call ''oNb'' [Call ''JD'' [Call ''dmb'' [Dot (V 0) ''a'', V 1], K (JNum 9)], G ''Mwc'']]]) [Ret (K (JBool True))] []] []] [Do (Bin Minus (SetV 1 (Bin Minus (V 1) (K (JNum (- 1))))) (K (JNum 1)))], Ret (K (JBool False))],
    fn ''Zmc'' 1 3 [Do (SetV 3 (Dot (V 0) ''f'')), Do (Put (V 0) ''n'' (Call ''SC'' [G ''aE'', G ''Jve'', K (JNum 30), V 3, K (JNum 15), K (JNum 1)])), Do (Put (V 0) ''d'' (Call ''SC'' [G ''aE'', G ''Jve'', K (JNum 30), V 3, K (JNum 15), K (JNum 1)])), Do (SetV 1 (K (JNum 0))), Loop (Bin Lt (V 1) (V 3)) [Do (SetV 2 (Call ''JD'' [Call ''dmb'' [Dot (Dot (V 0) ''c'') ''b'', V 1], K (JNum 25)])), Do (PutIdx (Dot (V 0) ''n'') (V 1) (Call ''Wmc'' [V 0, V 2])), Do (PutIdx (Dot (V 0) ''d'') (V 1) (Call ''Vmc'' [V 0, V 2]))] [Do (Bin Minus (SetV 1 (Bin Minus (V 1) (K (JNum (- 1))))) (K (JNum 1)))]],
    fn ''T$c'' 4 1 [Do (Put This ''c'' (V 0)), Do (Put This ''d'' (V 1)), Do (SetV 4 (New ''dub'' [])), Do (Call ''Wtb'' [V 4, V 2, Dot (Dot (V 4) ''c'') ''b'', Dot (V 4) ''c'']), Do (Put This ''a'' (V 4)), Do (Put This ''b'' (Call ''JD'' [Call ''oNb'' [V 3, Seq (Call ''SXc'' []) (G ''qXc'')], K (JNum 86)])), Do (Put This ''e'' (Call ''Ueb'' [Call ''MD'' [Call ''oNb'' [V 3, G ''JXc'']]])), Do (Call ''S$c'' [This])],
    fn ''tud'' 2 3 [Do (SetV 4 (K (JNum 0))), Do (SetV 3 (K (JNum 2))), Loop (Bin Lt (V 3) (V 1)) [Do (And (Neg (Loose (Bin BitAnd (Dot (V 0) ''Db'') (V 3)) (K (JNum 0)))) (SetV 4 (Bin Minus (V 4) (K (JNum (- 1))))))] [Do (SetV 3 (Bin Shl (V 3) (K (JNum 1))))], When (Loose (V 4) (K (JNum 0))) [Do (SetV 2 (SetV 1 (Bin Shl (V 1) (K (JNum 1))))), Loop (Bin Le (V 2) (K (JNum 128))) [When (Neg (Loose (Bin BitAnd (Dot (V 0) ''Db'') (V 2)) (K (JNum 0)))) [Ret (K (JNum 0))] []] [Do (SetV 2 (Bin Shl (V 2) (K (JNum 1))))], Ret (K (JNum (- 1)))] [Ret (V 4)]],
    fn ''dfe'' 2 5 [Do (SetV 6 (Call ''Cie'' [Meth (Dot (V 0) ''e'') ''Ah'' [], V 1])), Do (SetV 5 (K JNull)), Do (SetV 2 (Call ''JD'' [Dot (V 0) ''g'', K (JNum 122)])), Do (SetV 4 (K (JNum 0))), Loop (Bin Lt (V 4) (Dot (V 0) ''i'')) [Do (SetV 3 (Idx (V 2) (V 4))), When (Meth (V 6) ''$l'' [Meth (V 3) ''Jk'' []]) [Do (And (Neg (V 5)) (SetV 5 (New ''nGd'' []))), Do (Call ''lFd'' [V 5, V 3])] []] [Do (SetV 4 (Bin Minus (V 4) (K (JNum (- 1)))))], Do (And (Neg (Neg (V 5))) (Call ''NJd'' [V 0, V 5]))],
    fn ''rle'' 1 3 [When (Neg (V 0)) [Ret (K JNull)] [], When (Meth (V 0) ''dc'' []) [Ret (K (JStr ''''))] [], Do (SetV 3 (New ''$gb'' [])), Do (SetV 2 (Meth (V 0) ''Jc'' [])), Loop (Meth (V 2) ''Ob'' []) [Do (SetV 1 (Meth (V 2) ''Pb'' [])), Do (Call ''Xgb'' [V 3, Call ''OD'' [V 1]]), Do (Put (V 3) ''a'' (Bin Plus (Dot (V 3) ''a'') (K (JStr '' ''))))] [], Ret (Call ''Adb'' [V 3, Bin Minus (Dot (Dot (V 3) ''a'') ''length'') (K (JNum 1))])],
    fn ''TC'' 2 3 [Do (SetV 2 (New ''Array'' [V 1])), Switch (V 0) [(Some (JNum 14), []), (Some (JNum 15), [Do (SetV 3 (K (JNum 0))), Break]), (Some (JNum 16), [Do (SetV 3 (K (JBool False))), Break]), (None, [Ret (V 2)])], Do (SetV 4 (K (JNum 0))), Loop (Bin Lt (V 4) (V 1)) [Do (PutIdx (V 2) (V 4) (V 3))] [Do (SetV 4 (Bin Minus (V 4) (K (JNum (- 1)))))], Ret (V 2)],
    fn ''ZEb'' 1 3 [Do (SetV 2 (New ''Kmb'' [Dot (Dot (V 0) ''a'') ''b''])), Loop (Bin Lt (Dot (V 2) ''a'') (Dot (Dot (Dot (V 2) ''c'') ''c'') ''length'')) [Do (SetV 1 (Call ''JD'' [Call ''Imb'' [V 2], K (JNum 60)])), Do (Meth (Dot (V 1) ''c'') ''$b'' [])] [], Do (Cond (Call ''Ejd'' [Dot (V 0) ''d'']) (SetV 3 (Dot (Dot (V 0) ''a'') ''c'')) (SetV 3 (Dot (Dot (V 0) ''a'') ''d''))), Do (Call ''cmb'' [V 3, New ''nFb'' [V 0]]), Do (Meth (Dot (V 0) ''c'') ''bf'' [V 0]), Do (Call ''$Eb'' [V 0])],
    fn ''SNb'' 1 4 [Do (SetV 2 (New ''Kmb'' [Dot (Dot (V 0) ''e'') ''c''])), Loop (Bin Lt (Dot (V 2) ''a'') (Dot (Dot (Dot (V 2) ''c'') ''c'') ''length'')) [Do (SetV 1 (Call ''JD'' [Call ''Imb'' [V 2], K (JNum 291)])), Do (SetV 4 (New ''Kmb'' [Dot (V 1) ''b''])), Loop (Bin Lt (Dot (V 4) ''a'') (Dot (Dot (Dot (V 4) ''c'') ''c'') ''length'')) [Do (SetV 3 (Call ''JD'' [Call ''Imb'' [V 4], K (JNum 445)])), Do (Call ''LNb'' [V 3])] [], Do (Call ''ANb'' [V 1])] []],
    fn ''SXb'' 1 3 [Do (SetV 3 (G ''Ate'')), Do (SetV 2 (New ''Kmb'' [Dot (V 0) ''a''])), Loop (Bin Lt (Dot (V 2) ''a'') (Dot (Dot (Dot (V 2) ''c'') ''c'') ''length'')) [Do (SetV 1 (Call ''JD'' [Call ''Imb'' [V 2], K (JNum 9)])), Do (And (Call ''pNb'' [V 1, Seq (Call ''Wrc'' []) (G ''trc'')]) (SetV 3 (Meth (Dot (G ''$wnd'') ''Math'') ''min'' [V 3, Dot (Call ''JD'' [Call ''oNb'' [V 1, G ''trc''], K (JNum 15)]) ''a''])))] [], Ret (V 3)],
    fn ''c7c'' 1 5 [Do (SetV 3 (K (JNum 0))), Do (SetV 5 (K (JNum 0))), Do (SetV 4 (K (JNum 0))), Do (SetV 2 (New ''Kmb'' [Dot (V 0) ''a''])), Loop (Bin Lt (Dot (V 2) ''a'') (Dot (Dot (Dot (V 2) ''c'') ''c'') ''length'')) [Do (SetV 1 (Call ''JD'' [Call ''Imb'' [V 2], K (JNum 173)])), Do (SetV 5 (Meth (Dot (G ''$wnd'') ''Math'') ''max'' [V 5, Dot (V 1) ''r''])), Do (SetV 3 (Bin Plus (V 3) (Bin Plus (Dot (V 1) ''d'') (Cond (Bin Gt (V 4) (K (JNum 0))) (Dot (V 0) ''c'') (K (JNum 0)))))), Do (SetV 4 (Bin Minus (V 4) (K (JNum (- 1)))))] [], Do (Put (V 0) ''b'' (V 3)), Do (Put (V 0) ''d'' (V 5))],
    fn ''WHb'' 2 1 [Do (SetV 2 (Call ''WC'' [Call ''OC'' [G ''aE'', K (JNum 1)], G ''Jve'', K (JNum 30), K (JNum 15), NewArr [Call ''VHb'' [V 0, Seq (Call ''CHb'' []) (G ''zHb''), V 1], Call ''VHb'' [V 0, G ''AHb'', V 1], Call ''VHb'' [V 0, G ''BHb'', V 1]]])), When (Dot (V 0) ''f'') [Do (PutIdx (V 2) (K (JNum 0)) (Meth (Dot (G ''$wnd'') ''Math'') ''max'' [Idx (V 2) (K (JNum 0)), Idx (V 2) (K (JNum 2))])), Do (PutIdx (V 2) (K (JNum 2)) (Idx (V 2) (K (JNum 0))))] [], Ret (V 2)],
    fn ''g2b'' 1 1 [When (Neg (Call ''pNb'' [V 0, Seq (Call ''nyc'' []) (G ''Twc'')])) [Ret (K JUndef)] [], Do (SetV 1 (Call ''JD'' [Call ''oNb'' [V 0, G ''Twc''], K (JNum 22)])), When (Meth (V 1) ''Gc'' [Seq (Call ''old'' []) (G ''gld'')]) [Do (Meth (V 1) ''Kc'' [G ''gld'']), Do (Meth (V 1) ''Ec'' [G ''ild''])] [When (Meth (V 1) ''Gc'' [G ''ild'']) [Do (Meth (V 1) ''Kc'' [G ''ild'']), Do (Meth (V 1) ''Ec'' [G ''gld''])] []]],
    fn ''h2b'' 1 1 [When (Neg (Call ''pNb'' [V 0, Seq (Call ''nyc'' []) (G ''Twc'')])) [Ret (K JUndef)] [], Do (SetV 1 (Call ''JD'' [Call ''oNb'' [V 0, G ''Twc''], K (JNum 22)])), When (Meth (V 1) ''Gc'' [Seq (Call ''old'' []) (G ''nld'')]) [Do (Meth (V 1) ''Kc'' [G ''nld'']), Do (Meth (V 1) ''Ec'' [G ''lld''])] [When (Meth (V 1) ''Gc'' [G ''lld'']) [Do (Meth (V 1) ''Kc'' [G ''lld'']), Do (Meth (V 1) ''Ec'' [G ''nld''])] []]],
    fn ''Ekc'' 4 4 [Do (And (Loose (Dot (V 0) ''a'') (K JNull)) (Call ''Hkc'' [V 0, V 1])), Do (SetV 6 (Dot (Dot (Dot (Dot (V 1) ''b'') ''j'') ''c'') ''length'')), Do (SetV 5 (Dot (Dot (V 2) ''d'') ''p'')), Do (SetV 7 (Dot (Dot (V 3) ''d'') ''p'')), Do (SetV 4 (Bin Minus (V 7) (K (JNum 1)))), Do (And (Bin Lt (V 4) (K (JNum 0))) (SetV 4 (Bin Minus (V 6) (K (JNum 1))))), Ret (Cond (Bin Le (V 5) (V 4)) (Bin Minus (Idx (Dot (V 0) ''a'') (V 4)) (Idx (Dot (V 0) ''a'') (V 5))) (Bin Plus (Bin Minus (Idx (Dot (V 0) ''a'') (Bin Minus (V 6) (K (JNum 1)))) (Idx (Dot (V 0) ''a'') (V 5))) (Idx (Dot (V 0) ''a'') (V 4))))],
    fn ''Ylc'' 1 1 [Do (SetV 1 (K (JNum 0))), Loop (Bin Lt (V 1) (Dot (Dot (Dot (V 0) ''a'') ''c'') ''length'')) [When (Call ''pNb'' [Call ''JD'' [Call ''dmb'' [Dot (V 0) ''a'', V 1], K (JNum 9)], Seq (Call ''nyc'' []) (G ''Nwc'')]) [When (Neg (Call ''Rdb'' [Call ''LD'' [Call ''oNb'' [Call ''JD'' [Call ''dmb'' [Dot (V 0) ''a'', V 1], K (JNum 9)], G ''Nwc'']]])) [Ret (K (JBool False))] []] []] [Do (Bin Minus (SetV 1 (Bin Minus (V 1) (K (JNum (- 1))))) (K (JNum 1)))], Ret (K (JBool True))],
    fn ''zmc'' 3 5 [Do (SetV 5 (Dot (V 0) ''c'')), Do (SetV 7 (Cond (V 2) (V 1) (V 0))), Do (SetV 3 (Cond (V 2) (V 0) (V 1))), Do (SetV 4 (Bin Plus (Dot (V 7) ''p'') (K (JNum 1)))), Loop (Bin Lt (V 4) (Dot (V 3) ''p'')) [Do (SetV 6 (Call ''JD'' [Call ''dmb'' [Dot (V 5) ''a'', V 4], K (JNum 9)])), When (Neg (Or (Loose (Dot (V 6) ''k'') (Seq (Call ''$Yb'' []) (G ''SYb''))) (Call ''Amc'' [V 6]))) [Ret (K (JBool False))] []] [Do (SetV 4 (Bin Minus (V 4) (K (JNum (- 1)))))], Ret (K (JBool True))],
    fn ''$rd'' 1 2 [When (Neg (Dot (V 0) ''b'')) [Do (Put (V 0) ''b'' (Call ''Yu'' [Dot (Meth (Call ''JD'' [Dot (V 0) ''f'', K (JNum 26)]) ''jh'' []) ''i''])), Do (SetV 2 (New ''uKd'' [Meth (Call ''JD'' [Dot (V 0) ''f'', K (JNum 26)]) ''jh'' []])), Loop (Neg (Loose (Dot (V 2) ''e'') (Meth (Dot (V 2) ''i'') ''gc'' []))) [Do (SetV 1 (Call ''JD'' [Call ''sKd'' [V 2], K (JNum 157)])), Do (Call ''_lb'' [Dot (V 0) ''b'', New ''Zrd'' [V 1]])] []] [], Ret (Dot (V 0) ''b'')],
    fn ''_rd'' 1 2 [When (Neg (Dot (V 0) ''e'')) [Do (Put (V 0) ''e'' (Call ''Yu'' [Dot (Call ''Szd'' [Call ''JD'' [Dot (V 0) ''f'', K (JNum 26)]]) ''i''])), Do (SetV 2 (New ''uKd'' [Call ''Szd'' [Call ''JD'' [Dot (V 0) ''f'', K (JNum 26)]]])), Loop (Neg (Loose (Dot (V 2) ''e'') (Meth (Dot (V 2) ''i'') ''gc'' []))) [Do (SetV 1 (Call ''JD'' [Call ''sKd'' [V 2], K (JNum 125)])), Do (Call ''_lb'' [Dot (V 0) ''e'', New ''nsd'' [V 1]])] []] [], Ret (Dot (V 0) ''e'')],
    fn ''Wrd'' 1 2 [When (Neg (Dot (V 0) ''a'')) [Do (Put (V 0) ''a'' (Call ''Yu'' [Dot (Call ''Pzd'' [Call ''JD'' [Dot (V 0) ''f'', K (JNum 26)]]) ''i''])), Do (SetV 2 (New ''uKd'' [Call ''Pzd'' [Call ''JD'' [Dot (V 0) ''f'', K (JNum 26)]]])), Loop (Neg (Loose (Dot (V 2) ''e'') (Meth (Dot (V 2) ''i'') ''gc'' []))) [Do (SetV 1 (Call ''JD'' [Call ''sKd'' [V 2], K (JNum 26)])), Do (Call ''_lb'' [Dot (V 0) ''a'', New ''bsd'' [V 0, V 1]])] []] [], Ret (Dot (V 0) ''a'')],
    fn ''QVd'' 1 2 [When (And (Neg (Dot (V 0) ''C'')) (Or (Neg (Loose (Dot (V 0) ''D'') (K JNull))) (Neg (Loose (Dot (V 0) ''B'') (K JNull))))) [Do (SetV 1 (Call ''RVd'' [V 0])), When (V 1) [Do (Meth (V 0) ''fl'' [V 1])] [Try [Do (Meth (V 0) ''fl'' [K JNull])] 2 [Do (SetV 2 (Call ''Kcb'' [V 2])), When (Neg (Call ''RD'' [V 2, K (JNum 63)])) [Raise (Call ''Lcb'' [V 2])] []]]] [], Ret (Dot (V 0) ''C'')],
    fn ''aKb'' 1 0 [Switch (Dot (Dot (V 0) ''q'') ''g'') [(Some (JNum 5), [Do (Call ''ZJb'' [V 0, Seq (Call ''Bmd'' []) (G ''hmd'')]), Do (Call ''ZJb'' [V 0, G ''ymd'']), Break]), (Some (JNum 4), [Do (Call ''$Jb'' [V 0, Seq (Call ''Bmd'' []) (G ''hmd'')]), Do (Call ''$Jb'' [V 0, G ''ymd'']), Break]), (None, [Do (Call ''_Jb'' [V 0, Seq (Call ''Bmd'' []) (G ''hmd'')]), Do (Call ''_Jb'' [V 0, G ''ymd''])])]],
    fn ''jLb'' 1 0 [Switch (Dot (Dot (V 0) ''q'') ''g'') [(Some (JNum 5), [Do (Call ''gLb'' [V 0, Seq (Call ''Bmd'' []) (G ''gmd'')]), Do (Call ''gLb'' [V 0, G ''Amd'']), Break]), (Some (JNum 4), [Do (Call ''hLb'' [V 0, Seq (Call ''Bmd'' []) (G ''gmd'')]), Do (Call ''hLb'' [V 0, G ''Amd'']), Break]), (None, [Do (Call ''iLb'' [V 0, Seq (Call ''Bmd'' []) (G ''gmd'')]), Do (Call ''iLb'' [V 0, G ''Amd''])])]],
    fn ''kUb'' 2 3 [Do (SetV 4 (New ''jgd'' [])), Do (SetV 3 (Meth (V 0) ''Jc'' [])), Loop (Meth (V 3) ''Ob'' []) [Do (SetV 2 (Call ''JD'' [Meth (V 3) ''Pb'' [], K (JNum 36)])), Do (Call ''aUb'' [V 2, Dot (V 4) ''a'', K (JNum 0)]), Do (Put (V 4) ''a'' (Bin Plus (Dot (V 4) ''a'') (Bin Plus (Dot (Dot (V 2) ''f'') ''a'') (V 1)))), Do (Put (V 4) ''b'' (Meth (Dot (G ''$wnd'') ''Math'') ''max'' [Dot (V 4) ''b'', Dot (Dot (V 2) ''f'') ''b'']))] [], Do (And (Bin Gt (Dot (V 4) ''b'') (K (JNum 0))) (Put (V 4) ''b'' (Bin Plus (Dot (V 4) ''b'') (V 1)))), Ret (V 4)],
    fn ''mUb'' 2 3 [Do (SetV 4 (New ''jgd'' [])), Do (SetV 3 (Meth (V 0) ''Jc'' [])), Loop (Meth (V 3) ''Ob'' []) [Do (SetV 2 (Call ''JD'' [Meth (V 3) ''Pb'' [], K (JNum 36)])), Do (Call ''aUb'' [V 2, K (JNum 0), Dot (V 4) ''b'']), Do (Put (V 4) ''b'' (Bin Plus (Dot (V 4) ''b'') (Bin Plus (Dot (Dot (V 2) ''f'') ''b'') (V 1)))), Do (Put (V 4) ''a'' (Meth (Dot (G ''$wnd'') ''Math'') ''max'' [Dot (V 4) ''a'', Dot (Dot (V 2) ''f'') ''a'']))] [], Do (And (Bin Gt (Dot (V 4) ''a'') (K (JNum 0))) (Put (V 4) ''a'' (Bin Plus (Dot (V 4) ''a'') (V 1)))), Ret (V 4)],
    fn ''yIc'' 2 2 [When (Loose (Dot (V 1) ''length'') (K (JNum 0))) [Ret (K (JNum 0))] [], Do (SetV 2 (Call ''WIc'' [Dot (V 0) ''a'', Idx (V 1) (K (JNum 0)), Seq (Call ''Bmd'' []) (G ''Amd'')])), Do (SetV 2 (Bin Plus (V 2) (Call ''WIc'' [Dot (V 0) ''a'', Idx (V 1) (Bin Minus (Dot (V 1) ''length'') (K (JNum 1))), G ''gmd'']))), Do (SetV 3 (K (JNum 0))), Loop (Bin Lt (V 3) (Dot (V 1) ''length'')) [Do (SetV 2 (Bin Plus (V 2) (Call ''zIc'' [V 0, V 3, V 1])))] [Do (Bin Minus (SetV 3 (Bin Minus (V 3) (K (JNum (- 1))))) (K (JNum 1)))], Ret (V 2)],
    fn ''ERc'' 0 0 [Do (Call ''qRc'' []), Do (Put This ''c'' (New ''lmb'' [])), Do (Put This ''i'' (New ''lmb'' [])), Do (Put This ''e'' (New ''Ptb'' [])), Do (Put This ''f'' (New ''Ptb'' [])), Do (Put This ''g'' (New ''Ptb'' [])), Do (Put This ''j'' (New ''lmb'' [])), Do (Put This ''a'' (New ''lmb'' [])), Do (Put This ''b'' (New ''_rb'' [])), Do (Put This ''k'' (New ''_rb'' []))]]"

definition code_4734_4734 :: "(string \<times> jfun) list" where
  "code_4734_4734 = [
    fn ''NVd'' 2 2 [When (Loose (Bin Shr (Dot (V 0) ''Db'') (K (JNum 16))) (K (JNum 6))) [Ret (Meth (Dot (V 0) ''Cb'') ''Qh'' [V 0, K (JNum 5), G ''E6'', V 1])] [], Ret (Seq (SetV 3 (Call ''k4d'' [Call ''JD'' [Call ''IWd'' [Seq (SetV 2 (Call ''JD'' [Call ''uud'' [V 0, K (JNum 16)], K (JNum 29)])) (Cond (Neg (V 2)) (Meth (V 0) ''fi'' []) (V 2)), Bin Shr (Dot (V 0) ''Db'') (K (JNum 16))], K (JNum 19)]])) (Meth (Dot (V 0) ''Cb'') ''Qh'' [V 0, Dot (V 3) ''n'', Dot (V 3) ''f'', V 1]))]]"

definition object_table14 :: "(string \<times> jfun) list" where
  "object_table14 = code_4601_4638 @ code_4640_4686 @ code_4687_4733 @ code_4734_4734"

text \<open>The names each table declares.\<close>

lemma names_4601_4638 [js_names]: "map fst code_4601_4638 = [
    ''vQd'', ''Knb'', ''_Pc'', ''PYb'', ''yzc'', ''etd'', ''twd'', ''evd'', ''au'', ''jKb'',
    ''i7b'', ''mDc'', ''lLb'', ''dKb'', ''x_c'', ''VUb'', ''jId'', ''IJd'', ''eie'', ''_sd'',
    ''FKb'', ''ID'', ''K0b'', ''vgc'', ''uIc'', ''lSc'', ''Qfe'', ''cWb'', ''Q7b'', ''Klc'',
    ''lzc'', ''oWc'', ''Lgd'', ''vFd'', ''sXd'', ''ox'', ''Zib'', ''VHb'']"
  by (simp add: code_4601_4638_def fn_def)

lemma names_4640_4686 [js_names]: "map fst code_4640_4686 = [
    ''bGb'', ''Q6c'', ''KXb'', ''$hc'', ''jic'', ''kic'', ''d2c'', ''Und'', ''Zwd'', ''$wd'',
    ''k4d'', ''jMd'', ''Zee'', ''Co'', ''QYb'', ''eGb'', ''xEc'', ''qYd'', ''B3d'', ''d0c'',
    ''tr'', ''wac'', ''PDc'', ''tYc'', ''P9c'', ''Vad'', ''owd'', ''u0d'', ''ipe'', ''ak'',
    ''FIb'', ''GIb'', ''PEc'', ''bRc'', ''K6c'', ''DFb'', ''xSb'', ''K1b'', ''Z6c'', ''vr'',
    ''qBb'', ''v2b'', ''Tgc'', ''Xgc'', ''AKc'', ''S6c'', ''yfd'']"
  by (simp add: code_4640_4686_def fn_def)

lemma names_4687_4733 [js_names]: "map fst code_4687_4733 = [
    ''$Fd'', ''iId'', ''H$d'', ''Cle'', ''Dle'', ''Zxb'', ''De'', ''Tu'', ''Jd'', ''eD'',
    ''UKb'', ''wLb'', ''U1c'', ''dCd'', ''CKd'', ''Nk'', ''XPb'', ''aOc'', ''$ac'', ''mkc'',
    ''Xlc'', ''Zmc'', ''T$c'', ''tud'', ''dfe'', ''rle'', ''TC'', ''ZEb'', ''SNb'', ''SXb'',
    ''c7c'', ''WHb'', ''g2b'', ''h2b'', ''Ekc'', ''Ylc'', ''zmc'', ''$rd'', ''_rd'', ''Wrd'',
    ''QVd'', ''aKb'', ''jLb'', ''kUb'', ''mUb'', ''yIc'', ''ERc'']"
  by (simp add: code_4687_4733_def fn_def)

lemma names_4734_4734 [js_names]: "map fst code_4734_4734 = [
    ''NVd'']"
  by (simp add: code_4734_4734_def fn_def)

end
