(* ===== verification/ObjectTable15.thy ===== *)
theory ObjectTable15
  imports ObjectCode
begin

text \<open>
  Functions of \<open>layout-worker.js\<close>, lines 4736 to 4857, in the order of the file, one per line:
  operations of the runtime's collections, iterators and text buffers, accessors and small algorithms
  of the layout engine, with their loops, \<open>switch\<close> and \<open>try\<close> statements. An entry has the name, the
  number of parameters, the number of further local variables and the body; parameters and locals
  are numbered from 0, the variable of a \<open>catch\<close> has a number of its own, \<open>x++\<close> is \<open>(x=x+1)-1\<close>. Lines
  with a construct outside \<open>jexp\<close> and \<open>jstm\<close> (closures, \<open>in\<close>, floating-point literals, host objects) are
  left out.
\<close>

definition code_4736_4782 :: "(string \<times> jfun) list" where
  "code_4736_4782 = [
    fn ''zfb'' 1 1 [Do (SetV 1 (Seq (Call ''Gfb'' []) (G ''Ffb''))), Ret (Bin BitOr (Bin BitOr (Bin BitOr (Bin BitOr (Bin BitOr (Bin BitOr (Bin BitOr (Idx (V 1) (Bin Ushr (V 0) (K (JNum 28)))) (Bin Shl (Idx (V 1) (Bin BitAnd (Bin Shr (V 0) (K (JNum 24))) (K (JNum 15)))) (K (JNum 4)))) (Bin Shl (Idx (V 1) (Bin BitAnd (Bin Shr (V 0) (K (JNum 20))) (K (JNum 15)))) (K (JNum 8)))) (Bin Shl (Idx (V 1) (Bin BitAnd (Bin Shr (V 0) (K (JNum 16))) (K (JNum 15)))) (K (JNum 12)))) (Bin Shl (Idx (V 1) (Bin BitAnd (Bin Shr (V 0) (K (JNum 12))) (K (JNum 15)))) (K (JNum 16)))) (Bin Shl (Idx (V 1) (Bin BitAnd (Bin Shr (V 0) (K (JNum 8))) (K (JNum 15)))) (K (JNum 20)))) (Bin Shl (Idx (V 1) (Bin BitAnd (Bin Shr (V 0) (K (JNum 4))) (K (JNum 15)))) (K (JNum 24)))) (Bin Shl (Idx (V 1) (Bin BitAnd (V 0) (K (JNum 15)))) (K (JNum 28))))],
    fn ''wlb'' 1 3 [When (Neg (Loose (Dot (V 0) ''b'') (Dot (V 0) ''c''))) [Ret (K JUndef)] [], Do (SetV 3 (Dot (Dot (V 0) ''a'') ''length'')), Do (SetV 2 (Bin Shl (Call ''wfb'' [Meth (Dot (G ''$wnd'') ''Math'') ''max'' [K (JNum 8), V 3]]) (K (JNum 1)))), When (Neg (Loose (Dot (V 0) ''b'') (K (JNum 0)))) [Do (SetV 1 (Call ''nDb'' [Dot (V 0) ''a'', V 2])), Do (Call ''vlb'' [V 0, V 1, V 3]), Do (Put (V 0) ''a'' (V 1)), Do (Put (V 0) ''b'' (K (JNum 0)))] [Do (Call ''tDb'' [Dot (V 0) ''a'', V 2])], Do (Put (V 0) ''c'' (V 3))],
    fn ''ZKb'' 2 1 [Do (SetV 2 (Dot (V 0) ''b'')), Ret (Cond (Meth (V 2) ''nf'' [Seq (Call ''vjd'' []) (G ''Eid'')]) (Cond (Loose (Meth (V 2) ''$f'' []) (Seq (Call ''Bmd'' []) (G ''Amd''))) (Bin Minus (Minus1 (Dot (Meth (V 2) ''Kf'' []) ''a'')) (Call ''Ueb'' [Call ''MD'' [Meth (V 2) ''mf'' [G ''Eid'']]])) (Bin Plus (V 1) (Call ''Ueb'' [Call ''MD'' [Meth (V 2) ''mf'' [G ''Eid'']]]))) (Cond (Loose (Meth (V 2) ''$f'' []) (Seq (Call ''Bmd'' []) (G ''Amd''))) (Minus1 (Dot (Meth (V 2) ''Kf'' []) ''a'')) (V 1)))],
    fn ''CYb'' 1 1 [When (And (Neg (Loose (Dot (Dot (Dot (V 0) ''b'') ''c'') ''length'') (K (JNum 0)))) (Neg (Neg (Dot (Call ''JD'' [Call ''dmb'' [Dot (V 0) ''b'', K (JNum 0)], K (JNum 70)]) ''a'')))) [Ret (Dot (Call ''JD'' [Call ''dmb'' [Dot (V 0) ''b'', K (JNum 0)], K (JNum 70)]) ''a'')] [], Do (SetV 1 (Call ''vWb'' [V 0])), When (Neg (Loose (V 1) (K JNull))) [Ret (V 1)] [], Ret (Bin Plus (K (JStr '''')) (Cond (Neg (Dot (V 0) ''c'')) (K (JNum (- 1))) (Call ''emb'' [Dot (Dot (V 0) ''c'') ''a'', V 0, K (JNum 0)])))],
    fn ''tZb'' 1 1 [When (And (Neg (Loose (Dot (Dot (Dot (V 0) ''f'') ''c'') ''length'') (K (JNum 0)))) (Neg (Neg (Dot (Call ''JD'' [Call ''dmb'' [Dot (V 0) ''f'', K (JNum 0)], K (JNum 70)]) ''a'')))) [Ret (Dot (Call ''JD'' [Call ''dmb'' [Dot (V 0) ''f'', K (JNum 0)], K (JNum 70)]) ''a'')] [], Do (SetV 1 (Call ''vWb'' [V 0])), When (Neg (Loose (V 1) (K JNull))) [Ret (V 1)] [], Ret (Bin Plus (K (JStr '''')) (Cond (Neg (Dot (V 0) ''i'')) (K (JNum (- 1))) (Call ''emb'' [Dot (Dot (V 0) ''i'') ''j'', V 0, K (JNum 0)])))],
    fn ''tec'' 2 2 [When (Or (Bin Lt (V 1) (K (JNum 0))) (Bin Ge (V 1) (Meth (V 0) ''gc'' []))) [Ret (K JNull)] [], Do (SetV 2 (V 1)), Loop (Bin Lt (V 2) (Meth (V 0) ''gc'' [])) [Do (SetV 3 (Call ''JD'' [Meth (V 0) ''Xb'' [V 2], K (JNum 132)])), When (Or (Loose (V 2) (Bin Minus (Meth (V 0) ''gc'' []) (K (JNum 1)))) (Neg (Dot (V 3) ''o''))) [Ret (New ''prd'' [Call ''Cfb'' [V 2], V 3])] []] [Do (SetV 2 (Bin Minus (V 2) (K (JNum (- 1)))))], Ret (K JNull)],
    fn ''A7c'' 1 5 [Do (SetV 5 (K (JNum 0))), Do (SetV 4 (G ''Dve'')), Do (SetV 3 (K (JNum 0))), Do (SetV 2 (New ''Kmb'' [Dot (V 0) ''a''])), Loop (Bin Lt (Dot (V 2) ''a'') (Dot (Dot (Dot (V 2) ''c'') ''c'') ''length'')) [Do (SetV 1 (Call ''JD'' [Call ''Imb'' [V 2], K (JNum 173)])), Do (SetV 5 (Bin Plus (V 5) (Bin Plus (Dot (V 1) ''r'') (Cond (Bin Gt (V 3) (K (JNum 0))) (Dot (V 0) ''c'') (K (JNum 0)))))), Do (SetV 4 (Meth (Dot (G ''$wnd'') ''Math'') ''max'' [V 4, Dot (V 1) ''d''])), Do (SetV 3 (Bin Minus (V 3) (K (JNum (- 1)))))] [], Do (Put (V 0) ''e'' (V 5)), Do (Put (V 0) ''b'' (V 4))],
    fn ''msd'' 1 2 [When (Neg (Dot (V 0) ''b'')) [Do (Put (V 0) ''b'' (Call ''Yu'' [Dot (Meth (Call ''JD'' [Dot (V 0) ''f'', K (JNum 125)]) ''jh'' []) ''i''])), Do (SetV 2 (New ''uKd'' [Meth (Call ''JD'' [Dot (V 0) ''f'', K (JNum 125)]) ''jh'' []])), Loop (Neg (Loose (Dot (V 2) ''e'') (Meth (Dot (V 2) ''i'') ''gc'' []))) [Do (SetV 1 (Call ''JD'' [Call ''sKd'' [V 2], K (JNum 157)])), Do (Call ''_lb'' [Dot (V 0) ''b'', New ''Zrd'' [V 1]])] []] [], Ret (Dot (V 0) ''b'')],
    fn ''rFd'' 2 3 [When (Meth (V 1) ''dc'' []) [Ret (Seq (Seq (Call ''yOd'' []) (Call ''yOd'' [])) (G ''xOd''))] [Do (SetV 2 (New ''oKd'' [V 0, Meth (V 1) ''gc'' []])), Do (SetV 4 (New ''uKd'' [V 0])), Loop (Neg (Loose (Dot (V 4) ''e'') (Meth (Dot (V 4) ''i'') ''gc'' []))) [Do (SetV 3 (Call ''sKd'' [V 4])), Do (And (Meth (V 1) ''Gc'' [V 3]) (Call ''lFd'' [V 2, V 3]))] [], Ret (V 2)]],
    fn ''Yud'' 4 0 [When (Loose (V 1) (K (JNum 0))) [Ret (Cond (V 3) (Seq (And (Neg (Dot (V 0) ''o'')) (Put (V 0) ''o'' (New ''QTd'' [Seq (Call ''Nsd'' []) (G ''Ksd''), G ''f4'', V 0, K (JNum 0)]))) (Dot (V 0) ''o'')) (Seq (And (Neg (Dot (V 0) ''o'')) (Put (V 0) ''o'' (New ''QTd'' [Seq (Call ''Nsd'' []) (G ''Ksd''), G ''f4'', V 0, K (JNum 0)]))) (Call ''uMd'' [Dot (V 0) ''o''])))] [], Ret (Call ''_sd'' [V 0, V 1, V 2, V 3])],
    fn ''Nyd'' 1 2 [When (Dot (V 0) ''rb'') [Do (Seq (SetV 1 (K (JNum 0))) (SetV 2 (Dot (Dot (V 0) ''rb'') ''i''))), Loop (Bin Lt (V 1) (V 2)) [Do (Call ''wxd'' [Call ''fGd'' [Dot (V 0) ''rb'', V 1]])] [Do (SetV 1 (Bin Minus (V 1) (K (JNum (- 1)))))]] [], When (Dot (V 0) ''vb'') [Do (Seq (SetV 1 (K (JNum 0))) (SetV 2 (Dot (Dot (V 0) ''vb'') ''i''))), Loop (Bin Lt (V 1) (V 2)) [Do (Call ''wxd'' [Call ''fGd'' [Dot (V 0) ''vb'', V 1]])] [Do (SetV 1 (Bin Minus (V 1) (K (JNum (- 1)))))]] [], Do (Call ''fde'' [Seq (Call ''yie'' []) (G ''wie''), V 0]), Do (Put (V 0) ''Bb'' (Bin BitOr (Dot (V 0) ''Bb'') (K (JNum 1))))],
    fn ''Vyd'' 14 0 [Do (Call ''Wyd'' [V 0, V 1, V 3, K JNull, V 4, V 5, V 6, V 7, V 8, V 9, V 12, K (JBool True), V 13]), Do (Call ''n4d'' [V 0, V 10]), Do (And (Call ''RD'' [Dot (V 0) ''Cb'', K (JNum 88)]) (Call ''IYd'' [Call ''LWd'' [Call ''JD'' [Dot (V 0) ''Cb'', K (JNum 88)]], K (JNum 2)])), Do (And (Neg (Neg (V 2))) (Call ''o4d'' [V 0, V 2])), Do (Call ''p4d'' [V 0, V 11]), Ret (V 0)],
    fn ''W8d'' 1 3 [When (Loose (V 0) (K JNull)) [Ret (K JNull)] [], Do (SetV 2 (K (JNum 0))), Try [Do (SetV 2 (Bin BitAnd (Call ''Ydb'' [V 0, G ''Eue'', G ''Ate'']) (G ''Pue'')))] 3 [Do (SetV 3 (Call ''Kcb'' [V 3])), When (Call ''RD'' [V 3, K (JNum 131)]) [Do (SetV 1 (Call ''Kgb'' [V 0])), Do (SetV 2 (Idx (V 1) (K (JNum 0))))] [Raise (Call ''Lcb'' [V 3])]], Ret (Call ''reb'' [V 2])],
    fn ''X8d'' 1 3 [When (Loose (V 0) (K JNull)) [Ret (K JNull)] [], Do (SetV 2 (K (JNum 0))), Try [Do (SetV 2 (Bin BitAnd (Call ''Ydb'' [V 0, G ''Eue'', G ''Ate'']) (G ''Pue'')))] 3 [Do (SetV 3 (Call ''Kcb'' [V 3])), When (Call ''RD'' [V 3, K (JNum 131)]) [Do (SetV 1 (Call ''Kgb'' [V 0])), Do (SetV 2 (Idx (V 1) (K (JNum 0))))] [Raise (Call ''Lcb'' [V 3])]], Ret (Call ''reb'' [V 2])],
    fn ''jD'' 2 3 [Do (SetV 4 (Bin Minus (Dot (V 0) ''h'') (Dot (V 1) ''h''))), When (Bin Lt (V 4) (K (JNum 0))) [Ret (K (JBool False))] [], Do (SetV 2 (Bin Minus (Dot (V 0) ''l'') (Dot (V 1) ''l''))), Do (SetV 3 (Bin Plus (Bin Minus (Dot (V 0) ''m'') (Dot (V 1) ''m'')) (Bin Shr (V 2) (K (JNum 22))))), Do (SetV 4 (Bin Plus (V 4) (Bin Shr (V 3) (K (JNum 22))))), When (Bin Lt (V 4) (K (JNum 0))) [Ret (K (JBool False))] [], Do (Put (V 0) ''l'' (Bin BitAnd (V 2) (G ''rve''))), Do (Put (V 0) ''m'' (Bin BitAnd (V 3) (G ''rve''))), Do (Put (V 0) ''h'' (Bin BitAnd (V 4) (G ''sve''))), Ret (K (JBool True))],
    fn ''$xb'' 7 2 [When (And (Meth (V 1) ''Re'' []) (Seq (SetV 8 (Meth (Dot (V 0) ''a'') ''Le'' [V 2, V 3])) (Or (Bin Lt (V 8) (K (JNum 0))) (And (Neg (V 4)) (Loose (V 8) (K (JNum 0))))))) [Ret (K (JBool False))] [], When (And (Meth (V 1) ''Se'' []) (Seq (SetV 7 (Meth (Dot (V 0) ''a'') ''Le'' [V 2, V 5])) (Or (Bin Gt (V 7) (K (JNum 0))) (And (Neg (V 6)) (Loose (V 7) (K (JNum 0))))))) [Ret (K (JBool False))] [], Ret (K (JBool True))],
    fn ''Aac'' 2 1 [Do (Call ''sac'' []), Do (SetV 2 (Bin Minus (Dot (Dot (V 0) ''j'') ''g'') (Dot (Dot (V 1) ''j'') ''g''))), When (Neg (Loose (V 2) (K (JNum 0)))) [Ret (K (JNum 0))] [], Switch (Dot (Dot (V 0) ''j'') ''g'') [(Some (JNum 2), [Ret (Bin Minus (Call ''Cac'' [V 1, G ''rac'']) (Call ''Cac'' [V 0, G ''rac'']))]), (Some (JNum 4), [Ret (Bin Minus (Call ''Cac'' [V 0, G ''qac'']) (Call ''Cac'' [V 1, G ''qac'']))])], Ret (K (JNum 0))],
    fn ''bpc'' 1 0 [Switch (Dot (V 0) ''g'') [(Some (JNum 0), [Ret (G ''Woc'')]), (Some (JNum 1), [Ret (G ''Xoc'')]), (Some (JNum 2), [Ret (G ''Yoc'')]), (Some (JNum 3), [Ret (G ''Zoc'')]), (Some (JNum 4), [Ret (G ''$oc'')]), (Some (JNum 5), [Ret (G ''_oc'')]), (None, [Ret (K JNull)])]],
    fn ''yyd'' 3 2 [Do (SetV 3 (Seq (Seq (Seq (Seq (SetV 4 (New ''c4d'' [])) (Call ''jUd'' [V 4, V 1])) (Call ''jyd'' [V 4, V 2])) (Call ''lFd'' [Seq (And (Neg (Dot (V 0) ''c'')) (Put (V 0) ''c'' (New ''P3d'' [G ''F6'', V 0, K (JNum 12), K (JNum 10)]))) (Dot (V 0) ''c''), V 4])) (V 4))), Do (Call ''lUd'' [V 3, K (JNum 0)]), Do (Call ''oUd'' [V 3, K (JNum 1)]), Do (Call ''nUd'' [V 3, K (JBool True)]), Do (Call ''mUd'' [V 3, K (JBool True)]), Ret (V 3)],
    fn ''iGd'' 2 2 [When (Bin Ge (V 1) (Dot (V 0) ''i'')) [Raise (Call ''Lcb'' [New ''PLd'' [V 1, Dot (V 0) ''i'']])] [], Do (Put (V 0) ''j'' (Bin Minus (Dot (V 0) ''j'') (K (JNum (- 1))))), Do (SetV 2 (Idx (Dot (V 0) ''g'') (V 1))), Do (SetV 3 (Bin Minus (Bin Minus (Dot (V 0) ''i'') (V 1)) (K (JNum 1)))), Do (And (Bin Gt (V 3) (K (JNum 0))) (Call ''rhb'' [Dot (V 0) ''g'', Bin Plus (V 1) (K (JNum 1)), Dot (V 0) ''g'', V 1, V 3])), Do (Call ''VC'' [Dot (V 0) ''g'', Put (V 0) ''i'' (Bin Minus (Dot (V 0) ''i'') (K (JNum 1))), K JNull]), Do (Meth (V 0) ''Oi'' [V 1, V 2]), Do (Meth (V 0) ''Li'' []), Ret (V 2)],
    fn ''FUd'' 2 2 [When (Loose (Bin Shr (Dot (V 0) ''Db'') (K (JNum 16))) (K (JNum 17))) [Ret (Meth (Dot (V 0) ''Cb'') ''Qh'' [V 0, K (JNum 21), G ''s6'', V 1])] [], Ret (Seq (SetV 3 (Call ''k4d'' [Call ''JD'' [Call ''IWd'' [Seq (SetV 2 (Call ''JD'' [Call ''uud'' [V 0, K (JNum 16)], K (JNum 29)])) (Cond (Neg (V 2)) (Meth (V 0) ''fi'' []) (V 2)), Bin Shr (Dot (V 0) ''Db'') (K (JNum 16))], K (JNum 19)]])) (Meth (Dot (V 0) ''Cb'') ''Qh'' [V 0, Dot (V 3) ''n'', Dot (V 3) ''f'', V 1]))],
    fn ''sEb'' 1 4 [Do (Call ''Inb'' []), Do (Call ''jmb'' [Dot (V 0) ''c'', Dot (V 0) ''a'']), Do (SetV 4 (New ''Kmb'' [Dot (V 0) ''c''])), Loop (Bin Lt (Dot (V 4) ''a'') (Dot (Dot (Dot (V 4) ''c'') ''c'') ''length'')) [Do (SetV 3 (Call ''Imb'' [V 4])), Do (SetV 2 (New ''Kmb'' [Dot (V 0) ''b''])), Loop (Bin Lt (Dot (V 2) ''a'') (Dot (Dot (Dot (V 2) ''c'') ''c'') ''length'')) [Do (SetV 1 (Call ''JD'' [Call ''Imb'' [V 2], K (JNum 683)])), Do (Meth (V 1) ''_e'' [V 3])] []] []],
    fn ''XTb'' 1 4 [Do (Call ''Inb'' []), Do (Call ''jmb'' [Dot (V 0) ''c'', Dot (V 0) ''a'']), Do (SetV 4 (New ''Kmb'' [Dot (V 0) ''c''])), Loop (Bin Lt (Dot (V 4) ''a'') (Dot (Dot (Dot (V 4) ''c'') ''c'') ''length'')) [Do (SetV 3 (Call ''Imb'' [V 4])), Do (SetV 2 (New ''Kmb'' [Dot (V 0) ''b''])), Loop (Bin Lt (Dot (V 2) ''a'') (Dot (Dot (Dot (V 2) ''c'') ''c'') ''length'')) [Do (SetV 1 (Call ''JD'' [Call ''Imb'' [V 2], K (JNum 377)])), Do (Meth (V 1) ''_e'' [V 3])] []] []],
    fn ''WGb'' 1 5 [Do (SetV 4 (G ''Ate'')), Do (SetV 5 (K JNull)), Do (SetV 3 (New ''Kmb'' [Dot (V 0) ''d''])), Loop (Bin Lt (Dot (V 3) ''a'') (Dot (Dot (Dot (V 3) ''c'') ''c'') ''length'')) [Do (SetV 2 (Call ''JD'' [Call ''Imb'' [V 3], K (JNum 217)])), When (Bin BitXor (Dot (Dot (V 2) ''d'') ''j'') (Dot (Dot (V 2) ''e'') ''j'')) [Do (SetV 1 (Bin Minus (Bin Minus (Dot (Dot (V 2) ''e'') ''e'') (Dot (Dot (V 2) ''d'') ''e'')) (Dot (V 2) ''a''))), When (Bin Lt (V 1) (V 4)) [Do (SetV 4 (V 1)), Do (SetV 5 (V 2))] []] []] [], Ret (V 5)],
    fn ''sPb'' 0 0 [Do (SetG ''sPb'' (G ''qdb'')), Do (SetG ''qPb'' (New ''EEd'' [G ''aye'', Seq (Call ''Qdb'' []) (K (JBool False))])), Do (SetG ''mPb'' (New ''EEd'' [G ''bye'', K (JNum 100)])), Do (SetG ''oPb'' (Seq (Call ''cQb'' []) (G ''aQb''))), Do (SetG ''nPb'' (New ''EEd'' [G ''cye'', G ''oPb''])), Do (SetG ''pPb'' (New ''EEd'' [G ''dye'', G ''xxe''])), Do (SetG ''rPb'' (New ''EEd'' [G ''eye'', Call ''Cfb'' [G ''Ate'']]))],
    fn ''s4b'' 2 3 [Do (SetV 3 (New ''Yr'' [Call ''Dr'' [Meth (Dot (Call ''BYb'' [V 0]) ''a'') ''Jc'' [], New ''Dl'' []]])), Loop (Call ''Wr'' [V 3]) [Do (SetV 2 (Call ''JD'' [Call ''Xr'' [V 3], K (JNum 17)])), Do (SetV 4 (Call ''JD'' [Meth (V 1) ''Kb'' [V 2], K (JNum 9)])), Ret (New ''cc'' [Call ''Qb'' [Bin Plus (Dot (Dot (V 4) ''n'') ''b'') (Bin Divide (Dot (Dot (V 4) ''o'') ''b'') (K (JNum 2)))]])] [], Ret (Seq (Seq (Call ''wb'' []) (Call ''wb'' [])) (G ''vb''))],
    fn ''ggc'' 3 8 [Do (SetV 9 (K (JNum 0))), Do (Seq (Seq (SetV 4 (Idx (Dot (V 0) ''a'') (V 1))) (SetV 5 (K (JNum 0)))) (SetV 6 (Dot (V 4) ''length''))), Loop (Bin Lt (V 5) (V 6)) [Do (SetV 3 (Idx (V 4) (V 5))), Do (SetV 10 (Call ''LIc'' [V 3, V 2])), Do (SetV 8 (Meth (V 10) ''Jc'' [])), Loop (Meth (V 8) ''Ob'' []) [Do (SetV 7 (Call ''JD'' [Meth (V 8) ''Pb'' [], K (JNum 12)])), Do (Call ''hjb'' [Dot (V 0) ''f'', V 7, Call ''Cfb'' [Bin Minus (SetV 9 (Bin Minus (V 9) (K (JNum (- 1))))) (K (JNum 1))]])] []] [Do (SetV 5 (Bin Minus (V 5) (K (JNum (- 1)))))]],
    fn ''ABd'' 3 4 [When (V 2) [Do (SetV 4 (Dot (Dot (V 2) ''a'') ''length'')), Do (SetV 3 (New ''Kse'' [V 4])), Do (SetV 6 (Cond (Bin Lt (Bin Times (Bin Minus (Dot (V 3) ''b'') (Dot (V 3) ''a'')) (Dot (V 3) ''c'')) (K (JNum 0))) (Seq (Call ''Jse'' []) (G ''Ise'')) (New ''ete'' [V 3]))), Loop (Meth (V 6) ''Ob'' []) [Do (SetV 5 (Call ''JD'' [Meth (V 6) ''Pb'' [], K (JNum 15)])), Do (Call ''Rc'' [V 0, V 1, Call ''PAd'' [Call ''BB'' [V 2, Dot (V 5) ''a'']]])] []] []],
    fn ''BBd'' 3 4 [When (V 2) [Do (SetV 4 (Dot (Dot (V 2) ''a'') ''length'')), Do (SetV 3 (New ''Kse'' [V 4])), Do (SetV 6 (Cond (Bin Lt (Bin Times (Bin Minus (Dot (V 3) ''b'') (Dot (V 3) ''a'')) (Dot (V 3) ''c'')) (K (JNum 0))) (Seq (Call ''Jse'' []) (G ''Ise'')) (New ''ete'' [V 3]))), Loop (Meth (V 6) ''Ob'' []) [Do (SetV 5 (Call ''JD'' [Meth (V 6) ''Pb'' [], K (JNum 15)])), Do (Call ''Rc'' [V 0, V 1, Call ''PAd'' [Call ''BB'' [V 2, Dot (V 5) ''a'']]])] []] []],
    fn ''ric'' 1 1 [Do (Call ''Yhc'' []), Do (SetV 1 (Call ''JD'' [Call ''De'' [Call ''Ec'' [Dot (V 0) ''k''], Call ''SC'' [G ''M2'', G ''sye'', K (JNum 64), K (JNum 2), K (JNum 0), K (JNum 1)]], K (JNum 126)])), Do (Call ''enb'' [V 1, K (JNum 0), Dot (V 1) ''length'', K JNull]), When (And (Loose (Idx (V 1) (K (JNum 0))) (Seq (Call ''Bmd'' []) (G ''hmd''))) (Loose (Idx (V 1) (K (JNum 1))) (G ''Amd''))) [Do (Call ''VC'' [V 1, K (JNum 0), G ''Amd'']), Do (Call ''VC'' [V 1, K (JNum 1), G ''hmd''])] [], Ret (V 1)],
    fn ''SIc'' 3 3 [Do (SetV 4 (Call ''QIc'' [V 0, V 1, V 2])), Do (SetV 5 (Call ''TIc'' [V 0, V 4])), Do (Call ''HIc'' [Dot (V 0) ''b'']), Do (Call ''lJc'' [V 0, V 1, V 2]), Do (Call ''Inb'' []), Do (Call ''jmb'' [V 4, New ''qJc'' [V 0]]), Do (SetV 3 (Call ''TIc'' [V 0, V 4])), Do (Call ''HIc'' [Dot (V 0) ''b'']), Do (Call ''lJc'' [V 0, V 2, V 1]), Ret (New ''prd'' [Call ''Cfb'' [V 5], Call ''Cfb'' [V 3]])],
    fn ''sKc'' 0 0 [Do (SetG ''sKc'' (G ''qdb'')), Do (SetG ''pKc'' (Call ''kcd'' [New ''pcd'' [], Seq (Call ''YQb'' []) (G ''XQb''), Seq (Call ''X5b'' []) (G ''l5b'')])), Do (SetG ''qKc'' (New ''DEd'' [K (JStr ''linearSegments.inputPrio''), Call ''Cfb'' [K (JNum 0)]])), Do (SetG ''rKc'' (New ''DEd'' [K (JStr ''linearSegments.outputPrio''), Call ''Cfb'' [K (JNum 0)]]))],
    fn ''HSc'' 0 0 [Do (SetG ''HSc'' (G ''qdb'')), Do (SetG ''DSc'' (New ''JSc'' [K (JStr ''P1_TREEIFICATION''), K (JNum 0)])), Do (SetG ''ESc'' (New ''JSc'' [K (JStr ''P2_NODE_ORDERING''), K (JNum 1)])), Do (SetG ''FSc'' (New ''JSc'' [K (JStr ''P3_NODE_PLACEMENT''), K (JNum 2)])), Do (SetG ''GSc'' (New ''JSc'' [K (JStr ''P4_EDGE_ROUTING''), K (JNum 3)]))],
    fn ''u7c'' 1 4 [Do (SetV 2 (K (JNum 0))), Do (SetV 1 (K (JNum 0))), Do (SetV 4 (New ''uKd'' [V 0])), Loop (Neg (Loose (Dot (V 4) ''e'') (Meth (Dot (V 4) ''i'') ''gc'' []))) [Do (SetV 3 (Call ''JD'' [Call ''sKd'' [V 4], K (JNum 26)])), Do (SetV 2 (Meth (Dot (G ''$wnd'') ''Math'') ''max'' [Bin Plus (Dot (V 3) ''g'') (Dot (V 3) ''i''), V 2])), Do (SetV 1 (Meth (Dot (G ''$wnd'') ''Math'') ''max'' [Bin Plus (Dot (V 3) ''f'') (Dot (V 3) ''j''), V 1]))] [], Ret (New ''lgd'' [V 2, V 1])],
    fn ''Cod'' 2 4 [Do (SetV 5 (K (JNum 0))), Do (SetV 3 (New ''Kmb'' [V 0])), Loop (Bin Lt (Dot (V 3) ''a'') (Dot (Dot (Dot (V 3) ''c'') ''c'') ''length'')) [Do (SetV 2 (Call ''JD'' [Call ''Imb'' [V 3], K (JNum 26)])), Do (SetV 5 (Bin Plus (V 5) (Meth (Dot (G ''$wnd'') ''Math'') ''pow'' [Bin Minus (Bin Times (Dot (V 2) ''g'') (Dot (V 2) ''f'')) (V 1), K (JNum 2)])))] [], Do (SetV 4 (Meth (Dot (G ''$wnd'') ''Math'') ''sqrt'' [Bin Divide (V 5) (Bin Minus (Dot (Dot (V 0) ''c'') ''length'') (K (JNum 1)))])), Ret (V 4)],
    fn ''$kd'' 0 0 [Do (SetG ''$kd'' (G ''qdb'')), Do (SetG ''Zkd'' (New ''ald'' [K (JStr ''UNKNOWN''), K (JNum 0)])), Do (SetG ''Wkd'' (New ''ald'' [K (JStr ''ABOVE''), K (JNum 1)])), Do (SetG ''Xkd'' (New ''ald'' [K (JStr ''BELOW''), K (JNum 2)])), Do (SetG ''Ykd'' (New ''ald'' [K (JStr ''INLINE''), K (JNum 3)])), Do (New ''DEd'' [K (JStr ''org.eclipse.elk.labelSide''), G ''Zkd''])],
    fn ''cCd'' 2 0 [When (Call ''RD'' [V 1, K (JNum 271)]) [Ret (Call ''fBd'' [V 0, Call ''JD'' [V 1, K (JNum 85)]])] [When (Call ''RD'' [V 1, K (JNum 276)]) [Ret (Call ''JD'' [V 1, K (JNum 276)])] [Raise (Call ''Lcb'' [New ''kfb'' [Bin Plus (G ''HGe'') (Call ''Ee'' [New ''wnb'' [Call ''WC'' [Call ''OC'' [G ''aJ'', K (JNum 1)], G ''Gte'', K (JNum 1), K (JNum 5), NewArr [V 1]]]])]])]]],
    fn ''gGd'' 2 1 [When (And (Meth (V 0) ''Wi'' []) (Neg (Loose (V 1) (K JNull)))) [Do (SetV 2 (K (JNum 0))), Loop (Bin Lt (V 2) (Dot (V 0) ''i'')) [When (Call ''pb'' [V 1, Idx (Dot (V 0) ''g'') (V 2)]) [Ret (V 2)] []] [Do (SetV 2 (Bin Minus (V 2) (K (JNum (- 1)))))]] [Do (SetV 2 (K (JNum 0))), Loop (Bin Lt (V 2) (Dot (V 0) ''i'')) [When (Same (Call ''XD'' [Idx (Dot (V 0) ''g'') (V 2)]) (Call ''XD'' [V 1])) [Ret (V 2)] []] [Do (SetV 2 (Bin Minus (V 2) (K (JNum (- 1)))))]], Ret (K (JNum (- 1)))],
    fn ''pWb'' 3 2 [When (And (Loose (Dot (V 1) ''c'') (Seq (Call ''qAc'' []) (G ''oAc''))) (Loose (Dot (V 2) ''c'') (G ''nAc''))) [Ret (K (JNum (- 1)))] [When (And (Loose (Dot (V 1) ''c'') (G ''nAc'')) (Loose (Dot (V 2) ''c'') (G ''oAc''))) [Ret (K (JNum 1))] []], Do (SetV 3 (Call ''tWb'' [Dot (V 1) ''a'', Dot (V 0) ''a''])), Do (SetV 4 (Call ''tWb'' [Dot (V 2) ''a'', Dot (V 0) ''a''])), Ret (Cond (Loose (Dot (V 1) ''c'') (G ''oAc'')) (Bin Minus (V 4) (V 3)) (Bin Minus (V 3) (V 4)))],
    fn ''MYb'' 3 0 [When (And (Neg (Neg (V 2))) (Or (Bin Lt (V 1) (K (JNum 0))) (Bin Gt (V 1) (Dot (Dot (Dot (V 2) ''a'') ''c'') ''length'')))) [Raise (Call ''Lcb'' [New ''kfb'' [K (JStr ''index must be >= 0 and <= layer node count'')]])] [], Do (And (Neg (Neg (Dot (V 0) ''c''))) (Call ''gmb'' [Dot (Dot (V 0) ''c'') ''a'', V 0])), Do (Put (V 0) ''c'' (V 2)), Do (And (Neg (Neg (V 2))) (Call ''$lb'' [Dot (V 2) ''a'', V 1, V 0]))],
    fn ''ANc'' 2 0 [Do (Put This ''c'' (New ''_rb'' [])), Do (Put This ''a'' (V 0)), Do (Put This ''b'' (V 1)), Do (Put This ''d'' (Call ''JD'' [Call ''oNb'' [V 0, Seq (Call ''Wrc'' []) (G ''Krc'')], K (JNum 317)])), Do (Cond (Same (Call ''XD'' [Call ''oNb'' [V 0, Seq (Call ''nyc'' []) (G ''Uwc'')]]) (Call ''XD'' [Seq (Call ''jpc'' []) (G ''hpc'')])) (Put This ''e'' (New ''kOc'' [])) (Put This ''e'' (New ''dOc'' [])))],
    fn ''bu'' 2 3 [Do (SetV 2 (Meth (V 0) ''dd'' [V 1])), Try [Do (SetV 3 (Meth (V 2) ''Pb'' [])), Do (Meth (V 2) ''Qb'' []), Ret (V 3)] 4 [Do (SetV 4 (Call ''Kcb'' [V 4])), When (Call ''RD'' [V 4, K (JNum 112)]) [Raise (Call ''Lcb'' [New ''Fdb'' [Bin Plus (K (JStr (''Can'' @ CHR 0x27 # ''t remove element ''))) (V 1)]])] [Raise (Call ''Lcb'' [V 4])]]],
    fn ''yA'' 2 3 [Do (SetV 3 (New ''mB'' [])), Do (SetV 4 (New ''nB'' [Bin Minus (Meth (Dot (V 3) ''q'') ''getFullYear'' []) (G ''ave''), Meth (Dot (V 3) ''q'') ''getMonth'' [], Meth (Dot (V 3) ''q'') ''getDate'' []])), Do (SetV 2 (Call ''xA'' [V 0, V 1, V 4])), When (Or (Loose (V 2) (K (JNum 0))) (Bin Lt (V 2) (Dot (V 1) ''length''))) [Raise (Call ''Lcb'' [New ''kfb'' [V 1]])] [], Ret (V 4)],
    fn ''pvb'' 2 3 [Do (Call ''NDb'' [V 1]), Do (Call ''EDb'' [Neg (Loose (V 1) (V 0))]), Do (SetV 4 (Dot (Dot (Dot (V 0) ''b'') ''c'') ''length'')), Do (SetV 3 (Meth (V 1) ''Jc'' [])), Loop (Meth (V 3) ''Ob'' []) [Do (SetV 2 (Meth (V 3) ''Pb'' [])), Do (Call ''_lb'' [Dot (V 0) ''b'', Call ''NDb'' [V 2]])] [], When (Neg (Loose (V 4) (Dot (Dot (Dot (V 0) ''b'') ''c'') ''length''))) [Do (Call ''qvb'' [V 0, K (JNum 0)]), Ret (K (JBool True))] [], Ret (K (JBool False))],
    fn ''HPb'' 0 0 [Do (SetG ''HPb'' (G ''qdb'')), Do (SetG ''zPb'' (Seq (Call ''vjd'' []) (G ''Whd''))), Do (New ''FEd'' [G ''Jhd'', Seq (Call ''Qdb'' []) (K (JBool True))]), Do (SetG ''CPb'' (G ''iid'')), Do (SetG ''DPb'' (G ''lid'')), Do (SetG ''EPb'' (G ''nid'')), Do (SetG ''BPb'' (G ''gid'')), Do (SetG ''FPb'' (G ''qid'')), Do (SetG ''GPb'' (G ''Jid'')), Do (SetG ''yPb'' (Seq (Call ''sPb'' []) (G ''qPb''))), Do (SetG ''wPb'' (G ''nPb'')), Do (SetG ''xPb'' (G ''pPb'')), Do (SetG ''APb'' (G ''rPb'')), Do (SetG ''vPb'' (G ''mPb''))],
    fn ''yWb'' 2 0 [When (Loose (V 1) (Dot (V 0) ''c'')) [Ret (Dot (V 0) ''d'')] [When (Loose (V 1) (Dot (V 0) ''d'')) [Ret (Dot (V 0) ''c'')] [Raise (Call ''Lcb'' [New ''kfb'' [K (JStr (CHR 0x27 # ''port'' @ CHR 0x27 # '' must be either the source port or target port of the edge.''))]])]]],
    fn ''E$b'' 2 2 [Do (Put (V 0) ''b'' (K (JNum 0))), Do (Put (V 0) ''d'' (New ''Mxb'' [])), Do (SetV 3 (New ''Kmb'' [Dot (V 1) ''a''])), Loop (Bin Lt (Dot (V 3) ''a'') (Dot (Dot (Dot (V 3) ''c'') ''c'') ''length'')) [Do (SetV 2 (Call ''JD'' [Call ''Imb'' [V 3], K (JNum 9)])), When (Loose (Dot (Call ''JD'' [Call ''oNb'' [V 2, Seq (Call ''Wrc'' []) (G ''Rrc'')], K (JNum 15)]) ''a'') (K (JNum (- 1)))) [Do (Call ''D$b'' [V 0, V 2]), Do (Put (Dot (Dot (Dot (V 0) ''d'') ''a'') ''c'') ''length'' (K (JNum 0)))] []] []]]"

definition code_4783_4827 :: "(string \<times> jfun) list" where
  "code_4783_4827 = [
    fn ''v7c'' 2 5 [Do (SetV 3 (K (JNum 0))), Do (SetV 4 (K (JNum 0))), Do (SetV 2 (K (JNum 0))), Do (SetV 6 (New ''Kmb'' [V 0])), Loop (Bin Lt (Dot (V 6) ''a'') (Dot (Dot (Dot (V 6) ''c'') ''c'') ''length'')) [Do (SetV 5 (Call ''JD'' [Call ''Imb'' [V 6], K (JNum 186)])), Do (SetV 3 (Meth (Dot (G ''$wnd'') ''Math'') ''max'' [V 3, Dot (V 5) ''e''])), Do (SetV 4 (Bin Plus (V 4) (Bin Plus (Dot (V 5) ''b'') (Cond (Bin Gt (V 2) (K (JNum 0))) (V 1) (K (JNum 0)))))), Do (SetV 2 (Bin Minus (V 2) (K (JNum (- 1)))))] [], Ret (New ''lgd'' [V 3, V 4])],
    fn ''F0b'' 3 2 [Do (SetV 4 (Dot (V 0) ''o'')), Do (SetV 3 (Dot (V 0) ''d'')), Switch (Dot (V 1) ''g'') [(Some (JNum 1), [Ret (Bin Minus (Minus1 (Dot (V 3) ''d'')) (V 2))]), (Some (JNum 3), [Ret (Bin Plus (Bin Plus (Dot (V 4) ''b'') (Dot (V 3) ''a'')) (V 2))]), (Some (JNum 2), [Ret (Bin Plus (Bin Plus (Dot (V 4) ''a'') (Dot (V 3) ''c'')) (V 2))]), (Some (JNum 4), [Ret (Bin Minus (Minus1 (Dot (V 3) ''b'')) (V 2))]), (None, [Ret (K (JNum 0))])]],
    fn ''K3b'' 4 4 [Do (Call ''NYb'' [V 1, Call ''JD'' [Meth (V 3) ''Xb'' [K (JNum 0)], K (JNum 25)]]), Do (SetV 7 (Meth (V 3) ''hd'' [K (JNum 1), Meth (V 3) ''gc'' []])), Do (SetV 5 (Meth (Call ''JD'' [Meth (V 2) ''Kb'' [V 1], K (JNum 20)]) ''Jc'' [])), Loop (Meth (V 5) ''Ob'' []) [Do (SetV 4 (Call ''JD'' [Meth (V 5) ''Pb'' [], K (JNum 17)])), Do (SetV 6 (Cond (Loose (Dot (Dot (V 4) ''c'') ''i'') (V 1)) (Dot (Dot (V 4) ''d'') ''i'') (Dot (Dot (V 4) ''c'') ''i''))), Do (Call ''K3b'' [V 0, V 6, V 2, V 7])] []],
    fn ''Ccc'' 1 1 [Do (SetV 1 (New ''_rb'' [])), When (Call ''pNb'' [V 0, Seq (Call ''Wrc'' []) (G ''Prc'')]) [Ret (Call ''JD'' [Call ''oNb'' [V 0, G ''Prc''], K (JNum 92)])] [], Do (Call ''YBb'' [Call ''VBb'' [New ''jCb'' [K JNull, New ''Zvb'' [Dot (V 0) ''j'', K (JNum 16)]], New ''Ecc'' []], New ''Gcc'' [V 1]]), Do (Call ''rNb'' [V 0, G ''Prc'', V 1]), Ret (V 1)],
    fn ''Hqd'' 2 2 [Do (SetV 3 (K JNull)), When (Meth (V 0) ''nf'' [Seq (Call ''vjd'' []) (G ''$id'')]) [Do (SetV 2 (Call ''JD'' [Meth (V 0) ''mf'' [G ''$id''], K (JNum 105)])), Do (And (Meth (V 2) ''nf'' [V 1]) (SetV 3 (Meth (V 2) ''mf'' [V 1])))] [], Do (And (And (Loose (V 3) (K JNull)) (Neg (Neg (Meth (V 0) ''Rf'' [])))) (SetV 3 (Meth (Meth (V 0) ''Rf'' []) ''mf'' [V 1]))), Do (And (Loose (V 3) (K JNull)) (SetV 3 (Call ''BEd'' [V 1]))), Ret (V 3)],
    fn ''Ywd'' 2 2 [When (Loose (Bin Shr (Dot (V 0) ''Db'') (K (JNum 16))) (K (JNum 6))) [Ret (Meth (Dot (V 0) ''Cb'') ''Qh'' [V 0, K (JNum 6), G ''Q3'', V 1])] [], Ret (Seq (SetV 3 (Call ''k4d'' [Call ''JD'' [Call ''IWd'' [Seq (SetV 2 (Call ''JD'' [Call ''uud'' [V 0, K (JNum 16)], K (JNum 29)])) (Cond (Neg (V 2)) (Seq (Call ''Nsd'' []) (G ''Fsd'')) (V 2)), Bin Shr (Dot (V 0) ''Db'') (K (JNum 16))], K (JNum 19)]])) (Meth (Dot (V 0) ''Cb'') ''Qh'' [V 0, Dot (V 3) ''n'', Dot (V 3) ''f'', V 1]))],
    fn ''yzd'' 2 2 [When (Loose (Bin Shr (Dot (V 0) ''Db'') (K (JNum 16))) (K (JNum 7))) [Ret (Meth (Dot (V 0) ''Cb'') ''Qh'' [V 0, K (JNum 1), G ''R3'', V 1])] [], Ret (Seq (SetV 3 (Call ''k4d'' [Call ''JD'' [Call ''IWd'' [Seq (SetV 2 (Call ''JD'' [Call ''uud'' [V 0, K (JNum 16)], K (JNum 29)])) (Cond (Neg (V 2)) (Seq (Call ''Nsd'' []) (G ''Hsd'')) (V 2)), Bin Shr (Dot (V 0) ''Db'') (K (JNum 16))], K (JNum 19)]])) (Meth (Dot (V 0) ''Cb'') ''Qh'' [V 0, Dot (V 3) ''n'', Dot (V 3) ''f'', V 1]))],
    fn ''fAd'' 2 2 [When (Loose (Bin Shr (Dot (V 0) ''Db'') (K (JNum 16))) (K (JNum 9))) [Ret (Meth (Dot (V 0) ''Cb'') ''Qh'' [V 0, K (JNum 9), G ''T3'', V 1])] [], Ret (Seq (SetV 3 (Call ''k4d'' [Call ''JD'' [Call ''IWd'' [Seq (SetV 2 (Call ''JD'' [Call ''uud'' [V 0, K (JNum 16)], K (JNum 29)])) (Cond (Neg (V 2)) (Seq (Call ''Nsd'' []) (G ''Jsd'')) (V 2)), Bin Shr (Dot (V 0) ''Db'') (K (JNum 16))], K (JNum 19)]])) (Meth (Dot (V 0) ''Cb'') ''Qh'' [V 0, Dot (V 3) ''n'', Dot (V 3) ''f'', V 1]))],
    fn ''Z_d'' 2 2 [When (Loose (Bin Shr (Dot (V 0) ''Db'') (K (JNum 16))) (K (JNum 5))) [Ret (Meth (Dot (V 0) ''Cb'') ''Qh'' [V 0, K (JNum 9), G ''x6'', V 1])] [], Ret (Seq (SetV 3 (Call ''k4d'' [Call ''JD'' [Call ''IWd'' [Seq (SetV 2 (Call ''JD'' [Call ''uud'' [V 0, K (JNum 16)], K (JNum 29)])) (Cond (Neg (V 2)) (Seq (Call ''WRd'' []) (G ''GRd'')) (V 2)), Bin Shr (Dot (V 0) ''Db'') (K (JNum 16))], K (JNum 19)]])) (Meth (Dot (V 0) ''Cb'') ''Qh'' [V 0, Dot (V 3) ''n'', Dot (V 3) ''f'', V 1]))],
    fn ''Myd'' 2 2 [When (Loose (Bin Shr (Dot (V 0) ''Db'') (K (JNum 16))) (K (JNum 7))) [Ret (Meth (Dot (V 0) ''Cb'') ''Qh'' [V 0, K (JNum 6), G ''E6'', V 1])] [], Ret (Seq (SetV 3 (Call ''k4d'' [Call ''JD'' [Call ''IWd'' [Seq (SetV 2 (Call ''JD'' [Call ''uud'' [V 0, K (JNum 16)], K (JNum 29)])) (Cond (Neg (V 2)) (Seq (Call ''WRd'' []) (G ''PRd'')) (V 2)), Bin Shr (Dot (V 0) ''Db'') (K (JNum 16))], K (JNum 19)]])) (Meth (Dot (V 0) ''Cb'') ''Qh'' [V 0, Dot (V 3) ''n'', Dot (V 3) ''f'', V 1]))],
    fn ''vTd'' 2 2 [When (Loose (Bin Shr (Dot (V 0) ''Db'') (K (JNum 16))) (K (JNum 3))) [Ret (Meth (Dot (V 0) ''Cb'') ''Qh'' [V 0, K (JNum 0), G ''A6'', V 1])] [], Ret (Seq (SetV 3 (Call ''k4d'' [Call ''JD'' [Call ''IWd'' [Seq (SetV 2 (Call ''JD'' [Call ''uud'' [V 0, K (JNum 16)], K (JNum 29)])) (Cond (Neg (V 2)) (Seq (Call ''WRd'' []) (G ''zRd'')) (V 2)), Bin Shr (Dot (V 0) ''Db'') (K (JNum 16))], K (JNum 19)]])) (Meth (Dot (V 0) ''Cb'') ''Qh'' [V 0, Dot (V 3) ''n'', Dot (V 3) ''f'', V 1]))],
    fn ''Fwd'' 2 2 [When (Loose (Bin Shr (Dot (V 0) ''Db'') (K (JNum 16))) (K (JNum 3))) [Ret (Meth (Dot (V 0) ''Cb'') ''Qh'' [V 0, K (JNum 12), G ''T3'', V 1])] [], Ret (Seq (SetV 3 (Call ''k4d'' [Call ''JD'' [Call ''IWd'' [Seq (SetV 2 (Call ''JD'' [Call ''uud'' [V 0, K (JNum 16)], K (JNum 29)])) (Cond (Neg (V 2)) (Seq (Call ''Nsd'' []) (G ''Esd'')) (V 2)), Bin Shr (Dot (V 0) ''Db'') (K (JNum 16))], K (JNum 19)]])) (Meth (Dot (V 0) ''Cb'') ''Qh'' [V 0, Dot (V 3) ''n'', Dot (V 3) ''f'', V 1]))],
    fn ''zOd'' 3 3 [Do (And (Bin Lt (V 2) (K (JNum 0))) (SetV 2 (K (JNum 0)))), Do (SetV 5 (Dot (V 0) ''i'')), Do (SetV 4 (V 2)), Loop (Bin Lt (V 4) (V 5)) [Do (SetV 3 (Call ''fGd'' [V 0, V 4])), When (Loose (V 1) (K JNull)) [When (Loose (V 3) (K JNull)) [Ret (V 4)] []] [When (Or (Same (Call ''XD'' [V 1]) (Call ''XD'' [V 3])) (Call ''pb'' [V 1, V 3])) [Ret (V 4)] []]] [Do (Bin Minus (SetV 4 (Bin Minus (V 4) (K (JNum (- 1))))) (K (JNum 1)))], Ret (K (JNum (- 1)))],
    fn ''Oce'' 2 2 [Do (SetV 2 (Meth (V 1) ''ni'' [Dot (V 0) ''a''])), When (Neg (V 2)) [Ret (K JNull)] [Do (SetV 3 (Call ''OD'' [Call ''pMd'' [Seq (And (Neg (Dot (V 2) ''b'')) (Put (V 2) ''b'' (New ''dUd'' [Seq (Call ''WRd'' []) (G ''SRd''), G ''N7'', V 2]))) (Dot (V 2) ''b''), G ''kJe'']])), Ret (Cond (Call ''vgb'' [G ''lJe'', V 3]) (Call ''fde'' [V 0, Call ''OVd'' [Meth (V 1) ''ok'' []]]) (V 3))]],
    fn ''_he'' 2 2 [When (V 1) [When (Loose (V 1) (V 0)) [Ret (K (JBool True))] [], Do (SetV 2 (K (JNum 0))), Do (SetV 3 (Meth (Call ''JD'' [V 1, K (JNum 52)]) ''Mh'' [])), Loop (And (Neg (Neg (V 3))) (Neg (Loose (V 3) (V 1)))) [When (Bin Gt (SetV 2 (Bin Minus (V 2) (K (JNum (- 1))))) (G ''Kve'')) [Ret (Call ''_he'' [V 0, V 3])] [], When (Loose (V 3) (V 0)) [Ret (K (JBool True))] []] [Do (SetV 3 (Meth (V 3) ''Mh'' []))]] [], Ret (K (JBool False))],
    fn ''bLb'' 1 0 [Do (Call ''YKb'' []), Switch (Dot (Dot (V 0) ''q'') ''g'') [(Some (JNum 5), [Do (Call ''$Kb'' [V 0, Seq (Call ''Bmd'' []) (G ''hmd'')]), Do (Call ''$Kb'' [V 0, G ''ymd'']), Break]), (Some (JNum 4), [Do (Call ''_Kb'' [V 0, Seq (Call ''Bmd'' []) (G ''hmd'')]), Do (Call ''_Kb'' [V 0, G ''ymd'']), Break]), (None, [Do (Call ''aLb'' [V 0, Seq (Call ''Bmd'' []) (G ''hmd'')]), Do (Call ''aLb'' [V 0, G ''ymd''])])]],
    fn ''fLb'' 1 0 [Do (Call ''YKb'' []), Switch (Dot (Dot (V 0) ''q'') ''g'') [(Some (JNum 5), [Do (Call ''cLb'' [V 0, Seq (Call ''Bmd'' []) (G ''gmd'')]), Do (Call ''cLb'' [V 0, G ''Amd'']), Break]), (Some (JNum 4), [Do (Call ''dLb'' [V 0, Seq (Call ''Bmd'' []) (G ''gmd'')]), Do (Call ''dLb'' [V 0, G ''Amd'']), Break]), (None, [Do (Call ''eLb'' [V 0, Seq (Call ''Bmd'' []) (G ''gmd'')]), Do (Call ''eLb'' [V 0, G ''Amd''])])]],
    fn ''iNb'' 1 2 [Do (SetV 1 (Call ''JD'' [Call ''oNb'' [V 0, Seq (Call ''aPb'' []) (G ''QOb'')], K (JNum 15)])), When (V 1) [Do (SetV 2 (Dot (V 1) ''a'')), Do (Cond (Loose (V 2) (K (JNum 0))) (Call ''rNb'' [V 0, Seq (Call ''lPb'' []) (G ''kPb''), New ''Vvb'' []]) (Call ''rNb'' [V 0, Seq (Call ''lPb'' []) (G ''kPb''), New ''Wvb'' [V 2]]))] [Do (Call ''rNb'' [V 0, Seq (Call ''lPb'' []) (G ''kPb''), New ''Wvb'' [K (JNum 1)]])]],
    fn ''IXb'' 2 1 [Do (SetV 2 (Dot (V 0) ''i'')), Switch (Dot (V 1) ''g'') [(Some (JNum 1), [Ret (Minus1 (Bin Plus (Dot (Dot (V 0) ''n'') ''b'') (Dot (Dot (V 0) ''o'') ''b'')))]), (Some (JNum 2), [Ret (Bin Minus (Dot (Dot (V 0) ''n'') ''a'') (Dot (Dot (V 2) ''o'') ''a''))]), (Some (JNum 3), [Ret (Bin Minus (Dot (Dot (V 0) ''n'') ''b'') (Dot (Dot (V 2) ''o'') ''b''))]), (Some (JNum 4), [Ret (Minus1 (Bin Plus (Dot (Dot (V 0) ''n'') ''a'') (Dot (Dot (V 0) ''o'') ''a'')))])], Ret (K (JNum 0))],
    fn ''k8b'' 2 0 [Switch (Dot (V 0) ''g'') [(Some (JNum 0), [Ret (Cond (Loose (V 1) (Seq (Call ''asc'' []) (G ''Yrc''))) (G ''g8b'') (G ''h8b''))]), (Some (JNum 1), [Ret (Cond (Loose (V 1) (Seq (Call ''asc'' []) (G ''Yrc''))) (G ''g8b'') (G ''f8b''))]), (Some (JNum 2), [Ret (Cond (Loose (V 1) (Seq (Call ''asc'' []) (G ''Yrc''))) (G ''f8b'') (G ''h8b''))]), (None, [Ret (G ''f8b'')])]],
    fn ''B7c'' 2 3 [Do (Call ''gmb'' [Dot (V 0) ''a'', V 1]), Do (Put (V 0) ''e'' (Bin Minus (Dot (V 0) ''e'') (Bin Plus (Dot (V 1) ''r'') (Cond (Loose (Dot (Dot (Dot (V 0) ''a'') ''c'') ''length'') (K (JNum 0))) (K (JNum 0)) (Dot (V 0) ''c''))))), Do (SetV 4 (G ''uCe'')), Do (SetV 3 (New ''Kmb'' [Dot (V 0) ''a''])), Loop (Bin Lt (Dot (V 3) ''a'') (Dot (Dot (Dot (V 3) ''c'') ''c'') ''length'')) [Do (SetV 2 (Call ''JD'' [Call ''Imb'' [V 3], K (JNum 173)])), Do (SetV 4 (Meth (Dot (G ''$wnd'') ''Math'') ''max'' [V 4, Dot (V 2) ''d'']))] [], Do (Put (V 0) ''b'' (V 4))],
    fn ''$Ad'' 3 3 [Do (SetV 5 (Call ''JD'' [Call ''ejb'' [Dot (V 0) ''r'', V 1], K (JNum 300)])), Do (SetV 4 (K JNull)), When (V 5) [Switch (Dot (V 5) ''g'') [(Some (JNum 2), [Do (SetV 3 (Call ''MD'' [Call ''ejb'' [Dot (V 0) ''i'', V 1]])), Do (SetV 4 (Bin Plus (Seq (Call ''NDb'' [V 2]) (V 2)) (Seq (Call ''NDb'' [V 3]) (V 3)))), Break]), (None, [Do (SetV 4 (V 2))])]] [Do (SetV 4 (V 2))], Ret (V 4)],
    fn ''aBd'' 3 3 [Do (SetV 5 (Call ''JD'' [Call ''ejb'' [Dot (V 0) ''r'', V 1], K (JNum 300)])), Do (SetV 4 (K JNull)), When (V 5) [Switch (Dot (V 5) ''g'') [(Some (JNum 2), [Do (SetV 3 (Call ''MD'' [Call ''ejb'' [Dot (V 0) ''j'', V 1]])), Do (SetV 4 (Bin Plus (Seq (Call ''NDb'' [V 2]) (V 2)) (Seq (Call ''NDb'' [V 3]) (V 3)))), Break]), (None, [Do (SetV 4 (V 2))])]] [Do (SetV 4 (V 2))], Ret (V 4)],
    fn ''hUd'' 1 1 [When (And (And (Loose (Bin BitAnd (Dot (V 0) ''Bb'') (K (JNum 1))) (K (JNum 0))) (Neg (Neg (Dot (V 0) ''r'')))) (Meth (Dot (V 0) ''r'') ''Sh'' [])) [Do (SetV 1 (Call ''JD'' [Dot (V 0) ''r'', K (JNum 52)])), Do (Put (V 0) ''r'' (Call ''JD'' [Call ''rtd'' [V 0, V 1], K (JNum 143)])), Do (And (And (And (Neg (Loose (Dot (V 0) ''r'') (V 1))) (Neg (Loose (Bin BitAnd (Dot (V 0) ''Db'') (K (JNum 4))) (K (JNum 0))))) (Loose (Bin BitAnd (Dot (V 0) ''Db'') (K (JNum 1))) (K (JNum 0)))) (Call ''Osd'' [V 0, New ''$1d'' [V 0, K (JNum 9), K (JNum 8), V 1, Dot (V 0) ''r'']]))] [], Ret (Dot (V 0) ''r'')],
    fn ''UHb'' 3 1 [Do (SetV 3 (Call ''WC'' [Call ''OC'' [G ''aE'', K (JNum 1)], G ''Jve'', K (JNum 30), K (JNum 15), NewArr [Call ''XHb'' [V 0, Seq (Call ''CHb'' []) (G ''zHb''), V 1, V 2], Call ''XHb'' [V 0, G ''AHb'', V 1, V 2], Call ''XHb'' [V 0, G ''BHb'', V 1, V 2]]])), When (Dot (V 0) ''f'') [Do (PutIdx (V 3) (K (JNum 0)) (Meth (Dot (G ''$wnd'') ''Math'') ''max'' [Idx (V 3) (K (JNum 0)), Idx (V 3) (K (JNum 2))])), Do (PutIdx (V 3) (K (JNum 2)) (Idx (V 3) (K (JNum 0))))] [], Ret (V 3)],
    fn ''T6b'' 2 3 [Do (SetV 4 (Call ''$6b'' [V 0, V 1])), When (Loose (Dot (Dot (V 4) ''c'') ''length'') (K (JNum 0))) [Ret (K JUndef)] [], Do (Call ''jmb'' [V 4, New ''u7b'' []]), Do (SetV 2 (Dot (Dot (V 4) ''c'') ''length'')), Do (SetV 3 (K (JNum 0))), Loop (Bin Lt (V 3) (V 2)) [Do (Call ''P6b'' [V 0, Seq (Call ''MDb'' [V 3, Dot (Dot (V 4) ''c'') ''length'']) (Call ''JD'' [Idx (Dot (V 4) ''c'') (V 3), K (JNum 294)]), Call ''W6b'' [V 0, V 4, V 3]])] [Do (Bin Minus (SetV 3 (Bin Minus (V 3) (K (JNum (- 1))))) (K (JNum 1)))]],
    fn ''Jcc'' 3 2 [Do (SetV 3 (Bin Times (V 1) (V 2))), When (Call ''RD'' [Dot (V 0) ''g'', K (JNum 156)]) [Do (SetV 4 (Call ''_dc'' [V 0])), When (Dot (Dot (V 4) ''f'') ''d'') [Do (Or (Dot (Dot (V 4) ''f'') ''a'') (Put (Dot (V 0) ''d'') ''a'' (Bin Plus (Dot (Dot (V 0) ''d'') ''a'') (Bin Plus (V 3) (G ''Zwe'')))))] [Do (Put (Dot (V 0) ''d'') ''d'' (Bin Minus (Dot (Dot (V 0) ''d'') ''d'') (Bin Plus (V 3) (G ''Zwe'')))), Do (Put (Dot (V 0) ''d'') ''a'' (Bin Plus (Dot (Dot (V 0) ''d'') ''a'') (Bin Plus (V 3) (G ''Zwe''))))]] [When (Call ''RD'' [Dot (V 0) ''g'', K (JNum 9)]) [Do (Put (Dot (V 0) ''d'') ''d'' (Bin Minus (Dot (Dot (V 0) ''d'') ''d'') (V 3))), Do (Put (Dot (V 0) ''d'') ''a'' (Bin Plus (Dot (Dot (V 0) ''d'') ''a'') (Bin Times (K (JNum 2)) (V 3))))] []]],
    fn ''gic'' 1 4 [Do (SetV 4 (Meth (Call ''JD'' [Call ''Qc'' [Dot (V 0) ''a'', Seq (Call ''Nhc'' []) (G ''Ihc'')], K (JNum 16)]) ''Jc'' [])), Loop (Meth (V 4) ''Ob'' []) [Do (SetV 3 (Call ''JD'' [Meth (V 4) ''Pb'' [], K (JNum 107)])), Do (SetV 2 (Meth (Call ''Ec'' [Dot (V 3) ''k'']) ''Jc'' [])), Loop (Meth (V 2) ''Ob'' []) [Do (SetV 1 (Call ''JD'' [Meth (V 2) ''Pb'' [], K (JNum 64)])), Do (Call ''aic'' [V 0, V 3, V 1, Seq (Call ''vic'' []) (G ''tic''), K (JNum 1)])] []] []],
    fn ''Amc'' 1 2 [When (Loose (Dot (V 0) ''k'') (Seq (Call ''$Yb'' []) (G ''VYb''))) [Do (SetV 2 (New ''Yr'' [Call ''Dr'' [Meth (Dot (Call ''BYb'' [V 0]) ''a'') ''Jc'' [], New ''Dl'' []]])), Loop (Call ''Wr'' [V 2]) [Do (SetV 1 (Call ''JD'' [Call ''Xr'' [V 2], K (JNum 17)])), When (And (Neg (Call ''AWb'' [V 1])) (Loose (Dot (V 0) ''c'') (Dot (Call ''xWb'' [V 1, V 0]) ''c''))) [Ret (K (JBool True))] []] []] [], Ret (K (JBool False))],
    fn ''SOc'' 1 2 [When (Loose (Dot (V 0) ''k'') (Seq (Call ''$Yb'' []) (G ''VYb''))) [Do (SetV 2 (New ''Yr'' [Call ''Dr'' [Meth (Dot (Call ''BYb'' [V 0]) ''a'') ''Jc'' [], New ''Dl'' []]])), Loop (Call ''Wr'' [V 2]) [Do (SetV 1 (Call ''JD'' [Call ''Xr'' [V 2], K (JNum 17)])), When (And (Neg (Call ''AWb'' [V 1])) (Loose (Dot (Dot (Dot (V 1) ''c'') ''i'') ''c'') (Dot (Dot (Dot (V 1) ''d'') ''i'') ''c''))) [Ret (K (JBool True))] []] []] [], Ret (K (JBool False))],
    fn ''Ozd'' 2 2 [When (Loose (Bin Shr (Dot (V 0) ''Db'') (K (JNum 16))) (K (JNum 11))) [Ret (Meth (Dot (V 0) ''Cb'') ''Qh'' [V 0, K (JNum 10), G ''T3'', V 1])] [], Ret (Seq (SetV 3 (Call ''k4d'' [Call ''JD'' [Call ''IWd'' [Seq (SetV 2 (Call ''JD'' [Call ''uud'' [V 0, K (JNum 16)], K (JNum 29)])) (Cond (Neg (V 2)) (Seq (Call ''Nsd'' []) (G ''Isd'')) (V 2)), Bin Shr (Dot (V 0) ''Db'') (K (JNum 16))], K (JNum 19)]])) (Meth (Dot (V 0) ''Cb'') ''Qh'' [V 0, Dot (V 3) ''n'', Dot (V 3) ''f'', V 1]))],
    fn ''A2d'' 2 2 [When (Loose (Bin Shr (Dot (V 0) ''Db'') (K (JNum 16))) (K (JNum 10))) [Ret (Meth (Dot (V 0) ''Cb'') ''Qh'' [V 0, K (JNum 11), G ''s6'', V 1])] [], Ret (Seq (SetV 3 (Call ''k4d'' [Call ''JD'' [Call ''IWd'' [Seq (SetV 2 (Call ''JD'' [Call ''uud'' [V 0, K (JNum 16)], K (JNum 29)])) (Cond (Neg (V 2)) (Seq (Call ''WRd'' []) (G ''NRd'')) (V 2)), Bin Shr (Dot (V 0) ''Db'') (K (JNum 16))], K (JNum 19)]])) (Meth (Dot (V 0) ''Cb'') ''Qh'' [V 0, Dot (V 3) ''n'', Dot (V 3) ''f'', V 1]))],
    fn ''b4d'' 2 2 [When (Loose (Bin Shr (Dot (V 0) ''Db'') (K (JNum 16))) (K (JNum 10))) [Ret (Meth (Dot (V 0) ''Cb'') ''Qh'' [V 0, K (JNum 12), G ''D6'', V 1])] [], Ret (Seq (SetV 3 (Call ''k4d'' [Call ''JD'' [Call ''IWd'' [Seq (SetV 2 (Call ''JD'' [Call ''uud'' [V 0, K (JNum 16)], K (JNum 29)])) (Cond (Neg (V 2)) (Seq (Call ''WRd'' []) (G ''QRd'')) (V 2)), Bin Shr (Dot (V 0) ''Db'') (K (JNum 16))], K (JNum 19)]])) (Meth (Dot (V 0) ''Cb'') ''Qh'' [V 0, Dot (V 3) ''n'', Dot (V 3) ''f'', V 1]))],
    fn ''DBd'' 2 5 [When (V 1) [Do (SetV 4 (Dot (Dot (V 1) ''a'') ''length'')), Do (SetV 2 (New ''Kse'' [V 4])), Do (SetV 6 (Cond (Bin Lt (Bin Times (Bin Minus (Dot (V 2) ''b'') (Dot (V 2) ''a'')) (Dot (V 2) ''c'')) (K (JNum 0))) (Seq (Call ''Jse'' []) (G ''Ise'')) (New ''ete'' [V 2]))), Loop (Meth (V 6) ''Ob'' []) [Do (SetV 5 (Call ''JD'' [Meth (V 6) ''Pb'' [], K (JNum 15)])), Do (SetV 3 (Call ''TAd'' [V 1, Dot (V 5) ''a''])), Do (And (Neg (Neg (V 3))) (Call ''kCd'' [V 0, V 3]))] []] []],
    fn ''o9d'' 0 2 [Do (Call ''e9d'' []), Do (Call ''i9d'' [Seq (Call ''yRd'' []) (G ''xRd'')]), Do (Call ''h9d'' [G ''xRd'']), Do (Call ''Nyd'' [G ''xRd'']), Do (SetG ''q0d'' (Seq (Call ''WRd'' []) (G ''JRd''))), Do (SetV 1 (New ''Kmb'' [G ''c9d''])), Loop (Bin Lt (Dot (V 1) ''a'') (Dot (Dot (Dot (V 1) ''c'') ''c'') ''length'')) [Do (SetV 0 (Call ''JD'' [Call ''Imb'' [V 1], K (JNum 248)])), Do (Call ''B0d'' [V 0, G ''JRd'', K JNull])] [], Ret (K (JBool True))],
    fn ''mD'' 2 8 [Do (SetV 8 (Bin Shr (Dot (V 0) ''h'') (K (JNum 19)))), Do (SetV 9 (Bin Shr (Dot (V 1) ''h'') (K (JNum 19)))), When (Neg (Loose (V 8) (V 9))) [Ret (Bin Minus (V 9) (V 8))] [], Do (SetV 4 (Dot (V 0) ''h'')), Do (SetV 7 (Dot (V 1) ''h'')), When (Neg (Loose (V 4) (V 7))) [Ret (Bin Minus (V 4) (V 7))] [], Do (SetV 3 (Dot (V 0) ''m'')), Do (SetV 6 (Dot (V 1) ''m'')), When (Neg (Loose (V 3) (V 6))) [Ret (Bin Minus (V 3) (V 6))] [], Do (SetV 2 (Dot (V 0) ''l'')), Do (SetV 5 (Dot (V 1) ''l'')), Ret (Bin Minus (V 2) (V 5))],
    fn ''pkc'' 3 5 [Do (SetV 4 (Idx (V 0) (Dot (V 2) ''g''))), Do (SetV 7 (New ''Kmb'' [Dot (V 1) ''d''])), Loop (Bin Lt (Dot (V 7) ''a'') (Dot (Dot (Dot (V 7) ''c'') ''c'') ''length'')) [Do (SetV 6 (Call ''JD'' [Call ''Imb'' [V 7], K (JNum 107)])), Do (SetV 5 (Dot (V 6) ''i'')), When (And (Neg (Neg (V 5))) (Loose (Dot (V 5) ''i'') (V 2))) [Do (SetV 3 (Idx (Dot (V 6) ''d'') (Dot (V 2) ''g''))), Do (PutIdx (V 4) (V 3) (Meth (Dot (G ''$wnd'') ''Math'') ''max'' [Idx (V 4) (V 3), Dot (Dot (V 5) ''j'') ''b'']))] []] []],
    fn ''f6c'' 2 5 [Do (SetV 3 (K (JNum 0))), Do (SetV 4 (K (JNum 0))), Do (SetV 2 (K (JNum 0))), Do (SetV 6 (New ''Kmb'' [Dot (V 1) ''d''])), Loop (Bin Lt (Dot (V 6) ''a'') (Dot (Dot (Dot (V 6) ''c'') ''c'') ''length'')) [Do (SetV 5 (Call ''JD'' [Call ''Imb'' [V 6], K (JNum 320)])), Do (Call ''c7c'' [V 5]), Do (SetV 3 (Meth (Dot (G ''$wnd'') ''Math'') ''max'' [V 3, Dot (V 5) ''b''])), Do (SetV 4 (Bin Plus (V 4) (Bin Plus (Dot (V 5) ''d'') (Cond (Bin Gt (V 2) (K (JNum 0))) (Dot (V 0) ''b'') (K (JNum 0)))))), Do (SetV 2 (Bin Minus (V 2) (K (JNum (- 1)))))] [], Do (Put (V 1) ''b'' (V 3)), Do (Put (V 1) ''e'' (V 4))],
    fn ''zo'' 1 3 [Do (SetV 3 (Dot (V 0) ''b'')), When (Call ''Rp'' [Dot (V 0) ''i'', Dot (V 3) ''length'']) [Do (SetV 2 (Bin Times (Dot (V 3) ''length'') (K (JNum 2)))), Do (Put (V 0) ''b'' (Call ''SC'' [G ''QF'', G ''tue'', K (JNum 309), V 2, K (JNum 0), K (JNum 1)])), Do (Put (V 0) ''c'' (Call ''SC'' [G ''QF'', G ''tue'', K (JNum 309), V 2, K (JNum 0), K (JNum 1)])), Do (Put (V 0) ''f'' (Bin Minus (V 2) (K (JNum 1)))), Do (Put (V 0) ''i'' (K (JNum 0))), Do (SetV 1 (Dot (V 0) ''a'')), Loop (V 1) [Do (Call ''vo'' [V 0, V 1, V 1])] [Do (SetV 1 (Dot (V 1) ''c''))], Do (Put (V 0) ''g'' (Bin Minus (Dot (V 0) ''g'') (K (JNum (- 1)))))] []],
    fn ''QUb'' 2 0 [Do (Put (Dot (V 0) ''b'') ''a'' (Meth (Dot (G ''$wnd'') ''Math'') ''min'' [Dot (Dot (V 0) ''b'') ''a'', Dot (V 1) ''c''])), Do (Put (Dot (V 0) ''b'') ''b'' (Meth (Dot (G ''$wnd'') ''Math'') ''min'' [Dot (Dot (V 0) ''b'') ''b'', Dot (V 1) ''d''])), Do (Put (Dot (V 0) ''a'') ''a'' (Meth (Dot (G ''$wnd'') ''Math'') ''max'' [Dot (Dot (V 0) ''a'') ''a'', Dot (V 1) ''c''])), Do (Put (Dot (V 0) ''a'') ''b'' (Meth (Dot (G ''$wnd'') ''Math'') ''max'' [Dot (Dot (V 0) ''a'') ''b'', Dot (V 1) ''d''])), Ret (Seq (Call ''qDb'' [Dot (V 0) ''c'', V 1]) (K (JBool True)))],
    fn ''Tmc'' 3 1 [Do (SetV 3 (Dot (Dot (V 1) ''c'') ''i'')), When (Loose (Dot (V 3) ''k'') (Seq (Call ''$Yb'' []) (G ''VYb''))) [Do (Call ''rNb'' [V 0, Seq (Call ''Wrc'' []) (G ''nrc''), Call ''JD'' [Call ''oNb'' [V 3, G ''nrc''], K (JNum 12)]]), Do (Call ''rNb'' [V 0, G ''orc'', Call ''JD'' [Call ''oNb'' [V 3, G ''orc''], K (JNum 12)]])] [Do (Call ''rNb'' [V 0, Seq (Call ''Wrc'' []) (G ''nrc''), Dot (V 1) ''c'']), Do (Call ''rNb'' [V 0, G ''orc'', Dot (V 2) ''d''])]],
    fn ''tfd'' 3 6 [Do (Call ''qfd'' []), Do (SetV 6 (Bin Divide (V 1) (K (JNum 2)))), Do (SetV 5 (Bin Divide (V 2) (K (JNum 2)))), Do (SetV 3 (Meth (Dot (G ''$wnd'') ''Math'') ''abs'' [Dot (V 0) ''a''])), Do (SetV 4 (Meth (Dot (G ''$wnd'') ''Math'') ''abs'' [Dot (V 0) ''b''])), Do (SetV 7 (K (JNum 1))), Do (SetV 8 (K (JNum 1))), Do (And (Bin Gt (V 3) (V 6)) (SetV 7 (Bin Divide (V 6) (V 3)))), Do (And (Bin Gt (V 4) (V 5)) (SetV 8 (Bin Divide (V 5) (V 4)))), Do (Call ''dgd'' [V 0, Meth (Dot (G ''$wnd'') ''Math'') ''min'' [V 7, V 8]]), Ret (V 0)],
    fn ''iyd'' 0 3 [Do (Call ''Mxd'' []), Try [Do (SetV 1 (Call ''JD'' [Call ''Z3d'' [Seq (Call ''jRd'' []) (G ''iRd''), G ''jGe''], K (JNum 2078)])), When (V 1) [Ret (V 1)] []] 2 [Do (SetV 2 (Call ''Kcb'' [V 2])), When (Call ''RD'' [V 2, K (JNum 101)]) [Do (SetV 0 (V 2)), Do (Call ''jHd'' [Seq (Call ''Ube'' []) (V 0)])] [Raise (Call ''Lcb'' [V 2])]], Ret (New ''eyd'' [])],
    fn ''b9d'' 0 3 [Do (Call ''Mxd'' []), Try [Do (SetV 1 (Call ''JD'' [Call ''Z3d'' [Seq (Call ''jRd'' []) (G ''iRd''), G ''LIe''], K (JNum 2005)])), When (V 1) [Ret (V 1)] []] 2 [Do (SetV 2 (Call ''Kcb'' [V 2])), When (Call ''RD'' [V 2, K (JNum 101)]) [Do (SetV 0 (V 2)), Do (Call ''jHd'' [Seq (Call ''Ube'' []) (V 0)])] [Raise (Call ''Lcb'' [V 2])]], Ret (New ''Z8d'' [])],
    fn ''Ile'' 0 3 [Do (Call ''kle'' []), Try [Do (SetV 1 (Call ''JD'' [Call ''Z3d'' [Seq (Call ''jRd'' []) (G ''iRd''), G ''oJe''], K (JNum 2087)])), When (V 1) [Ret (V 1)] []] 2 [Do (SetV 2 (Call ''Kcb'' [V 2])), When (Call ''RD'' [V 2, K (JNum 101)]) [Do (SetV 0 (V 2)), Do (Call ''jHd'' [Seq (Call ''Ube'' []) (V 0)])] [Raise (Call ''Lcb'' [V 2])]], Ret (New ''Ele'' [])]]"

definition code_4828_4838 :: "(string \<times> jfun) list" where
  "code_4828_4838 = [
    fn ''s0d'' 3 2 [Do (SetV 4 (Dot (V 0) ''e'')), Do (Put (V 0) ''e'' (V 1)), When (And (Neg (Loose (Bin BitAnd (Dot (V 0) ''Db'') (K (JNum 4))) (K (JNum 0)))) (Loose (Bin BitAnd (Dot (V 0) ''Db'') (K (JNum 1))) (K (JNum 0)))) [Do (SetV 3 (New ''$1d'' [V 0, K (JNum 1), K (JNum 4), V 4, V 1])), Do (Cond (Neg (V 2)) (SetV 2 (V 3)) (Meth (V 2) ''lj'' [V 3]))] [], Do (And (Neg (Loose (V 4) (V 1))) (Cond (V 1) (SetV 2 (Call ''B0d'' [V 0, Call ''x0d'' [V 0, V 1], V 2])) (SetV 2 (Call ''B0d'' [V 0, Dot (V 0) ''a'', V 2])))), Ret (V 2)],
    fn ''vB'' 0 0 [Do (Super ''mB'' []), Do (Put This ''e'' (K (JNum (- 1)))), Do (Put This ''a'' (K (JBool False))), Do (Put This ''p'' (G ''Eue'')), Do (Put This ''k'' (K (JNum (- 1)))), Do (Put This ''c'' (K (JNum (- 1)))), Do (Put This ''b'' (K (JNum (- 1)))), Do (Put This ''g'' (K (JBool False))), Do (Put This ''f'' (K (JNum (- 1)))), Do (Put This ''j'' (K (JNum (- 1)))), Do (Put This ''n'' (K (JNum (- 1)))), Do (Put This ''i'' (K (JNum (- 1)))), Do (Put This ''d'' (K (JNum (- 1)))), Do (Put This ''o'' (G ''Eue''))],
    fn ''AFb'' 2 3 [Do (SetV 3 (Dot (Dot (Dot (V 0) ''b'') ''d'') ''d'')), Do (Or (Dot (V 0) ''a'') (SetV 3 (Bin Plus (V 3) (Dot (Dot (Dot (V 0) ''b'') ''d'') ''a'')))), Do (SetV 4 (Dot (Dot (Dot (V 1) ''b'') ''d'') ''d'')), Do (Or (Dot (V 1) ''a'') (SetV 4 (Bin Plus (V 4) (Dot (Dot (Dot (V 1) ''b'') ''d'') ''a'')))), Do (SetV 2 (Call ''$eb'' [V 3, V 4])), When (Loose (V 2) (K (JNum 0))) [When (And (Neg (Dot (V 0) ''a'')) (Dot (V 1) ''a'')) [Ret (K (JNum (- 1)))] [When (And (Neg (Dot (V 1) ''a'')) (Dot (V 0) ''a'')) [Ret (K (JNum 1))] []]] [], Ret (V 2)],
    fn ''zMb'' 2 3 [Do (SetV 3 (Dot (Dot (Dot (V 0) ''b'') ''b'') ''d'')), Do (Or (Dot (V 0) ''a'') (SetV 3 (Bin Plus (V 3) (Dot (Dot (Dot (V 0) ''b'') ''b'') ''a'')))), Do (SetV 4 (Dot (Dot (Dot (V 1) ''b'') ''b'') ''d'')), Do (Or (Dot (V 1) ''a'') (SetV 4 (Bin Plus (V 4) (Dot (Dot (Dot (V 1) ''b'') ''b'') ''a'')))), Do (SetV 2 (Call ''$eb'' [V 3, V 4])), When (Loose (V 2) (K (JNum 0))) [When (And (Neg (Dot (V 0) ''a'')) (Dot (V 1) ''a'')) [Ret (K (JNum (- 1)))] [When (And (Neg (Dot (V 1) ''a'')) (Dot (V 0) ''a'')) [Ret (K (JNum 1))] []]] [], Ret (V 2)],
    fn ''vSb'' 2 3 [Do (SetV 3 (Dot (Dot (Dot (V 0) ''b'') ''g'') ''d'')), Do (Or (Dot (V 0) ''a'') (SetV 3 (Bin Plus (V 3) (Dot (Dot (Dot (V 0) ''b'') ''g'') ''a'')))), Do (SetV 4 (Dot (Dot (Dot (V 1) ''b'') ''g'') ''d'')), Do (Or (Dot (V 1) ''a'') (SetV 4 (Bin Plus (V 4) (Dot (Dot (Dot (V 1) ''b'') ''g'') ''a'')))), Do (SetV 2 (Call ''$eb'' [V 3, V 4])), When (Loose (V 2) (K (JNum 0))) [When (And (Neg (Dot (V 0) ''a'')) (Dot (V 1) ''a'')) [Ret (K (JNum (- 1)))] [When (And (Neg (Dot (V 1) ''a'')) (Dot (V 0) ''a'')) [Ret (K (JNum 1))] []]] [], Ret (V 2)],
    fn ''DQb'' 0 0 [Do (SetG ''DQb'' (G ''qdb'')), Do (SetG ''AQb'' (Call ''icd'' [Call ''kcd'' [Call ''kcd'' [Call ''kcd'' [New ''pcd'' [], Seq (Call ''YQb'' []) (G ''WQb''), Seq (Call ''X5b'' []) (G ''q5b'')], G ''WQb'', G ''u5b''], G ''XQb'', G ''B5b''], G ''XQb'', G ''e5b''])), Do (SetG ''CQb'' (Call ''kcd'' [Call ''kcd'' [New ''pcd'' [], G ''WQb'', G ''W4b''], G ''WQb'', G ''f5b''])), Do (SetG ''BQb'' (Call ''icd'' [New ''pcd'' [], G ''XQb'', G ''h5b'']))],
    fn ''v0b'' 1 5 [Do (SetV 1 (Call ''JD'' [Call ''oNb'' [V 0, Seq (Call ''Wrc'' []) (G ''Vqc'')], K (JNum 92)])), Do (SetV 5 (Dot (V 0) ''n'')), Do (SetV 3 (Meth (Meth (V 1) ''Bc'' []) ''Jc'' [])), Loop (Meth (V 3) ''Ob'' []) [Do (SetV 2 (Call ''JD'' [Meth (V 3) ''Pb'' [], K (JNum 319)])), Do (SetV 4 (Dot (V 2) ''i'')), Do (Put (V 4) ''c'' (Bin Plus (Dot (V 4) ''c'') (Dot (V 5) ''a''))), Do (Put (V 4) ''d'' (Bin Plus (Dot (V 4) ''d'') (Dot (V 5) ''b''))), Do (Cond (Dot (V 2) ''c'') (Call ''pIb'' [V 2]) (Call ''rIb'' [V 2]))] [], Do (Call ''rNb'' [V 0, G ''Vqc'', K JNull])],
    fn ''kkc'' 3 2 [Do (SetV 4 (Dot (V 0) ''b'')), Do (SetV 3 (Dot (V 4) ''d'')), Switch (Dot (V 1) ''g'') [(Some (JNum 1), [Ret (Bin Minus (Minus1 (Dot (V 3) ''d'')) (V 2))]), (Some (JNum 2), [Ret (Bin Plus (Bin Plus (Dot (Dot (V 4) ''o'') ''a'') (Dot (V 3) ''c'')) (V 2))]), (Some (JNum 3), [Ret (Bin Plus (Bin Plus (Dot (Dot (V 4) ''o'') ''b'') (Dot (V 3) ''a'')) (V 2))]), (Some (JNum 4), [Ret (Bin Minus (Minus1 (Dot (V 3) ''b'')) (V 2))]), (None, [Ret (K (JNum (- 1)))])]],
    fn ''jFc'' 2 2 [Do (SetV 3 (New ''Kmb'' [V 1])), Loop (Bin Lt (Dot (V 3) ''a'') (Dot (Dot (Dot (V 3) ''c'') ''c'') ''length'')) [Do (SetV 2 (Call ''JD'' [Call ''Imb'' [V 3], K (JNum 9)])), Do (Put (Idx (Idx (Dot (V 0) ''c'') (Dot (Dot (V 2) ''c'') ''p'')) (Dot (V 2) ''p'')) ''a'' (Call ''Pvb'' [Dot (V 0) ''i''])), Do (Put (Idx (Idx (Dot (V 0) ''c'') (Dot (Dot (V 2) ''c'') ''p'')) (Dot (V 2) ''p'')) ''d'' (Call ''Ueb'' [Dot (Idx (Idx (Dot (V 0) ''c'') (Dot (Dot (V 2) ''c'') ''p'')) (Dot (V 2) ''p'')) ''a''])), Do (Put (Idx (Idx (Dot (V 0) ''c'') (Dot (Dot (V 2) ''c'') ''p'')) (Dot (V 2) ''p'')) ''b'' (K (JNum 1)))] []],
    fn ''Dod'' 2 4 [Do (SetV 5 (K (JNum 0))), Do (SetV 3 (New ''Kmb'' [V 0])), Loop (Bin Lt (Dot (V 3) ''a'') (Dot (Dot (Dot (V 3) ''c'') ''c'') ''length'')) [Do (SetV 2 (Call ''JD'' [Call ''Imb'' [V 3], K (JNum 167)])), Do (SetV 5 (Bin Plus (V 5) (Meth (Dot (G ''$wnd'') ''Math'') ''pow'' [Bin Minus (Bin Times (Call ''Wod'' [V 2]) (Call ''Vod'' [V 2])) (V 1), K (JNum 2)])))] [], Do (SetV 4 (Meth (Dot (G ''$wnd'') ''Math'') ''sqrt'' [Bin Divide (V 5) (Bin Minus (Dot (Dot (V 0) ''c'') ''length'') (K (JNum 1)))])), Ret (V 4)],
    fn ''lKc'' 3 2 [Do (Meth (V 2) ''Tg'' [K (JStr ''Interactive node placement''), K (JNum 1)]), Do (Put (V 0) ''a'' (Call ''JD'' [Call ''oNb'' [V 1, Seq (Call ''Wrc'' []) (G ''Krc'')], K (JNum 317)])), Do (SetV 4 (New ''Kmb'' [Dot (V 1) ''b''])), Loop (Bin Lt (Dot (V 4) ''a'') (Dot (Dot (Dot (V 4) ''c'') ''c'') ''length'')) [Do (SetV 3 (Call ''JD'' [Call ''Imb'' [V 4], K (JNum 25)])), Do (Call ''kKc'' [V 0, V 3])] [], Do (Meth (V 2) ''Ug'' [])]]"

definition code_4840_4857 :: "(string \<times> jfun) list" where
  "code_4840_4857 = [
    fn ''K7c'' 2 4 [Do (SetV 5 (New ''_rb'' [])), Do (Put (V 1) ''e'' (K JNull)), Do (Put (V 1) ''f'' (K JNull)), Do (SetV 3 (New ''Kmb'' [Dot (V 1) ''i''])), Loop (Bin Lt (Dot (V 3) ''a'') (Dot (Dot (Dot (V 3) ''c'') ''c'') ''length'')) [Do (SetV 2 (Call ''JD'' [Call ''Imb'' [V 3], K (JNum 68)])), Do (SetV 4 (Call ''JD'' [Call ''ejb'' [Dot (V 0) ''g'', Dot (V 2) ''a''], K (JNum 49)])), Do (Put (V 2) ''a'' (Call ''Jfd'' [Dot (V 2) ''b''])), Do (Call ''hjb'' [V 5, Dot (V 2) ''a'', V 4])] [], Do (Put (V 0) ''g'' (V 5))],
    fn ''z7c'' 3 6 [Do (SetV 4 (Bin Minus (V 1) (Dot (V 0) ''e''))), Do (SetV 5 (Bin Divide (V 4) (Dot (Dot (Dot (V 0) ''d'') ''c'') ''length''))), Do (SetV 6 (K (JNum 0))), Do (SetV 8 (New ''Kmb'' [Dot (V 0) ''d''])), Loop (Bin Lt (Dot (V 8) ''a'') (Dot (Dot (Dot (V 8) ''c'') ''c'') ''length'')) [Do (SetV 7 (Call ''JD'' [Call ''Imb'' [V 8], K (JNum 320)])), Do (SetV 3 (Bin Plus (Bin Minus (Dot (V 0) ''b'') (Dot (V 7) ''b'')) (V 2))), Do (Call ''b7c'' [V 7, Bin Plus (Dot (V 7) ''e'') (Bin Times (V 6) (V 5)), Dot (V 7) ''f'']), Do (Call ''Z6c'' [V 7, V 5, V 3]), Do (SetV 6 (Bin Minus (V 6) (K (JNum (- 1)))))] []],
    fn ''MNd'' 1 1 [Do (Meth (Dot (V 0) ''f'') ''Zj'' []), When (Neg (Loose (Dot (V 0) ''b'') (K (JNum (- 1))))) [Do (Put (V 0) ''b'' (Bin Minus (Dot (V 0) ''b'') (K (JNum (- 1))))), Do (SetV 1 (Idx (Dot (Dot (V 0) ''f'') ''d'') (Dot (V 0) ''a''))), When (Bin Lt (Dot (V 0) ''b'') (Dot (V 1) ''i'')) [Ret (K JUndef)] [], Do (Put (V 0) ''a'' (Bin Minus (Dot (V 0) ''a'') (K (JNum (- 1)))))] [], Loop (Bin Lt (Dot (V 0) ''a'') (Dot (Dot (Dot (V 0) ''f'') ''d'') ''length'')) [Do (SetV 1 (Idx (Dot (Dot (V 0) ''f'') ''d'') (Dot (V 0) ''a''))), When (And (Neg (Neg (V 1))) (Neg (Loose (Dot (V 1) ''i'') (K (JNum 0))))) [Do (Put (V 0) ''b'' (K (JNum 0))), Ret (K JUndef)] []] [Do (Put (V 0) ''a'' (Bin Minus (Dot (V 0) ''a'') (K (JNum (- 1)))))], Do (Put (V 0) ''b'' (K (JNum (- 1))))],
    fn ''Wbe'' 2 3 [Do (SetV 4 (Dot (Dot (V 1) ''c'') ''length'')), Do (SetV 2 (Call ''Ybe'' [V 0, Cond (Loose (V 4) (K (JNum 0))) (K (JStr '''')) (Seq (Call ''MDb'' [K (JNum 0), Dot (Dot (V 1) ''c'') ''length'']) (Call ''OD'' [Idx (Dot (V 1) ''c'') (K (JNum 0))]))])), Do (SetV 3 (K (JNum 1))), Loop (And (Bin Lt (V 3) (V 4)) (Neg (Neg (V 2)))) [Do (SetV 2 (Meth (Call ''JD'' [V 2, K (JNum 52)]) ''Wh'' [Seq (Call ''MDb'' [V 3, Dot (Dot (V 1) ''c'') ''length'']) (Call ''OD'' [Idx (Dot (V 1) ''c'') (V 3)])]))] [Do (SetV 3 (Bin Minus (V 3) (K (JNum (- 1)))))], Ret (V 2)],
    fn ''UIc'' 4 3 [Do (SetV 5 (Call ''PIc'' [V 0, V 1, V 2, V 3])), Do (SetV 6 (Call ''VIc'' [V 0, V 5])), Do (Call ''kJc'' [V 0, V 1, V 2, V 3]), Do (Call ''HIc'' [Dot (V 0) ''b'']), Do (Call ''Inb'' []), Do (Call ''jmb'' [V 5, New ''uJc'' [V 0]]), Do (SetV 4 (Call ''VIc'' [V 0, V 5])), Do (Call ''kJc'' [V 0, V 2, V 1, V 3]), Do (Call ''HIc'' [Dot (V 0) ''b'']), Ret (New ''prd'' [Call ''Cfb'' [V 6], Call ''Cfb'' [V 4]])],
    fn ''pad'' 2 1 [Do (Meth (V 1) ''Tg'' [K (JStr ''Delaunay triangulation''), K (JNum 1)]), Do (SetV 2 (New ''lmb'' [])), Do (Call ''cmb'' [Dot (V 0) ''i'', New ''tad'' [V 2]]), Do (And (Call ''Rdb'' [Call ''LD'' [Call ''oNb'' [V 0, Seq (Call ''qMb'' []) (G ''oMb'')]]]) (K (JStr ''null10bw''))), Do (Cond (Neg (Dot (V 0) ''e'')) (Put (V 0) ''e'' (Call ''XDb'' [V 2])) (Call ''xe'' [Dot (V 0) ''e'', Call ''XDb'' [V 2]])), Do (Meth (V 1) ''Ug'' [])],
    fn ''hqd'' 3 2 [Do (Call ''hxd'' [V 0, Bin Plus (Dot (V 0) ''j'') (V 1), Bin Plus (Dot (V 0) ''k'') (V 2)]), Do (SetV 4 (New ''uKd'' [Seq (And (Neg (Dot (V 0) ''a'')) (Put (V 0) ''a'' (New ''iYd'' [G ''N3'', V 0, K (JNum 5)]))) (Dot (V 0) ''a'')])), Loop (Neg (Loose (Dot (V 4) ''e'') (Meth (Dot (V 4) ''i'') ''gc'' []))) [Do (SetV 3 (Call ''JD'' [Call ''sKd'' [V 4], K (JNum 372)])), Do (Call ''qvd'' [V 3, Bin Plus (Dot (V 3) ''a'') (V 1), Bin Plus (Dot (V 3) ''b'') (V 2)])] [], Do (Call ''axd'' [V 0, Bin Plus (Dot (V 0) ''b'') (V 1), Bin Plus (Dot (V 0) ''c'') (V 2)])],
    fn ''pwd'' 4 0 [Switch (V 2) [(Some (JNum 7), [Ret (Seq (And (Neg (Dot (V 0) ''e'')) (Put (V 0) ''e'' (New ''jhe'' [G ''Q3'', V 0, K (JNum 7), K (JNum 4)]))) (Call ''HJd'' [Dot (V 0) ''e'', V 1, V 3]))]), (Some (JNum 8), [Ret (Seq (And (Neg (Dot (V 0) ''d'')) (Put (V 0) ''d'' (New ''jhe'' [G ''Q3'', V 0, K (JNum 8), K (JNum 5)]))) (Call ''HJd'' [Dot (V 0) ''d'', V 1, V 3]))])], Ret (Call ''Bvd'' [V 0, V 1, V 2, V 3])],
    fn ''qwd'' 4 0 [Switch (V 2) [(Some (JNum 7), [Ret (Seq (And (Neg (Dot (V 0) ''e'')) (Put (V 0) ''e'' (New ''jhe'' [G ''Q3'', V 0, K (JNum 7), K (JNum 4)]))) (Call ''IJd'' [Dot (V 0) ''e'', V 1, V 3]))]), (Some (JNum 8), [Ret (Seq (And (Neg (Dot (V 0) ''d'')) (Put (V 0) ''d'' (New ''jhe'' [G ''Q3'', V 0, K (JNum 8), K (JNum 5)]))) (Call ''IJd'' [Dot (V 0) ''d'', V 1, V 3]))])], Ret (Call ''Cvd'' [V 0, V 1, V 2, V 3])],
    fn ''rBd'' 3 5 [When (V 2) [Do (SetV 5 (Dot (Dot (V 2) ''a'') ''length'')), Do (SetV 3 (New ''Kse'' [V 5])), Do (SetV 7 (Cond (Bin Lt (Bin Times (Bin Minus (Dot (V 3) ''b'') (Dot (V 3) ''a'')) (Dot (V 3) ''c'')) (K (JNum 0))) (Seq (Call ''Jse'' []) (G ''Ise'')) (New ''ete'' [V 3]))), Loop (Meth (V 7) ''Ob'' []) [Do (SetV 6 (Call ''JD'' [Meth (V 7) ''Pb'' [], K (JNum 15)])), Do (SetV 4 (Call ''TAd'' [V 2, Dot (V 6) ''a''])), Do (And (Neg (Neg (V 4))) (Call ''nCd'' [V 0, V 4, V 1]))] []] []],
    fn ''wMd'' 3 5 [Do (Meth (V 0) ''Zj'' []), Do (SetV 5 (Cond (Loose (V 1) (K JNull)) (K (JNum 0)) (Call ''tb'' [V 1]))), When (Bin Gt (Dot (V 0) ''f'') (K (JNum 0))) [Do (SetV 6 (Bin Modulo (Bin BitAnd (V 5) (G ''Ate'')) (Dot (Dot (V 0) ''d'') ''length''))), Do (SetV 4 (Call ''lMd'' [V 0, V 6, V 5, V 1])), When (V 4) [Do (SetV 7 (Meth (V 4) ''ld'' [V 2])), Ret (V 7)] []] [], Do (SetV 3 (Meth (V 0) ''ak'' [V 5, V 1, V 2])), Do (Meth (Dot (V 0) ''c'') ''Ec'' [V 3]), Ret (K JNull)],
    fn ''ede'' 2 4 [Switch (Meth (Call ''_ce'' [V 0, V 1]) ''Il'' []) [(Some (JNum 3), []), (Some (JNum 2), [Do (SetV 2 (Call ''zWd'' [V 1])), Do (Seq (SetV 4 (K (JNum 0))) (SetV 5 (Dot (V 2) ''i''))), Loop (Bin Lt (V 4) (V 5)) [Do (SetV 3 (Call ''JD'' [Call ''fGd'' [V 2, V 4], K (JNum 38)])), When (Loose (Call ''Lde'' [Call ''bde'' [V 0, V 3]]) (K (JNum 5))) [Ret (V 3)] []] [Do (SetV 4 (Bin Minus (V 4) (K (JNum (- 1)))))], Break])], Ret (K JNull)],
    fn ''Zs'' 1 5 [When (Call ''Rp'' [Dot (V 0) ''f'', Dot (Dot (V 0) ''b'') ''length'']) [Do (SetV 3 (Call ''SC'' [G ''MG'', G ''tue'', K (JNum 227), Bin Times (Dot (Dot (V 0) ''b'') ''length'') (K (JNum 2)), K (JNum 0), K (JNum 1)])), Do (Put (V 0) ''b'' (V 3)), Do (SetV 4 (Bin Minus (Dot (V 3) ''length'') (K (JNum 1)))), Do (SetV 2 (Dot (V 0) ''a'')), Loop (Neg (Loose (V 2) (V 0))) [Do (SetV 5 (Call ''JD'' [V 2, K (JNum 227)])), Do (SetV 1 (Bin BitAnd (Dot (V 5) ''d'') (V 4))), Do (Put (V 5) ''a'' (Idx (V 3) (V 1))), Do (PutIdx (V 3) (V 1) (V 5))] [Do (SetV 2 (Meth (V 2) ''Zd'' []))]] []],
    fn ''ZJb'' 2 4 [Do (SetV 5 (K (JNum 0))), Do (SetV 4 (Meth (Call ''JD'' [Call ''JD'' [Call ''Qc'' [Dot (V 0) ''r'', V 1], K (JNum 22)], K (JNum 83)]) ''Jc'' [])), Loop (Meth (V 4) ''Ob'' []) [Do (SetV 3 (Call ''JD'' [Meth (V 4) ''Pb'' [], K (JNum 115)])), Do (SetV 5 (Meth (Dot (G ''$wnd'') ''Math'') ''max'' [V 5, Bin Plus (Dot (Dot (V 3) ''e'') ''a'') (Dot (Meth (Dot (V 3) ''b'') ''Kf'' []) ''a'')]))] [], Do (SetV 2 (Call ''JD'' [Call ''brb'' [Dot (V 0) ''b'', V 1], K (JNum 127)])), Do (Put (Dot (V 2) ''n'') ''b'' (K (JNum 0))), Do (Put (Dot (V 2) ''a'') ''a'' (V 5))],
    fn ''gLb'' 2 4 [Do (SetV 2 (K (JNum 0))), Do (SetV 5 (Meth (Call ''JD'' [Call ''JD'' [Call ''Qc'' [Dot (V 0) ''r'', V 1], K (JNum 22)], K (JNum 83)]) ''Jc'' [])), Loop (Meth (V 5) ''Ob'' []) [Do (SetV 4 (Call ''JD'' [Meth (V 5) ''Pb'' [], K (JNum 115)])), Do (SetV 2 (Meth (Dot (G ''$wnd'') ''Math'') ''max'' [V 2, Bin Plus (Dot (Dot (V 4) ''e'') ''b'') (Dot (Meth (Dot (V 4) ''b'') ''Kf'' []) ''b'')]))] [], Do (SetV 3 (Call ''JD'' [Call ''brb'' [Dot (V 0) ''b'', V 1], K (JNum 127)])), Do (Put (Dot (V 3) ''n'') ''d'' (K (JNum 0))), Do (Put (Dot (V 3) ''a'') ''b'' (V 2))],
    fn ''zEc'' 1 3 [Do (SetV 2 (New ''Kmb'' [Dot (V 0) ''p''])), Loop (Bin Lt (Dot (V 2) ''a'') (Dot (Dot (Dot (V 2) ''c'') ''c'') ''length'')) [Do (SetV 1 (Call ''JD'' [Call ''Imb'' [V 2], K (JNum 9)])), When (Neg (Loose (Dot (V 1) ''k'') (Seq (Call ''$Yb'' []) (G ''XYb'')))) [Continue] [], Do (SetV 3 (Dot (Dot (V 1) ''o'') ''b'')), Do (Put (V 0) ''i'' (Meth (Dot (G ''$wnd'') ''Math'') ''min'' [Dot (V 0) ''i'', V 3])), Do (Put (V 0) ''g'' (Meth (Dot (G ''$wnd'') ''Math'') ''max'' [Dot (V 0) ''g'', V 3]))] []],
    fn ''gFc'' 3 3 [Do (SetV 5 (New ''Kmb'' [V 1])), Loop (Bin Lt (Dot (V 5) ''a'') (Dot (Dot (Dot (V 5) ''c'') ''c'') ''length'')) [Do (SetV 3 (Call ''JD'' [Call ''Imb'' [V 5], K (JNum 9)])), Do (Put (Idx (Idx (Dot (V 0) ''c'') (Dot (Dot (V 3) ''c'') ''p'')) (Dot (V 3) ''p'')) ''e'' (K (JBool False)))] [], Do (SetV 4 (New ''Kmb'' [V 1])), Loop (Bin Lt (Dot (V 4) ''a'') (Dot (Dot (Dot (V 4) ''c'') ''c'') ''length'')) [Do (SetV 3 (Call ''JD'' [Call ''Imb'' [V 4], K (JNum 9)])), Do (Call ''fFc'' [V 0, V 3, V 2])] []],
    fn ''ROc'' 1 2 [Do (SetV 2 (Call ''JD'' [Call ''oNb'' [V 0, Seq (Call ''Wrc'' []) (G ''brc'')], K (JNum 22)])), Do (SetV 1 (Call ''qcd'' [G ''IOc''])), Do (And (Meth (V 2) ''Gc'' [Seq (Call ''Xpc'' []) (G ''Upc'')]) (Call ''jcd'' [V 1, G ''LOc''])), Do (And (Meth (V 2) ''Gc'' [G ''Wpc'']) (Call ''jcd'' [V 1, G ''NOc''])), Do (And (Meth (V 2) ''Gc'' [G ''Npc'']) (Call ''jcd'' [V 1, G ''JOc''])), Do (And (Meth (V 2) ''Gc'' [G ''Ppc'']) (Call ''jcd'' [V 1, G ''KOc''])), Ret (V 1)]]"

definition object_table15 :: "(string \<times> jfun) list" where
  "object_table15 = code_4736_4782 @ code_4783_4827 @ code_4828_4838 @ code_4840_4857"

text \<open>The names each table declares.\<close>

lemma names_4736_4782 [js_names]: "map fst code_4736_4782 = [
    ''zfb'', ''wlb'', ''ZKb'', ''CYb'', ''tZb'', ''tec'', ''A7c'', ''msd'', ''rFd'', ''Yud'',
    ''Nyd'', ''Vyd'', ''W8d'', ''X8d'', ''jD'', ''$xb'', ''Aac'', ''bpc'', ''yyd'', ''iGd'',
    ''FUd'', ''sEb'', ''XTb'', ''WGb'', ''sPb'', ''s4b'', ''ggc'', ''ABd'', ''BBd'', ''ric'',
    ''SIc'', ''sKc'', ''HSc'', ''u7c'', ''Cod'', ''$kd'', ''cCd'', ''gGd'', ''pWb'', ''MYb'',
    ''ANc'', ''bu'', ''yA'', ''pvb'', ''HPb'', ''yWb'', ''E$b'']"
  by (simp add: code_4736_4782_def fn_def)

lemma names_4783_4827 [js_names]: "map fst code_4783_4827 = [
    ''v7c'', ''F0b'', ''K3b'', ''Ccc'', ''Hqd'', ''Ywd'', ''yzd'', ''fAd'', ''Z_d'', ''Myd'',
    ''vTd'', ''Fwd'', ''zOd'', ''Oce'', ''_he'', ''bLb'', ''fLb'', ''iNb'', ''IXb'', ''k8b'',
    ''B7c'', ''$Ad'', ''aBd'', ''hUd'', ''UHb'', ''T6b'', ''Jcc'', ''gic'', ''Amc'', ''SOc'',
    ''Ozd'', ''A2d'', ''b4d'', ''DBd'', ''o9d'', ''mD'', ''pkc'', ''f6c'', ''zo'', ''QUb'',
    ''Tmc'', ''tfd'', ''iyd'', ''b9d'', ''Ile'']"
  by (simp add: code_4783_4827_def fn_def)

lemma names_4828_4838 [js_names]: "map fst code_4828_4838 = [
    ''s0d'', ''vB'', ''AFb'', ''zMb'', ''vSb'', ''DQb'', ''v0b'', ''kkc'', ''jFc'', ''Dod'',
    ''lKc'']"
  by (simp add: code_4828_4838_def fn_def)

lemma names_4840_4857 [js_names]: "map fst code_4840_4857 = [
    ''K7c'', ''z7c'', ''MNd'', ''Wbe'', ''UIc'', ''pad'', ''hqd'', ''pwd'', ''qwd'', ''rBd'',
    ''wMd'', ''ede'', ''Zs'', ''ZJb'', ''gLb'', ''zEc'', ''gFc'', ''ROc'']"
  by (simp add: code_4840_4857_def fn_def)

end
