(* ===== verification/ObjectTable16.thy ===== *)
theory ObjectTable16
  imports ObjectCode
begin

text \<open>
  Functions of \<open>layout-worker.js\<close>, lines 4859 to 4971, in the order of the file, one per line:
  operations of the runtime's collections, iterators and text buffers, accessors and small algorithms
  of the layout engine, with their loops, \<open>switch\<close> and \<open>try\<close> statements. An entry has the name, the
  number of parameters, the number of further local variables and the body; parameters and locals
  are numbered from 0, the variable of a \<open>catch\<close> has a number of its own, \<open>x++\<close> is \<open>(x=x+1)-1\<close>. Lines
  with a construct outside \<open>jexp\<close> and \<open>jstm\<close> (closures, \<open>in\<close>, floating-point literals, host objects) are
  left out.
\<close>

definition code_4859_4893 :: "(string \<times> jfun) list" where
  "code_4859_4893 = [
    fn ''eGd'' 2 1 [When (And (Meth (V 0) ''Wi'' []) (Neg (Loose (V 1) (K JNull)))) [Do (SetV 2 (K (JNum 0))), Loop (Bin Lt (V 2) (Dot (V 0) ''i'')) [When (Call ''pb'' [V 1, Idx (Dot (V 0) ''g'') (V 2)]) [Ret (K (JBool True))] []] [Do (SetV 2 (Bin Minus (V 2) (K (JNum (- 1)))))]] [Do (SetV 2 (K (JNum 0))), Loop (Bin Lt (V 2) (Dot (V 0) ''i'')) [When (Same (Call ''XD'' [Idx (Dot (V 0) ''g'') (V 2)]) (Call ''XD'' [V 1])) [Ret (K (JBool True))] []] [Do (SetV 2 (Bin Minus (V 2) (K (JNum (- 1)))))]], Ret (K (JBool False))],
    fn ''sr'' 2 0 [When (Loose (V 1) (K JNull)) [Loop (Meth (Dot (V 0) ''a'') ''Ob'' []) [When (Loose (Meth (Call ''JD'' [Meth (Dot (V 0) ''a'') ''Pb'' [], K (JNum 45)]) ''kd'' []) (K JNull)) [Ret (K (JBool True))] []] []] [Loop (Meth (Dot (V 0) ''a'') ''Ob'' []) [When (Call ''pb'' [V 1, Meth (Call ''JD'' [Meth (Dot (V 0) ''a'') ''Pb'' [], K (JNum 45)]) ''kd'' []]) [Ret (K (JBool True))] []] []], Ret (K (JBool False))],
    fn ''Jy'' 2 3 [When (Same (V 1) (V 0)) [Ret (K (JBool True))] [When (Call ''RD'' [V 1, K (JNum 668)]) [Do (SetV 4 (Call ''JD'' [V 1, K (JNum 2011)])), Ret (Call ''Se'' [Seq (SetV 3 (Dot (V 0) ''g'')) (Cond (Neg (V 3)) (Put (V 0) ''g'' (New ''Bi'' [V 0])) (V 3)), Seq (SetV 2 (Dot (V 4) ''g'')) (Cond (Neg (V 2)) (Put (V 4) ''g'' (New ''Bi'' [V 4])) (V 2))])] [Ret (K (JBool False))]]],
    fn ''_z'' 1 4 [Do (SetV 1 (K (JStr ''$z''))), Do (SetV 2 (K (JStr ''nz''))), Do (SetV 4 (Meth (Dot (G ''$wnd'') ''Math'') ''min'' [Dot (V 0) ''length'', K (JNum 5)])), Do (SetV 3 (Bin Minus (V 4) (K (JNum 1)))), Loop (Bin Ge (V 3) (K (JNum 0))) [When (Or (Call ''vgb'' [Dot (Idx (V 0) (V 3)) ''d'', V 1]) (Call ''vgb'' [Dot (Idx (V 0) (V 3)) ''d'', V 2])) [Do (And (Bin Ge (Dot (V 0) ''length'') (Bin Plus (V 3) (K (JNum 1)))) (Meth (V 0) ''splice'' [K (JNum 0), Bin Plus (V 3) (K (JNum 1))])), Break] []] [Do (Bin Minus (SetV 3 (Bin Minus (V 3) (K (JNum 1)))) (K (JNum (- 1))))], Ret (V 0)],
    fn ''Qcb'' 2 1 [When (And (Call ''Vcb'' [V 0]) (Call ''Vcb'' [V 1])) [Do (SetV 2 (Bin Divide (V 0) (V 1))), When (And (Bin Lt (G ''xve'') (V 2)) (Bin Lt (V 2) (G ''vve''))) [Ret (Cond (Bin Lt (V 2) (K (JNum 0))) (Meth (Dot (G ''$wnd'') ''Math'') ''ceil'' [V 2]) (Meth (Dot (G ''$wnd'') ''Math'') ''floor'' [V 2]))] []] [], Ret (Call ''Pcb'' [Call ''aD'' [Cond (Call ''Vcb'' [V 0]) (Call ''edb'' [V 0]) (V 0), Cond (Call ''Vcb'' [V 1]) (Call ''edb'' [V 1]) (V 1), K (JBool False)]])],
    fn ''xWb'' 2 0 [When (Loose (V 1) (Dot (Dot (V 0) ''c'') ''i'')) [Ret (Dot (Dot (V 0) ''d'') ''i'')] [When (Loose (V 1) (Dot (Dot (V 0) ''d'') ''i'')) [Ret (Dot (Dot (V 0) ''c'') ''i'')] [Raise (Call ''Lcb'' [New ''kfb'' [K (JStr (CHR 0x27 # ''node'' @ CHR 0x27 # '' must either be the source node or target node of the edge.''))]])]]],
    fn ''y_b'' 1 4 [Do (SetV 4 (Call ''JD'' [Call ''oNb'' [V 0, Seq (Call ''Wrc'' []) (G ''Qqc'')], K (JNum 36)])), When (V 4) [Do (SetV 3 (New ''jgd'' [])), Do (SetV 1 (Call ''DYb'' [Dot (Dot (V 0) ''c'') ''i''])), Loop (Neg (Loose (V 1) (V 4))) [Do (SetV 2 (Dot (V 1) ''e'')), Do (SetV 1 (Call ''DYb'' [V 2])), Do (Call ''Ufd'' [Call ''Vfd'' [Call ''Vfd'' [V 3, Dot (V 2) ''n''], Dot (V 1) ''c''], Dot (Dot (V 1) ''d'') ''b'', Dot (Dot (V 1) ''d'') ''d''])] [], Ret (V 3)] [], Ret (G ''s_b'')],
    fn ''pbc'' 1 1 [Do (SetV 1 (Call ''JD'' [Call ''oNb'' [V 0, Seq (Call ''Wrc'' []) (G ''Jrc'')], K (JNum 338)])), Do (Call ''YBb'' [Call ''XBb'' [New ''jCb'' [K JNull, New ''Zvb'' [Dot (V 1) ''d'', K (JNum 16)]], New ''Cbc'' []], New ''Ebc'' [V 0]]), Do (Call ''YBb'' [Call ''VBb'' [New ''jCb'' [K JNull, New ''Zvb'' [Dot (V 1) ''d'', K (JNum 16)]], New ''Gbc'' []], New ''Ibc'' [V 0]])],
    fn ''Bmc'' 2 4 [Do (SetV 4 (Cond (V 1) (Call ''HYb'' [V 0]) (Call ''EYb'' [V 0]))), Do (SetV 3 (New ''Yr'' [Call ''Dr'' [Meth (Dot (V 4) ''a'') ''Jc'' [], New ''Dl'' []]])), Loop (Call ''Wr'' [V 3]) [Do (SetV 2 (Call ''JD'' [Call ''Xr'' [V 3], K (JNum 17)])), Do (SetV 5 (Call ''xWb'' [V 2, V 0])), When (And (Loose (Dot (V 5) ''k'') (Seq (Call ''$Yb'' []) (G ''VYb''))) (Neg (Loose (Dot (V 5) ''c'') (Dot (V 0) ''c'')))) [Ret (V 5)] []] [], Ret (K JNull)],
    fn ''dQc'' 3 2 [Do (SetV 3 (Bin Plus (Call ''EQc'' [Dot (V 1) ''j'', Dot (V 2) ''s'', Dot (V 2) ''c'']) (Call ''EQc'' [Dot (V 2) ''e'', Dot (V 1) ''s'', Dot (V 1) ''c'']))), Do (SetV 4 (Bin Plus (Call ''EQc'' [Dot (V 2) ''j'', Dot (V 1) ''s'', Dot (V 1) ''c'']) (Call ''EQc'' [Dot (V 1) ''e'', Dot (V 2) ''s'', Dot (V 2) ''c'']))), When (Loose (V 3) (V 4)) [When (Bin Gt (V 3) (K (JNum 0))) [Do (Put (V 0) ''b'' (Bin Plus (Dot (V 0) ''b'') (K (JNum 2)))), Do (Put (V 0) ''a'' (Bin Plus (Dot (V 0) ''a'') (V 3)))] []] [Do (Put (V 0) ''b'' (Bin Plus (Dot (V 0) ''b'') (K (JNum 1)))), Do (Put (V 0) ''a'' (Bin Plus (Dot (V 0) ''a'') (Meth (Dot (G ''$wnd'') ''Math'') ''min'' [V 3, V 4])))]],
    fn ''LAd'' 2 2 [Do (SetV 3 (K (JBool False))), When (Call ''VD'' [V 1]) [Do (SetV 3 (K (JBool True))), Do (Call ''KAd'' [V 0, New ''GC'' [Call ''OD'' [V 1]]])] [], When (Neg (V 3)) [When (Call ''RD'' [V 1, K (JNum 242)]) [Do (SetV 3 (K (JBool True))), Do (Call ''KAd'' [V 0, Seq (SetV 2 (Call ''$db'' [Call ''JD'' [V 1, K (JNum 242)]])) (New ''_B'' [V 2])])] []] [], When (Neg (V 3)) [Raise (Call ''Lcb'' [New ''Kdb'' [G ''EGe'']])] []],
    fn ''tYd'' 4 3 [Do (SetV 4 (New ''a2d'' [Dot (V 0) ''e'', K (JNum 1), K (JNum 10), Seq (SetV 6 (Dot (V 1) ''c'')) (Cond (Call ''RD'' [V 6, K (JNum 88)]) (Call ''JD'' [V 6, K (JNum 29)]) (Seq (Call ''WRd'' []) (G ''MRd''))), Seq (SetV 5 (Dot (V 2) ''c'')) (Cond (Call ''RD'' [V 5, K (JNum 88)]) (Call ''JD'' [V 5, K (JNum 29)]) (Seq (Call ''WRd'' []) (G ''MRd''))), Call ''sXd'' [V 0, V 1], K (JBool False)])), Do (Cond (Neg (V 3)) (SetV 3 (V 4)) (Meth (V 3) ''lj'' [V 4])), Ret (V 3)],
    fn ''GYb'' 1 2 [Switch (Dot (Call ''JD'' [Call ''oNb'' [Call ''DYb'' [V 0], Seq (Call ''nyc'' []) (G ''Awc'')], K (JNum 420)]) ''g'') [(Some (JNum 0), [Do (SetV 1 (Dot (V 0) ''n'')), Do (SetV 2 (Dot (V 0) ''o'')), Ret (New ''lgd'' [Bin Plus (Dot (V 1) ''a'') (Bin Divide (Dot (V 2) ''a'') (K (JNum 2))), Bin Plus (Dot (V 1) ''b'') (Bin Divide (Dot (V 2) ''b'') (K (JNum 2)))])]), (Some (JNum 1), [Ret (New ''mgd'' [Dot (V 0) ''n''])]), (None, [Ret (K JNull)])]],
    fn ''vpc'' 0 0 [Do (SetG ''vpc'' (G ''qdb'')), Do (SetG ''spc'' (New ''wpc'' [G ''qye'', K (JNum 0)])), Do (SetG ''rpc'' (New ''wpc'' [K (JStr ''LEFTUP''), K (JNum 1)])), Do (SetG ''upc'' (New ''wpc'' [K (JStr ''RIGHTUP''), K (JNum 2)])), Do (SetG ''qpc'' (New ''wpc'' [K (JStr ''LEFTDOWN''), K (JNum 3)])), Do (SetG ''tpc'' (New ''wpc'' [K (JStr ''RIGHTDOWN''), K (JNum 4)])), Do (SetG ''ppc'' (New ''wpc'' [K (JStr ''BALANCED''), K (JNum 5)]))],
    fn ''xGc'' 3 3 [Do (SetV 3 (Call ''$eb'' [Idx (Dot (V 0) ''a'') (Dot (V 1) ''p''), Idx (Dot (V 0) ''a'') (Dot (V 2) ''p'')])), When (Loose (V 3) (K (JNum 0))) [Do (SetV 4 (Call ''JD'' [Call ''oNb'' [V 1, Seq (Call ''Wrc'' []) (G ''hrc'')], K (JNum 16)])), Do (SetV 5 (Call ''JD'' [Call ''oNb'' [V 2, G ''hrc''], K (JNum 16)])), When (Meth (V 4) ''Gc'' [V 2]) [Ret (K (JNum (- 1)))] [When (Meth (V 5) ''Gc'' [V 1]) [Ret (K (JNum 1))] []]] [], Ret (V 3)],
    fn ''V1c'' 1 0 [Switch (Dot (V 0) ''g'') [(Some (JNum 1), [Ret (New ''t0c'' [])]), (Some (JNum 2), [Ret (New ''v0c'' [])]), (Some (JNum 3), [Ret (New ''r0c'' [])]), (Some (JNum 0), [Ret (K JNull)]), (None, [Raise (Call ''Lcb'' [New ''kfb'' [Bin Plus (G ''oDe'') (Cond (Neg (Loose (Dot (V 0) ''f'') (K JNull))) (Dot (V 0) ''f'') (Bin Plus (K (JStr '''')) (Dot (V 0) ''g'')))]])])]],
    fn ''Evd'' 3 0 [Switch (V 1) [(Some (JNum 1), [Do (And (Neg (Dot (V 0) ''n'')) (Put (V 0) ''n'' (New ''P3d'' [G ''S3'', V 0, K (JNum 1), K (JNum 7)]))), Do (Call ''JJd'' [Dot (V 0) ''n'']), Do (And (Neg (Dot (V 0) ''n'')) (Put (V 0) ''n'' (New ''P3d'' [G ''S3'', V 0, K (JNum 1), K (JNum 7)]))), Do (Call ''nFd'' [Dot (V 0) ''n'', Call ''JD'' [V 2, K (JNum 18)]]), Ret (K JUndef)]), (Some (JNum 2), [Do (Call ''Hvd'' [V 0, Call ''OD'' [V 2]]), Ret (K JUndef)])], Do (Call ''_ud'' [V 0, V 1, V 2])],
    fn ''Vvd'' 3 0 [Switch (V 1) [(Some (JNum 3), [Do (Call ''Yvd'' [V 0, Call ''Ueb'' [Call ''MD'' [V 2]]]), Ret (K JUndef)]), (Some (JNum 4), [Do (Call ''$vd'' [V 0, Call ''Ueb'' [Call ''MD'' [V 2]]]), Ret (K JUndef)]), (Some (JNum 5), [Do (Call ''_vd'' [V 0, Call ''Ueb'' [Call ''MD'' [V 2]]]), Ret (K JUndef)]), (Some (JNum 6), [Do (Call ''awd'' [V 0, Call ''Ueb'' [Call ''MD'' [V 2]]]), Ret (K JUndef)])], Do (Call ''Evd'' [V 0, V 1, V 2])],
    fn ''zyd'' 3 3 [Do (SetV 5 (Seq (SetV 3 (New ''c4d'' [])) (V 3))), Do (SetV 4 (Call ''iUd'' [V 5, V 1, K JNull])), Do (And (Neg (Neg (V 4))) (Meth (V 4) ''mj'' [])), Do (Call ''jyd'' [V 5, V 2]), Do (Call ''lFd'' [Seq (And (Neg (Dot (V 0) ''c'')) (Put (V 0) ''c'' (New ''P3d'' [G ''F6'', V 0, K (JNum 12), K (JNum 10)]))) (Dot (V 0) ''c''), V 5]), Do (Call ''lUd'' [V 5, K (JNum 0)]), Do (Call ''oUd'' [V 5, K (JNum 1)]), Do (Call ''nUd'' [V 5, K (JBool True)]), Do (Call ''mUd'' [V 5, K (JBool True)])],
    fn ''Z3d'' 2 3 [Do (SetV 2 (Call ''Ssb'' [Dot (V 0) ''i'', V 1])), When (Call ''RD'' [V 2, K (JNum 241)]) [Do (SetV 4 (Call ''JD'' [V 2, K (JNum 241)])), Do (And (Loose (Meth (V 4) ''wi'' []) (K JNull)) (K JUndef)), Ret (Meth (V 4) ''ti'' [])] [When (Call ''RD'' [V 2, K (JNum 493)]) [Do (SetV 3 (Call ''JD'' [V 2, K (JNum 2002)])), Do (SetV 4 (Dot (V 3) ''b'')), Ret (V 4)] [Ret (K JNull)]]],
    fn ''$i'' 4 2 [Do (Call ''Qb'' [V 1]), Do (Call ''Qb'' [V 2]), Do (SetV 5 (Call ''JD'' [Call ''zn'' [Dot (V 0) ''d'', V 1], K (JNum 15)])), Do (Call ''Ob'' [Neg (Neg (V 5)), K (JStr ''Row %s not in %s''), V 1, Dot (V 0) ''e'']), Do (SetV 4 (Call ''JD'' [Call ''zn'' [Dot (V 0) ''b'', V 2], K (JNum 15)])), Do (Call ''Ob'' [Neg (Neg (V 4)), K (JStr ''Column %s not in %s''), V 2, Dot (V 0) ''c'']), Ret (Call ''aj'' [V 0, Dot (V 5) ''a'', Dot (V 4) ''a'', V 3])],
    fn ''Cy'' 1 7 [Do (SetV 2 (K JNull)), Do (Seq (Seq (SetV 4 (V 0)) (SetV 5 (K (JNum 0)))) (SetV 6 (Dot (V 4) ''length''))), Loop (Bin Lt (V 5) (V 6)) [Do (SetV 3 (Idx (V 4) (V 5))), Try [Do (Call ''_Ab'' [V 3])] 7 [Do (SetV 7 (Call ''Kcb'' [V 7])), When (Call ''RD'' [V 7, K (JNum 101)]) [Do (SetV 1 (V 7)), Do (Cond (Neg (V 2)) (SetV 2 (V 1)) (Call ''Zy'' [V 2, V 1]))] [Raise (Call ''Lcb'' [V 7])]]] [Do (SetV 5 (Bin Minus (V 5) (K (JNum (- 1)))))], Do (And (Neg (Neg (V 2))) (Call ''Ey'' [V 2]))],
    fn ''RC'' 7 5 [Do (SetV 10 (Idx (V 4) (V 5))), Do (SetV 9 (Loose (V 5) (Bin Minus (V 6) (K (JNum 1))))), Do (SetV 7 (Cond (V 9) (V 3) (K (JNum 0)))), Do (SetV 11 (Call ''TC'' [V 7, V 10])), Do (And (Neg (Loose (V 3) (K (JNum 10)))) (Call ''WC'' [Call ''OC'' [V 0, Bin Minus (V 6) (V 5)], Idx (V 1) (V 5), Idx (V 2) (V 5), V 7, V 11])), When (Neg (V 9)) [Do (SetV 5 (Bin Minus (V 5) (K (JNum (- 1))))), Do (SetV 8 (K (JNum 0))), Loop (Bin Lt (V 8) (V 10)) [Do (PutIdx (V 11) (V 8) (Call ''RC'' [V 0, V 1, V 2, V 3, V 4, V 5, V 6]))] [Do (SetV 8 (Bin Minus (V 8) (K (JNum (- 1)))))]] [], Ret (V 11)],
    fn ''pec'' 1 5 [Do (SetV 3 (New ''Fjb'' [Dot (New ''wjb'' [Dot (V 0) ''b'']) ''a''])), Loop (Dot (V 3) ''b'') [Do (SetV 2 (Call ''Djb'' [V 3])), Do (SetV 1 (Call ''JD'' [Meth (V 2) ''jd'' [], K (JNum 9)])), Do (SetV 5 (Call ''JD'' [Dot (Call ''JD'' [Meth (V 2) ''kd'' [], K (JNum 49)]) ''a'', K (JNum 9)])), Do (SetV 4 (Call ''JD'' [Dot (Call ''JD'' [Meth (V 2) ''kd'' [], K (JNum 49)]) ''b'', K (JNum 8)])), Do (Call ''Vfd'' [Call ''cgd'' [Dot (V 1) ''n''], Call ''Vfd'' [Call ''Xfd'' [Dot (V 5) ''n''], V 4]])] []],
    fn ''ZCc'' 2 4 [Do (SetV 5 (New ''Kmb'' [Dot (V 1) ''a''])), Loop (Bin Lt (Dot (V 5) ''a'') (Dot (Dot (Dot (V 5) ''c'') ''c'') ''length'')) [Do (SetV 4 (Call ''JD'' [Call ''Imb'' [V 5], K (JNum 9)])), Do (Call ''Xmb'' [Dot (V 0) ''d'']), Do (SetV 3 (New ''Yr'' [Call ''Dr'' [Meth (Dot (Call ''HYb'' [V 4]) ''a'') ''Jc'' [], New ''Dl'' []]])), Loop (Call ''Wr'' [V 3]) [Do (SetV 2 (Call ''JD'' [Call ''Xr'' [V 3], K (JNum 17)])), Do (Call ''WCc'' [V 0, V 4, Dot (Dot (V 2) ''d'') ''i''])] []] []],
    fn ''tKd'' 1 1 [When (Loose (Dot (V 0) ''g'') (K (JNum (- 1)))) [Raise (Call ''Lcb'' [New ''mfb'' []])] [], Do (Meth (V 0) ''Vj'' []), Try [Do (Meth (Dot (V 0) ''i'') ''ed'' [Dot (V 0) ''g'']), Do (Put (V 0) ''f'' (Dot (Dot (V 0) ''i'') ''j'')), Do (And (Bin Lt (Dot (V 0) ''g'') (Dot (V 0) ''e'')) (Put (V 0) ''e'' (Bin Minus (Dot (V 0) ''e'') (K (JNum 1))))), Do (Put (V 0) ''g'' (K (JNum (- 1))))] 1 [Do (SetV 1 (Call ''Kcb'' [V 1])), When (Call ''RD'' [V 1, K (JNum 99)]) [Raise (Call ''Lcb'' [New ''Rqb'' []])] [Raise (Call ''Lcb'' [V 1])]]],
    fn ''_Vb'' 1 4 [Do (SetV 4 (K (JNum (- 1)))), Do (SetV 3 (K (JNum 0))), Do (SetV 2 (New ''Kmb'' [V 0])), Loop (Bin Lt (Dot (V 2) ''a'') (Dot (Dot (Dot (V 2) ''c'') ''c'') ''length'')) [Do (SetV 1 (Call ''JD'' [Call ''Imb'' [V 2], K (JNum 250)])), When (Loose (Dot (V 1) ''c'') (Seq (Call ''qAc'' []) (G ''nAc''))) [Do (SetV 4 (Cond (Loose (V 3) (K (JNum 0))) (K (JNum 0)) (Bin Minus (V 3) (K (JNum 1))))), Break] [Do (And (Loose (V 3) (Bin Minus (Dot (Dot (V 0) ''c'') ''length'') (K (JNum 1)))) (SetV 4 (V 3)))], Do (SetV 3 (Bin Plus (V 3) (K (JNum 1))))] [], Ret (V 4)],
    fn ''W6c'' 1 4 [Do (SetV 4 (K (JNum 0))), Do (SetV 1 (K (JNum 0))), Do (SetV 3 (New ''Kmb'' [Dot (V 0) ''c''])), Loop (Bin Lt (Dot (V 3) ''a'') (Dot (Dot (Dot (V 3) ''c'') ''c'') ''length'')) [Do (SetV 2 (Call ''JD'' [Call ''Imb'' [V 3], K (JNum 26)])), Do (Call ''_vd'' [V 2, Bin Plus (Dot (V 0) ''e'') (V 4)]), Do (Call ''awd'' [V 2, Dot (V 0) ''f'']), Do (SetV 4 (Bin Plus (V 4) (Bin Plus (Dot (V 2) ''g'') (Dot (V 0) ''b'')))), Do (SetV 1 (Meth (Dot (G ''$wnd'') ''Math'') ''max'' [V 1, Bin Plus (Dot (V 2) ''f'') (Dot (V 0) ''b'')]))] [], Do (Put (V 0) ''d'' (Bin Minus (V 4) (Dot (V 0) ''b''))), Do (Put (V 0) ''a'' (Bin Minus (V 1) (Dot (V 0) ''b'')))],
    fn ''lFb'' 1 3 [Do (SetV 2 (New ''Kmb'' [Dot (Dot (V 0) ''a'') ''b''])), Loop (Bin Lt (Dot (V 2) ''a'') (Dot (Dot (Dot (V 2) ''c'') ''c'') ''length'')) [Do (SetV 1 (Call ''JD'' [Call ''Imb'' [V 2], K (JNum 60)])), Do (SetV 3 (Dot (Dot (V 1) ''d'') ''c'')), Do (Put (Dot (V 1) ''d'') ''c'' (Dot (Dot (V 1) ''d'') ''d'')), Do (Put (Dot (V 1) ''d'') ''d'' (V 3)), Do (SetV 3 (Dot (Dot (V 1) ''d'') ''b'')), Do (Put (Dot (V 1) ''d'') ''b'' (Dot (Dot (V 1) ''d'') ''a'')), Do (Put (Dot (V 1) ''d'') ''a'' (V 3)), Do (SetV 3 (Dot (Dot (V 1) ''b'') ''a'')), Do (Put (Dot (V 1) ''b'') ''a'' (Dot (Dot (V 1) ''b'') ''b'')), Do (Put (Dot (V 1) ''b'') ''b'' (V 3))] [], Do (Call ''_Eb'' [V 0])],
    fn ''hSb'' 1 3 [Do (SetV 2 (New ''Kmb'' [Dot (Dot (V 0) ''a'') ''b''])), Loop (Bin Lt (Dot (V 2) ''a'') (Dot (Dot (Dot (V 2) ''c'') ''c'') ''length'')) [Do (SetV 1 (Call ''JD'' [Call ''Imb'' [V 2], K (JNum 82)])), Do (SetV 3 (Dot (Dot (V 1) ''g'') ''c'')), Do (Put (Dot (V 1) ''g'') ''c'' (Dot (Dot (V 1) ''g'') ''d'')), Do (Put (Dot (V 1) ''g'') ''d'' (V 3)), Do (SetV 3 (Dot (Dot (V 1) ''g'') ''b'')), Do (Put (Dot (V 1) ''g'') ''b'' (Dot (Dot (V 1) ''g'') ''a'')), Do (Put (Dot (V 1) ''g'') ''a'' (V 3)), Do (SetV 3 (Dot (Dot (V 1) ''e'') ''a'')), Do (Put (Dot (V 1) ''e'') ''a'' (Dot (Dot (V 1) ''e'') ''b'')), Do (Put (Dot (V 1) ''e'') ''b'' (V 3))] [], Do (Call ''$Rb'' [V 0])],
    fn ''Fkc'' 1 5 [Do (SetV 5 (Call ''Ec'' [Dot (V 0) ''k''])), Do (Seq (Seq (SetV 2 (Seq (Call ''Bmd'' []) (Call ''WC'' [Call ''OC'' [G ''M2'', K (JNum 1)], G ''sye'', K (JNum 64), K (JNum 0), NewArr [G ''zmd'', G ''hmd'', G ''gmd'', G ''ymd'', G ''Amd'']]))) (SetV 3 (K (JNum 0)))) (SetV 4 (Dot (V 2) ''length''))), Loop (Bin Lt (V 3) (V 4)) [Do (SetV 1 (Idx (V 2) (V 3))), When (And (Neg (Loose (V 1) (G ''zmd''))) (Neg (Meth (V 5) ''Gc'' [V 1]))) [Ret (V 1)] []] [Do (SetV 3 (Bin Minus (V 3) (K (JNum (- 1)))))], Ret (K JNull)],
    fn ''ulc'' 2 2 [Do (SetV 3 (Call ''JD'' [Call ''Uub'' [Call ''WBb'' [Call ''VBb'' [New ''jCb'' [K JNull, New ''Zvb'' [Dot (V 1) ''j'', K (JNum 16)]], New ''Dlc'' []]]], K (JNum 12)])), When (V 3) [Do (SetV 2 (Call ''JD'' [Call ''dmb'' [Dot (V 3) ''e'', K (JNum 0)], K (JNum 17)])), When (V 2) [Ret (Dot (Call ''JD'' [Call ''oNb'' [V 2, Seq (Call ''Wrc'' []) (G ''trc'')], K (JNum 15)]) ''a'')] []] [], Ret (Call ''bzc'' [Dot (V 0) ''d''])],
    fn ''A_c'' 1 2 [Do (SetV 2 (Call ''REd'' [V 0])), When (Call ''ar'' [V 2]) [Ret (K JNull)] [Do (SetV 1 (Seq (Call ''Qb'' [V 2]) (Call ''JD'' [Call ''vr'' [New ''Yr'' [Call ''Dr'' [Meth (Dot (V 2) ''a'') ''Jc'' [], New ''Dl'' []]]], K (JNum 85)]))), Ret (Call ''TEd'' [Call ''JD'' [Call ''fGd'' [Seq (And (Neg (Dot (V 1) ''b'')) (Put (V 1) ''b'' (New ''jhe'' [G ''O3'', V 1, K (JNum 4), K (JNum 7)]))) (Dot (V 1) ''b''), K (JNum 0)], K (JNum 84)]])]],
    fn ''IUd'' 1 1 [When (Neg (Dot (V 0) ''o'')) [Do (SetV 1 (Meth (V 0) ''sk'' [])), Do (Cond (V 1) (Put (V 0) ''o'' (New ''Q7d'' [V 0, V 0, K JNull])) (Cond (Meth (V 0) ''$k'' []) (Put (V 0) ''o'' (New ''f5d'' [V 0, K JNull])) (Cond (Loose (Call ''Lde'' [Call ''bde'' [Seq (Call ''yie'' []) (G ''wie''), V 0]]) (K (JNum 1))) (Put (V 0) ''o'' (New ''$7d'' [V 0])) (Put (V 0) ''o'' (New ''d8d'' [V 0, K JNull])))))] [], Ret (Dot (V 0) ''o'')],
    fn ''gie'' 4 5 [When (Meth (V 2) ''Uh'' [V 1]) [Do (SetV 4 (Seq (SetV 6 (V 1)) (Cond (Neg (V 6)) (K JNull) (Meth (Call ''JD'' [V 3, K (JNum 52)]) ''di'' [V 6])))), When (V 4) [Do (SetV 8 (Meth (V 2) ''Jh'' [V 1])), Do (SetV 7 (Dot (V 1) ''t'')), When (Or (Bin Gt (V 7) (K (JNum 1))) (Loose (V 7) (K (JNum (- 1))))) [Do (SetV 5 (Call ''JD'' [V 8, K (JNum 16)])), Do (Meth (V 4) ''Wb'' [Call ''die'' [V 0, V 5]])] [Do (Meth (V 4) ''Wb'' [Call ''cie'' [V 0, Call ''JD'' [V 8, K (JNum 57)]]])]] []] []]]"

definition code_4896_4904 :: "(string \<times> jfun) list" where
  "code_4896_4904 = [
    fn ''O_b'' 2 4 [Do (SetV 4 (Seq (SetV 5 (Meth (Meth (Dot (New ''fkb'' [Dot (V 0) ''b'']) ''a'') ''vc'' []) ''Jc'' [])) (New ''lkb'' [V 5]))), Loop (Meth (Dot (V 4) ''a'') ''Ob'' []) [Do (SetV 3 (Seq (SetV 2 (Call ''JD'' [Meth (Dot (V 4) ''a'') ''Pb'' [], K (JNum 45)])) (Call ''JD'' [Meth (V 2) ''jd'' [], K (JNum 35)]))), When (Bin Lt (Call ''ofb'' [V 1, Call ''JD'' [V 3, K (JNum 15)]]) (K (JNum 0))) [Ret (K (JBool False))] []] [], Ret (K (JBool True))],
    fn ''P_b'' 2 4 [Do (SetV 4 (Seq (SetV 5 (Meth (Meth (Dot (New ''fkb'' [Dot (V 0) ''b'']) ''a'') ''vc'' []) ''Jc'' [])) (New ''lkb'' [V 5]))), Loop (Meth (Dot (V 4) ''a'') ''Ob'' []) [Do (SetV 3 (Seq (SetV 2 (Call ''JD'' [Meth (Dot (V 4) ''a'') ''Pb'' [], K (JNum 45)])) (Call ''JD'' [Meth (V 2) ''jd'' [], K (JNum 35)]))), When (Bin Gt (Call ''ofb'' [V 1, Call ''JD'' [V 3, K (JNum 15)]]) (K (JNum 0))) [Ret (K (JBool False))] []] [], Ret (K (JBool True))],
    fn ''bjc'' 1 0 [Switch (Dot (Call ''JD'' [Call ''oNb'' [Dot (V 0) ''b'', Seq (Call ''nyc'' []) (G ''lwc'')], K (JNum 381)]) ''g'') [(Some (JNum 1), [Do (Call ''YBb'' [Call ''ZBb'' [Call ''XBb'' [New ''jCb'' [K JNull, New ''Zvb'' [Dot (V 0) ''d'', K (JNum 16)]], New ''wjc'' []], New ''yjc'' []], New ''Ajc'' []]), Break]), (Some (JNum 2), [Do (Call ''djc'' [V 0]), Break]), (Some (JNum 0), [Do (Call ''cjc'' [V 0])])]],
    fn ''BSc'' 3 3 [Do (SetV 3 (V 2)), Do (And (Neg (V 3)) (SetV 3 (New ''ood'' []))), Do (Meth (V 3) ''Tg'' [K (JStr ''Layout''), Dot (Dot (Dot (V 0) ''a'') ''c'') ''length'']), Do (SetV 5 (New ''Kmb'' [Dot (V 0) ''a''])), Loop (Bin Lt (Dot (V 5) ''a'') (Dot (Dot (Dot (V 5) ''c'') ''c'') ''length'')) [Do (SetV 4 (Call ''JD'' [Call ''Imb'' [V 5], K (JNum 43)])), When (Meth (V 3) ''Zg'' []) [Ret (K JUndef)] [], Do (Meth (V 4) ''If'' [V 1, Meth (V 3) ''dh'' [K (JNum 1)]])] [], Do (Meth (V 3) ''Ug'' [])],
    fn ''P6c'' 2 2 [Do (Call ''gmb'' [Dot (V 0) ''b'', V 1]), Do (SetV 3 (New ''Kmb'' [Dot (V 0) ''n''])), Loop (Bin Lt (Dot (V 3) ''a'') (Dot (Dot (Dot (V 3) ''c'') ''c'') ''length'')) [Do (SetV 2 (Call ''JD'' [Call ''Imb'' [V 3], K (JNum 208)])), When (Neg (Loose (Call ''emb'' [Dot (V 2) ''c'', V 1, K (JNum 0)]) (K (JNum (- 1))))) [Do (Call ''gmb'' [Dot (V 2) ''c'', V 1]), Do (Call ''W6c'' [V 2]), Do (And (Loose (Dot (Dot (Dot (V 2) ''c'') ''c'') ''length'') (K (JNum 0))) (Call ''gmb'' [Dot (V 0) ''n'', V 2])), Break] []] [], Do (Call ''J6c'' [V 0])],
    fn ''a7c'' 2 5 [Do (SetV 6 (Dot (V 0) ''f'')), Do (SetV 4 (K (JNum 0))), Do (SetV 5 (K (JNum 0))), Do (SetV 3 (New ''Kmb'' [Dot (V 0) ''a''])), Loop (Bin Lt (Dot (V 3) ''a'') (Dot (Dot (Dot (V 3) ''c'') ''c'') ''length'')) [Do (SetV 2 (Call ''JD'' [Call ''Imb'' [V 3], K (JNum 173)])), Do (Call ''Q6c'' [V 2, Dot (V 0) ''e'', V 6]), Do (Call ''M6c'' [V 2, V 1]), Do (SetV 5 (Meth (Dot (G ''$wnd'') ''Math'') ''max'' [V 5, Dot (V 2) ''r''])), Do (SetV 6 (Bin Plus (V 6) (Bin Plus (Dot (V 2) ''d'') (Dot (V 0) ''c'')))), Do (SetV 4 (V 6))] [], Do (Put (V 0) ''d'' (V 5)), Do (Put (V 0) ''b'' (V 4))],
    fn ''ohd'' 0 0 [Do (SetG ''ohd'' (G ''qdb'')), Do (SetG ''nhd'' (New ''phd'' [K (JStr ''V_TOP''), K (JNum 0)])), Do (SetG ''mhd'' (New ''phd'' [K (JStr ''V_CENTER''), K (JNum 1)])), Do (SetG ''lhd'' (New ''phd'' [K (JStr ''V_BOTTOM''), K (JNum 2)])), Do (SetG ''jhd'' (New ''phd'' [K (JStr ''H_LEFT''), K (JNum 3)])), Do (SetG ''ihd'' (New ''phd'' [K (JStr ''H_CENTER''), K (JNum 4)])), Do (SetG ''khd'' (New ''phd'' [K (JStr ''H_RIGHT''), K (JNum 5)]))],
    fn ''TWd'' 1 1 [When (Neg (Loose (Bin BitAnd (Dot (V 0) ''Db'') (K (JNum 64))) (K (JNum 0)))) [Ret (Call ''ZVd'' [V 0])] [], Do (SetV 1 (New ''ahb'' [Call ''ZVd'' [V 0]])), Do (Put (V 1) ''a'' (Bin Plus (Dot (V 1) ''a'') (K (JStr '' (abstract: '')))), Do (Call ''Ygb'' [V 1, Neg (Loose (Bin BitAnd (Dot (V 0) ''Bb'') (K (JNum 256))) (K (JNum 0)))]), Do (Put (V 1) ''a'' (Bin Plus (Dot (V 1) ''a'') (K (JStr '', interface: '')))), Do (Call ''Ygb'' [V 1, Neg (Loose (Bin BitAnd (Dot (V 0) ''Bb'') (K (JNum 512))) (K (JNum 0)))]), Do (Put (V 1) ''a'' (Bin Plus (Dot (V 1) ''a'') (K (JStr '')'')))), Ret (Dot (V 1) ''a'')],
    fn ''tz'' 1 1 [When (Loose (Dot (V 0) ''c'') (K JNull)) [Do (SetV 1 (Cond (Same (Call ''XD'' [Dot (V 0) ''b'']) (Call ''XD'' [G ''rz''])) (K JNull) (Dot (V 0) ''b''))), Do (Put (V 0) ''d'' (Cond (Loose (V 1) (K JNull)) (G ''Kte'') (Cond (Call ''UD'' [V 1]) (Call ''wz'' [Call ''ND'' [V 1]]) (Cond (Call ''VD'' [V 1]) (G ''Iue'') (Call ''xeb'' [Call ''rb'' [V 1]]))))), Do (Put (V 0) ''a'' (Bin Plus (Bin Plus (Dot (V 0) ''a'') (K (JStr '': ''))) (Cond (Call ''UD'' [V 1]) (Call ''vz'' [Call ''ND'' [V 1]]) (Bin Plus (V 1) (K (JStr '''')))))), Do (Put (V 0) ''c'' (Bin Plus (Bin Plus (Bin Plus (K (JStr ''('')) (Dot (V 0) ''d'')) (K (JStr '') ''))) (Dot (V 0) ''a'')))] []]]"

definition code_4908_4948 :: "(string \<times> jfun) list" where
  "code_4908_4948 = [
    fn ''kBd'' 3 0 [When (Call ''RD'' [V 1, K (JNum 271)]) [Ret (Call ''ZAd'' [V 0, Call ''JD'' [V 1, K (JNum 85)], V 2])] [When (Call ''RD'' [V 1, K (JNum 276)]) [Ret (Call ''$Ad'' [V 0, Call ''JD'' [V 1, K (JNum 276)], V 2])] [Raise (Call ''Lcb'' [New ''kfb'' [Bin Plus (G ''HGe'') (Call ''Ee'' [New ''wnb'' [Call ''WC'' [Call ''OC'' [G ''aJ'', K (JNum 1)], G ''Gte'', K (JNum 1), K (JNum 5), NewArr [V 1, V 2]]]])]])]]],
    fn ''lBd'' 3 0 [When (Call ''RD'' [V 1, K (JNum 271)]) [Ret (Call ''_Ad'' [V 0, Call ''JD'' [V 1, K (JNum 85)], V 2])] [When (Call ''RD'' [V 1, K (JNum 276)]) [Ret (Call ''aBd'' [V 0, Call ''JD'' [V 1, K (JNum 276)], V 2])] [Raise (Call ''Lcb'' [New ''kfb'' [Bin Plus (G ''HGe'') (Call ''Ee'' [New ''wnb'' [Call ''WC'' [Call ''OC'' [G ''aJ'', K (JNum 1)], G ''Gte'', K (JNum 1), K (JNum 5), NewArr [V 1, V 2]]]])]])]]],
    fn ''A0d'' 2 1 [When (Neg (Loose (V 1) (Dot (V 0) ''b''))) [Do (SetV 2 (K JNull)), Do (And (Neg (Neg (Dot (V 0) ''b''))) (SetV 2 (Call ''ftd'' [Dot (V 0) ''b'', V 0, K (JNum (- 4)), V 2]))), Do (And (Neg (Neg (V 1))) (SetV 2 (Call ''etd'' [V 1, V 0, K (JNum (- 4)), V 2]))), Do (SetV 2 (Call ''r0d'' [V 0, V 1, V 2])), Do (And (Neg (Neg (V 2))) (Meth (V 2) ''mj'' []))] [Do (And (And (Neg (Loose (Bin BitAnd (Dot (V 0) ''Db'') (K (JNum 4))) (K (JNum 0)))) (Loose (Bin BitAnd (Dot (V 0) ''Db'') (K (JNum 1))) (K (JNum 0)))) (Call ''Osd'' [V 0, New ''$1d'' [V 0, K (JNum 1), K (JNum 3), V 1, V 1]]))]],
    fn ''D0d'' 2 1 [When (Neg (Loose (V 1) (Dot (V 0) ''f''))) [Do (SetV 2 (K JNull)), Do (And (Neg (Neg (Dot (V 0) ''f''))) (SetV 2 (Call ''ftd'' [Dot (V 0) ''f'', V 0, K (JNum (- 1)), V 2]))), Do (And (Neg (Neg (V 1))) (SetV 2 (Call ''etd'' [V 1, V 0, K (JNum (- 1)), V 2]))), Do (SetV 2 (Call ''t0d'' [V 0, V 1, V 2])), Do (And (Neg (Neg (V 2))) (Meth (V 2) ''mj'' []))] [Do (And (And (Neg (Loose (Bin BitAnd (Dot (V 0) ''Db'') (K (JNum 4))) (K (JNum 0)))) (Loose (Bin BitAnd (Dot (V 0) ''Db'') (K (JNum 1))) (K (JNum 0)))) (Call ''Osd'' [V 0, New ''$1d'' [V 0, K (JNum 1), K (JNum 0), V 1, V 1]]))]],
    fn ''Yee'' 4 4 [When (Call ''itd'' [Dot (V 0) ''e'']) [Do (SetV 4 (Meth (V 1) ''Jk'' [])), Do (SetV 7 (Meth (V 1) ''kd'' [])), Do (SetV 5 (Meth (V 2) ''kd'' [])), Do (SetV 6 (Call ''see'' [V 0, K (JNum 1), V 4, V 7, V 5, Cond (Meth (V 4) ''Hk'' []) (Call ''xee'' [V 0, V 4, V 5, And (Call ''RD'' [V 4, K (JNum 103)]) (Neg (Loose (Bin BitAnd (Dot (Call ''JD'' [V 4, K (JNum 19)]) ''Bb'') (G ''Hve'')) (K (JNum 0))))]) (K (JNum (- 1))), K (JBool True)])), Do (Cond (V 3) (Meth (V 3) ''lj'' [V 6]) (SetV 3 (V 6)))] [], Ret (V 3)],
    fn ''ole'' 1 3 [When (Loose (V 0) (K JNull)) [Ret (K JNull)] [], Do (SetV 2 (Call ''JD'' [V 0, K (JNum 16)])), When (Meth (V 2) ''dc'' []) [Ret (K (JStr ''''))] [], Do (SetV 3 (New ''$gb'' [])), Do (SetV 1 (Meth (V 2) ''Jc'' [])), Loop (Meth (V 1) ''Ob'' []) [Do (Call ''Xgb'' [V 3, Seq (Call ''Ake'' []) (Call ''OD'' [Meth (V 1) ''Pb'' []])]), Do (Put (V 3) ''a'' (Bin Plus (Dot (V 3) ''a'') (K (JStr '' ''))))] [], Ret (Call ''Adb'' [V 3, Bin Minus (Dot (Dot (V 3) ''a'') ''length'') (K (JNum 1))])],
    fn ''sle'' 1 3 [When (Loose (V 0) (K JNull)) [Ret (K JNull)] [], Do (SetV 2 (Call ''JD'' [V 0, K (JNum 16)])), When (Meth (V 2) ''dc'' []) [Ret (K (JStr ''''))] [], Do (SetV 3 (New ''$gb'' [])), Do (SetV 1 (Meth (V 2) ''Jc'' [])), Loop (Meth (V 1) ''Ob'' []) [Do (Call ''Xgb'' [V 3, Seq (Call ''Ake'' []) (Call ''OD'' [Meth (V 1) ''Pb'' []])]), Do (Put (V 3) ''a'' (Bin Plus (Dot (V 3) ''a'') (K (JStr '' ''))))] [], Ret (Call ''Adb'' [V 3, Bin Minus (Dot (Dot (V 3) ''a'') ''length'') (K (JNum 1))])],
    fn ''CEc'' 2 5 [Do (SetV 5 (New ''Kmb'' [Dot (V 1) ''a''])), Loop (Bin Lt (Dot (V 5) ''a'') (Dot (Dot (Dot (V 5) ''c'') ''c'') ''length'')) [Do (SetV 4 (Call ''JD'' [Call ''Imb'' [V 5], K (JNum 9)])), Do (SetV 3 (New ''Yr'' [Call ''Dr'' [Meth (Dot (Call ''EYb'' [V 4]) ''a'') ''Jc'' [], New ''Dl'' []]])), Loop (Call ''Wr'' [V 3]) [Do (SetV 2 (Call ''JD'' [Call ''Xr'' [V 3], K (JNum 17)])), Do (SetV 6 (Dot (Dot (Dot (V 2) ''c'') ''i'') ''p'')), Do (PutIdx (Dot (V 0) ''n'') (V 6) (Bin Minus (Idx (Dot (V 0) ''n'') (V 6)) (K (JNum 1))))] []] []],
    fn ''iFc'' 3 2 [Do (SetV 3 (Idx (Idx (Dot (V 0) ''c'') (Dot (Dot (V 1) ''c'') ''p'')) (Dot (V 1) ''p''))), Do (SetV 4 (Idx (Idx (Dot (V 0) ''c'') (Dot (Dot (V 2) ''c'') ''p'')) (Dot (V 2) ''p''))), When (And (Neg (Loose (Dot (V 3) ''a'') (K JNull))) (Neg (Loose (Dot (V 4) ''a'') (K JNull)))) [Ret (Call ''Teb'' [Dot (V 3) ''a'', Dot (V 4) ''a''])] [When (Neg (Loose (Dot (V 3) ''a'') (K JNull))) [Ret (K (JNum (- 1)))] [When (Neg (Loose (Dot (V 4) ''a'') (K JNull))) [Ret (K (JNum 1))] []]], Ret (K (JNum 0))],
    fn ''ASc'' 3 0 [Do (Meth (V 2) ''Tg'' [K (JStr ''Tree layout''), K (JNum 1)]), Do (Call ''Nbd'' [Dot (V 0) ''b'']), Do (Call ''Qbd'' [Dot (V 0) ''b'', Seq (Call ''HSc'' []) (G ''DSc''), G ''DSc'']), Do (Call ''Qbd'' [Dot (V 0) ''b'', G ''ESc'', G ''ESc'']), Do (Call ''Qbd'' [Dot (V 0) ''b'', G ''FSc'', G ''FSc'']), Do (Call ''Qbd'' [Dot (V 0) ''b'', G ''GSc'', G ''GSc'']), Do (Put (V 0) ''a'' (Call ''Lbd'' [Dot (V 0) ''b'', V 1])), Do (Call ''BSc'' [V 0, V 1, Meth (V 2) ''dh'' [K (JNum 1)]]), Do (Meth (V 2) ''Ug'' []), Ret (V 1)],
    fn ''FBd'' 2 6 [When (V 1) [Do (SetV 5 (Dot (Dot (V 1) ''a'') ''length'')), Do (SetV 2 (New ''Kse'' [V 5])), Do (SetV 7 (Cond (Bin Lt (Bin Times (Bin Minus (Dot (V 2) ''b'') (Dot (V 2) ''a'')) (Dot (V 2) ''c'')) (K (JNum 0))) (Seq (Call ''Jse'' []) (G ''Ise'')) (New ''ete'' [V 2]))), Loop (Meth (V 7) ''Ob'' []) [Do (SetV 6 (Call ''JD'' [Meth (V 7) ''Pb'' [], K (JNum 15)])), Do (SetV 4 (Call ''TAd'' [V 1, Dot (V 6) ''a''])), Do (SetV 3 (New ''dDd'' [V 0])), Do (Call ''GBd'' [Dot (V 3) ''a'', V 4])] []] []],
    fn ''WBd'' 2 6 [When (V 1) [Do (SetV 5 (Dot (Dot (V 1) ''a'') ''length'')), Do (SetV 2 (New ''Kse'' [V 5])), Do (SetV 7 (Cond (Bin Lt (Bin Times (Bin Minus (Dot (V 2) ''b'') (Dot (V 2) ''a'')) (Dot (V 2) ''c'')) (K (JNum 0))) (Seq (Call ''Jse'' []) (G ''Ise'')) (New ''ete'' [V 2]))), Loop (Meth (V 7) ''Ob'' []) [Do (SetV 6 (Call ''JD'' [Meth (V 7) ''Pb'' [], K (JNum 15)])), Do (SetV 4 (Call ''TAd'' [V 1, Dot (V 6) ''a''])), Do (SetV 3 (New ''xCd'' [V 0])), Do (Call ''tBd'' [Dot (V 3) ''a'', V 4])] []] []],
    fn ''RQd'' 1 2 [When (And (And (Neg (Loose (V 0) (K JNull))) (Bin Gt (Dot (V 0) ''length'') (K (JNum 0)))) (Loose (Call ''sgb'' [V 0, Bin Minus (Dot (V 0) ''length'') (K (JNum 1))]) (K (JNum 33)))) [Try [Do (SetV 1 (Call ''AQd'' [Call ''Jgb'' [V 0, K (JNum 0), Bin Minus (Dot (V 0) ''length'') (K (JNum 1))]])), Ret (Loose (Dot (V 1) ''e'') (K JNull))] 2 [Do (SetV 2 (Call ''Kcb'' [V 2])), When (Neg (Call ''RD'' [V 2, K (JNum 32)])) [Raise (Call ''Lcb'' [V 2])] []]] [], Ret (K (JBool False))],
    fn ''$Vb'' 3 3 [Do (SetV 3 (Call ''DYb'' [V 1])), Do (SetV 4 (Call ''PXb'' [V 3])), Do (SetV 5 (New ''yZb'' [])), Do (Call ''wZb'' [V 5, V 1]), Switch (Dot (V 2) ''g'') [(Some (JNum 1), [Do (Call ''xZb'' [V 5, Call ''Dmd'' [Call ''Gmd'' [V 4]]]), Break]), (Some (JNum 2), [Do (Call ''xZb'' [V 5, Call ''Gmd'' [V 4]])])], Do (Call ''rNb'' [V 5, Seq (Call ''nyc'' []) (G ''pxc''), Call ''MD'' [Call ''oNb'' [V 0, G ''pxc'']]]), Ret (V 5)],
    fn ''Z6b'' 1 2 [Do (SetV 1 (Call ''JD'' [Call ''Xr'' [New ''Yr'' [Call ''Dr'' [Meth (Dot (Call ''EYb'' [Dot (V 0) ''a'']) ''a'') ''Jc'' [], New ''Dl'' []]]], K (JNum 17)])), Do (SetV 2 (Call ''JD'' [Call ''Xr'' [New ''Yr'' [Call ''Dr'' [Meth (Dot (Call ''HYb'' [Dot (V 0) ''a'']) ''a'') ''Jc'' [], New ''Dl'' []]]], K (JNum 17)])), Ret (Or (Call ''Rdb'' [Call ''LD'' [Call ''oNb'' [V 1, Seq (Call ''Wrc'' []) (G ''Hrc'')]]]) (Call ''Rdb'' [Call ''LD'' [Call ''oNb'' [V 2, G ''Hrc'']]]))],
    fn ''Nhc'' 0 0 [Do (SetG ''Nhc'' (G ''qdb'')), Do (SetG ''Jhc'' (New ''Ohc'' [K (JStr ''ONE_SIDE''), K (JNum 0)])), Do (SetG ''Lhc'' (New ''Ohc'' [K (JStr ''TWO_SIDES_CORNER''), K (JNum 1)])), Do (SetG ''Mhc'' (New ''Ohc'' [K (JStr ''TWO_SIDES_OPPOSING''), K (JNum 2)])), Do (SetG ''Khc'' (New ''Ohc'' [K (JStr ''THREE_SIDES''), K (JNum 3)])), Do (SetG ''Ihc'' (New ''Ohc'' [K (JStr ''FOUR_SIDES''), K (JNum 4)]))],
    fn ''wnc'' 2 4 [Do (SetV 5 (New ''lmb'' [])), Do (SetV 4 (K (JNum 0))), Do (SetV 3 (Meth (V 1) ''Jc'' [])), Loop (Meth (V 3) ''Ob'' []) [Do (SetV 2 (Call ''Cfb'' [Bin Plus (Dot (Call ''JD'' [Meth (V 3) ''Pb'' [], K (JNum 15)]) ''a'') (V 4)])), Loop (And (Bin Lt (Dot (V 2) ''a'') (Dot (V 0) ''f'')) (Neg (Call ''$mc'' [V 0, Dot (V 2) ''a'']))) [Do (SetV 2 (Call ''Cfb'' [Bin Plus (Dot (V 2) ''a'') (K (JNum 1))])), Do (SetV 4 (Bin Minus (V 4) (K (JNum (- 1)))))] [], When (Bin Ge (Dot (V 2) ''a'') (Dot (V 0) ''f'')) [Break] [], Do (Call ''qDb'' [Dot (V 5) ''c'', V 2])] [], Ret (V 5)],
    fn ''QKc'' 1 2 [Do (SetV 2 (New ''Kmb'' [Dot (Dot (V 0) ''e'') ''b''])), Loop (Bin Lt (Dot (V 2) ''a'') (Dot (Dot (Dot (V 2) ''c'') ''c'') ''length'')) [Do (SetV 1 (Call ''JD'' [Call ''Imb'' [V 2], K (JNum 25)])), Do (Call ''fLc'' [V 0, V 1])] [], Do (Call ''YBb'' [Call ''VBb'' [Call ''XBb'' [Call ''XBb'' [New ''jCb'' [K JNull, New ''Zvb'' [Dot (Dot (V 0) ''e'') ''b'', K (JNum 16)]], New ''fMc'' []], New ''CMc'' []], New ''EMc'' []], New ''GMc'' [V 0]])],
    fn ''FId'' 2 0 [When (Neg (V 1)) [Ret (K (JBool False))] [When (Meth (V 0) ''kj'' [V 1]) [Ret (K (JBool False))] [], When (Neg (Dot (V 0) ''i'')) [When (Call ''RD'' [V 1, K (JNum 151)]) [Do (Put (V 0) ''i'' (Call ''JD'' [V 1, K (JNum 151)])), Ret (K (JBool True))] [Do (Put (V 0) ''i'' (New ''wJd'' [])), Ret (Meth (Dot (V 0) ''i'') ''lj'' [V 1])]] [Ret (Meth (Dot (V 0) ''i'') ''lj'' [V 1])]]],
    fn ''Uee'' 3 3 [Do (SetV 3 (Meth (V 1) ''Jk'' [])), Do (SetV 5 (Meth (V 1) ''kd'' [])), Do (SetV 4 (Cond (Meth (V 3) ''Hk'' []) (Call ''see'' [V 0, K (JNum 3), V 3, K JNull, V 5, Call ''xee'' [V 0, V 3, V 5, And (Call ''RD'' [V 3, K (JNum 103)]) (Neg (Loose (Bin BitAnd (Dot (Call ''JD'' [V 3, K (JNum 19)]) ''Bb'') (G ''Hve'')) (K (JNum 0))))], K (JBool True)]) (Call ''see'' [V 0, K (JNum 1), V 3, Meth (V 3) ''gk'' [], V 5, K (JNum (- 1)), K (JBool True)]))), Do (Cond (V 2) (Meth (V 2) ''lj'' [V 4]) (SetV 2 (V 4))), Ret (V 2)],
    fn ''lle'' 1 0 [Do (SetV 0 (Call ''Ase'' [V 0, K (JBool True)])), When (Or (Call ''vgb'' [G ''JEe'', V 0]) (Call ''vgb'' [K (JStr ''1''), V 0])) [Ret (Seq (Call ''Qdb'' []) (G ''Pdb''))] [When (Or (Call ''vgb'' [G ''KEe'', V 0]) (Call ''vgb'' [K (JStr ''0''), V 0])) [Ret (Seq (Call ''Qdb'' []) (G ''Odb''))] []], Raise (Call ''Lcb'' [New ''Zje'' [Bin Plus (Bin Plus (K (JStr (''Invalid boolean value: '' @ CHR 0x27 # ''''))) (V 0)) (K (JStr (CHR 0x27 # '''')))]])],
    fn ''Kd'' 3 3 [Do (SetV 4 (Meth (Meth (V 0) ''vc'' []) ''Jc'' [])), Loop (Meth (V 4) ''Ob'' []) [Do (SetV 3 (Call ''JD'' [Meth (V 4) ''Pb'' [], K (JNum 45)])), Do (SetV 5 (Meth (V 3) ''jd'' [])), When (Or (Same (Call ''XD'' [V 1]) (Call ''XD'' [V 5])) (And (Neg (Loose (V 1) (K JNull))) (Call ''pb'' [V 1, V 5]))) [When (V 2) [Do (SetV 3 (New ''Hkb'' [Meth (V 3) ''jd'' [], Meth (V 3) ''kd'' []])), Do (Meth (V 4) ''Qb'' [])] [], Ret (V 3)] []] [], Ret (K JNull)],
    fn ''zKb'' 1 3 [Do (Call ''uKb'' []), When (Neg (Meth (Dot (V 0) ''B'') ''Gc'' [Seq (Call ''xnd'' []) (G ''pnd'')])) [Ret (K JUndef)] [], Do (SetV 3 (Dot (Dot (V 0) ''f'') ''i'')), Do (SetV 1 (New ''Qfd'' [Dot (Dot (V 0) ''a'') ''c''])), Do (SetV 2 (New ''gZb'' [])), Do (Put (V 2) ''b'' (Bin Minus (Dot (V 1) ''c'') (Dot (V 3) ''c''))), Do (Put (V 2) ''d'' (Bin Minus (Dot (V 1) ''d'') (Dot (V 3) ''d''))), Do (Put (V 2) ''c'' (Bin Minus (Bin Plus (Dot (V 3) ''c'') (Dot (V 3) ''b'')) (Bin Plus (Dot (V 1) ''c'') (Dot (V 1) ''b'')))), Do (Put (V 2) ''a'' (Bin Minus (Bin Plus (Dot (V 3) ''d'') (Dot (V 3) ''a'')) (Bin Plus (Dot (V 1) ''d'') (Dot (V 1) ''a'')))), Do (Meth (Dot (V 0) ''e'') ''Yf'' [V 2])],
    fn ''eMb'' 4 3 [Do (SetV 6 (Meth (Dot (G ''$wnd'') ''Math'') ''min'' [V 2, Call ''hMb'' [Call ''JD'' [Dot (V 0) ''b'', K (JNum 68)], V 1, V 2, V 3]])), Do (SetV 5 (New ''Kmb'' [Dot (V 0) ''a''])), Loop (Bin Lt (Dot (V 5) ''a'') (Dot (Dot (Dot (V 5) ''c'') ''c'') ''length'')) [Do (SetV 4 (Call ''JD'' [Call ''Imb'' [V 5], K (JNum 225)])), Do (And (Neg (Loose (V 4) (V 1))) (SetV 6 (Meth (Dot (G ''$wnd'') ''Math'') ''min'' [V 6, Call ''eMb'' [V 4, V 1, V 6, V 3]])))] [], Ret (V 6)],
    fn ''IWb'' 1 4 [Do (SetV 4 (Call ''SC'' [G ''SP'', G ''aue'', K (JNum 199), Dot (Dot (Dot (V 0) ''b'') ''c'') ''length'', K (JNum 0), K (JNum 2)])), Do (SetV 3 (New ''Tjb'' [Dot (V 0) ''b'', K (JNum 0)])), Loop (Bin Lt (Dot (V 3) ''b'') (Meth (Dot (V 3) ''d'') ''gc'' [])) [Do (SetV 1 (Seq (Call ''LDb'' [Bin Lt (Dot (V 3) ''b'') (Meth (Dot (V 3) ''d'') ''gc'' [])]) (Call ''JD'' [Meth (Dot (V 3) ''d'') ''Xb'' [Put (V 3) ''c'' (Bin Minus (Put (V 3) ''b'' (Bin Minus (Dot (V 3) ''b'') (K (JNum (- 1))))) (K (JNum 1)))], K (JNum 25)]))), Do (SetV 2 (Bin Minus (Dot (V 3) ''b'') (K (JNum 1)))), Do (PutIdx (V 4) (V 2) (Call ''$Xb'' [Dot (V 1) ''a'']))] [], Ret (V 4)],
    fn ''Q_b'' 3 3 [Do (SetV 3 (Call ''JD'' [Call ''ktb'' [Dot (V 0) ''a'', V 2], K (JNum 35)])), When (Neg (Loose (V 3) (K JNull))) [Do (SetV 5 (Call ''JD'' [Call ''ktb'' [Dot (V 0) ''b'', V 3], K (JNum 66)])), Do (Call ''ye'' [V 5, V 2, K (JBool True)])] [], Do (SetV 4 (Call ''JD'' [Call ''ktb'' [Dot (V 0) ''b'', V 1], K (JNum 66)])), When (Neg (V 4)) [Do (SetV 4 (New ''dub'' [])), Do (Call ''ltb'' [Dot (V 0) ''b'', V 1, V 4])] [], Do (Call ''Wtb'' [V 4, V 2, Dot (Dot (V 4) ''c'') ''b'', Dot (V 4) ''c'']), Do (Call ''ltb'' [Dot (V 0) ''a'', V 2, V 1])],
    fn ''N0b'' 5 4 [Do (SetV 6 (Call ''ALb'' [Call ''zLb'' [Call ''ELb'' [Call ''K0b'' [V 2]], V 3], Call ''F0b'' [V 0, V 2, V 4]])), Do (SetV 8 (Meth (Call ''LYb'' [V 0, V 2]) ''Jc'' [])), Loop (Meth (V 8) ''Ob'' []) [Do (SetV 7 (Call ''JD'' [Meth (V 8) ''Pb'' [], K (JNum 12)])), When (Idx (V 1) (Dot (V 7) ''p'')) [Do (SetV 5 (Dot (Idx (V 1) (Dot (V 7) ''p'')) ''i'')), Do (Call ''_lb'' [Dot (V 6) ''d'', New ''XLb'' [V 5, Call ''xLb'' [V 6, V 5]]])] []] [], Do (Call ''yLb'' [V 6])],
    fn ''hgc'' 2 0 [Do (Put This ''f'' (New ''_rb'' [])), Do (Put This ''b'' (New ''_rb'' [])), Do (Put This ''j'' (New ''_rb'' [])), Do (Put This ''a'' (V 0)), Do (Put This ''c'' (V 1)), Do (And (Bin Gt (Dot This ''c'') (K (JNum 0))) (Call ''ggc'' [This, Bin Minus (Dot This ''c'') (K (JNum 1)), Seq (Call ''Bmd'' []) (G ''gmd'')])), Do (And (Bin Lt (Dot This ''c'') (Bin Minus (Dot (Dot This ''a'') ''length'') (K (JNum 1)))) (Call ''ggc'' [This, Bin Plus (Dot This ''c'') (K (JNum 1)), Seq (Call ''Bmd'' []) (G ''Amd'')]))],
    fn ''Ykc'' 2 5 [Do (SetV 5 (New ''Kmb'' [Dot (V 1) ''d''])), Loop (Bin Lt (Dot (V 5) ''a'') (Dot (Dot (Dot (V 5) ''c'') ''c'') ''length'')) [Do (SetV 4 (Call ''JD'' [Call ''Imb'' [V 5], K (JNum 107)])), Do (SetV 6 (Dot (Call ''JD'' [Call ''ejb'' [Dot (V 0) ''c'', V 4], K (JNum 116)]) ''o'')), Do (SetV 3 (New ''Wrb'' [Dot (V 4) ''b''])), Loop (Bin Lt (Dot (V 3) ''a'') (Dot (Dot (Dot (V 3) ''c'') ''a'') ''length'')) [Do (SetV 2 (Call ''JD'' [Call ''Vrb'' [V 3], K (JNum 64)])), Do (Call ''dhc'' [V 4, V 2, V 6])] []] []],
    fn ''KFc'' 1 0 [Do (And (And (Bin Gt (Dot (V 0) ''length'') (K (JNum 0))) (Bin Gt (Dot (Idx (V 0) (K (JNum 0))) ''length'') (K (JNum 0)))) (Put This ''c'' (Call ''Rdb'' [Call ''LD'' [Call ''oNb'' [Call ''DYb'' [Idx (Idx (V 0) (K (JNum 0))) (K (JNum 0))], Seq (Call ''Wrc'' []) (G ''irc'')]]]))), Do (Put This ''a'' (Call ''SC'' [G ''cX'', G ''aue'', K (JNum 2082), Dot (V 0) ''length'', K (JNum 0), K (JNum 2)])), Do (Put This ''b'' (Call ''SC'' [G ''fX'', G ''aue'', K (JNum 2083), Dot (V 0) ''length'', K (JNum 0), K (JNum 2)])), Do (Put This ''d'' (New ''Bs'' []))],
    fn ''CLc'' 1 0 [When (Loose (Dot (Dot (V 0) ''c'') ''length'') (K (JNum 0))) [Ret (K (JBool False))] [], When (Loose (Dot (Dot (Dot (Seq (Call ''MDb'' [K (JNum 0), Dot (Dot (V 0) ''c'') ''length'']) (Call ''JD'' [Idx (Dot (V 0) ''c'') (K (JNum 0)), K (JNum 17)])) ''c'') ''i'') ''k'') (Seq (Call ''$Yb'' []) (G ''VYb''))) [Ret (K (JBool True))] [], Ret (Call ''RBb'' [Call ''ZBb'' [New ''jCb'' [K JNull, New ''Zvb'' [V 0, K (JNum 16)]], New ''FLc'' []], New ''HLc'' []])],
    fn ''r2c'' 2 7 [Do (SetV 7 (Call ''z_c'' [V 1])), Do (SetV 5 (Dot (V 1) ''f'')), Do (SetV 8 (Dot (V 1) ''g'')), Do (SetV 6 (Meth (Dot (G ''$wnd'') ''Math'') ''sqrt'' [Bin Plus (Bin Times (V 5) (V 5)) (Bin Times (V 8) (V 8))])), Do (SetV 4 (K (JNum 0))), Do (SetV 3 (New ''Kmb'' [V 7])), Loop (Bin Lt (Dot (V 3) ''a'') (Dot (Dot (Dot (V 3) ''c'') ''c'') ''length'')) [Do (SetV 2 (Call ''JD'' [Call ''Imb'' [V 3], K (JNum 26)])), Do (SetV 4 (Bin Plus (V 4) (Call ''r2c'' [V 0, V 2])))] [], Ret (Meth (Dot (G ''$wnd'') ''Math'') ''max'' [V 4, V 6])],
    fn ''Mld'' 0 0 [Do (SetG ''Mld'' (G ''qdb'')), Do (SetG ''Lld'' (New ''Pld'' [G ''Ywe'', K (JNum 0)])), Do (SetG ''Kld'' (New ''Pld'' [K (JStr ''FREE''), K (JNum 1)])), Do (SetG ''Jld'' (New ''Pld'' [K (JStr ''FIXED_SIDE''), K (JNum 2)])), Do (SetG ''Gld'' (New ''Pld'' [K (JStr ''FIXED_ORDER''), K (JNum 3)])), Do (SetG ''Ild'' (New ''Pld'' [K (JStr ''FIXED_RATIO''), K (JNum 4)])), Do (SetG ''Hld'' (New ''Pld'' [K (JStr ''FIXED_POS''), K (JNum 5)]))],
    fn ''Pce'' 2 3 [Do (SetV 2 (Meth (V 1) ''ni'' [Dot (V 0) ''a''])), When (V 2) [Do (SetV 4 (Call ''OD'' [Call ''pMd'' [Seq (And (Neg (Dot (V 2) ''b'')) (Put (V 2) ''b'' (New ''dUd'' [Seq (Call ''WRd'' []) (G ''SRd''), G ''N7'', V 2]))) (Dot (V 2) ''b''), G ''mJe'']])), Do (SetV 3 (K (JNum 1))), Loop (Bin Lt (V 3) (Dot (Seq (Call ''yie'' []) (G ''xie'')) ''length'')) [When (Call ''vgb'' [Idx (G ''xie'') (V 3), V 4]) [Ret (V 3)] []] [Do (SetV 3 (Bin Minus (V 3) (K (JNum (- 1)))))]] [], Ret (K (JNum 0))],
    fn ''knb'' 1 5 [When (Loose (V 0) (K JNull)) [Ret (G ''Kte'')] [], Do (SetV 5 (New ''Qxb'' [G ''Ete'', K (JStr ''[''), K (JStr '']'')])), Do (Seq (Seq (SetV 2 (V 0)) (SetV 3 (K (JNum 0)))) (SetV 4 (Dot (V 2) ''length''))), Loop (Bin Lt (V 3) (V 4)) [Do (SetV 1 (Idx (V 2) (V 3))), Do (Call ''Nxb'' [V 5, Bin Plus (K (JStr '''')) (V 1)])] [Do (SetV 3 (Bin Minus (V 3) (K (JNum (- 1)))))], Ret (Cond (Neg (Dot (V 5) ''a'')) (Dot (V 5) ''c'') (Cond (Loose (Dot (Dot (V 5) ''e'') ''length'') (K (JNum 0))) (Dot (Dot (V 5) ''a'') ''a'') (Bin Plus (Dot (Dot (V 5) ''a'') ''a'') (Bin Plus (K (JStr '''')) (Dot (V 5) ''e'')))))],
    fn ''qnb'' 1 5 [When (Loose (V 0) (K JNull)) [Ret (G ''Kte'')] [], Do (SetV 5 (New ''Qxb'' [G ''Ete'', K (JStr ''[''), K (JStr '']'')])), Do (Seq (Seq (SetV 2 (V 0)) (SetV 3 (K (JNum 0)))) (SetV 4 (Dot (V 2) ''length''))), Loop (Bin Lt (V 3) (V 4)) [Do (SetV 1 (Idx (V 2) (V 3))), Do (Call ''Nxb'' [V 5, Bin Plus (K (JStr '''')) (V 1)])] [Do (SetV 3 (Bin Minus (V 3) (K (JNum (- 1)))))], Ret (Cond (Neg (Dot (V 5) ''a'')) (Dot (V 5) ''c'') (Cond (Loose (Dot (Dot (V 5) ''e'') ''length'') (K (JNum 0))) (Dot (Dot (V 5) ''a'') ''a'') (Bin Plus (Dot (Dot (V 5) ''a'') ''a'') (Bin Plus (K (JStr '''')) (Dot (V 5) ''e'')))))],
    fn ''Md'' 1 3 [Do (SetV 3 (New ''Qxb'' [G ''Ete'', K (JStr ''{''), K (JStr ''}'')])), Do (SetV 2 (Meth (Meth (V 0) ''vc'' []) ''Jc'' [])), Loop (Meth (V 2) ''Ob'' []) [Do (SetV 1 (Call ''JD'' [Meth (V 2) ''Pb'' [], K (JNum 45)])), Do (Call ''Nxb'' [V 3, Bin Plus (Bin Plus (Call ''Nd'' [V 0, Meth (V 1) ''jd'' []]) (K (JStr ''=''))) (Call ''Nd'' [V 0, Meth (V 1) ''kd'' []])])] [], Ret (Cond (Neg (Dot (V 3) ''a'')) (Dot (V 3) ''c'') (Cond (Loose (Dot (Dot (V 3) ''e'') ''length'') (K (JNum 0))) (Dot (Dot (V 3) ''a'') ''a'') (Bin Plus (Dot (Dot (V 3) ''a'') ''a'') (Bin Plus (K (JStr '''')) (Dot (V 3) ''e'')))))],
    fn ''$Gb'' 1 4 [Loop (Neg (Call ''xlb'' [Dot (V 0) ''o''])) [Do (SetV 2 (Call ''JD'' [Call ''Clb'' [Dot (V 0) ''o''], K (JNum 49)])), Do (SetV 3 (Call ''JD'' [Dot (V 2) ''a'', K (JNum 124)])), Do (SetV 1 (Call ''JD'' [Dot (V 2) ''b'', K (JNum 217)])), Do (SetV 4 (Call ''UFb'' [V 1, V 3])), When (Loose (Dot (V 1) ''e'') (V 3)) [Do (Call ''iGb'' [Dot (V 4) ''g'', V 1]), Do (Put (V 3) ''e'' (Bin Plus (Dot (V 4) ''e'') (Dot (V 1) ''a'')))] [Do (Call ''iGb'' [Dot (V 4) ''b'', V 1]), Do (Put (V 3) ''e'' (Bin Minus (Dot (V 4) ''e'') (Dot (V 1) ''a'')))], Do (Call ''_lb'' [Dot (Dot (V 0) ''e'') ''a'', V 3])] []],
    fn ''I3b'' 2 3 [Do (SetV 2 (K JNull)), Do (SetV 4 (Meth (Call ''JD'' [Meth (V 1) ''Kb'' [V 0], K (JNum 20)]) ''Jc'' [])), Loop (Meth (V 4) ''Ob'' []) [Do (SetV 3 (Call ''JD'' [Meth (V 4) ''Pb'' [], K (JNum 17)])), When (Neg (V 2)) [Do (SetV 2 (Cond (Loose (Dot (Dot (V 3) ''c'') ''i'') (V 0)) (Dot (Dot (V 3) ''d'') ''i'') (Dot (Dot (V 3) ''c'') ''i'')))] [When (Neg (Loose (Cond (Loose (Dot (Dot (V 3) ''c'') ''i'') (V 0)) (Dot (Dot (V 3) ''d'') ''i'') (Dot (Dot (V 3) ''c'') ''i'')) (V 2))) [Ret (K (JBool False))] []]] [], Ret (K (JBool True))],
    fn ''DQc'' 2 5 [Do (SetV 2 (Call ''dPc'' [V 0, K (JBool False), V 1])), Do (SetV 4 (New ''Kmb'' [V 2])), Loop (Bin Lt (Dot (V 4) ''a'') (Dot (Dot (Dot (V 4) ''c'') ''c'') ''length'')) [Do (SetV 3 (Call ''JD'' [Call ''Imb'' [V 4], K (JNum 133)])), Do (Cond (Loose (Dot (V 3) ''d'') (K (JNum 0))) (Seq (Call ''KPc'' [V 3, K JNull]) (Call ''LPc'' [V 3, K JNull])) (Seq (Seq (Seq (Seq (SetV 5 (Dot (V 3) ''a'')) (SetV 6 (Dot (V 3) ''b''))) (Call ''KPc'' [V 3, V 6])) (Call ''LPc'' [V 3, V 5])) (K JUndef)))] []],
    fn ''zRc'' 1 2 [Do (SetV 1 (New ''pcd'' [])), Do (Call ''jcd'' [V 1, G ''lRc'']), Do (SetV 2 (Call ''JD'' [Call ''oNb'' [V 0, Seq (Call ''Wrc'' []) (G ''brc'')], K (JNum 22)])), Do (And (Meth (V 2) ''Gc'' [Seq (Call ''Xpc'' []) (G ''Wpc'')]) (Call ''jcd'' [V 1, G ''pRc''])), Do (And (Meth (V 2) ''Gc'' [G ''Npc'']) (Call ''jcd'' [V 1, G ''mRc''])), Do (And (Meth (V 2) ''Gc'' [G ''Upc'']) (Call ''jcd'' [V 1, G ''oRc''])), Do (And (Meth (V 2) ''Gc'' [G ''Ppc'']) (Call ''jcd'' [V 1, G ''nRc''])), Ret (V 1)]]"

definition code_4950_4962 :: "(string \<times> jfun) list" where
  "code_4950_4962 = [
    fn ''$7b'' 1 4 [Do (Call ''Z7b'' [V 0]), Do (SetV 2 (New ''Yr'' [Call ''Dr'' [Meth (Dot (Call ''BYb'' [V 0]) ''a'') ''Jc'' [], New ''Dl'' []]])), Loop (Call ''Wr'' [V 2]) [Do (SetV 1 (Call ''JD'' [Call ''Xr'' [V 2], K (JNum 17)])), Do (SetV 3 (Loose (Dot (Dot (V 1) ''c'') ''i'') (V 0))), Do (SetV 4 (Cond (V 3) (Dot (V 1) ''d'') (Dot (V 1) ''c''))), Do (Cond (V 3) (Call ''DWb'' [V 1, K JNull]) (Call ''CWb'' [V 1, K JNull])), Do (Call ''rNb'' [V 1, Seq (Call ''Wrc'' []) (G ''yrc''), V 4]), Do (Call ''c8b'' [V 0, Dot (V 4) ''i''])] []],
    fn ''HKc'' 3 4 [Do (SetV 6 (Call ''emb'' [Dot (V 0) ''e'', V 1, K (JNum 0)])), Do (SetV 5 (New ''IKc'' [])), Do (Put (V 5) ''b'' (V 2)), Do (SetV 3 (New ''Tjb'' [Dot (V 0) ''e'', V 6])), Loop (Bin Lt (Dot (V 3) ''b'') (Meth (Dot (V 3) ''d'') ''gc'' [])) [Do (SetV 4 (Seq (Call ''LDb'' [Bin Lt (Dot (V 3) ''b'') (Meth (Dot (V 3) ''d'') ''gc'' [])]) (Call ''JD'' [Meth (Dot (V 3) ''d'') ''Xb'' [Put (V 3) ''c'' (Bin Minus (Put (V 3) ''b'' (Bin Minus (Dot (V 3) ''b'') (K (JNum (- 1))))) (K (JNum 1)))], K (JNum 9)]))), Do (Put (V 4) ''p'' (V 2)), Do (Call ''_lb'' [Dot (V 5) ''e'', V 4]), Do (Call ''Mjb'' [V 3])] [], Ret (V 5)],
    fn ''t_c'' 1 3 [Do (SetV 2 (New ''uKd'' [Seq (And (Neg (Dot (V 0) ''a'')) (Put (V 0) ''a'' (New ''P3d'' [G ''T3'', V 0, K (JNum 10), K (JNum 11)]))) (Dot (V 0) ''a'')])), Loop (Neg (Loose (Dot (V 2) ''e'') (Meth (Dot (V 2) ''i'') ''gc'' []))) [Do (SetV 1 (Call ''JD'' [Call ''sKd'' [V 2], K (JNum 26)])), Do (SetV 3 (Call ''REd'' [V 1])), When (Neg (Call ''Wr'' [New ''Yr'' [Call ''Dr'' [Meth (Dot (V 3) ''a'') ''Jc'' [], New ''Dl'' []]]])) [Ret (V 1)] []] [], Ret (K JNull)],
    fn ''R_c'' 0 0 [Do (SetG ''R_c'' (G ''qdb'')), Do (SetG ''P_c'' (New ''S_c'' [K (JStr ''OVERLAP_REMOVAL''), K (JNum 0)])), Do (SetG ''M_c'' (New ''S_c'' [G ''kDe'', K (JNum 1)])), Do (SetG ''Q_c'' (New ''S_c'' [K (JStr ''ROTATION''), K (JNum 2)])), Do (SetG ''N_c'' (New ''S_c'' [K (JStr ''GRAPH_SIZE_CALCULATION''), K (JNum 3)])), Do (SetG ''O_c'' (New ''S_c'' [K (JStr ''OUTGOING_EDGE_ANGLES''), K (JNum 4)]))],
    fn ''wzd'' 0 1 [When (G ''szd'') [Ret (Call ''JD'' [Call ''$3d'' [Seq (Call ''jRd'' []) (G ''iRd''), G ''jGe''], K (JNum 2080)])] [], Do (SetV 0 (Call ''JD'' [Cond (Call ''RD'' [Call ''fjb'' [Seq (Call ''jRd'' []) (G ''iRd''), G ''jGe''], K (JNum 556)]) (Call ''fjb'' [G ''iRd'', G ''jGe'']) (New ''vzd'' []), K (JNum 556)])), Do (SetG ''szd'' (K (JBool True))), Do (Call ''tzd'' [V 0]), Do (Call ''uzd'' [V 0]), Do (Call ''Nyd'' [V 0]), Do (Call ''ijb'' [G ''iRd'', G ''jGe'', V 0]), Ret (V 0)],
    fn ''efe'' 3 2 [When (Loose (Dot (V 0) ''j'') (K (JNum 0))) [Ret (V 2)] [], Do (SetV 4 (Call ''JD'' [Call ''wXd'' [V 0, V 1, V 2], K (JNum 75)])), Do (SetV 3 (Meth (V 2) ''Jk'' [])), When (Or (Neg (Meth (V 3) ''pk'' [])) (Neg (Meth (Dot (V 0) ''a'') ''$l'' [V 3]))) [Raise (Call ''Lcb'' [New ''qz'' [Bin Plus (Bin Plus (Bin Plus (Bin Plus (K (JStr (''Invalid entry feature '' @ CHR 0x27 # ''''))) (Dot (Meth (V 3) ''ok'' []) ''zb'')) (K (JStr ''.''))) (Meth (V 3) ''ve'' [])) (K (JStr (CHR 0x27 # '''')))]])] [], Ret (V 4)],
    fn ''Wi'' 2 8 [Do (Seq (Seq (SetV 7 (Dot (V 0) ''a'')) (SetV 8 (K (JNum 0)))) (SetV 9 (Dot (V 7) ''length''))), Loop (Bin Lt (V 8) (V 9)) [Do (SetV 6 (Idx (V 7) (V 8))), Do (Seq (Seq (SetV 3 (V 6)) (SetV 4 (K (JNum 0)))) (SetV 5 (Dot (V 3) ''length''))), Loop (Bin Lt (V 4) (V 5)) [Do (SetV 2 (Idx (V 3) (V 4))), When (Or (Same (Call ''XD'' [V 1]) (Call ''XD'' [V 2])) (And (Neg (Loose (V 1) (K JNull))) (Call ''pb'' [V 1, V 2]))) [Ret (K (JBool True))] []] [Do (SetV 4 (Bin Minus (V 4) (K (JNum (- 1)))))]] [Do (SetV 8 (Bin Minus (V 8) (K (JNum (- 1)))))], Ret (K (JBool False))],
    fn ''Iib'' 1 3 [When (Bin Ge (Call ''Ocb'' [V 0, K (JNum 0)]) (K (JNum 0))) [Do (SetV 2 (Call ''Qcb'' [V 0, G ''wve''])), Do (SetV 3 (Call ''Xcb'' [V 0, G ''wve'']))] [Do (SetV 1 (Call ''cdb'' [V 0, K (JNum 1)])), Do (SetV 2 (Call ''Qcb'' [V 1, K (JNum 500000000)])), Do (SetV 3 (Call ''Xcb'' [V 1, K (JNum 500000000)])), Do (SetV 3 (Call ''Mcb'' [Call ''adb'' [V 3, K (JNum 1)], Call ''Ncb'' [V 0, K (JNum 1)]]))], Ret (Call ''_cb'' [Call ''adb'' [V 3, K (JNum 32)], Call ''Ncb'' [V 2, G ''Mve'']])],
    fn ''g5c'' 4 5 [Do (SetV 4 (K JNull)), Do (SetV 5 (K (JNum 0))), Do (SetV 7 (New ''Kmb'' [V 1])), Loop (Bin Lt (Dot (V 7) ''a'') (Dot (Dot (Dot (V 7) ''c'') ''c'') ''length'')) [Do (SetV 6 (Call ''JD'' [Call ''Imb'' [V 7], K (JNum 26)])), Do (SetV 8 (Bin Plus (Dot (V 6) ''i'') (Dot (V 6) ''g''))), When (Bin Lt (V 0) (Bin Plus (Bin Plus (Dot (V 6) ''j'') (Dot (V 6) ''f'')) (V 3))) [Do (Cond (Neg (V 4)) (SetV 4 (V 6)) (And (Bin Lt (Bin Minus (Dot (V 2) ''i'') (V 8)) (Bin Minus (Dot (V 2) ''i'') (V 5))) (SetV 4 (V 6)))), Do (SetV 5 (Bin Plus (Dot (V 4) ''i'') (Dot (V 4) ''g'')))] []] [], Ret (Cond (Neg (V 4)) (K (JNum 0)) (Bin Plus (V 5) (V 3)))],
    fn ''h5c'' 4 5 [Do (SetV 5 (K JNull)), Do (SetV 4 (K (JNum 0))), Do (SetV 7 (New ''Kmb'' [V 1])), Loop (Bin Lt (Dot (V 7) ''a'') (Dot (Dot (Dot (V 7) ''c'') ''c'') ''length'')) [Do (SetV 6 (Call ''JD'' [Call ''Imb'' [V 7], K (JNum 26)])), Do (SetV 8 (Bin Plus (Dot (V 6) ''j'') (Dot (V 6) ''f''))), When (Bin Lt (V 0) (Bin Plus (Bin Plus (Dot (V 6) ''i'') (Dot (V 6) ''g'')) (V 3))) [Do (Cond (Neg (V 5)) (SetV 5 (V 6)) (And (Bin Lt (Bin Minus (Dot (V 2) ''j'') (V 8)) (Bin Minus (Dot (V 2) ''j'') (V 4))) (SetV 5 (V 6)))), Do (SetV 4 (Bin Plus (Dot (V 5) ''j'') (Dot (V 5) ''f'')))] []] [], Ret (Cond (Neg (V 5)) (K (JNum 0)) (Bin Plus (V 4) (V 3)))],
    fn ''uA'' 1 3 [Do (SetV 1 (K (JBool False))), Do (SetV 3 (Dot (Dot (Dot (V 0) ''b'') ''c'') ''length'')), Do (SetV 2 (K (JNum 0))), Loop (Bin Lt (V 2) (V 3)) [When (Call ''vA'' [Call ''JD'' [Call ''dmb'' [Dot (V 0) ''b'', V 2], K (JNum 434)]]) [When (And (And (Neg (V 1)) (Bin Lt (Bin Plus (V 2) (K (JNum 1))) (V 3))) (Call ''vA'' [Call ''JD'' [Call ''dmb'' [Dot (V 0) ''b'', Bin Plus (V 2) (K (JNum 1))], K (JNum 434)]])) [Do (SetV 1 (K (JBool True))), Do (Put (Call ''JD'' [Call ''dmb'' [Dot (V 0) ''b'', V 2], K (JNum 434)]) ''a'' (K (JBool True)))] []] [Do (SetV 1 (K (JBool False)))]] [Do (Bin Minus (SetV 2 (Bin Minus (V 2) (K (JNum (- 1))))) (K (JNum 1)))]],
    fn ''Sib'' 5 2 [Do (SetV 5 (K (JNum 0))), Do (SetV 6 (K (JNum 0))), Loop (Bin Lt (V 6) (V 4)) [Do (SetV 5 (Call ''Mcb'' [V 5, Call ''ddb'' [Call ''Ncb'' [Idx (V 1) (V 6), G ''Mve''], Call ''Ncb'' [Idx (V 3) (V 6), G ''Mve'']]])), Do (PutIdx (V 0) (V 6) (Call ''gdb'' [V 5])), Do (SetV 5 (Call ''bdb'' [V 5, K (JNum 32)]))] [Do (Bin Minus (SetV 6 (Bin Minus (V 6) (K (JNum (- 1))))) (K (JNum 1)))], Loop (Bin Lt (V 6) (V 2)) [Do (SetV 5 (Call ''Mcb'' [V 5, Call ''Ncb'' [Idx (V 1) (V 6), G ''Mve'']])), Do (PutIdx (V 0) (V 6) (Call ''gdb'' [V 5])), Do (SetV 5 (Call ''bdb'' [V 5, K (JNum 32)]))] [Do (Bin Minus (SetV 6 (Bin Minus (V 6) (K (JNum (- 1))))) (K (JNum 1)))]],
    fn ''_ib'' 2 2 [Do (Call ''Vib'' []), Do (SetV 3 (Seq (Call ''Zhb'' []) (G ''Uhb''))), Do (SetV 2 (V 0)), Loop (Bin Gt (V 1) (K (JNum 1))) [Do (And (Neg (Loose (Bin BitAnd (V 1) (K (JNum 1))) (K (JNum 0)))) (SetV 3 (Call ''eib'' [V 3, V 2]))), Do (Cond (Loose (Dot (V 2) ''d'') (K (JNum 1))) (SetV 2 (Call ''eib'' [V 2, V 2])) (SetV 2 (New ''nib'' [Call ''bjb'' [Dot (V 2) ''a'', Dot (V 2) ''d'', Call ''SC'' [G ''cE'', G ''bve'', K (JNum 30), Bin Shl (Dot (V 2) ''d'') (K (JNum 1)), K (JNum 15), K (JNum 1)]]])))] [Do (SetV 1 (Bin Shr (V 1) (K (JNum 1))))], Do (SetV 3 (Call ''eib'' [V 3, V 2])), Ret (V 3)]]"

definition code_4964_4971 :: "(string \<times> jfun) list" where
  "code_4964_4971 = [
    fn ''N$b'' 1 2 [When (Call ''Rdb'' [Call ''LD'' [Call ''cvd'' [V 0, Seq (Call ''nyc'' []) (G ''xwc'')]]]) [Do (SetV 2 (New ''Yr'' [Call ''Dr'' [Meth (Dot (Call ''SEd'' [V 0]) ''a'') ''Jc'' [], New ''Dl'' []]])), Loop (Call ''Wr'' [V 2]) [Do (SetV 1 (Call ''JD'' [Call ''Xr'' [V 2], K (JNum 85)])), When (Call ''Kwd'' [V 1]) [When (Call ''Rdb'' [Call ''LD'' [Call ''cvd'' [V 1, G ''ywc'']]]) [Ret (K (JBool True))] []] []] []] [], Ret (K (JBool False))],
    fn ''z9b'' 1 4 [Do (SetV 1 (New ''dub'' [])), Do (SetV 2 (New ''dub'' [])), Do (SetV 4 (Call ''Ztb'' [V 0, K (JNum 0)])), Loop (Neg (Loose (Dot (V 4) ''b'') (Dot (Dot (V 4) ''d'') ''c''))) [Do (SetV 3 (Call ''JD'' [Call ''lub'' [V 4], K (JNum 12)])), Do (Cond (Loose (Dot (Dot (Dot (V 3) ''e'') ''c'') ''length'') (K (JNum 0))) (Seq (Call ''Wtb'' [V 2, V 3, Dot (Dot (V 2) ''c'') ''b'', Dot (V 2) ''c'']) (K (JBool True))) (Seq (Call ''Wtb'' [V 1, V 3, Dot (Dot (V 1) ''c'') ''b'', Dot (V 1) ''c'']) (K (JBool True))))] [], Do (Meth (Call ''$u'' [V 1]) ''Fc'' [V 2]), Ret (V 1)],
    fn ''_gc'' 2 3 [When (Call ''esb'' [Dot (V 0) ''f'', V 1]) [Do (Put (V 1) ''b'' (V 0)), Do (SetV 3 (Dot (V 1) ''c'')), Do (Or (Neg (Loose (Call ''emb'' [Dot (V 0) ''j'', V 3, K (JNum 0)]) (K (JNum (- 1))))) (Call ''_lb'' [Dot (V 0) ''j'', V 3])), Do (SetV 4 (Dot (V 1) ''d'')), Do (Or (Neg (Loose (Call ''emb'' [Dot (V 0) ''j'', V 4, K (JNum 0)]) (K (JNum (- 1))))) (Call ''_lb'' [Dot (V 0) ''j'', V 4])), Do (SetV 2 (Dot (Dot (V 1) ''a'') ''b'')), When (Neg (Loose (Dot (Dot (V 2) ''c'') ''length'') (K (JNum 0)))) [Do (And (Neg (Dot (V 0) ''i'')) (Put (V 0) ''i'' (New ''khc'' [V 0]))), Do (Call ''fhc'' [Dot (V 0) ''i'', V 2])] []] []],
    fn ''lkc'' 1 5 [Do (SetV 2 (Dot (Dot (V 0) ''c'') ''d'')), Do (SetV 3 (Dot (V 2) ''j'')), Do (SetV 4 (Dot (Dot (V 0) ''d'') ''d'')), Do (SetV 5 (Dot (V 4) ''j'')), When (Loose (V 3) (V 5)) [Ret (Cond (Bin Lt (Dot (V 2) ''p'') (Dot (V 4) ''p'')) (K (JNum 0)) (K (JNum 1)))] [When (Loose (Call ''Emd'' [V 3]) (V 5)) [Ret (K (JNum 0))] [When (Loose (Call ''Cmd'' [V 3]) (V 5)) [Ret (K (JNum 1))] [Do (SetV 1 (Dot (V 0) ''b'')), Ret (Cond (Call ''Krb'' [Dot (V 1) ''b'', Call ''Emd'' [V 3]]) (K (JNum 0)) (K (JNum 1)))]]]],
    fn ''qCd'' 2 6 [Do (SetV 4 (V 0)), Do (SetV 6 (Call ''UAd'' [V 4, K (JStr ''layoutOptions'')])), Do (And (Neg (V 6)) (SetV 6 (Call ''UAd'' [V 4, G ''nGe'']))), When (V 6) [Do (SetV 7 (V 6)), Do (SetV 3 (K JNull)), Do (And (Neg (Neg (V 7))) (SetV 3 (Seq (SetV 5 (Call ''gC'' [V 7, Call ''SC'' [G ''hJ'', G ''aue'', K (JNum 2), K (JNum 0), K (JNum 6), K (JNum 1)]])) (New ''uC'' [V 7, V 5])))), When (V 3) [Do (SetV 2 (New ''fDd'' [V 7, V 1])), Do (Call ''Hfb'' [V 3, V 2])] []] []],
    fn ''TEd'' 1 0 [When (Call ''RD'' [V 0, K (JNum 206)]) [Ret (Call ''JD'' [V 0, K (JNum 26)])] [When (Call ''RD'' [V 0, K (JNum 193)]) [Ret (Call ''gAd'' [Call ''JD'' [V 0, K (JNum 125)]])] [When (Neg (V 0)) [Raise (Call ''Lcb'' [New ''Yfb'' [G ''SGe'']])] [Raise (Call ''Lcb'' [New ''uhb'' [K (JStr ''Only support nodes and ports.'')]])]]]],
    fn ''KA'' 4 0 [When (And (Bin Ge (V 1) (K (JNum 0))) (Call ''vgb'' [Meth (V 0) ''substr'' [V 1, Dot (K (JStr ''GMT'')) ''length''], K (JStr ''GMT'')])) [Do (PutIdx (V 2) (K (JNum 0)) (Bin Plus (V 1) (K (JNum 3)))), Ret (Call ''BA'' [V 0, V 2, V 3])] [], When (And (Bin Ge (V 1) (K (JNum 0))) (Call ''vgb'' [Meth (V 0) ''substr'' [V 1, Dot (K (JStr ''UTC'')) ''length''], K (JStr ''UTC'')])) [Do (PutIdx (V 2) (K (JNum 0)) (Bin Plus (V 1) (K (JNum 3)))), Ret (Call ''BA'' [V 0, V 2, V 3])] [], Ret (Call ''BA'' [V 0, V 2, V 3])],
    fn ''ihc'' 2 5 [Do (SetV 5 (Dot (Dot (V 0) ''g'') ''a'')), Do (SetV 6 (Dot (Dot (V 0) ''g'') ''b'')), Do (SetV 3 (New ''Kmb'' [Dot (V 0) ''d''])), Loop (Bin Lt (Dot (V 3) ''a'') (Dot (Dot (Dot (V 3) ''c'') ''c'') ''length'')) [Do (SetV 2 (Call ''JD'' [Call ''Imb'' [V 3], K (JNum 70)])), Do (SetV 4 (Dot (V 2) ''n'')), Do (Put (V 4) ''a'' (V 5)), Do (Cond (Loose (Dot (V 0) ''i'') (Seq (Call ''Bmd'' []) (G ''hmd''))) (Put (V 4) ''b'' (Bin Minus (Bin Plus (V 6) (Dot (Dot (V 0) ''j'') ''b'')) (Dot (Dot (V 2) ''o'') ''b''))) (Put (V 4) ''b'' (V 6))), Do (Call ''Vfd'' [V 4, V 1]), Do (SetV 5 (Bin Plus (V 5) (Bin Plus (Dot (Dot (V 2) ''o'') ''a'') (Dot (V 0) ''e''))))] []]]"

definition object_table16 :: "(string \<times> jfun) list" where
  "object_table16 = code_4859_4893 @ code_4896_4904 @ code_4908_4948 @ code_4950_4962 @ code_4964_4971"

text \<open>The names each table declares.\<close>

lemma names_4859_4893 [js_names]: "map fst code_4859_4893 = [
    ''eGd'', ''sr'', ''Jy'', ''_z'', ''Qcb'', ''xWb'', ''y_b'', ''pbc'', ''Bmc'', ''dQc'',
    ''LAd'', ''tYd'', ''GYb'', ''vpc'', ''xGc'', ''V1c'', ''Evd'', ''Vvd'', ''zyd'', ''Z3d'',
    ''$i'', ''Cy'', ''RC'', ''pec'', ''ZCc'', ''tKd'', ''_Vb'', ''W6c'', ''lFb'', ''hSb'',
    ''Fkc'', ''ulc'', ''A_c'', ''IUd'', ''gie'']"
  by (simp add: code_4859_4893_def fn_def)

lemma names_4896_4904 [js_names]: "map fst code_4896_4904 = [
    ''O_b'', ''P_b'', ''bjc'', ''BSc'', ''P6c'', ''a7c'', ''ohd'', ''TWd'', ''tz'']"
  by (simp add: code_4896_4904_def fn_def)

lemma names_4908_4948 [js_names]: "map fst code_4908_4948 = [
    ''kBd'', ''lBd'', ''A0d'', ''D0d'', ''Yee'', ''ole'', ''sle'', ''CEc'', ''iFc'', ''ASc'',
    ''FBd'', ''WBd'', ''RQd'', ''$Vb'', ''Z6b'', ''Nhc'', ''wnc'', ''QKc'', ''FId'', ''Uee'',
    ''lle'', ''Kd'', ''zKb'', ''eMb'', ''IWb'', ''Q_b'', ''N0b'', ''hgc'', ''Ykc'', ''KFc'',
    ''CLc'', ''r2c'', ''Mld'', ''Pce'', ''knb'', ''qnb'', ''Md'', ''$Gb'', ''I3b'', ''DQc'',
    ''zRc'']"
  by (simp add: code_4908_4948_def fn_def)

lemma names_4950_4962 [js_names]: "map fst code_4950_4962 = [
    ''$7b'', ''HKc'', ''t_c'', ''R_c'', ''wzd'', ''efe'', ''Wi'', ''Iib'', ''g5c'', ''h5c'',
    ''uA'', ''Sib'', ''_ib'']"
  by (simp add: code_4950_4962_def fn_def)

lemma names_4964_4971 [js_names]: "map fst code_4964_4971 = [
    ''N$b'', ''z9b'', ''_gc'', ''lkc'', ''qCd'', ''TEd'', ''KA'', ''ihc'']"
  by (simp add: code_4964_4971_def fn_def)

end
