(* ===== verification/ObjectTable17.thy ===== *)
theory ObjectTable17
  imports ObjectCode
begin

text \<open>
  Functions of \<open>layout-worker.js\<close>, lines 4973 to 5000 and a few later ones, in the order of the file, one per line:
  operations of the runtime's collections, iterators and text buffers, accessors and small algorithms
  of the layout engine, with their loops, \<open>switch\<close> and \<open>try\<close> statements. An entry has the name, the
  number of parameters, the number of further local variables and the body; parameters and locals
  are numbered from 0, the variable of a \<open>catch\<close> has a number of its own, \<open>x++\<close> is \<open>(x=x+1)-1\<close>. Lines
  with a construct outside \<open>jexp\<close> and \<open>jstm\<close> (closures, \<open>in\<close>, floating-point literals, host objects) are
  left out.
\<close>

definition code_4973_4989 :: "(string \<times> jfun) list" where
  "code_4973_4989 = [
    fn ''$Dd'' 1 7 [Do (SetV 7 (New ''mC'' [])), Do (SetV 2 (Meth (V 0) ''Og'' [])), Do (SetV 4 (Neg (Loose (V 2) (K JNull)))), Do (And (V 4) (Call ''OAd'' [V 7, G ''FGe'', Meth (V 0) ''Og'' []])), Do (SetV 3 (Meth (V 0) ''ve'' [])), Do (SetV 5 (Neg (Loose (V 3) (K JNull)))), Do (And (V 5) (Call ''OAd'' [V 7, G ''RGe'', Meth (V 0) ''ve'' []])), Do (SetV 1 (Meth (V 0) ''Ng'' [])), Do (SetV 6 (Neg (Loose (V 1) (K JNull)))), Do (And (V 6) (Call ''OAd'' [V 7, K (JStr ''description''), Meth (V 0) ''Ng'' []])), Ret (V 7)],
    fn ''fUd'' 3 3 [Do (SetV 5 (Dot (V 0) ''q'')), Do (Put (V 0) ''q'' (V 1)), When (And (Neg (Loose (Bin BitAnd (Dot (V 0) ''Db'') (K (JNum 4))) (K (JNum 0)))) (Loose (Bin BitAnd (Dot (V 0) ''Db'') (K (JNum 1))) (K (JNum 0)))) [Do (SetV 4 (New ''$1d'' [V 0, K (JNum 1), K (JNum 9), V 5, V 1])), Do (Cond (Neg (V 2)) (SetV 2 (V 4)) (Meth (V 2) ''lj'' [V 4]))] [], When (Neg (V 1)) [Do (And (Neg (Neg (Dot (V 0) ''r''))) (SetV 2 (Meth (V 0) ''Wk'' [K JNull, V 2])))] [Do (SetV 3 (Dot (V 1) ''c'')), Do (And (Neg (Loose (V 3) (Dot (V 0) ''r''))) (SetV 2 (Meth (V 0) ''Wk'' [V 3, V 2])))], Ret (V 2)],
    fn ''t8d'' 3 5 [Do (SetV 2 (Seq (SetV 7 (V 1)) (Call ''etd'' [V 7, Dot (V 0) ''e'', Bin Minus (K (JNum (- 1))) (Dot (V 0) ''c''), V 2]))), Do (SetV 6 (Call ''l8d'' [Dot (V 0) ''a''])), Do (SetV 5 (Seq (SetV 3 (New ''Fjb'' [Dot (New ''wjb'' [Dot (V 6) ''a'']) ''a''])) (New ''K8d'' [V 3]))), Loop (Dot (Dot (V 5) ''a'') ''b'') [Do (SetV 4 (Call ''JD'' [Meth (Call ''Djb'' [Dot (V 5) ''a'']) ''jd'' [], K (JNum 87)])), Do (SetV 2 (Call ''B0d'' [V 4, Call ''x0d'' [V 4, Dot (V 0) ''a''], V 2]))] [], Ret (V 2)],
    fn ''u8d'' 3 5 [Do (SetV 2 (Seq (SetV 7 (V 1)) (Call ''ftd'' [V 7, Dot (V 0) ''e'', Bin Minus (K (JNum (- 1))) (Dot (V 0) ''c''), V 2]))), Do (SetV 6 (Call ''l8d'' [Dot (V 0) ''a''])), Do (SetV 5 (Seq (SetV 3 (New ''Fjb'' [Dot (New ''wjb'' [Dot (V 6) ''a'']) ''a''])) (New ''K8d'' [V 3]))), Loop (Dot (Dot (V 5) ''a'') ''b'') [Do (SetV 4 (Call ''JD'' [Meth (Call ''Djb'' [Dot (V 5) ''a'']) ''jd'' [], K (JNum 87)])), Do (SetV 2 (Call ''B0d'' [V 4, Call ''x0d'' [V 4, Dot (V 0) ''a''], V 2]))] [], Ret (V 2)],
    fn ''Bib'' 4 3 [When (Loose (V 3) (K (JNum 0))) [Do (Call ''rhb'' [V 1, K (JNum 0), V 0, V 2, Bin Minus (Dot (V 0) ''length'') (V 2)])] [Do (SetV 6 (Bin Minus (K (JNum 32)) (V 3))), Do (PutIdx (V 0) (Bin Minus (Dot (V 0) ''length'') (K (JNum 1))) (K (JNum 0))), Do (SetV 5 (Bin Minus (Dot (V 0) ''length'') (K (JNum 1)))), Loop (Bin Gt (V 5) (V 2)) [Do (PutIdx (V 0) (V 5) (Bin BitOr (Idx (V 0) (V 5)) (Bin Ushr (Idx (V 1) (Bin Minus (Bin Minus (V 5) (V 2)) (K (JNum 1)))) (V 6)))), Do (PutIdx (V 0) (Bin Minus (V 5) (K (JNum 1))) (Bin Shl (Idx (V 1) (Bin Minus (Bin Minus (V 5) (V 2)) (K (JNum 1)))) (V 3)))] [Do (Bin Minus (SetV 5 (Bin Minus (V 5) (K (JNum 1)))) (K (JNum (- 1))))]], Do (SetV 4 (K (JNum 0))), Loop (Bin Lt (V 4) (V 2)) [Do (PutIdx (V 0) (V 4) (K (JNum 0)))] [Do (Bin Minus (SetV 4 (Bin Minus (V 4) (K (JNum (- 1))))) (K (JNum 1)))]],
    fn ''fKb'' 1 5 [Do (SetV 1 (K (JNum 0))), Do (SetV 2 (K (JNum 0))), Do (SetV 5 (Meth (V 0) ''Jc'' [])), Loop (Meth (V 5) ''Ob'' []) [Do (SetV 3 (Call ''JD'' [Meth (V 5) ''Pb'' [], K (JNum 115)])), Do (SetV 1 (Meth (Dot (G ''$wnd'') ''Math'') ''max'' [V 1, Dot (Dot (V 3) ''d'') ''b''])), Do (SetV 2 (Meth (Dot (G ''$wnd'') ''Math'') ''max'' [V 2, Dot (Dot (V 3) ''d'') ''c'']))] [], Do (SetV 4 (Meth (V 0) ''Jc'' [])), Loop (Meth (V 4) ''Ob'' []) [Do (SetV 3 (Call ''JD'' [Meth (V 4) ''Pb'' [], K (JNum 115)])), Do (Put (Dot (V 3) ''d'') ''b'' (V 1)), Do (Put (Dot (V 3) ''d'') ''c'' (V 2))] []],
    fn ''nLb'' 1 5 [Do (SetV 2 (K (JNum 0))), Do (SetV 1 (K (JNum 0))), Do (SetV 5 (Meth (V 0) ''Jc'' [])), Loop (Meth (V 5) ''Ob'' []) [Do (SetV 3 (Call ''JD'' [Meth (V 5) ''Pb'' [], K (JNum 115)])), Do (SetV 2 (Meth (Dot (G ''$wnd'') ''Math'') ''max'' [V 2, Dot (Dot (V 3) ''d'') ''d''])), Do (SetV 1 (Meth (Dot (G ''$wnd'') ''Math'') ''max'' [V 1, Dot (Dot (V 3) ''d'') ''a'']))] [], Do (SetV 4 (Meth (V 0) ''Jc'' [])), Loop (Meth (V 4) ''Ob'' []) [Do (SetV 3 (Call ''JD'' [Meth (V 4) ''Pb'' [], K (JNum 115)])), Do (Put (Dot (V 3) ''d'') ''d'' (V 2)), Do (Put (Dot (V 3) ''d'') ''a'' (V 1))] []],
    fn ''_hc'' 5 2 [Do (SetV 5 (Call ''JD'' [Call ''SBb'' [Call ''VBb'' [Meth (V 1) ''Mc'' [], New ''Ric'' []], Call ''BAb'' [New ''TAb'' [], New ''RAb'' [], New ''ZAb'' [], Call ''WC'' [Call ''OC'' [G ''HL'', K (JNum 1)], G ''xue'', K (JNum 130), K (JNum 0), NewArr [Seq (Call ''FAb'' []) (G ''DAb'')]]]], K (JNum 16)])), Do (Call ''Onb'' [V 5]), Do (SetV 6 (Call ''JD'' [Call ''Yi'' [Dot (V 0) ''b'', V 2, V 3], K (JNum 16)])), Do (Cond (Loose (V 4) (K (JNum 0))) (Meth (V 6) ''ad'' [K (JNum 0), V 5]) (Meth (V 6) ''Fc'' [V 5]))],
    fn ''Nad'' 3 0 [Do (Meth (V 2) ''Tg'' [K (JStr ''Grow Tree''), K (JNum 1)]), Do (Put (V 0) ''b'' (Dot (V 1) ''f'')), When (Call ''Rdb'' [Call ''LD'' [Call ''oNb'' [V 1, Seq (Call ''qMb'' []) (G ''oMb'')]]]) [Do (Put (V 0) ''c'' (New ''OMb'' [])), Do (Call ''Jad'' [V 0, K JNull])] [Do (Put (V 0) ''c'' (New ''OMb'' []))], Do (Put (V 0) ''a'' (K (JBool False))), Do (Call ''Lad'' [V 0, Dot (V 1) ''f'']), Do (Call ''rNb'' [V 1, G ''pMb'', Seq (Call ''Qdb'' []) (Cond (Dot (V 0) ''a'') (K (JBool True)) (K (JBool False)))]), Do (Meth (V 2) ''Ug'' [])],
    fn ''Kcd'' 1 1 [Do (Put This ''d'' (New ''_rb'' [])), Do (Put This ''c'' (Dot (V 0) ''c'')), Do (Put This ''e'' (Dot (V 0) ''d'')), Do (Put This ''b'' (Dot (V 0) ''b'')), Do (Put This ''f'' (New ''Pqd'' [Dot (V 0) ''e''])), Do (Put This ''a'' (Dot (V 0) ''a'')), Do (Cond (Neg (Dot (V 0) ''f'')) (Put This ''g'' (Seq (SetV 1 (Call ''JD'' [Call ''web'' [G ''c5''], K (JNum 10)])) (New ''Nrb'' [V 1, Call ''JD'' [Call ''nDb'' [V 1, Dot (V 1) ''length''], K (JNum 10)], K (JNum 0)]))) (Put This ''g'' (Dot (V 0) ''f'')))],
    fn ''Ypd'' 1 4 [Do (SetV 1 (K JNull)), Do (SetV 4 (New ''Kmb'' [Meth (V 0) ''Pf'' []])), Loop (Bin Lt (Dot (V 4) ''a'') (Dot (Dot (Dot (V 4) ''c'') ''c'') ''length'')) [Do (SetV 3 (Call ''JD'' [Call ''Imb'' [V 4], K (JNum 187)])), Do (SetV 2 (New ''Pfd'' [Dot (Meth (V 3) ''Jf'' []) ''a'', Dot (Meth (V 3) ''Jf'' []) ''b'', Dot (Meth (V 3) ''Kf'' []) ''a'', Dot (Meth (V 3) ''Kf'' []) ''b''])), Do (Cond (Neg (V 1)) (SetV 1 (V 2)) (Call ''Nfd'' [V 1, V 2]))] [], Do (And (Neg (V 1)) (SetV 1 (New ''Ofd'' []))), Ret (V 1)],
    fn ''Bvd'' 4 2 [When (Loose (V 2) (K (JNum 1))) [Ret (Seq (And (Neg (Dot (V 0) ''n'')) (Put (V 0) ''n'' (New ''P3d'' [G ''S3'', V 0, K (JNum 1), K (JNum 7)]))) (Call ''HJd'' [Dot (V 0) ''n'', V 1, V 3]))] [], Ret (Seq (SetV 5 (Call ''JD'' [Call ''IWd'' [Seq (SetV 4 (Call ''JD'' [Call ''uud'' [V 0, K (JNum 16)], K (JNum 29)])) (Cond (Neg (V 4)) (Meth (V 0) ''fi'' []) (V 4)), V 2], K (JNum 69)])) (Meth (Meth (V 5) ''uk'' []) ''xk'' [V 0, Call ''sud'' [V 0], Bin Minus (V 2) (Call ''NWd'' [Meth (V 0) ''fi'' []]), V 1, V 3]))],
    fn ''ZFd'' 3 5 [Do (SetV 3 (Meth (V 2) ''gc'' [])), Do (Meth (V 0) ''Zi'' [Bin Plus (Dot (V 0) ''i'') (V 3)]), Do (SetV 7 (Bin Minus (Dot (V 0) ''i'') (V 1))), Do (And (Bin Gt (V 7) (K (JNum 0))) (Call ''rhb'' [Dot (V 0) ''g'', V 1, Dot (V 0) ''g'', Bin Plus (V 1) (V 3), V 7])), Do (SetV 6 (Meth (V 2) ''Jc'' [])), Do (Put (V 0) ''i'' (Bin Plus (Dot (V 0) ''i'') (V 3))), Do (SetV 4 (K (JNum 0))), Loop (Bin Lt (V 4) (V 3)) [Do (SetV 5 (Meth (V 6) ''Pb'' [])), Do (Call ''bGd'' [V 0, V 1, Meth (V 0) ''Xi'' [V 1, V 5]]), Do (Meth (V 0) ''Ki'' [V 1, V 5]), Do (Meth (V 0) ''Li'' []), Do (SetV 1 (Bin Minus (V 1) (K (JNum (- 1)))))] [Do (SetV 4 (Bin Minus (V 4) (K (JNum (- 1)))))], Ret (Neg (Loose (V 3) (K (JNum 0))))],
    fn ''iUd'' 3 1 [When (Neg (Loose (V 1) (Dot (V 0) ''q''))) [Do (And (Neg (Neg (Dot (V 0) ''q''))) (SetV 2 (Call ''ftd'' [Dot (V 0) ''q'', V 0, K (JNum (- 10)), V 2]))), Do (And (Neg (Neg (V 1))) (SetV 2 (Call ''etd'' [V 1, V 0, K (JNum (- 10)), V 2]))), Do (SetV 2 (Call ''fUd'' [V 0, V 1, V 2]))] [When (And (Neg (Loose (Bin BitAnd (Dot (V 0) ''Db'') (K (JNum 4))) (K (JNum 0)))) (Loose (Bin BitAnd (Dot (V 0) ''Db'') (K (JNum 1))) (K (JNum 0)))) [Do (SetV 3 (New ''$1d'' [V 0, K (JNum 1), K (JNum 9), V 1, V 1])), Do (Cond (Neg (V 2)) (SetV 2 (V 3)) (Meth (V 2) ''lj'' [V 3]))] []], Ret (V 2)],
    fn ''ck'' 4 0 [Do (Call ''Mb'' [Loose (Bin BitAnd (V 2) (G ''bue'')) (K (JNum 0)), K (JStr ''flatMap does not support SUBSIZED characteristic'')]), Do (Call ''Mb'' [Loose (Bin BitAnd (V 2) (K (JNum 4))) (K (JNum 0)), K (JStr ''flatMap does not support SORTED characteristic'')]), Do (Call ''Qb'' [V 0]), Do (Call ''Qb'' [V 1]), Ret (New ''Kk'' [V 0, V 1, V 2, V 3])],
    fn ''Zy'' 2 0 [Do (Call ''ODb'' [V 1, K (JStr ''Cannot suppress a null exception.'')]), Do (Call ''FDb'' [Neg (Loose (V 1) (V 0)), K (JStr ''Exception can not suppress itself.'')]), When (Dot (V 0) ''i'') [Ret (K JUndef)] [], Do (Cond (Loose (Dot (V 0) ''k'') (K JNull)) (Put (V 0) ''k'' (Call ''WC'' [Call ''OC'' [G ''iJ'', K (JNum 1)], G ''aue'', K (JNum 80), K (JNum 0), NewArr [V 1]])) (PutIdx (Dot (V 0) ''k'') (Dot (Dot (V 0) ''k'') ''length'') (V 1)))],
    fn ''gJb'' 2 1 [Do (SetV 2 (Call ''hJb'' [Meth (Dot (V 0) ''b'') ''$f'' [], Meth (Dot (V 1) ''b'') ''$f'' []])), When (Neg (Loose (V 2) (K (JNum 0)))) [Ret (V 2)] [], Switch (Dot (Meth (Dot (V 0) ''b'') ''$f'' []) ''g'') [(Some (JNum 1), []), (Some (JNum 2), [Ret (Call ''rfb'' [Meth (Dot (V 0) ''b'') ''Lf'' [], Meth (Dot (V 1) ''b'') ''Lf'' []])]), (Some (JNum 3), []), (Some (JNum 4), [Ret (Call ''rfb'' [Meth (Dot (V 1) ''b'') ''Lf'' [], Meth (Dot (V 0) ''b'') ''Lf'' []])])], Ret (K (JNum 0))]]"

definition code_4993_5000 :: "(string \<times> jfun) list" where
  "code_4993_5000 = [
    fn ''xKb'' 2 4 [Do (Call ''uKb'' []), Do (SetV 4 (Call ''JD'' [Call ''JD'' [Call ''Qc'' [Dot (V 0) ''r'', V 1], K (JNum 22)], K (JNum 83)])), When (Bin Ge (Meth (V 4) ''gc'' []) (K (JNum 2))) [Do (SetV 3 (Call ''JD'' [Meth (Meth (V 4) ''Jc'' []) ''Pb'' [], K (JNum 115)])), Do (SetV 2 (Meth (Dot (V 0) ''u'') ''Gc'' [Seq (Call ''$ld'' []) (G ''Vld'')])), Do (SetV 5 (Meth (Dot (V 0) ''u'') ''Gc'' [G ''Zld''])), Ret (And (And (Neg (Dot (V 3) ''a'')) (Neg (V 2))) (Or (Loose (Meth (V 4) ''gc'' []) (K (JNum 2))) (V 5)))] [Ret (K (JBool False))]],
    fn ''e0c'' 5 3 [Do (SetV 5 (Call ''f0c'' [V 0, V 1, V 2, V 3, V 4])), Do (SetV 7 (K (JBool False))), Loop (Neg (V 5)) [Do (Call ''Y_c'' [V 0, V 4, K (JBool True)]), Do (SetV 7 (K (JBool True))), Do (SetV 5 (Call ''f0c'' [V 0, V 1, V 2, V 3, V 4]))] [], Do (And (V 7) (Call ''Y_c'' [V 0, V 4, K (JBool False)])), Do (SetV 6 (Call ''w_c'' [V 4])), When (Neg (Loose (Dot (Dot (V 6) ''c'') ''length'') (K (JNum 0)))) [Do (And (Neg (Neg (Dot (V 0) ''d''))) (Meth (Dot (V 0) ''d'') ''Fg'' [V 6])), Do (Call ''e0c'' [V 0, V 4, V 2, V 3, V 6])] []],
    fn ''j3c'' 0 0 [Do (SetG ''j3c'' (G ''qdb'')), Do (SetG ''i3c'' (New ''k3c'' [K (JStr ''NODE_SIZE_REORDERER''), K (JNum 0)])), Do (SetG ''f3c'' (New ''k3c'' [K (JStr ''INTERACTIVE_NODE_REORDERER''), K (JNum 1)])), Do (SetG ''h3c'' (New ''k3c'' [K (JStr ''MIN_SIZE_PRE_PROCESSOR''), K (JNum 2)])), Do (SetG ''g3c'' (New ''k3c'' [K (JStr ''MIN_SIZE_POST_PROCESSOR''), K (JNum 3)]))],
    fn ''tkd'' 0 0 [Do (SetG ''tkd'' (G ''qdb'')), Do (SetG ''rkd'' (New ''ukd'' [G ''qye'', K (JNum 0)])), Do (SetG ''pkd'' (New ''ukd'' [K (JStr ''DIRECTED''), K (JNum 1)])), Do (SetG ''skd'' (New ''ukd'' [K (JStr ''UNDIRECTED''), K (JNum 2)])), Do (SetG ''nkd'' (New ''ukd'' [K (JStr ''ASSOCIATION''), K (JNum 3)])), Do (SetG ''qkd'' (New ''ukd'' [K (JStr ''GENERALIZATION''), K (JNum 4)])), Do (SetG ''okd'' (New ''ukd'' [K (JStr ''DEPENDENCY''), K (JNum 5)]))],
    fn ''Ppd'' 2 1 [When (Neg (Call ''gAd'' [V 0])) [Raise (Call ''Lcb'' [New ''nfb'' [G ''CFe'']])] [], Do (SetV 2 (Call ''gAd'' [V 0])), Switch (Dot (V 1) ''g'') [(Some (JNum 1), [Ret (Minus1 (Bin Plus (Dot (V 0) ''j'') (Dot (V 0) ''f'')))]), (Some (JNum 2), [Ret (Bin Minus (Dot (V 0) ''i'') (Dot (V 2) ''g''))]), (Some (JNum 3), [Ret (Bin Minus (Dot (V 0) ''j'') (Dot (V 2) ''f''))]), (Some (JNum 4), [Ret (Minus1 (Bin Plus (Dot (V 0) ''i'') (Dot (V 0) ''g'')))])], Ret (K (JNum 0))],
    fn ''Wee'' 3 3 [Do (SetV 3 (Meth (V 1) ''Jk'' [])), Do (SetV 5 (Meth (V 1) ''kd'' [])), Do (SetV 4 (Cond (Meth (V 3) ''Hk'' []) (Call ''see'' [V 0, K (JNum 4), V 3, V 5, K JNull, Call ''xee'' [V 0, V 3, V 5, And (Call ''RD'' [V 3, K (JNum 103)]) (Neg (Loose (Bin BitAnd (Dot (Call ''JD'' [V 3, K (JNum 19)]) ''Bb'') (G ''Hve'')) (K (JNum 0))))], K (JBool True)]) (Call ''see'' [V 0, Cond (Meth (V 3) ''rk'' []) (K (JNum 2)) (K (JNum 1)), V 3, V 5, Meth (V 3) ''gk'' [], K (JNum (- 1)), K (JBool True)]))), Do (Cond (V 2) (Meth (V 2) ''lj'' [V 4]) (SetV 2 (V 4))), Ret (V 2)],
    fn ''svb'' 2 2 [Do (Call ''NDb'' [V 1]), Do (SetV 3 (Dot (Dot (Dot (V 0) ''b'') ''c'') ''length'')), Do (Call ''_lb'' [Dot (V 0) ''b'', V 1]), Loop (Bin Gt (V 3) (K (JNum 0))) [Do (SetV 2 (V 3)), Do (SetV 3 (Bin DivInt (Bin Minus (V 3) (K (JNum 1))) (K (JNum 2)))), When (Bin Le (Meth (Dot (V 0) ''a'') ''Le'' [Call ''dmb'' [Dot (V 0) ''b'', V 3], V 1]) (K (JNum 0))) [Do (Call ''imb'' [Dot (V 0) ''b'', V 2, V 1]), Ret (K (JBool True))] [], Do (Call ''imb'' [Dot (V 0) ''b'', V 2, Call ''dmb'' [Dot (V 0) ''b'', V 3]])] [], Do (Call ''imb'' [Dot (V 0) ''b'', V 3, V 1]), Ret (K (JBool True))],
    fn ''XHb'' 4 2 [Do (SetV 4 (K (JNum 0))), When (Neg (V 2)) [Do (SetV 5 (K (JNum 0))), Loop (Bin Lt (V 5) (G ''OHb'')) [Do (SetV 4 (Meth (Dot (G ''$wnd'') ''Math'') ''max'' [V 4, Call ''MHb'' [Idx (Idx (Dot (V 0) ''a'') (V 5)) (Dot (V 1) ''g''), V 3]]))] [Do (Bin Minus (SetV 5 (Bin Minus (V 5) (K (JNum (- 1))))) (K (JNum 1)))]] [Do (SetV 4 (Call ''MHb'' [Idx (Idx (Dot (V 0) ''a'') (Dot (V 2) ''g'')) (Dot (V 1) ''g''), V 3]))], Do (And (And (Loose (V 1) (Seq (Call ''CHb'' []) (G ''AHb''))) (Neg (Neg (Dot (V 0) ''b'')))) (SetV 4 (Meth (Dot (G ''$wnd'') ''Math'') ''max'' [V 4, Dot (Dot (V 0) ''b'') ''a'']))), Ret (V 4)]]"

definition code_5011_5011 :: "(string \<times> jfun) list" where
  "code_5011_5011 = [
    fn ''fyb'' 4 2 [Do (SetV 5 (V 1)), Do (SetV 4 (Cond (Or (Loose (Dot (V 5) ''d'') (K JNull)) (Bin Gt (Meth (Dot (V 0) ''a'') ''Le'' [Dot (V 2) ''d'', Dot (V 5) ''d'']) (K (JNum 0)))) (K (JNum 1)) (K (JNum 0)))), Loop (Neg (Loose (Idx (Dot (V 5) ''a'') (V 4)) (V 2))) [Do (SetV 5 (Idx (Dot (V 5) ''a'') (V 4))), Do (SetV 4 (Cond (Bin Gt (Meth (Dot (V 0) ''a'') ''Le'' [Dot (V 2) ''d'', Dot (V 5) ''d'']) (K (JNum 0))) (K (JNum 1)) (K (JNum 0))))] [], Do (PutIdx (Dot (V 5) ''a'') (V 4) (V 3)), Do (Put (V 3) ''b'' (Dot (V 2) ''b'')), Do (PutIdx (Dot (V 3) ''a'') (K (JNum 0)) (Idx (Dot (V 2) ''a'') (K (JNum 0)))), Do (PutIdx (Dot (V 3) ''a'') (K (JNum 1)) (Idx (Dot (V 2) ''a'') (K (JNum 1)))), Do (PutIdx (Dot (V 2) ''a'') (K (JNum 0)) (K JNull)), Do (PutIdx (Dot (V 2) ''a'') (K (JNum 1)) (K JNull))]]"

definition code_5176_5176 :: "(string \<times> jfun) list" where
  "code_5176_5176 = [
    fn ''fnb'' 6 4 [Do (SetV 6 (Bin Minus (V 3) (V 2))), When (Bin Lt (V 6) (K (JNum 7))) [Do (Call ''cnb'' [V 1, V 2, V 3, V 5]), Ret (K JUndef)] [], Do (SetV 8 (Bin Plus (V 2) (V 4))), Do (SetV 7 (Bin Plus (V 3) (V 4))), Do (SetV 9 (Bin Plus (V 8) (Bin Shr (Bin Minus (V 7) (V 8)) (K (JNum 1))))), Do (Call ''fnb'' [V 1, V 0, V 8, V 9, Minus1 (V 4), V 5]), Do (Call ''fnb'' [V 1, V 0, V 9, V 7, Minus1 (V 4), V 5]), When (Bin Le (Meth (V 5) ''Le'' [Idx (V 0) (Bin Minus (V 9) (K (JNum 1))), Idx (V 0) (V 9)]) (K (JNum 0))) [Loop (Bin Lt (V 2) (V 3)) [Do (Call ''VC'' [V 1, Bin Minus (SetV 2 (Bin Minus (V 2) (K (JNum (- 1))))) (K (JNum 1)), Idx (V 0) (Bin Minus (SetV 8 (Bin Minus (V 8) (K (JNum (- 1))))) (K (JNum 1)))])] [], Ret (K JUndef)] [], Do (Call ''dnb'' [V 0, V 8, V 9, V 7, V 1, V 2, V 3, V 5])]]"

definition code_5201_5201 :: "(string \<times> jfun) list" where
  "code_5201_5201 = [
    fn ''rvb'' 2 6 [Do (SetV 2 (Dot (Dot (Dot (V 0) ''b'') ''c'') ''length'')), Do (SetV 4 (Call ''dmb'' [Dot (V 0) ''b'', V 1])), Loop (Bin Lt (Bin Plus (Bin Times (V 1) (K (JNum 2))) (K (JNum 1))) (V 2)) [Do (SetV 3 (Seq (Seq (Seq (Seq (SetV 5 (Bin Plus (Bin Times (K (JNum 2)) (V 1)) (K (JNum 1)))) (SetV 6 (Bin Plus (V 5) (K (JNum 1))))) (SetV 7 (V 5))) (And (And (Bin Lt (V 6) (V 2)) (Bin Lt (Meth (Dot (V 0) ''a'') ''Le'' [Call ''dmb'' [Dot (V 0) ''b'', V 6], Call ''dmb'' [Dot (V 0) ''b'', V 5]]) (K (JNum 0)))) (SetV 7 (V 6)))) (V 7))), When (Bin Lt (Meth (Dot (V 0) ''a'') ''Le'' [V 4, Call ''dmb'' [Dot (V 0) ''b'', V 3]]) (K (JNum 0))) [Break] [], Do (Call ''imb'' [Dot (V 0) ''b'', V 1, Call ''dmb'' [Dot (V 0) ''b'', V 3]]), Do (SetV 1 (V 3))] [], Do (Call ''imb'' [Dot (V 0) ''b'', V 1, V 4])]]"

definition code_5586_5586 :: "(string \<times> jfun) list" where
  "code_5586_5586 = [
    fn ''_xb'' 4 2 [When (Neg (V 1)) [Ret (V 2)] [Do (SetV 4 (Meth (Dot (V 0) ''a'') ''Le'' [Dot (V 2) ''d'', Dot (V 1) ''d''])), When (Loose (V 4) (K (JNum 0))) [Do (Put (V 3) ''d'' (Call ''Akb'' [V 1, Dot (V 2) ''e''])), Do (Put (V 3) ''b'' (K (JBool True))), Ret (V 1)] [], Do (SetV 5 (Cond (Bin Lt (V 4) (K (JNum 0))) (K (JNum 0)) (K (JNum 1)))), Do (PutIdx (Dot (V 1) ''a'') (V 5) (Call ''_xb'' [V 0, Idx (Dot (V 1) ''a'') (V 5), V 2, V 3])), When (Call ''ayb'' [Idx (Dot (V 1) ''a'') (V 5)]) [When (Call ''ayb'' [Idx (Dot (V 1) ''a'') (Bin Minus (K (JNum 1)) (V 5))]) [Do (Put (V 1) ''b'' (K (JBool True))), Do (Put (Idx (Dot (V 1) ''a'') (K (JNum 0))) ''b'' (K (JBool False))), Do (Put (Idx (Dot (V 1) ''a'') (K (JNum 1))) ''b'' (K (JBool False)))] [Do (Cond (Call ''ayb'' [Idx (Dot (Idx (Dot (V 1) ''a'') (V 5)) ''a'') (V 5)]) (SetV 1 (Call ''hyb'' [V 1, Bin Minus (K (JNum 1)) (V 5)])) (And (Call ''ayb'' [Idx (Dot (Idx (Dot (V 1) ''a'') (V 5)) ''a'') (Bin Minus (K (JNum 1)) (V 5))]) (SetV 1 (Call ''gyb'' [V 1, Bin Minus (K (JNum 1)) (V 5)]))))]] []], Ret (V 1)]]"

definition code_6010_6010 :: "(string \<times> jfun) list" where
  "code_6010_6010 = [
    fn ''oD'' 2 27 [Do (SetV 2 (Bin BitAnd (Dot (V 0) ''l'') (K (JNum 8191)))), Do (SetV 3 (Bin BitOr (Bin Shr (Dot (V 0) ''l'') (K (JNum 13))) (Bin Shl (Bin BitAnd (Dot (V 0) ''m'') (K (JNum 15))) (K (JNum 9))))), Do (SetV 4 (Bin BitAnd (Bin Shr (Dot (V 0) ''m'') (K (JNum 4))) (K (JNum 8191)))), Do (SetV 5 (Bin BitOr (Bin Shr (Dot (V 0) ''m'') (K (JNum 17))) (Bin Shl (Bin BitAnd (Dot (V 0) ''h'') (K (JNum 255))) (K (JNum 5))))), Do (SetV 6 (Bin Shr (Bin BitAnd (Dot (V 0) ''h'') (K (JNum 1048320))) (K (JNum 8)))), Do (SetV 7 (Bin BitAnd (Dot (V 1) ''l'') (K (JNum 8191)))), Do (SetV 8 (Bin BitOr (Bin Shr (Dot (V 1) ''l'') (K (JNum 13))) (Bin Shl (Bin BitAnd (Dot (V 1) ''m'') (K (JNum 15))) (K (JNum 9))))), Do (SetV 9 (Bin BitAnd (Bin Shr (Dot (V 1) ''m'') (K (JNum 4))) (K (JNum 8191)))), Do (SetV 10 (Bin BitOr (Bin Shr (Dot (V 1) ''m'') (K (JNum 17))) (Bin Shl (Bin BitAnd (Dot (V 1) ''h'') (K (JNum 255))) (K (JNum 5))))), Do (SetV 11 (Bin Shr (Bin BitAnd (Dot (V 1) ''h'') (K (JNum 1048320))) (K (JNum 8)))), Do (SetV 24 (Bin Times (V 2) (V 7))), Do (SetV 25 (Bin Times (V 3) (V 7))), Do (SetV 26 (Bin Times (V 4) (V 7))), Do (SetV 27 (Bin Times (V 5) (V 7))), Do (SetV 28 (Bin Times (V 6) (V 7))), When (Neg (Loose (V 8) (K (JNum 0)))) [Do (SetV 25 (Bin Plus (V 25) (Bin Times (V 2) (V 8)))), Do (SetV 26 (Bin Plus (V 26) (Bin Times (V 3) (V 8)))), Do (SetV 27 (Bin Plus (V 27) (Bin Times (V 4) (V 8)))), Do (SetV 28 (Bin Plus (V 28) (Bin Times (V 5) (V 8))))] [], When (Neg (Loose (V 9) (K (JNum 0)))) [Do (SetV 26 (Bin Plus (V 26) (Bin Times (V 2) (V 9)))), Do (SetV 27 (Bin Plus (V 27) (Bin Times (V 3) (V 9)))), Do (SetV 28 (Bin Plus (V 28) (Bin Times (V 4) (V 9))))] [], When (Neg (Loose (V 10) (K (JNum 0)))) [Do (SetV 27 (Bin Plus (V 27) (Bin Times (V 2) (V 10)))), Do (SetV 28 (Bin Plus (V 28) (Bin Times (V 3) (V 10))))] [], Do (And (Neg (Loose (V 11) (K (JNum 0)))) (SetV 28 (Bin Plus (V 28) (Bin Times (V 2) (V 11))))), Do (SetV 13 (Bin BitAnd (V 24) (G ''rve''))), Do (SetV 14 (Bin Shl (Bin BitAnd (V 25) (K (JNum 511))) (K (JNum 13)))), Do (SetV 12 (Bin Plus (V 13) (V 14))), Do (SetV 16 (Bin Shr (V 24) (K (JNum 22)))), Do (SetV 17 (Bin Shr (V 25) (K (JNum 9)))), Do (SetV 18 (Bin Shl (Bin BitAnd (V 26) (K (JNum 262143))) (K (JNum 4)))), Do (SetV 19 (Bin Shl (Bin BitAnd (V 27) (K (JNum 31))) (K (JNum 17)))), Do (SetV 15 (Bin Plus (Bin Plus (Bin Plus (V 16) (V 17)) (V 18)) (V 19))), Do (SetV 21 (Bin Shr (V 26) (K (JNum 18)))), Do (SetV 22 (Bin Shr (V 27) (K (JNum 5)))), Do (SetV 23 (Bin Shl (Bin BitAnd (V 28) (K (JNum 4095))) (K (JNum 8)))), Do (SetV 20 (Bin Plus (Bin Plus (V 21) (V 22)) (V 23))), Do (SetV 15 (Bin Plus (V 15) (Bin Shr (V 12) (K (JNum 22))))), Do (SetV 12 (Bin BitAnd (V 12) (G ''rve''))), Do (SetV 20 (Bin Plus (V 20) (Bin Shr (V 15) (K (JNum 22))))), Do (SetV 15 (Bin BitAnd (V 15) (G ''rve''))), Do (SetV 20 (Bin BitAnd (V 20) (G ''sve''))), Ret (Call ''_C'' [V 12, V 15, V 20])]]"

definition code_6108_6108 :: "(string \<times> jfun) list" where
  "code_6108_6108 = [
    fn ''eyb'' 3 11 [When (Neg (Dot (V 0) ''b'')) [Ret (K (JBool False))] [], Do (SetV 6 (K JNull)), Do (SetV 12 (K JNull)), Do (SetV 8 (New ''Myb'' [K JNull, K JNull])), Do (SetV 4 (K (JNum 1))), Do (PutIdx (Dot (V 8) ''a'') (K (JNum 1)) (Dot (V 0) ''b'')), Do (SetV 11 (V 8)), Loop (Idx (Dot (V 11) ''a'') (V 4)) [Do (SetV 9 (V 4)), Do (SetV 7 (V 12)), Do (SetV 12 (V 11)), Do (SetV 11 (Idx (Dot (V 11) ''a'') (V 4))), Do (SetV 3 (Meth (Dot (V 0) ''a'') ''Le'' [V 1, Dot (V 11) ''d''])), Do (SetV 4 (Cond (Bin Lt (V 3) (K (JNum 0))) (K (JNum 0)) (K (JNum 1)))), Do (And (And (Loose (V 3) (K (JNum 0))) (Or (Neg (Dot (V 2) ''c'')) (Call ''Mub'' [Dot (V 11) ''e'', Dot (V 2) ''d'']))) (SetV 6 (V 11))), When (And (Neg (And (Neg (Neg (V 11))) (Dot (V 11) ''b''))) (Neg (Call ''ayb'' [Idx (Dot (V 11) ''a'') (V 4)]))) [When (Call ''ayb'' [Idx (Dot (V 11) ''a'') (Bin Minus (K (JNum 1)) (V 4))]) [Do (SetV 12 (PutIdx (Dot (V 12) ''a'') (V 9) (Call ''hyb'' [V 11, V 4])))] [When (Neg (Call ''ayb'' [Idx (Dot (V 11) ''a'') (Bin Minus (K (JNum 1)) (V 4))])) [Do (SetV 13 (Idx (Dot (V 12) ''a'') (Bin Minus (K (JNum 1)) (V 9)))), When (V 13) [When (And (Neg (Call ''ayb'' [Idx (Dot (V 13) ''a'') (Bin Minus (K (JNum 1)) (V 9))])) (Neg (Call ''ayb'' [Idx (Dot (V 13) ''a'') (V 9)]))) [Do (Put (V 12) ''b'' (K (JBool False))), Do (Put (V 13) ''b'' (K (JBool True))), Do (Put (V 11) ''b'' (K (JBool True)))] [Do (SetV 5 (Cond (Loose (Idx (Dot (V 7) ''a'') (K (JNum 1))) (V 12)) (K (JNum 1)) (K (JNum 0)))), Do (Cond (Call ''ayb'' [Idx (Dot (V 13) ''a'') (V 9)]) (PutIdx (Dot (V 7) ''a'') (V 5) (Call ''gyb'' [V 12, V 9])) (And (Call ''ayb'' [Idx (Dot (V 13) ''a'') (Bin Minus (K (JNum 1)) (V 9))]) (PutIdx (Dot (V 7) ''a'') (V 5) (Call ''hyb'' [V 12, V 9])))), Do (Put (V 11) ''b'' (Put (Idx (Dot (V 7) ''a'') (V 5)) ''b'' (K (JBool True)))), Do (Put (Idx (Dot (Idx (Dot (V 7) ''a'') (V 5)) ''a'') (K (JNum 0))) ''b'' (K (JBool False))), Do (Put (Idx (Dot (Idx (Dot (V 7) ''a'') (V 5)) ''a'') (K (JNum 1))) ''b'' (K (JBool False)))]] []] []]] []] [], When (V 6) [Do (Put (V 2) ''b'' (K (JBool True))), Do (Put (V 2) ''d'' (Dot (V 6) ''e'')), When (Neg (Loose (V 11) (V 6))) [Do (SetV 10 (New ''Myb'' [Dot (V 11) ''d'', Dot (V 11) ''e''])), Do (Call ''fyb'' [V 0, V 8, V 6, V 10]), Do (And (Loose (V 12) (V 6)) (SetV 12 (V 10)))] [], Do (PutIdx (Dot (V 12) ''a'') (Cond (Loose (Idx (Dot (V 12) ''a'') (K (JNum 1))) (V 11)) (K (JNum 1)) (K (JNum 0))) (Idx (Dot (V 11) ''a'') (Cond (Neg (Idx (Dot (V 11) ''a'') (K (JNum 0)))) (K (JNum 1)) (K (JNum 0))))), Do (Put (V 0) ''c'' (Bin Minus (Dot (V 0) ''c'') (K (JNum 1))))] [], Do (Put (V 0) ''b'' (Idx (Dot (V 8) ''a'') (K (JNum 1)))), Do (And (Neg (Neg (Dot (V 0) ''b''))) (Put (Dot (V 0) ''b'') ''b'' (K (JBool False)))), Ret (Dot (V 2) ''b'')]]"

definition object_table17 :: "(string \<times> jfun) list" where
  "object_table17 = code_4973_4989 @ code_4993_5000 @ code_5011_5011 @ code_5176_5176 @ code_5201_5201 @ code_5586_5586 @ code_6010_6010 @ code_6108_6108"

text \<open>The names each table declares.\<close>

lemma names_4973_4989 [js_names]: "map fst code_4973_4989 = [
    ''$Dd'', ''fUd'', ''t8d'', ''u8d'', ''Bib'', ''fKb'', ''nLb'', ''_hc'', ''Nad'', ''Kcd'',
    ''Ypd'', ''Bvd'', ''ZFd'', ''iUd'', ''ck'', ''Zy'', ''gJb'']"
  by (simp add: code_4973_4989_def fn_def)

lemma names_4993_5000 [js_names]: "map fst code_4993_5000 = [
    ''xKb'', ''e0c'', ''j3c'', ''tkd'', ''Ppd'', ''Wee'', ''svb'', ''XHb'']"
  by (simp add: code_4993_5000_def fn_def)

lemma names_5011_5011 [js_names]: "map fst code_5011_5011 = [
    ''fyb'']"
  by (simp add: code_5011_5011_def fn_def)

lemma names_5176_5176 [js_names]: "map fst code_5176_5176 = [
    ''fnb'']"
  by (simp add: code_5176_5176_def fn_def)

lemma names_5201_5201 [js_names]: "map fst code_5201_5201 = [
    ''rvb'']"
  by (simp add: code_5201_5201_def fn_def)

lemma names_5586_5586 [js_names]: "map fst code_5586_5586 = [
    ''_xb'']"
  by (simp add: code_5586_5586_def fn_def)

lemma names_6010_6010 [js_names]: "map fst code_6010_6010 = [
    ''oD'']"
  by (simp add: code_6010_6010_def fn_def)

lemma names_6108_6108 [js_names]: "map fst code_6108_6108 = [
    ''eyb'']"
  by (simp add: code_6108_6108_def fn_def)

end
