(* ===== verification/ObjectTable18.thy ===== *)
theory ObjectTable18
  imports ObjectCode
begin

text \<open>
  Functions of \<open>layout-worker.js\<close>, lines 5001 to 5175, in the order of the file, one per line:
  the algorithms of the layout engine, longer operations of the runtime's collections and of options,
  with their loops, \<open>switch\<close> and \<open>try\<close> statements. An entry has the name, the
  number of parameters, the number of further local variables and the body; parameters and locals
  are numbered from 0, the variable of a \<open>catch\<close> has a number of its own, \<open>x++\<close> is \<open>(x=x+1)-1\<close>. Lines
  with a construct outside \<open>jexp\<close> and \<open>jstm\<close> (closures, \<open>in\<close>, floating-point literals, host objects) are
  left out.
\<close>

definition code_5001_5010 :: "(string \<times> jfun) list" where
  "code_5001_5010 = [
    fn ''elc'' 2 6 [Do (SetV 4 (Dot (V 0) ''i'')), Do (SetV 5 (Dot (V 1) ''i'')), When (Or (Neg (V 4)) (Neg (V 5))) [Ret (K (JBool False))] [], When (Or (Or (Neg (Loose (Dot (V 4) ''i'') (Dot (V 5) ''i''))) (Loose (Dot (V 4) ''i'') (Seq (Call ''Bmd'' []) (G ''gmd'')))) (Loose (Dot (V 4) ''i'') (Seq (Call ''Bmd'' []) (G ''Amd'')))) [Ret (K (JBool False))] [], Do (SetV 6 (Dot (Dot (V 4) ''g'') ''a'')), Do (SetV 2 (Bin Plus (V 6) (Dot (Dot (V 4) ''j'') ''a''))), Do (SetV 7 (Dot (Dot (V 5) ''g'') ''a'')), Do (SetV 3 (Bin Plus (V 7) (Dot (Dot (V 5) ''j'') ''a''))), Ret (And (Bin Le (V 6) (V 3)) (Bin Ge (V 2) (V 7)))],
    fn ''v5c'' 1 0 [Switch (Dot (V 0) ''g'') [(Some (JNum 0), [Ret (New ''j5c'' [])]), (Some (JNum 1), [Ret (New ''p5c'' [])]), (None, [Raise (Call ''Lcb'' [New ''kfb'' [Bin Plus (K (JStr ''No implementation is available for the width approximator '')) (Cond (Neg (Loose (Dot (V 0) ''f'') (K JNull))) (Dot (V 0) ''f'') (Bin Plus (K (JStr '''')) (Dot (V 0) ''g'')))]])])]],
    fn ''NAd'' 4 1 [Do (SetV 4 (K (JBool False))), When (Call ''VD'' [V 3]) [Do (SetV 4 (K (JBool True))), Do (Call ''OAd'' [V 1, V 2, Call ''OD'' [V 3]])] [], When (Neg (V 4)) [When (Call ''SD'' [V 3]) [Do (SetV 4 (K (JBool True))), Do (Call ''NAd'' [V 0, V 1, V 2, V 3])] []] [], When (Neg (V 4)) [When (Call ''RD'' [V 3, K (JNum 242)]) [Do (SetV 4 (K (JBool True))), Do (Call ''MAd'' [V 1, V 2, Call ''JD'' [V 3, K (JNum 242)]])] []] [], When (Neg (V 4)) [Raise (Call ''Lcb'' [New ''Kdb'' [G ''EGe'']])] []],
    fn ''Hce'' 2 3 [Do (SetV 2 (Meth (V 1) ''ni'' [Dot (V 0) ''a''])), When (V 2) [Do (SetV 4 (Call ''pMd'' [Seq (And (Neg (Dot (V 2) ''b'')) (Put (V 2) ''b'' (New ''dUd'' [Seq (Call ''WRd'' []) (G ''SRd''), G ''N7'', V 2]))) (Dot (V 2) ''b''), G ''CIe''])), When (Neg (Loose (V 4) (K JNull))) [Do (SetV 3 (K (JNum 1))), Loop (Bin Lt (V 3) (Dot (Seq (Call ''yie'' []) (G ''uie'')) ''length'')) [When (Call ''vgb'' [Idx (G ''uie'') (V 3), V 4]) [Ret (V 3)] []] [Do (SetV 3 (Bin Minus (V 3) (K (JNum (- 1)))))]] []] [], Ret (K (JNum 0))],
    fn ''Ice'' 2 3 [Do (SetV 2 (Meth (V 1) ''ni'' [Dot (V 0) ''a''])), When (V 2) [Do (SetV 4 (Call ''pMd'' [Seq (And (Neg (Dot (V 2) ''b'')) (Put (V 2) ''b'' (New ''dUd'' [Seq (Call ''WRd'' []) (G ''SRd''), G ''N7'', V 2]))) (Dot (V 2) ''b''), G ''CIe''])), When (Neg (Loose (V 4) (K JNull))) [Do (SetV 3 (K (JNum 1))), Loop (Bin Lt (V 3) (Dot (Seq (Call ''yie'' []) (G ''vie'')) ''length'')) [When (Call ''vgb'' [Idx (G ''vie'') (V 3), V 4]) [Ret (V 3)] []] [Do (SetV 3 (Bin Minus (V 3) (K (JNum (- 1)))))]] []] [], Ret (K (JNum 0))],
    fn ''Te'' 2 4 [Do (Call ''NDb'' [V 1]), Do (SetV 5 (Meth (Dot (V 0) ''a'') ''gc'' [])), When (Bin Lt (V 5) (Meth (V 1) ''gc'' [])) [Do (SetV 2 (Meth (Meth (Dot (V 0) ''a'') ''ec'' []) ''Jc'' [])), Loop (Meth (V 2) ''Ob'' []) [Do (SetV 3 (Meth (V 2) ''Pb'' [])), Do (And (Meth (V 1) ''Gc'' [V 3]) (Meth (V 2) ''Qb'' []))] []] [Do (SetV 4 (Meth (V 1) ''Jc'' [])), Loop (Meth (V 4) ''Ob'' []) [Do (SetV 3 (Meth (V 4) ''Pb'' [])), Do (Neg (Loose (Meth (Dot (V 0) ''a'') ''Ac'' [V 3]) (K JNull)))] []], Ret (Neg (Loose (V 5) (Meth (Dot (V 0) ''a'') ''gc'' [])))],
    fn ''KUb'' 1 2 [Do (SetV 2 (Call ''Xfd'' [Call ''rgd'' [Call ''WC'' [Call ''OC'' [G ''r2'', K (JNum 1)], G ''aue'', K (JNum 8), K (JNum 0), NewArr [Dot (Dot (V 0) ''i'') ''n'', Dot (V 0) ''n'', Dot (V 0) ''a'']]]])), Do (SetV 1 (Dot (Dot (V 0) ''i'') ''d'')), Switch (Dot (Dot (V 0) ''j'') ''g'') [(Some (JNum 1), [Do (Put (V 2) ''b'' (Bin Minus (Dot (V 2) ''b'') (Dot (V 1) ''d''))), Break]), (Some (JNum 2), [Do (Put (V 2) ''a'' (Bin Plus (Dot (V 2) ''a'') (Dot (V 1) ''c''))), Break]), (Some (JNum 3), [Do (Put (V 2) ''b'' (Bin Plus (Dot (V 2) ''b'') (Dot (V 1) ''a''))), Break]), (Some (JNum 4), [Do (Put (V 2) ''a'' (Bin Minus (Dot (V 2) ''a'') (Dot (V 1) ''b'')))])], Ret (V 2)],
    fn ''U6b'' 1 1 [Do (SetV 1 (Seq (Call ''N6b'' []) (Dot (Dot (Call ''JD'' [Call ''Xr'' [New ''Yr'' [Call ''Dr'' [Meth (Dot (Call ''EYb'' [V 0]) ''a'') ''Jc'' [], New ''Dl'' []]]], K (JNum 17)]) ''c'') ''i''))), Loop (Loose (Dot (V 1) ''k'') (Seq (Call ''$Yb'' []) (G ''VYb''))) [Do (Call ''rNb'' [V 1, Seq (Call ''Wrc'' []) (G ''lrc''), Seq (Call ''Qdb'' []) (K (JBool True))]), Do (SetV 1 (Dot (Dot (Call ''JD'' [Call ''Xr'' [New ''Yr'' [Call ''Dr'' [Meth (Dot (Call ''EYb'' [V 1]) ''a'') ''Jc'' [], New ''Dl'' []]]], K (JNum 17)]) ''c'') ''i''))] []],
    fn ''kJc'' 4 4 [Do (SetV 7 (Call ''LIc'' [V 1, V 3])), Do (SetV 6 (Meth (V 7) ''Jc'' [])), Loop (Meth (V 6) ''Ob'' []) [Do (SetV 4 (Call ''JD'' [Meth (V 6) ''Pb'' [], K (JNum 12)])), Do (PutIdx (Dot (V 0) ''d'') (Dot (V 4) ''p'') (Bin Plus (Idx (Dot (V 0) ''d'') (Dot (V 4) ''p'')) (Idx (Dot (V 0) ''c'') (Dot (V 2) ''p''))))] [], Do (SetV 7 (Call ''LIc'' [V 2, V 3])), Do (SetV 5 (Meth (V 7) ''Jc'' [])), Loop (Meth (V 5) ''Ob'' []) [Do (SetV 4 (Call ''JD'' [Meth (V 5) ''Pb'' [], K (JNum 12)])), Do (PutIdx (Dot (V 0) ''d'') (Dot (V 4) ''p'') (Bin Minus (Idx (Dot (V 0) ''d'') (Dot (V 4) ''p'')) (Idx (Dot (V 0) ''c'') (Dot (V 1) ''p''))))] []],
    fn ''iqd'' 3 2 [Do (SetV 4 (New ''uKd'' [Seq (And (Neg (Dot (V 0) ''a'')) (Put (V 0) ''a'' (New ''P3d'' [G ''T3'', V 0, K (JNum 10), K (JNum 11)]))) (Dot (V 0) ''a'')])), Loop (Neg (Loose (Dot (V 4) ''e'') (Meth (Dot (V 4) ''i'') ''gc'' []))) [Do (SetV 3 (Call ''JD'' [Call ''sKd'' [V 4], K (JNum 26)])), Do (Call ''Zvd'' [V 3, Bin Plus (Dot (V 3) ''i'') (V 1), Bin Plus (Dot (V 3) ''j'') (V 2)])] [], Do (Call ''Hfb'' [Seq (And (Neg (Dot (V 0) ''b'')) (Put (V 0) ''b'' (New ''P3d'' [G ''Q3'', V 0, K (JNum 12), K (JNum 3)]))) (Dot (V 0) ''b''), New ''oqd'' [V 1, V 2]])]]"

definition code_5012_5043 :: "(string \<times> jfun) list" where
  "code_5012_5043 = [
    fn ''dGb'' 1 4 [Do (SetV 1 (New ''lmb'' [])), Do (SetV 2 (Call ''SC'' [G ''Icb'', G ''Nwe'', K (JNum 30), Dot (Dot (Dot (V 0) ''a'') ''c'') ''length'', K (JNum 16), K (JNum 1)])), Do (Call ''anb'' [V 2, Dot (V 2) ''length'']), Do (SetV 4 (New ''Kmb'' [Dot (V 0) ''a''])), Loop (Bin Lt (Dot (V 4) ''a'') (Dot (Dot (Dot (V 4) ''c'') ''c'') ''length'')) [Do (SetV 3 (Call ''JD'' [Call ''Imb'' [V 4], K (JNum 124)])), When (Neg (Idx (V 2) (Dot (V 3) ''d''))) [Do (Call ''qDb'' [Dot (V 1) ''c'', V 3]), Do (Call ''cGb'' [V 0, V 3, V 2])] []] [], Ret (V 1)],
    fn ''yRb'' 2 5 [Do (SetV 4 (Cond (Loose (V 1) (K (JNum 1))) (G ''qRb'') (G ''pRb''))), Do (SetV 3 (Meth (Meth (Dot (V 4) ''a'') ''ec'' []) ''Jc'' [])), Loop (Meth (V 3) ''Ob'' []) [Do (SetV 2 (Call ''JD'' [Meth (V 3) ''Pb'' [], K (JNum 86)])), Do (SetV 6 (Meth (Call ''JD'' [Call ''Qc'' [Dot (Dot (V 0) ''f'') ''c'', V 2], K (JNum 22)]) ''Jc'' [])), Loop (Meth (V 6) ''Ob'' []) [Do (SetV 5 (Call ''JD'' [Meth (V 6) ''Pb'' [], K (JNum 49)])), Do (Call ''gmb'' [Dot (Dot (V 0) ''b'') ''b'', Dot (V 5) ''b'']), Do (Call ''gmb'' [Dot (Dot (V 0) ''b'') ''a'', Dot (Call ''JD'' [Dot (V 5) ''b'', K (JNum 82)]) ''d''])] []] []],
    fn ''B3b'' 2 1 [Do (Meth (V 1) ''Tg'' [K (JStr ''Hierarchical port position processing''), K (JNum 1)]), Do (SetV 2 (Dot (V 0) ''b'')), Do (And (Bin Gt (Dot (Dot (V 2) ''c'') ''length'') (K (JNum 0))) (Call ''A3b'' [Seq (Call ''MDb'' [K (JNum 0), Dot (Dot (V 2) ''c'') ''length'']) (Call ''JD'' [Idx (Dot (V 2) ''c'') (K (JNum 0)), K (JNum 25)]), V 0])), Do (And (Bin Gt (Dot (Dot (V 2) ''c'') ''length'') (K (JNum 1))) (Call ''A3b'' [Call ''JD'' [Call ''dmb'' [V 2, Bin Minus (Dot (Dot (V 2) ''c'') ''length'') (K (JNum 1))], K (JNum 25)], V 0])), Do (Meth (V 1) ''Ug'' [])],
    fn ''bmd'' 1 2 [Do (Call ''$ld'' []), Do (SetV 1 (Call ''Grb'' [G ''Wld'', Call ''WC'' [Call ''OC'' [G ''L2'', K (JNum 1)], G ''xue'', K (JNum 280), K (JNum 0), NewArr [G ''Yld'']]])), When (Bin Gt (Call ''_x'' [Call ''Px'' [V 1, V 0]]) (K (JNum 1))) [Ret (K (JBool False))] [], Do (SetV 2 (Call ''Grb'' [G ''Vld'', Call ''WC'' [Call ''OC'' [G ''L2'', K (JNum 1)], G ''xue'', K (JNum 280), K (JNum 0), NewArr [G ''Uld'', G ''Zld'']]])), When (Bin Gt (Call ''_x'' [Call ''Px'' [V 2, V 0]]) (K (JNum 1))) [Ret (K (JBool False))] [], Ret (K (JBool True))],
    fn ''_yd'' 2 1 [Do (SetV 2 (Call ''fjb'' [Seq (Call ''jRd'' []) (G ''iRd''), V 0])), Do (Cond (Call ''RD'' [V 2, K (JNum 493)]) (Call ''ijb'' [G ''iRd'', V 0, New ''O3d'' [This, V 1]]) (Call ''ijb'' [G ''iRd'', V 0, This])), Do (Call ''Xyd'' [This, V 1]), When (Loose (V 1) (Seq (Call ''wRd'' []) (G ''vRd''))) [Do (Put This ''wb'' (Call ''JD'' [This, K (JNum 2003)])), Do (Call ''JD'' [V 1, K (JNum 2005)])] [Do (Put This ''wb'' (Seq (Call ''yRd'' []) (G ''xRd'')))]],
    fn ''Y8d'' 1 4 [When (Loose (V 0) (K JNull)) [Ret (K JNull)] [], Do (SetV 1 (K JNull)), Do (SetV 2 (K (JNum 0))), Loop (Bin Lt (V 2) (Dot (G ''Jxd'') ''length'')) [Try [Ret (Call ''o0d'' [Idx (G ''Jxd'') (V 2), V 0])] 4 [Do (SetV 4 (Call ''Kcb'' [V 4])), When (Call ''RD'' [V 4, K (JNum 32)]) [Do (SetV 3 (V 4)), Do (SetV 1 (V 3))] [Raise (Call ''Lcb'' [V 4])]]] [Do (SetV 2 (Bin Minus (V 2) (K (JNum (- 1)))))], Raise (Call ''Lcb'' [New ''cRd'' [V 1]])],
    fn ''Uqb'' 0 0 [Do (SetG ''Uqb'' (G ''qdb'')), Do (SetG ''Sqb'' (Call ''WC'' [Call ''OC'' [G ''hJ'', K (JNum 1)], G ''aue'', K (JNum 2), K (JNum 6), NewArr [K (JStr ''Sun''), K (JStr ''Mon''), K (JStr ''Tue''), K (JStr ''Wed''), K (JStr ''Thu''), K (JStr ''Fri''), K (JStr ''Sat'')]])), Do (SetG ''Tqb'' (Call ''WC'' [Call ''OC'' [G ''hJ'', K (JNum 1)], G ''aue'', K (JNum 2), K (JNum 6), NewArr [K (JStr ''Jan''), K (JStr ''Feb''), K (JStr ''Mar''), K (JStr ''Apr''), G ''Uue'', K (JStr ''Jun''), K (JStr ''Jul''), K (JStr ''Aug''), K (JStr ''Sep''), K (JStr ''Oct''), K (JStr ''Nov''), K (JStr ''Dec'')]]))],
    fn ''oNb'' 2 2 [Do (SetV 3 (Seq (And (Neg (Dot (V 0) ''q'')) (Put (V 0) ''q'' (New ''_rb'' []))) (Call ''ejb'' [Dot (V 0) ''q'', V 1]))), When (Neg (Loose (V 3) (K JNull))) [Ret (V 3)] [], Do (SetV 2 (Meth (V 1) ''Rg'' [])), Do (And (Call ''RD'' [V 2, K (JNum 4)]) (Seq (Cond (Loose (V 2) (K JNull)) (Seq (And (Neg (Dot (V 0) ''q'')) (Put (V 0) ''q'' (New ''_rb'' []))) (Call ''jjb'' [Dot (V 0) ''q'', V 1])) (Seq (And (Neg (Dot (V 0) ''q'')) (Put (V 0) ''q'' (New ''_rb'' []))) (Call ''hjb'' [Dot (V 0) ''q'', V 1, V 2]))) (V 0))), Ret (V 2)],
    fn ''YQb'' 0 0 [Do (SetG ''YQb'' (G ''qdb'')), Do (SetG ''TQb'' (New ''ZQb'' [K (JStr ''P1_CYCLE_BREAKING''), K (JNum 0)])), Do (SetG ''UQb'' (New ''ZQb'' [K (JStr ''P2_LAYERING''), K (JNum 1)])), Do (SetG ''VQb'' (New ''ZQb'' [K (JStr ''P3_NODE_ORDERING''), K (JNum 2)])), Do (SetG ''WQb'' (New ''ZQb'' [K (JStr ''P4_NODE_PLACEMENT''), K (JNum 3)])), Do (SetG ''XQb'' (New ''ZQb'' [K (JStr ''P5_EDGE_ROUTING''), K (JNum 4)]))],
    fn ''oTb'' 2 1 [Do (Call ''gTb'' []), When (Loose (Dot (V 0) ''c'') (Dot (V 1) ''c'')) [When (Or (Loose (Dot (V 0) ''b'') (Dot (V 1) ''b'')) (Call ''XSb'' [Dot (V 0) ''b'', Dot (V 1) ''b''])) [Do (SetV 2 (Cond (Call ''USb'' [Dot (V 0) ''b'']) (K (JNum 1)) (K (JNum (- 1))))), When (And (Dot (V 0) ''a'') (Neg (Dot (V 1) ''a''))) [Ret (V 2)] [When (And (Neg (Dot (V 0) ''a'')) (Dot (V 1) ''a'')) [Ret (Minus1 (V 2))] []]] [], Ret (Call ''rfb'' [Dot (Dot (V 0) ''b'') ''g'', Dot (Dot (V 1) ''b'') ''g''])] [Ret (Call ''$eb'' [Dot (V 0) ''c'', Dot (V 1) ''c''])]],
    fn ''gGc'' 4 5 [Do (SetV 6 (Call ''SIc'' [Dot (V 0) ''a'', V 1, V 2])), Do (SetV 7 (Dot (Call ''JD'' [Dot (V 6) ''a'', K (JNum 15)]) ''a'')), Do (SetV 5 (Dot (Call ''JD'' [Dot (V 6) ''b'', K (JNum 15)]) ''a'')), When (V 3) [Do (SetV 8 (Call ''JD'' [Call ''oNb'' [V 1, Seq (Call ''Wrc'' []) (G ''Crc'')], K (JNum 9)])), Do (SetV 4 (Call ''JD'' [Call ''oNb'' [V 2, G ''Crc''], K (JNum 9)])), When (And (Neg (Neg (V 8))) (Neg (Neg (V 4)))) [Do (Call ''bgc'' [Dot (V 0) ''b'', V 8, V 4]), Do (SetV 7 (Bin Plus (V 7) (Dot (Dot (V 0) ''b'') ''i''))), Do (SetV 5 (Bin Plus (V 5) (Dot (Dot (V 0) ''b'') ''e'')))] []] [], Ret (Bin Gt (V 7) (V 5))],
    fn ''n0c'' 2 3 [When (Call ''$_c'' [V 0, V 1]) [Ret (K (JBool True))] [], Do (SetV 3 (New ''Kmb'' [V 1])), Loop (Bin Lt (Dot (V 3) ''a'') (Dot (Dot (Dot (V 3) ''c'') ''c'') ''length'')) [Do (SetV 2 (Call ''JD'' [Call ''Imb'' [V 3], K (JNum 26)])), Do (SetV 4 (Call ''A_c'' [V 2])), When (Call ''Z_c'' [V 0, V 2, V 4]) [Ret (K (JBool True))] [], When (Bin Le (Bin Minus (Call ''l0c'' [V 0, V 2]) (Dot (V 0) ''g'')) (Dot (V 0) ''a'')) [Ret (K (JBool True))] []] [], Ret (K (JBool False))],
    fn ''j9c'' 0 0 [Do (SetG ''j9c'' (G ''qdb'')), Do (SetG ''i9c'' (Seq (Call ''G9c'' []) (G ''F9c''))), Do (SetG ''f9c'' (G ''B9c'')), Do (SetG ''e9c'' (G ''z9c'')), Do (SetG ''c9c'' (G ''v9c'')), Do (SetG ''d9c'' (G ''x9c'')), Do (SetG ''b9c'' (New ''hZb'' [K (JNum 8)])), Do (SetG ''a9c'' (New ''FEd'' [Seq (Call ''vjd'' []) (G ''rid''), G ''b9c''])), Do (SetG ''g9c'' (New ''FEd'' [G ''djd'', K (JNum 8)])), Do (SetG ''h9c'' (G ''D9c'')), Do (SetG ''Z8c'' (G ''q9c'')), Do (SetG ''$8c'' (G ''s9c'')), Do (SetG ''_8c'' (New ''FEd'' [G ''Ghd'', Seq (Call ''Qdb'' []) (K (JBool False))]))],
    fn ''bhd'' 0 0 [Do (SetG ''bhd'' (G ''qdb'')), Do (SetG ''$gd'' (New ''hZb'' [K (JNum 15)])), Do (SetG ''Zgd'' (New ''FEd'' [Seq (Call ''vjd'' []) (G ''rid''), G ''$gd''])), Do (SetG ''ahd'' (New ''FEd'' [G ''djd'', K (JNum 15)])), Do (SetG ''_gd'' (New ''FEd'' [G ''Pid'', Call ''Cfb'' [K (JNum 0)]])), Do (SetG ''Ugd'' (G ''Qhd'')), Do (SetG ''Wgd'' (G ''iid'')), Do (SetG ''Ygd'' (G ''nid'')), Do (SetG ''Rgd'' (New ''FEd'' [G ''xhd'', G ''OEe''])), Do (SetG ''Vgd'' (G ''Whd'')), Do (SetG ''Xgd'' (G ''lid'')), Do (SetG ''Sgd'' (G ''zhd'')), Do (SetG ''Tgd'' (G ''Ehd''))],
    fn ''eCd'' 2 0 [When (Call ''RD'' [V 1, K (JNum 206)]) [Ret (Call ''gBd'' [V 0, Call ''JD'' [V 1, K (JNum 26)]])] [When (Call ''RD'' [V 1, K (JNum 193)]) [Ret (Call ''hBd'' [V 0, Call ''JD'' [V 1, K (JNum 125)]])] [When (V 1) [Ret (K JNull)] [Raise (Call ''Lcb'' [New ''kfb'' [Bin Plus (G ''HGe'') (Call ''Ee'' [New ''wnb'' [Call ''WC'' [Call ''OC'' [G ''aJ'', K (JNum 1)], G ''Gte'', K (JNum 1), K (JNum 5), NewArr [V 1]]]])]])]]]],
    fn ''fCd'' 2 0 [When (Call ''RD'' [V 1, K (JNum 362)]) [Ret (Call ''jBd'' [V 0, Call ''JD'' [V 1, K (JNum 157)]])] [When (Call ''RD'' [V 1, K (JNum 271)]) [Ret (Call ''iBd'' [V 0, Call ''JD'' [V 1, K (JNum 85)]])] [When (V 1) [Ret (K JNull)] [Raise (Call ''Lcb'' [New ''kfb'' [Bin Plus (G ''HGe'') (Call ''Ee'' [New ''wnb'' [Call ''WC'' [Call ''OC'' [G ''aJ'', K (JNum 1)], G ''Gte'', K (JNum 1), K (JNum 5), NewArr [V 1]]]])]])]]]],
    fn ''aFd'' 1 0 [When (Or (Neg (Loose (Dot (Seq (And (Neg (Dot (V 0) ''b'')) (Put (V 0) ''b'' (New ''jhe'' [G ''O3'', V 0, K (JNum 4), K (JNum 7)]))) (Dot (V 0) ''b'')) ''i'') (K (JNum 1)))) (Neg (Loose (Dot (Seq (And (Neg (Dot (V 0) ''c'')) (Put (V 0) ''c'' (New ''jhe'' [G ''O3'', V 0, K (JNum 5), K (JNum 8)]))) (Dot (V 0) ''c'')) ''i'') (K (JNum 1))))) [Raise (Call ''Lcb'' [New ''kfb'' [G ''UGe'']])] [], Ret (Call ''TEd'' [Call ''JD'' [Call ''fGd'' [Seq (And (Neg (Dot (V 0) ''b'')) (Put (V 0) ''b'' (New ''jhe'' [G ''O3'', V 0, K (JNum 4), K (JNum 7)]))) (Dot (V 0) ''b''), K (JNum 0)], K (JNum 84)]])],
    fn ''bFd'' 1 0 [When (Or (Neg (Loose (Dot (Seq (And (Neg (Dot (V 0) ''b'')) (Put (V 0) ''b'' (New ''jhe'' [G ''O3'', V 0, K (JNum 4), K (JNum 7)]))) (Dot (V 0) ''b'')) ''i'') (K (JNum 1)))) (Neg (Loose (Dot (Seq (And (Neg (Dot (V 0) ''c'')) (Put (V 0) ''c'' (New ''jhe'' [G ''O3'', V 0, K (JNum 5), K (JNum 8)]))) (Dot (V 0) ''c'')) ''i'') (K (JNum 1))))) [Raise (Call ''Lcb'' [New ''kfb'' [G ''UGe'']])] [], Ret (Call ''TEd'' [Call ''JD'' [Call ''fGd'' [Seq (And (Neg (Dot (V 0) ''c'')) (Put (V 0) ''c'' (New ''jhe'' [G ''O3'', V 0, K (JNum 5), K (JNum 8)]))) (Dot (V 0) ''c''), K (JNum 0)], K (JNum 84)]])],
    fn ''sHd'' 3 3 [Do (Put (V 0) ''j'' (Bin Minus (Dot (V 0) ''j'') (K (JNum (- 1))))), Do (SetV 4 (Meth (V 0) ''Cj'' [])), When (Or (Bin Ge (V 1) (V 4)) (Bin Lt (V 1) (K (JNum 0)))) [Raise (Call ''Lcb'' [New ''Fdb'' [Bin Plus (Bin Plus (Bin Plus (G ''XGe'') (V 1)) (G ''YGe'')) (V 4)]])] [], When (Or (Bin Ge (V 2) (V 4)) (Bin Lt (V 2) (K (JNum 0)))) [Raise (Call ''Lcb'' [New ''Fdb'' [Bin Plus (Bin Plus (Bin Plus (G ''ZGe'') (V 2)) (G ''YGe'')) (V 4)]])] [], Do (Cond (Neg (Loose (V 1) (V 2))) (SetV 3 (Seq (Seq (SetV 5 (Meth (V 0) ''Aj'' [V 2])) (Meth (V 0) ''oj'' [V 1, V 5])) (V 5))) (SetV 3 (Meth (V 0) ''vj'' [V 2]))), Ret (V 3)],
    fn ''Yhe'' 1 3 [Do (SetV 3 (V 0)), When (V 0) [Do (SetV 1 (K (JNum 0))), Do (SetV 2 (Meth (V 0) ''Bh'' [])), Loop (V 2) [When (Bin Gt (SetV 1 (Bin Minus (V 1) (K (JNum (- 1))))) (G ''Kve'')) [Ret (Call ''Yhe'' [V 2])] [], Do (SetV 3 (V 2)), When (Loose (V 2) (V 0)) [Raise (Call ''Lcb'' [New ''nfb'' [Bin Plus (K (JStr ''There is a cycle in the containment hierarchy of '')) (V 0)]])] []] [Do (SetV 2 (Meth (V 2) ''Bh'' []))]] [], Ret (V 3)],
    fn ''Ee'' 1 3 [Do (SetV 3 (New ''Qxb'' [G ''Ete'', K (JStr ''[''), K (JStr '']'')])), Do (SetV 2 (Meth (V 0) ''Jc'' [])), Loop (Meth (V 2) ''Ob'' []) [Do (SetV 1 (Meth (V 2) ''Pb'' [])), Do (Call ''Nxb'' [V 3, Cond (Same (Call ''XD'' [V 1]) (Call ''XD'' [V 0])) (K (JStr ''(this Collection)'')) (Cond (Loose (V 1) (K JNull)) (G ''Kte'') (Call ''tdb'' [V 1]))])] [], Ret (Cond (Neg (Dot (V 3) ''a'')) (Dot (V 3) ''c'') (Cond (Loose (Dot (Dot (V 3) ''e'') ''length'') (K (JNum 0))) (Dot (Dot (V 3) ''a'') ''a'') (Bin Plus (Dot (Dot (V 3) ''a'') ''a'') (Bin Plus (K (JStr '''')) (Dot (V 3) ''e'')))))],
    fn ''$_c'' 2 2 [Do (SetV 3 (K (JBool False))), When (Bin Lt (Meth (V 1) ''gc'' []) (K (JNum 2))) [Ret (K (JBool False))] [], Do (SetV 2 (K (JNum 0))), Loop (Bin Lt (V 2) (Meth (V 1) ''gc'' [])) [Do (Cond (Bin Lt (V 2) (Bin Minus (Meth (V 1) ''gc'' []) (K (JNum 1)))) (SetV 3 (Bin BitOr (V 3) (Call ''Z_c'' [V 0, Call ''JD'' [Meth (V 1) ''Xb'' [V 2], K (JNum 26)], Call ''JD'' [Meth (V 1) ''Xb'' [Bin Plus (V 2) (K (JNum 1))], K (JNum 26)]]))) (SetV 3 (Bin BitOr (V 3) (Call ''Z_c'' [V 0, Call ''JD'' [Meth (V 1) ''Xb'' [V 2], K (JNum 26)], Call ''JD'' [Meth (V 1) ''Xb'' [K (JNum 0)], K (JNum 26)]]))))] [Do (Bin Minus (SetV 2 (Bin Minus (V 2) (K (JNum (- 1))))) (K (JNum 1)))], Ret (V 3)],
    fn ''Sxd'' 2 1 [When (Neg (Loose (V 1) (Dot (V 0) ''a''))) [Do (SetV 2 (K JNull)), Do (And (Neg (Neg (Dot (V 0) ''a''))) (SetV 2 (Meth (Call ''JD'' [Dot (V 0) ''a'', K (JNum 52)]) ''Qh'' [V 0, K (JNum 4), G ''E6'', V 2]))), Do (And (Neg (Neg (V 1))) (SetV 2 (Meth (Call ''JD'' [V 1, K (JNum 52)]) ''Oh'' [V 0, K (JNum 4), G ''E6'', V 2]))), Do (SetV 2 (Call ''Nxd'' [V 0, V 1, V 2])), Do (And (Neg (Neg (V 2))) (Meth (V 2) ''mj'' []))] [Do (And (And (Neg (Loose (Bin BitAnd (Dot (V 0) ''Db'') (K (JNum 4))) (K (JNum 0)))) (Loose (Bin BitAnd (Dot (V 0) ''Db'') (K (JNum 1))) (K (JNum 0)))) (Call ''Osd'' [V 0, New ''$1d'' [V 0, K (JNum 1), K (JNum 1), V 1, V 1]]))]],
    fn ''C0d'' 2 1 [When (Neg (Loose (V 1) (Dot (V 0) ''e''))) [Do (And (Neg (Neg (Dot (V 0) ''e''))) (Call ''B8d'' [Call ''l8d'' [Dot (V 0) ''e''], V 0])), Do (And (Neg (Neg (V 1))) (Seq (And (Neg (Dot (V 1) ''b'')) (Put (V 1) ''b'' (New ''C8d'' [New ''y8d'' []]))) (Call ''A8d'' [Dot (V 1) ''b'', V 0]))), Do (SetV 2 (Call ''s0d'' [V 0, V 1, K JNull])), Do (And (Neg (Neg (V 2))) (Meth (V 2) ''mj'' []))] [Do (And (And (Neg (Loose (Bin BitAnd (Dot (V 0) ''Db'') (K (JNum 4))) (K (JNum 0)))) (Loose (Bin BitAnd (Dot (V 0) ''Db'') (K (JNum 1))) (K (JNum 0)))) (Call ''Osd'' [V 0, New ''$1d'' [V 0, K (JNum 1), K (JNum 4), V 1, V 1]]))]],
    fn ''OXb'' 1 4 [When (Call ''Fjd'' [Call ''JD'' [Call ''oNb'' [Dot (V 0) ''b'', Seq (Call ''nyc'' []) (G ''bwc'')], K (JNum 86)]]) [Ret (K (JNum 0))] [], Do (SetV 1 (K (JNum 0))), Do (SetV 3 (New ''Kmb'' [Dot (V 0) ''a''])), Loop (Bin Lt (Dot (V 3) ''a'') (Dot (Dot (Dot (V 3) ''c'') ''c'') ''length'')) [Do (SetV 2 (Call ''JD'' [Call ''Imb'' [V 3], K (JNum 9)])), When (Loose (Dot (V 2) ''k'') (Seq (Call ''$Yb'' []) (G ''XYb''))) [Do (SetV 4 (Dot (Dot (V 2) ''o'') ''a'')), Do (SetV 1 (Meth (Dot (G ''$wnd'') ''Math'') ''max'' [V 1, V 4]))] []] [], Ret (V 1)],
    fn ''jhc'' 2 1 [Do (SetV 2 (Dot (V 1) ''o'')), When (Call ''Ejd'' [Dot (V 0) ''f'']) [Do (Put (Dot (V 0) ''j'') ''a'' (Meth (Dot (G ''$wnd'') ''Math'') ''max'' [Dot (Dot (V 0) ''j'') ''a'', Dot (V 2) ''a''])), Do (Put (Dot (V 0) ''j'') ''b'' (Bin Plus (Dot (Dot (V 0) ''j'') ''b'') (Dot (V 2) ''b''))), Do (And (Bin Gt (Dot (Dot (Dot (V 0) ''d'') ''c'') ''length'') (K (JNum 1))) (Put (Dot (V 0) ''j'') ''b'' (Bin Plus (Dot (Dot (V 0) ''j'') ''b'') (Dot (V 0) ''e''))))] [Do (Put (Dot (V 0) ''j'') ''a'' (Bin Plus (Dot (Dot (V 0) ''j'') ''a'') (Dot (V 2) ''a''))), Do (Put (Dot (V 0) ''j'') ''b'' (Meth (Dot (G ''$wnd'') ''Math'') ''max'' [Dot (Dot (V 0) ''j'') ''b'', Dot (V 2) ''b''])), Do (And (Bin Gt (Dot (Dot (Dot (V 0) ''d'') ''c'') ''length'') (K (JNum 1))) (Put (Dot (V 0) ''j'') ''a'' (Bin Plus (Dot (Dot (V 0) ''j'') ''a'') (Dot (V 0) ''e''))))]],
    fn ''Yhc'' 0 0 [Do (SetG ''Yhc'' (G ''qdb'')), Do (SetG ''Vhc'' (Call ''WC'' [Call ''OC'' [G ''M2'', K (JNum 1)], G ''sye'', K (JNum 64), K (JNum 0), NewArr [Seq (Call ''Bmd'' []) (G ''hmd''), G ''gmd'', G ''ymd'']])), Do (SetG ''Uhc'' (Call ''WC'' [Call ''OC'' [G ''M2'', K (JNum 1)], G ''sye'', K (JNum 64), K (JNum 0), NewArr [G ''gmd'', G ''ymd'', G ''Amd'']])), Do (SetG ''Whc'' (Call ''WC'' [Call ''OC'' [G ''M2'', K (JNum 1)], G ''sye'', K (JNum 64), K (JNum 0), NewArr [G ''ymd'', G ''Amd'', G ''hmd'']])), Do (SetG ''Xhc'' (Call ''WC'' [Call ''OC'' [G ''M2'', K (JNum 1)], G ''sye'', K (JNum 64), K (JNum 0), NewArr [G ''Amd'', G ''hmd'', G ''gmd'']]))],
    fn ''xIc'' 1 9 [Do (Put This ''a'' (Call ''uIc'' [V 0])), Do (Put This ''b'' (New ''lmb'' [])), Do (Seq (Seq (SetV 2 (V 0)) (SetV 3 (K (JNum 0)))) (SetV 4 (Dot (V 2) ''length''))), Loop (Bin Lt (V 3) (V 4)) [Do (SetV 1 (Idx (V 2) (V 3))), Do (SetV 5 (New ''lmb'' [])), Do (Call ''_lb'' [Dot This ''b'', V 5]), Do (Seq (Seq (SetV 7 (V 1)) (SetV 8 (K (JNum 0)))) (SetV 9 (Dot (V 7) ''length''))), Loop (Bin Lt (V 8) (V 9)) [Do (SetV 6 (Idx (V 7) (V 8))), Do (Call ''_lb'' [V 5, New ''nmb'' [Dot (V 6) ''j'']])] [Do (SetV 8 (Bin Minus (V 8) (K (JNum (- 1)))))]] [Do (SetV 3 (Bin Minus (V 3) (K (JNum (- 1)))))]],
    fn ''zIc'' 3 3 [Do (SetV 5 (K (JNum 0))), Do (SetV 3 (Idx (V 2) (V 1))), When (Bin Lt (V 1) (Bin Minus (Dot (V 2) ''length'') (K (JNum 1)))) [Do (SetV 4 (Idx (V 2) (Bin Plus (V 1) (K (JNum 1))))), When (Idx (Dot (V 0) ''b'') (V 1)) [Do (SetV 5 (Call ''TJc'' [Dot (V 0) ''d'', V 3, V 4])), Do (SetV 5 (Bin Plus (V 5) (Call ''WIc'' [Dot (V 0) ''a'', V 3, Seq (Call ''Bmd'' []) (G ''gmd'')]))), Do (SetV 5 (Bin Plus (V 5) (Call ''WIc'' [Dot (V 0) ''a'', V 4, G ''Amd''])))] [Do (SetV 5 (Call ''RIc'' [Dot (V 0) ''a'', V 3, V 4]))]] [], Do (And (Idx (Dot (V 0) ''c'') (V 1)) (SetV 5 (Bin Plus (V 5) (Call ''YIc'' [Dot (V 0) ''a'', V 3])))), Ret (V 5)],
    fn ''XVb'' 5 4 [Do (SetV 8 (K JNull)), Do (SetV 7 (New ''Kmb'' [V 3])), Loop (Bin Lt (Dot (V 7) ''a'') (Dot (Dot (Dot (V 7) ''c'') ''c'') ''length'')) [Do (SetV 6 (Call ''JD'' [Call ''Imb'' [V 7], K (JNum 444)])), When (And (Neg (Loose (V 6) (V 2))) (Neg (Loose (Call ''emb'' [Dot (V 6) ''e'', V 4, K (JNum 0)]) (K (JNum (- 1)))))) [Do (SetV 8 (V 6)), Break] []] [], Do (SetV 5 (Call ''YVb'' [V 4])), Do (Call ''CWb'' [V 5, Dot (V 2) ''b'']), Do (Call ''DWb'' [V 5, Dot (V 8) ''b'']), Do (Call ''Rc'' [Dot (V 0) ''a'', V 4, New ''nWb'' [V 5, V 1, Dot (V 2) ''f'']])],
    fn ''cgc'' 1 0 [Loop (And (Neg (Loose (Dot (Dot (V 0) ''g'') ''c'') (K (JNum 0)))) (Neg (Loose (Dot (Dot (V 0) ''d'') ''c'') (K (JNum 0))))) [When (Bin Gt (Dot (Call ''lgc'' [Dot (V 0) ''g'']) ''c'') (Dot (Call ''lgc'' [Dot (V 0) ''d'']) ''c'')) [Do (Put (V 0) ''i'' (Bin Plus (Dot (V 0) ''i'') (Dot (Dot (V 0) ''g'') ''c''))), Do (Call ''ngc'' [Dot (V 0) ''d''])] [When (Bin Gt (Dot (Call ''lgc'' [Dot (V 0) ''d'']) ''c'') (Dot (Call ''lgc'' [Dot (V 0) ''g'']) ''c'')) [Do (Put (V 0) ''e'' (Bin Plus (Dot (V 0) ''e'') (Dot (Dot (V 0) ''d'') ''c''))), Do (Call ''ngc'' [Dot (V 0) ''g''])] [Do (Put (V 0) ''i'' (Bin Plus (Dot (V 0) ''i'') (Call ''kgc'' [Dot (V 0) ''g'']))), Do (Put (V 0) ''e'' (Bin Plus (Dot (V 0) ''e'') (Call ''kgc'' [Dot (V 0) ''d'']))), Do (Call ''ngc'' [Dot (V 0) ''g'']), Do (Call ''ngc'' [Dot (V 0) ''d''])]]] []],
    fn ''eQc'' 3 4 [Do (SetV 5 (Dot (V 1) ''q'')), Do (SetV 6 (Dot (V 1) ''r'')), Do (New ''MPc'' [Seq (Call ''QPc'' []) (G ''OPc''), V 1, V 5, K (JNum 1)]), Do (New ''MPc'' [G ''OPc'', V 5, V 6, K (JNum 1)]), Do (SetV 4 (New ''Kmb'' [V 2])), Loop (Bin Lt (Dot (V 4) ''a'') (Dot (Dot (Dot (V 4) ''c'') ''c'') ''length'')) [Do (SetV 3 (Call ''JD'' [Call ''Imb'' [V 4], K (JNum 116)])), When (And (And (Neg (Loose (V 3) (V 5))) (Neg (Loose (V 3) (V 1)))) (Neg (Loose (V 3) (V 6)))) [Do (Call ''yQc'' [Dot (V 0) ''a'', V 3, V 1]), Do (Call ''yQc'' [Dot (V 0) ''a'', V 3, V 6])] []] []]]"

definition code_5045_5060 :: "(string \<times> jfun) list" where
  "code_5045_5060 = [
    fn ''iWc'' 1 4 [When (Neg (Loose (Dot (V 0) ''b'') (K (JNum 0)))) [Do (SetV 1 (New ''dub'' [])), Do (SetV 4 (Call ''Ztb'' [V 0, K (JNum 0)])), Loop (Neg (Loose (Dot (V 4) ''b'') (Dot (Dot (V 4) ''d'') ''c''))) [Do (SetV 3 (Call ''JD'' [Call ''lub'' [V 4], K (JNum 40)])), Do (Call ''xe'' [V 1, Call ''JTc'' [V 3]]), Do (SetV 2 (Dot (V 3) ''e'')), Do (Put (V 2) ''a'' (Dot (Call ''JD'' [Call ''oNb'' [V 3, Seq (Call ''_Wc'' []) (G ''ZWc'')], K (JNum 15)]) ''a'')), Do (Put (V 2) ''b'' (Dot (Call ''JD'' [Call ''oNb'' [V 3, G ''$Wc''], K (JNum 15)]) ''a''))] [], Ret (V 1)] [], Ret (New ''dub'' [])],
    fn ''f2b'' 1 0 [Switch (Dot (Call ''JD'' [Call ''oNb'' [V 0, Seq (Call ''nyc'' []) (G ''Ewc'')], K (JNum 165)]) ''g'') [(Some (JNum 1), [Do (Call ''rNb'' [V 0, G ''Ewc'', Seq (Call ''asc'' []) (G ''Zrc'')]), Break]), (Some (JNum 2), [Do (Call ''rNb'' [V 0, G ''Ewc'', Seq (Call ''asc'' []) (G ''$rc'')]), Break]), (Some (JNum 3), [Do (Call ''rNb'' [V 0, G ''Ewc'', Seq (Call ''asc'' []) (G ''Xrc'')]), Break]), (Some (JNum 4), [Do (Call ''rNb'' [V 0, G ''Ewc'', Seq (Call ''asc'' []) (G ''Yrc'')])])]],
    fn ''Wbc'' 3 1 [Do (Meth (V 2) ''Tg'' [K (JStr ''Self-Loop routing''), K (JNum 1)]), Do (SetV 3 (Call ''Xbc'' [V 1])), Do (Call ''ZD'' [Call ''oNb'' [V 1, Seq (Call ''ofd'' []) (G ''nfd'')]]), Do (Call ''YBb'' [Call ''ZBb'' [Call ''VBb'' [Call ''VBb'' [Call ''XBb'' [New ''jCb'' [K JNull, New ''Zvb'' [Dot (V 1) ''b'', K (JNum 16)]], New ''$bc'' []], New ''acc'' []], New ''ccc'' []], New ''ecc'' []], New ''gcc'' [V 0, V 3]]), Do (Meth (V 2) ''Ug'' [])],
    fn ''Hpc'' 0 0 [Do (SetG ''Hpc'' (G ''qdb'')), Do (SetG ''Fpc'' (New ''Ipc'' [G ''qye'', K (JNum 0)])), Do (SetG ''Cpc'' (New ''Ipc'' [G ''Twe'', K (JNum 1)])), Do (SetG ''Gpc'' (New ''Ipc'' [G ''Uwe'', K (JNum 2)])), Do (SetG ''Epc'' (New ''Ipc'' [K (JStr ''LEFT_RIGHT_CONSTRAINT_LOCKING''), K (JNum 3)])), Do (SetG ''Dpc'' (New ''Ipc'' [K (JStr ''LEFT_RIGHT_CONNECTION_LOCKING''), K (JNum 4)])), Do (SetG ''Bpc'' (New ''Ipc'' [G ''jze'', K (JNum 5)]))],
    fn ''cTc'' 3 7 [Do (SetV 7 (Bin Divide (Dot (V 2) ''a'') (K (JNum 2)))), Do (SetV 5 (Bin Divide (Dot (V 2) ''b'') (K (JNum 2)))), Do (SetV 3 (Meth (Dot (G ''$wnd'') ''Math'') ''abs'' [Bin Minus (Dot (V 1) ''a'') (Dot (V 0) ''a'')])), Do (SetV 4 (Meth (Dot (G ''$wnd'') ''Math'') ''abs'' [Bin Minus (Dot (V 1) ''b'') (Dot (V 0) ''b'')])), Do (SetV 8 (K (JNum 1))), Do (SetV 9 (K (JNum 1))), Do (And (Bin Gt (V 3) (V 7)) (SetV 8 (Bin Divide (V 7) (V 3)))), Do (And (Bin Gt (V 4) (V 5)) (SetV 9 (Bin Divide (V 5) (V 4)))), Do (SetV 6 (Meth (Dot (G ''$wnd'') ''Math'') ''min'' [V 8, V 9])), Do (Put (V 0) ''a'' (Bin Plus (Dot (V 0) ''a'') (Bin Times (V 6) (Bin Minus (Dot (V 1) ''a'') (Dot (V 0) ''a''))))), Do (Put (V 0) ''b'' (Bin Plus (Dot (V 0) ''b'') (Bin Times (V 6) (Bin Minus (Dot (V 1) ''b'') (Dot (V 0) ''b'')))))],
    fn ''D5c'' 5 2 [Do (SetV 6 (K (JBool False))), Do (SetV 5 (Call ''JD'' [Call ''dmb'' [Dot (V 2) ''b'', K (JNum 0)], K (JNum 26)])), Loop (Call ''Q5c'' [V 0, V 1, V 5, V 3, V 4]) [Do (SetV 6 (K (JBool True))), Do (Call ''P6c'' [V 2, V 5]), When (Loose (Dot (Dot (Dot (V 2) ''b'') ''c'') ''length'') (K (JNum 0))) [Break] [], Do (SetV 5 (Call ''JD'' [Call ''dmb'' [Dot (V 2) ''b'', K (JNum 0)], K (JNum 26)]))] [], Do (And (Loose (Dot (Dot (Dot (V 2) ''b'') ''c'') ''length'') (K (JNum 0))) (Call ''B7c'' [Dot (V 2) ''j'', V 2])), Do (And (V 6) (Call ''c7c'' [Dot (V 1) ''q''])), Ret (V 6)],
    fn ''Zud'' 4 2 [When (Loose (V 2) (K (JNum 0))) [Ret (Seq (And (Neg (Dot (V 0) ''o'')) (Put (V 0) ''o'' (New ''QTd'' [Seq (Call ''Nsd'' []) (G ''Ksd''), G ''f4'', V 0, K (JNum 0)]))) (Call ''OTd'' [Dot (V 0) ''o'', V 1, V 3]))] [], Ret (Seq (SetV 5 (Call ''JD'' [Call ''IWd'' [Seq (SetV 4 (Call ''JD'' [Call ''uud'' [V 0, K (JNum 16)], K (JNum 29)])) (Cond (Neg (V 4)) (Meth (V 0) ''fi'' []) (V 4)), V 2], K (JNum 69)])) (Meth (Meth (V 5) ''uk'' []) ''yk'' [V 0, Call ''sud'' [V 0], Bin Minus (V 2) (Call ''NWd'' [Meth (V 0) ''fi'' []]), V 1, V 3]))],
    fn ''Xyd'' 2 1 [When (Neg (Loose (V 1) (Dot (V 0) ''sb''))) [Do (SetV 2 (K JNull)), Do (And (Neg (Neg (Dot (V 0) ''sb''))) (SetV 2 (Meth (Call ''JD'' [Dot (V 0) ''sb'', K (JNum 52)]) ''Qh'' [V 0, K (JNum 1), G ''y6'', V 2]))), Do (And (Neg (Neg (V 1))) (SetV 2 (Meth (Call ''JD'' [V 1, K (JNum 52)]) ''Oh'' [V 0, K (JNum 1), G ''y6'', V 2]))), Do (SetV 2 (Call ''Dyd'' [V 0, V 1, V 2])), Do (And (Neg (Neg (V 2))) (Meth (V 2) ''mj'' []))] [Do (And (And (Neg (Loose (Bin BitAnd (Dot (V 0) ''Db'') (K (JNum 4))) (K (JNum 0)))) (Loose (Bin BitAnd (Dot (V 0) ''Db'') (K (JNum 1))) (K (JNum 0)))) (Call ''Osd'' [V 0, New ''$1d'' [V 0, K (JNum 1), K (JNum 4), V 1, V 1]]))]],
    fn ''EBd'' 2 4 [When (V 1) [Do (SetV 4 (Call ''RAd'' [V 1, K (JStr ''x'')])), Do (SetV 2 (New ''ZCd'' [V 0])), Do (Call ''bxd'' [Dot (V 2) ''a'', Seq (Call ''NDb'' [V 4]) (V 4)]), Do (SetV 5 (Call ''RAd'' [V 1, K (JStr ''y'')])), Do (SetV 3 (New ''_Cd'' [V 0])), Do (Call ''cxd'' [Dot (V 3) ''a'', Seq (Call ''NDb'' [V 5]) (V 5)])] [Raise (Call ''Lcb'' [New ''YAd'' [K (JStr ''All edge sections need an end point.'')]])]],
    fn ''CBd'' 2 4 [When (V 1) [Do (SetV 4 (Call ''RAd'' [V 1, K (JStr ''x'')])), Do (SetV 2 (New ''TCd'' [V 0])), Do (Call ''ixd'' [Dot (V 2) ''a'', Seq (Call ''NDb'' [V 4]) (V 4)]), Do (SetV 5 (Call ''RAd'' [V 1, K (JStr ''y'')])), Do (SetV 3 (New ''VCd'' [V 0])), Do (Call ''jxd'' [Dot (V 3) ''a'', Seq (Call ''NDb'' [V 5]) (V 5)])] [Raise (Call ''Lcb'' [New ''YAd'' [K (JStr ''All edge sections need a start point.'')]])]],
    fn ''pAb'' 2 7 [Do (Seq (Seq (SetV 3 (Call ''sAb'' [V 0])) (SetV 5 (K (JNum 0)))) (SetV 7 (Dot (V 3) ''length''))), Loop (Bin Lt (V 5) (V 7)) [Do (Call ''yAb'' [V 1])] [Do (SetV 5 (Bin Minus (V 5) (K (JNum (- 1)))))], Do (SetV 8 (Cond (And (Neg (G ''lAb'')) (Dot (V 0) ''e'')) (Cond (G ''lAb'') (K JNull) (Dot (V 0) ''d'')) (K JNull))), Loop (V 8) [Do (Seq (Seq (SetV 2 (Call ''sAb'' [V 8])) (SetV 4 (K (JNum 0)))) (SetV 6 (Dot (V 2) ''length''))), Loop (Bin Lt (V 4) (V 6)) [Do (Call ''yAb'' [V 1])] [Do (SetV 4 (Bin Minus (V 4) (K (JNum (- 1)))))], Do (SetV 8 (Cond (And (Neg (G ''lAb'')) (Dot (V 8) ''e'')) (Cond (G ''lAb'') (K JNull) (Dot (V 8) ''d'')) (K JNull)))] []],
    fn ''EQb'' 2 2 [Do (SetV 3 (Call ''JD'' [Call ''oNb'' [V 1, Seq (Call ''nyc'' []) (G ''qxc'')], K (JNum 102)])), Do (Call ''rNb'' [V 1, Seq (Call ''Wrc'' []) (G ''zrc''), V 3]), Do (SetV 2 (Dot (V 1) ''e'')), Do (And (Neg (Neg (V 2))) (Seq (Call ''YBb'' [New ''jCb'' [K JNull, New ''Zvb'' [Dot (V 2) ''a'', K (JNum 16)]], New ''JQb'' [V 0]]) (Call ''YBb'' [Call ''XBb'' [New ''jCb'' [K JNull, New ''Zvb'' [Dot (V 2) ''b'', K (JNum 16)]], New ''LQb'' []], New ''NQb'' [V 0]])))],
    fn ''j1b'' 1 4 [Do (SetV 1 (K (JBool False))), When (Call ''pNb'' [V 0, Seq (Call ''Wrc'' []) (G ''Vqc'')]) [Do (SetV 2 (Call ''JD'' [Call ''oNb'' [V 0, G ''Vqc''], K (JNum 92)])), Do (SetV 4 (New ''Kmb'' [Dot (V 0) ''j''])), Loop (Bin Lt (Dot (V 4) ''a'') (Dot (Dot (Dot (V 4) ''c'') ''c'') ''length'')) [Do (SetV 3 (Call ''JD'' [Call ''Imb'' [V 4], K (JNum 12)])), When (Call ''h1b'' [V 3]) [When (Neg (V 1)) [Do (Call ''g1b'' [Call ''DYb'' [V 0]]), Do (SetV 1 (K (JBool True)))] [], Do (Call ''k1b'' [Call ''JD'' [Meth (V 2) ''xc'' [V 3], K (JNum 319)]])] []] []] []],
    fn ''ZDd'' 1 9 [Do (SetV 9 (Call ''$Dd'' [V 0])), Do (SetV 2 (Dot (V 0) ''e'')), Do (SetV 5 (Neg (Loose (V 2) (K JNull)))), Do (And (V 5) (Call ''OAd'' [V 9, G ''QGe'', Dot (V 0) ''e''])), Do (SetV 7 (Dot (V 0) ''k'')), Do (SetV 6 (Neg (Neg (V 7)))), Do (And (V 6) (Call ''OAd'' [V 9, K (JStr ''type''), Call ''ds'' [Dot (V 0) ''k'']])), Do (SetV 3 (Call ''rte'' [Dot (V 0) ''j''])), Do (SetV 4 (Neg (V 3))), When (V 4) [Do (SetV 8 (New ''EB'' [])), Do (Call ''kC'' [V 9, G ''wGe'', V 8]), Do (SetV 1 (New ''jEd'' [V 8])), Do (Call ''Hfb'' [Dot (V 0) ''j'', V 1])] [], Ret (V 9)],
    fn ''Qv'' 1 4 [Do (SetV 4 (Call ''bhb'' [Seq (Call ''bk'' [Meth (V 0) ''gc'' [], K (JStr ''size'')]) (New ''mhb'' []), K (JNum 123)])), Do (SetV 3 (K (JBool True))), Do (SetV 2 (Meth (Call ''bn'' [V 0]) ''Jc'' [])), Loop (Meth (V 2) ''Ob'' []) [Do (SetV 1 (Call ''JD'' [Meth (V 2) ''Pb'' [], K (JNum 45)])), Do (Or (V 3) (Seq (Put (V 4) ''a'' (Bin Plus (Dot (V 4) ''a'') (G ''Ete''))) (V 4))), Do (SetV 3 (K (JBool False))), Do (Call ''ghb'' [Call ''bhb'' [Call ''ghb'' [V 4, Meth (V 1) ''jd'' []], K (JNum 61)], Meth (V 1) ''kd'' []])] [], Ret (Dot (Seq (Put (V 4) ''a'' (Bin Plus (Dot (V 4) ''a'') (K (JStr ''}'')))) (V 4)) ''a'')],
    fn ''sD'' 2 3 [Do (SetV 1 (Bin BitAnd (V 1) (K (JNum 63)))), When (Bin Lt (V 1) (K (JNum 22))) [Do (SetV 2 (Bin Shl (Dot (V 0) ''l'') (V 1))), Do (SetV 3 (Bin BitOr (Bin Shl (Dot (V 0) ''m'') (V 1)) (Bin Shr (Dot (V 0) ''l'') (Bin Minus (K (JNum 22)) (V 1))))), Do (SetV 4 (Bin BitOr (Bin Shl (Dot (V 0) ''h'') (V 1)) (Bin Shr (Dot (V 0) ''m'') (Bin Minus (K (JNum 22)) (V 1)))))] [When (Bin Lt (V 1) (K (JNum 44))) [Do (SetV 2 (K (JNum 0))), Do (SetV 3 (Bin Shl (Dot (V 0) ''l'') (Bin Minus (V 1) (K (JNum 22))))), Do (SetV 4 (Bin BitOr (Bin Shl (Dot (V 0) ''m'') (Bin Minus (V 1) (K (JNum 22)))) (Bin Shr (Dot (V 0) ''l'') (Bin Minus (K (JNum 44)) (V 1)))))] [Do (SetV 2 (K (JNum 0))), Do (SetV 3 (K (JNum 0))), Do (SetV 4 (Bin Shl (Dot (V 0) ''l'') (Bin Minus (V 1) (K (JNum 44)))))]], Ret (Call ''_C'' [Bin BitAnd (V 2) (G ''rve''), Bin BitAnd (V 3) (G ''rve''), Bin BitAnd (V 4) (G ''sve'')])]]"

definition code_5063_5070 :: "(string \<times> jfun) list" where
  "code_5063_5070 = [
    fn ''tRb'' 2 5 [Do (SetV 4 (Cond (Loose (V 1) (K (JNum 1))) (G ''qRb'') (G ''pRb''))), Do (SetV 3 (Meth (Meth (Dot (V 4) ''a'') ''ec'' []) ''Jc'' [])), Loop (Meth (V 3) ''Ob'' []) [Do (SetV 2 (Call ''JD'' [Meth (V 3) ''Pb'' [], K (JNum 86)])), Do (SetV 6 (Meth (Call ''JD'' [Call ''Qc'' [Dot (Dot (V 0) ''f'') ''c'', V 2], K (JNum 22)]) ''Jc'' [])), Loop (Meth (V 6) ''Ob'' []) [Do (SetV 5 (Call ''JD'' [Meth (V 6) ''Pb'' [], K (JNum 49)])), Do (Call ''_lb'' [Dot (Dot (V 0) ''b'') ''b'', Call ''JD'' [Dot (V 5) ''b'', K (JNum 82)]]), Do (Call ''_lb'' [Dot (Dot (V 0) ''b'') ''a'', Dot (Call ''JD'' [Dot (V 5) ''b'', K (JNum 82)]) ''d''])] []] []],
    fn ''ikc'' 4 5 [Do (SetV 8 (Dot (V 0) ''b'')), Do (SetV 5 (Dot (V 1) ''d'')), Do (SetV 6 (Dot (V 5) ''j'')), Do (SetV 7 (Call ''okc'' [V 6, Idx (Dot (V 8) ''d'') (Dot (V 6) ''g''), V 2])), Do (SetV 4 (Call ''Vfd'' [Call ''Xfd'' [Dot (V 5) ''n''], Dot (V 5) ''a''])), Switch (Dot (Dot (V 5) ''j'') ''g'') [(Some (JNum 3), []), (Some (JNum 1), [Do (Put (V 7) ''a'' (Bin Plus (Dot (V 7) ''a'') (Dot (V 4) ''a''))), Break]), (Some (JNum 2), [Do (Put (V 7) ''b'' (Bin Plus (Dot (V 7) ''b'') (Dot (V 4) ''b''))), Break]), (Some (JNum 4), [Do (Put (V 7) ''b'' (Bin Plus (Dot (V 7) ''b'') (Dot (V 4) ''b'')))])], Do (Call ''Wtb'' [V 3, V 7, Dot (Dot (V 3) ''c'') ''b'', Dot (V 3) ''c''])],
    fn ''Hkc'' 2 4 [Do (SetV 5 (Dot (Dot (V 1) ''b'') ''j'')), Do (Put (V 0) ''a'' (Call ''SC'' [G ''cE'', G ''bve'', K (JNum 30), Dot (Dot (V 5) ''c'') ''length'', K (JNum 15), K (JNum 1)])), Do (SetV 4 (K (JNum 0))), Do (SetV 3 (K (JNum 0))), Loop (Bin Lt (V 3) (Dot (Dot (V 5) ''c'') ''length'')) [Do (SetV 2 (Seq (Call ''MDb'' [V 3, Dot (Dot (V 5) ''c'') ''length'']) (Call ''JD'' [Idx (Dot (V 5) ''c'') (V 3), K (JNum 12)]))), Do (Cond (And (Loose (Dot (Dot (Dot (V 2) ''e'') ''c'') ''length'') (K (JNum 0))) (Loose (Dot (Dot (Dot (V 2) ''g'') ''c'') ''length'') (K (JNum 0)))) (SetV 4 (Bin Plus (V 4) (K (JNum 1)))) (SetV 4 (Bin Plus (V 4) (K (JNum 3))))), Do (PutIdx (Dot (V 0) ''a'') (V 3) (V 4))] [Do (Bin Minus (SetV 3 (Bin Minus (V 3) (K (JNum (- 1))))) (K (JNum 1)))]],
    fn ''apc'' 0 0 [Do (SetG ''apc'' (G ''qdb'')), Do (SetG ''Xoc'' (New ''cpc'' [K (JStr ''ALWAYS_UP''), K (JNum 0)])), Do (SetG ''Woc'' (New ''cpc'' [K (JStr ''ALWAYS_DOWN''), K (JNum 1)])), Do (SetG ''Zoc'' (New ''cpc'' [K (JStr ''DIRECTION_UP''), K (JNum 2)])), Do (SetG ''Yoc'' (New ''cpc'' [K (JStr ''DIRECTION_DOWN''), K (JNum 3)])), Do (SetG ''_oc'' (New ''cpc'' [K (JStr ''SMART_UP''), K (JNum 4)])), Do (SetG ''$oc'' (New ''cpc'' [K (JStr ''SMART_DOWN''), K (JNum 5)]))],
    fn ''sfd'' 2 0 [When (Or (Bin Lt (V 0) (K (JNum 0))) (Bin Lt (V 1) (K (JNum 0)))) [Raise (Call ''Lcb'' [New ''kfb'' [K (JStr ''k and n must be positive'')]])] [When (Bin Gt (V 1) (V 0)) [Raise (Call ''Lcb'' [New ''kfb'' [K (JStr ''k must be smaller than n'')]])] [Ret (Cond (Or (Loose (V 1) (K (JNum 0))) (Loose (V 1) (V 0))) (K (JNum 1)) (Cond (Loose (V 0) (K (JNum 0))) (K (JNum 0)) (Bin Divide (Call ''xfd'' [V 0]) (Bin Times (Call ''xfd'' [V 1]) (Call ''xfd'' [Bin Minus (V 0) (V 1)])))))]]],
    fn ''Opd'' 2 4 [Do (SetV 2 (New ''QGd'' [V 0])), Loop (Cond (And (Loose (Dot (V 2) ''g'') (K JNull)) (Neg (Dot (V 2) ''c''))) (Call ''JGd'' [V 2]) (Or (Loose (Dot (V 2) ''g'') (K JNull)) (And (Neg (Loose (Dot (V 2) ''i'') (K (JNum 0)))) (Meth (Call ''JD'' [Idx (Dot (V 2) ''g'') (Bin Minus (Dot (V 2) ''i'') (K (JNum 1))), K (JNum 50)]) ''Ob'' [])))) [Do (SetV 5 (Call ''JD'' [Call ''KGd'' [V 2], K (JNum 57)])), When (Call ''RD'' [V 5, K (JNum 174)]) [Do (SetV 3 (Call ''JD'' [V 5, K (JNum 174)])), Do (SetV 4 (K (JNum 0))), Loop (Bin Lt (V 4) (Dot (V 1) ''length'')) [Do (Meth (Idx (V 1) (V 4)) ''Jg'' [V 3])] [Do (Bin Minus (SetV 4 (Bin Minus (V 4) (K (JNum (- 1))))) (K (JNum 1)))]] []] []],
    fn ''bwd'' 1 1 [When (Neg (Loose (Bin BitAnd (Dot (V 0) ''Db'') (K (JNum 64))) (K (JNum 0)))) [Ret (Call ''Ivd'' [V 0])] [], Do (SetV 1 (New ''ahb'' [Call ''Ivd'' [V 0]])), Do (Put (V 1) ''a'' (Bin Plus (Dot (V 1) ''a'') (K (JStr '' (height: '')))), Do (Call ''Ugb'' [V 1, Dot (V 0) ''f'']), Do (Put (V 1) ''a'' (Bin Plus (Dot (V 1) ''a'') (K (JStr '', width: '')))), Do (Call ''Ugb'' [V 1, Dot (V 0) ''g'']), Do (Put (V 1) ''a'' (Bin Plus (Dot (V 1) ''a'') (K (JStr '', x: '')))), Do (Call ''Ugb'' [V 1, Dot (V 0) ''i'']), Do (Put (V 1) ''a'' (Bin Plus (Dot (V 1) ''a'') (K (JStr '', y: '')))), Do (Call ''Ugb'' [V 1, Dot (V 0) ''j'']), Do (Put (V 1) ''a'' (Bin Plus (Dot (V 1) ''a'') (K (JStr '')'')))), Ret (Dot (V 1) ''a'')],
    fn ''An'' 1 7 [Do (SetV 1 (New ''otb'' [])), Do (Seq (Seq (SetV 3 (V 0)) (SetV 4 (K (JNum 0)))) (SetV 5 (Dot (V 3) ''length''))), Loop (Bin Lt (V 4) (V 5)) [Do (SetV 2 (Idx (V 3) (V 4))), Do (SetV 6 (Call ''Qb'' [Meth (V 2) ''jd'' []])), Do (SetV 7 (Call ''ltb'' [V 1, V 6, Call ''Qb'' [Meth (V 2) ''kd'' []]])), When (Neg (Loose (V 7) (K JNull))) [Raise (Call ''Lcb'' [New ''kfb'' [Bin Plus (K (JStr ''duplicate key: '')) (V 6)]])] []] [Do (SetV 4 (Bin Minus (V 4) (K (JNum (- 1)))))], Do (Put This ''b'' (Seq (Call ''Inb'' []) (New ''Dpb'' [V 1])))]]"

definition code_5072_5086 :: "(string \<times> jfun) list" where
  "code_5072_5086 = [
    fn ''qOb'' 0 0 [Do (SetG ''qOb'' (G ''qdb'')), Do (SetG ''kOb'' (Seq (Call ''vOb'' []) (G ''uOb''))), Do (SetG ''jOb'' (New ''EEd'' [G ''txe'', G ''kOb''])), Do (Call ''Cfb'' [K (JNum 1)]), Do (SetG ''iOb'' (New ''EEd'' [G ''uxe'', Call ''Cfb'' [K (JNum 300)]])), Do (Call ''Cfb'' [K (JNum 0)]), Do (SetG ''nOb'' (New ''EEd'' [G ''vxe'', Call ''Cfb'' [K (JNum 0)]])), Do (New ''xqd'' []), Do (SetG ''oOb'' (New ''EEd'' [G ''wxe'', G ''xxe''])), Do (New ''xqd'' []), Do (SetG ''lOb'' (New ''EEd'' [G ''yxe'', K (JNum 5)])), Do (SetG ''pOb'' (G ''uOb'')), Do (SetG ''mOb'' (G ''tOb''))],
    fn ''X4d'' 2 1 [When (And (Neg (Loose (V 1) (K JNull))) (Neg (Meth (Meth (Dot (V 0) ''c'') ''Fk'' []) ''dk'' [V 1]))) [Do (SetV 2 (Cond (Call ''RD'' [V 1, K (JNum 57)]) (Dot (Meth (Call ''JD'' [V 1, K (JNum 57)]) ''Ah'' []) ''zb'') (Call ''xeb'' [Call ''rb'' [V 1]]))), Raise (Call ''Lcb'' [New ''Seb'' [Bin Plus (Bin Plus (Bin Plus (Bin Plus (Bin Plus (Bin Plus (G ''UFe'') (Meth (Dot (V 0) ''c'') ''ve'' [])) (K (JStr (CHR 0x27 # ''s type '' @ CHR 0x27 # '''')))) (Meth (Meth (Dot (V 0) ''c'') ''Fk'' []) ''ve'' [])) (K (JStr (CHR 0x27 # '' does not permit a value of type '' @ CHR 0x27 # '''')))) (V 2)) (K (JStr (CHR 0x27 # '''')))]])] []],
    fn ''QVb'' 3 2 [Do (SetV 4 (New ''Tjb'' [Dot (V 0) ''b'', K (JNum 0)])), Loop (Bin Lt (Dot (V 4) ''b'') (Meth (Dot (V 4) ''d'') ''gc'' [])) [Do (SetV 3 (Seq (Call ''LDb'' [Bin Lt (Dot (V 4) ''b'') (Meth (Dot (V 4) ''d'') ''gc'' [])]) (Call ''JD'' [Meth (Dot (V 4) ''d'') ''Xb'' [Put (V 4) ''c'' (Bin Minus (Put (V 4) ''b'' (Bin Minus (Dot (V 4) ''b'') (K (JNum (- 1))))) (K (JNum 1)))], K (JNum 70)]))), When (Neg (Same (Call ''XD'' [Call ''oNb'' [V 3, Seq (Call ''Wrc'' []) (G ''xrc'')]]) (Call ''XD'' [V 1]))) [Continue] [], Do (Call ''LXb'' [Dot (V 3) ''n'', Call ''DYb'' [Dot (Dot (V 0) ''c'') ''i''], V 2]), Do (Call ''Mjb'' [V 4]), Do (Call ''_lb'' [Dot (V 1) ''b'', V 3])] []],
    fn ''cmc'' 1 2 [Do (SetV 2 (Meth (Dot (G ''$wnd'') ''Math'') ''sqrt'' [Seq (And (Loose (Dot (V 0) ''k'') (K JNull)) (Put (V 0) ''k'' (Call ''Xmc'' [V 0, New ''gnc'' []]))) (Bin Divide (Call ''Ueb'' [Dot (V 0) ''k'']) (Bin Times (Dot (V 0) ''b'') (Seq (And (Loose (Dot (V 0) ''g'') (K JNull)) (Put (V 0) ''g'' (Call ''Umc'' [V 0, New ''enc'' []]))) (Call ''Ueb'' [Dot (V 0) ''g'']))))])), Do (SetV 1 (Call ''gdb'' [Call ''Scb'' [Meth (Dot (G ''$wnd'') ''Math'') ''round'' [V 2]]])), Do (SetV 1 (Meth (Dot (G ''$wnd'') ''Math'') ''min'' [V 1, Dot (V 0) ''f''])), Ret (V 1)],
    fn ''Fqe'' 0 3 [Do (SetV 1 (K (JNum 0))), Do (SetV 0 (K (JNum 0))), Loop (Bin Lt (V 0) (Dot (K (JStr ''X'')) ''length'')) [Do (SetV 2 (Call ''Eqe'' [Seq (Call ''UDb'' [V 0, Dot (K (JStr ''X'')) ''length'']) (Meth (K (JStr ''X'')) ''charCodeAt'' [V 0])])), When (Loose (V 2) (K (JNum 0))) [Raise (Call ''Lcb'' [New ''Yoe'' [Seq (Call ''UDb'' [V 0, Bin Plus (Dot (K (JStr ''X'')) ''length'') (K (JNum 1))]) (Bin Plus (K (JStr ''Unknown Option: '')) (Meth (K (JStr ''X'')) ''substr'' [V 0]))]])] [], Do (SetV 1 (Bin BitOr (V 1) (V 2)))] [Do (Bin Minus (SetV 0 (Bin Minus (V 0) (K (JNum (- 1))))) (K (JNum 1)))], Ret (V 1)],
    fn ''mQb'' 1 6 [Do (SetV 1 (New ''Glb'' [])), Do (SetV 2 (New ''Glb'' [])), Do (Call ''rlb'' [V 1, V 0]), Do (Call ''rlb'' [V 2, V 0]), Loop (Neg (Loose (Dot (V 2) ''b'') (Dot (V 2) ''c''))) [Do (SetV 4 (Call ''JD'' [Call ''Clb'' [V 2], K (JNum 36)])), Do (SetV 6 (New ''Kmb'' [Dot (V 4) ''a''])), Loop (Bin Lt (Dot (V 6) ''a'') (Dot (Dot (Dot (V 6) ''c'') ''c'') ''length'')) [Do (SetV 5 (Call ''JD'' [Call ''Imb'' [V 6], K (JNum 9)])), When (Dot (V 5) ''e'') [Do (SetV 3 (Dot (V 5) ''e'')), Do (Call ''rlb'' [V 1, V 3]), Do (Call ''rlb'' [V 2, V 3])] []] []] [], Ret (V 1)],
    fn ''yZb'' 0 0 [Do (Call ''qZb'' []), Do (Super ''aYb'' []), Do (Put This ''j'' (Seq (Call ''Bmd'' []) (G ''zmd''))), Do (Put This ''a'' (New ''jgd'' [])), Do (New ''yYb'' []), Do (Put This ''f'' (Seq (Call ''bk'' [K (JNum 2), G ''wue'']) (New ''mmb'' [K (JNum 2)]))), Do (Put This ''e'' (Seq (Call ''bk'' [K (JNum 4), G ''wue'']) (New ''mmb'' [K (JNum 4)]))), Do (Put This ''g'' (Seq (Call ''bk'' [K (JNum 4), G ''wue'']) (New ''mmb'' [K (JNum 4)]))), Do (Put This ''b'' (New ''QZb'' [Dot This ''e'', Dot This ''g'']))],
    fn ''m0b'' 2 2 [When (Call ''Rdb'' [Call ''LD'' [Call ''oNb'' [V 1, Seq (Call ''Wrc'' []) (G ''Hrc'')]]]) [Ret (K (JBool False))] [], Do (SetV 3 (Dot (Dot (V 1) ''c'') ''i'')), When (Loose (V 0) (Seq (Call ''asc'' []) (G ''Xrc''))) [When (Loose (Dot (V 3) ''k'') (Seq (Call ''$Yb'' []) (G ''UYb''))) [Ret (K (JBool False))] []] [], Do (SetV 2 (Call ''JD'' [Call ''oNb'' [V 3, Seq (Call ''nyc'' []) (G ''Ewc'')], K (JNum 165)])), When (Loose (V 2) (G ''Yrc'')) [Ret (K (JBool False))] [], Ret (K (JBool True))],
    fn ''n0b'' 2 2 [When (Call ''Rdb'' [Call ''LD'' [Call ''oNb'' [V 1, Seq (Call ''Wrc'' []) (G ''Hrc'')]]]) [Ret (K (JBool False))] [], Do (SetV 3 (Dot (Dot (V 1) ''d'') ''i'')), When (Loose (V 0) (Seq (Call ''asc'' []) (G ''Zrc''))) [When (Loose (Dot (V 3) ''k'') (Seq (Call ''$Yb'' []) (G ''UYb''))) [Ret (K (JBool False))] []] [], Do (SetV 2 (Call ''JD'' [Call ''oNb'' [V 3, Seq (Call ''nyc'' []) (G ''Ewc'')], K (JNum 165)])), When (Loose (V 2) (G ''$rc'')) [Ret (K (JBool False))] [], Ret (K (JBool True))],
    fn ''O0b'' 2 7 [Do (SetV 6 (Dot (V 0) ''d'')), Do (SetV 8 (Dot (V 0) ''o'')), Do (SetV 7 (New ''Pfd'' [Minus1 (Dot (V 6) ''b''), Minus1 (Dot (V 6) ''d''), Bin Plus (Bin Plus (Dot (V 6) ''b'') (Dot (V 8) ''a'')) (Dot (V 6) ''c''), Bin Plus (Bin Plus (Dot (V 6) ''d'') (Dot (V 8) ''b'')) (Dot (V 6) ''a'')])), Do (Seq (Seq (SetV 3 (V 1)) (SetV 4 (K (JNum 0)))) (SetV 5 (Dot (V 3) ''length''))), Loop (Bin Lt (V 4) (V 5)) [Do (SetV 2 (Idx (V 3) (V 4))), Do (And (Neg (Neg (V 2))) (Call ''Nfd'' [V 7, Dot (V 2) ''i'']))] [Do (SetV 4 (Bin Minus (V 4) (K (JNum (- 1)))))], Do (Put (V 6) ''b'' (Minus1 (Dot (V 7) ''c''))), Do (Put (V 6) ''d'' (Minus1 (Dot (V 7) ''d''))), Do (Put (V 6) ''c'' (Bin Minus (Bin Minus (Dot (V 7) ''b'') (Dot (V 6) ''b'')) (Dot (V 8) ''a''))), Do (Put (V 6) ''a'' (Bin Minus (Bin Minus (Dot (V 7) ''a'') (Dot (V 6) ''d'')) (Dot (V 8) ''b'')))],
    fn ''_ac'' 2 0 [When (Dot (V 1) ''a'') [Switch (Dot (Call ''JD'' [Call ''oNb'' [Dot (V 1) ''b'', Seq (Call ''Wrc'' []) (G ''zrc'')], K (JNum 102)]) ''g'') [(Some (JNum 0), []), (Some (JNum 1), [Do (Call ''bjc'' [V 1])]), (Some (JNum 2), [Do (Call ''YBb'' [New ''jCb'' [K JNull, New ''Zvb'' [Dot (V 1) ''d'', K (JNum 16)]], New ''mbc'' []]), Do (Call ''mic'' [Dot (V 0) ''a'', V 1])])]] [Do (Call ''YBb'' [New ''jCb'' [K JNull, New ''Zvb'' [Dot (V 1) ''d'', K (JNum 16)]], New ''mbc'' []])]],
    fn ''T8c'' 0 0 [Do (SetG ''T8c'' (G ''qdb'')), Do (SetG ''O8c'' (New ''U8c'' [K (JStr ''CENTER_DISTANCE''), K (JNum 0)])), Do (SetG ''P8c'' (New ''U8c'' [K (JStr ''CIRCLE_UNDERLAP''), K (JNum 1)])), Do (SetG ''S8c'' (New ''U8c'' [K (JStr ''RECTANGLE_UNDERLAP''), K (JNum 2)])), Do (SetG ''Q8c'' (New ''U8c'' [K (JStr ''INVERTED_OVERLAP''), K (JNum 3)])), Do (SetG ''R8c'' (New ''U8c'' [K (JStr ''MINIMUM_ROOT_DISTANCE''), K (JNum 4)]))],
    fn ''Voe'' 1 5 [Do (Call ''Toe'' []), When (Loose (V 0) (K JNull)) [Ret (K JNull)] [], Do (SetV 3 (Dot (V 0) ''length'')), Do (SetV 4 (Bin Times (V 3) (K (JNum 2)))), Do (SetV 1 (Call ''SC'' [G ''_D'', G ''Nue'', K (JNum 30), V 4, K (JNum 15), K (JNum 1)])), Do (SetV 2 (K (JNum 0))), Loop (Bin Lt (V 2) (V 3)) [Do (SetV 5 (Idx (V 0) (V 2))), Do (And (Bin Lt (V 5) (K (JNum 0))) (SetV 5 (Bin Plus (V 5) (K (JNum 256))))), Do (PutIdx (V 1) (Bin Times (V 2) (K (JNum 2))) (Idx (G ''Soe'') (Bin Shr (V 5) (K (JNum 4))))), Do (PutIdx (V 1) (Bin Plus (Bin Times (V 2) (K (JNum 2))) (K (JNum 1))) (Idx (G ''Soe'') (Bin BitAnd (V 5) (K (JNum 15)))))] [Do (Bin Minus (SetV 2 (Bin Minus (V 2) (K (JNum (- 1))))) (K (JNum 1)))], Ret (Call ''Sgb'' [V 1, K (JNum 0), Dot (V 1) ''length''])],
    fn ''nn'' 1 3 [Do (SetV 3 (Dot (Dot (V 0) ''c'') ''length'')), Switch (V 3) [(Some (JNum 0), [Ret (Seq (Call ''Hx'' []) (G ''Gx''))]), (Some (JNum 1), [Do (SetV 1 (Call ''JD'' [Call ''zr'' [New ''Kmb'' [V 0]], K (JNum 45)])), Ret (Call ''rn'' [Meth (V 1) ''jd'' [], Meth (V 1) ''kd'' []])]), (None, [Do (SetV 2 (Call ''JD'' [Call ''kmb'' [V 0, Call ''SC'' [G ''LK'', G ''mue'', K (JNum 45), Dot (Dot (V 0) ''c'') ''length'', K (JNum 0), K (JNum 1)]], K (JNum 175)])), Ret (New ''Ix'' [V 2])])]],
    fn ''LYb'' 2 0 [Switch (Dot (V 1) ''g'') [(Some (JNum 1), [Ret (Call ''Zq'' [Dot (V 0) ''j'', Seq (Call ''qZb'' []) (G ''mZb'')])]), (Some (JNum 2), [Ret (Call ''Zq'' [Dot (V 0) ''j'', Seq (Call ''qZb'' []) (G ''kZb'')])]), (Some (JNum 3), [Ret (Call ''Zq'' [Dot (V 0) ''j'', Seq (Call ''qZb'' []) (G ''oZb'')])]), (Some (JNum 4), [Ret (Call ''Zq'' [Dot (V 0) ''j'', Seq (Call ''qZb'' []) (G ''pZb'')])]), (None, [Ret (Seq (Seq (Call ''Inb'' []) (Call ''Inb'' [])) (G ''Fnb''))])]]]"

definition code_5088_5090 :: "(string \<times> jfun) list" where
  "code_5088_5090 = [
    fn ''J1c'' 0 0 [Do (SetG ''J1c'' (G ''qdb'')), Do (SetG ''A1c'' (Seq (Call ''vjd'' []) (G ''Oid''))), Do (SetG ''H1c'' (G ''djd'')), Do (SetG ''t1c'' (G ''iid'')), Do (SetG ''u1c'' (G ''lid'')), Do (SetG ''v1c'' (G ''nid'')), Do (SetG ''s1c'' (G ''gid'')), Do (SetG ''w1c'' (G ''qid'')), Do (SetG ''z1c'' (G ''Jid'')), Do (SetG ''q1c'' (Seq (Call ''m1c'' []) (G ''Z0c''))), Do (SetG ''r1c'' (G ''$0c'')), Do (SetG ''C1c'' (G ''e1c'')), Do (SetG ''F1c'' (G ''h1c'')), Do (SetG ''D1c'' (G ''f1c'')), Do (SetG ''E1c'' (G ''g1c'')), Do (SetG ''x1c'' (G ''a1c'')), Do (SetG ''y1c'' (G ''c1c'')), Do (SetG ''B1c'' (G ''d1c'')), Do (SetG ''G1c'' (G ''i1c'')), Do (SetG ''I1c'' (G ''k1c'')), Do (SetG ''p1c'' (G ''Y0c''))],
    fn ''L6c'' 2 5 [When (Bin Le (Dot (V 0) ''e'') (V 1)) [Ret (Dot (V 0) ''g'')] [], When (Call ''N6c'' [V 0, Dot (V 0) ''g'', V 1]) [Ret (Dot (V 0) ''g'')] [], Do (SetV 5 (Dot (V 0) ''r'')), Do (SetV 3 (Dot (V 0) ''g'')), Do (SetV 6 (Dot (V 0) ''r'')), Do (SetV 4 (Bin Plus (Bin Divide (Bin Minus (V 5) (V 3)) (K (JNum 2))) (V 3))), Loop (Bin Lt (Bin Plus (V 3) (K (JNum 1))) (V 5)) [Do (SetV 2 (Call ''O6c'' [V 0, V 4, K (JBool False)])), When (And (Bin Le (Dot (V 2) ''b'') (V 4)) (Bin Le (Dot (V 2) ''a'') (V 1))) [Do (SetV 6 (V 4)), Do (SetV 5 (V 4))] [Do (SetV 3 (V 4))], Do (SetV 4 (Bin Plus (Bin Divide (Bin Minus (V 5) (V 3)) (K (JNum 2))) (V 3)))] [], Ret (V 6)],
    fn ''zbd'' 3 1 [Do (SetV 3 (Call ''ubd'' [V 0, V 1, K (JBool True)])), Do (Call ''fod'' [V 2, K (JStr ''Recursive Graph Layout''), V 3]), Do (Call ''Opd'' [V 1, Call ''WC'' [Call ''OC'' [G ''u3'', K (JNum 1)], G ''Gte'', K (JNum 525), K (JNum 0), NewArr [New ''wcd'' []]]]), Do (Or (Call ''dvd'' [V 1, Seq (Call ''vjd'' []) (G ''Rid'')]) (Call ''Opd'' [V 1, Call ''WC'' [Call ''OC'' [G ''u3'', K (JNum 1)], G ''Gte'', K (JNum 525), K (JNum 0), NewArr [New ''_cd'' []]]])), Do (Call ''Abd'' [V 0, V 1, K JNull, V 2]), Do (Call ''hod'' [V 2])]]"

definition code_5092_5110 :: "(string \<times> jfun) list" where
  "code_5092_5110 = [
    fn ''Upd'' 1 3 [Do (SetV 3 (New ''ygd'' [])), Do (Call ''Ttb'' [V 3, New ''lgd'' [Dot (V 0) ''j'', Dot (V 0) ''k'']]), Do (SetV 2 (New ''uKd'' [Seq (And (Neg (Dot (V 0) ''a'')) (Put (V 0) ''a'' (New ''iYd'' [G ''N3'', V 0, K (JNum 5)]))) (Dot (V 0) ''a'')])), Loop (Neg (Loose (Dot (V 2) ''e'') (Meth (Dot (V 2) ''i'') ''gc'' []))) [Do (SetV 1 (Call ''JD'' [Call ''sKd'' [V 2], K (JNum 372)])), Do (Call ''Ttb'' [V 3, New ''lgd'' [Dot (V 1) ''a'', Dot (V 1) ''b'']])] [], Do (Call ''Ttb'' [V 3, New ''lgd'' [Dot (V 0) ''b'', Dot (V 0) ''c'']]), Ret (V 3)],
    fn ''wBd'' 5 6 [When (V 4) [Do (SetV 8 (Dot (Dot (V 4) ''a'') ''length'')), Do (SetV 5 (New ''Kse'' [V 8])), Do (SetV 10 (Cond (Bin Lt (Bin Times (Bin Minus (Dot (V 5) ''b'') (Dot (V 5) ''a'')) (Dot (V 5) ''c'')) (K (JNum 0))) (Seq (Call ''Jse'' []) (G ''Ise'')) (New ''ete'' [V 5]))), Loop (Meth (V 10) ''Ob'' []) [Do (SetV 9 (Call ''JD'' [Meth (V 10) ''Pb'' [], K (JNum 15)])), Do (SetV 7 (Call ''TAd'' [V 4, Dot (V 9) ''a''])), Do (SetV 6 (New ''FCd'' [V 0, V 1, V 2, V 3])), Do (Call ''xBd'' [Dot (V 6) ''a'', Dot (V 6) ''b'', Dot (V 6) ''c'', Dot (V 6) ''d'', V 7])] []] []],
    fn ''Nx'' 2 2 [When (Same (Call ''XD'' [V 0]) (Call ''XD'' [V 1])) [Ret (K (JBool True))] [], When (Call ''RD'' [V 1, K (JNum 22)]) [Do (SetV 2 (Call ''JD'' [V 1, K (JNum 22)])), Try [Ret (And (Loose (Meth (V 0) ''gc'' []) (Meth (V 2) ''gc'' [])) (Meth (V 0) ''Hc'' [V 2]))] 3 [Do (SetV 3 (Call ''Kcb'' [V 3])), When (Or (Call ''RD'' [V 3, K (JNum 172)]) (Call ''RD'' [V 3, K (JNum 211)])) [Ret (K (JBool False))] [Raise (Call ''Lcb'' [V 3])]]] [], Ret (K (JBool False))],
    fn ''Ryb'' 6 0 [Do (Put This ''c'' (V 0)), Switch (Dot (V 1) ''g'') [(Some (JNum 2), [When (Bin Lt (Meth (Dot (V 0) ''a'') ''Le'' [V 4, V 2]) (K (JNum 0))) [Raise (Call ''Lcb'' [New ''kfb'' [Bin Plus (Bin Plus (Bin Plus (G ''ewe'') (V 4)) (G ''fwe'')) (V 2)]])] [], Break]), (Some (JNum 1), [Do (Meth (Dot (V 0) ''a'') ''Le'' [V 4, V 4]), Break]), (Some (JNum 3), [Do (Meth (Dot (V 0) ''a'') ''Le'' [V 2, V 2])])], Do (Put This ''f'' (V 1)), Do (Put This ''b'' (V 2)), Do (Put This ''a'' (V 3)), Do (Put This ''e'' (V 4)), Do (Put This ''d'' (V 5))],
    fn ''oIb'' 2 1 [Do (Call ''_lb'' [Dot (V 0) ''d'', V 1]), Do (SetV 2 (Meth (V 1) ''Kf'' [])), When (Dot (V 0) ''c'') [Do (Put (Dot (V 0) ''e'') ''a'' (Meth (Dot (G ''$wnd'') ''Math'') ''max'' [Dot (Dot (V 0) ''e'') ''a'', Dot (V 2) ''a''])), Do (Put (Dot (V 0) ''e'') ''b'' (Bin Plus (Dot (Dot (V 0) ''e'') ''b'') (Dot (V 2) ''b''))), Do (And (Bin Gt (Dot (Dot (Dot (V 0) ''d'') ''c'') ''length'') (K (JNum 1))) (Put (Dot (V 0) ''e'') ''b'' (Bin Plus (Dot (Dot (V 0) ''e'') ''b'') (Dot (V 0) ''a''))))] [Do (Put (Dot (V 0) ''e'') ''a'' (Bin Plus (Dot (Dot (V 0) ''e'') ''a'') (Dot (V 2) ''a''))), Do (Put (Dot (V 0) ''e'') ''b'' (Meth (Dot (G ''$wnd'') ''Math'') ''max'' [Dot (Dot (V 0) ''e'') ''b'', Dot (V 2) ''b''])), Do (And (Bin Gt (Dot (Dot (Dot (V 0) ''d'') ''c'') ''length'') (K (JNum 1))) (Put (Dot (V 0) ''e'') ''a'' (Bin Plus (Dot (Dot (V 0) ''e'') ''a'') (Dot (V 0) ''a''))))]],
    fn ''Xjc'' 1 4 [Do (SetV 4 (Dot (V 0) ''i'')), Do (SetV 1 (Dot (V 4) ''b'')), Do (SetV 3 (Dot (V 4) ''j'')), Do (SetV 2 (Dot (V 4) ''g'')), Switch (Dot (Dot (V 4) ''a'') ''g'') [(Some (JNum 0), [Do (Put (V 2) ''a'' (Bin Divide (Bin Minus (Dot (Dot (Dot (Dot (V 0) ''g'') ''b'') ''o'') ''a'') (Dot (V 3) ''a'')) (K (JNum 2)))), Break]), (Some (JNum 1), [Do (Put (V 2) ''a'' (Bin Plus (Dot (Dot (Dot (V 1) ''d'') ''n'') ''a'') (Dot (Dot (Dot (V 1) ''d'') ''a'') ''a''))), Break]), (Some (JNum 2), [Do (Put (V 2) ''a'' (Bin Minus (Bin Plus (Dot (Dot (Dot (V 1) ''d'') ''n'') ''a'') (Dot (Dot (Dot (V 1) ''d'') ''a'') ''a'')) (Dot (V 3) ''a''))), Break]), (Some (JNum 3), [Do (Put (V 2) ''b'' (Bin Plus (Dot (Dot (Dot (V 1) ''d'') ''n'') ''b'') (Dot (Dot (Dot (V 1) ''d'') ''a'') ''b'')))])]],
    fn ''ZKc'' 3 3 [Do (SetV 4 (New ''Yr'' [Call ''Dr'' [Meth (Dot (Call ''BYb'' [V 2]) ''a'') ''Jc'' [], New ''Dl'' []]])), Loop (Call ''Wr'' [V 4]) [Do (SetV 3 (Call ''JD'' [Call ''Xr'' [V 4], K (JNum 17)])), When (Neg (And (Neg (Call ''AWb'' [V 3])) (Neg (And (Neg (Call ''AWb'' [V 3])) (Loose (Dot (Dot (Dot (V 3) ''c'') ''i'') ''c'') (Dot (Dot (Dot (V 3) ''d'') ''i'') ''c'')))))) [Continue] [], Do (SetV 5 (Call ''RKc'' [V 0, V 3, V 2, New ''ELc'' []])), Do (And (Bin Gt (Dot (Dot (V 5) ''c'') ''length'') (K (JNum 1))) (Seq (Call ''qDb'' [Dot (V 1) ''c'', V 5]) (K (JBool True))))] []],
    fn ''Wfd'' 5 0 [When (Or (Bin Lt (V 3) (V 1)) (Bin Lt (V 4) (V 2))) [Raise (Call ''Lcb'' [New ''kfb'' [K (JStr ''The highx must be bigger then lowx and the highy must be bigger then lowy'')]])] [], Do (Cond (Bin Lt (Dot (V 0) ''a'') (V 1)) (Put (V 0) ''a'' (V 1)) (And (Bin Gt (Dot (V 0) ''a'') (V 3)) (Put (V 0) ''a'' (V 3)))), Do (Cond (Bin Lt (Dot (V 0) ''b'') (V 2)) (Put (V 0) ''b'' (V 2)) (And (Bin Gt (Dot (V 0) ''b'') (V 4)) (Put (V 0) ''b'' (V 4)))), Ret (V 0)],
    fn ''cEd'' 1 0 [When (Call ''RD'' [V 0, K (JNum 144)]) [Ret (Call ''XDd'' [Call ''JD'' [V 0, K (JNum 144)]])] [When (Call ''RD'' [V 0, K (JNum 233)]) [Ret (Call ''YDd'' [Call ''JD'' [V 0, K (JNum 233)]])] [When (Call ''RD'' [V 0, K (JNum 21)]) [Ret (Call ''ZDd'' [Call ''JD'' [V 0, K (JNum 21)]])] [Raise (Call ''Lcb'' [New ''kfb'' [Bin Plus (G ''HGe'') (Call ''Ee'' [New ''wnb'' [Call ''WC'' [Call ''OC'' [G ''aJ'', K (JNum 1)], G ''Gte'', K (JNum 1), K (JNum 5), NewArr [V 0]]]])]])]]]],
    fn ''Eib'' 5 3 [Do (SetV 5 (K (JBool True))), Do (SetV 6 (K (JNum 0))), Loop (Bin Lt (V 6) (V 3)) [Do (SetV 5 (Bin BitAnd (V 5) (Loose (Idx (V 2) (V 6)) (K (JNum 0)))))] [Do (Bin Minus (SetV 6 (Bin Minus (V 6) (K (JNum (- 1))))) (K (JNum 1)))], When (Loose (V 4) (K (JNum 0))) [Do (Call ''rhb'' [V 2, V 3, V 0, K (JNum 0), V 1]), Do (SetV 6 (V 1))] [Do (SetV 7 (Bin Minus (K (JNum 32)) (V 4))), Do (SetV 5 (Bin BitAnd (V 5) (Loose (Bin Shl (Idx (V 2) (V 6)) (V 7)) (K (JNum 0))))), Do (SetV 6 (K (JNum 0))), Loop (Bin Lt (V 6) (Bin Minus (V 1) (K (JNum 1)))) [Do (PutIdx (V 0) (V 6) (Bin BitOr (Bin Ushr (Idx (V 2) (Bin Plus (V 6) (V 3))) (V 4)) (Bin Shl (Idx (V 2) (Bin Plus (Bin Plus (V 6) (V 3)) (K (JNum 1)))) (V 7))))] [Do (Bin Minus (SetV 6 (Bin Minus (V 6) (K (JNum (- 1))))) (K (JNum 1)))], Do (PutIdx (V 0) (V 6) (Bin Ushr (Idx (V 2) (Bin Plus (V 6) (V 3))) (V 4))), Do (SetV 6 (Bin Minus (V 6) (K (JNum (- 1)))))], Ret (V 5)],
    fn ''INc'' 4 3 [When (Loose (Dot (V 1) ''k'') (Seq (Call ''$Yb'' []) (G ''VYb''))) [Do (SetV 5 (New ''Yr'' [Call ''Dr'' [Meth (Dot (Call ''EYb'' [V 1]) ''a'') ''Jc'' [], New ''Dl'' []]])), Loop (Call ''Wr'' [V 5]) [Do (SetV 4 (Call ''JD'' [Call ''Xr'' [V 5], K (JNum 17)])), Do (SetV 6 (Dot (Dot (Dot (V 4) ''c'') ''i'') ''k'')), When (And (And (Loose (V 6) (G ''VYb'')) (Loose (Idx (Dot (Dot (V 0) ''c'') ''a'') (Dot (Dot (Dot (Dot (V 4) ''c'') ''i'') ''c'') ''p'')) (V 3))) (Loose (Idx (Dot (Dot (V 0) ''c'') ''a'') (Dot (Dot (V 1) ''c'') ''p'')) (V 2))) [Ret (K (JBool True))] []] []] [], Ret (K (JBool False))],
    fn ''uD'' 2 4 [Do (SetV 1 (Bin BitAnd (V 1) (K (JNum 63)))), Do (SetV 2 (Bin BitAnd (Dot (V 0) ''h'') (G ''sve''))), When (Bin Lt (V 1) (K (JNum 22))) [Do (SetV 5 (Bin Ushr (V 2) (V 1))), Do (SetV 4 (Bin BitOr (Bin Shr (Dot (V 0) ''m'') (V 1)) (Bin Shl (V 2) (Bin Minus (K (JNum 22)) (V 1))))), Do (SetV 3 (Bin BitOr (Bin Shr (Dot (V 0) ''l'') (V 1)) (Bin Shl (Dot (V 0) ''m'') (Bin Minus (K (JNum 22)) (V 1)))))] [When (Bin Lt (V 1) (K (JNum 44))) [Do (SetV 5 (K (JNum 0))), Do (SetV 4 (Bin Ushr (V 2) (Bin Minus (V 1) (K (JNum 22))))), Do (SetV 3 (Bin BitOr (Bin Shr (Dot (V 0) ''m'') (Bin Minus (V 1) (K (JNum 22)))) (Bin Shl (Dot (V 0) ''h'') (Bin Minus (K (JNum 44)) (V 1)))))] [Do (SetV 5 (K (JNum 0))), Do (SetV 4 (K (JNum 0))), Do (SetV 3 (Bin Ushr (V 2) (Bin Minus (V 1) (K (JNum 44)))))]], Ret (Call ''_C'' [Bin BitAnd (V 3) (G ''rve''), Bin BitAnd (V 4) (G ''rve''), Bin BitAnd (V 5) (G ''sve'')])],
    fn ''xgc'' 4 1 [Do (Put This ''b'' (V 3)), Do (Put This ''e'' (Loose (V 0) (Seq (Call ''kHc'' []) (G ''iHc'')))), Do (SetV 4 (Idx (V 1) (V 2))), Do (Put This ''d'' (Call ''QC'' [G ''Icb'', NewArr [G ''aue'', G ''Nwe''], NewArr [K (JNum 171), K (JNum 30)], K (JNum 16), NewArr [Dot (V 4) ''length'', Dot (V 4) ''length''], K (JNum 2)])), Do (Put This ''a'' (Call ''QC'' [G ''cE'', NewArr [G ''aue'', G ''bve''], NewArr [K (JNum 54), K (JNum 30)], K (JNum 15), NewArr [Dot (V 4) ''length'', Dot (V 4) ''length''], K (JNum 2)])), Do (Put This ''c'' (New ''hgc'' [V 1, V 2]))],
    fn ''ahc'' 1 3 [Do (Put (V 0) ''k'' (New ''Qi'' [Dot (Seq (Call ''Bmd'' []) (Call ''WC'' [Call ''OC'' [G ''M2'', K (JNum 1)], G ''sye'', K (JNum 64), K (JNum 0), NewArr [G ''zmd'', G ''hmd'', G ''gmd'', G ''ymd'', G ''Amd'']])) ''length'', Dot (Dot (Dot (V 0) ''j'') ''c'') ''length''])), Do (SetV 3 (New ''Kmb'' [Dot (V 0) ''j''])), Loop (Bin Lt (Dot (V 3) ''a'') (Dot (Dot (Dot (V 3) ''c'') ''c'') ''length'')) [Do (SetV 2 (Call ''JD'' [Call ''Imb'' [V 3], K (JNum 113)])), Do (SetV 1 (Dot (Dot (V 2) ''d'') ''j'')), Do (Call ''Rc'' [Dot (V 0) ''k'', V 1, V 2])] [], Do (Put (V 0) ''e'' (Call ''Phc'' [Call ''Ec'' [Dot (V 0) ''k'']]))],
    fn ''bSc'' 2 3 [Do (Call ''esb'' [Dot (V 0) ''d'', V 1]), Do (SetV 2 (New ''iSc'' [])), Do (Call ''hjb'' [Dot (V 0) ''c'', V 1, V 2]), Do (Put (V 2) ''f'' (Call ''cSc'' [Dot (V 1) ''c''])), Do (Put (V 2) ''a'' (Call ''cSc'' [Dot (V 1) ''d''])), Do (Put (V 2) ''d'' (Seq (Seq (Call ''qRc'' []) (SetV 4 (Dot (Dot (Dot (V 1) ''c'') ''i'') ''k''))) (Or (Loose (V 4) (Seq (Call ''$Yb'' []) (G ''XYb''))) (Loose (V 4) (G ''SYb''))))), Do (Put (V 2) ''e'' (Seq (SetV 3 (Dot (Dot (Dot (V 1) ''d'') ''i'') ''k'')) (Or (Loose (V 3) (G ''XYb'')) (Loose (V 3) (G ''SYb''))))), Do (Put (V 2) ''b'' (Loose (Dot (Dot (V 1) ''c'') ''j'') (Seq (Call ''Bmd'' []) (G ''Amd'')))), Do (Put (V 2) ''c'' (Loose (Dot (Dot (V 1) ''d'') ''j'') (G ''gmd'')))],
    fn ''XGb'' 1 5 [Do (SetV 5 (G ''Ate'')), Do (SetV 4 (G ''Ate'')), Do (SetV 3 (New ''Kmb'' [Call ''gGb'' [V 0]])), Loop (Bin Lt (Dot (V 3) ''a'') (Dot (Dot (Dot (V 3) ''c'') ''c'') ''length'')) [Do (SetV 2 (Call ''JD'' [Call ''Imb'' [V 3], K (JNum 217)])), Do (SetV 1 (Bin Minus (Dot (Dot (V 2) ''e'') ''e'') (Dot (Dot (V 2) ''d'') ''e''))), Do (Cond (And (Loose (Dot (V 2) ''e'') (V 0)) (Bin Lt (V 1) (V 4))) (SetV 4 (V 1)) (And (Bin Lt (V 1) (V 5)) (SetV 5 (V 1))))] [], Do (And (Loose (V 4) (G ''Ate'')) (SetV 4 (K (JNum (- 1))))), Do (And (Loose (V 5) (G ''Ate'')) (SetV 5 (K (JNum (- 1))))), Ret (New ''prd'' [Call ''Cfb'' [V 4], Call ''Cfb'' [V 5]])],
    fn ''Q6b'' 2 4 [Do (SetV 2 (Dot (Dot (Dot (V 1) ''a'') ''o'') ''a'')), Do (SetV 5 (New ''_jb'' [Dot (Call ''DYb'' [Dot (V 1) ''a'']) ''b'', Dot (V 1) ''c'', Bin Plus (Dot (V 1) ''f'') (K (JNum 1))])), Do (SetV 4 (New ''Njb'' [V 5])), Loop (Bin Lt (Dot (V 4) ''b'') (Meth (Dot (V 4) ''d'') ''gc'' [])) [Do (SetV 3 (Seq (Call ''LDb'' [Bin Lt (Dot (V 4) ''b'') (Meth (Dot (V 4) ''d'') ''gc'' [])]) (Call ''JD'' [Meth (Dot (V 4) ''d'') ''Xb'' [Put (V 4) ''c'' (Bin Minus (Put (V 4) ''b'' (Bin Minus (Dot (V 4) ''b'') (K (JNum (- 1))))) (K (JNum 1)))], K (JNum 25)]))), When (Bin Ge (Dot (Dot (V 3) ''c'') ''a'') (V 2)) [Do (Call ''P6b'' [V 0, V 1, Dot (V 3) ''p'']), Ret (K (JBool True))] []] [], Ret (K (JBool False))],
    fn ''wA'' 4 6 [Do (SetV 6 (Dot (V 2) ''length'')), Do (SetV 5 (K (JNum 0))), Do (SetV 4 (K (JNum (- 1)))), Do (SetV 9 (Call ''Lgb'' [Seq (Call ''UDb'' [V 1, Bin Plus (Dot (V 0) ''length'') (K (JNum 1))]) (Meth (V 0) ''substr'' [V 1]), Seq (Call ''Eub'' []) (G ''Cub'')])), Do (SetV 7 (K (JNum 0))), Loop (Bin Lt (V 7) (V 6)) [Do (SetV 8 (Dot (Idx (V 2) (V 7)) ''length'')), When (And (Bin Gt (V 8) (V 5)) (Call ''Ggb'' [V 9, Call ''Lgb'' [Idx (V 2) (V 7), G ''Cub'']])) [Do (SetV 4 (V 7)), Do (SetV 5 (V 8))] []] [Do (SetV 7 (Bin Minus (V 7) (K (JNum (- 1)))))], Do (And (Bin Ge (V 4) (K (JNum 0))) (PutIdx (V 3) (K (JNum 0)) (Bin Plus (V 1) (V 5)))), Ret (V 4)],
    fn ''Ygc'' 3 8 [Do (SetV 5 (Dot (Dot (V 0) ''d'') ''p'')), Do (SetV 7 (Dot (V 5) ''e'')), Do (SetV 8 (Dot (V 5) ''r'')), Do (Put (V 0) ''g'' (New ''mJc'' [V 8])), Do (SetV 6 (Dot (Dot (Dot (Dot (V 0) ''d'') ''o'') ''c'') ''p'')), Do (SetV 3 (Cond (Bin Gt (V 6) (K (JNum 0))) (Idx (V 7) (Bin Minus (V 6) (K (JNum 1)))) (Call ''SC'' [G ''SP'', G ''Bye'', K (JNum 9), K (JNum 0), K (JNum 0), K (JNum 1)]))), Do (SetV 4 (Idx (V 7) (V 6))), Do (SetV 9 (Cond (Bin Lt (V 6) (Bin Minus (Dot (V 7) ''length'') (K (JNum 1)))) (Idx (V 7) (Bin Plus (V 6) (K (JNum 1)))) (Call ''SC'' [G ''SP'', G ''Bye'', K (JNum 9), K (JNum 0), K (JNum 0), K (JNum 1)]))), Do (SetV 10 (Loose (V 1) (Bin Minus (V 2) (K (JNum 1))))), Do (Cond (V 10) (Call ''$Ic'' [Dot (V 0) ''g'', V 4, V 9]) (Call ''$Ic'' [Dot (V 0) ''g'', V 3, V 4]))]]"

definition code_5112_5144 :: "(string \<times> jfun) list" where
  "code_5112_5144 = [
    fn ''Kee'' 3 5 [Do (SetV 7 (Call ''Cie'' [Meth (Dot (V 0) ''e'') ''Ah'' [], V 1])), Do (SetV 4 (Call ''JD'' [Dot (V 0) ''g'', K (JNum 122)])), Do (SetV 3 (K (JNum 0))), Do (SetV 6 (K (JNum 0))), Loop (Bin Lt (V 6) (Dot (V 0) ''i'')) [Do (SetV 5 (Idx (V 4) (V 6))), When (Meth (V 7) ''$l'' [Meth (V 5) ''Jk'' []]) [When (Loose (V 3) (V 2)) [Do (Call ''MJd'' [V 0, V 6]), Ret (Seq (Call ''Aie'' []) (Cond (Meth (Call ''JD'' [V 1, K (JNum 69)]) ''vk'' []) (V 5) (Meth (V 5) ''kd'' [])))] [], Do (SetV 3 (Bin Minus (V 3) (K (JNum (- 1)))))] []] [Do (SetV 6 (Bin Minus (V 6) (K (JNum (- 1)))))], Raise (Call ''Lcb'' [New ''Fdb'' [Bin Plus (Bin Plus (Bin Plus (G ''SHe'') (V 2)) (G ''YGe'')) (V 3)]])],
    fn ''cpe'' 1 3 [Do (SetV 1 (Dot (V 0) ''c'')), When (Or (Or (Loose (V 1) (K (JNum 2))) (Loose (V 1) (K (JNum 7)))) (Loose (V 1) (K (JNum 1)))) [Ret (Seq (Seq (Call ''gre'' []) (Call ''gre'' [])) (G ''Rqe''))] [Do (SetV 3 (Call ''ape'' [V 0])), Do (SetV 2 (K JNull)), Loop (And (And (Neg (Loose (SetV 1 (Dot (V 0) ''c'')) (K (JNum 2)))) (Neg (Loose (V 1) (K (JNum 7))))) (Neg (Loose (V 1) (K (JNum 1))))) [When (Neg (V 2)) [Do (SetV 2 (Seq (Seq (Seq (Call ''gre'' []) (Call ''gre'' [])) (SetG ''fre'' (Bin Minus (G ''fre'') (K (JNum (- 1)))))) (New ''vse'' [K (JNum 1)]))), Do (Call ''use'' [V 2, V 3]), Do (SetV 3 (V 2))] [], Do (Call ''use'' [V 2, Call ''ape'' [V 0]])] [], Ret (V 3)]],
    fn ''Kb'' 3 0 [When (Or (Bin Lt (V 0) (K (JNum 0))) (Bin Gt (V 0) (V 2))) [Ret (Call ''Jb'' [V 0, V 2, K (JStr ''start index'')])] [], When (Or (Bin Lt (V 1) (K (JNum 0))) (Bin Gt (V 1) (V 2))) [Ret (Call ''Jb'' [V 1, V 2, K (JStr ''end index'')])] [], Ret (Call ''hc'' [K (JStr ''end index (%s) must not be less than start index (%s)''), Call ''WC'' [Call ''OC'' [G ''aJ'', K (JNum 1)], G ''Gte'', K (JNum 1), K (JNum 5), NewArr [Call ''Cfb'' [V 1], Call ''Cfb'' [V 0]]]])],
    fn ''Xz'' 2 5 [Do (Seq (SetV 3 (K (JNum 0))) (SetV 4 (Dot (V 0) ''length''))), Loop (Bin Lt (V 3) (V 4)) [Do (SetV 5 (Idx (V 0) (V 3))), Try [Do (Cond (Idx (V 5) (K (JNum 1))) (And (Meth (Idx (V 5) (K (JNum 0))) ''Sm'' []) (SetV 1 (Call ''Wz'' [V 1, V 5]))) (Meth (Idx (V 5) (K (JNum 0))) ''Sm'' []))] 6 [Do (SetV 6 (Call ''Kcb'' [V 6])), When (Call ''RD'' [V 6, K (JNum 80)]) [Do (SetV 2 (V 6)), Do (Call ''Iz'' []), Do (Call ''Oz'' [Cond (Call ''RD'' [V 2, K (JNum 474)]) (Meth (Call ''JD'' [V 2, K (JNum 474)]) ''ie'' []) (V 2)])] [Raise (Call ''Lcb'' [V 6])]]] [Do (Bin Minus (SetV 3 (Bin Minus (V 3) (K (JNum (- 1))))) (K (JNum 1)))], Ret (V 1)],
    fn ''P6b'' 3 3 [Do (And (Neg (Loose (V 2) (Bin Plus (Dot (V 1) ''c'') (Meth (Dot (V 1) ''b'') ''gc'' [])))) (Call ''c7b'' [Dot (V 1) ''a'', Call ''k7b'' [V 1, Bin Minus (V 2) (Dot (V 1) ''c'')]])), Do (SetV 5 (Dot (Dot (Dot (V 1) ''a'') ''c'') ''p'')), Do (PutIdx (Dot (V 0) ''a'') (V 5) (Meth (Dot (G ''$wnd'') ''Math'') ''max'' [Idx (Dot (V 0) ''a'') (V 5), Dot (Dot (Dot (V 1) ''a'') ''o'') ''a''])), Do (SetV 4 (Meth (Call ''JD'' [Call ''oNb'' [Dot (V 1) ''a'', Seq (Call ''Wrc'' []) (G ''Grc'')], K (JNum 16)]) ''Jc'' [])), Loop (Meth (V 4) ''Ob'' []) [Do (SetV 3 (Call ''JD'' [Meth (V 4) ''Pb'' [], K (JNum 70)])), Do (Call ''rNb'' [V 3, G ''M6b'', Seq (Call ''Qdb'' []) (K (JBool True))])] []],
    fn ''Bcc'' 2 3 [Do (SetV 4 (Call ''zcc'' [V 1])), Do (Call ''rNb'' [V 1, Seq (Call ''Wrc'' []) (G ''prc''), V 4]), When (V 4) [Do (SetV 3 (G ''Ate'')), Do (And (Neg (Neg (Call ''ysb'' [Dot (V 0) ''f'', V 4]))) (SetV 3 (Dot (Call ''JD'' [Call ''Wd'' [Call ''ysb'' [Dot (V 0) ''f'', V 4]], K (JNum 15)]) ''a''))), Do (SetV 2 (Call ''JD'' [Call ''dmb'' [Dot (V 1) ''g'', K (JNum 0)], K (JNum 17)])), Do (Or (Call ''Rdb'' [Call ''LD'' [Call ''oNb'' [V 2, G ''Hrc'']]]) (Call ''hjb'' [V 0, V 4, Call ''Cfb'' [Meth (Dot (G ''$wnd'') ''Math'') ''min'' [Dot (Call ''JD'' [Call ''oNb'' [V 2, G ''trc''], K (JNum 15)]) ''a'', V 3]]]))] []],
    fn ''Wlc'' 1 4 [Do (SetV 2 (G ''Ate'')), Do (SetV 4 (K (JBool True))), Do (SetV 1 (K (JNum 0))), Loop (Bin Lt (V 1) (Dot (Dot (Dot (V 0) ''a'') ''c'') ''length'')) [When (Call ''pNb'' [Call ''JD'' [Call ''dmb'' [Dot (V 0) ''a'', V 1], K (JNum 9)], Seq (Call ''nyc'' []) (G ''Lwc'')]) [Do (SetV 4 (K (JBool False))), Do (SetV 3 (Dot (Call ''JD'' [Call ''oNb'' [Call ''JD'' [Call ''dmb'' [Dot (V 0) ''a'', V 1], K (JNum 9)], G ''Lwc''], K (JNum 15)]) ''a'')), Do (SetV 2 (Cond (Bin Lt (V 2) (V 3)) (V 2) (V 3)))] []] [Do (Bin Minus (SetV 1 (Bin Minus (V 1) (K (JNum (- 1))))) (K (JNum 1)))], Do (And (V 4) (SetV 2 (Dot (Call ''JD'' [Call ''BEd'' [Seq (Call ''nyc'' []) (G ''Lwc'')], K (JNum 15)]) ''a''))), Ret (V 2)],
    fn ''kCc'' 3 5 [Do (Put (V 1) ''p'' (K (JNum (- 1)))), Do (SetV 7 (Meth (Call ''JYb'' [V 1, Seq (Call ''qAc'' []) (G ''oAc'')]) ''Jc'' [])), Loop (Meth (V 7) ''Ob'' []) [Do (SetV 6 (Call ''JD'' [Meth (V 7) ''Pb'' [], K (JNum 12)])), Do (SetV 4 (New ''Kmb'' [Dot (V 6) ''g''])), Loop (Bin Lt (Dot (V 4) ''a'') (Dot (Dot (Dot (V 4) ''c'') ''c'') ''length'')) [Do (SetV 3 (Call ''JD'' [Call ''Imb'' [V 4], K (JNum 17)])), Do (SetV 5 (Dot (Dot (V 3) ''d'') ''i'')), Do (And (Neg (Loose (V 1) (V 5))) (Cond (Bin Lt (Dot (V 5) ''p'') (K (JNum 0))) (Meth (V 2) ''Ec'' [V 3]) (And (Bin Gt (Dot (V 5) ''p'') (K (JNum 0))) (Call ''kCc'' [V 0, V 5, V 2]))))] []] [], Do (Put (V 1) ''p'' (K (JNum 0)))],
    fn ''Wb'' 1 4 [Do (SetV 1 (Call ''bhb'' [Call ''hhb'' [New ''nhb'' [K (JStr ''Predicates.'')], K (JStr ''and'')], K (JNum 40)])), Do (SetV 2 (K (JBool True))), Do (SetV 4 (New ''Njb'' [V 0])), Loop (Bin Lt (Dot (V 4) ''b'') (Meth (Dot (V 4) ''d'') ''gc'' [])) [Do (SetV 3 (Seq (Call ''LDb'' [Bin Lt (Dot (V 4) ''b'') (Meth (Dot (V 4) ''d'') ''gc'' [])]) (Meth (Dot (V 4) ''d'') ''Xb'' [Put (V 4) ''c'' (Bin Minus (Put (V 4) ''b'' (Bin Minus (Dot (V 4) ''b'') (K (JNum (- 1))))) (K (JNum 1)))]))), Do (Or (V 2) (Seq (Put (V 1) ''a'' (Bin Plus (Dot (V 1) ''a'') (K (JStr '','')))) (V 1))), Do (Put (V 1) ''a'' (Bin Plus (Dot (V 1) ''a'') (Bin Plus (K (JStr '''')) (V 3)))), Do (SetV 2 (K (JBool False)))] [], Ret (Dot (Seq (Put (V 1) ''a'' (Bin Plus (Dot (V 1) ''a'') (K (JStr '')'')))) (V 1)) ''a'')],
    fn ''vac'' 3 3 [When (Bin Le (V 2) (Bin Plus (V 1) (K (JNum 2)))) [Ret (K JUndef)] [], Do (SetV 4 (Bin DivInt (Bin Minus (V 2) (V 1)) (K (JNum 2)))), Do (SetV 3 (K (JNum 0))), Loop (Bin Lt (V 3) (V 4)) [Do (SetV 5 (Seq (Call ''MDb'' [Bin Plus (V 1) (V 3), Dot (Dot (V 0) ''c'') ''length'']) (Call ''JD'' [Idx (Dot (V 0) ''c'') (Bin Plus (V 1) (V 3)), K (JNum 12)]))), Do (Call ''imb'' [V 0, Bin Plus (V 1) (V 3), Seq (Call ''MDb'' [Bin Minus (Bin Minus (V 2) (V 3)) (K (JNum 1)), Dot (Dot (V 0) ''c'') ''length'']) (Call ''JD'' [Idx (Dot (V 0) ''c'') (Bin Minus (Bin Minus (V 2) (V 3)) (K (JNum 1))), K (JNum 12)])]), Do (Call ''MDb'' [Bin Minus (Bin Minus (V 2) (V 3)) (K (JNum 1)), Dot (Dot (V 0) ''c'') ''length'']), Do (PutIdx (Dot (V 0) ''c'') (Bin Minus (Bin Minus (V 2) (V 3)) (K (JNum 1))) (V 5))] [Do (SetV 3 (Bin Minus (V 3) (K (JNum (- 1)))))]],
    fn ''m0c'' 2 3 [When (Neg (Loose (Dot (Dot (V 1) ''c'') ''length'') (K (JNum 0)))) [Do (SetV 2 (Call ''n0c'' [V 0, V 1])), Do (SetV 4 (K (JBool False))), Loop (Neg (V 2)) [Do (Call ''Y_c'' [V 0, V 1, K (JBool True)]), Do (SetV 4 (K (JBool True))), Do (SetV 2 (Call ''n0c'' [V 0, V 1]))] [], Do (And (V 4) (Call ''Y_c'' [V 0, V 1, K (JBool False)])), Do (SetV 3 (Call ''w_c'' [V 1])), Do (And (Neg (Neg (Dot (V 0) ''b''))) (Meth (Dot (V 0) ''b'') ''Fg'' [V 3])), Do (Put (V 0) ''a'' (Call ''l0c'' [V 0, Seq (Call ''MDb'' [K (JNum 0), Dot (Dot (V 1) ''c'') ''length'']) (Call ''JD'' [Idx (Dot (V 1) ''c'') (K (JNum 0)), K (JNum 26)])])), Do (Call ''m0c'' [V 0, V 3])] []],
    fn ''wtd'' 2 3 [Do (SetV 3 (Call ''IWd'' [Meth (V 0) ''Ah'' [], V 1])), Do (SetV 2 (Bin Minus (V 1) (Meth (V 0) ''gi'' []))), When (Bin Lt (V 2) (K (JNum 0))) [When (Neg (V 3)) [Raise (Call ''Lcb'' [New ''kfb'' [Bin Plus (Bin Plus (G ''YFe'') (V 1)) (G ''ZFe'')]])] [When (Meth (V 3) ''pk'' []) [Do (SetV 4 (Meth (V 0) ''Fh'' [V 3])), Do (Cond (Bin Ge (V 4) (K (JNum 0))) (Meth (V 0) ''hi'' [V 4]) (Call ''ptd'' [V 0, V 3]))] [Raise (Call ''Lcb'' [New ''kfb'' [Bin Plus (Bin Plus (G ''UFe'') (Meth (V 3) ''ve'' [])) (G ''VFe'')]])]]] [Do (Call ''$sd'' [V 0, V 2, V 3])]],
    fn ''WAd'' 1 2 [Do (SetV 2 (K JNull)), Do (SetV 1 (K (JBool False))), When (Call ''RD'' [V 0, K (JNum 210)]) [Do (SetV 1 (K (JBool True))), Do (SetV 2 (Dot (Call ''JD'' [V 0, K (JNum 210)]) ''a''))] [], When (Neg (V 1)) [When (Call ''RD'' [V 0, K (JNum 265)]) [Do (SetV 1 (K (JBool True))), Do (SetV 2 (Bin Plus (K (JStr '''')) (Dot (Call ''JD'' [V 0, K (JNum 265)]) ''a'')))] []] [], When (Neg (V 1)) [When (Call ''RD'' [V 0, K (JNum 479)]) [Do (SetV 1 (K (JBool True))), Do (SetV 2 (Bin Plus (K (JStr '''')) (Dot (Call ''JD'' [V 0, K (JNum 479)]) ''a'')))] []] [], When (Neg (V 1)) [Raise (Call ''Lcb'' [New ''Kdb'' [G ''EGe'']])] [], Ret (V 2)],
    fn ''tee'' 3 6 [Do (SetV 8 (Call ''Cie'' [Meth (Dot (V 0) ''e'') ''Ah'' [], V 1])), Do (SetV 3 (K (JNum 0))), Do (SetV 7 (Dot (V 0) ''i'')), Do (SetV 4 (Call ''JD'' [Dot (V 0) ''g'', K (JNum 122)])), Do (SetV 6 (K (JNum 0))), Loop (Bin Lt (V 6) (Dot (V 0) ''i'')) [Do (SetV 5 (Idx (V 4) (V 6))), When (Meth (V 8) ''$l'' [Meth (V 5) ''Jk'' []]) [When (Loose (V 2) (V 3)) [Ret (V 6)] [], Do (SetV 3 (Bin Minus (V 3) (K (JNum (- 1))))), Do (SetV 7 (Bin Plus (V 6) (K (JNum 1))))] []] [Do (SetV 6 (Bin Minus (V 6) (K (JNum (- 1)))))], When (Loose (V 2) (V 3)) [Ret (V 7)] [Raise (Call ''Lcb'' [New ''Fdb'' [Bin Plus (Bin Plus (Bin Plus (G ''SHe'') (V 2)) (G ''YGe'')) (V 3)]])]],
    fn ''i6b'' 2 4 [When (Loose (Dot (Dot (Dot (V 0) ''f'') ''c'') ''length'') (K (JNum 0))) [Ret (K JNull)] [Do (SetV 5 (New ''Ofd'' [])), Do (SetV 3 (New ''Kmb'' [Dot (V 0) ''f''])), Loop (Bin Lt (Dot (V 3) ''a'') (Dot (Dot (Dot (V 3) ''c'') ''c'') ''length'')) [Do (SetV 2 (Call ''JD'' [Call ''Imb'' [V 3], K (JNum 70)])), Do (SetV 4 (Dot (V 2) ''o'')), Do (Put (V 5) ''b'' (Meth (Dot (G ''$wnd'') ''Math'') ''max'' [Dot (V 5) ''b'', Dot (V 4) ''a''])), Do (Put (V 5) ''a'' (Bin Plus (Dot (V 5) ''a'') (Dot (V 4) ''b'')))] [], Do (Put (V 5) ''a'' (Bin Plus (Dot (V 5) ''a'') (Bin Times (Bin Minus (Dot (Dot (Dot (V 0) ''f'') ''c'') ''length'') (K (JNum 1))) (V 1)))), Ret (V 5)]],
    fn ''Qjc'' 1 4 [Do (SetV 3 (Dot (Dot (Dot (V 0) ''a'') ''d'') ''j'')), Do (SetV 4 (Dot (Dot (Dot (V 0) ''a'') ''d'') ''j'')), Do (SetV 2 (New ''Kmb'' [Dot (Dot (V 0) ''i'') ''d''])), Loop (Bin Lt (Dot (V 2) ''a'') (Dot (Dot (Dot (V 2) ''c'') ''c'') ''length'')) [Do (SetV 1 (Call ''JD'' [Call ''Imb'' [V 2], K (JNum 70)])), Do (Call ''rNb'' [V 1, Seq (Call ''nyc'' []) (G ''fwc''), K JNull])] [], Do (Cond (Or (Loose (V 3) (Seq (Call ''Bmd'' []) (G ''hmd''))) (Loose (V 4) (G ''hmd''))) (Call ''Tjc'' [V 0, G ''ymd'', Seq (Call ''phc'' []) (G ''lhc''), K JNull]) (Call ''Tjc'' [V 0, G ''hmd'', Seq (Call ''phc'' []) (G ''lhc''), K JNull]))],
    fn ''oDc'' 1 4 [Do (Put (V 0) ''e'' (K (JNum 0))), Do (SetV 4 (Call ''Ztb'' [Dot (V 0) ''f'', K (JNum 0)])), Loop (Neg (Loose (Dot (V 4) ''b'') (Dot (Dot (V 4) ''d'') ''c''))) [Do (SetV 3 (Call ''JD'' [Call ''lub'' [V 4], K (JNum 9)])), When (Bin Ge (Dot (V 3) ''p'') (Dot (Dot (Dot (Dot (V 0) ''d'') ''b'') ''c'') ''length'')) [Do (SetV 1 (New ''y$b'' [Dot (V 0) ''d''])), Do (Put (V 1) ''p'' (Bin Minus (Dot (V 3) ''p'') (K (JNum 1)))), Do (Call ''_lb'' [Dot (Dot (V 0) ''d'') ''b'', V 1]), Do (SetV 2 (New ''y$b'' [Dot (V 0) ''d''])), Do (Put (V 2) ''p'' (Dot (V 3) ''p'')), Do (Call ''_lb'' [Dot (Dot (V 0) ''d'') ''b'', V 2])] [], Do (Call ''NYb'' [V 3, Call ''JD'' [Call ''dmb'' [Dot (Dot (V 0) ''d'') ''b'', Dot (V 3) ''p''], K (JNum 25)]])] []],
    fn ''aLc'' 1 4 [Do (SetV 2 (New ''dub'' [])), Do (Call ''xe'' [V 2, Dot (V 0) ''o'']), Do (SetV 3 (New ''Mxb'' [])), Loop (Neg (Loose (Dot (V 2) ''b'') (K (JNum 0)))) [Do (SetV 1 (Call ''JD'' [Cond (Loose (Dot (V 2) ''b'') (K (JNum 0))) (K JNull) (Seq (Call ''LDb'' [Neg (Loose (Dot (V 2) ''b'') (K (JNum 0)))]) (Call ''bub'' [V 2, Dot (Dot (V 2) ''a'') ''a''])), K (JNum 501)])), Do (SetV 4 (Call ''TKc'' [V 0, V 1, K (JBool True)])), Do (And (V 4) (Call ''_lb'' [Dot (V 3) ''a'', V 1]))] [], Loop (Neg (Loose (Dot (Dot (Dot (V 3) ''a'') ''c'') ''length'') (K (JNum 0)))) [Do (SetV 1 (Call ''JD'' [Call ''Kxb'' [V 3], K (JNum 501)])), Do (Call ''TKc'' [V 0, V 1, K (JBool False)])] []],
    fn ''xed'' 1 1 [Do (Put This ''c'' (New ''dub'' [])), Do (Put This ''f'' (Dot (V 0) ''e'')), Do (Put This ''e'' (Dot (V 0) ''d'')), Do (Put This ''i'' (Dot (V 0) ''g'')), Do (Put This ''d'' (Dot (V 0) ''c'')), Do (Put This ''b'' (Dot (V 0) ''b'')), Do (Put This ''k'' (Dot (V 0) ''j'')), Do (Put This ''a'' (Dot (V 0) ''a'')), Do (Cond (Neg (Dot (V 0) ''i'')) (Put This ''j'' (Seq (SetV 1 (Call ''JD'' [Call ''web'' [G ''j2''], K (JNum 10)])) (New ''Nrb'' [V 1, Call ''JD'' [Call ''nDb'' [V 1, Dot (V 1) ''length''], K (JNum 10)], K (JNum 0)]))) (Put This ''j'' (Dot (V 0) ''i''))), Do (Put This ''g'' (Dot (V 0) ''f''))],
    fn ''hfd'' 0 0 [Do (SetG ''hfd'' (G ''qdb'')), Do (SetG ''gfd'' (New ''ifd'' [G ''Ywe'', K (JNum 0)])), Do (SetG ''_ed'' (New ''ifd'' [K (JStr ''BOOLEAN''), K (JNum 1)])), Do (SetG ''dfd'' (New ''ifd'' [K (JStr ''INT''), K (JNum 2)])), Do (SetG ''ffd'' (New ''ifd'' [K (JStr ''STRING''), K (JNum 3)])), Do (SetG ''afd'' (New ''ifd'' [K (JStr ''DOUBLE''), K (JNum 4)])), Do (SetG ''bfd'' (New ''ifd'' [K (JStr ''ENUM''), K (JNum 5)])), Do (SetG ''cfd'' (New ''ifd'' [K (JStr ''ENUMSET''), K (JNum 6)])), Do (SetG ''efd'' (New ''ifd'' [K (JStr ''OBJECT''), K (JNum 7)]))],
    fn ''Nfd'' 2 5 [Do (SetV 3 (Meth (Dot (G ''$wnd'') ''Math'') ''min'' [Dot (V 0) ''c'', Dot (V 1) ''c''])), Do (SetV 5 (Meth (Dot (G ''$wnd'') ''Math'') ''min'' [Dot (V 0) ''d'', Dot (V 1) ''d''])), Do (SetV 4 (Meth (Dot (G ''$wnd'') ''Math'') ''max'' [Bin Plus (Dot (V 0) ''c'') (Dot (V 0) ''b''), Bin Plus (Dot (V 1) ''c'') (Dot (V 1) ''b'')])), Do (SetV 6 (Meth (Dot (G ''$wnd'') ''Math'') ''max'' [Bin Plus (Dot (V 0) ''d'') (Dot (V 0) ''a''), Bin Plus (Dot (V 1) ''d'') (Dot (V 1) ''a'')])), When (Bin Lt (V 4) (V 3)) [Do (SetV 2 (V 3)), Do (SetV 3 (V 4)), Do (SetV 4 (V 2))] [], When (Bin Lt (V 6) (V 5)) [Do (SetV 2 (V 5)), Do (SetV 5 (V 6)), Do (SetV 6 (V 2))] [], Do (Call ''Mfd'' [V 0, V 3, V 5, Bin Minus (V 4) (V 3), Bin Minus (V 6) (V 5)])],
    fn ''z1d'' 2 2 [When (Dot (V 0) ''f'') [Loop (Meth (V 1) ''Ob'' []) [Do (SetV 2 (Call ''JD'' [Meth (V 1) ''Pb'' [], K (JNum 75)])), Do (SetV 3 (Meth (V 2) ''Jk'' [])), When (And (And (And (Call ''RD'' [V 3, K (JNum 103)]) (Neg (Loose (Bin BitAnd (Dot (Call ''JD'' [V 3, K (JNum 19)]) ''Bb'') (G ''$Fe'')) (K (JNum 0))))) (Or (Or (Neg (Dot (V 0) ''e'')) (Neg (Loose (Meth (V 3) ''nk'' []) (G ''M3'')))) (Neg (Loose (Meth (V 3) ''Jj'' []) (K (JNum 0)))))) (Neg (Loose (Meth (V 2) ''kd'' []) (K JNull)))) [Do (Meth (V 1) ''Ub'' []), Ret (K (JBool True))] []] [], Ret (K (JBool False))] [Ret (Meth (V 1) ''Ob'' [])]],
    fn ''B1d'' 2 2 [When (Dot (V 0) ''f'') [Loop (Meth (V 1) ''Sb'' []) [Do (SetV 2 (Call ''JD'' [Meth (V 1) ''Ub'' [], K (JNum 75)])), Do (SetV 3 (Meth (V 2) ''Jk'' [])), When (And (And (And (Call ''RD'' [V 3, K (JNum 103)]) (Neg (Loose (Bin BitAnd (Dot (Call ''JD'' [V 3, K (JNum 19)]) ''Bb'') (G ''$Fe'')) (K (JNum 0))))) (Or (Or (Neg (Dot (V 0) ''e'')) (Neg (Loose (Meth (V 3) ''nk'' []) (G ''M3'')))) (Neg (Loose (Meth (V 3) ''Jj'' []) (K (JNum 0)))))) (Neg (Loose (Meth (V 2) ''kd'' []) (K JNull)))) [Do (Meth (V 1) ''Pb'' []), Ret (K (JBool True))] []] [], Ret (K (JBool False))] [Ret (Meth (V 1) ''Sb'' [])]],
    fn ''yie'' 0 0 [Do (SetG ''yie'' (G ''qdb'')), Do (SetG ''vie'' (Call ''WC'' [Call ''OC'' [G ''hJ'', K (JNum 1)], G ''aue'', K (JNum 2), K (JNum 6), NewArr [G ''cJe'', G ''dJe'', G ''eJe'', G ''fJe'', G ''gJe'', G ''hJe'', G ''QGe'']])), Do (SetG ''uie'' (Call ''WC'' [Call ''OC'' [G ''hJ'', K (JNum 1)], G ''aue'', K (JNum 2), K (JNum 6), NewArr [G ''cJe'', K (JStr ''empty''), G ''dJe'', G ''AIe'', K (JStr ''elementOnly'')]])), Do (SetG ''xie'' (Call ''WC'' [Call ''OC'' [G ''hJ'', K (JNum 1)], G ''aue'', K (JNum 2), K (JNum 6), NewArr [G ''cJe'', K (JStr ''preserve''), K (JStr ''replace''), G ''iJe'']])), Do (SetG ''wie'' (New ''jde'' []))],
    fn ''LXb'' 3 3 [When (Loose (V 1) (V 2)) [Ret (K JUndef)] [], Do (SetV 3 (V 1)), Loop (K (JBool True)) [Do (Call ''Vfd'' [V 0, Dot (V 3) ''c'']), Do (SetV 4 (Dot (V 3) ''e'')), When (V 4) [Do (SetV 5 (Dot (V 3) ''d'')), Do (Call ''Ufd'' [V 0, Dot (V 5) ''b'', Dot (V 5) ''d'']), Do (Call ''Vfd'' [V 0, Dot (V 4) ''n'']), Do (SetV 3 (Call ''DYb'' [V 4]))] []] [When (V 4) [] [Break]], Do (SetV 3 (V 2)), Loop (K (JBool True)) [Do (Call ''igd'' [V 0, Dot (V 3) ''c'']), Do (SetV 4 (Dot (V 3) ''e'')), When (V 4) [Do (SetV 5 (Dot (V 3) ''d'')), Do (Call ''hgd'' [V 0, Dot (V 5) ''b'', Dot (V 5) ''d'']), Do (Call ''igd'' [V 0, Dot (V 4) ''n'']), Do (SetV 3 (Call ''DYb'' [V 4]))] []] [When (V 4) [] [Break]]],
    fn ''fgc'' 4 5 [When (Loose (Bin Plus (Dot (Dot (V 3) ''f'') ''c'') (Dot (Dot (V 3) ''i'') ''c'')) (K (JNum 0))) [Do (Seq (Seq (SetV 6 (Idx (Dot (V 0) ''a'') (Dot (V 0) ''c''))) (SetV 7 (K (JNum 0)))) (SetV 8 (Dot (V 6) ''length''))), Loop (Bin Lt (V 7) (V 8)) [Do (SetV 5 (Idx (V 6) (V 7))), Do (Call ''hjb'' [V 3, V 5, New ''ogc'' [V 0, V 5, V 2]])] [Do (SetV 7 (Bin Minus (V 7) (K (JNum (- 1)))))]] [], Do (SetV 4 (Call ''JD'' [Call ''Wd'' [Call ''ysb'' [Dot (V 3) ''f'', V 1]], K (JNum 667)])), Do (Put (V 4) ''b'' (K (JNum 0))), Do (Put (V 4) ''c'' (Dot (V 4) ''f'')), Do (Or (Loose (Dot (V 4) ''c'') (K (JNum 0))) (Call ''rgc'' [Call ''JD'' [Call ''dmb'' [Dot (V 4) ''a'', Dot (V 4) ''b''], K (JNum 295)]])), Ret (V 4)],
    fn ''ehc'' 1 1 [Do (Put This ''j'' (New ''lmb'' [])), Do (Put This ''f'' (New ''hsb'' [])), Do (Put This ''b'' (Seq (SetV 1 (Call ''JD'' [Call ''web'' [G ''M2''], K (JNum 10)])) (New ''Nrb'' [V 1, Call ''JD'' [Call ''nDb'' [V 1, Dot (V 1) ''length''], K (JNum 10)], K (JNum 0)]))), Do (Put This ''d'' (Call ''SC'' [G ''cE'', G ''bve'', K (JNum 30), Dot (Seq (Call ''Bmd'' []) (Call ''WC'' [Call ''OC'' [G ''M2'', K (JNum 1)], G ''sye'', K (JNum 64), K (JNum 0), NewArr [G ''zmd'', G ''hmd'', G ''gmd'', G ''ymd'', G ''Amd'']])) ''length'', K (JNum 15), K (JNum 1)])), Do (Put This ''g'' (V 0))],
    fn ''Fnc'' 0 0 [Do (SetG ''Fnc'' (G ''qdb'')), Do (SetG ''Bnc'' (New ''Gnc'' [K (JStr ''MEDIAN_LAYER''), K (JNum 0)])), Do (SetG ''Dnc'' (New ''Gnc'' [K (JStr ''TAIL_LAYER''), K (JNum 1)])), Do (SetG ''Anc'' (New ''Gnc'' [K (JStr ''HEAD_LAYER''), K (JNum 2)])), Do (SetG ''Cnc'' (New ''Gnc'' [K (JStr ''SPACE_EFFICIENT_LAYER''), K (JNum 3)])), Do (SetG ''Enc'' (New ''Gnc'' [K (JStr ''WIDEST_LAYER''), K (JNum 4)])), Do (SetG ''znc'' (New ''Gnc'' [K (JStr ''CENTER_LAYER''), K (JNum 5)]))],
    fn ''mSc'' 3 3 [When (Neg (Idx (Dot (V 0) ''b'') (Dot (V 1) ''g''))) [Do (PutIdx (Dot (V 0) ''b'') (Dot (V 1) ''g'') (K (JBool True))), Do (SetV 3 (V 2)), Do (And (Neg (V 3)) (SetV 3 (New ''HTc'' []))), Do (Call ''Ttb'' [Dot (V 3) ''b'', V 1]), Do (SetV 5 (Meth (Idx (Dot (V 0) ''a'') (Dot (V 1) ''g'')) ''Jc'' [])), Loop (Meth (V 5) ''Ob'' []) [Do (SetV 4 (Call ''JD'' [Meth (V 5) ''Pb'' [], K (JNum 65)])), Do (And (Neg (Loose (Dot (V 4) ''b'') (V 1))) (Call ''mSc'' [V 0, Dot (V 4) ''b'', V 3])), Do (And (Neg (Loose (Dot (V 4) ''c'') (V 1))) (Call ''mSc'' [V 0, Dot (V 4) ''c'', V 3])), Do (Call ''Ttb'' [Dot (V 3) ''a'', V 4])] [], Ret (V 3)] [], Ret (K JNull)],
    fn ''NJb'' 1 0 [Switch (Dot (V 0) ''g'') [(Some (JNum 0), []), (Some (JNum 1), []), (Some (JNum 2), [Ret (Seq (Call ''Bmd'' []) (G ''hmd''))]), (Some (JNum 3), []), (Some (JNum 4), []), (Some (JNum 5), [Ret (Seq (Call ''Bmd'' []) (G ''ymd''))]), (Some (JNum 6), []), (Some (JNum 7), []), (Some (JNum 8), [Ret (Seq (Call ''Bmd'' []) (G ''Amd''))]), (Some (JNum 9), []), (Some (JNum 10), []), (Some (JNum 11), [Ret (Seq (Call ''Bmd'' []) (G ''gmd''))]), (None, [Ret (Seq (Call ''Bmd'' []) (G ''zmd''))])]],
    fn ''BLc'' 2 1 [When (Loose (Dot (Dot (V 0) ''c'') ''length'') (K (JNum 0))) [Ret (K (JBool False))] [], Do (SetV 2 (Call ''ozc'' [Dot (Dot (Seq (Call ''MDb'' [K (JNum 0), Dot (Dot (V 0) ''c'') ''length'']) (Call ''JD'' [Idx (Dot (V 0) ''c'') (K (JNum 0)), K (JNum 17)])) ''c'') ''i''])), Do (Call ''OKc'' []), When (Or (Loose (V 2) (Seq (Call ''lzc'' []) (G ''izc''))) (Loose (V 2) (G ''hzc''))) [Ret (K (JBool True))] [], Ret (Call ''RBb'' [Call ''ZBb'' [New ''jCb'' [K JNull, New ''Zvb'' [V 0, K (JNum 16)]], New ''JLc'' []], New ''LLc'' [V 1]])],
    fn ''pBd'' 2 0 [When (Call ''RD'' [V 1, K (JNum 206)]) [Ret (Call ''cBd'' [V 0, Call ''JD'' [V 1, K (JNum 26)]])] [When (Call ''RD'' [V 1, K (JNum 193)]) [Ret (Call ''dBd'' [V 0, Call ''JD'' [V 1, K (JNum 125)]])] [When (Call ''RD'' [V 1, K (JNum 443)]) [Ret (Call ''bBd'' [V 0, Call ''JD'' [V 1, K (JNum 170)]])] [Raise (Call ''Lcb'' [New ''kfb'' [Bin Plus (G ''HGe'') (Call ''Ee'' [New ''wnb'' [Call ''WC'' [Call ''OC'' [G ''aJ'', K (JNum 1)], G ''Gte'', K (JNum 1), K (JNum 5), NewArr [V 1]]]])]])]]]],
    fn ''Fu'' 3 2 [Do (Put This ''f'' (V 0)), Do (SetV 3 (Call ''JD'' [Call ''ejb'' [Dot (V 0) ''b'', V 1], K (JNum 262)])), Do (SetV 4 (Cond (Neg (V 3)) (K (JNum 0)) (Dot (V 3) ''a''))), Do (Call ''Sb'' [V 2, V 4]), When (Bin Ge (V 2) (Bin DivInt (V 4) (K (JNum 2)))) [Do (Put This ''e'' (Cond (Neg (V 3)) (K JNull) (Dot (V 3) ''c''))), Do (Put This ''d'' (V 4)), Loop (Bin Lt (Bin Minus (SetV 2 (Bin Minus (V 2) (K (JNum (- 1))))) (K (JNum 1))) (V 4)) [Do (Call ''Du'' [This])] []] [Do (Put This ''c'' (Cond (Neg (V 3)) (K JNull) (Dot (V 3) ''b''))), Loop (Bin Gt (Bin Minus (SetV 2 (Bin Minus (V 2) (K (JNum 1)))) (K (JNum (- 1)))) (K (JNum 0))) [Do (Call ''Cu'' [This])] []], Do (Put This ''b'' (V 1)), Do (Put This ''a'' (K JNull))]]"

definition code_5145_5154 :: "(string \<times> jfun) list" where
  "code_5145_5154 = [
    fn ''BFb'' 2 2 [Do (Cond (Dot (V 1) ''a'') (Call ''CFb'' [V 0, V 1]) (Seq (Seq (Seq (Seq (Seq (SetV 2 (Call ''JD'' [Call ''Czb'' [Dot (V 0) ''b'', Dot (V 1) ''b''], K (JNum 60)])) (And (And (And (And (Neg (Neg (V 2))) (Loose (V 2) (Idx (Dot (V 0) ''a'') (Dot (Dot (V 1) ''b'') ''f'')))) (Neg (Neg (Dot (V 2) ''a'')))) (Neg (Loose (Dot (V 2) ''a'') (Dot (Dot (V 1) ''b'') ''a'')))) (Meth (Dot (V 2) ''c'') ''Ec'' [Dot (V 1) ''b'']))) (SetV 3 (Call ''JD'' [Call ''Bzb'' [Dot (V 0) ''b'', Dot (V 1) ''b''], K (JNum 60)]))) (And (And (And (And (Neg (Neg (V 3))) (Loose (Idx (Dot (V 0) ''a'') (Dot (V 3) ''f'')) (Dot (V 1) ''b''))) (Neg (Neg (Dot (V 3) ''a'')))) (Neg (Loose (Dot (V 3) ''a'') (Dot (Dot (V 1) ''b'') ''a'')))) (Meth (Dot (Dot (V 1) ''b'') ''c'') ''Ec'' [V 3]))) (Call ''Dzb'' [Dot (V 0) ''b'', Dot (V 1) ''b''])) (K JUndef)))],
    fn ''_Jb'' 2 2 [Do (SetV 2 (Call ''JD'' [Call ''brb'' [Dot (V 0) ''b'', V 1], K (JNum 127)])), When (Meth (Call ''JD'' [Call ''JD'' [Call ''Qc'' [Dot (V 0) ''r'', V 1], K (JNum 22)], K (JNum 83)]) ''dc'' []) [Do (Put (Dot (V 2) ''n'') ''b'' (K (JNum 0))), Do (Put (Dot (V 2) ''n'') ''c'' (K (JNum 0))), Ret (K JUndef)] [], Do (Put (Dot (V 2) ''n'') ''b'' (Dot (Dot (V 0) ''C'') ''b'')), Do (Put (Dot (V 2) ''n'') ''c'' (Dot (Dot (V 0) ''C'') ''c'')), Do (And (Meth (Dot (V 0) ''A'') ''Gc'' [Seq (Call ''ind'' []) (G ''hnd'')]) (Call ''eKb'' [V 0, V 1])), Do (SetV 3 (Call ''dKb'' [V 0, V 1])), Do (And (Loose (Call ''eJb'' [V 0, V 1]) (Seq (Call ''Ald'' []) (G ''xld''))) (SetV 3 (Bin Plus (V 3) (Bin Times (K (JNum 2)) (Dot (V 0) ''w''))))), Do (Put (Dot (V 2) ''a'') ''a'' (V 3))],
    fn ''iLb'' 2 2 [Do (SetV 2 (Call ''JD'' [Call ''brb'' [Dot (V 0) ''b'', V 1], K (JNum 127)])), When (Meth (Call ''JD'' [Call ''JD'' [Call ''Qc'' [Dot (V 0) ''r'', V 1], K (JNum 22)], K (JNum 83)]) ''dc'' []) [Do (Put (Dot (V 2) ''n'') ''d'' (K (JNum 0))), Do (Put (Dot (V 2) ''n'') ''a'' (K (JNum 0))), Ret (K JUndef)] [], Do (Put (Dot (V 2) ''n'') ''d'' (Dot (Dot (V 0) ''C'') ''d'')), Do (Put (Dot (V 2) ''n'') ''a'' (Dot (Dot (V 0) ''C'') ''a'')), Do (And (Meth (Dot (V 0) ''A'') ''Gc'' [Seq (Call ''ind'' []) (G ''hnd'')]) (Call ''mLb'' [V 0, V 1])), Do (SetV 3 (Call ''lLb'' [V 0, V 1])), Do (And (Loose (Call ''eJb'' [V 0, V 1]) (Seq (Call ''Ald'' []) (G ''xld''))) (SetV 3 (Bin Plus (V 3) (Bin Times (K (JNum 2)) (Dot (V 0) ''w''))))), Do (Put (Dot (V 2) ''a'') ''b'' (V 3))],
    fn ''xMb'' 2 4 [Do (SetV 5 (New ''lmb'' [])), Do (SetV 3 (New ''Kmb'' [V 1])), Loop (Bin Lt (Dot (V 3) ''a'') (Dot (Dot (Dot (V 3) ''c'') ''c'') ''length'')) [Do (SetV 2 (Call ''JD'' [Call ''Imb'' [V 3], K (JNum 68)])), Do (Call ''_lb'' [V 5, New ''JMb'' [V 2, K (JBool True)]]), Do (Call ''_lb'' [V 5, New ''JMb'' [V 2, K (JBool False)]])] [], Do (SetV 4 (New ''CMb'' [V 0])), Do (Meth (Dot (Dot (V 4) ''a'') ''a'') ''$b'' []), Do (Call ''uEb'' [V 5, Dot (V 0) ''b'', New ''wnb'' [Call ''WC'' [Call ''OC'' [G ''FM'', K (JNum 1)], G ''Gte'', K (JNum 683), K (JNum 0), NewArr [V 4]]]])],
    fn ''L0b'' 2 3 [Do (Meth (V 1) ''Tg'' [K (JStr ''End label pre-processing''), K (JNum 1)]), Do (SetV 2 (Call ''Ueb'' [Call ''MD'' [Call ''oNb'' [V 0, Seq (Call ''nyc'' []) (G ''Kxc'')]]])), Do (SetV 3 (Call ''Ueb'' [Call ''MD'' [Call ''oNb'' [V 0, G ''Oxc'']]])), Do (SetV 4 (Call ''Fjd'' [Call ''JD'' [Call ''oNb'' [V 0, G ''bwc''], K (JNum 86)]])), Do (Call ''YBb'' [Call ''XBb'' [New ''jCb'' [K JNull, New ''Zvb'' [Dot (V 0) ''b'', K (JNum 16)]], New ''T0b'' []], New ''V0b'' [V 2, V 3, V 4]]), Do (Meth (V 1) ''Ug'' [])],
    fn ''SBc'' 2 3 [When (Idx (Dot (V 0) ''d'') (Dot (V 1) ''p'')) [Ret (K JUndef)] [], Do (PutIdx (Dot (V 0) ''d'') (Dot (V 1) ''p'') (K (JBool True))), Do (PutIdx (Dot (V 0) ''a'') (Dot (V 1) ''p'') (K (JBool True))), Do (SetV 3 (New ''Yr'' [Call ''Dr'' [Meth (Dot (Call ''HYb'' [V 1]) ''a'') ''Jc'' [], New ''Dl'' []]])), Loop (Call ''Wr'' [V 3]) [Do (SetV 2 (Call ''JD'' [Call ''Xr'' [V 3], K (JNum 17)])), When (Call ''AWb'' [V 2]) [Continue] [], Do (SetV 4 (Dot (Dot (V 2) ''d'') ''i'')), Do (Cond (Idx (Dot (V 0) ''a'') (Dot (V 4) ''p'')) (Call ''_lb'' [Dot (V 0) ''b'', V 2]) (Call ''SBc'' [V 0, V 4]))] [], Do (PutIdx (Dot (V 0) ''a'') (Dot (V 1) ''p'') (K (JBool False)))],
    fn ''gCc'' 3 1 [Do (SetV 3 (K (JNum 0))), Switch (Dot (Call ''JD'' [Call ''oNb'' [V 1, Seq (Call ''nyc'' []) (G ''Ewc'')], K (JNum 165)]) ''g'') [(Some (JNum 2), [Do (SetV 3 (Bin Plus (Bin Times (K (JNum 2)) (Minus1 (V 2))) (Dot (V 0) ''a''))), Do (Put (V 0) ''a'' (Bin Minus (Dot (V 0) ''a'') (K (JNum (- 1))))), Break]), (Some (JNum 1), [Do (SetV 3 (Minus1 (V 2))), Break]), (Some (JNum 3), [Do (SetV 3 (V 2)), Break]), (Some (JNum 4), [Do (SetV 3 (Bin Plus (Bin Times (K (JNum 2)) (V 2)) (Dot (V 0) ''b''))), Do (Put (V 0) ''b'' (Bin Minus (Dot (V 0) ''b'') (K (JNum (- 1)))))])], Do (And (Call ''pNb'' [V 1, Seq (Call ''Wrc'' []) (G ''trc'')]) (SetV 3 (Bin Plus (V 3) (Dot (Call ''JD'' [Call ''oNb'' [V 1, G ''trc''], K (JNum 15)]) ''a'')))), Ret (V 3)],
    fn ''sPc'' 3 3 [Do (Meth (V 2) ''yc'' [V 1, V 0]), Do (Call ''_lb'' [Dot (V 0) ''n'', V 1]), Do (SetV 5 (Meth (Dot (V 0) ''p'') ''yg'' [V 1])), Do (Cond (Loose (Dot (V 1) ''j'') (Meth (Dot (V 0) ''p'') ''zg'' [])) (Call ''HPc'' [Dot (V 0) ''e'', V 5]) (Call ''HPc'' [Dot (V 0) ''j'', V 5])), Do (Call ''uPc'' [V 0]), Do (SetV 4 (Call ''Gl'' [Call ''yl'' [Call ''WC'' [Call ''OC'' [G ''VI'', K (JNum 1)], G ''Gte'', K (JNum 20), K (JNum 0), NewArr [New ''AZb'' [V 1], New ''IZb'' [V 1]]]]])), Loop (Call ''Wr'' [V 4]) [Do (SetV 3 (Call ''JD'' [Call ''Xr'' [V 4], K (JNum 12)])), Do (Or (Meth (V 2) ''_b'' [V 3]) (Call ''sPc'' [V 0, V 3, V 2]))] []],
    fn ''aWc'' 3 3 [Do (Meth (V 2) ''Tg'' [K (JStr ''Processor set neighbors''), K (JNum 1)]), Do (Put (V 0) ''a'' (Cond (Loose (Dot (Dot (V 1) ''b'') ''b'') (K (JNum 0))) (K (JNum 1)) (Dot (Dot (V 1) ''b'') ''b''))), Do (SetV 4 (K JNull)), Do (SetV 3 (Call ''Ztb'' [Dot (V 1) ''b'', K (JNum 0)])), Loop (And (Neg (V 4)) (Neg (Loose (Dot (V 3) ''b'') (Dot (Dot (V 3) ''d'') ''c'')))) [Do (SetV 5 (Call ''JD'' [Call ''lub'' [V 3], K (JNum 40)])), Do (And (Call ''Rdb'' [Call ''LD'' [Call ''oNb'' [V 5, Seq (Call ''_Wc'' []) (G ''YWc'')]]]) (SetV 4 (V 5)))] [], Do (And (Neg (Neg (V 4))) (Call ''bWc'' [V 0, New ''OTc'' [V 4], V 2])), Do (Meth (V 2) ''Ug'' [])],
    fn ''Xpd'' 1 3 [Do (SetV 2 (Call ''JD'' [Call ''cvd'' [V 0, Seq (Call ''vjd'' []) (G ''iid'')], K (JNum 22)])), When (Meth (V 2) ''Gc'' [Seq (Call ''ind'' []) (G ''end'')]) [Do (SetV 3 (Call ''JD'' [Call ''cvd'' [V 0, G ''nid''], K (JNum 22)])), Do (SetV 1 (New ''mgd'' [Call ''JD'' [Call ''cvd'' [V 0, G ''lid''], K (JNum 8)]])), When (Meth (V 3) ''Gc'' [Seq (Call ''xnd'' []) (G ''qnd'')]) [Do (And (Bin Le (Dot (V 1) ''a'') (K (JNum 0))) (Put (V 1) ''a'' (K (JNum 20)))), Do (And (Bin Le (Dot (V 1) ''b'') (K (JNum 0))) (Put (V 1) ''b'' (K (JNum 20))))] [], Ret (V 1)] [Ret (New ''jgd'' [])]]]"

definition code_5156_5160 :: "(string \<times> jfun) list" where
  "code_5156_5160 = [
    fn ''Ngb'' 1 3 [Do (SetV 2 (Dot (V 0) ''length'')), Do (SetV 3 (K (JNum 0))), Loop (And (Bin Lt (V 3) (V 2)) (Seq (Call ''UDb'' [V 3, Dot (V 0) ''length'']) (Bin Le (Meth (V 0) ''charCodeAt'' [V 3]) (K (JNum 32))))) [Do (SetV 3 (Bin Minus (V 3) (K (JNum (- 1)))))] [], Do (SetV 1 (V 2)), Loop (And (Bin Gt (V 1) (V 3)) (Seq (Call ''UDb'' [Bin Minus (V 1) (K (JNum 1)), Dot (V 0) ''length'']) (Bin Le (Meth (V 0) ''charCodeAt'' [Bin Minus (V 1) (K (JNum 1))]) (K (JNum 32))))) [Do (SetV 1 (Bin Minus (V 1) (K (JNum 1))))] [], Ret (Cond (Or (Bin Gt (V 3) (K (JNum 0))) (Bin Lt (V 1) (V 2))) (Seq (Call ''TDb'' [V 3, V 1, Dot (V 0) ''length'']) (Meth (V 0) ''substr'' [V 3, Bin Minus (V 1) (V 3)])) (V 0))],
    fn ''Lkc'' 2 8 [Do (SetV 8 (Call ''JD'' [Call ''De'' [Call ''Ec'' [Dot (V 1) ''k''], Call ''SC'' [G ''M2'', G ''sye'', K (JNum 64), K (JNum 2), K (JNum 0), K (JNum 1)]], K (JNum 126)])), Do (SetV 9 (Dot (V 1) ''g'')), Do (SetV 2 (Call ''Nkc'' [V 1, Idx (V 8) (K (JNum 0))])), Do (SetV 4 (Call ''Mkc'' [V 1, Idx (V 8) (K (JNum 1))])), Do (SetV 3 (Call ''Ekc'' [V 0, V 9, V 2, V 4])), Do (SetV 5 (Call ''Nkc'' [V 1, Idx (V 8) (K (JNum 1))])), Do (SetV 7 (Call ''Mkc'' [V 1, Idx (V 8) (K (JNum 0))])), Do (SetV 6 (Call ''Ekc'' [V 0, V 9, V 5, V 7])), When (Bin Le (V 3) (V 6)) [Do (Put (V 1) ''a'' (V 2)), Do (Put (V 1) ''c'' (V 4))] [Do (Put (V 1) ''a'' (V 5)), Do (Put (V 1) ''c'' (V 7))]],
    fn ''zQc'' 5 5 [When (V 1) [Do (SetV 7 (Meth (V 1) ''Jc'' [])), Loop (Meth (V 7) ''Ob'' []) [Do (SetV 6 (Call ''JD'' [Meth (V 7) ''Pb'' [], K (JNum 9)])), Do (SetV 9 (Meth (Call ''KYb'' [V 6, Seq (Call ''qAc'' []) (G ''oAc''), V 2]) ''Jc'' [])), Loop (Meth (V 9) ''Ob'' []) [Do (SetV 8 (Call ''JD'' [Meth (V 9) ''Pb'' [], K (JNum 12)])), Do (SetV 5 (Call ''JD'' [Call ''Wd'' [Call ''ysb'' [Dot (V 4) ''f'', V 8]], K (JNum 116)])), When (Neg (V 5)) [Do (SetV 5 (New ''DPc'' [Dot (V 0) ''d''])), Do (Call ''qDb'' [Dot (V 3) ''c'', V 5]), Do (Call ''sPc'' [V 5, V 8, V 4])] []] []] []] []],
    fn ''Onb'' 1 7 [Do (Call ''Inb'' []), When (Call ''RD'' [V 0, K (JNum 59)]) [Do (Seq (SetV 5 (K (JNum 0))) (SetV 4 (Bin Minus (Meth (V 0) ''gc'' []) (K (JNum 1))))), Loop (Bin Lt (V 5) (V 4)) [Do (SetV 1 (Meth (V 0) ''Xb'' [V 5])), Do (Meth (V 0) ''fd'' [V 5, Meth (V 0) ''Xb'' [V 4]]), Do (Meth (V 0) ''fd'' [V 4, V 1])] [Do (Seq (SetV 5 (Bin Minus (V 5) (K (JNum (- 1))))) (SetV 4 (Bin Minus (V 4) (K (JNum 1)))))]] [Do (SetV 2 (Meth (V 0) ''cd'' [])), Do (SetV 6 (Meth (V 0) ''dd'' [Meth (V 0) ''gc'' []])), Loop (Bin Lt (Meth (V 2) ''Tb'' []) (Meth (V 6) ''Vb'' [])) [Do (SetV 3 (Meth (V 2) ''Pb'' [])), Do (SetV 7 (Meth (V 6) ''Ub'' [])), Do (Meth (V 2) ''Wb'' [V 7]), Do (Meth (V 6) ''Wb'' [V 3])] []]],
    fn ''FGc'' 2 6 [Do (SetV 7 (K (JNum 0))), Do (SetV 5 (New ''Glb'' [])), Do (Call ''rlb'' [V 5, V 1]), Loop (Neg (Loose (Dot (V 5) ''b'') (Dot (V 5) ''c''))) [Do (SetV 6 (Call ''JD'' [Call ''Clb'' [V 5], K (JNum 218)])), Do (SetV 7 (Bin Plus (V 7) (Call ''yIc'' [Dot (V 6) ''d'', Dot (V 6) ''e'']))), Do (SetV 4 (New ''Kmb'' [Dot (V 6) ''b''])), Loop (Bin Lt (Dot (V 4) ''a'') (Dot (Dot (Dot (V 4) ''c'') ''c'') ''length'')) [Do (SetV 3 (Call ''JD'' [Call ''Imb'' [V 4], K (JNum 36)])), Do (SetV 2 (Call ''JD'' [Call ''dmb'' [Dot (V 0) ''b'', Dot (V 3) ''p''], K (JNum 218)])), Do (Or (Dot (V 2) ''s'') (SetV 7 (Bin Plus (V 7) (Call ''FGc'' [V 0, V 2]))))] []] [], Ret (V 7)]]"

definition code_5162_5175 :: "(string \<times> jfun) list" where
  "code_5162_5175 = [
    fn ''Nbe'' 3 6 [Do (SetV 7 (Call ''JD'' [Call ''uud'' [Dot (V 0) ''a'', K (JNum 8)], K (JNum 2000)])), When (Neg (Loose (V 7) (K JNull))) [Do (Seq (Seq (SetV 4 (V 7)) (SetV 5 (K (JNum 0)))) (SetV 6 (Dot (V 4) ''length''))), Loop (Bin Lt (V 5) (V 6)) [Do (Meth (K JNull) ''Sm'' [])] [Do (SetV 5 (Bin Minus (V 5) (K (JNum (- 1)))))]] [], Do (SetV 3 (V 2)), When (Loose (Bin BitAnd (Dot (Dot (V 0) ''a'') ''Db'') (K (JNum 1))) (K (JNum 0))) [Do (SetV 8 (New ''Sbe'' [V 0, V 2, V 1])), Do (Meth (V 3) ''bj'' [V 8])] [], Do (Cond (Call ''RD'' [V 3, K (JNum 676)]) (Meth (Call ''JD'' [V 3, K (JNum 676)]) ''dj'' [Dot (V 0) ''a'']) (And (Loose (Meth (V 3) ''aj'' []) (Dot (V 0) ''a'')) (Meth (V 3) ''cj'' [K JNull])))],
    fn ''Ple'' 0 1 [When (G ''Jle'') [Ret (Call ''JD'' [Call ''$3d'' [Seq (Call ''jRd'' []) (G ''iRd''), G ''oJe''], K (JNum 2009)])] [], Do (Call ''Qle'' []), Do (SetV 0 (Call ''JD'' [Cond (Call ''RD'' [Call ''fjb'' [Seq (Call ''jRd'' []) (G ''iRd''), G ''oJe''], K (JNum 583)]) (Call ''fjb'' [G ''iRd'', G ''oJe'']) (New ''Ole'' []), K (JNum 583)])), Do (SetG ''Jle'' (K (JBool True))), Do (Call ''Mle'' [V 0]), Do (Call ''Nle'' [V 0]), Do (Call ''hjb'' [Seq (Call ''uRd'' []) (G ''tRd''), V 0, New ''Rle'' []]), Do (Call ''Nyd'' [V 0]), Do (Call ''ijb'' [G ''iRd'', G ''oJe'', V 0]), Ret (V 0)],
    fn ''FA'' 4 1 [Do (SetV 4 (Call ''wA'' [V 0, V 2, Call ''WC'' [Call ''OC'' [G ''hJ'', K (JNum 1)], G ''aue'', K (JNum 2), K (JNum 6), NewArr [G ''eve'', G ''fve'', G ''gve'', G ''hve'', G ''ive'', G ''jve'', G ''kve'']], V 1])), Do (And (Bin Lt (V 4) (K (JNum 0))) (SetV 4 (Call ''wA'' [V 0, V 2, Call ''WC'' [Call ''OC'' [G ''hJ'', K (JNum 1)], G ''aue'', K (JNum 2), K (JNum 6), NewArr [K (JStr ''Sun''), K (JStr ''Mon''), K (JStr ''Tue''), K (JStr ''Wed''), K (JStr ''Thu''), K (JStr ''Fri''), K (JStr ''Sat'')]], V 1]))), When (Bin Lt (V 4) (K (JNum 0))) [Ret (K (JBool False))] [], Do (Put (V 3) ''d'' (V 4)), Ret (K (JBool True))],
    fn ''IA'' 4 1 [Do (SetV 4 (Call ''wA'' [V 0, V 2, Call ''WC'' [Call ''OC'' [G ''hJ'', K (JNum 1)], G ''aue'', K (JNum 2), K (JNum 6), NewArr [G ''eve'', G ''fve'', G ''gve'', G ''hve'', G ''ive'', G ''jve'', G ''kve'']], V 1])), Do (And (Bin Lt (V 4) (K (JNum 0))) (SetV 4 (Call ''wA'' [V 0, V 2, Call ''WC'' [Call ''OC'' [G ''hJ'', K (JNum 1)], G ''aue'', K (JNum 2), K (JNum 6), NewArr [K (JStr ''Sun''), K (JStr ''Mon''), K (JStr ''Tue''), K (JStr ''Wed''), K (JStr ''Thu''), K (JStr ''Fri''), K (JStr ''Sat'')]], V 1]))), When (Bin Lt (V 4) (K (JNum 0))) [Ret (K (JBool False))] [], Do (Put (V 3) ''d'' (V 4)), Ret (K (JBool True))],
    fn ''zsb'' 3 4 [Do (SetV 6 (Meth (Dot (V 0) ''b'') ''Ae'' [V 1])), Do (SetV 4 (Seq (SetV 3 (Meth (Dot (V 0) ''a'') ''get'' [V 6])) (Cond (Loose (V 3) (K JNull)) (Call ''SC'' [G ''aJ'', G ''Gte'', K (JNum 1), K (JNum 0), K (JNum 5), K (JNum 1)]) (V 3)))), When (Loose (Dot (V 4) ''length'') (K (JNum 0))) [Do (Meth (Dot (V 0) ''a'') ''set'' [V 6, V 4])] [Do (SetV 5 (Call ''wsb'' [V 0, V 1, V 4])), When (V 5) [Ret (Meth (V 5) ''ld'' [V 2])] []], Do (Call ''VC'' [V 4, Dot (V 4) ''length'', New ''Hkb'' [V 1, V 2]]), Do (Put (V 0) ''c'' (Bin Minus (Dot (V 0) ''c'') (K (JNum (- 1))))), Do (Put (Dot (V 0) ''b'') ''g'' (Bin Minus (Dot (Dot (V 0) ''b'') ''g'') (K (JNum (- 1))))), Ret (K JNull)],
    fn ''tSb'' 1 3 [Do (Call ''qSb'' [V 0]), Do (SetV 3 (New ''lmb'' [])), Do (SetV 2 (New ''Kmb'' [Dot (Dot (Dot (V 0) ''a'') ''a'') ''b''])), Loop (Bin Lt (Dot (V 2) ''a'') (Dot (Dot (Dot (V 2) ''c'') ''c'') ''length'')) [Do (SetV 1 (Call ''JD'' [Call ''Imb'' [V 2], K (JNum 82)])), Do (Call ''_lb'' [V 3, New ''FSb'' [V 1, K (JBool True)]]), Do (Call ''_lb'' [V 3, New ''FSb'' [V 1, K (JBool False)]])] [], Do (Call ''xSb'' [Dot (V 0) ''c'']), Do (Call ''ZTb'' [V 3, Dot (V 0) ''b'', New ''wnb'' [Call ''WC'' [Call ''OC'' [G ''dP'', K (JNum 1)], G ''Gte'', K (JNum 377), K (JNum 0), NewArr [Dot (V 0) ''c'']]]]), Do (Call ''sSb'' [V 0])],
    fn ''xFb'' 2 3 [Do (SetV 4 (New ''lmb'' [])), Do (SetV 3 (New ''Kmb'' [Dot (Dot (Dot (V 0) ''c'') ''a'') ''b''])), Loop (Bin Lt (Dot (V 3) ''a'') (Dot (Dot (Dot (V 3) ''c'') ''c'') ''length'')) [Do (SetV 2 (Call ''JD'' [Call ''Imb'' [V 3], K (JNum 60)])), When (Meth (V 1) ''Lb'' [V 2]) [Do (Call ''_lb'' [V 4, New ''LFb'' [V 2, K (JBool True)]]), Do (Call ''_lb'' [V 4, New ''LFb'' [V 2, K (JBool False)]])] []] [], Do (Call ''DFb'' [Dot (V 0) ''e'']), Do (Call ''uEb'' [V 4, Dot (V 0) ''d'', New ''wnb'' [Call ''WC'' [Call ''OC'' [G ''FM'', K (JNum 1)], G ''Gte'', K (JNum 683), K (JNum 0), NewArr [Dot (V 0) ''e'']]]])],
    fn ''f1b'' 1 4 [Do (SetV 2 (New ''_rb'' [])), Do (SetV 4 (New ''Kmb'' [Dot (V 0) ''d''])), Loop (Bin Lt (Dot (V 4) ''a'') (Dot (Dot (Dot (V 4) ''c'') ''c'') ''length'')) [Do (SetV 3 (Call ''JD'' [Call ''Imb'' [V 4], K (JNum 187)])), Do (SetV 1 (Call ''JD'' [Meth (V 3) ''mf'' [Seq (Call ''Wrc'' []) (G ''Wqc'')], K (JNum 17)])), Do (Or (Neg (Neg (Call ''ysb'' [Dot (V 2) ''f'', V 1]))) (Call ''hjb'' [V 2, V 1, New ''s1b'' [V 1]])), Do (Call ''_lb'' [Dot (Call ''JD'' [Call ''Wd'' [Call ''ysb'' [Dot (V 2) ''f'', V 1]], K (JNum 455)]) ''b'', V 3])] [], Ret (New ''nmb'' [New ''qkb'' [V 2]])],
    fn ''L7b'' 2 5 [Do (SetV 3 (New ''Hlb'' [Dot (Dot (Dot (V 0) ''j'') ''c'') ''length''])), Do (SetV 2 (K JNull)), Do (SetV 5 (New ''Kmb'' [Dot (V 0) ''j''])), Loop (Bin Lt (Dot (V 5) ''a'') (Dot (Dot (Dot (V 5) ''c'') ''c'') ''length'')) [Do (SetV 4 (Call ''JD'' [Call ''Imb'' [V 5], K (JNum 12)])), When (Neg (Loose (Dot (V 4) ''j'') (V 2))) [Do (Or (Loose (Dot (V 3) ''b'') (Dot (V 3) ''c'')) (Call ''M7b'' [V 3, V 2, V 1])), Do (Call ''tlb'' [V 3]), Do (SetV 2 (Dot (V 4) ''j''))] [], Do (SetV 6 (Call ''Q0b'' [V 4])), Do (And (Neg (Neg (V 6))) (Seq (Call ''slb'' [V 3, V 6]) (K (JBool True))))] [], Do (Or (Loose (Dot (V 3) ''b'') (Dot (V 3) ''c'')) (Call ''M7b'' [V 3, V 2, V 1]))],
    fn ''z8b'' 2 3 [Do (SetV 3 (New ''Tjb'' [Dot (V 0) ''b'', K (JNum 0)])), Loop (Bin Lt (Dot (V 3) ''b'') (Meth (Dot (V 3) ''d'') ''gc'' [])) [Do (SetV 2 (Seq (Call ''LDb'' [Bin Lt (Dot (V 3) ''b'') (Meth (Dot (V 3) ''d'') ''gc'' [])]) (Call ''JD'' [Meth (Dot (V 3) ''d'') ''Xb'' [Put (V 3) ''c'' (Bin Minus (Put (V 3) ''b'' (Bin Minus (Dot (V 3) ''b'') (K (JNum (- 1))))) (K (JNum 1)))], K (JNum 70)]))), Do (SetV 4 (Call ''JD'' [Call ''oNb'' [V 2, Seq (Call ''nyc'' []) (G ''gwc'')], K (JNum 279)])), When (Loose (V 4) (Seq (Call ''Zjd'' []) (G ''Xjd''))) [Do (Call ''Mjb'' [V 3]), Do (Call ''_lb'' [Dot (V 1) ''b'', V 2]), Do (Or (Call ''pNb'' [V 2, Seq (Call ''Wrc'' []) (G ''Wqc'')]) (Call ''rNb'' [V 2, G ''Wqc'', V 0]))] []] []],
    fn ''yEc'' 1 5 [Do (SetV 1 (Call ''Br'' [New ''Yr'' [Call ''Dr'' [Meth (Dot (Call ''HYb'' [V 0]) ''a'') ''Jc'' [], New ''Dl'' []]]])), Do (SetV 4 (New ''Yr'' [Call ''Dr'' [Meth (Dot (Call ''EYb'' [V 0]) ''a'') ''Jc'' [], New ''Dl'' []]])), Loop (Call ''Wr'' [V 4]) [Do (SetV 3 (Call ''JD'' [Call ''Xr'' [V 4], K (JNum 17)])), Do (SetV 2 (Dot (Dot (V 3) ''c'') ''i'')), Do (SetV 5 (Call ''Br'' [New ''Yr'' [Call ''Dr'' [Meth (Dot (Call ''HYb'' [V 2]) ''a'') ''Jc'' [], New ''Dl'' []]]])), Do (SetV 1 (Meth (Dot (G ''$wnd'') ''Math'') ''max'' [V 1, V 5]))] [], Ret (Call ''Cfb'' [V 1])],
    fn ''jqd'' 3 3 [Do (SetV 3 (Call ''JD'' [Call ''cvd'' [V 0, Seq (Call ''vjd'' []) (G ''Ehd'')], K (JNum 22)])), Do (SetV 4 (K (JNum 0))), Do (SetV 5 (K (JNum 0))), Do (And (Bin Gt (Dot (V 1) ''a'') (Dot (V 2) ''a'')) (Cond (Meth (V 3) ''Gc'' [Seq (Call ''ohd'' []) (G ''ihd'')]) (SetV 4 (Bin Divide (Bin Minus (Dot (V 1) ''a'') (Dot (V 2) ''a'')) (K (JNum 2)))) (And (Meth (V 3) ''Gc'' [G ''khd'']) (SetV 4 (Bin Minus (Dot (V 1) ''a'') (Dot (V 2) ''a'')))))), Do (And (Bin Gt (Dot (V 1) ''b'') (Dot (V 2) ''b'')) (Cond (Meth (V 3) ''Gc'' [Seq (Call ''ohd'' []) (G ''mhd'')]) (SetV 5 (Bin Divide (Bin Minus (Dot (V 1) ''b'') (Dot (V 2) ''b'')) (K (JNum 2)))) (And (Meth (V 3) ''Gc'' [G ''lhd'']) (SetV 5 (Bin Minus (Dot (V 1) ''b'') (Dot (V 2) ''b'')))))), Do (Call ''iqd'' [V 0, V 4, V 5])],
    fn ''Wyd'' 13 0 [Do (And (Call ''RD'' [Dot (V 0) ''Cb'', K (JNum 88)]) (Call ''IYd'' [Call ''LWd'' [Call ''JD'' [Dot (V 0) ''Cb'', K (JNum 88)]], K (JNum 4)])), Do (Call ''jyd'' [V 0, V 2]), Do (Put (V 0) ''f'' (V 6)), Do (Call ''QUd'' [V 0, V 7]), Do (Call ''SUd'' [V 0, V 8]), Do (Call ''KUd'' [V 0, V 9]), Do (Call ''RUd'' [V 0, V 10]), Do (Call ''nUd'' [V 0, V 11]), Do (Call ''NUd'' [V 0, V 12]), Do (Call ''mUd'' [V 0, K (JBool True)]), Do (Call ''lUd'' [V 0, V 4]), Do (Meth (V 0) ''Xk'' [V 5]), Do (Call ''jUd'' [V 0, V 1]), Do (And (Neg (Loose (V 3) (K JNull))) (Seq (Put (V 0) ''i'' (K JNull)) (Call ''MUd'' [V 0, V 3])))],
    fn ''Jb'' 3 0 [When (Bin Lt (V 0) (K (JNum 0))) [Ret (Call ''hc'' [G ''Fte'', Call ''WC'' [Call ''OC'' [G ''aJ'', K (JNum 1)], G ''Gte'', K (JNum 1), K (JNum 5), NewArr [V 2, Call ''Cfb'' [V 0]]]])] [When (Bin Lt (V 1) (K (JNum 0))) [Raise (Call ''Lcb'' [New ''kfb'' [Bin Plus (G ''Hte'') (V 1)]])] [Ret (Call ''hc'' [K (JStr ''%s (%s) must not be greater than size (%s)''), Call ''WC'' [Call ''OC'' [G ''aJ'', K (JNum 1)], G ''Gte'', K (JNum 1), K (JNum 5), NewArr [V 2, Call ''Cfb'' [V 0], Call ''Cfb'' [V 1]]]])]]]]"

definition object_table18 :: "(string \<times> jfun) list" where
  "object_table18 = code_5001_5010 @ code_5012_5043 @ code_5045_5060 @ code_5063_5070 @ code_5072_5086 @ code_5088_5090 @ code_5092_5110 @ code_5112_5144 @ code_5145_5154 @ code_5156_5160 @ code_5162_5175"

text \<open>The names each table declares.\<close>

lemma names_5001_5010 [js_names]: "map fst code_5001_5010 = [
    ''elc'', ''v5c'', ''NAd'', ''Hce'', ''Ice'', ''Te'', ''KUb'', ''U6b'', ''kJc'', ''iqd'']"
  by (simp add: code_5001_5010_def fn_def)

lemma names_5012_5043 [js_names]: "map fst code_5012_5043 = [
    ''dGb'', ''yRb'', ''B3b'', ''bmd'', ''_yd'', ''Y8d'', ''Uqb'', ''oNb'', ''YQb'', ''oTb'',
    ''gGc'', ''n0c'', ''j9c'', ''bhd'', ''eCd'', ''fCd'', ''aFd'', ''bFd'', ''sHd'', ''Yhe'',
    ''Ee'', ''$_c'', ''Sxd'', ''C0d'', ''OXb'', ''jhc'', ''Yhc'', ''xIc'', ''zIc'', ''XVb'',
    ''cgc'', ''eQc'']"
  by (simp add: code_5012_5043_def fn_def)

lemma names_5045_5060 [js_names]: "map fst code_5045_5060 = [
    ''iWc'', ''f2b'', ''Wbc'', ''Hpc'', ''cTc'', ''D5c'', ''Zud'', ''Xyd'', ''EBd'', ''CBd'',
    ''pAb'', ''EQb'', ''j1b'', ''ZDd'', ''Qv'', ''sD'']"
  by (simp add: code_5045_5060_def fn_def)

lemma names_5063_5070 [js_names]: "map fst code_5063_5070 = [
    ''tRb'', ''ikc'', ''Hkc'', ''apc'', ''sfd'', ''Opd'', ''bwd'', ''An'']"
  by (simp add: code_5063_5070_def fn_def)

lemma names_5072_5086 [js_names]: "map fst code_5072_5086 = [
    ''qOb'', ''X4d'', ''QVb'', ''cmc'', ''Fqe'', ''mQb'', ''yZb'', ''m0b'', ''n0b'', ''O0b'',
    ''_ac'', ''T8c'', ''Voe'', ''nn'', ''LYb'']"
  by (simp add: code_5072_5086_def fn_def)

lemma names_5088_5090 [js_names]: "map fst code_5088_5090 = [
    ''J1c'', ''L6c'', ''zbd'']"
  by (simp add: code_5088_5090_def fn_def)

lemma names_5092_5110 [js_names]: "map fst code_5092_5110 = [
    ''Upd'', ''wBd'', ''Nx'', ''Ryb'', ''oIb'', ''Xjc'', ''ZKc'', ''Wfd'', ''cEd'', ''Eib'',
    ''INc'', ''uD'', ''xgc'', ''ahc'', ''bSc'', ''XGb'', ''Q6b'', ''wA'', ''Ygc'']"
  by (simp add: code_5092_5110_def fn_def)

lemma names_5112_5144 [js_names]: "map fst code_5112_5144 = [
    ''Kee'', ''cpe'', ''Kb'', ''Xz'', ''P6b'', ''Bcc'', ''Wlc'', ''kCc'', ''Wb'', ''vac'',
    ''m0c'', ''wtd'', ''WAd'', ''tee'', ''i6b'', ''Qjc'', ''oDc'', ''aLc'', ''xed'', ''hfd'',
    ''Nfd'', ''z1d'', ''B1d'', ''yie'', ''LXb'', ''fgc'', ''ehc'', ''Fnc'', ''mSc'', ''NJb'',
    ''BLc'', ''pBd'', ''Fu'']"
  by (simp add: code_5112_5144_def fn_def)

lemma names_5145_5154 [js_names]: "map fst code_5145_5154 = [
    ''BFb'', ''_Jb'', ''iLb'', ''xMb'', ''L0b'', ''SBc'', ''gCc'', ''sPc'', ''aWc'', ''Xpd'']"
  by (simp add: code_5145_5154_def fn_def)

lemma names_5156_5160 [js_names]: "map fst code_5156_5160 = [
    ''Ngb'', ''Lkc'', ''zQc'', ''Onb'', ''FGc'']"
  by (simp add: code_5156_5160_def fn_def)

lemma names_5162_5175 [js_names]: "map fst code_5162_5175 = [
    ''Nbe'', ''Ple'', ''FA'', ''IA'', ''zsb'', ''tSb'', ''xFb'', ''f1b'', ''L7b'', ''z8b'',
    ''yEc'', ''jqd'', ''Wyd'', ''Jb'']"
  by (simp add: code_5162_5175_def fn_def)

end
