(* ===== verification/ObjectTable19.thy ===== *)
theory ObjectTable19
  imports ObjectCode
begin

text \<open>
  Functions of \<open>layout-worker.js\<close>, lines 5177 to 5313, in the order of the file, one per line:
  the algorithms of the layout engine, longer operations of the runtime's collections and of options,
  with their loops, \<open>switch\<close> and \<open>try\<close> statements. An entry has the name, the
  number of parameters, the number of further local variables and the body; parameters and locals
  are numbered from 0, the variable of a \<open>catch\<close> has a number of its own, \<open>x++\<close> is \<open>(x=x+1)-1\<close>. Lines
  with a construct outside \<open>jexp\<close> and \<open>jstm\<close> (closures, \<open>in\<close>, floating-point literals, host objects) are
  left out.
\<close>

definition code_5177_5185 :: "(string \<times> jfun) list" where
  "code_5177_5185 = [
    fn ''alc'' 2 7 [Do (SetV 8 (Dot (V 1) ''d'')), Do (SetV 4 (Dot (Dot (V 1) ''b'') ''j'')), Do (SetV 7 (New ''Kmb'' [V 8])), Loop (Bin Lt (Dot (V 7) ''a'') (Dot (Dot (Dot (V 7) ''c'') ''c'') ''length'')) [Do (SetV 6 (Call ''JD'' [Call ''Imb'' [V 7], K (JNum 107)])), Do (SetV 5 (Call ''SC'' [G ''Icb'', G ''Nwe'', K (JNum 30), Dot (Dot (V 4) ''c'') ''length'', K (JNum 16), K (JNum 1)])), Do (Call ''hjb'' [Dot (V 0) ''b'', V 6, V 5]), Do (SetV 2 (Bin Minus (Dot (Dot (Dot (V 6) ''a'') ''d'') ''p'') (K (JNum 1)))), Do (SetV 3 (Dot (Dot (Dot (V 6) ''c'') ''d'') ''p'')), Loop (Neg (Loose (V 2) (V 3))) [Do (SetV 2 (Bin Modulo (Bin Plus (V 2) (K (JNum 1))) (Dot (Dot (V 4) ''c'') ''length''))), Do (PutIdx (V 5) (V 2) (K (JBool True)))] []] []],
    fn ''LCc'' 2 0 [Do (Call ''HCc'' []), When (And (Call ''pNb'' [V 0, Seq (Call ''Wrc'' []) (G ''trc'')]) (Call ''pNb'' [V 1, G ''trc''])) [Ret (Call ''rfb'' [Dot (Call ''JD'' [Call ''oNb'' [V 0, G ''trc''], K (JNum 15)]) ''a'', Dot (Call ''JD'' [Call ''oNb'' [V 1, G ''trc''], K (JNum 15)]) ''a''])] [], Raise (Call ''Lcb'' [New ''Fbd'' [K (JStr ''The BF model order layer assigner requires all real nodes to have a model order.'')]])],
    fn ''sDc'' 2 0 [Do (Call ''kDc'' []), When (And (Call ''pNb'' [V 0, Seq (Call ''Wrc'' []) (G ''trc'')]) (Call ''pNb'' [V 1, G ''trc''])) [Ret (Call ''rfb'' [Dot (Call ''JD'' [Call ''oNb'' [V 0, G ''trc''], K (JNum 15)]) ''a'', Dot (Call ''JD'' [Call ''oNb'' [V 1, G ''trc''], K (JNum 15)]) ''a''])] [], Raise (Call ''Lcb'' [New ''Fbd'' [K (JStr ''The DF model order layer assigner requires all real nodes to have a model order.'')]])],
    fn ''CPc'' 2 0 [Do (Put (V 0) ''r'' (New ''DPc'' [Dot (V 0) ''p''])), Do (Call ''BPc'' [Dot (V 0) ''r'', V 0]), Do (Call ''xe'' [Dot (Dot (V 0) ''r'') ''j'', Dot (V 0) ''j'']), Do (Call ''cub'' [Dot (V 0) ''j'']), Do (Call ''Ttb'' [Dot (V 0) ''j'', V 1]), Do (Call ''Ttb'' [Dot (Dot (V 0) ''r'') ''e'', V 1]), Do (Call ''uPc'' [V 0]), Do (Call ''uPc'' [Dot (V 0) ''r'']), Loop (Neg (Loose (Dot (Dot (Dot (V 0) ''f'') ''c'') ''length'') (K (JNum 0)))) [Do (Call ''JPc'' [Call ''JD'' [Call ''dmb'' [Dot (V 0) ''f'', K (JNum 0)], K (JNum 133)]])] [], Loop (Neg (Loose (Dot (Dot (Dot (V 0) ''k'') ''c'') ''length'') (K (JNum 0)))) [Do (Call ''JPc'' [Call ''JD'' [Call ''dmb'' [Dot (V 0) ''k'', K (JNum 0)], K (JNum 133)]])] [], Ret (Dot (V 0) ''r'')],
    fn ''std'' 3 3 [Do (SetV 4 (Call ''IWd'' [Meth (V 0) ''Ah'' [], V 1])), Do (SetV 3 (Bin Minus (V 1) (Meth (V 0) ''gi'' []))), When (Bin Lt (V 3) (K (JNum 0))) [When (Neg (V 4)) [Raise (Call ''Lcb'' [New ''kfb'' [Bin Plus (Bin Plus (G ''YFe'') (V 1)) (G ''ZFe'')]])] [When (Meth (V 4) ''pk'' []) [Do (SetV 5 (Meth (V 0) ''Fh'' [V 4])), Do (Cond (Bin Ge (V 5) (K (JNum 0))) (Meth (V 0) ''$h'' [V 5, V 2]) (Call ''otd'' [V 0, V 4, V 2]))] [Raise (Call ''Lcb'' [New ''kfb'' [Bin Plus (Bin Plus (G ''UFe'') (Meth (V 4) ''ve'' [])) (G ''VFe'')]])]]] [Do (Call ''Zsd'' [V 0, V 3, V 4, V 2])]],
    fn ''A1d'' 1 2 [When (Dot (V 0) ''f'') [Loop (Bin Gt (Dot (V 0) ''n'') (K (JNum 0))) [Do (SetV 1 (Call ''JD'' [Meth (Dot (V 0) ''k'') ''Xb'' [Bin Minus (Dot (V 0) ''n'') (K (JNum 1))], K (JNum 75)])), Do (SetV 2 (Meth (V 1) ''Jk'' [])), When (And (And (And (Call ''RD'' [V 2, K (JNum 103)]) (Neg (Loose (Bin BitAnd (Dot (Call ''JD'' [V 2, K (JNum 19)]) ''Bb'') (G ''$Fe'')) (K (JNum 0))))) (Or (Or (Neg (Dot (V 0) ''e'')) (Neg (Loose (Meth (V 2) ''nk'' []) (G ''M3'')))) (Neg (Loose (Meth (V 2) ''Jj'' []) (K (JNum 0)))))) (Neg (Loose (Meth (V 1) ''kd'' []) (K JNull)))) [Ret (K (JBool True))] [Do (Put (V 0) ''n'' (Bin Minus (Dot (V 0) ''n'') (K (JNum 1))))]] [], Ret (K (JBool False))] [Ret (Bin Gt (Dot (V 0) ''n'') (K (JNum 0)))]],
    fn ''aie'' 1 5 [Do (SetV 2 (Meth (Call ''JD'' [V 0, K (JNum 52)]) ''Yh'' [])), When (V 2) [Try [Do (SetV 3 (K JNull)), Do (SetV 1 (Call ''$3d'' [Seq (Call ''jRd'' []) (G ''iRd''), Call ''wQd'' [Call ''xQd'' [V 2]]])), When (V 1) [Do (SetV 4 (Meth (V 1) ''Zh'' [])), Do (And (Neg (Neg (V 4))) (SetV 3 (Meth (V 4) ''Dl'' [Call ''Mgb'' [Dot (V 2) ''e'']])))] [], When (And (Neg (Neg (V 3))) (Neg (Loose (V 3) (V 0)))) [Ret (Call ''aie'' [V 3])] []] 5 [Do (SetV 5 (Call ''Kcb'' [V 5])), When (Neg (Call ''RD'' [V 5, K (JNum 63)])) [Raise (Call ''Lcb'' [V 5])] []]] [], Ret (V 0)],
    fn ''y0c'' 3 3 [Do (Meth (V 2) ''Tg'' [K (JStr ''Remove overlaps''), K (JNum 1)]), Do (Meth (V 2) ''bh'' [V 1, G ''hDe'']), Do (SetV 3 (Call ''JD'' [Call ''cvd'' [V 1, Seq (Call ''d_c'' []) (G ''c_c'')], K (JNum 26)])), Do (Put (V 0) ''f'' (V 3)), Do (Put (V 0) ''a'' (Call ''d2c'' [Call ''JD'' [Call ''cvd'' [V 1, Seq (Call ''J1c'' []) (G ''G1c'')], K (JNum 304)]])), Do (SetV 4 (Call ''MD'' [Call ''cvd'' [V 1, Seq (Call ''vjd'' []) (G ''djd'')]])), Do (Call ''b0c'' [V 0, Seq (Call ''NDb'' [V 4]) (V 4)]), Do (SetV 5 (Call ''z_c'' [V 3])), Do (Call ''x0c'' [V 0, V 1, V 5, V 2]), Do (Meth (V 2) ''bh'' [V 1, G ''iDe''])],
    fn ''ybd'' 1 3 [When (Call ''Rdb'' [Call ''LD'' [Call ''cvd'' [V 0, Seq (Call ''vjd'' []) (G ''Uhd'')]]]) [Do (SetV 3 (New ''lmb'' [])), Do (SetV 2 (New ''Yr'' [Call ''Dr'' [Meth (Dot (Call ''SEd'' [V 0]) ''a'') ''Jc'' [], New ''Dl'' []]])), Loop (Call ''Wr'' [V 2]) [Do (SetV 1 (Call ''JD'' [Call ''Xr'' [V 2], K (JNum 85)])), Do (And (And (Call ''Kwd'' [V 1]) (Call ''Rdb'' [Call ''LD'' [Call ''cvd'' [V 1, G ''Vhd'']]])) (Seq (Call ''qDb'' [Dot (V 3) ''c'', V 1]) (K (JBool True))))] [], Ret (V 3)] [Ret (Seq (Seq (Call ''Inb'' []) (Call ''Inb'' [])) (G ''Fnb''))]]]"

definition code_5187_5188 :: "(string \<times> jfun) list" where
  "code_5187_5188 = [
    fn ''lKb'' 3 3 [Do (SetV 5 (Dot (V 0) ''o'')), Do (SetV 3 (Call ''JD'' [Call ''brb'' [Dot (V 0) ''p'', V 2], K (JNum 253)])), Do (SetV 4 (Dot (V 3) ''i'')), Do (Put (V 4) ''b'' (Call ''CIb'' [V 3])), Do (Put (V 4) ''a'' (Call ''BIb'' [V 3])), Do (Put (V 4) ''b'' (Meth (Dot (G ''$wnd'') ''Math'') ''max'' [Dot (V 4) ''b'', Dot (V 5) ''a''])), Do (And (And (Bin Gt (Dot (V 4) ''b'') (Dot (V 5) ''a'')) (Neg (V 1))) (Put (V 4) ''b'' (Dot (V 5) ''a''))), Do (Put (V 4) ''c'' (Bin Divide (Minus1 (Bin Minus (Dot (V 4) ''b'') (Dot (V 5) ''a''))) (K (JNum 2)))), Switch (Dot (V 2) ''g'') [(Some (JNum 1), [Do (Put (V 4) ''d'' (Minus1 (Dot (V 4) ''a''))), Break]), (Some (JNum 3), [Do (Put (V 4) ''d'' (Dot (V 5) ''b''))])], Do (Call ''DIb'' [V 3]), Do (Call ''EIb'' [V 3])],
    fn ''mKb'' 3 3 [Do (SetV 5 (Dot (V 0) ''o'')), Do (SetV 3 (Call ''JD'' [Call ''brb'' [Dot (V 0) ''p'', V 2], K (JNum 253)])), Do (SetV 4 (Dot (V 3) ''i'')), Do (Put (V 4) ''b'' (Call ''CIb'' [V 3])), Do (Put (V 4) ''a'' (Call ''BIb'' [V 3])), Do (Put (V 4) ''a'' (Meth (Dot (G ''$wnd'') ''Math'') ''max'' [Dot (V 4) ''a'', Dot (V 5) ''b''])), Do (And (And (Bin Gt (Dot (V 4) ''a'') (Dot (V 5) ''b'')) (Neg (V 1))) (Put (V 4) ''a'' (Dot (V 5) ''b''))), Do (Put (V 4) ''d'' (Bin Divide (Minus1 (Bin Minus (Dot (V 4) ''a'') (Dot (V 5) ''b''))) (K (JNum 2)))), Switch (Dot (V 2) ''g'') [(Some (JNum 4), [Do (Put (V 4) ''c'' (Minus1 (Dot (V 4) ''b''))), Break]), (Some (JNum 2), [Do (Put (V 4) ''c'' (Dot (V 5) ''a''))])], Do (Call ''DIb'' [V 3]), Do (Call ''EIb'' [V 3])]]"

definition code_5191_5200 :: "(string \<times> jfun) list" where
  "code_5191_5200 = [
    fn ''oec'' 2 5 [When (Meth (V 1) ''dc'' []) [Ret (K JUndef)] [], Do (SetV 4 (Call ''JD'' [Meth (V 1) ''Xb'' [K (JNum 0)], K (JNum 132)])), When (Loose (Meth (V 1) ''gc'' []) (K (JNum 1))) [Do (Call ''nec'' [V 0, V 4, V 4, K (JNum 1), K (JNum 0), V 1]), Ret (K JUndef)] [], Do (SetV 2 (K (JNum 1))), Loop (Bin Lt (V 2) (Meth (V 1) ''gc'' [])) [When (Or (Dot (V 4) ''j'') (Neg (Dot (V 4) ''o''))) [Do (SetV 5 (Call ''tec'' [V 1, V 2])), When (V 5) [Do (SetV 3 (Dot (Call ''JD'' [Dot (V 5) ''a'', K (JNum 15)]) ''a'')), Do (SetV 6 (Call ''JD'' [Dot (V 5) ''b'', K (JNum 132)])), Do (Call ''nec'' [V 0, V 4, V 6, V 2, V 3, V 1]), Do (SetV 2 (Bin Plus (V 3) (K (JNum 1)))), Do (SetV 4 (V 6))] []] []] []],
    fn ''cjc'' 1 6 [Do (SetV 6 (New ''nmb'' [Dot (V 0) ''d''])), Do (Call ''jmb'' [V 6, New ''Gjc'' []]), Do (SetV 1 (Seq (Call ''qjc'' []) (Call ''WC'' [Call ''OC'' [G ''ZU'', K (JNum 1)], G ''xue'', K (JNum 275), K (JNum 0), NewArr [G ''jjc'', G ''mjc'', G ''ijc'', G ''pjc'', G ''ljc'', G ''kjc'', G ''ojc'', G ''njc'']]))), Do (SetV 2 (K (JNum 0))), Do (SetV 5 (New ''Kmb'' [V 6])), Loop (Bin Lt (Dot (V 5) ''a'') (Dot (Dot (Dot (V 5) ''c'') ''c'') ''length'')) [Do (SetV 4 (Call ''JD'' [Call ''Imb'' [V 5], K (JNum 107)])), Do (SetV 3 (Idx (V 1) (Bin Modulo (V 2) (Dot (V 1) ''length'')))), Do (Call ''ejc'' [V 4, V 3]), Do (SetV 2 (Bin Minus (V 2) (K (JNum (- 1)))))] []],
    fn ''rCd'' 2 10 [Do (SetV 10 (K JNull)), Do (SetV 11 (V 0)), Do (SetV 6 (Call ''RAd'' [V 11, K (JStr ''x'')])), Do (SetV 2 (New ''pDd'' [V 1])), Do (Call ''MBd'' [Dot (V 2) ''a'', V 6]), Do (SetV 7 (Call ''RAd'' [V 11, K (JStr ''y'')])), Do (SetV 3 (New ''rDd'' [V 1])), Do (Call ''NBd'' [Dot (V 3) ''a'', V 7]), Do (SetV 8 (Call ''RAd'' [V 11, G ''qGe''])), Do (SetV 4 (New ''tDd'' [V 1])), Do (Call ''OBd'' [Dot (V 4) ''a'', V 8]), Do (SetV 9 (Call ''RAd'' [V 11, G ''pGe''])), Do (SetV 5 (New ''vDd'' [V 1])), Do (SetV 10 (Seq (Call ''PBd'' [Dot (V 5) ''a'', V 9]) (V 9))), Ret (V 10)],
    fn ''IYd'' 2 0 [Do (Call ''EYd'' [V 0, V 1]), Do (And (Neg (Loose (Bin BitAnd (Dot (V 0) ''b'') (K (JNum 1))) (K (JNum 0)))) (Put (Dot (V 0) ''a'') ''a'' (K JNull))), Do (And (Neg (Loose (Bin BitAnd (Dot (V 0) ''b'') (K (JNum 2))) (K (JNum 0)))) (Put (Dot (V 0) ''a'') ''f'' (K JNull))), When (Neg (Loose (Bin BitAnd (Dot (V 0) ''b'') (K (JNum 4))) (K (JNum 0)))) [Do (Put (Dot (V 0) ''a'') ''g'' (K JNull)), Do (Put (Dot (V 0) ''a'') ''i'' (K JNull))] [], When (Neg (Loose (Bin BitAnd (Dot (V 0) ''b'') (K (JNum 16))) (K (JNum 0)))) [Do (Put (Dot (V 0) ''a'') ''d'' (K JNull)), Do (Put (Dot (V 0) ''a'') ''e'' (K JNull))] [], Do (And (Neg (Loose (Bin BitAnd (Dot (V 0) ''b'') (K (JNum 8))) (K (JNum 0)))) (Put (Dot (V 0) ''a'') ''b'' (K JNull))), When (Neg (Loose (Bin BitAnd (Dot (V 0) ''b'') (K (JNum 32))) (K (JNum 0)))) [Do (Put (Dot (V 0) ''a'') ''j'' (K JNull)), Do (Put (Dot (V 0) ''a'') ''c'' (K JNull))] []],
    fn ''Ybe'' 2 4 [Do (SetV 4 (K (JNum 0))), When (Bin Gt (Dot (V 1) ''length'') (K (JNum 0))) [Try [Do (SetV 4 (Call ''Ydb'' [V 1, G ''Eue'', G ''Ate'']))] 5 [Do (SetV 5 (Call ''Kcb'' [V 5])), When (Call ''RD'' [V 5, K (JNum 131)]) [Do (SetV 3 (V 5)), Raise (Call ''Lcb'' [New ''cRd'' [V 3]])] [Raise (Call ''Lcb'' [V 5])]]] [], Do (SetV 2 (Seq (And (Neg (Dot (V 0) ''a'')) (Put (V 0) ''a'' (New ''kce'' [V 0]))) (Dot (V 0) ''a''))), Ret (Cond (And (Bin Lt (V 4) (Dot (V 2) ''i'')) (Bin Ge (V 4) (K (JNum 0)))) (Call ''JD'' [Call ''fGd'' [V 2, V 4], K (JNum 57)]) (K JNull))],
    fn ''Ib'' 2 0 [When (Bin Lt (V 0) (K (JNum 0))) [Ret (Call ''hc'' [G ''Fte'', Call ''WC'' [Call ''OC'' [G ''aJ'', K (JNum 1)], G ''Gte'', K (JNum 1), K (JNum 5), NewArr [K (JStr ''index''), Call ''Cfb'' [V 0]]]])] [When (Bin Lt (V 1) (K (JNum 0))) [Raise (Call ''Lcb'' [New ''kfb'' [Bin Plus (G ''Hte'') (V 1)]])] [Ret (Call ''hc'' [K (JStr ''%s (%s) must be less than size (%s)''), Call ''WC'' [Call ''OC'' [G ''aJ'', K (JNum 1)], G ''Gte'', K (JNum 1), K (JNum 5), NewArr [K (JStr ''index''), Call ''Cfb'' [V 0], Call ''Cfb'' [V 1]]]])]]],
    fn ''mnb'' 1 5 [When (Loose (V 0) (K JNull)) [Ret (G ''Kte'')] [], Do (SetV 5 (New ''Qxb'' [G ''Ete'', K (JStr ''[''), K (JStr '']'')])), Do (Seq (Seq (SetV 2 (V 0)) (SetV 3 (K (JNum 0)))) (SetV 4 (Dot (V 2) ''length''))), Loop (Bin Lt (V 3) (V 4)) [Do (SetV 1 (Idx (V 2) (V 3))), Do (Cond (Neg (Dot (V 5) ''a'')) (Put (V 5) ''a'' (New ''nhb'' [Dot (V 5) ''d''])) (Call ''hhb'' [Dot (V 5) ''a'', Dot (V 5) ''b''])), Do (Call ''ehb'' [Dot (V 5) ''a'', Bin Plus (K (JStr '''')) (V 1)])] [Do (SetV 3 (Bin Minus (V 3) (K (JNum (- 1)))))], Ret (Cond (Neg (Dot (V 5) ''a'')) (Dot (V 5) ''c'') (Cond (Loose (Dot (Dot (V 5) ''e'') ''length'') (K (JNum 0))) (Dot (Dot (V 5) ''a'') ''a'') (Bin Plus (Dot (Dot (V 5) ''a'') ''a'') (Bin Plus (K (JStr '''')) (Dot (V 5) ''e'')))))],
    fn ''nnb'' 1 5 [When (Loose (V 0) (K JNull)) [Ret (G ''Kte'')] [], Do (SetV 5 (New ''Qxb'' [G ''Ete'', K (JStr ''[''), K (JStr '']'')])), Do (Seq (Seq (SetV 2 (V 0)) (SetV 3 (K (JNum 0)))) (SetV 4 (Dot (V 2) ''length''))), Loop (Bin Lt (V 3) (V 4)) [Do (SetV 1 (Idx (V 2) (V 3))), Do (Cond (Neg (Dot (V 5) ''a'')) (Put (V 5) ''a'' (New ''nhb'' [Dot (V 5) ''d''])) (Call ''hhb'' [Dot (V 5) ''a'', Dot (V 5) ''b''])), Do (Call ''ehb'' [Dot (V 5) ''a'', Bin Plus (K (JStr '''')) (V 1)])] [Do (SetV 3 (Bin Minus (V 3) (K (JNum (- 1)))))], Ret (Cond (Neg (Dot (V 5) ''a'')) (Dot (V 5) ''c'') (Cond (Loose (Dot (Dot (V 5) ''e'') ''length'') (K (JNum 0))) (Dot (Dot (V 5) ''a'') ''a'') (Bin Plus (Dot (Dot (V 5) ''a'') ''a'') (Bin Plus (K (JStr '''')) (Dot (V 5) ''e'')))))],
    fn ''onb'' 1 5 [When (Loose (V 0) (K JNull)) [Ret (G ''Kte'')] [], Do (SetV 5 (New ''Qxb'' [G ''Ete'', K (JStr ''[''), K (JStr '']'')])), Do (Seq (Seq (SetV 2 (V 0)) (SetV 3 (K (JNum 0)))) (SetV 4 (Dot (V 2) ''length''))), Loop (Bin Lt (V 3) (V 4)) [Do (SetV 1 (Idx (V 2) (V 3))), Do (Cond (Neg (Dot (V 5) ''a'')) (Put (V 5) ''a'' (New ''nhb'' [Dot (V 5) ''d''])) (Call ''hhb'' [Dot (V 5) ''a'', Dot (V 5) ''b''])), Do (Call ''ehb'' [Dot (V 5) ''a'', Bin Plus (K (JStr '''')) (V 1)])] [Do (SetV 3 (Bin Minus (V 3) (K (JNum (- 1)))))], Ret (Cond (Neg (Dot (V 5) ''a'')) (Dot (V 5) ''c'') (Cond (Loose (Dot (Dot (V 5) ''e'') ''length'') (K (JNum 0))) (Dot (Dot (V 5) ''a'') ''a'') (Bin Plus (Dot (Dot (V 5) ''a'') ''a'') (Bin Plus (K (JStr '''')) (Dot (V 5) ''e'')))))],
    fn ''rnb'' 1 5 [When (Loose (V 0) (K JNull)) [Ret (G ''Kte'')] [], Do (SetV 5 (New ''Qxb'' [G ''Ete'', K (JStr ''[''), K (JStr '']'')])), Do (Seq (Seq (SetV 2 (V 0)) (SetV 3 (K (JNum 0)))) (SetV 4 (Dot (V 2) ''length''))), Loop (Bin Lt (V 3) (V 4)) [Do (SetV 1 (Idx (V 2) (V 3))), Do (Cond (Neg (Dot (V 5) ''a'')) (Put (V 5) ''a'' (New ''nhb'' [Dot (V 5) ''d''])) (Call ''hhb'' [Dot (V 5) ''a'', Dot (V 5) ''b''])), Do (Call ''ehb'' [Dot (V 5) ''a'', Bin Plus (K (JStr '''')) (V 1)])] [Do (SetV 3 (Bin Minus (V 3) (K (JNum (- 1)))))], Ret (Cond (Neg (Dot (V 5) ''a'')) (Dot (V 5) ''c'') (Cond (Loose (Dot (Dot (V 5) ''e'') ''length'') (K (JNum 0))) (Dot (Dot (V 5) ''a'') ''a'') (Bin Plus (Dot (Dot (V 5) ''a'') ''a'') (Bin Plus (K (JStr '''')) (Dot (V 5) ''e'')))))]]"

definition code_5202_5218 :: "(string \<times> jfun) list" where
  "code_5202_5218 = [
    fn ''TGb'' 3 2 [Do (SetV 3 (Dot (V 2) ''d'')), Do (SetV 4 (Dot (V 2) ''e'')), When (And (And (And (Bin Le (Idx (Dot (V 0) ''g'') (Dot (V 3) ''d'')) (Idx (Dot (V 0) ''i'') (Dot (V 1) ''d''))) (Bin Le (Idx (Dot (V 0) ''i'') (Dot (V 1) ''d'')) (Idx (Dot (V 0) ''i'') (Dot (V 3) ''d'')))) (Bin Le (Idx (Dot (V 0) ''g'') (Dot (V 4) ''d'')) (Idx (Dot (V 0) ''i'') (Dot (V 1) ''d'')))) (Bin Le (Idx (Dot (V 0) ''i'') (Dot (V 1) ''d'')) (Idx (Dot (V 0) ''i'') (Dot (V 4) ''d'')))) [When (Bin Lt (Idx (Dot (V 0) ''i'') (Dot (V 3) ''d'')) (Idx (Dot (V 0) ''i'') (Dot (V 4) ''d''))) [Ret (K (JBool False))] [], Ret (K (JBool True))] [], When (Bin Lt (Idx (Dot (V 0) ''i'') (Dot (V 3) ''d'')) (Idx (Dot (V 0) ''i'') (Dot (V 4) ''d''))) [Ret (K (JBool True))] [], Ret (K (JBool False))],
    fn ''uQb'' 2 1 [Do (SetV 2 (Call ''JD'' [Call ''oNb'' [V 1, Seq (Call ''nyc'' []) (G ''$vc'')], K (JNum 301)])), When (Neg (Loose (V 2) (V 0))) [Raise (Call ''Lcb'' [New ''Fbd'' [Bin Plus (Bin Plus (Bin Plus (Bin Plus (K (JStr ''The hierarchy aware processor '')) (V 2)) (K (JStr '' in child node ''))) (V 1)) (K (JStr '' is only allowed if the root node specifies the same hierarchical processor.''))]])] []],
    fn ''Xce'' 2 5 [Do (SetV 3 (Seq (And (Neg (Dot (V 1) ''s'')) (Put (V 1) ''s'' (New ''P3d'' [G ''J6'', V 1, K (JNum 21), K (JNum 17)]))) (Dot (V 1) ''s''))), Do (SetV 5 (K JNull)), Do (Seq (SetV 4 (K (JNum 0))) (SetV 6 (Dot (V 3) ''i''))), Loop (Bin Lt (V 4) (V 6)) [Do (SetV 2 (Call ''JD'' [Call ''fGd'' [V 3, V 4], K (JNum 179)])), Switch (Call ''Lde'' [Call ''bde'' [V 0, V 2]]) [(Some (JNum 2), []), (Some (JNum 3), [Do (And (Neg (V 5)) (SetV 5 (New ''lmb'' []))), Do (Call ''qDb'' [Dot (V 5) ''c'', V 2])])]] [Do (SetV 4 (Bin Minus (V 4) (K (JNum (- 1)))))], Ret (Cond (Neg (V 5)) (Seq (Seq (Call ''Inb'' []) (Call ''Inb'' [])) (G ''Fnb'')) (V 5))],
    fn ''rMb'' 3 6 [Do (SetV 8 (G ''Cve'')), Do (SetV 5 (New ''Kmb'' [Call ''PMb'' [Dot (V 0) ''b'']])), Loop (Bin Lt (Dot (V 5) ''a'') (Dot (Dot (Dot (V 5) ''c'') ''c'') ''length'')) [Do (SetV 4 (Call ''JD'' [Call ''Imb'' [V 5], K (JNum 177)])), Do (SetV 7 (New ''Kmb'' [Call ''PMb'' [Dot (V 1) ''b'']])), Loop (Bin Lt (Dot (V 7) ''a'') (Dot (Dot (Dot (V 7) ''c'') ''c'') ''length'')) [Do (SetV 6 (Call ''JD'' [Call ''Imb'' [V 7], K (JNum 177)])), Do (SetV 3 (Call ''wfd'' [Dot (V 4) ''a'', Dot (V 4) ''b'', Dot (V 6) ''a'', Dot (V 6) ''b'', V 2])), Do (SetV 8 (Meth (Dot (G ''$wnd'') ''Math'') ''min'' [V 8, V 3]))] []] [], Ret (V 8)],
    fn ''xZb'' 2 0 [When (Neg (V 1)) [Raise (Call ''Lcb'' [New ''Xfb'' []])] [], Do (Put (V 0) ''j'' (V 1)), When (Neg (Dot (V 0) ''d'')) [Switch (Dot (Dot (V 0) ''j'') ''g'') [(Some (JNum 1), [Do (Put (Dot (V 0) ''a'') ''a'' (Bin Divide (Dot (Dot (V 0) ''o'') ''a'') (K (JNum 2)))), Do (Put (Dot (V 0) ''a'') ''b'' (K (JNum 0))), Break]), (Some (JNum 2), [Do (Put (Dot (V 0) ''a'') ''a'' (Dot (Dot (V 0) ''o'') ''a'')), Do (Put (Dot (V 0) ''a'') ''b'' (Bin Divide (Dot (Dot (V 0) ''o'') ''b'') (K (JNum 2)))), Break]), (Some (JNum 3), [Do (Put (Dot (V 0) ''a'') ''a'' (Bin Divide (Dot (Dot (V 0) ''o'') ''a'') (K (JNum 2)))), Do (Put (Dot (V 0) ''a'') ''b'' (Dot (Dot (V 0) ''o'') ''b'')), Break]), (Some (JNum 4), [Do (Put (Dot (V 0) ''a'') ''a'' (K (JNum 0))), Do (Put (Dot (V 0) ''a'') ''b'' (Bin Divide (Dot (Dot (V 0) ''o'') ''b'') (K (JNum 2))))])]] []],
    fn ''g1b'' 1 7 [Do (SetV 3 (K (JNum 0))), Do (SetV 2 (New ''Kmb'' [Dot (V 0) ''b''])), Loop (Bin Lt (Dot (V 2) ''a'') (Dot (Dot (Dot (V 2) ''c'') ''c'') ''length'')) [Do (SetV 1 (Call ''JD'' [Call ''Imb'' [V 2], K (JNum 25)])), Do (SetV 5 (New ''Kmb'' [Dot (V 1) ''a''])), Loop (Bin Lt (Dot (V 5) ''a'') (Dot (Dot (Dot (V 5) ''c'') ''c'') ''length'')) [Do (SetV 4 (Call ''JD'' [Call ''Imb'' [V 5], K (JNum 9)])), Do (Put (V 4) ''p'' (Bin Minus (SetV 3 (Bin Minus (V 3) (K (JNum (- 1))))) (K (JNum 1)))), Do (SetV 7 (New ''Kmb'' [Dot (V 4) ''j''])), Loop (Bin Lt (Dot (V 7) ''a'') (Dot (Dot (Dot (V 7) ''c'') ''c'') ''length'')) [Do (SetV 6 (Call ''JD'' [Call ''Imb'' [V 7], K (JNum 12)])), Do (Put (V 6) ''p'' (Bin Minus (SetV 3 (Bin Minus (V 3) (K (JNum (- 1))))) (K (JNum 1))))] []] []] []],
    fn ''Mec'' 2 6 [Do (Call ''mec'' []), Do (SetV 2 (K JNull)), Do (SetV 6 (Meth (V 1) ''Jc'' [])), Loop (Meth (V 6) ''Ob'' []) [Do (SetV 5 (Call ''JD'' [Meth (V 6) ''Pb'' [], K (JNum 132)])), When (Dot (V 5) ''o'') [Continue] [], Do (SetV 3 (Call ''Lfd'' [Dot (V 5) ''a''])), Do (SetV 4 (Call ''Ifd'' [Dot (V 5) ''a''])), Do (SetV 7 (New ''Yfc'' [V 3, V 4, K JNull, Call ''JD'' [Meth (Meth (Meth (Dot (Dot (V 5) ''d'') ''a'') ''ec'' []) ''Jc'' []) ''Pb'' [], K (JNum 17)]])), Do (Call ''_lb'' [Dot (V 7) ''c'', Dot (V 5) ''a'']), Do (Call ''qDb'' [Dot (V 0) ''c'', V 7]), Do (And (Neg (Neg (V 2))) (Call ''_lb'' [Dot (V 2) ''d'', V 7])), Do (SetV 2 (V 7))] []],
    fn ''mgc'' 1 6 [Do (SetV 6 (Call ''LIc'' [Dot (V 0) ''d'', Dot (V 0) ''e''])), Do (SetV 5 (Meth (V 6) ''Jc'' [])), Loop (Meth (V 5) ''Ob'' []) [Do (SetV 4 (Call ''JD'' [Meth (V 5) ''Pb'' [], K (JNum 12)])), Do (SetV 3 (Cond (Loose (Dot (V 0) ''e'') (Seq (Call ''Bmd'' []) (G ''Amd''))) (Dot (V 4) ''e'') (Dot (V 4) ''g''))), Do (SetV 2 (New ''Kmb'' [V 3])), Loop (Bin Lt (Dot (V 2) ''a'') (Dot (Dot (Dot (V 2) ''c'') ''c'') ''length'')) [Do (SetV 1 (Call ''JD'' [Call ''Imb'' [V 2], K (JNum 17)])), When (And (Neg (Call ''AWb'' [V 1])) (Neg (Loose (Dot (Dot (Dot (V 1) ''c'') ''i'') ''c'') (Dot (Dot (Dot (V 1) ''d'') ''i'') ''c'')))) [Do (Call ''igc'' [V 0, V 1]), Do (Put (V 0) ''f'' (Bin Minus (Dot (V 0) ''f'') (K (JNum (- 1))))), Do (Put (V 0) ''c'' (Bin Minus (Dot (V 0) ''c'') (K (JNum (- 1)))))] []] []] []],
    fn ''ync'' 2 2 [When (Meth (V 1) ''dc'' []) [Ret (Seq (Seq (Call ''Inb'' []) (Call ''Inb'' [])) (G ''Fnb''))] [], Do (SetV 3 (New ''lmb'' [])), Do (Call ''_lb'' [V 3, Call ''Cfb'' [G ''Eue'']]), Do (SetV 2 (K (JNum 1))), Loop (Bin Lt (V 2) (Dot (V 0) ''f'')) [Do (And (Loose (Dot (V 0) ''a'') (K JNull)) (Call ''Ymc'' [V 0])), Do (And (Idx (Dot (V 0) ''a'') (V 2)) (Call ''_lb'' [V 3, Call ''Cfb'' [V 2]]))] [Do (SetV 2 (Bin Minus (V 2) (K (JNum (- 1)))))], When (Loose (Dot (Dot (V 3) ''c'') ''length'') (K (JNum 1))) [Ret (Seq (Seq (Call ''Inb'' []) (Call ''Inb'' [])) (G ''Fnb''))] [], Do (Call ''_lb'' [V 3, Call ''Cfb'' [G ''Ate'']]), Ret (Call ''xnc'' [V 1, V 3])],
    fn ''VKc'' 2 7 [Do (SetV 6 (Neg (Loose (Dot (Dot (Dot (V 1) ''c'') ''i'') ''k'') (Seq (Call ''$Yb'' []) (G ''XYb''))))), Do (SetV 8 (Cond (V 6) (Dot (V 1) ''d'') (Dot (V 1) ''c''))), Do (SetV 2 (Dot (Call ''yWb'' [V 1, V 8]) ''i'')), Do (SetV 4 (Call ''JD'' [Call ''ejb'' [Dot (V 0) ''k'', V 8], K (JNum 124)])), Do (SetV 3 (Dot (Idx (Dot (V 0) ''i'') (Dot (V 2) ''p'')) ''a'')), When (Bin Lt (Call ''FYb'' [Dot (V 8) ''i'']) (Cond (Neg (Dot (V 2) ''c'')) (K (JNum (- 1))) (Call ''emb'' [Dot (Dot (V 2) ''c'') ''a'', V 2, K (JNum 0)]))) [Do (SetV 5 (V 4)), Do (SetV 7 (V 3))] [Do (SetV 5 (V 3)), Do (SetV 7 (V 4))], Do (Call ''XFb'' [Call ''$Fb'' [Call ''ZFb'' [Call ''_Fb'' [Call ''YFb'' [New ''aGb'' [], K (JNum 0)], K (JNum 4)], V 5], V 7]])],
    fn ''uBd'' 3 6 [When (V 2) [Do (SetV 4 (Dot (Dot (V 2) ''a'') ''length'')), Do (SetV 3 (New ''Kse'' [V 4])), Do (SetV 7 (Cond (Bin Lt (Bin Times (Bin Minus (Dot (V 3) ''b'') (Dot (V 3) ''a'')) (Dot (V 3) ''c'')) (K (JNum 0))) (Seq (Call ''Jse'' []) (G ''Ise'')) (New ''ete'' [V 3]))), Loop (Meth (V 7) ''Ob'' []) [Do (SetV 6 (Call ''JD'' [Meth (V 7) ''Pb'' [], K (JNum 15)])), Do (SetV 8 (Call ''dCd'' [V 0, Call ''PAd'' [Call ''BB'' [V 2, Dot (V 6) ''a'']]])), When (V 8) [Do (SetV 5 (Seq (And (Neg (Dot (V 1) ''b'')) (Put (V 1) ''b'' (New ''jhe'' [G ''O3'', V 1, K (JNum 4), K (JNum 7)]))) (Dot (V 1) ''b''))), Do (Call ''lFd'' [V 5, V 8])] []] []] []],
    fn ''vBd'' 3 6 [When (V 2) [Do (SetV 4 (Dot (Dot (V 2) ''a'') ''length'')), Do (SetV 3 (New ''Kse'' [V 4])), Do (SetV 7 (Cond (Bin Lt (Bin Times (Bin Minus (Dot (V 3) ''b'') (Dot (V 3) ''a'')) (Dot (V 3) ''c'')) (K (JNum 0))) (Seq (Call ''Jse'' []) (G ''Ise'')) (New ''ete'' [V 3]))), Loop (Meth (V 7) ''Ob'' []) [Do (SetV 6 (Call ''JD'' [Meth (V 7) ''Pb'' [], K (JNum 15)])), Do (SetV 8 (Call ''dCd'' [V 0, Call ''PAd'' [Call ''BB'' [V 2, Dot (V 6) ''a'']]])), When (V 8) [Do (SetV 5 (Seq (And (Neg (Dot (V 1) ''c'')) (Put (V 1) ''c'' (New ''jhe'' [G ''O3'', V 1, K (JNum 5), K (JNum 8)]))) (Dot (V 1) ''c''))), Do (Call ''lFd'' [V 5, V 8])] []] []] []],
    fn ''vo'' 3 2 [Do (SetV 3 (Bin BitAnd (Dot (V 1) ''a'') (Dot (V 0) ''f''))), Do (Put (V 1) ''b'' (Idx (Dot (V 0) ''b'') (V 3))), Do (PutIdx (Dot (V 0) ''b'') (V 3) (V 1)), Do (SetV 4 (Bin BitAnd (Dot (V 1) ''f'') (Dot (V 0) ''f''))), Do (Put (V 1) ''d'' (Idx (Dot (V 0) ''c'') (V 4))), Do (PutIdx (Dot (V 0) ''c'') (V 4) (V 1)), When (Neg (V 2)) [Do (Put (V 1) ''e'' (Dot (V 0) ''e'')), Do (Put (V 1) ''c'' (K JNull)), Do (Cond (Neg (Dot (V 0) ''e'')) (Put (V 0) ''a'' (V 1)) (Put (Dot (V 0) ''e'') ''c'' (V 1))), Do (Put (V 0) ''e'' (V 1))] [Do (Put (V 1) ''e'' (Dot (V 2) ''e'')), Do (Cond (Neg (Dot (V 1) ''e'')) (Put (V 0) ''a'' (V 1)) (Put (Dot (V 1) ''e'') ''c'' (V 1))), Do (Put (V 1) ''c'' (Dot (V 2) ''c'')), Do (Cond (Neg (Dot (V 1) ''c'')) (Put (V 0) ''e'' (V 1)) (Put (Dot (V 1) ''c'') ''e'' (V 1)))], Do (Put (V 0) ''i'' (Bin Minus (Dot (V 0) ''i'') (K (JNum (- 1))))), Do (Put (V 0) ''g'' (Bin Minus (Dot (V 0) ''g'') (K (JNum (- 1)))))],
    fn ''zr'' 1 3 [Do (SetV 1 (Meth (V 0) ''Pb'' [])), When (Neg (Meth (V 0) ''Ob'' [])) [Ret (V 1)] [], Do (SetV 3 (Call ''ghb'' [Call ''hhb'' [New ''lhb'' [], K (JStr ''expected one element but was: <'')], V 1])), Do (SetV 2 (K (JNum 0))), Loop (And (Bin Lt (V 2) (K (JNum 4))) (Meth (V 0) ''Ob'' [])) [Do (Call ''ghb'' [Seq (Put (V 3) ''a'' (Bin Plus (Dot (V 3) ''a'') (G ''Ete''))) (V 3), Meth (V 0) ''Pb'' []])] [Do (Bin Minus (SetV 2 (Bin Minus (V 2) (K (JNum (- 1))))) (K (JNum 1)))], Do (And (Meth (V 0) ''Ob'' []) (Seq (Put (V 3) ''a'' (Bin Plus (Dot (V 3) ''a'') (K (JStr '', ...'')))) (V 3))), Do (Put (V 3) ''a'' (Bin Plus (Dot (V 3) ''a'') (K (JStr ''>'')))), Raise (Call ''Lcb'' [New ''kfb'' [Dot (V 3) ''a'']])],
    fn ''WA'' 1 2 [Do (SetV 2 (Minus1 (Dot (V 0) ''a''))), Do (SetV 1 (Call ''WC'' [Call ''OC'' [G ''_D'', K (JNum 1)], G ''Nue'', K (JNum 30), K (JNum 15), NewArr [K (JNum 43), K (JNum 48), K (JNum 48), K (JNum 48), K (JNum 48)]])), When (Bin Lt (V 2) (K (JNum 0))) [Do (PutIdx (V 1) (K (JNum 0)) (K (JNum 45))), Do (SetV 2 (Minus1 (V 2)))] [], Do (PutIdx (V 1) (K (JNum 1)) (Bin BitAnd (Bin Plus (Idx (V 1) (K (JNum 1))) (Bin DivInt (Bin DivInt (V 2) (K (JNum 60))) (K (JNum 10)))) (G ''Pue''))), Do (PutIdx (V 1) (K (JNum 2)) (Bin BitAnd (Bin Plus (Idx (V 1) (K (JNum 2))) (Bin Modulo (Bin DivInt (V 2) (K (JNum 60))) (K (JNum 10)))) (G ''Pue''))), Do (PutIdx (V 1) (K (JNum 3)) (Bin BitAnd (Bin Plus (Idx (V 1) (K (JNum 3))) (Bin DivInt (Bin Modulo (V 2) (K (JNum 60))) (K (JNum 10)))) (G ''Pue''))), Do (PutIdx (V 1) (K (JNum 4)) (Bin BitAnd (Bin Plus (Idx (V 1) (K (JNum 4))) (Bin Modulo (V 2) (K (JNum 10)))) (G ''Pue''))), Ret (Call ''Sgb'' [V 1, K (JNum 0), Dot (V 1) ''length''])],
    fn ''AYb'' 1 4 [Do (Put (V 0) ''g'' (New ''frb'' [Call ''JD'' [Call ''Qb'' [G ''M2''], K (JNum 298)]])), Do (SetV 3 (K (JNum 0))), Do (SetV 2 (Seq (Call ''Bmd'' []) (G ''hmd''))), Do (SetV 1 (K (JNum 0))), Loop (Bin Lt (V 1) (Dot (Dot (Dot (V 0) ''j'') ''c'') ''length'')) [Do (SetV 4 (Call ''JD'' [Call ''dmb'' [Dot (V 0) ''j'', V 1], K (JNum 12)])), When (Neg (Loose (Dot (V 4) ''j'') (V 2))) [Do (And (Neg (Loose (V 3) (V 1))) (Call ''crb'' [Dot (V 0) ''g'', V 2, New ''prd'' [Call ''Cfb'' [V 3], Call ''Cfb'' [V 1]]])), Do (SetV 2 (Dot (V 4) ''j'')), Do (SetV 3 (V 1))] []] [Do (Bin Minus (SetV 1 (Bin Minus (V 1) (K (JNum (- 1))))) (K (JNum 1)))], Do (Call ''crb'' [Dot (V 0) ''g'', V 2, New ''prd'' [Call ''Cfb'' [V 3], Call ''Cfb'' [V 1]]])],
    fn ''ptd'' 2 3 [Do (SetV 4 (Call ''Rce'' [Seq (Call ''yie'' []) (G ''wie''), Meth (V 0) ''Ah'' [], V 1])), When (V 4) [Do (Call ''Aie'' []), Do (Or (Meth (Call ''JD'' [V 4, K (JNum 69)]) ''vk'' []) (SetV 4 (Call ''Mde'' [Call ''bde'' [G ''wie'', V 4]]))), Do (SetV 3 (Seq (SetV 2 (Meth (V 0) ''Fh'' [V 4])) (Call ''JD'' [Cond (Bin Ge (V 2) (K (JNum 0))) (Meth (V 0) ''Ih'' [V 2, K (JBool True), K (JBool True)]) (Call ''mtd'' [V 0, V 4, K (JBool True)]), K (JNum 163)]))), Do (Meth (Call ''JD'' [V 3, K (JNum 219)]) ''Xl'' [V 1])] [Raise (Call ''Lcb'' [New ''kfb'' [Bin Plus (Bin Plus (G ''UFe'') (Meth (V 1) ''ve'' [])) (G ''VFe'')]])]]]"

definition code_5220_5248 :: "(string \<times> jfun) list" where
  "code_5220_5248 = [
    fn ''ZPc'' 1 7 [Do (SetV 5 (New ''Ptb'' [])), Do (SetV 2 (New ''Kmb'' [V 0])), Loop (Bin Lt (Dot (V 2) ''a'') (Dot (Dot (Dot (V 2) ''c'') ''c'') ''length'')) [Do (SetV 1 (Call ''JD'' [Call ''Imb'' [V 2], K (JNum 133)])), Do (SetV 6 (Dot (V 1) ''a'')), Do (SetV 7 (Dot (V 1) ''b'')), When (Or (Meth (Dot (V 5) ''a'') ''_b'' [V 6]) (Meth (Dot (V 5) ''a'') ''_b'' [V 7])) [Continue] [], Do (SetV 4 (V 6)), Do (SetV 3 (V 7)), When (And (Bin Gt (Bin Plus (Dot (Dot (V 6) ''e'') ''b'') (Dot (Dot (V 6) ''j'') ''b'')) (K (JNum 2))) (Bin Le (Bin Plus (Dot (Dot (V 7) ''e'') ''b'') (Dot (Dot (V 7) ''j'') ''b'')) (K (JNum 2)))) [Do (SetV 4 (V 7)), Do (SetV 3 (V 6))] [], Do (Meth (Dot (V 5) ''a'') ''yc'' [V 4, V 5]), Do (Put (V 4) ''q'' (V 3))] [], Ret (V 5)],
    fn ''k2c'' 3 0 [Do (Meth (V 2) ''Tg'' [K (JStr ''Eades radial''), K (JNum 1)]), Do (Meth (V 2) ''bh'' [V 1, G ''iDe'']), Do (Put (V 0) ''d'' (Call ''JD'' [Call ''cvd'' [V 1, Seq (Call ''d_c'' []) (G ''c_c'')], K (JNum 26)])), Do (Put (V 0) ''c'' (Call ''Ueb'' [Call ''MD'' [Call ''cvd'' [V 1, Seq (Call ''J1c'' []) (G ''B1c'')]]])), Do (Put (V 0) ''e'' (Call ''d2c'' [Call ''JD'' [Call ''cvd'' [V 1, G ''G1c''], K (JNum 304)]])), Do (Put (V 0) ''a'' (Call ''I0c'' [Call ''JD'' [Call ''cvd'' [V 1, G ''I1c''], K (JNum 426)]])), Do (Put (V 0) ''b'' (Call ''V1c'' [Call ''JD'' [Call ''cvd'' [V 1, G ''x1c''], K (JNum 354)]])), Do (Call ''l2c'' [V 0]), Do (Meth (V 2) ''bh'' [V 1, G ''iDe''])],
    fn ''o5c'' 2 0 [Do (Meth (V 1) ''Tg'' [K (JStr ''Target Width Setter''), K (JNum 1)]), When (Call ''dvd'' [V 0, Seq (Call ''S4c'' []) (G ''R4c'')]) [Do (Call ''evd'' [V 0, Seq (Call ''P3c'' []) (G ''O3c''), Call ''MD'' [Call ''cvd'' [V 0, G ''R4c'']]])] [Raise (Call ''Lcb'' [New ''Ebd'' [K (JStr ''A target width has to be set if the TargetWidthWidthApproximator should be used.'')]])], Do (Meth (V 1) ''Ug'' [])],
    fn ''N2b'' 2 3 [Do (SetV 3 (New ''QYb'' [V 0])), Do (Call ''mNb'' [V 3, V 1]), Do (Call ''rNb'' [V 3, Seq (Call ''Wrc'' []) (G ''Zqc''), V 1]), Do (Call ''rNb'' [V 3, Seq (Call ''nyc'' []) (G ''qxc''), Seq (Call ''Mld'' []) (G ''Hld'')]), Do (Call ''rNb'' [V 3, G ''tvc'', Seq (Call ''Lgd'' []) (G ''Hgd'')]), Do (Call ''OYb'' [V 3, Seq (Call ''$Yb'' []) (G ''TYb'')]), Do (SetV 2 (New ''yZb'' [])), Do (Call ''wZb'' [V 2, V 3]), Do (Call ''xZb'' [V 2, Seq (Call ''Bmd'' []) (G ''Amd'')]), Do (SetV 4 (New ''yZb'' [])), Do (Call ''wZb'' [V 4, V 3]), Do (Call ''xZb'' [V 4, G ''gmd'']), Ret (V 3)],
    fn ''lEc'' 2 5 [Do (PutIdx (Dot (V 0) ''c'') (Dot (V 1) ''p'') (K (JBool True))), Do (Call ''_lb'' [Dot (V 0) ''a'', V 1]), Do (SetV 6 (New ''Kmb'' [Dot (V 1) ''j''])), Loop (Bin Lt (Dot (V 6) ''a'') (Dot (Dot (Dot (V 6) ''c'') ''c'') ''length'')) [Do (SetV 5 (Call ''JD'' [Call ''Imb'' [V 6], K (JNum 12)])), Do (SetV 3 (New ''UZb'' [Dot (V 5) ''b''])), Loop (Or (Call ''Hmb'' [Dot (V 3) ''a'']) (Call ''Hmb'' [Dot (V 3) ''b''])) [Do (SetV 2 (Call ''JD'' [Cond (Call ''Hmb'' [Dot (V 3) ''a'']) (Call ''Imb'' [Dot (V 3) ''a'']) (Call ''Imb'' [Dot (V 3) ''b'']), K (JNum 17)])), Do (SetV 4 (Dot (Call ''mEc'' [V 5, V 2]) ''i'')), Do (Or (Idx (Dot (V 0) ''c'') (Dot (V 4) ''p'')) (Call ''lEc'' [V 0, V 4]))] []] []],
    fn ''s_c'' 1 7 [Do (SetV 6 (K (JNum 0))), Do (SetV 2 (New ''uKd'' [Seq (And (Neg (Dot (V 0) ''a'')) (Put (V 0) ''a'' (New ''P3d'' [G ''T3'', V 0, K (JNum 10), K (JNum 11)]))) (Dot (V 0) ''a'')])), Loop (Neg (Loose (Dot (V 2) ''e'') (Meth (Dot (V 2) ''i'') ''gc'' []))) [Do (SetV 1 (Call ''JD'' [Call ''sKd'' [V 2], K (JNum 26)])), Do (SetV 7 (Dot (V 1) ''g'')), Do (SetV 4 (Dot (V 1) ''f'')), Do (SetV 3 (Meth (Dot (G ''$wnd'') ''Math'') ''sqrt'' [Bin Plus (Bin Times (V 7) (V 7)) (Bin Times (V 4) (V 4))])), Do (SetV 6 (Meth (Dot (G ''$wnd'') ''Math'') ''max'' [V 3, V 6])), Do (SetV 5 (Call ''s_c'' [V 1])), Do (SetV 6 (Meth (Dot (G ''$wnd'') ''Math'') ''max'' [V 5, V 6]))] [], Ret (V 6)],
    fn ''$ld'' 0 0 [Do (SetG ''$ld'' (G ''qdb'')), Do (SetG ''Yld'' (New ''_ld'' [K (JStr ''OUTSIDE''), K (JNum 0)])), Do (SetG ''Wld'' (New ''_ld'' [K (JStr ''INSIDE''), K (JNum 1)])), Do (SetG ''Xld'' (New ''_ld'' [K (JStr ''NEXT_TO_PORT_IF_POSSIBLE''), K (JNum 2)])), Do (SetG ''Vld'' (New ''_ld'' [K (JStr ''ALWAYS_SAME_SIDE''), K (JNum 3)])), Do (SetG ''Uld'' (New ''_ld'' [K (JStr ''ALWAYS_OTHER_SAME_SIDE''), K (JNum 4)])), Do (SetG ''Zld'' (New ''_ld'' [K (JStr ''SPACE_EFFICIENT''), K (JNum 5)]))],
    fn ''nCd'' 3 6 [Do (SetV 3 (Call ''_Bd'' [V 0, Seq (Seq (SetV 4 (Seq (Seq (Call ''zsd'' []) (SetV 5 (New ''Wzd'' []))) (V 5))) (And (Neg (Neg (V 2))) (Call ''Uzd'' [V 4, V 2]))) (V 4), V 1])), Do (Call ''Hvd'' [V 3, Call ''VAd'' [V 1, G ''FGe'']]), Do (Call ''qCd'' [V 1, V 3]), Do (Call ''lCd'' [V 1, V 3]), Do (Call ''rCd'' [V 1, V 3]), Do (SetG ''g'' (K JNull)), Do (SetV 6 (V 1)), Do (SetV 7 (Call ''SAd'' [V 6, K (JStr ''ports'')])), Do (SetV 8 (New ''nDd'' [V 0, V 3])), Do (Call ''LBd'' [Dot (V 8) ''a'', Dot (V 8) ''b'', V 7]), Do (Call ''mCd'' [V 0, V 1, V 3]), Do (Call ''hCd'' [V 0, V 1, V 3]), Ret (V 3)],
    fn ''VA'' 1 2 [Do (SetV 2 (Minus1 (Dot (V 0) ''a''))), Do (SetV 1 (Call ''WC'' [Call ''OC'' [G ''_D'', K (JNum 1)], G ''Nue'', K (JNum 30), K (JNum 15), NewArr [K (JNum 43), K (JNum 48), K (JNum 48), K (JNum 58), K (JNum 48), K (JNum 48)]])), When (Bin Lt (V 2) (K (JNum 0))) [Do (PutIdx (V 1) (K (JNum 0)) (K (JNum 45))), Do (SetV 2 (Minus1 (V 2)))] [], Do (PutIdx (V 1) (K (JNum 1)) (Bin BitAnd (Bin Plus (Idx (V 1) (K (JNum 1))) (Bin DivInt (Bin DivInt (V 2) (K (JNum 60))) (K (JNum 10)))) (G ''Pue''))), Do (PutIdx (V 1) (K (JNum 2)) (Bin BitAnd (Bin Plus (Idx (V 1) (K (JNum 2))) (Bin Modulo (Bin DivInt (V 2) (K (JNum 60))) (K (JNum 10)))) (G ''Pue''))), Do (PutIdx (V 1) (K (JNum 4)) (Bin BitAnd (Bin Plus (Idx (V 1) (K (JNum 4))) (Bin DivInt (Bin Modulo (V 2) (K (JNum 60))) (K (JNum 10)))) (G ''Pue''))), Do (PutIdx (V 1) (K (JNum 5)) (Bin BitAnd (Bin Plus (Idx (V 1) (K (JNum 5))) (Bin Modulo (V 2) (K (JNum 10)))) (G ''Pue''))), Ret (Call ''Sgb'' [V 1, K (JNum 0), Dot (V 1) ''length''])],
    fn ''YA'' 1 1 [Do (SetV 1 (Call ''WC'' [Call ''OC'' [G ''_D'', K (JNum 1)], G ''Nue'', K (JNum 30), K (JNum 15), NewArr [K (JNum 71), K (JNum 77), K (JNum 84), K (JNum 45), K (JNum 48), K (JNum 48), K (JNum 58), K (JNum 48), K (JNum 48)]])), When (Bin Le (V 0) (K (JNum 0))) [Do (PutIdx (V 1) (K (JNum 3)) (K (JNum 43))), Do (SetV 0 (Minus1 (V 0)))] [], Do (PutIdx (V 1) (K (JNum 4)) (Bin BitAnd (Bin Plus (Idx (V 1) (K (JNum 4))) (Bin DivInt (Bin DivInt (V 0) (K (JNum 60))) (K (JNum 10)))) (G ''Pue''))), Do (PutIdx (V 1) (K (JNum 5)) (Bin BitAnd (Bin Plus (Idx (V 1) (K (JNum 5))) (Bin Modulo (Bin DivInt (V 0) (K (JNum 60))) (K (JNum 10)))) (G ''Pue''))), Do (PutIdx (V 1) (K (JNum 7)) (Bin BitAnd (Bin Plus (Idx (V 1) (K (JNum 7))) (Bin DivInt (Bin Modulo (V 0) (K (JNum 60))) (K (JNum 10)))) (G ''Pue''))), Do (PutIdx (V 1) (K (JNum 8)) (Bin BitAnd (Bin Plus (Idx (V 1) (K (JNum 8))) (Bin Modulo (V 0) (K (JNum 10)))) (G ''Pue''))), Ret (Call ''Sgb'' [V 1, K (JNum 0), Dot (V 1) ''length''])],
    fn ''pnb'' 1 5 [When (Loose (V 0) (K JNull)) [Ret (G ''Kte'')] [], Do (SetV 5 (New ''Qxb'' [G ''Ete'', K (JStr ''[''), K (JStr '']'')])), Do (Seq (Seq (SetV 2 (V 0)) (SetV 3 (K (JNum 0)))) (SetV 4 (Dot (V 2) ''length''))), Loop (Bin Lt (V 3) (V 4)) [Do (SetV 1 (Idx (V 2) (V 3))), Do (Cond (Neg (Dot (V 5) ''a'')) (Put (V 5) ''a'' (New ''nhb'' [Dot (V 5) ''d''])) (Call ''hhb'' [Dot (V 5) ''a'', Dot (V 5) ''b''])), Do (Call ''ehb'' [Dot (V 5) ''a'', Bin Plus (K (JStr '''')) (Call ''hdb'' [V 1])])] [Do (SetV 3 (Bin Minus (V 3) (K (JNum (- 1)))))], Ret (Cond (Neg (Dot (V 5) ''a'')) (Dot (V 5) ''c'') (Cond (Loose (Dot (Dot (V 5) ''e'') ''length'') (K (JNum 0))) (Dot (Dot (V 5) ''a'') ''a'') (Bin Plus (Dot (Dot (V 5) ''a'') ''a'') (Bin Plus (K (JStr '''')) (Dot (V 5) ''e'')))))],
    fn ''ZGb'' 2 3 [Do (SetV 4 (G ''Ate'')), Do (SetV 3 (New ''Kmb'' [Call ''gGb'' [V 1]])), Loop (Bin Lt (Dot (V 3) ''a'') (Dot (Dot (Dot (V 3) ''c'') ''c'') ''length'')) [Do (SetV 2 (Call ''JD'' [Call ''Imb'' [V 3], K (JNum 217)])), When (And (Dot (V 2) ''f'') (Neg (Idx (Dot (V 0) ''c'') (Dot (V 2) ''c'')))) [Do (PutIdx (Dot (V 0) ''c'') (Dot (V 2) ''c'') (K (JBool True))), Do (SetV 4 (Meth (Dot (G ''$wnd'') ''Math'') ''min'' [V 4, Call ''ZGb'' [V 0, Call ''UFb'' [V 2, V 1]]]))] []] [], Do (PutIdx (Dot (V 0) ''i'') (Dot (V 1) ''d'') (Dot (V 0) ''j'')), Do (PutIdx (Dot (V 0) ''g'') (Dot (V 1) ''d'') (Meth (Dot (G ''$wnd'') ''Math'') ''min'' [V 4, Bin Minus (Put (V 0) ''j'' (Bin Minus (Dot (V 0) ''j'') (K (JNum (- 1))))) (K (JNum 1))])), Ret (Idx (Dot (V 0) ''g'') (Dot (V 1) ''d''))],
    fn ''$Kb'' 2 3 [Do (SetV 4 (Meth (Call ''JD'' [Call ''JD'' [Call ''Qc'' [Dot (V 0) ''r'', V 1], K (JNum 22)], K (JNum 83)]) ''Jc'' [])), Loop (Meth (V 4) ''Ob'' []) [Do (SetV 3 (Call ''JD'' [Meth (V 4) ''Pb'' [], K (JNum 115)])), Do (Put (Dot (V 3) ''e'') ''b'' (Seq (SetV 2 (Dot (V 3) ''b'')) (Cond (Meth (V 2) ''nf'' [Seq (Call ''vjd'' []) (G ''Eid'')]) (Cond (Loose (Meth (V 2) ''$f'' []) (Seq (Call ''Bmd'' []) (G ''hmd''))) (Bin Minus (Minus1 (Dot (Meth (V 2) ''Kf'' []) ''b'')) (Call ''Ueb'' [Call ''MD'' [Meth (V 2) ''mf'' [G ''Eid'']]])) (Call ''Ueb'' [Call ''MD'' [Meth (V 2) ''mf'' [G ''Eid'']]])) (Cond (Loose (Meth (V 2) ''$f'' []) (Seq (Call ''Bmd'' []) (G ''hmd''))) (Minus1 (Dot (Meth (V 2) ''Kf'' []) ''b'')) (K (JNum 0))))))] []],
    fn ''qZc'' 1 5 [Do (SetV 1 (Dot (V 0) ''a'')), Do (SetV 2 (Dot (V 0) ''b'')), Do (SetV 4 (Dot (V 0) ''c'')), Do (SetV 3 (New ''lgd'' [Bin Plus (Dot (Dot (V 2) ''e'') ''a'') (Bin Divide (Dot (Dot (V 2) ''f'') ''a'') (K (JNum 2))), Bin Plus (Dot (Dot (V 2) ''e'') ''b'') (Bin Divide (Dot (Dot (V 2) ''f'') ''b'') (K (JNum 2)))])), Do (SetV 5 (New ''lgd'' [Bin Plus (Dot (Dot (V 4) ''e'') ''a'') (Bin Divide (Dot (Dot (V 4) ''f'') ''a'') (K (JNum 2))), Bin Plus (Dot (Dot (V 4) ''e'') ''b'') (Bin Divide (Dot (Dot (V 4) ''f'') ''b'') (K (JNum 2)))])), Do (Call ''Wtb'' [V 1, V 3, Dot (V 1) ''a'', Dot (Dot (V 1) ''a'') ''a'']), Do (Call ''Wtb'' [V 1, V 5, Dot (Dot (V 1) ''c'') ''b'', Dot (V 1) ''c'']), Do (Call ''cTc'' [V 3, Call ''JD'' [Call ''au'' [V 1, K (JNum 1)], K (JNum 8)], Dot (Dot (V 0) ''b'') ''f'']), Do (Call ''cTc'' [V 5, Call ''JD'' [Call ''au'' [V 1, Bin Minus (Dot (V 1) ''b'') (K (JNum 2))], K (JNum 8)], Dot (Dot (V 0) ''c'') ''f''])],
    fn ''PAd'' 1 2 [Do (SetV 2 (K (JBool False))), When (Call ''RD'' [V 0, K (JNum 210)]) [Do (SetV 2 (K (JBool True))), Ret (Dot (Call ''JD'' [V 0, K (JNum 210)]) ''a'')] [], When (Neg (V 2)) [When (Call ''RD'' [V 0, K (JNum 265)]) [Do (SetV 1 (Loose (Bin Modulo (Dot (Call ''JD'' [V 0, K (JNum 265)]) ''a'') (K (JNum 1))) (K (JNum 0)))), When (V 1) [Do (SetV 2 (K (JBool True))), Ret (Call ''Cfb'' [Call ''Yeb'' [Dot (Call ''JD'' [V 0, K (JNum 265)]) ''a'']])] []] []] [], Raise (Call ''Lcb'' [New ''YAd'' [Bin Plus (Bin Plus (K (JStr (''Id must be a string or an integer: '' @ CHR 0x27 # ''''))) (V 0)) (K (JStr (CHR 0x27 # ''.'')))]])],
    fn ''Xbe'' 2 6 [Do (SetV 5 (K JNull)), Do (SetV 4 (New ''ice'' [Seq (And (Neg (Dot (V 0) ''a'')) (Put (V 0) ''a'' (New ''kce'' [V 0]))) (Dot (V 0) ''a'')])), Loop (Call ''fce'' [V 4]) [Do (SetV 2 (Call ''JD'' [Call ''KGd'' [V 4], K (JNum 57)])), Do (SetV 3 (Seq (Seq (SetV 6 (Meth (V 2) ''Ah'' [])) (SetV 7 (Seq (Call ''zWd'' [V 6]) (Dot (V 6) ''o'')))) (Cond (Or (Neg (V 7)) (Neg (Meth (V 2) ''Uh'' [V 7]))) (K JNull) (Call ''Uhe'' [Call ''vVd'' [V 7], Meth (V 2) ''Jh'' [V 7]])))), When (Neg (Loose (V 3) (K JNull))) [When (Call ''vgb'' [V 3, V 1]) [Do (SetV 5 (V 2)), Break] []] []] [], Ret (V 5)],
    fn ''fj'' 2 1 [Do (Put This ''e'' (Seq (Call ''Qb'' [V 0]) (Call ''wm'' [V 0]))), Do (Put This ''c'' (Seq (Call ''Qb'' [V 1]) (Call ''wm'' [V 1]))), Do (Call ''Lb'' [Loose (Meth (Meth (Dot This ''e'') ''Pd'' []) ''dc'' []) (Meth (Meth (Dot This ''c'') ''Pd'' []) ''dc'' [])]), Do (Put This ''d'' (Call ''Lv'' [Dot This ''e''])), Do (Put This ''b'' (Call ''Lv'' [Dot This ''c''])), Do (SetV 2 (Call ''QC'' [G ''aJ'', NewArr [G ''aue'', G ''Gte''], NewArr [K (JNum 5), K (JNum 1)], K (JNum 5), NewArr [Meth (Meth (Dot This ''e'') ''Pd'' []) ''gc'' [], Meth (Meth (Dot This ''c'') ''Pd'' []) ''gc'' []], K (JNum 2)])), Do (Put This ''a'' (V 2)), Do (Call ''Xi'' [This])],
    fn ''Jw'' 3 5 [Do (Call ''bk'' [V 2, K (JStr ''occurrences'')]), When (Loose (V 2) (K (JNum 0))) [Ret (Seq (SetV 7 (Call ''JD'' [Call ''Ov'' [Call ''nd'' [Dot (V 0) ''a''], V 1], K (JNum 18)])) (Cond (Neg (V 7)) (K (JNum 0)) (Meth (V 7) ''gc'' [])))] [], Do (SetV 6 (Call ''JD'' [Call ''Ov'' [Call ''nd'' [Dot (V 0) ''a''], V 1], K (JNum 18)])), When (Neg (V 6)) [Ret (K (JNum 0))] [], Do (SetV 5 (Meth (V 6) ''gc'' [])), When (Bin Ge (V 2) (V 5)) [Do (Meth (V 6) ''$b'' [])] [Do (SetV 4 (Meth (V 6) ''Jc'' [])), Do (SetV 3 (K (JNum 0))), Loop (Bin Lt (V 3) (V 2)) [Do (Meth (V 4) ''Pb'' []), Do (Meth (V 4) ''Qb'' [])] [Do (Bin Minus (SetV 3 (Bin Minus (V 3) (K (JNum (- 1))))) (K (JNum 1)))]], Ret (V 5)],
    fn ''ix'' 3 4 [Do (Call ''bk'' [V 2, K (JStr ''oldCount'')]), Do (Call ''bk'' [K (JNum 0), K (JStr ''newCount'')]), Do (SetV 3 (Call ''JD'' [Call ''Ov'' [Call ''nd'' [Dot (V 0) ''a''], V 1], K (JNum 18)])), When (Loose (Cond (Neg (V 3)) (K (JNum 0)) (Meth (V 3) ''gc'' [])) (V 2)) [Do (Call ''bk'' [K (JNum 0), K (JStr ''count'')]), Do (SetV 4 (Seq (SetV 5 (Call ''JD'' [Call ''Ov'' [Call ''nd'' [Dot (V 0) ''a''], V 1], K (JNum 18)])) (Cond (Neg (V 5)) (K (JNum 0)) (Meth (V 5) ''gc'' [])))), Do (SetV 6 (Minus1 (V 4))), Do (Cond (Bin Gt (V 6) (K (JNum 0))) (Call ''Fh'' []) (And (Bin Lt (V 6) (K (JNum 0))) (Call ''Jw'' [V 0, V 1, Minus1 (V 6)]))), Ret (K (JBool True))] [Ret (K (JBool False))]],
    fn ''BIb'' 1 7 [Do (SetV 7 (K (JNum 0))), When (Loose (Dot (V 0) ''b'') (K (JNum 0))) [Do (SetV 6 (Call ''FIb'' [V 0, K (JBool True)])), Do (SetV 1 (K (JNum 0))), Do (Seq (Seq (SetV 3 (V 6)) (SetV 4 (K (JNum 0)))) (SetV 5 (Dot (V 3) ''length''))), Loop (Bin Lt (V 4) (V 5)) [Do (SetV 2 (Idx (V 3) (V 4))), When (Bin Gt (V 2) (K (JNum 0))) [Do (SetV 7 (Bin Plus (V 7) (V 2))), Do (SetV 1 (Bin Minus (V 1) (K (JNum (- 1)))))] []] [Do (SetV 4 (Bin Minus (V 4) (K (JNum (- 1)))))], Do (And (Bin Gt (V 1) (K (JNum 1))) (SetV 7 (Bin Plus (V 7) (Bin Times (Dot (V 0) ''c'') (Bin Minus (V 1) (K (JNum 1)))))))] [Do (SetV 7 (Call ''avb'' [Call ''jBb'' [Call ''$Bb'' [Call ''VBb'' [Call ''jnb'' [Dot (V 0) ''a''], New ''TIb'' []], New ''VIb'' []]]]))], Ret (Cond (Bin Gt (V 7) (K (JNum 0))) (Bin Plus (Bin Plus (V 7) (Dot (Dot (V 0) ''n'') ''d'')) (Dot (Dot (V 0) ''n'') ''a'')) (K (JNum 0)))],
    fn ''CIb'' 1 7 [Do (SetV 7 (K (JNum 0))), When (Loose (Dot (V 0) ''b'') (K (JNum 0))) [Do (SetV 7 (Call ''avb'' [Call ''jBb'' [Call ''$Bb'' [Call ''VBb'' [Call ''jnb'' [Dot (V 0) ''a''], New ''PIb'' []], New ''RIb'' []]]]))] [Do (SetV 6 (Call ''GIb'' [V 0, K (JBool True)])), Do (SetV 1 (K (JNum 0))), Do (Seq (Seq (SetV 3 (V 6)) (SetV 4 (K (JNum 0)))) (SetV 5 (Dot (V 3) ''length''))), Loop (Bin Lt (V 4) (V 5)) [Do (SetV 2 (Idx (V 3) (V 4))), When (Bin Gt (V 2) (K (JNum 0))) [Do (SetV 7 (Bin Plus (V 7) (V 2))), Do (SetV 1 (Bin Minus (V 1) (K (JNum (- 1)))))] []] [Do (SetV 4 (Bin Minus (V 4) (K (JNum (- 1)))))], Do (And (Bin Gt (V 1) (K (JNum 1))) (SetV 7 (Bin Plus (V 7) (Bin Times (Dot (V 0) ''c'') (Bin Minus (V 1) (K (JNum 1)))))))], Ret (Cond (Bin Gt (V 7) (K (JNum 0))) (Bin Plus (Bin Plus (V 7) (Dot (Dot (V 0) ''n'') ''b'')) (Dot (Dot (V 0) ''n'') ''c'')) (K (JNum 0)))],
    fn ''DLc'' 1 2 [When (Neg (Loose (Dot (Dot (V 0) ''c'') ''length'') (K (JNum 2)))) [Raise (Call ''Lcb'' [New ''nfb'' [K (JStr ''Order only allowed for two paths.'')]])] [], Do (SetV 1 (Seq (Call ''MDb'' [K (JNum 0), Dot (Dot (V 0) ''c'') ''length'']) (Call ''JD'' [Idx (Dot (V 0) ''c'') (K (JNum 0)), K (JNum 17)]))), Do (SetV 2 (Seq (Call ''MDb'' [K (JNum 1), Dot (Dot (V 0) ''c'') ''length'']) (Call ''JD'' [Idx (Dot (V 0) ''c'') (K (JNum 1)), K (JNum 17)]))), When (Neg (Loose (Dot (Dot (V 1) ''d'') ''i'') (Dot (Dot (V 2) ''c'') ''i''))) [Do (Put (Dot (V 0) ''c'') ''length'' (K (JNum 0))), Do (Call ''qDb'' [Dot (V 0) ''c'', V 2]), Do (Call ''qDb'' [Dot (V 0) ''c'', V 1])] []],
    fn ''J5c'' 3 1 [Do (Call ''Xvd'' [V 2, Dot (V 1) ''g'', Dot (V 1) ''f'']), Do (Call ''Zvd'' [V 2, Dot (V 1) ''i'', Dot (V 1) ''j'']), Do (SetV 3 (K (JNum 0))), Loop (Bin Lt (V 3) (Dot (Seq (And (Neg (Dot (V 1) ''a'')) (Put (V 1) ''a'' (New ''P3d'' [G ''T3'', V 1, K (JNum 10), K (JNum 11)]))) (Dot (V 1) ''a'')) ''i'')) [Do (Call ''J5c'' [V 0, Call ''JD'' [Call ''fGd'' [Seq (And (Neg (Dot (V 1) ''a'')) (Put (V 1) ''a'' (New ''P3d'' [G ''T3'', V 1, K (JNum 10), K (JNum 11)]))) (Dot (V 1) ''a''), V 3], K (JNum 26)], Call ''JD'' [Call ''fGd'' [Seq (And (Neg (Dot (V 2) ''a'')) (Put (V 2) ''a'' (New ''P3d'' [G ''T3'', V 2, K (JNum 10), K (JNum 11)]))) (Dot (V 2) ''a''), V 3], K (JNum 26)]])] [Do (Bin Minus (SetV 3 (Bin Minus (V 3) (K (JNum (- 1))))) (K (JNum 1)))]],
    fn ''gKb'' 2 4 [Do (SetV 5 (Call ''JD'' [Call ''brb'' [Dot (V 0) ''b'', V 1], K (JNum 127)])), Do (SetV 2 (Dot (V 5) ''a'')), Do (SetV 4 (Meth (Call ''JD'' [Call ''JD'' [Call ''Qc'' [Dot (V 0) ''r'', V 1], K (JNum 22)], K (JNum 83)]) ''Jc'' [])), Loop (Meth (V 4) ''Ob'' []) [Do (SetV 3 (Call ''JD'' [Meth (V 4) ''Pb'' [], K (JNum 115)])), Do (And (Neg (Neg (Dot (V 3) ''c''))) (Put (V 2) ''a'' (Meth (Dot (G ''$wnd'') ''Math'') ''max'' [Dot (V 2) ''a'', Call ''tIb'' [Dot (V 3) ''c'']])))] [], When (Bin Gt (Dot (V 2) ''a'') (K (JNum 0))) [Switch (Dot (V 1) ''g'') [(Some (JNum 2), [Do (Put (Dot (V 5) ''n'') ''c'' (Dot (V 0) ''s'')), Break]), (Some (JNum 4), [Do (Put (Dot (V 5) ''n'') ''b'' (Dot (V 0) ''s''))])]] []],
    fn ''XMb'' 2 3 [Do (SetV 2 (Bin Minus (Dot (Call ''JD'' [Call ''oNb'' [V 1, Seq (Call ''aPb'' []) (G ''POb'')], K (JNum 15)]) ''a'') (Dot (Call ''JD'' [Call ''oNb'' [V 0, G ''POb''], K (JNum 15)]) ''a''))), When (Loose (V 2) (K (JNum 0))) [Do (SetV 3 (Call ''igd'' [Call ''Xfd'' [Call ''JD'' [Call ''oNb'' [V 0, Seq (Call ''lPb'' []) (G ''hPb'')], K (JNum 8)]], Call ''JD'' [Call ''oNb'' [V 0, G ''iPb''], K (JNum 8)]])), Do (SetV 4 (Call ''igd'' [Call ''Xfd'' [Call ''JD'' [Call ''oNb'' [V 1, G ''hPb''], K (JNum 8)]], Call ''JD'' [Call ''oNb'' [V 1, G ''iPb''], K (JNum 8)]])), Ret (Call ''$eb'' [Bin Times (Dot (V 3) ''a'') (Dot (V 3) ''b''), Bin Times (Dot (V 4) ''a'') (Dot (V 4) ''b'')])] [], Ret (V 2)],
    fn ''sSc'' 2 3 [Do (SetV 2 (Bin Minus (Dot (Call ''JD'' [Call ''oNb'' [V 1, Seq (Call ''SXc'' []) (G ''GXc'')], K (JNum 15)]) ''a'') (Dot (Call ''JD'' [Call ''oNb'' [V 0, G ''GXc''], K (JNum 15)]) ''a''))), When (Loose (V 2) (K (JNum 0))) [Do (SetV 3 (Call ''igd'' [Call ''Xfd'' [Call ''JD'' [Call ''oNb'' [V 0, Seq (Call ''_Wc'' []) (G ''AWc'')], K (JNum 8)]], Call ''JD'' [Call ''oNb'' [V 0, G ''BWc''], K (JNum 8)]])), Do (SetV 4 (Call ''igd'' [Call ''Xfd'' [Call ''JD'' [Call ''oNb'' [V 1, G ''AWc''], K (JNum 8)]], Call ''JD'' [Call ''oNb'' [V 1, G ''BWc''], K (JNum 8)]])), Ret (Call ''$eb'' [Bin Times (Dot (V 3) ''a'') (Dot (V 3) ''b''), Bin Times (Dot (V 4) ''a'') (Dot (V 4) ''b'')])] [], Ret (V 2)],
    fn ''FWb'' 1 2 [Do (SetV 2 (New ''lhb'' [])), Do (Put (V 2) ''a'' (Bin Plus (Dot (V 2) ''a'') (K (JStr ''e_'')))), Do (SetV 1 (Call ''wWb'' [V 0])), Do (And (Neg (Loose (V 1) (K JNull))) (Seq (Put (V 2) ''a'' (Bin Plus (Dot (V 2) ''a'') (Bin Plus (K (JStr '''')) (V 1)))) (V 2))), When (And (Neg (Neg (Dot (V 0) ''c''))) (Neg (Neg (Dot (V 0) ''d'')))) [Do (Call ''hhb'' [Seq (Put (V 2) ''a'' (Bin Plus (Dot (V 2) ''a'') (K (JStr '' '')))) (V 2), Call ''tZb'' [Dot (V 0) ''c'']]), Do (Call ''hhb'' [Call ''ghb'' [Seq (Put (V 2) ''a'' (Bin Plus (Dot (V 2) ''a'') (K (JStr ''['')))) (V 2), Dot (Dot (V 0) ''c'') ''i''], K (JStr '']'')]), Do (Call ''hhb'' [Seq (Put (V 2) ''a'' (Bin Plus (Dot (V 2) ''a'') (G ''xye''))) (V 2), Call ''tZb'' [Dot (V 0) ''d'']]), Do (Call ''hhb'' [Call ''ghb'' [Seq (Put (V 2) ''a'' (Bin Plus (Dot (V 2) ''a'') (K (JStr ''['')))) (V 2), Dot (Dot (V 0) ''d'') ''i''], K (JStr '']'')])] [], Ret (Dot (V 2) ''a'')],
    fn ''ISc'' 1 0 [Switch (Dot (V 0) ''g'') [(Some (JNum 0), [Ret (New ''wYc'' [])]), (Some (JNum 1), [Ret (New ''EYc'' [])]), (Some (JNum 2), [Ret (New ''gZc'' [])]), (Some (JNum 3), [Ret (New ''sZc'' [])]), (None, [Raise (Call ''Lcb'' [New ''kfb'' [Bin Plus (K (JStr ''No implementation is available for the layout phase '')) (Cond (Neg (Loose (Dot (V 0) ''f'') (K JNull))) (Dot (V 0) ''f'') (Bin Plus (K (JStr '''')) (Dot (V 0) ''g'')))]])])]],
    fn ''Spd'' 5 1 [Do (SetV 5 (K (JNum 0))), Switch (Dot (V 4) ''g'') [(Some (JNum 1), [Do (SetV 5 (Meth (Dot (G ''$wnd'') ''Math'') ''max'' [K (JNum 0), Bin Minus (Bin Plus (Dot (V 1) ''b'') (Dot (V 0) ''b'')) (Bin Plus (Dot (V 2) ''b'') (V 3))])), Break]), (Some (JNum 3), [Do (SetV 5 (Meth (Dot (G ''$wnd'') ''Math'') ''max'' [K (JNum 0), Bin Minus (Minus1 (Dot (V 0) ''b'')) (V 3)])), Break]), (Some (JNum 2), [Do (SetV 5 (Meth (Dot (G ''$wnd'') ''Math'') ''max'' [K (JNum 0), Bin Minus (Minus1 (Dot (V 0) ''a'')) (V 3)])), Break]), (Some (JNum 4), [Do (SetV 5 (Meth (Dot (G ''$wnd'') ''Math'') ''max'' [K (JNum 0), Bin Minus (Bin Plus (Dot (V 1) ''a'') (Dot (V 0) ''a'')) (Bin Plus (Dot (V 2) ''a'') (V 3))]))])], Ret (V 5)]]"

definition code_5250_5279 :: "(string \<times> jfun) list" where
  "code_5250_5279 = [
    fn ''wVd'' 1 2 [Switch (Dot (V 0) ''b'') [(Some (JNum (- 1)), [Ret (K (JBool True))]), (Some (JNum 0), [Do (SetV 2 (Dot (V 0) ''t'')), When (Or (Bin Gt (V 2) (K (JNum 1))) (Loose (V 2) (K (JNum (- 1))))) [Do (Put (V 0) ''b'' (K (JNum (- 1)))), Ret (K (JBool True))] [Do (SetV 1 (Call ''hUd'' [V 0])), When (And (Neg (Neg (V 1))) (Seq (Call ''Aie'' []) (Loose (Meth (V 1) ''jk'' []) (G ''mIe'')))) [Do (Put (V 0) ''b'' (K (JNum (- 1)))), Ret (K (JBool True))] [Do (Put (V 0) ''b'' (K (JNum 1))), Ret (K (JBool False))]]]), (None, []), (Some (JNum 1), [Ret (K (JBool False))])]],
    fn ''dpe'' 2 4 [Do (Call ''Zoe'' [V 0]), When (Or (Neg (Loose (Dot (V 0) ''c'') (K (JNum 0)))) (Neg (Loose (Dot (V 0) ''a'') (K (JNum 123))))) [Raise (Call ''Lcb'' [New ''Yoe'' [Call ''iHd'' [Seq (Call ''Ube'' []) (G ''pHe'')]]])] [], Do (SetV 5 (Loose (V 1) (K (JNum 112)))), Do (SetV 3 (Dot (V 0) ''d'')), Do (SetV 2 (Call ''zgb'' [Dot (V 0) ''i'', K (JNum 125), V 3])), When (Bin Lt (V 2) (K (JNum 0))) [Raise (Call ''Lcb'' [New ''Yoe'' [Call ''iHd'' [Seq (Call ''Ube'' []) (G ''qHe'')]]])] [], Do (SetV 4 (Call ''Jgb'' [Dot (V 0) ''i'', V 3, V 2])), Do (Put (V 0) ''d'' (Bin Plus (V 2) (K (JNum 1)))), Ret (Call ''vre'' [V 4, V 5, Loose (Bin BitAnd (Dot (V 0) ''e'') (K (JNum 512))) (K (JNum 512))])],
    fn ''ZDc'' 1 7 [Do (SetV 7 (Call ''Xu'' [Dot (Dot (V 0) ''c'') ''length''])), Do (SetV 4 (New ''Kmb'' [V 0])), Loop (Bin Lt (Dot (V 4) ''a'') (Dot (Dot (Dot (V 4) ''c'') ''c'') ''length'')) [Do (SetV 3 (Call ''JD'' [Call ''Imb'' [V 4], K (JNum 9)])), Do (SetV 6 (New ''hsb'' [])), Do (SetV 5 (Call ''HYb'' [V 3])), Do (SetV 2 (New ''Yr'' [Call ''Dr'' [Meth (Dot (V 5) ''a'') ''Jc'' [], New ''Dl'' []]])), Loop (Call ''Wr'' [V 2]) [Do (SetV 1 (Call ''JD'' [Call ''Xr'' [V 2], K (JNum 17)])), Do (Or (Loose (Dot (Dot (V 1) ''c'') ''i'') (Dot (Dot (V 1) ''d'') ''i'')) (Call ''esb'' [V 6, Dot (Dot (V 1) ''d'') ''i'']))] [], Do (Call ''qDb'' [Dot (V 7) ''c'', V 6])] [], Ret (V 7)],
    fn ''UVd'' 2 3 [When (Neg (V 1)) [Do (Call ''WVd'' [V 0, K JNull]), Do (Call ''MVd'' [V 0, K JNull])] [When (Neg (Loose (Bin BitAnd (Dot (V 1) ''i'') (K (JNum 4))) (K (JNum 0)))) [Do (SetV 3 (K (JStr ''[]''))), Do (SetV 2 (Dot (V 1) ''c'')), Loop (K (JBool True)) [When (Loose (Bin BitAnd (Dot (V 2) ''i'') (K (JNum 4))) (K (JNum 0))) [Do (SetV 4 (Call ''Cgb'' [Seq (Call ''veb'' [V 2]) (Bin Plus (Dot (V 2) ''o'') (V 3))])), Do (Call ''WVd'' [V 0, V 4]), Do (Call ''MVd'' [V 0, V 4]), Break] [], Do (SetV 3 (Bin Plus (V 3) (K (JStr ''[]''))))] [Do (SetV 2 (Dot (V 2) ''c''))]] [Do (SetV 4 (Call ''Cgb'' [Seq (Call ''veb'' [V 1]) (Dot (V 1) ''o'')])), Do (Call ''WVd'' [V 0, V 4]), Do (Call ''MVd'' [V 0, V 4])]], Do (Meth (V 0) ''fl'' [V 1])],
    fn ''Oee'' 5 4 [Do (SetV 8 (Call ''Nee'' [V 0, Call ''JD'' [V 4, K (JNum 57)]])), When (Neg (Same (Call ''XD'' [V 8]) (Call ''XD'' [V 4]))) [Do (SetV 7 (Call ''JD'' [Idx (Dot (V 0) ''g'') (V 2), K (JNum 75)])), Do (SetV 5 (Call ''Bie'' [V 1, V 8])), Do (Call ''bGd'' [V 0, V 2, Call ''efe'' [V 0, V 2, V 5]]), When (Call ''itd'' [Dot (V 0) ''e'']) [Do (SetV 6 (Call ''see'' [V 0, K (JNum 9), Meth (V 5) ''Jk'' [], V 4, V 8, V 3, K (JBool False)])), Do (Call ''FId'' [V 6, New ''a2d'' [Dot (V 0) ''e'', K (JNum 9), Dot (V 0) ''c'', V 7, V 5, V 3, K (JBool False)]]), Do (Call ''GId'' [V 6])] [], Ret (V 8)] [], Ret (V 4)],
    fn ''ued'' 2 5 [Try [Do (SetV 4 (Call ''ls'' [Dot (V 0) ''a'', V 1])), Ret (V 4)] 5 [Do (SetV 5 (Call ''Kcb'' [V 5])), When (Call ''RD'' [V 5, K (JNum 32)]) [Try [Do (SetV 3 (Call ''Ydb'' [V 1, G ''Eue'', G ''Ate''])), Do (SetV 2 (Call ''web'' [Dot (V 0) ''a''])), When (And (Bin Ge (V 3) (K (JNum 0))) (Bin Lt (V 3) (Dot (V 2) ''length''))) [Ret (Idx (V 2) (V 3))] []] 6 [Do (SetV 6 (Call ''Kcb'' [V 6])), When (Neg (Call ''RD'' [V 6, K (JNum 131)])) [Raise (Call ''Lcb'' [V 6])] []], Ret (K JNull)] [Raise (Call ''Lcb'' [V 5])]]],
    fn ''ntd'' 2 3 [Do (SetV 4 (Call ''Rce'' [Seq (Call ''yie'' []) (G ''wie''), Meth (V 0) ''Ah'' [], V 1])), When (V 4) [Do (Call ''Aie'' []), Do (Or (Meth (Call ''JD'' [V 4, K (JNum 69)]) ''vk'' []) (SetV 4 (Call ''Mde'' [Call ''bde'' [G ''wie'', V 4]]))), Do (SetV 3 (Seq (SetV 2 (Meth (V 0) ''Fh'' [V 4])) (Call ''JD'' [Cond (Bin Ge (V 2) (K (JNum 0))) (Meth (V 0) ''Ih'' [V 2, K (JBool True), K (JBool True)]) (Call ''mtd'' [V 0, V 4, K (JBool True)]), K (JNum 163)]))), Ret (Meth (Call ''JD'' [V 3, K (JNum 219)]) ''Ul'' [V 1])] [Raise (Call ''Lcb'' [New ''kfb'' [Bin Plus (Bin Plus (G ''UFe'') (Meth (V 1) ''ve'' [])) (G ''XFe'')]])]],
    fn ''m9d'' 0 1 [Do (Call ''e9d'' []), When (G ''d9d'') [Ret (Call ''JD'' [Call ''$3d'' [Seq (Call ''jRd'' []) (G ''iRd''), G ''LIe''], K (JNum 2003)])] [], Do (Call ''cQd'' [G ''LK'', New ''ube'' []]), Do (Call ''n9d'' []), Do (SetV 0 (Call ''JD'' [Cond (Call ''RD'' [Call ''fjb'' [Seq (Call ''jRd'' []) (G ''iRd''), G ''LIe''], K (JNum 549)]) (Call ''fjb'' [G ''iRd'', G ''LIe'']) (New ''l9d'' []), K (JNum 549)])), Do (SetG ''d9d'' (K (JBool True))), Do (Call ''j9d'' [V 0]), Do (Call ''k9d'' [V 0]), Do (Call ''hjb'' [Seq (Call ''uRd'' []) (G ''tRd''), V 0, New ''p9d'' []]), Do (Call ''ijb'' [G ''iRd'', G ''LIe'', V 0]), Ret (V 0)],
    fn ''gee'' 2 4 [Do (Put (V 0) ''j'' (K (JNum (- 1)))), When (Call ''itd'' [Dot (V 0) ''e'']) [Do (SetV 2 (Dot (V 0) ''i'')), Do (SetV 5 (Neg (Loose (Dot (V 0) ''i'') (K (JNum 0))))), Do (Call ''aGd'' [V 0, V 1]), Do (SetV 3 (New ''a2d'' [Dot (V 0) ''e'', K (JNum 3), Dot (V 0) ''c'', K JNull, V 1, V 2, V 5])), Do (SetV 4 (Meth (V 1) ''xl'' [Dot (V 0) ''e'', Dot (V 0) ''c'', K JNull])), Do (SetV 4 (Call ''Uee'' [V 0, V 1, V 4])), When (Neg (V 4)) [Do (Call ''Osd'' [Dot (V 0) ''e'', V 3])] [Do (Meth (V 4) ''lj'' [V 3]), Do (Meth (V 4) ''mj'' [])]] [Do (Call ''aGd'' [V 0, V 1]), Do (SetV 4 (Meth (V 1) ''xl'' [Dot (V 0) ''e'', Dot (V 0) ''c'', K JNull])), Do (And (Neg (Neg (V 4))) (Meth (V 4) ''mj'' []))]],
    fn ''zA'' 2 3 [Do (SetV 4 (K (JNum 0))), Do (SetV 3 (Idx (V 1) (K (JNum 0)))), When (Bin Ge (V 3) (Dot (V 0) ''length'')) [Ret (K (JNum (- 1)))] [], Do (SetV 2 (Seq (Call ''UDb'' [V 3, Dot (V 0) ''length'']) (Meth (V 0) ''charCodeAt'' [V 3]))), Loop (And (Bin Ge (V 2) (K (JNum 48))) (Bin Le (V 2) (K (JNum 57)))) [Do (SetV 4 (Bin Plus (Bin Times (V 4) (K (JNum 10))) (Bin Minus (V 2) (K (JNum 48))))), Do (SetV 3 (Bin Minus (V 3) (K (JNum (- 1))))), When (Bin Ge (V 3) (Dot (V 0) ''length'')) [Break] [], Do (SetV 2 (Seq (Call ''UDb'' [V 3, Dot (V 0) ''length'']) (Meth (V 0) ''charCodeAt'' [V 3])))] [], Do (Cond (Bin Gt (V 3) (Idx (V 1) (K (JNum 0)))) (PutIdx (V 1) (K (JNum 0)) (V 3)) (SetV 4 (K (JNum (- 1))))), Ret (V 4)],
    fn ''UOc'' 3 5 [Do (SetV 6 (Dot (V 0) ''c'')), Do (SetV 7 (Dot (V 0) ''d'')), Do (SetV 5 (Dot (Call ''rgd'' [Call ''WC'' [Call ''OC'' [G ''r2'', K (JNum 1)], G ''aue'', K (JNum 8), K (JNum 0), NewArr [Dot (Dot (V 6) ''i'') ''n'', Dot (V 6) ''n'', Dot (V 6) ''a'']]]) ''b'')), Do (SetV 4 (Bin Divide (Bin Plus (V 5) (Dot (Call ''rgd'' [Call ''WC'' [Call ''OC'' [G ''r2'', K (JNum 1)], G ''aue'', K (JNum 8), K (JNum 0), NewArr [Dot (Dot (V 7) ''i'') ''n'', Dot (V 7) ''n'', Dot (V 7) ''a'']]]) ''b'')) (K (JNum 2)))), Do (SetV 3 (K JNull)), Do (Cond (Loose (Dot (V 6) ''j'') (Seq (Call ''Bmd'' []) (G ''gmd''))) (SetV 3 (New ''lgd'' [Bin Plus (Bin Plus (V 1) (Dot (Dot (Dot (Dot (V 6) ''i'') ''c'') ''c'') ''a'')) (V 2), V 4])) (SetV 3 (New ''lgd'' [Bin Minus (V 1) (V 2), V 4]))), Do (Call ''$t'' [Dot (V 0) ''a'', K (JNum 0), V 3])],
    fn ''Kwd'' 1 4 [Do (SetV 1 (K JNull)), Do (SetV 3 (Call ''Gl'' [Call ''yl'' [Call ''WC'' [Call ''OC'' [G ''VI'', K (JNum 1)], G ''Gte'', K (JNum 20), K (JNum 0), NewArr [Seq (And (Neg (Dot (V 0) ''b'')) (Put (V 0) ''b'' (New ''jhe'' [G ''O3'', V 0, K (JNum 4), K (JNum 7)]))) (Dot (V 0) ''b''), Seq (And (Neg (Dot (V 0) ''c'')) (Put (V 0) ''c'' (New ''jhe'' [G ''O3'', V 0, K (JNum 5), K (JNum 8)]))) (Dot (V 0) ''c'')]]]])), Loop (Call ''Wr'' [V 3]) [Do (SetV 2 (Call ''JD'' [Call ''Xr'' [V 3], K (JNum 84)])), Do (SetV 4 (Call ''TEd'' [V 2])), When (Neg (V 1)) [Do (SetV 1 (V 4))] [When (Neg (Loose (V 1) (V 4))) [Ret (K (JBool False))] []]] [], Ret (K (JBool True))],
    fn ''hGd'' 3 1 [Do (Put (V 0) ''j'' (Bin Minus (Dot (V 0) ''j'') (K (JNum (- 1))))), When (Bin Ge (V 1) (Dot (V 0) ''i'')) [Raise (Call ''Lcb'' [New ''Fdb'' [Bin Plus (Bin Plus (Bin Plus (G ''XGe'') (V 1)) (G ''YGe'')) (Dot (V 0) ''i'')]])] [], When (Bin Ge (V 2) (Dot (V 0) ''i'')) [Raise (Call ''Lcb'' [New ''Fdb'' [Bin Plus (Bin Plus (Bin Plus (G ''ZGe'') (V 2)) (G ''YGe'')) (Dot (V 0) ''i'')]])] [], Do (SetV 3 (Idx (Dot (V 0) ''g'') (V 2))), When (Neg (Loose (V 1) (V 2))) [Do (Cond (Bin Lt (V 1) (V 2)) (Call ''rhb'' [Dot (V 0) ''g'', V 1, Dot (V 0) ''g'', Bin Plus (V 1) (K (JNum 1)), Bin Minus (V 2) (V 1)]) (Call ''rhb'' [Dot (V 0) ''g'', Bin Plus (V 2) (K (JNum 1)), Dot (V 0) ''g'', V 2, Bin Minus (V 1) (V 2)])), Do (Call ''VC'' [Dot (V 0) ''g'', V 1, V 3]), Do (Meth (V 0) ''Ni'' [V 1, V 3, V 2]), Do (Meth (V 0) ''Li'' [])] [], Ret (V 3)],
    fn ''Rc'' 3 1 [Do (SetV 3 (Call ''JD'' [Meth (Dot (V 0) ''c'') ''xc'' [V 1], K (JNum 18)])), When (Neg (V 3)) [Do (SetV 3 (Meth (V 0) ''ic'' [V 1])), When (Meth (V 3) ''Ec'' [V 2]) [Do (Put (V 0) ''d'' (Bin Minus (Dot (V 0) ''d'') (K (JNum (- 1))))), Do (Meth (Dot (V 0) ''c'') ''yc'' [V 1, V 3]), Ret (K (JBool True))] [Raise (Call ''Lcb'' [New ''Ndb'' [K (JStr ''New Collection violated the Collection spec'')]])]] [When (Meth (V 3) ''Ec'' [V 2]) [Do (Put (V 0) ''d'' (Bin Minus (Dot (V 0) ''d'') (K (JNum (- 1))))), Ret (K (JBool True))] [Ret (K (JBool False))]]],
    fn ''xfb'' 1 3 [When (Bin Lt (V 0) (K (JNum 0))) [Ret (K (JNum 0))] [When (Loose (V 0) (K (JNum 0))) [Ret (K (JNum 32))] [Do (SetV 3 (Minus1 (Bin Shr (V 0) (K (JNum 16))))), Do (SetV 1 (Bin BitAnd (Bin Shr (V 3) (K (JNum 16))) (K (JNum 16)))), Do (SetV 2 (Bin Minus (K (JNum 16)) (V 1))), Do (SetV 0 (Bin Shr (V 0) (V 1))), Do (SetV 3 (Bin Minus (V 0) (K (JNum 256)))), Do (SetV 1 (Bin BitAnd (Bin Shr (V 3) (K (JNum 16))) (K (JNum 8)))), Do (SetV 2 (Bin Plus (V 2) (V 1))), Do (SetV 0 (Bin Shl (V 0) (V 1))), Do (SetV 3 (Bin Minus (V 0) (G ''Eve''))), Do (SetV 1 (Bin BitAnd (Bin Shr (V 3) (K (JNum 16))) (K (JNum 4)))), Do (SetV 2 (Bin Plus (V 2) (V 1))), Do (SetV 0 (Bin Shl (V 0) (V 1))), Do (SetV 3 (Bin Minus (V 0) (G ''bue''))), Do (SetV 1 (Bin BitAnd (Bin Shr (V 3) (K (JNum 16))) (K (JNum 2)))), Do (SetV 2 (Bin Plus (V 2) (V 1))), Do (SetV 0 (Bin Shl (V 0) (V 1))), Do (SetV 3 (Bin Shr (V 0) (K (JNum 14)))), Do (SetV 1 (Bin BitAnd (V 3) (Compl (Bin Shr (V 3) (K (JNum 1)))))), Ret (Bin Minus (Bin Plus (V 2) (K (JNum 2))) (V 1))]]],
    fn ''SSc'' 2 3 [Do (SetV 4 (New ''lmb'' [])), Do (SetV 3 (Call ''Ztb'' [Dot (V 1) ''a'', K (JNum 0)])), Loop (Neg (Loose (Dot (V 3) ''b'') (Dot (Dot (V 3) ''d'') ''c''))) [Do (SetV 2 (Call ''JD'' [Call ''lub'' [V 3], K (JNum 65)])), Do (And (And (And (Loose (Dot (Dot (V 2) ''c'') ''g'') (Dot (V 0) ''g'')) (Neg (Same (Call ''XD'' [Call ''oNb'' [Dot (V 2) ''b'', Seq (Call ''SXc'' []) (G ''QXc'')]]) (Call ''XD'' [Call ''oNb'' [Dot (V 2) ''c'', G ''QXc'']])))) (Neg (Call ''RBb'' [New ''jCb'' [K JNull, New ''Zvb'' [V 4, K (JNum 16)]], New ''rTc'' [V 2]]))) (Seq (Call ''qDb'' [Dot (V 4) ''c'', V 2]) (K (JBool True))))] [], Do (Call ''jmb'' [V 4, New ''tTc'' []]), Ret (V 4)],
    fn ''JNb'' 3 4 [When (And (Call ''RD'' [V 1, K (JNum 155)]) (Call ''RD'' [V 2, K (JNum 155)])) [Do (SetV 5 (Call ''JD'' [V 1, K (JNum 155)])), Do (SetV 6 (Call ''JD'' [V 2, K (JNum 155)])), Ret (Bin Plus (Idx (Idx (Dot (V 0) ''a'') (Dot (V 5) ''a'')) (Dot (V 6) ''a'')) (Idx (Idx (Dot (V 0) ''a'') (Dot (V 6) ''a'')) (Dot (V 5) ''a'')))] [When (And (Call ''RD'' [V 1, K (JNum 251)]) (Call ''RD'' [V 2, K (JNum 251)])) [Do (SetV 3 (Call ''JD'' [V 1, K (JNum 251)])), Do (SetV 4 (Call ''JD'' [V 2, K (JNum 251)])), When (Loose (Dot (V 3) ''a'') (Dot (V 4) ''a'')) [Ret (Dot (Call ''JD'' [Call ''oNb'' [Dot (V 4) ''a'', Seq (Call ''aPb'' []) (G ''POb'')], K (JNum 15)]) ''a'')] []] []], Ret (K (JNum 0))],
    fn ''c3b'' 2 8 [Do (SetV 9 (Call ''Ueb'' [Call ''MD'' [Call ''oNb'' [V 1, Seq (Call ''nyc'' []) (G ''Wxc'')]]])), Do (SetV 8 (Bin Plus (Bin Plus (Bin Plus (Dot (Dot (Idx (V 0) (K (JNum 0))) ''n'') ''a'') (Dot (Dot (Idx (V 0) (K (JNum 0))) ''o'') ''a'')) (Dot (Dot (Idx (V 0) (K (JNum 0))) ''d'') ''c'')) (V 9))), Do (SetV 7 (K (JNum 1))), Loop (Bin Lt (V 7) (Dot (V 0) ''length'')) [Do (SetV 3 (Dot (Idx (V 0) (V 7)) ''n'')), Do (SetV 4 (Dot (Idx (V 0) (V 7)) ''o'')), Do (SetV 2 (Dot (Idx (V 0) (V 7)) ''d'')), Do (SetV 5 (Bin Minus (Bin Minus (Dot (V 3) ''a'') (Dot (V 2) ''b'')) (V 8))), Do (And (Bin Lt (V 5) (K (JNum 0))) (Put (V 3) ''a'' (Bin Minus (Dot (V 3) ''a'') (V 5)))), Do (SetV 6 (Dot (V 1) ''f'')), Do (Put (V 6) ''a'' (Meth (Dot (G ''$wnd'') ''Math'') ''max'' [Dot (V 6) ''a'', Bin Plus (Dot (V 3) ''a'') (Dot (V 4) ''a'')])), Do (SetV 8 (Bin Plus (Bin Plus (Bin Plus (Dot (V 3) ''a'') (Dot (V 4) ''a'')) (Dot (V 2) ''c'')) (V 9)))] [Do (Bin Minus (SetV 7 (Bin Minus (V 7) (K (JNum (- 1))))) (K (JNum 1)))]],
    fn ''J7c'' 2 6 [Do (SetV 3 (Call ''JD'' [Dot (Call ''JD'' [Call ''ejb'' [Dot (V 0) ''g'', Dot (V 1) ''a''], K (JNum 49)]) ''a'', K (JNum 68)])), Do (SetV 4 (Call ''JD'' [Dot (Call ''JD'' [Call ''ejb'' [Dot (V 0) ''g'', Dot (V 1) ''b''], K (JNum 49)]) ''a'', K (JNum 68)])), Do (SetV 5 (Dot (V 3) ''b'')), Do (SetV 6 (Dot (V 4) ''b'')), Do (SetV 2 (Call ''Ffd'' [V 5, V 6])), When (Bin Ge (V 2) (K (JNum 0))) [Ret (V 2)] [], Do (SetV 7 (Call ''_fd'' [Call ''igd'' [New ''lgd'' [Bin Plus (Dot (V 6) ''c'') (Bin Divide (Dot (V 6) ''b'') (K (JNum 2))), Bin Plus (Dot (V 6) ''d'') (Bin Divide (Dot (V 6) ''a'') (K (JNum 2)))], New ''lgd'' [Bin Plus (Dot (V 5) ''c'') (Bin Divide (Dot (V 5) ''b'') (K (JNum 2))), Bin Plus (Dot (V 5) ''d'') (Bin Divide (Dot (V 5) ''a'') (K (JNum 2)))]]])), Ret (Bin Times (Minus1 (Bin Minus (Call ''QMb'' [V 5, V 6]) (K (JNum 1)))) (V 7))],
    fn ''$pd'' 3 1 [Do (Call ''YBb'' [New ''jCb'' [K JNull, Seq (And (Neg (Dot (V 2) ''a'')) (Put (V 2) ''a'' (New ''P3d'' [G ''P3'', V 2, K (JNum 6), K (JNum 6)]))) (New ''Zvb'' [Dot (V 2) ''a'', K (JNum 16)])], New ''qqd'' [V 0, V 1]]), Do (Call ''YBb'' [New ''jCb'' [K JNull, Seq (And (Neg (Dot (V 2) ''n'')) (Put (V 2) ''n'' (New ''P3d'' [G ''S3'', V 2, K (JNum 1), K (JNum 7)]))) (New ''Zvb'' [Dot (V 2) ''n'', K (JNum 16)])], New ''sqd'' [V 0, V 1]]), Do (SetV 3 (Call ''JD'' [Call ''cvd'' [V 2, Seq (Call ''vjd'' []) (G ''aid'')], K (JNum 79)])), Do (And (Neg (Neg (V 3))) (Call ''vgd'' [V 3, V 0, V 1]))],
    fn ''mtd'' 3 3 [Do (SetV 5 (Call ''Rce'' [Seq (Call ''yie'' []) (G ''wie''), Meth (V 0) ''Ah'' [], V 1])), When (V 5) [Do (Call ''Aie'' []), Do (Or (Meth (Call ''JD'' [V 5, K (JNum 69)]) ''vk'' []) (SetV 5 (Call ''Mde'' [Call ''bde'' [G ''wie'', V 5]]))), Do (SetV 4 (Seq (SetV 3 (Meth (V 0) ''Fh'' [V 5])) (Call ''JD'' [Cond (Bin Ge (V 3) (K (JNum 0))) (Meth (V 0) ''Ih'' [V 3, K (JBool True), K (JBool True)]) (Call ''mtd'' [V 0, V 5, K (JBool True)]), K (JNum 163)]))), Ret (Meth (Call ''JD'' [V 4, K (JNum 219)]) ''Ql'' [V 1, V 2])] [Raise (Call ''Lcb'' [New ''kfb'' [Bin Plus (Bin Plus (G ''UFe'') (Meth (V 1) ''ve'' [])) (G ''XFe'')]])]],
    fn ''lMd'' 4 5 [Do (SetV 4 (Idx (Dot (V 0) ''d'') (V 1))), When (V 4) [Do (SetV 5 (Dot (V 4) ''g'')), Do (SetV 8 (Dot (V 4) ''i'')), When (Neg (Loose (V 3) (K JNull))) [Do (SetV 7 (K (JNum 0))), Loop (Bin Lt (V 7) (V 8)) [Do (SetV 6 (Call ''JD'' [Idx (V 5) (V 7), K (JNum 136)])), When (And (Loose (Meth (V 6) ''yi'' []) (V 2)) (Call ''pb'' [V 3, Meth (V 6) ''jd'' []])) [Ret (V 6)] []] [Do (SetV 7 (Bin Minus (V 7) (K (JNum (- 1)))))]] [Do (SetV 7 (K (JNum 0))), Loop (Bin Lt (V 7) (V 8)) [Do (SetV 6 (Call ''JD'' [Idx (V 5) (V 7), K (JNum 136)])), When (Same (Call ''XD'' [Meth (V 6) ''jd'' []]) (Call ''XD'' [V 3])) [Ret (V 6)] []] [Do (SetV 7 (Bin Minus (V 7) (K (JNum (- 1)))))]]] [], Ret (K JNull)],
    fn ''$ce'' 2 5 [Do (SetV 3 (Seq (And (Neg (Dot (V 1) ''s'')) (Put (V 1) ''s'' (New ''P3d'' [G ''J6'', V 1, K (JNum 21), K (JNum 17)]))) (Dot (V 1) ''s''))), Do (SetV 5 (K JNull)), Do (Seq (SetV 4 (K (JNum 0))) (SetV 6 (Dot (V 3) ''i''))), Loop (Bin Lt (V 4) (V 6)) [Do (SetV 2 (Call ''JD'' [Call ''fGd'' [V 3, V 4], K (JNum 179)])), Switch (Call ''Lde'' [Call ''bde'' [V 0, V 2]]) [(Some (JNum 4), []), (Some (JNum 5), []), (Some (JNum 6), [Do (And (Neg (V 5)) (SetV 5 (New ''lmb'' []))), Do (Call ''qDb'' [Dot (V 5) ''c'', V 2]), Break])]] [Do (SetV 4 (Bin Minus (V 4) (K (JNum (- 1)))))], Ret (Cond (Neg (V 5)) (Seq (Seq (Call ''Inb'' []) (Call ''Inb'' [])) (G ''Fnb'')) (V 5))],
    fn ''gib'' 2 1 [When (Bin Lt (V 1) (K (JNum 0))) [Raise (Call ''Lcb'' [New ''Ddb'' [K (JStr ''Negative exponent'')]])] [], When (Loose (V 1) (K (JNum 0))) [Ret (G ''Uhb'')] [When (Or (Or (Loose (V 1) (K (JNum 1))) (Call ''aib'' [V 0, G ''Uhb''])) (Call ''aib'' [V 0, G ''Yhb''])) [Ret (V 0)] []], When (Neg (Call ''jib'' [V 0, K (JNum 0)])) [Do (SetV 2 (K (JNum 1))), Loop (Neg (Call ''jib'' [V 0, V 2])) [Do (SetV 2 (Bin Minus (V 2) (K (JNum (- 1)))))] [], Ret (Call ''eib'' [Call ''uib'' [Bin Times (V 2) (V 1)], Call ''gib'' [Call ''iib'' [V 0, V 2], V 1]])] [], Ret (Call ''_ib'' [V 0, V 1])],
    fn ''Tmb'' 2 3 [When (Same (Call ''XD'' [V 0]) (Call ''XD'' [V 1])) [Ret (K (JBool True))] [], When (Or (Loose (V 0) (K JNull)) (Loose (V 1) (K JNull))) [Ret (K (JBool False))] [], When (Neg (Loose (Dot (V 0) ''length'') (Dot (V 1) ''length''))) [Ret (K (JBool False))] [], Do (SetV 2 (K (JNum 0))), Loop (Bin Lt (V 2) (Dot (V 0) ''length'')) [Do (SetV 3 (Idx (V 0) (V 2))), Do (SetV 4 (Idx (V 1) (V 2))), When (Neg (Or (Same (Call ''XD'' [V 3]) (Call ''XD'' [V 4])) (And (Neg (Loose (V 3) (K JNull))) (Call ''pb'' [V 3, V 4])))) [Ret (K (JBool False))] []] [Do (SetV 2 (Bin Minus (V 2) (K (JNum (- 1)))))], Ret (K (JBool True))],
    fn ''iSb'' 1 3 [Do (Call ''VRb'' []), Do (Put This ''b'' (G ''URb'')), Do (Put This ''c'' (Seq (Call ''Djd'' []) (G ''Bjd''))), Do (Put This ''f'' (Seq (Call ''QRb'' []) (G ''PRb''))), Do (Put This ''a'' (V 0)), Do (Call ''fSb'' [This, New ''jSb'' []]), Do (Call ''$Rb'' [This]), Do (SetV 3 (New ''Kmb'' [Dot (V 0) ''b''])), Loop (Bin Lt (Dot (V 3) ''a'') (Dot (Dot (Dot (V 3) ''c'') ''c'') ''length'')) [Do (SetV 2 (Call ''JD'' [Call ''Imb'' [V 3], K (JNum 82)])), When (Neg (Dot (V 2) ''d'')) [Do (SetV 1 (New ''ORb'' [Call ''WC'' [Call ''OC'' [G ''KO'', K (JNum 1)], G ''Gte'', K (JNum 82), K (JNum 0), NewArr [V 2]]])), Do (Call ''_lb'' [Dot (V 0) ''a'', V 1])] []] []],
    fn ''mFb'' 1 2 [Do (Call ''YEb'' []), Do (Put This ''b'' (G ''VEb'')), Do (Put This ''c'' (G ''XEb'')), Do (Put This ''g'' (Seq (Call ''PEb'' []) (G ''OEb''))), Do (Put This ''d'' (Seq (Call ''Djd'' []) (G ''Bjd''))), Do (Put This ''a'' (V 0)), Do (Call ''_Eb'' [This]), Do (SetV 2 (New ''Kmb'' [Dot (V 0) ''b''])), Loop (Bin Lt (Dot (V 2) ''a'') (Dot (Dot (Dot (V 2) ''c'') ''c'') ''length'')) [Do (SetV 1 (Call ''JD'' [Call ''Imb'' [V 2], K (JNum 60)])), Do (And (Neg (Dot (V 1) ''a'')) (Call ''zEb'' [Call ''BEb'' [New ''CEb'' [], Call ''WC'' [Call ''OC'' [G ''LM'', K (JNum 1)], G ''Gte'', K (JNum 60), K (JNum 0), NewArr [V 1]]], V 0])), Do (Put (V 1) ''e'' (New ''Qfd'' [Dot (V 1) ''d'']))] []],
    fn ''G0b'' 3 6 [When (Or (Neg (V 0)) (Loose (Dot (Dot (V 0) ''c'') ''length'') (K (JNum 0)))) [Ret (K JNull)] [], Do (SetV 5 (New ''yIb'' [V 1, Neg (V 2)])), Do (SetV 4 (New ''Kmb'' [V 0])), Loop (Bin Lt (Dot (V 4) ''a'') (Dot (Dot (Dot (V 4) ''c'') ''c'') ''length'')) [Do (SetV 3 (Call ''JD'' [Call ''Imb'' [V 4], K (JNum 70)])), Do (Call ''oIb'' [V 5, Seq (Call ''OWb'' []) (New ''iXb'' [V 3])])] [], Do (SetV 6 (Dot (V 5) ''i'')), Do (Put (V 6) ''a'' (Seq (SetV 8 (Dot (V 5) ''n'')) (Bin Plus (Bin Plus (Dot (Dot (V 5) ''e'') ''b'') (Dot (V 8) ''d'')) (Dot (V 8) ''a'')))), Do (Put (V 6) ''b'' (Seq (SetV 7 (Dot (V 5) ''n'')) (Bin Plus (Bin Plus (Dot (Dot (V 5) ''e'') ''a'') (Dot (V 7) ''b'')) (Dot (V 7) ''c'')))), Ret (V 5)],
    fn ''R2b'' 1 7 [Do (SetV 7 (Call ''$Xb'' [Dot (V 0) ''a''])), Do (Call ''hnb'' [V 7, New ''W2b'' []]), Do (SetV 2 (K JNull)), Do (Seq (Seq (SetV 4 (V 7)) (SetV 5 (K (JNum 0)))) (SetV 6 (Dot (V 4) ''length''))), Loop (Bin Lt (V 5) (V 6)) [Do (SetV 3 (Idx (V 4) (V 5))), When (Neg (Loose (Dot (V 3) ''k'') (Seq (Call ''$Yb'' []) (G ''TYb'')))) [Break] [], Do (SetV 1 (Call ''JD'' [Call ''oNb'' [V 3, Seq (Call ''Wrc'' []) (G ''$qc'')], K (JNum 64)])), When (And (Neg (Loose (V 1) (Seq (Call ''Bmd'' []) (G ''Amd'')))) (Neg (Loose (V 1) (G ''gmd'')))) [Continue] [], Do (And (Neg (Neg (V 2))) (Meth (Call ''JD'' [Call ''oNb'' [V 2, G ''hrc''], K (JNum 16)]) ''Ec'' [V 3])), Do (SetV 2 (V 3))] [Do (SetV 5 (Bin Minus (V 5) (K (JNum (- 1)))))]],
    fn ''fQc'' 3 7 [Do (SetV 8 (Seq (Call ''MDb'' [V 1, Dot (Dot (V 0) ''c'') ''length'']) (Call ''JD'' [Idx (Dot (V 0) ''c'') (V 1), K (JNum 340)]))), Do (Call ''fmb'' [V 0, V 1]), When (Bin Ge (Bin Divide (Dot (V 8) ''b'') (K (JNum 2))) (V 2)) [Do (SetV 3 (V 1)), Do (SetV 9 (Bin Divide (Bin Plus (Dot (V 8) ''c'') (Dot (V 8) ''a'')) (K (JNum 2)))), Do (SetV 6 (Bin Minus (V 9) (V 2))), When (Bin Le (Dot (V 8) ''c'') (Bin Minus (V 9) (V 2))) [Do (SetV 4 (New ''kQc'' [Dot (V 8) ''c'', V 6])), Do (Call ''$lb'' [V 0, Bin Minus (SetV 3 (Bin Minus (V 3) (K (JNum (- 1))))) (K (JNum 1)), V 4])] [], Do (SetV 7 (Bin Plus (V 9) (V 2))), When (Bin Le (V 7) (Dot (V 8) ''a'')) [Do (SetV 5 (New ''kQc'' [V 7, Dot (V 8) ''a''])), Do (Call ''PDb'' [V 3, Dot (Dot (V 0) ''c'') ''length'']), Do (Call ''oDb'' [Dot (V 0) ''c'', V 3, V 5])] []] []]]"

definition code_5280_5283 :: "(string \<times> jfun) list" where
  "code_5280_5283 = [
    fn ''XVc'' 3 6 [When (Neg (Meth (V 1) ''dc'' [])) [Do (SetV 4 (New ''dub'' [])), Do (SetV 8 (Meth (V 1) ''Jc'' [])), Loop (Meth (V 8) ''Ob'' []) [Do (SetV 7 (Call ''JD'' [Meth (V 8) ''Pb'' [], K (JNum 40)])), Do (Call ''hjb'' [Dot (V 0) ''a'', Call ''Cfb'' [Dot (V 7) ''g''], Call ''Cfb'' [V 2]]), Do (SetV 6 (Seq (SetV 3 (Call ''Ztb'' [Dot (Dot (New ''OTc'' [V 7]) ''a'') ''d'', K (JNum 0)])) (New ''RTc'' [V 3]))), Loop (Call ''kub'' [Dot (V 6) ''a'']) [Do (SetV 5 (Dot (Call ''JD'' [Call ''lub'' [Dot (V 6) ''a''], K (JNum 65)]) ''c'')), Do (Call ''Wtb'' [V 4, V 5, Dot (Dot (V 4) ''c'') ''b'', Dot (V 4) ''c''])] []] [], Do (Call ''XVc'' [V 0, V 4, Bin Plus (V 2) (K (JNum 1))])] []],
    fn ''fce'' 1 1 [When (And (Neg (Dot (V 0) ''c'')) (Loose (Dot (V 0) ''g'') (K JNull))) [Do (Put (V 0) ''d'' (Meth (V 0) ''_i'' [Dot (V 0) ''f''])), Do (Call ''lFd'' [V 0, Dot (V 0) ''d'']), Do (SetV 1 (Dot (V 0) ''d''))] [When (Loose (Dot (V 0) ''g'') (K JNull)) [Ret (K (JBool True))] [When (Loose (Dot (V 0) ''i'') (K (JNum 0))) [Ret (K (JBool False))] [Do (SetV 1 (Call ''JD'' [Idx (Dot (V 0) ''g'') (Bin Minus (Dot (V 0) ''i'') (K (JNum 1))), K (JNum 50)]))]]], When (And (Loose (V 1) (Dot (V 0) ''b'')) (Bin Ge (Dot (K JNull) ''Tm'') (Meth (K JNull) ''Sm'' []))) [Do (Call ''KGd'' [V 0]), Ret (Call ''fce'' [V 0])] [Ret (Meth (V 1) ''Ob'' [])]],
    fn ''ZUb'' 1 0 [Do (Put This ''a'' (V 0)), When (Loose (Dot (Dot (Dot (V 0) ''c'') ''i'') ''k'') (Seq (Call ''$Yb'' []) (G ''TYb''))) [Do (Put This ''c'' (Dot (V 0) ''c'')), Do (Put This ''d'' (Call ''JD'' [Call ''oNb'' [Dot (Dot (V 0) ''c'') ''i'', Seq (Call ''Wrc'' []) (G ''$qc'')], K (JNum 64)]))] [When (Loose (Dot (Dot (Dot (V 0) ''d'') ''i'') ''k'') (G ''TYb'')) [Do (Put This ''c'' (Dot (V 0) ''d'')), Do (Put This ''d'' (Call ''JD'' [Call ''oNb'' [Dot (Dot (V 0) ''d'') ''i'', Seq (Call ''Wrc'' []) (G ''$qc'')], K (JNum 64)]))] [Raise (Call ''Lcb'' [New ''kfb'' [Bin Plus (Bin Plus (K (JStr ''Edge '')) (V 0)) (K (JStr '' is not an external edge.''))]])]]],
    fn ''__d'' 2 3 [Do (SetV 4 (Dot (V 0) ''b'')), Do (Put (V 0) ''b'' (V 1)), Do (And (And (Neg (Loose (Bin BitAnd (Dot (V 0) ''Db'') (K (JNum 4))) (K (JNum 0)))) (Loose (Bin BitAnd (Dot (V 0) ''Db'') (K (JNum 1))) (K (JNum 0)))) (Call ''Osd'' [V 0, New ''$1d'' [V 0, K (JNum 1), K (JNum 3), V 4, Dot (V 0) ''b'']])), When (Neg (V 1)) [Do (Call ''jyd'' [V 0, K JNull]), Do (Call ''b0d'' [V 0, K (JNum 0)]), Do (Call ''a0d'' [V 0, K JNull])] [When (Neg (Loose (V 1) (V 0))) [Do (Call ''jyd'' [V 0, Dot (V 1) ''zb'']), Do (Call ''b0d'' [V 0, Dot (V 1) ''d'']), Do (SetV 2 (Seq (SetV 3 (Dot (V 1) ''c'')) (Cond (Loose (V 3) (K JNull)) (Dot (V 1) ''zb'') (V 3)))), Do (Call ''a0d'' [V 0, Cond (Or (Loose (V 2) (K JNull)) (Call ''vgb'' [V 2, Dot (V 1) ''zb''])) (K JNull) (V 2)])] []]]]"

definition code_5286_5313 :: "(string \<times> jfun) list" where
  "code_5286_5313 = [
    fn ''RMb'' 1 6 [Do (SetV 4 (Dot (Dot (Dot (V 0) ''e'') ''c'') ''length'')), Do (SetV 3 (Call ''SC'' [G ''HK'', G ''fxe'', K (JNum 16), V 4, K (JNum 0), K (JNum 1)])), Do (SetV 6 (New ''Kmb'' [Dot (V 0) ''e''])), Loop (Bin Lt (Dot (V 6) ''a'') (Dot (Dot (Dot (V 6) ''c'') ''c'') ''length'')) [Do (SetV 5 (Call ''JD'' [Call ''Imb'' [V 6], K (JNum 155)])), Do (PutIdx (V 3) (Dot (V 5) ''a'') (New ''dub'' []))] [], Do (SetV 2 (New ''Kmb'' [Dot (V 0) ''c''])), Loop (Bin Lt (Dot (V 2) ''a'') (Dot (Dot (Dot (V 2) ''c'') ''c'') ''length'')) [Do (SetV 1 (Call ''JD'' [Call ''Imb'' [V 2], K (JNum 291)])), Do (Meth (Idx (V 3) (Dot (Dot (V 1) ''c'') ''a'')) ''Ec'' [V 1]), Do (Meth (Idx (V 3) (Dot (Dot (V 1) ''d'') ''a'')) ''Ec'' [V 1])] [], Ret (V 3)],
    fn ''dLd'' 2 5 [Do (SetV 2 (Call ''JD'' [Call ''uud'' [Dot (V 0) ''a'', K (JNum 4)], K (JNum 129)])), Do (SetV 6 (Cond (Loose (V 2) (K JNull)) (K (JNum 0)) (Dot (V 2) ''length''))), When (Bin Ge (V 1) (V 6)) [Raise (Call ''Lcb'' [New ''rKd'' [V 1, V 6]])] [], Do (SetV 4 (Idx (V 2) (V 1))), When (Loose (V 6) (K (JNum 1))) [Do (SetV 3 (K JNull))] [Do (SetV 3 (Call ''SC'' [G ''o5'', G ''THe'', K (JNum 415), Bin Minus (V 6) (K (JNum 1)), K (JNum 0), K (JNum 1)])), Do (Call ''rhb'' [V 2, K (JNum 0), V 3, K (JNum 0), V 1]), Do (SetV 5 (Bin Minus (Bin Minus (V 6) (V 1)) (K (JNum 1)))), Do (And (Bin Gt (V 5) (K (JNum 0))) (Call ''rhb'' [V 2, Bin Plus (V 1) (K (JNum 1)), V 3, V 1, V 5]))], Do (Call ''Obe'' [V 0, V 3]), Do (Call ''Nbe'' [V 0, V 1, V 4]), Ret (V 4)],
    fn ''y1d'' 1 2 [When (Dot (V 0) ''f'') [Loop (Bin Lt (Dot (V 0) ''n'') (Dot (V 0) ''o'')) [Do (SetV 1 (Call ''JD'' [Cond (Neg (Dot (V 0) ''j'')) (Meth (Dot (V 0) ''k'') ''Xb'' [Dot (V 0) ''n'']) (Meth (Dot (V 0) ''j'') ''Yi'' [Dot (V 0) ''n'']), K (JNum 75)])), Do (SetV 2 (Meth (V 1) ''Jk'' [])), When (And (And (And (Call ''RD'' [V 2, K (JNum 103)]) (Neg (Loose (Bin BitAnd (Dot (Call ''JD'' [V 2, K (JNum 19)]) ''Bb'') (G ''$Fe'')) (K (JNum 0))))) (Or (Or (Neg (Dot (V 0) ''e'')) (Neg (Loose (Meth (V 2) ''nk'' []) (G ''M3'')))) (Neg (Loose (Meth (V 2) ''Jj'' []) (K (JNum 0)))))) (Neg (Loose (Meth (V 1) ''kd'' []) (K JNull)))) [Ret (K (JBool True))] [Do (Put (V 0) ''n'' (Bin Minus (Dot (V 0) ''n'') (K (JNum (- 1)))))]] [], Ret (K (JBool False))] [Ret (Bin Lt (Dot (V 0) ''n'') (Dot (V 0) ''o''))]],
    fn ''Yje'' 0 0 [Do (SetG ''Yje'' (G ''qdb'')), Do (SetG ''Wje'' (Call ''JD'' [Call ''fGd'' [Call ''KWd'' [Dot (Seq (Call ''bke'' []) (G ''ake'')) ''qb''], K (JNum 6)], K (JNum 38)])), Do (SetG ''Tje'' (Call ''JD'' [Call ''fGd'' [Call ''KWd'' [Dot (G ''ake'') ''qb''], K (JNum 3)], K (JNum 38)])), Do (SetG ''Uje'' (Call ''JD'' [Call ''fGd'' [Call ''KWd'' [Dot (G ''ake'') ''qb''], K (JNum 4)], K (JNum 38)])), Do (SetG ''Vje'' (Call ''JD'' [Call ''fGd'' [Call ''KWd'' [Dot (G ''ake'') ''qb''], K (JNum 5)], K (JNum 19)])), Do (Call ''IUd'' [G ''Wje'']), Do (Call ''IUd'' [G ''Tje'']), Do (Call ''IUd'' [G ''Uje'']), Do (Call ''IUd'' [G ''Vje'']), Do (SetG ''Xje'' (New ''wnb'' [Call ''WC'' [Call ''OC'' [G ''J6'', K (JNum 1)], G ''wIe'', K (JNum 179), K (JNum 0), NewArr [G ''Wje'', G ''Tje'']]]))],
    fn ''WJb'' 2 1 [Do (Put This ''d'' (New ''uYb'' [])), Do (Put This ''b'' (V 1)), Do (Put This ''e'' (New ''mgd'' [Meth (V 1) ''Jf'' []])), Do (SetV 2 (Meth (Dot (V 0) ''u'') ''Gc'' [Seq (Call ''$ld'' []) (G ''Xld'')])), Do (Cond (Meth (Dot (V 0) ''u'') ''Gc'' [G ''Wld'']) (Cond (Dot (V 0) ''F'') (Put This ''a'' (And (V 2) (Neg (Meth (V 1) ''_f'' [])))) (Put This ''a'' (K (JBool True)))) (Cond (Meth (Dot (V 0) ''u'') ''Gc'' [G ''Yld'']) (Cond (V 2) (Put This ''a'' (Neg (Or (Meth (Meth (Meth (V 1) ''Sf'' []) ''Jc'' []) ''Ob'' []) (Meth (Meth (Meth (V 1) ''Uf'' []) ''Jc'' []) ''Ob'' [])))) (Put This ''a'' (K (JBool False)))) (Put This ''a'' (K (JBool False)))))],
    fn ''cLb'' 2 4 [Do (SetV 2 (Dot (Dot (V 0) ''o'') ''a'')), Do (SetV 5 (Meth (Call ''JD'' [Call ''JD'' [Call ''Qc'' [Dot (V 0) ''r'', V 1], K (JNum 22)], K (JNum 83)]) ''Jc'' [])), Loop (Meth (V 5) ''Ob'' []) [Do (SetV 4 (Call ''JD'' [Meth (V 5) ''Pb'' [], K (JNum 115)])), Do (Put (Dot (V 4) ''e'') ''a'' (Seq (SetV 3 (Dot (V 4) ''b'')) (Cond (Meth (V 3) ''nf'' [Seq (Call ''vjd'' []) (G ''Eid'')]) (Cond (Loose (Meth (V 3) ''$f'' []) (Seq (Call ''Bmd'' []) (G ''Amd''))) (Bin Minus (Minus1 (Dot (Meth (V 3) ''Kf'' []) ''a'')) (Call ''Ueb'' [Call ''MD'' [Meth (V 3) ''mf'' [G ''Eid'']]])) (Bin Plus (V 2) (Call ''Ueb'' [Call ''MD'' [Meth (V 3) ''mf'' [G ''Eid'']]]))) (Cond (Loose (Meth (V 3) ''$f'' []) (Seq (Call ''Bmd'' []) (G ''Amd''))) (Minus1 (Dot (Meth (V 3) ''Kf'' []) ''a'')) (V 2)))))] []],
    fn ''ANb'' 1 7 [Do (SetV 3 (Dot (Dot (Dot (V 0) ''a'') ''c'') ''length'')), When (Bin Gt (V 3) (K (JNum 0))) [Do (SetV 6 (Dot (Dot (V 0) ''c'') ''d'')), Do (SetV 7 (Dot (Dot (V 0) ''d'') ''d'')), Do (SetV 4 (Call ''dgd'' [Call ''igd'' [New ''lgd'' [Dot (V 7) ''a'', Dot (V 7) ''b''], V 6], Bin Divide (K (JNum 1)) (Bin Plus (V 3) (K (JNum 1)))])), Do (SetV 5 (New ''lgd'' [Dot (V 6) ''a'', Dot (V 6) ''b''])), Do (SetV 2 (New ''Kmb'' [Dot (V 0) ''a''])), Loop (Bin Lt (Dot (V 2) ''a'') (Dot (Dot (Dot (V 2) ''c'') ''c'') ''length'')) [Do (SetV 1 (Call ''JD'' [Call ''Imb'' [V 2], K (JNum 251)])), Do (Put (Dot (V 1) ''d'') ''a'' (Bin Plus (Dot (V 5) ''a'') (Dot (V 4) ''a''))), Do (Put (Dot (V 1) ''d'') ''b'' (Bin Plus (Dot (V 5) ''b'') (Dot (V 4) ''b''))), Do (Put (V 5) ''a'' (Bin Plus (Dot (V 5) ''a'') (Dot (V 4) ''a''))), Do (Put (V 5) ''b'' (Bin Plus (Dot (V 5) ''b'') (Dot (V 4) ''b'')))] []] []],
    fn ''L$b'' 2 4 [Do (SetV 2 (Call ''JD'' [Call ''oNb'' [V 0, Seq (Call ''nyc'' []) (G ''bwc'')], K (JNum 86)])), Do (SetV 5 (Call ''JD'' [Call ''cvd'' [V 1, G ''vxc''], K (JNum 64)])), Do (SetV 4 (Call ''JD'' [Call ''oNb'' [V 0, G ''qxc''], K (JNum 102)])), When (And (Neg (Loose (V 4) (Seq (Call ''Mld'' []) (G ''Kld'')))) (Neg (Loose (V 4) (G ''Lld'')))) [When (Loose (V 5) (Seq (Call ''Bmd'' []) (G ''zmd''))) [Do (SetV 5 (Call ''Qpd'' [V 1, V 2])), Do (And (Loose (V 5) (G ''zmd'')) (SetV 5 (Call ''Gmd'' [V 2])))] []] [Do (SetV 3 (Call ''H$b'' [V 1])), Do (Cond (Bin Gt (V 3) (K (JNum 0))) (SetV 5 (Call ''Gmd'' [V 2])) (SetV 5 (Call ''Dmd'' [Call ''Gmd'' [V 2]])))], Do (Call ''evd'' [V 1, G ''vxc'', V 5])],
    fn ''F7b'' 2 2 [When (Neg (Loose (Dot (Dot (V 0) ''c'') ''length'') (K (JNum 0)))) [When (Loose (Dot (Dot (V 0) ''c'') ''length'') (K (JNum 2))) [Do (Call ''E7b'' [Seq (Call ''MDb'' [K (JNum 0), Dot (Dot (V 0) ''c'') ''length'']) (Call ''JD'' [Idx (Dot (V 0) ''c'') (K (JNum 0)), K (JNum 9)]), Seq (Call ''$kd'' []) (G ''Wkd'')]), Do (Call ''E7b'' [Seq (Call ''MDb'' [K (JNum 1), Dot (Dot (V 0) ''c'') ''length'']) (Call ''JD'' [Idx (Dot (V 0) ''c'') (K (JNum 1)), K (JNum 9)]), G ''Xkd''])] [Do (SetV 3 (New ''Kmb'' [V 0])), Loop (Bin Lt (Dot (V 3) ''a'') (Dot (Dot (Dot (V 3) ''c'') ''c'') ''length'')) [Do (SetV 2 (Call ''JD'' [Call ''Imb'' [V 3], K (JNum 9)])), Do (Call ''E7b'' [V 2, V 1])] []], Do (Put (Dot (V 0) ''c'') ''length'' (K (JNum 0)))] []],
    fn ''ejc'' 2 5 [Do (SetV 6 (Dot (V 0) ''j'')), Do (And (Neg (Loose (Dot (V 1) ''a'') (Dot (V 1) ''b''))) (Call ''jmb'' [V 6, New ''Kjc'' []])), Do (SetV 4 (Bin DivInt (Dot (Dot (V 6) ''c'') ''length'') (K (JNum 2)))), Do (SetV 3 (K (JNum 0))), Loop (Bin Lt (V 3) (V 4)) [Do (SetV 5 (Seq (Call ''MDb'' [V 3, Dot (Dot (V 6) ''c'') ''length'']) (Call ''JD'' [Idx (Dot (V 6) ''c'') (V 3), K (JNum 113)]))), Do (And (Dot (V 5) ''c'') (Call ''xZb'' [Dot (V 5) ''d'', Dot (V 1) ''a'']))] [Do (Bin Minus (SetV 3 (Bin Minus (V 3) (K (JNum (- 1))))) (K (JNum 1)))], Do (SetV 2 (V 4)), Loop (Bin Lt (V 2) (Dot (Dot (V 6) ''c'') ''length'')) [Do (SetV 5 (Seq (Call ''MDb'' [V 2, Dot (Dot (V 6) ''c'') ''length'']) (Call ''JD'' [Idx (Dot (V 6) ''c'') (V 2), K (JNum 113)]))), Do (And (Dot (V 5) ''c'') (Call ''xZb'' [Dot (V 5) ''d'', Dot (V 1) ''b'']))] [Do (Bin Minus (SetV 2 (Bin Minus (V 2) (K (JNum (- 1))))) (K (JNum 1)))]],
    fn ''fCc'' 4 1 [Do (SetV 4 (K (JNum 0))), Switch (Dot (Call ''JD'' [Call ''oNb'' [V 1, Seq (Call ''nyc'' []) (G ''Ewc'')], K (JNum 165)]) ''g'') [(Some (JNum 2), [Do (SetV 4 (Bin Plus (Bin Times (K (JNum 2)) (Minus1 (V 2))) (Dot (V 0) ''a''))), Do (Put (V 0) ''a'' (Bin Minus (Dot (V 0) ''a'') (K (JNum (- 1))))), Break]), (Some (JNum 1), [Do (SetV 4 (Minus1 (V 2))), Break]), (Some (JNum 3), [Do (SetV 4 (V 2)), Break]), (Some (JNum 4), [Do (SetV 4 (Bin Plus (Bin Times (K (JNum 2)) (V 2)) (Dot (V 0) ''b''))), Do (Put (V 0) ''b'' (Bin Minus (Dot (V 0) ''b'') (K (JNum (- 1)))))])], Do (And (Call ''pNb'' [V 1, Seq (Call ''Wrc'' []) (G ''trc'')]) (SetV 4 (Bin Plus (V 4) (Bin Plus (Bin Times (Dot (Call ''JD'' [Call ''oNb'' [V 1, G ''Kvc''], K (JNum 15)]) ''a'') (V 3)) (Dot (Call ''JD'' [Call ''oNb'' [V 1, G ''trc''], K (JNum 15)]) ''a''))))), Ret (V 4)],
    fn ''aIc'' 3 3 [Do (SetV 3 (Idx (Idx (Dot (V 0) ''c'') (Dot (Dot (V 1) ''c'') ''p'')) (Dot (V 1) ''p''))), Do (SetV 4 (Idx (Idx (Dot (V 0) ''c'') (Dot (Dot (V 2) ''c'') ''p'')) (Dot (V 2) ''p''))), When (And (Neg (Loose (Dot (V 3) ''a'') (K JNull))) (Neg (Loose (Dot (V 4) ''a'') (K JNull)))) [Do (SetV 5 (Call ''Teb'' [Dot (V 3) ''a'', Dot (V 4) ''a''])), Do (Cond (Bin Lt (V 5) (K (JNum 0))) (Call ''dIc'' [V 0, V 1, V 2]) (And (Bin Gt (V 5) (K (JNum 0))) (Call ''dIc'' [V 0, V 2, V 1]))), Ret (V 5)] [When (Neg (Loose (Dot (V 3) ''a'') (K JNull))) [Do (Call ''dIc'' [V 0, V 1, V 2]), Ret (K (JNum (- 1)))] [When (Neg (Loose (Dot (V 4) ''a'') (K JNull))) [Do (Call ''dIc'' [V 0, V 2, V 1]), Ret (K (JNum 1))] []]], Ret (K (JNum 0))],
    fn ''MNc'' 1 7 [Do (Call ''FNc'' []), Do (SetV 2 (New ''otb'' [])), Do (SetV 4 (New ''Kmb'' [Dot (Dot (V 0) ''e'') ''b''])), Loop (Bin Lt (Dot (V 4) ''a'') (Dot (Dot (Dot (V 4) ''c'') ''c'') ''length'')) [Do (SetV 3 (Call ''JD'' [Call ''Imb'' [V 4], K (JNum 25)])), Do (SetV 6 (New ''Kmb'' [Dot (V 3) ''a''])), Loop (Bin Lt (Dot (V 6) ''a'') (Dot (Dot (Dot (V 6) ''c'') ''c'') ''length'')) [Do (SetV 5 (Call ''JD'' [Call ''Imb'' [V 6], K (JNum 9)])), Do (SetV 7 (Idx (Dot (V 0) ''g'') (Dot (V 5) ''p''))), Do (SetV 1 (Call ''JD'' [Call ''ktb'' [V 2, V 7], K (JNum 16)])), When (Neg (V 1)) [Do (SetV 1 (New ''lmb'' [])), Do (Call ''ltb'' [V 2, V 7, V 1])] [], Do (Meth (V 1) ''Ec'' [V 5])] []] [], Ret (V 2)],
    fn ''nSc'' 2 5 [Do (SetV 4 (Dot (Dot (V 1) ''b'') ''b'')), Do (Put (V 0) ''a'' (Call ''SC'' [G ''HK'', G ''fxe'', K (JNum 16), V 4, K (JNum 0), K (JNum 1)])), Do (Put (V 0) ''b'' (Call ''SC'' [G ''Icb'', G ''Nwe'', K (JNum 30), V 4, K (JNum 16), K (JNum 1)])), Do (SetV 6 (Call ''Ztb'' [Dot (V 1) ''b'', K (JNum 0)])), Loop (Neg (Loose (Dot (V 6) ''b'') (Dot (Dot (V 6) ''d'') ''c''))) [Do (SetV 5 (Call ''JD'' [Call ''lub'' [V 6], K (JNum 40)])), Do (PutIdx (Dot (V 0) ''a'') (Dot (V 5) ''g'') (New ''dub'' []))] [], Do (SetV 3 (Call ''Ztb'' [Dot (V 1) ''a'', K (JNum 0)])), Loop (Neg (Loose (Dot (V 3) ''b'') (Dot (Dot (V 3) ''d'') ''c''))) [Do (SetV 2 (Call ''JD'' [Call ''lub'' [V 3], K (JNum 65)])), Do (Meth (Idx (Dot (V 0) ''a'') (Dot (Dot (V 2) ''b'') ''g'')) ''Ec'' [V 2]), Do (Meth (Idx (Dot (V 0) ''a'') (Dot (Dot (V 2) ''c'') ''g'')) ''Ec'' [V 2])] []],
    fn ''hId'' 2 4 [When (Meth (V 0) ''Nj'' []) [Do (SetV 2 (Meth (V 0) ''Cj'' [])), Do (SetV 5 (Meth (V 0) ''Oj'' [])), Do (Put (V 0) ''j'' (Bin Minus (Dot (V 0) ''j'') (K (JNum (- 1))))), Do (Meth (V 0) ''oj'' [V 2, Meth (V 0) ''Xi'' [V 2, V 1]]), Do (SetV 3 (Meth (V 0) ''Gj'' [K (JNum 3), K JNull, V 1, V 2, V 5])), When (Meth (V 0) ''Kj'' []) [Do (SetV 4 (Meth (V 0) ''Lj'' [V 1, K JNull])), When (Neg (V 4)) [Do (Meth (V 0) ''Hj'' [V 3])] [Do (Meth (V 4) ''lj'' [V 3]), Do (Meth (V 4) ''mj'' [])]] [Do (Meth (V 0) ''Hj'' [V 3])]] [Do (Call ''qHd'' [V 0, V 1]), When (Meth (V 0) ''Kj'' []) [Do (SetV 4 (Meth (V 0) ''Lj'' [V 1, K JNull])), Do (And (Neg (Neg (V 4))) (Meth (V 4) ''mj'' []))] []]],
    fn ''FJd'' 3 3 [When (Meth (V 0) ''Nj'' []) [Do (SetV 5 (Meth (V 0) ''Oj'' [])), Do (Call ''_Fd'' [V 0, V 1, V 2]), Do (SetV 3 (Meth (V 0) ''Gj'' [K (JNum 3), K JNull, V 2, V 1, V 5])), When (Meth (V 0) ''Kj'' []) [Do (SetV 4 (Meth (V 0) ''Lj'' [V 2, K JNull])), Do (And (Meth (V 0) ''Rj'' []) (SetV 4 (Meth (V 0) ''Sj'' [V 2, V 4]))), When (Neg (V 4)) [Do (Meth (V 0) ''Hj'' [V 3])] [Do (Meth (V 4) ''lj'' [V 3]), Do (Meth (V 4) ''mj'' [])]] [Do (Meth (V 0) ''Hj'' [V 3])]] [Do (Call ''_Fd'' [V 0, V 1, V 2]), When (Meth (V 0) ''Kj'' []) [Do (SetV 4 (Meth (V 0) ''Lj'' [V 2, K JNull])), Do (And (Neg (Neg (V 4))) (Meth (V 4) ''mj'' []))] []]],
    fn ''oee'' 2 5 [Do (SetV 6 (Call ''Cie'' [Meth (Dot (V 0) ''e'') ''Ah'' [], V 1])), Do (SetV 4 (New ''nGd'' [])), Do (SetV 2 (Call ''JD'' [Dot (V 0) ''g'', K (JNum 122)])), Do (SetV 5 (Dot (V 0) ''i'')), Loop (Bin Ge (SetV 5 (Bin Minus (V 5) (K (JNum 1)))) (K (JNum 0))) [Do (SetV 3 (Idx (V 2) (V 5))), Do (And (Meth (V 6) ''$l'' [Meth (V 3) ''Jk'' []]) (Call ''lFd'' [V 4, V 3]))] [], Do (And (And (Neg (Call ''NJd'' [V 0, V 4])) (Call ''itd'' [Dot (V 0) ''e''])) (Call ''rXd'' [V 0, Cond (Meth (V 1) ''Hk'' []) (Call ''see'' [V 0, K (JNum 6), V 1, Seq (Call ''Inb'' []) (G ''Fnb''), K JNull, K (JNum (- 1)), K (JBool False)]) (Call ''see'' [V 0, Cond (Meth (V 1) ''rk'' []) (K (JNum 2)) (K (JNum 1)), V 1, K JNull, K JNull, K (JNum (- 1)), K (JBool False)])]))],
    fn ''N1b'' 2 5 [When (Loose (Dot (V 0) ''a'') (Seq (Call ''Hpc'' []) (G ''Fpc''))) [Ret (K (JBool True))] [], Do (SetV 5 (Dot (Dot (V 1) ''a'') ''c'')), Do (SetV 2 (Bin Plus (Dot (Dot (V 1) ''a'') ''c'') (Dot (Dot (V 1) ''a'') ''b''))), When (Dot (V 1) ''j'') [Do (SetV 3 (Dot (V 1) ''A'')), Do (SetV 6 (Bin Minus (Dot (Dot (Dot (V 3) ''c'') ''c'') ''a'') (Bin Divide (Dot (Dot (V 3) ''o'') ''a'') (K (JNum 2))))), Do (SetV 4 (Bin Minus (V 5) (Bin Plus (Dot (Dot (V 3) ''n'') ''a'') (Dot (Dot (V 3) ''o'') ''a'')))), When (Bin Gt (V 4) (V 6)) [Ret (K (JBool False))] []] [], When (Dot (V 1) ''q'') [Do (SetV 3 (Dot (V 1) ''C'')), Do (SetV 6 (Bin Minus (Dot (Dot (Dot (V 3) ''c'') ''c'') ''a'') (Bin Divide (Dot (Dot (V 3) ''o'') ''a'') (K (JNum 2))))), Do (SetV 4 (Bin Minus (Dot (Dot (V 3) ''n'') ''a'') (V 2))), When (Bin Gt (V 4) (V 6)) [Ret (K (JBool False))] []] [], Ret (K (JBool True))],
    fn ''_2b'' 3 6 [Do (SetV 3 (K (JNum 0))), Do (SetV 8 (V 2)), When (Neg (V 1)) [Do (SetV 3 (Bin Times (V 2) (Bin Minus (Dot (Dot (V 0) ''c'') ''length'') (K (JNum 1))))), Do (SetV 8 (Bin Times (V 8) (K (JNum (- 1)))))] [], Do (SetV 5 (New ''Kmb'' [V 0])), Loop (Bin Lt (Dot (V 5) ''a'') (Dot (Dot (Dot (V 5) ''c'') ''c'') ''length'')) [Do (SetV 4 (Call ''JD'' [Call ''Imb'' [V 5], K (JNum 9)])), Do (Call ''rNb'' [V 4, Seq (Call ''nyc'' []) (G ''tvc''), Seq (Call ''Lgd'' []) (G ''Hgd'')]), Do (Put (Dot (V 4) ''o'') ''a'' (V 3)), Do (SetV 7 (Meth (Call ''LYb'' [V 4, Seq (Call ''Bmd'' []) (G ''gmd'')]) ''Jc'' [])), Loop (Meth (V 7) ''Ob'' []) [Do (SetV 6 (Call ''JD'' [Meth (V 7) ''Pb'' [], K (JNum 12)])), Do (Put (Dot (V 6) ''n'') ''a'' (V 3))] [], Do (SetV 3 (Bin Plus (V 3) (V 8)))] []],
    fn ''kxd'' 1 1 [When (Neg (Loose (Bin BitAnd (Dot (V 0) ''Db'') (K (JNum 64))) (K (JNum 0)))) [Ret (Call ''ytd'' [V 0])] [], Do (SetV 1 (New ''ahb'' [Call ''ytd'' [V 0]])), Do (Put (V 1) ''a'' (Bin Plus (Dot (V 1) ''a'') (K (JStr '' (startX: '')))), Do (Call ''Ugb'' [V 1, Dot (V 0) ''j'']), Do (Put (V 1) ''a'' (Bin Plus (Dot (V 1) ''a'') (K (JStr '', startY: '')))), Do (Call ''Ugb'' [V 1, Dot (V 0) ''k'']), Do (Put (V 1) ''a'' (Bin Plus (Dot (V 1) ''a'') (K (JStr '', endX: '')))), Do (Call ''Ugb'' [V 1, Dot (V 0) ''b'']), Do (Put (V 1) ''a'' (Bin Plus (Dot (V 1) ''a'') (K (JStr '', endY: '')))), Do (Call ''Ugb'' [V 1, Dot (V 0) ''c'']), Do (Put (V 1) ''a'' (Bin Plus (Dot (V 1) ''a'') (K (JStr '', identifier: '')))), Do (Call ''Xgb'' [V 1, Dot (V 0) ''d'']), Do (Put (V 1) ''a'' (Bin Plus (Dot (V 1) ''a'') (K (JStr '')'')))), Ret (Dot (V 1) ''a'')],
    fn ''pUd'' 1 1 [When (Neg (Loose (Bin BitAnd (Dot (V 0) ''Db'') (K (JNum 64))) (K (JNum 0)))) [Ret (Call ''kyd'' [V 0])] [], Do (SetV 1 (New ''ahb'' [Call ''kyd'' [V 0]])), Do (Put (V 1) ''a'' (Bin Plus (Dot (V 1) ''a'') (K (JStr '' (ordered: '')))), Do (Call ''Ygb'' [V 1, Neg (Loose (Bin BitAnd (Dot (V 0) ''Bb'') (K (JNum 256))) (K (JNum 0)))]), Do (Put (V 1) ''a'' (Bin Plus (Dot (V 1) ''a'') (K (JStr '', unique: '')))), Do (Call ''Ygb'' [V 1, Neg (Loose (Bin BitAnd (Dot (V 0) ''Bb'') (K (JNum 512))) (K (JNum 0)))]), Do (Put (V 1) ''a'' (Bin Plus (Dot (V 1) ''a'') (K (JStr '', lowerBound: '')))), Do (Call ''Vgb'' [V 1, Dot (V 0) ''s'']), Do (Put (V 1) ''a'' (Bin Plus (Dot (V 1) ''a'') (K (JStr '', upperBound: '')))), Do (Call ''Vgb'' [V 1, Dot (V 0) ''t'']), Do (Put (V 1) ''a'' (Bin Plus (Dot (V 1) ''a'') (K (JStr '')'')))), Ret (Dot (V 1) ''a'')],
    fn ''Qyd'' 8 1 [Do (And (Call ''RD'' [Dot (V 0) ''Cb'', K (JNum 88)]) (Call ''IYd'' [Call ''LWd'' [Call ''JD'' [Dot (V 0) ''Cb'', K (JNum 88)]], K (JNum 4)])), Do (Call ''jyd'' [V 0, V 2]), Do (Put (V 0) ''f'' (V 3)), Do (Call ''QUd'' [V 0, V 4]), Do (Call ''SUd'' [V 0, V 5]), Do (Call ''KUd'' [V 0, V 6]), Do (Call ''RUd'' [V 0, K (JBool False)]), Do (Call ''nUd'' [V 0, K (JBool True)]), Do (Call ''NUd'' [V 0, V 7]), Do (Call ''mUd'' [V 0, K (JBool True)]), Do (Call ''lUd'' [V 0, K (JNum 0)]), Do (Put (V 0) ''b'' (K (JNum 0))), Do (Call ''oUd'' [V 0, K (JNum 1)]), Do (SetV 8 (Call ''iUd'' [V 0, V 1, K JNull])), Do (And (Neg (Neg (V 8))) (Meth (V 8) ''mj'' [])), Do (Call ''xVd'' [V 0, K (JBool False)]), Ret (V 0)],
    fn ''fAb'' 2 4 [Do (SetV 2 (Call ''JD'' [Call ''fjb'' [Dot (V 0) ''a'', V 1], K (JNum 512)])), When (Neg (V 2)) [Do (SetV 3 (New ''wAb'' [V 1])), Do (SetV 4 (Cond (Seq (Call ''oAb'' []) (G ''lAb'')) (K JNull) (Dot (V 3) ''c''))), Do (SetV 5 (Call ''Jgb'' [V 4, K (JNum 0), Meth (Dot (G ''$wnd'') ''Math'') ''max'' [K (JNum 0), Call ''Dgb'' [V 4, Call ''Pgb'' [K (JNum 46)]]]])), Do (Call ''vAb'' [V 3, Call ''fAb'' [V 0, V 5]]), Do (And (Loose (Dot (Cond (G ''lAb'') (K JNull) (Dot (V 3) ''c'')) ''length'') (K (JNum 0))) (Call ''qAb'' [V 3, New ''zAb'' []])), Do (Call ''ijb'' [Dot (V 0) ''a'', Cond (G ''lAb'') (K JNull) (Dot (V 3) ''c''), V 3]), Ret (V 3)] [], Ret (V 2)],
    fn ''VHc'' 2 2 [When (Neg (Call ''pNb'' [V 0, Seq (Call ''Wrc'' []) (G ''Vrc'')])) [Ret (K (JNum 1))] [], When (Neg (Call ''pNb'' [V 1, G ''Vrc''])) [Ret (K (JNum (- 1)))] [], Do (SetV 2 (Call ''MD'' [Call ''oNb'' [V 0, G ''Vrc'']])), Do (SetV 3 (Call ''MD'' [Call ''oNb'' [V 1, G ''Vrc'']])), When (And (Neg (Loose (V 2) (K JNull))) (Neg (Loose (V 3) (K JNull)))) [Ret (Call ''$eb'' [Seq (Call ''NDb'' [V 2]) (V 2), Seq (Call ''NDb'' [V 3]) (V 3)])] [When (Neg (Loose (V 2) (K JNull))) [Ret (K (JNum (- 1)))] [When (Neg (Loose (V 3) (K JNull))) [Ret (K (JNum 1))] []]], Ret (K (JNum 0))],
    fn ''sCd'' 0 0 [Do (Put This ''a'' (New ''XAd'' [])), Do (Put This ''n'' (New ''Co'' [])), Do (Put This ''p'' (New ''Co'' [])), Do (Put This ''c'' (New ''_rb'' [])), Do (Put This ''f'' (New ''Co'' [])), Do (Put This ''o'' (New ''Co'' [])), Do (Put This ''q'' (New ''_rb'' [])), Do (Put This ''d'' (New ''_rb'' [])), Do (Put This ''g'' (New ''_rb'' [])), Do (Put This ''k'' (New ''_rb'' [])), Do (Put This ''e'' (New ''_rb'' [])), Do (Put This ''i'' (New ''_rb'' [])), Do (Put This ''j'' (New ''_rb'' [])), Do (Put This ''r'' (New ''_rb'' [])), Do (Put This ''b'' (New ''_rb'' []))],
    fn ''tXd'' 3 6 [Do (SetV 7 (Meth (V 0) ''nl'' [V 2])), When (Neg (Loose (V 7) (V 2))) [Do (SetV 6 (Idx (Dot (V 0) ''g'') (V 1))), Do (SetV 8 (V 7)), Do (Call ''bGd'' [V 0, V 1, Meth (V 0) ''Xi'' [V 1, V 8]]), Do (SetV 5 (V 6)), Do (Meth (V 0) ''Pi'' [V 1, V 8, V 5]), When (Meth (V 0) ''$k'' []) [Do (SetV 3 (V 2)), Do (SetV 4 (Meth (V 0) ''Mj'' [V 3, K JNull])), Do (And (Neg (Meth (Call ''JD'' [V 7, K (JNum 52)]) ''Mh'' [])) (SetV 4 (Meth (V 0) ''Lj'' [V 8, V 4]))), Do (And (Neg (Neg (V 4))) (Meth (V 4) ''mj'' []))] [], Do (And (Call ''itd'' [Dot (V 0) ''e'']) (Call ''rXd'' [V 0, Meth (V 0) ''Gj'' [K (JNum 9), V 2, V 7, V 1, K (JBool False)]])), Ret (V 7)] [Ret (V 2)]],
    fn ''XRb'' 2 4 [Do (SetV 3 (New ''Kmb'' [Dot (Dot (V 0) ''a'') ''a''])), Loop (Bin Lt (Dot (V 3) ''a'') (Dot (Dot (Dot (V 3) ''c'') ''c'') ''length'')) [Do (SetV 2 (Call ''JD'' [Call ''Imb'' [V 3], K (JNum 194)])), Do (Put (V 2) ''g'' (K (JBool True)))] [], Do (SetV 5 (New ''Kmb'' [Dot (Dot (V 0) ''a'') ''b''])), Loop (Bin Lt (Dot (V 5) ''a'') (Dot (Dot (Dot (V 5) ''c'') ''c'') ''length'')) [Do (SetV 4 (Call ''JD'' [Call ''Imb'' [V 5], K (JNum 82)])), Do (Put (V 4) ''k'' (Call ''Rdb'' [Call ''LD'' [Meth (Dot (V 0) ''e'') ''Kb'' [New ''prd'' [V 4, V 1]]]])), Do (Put (Dot (V 4) ''d'') ''g'' (Bin BitAnd (Dot (Dot (V 4) ''d'') ''g'') (Call ''Rdb'' [Call ''LD'' [Meth (Dot (V 0) ''e'') ''Kb'' [New ''prd'' [V 4, V 1]]]])))] [], Ret (V 0)],
    fn ''WCc'' 3 5 [When (Idx (Dot (V 0) ''d'') (Dot (V 2) ''p'')) [Ret (K JUndef)] [], Do (SetV 4 (New ''Yr'' [Call ''Dr'' [Meth (Dot (Call ''HYb'' [V 2]) ''a'') ''Jc'' [], New ''Dl'' []]])), Loop (Call ''Wr'' [V 4]) [Do (SetV 3 (Call ''JD'' [Call ''Xr'' [V 4], K (JNum 17)])), Do (SetV 7 (Dot (Dot (V 3) ''d'') ''i'')), Do (SetV 6 (New ''Yr'' [Call ''Dr'' [Meth (Dot (Call ''EYb'' [V 7]) ''a'') ''Jc'' [], New ''Dl'' []]])), Loop (Call ''Wr'' [V 6]) [Do (SetV 5 (Call ''JD'' [Call ''Xr'' [V 6], K (JNum 17)])), Do (And (Loose (Dot (Dot (V 5) ''c'') ''i'') (V 1)) (PutIdx (Dot (V 0) ''a'') (Dot (V 5) ''p'') (K (JBool True))))] [], Do (Call ''WCc'' [V 0, V 1, V 7])] [], Do (PutIdx (Dot (V 0) ''d'') (Dot (V 2) ''p'') (K (JBool True)))]]"

definition object_table19 :: "(string \<times> jfun) list" where
  "object_table19 = code_5177_5185 @ code_5187_5188 @ code_5191_5200 @ code_5202_5218 @ code_5220_5248 @ code_5250_5279 @ code_5280_5283 @ code_5286_5313"

text \<open>The names each table declares.\<close>

lemma names_5177_5185 [js_names]: "map fst code_5177_5185 = [
    ''alc'', ''LCc'', ''sDc'', ''CPc'', ''std'', ''A1d'', ''aie'', ''y0c'', ''ybd'']"
  by (simp add: code_5177_5185_def fn_def)

lemma names_5187_5188 [js_names]: "map fst code_5187_5188 = [
    ''lKb'', ''mKb'']"
  by (simp add: code_5187_5188_def fn_def)

lemma names_5191_5200 [js_names]: "map fst code_5191_5200 = [
    ''oec'', ''cjc'', ''rCd'', ''IYd'', ''Ybe'', ''Ib'', ''mnb'', ''nnb'', ''onb'', ''rnb'']"
  by (simp add: code_5191_5200_def fn_def)

lemma names_5202_5218 [js_names]: "map fst code_5202_5218 = [
    ''TGb'', ''uQb'', ''Xce'', ''rMb'', ''xZb'', ''g1b'', ''Mec'', ''mgc'', ''ync'', ''VKc'',
    ''uBd'', ''vBd'', ''vo'', ''zr'', ''WA'', ''AYb'', ''ptd'']"
  by (simp add: code_5202_5218_def fn_def)

lemma names_5220_5248 [js_names]: "map fst code_5220_5248 = [
    ''ZPc'', ''k2c'', ''o5c'', ''N2b'', ''lEc'', ''s_c'', ''$ld'', ''nCd'', ''VA'', ''YA'',
    ''pnb'', ''ZGb'', ''$Kb'', ''qZc'', ''PAd'', ''Xbe'', ''fj'', ''Jw'', ''ix'', ''BIb'',
    ''CIb'', ''DLc'', ''J5c'', ''gKb'', ''XMb'', ''sSc'', ''FWb'', ''ISc'', ''Spd'']"
  by (simp add: code_5220_5248_def fn_def)

lemma names_5250_5279 [js_names]: "map fst code_5250_5279 = [
    ''wVd'', ''dpe'', ''ZDc'', ''UVd'', ''Oee'', ''ued'', ''ntd'', ''m9d'', ''gee'', ''zA'',
    ''UOc'', ''Kwd'', ''hGd'', ''Rc'', ''xfb'', ''SSc'', ''JNb'', ''c3b'', ''J7c'', ''$pd'',
    ''mtd'', ''lMd'', ''$ce'', ''gib'', ''Tmb'', ''iSb'', ''mFb'', ''G0b'', ''R2b'', ''fQc'']"
  by (simp add: code_5250_5279_def fn_def)

lemma names_5280_5283 [js_names]: "map fst code_5280_5283 = [
    ''XVc'', ''fce'', ''ZUb'', ''__d'']"
  by (simp add: code_5280_5283_def fn_def)

lemma names_5286_5313 [js_names]: "map fst code_5286_5313 = [
    ''RMb'', ''dLd'', ''y1d'', ''Yje'', ''WJb'', ''cLb'', ''ANb'', ''L$b'', ''F7b'', ''ejc'',
    ''fCc'', ''aIc'', ''MNc'', ''nSc'', ''hId'', ''FJd'', ''oee'', ''N1b'', ''_2b'', ''kxd'',
    ''pUd'', ''Qyd'', ''fAb'', ''VHc'', ''sCd'', ''tXd'', ''XRb'', ''WCc'']"
  by (simp add: code_5286_5313_def fn_def)

end
