(* ===== verification/ObjectTable20.thy ===== *)
theory ObjectTable20
  imports ObjectCode
begin

text \<open>
  Functions of \<open>layout-worker.js\<close>, lines 5314 to 5455, in the order of the file, one per line:
  the algorithms of the layout engine, longer operations of the runtime's collections and of options,
  with their loops, \<open>switch\<close> and \<open>try\<close> statements. An entry has the name, the
  number of parameters, the number of further local variables and the body; parameters and locals
  are numbered from 0, the variable of a \<open>catch\<close> has a number of its own, \<open>x++\<close> is \<open>(x=x+1)-1\<close>. Lines
  with a construct outside \<open>jexp\<close> and \<open>jstm\<close> (closures, \<open>in\<close>, floating-point literals, host objects) are
  left out.
\<close>

definition code_5314_5336 :: "(string \<times> jfun) list" where
  "code_5314_5336 = [
    fn ''vud'' 2 7 [Do (SetV 3 (Call ''qfb'' [Bin BitAnd (Dot (V 0) ''Db'') (K (JNum 254))])), When (Loose (V 3) (K (JNum 1))) [Do (Put (V 0) ''Eb'' (K JNull))] [Do (SetV 5 (Call ''KD'' [Dot (V 0) ''Eb''])), When (Loose (V 3) (K (JNum 2))) [Do (SetV 4 (Call ''tud'' [V 0, V 1])), Do (Put (V 0) ''Eb'' (Idx (V 5) (Cond (Loose (V 4) (K (JNum 0))) (K (JNum 1)) (K (JNum 0)))))] [Do (SetV 6 (Call ''SC'' [G ''aJ'', G ''Gte'', K (JNum 1), Bin Minus (V 3) (K (JNum 1)), K (JNum 5), K (JNum 1)])), Do (Seq (Seq (SetV 2 (K (JNum 2))) (SetV 7 (K (JNum 0)))) (SetV 8 (K (JNum 0)))), Loop (Bin Le (V 2) (K (JNum 128))) [Do (Cond (Loose (V 2) (V 1)) (SetV 7 (Bin Minus (V 7) (K (JNum (- 1))))) (And (Neg (Loose (Bin BitAnd (Dot (V 0) ''Db'') (V 2)) (K (JNum 0)))) (PutIdx (V 6) (Bin Minus (SetV 8 (Bin Minus (V 8) (K (JNum (- 1))))) (K (JNum 1))) (Idx (V 5) (Bin Minus (SetV 7 (Bin Minus (V 7) (K (JNum (- 1))))) (K (JNum 1)))))))] [Do (SetV 2 (Bin Shl (V 2) (K (JNum 1))))], Do (Put (V 0) ''Eb'' (V 6))]], Do (Put (V 0) ''Db'' (Bin BitAnd (Dot (V 0) ''Db'') (Compl (V 1))))],
    fn ''Eqe'' 1 1 [Do (SetV 1 (K (JNum 0))), Switch (V 0) [(Some (JNum 105), [Do (SetV 1 (K (JNum 2))), Break]), (Some (JNum 109), [Do (SetV 1 (K (JNum 8))), Break]), (Some (JNum 115), [Do (SetV 1 (K (JNum 4))), Break]), (Some (JNum 120), [Do (SetV 1 (K (JNum 16))), Break]), (Some (JNum 117), [Do (SetV 1 (K (JNum 32))), Break]), (Some (JNum 119), [Do (SetV 1 (K (JNum 64))), Break]), (Some (JNum 70), [Do (SetV 1 (K (JNum 256))), Break]), (Some (JNum 72), [Do (SetV 1 (K (JNum 128))), Break]), (Some (JNum 88), [Do (SetV 1 (K (JNum 512))), Break]), (Some (JNum 44), [Do (SetV 1 (G ''hIe''))])], Ret (V 1)],
    fn ''Yib'' 5 4 [When (And (Same (Call ''XD'' [V 0]) (Call ''XD'' [V 1])) (Loose (V 3) (V 4))) [Do (Call ''bjb'' [V 0, V 3, V 2]), Ret (K JUndef)] [], Do (SetV 7 (K (JNum 0))), Loop (Bin Lt (V 7) (V 3)) [Do (SetV 6 (K (JNum 0))), Do (SetV 5 (Idx (V 0) (V 7))), Do (SetV 8 (K (JNum 0))), Loop (Bin Lt (V 8) (V 4)) [Do (SetV 6 (Call ''Mcb'' [Call ''Mcb'' [Call ''Ycb'' [Call ''Ncb'' [V 5, G ''Mve''], Call ''Ncb'' [Idx (V 1) (V 8), G ''Mve'']], Call ''Ncb'' [Idx (V 2) (Bin Plus (V 7) (V 8)), G ''Mve'']], Call ''Ncb'' [Call ''gdb'' [V 6], G ''Mve'']])), Do (PutIdx (V 2) (Bin Plus (V 7) (V 8)) (Call ''gdb'' [V 6])), Do (SetV 6 (Call ''cdb'' [V 6, K (JNum 32)]))] [Do (Bin Minus (SetV 8 (Bin Minus (V 8) (K (JNum (- 1))))) (K (JNum 1)))], Do (PutIdx (V 2) (Bin Plus (V 7) (V 4)) (Call ''gdb'' [V 6]))] [Do (Bin Minus (SetV 7 (Bin Minus (V 7) (K (JNum (- 1))))) (K (JNum 1)))]],
    fn ''fic'' 1 5 [Do (SetV 2 (Seq (SetV 1 (Call ''JD'' [Call ''web'' [G ''M2''], K (JNum 10)])) (New ''Nrb'' [V 1, Call ''JD'' [Call ''nDb'' [V 1, Dot (V 1) ''length''], K (JNum 10)], K (JNum 0)]))), Do (SetV 5 (Call ''JD'' [Call ''oNb'' [V 0, Seq (Call ''Wrc'' []) (G ''Crc'')], K (JNum 9)])), When (V 5) [Do (SetV 4 (New ''Kmb'' [Dot (V 5) ''j''])), Loop (Bin Lt (Dot (V 4) ''a'') (Dot (Dot (Dot (V 4) ''c'') ''c'') ''length'')) [Do (SetV 3 (Call ''JD'' [Call ''Imb'' [V 4], K (JNum 12)])), Do (And (And (Same (Call ''XD'' [Call ''oNb'' [V 3, G ''urc'']]) (Call ''XD'' [V 0])) (Call ''TZb'' [New ''UZb'' [Dot (V 3) ''b'']])) (Call ''Hrb'' [V 2, Dot (V 3) ''j'']))] []] [], Ret (V 2)],
    fn ''Sjc'' 2 3 [Do (SetV 3 (New ''Kmb'' [Dot (Dot (V 0) ''i'') ''d''])), Loop (Bin Lt (Dot (V 3) ''a'') (Dot (Dot (Dot (V 3) ''c'') ''c'') ''length'')) [Do (SetV 2 (Call ''JD'' [Call ''Imb'' [V 3], K (JNum 70)])), Do (Call ''rNb'' [V 2, Seq (Call ''nyc'' []) (G ''fwc''), K JNull])] [], Switch (Dot (V 1) ''g'') [(Some (JNum 2), []), (Some (JNum 4), [Do (SetV 4 (Dot (V 0) ''a'')), Do (And (Bin Lt (Dot (Dot (Dot (Dot (V 0) ''c'') ''d'') ''n'') ''b'') (Dot (Dot (Dot (V 4) ''d'') ''n'') ''b'')) (SetV 4 (Dot (V 0) ''c''))), Do (Call ''Tjc'' [V 0, V 1, Seq (Call ''phc'' []) (G ''ohc''), V 4]), Break]), (Some (JNum 1), []), (Some (JNum 3), [Do (Call ''Tjc'' [V 0, V 1, Seq (Call ''phc'' []) (G ''lhc''), K JNull])])]],
    fn ''vPc'' 2 0 [When (Neg (Loose (Dot (V 1) ''b'') (K (JNum 0)))) [Do (Cond (Call ''isNaN'' [Dot (V 0) ''s'']) (Put (V 0) ''s'' (Call ''Ueb'' [Seq (Call ''LDb'' [Neg (Loose (Dot (V 1) ''b'') (K (JNum 0)))]) (Call ''MD'' [Dot (Dot (Dot (V 1) ''a'') ''a'') ''c''])])) (Put (V 0) ''s'' (Meth (Dot (G ''$wnd'') ''Math'') ''min'' [Dot (V 0) ''s'', Call ''Ueb'' [Seq (Call ''LDb'' [Neg (Loose (Dot (V 1) ''b'') (K (JNum 0)))]) (Call ''MD'' [Dot (Dot (Dot (V 1) ''a'') ''a'') ''c''])]]))), Do (Cond (Call ''isNaN'' [Dot (V 0) ''c'']) (Put (V 0) ''c'' (Call ''Ueb'' [Seq (Call ''LDb'' [Neg (Loose (Dot (V 1) ''b'') (K (JNum 0)))]) (Call ''MD'' [Dot (Dot (Dot (V 1) ''c'') ''b'') ''c''])])) (Put (V 0) ''c'' (Meth (Dot (G ''$wnd'') ''Math'') ''max'' [Dot (V 0) ''c'', Call ''Ueb'' [Seq (Call ''LDb'' [Neg (Loose (Dot (V 1) ''b'') (K (JNum 0)))]) (Call ''MD'' [Dot (Dot (Dot (V 1) ''c'') ''b'') ''c''])]])))] []],
    fn ''Jwd'' 1 4 [Do (SetV 1 (K JNull)), Do (SetV 3 (Call ''Gl'' [Call ''yl'' [Call ''WC'' [Call ''OC'' [G ''VI'', K (JNum 1)], G ''Gte'', K (JNum 20), K (JNum 0), NewArr [Seq (And (Neg (Dot (V 0) ''b'')) (Put (V 0) ''b'' (New ''jhe'' [G ''O3'', V 0, K (JNum 4), K (JNum 7)]))) (Dot (V 0) ''b''), Seq (And (Neg (Dot (V 0) ''c'')) (Put (V 0) ''c'' (New ''jhe'' [G ''O3'', V 0, K (JNum 5), K (JNum 8)]))) (Dot (V 0) ''c'')]]]])), Loop (Call ''Wr'' [V 3]) [Do (SetV 2 (Call ''JD'' [Call ''Xr'' [V 3], K (JNum 84)])), Do (SetV 4 (Call ''TEd'' [V 2])), When (Neg (V 1)) [Do (SetV 1 (Call ''Rzd'' [V 4]))] [When (Neg (Loose (V 1) (Call ''Rzd'' [V 4]))) [Ret (K (JBool True))] []]] [], Ret (K (JBool False))],
    fn ''GJd'' 2 4 [When (Meth (V 0) ''Nj'' []) [Do (SetV 2 (Dot (V 0) ''i'')), Do (SetV 5 (Meth (V 0) ''Oj'' [])), Do (Call ''aGd'' [V 0, V 1]), Do (SetV 3 (Meth (V 0) ''Gj'' [K (JNum 3), K JNull, V 1, V 2, V 5])), When (Meth (V 0) ''Kj'' []) [Do (SetV 4 (Meth (V 0) ''Lj'' [V 1, K JNull])), Do (And (Meth (V 0) ''Rj'' []) (SetV 4 (Meth (V 0) ''Sj'' [V 1, V 4]))), When (Neg (V 4)) [Do (Meth (V 0) ''Hj'' [V 3])] [Do (Meth (V 4) ''lj'' [V 3]), Do (Meth (V 4) ''mj'' [])]] [Do (Meth (V 0) ''Hj'' [V 3])]] [Do (Call ''aGd'' [V 0, V 1]), When (Meth (V 0) ''Kj'' []) [Do (SetV 4 (Meth (V 0) ''Lj'' [V 1, K JNull])), Do (And (Neg (Neg (V 4))) (Meth (V 4) ''mj'' []))] []]],
    fn ''BMb'' 2 4 [Do (SetV 5 (Call ''yzb'' [Dot (V 0) ''a'', Dot (V 1) ''b''])), When (Neg (V 5)) [Raise (Call ''Lcb'' [New ''nfb'' [K (JStr ''Invalid hitboxes for scanline overlap calculation.'')]])] [], Do (SetV 4 (K (JBool False))), Do (SetV 3 (Meth (Meth (Dot (Dot (V 0) ''a'') ''a'') ''ec'' []) ''Jc'' [])), Loop (Meth (V 3) ''Ob'' []) [Do (SetV 2 (Call ''JD'' [Meth (V 3) ''Pb'' [], K (JNum 68)])), When (Call ''wMb'' [Dot (V 1) ''b'', V 2]) [Do (Call ''Z7c'' [Dot (Dot (V 0) ''b'') ''a'', Dot (V 1) ''b'', V 2]), Do (SetV 4 (K (JBool True)))] [When (V 4) [Break] []]] []],
    fn ''ted'' 1 1 [When (Neg (Dot (V 0) ''a'')) [Raise (Call ''Lcb'' [New ''nfb'' [Bin Plus (K (JStr ''IDataType class expected for layout option '')) (Dot (V 0) ''f'')]])] [], Do (SetV 1 (Call ''XGd'' [Dot (V 0) ''a''])), When (Loose (V 1) (K JNull)) [Raise (Call ''Lcb'' [New ''nfb'' [Bin Plus (Bin Plus (Bin Plus (Bin Plus (Bin Plus (K (JStr (''Couldn'' @ CHR 0x27 # ''t create new instance of property '' @ CHR 0x27 # ''''))) (Dot (V 0) ''f'')) (K (JStr (CHR 0x27 # ''. '')))) (G ''HEe'')) (Seq (Call ''veb'' [G ''m5'']) (Dot (G ''m5'') ''k''))) (G ''IEe'')]])] [], Ret (Call ''JD'' [V 1, K (JNum 414)])],
    fn ''Wsd'' 1 5 [Do (SetV 5 (Meth (V 0) ''Mh'' [])), When (V 5) [When (Meth (V 5) ''Sh'' []) [Do (SetV 4 (Call ''rtd'' [V 0, V 5])), When (Neg (Loose (V 4) (V 5))) [Do (SetV 2 (Meth (V 0) ''Ch'' [])), Do (SetV 3 (Seq (SetV 1 (Meth (V 0) ''Ch'' [])) (Cond (Bin Ge (V 1) (K (JNum 0))) (Meth (V 0) ''xh'' [K JNull]) (Meth (Meth (V 0) ''Mh'' []) ''Qh'' [V 0, Bin Minus (K (JNum (- 1))) (V 1), K JNull, K JNull])))), Do (Meth (V 0) ''yh'' [Call ''JD'' [V 4, K (JNum 52)], V 2]), Do (And (Neg (Neg (V 3))) (Meth (V 3) ''mj'' [])), Do (And (And (And (Meth (V 0) ''sh'' []) (Meth (V 0) ''th'' [])) (Bin Gt (V 2) (K (JNum (- 1))))) (Call ''Osd'' [V 0, New ''$1d'' [V 0, K (JNum 9), V 2, V 5, V 4]])), Ret (V 4)] []] []] [], Ret (V 5)],
    fn ''Asb'' 2 5 [Do (SetV 5 (Meth (Dot (V 0) ''b'') ''Ae'' [V 1])), Do (SetV 3 (Seq (SetV 2 (Meth (Dot (V 0) ''a'') ''get'' [V 5])) (Cond (Loose (V 2) (K JNull)) (Call ''SC'' [G ''aJ'', G ''Gte'', K (JNum 1), K (JNum 0), K (JNum 5), K (JNum 1)]) (V 2)))), Do (SetV 6 (K (JNum 0))), Loop (Bin Lt (V 6) (Dot (V 3) ''length'')) [Do (SetV 4 (Idx (V 3) (V 6))), When (Meth (Dot (V 0) ''b'') ''ze'' [V 1, Meth (V 4) ''jd'' []]) [When (Loose (Dot (V 3) ''length'') (K (JNum 1))) [Do (Put (V 3) ''length'' (K (JNum 0))), Do (Call ''Jsb'' [Dot (V 0) ''a'', V 5])] [Do (Meth (V 3) ''splice'' [V 6, K (JNum 1)])], Do (Put (V 0) ''c'' (Bin Minus (Dot (V 0) ''c'') (K (JNum 1)))), Do (Put (Dot (V 0) ''b'') ''g'' (Bin Minus (Dot (Dot (V 0) ''b'') ''g'') (K (JNum (- 1))))), Ret (Meth (V 4) ''kd'' [])] []] [Do (Bin Minus (SetV 6 (Bin Minus (V 6) (K (JNum (- 1))))) (K (JNum 1)))], Ret (K JNull)],
    fn ''TPb'' 1 8 [Do (SetV 6 (K (JNum 0))), Do (SetV 5 (Dot (Dot (V 0) ''f'') ''e'')), Do (SetV 3 (K (JNum 0))), Loop (Bin Lt (V 3) (Dot (Dot (V 5) ''c'') ''length'')) [Do (SetV 7 (Seq (Call ''MDb'' [V 3, Dot (Dot (V 5) ''c'') ''length'']) (Call ''JD'' [Idx (Dot (V 5) ''c'') (V 3), K (JNum 155)]))), Do (SetV 4 (Bin Plus (V 3) (K (JNum 1)))), Loop (Bin Lt (V 4) (Dot (Dot (V 5) ''c'') ''length'')) [Do (SetV 8 (Seq (Call ''MDb'' [V 4, Dot (Dot (V 5) ''c'') ''length'']) (Call ''JD'' [Idx (Dot (V 5) ''c'') (V 4), K (JNum 155)]))), Do (SetV 2 (Call ''Yfd'' [Dot (V 7) ''d'', Dot (V 8) ''d''])), Do (SetV 1 (Bin Minus (V 2) (Idx (Idx (Dot (V 0) ''a'') (Dot (V 7) ''a'')) (Dot (V 8) ''a'')))), Do (SetV 6 (Bin Plus (V 6) (Bin Times (Bin Times (Idx (Idx (Dot (V 0) ''i'') (Dot (V 7) ''a'')) (Dot (V 8) ''a'')) (V 1)) (V 1))))] [Do (SetV 4 (Bin Minus (V 4) (K (JNum (- 1)))))]] [Do (SetV 3 (Bin Minus (V 3) (K (JNum (- 1)))))], Ret (V 6)],
    fn ''c8b'' 2 1 [When (Call ''pNb'' [V 1, Seq (Call ''nyc'' []) (G ''Ewc'')]) [Ret (K JUndef)] [], Do (SetV 2 (Call ''k8b'' [Call ''JD'' [Call ''oNb'' [V 1, G ''X7b''], K (JNum 367)], Call ''JD'' [Call ''oNb'' [V 0, G ''Ewc''], K (JNum 165)]])), Do (Call ''rNb'' [V 1, G ''X7b'', V 2]), When (Call ''Wr'' [New ''Yr'' [Call ''Dr'' [Meth (Dot (Call ''BYb'' [V 1]) ''a'') ''Jc'' [], New ''Dl'' []]]]) [Ret (K JUndef)] [], Switch (Dot (V 2) ''g'') [(Some (JNum 1), [Do (Call ''rNb'' [V 1, G ''Ewc'', Seq (Call ''asc'' []) (G ''Xrc'')]), Break]), (Some (JNum 2), [Do (Call ''rNb'' [V 1, G ''Ewc'', Seq (Call ''asc'' []) (G ''Zrc'')])])]],
    fn ''mic'' 2 1 [Do (Call ''cic'' [V 0]), Do (Put (V 0) ''a'' (Seq (Seq (SetV 2 (New ''Pi'' [])) (Call ''YBb'' [New ''jCb'' [K JNull, New ''Zvb'' [Dot (V 1) ''d'', K (JNum 16)]], New ''Lic'' [V 2]])) (V 2))), Do (Call ''hic'' [V 0, Call ''JD'' [Call ''oNb'' [Dot (V 1) ''b'', Seq (Call ''nyc'' []) (G ''mwc'')], K (JNum 348)]]), Do (Call ''jic'' [V 0]), Do (Call ''iic'' [V 0]), Do (Call ''gic'' [V 0]), Do (Call ''kic'' [V 0]), Do (Call ''lic'' [V 0, V 1]), Do (Call ''YBb'' [Call ''XBb'' [New ''jCb'' [K JNull, Call ''ej'' [Dot (Call ''cj'' [Dot (V 0) ''b'']) ''a'']], New ''Bic'' []], New ''Dic'' []]), Do (Put (V 1) ''a'' (K (JBool False))), Do (Put (V 0) ''a'' (K JNull))],
    fn ''kXc'' 0 0 [Do (SetG ''kXc'' (G ''qdb'')), Do (SetG ''aXc'' (New ''EEd'' [G ''UCe'', Seq (Call ''Qdb'' []) (K (JBool False))])), Do (SetG ''bXc'' (New ''EEd'' [G ''VCe'', K (JNum 7)])), Do (Call ''Cfb'' [K (JNum 0)]), Do (SetG ''hXc'' (New ''EEd'' [G ''WCe'', Call ''Cfb'' [K (JNum 0)]])), Do (SetG ''eXc'' (New ''EEd'' [G ''XCe'', Call ''Cfb'' [K (JNum (- 1))]])), Do (SetG ''jXc'' (Seq (Call ''bYc'' []) (G ''aYc''))), Do (SetG ''iXc'' (New ''EEd'' [G ''YCe'', G ''jXc''])), Do (SetG ''dXc'' (Seq (Call ''uWc'' []) (G ''rWc''))), Do (SetG ''cXc'' (New ''EEd'' [G ''ZCe'', G ''dXc''])), Do (SetG ''gXc'' (Seq (Call ''jYc'' []) (G ''iYc''))), Do (SetG ''fXc'' (New ''EEd'' [G ''$Ce'', G ''gXc'']))],
    fn ''vzd'' 0 0 [Do (Super ''_yd'' [G ''jGe'', Seq (Call ''zsd'' []) (G ''ysd'')]), Do (Put This ''p'' (K JNull)), Do (Put This ''a'' (K JNull)), Do (Put This ''f'' (K JNull)), Do (Put This ''n'' (K JNull)), Do (Put This ''g'' (K JNull)), Do (Put This ''c'' (K JNull)), Do (Put This ''i'' (K JNull)), Do (Put This ''j'' (K JNull)), Do (Put This ''d'' (K JNull)), Do (Put This ''b'' (K JNull)), Do (Put This ''e'' (K JNull)), Do (Put This ''k'' (K JNull)), Do (Put This ''o'' (K JNull)), Do (Put This ''s'' (K JNull)), Do (Put This ''q'' (K (JBool False))), Do (Put This ''r'' (K (JBool False)))],
    fn ''tEd'' 0 0 [Do (SetG ''tEd'' (G ''qdb'')), Do (SetG ''sEd'' (New ''uEd'' [G ''kze'', K (JNum 0)])), Do (SetG ''pEd'' (New ''uEd'' [K (JStr ''INSIDE_SELF_LOOPS''), K (JNum 1)])), Do (SetG ''qEd'' (New ''uEd'' [K (JStr ''MULTI_EDGES''), K (JNum 2)])), Do (SetG ''oEd'' (New ''uEd'' [K (JStr ''EDGE_LABELS''), K (JNum 3)])), Do (SetG ''rEd'' (New ''uEd'' [K (JStr ''PORTS''), K (JNum 4)])), Do (SetG ''mEd'' (New ''uEd'' [K (JStr ''COMPOUND''), K (JNum 5)])), Do (SetG ''lEd'' (New ''uEd'' [K (JStr ''CLUSTERS''), K (JNum 6)])), Do (SetG ''nEd'' (New ''uEd'' [K (JStr ''DISCONNECTED''), K (JNum 7)]))],
    fn ''gId'' 3 3 [When (Meth (V 0) ''Nj'' []) [Do (SetV 5 (Meth (V 0) ''Oj'' [])), Do (Put (V 0) ''j'' (Bin Minus (Dot (V 0) ''j'') (K (JNum (- 1))))), Do (Meth (V 0) ''oj'' [V 1, Meth (V 0) ''Xi'' [V 1, V 2]]), Do (SetV 3 (Meth (V 0) ''Gj'' [K (JNum 3), K JNull, V 2, V 1, V 5])), When (Meth (V 0) ''Kj'' []) [Do (SetV 4 (Meth (V 0) ''Lj'' [V 2, K JNull])), When (Neg (V 4)) [Do (Meth (V 0) ''Hj'' [V 3])] [Do (Meth (V 4) ''lj'' [V 3]), Do (Meth (V 4) ''mj'' [])]] [Do (Meth (V 0) ''Hj'' [V 3])]] [Do (Put (V 0) ''j'' (Bin Minus (Dot (V 0) ''j'') (K (JNum (- 1))))), Do (Meth (V 0) ''oj'' [V 1, Meth (V 0) ''Xi'' [V 1, V 2]]), When (Meth (V 0) ''Kj'' []) [Do (SetV 4 (Meth (V 0) ''Lj'' [V 2, K JNull])), Do (And (Neg (Neg (V 4))) (Meth (V 4) ''mj'' []))] []]],
    fn ''jib'' 2 3 [When (Loose (V 1) (K (JNum 0))) [Ret (Neg (Loose (Bin BitAnd (Idx (Dot (V 0) ''a'') (K (JNum 0))) (K (JNum 1))) (K (JNum 0))))] [], When (Bin Lt (V 1) (K (JNum 0))) [Raise (Call ''Lcb'' [New ''Ddb'' [K (JStr ''Negative bit address'')]])] [], Do (SetV 4 (Bin Shr (V 1) (K (JNum 5)))), When (Bin Ge (V 4) (Dot (V 0) ''d'')) [Ret (Bin Lt (Dot (V 0) ''e'') (K (JNum 0)))] [], Do (SetV 2 (Idx (Dot (V 0) ''a'') (V 4))), Do (SetV 1 (Bin Shl (K (JNum 1)) (Bin BitAnd (V 1) (K (JNum 31))))), When (Bin Lt (Dot (V 0) ''e'') (K (JNum 0))) [Do (SetV 3 (Call ''cib'' [V 0])), When (Bin Lt (V 4) (V 3)) [Ret (K (JBool False))] [Do (Cond (Loose (V 3) (V 4)) (SetV 2 (Minus1 (V 2))) (SetV 2 (Compl (V 2))))]] [], Ret (Neg (Loose (Bin BitAnd (V 2) (V 1)) (K (JNum 0))))],
    fn ''Q0b'' 1 5 [Do (SetV 4 (New ''lmb'' [])), Do (SetV 5 (Call ''R0b'' [V 0, V 4])), Do (SetV 1 (Call ''JD'' [Call ''oNb'' [V 0, Seq (Call ''Wrc'' []) (G ''Crc'')], K (JNum 9)])), When (V 1) [Do (SetV 3 (New ''Kmb'' [Dot (V 1) ''j''])), Loop (Bin Lt (Dot (V 3) ''a'') (Dot (Dot (Dot (V 3) ''c'') ''c'') ''length'')) [Do (SetV 2 (Call ''JD'' [Call ''Imb'' [V 3], K (JNum 12)])), Do (And (Same (Call ''XD'' [Call ''oNb'' [V 2, G ''urc'']]) (Call ''XD'' [V 0])) (SetV 5 (Meth (Dot (G ''$wnd'') ''Math'') ''max'' [V 5, Call ''R0b'' [V 2, V 4]])))] []] [], Do (Or (Loose (Dot (Dot (V 4) ''c'') ''length'') (K (JNum 0))) (Call ''rNb'' [V 0, G ''qrc'', V 5])), Ret (Cond (Neg (Loose (V 5) (K (JNum (- 1))))) (V 4) (K JNull))],
    fn ''Uad'' 4 1 [Do (Call ''JD'' [Dot (V 2) ''b'', K (JNum 68)]), Do (Call ''JD'' [Dot (V 2) ''b'', K (JNum 68)]), Do (Call ''JD'' [Dot (V 3) ''b'', K (JNum 68)]), Do (Call ''JD'' [Dot (V 3) ''b'', K (JNum 68)]), Do (SetV 4 (Call ''igd'' [Call ''Xfd'' [Dot (Call ''JD'' [Dot (V 2) ''b'', K (JNum 68)]) ''c''], Dot (Call ''JD'' [Dot (V 3) ''b'', K (JNum 68)]) ''c''])), Do (Call ''egd'' [V 4, Call ''rMb'' [Call ''JD'' [Dot (V 2) ''b'', K (JNum 68)], Call ''JD'' [Dot (V 3) ''b'', K (JNum 68)], V 4]]), Do (Call ''JD'' [Dot (V 3) ''b'', K (JNum 68)]), Do (Call ''JD'' [Dot (V 3) ''b'', K (JNum 68)]), Do (Bin Plus (Dot (Dot (Call ''JD'' [Dot (V 3) ''b'', K (JNum 68)]) ''c'') ''a'') (Dot (V 4) ''a'')), Do (Bin Plus (Dot (Dot (Call ''JD'' [Dot (V 3) ''b'', K (JNum 68)]) ''c'') ''b'') (Dot (V 4) ''b'')), Do (Call ''JD'' [Dot (V 3) ''b'', K (JNum 68)]), Do (Call ''cmb'' [Dot (V 3) ''a'', New ''Zad'' [V 0, V 1, V 3]])],
    fn ''gZd'' 2 7 [Do (SetV 5 (Dot (V 1) ''e'')), When (V 5) [Do (SetV 2 (Call ''Wsd'' [V 5])), Do (SetV 3 (Call ''JD'' [Dot (V 0) ''g'', K (JNum 679)])), Do (SetV 6 (K (JNum 0))), Loop (Bin Lt (V 6) (Dot (V 0) ''i'')) [Do (SetV 8 (Idx (V 3) (V 6))), When (Loose (Call ''u0d'' [V 8]) (V 2)) [Do (SetV 4 (Seq (And (Neg (Dot (V 8) ''d'')) (Put (V 8) ''d'' (New ''iYd'' [G ''z6'', V 8, K (JNum 1)]))) (Dot (V 8) ''d''))), Do (SetV 7 (Meth (Call ''JD'' [Meth (V 2) ''Jh'' [Call ''Htd'' [V 5, Dot (V 5) ''Cb'', Bin Shr (Dot (V 5) ''Db'') (K (JNum 16))]], K (JNum 16)]) ''bd'' [V 5])), When (Bin Lt (V 7) (Dot (V 4) ''i'')) [Ret (Call ''gZd'' [V 0, Call ''JD'' [Call ''fGd'' [V 4, V 7], K (JNum 87)]])] []] []] [Do (SetV 6 (Bin Minus (V 6) (K (JNum (- 1)))))]] [], Ret (V 1)]]"

definition code_5338_5339 :: "(string \<times> jfun) list" where
  "code_5338_5339 = [
    fn ''Wr'' 1 1 [Loop (Neg (Meth (Call ''JD'' [Call ''Qb'' [Dot (V 0) ''a''], K (JNum 50)]) ''Ob'' [])) [Do (Put (V 0) ''d'' (Call ''Vr'' [V 0])), When (Neg (Dot (V 0) ''d'')) [Ret (K (JBool False))] [], Do (Put (V 0) ''a'' (Call ''JD'' [Meth (Dot (V 0) ''d'') ''Pb'' [], K (JNum 50)])), When (Call ''RD'' [Dot (V 0) ''a'', K (JNum 34)]) [Do (SetV 1 (Call ''JD'' [Dot (V 0) ''a'', K (JNum 34)])), Do (Put (V 0) ''a'' (Dot (V 1) ''a'')), Do (And (Neg (Dot (V 0) ''b'')) (Put (V 0) ''b'' (New ''Glb'' []))), Do (Call ''rlb'' [Dot (V 0) ''b'', Dot (V 0) ''d'']), When (Dot (V 1) ''b'') [Loop (Neg (Call ''xlb'' [Dot (V 1) ''b''])) [Do (Call ''rlb'' [Dot (V 0) ''b'', Call ''JD'' [Call ''Dlb'' [Dot (V 1) ''b''], K (JNum 50)]])] []] [], Do (Put (V 0) ''d'' (Dot (V 1) ''d''))] []] [], Ret (K (JBool True))],
    fn ''aHb'' 2 4 [Do (SetV 4 (K (JNum 1))), Do (Put (V 1) ''j'' (K (JBool True))), Do (SetV 5 (K JNull)), Do (SetV 3 (New ''Kmb'' [Call ''gGb'' [V 1]])), Loop (Bin Lt (Dot (V 3) ''a'') (Dot (Dot (Dot (V 3) ''c'') ''c'') ''length'')) [Do (SetV 2 (Call ''JD'' [Call ''Imb'' [V 3], K (JNum 217)])), When (Neg (Idx (Dot (V 0) ''c'') (Dot (V 2) ''c''))) [Do (PutIdx (Dot (V 0) ''c'') (Dot (V 2) ''c'') (K (JBool True))), Do (SetV 5 (Call ''UFb'' [V 2, V 1])), When (Dot (V 2) ''f'') [Do (SetV 4 (Bin Plus (V 4) (Call ''aHb'' [V 0, V 5])))] [When (And (Neg (Dot (V 5) ''j'')) (Loose (Dot (V 2) ''a'') (Bin Minus (Dot (Dot (V 2) ''e'') ''e'') (Dot (Dot (V 2) ''d'') ''e'')))) [Do (Put (V 2) ''f'' (K (JBool True))), Do (Call ''esb'' [Dot (V 0) ''p'', V 2]), Do (SetV 4 (Bin Plus (V 4) (Call ''aHb'' [V 0, V 5])))] []]] []] [], Ret (V 4)]]"

definition code_5341_5348 :: "(string \<times> jfun) list" where
  "code_5341_5348 = [
    fn ''f6b'' 3 6 [Do (SetV 5 (Dot (Call ''JD'' [Call ''dmb'' [Dot (V 1) ''e'', K (JNum 0)], K (JNum 17)]) ''c'')), Do (SetV 3 (Dot (V 5) ''i'')), Do (SetV 4 (Dot (V 3) ''k'')), Do (SetV 8 (Dot (Call ''JD'' [Call ''dmb'' [Dot (V 2) ''g'', K (JNum 0)], K (JNum 17)]) ''d'')), Do (SetV 6 (Dot (V 8) ''i'')), Do (SetV 7 (Dot (V 6) ''k'')), Do (Cond (Loose (V 4) (Seq (Call ''$Yb'' []) (G ''VYb''))) (Call ''rNb'' [V 0, Seq (Call ''Wrc'' []) (G ''nrc''), Call ''JD'' [Call ''oNb'' [V 3, G ''nrc''], K (JNum 12)]]) (Call ''rNb'' [V 0, Seq (Call ''Wrc'' []) (G ''nrc''), V 5])), Do (Cond (Loose (V 7) (G ''VYb'')) (Call ''rNb'' [V 0, Seq (Call ''Wrc'' []) (G ''orc''), Call ''JD'' [Call ''oNb'' [V 6, G ''orc''], K (JNum 12)]]) (Call ''rNb'' [V 0, Seq (Call ''Wrc'' []) (G ''orc''), V 8]))],
    fn ''I7b'' 2 6 [Do (SetV 5 (New ''Kmb'' [Dot (V 0) ''b''])), Loop (Bin Lt (Dot (V 5) ''a'') (Dot (Dot (Dot (V 5) ''c'') ''c'') ''length'')) [Do (SetV 4 (Call ''JD'' [Call ''Imb'' [V 5], K (JNum 25)])), Do (SetV 7 (New ''Kmb'' [Dot (V 4) ''a''])), Loop (Bin Lt (Dot (V 7) ''a'') (Dot (Dot (Dot (V 7) ''c'') ''c'') ''length'')) [Do (SetV 6 (Call ''JD'' [Call ''Imb'' [V 7], K (JNum 9)])), Do (And (Loose (Dot (V 6) ''k'') (Seq (Call ''$Yb'' []) (G ''UYb''))) (Call ''E7b'' [V 6, V 1])), Do (SetV 3 (New ''Yr'' [Call ''Dr'' [Meth (Dot (Call ''HYb'' [V 6]) ''a'') ''Jc'' [], New ''Dl'' []]])), Loop (Call ''Wr'' [V 3]) [Do (SetV 2 (Call ''JD'' [Call ''Xr'' [V 3], K (JNum 17)])), Do (Call ''D7b'' [V 2, V 1])] []] []] []],
    fn ''b8b'' 2 3 [Do (Meth (V 1) ''Tg'' [K (JStr ''Layer constraint preprocessing''), K (JNum 1)]), Do (SetV 2 (New ''lmb'' [])), Do (SetV 4 (New ''Tjb'' [Dot (V 0) ''a'', K (JNum 0)])), Loop (Bin Lt (Dot (V 4) ''b'') (Meth (Dot (V 4) ''d'') ''gc'' [])) [Do (SetV 3 (Seq (Call ''LDb'' [Bin Lt (Dot (V 4) ''b'') (Meth (Dot (V 4) ''d'') ''gc'' [])]) (Call ''JD'' [Meth (Dot (V 4) ''d'') ''Xb'' [Put (V 4) ''c'' (Bin Minus (Put (V 4) ''b'' (Bin Minus (Dot (V 4) ''b'') (K (JNum (- 1))))) (K (JNum 1)))], K (JNum 9)]))), When (Call ''a8b'' [V 3]) [Do (Call ''$7b'' [V 3]), Do (Call ''qDb'' [Dot (V 2) ''c'', V 3]), Do (Call ''Mjb'' [V 4])] []] [], Do (Or (Loose (Dot (Dot (V 2) ''c'') ''length'') (K (JNum 0))) (Call ''rNb'' [V 0, Seq (Call ''Wrc'' []) (G ''crc''), V 2])), Do (Meth (V 1) ''Ug'' [])],
    fn ''anc'' 1 3 [Do (Put This ''c'' (V 0)), Do (SetV 3 (Call ''JD'' [Call ''oNb'' [V 0, Seq (Call ''nyc'' []) (G ''bwc'')], K (JNum 86)])), Do (SetV 1 (Call ''Ueb'' [Call ''MD'' [Call ''oNb'' [V 0, G ''vvc'']]])), Do (SetV 2 (Call ''Ueb'' [Call ''MD'' [Call ''oNb'' [V 0, G ''dyc'']]])), Do (Cond (Or (Or (Loose (V 3) (Seq (Call ''Djd'' []) (G ''zjd''))) (Loose (V 3) (G ''Ajd''))) (Loose (V 3) (G ''Bjd''))) (Put This ''b'' (Bin Times (V 1) (V 2))) (Put This ''b'' (Bin Divide (K (JNum 1)) (Bin Times (V 1) (V 2))))), Do (Put This ''j'' (Call ''Ueb'' [Call ''MD'' [Call ''oNb'' [V 0, G ''Txc'']]])), Do (Put This ''e'' (Call ''Ueb'' [Call ''MD'' [Call ''oNb'' [V 0, G ''Sxc'']]])), Do (Put This ''f'' (Dot (Dot (Dot (V 0) ''b'') ''c'') ''length''))],
    fn ''sEc'' 1 2 [Do (Put (V 0) ''e'' (Call ''SC'' [G ''cE'', G ''bve'', K (JNum 30), Dot (Dot (Dot (V 0) ''p'') ''c'') ''length'', K (JNum 15), K (JNum 1)])), Do (Put (V 0) ''k'' (Call ''SC'' [G ''cE'', G ''bve'', K (JNum 30), Dot (Dot (Dot (V 0) ''p'') ''c'') ''length'', K (JNum 15), K (JNum 1)])), Do (SetV 2 (New ''Kmb'' [Dot (V 0) ''p''])), Loop (Bin Lt (Dot (V 2) ''a'') (Dot (Dot (Dot (V 2) ''c'') ''c'') ''length'')) [Do (SetV 1 (Call ''JD'' [Call ''Imb'' [V 2], K (JNum 9)])), Do (PutIdx (Dot (V 0) ''e'') (Dot (V 1) ''p'') (Call ''Br'' [New ''Yr'' [Call ''Dr'' [Meth (Dot (Call ''EYb'' [V 1]) ''a'') ''Jc'' [], New ''Dl'' []]]])), Do (PutIdx (Dot (V 0) ''k'') (Dot (V 1) ''p'') (Call ''Br'' [New ''Yr'' [Call ''Dr'' [Meth (Dot (Call ''HYb'' [V 1]) ''a'') ''Jc'' [], New ''Dl'' []]]]))] []],
    fn ''vEc'' 1 6 [Do (SetV 4 (K (JNum 0))), Do (Put (V 0) ''q'' (New ''lmb'' [])), Do (SetV 1 (New ''hsb'' [])), Do (SetV 6 (New ''Kmb'' [Dot (V 0) ''p''])), Loop (Bin Lt (Dot (V 6) ''a'') (Dot (Dot (Dot (V 6) ''c'') ''c'') ''length'')) [Do (SetV 5 (Call ''JD'' [Call ''Imb'' [V 6], K (JNum 9)])), Do (Put (V 5) ''p'' (V 4)), Do (SetV 3 (New ''Yr'' [Call ''Dr'' [Meth (Dot (Call ''HYb'' [V 5]) ''a'') ''Jc'' [], New ''Dl'' []]])), Loop (Call ''Wr'' [V 3]) [Do (SetV 2 (Call ''JD'' [Call ''Xr'' [V 3], K (JNum 17)])), Do (Call ''esb'' [V 1, Dot (Dot (V 2) ''d'') ''i''])] [], Do (Neg (Loose (Meth (Dot (V 1) ''a'') ''Ac'' [V 5]) (K JNull))), Do (Call ''_lb'' [Dot (V 0) ''q'', New ''jsb'' [V 1]]), Do (Meth (Dot (V 1) ''a'') ''$b'' []), Do (SetV 4 (Bin Minus (V 4) (K (JNum (- 1)))))] []],
    fn ''tD'' 2 5 [Do (SetV 1 (Bin BitAnd (V 1) (K (JNum 63)))), Do (SetV 2 (Dot (V 0) ''h'')), Do (SetV 3 (Neg (Loose (Bin BitAnd (V 2) (G ''tve'')) (K (JNum 0))))), Do (And (V 3) (SetV 2 (Bin BitOr (V 2) (K (JNum (- 1048576)))))), When (Bin Lt (V 1) (K (JNum 22))) [Do (SetV 6 (Bin Shr (V 2) (V 1))), Do (SetV 5 (Bin BitOr (Bin Shr (Dot (V 0) ''m'') (V 1)) (Bin Shl (V 2) (Bin Minus (K (JNum 22)) (V 1))))), Do (SetV 4 (Bin BitOr (Bin Shr (Dot (V 0) ''l'') (V 1)) (Bin Shl (Dot (V 0) ''m'') (Bin Minus (K (JNum 22)) (V 1)))))] [When (Bin Lt (V 1) (K (JNum 44))) [Do (SetV 6 (Cond (V 3) (G ''sve'') (K (JNum 0)))), Do (SetV 5 (Bin Shr (V 2) (Bin Minus (V 1) (K (JNum 22))))), Do (SetV 4 (Bin BitOr (Bin Shr (Dot (V 0) ''m'') (Bin Minus (V 1) (K (JNum 22)))) (Bin Shl (V 2) (Bin Minus (K (JNum 44)) (V 1)))))] [Do (SetV 6 (Cond (V 3) (G ''sve'') (K (JNum 0)))), Do (SetV 5 (Cond (V 3) (G ''rve'') (K (JNum 0)))), Do (SetV 4 (Bin Shr (V 2) (Bin Minus (V 1) (K (JNum 44)))))]], Ret (Call ''_C'' [Bin BitAnd (V 4) (G ''rve''), Bin BitAnd (V 5) (G ''rve''), Bin BitAnd (V 6) (G ''sve'')])],
    fn ''FNd'' 2 9 [When (And (Bin Gt (Dot (Dot (V 0) ''a'') ''f'') (K (JNum 0))) (Call ''RD'' [V 1, K (JNum 45)])) [Do (Meth (Dot (V 0) ''a'') ''Zj'' []), Do (SetV 9 (Call ''JD'' [V 1, K (JNum 45)])), Do (SetV 8 (Meth (V 9) ''jd'' [])), Do (SetV 5 (Cond (Loose (V 8) (K JNull)) (K (JNum 0)) (Call ''tb'' [V 8]))), Do (SetV 6 (Call ''sMd'' [Dot (V 0) ''a'', V 5])), Do (SetV 2 (Idx (Dot (Dot (V 0) ''a'') ''d'') (V 6))), When (V 2) [Do (SetV 3 (Call ''JD'' [Dot (V 2) ''g'', K (JNum 374)])), Do (SetV 10 (Dot (V 2) ''i'')), Do (SetV 7 (K (JNum 0))), Loop (Bin Lt (V 7) (V 10)) [Do (SetV 4 (Idx (V 3) (V 7))), When (And (Loose (Meth (V 4) ''yi'' []) (V 5)) (Meth (V 4) ''Fb'' [V 9])) [Do (Call ''FNd'' [V 0, V 9]), Ret (K (JBool True))] []] [Do (SetV 7 (Bin Minus (V 7) (K (JNum (- 1)))))]] []] [], Ret (K (JBool False))]]"

definition code_5350_5365 :: "(string \<times> jfun) list" where
  "code_5350_5365 = [
    fn ''iic'' 1 4 [Do (SetV 4 (Meth (Call ''JD'' [Call ''Qc'' [Dot (V 0) ''a'', Seq (Call ''Nhc'' []) (G ''Khc'')], K (JNum 16)]) ''Jc'' [])), Loop (Meth (V 4) ''Ob'' []) [Do (SetV 3 (Call ''JD'' [Meth (V 4) ''Pb'' [], K (JNum 107)])), Do (SetV 2 (Seq (SetV 1 (Call ''Ec'' [Dot (V 3) ''k''])) (Cond (Meth (V 1) ''Gc'' [Seq (Call ''Bmd'' []) (G ''hmd'')]) (Cond (Meth (V 1) ''Gc'' [G ''gmd'']) (Cond (Meth (V 1) ''Gc'' [G ''ymd'']) (Cond (Meth (V 1) ''Gc'' [G ''Amd'']) (K JNull) (G ''Vhc'')) (G ''Xhc'')) (G ''Whc'')) (G ''Uhc'')))), Do (Call ''aic'' [V 0, V 3, Idx (V 2) (K (JNum 0)), Seq (Call ''vic'' []) (G ''sic''), K (JNum 0)]), Do (Call ''aic'' [V 0, V 3, Idx (V 2) (K (JNum 1)), G ''tic'', K (JNum 1)]), Do (Call ''aic'' [V 0, V 3, Idx (V 2) (K (JNum 2)), G ''uic'', K (JNum 1)])] []],
    fn ''$kc'' 2 2 [Do (SetV 2 (Call ''_kc'' [V 1])), Do (Call ''clc'' [V 0, V 1, V 2]), Do (Call ''DQc'' [Dot (V 0) ''a'', Call ''JD'' [Call ''oNb'' [Call ''DYb'' [Dot (V 1) ''b''], Seq (Call ''Wrc'' []) (G ''Frc'')], K (JNum 234)]]), Do (Call ''Zkc'' [V 0]), Do (Call ''Ykc'' [V 0, V 1]), Do (SetV 3 (Call ''SC'' [G ''cE'', G ''bve'', K (JNum 30), Dot (Dot (Dot (Dot (V 1) ''b'') ''j'') ''c'') ''length'', K (JNum 15), K (JNum 1)])), Do (Call ''flc'' [V 0, V 1, Seq (Call ''Bmd'' []) (G ''hmd''), V 3, V 2]), Do (Call ''flc'' [V 0, V 1, G ''gmd'', V 3, V 2]), Do (Call ''flc'' [V 0, V 1, G ''ymd'', V 3, V 2]), Do (Call ''flc'' [V 0, V 1, G ''Amd'', V 3, V 2]), Do (Put (V 0) ''a'' (K JNull)), Do (Put (V 0) ''c'' (K JNull)), Do (Put (V 0) ''b'' (K JNull))],
    fn ''swd'' 3 0 [Switch (V 1) [(Some (JNum 7), [Do (And (Neg (Dot (V 0) ''e'')) (Put (V 0) ''e'' (New ''jhe'' [G ''Q3'', V 0, K (JNum 7), K (JNum 4)]))), Do (Call ''JJd'' [Dot (V 0) ''e'']), Do (And (Neg (Dot (V 0) ''e'')) (Put (V 0) ''e'' (New ''jhe'' [G ''Q3'', V 0, K (JNum 7), K (JNum 4)]))), Do (Call ''nFd'' [Dot (V 0) ''e'', Call ''JD'' [V 2, K (JNum 18)]]), Ret (K JUndef)]), (Some (JNum 8), [Do (And (Neg (Dot (V 0) ''d'')) (Put (V 0) ''d'' (New ''jhe'' [G ''Q3'', V 0, K (JNum 8), K (JNum 5)]))), Do (Call ''JJd'' [Dot (V 0) ''d'']), Do (And (Neg (Dot (V 0) ''d'')) (Put (V 0) ''d'' (New ''jhe'' [G ''Q3'', V 0, K (JNum 8), K (JNum 5)]))), Do (Call ''nFd'' [Dot (V 0) ''d'', Call ''JD'' [V 2, K (JNum 18)]]), Ret (K JUndef)])], Do (Call ''Vvd'' [V 0, V 1, V 2])],
    fn ''It'' 2 5 [When (Same (Call ''XD'' [V 1]) (Call ''XD'' [V 0])) [Ret (K (JBool True))] [], When (Neg (Call ''RD'' [V 1, K (JNum 16)])) [Ret (K (JBool False))] [], Do (SetV 6 (Call ''JD'' [V 1, K (JNum 16)])), When (Neg (Loose (Meth (V 0) ''gc'' []) (Meth (V 6) ''gc'' []))) [Ret (K (JBool False))] [], Do (SetV 5 (Meth (V 6) ''Jc'' [])), Do (SetV 3 (Meth (V 0) ''Jc'' [])), Loop (Meth (V 3) ''Ob'' []) [Do (SetV 2 (Meth (V 3) ''Pb'' [])), Do (SetV 4 (Meth (V 5) ''Pb'' [])), When (Neg (Or (Same (Call ''XD'' [V 2]) (Call ''XD'' [V 4])) (And (Neg (Loose (V 2) (K JNull))) (Call ''pb'' [V 2, V 4])))) [Ret (K (JBool False))] []] [], Ret (K (JBool True))],
    fn ''X3b'' 2 4 [Do (SetV 5 (Call ''JD'' [Call ''SBb'' [Call ''XBb'' [Call ''XBb'' [New ''jCb'' [K JNull, New ''Zvb'' [Dot (V 1) ''b'', K (JNum 16)]], New ''b4b'' []], New ''d4b'' []], Call ''BAb'' [New ''TAb'' [], New ''RAb'' [], New ''ZAb'' [], Call ''WC'' [Call ''OC'' [G ''HL'', K (JNum 1)], G ''xue'', K (JNum 130), K (JNum 0), NewArr [Seq (Call ''FAb'' []) (G ''DAb'')]]]], K (JNum 16)])), Do (Meth (V 5) ''Ic'' [New ''f4b'' []]), Do (SetV 2 (K (JNum 0))), Do (SetV 4 (Meth (V 5) ''Jc'' [])), Loop (Meth (V 4) ''Ob'' []) [Do (SetV 3 (Call ''JD'' [Meth (V 4) ''Pb'' [], K (JNum 12)])), Do (And (Loose (Dot (V 3) ''p'') (K (JNum (- 1)))) (Call ''W3b'' [V 0, V 3, Bin Minus (SetV 2 (Bin Minus (V 2) (K (JNum (- 1))))) (K (JNum 1))]))] []],
    fn ''Tac'' 2 5 [Do (Meth (V 1) ''Tg'' [K (JStr ''Port side processing''), K (JNum 1)]), Do (SetV 6 (New ''Kmb'' [Dot (V 0) ''a''])), Loop (Bin Lt (Dot (V 6) ''a'') (Dot (Dot (Dot (V 6) ''c'') ''c'') ''length'')) [Do (SetV 4 (Call ''JD'' [Call ''Imb'' [V 6], K (JNum 9)])), Do (Call ''Uac'' [V 4])] [], Do (SetV 3 (New ''Kmb'' [Dot (V 0) ''b''])), Loop (Bin Lt (Dot (V 3) ''a'') (Dot (Dot (Dot (V 3) ''c'') ''c'') ''length'')) [Do (SetV 2 (Call ''JD'' [Call ''Imb'' [V 3], K (JNum 25)])), Do (SetV 5 (New ''Kmb'' [Dot (V 2) ''a''])), Loop (Bin Lt (Dot (V 5) ''a'') (Dot (Dot (Dot (V 5) ''c'') ''c'') ''length'')) [Do (SetV 4 (Call ''JD'' [Call ''Imb'' [V 5], K (JNum 9)])), Do (Call ''Uac'' [V 4])] []] [], Do (Meth (V 1) ''Ug'' [])],
    fn ''zzc'' 1 0 [Switch (Dot (V 0) ''g'') [(Some (JNum 0), [Ret (New ''TMc'' [])]), (Some (JNum 1), [Ret (New ''mKc'' [])]), (Some (JNum 2), [Ret (New ''CKc'' [])]), (Some (JNum 3), [Ret (New ''LNc'' [])]), (Some (JNum 4), [Ret (New ''hLc'' [])]), (None, [Raise (Call ''Lcb'' [New ''kfb'' [Bin Plus (K (JStr ''No implementation is available for the node placer '')) (Cond (Neg (Loose (Dot (V 0) ''f'') (K JNull))) (Dot (V 0) ''f'') (Bin Plus (K (JStr '''')) (Dot (V 0) ''g'')))]])])]],
    fn ''NNc'' 2 6 [Do (SetV 3 (New ''otb'' [])), Do (SetV 6 (Call ''Tx'' [New ''wnb'' [Dot (V 0) ''g'']])), Do (SetV 5 (Meth (Meth (Dot (V 6) ''a'') ''ec'' []) ''Jc'' [])), Loop (Meth (V 5) ''Ob'' []) [Do (SetV 4 (Call ''JD'' [Meth (V 5) ''Pb'' [], K (JNum 9)])), When (Neg (V 4)) [Do (Meth (V 1) ''ah'' [K (JStr ''There are no classes in a balanced layout.'')]), Break] [], Do (SetV 7 (Idx (Dot (V 0) ''j'') (Dot (V 4) ''p''))), Do (SetV 2 (Call ''JD'' [Call ''ktb'' [V 3, V 7], K (JNum 16)])), When (Neg (V 2)) [Do (SetV 2 (New ''lmb'' [])), Do (Call ''ltb'' [V 3, V 7, V 2])] [], Do (Meth (V 2) ''Ec'' [V 4])] [], Ret (V 3)],
    fn ''rYc'' 2 5 [Do (SetV 3 (New ''dub'' [])), Do (Call ''Wtb'' [V 3, V 1, Dot (Dot (V 3) ''c'') ''b'', Dot (V 3) ''c'']), Loop (K (JBool True)) [Do (SetV 2 (Seq (Call ''LDb'' [Neg (Loose (Dot (V 3) ''b'') (K (JNum 0)))]) (Call ''JD'' [Call ''bub'' [V 3, Dot (Dot (V 3) ''a'') ''a''], K (JNum 40)]))), Do (PutIdx (Dot (V 0) ''b'') (Dot (V 2) ''g'') (K (JNum 1))), Do (SetV 5 (Call ''Ztb'' [Dot (V 2) ''d'', K (JNum 0)])), Loop (Neg (Loose (Dot (V 5) ''b'') (Dot (Dot (V 5) ''d'') ''c''))) [Do (SetV 4 (Call ''JD'' [Call ''lub'' [V 5], K (JNum 65)])), Do (SetV 6 (Dot (V 4) ''c'')), Do (Cond (Loose (Idx (Dot (V 0) ''b'') (Dot (V 6) ''g'')) (K (JNum 1))) (Call ''Ttb'' [Dot (V 0) ''a'', V 4]) (Cond (Loose (Idx (Dot (V 0) ''b'') (Dot (V 6) ''g'')) (K (JNum 2))) (PutIdx (Dot (V 0) ''b'') (Dot (V 6) ''g'') (K (JNum 1))) (Call ''Wtb'' [V 3, V 6, Dot (Dot (V 3) ''c'') ''b'', Dot (V 3) ''c''])))] []] [When (Neg (Loose (Dot (V 3) ''b'') (K (JNum 0)))) [] [Break]]],
    fn ''qBd'' 2 0 [When (Call ''RD'' [V 1, K (JNum 206)]) [Ret (Call ''Rzd'' [Call ''JD'' [V 1, K (JNum 26)]])] [When (Call ''RD'' [V 1, K (JNum 193)]) [Ret (Call ''gAd'' [Call ''JD'' [V 1, K (JNum 125)]])] [When (Call ''RD'' [V 1, K (JNum 362)]) [Ret (Call ''zzd'' [Call ''JD'' [V 1, K (JNum 157)]])] [When (Call ''RD'' [V 1, K (JNum 271)]) [Ret (Call ''eBd'' [V 0, Call ''JD'' [V 1, K (JNum 85)]])] [Raise (Call ''Lcb'' [New ''kfb'' [Bin Plus (G ''HGe'') (Call ''Ee'' [New ''wnb'' [Call ''WC'' [Call ''OC'' [G ''aJ'', K (JNum 1)], G ''Gte'', K (JNum 1), K (JNum 5), NewArr [V 1]]]])]])]]]]],
    fn ''EUb'' 3 1 [Do (SetV 3 (K JNull)), Do (And (Neg (Neg (V 1))) (SetV 3 (Dot (V 1) ''d''))), Do (Call ''QUb'' [V 0, New ''KSb'' [Bin Plus (Bin Minus (Dot (Dot (V 1) ''n'') ''a'') (Dot (V 3) ''b'')) (Dot (V 2) ''a''), Bin Plus (Bin Minus (Dot (Dot (V 1) ''n'') ''b'') (Dot (V 3) ''d'')) (Dot (V 2) ''b'')]]), Do (Call ''QUb'' [V 0, New ''KSb'' [Bin Plus (Bin Minus (Dot (Dot (V 1) ''n'') ''a'') (Dot (V 3) ''b'')) (Dot (V 2) ''a''), Bin Plus (Bin Plus (Bin Plus (Dot (Dot (V 1) ''n'') ''b'') (Dot (Dot (V 1) ''o'') ''b'')) (Dot (V 3) ''a'')) (Dot (V 2) ''b'')]]), Do (Call ''QUb'' [V 0, New ''KSb'' [Bin Plus (Bin Plus (Bin Plus (Dot (Dot (V 1) ''n'') ''a'') (Dot (Dot (V 1) ''o'') ''a'')) (Dot (V 3) ''c'')) (Dot (V 2) ''a''), Bin Plus (Bin Minus (Dot (Dot (V 1) ''n'') ''b'') (Dot (V 3) ''d'')) (Dot (V 2) ''b'')]]), Do (Call ''QUb'' [V 0, New ''KSb'' [Bin Plus (Bin Plus (Bin Plus (Dot (Dot (V 1) ''n'') ''a'') (Dot (Dot (V 1) ''o'') ''a'')) (Dot (V 3) ''c'')) (Dot (V 2) ''a''), Bin Plus (Bin Plus (Bin Plus (Dot (Dot (V 1) ''n'') ''b'') (Dot (Dot (V 1) ''o'') ''b'')) (Dot (V 3) ''a'')) (Dot (V 2) ''b'')]])],
    fn ''W3b'' 3 3 [Do (Put (V 1) ''p'' (V 2)), Do (SetV 5 (Call ''Gl'' [Call ''yl'' [Call ''WC'' [Call ''OC'' [G ''VI'', K (JNum 1)], G ''Gte'', K (JNum 20), K (JNum 0), NewArr [New ''AZb'' [V 1], New ''IZb'' [V 1]]]]])), Loop (Call ''Wr'' [V 5]) [Do (SetV 3 (Call ''JD'' [Call ''Xr'' [V 5], K (JNum 12)])), Do (And (Loose (Dot (V 3) ''p'') (K (JNum (- 1)))) (Call ''W3b'' [V 0, V 3, V 2]))] [], When (Loose (Dot (Dot (V 1) ''i'') ''k'') (Seq (Call ''$Yb'' []) (G ''VYb''))) [Do (SetV 4 (New ''Kmb'' [Dot (Dot (V 1) ''i'') ''j''])), Loop (Bin Lt (Dot (V 4) ''a'') (Dot (Dot (Dot (V 4) ''c'') ''c'') ''length'')) [Do (SetV 3 (Call ''JD'' [Call ''Imb'' [V 4], K (JNum 12)])), Do (And (And (Neg (Loose (V 3) (V 1))) (Loose (Dot (V 3) ''p'') (K (JNum (- 1))))) (Call ''W3b'' [V 0, V 3, V 2]))] []] []],
    fn ''AQc'' 1 5 [Do (SetV 4 (Call ''JD'' [Call ''SBb'' [Call ''UBb'' [Call ''fCb'' [V 0]], Call ''BAb'' [New ''TAb'' [], New ''RAb'' [], New ''ZAb'' [], Call ''WC'' [Call ''OC'' [G ''HL'', K (JNum 1)], G ''xue'', K (JNum 130), K (JNum 0), NewArr [Seq (Call ''FAb'' []) (G ''DAb'')]]]], K (JNum 16)])), Do (SetV 3 (G ''tCe'')), When (Bin Ge (Meth (V 4) ''gc'' []) (K (JNum 2))) [Do (SetV 2 (Meth (V 4) ''Jc'' [])), Do (SetV 1 (Call ''MD'' [Meth (V 2) ''Pb'' []])), Loop (Meth (V 2) ''Ob'' []) [Do (SetV 5 (V 1)), Do (SetV 1 (Call ''MD'' [Meth (V 2) ''Pb'' []])), Do (SetV 3 (Meth (Dot (G ''$wnd'') ''Math'') ''min'' [V 3, Bin Minus (Seq (Call ''NDb'' [V 1]) (V 1)) (Seq (Call ''NDb'' [V 5]) (V 5))]))] []] [], Ret (V 3)],
    fn ''TSc'' 2 3 [Do (SetV 4 (New ''lmb'' [])), Do (SetV 3 (Call ''Ztb'' [Dot (V 1) ''a'', K (JNum 0)])), Loop (Neg (Loose (Dot (V 3) ''b'') (Dot (Dot (V 3) ''d'') ''c''))) [Do (SetV 2 (Call ''JD'' [Call ''lub'' [V 3], K (JNum 65)])), Do (And (And (And (And (Loose (Dot (Dot (V 2) ''b'') ''g'') (Dot (V 0) ''g'')) (Neg (Call ''vgb'' [Dot (Dot (V 2) ''b'') ''c'', G ''LCe'']))) (Neg (Same (Call ''XD'' [Call ''oNb'' [Dot (V 2) ''b'', Seq (Call ''SXc'' []) (G ''QXc'')]]) (Call ''XD'' [Call ''oNb'' [Dot (V 2) ''c'', G ''QXc'']])))) (Neg (Call ''RBb'' [New ''jCb'' [K JNull, New ''Zvb'' [V 4, K (JNum 16)]], New ''xTc'' [V 2]]))) (Seq (Call ''qDb'' [Dot (V 4) ''c'', V 2]) (K (JBool True))))] [], Do (Call ''jmb'' [V 4, New ''zTc'' []]), Ret (V 4)],
    fn ''Ru'' 2 3 [When (Same (Call ''XD'' [V 1]) (Call ''XD'' [Call ''Qb'' [V 0]])) [Ret (K (JBool True))] [], When (Neg (Call ''RD'' [V 1, K (JNum 16)])) [Ret (K (JBool False))] [], Do (SetV 3 (Call ''JD'' [V 1, K (JNum 16)])), Do (SetV 4 (Meth (V 0) ''gc'' [])), When (Neg (Loose (V 4) (Meth (V 3) ''gc'' []))) [Ret (K (JBool False))] [], When (Call ''RD'' [V 3, K (JNum 59)]) [Do (SetV 2 (K (JNum 0))), Loop (Bin Lt (V 2) (V 4)) [When (Neg (Call ''Hb'' [Meth (V 0) ''Xb'' [V 2], Meth (V 3) ''Xb'' [V 2]])) [Ret (K (JBool False))] []] [Do (Bin Minus (SetV 2 (Bin Minus (V 2) (K (JNum (- 1))))) (K (JNum 1)))], Ret (K (JBool True))] [Ret (Call ''tr'' [Meth (V 0) ''Jc'' [], Meth (V 3) ''Jc'' []])]],
    fn ''G6b'' 6 4 [Do (SetV 7 (Neg (Meth (Call ''hCb'' [Call ''VBb'' [Meth (V 0) ''Mc'' [], New ''Xzb'' [New ''K6b'' []]]]) ''zd'' [Seq (Call ''QBb'' []) (G ''PBb'')]))), Do (SetV 6 (V 0)), Do (And (Loose (V 5) (Seq (Call ''Djd'' []) (G ''Cjd''))) (SetV 6 (Call ''$u'' [V 6]))), Do (SetV 9 (Meth (V 6) ''Jc'' [])), Loop (Meth (V 9) ''Ob'' []) [Do (SetV 8 (Call ''JD'' [Meth (V 9) ''Pb'' [], K (JNum 70)])), Do (Put (Dot (V 8) ''n'') ''a'' (Dot (V 1) ''a'')), Do (Cond (V 7) (Put (Dot (V 8) ''n'') ''b'' (Bin Plus (Dot (V 1) ''b'') (Bin Divide (Bin Minus (Dot (V 3) ''b'') (Dot (Dot (V 8) ''o'') ''b'')) (K (JNum 2))))) (Cond (V 4) (Put (Dot (V 8) ''n'') ''b'' (Dot (V 1) ''b'')) (Put (Dot (V 8) ''n'') ''b'' (Bin Minus (Bin Plus (Dot (V 1) ''b'') (Dot (V 3) ''b'')) (Dot (Dot (V 8) ''o'') ''b''))))), Do (Put (V 1) ''a'' (Bin Plus (Dot (V 1) ''a'') (Bin Plus (Dot (Dot (V 8) ''o'') ''a'') (V 2))))] []]]"

definition code_5367_5378 :: "(string \<times> jfun) list" where
  "code_5367_5378 = [
    fn ''oQb'' 3 5 [Do (SetV 7 (V 2)), Do (And (Neg (V 7)) (SetV 7 (Call ''nod'' [New ''ood'' [], K (JNum 0)]))), Do (Meth (V 7) ''Tg'' [G ''jye'', K (JNum 1)]), Do (Call ''GQb'' [Dot (V 0) ''c'', V 1]), Do (SetV 6 (Call ''lVb'' [Dot (V 0) ''a'', V 1])), When (Loose (Meth (V 6) ''gc'' []) (K (JNum 1))) [Do (Call ''qQb'' [Call ''JD'' [Meth (V 6) ''Xb'' [K (JNum 0)], K (JNum 36)], V 7])] [Do (SetV 5 (Bin Divide (K (JNum 1)) (Meth (V 6) ''gc'' []))), Do (SetV 4 (Meth (V 6) ''Jc'' [])), Loop (Meth (V 4) ''Ob'' []) [Do (SetV 3 (Call ''JD'' [Meth (V 4) ''Pb'' [], K (JNum 36)])), When (Meth (V 2) ''Zg'' []) [Ret (K JUndef)] [], Do (Call ''qQb'' [V 3, Meth (V 7) ''dh'' [V 5]])] []], Do (Call ''jVb'' [Dot (V 0) ''a'', V 6, V 1]), Do (Call ''rQb'' [V 1]), Do (Meth (V 7) ''Ug'' [])],
    fn ''Icc'' 3 5 [Do (SetV 4 (Dot (V 0) ''f'')), Do (And (Neg (V 4)) (SetV 4 (Call ''JD'' [Meth (Meth (Meth (Dot (Dot (V 0) ''a'') ''a'') ''ec'' []) ''Jc'' []) ''Pb'' [], K (JNum 60)]))), Do (Call ''Jcc'' [V 4, V 1, V 2]), When (Loose (Meth (Dot (Dot (V 0) ''a'') ''a'') ''gc'' []) (K (JNum 1))) [Ret (K JUndef)] [], Do (SetV 3 (Bin Times (V 1) (V 2))), Do (SetV 6 (Meth (Meth (Dot (Dot (V 0) ''a'') ''a'') ''ec'' []) ''Jc'' [])), Loop (Meth (V 6) ''Ob'' []) [Do (SetV 5 (Call ''JD'' [Meth (V 6) ''Pb'' [], K (JNum 60)])), When (Neg (Loose (V 5) (V 4))) [Do (SetV 7 (Call ''_dc'' [V 5])), When (Dot (Dot (V 7) ''f'') ''d'') [Do (Put (Dot (V 5) ''d'') ''d'' (Bin Plus (Dot (Dot (V 5) ''d'') ''d'') (Bin Plus (V 3) (G ''Zwe'')))), Do (Put (Dot (V 5) ''d'') ''a'' (Bin Minus (Dot (Dot (V 5) ''d'') ''a'') (Bin Plus (V 3) (G ''Zwe''))))] [Do (And (Dot (Dot (V 7) ''f'') ''a'') (Put (Dot (V 5) ''d'') ''a'' (Bin Minus (Dot (Dot (V 5) ''d'') ''a'') (Bin Plus (V 3) (G ''Zwe'')))))]] []] []],
    fn ''XMc'' 4 8 [Do (SetV 4 (V 2)), Do (SetV 10 (V 1)), Do (SetV 5 (V 10)), Loop (K (JBool True)) [Do (SetV 5 (Idx (Dot (V 0) ''a'') (Dot (V 5) ''p''))), Do (SetV 7 (Seq (SetV 11 (Idx (Dot (V 0) ''g'') (Dot (V 5) ''p''))) (Bin Minus (Bin Plus (Call ''Ueb'' [Idx (Dot (V 0) ''p'') (Dot (V 11) ''p'')]) (Call ''Ueb'' [Idx (Dot (V 0) ''d'') (Dot (V 5) ''p'')])) (Dot (Dot (V 5) ''d'') ''d'')))), Do (SetV 8 (Call ''$Mc'' [V 5, V 3])), When (V 8) [Do (SetV 6 (Seq (SetV 9 (Idx (Dot (V 0) ''g'') (Dot (V 8) ''p''))) (Bin Plus (Bin Plus (Bin Plus (Call ''Ueb'' [Idx (Dot (V 0) ''p'') (Dot (V 9) ''p'')]) (Call ''Ueb'' [Idx (Dot (V 0) ''d'') (Dot (V 8) ''p'')])) (Dot (Dot (V 8) ''o'') ''b'')) (Dot (Dot (V 8) ''d'') ''a'')))), Do (SetV 4 (Meth (Dot (G ''$wnd'') ''Math'') ''min'' [V 4, Bin Minus (V 7) (Bin Plus (V 6) (Call ''SAc'' [Dot (V 0) ''k'', V 5, V 8]))]))] []] [When (Neg (Loose (V 10) (V 5))) [] [Break]], Ret (V 4)],
    fn ''YMc'' 4 8 [Do (SetV 4 (V 2)), Do (SetV 10 (V 1)), Do (SetV 5 (V 10)), Loop (K (JBool True)) [Do (SetV 5 (Idx (Dot (V 0) ''a'') (Dot (V 5) ''p''))), Do (SetV 6 (Seq (SetV 11 (Idx (Dot (V 0) ''g'') (Dot (V 5) ''p''))) (Bin Plus (Bin Plus (Bin Plus (Call ''Ueb'' [Idx (Dot (V 0) ''p'') (Dot (V 11) ''p'')]) (Call ''Ueb'' [Idx (Dot (V 0) ''d'') (Dot (V 5) ''p'')])) (Dot (Dot (V 5) ''o'') ''b'')) (Dot (Dot (V 5) ''d'') ''a'')))), Do (SetV 8 (Call ''ZMc'' [V 5, V 3])), When (V 8) [Do (SetV 7 (Seq (SetV 9 (Idx (Dot (V 0) ''g'') (Dot (V 8) ''p''))) (Bin Minus (Bin Plus (Call ''Ueb'' [Idx (Dot (V 0) ''p'') (Dot (V 9) ''p'')]) (Call ''Ueb'' [Idx (Dot (V 0) ''d'') (Dot (V 8) ''p'')])) (Dot (Dot (V 8) ''d'') ''d'')))), Do (SetV 4 (Meth (Dot (G ''$wnd'') ''Math'') ''min'' [V 4, Bin Minus (V 7) (Bin Plus (V 6) (Call ''SAc'' [Dot (V 0) ''k'', V 5, V 8]))]))] []] [When (Neg (Loose (V 10) (V 5))) [] [Break]], Ret (V 4)],
    fn ''m6c'' 2 1 [Do (Meth (V 1) ''Tg'' [K (JStr ''Equal Whitespace Eliminator''), K (JNum 1)]), When (Call ''dvd'' [V 0, Seq (Call ''P3c'' []) (G ''N3c'')]) [Do (Call ''r6c'' [Call ''JD'' [Call ''cvd'' [V 0, G ''N3c''], K (JNum 16)], Call ''Ueb'' [Call ''MD'' [Call ''cvd'' [V 0, G ''G3c'']]], Seq (Seq (SetV 2 (Call ''Ueb'' [Call ''MD'' [Call ''cvd'' [V 0, G ''E3c'']]])) (Call ''Ueb'' [Call ''MD'' [Call ''cvd'' [V 0, Seq (Call ''S4c'' []) (G ''L4c'')]]])) (V 2)])] [Raise (Call ''Lcb'' [New ''Ebd'' [K (JStr ''The graph does not contain rows.'')]])], Do (Meth (V 1) ''Ug'' [])],
    fn ''cvd'' 2 2 [Do (SetV 3 (Seq (And (Neg (Dot (V 0) ''o'')) (Put (V 0) ''o'' (New ''QTd'' [Seq (Call ''Nsd'' []) (G ''Ksd''), G ''f4'', V 0, K (JNum 0)]))) (Call ''pMd'' [Dot (V 0) ''o'', V 1]))), When (Neg (Loose (V 3) (K JNull))) [Ret (V 3)] [], Do (SetV 2 (Meth (V 1) ''Rg'' [])), Do (And (Call ''RD'' [V 2, K (JNum 4)]) (Seq (Cond (Loose (V 2) (K JNull)) (Seq (And (Neg (Dot (V 0) ''o'')) (Put (V 0) ''o'' (New ''QTd'' [Seq (Call ''Nsd'' []) (G ''Ksd''), G ''f4'', V 0, K (JNum 0)]))) (Call ''AMd'' [Dot (V 0) ''o'', V 1])) (Seq (And (Neg (Dot (V 0) ''o'')) (Put (V 0) ''o'' (New ''QTd'' [Seq (Call ''Nsd'' []) (G ''Ksd''), G ''f4'', V 0, K (JNum 0)]))) (Call ''wMd'' [Dot (V 0) ''o'', V 1, V 2]))) (V 0))), Ret (V 2)],
    fn ''old'' 0 0 [Do (SetG ''old'' (G ''qdb'')), Do (SetG ''gld'' (New ''pld'' [K (JStr ''H_LEFT''), K (JNum 0)])), Do (SetG ''fld'' (New ''pld'' [K (JStr ''H_CENTER''), K (JNum 1)])), Do (SetG ''ild'' (New ''pld'' [K (JStr ''H_RIGHT''), K (JNum 2)])), Do (SetG ''nld'' (New ''pld'' [K (JStr ''V_TOP''), K (JNum 3)])), Do (SetG ''mld'' (New ''pld'' [K (JStr ''V_CENTER''), K (JNum 4)])), Do (SetG ''lld'' (New ''pld'' [K (JStr ''V_BOTTOM''), K (JNum 5)])), Do (SetG ''jld'' (New ''pld'' [K (JStr ''INSIDE''), K (JNum 6)])), Do (SetG ''kld'' (New ''pld'' [K (JStr ''OUTSIDE''), K (JNum 7)])), Do (SetG ''hld'' (New ''pld'' [K (JStr ''H_PRIORITY''), K (JNum 8)]))],
    fn ''OGb'' 2 7 [When (Neg (Dot (V 1) ''f'')) [Raise (Call ''Lcb'' [New ''kfb'' [K (JStr ''The input edge is not a tree edge.'')]])] [], Do (SetV 5 (K JNull)), Do (SetV 4 (G ''Ate'')), Do (SetV 3 (New ''Kmb'' [Dot (V 0) ''d''])), Loop (Bin Lt (Dot (V 3) ''a'') (Dot (Dot (Dot (V 3) ''c'') ''c'') ''length'')) [Do (SetV 2 (Call ''JD'' [Call ''Imb'' [V 3], K (JNum 217)])), Do (SetV 7 (Dot (V 2) ''d'')), Do (SetV 8 (Dot (V 2) ''e'')), When (And (Call ''TGb'' [V 0, V 7, V 1]) (Neg (Call ''TGb'' [V 0, V 8, V 1]))) [Do (SetV 6 (Bin Minus (Bin Minus (Dot (V 8) ''e'') (Dot (V 7) ''e'')) (Dot (V 2) ''a''))), When (Bin Lt (V 6) (V 4)) [Do (SetV 4 (V 6)), Do (SetV 5 (V 2))] []] []] [], Ret (V 5)],
    fn ''WPb'' 1 6 [When (Bin Le (Dot (Dot (Dot (Dot (V 0) ''f'') ''e'') ''c'') ''length'') (K (JNum 1))) [Ret (K JUndef)] [], Do (SetV 1 (K (JNum 0))), Do (SetV 4 (Call ''TPb'' [V 0])), Do (SetV 2 (G ''Cve'')), Loop (K (JBool True)) [Do (And (Bin Gt (V 1) (K (JNum 0))) (SetV 4 (V 2))), Do (SetV 6 (New ''Kmb'' [Dot (Dot (V 0) ''f'') ''e''])), Loop (Bin Lt (Dot (V 6) ''a'') (Dot (Dot (Dot (V 6) ''c'') ''c'') ''length'')) [Do (SetV 5 (Call ''JD'' [Call ''Imb'' [V 6], K (JNum 155)])), When (Call ''Rdb'' [Call ''LD'' [Call ''oNb'' [V 5, Seq (Call ''HPb'' []) (G ''yPb'')]]]) [Continue] [], Do (SetV 3 (Call ''SPb'' [V 0, V 5])), Do (Call ''Vfd'' [Call ''cgd'' [Dot (V 5) ''d''], V 3])] [], Do (SetV 2 (Call ''TPb'' [V 0]))] [When (Neg (Call ''VPb'' [V 0, Bin Minus (SetV 1 (Bin Minus (V 1) (K (JNum (- 1))))) (K (JNum 1)), V 4, V 2])) [] [Break]]],
    fn ''hhc'' 2 5 [Do (SetV 5 (Dot (Dot (V 0) ''g'') ''a'')), Do (SetV 6 (Dot (Dot (V 0) ''g'') ''b'')), Do (SetV 3 (New ''Kmb'' [Dot (V 0) ''d''])), Loop (Bin Lt (Dot (V 3) ''a'') (Dot (Dot (Dot (V 3) ''c'') ''c'') ''length'')) [Do (SetV 2 (Call ''JD'' [Call ''Imb'' [V 3], K (JNum 70)])), Do (SetV 4 (Dot (V 2) ''n'')), Do (Cond (Or (Loose (Dot (V 0) ''a'') (Seq (Call ''phc'' []) (G ''mhc''))) (Loose (Dot (V 0) ''i'') (Seq (Call ''Bmd'' []) (G ''gmd'')))) (Put (V 4) ''a'' (V 5)) (Cond (Or (Loose (Dot (V 0) ''a'') (G ''nhc'')) (Loose (Dot (V 0) ''i'') (Seq (Call ''Bmd'' []) (G ''Amd'')))) (Put (V 4) ''a'' (Bin Minus (Bin Plus (V 5) (Dot (Dot (V 0) ''j'') ''a'')) (Dot (Dot (V 2) ''o'') ''a''))) (Put (V 4) ''a'' (Bin Plus (V 5) (Bin Divide (Bin Minus (Dot (Dot (V 0) ''j'') ''a'') (Dot (Dot (V 2) ''o'') ''a'')) (K (JNum 2))))))), Do (Put (V 4) ''b'' (V 6)), Do (Call ''Vfd'' [V 4, V 1]), Do (SetV 6 (Bin Plus (V 6) (Bin Plus (Dot (Dot (V 2) ''o'') ''b'') (Dot (V 0) ''e''))))] []],
    fn ''dod'' 1 4 [Do (SetV 4 (K (JNum 0))), Do (SetV 1 (Dot (Call ''JD'' [Call ''cvd'' [V 0, Seq (Call ''vjd'' []) (G ''ujd'')], K (JNum 15)]) ''a'')), Do (SetV 3 (New ''uKd'' [Seq (And (Neg (Dot (V 0) ''a'')) (Put (V 0) ''a'' (New ''P3d'' [G ''T3'', V 0, K (JNum 10), K (JNum 11)]))) (Dot (V 0) ''a'')])), Loop (Neg (Loose (Dot (V 3) ''e'') (Meth (Dot (V 3) ''i'') ''gc'' []))) [Do (SetV 2 (Call ''JD'' [Call ''sKd'' [V 3], K (JNum 26)])), Do (And (Neg (Dot (V 2) ''a'')) (Put (V 2) ''a'' (New ''P3d'' [G ''T3'', V 2, K (JNum 10), K (JNum 11)]))), Do (Cond (And (Neg (Neg (Dot (V 2) ''a''))) (Bin Gt (Dot (Seq (And (Neg (Dot (V 2) ''a'')) (Put (V 2) ''a'' (New ''P3d'' [G ''T3'', V 2, K (JNum 10), K (JNum 11)]))) (Dot (V 2) ''a'')) ''i'') (K (JNum 0)))) (SetV 4 (Bin Plus (V 4) (V 1))) (SetV 4 (Bin Plus (V 4) (K (JNum 1)))))] [], Ret (V 4)],
    fn ''lCd'' 2 10 [Do (SetV 9 (V 0)), Do (SetV 8 (Call ''UAd'' [V 9, K (JStr ''individualSpacings'')])), When (V 8) [Do (SetV 3 (Call ''dvd'' [V 1, Seq (Call ''vjd'' []) (G ''$id'')])), Do (SetV 6 (Neg (V 3))), When (V 6) [Do (SetV 4 (New ''Fqd'' [])), Do (Call ''evd'' [V 1, G ''$id'', V 4])] [], Do (SetV 7 (Call ''JD'' [Call ''cvd'' [V 1, G ''$id''], K (JNum 379)])), Do (SetV 11 (V 8)), Do (SetV 5 (K JNull)), Do (And (Neg (Neg (V 11))) (SetV 5 (Seq (SetV 10 (Call ''gC'' [V 11, Call ''SC'' [G ''hJ'', G ''aue'', K (JNum 2), K (JNum 0), K (JNum 6), K (JNum 1)]])) (New ''uC'' [V 11, V 10])))), When (V 5) [Do (SetV 2 (New ''hDd'' [V 11, V 7])), Do (Call ''Hfb'' [V 5, V 2])] []] []]]"

definition code_5380_5393 :: "(string \<times> jfun) list" where
  "code_5380_5393 = [
    fn ''gx'' 2 3 [When (Same (V 1) (V 0)) [Ret (K (JBool True))] [], When (Call ''RD'' [V 1, K (JNum 541)]) [Do (SetV 4 (Call ''JD'' [V 1, K (JNum 834)])), When (Or (Neg (Loose (Dot (Dot (V 0) ''a'') ''d'') (Dot (Dot (V 4) ''a'') ''d''))) (Neg (Loose (Meth (Call ''Gh'' [V 0]) ''gc'' []) (Meth (Call ''Gh'' [V 4]) ''gc'' [])))) [Ret (K (JBool False))] [], Do (SetV 3 (Meth (Call ''Gh'' [V 4]) ''Jc'' [])), Loop (Meth (V 3) ''Ob'' []) [Do (SetV 2 (Call ''JD'' [Meth (V 3) ''Pb'' [], K (JNum 416)])), When (Neg (Loose (Call ''Iw'' [V 0, Meth (Dot (V 2) ''a'') ''jd'' []]) (Meth (Call ''JD'' [Meth (Dot (V 2) ''a'') ''kd'' [], K (JNum 18)]) ''gc'' []))) [Ret (K (JBool False))] []] [], Ret (K (JBool True))] [], Ret (K (JBool False))],
    fn ''C$b'' 2 4 [Do (SetV 5 (New ''Kmb'' [Dot (V 1) ''a''])), Loop (Bin Lt (Dot (V 5) ''a'') (Dot (Dot (Dot (V 5) ''c'') ''c'') ''length'')) [Do (SetV 4 (Call ''JD'' [Call ''Imb'' [V 5], K (JNum 9)])), Do (Call ''rNb'' [V 4, Seq (Call ''Wrc'' []) (G ''Trc''), Seq (Call ''Qdb'' []) (K (JBool False))]), Do (Call ''rNb'' [V 4, G ''Src'', Call ''Cfb'' [K (JNum (- 1))]]), Do (Call ''rNb'' [V 4, G ''Rrc'', Call ''Cfb'' [K (JNum (- 1))]]), Do (Put (Dot (Dot (Dot (V 0) ''d'') ''a'') ''c'') ''length'' (K (JNum 0))), Do (SetV 3 (New ''Yr'' [Call ''Dr'' [Meth (Dot (Call ''BYb'' [V 4]) ''a'') ''Jc'' [], New ''Dl'' []]])), Loop (Call ''Wr'' [V 3]) [Do (SetV 2 (Call ''JD'' [Call ''Xr'' [V 3], K (JNum 17)])), Do (Call ''rNb'' [V 2, G ''jrc'', K (JBool False)])] []] []],
    fn ''YJc'' 2 0 [When (Bin Lt (Dot (V 0) ''c'') (Dot (V 1) ''c'')) [Ret (K (JNum (- 1)))] [When (Bin Gt (Dot (V 0) ''c'') (Dot (V 1) ''c'')) [Ret (K (JNum 1))] [When (Bin Lt (Dot (V 0) ''b'') (Dot (V 1) ''b'')) [Ret (K (JNum (- 1)))] [When (Bin Gt (Dot (V 0) ''b'') (Dot (V 1) ''b'')) [Ret (K (JNum 1))] [When (Neg (Loose (Dot (V 0) ''a'') (Dot (V 1) ''a''))) [Ret (Bin Minus (Call ''tb'' [Dot (V 0) ''a'']) (Call ''tb'' [Dot (V 1) ''a'']))] [When (And (Loose (Dot (V 0) ''d'') (Seq (Call ''bKc'' []) (G ''aKc''))) (Loose (Dot (V 1) ''d'') (G ''_Jc''))) [Ret (K (JNum (- 1)))] [When (And (Loose (Dot (V 0) ''d'') (G ''_Jc'')) (Loose (Dot (V 1) ''d'') (G ''aKc''))) [Ret (K (JNum 1))] []]]]]]], Ret (K (JNum 0))],
    fn ''_Mc'' 1 8 [Do (SetV 4 (G ''Cve'')), Do (SetV 3 (G ''Dve'')), Do (SetV 2 (New ''Kmb'' [Dot (Dot (V 0) ''e'') ''b''])), Loop (Bin Lt (Dot (V 2) ''a'') (Dot (Dot (Dot (V 2) ''c'') ''c'') ''length'')) [Do (SetV 1 (Call ''JD'' [Call ''Imb'' [V 2], K (JNum 25)])), Do (SetV 6 (New ''Kmb'' [Dot (V 1) ''a''])), Loop (Bin Lt (Dot (V 6) ''a'') (Dot (Dot (Dot (V 6) ''c'') ''c'') ''length'')) [Do (SetV 5 (Call ''JD'' [Call ''Imb'' [V 6], K (JNum 9)])), Do (SetV 8 (Call ''Ueb'' [Idx (Dot (V 0) ''p'') (Dot (V 5) ''p'')])), Do (SetV 7 (Bin Plus (V 8) (Call ''Ueb'' [Idx (Dot (V 0) ''b'') (Dot (Idx (Dot (V 0) ''g'') (Dot (V 5) ''p'')) ''p'')]))), Do (SetV 4 (Meth (Dot (G ''$wnd'') ''Math'') ''min'' [V 4, V 8])), Do (SetV 3 (Meth (Dot (G ''$wnd'') ''Math'') ''max'' [V 3, V 7]))] []] [], Ret (Bin Minus (V 3) (V 4))],
    fn ''jOc'' 2 5 [Do (SetV 5 (Dot (V 1) ''a'')), Do (Cond (Loose (Dot (Dot (V 5) ''c'') ''i'') (Dot (V 1) ''b'')) (SetV 6 (Dot (V 5) ''d'')) (SetV 6 (Dot (V 5) ''c''))), Do (Cond (Loose (Dot (Dot (V 5) ''c'') ''i'') (Dot (V 1) ''b'')) (SetV 3 (Dot (V 5) ''c'')) (SetV 3 (Dot (V 5) ''d''))), Do (SetV 4 (Call ''WMc'' [Dot (V 0) ''a'', V 6, V 3])), When (And (Bin Gt (V 4) (K (JNum 0))) (Bin Lt (V 4) (G ''tCe''))) [Do (SetV 2 (Call ''XMc'' [Dot (V 0) ''a'', Dot (V 3) ''i'', V 4, Dot (V 0) ''c''])), Do (Call ''aNc'' [Dot (V 0) ''a'', Dot (V 3) ''i'', Minus1 (V 2)]), Ret (Bin Gt (V 2) (K (JNum 0)))] [When (And (Bin Lt (V 4) (K (JNum 0))) (Bin Lt (Minus1 (V 4)) (G ''tCe''))) [Do (SetV 2 (Call ''YMc'' [Dot (V 0) ''a'', Dot (V 3) ''i'', Minus1 (V 4), Dot (V 0) ''c''])), Do (Call ''aNc'' [Dot (V 0) ''a'', Dot (V 3) ''i'', V 2]), Ret (Bin Gt (V 2) (K (JNum 0)))] []], Ret (K (JBool False))],
    fn ''T6c'' 4 8 [Do (SetV 4 (Bin Divide (Bin Minus (V 1) (Dot (V 0) ''d'')) (Dot (Dot (Dot (V 0) ''c'') ''c'') ''length''))), Do (SetV 5 (K (JNum 0))), Do (Put (V 0) ''a'' (Bin Plus (Dot (V 0) ''a'') (V 2))), Do (Put (V 0) ''d'' (V 1)), Do (SetV 11 (New ''Kmb'' [Dot (V 0) ''c''])), Loop (Bin Lt (Dot (V 11) ''a'') (Dot (Dot (Dot (V 11) ''c'') ''c'') ''length'')) [Do (SetV 10 (Call ''JD'' [Call ''Imb'' [V 11], K (JNum 26)])), Do (SetV 9 (Dot (V 10) ''g'')), Do (SetV 8 (Dot (V 10) ''f'')), Do (Call ''_vd'' [V 10, Bin Plus (Dot (V 10) ''i'') (Bin Times (V 5) (V 4))]), Do (Call ''awd'' [V 10, Bin Plus (Dot (V 10) ''j'') (Bin Times (V 3) (V 2))]), Do (Call ''$vd'' [V 10, Bin Plus (Dot (V 10) ''g'') (V 4)]), Do (Call ''Yvd'' [V 10, Dot (V 0) ''a'']), Do (SetV 5 (Bin Minus (V 5) (K (JNum (- 1))))), Do (SetV 7 (Dot (V 10) ''g'')), Do (SetV 6 (Dot (V 10) ''f'')), Do (Call ''jqd'' [V 10, New ''lgd'' [V 7, V 6], New ''lgd'' [V 9, V 8]])] []],
    fn ''Rxd'' 1 7 [When (Loose (V 0) (K JNull)) [Ret (K JNull)] [], Do (SetV 7 (Dot (V 0) ''length'')), Do (SetV 4 (Bin DivInt (Bin Plus (V 7) (K (JNum 1))) (K (JNum 2)))), Do (SetV 6 (Call ''SC'' [G ''$D'', G ''hGe'', K (JNum 30), V 4, K (JNum 15), K (JNum 1)])), Do (And (Neg (Loose (Bin Modulo (V 7) (K (JNum 2))) (K (JNum 0)))) (PutIdx (V 6) (SetV 4 (Bin Minus (V 4) (K (JNum 1)))) (Call ''dyd'' [Seq (Call ''UDb'' [Bin Minus (V 7) (K (JNum 1)), Dot (V 0) ''length'']) (Meth (V 0) ''charCodeAt'' [Bin Minus (V 7) (K (JNum 1))])]))), Do (Seq (SetV 2 (K (JNum 0))) (SetV 3 (K (JNum 0)))), Loop (Bin Lt (V 2) (V 4)) [Do (SetV 1 (Call ''dyd'' [Call ''sgb'' [V 0, Bin Minus (SetV 3 (Bin Minus (V 3) (K (JNum (- 1))))) (K (JNum 1))]])), Do (SetV 5 (Call ''dyd'' [Call ''sgb'' [V 0, Bin Minus (SetV 3 (Bin Minus (V 3) (K (JNum (- 1))))) (K (JNum 1))]])), Do (PutIdx (V 6) (V 2) (Bin Shr (Bin Shl (Bin BitOr (Bin Shl (V 1) (K (JNum 4))) (V 5)) (K (JNum 24))) (K (JNum 24))))] [Do (SetV 2 (Bin Minus (V 2) (K (JNum (- 1)))))], Ret (V 6)],
    fn ''Leb'' 1 3 [When (Meth (V 0) ''xe'' []) [Do (SetV 1 (Dot (V 0) ''c'')), Do (Cond (Meth (V 1) ''ye'' []) (Put (V 0) ''o'' (Bin Plus (K (JStr ''['')) (Dot (V 1) ''n''))) (Cond (Neg (Meth (V 1) ''xe'' [])) (Put (V 0) ''o'' (Bin Plus (Bin Plus (K (JStr ''[L'')) (Meth (V 1) ''ve'' [])) (K (JStr '';'')))) (Put (V 0) ''o'' (Bin Plus (K (JStr ''['')) (Meth (V 1) ''ve'' []))))), Do (Put (V 0) ''b'' (Bin Plus (Meth (V 1) ''ue'' []) (K (JStr ''[]'')))), Do (Put (V 0) ''k'' (Bin Plus (Meth (V 1) ''we'' []) (K (JStr ''[]'')))), Ret (K JUndef)] [], Do (SetV 2 (Dot (V 0) ''j'')), Do (SetV 3 (Dot (V 0) ''d'')), Do (SetV 3 (Meth (V 3) ''split'' [K (JStr ''/'')])), Do (Put (V 0) ''o'' (Call ''Oeb'' [K (JStr ''.''), NewArr [V 2, Call ''Oeb'' [K (JStr ''$''), V 3]]])), Do (Put (V 0) ''b'' (Call ''Oeb'' [K (JStr ''.''), NewArr [V 2, Call ''Oeb'' [K (JStr ''.''), V 3]]])), Do (Put (V 0) ''k'' (Idx (V 3) (Bin Minus (Dot (V 3) ''length'') (K (JNum 1)))))],
    fn ''MGb'' 2 5 [Do (SetV 6 (K JNull)), Do (SetV 5 (New ''Kmb'' [Dot (Dot (V 0) ''e'') ''a''])), Loop (Bin Lt (Dot (V 5) ''a'') (Dot (Dot (Dot (V 5) ''c'') ''c'') ''length'')) [Do (SetV 4 (Call ''JD'' [Call ''Imb'' [V 5], K (JNum 124)])), When (Loose (Dot (Dot (Dot (Dot (V 4) ''b'') ''a'') ''c'') ''length'') (Dot (Dot (Dot (Dot (V 4) ''g'') ''a'') ''c'') ''length'')) [Do (SetV 3 (Dot (V 4) ''e'')), Do (SetV 6 (Call ''XGb'' [V 4])), Do (SetV 2 (Bin Plus (Bin Minus (Dot (V 4) ''e'') (Dot (Call ''JD'' [Dot (V 6) ''a'', K (JNum 15)]) ''a'')) (K (JNum 1)))), Loop (Bin Lt (V 2) (Bin Plus (Dot (V 4) ''e'') (Dot (Call ''JD'' [Dot (V 6) ''b'', K (JNum 15)]) ''a''))) [Do (And (Bin Lt (Idx (V 1) (V 2)) (Idx (V 1) (V 3))) (SetV 3 (V 2)))] [Do (Bin Minus (SetV 2 (Bin Minus (V 2) (K (JNum (- 1))))) (K (JNum 1)))], When (Bin Lt (Idx (V 1) (V 3)) (Idx (V 1) (Dot (V 4) ''e''))) [Do (PutIdx (V 1) (Dot (V 4) ''e'') (Bin Minus (Idx (V 1) (Dot (V 4) ''e'')) (K (JNum 1)))), Do (PutIdx (V 1) (V 3) (Bin Minus (Idx (V 1) (V 3)) (K (JNum (- 1))))), Do (Put (V 4) ''e'' (V 3))] []] []] []],
    fn ''gCd'' 3 8 [Do (SetV 9 (Call ''JD'' [V 2, K (JNum 149)])), Do (SetV 10 (Call ''qBd'' [V 0, V 1])), Do (SetV 5 (K JNull)), Do (SetV 3 (K JNull)), Do (And (Neg (Neg (V 10))) (SetV 3 (Call ''kBd'' [V 0, V 10, Dot (V 1) ''i'']))), When (Neg (Loose (V 3) (K JNull))) [Do (SetV 5 (V 3))] [Do (SetV 7 (Dot (V 1) ''i'')), Do (SetV 5 (V 7))], Do (Call ''MAd'' [V 9, K (JStr ''x''), V 5]), Do (SetV 6 (K JNull)), Do (SetV 4 (K JNull)), Do (And (Neg (Neg (V 10))) (SetV 4 (Call ''lBd'' [V 0, V 10, Dot (V 1) ''j'']))), When (Neg (Loose (V 4) (K JNull))) [Do (SetV 6 (V 4))] [Do (SetV 8 (Dot (V 1) ''j'')), Do (SetV 6 (V 8))], Do (Call ''MAd'' [V 9, K (JStr ''y''), V 6]), Do (Call ''MAd'' [V 9, G ''qGe'', Dot (V 1) ''g'']), Do (Call ''MAd'' [V 9, G ''pGe'', Dot (V 1) ''f''])],
    fn ''AQd'' 1 4 [Do (Call ''tQd'' []), Do (SetV 3 (Call ''Agb'' [V 0, Call ''Pgb'' [K (JNum 35)]])), Do (SetV 1 (Cond (Loose (V 3) (K (JNum (- 1)))) (V 0) (Seq (Call ''TDb'' [K (JNum 0), V 3, Dot (V 0) ''length'']) (Meth (V 0) ''substr'' [K (JNum 0), V 3])))), Do (SetV 2 (Cond (Loose (V 3) (K (JNum (- 1)))) (K JNull) (Seq (Call ''UDb'' [Bin Plus (V 3) (K (JNum 1)), Bin Plus (Dot (V 0) ''length'') (K (JNum 1))]) (Meth (V 0) ''substr'' [Bin Plus (V 3) (K (JNum 1))])))), Do (SetV 4 (Call ''XQd'' [G ''sQd'', V 1])), When (Neg (V 4)) [Do (SetV 4 (Call ''NQd'' [V 1])), Do (Call ''YQd'' [G ''sQd'', V 1, V 4]), Do (And (Neg (Loose (V 2) (K JNull))) (SetV 4 (Call ''uQd'' [V 4, V 2])))] [Do (And (Neg (Loose (V 2) (K JNull))) (SetV 4 (Call ''uQd'' [V 4, Seq (Call ''NDb'' [V 2]) (V 2)])))], Ret (V 4)],
    fn ''cde'' 4 6 [Do (SetV 8 (K JNull)), Do (SetV 4 (Call ''Sce'' [V 0, V 1])), Do (Seq (SetV 7 (K (JNum 0))) (SetV 9 (Meth (V 4) ''gc'' []))), Loop (Bin Lt (V 7) (V 9)) [Do (SetV 5 (Call ''JD'' [Meth (V 4) ''Xb'' [V 7], K (JNum 179)])), When (Call ''vgb'' [V 3, Call ''Nde'' [Call ''bde'' [V 0, V 5]]]) [Do (SetV 6 (Call ''Ode'' [Call ''bde'' [V 0, V 5]])), When (Loose (V 2) (K JNull)) [When (Loose (V 6) (K JNull)) [Ret (V 5)] [Do (And (Neg (V 8)) (SetV 8 (V 5)))]] [When (Call ''vgb'' [V 2, V 6]) [Ret (V 5)] [Do (And (And (Loose (V 6) (K JNull)) (Neg (V 8))) (SetV 8 (V 5)))]]] []] [Do (SetV 7 (Bin Minus (V 7) (K (JNum (- 1)))))], Ret (K JNull)],
    fn ''dde'' 4 6 [Do (SetV 8 (K JNull)), Do (SetV 4 (Call ''Tce'' [V 0, V 1])), Do (Seq (SetV 7 (K (JNum 0))) (SetV 9 (Meth (V 4) ''gc'' []))), Loop (Bin Lt (V 7) (V 9)) [Do (SetV 5 (Call ''JD'' [Meth (V 4) ''Xb'' [V 7], K (JNum 179)])), When (Call ''vgb'' [V 3, Call ''Nde'' [Call ''bde'' [V 0, V 5]]]) [Do (SetV 6 (Call ''Ode'' [Call ''bde'' [V 0, V 5]])), When (Loose (V 2) (K JNull)) [When (Loose (V 6) (K JNull)) [Ret (V 5)] [Do (And (Neg (V 8)) (SetV 8 (V 5)))]] [When (Call ''vgb'' [V 2, V 6]) [Ret (V 5)] [Do (And (And (Loose (V 6) (K JNull)) (Neg (V 8))) (SetV 8 (V 5)))]]] []] [Do (SetV 7 (Bin Minus (V 7) (K (JNum (- 1)))))], Ret (K JNull)],
    fn ''afe'' 3 6 [Do (SetV 6 (New ''nGd'' [])), Do (SetV 7 (Call ''Cie'' [Meth (Dot (V 0) ''e'') ''Ah'' [], V 1])), Do (SetV 3 (Call ''JD'' [Dot (V 0) ''g'', K (JNum 122)])), Do (Call ''Aie'' []), When (Meth (Call ''JD'' [V 1, K (JNum 69)]) ''vk'' []) [Do (SetV 5 (K (JNum 0))), Loop (Bin Lt (V 5) (Dot (V 0) ''i'')) [Do (SetV 4 (Idx (V 3) (V 5))), Do (And (Meth (V 7) ''$l'' [Meth (V 4) ''Jk'' []]) (Call ''lFd'' [V 6, V 4]))] [Do (SetV 5 (Bin Minus (V 5) (K (JNum (- 1)))))]] [Do (SetV 5 (K (JNum 0))), Loop (Bin Lt (V 5) (Dot (V 0) ''i'')) [Do (SetV 4 (Idx (V 3) (V 5))), When (Meth (V 7) ''$l'' [Meth (V 4) ''Jk'' []]) [Do (SetV 8 (Meth (V 4) ''kd'' [])), Do (Call ''lFd'' [V 6, Cond (V 2) (Call ''Oee'' [V 0, V 1, V 5, Dot (V 6) ''i'', V 8]) (V 8)])] []] [Do (SetV 5 (Bin Minus (V 5) (K (JNum (- 1)))))]], Ret (Call ''lGd'' [V 6])]]"

definition code_5395_5413 :: "(string \<times> jfun) list" where
  "code_5395_5413 = [
    fn ''ARb'' 2 8 [Do (SetV 6 (Cond (Loose (V 1) (K (JNum 1))) (G ''qRb'') (G ''pRb''))), Do (SetV 5 (Meth (Meth (Dot (V 6) ''a'') ''ec'' []) ''Jc'' [])), Loop (Meth (V 5) ''Ob'' []) [Do (SetV 4 (Call ''JD'' [Meth (V 5) ''Pb'' [], K (JNum 86)])), Do (SetV 8 (Meth (Call ''JD'' [Call ''Qc'' [Dot (Dot (V 0) ''f'') ''c'', V 4], K (JNum 22)]) ''Jc'' [])), Loop (Meth (V 8) ''Ob'' []) [Do (SetV 7 (Call ''JD'' [Meth (V 8) ''Pb'' [], K (JNum 49)])), Do (SetV 3 (Call ''JD'' [Dot (V 7) ''b'', K (JNum 82)])), Do (SetV 9 (Call ''JD'' [Dot (V 7) ''a'', K (JNum 194)])), Do (SetV 2 (Dot (V 9) ''c'')), Switch (Dot (V 4) ''g'') [(Some (JNum 2), []), (Some (JNum 1), [Do (Put (Dot (V 3) ''g'') ''d'' (Bin Plus (Dot (Dot (V 3) ''g'') ''d'') (V 2))), Break]), (Some (JNum 4), []), (Some (JNum 3), [Do (Put (Dot (V 3) ''g'') ''c'' (Bin Plus (Dot (Dot (V 3) ''g'') ''c'') (V 2)))])]] []] []],
    fn ''Y6b'' 2 5 [Do (SetV 2 (New ''frb'' [G ''SV''])), Do (Seq (Seq (SetV 4 (Seq (Call ''Fnc'' []) (Call ''WC'' [Call ''OC'' [G ''SV'', K (JNum 1)], G ''xue'', K (JNum 231), K (JNum 0), NewArr [G ''Bnc'', G ''Dnc'', G ''Anc'', G ''Cnc'', G ''Enc'', G ''znc'']]))) (SetV 5 (K (JNum 0)))) (SetV 6 (Dot (V 4) ''length''))), Loop (Bin Lt (V 5) (V 6)) [Do (SetV 3 (Idx (V 4) (V 5))), Do (Call ''drb'' [V 2, V 3, New ''lmb'' []])] [Do (SetV 5 (Bin Minus (V 5) (K (JNum (- 1)))))], Do (Call ''YBb'' [Call ''ZBb'' [Call ''VBb'' [Call ''XBb'' [New ''jCb'' [K JNull, New ''Zvb'' [Dot (V 0) ''b'', K (JNum 16)]], New ''m7b'' []], New ''o7b'' []], New ''q7b'' [V 1]], New ''s7b'' [V 2]]), Ret (V 2)],
    fn ''Acc'' 2 3 [Do (SetV 2 (K (JNum 1))), Loop (Bin Lt (V 2) (Dot (Dot (V 0) ''c'') ''length'')) [Do (SetV 4 (Seq (Call ''MDb'' [V 2, Dot (Dot (V 0) ''c'') ''length'']) (Call ''JD'' [Idx (Dot (V 0) ''c'') (V 2), K (JNum 9)]))), Do (SetV 3 (V 2)), Loop (And (Bin Gt (V 3) (K (JNum 0))) (Bin Gt (Call ''tlc'' [V 1, Seq (Call ''MDb'' [Bin Minus (V 3) (K (JNum 1)), Dot (Dot (V 0) ''c'') ''length'']) (Call ''JD'' [Idx (Dot (V 0) ''c'') (Bin Minus (V 3) (K (JNum 1))), K (JNum 9)]), V 4]) (K (JNum 0)))) [Do (Call ''imb'' [V 0, V 3, Seq (Call ''MDb'' [Bin Minus (V 3) (K (JNum 1)), Dot (Dot (V 0) ''c'') ''length'']) (Call ''JD'' [Idx (Dot (V 0) ''c'') (Bin Minus (V 3) (K (JNum 1))), K (JNum 9)])]), Do (SetV 3 (Bin Minus (V 3) (K (JNum 1))))] [], Do (Call ''MDb'' [V 3, Dot (Dot (V 0) ''c'') ''length'']), Do (PutIdx (Dot (V 0) ''c'') (V 3) (V 4))] [Do (Bin Minus (SetV 2 (Bin Minus (V 2) (K (JNum (- 1))))) (K (JNum 1)))], Do (Put (V 1) ''b'' (New ''_rb'' [])), Do (Put (V 1) ''g'' (New ''_rb'' []))],
    fn ''fIc'' 3 3 [Do (SetV 3 (K (JNum 1))), Loop (Bin Lt (V 3) (Dot (Dot (V 0) ''c'') ''length'')) [Do (SetV 5 (Seq (Call ''MDb'' [V 3, Dot (Dot (V 0) ''c'') ''length'']) (Call ''JD'' [Idx (Dot (V 0) ''c'') (V 3), K (JNum 9)]))), Do (SetV 4 (V 3)), Loop (And (Bin Gt (V 4) (K (JNum 0))) (Bin Gt (Meth (V 1) ''Le'' [Seq (Call ''MDb'' [Bin Minus (V 4) (K (JNum 1)), Dot (Dot (V 0) ''c'') ''length'']) (Call ''JD'' [Idx (Dot (V 0) ''c'') (Bin Minus (V 4) (K (JNum 1))), K (JNum 9)]), V 5]) (K (JNum 0)))) [Do (Call ''imb'' [V 0, V 4, Seq (Call ''MDb'' [Bin Minus (V 4) (K (JNum 1)), Dot (Dot (V 0) ''c'') ''length'']) (Call ''JD'' [Idx (Dot (V 0) ''c'') (Bin Minus (V 4) (K (JNum 1))), K (JNum 9)])]), Do (SetV 4 (Bin Minus (V 4) (K (JNum 1))))] [], Do (Call ''MDb'' [V 4, Dot (Dot (V 0) ''c'') ''length'']), Do (PutIdx (Dot (V 0) ''c'') (V 4) (V 5))] [Do (Bin Minus (SetV 3 (Bin Minus (V 3) (K (JNum (- 1))))) (K (JNum 1)))], Do (Put (V 2) ''a'' (New ''_rb'' [])), Do (Put (V 2) ''b'' (New ''_rb'' []))],
    fn ''Y_c'' 3 10 [Do (SetV 5 (Meth (V 1) ''Jc'' [])), Loop (Meth (V 5) ''Ob'' []) [Do (SetV 4 (Call ''JD'' [Meth (V 5) ''Pb'' [], K (JNum 26)])), Do (SetV 10 (Bin Plus (Dot (V 4) ''i'') (Bin Divide (Dot (V 4) ''g'') (K (JNum 2))))), Do (SetV 12 (Bin Plus (Dot (V 4) ''j'') (Bin Divide (Dot (V 4) ''f'') (K (JNum 2))))), Do (SetV 8 (Dot (V 0) ''f'')), Do (SetV 6 (Bin Plus (Dot (V 8) ''i'') (Bin Divide (Dot (V 8) ''g'') (K (JNum 2))))), Do (SetV 7 (Bin Plus (Dot (V 8) ''j'') (Bin Divide (Dot (V 8) ''f'') (K (JNum 2))))), Do (SetV 9 (Bin Minus (V 10) (V 6))), Do (SetV 11 (Bin Minus (V 12) (V 7))), Do (SetV 3 (Meth (Dot (G ''$wnd'') ''Math'') ''sqrt'' [Bin Plus (Bin Times (V 9) (V 9)) (Bin Times (V 11) (V 11))])), Do (SetV 9 (Bin Times (V 9) (Bin Divide (Dot (V 0) ''e'') (V 3)))), Do (SetV 11 (Bin Times (V 11) (Bin Divide (Dot (V 0) ''e'') (V 3)))), When (V 2) [Do (SetV 10 (Bin Minus (V 10) (V 9))), Do (SetV 12 (Bin Minus (V 12) (V 11)))] [Do (SetV 10 (Bin Plus (V 10) (V 9))), Do (SetV 12 (Bin Plus (V 12) (V 11)))], Do (Call ''_vd'' [V 4, Bin Minus (V 10) (Bin Divide (Dot (V 4) ''g'') (K (JNum 2)))]), Do (Call ''awd'' [V 4, Bin Minus (V 12) (Bin Divide (Dot (V 4) ''f'') (K (JNum 2)))])] []],
    fn ''Ire'' 1 3 [When (Dot (V 0) ''c'') [Ret (K JUndef)] [], When (Loose (Dot (V 0) ''b'') (K JNull)) [Ret (K JUndef)] [], Do (SetV 1 (Bin Minus (Dot (Dot (V 0) ''b'') ''length'') (K (JNum 4)))), Loop (Bin Ge (V 1) (K (JNum 0))) [Do (SetV 2 (K (JNum 0))), Loop (Bin Le (V 2) (V 1)) [When (Or (Bin Gt (Idx (Dot (V 0) ''b'') (V 2)) (Idx (Dot (V 0) ''b'') (Bin Plus (V 2) (K (JNum 2))))) (And (Same (Idx (Dot (V 0) ''b'') (V 2)) (Idx (Dot (V 0) ''b'') (Bin Plus (V 2) (K (JNum 2))))) (Bin Gt (Idx (Dot (V 0) ''b'') (Bin Plus (V 2) (K (JNum 1)))) (Idx (Dot (V 0) ''b'') (Bin Plus (V 2) (K (JNum 3))))))) [Do (SetV 3 (Idx (Dot (V 0) ''b'') (Bin Plus (V 2) (K (JNum 2))))), Do (PutIdx (Dot (V 0) ''b'') (Bin Plus (V 2) (K (JNum 2))) (Idx (Dot (V 0) ''b'') (V 2))), Do (PutIdx (Dot (V 0) ''b'') (V 2) (V 3)), Do (SetV 3 (Idx (Dot (V 0) ''b'') (Bin Plus (V 2) (K (JNum 3))))), Do (PutIdx (Dot (V 0) ''b'') (Bin Plus (V 2) (K (JNum 3))) (Idx (Dot (V 0) ''b'') (Bin Plus (V 2) (K (JNum 1))))), Do (PutIdx (Dot (V 0) ''b'') (Bin Plus (V 2) (K (JNum 1))) (V 3))] []] [Do (SetV 2 (Bin Plus (V 2) (K (JNum 2))))]] [Do (SetV 1 (Bin Minus (V 1) (K (JNum 2))))], Do (Put (V 0) ''c'' (K (JBool True)))],
    fn ''ytd'' 1 2 [Do (SetV 2 (New ''nhb'' [Call ''xeb'' [Dot (V 0) ''Pm'']])), Do (Put (V 2) ''a'' (Bin Plus (Dot (V 2) ''a'') (K (JStr ''@'')))), Do (Call ''hhb'' [V 2, Seq (SetV 1 (Bin Ushr (Call ''tb'' [V 0]) (K (JNum 0)))) (Meth (V 1) ''toString'' [K (JNum 16)])]), When (Meth (V 0) ''Sh'' []) [Do (Put (V 2) ''a'' (Bin Plus (Dot (V 2) ''a'') (K (JStr '' (eProxyURI: '')))), Do (Call ''ghb'' [V 2, Meth (V 0) ''Yh'' []]), When (Meth (V 0) ''Hh'' []) [Do (Put (V 2) ''a'' (Bin Plus (Dot (V 2) ''a'') (K (JStr '' eClass: '')))), Do (Call ''ghb'' [V 2, Meth (V 0) ''Hh'' []])] [], Do (Put (V 2) ''a'' (Bin Plus (Dot (V 2) ''a'') (K (JStr '')''))))] [When (Meth (V 0) ''Hh'' []) [Do (Put (V 2) ''a'' (Bin Plus (Dot (V 2) ''a'') (K (JStr '' (eClass: '')))), Do (Call ''ghb'' [V 2, Meth (V 0) ''Hh'' []]), Do (Put (V 2) ''a'' (Bin Plus (Dot (V 2) ''a'') (K (JStr '')''))))] []], Ret (Dot (V 2) ''a'')],
    fn ''bFb'' 1 4 [When (Dot (V 0) ''e'') [Raise (Call ''Lcb'' [New ''nfb'' [Seq (Call ''veb'' [G ''PM'']) (Bin Plus (Bin Plus (G ''zwe'') (Dot (G ''PM'') ''k'')) (G ''Awe''))]])] [], Do (And (Loose (Dot (V 0) ''d'') (Seq (Call ''Djd'' []) (G ''Bjd''))) (Call ''aFb'' [V 0, G ''zjd''])), Do (SetV 2 (New ''Kmb'' [Dot (Dot (V 0) ''a'') ''a''])), Loop (Bin Lt (Dot (V 2) ''a'') (Dot (Dot (Dot (V 2) ''c'') ''c'') ''length'')) [Do (SetV 1 (Call ''JD'' [Call ''Imb'' [V 2], K (JNum 321)])), Do (Put (V 1) ''g'' (Dot (V 1) ''i''))] [], Do (SetV 4 (New ''Kmb'' [Dot (Dot (V 0) ''a'') ''b''])), Loop (Bin Lt (Dot (V 4) ''a'') (Dot (Dot (Dot (V 4) ''c'') ''c'') ''length'')) [Do (SetV 3 (Call ''JD'' [Call ''Imb'' [V 4], K (JNum 60)])), Do (Put (V 3) ''i'' (G ''Dve''))] [], Do (Meth (Dot (V 0) ''b'') ''af'' [V 0]), Ret (V 0)],
    fn ''B7b'' 2 9 [Do (SetV 8 (Call ''Xu'' [Bin BitAnd (Bin Minus (Dot (V 0) ''c'') (Dot (V 0) ''b'')) (Bin Minus (Dot (Dot (V 0) ''a'') ''length'') (K (JNum 1)))])), Do (SetV 9 (K JNull)), Do (SetV 10 (K JNull)), Do (SetV 5 (New ''Ulb'' [V 0])), Loop (Neg (Loose (Dot (V 5) ''a'') (Dot (V 5) ''b''))) [Do (SetV 4 (Call ''JD'' [Call ''Slb'' [V 5], K (JNum 9)])), Do (SetV 2 (Seq (SetV 7 (Call ''JD'' [Call ''oNb'' [V 4, Seq (Call ''Wrc'' []) (G ''nrc'')], K (JNum 12)])) (Cond (Neg (V 7)) (K JNull) (Dot (V 7) ''i'')))), Do (SetV 3 (Seq (SetV 6 (Call ''JD'' [Call ''oNb'' [V 4, G ''orc''], K (JNum 12)])) (Cond (Neg (V 6)) (K JNull) (Dot (V 6) ''i'')))), When (Or (Neg (Loose (V 9) (V 2))) (Neg (Loose (V 10) (V 3)))) [Do (Call ''F7b'' [V 8, V 1]), Do (SetV 9 (V 2)), Do (SetV 10 (V 3))] [], Do (Call ''qDb'' [Dot (V 8) ''c'', V 4])] [], Do (Call ''F7b'' [V 8, V 1])],
    fn ''Ync'' 1 0 [Switch (Dot (V 0) ''g'') [(Some (JNum 0), [Ret (New ''ZGc'' [Seq (Call ''kHc'' []) (G ''gHc'')])]), (Some (JNum 1), [Ret (New ''ZGc'' [Seq (Call ''kHc'' []) (G ''hHc'')])]), (Some (JNum 2), [Ret (New ''uGc'' [])]), (Some (JNum 3), [Ret (New ''oIc'' [])]), (None, [Raise (Call ''Lcb'' [New ''kfb'' [Bin Plus (K (JStr ''No implementation is available for the crossing minimizer '')) (Cond (Neg (Loose (Dot (V 0) ''f'') (K JNull))) (Dot (V 0) ''f'') (Bin Plus (K (JStr '''')) (Dot (V 0) ''g'')))]])])]],
    fn ''aRc'' 2 5 [When (Bin Lt (V 1) (Bin Times (K (JNum 2)) (Dot (V 0) ''b''))) [Raise (Call ''Lcb'' [New ''kfb'' [K (JStr ''The knot vector must have at least two time the dimension elements.'')]])] [], Do (Put (V 0) ''f'' (K (JNum 1))), Do (SetV 4 (K (JNum 0))), Loop (Bin Lt (V 4) (Dot (V 0) ''b'')) [Do (Call ''_lb'' [Dot (V 0) ''e'', K (JNum 0)])] [Do (Bin Minus (SetV 4 (Bin Minus (V 4) (K (JNum (- 1))))) (K (JNum 1)))], Do (SetV 6 (Bin Minus (Bin Plus (V 1) (K (JNum 1))) (Bin Times (K (JNum 2)) (Dot (V 0) ''b'')))), Do (SetV 2 (V 6)), Do (SetV 5 (K (JNum 1))), Loop (Bin Lt (V 5) (V 6)) [Do (Call ''_lb'' [Dot (V 0) ''e'', Bin Divide (V 5) (V 2)])] [Do (Bin Minus (SetV 5 (Bin Minus (V 5) (K (JNum (- 1))))) (K (JNum 1)))], When (Dot (V 0) ''d'') [Do (SetV 3 (K (JNum 0))), Loop (Bin Lt (V 3) (Dot (V 0) ''b'')) [Do (Call ''_lb'' [Dot (V 0) ''e'', K (JNum 1)])] [Do (Bin Minus (SetV 3 (Bin Minus (V 3) (K (JNum (- 1))))) (K (JNum 1)))]] []],
    fn ''kCd'' 2 9 [Do (SetV 9 (V 1)), Do (SetV 10 (Call ''JD'' [Call ''fp'' [Call ''wo'' [Dot (V 0) ''o''], V 9], K (JNum 26)])), When (Neg (V 10)) [Do (SetV 4 (Call ''VAd'' [V 9, G ''FGe''])), Do (SetV 7 (Bin Plus (K (JStr (''Unable to find elk node for json object '' @ CHR 0x27 # ''''))) (V 4))), Do (SetV 8 (Bin Plus (V 7) (K (JStr (CHR 0x27 # '' Panic!''))))), Raise (Call ''Lcb'' [New ''YAd'' [V 8]])] [], Do (SetV 5 (Call ''SAd'' [V 9, K (JStr ''edges'')])), Do (SetV 2 (New ''vCd'' [V 0, V 10])), Do (Call ''sBd'' [Dot (V 2) ''a'', Dot (V 2) ''b'', V 5]), Do (SetV 6 (Call ''SAd'' [V 9, G ''tGe''])), Do (SetV 3 (New ''RCd'' [V 0])), Do (Call ''DBd'' [Dot (V 3) ''a'', V 6])],
    fn ''mMd'' 4 5 [When (Neg (Loose (V 3) (K JNull))) [Do (SetV 4 (Idx (Dot (V 0) ''d'') (V 1))), When (V 4) [Do (SetV 5 (Dot (V 4) ''g'')), Do (SetV 8 (Dot (V 4) ''i'')), Do (SetV 7 (K (JNum 0))), Loop (Bin Lt (V 7) (V 8)) [Do (SetV 6 (Call ''JD'' [Idx (V 5) (V 7), K (JNum 136)])), When (And (Loose (Meth (V 6) ''yi'' []) (V 2)) (Call ''pb'' [V 3, Meth (V 6) ''jd'' []])) [Ret (V 7)] []] [Do (SetV 7 (Bin Minus (V 7) (K (JNum (- 1)))))]] []] [Do (SetV 4 (Idx (Dot (V 0) ''d'') (V 1))), When (V 4) [Do (SetV 5 (Dot (V 4) ''g'')), Do (SetV 8 (Dot (V 4) ''i'')), Do (SetV 7 (K (JNum 0))), Loop (Bin Lt (V 7) (V 8)) [Do (SetV 6 (Call ''JD'' [Idx (V 5) (V 7), K (JNum 136)])), When (Same (Call ''XD'' [Meth (V 6) ''jd'' []]) (Call ''XD'' [V 3])) [Ret (V 7)] []] [Do (SetV 7 (Bin Minus (V 7) (K (JNum (- 1)))))]] []], Ret (K (JNum (- 1)))],
    fn ''$3d'' 2 3 [Do (SetV 2 (Cond (Loose (V 1) (K JNull)) (Call ''Wd'' [Call ''ysb'' [Dot (V 0) ''f'', K JNull]]) (Call ''Ssb'' [Dot (V 0) ''i'', V 1]))), When (Call ''RD'' [V 2, K (JNum 241)]) [Do (SetV 4 (Call ''JD'' [V 2, K (JNum 241)])), Do (And (Loose (Meth (V 4) ''wi'' []) (K JNull)) (K JUndef)), Ret (V 4)] [When (Call ''RD'' [V 2, K (JNum 493)]) [Do (SetV 3 (Call ''JD'' [V 2, K (JNum 2002)])), Do (SetV 4 (Dot (V 3) ''a'')), Do (And (Neg (Neg (V 4))) (Cond (Loose (Dot (V 4) ''yb'') (K JNull)) (K JUndef) (Cond (Loose (V 1) (K JNull)) (Call ''zsb'' [Dot (V 0) ''f'', K JNull, V 4]) (Call ''Tsb'' [Dot (V 0) ''i'', V 1, V 4])))), Ret (V 4)] [Ret (K JNull)]]],
    fn ''Uoe'' 1 7 [Do (Call ''Toe'' []), When (Loose (V 0) (K JNull)) [Ret (K JNull)] [], Do (SetV 4 (Dot (V 0) ''length'')), When (Neg (Loose (Bin Modulo (V 4) (K (JNum 2))) (K (JNum 0)))) [Ret (K JNull)] [], Do (SetV 1 (Call ''Kgb'' [V 0])), Do (SetV 5 (Bin DivInt (V 4) (K (JNum 2)))), Do (SetV 2 (Call ''SC'' [G ''$D'', G ''hGe'', K (JNum 30), V 5, K (JNum 15), K (JNum 1)])), Do (SetV 3 (K (JNum 0))), Loop (Bin Lt (V 3) (V 5)) [Do (SetV 6 (Idx (G ''Roe'') (Idx (V 1) (Bin Times (V 3) (K (JNum 2)))))), When (Loose (V 6) (K (JNum (- 1)))) [Ret (K JNull)] [], Do (SetV 7 (Idx (G ''Roe'') (Idx (V 1) (Bin Plus (Bin Times (V 3) (K (JNum 2))) (K (JNum 1)))))), When (Loose (V 7) (K (JNum (- 1)))) [Ret (K JNull)] [], Do (PutIdx (V 2) (V 3) (Bin Shr (Bin Shl (Bin BitOr (Bin Shl (V 6) (K (JNum 4))) (V 7)) (K (JNum 24))) (K (JNum 24))))] [Do (Bin Minus (SetV 3 (Bin Minus (V 3) (K (JNum (- 1))))) (K (JNum 1)))], Ret (V 2)],
    fn ''HKb'' 3 3 [Do (SetV 4 (Call ''JD'' [Call ''brb'' [Dot (V 0) ''i'', V 1], K (JNum 319)])), When (Neg (V 4)) [Do (SetV 4 (New ''xIb'' [Dot (V 0) ''d'', V 1, V 2])), Do (Call ''crb'' [Dot (V 0) ''i'', V 1, V 4]), When (Call ''OJb'' [V 1]) [Do (Call ''YHb'' [Dot (V 0) ''a'', Dot (V 1) ''c'', Dot (V 1) ''b'', V 4])] [Do (SetV 5 (Call ''NJb'' [V 1])), Do (SetV 3 (Call ''JD'' [Call ''brb'' [Dot (V 0) ''p'', V 5], K (JNum 253)])), Switch (Dot (V 5) ''g'') [(Some (JNum 1), []), (Some (JNum 3), [Do (Put (V 4) ''j'' (K (JBool True))), Do (Call ''HIb'' [V 3, Dot (V 1) ''b'', V 4]), Break]), (Some (JNum 4), []), (Some (JNum 2), [Do (Put (V 4) ''k'' (K (JBool True))), Do (Call ''HIb'' [V 3, Dot (V 1) ''c'', V 4])])]]] [], Ret (V 4)],
    fn ''cfe'' 4 6 [Do (SetV 7 (New ''nGd'' [])), Do (SetV 8 (Call ''Cie'' [Meth (Dot (V 0) ''e'') ''Ah'' [], V 1])), Do (SetV 4 (Call ''JD'' [Dot (V 0) ''g'', K (JNum 122)])), Do (Call ''Aie'' []), When (Meth (Call ''JD'' [V 1, K (JNum 69)]) ''vk'' []) [Do (SetV 6 (K (JNum 0))), Loop (Bin Lt (V 6) (Dot (V 0) ''i'')) [Do (SetV 5 (Idx (V 4) (V 6))), Do (And (Meth (V 8) ''$l'' [Meth (V 5) ''Jk'' []]) (Call ''lFd'' [V 7, V 5]))] [Do (SetV 6 (Bin Minus (V 6) (K (JNum (- 1)))))]] [Do (SetV 6 (K (JNum 0))), Loop (Bin Lt (V 6) (Dot (V 0) ''i'')) [Do (SetV 5 (Idx (V 4) (V 6))), When (Meth (V 8) ''$l'' [Meth (V 5) ''Jk'' []]) [Do (SetV 9 (Meth (V 5) ''kd'' [])), Do (Call ''lFd'' [V 7, Cond (V 3) (Call ''Oee'' [V 0, V 1, V 6, Dot (V 7) ''i'', V 9]) (V 9)])] []] [Do (SetV 6 (Bin Minus (V 6) (K (JNum (- 1)))))]], Ret (Call ''mGd'' [V 7, V 2])],
    fn ''IDc'' 2 8 [Do (SetV 4 (Idx (Dot (V 0) ''b'') (Dot (V 1) ''p''))), When (Bin Ge (V 4) (K (JNum 0))) [Ret (V 4)] [Do (SetV 5 (K (JNum 1))), Do (SetV 7 (New ''Kmb'' [Dot (V 1) ''j''])), Loop (Bin Lt (Dot (V 7) ''a'') (Dot (Dot (Dot (V 7) ''c'') ''c'') ''length'')) [Do (SetV 6 (Call ''JD'' [Call ''Imb'' [V 7], K (JNum 12)])), Do (SetV 3 (New ''Kmb'' [Dot (V 6) ''g''])), Loop (Bin Lt (Dot (V 3) ''a'') (Dot (Dot (Dot (V 3) ''c'') ''c'') ''length'')) [Do (SetV 2 (Call ''JD'' [Call ''Imb'' [V 3], K (JNum 17)])), Do (SetV 9 (Dot (Dot (V 2) ''d'') ''i'')), When (Neg (Loose (V 1) (V 9))) [Do (SetV 8 (Call ''IDc'' [V 0, V 9])), Do (SetV 5 (Meth (Dot (G ''$wnd'') ''Math'') ''max'' [V 5, Bin Plus (V 8) (K (JNum 1))]))] []] []] [], Do (Call ''HDc'' [V 0, V 1, V 5]), Ret (V 5)]],
    fn ''QDc'' 2 8 [Do (SetV 4 (Idx (Dot (V 0) ''b'') (Dot (V 1) ''p''))), When (Bin Ge (V 4) (K (JNum 0))) [Ret (V 4)] [Do (SetV 5 (K (JNum 1))), Do (SetV 7 (New ''Kmb'' [Dot (V 1) ''j''])), Loop (Bin Lt (Dot (V 7) ''a'') (Dot (Dot (Dot (V 7) ''c'') ''c'') ''length'')) [Do (SetV 6 (Call ''JD'' [Call ''Imb'' [V 7], K (JNum 12)])), Do (SetV 3 (New ''Kmb'' [Dot (V 6) ''e''])), Loop (Bin Lt (Dot (V 3) ''a'') (Dot (Dot (Dot (V 3) ''c'') ''c'') ''length'')) [Do (SetV 2 (Call ''JD'' [Call ''Imb'' [V 3], K (JNum 17)])), Do (SetV 9 (Dot (Dot (V 2) ''c'') ''i'')), When (Neg (Loose (V 1) (V 9))) [Do (SetV 8 (Call ''QDc'' [V 0, V 9])), Do (SetV 5 (Meth (Dot (G ''$wnd'') ''Math'') ''max'' [V 5, Bin Plus (V 8) (K (JNum 1))]))] []] []] [], Do (Call ''PDc'' [V 0, V 1, V 5]), Ret (V 5)]]]"

definition code_5416_5420 :: "(string \<times> jfun) list" where
  "code_5416_5420 = [
    fn ''M7b'' 3 2 [When (Loose (Bin BitAnd (Bin Minus (Dot (V 0) ''c'') (Dot (V 0) ''b'')) (Bin Minus (Dot (Dot (V 0) ''a'') ''length'') (K (JNum 1)))) (K (JNum 2))) [When (Or (Loose (V 1) (Seq (Call ''Bmd'' []) (G ''hmd''))) (Loose (V 1) (G ''gmd''))) [Do (Call ''C7b'' [Call ''JD'' [Call ''ylb'' [V 0], K (JNum 16)], Seq (Call ''$kd'' []) (G ''Wkd'')]), Do (Call ''C7b'' [Call ''JD'' [Call ''ylb'' [V 0], K (JNum 16)], G ''Xkd''])] [Do (Call ''C7b'' [Call ''JD'' [Call ''ylb'' [V 0], K (JNum 16)], Seq (Call ''$kd'' []) (G ''Xkd'')]), Do (Call ''C7b'' [Call ''JD'' [Call ''ylb'' [V 0], K (JNum 16)], G ''Wkd''])]] [Do (SetV 4 (New ''Ulb'' [V 0])), Loop (Neg (Loose (Dot (V 4) ''a'') (Dot (V 4) ''b''))) [Do (SetV 3 (Call ''JD'' [Call ''Slb'' [V 4], K (JNum 16)])), Do (Call ''C7b'' [V 3, V 2])] []]],
    fn ''HGc'' 3 9 [Do (SetV 10 (K (JNum (- 1)))), Do (SetV 11 (K (JNum 0))), Do (Seq (Seq (SetV 7 (V 1)) (SetV 8 (K (JNum 0)))) (SetV 9 (Dot (V 7) ''length''))), Loop (Bin Lt (V 8) (V 9)) [Do (SetV 6 (Idx (V 7) (V 8))), Do (SetV 3 (New ''zlc'' [V 0, Cond (Loose (V 10) (K (JNum (- 1)))) (Idx (V 1) (K (JNum 0))) (Idx (V 1) (V 10)), V 2, Seq (Call ''azc'' []) (G ''_yc'')])), Do (SetV 4 (K (JNum 0))), Loop (Bin Lt (V 4) (Dot (V 6) ''length'')) [Do (SetV 5 (Bin Plus (V 4) (K (JNum 1)))), Loop (Bin Lt (V 5) (Dot (V 6) ''length'')) [Do (And (And (And (Call ''pNb'' [Idx (V 6) (V 4), Seq (Call ''Wrc'' []) (G ''trc'')]) (Call ''pNb'' [Idx (V 6) (V 5), G ''trc''])) (Bin Gt (Call ''tlc'' [V 3, Idx (V 6) (V 4), Idx (V 6) (V 5)]) (K (JNum 0)))) (SetV 11 (Bin Minus (V 11) (K (JNum (- 1))))))] [Do (Bin Minus (SetV 5 (Bin Minus (V 5) (K (JNum (- 1))))) (K (JNum 1)))]] [Do (Bin Minus (SetV 4 (Bin Minus (V 4) (K (JNum (- 1))))) (K (JNum 1)))], Do (SetV 10 (Bin Minus (V 10) (K (JNum (- 1)))))] [Do (SetV 8 (Bin Minus (V 8) (K (JNum (- 1)))))], Ret (V 11)],
    fn ''$Ed'' 2 7 [Do (SetV 4 (Call ''Vu'' [New ''fFd'' [V 0]])), Do (SetV 7 (New ''Tjb'' [V 4, Dot (Dot (V 4) ''c'') ''length''])), Do (SetV 5 (Call ''Vu'' [New ''fFd'' [V 1]])), Do (SetV 8 (New ''Tjb'' [V 5, Dot (Dot (V 5) ''c'') ''length''])), Do (SetV 6 (K JNull)), Loop (And (Bin Gt (Dot (V 7) ''b'') (K (JNum 0))) (Bin Gt (Dot (V 8) ''b'') (K (JNum 0)))) [Do (SetV 2 (Seq (Call ''LDb'' [Bin Gt (Dot (V 7) ''b'') (K (JNum 0))]) (Call ''JD'' [Meth (Dot (V 7) ''a'') ''Xb'' [Put (V 7) ''c'' (Put (V 7) ''b'' (Bin Minus (Dot (V 7) ''b'') (K (JNum 1))))], K (JNum 26)]))), Do (SetV 3 (Seq (Call ''LDb'' [Bin Gt (Dot (V 8) ''b'') (K (JNum 0))]) (Call ''JD'' [Meth (Dot (V 8) ''a'') ''Xb'' [Put (V 8) ''c'' (Put (V 8) ''b'' (Bin Minus (Dot (V 8) ''b'') (K (JNum 1))))], K (JNum 26)]))), When (Loose (V 2) (V 3)) [Do (SetV 6 (V 2))] [Break]] [], Ret (V 6)],
    fn ''Mbc'' 2 4 [Do (Meth (V 1) ''Tg'' [K (JStr ''Self-Loop pre-processing''), K (JNum 1)]), Do (SetV 3 (New ''Kmb'' [Dot (V 0) ''a''])), Loop (Bin Lt (Dot (V 3) ''a'') (Dot (Dot (Dot (V 3) ''c'') ''c'') ''length'')) [Do (SetV 2 (Call ''JD'' [Call ''Imb'' [V 3], K (JNum 9)])), When (Call ''Bhc'' [V 2]) [Do (SetV 4 (Seq (Seq (Seq (SetV 5 (New ''Ahc'' [V 2])) (Call ''rNb'' [V 2, Seq (Call ''Wrc'' []) (G ''Jrc''), V 5])) (Call ''xhc'' [V 5])) (V 5))), Do (Call ''YBb'' [Call ''ZBb'' [Call ''XBb'' [New ''jCb'' [K JNull, New ''Zvb'' [Dot (V 4) ''d'', K (JNum 16)]], New ''Pbc'' []], New ''Rbc'' []], New ''Tbc'' []]), Do (Call ''Kbc'' [V 4])] []] [], Do (Meth (V 1) ''Ug'' [])],
    fn ''Ogc'' 3 4 [When (Bin Gt (Call ''Sgc'' [V 0, V 1]) (Call ''Sgc'' [V 0, V 2])) [Do (SetV 3 (Call ''IYb'' [V 2, Seq (Call ''Bmd'' []) (G ''gmd'')])), Do (Put (V 0) ''d'' (Cond (Meth (V 3) ''dc'' []) (K (JNum 0)) (Call ''sZb'' [Call ''JD'' [Meth (V 3) ''Xb'' [K (JNum 0)], K (JNum 12)]]))), Do (SetV 6 (Call ''IYb'' [V 1, G ''Amd''])), Do (Put (V 0) ''b'' (Cond (Meth (V 6) ''dc'' []) (K (JNum 0)) (Call ''sZb'' [Call ''JD'' [Meth (V 6) ''Xb'' [K (JNum 0)], K (JNum 12)]])))] [Do (SetV 4 (Call ''IYb'' [V 2, Seq (Call ''Bmd'' []) (G ''Amd'')])), Do (Put (V 0) ''d'' (Cond (Meth (V 4) ''dc'' []) (K (JNum 0)) (Call ''sZb'' [Call ''JD'' [Meth (V 4) ''Xb'' [K (JNum 0)], K (JNum 12)]]))), Do (SetV 5 (Call ''IYb'' [V 1, G ''gmd''])), Do (Put (V 0) ''b'' (Cond (Meth (V 5) ''dc'' []) (K (JNum 0)) (Call ''sZb'' [Call ''JD'' [Meth (V 5) ''Xb'' [K (JNum 0)], K (JNum 12)]])))]]]"

definition code_5423_5427 :: "(string \<times> jfun) list" where
  "code_5423_5427 = [
    fn ''_Kb'' 2 4 [Do (SetV 2 (Dot (Dot (V 0) ''o'') ''a'')), Do (SetV 5 (Meth (Call ''JD'' [Call ''JD'' [Call ''Qc'' [Dot (V 0) ''r'', V 1], K (JNum 22)], K (JNum 83)]) ''Jc'' [])), Loop (Meth (V 5) ''Ob'' []) [Do (SetV 4 (Call ''JD'' [Meth (V 5) ''Pb'' [], K (JNum 115)])), Do (Put (Dot (V 4) ''e'') ''a'' (Bin Times (V 2) (Call ''Ueb'' [Call ''MD'' [Meth (Dot (V 4) ''b'') ''mf'' [G ''XKb'']]]))), Do (Put (Dot (V 4) ''e'') ''b'' (Seq (SetV 3 (Dot (V 4) ''b'')) (Cond (Meth (V 3) ''nf'' [Seq (Call ''vjd'' []) (G ''Eid'')]) (Cond (Loose (Meth (V 3) ''$f'' []) (Seq (Call ''Bmd'' []) (G ''hmd''))) (Bin Minus (Minus1 (Dot (Meth (V 3) ''Kf'' []) ''b'')) (Call ''Ueb'' [Call ''MD'' [Meth (V 3) ''mf'' [G ''Eid'']]])) (Call ''Ueb'' [Call ''MD'' [Meth (V 3) ''mf'' [G ''Eid'']]])) (Cond (Loose (Meth (V 3) ''$f'' []) (Seq (Call ''Bmd'' []) (G ''hmd''))) (Minus1 (Dot (Meth (V 3) ''Kf'' []) ''b'')) (K (JNum 0))))))] []],
    fn ''XPc'' 3 6 [Do (SetV 5 (K (JNum (- 1)))), Do (SetV 7 (K (JNum (- 1)))), Do (SetV 6 (K (JNum 0))), Loop (Bin Lt (V 6) (Dot (Dot (V 1) ''c'') ''length'')) [Do (SetV 4 (Seq (Call ''MDb'' [V 6, Dot (Dot (V 1) ''c'') ''length'']) (Call ''JD'' [Idx (Dot (V 1) ''c'') (V 6), K (JNum 340)]))), When (Bin Gt (Dot (V 4) ''c'') (Dot (V 0) ''c'')) [Break] [When (Bin Ge (Dot (V 4) ''a'') (Dot (V 0) ''s'')) [Do (And (Bin Lt (V 5) (K (JNum 0))) (SetV 5 (V 6))), Do (SetV 7 (V 6))] []]] [Do (Bin Minus (SetV 6 (Bin Minus (V 6) (K (JNum (- 1))))) (K (JNum 1)))], Do (SetV 8 (Bin Divide (Bin Plus (Dot (V 0) ''s'') (Dot (V 0) ''c'')) (K (JNum 2)))), When (Bin Ge (V 5) (K (JNum 0))) [Do (SetV 3 (Call ''WPc'' [V 0, V 1, V 5, V 7])), Do (SetV 8 (Call ''hQc'' [Seq (Call ''MDb'' [V 3, Dot (Dot (V 1) ''c'') ''length'']) (Call ''JD'' [Idx (Dot (V 1) ''c'') (V 3), K (JNum 340)])])), Do (Call ''fQc'' [V 1, V 3, V 2])] [], Ret (V 8)],
    fn ''vyd'' 3 7 [Do (SetV 6 (Seq (SetV 5 (New ''CTd'' [])) (V 5))), Do (Call ''ATd'' [V 6, Seq (Call ''NDb'' [V 1]) (V 1)]), Do (SetV 9 (Seq (And (Neg (Dot (V 6) ''b'')) (Put (V 6) ''b'' (New ''dUd'' [Seq (Call ''WRd'' []) (G ''SRd''), G ''N7'', V 6]))) (Dot (V 6) ''b''))), Do (SetV 8 (K (JNum 1))), Loop (Bin Lt (V 8) (Dot (V 2) ''length'')) [Do (Call ''wMd'' [V 9, Idx (V 2) (Bin Minus (V 8) (K (JNum 1))), Idx (V 2) (V 8)])] [Do (SetV 8 (Bin Plus (V 8) (K (JNum 2))))], Do (SetV 3 (Seq (And (Neg (Dot (V 0) ''Ab'')) (Put (V 0) ''Ab'' (New ''P3d'' [G ''q6'', V 0, K (JNum 0), K (JNum 3)]))) (Dot (V 0) ''Ab''))), Do (SetV 7 (K (JNum 0))), Loop (Bin Lt (V 7) (K (JNum 0))) [Do (SetV 4 (Call ''wTd'' [Call ''JD'' [Call ''fGd'' [V 3, Bin Minus (Dot (V 3) ''i'') (K (JNum 1))], K (JNum 588)]])), Do (SetV 3 (V 4))] [Do (SetV 7 (Bin Minus (V 7) (K (JNum (- 1)))))], Do (Call ''lFd'' [V 3, V 6])],
    fn ''SMb'' 6 3 [When (Neg (Idx (V 4) (Dot (V 1) ''a''))) [Do (PutIdx (V 4) (Dot (V 1) ''a'') (K (JBool True))), Do (SetV 6 (V 3)), Do (And (Neg (V 6)) (SetV 6 (New ''KNb'' []))), Do (Call ''_lb'' [Dot (V 6) ''e'', V 1]), Do (SetV 8 (Meth (Idx (V 5) (Dot (V 1) ''a'')) ''Jc'' [])), Loop (Meth (V 8) ''Ob'' []) [Do (SetV 7 (Call ''JD'' [Meth (V 8) ''Pb'' [], K (JNum 291)])), When (Or (Loose (Dot (V 7) ''d'') (V 2)) (Loose (Dot (V 7) ''c'') (V 2))) [Continue] [], Do (And (Neg (Loose (Dot (V 7) ''c'') (V 1))) (Call ''SMb'' [V 0, Dot (V 7) ''c'', V 1, V 6, V 4, V 5])), Do (And (Neg (Loose (Dot (V 7) ''d'') (V 1))) (Call ''SMb'' [V 0, Dot (V 7) ''d'', V 1, V 6, V 4, V 5])), Do (Call ''_lb'' [Dot (V 6) ''c'', V 7]), Do (Call ''bmb'' [Dot (V 6) ''d'', Dot (V 7) ''b''])] [], Ret (V 6)] [], Ret (K JNull)],
    fn ''h1b'' 1 7 [Do (SetV 1 (K (JNum 0))), Do (SetV 4 (New ''Kmb'' [Dot (V 0) ''e''])), Loop (Bin Lt (Dot (V 4) ''a'') (Dot (Dot (Dot (V 4) ''c'') ''c'') ''length'')) [Do (SetV 3 (Call ''JD'' [Call ''Imb'' [V 4], K (JNum 17)])), Do (SetV 2 (Call ''RBb'' [New ''jCb'' [K JNull, New ''Zvb'' [Dot (V 3) ''b'', K (JNum 16)]], New ''z1b'' []])), Do (And (V 2) (SetV 1 (Bin Minus (V 1) (K (JNum (- 1))))))] [], Do (SetV 6 (New ''Kmb'' [Dot (V 0) ''g''])), Loop (Bin Lt (Dot (V 6) ''a'') (Dot (Dot (Dot (V 6) ''c'') ''c'') ''length'')) [Do (SetV 5 (Call ''JD'' [Call ''Imb'' [V 6], K (JNum 17)])), Do (SetV 7 (Call ''RBb'' [New ''jCb'' [K JNull, New ''Zvb'' [Dot (V 5) ''b'', K (JNum 16)]], New ''B1b'' []])), Do (And (V 7) (SetV 1 (Bin Minus (V 1) (K (JNum (- 1))))))] [], Ret (Bin Ge (V 1) (K (JNum 2)))]]"

definition code_5429_5455 :: "(string \<times> jfun) list" where
  "code_5429_5455 = [
    fn ''qld'' 1 3 [Do (Call ''old'' []), Do (SetV 2 (Call ''Grb'' [G ''jld'', Call ''WC'' [Call ''OC'' [G ''I2'', K (JNum 1)], G ''xue'', K (JNum 96), K (JNum 0), NewArr [G ''kld'']]])), When (Bin Gt (Call ''_x'' [Call ''Px'' [V 2, V 0]]) (K (JNum 1))) [Ret (K (JBool False))] [], Do (SetV 1 (Call ''Grb'' [G ''gld'', Call ''WC'' [Call ''OC'' [G ''I2'', K (JNum 1)], G ''xue'', K (JNum 96), K (JNum 0), NewArr [G ''fld'', G ''ild'']]])), When (Bin Gt (Call ''_x'' [Call ''Px'' [V 1, V 0]]) (K (JNum 1))) [Ret (K (JBool False))] [], Do (SetV 3 (Call ''Grb'' [G ''nld'', Call ''WC'' [Call ''OC'' [G ''I2'', K (JNum 1)], G ''xue'', K (JNum 96), K (JNum 0), NewArr [G ''mld'', G ''lld'']]])), When (Bin Gt (Call ''_x'' [Call ''Px'' [V 3, V 0]]) (K (JNum 1))) [Ret (K (JBool False))] [], Ret (K (JBool True))],
    fn ''QOc'' 1 7 [Do (SetV 1 (K (JNum 0))), Do (SetV 3 (New ''Kmb'' [Dot (V 0) ''a''])), Loop (Bin Lt (Dot (V 3) ''a'') (Dot (Dot (Dot (V 3) ''c'') ''c'') ''length'')) [Do (SetV 2 (Call ''JD'' [Call ''Imb'' [V 3], K (JNum 9)])), Do (SetV 5 (New ''Yr'' [Call ''Dr'' [Meth (Dot (Call ''HYb'' [V 2]) ''a'') ''Jc'' [], New ''Dl'' []]])), Loop (Call ''Wr'' [V 5]) [Do (SetV 4 (Call ''JD'' [Call ''Xr'' [V 5], K (JNum 17)])), When (And (Loose (V 0) (Dot (Dot (Dot (V 4) ''d'') ''i'') ''c'')) (Loose (Dot (Dot (V 4) ''c'') ''j'') (Seq (Call ''Bmd'' []) (G ''Amd'')))) [Do (SetV 6 (Dot (Call ''rZb'' [Dot (V 4) ''c'']) ''b'')), Do (SetV 7 (Dot (Call ''rZb'' [Dot (V 4) ''d'']) ''b'')), Do (SetV 1 (Meth (Dot (G ''$wnd'') ''Math'') ''max'' [V 1, Meth (Dot (G ''$wnd'') ''Math'') ''abs'' [Bin Minus (V 7) (V 6)]]))] []] []] [], Ret (V 1)],
    fn ''JRc'' 3 3 [Do (SetV 5 (New ''Kmb'' [Dot (V 0) ''t''])), Loop (Bin Lt (Dot (V 5) ''a'') (Dot (Dot (Dot (V 5) ''c'') ''c'') ''length'')) [Do (SetV 3 (Call ''JD'' [Call ''Imb'' [V 5], K (JNum 273)])), When (And (Bin Lt (Dot (Dot (V 3) ''b'') ''s'') (K (JNum 0))) (Bin Gt (Dot (V 3) ''c'') (K (JNum 0)))) [Do (Put (Dot (V 3) ''b'') ''n'' (Bin Minus (Dot (Dot (V 3) ''b'') ''n'') (Dot (V 3) ''c''))), Do (And (And (Bin Le (Dot (Dot (V 3) ''b'') ''n'') (K (JNum 0))) (Bin Gt (Dot (Dot (V 3) ''b'') ''u'') (K (JNum 0)))) (Call ''Ttb'' [V 1, Dot (V 3) ''b'']))] []] [], Do (SetV 4 (New ''Kmb'' [Dot (V 0) ''i''])), Loop (Bin Lt (Dot (V 4) ''a'') (Dot (Dot (Dot (V 4) ''c'') ''c'') ''length'')) [Do (SetV 3 (Call ''JD'' [Call ''Imb'' [V 4], K (JNum 273)])), When (And (Bin Lt (Dot (Dot (V 3) ''a'') ''s'') (K (JNum 0))) (Bin Gt (Dot (V 3) ''c'') (K (JNum 0)))) [Do (Put (Dot (V 3) ''a'') ''u'' (Bin Minus (Dot (Dot (V 3) ''a'') ''u'') (Dot (V 3) ''c''))), Do (And (And (Bin Le (Dot (Dot (V 3) ''a'') ''u'') (K (JNum 0))) (Bin Gt (Dot (Dot (V 3) ''a'') ''n'') (K (JNum 0)))) (Call ''Ttb'' [V 2, Dot (V 3) ''a'']))] []] []],
    fn ''KGd'' 1 5 [When (Loose (Dot (V 0) ''g'') (K JNull)) [Do (Put (V 0) ''d'' (Meth (V 0) ''_i'' [Dot (V 0) ''f''])), Do (Call ''lFd'' [V 0, Dot (V 0) ''d'']), When (Dot (V 0) ''c'') [Do (SetV 5 (Dot (V 0) ''f'')), Ret (V 5)] []] [], Do (SetV 1 (Call ''JD'' [Idx (Dot (V 0) ''g'') (Bin Minus (Dot (V 0) ''i'') (K (JNum 1))), K (JNum 50)])), Do (SetV 4 (Meth (V 1) ''Pb'' [])), Do (Put (V 0) ''e'' (V 1)), Do (SetV 2 (Meth (V 0) ''_i'' [V 4])), When (Meth (V 2) ''Ob'' []) [Do (Put (V 0) ''d'' (V 2)), Do (Call ''lFd'' [V 0, V 2])] [Do (Put (V 0) ''d'' (K JNull)), Loop (Neg (Meth (V 1) ''Ob'' [])) [Do (Call ''VC'' [Dot (V 0) ''g'', Put (V 0) ''i'' (Bin Minus (Dot (V 0) ''i'') (K (JNum 1))), K JNull]), When (Loose (Dot (V 0) ''i'') (K (JNum 0))) [Break] [], Do (SetV 3 (Call ''JD'' [Idx (Dot (V 0) ''g'') (Bin Minus (Dot (V 0) ''i'') (K (JNum 1))), K (JNum 50)])), Do (SetV 1 (V 3))] []], Ret (V 4)],
    fn ''cee'' 2 6 [Do (SetV 3 (V 1)), Do (SetV 4 (Meth (V 3) ''Jk'' [])), When (Call ''Die'' [Dot (V 0) ''e'', V 4]) [When (And (Meth (V 4) ''Qi'' []) (Call ''pee'' [V 0, V 4, Meth (V 3) ''kd'' []])) [Ret (K (JBool False))] []] [Do (SetV 7 (Call ''Cie'' [Meth (Dot (V 0) ''e'') ''Ah'' [], V 4])), Do (SetV 2 (Call ''JD'' [Dot (V 0) ''g'', K (JNum 122)])), Do (SetV 5 (K (JNum 0))), Loop (Bin Lt (V 5) (Dot (V 0) ''i'')) [Do (SetV 6 (Idx (V 2) (V 5))), When (Meth (V 7) ''$l'' [Meth (V 6) ''Jk'' []]) [When (Call ''pb'' [V 6, V 3]) [Ret (K (JBool False))] [Do (Call ''JD'' [Call ''vFd'' [V 0, V 5, V 1], K (JNum 75)]), Ret (K (JBool True))]] []] [Do (SetV 5 (Bin Minus (V 5) (K (JNum (- 1)))))]], Ret (Call ''lFd'' [V 0, V 1])],
    fn ''$Yb'' 0 0 [Do (SetG ''$Yb'' (G ''qdb'')), Do (SetG ''XYb'' (New ''_Yb'' [K (JStr ''NORMAL''), K (JNum 0)])), Do (SetG ''VYb'' (New ''_Yb'' [K (JStr ''LONG_EDGE''), K (JNum 1)])), Do (SetG ''TYb'' (New ''_Yb'' [K (JStr ''EXTERNAL_PORT''), K (JNum 2)])), Do (SetG ''YYb'' (New ''_Yb'' [K (JStr ''NORTH_SOUTH_PORT''), K (JNum 3)])), Do (SetG ''UYb'' (New ''_Yb'' [K (JStr ''LABEL''), K (JNum 4)])), Do (SetG ''SYb'' (New ''_Yb'' [K (JStr ''BREAKING_POINT''), K (JNum 5)])), Do (SetG ''ZYb'' (New ''_Yb'' [K (JStr ''PLACEHOLDER''), K (JNum 6)])), Do (SetG ''WYb'' (New ''_Yb'' [K (JStr ''NONSHIFTING_PLACEHOLDER''), K (JNum 7)]))],
    fn ''w6b'' 4 4 [Do (SetV 4 (New ''QYb'' [V 0])), Do (Call ''OYb'' [V 4, Seq (Call ''$Yb'' []) (G ''UYb'')]), Do (Call ''rNb'' [V 4, Seq (Call ''Wrc'' []) (G ''urc''), V 1]), Do (Call ''rNb'' [V 4, G ''Grc'', V 3]), Do (Call ''rNb'' [V 4, Seq (Call ''nyc'' []) (G ''qxc''), Seq (Call ''Mld'' []) (G ''Hld'')]), Do (Call ''rNb'' [V 4, G ''nrc'', Dot (V 1) ''c'']), Do (Call ''rNb'' [V 4, G ''orc'', Dot (V 1) ''d'']), Do (Call ''C8b'' [V 1, V 4]), Do (SetV 7 (Meth (Dot (G ''$wnd'') ''Math'') ''floor'' [Bin Divide (V 2) (K (JNum 2))])), Do (SetV 6 (New ''Kmb'' [Dot (V 4) ''j''])), Loop (Bin Lt (Dot (V 6) ''a'') (Dot (Dot (Dot (V 6) ''c'') ''c'') ''length'')) [Do (SetV 5 (Call ''JD'' [Call ''Imb'' [V 6], K (JNum 12)])), Do (Put (Dot (V 5) ''n'') ''b'' (V 7))] [], Ret (V 4)],
    fn ''woc'' 0 0 [Do (SetG ''woc'' (G ''qdb'')), Do (SetG ''qoc'' (New ''yoc'' [G ''hze'', K (JNum 0)])), Do (SetG ''ooc'' (New ''yoc'' [G ''ize'', K (JNum 1)])), Do (SetG ''soc'' (New ''yoc'' [G ''gze'', K (JNum 2)])), Do (SetG ''toc'' (New ''yoc'' [G ''rye'', K (JNum 3)])), Do (SetG ''roc'' (New ''yoc'' [K (JStr ''GREEDY_MODEL_ORDER''), K (JNum 4)])), Do (SetG ''uoc'' (New ''yoc'' [K (JStr ''SCC_CONNECTIVITY''), K (JNum 5)])), Do (SetG ''voc'' (New ''yoc'' [K (JStr ''SCC_NODE_TYPE''), K (JNum 6)])), Do (SetG ''poc'' (New ''yoc'' [K (JStr ''DFS_NODE_ORDER''), K (JNum 7)])), Do (SetG ''noc'' (New ''yoc'' [K (JStr ''BFS_NODE_ORDER''), K (JNum 8)]))],
    fn ''hNb'' 3 5 [Do (Meth (V 2) ''Tg'' [K (JStr ''ELK Force''), K (JNum 1)]), Do (Or (Call ''Rdb'' [Call ''LD'' [Call ''cvd'' [V 1, Seq (Call ''aPb'' []) (G ''KOb'')]]]) (Call ''iEb'' [Seq (SetV 3 (New ''jEb'' [Seq (Call ''Jrd'' []) (New ''Xrd'' [V 1])])) (V 3)])), Do (SetV 7 (Call ''bNb'' [V 1])), Do (Call ''iNb'' [V 7]), Do (Call ''jNb'' [V 0, Call ''JD'' [Call ''oNb'' [V 7, G ''FOb''], K (JNum 424)]]), Do (SetV 6 (Call ''VMb'' [Dot (V 0) ''a'', V 7])), Do (SetV 5 (Meth (V 6) ''Jc'' [])), Loop (Meth (V 5) ''Ob'' []) [Do (SetV 4 (Call ''JD'' [Meth (V 5) ''Pb'' [], K (JNum 235)])), Do (Call ''TNb'' [Dot (V 0) ''b'', V 4, Meth (V 2) ''dh'' [Bin Divide (K (JNum 1)) (Meth (V 6) ''gc'' [])]])] [], Do (SetV 7 (Call ''UMb'' [V 6])), Do (Call ''aNb'' [V 7]), Do (Meth (V 2) ''Ug'' [])],
    fn ''JUb'' 3 0 [Switch (Dot (V 2) ''g'') [(Some (JNum 1), [Ret (New ''lgd'' [Dot (V 1) ''a'', Meth (Dot (G ''$wnd'') ''Math'') ''min'' [Dot (Dot (V 0) ''d'') ''b'', Dot (V 1) ''b'']])]), (Some (JNum 2), [Ret (New ''lgd'' [Meth (Dot (G ''$wnd'') ''Math'') ''max'' [Dot (Dot (V 0) ''c'') ''a'', Dot (V 1) ''a''], Dot (V 1) ''b''])]), (Some (JNum 3), [Ret (New ''lgd'' [Dot (V 1) ''a'', Meth (Dot (G ''$wnd'') ''Math'') ''max'' [Dot (Dot (V 0) ''c'') ''b'', Dot (V 1) ''b'']])]), (Some (JNum 4), [Ret (New ''lgd'' [Meth (Dot (G ''$wnd'') ''Math'') ''min'' [Dot (V 1) ''a'', Dot (Dot (V 0) ''d'') ''a''], Dot (V 1) ''b''])])], Ret (New ''lgd'' [Dot (V 1) ''a'', Dot (V 1) ''b''])],
    fn ''Dmc'' 2 5 [Do (Meth (V 1) ''Tg'' [K (JStr ''Breaking Point Processor''), K (JNum 1)]), Do (Call ''Cmc'' [V 0]), When (Call ''Rdb'' [Call ''LD'' [Call ''oNb'' [V 0, Seq (Call ''nyc'' []) (G ''jyc'')]]]) [Do (SetV 4 (New ''Kmb'' [Dot (V 0) ''b''])), Loop (Bin Lt (Dot (V 4) ''a'') (Dot (Dot (Dot (V 4) ''c'') ''c'') ''length'')) [Do (SetV 3 (Call ''JD'' [Call ''Imb'' [V 4], K (JNum 25)])), Do (SetV 2 (K (JNum 0))), Do (SetV 6 (New ''Kmb'' [Dot (V 3) ''a''])), Loop (Bin Lt (Dot (V 6) ''a'') (Dot (Dot (Dot (V 6) ''c'') ''c'') ''length'')) [Do (SetV 5 (Call ''JD'' [Call ''Imb'' [V 6], K (JNum 9)])), Do (Put (V 5) ''p'' (Bin Minus (SetV 2 (Bin Minus (V 2) (K (JNum (- 1))))) (K (JNum 1))))] []] [], Do (Call ''xmc'' [V 0]), Do (Call ''ymc'' [V 0, K (JBool True)]), Do (Call ''ymc'' [V 0, K (JBool False)])] [], Do (Meth (V 1) ''Ug'' [])],
    fn ''REd'' 1 3 [Do (SetV 1 (Call ''Xu'' [Bin Plus (K (JNum 1)) (Dot (Seq (And (Neg (Dot (V 0) ''c'')) (Put (V 0) ''c'' (New ''P3d'' [G ''U3'', V 0, K (JNum 9), K (JNum 9)]))) (Dot (V 0) ''c'')) ''i'')])), Do (Call ''_lb'' [V 1, Seq (And (Neg (Dot (V 0) ''d'')) (Put (V 0) ''d'' (New ''jhe'' [G ''Q3'', V 0, K (JNum 8), K (JNum 5)]))) (Dot (V 0) ''d'')]), Do (SetV 3 (New ''uKd'' [Seq (And (Neg (Dot (V 0) ''c'')) (Put (V 0) ''c'' (New ''P3d'' [G ''U3'', V 0, K (JNum 9), K (JNum 9)]))) (Dot (V 0) ''c'')])), Loop (Neg (Loose (Dot (V 3) ''e'') (Meth (Dot (V 3) ''i'') ''gc'' []))) [Do (SetV 2 (Call ''JD'' [Call ''sKd'' [V 3], K (JNum 125)])), Do (Call ''_lb'' [V 1, Seq (And (Neg (Dot (V 2) ''d'')) (Put (V 2) ''d'' (New ''jhe'' [G ''Q3'', V 2, K (JNum 8), K (JNum 5)]))) (Dot (V 2) ''d'')])] [], Ret (Seq (Call ''Qb'' [V 1]) (New ''Bl'' [V 1]))],
    fn ''SEd'' 1 3 [Do (SetV 1 (Call ''Xu'' [Bin Plus (K (JNum 1)) (Dot (Seq (And (Neg (Dot (V 0) ''c'')) (Put (V 0) ''c'' (New ''P3d'' [G ''U3'', V 0, K (JNum 9), K (JNum 9)]))) (Dot (V 0) ''c'')) ''i'')])), Do (Call ''_lb'' [V 1, Seq (And (Neg (Dot (V 0) ''e'')) (Put (V 0) ''e'' (New ''jhe'' [G ''Q3'', V 0, K (JNum 7), K (JNum 4)]))) (Dot (V 0) ''e'')]), Do (SetV 3 (New ''uKd'' [Seq (And (Neg (Dot (V 0) ''c'')) (Put (V 0) ''c'' (New ''P3d'' [G ''U3'', V 0, K (JNum 9), K (JNum 9)]))) (Dot (V 0) ''c'')])), Loop (Neg (Loose (Dot (V 3) ''e'') (Meth (Dot (V 3) ''i'') ''gc'' []))) [Do (SetV 2 (Call ''JD'' [Call ''sKd'' [V 3], K (JNum 125)])), Do (Call ''_lb'' [V 1, Seq (And (Neg (Dot (V 2) ''e'')) (Put (V 2) ''e'' (New ''jhe'' [G ''Q3'', V 2, K (JNum 7), K (JNum 4)]))) (Dot (V 2) ''e'')])] [], Ret (Seq (Call ''Qb'' [V 1]) (New ''Bl'' [V 1]))],
    fn ''wle'' 1 4 [When (Loose (V 0) (K JNull)) [Ret (K JNull)] [Do (SetV 3 (Call ''Ase'' [V 0, K (JBool True)])), Do (SetV 4 (Dot (G ''xJe'') ''length'')), When (Call ''vgb'' [Meth (V 3) ''substr'' [Bin Minus (Dot (V 3) ''length'') (V 4), V 4], G ''xJe'']) [Do (SetV 2 (Dot (V 3) ''length'')), When (Loose (V 2) (K (JNum 4))) [Do (SetV 1 (Seq (Call ''UDb'' [K (JNum 0), Dot (V 3) ''length'']) (Meth (V 3) ''charCodeAt'' [K (JNum 0)]))), When (Loose (V 1) (K (JNum 43))) [Ret (G ''hle'')] [When (Loose (V 1) (K (JNum 45))) [Ret (G ''gle'')] []]] [When (Loose (V 2) (K (JNum 3))) [Ret (G ''hle'')] []]] [], Ret (Call ''Xdb'' [V 3])]],
    fn ''eGc'' 4 9 [Do (SetV 11 (Cond (V 3) (Seq (Call ''Bmd'' []) (G ''Amd'')) (Seq (Call ''Bmd'' []) (G ''gmd'')))), Do (SetV 4 (K (JBool False))), Do (Seq (Seq (SetV 8 (Idx (V 1) (V 2))) (SetV 9 (K (JNum 0)))) (SetV 10 (Dot (V 8) ''length''))), Loop (Bin Lt (V 9) (V 10)) [Do (SetV 7 (Idx (V 8) (V 9))), When (Call ''Nld'' [Call ''JD'' [Call ''oNb'' [V 7, Seq (Call ''nyc'' []) (G ''qxc'')], K (JNum 102)]]) [Continue] [], Do (SetV 6 (Dot (V 7) ''e'')), Do (SetV 12 (And (Neg (Meth (Call ''IYb'' [V 7, V 11]) ''dc'' [])) (Neg (Neg (V 6))))), When (V 12) [Do (SetV 5 (Call ''IWb'' [V 6])), Do (Put (V 0) ''b'' (New ''hgc'' [V 5, Cond (V 3) (K (JNum 0)) (Bin Minus (Dot (V 5) ''length'') (K (JNum 1)))]))] [], Do (SetV 4 (Bin BitOr (V 4) (Call ''fGc'' [V 0, V 7, V 11, V 12])))] [Do (SetV 9 (Bin Minus (V 9) (K (JNum (- 1)))))], Ret (V 4)],
    fn ''RKc'' 4 3 [Do (SetV 6 (Call ''xWb'' [V 1, V 2])), Do (Call ''qDb'' [Dot (V 3) ''c'', V 1]), When (Or (Or (Loose (Idx (Dot (V 0) ''j'') (Dot (V 6) ''p'')) (K (JNum (- 1)))) (Loose (Idx (Dot (V 0) ''j'') (Dot (V 6) ''p'')) (K (JNum 2)))) (Idx (Dot (V 0) ''a'') (Dot (V 1) ''p''))) [Ret (V 3)] [], Do (PutIdx (Dot (V 0) ''j'') (Dot (V 6) ''p'') (K (JNum (- 1)))), Do (SetV 5 (New ''Yr'' [Call ''Dr'' [Meth (Dot (Call ''BYb'' [V 6]) ''a'') ''Jc'' [], New ''Dl'' []]])), Loop (Call ''Wr'' [V 5]) [Do (SetV 4 (Call ''JD'' [Call ''Xr'' [V 5], K (JNum 17)])), When (Or (Neg (And (Neg (Call ''AWb'' [V 4])) (Neg (And (Neg (Call ''AWb'' [V 4])) (Loose (Dot (Dot (Dot (V 4) ''c'') ''i'') ''c'') (Dot (Dot (Dot (V 4) ''d'') ''i'') ''c'')))))) (Loose (V 4) (V 1))) [Continue] [], Ret (Call ''RKc'' [V 0, V 4, V 6, V 3])] [], Ret (V 3)],
    fn ''jLc'' 1 4 [Do (SetV 1 (K (JNum 0))), Do (SetV 2 (K (JNum 0))), Do (SetV 4 (New ''Kmb'' [Dot (V 0) ''j''])), Loop (Bin Lt (Dot (V 4) ''a'') (Dot (Dot (Dot (V 4) ''c'') ''c'') ''length'')) [Do (SetV 3 (Call ''JD'' [Call ''Imb'' [V 4], K (JNum 12)])), Do (SetV 1 (Call ''gdb'' [Call ''Mcb'' [V 1, Call ''TBb'' [Call ''VBb'' [New ''jCb'' [K JNull, New ''Zvb'' [Dot (V 3) ''e'', K (JNum 16)]], New ''wMc'' []]]]])), Do (SetV 2 (Call ''gdb'' [Call ''Mcb'' [V 2, Call ''TBb'' [Call ''VBb'' [New ''jCb'' [K JNull, New ''Zvb'' [Dot (V 3) ''g'', K (JNum 16)]], New ''yMc'' []]]]])), When (Or (Bin Gt (V 1) (K (JNum 1))) (Bin Gt (V 2) (K (JNum 1)))) [Ret (K (JNum 2))] []] [], When (Loose (Bin Plus (V 1) (V 2)) (K (JNum 1))) [Ret (K (JNum 2))] [], Ret (K (JNum 0))],
    fn ''Rvb'' 2 6 [Do (SetV 5 (Bin Plus (Bin Times (Dot (V 0) ''a'') (G ''$ve'')) (Bin Times (Dot (V 0) ''b'') (K (JNum 1502))))), Do (SetV 7 (Bin Plus (Bin Times (Dot (V 0) ''b'') (G ''$ve'')) (K (JNum 11)))), Do (SetV 2 (Meth (Dot (G ''$wnd'') ''Math'') ''floor'' [Bin Times (V 7) (G ''_ve'')])), Do (SetV 5 (Bin Plus (V 5) (V 2))), Do (SetV 7 (Bin Minus (V 7) (Bin Times (V 2) (G ''awe'')))), Do (SetV 5 (Bin Modulo (V 5) (G ''awe''))), Do (Put (V 0) ''a'' (V 5)), Do (Put (V 0) ''b'' (V 7)), When (Bin Le (V 1) (K (JNum 24))) [Ret (Meth (Dot (G ''$wnd'') ''Math'') ''floor'' [Bin Times (Dot (V 0) ''a'') (Idx (G ''Lvb'') (V 1))])] [Do (SetV 4 (Bin Times (Dot (V 0) ''a'') (Bin Shl (K (JNum 1)) (Bin Minus (V 1) (K (JNum 24)))))), Do (SetV 6 (Meth (Dot (G ''$wnd'') ''Math'') ''floor'' [Bin Times (Dot (V 0) ''b'') (Idx (G ''Mvb'') (V 1))])), Do (SetV 3 (Bin Plus (V 4) (V 6))), Do (And (Bin Ge (V 3) (K (JNum 2147483648))) (SetV 3 (Bin Minus (V 3) (K (JNum 4294967296))))), Ret (V 3)]],
    fn ''dPc'' 3 7 [Do (SetV 5 (New ''lmb'' [])), Do (SetV 9 (New ''dub'' [])), Do (SetV 6 (New ''dub'' [])), Do (Call ''ePc'' [V 0, V 9, V 6, V 1]), Do (Call ''cPc'' [V 0, V 9, V 6, V 1, V 2]), Do (SetV 8 (New ''Kmb'' [V 0])), Loop (Bin Lt (Dot (V 8) ''a'') (Dot (Dot (Dot (V 8) ''c'') ''c'') ''length'')) [Do (SetV 7 (Call ''JD'' [Call ''Imb'' [V 8], K (JNum 116)])), Do (SetV 4 (New ''Kmb'' [Dot (V 7) ''k''])), Loop (Bin Lt (Dot (V 4) ''a'') (Dot (Dot (Dot (V 4) ''c'') ''c'') ''length'')) [Do (SetV 3 (Call ''JD'' [Call ''Imb'' [V 4], K (JNum 133)])), Do (And (And (Or (Neg (V 1)) (Loose (Dot (V 3) ''c'') (Seq (Call ''QPc'' []) (G ''OPc'')))) (Bin Gt (Dot (V 7) ''g'') (Dot (Dot (V 3) ''b'') ''g''))) (Seq (Call ''qDb'' [Dot (V 5) ''c'', V 3]) (K (JBool True))))] []] [], Ret (V 5)],
    fn ''ebd'' 3 6 [Do (SetV 7 (Dot (V 0) ''c'')), Do (SetV 6 (Meth (Meth (Cond (Neg (Dot (V 2) ''q'')) (Seq (Seq (Call ''Inb'' []) (Call ''Inb'' [])) (G ''Gnb'')) (Dot (V 2) ''q'')) ''vc'' []) ''Jc'' [])), Loop (Meth (V 6) ''Ob'' []) [Do (SetV 5 (Call ''JD'' [Meth (V 6) ''Pb'' [], K (JNum 45)])), Do (SetV 3 (Neg (Meth (Call ''hCb'' [Call ''VBb'' [New ''jCb'' [K JNull, New ''Zvb'' [V 7, K (JNum 16)]], New ''Xzb'' [New ''sbd'' [V 1, V 5]]]]) ''zd'' [Seq (Call ''QBb'' []) (G ''PBb'')]))), When (V 3) [Do (SetV 8 (Meth (V 5) ''kd'' [])), When (Call ''RD'' [V 8, K (JNum 4)]) [Do (SetV 4 (Call ''WGd'' [V 8])), Do (And (Neg (Loose (V 4) (K JNull))) (SetV 8 (V 4)))] [], Do (Meth (V 1) ''of'' [Call ''JD'' [Meth (V 5) ''jd'' [], K (JNum 147)], V 8])] []] []],
    fn ''I2b'' 2 4 [Do (Meth (V 1) ''Tg'' [K (JStr ''Resize child graph to fit parent.''), K (JNum 1)]), Do (SetV 3 (New ''Kmb'' [Dot (V 0) ''b''])), Loop (Bin Lt (Dot (V 3) ''a'') (Dot (Dot (Dot (V 3) ''c'') ''c'') ''length'')) [Do (SetV 2 (Call ''JD'' [Call ''Imb'' [V 3], K (JNum 25)])), Do (Call ''bmb'' [Dot (V 0) ''a'', Dot (V 2) ''a'']), Do (Put (Dot (Dot (V 2) ''a'') ''c'') ''length'' (K (JNum 0)))] [], Do (SetV 5 (New ''Kmb'' [Dot (V 0) ''a''])), Loop (Bin Lt (Dot (V 5) ''a'') (Dot (Dot (Dot (V 5) ''c'') ''c'') ''length'')) [Do (SetV 4 (Call ''JD'' [Call ''Imb'' [V 5], K (JNum 9)])), Do (Call ''NYb'' [V 4, K JNull])] [], Do (Put (Dot (Dot (V 0) ''b'') ''c'') ''length'' (K (JNum 0))), Do (Call ''J2b'' [V 0]), Do (And (Neg (Neg (Dot (V 0) ''e''))) (Call ''H2b'' [Dot (V 0) ''e'', V 0])), Do (Meth (V 1) ''Ug'' [])],
    fn ''t8b'' 2 5 [Do (Meth (V 1) ''Tg'' [K (JStr ''Edge joining''), K (JNum 1)]), Do (SetV 2 (Call ''Rdb'' [Call ''LD'' [Call ''oNb'' [V 0, Seq (Call ''nyc'' []) (G ''byc'')]]])), Do (SetV 4 (New ''Kmb'' [Dot (V 0) ''b''])), Loop (Bin Lt (Dot (V 4) ''a'') (Dot (Dot (Dot (V 4) ''c'') ''c'') ''length'')) [Do (SetV 3 (Call ''JD'' [Call ''Imb'' [V 4], K (JNum 25)])), Do (SetV 6 (New ''Tjb'' [Dot (V 3) ''a'', K (JNum 0)])), Loop (Bin Lt (Dot (V 6) ''b'') (Meth (Dot (V 6) ''d'') ''gc'' [])) [Do (SetV 5 (Seq (Call ''LDb'' [Bin Lt (Dot (V 6) ''b'') (Meth (Dot (V 6) ''d'') ''gc'' [])]) (Call ''JD'' [Meth (Dot (V 6) ''d'') ''Xb'' [Put (V 6) ''c'' (Bin Minus (Put (V 6) ''b'' (Bin Minus (Dot (V 6) ''b'') (K (JNum (- 1))))) (K (JNum 1)))], K (JNum 9)]))), When (Loose (Dot (V 5) ''k'') (Seq (Call ''$Yb'' []) (G ''VYb''))) [Do (Call ''v8b'' [V 5, V 2]), Do (Call ''Mjb'' [V 6])] []] []] [], Do (Meth (V 1) ''Ug'' [])],
    fn ''i8c'' 3 2 [Do (Call ''Nbd'' [Dot (V 0) ''b'']), Do (Call ''Qbd'' [Dot (V 0) ''b'', Seq (Call ''c8c'' []) (G ''_7c''), Seq (Call ''X9c'' []) (G ''W9c'')]), Do (Call ''Qbd'' [Dot (V 0) ''b'', G ''a8c'', Dot (V 1) ''g'']), Do (Call ''Qbd'' [Dot (V 0) ''b'', G ''b8c'', Dot (V 1) ''a'']), Do (Put (V 0) ''a'' (Call ''Lbd'' [Dot (V 0) ''b'', V 1])), Do (Meth (V 2) ''Tg'' [K (JStr ''Compaction by shrinking a tree''), Dot (Dot (Dot (V 0) ''a'') ''c'') ''length'']), When (Bin Gt (Dot (Dot (Dot (V 1) ''i'') ''c'') ''length'') (K (JNum 1))) [Do (SetV 4 (New ''Kmb'' [Dot (V 0) ''a''])), Loop (Bin Lt (Dot (V 4) ''a'') (Dot (Dot (Dot (V 4) ''c'') ''c'') ''length'')) [Do (SetV 3 (Call ''JD'' [Call ''Imb'' [V 4], K (JNum 43)])), Do (Meth (V 3) ''If'' [V 1, Meth (V 2) ''dh'' [K (JNum 1)]])] []] [], Do (Meth (V 2) ''Ug'' [])],
    fn ''otd'' 3 3 [Do (SetV 5 (Call ''Rce'' [Seq (Call ''yie'' []) (G ''wie''), Meth (V 0) ''Ah'' [], V 1])), When (V 5) [Do (Call ''Aie'' []), When (Neg (Meth (Call ''JD'' [V 5, K (JNum 69)]) ''vk'' [])) [Do (SetV 5 (Call ''Mde'' [Call ''bde'' [G ''wie'', V 5]])), When (Neg (V 5)) [Raise (Call ''Lcb'' [New ''kfb'' [Bin Plus (Bin Plus (G ''UFe'') (Meth (V 1) ''ve'' [])) (G ''VFe'')]])] []] [], Do (SetV 4 (Seq (SetV 3 (Meth (V 0) ''Fh'' [V 5])) (Call ''JD'' [Cond (Bin Ge (V 3) (K (JNum 0))) (Meth (V 0) ''Ih'' [V 3, K (JBool True), K (JBool True)]) (Call ''mtd'' [V 0, V 5, K (JBool True)]), K (JNum 163)]))), Do (Meth (Call ''JD'' [V 4, K (JNum 219)]) ''Vl'' [V 1, V 2])] [Raise (Call ''Lcb'' [New ''kfb'' [Bin Plus (Bin Plus (G ''UFe'') (Meth (V 1) ''ve'' [])) (G ''VFe'')]])]],
    fn ''ZAd'' 3 6 [Do (SetV 8 (Call ''mBd'' [V 0, Call ''JD'' [Call ''ejb'' [Dot (V 0) ''e'', V 1], K (JNum 26)]])), Do (SetV 7 (K JNull)), When (V 8) [Switch (Dot (V 8) ''g'') [(Some (JNum 3), [Do (SetV 3 (Call ''nBd'' [V 0, Call ''Gwd'' [V 1]])), Do (SetV 7 (Bin Plus (Seq (Call ''NDb'' [V 2]) (V 2)) (Seq (Call ''NDb'' [V 3]) (V 3)))), Break]), (Some (JNum 2), [Do (SetV 4 (Call ''nBd'' [V 0, Call ''Gwd'' [V 1]])), Do (SetV 6 (Bin Plus (Seq (Call ''NDb'' [V 2]) (V 2)) (Seq (Call ''NDb'' [V 4]) (V 4)))), Do (SetV 5 (Call ''nBd'' [V 0, Call ''JD'' [Call ''ejb'' [Dot (V 0) ''e'', V 1], K (JNum 26)]])), Do (SetV 7 (Bin Minus (V 6) (Seq (Call ''NDb'' [V 5]) (V 5)))), Break]), (None, [Do (SetV 7 (V 2))])]] [Do (SetV 7 (V 2))], Ret (V 7)],
    fn ''_Ad'' 3 6 [Do (SetV 8 (Call ''mBd'' [V 0, Call ''JD'' [Call ''ejb'' [Dot (V 0) ''e'', V 1], K (JNum 26)]])), Do (SetV 7 (K JNull)), When (V 8) [Switch (Dot (V 8) ''g'') [(Some (JNum 3), [Do (SetV 3 (Call ''oBd'' [V 0, Call ''Gwd'' [V 1]])), Do (SetV 7 (Bin Plus (Seq (Call ''NDb'' [V 2]) (V 2)) (Seq (Call ''NDb'' [V 3]) (V 3)))), Break]), (Some (JNum 2), [Do (SetV 4 (Call ''oBd'' [V 0, Call ''Gwd'' [V 1]])), Do (SetV 6 (Bin Plus (Seq (Call ''NDb'' [V 2]) (V 2)) (Seq (Call ''NDb'' [V 4]) (V 4)))), Do (SetV 5 (Call ''oBd'' [V 0, Call ''JD'' [Call ''ejb'' [Dot (V 0) ''e'', V 1], K (JNum 26)]])), Do (SetV 7 (Bin Minus (V 6) (Seq (Call ''NDb'' [V 5]) (V 5)))), Break]), (None, [Do (SetV 7 (V 2))])]] [Do (SetV 7 (V 2))], Ret (V 7)],
    fn ''x0d'' 2 5 [When (Neg (V 1)) [Ret (K JNull)] [Do (SetV 5 (Or (Call ''RD'' [Dot (V 0) ''Cb'', K (JNum 88)]) (Call ''RD'' [Dot (V 0) ''Cb'', K (JNum 103)]))), Do (SetV 6 (And (Neg (V 5)) (Call ''RD'' [Dot (V 0) ''Cb'', K (JNum 335)]))), Do (SetV 3 (New ''uKd'' [Seq (And (Neg (Dot (V 1) ''a'')) (Put (V 1) ''a'' (New ''v8d'' [V 1, G ''z6'', V 1]))) (Dot (V 1) ''a'')])), Loop (Neg (Loose (Dot (V 3) ''e'') (Meth (Dot (V 3) ''i'') ''gc'' []))) [Do (SetV 2 (Call ''JD'' [Call ''sKd'' [V 3], K (JNum 87)])), Do (SetV 4 (Call ''v0d'' [V 2])), When (Cond (V 5) (Call ''RD'' [V 4, K (JNum 88)]) (Cond (V 6) (Call ''RD'' [V 4, K (JNum 159)]) (Neg (Neg (V 4))))) [Ret (V 4)] []] [], Ret (Cond (V 5) (Seq (Call ''WRd'' []) (G ''MRd'')) (Seq (Call ''WRd'' []) (G ''JRd'')))]]]"

definition object_table20 :: "(string \<times> jfun) list" where
  "object_table20 = code_5314_5336 @ code_5338_5339 @ code_5341_5348 @ code_5350_5365 @ code_5367_5378 @ code_5380_5393 @ code_5395_5413 @ code_5416_5420 @ code_5423_5427 @ code_5429_5455"

text \<open>The names each table declares.\<close>

lemma names_5314_5336 [js_names]: "map fst code_5314_5336 = [
    ''vud'', ''Eqe'', ''Yib'', ''fic'', ''Sjc'', ''vPc'', ''Jwd'', ''GJd'', ''BMb'', ''ted'',
    ''Wsd'', ''Asb'', ''TPb'', ''c8b'', ''mic'', ''kXc'', ''vzd'', ''tEd'', ''gId'', ''jib'',
    ''Q0b'', ''Uad'', ''gZd'']"
  by (simp add: code_5314_5336_def fn_def)

lemma names_5338_5339 [js_names]: "map fst code_5338_5339 = [
    ''Wr'', ''aHb'']"
  by (simp add: code_5338_5339_def fn_def)

lemma names_5341_5348 [js_names]: "map fst code_5341_5348 = [
    ''f6b'', ''I7b'', ''b8b'', ''anc'', ''sEc'', ''vEc'', ''tD'', ''FNd'']"
  by (simp add: code_5341_5348_def fn_def)

lemma names_5350_5365 [js_names]: "map fst code_5350_5365 = [
    ''iic'', ''$kc'', ''swd'', ''It'', ''X3b'', ''Tac'', ''zzc'', ''NNc'', ''rYc'', ''qBd'',
    ''EUb'', ''W3b'', ''AQc'', ''TSc'', ''Ru'', ''G6b'']"
  by (simp add: code_5350_5365_def fn_def)

lemma names_5367_5378 [js_names]: "map fst code_5367_5378 = [
    ''oQb'', ''Icc'', ''XMc'', ''YMc'', ''m6c'', ''cvd'', ''old'', ''OGb'', ''WPb'', ''hhc'',
    ''dod'', ''lCd'']"
  by (simp add: code_5367_5378_def fn_def)

lemma names_5380_5393 [js_names]: "map fst code_5380_5393 = [
    ''gx'', ''C$b'', ''YJc'', ''_Mc'', ''jOc'', ''T6c'', ''Rxd'', ''Leb'', ''MGb'', ''gCd'',
    ''AQd'', ''cde'', ''dde'', ''afe'']"
  by (simp add: code_5380_5393_def fn_def)

lemma names_5395_5413 [js_names]: "map fst code_5395_5413 = [
    ''ARb'', ''Y6b'', ''Acc'', ''fIc'', ''Y_c'', ''Ire'', ''ytd'', ''bFb'', ''B7b'', ''Ync'',
    ''aRc'', ''kCd'', ''mMd'', ''$3d'', ''Uoe'', ''HKb'', ''cfe'', ''IDc'', ''QDc'']"
  by (simp add: code_5395_5413_def fn_def)

lemma names_5416_5420 [js_names]: "map fst code_5416_5420 = [
    ''M7b'', ''HGc'', ''$Ed'', ''Mbc'', ''Ogc'']"
  by (simp add: code_5416_5420_def fn_def)

lemma names_5423_5427 [js_names]: "map fst code_5423_5427 = [
    ''_Kb'', ''XPc'', ''vyd'', ''SMb'', ''h1b'']"
  by (simp add: code_5423_5427_def fn_def)

lemma names_5429_5455 [js_names]: "map fst code_5429_5455 = [
    ''qld'', ''QOc'', ''JRc'', ''KGd'', ''cee'', ''$Yb'', ''w6b'', ''woc'', ''hNb'', ''JUb'',
    ''Dmc'', ''REd'', ''SEd'', ''wle'', ''eGc'', ''RKc'', ''jLc'', ''Rvb'', ''dPc'', ''ebd'',
    ''I2b'', ''t8b'', ''i8c'', ''otd'', ''ZAd'', ''_Ad'', ''x0d'']"
  by (simp add: code_5429_5455_def fn_def)

end
