(* ===== verification/ObjectTable21.thy ===== *)
theory ObjectTable21
  imports ObjectCode
begin

text \<open>
  Functions of \<open>layout-worker.js\<close>, lines 5456 to 5568, in the order of the file, one per line:
  the algorithms of the layout engine, longer operations of the runtime's collections and of options,
  with their loops, \<open>switch\<close> and \<open>try\<close> statements. An entry has the name, the
  number of parameters, the number of further local variables and the body; parameters and locals
  are numbered from 0, the variable of a \<open>catch\<close> has a number of its own, \<open>x++\<close> is \<open>(x=x+1)-1\<close>. Lines
  with a construct outside \<open>jexp\<close> and \<open>jstm\<close> (closures, \<open>in\<close>, floating-point literals, host objects) are
  left out.
\<close>

definition code_5456_5457 :: "(string \<times> jfun) list" where
  "code_5456_5457 = [
    fn ''$Pc'' 2 5 [Do (SetV 2 (New ''lmb'' [])), Do (SetV 4 (Call ''XBb'' [New ''jCb'' [K JNull, New ''Zvb'' [V 0, K (JNum 16)]], New ''rQc'' []])), Do (SetV 5 (Call ''XBb'' [New ''jCb'' [K JNull, New ''Zvb'' [V 0, K (JNum 16)]], New ''tQc'' []])), Do (SetV 6 (Call ''mBb'' [Call ''lBb'' [Call ''$Bb'' [Call ''Dy'' [Call ''WC'' [Call ''OC'' [G ''sM'', K (JNum 1)], G ''Gte'', K (JNum 833), K (JNum 0), NewArr [V 4, V 5]]], New ''vQc'' []]]])), Do (SetV 3 (K (JNum 1))), Loop (Bin Lt (V 3) (Dot (V 6) ''length'')) [Do (And (Bin Ge (Bin Minus (Idx (V 6) (V 3)) (Idx (V 6) (Bin Minus (V 3) (K (JNum 1))))) (Bin Times (K (JNum 2)) (V 1))) (Call ''_lb'' [V 2, New ''kQc'' [Bin Plus (Idx (V 6) (Bin Minus (V 3) (K (JNum 1)))) (V 1), Bin Minus (Idx (V 6) (V 3)) (V 1)]]))] [Do (Bin Minus (SetV 3 (Bin Minus (V 3) (K (JNum (- 1))))) (K (JNum 1)))], Ret (V 2)],
    fn ''LBd'' 3 8 [When (V 2) [Do (SetV 5 (Dot (Dot (V 2) ''a'') ''length'')), Do (SetV 3 (New ''Kse'' [V 5])), Do (SetV 7 (Cond (Bin Lt (Bin Times (Bin Minus (Dot (V 3) ''b'') (Dot (V 3) ''a'')) (Dot (V 3) ''c'')) (K (JNum 0))) (Seq (Call ''Jse'' []) (G ''Ise'')) (New ''ete'' [V 3]))), Loop (Meth (V 7) ''Ob'' []) [Do (SetV 6 (Call ''JD'' [Meth (V 7) ''Pb'' [], K (JNum 15)])), Do (SetV 4 (Call ''TAd'' [V 2, Dot (V 6) ''a''])), Do (And (Neg (Neg (V 4))) (Seq (Seq (Seq (Seq (Seq (SetG ''i'' (K JNull)) (SetV 8 (Call ''aCd'' [V 0, Seq (Seq (SetV 9 (Seq (Seq (Call ''zsd'' []) (SetV 10 (New ''jAd'' []))) (V 10))) (And (Neg (Neg (V 1))) (Call ''hAd'' [V 9, V 1]))) (V 9), V 4]))) (Call ''Hvd'' [V 8, Call ''VAd'' [V 4, G ''FGe'']])) (Call ''qCd'' [V 4, V 8])) (Call ''rCd'' [V 4, V 8])) (Call ''mCd'' [V 0, V 4, V 8])))] []] []]]"

definition code_5459_5483 :: "(string \<times> jfun) list" where
  "code_5459_5483 = [
    fn ''yle'' 1 4 [When (Loose (V 0) (K JNull)) [Ret (K JNull)] [Do (SetV 3 (Call ''Ase'' [V 0, K (JBool True)])), Do (SetV 4 (Dot (G ''xJe'') ''length'')), When (Call ''vgb'' [Meth (V 3) ''substr'' [Bin Minus (Dot (V 3) ''length'') (V 4), V 4], G ''xJe'']) [Do (SetV 2 (Dot (V 3) ''length'')), When (Loose (V 2) (K (JNum 4))) [Do (SetV 1 (Seq (Call ''UDb'' [K (JNum 0), Dot (V 3) ''length'']) (Meth (V 3) ''charCodeAt'' [K (JNum 0)]))), When (Loose (V 1) (K (JNum 43))) [Ret (G ''jle'')] [When (Loose (V 1) (K (JNum 45))) [Ret (G ''ile'')] []]] [When (Loose (V 2) (K (JNum 3))) [Ret (G ''jle'')] []]] [], Ret (New ''cfb'' [V 3])]],
    fn ''hD'' 1 3 [Do (SetV 2 (Dot (V 0) ''l'')), When (Neg (Loose (Bin BitAnd (V 2) (Bin Minus (V 2) (K (JNum 1)))) (K (JNum 0)))) [Ret (K (JNum (- 1)))] [], Do (SetV 3 (Dot (V 0) ''m'')), When (Neg (Loose (Bin BitAnd (V 3) (Bin Minus (V 3) (K (JNum 1)))) (K (JNum 0)))) [Ret (K (JNum (- 1)))] [], Do (SetV 1 (Dot (V 0) ''h'')), When (Neg (Loose (Bin BitAnd (V 1) (Bin Minus (V 1) (K (JNum 1)))) (K (JNum 0)))) [Ret (K (JNum (- 1)))] [], When (And (And (Loose (V 1) (K (JNum 0))) (Loose (V 3) (K (JNum 0)))) (Loose (V 2) (K (JNum 0)))) [Ret (K (JNum (- 1)))] [], When (And (And (Loose (V 1) (K (JNum 0))) (Loose (V 3) (K (JNum 0)))) (Neg (Loose (V 2) (K (JNum 0))))) [Ret (Call ''yfb'' [V 2])] [], When (And (And (Loose (V 1) (K (JNum 0))) (Neg (Loose (V 3) (K (JNum 0))))) (Loose (V 2) (K (JNum 0)))) [Ret (Bin Plus (Call ''yfb'' [V 3]) (K (JNum 22)))] [], When (And (And (Neg (Loose (V 1) (K (JNum 0)))) (Loose (V 3) (K (JNum 0)))) (Loose (V 2) (K (JNum 0)))) [Ret (Bin Plus (Call ''yfb'' [V 1]) (K (JNum 44)))] [], Ret (K (JNum (- 1)))],
    fn ''so'' 2 5 [Do (SetV 4 (Bin BitAnd (Dot (V 1) ''a'') (Dot (V 0) ''f''))), Do (SetV 5 (K JNull)), Do (SetV 3 (Idx (Dot (V 0) ''b'') (V 4))), Loop (K (JBool True)) [When (Loose (V 3) (V 1)) [Do (Cond (Neg (V 5)) (PutIdx (Dot (V 0) ''b'') (V 4) (Dot (V 1) ''b'')) (Put (V 5) ''b'' (Dot (V 1) ''b''))), Break] [], Do (SetV 5 (V 3))] [Do (SetV 3 (Dot (V 3) ''b''))], Do (SetV 6 (Bin BitAnd (Dot (V 1) ''f'') (Dot (V 0) ''f''))), Do (SetV 5 (K JNull)), Do (SetV 2 (Idx (Dot (V 0) ''c'') (V 6))), Loop (K (JBool True)) [When (Loose (V 2) (V 1)) [Do (Cond (Neg (V 5)) (PutIdx (Dot (V 0) ''c'') (V 6) (Dot (V 1) ''d'')) (Put (V 5) ''d'' (Dot (V 1) ''d''))), Break] [], Do (SetV 5 (V 2))] [Do (SetV 2 (Dot (V 2) ''d''))], Do (Cond (Neg (Dot (V 1) ''e'')) (Put (V 0) ''a'' (Dot (V 1) ''c'')) (Put (Dot (V 1) ''e'') ''c'' (Dot (V 1) ''c''))), Do (Cond (Neg (Dot (V 1) ''c'')) (Put (V 0) ''e'' (Dot (V 1) ''e'')) (Put (Dot (V 1) ''c'') ''e'' (Dot (V 1) ''e''))), Do (Put (V 0) ''i'' (Bin Minus (Dot (V 0) ''i'') (K (JNum 1)))), Do (Put (V 0) ''g'' (Bin Minus (Dot (V 0) ''g'') (K (JNum (- 1)))))],
    fn ''ut'' 2 1 [Do (Cond (Dot (V 1) ''d'') (Put (Dot (V 1) ''d'') ''b'' (Dot (V 1) ''b'')) (Put (V 0) ''a'' (Dot (V 1) ''b''))), Do (Cond (Dot (V 1) ''b'') (Put (Dot (V 1) ''b'') ''d'' (Dot (V 1) ''d'')) (Put (V 0) ''e'' (Dot (V 1) ''d''))), When (And (Neg (Dot (V 1) ''e'')) (Neg (Dot (V 1) ''c''))) [Do (SetV 2 (Call ''JD'' [Call ''Oub'' [Call ''JD'' [Call ''jjb'' [Dot (V 0) ''b'', Dot (V 1) ''a''], K (JNum 262)]], K (JNum 262)])), Do (Put (V 2) ''a'' (K (JNum 0))), Do (Put (V 0) ''c'' (Bin Minus (Dot (V 0) ''c'') (K (JNum (- 1)))))] [Do (SetV 2 (Call ''JD'' [Call ''Oub'' [Call ''JD'' [Call ''ejb'' [Dot (V 0) ''b'', Dot (V 1) ''a''], K (JNum 262)]], K (JNum 262)])), Do (Put (V 2) ''a'' (Bin Minus (Dot (V 2) ''a'') (K (JNum 1)))), Do (Cond (Neg (Dot (V 1) ''e'')) (Put (V 2) ''b'' (Call ''JD'' [Call ''Oub'' [Dot (V 1) ''c''], K (JNum 498)])) (Put (Dot (V 1) ''e'') ''c'' (Dot (V 1) ''c''))), Do (Cond (Neg (Dot (V 1) ''c'')) (Put (V 2) ''c'' (Call ''JD'' [Call ''Oub'' [Dot (V 1) ''e''], K (JNum 498)])) (Put (Dot (V 1) ''c'') ''e'' (Dot (V 1) ''e'')))], Do (Put (V 0) ''d'' (Bin Minus (Dot (V 0) ''d'') (K (JNum 1))))],
    fn ''jTb'' 2 4 [Do (SetV 5 (New ''Tjb'' [V 0, K (JNum 0)])), Do (SetV 2 (Seq (Call ''LDb'' [Bin Lt (Dot (V 5) ''b'') (Meth (Dot (V 5) ''d'') ''gc'' [])]) (Call ''JD'' [Meth (Dot (V 5) ''d'') ''Xb'' [Put (V 5) ''c'' (Bin Minus (Put (V 5) ''b'' (Bin Minus (Dot (V 5) ''b'') (K (JNum (- 1))))) (K (JNum 1)))], K (JNum 146)]))), Loop (Bin Lt (Dot (V 5) ''b'') (Meth (Dot (V 5) ''d'') ''gc'' [])) [Do (SetV 3 (Seq (Call ''LDb'' [Bin Lt (Dot (V 5) ''b'') (Meth (Dot (V 5) ''d'') ''gc'' [])]) (Call ''JD'' [Meth (Dot (V 5) ''d'') ''Xb'' [Put (V 5) ''c'' (Bin Minus (Put (V 5) ''b'' (Bin Minus (Dot (V 5) ''b'') (K (JNum (- 1))))) (K (JNum 1)))], K (JNum 146)]))), Do (SetV 4 (New ''LSb'' [Dot (V 3) ''c'', Dot (V 2) ''d'', V 1])), Do (Call ''LDb'' [Bin Gt (Dot (V 5) ''b'') (K (JNum 0))]), Do (Meth (Dot (V 5) ''a'') ''Xb'' [Put (V 5) ''c'' (Put (V 5) ''b'' (Bin Minus (Dot (V 5) ''b'') (K (JNum 1))))]), Do (Call ''Sjb'' [V 5, V 4]), Do (Call ''LDb'' [Bin Lt (Dot (V 5) ''b'') (Meth (Dot (V 5) ''d'') ''gc'' [])]), Do (Meth (Dot (V 5) ''d'') ''Xb'' [Put (V 5) ''c'' (Bin Minus (Put (V 5) ''b'' (Bin Minus (Dot (V 5) ''b'') (K (JNum (- 1))))) (K (JNum 1)))]), Do (Put (V 4) ''a'' (K (JBool False))), Do (SetV 2 (V 3))] []],
    fn ''__b'' 1 6 [Do (SetV 4 (Call ''JD'' [Call ''oNb'' [V 0, Seq (Call ''Wrc'' []) (G ''Oqc'')], K (JNum 12)])), Do (SetV 6 (New ''Kmb'' [Dot (V 0) ''j''])), Loop (Bin Lt (Dot (V 6) ''a'') (Dot (Dot (Dot (V 6) ''c'') ''c'') ''length'')) [Do (SetV 5 (Call ''JD'' [Call ''Imb'' [V 6], K (JNum 12)])), Do (SetV 3 (New ''Kmb'' [Dot (V 5) ''g''])), Loop (Bin Lt (Dot (V 3) ''a'') (Dot (Dot (Dot (V 3) ''c'') ''c'') ''length'')) [Do (SetV 1 (Call ''JD'' [Call ''Imb'' [V 3], K (JNum 17)])), Do (Call ''DWb'' [V 1, V 4]), Ret (V 5)] [], Do (SetV 2 (New ''Kmb'' [Dot (V 5) ''e''])), Loop (Bin Lt (Dot (V 2) ''a'') (Dot (Dot (Dot (V 2) ''c'') ''c'') ''length'')) [Do (SetV 1 (Call ''JD'' [Call ''Imb'' [V 2], K (JNum 17)])), Do (Call ''CWb'' [V 1, V 4]), Ret (V 5)] []] [], Ret (K JNull)],
    fn ''Q8b'' 3 6 [Do (SetV 8 (Dot (Call ''JD'' [Call ''M_b'' [Dot (V 0) ''a'', V 1], K (JNum 15)]) ''a'')), Do (Cond (V 2) (Call ''Q_b'' [Dot (V 0) ''a'', Call ''Cfb'' [Bin Plus (V 8) (K (JNum 1))], V 1]) (Call ''Q_b'' [Dot (V 0) ''a'', Call ''Cfb'' [Bin Minus (V 8) (K (JNum 1))], V 1])), Do (SetV 6 (New ''Ptb'' [])), Do (SetV 4 (New ''Yr'' [Call ''Dr'' [Meth (Dot (Cond (V 2) (Call ''HYb'' [V 1]) (Call ''EYb'' [V 1])) ''a'') ''Jc'' [], New ''Dl'' []]])), Loop (Call ''Wr'' [V 4]) [Do (SetV 3 (Call ''JD'' [Call ''Xr'' [V 4], K (JNum 17)])), Do (Cond (V 2) (SetV 5 (Dot (Dot (V 3) ''d'') ''i'')) (SetV 5 (Dot (Dot (V 3) ''c'') ''i''))), Do (And (Same (Call ''XD'' [Call ''M_b'' [Dot (V 0) ''a'', V 5]]) (Call ''XD'' [Call ''M_b'' [Dot (V 0) ''a'', V 1]])) (Seq (SetV 7 (Meth (Dot (V 6) ''a'') ''yc'' [V 5, V 6])) (Loose (V 7) (K JNull))))] [], Ret (V 6)],
    fn ''qA'' 3 2 [Do (SetV 3 (Call ''Scb'' [Meth (Dot (V 2) ''q'') ''getTime'' []])), When (Bin Lt (Call ''Ocb'' [V 3, K (JNum 0)]) (K (JNum 0))) [Do (SetV 4 (Bin Minus (G ''Oue'') (Call ''gdb'' [Call ''Xcb'' [Call ''Zcb'' [V 3], G ''Oue'']]))), Do (And (Loose (V 4) (G ''Oue'')) (SetV 4 (K (JNum 0))))] [Do (SetV 4 (Call ''gdb'' [Call ''Xcb'' [V 3, G ''Oue'']]))], When (Loose (V 1) (K (JNum 1))) [Do (SetV 4 (Meth (Dot (G ''$wnd'') ''Math'') ''min'' [Bin DivInt (Bin Plus (V 4) (K (JNum 50))) (K (JNum 100)), K (JNum 9)])), Do (Call ''bhb'' [V 0, Bin BitAnd (Bin Plus (K (JNum 48)) (V 4)) (G ''Pue'')])] [When (Loose (V 1) (K (JNum 2))) [Do (SetV 4 (Meth (Dot (G ''$wnd'') ''Math'') ''min'' [Bin DivInt (Bin Plus (V 4) (K (JNum 5))) (K (JNum 10)), K (JNum 99)])), Do (Call ''MA'' [V 0, V 4, K (JNum 2)])] [Do (Call ''MA'' [V 0, V 4, K (JNum 3)]), Do (And (Bin Gt (V 1) (K (JNum 3))) (Call ''MA'' [V 0, K (JNum 0), Bin Minus (V 1) (K (JNum 3))]))]]],
    fn ''IQb'' 1 4 [When (Same (Call ''XD'' [Call ''oNb'' [V 0, Seq (Call ''nyc'' []) (G ''swc'')]]) (Call ''XD'' [Seq (Call ''Qkd'' []) (G ''Nkd'')])) [Ret (And (Neg (Dot (V 0) ''e'')) (Neg (Same (Call ''XD'' [Call ''oNb'' [V 0, G ''Svc'']]) (Call ''XD'' [Seq (Call ''eqc'' []) (G ''bqc'')]))))] [], Do (SetV 3 (Call ''JD'' [Call ''oNb'' [V 0, G ''Tvc''], K (JNum 302)])), Do (SetV 4 (Or (Call ''Rdb'' [Call ''LD'' [Call ''oNb'' [V 0, G ''Zvc'']]]) (Same (Call ''XD'' [Call ''oNb'' [V 0, G ''$vc'']]) (Call ''XD'' [Seq (Call ''Xnc'' []) (G ''Tnc'')])))), Do (SetV 1 (Dot (Call ''JD'' [Call ''oNb'' [V 0, G ''Rvc''], K (JNum 15)]) ''a'')), Do (SetV 2 (Dot (Dot (Dot (V 0) ''a'') ''c'') ''length'')), Ret (And (And (Neg (V 4)) (Neg (Loose (V 3) (Seq (Call ''eqc'' []) (G ''bqc''))))) (Or (Loose (V 1) (K (JNum 0))) (Bin Gt (V 1) (V 2))))],
    fn ''J9b'' 2 7 [Do (SetV 4 (Meth (V 0) ''Jc'' [])), Loop (Meth (V 4) ''Ob'' []) [Do (SetV 3 (Call ''JD'' [Meth (V 4) ''Pb'' [], K (JNum 9)])), Do (SetV 7 (New ''yZb'' [])), Do (Call ''wZb'' [V 7, V 3]), Do (Call ''xZb'' [V 7, Seq (Call ''Bmd'' []) (G ''gmd'')]), Do (Call ''rNb'' [V 7, Seq (Call ''Wrc'' []) (G ''Brc''), Seq (Call ''Qdb'' []) (K (JBool True))]), Do (SetV 6 (Meth (V 1) ''Jc'' [])), Loop (Meth (V 6) ''Ob'' []) [Do (SetV 5 (Call ''JD'' [Meth (V 6) ''Pb'' [], K (JNum 9)])), Do (SetV 8 (New ''yZb'' [])), Do (Call ''wZb'' [V 8, V 5]), Do (Call ''xZb'' [V 8, G ''Amd'']), Do (Call ''rNb'' [V 8, G ''Brc'', K (JBool True)]), Do (SetV 2 (New ''GWb'' [])), Do (Call ''rNb'' [V 2, G ''Brc'', K (JBool True)]), Do (Call ''CWb'' [V 2, V 7]), Do (Call ''DWb'' [V 2, V 8])] []] []],
    fn ''bic'' 1 2 [Do (SetV 2 (K (JNum 0))), Loop (Bin Lt (V 2) (Dot (Dot (V 0) ''c'') ''length'')) [When (Bin Gt (Call ''Ehc'' [Seq (Call ''MDb'' [V 2, Dot (Dot (V 0) ''c'') ''length'']) (Call ''JD'' [Idx (Dot (V 0) ''c'') (V 2), K (JNum 113)])]) (K (JNum 0))) [Break] []] [Do (Bin Minus (SetV 2 (Bin Minus (V 2) (K (JNum (- 1))))) (K (JNum 1)))], When (And (Bin Gt (V 2) (K (JNum 0))) (Bin Lt (V 2) (Bin Minus (Dot (Dot (V 0) ''c'') ''length'') (K (JNum 1))))) [Ret (V 2)] [], Do (SetV 1 (K (JNum 0))), Loop (Bin Lt (V 1) (Dot (Dot (V 0) ''c'') ''length'')) [When (Bin Gt (Call ''Ehc'' [Seq (Call ''MDb'' [V 1, Dot (Dot (V 0) ''c'') ''length'']) (Call ''JD'' [Idx (Dot (V 0) ''c'') (V 1), K (JNum 113)])]) (K (JNum 0))) [Break] []] [Do (Bin Minus (SetV 1 (Bin Minus (V 1) (K (JNum (- 1))))) (K (JNum 1)))], When (And (Bin Gt (V 1) (K (JNum 0))) (Bin Lt (V 2) (Bin Minus (Dot (Dot (V 0) ''c'') ''length'') (K (JNum 1))))) [Ret (V 1)] [], Ret (Bin DivInt (Dot (Dot (V 0) ''c'') ''length'') (K (JNum 2)))],
    fn ''Vmc'' 2 7 [Do (SetV 4 (K (JNum 0))), Do (SetV 6 (New ''Kmb'' [Dot (V 1) ''a''])), Loop (Bin Lt (Dot (V 6) ''a'') (Dot (Dot (Dot (V 6) ''c'') ''c'') ''length'')) [Do (SetV 5 (Call ''JD'' [Call ''Imb'' [V 6], K (JNum 9)])), Do (SetV 4 (Bin Plus (V 4) (Bin Plus (Bin Plus (Bin Plus (Dot (Dot (V 5) ''o'') ''b'') (Dot (Dot (V 5) ''d'') ''a'')) (Dot (Dot (V 5) ''d'') ''d'')) (Dot (V 0) ''e'')))), Do (SetV 3 (New ''Yr'' [Call ''Dr'' [Meth (Dot (Call ''EYb'' [V 5]) ''a'') ''Jc'' [], New ''Dl'' []]])), Loop (Call ''Wr'' [V 3]) [Do (SetV 2 (Call ''JD'' [Call ''Xr'' [V 3], K (JNum 17)])), When (Loose (Dot (Dot (Dot (V 2) ''c'') ''i'') ''k'') (Seq (Call ''$Yb'' []) (G ''YYb''))) [Do (SetV 8 (Dot (Dot (V 2) ''c'') ''i'')), Do (SetV 7 (Call ''JD'' [Call ''oNb'' [V 8, Seq (Call ''Wrc'' []) (G ''urc'')], K (JNum 9)])), Do (SetV 4 (Bin Plus (V 4) (Bin Plus (Bin Plus (Dot (Dot (V 7) ''o'') ''b'') (Dot (Dot (V 7) ''d'') ''a'')) (Dot (Dot (V 7) ''d'') ''d''))))] []] []] [], Ret (V 4)],
    fn ''t3c'' 2 4 [Do (Meth (V 1) ''Tg'' [K (JStr ''Min Size Preprocessing''), K (JNum 1)]), Do (SetV 3 (Call ''Xpd'' [V 0])), When (Call ''Rzd'' [V 0]) [Do (SetV 2 (Seq (Call ''Jrd'' []) (New ''Xrd'' [Call ''Rzd'' [V 0]]))), Do (SetV 5 (New ''bsd'' [Cond (Neg (Call ''Rzd'' [V 0])) (K JNull) (New ''Xrd'' [Call ''Rzd'' [V 0]]), V 0])), Do (SetV 4 (Call ''jHb'' [V 2, V 5, K (JBool False), K (JBool True)])), Do (Put (V 3) ''a'' (Meth (Dot (G ''$wnd'') ''Math'') ''max'' [Dot (V 3) ''a'', Dot (V 4) ''a''])), Do (Put (V 3) ''b'' (Meth (Dot (G ''$wnd'') ''Math'') ''max'' [Dot (V 3) ''b'', Dot (V 4) ''b'']))] [], Do (Call ''evd'' [V 0, Seq (Call ''P3c'' []) (G ''M3c''), Dot (V 3) ''a'']), Do (Call ''evd'' [V 0, G ''J3c'', Dot (V 3) ''b'']), Do (Meth (V 1) ''Ug'' [])],
    fn ''gxd'' 2 2 [When (Or (Neg (Loose (V 1) (Dot (V 0) ''Cb''))) (And (Neg (Loose (Bin Shr (Dot (V 0) ''Db'') (K (JNum 16))) (K (JNum 6)))) (Neg (Neg (V 1))))) [When (Call ''_he'' [V 0, V 1]) [Raise (Call ''Lcb'' [New ''kfb'' [Bin Plus (G ''dGe'') (Call ''kxd'' [V 0])]])] [], Do (SetV 3 (K JNull)), Do (And (Neg (Neg (Dot (V 0) ''Cb''))) (SetV 3 (Seq (SetV 2 (Bin Shr (Dot (V 0) ''Db'') (K (JNum 16)))) (Cond (Bin Ge (V 2) (K (JNum 0))) (Call ''Ywd'' [V 0, V 3]) (Meth (Dot (V 0) ''Cb'') ''Qh'' [V 0, Bin Minus (K (JNum (- 1))) (V 2), K JNull, V 3]))))), Do (And (Neg (Neg (V 1))) (SetV 3 (Call ''etd'' [V 1, V 0, K (JNum 6), V 3]))), Do (SetV 3 (Call ''Xwd'' [V 0, V 1, V 3])), Do (And (Neg (Neg (V 3))) (Meth (V 3) ''mj'' []))] [Do (And (And (Neg (Loose (Bin BitAnd (Dot (V 0) ''Db'') (K (JNum 4))) (K (JNum 0)))) (Loose (Bin BitAnd (Dot (V 0) ''Db'') (K (JNum 1))) (K (JNum 0)))) (Call ''Osd'' [V 0, New ''$1d'' [V 0, K (JNum 1), K (JNum 6), V 1, V 1]]))]],
    fn ''Lwd'' 2 2 [When (Or (Neg (Loose (V 1) (Dot (V 0) ''Cb''))) (And (Neg (Loose (Bin Shr (Dot (V 0) ''Db'') (K (JNum 16))) (K (JNum 3)))) (Neg (Neg (V 1))))) [When (Call ''_he'' [V 0, V 1]) [Raise (Call ''Lcb'' [New ''kfb'' [Bin Plus (G ''dGe'') (Call ''Mwd'' [V 0])]])] [], Do (SetV 3 (K JNull)), Do (And (Neg (Neg (Dot (V 0) ''Cb''))) (SetV 3 (Seq (SetV 2 (Bin Shr (Dot (V 0) ''Db'') (K (JNum 16)))) (Cond (Bin Ge (V 2) (K (JNum 0))) (Call ''Fwd'' [V 0, V 3]) (Meth (Dot (V 0) ''Cb'') ''Qh'' [V 0, Bin Minus (K (JNum (- 1))) (V 2), K JNull, V 3]))))), Do (And (Neg (Neg (V 1))) (SetV 3 (Call ''etd'' [V 1, V 0, K (JNum 12), V 3]))), Do (SetV 3 (Call ''Ewd'' [V 0, V 1, V 3])), Do (And (Neg (Neg (V 3))) (Meth (V 3) ''mj'' []))] [Do (And (And (Neg (Loose (Bin BitAnd (Dot (V 0) ''Db'') (K (JNum 4))) (K (JNum 0)))) (Loose (Bin BitAnd (Dot (V 0) ''Db'') (K (JNum 1))) (K (JNum 0)))) (Call ''Osd'' [V 0, New ''$1d'' [V 0, K (JNum 1), K (JNum 3), V 1, V 1]]))]],
    fn ''hAd'' 2 2 [When (Or (Neg (Loose (V 1) (Dot (V 0) ''Cb''))) (And (Neg (Loose (Bin Shr (Dot (V 0) ''Db'') (K (JNum 16))) (K (JNum 9)))) (Neg (Neg (V 1))))) [When (Call ''_he'' [V 0, V 1]) [Raise (Call ''Lcb'' [New ''kfb'' [Bin Plus (G ''dGe'') (Call ''iAd'' [V 0])]])] [], Do (SetV 3 (K JNull)), Do (And (Neg (Neg (Dot (V 0) ''Cb''))) (SetV 3 (Seq (SetV 2 (Bin Shr (Dot (V 0) ''Db'') (K (JNum 16)))) (Cond (Bin Ge (V 2) (K (JNum 0))) (Call ''fAd'' [V 0, V 3]) (Meth (Dot (V 0) ''Cb'') ''Qh'' [V 0, Bin Minus (K (JNum (- 1))) (V 2), K JNull, V 3]))))), Do (And (Neg (Neg (V 1))) (SetV 3 (Call ''etd'' [V 1, V 0, K (JNum 9), V 3]))), Do (SetV 3 (Call ''eAd'' [V 0, V 1, V 3])), Do (And (Neg (Neg (V 3))) (Meth (V 3) ''mj'' []))] [Do (And (And (Neg (Loose (Bin BitAnd (Dot (V 0) ''Db'') (K (JNum 4))) (K (JNum 0)))) (Loose (Bin BitAnd (Dot (V 0) ''Db'') (K (JNum 1))) (K (JNum 0)))) (Call ''Osd'' [V 0, New ''$1d'' [V 0, K (JNum 1), K (JNum 9), V 1, V 1]]))]],
    fn ''GUd'' 1 6 [Do (SetV 3 (Call ''hUd'' [V 0])), Do (SetV 5 (Dot (V 0) ''j'')), When (And (Loose (V 5) (K JNull)) (Neg (Neg (V 3)))) [Ret (Cond (Meth (V 0) ''Hk'' []) (K JNull) (Meth (V 3) ''gk'' []))] [When (Call ''RD'' [V 3, K (JNum 159)]) [Do (SetV 2 (Meth (V 3) ''hk'' [])), When (V 2) [Do (SetV 4 (Meth (V 2) ''ti'' [])), When (Neg (Loose (V 4) (Dot (V 0) ''i''))) [Do (SetV 1 (Call ''JD'' [V 3, K (JNum 159)])), When (Meth (V 1) ''lk'' []) [Try [Do (Put (V 0) ''g'' (Meth (V 4) ''qi'' [V 1, V 5]))] 6 [Do (SetV 6 (Call ''Kcb'' [V 6])), When (Call ''RD'' [V 6, K (JNum 80)]) [Do (Put (V 0) ''g'' (K JNull))] [Raise (Call ''Lcb'' [V 6])]]] [], Do (Put (V 0) ''i'' (V 4))] []] [], Ret (Dot (V 0) ''g'')] []], Ret (K JNull)],
    fn ''PMb'' 1 1 [Do (SetV 1 (New ''lmb'' [])), Do (Call ''_lb'' [V 1, New ''kEb'' [New ''lgd'' [Dot (V 0) ''c'', Dot (V 0) ''d''], New ''lgd'' [Bin Plus (Dot (V 0) ''c'') (Dot (V 0) ''b''), Dot (V 0) ''d'']]]), Do (Call ''_lb'' [V 1, New ''kEb'' [New ''lgd'' [Dot (V 0) ''c'', Dot (V 0) ''d''], New ''lgd'' [Dot (V 0) ''c'', Bin Plus (Dot (V 0) ''d'') (Dot (V 0) ''a'')]]]), Do (Call ''_lb'' [V 1, New ''kEb'' [New ''lgd'' [Bin Plus (Dot (V 0) ''c'') (Dot (V 0) ''b''), Bin Plus (Dot (V 0) ''d'') (Dot (V 0) ''a'')], New ''lgd'' [Bin Plus (Dot (V 0) ''c'') (Dot (V 0) ''b''), Dot (V 0) ''d'']]]), Do (Call ''_lb'' [V 1, New ''kEb'' [New ''lgd'' [Bin Plus (Dot (V 0) ''c'') (Dot (V 0) ''b''), Bin Plus (Dot (V 0) ''d'') (Dot (V 0) ''a'')], New ''lgd'' [Dot (V 0) ''c'', Bin Plus (Dot (V 0) ''d'') (Dot (V 0) ''a'')]]]), Ret (V 1)],
    fn ''Vjc'' 1 4 [Do (SetV 3 (Dot (Dot (Dot (V 0) ''a'') ''d'') ''j'')), Do (SetV 4 (Dot (Dot (Dot (V 0) ''c'') ''d'') ''j'')), Do (SetV 2 (New ''Kmb'' [Dot (Dot (V 0) ''i'') ''d''])), Loop (Bin Lt (Dot (V 2) ''a'') (Dot (Dot (Dot (V 2) ''c'') ''c'') ''length'')) [Do (SetV 1 (Call ''JD'' [Call ''Imb'' [V 2], K (JNum 70)])), Do (Call ''rNb'' [V 1, Seq (Call ''nyc'' []) (G ''fwc''), K JNull])] [], Do (Cond (Loose (V 3) (Seq (Call ''Bmd'' []) (G ''hmd''))) (Call ''Tjc'' [V 0, G ''hmd'', Seq (Call ''phc'' []) (G ''mhc''), Dot (V 0) ''a'']) (Cond (Loose (V 4) (G ''hmd'')) (Call ''Tjc'' [V 0, G ''hmd'', Seq (Call ''phc'' []) (G ''nhc''), Dot (V 0) ''c'']) (Cond (Loose (V 3) (G ''ymd'')) (Call ''Tjc'' [V 0, G ''ymd'', Seq (Call ''phc'' []) (G ''nhc''), Dot (V 0) ''a'']) (And (Loose (V 4) (G ''ymd'')) (Call ''Tjc'' [V 0, G ''ymd'', Seq (Call ''phc'' []) (G ''mhc''), Dot (V 0) ''c''])))))],
    fn ''ic'' 1 4 [When (Loose (V 0) (K JNull)) [Ret (G ''Kte'')] [], Try [Ret (Call ''tdb'' [V 0])] 4 [Do (SetV 4 (Call ''Kcb'' [V 4])), When (Call ''RD'' [V 4, K (JNum 101)]) [Do (SetV 1 (V 4)), Do (SetV 3 (Bin Plus (Bin Plus (Call ''xeb'' [Call ''rb'' [V 0]]) (K (JStr ''@''))) (Seq (SetV 2 (Bin Ushr (Seq (Call ''qhb'' []) (Call ''CDb'' [V 0])) (K (JNum 0)))) (Meth (V 2) ''toString'' [K (JNum 16)])))), Do (Call ''tAb'' [Call ''xAb'' [], Seq (Call ''$zb'' []) (Bin Plus (K (JStr ''Exception during lenientFormat for '')) (V 3)), V 1]), Ret (Bin Plus (Bin Plus (Bin Plus (Bin Plus (K (JStr ''<'')) (V 3)) (K (JStr '' threw ''))) (Call ''xeb'' [Dot (V 1) ''Pm''])) (K (JStr ''>'')))] [Raise (Call ''Lcb'' [V 4])]]],
    fn ''Dy'' 1 9 [Do (SetV 3 (K (JBool False))), Do (SetV 1 (K (JNum 336))), Do (SetV 2 (K (JNum 0))), Do (SetV 5 (New ''bq'' [Dot (V 0) ''length''])), Do (Seq (Seq (SetV 7 (V 0)) (SetV 8 (K (JNum 0)))) (SetV 9 (Dot (V 7) ''length''))), Loop (Bin Lt (V 8) (V 9)) [Do (SetV 6 (Idx (V 7) (V 8))), Do (SetV 3 (Bin BitOr (V 3) (Seq (Call ''dBb'' [V 6]) (K (JBool False))))), Do (SetV 4 (Seq (Call ''cBb'' [V 6]) (Dot (V 6) ''a''))), Do (Call ''_lb'' [Dot (V 5) ''a'', Call ''Qb'' [V 4]]), Do (SetV 1 (Bin BitAnd (V 1) (Meth (V 4) ''wd'' []))), Do (SetV 2 (Call ''Vy'' [V 2, Meth (V 4) ''xd'' []]))] [Do (SetV 8 (Bin Minus (V 8) (K (JNum (- 1)))))], Ret (Call ''JD'' [Call ''JD'' [Call ''aBb'' [New ''jCb'' [K JNull, Call ''ck'' [New ''Zvb'' [Call ''wm'' [Dot (V 5) ''a''], K (JNum 16)], New ''Fy'' [], V 1, V 2]], New ''Hy'' [V 0]], K (JNum 677)], K (JNum 833)])],
    fn ''dlc'' 4 4 [Do (SetV 4 (Call ''blc'' [V 0, V 1, V 2])), Do (SetV 5 (Call ''blc'' [V 0, V 2, V 1])), Do (SetV 6 (Call ''JD'' [Call ''ejb'' [Dot (V 0) ''c'', V 1], K (JNum 116)])), Do (SetV 7 (Call ''JD'' [Call ''ejb'' [Dot (V 0) ''c'', V 2], K (JNum 116)])), When (Bin Lt (V 4) (V 5)) [Do (New ''MPc'' [Seq (Call ''QPc'' []) (G ''PPc''), V 6, V 7, Bin Minus (V 5) (V 4)])] [When (Bin Lt (V 5) (V 4)) [Do (New ''MPc'' [Seq (Call ''QPc'' []) (G ''PPc''), V 7, V 6, Bin Minus (V 4) (V 5)])] [When (Or (Neg (Loose (V 4) (K (JNum 0)))) (And (Neg (Or (Neg (Dot (V 1) ''i'')) (Neg (Dot (V 2) ''i'')))) (Idx (Idx (V 3) (Dot (Dot (V 1) ''i'') ''c'')) (Dot (Dot (V 2) ''i'') ''c'')))) [Do (New ''MPc'' [Seq (Call ''QPc'' []) (G ''PPc''), V 6, V 7, K (JNum 0)]), Do (New ''MPc'' [G ''PPc'', V 7, V 6, K (JNum 0)])] []]]],
    fn ''Mmc'' 3 5 [Do (Meth (V 2) ''Tg'' [K (JStr ''Breaking Point Removing''), K (JNum 1)]), Do (Put (V 0) ''a'' (Call ''JD'' [Call ''oNb'' [V 1, Seq (Call ''nyc'' []) (G ''iwc'')], K (JNum 222)])), Do (SetV 5 (New ''Kmb'' [Dot (V 1) ''b''])), Loop (Bin Lt (Dot (V 5) ''a'') (Dot (Dot (Dot (V 5) ''c'') ''c'') ''length'')) [Do (SetV 4 (Call ''JD'' [Call ''Imb'' [V 5], K (JNum 25)])), Do (SetV 7 (New ''Kmb'' [Call ''Uu'' [Dot (V 4) ''a'']])), Loop (Bin Lt (Dot (V 7) ''a'') (Dot (Dot (Dot (V 7) ''c'') ''c'') ''length'')) [Do (SetV 6 (Call ''JD'' [Call ''Imb'' [V 7], K (JNum 9)])), When (Call ''mmc'' [V 6]) [Do (SetV 3 (Call ''JD'' [Call ''oNb'' [V 6, Seq (Call ''Wrc'' []) (G ''Mqc'')], K (JNum 318)])), Do (And (Neg (Dot (V 3) ''d'')) (Call ''Nmc'' [V 0, V 3]))] []] []] [], Do (Meth (V 2) ''Ug'' [])],
    fn ''o7c'' 0 0 [Do (SetG ''o7c'' (G ''qdb'')), Do (SetG ''k7c'' (New ''p7c'' [K (JStr ''CANDIDATE_POSITION_LAST_PLACED_RIGHT''), K (JNum 0)])), Do (SetG ''j7c'' (New ''p7c'' [K (JStr ''CANDIDATE_POSITION_LAST_PLACED_BELOW''), K (JNum 1)])), Do (SetG ''m7c'' (New ''p7c'' [K (JStr ''CANDIDATE_POSITION_WHOLE_DRAWING_RIGHT''), K (JNum 2)])), Do (SetG ''l7c'' (New ''p7c'' [K (JStr ''CANDIDATE_POSITION_WHOLE_DRAWING_BELOW''), K (JNum 3)])), Do (SetG ''n7c'' (New ''p7c'' [K (JStr ''WHOLE_DRAWING''), K (JNum 4)]))],
    fn ''gWb'' 1 4 [Do (SetV 3 (New ''Fjb'' [Dot (New ''wjb'' [Dot (V 0) ''b'']) ''a''])), Loop (Dot (V 3) ''b'') [Do (SetV 2 (Call ''Djb'' [V 3])), Do (SetV 4 (Call ''JD'' [Meth (V 2) ''jd'' [], K (JNum 12)])), Do (SetV 1 (Call ''JD'' [Meth (V 2) ''kd'' [], K (JNum 9)])), Do (Call ''rNb'' [V 1, Seq (Call ''Wrc'' []) (G ''urc''), V 4]), Do (Call ''rNb'' [V 4, G ''Crc'', V 1]), Do (Call ''rNb'' [V 4, G ''erc'', Seq (Call ''Qdb'' []) (K (JBool True))]), Do (Call ''xZb'' [V 4, Call ''JD'' [Call ''oNb'' [V 1, G ''$qc''], K (JNum 64)]]), Do (Call ''oNb'' [V 1, G ''$qc'']), Do (Call ''rNb'' [Dot (V 4) ''i'', Seq (Call ''nyc'' []) (G ''qxc''), Seq (Call ''Mld'' []) (G ''Jld'')]), Do (Meth (Call ''JD'' [Call ''oNb'' [Call ''DYb'' [Dot (V 4) ''i''], G ''brc''], K (JNum 22)]) ''Ec'' [Seq (Call ''Xpc'' []) (G ''Tpc'')])] []]]"

definition code_5484_5485 :: "(string \<times> jfun) list" where
  "code_5484_5485 = [
    fn ''Rfc'' 1 7 [Do (SetV 5 (New ''dub'' [])), Do (SetV 4 (New ''Kmb'' [Dot (Dot (V 0) ''d'') ''a''])), Loop (Bin Lt (Dot (V 4) ''a'') (Dot (Dot (Dot (V 4) ''c'') ''c'') ''length'')) [Do (SetV 3 (Call ''JD'' [Call ''Imb'' [V 4], K (JNum 124)])), Do (And (Loose (Dot (Dot (Dot (Dot (V 3) ''b'') ''a'') ''c'') ''length'') (K (JNum 0))) (Seq (Call ''Wtb'' [V 5, V 3, Dot (Dot (V 5) ''c'') ''b'', Dot (V 5) ''c'']) (K (JBool True))))] [], When (Bin Gt (Dot (V 5) ''b'') (K (JNum 1))) [Do (SetV 1 (Call ''JGb'' [Seq (Seq (SetV 2 (New ''LGb'' [])) (Put (V 0) ''b'' (Bin Minus (Dot (V 0) ''b'') (K (JNum (- 1)))))) (V 2), Dot (V 0) ''d''])), Do (SetV 7 (Call ''Ztb'' [V 5, K (JNum 0)])), Loop (Neg (Loose (Dot (V 7) ''b'') (Dot (Dot (V 7) ''d'') ''c''))) [Do (SetV 6 (Call ''JD'' [Call ''lub'' [V 7], K (JNum 124)])), Do (Call ''XFb'' [Call ''$Fb'' [Call ''ZFb'' [Call ''_Fb'' [Call ''YFb'' [New ''aGb'' [], K (JNum 1)], K (JNum 0)], V 1], V 6]])] []] []],
    fn ''Uzd'' 2 2 [When (Or (Neg (Loose (V 1) (Dot (V 0) ''Cb''))) (And (Neg (Loose (Bin Shr (Dot (V 0) ''Db'') (K (JNum 16))) (K (JNum 11)))) (Neg (Neg (V 1))))) [When (Call ''_he'' [V 0, V 1]) [Raise (Call ''Lcb'' [New ''kfb'' [Bin Plus (G ''dGe'') (Call ''Vzd'' [V 0])]])] [], Do (SetV 3 (K JNull)), Do (And (Neg (Neg (Dot (V 0) ''Cb''))) (SetV 3 (Seq (SetV 2 (Bin Shr (Dot (V 0) ''Db'') (K (JNum 16)))) (Cond (Bin Ge (V 2) (K (JNum 0))) (Call ''Ozd'' [V 0, V 3]) (Meth (Dot (V 0) ''Cb'') ''Qh'' [V 0, Bin Minus (K (JNum (- 1))) (V 2), K JNull, V 3]))))), Do (And (Neg (Neg (V 1))) (SetV 3 (Call ''etd'' [V 1, V 0, K (JNum 10), V 3]))), Do (SetV 3 (Call ''Nzd'' [V 0, V 1, V 3])), Do (And (Neg (Neg (V 3))) (Meth (V 3) ''mj'' []))] [Do (And (And (Neg (Loose (Bin BitAnd (Dot (V 0) ''Db'') (K (JNum 4))) (K (JNum 0)))) (Loose (Bin BitAnd (Dot (V 0) ''Db'') (K (JNum 1))) (K (JNum 0)))) (Call ''Osd'' [V 0, New ''$1d'' [V 0, K (JNum 1), K (JNum 11), V 1, V 1]]))]]]"

definition code_5487_5510 :: "(string \<times> jfun) list" where
  "code_5487_5510 = [
    fn ''S9b'' 2 6 [Do (Meth (V 1) ''Tg'' [K (JStr ''Partition postprocessing''), K (JNum 1)]), Do (SetV 3 (New ''Kmb'' [Dot (V 0) ''b''])), Loop (Bin Lt (Dot (V 3) ''a'') (Dot (Dot (Dot (V 3) ''c'') ''c'') ''length'')) [Do (SetV 2 (Call ''JD'' [Call ''Imb'' [V 3], K (JNum 25)])), Do (SetV 5 (New ''Kmb'' [Dot (V 2) ''a''])), Loop (Bin Lt (Dot (V 5) ''a'') (Dot (Dot (Dot (V 5) ''c'') ''c'') ''length'')) [Do (SetV 4 (Call ''JD'' [Call ''Imb'' [V 5], K (JNum 9)])), Do (SetV 7 (New ''Kmb'' [Dot (V 4) ''j''])), Loop (Bin Lt (Dot (V 7) ''a'') (Dot (Dot (Dot (V 7) ''c'') ''c'') ''length'')) [Do (SetV 6 (Call ''JD'' [Call ''Imb'' [V 7], K (JNum 12)])), Do (And (Call ''Rdb'' [Call ''LD'' [Call ''oNb'' [V 6, Seq (Call ''Wrc'' []) (G ''Brc'')]]]) (Call ''Jmb'' [V 7]))] []] []] [], Do (Meth (V 1) ''Ug'' [])],
    fn ''Phc'' 1 2 [Do (Call ''Nhc'' []), When (Meth (V 0) ''Gc'' [Seq (Call ''Bmd'' []) (G ''zmd'')]) [Raise (Call ''Lcb'' [New ''kfb'' [K (JStr ''Port sides must not contain UNDEFINED'')]])] [], Switch (Meth (V 0) ''gc'' []) [(Some (JNum 1), [Ret (G ''Jhc'')]), (Some (JNum 2), [Do (SetV 1 (And (Meth (V 0) ''Gc'' [G ''gmd'']) (Meth (V 0) ''Gc'' [G ''Amd'']))), Do (SetV 2 (And (Meth (V 0) ''Gc'' [G ''hmd'']) (Meth (V 0) ''Gc'' [G ''ymd'']))), Ret (Cond (Or (V 1) (V 2)) (G ''Mhc'') (G ''Lhc''))]), (Some (JNum 3), [Ret (G ''Khc'')]), (Some (JNum 4), [Ret (G ''Ihc'')]), (None, [Ret (K JNull)])]],
    fn ''zfd'' 3 0 [Do (Call ''qfd'' []), When (And (Call ''ufd'' [V 0, V 1]) (Call ''ufd'' [V 0, V 2])) [Ret (K (JBool False))] [], Ret (Or (Or (Or (Call ''Afd'' [New ''lgd'' [Dot (V 0) ''c'', Dot (V 0) ''d''], New ''lgd'' [Bin Plus (Dot (V 0) ''c'') (Dot (V 0) ''b''), Dot (V 0) ''d''], V 1, V 2]) (Call ''Afd'' [New ''lgd'' [Bin Plus (Dot (V 0) ''c'') (Dot (V 0) ''b''), Dot (V 0) ''d''], New ''lgd'' [Bin Plus (Dot (V 0) ''c'') (Dot (V 0) ''b''), Bin Plus (Dot (V 0) ''d'') (Dot (V 0) ''a'')], V 1, V 2])) (Call ''Afd'' [New ''lgd'' [Bin Plus (Dot (V 0) ''c'') (Dot (V 0) ''b''), Bin Plus (Dot (V 0) ''d'') (Dot (V 0) ''a'')], New ''lgd'' [Dot (V 0) ''c'', Bin Plus (Dot (V 0) ''d'') (Dot (V 0) ''a'')], V 1, V 2])) (Call ''Afd'' [New ''lgd'' [Dot (V 0) ''c'', Bin Plus (Dot (V 0) ''d'') (Dot (V 0) ''a'')], New ''lgd'' [Dot (V 0) ''c'', Dot (V 0) ''d''], V 1, V 2]))],
    fn ''ide'' 2 4 [When (Neg (Meth (V 0) ''dc'' [])) [Do (Seq (SetV 2 (K (JNum 0))) (SetV 3 (Meth (V 0) ''gc'' []))), Loop (Bin Lt (V 2) (V 3)) [Do (SetV 5 (Call ''OD'' [Meth (V 0) ''Xb'' [V 2]])), When (Cond (Loose (V 5) (K JNull)) (Loose (V 1) (K JNull)) (Cond (Call ''vgb'' [Meth (V 5) ''substr'' [K (JNum 0), K (JNum 3)], K (JStr ''!##'')]) (And (And (Neg (Loose (V 1) (K JNull))) (Seq (SetV 4 (Dot (V 1) ''length'')) (Or (Neg (Call ''vgb'' [Meth (V 5) ''substr'' [Bin Minus (Dot (V 5) ''length'') (V 4), V 4], V 1])) (Neg (Loose (Dot (V 5) ''length'') (Bin Plus (Dot (V 1) ''length'') (K (JNum 3)))))))) (Neg (Call ''vgb'' [G ''oJe'', V 1]))) (Or (And (Call ''vgb'' [V 5, G ''pJe'']) (Neg (Call ''vgb'' [G ''oJe'', V 1]))) (Call ''vgb'' [V 5, V 1])))) [Ret (K (JBool True))] []] [Do (SetV 2 (Bin Minus (V 2) (K (JNum (- 1)))))]] [], Ret (K (JBool False))],
    fn ''M0b'' 4 6 [Do (SetV 6 (Dot (Dot (Dot (V 0) ''j'') ''c'') ''length'')), Do (SetV 8 (Call ''SC'' [G ''lN'', G ''Swe'', K (JNum 319), V 6, K (JNum 0), K (JNum 1)])), Do (SetV 7 (K (JNum 0))), Loop (Bin Lt (V 7) (V 6)) [Do (SetV 5 (Call ''JD'' [Call ''dmb'' [Dot (V 0) ''j'', V 7], K (JNum 12)])), Do (Put (V 5) ''p'' (V 7)), Do (PutIdx (V 8) (V 7) (Call ''G0b'' [Call ''Q0b'' [V 5], V 2, V 3]))] [Do (Bin Minus (SetV 7 (Bin Minus (V 7) (K (JNum (- 1))))) (K (JNum 1)))], Do (Call ''I0b'' [V 0, V 8, V 2, V 1, V 3]), Do (SetV 9 (New ''_rb'' [])), Do (SetV 4 (K (JNum 0))), Loop (Bin Lt (V 4) (Dot (V 8) ''length'')) [Do (And (Neg (Neg (Idx (V 8) (V 4)))) (Call ''hjb'' [V 9, Call ''JD'' [Call ''dmb'' [Dot (V 0) ''j'', V 4], K (JNum 12)], Idx (V 8) (V 4)]))] [Do (Bin Minus (SetV 4 (Bin Minus (V 4) (K (JNum (- 1))))) (K (JNum 1)))], When (Neg (Loose (Bin Plus (Dot (Dot (V 9) ''f'') ''c'') (Dot (Dot (V 9) ''i'') ''c'')) (K (JNum 0)))) [Do (Call ''rNb'' [V 0, Seq (Call ''Wrc'' []) (G ''Vqc''), V 9]), Do (Call ''O0b'' [V 0, V 8])] []],
    fn ''qec'' 3 3 [Do (SetV 4 (New ''Kmb'' [Dot (Dot (V 0) ''a'') ''b''])), Loop (Bin Lt (Dot (V 4) ''a'') (Dot (Dot (Dot (V 4) ''c'') ''c'') ''length'')) [Do (SetV 3 (Call ''JD'' [Call ''Imb'' [V 4], K (JNum 60)])), Do (SetV 5 (Call ''$dc'' [V 3])), When (V 5) [When (Loose (Dot (V 5) ''k'') (Seq (Call ''$Yb'' []) (G ''TYb''))) [Switch (Dot (Call ''JD'' [Call ''oNb'' [V 5, Seq (Call ''Wrc'' []) (G ''$qc'')], K (JNum 64)]) ''g'') [(Some (JNum 4), [Do (Put (Dot (V 5) ''n'') ''a'' (Dot (V 1) ''a'')), Break]), (Some (JNum 2), [Do (Put (Dot (V 5) ''n'') ''a'' (Bin Minus (Dot (V 2) ''a'') (Bin Plus (Dot (Dot (V 5) ''o'') ''a'') (Dot (Dot (V 5) ''d'') ''c'')))), Break]), (Some (JNum 1), [Do (Put (Dot (V 5) ''n'') ''b'' (Dot (V 1) ''b'')), Break]), (Some (JNum 3), [Do (Put (Dot (V 5) ''n'') ''b'' (Bin Minus (Dot (V 2) ''b'') (Bin Plus (Dot (Dot (V 5) ''o'') ''b'') (Dot (Dot (V 5) ''d'') ''a''))))])]] []] []] []],
    fn ''PVc'' 3 3 [Do (Meth (V 2) ''Tg'' [K (JStr ''Processor determine the height for each level''), K (JNum 1)]), Do (Put (V 0) ''a'' (Cond (Loose (Dot (Dot (V 1) ''b'') ''b'') (K (JNum 0))) (K (JNum 1)) (Dot (Dot (V 1) ''b'') ''b''))), Do (SetV 4 (K JNull)), Do (SetV 3 (Call ''Ztb'' [Dot (V 1) ''b'', K (JNum 0)])), Loop (And (Neg (V 4)) (Neg (Loose (Dot (V 3) ''b'') (Dot (Dot (V 3) ''d'') ''c'')))) [Do (SetV 5 (Call ''JD'' [Call ''lub'' [V 3], K (JNum 40)])), Do (And (Call ''Rdb'' [Call ''LD'' [Call ''oNb'' [V 5, Seq (Call ''_Wc'' []) (G ''YWc'')]]]) (SetV 4 (V 5)))] [], Do (And (Neg (Neg (V 4))) (Call ''QVc'' [V 0, Call ''Wu'' [Call ''WC'' [Call ''OC'' [G ''b$'', K (JNum 1)], G ''QCe'', K (JNum 40), K (JNum 0), NewArr [V 4]]], V 2, Call ''JD'' [Call ''oNb'' [V 1, Seq (Call ''SXc'' []) (G ''qXc'')], K (JNum 86)]])), Do (Meth (V 2) ''Ug'' [])],
    fn ''I5c'' 1 6 [Do (SetV 3 (Seq (Seq (Call ''zsd'' []) (SetV 5 (New ''Wzd'' []))) (V 5))), Do (Call ''Xud'' [V 3, V 0]), Do (SetV 2 (New ''uKd'' [Seq (And (Neg (Dot (V 0) ''a'')) (Put (V 0) ''a'' (New ''P3d'' [G ''T3'', V 0, K (JNum 10), K (JNum 11)]))) (Dot (V 0) ''a'')])), Loop (Neg (Loose (Dot (V 2) ''e'') (Meth (Dot (V 2) ''i'') ''gc'' []))) [Do (SetV 1 (Call ''JD'' [Call ''sKd'' [V 2], K (JNum 26)])), Do (SetV 6 (Seq (SetV 4 (New ''Wzd'' [])) (V 4))), Do (Call ''Uzd'' [V 6, V 3]), Do (Call ''Xvd'' [V 6, Dot (V 1) ''g'', Dot (V 1) ''f'']), Do (Call ''Hvd'' [V 6, Dot (V 1) ''k'']), Do (Call ''Zvd'' [V 6, Dot (V 1) ''i'', Dot (V 1) ''j'']), Do (Call ''lFd'' [Seq (And (Neg (Dot (V 3) ''a'')) (Put (V 3) ''a'' (New ''P3d'' [G ''T3'', V 3, K (JNum 10), K (JNum 11)]))) (Dot (V 3) ''a''), V 6]), Do (Call ''Xud'' [V 6, V 1])] [], Ret (V 3)],
    fn ''Qod'' 3 5 [Do (SetV 4 (Call ''JD'' [Call ''cvd'' [V 1, Seq (Call ''bhd'' []) (G ''_gd'')], K (JNum 15)])), Do (And (Neg (V 4)) (SetV 4 (Call ''Cfb'' [K (JNum 0)]))), Do (SetV 5 (Call ''JD'' [Call ''cvd'' [V 2, G ''_gd''], K (JNum 15)])), Do (And (Neg (V 5)) (SetV 5 (Call ''Cfb'' [K (JNum 0)]))), When (Bin Gt (Dot (V 4) ''a'') (Dot (V 5) ''a'')) [Ret (K (JNum (- 1)))] [When (Bin Lt (Dot (V 4) ''a'') (Dot (V 5) ''a'')) [Ret (K (JNum 1))] [When (Dot (V 0) ''a'') [Do (SetV 3 (Call ''$eb'' [Dot (V 1) ''j'', Dot (V 2) ''j''])), When (Neg (Loose (V 3) (K (JNum 0)))) [Ret (V 3)] [], Do (SetV 3 (Call ''$eb'' [Dot (V 1) ''i'', Dot (V 2) ''i''])), When (Neg (Loose (V 3) (K (JNum 0)))) [Ret (V 3)] []] [], Do (SetV 6 (Bin Times (Dot (V 1) ''g'') (Dot (V 1) ''f''))), Do (SetV 7 (Bin Times (Dot (V 2) ''g'') (Dot (V 2) ''f''))), Ret (Call ''$eb'' [V 6, V 7])]]],
    fn ''qMd'' 2 10 [Do (Put (V 0) ''e'' (Bin Minus (Dot (V 0) ''e'') (K (JNum (- 1))))), Do (SetV 8 (Cond (Loose (Dot (V 0) ''d'') (K JNull)) (K (JNum 0)) (Dot (Dot (V 0) ''d'') ''length''))), When (Bin Gt (V 1) (V 8)) [Do (SetV 10 (Dot (V 0) ''d'')), Do (Put (V 0) ''d'' (Call ''SC'' [G ''O5'', G ''VHe'', K (JNum 67), Bin Plus (Bin Times (K (JNum 2)) (V 8)) (K (JNum 4)), K (JNum 0), K (JNum 1)])), Do (SetV 5 (K (JNum 0))), Loop (Bin Lt (V 5) (V 8)) [Do (SetV 9 (Idx (V 10) (V 5))), When (V 9) [Do (SetV 3 (Dot (V 9) ''g'')), Do (SetV 11 (Dot (V 9) ''i'')), Do (SetV 7 (K (JNum 0))), Loop (Bin Lt (V 7) (V 11)) [Do (SetV 4 (Call ''JD'' [Idx (V 3) (V 7), K (JNum 136)])), Do (SetV 6 (Call ''sMd'' [V 0, Meth (V 4) ''yi'' []])), Do (SetV 2 (Idx (Dot (V 0) ''d'') (V 6))), Do (And (Neg (V 2)) (SetV 2 (PutIdx (Dot (V 0) ''d'') (V 6) (Meth (V 0) ''bk'' [])))), Do (Meth (V 2) ''Ec'' [V 4])] [Do (SetV 7 (Bin Minus (V 7) (K (JNum (- 1)))))]] []] [Do (SetV 5 (Bin Minus (V 5) (K (JNum (- 1)))))], Ret (K (JBool True))] [Ret (K (JBool False))]],
    fn ''_de'' 3 6 [Do (SetV 4 (V 2)), Do (SetV 5 (Meth (V 4) ''Jk'' [])), When (Call ''Die'' [Dot (V 0) ''e'', V 5]) [When (Meth (V 5) ''Qi'' []) [Do (SetV 3 (Call ''JD'' [Dot (V 0) ''g'', K (JNum 122)])), Do (SetV 6 (K (JNum 0))), Loop (Bin Lt (V 6) (Dot (V 0) ''i'')) [Do (SetV 7 (Idx (V 3) (V 6))), When (And (Call ''pb'' [V 7, V 4]) (Neg (Loose (V 6) (V 1)))) [Raise (Call ''Lcb'' [New ''kfb'' [G ''WGe'']])] []] [Do (SetV 6 (Bin Minus (V 6) (K (JNum (- 1)))))]] []] [Do (SetV 8 (Call ''Cie'' [Meth (Dot (V 0) ''e'') ''Ah'' [], V 5])), Do (SetV 3 (Call ''JD'' [Dot (V 0) ''g'', K (JNum 122)])), Do (SetV 6 (K (JNum 0))), Loop (Bin Lt (V 6) (Dot (V 0) ''i'')) [Do (SetV 7 (Idx (V 3) (V 6))), When (Meth (V 8) ''$l'' [Meth (V 7) ''Jk'' []]) [Raise (Call ''Lcb'' [New ''kfb'' [G ''rJe'']])] []] [Do (SetV 6 (Bin Minus (V 6) (K (JNum (- 1)))))]], Do (Call ''kFd'' [V 0, V 1, V 2])],
    fn ''vVb'' 2 6 [Do (SetV 2 (Call ''JD'' [Call ''oNb'' [V 1, Seq (Call ''Wrc'' []) (G ''Xqc'')], K (JNum 22)])), Do (SetV 6 (Call ''JD'' [Call ''Qc'' [Seq (Call ''dUb'' []) (G ''cUb''), V 2], K (JNum 22)])), Do (SetV 7 (Call ''JD'' [Call ''Qc'' [G ''sVb'', V 2], K (JNum 22)])), Do (SetV 5 (Meth (V 6) ''Jc'' [])), Loop (Meth (V 5) ''Ob'' []) [Do (SetV 3 (Call ''JD'' [Meth (V 5) ''Pb'' [], K (JNum 22)])), When (Neg (Meth (Call ''JD'' [Call ''Qc'' [Dot (V 0) ''b'', V 3], K (JNum 16)]) ''dc'' [])) [Ret (K (JBool False))] []] [], Do (SetV 4 (Meth (V 7) ''Jc'' [])), Loop (Meth (V 4) ''Ob'' []) [Do (SetV 3 (Call ''JD'' [Meth (V 4) ''Pb'' [], K (JNum 22)])), When (Neg (Meth (Call ''JD'' [Call ''Qc'' [Dot (V 0) ''b'', V 3], K (JNum 16)]) ''dc'' [])) [Ret (K (JBool False))] []] [], Ret (K (JBool True))],
    fn ''Ngc'' 3 0 [Do (Put (V 0) ''d'' (K (JNum 0))), Do (Put (V 0) ''b'' (K (JNum 0))), Do (And (And (And (Loose (Dot (V 1) ''k'') (Seq (Call ''$Yb'' []) (G ''YYb''))) (Loose (Dot (V 2) ''k'') (G ''YYb''))) (Loose (Call ''JD'' [Call ''oNb'' [V 1, Seq (Call ''Wrc'' []) (G ''urc'')], K (JNum 9)]) (Call ''JD'' [Call ''oNb'' [V 2, G ''urc''], K (JNum 9)]))) (Cond (Loose (Dot (Call ''Rgc'' [V 1]) ''j'') (Seq (Call ''Bmd'' []) (G ''hmd''))) (Call ''Ogc'' [V 0, V 1, V 2]) (Call ''Ogc'' [V 0, V 2, V 1]))), Do (Cond (And (Loose (Dot (V 1) ''k'') (G ''YYb'')) (Loose (Dot (V 2) ''k'') (G ''VYb''))) (Cond (Loose (Dot (Call ''Rgc'' [V 1]) ''j'') (Seq (Call ''Bmd'' []) (G ''hmd''))) (Put (V 0) ''d'' (K (JNum 1))) (Put (V 0) ''b'' (K (JNum 1)))) (And (And (Loose (Dot (V 2) ''k'') (G ''YYb'')) (Loose (Dot (V 1) ''k'') (G ''VYb''))) (Cond (Loose (Dot (Call ''Rgc'' [V 2]) ''j'') (Seq (Call ''Bmd'' []) (G ''hmd''))) (Put (V 0) ''b'' (K (JNum 1))) (Put (V 0) ''d'' (K (JNum 1)))))), Do (Call ''Tgc'' [V 0, V 1, V 2])],
    fn ''_6c'' 2 9 [When (Loose (Dot (Dot (Dot (V 0) ''a'') ''c'') ''length'') (K (JNum 1))) [Ret (Call ''L6c'' [Call ''JD'' [Call ''dmb'' [Dot (V 0) ''a'', K (JNum 0)], K (JNum 173)], V 1])] [], Do (SetV 6 (Call ''$6c'' [V 0])), Do (SetV 8 (K (JNum 0))), Do (SetV 9 (Dot (V 0) ''d'')), Do (SetV 5 (V 6)), Do (SetV 10 (Dot (V 0) ''d'')), Do (SetV 7 (Bin Plus (Bin Divide (Bin Minus (V 9) (V 5)) (K (JNum 2))) (V 5))), Loop (Bin Lt (Bin Plus (V 5) (K (JNum 1))) (V 9)) [Do (SetV 8 (K (JNum 0))), Do (SetV 3 (New ''Kmb'' [Dot (V 0) ''a''])), Loop (Bin Lt (Dot (V 3) ''a'') (Dot (Dot (Dot (V 3) ''c'') ''c'') ''length'')) [Do (SetV 2 (Call ''JD'' [Call ''Imb'' [V 3], K (JNum 173)])), Do (SetV 8 (Bin Plus (V 8) (Seq (SetV 4 (Call ''O6c'' [V 2, V 7, K (JBool False)])) (Dot (V 4) ''a''))))] [], When (Bin Lt (V 8) (V 1)) [Do (SetV 10 (V 7)), Do (SetV 9 (V 7))] [Do (SetV 5 (V 7))], Do (SetV 7 (Bin Plus (Bin Divide (Bin Minus (V 9) (V 5)) (K (JNum 2))) (V 5)))] [], Ret (V 10)],
    fn ''Xud'' 2 5 [When (Neg (V 1)) [Ret (V 0)] [], When (Call ''RD'' [V 1, K (JNum 343)]) [Do (SetV 4 (Call ''JD'' [V 1, K (JNum 343)])), Do (SetV 5 (Seq (And (Neg (Dot (V 0) ''o'')) (Put (V 0) ''o'' (New ''QTd'' [Seq (Call ''Nsd'' []) (G ''Ksd''), G ''f4'', V 0, K (JNum 0)]))) (Dot (V 0) ''o''))), Do (SetV 3 (Meth (Dot (Meth (V 4) ''fh'' []) ''c'') ''Jc'' [])), Loop (Neg (Loose (Dot (V 3) ''e'') (Meth (Dot (V 3) ''i'') ''gc'' []))) [Do (SetV 2 (Call ''JD'' [Meth (V 3) ''Wj'' [], K (JNum 45)])), Do (SetV 6 (Meth (V 2) ''kd'' [])), Do (Call ''wMd'' [V 5, Call ''JD'' [Meth (V 2) ''jd'' [], K (JNum 147)], V 6])] []] [Do (And (Neg (Dot (V 0) ''o'')) (Put (V 0) ''o'' (New ''QTd'' [Seq (Call ''Nsd'' []) (G ''Ksd''), G ''f4'', V 0, K (JNum 0)]))), Do (Call ''xMd'' [Dot (V 0) ''o'', Meth (V 1) ''lf'' []])], Ret (V 0)],
    fn ''YBd'' 2 14 [Do (SetV 10 (K JNull)), Do (SetV 14 (Call ''qBd'' [V 0, V 1])), Do (SetV 8 (K JNull)), Do (And (Neg (Neg (V 14))) (SetV 8 (Call ''cCd'' [V 0, V 14]))), Do (SetV 15 (V 8)), Do (SetV 2 (K JNull)), Do (SetV 4 (Call ''MD'' [Call ''ejb'' [Dot (V 0) ''i'', V 15]])), Do (Cond (Neg (Loose (V 4) (K JNull))) (SetV 2 (V 4)) (SetV 2 (Call ''Cfb'' [K (JNum 0)]))), Do (SetV 12 (V 2)), Do (SetV 3 (K JNull)), Do (SetV 5 (Call ''MD'' [Call ''ejb'' [Dot (V 0) ''j'', V 15]])), Do (Cond (Neg (Loose (V 5) (K JNull))) (SetV 3 (V 5)) (SetV 3 (Call ''Cfb'' [K (JNum 0)]))), Do (SetV 13 (V 3)), Do (SetV 9 (Dot (V 1) ''i'')), Do (SetV 6 (Call ''Hse'' [V 9, V 12])), Do (Call ''hjb'' [Dot (V 0) ''i'', V 1, V 6]), Do (SetV 11 (Dot (V 1) ''j'')), Do (SetV 7 (Call ''Hse'' [V 11, V 13])), Do (SetV 10 (Call ''MD'' [Call ''hjb'' [Dot (V 0) ''j'', V 1, V 7]])), Ret (V 10)],
    fn ''nD'' 1 5 [When (Call ''isNaN'' [V 0]) [Ret (Seq (Call ''ED'' []) (G ''DD''))] [], When (Bin Lt (V 0) (K (JNum (- 9223372036854775808)))) [Ret (Seq (Call ''ED'' []) (G ''BD''))] [], When (Bin Ge (V 0) (K (JNum 9223372036854775807))) [Ret (Seq (Call ''ED'' []) (G ''AD''))] [], Do (SetV 4 (K (JBool False))), When (Bin Lt (V 0) (K (JNum 0))) [Do (SetV 4 (K (JBool True))), Do (SetV 0 (Minus1 (V 0)))] [], Do (SetV 3 (K (JNum 0))), When (Bin Ge (V 0) (G ''vve'')) [Do (SetV 3 (Call ''YD'' [Bin Divide (V 0) (G ''vve'')])), Do (SetV 0 (Bin Minus (V 0) (Bin Times (V 3) (G ''vve''))))] [], Do (SetV 2 (K (JNum 0))), When (Bin Ge (V 0) (G ''uve'')) [Do (SetV 2 (Call ''YD'' [Bin Divide (V 0) (G ''uve'')])), Do (SetV 0 (Bin Minus (V 0) (Bin Times (V 2) (G ''uve''))))] [], Do (SetV 1 (Call ''YD'' [V 0])), Do (SetV 5 (Call ''_C'' [V 1, V 2, V 3])), Do (And (V 4) (Call ''fD'' [V 5])), Ret (V 5)],
    fn ''bBb'' 1 5 [Do (SetV 5 (New ''lmb'' [])), Do (Call ''cmb'' [Dot (V 0) ''b'', New ''jDb'' [V 5]]), Do (Put (Dot (Dot (V 0) ''b'') ''c'') ''length'' (K (JNum 0))), When (Neg (Loose (Dot (Dot (V 5) ''c'') ''length'') (K (JNum 0)))) [Do (SetV 1 (Seq (Call ''MDb'' [K (JNum 0), Dot (Dot (V 5) ''c'') ''length'']) (Call ''JD'' [Idx (Dot (V 5) ''c'') (K (JNum 0)), K (JNum 80)]))), Do (Seq (SetV 2 (K (JNum 1))) (SetV 3 (Dot (Dot (V 5) ''c'') ''length''))), Loop (Bin Lt (V 2) (V 3)) [Do (SetV 4 (Seq (Call ''MDb'' [V 2, Dot (Dot (V 5) ''c'') ''length'']) (Call ''JD'' [Idx (Dot (V 5) ''c'') (V 2), K (JNum 80)]))), Do (And (Neg (Loose (V 4) (V 1))) (Call ''Zy'' [V 1, V 4]))] [Do (SetV 2 (Bin Minus (V 2) (K (JNum (- 1)))))], When (Call ''RD'' [V 1, K (JNum 63)]) [Raise (Call ''Lcb'' [Call ''JD'' [V 1, K (JNum 63)]])] [], When (Call ''RD'' [V 1, K (JNum 297)]) [Raise (Call ''Lcb'' [Call ''JD'' [V 1, K (JNum 297)]])] []] []],
    fn ''NKb'' 2 4 [Do (SetV 2 (Or (Neg (V 1)) (Neg (Meth (Dot (V 0) ''u'') ''Gc'' [Seq (Call ''$ld'' []) (G ''Wld'')])))), Do (SetV 5 (K (JNum 0))), Do (SetV 4 (New ''Kmb'' [Meth (Dot (V 0) ''e'') ''Vf'' []])), Loop (Bin Lt (Dot (V 4) ''a'') (Dot (Dot (Dot (V 4) ''c'') ''c'') ''length'')) [Do (SetV 3 (Call ''JD'' [Call ''Imb'' [V 4], K (JNum 837)])), When (Loose (Meth (V 3) ''$f'' []) (Seq (Call ''Bmd'' []) (G ''zmd''))) [Raise (Call ''Lcb'' [New ''kfb'' [K (JStr ''Label and node size calculator can only be used with ports that have port sides assigned.'')]])] [], Do (Meth (V 3) ''Of'' [Bin Minus (SetV 5 (Bin Minus (V 5) (K (JNum (- 1))))) (K (JNum 1))]), Do (Call ''MKb'' [V 0, V 3, V 2])] []],
    fn ''_Eb'' 1 5 [Do (SetV 2 (New ''Kmb'' [Dot (Dot (V 0) ''a'') ''a''])), Loop (Bin Lt (Dot (V 2) ''a'') (Dot (Dot (Dot (V 2) ''c'') ''c'') ''length'')) [Do (SetV 1 (Call ''JD'' [Call ''Imb'' [V 2], K (JNum 321)])), Do (Put (V 1) ''j'' (K JNull)), Do (SetV 5 (Meth (Meth (Dot (Dot (V 1) ''a'') ''a'') ''ec'' []) ''Jc'' [])), Loop (Meth (V 5) ''Ob'' []) [Do (SetV 3 (Call ''JD'' [Meth (V 5) ''Pb'' [], K (JNum 60)])), Do (Call ''cgd'' [Dot (V 3) ''b'']), Do (And (Or (Neg (Dot (V 1) ''j'')) (Bin Lt (Dot (Dot (V 3) ''d'') ''c'') (Dot (Dot (Dot (V 1) ''j'') ''d'') ''c''))) (Put (V 1) ''j'' (V 3)))] [], Do (SetV 4 (Meth (Meth (Dot (Dot (V 1) ''a'') ''a'') ''ec'' []) ''Jc'' [])), Loop (Meth (V 4) ''Ob'' []) [Do (SetV 3 (Call ''JD'' [Meth (V 4) ''Pb'' [], K (JNum 60)])), Do (Put (Dot (V 3) ''b'') ''a'' (Bin Minus (Dot (Dot (V 3) ''d'') ''c'') (Dot (Dot (Dot (V 1) ''j'') ''d'') ''c''))), Do (Put (Dot (V 3) ''b'') ''b'' (Bin Minus (Dot (Dot (V 3) ''d'') ''d'') (Dot (Dot (Dot (V 1) ''j'') ''d'') ''d'')))] []] [], Ret (V 0)],
    fn ''$Rb'' 1 5 [Do (SetV 2 (New ''Kmb'' [Dot (Dot (V 0) ''a'') ''a''])), Loop (Bin Lt (Dot (V 2) ''a'') (Dot (Dot (Dot (V 2) ''c'') ''c'') ''length'')) [Do (SetV 1 (Call ''JD'' [Call ''Imb'' [V 2], K (JNum 194)])), Do (Put (V 1) ''f'' (K JNull)), Do (SetV 5 (Meth (Meth (Dot (Dot (V 1) ''a'') ''a'') ''ec'' []) ''Jc'' [])), Loop (Meth (V 5) ''Ob'' []) [Do (SetV 3 (Call ''JD'' [Meth (V 5) ''Pb'' [], K (JNum 82)])), Do (Call ''cgd'' [Dot (V 3) ''e'']), Do (And (Or (Neg (Dot (V 1) ''f'')) (Bin Lt (Dot (Dot (V 3) ''g'') ''c'') (Dot (Dot (Dot (V 1) ''f'') ''g'') ''c''))) (Put (V 1) ''f'' (V 3)))] [], Do (SetV 4 (Meth (Meth (Dot (Dot (V 1) ''a'') ''a'') ''ec'' []) ''Jc'' [])), Loop (Meth (V 4) ''Ob'' []) [Do (SetV 3 (Call ''JD'' [Meth (V 4) ''Pb'' [], K (JNum 82)])), Do (Put (Dot (V 3) ''e'') ''a'' (Bin Minus (Dot (Dot (V 3) ''g'') ''c'') (Dot (Dot (Dot (V 1) ''f'') ''g'') ''c''))), Do (Put (Dot (V 3) ''e'') ''b'' (Bin Minus (Dot (Dot (V 3) ''g'') ''d'') (Dot (Dot (Dot (V 1) ''f'') ''g'') ''d'')))] []] [], Ret (V 0)],
    fn ''UGc'' 3 5 [Do (SetV 6 (Call ''LIc'' [V 0, V 2])), Do (SetV 7 (Call ''SC'' [G ''SP'', G ''Bye'', K (JNum 9), Dot (V 1) ''length'', K (JNum 0), K (JNum 1)])), Do (SetV 3 (K (JNum 0))), Do (SetV 5 (Meth (V 6) ''Jc'' [])), Loop (Meth (V 5) ''Ob'' []) [Do (SetV 4 (Call ''JD'' [Meth (V 5) ''Pb'' [], K (JNum 12)])), Do (And (Call ''Rdb'' [Call ''LD'' [Call ''oNb'' [V 4, Seq (Call ''Wrc'' []) (G ''erc'')]]]) (PutIdx (V 7) (Bin Minus (SetV 3 (Bin Minus (V 3) (K (JNum (- 1))))) (K (JNum 1))) (Call ''JD'' [Call ''oNb'' [V 4, G ''Crc''], K (JNum 9)])))] [], When (Bin Lt (V 3) (Dot (V 1) ''length'')) [Raise (Call ''Lcb'' [New ''nfb'' [Bin Plus (Bin Plus (Bin Plus (Bin Plus (K (JStr ''Expected '')) (Dot (V 1) ''length'')) (K (JStr '' hierarchical ports, but found only ''))) (V 3)) (K (JStr ''.''))]])] [], Ret (V 7)],
    fn ''XDd'' 1 11 [Do (SetV 11 (Call ''$Dd'' [V 0])), Do (SetV 1 (Dot (V 0) ''a'')), Do (SetV 8 (Neg (Loose (V 1) (K JNull)))), Do (And (V 8) (Call ''OAd'' [V 11, K (JStr ''category''), Dot (V 0) ''a''])), Do (SetV 4 (Call ''rte'' [New ''fkb'' [Dot (V 0) ''d'']])), Do (SetV 6 (Neg (V 4))), When (V 6) [Do (SetV 9 (New ''EB'' [])), Do (Call ''kC'' [V 11, K (JStr ''knownOptions''), V 9]), Do (SetV 2 (New ''dEd'' [V 9])), Do (Call ''Hfb'' [New ''fkb'' [Dot (V 0) ''d''], V 2])] [], Do (SetV 5 (Call ''rte'' [Dot (V 0) ''g''])), Do (SetV 7 (Neg (V 5))), When (V 7) [Do (SetV 10 (New ''EB'' [])), Do (Call ''kC'' [V 11, K (JStr ''supportedFeatures''), V 10]), Do (SetV 3 (New ''fEd'' [V 10])), Do (Call ''Hfb'' [Dot (V 0) ''g'', V 3])] [], Ret (V 11)],
    fn ''ATb'' 2 1 [When (And (Neg (Neg (Dot (V 0) ''d''))) (Or (Neg (Loose (Dot (V 1) ''c'') (Dot (Dot (V 0) ''e'') ''c''))) (Call ''YSb'' [Dot (Dot (V 0) ''e'') ''b'', Dot (V 1) ''b'']))) [Do (Call ''_lb'' [Dot (V 0) ''f'', Dot (V 0) ''d'']), Do (Put (V 0) ''a'' (Bin Plus (Dot (Dot (V 0) ''d'') ''c'') (Dot (Dot (V 0) ''d'') ''b''))), Do (Put (V 0) ''d'' (K JNull)), Do (Put (V 0) ''e'' (K JNull))] [], Do (Cond (Call ''VSb'' [Dot (V 1) ''b'']) (Put (V 0) ''c'' (V 1)) (Put (V 0) ''b'' (V 1))), When (Or (Or (Or (And (Loose (Dot (V 1) ''b'') (Seq (Call ''TSb'' []) (G ''PSb''))) (Neg (Dot (V 1) ''a''))) (And (Loose (Dot (V 1) ''b'') (G ''QSb'')) (Dot (V 1) ''a''))) (And (Loose (Dot (V 1) ''b'') (G ''RSb'')) (Dot (V 1) ''a''))) (And (Loose (Dot (V 1) ''b'') (G ''SSb'')) (Neg (Dot (V 1) ''a'')))) [When (And (Neg (Neg (Dot (V 0) ''c''))) (Neg (Neg (Dot (V 0) ''b'')))) [Do (SetV 2 (New ''Pfd'' [Dot (V 0) ''a'', Dot (Dot (V 0) ''c'') ''d'', Bin Minus (Dot (V 1) ''c'') (Dot (V 0) ''a''), Bin Minus (Dot (Dot (V 0) ''b'') ''d'') (Dot (Dot (V 0) ''c'') ''d'')])), Do (Put (V 0) ''d'' (V 2)), Do (Put (V 0) ''e'' (V 1))] []] []]]"

definition code_5511_5516 :: "(string \<times> jfun) list" where
  "code_5511_5516 = [
    fn ''Azd'' 2 2 [When (Or (Neg (Loose (V 1) (Dot (V 0) ''Cb''))) (And (Neg (Loose (Bin Shr (Dot (V 0) ''Db'') (K (JNum 16))) (K (JNum 7)))) (Neg (Neg (V 1))))) [When (Call ''_he'' [V 0, V 1]) [Raise (Call ''Lcb'' [New ''kfb'' [Bin Plus (G ''dGe'') (Call ''Czd'' [V 0])]])] [], Do (SetV 3 (K JNull)), Do (And (Neg (Neg (Dot (V 0) ''Cb''))) (SetV 3 (Seq (SetV 2 (Bin Shr (Dot (V 0) ''Db'') (K (JNum 16)))) (Cond (Bin Ge (V 2) (K (JNum 0))) (Call ''yzd'' [V 0, V 3]) (Meth (Dot (V 0) ''Cb'') ''Qh'' [V 0, Bin Minus (K (JNum (- 1))) (V 2), K JNull, V 3]))))), Do (And (Neg (Neg (V 1))) (SetV 3 (Meth (Call ''JD'' [V 1, K (JNum 52)]) ''Oh'' [V 0, K (JNum 1), G ''R3'', V 3]))), Do (SetV 3 (Call ''xzd'' [V 0, V 1, V 3])), Do (And (Neg (Neg (V 3))) (Meth (V 3) ''mj'' []))] [Do (And (And (Neg (Loose (Bin BitAnd (Dot (V 0) ''Db'') (K (JNum 4))) (K (JNum 0)))) (Loose (Bin BitAnd (Dot (V 0) ''Db'') (K (JNum 1))) (K (JNum 0)))) (Call ''Osd'' [V 0, New ''$1d'' [V 0, K (JNum 1), K (JNum 7), V 1, V 1]]))]],
    fn ''yTd'' 2 2 [When (Or (Neg (Loose (V 1) (Dot (V 0) ''Cb''))) (And (Neg (Loose (Bin Shr (Dot (V 0) ''Db'') (K (JNum 16))) (K (JNum 3)))) (Neg (Neg (V 1))))) [When (Call ''_he'' [V 0, V 1]) [Raise (Call ''Lcb'' [New ''kfb'' [Bin Plus (G ''dGe'') (Call ''BTd'' [V 0])]])] [], Do (SetV 3 (K JNull)), Do (And (Neg (Neg (Dot (V 0) ''Cb''))) (SetV 3 (Seq (SetV 2 (Bin Shr (Dot (V 0) ''Db'') (K (JNum 16)))) (Cond (Bin Ge (V 2) (K (JNum 0))) (Call ''vTd'' [V 0, V 3]) (Meth (Dot (V 0) ''Cb'') ''Qh'' [V 0, Bin Minus (K (JNum (- 1))) (V 2), K JNull, V 3]))))), Do (And (Neg (Neg (V 1))) (SetV 3 (Meth (Call ''JD'' [V 1, K (JNum 52)]) ''Oh'' [V 0, K (JNum 0), G ''A6'', V 3]))), Do (SetV 3 (Call ''uTd'' [V 0, V 1, V 3])), Do (And (Neg (Neg (V 3))) (Meth (V 3) ''mj'' []))] [Do (And (And (Neg (Loose (Bin BitAnd (Dot (V 0) ''Db'') (K (JNum 4))) (K (JNum 0)))) (Loose (Bin BitAnd (Dot (V 0) ''Db'') (K (JNum 1))) (K (JNum 0)))) (Call ''Osd'' [V 0, New ''$1d'' [V 0, K (JNum 1), K (JNum 3), V 1, V 1]]))]],
    fn ''Wib'' 2 9 [Do (Call ''Vib'' []), When (Bin Gt (Dot (V 1) ''d'') (Dot (V 0) ''d'')) [Do (SetV 7 (V 0)), Do (SetV 0 (V 1)), Do (SetV 1 (V 7))] [], When (Bin Lt (Dot (V 1) ''d'') (K (JNum 63))) [Ret (Call ''$ib'' [V 0, V 1])] [], Do (SetV 6 (Bin Shl (Bin BitAnd (Dot (V 0) ''d'') (K (JNum (- 2)))) (K (JNum 4)))), Do (SetV 9 (Call ''iib'' [V 0, V 6])), Do (SetV 10 (Call ''iib'' [V 1, V 6])), Do (SetV 3 (Call ''Qib'' [V 0, Call ''hib'' [V 9, V 6]])), Do (SetV 4 (Call ''Qib'' [V 1, Call ''hib'' [V 10, V 6]])), Do (SetV 8 (Call ''Wib'' [V 9, V 10])), Do (SetV 2 (Call ''Wib'' [V 3, V 4])), Do (SetV 5 (Call ''Wib'' [Call ''Qib'' [V 9, V 3], Call ''Qib'' [V 4, V 10]])), Do (SetV 5 (Call ''Lib'' [Call ''Lib'' [V 5, V 8], V 2])), Do (SetV 5 (Call ''hib'' [V 5, V 6])), Do (SetV 8 (Call ''hib'' [V 8, Bin Shl (V 6) (K (JNum 1))])), Ret (Call ''Lib'' [Call ''Lib'' [V 8, V 5], V 2])],
    fn ''Qyc'' 0 0 [Do (SetG ''Qyc'' (G ''qdb'')), Do (SetG ''Oyc'' (New ''Syc'' [G ''jCe'', K (JNum 0)])), Do (SetG ''Lyc'' (New ''Syc'' [K (JStr ''LONGEST_PATH''), K (JNum 1)])), Do (SetG ''Myc'' (New ''Syc'' [K (JStr ''LONGEST_PATH_SOURCE''), K (JNum 2)])), Do (SetG ''Iyc'' (New ''Syc'' [K (JStr ''COFFMAN_GRAHAM''), K (JNum 3)])), Do (SetG ''Kyc'' (New ''Syc'' [G ''gze'', K (JNum 4)])), Do (SetG ''Pyc'' (New ''Syc'' [K (JStr ''STRETCH_WIDTH''), K (JNum 5)])), Do (SetG ''Nyc'' (New ''Syc'' [K (JStr ''MIN_WIDTH''), K (JNum 6)])), Do (SetG ''Hyc'' (New ''Syc'' [K (JStr ''BF_MODEL_ORDER''), K (JNum 7)])), Do (SetG ''Jyc'' (New ''Syc'' [K (JStr ''DF_MODEL_ORDER''), K (JNum 8)]))],
    fn ''Oyd'' 2 6 [When (Neg (Dot (V 0) ''tb'')) [Do (SetV 5 (Seq (And (Neg (Dot (V 0) ''rb'')) (Put (V 0) ''rb'' (New ''W3d'' [V 0, G ''t6'', V 0]))) (Dot (V 0) ''rb''))), Do (SetV 7 (New ''asb'' [Dot (V 5) ''i''])), Do (SetV 4 (New ''uKd'' [V 5])), Loop (Neg (Loose (Dot (V 4) ''e'') (Meth (Dot (V 4) ''i'') ''gc'' []))) [Do (SetV 3 (Call ''JD'' [Call ''sKd'' [V 4], K (JNum 143)])), Do (SetV 6 (Meth (V 3) ''ve'' [])), Do (SetV 2 (Call ''JD'' [Cond (Loose (V 6) (K JNull)) (Call ''zsb'' [Dot (V 7) ''f'', K JNull, V 3]) (Call ''Tsb'' [Dot (V 7) ''i'', V 6, V 3]), K (JNum 143)])), Do (And (Neg (Neg (V 2))) (Cond (Loose (V 6) (K JNull)) (Call ''zsb'' [Dot (V 7) ''f'', K JNull, V 2]) (Call ''Tsb'' [Dot (V 7) ''i'', V 6, V 2])))] [], Do (Put (V 0) ''tb'' (V 7))] [], Ret (Call ''JD'' [Call ''fjb'' [Dot (V 0) ''tb'', V 1], K (JNum 143)])],
    fn ''JWd'' 2 5 [Do (Dot (Seq (And (Loose (Dot (V 0) ''i'') (K JNull)) (Call ''EWd'' [V 0])) (Dot (V 0) ''i'')) ''length''), When (Neg (Dot (V 0) ''p'')) [Do (SetV 6 (New ''asb'' [Bin Plus (Bin DivInt (Bin Times (K (JNum 3)) (Dot (Dot (V 0) ''g'') ''i'')) (K (JNum 2))) (K (JNum 1))])), Do (SetV 4 (New ''PKd'' [Dot (V 0) ''g''])), Loop (Neg (Loose (Dot (V 4) ''e'') (Meth (Dot (V 4) ''i'') ''gc'' []))) [Do (SetV 3 (Call ''JD'' [Call ''OKd'' [V 4], K (JNum 179)])), Do (SetV 5 (Meth (V 3) ''ve'' [])), Do (SetV 2 (Call ''JD'' [Cond (Loose (V 5) (K JNull)) (Call ''zsb'' [Dot (V 6) ''f'', K JNull, V 3]) (Call ''Tsb'' [Dot (V 6) ''i'', V 5, V 3]), K (JNum 179)])), Do (And (Neg (Neg (V 2))) (Cond (Loose (V 5) (K JNull)) (Call ''zsb'' [Dot (V 6) ''f'', K JNull, V 2]) (Call ''Tsb'' [Dot (V 6) ''i'', V 5, V 2])))] [], Do (Put (V 0) ''p'' (V 6))] [], Ret (Call ''JD'' [Call ''fjb'' [Dot (V 0) ''p'', V 1], K (JNum 179)])]]"

definition code_5518_5540 :: "(string \<times> jfun) list" where
  "code_5518_5540 = [
    fn ''XGc'' 4 5 [Do (SetV 8 (Dot (V 1) ''e'')), Do (SetV 7 (Dot (V 8) ''length'')), Do (SetV 6 (Meth (Dot (V 1) ''q'') ''tg'' [V 8, Cond (V 2) (K (JNum 0)) (Bin Minus (V 7) (K (JNum 1))), V 2])), Do (SetV 4 (Idx (V 8) (Cond (V 2) (K (JNum 0)) (Bin Minus (V 7) (K (JNum 1)))))), Do (SetV 6 (Bin BitOr (V 6) (Call ''WGc'' [V 0, V 4, V 2, V 3]))), Do (SetV 5 (Cond (V 2) (K (JNum 1)) (Bin Minus (V 7) (K (JNum 2))))), Loop (Cond (V 2) (Bin Lt (V 5) (V 7)) (Bin Ge (V 5) (K (JNum 0)))) [Do (SetV 6 (Bin BitOr (V 6) (Meth (Dot (V 1) ''c'') ''jg'' [V 8, V 5, V 2, And (And (V 3) (Neg (Call ''Rdb'' [Call ''LD'' [Call ''oNb'' [Dot (V 1) ''j'', Seq (Call ''Wrc'' []) (G ''arc'')]]]))) (Neg (Call ''Rdb'' [Call ''LD'' [Call ''oNb'' [Dot (V 1) ''j'', Seq (Call ''Wrc'' []) (G ''Irc'')]]]))]))), Do (SetV 6 (Bin BitOr (V 6) (Meth (Dot (V 1) ''q'') ''tg'' [V 8, V 5, V 2]))), Do (SetV 6 (Bin BitOr (V 6) (Call ''WGc'' [V 0, Idx (V 8) (V 5), V 2, V 3])))] [Do (SetV 5 (Bin Plus (V 5) (Cond (V 2) (K (JNum 1)) (K (JNum (- 1))))))], Do (Call ''esb'' [Dot (V 0) ''c'', V 1]), Ret (V 6)],
    fn ''r0b'' 3 10 [Do (Seq (Seq (SetV 10 (Call ''_Xb'' [Dot (V 0) ''j''])) (SetV 11 (K (JNum 0)))) (SetV 12 (Dot (V 10) ''length''))), Loop (Bin Lt (V 11) (V 12)) [Do (SetV 9 (Idx (V 10) (V 11))), When (Or (Loose (V 2) (Seq (Call ''qAc'' []) (G ''nAc''))) (Loose (V 2) (G ''pAc''))) [Do (SetV 8 (Call ''ZXb'' [Dot (V 9) ''g''])), Do (Seq (Seq (SetV 4 (V 8)) (SetV 5 (K (JNum 0)))) (SetV 6 (Dot (V 4) ''length''))), Loop (Bin Lt (V 5) (V 6)) [Do (SetV 3 (Idx (V 4) (V 5))), Do (And (Call ''n0b'' [V 1, V 3]) (Call ''BWb'' [V 3, K (JBool True)]))] [Do (SetV 5 (Bin Minus (V 5) (K (JNum (- 1)))))]] [], When (Or (Loose (V 2) (G ''oAc'')) (Loose (V 2) (G ''pAc''))) [Do (SetV 7 (Call ''ZXb'' [Dot (V 9) ''e''])), Do (Seq (Seq (SetV 4 (V 7)) (SetV 5 (K (JNum 0)))) (SetV 6 (Dot (V 4) ''length''))), Loop (Bin Lt (V 5) (V 6)) [Do (SetV 3 (Idx (V 4) (V 5))), Do (And (Call ''m0b'' [V 1, V 3]) (Call ''BWb'' [V 3, K (JBool True)]))] [Do (SetV 5 (Bin Minus (V 5) (K (JNum (- 1)))))]] []] [Do (SetV 11 (Bin Minus (V 11) (K (JNum (- 1)))))]],
    fn ''Kkc'' 1 2 [Do (SetV 1 (K JNull)), Do (SetV 2 (K JNull)), Switch (Dot (Call ''Fkc'' [V 0]) ''g'') [(Some (JNum 1), [Do (SetV 1 (Seq (Call ''Bmd'' []) (G ''gmd''))), Do (SetV 2 (G ''Amd'')), Break]), (Some (JNum 2), [Do (SetV 1 (Seq (Call ''Bmd'' []) (G ''ymd''))), Do (SetV 2 (G ''hmd'')), Break]), (Some (JNum 3), [Do (SetV 1 (Seq (Call ''Bmd'' []) (G ''Amd''))), Do (SetV 2 (G ''gmd'')), Break]), (Some (JNum 4), [Do (SetV 1 (Seq (Call ''Bmd'' []) (G ''hmd''))), Do (SetV 2 (G ''ymd''))])], Do (Call ''bhc'' [V 0, Call ''JD'' [Call ''Sub'' [Call ''bCb'' [Meth (Call ''JD'' [Call ''Qc'' [Dot (V 0) ''k'', V 1], K (JNum 16)]) ''Mc'' [], G ''Bkc'']], K (JNum 113)]]), Do (Call ''chc'' [V 0, Call ''JD'' [Call ''Sub'' [Call ''aCb'' [Meth (Call ''JD'' [Call ''Qc'' [Dot (V 0) ''k'', V 2], K (JNum 16)]) ''Mc'' [], G ''Bkc'']], K (JNum 113)]])],
    fn ''Rbd'' 1 1 [Do (Super ''Jbd'' []), Do (Put This ''i'' (New ''dcd'' [])), Do (Put This ''g'' (V 0)), Do (Put This ''f'' (Dot (Call ''JD'' [And (Dot (V 0) ''e'') (Meth (V 0) ''e'' []), K (JNum 10)]) ''length'')), When (Loose (Dot This ''f'') (K (JNum 0))) [Raise (Call ''Lcb'' [New ''kfb'' [K (JStr ''There must be at least one phase in the phase enumeration.'')]])] [], Do (Put This ''c'' (Seq (SetV 1 (Call ''JD'' [Call ''web'' [Dot This ''g''], K (JNum 10)])) (New ''Nrb'' [V 1, Call ''JD'' [Call ''nDb'' [V 1, Dot (V 1) ''length''], K (JNum 10)], K (JNum 0)]))), Do (Put This ''a'' (New ''pcd'' [])), Do (Put This ''b'' (New ''_rb'' []))],
    fn ''d3b'' 1 6 [Do (SetV 4 (Call ''JD'' [Call ''dmb'' [Dot (V 0) ''j'', K (JNum 0)], K (JNum 12)])), When (Loose (Bin Plus (Dot (Dot (Dot (V 4) ''e'') ''c'') ''length'') (Dot (Dot (Dot (V 4) ''g'') ''c'') ''length'')) (K (JNum 0))) [Do (Put (Dot (V 0) ''n'') ''a'' (K (JNum 0)))] [Do (SetV 6 (K (JNum 0))), Do (SetV 3 (Call ''Gl'' [Call ''yl'' [Call ''WC'' [Call ''OC'' [G ''VI'', K (JNum 1)], G ''Gte'', K (JNum 20), K (JNum 0), NewArr [New ''AZb'' [V 4], New ''IZb'' [V 4]]]]])), Loop (Call ''Wr'' [V 3]) [Do (SetV 2 (Call ''JD'' [Call ''Xr'' [V 3], K (JNum 12)])), Do (SetV 6 (Bin Plus (V 6) (Bin Plus (Bin Plus (Dot (Dot (Dot (V 2) ''i'') ''n'') ''a'') (Dot (Dot (V 2) ''n'') ''a'')) (Dot (Dot (V 2) ''a'') ''a''))))] [], Do (SetV 1 (Call ''JD'' [Call ''oNb'' [V 0, Seq (Call ''nyc'' []) (G ''oxc'')], K (JNum 8)])), Do (SetV 5 (Cond (Neg (V 1)) (K (JNum 0)) (Dot (V 1) ''a''))), Do (Put (Dot (V 0) ''n'') ''a'' (Bin Minus (Bin Divide (V 6) (Bin Plus (Dot (Dot (Dot (V 4) ''e'') ''c'') ''length'') (Dot (Dot (Dot (V 4) ''g'') ''c'') ''length''))) (V 5)))]],
    fn ''Lad'' 2 3 [Do (SetV 3 (New ''Kmb'' [Dot (V 1) ''a''])), Loop (Bin Lt (Dot (V 3) ''a'') (Dot (Dot (Dot (V 3) ''c'') ''c'') ''length'')) [Do (SetV 2 (Call ''JD'' [Call ''Imb'' [V 3], K (JNum 225)])), Do (Call ''tMb'' [Call ''JD'' [Dot (V 2) ''b'', K (JNum 68)], Call ''igd'' [Call ''Xfd'' [Dot (Call ''JD'' [Dot (V 1) ''b'', K (JNum 68)]) ''c''], Dot (Call ''JD'' [Dot (V 1) ''b'', K (JNum 68)]) ''a'']]), Do (SetV 4 (Call ''QMb'' [Dot (Call ''JD'' [Dot (V 1) ''b'', K (JNum 68)]) ''b'', Dot (Call ''JD'' [Dot (V 2) ''b'', K (JNum 68)]) ''b''])), Do (And (Bin Gt (V 4) (K (JNum 1))) (Put (V 0) ''a'' (K (JBool True)))), Do (Call ''sMb'' [Call ''JD'' [Dot (V 2) ''b'', K (JNum 68)], Call ''Vfd'' [Call ''Xfd'' [Dot (Call ''JD'' [Dot (V 1) ''b'', K (JNum 68)]) ''c''], Call ''dgd'' [Call ''igd'' [Call ''Xfd'' [Dot (Call ''JD'' [Dot (V 2) ''b'', K (JNum 68)]) ''a''], Dot (Call ''JD'' [Dot (V 1) ''b'', K (JNum 68)]) ''a''], V 4]]]), Do (Call ''Jad'' [V 0, V 1]), Do (Call ''Lad'' [V 0, V 2])] []],
    fn ''ZRb'' 1 7 [Do (SetV 5 (New ''Kmb'' [Dot (Dot (V 0) ''a'') ''a''])), Loop (Bin Lt (Dot (V 5) ''a'') (Dot (Dot (Dot (V 5) ''c'') ''c'') ''length'')) [Do (SetV 3 (Call ''JD'' [Call ''Imb'' [V 5], K (JNum 194)])), Do (Put (V 3) ''e'' (K (JNum 0))), Do (Meth (Dot (Dot (V 3) ''d'') ''a'') ''$b'' [])] [], Do (SetV 4 (New ''Kmb'' [Dot (Dot (V 0) ''a'') ''a''])), Loop (Bin Lt (Dot (V 4) ''a'') (Dot (Dot (Dot (V 4) ''c'') ''c'') ''length'')) [Do (SetV 3 (Call ''JD'' [Call ''Imb'' [V 4], K (JNum 194)])), Do (SetV 2 (Meth (Meth (Dot (Dot (V 3) ''a'') ''a'') ''ec'' []) ''Jc'' [])), Loop (Meth (V 2) ''Ob'' []) [Do (SetV 1 (Call ''JD'' [Meth (V 2) ''Pb'' [], K (JNum 82)])), Do (SetV 7 (Meth (Dot (V 1) ''f'') ''Jc'' [])), Loop (Meth (V 7) ''Ob'' []) [Do (SetV 6 (Call ''JD'' [Meth (V 7) ''Pb'' [], K (JNum 82)])), When (Neg (Loose (Dot (V 6) ''d'') (V 3))) [Do (Call ''esb'' [Dot (V 3) ''d'', V 6]), Do (Put (Dot (V 6) ''d'') ''e'' (Bin Minus (Dot (Dot (V 6) ''d'') ''e'') (K (JNum (- 1)))))] []] []] []] []],
    fn ''j0b'' 2 7 [Do (Meth (V 1) ''Tg'' [K (JStr ''Constraints Postprocessor''), K (JNum 1)]), Do (SetV 6 (K (JNum 0))), Do (SetV 5 (New ''Kmb'' [Dot (V 0) ''b''])), Loop (Bin Lt (Dot (V 5) ''a'') (Dot (Dot (Dot (V 5) ''c'') ''c'') ''length'')) [Do (SetV 4 (Call ''JD'' [Call ''Imb'' [V 5], K (JNum 25)])), Do (SetV 8 (K (JNum 0))), Do (SetV 7 (K (JBool False))), Do (SetV 3 (New ''Kmb'' [Dot (V 4) ''a''])), Loop (Bin Lt (Dot (V 3) ''a'') (Dot (Dot (Dot (V 3) ''c'') ''c'') ''length'')) [Do (SetV 2 (Call ''JD'' [Call ''Imb'' [V 3], K (JNum 9)])), When (Loose (Dot (V 2) ''k'') (Seq (Call ''$Yb'' []) (G ''XYb''))) [Do (SetV 7 (K (JBool True))), Do (Call ''rNb'' [V 2, Seq (Call ''nyc'' []) (G ''Fwc''), Call ''Cfb'' [V 6]]), Do (Call ''rNb'' [V 2, G ''Yvc'', Call ''Cfb'' [V 8]]), Do (SetV 8 (Bin Minus (V 8) (K (JNum (- 1)))))] []] [], Do (And (V 7) (SetV 6 (Bin Minus (V 6) (K (JNum (- 1))))))] [], Do (Meth (V 1) ''Ug'' [])],
    fn ''B9b'' 1 8 [Do (SetV 8 (Dot (Dot (Dot (V 0) ''j'') ''c'') ''length'')), Do (SetV 2 (K (JNum 0))), Do (SetV 1 (V 8)), Do (SetV 4 (Bin Times (K (JNum 2)) (V 8))), Do (SetV 7 (New ''Kmb'' [Dot (V 0) ''j''])), Loop (Bin Lt (Dot (V 7) ''a'') (Dot (Dot (Dot (V 7) ''c'') ''c'') ''length'')) [Do (SetV 6 (Call ''JD'' [Call ''Imb'' [V 7], K (JNum 12)])), Switch (Dot (Dot (V 6) ''j'') ''g'') [(Some (JNum 2), []), (Some (JNum 4), [Do (Put (V 6) ''p'' (K (JNum (- 1)))), Break]), (Some (JNum 1), []), (Some (JNum 3), [Do (SetV 3 (Dot (Dot (Dot (V 6) ''e'') ''c'') ''length'')), Do (SetV 5 (Dot (Dot (Dot (V 6) ''g'') ''c'') ''length'')), Do (Cond (And (Bin Gt (V 3) (K (JNum 0))) (Bin Gt (V 5) (K (JNum 0)))) (Put (V 6) ''p'' (Bin Minus (SetV 1 (Bin Minus (V 1) (K (JNum (- 1))))) (K (JNum 1)))) (Cond (Bin Gt (V 3) (K (JNum 0))) (Put (V 6) ''p'' (Bin Minus (SetV 2 (Bin Minus (V 2) (K (JNum (- 1))))) (K (JNum 1)))) (Cond (Bin Gt (V 5) (K (JNum 0))) (Put (V 6) ''p'' (Bin Minus (SetV 4 (Bin Minus (V 4) (K (JNum (- 1))))) (K (JNum 1)))) (Put (V 6) ''p'' (Bin Minus (SetV 2 (Bin Minus (V 2) (K (JNum (- 1))))) (K (JNum 1)))))))])]] [], Do (Call ''Inb'' []), Do (Call ''jmb'' [Dot (V 0) ''j'', New ''F9b'' []])],
    fn ''zcc'' 1 2 [Do (SetV 2 (K JNull)), Do (SetV 1 (Call ''JD'' [Call ''dmb'' [Dot (V 0) ''g'', K (JNum 0)], K (JNum 17)])), Loop (K (JBool True)) [Do (SetV 2 (Dot (Dot (V 1) ''d'') ''i'')), When (Call ''pNb'' [V 2, Seq (Call ''Wrc'' []) (G ''orc'')]) [Ret (Dot (Call ''JD'' [Call ''oNb'' [V 2, G ''orc''], K (JNum 12)]) ''i'')] [], When (And (Neg (Loose (Dot (V 2) ''k'') (Seq (Call ''$Yb'' []) (G ''XYb'')))) (Call ''Wr'' [New ''Yr'' [Call ''Dr'' [Meth (Dot (Call ''HYb'' [V 2]) ''a'') ''Jc'' [], New ''Dl'' []]]])) [Do (SetV 1 (Call ''JD'' [Call ''Xr'' [New ''Yr'' [Call ''Dr'' [Meth (Dot (Call ''HYb'' [V 2]) ''a'') ''Jc'' [], New ''Dl'' []]]], K (JNum 17)]))] [When (Neg (Loose (Dot (V 2) ''k'') (G ''XYb''))) [Ret (K JNull)] []]] [When (And (Neg (Neg (V 2))) (Neg (Loose (Dot (V 2) ''k'') (Seq (Call ''$Yb'' []) (G ''XYb''))))) [] [Break]], Ret (V 2)],
    fn ''Ikc'' 2 9 [Do (SetV 7 (Dot (V 1) ''j'')), Do (SetV 6 (Dot (V 1) ''g'')), Do (SetV 8 (Call ''JD'' [Call ''dmb'' [V 7, Bin Minus (Dot (Dot (V 7) ''c'') ''length'') (K (JNum 1))], K (JNum 113)])), Do (SetV 10 (Seq (Call ''MDb'' [K (JNum 0), Dot (Dot (V 7) ''c'') ''length'']) (Call ''JD'' [Idx (Dot (V 7) ''c'') (K (JNum 0)), K (JNum 113)]))), Do (SetV 9 (Call ''Ekc'' [V 0, V 6, V 8, V 10])), Do (SetV 5 (K (JNum 1))), Loop (Bin Lt (V 5) (Dot (Dot (V 7) ''c'') ''length'')) [Do (SetV 2 (Seq (Call ''MDb'' [Bin Minus (V 5) (K (JNum 1)), Dot (Dot (V 7) ''c'') ''length'']) (Call ''JD'' [Idx (Dot (V 7) ''c'') (Bin Minus (V 5) (K (JNum 1))), K (JNum 113)]))), Do (SetV 4 (Seq (Call ''MDb'' [V 5, Dot (Dot (V 7) ''c'') ''length'']) (Call ''JD'' [Idx (Dot (V 7) ''c'') (V 5), K (JNum 113)]))), Do (SetV 3 (Call ''Ekc'' [V 0, V 6, V 2, V 4])), When (Bin Gt (V 3) (V 9)) [Do (SetV 8 (V 2)), Do (SetV 10 (V 4)), Do (SetV 9 (V 3))] []] [Do (Bin Minus (SetV 5 (Bin Minus (V 5) (K (JNum (- 1))))) (K (JNum 1)))], Do (Put (V 1) ''a'' (V 10)), Do (Put (V 1) ''c'' (V 8))],
    fn ''slc'' 4 2 [Do (SetV 4 (Same (Call ''XD'' [Call ''oNb'' [V 2, Seq (Call ''nyc'' []) (G ''Hvc'')]]) (Call ''XD'' [Seq (Call ''nqc'' []) (G ''kqc'')]))), Do (SetV 5 (Call ''JD'' [Call ''oNb'' [V 2, G ''Gvc''], K (JNum 16)])), When (Call ''pNb'' [V 0, Seq (Call ''Wrc'' []) (G ''trc'')]) [When (V 4) [When (And (Meth (V 5) ''Gc'' [Call ''oNb'' [V 0, G ''Jvc'']]) (Meth (V 5) ''Gc'' [Call ''oNb'' [V 1, G ''Jvc'']])) [Ret (Bin Plus (Bin Times (V 3) (Dot (Call ''JD'' [Call ''oNb'' [V 0, G ''Jvc''], K (JNum 15)]) ''a'')) (Dot (Call ''JD'' [Call ''oNb'' [V 0, G ''trc''], K (JNum 15)]) ''a''))] []] [Ret (Dot (Call ''JD'' [Call ''oNb'' [V 0, G ''trc''], K (JNum 15)]) ''a'')]] [Ret (K (JNum (- 1)))], Ret (Dot (Call ''JD'' [Call ''oNb'' [V 0, G ''trc''], K (JNum 15)]) ''a'')],
    fn ''QIc'' 3 7 [Do (SetV 9 (New ''Gzb'' [New ''CJc'' [V 0]])), Do (Seq (Seq (SetV 6 (Call ''WC'' [Call ''OC'' [G ''eQ'', K (JNum 1)], G ''Cye'', K (JNum 12), K (JNum 0), NewArr [V 1, V 2]])) (SetV 7 (K (JNum 0)))) (SetV 8 (Dot (V 6) ''length''))), Loop (Bin Lt (V 7) (V 8)) [Do (SetV 5 (Idx (V 6) (V 7))), Do (Loose (Meth (Dot (V 9) ''a'') ''yc'' [V 5, Seq (Call ''Qdb'' []) (G ''Odb'')]) (K JNull)), Do (SetV 4 (New ''UZb'' [Dot (V 5) ''b''])), Loop (Or (Call ''Hmb'' [Dot (V 4) ''a'']) (Call ''Hmb'' [Dot (V 4) ''b''])) [Do (SetV 3 (Call ''JD'' [Cond (Call ''Hmb'' [Dot (V 4) ''a'']) (Call ''Imb'' [Dot (V 4) ''a'']) (Call ''Imb'' [Dot (V 4) ''b'']), K (JNum 17)])), Do (Or (Loose (Dot (V 3) ''c'') (Dot (V 3) ''d'')) (Call ''yzb'' [V 9, Cond (Loose (V 5) (Dot (V 3) ''c'')) (Dot (V 3) ''d'') (Dot (V 3) ''c'')]))] []] [Do (SetV 7 (Bin Minus (V 7) (K (JNum (- 1)))))], Ret (Seq (Call ''Qb'' [V 9]) (New ''nmb'' [V 9]))],
    fn ''XFb'' 1 0 [When (Or (Neg (Dot (Dot (V 0) ''a'') ''d'')) (Neg (Dot (Dot (V 0) ''a'') ''e''))) [Raise (Call ''Lcb'' [New ''nfb'' [Seq (Call ''veb'' [G ''ZM'']) (Bin Plus (Bin Plus (Bin Plus (Dot (G ''ZM'') ''k'') (K (JStr '' must have a source and target ''))) (Seq (Call ''veb'' [G ''bN'']) (Dot (G ''bN'') ''k''))) (K (JStr '' specified.'')))]])] [], When (Loose (Dot (Dot (V 0) ''a'') ''d'') (Dot (Dot (V 0) ''a'') ''e'')) [Raise (Call ''Lcb'' [New ''nfb'' [Bin Plus (Bin Plus (Bin Plus (Bin Plus (Bin Plus (K (JStr ''Network simplex does not support self-loops: '')) (Dot (V 0) ''a'')) (K (JStr '' ''))) (Dot (Dot (V 0) ''a'') ''d'')) (K (JStr '' ''))) (Dot (Dot (V 0) ''a'') ''e'')]])] [], Do (Call ''iGb'' [Dot (Dot (Dot (V 0) ''a'') ''d'') ''g'', Dot (V 0) ''a'']), Do (Call ''iGb'' [Dot (Dot (Dot (V 0) ''a'') ''e'') ''b'', Dot (V 0) ''a'']), Ret (Dot (V 0) ''a'')],
    fn ''GDc'' 3 5 [Do (Meth (V 2) ''Tg'' [K (JStr ''Longest path layering''), K (JNum 1)]), Do (Put (V 0) ''a'' (V 1)), Do (SetV 7 (Dot (Dot (V 0) ''a'') ''a'')), Do (Put (V 0) ''b'' (Call ''SC'' [G ''cE'', G ''bve'', K (JNum 30), Dot (Dot (V 7) ''c'') ''length'', K (JNum 15), K (JNum 1)])), Do (SetV 3 (K (JNum 0))), Do (SetV 6 (New ''Kmb'' [V 7])), Loop (Bin Lt (Dot (V 6) ''a'') (Dot (Dot (Dot (V 6) ''c'') ''c'') ''length'')) [Do (SetV 4 (Call ''JD'' [Call ''Imb'' [V 6], K (JNum 9)])), Do (Put (V 4) ''p'' (V 3)), Do (PutIdx (Dot (V 0) ''b'') (V 3) (K (JNum (- 1)))), Do (SetV 3 (Bin Minus (V 3) (K (JNum (- 1)))))] [], Do (SetV 5 (New ''Kmb'' [V 7])), Loop (Bin Lt (Dot (V 5) ''a'') (Dot (Dot (Dot (V 5) ''c'') ''c'') ''length'')) [Do (SetV 4 (Call ''JD'' [Call ''Imb'' [V 5], K (JNum 9)])), Do (Call ''IDc'' [V 0, V 4])] [], Do (Put (Dot (V 7) ''c'') ''length'' (K (JNum 0))), Do (Put (V 0) ''a'' (K JNull)), Do (Put (V 0) ''b'' (K JNull)), Do (Meth (V 2) ''Ug'' [])],
    fn ''xQc'' 3 6 [Do (SetV 3 (K (JNum 0))), When (And (Neg (Loose (Dot (V 1) ''b'') (K (JNum 0)))) (Neg (Loose (Dot (V 2) ''b'') (K (JNum 0))))) [Do (SetV 5 (Call ''Ztb'' [V 1, K (JNum 0)])), Do (SetV 6 (Call ''Ztb'' [V 2, K (JNum 0)])), Do (SetV 7 (Call ''Ueb'' [Call ''MD'' [Call ''lub'' [V 5]]])), Do (SetV 8 (Call ''Ueb'' [Call ''MD'' [Call ''lub'' [V 6]]])), Do (SetV 4 (K (JBool True))), Loop (K (JBool True)) [When (And (Bin Gt (V 7) (Bin Minus (V 8) (Dot (V 0) ''b''))) (Bin Lt (V 7) (Bin Plus (V 8) (Dot (V 0) ''b'')))) [Ret (K (JNum (- 1)))] [Do (And (And (Bin Gt (V 7) (Bin Minus (V 8) (Dot (V 0) ''a''))) (Bin Lt (V 7) (Bin Plus (V 8) (Dot (V 0) ''a'')))) (SetV 3 (Bin Minus (V 3) (K (JNum (- 1))))))], Do (Cond (And (Bin Le (V 7) (V 8)) (Neg (Loose (Dot (V 5) ''b'') (Dot (Dot (V 5) ''d'') ''c'')))) (SetV 7 (Call ''Ueb'' [Call ''MD'' [Call ''lub'' [V 5]]])) (Cond (And (Bin Le (V 8) (V 7)) (Neg (Loose (Dot (V 6) ''b'') (Dot (Dot (V 6) ''d'') ''c'')))) (SetV 8 (Call ''Ueb'' [Call ''MD'' [Call ''lub'' [V 6]]])) (SetV 4 (K (JBool False)))))] [When (V 4) [] [Break]]] [], Ret (V 3)],
    fn ''p_c'' 2 2 [Do (Call ''Nbd'' [Dot (V 0) ''a'']), Do (Call ''Qbd'' [Dot (V 0) ''a'', Seq (Call ''g_c'' []) (G ''e_c''), G ''e_c'']), Do (Call ''Qbd'' [Dot (V 0) ''a'', G ''f_c'', G ''f_c'']), Do (SetV 3 (New ''pcd'' [])), Do (Call ''kcd'' [V 3, G ''f_c'', Seq (Call ''R_c'' []) (G ''P_c'')]), Do (And (Neg (Same (Call ''XD'' [Call ''cvd'' [V 1, Seq (Call ''J1c'' []) (G ''r1c'')]]) (Call ''XD'' [Seq (Call ''R0c'' []) (G ''O0c'')]))) (Call ''kcd'' [V 3, G ''f_c'', G ''M_c''])), Do (And (Call ''Rdb'' [Call ''LD'' [Call ''cvd'' [V 1, G ''C1c'']]]) (Call ''kcd'' [V 3, G ''f_c'', G ''Q_c''])), Do (Call ''kcd'' [V 3, G ''f_c'', G ''N_c'']), Do (And (Call ''Rdb'' [Call ''LD'' [Call ''cvd'' [V 1, G ''E1c'']]]) (Call ''icd'' [V 3, G ''f_c'', G ''O_c''])), Do (Call ''Kbd'' [Dot (V 0) ''a'', V 3]), Do (SetV 2 (Call ''Lbd'' [Dot (V 0) ''a'', V 1])), Ret (V 2)],
    fn ''_5b'' 0 0 [Do (Call ''X5b'' []), Ret (Call ''WC'' [Call ''OC'' [G ''GR'', K (JNum 1)], G ''xue'', K (JNum 77), K (JNum 0), NewArr [G ''a5b'', G ''Z4b'', G ''b5b'', G ''r5b'', G ''L5b'', G ''v5b'', G ''R5b'', G ''A5b'', G ''J5b'', G ''m5b'', G ''F5b'', G ''z5b'', G ''K5b'', G ''i5b'', G ''T5b'', G ''T4b'', G ''D5b'', G ''N5b'', G ''s5b'', G ''M5b'', G ''V5b'', G ''H5b'', G ''U4b'', G ''I5b'', G ''W5b'', G ''P5b'', G ''S4b'', G ''U5b'', G ''t5b'', G ''f5b'', G ''u5b'', G ''q5b'', G ''S5b'', G ''X4b'', G ''d5b'', G ''x5b'', G ''W4b'', G ''y5b'', G ''o5b'', G ''j5b'', G ''E5b'', G ''B5b'', G ''l5b'', G ''$4b'', G ''Y4b'', G ''p5b'', G ''k5b'', G ''C5b'', G ''Q5b'', G ''V4b'', G ''G5b'', G ''n5b'', G ''w5b'', G ''g5b'', G ''e5b'', G ''O5b'', G ''c5b'', G ''h5b'', G ''_4b'']])],
    fn ''sRc'' 4 9 [Do (SetV 8 (K (JNum 0))), Do (SetV 10 (New ''Kmb'' [Dot (V 0) ''a''])), Loop (Bin Lt (Dot (V 10) ''a'') (Dot (Dot (Dot (V 10) ''c'') ''c'') ''length'')) [Do (SetV 9 (Call ''JD'' [Call ''Imb'' [V 10], K (JNum 9)])), Do (SetV 7 (K (JNum 0))), Do (SetV 5 (New ''Yr'' [Call ''Dr'' [Meth (Dot (Call ''EYb'' [V 9]) ''a'') ''Jc'' [], New ''Dl'' []]])), Loop (Call ''Wr'' [V 5]) [Do (SetV 4 (Call ''JD'' [Call ''Xr'' [V 5], K (JNum 17)])), Do (SetV 11 (Dot (Call ''rZb'' [Dot (V 4) ''c'']) ''b'')), Do (SetV 12 (Dot (Call ''rZb'' [Dot (V 4) ''d'']) ''b'')), Do (SetV 7 (Meth (Dot (G ''$wnd'') ''Math'') ''max'' [V 7, Meth (Dot (G ''$wnd'') ''Math'') ''abs'' [Bin Minus (V 12) (V 11)]]))] [], Do (SetV 8 (Meth (Dot (G ''$wnd'') ''Math'') ''max'' [V 8, V 7]))] [], Do (SetV 6 (Bin Times (Bin Times (V 3) (Meth (Dot (G ''$wnd'') ''Math'') ''min'' [K (JNum 1), Bin Divide (V 1) (V 2)])) (V 8))), Ret (V 6)],
    fn ''U7b'' 1 2 [Do (SetV 2 (New ''Yr'' [Call ''Dr'' [Meth (Dot (Call ''HYb'' [V 0]) ''a'') ''Jc'' [], New ''Dl'' []]])), Loop (Call ''Wr'' [V 2]) [Do (SetV 1 (Call ''JD'' [Call ''Xr'' [V 2], K (JNum 17)])), When (Neg (Loose (Dot (Dot (Dot (V 1) ''d'') ''i'') ''k'') (Seq (Call ''$Yb'' []) (G ''UYb'')))) [Raise (Call ''Lcb'' [New ''Ebd'' [Bin Plus (Bin Plus (Bin Plus (G ''Uye'') (Call ''CYb'' [V 0])) (K (JStr (CHR 0x27 # '' has its layer constraint set to LAST, but has at least one outgoing edge that '')))) (K (JStr '' does not go to a LAST_SEPARATE node. That must not happen.''))]])] []] []],
    fn ''sYc'' 2 5 [Do (SetV 6 (Call ''JD'' [Call ''oNb'' [V 1, Seq (Call ''SXc'' []) (G ''HXc'')], K (JNum 425)])), Do (SetV 5 (Call ''Ztb'' [Dot (V 1) ''b'', K (JNum 0)])), Loop (Neg (Loose (Dot (V 5) ''b'') (Dot (Dot (V 5) ''d'') ''c''))) [Do (SetV 4 (Call ''JD'' [Call ''lub'' [V 5], K (JNum 40)])), When (Loose (Idx (Dot (V 0) ''b'') (Dot (V 4) ''g'')) (K (JNum 0))) [Switch (Dot (V 6) ''g'') [(Some (JNum 0), [Do (Call ''tYc'' [V 0, V 4]), Break]), (Some (JNum 1), [Do (Call ''rYc'' [V 0, V 4])])], Do (PutIdx (Dot (V 0) ''b'') (Dot (V 4) ''g'') (K (JNum 2)))] []] [], Do (SetV 3 (Call ''Ztb'' [Dot (V 0) ''a'', K (JNum 0)])), Loop (Neg (Loose (Dot (V 3) ''b'') (Dot (Dot (V 3) ''d'') ''c''))) [Do (SetV 2 (Call ''JD'' [Call ''lub'' [V 3], K (JNum 65)])), Do (Call ''ye'' [Dot (Dot (V 2) ''b'') ''d'', V 2, K (JBool True)]), Do (Call ''ye'' [Dot (Dot (V 2) ''c'') ''b'', V 2, K (JBool True)])] [], Do (Call ''rNb'' [V 1, Seq (Call ''_Wc'' []) (G ''VWc''), Dot (V 0) ''a''])],
    fn ''Cqe'' 1 1 [Do (SetV 1 (New ''_gb'' [])), Do (And (Neg (Loose (Bin BitAnd (V 0) (K (JNum 256))) (K (JNum 0)))) (Seq (Put (V 1) ''a'' (Bin Plus (Dot (V 1) ''a'') (K (JStr ''F'')))) (V 1))), Do (And (Neg (Loose (Bin BitAnd (V 0) (K (JNum 128))) (K (JNum 0)))) (Seq (Put (V 1) ''a'' (Bin Plus (Dot (V 1) ''a'') (K (JStr ''H'')))) (V 1))), Do (And (Neg (Loose (Bin BitAnd (V 0) (K (JNum 512))) (K (JNum 0)))) (Seq (Put (V 1) ''a'' (Bin Plus (Dot (V 1) ''a'') (K (JStr ''X'')))) (V 1))), Do (And (Neg (Loose (Bin BitAnd (V 0) (K (JNum 2))) (K (JNum 0)))) (Seq (Put (V 1) ''a'' (Bin Plus (Dot (V 1) ''a'') (K (JStr ''i'')))) (V 1))), Do (And (Neg (Loose (Bin BitAnd (V 0) (K (JNum 8))) (K (JNum 0)))) (Seq (Put (V 1) ''a'' (Bin Plus (Dot (V 1) ''a'') (K (JStr ''m'')))) (V 1))), Do (And (Neg (Loose (Bin BitAnd (V 0) (K (JNum 4))) (K (JNum 0)))) (Seq (Put (V 1) ''a'' (Bin Plus (Dot (V 1) ''a'') (K (JStr ''s'')))) (V 1))), Do (And (Neg (Loose (Bin BitAnd (V 0) (K (JNum 32))) (K (JNum 0)))) (Seq (Put (V 1) ''a'' (Bin Plus (Dot (V 1) ''a'') (K (JStr ''u'')))) (V 1))), Do (And (Neg (Loose (Bin BitAnd (V 0) (K (JNum 64))) (K (JNum 0)))) (Seq (Put (V 1) ''a'' (Bin Plus (Dot (V 1) ''a'') (K (JStr ''w'')))) (V 1))), Do (And (Neg (Loose (Bin BitAnd (V 0) (K (JNum 16))) (K (JNum 0)))) (Seq (Put (V 1) ''a'' (Bin Plus (Dot (V 1) ''a'') (K (JStr ''x'')))) (V 1))), Do (And (Neg (Loose (Bin BitAnd (V 0) (G ''hIe'')) (K (JNum 0)))) (Seq (Put (V 1) ''a'' (Bin Plus (Dot (V 1) ''a'') (K (JStr '','')))) (V 1))), Ret (Call ''Cgb'' [Dot (V 1) ''a''])],
    fn ''I0b'' 5 4 [Do (SetV 8 (Seq (SetV 5 (Call ''JD'' [Call ''web'' [G ''M2''], K (JNum 10)])) (New ''Nrb'' [V 5, Call ''JD'' [Call ''nDb'' [V 5, Dot (V 5) ''length''], K (JNum 10)], K (JNum 0)]))), Do (SetV 7 (New ''Kmb'' [Dot (V 0) ''j''])), Loop (Bin Lt (Dot (V 7) ''a'') (Dot (Dot (Dot (V 7) ''c'') ''c'') ''length'')) [Do (SetV 6 (Call ''JD'' [Call ''Imb'' [V 7], K (JNum 12)])), When (Idx (V 1) (Dot (V 6) ''p'')) [Do (Call ''J0b'' [V 6, Idx (V 1) (Dot (V 6) ''p''), V 3]), Do (Call ''Hrb'' [V 8, Dot (V 6) ''j''])] []] [], When (V 4) [Do (Call ''N0b'' [V 0, V 1, Seq (Call ''Bmd'' []) (G ''gmd''), Bin Times (K (JNum 2)) (V 2), V 3]), Do (Call ''N0b'' [V 0, V 1, G ''Amd'', Bin Times (K (JNum 2)) (V 2), V 3])] [Do (Call ''N0b'' [V 0, V 1, Seq (Call ''Bmd'' []) (G ''hmd''), Bin Times (K (JNum 2)) (V 2), V 3]), Do (Call ''N0b'' [V 0, V 1, G ''ymd'', Bin Times (K (JNum 2)) (V 2), V 3])]]]"

definition code_5541_5545 :: "(string \<times> jfun) list" where
  "code_5541_5545 = [
    fn ''S8b'' 2 7 [Do (SetV 4 (New ''lmb'' [])), Do (SetV 2 (K (JNum 0))), Loop (Bin Le (V 2) (Dot (V 0) ''j'')) [Do (SetV 3 (New ''y$b'' [V 1])), Do (Put (V 3) ''p'' (Bin Minus (Dot (V 0) ''j'') (V 2))), Do (Call ''qDb'' [Dot (V 4) ''c'', V 3])] [Do (Bin Minus (SetV 2 (Bin Minus (V 2) (K (JNum (- 1))))) (K (JNum 1)))], Do (SetV 7 (New ''Kmb'' [Dot (V 0) ''p''])), Loop (Bin Lt (Dot (V 7) ''a'') (Dot (Dot (Dot (V 7) ''c'') ''c'') ''length'')) [Do (SetV 6 (Call ''JD'' [Call ''Imb'' [V 7], K (JNum 9)])), Do (Call ''NYb'' [V 6, Call ''JD'' [Call ''dmb'' [V 4, Bin Minus (Dot (V 0) ''j'') (Idx (Dot (V 0) ''g'') (Dot (V 6) ''p''))], K (JNum 25)]])] [], Do (SetV 5 (New ''Kmb'' [V 4])), Loop (Bin Lt (Dot (V 5) ''a'') (Dot (Dot (Dot (V 5) ''c'') ''c'') ''length'')) [Do (SetV 8 (Call ''JD'' [Call ''Imb'' [V 5], K (JNum 25)])), Do (And (Loose (Dot (Dot (Dot (V 8) ''a'') ''c'') ''length'') (K (JNum 0))) (Call ''Jmb'' [V 5]))] [], Do (Put (Dot (Dot (V 1) ''b'') ''c'') ''length'' (K (JNum 0))), Do (Call ''bmb'' [Dot (V 1) ''b'', V 4])],
    fn ''UCc'' 3 6 [Do (SetV 3 (Call ''JD'' [Call ''Qc'' [Dot (V 0) ''c'', V 1], K (JNum 16)])), Do (SetV 4 (Call ''JD'' [Call ''Qc'' [Dot (V 0) ''c'', V 2], K (JNum 16)])), Do (SetV 5 (Meth (V 3) ''dd'' [Meth (V 3) ''gc'' []])), Do (SetV 6 (Meth (V 4) ''dd'' [Meth (V 4) ''gc'' []])), Loop (And (Meth (V 5) ''Sb'' []) (Meth (V 6) ''Sb'' [])) [Do (SetV 7 (Call ''JD'' [Meth (V 5) ''Ub'' [], K (JNum 15)])), Do (SetV 8 (Call ''JD'' [Meth (V 6) ''Ub'' [], K (JNum 15)])), When (Neg (Loose (V 7) (V 8))) [Ret (Call ''rfb'' [Dot (V 7) ''a'', Dot (V 8) ''a''])] []] [], When (And (Neg (Meth (V 5) ''Ob'' [])) (Neg (Meth (V 6) ''Ob'' []))) [When (Bin Lt (Dot (V 1) ''p'') (Dot (V 2) ''p'')) [Ret (K (JNum (- 1)))] [When (Bin Gt (Dot (V 1) ''p'') (Dot (V 2) ''p'')) [Ret (K (JNum 1))] []], Ret (K (JNum 0))] [Ret (Cond (Meth (V 5) ''Ob'' []) (K (JNum 1)) (K (JNum (- 1))))]],
    fn ''R5c'' 2 6 [Do (Meth (V 1) ''Tg'' [G ''fEe'', K (JNum 1)]), Do (SetV 4 (Call ''JD'' [Call ''cvd'' [V 0, Seq (Call ''S4c'' []) (G ''I4c'')], K (JNum 104)])), Do (SetV 5 (Seq (And (Neg (Dot (V 0) ''a'')) (Put (V 0) ''a'' (New ''P3d'' [G ''T3'', V 0, K (JNum 10), K (JNum 11)]))) (Dot (V 0) ''a''))), Do (SetV 6 (Call ''u7c'' [V 5])), Do (SetV 7 (Meth (Dot (G ''$wnd'') ''Math'') ''max'' [Dot (V 6) ''a'', Bin Minus (Call ''Ueb'' [Call ''MD'' [Call ''cvd'' [V 0, Seq (Call ''P3c'' []) (G ''M3c'')]]]) (Bin Plus (Dot (V 4) ''b'') (Dot (V 4) ''c''))])), Do (SetV 3 (Meth (Dot (G ''$wnd'') ''Math'') ''max'' [Dot (V 6) ''b'', Bin Minus (Call ''Ueb'' [Call ''MD'' [Call ''cvd'' [V 0, G ''J3c'']]]) (Bin Plus (Dot (V 4) ''d'') (Dot (V 4) ''a''))])), Do (SetV 2 (Bin Minus (V 3) (Dot (V 6) ''b''))), Do (Call ''evd'' [V 0, G ''E3c'', V 2]), Do (Call ''evd'' [V 0, G ''G3c'', V 7]), Do (Call ''evd'' [V 0, G ''F3c'', Bin Plus (V 3) (V 2)]), Do (Meth (V 1) ''Ug'' [])],
    fn ''_Ed'' 1 2 [When (Loose (Dot (Seq (And (Neg (Dot (V 0) ''a'')) (Put (V 0) ''a'' (New ''P3d'' [G ''P3'', V 0, K (JNum 6), K (JNum 6)]))) (Dot (V 0) ''a'')) ''i'') (K (JNum 0))) [Ret (Call ''XEd'' [V 0])] [Do (SetV 1 (Call ''JD'' [Call ''fGd'' [Seq (And (Neg (Dot (V 0) ''a'')) (Put (V 0) ''a'' (New ''P3d'' [G ''P3'', V 0, K (JNum 6), K (JNum 6)]))) (Dot (V 0) ''a''), K (JNum 0)], K (JNum 170)])), Do (Call ''JJd'' [Seq (And (Neg (Dot (V 1) ''a'')) (Put (V 1) ''a'' (New ''iYd'' [G ''N3'', V 1, K (JNum 5)]))) (Dot (V 1) ''a'')]), Do (Call ''ixd'' [V 1, K (JNum 0)]), Do (Call ''jxd'' [V 1, K (JNum 0)]), Do (Call ''bxd'' [V 1, K (JNum 0)]), Do (Call ''cxd'' [V 1, K (JNum 0)]), Do (SetV 2 (Seq (And (Neg (Dot (V 0) ''a'')) (Put (V 0) ''a'' (New ''P3d'' [G ''P3'', V 0, K (JNum 6), K (JNum 6)]))) (Dot (V 0) ''a''))), Loop (Bin Gt (Dot (V 2) ''i'') (K (JNum 1))) [Do (Call ''MJd'' [V 2, Bin Minus (Dot (V 2) ''i'') (K (JNum 1))])] [], Ret (V 1)]],
    fn ''Cie'' 2 4 [Do (Call ''Aie'' []), When (Neg (V 1)) [Ret (G ''zie'')] [When (Or (Loose (V 1) (Seq (Call ''Ake'' []) (G ''xke''))) (And (Or (Or (Loose (V 1) (G ''fke'')) (Loose (V 1) (G ''dke''))) (Loose (V 1) (G ''eke''))) (Neg (Loose (V 0) (G ''cke''))))) [Ret (New ''Jie'' [V 0, V 1])] [Do (SetV 3 (Call ''JD'' [V 1, K (JNum 682)])), Do (SetV 2 (Meth (V 3) ''Yk'' [])), When (Neg (V 2)) [Do (Call ''Nde'' [Call ''bde'' [Seq (Call ''yie'' []) (G ''wie''), V 1]]), Do (SetV 2 (Meth (V 3) ''Yk'' []))] [], Do (SetV 5 (Seq (And (Neg (Dot (V 2) ''i'')) (Put (V 2) ''i'' (New ''_rb'' []))) (Dot (V 2) ''i''))), Do (SetV 4 (Call ''JD'' [Call ''Wd'' [Call ''ysb'' [Dot (V 5) ''f'', V 0]], K (JNum 2006)])), Do (And (Neg (V 4)) (Call ''hjb'' [V 5, V 0, SetV 4 (New ''Jie'' [V 0, V 1])])), Ret (V 4)]]]]"

definition code_5547_5568 :: "(string \<times> jfun) list" where
  "code_5547_5568 = [
    fn ''q9b'' 2 9 [Do (SetV 8 (Call ''JD'' [Call ''oNb'' [V 0, Seq (Call ''Wrc'' []) (G ''urc'')], K (JNum 12)])), Do (SetV 9 (Dot (Call ''rgd'' [Call ''WC'' [Call ''OC'' [G ''r2'', K (JNum 1)], G ''aue'', K (JNum 8), K (JNum 0), NewArr [Dot (Dot (V 8) ''i'') ''n'', Dot (V 8) ''n'', Dot (V 8) ''a'']]]) ''a'')), Do (SetV 10 (Dot (Dot (Dot (V 0) ''i'') ''n'') ''b'')), Do (SetV 2 (Call ''ZXb'' [Dot (V 0) ''e''])), Do (Seq (Seq (SetV 4 (V 2)) (SetV 5 (K (JNum 0)))) (SetV 6 (Dot (V 4) ''length''))), Loop (Bin Lt (V 5) (V 6)) [Do (SetV 3 (Idx (V 4) (V 5))), Do (Call ''DWb'' [V 3, V 8]), Do (Call ''Vtb'' [Dot (V 3) ''a'', New ''lgd'' [V 9, V 10]]), When (V 1) [Do (SetV 7 (Call ''JD'' [Call ''oNb'' [V 3, Seq (Call ''nyc'' []) (G ''Bwc'')], K (JNum 79)])), When (Neg (V 7)) [Do (SetV 7 (New ''ygd'' [])), Do (Call ''rNb'' [V 3, G ''Bwc'', V 7])] [], Do (Call ''Ttb'' [V 7, New ''lgd'' [V 9, V 10]])] []] [Do (SetV 5 (Bin Minus (V 5) (K (JNum (- 1)))))]],
    fn ''r9b'' 2 9 [Do (SetV 4 (Call ''JD'' [Call ''oNb'' [V 0, Seq (Call ''Wrc'' []) (G ''urc'')], K (JNum 12)])), Do (SetV 9 (Dot (Call ''rgd'' [Call ''WC'' [Call ''OC'' [G ''r2'', K (JNum 1)], G ''aue'', K (JNum 8), K (JNum 0), NewArr [Dot (Dot (V 4) ''i'') ''n'', Dot (V 4) ''n'', Dot (V 4) ''a'']]]) ''a'')), Do (SetV 10 (Dot (Dot (Dot (V 0) ''i'') ''n'') ''b'')), Do (SetV 2 (Call ''ZXb'' [Dot (V 0) ''g''])), Do (Seq (Seq (SetV 6 (V 2)) (SetV 7 (K (JNum 0)))) (SetV 8 (Dot (V 6) ''length''))), Loop (Bin Lt (V 7) (V 8)) [Do (SetV 5 (Idx (V 6) (V 7))), Do (Call ''CWb'' [V 5, V 4]), Do (Call ''Utb'' [Dot (V 5) ''a'', New ''lgd'' [V 9, V 10]]), When (V 1) [Do (SetV 3 (Call ''JD'' [Call ''oNb'' [V 5, Seq (Call ''nyc'' []) (G ''Bwc'')], K (JNum 79)])), When (Neg (V 3)) [Do (SetV 3 (New ''ygd'' [])), Do (Call ''rNb'' [V 5, G ''Bwc'', V 3])] [], Do (Call ''Ttb'' [V 3, New ''lgd'' [V 9, V 10]])] []] [Do (SetV 7 (Bin Minus (V 7) (K (JNum (- 1)))))]],
    fn ''Kbc'' 1 9 [Do (SetV 3 (Dot (V 0) ''b'')), Do (SetV 5 (Dot (V 3) ''e'')), Do (SetV 6 (Call ''Nld'' [Call ''JD'' [Call ''oNb'' [V 3, Seq (Call ''nyc'' []) (G ''qxc'')], K (JNum 102)]])), Do (SetV 2 (And (Neg (Neg (V 5))) (Meth (Call ''JD'' [Call ''oNb'' [V 5, Seq (Call ''Wrc'' []) (G ''brc'')], K (JNum 22)]) ''Gc'' [Seq (Call ''Xpc'' []) (G ''Qpc'')]))), When (Or (V 6) (V 2)) [Ret (K JUndef)] [], Do (SetV 9 (Seq (SetV 7 (Meth (Meth (Dot (New ''qkb'' [Dot (V 0) ''e'']) ''a'') ''vc'' []) ''Jc'' [])) (New ''vkb'' [V 7]))), Loop (Meth (Dot (V 9) ''a'') ''Ob'' []) [Do (SetV 8 (Seq (SetV 1 (Call ''JD'' [Meth (Dot (V 9) ''a'') ''Pb'' [], K (JNum 45)])) (Call ''JD'' [Meth (V 1) ''kd'' [], K (JNum 113)]))), When (Dot (V 8) ''a'') [Do (SetV 4 (Dot (V 8) ''d'')), Do (Call ''wZb'' [V 4, K JNull]), Do (Put (V 8) ''c'' (K (JBool True))), Do (Put (V 0) ''a'' (K (JBool True)))] []] []],
    fn ''icc'' 2 4 [Do (Meth (V 1) ''Tg'' [K (JStr ''Semi-Interactive Crossing Minimization Processor''), K (JNum 1)]), Do (SetV 2 (K (JBool False))), Do (SetV 4 (New ''Kmb'' [Dot (V 0) ''b''])), Loop (Bin Lt (Dot (V 4) ''a'') (Dot (Dot (Dot (V 4) ''c'') ''c'') ''length'')) [Do (SetV 3 (Call ''JD'' [Call ''Imb'' [V 4], K (JNum 25)])), Do (SetV 5 (Call ''dCb'' [Call ''gCb'' [Call ''VBb'' [Call ''VBb'' [New ''jCb'' [K JNull, New ''Zvb'' [Dot (V 3) ''a'', K (JNum 16)]], New ''ncc'' []], New ''pcc'' []], New ''rcc'' []], New ''vcc'' []])), Do (SetV 2 (Bin BitOr (V 2) (Neg (Loose (Dot (V 5) ''a'') (K JNull)))))] [], Do (And (V 2) (Call ''rNb'' [V 0, Seq (Call ''Wrc'' []) (G ''irc''), Seq (Call ''Qdb'' []) (K (JBool True))])), Do (Meth (V 1) ''Ug'' [])],
    fn ''LGc'' 2 6 [Do (Put (V 0) ''b'' (New ''lmb'' [])), Do (Put (V 0) ''d'' (Call ''JD'' [Call ''oNb'' [V 1, Seq (Call ''Wrc'' []) (G ''Frc'')], K (JNum 234)])), Do (Put (V 0) ''e'' (Call ''Svb'' [Dot (V 0) ''d''])), Do (SetV 5 (New ''dub'' [])), Do (SetV 4 (Call ''Wu'' [Call ''WC'' [Call ''OC'' [G ''NP'', K (JNum 1)], G ''tye'', K (JNum 36), K (JNum 0), NewArr [V 1]]])), Do (SetV 6 (K (JNum 0))), Loop (Bin Lt (V 6) (Dot (Dot (V 4) ''c'') ''length'')) [Do (SetV 3 (Seq (Call ''MDb'' [V 6, Dot (Dot (V 4) ''c'') ''length'']) (Call ''JD'' [Idx (Dot (V 4) ''c'') (V 6), K (JNum 36)]))), Do (Put (V 3) ''p'' (Bin Minus (SetV 6 (Bin Minus (V 6) (K (JNum (- 1))))) (K (JNum 1)))), Do (SetV 2 (New ''ZFc'' [V 3, Dot (V 0) ''a'', Dot (V 0) ''b''])), Do (Call ''bmb'' [V 4, Dot (V 2) ''b'']), Do (Call ''_lb'' [Dot (V 0) ''b'', V 2]), Do (And (Dot (V 2) ''s'') (Seq (SetV 7 (Call ''Ztb'' [V 5, K (JNum 0)])) (Call ''jub'' [V 7, V 2])))] [], Do (Put (V 0) ''c'' (New ''hsb'' [])), Ret (V 5)],
    fn ''bKb'' 2 6 [Do (SetV 6 (Meth (Call ''JD'' [Call ''JD'' [Call ''Qc'' [Dot (V 0) ''r'', V 1], K (JNum 22)], K (JNum 83)]) ''Jc'' [])), Loop (Meth (V 6) ''Ob'' []) [Do (SetV 5 (Call ''JD'' [Meth (V 6) ''Pb'' [], K (JNum 115)])), Do (SetV 2 (Cond (Dot (V 5) ''c'') (Call ''tIb'' [Dot (V 5) ''c'']) (K (JNum 0)))), When (Bin Gt (V 2) (K (JNum 0))) [When (Dot (V 5) ''a'') [Do (SetV 7 (Dot (Meth (Dot (V 5) ''b'') ''Kf'' []) ''a'')), When (Bin Gt (V 2) (V 7)) [Do (SetV 4 (Bin Divide (Bin Minus (V 2) (V 7)) (K (JNum 2)))), Do (Put (Dot (V 5) ''d'') ''b'' (V 4)), Do (Put (Dot (V 5) ''d'') ''c'' (V 4))] []] [Do (Put (Dot (V 5) ''d'') ''c'' (Bin Plus (Dot (V 0) ''s'') (V 2)))]] [When (Call ''amd'' [Dot (V 0) ''u'']) [Do (SetV 3 (Call ''Ypd'' [Dot (V 5) ''b''])), Do (And (Bin Lt (Dot (V 3) ''c'') (K (JNum 0))) (Put (Dot (V 5) ''d'') ''b'' (Minus1 (Dot (V 3) ''c'')))), Do (And (Bin Gt (Bin Plus (Dot (V 3) ''c'') (Dot (V 3) ''b'')) (Dot (Meth (Dot (V 5) ''b'') ''Kf'' []) ''a'')) (Put (Dot (V 5) ''d'') ''c'' (Bin Minus (Bin Plus (Dot (V 3) ''c'') (Dot (V 3) ''b'')) (Dot (Meth (Dot (V 5) ''b'') ''Kf'' []) ''a''))))] []]] []],
    fn ''ARc'' 2 5 [Do (SetV 6 (New ''lmb'' [])), Do (SetV 2 (V 1)), Loop (K (JBool True)) [Do (SetV 5 (Call ''JD'' [Call ''ejb'' [Dot (V 0) ''b'', V 2], K (JNum 132)])), Do (Put (V 5) ''B'' (Dot (V 2) ''c'')), Do (Put (V 5) ''D'' (Dot (V 2) ''d'')), Do (Call ''qDb'' [Dot (V 6) ''c'', V 5]), Do (SetV 2 (Call ''JD'' [Call ''ejb'' [Dot (V 0) ''k'', V 2], K (JNum 17)]))] [When (V 2) [] [Break]], Do (SetV 3 (Seq (Call ''MDb'' [K (JNum 0), Dot (Dot (V 6) ''c'') ''length'']) (Call ''JD'' [Idx (Dot (V 6) ''c'') (K (JNum 0)), K (JNum 132)]))), Do (Put (V 3) ''j'' (K (JBool True))), Do (Put (V 3) ''A'' (Dot (Dot (Call ''JD'' [Meth (Meth (Meth (Dot (Dot (V 3) ''d'') ''a'') ''ec'' []) ''Jc'' []) ''Pb'' [], K (JNum 17)]) ''c'') ''i'')), Do (SetV 4 (Call ''JD'' [Call ''dmb'' [V 6, Bin Minus (Dot (Dot (V 6) ''c'') ''length'') (K (JNum 1))], K (JNum 132)])), Do (Put (V 4) ''q'' (K (JBool True))), Do (Put (V 4) ''C'' (Dot (Dot (Call ''JD'' [Meth (Meth (Meth (Dot (Dot (V 4) ''d'') ''a'') ''ec'' []) ''Jc'' []) ''Pb'' [], K (JNum 17)]) ''d'') ''i'')), Ret (V 6)],
    fn ''t2b'' 1 2 [Do (SetV 2 (Call ''JD'' [Call ''oNb'' [V 0, Seq (Call ''nyc'' []) (G ''Ewc'')], K (JNum 165)])), Do (SetV 1 (Call ''JD'' [Call ''oNb'' [V 0, Seq (Call ''Wrc'' []) (G ''frc'')], K (JNum 316)])), When (Loose (V 2) (Seq (Call ''asc'' []) (G ''Yrc''))) [Do (Call ''rNb'' [V 0, G ''Ewc'', G ''_rc'']), Do (Call ''rNb'' [V 0, G ''frc'', Seq (Call ''wqc'' []) (G ''vqc'')])] [When (Loose (V 2) (G ''$rc'')) [Do (Call ''rNb'' [V 0, G ''Ewc'', G ''_rc'']), Do (Call ''rNb'' [V 0, G ''frc'', Seq (Call ''wqc'' []) (G ''tqc'')])] [When (Loose (V 1) (Seq (Call ''wqc'' []) (G ''vqc''))) [Do (Call ''rNb'' [V 0, G ''Ewc'', G ''Yrc'']), Do (Call ''rNb'' [V 0, G ''frc'', G ''uqc''])] [When (Loose (V 1) (G ''tqc'')) [Do (Call ''rNb'' [V 0, G ''Ewc'', G ''$rc'']), Do (Call ''rNb'' [V 0, G ''frc'', G ''uqc''])] []]]]],
    fn ''OOc'' 0 0 [Do (SetG ''OOc'' (G ''qdb'')), Do (SetG ''MOc'' (New ''$Oc'' [])), Do (SetG ''IOc'' (Call ''kcd'' [New ''pcd'' [], Seq (Call ''YQb'' []) (G ''VQb''), Seq (Call ''X5b'' []) (G ''s5b'')])), Do (SetG ''LOc'' (Call ''icd'' [Call ''kcd'' [New ''pcd'' [], G ''VQb'', G ''H5b''], G ''XQb'', G ''G5b''])), Do (SetG ''NOc'' (Call ''hcd'' [Call ''hcd'' [Call ''mcd'' [Call ''icd'' [Call ''kcd'' [New ''pcd'' [], G ''TQb'', G ''R5b''], G ''XQb'', G ''Q5b''], G ''WQb''], G ''P5b''], G ''S5b''])), Do (SetG ''JOc'' (Call ''icd'' [Call ''kcd'' [Call ''kcd'' [Call ''kcd'' [New ''pcd'' [], G ''UQb'', G ''v5b''], G ''WQb'', G ''x5b''], G ''WQb'', G ''y5b''], G ''XQb'', G ''w5b''])), Do (SetG ''KOc'' (Call ''icd'' [Call ''kcd'' [Call ''kcd'' [New ''pcd'' [], G ''WQb'', G ''y5b''], G ''WQb'', G ''d5b''], G ''XQb'', G ''c5b'']))],
    fn ''qRc'' 0 0 [Do (SetG ''qRc'' (G ''qdb'')), Do (SetG ''lRc'' (Call ''kcd'' [Call ''icd'' [New ''pcd'' [], Seq (Call ''YQb'' []) (G ''XQb''), Seq (Call ''X5b'' []) (G ''g5b'')], G ''VQb'', G ''s5b''])), Do (SetG ''pRc'' (Call ''hcd'' [Call ''hcd'' [Call ''mcd'' [Call ''icd'' [Call ''kcd'' [New ''pcd'' [], G ''TQb'', G ''R5b''], G ''XQb'', G ''Q5b''], G ''WQb''], G ''P5b''], G ''S5b''])), Do (SetG ''mRc'' (Call ''icd'' [Call ''kcd'' [Call ''kcd'' [Call ''kcd'' [New ''pcd'' [], G ''UQb'', G ''v5b''], G ''WQb'', G ''x5b''], G ''WQb'', G ''y5b''], G ''XQb'', G ''w5b''])), Do (SetG ''oRc'' (Call ''kcd'' [Call ''kcd'' [New ''pcd'' [], G ''VQb'', G ''H5b''], G ''XQb'', G ''G5b''])), Do (SetG ''nRc'' (Call ''icd'' [Call ''kcd'' [Call ''kcd'' [New ''pcd'' [], G ''WQb'', G ''y5b''], G ''WQb'', G ''d5b''], G ''XQb'', G ''c5b'']))],
    fn ''POc'' 5 2 [When (And (Or (And (Neg (Call ''AWb'' [V 1])) (Loose (Dot (Dot (Dot (V 1) ''c'') ''i'') ''c'') (Dot (Dot (Dot (V 1) ''d'') ''i'') ''c''))) (Neg (Call ''$fd'' [Call ''rgd'' [Call ''WC'' [Call ''OC'' [G ''r2'', K (JNum 1)], G ''aue'', K (JNum 8), K (JNum 0), NewArr [Dot (Dot (V 4) ''i'') ''n'', Dot (V 4) ''n'', Dot (V 4) ''a'']]], V 2]))) (Neg (Call ''AWb'' [V 1]))) [Do (Cond (Loose (Dot (V 1) ''c'') (V 4)) (Call ''$t'' [Dot (V 1) ''a'', K (JNum 0), New ''mgd'' [V 2]]) (Call ''Ttb'' [Dot (V 1) ''a'', New ''mgd'' [V 2]])), When (And (V 3) (Neg (Call ''fsb'' [Dot (V 0) ''a'', V 2]))) [Do (SetV 6 (Call ''JD'' [Call ''oNb'' [V 1, Seq (Call ''nyc'' []) (G ''Bwc'')], K (JNum 79)])), When (Neg (V 6)) [Do (SetV 6 (New ''ygd'' [])), Do (Call ''rNb'' [V 1, G ''Bwc'', V 6])] [], Do (SetV 5 (New ''mgd'' [V 2])), Do (Call ''Wtb'' [V 6, V 5, Dot (Dot (V 6) ''c'') ''b'', Dot (V 6) ''c'']), Do (Call ''esb'' [Dot (V 0) ''a'', V 5])] []] []],
    fn ''$s'' 2 4 [Do (SetV 5 (Call ''gdb'' [Call ''Ycb'' [G ''rue'', Call ''Afb'' [Call ''gdb'' [Call ''Ycb'' [Cond (Loose (V 1) (K JNull)) (K (JNum 0)) (Call ''tb'' [V 1]), G ''sue'']], K (JNum 15)]]])), Do (SetV 2 (Bin BitAnd (V 5) (Bin Minus (Dot (Dot (V 0) ''b'') ''length'') (K (JNum 1))))), Do (SetV 4 (K JNull)), Do (SetV 3 (Idx (Dot (V 0) ''b'') (V 2))), Loop (V 3) [When (And (Loose (Dot (V 3) ''d'') (V 5)) (Call ''Hb'' [Dot (V 3) ''i'', V 1])) [Do (Cond (Neg (V 4)) (PutIdx (Dot (V 0) ''b'') (V 2) (Dot (V 3) ''a'')) (Put (V 4) ''a'' (Dot (V 3) ''a''))), Do (Call ''Ks'' [Call ''JD'' [Call ''Oub'' [Dot (V 3) ''c''], K (JNum 594)], Call ''JD'' [Call ''Oub'' [Dot (V 3) ''f''], K (JNum 594)]]), Do (Call ''Js'' [Call ''JD'' [Call ''Oub'' [Dot (V 3) ''b''], K (JNum 227)], Call ''JD'' [Call ''Oub'' [Dot (V 3) ''e''], K (JNum 227)]]), Do (Put (V 0) ''f'' (Bin Minus (Dot (V 0) ''f'') (K (JNum 1)))), Do (Put (V 0) ''e'' (Bin Minus (Dot (V 0) ''e'') (K (JNum (- 1))))), Ret (K (JBool True))] []] [Do (Seq (SetV 4 (V 3)) (SetV 3 (Dot (V 3) ''a'')))], Ret (K (JBool False))],
    fn ''T7b'' 1 2 [Do (SetV 2 (New ''Yr'' [Call ''Dr'' [Meth (Dot (Call ''EYb'' [V 0]) ''a'') ''Jc'' [], New ''Dl'' []]])), Loop (Call ''Wr'' [V 2]) [Do (SetV 1 (Call ''JD'' [Call ''Xr'' [V 2], K (JNum 17)])), When (Neg (Loose (Dot (Dot (Dot (V 1) ''c'') ''i'') ''k'') (Seq (Call ''$Yb'' []) (G ''UYb'')))) [Raise (Call ''Lcb'' [New ''Ebd'' [Bin Plus (Bin Plus (Bin Plus (G ''Uye'') (Call ''CYb'' [V 0])) (K (JStr (CHR 0x27 # '' has its layer constraint set to FIRST, but has at least one incoming edge that '')))) (K (JStr '' does not come from a FIRST_SEPARATE node. That must not happen.''))]])] []] []],
    fn ''ymc'' 2 11 [Do (SetV 4 (Cond (V 1) (New ''Hmc'' []) (New ''Jmc'' []))), Do (SetV 5 (K (JBool False))), Loop (K (JBool True)) [Do (SetV 5 (K (JBool False))), Do (SetV 9 (Cond (V 1) (Call ''$u'' [Dot (V 0) ''b'']) (Dot (V 0) ''b''))), Do (SetV 8 (Meth (V 9) ''Jc'' [])), Loop (Meth (V 8) ''Ob'' []) [Do (SetV 7 (Call ''JD'' [Meth (V 8) ''Pb'' [], K (JNum 25)])), Do (SetV 12 (Call ''Uu'' [Dot (V 7) ''a''])), Do (Or (V 1) (Call ''$u'' [V 12])), Do (SetV 11 (New ''Kmb'' [V 12])), Loop (Bin Lt (Dot (V 11) ''a'') (Dot (Dot (Dot (V 11) ''c'') ''c'') ''length'')) [Do (SetV 10 (Call ''JD'' [Call ''Imb'' [V 11], K (JNum 9)])), When (Meth (V 4) ''Mb'' [V 10]) [Do (SetV 3 (V 10)), Do (SetV 2 (Call ''JD'' [Call ''oNb'' [V 10, Seq (Call ''Wrc'' []) (G ''Mqc'')], K (JNum 318)])), Do (SetV 6 (Cond (V 1) (Dot (V 2) ''b'') (Dot (V 2) ''k''))), Do (SetV 5 (Call ''wmc'' [V 3, V 6, V 1, K (JBool False)]))] []] []] []] [When (V 5) [] [Break]]],
    fn ''pud'' 3 7 [Do (SetV 4 (Call ''qfb'' [Bin BitAnd (Dot (V 0) ''Db'') (K (JNum 254))])), When (Loose (V 4) (K (JNum 0))) [Do (Put (V 0) ''Eb'' (V 2))] [When (Loose (V 4) (K (JNum 1))) [Do (SetV 7 (Call ''SC'' [G ''aJ'', G ''Gte'', K (JNum 1), K (JNum 2), K (JNum 5), K (JNum 1)])), Do (SetV 5 (Call ''tud'' [V 0, V 1])), When (Loose (V 5) (K (JNum 0))) [Do (PutIdx (V 7) (K (JNum 0)) (V 2)), Do (PutIdx (V 7) (K (JNum 1)) (Dot (V 0) ''Eb''))] [Do (PutIdx (V 7) (K (JNum 0)) (Dot (V 0) ''Eb'')), Do (PutIdx (V 7) (K (JNum 1)) (V 2))]] [Do (SetV 7 (Call ''SC'' [G ''aJ'', G ''Gte'', K (JNum 1), Bin Plus (V 4) (K (JNum 1)), K (JNum 5), K (JNum 1)])), Do (SetV 6 (Call ''KD'' [Dot (V 0) ''Eb''])), Do (Seq (Seq (SetV 3 (K (JNum 2))) (SetV 8 (K (JNum 0)))) (SetV 9 (K (JNum 0)))), Loop (Bin Le (V 3) (K (JNum 128))) [Do (Cond (Loose (V 3) (V 1)) (PutIdx (V 7) (Bin Minus (SetV 9 (Bin Minus (V 9) (K (JNum (- 1))))) (K (JNum 1))) (V 2)) (And (Neg (Loose (Bin BitAnd (Dot (V 0) ''Db'') (V 3)) (K (JNum 0)))) (PutIdx (V 7) (Bin Minus (SetV 9 (Bin Minus (V 9) (K (JNum (- 1))))) (K (JNum 1))) (Idx (V 6) (Bin Minus (SetV 8 (Bin Minus (V 8) (K (JNum (- 1))))) (K (JNum 1)))))))] [Do (SetV 3 (Bin Shl (V 3) (K (JNum 1))))]], Do (Put (V 0) ''Eb'' (V 7))], Do (Put (V 0) ''Db'' (Bin BitOr (Dot (V 0) ''Db'') (V 1)))],
    fn ''nec'' 6 12 [Do (SetV 10 (V 3)), When (And (Dot (V 1) ''j'') (Dot (V 1) ''o'')) [Do (SetV 13 (Call ''JD'' [Call ''ejb'' [Dot (V 0) ''f'', Dot (V 1) ''A''], K (JNum 60)])), Do (SetV 15 (Bin Plus (Dot (Dot (V 13) ''d'') ''c'') (Dot (Dot (V 13) ''d'') ''b''))), Do (SetV 10 (Bin Minus (V 10) (K (JNum 1))))] [Do (SetV 15 (Bin Plus (Dot (Dot (V 1) ''a'') ''c'') (Dot (Dot (V 1) ''a'') ''b'')))], Do (SetV 11 (V 4)), When (And (Dot (V 2) ''q'') (Dot (V 2) ''o'')) [Do (SetV 13 (Call ''JD'' [Call ''ejb'' [Dot (V 0) ''f'', Dot (V 2) ''C''], K (JNum 60)])), Do (SetV 9 (Dot (Dot (V 13) ''d'') ''c'')), Do (SetV 11 (Bin Minus (V 11) (K (JNum (- 1)))))] [Do (SetV 9 (Dot (Dot (V 2) ''a'') ''c''))], Do (SetV 16 (Bin Minus (V 9) (V 15))), Do (SetV 8 (Meth (Dot (G ''$wnd'') ''Math'') ''max'' [K (JNum 2), Bin Minus (V 11) (V 10)])), Do (SetV 7 (Bin Divide (V 16) (V 8))), Do (SetV 14 (Bin Plus (V 15) (V 7))), Do (SetV 12 (V 10)), Loop (Bin Lt (V 12) (V 11)) [Do (SetV 6 (Call ''JD'' [Meth (V 5) ''Xb'' [V 12], K (JNum 132)])), Do (SetV 17 (Dot (Dot (V 6) ''a'') ''b'')), Do (Put (Dot (V 6) ''a'') ''c'' (Bin Minus (V 14) (Bin Divide (V 17) (K (JNum 2))))), Do (SetV 14 (Bin Plus (V 14) (V 7)))] [Do (SetV 12 (Bin Minus (V 12) (K (JNum (- 1)))))]],
    fn ''bJc'' 6 6 [Do (SetV 9 (Dot (Dot (V 2) ''c'') ''length'')), Do (And (V 5) (Put (V 0) ''c'' (Call ''SC'' [G ''cE'', G ''bve'', K (JNum 30), Dot (V 1) ''length'', K (JNum 15), K (JNum 1)]))), Do (SetV 6 (Cond (V 4) (K (JNum 0)) (Bin Minus (Dot (V 1) ''length'') (K (JNum 1))))), Loop (Cond (V 4) (Bin Lt (V 6) (Dot (V 1) ''length'')) (Bin Ge (V 6) (K (JNum 0)))) [Do (SetV 7 (Idx (V 1) (V 6))), Do (SetV 8 (Cond (Loose (V 3) (Seq (Call ''Bmd'' []) (G ''gmd''))) (Cond (V 4) (Call ''IYb'' [V 7, V 3]) (Call ''$u'' [Call ''IYb'' [V 7, V 3]])) (Cond (V 4) (Call ''$u'' [Call ''IYb'' [V 7, V 3]]) (Call ''IYb'' [V 7, V 3])))), Do (And (V 5) (PutIdx (Dot (V 0) ''c'') (Dot (V 7) ''p'') (Meth (V 8) ''gc'' []))), Do (SetV 11 (Meth (V 8) ''Jc'' [])), Loop (Meth (V 11) ''Ob'' []) [Do (SetV 10 (Call ''JD'' [Meth (V 11) ''Pb'' [], K (JNum 12)])), Do (PutIdx (Dot (V 0) ''d'') (Dot (V 10) ''p'') (Bin Minus (SetV 9 (Bin Minus (V 9) (K (JNum (- 1))))) (K (JNum 1))))] [], Do (Call ''bmb'' [V 2, V 8])] [Do (SetV 6 (Bin Plus (V 6) (Cond (V 4) (K (JNum 1)) (K (JNum (- 1))))))]],
    fn ''jRc'' 3 8 [Do (SetV 5 (Call ''Ueb'' [Call ''MD'' [Meth (Meth (Dot (V 0) ''b'') ''Jc'' []) ''Pb'' []]])), Do (SetV 9 (Call ''Ueb'' [Call ''MD'' [Call ''_q'' [Dot (V 1) ''b'']]])), Do (SetV 3 (Call ''dgd'' [Call ''Xfd'' [Dot (V 0) ''a''], Bin Minus (V 9) (V 2)])), Do (SetV 4 (Call ''dgd'' [Call ''Xfd'' [Dot (V 1) ''a''], Bin Minus (V 2) (V 5)])), Do (SetV 10 (Call ''Vfd'' [V 3, V 4])), Do (Call ''dgd'' [V 10, Bin Divide (K (JNum 1)) (Bin Minus (V 9) (V 5))]), Do (Put This ''a'' (V 10)), Do (Put This ''b'' (New ''lmb'' [])), Do (SetV 7 (K (JBool True))), Do (SetV 6 (Meth (Dot (V 0) ''b'') ''Jc'' [])), Do (Meth (V 6) ''Pb'' []), Loop (Meth (V 6) ''Ob'' []) [Do (SetV 8 (Call ''Ueb'' [Call ''MD'' [Meth (V 6) ''Pb'' []]])), When (And (V 7) (Bin Gt (Bin Minus (V 8) (V 2)) (G ''CCe''))) [Do (Meth (Dot This ''b'') ''Ec'' [V 2]), Do (SetV 7 (K (JBool False)))] [], Do (Meth (Dot This ''b'') ''Ec'' [V 8])] [], Do (And (V 7) (Meth (Dot This ''b'') ''Ec'' [V 2]))],
    fn ''RGb'' 1 4 [Do (Call ''UGb'' [V 0, Dot (V 0) ''n'']), When (Bin Gt (Dot (Dot (Dot (V 0) ''d'') ''c'') ''length'') (K (JNum 0))) [Do (Call ''Xmb'' [Dot (V 0) ''c'']), Loop (Bin Lt (Call ''aHb'' [V 0, Call ''JD'' [Call ''Imb'' [New ''Kmb'' [Dot (Dot (V 0) ''e'') ''a'']], K (JNum 124)]]) (Dot (Dot (Dot (Dot (V 0) ''e'') ''a'') ''c'') ''length'')) [Do (SetV 1 (Call ''WGb'' [V 0])), Do (SetV 4 (Bin Minus (Bin Minus (Dot (Dot (V 1) ''e'') ''e'') (Dot (Dot (V 1) ''d'') ''e'')) (Dot (V 1) ''a''))), Do (And (Dot (Dot (V 1) ''e'') ''j'') (SetV 4 (Minus1 (V 4)))), Do (SetV 3 (New ''Kmb'' [Dot (Dot (V 0) ''e'') ''a''])), Loop (Bin Lt (Dot (V 3) ''a'') (Dot (Dot (Dot (V 3) ''c'') ''c'') ''length'')) [Do (SetV 2 (Call ''JD'' [Call ''Imb'' [V 3], K (JNum 124)])), Do (And (Dot (V 2) ''j'') (Put (V 2) ''e'' (Bin Plus (Dot (V 2) ''e'') (V 4))))] [], Do (Call ''Xmb'' [Dot (V 0) ''c''])] [], Do (Call ''Xmb'' [Dot (V 0) ''c'']), Do (Call ''ZGb'' [V 0, Call ''JD'' [Call ''Imb'' [New ''Kmb'' [Dot (Dot (V 0) ''e'') ''a'']], K (JNum 124)]]), Do (Call ''NGb'' [V 0])] []],
    fn ''ODc'' 3 5 [Do (Meth (V 2) ''Tg'' [K (JStr ''Longest path to source layering''), K (JNum 1)]), Do (Put (V 0) ''a'' (V 1)), Do (SetV 7 (Dot (Dot (V 0) ''a'') ''a'')), Do (Put (V 0) ''b'' (Call ''SC'' [G ''cE'', G ''bve'', K (JNum 30), Dot (Dot (V 7) ''c'') ''length'', K (JNum 15), K (JNum 1)])), Do (SetV 3 (K (JNum 0))), Do (SetV 6 (New ''Kmb'' [V 7])), Loop (Bin Lt (Dot (V 6) ''a'') (Dot (Dot (Dot (V 6) ''c'') ''c'') ''length'')) [Do (SetV 4 (Call ''JD'' [Call ''Imb'' [V 6], K (JNum 9)])), Do (Put (V 4) ''p'' (V 3)), Do (PutIdx (Dot (V 0) ''b'') (V 3) (K (JNum (- 1)))), Do (SetV 3 (Bin Minus (V 3) (K (JNum (- 1)))))] [], Do (SetV 5 (New ''Kmb'' [V 7])), Loop (Bin Lt (Dot (V 5) ''a'') (Dot (Dot (Dot (V 5) ''c'') ''c'') ''length'')) [Do (SetV 4 (Call ''JD'' [Call ''Imb'' [V 5], K (JNum 9)])), Do (Call ''QDc'' [V 0, V 4])] [], Do (Put (Dot (V 7) ''c'') ''length'' (K (JNum 0))), Do (Put (V 0) ''a'' (K JNull)), Do (Put (V 0) ''b'' (K JNull)), Do (Meth (V 2) ''Ug'' [])],
    fn ''ibd'' 2 2 [Do (Call ''cbd'' []), Do (SetV 2 (Call ''rdd'' [Call ''vdd'' [], Meth (V 1) ''Og'' []])), When (V 2) [Do (SetV 3 (Dot (V 2) ''j'')), When (Call ''RD'' [V 0, K (JNum 206)]) [Ret (Cond (Call ''Tzd'' [Call ''JD'' [V 0, K (JNum 26)]]) (Or (Call ''Krb'' [V 3, Seq (Call ''Ved'' []) (G ''Sed'')]) (Call ''Krb'' [V 3, G ''Ted''])) (Call ''Krb'' [V 3, Seq (Call ''Ved'' []) (G ''Sed'')]))] [When (Call ''RD'' [V 0, K (JNum 271)]) [Ret (Call ''Krb'' [V 3, Seq (Call ''Ved'' []) (G ''Qed'')])] [When (Call ''RD'' [V 0, K (JNum 193)]) [Ret (Call ''Krb'' [V 3, Seq (Call ''Ved'' []) (G ''Ued'')])] [When (Call ''RD'' [V 0, K (JNum 362)]) [Ret (Call ''Krb'' [V 3, Seq (Call ''Ved'' []) (G ''Red'')])] []]]]] [], Ret (K (JBool True))],
    fn ''Pee'' 3 6 [Do (SetV 4 (V 2)), Do (SetV 5 (Meth (V 4) ''Jk'' [])), When (Call ''Die'' [Dot (V 0) ''e'', V 5]) [When (Meth (V 5) ''Qi'' []) [Do (SetV 3 (Call ''JD'' [Dot (V 0) ''g'', K (JNum 122)])), Do (SetV 6 (K (JNum 0))), Loop (Bin Lt (V 6) (Dot (V 0) ''i'')) [Do (SetV 7 (Idx (V 3) (V 6))), When (And (Call ''pb'' [V 7, V 4]) (Neg (Loose (V 6) (V 1)))) [Raise (Call ''Lcb'' [New ''kfb'' [G ''WGe'']])] []] [Do (SetV 6 (Bin Minus (V 6) (K (JNum (- 1)))))]] []] [Do (SetV 8 (Call ''Cie'' [Meth (Dot (V 0) ''e'') ''Ah'' [], V 5])), Do (SetV 3 (Call ''JD'' [Dot (V 0) ''g'', K (JNum 122)])), Do (SetV 6 (K (JNum 0))), Loop (Bin Lt (V 6) (Dot (V 0) ''i'')) [Do (SetV 7 (Idx (V 3) (V 6))), When (And (Meth (V 8) ''$l'' [Meth (V 7) ''Jk'' []]) (Neg (Loose (V 6) (V 1)))) [Raise (Call ''Lcb'' [New ''kfb'' [G ''rJe'']])] []] [Do (SetV 6 (Bin Minus (V 6) (K (JNum (- 1)))))]], Ret (Call ''JD'' [Call ''vFd'' [V 0, V 1, V 2], K (JNum 75)])]]"

definition object_table21 :: "(string \<times> jfun) list" where
  "object_table21 = code_5456_5457 @ code_5459_5483 @ code_5484_5485 @ code_5487_5510 @ code_5511_5516 @ code_5518_5540 @ code_5541_5545 @ code_5547_5568"

text \<open>The names each table declares.\<close>

lemma names_5456_5457 [js_names]: "map fst code_5456_5457 = [
    ''$Pc'', ''LBd'']"
  by (simp add: code_5456_5457_def fn_def)

lemma names_5459_5483 [js_names]: "map fst code_5459_5483 = [
    ''yle'', ''hD'', ''so'', ''ut'', ''jTb'', ''__b'', ''Q8b'', ''qA'', ''IQb'', ''J9b'',
    ''bic'', ''Vmc'', ''t3c'', ''gxd'', ''Lwd'', ''hAd'', ''GUd'', ''PMb'', ''Vjc'', ''ic'',
    ''Dy'', ''dlc'', ''Mmc'', ''o7c'', ''gWb'']"
  by (simp add: code_5459_5483_def fn_def)

lemma names_5484_5485 [js_names]: "map fst code_5484_5485 = [
    ''Rfc'', ''Uzd'']"
  by (simp add: code_5484_5485_def fn_def)

lemma names_5487_5510 [js_names]: "map fst code_5487_5510 = [
    ''S9b'', ''Phc'', ''zfd'', ''ide'', ''M0b'', ''qec'', ''PVc'', ''I5c'', ''Qod'', ''qMd'',
    ''_de'', ''vVb'', ''Ngc'', ''_6c'', ''Xud'', ''YBd'', ''nD'', ''bBb'', ''NKb'', ''_Eb'',
    ''$Rb'', ''UGc'', ''XDd'', ''ATb'']"
  by (simp add: code_5487_5510_def fn_def)

lemma names_5511_5516 [js_names]: "map fst code_5511_5516 = [
    ''Azd'', ''yTd'', ''Wib'', ''Qyc'', ''Oyd'', ''JWd'']"
  by (simp add: code_5511_5516_def fn_def)

lemma names_5518_5540 [js_names]: "map fst code_5518_5540 = [
    ''XGc'', ''r0b'', ''Kkc'', ''Rbd'', ''d3b'', ''Lad'', ''ZRb'', ''j0b'', ''B9b'', ''zcc'',
    ''Ikc'', ''slc'', ''QIc'', ''XFb'', ''GDc'', ''xQc'', ''p_c'', ''_5b'', ''sRc'', ''U7b'',
    ''sYc'', ''Cqe'', ''I0b'']"
  by (simp add: code_5518_5540_def fn_def)

lemma names_5541_5545 [js_names]: "map fst code_5541_5545 = [
    ''S8b'', ''UCc'', ''R5c'', ''_Ed'', ''Cie'']"
  by (simp add: code_5541_5545_def fn_def)

lemma names_5547_5568 [js_names]: "map fst code_5547_5568 = [
    ''q9b'', ''r9b'', ''Kbc'', ''icc'', ''LGc'', ''bKb'', ''ARc'', ''t2b'', ''OOc'', ''qRc'',
    ''POc'', ''$s'', ''T7b'', ''ymc'', ''pud'', ''nec'', ''bJc'', ''jRc'', ''RGb'', ''ODc'',
    ''ibd'', ''Pee'']"
  by (simp add: code_5547_5568_def fn_def)

end
