(* ===== verification/ObjectTable22.thy ===== *)
theory ObjectTable22
  imports ObjectCode
begin

text \<open>
  Functions of \<open>layout-worker.js\<close>, lines 5570 to 5665, in the order of the file, one per line:
  the algorithms of the layout engine, longer operations of the runtime's collections and of options,
  with their loops, \<open>switch\<close> and \<open>try\<close> statements. An entry has the name, the
  number of parameters, the number of further local variables and the body; parameters and locals
  are numbered from 0, the variable of a \<open>catch\<close> has a number of its own, \<open>x++\<close> is \<open>(x=x+1)-1\<close>. Lines
  with a construct outside \<open>jexp\<close> and \<open>jstm\<close> (closures, \<open>in\<close>, floating-point literals, host objects) are
  left out.
\<close>

definition code_5570_5585 :: "(string \<times> jfun) list" where
  "code_5570_5585 = [
    fn ''Dib'' 2 5 [Do (SetV 3 (Bin Shr (V 1) (K (JNum 5)))), Do (SetV 1 (Bin BitAnd (V 1) (K (JNum 31)))), When (Bin Ge (V 3) (Dot (V 0) ''d'')) [Ret (Cond (Bin Lt (Dot (V 0) ''e'') (K (JNum 0))) (Seq (Call ''Zhb'' []) (G ''Thb'')) (Seq (Call ''Zhb'' []) (G ''Yhb'')))] [], Do (SetV 5 (Bin Minus (Dot (V 0) ''d'') (V 3))), Do (SetV 4 (Call ''SC'' [G ''cE'', G ''bve'', K (JNum 30), Bin Plus (V 5) (K (JNum 1)), K (JNum 15), K (JNum 1)])), Do (Call ''Eib'' [V 4, V 5, Dot (V 0) ''a'', V 3, V 1]), When (Bin Lt (Dot (V 0) ''e'') (K (JNum 0))) [Do (SetV 2 (K (JNum 0))), Loop (And (Bin Lt (V 2) (V 3)) (Loose (Idx (Dot (V 0) ''a'') (V 2)) (K (JNum 0)))) [] [Do (Bin Minus (SetV 2 (Bin Minus (V 2) (K (JNum (- 1))))) (K (JNum 1)))], When (Or (Bin Lt (V 2) (V 3)) (And (Bin Gt (V 1) (K (JNum 0))) (Neg (Loose (Bin Shl (Idx (Dot (V 0) ''a'') (V 2)) (Bin Minus (K (JNum 32)) (V 1))) (K (JNum 0)))))) [Do (SetV 2 (K (JNum 0))), Loop (And (Bin Lt (V 2) (V 5)) (Loose (Idx (V 4) (V 2)) (K (JNum (- 1))))) [Do (PutIdx (V 4) (V 2) (K (JNum 0)))] [Do (Bin Minus (SetV 2 (Bin Minus (V 2) (K (JNum (- 1))))) (K (JNum 1)))], Do (And (Loose (V 2) (V 5)) (SetV 5 (Bin Minus (V 5) (K (JNum (- 1)))))), Do (PutIdx (V 4) (V 2) (Bin Minus (Idx (V 4) (V 2)) (K (JNum (- 1)))))] []] [], Do (SetV 6 (New ''mib'' [Dot (V 0) ''e'', V 5, V 4])), Do (Call ''_hb'' [V 6]), Ret (V 6)],
    fn ''M$b'' 4 5 [Do (SetV 7 (Call ''TEd'' [Call ''JD'' [Call ''fGd'' [Seq (And (Neg (Dot (V 1) ''b'')) (Put (V 1) ''b'' (New ''jhe'' [G ''O3'', V 1, K (JNum 4), K (JNum 7)]))) (Dot (V 1) ''b''), K (JNum 0)], K (JNum 84)]])), Do (SetV 8 (Call ''TEd'' [Call ''JD'' [Call ''fGd'' [Seq (And (Neg (Dot (V 1) ''c'')) (Put (V 1) ''c'' (New ''jhe'' [G ''O3'', V 1, K (JNum 5), K (JNum 8)]))) (Dot (V 1) ''c''), K (JNum 0)], K (JNum 84)]])), When (Loose (Call ''Rzd'' [V 7]) (Call ''Rzd'' [V 8])) [Ret (K JNull)] [], When (Call ''cFd'' [V 8, V 7]) [Ret (K JNull)] [], Do (SetV 6 (Call ''Gwd'' [V 1])), When (Loose (V 6) (V 2)) [Ret (V 3)] [Do (SetV 5 (Call ''JD'' [Call ''ejb'' [Dot (V 0) ''a'', V 6], K (JNum 9)])), When (V 5) [Do (SetV 4 (Dot (V 5) ''e'')), When (V 4) [Ret (V 4)] []] []], Ret (K JNull)],
    fn ''H7b'' 2 1 [Do (SetV 2 (Call ''JD'' [Call ''oNb'' [V 0, Seq (Call ''nyc'' []) (G ''hwc'')], K (JNum 284)])), Do (Meth (V 1) ''Tg'' [Bin Plus (Bin Plus (K (JStr ''Label side selection ('')) (V 2)) (K (JStr '')'')), K (JNum 1)]), Switch (Dot (V 2) ''g'') [(Some (JNum 0), [Do (Call ''I7b'' [V 0, Seq (Call ''$kd'' []) (G ''Wkd'')]), Break]), (Some (JNum 1), [Do (Call ''I7b'' [V 0, Seq (Call ''$kd'' []) (G ''Xkd'')]), Break]), (Some (JNum 2), [Do (Call ''G7b'' [V 0, Seq (Call ''$kd'' []) (G ''Wkd'')]), Break]), (Some (JNum 3), [Do (Call ''G7b'' [V 0, Seq (Call ''$kd'' []) (G ''Xkd'')]), Break]), (Some (JNum 4), [Do (Call ''J7b'' [V 0, Seq (Call ''$kd'' []) (G ''Wkd'')]), Break]), (Some (JNum 5), [Do (Call ''J7b'' [V 0, Seq (Call ''$kd'' []) (G ''Xkd'')])])], Do (Meth (V 1) ''Ug'' [])],
    fn ''Die'' 2 3 [Do (Call ''Aie'' []), When (Meth (V 1) ''Hk'' []) [Ret (K (JBool True))] [When (Loose (Meth (V 1) ''Gk'' []) (K (JNum (- 2)))) [When (Or (Or (Or (Loose (V 1) (Seq (Call ''Yje'' []) (G ''Wje''))) (Loose (V 1) (G ''Tje''))) (Loose (V 1) (G ''Uje''))) (Loose (V 1) (G ''Vje''))) [Ret (K (JBool True))] [Do (SetV 4 (Meth (V 0) ''Ah'' [])), When (Bin Ge (Call ''OWd'' [V 4, V 1]) (K (JNum 0))) [Ret (K (JBool False))] [Do (SetV 2 (Call ''Rce'' [Seq (Call ''yie'' []) (G ''wie''), V 4, V 1])), When (Neg (V 2)) [Ret (K (JBool True))] [Do (SetV 3 (Meth (V 2) ''Gk'' [])), Ret (And (Or (Bin Gt (V 3) (K (JNum 1))) (Loose (V 3) (K (JNum (- 1))))) (Neg (Loose (Call ''Lde'' [Call ''bde'' [G ''wie'', V 2]]) (K (JNum 3)))))]]]] [Ret (K (JBool False))]]],
    fn ''hkc'' 4 10 [Do (SetV 8 (Dot (Dot (V 0) ''c'') ''d'')), Do (SetV 9 (Dot (Dot (V 0) ''d'') ''d'')), When (Loose (Dot (V 8) ''j'') (Dot (V 9) ''j'')) [Ret (K JUndef)] [], Do (SetV 13 (Dot (V 0) ''b'')), Do (SetV 10 (K JNull)), Do (SetV 7 (K JNull)), Do (SetV 6 (Call ''vhc'' [V 0])), When (And (V 6) (Neg (Neg (Dot (V 13) ''i'')))) [Do (SetV 10 (Dot (Dot (Dot (V 0) ''b'') ''i'') ''i'')), Do (SetV 7 (Dot (Dot (V 13) ''i'') ''j''))] [], Do (SetV 4 (Dot (V 8) ''j'')), Do (SetV 11 (K JNull)), Loop (Neg (Loose (V 4) (Dot (V 9) ''j''))) [Do (SetV 11 (Cond (Loose (V 1) (K (JNum 0))) (Call ''Emd'' [V 4]) (Call ''Cmd'' [V 4]))), Do (SetV 5 (Call ''okc'' [V 4, Idx (Dot (V 13) ''d'') (Dot (V 4) ''g''), V 2])), Do (SetV 12 (Call ''okc'' [V 11, Idx (Dot (V 13) ''d'') (Dot (V 11) ''g''), V 2])), Do (And (And (And (V 6) (Neg (Neg (V 10)))) (Neg (Neg (V 7)))) (Cond (Loose (V 4) (V 10)) (Call ''jkc'' [V 5, V 10, V 7]) (And (Loose (V 11) (V 10)) (Call ''jkc'' [V 12, V 10, V 7])))), Do (Call ''Ttb'' [V 3, Call ''Vfd'' [V 5, V 12]]), Do (SetV 4 (V 11))] []],
    fn ''VGc'' 3 6 [Do (SetV 3 (Call ''JGc'' [V 2, Dot (V 0) ''length''])), Do (SetV 6 (Idx (V 0) (V 3))), Do (SetV 5 (Call ''KGc'' [V 2, Dot (V 6) ''length''])), When (Neg (Loose (Dot (Idx (V 6) (V 5)) ''k'') (Seq (Call ''$Yb'' []) (G ''TYb'')))) [Ret (K JUndef)] [], Do (SetV 8 (Dot (V 1) ''j'')), Do (SetV 4 (K (JNum 0))), Loop (Bin Lt (V 4) (Dot (Dot (V 8) ''c'') ''length'')) [Do (SetV 7 (Seq (Call ''MDb'' [V 4, Dot (Dot (V 8) ''c'') ''length'']) (Call ''JD'' [Idx (Dot (V 8) ''c'') (V 4), K (JNum 12)]))), When (And (Cond (V 2) (Loose (Dot (V 7) ''j'') (Seq (Call ''Bmd'' []) (G ''gmd''))) (Loose (Dot (V 7) ''j'') (Seq (Call ''Bmd'' []) (G ''Amd'')))) (Call ''Rdb'' [Call ''LD'' [Call ''oNb'' [V 7, Seq (Call ''Wrc'' []) (G ''erc'')]]])) [Do (Call ''imb'' [V 8, V 4, Call ''JD'' [Call ''oNb'' [Idx (V 6) (V 5), Seq (Call ''Wrc'' []) (G ''urc'')], K (JNum 12)]]), Do (SetV 5 (Bin Plus (V 5) (Cond (V 2) (K (JNum 1)) (K (JNum (- 1))))))] []] [Do (Bin Minus (SetV 4 (Bin Minus (V 4) (K (JNum (- 1))))) (K (JNum 1)))]],
    fn ''i5c'' 2 8 [Do (Meth (V 1) ''Tg'' [K (JStr ''Greedy Width Approximator''), K (JNum 1)]), Do (SetV 2 (Call ''Ueb'' [Call ''MD'' [Call ''cvd'' [V 0, Seq (Call ''S4c'' []) (G ''r4c'')]]])), Do (SetV 8 (Call ''JD'' [Call ''cvd'' [V 0, G ''I4c''], K (JNum 104)])), Do (SetV 5 (Call ''JD'' [Call ''cvd'' [V 0, G ''P4c''], K (JNum 387)])), Do (SetV 6 (Call ''Rdb'' [Call ''LD'' [Call ''cvd'' [V 0, G ''O4c'']]])), Do (SetV 7 (Call ''Ueb'' [Call ''MD'' [Call ''cvd'' [V 0, G ''L4c'']]])), Do (SetV 9 (Seq (And (Neg (Dot (V 0) ''a'')) (Put (V 0) ''a'' (New ''P3d'' [G ''T3'', V 0, K (JNum 10), K (JNum 11)]))) (Dot (V 0) ''a''))), Do (Call ''x7c'' [V 9]), Do (SetV 4 (New ''b5c'' [V 2, V 5, V 6])), Do (SetV 3 (Call ''Z4c'' [V 4, V 9, V 7, V 8])), Do (Call ''evd'' [V 0, Seq (Call ''P3c'' []) (G ''O3c''), Dot (V 3) ''c'']), Do (Meth (V 1) ''Ug'' [])],
    fn ''PId'' 1 0 [When (Loose (Dot (V 0) ''g'') (K JNull)) [Switch (Dot (V 0) ''p'') [(Some (JNum 0), [Do (Put (V 0) ''g'' (Cond (Call ''HId'' [V 0]) (Seq (Call ''Qdb'' []) (G ''Pdb'')) (Seq (Call ''Qdb'' []) (G ''Odb'')))), Break]), (Some (JNum 1), [Do (Put (V 0) ''g'' (Call ''ieb'' [Call ''IId'' [V 0]])), Break]), (Some (JNum 2), [Do (Put (V 0) ''g'' (Call ''reb'' [Call ''JId'' [V 0]])), Break]), (Some (JNum 3), [Do (Put (V 0) ''g'' (Call ''KId'' [V 0])), Break]), (Some (JNum 4), [Do (Put (V 0) ''g'' (New ''bfb'' [Call ''LId'' [V 0]])), Break]), (Some (JNum 6), [Do (Put (V 0) ''g'' (Call ''Rfb'' [Call ''NId'' [V 0]])), Break]), (Some (JNum 5), [Do (Put (V 0) ''g'' (Call ''Cfb'' [Call ''MId'' [V 0]])), Break]), (Some (JNum 7), [Do (Put (V 0) ''g'' (Call ''lgb'' [Call ''OId'' [V 0]]))])]] [], Ret (Dot (V 0) ''g'')],
    fn ''YId'' 1 0 [When (Loose (Dot (V 0) ''n'') (K JNull)) [Switch (Dot (V 0) ''p'') [(Some (JNum 0), [Do (Put (V 0) ''n'' (Cond (Call ''QId'' [V 0]) (Seq (Call ''Qdb'' []) (G ''Pdb'')) (Seq (Call ''Qdb'' []) (G ''Odb'')))), Break]), (Some (JNum 1), [Do (Put (V 0) ''n'' (Call ''ieb'' [Call ''RId'' [V 0]])), Break]), (Some (JNum 2), [Do (Put (V 0) ''n'' (Call ''reb'' [Call ''SId'' [V 0]])), Break]), (Some (JNum 3), [Do (Put (V 0) ''n'' (Call ''TId'' [V 0])), Break]), (Some (JNum 4), [Do (Put (V 0) ''n'' (New ''bfb'' [Call ''UId'' [V 0]])), Break]), (Some (JNum 6), [Do (Put (V 0) ''n'' (Call ''Rfb'' [Call ''WId'' [V 0]])), Break]), (Some (JNum 5), [Do (Put (V 0) ''n'' (Call ''Cfb'' [Call ''VId'' [V 0]])), Break]), (Some (JNum 7), [Do (Put (V 0) ''n'' (Call ''lgb'' [Call ''XId'' [V 0]]))])]] [], Ret (Dot (V 0) ''n'')],
    fn ''aee'' 4 5 [Do (SetV 7 (Seq (Call ''Aie'' []) (Meth (Call ''JD'' [V 1, K (JNum 69)]) ''vk'' []))), When (Call ''Die'' [Dot (V 0) ''e'', V 1]) [When (And (Meth (V 1) ''Qi'' []) (Call ''qee'' [V 0, V 1, V 3, And (Call ''RD'' [V 1, K (JNum 103)]) (Neg (Loose (Bin BitAnd (Dot (Call ''JD'' [V 1, K (JNum 19)]) ''Bb'') (G ''Hve'')) (K (JNum 0))))])) [Raise (Call ''Lcb'' [New ''kfb'' [G ''WGe'']])] []] [Do (SetV 8 (Call ''Cie'' [Meth (Dot (V 0) ''e'') ''Ah'' [], V 1])), Do (SetV 4 (Call ''JD'' [Dot (V 0) ''g'', K (JNum 122)])), Do (SetV 6 (K (JNum 0))), Loop (Bin Lt (V 6) (Dot (V 0) ''i'')) [Do (SetV 5 (Idx (V 4) (V 6))), When (Meth (V 8) ''$l'' [Meth (V 5) ''Jk'' []]) [Raise (Call ''Lcb'' [New ''kfb'' [G ''rJe'']])] []] [Do (SetV 6 (Bin Minus (V 6) (K (JNum (- 1)))))]], Do (Call ''kFd'' [V 0, Call ''tee'' [V 0, V 1, V 2], Cond (V 7) (Call ''JD'' [V 3, K (JNum 75)]) (Call ''Bie'' [V 1, V 3])])],
    fn ''$Eb'' 1 7 [Do (SetV 5 (New ''Kmb'' [Dot (Dot (V 0) ''a'') ''a''])), Loop (Bin Lt (Dot (V 5) ''a'') (Dot (Dot (Dot (V 5) ''c'') ''c'') ''length'')) [Do (SetV 3 (Call ''JD'' [Call ''Imb'' [V 5], K (JNum 321)])), Do (Put (V 3) ''g'' (K (JNum 0))), Do (Put (V 3) ''i'' (K (JNum 0))), Do (Meth (Dot (Dot (V 3) ''e'') ''a'') ''$b'' [])] [], Do (SetV 4 (New ''Kmb'' [Dot (Dot (V 0) ''a'') ''a''])), Loop (Bin Lt (Dot (V 4) ''a'') (Dot (Dot (Dot (V 4) ''c'') ''c'') ''length'')) [Do (SetV 3 (Call ''JD'' [Call ''Imb'' [V 4], K (JNum 321)])), Do (SetV 2 (Meth (Meth (Dot (Dot (V 3) ''a'') ''a'') ''ec'' []) ''Jc'' [])), Loop (Meth (V 2) ''Ob'' []) [Do (SetV 1 (Call ''JD'' [Meth (V 2) ''Pb'' [], K (JNum 60)])), Do (SetV 7 (Meth (Dot (V 1) ''c'') ''Jc'' [])), Loop (Meth (V 7) ''Ob'' []) [Do (SetV 6 (Call ''JD'' [Meth (V 7) ''Pb'' [], K (JNum 60)])), When (Neg (Loose (Dot (V 6) ''a'') (V 3))) [Do (Call ''esb'' [Dot (V 3) ''e'', V 6]), Do (Put (Dot (V 6) ''a'') ''g'' (Bin Minus (Dot (Dot (V 6) ''a'') ''g'') (K (JNum (- 1))))), Do (Put (Dot (V 6) ''a'') ''i'' (Bin Minus (Dot (Dot (V 6) ''a'') ''i'') (K (JNum (- 1)))))] []] []] []] []],
    fn ''J2b'' 1 5 [Do (SetV 4 (Call ''JD'' [Call ''oNb'' [V 0, Seq (Call ''nyc'' []) (G ''axc'')], K (JNum 22)])), Do (SetV 5 (Call ''JD'' [Call ''oNb'' [V 0, G ''dxc''], K (JNum 22)])), Do (SetV 2 (New ''lgd'' [Bin Plus (Bin Plus (Dot (Dot (V 0) ''f'') ''a'') (Dot (Dot (V 0) ''d'') ''b'')) (Dot (Dot (V 0) ''d'') ''c''), Bin Plus (Bin Plus (Dot (Dot (V 0) ''f'') ''b'') (Dot (Dot (V 0) ''d'') ''d'')) (Dot (Dot (V 0) ''d'') ''a'')])), Do (SetV 1 (New ''mgd'' [V 2])), When (Meth (V 4) ''Gc'' [Seq (Call ''ind'' []) (G ''end'')]) [Do (SetV 3 (Call ''JD'' [Call ''oNb'' [V 0, G ''cxc''], K (JNum 8)])), When (Meth (V 5) ''Gc'' [Seq (Call ''xnd'' []) (G ''qnd'')]) [Do (And (Bin Le (Dot (V 3) ''a'') (K (JNum 0))) (Put (V 3) ''a'' (K (JNum 20)))), Do (And (Bin Le (Dot (V 3) ''b'') (K (JNum 0))) (Put (V 3) ''b'' (K (JNum 20))))] [], Do (Put (V 1) ''a'' (Meth (Dot (G ''$wnd'') ''Math'') ''max'' [Dot (V 2) ''a'', Dot (V 3) ''a''])), Do (Put (V 1) ''b'' (Meth (Dot (G ''$wnd'') ''Math'') ''max'' [Dot (V 2) ''b'', Dot (V 3) ''b'']))] [], Do (Call ''K2b'' [V 0, V 2, V 1])],
    fn ''wSb'' 2 3 [Do (Cond (Dot (V 1) ''a'') (Seq (Seq (Seq (Seq (Call ''yzb'' [Dot (V 0) ''b'', Dot (V 1) ''b'']) (PutIdx (Dot (V 0) ''a'') (Dot (Dot (V 1) ''b'') ''i'') (Call ''JD'' [Call ''Czb'' [Dot (V 0) ''b'', Dot (V 1) ''b''], K (JNum 82)]))) (SetV 2 (Call ''JD'' [Call ''Bzb'' [Dot (V 0) ''b'', Dot (V 1) ''b''], K (JNum 82)]))) (And (Neg (Neg (V 2))) (PutIdx (Dot (V 0) ''a'') (Dot (V 2) ''i'') (Dot (V 1) ''b'')))) (K JUndef)) (Seq (Seq (Seq (Seq (Seq (SetV 3 (Call ''JD'' [Call ''Czb'' [Dot (V 0) ''b'', Dot (V 1) ''b''], K (JNum 82)])) (And (And (And (And (Neg (Neg (V 3))) (Loose (V 3) (Idx (Dot (V 0) ''a'') (Dot (Dot (V 1) ''b'') ''i'')))) (Neg (Neg (Dot (V 3) ''d'')))) (Neg (Loose (Dot (V 3) ''d'') (Dot (Dot (V 1) ''b'') ''d'')))) (Meth (Dot (V 3) ''f'') ''Ec'' [Dot (V 1) ''b'']))) (SetV 4 (Call ''JD'' [Call ''Bzb'' [Dot (V 0) ''b'', Dot (V 1) ''b''], K (JNum 82)]))) (And (And (And (And (Neg (Neg (V 4))) (Loose (Idx (Dot (V 0) ''a'') (Dot (V 4) ''i'')) (Dot (V 1) ''b''))) (Neg (Neg (Dot (V 4) ''d'')))) (Neg (Loose (Dot (V 4) ''d'') (Dot (Dot (V 1) ''b'') ''d'')))) (Meth (Dot (Dot (V 1) ''b'') ''f'') ''Ec'' [V 4]))) (Call ''Dzb'' [Dot (V 0) ''b'', Dot (V 1) ''b''])) (K JUndef)))],
    fn ''C8b'' 2 6 [Do (SetV 5 (Dot (V 0) ''d'')), Do (SetV 7 (Call ''Ueb'' [Call ''MD'' [Call ''oNb'' [V 0, Seq (Call ''nyc'' []) (G ''pwc'')]]])), When (Bin Lt (V 7) (K (JNum 0))) [Do (SetV 7 (K (JNum 0))), Do (Call ''rNb'' [V 0, G ''pwc'', V 7])] [], Do (Put (Dot (V 1) ''o'') ''b'' (V 7)), Do (SetV 6 (Meth (Dot (G ''$wnd'') ''Math'') ''floor'' [Bin Divide (V 7) (K (JNum 2))])), Do (SetV 3 (New ''yZb'' [])), Do (Call ''xZb'' [V 3, Seq (Call ''Bmd'' []) (G ''Amd'')]), Do (Call ''wZb'' [V 3, V 1]), Do (Put (Dot (V 3) ''n'') ''b'' (V 6)), Do (SetV 4 (New ''yZb'' [])), Do (Call ''xZb'' [V 4, G ''gmd'']), Do (Call ''wZb'' [V 4, V 1]), Do (Put (Dot (V 4) ''n'') ''b'' (V 6)), Do (Call ''DWb'' [V 0, V 3]), Do (SetV 2 (New ''GWb'' [])), Do (Call ''mNb'' [V 2, V 0]), Do (Call ''rNb'' [V 2, G ''Bwc'', K JNull]), Do (Call ''CWb'' [V 2, V 4]), Do (Call ''DWb'' [V 2, V 5]), Do (Call ''B8b'' [V 1, V 0, V 2]), Do (Call ''z8b'' [V 0, V 2]), Ret (V 2)],
    fn ''DOc'' 1 2 [Do (SetV 2 (Call ''JD'' [Call ''oNb'' [V 0, Seq (Call ''Wrc'' []) (G ''brc'')], K (JNum 22)])), Do (SetV 1 (New ''pcd'' [])), When (Meth (V 2) ''Gc'' [Seq (Call ''Xpc'' []) (G ''Rpc'')]) [Do (Call ''jcd'' [V 1, G ''xOc'']), Do (Call ''jcd'' [V 1, G ''zOc''])] [], When (Or (Meth (V 2) ''Gc'' [G ''Tpc'']) (Call ''Rdb'' [Call ''LD'' [Call ''oNb'' [V 0, Seq (Call ''nyc'' []) (G ''qwc'')]]])) [Do (Call ''jcd'' [V 1, G ''zOc'']), Do (And (Meth (V 2) ''Gc'' [G ''Upc'']) (Call ''jcd'' [V 1, G ''AOc'']))] [], Do (And (Meth (V 2) ''Gc'' [G ''Qpc'']) (Call ''jcd'' [V 1, G ''wOc''])), Do (And (Meth (V 2) ''Gc'' [G ''Wpc'']) (Call ''jcd'' [V 1, G ''BOc''])), Do (And (Meth (V 2) ''Gc'' [G ''Spc'']) (Call ''jcd'' [V 1, G ''yOc''])), Do (And (Meth (V 2) ''Gc'' [G ''Npc'']) (Call ''jcd'' [V 1, G ''uOc''])), Do (And (Meth (V 2) ''Gc'' [G ''Ppc'']) (Call ''jcd'' [V 1, G ''vOc''])), Ret (V 1)],
    fn ''$ib'' 2 11 [Do (SetV 3 (Dot (V 0) ''d'')), Do (SetV 5 (Dot (V 1) ''d'')), Do (SetV 7 (Bin Plus (V 3) (V 5))), Do (SetV 8 (Cond (Neg (Loose (Dot (V 0) ''e'') (Dot (V 1) ''e''))) (K (JNum (- 1))) (K (JNum 1)))), When (Loose (V 7) (K (JNum 2))) [Do (SetV 10 (Call ''Ycb'' [Call ''Ncb'' [Idx (Dot (V 0) ''a'') (K (JNum 0)), G ''Mve''], Call ''Ncb'' [Idx (Dot (V 1) ''a'') (K (JNum 0)), G ''Mve'']])), Do (SetV 12 (Call ''gdb'' [V 10])), Do (SetV 11 (Call ''gdb'' [Call ''cdb'' [V 10, K (JNum 32)]])), Ret (Cond (Loose (V 11) (K (JNum 0))) (New ''kib'' [V 8, V 12]) (New ''mib'' [V 8, K (JNum 2), Call ''WC'' [Call ''OC'' [G ''cE'', K (JNum 1)], G ''bve'', K (JNum 30), K (JNum 15), NewArr [V 12, V 11]]]))] [], Do (SetV 2 (Dot (V 0) ''a'')), Do (SetV 4 (Dot (V 1) ''a'')), Do (SetV 6 (Call ''SC'' [G ''cE'', G ''bve'', K (JNum 30), V 7, K (JNum 15), K (JNum 1)])), Do (Call ''Xib'' [V 2, V 3, V 4, V 5, V 6]), Do (SetV 9 (New ''mib'' [V 8, V 7, V 6])), Do (Call ''_hb'' [V 9]), Ret (V 9)]]"

definition code_5588_5596 :: "(string \<times> jfun) list" where
  "code_5588_5596 = [
    fn ''hVb'' 0 0 [Do (Put This ''c'' (Call ''SC'' [G ''aE'', G ''Jve'', K (JNum 30), Dot (Seq (Call ''Bmd'' []) (Call ''WC'' [Call ''OC'' [G ''M2'', K (JNum 1)], G ''sye'', K (JNum 64), K (JNum 0), NewArr [G ''zmd'', G ''hmd'', G ''gmd'', G ''ymd'', G ''Amd'']])) ''length'', K (JNum 15), K (JNum 1)])), Do (Put This ''b'' (Call ''SC'' [G ''aE'', G ''Jve'', K (JNum 30), Dot (Call ''WC'' [Call ''OC'' [G ''M2'', K (JNum 1)], G ''sye'', K (JNum 64), K (JNum 0), NewArr [G ''zmd'', G ''hmd'', G ''gmd'', G ''ymd'', G ''Amd'']]) ''length'', K (JNum 15), K (JNum 1)])), Do (Put This ''a'' (Call ''SC'' [G ''aE'', G ''Jve'', K (JNum 30), Dot (Call ''WC'' [Call ''OC'' [G ''M2'', K (JNum 1)], G ''sye'', K (JNum 64), K (JNum 0), NewArr [G ''zmd'', G ''hmd'', G ''gmd'', G ''ymd'', G ''Amd'']]) ''length'', K (JNum 15), K (JNum 1)])), Do (Call ''Vmb'' [Dot This ''c'', G ''Cve'']), Do (Call ''Vmb'' [Dot This ''b'', G ''Dve'']), Do (Call ''Vmb'' [Dot This ''a'', G ''Dve''])],
    fn ''qkc'' 4 5 [Do (SetV 8 (Dot (V 1) ''i'')), Do (SetV 7 (Idx (Idx (V 2) (Dot (V 8) ''g'')) (Idx (Dot (V 0) ''d'') (Dot (V 8) ''g'')))), Do (SetV 4 (K (JBool False))), Do (SetV 6 (New ''Kmb'' [Dot (V 1) ''d''])), Loop (Bin Lt (Dot (V 6) ''a'') (Dot (Dot (Dot (V 6) ''c'') ''c'') ''length'')) [Do (SetV 5 (Call ''JD'' [Call ''Imb'' [V 6], K (JNum 70)])), When (Call ''Rdb'' [Call ''LD'' [Call ''oNb'' [V 5, Seq (Call ''nyc'' []) (G ''fwc'')]]]) [Do (SetV 4 (K (JBool True))), Break] []] [], Do (And (V 4) (SetV 3 (K (JNum 0)))), Switch (Dot (V 8) ''g'') [(Some (JNum 1), [Do (SetV 7 (Bin Minus (V 7) (Bin Plus (V 3) (Dot (Dot (V 1) ''j'') ''b'')))), Do (Put (Dot (V 1) ''g'') ''b'' (V 7)), Break]), (Some (JNum 3), [Do (SetV 7 (Bin Plus (V 7) (V 3))), Do (Put (Dot (V 1) ''g'') ''b'' (V 7)), Break]), (Some (JNum 4), [Do (SetV 7 (Bin Minus (V 7) (Bin Plus (V 3) (Dot (Dot (V 1) ''j'') ''a'')))), Do (Put (Dot (V 1) ''g'') ''a'' (V 7)), Break]), (Some (JNum 2), [Do (SetV 7 (Bin Plus (V 7) (V 3))), Do (Put (Dot (V 1) ''g'') ''a'' (V 7))])]],
    fn ''Ere'' 3 4 [When (Bin Le (V 1) (V 2)) [Do (SetV 4 (V 1)), Do (SetV 5 (V 2))] [Do (SetV 4 (V 2)), Do (SetV 5 (V 1))], Do (SetV 3 (K (JNum 0))), When (Loose (Dot (V 0) ''b'') (K JNull)) [Do (Put (V 0) ''b'' (Call ''SC'' [G ''cE'', G ''bve'', K (JNum 30), K (JNum 2), K (JNum 15), K (JNum 1)])), Do (PutIdx (Dot (V 0) ''b'') (K (JNum 0)) (V 4)), Do (PutIdx (Dot (V 0) ''b'') (K (JNum 1)) (V 5)), Do (Put (V 0) ''c'' (K (JBool True)))] [Do (SetV 3 (Dot (Dot (V 0) ''b'') ''length'')), When (Loose (Bin Plus (Idx (Dot (V 0) ''b'') (Bin Minus (V 3) (K (JNum 1)))) (K (JNum 1))) (V 4)) [Do (PutIdx (Dot (V 0) ''b'') (Bin Minus (V 3) (K (JNum 1))) (V 5)), Ret (K JUndef)] [], Do (SetV 6 (Call ''SC'' [G ''cE'', G ''bve'', K (JNum 30), Bin Plus (V 3) (K (JNum 2)), K (JNum 15), K (JNum 1)])), Do (Call ''rhb'' [Dot (V 0) ''b'', K (JNum 0), V 6, K (JNum 0), V 3]), Do (Put (V 0) ''b'' (V 6)), Do (And (Bin Ge (Idx (Dot (V 0) ''b'') (Bin Minus (V 3) (K (JNum 1)))) (V 4)) (Seq (Put (V 0) ''c'' (K (JBool False))) (Put (V 0) ''a'' (K (JBool False))))), Do (PutIdx (Dot (V 0) ''b'') (Bin Minus (SetV 3 (Bin Minus (V 3) (K (JNum (- 1))))) (K (JNum 1))) (V 4)), Do (PutIdx (Dot (V 0) ''b'') (V 3) (V 5)), Do (Or (Dot (V 0) ''c'') (Call ''Ire'' [V 0]))]],
    fn ''clc'' 3 7 [Do (SetV 9 (Dot (V 1) ''d'')), Do (Put (V 0) ''a'' (New ''mmb'' [Dot (Dot (V 9) ''c'') ''length''])), Do (Put (V 0) ''c'' (New ''_rb'' [])), Do (SetV 7 (New ''Kmb'' [V 9])), Loop (Bin Lt (Dot (V 7) ''a'') (Dot (Dot (Dot (V 7) ''c'') ''c'') ''length'')) [Do (SetV 6 (Call ''JD'' [Call ''Imb'' [V 7], K (JNum 107)])), Do (SetV 5 (New ''DPc'' [K JNull])), Do (Call ''_lb'' [Dot (V 0) ''a'', V 5]), Do (Call ''hjb'' [Dot (V 0) ''c'', V 6, V 5])] [], Do (Put (V 0) ''b'' (New ''_rb'' [])), Do (Call ''alc'' [V 0, V 1]), Do (SetV 3 (K (JNum 0))), Loop (Bin Lt (V 3) (Bin Minus (Dot (Dot (V 9) ''c'') ''length'') (K (JNum 1)))) [Do (SetV 8 (Call ''JD'' [Call ''dmb'' [Dot (V 1) ''d'', V 3], K (JNum 107)])), Do (SetV 4 (Bin Plus (V 3) (K (JNum 1)))), Loop (Bin Lt (V 4) (Dot (Dot (V 9) ''c'') ''length'')) [Do (Call ''dlc'' [V 0, V 8, Call ''JD'' [Call ''dmb'' [Dot (V 1) ''d'', V 4], K (JNum 107)], V 2])] [Do (Bin Minus (SetV 4 (Bin Minus (V 4) (K (JNum (- 1))))) (K (JNum 1)))]] [Do (Bin Minus (SetV 3 (Bin Minus (V 3) (K (JNum (- 1))))) (K (JNum 1)))]],
    fn ''kKc'' 2 7 [Do (SetV 2 (G ''Dve'')), Do (SetV 7 (Seq (Call ''$Yb'' []) (G ''XYb''))), Do (SetV 4 (New ''Kmb'' [Dot (V 1) ''a''])), Loop (Bin Lt (Dot (V 4) ''a'') (Dot (Dot (Dot (V 4) ''c'') ''c'') ''length'')) [Do (SetV 3 (Call ''JD'' [Call ''Imb'' [V 4], K (JNum 9)])), Do (SetV 5 (Dot (V 3) ''k'')), When (Neg (Loose (V 5) (G ''XYb''))) [Do (SetV 6 (Call ''MD'' [Call ''oNb'' [V 3, Seq (Call ''Wrc'' []) (G ''wrc'')]])), When (Loose (V 6) (K JNull)) [Do (SetV 2 (Meth (Dot (G ''$wnd'') ''Math'') ''max'' [V 2, K (JNum 0)])), Do (Put (Dot (V 3) ''n'') ''b'' (Bin Plus (V 2) (Call ''RAc'' [Dot (V 0) ''a'', V 5, V 7])))] [Do (Put (Dot (V 3) ''n'') ''b'' (Seq (Call ''NDb'' [V 6]) (V 6)))]] [], Do (SetV 8 (Call ''RAc'' [Dot (V 0) ''a'', V 5, V 7])), Do (And (Bin Lt (Dot (Dot (V 3) ''n'') ''b'') (Bin Plus (Bin Plus (V 2) (V 8)) (Dot (Dot (V 3) ''d'') ''d''))) (Put (Dot (V 3) ''n'') ''b'' (Bin Plus (Bin Plus (V 2) (V 8)) (Dot (Dot (V 3) ''d'') ''d'')))), Do (SetV 2 (Bin Plus (Bin Plus (Dot (Dot (V 3) ''n'') ''b'') (Dot (Dot (V 3) ''o'') ''b'')) (Dot (Dot (V 3) ''d'') ''a''))), Do (SetV 7 (V 5))] []],
    fn ''z_c'' 1 5 [Do (SetV 4 (New ''lmb'' [])), Do (SetV 1 (New ''jsb'' [Seq (And (Neg (Dot (V 0) ''a'')) (Put (V 0) ''a'' (New ''P3d'' [G ''T3'', V 0, K (JNum 10), K (JNum 11)]))) (Dot (V 0) ''a'')])), Do (SetV 3 (New ''Yr'' [Call ''Dr'' [Meth (Dot (Call ''SEd'' [V 0]) ''a'') ''Jc'' [], New ''Dl'' []]])), Loop (Call ''Wr'' [V 3]) [Do (SetV 2 (Call ''JD'' [Call ''Xr'' [V 3], K (JNum 85)])), When (Neg (Call ''RD'' [Call ''fGd'' [Seq (And (Neg (Dot (V 2) ''b'')) (Put (V 2) ''b'' (New ''jhe'' [G ''O3'', V 2, K (JNum 4), K (JNum 7)]))) (Dot (V 2) ''b''), K (JNum 0)], K (JNum 193)])) [Do (SetV 5 (Call ''TEd'' [Call ''JD'' [Call ''fGd'' [Seq (And (Neg (Dot (V 2) ''c'')) (Put (V 2) ''c'' (New ''jhe'' [G ''O3'', V 2, K (JNum 5), K (JNum 8)]))) (Dot (V 2) ''c''), K (JNum 0)], K (JNum 84)]])), Do (Or (Meth (Dot (V 1) ''a'') ''_b'' [V 5]) (Seq (Call ''qDb'' [Dot (V 4) ''c'', V 5]) (K (JBool True))))] []] [], Ret (V 4)],
    fn ''$oe'' 3 3 [Do (Put (V 0) ''e'' (V 2)), Do (Put (V 0) ''d'' (K (JNum 0))), Do (Put (V 0) ''b'' (K (JNum 0))), Do (Put (V 0) ''f'' (K (JNum 1))), Do (Put (V 0) ''i'' (V 1)), Do (And (Loose (Bin BitAnd (Dot (V 0) ''e'') (K (JNum 16))) (K (JNum 16))) (Put (V 0) ''i'' (Call ''Hqe'' [Dot (V 0) ''i'']))), Do (Put (V 0) ''j'' (Dot (Dot (V 0) ''i'') ''length'')), Do (Call ''Zoe'' [V 0]), Do (SetV 5 (Call ''bpe'' [V 0])), When (Neg (Loose (Dot (V 0) ''d'') (Dot (V 0) ''j''))) [Raise (Call ''Lcb'' [New ''Yoe'' [Call ''iHd'' [Seq (Call ''Ube'' []) (G ''cHe'')]]])] [], When (Dot (V 0) ''g'') [Do (SetV 3 (K (JNum 0))), Loop (Bin Lt (V 3) (Dot (Dot (Dot (Dot (V 0) ''g'') ''a'') ''c'') ''length'')) [Do (SetV 4 (Call ''JD'' [Call ''lxb'' [Dot (V 0) ''g'', V 3], K (JNum 581)])), When (Bin Le (Dot (V 0) ''f'') (Dot (V 4) ''a'')) [Raise (Call ''Lcb'' [New ''Yoe'' [Call ''iHd'' [Seq (Call ''Ube'' []) (G ''dHe'')]]])] []] [Do (Bin Minus (SetV 3 (Bin Minus (V 3) (K (JNum (- 1))))) (K (JNum 1)))], Do (Put (Dot (Dot (Dot (V 0) ''g'') ''a'') ''c'') ''length'' (K (JNum 0)))] [], Ret (V 5)],
    fn ''a0b'' 2 7 [Do (Meth (V 1) ''Tg'' [K (JStr ''Comment post-processing''), K (JNum 1)]), Do (SetV 5 (New ''Kmb'' [Dot (V 0) ''b''])), Loop (Bin Lt (Dot (V 5) ''a'') (Dot (Dot (Dot (V 5) ''c'') ''c'') ''length'')) [Do (SetV 4 (Call ''JD'' [Call ''Imb'' [V 5], K (JNum 25)])), Do (SetV 3 (New ''lmb'' [])), Do (SetV 7 (New ''Kmb'' [Dot (V 4) ''a''])), Loop (Bin Lt (Dot (V 7) ''a'') (Dot (Dot (Dot (V 7) ''c'') ''c'') ''length'')) [Do (SetV 6 (Call ''JD'' [Call ''Imb'' [V 7], K (JNum 9)])), Do (SetV 8 (Call ''JD'' [Call ''oNb'' [V 6, Seq (Call ''Wrc'' []) (G ''Urc'')], K (JNum 16)])), Do (SetV 2 (Call ''JD'' [Call ''oNb'' [V 6, G ''Lqc''], K (JNum 16)])), When (Or (Neg (Neg (V 8))) (Neg (Neg (V 2)))) [Do (Call ''b0b'' [V 6, V 8, V 2]), Do (And (Neg (Neg (V 8))) (Call ''bmb'' [V 3, V 8])), Do (And (Neg (Neg (V 2))) (Call ''bmb'' [V 3, V 2]))] []] [], Do (Call ''bmb'' [Dot (V 4) ''a'', V 3])] [], Do (Meth (V 1) ''Ug'' [])],
    fn ''f0c'' 5 6 [Do (And (Neg (Neg (Dot (V 0) ''d''))) (Meth (Dot (V 0) ''d'') ''Fg'' [V 4])), Do (SetV 5 (Call ''JD'' [Meth (V 4) ''Xb'' [K (JNum 0)], K (JNum 26)])), When (Call ''d0c'' [V 0, V 2, V 5, K (JBool False)]) [Ret (K (JBool True))] [], Do (SetV 6 (Call ''JD'' [Meth (V 4) ''Xb'' [Bin Minus (Meth (V 4) ''gc'' []) (K (JNum 1))], K (JNum 26)])), When (Call ''d0c'' [V 0, V 3, V 6, K (JBool True)]) [Ret (K (JBool True))] [], When (Call ''$_c'' [V 0, V 4]) [Ret (K (JBool True))] [], Do (SetV 10 (Meth (V 4) ''Jc'' [])), Loop (Meth (V 10) ''Ob'' []) [Do (SetV 9 (Call ''JD'' [Meth (V 10) ''Pb'' [], K (JNum 26)])), Do (SetV 8 (Meth (V 1) ''Jc'' [])), Loop (Meth (V 8) ''Ob'' []) [Do (SetV 7 (Call ''JD'' [Meth (V 8) ''Pb'' [], K (JNum 26)])), When (Call ''Z_c'' [V 0, V 9, V 7]) [Ret (K (JBool True))] []] []] [], Ret (K (JBool False))]]"

definition code_5598_5608 :: "(string \<times> jfun) list" where
  "code_5598_5608 = [
    fn ''Y3b'' 4 4 [Do (SetV 4 (Call ''JD'' [Meth (Meth (Call ''LYb'' [V 1, Seq (Call ''Bmd'' []) (G ''Amd'')]) ''Jc'' []) ''Pb'' [], K (JNum 12)])), Do (SetV 5 (Call ''JD'' [Meth (Meth (Call ''LYb'' [V 1, G ''gmd'']) ''Jc'' []) ''Pb'' [], K (JNum 12)])), Do (SetV 7 (New ''Kmb'' [Dot (V 0) ''j''])), Loop (Bin Lt (Dot (V 7) ''a'') (Dot (Dot (Dot (V 7) ''c'') ''c'') ''length'')) [Do (SetV 6 (Call ''JD'' [Call ''Imb'' [V 7], K (JNum 12)])), Loop (Neg (Loose (Dot (Dot (Dot (V 6) ''e'') ''c'') ''length'') (K (JNum 0)))) [Do (Call ''DWb'' [Call ''JD'' [Call ''dmb'' [Dot (V 6) ''e'', K (JNum 0)], K (JNum 17)], V 4])] [], Loop (Neg (Loose (Dot (Dot (Dot (V 6) ''g'') ''c'') ''length'') (K (JNum 0)))) [Do (Call ''CWb'' [Call ''JD'' [Call ''dmb'' [Dot (V 6) ''g'', K (JNum 0)], K (JNum 17)], V 5])] []] [], Do (Or (V 2) (Call ''rNb'' [V 1, Seq (Call ''Wrc'' []) (G ''nrc''), K JNull])), Do (Or (V 3) (Call ''rNb'' [V 1, Seq (Call ''Wrc'' []) (G ''orc''), K JNull]))],
    fn ''J7b'' 2 7 [Do (SetV 2 (New ''Glb'' [])), Do (SetV 5 (New ''Kmb'' [Dot (V 0) ''b''])), Loop (Bin Lt (Dot (V 5) ''a'') (Dot (Dot (Dot (V 5) ''c'') ''c'') ''length'')) [Do (SetV 4 (Call ''JD'' [Call ''Imb'' [V 5], K (JNum 25)])), Do (SetV 8 (K (JBool True))), Do (SetV 3 (K (JNum 0))), Do (SetV 7 (New ''Kmb'' [Dot (V 4) ''a''])), Loop (Bin Lt (Dot (V 7) ''a'') (Dot (Dot (Dot (V 7) ''c'') ''c'') ''length'')) [Do (SetV 6 (Call ''JD'' [Call ''Imb'' [V 7], K (JNum 9)])), Switch (Dot (Dot (V 6) ''k'') ''g'') [(Some (JNum 4), [Do (SetV 3 (Bin Minus (V 3) (K (JNum (- 1)))))]), (Some (JNum 1), [Do (Call ''slb'' [V 2, V 6]), Break]), (Some (JNum 0), [Do (Call ''L7b'' [V 6, V 1])]), (None, [Do (Or (Loose (Dot (V 2) ''b'') (Dot (V 2) ''c'')) (Call ''K7b'' [V 2, V 3, V 8, K (JBool False), V 1])), Do (SetV 8 (K (JBool False))), Do (SetV 3 (K (JNum 0)))])]] [], Do (Or (Loose (Dot (V 2) ''b'') (Dot (V 2) ''c'')) (Call ''K7b'' [V 2, V 3, V 8, K (JBool True), V 1]))] []],
    fn ''N8b'' 1 9 [Do (Put (V 0) ''a'' (New ''S_b'' [])), Do (SetV 9 (K (JNum 0))), Do (SetV 4 (K (JNum 0))), Do (SetV 3 (New ''Kmb'' [Dot (Dot (V 0) ''i'') ''b''])), Loop (Bin Lt (Dot (V 3) ''a'') (Dot (Dot (Dot (V 3) ''c'') ''c'') ''length'')) [Do (SetV 1 (Call ''JD'' [Call ''Imb'' [V 3], K (JNum 25)])), Do (Put (V 1) ''p'' (V 4)), Do (SetV 8 (New ''Kmb'' [Dot (V 1) ''a''])), Loop (Bin Lt (Dot (V 8) ''a'') (Dot (Dot (Dot (V 8) ''c'') ''c'') ''length'')) [Do (SetV 7 (Call ''JD'' [Call ''Imb'' [V 8], K (JNum 9)])), Do (Put (V 7) ''p'' (V 9)), Do (SetV 9 (Bin Minus (V 9) (K (JNum (- 1)))))] [], Do (SetV 4 (Bin Minus (V 4) (K (JNum (- 1)))))] [], Do (SetV 5 (Loose (Dot (V 0) ''r'') (Seq (Call ''Rzc'' []) (G ''Izc'')))), Do (SetV 6 (Cond (V 5) (G ''J8b'') (G ''I8b''))), Do (SetV 2 (New ''Kmb'' [Dot (Dot (V 0) ''i'') ''b''])), Loop (Bin Lt (Dot (V 2) ''a'') (Dot (Dot (Dot (V 2) ''c'') ''c'') ''length'')) [Do (SetV 1 (Call ''JD'' [Call ''Imb'' [V 2], K (JNum 25)])), Do (Call ''jmb'' [Dot (V 1) ''a'', V 6]), Do (Call ''R_b'' [Dot (V 0) ''a'', Call ''Cfb'' [Dot (V 1) ''p''], Dot (V 1) ''a''])] []],
    fn ''TIc'' 2 6 [Do (SetV 2 (K (JNum 0))), Do (SetV 7 (New ''Kmb'' [V 1])), Loop (Bin Lt (Dot (V 7) ''a'') (Dot (Dot (Dot (V 7) ''c'') ''c'') ''length'')) [Do (SetV 6 (Call ''JD'' [Call ''Imb'' [V 7], K (JNum 12)])), Do (Call ''JIc'' [Dot (V 0) ''b'', Idx (Dot (V 0) ''d'') (Dot (V 6) ''p'')]), Do (SetV 4 (New ''UZb'' [Dot (V 6) ''b''])), Loop (Or (Call ''Hmb'' [Dot (V 4) ''a'']) (Call ''Hmb'' [Dot (V 4) ''b''])) [Do (SetV 3 (Call ''JD'' [Cond (Call ''Hmb'' [Dot (V 4) ''a'']) (Call ''Imb'' [Dot (V 4) ''a'']) (Call ''Imb'' [Dot (V 4) ''b'']), K (JNum 17)])), Do (SetV 5 (Call ''jJc'' [V 0, Cond (Loose (V 6) (Dot (V 3) ''c'')) (Dot (V 3) ''d'') (Dot (V 3) ''c'')])), When (Bin Gt (V 5) (Idx (Dot (V 0) ''d'') (Dot (V 6) ''p''))) [Do (SetV 2 (Bin Plus (V 2) (Call ''IIc'' [Dot (V 0) ''b'', V 5]))), Do (Call ''rlb'' [Dot (V 0) ''a'', Call ''Cfb'' [V 5]])] []] [], Loop (Neg (Call ''xlb'' [Dot (V 0) ''a''])) [Do (Call ''GIc'' [Dot (V 0) ''b'', Dot (Call ''JD'' [Call ''Clb'' [Dot (V 0) ''a''], K (JNum 15)]) ''a''])] []] [], Ret (V 2)],
    fn ''ubd'' 3 4 [Do (SetV 5 (Dot (Seq (And (Neg (Dot (V 1) ''a'')) (Put (V 1) ''a'' (New ''P3d'' [G ''T3'', V 1, K (JNum 10), K (JNum 11)]))) (Dot (V 1) ''a'')) ''i'')), Do (SetV 4 (New ''uKd'' [Seq (And (Neg (Dot (V 1) ''a'')) (Put (V 1) ''a'' (New ''P3d'' [G ''T3'', V 1, K (JNum 10), K (JNum 11)]))) (Dot (V 1) ''a'')])), Loop (Neg (Loose (Dot (V 4) ''e'') (Meth (Dot (V 4) ''i'') ''gc'' []))) [Do (SetV 3 (Call ''JD'' [Call ''sKd'' [V 4], K (JNum 26)])), Do (Or (Loose (Dot (Seq (And (Neg (Dot (V 3) ''a'')) (Put (V 3) ''a'' (New ''P3d'' [G ''T3'', V 3, K (JNum 10), K (JNum 11)]))) (Dot (V 3) ''a'')) ''i'') (K (JNum 0))) (SetV 5 (Bin Plus (V 5) (Call ''ubd'' [V 0, V 3, K (JBool False)]))))] [], When (V 2) [Do (SetV 6 (Call ''Rzd'' [V 1])), Loop (V 6) [Do (SetV 5 (Bin Plus (V 5) (Dot (Seq (And (Neg (Dot (V 6) ''a'')) (Put (V 6) ''a'' (New ''P3d'' [G ''T3'', V 6, K (JNum 10), K (JNum 11)]))) (Dot (V 6) ''a'')) ''i''))), Do (SetV 6 (Call ''Rzd'' [V 6]))] []] [], Ret (V 5)],
    fn ''MJd'' 2 4 [When (Meth (V 0) ''Nj'' []) [Do (SetV 3 (K JNull)), Do (SetV 4 (Meth (V 0) ''Oj'' [])), Do (And (Meth (V 0) ''Rj'' []) (SetV 3 (Meth (V 0) ''Tj'' [Meth (V 0) ''Yi'' [V 1], K JNull]))), Do (SetV 2 (Meth (V 0) ''Gj'' [K (JNum 4), SetV 5 (Call ''iGd'' [V 0, V 1]), K JNull, V 1, V 4])), When (And (Meth (V 0) ''Kj'' []) (Neg (Loose (V 5) (K JNull)))) [Do (SetV 3 (Meth (V 0) ''Mj'' [V 5, V 3])), When (Neg (V 3)) [Do (Meth (V 0) ''Hj'' [V 2])] [Do (Meth (V 3) ''lj'' [V 2]), Do (Meth (V 3) ''mj'' [])]] [When (Neg (V 3)) [Do (Meth (V 0) ''Hj'' [V 2])] [Do (Meth (V 3) ''lj'' [V 2]), Do (Meth (V 3) ''mj'' [])]], Ret (V 5)] [Do (SetV 5 (Call ''iGd'' [V 0, V 1])), When (And (Meth (V 0) ''Kj'' []) (Neg (Loose (V 5) (K JNull)))) [Do (SetV 3 (Meth (V 0) ''Mj'' [V 5, K JNull])), Do (And (Neg (Neg (V 3))) (Meth (V 3) ''mj'' []))] [], Ret (V 5)]],
    fn ''oLb'' 1 10 [Do (SetV 9 (Dot (V 0) ''a'')), Do (SetV 1 (New ''hsb'' [])), Do (SetV 8 (K (JNum 0))), Do (SetV 3 (New ''Kmb'' [Dot (V 0) ''d''])), Loop (Bin Lt (Dot (V 3) ''a'') (Dot (Dot (Dot (V 3) ''c'') ''c'') ''length'')) [Do (SetV 2 (Call ''JD'' [Call ''Imb'' [V 3], K (JNum 226)])), Do (SetV 10 (K (JNum 0))), Do (Call ''Bub'' [Dot (V 2) ''b'', New ''rLb'' []]), Do (SetV 6 (Call ''Ztb'' [Dot (V 2) ''b'', K (JNum 0)])), Loop (Neg (Loose (Dot (V 6) ''b'') (Dot (Dot (V 6) ''d'') ''c''))) [Do (SetV 5 (Call ''JD'' [Call ''lub'' [V 6], K (JNum 226)])), When (Meth (Dot (V 1) ''a'') ''_b'' [V 5]) [Do (SetV 4 (Dot (V 2) ''c'')), Do (SetV 7 (Dot (V 5) ''c'')), Do (And (And (Bin Lt (V 10) (Bin Plus (Bin Plus (Dot (V 7) ''d'') (Dot (V 7) ''a'')) (V 9))) (Bin Gt (Bin Plus (Bin Plus (V 10) (Dot (V 4) ''a'')) (V 9)) (Dot (V 7) ''d''))) (SetV 10 (Bin Plus (Bin Plus (Dot (V 7) ''d'') (Dot (V 7) ''a'')) (V 9))))] []] [], Do (Put (Dot (V 2) ''c'') ''d'' (V 10)), Do (Meth (Dot (V 1) ''a'') ''yc'' [V 2, V 1]), Do (SetV 8 (Meth (Dot (G ''$wnd'') ''Math'') ''max'' [V 8, Bin Plus (Dot (Dot (V 2) ''c'') ''d'') (Dot (Dot (V 2) ''c'') ''a'')]))] [], Ret (V 8)],
    fn ''S7b'' 3 6 [Do (SetV 6 (Meth (Call ''JD'' [Call ''oNb'' [V 0, Seq (Call ''Wrc'' []) (G ''crc'')], K (JNum 16)]) ''Jc'' [])), Loop (Meth (V 6) ''Ob'' []) [Do (SetV 5 (Call ''JD'' [Meth (V 6) ''Pb'' [], K (JNum 9)])), Switch (Dot (Call ''JD'' [Call ''oNb'' [V 5, Seq (Call ''nyc'' []) (G ''Ewc'')], K (JNum 165)]) ''g'') [(Some (JNum 2), [Do (Call ''NYb'' [V 5, V 1]), Break]), (Some (JNum 4), [Do (Call ''NYb'' [V 5, V 2])])], Do (SetV 4 (New ''Yr'' [Call ''Dr'' [Meth (Dot (Call ''BYb'' [V 5]) ''a'') ''Jc'' [], New ''Dl'' []]])), Loop (Call ''Wr'' [V 4]) [Do (SetV 3 (Call ''JD'' [Call ''Xr'' [V 4], K (JNum 17)])), When (And (Neg (Neg (Dot (V 3) ''c''))) (Neg (Neg (Dot (V 3) ''d'')))) [Continue] [], Do (SetV 7 (Neg (Dot (V 3) ''d''))), Do (SetV 8 (Call ''JD'' [Call ''oNb'' [V 3, G ''yrc''], K (JNum 12)])), Do (Cond (V 7) (Call ''DWb'' [V 3, V 8]) (Call ''CWb'' [V 3, V 8]))] []] []],
    fn ''Xpc'' 0 0 [Do (SetG ''Xpc'' (G ''qdb'')), Do (SetG ''Opc'' (New ''Ypc'' [K (JStr ''COMMENTS''), K (JNum 0)])), Do (SetG ''Qpc'' (New ''Ypc'' [K (JStr ''EXTERNAL_PORTS''), K (JNum 1)])), Do (SetG ''Rpc'' (New ''Ypc'' [K (JStr ''HYPEREDGES''), K (JNum 2)])), Do (SetG ''Spc'' (New ''Ypc'' [K (JStr ''HYPERNODES''), K (JNum 3)])), Do (SetG ''Tpc'' (New ''Ypc'' [K (JStr ''NON_FREE_PORTS''), K (JNum 4)])), Do (SetG ''Upc'' (New ''Ypc'' [K (JStr ''NORTH_SOUTH_PORTS''), K (JNum 5)])), Do (SetG ''Wpc'' (New ''Ypc'' [G ''kze'', K (JNum 6)])), Do (SetG ''Npc'' (New ''Ypc'' [K (JStr ''CENTER_LABELS''), K (JNum 7)])), Do (SetG ''Ppc'' (New ''Ypc'' [K (JStr ''END_LABELS''), K (JNum 8)])), Do (SetG ''Vpc'' (New ''Ypc'' [K (JStr ''PARTITIONS''), K (JNum 9)]))],
    fn ''HA'' 5 0 [When (Bin Lt (V 3) (K (JNum 0))) [Do (SetV 3 (Call ''wA'' [V 0, V 4, Call ''WC'' [Call ''OC'' [G ''hJ'', K (JNum 1)], G ''aue'', K (JNum 2), K (JNum 6), NewArr [G ''Que'', G ''Rue'', G ''Sue'', G ''Tue'', G ''Uue'', G ''Vue'', G ''Wue'', G ''Xue'', G ''Yue'', G ''Zue'', G ''$ue'', G ''_ue'']], V 1])), Do (And (Bin Lt (V 3) (K (JNum 0))) (SetV 3 (Call ''wA'' [V 0, V 4, Call ''WC'' [Call ''OC'' [G ''hJ'', K (JNum 1)], G ''aue'', K (JNum 2), K (JNum 6), NewArr [K (JStr ''Jan''), K (JStr ''Feb''), K (JStr ''Mar''), K (JStr ''Apr''), G ''Uue'', K (JStr ''Jun''), K (JStr ''Jul''), K (JStr ''Aug''), K (JStr ''Sep''), K (JStr ''Oct''), K (JStr ''Nov''), K (JStr ''Dec'')]], V 1]))), When (Bin Lt (V 3) (K (JNum 0))) [Ret (K (JBool False))] [], Do (Put (V 2) ''k'' (V 3)), Ret (K (JBool True))] [When (Bin Gt (V 3) (K (JNum 0))) [Do (Put (V 2) ''k'' (Bin Minus (V 3) (K (JNum 1)))), Ret (K (JBool True))] []], Ret (K (JBool False))],
    fn ''JA'' 5 0 [When (Bin Lt (V 3) (K (JNum 0))) [Do (SetV 3 (Call ''wA'' [V 0, V 4, Call ''WC'' [Call ''OC'' [G ''hJ'', K (JNum 1)], G ''aue'', K (JNum 2), K (JNum 6), NewArr [G ''Que'', G ''Rue'', G ''Sue'', G ''Tue'', G ''Uue'', G ''Vue'', G ''Wue'', G ''Xue'', G ''Yue'', G ''Zue'', G ''$ue'', G ''_ue'']], V 1])), Do (And (Bin Lt (V 3) (K (JNum 0))) (SetV 3 (Call ''wA'' [V 0, V 4, Call ''WC'' [Call ''OC'' [G ''hJ'', K (JNum 1)], G ''aue'', K (JNum 2), K (JNum 6), NewArr [K (JStr ''Jan''), K (JStr ''Feb''), K (JStr ''Mar''), K (JStr ''Apr''), G ''Uue'', K (JStr ''Jun''), K (JStr ''Jul''), K (JStr ''Aug''), K (JStr ''Sep''), K (JStr ''Oct''), K (JStr ''Nov''), K (JStr ''Dec'')]], V 1]))), When (Bin Lt (V 3) (K (JNum 0))) [Ret (K (JBool False))] [], Do (Put (V 2) ''k'' (V 3)), Ret (K (JBool True))] [When (Bin Gt (V 3) (K (JNum 0))) [Do (Put (V 2) ''k'' (Bin Minus (V 3) (K (JNum 1)))), Ret (K (JBool True))] []], Ret (K (JBool False))]]"

definition code_5610_5622 :: "(string \<times> jfun) list" where
  "code_5610_5622 = [
    fn ''G$b'' 2 5 [When (Neg (Call ''Rzd'' [V 0])) [Ret (K JUndef)] [], Do (SetV 6 (Call ''JD'' [Call ''oNb'' [V 1, Seq (Call ''nyc'' []) (G ''axc'')], K (JNum 182)])), Do (And (Same (Call ''XD'' [Call ''cvd'' [V 0, G ''qxc'']]) (Call ''XD'' [Seq (Call ''Mld'' []) (G ''Lld'')])) (Call ''evd'' [V 0, G ''qxc'', G ''Kld''])), Do (SetV 3 (Seq (Call ''Jrd'' []) (New ''Xrd'' [Call ''Rzd'' [V 0]]))), Do (SetV 5 (New ''bsd'' [Cond (Neg (Call ''Rzd'' [V 0])) (K JNull) (New ''Xrd'' [Call ''Rzd'' [V 0]]), V 0])), Do (SetV 4 (Call ''jHb'' [V 3, V 5, K (JBool False), K (JBool True)])), Do (Call ''Hrb'' [V 6, Seq (Call ''ind'' []) (G ''end'')]), Do (SetV 2 (Call ''JD'' [Call ''oNb'' [V 1, G ''cxc''], K (JNum 8)])), Do (Put (V 2) ''a'' (Meth (Dot (G ''$wnd'') ''Math'') ''max'' [Dot (V 4) ''a'', Dot (V 2) ''a''])), Do (Put (V 2) ''b'' (Meth (Dot (G ''$wnd'') ''Math'') ''max'' [Dot (V 4) ''b'', Dot (V 2) ''b'']))],
    fn ''y_c'' 1 6 [Do (SetV 5 (New ''hsb'' [])), Do (SetV 1 (New ''jsb'' [Seq (And (Neg (Dot (V 0) ''a'')) (Put (V 0) ''a'' (New ''P3d'' [G ''T3'', V 0, K (JNum 10), K (JNum 11)]))) (Dot (V 0) ''a'')])), Do (SetV 4 (New ''Yr'' [Call ''Dr'' [Meth (Dot (Call ''SEd'' [V 0]) ''a'') ''Jc'' [], New ''Dl'' []]])), Loop (Call ''Wr'' [V 4]) [Do (SetV 3 (Call ''JD'' [Call ''Xr'' [V 4], K (JNum 85)])), When (Neg (Call ''RD'' [Call ''fGd'' [Seq (And (Neg (Dot (V 3) ''b'')) (Put (V 3) ''b'' (New ''jhe'' [G ''O3'', V 3, K (JNum 4), K (JNum 7)]))) (Dot (V 3) ''b''), K (JNum 0)], K (JNum 193)])) [Do (SetV 6 (Call ''TEd'' [Call ''JD'' [Call ''fGd'' [Seq (And (Neg (Dot (V 3) ''c'')) (Put (V 3) ''c'' (New ''jhe'' [G ''O3'', V 3, K (JNum 5), K (JNum 8)]))) (Dot (V 3) ''c''), K (JNum 0)], K (JNum 84)]])), Do (Or (Meth (Dot (V 1) ''a'') ''_b'' [V 6]) (Seq (SetV 2 (Meth (Dot (V 5) ''a'') ''yc'' [V 6, V 5])) (Loose (V 2) (K JNull))))] []] [], Ret (V 5)],
    fn ''qfd'' 0 0 [Do (SetG ''qfd'' (G ''qdb'')), Do (SetG ''pfd'' (Call ''WC'' [Call ''OC'' [G ''dE'', K (JNum 1)], G ''Fve'', K (JNum 30), K (JNum 14), NewArr [K (JNum 1), K (JNum 1), K (JNum 2), K (JNum 6), K (JNum 24), K (JNum 120), K (JNum 720), K (JNum 5040), K (JNum 40320), K (JNum 362880), K (JNum 3628800), K (JNum 39916800), K (JNum 479001600), K (JNum 6227020800), K (JNum 87178291200), K (JNum 1307674368000), NewLit [(''l'', K (JNum 3506176)), (''m'', K (JNum 794077)), (''h'', K (JNum 1))], NewLit [(''l'', K (JNum 884736)), (''m'', K (JNum 916411)), (''h'', K (JNum 20))], NewLit [(''l'', K (JNum 3342336)), (''m'', K (JNum 3912489)), (''h'', K (JNum 363))], NewLit [(''l'', K (JNum 589824)), (''m'', K (JNum 3034138)), (''h'', K (JNum 6914))], NewLit [(''l'', K (JNum 3407872)), (''m'', K (JNum 1962506)), (''h'', K (JNum 138294))]]])), Do (Meth (Dot (G ''$wnd'') ''Math'') ''pow'' [K (JNum 2), K (JNum (- 65))])],
    fn ''Vib'' 0 2 [Do (SetG ''Vib'' (G ''qdb'')), Do (SetG ''Tib'' (Call ''SC'' [G ''lJ'', G ''aue'', K (JNum 91), K (JNum 32), K (JNum 0), K (JNum 1)])), Do (SetG ''Uib'' (Call ''SC'' [G ''lJ'', G ''aue'', K (JNum 91), K (JNum 32), K (JNum 0), K (JNum 1)])), Do (SetV 0 (K (JNum 1))), Do (SetV 1 (K (JNum 0))), Loop (Bin Le (V 1) (K (JNum 18))) [Do (PutIdx (G ''Tib'') (V 1) (Seq (Call ''Zhb'' []) (Cond (Bin Ge (Call ''Ocb'' [V 0, K (JNum 0)]) (K (JNum 0))) (Call ''tib'' [V 0]) (Call ''fib'' [Call ''tib'' [Call ''Zcb'' [V 0]]])))), Do (PutIdx (G ''Uib'') (V 1) (Cond (Call ''Ucb'' [Call ''adb'' [V 0, V 1], K (JNum 0)]) (Call ''tib'' [Call ''adb'' [V 0, V 1]]) (Call ''fib'' [Call ''tib'' [Call ''Zcb'' [Call ''adb'' [V 0, V 1]]]]))), Do (SetV 0 (Call ''Ycb'' [V 0, K (JNum 5)]))] [Do (Bin Minus (SetV 1 (Bin Minus (V 1) (K (JNum (- 1))))) (K (JNum 1)))], Loop (Bin Lt (V 1) (Dot (G ''Uib'') ''length'')) [Do (PutIdx (G ''Tib'') (V 1) (Call ''eib'' [Idx (G ''Tib'') (Bin Minus (V 1) (K (JNum 1))), Idx (G ''Tib'') (K (JNum 1))])), Do (PutIdx (G ''Uib'') (V 1) (Call ''eib'' [Idx (G ''Uib'') (Bin Minus (V 1) (K (JNum 1))), Seq (Call ''Zhb'' []) (G ''Whb'')]))] [Do (Bin Minus (SetV 1 (Bin Minus (V 1) (K (JNum (- 1))))) (K (JNum 1)))]],
    fn ''tac'' 2 5 [When (Loose (Dot (Dot (V 0) ''c'') ''length'') (K (JNum 0))) [Ret (New ''prd'' [Call ''Cfb'' [K (JNum 0)], Call ''Cfb'' [K (JNum 0)]])] [], Do (SetV 2 (Dot (Seq (Call ''MDb'' [K (JNum 0), Dot (Dot (V 0) ''c'') ''length'']) (Call ''JD'' [Idx (Dot (V 0) ''c'') (K (JNum 0)), K (JNum 12)])) ''j'')), Do (SetV 6 (K (JNum 0))), Do (SetV 5 (Dot (V 1) ''g'')), Do (SetV 3 (Bin Plus (Dot (V 1) ''g'') (K (JNum 1)))), Loop (And (Bin Lt (V 6) (Bin Minus (Dot (Dot (V 0) ''c'') ''length'') (K (JNum 1)))) (Bin Lt (Dot (V 2) ''g'') (V 5))) [Do (SetV 6 (Bin Minus (V 6) (K (JNum (- 1))))), Do (SetV 2 (Dot (Seq (Call ''MDb'' [V 6, Dot (Dot (V 0) ''c'') ''length'']) (Call ''JD'' [Idx (Dot (V 0) ''c'') (V 6), K (JNum 12)])) ''j''))] [], Do (SetV 4 (V 6)), Loop (And (Bin Lt (V 4) (Bin Minus (Dot (Dot (V 0) ''c'') ''length'') (K (JNum 1)))) (Bin Lt (Dot (V 2) ''g'') (V 3))) [Do (SetV 4 (Bin Minus (V 4) (K (JNum (- 1))))), Do (SetV 2 (Dot (Seq (Call ''MDb'' [V 6, Dot (Dot (V 0) ''c'') ''length'']) (Call ''JD'' [Idx (Dot (V 0) ''c'') (V 6), K (JNum 12)])) ''j''))] [], Ret (New ''prd'' [Call ''Cfb'' [V 6], Call ''Cfb'' [V 4]])],
    fn ''fGc'' 4 7 [Do (SetV 8 (Call ''IYb'' [V 1, V 2])), Do (And (Or (Loose (V 2) (Seq (Call ''Bmd'' []) (G ''ymd''))) (Loose (V 2) (G ''Amd''))) (SetV 8 (Call ''$u'' [V 8]))), Do (SetV 6 (K (JBool False))), Loop (K (JBool True)) [Do (SetV 4 (K (JBool False))), Do (SetV 5 (K (JNum 0))), Loop (Bin Lt (V 5) (Bin Minus (Meth (V 8) ''gc'' []) (K (JNum 1)))) [Do (SetV 9 (Call ''JD'' [Meth (V 8) ''Xb'' [V 5], K (JNum 12)])), Do (SetV 7 (Call ''JD'' [Meth (V 8) ''Xb'' [Bin Plus (V 5) (K (JNum 1))], K (JNum 12)])), When (Call ''gGc'' [V 0, V 9, V 7, V 3]) [Do (SetV 6 (K (JBool True))), Do (Call ''lJc'' [Dot (V 0) ''a'', Call ''JD'' [Meth (V 8) ''Xb'' [V 5], K (JNum 12)], Call ''JD'' [Meth (V 8) ''Xb'' [Bin Plus (V 5) (K (JNum 1))], K (JNum 12)]]), Do (SetV 10 (Call ''JD'' [Meth (V 8) ''Xb'' [Bin Plus (V 5) (K (JNum 1))], K (JNum 12)])), Do (Meth (V 8) ''fd'' [Bin Plus (V 5) (K (JNum 1)), Call ''JD'' [Meth (V 8) ''Xb'' [V 5], K (JNum 12)]]), Do (Meth (V 8) ''fd'' [V 5, V 10]), Do (SetV 4 (K (JBool True)))] []] [Do (Bin Minus (SetV 5 (Bin Minus (V 5) (K (JNum (- 1))))) (K (JNum 1)))]] [When (V 4) [] [Break]], Ret (V 6)],
    fn ''WVc'' 3 4 [Do (Meth (V 2) ''Tg'' [G ''PCe'', K (JNum 1)]), Do (SetV 4 (Call ''JD'' [Call ''SBb'' [Call ''VBb'' [New ''jCb'' [K JNull, New ''Zvb'' [Dot (V 1) ''b'', K (JNum 16)]], New ''$Vc'' []], Call ''BAb'' [New ''TAb'' [], New ''RAb'' [], New ''ZAb'' [], Call ''WC'' [Call ''OC'' [G ''HL'', K (JNum 1)], G ''xue'', K (JNum 130), K (JNum 0), NewArr [Seq (Call ''FAb'' []) (G ''DAb'')]]]], K (JNum 16)])), Do (Call ''XVc'' [V 0, V 4, K (JNum 0)]), Do (SetV 6 (Call ''Ztb'' [Dot (V 1) ''b'', K (JNum 0)])), Loop (Neg (Loose (Dot (V 6) ''b'') (Dot (Dot (V 6) ''d'') ''c''))) [Do (SetV 5 (Call ''JD'' [Call ''lub'' [V 6], K (JNum 40)])), Do (SetV 3 (Cond (Neg (Loose (Call ''ejb'' [Dot (V 0) ''a'', Call ''Cfb'' [Dot (V 5) ''g'']]) (K JNull))) (Dot (Call ''JD'' [Call ''ejb'' [Dot (V 0) ''a'', Call ''Cfb'' [Dot (V 5) ''g'']], K (JNum 15)]) ''a'') (K (JNum 0)))), Do (Call ''rNb'' [V 5, Seq (Call ''SXc'' []) (G ''QXc''), Call ''Cfb'' [V 3]])] [], Do (Meth (V 2) ''Ug'' [])],
    fn ''Z_c'' 3 8 [Do (SetV 7 (Bin Minus (Dot (V 1) ''i'') (Bin Divide (Dot (V 0) ''g'') (K (JNum 2))))), Do (SetV 8 (Bin Minus (Dot (V 2) ''i'') (Bin Divide (Dot (V 0) ''g'') (K (JNum 2))))), Do (SetV 9 (Bin Minus (Dot (V 1) ''j'') (Bin Divide (Dot (V 0) ''g'') (K (JNum 2))))), Do (SetV 10 (Bin Minus (Dot (V 2) ''j'') (Bin Divide (Dot (V 0) ''g'') (K (JNum 2))))), Do (SetV 5 (Bin Plus (Dot (V 1) ''g'') (Dot (V 0) ''g''))), Do (SetV 6 (Bin Plus (Dot (V 2) ''g'') (Dot (V 0) ''g''))), Do (SetV 3 (Bin Plus (Dot (V 1) ''f'') (Dot (V 0) ''g''))), Do (SetV 4 (Bin Plus (Dot (V 2) ''f'') (Dot (V 0) ''g''))), When (And (And (And (Bin Lt (V 7) (Bin Plus (V 8) (V 6))) (Bin Lt (V 8) (V 7))) (Bin Lt (V 9) (Bin Plus (V 10) (V 4)))) (Bin Lt (V 10) (V 9))) [Ret (K (JBool True))] [When (And (And (And (Bin Lt (V 8) (Bin Plus (V 7) (V 5))) (Bin Lt (V 7) (V 8))) (Bin Lt (V 10) (Bin Plus (V 9) (V 3)))) (Bin Lt (V 9) (V 10))) [Ret (K (JBool True))] [When (And (And (And (Bin Lt (V 7) (Bin Plus (V 8) (V 6))) (Bin Lt (V 8) (V 7))) (Bin Lt (V 9) (V 10))) (Bin Lt (V 10) (Bin Plus (V 9) (V 3)))) [Ret (K (JBool True))] [When (And (And (And (Bin Lt (V 8) (Bin Plus (V 7) (V 5))) (Bin Lt (V 7) (V 8))) (Bin Lt (V 9) (Bin Plus (V 10) (V 4)))) (Bin Lt (V 10) (V 9))) [Ret (K (JBool True))] []]]], Ret (K (JBool False))],
    fn ''W6b'' 3 10 [Do (SetV 5 (Dot (Dot (V 1) ''c'') ''length'')), Do (SetV 6 (Seq (Call ''MDb'' [V 2, Dot (Dot (V 1) ''c'') ''length'']) (Call ''JD'' [Idx (Dot (V 1) ''c'') (V 2), K (JNum 294)]))), Do (SetV 7 (Dot (Dot (Dot (V 6) ''a'') ''o'') ''a'')), Do (SetV 11 (Dot (V 6) ''c'')), Do (SetV 12 (K (JNum 0))), Do (SetV 9 (Dot (V 6) ''c'')), Loop (Bin Le (V 9) (Dot (V 6) ''f'')) [When (Bin Le (V 7) (Idx (Dot (V 0) ''a'') (V 9))) [Ret (V 9)] [], Do (SetV 10 (Idx (Dot (V 0) ''a'') (V 9))), Do (SetV 8 (K JNull)), Do (SetV 4 (Bin Plus (V 2) (K (JNum 1)))), Loop (Bin Lt (V 4) (V 5)) [Do (SetV 3 (Seq (Call ''MDb'' [V 4, Dot (Dot (V 1) ''c'') ''length'']) (Call ''JD'' [Idx (Dot (V 1) ''c'') (V 4), K (JNum 294)]))), Do (And (And (Bin Le (Dot (V 3) ''c'') (V 9)) (Bin Ge (Dot (V 3) ''f'') (V 9))) (SetV 8 (V 3)))] [Do (Bin Minus (SetV 4 (Bin Minus (V 4) (K (JNum (- 1))))) (K (JNum 1)))], Do (And (Neg (Neg (V 8))) (SetV 10 (Meth (Dot (G ''$wnd'') ''Math'') ''max'' [V 10, Dot (Dot (Dot (V 8) ''a'') ''o'') ''a'']))), When (Bin Gt (V 10) (V 12)) [Do (SetV 11 (V 9)), Do (SetV 12 (V 10))] []] [Do (Bin Minus (SetV 9 (Bin Minus (V 9) (K (JNum (- 1))))) (K (JNum 1)))], Ret (V 11)],
    fn ''vLb'' 1 7 [Do (SetV 5 (New ''Gzb'' [Call ''JD'' [Call ''Qb'' [New ''JLb'' []], K (JNum 51)]])), Do (SetV 7 (G ''Dve'')), Do (SetV 2 (New ''Kmb'' [Dot (V 0) ''d''])), Loop (Bin Lt (Dot (V 2) ''a'') (Dot (Dot (Dot (V 2) ''c'') ''c'') ''length'')) [Do (SetV 1 (Call ''JD'' [Call ''Imb'' [V 2], K (JNum 226)])), Do (SetV 7 (Dot (Dot (V 1) ''c'') ''c'')), Loop (Neg (Loose (Meth (Dot (V 5) ''a'') ''gc'' []) (K (JNum 0)))) [Do (SetV 6 (Call ''JD'' [Meth (Dot (V 5) ''a'') ''Rc'' [], K (JNum 226)])), When (Bin Lt (Bin Plus (Dot (Dot (V 6) ''c'') ''c'') (Dot (Dot (V 6) ''c'') ''b'')) (V 7)) [Do (Neg (Loose (Meth (Dot (V 5) ''a'') ''Ac'' [V 6]) (K JNull)))] [Break]] [], Do (SetV 4 (Meth (Meth (Dot (V 5) ''a'') ''ec'' []) ''Jc'' [])), Loop (Meth (V 4) ''Ob'' []) [Do (SetV 3 (Call ''JD'' [Meth (V 4) ''Pb'' [], K (JNum 226)])), Do (Call ''Ttb'' [Dot (V 3) ''b'', V 1]), Do (Call ''Ttb'' [Dot (V 1) ''b'', V 3])] [], Do (Loose (Meth (Dot (V 5) ''a'') ''yc'' [V 1, Seq (Call ''Qdb'' []) (G ''Odb'')]) (K JNull))] []],
    fn ''bWc'' 3 5 [When (Neg (Call ''ar'' [V 1])) [Do (SetV 7 (Meth (V 2) ''dh'' [Bin DivInt (Cond (Call ''RD'' [V 1, K (JNum 18)]) (Meth (Call ''JD'' [V 1, K (JNum 18)]) ''gc'' []) (Call ''Br'' [Meth (V 1) ''Jc'' []])) (Dot (V 0) ''a'')])), Do (Meth (V 7) ''Tg'' [G ''RCe'', K (JNum 1)]), Do (SetV 6 (New ''eWc'' [])), Do (SetV 5 (K JNull)), Do (SetV 4 (Meth (V 1) ''Jc'' [])), Loop (Meth (V 4) ''Ob'' []) [Do (SetV 3 (Call ''JD'' [Meth (V 4) ''Pb'' [], K (JNum 40)])), Do (SetV 6 (Call ''yl'' [Call ''WC'' [Call ''OC'' [G ''VI'', K (JNum 1)], G ''Gte'', K (JNum 20), K (JNum 0), NewArr [V 6, New ''OTc'' [V 3]]]])), When (V 5) [Do (Call ''rNb'' [V 5, Seq (Call ''_Wc'' []) (G ''WWc''), V 3]), Do (Call ''rNb'' [V 3, G ''MWc'', V 5]), When (Loose (Call ''KTc'' [V 3]) (Call ''KTc'' [V 5])) [Do (Call ''rNb'' [V 5, G ''XWc'', V 3]), Do (Call ''rNb'' [V 3, G ''NWc'', V 5])] []] [], Do (SetV 5 (V 3))] [], Do (Meth (V 7) ''Ug'' []), Do (Call ''bWc'' [V 0, V 6, V 2])] []],
    fn ''M_d'' 2 3 [When (Loose (V 1) (K JNull)) [Do (SetV 3 (Seq (And (Neg (Dot (V 0) ''a'')) (Put (V 0) ''a'' (New ''P3d'' [G ''w6'', V 0, K (JNum 9), K (JNum 5)]))) (New ''uKd'' [Dot (V 0) ''a'']))), Loop (Neg (Loose (Dot (V 3) ''e'') (Meth (Dot (V 3) ''i'') ''gc'' []))) [Do (SetV 2 (Call ''JD'' [Call ''sKd'' [V 3], K (JNum 684)])), Do (SetV 4 (Dot (V 2) ''c'')), When (Loose (Cond (Loose (V 4) (K JNull)) (Dot (V 2) ''zb'') (V 4)) (K JNull)) [Ret (V 2)] []] []] [Do (SetV 3 (Seq (And (Neg (Dot (V 0) ''a'')) (Put (V 0) ''a'' (New ''P3d'' [G ''w6'', V 0, K (JNum 9), K (JNum 5)]))) (New ''uKd'' [Dot (V 0) ''a'']))), Loop (Neg (Loose (Dot (V 3) ''e'') (Meth (Dot (V 3) ''i'') ''gc'' []))) [Do (SetV 2 (Call ''JD'' [Call ''sKd'' [V 3], K (JNum 684)])), When (Call ''vgb'' [V 1, Seq (SetV 4 (Dot (V 2) ''c'')) (Cond (Loose (V 4) (K JNull)) (Dot (V 2) ''zb'') (V 4))]) [Ret (V 2)] []] []], Ret (K JNull)],
    fn ''eJb'' 2 1 [Do (SetV 2 (K JNull)), Switch (Dot (V 1) ''g'') [(Some (JNum 1), [Do (And (Meth (Dot (V 0) ''e'') ''nf'' [Seq (Call ''vjd'' []) (G ''Aid'')]) (SetV 2 (Call ''JD'' [Meth (Dot (V 0) ''e'') ''mf'' [G ''Aid''], K (JNum 257)]))), Break]), (Some (JNum 3), [Do (And (Meth (Dot (V 0) ''e'') ''nf'' [Seq (Call ''vjd'' []) (G ''Bid'')]) (SetV 2 (Call ''JD'' [Meth (Dot (V 0) ''e'') ''mf'' [G ''Bid''], K (JNum 257)]))), Break]), (Some (JNum 2), [Do (And (Meth (Dot (V 0) ''e'') ''nf'' [Seq (Call ''vjd'' []) (G ''zid'')]) (SetV 2 (Call ''JD'' [Meth (Dot (V 0) ''e'') ''mf'' [G ''zid''], K (JNum 257)]))), Break]), (Some (JNum 4), [Do (And (Meth (Dot (V 0) ''e'') ''nf'' [Seq (Call ''vjd'' []) (G ''Cid'')]) (SetV 2 (Call ''JD'' [Meth (Dot (V 0) ''e'') ''mf'' [G ''Cid''], K (JNum 257)])))])], Do (And (Neg (V 2)) (SetV 2 (Call ''JD'' [Meth (Dot (V 0) ''e'') ''mf'' [Seq (Call ''vjd'' []) (G ''xid'')], K (JNum 257)]))), Ret (V 2)]]"

definition code_5624_5629 :: "(string \<times> jfun) list" where
  "code_5624_5629 = [
    fn ''bQc'' 4 6 [Do (SetV 4 (Bin Divide (Bin Plus (Dot (V 3) ''c'') (Dot (V 3) ''a'')) (K (JNum 2)))), Do (Call ''cub'' [Dot (V 1) ''j'']), Do (Call ''Ttb'' [Dot (V 1) ''j'', V 4]), Do (Call ''cub'' [Dot (V 2) ''e'']), Do (Call ''Ttb'' [Dot (V 2) ''e'', V 4]), Do (SetV 9 (New ''jQc'' [])), Do (SetV 7 (New ''Kmb'' [Dot (V 0) ''f''])), Loop (Bin Lt (Dot (V 7) ''a'') (Dot (Dot (Dot (V 7) ''c'') ''c'') ''length'')) [Do (SetV 5 (Call ''JD'' [Call ''Imb'' [V 7], K (JNum 133)])), Do (SetV 8 (Dot (V 5) ''a'')), Do (Call ''dQc'' [V 9, V 1, V 8]), Do (Call ''dQc'' [V 9, V 2, V 8])] [], Do (SetV 6 (New ''Kmb'' [Dot (V 0) ''k''])), Loop (Bin Lt (Dot (V 6) ''a'') (Dot (Dot (Dot (V 6) ''c'') ''c'') ''length'')) [Do (SetV 5 (Call ''JD'' [Call ''Imb'' [V 6], K (JNum 133)])), Do (SetV 8 (Dot (V 5) ''b'')), Do (Call ''dQc'' [V 9, V 1, V 8]), Do (Call ''dQc'' [V 9, V 2, V 8])] [], Do (Put (V 9) ''b'' (Bin Plus (Dot (V 9) ''b'') (K (JNum 2)))), Do (Put (V 9) ''a'' (Bin Plus (Dot (V 9) ''a'') (Call ''YPc'' [V 1, Dot (V 0) ''q'']))), Do (Put (V 9) ''a'' (Bin Plus (Dot (V 9) ''a'') (Call ''YPc'' [Dot (V 0) ''q'', V 2]))), Ret (V 9)],
    fn ''DYc'' 3 1 [Do (Meth (V 2) ''Tg'' [K (JStr ''Processor arrange node''), K (JNum 1)]), Do (Call ''Rdb'' [Call ''LD'' [Call ''oNb'' [V 1, Seq (Call ''SXc'' []) (G ''pXc'')]]]), Do (SetV 3 (Call ''JD'' [Call ''Sub'' [Call ''WBb'' [Call ''VBb'' [New ''jCb'' [K JNull, New ''Zvb'' [Dot (V 1) ''b'', K (JNum 16)]], New ''NYc'' []]]], K (JNum 40)])), Do (Put (V 0) ''a'' (Call ''JD'' [Call ''oNb'' [V 1, G ''RXc''], K (JNum 353)])), Do (Cond (Or (Loose (Dot (V 0) ''a'') (Seq (Call ''bYc'' []) (G ''_Xc''))) (Loose (Dot (V 0) ''a'') (G ''$Xc''))) (Call ''CYc'' [V 0, New ''wnb'' [Call ''WC'' [Call ''OC'' [G ''b$'', K (JNum 1)], G ''QCe'', K (JNum 40), K (JNum 0), NewArr [V 3]]], Meth (V 2) ''dh'' [K (JNum 1)]]) (And (Loose (Dot (V 0) ''a'') (G ''ZXc'')) (Call ''BYc'' [V 0, New ''wnb'' [Call ''WC'' [Call ''OC'' [G ''b$'', K (JNum 1)], G ''QCe'', K (JNum 40), K (JNum 0), NewArr [V 3]]], Meth (V 2) ''dh'' [K (JNum 1)]]))), Do (Meth (V 2) ''Ug'' [])],
    fn ''pIb'' 1 7 [Do (SetV 2 (Dot (V 0) ''i'')), Do (SetV 1 (Dot (V 0) ''n'')), Do (SetV 7 (Dot (V 2) ''d'')), Do (Cond (Loose (Dot (V 0) ''f'') (Seq (Call ''$Ib'' []) (G ''YIb''))) (SetV 7 (Bin Plus (V 7) (Bin Divide (Bin Minus (Dot (V 2) ''a'') (Dot (Dot (V 0) ''e'') ''b'')) (K (JNum 2))))) (And (Loose (Dot (V 0) ''f'') (G ''XIb'')) (SetV 7 (Bin Plus (V 7) (Bin Minus (Dot (V 2) ''a'') (Dot (Dot (V 0) ''e'') ''b'')))))), Do (SetV 4 (New ''Kmb'' [Dot (V 0) ''d''])), Loop (Bin Lt (Dot (V 4) ''a'') (Dot (Dot (Dot (V 4) ''c'') ''c'') ''length'')) [Do (SetV 3 (Call ''JD'' [Call ''Imb'' [V 4], K (JNum 187)])), Do (SetV 6 (Meth (V 3) ''Kf'' [])), Do (SetV 5 (New ''jgd'' [])), Do (Put (V 5) ''b'' (V 7)), Do (SetV 7 (Bin Plus (V 7) (Bin Plus (Dot (V 6) ''b'') (Dot (V 0) ''a'')))), Switch (Dot (Dot (V 0) ''b'') ''g'') [(Some (JNum 0), [Do (Put (V 5) ''a'' (Bin Plus (Dot (V 2) ''c'') (Dot (V 1) ''b''))), Break]), (Some (JNum 1), [Do (Put (V 5) ''a'' (Bin Plus (Bin Plus (Dot (V 2) ''c'') (Dot (V 1) ''b'')) (Bin Divide (Bin Minus (Dot (V 2) ''b'') (Dot (V 6) ''a'')) (K (JNum 2))))), Break]), (Some (JNum 2), [Do (Put (V 5) ''a'' (Bin Minus (Bin Minus (Bin Plus (Dot (V 2) ''c'') (Dot (V 2) ''b'')) (Dot (V 1) ''c'')) (Dot (V 6) ''a'')))])], Do (Meth (V 3) ''Mf'' [V 5])] []],
    fn ''rIb'' 1 7 [Do (SetV 2 (Dot (V 0) ''i'')), Do (SetV 1 (Dot (V 0) ''n'')), Do (SetV 7 (Dot (V 2) ''c'')), Do (Cond (Loose (Dot (V 0) ''b'') (Seq (Call ''hIb'' []) (G ''eIb''))) (SetV 7 (Bin Plus (V 7) (Bin Divide (Bin Minus (Dot (V 2) ''b'') (Dot (Dot (V 0) ''e'') ''a'')) (K (JNum 2))))) (And (Loose (Dot (V 0) ''b'') (G ''gIb'')) (SetV 7 (Bin Plus (V 7) (Bin Minus (Dot (V 2) ''b'') (Dot (Dot (V 0) ''e'') ''a'')))))), Do (SetV 4 (New ''Kmb'' [Dot (V 0) ''d''])), Loop (Bin Lt (Dot (V 4) ''a'') (Dot (Dot (Dot (V 4) ''c'') ''c'') ''length'')) [Do (SetV 3 (Call ''JD'' [Call ''Imb'' [V 4], K (JNum 187)])), Do (SetV 6 (Meth (V 3) ''Kf'' [])), Do (SetV 5 (New ''jgd'' [])), Do (Put (V 5) ''a'' (V 7)), Do (SetV 7 (Bin Plus (V 7) (Bin Plus (Dot (V 6) ''a'') (Dot (V 0) ''a'')))), Switch (Dot (Dot (V 0) ''f'') ''g'') [(Some (JNum 0), [Do (Put (V 5) ''b'' (Bin Plus (Dot (V 2) ''d'') (Dot (V 1) ''d''))), Break]), (Some (JNum 1), [Do (Put (V 5) ''b'' (Bin Plus (Bin Plus (Dot (V 2) ''d'') (Dot (V 1) ''d'')) (Bin Divide (Bin Minus (Dot (V 2) ''a'') (Dot (V 6) ''b'')) (K (JNum 2))))), Break]), (Some (JNum 2), [Do (Put (V 5) ''b'' (Bin Minus (Bin Minus (Bin Plus (Dot (V 2) ''d'') (Dot (V 2) ''a'')) (Dot (V 1) ''a'')) (Dot (V 6) ''b'')))])], Do (Meth (V 3) ''Mf'' [V 5])] []],
    fn ''G1b'' 3 12 [Do (SetV 10 (Dot (Dot (V 2) ''a'') ''c'')), Do (SetV 6 (Bin Plus (Dot (Dot (V 2) ''a'') ''c'') (Dot (Dot (V 2) ''a'') ''b''))), Do (SetV 5 (Call ''JD'' [Call ''ejb'' [Dot (V 2) ''c'', V 1], K (JNum 457)])), Do (SetV 13 (Dot (V 5) ''f'')), Do (SetV 14 (Dot (V 5) ''a'')), Do (SetV 8 (New ''lgd'' [V 10, V 13])), Do (SetV 11 (New ''lgd'' [V 6, V 14])), Do (SetV 4 (V 10)), Do (Or (Dot (V 2) ''p'') (SetV 4 (Bin Plus (V 4) (Dot (V 0) ''c'')))), Do (SetV 4 (Bin Plus (V 4) (Bin Plus (Dot (V 2) ''F'') (Bin Times (Dot (V 2) ''v'') (Dot (V 0) ''b''))))), Do (SetV 9 (New ''lgd'' [V 4, V 13])), Do (SetV 12 (New ''lgd'' [V 4, V 14])), Do (Call ''tgd'' [Dot (V 1) ''a'', Call ''WC'' [Call ''OC'' [G ''r2'', K (JNum 1)], G ''aue'', K (JNum 8), K (JNum 0), NewArr [V 8, V 9]]]), Do (SetV 7 (Bin Gt (Meth (Dot (Dot (V 2) ''d'') ''a'') ''gc'' []) (K (JNum 1)))), When (V 7) [Do (SetV 3 (New ''lgd'' [V 4, Dot (V 2) ''b''])), Do (Call ''Ttb'' [Dot (V 1) ''a'', V 3])] [], Do (Call ''tgd'' [Dot (V 1) ''a'', Call ''WC'' [Call ''OC'' [G ''r2'', K (JNum 1)], G ''aue'', K (JNum 8), K (JNum 0), NewArr [V 12, V 11]]])],
    fn ''lDc'' 3 2 [When (Bin Lt (V 1) (Dot (Dot (Dot (Dot (V 0) ''d'') ''b'') ''c'') ''length'')) [Do (Put (V 0) ''b'' (Call ''JD'' [Call ''dmb'' [Dot (Dot (V 0) ''d'') ''b'', V 1], K (JNum 25)])), Do (Put (V 0) ''a'' (Call ''JD'' [Call ''dmb'' [Dot (Dot (V 0) ''d'') ''b'', Bin Minus (V 1) (K (JNum 1))], K (JNum 25)])), Do (Put (V 0) ''c'' (V 1))] [Do (Put (V 0) ''a'' (New ''y$b'' [Dot (V 0) ''d''])), Do (Put (Dot (V 0) ''a'') ''p'' (Bin Minus (V 1) (K (JNum 1)))), Do (Call ''_lb'' [Dot (Dot (V 0) ''d'') ''b'', Dot (V 0) ''a'']), Do (Put (V 0) ''b'' (New ''y$b'' [Dot (V 0) ''d''])), Do (Put (Dot (V 0) ''b'') ''p'' (V 1)), Do (Call ''_lb'' [Dot (Dot (V 0) ''d'') ''b'', Dot (V 0) ''b'']), Do (Put (V 0) ''c'' (V 1))], Do (Call ''NYb'' [V 2, Dot (V 0) ''b'']), Do (SetV 4 (New ''Yr'' [Call ''Dr'' [Meth (Dot (Call ''EYb'' [V 2]) ''a'') ''Jc'' [], New ''Dl'' []]])), Loop (Call ''Wr'' [V 4]) [Do (SetV 3 (Call ''JD'' [Call ''Xr'' [V 4], K (JNum 17)])), Do (And (And (Neg (Dot (Dot (Dot (V 3) ''c'') ''i'') ''c'')) (Loose (Dot (Dot (Dot (V 3) ''c'') ''i'') ''k'') (Seq (Call ''$Yb'' []) (G ''UYb'')))) (Call ''NYb'' [Dot (Dot (V 3) ''c'') ''i'', Dot (V 0) ''a'']))] []]]"

definition code_5632_5635 :: "(string \<times> jfun) list" where
  "code_5632_5635 = [
    fn ''Toe'' 0 6 [Do (SetG ''Toe'' (G ''qdb'')), Do (SetG ''Roe'' (Call ''SC'' [G ''$D'', G ''hGe'', K (JNum 30), K (JNum 255), K (JNum 15), K (JNum 1)])), Do (SetG ''Soe'' (Call ''SC'' [G ''_D'', G ''Nue'', K (JNum 30), K (JNum 16), K (JNum 15), K (JNum 1)])), Do (SetV 1 (K (JNum 0))), Loop (Bin Lt (V 1) (K (JNum 255))) [Do (PutIdx (G ''Roe'') (V 1) (K (JNum (- 1))))] [Do (Bin Minus (SetV 1 (Bin Minus (V 1) (K (JNum (- 1))))) (K (JNum 1)))], Do (SetV 2 (K (JNum 57))), Loop (Bin Ge (V 2) (K (JNum 48))) [Do (PutIdx (G ''Roe'') (V 2) (Bin Shr (Bin Shl (Bin Minus (V 2) (K (JNum 48))) (K (JNum 24))) (K (JNum 24))))] [Do (Bin Minus (SetV 2 (Bin Minus (V 2) (K (JNum 1)))) (K (JNum (- 1))))], Do (SetV 3 (K (JNum 70))), Loop (Bin Ge (V 3) (K (JNum 65))) [Do (PutIdx (G ''Roe'') (V 3) (Bin Shr (Bin Shl (Bin Plus (Bin Minus (V 3) (K (JNum 65))) (K (JNum 10))) (K (JNum 24))) (K (JNum 24))))] [Do (Bin Minus (SetV 3 (Bin Minus (V 3) (K (JNum 1)))) (K (JNum (- 1))))], Do (SetV 4 (K (JNum 102))), Loop (Bin Ge (V 4) (K (JNum 97))) [Do (PutIdx (G ''Roe'') (V 4) (Bin Shr (Bin Shl (Bin Plus (Bin Minus (V 4) (K (JNum 97))) (K (JNum 10))) (K (JNum 24))) (K (JNum 24))))] [Do (Bin Minus (SetV 4 (Bin Minus (V 4) (K (JNum 1)))) (K (JNum (- 1))))], Do (SetV 5 (K (JNum 0))), Loop (Bin Lt (V 5) (K (JNum 10))) [Do (PutIdx (G ''Soe'') (V 5) (Bin BitAnd (Bin Plus (K (JNum 48)) (V 5)) (G ''Pue'')))] [Do (Bin Minus (SetV 5 (Bin Minus (V 5) (K (JNum (- 1))))) (K (JNum 1)))], Do (SetV 0 (K (JNum 10))), Loop (Bin Le (V 0) (K (JNum 15))) [Do (PutIdx (G ''Soe'') (V 0) (Bin BitAnd (Bin Minus (Bin Plus (K (JNum 65)) (V 0)) (K (JNum 10))) (G ''Pue'')))] [Do (Bin Minus (SetV 0 (Bin Minus (V 0) (K (JNum (- 1))))) (K (JNum 1)))]],
    fn ''hVc'' 2 0 [Do (Meth (V 1) ''Tg'' [K (JStr ''Process graph bounds''), K (JNum 1)]), Do (Call ''rNb'' [V 0, Seq (Call ''_Wc'' []) (G ''IWc''), Call ''_ub'' [Call ''kBb'' [Call ''$Bb'' [New ''jCb'' [K JNull, New ''Zvb'' [Dot (V 0) ''b'', K (JNum 16)]], New ''mVc'' []]]]]), Do (Call ''rNb'' [V 0, G ''KWc'', Call ''_ub'' [Call ''kBb'' [Call ''$Bb'' [New ''jCb'' [K JNull, New ''Zvb'' [Dot (V 0) ''b'', K (JNum 16)]], New ''oVc'' []]]]]), Do (Call ''rNb'' [V 0, G ''HWc'', Call ''_ub'' [Call ''jBb'' [Call ''$Bb'' [New ''jCb'' [K JNull, New ''Zvb'' [Dot (V 0) ''b'', K (JNum 16)]], New ''qVc'' []]]]]), Do (Call ''rNb'' [V 0, G ''JWc'', Call ''_ub'' [Call ''jBb'' [Call ''$Bb'' [New ''jCb'' [K JNull, New ''Zvb'' [Dot (V 0) ''b'', K (JNum 16)]], New ''sVc'' []]]]]), Do (Meth (V 1) ''Ug'' [])],
    fn ''rQb'' 1 5 [Do (SetV 4 (Call ''JD'' [Call ''oNb'' [V 0, Seq (Call ''nyc'' []) (G ''axc'')], K (JNum 22)])), Do (SetV 5 (Call ''JD'' [Call ''oNb'' [V 0, G ''dxc''], K (JNum 22)])), Do (SetV 2 (New ''lgd'' [Bin Plus (Bin Plus (Dot (Dot (V 0) ''f'') ''a'') (Dot (Dot (V 0) ''d'') ''b'')) (Dot (Dot (V 0) ''d'') ''c''), Bin Plus (Bin Plus (Dot (Dot (V 0) ''f'') ''b'') (Dot (Dot (V 0) ''d'') ''d'')) (Dot (Dot (V 0) ''d'') ''a'')])), Do (SetV 1 (New ''mgd'' [V 2])), When (Meth (V 4) ''Gc'' [Seq (Call ''ind'' []) (G ''end'')]) [Do (SetV 3 (Call ''JD'' [Call ''oNb'' [V 0, G ''cxc''], K (JNum 8)])), When (Meth (V 5) ''Gc'' [Seq (Call ''xnd'' []) (G ''qnd'')]) [Do (And (Bin Le (Dot (V 3) ''a'') (K (JNum 0))) (Put (V 3) ''a'' (K (JNum 20)))), Do (And (Bin Le (Dot (V 3) ''b'') (K (JNum 0))) (Put (V 3) ''b'' (K (JNum 20))))] [], Do (Put (V 1) ''a'' (Meth (Dot (G ''$wnd'') ''Math'') ''max'' [Dot (V 2) ''a'', Dot (V 3) ''a''])), Do (Put (V 1) ''b'' (Meth (Dot (G ''$wnd'') ''Math'') ''max'' [Dot (V 2) ''b'', Dot (V 3) ''b'']))] [], Do (Or (Call ''Rdb'' [Call ''LD'' [Call ''oNb'' [V 0, G ''bxc'']]]) (Call ''sQb'' [V 0, V 2, V 1]))],
    fn ''uec'' 1 7 [Do (SetV 1 (K (JBool False))), Do (SetV 2 (K (JNum 0))), Do (SetV 4 (New ''Kmb'' [Dot (Dot (V 0) ''d'') ''b''])), Loop (Bin Lt (Dot (V 4) ''a'') (Dot (Dot (Dot (V 4) ''c'') ''c'') ''length'')) [Do (SetV 3 (Call ''JD'' [Call ''Imb'' [V 4], K (JNum 25)])), Do (Put (V 3) ''p'' (Bin Minus (SetV 2 (Bin Minus (V 2) (K (JNum (- 1))))) (K (JNum 1)))), Do (SetV 6 (New ''Kmb'' [Dot (V 3) ''a''])), Loop (Bin Lt (Dot (V 6) ''a'') (Dot (Dot (Dot (V 6) ''c'') ''c'') ''length'')) [Do (SetV 5 (Call ''JD'' [Call ''Imb'' [V 6], K (JNum 9)])), Do (And (And (Neg (V 1)) (Neg (Call ''ar'' [Call ''BYb'' [V 5]]))) (SetV 1 (K (JBool True))))] []] [], Do (SetV 7 (Call ''Grb'' [Seq (Call ''Djd'' []) (G ''Bjd''), Call ''WC'' [Call ''OC'' [G ''y2'', K (JNum 1)], G ''xue'', K (JNum 86), K (JNum 0), NewArr [G ''zjd'', G ''Ajd'']]])), When (Neg (V 1)) [Do (Call ''Hrb'' [V 7, G ''Cjd'']), Do (Call ''Hrb'' [V 7, G ''yjd''])] [], Do (Put (V 0) ''a'' (New ''wEb'' [V 7])), Do (Call ''kjb'' [Dot (V 0) ''f'']), Do (Call ''kjb'' [Dot (V 0) ''b'']), Do (Call ''kjb'' [Dot (V 0) ''e'']), Do (Call ''kjb'' [Dot (V 0) ''g''])]]"

definition code_5637_5638 :: "(string \<times> jfun) list" where
  "code_5637_5638 = [
    fn ''Qpe'' 1 1 [When (Neg (Loose (Dot (V 0) ''c'') (K (JNum 10)))) [Raise (Call ''Lcb'' [New ''Yoe'' [Call ''iHd'' [Seq (Call ''Ube'' []) (G ''eHe'')]]])] [], Do (SetV 1 (Dot (V 0) ''a'')), Switch (V 1) [(Some (JNum 110), [Do (SetV 1 (K (JNum 10))), Break]), (Some (JNum 114), [Do (SetV 1 (K (JNum 13))), Break]), (Some (JNum 116), [Do (SetV 1 (K (JNum 9))), Break]), (Some (JNum 92), []), (Some (JNum 124), []), (Some (JNum 46), []), (Some (JNum 94), []), (Some (JNum 45), []), (Some (JNum 63), []), (Some (JNum 42), []), (Some (JNum 43), []), (Some (JNum 123), []), (Some (JNum 125), []), (Some (JNum 40), []), (Some (JNum 41), []), (Some (JNum 91), []), (Some (JNum 93), [Break]), (None, [Raise (Call ''Lcb'' [New ''Yoe'' [Call ''iHd'' [Seq (Call ''Ube'' []) (G ''IHe'')]]])])], Ret (V 1)],
    fn ''yD'' 1 5 [When (And (And (Loose (Dot (V 0) ''l'') (K (JNum 0))) (Loose (Dot (V 0) ''m'') (K (JNum 0)))) (Loose (Dot (V 0) ''h'') (K (JNum 0)))) [Ret (K (JStr ''0''))] [], When (And (And (Loose (Dot (V 0) ''h'') (G ''tve'')) (Loose (Dot (V 0) ''m'') (K (JNum 0)))) (Loose (Dot (V 0) ''l'') (K (JNum 0)))) [Ret (K (JStr ''-9223372036854775808''))] [], When (Neg (Loose (Bin Shr (Dot (V 0) ''h'') (K (JNum 19))) (K (JNum 0)))) [Ret (Bin Plus (K (JStr ''-'')) (Call ''yD'' [Call ''pD'' [V 0]]))] [], Do (SetV 2 (V 0)), Do (SetV 3 (K (JStr ''''))), Loop (Neg (And (And (Loose (Dot (V 2) ''l'') (K (JNum 0))) (Loose (Dot (V 2) ''m'') (K (JNum 0)))) (Loose (Dot (V 2) ''h'') (K (JNum 0))))) [Do (SetV 4 (Call ''ZC'' [G ''wve''])), Do (SetV 2 (Call ''aD'' [V 2, V 4, K (JBool True)])), Do (SetV 1 (Bin Plus (K (JStr '''')) (Call ''xD'' [G ''YC'']))), When (Neg (And (And (Loose (Dot (V 2) ''l'') (K (JNum 0))) (Loose (Dot (V 2) ''m'') (K (JNum 0)))) (Loose (Dot (V 2) ''h'') (K (JNum 0))))) [Do (SetV 5 (Bin Minus (K (JNum 9)) (Dot (V 1) ''length''))), Loop (Bin Gt (V 5) (K (JNum 0))) [Do (SetV 1 (Bin Plus (K (JStr ''0'')) (V 1)))] [Do (Bin Minus (SetV 5 (Bin Minus (V 5) (K (JNum 1)))) (K (JNum (- 1))))]] [], Do (SetV 3 (Bin Plus (V 1) (V 3)))] [], Ret (V 3)]]"

definition code_5640_5642 :: "(string \<times> jfun) list" where
  "code_5640_5642 = [
    fn ''IUb'' 3 9 [Do (SetV 3 (Dot (V 2) ''c'')), Do (SetV 4 (Dot (V 2) ''d'')), Do (SetV 7 (Call ''rZb'' [Dot (V 1) ''c''])), Do (SetV 8 (Call ''rZb'' [Dot (V 1) ''d''])), When (Loose (V 3) (Dot (V 1) ''c'')) [Do (SetV 7 (Call ''JUb'' [V 0, V 7, V 4])), Do (SetV 8 (Call ''KUb'' [Dot (V 1) ''d'']))] [Do (SetV 7 (Call ''KUb'' [Dot (V 1) ''c''])), Do (SetV 8 (Call ''JUb'' [V 0, V 8, V 4]))], Do (SetV 9 (New ''zgd'' [Dot (V 1) ''a''])), Do (Call ''Wtb'' [V 9, V 7, Dot (V 9) ''a'', Dot (Dot (V 9) ''a'') ''a'']), Do (Call ''Wtb'' [V 9, V 8, Dot (Dot (V 9) ''c'') ''b'', Dot (V 9) ''c'']), Do (SetV 6 (Loose (Dot (V 1) ''c'') (V 3))), Do (SetV 11 (New ''iVb'' [])), Do (SetV 5 (K (JNum 0))), Loop (Bin Lt (V 5) (Bin Minus (Dot (V 9) ''b'') (K (JNum 1)))) [Do (SetV 10 (New ''prd'' [Call ''JD'' [Call ''au'' [V 9, V 5], K (JNum 8)], Call ''JD'' [Call ''au'' [V 9, Bin Plus (V 5) (K (JNum 1))], K (JNum 8)]])), Do (Cond (Or (And (V 6) (Loose (V 5) (K (JNum 0)))) (And (Neg (V 6)) (Loose (V 5) (Bin Minus (Dot (V 9) ''b'') (K (JNum 2)))))) (Put (V 11) ''b'' (V 10)) (Call ''_lb'' [Dot (V 11) ''a'', V 10]))] [Do (SetV 5 (Bin Minus (V 5) (K (JNum (- 1)))))], Ret (V 11)],
    fn ''BXb'' 2 4 [Do (SetV 5 (Bin Minus (Dot (Dot (V 0) ''j'') ''g'') (Dot (Dot (V 1) ''j'') ''g''))), When (Neg (Loose (V 5) (K (JNum 0)))) [Ret (V 5)] [], Do (SetV 2 (Call ''JD'' [Call ''oNb'' [V 0, Seq (Call ''nyc'' []) (G ''rxc'')], K (JNum 15)])), Do (SetV 3 (Call ''JD'' [Call ''oNb'' [V 1, G ''rxc''], K (JNum 15)])), When (And (Neg (Neg (V 2))) (Neg (Neg (V 3)))) [Do (SetV 4 (Bin Minus (Dot (V 2) ''a'') (Dot (V 3) ''a''))), When (Neg (Loose (V 4) (K (JNum 0)))) [Ret (V 4)] []] [], Switch (Dot (Dot (V 0) ''j'') ''g'') [(Some (JNum 1), [Ret (Call ''$eb'' [Dot (Dot (V 0) ''n'') ''a'', Dot (Dot (V 1) ''n'') ''a''])]), (Some (JNum 2), [Ret (Call ''$eb'' [Dot (Dot (V 0) ''n'') ''b'', Dot (Dot (V 1) ''n'') ''b''])]), (Some (JNum 3), [Ret (Call ''$eb'' [Dot (Dot (V 1) ''n'') ''a'', Dot (Dot (V 0) ''n'') ''a''])]), (Some (JNum 4), [Ret (Call ''$eb'' [Dot (Dot (V 1) ''n'') ''b'', Dot (Dot (V 0) ''n'') ''b''])]), (None, [Raise (Call ''Lcb'' [New ''nfb'' [G ''zye'']])])]],
    fn ''J3b'' 4 5 [When (Bin Ge (Call ''Br'' [Seq (Call ''G3b'' []) (New ''Yr'' [Call ''Dr'' [Meth (Dot (Call ''BYb'' [V 1]) ''a'') ''Jc'' [], New ''Dl'' []]])]) (Dot (V 0) ''a'')) [Ret (K (JNum (- 1)))] [], When (Neg (Call ''I3b'' [V 1, V 2])) [Ret (K (JNum (- 1)))] [], When (Call ''ar'' [Call ''JD'' [Meth (V 3) ''Kb'' [V 1], K (JNum 20)]]) [Ret (K (JNum 1))] [], Do (SetV 4 (K (JNum 0))), Do (SetV 6 (Meth (Call ''JD'' [Meth (V 3) ''Kb'' [V 1], K (JNum 20)]) ''Jc'' [])), Loop (Meth (V 6) ''Ob'' []) [Do (SetV 5 (Call ''JD'' [Meth (V 6) ''Pb'' [], K (JNum 17)])), Do (SetV 8 (Cond (Loose (Dot (Dot (V 5) ''c'') ''i'') (V 1)) (Dot (Dot (V 5) ''d'') ''i'') (Dot (Dot (V 5) ''c'') ''i''))), Do (SetV 7 (Call ''J3b'' [V 0, V 8, V 2, V 3])), When (Loose (V 7) (K (JNum (- 1)))) [Ret (K (JNum (- 1)))] [], Do (SetV 4 (Meth (Dot (G ''$wnd'') ''Math'') ''max'' [V 4, V 7])), When (Bin Gt (V 4) (Bin Minus (Dot (V 0) ''c'') (K (JNum 1)))) [Ret (K (JNum (- 1)))] []] [], Ret (Bin Plus (V 4) (K (JNum 1)))]]"

definition code_5644_5665 :: "(string \<times> jfun) list" where
  "code_5644_5665 = [
    fn ''qFd'' 2 6 [When (Same (Call ''XD'' [V 1]) (Call ''XD'' [V 0])) [Ret (K (JBool True))] [], When (Neg (Call ''RD'' [V 1, K (JNum 16)])) [Ret (K (JBool False))] [], Do (SetV 3 (Call ''JD'' [V 1, K (JNum 16)])), Do (SetV 7 (Meth (V 0) ''gc'' [])), When (Neg (Loose (Meth (V 3) ''gc'' []) (V 7))) [Ret (K (JBool False))] [], Do (SetV 6 (Meth (V 3) ''Jc'' [])), When (Meth (V 0) ''Wi'' []) [Do (SetV 2 (K (JNum 0))), Loop (Bin Lt (V 2) (V 7)) [Do (SetV 4 (Meth (V 0) ''Ti'' [V 2])), Do (SetV 5 (Meth (V 6) ''Pb'' [])), When (Cond (Loose (V 4) (K JNull)) (Neg (Loose (V 5) (K JNull))) (Neg (Call ''pb'' [V 4, V 5]))) [Ret (K (JBool False))] []] [Do (SetV 2 (Bin Minus (V 2) (K (JNum (- 1)))))]] [Do (SetV 2 (K (JNum 0))), Loop (Bin Lt (V 2) (V 7)) [Do (SetV 4 (Meth (V 0) ''Ti'' [V 2])), Do (SetV 5 (Meth (V 6) ''Pb'' [])), When (Neg (Same (Call ''XD'' [V 4]) (Call ''XD'' [V 5]))) [Ret (K (JBool False))] []] [Do (SetV 2 (Bin Minus (V 2) (K (JNum (- 1)))))]], Ret (K (JBool True))],
    fn ''gMd'' 2 6 [When (Bin Gt (Dot (V 0) ''f'') (K (JNum 0))) [Do (Meth (V 0) ''Zj'' []), When (Neg (Loose (V 1) (K JNull))) [Do (SetV 5 (K (JNum 0))), Loop (Bin Lt (V 5) (Dot (Dot (V 0) ''d'') ''length'')) [Do (SetV 2 (Idx (Dot (V 0) ''d'') (V 5))), When (V 2) [Do (SetV 3 (Call ''JD'' [Dot (V 2) ''g'', K (JNum 374)])), Do (SetV 7 (Dot (V 2) ''i'')), Do (SetV 6 (K (JNum 0))), Loop (Bin Lt (V 6) (V 7)) [Do (SetV 4 (Idx (V 3) (V 6))), When (Call ''pb'' [V 1, Meth (V 4) ''kd'' []]) [Ret (K (JBool True))] []] [Do (SetV 6 (Bin Minus (V 6) (K (JNum (- 1)))))]] []] [Do (SetV 5 (Bin Minus (V 5) (K (JNum (- 1)))))]] [Do (SetV 5 (K (JNum 0))), Loop (Bin Lt (V 5) (Dot (Dot (V 0) ''d'') ''length'')) [Do (SetV 2 (Idx (Dot (V 0) ''d'') (V 5))), When (V 2) [Do (SetV 3 (Call ''JD'' [Dot (V 2) ''g'', K (JNum 374)])), Do (SetV 7 (Dot (V 2) ''i'')), Do (SetV 6 (K (JNum 0))), Loop (Bin Lt (V 6) (V 7)) [Do (SetV 4 (Idx (V 3) (V 6))), When (Same (Call ''XD'' [V 1]) (Call ''XD'' [Meth (V 4) ''kd'' []])) [Ret (K (JBool True))] []] [Do (SetV 6 (Bin Minus (V 6) (K (JNum (- 1)))))]] []] [Do (SetV 5 (Bin Minus (V 5) (K (JNum (- 1)))))]]] [], Ret (K (JBool False))],
    fn ''Fce'' 2 3 [Do (SetV 2 (Meth (V 1) ''ni'' [Dot (V 0) ''a''])), When (V 2) [Do (SetV 4 (Call ''OD'' [Call ''pMd'' [Seq (And (Neg (Dot (V 2) ''b'')) (Put (V 2) ''b'' (New ''dUd'' [Seq (Call ''WRd'' []) (G ''SRd''), G ''N7'', V 2]))) (Dot (V 2) ''b''), K (JStr ''affiliation'')]])), When (Neg (Loose (V 4) (K JNull))) [Do (SetV 3 (Call ''Dgb'' [V 4, Call ''Pgb'' [K (JNum 35)]])), Ret (Cond (Loose (V 3) (K (JNum (- 1)))) (Call ''Yce'' [V 0, Call ''fde'' [V 0, Call ''OVd'' [Meth (V 1) ''ok'' []]], V 4]) (Cond (Loose (V 3) (K (JNum 0))) (Call ''Yce'' [V 0, K JNull, Seq (Call ''UDb'' [K (JNum 1), Bin Plus (Dot (V 4) ''length'') (K (JNum 1))]) (Meth (V 4) ''substr'' [K (JNum 1)])]) (Call ''Yce'' [V 0, Seq (Call ''TDb'' [K (JNum 0), V 3, Dot (V 4) ''length'']) (Meth (V 4) ''substr'' [K (JNum 0), V 3]), Seq (Call ''UDb'' [Bin Plus (V 3) (K (JNum 1)), Bin Plus (Dot (V 4) ''length'') (K (JNum 1))]) (Meth (V 4) ''substr'' [Bin Plus (V 3) (K (JNum 1))])])))] []] [], Ret (K JNull)],
    fn ''qjc'' 0 0 [Do (SetG ''qjc'' (G ''qdb'')), Do (SetG ''jjc'' (New ''rjc'' [K (JStr ''NORTH''), K (JNum 0), Seq (Call ''Bmd'' []) (G ''hmd''), G ''hmd''])), Do (SetG ''mjc'' (New ''rjc'' [K (JStr ''SOUTH''), K (JNum 1), G ''ymd'', G ''ymd''])), Do (SetG ''ijc'' (New ''rjc'' [K (JStr ''EAST''), K (JNum 2), G ''gmd'', G ''gmd''])), Do (SetG ''pjc'' (New ''rjc'' [K (JStr ''WEST''), K (JNum 3), G ''Amd'', G ''Amd''])), Do (SetG ''ljc'' (New ''rjc'' [K (JStr ''NORTH_WEST_CORNER''), K (JNum 4), G ''Amd'', G ''hmd''])), Do (SetG ''kjc'' (New ''rjc'' [K (JStr ''NORTH_EAST_CORNER''), K (JNum 5), G ''hmd'', G ''gmd''])), Do (SetG ''ojc'' (New ''rjc'' [K (JStr ''SOUTH_WEST_CORNER''), K (JNum 6), G ''ymd'', G ''Amd''])), Do (SetG ''njc'' (New ''rjc'' [K (JStr ''SOUTH_EAST_CORNER''), K (JNum 7), G ''gmd'', G ''ymd'']))],
    fn ''h3b'' 3 4 [Do (Meth (V 2) ''Tg'' [K (JStr ''Orthogonally routing hierarchical port edges''), K (JNum 1)]), Do (Put (V 0) ''a'' (K (JNum 0))), Do (SetV 3 (Call ''k3b'' [V 1])), Do (Call ''n3b'' [V 1, V 3]), Do (Call ''m3b'' [V 0, V 1, V 3]), Do (Call ''i3b'' [V 1]), Do (SetV 4 (Call ''JD'' [Call ''oNb'' [V 1, Seq (Call ''nyc'' []) (G ''qxc'')], K (JNum 102)])), Do (SetV 5 (Dot (V 1) ''b'')), Do (Call ''g3b'' [Seq (Call ''MDb'' [K (JNum 0), Dot (Dot (V 5) ''c'') ''length'']) (Call ''JD'' [Idx (Dot (V 5) ''c'') (K (JNum 0)), K (JNum 25)]), V 4, V 1]), Do (Call ''g3b'' [Call ''JD'' [Call ''dmb'' [V 5, Bin Minus (Dot (Dot (V 5) ''c'') ''length'') (K (JNum 1))], K (JNum 25)], V 4, V 1]), Do (SetV 6 (Dot (V 1) ''b'')), Do (Call ''e3b'' [Seq (Call ''MDb'' [K (JNum 0), Dot (Dot (V 6) ''c'') ''length'']) (Call ''JD'' [Idx (Dot (V 6) ''c'') (K (JNum 0)), K (JNum 25)])]), Do (Call ''e3b'' [Call ''JD'' [Call ''dmb'' [V 6, Bin Minus (Dot (Dot (V 6) ''c'') ''length'') (K (JNum 1))], K (JNum 25)]]), Do (Meth (V 2) ''Ug'' [])],
    fn ''dyd'' 1 0 [Switch (V 0) [(Some (JNum 48), []), (Some (JNum 49), []), (Some (JNum 50), []), (Some (JNum 51), []), (Some (JNum 52), []), (Some (JNum 53), []), (Some (JNum 54), []), (Some (JNum 55), []), (Some (JNum 56), []), (Some (JNum 57), [Ret (Bin Shr (Bin Shl (Bin Minus (V 0) (K (JNum 48))) (K (JNum 24))) (K (JNum 24)))]), (Some (JNum 97), []), (Some (JNum 98), []), (Some (JNum 99), []), (Some (JNum 100), []), (Some (JNum 101), []), (Some (JNum 102), [Ret (Bin Shr (Bin Shl (Bin Plus (Bin Minus (V 0) (K (JNum 97))) (K (JNum 10))) (K (JNum 24))) (K (JNum 24)))]), (Some (JNum 65), []), (Some (JNum 66), []), (Some (JNum 67), []), (Some (JNum 68), []), (Some (JNum 69), []), (Some (JNum 70), [Ret (Bin Shr (Bin Shl (Bin Plus (Bin Minus (V 0) (K (JNum 65))) (K (JNum 10))) (K (JNum 24))) (K (JNum 24)))]), (None, [Raise (Call ''Lcb'' [New ''dgb'' [K (JStr ''Invalid hexadecimal'')]])])]],
    fn ''wmc'' 4 6 [Do (SetV 8 (Call ''Bmc'' [V 0, V 2])), Do (SetV 9 (Call ''Bmc'' [V 1, V 2])), Do (SetV 4 (K (JBool False))), Loop (And (Neg (Neg (V 8))) (Neg (Neg (V 9)))) [When (Or (V 3) (Call ''zmc'' [V 8, V 9, V 2])) [Do (SetV 6 (Call ''Bmc'' [V 8, V 2])), Do (SetV 7 (Call ''Bmc'' [V 9, V 2])), Do (Call ''Emc'' [V 1]), Do (Call ''Emc'' [V 0]), Do (SetV 5 (Dot (V 8) ''c'')), Do (Call ''v8b'' [V 8, K (JBool False)]), Do (Call ''v8b'' [V 9, K (JBool False)]), When (V 2) [Do (Call ''MYb'' [V 1, Dot (V 9) ''p'', V 5]), Do (Put (V 1) ''p'' (Dot (V 9) ''p'')), Do (Call ''MYb'' [V 0, Bin Plus (Dot (V 8) ''p'') (K (JNum 1)), V 5]), Do (Put (V 0) ''p'' (Dot (V 8) ''p''))] [Do (Call ''MYb'' [V 0, Dot (V 8) ''p'', V 5]), Do (Put (V 0) ''p'' (Dot (V 8) ''p'')), Do (Call ''MYb'' [V 1, Bin Plus (Dot (V 9) ''p'') (K (JNum 1)), V 5]), Do (Put (V 1) ''p'' (Dot (V 9) ''p''))], Do (Call ''NYb'' [V 8, K JNull]), Do (Call ''NYb'' [V 9, K JNull]), Do (SetV 8 (V 6)), Do (SetV 9 (V 7)), Do (SetV 4 (K (JBool True)))] [Break]] [], Ret (V 4)],
    fn ''Ryc'' 1 0 [Switch (Dot (V 0) ''g'') [(Some (JNum 0), [Ret (New ''pEc'' [])]), (Some (JNum 1), [Ret (New ''JDc'' [])]), (Some (JNum 3), [Ret (New ''$Cc'' [])]), (Some (JNum 4), [Ret (New ''ADc'' [])]), (Some (JNum 5), [Ret (New ''DEc'' [])]), (Some (JNum 6), [Ret (New ''aEc'' [])]), (Some (JNum 2), [Ret (New ''RDc'' [])]), (Some (JNum 7), [Ret (New ''JCc'' [])]), (Some (JNum 8), [Ret (New ''qDc'' [])]), (None, [Raise (Call ''Lcb'' [New ''kfb'' [Bin Plus (K (JStr ''No implementation is available for the layerer '')) (Cond (Neg (Loose (Dot (V 0) ''f'') (K JNull))) (Dot (V 0) ''f'') (Bin Plus (K (JStr '''')) (Dot (V 0) ''g'')))]])])]],
    fn ''NEc'' 4 5 [Do (SetV 4 (K (JBool False))), Do (SetV 5 (K (JBool False))), Do (SetV 7 (New ''Kmb'' [Dot (V 3) ''j''])), Loop (Bin Lt (Dot (V 7) ''a'') (Dot (Dot (Dot (V 7) ''c'') ''c'') ''length'')) [Do (SetV 6 (Call ''JD'' [Call ''Imb'' [V 7], K (JNum 12)])), Do (And (Same (Call ''XD'' [Call ''oNb'' [V 6, Seq (Call ''Wrc'' []) (G ''urc'')]]) (Call ''XD'' [V 2])) (Cond (Loose (Dot (Dot (Dot (V 6) ''g'') ''c'') ''length'') (K (JNum 0))) (Or (Loose (Dot (Dot (Dot (V 6) ''e'') ''c'') ''length'') (K (JNum 0))) (SetV 4 (K (JBool True)))) (SetV 5 (K (JBool True)))))] [], Do (SetV 8 (K (JNum 0))), Do (Cond (And (V 4) (Bin BitXor (V 4) (V 5))) (SetV 8 (Cond (Loose (Dot (V 2) ''j'') (Seq (Call ''Bmd'' []) (G ''hmd''))) (Minus1 (Idx (Idx (Dot (V 0) ''e'') (Dot (Dot (V 3) ''c'') ''p'')) (Dot (V 3) ''p''))) (Bin Minus (V 1) (Idx (Idx (Dot (V 0) ''e'') (Dot (Dot (V 3) ''c'') ''p'')) (Dot (V 3) ''p''))))) (Cond (And (V 5) (Bin BitXor (V 4) (V 5))) (SetV 8 (Bin Plus (Idx (Idx (Dot (V 0) ''e'') (Dot (Dot (V 3) ''c'') ''p'')) (Dot (V 3) ''p'')) (K (JNum 1)))) (And (And (V 4) (V 5)) (SetV 8 (Cond (Loose (Dot (V 2) ''j'') (Seq (Call ''Bmd'' []) (G ''hmd''))) (K (JNum 0)) (Bin Divide (V 1) (K (JNum 2)))))))), Ret (V 8)],
    fn ''yQd'' 8 3 [Do (SetV 8 (K (JNum 0))), Do (And (Neg (Loose (V 1) (K JNull))) (SetV 8 (Bin BitXor (V 8) (Call ''ygb'' [Meth (V 1) ''toLowerCase'' []])))), Do (And (Neg (Loose (V 2) (K JNull))) (SetV 8 (Bin BitXor (V 8) (Call ''ygb'' [V 2])))), Do (And (Neg (Loose (V 3) (K JNull))) (SetV 8 (Bin BitXor (V 8) (Call ''ygb'' [V 3])))), Do (And (Neg (Loose (V 6) (K JNull))) (SetV 8 (Bin BitXor (V 8) (Call ''ygb'' [V 6])))), Do (And (Neg (Loose (V 7) (K JNull))) (SetV 8 (Bin BitXor (V 8) (Call ''ygb'' [V 7])))), Do (Seq (SetV 9 (K (JNum 0))) (SetV 10 (Dot (V 5) ''length''))), Loop (Bin Lt (V 9) (V 10)) [Do (SetV 8 (Bin BitXor (V 8) (Call ''ygb'' [Idx (V 5) (V 9)])))] [Do (Bin Minus (SetV 9 (Bin Minus (V 9) (K (JNum (- 1))))) (K (JNum 1)))], Do (Cond (V 0) (SetV 8 (Bin BitOr (V 8) (K (JNum 256)))) (SetV 8 (Bin BitAnd (V 8) (K (JNum (- 257)))))), Do (Cond (V 4) (SetV 8 (Bin BitOr (V 8) (K (JNum 16)))) (SetV 8 (Bin BitAnd (V 8) (K (JNum (- 17)))))), Do (Put This ''f'' (V 8)), Do (Put This ''i'' (Cond (Loose (V 1) (K JNull)) (K JNull) (Seq (Call ''NDb'' [V 1]) (V 1)))), Do (Put This ''a'' (V 2)), Do (Put This ''d'' (V 3)), Do (Put This ''j'' (V 5)), Do (Put This ''g'' (V 6)), Do (Put This ''e'' (V 7))],
    fn ''KYb'' 3 2 [Do (SetV 4 (K JNull)), Switch (Dot (V 1) ''g'') [(Some (JNum 1), [Do (SetV 4 (Seq (Call ''qZb'' []) (G ''lZb''))), Break]), (Some (JNum 2), [Do (SetV 4 (Seq (Call ''qZb'' []) (G ''nZb'')))])], Do (SetV 3 (K JNull)), Switch (Dot (V 2) ''g'') [(Some (JNum 1), [Do (SetV 3 (Seq (Call ''qZb'' []) (G ''mZb''))), Break]), (Some (JNum 2), [Do (SetV 3 (Seq (Call ''qZb'' []) (G ''kZb''))), Break]), (Some (JNum 3), [Do (SetV 3 (Seq (Call ''qZb'' []) (G ''oZb''))), Break]), (Some (JNum 4), [Do (SetV 3 (Seq (Call ''qZb'' []) (G ''pZb'')))])], Ret (Cond (And (Neg (Neg (V 4))) (Neg (Neg (V 3)))) (Call ''Zq'' [Dot (V 0) ''j'', New ''Yb'' [New ''wnb'' [Call ''WC'' [Call ''OC'' [G ''hE'', K (JNum 1)], G ''Gte'', K (JNum 178), K (JNum 0), NewArr [Call ''JD'' [Call ''Qb'' [V 4], K (JNum 178)], Call ''JD'' [Call ''Qb'' [V 3], K (JNum 178)]]]]]]) (Seq (Seq (Call ''Inb'' []) (Call ''Inb'' [])) (G ''Fnb'')))],
    fn ''w2b'' 1 3 [Do (SetV 1 (Call ''JD'' [Call ''oNb'' [V 0, Seq (Call ''nyc'' []) (G ''cxc'')], K (JNum 8)])), Do (Call ''rNb'' [V 0, G ''cxc'', New ''lgd'' [Dot (V 1) ''b'', Dot (V 1) ''a'']]), Switch (Dot (Call ''JD'' [Call ''oNb'' [V 0, G ''tvc''], K (JNum 256)]) ''g'') [(Some (JNum 1), [Do (Call ''rNb'' [V 0, G ''tvc'', Seq (Call ''Lgd'' []) (G ''Kgd'')]), Break]), (Some (JNum 2), [Do (Call ''rNb'' [V 0, G ''tvc'', Seq (Call ''Lgd'' []) (G ''Ggd'')]), Break]), (Some (JNum 3), [Do (Call ''rNb'' [V 0, G ''tvc'', Seq (Call ''Lgd'' []) (G ''Igd'')]), Break]), (Some (JNum 4), [Do (Call ''rNb'' [V 0, G ''tvc'', Seq (Call ''Lgd'' []) (G ''Jgd'')])])], When (Meth (Cond (Neg (Dot (V 0) ''q'')) (Seq (Seq (Call ''Inb'' []) (Call ''Inb'' [])) (G ''Gnb'')) (Dot (V 0) ''q'')) ''_b'' [G ''xxc'']) [Do (SetV 2 (Call ''JD'' [Call ''oNb'' [V 0, G ''xxc''], K (JNum 8)])), Do (SetV 3 (Dot (V 2) ''a'')), Do (Put (V 2) ''a'' (Dot (V 2) ''b'')), Do (Put (V 2) ''b'' (V 3))] []],
    fn ''$gc'' 6 0 [Do (Put This ''b'' (V 2)), Do (Put This ''d'' (V 4)), When (Bin Ge (V 0) (Dot (V 1) ''length'')) [Raise (Call ''Lcb'' [New ''Fdb'' [K (JStr ''Greedy SwitchDecider: Free layer not in graph.'')]])] [], Do (Put This ''c'' (Idx (V 1) (V 0))), Do (Put This ''e'' (New ''mJc'' [V 3])), Do (Call ''aJc'' [Dot This ''e'', Dot This ''c'', Seq (Call ''Bmd'' []) (G ''Amd'')]), Do (Put This ''i'' (New ''mJc'' [V 3])), Do (Call ''aJc'' [Dot This ''i'', Dot This ''c'', G ''gmd'']), Do (Put This ''f'' (New ''Vgc'' [Dot This ''c''])), Do (Put This ''a'' (And (And (And (Neg (V 5)) (Dot (V 4) ''i'')) (Neg (Dot (V 4) ''s''))) (Loose (Dot (Idx (Dot This ''c'') (K (JNum 0))) ''k'') (Seq (Call ''$Yb'' []) (G ''TYb''))))), Do (And (Dot This ''a'') (Call ''Ygc'' [This, V 0, Dot (V 1) ''length'']))],
    fn ''DKb'' 2 6 [Do (SetV 5 (Neg (Meth (Dot (V 0) ''B'') ''Gc'' [Seq (Call ''xnd'' []) (G ''ond'')]))), Do (SetV 6 (Meth (Dot (V 0) ''B'') ''Gc'' [G ''rnd''])), Do (Put (V 0) ''a'' (New ''_Hb'' [V 6, V 5, Dot (V 0) ''c''])), Do (And (Neg (Neg (Dot (V 0) ''n''))) (Call ''hYb'' [Dot (Dot (V 0) ''a'') ''n'', Dot (V 0) ''n''])), Do (Call ''HIb'' [Dot (V 0) ''g'', Seq (Call ''CHb'' []) (G ''AHb''), Dot (V 0) ''a'']), When (Neg (V 1)) [Do (SetV 3 (New ''IIb'' [K (JNum 1), V 5, Dot (V 0) ''c''])), Do (Put (Dot (V 3) ''n'') ''a'' (Dot (V 0) ''k'')), Do (Call ''crb'' [Dot (V 0) ''p'', Seq (Call ''Bmd'' []) (G ''hmd''), V 3]), Do (SetV 4 (New ''IIb'' [K (JNum 1), V 5, Dot (V 0) ''c''])), Do (Put (Dot (V 4) ''n'') ''d'' (Dot (V 0) ''k'')), Do (Call ''crb'' [Dot (V 0) ''p'', G ''ymd'', V 4]), Do (SetV 7 (New ''IIb'' [K (JNum 0), V 5, Dot (V 0) ''c''])), Do (Put (Dot (V 7) ''n'') ''c'' (Dot (V 0) ''k'')), Do (Call ''crb'' [Dot (V 0) ''p'', G ''Amd'', V 7]), Do (SetV 2 (New ''IIb'' [K (JNum 0), V 5, Dot (V 0) ''c''])), Do (Put (Dot (V 2) ''n'') ''b'' (Dot (V 0) ''k'')), Do (Call ''crb'' [Dot (V 0) ''p'', G ''gmd'', V 2])] []],
    fn ''Bec'' 1 3 [Do (SetV 1 (Call ''JD'' [Call ''oNb'' [Dot (V 0) ''d'', Seq (Call ''nyc'' []) (G ''iwc'')], K (JNum 222)])), Switch (Dot (V 1) ''g'') [(Some (JNum 2), [Do (SetV 2 (Call ''sec'' [V 0])), Break]), (Some (JNum 3), [Do (SetV 2 (Seq (Seq (SetV 3 (New ''lmb'' [])) (Call ''YBb'' [Call ''VBb'' [Call ''ZBb'' [Call ''XBb'' [Call ''XBb'' [New ''jCb'' [K JNull, New ''Zvb'' [Dot (Dot (V 0) ''d'') ''b'', K (JNum 16)]], New ''Hfc'' []], New ''Jfc'' []], New ''Lfc'' []], New ''Nec'' []], New ''Nfc'' [V 3]])) (V 3))), Break]), (None, [Raise (Call ''Lcb'' [New ''nfb'' [Bin Plus (Bin Plus (K (JStr ''Compaction not supported for '')) (V 1)) (K (JStr '' edges.''))]])])], Do (Call ''Aec'' [V 0, V 2]), Do (Call ''Hfb'' [New ''fkb'' [Dot (V 0) ''g''], New ''lfc'' [V 0]])],
    fn ''_Uc'' 2 7 [Do (Meth (V 1) ''Tg'' [K (JStr ''Process directions''), K (JNum 1)]), Do (SetV 2 (Call ''JD'' [Call ''oNb'' [V 0, Seq (Call ''SXc'' []) (G ''qXc'')], K (JNum 86)])), When (Neg (Loose (V 2) (Seq (Call ''Djd'' []) (G ''yjd'')))) [Do (SetV 4 (Call ''Ztb'' [Dot (V 0) ''b'', K (JNum 0)])), Loop (Neg (Loose (Dot (V 4) ''b'') (Dot (Dot (V 4) ''d'') ''c''))) [Do (SetV 3 (Call ''JD'' [Call ''lub'' [V 4], K (JNum 40)])), Do (SetV 7 (Dot (Call ''JD'' [Call ''oNb'' [V 3, Seq (Call ''_Wc'' []) (G ''ZWc'')], K (JNum 15)]) ''a'')), Do (SetV 8 (Dot (Call ''JD'' [Call ''oNb'' [V 3, G ''$Wc''], K (JNum 15)]) ''a'')), Switch (Dot (V 2) ''g'') [(Some (JNum 4), [Do (SetV 8 (Bin Times (V 8) (K (JNum (- 1))))), Break]), (Some (JNum 1), [Do (SetV 5 (V 7)), Do (SetV 7 (V 8)), Do (SetV 8 (V 5)), Break]), (Some (JNum 2), [Do (SetV 6 (V 7)), Do (SetV 7 (Minus1 (V 8))), Do (SetV 8 (V 6))])], Do (Call ''rNb'' [V 3, G ''ZWc'', Call ''Cfb'' [V 7]]), Do (Call ''rNb'' [V 3, G ''$Wc'', Call ''Cfb'' [V 8]])] []] [], Do (Meth (V 1) ''Ug'' [])],
    fn ''GUb'' 1 8 [Do (SetV 8 (New ''SUb'' [])), Do (SetV 7 (New ''Kmb'' [Dot (V 0) ''a''])), Loop (Bin Lt (Dot (V 7) ''a'') (Dot (Dot (Dot (V 7) ''c'') ''c'') ''length'')) [Do (SetV 6 (Call ''JD'' [Call ''Imb'' [V 7], K (JNum 9)])), When (Loose (Dot (V 6) ''k'') (Seq (Call ''$Yb'' []) (G ''TYb''))) [Continue] [], Do (Call ''EUb'' [V 8, V 6, New ''jgd'' []]), Do (SetV 5 (New ''Yr'' [Call ''Dr'' [Meth (Dot (Call ''HYb'' [V 6]) ''a'') ''Jc'' [], New ''Dl'' []]])), Loop (Call ''Wr'' [V 5]) [Do (SetV 4 (Call ''JD'' [Call ''Xr'' [V 5], K (JNum 17)])), When (Or (Loose (Dot (Dot (Dot (V 4) ''c'') ''i'') ''k'') (G ''TYb'')) (Loose (Dot (Dot (Dot (V 4) ''d'') ''i'') ''k'') (G ''TYb''))) [Continue] [], Do (SetV 3 (Call ''Ztb'' [Dot (V 4) ''a'', K (JNum 0)])), Loop (Neg (Loose (Dot (V 3) ''b'') (Dot (Dot (V 3) ''d'') ''c''))) [Do (SetV 2 (Call ''JD'' [Call ''lub'' [V 3], K (JNum 8)])), Do (SetV 1 (V 2)), Do (Call ''QUb'' [V 8, New ''KSb'' [Dot (V 1) ''a'', Dot (V 1) ''b'']])] []] []] [], Ret (V 8)],
    fn ''G9c'' 0 0 [Do (SetG ''G9c'' (G ''qdb'')), Do (SetG ''F9c'' (New ''CEd'' [G ''mEe''])), Do (SetG ''E9c'' (Seq (Call ''X9c'' []) (G ''W9c''))), Do (SetG ''D9c'' (New ''EEd'' [G ''rEe'', G ''E9c''])), Do (SetG ''C9c'' (Seq (Call ''gad'' []) (G ''fad''))), Do (SetG ''B9c'' (New ''EEd'' [G ''nEe'', G ''C9c''])), Do (SetG ''A9c'' (Seq (Call ''T8c'' []) (G ''P8c''))), Do (SetG ''z9c'' (New ''EEd'' [G ''oEe'', G ''A9c''])), Do (SetG ''v9c'' (New ''EEd'' [G ''pEe'', K JNull])), Do (SetG ''y9c'' (Seq (Call ''I8c'' []) (G ''G8c''))), Do (SetG ''x9c'' (New ''EEd'' [G ''qEe'', G ''y9c''])), Do (SetG ''r9c'' (Seq (Call ''o8c'' []) (G ''n8c''))), Do (SetG ''q9c'' (New ''EEd'' [G ''sEe'', G ''r9c''])), Do (SetG ''s9c'' (New ''EEd'' [G ''tEe'', Seq (Call ''Qdb'' []) (K (JBool False))])), Do (SetG ''t9c'' (New ''EEd'' [G ''uEe'', Call ''Cfb'' [K (JNum 64)]])), Do (SetG ''u9c'' (New ''EEd'' [G ''vEe'', K (JBool True)])), Do (SetG ''w9c'' (G ''H8c''))],
    fn ''yDc'' 2 10 [Do (Put (V 0) ''p'' (K (JNum 1))), Do (SetV 4 (Dot (V 0) ''c'')), Do (SetV 11 (New ''Ptb'' [])), Do (SetV 10 (Meth (Call ''JYb'' [V 0, Seq (Call ''qAc'' []) (G ''oAc'')]) ''Jc'' [])), Loop (Meth (V 10) ''Ob'' []) [Do (SetV 9 (Call ''JD'' [Meth (V 10) ''Pb'' [], K (JNum 12)])), Do (SetV 3 (New ''Kmb'' [Dot (V 9) ''g''])), Loop (Bin Lt (Dot (V 3) ''a'') (Dot (Dot (Dot (V 3) ''c'') ''c'') ''length'')) [Do (SetV 2 (Call ''JD'' [Call ''Imb'' [V 3], K (JNum 17)])), Do (SetV 8 (Dot (Dot (V 2) ''d'') ''i'')), When (Neg (Loose (V 0) (V 8))) [Do (SetV 5 (Dot (V 8) ''c'')), When (Bin Le (Dot (V 5) ''p'') (Dot (V 4) ''p'')) [Do (SetV 6 (Bin Plus (Dot (V 4) ''p'') (K (JNum 1)))), When (Loose (V 6) (Dot (Dot (Dot (V 1) ''b'') ''c'') ''length'')) [Do (SetV 7 (New ''y$b'' [V 1])), Do (Put (V 7) ''p'' (V 6)), Do (Call ''_lb'' [Dot (V 1) ''b'', V 7]), Do (Call ''NYb'' [V 8, V 7])] [Do (SetV 7 (Call ''JD'' [Call ''dmb'' [Dot (V 1) ''b'', V 6], K (JNum 25)])), Do (Call ''NYb'' [V 8, V 7])], Do (Meth (Dot (V 11) ''a'') ''yc'' [V 8, V 11])] []] []] []] [], Ret (V 11)],
    fn ''xoc'' 1 0 [Switch (Dot (V 0) ''g'') [(Some (JNum 0), [Ret (New ''_Bc'' [])]), (Some (JNum 1), [Ret (New ''UBc'' [])]), (Some (JNum 2), [Ret (New ''mCc'' [])]), (Some (JNum 3), [Ret (New ''sCc'' [])]), (Some (JNum 4), [Ret (New ''dCc'' [])]), (Some (JNum 5), [Ret (New ''ECc'' [])]), (Some (JNum 6), [Ret (New ''CCc'' [])]), (Some (JNum 7), [Ret (New ''LBc'' [])]), (Some (JNum 8), [Ret (New ''DBc'' [])]), (None, [Raise (Call ''Lcb'' [New ''kfb'' [Bin Plus (K (JStr ''No implementation is available for the cycle breaker '')) (Cond (Neg (Loose (Dot (V 0) ''f'') (K JNull))) (Dot (V 0) ''f'') (Bin Plus (K (JStr '''')) (Dot (V 0) ''g'')))]])])]],
    fn ''XTc'' 2 2 [Do (SetV 2 (Call ''JD'' [Call ''oNb'' [V 0, Seq (Call ''_Wc'' []) (G ''CWc'')], K (JNum 16)])), When (Or (Neg (V 2)) (Bin Lt (Meth (V 2) ''gc'' []) (K (JNum 1)))) [Ret (K JNull)] [When (Loose (Meth (V 2) ''gc'' []) (K (JNum 1))) [Ret (Call ''JD'' [Meth (V 2) ''Xb'' [K (JNum 0)], K (JNum 40)])] []], Do (SetV 3 (K JNull)), Switch (Dot (V 1) ''g'') [(Some (JNum 2), [Do (SetV 3 (Call ''JD'' [Call ''Sub'' [Call ''bCb'' [Meth (V 2) ''Mc'' [], New ''XUc'' []]], K (JNum 40)])), Break]), (Some (JNum 1), [Do (SetV 3 (Call ''JD'' [Call ''Sub'' [Call ''aCb'' [Meth (V 2) ''Mc'' [], New ''tUc'' []]], K (JNum 40)])), Break]), (Some (JNum 4), [Do (SetV 3 (Call ''JD'' [Call ''Sub'' [Call ''bCb'' [Meth (V 2) ''Mc'' [], New ''xUc'' []]], K (JNum 40)])), Break]), (Some (JNum 3), [Do (SetV 3 (Call ''JD'' [Call ''Sub'' [Call ''aCb'' [Meth (V 2) ''Mc'' [], New ''BUc'' []]], K (JNum 40)]))])], Ret (V 3)],
    fn ''Ymc'' 1 6 [When (Neg (Loose (Dot (V 0) ''a'') (K JNull))) [Ret (K JUndef)] [], Do (Put (V 0) ''a'' (Call ''SC'' [G ''Icb'', G ''Nwe'', K (JNum 30), Dot (Dot (Dot (Dot (V 0) ''c'') ''b'') ''c'') ''length'', K (JNum 16), K (JNum 1)])), Do (PutIdx (Dot (V 0) ''a'') (K (JNum 0)) (K (JBool False))), When (Call ''pNb'' [Dot (V 0) ''c'', Seq (Call ''nyc'' []) (G ''lyc'')]) [Do (SetV 3 (Call ''JD'' [Call ''oNb'' [Dot (V 0) ''c'', G ''lyc''], K (JNum 16)])), Do (SetV 2 (Meth (V 3) ''Jc'' [])), Loop (Meth (V 2) ''Ob'' []) [Do (SetV 1 (Dot (Call ''JD'' [Meth (V 2) ''Pb'' [], K (JNum 15)]) ''a'')), Do (And (And (Bin Gt (V 1) (K (JNum 0))) (Bin Lt (V 1) (Dot (Dot (V 0) ''a'') ''length''))) (PutIdx (Dot (V 0) ''a'') (V 1) (K (JBool False))))] []] [Do (SetV 6 (New ''Kmb'' [Dot (Dot (V 0) ''c'') ''b''])), Do (And (Bin Lt (Dot (V 6) ''a'') (Dot (Dot (Dot (V 6) ''c'') ''c'') ''length'')) (Call ''Imb'' [V 6])), Do (SetV 4 (K (JNum 1))), Loop (Bin Lt (Dot (V 6) ''a'') (Dot (Dot (Dot (V 6) ''c'') ''c'') ''length'')) [Do (SetV 5 (Call ''JD'' [Call ''Imb'' [V 6], K (JNum 25)])), Do (PutIdx (Dot (V 0) ''a'') (Bin Minus (SetV 4 (Bin Minus (V 4) (K (JNum (- 1))))) (K (JNum 1))) (Call ''_mc'' [V 5]))] []]]]"

definition object_table22 :: "(string \<times> jfun) list" where
  "object_table22 = code_5570_5585 @ code_5588_5596 @ code_5598_5608 @ code_5610_5622 @ code_5624_5629 @ code_5632_5635 @ code_5637_5638 @ code_5640_5642 @ code_5644_5665"

text \<open>The names each table declares.\<close>

lemma names_5570_5585 [js_names]: "map fst code_5570_5585 = [
    ''Dib'', ''M$b'', ''H7b'', ''Die'', ''hkc'', ''VGc'', ''i5c'', ''PId'', ''YId'', ''aee'',
    ''$Eb'', ''J2b'', ''wSb'', ''C8b'', ''DOc'', ''$ib'']"
  by (simp add: code_5570_5585_def fn_def)

lemma names_5588_5596 [js_names]: "map fst code_5588_5596 = [
    ''hVb'', ''qkc'', ''Ere'', ''clc'', ''kKc'', ''z_c'', ''$oe'', ''a0b'', ''f0c'']"
  by (simp add: code_5588_5596_def fn_def)

lemma names_5598_5608 [js_names]: "map fst code_5598_5608 = [
    ''Y3b'', ''J7b'', ''N8b'', ''TIc'', ''ubd'', ''MJd'', ''oLb'', ''S7b'', ''Xpc'', ''HA'',
    ''JA'']"
  by (simp add: code_5598_5608_def fn_def)

lemma names_5610_5622 [js_names]: "map fst code_5610_5622 = [
    ''G$b'', ''y_c'', ''qfd'', ''Vib'', ''tac'', ''fGc'', ''WVc'', ''Z_c'', ''W6b'', ''vLb'',
    ''bWc'', ''M_d'', ''eJb'']"
  by (simp add: code_5610_5622_def fn_def)

lemma names_5624_5629 [js_names]: "map fst code_5624_5629 = [
    ''bQc'', ''DYc'', ''pIb'', ''rIb'', ''G1b'', ''lDc'']"
  by (simp add: code_5624_5629_def fn_def)

lemma names_5632_5635 [js_names]: "map fst code_5632_5635 = [
    ''Toe'', ''hVc'', ''rQb'', ''uec'']"
  by (simp add: code_5632_5635_def fn_def)

lemma names_5637_5638 [js_names]: "map fst code_5637_5638 = [
    ''Qpe'', ''yD'']"
  by (simp add: code_5637_5638_def fn_def)

lemma names_5640_5642 [js_names]: "map fst code_5640_5642 = [
    ''IUb'', ''BXb'', ''J3b'']"
  by (simp add: code_5640_5642_def fn_def)

lemma names_5644_5665 [js_names]: "map fst code_5644_5665 = [
    ''qFd'', ''gMd'', ''Fce'', ''qjc'', ''h3b'', ''dyd'', ''wmc'', ''Ryc'', ''NEc'', ''yQd'',
    ''KYb'', ''w2b'', ''$gc'', ''DKb'', ''Bec'', ''_Uc'', ''GUb'', ''G9c'', ''yDc'', ''xoc'',
    ''XTc'', ''Ymc'']"
  by (simp add: code_5644_5665_def fn_def)

end
