(* ===== verification/ObjectTable23.thy ===== *)
theory ObjectTable23
  imports ObjectCode
begin

text \<open>
  Functions of \<open>layout-worker.js\<close>, lines 5666 to 5761, in the order of the file, one per line:
  the algorithms of the layout engine, longer operations of the runtime's collections and of options,
  with their loops, \<open>switch\<close> and \<open>try\<close> statements. An entry has the name, the
  number of parameters, the number of further local variables and the body; parameters and locals
  are numbered from 0, the variable of a \<open>catch\<close> has a number of its own, \<open>x++\<close> is \<open>(x=x+1)-1\<close>. Lines
  with a construct outside \<open>jexp\<close> and \<open>jstm\<close> (closures, \<open>in\<close>, floating-point literals, host objects) are
  left out.
\<close>

definition code_5666_5685 :: "(string \<times> jfun) list" where
  "code_5666_5685 = [
    fn ''P3c'' 0 0 [Do (SetG ''P3c'' (G ''qdb'')), Do (SetG ''E3c'' (New ''CEd'' [K (JStr ''additionalHeight'')])), Do (SetG ''F3c'' (New ''CEd'' [K (JStr ''drawingHeight'')])), Do (SetG ''G3c'' (New ''CEd'' [K (JStr ''drawingWidth'')])), Do (SetG ''J3c'' (New ''CEd'' [K (JStr ''minHeight'')])), Do (SetG ''M3c'' (New ''CEd'' [K (JStr ''minWidth'')])), Do (SetG ''N3c'' (New ''CEd'' [K (JStr ''rows'')])), Do (SetG ''O3c'' (New ''CEd'' [K (JStr ''targetWidth'')])), Do (SetG ''L3c'' (New ''DEd'' [K (JStr ''minRowIncrease''), K (JNum 0)])), Do (SetG ''I3c'' (New ''DEd'' [K (JStr ''maxRowIncrease''), K (JNum 0)])), Do (SetG ''K3c'' (New ''DEd'' [K (JStr ''minRowDecrease''), K (JNum 0)])), Do (SetG ''H3c'' (New ''DEd'' [K (JStr ''maxRowDecrease''), K (JNum 0)]))],
    fn ''EYd'' 2 4 [Do (SetV 4 (Dot (V 0) ''b'')), Switch (V 1) [(Some (JNum 1), [Do (Put (V 0) ''b'' (Bin BitOr (Dot (V 0) ''b'') (K (JNum 1)))), Do (Put (V 0) ''b'' (Bin BitOr (Dot (V 0) ''b'') (K (JNum 4)))), Do (Put (V 0) ''b'' (Bin BitOr (Dot (V 0) ''b'') (K (JNum 8)))), Break]), (Some (JNum 2), [Do (Put (V 0) ''b'' (Bin BitOr (Dot (V 0) ''b'') (K (JNum 2)))), Do (Put (V 0) ''b'' (Bin BitOr (Dot (V 0) ''b'') (K (JNum 4)))), Do (Put (V 0) ''b'' (Bin BitOr (Dot (V 0) ''b'') (K (JNum 8)))), Break]), (Some (JNum 4), [Do (Put (V 0) ''b'' (Bin BitOr (Dot (V 0) ''b'') (K (JNum 1)))), Do (Put (V 0) ''b'' (Bin BitOr (Dot (V 0) ''b'') (K (JNum 2)))), Do (Put (V 0) ''b'' (Bin BitOr (Dot (V 0) ''b'') (K (JNum 4)))), Do (Put (V 0) ''b'' (Bin BitOr (Dot (V 0) ''b'') (K (JNum 8)))), Break]), (Some (JNum 3), [Do (Put (V 0) ''b'' (Bin BitOr (Dot (V 0) ''b'') (K (JNum 16)))), Do (Put (V 0) ''b'' (Bin BitOr (Dot (V 0) ''b'') (K (JNum 8)))), Break]), (Some (JNum 0), [Do (Put (V 0) ''b'' (Bin BitOr (Dot (V 0) ''b'') (K (JNum 32)))), Do (Put (V 0) ''b'' (Bin BitOr (Dot (V 0) ''b'') (K (JNum 16)))), Do (Put (V 0) ''b'' (Bin BitOr (Dot (V 0) ''b'') (K (JNum 8)))), Do (Put (V 0) ''b'' (Bin BitOr (Dot (V 0) ''b'') (K (JNum 1)))), Do (Put (V 0) ''b'' (Bin BitOr (Dot (V 0) ''b'') (K (JNum 2)))), Do (Put (V 0) ''b'' (Bin BitOr (Dot (V 0) ''b'') (K (JNum 4)))), Break])], When (And (Neg (Loose (Dot (V 0) ''b'') (V 4))) (Neg (Neg (Dot (V 0) ''c'')))) [Do (SetV 3 (New ''uKd'' [Dot (V 0) ''c''])), Loop (Neg (Loose (Dot (V 3) ''e'') (Meth (Dot (V 3) ''i'') ''gc'' []))) [Do (SetV 5 (Call ''JD'' [Call ''sKd'' [V 3], K (JNum 471)])), Do (SetV 2 (Call ''LWd'' [V 5])), Do (Call ''IYd'' [V 2, V 1])] []] []],
    fn ''WGc'' 4 11 [Do (SetV 4 (K (JBool False))), Do (Seq (Seq (SetV 6 (V 1)) (SetV 7 (K (JNum 0)))) (SetV 8 (Dot (V 6) ''length''))), Loop (Bin Lt (V 7) (V 8)) [Do (SetV 5 (Idx (V 6) (V 7))), Do (And (And (Call ''Rdb'' [Seq (Call ''Qdb'' []) (Cond (Dot (V 5) ''e'') (K (JBool True)) (K (JBool False)))]) (Neg (Dot (Call ''JD'' [Call ''dmb'' [Dot (V 0) ''b'', Dot (Dot (V 5) ''e'') ''p''], K (JNum 218)]) ''s''))) (SetV 4 (Bin BitOr (V 4) (Seq (Seq (Seq (Seq (Seq (Seq (Seq (Seq (SetV 9 (Dot (V 5) ''e'')) (SetV 10 (Call ''JD'' [Call ''dmb'' [Dot (V 0) ''b'', Dot (V 9) ''p''], K (JNum 218)]))) (SetV 11 (Dot (V 10) ''e''))) (SetV 12 (Call ''KGc'' [V 2, Dot (V 11) ''length'']))) (SetV 13 (Idx (Idx (V 11) (V 12)) (K (JNum 0))))) (Cond (Loose (Dot (V 13) ''k'') (Seq (Call ''$Yb'' []) (G ''TYb''))) (PutIdx (V 11) (V 12) (Call ''UGc'' [V 5, Idx (V 11) (V 12), Cond (V 2) (Seq (Call ''Bmd'' []) (G ''Amd'')) (Seq (Call ''Bmd'' []) (G ''gmd''))])) (Meth (Dot (V 10) ''c'') ''kg'' [V 11, V 2]))) (SetV 14 (Call ''XGc'' [V 0, V 10, V 2, V 3]))) (Call ''VGc'' [Dot (V 10) ''e'', Dot (V 10) ''o'', V 2])) (V 14)))))] [Do (SetV 7 (Bin Minus (V 7) (K (JNum (- 1)))))], Ret (V 4)],
    fn ''vbd'' 2 5 [Do (SetV 5 (Dot (Seq (And (Neg (Dot (V 1) ''a'')) (Put (V 1) ''a'' (New ''P3d'' [G ''T3'', V 1, K (JNum 10), K (JNum 11)]))) (Dot (V 1) ''a'')) ''i'')), Do (SetV 4 (New ''uKd'' [Seq (And (Neg (Dot (V 1) ''a'')) (Put (V 1) ''a'' (New ''P3d'' [G ''T3'', V 1, K (JNum 10), K (JNum 11)]))) (Dot (V 1) ''a'')])), Loop (Neg (Loose (Dot (V 4) ''e'') (Meth (Dot (V 4) ''i'') ''gc'' []))) [Do (SetV 3 (Call ''JD'' [Call ''sKd'' [V 4], K (JNum 26)])), When (Neg (Same (Call ''XD'' [Call ''cvd'' [V 3, Seq (Call ''vjd'' []) (G ''Rhd'')]]) (Call ''XD'' [Seq (Call ''Qkd'' []) (G ''Pkd'')]))) [Do (SetV 6 (Call ''JD'' [Call ''cvd'' [V 1, G ''Rid''], K (JNum 144)])), Do (SetV 2 (Call ''JD'' [Call ''cvd'' [V 3, G ''Rid''], K (JNum 144)])), Do (And (And (Or (Loose (V 6) (V 2)) (And (Neg (Neg (V 6))) (Call ''Icd'' [V 6, V 2]))) (Neg (Loose (Dot (Seq (And (Neg (Dot (V 3) ''a'')) (Put (V 3) ''a'' (New ''P3d'' [G ''T3'', V 3, K (JNum 10), K (JNum 11)]))) (Dot (V 3) ''a'')) ''i'') (K (JNum 0))))) (SetV 5 (Bin Plus (V 5) (Call ''vbd'' [V 0, V 3]))))] []] [], Ret (V 5)],
    fn ''p0b'' 1 5 [Do (SetV 5 (New ''mmb'' [Dot (Dot (Dot (V 0) ''a'') ''c'') ''length''])), Do (SetV 4 (New ''Kmb'' [Dot (V 0) ''a''])), Loop (Bin Lt (Dot (V 4) ''a'') (Dot (Dot (Dot (V 4) ''c'') ''c'') ''length'')) [Do (SetV 3 (Call ''JD'' [Call ''Imb'' [V 4], K (JNum 9)])), Do (SetV 2 (Call ''JD'' [Call ''oNb'' [V 3, Seq (Call ''nyc'' []) (G ''Ewc'')], K (JNum 165)])), Do (SetV 1 (K JNull)), Switch (Dot (V 2) ''g'') [(Some (JNum 1), []), (Some (JNum 2), [Do (SetV 1 (Seq (Call ''Qoc'' []) (G ''Poc''))), Break]), (Some (JNum 3), []), (Some (JNum 4), [Do (SetV 1 (Seq (Call ''Qoc'' []) (G ''Noc'')))])], When (V 1) [Do (Call ''rNb'' [V 3, Seq (Call ''Wrc'' []) (G ''Uqc''), Seq (Call ''Qoc'' []) (G ''Poc'')]), Do (Cond (Loose (V 1) (G ''Noc'')) (Call ''r0b'' [V 3, V 2, Seq (Call ''qAc'' []) (G ''nAc'')]) (And (Loose (V 1) (G ''Poc'')) (Call ''r0b'' [V 3, V 2, Seq (Call ''qAc'' []) (G ''oAc'')])))] [Do (Call ''qDb'' [Dot (V 5) ''c'', V 3])]] [], Ret (V 5)],
    fn ''djc'' 1 7 [Do (SetV 3 (K (JNum 0))), Do (SetV 7 (K (JNum 0))), Do (SetV 6 (New ''Kmb'' [Dot (V 0) ''d''])), Loop (Bin Lt (Dot (V 6) ''a'') (Dot (Dot (Dot (V 6) ''c'') ''c'') ''length'')) [Do (SetV 5 (Call ''JD'' [Call ''Imb'' [V 6], K (JNum 107)])), Do (SetV 4 (Call ''JD'' [Call ''SBb'' [Call ''VBb'' [New ''jCb'' [K JNull, New ''Zvb'' [Dot (V 5) ''j'', K (JNum 16)]], New ''Ojc'' []], Call ''BAb'' [New ''TAb'' [], New ''RAb'' [], New ''ZAb'' [], Call ''WC'' [Call ''OC'' [G ''HL'', K (JNum 1)], G ''xue'', K (JNum 130), K (JNum 0), NewArr [Seq (Call ''FAb'' []) (G ''DAb'')]]]], K (JNum 16)])), Do (SetV 2 (K JNull)), When (Bin Le (V 3) (V 7)) [Do (SetV 2 (Seq (Call ''Bmd'' []) (G ''hmd''))), Do (SetV 3 (Bin Plus (V 3) (Meth (V 4) ''gc'' [])))] [When (Bin Lt (V 7) (V 3)) [Do (SetV 2 (Seq (Call ''Bmd'' []) (G ''ymd''))), Do (SetV 7 (Bin Plus (V 7) (Meth (V 4) ''gc'' [])))] []], Do (SetV 1 (V 2)), Do (Call ''YBb'' [Call ''ZBb'' [Meth (V 4) ''Mc'' [], New ''Cjc'' []], New ''Ejc'' [V 1]])] []],
    fn ''gbd'' 2 1 [Do (SetV 2 (New ''sNb'' [])), Do (And (Neg (Neg (V 1))) (Call ''mNb'' [V 2, Call ''JD'' [Call ''ejb'' [Dot (V 0) ''a'', G ''R3''], K (JNum 105)]])), Do (And (Call ''RD'' [V 1, K (JNum 276)]) (Call ''mNb'' [V 2, Call ''JD'' [Call ''ejb'' [Dot (V 0) ''a'', G ''V3''], K (JNum 105)]])), When (Call ''RD'' [V 1, K (JNum 362)]) [Do (Call ''mNb'' [V 2, Call ''JD'' [Call ''ejb'' [Dot (V 0) ''a'', G ''S3''], K (JNum 105)]]), Ret (V 2)] [], Do (And (Call ''RD'' [V 1, K (JNum 84)]) (Call ''mNb'' [V 2, Call ''JD'' [Call ''ejb'' [Dot (V 0) ''a'', G ''O3''], K (JNum 105)]])), When (Call ''RD'' [V 1, K (JNum 206)]) [Do (Call ''mNb'' [V 2, Call ''JD'' [Call ''ejb'' [Dot (V 0) ''a'', G ''T3''], K (JNum 105)]]), Ret (V 2)] [], When (Call ''RD'' [V 1, K (JNum 193)]) [Do (Call ''mNb'' [V 2, Call ''JD'' [Call ''ejb'' [Dot (V 0) ''a'', G ''U3''], K (JNum 105)]]), Ret (V 2)] [], Do (And (Call ''RD'' [V 1, K (JNum 271)]) (Call ''mNb'' [V 2, Call ''JD'' [Call ''ejb'' [Dot (V 0) ''a'', G ''Q3''], K (JNum 105)]])), Ret (V 2)],
    fn ''cic'' 1 8 [Do (Put (V 0) ''b'' (New ''fj'' [New ''wnb'' [Seq (Call ''Bmd'' []) (Call ''WC'' [Call ''OC'' [G ''M2'', K (JNum 1)], G ''sye'', K (JNum 64), K (JNum 0), NewArr [G ''zmd'', G ''hmd'', G ''gmd'', G ''ymd'', G ''Amd'']])], New ''wnb'' [Seq (Call ''vic'' []) (Call ''WC'' [Call ''OC'' [G ''KU'', K (JNum 1)], G ''xue'', K (JNum 368), K (JNum 0), NewArr [G ''uic'', G ''tic'', G ''sic'']])]])), Do (Seq (Seq (SetV 6 (Call ''WC'' [Call ''OC'' [G ''M2'', K (JNum 1)], G ''sye'', K (JNum 64), K (JNum 0), NewArr [G ''zmd'', G ''hmd'', G ''gmd'', G ''ymd'', G ''Amd'']])) (SetV 7 (K (JNum 0)))) (SetV 8 (Dot (V 6) ''length''))), Loop (Bin Lt (V 7) (V 8)) [Do (SetV 5 (Idx (V 6) (V 7))), Do (Seq (Seq (SetV 2 (Call ''WC'' [Call ''OC'' [G ''KU'', K (JNum 1)], G ''xue'', K (JNum 368), K (JNum 0), NewArr [G ''uic'', G ''tic'', G ''sic'']])) (SetV 3 (K (JNum 0)))) (SetV 4 (Dot (V 2) ''length''))), Loop (Bin Lt (V 3) (V 4)) [Do (SetV 1 (Idx (V 2) (V 3))), Do (Call ''$i'' [Dot (V 0) ''b'', V 5, V 1, New ''lmb'' []])] [Do (SetV 3 (Bin Minus (V 3) (K (JNum (- 1)))))]] [Do (SetV 7 (Bin Minus (V 7) (K (JNum (- 1)))))]],
    fn ''eKb'' 2 10 [Do (SetV 6 (Call ''JD'' [Call ''JD'' [Call ''Qc'' [Dot (V 0) ''r'', V 1], K (JNum 22)], K (JNum 83)])), Do (SetV 7 (Meth (Dot (V 0) ''u'') ''Gc'' [Seq (Call ''$ld'' []) (G ''Yld'')])), Do (SetV 2 (Meth (Dot (V 0) ''u'') ''Gc'' [G ''Vld''])), Do (SetV 3 (Meth (Dot (V 0) ''u'') ''Gc'' [G ''Uld''])), Do (SetV 9 (Meth (Dot (V 0) ''u'') ''Gc'' [G ''Zld''])), Do (SetV 11 (Meth (Dot (V 0) ''B'') ''Gc'' [Seq (Call ''xnd'' []) (G ''wnd'')])), Do (SetV 10 (And (And (Neg (V 2)) (Neg (V 3))) (Or (V 9) (Loose (Meth (V 6) ''gc'' []) (K (JNum 2)))))), Do (Call ''bKb'' [V 0, V 1]), Do (SetV 4 (K JNull)), Do (SetV 8 (K JNull)), When (V 7) [Do (SetV 5 (Meth (V 6) ''Jc'' [])), Do (SetV 4 (Call ''JD'' [Meth (V 5) ''Pb'' [], K (JNum 115)])), Do (SetV 8 (V 4)), Loop (Meth (V 5) ''Ob'' []) [Do (SetV 8 (Call ''JD'' [Meth (V 5) ''Pb'' [], K (JNum 115)]))] [], Do (Put (Dot (V 4) ''d'') ''b'' (K (JNum 0))), Do (Put (Dot (V 8) ''d'') ''c'' (K (JNum 0))), Do (And (And (V 10) (Neg (Dot (V 4) ''a''))) (Put (Dot (V 4) ''d'') ''c'' (K (JNum 0))))] [], When (V 11) [Do (Call ''fKb'' [V 6]), When (V 7) [Do (Put (Dot (V 4) ''d'') ''b'' (K (JNum 0))), Do (Put (Dot (V 8) ''d'') ''c'' (K (JNum 0)))] []] []],
    fn ''mLb'' 2 10 [Do (SetV 6 (Call ''JD'' [Call ''JD'' [Call ''Qc'' [Dot (V 0) ''r'', V 1], K (JNum 22)], K (JNum 83)])), Do (SetV 7 (Meth (Dot (V 0) ''u'') ''Gc'' [Seq (Call ''$ld'' []) (G ''Yld'')])), Do (SetV 2 (Meth (Dot (V 0) ''u'') ''Gc'' [G ''Vld''])), Do (SetV 3 (Meth (Dot (V 0) ''u'') ''Gc'' [G ''Uld''])), Do (SetV 8 (Meth (Dot (V 0) ''u'') ''Gc'' [G ''Zld''])), Do (SetV 11 (Meth (Dot (V 0) ''B'') ''Gc'' [Seq (Call ''xnd'' []) (G ''wnd'')])), Do (SetV 9 (And (And (Neg (V 2)) (Neg (V 3))) (Or (V 8) (Loose (Meth (V 6) ''gc'' []) (K (JNum 2)))))), Do (Call ''kLb'' [V 0, V 1]), Do (SetV 10 (K JNull)), Do (SetV 4 (K JNull)), When (V 7) [Do (SetV 5 (Meth (V 6) ''Jc'' [])), Do (SetV 10 (Call ''JD'' [Meth (V 5) ''Pb'' [], K (JNum 115)])), Do (SetV 4 (V 10)), Loop (Meth (V 5) ''Ob'' []) [Do (SetV 4 (Call ''JD'' [Meth (V 5) ''Pb'' [], K (JNum 115)]))] [], Do (Put (Dot (V 10) ''d'') ''d'' (K (JNum 0))), Do (Put (Dot (V 4) ''d'') ''a'' (K (JNum 0))), Do (And (And (V 9) (Neg (Dot (V 10) ''a''))) (Put (Dot (V 10) ''d'') ''a'' (K (JNum 0))))] [], When (V 11) [Do (Call ''nLb'' [V 6]), When (V 7) [Do (Put (Dot (V 10) ''d'') ''d'' (K (JNum 0))), Do (Put (Dot (V 4) ''d'') ''a'' (K (JNum 0)))] []] []],
    fn ''xKc'' 3 8 [Do (SetV 4 (Dot (V 1) ''k'')), When (Bin Ge (Dot (V 1) ''p'') (K (JNum 0))) [Ret (K (JBool False))] [Do (Put (V 1) ''p'' (Dot (V 2) ''b'')), Do (Call ''_lb'' [Dot (V 2) ''e'', V 1])], When (Or (Loose (V 4) (Seq (Call ''$Yb'' []) (G ''VYb''))) (Loose (V 4) (G ''YYb''))) [Do (SetV 6 (New ''Kmb'' [Dot (V 1) ''j''])), Loop (Bin Lt (Dot (V 6) ''a'') (Dot (Dot (Dot (V 6) ''c'') ''c'') ''length'')) [Do (SetV 5 (Call ''JD'' [Call ''Imb'' [V 6], K (JNum 12)])), Do (SetV 10 (Seq (SetV 3 (New ''Kmb'' [Dot (Dot (New ''IZb'' [V 5]) ''a'') ''g''])) (New ''LZb'' [V 3]))), Loop (Call ''Hmb'' [Dot (V 10) ''a'']) [Do (SetV 9 (Dot (Call ''JD'' [Call ''Imb'' [Dot (V 10) ''a''], K (JNum 17)]) ''d'')), Do (SetV 7 (Dot (V 9) ''i'')), Do (SetV 8 (Dot (V 7) ''k'')), When (Neg (Loose (Dot (V 1) ''c'') (Dot (V 7) ''c''))) [When (Or (Loose (V 8) (G ''VYb'')) (Loose (V 8) (G ''YYb''))) [When (Call ''xKc'' [V 0, V 7, V 2]) [Ret (K (JBool True))] []] []] []] []] []] [], Ret (K (JBool True))],
    fn ''TUd'' 1 1 [When (Neg (Loose (Bin BitAnd (Dot (V 0) ''Db'') (K (JNum 64))) (K (JNum 0)))) [Ret (Call ''pUd'' [V 0])] [], Do (SetV 1 (New ''ahb'' [Call ''pUd'' [V 0]])), Do (Put (V 1) ''a'' (Bin Plus (Dot (V 1) ''a'') (K (JStr '' (changeable: '')))), Do (Call ''Ygb'' [V 1, Neg (Loose (Bin BitAnd (Dot (V 0) ''Bb'') (G ''hIe'')) (K (JNum 0)))]), Do (Put (V 1) ''a'' (Bin Plus (Dot (V 1) ''a'') (K (JStr '', volatile: '')))), Do (Call ''Ygb'' [V 1, Neg (Loose (Bin BitAnd (Dot (V 0) ''Bb'') (G ''bGe'')) (K (JNum 0)))]), Do (Put (V 1) ''a'' (Bin Plus (Dot (V 1) ''a'') (K (JStr '', transient: '')))), Do (Call ''Ygb'' [V 1, Neg (Loose (Bin BitAnd (Dot (V 0) ''Bb'') (G ''Eve'')) (K (JNum 0)))]), Do (Put (V 1) ''a'' (Bin Plus (Dot (V 1) ''a'') (K (JStr '', defaultValueLiteral: '')))), Do (Call ''Xgb'' [V 1, Dot (V 0) ''j'']), Do (Put (V 1) ''a'' (Bin Plus (Dot (V 1) ''a'') (K (JStr '', unsettable: '')))), Do (Call ''Ygb'' [V 1, Neg (Loose (Bin BitAnd (Dot (V 0) ''Bb'') (G ''nIe'')) (K (JNum 0)))]), Do (Put (V 1) ''a'' (Bin Plus (Dot (V 1) ''a'') (K (JStr '', derived: '')))), Do (Call ''Ygb'' [V 1, Neg (Loose (Bin BitAnd (Dot (V 0) ''Bb'') (G ''bue'')) (K (JNum 0)))]), Do (Put (V 1) ''a'' (Bin Plus (Dot (V 1) ''a'') (K (JStr '')'')))), Ret (Dot (V 1) ''a'')],
    fn ''Gce'' 2 5 [Do (SetV 4 (Meth (V 1) ''ni'' [Dot (V 0) ''a''])), When (V 4) [Do (SetV 3 (Seq (And (Neg (Dot (V 4) ''b'')) (Put (V 4) ''b'' (New ''dUd'' [Seq (Call ''WRd'' []) (G ''SRd''), G ''N7'', V 4]))) (Dot (V 4) ''b''))), Do (SetV 2 (Call ''OD'' [Call ''pMd'' [V 3, G ''OIe'']])), When (Neg (Loose (V 2) (K JNull))) [Do (SetV 5 (Meth (V 2) ''lastIndexOf'' [K (JStr ''#'')])), Do (SetV 6 (Cond (Loose (V 5) (K (JNum (- 1)))) (Call ''hde'' [V 0, Meth (V 1) ''hk'' [], V 2]) (Cond (Loose (V 5) (K (JNum 0))) (Call ''gde'' [V 0, K JNull, Seq (Call ''UDb'' [K (JNum 1), Bin Plus (Dot (V 2) ''length'') (K (JNum 1))]) (Meth (V 2) ''substr'' [K (JNum 1)])]) (Call ''gde'' [V 0, Seq (Call ''TDb'' [K (JNum 0), V 5, Dot (V 2) ''length'']) (Meth (V 2) ''substr'' [K (JNum 0), V 5]), Seq (Call ''UDb'' [Bin Plus (V 5) (K (JNum 1)), Bin Plus (Dot (V 2) ''length'') (K (JNum 1))]) (Meth (V 2) ''substr'' [Bin Plus (V 5) (K (JNum 1))])])))), When (Call ''RD'' [V 6, K (JNum 159)]) [Ret (Call ''JD'' [V 6, K (JNum 159)])] []] []] [], Ret (K JNull)],
    fn ''Kce'' 2 5 [Do (SetV 3 (Meth (V 1) ''ni'' [Dot (V 0) ''a''])), When (V 3) [Do (SetV 2 (Seq (And (Neg (Dot (V 3) ''b'')) (Put (V 3) ''b'' (New ''dUd'' [Seq (Call ''WRd'' []) (G ''SRd''), G ''N7'', V 3]))) (Dot (V 3) ''b''))), Do (SetV 5 (Call ''OD'' [Call ''pMd'' [V 2, G ''jJe'']])), When (Neg (Loose (V 5) (K JNull))) [Do (SetV 4 (Meth (V 5) ''lastIndexOf'' [K (JStr ''#'')])), Do (SetV 6 (Cond (Loose (V 4) (K (JNum (- 1)))) (Call ''hde'' [V 0, Meth (V 1) ''hk'' [], V 5]) (Cond (Loose (V 4) (K (JNum 0))) (Call ''gde'' [V 0, K JNull, Seq (Call ''UDb'' [K (JNum 1), Bin Plus (Dot (V 5) ''length'') (K (JNum 1))]) (Meth (V 5) ''substr'' [K (JNum 1)])]) (Call ''gde'' [V 0, Seq (Call ''TDb'' [K (JNum 0), V 4, Dot (V 5) ''length'']) (Meth (V 5) ''substr'' [K (JNum 0), V 4]), Seq (Call ''UDb'' [Bin Plus (V 4) (K (JNum 1)), Bin Plus (Dot (V 5) ''length'') (K (JNum 1))]) (Meth (V 5) ''substr'' [Bin Plus (V 4) (K (JNum 1))])])))), When (Call ''RD'' [V 6, K (JNum 159)]) [Ret (Call ''JD'' [V 6, K (JNum 159)])] []] []] [], Ret (K JNull)],
    fn ''Xac'' 2 11 [Do (Meth (V 1) ''Tg'' [K (JStr ''Restoring reversed edges''), K (JNum 1)]), Do (SetV 8 (New ''Kmb'' [Dot (V 0) ''b''])), Loop (Bin Lt (Dot (V 8) ''a'') (Dot (Dot (Dot (V 8) ''c'') ''c'') ''length'')) [Do (SetV 7 (Call ''JD'' [Call ''Imb'' [V 8], K (JNum 25)])), Do (SetV 10 (New ''Kmb'' [Dot (V 7) ''a''])), Loop (Bin Lt (Dot (V 10) ''a'') (Dot (Dot (Dot (V 10) ''c'') ''c'') ''length'')) [Do (SetV 9 (Call ''JD'' [Call ''Imb'' [V 10], K (JNum 9)])), Do (SetV 12 (New ''Kmb'' [Dot (V 9) ''j''])), Loop (Bin Lt (Dot (V 12) ''a'') (Dot (Dot (Dot (V 12) ''c'') ''c'') ''length'')) [Do (SetV 11 (Call ''JD'' [Call ''Imb'' [V 12], K (JNum 12)])), Do (SetV 6 (Call ''ZXb'' [Dot (V 11) ''g''])), Do (Seq (Seq (SetV 3 (V 6)) (SetV 4 (K (JNum 0)))) (SetV 5 (Dot (V 3) ''length''))), Loop (Bin Lt (V 4) (V 5)) [Do (SetV 2 (Idx (V 3) (V 4))), Do (And (Call ''Rdb'' [Call ''LD'' [Call ''oNb'' [V 2, Seq (Call ''Wrc'' []) (G ''Hrc'')]]]) (Call ''BWb'' [V 2, K (JBool False)]))] [Do (SetV 4 (Bin Minus (V 4) (K (JNum (- 1)))))]] []] []] [], Do (Meth (V 1) ''Ug'' [])],
    fn ''nkc'' 4 5 [Do (SetV 8 (Call ''SC'' [G ''aE'', G ''aue'', K (JNum 108), Dot (Seq (Call ''Bmd'' []) (Call ''WC'' [Call ''OC'' [G ''M2'', K (JNum 1)], G ''sye'', K (JNum 64), K (JNum 0), NewArr [G ''zmd'', G ''hmd'', G ''gmd'', G ''ymd'', G ''Amd'']])) ''length'', K (JNum 0), K (JNum 2)])), Do (Seq (Seq (SetV 5 (Call ''WC'' [Call ''OC'' [G ''M2'', K (JNum 1)], G ''sye'', K (JNum 64), K (JNum 0), NewArr [G ''zmd'', G ''hmd'', G ''gmd'', G ''ymd'', G ''Amd'']])) (SetV 6 (K (JNum 0)))) (SetV 7 (Dot (V 5) ''length''))), Loop (Bin Lt (V 6) (V 7)) [Do (SetV 4 (Idx (V 5) (V 6))), Do (PutIdx (V 8) (Dot (V 4) ''g'') (Call ''SC'' [G ''aE'', G ''Jve'', K (JNum 30), Idx (Dot (V 0) ''c'') (Dot (V 4) ''g''), K (JNum 15), K (JNum 1)]))] [Do (SetV 6 (Bin Minus (V 6) (K (JNum (- 1)))))], Do (Call ''pkc'' [V 8, V 0, G ''hmd'']), Do (Call ''pkc'' [V 8, V 0, G ''ymd'']), Do (Call ''mkc'' [V 8, V 0, G ''hmd'', V 1, V 2, V 3]), Do (Call ''mkc'' [V 8, V 0, G ''gmd'', V 1, V 2, V 3]), Do (Call ''mkc'' [V 8, V 0, G ''ymd'', V 1, V 2, V 3]), Do (Call ''mkc'' [V 8, V 0, G ''Amd'', V 1, V 2, V 3]), Ret (V 8)],
    fn ''bIc'' 3 0 [When (Call ''cjb'' [Dot (V 0) ''a'', V 1]) [When (Call ''fsb'' [Call ''JD'' [Call ''ejb'' [Dot (V 0) ''a'', V 1], K (JNum 48)], V 2]) [Ret (K (JNum 1))] []] [Do (Call ''hjb'' [Dot (V 0) ''a'', V 1, New ''hsb'' []])], When (Call ''cjb'' [Dot (V 0) ''a'', V 2]) [When (Call ''fsb'' [Call ''JD'' [Call ''ejb'' [Dot (V 0) ''a'', V 2], K (JNum 48)], V 1]) [Ret (K (JNum (- 1)))] []] [Do (Call ''hjb'' [Dot (V 0) ''a'', V 2, New ''hsb'' []])], When (Call ''cjb'' [Dot (V 0) ''b'', V 1]) [When (Call ''fsb'' [Call ''JD'' [Call ''ejb'' [Dot (V 0) ''b'', V 1], K (JNum 48)], V 2]) [Ret (K (JNum (- 1)))] []] [Do (Call ''hjb'' [Dot (V 0) ''b'', V 1, New ''hsb'' []])], When (Call ''cjb'' [Dot (V 0) ''b'', V 2]) [When (Call ''fsb'' [Call ''JD'' [Call ''ejb'' [Dot (V 0) ''b'', V 2], K (JNum 48)], V 1]) [Ret (K (JNum 1))] []] [Do (Call ''hjb'' [Dot (V 0) ''b'', V 2, New ''hsb'' []])], Ret (K (JNum 0))],
    fn ''YJb'' 1 6 [When (Or (Loose (Dot (V 0) ''q'') (Seq (Call ''Mld'' []) (G ''Ild''))) (Loose (Dot (V 0) ''q'') (G ''Hld''))) [Ret (K JUndef)] [], Do (SetV 4 (Bin Plus (Bin Plus (Dot (Dot (Dot (V 0) ''f'') ''n'') ''d'') (Call ''vHb'' [Call ''JD'' [Call ''brb'' [Dot (V 0) ''b'', Seq (Call ''Bmd'' []) (G ''hmd'')], K (JNum 127)]])) (Dot (V 0) ''c''))), Do (SetV 1 (Bin Plus (Bin Plus (Dot (Dot (Dot (V 0) ''f'') ''n'') ''a'') (Call ''vHb'' [Call ''JD'' [Call ''brb'' [Dot (V 0) ''b'', G ''ymd''], K (JNum 127)]])) (Dot (V 0) ''c''))), Do (SetV 3 (Call ''JD'' [Call ''brb'' [Dot (V 0) ''b'', G ''gmd''], K (JNum 127)])), Do (SetV 6 (Call ''JD'' [Call ''brb'' [Dot (V 0) ''b'', G ''Amd''], K (JNum 127)])), Do (SetV 5 (Meth (Dot (G ''$wnd'') ''Math'') ''max'' [K (JNum 0), Bin Minus (Dot (Dot (V 3) ''n'') ''d'') (V 4)])), Do (SetV 5 (Meth (Dot (G ''$wnd'') ''Math'') ''max'' [V 5, Bin Minus (Dot (Dot (V 6) ''n'') ''d'') (V 4)])), Do (SetV 2 (Meth (Dot (G ''$wnd'') ''Math'') ''max'' [K (JNum 0), Bin Minus (Dot (Dot (V 3) ''n'') ''a'') (V 1)])), Do (SetV 2 (Meth (Dot (G ''$wnd'') ''Math'') ''max'' [V 2, Bin Minus (Dot (Dot (V 6) ''n'') ''a'') (V 1)])), Do (Put (Dot (V 3) ''n'') ''d'' (V 5)), Do (Put (Dot (V 6) ''n'') ''d'' (V 5)), Do (Put (Dot (V 3) ''n'') ''a'' (V 2)), Do (Put (Dot (V 6) ''n'') ''a'' (V 2))],
    fn ''iee'' 4 6 [When (Loose (V 2) (K JNull)) [Do (SetV 4 (Call ''JD'' [Dot (V 0) ''g'', K (JNum 122)])), Do (SetV 7 (K (JNum 0))), Loop (Bin Lt (V 7) (Dot (V 0) ''i'')) [Do (SetV 6 (Idx (V 4) (V 7))), When (Loose (Meth (V 6) ''Jk'' []) (V 1)) [Ret (Call ''IJd'' [V 0, V 6, V 3])] []] [Do (SetV 7 (Bin Minus (V 7) (K (JNum (- 1)))))]] [], Do (SetV 5 (Seq (Call ''Aie'' []) (Cond (Meth (Call ''JD'' [V 1, K (JNum 69)]) ''vk'' []) (Call ''JD'' [V 2, K (JNum 75)]) (Call ''Bie'' [V 1, V 2])))), When (Call ''itd'' [Dot (V 0) ''e'']) [Do (SetV 9 (Neg (Call ''Cee'' [V 0, V 1]))), Do (SetV 3 (Call ''HJd'' [V 0, V 5, V 3])), Do (SetV 8 (Cond (Meth (V 1) ''Hk'' []) (Call ''see'' [V 0, K (JNum 3), V 1, K JNull, V 2, Call ''xee'' [V 0, V 1, V 2, And (Call ''RD'' [V 1, K (JNum 103)]) (Neg (Loose (Bin BitAnd (Dot (Call ''JD'' [V 1, K (JNum 19)]) ''Bb'') (G ''Hve'')) (K (JNum 0))))], V 9]) (Call ''see'' [V 0, K (JNum 1), V 1, Meth (V 1) ''gk'' [], V 2, K (JNum (- 1)), V 9]))), Do (Cond (V 3) (Meth (V 3) ''lj'' [V 8]) (SetV 3 (V 8)))] [Do (SetV 3 (Call ''HJd'' [V 0, V 5, V 3]))], Ret (V 3)],
    fn ''udd'' 0 0 [Do (Put This ''b'' (New ''otb'' [])), Do (Put This ''d'' (New ''otb'' [])), Do (Put This ''e'' (New ''otb'' [])), Do (Put This ''c'' (New ''otb'' [])), Do (Put This ''a'' (New ''_rb'' [])), Do (Put This ''f'' (New ''_rb'' [])), Do (Call ''YGd'' [G ''r2'', New ''Fdd'' [], New ''Hdd'' []]), Do (Call ''YGd'' [G ''q2'', New ''bed'' [], New ''ded'' []]), Do (Call ''YGd'' [G ''n2'', New ''fed'' [], New ''hed'' []]), Do (Call ''YGd'' [G ''o2'', New ''jed'' [], New ''led'' []]), Do (Call ''YGd'' [G ''w3'', New ''ned'' [], New ''ped'' []]), Do (Call ''YGd'' [G ''MJ'', New ''Jdd'' [], New ''Ldd'' []]), Do (Call ''YGd'' [G ''GK'', New ''Ndd'' [], New ''Pdd'' []]), Do (Call ''YGd'' [G ''sK'', New ''Rdd'' [], New ''Tdd'' []]), Do (Call ''YGd'' [G ''DK'', New ''Vdd'' [], New ''Xdd'' []]), Do (Call ''YGd'' [G ''uL'', New ''Zdd'' [], New ''_dd'' []])]]"

definition code_5686_5694 :: "(string \<times> jfun) list" where
  "code_5686_5694 = [
    fn ''hc'' 2 5 [Do (SetV 0 (Cond (Loose (V 0) (K JNull)) (G ''Kte'') (Seq (Call ''NDb'' [V 0]) (V 0)))), Do (SetV 4 (K (JNum 0))), Loop (Bin Lt (V 4) (Dot (V 1) ''length'')) [Do (PutIdx (V 1) (V 4) (Call ''ic'' [Idx (V 1) (V 4)]))] [Do (Bin Minus (SetV 4 (Bin Minus (V 4) (K (JNum (- 1))))) (K (JNum 1)))], Do (SetV 2 (New ''mhb'' [])), Do (SetV 6 (K (JNum 0))), Do (SetV 3 (K (JNum 0))), Loop (Bin Lt (V 3) (Dot (V 1) ''length'')) [Do (SetV 5 (Meth (V 0) ''indexOf'' [K (JStr ''%s''), V 6])), When (Loose (V 5) (K (JNum (- 1)))) [Break] [], Do (Put (V 2) ''a'' (Bin Plus (Dot (V 2) ''a'') (Bin Plus (K (JStr '''')) (Call ''Jgb'' [Cond (Loose (V 0) (K JNull)) (G ''Kte'') (Seq (Call ''NDb'' [V 0]) (V 0)), V 6, V 5])))), Do (Call ''ghb'' [V 2, Idx (V 1) (Bin Minus (SetV 3 (Bin Minus (V 3) (K (JNum (- 1))))) (K (JNum 1)))]), Do (SetV 6 (Bin Plus (V 5) (K (JNum 2))))] [], Do (Call ''fhb'' [V 2, V 0, V 6, Dot (V 0) ''length'']), When (Bin Lt (V 3) (Dot (V 1) ''length'')) [Do (Put (V 2) ''a'' (Bin Plus (Dot (V 2) ''a'') (K (JStr '' ['')))), Do (Call ''ghb'' [V 2, Idx (V 1) (Bin Minus (SetV 3 (Bin Minus (V 3) (K (JNum (- 1))))) (K (JNum 1)))]), Loop (Bin Lt (V 3) (Dot (V 1) ''length'')) [Do (Put (V 2) ''a'' (Bin Plus (Dot (V 2) ''a'') (G ''Ete''))), Do (Call ''ghb'' [V 2, Idx (V 1) (Bin Minus (SetV 3 (Bin Minus (V 3) (K (JNum (- 1))))) (K (JNum 1)))])] [], Do (Put (V 2) ''a'' (Bin Plus (Dot (V 2) ''a'') (K (JStr '']''))))] [], Ret (Dot (V 2) ''a'')],
    fn ''VIc'' 2 7 [Do (SetV 2 (K (JNum 0))), Do (SetV 8 (New ''Kmb'' [V 1])), Loop (Bin Lt (Dot (V 8) ''a'') (Dot (Dot (Dot (V 8) ''c'') ''c'') ''length'')) [Do (SetV 7 (Call ''JD'' [Call ''Imb'' [V 8], K (JNum 12)])), Do (Call ''JIc'' [Dot (V 0) ''b'', Idx (Dot (V 0) ''d'') (Dot (V 7) ''p'')]), Do (SetV 6 (K (JNum 0))), Do (SetV 4 (New ''UZb'' [Dot (V 7) ''b''])), Loop (Or (Call ''Hmb'' [Dot (V 4) ''a'']) (Call ''Hmb'' [Dot (V 4) ''b''])) [Do (SetV 3 (Call ''JD'' [Cond (Call ''Hmb'' [Dot (V 4) ''a'']) (Call ''Imb'' [Dot (V 4) ''a'']) (Call ''Imb'' [Dot (V 4) ''b'']), K (JNum 17)])), When (Call ''dJc'' [V 3]) [Do (SetV 5 (Call ''jJc'' [V 0, Cond (Loose (V 7) (Dot (V 3) ''c'')) (Dot (V 3) ''d'') (Dot (V 3) ''c'')])), When (Bin Gt (V 5) (Idx (Dot (V 0) ''d'') (Dot (V 7) ''p''))) [Do (SetV 2 (Bin Plus (V 2) (Call ''IIc'' [Dot (V 0) ''b'', V 5]))), Do (Call ''rlb'' [Dot (V 0) ''a'', Call ''Cfb'' [V 5]])] []] [Do (SetV 6 (Bin Minus (V 6) (K (JNum (- 1)))))]] [], Do (SetV 2 (Bin Plus (V 2) (Bin Times (Dot (Dot (V 0) ''b'') ''d'') (V 6)))), Loop (Neg (Call ''xlb'' [Dot (V 0) ''a''])) [Do (Call ''GIc'' [Dot (V 0) ''b'', Dot (Call ''JD'' [Call ''Clb'' [Dot (V 0) ''a''], K (JNum 15)]) ''a''])] []] [], Ret (V 2)],
    fn ''Che'' 1 6 [Do (SetV 5 (K (JNum 0))), Do (SetV 1 (Call ''hUd'' [V 0])), Do (And (Neg (Neg (Meth (V 1) ''ik'' []))) (SetV 5 (Bin BitOr (V 5) (K (JNum 4))))), Do (And (Neg (Loose (Bin BitAnd (Dot (V 0) ''Bb'') (G ''nIe'')) (K (JNum 0)))) (SetV 5 (Bin BitOr (V 5) (K (JNum 2))))), When (Call ''RD'' [V 0, K (JNum 103)]) [Do (SetV 2 (Call ''JD'' [V 0, K (JNum 19)])), Do (SetV 4 (Call ''k4d'' [V 2])), Do (And (Neg (Loose (Bin BitAnd (Dot (V 2) ''Bb'') (G ''$Fe'')) (K (JNum 0)))) (SetV 5 (Bin BitOr (V 5) (K (JNum 32))))), When (V 4) [Do (Call ''NWd'' [Call ''HUd'' [V 4]]), Do (SetV 5 (Bin BitOr (V 5) (K (JNum 8)))), Do (SetV 6 (Dot (V 4) ''t'')), Do (And (Or (Bin Gt (V 6) (K (JNum 1))) (Loose (V 6) (K (JNum (- 1))))) (SetV 5 (Bin BitOr (V 5) (K (JNum 16))))), Do (And (Neg (Loose (Bin BitAnd (Dot (V 4) ''Bb'') (G ''$Fe'')) (K (JNum 0)))) (SetV 5 (Bin BitOr (V 5) (K (JNum 64)))))] [], Do (And (Neg (Loose (Bin BitAnd (Dot (V 2) ''Bb'') (G ''Hve'')) (K (JNum 0)))) (SetV 5 (Bin BitOr (V 5) (G ''bGe'')))), Do (SetV 5 (Bin BitOr (V 5) (G ''hIe'')))] [When (Call ''RD'' [V 1, K (JNum 459)]) [Do (SetV 5 (Bin BitOr (V 5) (K (JNum 512))))] [Do (SetV 3 (Meth (V 1) ''ik'' [])), Do (And (And (Neg (Neg (V 3))) (Neg (Loose (Bin BitAnd (Dot (V 3) ''i'') (K (JNum 1))) (K (JNum 0))))) (SetV 5 (Bin BitOr (V 5) (K (JNum 256)))))]], Do (And (Neg (Loose (Bin BitAnd (Dot (V 0) ''Bb'') (K (JNum 512))) (K (JNum 0)))) (SetV 5 (Bin BitOr (V 5) (K (JNum 128))))), Ret (V 5)],
    fn ''Iie'' 2 1 [When (Loose (Dot (V 0) ''f'') (G ''Gie'')) [Do (SetV 2 (Call ''Lde'' [Call ''bde'' [Seq (Call ''yie'' []) (G ''wie''), V 1]])), Ret (Cond (Dot (V 0) ''e'') (And (And (And (And (Loose (V 2) (K (JNum 4))) (Neg (Loose (V 1) (Seq (Call ''Yje'' []) (G ''Wje''))))) (Neg (Loose (V 1) (Seq (Call ''Yje'' []) (G ''Tje''))))) (Neg (Loose (V 1) (Seq (Call ''Yje'' []) (G ''Uje''))))) (Neg (Loose (V 1) (Seq (Call ''Yje'' []) (G ''Vje''))))) (Loose (V 2) (K (JNum 2))))] [], When (And (Neg (Neg (Dot (V 0) ''d''))) (Or (Or (Meth (Dot (V 0) ''d'') ''Gc'' [V 1]) (Meth (Dot (V 0) ''d'') ''Gc'' [Call ''Mde'' [Call ''bde'' [Seq (Call ''yie'' []) (G ''wie''), V 1]]])) (Meth (Dot (V 0) ''d'') ''Gc'' [Call ''Rce'' [Seq (Call ''yie'' []) (G ''wie''), Dot (V 0) ''b'', V 1]]))) [Ret (K (JBool True))] [], When (Dot (V 0) ''f'') [When (Call ''ide'' [Seq (Call ''yie'' []) (Dot (V 0) ''f''), Call ''Ode'' [Call ''bde'' [G ''wie'', V 1]]]) [Do (SetV 2 (Call ''Lde'' [Call ''bde'' [G ''wie'', V 1]])), Ret (Cond (Dot (V 0) ''e'') (Loose (V 2) (K (JNum 4))) (Loose (V 2) (K (JNum 2))))] []] [], Ret (K (JBool False))],
    fn ''T8b'' 2 8 [Do (SetV 5 (New ''lmb'' [])), Do (Put (Dot (Dot (V 1) ''b'') ''c'') ''length'' (K (JNum 0))), Do (SetV 2 (Call ''JD'' [Call ''SBb'' [Call ''fCb'' [New ''jCb'' [K JNull, New ''Zvb'' [New ''fkb'' [Dot (Dot (V 0) ''a'') ''b''], K (JNum 1)]]], Call ''BAb'' [New ''TAb'' [], New ''RAb'' [], New ''ZAb'' [], Call ''WC'' [Call ''OC'' [G ''HL'', K (JNum 1)], G ''xue'', K (JNum 130), K (JNum 0), NewArr [Seq (Call ''FAb'' []) (G ''DAb'')]]]], K (JNum 16)])), Do (SetV 4 (Meth (V 2) ''Jc'' [])), Loop (Meth (V 4) ''Ob'' []) [Do (SetV 3 (Call ''JD'' [Meth (V 4) ''Pb'' [], K (JNum 15)])), Do (SetV 6 (Call ''N_b'' [Dot (V 0) ''a'', V 3])), When (Neg (Loose (Dot (V 6) ''b'') (K (JNum 0)))) [Do (SetV 7 (New ''y$b'' [V 1])), Do (Call ''qDb'' [Dot (V 5) ''c'', V 7]), Do (Put (V 7) ''p'' (Dot (V 3) ''a'')), Do (SetV 9 (Call ''Ztb'' [V 6, K (JNum 0)])), Loop (Neg (Loose (Dot (V 9) ''b'') (Dot (Dot (V 9) ''d'') ''c''))) [Do (SetV 8 (Call ''JD'' [Call ''lub'' [V 9], K (JNum 9)])), Do (Call ''NYb'' [V 8, V 7])] []] []] [], Do (Call ''bmb'' [Dot (V 1) ''b'', V 5])],
    fn ''gFb'' 1 7 [Do (SetV 7 (New ''_rb'' [])), Do (SetV 3 (New ''Kmb'' [Dot (Dot (V 0) ''a'') ''b''])), Loop (Bin Lt (Dot (V 3) ''a'') (Dot (Dot (Dot (V 3) ''c'') ''c'') ''length'')) [Do (SetV 1 (Call ''JD'' [Call ''Imb'' [V 3], K (JNum 60)])), Do (Call ''hjb'' [V 7, V 1, New ''lmb'' []])] [], Do (SetV 4 (New ''Kmb'' [Dot (Dot (V 0) ''a'') ''b''])), Loop (Bin Lt (Dot (V 4) ''a'') (Dot (Dot (Dot (V 4) ''c'') ''c'') ''length'')) [Do (SetV 1 (Call ''JD'' [Call ''Imb'' [V 4], K (JNum 60)])), Do (Put (V 1) ''i'' (G ''Dve'')), Do (SetV 6 (Meth (Dot (V 1) ''c'') ''Jc'' [])), Loop (Meth (V 6) ''Ob'' []) [Do (SetV 5 (Call ''JD'' [Meth (V 6) ''Pb'' [], K (JNum 60)])), Do (Meth (Call ''JD'' [Call ''Wd'' [Call ''ysb'' [Dot (V 7) ''f'', V 5]], K (JNum 16)]) ''Ec'' [V 1])] []] [], Do (SetV 2 (New ''Kmb'' [Dot (Dot (V 0) ''a'') ''b''])), Loop (Bin Lt (Dot (V 2) ''a'') (Dot (Dot (Dot (V 2) ''c'') ''c'') ''length'')) [Do (SetV 1 (Call ''JD'' [Call ''Imb'' [V 2], K (JNum 60)])), Do (Meth (Dot (V 1) ''c'') ''$b'' []), Do (Put (V 1) ''c'' (Call ''JD'' [Call ''Wd'' [Call ''ysb'' [Dot (V 7) ''f'', V 1]], K (JNum 16)]))] [], Do (Call ''$Eb'' [V 0])],
    fn ''eSb'' 1 7 [Do (SetV 7 (New ''_rb'' [])), Do (SetV 3 (New ''Kmb'' [Dot (Dot (V 0) ''a'') ''b''])), Loop (Bin Lt (Dot (V 3) ''a'') (Dot (Dot (Dot (V 3) ''c'') ''c'') ''length'')) [Do (SetV 1 (Call ''JD'' [Call ''Imb'' [V 3], K (JNum 82)])), Do (Call ''hjb'' [V 7, V 1, New ''lmb'' []])] [], Do (SetV 4 (New ''Kmb'' [Dot (Dot (V 0) ''a'') ''b''])), Loop (Bin Lt (Dot (V 4) ''a'') (Dot (Dot (Dot (V 4) ''c'') ''c'') ''length'')) [Do (SetV 1 (Call ''JD'' [Call ''Imb'' [V 4], K (JNum 82)])), Do (Put (V 1) ''o'' (G ''Dve'')), Do (SetV 6 (Meth (Dot (V 1) ''f'') ''Jc'' [])), Loop (Meth (V 6) ''Ob'' []) [Do (SetV 5 (Call ''JD'' [Meth (V 6) ''Pb'' [], K (JNum 82)])), Do (Meth (Call ''JD'' [Call ''Wd'' [Call ''ysb'' [Dot (V 7) ''f'', V 5]], K (JNum 16)]) ''Ec'' [V 1])] []] [], Do (SetV 2 (New ''Kmb'' [Dot (Dot (V 0) ''a'') ''b''])), Loop (Bin Lt (Dot (V 2) ''a'') (Dot (Dot (Dot (V 2) ''c'') ''c'') ''length'')) [Do (SetV 1 (Call ''JD'' [Call ''Imb'' [V 2], K (JNum 82)])), Do (Meth (Dot (V 1) ''f'') ''$b'' []), Do (Put (V 1) ''f'' (Call ''JD'' [Call ''Wd'' [Call ''ysb'' [Dot (V 7) ''f'', V 1]], K (JNum 16)]))] [], Do (Call ''ZRb'' [V 0])],
    fn ''S6b'' 2 11 [Do (SetV 8 (Call ''DYb'' [Dot (V 1) ''a''])), Do (SetV 4 (Bin Times (Call ''Ueb'' [Call ''MD'' [Call ''oNb'' [V 8, Seq (Call ''nyc'' []) (G ''Mxc'')]]]) (K (JNum 2)))), Do (SetV 10 (Call ''Ueb'' [Call ''MD'' [Call ''oNb'' [V 8, G ''Txc'']]])), Do (SetV 9 (Meth (Dot (G ''$wnd'') ''Math'') ''max'' [V 4, V 10])), Do (SetV 5 (Call ''SC'' [G ''aE'', G ''Jve'', K (JNum 30), Bin Plus (Bin Minus (Dot (V 1) ''f'') (Dot (V 1) ''c'')) (K (JNum 1)), K (JNum 15), K (JNum 1)])), Do (SetV 3 (Minus1 (V 9))), Do (SetV 2 (K (JNum 0))), Do (SetV 7 (Meth (Dot (V 1) ''b'') ''Jc'' [])), Loop (Meth (V 7) ''Ob'' []) [Do (SetV 6 (Call ''JD'' [Meth (V 7) ''Pb'' [], K (JNum 9)])), Do (SetV 3 (Bin Plus (V 3) (Bin Plus (Idx (Dot (V 0) ''a'') (Dot (Dot (V 6) ''c'') ''p'')) (V 9)))), Do (PutIdx (V 5) (Bin Minus (SetV 2 (Bin Minus (V 2) (K (JNum (- 1))))) (K (JNum 1))) (V 3))] [], Do (SetV 3 (Bin Plus (V 3) (Bin Plus (Idx (Dot (V 0) ''a'') (Dot (Dot (Dot (V 1) ''a'') ''c'') ''p'')) (V 9)))), Do (PutIdx (V 5) (Bin Minus (SetV 2 (Bin Minus (V 2) (K (JNum (- 1))))) (K (JNum 1))) (V 3)), Do (SetV 12 (New ''Kmb'' [Dot (V 1) ''e''])), Loop (Bin Lt (Dot (V 12) ''a'') (Dot (Dot (Dot (V 12) ''c'') ''c'') ''length'')) [Do (SetV 11 (Call ''JD'' [Call ''Imb'' [V 12], K (JNum 9)])), Do (SetV 3 (Bin Plus (V 3) (Bin Plus (Idx (Dot (V 0) ''a'') (Dot (Dot (V 11) ''c'') ''p'')) (V 9)))), Do (PutIdx (V 5) (Bin Minus (SetV 2 (Bin Minus (V 2) (K (JNum (- 1))))) (K (JNum 1))) (V 3))] [], Ret (V 5)],
    fn ''PIc'' 4 9 [Do (SetV 12 (New ''Gzb'' [New ''yJc'' [V 0]])), Do (Seq (Seq (SetV 7 (Call ''WC'' [Call ''OC'' [G ''SP'', K (JNum 1)], G ''Bye'', K (JNum 9), K (JNum 0), NewArr [V 1, V 2]])) (SetV 8 (K (JNum 0)))) (SetV 9 (Dot (V 7) ''length''))), Loop (Bin Lt (V 8) (V 9)) [Do (SetV 6 (Idx (V 7) (V 8))), Do (SetV 11 (Meth (Call ''LIc'' [V 6, V 3]) ''Jc'' [])), Loop (Meth (V 11) ''Ob'' []) [Do (SetV 10 (Call ''JD'' [Meth (V 11) ''Pb'' [], K (JNum 12)])), Do (SetV 5 (New ''UZb'' [Dot (V 10) ''b''])), Loop (Or (Call ''Hmb'' [Dot (V 5) ''a'']) (Call ''Hmb'' [Dot (V 5) ''b''])) [Do (SetV 4 (Call ''JD'' [Cond (Call ''Hmb'' [Dot (V 5) ''a'']) (Call ''Imb'' [Dot (V 5) ''a'']) (Call ''Imb'' [Dot (V 5) ''b'']), K (JNum 17)])), When (Neg (Call ''AWb'' [V 4])) [Do (Loose (Meth (Dot (V 12) ''a'') ''yc'' [V 10, Seq (Call ''Qdb'' []) (G ''Odb'')]) (K JNull)), Do (And (Call ''dJc'' [V 4]) (Call ''yzb'' [V 12, Cond (Loose (V 10) (Dot (V 4) ''c'')) (Dot (V 4) ''d'') (Dot (V 4) ''c'')]))] []] []] []] [Do (SetV 8 (Bin Minus (V 8) (K (JNum (- 1)))))], Ret (Seq (Call ''Qb'' [V 12]) (New ''nmb'' [V 12]))]]"

definition code_5696_5697 :: "(string \<times> jfun) list" where
  "code_5696_5697 = [
    fn ''fZc'' 4 3 [When (V 1) [Do (SetV 5 (Bin Plus (Call ''Ueb'' [Call ''MD'' [Call ''oNb'' [V 1, Seq (Call ''_Wc'' []) (G ''UWc'')]]]) (V 3))), Do (SetV 6 (Bin Plus (V 2) (Bin Divide (Call ''Ueb'' [Call ''MD'' [Call ''oNb'' [V 1, G ''OWc'']]]) (K (JNum 2))))), Do (Call ''rNb'' [V 1, G ''ZWc'', Call ''Cfb'' [Call ''gdb'' [Call ''Scb'' [Meth (Dot (G ''$wnd'') ''Math'') ''round'' [V 5]]]]]), Do (Call ''rNb'' [V 1, G ''$Wc'', Call ''Cfb'' [Call ''gdb'' [Call ''Scb'' [Meth (Dot (G ''$wnd'') ''Math'') ''round'' [V 6]]]]]), Do (Or (Loose (Dot (Dot (V 1) ''d'') ''b'') (K (JNum 0))) (Call ''fZc'' [V 0, Call ''JD'' [Call ''yr'' [Seq (SetV 4 (Call ''Ztb'' [Dot (Dot (New ''OTc'' [V 1]) ''a'') ''d'', K (JNum 0)])) (New ''RTc'' [V 4])], K (JNum 40)], Bin Plus (Bin Plus (V 2) (Call ''Ueb'' [Call ''MD'' [Call ''oNb'' [V 1, G ''OWc'']]])) (Dot (V 0) ''b''), Bin Plus (V 3) (Call ''Ueb'' [Call ''MD'' [Call ''oNb'' [V 1, G ''RWc'']]])])), Do (And (Neg (Loose (Call ''oNb'' [V 1, G ''XWc'']) (K JNull))) (Call ''fZc'' [V 0, Call ''JD'' [Call ''oNb'' [V 1, G ''XWc''], K (JNum 40)], V 2, V 3]))] []],
    fn ''tsd'' 2 4 [Do (SetV 5 (Bin Minus (Dot (Call ''JD'' [Call ''cvd'' [V 0, Seq (Call ''vjd'' []) (G ''Mid'')], K (JNum 64)]) ''g'') (Dot (Call ''JD'' [Call ''cvd'' [V 1, G ''Mid''], K (JNum 64)]) ''g''))), When (Neg (Loose (V 5) (K (JNum 0)))) [Ret (V 5)] [], Do (SetV 2 (Call ''JD'' [Call ''cvd'' [V 0, G ''Hid''], K (JNum 15)])), Do (SetV 3 (Call ''JD'' [Call ''cvd'' [V 1, G ''Hid''], K (JNum 15)])), When (And (Neg (Neg (V 2))) (Neg (Neg (V 3)))) [Do (SetV 4 (Bin Minus (Dot (V 2) ''a'') (Dot (V 3) ''a''))), When (Neg (Loose (V 4) (K (JNum 0)))) [Ret (V 4)] []] [], Switch (Dot (Call ''JD'' [Call ''cvd'' [V 0, G ''Mid''], K (JNum 64)]) ''g'') [(Some (JNum 1), [Ret (Call ''$eb'' [Dot (V 0) ''i'', Dot (V 1) ''i''])]), (Some (JNum 2), [Ret (Call ''$eb'' [Dot (V 0) ''j'', Dot (V 1) ''j''])]), (Some (JNum 3), [Ret (Call ''$eb'' [Dot (V 1) ''i'', Dot (V 0) ''i''])]), (Some (JNum 4), [Ret (Call ''$eb'' [Dot (V 1) ''j'', Dot (V 0) ''j''])]), (None, [Raise (Call ''Lcb'' [New ''nfb'' [G ''zye'']])])]]]"

definition code_5700_5717 :: "(string \<times> jfun) list" where
  "code_5700_5717 = [
    fn ''IGc'' 2 13 [Do (SetV 13 (K (JNum (- 1)))), Do (SetV 14 (K (JNum 0))), Do (Seq (Seq (SetV 10 (V 1)) (SetV 11 (K (JNum 0)))) (SetV 12 (Dot (V 10) ''length''))), Loop (Bin Lt (V 11) (V 12)) [Do (SetV 9 (Idx (V 10) (V 11))), Do (Seq (Seq (SetV 6 (V 9)) (SetV 7 (K (JNum 0)))) (SetV 8 (Dot (V 6) ''length''))), Loop (Bin Lt (V 7) (V 8)) [Do (SetV 5 (Idx (V 6) (V 7))), Do (SetV 2 (New ''Qlc'' [V 0, Cond (Loose (V 13) (K (JNum (- 1)))) (Idx (V 1) (K (JNum 0))) (Idx (V 1) (V 13)), Call ''JD'' [Call ''oNb'' [Call ''DYb'' [V 5], Seq (Call ''nyc'' []) (G ''Ovc'')], K (JNum 269)], Call ''Ccc'' [V 5], Call ''Rdb'' [Call ''LD'' [Call ''oNb'' [Call ''DYb'' [V 5], G ''Nvc'']]]])), Do (SetV 3 (K (JNum 0))), Loop (Bin Lt (V 3) (Dot (Dot (Dot (V 5) ''j'') ''c'') ''length'')) [Do (SetV 4 (Bin Plus (V 3) (K (JNum 1)))), Loop (Bin Lt (V 4) (Dot (Dot (Dot (V 5) ''j'') ''c'') ''length'')) [Do (And (Bin Gt (Call ''Mlc'' [V 2, Call ''JD'' [Call ''dmb'' [Dot (V 5) ''j'', V 3], K (JNum 12)], Call ''JD'' [Call ''dmb'' [Dot (V 5) ''j'', V 4], K (JNum 12)]]) (K (JNum 0))) (SetV 14 (Bin Minus (V 14) (K (JNum (- 1))))))] [Do (Bin Minus (SetV 4 (Bin Minus (V 4) (K (JNum (- 1))))) (K (JNum 1)))]] [Do (Bin Minus (SetV 3 (Bin Minus (V 3) (K (JNum (- 1))))) (K (JNum 1)))]] [Do (SetV 7 (Bin Minus (V 7) (K (JNum (- 1)))))], Do (SetV 13 (Bin Minus (V 13) (K (JNum (- 1)))))] [Do (SetV 11 (Bin Minus (V 11) (K (JNum (- 1)))))], Ret (V 14)],
    fn ''hic'' 2 5 [Do (And (Loose (V 1) (Seq (Call ''IAc'' []) (G ''FAc''))) (Call ''Onb'' [Call ''JD'' [Call ''Qc'' [Dot (V 0) ''a'', Seq (Call ''Nhc'' []) (G ''Jhc'')], K (JNum 16)]])), Do (SetV 4 (Meth (Call ''JD'' [Call ''Qc'' [Dot (V 0) ''a'', Seq (Call ''Nhc'' []) (G ''Jhc'')], K (JNum 16)]) ''Jc'' [])), Loop (Meth (V 4) ''Ob'' []) [Do (SetV 3 (Call ''JD'' [Meth (V 4) ''Pb'' [], K (JNum 107)])), Do (SetV 2 (Dot (Dot (Call ''JD'' [Call ''dmb'' [Dot (V 3) ''j'', K (JNum 0)], K (JNum 113)]) ''d'') ''j'')), Do (SetV 5 (New ''nmb'' [Dot (V 3) ''j''])), Do (Call ''jmb'' [V 5, New ''Nic'' []]), Switch (Dot (V 1) ''g'') [(Some (JNum 2), [Do (Call ''_hc'' [V 0, V 5, V 2, Seq (Call ''vic'' []) (G ''tic''), K (JNum 1)]), Break]), (Some (JNum 1), []), (Some (JNum 0), [Do (SetV 6 (Call ''bic'' [V 5])), Do (Call ''_hc'' [V 0, New ''_jb'' [V 5, K (JNum 0), V 6], V 2, Seq (Call ''vic'' []) (G ''tic''), K (JNum 0)]), Do (Call ''_hc'' [V 0, New ''_jb'' [V 5, V 6, Dot (Dot (V 5) ''c'') ''length''], V 2, G ''tic'', K (JNum 1)])])]] []],
    fn ''tIc'' 1 7 [Do (SetV 4 (Call ''JD'' [Call ''oNb'' [V 0, Seq (Call ''Wrc'' []) (G ''grc'')], K (JNum 9)])), Do (SetV 3 (Dot (V 0) ''j'')), Do (SetV 2 (Seq (Call ''MDb'' [K (JNum 0), Dot (Dot (V 3) ''c'') ''length'']) (Call ''JD'' [Idx (Dot (V 3) ''c'') (K (JNum 0)), K (JNum 12)]))), Do (SetV 6 (New ''Kmb'' [Dot (V 4) ''j''])), Loop (Bin Lt (Dot (V 6) ''a'') (Dot (Dot (Dot (V 6) ''c'') ''c'') ''length'')) [Do (SetV 5 (Call ''JD'' [Call ''Imb'' [V 6], K (JNum 12)])), When (Same (Call ''XD'' [V 5]) (Call ''XD'' [Call ''oNb'' [V 2, G ''urc'']])) [When (And (Loose (Dot (V 5) ''j'') (Seq (Call ''Bmd'' []) (G ''hmd''))) (Bin Gt (Dot (V 0) ''p'') (Dot (V 4) ''p''))) [Do (Call ''xZb'' [V 5, G ''ymd'']), When (Dot (V 5) ''d'') [Do (SetV 7 (Dot (Dot (V 5) ''o'') ''b'')), Do (SetV 1 (Dot (Dot (V 5) ''a'') ''b'')), Do (Put (Dot (V 5) ''a'') ''b'' (Bin Minus (V 7) (V 1)))] []] [When (And (Loose (Dot (V 5) ''j'') (G ''ymd'')) (Bin Gt (Dot (V 4) ''p'') (Dot (V 0) ''p''))) [Do (Call ''xZb'' [V 5, G ''hmd'']), When (Dot (V 5) ''d'') [Do (SetV 7 (Dot (Dot (V 5) ''o'') ''b'')), Do (SetV 1 (Dot (Dot (V 5) ''a'') ''b'')), Do (Put (Dot (V 5) ''a'') ''b'' (Minus1 (Bin Minus (V 7) (V 1))))] []] []], Break] []] [], Ret (V 4)],
    fn ''pdd'' 2 7 [When (Or (Loose (V 1) (K JNull)) (Loose (Dot (V 1) ''length'') (K (JNum 0)))) [Ret (K JNull)] [], Do (SetV 4 (Call ''JD'' [Call ''fjb'' [Dot (V 0) ''a'', V 1], K (JNum 144)])), When (Neg (V 4)) [Do (SetV 3 (Seq (SetV 7 (Meth (Meth (Dot (New ''qkb'' [Dot (V 0) ''b'']) ''a'') ''vc'' []) ''Jc'' [])) (New ''vkb'' [V 7]))), Loop (Meth (Dot (V 3) ''a'') ''Ob'' []) [Do (SetV 2 (Seq (SetV 5 (Call ''JD'' [Meth (Dot (V 3) ''a'') ''Pb'' [], K (JNum 45)])) (Call ''JD'' [Meth (V 5) ''kd'' [], K (JNum 144)]))), Do (SetV 6 (Dot (V 2) ''c'')), Do (SetV 8 (Dot (V 1) ''length'')), When (And (Call ''vgb'' [Meth (V 6) ''substr'' [Bin Minus (Dot (V 6) ''length'') (V 8), V 8], V 1]) (Or (Loose (Dot (V 1) ''length'') (Dot (V 6) ''length'')) (Loose (Call ''sgb'' [V 6, Bin Minus (Bin Minus (Dot (V 6) ''length'') (Dot (V 1) ''length'')) (K (JNum 1))]) (K (JNum 46))))) [When (V 4) [Ret (K JNull)] [], Do (SetV 4 (V 2))] []] [], Do (And (Neg (Neg (V 4))) (Call ''ijb'' [Dot (V 0) ''a'', V 1, V 4]))] [], Ret (V 4)],
    fn ''aUb'' 3 10 [Do (SetV 5 (New ''lgd'' [V 1, V 2])), Do (SetV 10 (New ''Kmb'' [Dot (V 0) ''a''])), Loop (Bin Lt (Dot (V 10) ''a'') (Dot (Dot (Dot (V 10) ''c'') ''c'') ''length'')) [Do (SetV 9 (Call ''JD'' [Call ''Imb'' [V 10], K (JNum 9)])), Do (Call ''Vfd'' [Dot (V 9) ''n'', V 5]), Do (SetV 12 (New ''Kmb'' [Dot (V 9) ''j''])), Loop (Bin Lt (Dot (V 12) ''a'') (Dot (Dot (Dot (V 12) ''c'') ''c'') ''length'')) [Do (SetV 11 (Call ''JD'' [Call ''Imb'' [V 12], K (JNum 12)])), Do (SetV 4 (New ''Kmb'' [Dot (V 11) ''g''])), Loop (Bin Lt (Dot (V 4) ''a'') (Dot (Dot (Dot (V 4) ''c'') ''c'') ''length'')) [Do (SetV 3 (Call ''JD'' [Call ''Imb'' [V 4], K (JNum 17)])), Do (Call ''wgd'' [Dot (V 3) ''a'', V 5]), Do (SetV 6 (Call ''JD'' [Call ''oNb'' [V 3, Seq (Call ''nyc'' []) (G ''Bwc'')], K (JNum 79)])), Do (And (Neg (Neg (V 6))) (Call ''wgd'' [V 6, V 5])), Do (SetV 8 (New ''Kmb'' [Dot (V 3) ''b''])), Loop (Bin Lt (Dot (V 8) ''a'') (Dot (Dot (Dot (V 8) ''c'') ''c'') ''length'')) [Do (SetV 7 (Call ''JD'' [Call ''Imb'' [V 8], K (JNum 70)])), Do (Call ''Vfd'' [Dot (V 7) ''n'', V 5])] []] []] []] []],
    fn ''VXb'' 3 10 [Do (SetV 5 (New ''lgd'' [V 1, V 2])), Do (SetV 10 (New ''Kmb'' [Dot (V 0) ''a''])), Loop (Bin Lt (Dot (V 10) ''a'') (Dot (Dot (Dot (V 10) ''c'') ''c'') ''length'')) [Do (SetV 9 (Call ''JD'' [Call ''Imb'' [V 10], K (JNum 9)])), Do (Call ''Vfd'' [Dot (V 9) ''n'', V 5]), Do (SetV 12 (New ''Kmb'' [Dot (V 9) ''j''])), Loop (Bin Lt (Dot (V 12) ''a'') (Dot (Dot (Dot (V 12) ''c'') ''c'') ''length'')) [Do (SetV 11 (Call ''JD'' [Call ''Imb'' [V 12], K (JNum 12)])), Do (SetV 4 (New ''Kmb'' [Dot (V 11) ''g''])), Loop (Bin Lt (Dot (V 4) ''a'') (Dot (Dot (Dot (V 4) ''c'') ''c'') ''length'')) [Do (SetV 3 (Call ''JD'' [Call ''Imb'' [V 4], K (JNum 17)])), Do (Call ''wgd'' [Dot (V 3) ''a'', V 5]), Do (SetV 6 (Call ''JD'' [Call ''oNb'' [V 3, Seq (Call ''nyc'' []) (G ''Bwc'')], K (JNum 79)])), Do (And (Neg (Neg (V 6))) (Call ''wgd'' [V 6, V 5])), Do (SetV 8 (New ''Kmb'' [Dot (V 3) ''b''])), Loop (Bin Lt (Dot (V 8) ''a'') (Dot (Dot (Dot (V 8) ''c'') ''c'') ''length'')) [Do (SetV 7 (Call ''JD'' [Call ''Imb'' [V 8], K (JNum 70)])), Do (Call ''Vfd'' [Dot (V 7) ''n'', V 5])] []] []] []] []],
    fn ''I$b'' 1 0 [When (Loose (Dot (Seq (And (Neg (Dot (V 0) ''b'')) (Put (V 0) ''b'' (New ''jhe'' [G ''O3'', V 0, K (JNum 4), K (JNum 7)]))) (Dot (V 0) ''b'')) ''i'') (K (JNum 0))) [Raise (Call ''Lcb'' [New ''Fbd'' [K (JStr ''Edges must have a source.'')]])] [When (Loose (Dot (Seq (And (Neg (Dot (V 0) ''c'')) (Put (V 0) ''c'' (New ''jhe'' [G ''O3'', V 0, K (JNum 5), K (JNum 8)]))) (Dot (V 0) ''c'')) ''i'') (K (JNum 0))) [Raise (Call ''Lcb'' [New ''Fbd'' [K (JStr ''Edges must have a target.'')]])] [Do (And (Neg (Dot (V 0) ''b'')) (Put (V 0) ''b'' (New ''jhe'' [G ''O3'', V 0, K (JNum 4), K (JNum 7)]))), When (Neg (And (Bin Le (Dot (Dot (V 0) ''b'') ''i'') (K (JNum 1))) (Seq (And (Neg (Dot (V 0) ''c'')) (Put (V 0) ''c'' (New ''jhe'' [G ''O3'', V 0, K (JNum 5), K (JNum 8)]))) (Bin Le (Dot (Dot (V 0) ''c'') ''i'') (K (JNum 1)))))) [Raise (Call ''Lcb'' [New ''Fbd'' [K (JStr ''Hyperedges are not supported.'')]])] []]]],
    fn ''X9b'' 2 2 [Do (Meth (V 1) ''Tg'' [K (JStr ''Partition preprocessing''), K (JNum 1)]), Do (SetV 3 (Call ''JD'' [Call ''SBb'' [Call ''VBb'' [New ''jCb'' [K JNull, New ''Zvb'' [Dot (V 0) ''a'', K (JNum 16)]], New ''aac'' []], Call ''BAb'' [New ''TAb'' [], New ''RAb'' [], New ''ZAb'' [], Call ''WC'' [Call ''OC'' [G ''HL'', K (JNum 1)], G ''xue'', K (JNum 130), K (JNum 0), NewArr [Seq (Call ''FAb'' []) (G ''DAb'')]]]], K (JNum 16)])), Do (SetV 2 (Call ''JD'' [Call ''SBb'' [Call ''VBb'' [Call ''XBb'' [Call ''VBb'' [New ''jCb'' [K JNull, New ''Zvb'' [Dot (V 0) ''a'', K (JNum 16)]], New ''cac'' []], New ''eac'' []], New ''gac'' [V 3]], Call ''BAb'' [New ''TAb'' [], New ''RAb'' [], New ''ZAb'' [], Call ''WC'' [Call ''OC'' [G ''HL'', K (JNum 1)], G ''xue'', K (JNum 130), K (JNum 0), NewArr [G ''DAb'']]]], K (JNum 16)])), Do (Call ''YBb'' [Meth (V 2) ''Mc'' [], New ''iac'' []]), Do (Meth (V 1) ''Ug'' [])],
    fn ''u2b'' 1 3 [When (Neg (Call ''pNb'' [V 0, Seq (Call ''nyc'' []) (G ''Twc'')])) [Ret (K JUndef)] [], Do (SetV 3 (Call ''JD'' [Call ''oNb'' [V 0, G ''Twc''], K (JNum 22)])), When (Meth (V 3) ''dc'' []) [Ret (K JUndef)] [], Do (SetV 2 (Seq (SetV 1 (Call ''JD'' [Call ''web'' [G ''I2''], K (JNum 10)])) (New ''Nrb'' [V 1, Call ''JD'' [Call ''nDb'' [V 1, Dot (V 1) ''length''], K (JNum 10)], K (JNum 0)]))), Do (Cond (Meth (V 3) ''Gc'' [Seq (Call ''old'' []) (G ''jld'')]) (Call ''Hrb'' [V 2, G ''jld'']) (Call ''Hrb'' [V 2, G ''kld''])), Do (Or (Meth (V 3) ''Gc'' [G ''hld'']) (Call ''Hrb'' [V 2, G ''hld''])), Do (Cond (Meth (V 3) ''Gc'' [G ''gld'']) (Call ''Hrb'' [V 2, G ''nld'']) (Cond (Meth (V 3) ''Gc'' [G ''fld'']) (Call ''Hrb'' [V 2, G ''mld'']) (And (Meth (V 3) ''Gc'' [G ''ild'']) (Call ''Hrb'' [V 2, G ''lld''])))), Do (Cond (Meth (V 3) ''Gc'' [G ''nld'']) (Call ''Hrb'' [V 2, G ''gld'']) (Cond (Meth (V 3) ''Gc'' [G ''mld'']) (Call ''Hrb'' [V 2, G ''fld'']) (And (Meth (V 3) ''Gc'' [G ''lld'']) (Call ''Hrb'' [V 2, G ''ild''])))), Do (Call ''rNb'' [V 0, G ''Twc'', V 2])],
    fn ''l7b'' 2 2 [Do (Put This ''b'' (New ''lmb'' [])), Do (Put This ''e'' (New ''lmb'' [])), Do (Put This ''a'' (V 0)), Do (Put This ''d'' (V 1)), Do (Call ''i7b'' [This]), Do (Call ''j7b'' [This]), Do (Cond (Meth (Dot This ''b'') ''dc'' []) (Put This ''c'' (Dot (Dot (V 0) ''c'') ''p'')) (Put This ''c'' (Dot (Dot (Call ''JD'' [Meth (Dot This ''b'') ''Xb'' [K (JNum 0)], K (JNum 9)]) ''c'') ''p''))), Do (Cond (Loose (Dot (Dot (Dot This ''e'') ''c'') ''length'') (K (JNum 0))) (Put This ''f'' (Dot (Dot (V 0) ''c'') ''p'')) (Put This ''f'' (Dot (Dot (Call ''JD'' [Call ''dmb'' [Dot This ''e'', Bin Minus (Dot (Dot (Dot This ''e'') ''c'') ''length'') (K (JNum 1))], K (JNum 9)]) ''c'') ''p''))), Do (SetV 3 (Meth (Call ''JD'' [Call ''oNb'' [V 0, Seq (Call ''Wrc'' []) (G ''Grc'')], K (JNum 16)]) ''Jc'' [])), Loop (Meth (V 3) ''Ob'' []) [Do (SetV 2 (Call ''JD'' [Meth (V 3) ''Pb'' [], K (JNum 70)])), When (Call ''pNb'' [V 2, Seq (Call ''nyc'' []) (G ''ewc'')]) [Do (Put This ''d'' (Call ''JD'' [Call ''oNb'' [V 2, G ''ewc''], K (JNum 231)])), Break] []] []],
    fn ''wlc'' 3 8 [Do (SetV 3 (Call ''JD'' [Call ''ejb'' [Dot (V 0) ''b'', V 1], K (JNum 48)])), Do (SetV 5 (Call ''JD'' [Call ''ejb'' [Dot (V 0) ''b'', V 2], K (JNum 48)])), Do (SetV 4 (Call ''JD'' [Call ''ejb'' [Dot (V 0) ''g'', V 1], K (JNum 48)])), Do (SetV 6 (Call ''JD'' [Call ''ejb'' [Dot (V 0) ''g'', V 2], K (JNum 48)])), Do (Meth (Dot (V 3) ''a'') ''yc'' [V 2, V 3]), Do (Meth (Dot (V 6) ''a'') ''yc'' [V 1, V 6]), Do (SetV 10 (Meth (Meth (Dot (V 5) ''a'') ''ec'' []) ''Jc'' [])), Loop (Meth (V 10) ''Ob'' []) [Do (SetV 9 (Call ''JD'' [Meth (V 10) ''Pb'' [], K (JNum 9)])), Do (Meth (Dot (V 3) ''a'') ''yc'' [V 9, V 3]), Do (Call ''esb'' [Call ''JD'' [Call ''ejb'' [Dot (V 0) ''g'', V 9], K (JNum 48)], V 1]), Do (Call ''xe'' [Call ''JD'' [Call ''ejb'' [Dot (V 0) ''g'', V 9], K (JNum 48)], V 4])] [], Do (SetV 8 (Meth (Meth (Dot (V 4) ''a'') ''ec'' []) ''Jc'' [])), Loop (Meth (V 8) ''Ob'' []) [Do (SetV 7 (Call ''JD'' [Meth (V 8) ''Pb'' [], K (JNum 9)])), Do (Meth (Dot (V 6) ''a'') ''yc'' [V 7, V 6]), Do (Call ''esb'' [Call ''JD'' [Call ''ejb'' [Dot (V 0) ''b'', V 7], K (JNum 48)], V 2]), Do (Call ''xe'' [Call ''JD'' [Call ''ejb'' [Dot (V 0) ''b'', V 7], K (JNum 48)], V 5])] []],
    fn ''dIc'' 3 8 [Do (SetV 3 (Call ''JD'' [Call ''ejb'' [Dot (V 0) ''a'', V 1], K (JNum 48)])), Do (SetV 5 (Call ''JD'' [Call ''ejb'' [Dot (V 0) ''a'', V 2], K (JNum 48)])), Do (SetV 4 (Call ''JD'' [Call ''ejb'' [Dot (V 0) ''b'', V 1], K (JNum 48)])), Do (SetV 6 (Call ''JD'' [Call ''ejb'' [Dot (V 0) ''b'', V 2], K (JNum 48)])), Do (Meth (Dot (V 3) ''a'') ''yc'' [V 2, V 3]), Do (Meth (Dot (V 6) ''a'') ''yc'' [V 1, V 6]), Do (SetV 10 (Meth (Meth (Dot (V 5) ''a'') ''ec'' []) ''Jc'' [])), Loop (Meth (V 10) ''Ob'' []) [Do (SetV 9 (Call ''JD'' [Meth (V 10) ''Pb'' [], K (JNum 9)])), Do (Meth (Dot (V 3) ''a'') ''yc'' [V 9, V 3]), Do (Call ''esb'' [Call ''JD'' [Call ''ejb'' [Dot (V 0) ''b'', V 9], K (JNum 48)], V 1]), Do (Call ''xe'' [Call ''JD'' [Call ''ejb'' [Dot (V 0) ''b'', V 9], K (JNum 48)], V 4])] [], Do (SetV 8 (Meth (Meth (Dot (V 4) ''a'') ''ec'' []) ''Jc'' [])), Loop (Meth (V 8) ''Ob'' []) [Do (SetV 7 (Call ''JD'' [Meth (V 8) ''Pb'' [], K (JNum 9)])), Do (Meth (Dot (V 6) ''a'') ''yc'' [V 7, V 6]), Do (Call ''esb'' [Call ''JD'' [Call ''ejb'' [Dot (V 0) ''a'', V 7], K (JNum 48)], V 2]), Do (Call ''xe'' [Call ''JD'' [Call ''ejb'' [Dot (V 0) ''a'', V 7], K (JNum 48)], V 5])] []],
    fn ''Zhb'' 0 1 [Do (SetG ''Zhb'' (G ''qdb'')), Do (SetG ''Uhb'' (New ''kib'' [K (JNum 1), K (JNum 1)])), Do (SetG ''Whb'' (New ''kib'' [K (JNum 1), K (JNum 10)])), Do (SetG ''Yhb'' (New ''kib'' [K (JNum 0), K (JNum 0)])), Do (SetG ''Thb'' (New ''kib'' [K (JNum (- 1)), K (JNum 1)])), Do (SetG ''Vhb'' (Call ''WC'' [Call ''OC'' [G ''lJ'', K (JNum 1)], G ''aue'', K (JNum 91), K (JNum 0), NewArr [G ''Yhb'', G ''Uhb'', New ''kib'' [K (JNum 1), K (JNum 2)], New ''kib'' [K (JNum 1), K (JNum 3)], New ''kib'' [K (JNum 1), K (JNum 4)], New ''kib'' [K (JNum 1), K (JNum 5)], New ''kib'' [K (JNum 1), K (JNum 6)], New ''kib'' [K (JNum 1), K (JNum 7)], New ''kib'' [K (JNum 1), K (JNum 8)], New ''kib'' [K (JNum 1), K (JNum 9)], G ''Whb'']])), Do (SetG ''Xhb'' (Call ''SC'' [G ''lJ'', G ''aue'', K (JNum 91), K (JNum 32), K (JNum 0), K (JNum 1)])), Do (SetV 0 (K (JNum 0))), Loop (Bin Lt (V 0) (Dot (G ''Xhb'') ''length'')) [Do (PutIdx (G ''Xhb'') (V 0) (Cond (Call ''Ucb'' [Call ''adb'' [K (JNum 1), V 0], K (JNum 0)]) (Call ''tib'' [Call ''adb'' [K (JNum 1), V 0]]) (Call ''fib'' [Call ''tib'' [Call ''Zcb'' [Call ''adb'' [K (JNum 1), V 0]]]])))] [Do (Bin Minus (SetV 0 (Bin Minus (V 0) (K (JNum (- 1))))) (K (JNum 1)))]],
    fn ''mHb'' 7 0 [Do (Put (V 0) ''c'' (Dot (Meth (V 3) ''Jf'' []) ''a'')), Do (Put (V 0) ''d'' (Dot (Meth (V 3) ''Jf'' []) ''b'')), When (V 4) [Do (Put (V 0) ''c'' (Bin Plus (Dot (V 0) ''c'') (Dot (Meth (V 4) ''Jf'' []) ''a''))), Do (Put (V 0) ''d'' (Bin Plus (Dot (V 0) ''d'') (Dot (Meth (V 4) ''Jf'' []) ''b'')))] [], Do (Put (V 0) ''b'' (Dot (Meth (V 1) ''Kf'' []) ''a'')), Do (Put (V 0) ''a'' (Dot (Meth (V 1) ''Kf'' []) ''b'')), When (Neg (V 4)) [Do (Cond (V 2) (Put (V 0) ''c'' (Bin Minus (Dot (V 0) ''c'') (Bin Plus (V 6) (Dot (Meth (V 1) ''Kf'' []) ''a'')))) (Put (V 0) ''c'' (Bin Plus (Dot (V 0) ''c'') (Bin Plus (Dot (Meth (V 3) ''Kf'' []) ''a'') (V 6)))))] [Switch (Dot (Meth (V 4) ''$f'' []) ''g'') [(Some (JNum 0), []), (Some (JNum 2), [Do (Put (V 0) ''c'' (Bin Plus (Dot (V 0) ''c'') (Bin Plus (Bin Plus (Bin Plus (Dot (Meth (V 4) ''Kf'' []) ''a'') (V 6)) (Dot (V 5) ''a'')) (V 6)))), Break]), (Some (JNum 4), [Do (Put (V 0) ''c'' (Bin Minus (Dot (V 0) ''c'') (Bin Plus (Bin Plus (Bin Plus (V 6) (Dot (V 5) ''a'')) (V 6)) (Dot (Meth (V 1) ''Kf'' []) ''a'')))), Break]), (Some (JNum 1), [Do (Put (V 0) ''c'' (Bin Plus (Dot (V 0) ''c'') (Bin Plus (Dot (Meth (V 4) ''Kf'' []) ''a'') (V 6)))), Do (Put (V 0) ''d'' (Bin Minus (Dot (V 0) ''d'') (Bin Plus (Bin Plus (Bin Plus (V 6) (Dot (V 5) ''b'')) (V 6)) (Dot (Meth (V 1) ''Kf'' []) ''b'')))), Break]), (Some (JNum 3), [Do (Put (V 0) ''c'' (Bin Plus (Dot (V 0) ''c'') (Bin Plus (Dot (Meth (V 4) ''Kf'' []) ''a'') (V 6)))), Do (Put (V 0) ''d'' (Bin Plus (Dot (V 0) ''d'') (Bin Plus (Bin Plus (Bin Plus (Dot (Meth (V 4) ''Kf'' []) ''b'') (V 6)) (Dot (V 5) ''b'')) (V 6))))])]]],
    fn ''WPc'' 4 11 [Do (SetV 5 (V 2)), When (Bin Lt (V 2) (V 3)) [Do (SetV 12 (Seq (Seq (Seq (Seq (Seq (Seq (Seq (Seq (Seq (SetV 13 (New ''DPc'' [Dot (V 0) ''p''])) (SetV 14 (New ''DPc'' [Dot (V 0) ''p'']))) (Call ''xe'' [Dot (V 13) ''e'', Dot (V 0) ''e''])) (Put (V 13) ''q'' (Dot (V 0) ''q''))) (Put (V 13) ''r'' (V 14))) (Call ''uPc'' [V 13])) (Call ''xe'' [Dot (V 14) ''j'', Dot (V 0) ''j''])) (Put (V 14) ''r'' (V 13))) (Call ''uPc'' [V 14])) (New ''prd'' [V 13, V 14]))), Do (SetV 11 (Call ''JD'' [Dot (V 12) ''a'', K (JNum 116)])), Do (SetV 10 (Call ''JD'' [Dot (V 12) ''b'', K (JNum 116)])), Do (SetV 4 (Seq (Call ''MDb'' [V 5, Dot (Dot (V 1) ''c'') ''length'']) (Call ''JD'' [Idx (Dot (V 1) ''c'') (V 5), K (JNum 340)]))), Do (SetV 6 (Call ''bQc'' [V 0, V 11, V 10, V 4])), Do (SetV 9 (Bin Plus (V 2) (K (JNum 1)))), Loop (Bin Le (V 9) (V 3)) [Do (SetV 7 (Seq (Call ''MDb'' [V 9, Dot (Dot (V 1) ''c'') ''length'']) (Call ''JD'' [Idx (Dot (V 1) ''c'') (V 9), K (JNum 340)]))), Do (SetV 8 (Call ''bQc'' [V 0, V 11, V 10, V 7])), When (Call ''_Pc'' [V 7, V 8, V 4, V 6]) [Do (SetV 4 (V 7)), Do (SetV 6 (V 8)), Do (SetV 5 (V 9))] []] [Do (Bin Minus (SetV 9 (Bin Minus (V 9) (K (JNum (- 1))))) (K (JNum 1)))]] [], Ret (V 5)],
    fn ''Z4c'' 4 11 [Do (SetV 6 (Call ''JD'' [Call ''fGd'' [V 1, K (JNum 0)], K (JNum 26)])), Do (Call ''_vd'' [V 6, K (JNum 0)]), Do (Call ''awd'' [V 6, K (JNum 0)]), Do (SetV 12 (New ''lmb'' [])), Do (Call ''qDb'' [Dot (V 12) ''c'', V 6]), Do (SetV 7 (V 6)), Do (SetV 5 (New ''h7c'' [Dot (V 0) ''a'', Dot (V 6) ''g'', Dot (V 6) ''f'', Seq (Call ''o7c'' []) (G ''n7c'')])), Do (SetV 13 (K (JNum 1))), Loop (Bin Lt (V 13) (Dot (V 1) ''i'')) [Do (SetV 14 (Call ''JD'' [Call ''fGd'' [V 1, V 13], K (JNum 26)])), Do (SetV 8 (Call ''$4c'' [V 0, G ''k7c'', V 14, V 7, V 5, V 12, V 2])), Do (SetV 9 (Call ''$4c'' [V 0, G ''j7c'', V 14, V 7, V 5, V 12, V 2])), Do (SetV 10 (Call ''$4c'' [V 0, G ''m7c'', V 14, V 7, V 5, V 12, V 2])), Do (SetV 11 (Call ''$4c'' [V 0, G ''l7c'', V 14, V 7, V 5, V 12, V 2])), Do (SetV 4 (Call ''a5c'' [V 0, V 8, V 9, V 10, V 11, V 14, V 7, V 3])), Do (Call ''_vd'' [V 14, Dot (V 4) ''d'']), Do (Call ''awd'' [V 14, Dot (V 4) ''e'']), Do (Call ''g7c'' [V 4, G ''n7c'']), Do (SetV 5 (V 4)), Do (SetV 7 (V 14)), Do (Call ''qDb'' [Dot (V 12) ''c'', V 14])] [Do (Bin Minus (SetV 13 (Bin Minus (V 13) (K (JNum (- 1))))) (K (JNum 1)))], Ret (V 5)],
    fn ''iCd'' 3 10 [Do (SetV 10 (K JNull)), Do (SetV 12 (V 1)), Do (SetV 11 (Call ''ZBd'' [V 0, Call ''WEd'' [V 2], V 12])), Do (Call ''Hvd'' [V 11, Call ''VAd'' [V 12, G ''FGe'']]), Do (SetV 6 (Call ''SAd'' [V 12, G ''vGe''])), Do (SetV 3 (New ''zCd'' [V 0, V 11])), Do (Call ''uBd'' [Dot (V 3) ''a'', Dot (V 3) ''b'', V 6]), Do (SetV 7 (Call ''SAd'' [V 12, G ''wGe''])), Do (SetV 4 (New ''BCd'' [V 0, V 11])), Do (Call ''vBd'' [Dot (V 4) ''a'', Dot (V 4) ''b'', V 7]), When (Or (Loose (Dot (Seq (And (Neg (Dot (V 11) ''b'')) (Put (V 11) ''b'' (New ''jhe'' [G ''O3'', V 11, K (JNum 4), K (JNum 7)]))) (Dot (V 11) ''b'')) ''i'') (K (JNum 0))) (Loose (Dot (Seq (And (Neg (Dot (V 11) ''c'')) (Put (V 11) ''c'' (New ''jhe'' [G ''O3'', V 11, K (JNum 5), K (JNum 8)]))) (Dot (V 11) ''c'')) ''i'') (K (JNum 0)))) [Do (SetV 5 (Call ''VAd'' [V 12, G ''FGe''])), Do (SetV 8 (Bin Plus (G ''JGe'') (V 5))), Do (SetV 9 (Bin Plus (V 8) (G ''KGe''))), Raise (Call ''Lcb'' [New ''YAd'' [V 9]])] [], Do (Call ''qCd'' [V 12, V 11]), Do (Call ''jCd'' [V 0, V 12, V 11]), Do (SetV 10 (Call ''mCd'' [V 0, V 12, V 11])), Ret (V 10)],
    fn ''UGb'' 2 7 [Do (SetV 4 (Call ''SC'' [G ''cE'', G ''bve'', K (JNum 30), Dot (Dot (Dot (Dot (V 0) ''e'') ''a'') ''c'') ''length'', K (JNum 15), K (JNum 1)])), Do (SetV 6 (New ''Kmb'' [Dot (Dot (V 0) ''e'') ''a''])), Loop (Bin Lt (Dot (V 6) ''a'') (Dot (Dot (Dot (V 6) ''c'') ''c'') ''length'')) [Do (SetV 5 (Call ''JD'' [Call ''Imb'' [V 6], K (JNum 124)])), Do (PutIdx (V 4) (Dot (V 5) ''d'') (Bin Plus (Idx (V 4) (Dot (V 5) ''d'')) (Dot (Dot (Dot (Dot (V 5) ''b'') ''a'') ''c'') ''length'')))] [], Do (SetV 7 (Call ''Zu'' [V 1])), Loop (Neg (Loose (Dot (V 7) ''b'') (K (JNum 0)))) [Do (SetV 5 (Call ''JD'' [Cond (Loose (Dot (V 7) ''b'') (K (JNum 0))) (K JNull) (Seq (Call ''LDb'' [Neg (Loose (Dot (V 7) ''b'') (K (JNum 0)))]) (Call ''bub'' [V 7, Dot (Dot (V 7) ''a'') ''a''])), K (JNum 124)])), Do (SetV 3 (Call ''Er'' [New ''Kmb'' [Dot (Dot (V 5) ''g'') ''a'']])), Loop (Meth (V 3) ''Ob'' []) [Do (SetV 2 (Call ''JD'' [Meth (V 3) ''Pb'' [], K (JNum 217)])), Do (SetV 8 (Dot (V 2) ''e'')), Do (Put (V 8) ''e'' (Meth (Dot (G ''$wnd'') ''Math'') ''max'' [Dot (V 8) ''e'', Bin Plus (Dot (V 5) ''e'') (Dot (V 2) ''a'')])), Do (PutIdx (V 4) (Dot (V 8) ''d'') (Bin Minus (Idx (V 4) (Dot (V 8) ''d'')) (K (JNum 1)))), Do (And (Loose (Idx (V 4) (Dot (V 8) ''d'')) (K (JNum 0))) (Seq (Call ''Wtb'' [V 7, V 8, Dot (Dot (V 7) ''c'') ''b'', Dot (V 7) ''c'']) (K (JBool True))))] []] []]]"

definition code_5719_5728 :: "(string \<times> jfun) list" where
  "code_5719_5728 = [
    fn ''rZc'' 2 6 [Do (Meth (V 1) ''Tg'' [K (JStr ''Edge routing''), K (JNum 1)]), Do (SetV 4 (Call ''JD'' [Call ''oNb'' [V 0, Seq (Call ''SXc'' []) (G ''tXc'')], K (JNum 385)])), When (Loose (V 4) (Seq (Call ''uWc'' []) (G ''sWc''))) [Do (Call ''pZc'' [V 0])] [When (Loose (V 4) (G ''rWc'')) [Do (Call ''JD'' [Call ''Sub'' [Call ''WBb'' [Call ''VBb'' [New ''jCb'' [K JNull, New ''Zvb'' [Dot (V 0) ''b'', K (JNum 16)]], New ''jTc'' []]]], K (JNum 40)]), Do (SetV 5 (Call ''Ueb'' [Call ''MD'' [Call ''oNb'' [V 0, G ''JXc'']]])), Do (SetV 6 (Call ''Ueb'' [Call ''MD'' [Call ''oNb'' [V 0, G ''sXc'']]])), Do (SetV 7 (Call ''JD'' [Call ''oNb'' [V 0, G ''qXc''], K (JNum 86)])), Do (Call ''nZc'' [V 0, V 7, V 5]), Do (Call ''oZc'' [V 0, V 7, V 5, V 6]), Do (Call ''mZc'' [V 0, V 7, V 5, V 6]), Do (SetV 3 (Call ''Ztb'' [Dot (V 0) ''a'', K (JNum 0)])), Loop (Neg (Loose (Dot (V 3) ''b'') (Dot (Dot (V 3) ''d'') ''c''))) [Do (SetV 2 (Call ''JD'' [Call ''lub'' [V 3], K (JNum 65)])), Do (And (Bin Lt (Dot (Dot (V 2) ''a'') ''b'') (K (JNum 2))) (Call ''qZc'' [V 2]))] []] []], Do (Meth (V 1) ''Ug'' [])],
    fn ''ZId'' 1 0 [Switch (Dot (V 0) ''d'') [(Some (JNum 9), []), (Some (JNum 8), [Ret (K (JBool True))]), (Some (JNum 3), []), (Some (JNum 5), []), (Some (JNum 4), []), (Some (JNum 6), [Ret (K (JBool False))]), (Some (JNum 7), [Ret (Loose (Dot (Call ''JD'' [Call ''YId'' [V 0], K (JNum 15)]) ''a'') (Dot (V 0) ''o''))]), (Some (JNum 1), []), (Some (JNum 2), [When (Loose (Dot (V 0) ''o'') (K (JNum (- 2)))) [Ret (K (JBool False))] [Switch (Dot (V 0) ''p'') [(Some (JNum 0), []), (Some (JNum 1), []), (Some (JNum 2), []), (Some (JNum 6), []), (Some (JNum 5), []), (Some (JNum 7), [Ret (Call ''Rcb'' [Dot (V 0) ''k'', Dot (V 0) ''f''])]), (Some (JNum 3), []), (Some (JNum 4), [Ret (Loose (Dot (V 0) ''j'') (Dot (V 0) ''e''))]), (None, [Ret (Cond (Loose (Dot (V 0) ''n'') (K JNull)) (Loose (Dot (V 0) ''g'') (K JNull)) (Call ''pb'' [Dot (V 0) ''n'', Dot (V 0) ''g'']))])]]]), (None, [Ret (K (JBool False))])]],
    fn ''Wjc'' 1 4 [Do (SetV 4 (Dot (V 0) ''b'')), Do (SetV 1 (K (JBool False))), Do (SetV 3 (New ''Kmb'' [Dot (Dot (V 0) ''i'') ''d''])), Loop (Bin Lt (Dot (V 3) ''a'') (Dot (Dot (Dot (V 3) ''c'') ''c'') ''length'')) [Do (SetV 2 (Call ''JD'' [Call ''Imb'' [V 3], K (JNum 70)])), When (Call ''Rdb'' [Call ''LD'' [Call ''oNb'' [V 2, Seq (Call ''nyc'' []) (G ''fwc'')]]]) [Do (SetV 1 (K (JBool True))), Break] []] [], Do (Cond (Call ''Krb'' [V 4, Seq (Call ''Bmd'' []) (G ''hmd'')]) (Cond (Call ''Krb'' [V 4, G ''ymd'']) (Cond (Call ''Krb'' [V 4, G ''Amd'']) (Or (Call ''Krb'' [V 4, G ''gmd'']) (Call ''Tjc'' [V 0, Cond (V 1) (G ''Amd'') (G ''hmd''), Cond (V 1) (Seq (Call ''phc'' []) (G ''lhc'')) (Seq (Call ''phc'' []) (G ''nhc'')), Cond (V 1) (K JNull) (Dot (V 0) ''c'')])) (Call ''Tjc'' [V 0, Cond (V 1) (G ''gmd'') (G ''hmd''), Cond (V 1) (Seq (Call ''phc'' []) (G ''lhc'')) (Seq (Call ''phc'' []) (G ''mhc'')), Cond (V 1) (K JNull) (Dot (V 0) ''a'')])) (Call ''Tjc'' [V 0, G ''hmd'', Seq (Call ''phc'' []) (G ''lhc''), K JNull])) (Call ''Tjc'' [V 0, G ''ymd'', Seq (Call ''phc'' []) (G ''lhc''), K JNull]))],
    fn ''IFc'' 3 9 [Do (SetV 5 (New ''mmb'' [Dot (Dot (V 1) ''c'') ''length''])), Do (SetV 9 (New ''Kmb'' [V 1])), Loop (Bin Lt (Dot (V 9) ''a'') (Dot (Dot (Dot (V 9) ''c'') ''c'') ''length'')) [Do (SetV 6 (Call ''JD'' [Call ''Imb'' [V 9], K (JNum 9)])), Do (Call ''_lb'' [V 5, Idx (Idx (Dot (V 0) ''b'') (Dot (Dot (V 6) ''c'') ''p'')) (Dot (V 6) ''p'')])] [], Do (Call ''DFc'' [V 0, V 5, V 2]), Do (SetV 11 (K JNull)), Loop (SetV 11 (Call ''EFc'' [V 5])) [Do (Call ''FFc'' [V 0, Call ''JD'' [Dot (V 11) ''a'', K (JNum 239)], Call ''JD'' [Dot (V 11) ''b'', K (JNum 239)], V 5])] [], Do (Put (Dot (V 1) ''c'') ''length'' (K (JNum 0))), Do (SetV 4 (New ''Kmb'' [V 5])), Loop (Bin Lt (Dot (V 4) ''a'') (Dot (Dot (Dot (V 4) ''c'') ''c'') ''length'')) [Do (SetV 3 (Call ''JD'' [Call ''Imb'' [V 4], K (JNum 239)])), Do (Seq (Seq (SetV 7 (Dot (V 3) ''d'')) (SetV 8 (K (JNum 0)))) (SetV 10 (Dot (V 7) ''length''))), Loop (Bin Lt (V 8) (V 10)) [Do (SetV 6 (Idx (V 7) (V 8))), Do (Call ''qDb'' [Dot (V 1) ''c'', V 6]), Do (Put (Idx (Idx (Dot (V 0) ''a'') (Dot (Dot (V 6) ''c'') ''p'')) (Dot (V 6) ''p'')) ''a'' (Dot (Call ''JFc'' [Dot (V 3) ''g'', Idx (Dot (V 3) ''d'') (K (JNum 0))]) ''a''))] [Do (SetV 8 (Bin Minus (V 8) (K (JNum (- 1)))))]] []],
    fn ''imc'' 2 3 [Do (Meth (V 1) ''Tg'' [K (JStr ''Breaking Point Insertion''), K (JNum 1)]), Do (SetV 3 (New ''anc'' [V 0])), Switch (Dot (Call ''JD'' [Call ''oNb'' [V 0, Seq (Call ''nyc'' []) (G ''gyc'')], K (JNum 350)]) ''g'') [(Some (JNum 2), [Do (SetV 4 (New ''mnc'' [])), Break]), (Some (JNum 0), [Do (SetV 4 (New ''bmc'' [])), Break]), (None, [Do (SetV 4 (New ''pnc'' []))])], Do (SetV 2 (Meth (V 4) ''mg'' [V 0, V 3])), Do (And (Call ''Rdb'' [Call ''LD'' [Call ''oNb'' [V 0, G ''iyc'']]]) (SetV 2 (Call ''hmc'' [V 0, V 2]))), When (And (Neg (Meth (V 4) ''ng'' [])) (Call ''pNb'' [V 0, G ''myc''])) [Switch (Dot (Call ''JD'' [Call ''oNb'' [V 0, G ''myc''], K (JNum 351)]) ''g'') [(Some (JNum 2), [Do (SetV 2 (Call ''ync'' [V 3, V 2])), Break]), (Some (JNum 1), [Do (SetV 2 (Call ''wnc'' [V 3, V 2]))])]] [], When (Meth (V 2) ''dc'' []) [Do (Meth (V 1) ''Ug'' []), Ret (K JUndef)] [], Do (Call ''fmc'' [V 0, V 2]), Do (Meth (V 1) ''Ug'' [])],
    fn ''Hkd'' 1 0 [Do (Call ''zdd'' [V 0, New ''Kcd'' [Call ''Vcd'' [Call ''Scd'' [Call ''Ucd'' [Call ''Tcd'' [New ''Xcd'' [], G ''zFe''], K (JStr ''ELK Fixed'')], K (JStr ''Keeps the current layout as it is, without any automatic modification. Optional coordinates can be given for nodes and edge bend points.'')], New ''Kkd'' []]]]), Do (Call ''xdd'' [V 0, G ''zFe'', G ''Jxe'', G ''Ekd'']), Do (Call ''xdd'' [V 0, G ''zFe'', G ''dCe'', Call ''BEd'' [G ''Fkd'']]), Do (Call ''xdd'' [V 0, G ''zFe'', G ''UEe'', Call ''BEd'' [G ''zkd'']]), Do (Call ''xdd'' [V 0, G ''zFe'', G ''Qxe'', Call ''BEd'' [G ''Akd'']]), Do (Call ''xdd'' [V 0, G ''zFe'', G ''hye'', Call ''BEd'' [G ''Ckd'']]), Do (Call ''xdd'' [V 0, G ''zFe'', G ''Oxe'', Call ''BEd'' [G ''Bkd'']])],
    fn ''xo'' 3 5 [Do (SetV 3 (Call ''gdb'' [Call ''Ycb'' [G ''rue'', Call ''Afb'' [Call ''gdb'' [Call ''Ycb'' [Cond (Loose (V 1) (K JNull)) (K (JNum 0)) (Call ''tb'' [V 1]), G ''sue'']], K (JNum 15)]]])), Do (SetV 7 (Call ''gdb'' [Call ''Ycb'' [G ''rue'', Call ''Afb'' [Call ''gdb'' [Call ''Ycb'' [Cond (Loose (V 2) (K JNull)) (K (JNum 0)) (Call ''tb'' [V 2]), G ''sue'']], K (JNum 15)]]])), Do (SetV 5 (Call ''Ao'' [V 0, V 1, V 3])), When (And (And (Neg (Neg (V 5))) (Loose (V 7) (Dot (V 5) ''f''))) (Call ''Hb'' [V 2, Dot (V 5) ''i''])) [Ret (V 2)] [], Do (SetV 6 (Call ''Bo'' [V 0, V 2, V 7])), When (V 6) [Raise (Call ''Lcb'' [New ''kfb'' [Bin Plus (K (JStr ''value already present: '')) (V 2)]])] [], Do (SetV 4 (New ''ep'' [V 1, V 3, V 2, V 7])), When (V 5) [Do (Call ''so'' [V 0, V 5]), Do (Call ''vo'' [V 0, V 4, V 5]), Do (Put (V 5) ''e'' (K JNull)), Do (Put (V 5) ''c'' (K JNull)), Ret (Dot (V 5) ''i'')] [Do (Call ''vo'' [V 0, V 4, K JNull]), Do (Call ''zo'' [V 0]), Ret (K JNull)]],
    fn ''H1b'' 3 12 [Do (SetV 10 (Dot (Dot (V 2) ''a'') ''c'')), Do (SetV 6 (Bin Plus (Dot (Dot (V 2) ''a'') ''c'') (Dot (Dot (V 2) ''a'') ''b''))), Do (SetV 5 (Call ''JD'' [Call ''ejb'' [Dot (V 2) ''c'', V 1], K (JNum 457)])), Do (SetV 13 (Dot (V 5) ''f'')), Do (SetV 14 (Dot (V 5) ''a'')), Do (Cond (Dot (V 5) ''b'') (SetV 8 (New ''lgd'' [V 6, V 13])) (SetV 8 (New ''lgd'' [V 10, V 13]))), Do (Cond (Dot (V 5) ''c'') (SetV 11 (New ''lgd'' [V 10, V 14])) (SetV 11 (New ''lgd'' [V 6, V 14]))), Do (SetV 4 (V 10)), Do (Or (Dot (V 2) ''p'') (SetV 4 (Bin Plus (V 4) (Dot (V 0) ''c'')))), Do (SetV 4 (Bin Plus (V 4) (Bin Plus (Dot (V 2) ''F'') (Bin Times (Dot (V 2) ''v'') (Dot (V 0) ''b''))))), Do (SetV 9 (New ''lgd'' [V 4, V 13])), Do (SetV 12 (New ''lgd'' [V 4, V 14])), Do (Call ''tgd'' [Dot (V 1) ''a'', Call ''WC'' [Call ''OC'' [G ''r2'', K (JNum 1)], G ''aue'', K (JNum 8), K (JNum 0), NewArr [V 8, V 9]]]), Do (SetV 7 (Bin Gt (Meth (Dot (Dot (V 2) ''d'') ''a'') ''gc'' []) (K (JNum 1)))), When (V 7) [Do (SetV 3 (New ''lgd'' [V 4, Dot (V 2) ''b''])), Do (Call ''Ttb'' [Dot (V 1) ''a'', V 3])] [], Do (Call ''tgd'' [Dot (V 1) ''a'', Call ''WC'' [Call ''OC'' [G ''r2'', K (JNum 1)], G ''aue'', K (JNum 8), K (JNum 0), NewArr [V 12, V 11]]])],
    fn ''Rzc'' 0 0 [Do (SetG ''Rzc'' (G ''qdb'')), Do (SetG ''Pzc'' (New ''Szc'' [G ''qye'', K (JNum 0)])), Do (SetG ''Kzc'' (New ''Szc'' [K (JStr ''NIKOLOV''), K (JNum 1)])), Do (SetG ''Nzc'' (New ''Szc'' [K (JStr ''NIKOLOV_PIXEL''), K (JNum 2)])), Do (SetG ''Lzc'' (New ''Szc'' [K (JStr ''NIKOLOV_IMPROVED''), K (JNum 3)])), Do (SetG ''Mzc'' (New ''Szc'' [K (JStr ''NIKOLOV_IMPROVED_PIXEL''), K (JNum 4)])), Do (SetG ''Hzc'' (New ''Szc'' [K (JStr ''DUMMYNODE_PERCENTAGE''), K (JNum 5)])), Do (SetG ''Ozc'' (New ''Szc'' [K (JStr ''NODECOUNT_PERCENTAGE''), K (JNum 6)])), Do (SetG ''Qzc'' (New ''Szc'' [K (JStr ''NO_BOUNDARY''), K (JNum 7)])), Do (SetG ''Izc'' (New ''Szc'' [K (JStr ''MODEL_ORDER_LEFT_TO_RIGHT''), K (JNum 8)])), Do (SetG ''Jzc'' (New ''Szc'' [K (JStr ''MODEL_ORDER_RIGHT_TO_LEFT''), K (JNum 9)]))],
    fn ''XBd'' 2 12 [Do (SetV 10 (K JNull)), Do (SetV 12 (Call ''qBd'' [V 0, V 1])), Do (SetV 3 (K JNull)), Do (SetV 7 (Call ''JD'' [Call ''cvd'' [V 1, Seq (Call ''vjd'' []) (G ''$hd'')], K (JNum 300)])), Do (Cond (V 7) (SetV 3 (V 7)) (SetV 3 (Seq (Call ''$md'' []) (G ''Xmd'')))), Do (SetV 13 (V 3)), When (Loose (V 13) (Seq (Call ''$md'' []) (G ''Xmd''))) [Do (SetV 4 (K JNull)), Do (SetV 9 (Call ''JD'' [Call ''ejb'' [Dot (V 0) ''r'', V 12], K (JNum 300)])), Do (Cond (V 9) (SetV 4 (V 9)) (SetV 4 (G ''Ymd''))), Do (SetV 13 (V 4))] [], Do (Call ''hjb'' [Dot (V 0) ''r'', V 1, V 13]), Do (SetV 5 (K JNull)), Do (SetV 8 (Call ''JD'' [Call ''cvd'' [V 1, G ''Yhd''], K (JNum 278)])), Do (Cond (V 8) (SetV 5 (V 8)) (SetV 5 (Seq (Call ''Qjd'' []) (G ''Njd'')))), Do (SetV 11 (V 5)), When (Loose (V 11) (Seq (Call ''Qjd'' []) (G ''Njd''))) [Do (SetV 6 (K JNull)), Do (SetV 2 (Call ''JD'' [Call ''ejb'' [Dot (V 0) ''b'', V 12], K (JNum 278)])), Do (Cond (V 2) (SetV 6 (V 2)) (SetV 6 (G ''Mjd''))), Do (SetV 11 (V 6))] [], Do (SetV 10 (Call ''JD'' [Call ''hjb'' [Dot (V 0) ''b'', V 1, V 11], K (JNum 278)])), Ret (V 10)]]"

definition code_5730_5743 :: "(string \<times> jfun) list" where
  "code_5730_5743 = [
    fn ''m1c'' 0 0 [Do (SetG ''m1c'' (G ''qdb'')), Do (SetG ''Y0c'' (New ''EEd'' [G ''rDe'', Seq (Call ''Qdb'' []) (K (JBool False))])), Do (SetG ''c1c'' (New ''EEd'' [G ''sDe'', Call ''Cfb'' [K (JNum 0)]])), Do (SetG ''d1c'' (New ''EEd'' [G ''tDe'', K (JNum 0)])), Do (SetG ''e1c'' (New ''EEd'' [G ''uDe'', K (JBool False)])), Do (SetG ''_0c'' (Seq (Call ''R0c'' []) (G ''O0c''))), Do (SetG ''$0c'' (New ''EEd'' [G ''vDe'', G ''_0c''])), Do (Call ''Cfb'' [K (JNum 0)]), Do (SetG ''Z0c'' (New ''EEd'' [G ''wDe'', Call ''Cfb'' [K (JNum 1)]])), Do (SetG ''j1c'' (Seq (Call ''c2c'' []) (G ''a2c''))), Do (SetG ''i1c'' (New ''EEd'' [G ''xDe'', G ''j1c''])), Do (SetG ''l1c'' (Seq (Call ''H0c'' []) (G ''G0c''))), Do (SetG ''k1c'' (New ''EEd'' [G ''yDe'', G ''l1c''])), Do (SetG ''b1c'' (Seq (Call ''U1c'' []) (G ''T1c''))), Do (SetG ''a1c'' (New ''EEd'' [G ''zDe'', G ''b1c''])), Do (SetG ''h1c'' (New ''EEd'' [G ''ADe'', K (JNum 0)])), Do (SetG ''f1c'' (New ''EEd'' [G ''BDe'', K (JBool False)])), Do (SetG ''g1c'' (New ''EEd'' [G ''CDe'', K (JBool False)]))],
    fn ''c0c'' 2 3 [Do (SetV 3 (New ''Kmb'' [V 1])), Loop (Bin Lt (Dot (V 3) ''a'') (Dot (Dot (Dot (V 3) ''c'') ''c'') ''length'')) [Do (SetV 2 (Call ''JD'' [Call ''Imb'' [V 3], K (JNum 26)])), Do (Call ''Rc'' [Dot (V 0) ''a'', V 2, V 2]), Do (Call ''Rc'' [Dot (V 0) ''b'', V 2, V 2]), Do (SetV 4 (Call ''z_c'' [V 2])), When (Neg (Loose (Dot (Dot (V 4) ''c'') ''length'') (K (JNum 0)))) [Do (And (Neg (Neg (Dot (V 0) ''d''))) (Meth (Dot (V 0) ''d'') ''Fg'' [V 4])), Do (Call ''Rc'' [Dot (V 0) ''a'', V 2, Seq (Call ''MDb'' [K (JNum 0), Dot (Dot (V 4) ''c'') ''length'']) (Call ''JD'' [Idx (Dot (V 4) ''c'') (K (JNum 0)), K (JNum 26)])]), Do (Call ''Rc'' [Dot (V 0) ''b'', V 2, Call ''JD'' [Call ''dmb'' [V 4, Bin Minus (Dot (Dot (V 4) ''c'') ''length'') (K (JNum 1))], K (JNum 26)]]), Loop (Neg (Loose (Dot (Dot (Call ''w_c'' [V 4]) ''c'') ''length'') (K (JNum 0)))) [Do (SetV 4 (Call ''w_c'' [V 4])), Do (And (Neg (Neg (Dot (V 0) ''d''))) (Meth (Dot (V 0) ''d'') ''Fg'' [V 4])), Do (Call ''Rc'' [Dot (V 0) ''a'', V 2, Seq (Call ''MDb'' [K (JNum 0), Dot (Dot (V 4) ''c'') ''length'']) (Call ''JD'' [Idx (Dot (V 4) ''c'') (K (JNum 0)), K (JNum 26)])]), Do (Call ''Rc'' [Dot (V 0) ''b'', V 2, Call ''JD'' [Call ''dmb'' [V 4, Bin Minus (Dot (Dot (V 4) ''c'') ''length'') (K (JNum 1))], K (JNum 26)]])] []] []] []],
    fn ''Htd'' 3 6 [When (Neg (V 1)) [Ret (K JNull)] [When (Bin Le (V 2) (K (JNum (- 1)))) [Do (SetV 3 (Call ''IWd'' [Meth (V 1) ''Ah'' [], Bin Minus (K (JNum (- 1))) (V 2)])), When (Call ''RD'' [V 3, K (JNum 103)]) [Ret (Call ''JD'' [V 3, K (JNum 19)])] [Do (SetV 6 (Call ''JD'' [Meth (V 1) ''Jh'' [V 3], K (JNum 163)])), Do (Seq (SetV 7 (K (JNum 0))) (SetV 8 (Meth (V 6) ''gc'' []))), Loop (Bin Lt (V 7) (V 8)) [When (Same (Call ''XD'' [Meth (V 6) ''Sl'' [V 7]]) (Call ''XD'' [V 0])) [Do (SetV 4 (Meth (V 6) ''Rl'' [V 7])), When (Call ''RD'' [V 4, K (JNum 103)]) [Do (SetV 5 (Call ''JD'' [V 4, K (JNum 19)])), When (Neg (Loose (Bin BitAnd (Dot (V 5) ''Bb'') (G ''$Fe'')) (K (JNum 0)))) [Ret (V 5)] []] []] []] [Do (SetV 7 (Bin Minus (V 7) (K (JNum (- 1)))))], Raise (Call ''Lcb'' [New ''nfb'' [K (JStr ''The containment feature could not be located'')]])]] [Ret (Call ''k4d'' [Call ''JD'' [Call ''IWd'' [Meth (V 0) ''Ah'' [], V 2], K (JNum 19)]])]]],
    fn ''D8b'' 2 7 [Do (Meth (V 1) ''Tg'' [K (JStr ''Node placement repeater''), K (JNum 1)]), Do (SetV 8 (Call ''zzc'' [Call ''JD'' [Call ''oNb'' [V 0, Seq (Call ''nyc'' []) (G ''$wc'')], K (JNum 303)]])), Do (Call ''rNb'' [V 0, G ''Zwc'', K JNull]), Do (SetV 5 (New ''Kmb'' [Dot (V 0) ''b''])), Loop (Bin Lt (Dot (V 5) ''a'') (Dot (Dot (Dot (V 5) ''c'') ''c'') ''length'')) [Do (SetV 4 (Call ''JD'' [Call ''Imb'' [V 5], K (JNum 25)])), Do (SetV 7 (New ''Kmb'' [Dot (V 4) ''a''])), Loop (Bin Lt (Dot (V 7) ''a'') (Dot (Dot (Dot (V 7) ''c'') ''c'') ''length'')) [Do (SetV 6 (Call ''JD'' [Call ''Imb'' [V 7], K (JNum 9)])), Do (Call ''rNb'' [V 6, G ''Ywc'', K JNull]), Do (Call ''rNb'' [V 6, G ''axc'', K JNull]), Do (Put (Dot (V 6) ''n'') ''b'' (K (JNum 0)))] []] [], Do (SetV 2 (Seq (Call ''OWb'' []) (New ''$Wb'' [V 0, K (JBool True), K (JBool True), New ''G8b'' []]))), Do (Call ''cmb'' [Call ''ZWb'' [V 2], New ''kHb'' [V 2]]), Do (SetV 3 (New ''sHb'' [V 2])), Do (Call ''oHb'' [V 3]), Do (Meth (V 8) ''If'' [V 0, V 1]), Do (Meth (V 1) ''Ug'' [])],
    fn ''_kc'' 1 10 [Do (SetV 2 (K (JNum 0))), Do (SetV 7 (New ''Kmb'' [Dot (V 0) ''d''])), Loop (Bin Lt (Dot (V 7) ''a'') (Dot (Dot (Dot (V 7) ''c'') ''c'') ''length'')) [Do (SetV 6 (Call ''JD'' [Call ''Imb'' [V 7], K (JNum 107)])), Do (And (Neg (Neg (Dot (V 6) ''i''))) (Put (Dot (V 6) ''i'') ''c'' (Bin Minus (SetV 2 (Bin Minus (V 2) (K (JNum (- 1))))) (K (JNum 1)))))] [], Do (SetV 1 (Call ''QC'' [G ''Icb'', NewArr [G ''aue'', G ''Nwe''], NewArr [K (JNum 171), K (JNum 30)], K (JNum 16), NewArr [V 2, V 2], K (JNum 2)])), Do (SetV 10 (Dot (V 0) ''d'')), Do (SetV 4 (K (JNum 0))), Loop (Bin Lt (V 4) (Dot (Dot (V 10) ''c'') ''length'')) [Do (SetV 8 (Seq (Call ''MDb'' [V 4, Dot (Dot (V 10) ''c'') ''length'']) (Call ''JD'' [Idx (Dot (V 10) ''c'') (V 4), K (JNum 107)]))), When (Dot (V 8) ''i'') [Do (SetV 5 (Bin Plus (V 4) (K (JNum 1)))), Loop (Bin Lt (V 5) (Dot (Dot (V 10) ''c'') ''length'')) [Do (SetV 9 (Seq (Call ''MDb'' [V 5, Dot (Dot (V 10) ''c'') ''length'']) (Call ''JD'' [Idx (Dot (V 10) ''c'') (V 5), K (JNum 107)]))), When (Dot (V 9) ''i'') [Do (SetV 3 (Call ''elc'' [V 8, V 9])), Do (PutIdx (Idx (V 1) (Dot (Dot (V 8) ''i'') ''c'')) (Dot (Dot (V 9) ''i'') ''c'') (V 3)), Do (PutIdx (Idx (V 1) (Dot (Dot (V 9) ''i'') ''c'')) (Dot (Dot (V 8) ''i'') ''c'') (V 3))] []] [Do (Bin Minus (SetV 5 (Bin Minus (V 5) (K (JNum (- 1))))) (K (JNum 1)))]] []] [Do (Bin Minus (SetV 4 (Bin Minus (V 4) (K (JNum (- 1))))) (K (JNum 1)))], Ret (V 1)],
    fn ''FVc'' 0 0 [Do (SetG ''FVc'' (G ''qdb'')), Do (SetG ''EVc'' (New ''GVc'' [K (JStr ''ROOT_PROC''), K (JNum 0)])), Do (SetG ''xVc'' (New ''GVc'' [K (JStr ''FAN_PROC''), K (JNum 1)])), Do (SetG ''BVc'' (New ''GVc'' [K (JStr ''LEVEL_PROC''), K (JNum 2)])), Do (SetG ''CVc'' (New ''GVc'' [K (JStr ''NEIGHBORS_PROC''), K (JNum 3)])), Do (SetG ''AVc'' (New ''GVc'' [K (JStr ''LEVEL_HEIGHT''), K (JNum 4)])), Do (SetG ''wVc'' (New ''GVc'' [K (JStr ''DIRECTION_PROC''), K (JNum 5)])), Do (SetG ''DVc'' (New ''GVc'' [K (JStr ''NODE_POSITION_PROC''), K (JNum 6)])), Do (SetG ''uVc'' (New ''GVc'' [K (JStr ''COMPACTION_PROC''), K (JNum 7)])), Do (SetG ''zVc'' (New ''GVc'' [K (JStr ''LEVEL_COORDS''), K (JNum 8)])), Do (SetG ''yVc'' (New ''GVc'' [K (JStr ''GRAPH_BOUNDS_PROC''), K (JNum 9)])), Do (SetG ''vVc'' (New ''GVc'' [K (JStr ''DETREEIFYING_PROC''), K (JNum 10)]))],
    fn ''Sce'' 2 10 [Do (SetV 11 (Call ''MWd'' [V 1])), Do (SetV 9 (K JNull)), Do (SetV 4 (K (JBool False))), Do (Seq (SetV 7 (K (JNum 0))) (SetV 10 (Dot (Call ''GWd'' [Dot (V 11) ''a'']) ''i''))), Loop (Bin Lt (V 7) (V 10)) [Do (SetV 6 (Call ''JD'' [Call ''$Zd'' [V 11, V 7, Seq (Seq (SetV 5 (Call ''JD'' [Call ''fGd'' [Call ''GWd'' [Dot (V 11) ''a''], V 7], K (JNum 87)])) (SetV 8 (Dot (V 5) ''c''))) (Cond (Call ''RD'' [V 8, K (JNum 88)]) (Call ''JD'' [V 8, K (JNum 29)]) (Seq (Call ''WRd'' []) (G ''MRd'')))], K (JNum 29)])), Do (SetV 2 (Call ''Sce'' [V 0, V 6])), When (Neg (Meth (V 2) ''dc'' [])) [When (Neg (V 9)) [Do (SetV 9 (V 2))] [When (Neg (V 4)) [Do (SetV 4 (K (JBool True))), Do (SetV 9 (New ''aRd'' [V 9]))] [], Do (Meth (V 9) ''Fc'' [V 2])]] []] [Do (SetV 7 (Bin Minus (V 7) (K (JNum (- 1)))))], Do (SetV 3 (Call ''Xce'' [V 0, V 1])), When (Meth (V 3) ''dc'' []) [Ret (Cond (Neg (V 9)) (Seq (Seq (Call ''Inb'' []) (Call ''Inb'' [])) (G ''Fnb'')) (V 9))] [When (Neg (V 9)) [Ret (V 3)] [Do (Or (V 4) (SetV 9 (New ''aRd'' [V 9]))), Do (Meth (V 9) ''Fc'' [V 3]), Ret (V 9)]]],
    fn ''Tce'' 2 10 [Do (SetV 11 (Call ''MWd'' [V 1])), Do (SetV 9 (K JNull)), Do (SetV 3 (K (JBool False))), Do (Seq (SetV 7 (K (JNum 0))) (SetV 10 (Dot (Call ''GWd'' [Dot (V 11) ''a'']) ''i''))), Loop (Bin Lt (V 7) (V 10)) [Do (SetV 5 (Call ''JD'' [Call ''$Zd'' [V 11, V 7, Seq (Seq (SetV 4 (Call ''JD'' [Call ''fGd'' [Call ''GWd'' [Dot (V 11) ''a''], V 7], K (JNum 87)])) (SetV 8 (Dot (V 4) ''c''))) (Cond (Call ''RD'' [V 8, K (JNum 88)]) (Call ''JD'' [V 8, K (JNum 29)]) (Seq (Call ''WRd'' []) (G ''MRd'')))], K (JNum 29)])), Do (SetV 2 (Call ''Tce'' [V 0, V 5])), When (Neg (Meth (V 2) ''dc'' [])) [When (Neg (V 9)) [Do (SetV 9 (V 2))] [When (Neg (V 3)) [Do (SetV 3 (K (JBool True))), Do (SetV 9 (New ''aRd'' [V 9]))] [], Do (Meth (V 9) ''Fc'' [V 2])]] []] [Do (SetV 7 (Bin Minus (V 7) (K (JNum (- 1)))))], Do (SetV 6 (Call ''$ce'' [V 0, V 1])), When (Meth (V 6) ''dc'' []) [Ret (Cond (Neg (V 9)) (Seq (Seq (Call ''Inb'' []) (Call ''Inb'' [])) (G ''Fnb'')) (V 9))] [When (Neg (V 9)) [Ret (V 6)] [Do (Or (V 3) (SetV 9 (New ''aRd'' [V 9]))), Do (Meth (V 9) ''Fc'' [V 6]), Ret (V 9)]]],
    fn ''kEc'' 2 5 [Do (Cond (Or (Loose (Dot (V 0) ''c'') (K JNull)) (Bin Lt (Dot (Dot (V 0) ''c'') ''length'') (Dot (Dot (V 1) ''c'') ''length''))) (Put (V 0) ''c'' (Call ''SC'' [G ''Icb'', G ''Nwe'', K (JNum 30), Dot (Dot (V 1) ''c'') ''length'', K (JNum 16), K (JNum 1)])) (Call ''Xmb'' [Dot (V 0) ''c''])), Do (Put (V 0) ''a'' (New ''lmb'' [])), Do (SetV 3 (K (JNum 0))), Do (SetV 6 (New ''Kmb'' [V 1])), Loop (Bin Lt (Dot (V 6) ''a'') (Dot (Dot (Dot (V 6) ''c'') ''c'') ''length'')) [Do (SetV 4 (Call ''JD'' [Call ''Imb'' [V 6], K (JNum 9)])), Do (Put (V 4) ''p'' (Bin Minus (SetV 3 (Bin Minus (V 3) (K (JNum (- 1))))) (K (JNum 1))))] [], Do (SetV 2 (New ''dub'' [])), Do (SetV 5 (New ''Kmb'' [V 1])), Loop (Bin Lt (Dot (V 5) ''a'') (Dot (Dot (Dot (V 5) ''c'') ''c'') ''length'')) [Do (SetV 4 (Call ''JD'' [Call ''Imb'' [V 5], K (JNum 9)])), When (Neg (Idx (Dot (V 0) ''c'') (Dot (V 4) ''p''))) [Do (Call ''lEc'' [V 0, V 4]), Do (Cond (Or (Loose (Dot (V 2) ''b'') (K (JNum 0))) (Bin Lt (Meth (Seq (Call ''LDb'' [Neg (Loose (Dot (V 2) ''b'') (K (JNum 0)))]) (Call ''JD'' [Dot (Dot (Dot (V 2) ''a'') ''a'') ''c'', K (JNum 16)])) ''gc'' []) (Dot (Dot (Dot (V 0) ''a'') ''c'') ''length''))) (Call ''Utb'' [V 2, Dot (V 0) ''a'']) (Call ''Vtb'' [V 2, Dot (V 0) ''a''])), Do (Put (V 0) ''a'' (New ''lmb'' []))] []] [], Ret (V 2)],
    fn ''JBc'' 4 3 [When (Loose (Call ''oNb'' [Dot (Dot (V 3) ''d'') ''i'', Seq (Call ''Wrc'' []) (G ''trc'')]) (K JNull)) [Do (Call ''hjb'' [V 1, Call ''Cfb'' [Bin Minus (G ''Ate'') (Bin Plus (Dot (Dot (V 1) ''f'') ''c'') (Dot (Dot (V 1) ''i'') ''c''))], New ''jsb'' [New ''wnb'' [Call ''WC'' [Call ''OC'' [G ''DP'', K (JNum 1)], G ''Aye'', K (JNum 17), K (JNum 0), NewArr [V 3]]]]])] [Do (SetV 6 (K (JNum 0))), Do (SetV 5 (Dot (Dot (V 3) ''d'') ''i'')), When (V 2) [Do (SetV 4 (Dot (Call ''JD'' [Call ''oNb'' [Dot (V 0) ''c'', G ''rrc''], K (JNum 15)]) ''a'')), Do (SetV 6 (Bin Plus (Bin Times (V 4) (Dot (Call ''JD'' [Call ''oNb'' [V 5, Seq (Call ''nyc'' []) (G ''Kvc'')], K (JNum 15)]) ''a'')) (Dot (Call ''JD'' [Call ''oNb'' [V 5, G ''trc''], K (JNum 15)]) ''a'')))] [Do (SetV 6 (Dot (Call ''JD'' [Call ''oNb'' [Dot (Dot (V 3) ''d'') ''i'', G ''trc''], K (JNum 15)]) ''a''))], Do (Cond (Call ''cjb'' [V 1, Call ''Cfb'' [V 6]]) (Call ''esb'' [Call ''JD'' [Call ''ejb'' [V 1, Call ''Cfb'' [V 6]], K (JNum 48)], V 3]) (Call ''hjb'' [V 1, Call ''Cfb'' [V 6], New ''jsb'' [New ''wnb'' [Call ''WC'' [Call ''OC'' [G ''DP'', K (JNum 1)], G ''Aye'', K (JNum 17), K (JNum 0), NewArr [V 3]]]]]))]],
    fn ''mee'' 3 6 [When (Call ''RD'' [V 1, K (JNum 75)]) [Ret (Call ''IJd'' [V 0, V 1, V 2])] [Do (SetV 7 (K JNull)), Do (SetV 5 (K JNull)), Do (SetV 3 (Call ''JD'' [Dot (V 0) ''g'', K (JNum 122)])), Do (SetV 6 (K (JNum 0))), Loop (Bin Lt (V 6) (Dot (V 0) ''i'')) [Do (SetV 4 (Idx (V 3) (V 6))), When (Call ''pb'' [V 1, Meth (V 4) ''kd'' []]) [Do (SetV 5 (Meth (V 4) ''Jk'' [])), When (And (Call ''RD'' [V 5, K (JNum 103)]) (Neg (Loose (Bin BitAnd (Dot (Call ''JD'' [V 5, K (JNum 19)]) ''Bb'') (G ''$Fe'')) (K (JNum 0))))) [Do (SetV 7 (V 4)), Break] []] []] [Do (SetV 6 (Bin Minus (V 6) (K (JNum (- 1)))))], When (V 7) [When (Call ''itd'' [Dot (V 0) ''e'']) [Do (SetV 8 (Cond (Meth (V 5) ''Hk'' []) (Call ''see'' [V 0, K (JNum 4), V 5, V 1, K JNull, Call ''xee'' [V 0, V 5, V 1, And (Call ''RD'' [V 5, K (JNum 103)]) (Neg (Loose (Bin BitAnd (Dot (Call ''JD'' [V 5, K (JNum 19)]) ''Bb'') (G ''Hve'')) (K (JNum 0))))], K (JBool True)]) (Call ''see'' [V 0, Cond (Meth (V 5) ''rk'' []) (K (JNum 2)) (K (JNum 1)), V 5, V 1, Meth (V 5) ''gk'' [], K (JNum (- 1)), K (JBool True)]))), Do (Cond (V 2) (Meth (V 2) ''lj'' [V 8]) (SetV 2 (V 8)))] [], Do (SetV 2 (Call ''mee'' [V 0, V 7, V 2]))] [], Ret (V 2)]],
    fn ''Lee'' 3 4 [Do (SetV 6 (Call ''Cie'' [Meth (Dot (V 0) ''e'') ''Ah'' [], V 1])), Do (SetV 3 (Call ''JD'' [Dot (V 0) ''g'', K (JNum 122)])), Do (Call ''Aie'' []), When (Meth (Call ''JD'' [V 1, K (JNum 69)]) ''vk'' []) [Do (SetV 5 (K (JNum 0))), Loop (Bin Lt (V 5) (Dot (V 0) ''i'')) [Do (SetV 4 (Idx (V 3) (V 5))), When (Meth (V 6) ''$l'' [Meth (V 4) ''Jk'' []]) [When (Call ''pb'' [V 4, V 2]) [Do (Call ''MJd'' [V 0, V 5]), Ret (K (JBool True))] []] []] [Do (SetV 5 (Bin Minus (V 5) (K (JNum (- 1)))))]] [When (Neg (Loose (V 2) (K JNull))) [Do (SetV 5 (K (JNum 0))), Loop (Bin Lt (V 5) (Dot (V 0) ''i'')) [Do (SetV 4 (Idx (V 3) (V 5))), When (Meth (V 6) ''$l'' [Meth (V 4) ''Jk'' []]) [When (Call ''pb'' [V 2, Meth (V 4) ''kd'' []]) [Do (Call ''MJd'' [V 0, V 5]), Ret (K (JBool True))] []] []] [Do (SetV 5 (Bin Minus (V 5) (K (JNum (- 1)))))]] [Do (SetV 5 (K (JNum 0))), Loop (Bin Lt (V 5) (Dot (V 0) ''i'')) [Do (SetV 4 (Idx (V 3) (V 5))), When (Meth (V 6) ''$l'' [Meth (V 4) ''Jk'' []]) [When (Loose (Meth (V 4) ''kd'' []) (K JNull)) [Do (Call ''MJd'' [V 0, V 5]), Ret (K (JBool True))] []] []] [Do (SetV 5 (Bin Minus (V 5) (K (JNum (- 1)))))]]], Ret (K (JBool False))],
    fn ''$Tb'' 4 10 [Do (SetV 6 (Call ''Ufd'' [Dot (V 1) ''c'', V 2, V 3])), Do (SetV 11 (New ''Kmb'' [Dot (V 1) ''a''])), Loop (Bin Lt (Dot (V 11) ''a'') (Dot (Dot (Dot (V 11) ''c'') ''c'') ''length'')) [Do (SetV 10 (Call ''JD'' [Call ''Imb'' [V 11], K (JNum 9)])), Do (Call ''Vfd'' [Dot (V 10) ''n'', V 6]), Do (SetV 13 (New ''Kmb'' [Dot (V 10) ''j''])), Loop (Bin Lt (Dot (V 13) ''a'') (Dot (Dot (Dot (V 13) ''c'') ''c'') ''length'')) [Do (SetV 12 (Call ''JD'' [Call ''Imb'' [V 13], K (JNum 12)])), Do (SetV 5 (New ''Kmb'' [Dot (V 12) ''g''])), Loop (Bin Lt (Dot (V 5) ''a'') (Dot (Dot (Dot (V 5) ''c'') ''c'') ''length'')) [Do (SetV 4 (Call ''JD'' [Call ''Imb'' [V 5], K (JNum 17)])), Do (Call ''wgd'' [Dot (V 4) ''a'', V 6]), Do (SetV 7 (Call ''JD'' [Call ''oNb'' [V 4, Seq (Call ''nyc'' []) (G ''Bwc'')], K (JNum 79)])), Do (And (Neg (Neg (V 7))) (Call ''wgd'' [V 7, V 6])), Do (SetV 9 (New ''Kmb'' [Dot (V 4) ''b''])), Loop (Bin Lt (Dot (V 9) ''a'') (Dot (Dot (Dot (V 9) ''c'') ''c'') ''length'')) [Do (SetV 8 (Call ''JD'' [Call ''Imb'' [V 9], K (JNum 70)])), Do (Call ''Vfd'' [Dot (V 8) ''n'', V 6])] []] []] [], Do (Call ''_lb'' [Dot (V 0) ''a'', V 10]), Do (Put (V 10) ''a'' (V 0))] []],
    fn ''l6b'' 2 5 [Do (Meth (V 1) ''Tg'' [K (JStr ''Node and Port Label Placement and Node Sizing''), K (JNum 1)]), Do (Call ''gHb'' [Seq (Call ''OWb'' []) (New ''$Wb'' [V 0, K (JBool True), K (JBool True), New ''o6b'' []])]), When (Meth (Call ''JD'' [Call ''oNb'' [V 0, Seq (Call ''Wrc'' []) (G ''brc'')], K (JNum 22)]) ''Gc'' [Seq (Call ''Xpc'' []) (G ''Qpc'')]) [Do (SetV 5 (Call ''JD'' [Call ''oNb'' [V 0, Seq (Call ''nyc'' []) (G ''txc'')], K (JNum 22)])), Do (SetV 4 (Meth (V 5) ''Gc'' [Seq (Call ''$ld'' []) (G ''Xld'')])), Do (SetV 6 (Call ''Rdb'' [Call ''LD'' [Call ''oNb'' [V 0, G ''uxc'']]])), Do (SetV 3 (New ''Kmb'' [Dot (V 0) ''b''])), Loop (Bin Lt (Dot (V 3) ''a'') (Dot (Dot (Dot (V 3) ''c'') ''c'') ''length'')) [Do (SetV 2 (Call ''JD'' [Call ''Imb'' [V 3], K (JNum 25)])), Do (Call ''YBb'' [Call ''VBb'' [New ''jCb'' [K JNull, New ''Zvb'' [Dot (V 2) ''a'', K (JNum 16)]], New ''q6b'' []], New ''s6b'' [V 5, V 4, V 6]])] []] [], Do (Meth (V 1) ''Ug'' [])]]"

definition code_5746_5761 :: "(string \<times> jfun) list" where
  "code_5746_5761 = [
    fn ''bNc'' 4 0 [Do (Put This ''e'' (V 0)), Do (Put This ''k'' (Call ''JD'' [Call ''oNb'' [V 0, Seq (Call ''Wrc'' []) (G ''Krc'')], K (JNum 317)])), Do (Put This ''g'' (Call ''SC'' [G ''SP'', G ''Bye'', K (JNum 9), V 1, K (JNum 0), K (JNum 1)])), Do (Put This ''b'' (Call ''SC'' [G ''LI'', G ''aue'', K (JNum 346), V 1, K (JNum 7), K (JNum 1)])), Do (Put This ''a'' (Call ''SC'' [G ''SP'', G ''Bye'', K (JNum 9), V 1, K (JNum 0), K (JNum 1)])), Do (Put This ''d'' (Call ''SC'' [G ''LI'', G ''aue'', K (JNum 346), V 1, K (JNum 7), K (JNum 1)])), Do (Put This ''j'' (Call ''SC'' [G ''SP'', G ''Bye'', K (JNum 9), V 1, K (JNum 0), K (JNum 1)])), Do (Put This ''i'' (Call ''SC'' [G ''LI'', G ''aue'', K (JNum 346), V 1, K (JNum 7), K (JNum 1)])), Do (Put This ''p'' (Call ''SC'' [G ''LI'', G ''aue'', K (JNum 346), V 1, K (JNum 7), K (JNum 1)])), Do (Put This ''n'' (Call ''SC'' [G ''GI'', G ''aue'', K (JNum 473), V 1, K (JNum 8), K (JNum 1)])), Do (Call ''Wmb'' [Dot This ''n'', Seq (Call ''Qdb'' []) (K (JBool False))]), Do (Put This ''f'' (Call ''SC'' [G ''GI'', G ''aue'', K (JNum 473), V 1, K (JNum 8), K (JNum 1)])), Do (Call ''Wmb'' [Dot This ''f'', K (JBool True)]), Do (Put This ''o'' (V 2)), Do (Put This ''c'' (V 3))],
    fn ''aSb'' 1 8 [When (Dot (V 0) ''d'') [Raise (Call ''Lcb'' [New ''nfb'' [Seq (Call ''veb'' [G ''NO'']) (Bin Plus (Bin Plus (G ''zwe'') (Dot (G ''NO'') ''k'')) (G ''Awe''))]])] [], Do (And (Loose (Dot (V 0) ''c'') (Seq (Call ''Djd'' []) (G ''Bjd''))) (Call ''_Rb'' [V 0, G ''zjd''])), Do (SetV 2 (New ''Kmb'' [Dot (Dot (V 0) ''a'') ''a''])), Loop (Bin Lt (Dot (V 2) ''a'') (Dot (Dot (Dot (V 2) ''c'') ''c'') ''length'')) [Do (SetV 1 (Call ''JD'' [Call ''Imb'' [V 2], K (JNum 194)])), Do (Put (V 1) ''e'' (K (JNum 0)))] [], Do (SetV 6 (New ''Kmb'' [Dot (Dot (V 0) ''a'') ''b''])), Loop (Bin Lt (Dot (V 6) ''a'') (Dot (Dot (Dot (V 6) ''c'') ''c'') ''length'')) [Do (SetV 5 (Call ''JD'' [Call ''Imb'' [V 6], K (JNum 82)])), Do (Put (V 5) ''o'' (G ''Dve'')), Do (SetV 4 (Meth (Dot (V 5) ''f'') ''Jc'' [])), Loop (Meth (V 4) ''Ob'' []) [Do (SetV 3 (Call ''JD'' [Meth (V 4) ''Pb'' [], K (JNum 82)])), Do (Put (Dot (V 3) ''d'') ''e'' (Bin Minus (Dot (Dot (V 3) ''d'') ''e'') (K (JNum (- 1)))))] []] [], Do (Call ''pSb'' [V 0]), Do (SetV 8 (New ''Kmb'' [Dot (Dot (V 0) ''a'') ''b''])), Loop (Bin Lt (Dot (V 8) ''a'') (Dot (Dot (Dot (V 8) ''c'') ''c'') ''length'')) [Do (SetV 7 (Call ''JD'' [Call ''Imb'' [V 8], K (JNum 82)])), Do (Put (V 7) ''k'' (K (JBool True)))] [], Ret (V 0)],
    fn ''yhc'' 2 8 [Do (SetV 7 (New ''ehc'' [V 0])), Do (SetV 2 (New ''dub'' [])), Do (Call ''Wtb'' [V 2, V 1, Dot (Dot (V 2) ''c'') ''b'', Dot (V 2) ''c'']), Loop (Neg (Loose (Dot (V 2) ''b'') (K (JNum 0)))) [Do (SetV 3 (Call ''JD'' [Cond (Loose (Dot (V 2) ''b'') (K (JNum 0))) (K JNull) (Seq (Call ''LDb'' [Neg (Loose (Dot (V 2) ''b'') (K (JNum 0)))]) (Call ''bub'' [V 2, Dot (Dot (V 2) ''a'') ''a''])), K (JNum 113)])), Do (Put (Dot (V 3) ''d'') ''p'' (K (JNum 1))), Do (SetV 6 (New ''Kmb'' [Dot (V 3) ''e''])), Loop (Bin Lt (Dot (V 6) ''a'') (Dot (Dot (Dot (V 6) ''c'') ''c'') ''length'')) [Do (SetV 4 (Call ''JD'' [Call ''Imb'' [V 6], K (JNum 341)])), Do (Call ''_gc'' [V 7, V 4]), Do (SetV 9 (Dot (V 4) ''d'')), Do (And (Loose (Dot (Dot (V 9) ''d'') ''p'') (K (JNum 0))) (Seq (Call ''Wtb'' [V 2, V 9, Dot (Dot (V 2) ''c'') ''b'', Dot (V 2) ''c'']) (K (JBool True))))] [], Do (SetV 5 (New ''Kmb'' [Dot (V 3) ''b''])), Loop (Bin Lt (Dot (V 5) ''a'') (Dot (Dot (Dot (V 5) ''c'') ''c'') ''length'')) [Do (SetV 4 (Call ''JD'' [Call ''Imb'' [V 5], K (JNum 341)])), Do (Call ''_gc'' [V 7, V 4]), Do (SetV 8 (Dot (V 4) ''c'')), Do (And (Loose (Dot (Dot (V 8) ''d'') ''p'') (K (JNum 0))) (Seq (Call ''Wtb'' [V 2, V 8, Dot (Dot (V 2) ''c'') ''b'', Dot (V 2) ''c'']) (K (JBool True))))] []] [], Ret (V 7)],
    fn ''IBc'' 2 7 [When (Idx (Dot (V 0) ''e'') (Dot (V 1) ''p'')) [Ret (K JUndef)] [], Do (PutIdx (Dot (V 0) ''e'') (Dot (V 1) ''p'') (K (JBool True))), Do (PutIdx (Dot (V 0) ''a'') (Dot (V 1) ''p'') (K (JBool True))), Do (SetV 5 (New ''_rb'' [])), Do (SetV 2 (Same (Call ''XD'' [Call ''oNb'' [Dot (V 0) ''c'', Seq (Call ''nyc'' []) (G ''Dvc'')]]) (Call ''XD'' [Seq (Call ''nqc'' []) (G ''kqc'')]))), Do (Call ''Hfb'' [Call ''HYb'' [V 1], New ''OBc'' [V 0, V 5, V 2]]), Do (SetV 6 (New ''Fzb'' [New ''fkb'' [V 5]])), Do (SetV 4 (Meth (Meth (Dot (V 6) ''a'') ''ec'' []) ''Jc'' [])), Loop (Meth (V 4) ''Ob'' []) [Do (SetV 3 (Dot (Call ''JD'' [Meth (V 4) ''Pb'' [], K (JNum 15)]) ''a'')), Do (SetV 7 (Call ''JD'' [Meth (Meth (Meth (Dot (Call ''JD'' [Call ''ejb'' [V 5, Call ''Cfb'' [V 3]], K (JNum 48)]) ''a'') ''ec'' []) ''Jc'' []) ''Pb'' [], K (JNum 17)])), When (Call ''AWb'' [V 7]) [Continue] [], Do (SetV 8 (Dot (Dot (V 7) ''d'') ''i'')), Do (Cond (Idx (Dot (V 0) ''a'') (Dot (V 8) ''p'')) (Call ''bmb'' [Dot (V 0) ''b'', Call ''JD'' [Call ''ejb'' [V 5, Call ''Cfb'' [V 3]], K (JNum 18)]]) (Call ''IBc'' [V 0, V 8]))] [], Do (PutIdx (Dot (V 0) ''a'') (Dot (V 1) ''p'') (K (JBool False)))],
    fn ''Mpd'' 1 5 [Do (SetV 3 (Call ''Ueb'' [Call ''MD'' [Call ''cvd'' [V 0, Seq (Call ''vjd'' []) (G ''Sid'')]]])), When (Loose (V 3) (K (JNum 1))) [Ret (K JUndef)] [], Do (Call ''Xvd'' [V 0, Bin Times (V 3) (Dot (V 0) ''g''), Bin Times (V 3) (Dot (V 0) ''f'')]), Do (SetV 2 (Call ''Yq'' [Call ''br'' [Seq (And (Neg (Dot (V 0) ''c'')) (Put (V 0) ''c'' (New ''P3d'' [G ''U3'', V 0, K (JNum 9), K (JNum 9)]))) (Dot (V 0) ''c''), New ''lqd'' []]])), Do (SetV 5 (Call ''Gl'' [Call ''yl'' [Call ''WC'' [Call ''OC'' [G ''VI'', K (JNum 1)], G ''Gte'', K (JNum 20), K (JNum 0), NewArr [Seq (And (Neg (Dot (V 0) ''n'')) (Put (V 0) ''n'' (New ''P3d'' [G ''S3'', V 0, K (JNum 1), K (JNum 7)]))) (Dot (V 0) ''n''), Seq (And (Neg (Dot (V 0) ''c'')) (Put (V 0) ''c'' (New ''P3d'' [G ''U3'', V 0, K (JNum 9), K (JNum 9)]))) (Dot (V 0) ''c''), V 2]]]])), Loop (Call ''Wr'' [V 5]) [Do (SetV 4 (Call ''JD'' [Call ''Xr'' [V 5], K (JNum 276)])), Do (Meth (V 4) ''ph'' [Bin Times (V 3) (Meth (V 4) ''mh'' []), Bin Times (V 3) (Meth (V 4) ''nh'' [])]), Do (Meth (V 4) ''oh'' [Bin Times (V 3) (Meth (V 4) ''lh'' []), Bin Times (V 3) (Meth (V 4) ''kh'' [])]), Do (SetV 1 (Call ''JD'' [Meth (V 4) ''mf'' [G ''Did''], K (JNum 8)])), When (V 1) [Do (Put (V 1) ''a'' (Bin Times (Dot (V 1) ''a'') (V 3))), Do (Put (V 1) ''b'' (Bin Times (Dot (V 1) ''b'') (V 3)))] []] []],
    fn ''bee'' 3 5 [Do (SetV 6 (Seq (Call ''Aie'' []) (Meth (Call ''JD'' [V 1, K (JNum 69)]) ''vk'' []))), When (Call ''Die'' [Dot (V 0) ''e'', V 1]) [When (And (Meth (V 1) ''Qi'' []) (Call ''qee'' [V 0, V 1, V 2, And (Call ''RD'' [V 1, K (JNum 103)]) (Neg (Loose (Bin BitAnd (Dot (Call ''JD'' [V 1, K (JNum 19)]) ''Bb'') (G ''Hve'')) (K (JNum 0))))])) [Ret (K (JBool False))] []] [Do (SetV 7 (Call ''Cie'' [Meth (Dot (V 0) ''e'') ''Ah'' [], V 1])), Do (SetV 3 (Call ''JD'' [Dot (V 0) ''g'', K (JNum 122)])), Do (SetV 5 (K (JNum 0))), Loop (Bin Lt (V 5) (Dot (V 0) ''i'')) [Do (SetV 4 (Idx (V 3) (V 5))), When (Meth (V 7) ''$l'' [Meth (V 4) ''Jk'' []]) [When (Cond (V 6) (Call ''pb'' [V 4, V 2]) (Cond (Loose (V 2) (K JNull)) (Loose (Meth (V 4) ''kd'' []) (K JNull)) (Call ''pb'' [V 2, Meth (V 4) ''kd'' []]))) [Ret (K (JBool False))] [Do (Call ''JD'' [Call ''vFd'' [V 0, V 5, Cond (V 6) (Call ''JD'' [V 2, K (JNum 75)]) (Call ''Bie'' [V 1, V 2])], K (JNum 75)]), Ret (K (JBool True))]] []] [Do (SetV 5 (Bin Minus (V 5) (K (JNum (- 1)))))]], Ret (Call ''lFd'' [V 0, Cond (V 6) (Call ''JD'' [V 2, K (JNum 75)]) (Call ''Bie'' [V 1, V 2])])],
    fn ''P7b'' 5 8 [Do (SetV 6 (New ''Kmb'' [Dot (V 0) ''b''])), Loop (Bin Lt (Dot (V 6) ''a'') (Dot (Dot (Dot (V 6) ''c'') ''c'') ''length'')) [Do (SetV 5 (Call ''JD'' [Call ''Imb'' [V 6], K (JNum 25)])), Do (SetV 12 (Call ''$Xb'' [Dot (V 5) ''a''])), Do (Seq (Seq (SetV 9 (V 12)) (SetV 10 (K (JNum 0)))) (SetV 11 (Dot (V 9) ''length''))), Loop (Bin Lt (V 10) (V 11)) [Do (SetV 8 (Idx (V 9) (V 10))), Switch (Dot (Call ''JD'' [Call ''oNb'' [V 8, Seq (Call ''nyc'' []) (G ''Ewc'')], K (JNum 165)]) ''g'') [(Some (JNum 1), [Do (Call ''T7b'' [V 8]), Do (Call ''NYb'' [V 8, V 1]), Do (Call ''Q7b'' [V 8, K (JBool True), V 3]), Break]), (Some (JNum 3), [Do (Call ''U7b'' [V 8]), Do (Call ''NYb'' [V 8, V 2]), Do (Call ''Q7b'' [V 8, K (JBool False), V 4])])]] [Do (SetV 10 (Bin Minus (V 10) (K (JNum (- 1)))))]] [], Do (SetV 7 (New ''Tjb'' [Dot (V 0) ''b'', K (JNum 0)])), Loop (Bin Lt (Dot (V 7) ''b'') (Meth (Dot (V 7) ''d'') ''gc'' [])) [Do (And (Loose (Dot (Dot (Dot (Seq (Call ''LDb'' [Bin Lt (Dot (V 7) ''b'') (Meth (Dot (V 7) ''d'') ''gc'' [])]) (Call ''JD'' [Meth (Dot (V 7) ''d'') ''Xb'' [Put (V 7) ''c'' (Bin Minus (Put (V 7) ''b'' (Bin Minus (Dot (V 7) ''b'') (K (JNum (- 1))))) (K (JNum 1)))], K (JNum 25)])) ''a'') ''c'') ''length'') (K (JNum 0))) (Call ''Mjb'' [V 7]))] []],
    fn ''wib'' 2 15 [Do (SetV 13 (Dot (V 1) ''length'')), Do (SetV 8 (V 13)), Do (Call ''UDb'' [K (JNum 0), Dot (V 1) ''length'']), When (Loose (Meth (V 1) ''charCodeAt'' [K (JNum 0)]) (K (JNum 45))) [Do (SetV 11 (K (JNum (- 1)))), Do (SetV 12 (K (JNum 1))), Do (SetV 13 (Bin Minus (V 13) (K (JNum 1))))] [Do (SetV 11 (K (JNum 1))), Do (SetV 12 (K (JNum 0)))], Do (SetV 5 (Idx (Seq (Call ''Hib'' []) (G ''Gib'')) (K (JNum 10)))), Do (SetV 4 (Bin DivInt (V 13) (V 5))), Do (SetV 16 (Bin Modulo (V 13) (V 5))), Do (And (Neg (Loose (V 16) (K (JNum 0)))) (SetV 4 (Bin Minus (V 4) (K (JNum (- 1)))))), Do (SetV 7 (Call ''SC'' [G ''cE'', G ''bve'', K (JNum 30), V 4, K (JNum 15), K (JNum 1)])), Do (SetV 2 (Idx (G ''Fib'') (K (JNum 8)))), Do (SetV 6 (K (JNum 0))), Do (SetV 14 (Bin Plus (V 12) (Cond (Loose (V 16) (K (JNum 0))) (V 5) (V 16)))), Do (SetV 15 (V 12)), Loop (Bin Lt (V 15) (V 8)) [Do (SetV 3 (Call ''Ydb'' [Seq (Call ''TDb'' [V 15, V 14, Dot (V 1) ''length'']) (Meth (V 1) ''substr'' [V 15, Bin Minus (V 14) (V 15)]), G ''Eue'', G ''Ate''])), Do (SetV 9 (Seq (Call ''Vib'' []) (Call ''Zib'' [V 7, V 7, V 6, V 2]))), Do (SetV 9 (Bin Plus (V 9) (Call ''Pib'' [V 7, V 6, V 3]))), Do (PutIdx (V 7) (Bin Minus (SetV 6 (Bin Minus (V 6) (K (JNum (- 1))))) (K (JNum 1))) (V 9))] [Do (Seq (SetV 15 (V 14)) (SetV 14 (Bin Plus (V 15) (V 5))))], Do (SetV 10 (V 6)), Do (Put (V 0) ''e'' (V 11)), Do (Put (V 0) ''d'' (V 10)), Do (Put (V 0) ''a'' (V 7)), Do (Call ''_hb'' [V 0])],
    fn ''VVb'' 1 12 [Do (SetV 7 (Dot (V 0) ''i'')), Do (SetV 4 (Call ''Rdb'' [Call ''LD'' [Call ''oNb'' [V 7, Seq (Call ''nyc'' []) (G ''xwc'')]]])), Do (SetV 10 (K (JNum 0))), Do (SetV 3 (K (JNum 0))), Do (SetV 9 (New ''Kmb'' [Dot (V 0) ''g''])), Loop (Bin Lt (Dot (V 9) ''a'') (Dot (Dot (Dot (V 9) ''c'') ''c'') ''length'')) [Do (SetV 8 (Call ''JD'' [Call ''Imb'' [V 9], K (JNum 17)])), Do (SetV 6 (Call ''AWb'' [V 8])), Do (SetV 5 (And (And (V 6) (V 4)) (Call ''Rdb'' [Call ''LD'' [Call ''oNb'' [V 8, G ''ywc'']]]))), Do (SetV 12 (Dot (Dot (V 8) ''d'') ''i'')), Do (Cond (And (V 6) (V 5)) (SetV 3 (Bin Minus (V 3) (K (JNum (- 1))))) (Cond (And (V 6) (Neg (V 5))) (SetV 10 (Bin Minus (V 10) (K (JNum (- 1))))) (Cond (Loose (Dot (Call ''DYb'' [V 12]) ''e'') (V 7)) (SetV 3 (Bin Minus (V 3) (K (JNum (- 1))))) (SetV 10 (Bin Minus (V 10) (K (JNum (- 1))))))))] [], Do (SetV 2 (New ''Kmb'' [Dot (V 0) ''e''])), Loop (Bin Lt (Dot (V 2) ''a'') (Dot (Dot (Dot (V 2) ''c'') ''c'') ''length'')) [Do (SetV 1 (Call ''JD'' [Call ''Imb'' [V 2], K (JNum 17)])), Do (SetV 6 (Call ''AWb'' [V 1])), Do (SetV 5 (And (And (V 6) (V 4)) (Call ''Rdb'' [Call ''LD'' [Call ''oNb'' [V 1, G ''ywc'']]]))), Do (SetV 11 (Dot (Dot (V 1) ''c'') ''i'')), Do (Cond (And (V 6) (V 5)) (SetV 10 (Bin Minus (V 10) (K (JNum (- 1))))) (Cond (And (V 6) (Neg (V 5))) (SetV 3 (Bin Minus (V 3) (K (JNum (- 1))))) (Cond (Loose (Dot (Call ''DYb'' [V 11]) ''e'') (V 7)) (SetV 10 (Bin Minus (V 10) (K (JNum (- 1))))) (SetV 3 (Bin Minus (V 3) (K (JNum (- 1))))))))] [], Ret (Bin Minus (V 10) (V 3))],
    fn ''a7b'' 2 6 [When (Meth (V 1) ''dc'' []) [Ret (K JUndef)] [], When (Loose (Dot (Call ''JD'' [Meth (V 1) ''Xb'' [K (JNum 0)], K (JNum 294)]) ''d'') (Seq (Call ''Fnc'' []) (G ''Cnc''))) [Do (Call ''T6b'' [V 0, V 1])] [Do (SetV 3 (Meth (V 1) ''Jc'' [])), Loop (Meth (V 3) ''Ob'' []) [Do (SetV 2 (Call ''JD'' [Meth (V 3) ''Pb'' [], K (JNum 294)])), Switch (Dot (Dot (V 2) ''d'') ''g'') [(Some (JNum 5), [Do (Call ''P6b'' [V 0, V 2, Call ''V6b'' [V 0, V 2]]), Break]), (Some (JNum 0), [Do (Call ''P6b'' [V 0, V 2, Seq (Seq (SetV 6 (Bin Plus (Bin Minus (Dot (V 2) ''f'') (Dot (V 2) ''c'')) (K (JNum 1)))) (SetV 7 (Bin DivInt (Bin Minus (V 6) (K (JNum 1))) (K (JNum 2))))) (Bin Plus (Dot (V 2) ''c'') (V 7))]), Break]), (Some (JNum 4), [Do (Call ''P6b'' [V 0, V 2, Call ''X6b'' [V 0, V 2]]), Break]), (Some (JNum 2), [Do (Call ''b7b'' [V 2]), Do (Call ''P6b'' [V 0, V 2, Seq (SetV 5 (Call ''Z6b'' [V 2])) (Cond (V 5) (Dot (V 2) ''c'') (Dot (V 2) ''f''))]), Break]), (Some (JNum 1), [Do (Call ''b7b'' [V 2]), Do (Call ''P6b'' [V 0, V 2, Seq (SetV 4 (Call ''Z6b'' [V 2])) (Cond (V 4) (Dot (V 2) ''f'') (Dot (V 2) ''c''))])])], Do (Call ''U6b'' [Dot (V 2) ''a''])] []]],
    fn ''qt'' 4 3 [Do (SetV 6 (New ''yu'' [V 1, V 2])), When (Neg (Dot (V 0) ''a'')) [Do (Put (V 0) ''a'' (Put (V 0) ''e'' (V 6))), Do (Call ''hjb'' [Dot (V 0) ''b'', V 1, New ''xu'' [V 6]]), Do (Put (V 0) ''c'' (Bin Minus (Dot (V 0) ''c'') (K (JNum (- 1)))))] [When (Neg (V 3)) [Do (Put (Call ''JD'' [Call ''Oub'' [Dot (V 0) ''e''], K (JNum 498)]) ''b'' (V 6)), Do (Put (V 6) ''d'' (Dot (V 0) ''e'')), Do (Put (V 0) ''e'' (V 6)), Do (SetV 4 (Call ''JD'' [Call ''ejb'' [Dot (V 0) ''b'', V 1], K (JNum 262)])), When (Neg (V 4)) [Do (Call ''hjb'' [Dot (V 0) ''b'', V 1, SetV 4 (New ''xu'' [V 6])]), Do (Put (V 0) ''c'' (Bin Minus (Dot (V 0) ''c'') (K (JNum (- 1)))))] [Do (Put (V 4) ''a'' (Bin Minus (Dot (V 4) ''a'') (K (JNum (- 1))))), Do (SetV 5 (Dot (V 4) ''c'')), Do (Put (V 5) ''c'' (V 6)), Do (Put (V 6) ''e'' (V 5)), Do (Put (V 4) ''c'' (V 6))]] [Do (SetV 4 (Call ''JD'' [Call ''Oub'' [Call ''JD'' [Call ''ejb'' [Dot (V 0) ''b'', V 1], K (JNum 262)]], K (JNum 262)])), Do (Put (V 4) ''a'' (Bin Minus (Dot (V 4) ''a'') (K (JNum (- 1))))), Do (Put (V 6) ''d'' (Dot (V 3) ''d'')), Do (Put (V 6) ''e'' (Dot (V 3) ''e'')), Do (Put (V 6) ''b'' (V 3)), Do (Put (V 6) ''c'' (V 3)), Do (Cond (Neg (Dot (V 3) ''e'')) (Put (V 4) ''b'' (V 6)) (Put (Dot (V 3) ''e'') ''c'' (V 6))), Do (Cond (Neg (Dot (V 3) ''d'')) (Put (V 0) ''a'' (V 6)) (Put (Dot (V 3) ''d'') ''b'' (V 6))), Do (Put (V 3) ''d'' (V 6)), Do (Put (V 3) ''e'' (V 6))]], Do (Put (V 0) ''d'' (Bin Minus (Dot (V 0) ''d'') (K (JNum (- 1))))), Ret (V 6)],
    fn ''QGb'' 2 5 [Do (Meth (V 1) ''Tg'' [K (JStr ''Network simplex''), K (JNum 1)]), When (Bin Lt (Dot (Dot (Dot (Dot (V 0) ''e'') ''a'') ''c'') ''length'') (K (JNum 1))) [Do (Meth (V 1) ''Ug'' []), Ret (K JUndef)] [], Do (SetV 5 (New ''Kmb'' [Dot (Dot (V 0) ''e'') ''a''])), Loop (Bin Lt (Dot (V 5) ''a'') (Dot (Dot (Dot (V 5) ''c'') ''c'') ''length'')) [Do (SetV 4 (Call ''JD'' [Call ''Imb'' [V 5], K (JNum 124)])), Do (Put (V 4) ''e'' (K (JNum 0)))] [], Do (SetV 6 (Bin Ge (Dot (Dot (Dot (Dot (V 0) ''e'') ''a'') ''c'') ''length'') (K (JNum 40)))), Do (And (V 6) (Call ''_Gb'' [V 0])), Do (Call ''SGb'' [V 0]), Do (Call ''RGb'' [V 0]), Do (SetV 2 (Call ''VGb'' [V 0])), Do (SetV 3 (K (JNum 0))), Loop (And (Neg (Neg (V 2))) (Bin Lt (V 3) (Dot (V 0) ''f''))) [Do (Call ''PGb'' [V 0, V 2, Call ''OGb'' [V 0, V 2]]), Do (SetV 2 (Call ''VGb'' [V 0])), Do (SetV 3 (Bin Minus (V 3) (K (JNum (- 1)))))] [], Do (And (V 6) (Call ''$Gb'' [V 0])), Do (Cond (Dot (V 0) ''a'') (Call ''MGb'' [V 0, Call ''YGb'' [V 0]]) (Call ''YGb'' [V 0])), Do (Put (V 0) ''b'' (K JNull)), Do (Put (V 0) ''d'' (K JNull)), Do (Put (V 0) ''p'' (K JNull)), Do (Put (V 0) ''c'' (K JNull)), Do (Put (V 0) ''g'' (K JNull)), Do (Put (V 0) ''i'' (K JNull)), Do (Put (V 0) ''n'' (K JNull)), Do (Put (V 0) ''o'' (K JNull)), Do (Meth (V 1) ''Ug'' [])],
    fn ''F1b'' 2 7 [When (Dot (V 1) ''e'') [Ret (K JUndef)] [], Do (Put (V 1) ''e'' (K (JBool True))), Do (SetV 3 (Meth (Meth (Dot (Dot (V 1) ''d'') ''a'') ''ec'' []) ''Jc'' [])), Loop (Meth (V 3) ''Ob'' []) [Do (SetV 2 (Call ''JD'' [Meth (V 3) ''Pb'' [], K (JNum 17)])), When (And (Dot (V 1) ''o'') (Bin Le (Meth (Dot (Dot (V 1) ''d'') ''a'') ''gc'' []) (K (JNum 1)))) [Do (SetV 6 (Dot (Dot (V 1) ''a'') ''c'')), Do (SetV 7 (Bin Plus (Dot (Dot (V 1) ''a'') ''c'') (Dot (Dot (V 1) ''a'') ''b''))), Do (SetV 8 (New ''lgd'' [Bin Plus (V 6) (Bin Divide (Bin Minus (V 7) (V 6)) (K (JNum 2))), Dot (V 1) ''b''])), Do (Call ''Ttb'' [Dot (Call ''JD'' [Meth (Meth (Meth (Dot (Dot (V 1) ''d'') ''a'') ''ec'' []) ''Jc'' []) ''Pb'' [], K (JNum 17)]) ''a'', V 8]), Continue] [], Do (SetV 4 (Call ''JD'' [Call ''ejb'' [Dot (V 1) ''c'', V 2], K (JNum 457)])), When (Or (Dot (V 4) ''b'') (Dot (V 4) ''c'')) [Do (Call ''H1b'' [V 0, V 2, V 1]), Continue] [], Do (SetV 5 (And (And (And (Loose (Dot (V 0) ''d'') (Seq (Call ''aBc'' []) (G ''_Ac''))) (Or (Dot (V 4) ''d'') (Dot (V 4) ''e''))) (Call ''N1b'' [V 0, V 1])) (Bin Le (Meth (Dot (Dot (V 1) ''d'') ''a'') ''gc'' []) (K (JNum 1))))), Do (Cond (V 5) (Call ''I1b'' [V 2, V 1]) (Call ''G1b'' [V 0, V 2, V 1]))] [], Do (And (Dot (V 1) ''k'') (Call ''Hfb'' [Dot (V 1) ''d'', New ''$1b'' []]))],
    fn ''j2c'' 6 14 [Do (SetV 12 (V 5)), Do (SetV 7 (Bin Plus (Bin Divide (Bin Plus (V 3) (V 4)) (K (JNum 2))) (V 12))), Do (SetV 16 (Bin Times (V 2) (Meth (Dot (G ''$wnd'') ''Math'') ''cos'' [V 7]))), Do (SetV 17 (Bin Times (V 2) (Meth (Dot (G ''$wnd'') ''Math'') ''sin'' [V 7]))), Do (SetV 18 (Bin Minus (V 16) (Bin Divide (Dot (V 1) ''g'') (K (JNum 2))))), Do (SetV 19 (Bin Minus (V 17) (Bin Divide (Dot (V 1) ''f'') (K (JNum 2))))), Do (Call ''_vd'' [V 1, V 18]), Do (Call ''awd'' [V 1, V 19]), Do (SetV 11 (Meth (Dot (V 0) ''a'') ''Dg'' [V 1])), Do (SetV 15 (Bin Times (K (JNum 2)) (Meth (Dot (G ''$wnd'') ''Math'') ''acos'' [Bin Plus (Bin Divide (V 2) (V 2)) (Dot (V 0) ''c'')]))), When (Bin Lt (V 15) (Bin Minus (V 4) (V 3))) [Do (SetV 13 (Bin Divide (V 15) (V 11))), Do (SetV 6 (Bin Divide (Bin Minus (Bin Plus (V 3) (V 4)) (V 15)) (K (JNum 2))))] [Do (SetV 13 (Bin Divide (Bin Minus (V 4) (V 3)) (V 11))), Do (SetV 6 (V 3))], Do (SetV 14 (Call ''z_c'' [V 1])), When (Dot (V 0) ''e'') [Do (Meth (Dot (V 0) ''e'') ''Eg'' [Dot (V 0) ''d'']), Do (Meth (Dot (V 0) ''e'') ''Fg'' [V 14])] [], Do (SetV 9 (New ''Kmb'' [V 14])), Loop (Bin Lt (Dot (V 9) ''a'') (Dot (Dot (Dot (V 9) ''c'') ''c'') ''length'')) [Do (SetV 8 (Call ''JD'' [Call ''Imb'' [V 9], K (JNum 26)])), Do (SetV 10 (Meth (Dot (V 0) ''a'') ''Dg'' [V 8])), Do (Call ''j2c'' [V 0, V 8, Bin Plus (V 2) (Dot (V 0) ''c''), V 6, Bin Plus (V 6) (Bin Times (V 13) (V 10)), V 5]), Do (SetV 6 (Bin Plus (V 6) (Bin Times (V 13) (V 10))))] []],
    fn ''rA'' 3 1 [Do (SetV 3 (Meth (Dot (V 2) ''q'') ''getMonth'' [])), Switch (V 1) [(Some (JNum 5), [Do (Call ''hhb'' [V 0, Idx (Call ''WC'' [Call ''OC'' [G ''hJ'', K (JNum 1)], G ''aue'', K (JNum 2), K (JNum 6), NewArr [K (JStr ''J''), K (JStr ''F''), K (JStr ''M''), K (JStr ''A''), K (JStr ''M''), K (JStr ''J''), K (JStr ''J''), K (JStr ''A''), K (JStr ''S''), K (JStr ''O''), K (JStr ''N''), K (JStr ''D'')]]) (V 3)]), Break]), (Some (JNum 4), [Do (Call ''hhb'' [V 0, Idx (Call ''WC'' [Call ''OC'' [G ''hJ'', K (JNum 1)], G ''aue'', K (JNum 2), K (JNum 6), NewArr [G ''Que'', G ''Rue'', G ''Sue'', G ''Tue'', G ''Uue'', G ''Vue'', G ''Wue'', G ''Xue'', G ''Yue'', G ''Zue'', G ''$ue'', G ''_ue'']]) (V 3)]), Break]), (Some (JNum 3), [Do (Call ''hhb'' [V 0, Idx (Call ''WC'' [Call ''OC'' [G ''hJ'', K (JNum 1)], G ''aue'', K (JNum 2), K (JNum 6), NewArr [K (JStr ''Jan''), K (JStr ''Feb''), K (JStr ''Mar''), K (JStr ''Apr''), G ''Uue'', K (JStr ''Jun''), K (JStr ''Jul''), K (JStr ''Aug''), K (JStr ''Sep''), K (JStr ''Oct''), K (JStr ''Nov''), K (JStr ''Dec'')]]) (V 3)]), Break]), (None, [Do (Call ''MA'' [V 0, Bin Plus (V 3) (K (JNum 1)), V 1])])]],
    fn ''TMb'' 4 9 [Do (SetV 8 (New ''lgd'' [V 2, V 3])), Do (Call ''igd'' [V 8, Call ''JD'' [Call ''oNb'' [V 1, Seq (Call ''lPb'' []) (G ''iPb'')], K (JNum 8)]]), Do (SetV 12 (New ''Kmb'' [Dot (V 1) ''e''])), Loop (Bin Lt (Dot (V 12) ''a'') (Dot (Dot (Dot (V 12) ''c'') ''c'') ''length'')) [Do (SetV 11 (Call ''JD'' [Call ''Imb'' [V 12], K (JNum 155)])), Do (Call ''Vfd'' [Dot (V 11) ''d'', V 8]), Do (Call ''_lb'' [Dot (V 0) ''e'', V 11])] [], Do (SetV 7 (New ''Kmb'' [Dot (V 1) ''c''])), Loop (Bin Lt (Dot (V 7) ''a'') (Dot (Dot (Dot (V 7) ''c'') ''c'') ''length'')) [Do (SetV 6 (Call ''JD'' [Call ''Imb'' [V 7], K (JNum 291)])), Do (SetV 5 (New ''Kmb'' [Dot (V 6) ''a''])), Loop (Bin Lt (Dot (V 5) ''a'') (Dot (Dot (Dot (V 5) ''c'') ''c'') ''length'')) [Do (SetV 4 (Call ''JD'' [Call ''Imb'' [V 5], K (JNum 251)])), Do (Call ''Vfd'' [Dot (V 4) ''d'', V 8])] [], Do (Call ''_lb'' [Dot (V 0) ''c'', V 6])] [], Do (SetV 10 (New ''Kmb'' [Dot (V 1) ''d''])), Loop (Bin Lt (Dot (V 10) ''a'') (Dot (Dot (Dot (V 10) ''c'') ''c'') ''length'')) [Do (SetV 9 (Call ''JD'' [Call ''Imb'' [V 10], K (JNum 445)])), Do (Call ''Vfd'' [Dot (V 9) ''d'', V 8]), Do (Call ''_lb'' [Dot (V 0) ''d'', V 9])] []]]"

definition object_table23 :: "(string \<times> jfun) list" where
  "object_table23 = code_5666_5685 @ code_5686_5694 @ code_5696_5697 @ code_5700_5717 @ code_5719_5728 @ code_5730_5743 @ code_5746_5761"

text \<open>The names each table declares.\<close>

lemma names_5666_5685 [js_names]: "map fst code_5666_5685 = [
    ''P3c'', ''EYd'', ''WGc'', ''vbd'', ''p0b'', ''djc'', ''gbd'', ''cic'', ''eKb'', ''mLb'',
    ''xKc'', ''TUd'', ''Gce'', ''Kce'', ''Xac'', ''nkc'', ''bIc'', ''YJb'', ''iee'', ''udd'']"
  by (simp add: code_5666_5685_def fn_def)

lemma names_5686_5694 [js_names]: "map fst code_5686_5694 = [
    ''hc'', ''VIc'', ''Che'', ''Iie'', ''T8b'', ''gFb'', ''eSb'', ''S6b'', ''PIc'']"
  by (simp add: code_5686_5694_def fn_def)

lemma names_5696_5697 [js_names]: "map fst code_5696_5697 = [
    ''fZc'', ''tsd'']"
  by (simp add: code_5696_5697_def fn_def)

lemma names_5700_5717 [js_names]: "map fst code_5700_5717 = [
    ''IGc'', ''hic'', ''tIc'', ''pdd'', ''aUb'', ''VXb'', ''I$b'', ''X9b'', ''u2b'', ''l7b'',
    ''wlc'', ''dIc'', ''Zhb'', ''mHb'', ''WPc'', ''Z4c'', ''iCd'', ''UGb'']"
  by (simp add: code_5700_5717_def fn_def)

lemma names_5719_5728 [js_names]: "map fst code_5719_5728 = [
    ''rZc'', ''ZId'', ''Wjc'', ''IFc'', ''imc'', ''Hkd'', ''xo'', ''H1b'', ''Rzc'', ''XBd'']"
  by (simp add: code_5719_5728_def fn_def)

lemma names_5730_5743 [js_names]: "map fst code_5730_5743 = [
    ''m1c'', ''c0c'', ''Htd'', ''D8b'', ''_kc'', ''FVc'', ''Sce'', ''Tce'', ''kEc'', ''JBc'',
    ''mee'', ''Lee'', ''$Tb'', ''l6b'']"
  by (simp add: code_5730_5743_def fn_def)

lemma names_5746_5761 [js_names]: "map fst code_5746_5761 = [
    ''bNc'', ''aSb'', ''yhc'', ''IBc'', ''Mpd'', ''bee'', ''P7b'', ''wib'', ''VVb'', ''a7b'',
    ''qt'', ''QGb'', ''F1b'', ''j2c'', ''rA'', ''TMb'']"
  by (simp add: code_5746_5761_def fn_def)

end
