(* ===== verification/ObjectTable24.thy ===== *)
theory ObjectTable24
  imports ObjectCode
begin

text \<open>
  Functions of \<open>layout-worker.js\<close>, lines 5762 to 5835, in the order of the file, one per line:
  the algorithms of the layout engine, longer operations of the runtime's collections and of options,
  with their loops, \<open>switch\<close> and \<open>try\<close> statements. An entry has the name, the
  number of parameters, the number of further local variables and the body; parameters and locals
  are numbered from 0, the variable of a \<open>catch\<close> has a number of its own, \<open>x++\<close> is \<open>(x=x+1)-1\<close>. Lines
  with a construct outside \<open>jexp\<close> and \<open>jstm\<close> (closures, \<open>in\<close>, floating-point literals, host objects) are
  left out.
\<close>

definition code_5762_5778 :: "(string \<times> jfun) list" where
  "code_5762_5778 = [
    fn ''$Bc'' 2 8 [Do (SetV 8 (New ''Kmb'' [Dot (V 1) ''j''])), Loop (Bin Lt (Dot (V 8) ''a'') (Dot (Dot (Dot (V 8) ''c'') ''c'') ''length'')) [Do (SetV 7 (Call ''JD'' [Call ''Imb'' [V 8], K (JNum 12)])), Do (SetV 4 (New ''UZb'' [Dot (V 7) ''b''])), Loop (Or (Call ''Hmb'' [Dot (V 4) ''a'']) (Call ''Hmb'' [Dot (V 4) ''b''])) [Do (SetV 3 (Call ''JD'' [Cond (Call ''Hmb'' [Dot (V 4) ''a'']) (Call ''Imb'' [Dot (V 4) ''a'']) (Call ''Imb'' [Dot (V 4) ''b'']), K (JNum 17)])), Do (SetV 2 (Cond (Loose (Dot (V 3) ''c'') (V 7)) (Dot (V 3) ''d'') (Dot (V 3) ''c''))), Do (SetV 5 (Dot (V 2) ''i'')), When (Loose (V 1) (V 5)) [Continue] [], Do (SetV 9 (Dot (Call ''JD'' [Call ''oNb'' [V 3, Seq (Call ''nyc'' []) (G ''zxc'')], K (JNum 15)]) ''a'')), Do (And (Bin Lt (V 9) (K (JNum 0))) (SetV 9 (K (JNum 0)))), Do (SetV 6 (Dot (V 5) ''p'')), When (Loose (Idx (Dot (V 0) ''c'') (V 6)) (K (JNum 0))) [When (Loose (Dot (V 3) ''d'') (V 2)) [Do (PutIdx (Dot (V 0) ''a'') (V 6) (Bin Minus (Idx (Dot (V 0) ''a'') (V 6)) (Bin Plus (V 9) (K (JNum 1))))), Do (And (And (Bin Le (Idx (Dot (V 0) ''a'') (V 6)) (K (JNum 0))) (Bin Gt (Idx (Dot (V 0) ''d'') (V 6)) (K (JNum 0)))) (Call ''Ttb'' [Dot (V 0) ''g'', V 5]))] [Do (PutIdx (Dot (V 0) ''d'') (V 6) (Bin Minus (Idx (Dot (V 0) ''d'') (V 6)) (Bin Plus (V 9) (K (JNum 1))))), Do (And (And (Bin Le (Idx (Dot (V 0) ''d'') (V 6)) (K (JNum 0))) (Bin Gt (Idx (Dot (V 0) ''a'') (V 6)) (K (JNum 0)))) (Call ''Ttb'' [Dot (V 0) ''f'', V 5]))]] []] []] []],
    fn ''oSc'' 4 7 [Do (SetV 8 (New ''lgd'' [V 2, V 3])), Do (Call ''igd'' [V 8, Call ''JD'' [Call ''oNb'' [V 1, Seq (Call ''_Wc'' []) (G ''BWc'')], K (JNum 8)]]), Do (SetV 10 (Call ''Ztb'' [Dot (V 1) ''b'', K (JNum 0)])), Loop (Neg (Loose (Dot (V 10) ''b'') (Dot (Dot (V 10) ''d'') ''c''))) [Do (SetV 9 (Call ''JD'' [Call ''lub'' [V 10], K (JNum 40)])), Do (Call ''Vfd'' [Dot (V 9) ''e'', V 8]), Do (Call ''Ttb'' [Dot (V 0) ''b'', V 9])] [], Do (SetV 7 (Meth (Call ''JD'' [Call ''SBb'' [Call ''UBb'' [New ''jCb'' [K JNull, New ''Zvb'' [Dot (V 1) ''a'', K (JNum 16)]]], Call ''BAb'' [New ''TAb'' [], New ''RAb'' [], New ''ZAb'' [], Call ''WC'' [Call ''OC'' [G ''HL'', K (JNum 1)], G ''xue'', K (JNum 130), K (JNum 0), NewArr [Seq (Call ''FAb'' []) (G ''DAb'')]]]], K (JNum 16)]) ''Jc'' [])), Loop (Meth (V 7) ''Ob'' []) [Do (SetV 6 (Call ''JD'' [Meth (V 7) ''Pb'' [], K (JNum 65)])), Do (SetV 5 (Call ''Ztb'' [Dot (V 6) ''a'', K (JNum 0)])), Loop (Neg (Loose (Dot (V 5) ''b'') (Dot (Dot (V 5) ''d'') ''c''))) [Do (SetV 4 (Call ''JD'' [Call ''lub'' [V 5], K (JNum 8)])), Do (Put (V 4) ''a'' (Bin Plus (Dot (V 4) ''a'') (Dot (V 8) ''a''))), Do (Put (V 4) ''b'' (Bin Plus (Dot (V 4) ''b'') (Dot (V 8) ''b'')))] [], Do (Call ''Ttb'' [Dot (V 0) ''a'', V 6])] []],
    fn ''VSc'' 2 4 [When (Bin Lt (K (JNum 0)) (Cond (Call ''RD'' [V 0, K (JNum 18)]) (Meth (Call ''JD'' [V 0, K (JNum 18)]) ''gc'' []) (Call ''Br'' [Meth (V 0) ''Jc'' []]))) [Do (SetV 4 (V 1)), When (Bin Lt (K (JNum 1)) (V 4)) [Do (SetV 4 (Bin Minus (V 4) (K (JNum 1)))), Do (SetV 5 (New ''dTc'' [])), Do (SetV 3 (Meth (V 0) ''Jc'' [])), Loop (Meth (V 3) ''Ob'' []) [Do (SetV 2 (Call ''JD'' [Meth (V 3) ''Pb'' [], K (JNum 40)])), Do (SetV 5 (Call ''yl'' [Call ''WC'' [Call ''OC'' [G ''VI'', K (JNum 1)], G ''Gte'', K (JNum 20), K (JNum 0), NewArr [V 5, New ''OTc'' [V 2]]]]))] [], Ret (Call ''VSc'' [V 5, V 4])] [], When (Bin Lt (V 4) (K (JNum 0))) [Do (SetV 5 (New ''gTc'' [])), Do (SetV 3 (Meth (V 0) ''Jc'' [])), Loop (Meth (V 3) ''Ob'' []) [Do (SetV 2 (Call ''JD'' [Meth (V 3) ''Pb'' [], K (JNum 40)])), Do (SetV 5 (Call ''yl'' [Call ''WC'' [Call ''OC'' [G ''VI'', K (JNum 1)], G ''Gte'', K (JNum 20), K (JNum 0), NewArr [V 5, New ''OTc'' [V 2]]]]))] [], When (Bin Lt (K (JNum 0)) (Cond (Call ''RD'' [V 5, K (JNum 18)]) (Meth (Call ''JD'' [V 5, K (JNum 18)]) ''gc'' []) (Call ''Br'' [Meth (V 5) ''Jc'' []]))) [Ret (Call ''VSc'' [V 5, V 4])] []] []] [], Ret (Call ''JD'' [Call ''yr'' [Meth (V 0) ''Jc'' []], K (JNum 40)])],
    fn ''eZc'' 3 4 [Do (Meth (V 2) ''Tg'' [K (JStr ''Processor order nodes''), K (JNum 2)]), Do (Put (V 0) ''b'' (Call ''Ueb'' [Call ''MD'' [Call ''oNb'' [V 1, Seq (Call ''SXc'' []) (G ''KXc'')]]])), Do (Put (V 0) ''a'' (Call ''JD'' [Call ''oNb'' [V 1, G ''qXc''], K (JNum 86)])), When (Loose (Dot (V 0) ''a'') (Seq (Call ''Djd'' []) (G ''Bjd''))) [Do (Put (V 0) ''a'' (G ''yjd'')), Do (Call ''rNb'' [V 1, G ''qXc'', Dot (V 0) ''a''])] [], Do (SetV 4 (New ''dub'' [])), Do (SetV 6 (Call ''Ztb'' [Dot (V 1) ''b'', K (JNum 0)])), Loop (Neg (Loose (Dot (V 6) ''b'') (Dot (Dot (V 6) ''d'') ''c''))) [Do (SetV 5 (Call ''JD'' [Call ''lub'' [V 6], K (JNum 40)])), Do (And (Call ''Rdb'' [Call ''LD'' [Call ''oNb'' [V 5, Seq (Call ''_Wc'' []) (G ''YWc'')]]]) (Seq (Call ''Wtb'' [V 4, V 5, Dot (Dot (V 4) ''c'') ''b'', Dot (V 4) ''c'']) (K (JBool True))))] [], Do (SetV 3 (Seq (Call ''LDb'' [Neg (Loose (Dot (V 4) ''b'') (K (JNum 0)))]) (Call ''JD'' [Dot (Dot (Dot (V 4) ''a'') ''a'') ''c'', K (JNum 40)]))), Do (Call ''cZc'' [V 0, V 3]), Do (Meth (V 2) ''eh'' [K (JNum 1)]), Do (Call ''fZc'' [V 0, V 3, Bin Minus (K (JNum 0)) (Bin Divide (Call ''Ueb'' [Call ''MD'' [Call ''oNb'' [V 3, Seq (Call ''_Wc'' []) (G ''OWc'')]]]) (K (JNum 2))), K (JNum 0)]), Do (Meth (V 2) ''eh'' [K (JNum 1)]), Do (Meth (V 2) ''Ug'' [])],
    fn ''xnd'' 0 0 [Do (SetG ''xnd'' (G ''qdb'')), Do (SetG ''qnd'' (New ''ynd'' [K (JStr ''DEFAULT_MINIMUM_SIZE''), K (JNum 0)])), Do (SetG ''snd'' (New ''ynd'' [K (JStr ''MINIMUM_SIZE_ACCOUNTS_FOR_PADDING''), K (JNum 1)])), Do (SetG ''pnd'' (New ''ynd'' [K (JStr ''COMPUTE_PADDING''), K (JNum 2)])), Do (SetG ''tnd'' (New ''ynd'' [K (JStr ''OUTSIDE_NODE_LABELS_OVERHANG''), K (JNum 3)])), Do (SetG ''und'' (New ''ynd'' [K (JStr ''PORTS_OVERHANG''), K (JNum 4)])), Do (SetG ''wnd'' (New ''ynd'' [K (JStr ''UNIFORM_PORT_SPACING''), K (JNum 5)])), Do (SetG ''vnd'' (New ''ynd'' [K (JStr ''SPACE_EFFICIENT_PORT_LABELS''), K (JNum 6)])), Do (SetG ''rnd'' (New ''ynd'' [K (JStr ''FORCE_TABULAR_NODE_LABELS''), K (JNum 7)])), Do (SetG ''ond'' (New ''ynd'' [K (JStr ''ASYMMETRICAL''), K (JNum 8)]))],
    fn ''cie'' 2 8 [When (Neg (V 1)) [Ret (K JNull)] [Do (SetV 2 (Seq (SetV 5 (Meth (V 1) ''Ah'' [])) (Cond (Neg (V 5)) (K JNull) (Meth (Meth (Call ''OVd'' [V 5]) ''ti'' []) ''pi'' [V 5])))), When (V 2) [Do (Call ''ltb'' [V 0, V 1, V 2]), Do (SetV 4 (Meth (V 1) ''Ah'' [])), Do (Seq (SetV 8 (K (JNum 0))) (SetV 9 (Dot (Seq (And (Loose (Dot (V 4) ''i'') (K JNull)) (Call ''EWd'' [V 4])) (Dot (V 4) ''i'')) ''length''))), Loop (Bin Lt (V 8) (V 9)) [Do (SetV 7 (Seq (SetV 3 (Seq (And (Loose (Dot (V 4) ''i'') (K JNull)) (Call ''EWd'' [V 4])) (Dot (V 4) ''i''))) (Cond (And (Bin Ge (V 8) (K (JNum 0))) (Bin Lt (V 8) (Dot (V 3) ''length''))) (Idx (V 3) (V 8)) (K JNull)))), When (And (Meth (V 7) ''pk'' []) (Neg (Meth (V 7) ''qk'' []))) [When (Call ''RD'' [V 7, K (JNum 335)]) [Do (Call ''eie'' [V 0, Call ''JD'' [V 7, K (JNum 38)], V 1, V 2])] [Do (SetV 6 (Call ''JD'' [V 7, K (JNum 19)])), Do (And (Neg (Loose (Bin BitAnd (Dot (V 6) ''Bb'') (G ''$Fe'')) (K (JNum 0)))) (Call ''gie'' [V 0, V 6, V 1, V 2]))]] []] [Do (SetV 8 (Bin Minus (V 8) (K (JNum (- 1)))))], Do (And (Meth (V 1) ''Sh'' []) (Meth (Call ''JD'' [V 2, K (JNum 52)]) ''bi'' [Meth (Call ''JD'' [V 1, K (JNum 52)]) ''Yh'' []]))] [], Ret (V 2)]],
    fn ''PGb'' 3 3 [When (Neg (Dot (V 1) ''f'')) [Raise (Call ''Lcb'' [New ''kfb'' [K (JStr ''Given leave edge is no tree edge.'')]])] [], When (Dot (V 2) ''f'') [Raise (Call ''Lcb'' [New ''kfb'' [K (JStr ''Given enter edge is a tree edge already.'')]])] [], Do (Put (V 1) ''f'' (K (JBool False))), Do (Call ''gsb'' [Dot (V 0) ''p'', V 1]), Do (Put (V 2) ''f'' (K (JBool True))), Do (Call ''esb'' [Dot (V 0) ''p'', V 2]), Do (SetV 3 (Bin Minus (Bin Minus (Dot (Dot (V 2) ''e'') ''e'') (Dot (Dot (V 2) ''d'') ''e'')) (Dot (V 2) ''a''))), Do (Or (Call ''TGb'' [V 0, Dot (V 2) ''e'', V 1]) (SetV 3 (Minus1 (V 3)))), Do (SetV 5 (New ''Kmb'' [Dot (Dot (V 0) ''e'') ''a''])), Loop (Bin Lt (Dot (V 5) ''a'') (Dot (Dot (Dot (V 5) ''c'') ''c'') ''length'')) [Do (SetV 4 (Call ''JD'' [Call ''Imb'' [V 5], K (JNum 124)])), Do (Or (Call ''TGb'' [V 0, V 4, V 1]) (Put (V 4) ''e'' (Bin Plus (Dot (V 4) ''e'') (V 3))))] [], Do (Put (V 0) ''j'' (K (JNum 1))), Do (Call ''Xmb'' [Dot (V 0) ''c'']), Do (Call ''ZGb'' [V 0, Call ''JD'' [Call ''Imb'' [New ''Kmb'' [Dot (Dot (V 0) ''e'') ''a'']], K (JNum 124)]]), Do (Call ''NGb'' [V 0])],
    fn ''A3b'' 2 6 [Do (SetV 7 (Call ''JD'' [Call ''oNb'' [V 1, Seq (Call ''nyc'' []) (G ''qxc'')], K (JNum 102)])), When (Neg (Or (Loose (V 7) (Seq (Call ''Mld'' []) (G ''Ild''))) (Loose (V 7) (G ''Hld'')))) [Ret (K JUndef)] [], Do (SetV 4 (Dot (New ''lgd'' [Bin Plus (Bin Plus (Dot (Dot (V 1) ''f'') ''a'') (Dot (Dot (V 1) ''d'') ''b'')) (Dot (Dot (V 1) ''d'') ''c''), Bin Plus (Bin Plus (Dot (Dot (V 1) ''f'') ''b'') (Dot (Dot (V 1) ''d'') ''d'')) (Dot (Dot (V 1) ''d'') ''a'')]) ''b'')), Do (SetV 6 (New ''Kmb'' [Dot (V 0) ''a''])), Loop (Bin Lt (Dot (V 6) ''a'') (Dot (Dot (Dot (V 6) ''c'') ''c'') ''length'')) [Do (SetV 5 (Call ''JD'' [Call ''Imb'' [V 6], K (JNum 9)])), When (Neg (Loose (Dot (V 5) ''k'') (Seq (Call ''$Yb'' []) (G ''TYb'')))) [Continue] [], Do (SetV 2 (Call ''JD'' [Call ''oNb'' [V 5, Seq (Call ''Wrc'' []) (G ''$qc'')], K (JNum 64)])), When (And (Neg (Loose (V 2) (Seq (Call ''Bmd'' []) (G ''gmd'')))) (Neg (Loose (V 2) (G ''Amd'')))) [Continue] [], Do (SetV 3 (Call ''Ueb'' [Call ''MD'' [Call ''oNb'' [V 5, G ''Drc'']]])), Do (And (Loose (V 7) (G ''Ild'')) (SetV 3 (Bin Times (V 3) (V 4)))), Do (Put (Dot (V 5) ''n'') ''b'' (Bin Minus (V 3) (Dot (Call ''JD'' [Call ''oNb'' [V 5, G ''oxc''], K (JNum 8)]) ''b''))), Do (Call ''zYb'' [V 5, K (JBool False), K (JBool True)])] []],
    fn ''K7b'' 5 0 [When (And (And (And (V 2) (Or (Neg (V 3)) (Bin Gt (Bin BitAnd (Bin Minus (Dot (V 0) ''c'') (Dot (V 0) ''b'')) (Bin Minus (Dot (Dot (V 0) ''a'') ''length'') (K (JNum 1)))) (K (JNum 1))))) (Loose (V 1) (K (JNum 1)))) (Loose (Dot (Call ''JD'' [Idx (Dot (V 0) ''a'') (Dot (V 0) ''b''), K (JNum 9)]) ''k'') (Seq (Call ''$Yb'' []) (G ''UYb'')))) [Do (Call ''E7b'' [Call ''JD'' [Idx (Dot (V 0) ''a'') (Dot (V 0) ''b''), K (JNum 9)], Seq (Call ''$kd'' []) (G ''Wkd'')])] [When (And (And (And (V 3) (Or (Neg (V 2)) (Bin Gt (Bin BitAnd (Bin Minus (Dot (V 0) ''c'') (Dot (V 0) ''b'')) (Bin Minus (Dot (Dot (V 0) ''a'') ''length'') (K (JNum 1)))) (K (JNum 1))))) (Loose (V 1) (K (JNum 1)))) (Loose (Dot (Call ''JD'' [Idx (Dot (V 0) ''a'') (Bin BitAnd (Bin Minus (Dot (V 0) ''c'') (K (JNum 1))) (Bin Minus (Dot (Dot (V 0) ''a'') ''length'') (K (JNum 1)))), K (JNum 9)]) ''k'') (Seq (Call ''$Yb'' []) (G ''UYb'')))) [Do (Call ''E7b'' [Call ''JD'' [Idx (Dot (V 0) ''a'') (Bin BitAnd (Bin Minus (Dot (V 0) ''c'') (K (JNum 1))) (Bin Minus (Dot (Dot (V 0) ''a'') ''length'') (K (JNum 1)))), K (JNum 9)], Seq (Call ''$kd'' []) (G ''Xkd'')])] [When (Loose (Bin BitAnd (Bin Minus (Dot (V 0) ''c'') (Dot (V 0) ''b'')) (Bin Minus (Dot (Dot (V 0) ''a'') ''length'') (K (JNum 1)))) (K (JNum 2))) [Do (Call ''E7b'' [Call ''JD'' [Call ''ylb'' [V 0], K (JNum 9)], Seq (Call ''$kd'' []) (G ''Wkd'')]), Do (Call ''E7b'' [Call ''JD'' [Call ''ylb'' [V 0], K (JNum 9)], G ''Xkd''])] [Do (Call ''B7b'' [V 0, V 4])]]], Do (Call ''tlb'' [V 0])],
    fn ''nEc'' 1 8 [Do (SetV 8 (New ''_rb'' [])), Do (SetV 1 (New ''fGb'' [])), Do (SetV 6 (Meth (V 0) ''Jc'' [])), Loop (Meth (V 6) ''Ob'' []) [Do (SetV 4 (Call ''JD'' [Meth (V 6) ''Pb'' [], K (JNum 9)])), Do (SetV 7 (Call ''JGb'' [Call ''KGb'' [New ''LGb'' [], V 4], V 1])), Do (Call ''zsb'' [Dot (V 8) ''f'', V 4, V 7])] [], Do (SetV 5 (Meth (V 0) ''Jc'' [])), Loop (Meth (V 5) ''Ob'' []) [Do (SetV 4 (Call ''JD'' [Meth (V 5) ''Pb'' [], K (JNum 9)])), Do (SetV 3 (New ''Yr'' [Call ''Dr'' [Meth (Dot (Call ''HYb'' [V 4]) ''a'') ''Jc'' [], New ''Dl'' []]])), Loop (Call ''Wr'' [V 3]) [Do (SetV 2 (Call ''JD'' [Call ''Xr'' [V 3], K (JNum 17)])), When (Call ''AWb'' [V 2]) [Continue] [], Do (Call ''XFb'' [Call ''$Fb'' [Call ''ZFb'' [Call ''YFb'' [Call ''_Fb'' [New ''aGb'' [], Meth (Dot (G ''$wnd'') ''Math'') ''max'' [K (JNum 1), Dot (Call ''JD'' [Call ''oNb'' [V 2, Seq (Call ''nyc'' []) (G ''Axc'')], K (JNum 15)]) ''a'']], K (JNum 1)], Call ''JD'' [Call ''ejb'' [V 8, Dot (Dot (V 2) ''c'') ''i''], K (JNum 124)]], Call ''JD'' [Call ''ejb'' [V 8, Dot (Dot (V 2) ''d'') ''i''], K (JNum 124)]]])] []] [], Ret (V 1)],
    fn ''QEc'' 4 10 [Do (Call ''VEc'' [V 0, V 1, V 2]), Do (SetV 5 (Idx (V 1) (V 2))), Do (SetV 13 (Cond (V 3) (Seq (Call ''Bmd'' []) (G ''Amd'')) (Seq (Call ''Bmd'' []) (G ''gmd'')))), When (Call ''REc'' [Dot (V 1) ''length'', V 2, V 3]) [Do (SetV 4 (Idx (V 1) (Cond (V 3) (Bin Minus (V 2) (K (JNum 1))) (Bin Plus (V 2) (K (JNum 1)))))), Do (Call ''MEc'' [V 0, V 4, Cond (V 3) (Seq (Call ''qAc'' []) (G ''oAc'')) (Seq (Call ''qAc'' []) (G ''nAc''))]), Do (Seq (Seq (SetV 8 (V 5)) (SetV 10 (K (JNum 0)))) (SetV 12 (Dot (V 8) ''length''))), Loop (Bin Lt (V 10) (V 12)) [Do (SetV 6 (Idx (V 8) (V 10))), Do (Call ''PEc'' [V 0, V 6, V 13])] [Do (SetV 10 (Bin Minus (V 10) (K (JNum (- 1)))))], Do (Call ''MEc'' [V 0, V 5, Cond (V 3) (Seq (Call ''qAc'' []) (G ''nAc'')) (Seq (Call ''qAc'' []) (G ''oAc''))]), Do (Seq (Seq (SetV 7 (V 4)) (SetV 9 (K (JNum 0)))) (SetV 11 (Dot (V 7) ''length''))), Loop (Bin Lt (V 9) (V 11)) [Do (SetV 6 (Idx (V 7) (V 9))), Do (Or (Neg (Neg (Dot (V 6) ''e''))) (Call ''PEc'' [V 0, V 6, Call ''Dmd'' [V 13]]))] [Do (SetV 9 (Bin Minus (V 9) (K (JNum (- 1)))))]] [Do (Seq (Seq (SetV 7 (V 5)) (SetV 9 (K (JNum 0)))) (SetV 11 (Dot (V 7) ''length''))), Loop (Bin Lt (V 9) (V 11)) [Do (SetV 6 (Idx (V 7) (V 9))), Do (Call ''PEc'' [V 0, V 6, V 13])] [Do (SetV 9 (Bin Minus (V 9) (K (JNum (- 1)))))]], Ret (K (JBool False))],
    fn ''God'' 5 7 [Do (Call ''Inb'' []), Do (Call ''jmb'' [V 0, New ''upd'' []]), Do (SetV 7 (New ''Tjb'' [V 0, K (JNum 0)])), Do (SetV 11 (New ''lmb'' [])), Do (SetV 5 (K (JNum 0))), Loop (Bin Lt (Dot (V 7) ''b'') (Meth (Dot (V 7) ''d'') ''gc'' [])) [Do (SetV 6 (Seq (Call ''LDb'' [Bin Lt (Dot (V 7) ''b'') (Meth (Dot (V 7) ''d'') ''gc'' [])]) (Call ''JD'' [Meth (Dot (V 7) ''d'') ''Xb'' [Put (V 7) ''c'' (Bin Minus (Put (V 7) ''b'' (Bin Minus (Dot (V 7) ''b'') (K (JNum (- 1))))) (K (JNum 1)))], K (JNum 167)]))), When (And (Neg (Loose (Dot (Dot (V 11) ''c'') ''length'') (K (JNum 0)))) (Bin Gt (Bin Times (Call ''Wod'' [V 6]) (Call ''Vod'' [V 6])) (Bin Times (V 5) (K (JNum 2))))) [Do (SetV 10 (New ''_od'' [V 11])), Do (SetV 9 (Bin Divide (Call ''Wod'' [V 6]) (Call ''Vod'' [V 6]))), Do (SetV 8 (Call ''Kod'' [V 10, V 1, New ''gZb'' [], V 2, V 3, V 4, V 9])), Do (Call ''Vfd'' [Call ''cgd'' [Dot (V 10) ''e''], V 8]), Do (Put (Dot (V 11) ''c'') ''length'' (K (JNum 0))), Do (SetV 5 (K (JNum 0))), Do (Call ''qDb'' [Dot (V 11) ''c'', V 10]), Do (Call ''qDb'' [Dot (V 11) ''c'', V 6]), Do (SetV 5 (Bin Plus (Bin Times (Call ''Wod'' [V 10]) (Call ''Vod'' [V 10])) (Bin Times (Call ''Wod'' [V 6]) (Call ''Vod'' [V 6]))))] [Do (Call ''qDb'' [Dot (V 11) ''c'', V 6]), Do (SetV 5 (Bin Plus (V 5) (Bin Times (Call ''Wod'' [V 6]) (Call ''Vod'' [V 6]))))]] [], Ret (V 11)],
    fn ''uac'' 2 7 [Do (Meth (V 1) ''Tg'' [K (JStr ''Port order processing''), K (JNum 1)]), Do (SetV 8 (Call ''JD'' [Call ''oNb'' [V 0, Seq (Call ''nyc'' []) (G ''wxc'')], K (JNum 421)])), Do (SetV 3 (New ''Kmb'' [Dot (V 0) ''b''])), Loop (Bin Lt (Dot (V 3) ''a'') (Dot (Dot (Dot (V 3) ''c'') ''c'') ''length'')) [Do (SetV 2 (Call ''JD'' [Call ''Imb'' [V 3], K (JNum 25)])), Do (SetV 5 (New ''Kmb'' [Dot (V 2) ''a''])), Loop (Bin Lt (Dot (V 5) ''a'') (Dot (Dot (Dot (V 5) ''c'') ''c'') ''length'')) [Do (SetV 4 (Call ''JD'' [Call ''Imb'' [V 5], K (JNum 9)])), Do (SetV 6 (Call ''JD'' [Call ''oNb'' [V 4, G ''qxc''], K (JNum 102)])), Do (SetV 7 (Dot (V 4) ''j'')), When (Or (Or (Loose (V 6) (Seq (Call ''Mld'' []) (G ''Gld''))) (Loose (V 6) (G ''Ild''))) (Loose (V 6) (G ''Hld''))) [Do (Call ''Inb'' []), Do (Call ''jmb'' [V 7, G ''mac''])] [When (And (Neg (Loose (V 6) (G ''Kld''))) (Neg (Loose (V 6) (G ''Lld'')))) [Do (Call ''Inb'' []), Do (Call ''jmb'' [V 7, G ''pac'']), Do (Call ''wac'' [V 7]), Do (And (Loose (V 8) (Seq (Call ''hAc'' []) (G ''gAc''))) (Call ''jmb'' [V 7, G ''oac'']))] []], Do (Put (V 4) ''i'' (K (JBool True))), Do (Call ''AYb'' [V 4])] []] [], Do (Meth (V 1) ''Ug'' [])],
    fn ''Hee'' 3 12 [When (Call ''itd'' [Dot (V 0) ''e'']) [When (Neg (Loose (V 1) (V 2))) [Do (SetV 4 (Call ''JD'' [Dot (V 0) ''g'', K (JNum 122)])), Do (SetV 13 (Idx (V 4) (V 2))), Do (SetV 6 (Meth (V 13) ''Jk'' [])), When (Call ''Die'' [Dot (V 0) ''e'', V 6]) [Do (SetV 14 (Call ''Cie'' [Meth (Dot (V 0) ''e'') ''Ah'' [], V 6])), Do (SetV 8 (K (JNum (- 1)))), Do (SetV 7 (K (JNum (- 1)))), Do (SetV 3 (K (JNum 0))), Do (Seq (SetV 9 (K (JNum 0))) (SetV 11 (Cond (Bin Gt (V 1) (V 2)) (V 1) (V 2)))), Loop (Bin Le (V 9) (V 11)) [When (Loose (V 9) (V 2)) [Do (SetV 7 (Bin Minus (SetV 3 (Bin Minus (V 3) (K (JNum (- 1))))) (K (JNum 1))))] [Do (SetV 5 (Idx (V 4) (V 9))), Do (SetV 10 (Meth (V 14) ''$l'' [Meth (V 5) ''Jk'' []])), Do (And (Loose (V 9) (V 1)) (SetV 8 (Cond (And (Loose (V 9) (V 11)) (Neg (V 10))) (Bin Minus (V 3) (K (JNum 1))) (V 3)))), Do (And (V 10) (SetV 3 (Bin Minus (V 3) (K (JNum (- 1))))))]] [Do (SetV 9 (Bin Minus (V 9) (K (JNum (- 1)))))], Do (SetV 12 (Call ''JD'' [Call ''LJd'' [V 0, V 1, V 2], K (JNum 75)])), Do (And (Neg (Loose (V 7) (V 8))) (Call ''rXd'' [V 0, New ''p2d'' [Dot (V 0) ''e'', K (JNum 7), V 6, Call ''Cfb'' [V 7], Meth (V 13) ''kd'' [], V 8]])), Ret (V 12)] []] []] [Ret (Call ''JD'' [Call ''hGd'' [V 0, V 1, V 2], K (JNum 75)])], Ret (Call ''JD'' [Call ''LJd'' [V 0, V 1, V 2], K (JNum 75)])],
    fn ''GGc'' 2 10 [Do (SetV 11 (K (JNum 0))), Do (SetV 5 (New ''Glb'' [])), Do (Call ''rlb'' [V 5, V 1]), Loop (Neg (Loose (Dot (V 5) ''b'') (Dot (V 5) ''c''))) [Do (SetV 8 (Call ''JD'' [Call ''Clb'' [V 5], K (JNum 218)])), Do (SetV 9 (K (JNum 0))), Do (SetV 10 (Call ''JD'' [Call ''oNb'' [Dot (V 1) ''j'', Seq (Call ''nyc'' []) (G ''Ovc'')], K (JNum 269)])), Do (Call ''JD'' [Call ''oNb'' [Dot (V 1) ''j'', G ''Hvc''], K (JNum 329)]), Do (SetV 6 (Call ''Ueb'' [Call ''MD'' [Call ''oNb'' [Dot (V 1) ''j'', G ''Bvc'']]])), Do (SetV 7 (Call ''Ueb'' [Call ''MD'' [Call ''oNb'' [Dot (V 1) ''j'', G ''Cvc'']]])), When (Neg (Loose (V 10) (Seq (Call ''_zc'' []) (G ''Yzc'')))) [Do (SetV 9 (Bin Plus (V 9) (Bin Times (V 6) (Call ''HGc'' [Dot (V 1) ''j'', Dot (V 8) ''e'', V 10])))), Do (SetV 9 (Bin Plus (V 9) (Bin Times (V 7) (Call ''IGc'' [Dot (V 1) ''j'', Dot (V 8) ''e'']))))] [], Do (SetV 11 (Bin Plus (V 11) (Bin Plus (Call ''yIc'' [Dot (V 8) ''d'', Dot (V 8) ''e'']) (V 9)))), Do (SetV 4 (New ''Kmb'' [Dot (V 8) ''b''])), Loop (Bin Lt (Dot (V 4) ''a'') (Dot (Dot (Dot (V 4) ''c'') ''c'') ''length'')) [Do (SetV 3 (Call ''JD'' [Call ''Imb'' [V 4], K (JNum 36)])), Do (SetV 2 (Call ''JD'' [Call ''dmb'' [Dot (V 0) ''b'', Dot (V 3) ''p''], K (JNum 218)])), Do (Or (Dot (V 2) ''s'') (SetV 11 (Bin Plus (V 11) (Call ''FGc'' [V 0, V 2]))))] []] [], Ret (V 11)],
    fn ''COc'' 0 0 [Do (SetG ''COc'' (G ''qdb'')), Do (SetG ''xOc'' (Call ''kcd'' [New ''pcd'' [], Seq (Call ''YQb'' []) (G ''WQb''), Seq (Call ''X5b'' []) (G ''o5b'')])), Do (SetG ''zOc'' (Call ''kcd'' [New ''pcd'' [], G ''VQb'', G ''s5b''])), Do (SetG ''AOc'' (Call ''icd'' [Call ''kcd'' [New ''pcd'' [], G ''VQb'', G ''H5b''], G ''XQb'', G ''G5b''])), Do (SetG ''wOc'' (Call ''icd'' [Call ''kcd'' [Call ''kcd'' [New ''pcd'' [], G ''VQb'', G ''i5b''], G ''WQb'', G ''j5b''], G ''XQb'', G ''k5b''])), Do (SetG ''BOc'' (Call ''hcd'' [Call ''hcd'' [Call ''mcd'' [Call ''icd'' [Call ''kcd'' [New ''pcd'' [], G ''TQb'', G ''R5b''], G ''XQb'', G ''Q5b''], G ''WQb''], G ''P5b''], G ''S5b''])), Do (SetG ''yOc'' (Call ''icd'' [New ''pcd'' [], G ''XQb'', G ''p5b''])), Do (SetG ''uOc'' (Call ''icd'' [Call ''kcd'' [Call ''kcd'' [Call ''kcd'' [New ''pcd'' [], G ''UQb'', G ''v5b''], G ''WQb'', G ''x5b''], G ''WQb'', G ''y5b''], G ''XQb'', G ''w5b''])), Do (SetG ''vOc'' (Call ''icd'' [Call ''kcd'' [Call ''kcd'' [New ''pcd'' [], G ''WQb'', G ''y5b''], G ''WQb'', G ''d5b''], G ''XQb'', G ''c5b'']))],
    fn ''dD'' 6 7 [Do (SetV 9 (Bin Minus (Call ''gD'' [V 1]) (Call ''gD'' [V 0]))), Do (SetV 6 (Call ''sD'' [V 1, V 9])), Do (SetV 8 (Call ''_C'' [K (JNum 0), K (JNum 0), K (JNum 0)])), Loop (Bin Ge (V 9) (K (JNum 0))) [Do (SetV 7 (Call ''jD'' [V 0, V 6])), When (V 7) [Do (Cond (Bin Lt (V 9) (K (JNum 22))) (Seq (Put (V 8) ''l'' (Bin BitOr (Dot (V 8) ''l'') (Bin Shl (K (JNum 1)) (V 9)))) (K JUndef)) (Cond (Bin Lt (V 9) (K (JNum 44))) (Seq (Put (V 8) ''m'' (Bin BitOr (Dot (V 8) ''m'') (Bin Shl (K (JNum 1)) (Bin Minus (V 9) (K (JNum 22)))))) (K JUndef)) (Seq (Put (V 8) ''h'' (Bin BitOr (Dot (V 8) ''h'') (Bin Shl (K (JNum 1)) (Bin Minus (V 9) (K (JNum 44)))))) (K JUndef)))), When (And (And (Loose (Dot (V 0) ''l'') (K (JNum 0))) (Loose (Dot (V 0) ''m'') (K (JNum 0)))) (Loose (Dot (V 0) ''h'') (K (JNum 0)))) [Break] []] [], Do (SetV 10 (Dot (V 6) ''m'')), Do (SetV 11 (Dot (V 6) ''h'')), Do (SetV 12 (Dot (V 6) ''l'')), Do (Put (V 6) ''h'' (Bin Ushr (V 11) (K (JNum 1)))), Do (Put (V 6) ''m'' (Bin BitOr (Bin Ushr (V 10) (K (JNum 1))) (Bin Shl (Bin BitAnd (V 11) (K (JNum 1))) (K (JNum 21))))), Do (Put (V 6) ''l'' (Bin BitOr (Bin Ushr (V 12) (K (JNum 1))) (Bin Shl (Bin BitAnd (V 10) (K (JNum 1))) (K (JNum 21))))), Do (SetV 9 (Bin Minus (V 9) (K (JNum 1))))] [], Do (And (V 2) (Call ''fD'' [V 8])), When (V 5) [When (V 3) [Do (SetG ''YC'' (Call ''pD'' [V 0])), Do (And (V 4) (SetG ''YC'' (Call ''vD'' [G ''YC'', Seq (Call ''ED'' []) (G ''CD'')])))] [Do (SetG ''YC'' (Call ''_C'' [Dot (V 0) ''l'', Dot (V 0) ''m'', Dot (V 0) ''h'']))]] [], Ret (V 8)]]"

definition code_5779_5779 :: "(string \<times> jfun) list" where
  "code_5779_5779 = [
    fn ''LEc'' 2 10 [Do (SetV 9 (Bin Plus (Idx (Idx (Dot (V 0) ''e'') (Dot (Dot (V 1) ''c'') ''p'')) (Dot (V 1) ''p'')) (K (JNum 1)))), Do (SetV 8 (Bin Plus (Dot (Dot (Dot (Dot (V 1) ''c'') ''a'') ''c'') ''length'') (K (JNum 1)))), Do (SetV 7 (New ''Kmb'' [Dot (V 0) ''a''])), Loop (Bin Lt (Dot (V 7) ''a'') (Dot (Dot (Dot (V 7) ''c'') ''c'') ''length'')) [Do (SetV 6 (Call ''JD'' [Call ''Imb'' [V 7], K (JNum 12)])), Do (SetV 11 (K (JNum 0))), Do (SetV 5 (K (JNum 0))), Do (SetV 4 (Call ''Gl'' [Call ''yl'' [Call ''WC'' [Call ''OC'' [G ''VI'', K (JNum 1)], G ''Gte'', K (JNum 20), K (JNum 0), NewArr [New ''AZb'' [V 6], New ''IZb'' [V 6]]]]])), Loop (Call ''Wr'' [V 4]) [Do (SetV 3 (Call ''JD'' [Call ''Xr'' [V 4], K (JNum 12)])), When (Loose (Dot (Dot (V 3) ''i'') ''c'') (Dot (V 1) ''c'')) [Do (SetV 11 (Bin Plus (V 11) (Bin Plus (Call ''UEc'' [V 0, Dot (V 3) ''i'']) (K (JNum 1))))), Do (SetV 5 (Bin Minus (V 5) (K (JNum (- 1)))))] []] [], Do (SetV 2 (Bin Divide (V 11) (V 5))), Do (SetV 10 (Dot (V 6) ''j'')), Do (Cond (Loose (V 10) (Seq (Call ''Bmd'' []) (G ''gmd''))) (Cond (Bin Lt (V 2) (V 9)) (PutIdx (Dot (V 0) ''f'') (Dot (V 6) ''p'') (Bin Minus (Dot (V 0) ''c'') (V 2))) (PutIdx (Dot (V 0) ''f'') (Dot (V 6) ''p'') (Bin Plus (Dot (V 0) ''b'') (Bin Minus (V 8) (V 2))))) (And (Loose (V 10) (G ''Amd'')) (Cond (Bin Lt (V 2) (V 9)) (PutIdx (Dot (V 0) ''f'') (Dot (V 6) ''p'') (Bin Plus (Dot (V 0) ''b'') (V 2))) (PutIdx (Dot (V 0) ''f'') (Dot (V 6) ''p'') (Bin Minus (Dot (V 0) ''c'') (Bin Minus (V 8) (V 2)))))))] []]]"

definition code_5781_5786 :: "(string \<times> jfun) list" where
  "code_5781_5786 = [
    fn ''Zkc'' 1 7 [Do (SetV 6 (New ''dub'' [])), Do (SetV 5 (New ''Kmb'' [Dot (V 0) ''a''])), Loop (Bin Lt (Dot (V 5) ''a'') (Dot (Dot (Dot (V 5) ''c'') ''c'') ''length'')) [Do (SetV 4 (Call ''JD'' [Call ''Imb'' [V 5], K (JNum 116)])), Do (Call ''yPc'' [V 4, Dot (Dot (Dot (V 4) ''f'') ''c'') ''length'']), Do (Call ''zPc'' [V 4, Dot (Dot (Dot (V 4) ''k'') ''c'') ''length'']), When (Loose (Dot (V 4) ''i'') (K (JNum 0))) [Do (Put (V 4) ''o'' (K (JNum 0))), Do (Call ''Wtb'' [V 6, V 4, Dot (Dot (V 6) ''c'') ''b'', Dot (V 6) ''c''])] []] [], Loop (Neg (Loose (Dot (V 6) ''b'') (K (JNum 0)))) [Do (SetV 4 (Call ''JD'' [Cond (Loose (Dot (V 6) ''b'') (K (JNum 0))) (K JNull) (Seq (Call ''LDb'' [Neg (Loose (Dot (V 6) ''b'') (K (JNum 0)))]) (Call ''bub'' [V 6, Dot (Dot (V 6) ''a'') ''a''])), K (JNum 116)])), Do (SetV 3 (Bin Plus (Dot (V 4) ''o'') (K (JNum 1)))), Do (SetV 2 (New ''Kmb'' [Dot (V 4) ''f''])), Loop (Bin Lt (Dot (V 2) ''a'') (Dot (Dot (Dot (V 2) ''c'') ''c'') ''length'')) [Do (SetV 1 (Call ''JD'' [Call ''Imb'' [V 2], K (JNum 133)])), Do (SetV 7 (Dot (V 1) ''a'')), Do (Call ''APc'' [V 7, Meth (Dot (G ''$wnd'') ''Math'') ''max'' [Dot (V 7) ''o'', V 3]]), Do (Call ''zPc'' [V 7, Bin Minus (Dot (V 7) ''i'') (K (JNum 1))]), Do (And (Loose (Dot (V 7) ''i'') (K (JNum 0))) (Seq (Call ''Wtb'' [V 6, V 7, Dot (Dot (V 6) ''c'') ''b'', Dot (V 6) ''c'']) (K (JBool True))))] []] []],
    fn ''Bbd'' 1 8 [Do (SetV 6 (New ''Kmb'' [V 0])), Loop (Bin Lt (Dot (V 6) ''a'') (Dot (Dot (Dot (V 6) ''c'') ''c'') ''length'')) [Do (SetV 5 (Call ''JD'' [Call ''Imb'' [V 6], K (JNum 85)])), Do (SetV 3 (Call ''TEd'' [Call ''JD'' [Call ''fGd'' [Seq (And (Neg (Dot (V 5) ''b'')) (Put (V 5) ''b'' (New ''jhe'' [G ''O3'', V 5, K (JNum 4), K (JNum 7)]))) (Dot (V 5) ''b''), K (JNum 0)], K (JNum 84)]])), Do (SetV 7 (Dot (V 3) ''i'')), Do (SetV 8 (Dot (V 3) ''j'')), Do (SetV 4 (Call ''JD'' [Call ''fGd'' [Seq (And (Neg (Dot (V 5) ''a'')) (Put (V 5) ''a'' (New ''P3d'' [G ''P3'', V 5, K (JNum 6), K (JNum 6)]))) (Dot (V 5) ''a''), K (JNum 0)], K (JNum 170)])), Do (Call ''hxd'' [V 4, Bin Plus (Dot (V 4) ''j'') (V 7), Bin Plus (Dot (V 4) ''k'') (V 8)]), Do (Call ''axd'' [V 4, Bin Plus (Dot (V 4) ''b'') (V 7), Bin Plus (Dot (V 4) ''c'') (V 8)]), Do (SetV 2 (New ''uKd'' [Seq (And (Neg (Dot (V 4) ''a'')) (Put (V 4) ''a'' (New ''iYd'' [G ''N3'', V 4, K (JNum 5)]))) (Dot (V 4) ''a'')])), Loop (Neg (Loose (Dot (V 2) ''e'') (Meth (Dot (V 2) ''i'') ''gc'' []))) [Do (SetV 1 (Call ''JD'' [Call ''sKd'' [V 2], K (JNum 372)])), Do (Call ''qvd'' [V 1, Bin Plus (Dot (V 1) ''a'') (V 7), Bin Plus (Dot (V 1) ''b'') (V 8)])] [], Do (Call ''vgd'' [Call ''JD'' [Call ''cvd'' [V 5, Seq (Call ''vjd'' []) (G ''aid'')], K (JNum 79)], V 7, V 8])] []],
    fn ''Rpe'' 1 1 [Switch (V 0) [(Some (JNum 100), [Ret (Call ''Wpe'' [G ''ZJe'', K (JBool True)])]), (Some (JNum 68), [Ret (Call ''Wpe'' [G ''ZJe'', K (JBool False)])]), (Some (JNum 119), [Ret (Call ''Wpe'' [G ''$Je'', K (JBool True)])]), (Some (JNum 87), [Ret (Call ''Wpe'' [G ''$Je'', K (JBool False)])]), (Some (JNum 115), [Ret (Call ''Wpe'' [G ''_Je'', K (JBool True)])]), (Some (JNum 83), [Ret (Call ''Wpe'' [G ''_Je'', K (JBool False)])]), (Some (JNum 99), [Ret (Call ''Wpe'' [G ''aKe'', K (JBool True)])]), (Some (JNum 67), [Ret (Call ''Wpe'' [G ''aKe'', K (JBool False)])]), (Some (JNum 105), [Ret (Call ''Wpe'' [G ''bKe'', K (JBool True)])]), (Some (JNum 73), [Ret (Call ''Wpe'' [G ''bKe'', K (JBool False)])]), (None, [Raise (Call ''Lcb'' [New ''qz'' [Seq (SetV 1 (V 0)) (Bin Plus (G ''YJe'') (Meth (V 1) ''toString'' [K (JNum 16)]))]])])]],
    fn ''HUb'' 1 5 [Do (SetV 4 (Call ''JD'' [Call ''dmb'' [Dot (V 0) ''a'', K (JNum 0)], K (JNum 9)])), Do (SetV 1 (New ''QYb'' [V 0])), Do (Call ''_lb'' [Dot (V 0) ''a'', V 1]), Do (Put (Dot (V 1) ''o'') ''a'' (Meth (Dot (G ''$wnd'') ''Math'') ''max'' [K (JNum 1), Dot (Dot (V 4) ''o'') ''a''])), Do (Put (Dot (V 1) ''o'') ''b'' (Meth (Dot (G ''$wnd'') ''Math'') ''max'' [K (JNum 1), Dot (Dot (V 4) ''o'') ''b''])), Do (Put (Dot (V 1) ''n'') ''a'' (Dot (Dot (V 4) ''n'') ''a'')), Do (Put (Dot (V 1) ''n'') ''b'' (Dot (Dot (V 4) ''n'') ''b'')), Switch (Dot (Call ''JD'' [Call ''oNb'' [V 4, Seq (Call ''Wrc'' []) (G ''$qc'')], K (JNum 64)]) ''g'') [(Some (JNum 4), [Do (Put (Dot (V 1) ''n'') ''a'' (Bin Plus (Dot (Dot (V 1) ''n'') ''a'') (K (JNum 2)))), Break]), (Some (JNum 1), [Do (Put (Dot (V 1) ''n'') ''b'' (Bin Plus (Dot (Dot (V 1) ''n'') ''b'') (K (JNum 2)))), Break]), (Some (JNum 2), [Do (Put (Dot (V 1) ''n'') ''a'' (Bin Minus (Dot (Dot (V 1) ''n'') ''a'') (K (JNum 2)))), Break]), (Some (JNum 3), [Do (Put (Dot (V 1) ''n'') ''b'' (Bin Minus (Dot (Dot (V 1) ''n'') ''b'') (K (JNum 2))))])], Do (SetV 3 (New ''yZb'' [])), Do (Call ''wZb'' [V 3, V 1]), Do (SetV 2 (New ''GWb'' [])), Do (SetV 5 (Call ''JD'' [Call ''dmb'' [Dot (V 4) ''j'', K (JNum 0)], K (JNum 12)])), Do (Call ''CWb'' [V 2, V 5]), Do (Call ''DWb'' [V 2, V 3]), Do (Call ''Vfd'' [Call ''cgd'' [Dot (V 3) ''n''], Dot (V 5) ''n'']), Do (Call ''Vfd'' [Call ''cgd'' [Dot (V 3) ''a''], Dot (V 5) ''a'']), Ret (V 1)],
    fn ''Olc'' 4 10 [Do (SetV 4 (V 1)), Do (SetV 7 (V 2)), When (Bin Lt (V 3) (K (JNum 0))) [Do (SetV 4 (V 2)), Do (SetV 7 (V 1))] [], Do (SetV 5 (Call ''JD'' [Call ''ejb'' [Dot (V 0) ''a'', V 4], K (JNum 48)])), Do (SetV 8 (Call ''JD'' [Call ''ejb'' [Dot (V 0) ''a'', V 7], K (JNum 48)])), Do (SetV 6 (Call ''JD'' [Call ''ejb'' [Dot (V 0) ''e'', V 4], K (JNum 48)])), Do (SetV 9 (Call ''JD'' [Call ''ejb'' [Dot (V 0) ''e'', V 7], K (JNum 48)])), Do (Meth (Dot (V 5) ''a'') ''yc'' [V 7, V 5]), Do (Meth (Dot (V 9) ''a'') ''yc'' [V 4, V 9]), Do (SetV 13 (Meth (Meth (Dot (V 8) ''a'') ''ec'' []) ''Jc'' [])), Loop (Meth (V 13) ''Ob'' []) [Do (SetV 12 (Call ''JD'' [Meth (V 13) ''Pb'' [], K (JNum 12)])), Do (Meth (Dot (V 5) ''a'') ''yc'' [V 12, V 5]), Do (Call ''esb'' [Call ''JD'' [Call ''ejb'' [Dot (V 0) ''e'', V 12], K (JNum 48)], V 4]), Do (Call ''xe'' [Call ''JD'' [Call ''ejb'' [Dot (V 0) ''e'', V 12], K (JNum 48)], V 6])] [], Do (SetV 11 (Meth (Meth (Dot (V 6) ''a'') ''ec'' []) ''Jc'' [])), Loop (Meth (V 11) ''Ob'' []) [Do (SetV 10 (Call ''JD'' [Meth (V 11) ''Pb'' [], K (JNum 12)])), Do (Meth (Dot (V 9) ''a'') ''yc'' [V 10, V 9]), Do (Call ''esb'' [Call ''JD'' [Call ''ejb'' [Dot (V 0) ''a'', V 10], K (JNum 48)], V 7]), Do (Call ''xe'' [Call ''JD'' [Call ''ejb'' [Dot (V 0) ''a'', V 10], K (JNum 48)], V 8])] []],
    fn ''zSc'' 3 5 [Do (SetV 5 (K (JNum 0))), Do (SetV 4 (New ''uKd'' [Seq (And (Neg (Dot (V 0) ''a'')) (Put (V 0) ''a'' (New ''P3d'' [G ''T3'', V 0, K (JNum 10), K (JNum 11)]))) (Dot (V 0) ''a'')])), Loop (Neg (Loose (Dot (V 4) ''e'') (Meth (Dot (V 4) ''i'') ''gc'' []))) [Do (SetV 3 (Call ''JD'' [Call ''sKd'' [V 4], K (JNum 26)])), Do (SetV 6 (K (JStr ''''))), Do (Or (Loose (Dot (Seq (And (Neg (Dot (V 3) ''n'')) (Put (V 3) ''n'' (New ''P3d'' [G ''S3'', V 3, K (JNum 1), K (JNum 7)]))) (Dot (V 3) ''n'')) ''i'') (K (JNum 0))) (SetV 6 (Dot (Call ''JD'' [Call ''fGd'' [Seq (And (Neg (Dot (V 3) ''n'')) (Put (V 3) ''n'' (New ''P3d'' [G ''S3'', V 3, K (JNum 1), K (JNum 7)]))) (Dot (V 3) ''n''), K (JNum 0)], K (JNum 157)]) ''a''))), Do (SetV 7 (New ''MTc'' [Bin Minus (SetV 5 (Bin Minus (V 5) (K (JNum (- 1))))) (K (JNum 1)), V 1, V 6])), Do (Call ''mNb'' [V 7, V 3]), Do (Call ''rNb'' [V 7, Seq (Call ''_Wc'' []) (G ''SWc''), V 3]), Do (Put (Dot (V 7) ''e'') ''b'' (Bin Plus (Dot (V 3) ''j'') (Bin Divide (Dot (V 3) ''f'') (K (JNum 2))))), Do (Put (Dot (V 7) ''f'') ''a'' (Meth (Dot (G ''$wnd'') ''Math'') ''max'' [Dot (V 3) ''g'', K (JNum 1)])), Do (Put (Dot (V 7) ''e'') ''a'' (Bin Plus (Dot (V 3) ''i'') (Bin Divide (Dot (V 3) ''g'') (K (JNum 2))))), Do (Put (Dot (V 7) ''f'') ''b'' (Meth (Dot (G ''$wnd'') ''Math'') ''max'' [Dot (V 3) ''f'', K (JNum 1)])), Do (Call ''Ttb'' [Dot (V 1) ''b'', V 7]), Do (Call ''zsb'' [Dot (V 2) ''f'', V 3, V 7])] []]]"

definition code_5788_5803 :: "(string \<times> jfun) list" where
  "code_5788_5803 = [
    fn ''xhc'' 1 9 [Do (SetV 6 (New ''lmb'' [])), Do (SetV 3 (New ''Yr'' [Call ''Dr'' [Meth (Dot (Call ''HYb'' [Dot (V 0) ''b'']) ''a'') ''Jc'' [], New ''Dl'' []]])), Loop (Call ''Wr'' [V 3]) [Do (SetV 2 (Call ''JD'' [Call ''Xr'' [V 3], K (JNum 17)])), Do (And (Call ''AWb'' [V 2]) (Call ''_lb'' [V 6, New ''whc'' [V 2, Call ''zhc'' [V 0, Dot (V 2) ''c''], Call ''zhc'' [V 0, Dot (V 2) ''d'']]]))] [], Do (SetV 9 (Seq (SetV 5 (Meth (Meth (Dot (New ''qkb'' [Dot (V 0) ''e'']) ''a'') ''vc'' []) ''Jc'' [])) (New ''vkb'' [V 5]))), Loop (Meth (Dot (V 9) ''a'') ''Ob'' []) [Do (SetV 7 (Seq (SetV 1 (Call ''JD'' [Meth (Dot (V 9) ''a'') ''Pb'' [], K (JNum 45)])) (Call ''JD'' [Meth (V 1) ''kd'' [], K (JNum 113)]))), Do (Put (Dot (V 7) ''d'') ''p'' (K (JNum 0)))] [], Do (SetV 8 (Seq (SetV 4 (Meth (Meth (Dot (New ''qkb'' [Dot (V 0) ''e'']) ''a'') ''vc'' []) ''Jc'' [])) (New ''vkb'' [V 4]))), Loop (Meth (Dot (V 8) ''a'') ''Ob'' []) [Do (SetV 7 (Seq (SetV 1 (Call ''JD'' [Meth (Dot (V 8) ''a'') ''Pb'' [], K (JNum 45)])) (Call ''JD'' [Meth (V 1) ''kd'' [], K (JNum 113)]))), Do (And (Loose (Dot (Dot (V 7) ''d'') ''p'') (K (JNum 0))) (Call ''_lb'' [Dot (V 0) ''d'', Call ''yhc'' [V 0, V 7]]))] []],
    fn ''UNc'' 2 9 [Do (SetV 6 (New ''Kmb'' [Dot (V 1) ''b''])), Loop (Bin Lt (Dot (V 6) ''a'') (Dot (Dot (Dot (V 6) ''c'') ''c'') ''length'')) [Do (SetV 5 (Call ''JD'' [Call ''Imb'' [V 6], K (JNum 25)])), Do (SetV 9 (New ''Kmb'' [Dot (V 5) ''a''])), Loop (Bin Lt (Dot (V 9) ''a'') (Dot (Dot (Dot (V 9) ''c'') ''c'') ''length'')) [Do (SetV 8 (Call ''JD'' [Call ''Imb'' [V 9], K (JNum 9)])), Do (SetV 10 (New ''lmb'' [])), Do (SetV 7 (K (JNum 0))), Do (SetV 3 (New ''Yr'' [Call ''Dr'' [Meth (Dot (Call ''EYb'' [V 8]) ''a'') ''Jc'' [], New ''Dl'' []]])), Loop (Call ''Wr'' [V 3]) [Do (SetV 2 (Call ''JD'' [Call ''Xr'' [V 3], K (JNum 17)])), When (Or (Call ''AWb'' [V 2]) (And (Neg (Call ''AWb'' [V 2])) (Loose (Dot (Dot (Dot (V 2) ''c'') ''i'') ''c'') (Dot (Dot (Dot (V 2) ''d'') ''i'') ''c'')))) [Continue] [], Do (SetV 4 (Dot (Call ''JD'' [Call ''oNb'' [V 2, Seq (Call ''nyc'' []) (G ''Bxc'')], K (JNum 15)]) ''a'')), When (Bin Gt (V 4) (V 7)) [Do (SetV 7 (V 4)), Do (Put (Dot (V 10) ''c'') ''length'' (K (JNum 0)))] [], Do (And (Loose (V 4) (V 7)) (Call ''_lb'' [V 10, New ''prd'' [Dot (Dot (V 2) ''c'') ''i'', V 2]]))] [], Do (Call ''Inb'' []), Do (Call ''jmb'' [V 10, Dot (V 0) ''c'']), Do (Call ''$lb'' [Dot (V 0) ''b'', Dot (V 8) ''p'', V 10])] []] []],
    fn ''VNc'' 2 9 [Do (SetV 6 (New ''Kmb'' [Dot (V 1) ''b''])), Loop (Bin Lt (Dot (V 6) ''a'') (Dot (Dot (Dot (V 6) ''c'') ''c'') ''length'')) [Do (SetV 5 (Call ''JD'' [Call ''Imb'' [V 6], K (JNum 25)])), Do (SetV 9 (New ''Kmb'' [Dot (V 5) ''a''])), Loop (Bin Lt (Dot (V 9) ''a'') (Dot (Dot (Dot (V 9) ''c'') ''c'') ''length'')) [Do (SetV 8 (Call ''JD'' [Call ''Imb'' [V 9], K (JNum 9)])), Do (SetV 10 (New ''lmb'' [])), Do (SetV 7 (K (JNum 0))), Do (SetV 3 (New ''Yr'' [Call ''Dr'' [Meth (Dot (Call ''HYb'' [V 8]) ''a'') ''Jc'' [], New ''Dl'' []]])), Loop (Call ''Wr'' [V 3]) [Do (SetV 2 (Call ''JD'' [Call ''Xr'' [V 3], K (JNum 17)])), When (Or (Call ''AWb'' [V 2]) (And (Neg (Call ''AWb'' [V 2])) (Loose (Dot (Dot (Dot (V 2) ''c'') ''i'') ''c'') (Dot (Dot (Dot (V 2) ''d'') ''i'') ''c'')))) [Continue] [], Do (SetV 4 (Dot (Call ''JD'' [Call ''oNb'' [V 2, Seq (Call ''nyc'' []) (G ''Bxc'')], K (JNum 15)]) ''a'')), When (Bin Gt (V 4) (V 7)) [Do (SetV 7 (V 4)), Do (Put (Dot (V 10) ''c'') ''length'' (K (JNum 0)))] [], Do (And (Loose (V 4) (V 7)) (Call ''_lb'' [V 10, New ''prd'' [Dot (Dot (V 2) ''d'') ''i'', V 2]]))] [], Do (Call ''Inb'' []), Do (Call ''jmb'' [V 10, Dot (V 0) ''c'']), Do (Call ''$lb'' [Dot (V 0) ''f'', Dot (V 8) ''p'', V 10])] []] []],
    fn ''R$b'' 1 7 [Do (SetV 5 (Call ''gAd'' [V 0])), Do (SetV 4 (New ''uKd'' [Seq (And (Neg (Dot (V 0) ''e'')) (Put (V 0) ''e'' (New ''jhe'' [G ''Q3'', V 0, K (JNum 7), K (JNum 4)]))) (Dot (V 0) ''e'')])), Loop (Neg (Loose (Dot (V 4) ''e'') (Meth (Dot (V 4) ''i'') ''gc'' []))) [Do (SetV 3 (Call ''JD'' [Call ''sKd'' [V 4], K (JNum 85)])), Do (SetV 7 (Call ''TEd'' [Call ''JD'' [Call ''fGd'' [Seq (And (Neg (Dot (V 3) ''c'')) (Put (V 3) ''c'' (New ''jhe'' [G ''O3'', V 3, K (JNum 5), K (JNum 8)]))) (Dot (V 3) ''c''), K (JNum 0)], K (JNum 84)]])), When (Neg (Call ''cFd'' [V 7, V 5])) [Ret (K (JBool True))] []] [], Do (SetV 2 (New ''uKd'' [Seq (And (Neg (Dot (V 0) ''d'')) (Put (V 0) ''d'' (New ''jhe'' [G ''Q3'', V 0, K (JNum 8), K (JNum 5)]))) (Dot (V 0) ''d'')])), Loop (Neg (Loose (Dot (V 2) ''e'') (Meth (Dot (V 2) ''i'') ''gc'' []))) [Do (SetV 1 (Call ''JD'' [Call ''sKd'' [V 2], K (JNum 85)])), Do (SetV 6 (Call ''TEd'' [Call ''JD'' [Call ''fGd'' [Seq (And (Neg (Dot (V 1) ''b'')) (Put (V 1) ''b'' (New ''jhe'' [G ''O3'', V 1, K (JNum 4), K (JNum 7)]))) (Dot (V 1) ''b''), K (JNum 0)], K (JNum 84)]])), When (Neg (Call ''cFd'' [V 6, V 5])) [Ret (K (JBool True))] []] [], Ret (K (JBool False))],
    fn ''x_b'' 1 5 [Do (SetV 3 (Call ''JD'' [Call ''oNb'' [V 0, Seq (Call ''Wrc'' []) (G ''urc'')], K (JNum 26)])), Do (SetV 5 (Meth (Call ''JD'' [Call ''cvd'' [V 3, Seq (Call ''nyc'' []) (G ''axc'')], K (JNum 182)]) ''Gc'' [Seq (Call ''ind'' []) (G ''hnd'')])), When (Neg (Dot (V 0) ''e'')) [Do (SetV 4 (Call ''JD'' [Call ''oNb'' [V 0, G ''brc''], K (JNum 22)])), Do (SetV 1 (New ''lgd'' [Bin Plus (Bin Plus (Dot (Dot (V 0) ''f'') ''a'') (Dot (Dot (V 0) ''d'') ''b'')) (Dot (Dot (V 0) ''d'') ''c''), Bin Plus (Bin Plus (Dot (Dot (V 0) ''f'') ''b'') (Dot (Dot (V 0) ''d'') ''d'')) (Dot (Dot (V 0) ''d'') ''a'')])), When (Meth (V 4) ''Gc'' [Seq (Call ''Xpc'' []) (G ''Qpc'')]) [Do (Call ''evd'' [V 3, G ''qxc'', Seq (Call ''Mld'' []) (G ''Hld'')]), Do (Call ''eqd'' [V 3, Dot (V 1) ''a'', Dot (V 1) ''b'', K (JBool False), K (JBool True)])] [Do (Or (Call ''Rdb'' [Call ''LD'' [Call ''cvd'' [V 3, G ''bxc'']]]) (Call ''eqd'' [V 3, Dot (V 1) ''a'', Dot (V 1) ''b'', K (JBool True), K (JBool True)]))]] [], Do (Cond (V 5) (Call ''evd'' [V 3, G ''axc'', Call ''Frb'' [G ''hnd'']]) (Call ''evd'' [V 3, G ''axc'', Seq (SetV 2 (Call ''JD'' [Call ''web'' [G ''Q2''], K (JNum 10)])) (New ''Nrb'' [V 2, Call ''JD'' [Call ''nDb'' [V 2, Dot (V 2) ''length''], K (JNum 10)], K (JNum 0)])]))],
    fn ''qSc'' 2 8 [Do (SetV 9 (Call ''LD'' [Call ''oNb'' [V 1, Seq (Call ''SXc'' []) (G ''IXc'')]])), When (Or (Loose (V 9) (K JNull)) (Seq (Call ''NDb'' [V 9]) (V 9))) [Do (Call ''nSc'' [V 0, V 1]), Do (SetV 4 (New ''lmb'' [])), Do (SetV 8 (Call ''Ztb'' [Dot (V 1) ''b'', K (JNum 0)])), Loop (Neg (Loose (Dot (V 8) ''b'') (Dot (Dot (V 8) ''d'') ''c''))) [Do (SetV 6 (Call ''JD'' [Call ''lub'' [V 8], K (JNum 40)])), Do (SetV 2 (Call ''mSc'' [V 0, V 6, K JNull])), When (V 2) [Do (Call ''mNb'' [V 2, V 1]), Do (Call ''qDb'' [Dot (V 4) ''c'', V 2])] []] [], Do (Put (V 0) ''a'' (K JNull)), Do (Put (V 0) ''b'' (K JNull)), When (Bin Gt (Dot (Dot (V 4) ''c'') ''length'') (K (JNum 1))) [Do (SetV 3 (New ''Kmb'' [V 4])), Loop (Bin Lt (Dot (V 3) ''a'') (Dot (Dot (Dot (V 3) ''c'') ''c'') ''length'')) [Do (SetV 2 (Call ''JD'' [Call ''Imb'' [V 3], K (JNum 120)])), Do (SetV 5 (K (JNum 0))), Do (SetV 7 (Call ''Ztb'' [Dot (V 2) ''b'', K (JNum 0)])), Loop (Neg (Loose (Dot (V 7) ''b'') (Dot (Dot (V 7) ''d'') ''c''))) [Do (SetV 6 (Call ''JD'' [Call ''lub'' [V 7], K (JNum 40)])), Do (Put (V 6) ''g'' (Bin Minus (SetV 5 (Bin Minus (V 5) (K (JNum (- 1))))) (K (JNum 1))))] []] []] [], Ret (V 4)] [], Ret (Call ''Wu'' [Call ''WC'' [Call ''OC'' [G ''$Z'', K (JNum 1)], G ''gxe'', K (JNum 120), K (JNum 0), NewArr [V 1]]])],
    fn ''H2b'' 2 6 [Do (SetV 4 (New ''Kmb'' [Dot (V 1) ''a''])), Loop (Bin Lt (Dot (V 4) ''a'') (Dot (Dot (Dot (V 4) ''c'') ''c'') ''length'')) [Do (SetV 3 (Call ''JD'' [Call ''Imb'' [V 4], K (JNum 9)])), Do (SetV 5 (Call ''oNb'' [V 3, Seq (Call ''Wrc'' []) (G ''urc'')])), When (Call ''RD'' [V 5, K (JNum 12)]) [Do (SetV 6 (Call ''JD'' [V 5, K (JNum 12)])), Do (SetV 7 (Call ''QXb'' [V 1, V 3, Dot (Dot (V 6) ''o'') ''a'', Dot (Dot (V 6) ''o'') ''b''])), Do (Put (Dot (V 6) ''n'') ''a'' (Dot (V 7) ''a'')), Do (Put (Dot (V 6) ''n'') ''b'' (Dot (V 7) ''b'')), Do (Call ''xZb'' [V 6, Call ''JD'' [Call ''oNb'' [V 3, G ''$qc''], K (JNum 64)]])] []] [], Do (SetV 2 (New ''lgd'' [Bin Plus (Bin Plus (Dot (Dot (V 1) ''f'') ''a'') (Dot (Dot (V 1) ''d'') ''b'')) (Dot (Dot (V 1) ''d'') ''c''), Bin Plus (Bin Plus (Dot (Dot (V 1) ''f'') ''b'') (Dot (Dot (V 1) ''d'') ''d'')) (Dot (Dot (V 1) ''d'') ''a'')])), When (Meth (Call ''JD'' [Call ''oNb'' [V 1, Seq (Call ''Wrc'' []) (G ''brc'')], K (JNum 22)]) ''Gc'' [Seq (Call ''Xpc'' []) (G ''Qpc'')]) [Do (Call ''rNb'' [V 0, Seq (Call ''nyc'' []) (G ''qxc''), Seq (Call ''Mld'' []) (G ''Hld'')]), Do (Meth (Call ''JD'' [Call ''oNb'' [Call ''DYb'' [V 0], G ''brc''], K (JNum 22)]) ''Ec'' [G ''Tpc'']), Do (Call ''YXb'' [V 0, V 2, K (JBool False)])] [Do (Call ''YXb'' [V 0, V 2, K (JBool True)])]],
    fn ''xkc'' 1 8 [Do (SetV 8 (New ''ygd'' [])), Do (SetV 1 (Call ''Ztb'' [V 0, K (JNum 0)])), Do (SetV 7 (K JNull)), Do (SetV 2 (Call ''JD'' [Call ''lub'' [V 1], K (JNum 8)])), Do (SetV 4 (Call ''JD'' [Call ''lub'' [V 1], K (JNum 8)])), Loop (Neg (Loose (Dot (V 1) ''b'') (Dot (Dot (V 1) ''d'') ''c''))) [Do (SetV 7 (V 2)), Do (SetV 2 (V 4)), Do (SetV 4 (Call ''JD'' [Call ''lub'' [V 1], K (JNum 8)])), Do (SetV 5 (Call ''ykc'' [Call ''igd'' [New ''lgd'' [Dot (V 7) ''a'', Dot (V 7) ''b''], V 2]])), Do (SetV 6 (Call ''ykc'' [Call ''igd'' [New ''lgd'' [Dot (V 4) ''a'', Dot (V 4) ''b''], V 2]])), Do (SetV 3 (K (JNum 10))), Do (SetV 3 (Meth (Dot (G ''$wnd'') ''Math'') ''min'' [V 3, Bin Divide (Meth (Dot (G ''$wnd'') ''Math'') ''abs'' [Bin Plus (Dot (V 5) ''a'') (Dot (V 5) ''b'')]) (K (JNum 2))])), Do (SetV 3 (Meth (Dot (G ''$wnd'') ''Math'') ''min'' [V 3, Bin Divide (Meth (Dot (G ''$wnd'') ''Math'') ''abs'' [Bin Plus (Dot (V 6) ''a'') (Dot (V 6) ''b'')]) (K (JNum 2))])), Do (Put (V 5) ''a'' (Bin Times (Call ''Vfb'' [Dot (V 5) ''a'']) (V 3))), Do (Put (V 5) ''b'' (Bin Times (Call ''Vfb'' [Dot (V 5) ''b'']) (V 3))), Do (Put (V 6) ''a'' (Bin Times (Call ''Vfb'' [Dot (V 6) ''a'']) (V 3))), Do (Put (V 6) ''b'' (Bin Times (Call ''Vfb'' [Dot (V 6) ''b'']) (V 3))), Do (Call ''Ttb'' [V 8, Call ''Vfd'' [V 5, V 2]]), Do (Call ''Ttb'' [V 8, Call ''Vfd'' [V 6, V 2]])] [], Ret (V 8)],
    fn ''QGc'' 3 6 [Do (Meth (V 2) ''Tg'' [Bin Plus (K (JStr ''Minimize Crossings '')) (Dot (V 0) ''a''), K (JNum 1)]), Do (SetV 3 (Or (Loose (Dot (Dot (Dot (V 1) ''b'') ''c'') ''length'') (K (JNum 0))) (Neg (Meth (Call ''hCb'' [Call ''VBb'' [New ''jCb'' [K JNull, New ''Zvb'' [Dot (V 1) ''b'', K (JNum 16)]], New ''Xzb'' [New ''qHc'' []]]]) ''zd'' [Seq (Call ''QBb'' []) (G ''PBb'')])))), Do (SetV 8 (And (Loose (Dot (Dot (Dot (V 1) ''b'') ''c'') ''length'') (K (JNum 1))) (Loose (Dot (Dot (Dot (Call ''JD'' [Call ''dmb'' [Dot (V 1) ''b'', K (JNum 0)], K (JNum 25)]) ''a'') ''c'') ''length'') (K (JNum 1))))), Do (SetV 5 (Same (Call ''XD'' [Call ''oNb'' [V 1, Seq (Call ''nyc'' []) (G ''swc'')]]) (Call ''XD'' [Seq (Call ''Qkd'' []) (G ''Nkd'')]))), When (Or (V 3) (And (V 8) (Neg (V 5)))) [Do (Meth (V 2) ''Ug'' []), Ret (K JUndef)] [], Do (SetV 4 (Call ''LGc'' [V 0, V 1])), Do (SetV 6 (Seq (SetV 7 (Call ''JD'' [Call ''au'' [V 4, K (JNum 0)], K (JNum 218)])) (Cond (Meth (Dot (V 7) ''c'') ''ig'' []) (Cond (Meth (Dot (V 7) ''c'') ''cg'' []) (New ''cHc'' [V 0]) (New ''eHc'' [V 0])) (New ''aHc'' [V 0])))), Do (Call ''MGc'' [V 4, V 6]), Do (Call ''YGc'' [V 0]), Do (Meth (V 2) ''Ug'' [])],
    fn ''Vsd'' 4 5 [Do (SetV 6 (Meth (V 0) ''Mh'' [])), Do (SetV 8 (Meth (V 0) ''Gh'' [])), Do (SetV 4 (K JNull)), When (V 8) [When (And (Neg (Neg (V 1))) (Loose (Bin BitAnd (Dot (Call ''Htd'' [V 0, V 1, V 2]) ''Bb'') (G ''Hve'')) (K (JNum 0)))) [Do (SetV 3 (Call ''IJd'' [Meth (V 8) ''Cl'' [], V 0, V 3])), Do (Meth (V 0) ''ai'' [K JNull]), Do (SetV 4 (Meth (V 1) ''Nh'' []))] [Do (SetV 8 (K JNull))]] [Do (And (Neg (Neg (V 6))) (SetV 8 (Meth (V 6) ''Nh'' []))), Do (And (Neg (Neg (V 1))) (SetV 4 (Meth (V 1) ''Nh'' [])))], Do (And (And (Neg (Loose (V 8) (V 4))) (Neg (Neg (V 8)))) (Meth (V 8) ''Gl'' [V 0])), Do (SetV 7 (Meth (V 0) ''Ch'' [])), Do (Meth (V 0) ''yh'' [V 1, V 2]), Do (And (And (Neg (Loose (V 8) (V 4))) (Neg (Neg (V 4)))) (Meth (V 4) ''Fl'' [V 0])), When (And (Meth (V 0) ''sh'' []) (Meth (V 0) ''th'' [])) [When (And (And (Neg (Neg (V 6))) (Bin Ge (V 7) (K (JNum 0)))) (Neg (Loose (V 7) (V 2)))) [Do (SetV 5 (New ''$1d'' [V 0, K (JNum 1), V 7, V 6, K JNull])), Do (Cond (Neg (V 3)) (SetV 3 (V 5)) (Meth (V 3) ''lj'' [V 5]))] [], When (Bin Ge (V 2) (K (JNum 0))) [Do (SetV 5 (New ''$1d'' [V 0, K (JNum 1), V 2, Cond (Loose (V 7) (V 2)) (V 6) (K JNull), V 1])), Do (Cond (Neg (V 3)) (SetV 3 (V 5)) (Meth (V 3) ''lj'' [V 5]))] []] [], Ret (V 3)],
    fn ''wQd'' 1 3 [When (Loose (Dot (V 0) ''b'') (K JNull)) [Do (SetV 3 (New ''$gb'' [])), When (Neg (Loose (Dot (V 0) ''i'') (K JNull))) [Do (Call ''Xgb'' [V 3, Dot (V 0) ''i'']), Do (Put (V 3) ''a'' (Bin Plus (Dot (V 3) ''a'') (K (JStr '':''))))] [], When (Neg (Loose (Bin BitAnd (Dot (V 0) ''f'') (K (JNum 256))) (K (JNum 0)))) [When (And (Neg (Loose (Bin BitAnd (Dot (V 0) ''f'') (K (JNum 256))) (K (JNum 0)))) (Neg (Loose (Dot (V 0) ''a'') (K JNull)))) [Do (Or (Call ''JQd'' [Dot (V 0) ''i'']) (Seq (Put (V 3) ''a'' (Bin Plus (Dot (V 3) ''a'') (K (JStr ''//'')))) (V 3))), Do (Call ''Xgb'' [V 3, Dot (V 0) ''a''])] [], When (Neg (Loose (Dot (V 0) ''d'') (K JNull))) [Do (Put (V 3) ''a'' (Bin Plus (Dot (V 3) ''a'') (K (JStr ''/'')))), Do (Call ''Xgb'' [V 3, Dot (V 0) ''d''])] [], Do (And (Neg (Loose (Bin BitAnd (Dot (V 0) ''f'') (K (JNum 16))) (K (JNum 0)))) (Seq (Put (V 3) ''a'' (Bin Plus (Dot (V 3) ''a'') (K (JStr ''/'')))) (V 3))), Do (Seq (SetV 1 (K (JNum 0))) (SetV 2 (Dot (Dot (V 0) ''j'') ''length''))), Loop (Bin Lt (V 1) (V 2)) [Do (And (Neg (Loose (V 1) (K (JNum 0)))) (Seq (Put (V 3) ''a'' (Bin Plus (Dot (V 3) ''a'') (K (JStr ''/'')))) (V 3))), Do (Call ''Xgb'' [V 3, Idx (Dot (V 0) ''j'') (V 1)])] [Do (Bin Minus (SetV 1 (Bin Minus (V 1) (K (JNum (- 1))))) (K (JNum 1)))], When (Neg (Loose (Dot (V 0) ''g'') (K JNull))) [Do (Put (V 3) ''a'' (Bin Plus (Dot (V 3) ''a'') (K (JStr ''?'')))), Do (Call ''Xgb'' [V 3, Dot (V 0) ''g''])] []] [Do (Call ''Xgb'' [V 3, Dot (V 0) ''a''])], When (Neg (Loose (Dot (V 0) ''e'') (K JNull))) [Do (Put (V 3) ''a'' (Bin Plus (Dot (V 3) ''a'') (K (JStr ''#'')))), Do (Call ''Xgb'' [V 3, Dot (V 0) ''e''])] [], Do (Put (V 0) ''b'' (Dot (V 3) ''a''))] [], Ret (Dot (V 0) ''b'')],
    fn ''y9b'' 5 4 [Do (SetV 5 (New ''QYb'' [V 0])), Do (Call ''OYb'' [V 5, Seq (Call ''$Yb'' []) (G ''YYb'')]), Do (Call ''rNb'' [V 5, Seq (Call ''nyc'' []) (G ''qxc''), Seq (Call ''Mld'' []) (G ''Hld'')]), Do (Call ''rNb'' [V 5, Seq (Call ''Wrc'' []) (G ''urc''), Dot (Dot (V 1) ''c'') ''i'']), Do (SetV 6 (New ''yZb'' [])), Do (Call ''rNb'' [V 6, G ''urc'', Dot (V 1) ''c'']), Do (Call ''xZb'' [V 6, V 4]), Do (Call ''wZb'' [V 6, V 5]), Do (Call ''rNb'' [Dot (V 1) ''c'', G ''Crc'', V 5]), Do (SetV 7 (New ''QYb'' [V 0])), Do (Call ''OYb'' [V 7, G ''YYb'']), Do (Call ''rNb'' [V 7, G ''qxc'', G ''Hld'']), Do (Call ''rNb'' [V 7, G ''urc'', Dot (Dot (V 1) ''d'') ''i'']), Do (SetV 8 (New ''yZb'' [])), Do (Call ''rNb'' [V 8, G ''urc'', Dot (V 1) ''d'']), Do (Call ''xZb'' [V 8, V 4]), Do (Call ''wZb'' [V 8, V 7]), Do (Call ''rNb'' [Dot (V 1) ''d'', G ''Crc'', V 7]), Do (Call ''CWb'' [V 1, V 6]), Do (Call ''DWb'' [V 1, V 8]), Do (Call ''PDb'' [K (JNum 0), Dot (Dot (V 2) ''c'') ''length'']), Do (Call ''oDb'' [Dot (V 2) ''c'', K (JNum 0), V 5]), Do (Call ''qDb'' [Dot (V 3) ''c'', V 7]), Do (Call ''rNb'' [V 5, G ''Rqc'', Call ''Cfb'' [K (JNum 1)]]), Do (Call ''rNb'' [V 7, G ''Rqc'', Call ''Cfb'' [K (JNum 1)]])],
    fn ''yo'' 4 5 [Do (SetV 8 (Call ''gdb'' [Call ''Ycb'' [G ''rue'', Call ''Afb'' [Call ''gdb'' [Call ''Ycb'' [Cond (Loose (V 1) (K JNull)) (K (JNum 0)) (Call ''tb'' [V 1]), G ''sue'']], K (JNum 15)]]])), Do (SetV 4 (Call ''gdb'' [Call ''Ycb'' [G ''rue'', Call ''Afb'' [Call ''gdb'' [Call ''Ycb'' [Cond (Loose (V 2) (K JNull)) (K (JNum 0)) (Call ''tb'' [V 2]), G ''sue'']], K (JNum 15)]]])), Do (SetV 7 (Call ''Bo'' [V 0, V 1, V 8])), Do (SetV 6 (Call ''Ao'' [V 0, V 2, V 4])), When (And (And (Neg (Neg (V 7))) (Loose (V 4) (Dot (V 7) ''a''))) (Call ''Hb'' [V 2, Dot (V 7) ''g''])) [Ret (V 2)] [When (And (Neg (Neg (V 6))) (Neg (V 3))) [Raise (Call ''Lcb'' [New ''kfb'' [Bin Plus (K (JStr ''key already present: '')) (V 2)]])] []], Do (And (Neg (Neg (V 7))) (Call ''so'' [V 0, V 7])), Do (And (Neg (Neg (V 6))) (Call ''so'' [V 0, V 6])), Do (SetV 5 (New ''ep'' [V 2, V 4, V 1, V 8])), Do (Call ''vo'' [V 0, V 5, V 6]), When (V 6) [Do (Put (V 6) ''e'' (K JNull)), Do (Put (V 6) ''c'' (K JNull))] [], When (V 7) [Do (Put (V 7) ''e'' (K JNull)), Do (Put (V 7) ''c'' (K JNull))] [], Do (Call ''zo'' [V 0]), Ret (Cond (Neg (V 7)) (K JNull) (Dot (V 7) ''g''))],
    fn ''bjb'' 3 5 [Do (SetV 5 (K (JNum 0))), Loop (Bin Lt (V 5) (V 1)) [Do (SetV 3 (K (JNum 0))), Do (SetV 7 (Bin Plus (V 5) (K (JNum 1)))), Loop (Bin Lt (V 7) (V 1)) [Do (SetV 3 (Call ''Mcb'' [Call ''Mcb'' [Call ''Ycb'' [Call ''Ncb'' [Idx (V 0) (V 5), G ''Mve''], Call ''Ncb'' [Idx (V 0) (V 7), G ''Mve'']], Call ''Ncb'' [Idx (V 2) (Bin Plus (V 5) (V 7)), G ''Mve'']], Call ''Ncb'' [Call ''gdb'' [V 3], G ''Mve'']])), Do (PutIdx (V 2) (Bin Plus (V 5) (V 7)) (Call ''gdb'' [V 3])), Do (SetV 3 (Call ''cdb'' [V 3, K (JNum 32)]))] [Do (Bin Minus (SetV 7 (Bin Minus (V 7) (K (JNum (- 1))))) (K (JNum 1)))], Do (PutIdx (V 2) (Bin Plus (V 5) (V 1)) (Call ''gdb'' [V 3]))] [Do (Bin Minus (SetV 5 (Bin Minus (V 5) (K (JNum (- 1))))) (K (JNum 1)))], Do (Call ''Cib'' [V 2, V 2, Bin Shl (V 1) (K (JNum 1))]), Do (SetV 3 (K (JNum 0))), Do (Seq (SetV 4 (K (JNum 0))) (SetV 6 (K (JNum 0)))), Loop (Bin Lt (V 4) (V 1)) [Do (SetV 3 (Call ''Mcb'' [Call ''Mcb'' [Call ''Ycb'' [Call ''Ncb'' [Idx (V 0) (V 4), G ''Mve''], Call ''Ncb'' [Idx (V 0) (V 4), G ''Mve'']], Call ''Ncb'' [Idx (V 2) (V 6), G ''Mve'']], Call ''Ncb'' [Call ''gdb'' [V 3], G ''Mve'']])), Do (PutIdx (V 2) (V 6) (Call ''gdb'' [V 3])), Do (SetV 3 (Call ''cdb'' [V 3, K (JNum 32)])), Do (SetV 6 (Bin Minus (V 6) (K (JNum (- 1))))), Do (SetV 3 (Call ''Mcb'' [V 3, Call ''Ncb'' [Idx (V 2) (V 6), G ''Mve'']])), Do (PutIdx (V 2) (V 6) (Call ''gdb'' [V 3])), Do (SetV 3 (Call ''cdb'' [V 3, K (JNum 32)]))] [Do (Seq (SetV 4 (Bin Minus (V 4) (K (JNum (- 1))))) (Bin Minus (SetV 6 (Bin Minus (V 6) (K (JNum (- 1))))) (K (JNum 1))))], Ret (V 2)],
    fn ''gLc'' 3 8 [When (Call ''ar'' [V 1]) [Ret (K JUndef)] [], Do (SetV 8 (Call ''Ueb'' [Call ''MD'' [Call ''YAc'' [Dot (V 2) ''c'', Seq (Call ''nyc'' []) (G ''Wxc'')]]])), Do (SetV 9 (Call ''JD'' [Call ''YAc'' [Dot (V 2) ''c'', G ''Vxc''], K (JNum 140)])), Do (And (Neg (V 9)) (SetV 9 (New ''uYb'' []))), Do (SetV 3 (Dot (V 2) ''a'')), Do (SetV 4 (K JNull)), Do (SetV 7 (Meth (V 1) ''Jc'' [])), Loop (Meth (V 7) ''Ob'' []) [Do (SetV 6 (Call ''JD'' [Meth (V 7) ''Pb'' [], K (JNum 12)])), Do (SetV 10 (K (JNum 0))), When (Neg (V 4)) [Do (SetV 10 (Dot (V 9) ''d''))] [Do (SetV 10 (V 8)), Do (SetV 10 (Bin Plus (V 10) (Dot (Dot (V 4) ''o'') ''b'')))], Do (SetV 5 (Call ''JGb'' [Call ''KGb'' [New ''LGb'' [], V 6], Dot (V 0) ''f''])), Do (Call ''hjb'' [Dot (V 0) ''k'', V 6, V 5]), Do (Call ''XFb'' [Call ''$Fb'' [Call ''ZFb'' [Call ''YFb'' [Call ''_Fb'' [New ''aGb'' [], K (JNum 0)], Call ''YD'' [Meth (Dot (G ''$wnd'') ''Math'') ''ceil'' [V 10]]], V 3], V 5]]), Do (SetV 4 (V 6)), Do (SetV 3 (V 5))] [], Do (Call ''XFb'' [Call ''$Fb'' [Call ''ZFb'' [Call ''YFb'' [Call ''_Fb'' [New ''aGb'' [], K (JNum 0)], Call ''YD'' [Meth (Dot (G ''$wnd'') ''Math'') ''ceil'' [Bin Plus (Dot (V 9) ''a'') (Dot (Dot (V 4) ''o'') ''b'')]]], V 3], Dot (V 2) ''d'']])],
    fn ''F5c'' 8 6 [Do (SetV 13 (K (JBool False))), Do (SetV 12 (Bin Minus (V 5) (Dot (V 2) ''s''))), Do (SetV 10 (Bin Plus (Bin Minus (Dot (V 2) ''t'') (Dot (V 1) ''f'')) (Seq (SetV 9 (Call ''O6c'' [V 2, V 12, K (JBool False)])) (Dot (V 9) ''a'')))), When (Bin Gt (Bin Plus (Dot (V 3) ''g'') (V 7)) (V 12)) [Ret (K (JBool False))] [], Do (SetV 11 (Seq (SetV 8 (Call ''O6c'' [V 3, V 12, K (JBool False)])) (Dot (V 8) ''a''))), When (Bin Le (Bin Plus (Bin Plus (V 10) (V 7)) (V 11)) (Dot (V 1) ''b'')) [Do (Call ''M6c'' [V 2, Bin Minus (V 5) (Dot (V 2) ''s'')]), Do (Put (V 2) ''c'' (K (JBool True))), Do (Call ''M6c'' [V 3, Bin Minus (V 5) (Dot (V 2) ''s'')]), Do (Call ''Q6c'' [V 3, Dot (V 2) ''s'', Bin Plus (Bin Plus (Dot (V 2) ''t'') (Dot (V 2) ''d'')) (V 7)]), Do (Put (V 3) ''k'' (K (JBool True))), Do (Call ''Y6c'' [Dot (V 2) ''q'', V 3]), Do (SetV 13 (K (JBool True))), When (V 4) [Do (Call ''y7c'' [V 1, V 3]), Do (Put (V 3) ''j'' (V 1)), When (Bin Gt (Dot (Dot (V 0) ''c'') ''length'') (V 6)) [Do (Call ''B7c'' [Seq (Call ''MDb'' [V 6, Dot (Dot (V 0) ''c'') ''length'']) (Call ''JD'' [Idx (Dot (V 0) ''c'') (V 6), K (JNum 186)]), V 3]), Do (And (Loose (Dot (Dot (Dot (Seq (Call ''MDb'' [V 6, Dot (Dot (V 0) ''c'') ''length'']) (Call ''JD'' [Idx (Dot (V 0) ''c'') (V 6), K (JNum 186)])) ''a'') ''c'') ''length'') (K (JNum 0))) (Call ''fmb'' [V 0, V 6]))] []] []] [], Ret (V 13)]]"

definition code_5804_5814 :: "(string \<times> jfun) list" where
  "code_5804_5814 = [
    fn ''K9b'' 2 6 [Do (Meth (V 1) ''Tg'' [K (JStr ''Partition midprocessing''), K (JNum 1)]), Do (SetV 4 (New ''Np'' [])), Do (Call ''YBb'' [Call ''VBb'' [New ''jCb'' [K JNull, New ''Zvb'' [Dot (V 0) ''a'', K (JNum 16)]], New ''O9b'' []], New ''Q9b'' [V 4]]), When (Loose (Dot (V 4) ''d'') (K (JNum 0))) [Ret (K JUndef)] [], Do (SetV 7 (Call ''JD'' [Call ''SBb'' [Call ''fCb'' [Seq (SetV 5 (Dot (V 4) ''i'')) (New ''jCb'' [K JNull, Meth (Cond (Neg (V 5)) (Put (V 4) ''i'' (New ''xf'' [V 4, Dot (V 4) ''c''])) (V 5)) ''Lc'' []])], Call ''BAb'' [New ''TAb'' [], New ''RAb'' [], New ''ZAb'' [], Call ''WC'' [Call ''OC'' [G ''HL'', K (JNum 1)], G ''xue'', K (JNum 130), K (JNum 0), NewArr [Seq (Call ''FAb'' []) (G ''DAb'')]]]], K (JNum 16)])), Do (SetV 3 (Meth (V 7) ''Jc'' [])), Do (SetV 2 (Call ''JD'' [Meth (V 3) ''Pb'' [], K (JNum 15)])), Loop (Meth (V 3) ''Ob'' []) [Do (SetV 6 (Call ''JD'' [Meth (V 3) ''Pb'' [], K (JNum 15)])), Do (Call ''J9b'' [Call ''JD'' [Call ''Qc'' [V 4, V 2], K (JNum 22)], Call ''JD'' [Call ''Qc'' [V 4, V 6], K (JNum 22)]]), Do (SetV 2 (V 6))] [], Do (Meth (V 1) ''Ug'' [])],
    fn ''xxd'' 2 5 [When (Dot (V 0) ''Ab'') [When (Dot (V 0) ''Ab'') [Do (SetV 6 (Dot (Dot (V 0) ''Ab'') ''i'')), When (Bin Gt (V 6) (K (JNum 0))) [Do (SetV 4 (Call ''JD'' [Dot (Dot (V 0) ''Ab'') ''g'', K (JNum 1998)])), When (Loose (V 1) (K JNull)) [Do (SetV 5 (K (JNum 0))), Loop (Bin Lt (V 5) (V 6)) [Do (SetV 2 (Idx (V 4) (V 5))), When (Loose (Dot (V 2) ''d'') (K JNull)) [Ret (V 2)] []] [Do (SetV 5 (Bin Minus (V 5) (K (JNum (- 1)))))]] [Do (SetV 5 (K (JNum 0))), Loop (Bin Lt (V 5) (V 6)) [Do (SetV 2 (Idx (V 4) (V 5))), When (Call ''vgb'' [V 1, Dot (V 2) ''d'']) [Ret (V 2)] []] [Do (SetV 5 (Bin Minus (V 5) (K (JNum (- 1)))))]]] []] [When (Loose (V 1) (K JNull)) [Do (SetV 3 (New ''uKd'' [Dot (V 0) ''Ab''])), Loop (Neg (Loose (Dot (V 3) ''e'') (Meth (Dot (V 3) ''i'') ''gc'' []))) [Do (SetV 2 (Call ''JD'' [Call ''sKd'' [V 3], K (JNum 588)])), When (Loose (Dot (V 2) ''d'') (K JNull)) [Ret (V 2)] []] []] [Do (SetV 3 (New ''uKd'' [Dot (V 0) ''Ab''])), Loop (Neg (Loose (Dot (V 3) ''e'') (Meth (Dot (V 3) ''i'') ''gc'' []))) [Do (SetV 2 (Call ''JD'' [Call ''sKd'' [V 3], K (JNum 588)])), When (Call ''vgb'' [V 1, Dot (V 2) ''d'']) [Ret (V 2)] []] []]]] [], Ret (K JNull)],
    fn ''xBd'' 5 16 [Do (SetV 13 (Call ''$Bd'' [V 0, Call ''XEd'' [V 1], V 4])), Do (Call ''dxd'' [V 13, Call ''VAd'' [V 4, G ''FGe'']]), Do (SetG ''o'' (K JNull)), Do (SetV 14 (V 4)), Do (SetV 15 (Call ''UAd'' [V 14, G ''IGe''])), Do (SetV 16 (New ''PCd'' [V 13])), Do (Call ''CBd'' [Dot (V 16) ''a'', V 15]), Do (SetV 17 (Call ''UAd'' [V 14, K (JStr ''endPoint'')])), Do (SetV 18 (New ''XCd'' [V 13])), Do (Call ''EBd'' [Dot (V 18) ''a'', V 17]), Do (SetV 19 (Call ''SAd'' [V 14, G ''yGe''])), Do (SetV 20 (New ''bDd'' [V 13])), Do (Call ''FBd'' [Dot (V 20) ''a'', V 19]), Do (SetV 11 (Call ''VAd'' [V 4, G ''AGe''])), Do (SetV 5 (New ''HCd'' [V 0, V 13])), Do (Call ''yBd'' [Dot (V 5) ''a'', Dot (V 5) ''b'', V 11]), Do (SetV 12 (Call ''VAd'' [V 4, G ''zGe''])), Do (SetV 6 (New ''JCd'' [V 0, V 13])), Do (Call ''zBd'' [Dot (V 6) ''a'', Dot (V 6) ''b'', V 12]), Do (SetV 9 (Call ''SAd'' [V 4, G ''CGe''])), Do (SetV 7 (New ''LCd'' [V 2, V 13])), Do (Call ''ABd'' [Dot (V 7) ''b'', Dot (V 7) ''a'', V 9]), Do (SetV 10 (Call ''SAd'' [V 4, G ''BGe''])), Do (SetV 8 (New ''NCd'' [V 3, V 13])), Do (Call ''BBd'' [Dot (V 8) ''b'', Dot (V 8) ''a'', V 10])],
    fn ''kVb'' 3 8 [When (Loose (Dot (V 1) ''p'') (K (JNum 0))) [Do (Put (V 1) ''p'' (K (JNum 1))), Do (SetV 6 (V 2)), When (Neg (V 6)) [Do (SetV 4 (New ''lmb'' [])), Do (SetV 5 (Seq (SetV 3 (Call ''JD'' [Call ''web'' [G ''M2''], K (JNum 10)])) (New ''Nrb'' [V 3, Call ''JD'' [Call ''nDb'' [V 3, Dot (V 3) ''length''], K (JNum 10)], K (JNum 0)]))), Do (SetV 6 (New ''prd'' [V 4, V 5]))] [], Do (Meth (Call ''JD'' [Dot (V 6) ''a'', K (JNum 16)]) ''Ec'' [V 1]), Do (And (Loose (Dot (V 1) ''k'') (Seq (Call ''$Yb'' []) (G ''TYb''))) (Meth (Call ''JD'' [Dot (V 6) ''b'', K (JNum 22)]) ''Ec'' [Call ''JD'' [Call ''oNb'' [V 1, Seq (Call ''Wrc'' []) (G ''$qc'')], K (JNum 64)]])), Do (SetV 8 (New ''Kmb'' [Dot (V 1) ''j''])), Loop (Bin Lt (Dot (V 8) ''a'') (Dot (Dot (Dot (V 8) ''c'') ''c'') ''length'')) [Do (SetV 7 (Call ''JD'' [Call ''Imb'' [V 8], K (JNum 12)])), Do (SetV 10 (Call ''Gl'' [Call ''yl'' [Call ''WC'' [Call ''OC'' [G ''VI'', K (JNum 1)], G ''Gte'', K (JNum 20), K (JNum 0), NewArr [New ''AZb'' [V 7], New ''IZb'' [V 7]]]]])), Loop (Call ''Wr'' [V 10]) [Do (SetV 9 (Call ''JD'' [Call ''Xr'' [V 10], K (JNum 12)])), Do (Call ''kVb'' [V 0, Dot (V 9) ''i'', V 6])] []] [], Ret (V 6)] [], Ret (K JNull)],
    fn ''XXb'' 3 5 [Do (SetV 7 (K JNull)), Switch (Dot (V 1) ''g'') [(Some (JNum 1), [Do (SetV 4 (New ''Kmb'' [Dot (V 0) ''j''])), Loop (Bin Lt (Dot (V 4) ''a'') (Dot (Dot (Dot (V 4) ''c'') ''c'') ''length'')) [Do (SetV 3 (Call ''JD'' [Call ''Imb'' [V 4], K (JNum 12)])), When (Call ''Rdb'' [Call ''LD'' [Call ''oNb'' [V 3, Seq (Call ''Wrc'' []) (G ''drc'')]]]) [Ret (V 3)] []] [], Do (SetV 7 (New ''yZb'' [])), Do (Call ''rNb'' [V 7, Seq (Call ''Wrc'' []) (G ''drc''), Seq (Call ''Qdb'' []) (K (JBool True))]), Break]), (Some (JNum 2), [Do (SetV 6 (New ''Kmb'' [Dot (V 0) ''j''])), Loop (Bin Lt (Dot (V 6) ''a'') (Dot (Dot (Dot (V 6) ''c'') ''c'') ''length'')) [Do (SetV 5 (Call ''JD'' [Call ''Imb'' [V 6], K (JNum 12)])), When (Call ''Rdb'' [Call ''LD'' [Call ''oNb'' [V 5, Seq (Call ''Wrc'' []) (G ''Arc'')]]]) [Ret (V 5)] []] [], Do (SetV 7 (New ''yZb'' [])), Do (Call ''rNb'' [V 7, Seq (Call ''Wrc'' []) (G ''Arc''), Seq (Call ''Qdb'' []) (K (JBool True))])])], When (V 7) [Do (Call ''wZb'' [V 7, V 0]), Do (Call ''xZb'' [V 7, V 2]), Do (Call ''KXb'' [Dot (V 7) ''n'', Dot (V 0) ''o'', V 2])] [], Ret (V 7)],
    fn ''R0b'' 2 6 [Do (SetV 7 (K (JNum (- 1)))), Do (SetV 6 (New ''dub'' [])), Do (SetV 3 (New ''UZb'' [Dot (V 0) ''b''])), Loop (Or (Call ''Hmb'' [Dot (V 3) ''a'']) (Call ''Hmb'' [Dot (V 3) ''b''])) [Do (SetV 2 (Call ''JD'' [Cond (Call ''Hmb'' [Dot (V 3) ''a'']) (Call ''Imb'' [Dot (V 3) ''a'']) (Call ''Imb'' [Dot (V 3) ''b'']), K (JNum 17)])), Do (SetV 7 (Meth (Dot (G ''$wnd'') ''Math'') ''max'' [V 7, Call ''Ueb'' [Call ''MD'' [Call ''oNb'' [V 2, Seq (Call ''nyc'' []) (G ''pwc'')]]]])), Do (Cond (Loose (Dot (V 2) ''c'') (V 0)) (Call ''YBb'' [Call ''VBb'' [New ''jCb'' [K JNull, New ''Zvb'' [Dot (V 2) ''b'', K (JNum 16)]], New ''X0b'' []], New ''Z0b'' [V 6]]) (Call ''YBb'' [Call ''VBb'' [New ''jCb'' [K JNull, New ''Zvb'' [Dot (V 2) ''b'', K (JNum 16)]], New ''_0b'' []], New ''b1b'' [V 6]])), Do (SetV 5 (Call ''Ztb'' [V 6, K (JNum 0)])), Loop (Neg (Loose (Dot (V 5) ''b'') (Dot (Dot (V 5) ''d'') ''c''))) [Do (SetV 4 (Call ''JD'' [Call ''lub'' [V 5], K (JNum 70)])), Do (Or (Call ''pNb'' [V 4, Seq (Call ''Wrc'' []) (G ''Wqc'')]) (Call ''rNb'' [V 4, G ''Wqc'', V 2]))] [], Do (Call ''bmb'' [V 1, V 6]), Do (Call ''cub'' [V 6])] [], Ret (V 7)],
    fn ''KQc'' 5 5 [Do (SetV 7 (Cond (V 4) (Dot (V 3) ''b'') (Dot (V 3) ''a''))), When (Call ''fsb'' [Dot (V 0) ''a'', V 3]) [Ret (K JUndef)] [], Do (SetV 9 (And (Bin Gt (V 7) (Dot (V 2) ''s'')) (Bin Lt (V 7) (Dot (V 2) ''c'')))), Do (SetV 8 (K (JBool False))), When (And (Neg (Loose (Dot (Dot (V 2) ''e'') ''b'') (K (JNum 0)))) (Neg (Loose (Dot (Dot (V 2) ''j'') ''b'') (K (JNum 0))))) [Do (SetV 8 (Bin BitOr (V 8) (And (Bin Lt (Meth (Dot (G ''$wnd'') ''Math'') ''abs'' [Bin Minus (V 7) (Call ''Ueb'' [Call ''MD'' [Call ''Xtb'' [Dot (V 2) ''e'']]])]) (G ''xxe'')) (Bin Lt (Meth (Dot (G ''$wnd'') ''Math'') ''abs'' [Bin Minus (V 7) (Call ''Ueb'' [Call ''MD'' [Call ''Xtb'' [Dot (V 2) ''j'']]])]) (G ''xxe''))))), Do (SetV 8 (Bin BitOr (V 8) (And (Bin Lt (Meth (Dot (G ''$wnd'') ''Math'') ''abs'' [Bin Minus (V 7) (Call ''Ueb'' [Call ''MD'' [Call ''Ytb'' [Dot (V 2) ''e'']]])]) (G ''xxe'')) (Bin Lt (Meth (Dot (G ''$wnd'') ''Math'') ''abs'' [Bin Minus (V 7) (Call ''Ueb'' [Call ''MD'' [Call ''Ytb'' [Dot (V 2) ''j'']]])]) (G ''xxe'')))))] [], When (Or (V 9) (V 8)) [Do (SetV 6 (Call ''JD'' [Call ''oNb'' [V 1, Seq (Call ''nyc'' []) (G ''Bwc'')], K (JNum 79)])), When (Neg (V 6)) [Do (SetV 6 (New ''ygd'' [])), Do (Call ''rNb'' [V 1, G ''Bwc'', V 6])] [], Do (SetV 5 (New ''mgd'' [V 3])), Do (Call ''Wtb'' [V 6, V 5, Dot (Dot (V 6) ''c'') ''b'', Dot (V 6) ''c'']), Do (Call ''esb'' [Dot (V 0) ''a'', V 5])] []],
    fn ''hWc'' 3 9 [Do (Meth (V 2) ''Tg'' [K (JStr ''Processor set coordinates''), K (JNum 1)]), Do (Put (V 0) ''a'' (Cond (Loose (Dot (Dot (V 1) ''b'') ''b'') (K (JNum 0))) (K (JNum 1)) (Dot (Dot (V 1) ''b'') ''b''))), Do (SetV 9 (K JNull)), Do (SetV 3 (Call ''Ztb'' [Dot (V 1) ''b'', K (JNum 0)])), Loop (And (Neg (V 9)) (Neg (Loose (Dot (V 3) ''b'') (Dot (Dot (V 3) ''d'') ''c'')))) [Do (SetV 11 (Call ''JD'' [Call ''lub'' [V 3], K (JNum 40)])), When (Call ''Rdb'' [Call ''LD'' [Call ''oNb'' [V 11, Seq (Call ''_Wc'' []) (G ''YWc'')]]]) [Do (SetV 9 (V 11)), Do (SetV 8 (Dot (V 11) ''e'')), Do (Put (V 8) ''a'' (Dot (Call ''JD'' [Call ''oNb'' [V 11, G ''ZWc''], K (JNum 15)]) ''a'')), Do (Put (V 8) ''b'' (Dot (Call ''JD'' [Call ''oNb'' [V 11, G ''$Wc''], K (JNum 15)]) ''a''))] []] [], Do (SetV 7 (Call ''JTc'' [V 9])), Do (SetV 10 (K (JNum 1))), Loop (K (JBool True)) [Do (SetV 7 (Call ''iWc'' [Seq (Seq (SetV 4 (V 7)) (Meth (V 2) ''dh'' [V 10])) (V 4)])), Do (SetV 10 (Bin DivInt (Dot (V 7) ''b'') (Dot (V 0) ''a'')))] [When (Neg (Loose (Dot (V 7) ''b'') (K (JNum 0)))) [] [Break]], Do (SetV 6 (Call ''Ztb'' [Dot (V 1) ''b'', K (JNum 0)])), Loop (Neg (Loose (Dot (V 6) ''b'') (Dot (Dot (V 6) ''d'') ''c''))) [Do (SetV 5 (Call ''JD'' [Call ''lub'' [V 6], K (JNum 40)])), Do (Call ''igd'' [Dot (V 5) ''e'', New ''lgd'' [Bin Divide (Dot (Dot (V 5) ''f'') ''a'') (K (JNum 2)), Bin Divide (Dot (Dot (V 5) ''f'') ''b'') (K (JNum 2))]])] [], Do (Meth (V 2) ''Ug'' [])],
    fn ''yKc'' 2 14 [Do (SetV 2 (K (JBool False))), Do (SetV 10 (Call ''Ueb'' [Call ''MD'' [Call ''oNb'' [V 1, Seq (Call ''nyc'' []) (G ''Sxc'')]]])), Do (SetV 14 (Bin Times (G ''Due'') (V 10))), Do (SetV 4 (New ''Kmb'' [Dot (V 1) ''b''])), Loop (Bin Lt (Dot (V 4) ''a'') (Dot (Dot (Dot (V 4) ''c'') ''c'') ''length'')) [Do (SetV 3 (Call ''JD'' [Call ''Imb'' [V 4], K (JNum 25)])), Do (SetV 9 (New ''Kmb'' [Dot (V 3) ''a''])), Do (SetV 5 (Call ''JD'' [Call ''Imb'' [V 9], K (JNum 9)])), Do (SetV 11 (Call ''GKc'' [Idx (Dot (V 0) ''a'') (Dot (V 5) ''p'')])), Loop (Bin Lt (Dot (V 9) ''a'') (Dot (Dot (Dot (V 9) ''c'') ''c'') ''length'')) [Do (SetV 7 (Call ''JD'' [Call ''Imb'' [V 9], K (JNum 9)])), Do (SetV 12 (Call ''GKc'' [Idx (Dot (V 0) ''a'') (Dot (V 7) ''p'')])), When (Neg (Loose (V 11) (V 12))) [Do (SetV 13 (Call ''SAc'' [Dot (V 0) ''b'', V 5, V 7])), Do (SetV 6 (Bin Plus (Bin Plus (Bin Plus (Bin Plus (Dot (Dot (V 5) ''n'') ''b'') (Dot (Dot (V 5) ''o'') ''b'')) (Dot (Dot (V 5) ''d'') ''a'')) (Dot (V 11) ''a'')) (V 13))), Do (SetV 8 (Bin Plus (Bin Minus (Dot (Dot (V 7) ''n'') ''b'') (Dot (Dot (V 7) ''d'') ''d'')) (Dot (V 12) ''a''))), When (Bin Gt (V 6) (Bin Plus (V 8) (V 14))) [Do (SetV 15 (Bin Plus (Dot (V 11) ''g'') (Dot (V 12) ''g''))), Do (Put (V 12) ''a'' (Bin Divide (Bin Plus (Bin Times (Dot (V 12) ''g'') (Dot (V 12) ''a'')) (Bin Times (Dot (V 11) ''g'') (Dot (V 11) ''a''))) (V 15))), Do (Put (V 12) ''g'' (V 15)), Do (Put (V 11) ''f'' (V 12)), Do (SetV 2 (K (JBool True)))] []] [], Do (SetV 5 (V 7)), Do (SetV 11 (V 12))] []] [], Ret (V 2)],
    fn ''dVc'' 3 8 [Do (Meth (V 2) ''Tg'' [G ''PCe'', K (JNum 1)]), Do (Call ''kjb'' [Dot (V 0) ''b'']), Do (Call ''kjb'' [Dot (V 0) ''a'']), Do (SetV 7 (K JNull)), Do (SetV 5 (Call ''Ztb'' [Dot (V 1) ''b'', K (JNum 0)])), Loop (And (Neg (V 7)) (Neg (Loose (Dot (V 5) ''b'') (Dot (Dot (V 5) ''d'') ''c'')))) [Do (SetV 9 (Call ''JD'' [Call ''lub'' [V 5], K (JNum 40)])), Do (And (Call ''Rdb'' [Call ''LD'' [Call ''oNb'' [V 9, Seq (Call ''_Wc'' []) (G ''YWc'')]]]) (SetV 7 (V 9)))] [], Do (SetV 8 (New ''dub'' [])), Do (Call ''Wtb'' [V 8, V 7, Dot (Dot (V 8) ''c'') ''b'', Dot (V 8) ''c'']), Do (Call ''cVc'' [V 0, V 8]), Do (SetV 10 (Call ''Ztb'' [Dot (V 1) ''b'', K (JNum 0)])), Loop (Neg (Loose (Dot (V 10) ''b'') (Dot (Dot (V 10) ''d'') ''c''))) [Do (SetV 9 (Call ''JD'' [Call ''lub'' [V 10], K (JNum 40)])), Do (SetV 6 (Call ''OD'' [Call ''oNb'' [V 9, Seq (Call ''_Wc'' []) (G ''LWc'')]])), Do (SetV 4 (Cond (Neg (Loose (Call ''fjb'' [Dot (V 0) ''b'', V 6]) (K JNull))) (Dot (Call ''JD'' [Call ''fjb'' [Dot (V 0) ''b'', V 6], K (JNum 15)]) ''a'') (K (JNum 0)))), Do (Call ''rNb'' [V 9, G ''GWc'', Call ''Cfb'' [V 4]]), Do (SetV 3 (Bin Plus (K (JNum 1)) (Cond (Neg (Loose (Call ''fjb'' [Dot (V 0) ''a'', V 6]) (K JNull))) (Dot (Call ''JD'' [Call ''fjb'' [Dot (V 0) ''a'', V 6], K (JNum 15)]) ''a'') (K (JNum 0))))), Do (Call ''rNb'' [V 9, G ''EWc'', Call ''Cfb'' [V 3]])] [], Do (Meth (V 2) ''Ug'' [])],
    fn ''chd'' 1 0 [Do (Call ''zdd'' [V 0, New ''Kcd'' [Call ''Vcd'' [Call ''Scd'' [Call ''Ucd'' [Call ''Tcd'' [New ''Xcd'' [], G ''PEe''], K (JStr ''ELK Box'')], K (JStr ''Algorithm for packing of unconnected boxes, i.e. graphs without edges.'')], New ''fhd'' []]]]), Do (Call ''xdd'' [V 0, G ''PEe'', G ''Jxe'', G ''$gd'']), Do (Call ''xdd'' [V 0, G ''PEe'', G ''Exe'', K (JNum 15)]), Do (Call ''xdd'' [V 0, G ''PEe'', G ''Dxe'', Call ''Cfb'' [K (JNum 0)]]), Do (Call ''xdd'' [V 0, G ''PEe'', G ''QEe'', Call ''BEd'' [G ''Ugd'']]), Do (Call ''xdd'' [V 0, G ''PEe'', G ''Qxe'', Call ''BEd'' [G ''Wgd'']]), Do (Call ''xdd'' [V 0, G ''PEe'', G ''Pxe'', Call ''BEd'' [G ''Ygd'']]), Do (Call ''xdd'' [V 0, G ''PEe'', G ''Gxe'', G ''OEe'']), Do (Call ''xdd'' [V 0, G ''PEe'', G ''Kxe'', Call ''BEd'' [G ''Vgd'']]), Do (Call ''xdd'' [V 0, G ''PEe'', G ''hye'', Call ''BEd'' [G ''Xgd'']]), Do (Call ''xdd'' [V 0, G ''PEe'', G ''REe'', Call ''BEd'' [G ''Sgd'']]), Do (Call ''xdd'' [V 0, G ''PEe'', G ''VBe'', Call ''BEd'' [G ''Tgd'']])]]"

definition code_5816_5819 :: "(string \<times> jfun) list" where
  "code_5816_5819 = [
    fn ''pHb'' 7 6 [Do (SetV 12 (New ''Ofd'' [])), Do (SetV 9 (Meth (V 1) ''Jc'' [])), Loop (Meth (V 9) ''Ob'' []) [Do (SetV 7 (Call ''JD'' [Meth (V 9) ''Pb'' [], K (JNum 838)])), Do (SetV 11 (New ''Kmb'' [Meth (V 7) ''Pf'' []])), Loop (Bin Lt (Dot (V 11) ''a'') (Dot (Dot (Dot (V 11) ''c'') ''c'') ''length'')) [Do (SetV 10 (Call ''JD'' [Call ''Imb'' [V 11], K (JNum 187)])), When (Same (Call ''XD'' [Meth (V 10) ''mf'' [Seq (Call ''vjd'' []) (G ''Khd'')]]) (Call ''XD'' [Seq (Call ''Zjd'' []) (G ''Yjd'')])) [Do (Call ''mHb'' [V 12, V 10, K (JBool False), V 3, V 4, V 5, V 6]), Do (Call ''Nfd'' [V 0, V 12])] []] []] [], Do (SetV 8 (Meth (V 2) ''Jc'' [])), Loop (Meth (V 8) ''Ob'' []) [Do (SetV 7 (Call ''JD'' [Meth (V 8) ''Pb'' [], K (JNum 838)])), Do (SetV 11 (New ''Kmb'' [Meth (V 7) ''Pf'' []])), Loop (Bin Lt (Dot (V 11) ''a'') (Dot (Dot (Dot (V 11) ''c'') ''c'') ''length'')) [Do (SetV 10 (Call ''JD'' [Call ''Imb'' [V 11], K (JNum 187)])), When (Same (Call ''XD'' [Meth (V 10) ''mf'' [Seq (Call ''vjd'' []) (G ''Khd'')]]) (Call ''XD'' [Seq (Call ''Zjd'' []) (G ''Xjd'')])) [Do (Call ''mHb'' [V 12, V 10, K (JBool True), V 3, V 4, V 5, V 6]), Do (Call ''Nfd'' [V 0, V 12])] []] []] []],
    fn ''ySc'' 3 7 [Do (SetV 6 (New ''uKd'' [Seq (And (Neg (Dot (V 0) ''a'')) (Put (V 0) ''a'' (New ''P3d'' [G ''T3'', V 0, K (JNum 10), K (JNum 11)]))) (Dot (V 0) ''a'')])), Loop (Neg (Loose (Dot (V 6) ''e'') (Meth (Dot (V 6) ''i'') ''gc'' []))) [Do (SetV 5 (Call ''JD'' [Call ''sKd'' [V 6], K (JNum 26)])), Do (SetV 4 (New ''Yr'' [Call ''Dr'' [Meth (Dot (Call ''SEd'' [V 5]) ''a'') ''Jc'' [], New ''Dl'' []]])), Loop (Call ''Wr'' [V 4]) [Do (SetV 3 (Call ''JD'' [Call ''Xr'' [V 4], K (JNum 85)])), When (And (And (Neg (Call ''Jwd'' [V 3])) (Neg (Call ''Jwd'' [V 3]))) (Neg (Call ''Kwd'' [V 3]))) [Do (SetV 8 (Call ''JD'' [Call ''Wd'' [Call ''ysb'' [Dot (V 2) ''f'', V 5]], K (JNum 40)])), Do (SetV 9 (Call ''JD'' [Call ''ejb'' [V 2, Call ''TEd'' [Call ''JD'' [Call ''fGd'' [Seq (And (Neg (Dot (V 3) ''c'')) (Put (V 3) ''c'' (New ''jhe'' [G ''O3'', V 3, K (JNum 5), K (JNum 8)]))) (Dot (V 3) ''c''), K (JNum 0)], K (JNum 84)]]], K (JNum 40)])), When (And (Neg (Neg (V 8))) (Neg (Neg (V 9)))) [Do (SetV 7 (New ''FTc'' [V 8, V 9])), Do (Call ''rNb'' [V 7, Seq (Call ''_Wc'' []) (G ''SWc''), V 3]), Do (Call ''mNb'' [V 7, V 3]), Do (Call ''Ttb'' [Dot (V 8) ''d'', V 7]), Do (Call ''Ttb'' [Dot (V 9) ''b'', V 7]), Do (Call ''Ttb'' [Dot (V 1) ''a'', V 7])] []] []] []] []],
    fn ''kLb'' 2 8 [Do (SetV 8 (Meth (Call ''JD'' [Call ''JD'' [Call ''Qc'' [Dot (V 0) ''r'', V 1], K (JNum 22)], K (JNum 83)]) ''Jc'' [])), Loop (Meth (V 8) ''Ob'' []) [Do (SetV 7 (Call ''JD'' [Meth (V 8) ''Pb'' [], K (JNum 115)])), Do (SetV 4 (Cond (Dot (V 7) ''c'') (Call ''sIb'' [Dot (V 7) ''c'']) (K (JNum 0)))), When (Bin Gt (V 4) (K (JNum 0))) [When (Dot (V 7) ''a'') [Do (SetV 9 (Dot (Meth (Dot (V 7) ''b'') ''Kf'' []) ''b'')), When (Bin Gt (V 4) (V 9)) [When (Or (Dot (V 0) ''v'') (Loose (Dot (Dot (Dot (Dot (V 7) ''c'') ''d'') ''c'') ''length'') (K (JNum 1)))) [Do (SetV 6 (Bin Divide (Bin Minus (V 4) (V 9)) (K (JNum 2)))), Do (Put (Dot (V 7) ''d'') ''d'' (V 6)), Do (Put (Dot (V 7) ''d'') ''a'' (V 6))] [Do (SetV 2 (Dot (Meth (Call ''JD'' [Call ''dmb'' [Dot (Dot (V 7) ''c'') ''d'', K (JNum 0)], K (JNum 187)]) ''Kf'' []) ''b'')), Do (SetV 3 (Bin Divide (Bin Minus (V 2) (V 9)) (K (JNum 2)))), Do (Put (Dot (V 7) ''d'') ''d'' (Meth (Dot (G ''$wnd'') ''Math'') ''max'' [K (JNum 0), V 3])), Do (Put (Dot (V 7) ''d'') ''a'' (Bin Minus (Bin Minus (V 4) (V 3)) (V 9)))]] []] [Do (Put (Dot (V 7) ''d'') ''a'' (Bin Plus (Dot (V 0) ''t'') (V 4)))]] [When (Call ''amd'' [Dot (V 0) ''u'']) [Do (SetV 5 (Call ''Ypd'' [Dot (V 7) ''b''])), Do (And (Bin Lt (Dot (V 5) ''d'') (K (JNum 0))) (Put (Dot (V 7) ''d'') ''d'' (Minus1 (Dot (V 5) ''d'')))), Do (And (Bin Gt (Bin Plus (Dot (V 5) ''d'') (Dot (V 5) ''a'')) (Dot (Meth (Dot (V 7) ''b'') ''Kf'' []) ''b'')) (Put (Dot (V 7) ''d'') ''a'' (Bin Minus (Bin Plus (Dot (V 5) ''d'') (Dot (V 5) ''a'')) (Dot (Meth (Dot (V 7) ''b'') ''Kf'' []) ''b''))))] []]] []],
    fn ''aPb'' 0 0 [Do (SetG ''aPb'' (G ''qdb'')), Do (SetG ''POb'' (New ''FEd'' [Seq (Call ''vjd'' []) (G ''Pid''), Call ''Cfb'' [K (JNum 1)]])), Do (SetG ''VOb'' (New ''FEd'' [G ''djd'', K (JNum 80)])), Do (SetG ''UOb'' (New ''FEd'' [G ''Yid'', K (JNum 5)])), Do (SetG ''BOb'' (New ''FEd'' [G ''xhd'', G ''Bxe''])), Do (SetG ''QOb'' (New ''FEd'' [G ''Qid'', Call ''Cfb'' [K (JNum 1)]])), Do (SetG ''TOb'' (New ''FEd'' [G ''Tid'', Seq (Call ''Qdb'' []) (K (JBool True))])), Do (SetG ''MOb'' (New ''hZb'' [K (JNum 50)])), Do (SetG ''LOb'' (New ''FEd'' [G ''rid'', G ''MOb''])), Do (SetG ''DOb'' (G ''Whd'')), Do (SetG ''NOb'' (G ''Fid'')), Do (SetG ''COb'' (New ''FEd'' [G ''Jhd'', K (JBool False)])), Do (SetG ''KOb'' (G ''qid'')), Do (SetG ''IOb'' (G ''kid'')), Do (SetG ''JOb'' (G ''nid'')), Do (SetG ''HOb'' (G ''iid'')), Do (SetG ''GOb'' (G ''gid'')), Do (SetG ''OOb'' (G ''Jid'')), Do (SetG ''FOb'' (Seq (Call ''qOb'' []) (G ''jOb''))), Do (SetG ''WOb'' (G ''oOb'')), Do (SetG ''EOb'' (G ''iOb'')), Do (SetG ''ROb'' (G ''lOb'')), Do (SetG ''SOb'' (G ''nOb'')), Do (SetG ''ZOb'' (G ''kjd'')), Do (SetG ''_Ob'' (G ''ojd'')), Do (SetG ''YOb'' (G ''jjd'')), Do (SetG ''XOb'' (G ''ijd'')), Do (SetG ''$Ob'' (Seq (Call ''Gnd'' []) (G ''Dnd''))), Do (New ''FEd'' [G ''ljd'', G ''$Ob''])]]"

definition code_5821_5835 :: "(string \<times> jfun) list" where
  "code_5821_5835 = [
    fn ''LKb'' 1 4 [Do (SetV 3 (Dot (V 0) ''o'')), Do (Call ''uKb'' []), When (Or (Meth (Dot (V 0) ''A'') ''dc'' []) (Call ''pb'' [Dot (V 0) ''A'', G ''tKb''])) [Do (SetV 4 (Dot (V 3) ''a''))] [Do (Cond (Dot (V 0) ''D'') (SetV 4 (Meth (Dot (G ''$wnd'') ''Math'') ''max'' [Dot (V 3) ''a'', Call ''CIb'' [Dot (V 0) ''f'']])) (SetV 4 (Call ''CIb'' [Dot (V 0) ''f'']))), When (And (Meth (Dot (V 0) ''A'') ''Gc'' [Seq (Call ''ind'' []) (G ''fnd'')]) (Neg (Meth (Dot (V 0) ''B'') ''Gc'' [Seq (Call ''xnd'' []) (G ''tnd'')]))) [Do (SetV 4 (Meth (Dot (G ''$wnd'') ''Math'') ''max'' [V 4, Call ''CIb'' [Call ''JD'' [Call ''brb'' [Dot (V 0) ''p'', Seq (Call ''Bmd'' []) (G ''hmd'')], K (JNum 253)]]])), Do (SetV 4 (Meth (Dot (G ''$wnd'') ''Math'') ''max'' [V 4, Call ''CIb'' [Call ''JD'' [Call ''brb'' [Dot (V 0) ''p'', G ''ymd''], K (JNum 253)]]]))] [], Do (SetV 1 (Call ''wKb'' [V 0])), Do (And (Neg (Neg (V 1))) (SetV 4 (Meth (Dot (G ''$wnd'') ''Math'') ''max'' [V 4, Dot (V 1) ''a''])))], Do (Cond (Call ''Rdb'' [Call ''LD'' [Meth (Meth (Dot (V 0) ''e'') ''Rf'' []) ''mf'' [Seq (Call ''vjd'' []) (G ''kid'')]]]) (Put (V 3) ''a'' (Meth (Dot (G ''$wnd'') ''Math'') ''max'' [Dot (V 3) ''a'', V 4])) (Put (V 3) ''a'' (V 4))), Do (SetV 2 (Dot (Dot (V 0) ''f'') ''i'')), Do (Put (V 2) ''c'' (K (JNum 0))), Do (Put (V 2) ''b'' (V 4)), Do (Call ''DIb'' [Dot (V 0) ''f''])],
    fn ''QMb'' 2 4 [Do (SetV 3 (Meth (Dot (G ''$wnd'') ''Math'') ''min'' [Meth (Dot (G ''$wnd'') ''Math'') ''abs'' [Bin Minus (Dot (V 0) ''c'') (Bin Plus (Dot (V 1) ''c'') (Dot (V 1) ''b''))], Meth (Dot (G ''$wnd'') ''Math'') ''abs'' [Bin Minus (Bin Plus (Dot (V 0) ''c'') (Dot (V 0) ''b'')) (Dot (V 1) ''c'')]])), Do (SetV 5 (Meth (Dot (G ''$wnd'') ''Math'') ''min'' [Meth (Dot (G ''$wnd'') ''Math'') ''abs'' [Bin Minus (Dot (V 0) ''d'') (Bin Plus (Dot (V 1) ''d'') (Dot (V 1) ''a''))], Meth (Dot (G ''$wnd'') ''Math'') ''abs'' [Bin Minus (Bin Plus (Dot (V 0) ''d'') (Dot (V 0) ''a'')) (Dot (V 1) ''d'')]])), Do (SetV 2 (Meth (Dot (G ''$wnd'') ''Math'') ''abs'' [Bin Minus (Bin Plus (Dot (V 0) ''c'') (Bin Divide (Dot (V 0) ''b'') (K (JNum 2)))) (Bin Plus (Dot (V 1) ''c'') (Bin Divide (Dot (V 1) ''b'') (K (JNum 2))))])), When (Bin Gt (V 2) (Bin Plus (Bin Divide (Dot (V 0) ''b'') (K (JNum 2))) (Bin Divide (Dot (V 1) ''b'') (K (JNum 2))))) [Ret (K (JNum 1))] [], Do (SetV 4 (Meth (Dot (G ''$wnd'') ''Math'') ''abs'' [Bin Minus (Bin Plus (Dot (V 0) ''d'') (Bin Divide (Dot (V 0) ''a'') (K (JNum 2)))) (Bin Plus (Dot (V 1) ''d'') (Bin Divide (Dot (V 1) ''a'') (K (JNum 2))))])), When (Bin Gt (V 4) (Bin Plus (Bin Divide (Dot (V 0) ''a'') (K (JNum 2))) (Bin Divide (Dot (V 1) ''a'') (K (JNum 2))))) [Ret (K (JNum 1))] [], When (And (Loose (V 2) (K (JNum 0))) (Loose (V 4) (K (JNum 0)))) [Ret (K (JNum 0))] [], When (Loose (V 2) (K (JNum 0))) [Ret (Bin Plus (Bin Divide (V 5) (V 4)) (K (JNum 1)))] [], When (Loose (V 4) (K (JNum 0))) [Ret (Bin Plus (Bin Divide (V 3) (V 2)) (K (JNum 1)))] [], Ret (Bin Plus (Meth (Dot (G ''$wnd'') ''Math'') ''min'' [Bin Divide (V 3) (V 2), Bin Divide (V 5) (V 4)]) (K (JNum 1)))],
    fn ''SPb'' 2 7 [Do (SetV 5 (K (JNum 0))), Do (SetV 7 (K (JNum 0))), Do (SetV 8 (K (JNum 0))), Do (SetV 4 (New ''Kmb'' [Dot (Dot (V 0) ''f'') ''e''])), Loop (Bin Lt (Dot (V 4) ''a'') (Dot (Dot (Dot (V 4) ''c'') ''c'') ''length'')) [Do (SetV 3 (Call ''JD'' [Call ''Imb'' [V 4], K (JNum 155)])), When (Loose (V 1) (V 3)) [Continue] [], Do (SetV 6 (Idx (Idx (Dot (V 0) ''i'') (Dot (V 1) ''a'')) (Dot (V 3) ''a''))), Do (SetV 5 (Bin Plus (V 5) (V 6))), Do (SetV 2 (Call ''Yfd'' [Dot (V 1) ''d'', Dot (V 3) ''d''])), Do (And (And (Bin Gt (V 2) (K (JNum 0))) (Neg (Loose (Dot (V 0) ''d'') (Seq (Call ''cQb'' []) (G ''bQb''))))) (SetV 7 (Bin Plus (V 7) (Bin Times (V 6) (Bin Plus (Dot (Dot (V 3) ''d'') ''a'') (Bin Divide (Bin Times (Idx (Idx (Dot (V 0) ''a'') (Dot (V 1) ''a'')) (Dot (V 3) ''a'')) (Bin Minus (Dot (Dot (V 1) ''d'') ''a'') (Dot (Dot (V 3) ''d'') ''a''))) (V 2))))))), Do (And (And (Bin Gt (V 2) (K (JNum 0))) (Neg (Loose (Dot (V 0) ''d'') (Seq (Call ''cQb'' []) (G ''_Pb''))))) (SetV 8 (Bin Plus (V 8) (Bin Times (V 6) (Bin Plus (Dot (Dot (V 3) ''d'') ''b'') (Bin Divide (Bin Times (Idx (Idx (Dot (V 0) ''a'') (Dot (V 1) ''a'')) (Dot (V 3) ''a'')) (Bin Minus (Dot (Dot (V 1) ''d'') ''b'') (Dot (Dot (V 3) ''d'') ''b''))) (V 2)))))))] [], Switch (Dot (Dot (V 0) ''d'') ''g'') [(Some (JNum 1), [Ret (New ''lgd'' [Bin Divide (V 7) (V 5), Dot (Dot (V 1) ''d'') ''b''])]), (Some (JNum 2), [Ret (New ''lgd'' [Dot (Dot (V 1) ''d'') ''a'', Bin Divide (V 8) (V 5)])]), (None, [Ret (New ''lgd'' [Bin Divide (V 7) (V 5), Bin Divide (V 8) (V 5)])])]],
    fn ''Zpd'' 1 6 [Do (SetV 2 (Bin Plus (Dot (Seq (And (Neg (Dot (V 0) ''a'')) (Put (V 0) ''a'' (New ''iYd'' [G ''N3'', V 0, K (JNum 5)]))) (Dot (V 0) ''a'')) ''i'') (K (JNum 2)))), Do (SetV 6 (New ''mmb'' [V 2])), Do (Call ''_lb'' [V 6, New ''lgd'' [Dot (V 0) ''j'', Dot (V 0) ''k'']]), Do (Call ''YBb'' [New ''jCb'' [K JNull, Seq (And (Neg (Dot (V 0) ''a'')) (Put (V 0) ''a'' (New ''iYd'' [G ''N3'', V 0, K (JNum 5)]))) (New ''Zvb'' [Dot (V 0) ''a'', K (JNum 16)])], New ''uqd'' [V 6]]), Do (Call ''_lb'' [V 6, New ''lgd'' [Dot (V 0) ''b'', Dot (V 0) ''c'']]), Do (SetV 1 (K (JNum 1))), Loop (Bin Lt (V 1) (Bin Minus (Dot (Dot (V 6) ''c'') ''length'') (K (JNum 1)))) [Do (SetV 3 (Seq (Call ''MDb'' [Bin Minus (V 1) (K (JNum 1)), Dot (Dot (V 6) ''c'') ''length'']) (Call ''JD'' [Idx (Dot (V 6) ''c'') (Bin Minus (V 1) (K (JNum 1))), K (JNum 8)]))), Do (SetV 4 (Seq (Call ''MDb'' [V 1, Dot (Dot (V 6) ''c'') ''length'']) (Call ''JD'' [Idx (Dot (V 6) ''c'') (V 1), K (JNum 8)]))), Do (SetV 5 (Seq (Call ''MDb'' [Bin Plus (V 1) (K (JNum 1)), Dot (Dot (V 6) ''c'') ''length'']) (Call ''JD'' [Idx (Dot (V 6) ''c'') (Bin Plus (V 1) (K (JNum 1))), K (JNum 8)]))), Do (Cond (Or (And (Loose (Dot (V 3) ''a'') (Dot (V 4) ''a'')) (Loose (Dot (V 4) ''a'') (Dot (V 5) ''a''))) (And (Loose (Dot (V 3) ''b'') (Dot (V 4) ''b'')) (Loose (Dot (V 4) ''b'') (Dot (V 5) ''b'')))) (Call ''fmb'' [V 6, V 1]) (SetV 1 (Bin Minus (V 1) (K (JNum (- 1))))))] [], Ret (V 6)],
    fn ''zac'' 2 5 [Do (Call ''sac'' []), Do (SetV 6 (Call ''JD'' [Call ''oNb'' [Dot (V 0) ''i'', Seq (Call ''nyc'' []) (G ''qxc'')], K (JNum 102)])), Do (SetV 5 (Bin Minus (Dot (Dot (V 0) ''j'') ''g'') (Dot (Dot (V 1) ''j'') ''g''))), When (Or (Neg (Loose (V 5) (K (JNum 0)))) (Neg (Or (Or (Loose (V 6) (Seq (Call ''Mld'' []) (G ''Gld''))) (Loose (V 6) (G ''Ild''))) (Loose (V 6) (G ''Hld''))))) [Ret (K (JNum 0))] [], When (Loose (V 6) (Seq (Call ''Mld'' []) (G ''Gld''))) [Do (SetV 2 (Call ''JD'' [Call ''oNb'' [V 0, G ''rxc''], K (JNum 15)])), Do (SetV 3 (Call ''JD'' [Call ''oNb'' [V 1, G ''rxc''], K (JNum 15)])), When (And (Neg (Neg (V 2))) (Neg (Neg (V 3)))) [Do (SetV 4 (Bin Minus (Dot (V 2) ''a'') (Dot (V 3) ''a''))), When (Neg (Loose (V 4) (K (JNum 0)))) [Ret (V 4)] []] []] [], Switch (Dot (Dot (V 0) ''j'') ''g'') [(Some (JNum 1), [Ret (Call ''$eb'' [Dot (Dot (V 0) ''n'') ''a'', Dot (Dot (V 1) ''n'') ''a''])]), (Some (JNum 2), [Ret (Call ''$eb'' [Dot (Dot (V 0) ''n'') ''b'', Dot (Dot (V 1) ''n'') ''b''])]), (Some (JNum 3), [Ret (Call ''$eb'' [Dot (Dot (V 1) ''n'') ''a'', Dot (Dot (V 0) ''n'') ''a''])]), (Some (JNum 4), [Ret (Call ''$eb'' [Dot (Dot (V 1) ''n'') ''b'', Dot (Dot (V 0) ''n'') ''b''])]), (None, [Raise (Call ''Lcb'' [New ''nfb'' [G ''zye'']])])]],
    fn ''Dec'' 2 7 [Do (SetV 2 (Call ''FEb'' [Call ''IEb'' [Call ''GEb'' [Call ''HEb'' [New ''JEb'' [], V 1], New ''Qfd'' [Dot (V 1) ''e'']], G ''lec''], Dot (V 0) ''a''])), Do (Or (Loose (Dot (Dot (Dot (V 1) ''j'') ''c'') ''length'') (K (JNum 0))) (Call ''xEb'' [Dot (Call ''JD'' [Call ''dmb'' [Dot (V 1) ''j'', K (JNum 0)], K (JNum 60)]) ''a'', V 2])), Do (SetV 8 (New ''vFb'' [])), Do (Call ''hjb'' [Dot (V 0) ''e'', V 2, V 8]), Do (SetV 6 (New ''hsb'' [])), Do (SetV 7 (New ''hsb'' [])), Do (SetV 5 (New ''Kmb'' [Dot (V 1) ''k''])), Loop (Bin Lt (Dot (V 5) ''a'') (Dot (Dot (Dot (V 5) ''c'') ''c'') ''length'')) [Do (SetV 4 (Call ''JD'' [Call ''Imb'' [V 5], K (JNum 17)])), Do (Call ''esb'' [V 6, Dot (V 4) ''c'']), Do (Call ''esb'' [V 7, Dot (V 4) ''d''])] [], Do (SetV 3 (Bin Minus (Meth (Dot (V 6) ''a'') ''gc'' []) (Meth (Dot (V 7) ''a'') ''gc'' []))), When (Bin Lt (V 3) (K (JNum 0))) [Do (Call ''tFb'' [V 8, K (JBool True), Seq (Call ''Djd'' []) (G ''zjd'')]), Do (Call ''tFb'' [V 8, K (JBool False), G ''Ajd''])] [When (Bin Gt (V 3) (K (JNum 0))) [Do (Call ''tFb'' [V 8, K (JBool False), Seq (Call ''Djd'' []) (G ''zjd'')]), Do (Call ''tFb'' [V 8, K (JBool True), G ''Ajd''])] []], Do (Call ''cmb'' [Dot (V 1) ''g'', New ''Pfc'' [V 0, V 2]]), Do (Call ''hjb'' [Dot (V 0) ''g'', V 1, V 2])],
    fn ''o4c'' 0 0 [Do (SetG ''o4c'' (G ''qdb'')), Do (SetG ''f4c'' (New ''EEd'' [G ''ODe'', Seq (Call ''Qdb'' []) (K (JBool False))])), Do (Call ''Cfb'' [K (JNum (- 1))]), Do (SetG ''Z3c'' (New ''EEd'' [G ''PDe'', Call ''Cfb'' [K (JNum (- 1))]])), Do (Call ''Cfb'' [K (JNum (- 1))]), Do (SetG ''$3c'' (New ''EEd'' [G ''QDe'', Call ''Cfb'' [K (JNum (- 1))]])), Do (SetG ''_3c'' (New ''EEd'' [G ''RDe'', K (JBool False)])), Do (SetG ''a4c'' (New ''EEd'' [G ''SDe'', K (JBool False)])), Do (SetG ''m4c'' (Seq (Call ''u5c'' []) (G ''s5c''))), Do (SetG ''l4c'' (New ''EEd'' [G ''TDe'', G ''m4c''])), Do (SetG ''n4c'' (New ''EEd'' [G ''UDe'', K (JNum (- 1))])), Do (SetG ''k4c'' (Seq (Call ''T3c'' []) (G ''S3c''))), Do (SetG ''j4c'' (New ''EEd'' [G ''VDe'', G ''k4c''])), Do (SetG ''i4c'' (New ''EEd'' [G ''WDe'', K (JBool True)])), Do (SetG ''e4c'' (Seq (Call ''Y5c'' []) (G ''V5c''))), Do (SetG ''d4c'' (New ''EEd'' [G ''XDe'', G ''e4c''])), Do (SetG ''c4c'' (New ''EEd'' [G ''YDe'', K (JBool False)])), Do (Call ''Cfb'' [K (JNum 1)]), Do (SetG ''b4c'' (New ''EEd'' [G ''ZDe'', Call ''Cfb'' [K (JNum 1)]])), Do (SetG ''h4c'' (Seq (Call ''x6c'' []) (G ''v6c''))), Do (SetG ''g4c'' (New ''EEd'' [G ''$De'', G ''h4c'']))],
    fn ''cgb'' 0 1 [Do (SetG ''cgb'' (G ''qdb'')), Do (SetG ''$fb'' (Call ''WC'' [Call ''OC'' [G ''cE'', K (JNum 1)], G ''bve'', K (JNum 30), K (JNum 15), NewArr [K (JNum (- 1)), K (JNum (- 1)), K (JNum 30), K (JNum 19), K (JNum 15), K (JNum 13), K (JNum 11), K (JNum 11), K (JNum 10), K (JNum 9), K (JNum 9), K (JNum 8), K (JNum 8), K (JNum 8), K (JNum 8), K (JNum 7), K (JNum 7), K (JNum 7), K (JNum 7), K (JNum 7), K (JNum 7), K (JNum 7), K (JNum 6), K (JNum 6), K (JNum 6), K (JNum 6), K (JNum 6), K (JNum 6), K (JNum 6), K (JNum 6), K (JNum 6), K (JNum 6), K (JNum 6), K (JNum 6), K (JNum 6), K (JNum 6), K (JNum 5)]])), Do (SetG ''_fb'' (Call ''SC'' [G ''cE'', G ''bve'', K (JNum 30), K (JNum 37), K (JNum 15), K (JNum 1)])), Do (SetG ''agb'' (Call ''WC'' [Call ''OC'' [G ''cE'', K (JNum 1)], G ''bve'', K (JNum 30), K (JNum 15), NewArr [K (JNum (- 1)), K (JNum (- 1)), K (JNum 63), K (JNum 40), K (JNum 32), K (JNum 28), K (JNum 25), K (JNum 23), K (JNum 21), K (JNum 20), K (JNum 19), K (JNum 19), K (JNum 18), K (JNum 18), K (JNum 17), K (JNum 17), K (JNum 16), K (JNum 16), K (JNum 16), K (JNum 15), K (JNum 15), K (JNum 15), K (JNum 15), K (JNum 14), K (JNum 14), K (JNum 14), K (JNum 14), K (JNum 14), K (JNum 14), K (JNum 13), K (JNum 13), K (JNum 13), K (JNum 13), K (JNum 13), K (JNum 13), K (JNum 13), K (JNum 13)]])), Do (SetG ''bgb'' (Call ''SC'' [G ''dE'', G ''Fve'', K (JNum 30), K (JNum 37), K (JNum 14), K (JNum 1)])), Do (SetV 0 (K (JNum 2))), Loop (Bin Le (V 0) (K (JNum 36))) [Do (PutIdx (G ''_fb'') (V 0) (Call ''YD'' [Meth (Dot (G ''$wnd'') ''Math'') ''pow'' [V 0, Idx (G ''$fb'') (V 0)]])), Do (PutIdx (G ''bgb'') (V 0) (Call ''Qcb'' [G ''fue'', Idx (G ''_fb'') (V 0)]))] [Do (Bin Minus (SetV 0 (Bin Minus (V 0) (K (JNum (- 1))))) (K (JNum 1)))]],
    fn ''Vpd'' 1 1 [When (Neg (Loose (Dot (Seq (And (Neg (Dot (V 0) ''a'')) (Put (V 0) ''a'' (New ''P3d'' [G ''P3'', V 0, K (JNum 6), K (JNum 6)]))) (Dot (V 0) ''a'')) ''i'') (K (JNum 1)))) [Raise (Call ''Lcb'' [New ''kfb'' [Bin Plus (G ''DFe'') (Dot (Seq (And (Neg (Dot (V 0) ''a'')) (Put (V 0) ''a'' (New ''P3d'' [G ''P3'', V 0, K (JNum 6), K (JNum 6)]))) (Dot (V 0) ''a'')) ''i'')]])] [], Do (SetV 1 (New ''ygd'' [])), Do (And (Neg (Neg (Call ''UEd'' [Call ''JD'' [Call ''fGd'' [Seq (And (Neg (Dot (V 0) ''b'')) (Put (V 0) ''b'' (New ''jhe'' [G ''O3'', V 0, K (JNum 4), K (JNum 7)]))) (Dot (V 0) ''b''), K (JNum 0)], K (JNum 84)]]))) (Call ''xe'' [V 1, Call ''Wpd'' [V 0, Call ''UEd'' [Call ''JD'' [Call ''fGd'' [Seq (And (Neg (Dot (V 0) ''b'')) (Put (V 0) ''b'' (New ''jhe'' [G ''O3'', V 0, K (JNum 4), K (JNum 7)]))) (Dot (V 0) ''b''), K (JNum 0)], K (JNum 84)]], K (JBool False)]])), Do (And (Neg (Neg (Call ''UEd'' [Call ''JD'' [Call ''fGd'' [Seq (And (Neg (Dot (V 0) ''c'')) (Put (V 0) ''c'' (New ''jhe'' [G ''O3'', V 0, K (JNum 5), K (JNum 8)]))) (Dot (V 0) ''c''), K (JNum 0)], K (JNum 84)]]))) (Call ''xe'' [V 1, Call ''Wpd'' [V 0, Call ''UEd'' [Call ''JD'' [Call ''fGd'' [Seq (And (Neg (Dot (V 0) ''c'')) (Put (V 0) ''c'' (New ''jhe'' [G ''O3'', V 0, K (JNum 5), K (JNum 8)]))) (Dot (V 0) ''c''), K (JNum 0)], K (JNum 84)]], K (JBool True)]])), Ret (V 1)],
    fn ''iOc'' 2 5 [Do (Cond (Dot (V 1) ''d'') (SetV 4 (Cond (Loose (Dot (Dot (V 0) ''a'') ''c'') (Seq (Call ''fNc'' []) (G ''eNc''))) (Call ''EYb'' [Dot (V 1) ''b'']) (Call ''HYb'' [Dot (V 1) ''b'']))) (SetV 4 (Cond (Loose (Dot (Dot (V 0) ''a'') ''c'') (Seq (Call ''fNc'' []) (G ''dNc''))) (Call ''EYb'' [Dot (V 1) ''b'']) (Call ''HYb'' [Dot (V 1) ''b''])))), Do (SetV 5 (K (JBool False))), Do (SetV 3 (New ''Yr'' [Call ''Dr'' [Meth (Dot (V 4) ''a'') ''Jc'' [], New ''Dl'' []]])), Loop (Call ''Wr'' [V 3]) [Do (SetV 2 (Call ''JD'' [Call ''Xr'' [V 3], K (JNum 17)])), Do (SetV 6 (Call ''Rdb'' [Idx (Dot (Dot (V 0) ''a'') ''f'') (Dot (Idx (Dot (Dot (V 0) ''a'') ''g'') (Dot (Dot (V 1) ''b'') ''p'')) ''p'')])), When (And (And (Neg (V 6)) (Neg (Call ''AWb'' [V 2]))) (Loose (Dot (Dot (Dot (V 2) ''c'') ''i'') ''c'') (Dot (Dot (Dot (V 2) ''d'') ''i'') ''c''))) [Continue] [], When (Or (Call ''Rdb'' [Idx (Dot (Dot (V 0) ''a'') ''n'') (Dot (Idx (Dot (Dot (V 0) ''a'') ''g'') (Dot (Dot (V 1) ''b'') ''p'')) ''p'')]) (Call ''Rdb'' [Idx (Dot (Dot (V 0) ''a'') ''n'') (Dot (Idx (Dot (Dot (V 0) ''a'') ''g'') (Dot (Dot (V 1) ''b'') ''p'')) ''p'')])) [Continue] [], Do (SetV 5 (K (JBool True))), When (Call ''fsb'' [Dot (V 0) ''b'', Idx (Dot (Dot (V 0) ''a'') ''g'') (Dot (Call ''aOc'' [V 2, Dot (V 1) ''b'']) ''p'')]) [Do (Put (V 1) ''c'' (K (JBool True))), Do (Put (V 1) ''a'' (V 2)), Ret (V 1)] []] [], Do (Put (V 1) ''c'' (V 5)), Do (Put (V 1) ''a'' (K JNull)), Ret (V 1)],
    fn ''fId'' 3 7 [Do (SetV 3 (Meth (V 2) ''gc'' [])), When (Loose (V 3) (K (JNum 0))) [Ret (K (JBool False))] [When (Meth (V 0) ''Nj'' []) [Do (SetV 8 (Meth (V 0) ''Oj'' [])), Do (Call ''oHd'' [V 0, V 1, V 2]), Do (SetV 6 (Cond (Loose (V 3) (K (JNum 1))) (Meth (V 0) ''Gj'' [K (JNum 3), K JNull, Meth (Meth (V 2) ''Jc'' []) ''Pb'' [], V 1, V 8]) (Meth (V 0) ''Gj'' [K (JNum 5), K JNull, V 2, V 1, V 8]))), When (Meth (V 0) ''Kj'' []) [Do (SetV 7 (Cond (Bin Lt (V 3) (K (JNum 100))) (K JNull) (New ''xJd'' [V 3]))), Do (SetV 5 (Bin Plus (V 1) (V 3))), Do (SetV 4 (V 1)), Loop (Bin Lt (V 4) (V 5)) [Do (SetV 9 (Meth (V 0) ''vj'' [V 4])), Do (SetV 7 (Meth (V 0) ''Lj'' [V 9, V 7])), Do (SetV 7 (V 7))] [Do (SetV 4 (Bin Minus (V 4) (K (JNum (- 1)))))], When (Neg (V 7)) [Do (Meth (V 0) ''Hj'' [V 6])] [Do (Meth (V 7) ''lj'' [V 6]), Do (Meth (V 7) ''mj'' [])]] [Do (Meth (V 0) ''Hj'' [V 6])]] [Do (Call ''oHd'' [V 0, V 1, V 2]), When (Meth (V 0) ''Kj'' []) [Do (SetV 7 (Cond (Bin Lt (V 3) (K (JNum 100))) (K JNull) (New ''xJd'' [V 3]))), Do (SetV 5 (Bin Plus (V 1) (V 3))), Do (SetV 4 (V 1)), Loop (Bin Lt (V 4) (V 5)) [Do (SetV 7 (Meth (V 0) ''Lj'' [Meth (V 0) ''vj'' [V 4], V 7]))] [Do (SetV 4 (Bin Minus (V 4) (K (JNum (- 1)))))], Do (And (Neg (Neg (V 7))) (Meth (V 7) ''mj'' []))] []], Ret (K (JBool True))]],
    fn ''lId'' 3 5 [When (Meth (V 0) ''Nj'' []) [Do (SetV 4 (K JNull)), Do (SetV 5 (Meth (V 0) ''Oj'' [])), Do (SetV 3 (Meth (V 0) ''Gj'' [K (JNum 1), SetV 7 (Seq (SetV 6 (Meth (V 0) ''Bj'' [V 1, Meth (V 0) ''Xi'' [V 1, V 2]])) (V 6)), V 2, V 1, V 5])), When (And (Meth (V 0) ''Kj'' []) (Neg (Cond (And (Meth (V 0) ''Wi'' []) (Neg (Neg (V 7)))) (Call ''pb'' [V 7, V 2]) (Same (Call ''XD'' [V 7]) (Call ''XD'' [V 2]))))) [Do (And (Neg (Neg (V 7))) (SetV 4 (Meth (V 0) ''Mj'' [V 7, V 4]))), Do (SetV 4 (Meth (V 0) ''Lj'' [V 2, V 4])), When (Neg (V 4)) [Do (Meth (V 0) ''Hj'' [V 3])] [Do (Meth (V 4) ''lj'' [V 3]), Do (Meth (V 4) ''mj'' [])]] [When (Neg (V 4)) [Do (Meth (V 0) ''Hj'' [V 3])] [Do (Meth (V 4) ''lj'' [V 3]), Do (Meth (V 4) ''mj'' [])]], Ret (V 7)] [Do (SetV 7 (Seq (SetV 6 (Meth (V 0) ''Bj'' [V 1, Meth (V 0) ''Xi'' [V 1, V 2]])) (V 6))), When (And (Meth (V 0) ''Kj'' []) (Neg (Cond (And (Meth (V 0) ''Wi'' []) (Neg (Neg (V 7)))) (Call ''pb'' [V 7, V 2]) (Same (Call ''XD'' [V 7]) (Call ''XD'' [V 2]))))) [Do (SetV 4 (K JNull)), Do (And (Neg (Neg (V 7))) (SetV 4 (Meth (V 0) ''Mj'' [V 7, K JNull]))), Do (SetV 4 (Meth (V 0) ''Lj'' [V 2, V 4])), Do (And (Neg (Neg (V 4))) (Meth (V 4) ''mj'' []))] [], Ret (V 7)]],
    fn ''RNb'' 2 9 [Do (Put (V 0) ''e'' (V 1)), Do (Put (V 0) ''f'' (Call ''JD'' [Call ''oNb'' [V 1, Seq (Call ''lPb'' []) (G ''kPb'')], K (JNum 234)])), Do (Call ''INb'' [V 1]), Do (Put (V 0) ''d'' (Meth (Dot (G ''$wnd'') ''Math'') ''max'' [Bin Plus (Bin Times (Dot (Dot (Dot (V 1) ''e'') ''c'') ''length'') (K (JNum 16))) (Dot (Dot (Dot (V 1) ''c'') ''c'') ''length''), K (JNum 256)])), When (Neg (Call ''Rdb'' [Call ''LD'' [Call ''oNb'' [V 1, Seq (Call ''aPb'' []) (G ''DOb'')]]])) [Do (SetV 10 (Dot (Dot (Dot (Dot (V 0) ''e'') ''e'') ''c'') ''length'')), Do (SetV 8 (New ''Kmb'' [Dot (V 1) ''e''])), Loop (Bin Lt (Dot (V 8) ''a'') (Dot (Dot (Dot (V 8) ''c'') ''c'') ''length'')) [Do (SetV 7 (Call ''JD'' [Call ''Imb'' [V 8], K (JNum 155)])), Do (SetV 9 (Dot (V 7) ''d'')), Do (Put (V 9) ''a'' (Bin Times (Call ''Pvb'' [Dot (V 0) ''f'']) (V 10))), Do (Put (V 9) ''b'' (Bin Times (Call ''Pvb'' [Dot (V 0) ''f'']) (V 10)))] []] [], Do (SetV 2 (Dot (V 1) ''b'')), Do (SetV 5 (New ''Kmb'' [Dot (V 1) ''c''])), Loop (Bin Lt (Dot (V 5) ''a'') (Dot (Dot (Dot (V 5) ''c'') ''c'') ''length'')) [Do (SetV 4 (Call ''JD'' [Call ''Imb'' [V 5], K (JNum 291)])), Do (SetV 3 (Dot (Call ''JD'' [Call ''oNb'' [V 4, G ''SOb''], K (JNum 15)]) ''a'')), When (Bin Gt (V 3) (K (JNum 0))) [Do (SetV 6 (K (JNum 0))), Loop (Bin Lt (V 6) (V 3)) [Do (Call ''_lb'' [V 2, New ''yNb'' [V 4]])] [Do (Bin Minus (SetV 6 (Bin Minus (V 6) (K (JNum (- 1))))) (K (JNum 1)))], Do (Call ''ANb'' [V 4])] []] []],
    fn ''i4b'' 2 10 [Do (Meth (V 1) ''Tg'' [K (JStr ''Hypernodes processing''), K (JNum 1)]), Do (SetV 4 (New ''Kmb'' [Dot (V 0) ''b''])), Loop (Bin Lt (Dot (V 4) ''a'') (Dot (Dot (Dot (V 4) ''c'') ''c'') ''length'')) [Do (SetV 3 (Call ''JD'' [Call ''Imb'' [V 4], K (JNum 25)])), Do (SetV 7 (New ''Kmb'' [Dot (V 3) ''a''])), Loop (Bin Lt (Dot (V 7) ''a'') (Dot (Dot (Dot (V 7) ''c'') ''c'') ''length'')) [Do (SetV 6 (Call ''JD'' [Call ''Imb'' [V 7], K (JNum 9)])), When (And (Call ''Rdb'' [Call ''LD'' [Call ''oNb'' [V 6, Seq (Call ''nyc'' []) (G ''wwc'')]]]) (Bin Le (Dot (Dot (Dot (V 6) ''j'') ''c'') ''length'') (K (JNum 2)))) [Do (SetV 11 (K (JNum 0))), Do (SetV 10 (K (JNum 0))), Do (SetV 2 (K (JNum 0))), Do (SetV 5 (K (JNum 0))), Do (SetV 9 (New ''Kmb'' [Dot (V 6) ''j''])), Loop (Bin Lt (Dot (V 9) ''a'') (Dot (Dot (Dot (V 9) ''c'') ''c'') ''length'')) [Do (SetV 8 (Call ''JD'' [Call ''Imb'' [V 9], K (JNum 12)])), Switch (Dot (Dot (V 8) ''j'') ''g'') [(Some (JNum 1), [Do (SetV 11 (Bin Minus (V 11) (K (JNum (- 1))))), Break]), (Some (JNum 2), [Do (SetV 10 (Bin Minus (V 10) (K (JNum (- 1))))), Break]), (Some (JNum 3), [Do (SetV 2 (Bin Minus (V 2) (K (JNum (- 1))))), Break]), (Some (JNum 4), [Do (SetV 5 (Bin Minus (V 5) (K (JNum (- 1)))))])]] [], Do (And (And (Loose (V 11) (K (JNum 0))) (Loose (V 2) (K (JNum 0)))) (Call ''h4b'' [V 0, V 6, Bin Le (V 5) (V 10)]))] []] []] [], Do (Meth (V 1) ''Ug'' [])],
    fn ''cHd'' 4 11 [Do (SetV 12 (New ''GC'' [Meth (V 0) ''Yg'' []])), Do (Call ''kC'' [V 1, G ''RGe'', V 12]), When (And (V 2) (Neg (Meth (Dot (Meth (V 0) ''Wg'' []) ''a'') ''dc'' []))) [Do (SetV 10 (New ''EB'' [])), Do (Call ''kC'' [V 1, K (JStr ''logs''), V 10]), Do (SetV 7 (K (JNum 0))), Do (SetV 14 (New ''Yob'' [Meth (Dot (Meth (V 0) ''Wg'' []) ''b'') ''Jc'' []])), Loop (Meth (Dot (V 14) ''b'') ''Ob'' []) [Do (SetV 13 (Call ''OD'' [Meth (Dot (V 14) ''b'') ''Pb'' []])), Do (SetV 11 (New ''GC'' [V 13])), Do (Call ''BB'' [V 10, V 7]), Do (Call ''DB'' [V 10, V 7, V 11]), Do (SetV 7 (Bin Minus (V 7) (K (JNum (- 1)))))] []] [], When (V 3) [Do (SetV 9 (New ''_B'' [Meth (V 0) ''Vg'' []])), Do (Call ''kC'' [V 1, K (JStr ''executionTime''), V 9])] [], When (Neg (Meth (Dot (Meth (V 0) ''Xg'' []) ''a'') ''dc'' [])) [Do (SetV 6 (New ''EB'' [])), Do (Call ''kC'' [V 1, G ''tGe'', V 6]), Do (SetV 7 (K (JNum 0))), Do (SetV 5 (New ''Yob'' [Meth (Dot (Meth (V 0) ''Xg'' []) ''b'') ''Jc'' []])), Loop (Meth (Dot (V 5) ''b'') ''Ob'' []) [Do (SetV 4 (Call ''JD'' [Meth (Dot (V 5) ''b'') ''Pb'' [], K (JNum 853)])), Do (SetV 8 (New ''mC'' [])), Do (Call ''BB'' [V 6, V 7]), Do (Call ''DB'' [V 6, V 7, V 8]), Do (Call ''cHd'' [V 4, V 8, V 2, V 3]), Do (SetV 7 (Bin Minus (V 7) (K (JNum (- 1)))))] []] []]]"

definition object_table24 :: "(string \<times> jfun) list" where
  "object_table24 = code_5762_5778 @ code_5779_5779 @ code_5781_5786 @ code_5788_5803 @ code_5804_5814 @ code_5816_5819 @ code_5821_5835"

text \<open>The names each table declares.\<close>

lemma names_5762_5778 [js_names]: "map fst code_5762_5778 = [
    ''$Bc'', ''oSc'', ''VSc'', ''eZc'', ''xnd'', ''cie'', ''PGb'', ''A3b'', ''K7b'', ''nEc'',
    ''QEc'', ''God'', ''uac'', ''Hee'', ''GGc'', ''COc'', ''dD'']"
  by (simp add: code_5762_5778_def fn_def)

lemma names_5779_5779 [js_names]: "map fst code_5779_5779 = [
    ''LEc'']"
  by (simp add: code_5779_5779_def fn_def)

lemma names_5781_5786 [js_names]: "map fst code_5781_5786 = [
    ''Zkc'', ''Bbd'', ''Rpe'', ''HUb'', ''Olc'', ''zSc'']"
  by (simp add: code_5781_5786_def fn_def)

lemma names_5788_5803 [js_names]: "map fst code_5788_5803 = [
    ''xhc'', ''UNc'', ''VNc'', ''R$b'', ''x_b'', ''qSc'', ''H2b'', ''xkc'', ''QGc'', ''Vsd'',
    ''wQd'', ''y9b'', ''yo'', ''bjb'', ''gLc'', ''F5c'']"
  by (simp add: code_5788_5803_def fn_def)

lemma names_5804_5814 [js_names]: "map fst code_5804_5814 = [
    ''K9b'', ''xxd'', ''xBd'', ''kVb'', ''XXb'', ''R0b'', ''KQc'', ''hWc'', ''yKc'', ''dVc'',
    ''chd'']"
  by (simp add: code_5804_5814_def fn_def)

lemma names_5816_5819 [js_names]: "map fst code_5816_5819 = [
    ''pHb'', ''ySc'', ''kLb'', ''aPb'']"
  by (simp add: code_5816_5819_def fn_def)

lemma names_5821_5835 [js_names]: "map fst code_5821_5835 = [
    ''LKb'', ''QMb'', ''SPb'', ''Zpd'', ''zac'', ''Dec'', ''o4c'', ''cgb'', ''Vpd'', ''iOc'',
    ''fId'', ''lId'', ''RNb'', ''i4b'', ''cHd'']"
  by (simp add: code_5821_5835_def fn_def)

end
