(* ===== verification/ObjectTable25.thy ===== *)
theory ObjectTable25
  imports ObjectCode
begin

text \<open>
  Functions of \<open>layout-worker.js\<close>, lines 5837 to 5905, in the order of the file, one per line:
  the algorithms of the layout engine, longer operations of the runtime's collections and of options,
  with their loops, \<open>switch\<close> and \<open>try\<close> statements. An entry has the name, the
  number of parameters, the number of further local variables and the body; parameters and locals
  are numbered from 0, the variable of a \<open>catch\<close> has a number of its own, \<open>x++\<close> is \<open>(x=x+1)-1\<close>. Lines
  with a construct outside \<open>jexp\<close> and \<open>jstm\<close> (closures, \<open>in\<close>, floating-point literals, host objects) are
  left out.
\<close>

definition code_5837_5850 :: "(string \<times> jfun) list" where
  "code_5837_5850 = [
    fn ''Z3b'' 3 9 [Do (Meth (V 2) ''Tg'' [K (JStr ''Hyperedge merging''), K (JNum 1)]), Do (Call ''X3b'' [V 0, V 1]), Do (SetV 8 (New ''Tjb'' [Dot (V 1) ''b'', K (JNum 0)])), Loop (Bin Lt (Dot (V 8) ''b'') (Meth (Dot (V 8) ''d'') ''gc'' [])) [Do (SetV 7 (Seq (Call ''LDb'' [Bin Lt (Dot (V 8) ''b'') (Meth (Dot (V 8) ''d'') ''gc'' [])]) (Call ''JD'' [Meth (Dot (V 8) ''d'') ''Xb'' [Put (V 8) ''c'' (Bin Minus (Put (V 8) ''b'' (Bin Minus (Dot (V 8) ''b'') (K (JNum (- 1))))) (K (JNum 1)))], K (JNum 25)]))), Do (SetV 10 (Dot (V 7) ''a'')), When (Loose (Dot (Dot (V 10) ''c'') ''length'') (K (JNum 0))) [Continue] [], Do (SetV 3 (K JNull)), Do (SetV 4 (K JNull)), Do (SetV 5 (K JNull)), Do (SetV 6 (K JNull)), Do (SetV 9 (K (JNum 0))), Loop (Bin Lt (V 9) (Dot (Dot (V 10) ''c'') ''length'')) [Do (SetV 3 (Seq (Call ''MDb'' [V 9, Dot (Dot (V 10) ''c'') ''length'']) (Call ''JD'' [Idx (Dot (V 10) ''c'') (V 9), K (JNum 9)]))), Do (SetV 4 (Dot (V 3) ''k'')), When (And (Loose (V 4) (Seq (Call ''$Yb'' []) (G ''VYb''))) (Loose (V 6) (G ''VYb''))) [Do (SetV 11 (Call ''V3b'' [V 3, V 5])), When (Dot (V 11) ''a'') [Do (Call ''Y3b'' [V 3, V 5, Dot (V 11) ''b'', Dot (V 11) ''c'']), Do (Call ''MDb'' [V 9, Dot (Dot (V 10) ''c'') ''length'']), Do (Call ''rDb'' [Dot (V 10) ''c'', V 9, K (JNum 1)]), Do (SetV 9 (Bin Minus (V 9) (K (JNum 1)))), Do (SetV 3 (V 5)), Do (SetV 4 (V 6))] []] [], Do (SetV 5 (V 3)), Do (SetV 6 (V 4))] [Do (Bin Minus (SetV 9 (Bin Minus (V 9) (K (JNum (- 1))))) (K (JNum 1)))]] [], Do (Meth (V 2) ''Ug'' [])],
    fn ''vRc'' 5 7 [Do (SetV 6 (New ''Kmb'' [V 1])), Loop (Bin Lt (Dot (V 6) ''a'') (Dot (Dot (Dot (V 6) ''c'') ''c'') ''length'')) [Do (SetV 5 (Call ''JD'' [Call ''Imb'' [V 6], K (JNum 17)])), Do (SetV 8 (Dot (V 5) ''c'')), When (Meth (Dot (V 2) ''a'') ''_b'' [V 8]) [Do (SetV 9 (Seq (Call ''ORc'' []) (G ''MRc'')))] [When (Meth (Dot (V 3) ''a'') ''_b'' [V 8]) [Do (SetV 9 (Seq (Call ''ORc'' []) (G ''NRc'')))] [Raise (Call ''Lcb'' [New ''kfb'' [K (JStr ''Source port must be in one of the port sets.'')]])]], Do (SetV 10 (Dot (V 5) ''d'')), When (Meth (Dot (V 2) ''a'') ''_b'' [V 10]) [Do (SetV 11 (Seq (Call ''ORc'' []) (G ''MRc'')))] [When (Meth (Dot (V 3) ''a'') ''_b'' [V 10]) [Do (SetV 11 (Seq (Call ''ORc'' []) (G ''NRc'')))] [Raise (Call ''Lcb'' [New ''kfb'' [K (JStr ''Target port must be in one of the port sets.'')]])]], Do (SetV 7 (New ''fSc'' [V 5, V 9, V 11])), Do (Call ''hjb'' [Dot (V 0) ''b'', V 5, V 7]), Do (Call ''qDb'' [Dot (V 4) ''c'', V 7])] []],
    fn ''v0d'' 1 2 [When (And (Neg (Neg (Dot (V 0) ''c''))) (Meth (Dot (V 0) ''c'') ''Sh'' [])) [Do (SetV 2 (Call ''JD'' [Dot (V 0) ''c'', K (JNum 52)])), Do (Put (V 0) ''c'' (Call ''JD'' [Call ''rtd'' [V 0, V 2], K (JNum 143)])), When (Neg (Loose (Dot (V 0) ''c'') (V 2))) [Do (And (And (Neg (Loose (Bin BitAnd (Dot (V 0) ''Db'') (K (JNum 4))) (K (JNum 0)))) (Loose (Bin BitAnd (Dot (V 0) ''Db'') (K (JNum 1))) (K (JNum 0)))) (Call ''Osd'' [V 0, New ''$1d'' [V 0, K (JNum 9), K (JNum 2), V 2, Dot (V 0) ''c'']])), When (Call ''RD'' [Dot (V 0) ''Cb'', K (JNum 403)]) [Do (And (And (Loose (Bin Shr (Dot (V 0) ''Db'') (K (JNum 16))) (K (JNum (- 15)))) (Meth (Dot (V 0) ''Cb'') ''Vh'' [])) (Call ''GId'' [New ''_1d'' [Dot (V 0) ''Cb'', K (JNum 9), K (JNum 13), V 2, Dot (V 0) ''c'', Call ''sXd'' [Call ''B2d'' [Call ''JD'' [Dot (V 0) ''Cb'', K (JNum 62)]], V 0]]]))] [When (Call ''RD'' [Dot (V 0) ''Cb'', K (JNum 88)]) [When (And (Loose (Bin Shr (Dot (V 0) ''Db'') (K (JNum 16))) (K (JNum (- 23)))) (Meth (Dot (V 0) ''Cb'') ''Vh'' [])) [Do (SetV 1 (Dot (V 0) ''c'')), Do (Or (Call ''RD'' [V 1, K (JNum 88)]) (SetV 1 (Seq (Call ''WRd'' []) (G ''MRd'')))), Do (Or (Call ''RD'' [V 2, K (JNum 88)]) (SetV 2 (Seq (Call ''WRd'' []) (G ''MRd'')))), Do (Call ''GId'' [New ''_1d'' [Dot (V 0) ''Cb'', K (JNum 9), K (JNum 10), V 2, V 1, Call ''sXd'' [Call ''GWd'' [Call ''JD'' [Dot (V 0) ''Cb'', K (JNum 29)]], V 0]]])] []] []]] []] [], Ret (Dot (V 0) ''c'')],
    fn ''fZd'' 3 12 [When (Loose (V 1) (V 2)) [Ret (K (JBool True))] [Do (SetV 1 (Call ''gZd'' [V 0, V 1])), Do (SetV 2 (Call ''gZd'' [V 0, V 2])), Do (SetV 3 (Call ''u0d'' [V 1])), When (V 3) [Do (SetV 10 (Call ''u0d'' [V 2])), When (Neg (Loose (V 10) (V 3))) [When (Neg (V 10)) [Ret (K (JBool False))] [Do (SetV 8 (Meth (V 3) ''kk'' [])), Do (SetV 14 (Meth (V 10) ''kk'' [])), Ret (And (Loose (V 8) (V 14)) (Neg (Loose (V 8) (K JNull))))]] [Do (SetV 6 (Seq (And (Neg (Dot (V 1) ''d'')) (Put (V 1) ''d'' (New ''iYd'' [G ''z6'', V 1, K (JNum 1)]))) (Dot (V 1) ''d''))), Do (SetV 5 (Dot (V 6) ''i'')), Do (SetV 12 (Seq (And (Neg (Dot (V 2) ''d'')) (Put (V 2) ''d'' (New ''iYd'' [G ''z6'', V 2, K (JNum 1)]))) (Dot (V 2) ''d''))), When (Loose (V 5) (Dot (V 12) ''i'')) [Do (SetV 9 (K (JNum 0))), Loop (Bin Lt (V 9) (V 5)) [Do (SetV 4 (Call ''JD'' [Call ''fGd'' [V 6, V 9], K (JNum 87)])), Do (SetV 11 (Call ''JD'' [Call ''fGd'' [V 12, V 9], K (JNum 87)])), When (Neg (Call ''fZd'' [V 0, V 4, V 11])) [Ret (K (JBool False))] []] [Do (SetV 9 (Bin Minus (V 9) (K (JNum (- 1)))))]] [], Ret (K (JBool True))]] [Do (SetV 7 (Dot (V 1) ''e'')), Do (SetV 13 (Dot (V 2) ''e'')), Ret (Loose (V 7) (V 13))]]],
    fn ''Iee'' 4 8 [When (Call ''Die'' [Dot (V 0) ''e'', V 1]) [Do (SetV 11 (Call ''Cie'' [Meth (Dot (V 0) ''e'') ''Ah'' [], V 1])), Do (SetV 5 (Call ''JD'' [Dot (V 0) ''g'', K (JNum 122)])), Do (SetV 10 (K JNull)), Do (SetV 8 (K (JNum (- 1)))), Do (SetV 7 (K (JNum (- 1)))), Do (SetV 4 (K (JNum 0))), Do (SetV 9 (K (JNum 0))), Loop (Bin Lt (V 9) (Dot (V 0) ''i'')) [Do (SetV 6 (Idx (V 5) (V 9))), When (Meth (V 11) ''$l'' [Meth (V 6) ''Jk'' []]) [Do (And (Loose (V 4) (V 2)) (SetV 8 (V 9))), When (Loose (V 4) (V 3)) [Do (SetV 7 (V 9)), Do (SetV 10 (Meth (V 6) ''kd'' []))] [], Do (SetV 4 (Bin Minus (V 4) (K (JNum (- 1)))))] []] [Do (SetV 9 (Bin Minus (V 9) (K (JNum (- 1)))))], When (Loose (V 8) (K (JNum (- 1)))) [Raise (Call ''Lcb'' [New ''Fdb'' [Bin Plus (Bin Plus (Bin Plus (G ''XGe'') (V 2)) (G ''YGe'')) (V 4)]])] [], When (Loose (V 7) (K (JNum (- 1)))) [Raise (Call ''Lcb'' [New ''Fdb'' [Bin Plus (Bin Plus (Bin Plus (G ''ZGe'') (V 3)) (G ''YGe'')) (V 4)]])] [], Do (Call ''LJd'' [V 0, V 8, V 7]), Do (And (Call ''itd'' [Dot (V 0) ''e'']) (Call ''rXd'' [V 0, Call ''see'' [V 0, K (JNum 7), V 1, Call ''Cfb'' [V 3], V 10, V 2, K (JBool True)]])), Ret (V 10)] [Raise (Call ''Lcb'' [New ''kfb'' [K (JStr ''The feature must be many-valued to support move'')]])]],
    fn ''QXb'' 4 5 [Do (SetV 8 (New ''mgd'' [Dot (V 1) ''n''])), Do (Put (V 8) ''a'' (Bin Plus (Dot (V 8) ''a'') (Bin Divide (Dot (Dot (V 1) ''o'') ''a'') (K (JNum 2))))), Do (Put (V 8) ''b'' (Bin Plus (Dot (V 8) ''b'') (Bin Divide (Dot (Dot (V 1) ''o'') ''b'') (K (JNum 2))))), Do (SetV 7 (Call ''Ueb'' [Call ''MD'' [Call ''oNb'' [V 1, Seq (Call ''nyc'' []) (G ''pxc'')]]])), Do (SetV 5 (Dot (V 0) ''f'')), Do (SetV 6 (Dot (V 0) ''d'')), Do (SetV 4 (Dot (V 0) ''c'')), Switch (Dot (Call ''JD'' [Call ''oNb'' [V 1, Seq (Call ''Wrc'' []) (G ''$qc'')], K (JNum 64)]) ''g'') [(Some (JNum 1), [Do (Put (V 8) ''a'' (Bin Plus (Dot (V 8) ''a'') (Bin Minus (Bin Plus (Dot (V 6) ''b'') (Dot (V 4) ''a'')) (Bin Divide (V 2) (K (JNum 2)))))), Do (Put (V 8) ''b'' (Bin Minus (Minus1 (V 3)) (V 7))), Do (Put (Dot (V 1) ''n'') ''b'' (Minus1 (Bin Plus (Bin Plus (Dot (V 6) ''d'') (V 7)) (Dot (V 4) ''b'')))), Break]), (Some (JNum 2), [Do (Put (V 8) ''a'' (Bin Plus (Bin Plus (Bin Plus (Dot (V 5) ''a'') (Dot (V 6) ''b'')) (Dot (V 6) ''c'')) (V 7))), Do (Put (V 8) ''b'' (Bin Plus (Dot (V 8) ''b'') (Bin Minus (Bin Plus (Dot (V 6) ''d'') (Dot (V 4) ''b'')) (Bin Divide (V 3) (K (JNum 2)))))), Do (Put (Dot (V 1) ''n'') ''a'' (Bin Minus (Bin Plus (Bin Plus (Dot (V 5) ''a'') (Dot (V 6) ''c'')) (V 7)) (Dot (V 4) ''a''))), Break]), (Some (JNum 3), [Do (Put (V 8) ''a'' (Bin Plus (Dot (V 8) ''a'') (Bin Minus (Bin Plus (Dot (V 6) ''b'') (Dot (V 4) ''a'')) (Bin Divide (V 2) (K (JNum 2)))))), Do (Put (V 8) ''b'' (Bin Plus (Bin Plus (Bin Plus (Dot (V 5) ''b'') (Dot (V 6) ''d'')) (Dot (V 6) ''a'')) (V 7))), Do (Put (Dot (V 1) ''n'') ''b'' (Bin Minus (Bin Plus (Bin Plus (Dot (V 5) ''b'') (Dot (V 6) ''a'')) (V 7)) (Dot (V 4) ''b''))), Break]), (Some (JNum 4), [Do (Put (V 8) ''a'' (Bin Minus (Minus1 (V 2)) (V 7))), Do (Put (V 8) ''b'' (Bin Plus (Dot (V 8) ''b'') (Bin Minus (Bin Plus (Dot (V 6) ''d'') (Dot (V 4) ''b'')) (Bin Divide (V 3) (K (JNum 2)))))), Do (Put (Dot (V 1) ''n'') ''a'' (Minus1 (Bin Plus (Bin Plus (Dot (V 6) ''b'') (V 7)) (Dot (V 4) ''a''))))])], Ret (V 8)],
    fn ''B8b'' 3 2 [Do (SetV 3 (Dot (Dot (V 1) ''c'') ''i'')), Do (SetV 4 (Dot (Dot (V 2) ''d'') ''i'')), When (Loose (Dot (V 3) ''k'') (Seq (Call ''$Yb'' []) (G ''VYb''))) [Do (Call ''rNb'' [V 0, Seq (Call ''Wrc'' []) (G ''nrc''), Call ''JD'' [Call ''oNb'' [V 3, G ''nrc''], K (JNum 12)]]), Do (Call ''rNb'' [V 0, G ''orc'', Call ''JD'' [Call ''oNb'' [V 3, G ''orc''], K (JNum 12)]]), Do (Call ''rNb'' [V 0, G ''mrc'', Call ''LD'' [Call ''oNb'' [V 3, G ''mrc'']]])] [When (Loose (Dot (V 3) ''k'') (G ''UYb'')) [Do (Call ''rNb'' [V 0, Seq (Call ''Wrc'' []) (G ''nrc''), Call ''JD'' [Call ''oNb'' [V 3, G ''nrc''], K (JNum 12)]]), Do (Call ''rNb'' [V 0, G ''orc'', Call ''JD'' [Call ''oNb'' [V 3, G ''orc''], K (JNum 12)]]), Do (Call ''rNb'' [V 0, G ''mrc'', Seq (Call ''Qdb'' []) (K (JBool True))])] [When (Loose (Dot (V 4) ''k'') (G ''UYb'')) [Do (Call ''rNb'' [V 0, Seq (Call ''Wrc'' []) (G ''nrc''), Call ''JD'' [Call ''oNb'' [V 4, G ''nrc''], K (JNum 12)]]), Do (Call ''rNb'' [V 0, G ''orc'', Call ''JD'' [Call ''oNb'' [V 4, G ''orc''], K (JNum 12)]]), Do (Call ''rNb'' [V 0, G ''mrc'', Seq (Call ''Qdb'' []) (K (JBool True))])] [Do (Call ''rNb'' [V 0, Seq (Call ''Wrc'' []) (G ''nrc''), Dot (V 1) ''c'']), Do (Call ''rNb'' [V 0, G ''orc'', Dot (V 2) ''d''])]]]],
    fn ''_Gb'' 1 7 [Do (Put (V 0) ''o'' (New ''Glb'' [])), Do (SetV 3 (New ''dub'' [])), Do (SetV 6 (New ''Kmb'' [Dot (Dot (V 0) ''e'') ''a''])), Loop (Bin Lt (Dot (V 6) ''a'') (Dot (Dot (Dot (V 6) ''c'') ''c'') ''length'')) [Do (SetV 5 (Call ''JD'' [Call ''Imb'' [V 6], K (JNum 124)])), Do (And (Loose (Dot (Dot (Call ''gGb'' [V 5]) ''c'') ''length'') (K (JNum 1))) (Seq (Call ''Wtb'' [V 3, V 5, Dot (Dot (V 3) ''c'') ''b'', Dot (V 3) ''c'']) (K (JBool True))))] [], Loop (Neg (Loose (Dot (V 3) ''b'') (K (JNum 0)))) [Do (SetV 5 (Call ''JD'' [Cond (Loose (Dot (V 3) ''b'') (K (JNum 0))) (K JNull) (Seq (Call ''LDb'' [Neg (Loose (Dot (V 3) ''b'') (K (JNum 0)))]) (Call ''bub'' [V 3, Dot (Dot (V 3) ''a'') ''a''])), K (JNum 124)])), When (Loose (Dot (Dot (Call ''gGb'' [V 5]) ''c'') ''length'') (K (JNum 0))) [Continue] [], Do (SetV 1 (Call ''JD'' [Call ''dmb'' [Call ''gGb'' [V 5], K (JNum 0)], K (JNum 217)])), Do (SetV 2 (Bin Gt (Dot (Dot (Dot (Dot (V 5) ''g'') ''a'') ''c'') ''length'') (K (JNum 0)))), Do (SetV 7 (Call ''UFb'' [V 1, V 5])), Do (Cond (V 2) (Call ''jGb'' [Dot (V 7) ''b'', V 1]) (Call ''jGb'' [Dot (V 7) ''g'', V 1])), Do (And (Loose (Dot (Dot (Call ''gGb'' [V 7]) ''c'') ''length'') (K (JNum 1))) (Seq (Call ''Wtb'' [V 3, V 7, Dot (Dot (V 3) ''c'') ''b'', Dot (V 3) ''c'']) (K (JBool True)))), Do (SetV 4 (New ''prd'' [V 5, V 1])), Do (Call ''rlb'' [Dot (V 0) ''o'', V 4]), Do (Call ''gmb'' [Dot (Dot (V 0) ''e'') ''a'', V 5])] []],
    fn ''uMb'' 2 7 [Do (SetV 3 (Meth (Dot (G ''$wnd'') ''Math'') ''abs'' [Bin Minus (Dot (Call ''Jfd'' [Dot (V 0) ''b'']) ''a'') (Dot (Call ''Jfd'' [Dot (V 1) ''b'']) ''a'')])), Do (SetV 7 (Meth (Dot (G ''$wnd'') ''Math'') ''abs'' [Bin Minus (Dot (Call ''Jfd'' [Dot (V 0) ''b'']) ''b'') (Dot (Call ''Jfd'' [Dot (V 1) ''b'']) ''b'')])), Do (SetV 4 (K (JNum 0))), Do (SetV 8 (K (JNum 0))), Do (SetV 2 (K (JNum 1))), Do (SetV 6 (K (JNum 1))), When (Bin Gt (V 3) (Bin Plus (Bin Divide (Dot (Dot (V 0) ''b'') ''b'') (K (JNum 2))) (Bin Divide (Dot (Dot (V 1) ''b'') ''b'') (K (JNum 2))))) [Do (SetV 4 (Meth (Dot (G ''$wnd'') ''Math'') ''min'' [Meth (Dot (G ''$wnd'') ''Math'') ''abs'' [Bin Minus (Dot (Dot (V 0) ''b'') ''c'') (Bin Plus (Dot (Dot (V 1) ''b'') ''c'') (Dot (Dot (V 1) ''b'') ''b''))], Meth (Dot (G ''$wnd'') ''Math'') ''abs'' [Bin Minus (Bin Plus (Dot (Dot (V 0) ''b'') ''c'') (Dot (Dot (V 0) ''b'') ''b'')) (Dot (Dot (V 1) ''b'') ''c'')]])), Do (SetV 2 (Bin Minus (K (JNum 1)) (Bin Divide (V 4) (V 3))))] [], When (Bin Gt (V 7) (Bin Plus (Bin Divide (Dot (Dot (V 0) ''b'') ''a'') (K (JNum 2))) (Bin Divide (Dot (Dot (V 1) ''b'') ''a'') (K (JNum 2))))) [Do (SetV 8 (Meth (Dot (G ''$wnd'') ''Math'') ''min'' [Meth (Dot (G ''$wnd'') ''Math'') ''abs'' [Bin Minus (Dot (Dot (V 0) ''b'') ''d'') (Bin Plus (Dot (Dot (V 1) ''b'') ''d'') (Dot (Dot (V 1) ''b'') ''a''))], Meth (Dot (G ''$wnd'') ''Math'') ''abs'' [Bin Minus (Bin Plus (Dot (Dot (V 0) ''b'') ''d'') (Dot (Dot (V 0) ''b'') ''a'')) (Dot (Dot (V 1) ''b'') ''d'')]])), Do (SetV 6 (Bin Minus (K (JNum 1)) (Bin Divide (V 8) (V 7))))] [], Do (SetV 5 (Meth (Dot (G ''$wnd'') ''Math'') ''min'' [V 2, V 6])), Ret (Bin Times (Bin Minus (K (JNum 1)) (V 5)) (Meth (Dot (G ''$wnd'') ''Math'') ''sqrt'' [Bin Plus (Bin Times (V 3) (V 3)) (Bin Times (V 7) (V 7))]))],
    fn ''uRc'' 1 4 [Do (Call ''wRc'' [V 0, Dot (V 0) ''e'', Dot (V 0) ''f'', Seq (Call ''ORc'' []) (G ''MRc''), K (JBool True), Dot (V 0) ''c'', Dot (V 0) ''i'']), Do (Call ''wRc'' [V 0, Dot (V 0) ''e'', Dot (V 0) ''f'', G ''MRc'', K (JBool False), Dot (V 0) ''c'', Dot (V 0) ''i'']), Do (Call ''wRc'' [V 0, Dot (V 0) ''e'', Dot (V 0) ''f'', G ''NRc'', K (JBool True), Dot (V 0) ''c'', Dot (V 0) ''i'']), Do (Call ''wRc'' [V 0, Dot (V 0) ''e'', Dot (V 0) ''f'', G ''NRc'', K (JBool False), Dot (V 0) ''c'', Dot (V 0) ''i'']), Do (Call ''vRc'' [V 0, Dot (V 0) ''c'', Dot (V 0) ''e'', Dot (V 0) ''f'', Dot (V 0) ''i'']), Do (SetV 3 (New ''Tjb'' [Dot (V 0) ''i'', K (JNum 0)])), Loop (Bin Lt (Dot (V 3) ''b'') (Meth (Dot (V 3) ''d'') ''gc'' [])) [Do (SetV 1 (Seq (Call ''LDb'' [Bin Lt (Dot (V 3) ''b'') (Meth (Dot (V 3) ''d'') ''gc'' [])]) (Call ''JD'' [Meth (Dot (V 3) ''d'') ''Xb'' [Put (V 3) ''c'' (Bin Minus (Put (V 3) ''b'' (Bin Minus (Dot (V 3) ''b'') (K (JNum (- 1))))) (K (JNum 1)))], K (JNum 132)]))), Do (SetV 4 (New ''Tjb'' [Dot (V 0) ''i'', Dot (V 3) ''b''])), Loop (Bin Lt (Dot (V 4) ''b'') (Meth (Dot (V 4) ''d'') ''gc'' [])) [Do (SetV 2 (Seq (Call ''LDb'' [Bin Lt (Dot (V 4) ''b'') (Meth (Dot (V 4) ''d'') ''gc'' [])]) (Call ''JD'' [Meth (Dot (V 4) ''d'') ''Xb'' [Put (V 4) ''c'' (Bin Minus (Put (V 4) ''b'' (Bin Minus (Dot (V 4) ''b'') (K (JNum (- 1))))) (K (JNum 1)))], K (JNum 132)]))), Do (Call ''tRc'' [V 1, V 2])] []] [], Do (Call ''FRc'' [Dot (V 0) ''i'', Call ''JD'' [Call ''oNb'' [Dot (V 0) ''d'', Seq (Call ''Wrc'' []) (G ''Frc'')], K (JNum 234)]]), Do (Call ''IRc'' [Dot (V 0) ''i''])],
    fn ''SVd'' 2 2 [When (Neg (Loose (V 1) (K JNull))) [Do (SetV 3 (Call ''QVd'' [V 0])), When (V 3) [When (Neg (Loose (Bin BitAnd (Dot (V 3) ''i'') (K (JNum 1))) (K (JNum 0)))) [When (Loose (V 3) (G ''Icb'')) [Ret (Call ''SD'' [V 1])] [When (Loose (V 3) (G ''cE'')) [Ret (Call ''RD'' [V 1, K (JNum 15)])] [When (Loose (V 3) (G ''bE'')) [Ret (Call ''RD'' [V 1, K (JNum 164)])] [When (Loose (V 3) (G ''$D'')) [Ret (Call ''RD'' [V 1, K (JNum 221)])] [When (Loose (V 3) (G ''_D'')) [Ret (Call ''RD'' [V 1, K (JNum 180)])] [When (Loose (V 3) (G ''aE'')) [Ret (Call ''TD'' [V 1])] [When (Loose (V 3) (G ''Hcb'')) [Ret (Call ''RD'' [V 1, K (JNum 191)])] [When (Loose (V 3) (G ''dE'')) [Ret (Call ''RD'' [V 1, K (JNum 190)])] []]]]]]]]] [Ret (Seq (Seq (Call ''aQd'' []) (SetV 2 (Call ''JD'' [Call ''ejb'' [G ''_Pd'', V 3], K (JNum 58)]))) (Or (Neg (V 2)) (Meth (V 2) ''dk'' [V 1])))]] [When (Call ''RD'' [V 1, K (JNum 57)]) [Ret (Meth (V 0) ''bl'' [Call ''JD'' [V 1, K (JNum 57)]])] []]] [], Ret (K (JBool False))],
    fn ''Moe'' 0 9 [Do (SetG ''Moe'' (G ''qdb'')), Do (SetG ''Koe'' (Call ''SC'' [G ''$D'', G ''hGe'', K (JNum 30), K (JNum 255), K (JNum 15), K (JNum 1)])), Do (SetG ''Loe'' (Call ''SC'' [G ''_D'', G ''Nue'', K (JNum 30), K (JNum 64), K (JNum 15), K (JNum 1)])), Do (SetV 1 (K (JNum 0))), Loop (Bin Lt (V 1) (K (JNum 255))) [Do (PutIdx (G ''Koe'') (V 1) (K (JNum (- 1))))] [Do (Bin Minus (SetV 1 (Bin Minus (V 1) (K (JNum (- 1))))) (K (JNum 1)))], Do (SetV 2 (K (JNum 90))), Loop (Bin Ge (V 2) (K (JNum 65))) [Do (PutIdx (G ''Koe'') (V 2) (Bin Shr (Bin Shl (Bin Minus (V 2) (K (JNum 65))) (K (JNum 24))) (K (JNum 24))))] [Do (Bin Minus (SetV 2 (Bin Minus (V 2) (K (JNum 1)))) (K (JNum (- 1))))], Do (SetV 3 (K (JNum 122))), Loop (Bin Ge (V 3) (K (JNum 97))) [Do (PutIdx (G ''Koe'') (V 3) (Bin Shr (Bin Shl (Bin Plus (Bin Minus (V 3) (K (JNum 97))) (K (JNum 26))) (K (JNum 24))) (K (JNum 24))))] [Do (Bin Minus (SetV 3 (Bin Minus (V 3) (K (JNum 1)))) (K (JNum (- 1))))], Do (SetV 4 (K (JNum 57))), Loop (Bin Ge (V 4) (K (JNum 48))) [Do (PutIdx (G ''Koe'') (V 4) (Bin Shr (Bin Shl (Bin Plus (Bin Minus (V 4) (K (JNum 48))) (K (JNum 52))) (K (JNum 24))) (K (JNum 24))))] [Do (Bin Minus (SetV 4 (Bin Minus (V 4) (K (JNum 1)))) (K (JNum (- 1))))], Do (PutIdx (G ''Koe'') (K (JNum 43)) (K (JNum 62))), Do (PutIdx (G ''Koe'') (K (JNum 47)) (K (JNum 63))), Do (SetV 5 (K (JNum 0))), Loop (Bin Le (V 5) (K (JNum 25))) [Do (PutIdx (G ''Loe'') (V 5) (Bin BitAnd (Bin Plus (K (JNum 65)) (V 5)) (G ''Pue'')))] [Do (Bin Minus (SetV 5 (Bin Minus (V 5) (K (JNum (- 1))))) (K (JNum 1)))], Do (Seq (SetV 6 (K (JNum 26))) (SetV 8 (K (JNum 0)))), Loop (Bin Le (V 6) (K (JNum 51))) [Do (PutIdx (G ''Loe'') (V 6) (Bin BitAnd (Bin Plus (K (JNum 97)) (V 8)) (G ''Pue'')))] [Do (Seq (SetV 6 (Bin Minus (V 6) (K (JNum (- 1))))) (Bin Minus (SetV 8 (Bin Minus (V 8) (K (JNum (- 1))))) (K (JNum 1))))], Do (Seq (SetV 0 (K (JNum 52))) (SetV 7 (K (JNum 0)))), Loop (Bin Le (V 0) (K (JNum 61))) [Do (PutIdx (G ''Loe'') (V 0) (Bin BitAnd (Bin Plus (K (JNum 48)) (V 7)) (G ''Pue'')))] [Do (Seq (SetV 0 (Bin Minus (V 0) (K (JNum (- 1))))) (Bin Minus (SetV 7 (Bin Minus (V 7) (K (JNum (- 1))))) (K (JNum 1))))], Do (PutIdx (G ''Loe'') (K (JNum 62)) (K (JNum 43))), Do (PutIdx (G ''Loe'') (K (JNum 63)) (K (JNum 47)))],
    fn ''Ehb'' 2 6 [Do (SetV 4 (Call ''Hhb'' [V 0])), Do (SetV 7 (Call ''Hhb'' [V 1])), When (Loose (V 4) (V 7)) [When (And (And (Loose (Dot (V 0) ''e'') (Dot (V 1) ''e'')) (Bin Lt (Dot (V 0) ''a'') (K (JNum 54)))) (Bin Lt (Dot (V 1) ''a'') (K (JNum 54)))) [Ret (Cond (Bin Lt (Dot (V 0) ''f'') (Dot (V 1) ''f'')) (K (JNum (- 1))) (Cond (Bin Gt (Dot (V 0) ''f'') (Dot (V 1) ''f'')) (K (JNum 1)) (K (JNum 0))))] [], Do (SetV 3 (Bin Minus (Dot (V 0) ''e'') (Dot (V 1) ''e''))), Do (SetV 2 (Bin Minus (Cond (Bin Gt (Dot (V 0) ''d'') (K (JNum 0))) (Dot (V 0) ''d'') (Bin Plus (Meth (Dot (G ''$wnd'') ''Math'') ''floor'' [Bin Times (Bin Minus (Dot (V 0) ''a'') (K (JNum 1))) (G ''Lve'')]) (K (JNum 1)))) (Cond (Bin Gt (Dot (V 1) ''d'') (K (JNum 0))) (Dot (V 1) ''d'') (Bin Plus (Meth (Dot (G ''$wnd'') ''Math'') ''floor'' [Bin Times (Bin Minus (Dot (V 1) ''a'') (K (JNum 1))) (G ''Lve'')]) (K (JNum 1)))))), When (Bin Gt (V 2) (Bin Plus (V 3) (K (JNum 1)))) [Ret (V 4)] [When (Bin Lt (V 2) (Bin Minus (V 3) (K (JNum 1)))) [Ret (Minus1 (V 4))] [Do (SetV 5 (Seq (And (Neg (Dot (V 0) ''c'')) (Put (V 0) ''c'' (Call ''yib'' [Call ''Scb'' [Dot (V 0) ''f'']]))) (Dot (V 0) ''c''))), Do (SetV 6 (Seq (And (Neg (Dot (V 1) ''c'')) (Put (V 1) ''c'' (Call ''yib'' [Call ''Scb'' [Dot (V 1) ''f'']]))) (Dot (V 1) ''c''))), Do (Cond (Bin Lt (V 3) (K (JNum 0))) (SetV 5 (Call ''eib'' [V 5, Call ''ajb'' [Minus1 (V 3)]])) (And (Bin Gt (V 3) (K (JNum 0))) (SetV 6 (Call ''eib'' [V 6, Call ''ajb'' [V 3]])))), Ret (Call ''$hb'' [V 5, V 6])]]] [Ret (Cond (Bin Lt (V 4) (V 7)) (K (JNum (- 1))) (K (JNum 1)))]],
    fn ''K$b'' 1 6 [Do (SetV 3 (New ''JWb'' [])), Do (Call ''mNb'' [V 3, V 0]), Do (And (Same (Call ''XD'' [Call ''oNb'' [V 3, Seq (Call ''nyc'' []) (G ''bwc'')]]) (Call ''XD'' [Seq (Call ''Djd'' []) (G ''Bjd'')])) (Call ''rNb'' [V 3, G ''bwc'', Call ''PXb'' [V 3]])), When (Loose (Call ''oNb'' [V 3, Seq (Call ''ofd'' []) (G ''nfd'')]) (K JNull)) [Do (SetV 6 (Call ''JD'' [Call ''Yhe'' [V 0], K (JNum 174)])), Do (Call ''rNb'' [V 3, G ''nfd'', Call ''ZD'' [Meth (V 6) ''mf'' [G ''nfd'']]])] [], Do (Call ''rNb'' [V 3, Seq (Call ''Wrc'' []) (G ''urc''), V 0]), Do (Call ''rNb'' [V 3, G ''brc'', Seq (SetV 1 (Call ''JD'' [Call ''web'' [G ''bW''], K (JNum 10)])) (New ''Nrb'' [V 1, Call ''JD'' [Call ''nDb'' [V 1, Dot (V 1) ''length''], K (JNum 10)], K (JNum 0)])]), Do (SetV 4 (Call ''iHb'' [Seq (Seq (Cond (Neg (Call ''Rzd'' [V 0])) (K JNull) (Seq (Call ''Jrd'' []) (New ''Xrd'' [Call ''Rzd'' [V 0]]))) (Call ''Jrd'' [])) (New ''bsd'' [Cond (Neg (Call ''Rzd'' [V 0])) (K JNull) (New ''Xrd'' [Call ''Rzd'' [V 0]]), V 0]), G ''Ajd''])), Do (SetV 5 (Call ''JD'' [Call ''oNb'' [V 3, G ''fxc''], K (JNum 104)])), Do (SetV 2 (Dot (V 3) ''d'')), Do (Call ''gYb'' [V 2, V 5]), Do (Call ''gYb'' [V 2, V 4]), Ret (V 3)]]"

definition code_5851_5852 :: "(string \<times> jfun) list" where
  "code_5851_5852 = [
    fn ''TNb'' 3 8 [Do (Meth (V 2) ''Tg'' [G ''qxe'', K (JNum 1)]), Do (Meth (V 0) ''qf'' [V 1]), Do (SetV 5 (K (JNum 0))), Loop (And (Meth (V 0) ''sf'' [V 5]) (Neg (Meth (V 2) ''Zg'' []))) [Do (Meth (V 0) ''rf'' []), Do (SetV 10 (Call ''Gl'' [Call ''yl'' [Call ''WC'' [Call ''OC'' [G ''VI'', K (JNum 1)], G ''Gte'', K (JNum 20), K (JNum 0), NewArr [Dot (V 1) ''e'', Dot (V 1) ''d'', Dot (V 1) ''b'']]]])), Loop (Call ''Wr'' [V 10]) [Do (SetV 8 (Call ''JD'' [Call ''Xr'' [V 10], K (JNum 314)])), Do (SetV 7 (Call ''Gl'' [Call ''yl'' [Call ''WC'' [Call ''OC'' [G ''VI'', K (JNum 1)], G ''Gte'', K (JNum 20), K (JNum 0), NewArr [Dot (V 1) ''e'', Dot (V 1) ''d'', Dot (V 1) ''b'']]]])), Loop (Call ''Wr'' [V 7]) [Do (SetV 6 (Call ''JD'' [Call ''Xr'' [V 7], K (JNum 314)])), When (Neg (Loose (V 6) (V 8))) [Do (SetV 4 (Meth (V 0) ''pf'' [V 6, V 8])), Do (And (Neg (Neg (V 4))) (Call ''Vfd'' [Dot (V 8) ''c'', V 4]))] []] []] [], Do (SetV 9 (Call ''Gl'' [Call ''yl'' [Call ''WC'' [Call ''OC'' [G ''VI'', K (JNum 1)], G ''Gte'', K (JNum 20), K (JNum 0), NewArr [Dot (V 1) ''e'', Dot (V 1) ''d'', Dot (V 1) ''b'']]]])), Loop (Call ''Wr'' [V 9]) [Do (SetV 8 (Call ''JD'' [Call ''Xr'' [V 9], K (JNum 314)])), Do (SetV 3 (Dot (V 8) ''c'')), Do (Call ''Wfd'' [V 3, Minus1 (Dot (V 0) ''d''), Minus1 (Dot (V 0) ''d''), Dot (V 0) ''d'', Dot (V 0) ''d'']), Do (Call ''Vfd'' [Dot (V 8) ''d'', V 3]), Do (Put (V 3) ''a'' (K (JNum 0))), Do (Put (V 3) ''b'' (K (JNum 0)))] [], Do (SetV 5 (Bin Minus (V 5) (K (JNum (- 1)))))] [], Do (Meth (V 2) ''Ug'' [])],
    fn ''lUb'' 2 12 [When (Meth (V 0) ''dc'' []) [Ret (New ''jgd'' [])] [], Do (SetV 9 (K (JNum 0))), Do (SetV 11 (K (JNum 0))), Do (SetV 4 (Meth (V 0) ''Jc'' [])), Loop (Meth (V 4) ''Ob'' []) [Do (SetV 3 (Call ''JD'' [Meth (V 4) ''Pb'' [], K (JNum 36)])), Do (SetV 5 (Dot (V 3) ''f'')), Do (SetV 9 (Meth (Dot (G ''$wnd'') ''Math'') ''max'' [V 9, Dot (V 5) ''a''])), Do (SetV 11 (Bin Plus (V 11) (Bin Times (Dot (V 5) ''a'') (Dot (V 5) ''b''))))] [], Do (SetV 9 (Meth (Dot (G ''$wnd'') ''Math'') ''max'' [V 9, Bin Times (Meth (Dot (G ''$wnd'') ''Math'') ''sqrt'' [V 11]) (Call ''Ueb'' [Call ''MD'' [Call ''oNb'' [Call ''JD'' [Meth (Meth (V 0) ''Jc'' []) ''Pb'' [], K (JNum 36)], Seq (Call ''nyc'' []) (G ''vvc'')]]])])), Do (SetV 12 (K (JNum 0))), Do (SetV 13 (K (JNum 0))), Do (SetV 8 (K (JNum 0))), Do (SetV 2 (V 1)), Do (SetV 7 (Meth (V 0) ''Jc'' [])), Loop (Meth (V 7) ''Ob'' []) [Do (SetV 6 (Call ''JD'' [Meth (V 7) ''Pb'' [], K (JNum 36)])), Do (SetV 10 (Dot (V 6) ''f'')), When (Bin Gt (Bin Plus (V 12) (Dot (V 10) ''a'')) (V 9)) [Do (SetV 12 (K (JNum 0))), Do (SetV 13 (Bin Plus (V 13) (Bin Plus (V 8) (V 1)))), Do (SetV 8 (K (JNum 0)))] [], Do (Call ''aUb'' [V 6, V 12, V 13]), Do (SetV 2 (Meth (Dot (G ''$wnd'') ''Math'') ''max'' [V 2, Bin Plus (V 12) (Dot (V 10) ''a'')])), Do (SetV 8 (Meth (Dot (G ''$wnd'') ''Math'') ''max'' [V 8, Dot (V 10) ''b''])), Do (SetV 12 (Bin Plus (V 12) (Bin Plus (Dot (V 10) ''a'') (V 1))))] [], Ret (New ''lgd'' [Bin Plus (V 2) (V 1), Bin Plus (Bin Plus (V 13) (V 8)) (V 1)])]]"

definition code_5854_5861 :: "(string \<times> jfun) list" where
  "code_5854_5861 = [
    fn ''Nib'' 5 2 [Do (SetV 5 (Call ''Mcb'' [Call ''Ncb'' [Idx (V 1) (K (JNum 0)), G ''Mve''], Call ''Ncb'' [Idx (V 3) (K (JNum 0)), G ''Mve'']])), Do (PutIdx (V 0) (K (JNum 0)) (Call ''gdb'' [V 5])), Do (SetV 5 (Call ''bdb'' [V 5, K (JNum 32)])), When (Bin Ge (V 2) (V 4)) [Do (SetV 6 (K (JNum 1))), Loop (Bin Lt (V 6) (V 4)) [Do (SetV 5 (Call ''Mcb'' [V 5, Call ''Mcb'' [Call ''Ncb'' [Idx (V 1) (V 6), G ''Mve''], Call ''Ncb'' [Idx (V 3) (V 6), G ''Mve'']]])), Do (PutIdx (V 0) (V 6) (Call ''gdb'' [V 5])), Do (SetV 5 (Call ''bdb'' [V 5, K (JNum 32)]))] [Do (Bin Minus (SetV 6 (Bin Minus (V 6) (K (JNum (- 1))))) (K (JNum 1)))], Loop (Bin Lt (V 6) (V 2)) [Do (SetV 5 (Call ''Mcb'' [V 5, Call ''Ncb'' [Idx (V 1) (V 6), G ''Mve'']])), Do (PutIdx (V 0) (V 6) (Call ''gdb'' [V 5])), Do (SetV 5 (Call ''bdb'' [V 5, K (JNum 32)]))] [Do (Bin Minus (SetV 6 (Bin Minus (V 6) (K (JNum (- 1))))) (K (JNum 1)))]] [Do (SetV 6 (K (JNum 1))), Loop (Bin Lt (V 6) (V 2)) [Do (SetV 5 (Call ''Mcb'' [V 5, Call ''Mcb'' [Call ''Ncb'' [Idx (V 1) (V 6), G ''Mve''], Call ''Ncb'' [Idx (V 3) (V 6), G ''Mve'']]])), Do (PutIdx (V 0) (V 6) (Call ''gdb'' [V 5])), Do (SetV 5 (Call ''bdb'' [V 5, K (JNum 32)]))] [Do (Bin Minus (SetV 6 (Bin Minus (V 6) (K (JNum (- 1))))) (K (JNum 1)))], Loop (Bin Lt (V 6) (V 4)) [Do (SetV 5 (Call ''Mcb'' [V 5, Call ''Ncb'' [Idx (V 3) (V 6), G ''Mve'']])), Do (PutIdx (V 0) (V 6) (Call ''gdb'' [V 5])), Do (SetV 5 (Call ''bdb'' [V 5, K (JNum 32)]))] [Do (Bin Minus (SetV 6 (Bin Minus (V 6) (K (JNum (- 1))))) (K (JNum 1)))]], Do (And (Neg (Loose (Call ''Ocb'' [V 5, K (JNum 0)]) (K (JNum 0)))) (PutIdx (V 0) (V 6) (Call ''gdb'' [V 5])))],
    fn ''l4b'' 2 9 [Do (Meth (V 1) ''Tg'' [K (JStr ''Layer constraint edge reversal''), K (JNum 1)]), Do (SetV 6 (New ''Kmb'' [Dot (V 0) ''b''])), Loop (Bin Lt (Dot (V 6) ''a'') (Dot (Dot (Dot (V 6) ''c'') ''c'') ''length'')) [Do (SetV 5 (Call ''JD'' [Call ''Imb'' [V 6], K (JNum 25)])), Do (SetV 10 (K (JNum (- 1)))), Do (SetV 2 (New ''lmb'' [])), Do (SetV 9 (Call ''$Xb'' [Dot (V 5) ''a''])), Do (SetV 4 (K (JNum 0))), Loop (Bin Lt (V 4) (Dot (V 9) ''length'')) [Do (SetV 3 (Call ''JD'' [Call ''oNb'' [Idx (V 9) (V 4), Seq (Call ''Wrc'' []) (G ''frc'')], K (JNum 316)])), When (Loose (V 10) (K (JNum (- 1)))) [Do (And (Neg (Loose (V 3) (Seq (Call ''wqc'' []) (G ''vqc'')))) (SetV 10 (V 4)))] [When (Loose (V 3) (Seq (Call ''wqc'' []) (G ''vqc''))) [Do (Call ''NYb'' [Idx (V 9) (V 4), K JNull]), Do (Call ''MYb'' [Idx (V 9) (V 4), Bin Minus (SetV 10 (Bin Minus (V 10) (K (JNum (- 1))))) (K (JNum 1)), V 5])] []], Do (And (Loose (V 3) (Seq (Call ''wqc'' []) (G ''tqc''))) (Seq (Call ''qDb'' [Dot (V 2) ''c'', Idx (V 9) (V 4)]) (K (JBool True))))] [Do (Bin Minus (SetV 4 (Bin Minus (V 4) (K (JNum (- 1))))) (K (JNum 1)))], Do (SetV 8 (New ''Kmb'' [V 2])), Loop (Bin Lt (Dot (V 8) ''a'') (Dot (Dot (Dot (V 8) ''c'') ''c'') ''length'')) [Do (SetV 7 (Call ''JD'' [Call ''Imb'' [V 8], K (JNum 9)])), Do (Call ''NYb'' [V 7, K JNull]), Do (Call ''NYb'' [V 7, V 5])] []] [], Do (Meth (V 1) ''Ug'' [])],
    fn ''Lre'' 1 6 [Do (Call ''gre'' []), When (And (Neg (Loose (Dot (V 0) ''e'') (K (JNum 4)))) (Neg (Loose (Dot (V 0) ''e'') (K (JNum 5))))) [Raise (Call ''Lcb'' [New ''kfb'' [Bin Plus (K (JStr ''Token#complementRanges(): must be RANGE: '')) (Dot (V 0) ''e'')]])] [], Do (SetV 5 (V 0)), Do (Call ''Ire'' [V 5]), Do (Call ''Fre'' [V 5]), Do (SetV 3 (Bin Plus (Dot (Dot (V 5) ''b'') ''length'') (K (JNum 2)))), Do (And (Loose (Idx (Dot (V 5) ''b'') (K (JNum 0))) (K (JNum 0))) (SetV 3 (Bin Minus (V 3) (K (JNum 2))))), Do (SetV 2 (Idx (Dot (V 5) ''b'') (Bin Minus (Dot (Dot (V 5) ''b'') ''length'') (K (JNum 1))))), Do (And (Loose (V 2) (G ''XJe'')) (SetV 3 (Bin Minus (V 3) (K (JNum 2))))), Do (SetV 4 (Seq (SetG ''fre'' (Bin Minus (G ''fre'') (K (JNum (- 1))))) (New ''Kre'' [K (JNum 4)]))), Do (Put (V 4) ''b'' (Call ''SC'' [G ''cE'', G ''bve'', K (JNum 30), V 3, K (JNum 15), K (JNum 1)])), Do (SetV 6 (K (JNum 0))), When (Bin Gt (Idx (Dot (V 5) ''b'') (K (JNum 0))) (K (JNum 0))) [Do (PutIdx (Dot (V 4) ''b'') (Bin Minus (SetV 6 (Bin Minus (V 6) (K (JNum (- 1))))) (K (JNum 1))) (K (JNum 0))), Do (PutIdx (Dot (V 4) ''b'') (Bin Minus (SetV 6 (Bin Minus (V 6) (K (JNum (- 1))))) (K (JNum 1))) (Bin Minus (Idx (Dot (V 5) ''b'') (K (JNum 0))) (K (JNum 1))))] [], Do (SetV 1 (K (JNum 1))), Loop (Bin Lt (V 1) (Bin Minus (Dot (Dot (V 5) ''b'') ''length'') (K (JNum 2)))) [Do (PutIdx (Dot (V 4) ''b'') (Bin Minus (SetV 6 (Bin Minus (V 6) (K (JNum (- 1))))) (K (JNum 1))) (Bin Plus (Idx (Dot (V 5) ''b'') (V 1)) (K (JNum 1)))), Do (PutIdx (Dot (V 4) ''b'') (Bin Minus (SetV 6 (Bin Minus (V 6) (K (JNum (- 1))))) (K (JNum 1))) (Bin Minus (Idx (Dot (V 5) ''b'') (Bin Plus (V 1) (K (JNum 1)))) (K (JNum 1))))] [Do (SetV 1 (Bin Plus (V 1) (K (JNum 2))))], When (Neg (Loose (V 2) (G ''XJe''))) [Do (PutIdx (Dot (V 4) ''b'') (Bin Minus (SetV 6 (Bin Minus (V 6) (K (JNum (- 1))))) (K (JNum 1))) (Bin Plus (V 2) (K (JNum 1)))), Do (PutIdx (Dot (V 4) ''b'') (V 6) (G ''XJe''))] [], Do (Put (V 4) ''a'' (K (JBool True))), Ret (V 4)],
    fn ''$2b'' 2 9 [Do (Meth (V 1) ''Tg'' [K (JStr ''Hierarchical port dummy size processing''), K (JNum 1)]), Do (SetV 8 (New ''lmb'' [])), Do (SetV 10 (New ''lmb'' [])), Do (SetV 3 (Call ''Ueb'' [Call ''MD'' [Call ''oNb'' [V 0, Seq (Call ''nyc'' []) (G ''Jxc'')]]])), Do (SetV 2 (Bin Times (V 3) (K (JNum 2)))), Do (SetV 5 (New ''Kmb'' [Dot (V 0) ''b''])), Loop (Bin Lt (Dot (V 5) ''a'') (Dot (Dot (Dot (V 5) ''c'') ''c'') ''length'')) [Do (SetV 4 (Call ''JD'' [Call ''Imb'' [V 5], K (JNum 25)])), Do (Put (Dot (V 8) ''c'') ''length'' (K (JNum 0))), Do (Put (Dot (V 10) ''c'') ''length'' (K (JNum 0))), Do (SetV 7 (New ''Kmb'' [Dot (V 4) ''a''])), Loop (Bin Lt (Dot (V 7) ''a'') (Dot (Dot (Dot (V 7) ''c'') ''c'') ''length'')) [Do (SetV 6 (Call ''JD'' [Call ''Imb'' [V 7], K (JNum 9)])), When (Loose (Dot (V 6) ''k'') (Seq (Call ''$Yb'' []) (G ''TYb''))) [Do (SetV 9 (Call ''JD'' [Call ''oNb'' [V 6, Seq (Call ''Wrc'' []) (G ''$qc'')], K (JNum 64)])), Do (Cond (Loose (V 9) (Seq (Call ''Bmd'' []) (G ''hmd''))) (Seq (Call ''qDb'' [Dot (V 8) ''c'', V 6]) (K (JBool True))) (And (Loose (V 9) (G ''ymd'')) (Seq (Call ''qDb'' [Dot (V 10) ''c'', V 6]) (K (JBool True)))))] []] [], Do (Call ''_2b'' [V 8, K (JBool True), V 2]), Do (Call ''_2b'' [V 10, K (JBool False), V 2])] [], Do (Meth (V 1) ''Ug'' [])],
    fn ''EJd'' 3 8 [Do (SetV 3 (Meth (V 2) ''gc'' [])), When (Loose (V 3) (K (JNum 0))) [Ret (K (JBool False))] [When (Meth (V 0) ''Nj'' []) [Do (SetV 9 (Meth (V 0) ''Oj'' [])), Do (Call ''ZFd'' [V 0, V 1, V 2]), Do (SetV 6 (Cond (Loose (V 3) (K (JNum 1))) (Meth (V 0) ''Gj'' [K (JNum 3), K JNull, Meth (Meth (V 2) ''Jc'' []) ''Pb'' [], V 1, V 9]) (Meth (V 0) ''Gj'' [K (JNum 5), K JNull, V 2, V 1, V 9]))), When (Meth (V 0) ''Kj'' []) [Do (SetV 7 (Cond (Bin Lt (V 3) (K (JNum 100))) (K JNull) (New ''xJd'' [V 3]))), Do (SetV 5 (Bin Plus (V 1) (V 3))), Do (SetV 4 (V 1)), Loop (Bin Lt (V 4) (V 5)) [Do (SetV 10 (Idx (Dot (V 0) ''g'') (V 4))), Do (SetV 7 (Meth (V 0) ''Lj'' [V 10, V 7])), Do (SetV 7 (Meth (V 0) ''Sj'' [V 10, V 7]))] [Do (SetV 4 (Bin Minus (V 4) (K (JNum (- 1)))))], When (Neg (V 7)) [Do (Meth (V 0) ''Hj'' [V 6])] [Do (Meth (V 7) ''lj'' [V 6]), Do (Meth (V 7) ''mj'' [])]] [Do (Meth (V 0) ''Hj'' [V 6])]] [Do (Call ''ZFd'' [V 0, V 1, V 2]), When (Meth (V 0) ''Kj'' []) [Do (SetV 7 (Cond (Bin Lt (V 3) (K (JNum 100))) (K JNull) (New ''xJd'' [V 3]))), Do (SetV 5 (Bin Plus (V 1) (V 3))), Do (SetV 4 (V 1)), Loop (Bin Lt (V 4) (V 5)) [Do (SetV 8 (Idx (Dot (V 0) ''g'') (V 4))), Do (SetV 7 (Meth (V 0) ''Lj'' [V 8, V 7]))] [Do (SetV 4 (Bin Minus (V 4) (K (JNum (- 1)))))], Do (And (Neg (Neg (V 7))) (Meth (V 7) ''mj'' []))] []], Ret (K (JBool True))]],
    fn ''fPc'' 4 5 [Do (SetV 6 (New ''Kmb'' [Dot (V 0) ''k''])), Loop (Bin Lt (Dot (V 6) ''a'') (Dot (Dot (Dot (V 6) ''c'') ''c'') ''length'')) [Do (SetV 4 (Call ''JD'' [Call ''Imb'' [V 6], K (JNum 133)])), When (Or (Neg (V 3)) (Loose (Dot (V 4) ''c'') (Seq (Call ''QPc'' []) (G ''OPc'')))) [Do (SetV 8 (Dot (V 4) ''b'')), When (And (Bin Lt (Dot (V 8) ''g'') (K (JNum 0))) (Bin Gt (Dot (V 4) ''d'') (K (JNum 0)))) [Do (Call ''yPc'' [V 8, Bin Minus (Dot (V 8) ''d'') (Dot (V 4) ''d'')]), Do (And (Loose (Dot (V 4) ''c'') (Seq (Call ''QPc'' []) (G ''OPc''))) (Call ''wPc'' [V 8, Bin Minus (Dot (V 8) ''a'') (Dot (V 4) ''d'')])), Do (And (And (Bin Le (Dot (V 8) ''d'') (K (JNum 0))) (Bin Gt (Dot (V 8) ''i'') (K (JNum 0)))) (Seq (Call ''Wtb'' [V 1, V 8, Dot (Dot (V 1) ''c'') ''b'', Dot (V 1) ''c'']) (K (JBool True))))] []] []] [], Do (SetV 5 (New ''Kmb'' [Dot (V 0) ''f''])), Loop (Bin Lt (Dot (V 5) ''a'') (Dot (Dot (Dot (V 5) ''c'') ''c'') ''length'')) [Do (SetV 4 (Call ''JD'' [Call ''Imb'' [V 5], K (JNum 133)])), When (Or (Neg (V 3)) (Loose (Dot (V 4) ''c'') (Seq (Call ''QPc'' []) (G ''OPc'')))) [Do (SetV 7 (Dot (V 4) ''a'')), When (And (Bin Lt (Dot (V 7) ''g'') (K (JNum 0))) (Bin Gt (Dot (V 4) ''d'') (K (JNum 0)))) [Do (Call ''zPc'' [V 7, Bin Minus (Dot (V 7) ''i'') (Dot (V 4) ''d'')]), Do (And (Loose (Dot (V 4) ''c'') (Seq (Call ''QPc'' []) (G ''OPc''))) (Call ''xPc'' [V 7, Bin Minus (Dot (V 7) ''b'') (Dot (V 4) ''d'')])), Do (And (And (Bin Le (Dot (V 7) ''i'') (K (JNum 0))) (Bin Gt (Dot (V 7) ''d'') (K (JNum 0)))) (Seq (Call ''Wtb'' [V 2, V 7, Dot (Dot (V 2) ''c'') ''b'', Dot (V 2) ''c'']) (K (JBool True))))] []] []] []],
    fn ''Fod'' 5 9 [Do (Call ''Inb'' []), Do (Call ''jmb'' [V 0, New ''mpd'' []]), Do (SetV 6 (Call ''Zu'' [V 0])), Do (SetV 13 (New ''lmb'' [])), Do (SetV 12 (New ''lmb'' [])), Do (SetV 7 (K JNull)), Do (SetV 8 (K (JNum 0))), Loop (Neg (Loose (Dot (V 6) ''b'') (K (JNum 0)))) [Do (SetV 5 (Call ''JD'' [Cond (Loose (Dot (V 6) ''b'') (K (JNum 0))) (K JNull) (Seq (Call ''LDb'' [Neg (Loose (Dot (V 6) ''b'') (K (JNum 0)))]) (Call ''bub'' [V 6, Dot (Dot (V 6) ''a'') ''a''])), K (JNum 167)])), When (Or (Neg (V 7)) (Bin Lt (Bin Divide (Bin Times (Call ''Wod'' [V 7]) (Call ''Vod'' [V 7])) (K (JNum 2))) (Bin Times (Call ''Wod'' [V 5]) (Call ''Vod'' [V 5])))) [Do (SetV 7 (V 5)), Do (Call ''qDb'' [Dot (V 13) ''c'', V 5])] [Do (SetV 8 (Bin Plus (V 8) (Bin Times (Call ''Wod'' [V 5]) (Call ''Vod'' [V 5])))), Do (Call ''qDb'' [Dot (V 12) ''c'', V 5]), When (And (Bin Gt (Dot (Dot (V 12) ''c'') ''length'') (K (JNum 1))) (Or (Bin Gt (V 8) (Bin Divide (Bin Times (Call ''Wod'' [V 7]) (Call ''Vod'' [V 7])) (K (JNum 2)))) (Loose (Dot (V 6) ''b'') (K (JNum 0))))) [Do (SetV 11 (New ''_od'' [V 12])), Do (SetV 10 (Bin Divide (Call ''Wod'' [V 7]) (Call ''Vod'' [V 7]))), Do (SetV 9 (Call ''Kod'' [V 11, V 1, New ''gZb'' [], V 2, V 3, V 4, V 10])), Do (Call ''Vfd'' [Call ''cgd'' [Dot (V 11) ''e''], V 9]), Do (SetV 7 (V 11)), Do (Call ''qDb'' [Dot (V 13) ''c'', V 11]), Do (SetV 8 (K (JNum 0))), Do (Put (Dot (V 12) ''c'') ''length'' (K (JNum 0)))] []]] [], Do (Call ''bmb'' [V 13, V 12]), Ret (V 13)],
    fn ''rhb'' 5 7 [Do (Call ''qhb'' []), Do (Call ''ODb'' [V 0, K (JStr ''src'')]), Do (Call ''ODb'' [V 2, K (JStr ''dest'')]), Do (SetV 11 (Call ''rb'' [V 0])), Do (SetV 8 (Call ''rb'' [V 2])), Do (Call ''JDb'' [Neg (Loose (Bin BitAnd (Dot (V 11) ''i'') (K (JNum 4))) (K (JNum 0))), K (JStr ''srcType is not an array'')]), Do (Call ''JDb'' [Neg (Loose (Bin BitAnd (Dot (V 8) ''i'') (K (JNum 4))) (K (JNum 0))), K (JStr ''destType is not an array'')]), Do (SetV 10 (Dot (V 11) ''c'')), Do (SetV 6 (Dot (V 8) ''c'')), Do (Call ''JDb'' [Cond (Neg (Loose (Bin BitAnd (Dot (V 10) ''i'') (K (JNum 1))) (K (JNum 0)))) (Loose (V 10) (V 6)) (Loose (Bin BitAnd (Dot (V 6) ''i'') (K (JNum 1))) (K (JNum 0))), K (JStr (''Array types don'' @ CHR 0x27 # ''t match''))]), Do (Call ''shb'' [V 0, V 1, V 2, V 3, V 4]), When (And (Loose (Bin BitAnd (Dot (V 10) ''i'') (K (JNum 1))) (K (JNum 0))) (Neg (Loose (V 11) (V 8)))) [Do (SetV 9 (Call ''KD'' [V 0])), Do (SetV 5 (Call ''KD'' [V 2])), When (And (Same (Call ''XD'' [V 0]) (Call ''XD'' [V 2])) (Bin Lt (V 1) (V 3))) [Do (SetV 1 (Bin Plus (V 1) (V 4))), Do (SetV 7 (Bin Plus (V 3) (V 4))), Loop (Bin Gt (Bin Minus (SetV 7 (Bin Minus (V 7) (K (JNum 1)))) (K (JNum (- 1)))) (V 3)) [Do (Call ''VC'' [V 5, V 7, Idx (V 9) (SetV 1 (Bin Minus (V 1) (K (JNum 1))))])] []] [Do (SetV 7 (Bin Plus (V 3) (V 4))), Loop (Bin Lt (V 3) (V 7)) [Do (Call ''VC'' [V 5, Bin Minus (SetV 3 (Bin Minus (V 3) (K (JNum (- 1))))) (K (JNum 1)), Idx (V 9) (Bin Minus (SetV 1 (Bin Minus (V 1) (K (JNum (- 1))))) (K (JNum 1)))])] []]] [Do (Call ''mDb'' [V 0, V 1, V 2, V 3, V 4, K (JBool True)])]]]"

definition code_5863_5870 :: "(string \<times> jfun) list" where
  "code_5863_5870 = [
    fn ''dRc'' 5 10 [Do (SetV 12 (Call ''cRc'' [V 0, V 2])), Do (SetV 8 (K (JNum 0))), Loop (Bin Lt (V 8) (V 1)) [Do (Call ''Sjb'' [V 4, V 2]), Do (SetV 13 (New ''lmb'' [])), Do (SetV 14 (Seq (Call ''LDb'' [Bin Lt (Dot (V 3) ''b'') (Meth (Dot (V 3) ''d'') ''gc'' [])]) (Call ''JD'' [Meth (Dot (V 3) ''d'') ''Xb'' [Put (V 3) ''c'' (Bin Minus (Put (V 3) ''b'' (Bin Minus (Dot (V 3) ''b'') (K (JNum (- 1))))) (K (JNum 1)))], K (JNum 410)]))), Do (SetV 10 (Bin Plus (V 12) (V 8))), Loop (Bin Lt (V 10) (Dot (V 0) ''b'')) [Do (SetV 7 (V 14)), Do (SetV 14 (Seq (Call ''LDb'' [Bin Lt (Dot (V 3) ''b'') (Meth (Dot (V 3) ''d'') ''gc'' [])]) (Call ''JD'' [Meth (Dot (V 3) ''d'') ''Xb'' [Put (V 3) ''c'' (Bin Minus (Put (V 3) ''b'' (Bin Minus (Dot (V 3) ''b'') (K (JNum (- 1))))) (K (JNum 1)))], K (JNum 410)]))), Do (Call ''_lb'' [V 13, New ''jRc'' [V 7, V 14, V 2]])] [Do (Bin Minus (SetV 10 (Bin Minus (V 10) (K (JNum (- 1))))) (K (JNum 1)))], Do (SetV 11 (Bin Plus (V 12) (V 8))), Loop (Bin Lt (V 11) (Dot (V 0) ''b'')) [Do (Call ''LDb'' [Bin Gt (Dot (V 3) ''b'') (K (JNum 0))]), Do (Meth (Dot (V 3) ''a'') ''Xb'' [Put (V 3) ''c'' (Put (V 3) ''b'' (Bin Minus (Dot (V 3) ''b'') (K (JNum 1))))]), Do (And (Bin Gt (V 11) (Bin Plus (V 12) (V 8))) (Call ''Mjb'' [V 3]))] [Do (Bin Minus (SetV 11 (Bin Minus (V 11) (K (JNum (- 1))))) (K (JNum 1)))], Do (SetV 6 (New ''Kmb'' [V 13])), Loop (Bin Lt (Dot (V 6) ''a'') (Dot (Dot (Dot (V 6) ''c'') ''c'') ''length'')) [Do (SetV 5 (Call ''JD'' [Call ''Imb'' [V 6], K (JNum 410)])), Do (Call ''Sjb'' [V 3, V 5])] [], When (Bin Lt (V 8) (Bin Minus (V 1) (K (JNum 1)))) [Do (SetV 9 (Bin Plus (V 12) (V 8))), Loop (Bin Lt (V 9) (Dot (V 0) ''b'')) [Do (Call ''LDb'' [Bin Gt (Dot (V 3) ''b'') (K (JNum 0))]), Do (Meth (Dot (V 3) ''a'') ''Xb'' [Put (V 3) ''c'' (Put (V 3) ''b'' (Bin Minus (Dot (V 3) ''b'') (K (JNum 1))))])] [Do (Bin Minus (SetV 9 (Bin Minus (V 9) (K (JNum (- 1))))) (K (JNum 1)))]] []] [Do (Bin Minus (SetV 8 (Bin Minus (V 8) (K (JNum (- 1))))) (K (JNum 1)))]],
    fn ''tre'' 0 6 [Do (Call ''gre'' []), When (G ''Sqe'') [Ret (G ''Sqe'')] [], Do (SetV 0 (Seq (SetG ''fre'' (Bin Minus (G ''fre'') (K (JNum (- 1))))) (New ''Kre'' [K (JNum 4)]))), Do (Call ''Hre'' [V 0, Call ''ure'' [G ''fKe'', K (JBool True)]]), Do (Call ''Jre'' [V 0, Call ''ure'' [K (JStr ''M''), K (JBool True)]]), Do (Call ''Jre'' [V 0, Call ''ure'' [K (JStr ''C''), K (JBool True)]]), Do (SetV 5 (Seq (SetG ''fre'' (Bin Minus (G ''fre'') (K (JNum (- 1))))) (New ''Kre'' [K (JNum 4)]))), Do (SetV 3 (K (JNum 0))), Loop (Bin Lt (V 3) (K (JNum 11))) [Do (Call ''Ere'' [V 5, V 3, V 3])] [Do (Bin Minus (SetV 3 (Bin Minus (V 3) (K (JNum (- 1))))) (K (JNum 1)))], Do (SetV 1 (Seq (SetG ''fre'' (Bin Minus (G ''fre'') (K (JNum (- 1))))) (New ''Kre'' [K (JNum 4)]))), Do (Call ''Hre'' [V 1, Call ''ure'' [K (JStr ''M''), K (JBool True)]]), Do (Call ''Ere'' [V 1, K (JNum 4448), K (JNum 4607)]), Do (Call ''Ere'' [V 1, K (JNum 65438), K (JNum 65439)]), Do (SetV 4 (Seq (SetG ''fre'' (Bin Minus (G ''fre'') (K (JNum (- 1))))) (New ''vse'' [K (JNum 2)]))), Do (Call ''use'' [V 4, V 0]), Do (Call ''use'' [V 4, G ''Rqe'']), Do (SetV 2 (Seq (SetG ''fre'' (Bin Minus (G ''fre'') (K (JNum (- 1))))) (New ''vse'' [K (JNum 2)]))), Do (Meth (V 2) ''Hm'' [Call ''lre'' [V 5, Call ''ure'' [K (JStr ''L''), K (JBool True)]]]), Do (Meth (V 2) ''Hm'' [V 1]), Do (SetV 2 (Seq (SetG ''fre'' (Bin Minus (G ''fre'') (K (JNum (- 1))))) (New ''Xre'' [K (JNum 3), V 2]))), Do (SetV 2 (Seq (SetG ''fre'' (Bin Minus (G ''fre'') (K (JNum (- 1))))) (New ''bse'' [V 4, V 2]))), Do (SetG ''Sqe'' (V 2)), Ret (G ''Sqe'')],
    fn ''Fgb'' 2 8 [Do (SetV 2 (New ''RegExp'' [V 1, K (JStr ''g'')])), Do (SetV 8 (Call ''SC'' [G ''hJ'', G ''aue'', K (JNum 2), K (JNum 0), K (JNum 6), K (JNum 1)])), Do (SetV 3 (K (JNum 0))), Do (SetV 9 (V 0)), Do (SetV 5 (K JNull)), Loop (K (JBool True)) [Do (SetV 7 (Meth (V 2) ''exec'' [V 9])), When (Or (Loose (V 7) (K JNull)) (Loose (V 9) (K (JStr '''')))) [Do (PutIdx (V 8) (V 3) (V 9)), Break] [Do (SetV 6 (Dot (V 7) ''index'')), Do (PutIdx (V 8) (V 3) (Seq (Call ''TDb'' [K (JNum 0), V 6, Dot (V 9) ''length'']) (Meth (V 9) ''substr'' [K (JNum 0), V 6]))), Do (SetV 9 (Call ''Jgb'' [V 9, Bin Plus (V 6) (Dot (Idx (V 7) (K (JNum 0))) ''length''), Dot (V 9) ''length''])), Do (Put (V 2) ''lastIndex'' (K (JNum 0))), When (Loose (V 5) (V 9)) [Do (PutIdx (V 8) (V 3) (Seq (Call ''TDb'' [K (JNum 0), K (JNum 1), Dot (V 9) ''length'']) (Meth (V 9) ''substr'' [K (JNum 0), K (JNum 1)]))), Do (SetV 9 (Seq (Call ''UDb'' [K (JNum 1), Bin Plus (Dot (V 9) ''length'') (K (JNum 1))]) (Meth (V 9) ''substr'' [K (JNum 1)])))] [], Do (SetV 5 (V 9)), Do (SetV 3 (Bin Minus (V 3) (K (JNum (- 1)))))]] [], When (Bin Gt (Dot (V 0) ''length'') (K (JNum 0))) [Do (SetV 4 (Dot (V 8) ''length'')), Loop (And (Bin Gt (V 4) (K (JNum 0))) (Loose (Idx (V 8) (Bin Minus (V 4) (K (JNum 1)))) (K (JStr '''')))) [Do (SetV 4 (Bin Minus (V 4) (K (JNum 1))))] [], Do (And (Bin Lt (V 4) (Dot (V 8) ''length'')) (Put (V 8) ''length'' (V 4)))] [], Ret (V 8)],
    fn ''ZWb'' 1 6 [When (Neg (Dot (V 0) ''b'')) [Do (Put (V 0) ''b'' (New ''lmb'' [])), Do (SetV 4 (New ''Kmb'' [Dot (Dot (V 0) ''a'') ''b''])), Loop (Bin Lt (Dot (V 4) ''a'') (Dot (Dot (Dot (V 4) ''c'') ''c'') ''length'')) [Do (SetV 3 (Call ''JD'' [Call ''Imb'' [V 4], K (JNum 25)])), Do (SetV 6 (New ''Kmb'' [Dot (V 3) ''a''])), Loop (Bin Lt (Dot (V 6) ''a'') (Dot (Dot (Dot (V 6) ''c'') ''c'') ''length'')) [Do (SetV 5 (Call ''JD'' [Call ''Imb'' [V 6], K (JNum 9)])), When (Meth (Dot (V 0) ''c'') ''Mb'' [V 5]) [Do (Call ''_lb'' [Dot (V 0) ''b'', New ''kXb'' [V 0, V 5, Dot (V 0) ''e'']]), When (Dot (V 0) ''d'') [When (Call ''pNb'' [V 5, Seq (Call ''Wrc'' []) (G ''Urc'')]) [Do (SetV 2 (Meth (Call ''JD'' [Call ''oNb'' [V 5, G ''Urc''], K (JNum 16)]) ''Jc'' [])), Loop (Meth (V 2) ''Ob'' []) [Do (SetV 1 (Call ''JD'' [Meth (V 2) ''Pb'' [], K (JNum 9)])), Do (Call ''_lb'' [Dot (V 0) ''b'', New ''kXb'' [V 0, V 1, K (JBool False)]])] []] [], When (Call ''pNb'' [V 5, G ''Lqc'']) [Do (SetV 2 (Meth (Call ''JD'' [Call ''oNb'' [V 5, G ''Lqc''], K (JNum 16)]) ''Jc'' [])), Loop (Meth (V 2) ''Ob'' []) [Do (SetV 1 (Call ''JD'' [Meth (V 2) ''Pb'' [], K (JNum 9)])), Do (Call ''_lb'' [Dot (V 0) ''b'', New ''kXb'' [V 0, V 1, K (JBool False)]])] []] []] []] []] []] []] [], Ret (Dot (V 0) ''b'')],
    fn ''SXc'' 0 0 [Do (SetG ''SXc'' (G ''qdb'')), Do (SetG ''DXc'' (New ''hZb'' [K (JNum 20)])), Do (SetG ''CXc'' (New ''FEd'' [Seq (Call ''vjd'' []) (G ''rid''), G ''DXc''])), Do (SetG ''KXc'' (New ''FEd'' [G ''djd'', K (JNum 20)])), Do (SetG ''JXc'' (New ''FEd'' [G ''Zid'', K (JNum 3)])), Do (SetG ''nXc'' (New ''FEd'' [G ''xhd'', G ''Bxe''])), Do (SetG ''GXc'' (New ''FEd'' [G ''Pid'', Call ''Cfb'' [K (JNum 1)]])), Do (SetG ''IXc'' (New ''FEd'' [G ''Tid'', Seq (Call ''Qdb'' []) (K (JBool True))])), Do (SetG ''pXc'' (G ''Ghd'')), Do (SetG ''rXc'' (Seq (Call ''Djd'' []) (G ''Bjd''))), Do (SetG ''qXc'' (New ''FEd'' [G ''Hhd'', G ''rXc''])), Do (SetG ''uXc'' (G ''Whd'')), Do (SetG ''vXc'' (G ''Xhd'')), Do (SetG ''xXc'' (G ''iid'')), Do (SetG ''yXc'' (G ''kid'')), Do (SetG ''zXc'' (G ''lid'')), Do (SetG ''AXc'' (G ''nid'')), Do (SetG ''wXc'' (G ''gid'')), Do (SetG ''BXc'' (G ''qid'')), Do (SetG ''EXc'' (G ''Jid'')), Do (SetG ''RXc'' (Seq (Call ''kXc'' []) (G ''iXc''))), Do (SetG ''HXc'' (G ''fXc'')), Do (SetG ''NXc'' (G ''kjd'')), Do (SetG ''PXc'' (G ''ojd'')), Do (SetG ''MXc'' (G ''jjd'')), Do (SetG ''LXc'' (G ''ijd'')), Do (SetG ''OXc'' (Seq (Call ''Gnd'' []) (G ''Dnd''))), Do (New ''FEd'' [G ''ljd'', G ''OXc'']), Do (SetG ''FXc'' (G ''eXc'')), Do (SetG ''tXc'' (G ''cXc'')), Do (SetG ''QXc'' (G ''hXc'')), Do (SetG ''oXc'' (G ''aXc'')), Do (SetG ''sXc'' (G ''bXc''))],
    fn ''eod'' 1 13 [Do (SetV 7 (Call ''Rzd'' [V 0])), Do (SetV 12 (Call ''dod'' [V 0])), Do (SetV 1 (Dot (Call ''JD'' [Call ''cvd'' [V 0, Seq (Call ''vjd'' []) (G ''sjd'')], K (JNum 15)]) ''a'')), When (V 7) [Do (SetV 11 (G ''Ate'')), Do (SetV 10 (G ''Eue'')), Do (SetV 3 (New ''uKd'' [Seq (And (Neg (Dot (V 7) ''a'')) (Put (V 7) ''a'' (New ''P3d'' [G ''T3'', V 7, K (JNum 10), K (JNum 11)]))) (Dot (V 7) ''a'')])), Loop (Neg (Loose (Dot (V 3) ''e'') (Meth (Dot (V 3) ''i'') ''gc'' []))) [Do (SetV 2 (Call ''JD'' [Call ''sKd'' [V 3], K (JNum 26)])), Do (SetV 8 (Call ''dod'' [V 2])), Do (And (Bin Gt (V 8) (V 10)) (SetV 10 (V 8))), Do (And (Bin Lt (V 8) (V 11)) (SetV 11 (V 8)))] [], Do (SetV 9 (Meth (Dot (G ''$wnd'') ''Math'') ''pow'' [K (JNum 4), V 1])), Do (And (Bin Gt (V 10) (V 9)) (SetV 9 (V 10))), Do (SetV 13 (Bin Divide (Bin Minus (Meth (Dot (G ''$wnd'') ''Math'') ''log'' [V 9]) (Meth (Dot (G ''$wnd'') ''Math'') ''log'' [K (JNum 1)])) (V 1))), Do (SetV 5 (Meth (Dot (G ''$wnd'') ''Math'') ''exp'' [V 13])), Do (SetV 4 (V 5)), Do (SetV 6 (K (JNum 0))), Loop (Bin Lt (V 6) (V 1)) [When (Bin Lt (V 12) (V 4)) [Ret (Meth (Dot (G ''$wnd'') ''Math'') ''pow'' [K (JNum 2), V 6])] [Do (SetV 4 (Bin Times (V 4) (V 5)))]] [Do (Bin Minus (SetV 6 (Bin Minus (V 6) (K (JNum (- 1))))) (K (JNum 1)))], Ret (Meth (Dot (G ''$wnd'') ''Math'') ''pow'' [K (JNum 2), Bin Minus (V 1) (K (JNum 1))])] [Ret (K (JNum 1))]],
    fn ''TNc'' 1 11 [Do (SetV 11 (New ''SNc'' [])), Do (Put (V 11) ''d'' (K (JNum 0))), Do (SetV 6 (New ''Kmb'' [Dot (V 0) ''b''])), Loop (Bin Lt (Dot (V 6) ''a'') (Dot (Dot (Dot (V 6) ''c'') ''c'') ''length'')) [Do (SetV 5 (Call ''JD'' [Call ''Imb'' [V 6], K (JNum 25)])), Do (Put (V 11) ''d'' (Bin Plus (Dot (V 11) ''d'') (Dot (Dot (Dot (V 5) ''a'') ''c'') ''length'')))] [], Do (SetV 3 (K (JNum 0))), Do (SetV 4 (K (JNum 0))), Do (Put (V 11) ''a'' (Call ''SC'' [G ''cE'', G ''bve'', K (JNum 30), Dot (Dot (Dot (V 0) ''b'') ''c'') ''length'', K (JNum 15), K (JNum 1)])), Do (SetV 9 (K (JNum 0))), Do (SetV 10 (K (JNum 0))), Do (Put (V 11) ''e'' (Call ''SC'' [G ''cE'', G ''bve'', K (JNum 30), Dot (V 11) ''d'', K (JNum 15), K (JNum 1)])), Do (SetV 2 (New ''Kmb'' [Dot (V 0) ''b''])), Loop (Bin Lt (Dot (V 2) ''a'') (Dot (Dot (Dot (V 2) ''c'') ''c'') ''length'')) [Do (SetV 1 (Call ''JD'' [Call ''Imb'' [V 2], K (JNum 25)])), Do (Put (V 1) ''p'' (Bin Minus (SetV 3 (Bin Minus (V 3) (K (JNum (- 1))))) (K (JNum 1)))), Do (PutIdx (Dot (V 11) ''a'') (Dot (V 1) ''p'') (Bin Minus (SetV 4 (Bin Minus (V 4) (K (JNum (- 1))))) (K (JNum 1)))), Do (SetV 10 (K (JNum 0))), Do (SetV 8 (New ''Kmb'' [Dot (V 1) ''a''])), Loop (Bin Lt (Dot (V 8) ''a'') (Dot (Dot (Dot (V 8) ''c'') ''c'') ''length'')) [Do (SetV 7 (Call ''JD'' [Call ''Imb'' [V 8], K (JNum 9)])), Do (Put (V 7) ''p'' (Bin Minus (SetV 9 (Bin Minus (V 9) (K (JNum (- 1))))) (K (JNum 1)))), Do (PutIdx (Dot (V 11) ''e'') (Dot (V 7) ''p'') (Bin Minus (SetV 10 (Bin Minus (V 10) (K (JNum (- 1))))) (K (JNum 1))))] []] [], Do (Put (V 11) ''c'' (New ''XNc'' [V 11])), Do (Put (V 11) ''b'' (Call ''Xu'' [Dot (V 11) ''d''])), Do (Call ''UNc'' [V 11, V 0]), Do (Put (V 11) ''f'' (Call ''Xu'' [Dot (V 11) ''d''])), Do (Call ''VNc'' [V 11, V 0]), Ret (V 11)],
    fn ''Ycd'' 1 2 [Do (SetV 1 (Call ''OD'' [Call ''cvd'' [V 0, Seq (Call ''vjd'' []) (G ''uhd'')]])), When (Call ''Zcd'' [V 1, V 0]) [Ret (K JUndef)] [], When (And (Neg (Call ''dvd'' [V 0, G ''Rid''])) (Or (Neg (Loose (Dot (Seq (And (Neg (Dot (V 0) ''a'')) (Put (V 0) ''a'' (New ''P3d'' [G ''T3'', V 0, K (JNum 10), K (JNum 11)]))) (Dot (V 0) ''a'')) ''i'') (K (JNum 0)))) (Call ''Rdb'' [Call ''LD'' [Call ''cvd'' [V 0, G ''Uhd'']]]))) [When (Or (Loose (V 1) (K JNull)) (Loose (Dot (Call ''Ngb'' [V 1]) ''length'') (K (JNum 0)))) [When (Neg (Call ''Zcd'' [G ''Gve'', V 0])) [Do (SetV 2 (Call ''hhb'' [Call ''hhb'' [New ''nhb'' [K (JStr ''Unable to load default layout algorithm '')], G ''Gve''], K (JStr '' for unconfigured node '')])), Do (Call ''cqd'' [V 0, V 2]), Raise (Call ''Lcb'' [New ''Ebd'' [Dot (V 2) ''a'']])] []] [Do (SetV 2 (Call ''hhb'' [Call ''hhb'' [New ''nhb'' [K (JStr (''Layout algorithm '' @ CHR 0x27 # ''''))], V 1], K (JStr (CHR 0x27 # '' not found for ''))])), Do (Call ''cqd'' [V 0, V 2]), Raise (Call ''Lcb'' [New ''Ebd'' [Dot (V 2) ''a'']])]] []]]"

definition code_5872_5874 :: "(string \<times> jfun) list" where
  "code_5872_5874 = [
    fn ''gmc'' 1 10 [Do (SetV 10 (Call ''SC'' [G ''cE'', G ''bve'', K (JNum 30), Bin Plus (Dot (Dot (Dot (V 0) ''b'') ''c'') ''length'') (K (JNum 1)), K (JNum 15), K (JNum 1)])), Do (SetV 9 (New ''hsb'' [])), Do (SetV 3 (K (JNum 0))), Do (SetV 5 (New ''Kmb'' [Dot (V 0) ''b''])), Loop (Bin Lt (Dot (V 5) ''a'') (Dot (Dot (Dot (V 5) ''c'') ''c'') ''length'')) [Do (SetV 4 (Call ''JD'' [Call ''Imb'' [V 5], K (JNum 25)])), Do (PutIdx (V 10) (Bin Minus (SetV 3 (Bin Minus (V 3) (K (JNum (- 1))))) (K (JNum 1))) (Meth (Dot (V 9) ''a'') ''gc'' [])), Do (SetV 8 (New ''Kmb'' [Dot (V 4) ''a''])), Loop (Bin Lt (Dot (V 8) ''a'') (Dot (Dot (Dot (V 8) ''c'') ''c'') ''length'')) [Do (SetV 6 (Call ''JD'' [Call ''Imb'' [V 8], K (JNum 9)])), Do (SetV 2 (New ''Yr'' [Call ''Dr'' [Meth (Dot (Call ''HYb'' [V 6]) ''a'') ''Jc'' [], New ''Dl'' []]])), Loop (Call ''Wr'' [V 2]) [Do (SetV 1 (Call ''JD'' [Call ''Xr'' [V 2], K (JNum 17)])), Do (Meth (Dot (V 9) ''a'') ''yc'' [V 1, V 9])] []] [], Do (SetV 7 (New ''Kmb'' [Dot (V 4) ''a''])), Loop (Bin Lt (Dot (V 7) ''a'') (Dot (Dot (Dot (V 7) ''c'') ''c'') ''length'')) [Do (SetV 6 (Call ''JD'' [Call ''Imb'' [V 7], K (JNum 9)])), Do (SetV 2 (New ''Yr'' [Call ''Dr'' [Meth (Dot (Call ''EYb'' [V 6]) ''a'') ''Jc'' [], New ''Dl'' []]])), Loop (Call ''Wr'' [V 2]) [Do (SetV 1 (Call ''JD'' [Call ''Xr'' [V 2], K (JNum 17)])), Do (Neg (Loose (Meth (Dot (V 9) ''a'') ''Ac'' [V 1]) (K JNull)))] []] []] [], Ret (V 10)],
    fn ''I6c'' 2 4 [Do (SetV 5 (Dot (Call ''JD'' [Call ''dmb'' [Dot (V 0) ''n'', Bin Minus (Dot (Dot (Dot (V 0) ''n'') ''c'') ''length'') (K (JNum 1))], K (JNum 208)]) ''d'')), Do (Put (V 0) ''p'' (Meth (Dot (G ''$wnd'') ''Math'') ''min'' [Dot (V 0) ''p'', Dot (V 1) ''g''])), Do (Put (V 0) ''r'' (Meth (Dot (G ''$wnd'') ''Math'') ''max'' [Dot (V 0) ''r'', V 5])), Do (Put (V 0) ''g'' (Meth (Dot (G ''$wnd'') ''Math'') ''max'' [Dot (V 0) ''g'', Bin Plus (Dot (V 1) ''g'') (Cond (Loose (Dot (Dot (Dot (V 0) ''b'') ''c'') ''length'') (K (JNum 1))) (K (JNum 0)) (Dot (V 0) ''i''))])), Do (Put (V 0) ''o'' (Meth (Dot (G ''$wnd'') ''Math'') ''min'' [Dot (V 0) ''o'', Dot (V 1) ''f''])), Do (Put (V 0) ''e'' (Bin Plus (Dot (V 0) ''e'') (Bin Plus (Dot (V 1) ''f'') (Cond (Loose (Dot (Dot (Dot (V 0) ''b'') ''c'') ''length'') (K (JNum 1))) (K (JNum 0)) (Dot (V 0) ''i''))))), Do (Put (V 0) ''f'' (Meth (Dot (G ''$wnd'') ''Math'') ''max'' [Dot (V 0) ''f'', Dot (V 1) ''f''])), Do (SetV 4 (Cond (Bin Gt (Dot (Dot (Dot (V 0) ''n'') ''c'') ''length'') (K (JNum 0))) (Bin Times (Bin Minus (Dot (Dot (Dot (V 0) ''n'') ''c'') ''length'') (K (JNum 1))) (Dot (V 0) ''i'')) (K (JNum 0)))), Do (SetV 3 (New ''Kmb'' [Dot (V 0) ''n''])), Loop (Bin Lt (Dot (V 3) ''a'') (Dot (Dot (Dot (V 3) ''c'') ''c'') ''length'')) [Do (SetV 2 (Call ''JD'' [Call ''Imb'' [V 3], K (JNum 208)])), Do (SetV 4 (Bin Plus (V 4) (Dot (V 2) ''a'')))] [], Do (Put (V 0) ''d'' (V 4)), Do (Put (V 0) ''a'' (Bin Minus (Bin Divide (Dot (V 0) ''e'') (Dot (Dot (Dot (V 0) ''b'') ''c'') ''length'')) (Bin Times (Dot (V 0) ''i'') (Bin Divide (Bin Minus (Dot (Dot (Dot (V 0) ''b'') ''c'') ''length'') (K (JNum 1))) (Dot (Dot (Dot (V 0) ''b'') ''c'') ''length''))))), Do (Call ''A7c'' [Dot (V 0) ''j''])],
    fn ''VMb'' 2 10 [Do (SetV 10 (Call ''LD'' [Call ''oNb'' [V 1, Seq (Call ''aPb'' []) (G ''TOb'')]])), When (Or (Loose (V 10) (K JNull)) (Seq (Call ''NDb'' [V 10]) (V 10))) [Do (SetV 11 (Call ''SC'' [G ''Icb'', G ''Nwe'', K (JNum 30), Dot (Dot (Dot (V 1) ''e'') ''c'') ''length'', K (JNum 16), K (JNum 1)])), Do (SetV 6 (Call ''RMb'' [V 1])), Do (SetV 4 (New ''dub'' [])), Do (SetV 9 (New ''Kmb'' [Dot (V 1) ''e''])), Loop (Bin Lt (Dot (V 9) ''a'') (Dot (Dot (Dot (V 9) ''c'') ''c'') ''length'')) [Do (SetV 7 (Call ''JD'' [Call ''Imb'' [V 9], K (JNum 155)])), Do (SetV 2 (Call ''SMb'' [V 0, V 7, K JNull, K JNull, V 11, V 6])), When (V 2) [Do (Call ''mNb'' [V 2, V 1]), Do (Call ''Wtb'' [V 4, V 2, Dot (Dot (V 4) ''c'') ''b'', Dot (V 4) ''c''])] []] [], When (Bin Gt (Dot (V 4) ''b'') (K (JNum 1))) [Do (SetV 3 (Call ''Ztb'' [V 4, K (JNum 0)])), Loop (Neg (Loose (Dot (V 3) ''b'') (Dot (Dot (V 3) ''d'') ''c''))) [Do (SetV 2 (Call ''JD'' [Call ''lub'' [V 3], K (JNum 235)])), Do (SetV 5 (K (JNum 0))), Do (SetV 8 (New ''Kmb'' [Dot (V 2) ''e''])), Loop (Bin Lt (Dot (V 8) ''a'') (Dot (Dot (Dot (V 8) ''c'') ''c'') ''length'')) [Do (SetV 7 (Call ''JD'' [Call ''Imb'' [V 8], K (JNum 155)])), Do (Put (V 7) ''a'' (Bin Minus (SetV 5 (Bin Minus (V 5) (K (JNum (- 1))))) (K (JNum 1))))] []] []] [], Ret (V 4)] [], Ret (Call ''Wu'' [Call ''WC'' [Call ''OC'' [G ''_N'', K (JNum 1)], G ''gxe'', K (JNum 235), K (JNum 0), NewArr [V 1]]])]]"

definition code_5879_5892 :: "(string \<times> jfun) list" where
  "code_5879_5892 = [
    fn ''qee'' 4 5 [Do (SetV 8 (Call ''Cie'' [Meth (Dot (V 0) ''e'') ''Ah'' [], V 1])), Do (SetV 4 (Call ''JD'' [Dot (V 0) ''g'', K (JNum 122)])), Do (Call ''Aie'' []), When (Meth (Call ''JD'' [V 1, K (JNum 69)]) ''vk'' []) [Do (SetV 6 (K (JNum 0))), Loop (Bin Lt (V 6) (Dot (V 0) ''i'')) [Do (SetV 5 (Idx (V 4) (V 6))), When (And (Meth (V 8) ''$l'' [Meth (V 5) ''Jk'' []]) (Call ''pb'' [V 5, V 2])) [Ret (K (JBool True))] []] [Do (SetV 6 (Bin Minus (V 6) (K (JNum (- 1)))))]] [When (Neg (Loose (V 2) (K JNull))) [Do (SetV 7 (K (JNum 0))), Loop (Bin Lt (V 7) (Dot (V 0) ''i'')) [Do (SetV 5 (Idx (V 4) (V 7))), When (And (Meth (V 8) ''$l'' [Meth (V 5) ''Jk'' []]) (Call ''pb'' [V 2, Meth (V 5) ''kd'' []])) [Ret (K (JBool True))] []] [Do (SetV 7 (Bin Minus (V 7) (K (JNum (- 1)))))], When (V 3) [Do (SetV 6 (K (JNum 0))), Loop (Bin Lt (V 6) (Dot (V 0) ''i'')) [Do (SetV 5 (Idx (V 4) (V 6))), When (And (Meth (V 8) ''$l'' [Meth (V 5) ''Jk'' []]) (Same (Call ''XD'' [V 2]) (Call ''XD'' [Call ''Nee'' [V 0, Call ''JD'' [Meth (V 5) ''kd'' [], K (JNum 57)]]]))) [Ret (K (JBool True))] []] [Do (SetV 6 (Bin Minus (V 6) (K (JNum (- 1)))))]] []] [Do (SetV 6 (K (JNum 0))), Loop (Bin Lt (V 6) (Dot (V 0) ''i'')) [Do (SetV 5 (Idx (V 4) (V 6))), When (And (Meth (V 8) ''$l'' [Meth (V 5) ''Jk'' []]) (Loose (Meth (V 5) ''kd'' []) (K JNull))) [Ret (K (JBool False))] []] [Do (SetV 6 (Bin Minus (V 6) (K (JNum (- 1)))))]]], Ret (K (JBool False))],
    fn ''Jce'' 2 6 [Do (SetV 2 (Meth (V 1) ''ni'' [Dot (V 0) ''a''])), When (V 2) [Do (SetV 7 (Call ''OD'' [Call ''pMd'' [Seq (And (Neg (Dot (V 2) ''b'')) (Put (V 2) ''b'' (New ''dUd'' [Seq (Call ''WRd'' []) (G ''SRd''), G ''N7'', V 2]))) (Dot (V 2) ''b''), G ''QGe'']])), When (Neg (Loose (V 7) (K JNull))) [Do (SetV 4 (Call ''Dgb'' [V 7, Call ''Pgb'' [K (JNum 35)]])), Do (SetV 3 (Meth (V 1) ''ok'' [])), When (Loose (V 4) (K (JNum (- 1)))) [Do (SetV 6 (Call ''fde'' [V 0, Call ''OVd'' [V 3]])), Do (SetV 5 (V 7))] [When (Loose (V 4) (K (JNum 0))) [Do (SetV 6 (K JNull)), Do (SetV 5 (Seq (Call ''UDb'' [K (JNum 1), Bin Plus (Dot (V 7) ''length'') (K (JNum 1))]) (Meth (V 7) ''substr'' [K (JNum 1)])))] [Do (SetV 6 (Seq (Call ''TDb'' [K (JNum 0), V 4, Dot (V 7) ''length'']) (Meth (V 7) ''substr'' [K (JNum 0), V 4]))), Do (SetV 5 (Seq (Call ''UDb'' [Bin Plus (V 4) (K (JNum 1)), Bin Plus (Dot (V 7) ''length'') (K (JNum 1))]) (Meth (V 7) ''substr'' [Bin Plus (V 4) (K (JNum 1))])))]], Switch (Call ''Lde'' [Call ''bde'' [V 0, V 1]]) [(Some (JNum 2), []), (Some (JNum 3), [Ret (Call ''Wce'' [V 0, V 3, V 6, V 5])]), (Some (JNum 0), []), (Some (JNum 4), []), (Some (JNum 5), []), (Some (JNum 6), [Ret (Call ''Zce'' [V 0, V 3, V 6, V 5])])]] []] [], Ret (K JNull)],
    fn ''hMb'' 4 4 [Do (SetV 7 (V 2)), Do (SetV 6 (New ''Kmb'' [Dot (V 1) ''a''])), Loop (Bin Lt (Dot (V 6) ''a'') (Dot (Dot (Dot (V 6) ''c'') ''c'') ''length'')) [Do (SetV 5 (Call ''JD'' [Call ''Imb'' [V 6], K (JNum 225)])), Do (SetV 4 (Call ''JD'' [Dot (V 5) ''b'', K (JNum 68)])), When (And (And (And (Bin Le (Call ''Ty'' [Dot (Dot (V 0) ''b'') ''c'', Bin Plus (Dot (Dot (V 4) ''b'') ''c'') (Dot (Dot (V 4) ''b'') ''b'')]) (K (JNum 0))) (Bin Le (Call ''Ty'' [Dot (Dot (V 4) ''b'') ''c'', Bin Plus (Dot (Dot (V 0) ''b'') ''c'') (Dot (Dot (V 0) ''b'') ''b'')]) (K (JNum 0)))) (Bin Le (Call ''Ty'' [Dot (Dot (V 0) ''b'') ''d'', Bin Plus (Dot (Dot (V 4) ''b'') ''d'') (Dot (Dot (V 4) ''b'') ''a'')]) (K (JNum 0)))) (Bin Le (Call ''Ty'' [Dot (Dot (V 4) ''b'') ''d'', Bin Plus (Dot (Dot (V 0) ''b'') ''d'') (Dot (Dot (V 0) ''b'') ''a'')]) (K (JNum 0)))) [When (Or (Or (Or (And (Loose (Call ''Ty'' [Dot (Dot (V 4) ''b'') ''c'', Bin Plus (Dot (Dot (V 0) ''b'') ''c'') (Dot (Dot (V 0) ''b'') ''b'')]) (K (JNum 0))) (Bin Lt (Dot (V 3) ''a'') (K (JNum 0)))) (And (Loose (Call ''Ty'' [Bin Plus (Dot (Dot (V 4) ''b'') ''c'') (Dot (Dot (V 4) ''b'') ''b''), Dot (Dot (V 0) ''b'') ''c'']) (K (JNum 0))) (Bin Gt (Dot (V 3) ''a'') (K (JNum 0))))) (And (Loose (Call ''Ty'' [Dot (Dot (V 4) ''b'') ''d'', Bin Plus (Dot (Dot (V 0) ''b'') ''d'') (Dot (Dot (V 0) ''b'') ''a'')]) (K (JNum 0))) (Bin Lt (Dot (V 3) ''b'') (K (JNum 0))))) (And (Loose (Call ''Ty'' [Bin Plus (Dot (Dot (V 4) ''b'') ''d'') (Dot (Dot (V 4) ''b'') ''a''), Dot (Dot (V 0) ''b'') ''d'']) (K (JNum 0))) (Bin Gt (Dot (V 3) ''b'') (K (JNum 0))))) [Do (SetV 7 (K (JNum 0))), Break] []] [Do (SetV 7 (Meth (Dot (G ''$wnd'') ''Math'') ''min'' [V 7, Call ''rMb'' [V 0, V 4, V 3]]))], Do (SetV 7 (Meth (Dot (G ''$wnd'') ''Math'') ''min'' [V 7, Call ''hMb'' [V 0, V 5, V 7, V 3]]))] [], Ret (V 7)],
    fn ''Npd'' 2 7 [When (Bin Lt (Dot (V 0) ''b'') (K (JNum 2))) [Raise (Call ''Lcb'' [New ''kfb'' [K (JStr ''The vector chain must contain at least a source and a target point.'')]])] [], Do (SetV 4 (Seq (Call ''LDb'' [Neg (Loose (Dot (V 0) ''b'') (K (JNum 0)))]) (Call ''JD'' [Dot (Dot (Dot (V 0) ''a'') ''a'') ''c'', K (JNum 8)]))), Do (Call ''hxd'' [V 1, Dot (V 4) ''a'', Dot (V 4) ''b'']), Do (SetV 8 (New ''DKd'' [Seq (And (Neg (Dot (V 1) ''a'')) (Put (V 1) ''a'' (New ''iYd'' [G ''N3'', V 1, K (JNum 5)]))) (Dot (V 1) ''a'')])), Do (SetV 6 (Call ''Ztb'' [V 0, K (JNum 1)])), Loop (Bin Lt (Dot (V 6) ''a'') (Bin Minus (Dot (V 0) ''b'') (K (JNum 1)))) [Do (SetV 7 (Call ''JD'' [Call ''lub'' [V 6], K (JNum 8)])), When (Neg (Loose (Dot (V 8) ''e'') (Meth (Dot (V 8) ''i'') ''gc'' []))) [Do (SetV 2 (Call ''JD'' [Call ''sKd'' [V 8], K (JNum 372)]))] [Do (SetV 2 (Seq (Seq (Call ''zsd'' []) (SetV 3 (New ''tvd'' []))) (V 3))), Do (Call ''BKd'' [V 8, V 2])], Do (Call ''qvd'' [V 2, Dot (V 7) ''a'', Dot (V 7) ''b''])] [], Loop (Neg (Loose (Dot (V 8) ''e'') (Meth (Dot (V 8) ''i'') ''gc'' []))) [Do (Call ''sKd'' [V 8]), Do (Call ''tKd'' [V 8])] [], Do (SetV 5 (Seq (Call ''LDb'' [Neg (Loose (Dot (V 0) ''b'') (K (JNum 0)))]) (Call ''JD'' [Dot (Dot (Dot (V 0) ''c'') ''b'') ''c'', K (JNum 8)]))), Do (Call ''axd'' [V 1, Dot (V 5) ''a'', Dot (V 5) ''b''])],
    fn ''Ree'' 4 6 [Do (SetV 9 (Call ''Cie'' [Meth (Dot (V 0) ''e'') ''Ah'' [], V 1])), Do (SetV 6 (Call ''JD'' [Dot (V 0) ''g'', K (JNum 122)])), When (Call ''Die'' [Dot (V 0) ''e'', V 1]) [When (Meth (V 1) ''Qi'' []) [Do (SetV 5 (Call ''xee'' [V 0, V 1, V 3, And (Call ''RD'' [V 1, K (JNum 103)]) (Neg (Loose (Bin BitAnd (Dot (Call ''JD'' [V 1, K (JNum 19)]) ''Bb'') (G ''Hve'')) (K (JNum 0))))])), When (And (Bin Ge (V 5) (K (JNum 0))) (Neg (Loose (V 5) (V 2)))) [Raise (Call ''Lcb'' [New ''kfb'' [G ''WGe'']])] []] [], Do (SetV 4 (K (JNum 0))), Do (SetV 8 (K (JNum 0))), Loop (Bin Lt (V 8) (Dot (V 0) ''i'')) [Do (SetV 7 (Idx (V 6) (V 8))), When (Meth (V 9) ''$l'' [Meth (V 7) ''Jk'' []]) [When (Loose (V 4) (V 2)) [Ret (Call ''JD'' [Call ''vFd'' [V 0, V 8, Seq (Call ''Aie'' []) (Cond (Meth (Call ''JD'' [V 1, K (JNum 69)]) ''vk'' []) (Call ''JD'' [V 3, K (JNum 75)]) (Call ''Bie'' [V 1, V 3]))], K (JNum 75)])] [], Do (SetV 4 (Bin Minus (V 4) (K (JNum (- 1)))))] []] [Do (SetV 8 (Bin Minus (V 8) (K (JNum (- 1)))))], Raise (Call ''Lcb'' [New ''Fdb'' [Bin Plus (Bin Plus (Bin Plus (G ''SHe'') (V 2)) (G ''YGe'')) (V 4)]])] [Do (SetV 8 (K (JNum 0))), Loop (Bin Lt (V 8) (Dot (V 0) ''i'')) [Do (SetV 7 (Idx (V 6) (V 8))), When (Meth (V 9) ''$l'' [Meth (V 7) ''Jk'' []]) [Ret (Seq (Call ''Aie'' []) (Cond (Meth (Call ''JD'' [V 1, K (JNum 69)]) ''vk'' []) (V 7) (Meth (V 7) ''kd'' [])))] []] [Do (SetV 8 (Bin Minus (V 8) (K (JNum (- 1)))))], Ret (K JNull)]],
    fn ''Rjc'' 2 9 [Do (SetV 2 (K (JNum 0))), Do (SetV 4 (New ''Kmb'' [Dot (Dot (Dot (Seq (Call ''MDb'' [K (JNum 0), Dot (Dot (V 0) ''c'') ''length'']) (Call ''JD'' [Idx (Dot (V 0) ''c'') (K (JNum 0)), K (JNum 107)])) ''g'') ''b'') ''j''])), Loop (Bin Lt (Dot (V 4) ''a'') (Dot (Dot (Dot (V 4) ''c'') ''c'') ''length'')) [Do (SetV 3 (Call ''JD'' [Call ''Imb'' [V 4], K (JNum 12)])), Do (Put (V 3) ''p'' (Bin Minus (SetV 2 (Bin Minus (V 2) (K (JNum (- 1))))) (K (JNum 1))))] [], Do (Cond (Loose (V 1) (Seq (Call ''Bmd'' []) (G ''hmd''))) (Call ''jmb'' [V 0, New ''_jc'' []]) (Call ''jmb'' [V 0, New ''dkc'' []])), Do (SetV 7 (K (JNum 0))), Do (SetV 10 (Bin Minus (Dot (Dot (V 0) ''c'') ''length'') (K (JNum 1)))), Loop (Bin Lt (V 7) (V 10)) [Do (SetV 6 (Seq (Call ''MDb'' [V 7, Dot (Dot (V 0) ''c'') ''length'']) (Call ''JD'' [Idx (Dot (V 0) ''c'') (V 7), K (JNum 107)]))), Do (SetV 9 (Seq (Call ''MDb'' [V 10, Dot (Dot (V 0) ''c'') ''length'']) (Call ''JD'' [Idx (Dot (V 0) ''c'') (V 10), K (JNum 107)]))), Do (SetV 5 (Cond (Loose (V 1) (G ''hmd'')) (Dot (V 6) ''c'') (Dot (V 6) ''a''))), Do (SetV 8 (Cond (Loose (V 1) (G ''hmd'')) (Dot (V 9) ''a'') (Dot (V 9) ''c''))), Do (Call ''Tjc'' [V 6, V 1, Seq (Call ''phc'' []) (G ''nhc''), V 5]), Do (Call ''Tjc'' [V 9, V 1, G ''mhc'', V 8]), Do (SetV 7 (Bin Minus (V 7) (K (JNum (- 1))))), Do (SetV 10 (Bin Minus (V 10) (K (JNum 1))))] [], Do (And (Loose (V 7) (V 10)) (Call ''Tjc'' [Seq (Call ''MDb'' [V 7, Dot (Dot (V 0) ''c'') ''length'']) (Call ''JD'' [Idx (Dot (V 0) ''c'') (V 7), K (JNum 107)]), V 1, Seq (Call ''phc'' []) (G ''lhc''), K JNull]))],
    fn ''FFc'' 4 6 [Do (SetV 6 (New ''TFc'' [V 0, V 1, V 2])), Do (SetV 8 (New ''Tjb'' [V 3, K (JNum 0)])), Do (SetV 4 (K (JBool False))), Loop (Bin Lt (Dot (V 8) ''b'') (Meth (Dot (V 8) ''d'') ''gc'' [])) [Do (SetV 7 (Seq (Call ''LDb'' [Bin Lt (Dot (V 8) ''b'') (Meth (Dot (V 8) ''d'') ''gc'' [])]) (Call ''JD'' [Meth (Dot (V 8) ''d'') ''Xb'' [Put (V 8) ''c'' (Bin Minus (Put (V 8) ''b'' (Bin Minus (Dot (V 8) ''b'') (K (JNum (- 1))))) (K (JNum 1)))], K (JNum 239)]))), When (Or (Loose (V 7) (V 1)) (Loose (V 7) (V 2))) [Do (Call ''Mjb'' [V 8])] [When (And (Neg (V 4)) (Bin Gt (Call ''Ueb'' [Dot (Call ''JFc'' [Dot (V 7) ''g'', Idx (Dot (V 7) ''d'') (K (JNum 0))]) ''a'']) (Call ''Ueb'' [Dot (Call ''JFc'' [Dot (V 6) ''g'', Idx (Dot (V 6) ''d'') (K (JNum 0))]) ''a'']))) [Do (Call ''LDb'' [Bin Gt (Dot (V 8) ''b'') (K (JNum 0))]), Do (Meth (Dot (V 8) ''a'') ''Xb'' [Put (V 8) ''c'' (Put (V 8) ''b'' (Bin Minus (Dot (V 8) ''b'') (K (JNum 1))))]), Do (Call ''Sjb'' [V 8, V 6]), Do (SetV 4 (K (JBool True)))] [When (And (Neg (Neg (Dot (V 7) ''e''))) (Bin Gt (Meth (Dot (V 7) ''e'') ''gc'' []) (K (JNum 0)))) [Do (SetV 5 (Meth (Seq (And (Neg (Dot (V 7) ''e'')) (Put (V 7) ''e'' (New ''lmb'' []))) (Dot (V 7) ''e'')) ''Kc'' [V 1])), Do (SetV 9 (Meth (Seq (And (Neg (Dot (V 7) ''e'')) (Put (V 7) ''e'' (New ''lmb'' []))) (Dot (V 7) ''e'')) ''Kc'' [V 2])), When (Or (V 5) (V 9)) [Do (Meth (Seq (And (Neg (Dot (V 7) ''e'')) (Put (V 7) ''e'' (New ''lmb'' []))) (Dot (V 7) ''e'')) ''Ec'' [V 6]), Do (Put (V 6) ''c'' (Bin Minus (Dot (V 6) ''c'') (K (JNum (- 1)))))] []] []]]] [], Do (Or (V 4) (Seq (Call ''qDb'' [Dot (V 3) ''c'', V 6]) (K (JBool True))))],
    fn ''q0c'' 3 15 [Do (SetV 11 (Bin Plus (Dot (Dot (V 0) ''a'') ''i'') (Bin Divide (Dot (Dot (V 0) ''a'') ''g'') (K (JNum 2))))), Do (SetV 12 (Bin Plus (Dot (Dot (V 0) ''a'') ''i'') (Bin Divide (Dot (Dot (V 0) ''a'') ''g'') (K (JNum 2))))), Do (SetV 14 (Bin Plus (Dot (V 1) ''i'') (Bin Divide (Dot (V 1) ''g'') (K (JNum 2))))), Do (SetV 16 (Bin Plus (Dot (V 1) ''j'') (Bin Divide (Dot (V 1) ''f'') (K (JNum 2))))), Do (SetV 7 (New ''lgd'' [V 14, V 16])), Do (SetV 9 (Call ''JD'' [Call ''cvd'' [V 1, Seq (Call ''vjd'' []) (G ''Oid'')], K (JNum 8)])), Do (Put (V 9) ''a'' (Bin Plus (Dot (V 9) ''a'') (V 11))), Do (Put (V 9) ''b'' (Bin Plus (Dot (V 9) ''b'') (V 12))), Do (SetV 5 (Bin Divide (Bin Minus (Dot (V 7) ''b'') (Dot (V 9) ''b'')) (Bin Minus (Dot (V 7) ''a'') (Dot (V 9) ''a'')))), Do (SetV 3 (Bin Minus (Dot (V 7) ''b'') (Bin Times (V 5) (Dot (V 7) ''a'')))), Do (SetV 15 (Bin Plus (Dot (V 2) ''i'') (Bin Divide (Dot (V 2) ''g'') (K (JNum 2))))), Do (SetV 17 (Bin Plus (Dot (V 2) ''j'') (Bin Divide (Dot (V 2) ''f'') (K (JNum 2))))), Do (SetV 8 (New ''lgd'' [V 15, V 17])), Do (SetV 10 (Call ''JD'' [Call ''cvd'' [V 2, G ''Oid''], K (JNum 8)])), Do (Put (V 10) ''a'' (Bin Plus (Dot (V 10) ''a'') (V 11))), Do (Put (V 10) ''b'' (Bin Plus (Dot (V 10) ''b'') (V 12))), Do (SetV 6 (Bin Divide (Bin Minus (Dot (V 8) ''b'') (Dot (V 10) ''b'')) (Bin Minus (Dot (V 8) ''a'') (Dot (V 10) ''a'')))), Do (SetV 4 (Bin Minus (Dot (V 8) ''b'') (Bin Times (V 6) (Dot (V 8) ''a'')))), Do (SetV 13 (Bin Divide (Bin Minus (V 3) (V 4)) (Bin Minus (V 6) (V 5)))), When (Or (And (Bin Lt (Dot (V 9) ''a'') (V 13)) (Bin Lt (Dot (V 7) ''a'') (V 13))) (And (Bin Lt (V 13) (Dot (V 9) ''a'')) (Bin Lt (V 13) (Dot (V 7) ''a'')))) [Ret (K (JBool False))] [When (Or (And (Bin Lt (Dot (V 10) ''a'') (V 13)) (Bin Lt (Dot (V 8) ''a'') (V 13))) (And (Bin Lt (V 13) (Dot (V 10) ''a'')) (Bin Lt (V 13) (Dot (V 8) ''a'')))) [Ret (K (JBool False))] []], Ret (K (JBool True))],
    fn ''xCc'' 3 4 [Do (Meth (V 2) ''Tg'' [G ''oCe'', K (JNum 1)]), Do (Put (V 0) ''a'' (V 1)), Do (Put (V 0) ''c'' (New ''lmb'' [])), Do (SetV 5 (Meth (Dot (G ''$wnd'') ''Math'') ''max'' [Dot (Dot (Dot (V 1) ''a'') ''c'') ''length'', Dot (Call ''JD'' [Call ''oNb'' [V 1, Seq (Call ''Wrc'' []) (G ''rrc'')], K (JNum 15)]) ''a''])), Loop (K (JBool True)) [Do (SetV 6 (New ''F$b'' [Dot (V 0) ''c'', Dot (V 0) ''d'', Dot (V 0) ''b''])), Do (Call ''C$b'' [V 6, V 1]), Do (Call ''E$b'' [V 6, V 1]), When (Loose (Dot (Dot (V 0) ''d'') ''b'') (K (JNum 0))) [Break] [], Do (Meth (V 0) ''rg'' [V 5, Bin Times (V 5) (Dot (Call ''JD'' [Call ''oNb'' [V 1, G ''Nqc''], K (JNum 15)]) ''a'')]), Do (SetV 4 (New ''Kmb'' [Dot (V 0) ''c''])), Loop (Bin Lt (Dot (V 4) ''a'') (Dot (Dot (Dot (V 4) ''c'') ''c'') ''length'')) [Do (SetV 3 (Call ''JD'' [Call ''Imb'' [V 4], K (JNum 17)])), Do (Call ''BWb'' [V 3, K (JBool False)]), Do (Call ''rNb'' [Dot (Dot (V 3) ''c'') ''i'', Seq (Call ''nyc'' []) (G ''Fwc''), Call ''Cfb'' [Bin Plus (Dot (Call ''JD'' [Call ''oNb'' [Dot (Dot (V 3) ''c'') ''i'', G ''Fwc''], K (JNum 15)]) ''a'') (K (JNum 1))]]), Do (Call ''rNb'' [V 1, G ''Tqc'', Seq (Call ''Qdb'' []) (K (JBool True))])] [], Do (Call ''cub'' [Dot (V 0) ''d'']), Do (Call ''kjb'' [Dot (V 0) ''b'']), Do (Put (Dot (Dot (V 0) ''c'') ''c'') ''length'' (K (JNum 0)))] [], Do (Meth (V 2) ''Ug'' []), Do (Meth (V 2) ''ah'' [Bin Plus (K (JStr ''Execution Time: '')) (Meth (V 2) ''Vg'' [])])],
    fn ''QVc'' 4 6 [When (Neg (Call ''ar'' [V 1])) [Do (SetV 9 (Meth (V 2) ''dh'' [Bin DivInt (Cond (Call ''RD'' [V 1, K (JNum 18)]) (Meth (Call ''JD'' [V 1, K (JNum 18)]) ''gc'' []) (Call ''Br'' [Meth (V 1) ''Jc'' []])) (Dot (V 0) ''a'')])), Do (Meth (V 9) ''Tg'' [G ''RCe'', K (JNum 1)]), Do (SetV 8 (New ''TVc'' [])), Do (SetV 7 (K (JNum 0))), When (Or (Loose (V 3) (Seq (Call ''Djd'' []) (G ''zjd''))) (Loose (V 3) (G ''Ajd''))) [Do (SetV 6 (Meth (V 1) ''Jc'' [])), Loop (Meth (V 6) ''Ob'' []) [Do (SetV 4 (Call ''JD'' [Meth (V 6) ''Pb'' [], K (JNum 40)])), Do (SetV 8 (Call ''yl'' [Call ''WC'' [Call ''OC'' [G ''VI'', K (JNum 1)], G ''Gte'', K (JNum 20), K (JNum 0), NewArr [V 8, New ''OTc'' [V 4]]]])), Do (And (Bin Lt (V 7) (Dot (Dot (V 4) ''f'') ''a'')) (SetV 7 (Dot (Dot (V 4) ''f'') ''a'')))] []] [Do (SetV 6 (Meth (V 1) ''Jc'' [])), Loop (Meth (V 6) ''Ob'' []) [Do (SetV 4 (Call ''JD'' [Meth (V 6) ''Pb'' [], K (JNum 40)])), Do (SetV 8 (Call ''yl'' [Call ''WC'' [Call ''OC'' [G ''VI'', K (JNum 1)], G ''Gte'', K (JNum 20), K (JNum 0), NewArr [V 8, New ''OTc'' [V 4]]]])), Do (And (Bin Lt (V 7) (Dot (Dot (V 4) ''f'') ''b'')) (SetV 7 (Dot (Dot (V 4) ''f'') ''b'')))] []], Do (SetV 5 (Meth (V 1) ''Jc'' [])), Loop (Meth (V 5) ''Ob'' []) [Do (SetV 4 (Call ''JD'' [Meth (V 5) ''Pb'' [], K (JNum 40)])), Do (Call ''rNb'' [V 4, Seq (Call ''_Wc'' []) (G ''OWc''), V 7])] [], Do (Meth (V 9) ''Ug'' []), Do (Call ''QVc'' [V 0, V 8, V 2, V 3])] []],
    fn ''oEb'' 3 8 [Do (Put This ''a'' (V 0)), Do (Put This ''b'' (V 1)), Do (Put This ''c'' (V 2)), Do (Put This ''e'' (Call ''Wu'' [Call ''WC'' [Call ''OC'' [G ''CM'', K (JNum 1)], G ''Gte'', K (JNum 177), K (JNum 0), NewArr [New ''kEb'' [V 0, V 1], New ''kEb'' [V 1, V 2], New ''kEb'' [V 2, V 0]]]])), Do (Put This ''f'' (Call ''Wu'' [Call ''WC'' [Call ''OC'' [G ''r2'', K (JNum 1)], G ''aue'', K (JNum 8), K (JNum 0), NewArr [V 0, V 1, V 2]]])), Do (Put This ''d'' (Seq (Seq (Seq (Seq (Seq (Seq (Seq (Seq (SetV 3 (Call ''igd'' [Call ''Xfd'' [Dot This ''b''], Dot This ''a''])) (SetV 4 (Call ''igd'' [Call ''Xfd'' [Dot This ''c''], Dot This ''a'']))) (SetV 5 (Call ''igd'' [Call ''Xfd'' [Dot This ''c''], Dot This ''b'']))) (SetV 6 (Bin Plus (Bin Times (Dot (V 3) ''a'') (Bin Plus (Dot (Dot This ''a'') ''a'') (Dot (Dot This ''b'') ''a''))) (Bin Times (Dot (V 3) ''b'') (Bin Plus (Dot (Dot This ''a'') ''b'') (Dot (Dot This ''b'') ''b'')))))) (SetV 7 (Bin Plus (Bin Times (Dot (V 4) ''a'') (Bin Plus (Dot (Dot This ''a'') ''a'') (Dot (Dot This ''c'') ''a''))) (Bin Times (Dot (V 4) ''b'') (Bin Plus (Dot (Dot This ''a'') ''b'') (Dot (Dot This ''c'') ''b'')))))) (SetV 8 (Bin Times (K (JNum 2)) (Bin Minus (Bin Times (Dot (V 3) ''a'') (Dot (V 5) ''b'')) (Bin Times (Dot (V 3) ''b'') (Dot (V 5) ''a'')))))) (SetV 9 (Bin Divide (Bin Minus (Bin Times (Dot (V 4) ''b'') (V 6)) (Bin Times (Dot (V 3) ''b'') (V 7))) (V 8)))) (SetV 10 (Bin Divide (Bin Minus (Bin Times (Dot (V 3) ''a'') (V 7)) (Bin Times (Dot (V 4) ''a'') (V 6))) (V 8)))) (New ''lgd'' [V 9, V 10])))],
    fn ''BWb'' 2 6 [Do (SetV 5 (Dot (V 0) ''c'')), Do (SetV 6 (Dot (V 0) ''d'')), Do (Call ''CWb'' [V 0, K JNull]), Do (Call ''DWb'' [V 0, K JNull]), Do (Cond (And (V 1) (Call ''Rdb'' [Call ''LD'' [Call ''oNb'' [V 6, Seq (Call ''Wrc'' []) (G ''drc'')]]])) (Call ''CWb'' [V 0, Call ''XXb'' [Dot (V 6) ''i'', Seq (Call ''qAc'' []) (G ''oAc''), Seq (Call ''Bmd'' []) (G ''gmd'')]]) (Call ''CWb'' [V 0, V 6])), Do (Cond (And (V 1) (Call ''Rdb'' [Call ''LD'' [Call ''oNb'' [V 5, Seq (Call ''Wrc'' []) (G ''Arc'')]]])) (Call ''DWb'' [V 0, Call ''XXb'' [Dot (V 5) ''i'', Seq (Call ''qAc'' []) (G ''nAc''), Seq (Call ''Bmd'' []) (G ''Amd'')]]) (Call ''DWb'' [V 0, V 5])), Do (SetV 3 (New ''Kmb'' [Dot (V 0) ''b''])), Loop (Bin Lt (Dot (V 3) ''a'') (Dot (Dot (Dot (V 3) ''c'') ''c'') ''length'')) [Do (SetV 2 (Call ''JD'' [Call ''Imb'' [V 3], K (JNum 70)])), Do (SetV 4 (Call ''JD'' [Call ''oNb'' [V 2, Seq (Call ''nyc'' []) (G ''gwc'')], K (JNum 279)])), Do (Cond (Loose (V 4) (Seq (Call ''Zjd'' []) (G ''Yjd''))) (Call ''rNb'' [V 2, G ''gwc'', G ''Xjd'']) (And (Loose (V 4) (G ''Xjd'')) (Call ''rNb'' [V 2, G ''gwc'', G ''Yjd''])))] [], Do (SetV 7 (Call ''Rdb'' [Call ''LD'' [Call ''oNb'' [V 0, Seq (Call ''Wrc'' []) (G ''Hrc'')]]])), Do (Call ''rNb'' [V 0, G ''Hrc'', Seq (Call ''Qdb'' []) (Cond (V 7) (K (JBool False)) (K (JBool True)))]), Do (Put (V 0) ''a'' (Call ''Cgd'' [Dot (V 0) ''a'']))],
    fn ''WSc'' 2 5 [Do (SetV 2 (Call ''USc'' [Call ''JD'' [Call ''oNb'' [V 1, Seq (Call ''SXc'' []) (G ''qXc'')], K (JNum 86)]])), When (Loose (Dot (Dot (V 0) ''b'') ''b'') (K (JNum 0))) [Ret (K JNull)] [], Do (SetV 6 (Call ''JD'' [Call ''SBb'' [Call ''ZBb'' [New ''jCb'' [K JNull, New ''Zvb'' [Dot (V 0) ''b'', K (JNum 16)]], New ''DTc'' []], Call ''BAb'' [New ''TAb'' [], New ''RAb'' [], New ''ZAb'' [], Call ''WC'' [Call ''OC'' [G ''HL'', K (JNum 1)], G ''xue'', K (JNum 130), K (JNum 0), NewArr [Seq (Call ''FAb'' []) (G ''DAb'')]]]], K (JNum 16)])), Do (SetV 5 (Call ''JD'' [Call ''SBb'' [Call ''VBb'' [New ''jCb'' [K JNull, New ''Zvb'' [Dot (V 1) ''b'', K (JNum 16)]], New ''lTc'' [V 6]], Call ''BAb'' [New ''TAb'' [], New ''RAb'' [], New ''ZAb'' [], Call ''WC'' [Call ''OC'' [G ''HL'', K (JNum 1)], G ''xue'', K (JNum 130), K (JNum 0), NewArr [G ''DAb'']]]], K (JNum 16)])), Do (SetV 4 (Call ''MD'' [Call ''Sub'' [Call ''aCb'' [Call ''ZBb'' [Meth (V 5) ''Mc'' [], New ''nTc'' [V 2]], Seq (Seq (Call ''Cqb'' []) (Call ''Cqb'' [])) (G ''Aqb'')]]])), Do (SetV 3 (Call ''JD'' [Call ''Sub'' [Call ''WBb'' [Call ''VBb'' [Meth (V 5) ''Mc'' [], New ''pTc'' [V 2, V 4]]]], K (JNum 40)])), Ret (V 3)],
    fn ''eLc'' 2 15 [Do (SetV 2 (Call ''JGb'' [New ''LGb'' [], Dot (V 0) ''f''])), Do (SetV 9 (Idx (Dot (V 0) ''i'') (Dot (Dot (Dot (V 1) ''c'') ''i'') ''p''))), Do (SetV 13 (Idx (Dot (V 0) ''i'') (Dot (Dot (Dot (V 1) ''d'') ''i'') ''p''))), Do (SetV 8 (Dot (V 1) ''c'')), Do (SetV 12 (Dot (V 1) ''d'')), Do (SetV 7 (Dot (Dot (V 8) ''a'') ''b'')), Do (SetV 11 (Dot (Dot (V 12) ''a'') ''b'')), Do (Or (Dot (V 9) ''b'') (SetV 7 (Bin Plus (V 7) (Dot (Dot (V 8) ''n'') ''b'')))), Do (Or (Dot (V 13) ''b'') (SetV 11 (Bin Plus (V 11) (Dot (Dot (V 12) ''n'') ''b'')))), Do (SetV 10 (Call ''YD'' [Meth (Dot (G ''$wnd'') ''Math'') ''max'' [K (JNum 0), Bin Minus (V 7) (V 11)]])), Do (SetV 6 (Call ''YD'' [Meth (Dot (G ''$wnd'') ''Math'') ''max'' [K (JNum 0), Bin Minus (V 11) (V 7)]])), Do (SetV 14 (Seq (Seq (SetV 15 (Meth (Dot (G ''$wnd'') ''Math'') ''max'' [K (JNum 1), Dot (Call ''JD'' [Call ''oNb'' [V 1, Seq (Call ''nyc'' []) (G ''Bxc'')], K (JNum 15)]) ''a''])) (SetV 16 (Call ''SKc'' [Dot (Dot (Dot (V 1) ''c'') ''i'') ''k'', Dot (Dot (Dot (V 1) ''d'') ''i'') ''k'']))) (Bin Times (V 15) (V 16)))), Do (SetV 4 (Call ''XFb'' [Call ''$Fb'' [Call ''ZFb'' [Call ''YFb'' [Call ''_Fb'' [New ''aGb'' [], V 14], V 6], V 2], Call ''JD'' [Call ''ejb'' [Dot (V 0) ''k'', Dot (V 1) ''c''], K (JNum 124)]]])), Do (SetV 5 (Call ''XFb'' [Call ''$Fb'' [Call ''ZFb'' [Call ''YFb'' [Call ''_Fb'' [New ''aGb'' [], V 14], V 10], V 2], Call ''JD'' [Call ''ejb'' [Dot (V 0) ''k'', Dot (V 1) ''d''], K (JNum 124)]]])), Do (SetV 3 (New ''zLc'' [V 4, V 5])), Do (PutIdx (Dot (V 0) ''c'') (Dot (V 1) ''p'') (V 3))]]"

definition code_5893_5895 :: "(string \<times> jfun) list" where
  "code_5893_5895 = [
    fn ''dNb'' 3 6 [Do (SetV 3 (K (JNum 0))), Do (SetV 5 (New ''uKd'' [Seq (And (Neg (Dot (V 0) ''a'')) (Put (V 0) ''a'' (New ''P3d'' [G ''T3'', V 0, K (JNum 10), K (JNum 11)]))) (Dot (V 0) ''a'')])), Loop (Neg (Loose (Dot (V 5) ''e'') (Meth (Dot (V 5) ''i'') ''gc'' []))) [Do (SetV 4 (Call ''JD'' [Call ''sKd'' [V 5], K (JNum 26)])), Do (SetV 6 (K (JStr ''''))), Do (Or (Loose (Dot (Seq (And (Neg (Dot (V 4) ''n'')) (Put (V 4) ''n'' (New ''P3d'' [G ''S3'', V 4, K (JNum 1), K (JNum 7)]))) (Dot (V 4) ''n'')) ''i'') (K (JNum 0))) (SetV 6 (Dot (Call ''JD'' [Call ''fGd'' [Seq (And (Neg (Dot (V 4) ''n'')) (Put (V 4) ''n'' (New ''P3d'' [G ''S3'', V 4, K (JNum 1), K (JNum 7)]))) (Dot (V 4) ''n''), K (JNum 0)], K (JNum 157)]) ''a''))), Do (SetV 7 (New ''PNb'' [V 6])), Do (Call ''mNb'' [V 7, V 4]), Do (Call ''rNb'' [V 7, Seq (Call ''lPb'' []) (G ''jPb''), V 4]), Do (Put (V 7) ''a'' (Bin Minus (SetV 3 (Bin Minus (V 3) (K (JNum (- 1))))) (K (JNum 1)))), Do (Put (Dot (V 7) ''d'') ''a'' (Bin Plus (Dot (V 4) ''i'') (Bin Divide (Dot (V 4) ''g'') (K (JNum 2))))), Do (Put (Dot (V 7) ''d'') ''b'' (Bin Plus (Dot (V 4) ''j'') (Bin Divide (Dot (V 4) ''f'') (K (JNum 2))))), Do (Put (Dot (V 7) ''e'') ''a'' (Meth (Dot (G ''$wnd'') ''Math'') ''max'' [Dot (V 4) ''g'', K (JNum 1)])), Do (Put (Dot (V 7) ''e'') ''b'' (Meth (Dot (G ''$wnd'') ''Math'') ''max'' [Dot (V 4) ''f'', K (JNum 1)])), Do (Call ''_lb'' [Dot (V 1) ''e'', V 7]), Do (Call ''zsb'' [Dot (V 2) ''f'', V 4, V 7]), Do (SetV 8 (Call ''JD'' [Call ''cvd'' [V 4, Seq (Call ''aPb'' []) (G ''NOb'')], K (JNum 102)])), Do (And (Loose (V 8) (Seq (Call ''Mld'' []) (G ''Lld''))) (SetV 8 (G ''Kld'')))] []],
    fn ''Uac'' 1 3 [When (Call ''Old'' [Call ''JD'' [Call ''oNb'' [V 0, Seq (Call ''nyc'' []) (G ''qxc'')], K (JNum 102)]]) [Do (SetV 2 (New ''Kmb'' [Dot (V 0) ''j''])), Loop (Bin Lt (Dot (V 2) ''a'') (Dot (Dot (Dot (V 2) ''c'') ''c'') ''length'')) [Do (SetV 1 (Call ''JD'' [Call ''Imb'' [V 2], K (JNum 12)])), Do (And (Loose (Dot (V 1) ''j'') (Seq (Call ''Bmd'' []) (G ''zmd''))) (Seq (SetV 3 (Call ''JD'' [Call ''oNb'' [V 1, Seq (Call ''Wrc'' []) (G ''Crc'')], K (JNum 9)])) (Cond (V 3) (Call ''xZb'' [V 1, Call ''JD'' [Call ''oNb'' [V 3, G ''$qc''], K (JNum 64)]]) (Cond (Bin Lt (Bin Minus (Dot (Dot (Dot (V 1) ''e'') ''c'') ''length'') (Dot (Dot (Dot (V 1) ''g'') ''c'') ''length'')) (K (JNum 0))) (Call ''xZb'' [V 1, G ''gmd'']) (Call ''xZb'' [V 1, G ''Amd''])))))] []] [Do (SetV 2 (New ''Kmb'' [Dot (V 0) ''j''])), Loop (Bin Lt (Dot (V 2) ''a'') (Dot (Dot (Dot (V 2) ''c'') ''c'') ''length'')) [Do (SetV 1 (Call ''JD'' [Call ''Imb'' [V 2], K (JNum 12)])), Do (SetV 3 (Call ''JD'' [Call ''oNb'' [V 1, Seq (Call ''Wrc'' []) (G ''Crc'')], K (JNum 9)])), Do (Cond (V 3) (Call ''xZb'' [V 1, Call ''JD'' [Call ''oNb'' [V 3, G ''$qc''], K (JNum 64)]]) (Cond (Bin Lt (Bin Minus (Dot (Dot (Dot (V 1) ''e'') ''c'') ''length'') (Dot (Dot (Dot (V 1) ''g'') ''c'') ''length'')) (K (JNum 0))) (Call ''xZb'' [V 1, Seq (Call ''Bmd'' []) (G ''gmd'')]) (Call ''xZb'' [V 1, Seq (Call ''Bmd'' []) (G ''Amd'')])))] [], Do (Call ''rNb'' [V 0, G ''qxc'', Seq (Call ''Mld'' []) (G ''Jld'')])]],
    fn ''R7b'' 2 7 [Do (Meth (V 1) ''Tg'' [K (JStr ''Layer constraint postprocessing''), K (JNum 1)]), Do (SetV 8 (Dot (V 0) ''b'')), When (Neg (Loose (Dot (Dot (V 8) ''c'') ''length'') (K (JNum 0)))) [Do (SetV 3 (Seq (Call ''MDb'' [K (JNum 0), Dot (Dot (V 8) ''c'') ''length'']) (Call ''JD'' [Idx (Dot (V 8) ''c'') (K (JNum 0)), K (JNum 25)]))), Do (SetV 6 (Call ''JD'' [Call ''dmb'' [V 8, Bin Minus (Dot (Dot (V 8) ''c'') ''length'') (K (JNum 1))], K (JNum 25)])), Do (SetV 2 (New ''y$b'' [V 0])), Do (SetV 5 (New ''y$b'' [V 0])), Do (Call ''P7b'' [V 0, V 3, V 6, V 2, V 5]), Do (Or (Loose (Dot (Dot (Dot (V 2) ''a'') ''c'') ''length'') (K (JNum 0))) (Seq (Call ''PDb'' [K (JNum 0), Dot (Dot (V 8) ''c'') ''length'']) (Call ''oDb'' [Dot (V 8) ''c'', K (JNum 0), V 2]))), Do (Or (Loose (Dot (Dot (Dot (V 5) ''a'') ''c'') ''length'') (K (JNum 0))) (Seq (Call ''qDb'' [Dot (V 8) ''c'', V 5]) (K (JBool True))))] [], When (Call ''pNb'' [V 0, Seq (Call ''Wrc'' []) (G ''crc'')]) [Do (SetV 4 (New ''y$b'' [V 0])), Do (SetV 7 (New ''y$b'' [V 0])), Do (Call ''S7b'' [V 0, V 4, V 7]), Do (Or (Loose (Dot (Dot (Dot (V 4) ''a'') ''c'') ''length'') (K (JNum 0))) (Seq (Call ''PDb'' [K (JNum 0), Dot (Dot (V 8) ''c'') ''length'']) (Call ''oDb'' [Dot (V 8) ''c'', K (JNum 0), V 4]))), Do (Or (Loose (Dot (Dot (Dot (V 7) ''a'') ''c'') ''length'') (K (JNum 0))) (Seq (Call ''qDb'' [Dot (V 8) ''c'', V 7]) (K (JBool True))))] [], Do (Meth (V 1) ''Ug'' [])]]"

definition code_5897_5900 :: "(string \<times> jfun) list" where
  "code_5897_5900 = [
    fn ''G7b'' 2 9 [Do (SetV 5 (New ''Kmb'' [Dot (V 0) ''b''])), Loop (Bin Lt (Dot (V 5) ''a'') (Dot (Dot (Dot (V 5) ''c'') ''c'') ''length'')) [Do (SetV 4 (Call ''JD'' [Call ''Imb'' [V 5], K (JNum 25)])), Do (SetV 7 (New ''Kmb'' [Dot (V 4) ''a''])), Loop (Bin Lt (Dot (V 7) ''a'') (Dot (Dot (Dot (V 7) ''c'') ''c'') ''length'')) [Do (SetV 6 (Call ''JD'' [Call ''Imb'' [V 7], K (JNum 9)])), When (Loose (Dot (V 6) ''k'') (Seq (Call ''$Yb'' []) (G ''UYb''))) [Do (SetV 8 (Cond (Seq (Seq (SetV 9 (Call ''JD'' [Call ''Xr'' [New ''Yr'' [Call ''Dr'' [Meth (Dot (Call ''EYb'' [V 6]) ''a'') ''Jc'' [], New ''Dl'' []]]], K (JNum 17)])) (SetV 10 (Call ''JD'' [Call ''Xr'' [New ''Yr'' [Call ''Dr'' [Meth (Dot (Call ''HYb'' [V 6]) ''a'') ''Jc'' [], New ''Dl'' []]]], K (JNum 17)]))) (Or (Neg (Call ''Rdb'' [Call ''LD'' [Call ''oNb'' [V 9, Seq (Call ''Wrc'' []) (G ''Hrc'')]]])) (Neg (Call ''Rdb'' [Call ''LD'' [Call ''oNb'' [V 10, G ''Hrc'']]])))) (V 1) (Call ''_kd'' [V 1]))), Do (Call ''E7b'' [V 6, V 8])] [], Do (SetV 3 (New ''Yr'' [Call ''Dr'' [Meth (Dot (Call ''HYb'' [V 6]) ''a'') ''Jc'' [], New ''Dl'' []]])), Loop (Call ''Wr'' [V 3]) [Do (SetV 2 (Call ''JD'' [Call ''Xr'' [V 3], K (JNum 17)])), Do (SetV 8 (Cond (Call ''Rdb'' [Call ''LD'' [Call ''oNb'' [V 2, Seq (Call ''Wrc'' []) (G ''Hrc'')]]]) (Call ''_kd'' [V 1]) (V 1))), Do (Call ''D7b'' [V 2, V 8])] []] []] []],
    fn ''fRc'' 1 6 [Do (Put This ''e'' (New ''lmb'' [])), Do (Put This ''a'' (New ''lmb'' [])), Do (SetV 2 (Bin Minus (Dot (V 0) ''b'') (K (JNum 1)))), Loop (Bin Lt (V 2) (K (JNum 3))) [Do (Call ''$t'' [V 0, K (JNum 0), Call ''JD'' [Call ''au'' [V 0, K (JNum 0)], K (JNum 8)]])] [Do (Bin Minus (SetV 2 (Bin Minus (V 2) (K (JNum (- 1))))) (K (JNum 1)))], When (Bin Lt (Dot (V 0) ''b'') (K (JNum 4))) [Raise (Call ''Lcb'' [New ''kfb'' [K (JStr ''At (least dimension + 1) control points are necessary!'')]])] [Do (Put This ''b'' (K (JNum 3))), Do (Put This ''d'' (K (JBool True))), Do (Put This ''c'' (K (JBool False))), Do (Call ''aRc'' [This, Bin Minus (Bin Plus (Dot (V 0) ''b'') (Dot This ''b'')) (K (JNum 1))]), Do (SetV 6 (New ''lmb'' [])), Do (SetV 5 (New ''Kmb'' [Dot This ''e''])), Do (SetV 1 (K (JNum 0))), Loop (Bin Lt (V 1) (Bin Minus (Dot This ''b'') (K (JNum 1)))) [Do (Call ''_lb'' [V 6, Call ''MD'' [Call ''Imb'' [V 5]]])] [Do (Bin Minus (SetV 1 (Bin Minus (V 1) (K (JNum (- 1))))) (K (JNum 1)))], Do (SetV 4 (Call ''Ztb'' [V 0, K (JNum 0)])), Loop (Neg (Loose (Dot (V 4) ''b'') (Dot (Dot (V 4) ''d'') ''c''))) [Do (SetV 3 (Call ''JD'' [Call ''lub'' [V 4], K (JNum 8)])), Do (Call ''_lb'' [V 6, Call ''MD'' [Call ''Imb'' [V 5]]]), Do (Call ''_lb'' [Dot This ''a'', New ''kRc'' [V 3, V 6]]), Do (Call ''MDb'' [K (JNum 0), Dot (Dot (V 6) ''c'') ''length'']), Do (Meth (Dot (V 6) ''c'') ''splice'' [K (JNum 0), K (JNum 1)])] []]],
    fn ''OJd'' 3 4 [When (Meth (V 0) ''Nj'' []) [Do (SetV 4 (K JNull)), Do (SetV 5 (Meth (V 0) ''Oj'' [])), Do (SetV 3 (Meth (V 0) ''Gj'' [K (JNum 1), SetV 6 (Call ''jGd'' [V 0, V 1, V 2]), V 2, V 1, V 5])), When (And (Meth (V 0) ''Kj'' []) (Neg (Cond (And (Meth (V 0) ''Wi'' []) (Neg (Loose (V 6) (K JNull)))) (Call ''pb'' [V 6, V 2]) (Same (Call ''XD'' [V 6]) (Call ''XD'' [V 2]))))) [Do (And (Neg (Loose (V 6) (K JNull))) (SetV 4 (Meth (V 0) ''Mj'' [V 6, V 4]))), Do (SetV 4 (Meth (V 0) ''Lj'' [V 2, V 4])), Do (And (Meth (V 0) ''Rj'' []) (SetV 4 (Meth (V 0) ''Uj'' [V 6, V 2, V 4]))), When (Neg (V 4)) [Do (Meth (V 0) ''Hj'' [V 3])] [Do (Meth (V 4) ''lj'' [V 3]), Do (Meth (V 4) ''mj'' [])]] [Do (And (Meth (V 0) ''Rj'' []) (SetV 4 (Meth (V 0) ''Uj'' [V 6, V 2, V 4]))), When (Neg (V 4)) [Do (Meth (V 0) ''Hj'' [V 3])] [Do (Meth (V 4) ''lj'' [V 3]), Do (Meth (V 4) ''mj'' [])]], Ret (V 6)] [Do (SetV 6 (Call ''jGd'' [V 0, V 1, V 2])), When (And (Meth (V 0) ''Kj'' []) (Neg (Cond (And (Meth (V 0) ''Wi'' []) (Neg (Loose (V 6) (K JNull)))) (Call ''pb'' [V 6, V 2]) (Same (Call ''XD'' [V 6]) (Call ''XD'' [V 2]))))) [Do (SetV 4 (K JNull)), Do (And (Neg (Loose (V 6) (K JNull))) (SetV 4 (Meth (V 0) ''Mj'' [V 6, K JNull]))), Do (SetV 4 (Meth (V 0) ''Lj'' [V 2, V 4])), Do (And (Neg (Neg (V 4))) (Meth (V 4) ''mj'' []))] [], Ret (V 6)]],
    fn ''tnc'' 2 5 [Do (Meth (V 1) ''Tg'' [K (JStr ''Path-Like Graph Wrapping''), K (JNum 1)]), When (Loose (Dot (Dot (Dot (V 0) ''b'') ''c'') ''length'') (K (JNum 0))) [Do (Meth (V 1) ''Ug'' []), Ret (K JUndef)] [], Do (SetV 4 (New ''anc'' [V 0])), Do (SetV 6 (Seq (And (Loose (Dot (V 4) ''i'') (K JNull)) (Put (V 4) ''i'' (Call ''Xmc'' [V 4, New ''cnc'' []]))) (Bin Times (Call ''Ueb'' [Dot (V 4) ''i'']) (Dot (V 4) ''f'')))), Do (SetV 2 (Bin Divide (V 6) (Seq (And (Loose (Dot (V 4) ''i'') (K JNull)) (Put (V 4) ''i'' (Call ''Xmc'' [V 4, New ''cnc'' []]))) (Call ''Ueb'' [Dot (V 4) ''i''])))), When (Bin Gt (Dot (V 4) ''b'') (V 2)) [Do (Meth (V 1) ''Ug'' []), Ret (K JUndef)] [], Switch (Dot (Call ''JD'' [Call ''oNb'' [V 0, Seq (Call ''nyc'' []) (G ''gyc'')], K (JNum 350)]) ''g'') [(Some (JNum 2), [Do (SetV 5 (New ''mnc'' [])), Break]), (Some (JNum 0), [Do (SetV 5 (New ''bmc'' [])), Break]), (None, [Do (SetV 5 (New ''pnc'' []))])], Do (SetV 3 (Meth (V 5) ''mg'' [V 0, V 4])), When (Neg (Meth (V 5) ''ng'' [])) [Switch (Dot (Call ''JD'' [Call ''oNb'' [V 0, G ''myc''], K (JNum 351)]) ''g'') [(Some (JNum 2), [Do (SetV 3 (Call ''ync'' [V 4, V 3])), Break]), (Some (JNum 1), [Do (SetV 3 (Call ''wnc'' [V 4, V 3]))])]] [], Do (Call ''snc'' [V 0, V 4, V 3]), Do (Meth (V 1) ''Ug'' [])]]"

definition code_5902_5905 :: "(string \<times> jfun) list" where
  "code_5902_5905 = [
    fn ''EGc'' 2 4 [Do (Call ''Uvb'' [Dot (V 0) ''d'', Dot (V 0) ''e'']), Do (Meth (Dot (Dot (V 0) ''c'') ''a'') ''$b'' []), When (Or (Neg (Loose (Call ''Ueb'' [Call ''MD'' [Call ''oNb'' [Dot (V 1) ''j'', Seq (Call ''nyc'' []) (G ''Bvc'')]]]) (K (JNum 0)))) (Neg (Loose (Call ''Ueb'' [Call ''MD'' [Call ''oNb'' [Dot (V 1) ''j'', G ''Bvc'']]]) (K (JNum 0))))) [Do (SetV 2 (G ''tCe'')), Do (And (Neg (Same (Call ''XD'' [Call ''oNb'' [Dot (V 1) ''j'', G ''Ovc'']]) (Call ''XD'' [Seq (Call ''_zc'' []) (G ''Yzc'')]))) (Call ''rNb'' [Dot (V 1) ''j'', Seq (Call ''Wrc'' []) (G ''arc''), Seq (Call ''Qdb'' []) (K (JBool True))])), Do (SetV 5 (Dot (Call ''JD'' [Call ''oNb'' [Dot (V 1) ''j'', G ''Xxc''], K (JNum 15)]) ''a'')), Do (SetV 4 (K (JNum 0))), Loop (Bin Lt (V 4) (V 5)) [Do (SetV 3 (Call ''OGc'' [V 0, V 1])), When (Bin Lt (V 3) (V 2)) [Do (SetV 2 (V 3)), Do (Call ''RGc'' [V 0]), When (Loose (V 2) (K (JNum 0))) [Break] []] []] [Do (Bin Minus (SetV 4 (Bin Minus (V 4) (K (JNum (- 1))))) (K (JNum 1)))]] [Do (SetV 2 (G ''Ate'')), Do (And (Neg (Same (Call ''XD'' [Call ''oNb'' [Dot (V 1) ''j'', G ''Ovc'']]) (Call ''XD'' [Seq (Call ''_zc'' []) (G ''Yzc'')]))) (Call ''rNb'' [Dot (V 1) ''j'', Seq (Call ''Wrc'' []) (G ''arc''), Seq (Call ''Qdb'' []) (K (JBool True))])), Do (SetV 5 (Dot (Call ''JD'' [Call ''oNb'' [Dot (V 1) ''j'', G ''Xxc''], K (JNum 15)]) ''a'')), Do (SetV 4 (K (JNum 0))), Loop (Bin Lt (V 4) (V 5)) [Do (SetV 3 (Call ''PGc'' [V 0, V 1])), When (Bin Lt (V 3) (V 2)) [Do (SetV 2 (V 3)), Do (Call ''RGc'' [V 0]), When (Loose (V 2) (K (JNum 0))) [Break] []] []] [Do (Bin Minus (SetV 4 (Bin Minus (V 4) (K (JNum (- 1))))) (K (JNum 1)))]]],
    fn ''xnc'' 2 8 [Do (SetV 6 (New ''lmb'' [])), Do (SetV 7 (K (JNum 0))), Do (SetV 2 (K (JNum 0))), Do (SetV 8 (K (JNum 0))), Loop (And (Bin Lt (V 7) (Bin Minus (Dot (Dot (V 1) ''c'') ''length'') (K (JNum 1)))) (Bin Lt (V 2) (Meth (V 0) ''gc'' []))) [Do (SetV 3 (Bin Plus (Dot (Call ''JD'' [Meth (V 0) ''Xb'' [V 2], K (JNum 15)]) ''a'') (V 8))), Loop (Bin Lt (Dot (Seq (Call ''MDb'' [Bin Plus (V 7) (K (JNum 1)), Dot (Dot (V 1) ''c'') ''length'']) (Call ''JD'' [Idx (Dot (V 1) ''c'') (Bin Plus (V 7) (K (JNum 1))), K (JNum 15)])) ''a'') (V 3)) [Do (SetV 7 (Bin Minus (V 7) (K (JNum (- 1)))))] [], Do (SetV 9 (K (JNum 0))), Do (SetV 5 (Bin Minus (V 3) (Dot (Seq (Call ''MDb'' [V 7, Dot (Dot (V 1) ''c'') ''length'']) (Call ''JD'' [Idx (Dot (V 1) ''c'') (V 7), K (JNum 15)])) ''a''))), Do (SetV 4 (Bin Minus (Dot (Seq (Call ''MDb'' [Bin Plus (V 7) (K (JNum 1)), Dot (Dot (V 1) ''c'') ''length'']) (Call ''JD'' [Idx (Dot (V 1) ''c'') (Bin Plus (V 7) (K (JNum 1))), K (JNum 15)])) ''a'') (V 3))), Do (And (Bin Gt (V 5) (V 4)) (SetV 9 (Bin Minus (V 9) (K (JNum (- 1)))))), Do (Call ''_lb'' [V 6, Seq (Call ''MDb'' [Bin Plus (V 7) (V 9), Dot (Dot (V 1) ''c'') ''length'']) (Call ''JD'' [Idx (Dot (V 1) ''c'') (Bin Plus (V 7) (V 9)), K (JNum 15)])]), Do (SetV 8 (Bin Plus (V 8) (Bin Minus (Dot (Seq (Call ''MDb'' [Bin Plus (V 7) (V 9), Dot (Dot (V 1) ''c'') ''length'']) (Call ''JD'' [Idx (Dot (V 1) ''c'') (Bin Plus (V 7) (V 9)), K (JNum 15)])) ''a'') (V 3)))), Do (SetV 2 (Bin Minus (V 2) (K (JNum (- 1))))), Loop (And (Bin Lt (V 2) (Meth (V 0) ''gc'' [])) (Bin Le (Bin Plus (Dot (Call ''JD'' [Meth (V 0) ''Xb'' [V 2], K (JNum 15)]) ''a'') (V 8)) (Dot (Seq (Call ''MDb'' [Bin Plus (V 7) (V 9), Dot (Dot (V 1) ''c'') ''length'']) (Call ''JD'' [Idx (Dot (V 1) ''c'') (Bin Plus (V 7) (V 9)), K (JNum 15)])) ''a''))) [Do (SetV 2 (Bin Minus (V 2) (K (JNum (- 1)))))] [], Do (SetV 7 (Bin Plus (V 7) (Bin Plus (K (JNum 1)) (V 9))))] [], Ret (V 6)],
    fn ''nDc'' 2 5 [Do (SetV 6 (New ''Yr'' [Call ''Dr'' [Meth (Dot (Call ''EYb'' [V 1]) ''a'') ''Jc'' [], New ''Dl'' []]])), Loop (Call ''Wr'' [V 6]) [Do (SetV 5 (Call ''JD'' [Call ''Xr'' [V 6], K (JNum 17)])), When (Loose (Dot (Dot (V 0) ''f'') ''b'') (K (JNum 0))) [Do (SetV 4 (And (And (Loose (Dot (Dot (Dot (V 5) ''c'') ''i'') ''k'') (Seq (Call ''$Yb'' []) (G ''XYb''))) (Neg (Neg (Dot (Dot (Dot (V 5) ''c'') ''i'') ''c'')))) (Loose (Dot (Dot (Dot (Dot (V 5) ''c'') ''i'') ''c'') ''p'') (Dot (V 0) ''c'')))), When (Call ''Wr'' [New ''Yr'' [Call ''Dr'' [Meth (Dot (Call ''EYb'' [Dot (Dot (V 5) ''c'') ''i'']) ''a'') ''Jc'' [], New ''Dl'' []]]]) [Do (SetV 2 (Dot (Dot (Dot (Call ''JD'' [Call ''Xr'' [New ''Yr'' [Call ''Dr'' [Meth (Dot (Call ''EYb'' [Dot (Dot (V 5) ''c'') ''i'']) ''a'') ''Jc'' [], New ''Dl'' []]]], K (JNum 17)]) ''c'') ''i'') ''c'')), Do (SetV 3 (And (And (Loose (Dot (Dot (Dot (V 5) ''c'') ''i'') ''k'') (G ''UYb'')) (Neg (Neg (V 2)))) (Loose (Dot (V 2) ''p'') (Dot (V 0) ''c''))))] [Do (SetV 3 (K (JBool False)))]] [Do (SetV 4 (And (Loose (Dot (Dot (Dot (V 5) ''c'') ''i'') ''k'') (Seq (Call ''$Yb'' []) (G ''XYb''))) (Loose (Dot (Dot (Dot (V 5) ''c'') ''i'') ''p'') (Dot (V 0) ''c'')))), Do (SetV 3 (And (Loose (Dot (Dot (Dot (V 5) ''c'') ''i'') ''k'') (G ''UYb'')) (Loose (Dot (Dot (Dot (Call ''JD'' [Call ''Xr'' [New ''Yr'' [Call ''Dr'' [Meth (Dot (Call ''EYb'' [Dot (Dot (V 5) ''c'') ''i'']) ''a'') ''Jc'' [], New ''Dl'' []]]], K (JNum 17)]) ''c'') ''i'') ''p'') (Dot (V 0) ''c''))))], When (Or (V 4) (V 3)) [Ret (K (JBool True))] []] [], Ret (K (JBool False))],
    fn ''XDc'' 5 15 [Do (SetV 12 (New ''lmb'' [])), Do (SetV 17 (Call ''Tx'' [V 3])), Do (SetV 16 (Bin Times (V 1) (Dot (V 0) ''a''))), Do (SetV 11 (K (JNum 0))), Do (SetV 14 (K (JNum 0))), Do (SetV 5 (New ''hsb'' [])), Do (SetV 6 (New ''hsb'' [])), Do (SetV 7 (New ''lmb'' [])), Do (SetV 18 (K (JNum 0))), Do (SetV 19 (K (JNum 0))), Do (SetV 13 (K (JNum 0))), Do (SetV 15 (K (JNum 0))), Do (SetV 9 (K (JNum 0))), Do (SetV 10 (K (JNum 0))), Loop (Neg (Loose (Meth (Dot (V 17) ''a'') ''gc'' []) (K (JNum 0)))) [Do (SetV 8 (Call ''_Dc'' [V 17, V 4, V 6])), When (V 8) [Do (Neg (Loose (Meth (Dot (V 17) ''a'') ''Ac'' [V 8]) (K JNull))), Do (Call ''qDb'' [Dot (V 7) ''c'', V 8]), Do (Meth (Dot (V 5) ''a'') ''yc'' [V 8, V 5]), Do (SetV 14 (Idx (Dot (V 0) ''f'') (Dot (V 8) ''p''))), Do (SetV 18 (Bin Plus (V 18) (Bin Minus (Idx (Dot (V 0) ''e'') (Dot (V 8) ''p'')) (Bin Times (V 14) (Dot (V 0) ''b''))))), Do (SetV 11 (Idx (Dot (V 0) ''c'') (Dot (V 8) ''p''))), Do (SetV 19 (Bin Plus (V 19) (Bin Times (V 11) (Dot (V 0) ''b'')))), Do (SetV 10 (Bin Plus (V 10) (Bin Times (V 14) (Dot (V 0) ''b'')))), Do (SetV 15 (Bin Plus (V 15) (Idx (Dot (V 0) ''e'') (Dot (V 8) ''p''))))] [], When (Or (Or (Or (Neg (V 8)) (Loose (Meth (Dot (V 17) ''a'') ''gc'' []) (K (JNum 0)))) (And (Bin Ge (V 18) (V 16)) (Bin Gt (Idx (Dot (V 0) ''e'') (Dot (V 8) ''p'')) (Bin Times (V 14) (Dot (V 0) ''b''))))) (Bin Ge (V 19) (Bin Times (V 2) (V 16)))) [Do (Call ''qDb'' [Dot (V 12) ''c'', V 7]), Do (SetV 7 (New ''lmb'' [])), Do (Call ''xe'' [V 6, V 5]), Do (Meth (Dot (V 5) ''a'') ''$b'' []), Do (SetV 9 (Bin Minus (V 9) (V 10))), Do (SetV 13 (Meth (Dot (G ''$wnd'') ''Math'') ''max'' [V 13, Bin Plus (Bin Times (V 9) (Dot (V 0) ''b'')) (V 15)])), Do (SetV 9 (Bin Plus (V 9) (V 19))), Do (SetV 18 (V 19)), Do (SetV 19 (K (JNum 0))), Do (SetV 10 (K (JNum 0))), Do (SetV 15 (K (JNum 0)))] []] [], Ret (New ''prd'' [V 13, V 12])]]"

definition object_table25 :: "(string \<times> jfun) list" where
  "object_table25 = code_5837_5850 @ code_5851_5852 @ code_5854_5861 @ code_5863_5870 @ code_5872_5874 @ code_5879_5892 @ code_5893_5895 @ code_5897_5900 @ code_5902_5905"

text \<open>The names each table declares.\<close>

lemma names_5837_5850 [js_names]: "map fst code_5837_5850 = [
    ''Z3b'', ''vRc'', ''v0d'', ''fZd'', ''Iee'', ''QXb'', ''B8b'', ''_Gb'', ''uMb'', ''uRc'',
    ''SVd'', ''Moe'', ''Ehb'', ''K$b'']"
  by (simp add: code_5837_5850_def fn_def)

lemma names_5851_5852 [js_names]: "map fst code_5851_5852 = [
    ''TNb'', ''lUb'']"
  by (simp add: code_5851_5852_def fn_def)

lemma names_5854_5861 [js_names]: "map fst code_5854_5861 = [
    ''Nib'', ''l4b'', ''Lre'', ''$2b'', ''EJd'', ''fPc'', ''Fod'', ''rhb'']"
  by (simp add: code_5854_5861_def fn_def)

lemma names_5863_5870 [js_names]: "map fst code_5863_5870 = [
    ''dRc'', ''tre'', ''Fgb'', ''ZWb'', ''SXc'', ''eod'', ''TNc'', ''Ycd'']"
  by (simp add: code_5863_5870_def fn_def)

lemma names_5872_5874 [js_names]: "map fst code_5872_5874 = [
    ''gmc'', ''I6c'', ''VMb'']"
  by (simp add: code_5872_5874_def fn_def)

lemma names_5879_5892 [js_names]: "map fst code_5879_5892 = [
    ''qee'', ''Jce'', ''hMb'', ''Npd'', ''Ree'', ''Rjc'', ''FFc'', ''q0c'', ''xCc'', ''QVc'',
    ''oEb'', ''BWb'', ''WSc'', ''eLc'']"
  by (simp add: code_5879_5892_def fn_def)

lemma names_5893_5895 [js_names]: "map fst code_5893_5895 = [
    ''dNb'', ''Uac'', ''R7b'']"
  by (simp add: code_5893_5895_def fn_def)

lemma names_5897_5900 [js_names]: "map fst code_5897_5900 = [
    ''G7b'', ''fRc'', ''OJd'', ''tnc'']"
  by (simp add: code_5897_5900_def fn_def)

lemma names_5902_5905 [js_names]: "map fst code_5902_5905 = [
    ''EGc'', ''xnc'', ''nDc'', ''XDc'']"
  by (simp add: code_5902_5905_def fn_def)

end
