(* ===== verification/ObjectTable26.thy ===== *)
theory ObjectTable26
  imports ObjectCode
begin

text \<open>
  Functions of \<open>layout-worker.js\<close>, lines 5907 to 5975, in the order of the file, one per line:
  the algorithms of the layout engine, longer operations of the runtime's collections and of options,
  with their loops, \<open>switch\<close> and \<open>try\<close> statements. An entry has the name, the
  number of parameters, the number of further local variables and the body; parameters and locals
  are numbered from 0, the variable of a \<open>catch\<close> has a number of its own, \<open>x++\<close> is \<open>(x=x+1)-1\<close>. Lines
  with a construct outside \<open>jexp\<close> and \<open>jstm\<close> (closures, \<open>in\<close>, floating-point literals, host objects) are
  left out.
\<close>

definition code_5907_5919 :: "(string \<times> jfun) list" where
  "code_5907_5919 = [
    fn ''xee'' 4 6 [Do (SetV 9 (Call ''Cie'' [Meth (Dot (V 0) ''e'') ''Ah'' [], V 1])), Do (SetV 8 (K (JNum 0))), Do (SetV 4 (Call ''JD'' [Dot (V 0) ''g'', K (JNum 122)])), Do (Call ''Aie'' []), When (Meth (Call ''JD'' [V 1, K (JNum 69)]) ''vk'' []) [Do (SetV 6 (K (JNum 0))), Loop (Bin Lt (V 6) (Dot (V 0) ''i'')) [Do (SetV 5 (Idx (V 4) (V 6))), When (Meth (V 9) ''$l'' [Meth (V 5) ''Jk'' []]) [When (Call ''pb'' [V 5, V 2]) [Ret (V 8)] [], Do (SetV 8 (Bin Minus (V 8) (K (JNum (- 1)))))] []] [Do (SetV 6 (Bin Minus (V 6) (K (JNum (- 1)))))]] [When (Neg (Loose (V 2) (K JNull))) [Do (SetV 7 (K (JNum 0))), Loop (Bin Lt (V 7) (Dot (V 0) ''i'')) [Do (SetV 5 (Idx (V 4) (V 7))), When (Meth (V 9) ''$l'' [Meth (V 5) ''Jk'' []]) [When (Call ''pb'' [V 2, Meth (V 5) ''kd'' []]) [Ret (V 8)] [], Do (SetV 8 (Bin Minus (V 8) (K (JNum (- 1)))))] []] [Do (SetV 7 (Bin Minus (V 7) (K (JNum (- 1)))))], When (V 3) [Do (SetV 8 (K (JNum 0))), Do (SetV 6 (K (JNum 0))), Loop (Bin Lt (V 6) (Dot (V 0) ''i'')) [Do (SetV 5 (Idx (V 4) (V 6))), When (Meth (V 9) ''$l'' [Meth (V 5) ''Jk'' []]) [When (Same (Call ''XD'' [V 2]) (Call ''XD'' [Call ''Nee'' [V 0, Call ''JD'' [Meth (V 5) ''kd'' [], K (JNum 57)]]])) [Ret (V 8)] [], Do (SetV 8 (Bin Minus (V 8) (K (JNum (- 1)))))] []] [Do (SetV 6 (Bin Minus (V 6) (K (JNum (- 1)))))]] []] [Do (SetV 6 (K (JNum 0))), Loop (Bin Lt (V 6) (Dot (V 0) ''i'')) [Do (SetV 5 (Idx (V 4) (V 6))), When (Meth (V 9) ''$l'' [Meth (V 5) ''Jk'' []]) [When (Loose (Meth (V 5) ''kd'' []) (K JNull)) [Ret (V 8)] [], Do (SetV 8 (Bin Minus (V 8) (K (JNum (- 1)))))] []] [Do (SetV 6 (Bin Minus (V 6) (K (JNum (- 1)))))]]], Ret (K (JNum (- 1)))],
    fn ''iie'' 4 12 [When (Meth (V 2) ''Uh'' [V 1]) [Do (SetV 10 (Seq (SetV 13 (V 1)) (Cond (Neg (V 13)) (K JNull) (Meth (Call ''JD'' [V 3, K (JNum 52)]) ''di'' [V 13])))), When (V 10) [Do (SetV 15 (Meth (V 2) ''Kh'' [V 1, Dot (V 0) ''a''])), Do (SetV 14 (Dot (V 1) ''t'')), When (Or (Bin Gt (V 14) (K (JNum 1))) (Loose (V 14) (K (JNum (- 1))))) [Do (SetV 11 (Call ''JD'' [V 15, K (JNum 72)])), Do (SetV 12 (Call ''JD'' [V 10, K (JNum 72)])), When (Meth (V 11) ''dc'' []) [Do (Meth (V 12) ''$b'' [])] [Do (SetV 6 (Neg (Neg (Call ''k4d'' [V 1])))), Do (SetV 5 (K (JNum 0))), Do (SetV 7 (Cond (Dot (V 0) ''a'') (Meth (V 11) ''Jc'' []) (Meth (V 11) ''Gi'' []))), Loop (Meth (V 7) ''Ob'' []) [Do (SetV 9 (Call ''JD'' [Meth (V 7) ''Pb'' [], K (JNum 57)])), Do (SetV 4 (Call ''JD'' [Call ''ktb'' [V 0, V 9], K (JNum 57)])), When (Neg (V 4)) [When (And (Dot (V 0) ''b'') (Neg (V 6))) [Do (Meth (V 12) ''Ei'' [V 5, V 9]), Do (SetV 5 (Bin Minus (V 5) (K (JNum (- 1)))))] []] [When (V 6) [Do (SetV 8 (Meth (V 12) ''bd'' [V 4])), Do (Cond (Loose (V 8) (K (JNum (- 1)))) (Meth (V 12) ''Ei'' [V 5, V 4]) (And (Neg (Loose (V 5) (V 8))) (Meth (V 12) ''Si'' [V 5, V 4])))] [Do (Meth (V 12) ''Ei'' [V 5, V 4])], Do (SetV 5 (Bin Minus (V 5) (K (JNum (- 1)))))]] []]] [When (Loose (V 15) (K JNull)) [Do (Meth (V 10) ''Wb'' [K JNull])] [Do (SetV 4 (Call ''ktb'' [V 0, V 15])), Do (Cond (Loose (V 4) (K JNull)) (And (And (Dot (V 0) ''b'') (Neg (Call ''k4d'' [V 1]))) (Meth (V 10) ''Wb'' [V 15])) (Meth (V 10) ''Wb'' [V 4]))]]] []] []],
    fn ''H3b'' 2 8 [Do (SetV 2 (New ''O3b'' [])), Do (SetV 4 (New ''Yr'' [Call ''Dr'' [Meth (Dot (Call ''EYb'' [V 1]) ''a'') ''Jc'' [], New ''Dl'' []]])), Loop (Call ''Wr'' [V 4]) [Do (SetV 3 (Call ''JD'' [Call ''Xr'' [V 4], K (JNum 17)])), When (Call ''AWb'' [V 3]) [Continue] [], Do (SetV 7 (Dot (Dot (V 3) ''c'') ''i'')), When (Call ''I3b'' [V 7, G ''F3b'']) [Do (SetV 9 (Call ''J3b'' [V 0, V 7, G ''F3b'', G ''E3b''])), When (Loose (V 9) (K (JNum (- 1)))) [Continue] [], Do (Put (V 2) ''b'' (Meth (Dot (G ''$wnd'') ''Math'') ''max'' [Dot (V 2) ''b'', V 9])), Do (And (Neg (Dot (V 2) ''a'')) (Put (V 2) ''a'' (New ''lmb'' []))), Do (Call ''_lb'' [Dot (V 2) ''a'', V 7])] []] [], Do (SetV 6 (New ''Yr'' [Call ''Dr'' [Meth (Dot (Call ''HYb'' [V 1]) ''a'') ''Jc'' [], New ''Dl'' []]])), Loop (Call ''Wr'' [V 6]) [Do (SetV 5 (Call ''JD'' [Call ''Xr'' [V 6], K (JNum 17)])), When (Call ''AWb'' [V 5]) [Continue] [], Do (SetV 8 (Dot (Dot (V 5) ''d'') ''i'')), When (Call ''I3b'' [V 8, G ''E3b'']) [Do (SetV 9 (Call ''J3b'' [V 0, V 8, G ''E3b'', G ''F3b''])), When (Loose (V 9) (K (JNum (- 1)))) [Continue] [], Do (Put (V 2) ''d'' (Meth (Dot (G ''$wnd'') ''Math'') ''max'' [Dot (V 2) ''d'', V 9])), Do (And (Neg (Dot (V 2) ''c'')) (Put (V 2) ''c'' (New ''lmb'' []))), Do (Call ''_lb'' [Dot (V 2) ''c'', V 8])] []] [], Ret (V 2)],
    fn ''d6b'' 4 7 [When (Loose (Dot (Dot (V 2) ''d'') ''i'') (Dot (V 1) ''i'')) [Ret (K JUndef)] [], Do (SetV 4 (New ''QYb'' [V 0])), Do (Call ''OYb'' [V 4, Seq (Call ''$Yb'' []) (G ''VYb'')]), Do (Call ''rNb'' [V 4, Seq (Call ''Wrc'' []) (G ''urc''), V 2]), Do (Call ''rNb'' [V 4, Seq (Call ''nyc'' []) (G ''qxc''), Seq (Call ''Mld'' []) (G ''Hld'')]), Do (Call ''qDb'' [Dot (V 3) ''c'', V 4]), Do (SetV 6 (New ''yZb'' [])), Do (Call ''wZb'' [V 6, V 4]), Do (Call ''xZb'' [V 6, Seq (Call ''Bmd'' []) (G ''Amd'')]), Do (SetV 7 (New ''yZb'' [])), Do (Call ''wZb'' [V 7, V 4]), Do (Call ''xZb'' [V 7, G ''gmd'']), Do (SetV 10 (Dot (V 2) ''d'')), Do (Call ''DWb'' [V 2, V 6]), Do (SetV 5 (New ''GWb'' [])), Do (Call ''mNb'' [V 5, V 2]), Do (Call ''rNb'' [V 5, G ''Bwc'', K JNull]), Do (Call ''CWb'' [V 5, V 7]), Do (Call ''DWb'' [V 5, V 10]), Do (SetV 9 (New ''Tjb'' [Dot (V 2) ''b'', K (JNum 0)])), Loop (Bin Lt (Dot (V 9) ''b'') (Meth (Dot (V 9) ''d'') ''gc'' [])) [Do (SetV 8 (Seq (Call ''LDb'' [Bin Lt (Dot (V 9) ''b'') (Meth (Dot (V 9) ''d'') ''gc'' [])]) (Call ''JD'' [Meth (Dot (V 9) ''d'') ''Xb'' [Put (V 9) ''c'' (Bin Minus (Put (V 9) ''b'' (Bin Minus (Dot (V 9) ''b'') (K (JNum (- 1))))) (K (JNum 1)))], K (JNum 70)]))), When (Same (Call ''XD'' [Call ''oNb'' [V 8, G ''gwc'']]) (Call ''XD'' [Seq (Call ''Zjd'' []) (G ''Xjd'')])) [Do (Call ''rNb'' [V 8, G ''Wqc'', V 2]), Do (Call ''Mjb'' [V 9]), Do (Call ''_lb'' [Dot (V 5) ''b'', V 8])] []] [], Do (Call ''f6b'' [V 4, V 6, V 7])],
    fn ''c6b'' 4 7 [When (Loose (Dot (Dot (V 2) ''c'') ''i'') (Dot (V 1) ''i'')) [Ret (K JUndef)] [], Do (SetV 4 (New ''QYb'' [V 0])), Do (Call ''OYb'' [V 4, Seq (Call ''$Yb'' []) (G ''VYb'')]), Do (Call ''rNb'' [V 4, Seq (Call ''Wrc'' []) (G ''urc''), V 2]), Do (Call ''rNb'' [V 4, Seq (Call ''nyc'' []) (G ''qxc''), Seq (Call ''Mld'' []) (G ''Hld'')]), Do (Call ''qDb'' [Dot (V 3) ''c'', V 4]), Do (SetV 6 (New ''yZb'' [])), Do (Call ''wZb'' [V 6, V 4]), Do (Call ''xZb'' [V 6, Seq (Call ''Bmd'' []) (G ''Amd'')]), Do (SetV 7 (New ''yZb'' [])), Do (Call ''wZb'' [V 7, V 4]), Do (Call ''xZb'' [V 7, G ''gmd'']), Do (Call ''DWb'' [V 2, V 6]), Do (SetV 5 (New ''GWb'' [])), Do (Call ''mNb'' [V 5, V 2]), Do (Call ''rNb'' [V 5, G ''Bwc'', K JNull]), Do (Call ''CWb'' [V 5, V 7]), Do (Call ''DWb'' [V 5, V 1]), Do (Call ''f6b'' [V 4, V 6, V 7]), Do (SetV 9 (New ''Tjb'' [Dot (V 2) ''b'', K (JNum 0)])), Loop (Bin Lt (Dot (V 9) ''b'') (Meth (Dot (V 9) ''d'') ''gc'' [])) [Do (SetV 8 (Seq (Call ''LDb'' [Bin Lt (Dot (V 9) ''b'') (Meth (Dot (V 9) ''d'') ''gc'' [])]) (Call ''JD'' [Meth (Dot (V 9) ''d'') ''Xb'' [Put (V 9) ''c'' (Bin Minus (Put (V 9) ''b'' (Bin Minus (Dot (V 9) ''b'') (K (JNum (- 1))))) (K (JNum 1)))], K (JNum 70)]))), Do (SetV 10 (Call ''JD'' [Call ''oNb'' [V 8, G ''gwc''], K (JNum 279)])), When (Loose (V 10) (Seq (Call ''Zjd'' []) (G ''Xjd''))) [Do (Or (Call ''pNb'' [V 8, G ''Wqc'']) (Call ''rNb'' [V 8, G ''Wqc'', V 2])), Do (Call ''Mjb'' [V 9]), Do (Call ''_lb'' [Dot (V 5) ''b'', V 8])] []] []],
    fn ''ajb'' 1 4 [Do (Call ''Vib'' []), Do (SetV 1 (Call ''YD'' [V 0])), When (Bin Lt (V 0) (Dot (G ''Uib'') ''length'')) [Ret (Idx (G ''Uib'') (V 1))] [When (Bin Le (V 0) (K (JNum 50))) [Ret (Call ''gib'' [Seq (Call ''Zhb'' []) (G ''Whb''), V 1])] [When (Bin Le (V 0) (G ''Oue'')) [Ret (Call ''hib'' [Call ''gib'' [Idx (G ''Tib'') (K (JNum 1)), V 1], V 1])] []]], When (Bin Gt (V 0) (K (JNum 1000000))) [Raise (Call ''Lcb'' [New ''Ddb'' [K (JStr ''power of ten too big'')]])] [], When (Bin Le (V 0) (G ''Ate'')) [Ret (Call ''hib'' [Call ''gib'' [Idx (G ''Tib'') (K (JNum 1)), V 1], V 1])] [], Do (SetV 3 (Call ''gib'' [Idx (G ''Tib'') (K (JNum 1)), G ''Ate''])), Do (SetV 4 (V 3)), Do (SetV 2 (Call ''Scb'' [Bin Minus (V 0) (G ''Ate'')])), Do (SetV 1 (Call ''YD'' [Bin Modulo (V 0) (G ''Ate'')])), Loop (Bin Gt (Call ''Ocb'' [V 2, G ''Ate'']) (K (JNum 0))) [Do (SetV 4 (Call ''eib'' [V 4, V 3])), Do (SetV 2 (Call ''ddb'' [V 2, G ''Ate'']))] [], Do (SetV 4 (Call ''eib'' [V 4, Call ''gib'' [Idx (G ''Tib'') (K (JNum 1)), V 1]])), Do (SetV 4 (Call ''hib'' [V 4, G ''Ate''])), Do (SetV 2 (Call ''Scb'' [Bin Minus (V 0) (G ''Ate'')])), Loop (Bin Gt (Call ''Ocb'' [V 2, G ''Ate'']) (K (JNum 0))) [Do (SetV 4 (Call ''hib'' [V 4, G ''Ate''])), Do (SetV 2 (Call ''ddb'' [V 2, G ''Ate'']))] [], Do (SetV 4 (Call ''hib'' [V 4, V 1])), Ret (V 4)],
    fn ''e3b'' 1 10 [Do (SetV 8 (New ''Kmb'' [Dot (V 0) ''a''])), Loop (Bin Lt (Dot (V 8) ''a'') (Dot (Dot (Dot (V 8) ''c'') ''c'') ''length'')) [Do (SetV 7 (Call ''JD'' [Call ''Imb'' [V 8], K (JNum 9)])), When (Neg (Loose (Dot (V 7) ''k'') (Seq (Call ''$Yb'' []) (G ''TYb'')))) [Continue] [], Do (SetV 4 (Call ''JD'' [Call ''oNb'' [V 7, Seq (Call ''Wrc'' []) (G ''$qc'')], K (JNum 64)])), When (Or (Loose (V 4) (Seq (Call ''Bmd'' []) (G ''gmd''))) (Loose (V 4) (G ''Amd''))) [Do (SetV 3 (New ''Yr'' [Call ''Dr'' [Meth (Dot (Call ''BYb'' [V 7]) ''a'') ''Jc'' [], New ''Dl'' []]])), Loop (Call ''Wr'' [V 3]) [Do (SetV 2 (Call ''JD'' [Call ''Xr'' [V 3], K (JNum 17)])), Do (SetV 1 (Dot (V 2) ''a'')), When (Loose (Dot (V 1) ''b'') (K (JNum 0))) [Continue] [], Do (SetV 9 (Dot (V 2) ''c'')), When (Loose (Dot (V 9) ''i'') (V 7)) [Do (SetV 5 (Seq (Call ''LDb'' [Neg (Loose (Dot (V 1) ''b'') (K (JNum 0)))]) (Call ''JD'' [Dot (Dot (Dot (V 1) ''a'') ''a'') ''c'', K (JNum 8)]))), Do (Put (V 5) ''b'' (Dot (Call ''rgd'' [Call ''WC'' [Call ''OC'' [G ''r2'', K (JNum 1)], G ''aue'', K (JNum 8), K (JNum 0), NewArr [Dot (Dot (V 9) ''i'') ''n'', Dot (V 9) ''n'', Dot (V 9) ''a'']]]) ''b''))] [], Do (SetV 10 (Dot (V 2) ''d'')), When (Loose (Dot (V 10) ''i'') (V 7)) [Do (SetV 6 (Seq (Call ''LDb'' [Neg (Loose (Dot (V 1) ''b'') (K (JNum 0)))]) (Call ''JD'' [Dot (Dot (Dot (V 1) ''c'') ''b'') ''c'', K (JNum 8)]))), Do (Put (V 6) ''b'' (Dot (Call ''rgd'' [Call ''WC'' [Call ''OC'' [G ''r2'', K (JNum 1)], G ''aue'', K (JNum 8), K (JNum 0), NewArr [Dot (Dot (V 10) ''i'') ''n'', Dot (V 10) ''n'', Dot (V 10) ''a'']]]) ''b''))] []] []] []] []],
    fn ''Yfc'' 4 3 [Do (Put This ''j'' (New ''lmb'' [])), Do (Put This ''k'' (New ''lmb'' [])), Do (Put This ''b'' (New ''lmb'' [])), Do (Put This ''c'' (New ''lmb'' [])), Do (Put This ''e'' (New ''Ofd'' [])), Do (Put This ''i'' (New ''ygd'' [])), Do (Put This ''f'' (New ''vFb'' [])), Do (Put This ''d'' (New ''lmb'' [])), Do (Put This ''g'' (New ''lmb'' [])), Do (Call ''_lb'' [Dot This ''b'', V 0]), Do (Call ''_lb'' [Dot This ''b'', V 1]), Do (Put (Dot This ''e'') ''c'' (Meth (Dot (G ''$wnd'') ''Math'') ''min'' [Dot (V 0) ''a'', Dot (V 1) ''a''])), Do (Put (Dot This ''e'') ''d'' (Meth (Dot (G ''$wnd'') ''Math'') ''min'' [Dot (V 0) ''b'', Dot (V 1) ''b''])), Do (Put (Dot This ''e'') ''b'' (Meth (Dot (G ''$wnd'') ''Math'') ''abs'' [Bin Minus (Dot (V 0) ''a'') (Dot (V 1) ''a'')])), Do (Put (Dot This ''e'') ''a'' (Meth (Dot (G ''$wnd'') ''Math'') ''abs'' [Bin Minus (Dot (V 0) ''b'') (Dot (V 1) ''b'')])), Do (SetV 4 (Call ''JD'' [Call ''oNb'' [V 3, Seq (Call ''nyc'' []) (G ''Bwc'')], K (JNum 79)])), When (V 4) [Do (SetV 6 (Call ''Ztb'' [V 4, K (JNum 0)])), Loop (Neg (Loose (Dot (V 6) ''b'') (Dot (Dot (V 6) ''d'') ''c''))) [Do (SetV 5 (Call ''JD'' [Call ''lub'' [V 6], K (JNum 8)])), Do (And (Call ''KEb'' [Dot (V 5) ''a'', Dot (V 0) ''a'']) (Call ''Ttb'' [Dot This ''i'', V 5]))] []] [], Do (And (Neg (Neg (V 2))) (Call ''_lb'' [Dot This ''j'', V 2])), Do (Call ''_lb'' [Dot This ''k'', V 3])],
    fn ''ePc'' 4 7 [Do (SetV 7 (K (JNum (- 1)))), Do (SetV 10 (New ''Kmb'' [V 0])), Loop (Bin Lt (Dot (V 10) ''a'') (Dot (Dot (Dot (V 10) ''c'') ''c'') ''length'')) [Do (SetV 9 (Call ''JD'' [Call ''Imb'' [V 10], K (JNum 116)])), Do (Put (V 9) ''g'' (Bin Minus (SetV 7 (Bin Minus (V 7) (K (JNum 1)))) (K (JNum (- 1))))), Do (SetV 4 (Call ''gdb'' [Dot (Call ''FBb'' [Call ''_Bb'' [Call ''VBb'' [New ''jCb'' [K JNull, New ''Zvb'' [Dot (V 9) ''f'', K (JNum 16)]], New ''gPc'' []], New ''iPc'' []]]) ''d''])), Do (SetV 5 (Call ''gdb'' [Dot (Call ''FBb'' [Call ''_Bb'' [Call ''VBb'' [New ''jCb'' [K JNull, New ''Zvb'' [Dot (V 9) ''k'', K (JNum 16)]], New ''kPc'' []], New ''mPc'' []]]) ''d''])), Do (SetV 6 (V 4)), Do (SetV 8 (V 5)), When (Neg (V 3)) [Do (SetV 6 (Call ''gdb'' [Dot (Call ''FBb'' [Call ''_Bb'' [New ''jCb'' [K JNull, New ''Zvb'' [Dot (V 9) ''f'', K (JNum 16)]], New ''oPc'' []]]) ''d''])), Do (SetV 8 (Call ''gdb'' [Dot (Call ''FBb'' [Call ''_Bb'' [New ''jCb'' [K JNull, New ''Zvb'' [Dot (V 9) ''k'', K (JNum 16)]], New ''qPc'' []]]) ''d'']))] [], Do (Put (V 9) ''d'' (V 6)), Do (Put (V 9) ''a'' (V 4)), Do (Put (V 9) ''i'' (V 8)), Do (Put (V 9) ''b'' (V 5)), Do (Cond (Loose (V 8) (K (JNum 0))) (Seq (Call ''Wtb'' [V 2, V 9, Dot (Dot (V 2) ''c'') ''b'', Dot (V 2) ''c'']) (K (JBool True))) (And (Loose (V 6) (K (JNum 0))) (Seq (Call ''Wtb'' [V 1, V 9, Dot (Dot (V 1) ''c'') ''b'', Dot (V 1) ''c'']) (K (JBool True)))))] []],
    fn ''E7b'' 2 6 [When (Loose (Dot (V 0) ''k'') (Seq (Call ''$Yb'' []) (G ''UYb''))) [Do (SetV 2 (Cond (And (Loose (Dot (V 0) ''k'') (G ''UYb'')) (Neg (Meth (Call ''hCb'' [Call ''VBb'' [Meth (Call ''JD'' [Call ''oNb'' [V 0, Seq (Call ''Wrc'' []) (G ''Grc'')], K (JNum 16)]) ''Mc'' [], New ''Xzb'' [New ''eZb'' []]]]) ''zd'' [Seq (Call ''QBb'' []) (G ''PBb'')]))) (Seq (Call ''$kd'' []) (G ''Ykd'')) (V 1))), Do (Call ''rNb'' [V 0, Seq (Call ''Wrc'' []) (G ''krc''), V 2]), When (Neg (Loose (V 2) (Seq (Call ''$kd'' []) (G ''Xkd'')))) [Do (SetV 3 (Call ''JD'' [Call ''oNb'' [V 0, G ''urc''], K (JNum 17)])), Do (SetV 7 (Call ''Ueb'' [Call ''MD'' [Call ''oNb'' [V 3, Seq (Call ''nyc'' []) (G ''pwc'')]]])), Do (SetV 6 (K (JNum 0))), When (Loose (V 2) (G ''Wkd'')) [Do (SetV 6 (Bin Minus (Dot (Dot (V 0) ''o'') ''b'') (Meth (Dot (G ''$wnd'') ''Math'') ''ceil'' [Bin Divide (V 7) (K (JNum 2))])))] [When (Loose (V 2) (G ''Ykd'')) [Do (SetV 6 (Bin Divide (Meth (Dot (G ''$wnd'') ''Math'') ''ceil'' [Bin Minus (Bin Minus (Dot (Dot (V 0) ''o'') ''b'') (Call ''Ueb'' [Call ''MD'' [Call ''oNb'' [Call ''DYb'' [V 0], G ''Kxc'']]])) (V 7)]) (K (JNum 2)))), Do (Put (Dot (V 0) ''o'') ''b'' (Bin Minus (Dot (Dot (V 0) ''o'') ''b'') (Call ''Ueb'' [Call ''MD'' [Call ''oNb'' [Call ''DYb'' [V 0], G ''Kxc'']]]))), Do (Put (Dot (V 0) ''o'') ''b'' (Bin Minus (Dot (Dot (V 0) ''o'') ''b'') (V 7)))] []], Do (SetV 5 (New ''Kmb'' [Dot (V 0) ''j''])), Loop (Bin Lt (Dot (V 5) ''a'') (Dot (Dot (Dot (V 5) ''c'') ''c'') ''length'')) [Do (SetV 4 (Call ''JD'' [Call ''Imb'' [V 5], K (JNum 12)])), Do (Put (Dot (V 4) ''n'') ''b'' (V 6))] []] []] []],
    fn ''GNc'' 3 9 [Do (SetV 4 (K (JBool True))), Do (SetV 6 (New ''Kmb'' [Dot (V 0) ''b''])), Loop (Bin Lt (Dot (V 6) ''a'') (Dot (Dot (Dot (V 6) ''c'') ''c'') ''length'')) [Do (SetV 5 (Call ''JD'' [Call ''Imb'' [V 6], K (JNum 25)])), Do (SetV 9 (G ''Dve'')), Do (SetV 10 (K JNull)), Do (SetV 8 (New ''Kmb'' [Dot (V 5) ''a''])), Loop (Bin Lt (Dot (V 8) ''a'') (Dot (Dot (Dot (V 8) ''c'') ''c'') ''length'')) [Do (SetV 7 (Call ''JD'' [Call ''Imb'' [V 8], K (JNum 9)])), Do (SetV 11 (Bin Minus (Bin Plus (Call ''Ueb'' [Idx (Dot (V 1) ''p'') (Dot (V 7) ''p'')]) (Call ''Ueb'' [Idx (Dot (V 1) ''d'') (Dot (V 7) ''p'')])) (Dot (Dot (V 7) ''d'') ''d''))), Do (SetV 3 (Bin Plus (Bin Plus (Bin Plus (Call ''Ueb'' [Idx (Dot (V 1) ''p'') (Dot (V 7) ''p'')]) (Call ''Ueb'' [Idx (Dot (V 1) ''d'') (Dot (V 7) ''p'')])) (Dot (Dot (V 7) ''o'') ''b'')) (Dot (Dot (V 7) ''d'') ''a''))), When (And (Bin Gt (V 11) (V 9)) (Bin Gt (V 3) (V 9))) [Do (SetV 10 (V 7)), Do (SetV 9 (Bin Plus (Bin Plus (Bin Plus (Call ''Ueb'' [Idx (Dot (V 1) ''p'') (Dot (V 7) ''p'')]) (Call ''Ueb'' [Idx (Dot (V 1) ''d'') (Dot (V 7) ''p'')])) (Dot (Dot (V 7) ''o'') ''b'')) (Dot (Dot (V 7) ''d'') ''a'')))] [Do (SetV 4 (K (JBool False))), Do (And (Meth (V 2) ''$g'' []) (Meth (V 2) ''ah'' [Bin Plus (Bin Plus (Bin Plus (K (JStr ''bk node placement breaks on '')) (V 7)) (K (JStr '' which should have been after ''))) (V 10)])), Break]] [], When (Neg (V 4)) [Break] []] [], Do (And (Meth (V 2) ''$g'' []) (Meth (V 2) ''ah'' [Bin Plus (Bin Plus (V 1) (K (JStr '' is feasible: ''))) (V 4)])), Ret (V 4)],
    fn ''w9b'' 4 9 [Do (SetV 5 (New ''QYb'' [V 0])), Do (Call ''OYb'' [V 5, Seq (Call ''$Yb'' []) (G ''YYb'')]), Do (Call ''rNb'' [V 5, Seq (Call ''nyc'' []) (G ''qxc''), Seq (Call ''Mld'' []) (G ''Hld'')]), Do (SetV 4 (K (JNum 0))), When (V 1) [Do (SetV 6 (New ''yZb'' [])), Do (Call ''rNb'' [V 6, Seq (Call ''Wrc'' []) (G ''urc''), V 1]), Do (Call ''rNb'' [V 5, G ''urc'', Dot (V 1) ''i'']), Do (Call ''xZb'' [V 6, Seq (Call ''Bmd'' []) (G ''Amd'')]), Do (Call ''wZb'' [V 6, V 5]), Do (SetV 12 (Call ''ZXb'' [Dot (V 1) ''e''])), Do (Seq (Seq (SetV 9 (V 12)) (SetV 10 (K (JNum 0)))) (SetV 11 (Dot (V 9) ''length''))), Loop (Bin Lt (V 10) (V 11)) [Do (SetV 8 (Idx (V 9) (V 10))), Do (Call ''DWb'' [V 8, V 6])] [Do (SetV 10 (Bin Minus (V 10) (K (JNum (- 1)))))], Do (Call ''rNb'' [V 1, G ''Crc'', V 5]), Do (SetV 4 (Bin Minus (V 4) (K (JNum (- 1)))))] [], When (V 2) [Do (SetV 7 (New ''yZb'' [])), Do (Call ''rNb'' [V 5, Seq (Call ''Wrc'' []) (G ''urc''), Dot (V 2) ''i'']), Do (Call ''rNb'' [V 7, G ''urc'', V 2]), Do (Call ''xZb'' [V 7, Seq (Call ''Bmd'' []) (G ''gmd'')]), Do (Call ''wZb'' [V 7, V 5]), Do (SetV 12 (Call ''ZXb'' [Dot (V 2) ''g''])), Do (Seq (Seq (SetV 9 (V 12)) (SetV 10 (K (JNum 0)))) (SetV 11 (Dot (V 9) ''length''))), Loop (Bin Lt (V 10) (V 11)) [Do (SetV 8 (Idx (V 9) (V 10))), Do (Call ''CWb'' [V 8, V 7])] [Do (SetV 10 (Bin Minus (V 10) (K (JNum (- 1)))))], Do (Call ''rNb'' [V 2, G ''Crc'', V 5]), Do (SetV 4 (Bin Minus (V 4) (K (JNum (- 1)))))] [], Do (Call ''rNb'' [V 5, Seq (Call ''Wrc'' []) (G ''Rqc''), Call ''Cfb'' [V 4]]), Do (Call ''qDb'' [Dot (V 3) ''c'', V 5]), Ret (V 5)],
    fn ''ydd'' 1 13 [Do (SetV 2 (Seq (SetV 9 (Meth (Meth (Dot (New ''qkb'' [Dot (Dot (V 0) ''c'') ''b'']) ''a'') ''vc'' []) ''Jc'' [])) (New ''vkb'' [V 9]))), Loop (Meth (Dot (V 2) ''a'') ''Ob'' []) [Do (SetV 1 (Seq (SetV 7 (Call ''JD'' [Meth (Dot (V 2) ''a'') ''Pb'' [], K (JNum 45)])) (Call ''JD'' [Meth (V 7) ''kd'' [], K (JNum 144)]))), Do (SetV 4 (Dot (V 1) ''a'')), Do (And (Loose (V 4) (K JNull)) (SetV 4 (K (JStr '''')))), Do (SetV 3 (Call ''qdd'' [Dot (V 0) ''c'', V 4])), Do (And (And (Neg (V 3)) (Loose (Dot (V 4) ''length'') (K (JNum 0)))) (SetV 3 (Call ''Cdd'' [V 0]))), Do (And (And (Neg (Neg (V 3))) (Neg (Call ''ye'' [Dot (V 3) ''c'', V 1, K (JBool False)]))) (Call ''Ttb'' [Dot (V 3) ''c'', V 1]))] [], Do (SetV 6 (Call ''Ztb'' [Dot (V 0) ''a'', K (JNum 0)])), Loop (Neg (Loose (Dot (V 6) ''b'') (Dot (Dot (V 6) ''d'') ''c''))) [Do (SetV 5 (Call ''JD'' [Call ''lub'' [V 6], K (JNum 475)])), Do (SetV 10 (Call ''rdd'' [Dot (V 0) ''c'', Dot (V 5) ''a''])), Do (SetV 13 (Call ''rdd'' [Dot (V 0) ''c'', Dot (V 5) ''b''])), Do (And (And (Neg (Neg (V 10))) (Neg (Neg (V 13)))) (Call ''Ttb'' [Dot (V 10) ''c'', New ''prd'' [V 13, Dot (V 5) ''c'']]))] [], Do (Call ''cub'' [Dot (V 0) ''a'']), Do (SetV 12 (Call ''Ztb'' [Dot (V 0) ''b'', K (JNum 0)])), Loop (Neg (Loose (Dot (V 12) ''b'') (Dot (Dot (V 12) ''d'') ''c''))) [Do (SetV 11 (Call ''JD'' [Call ''lub'' [V 12], K (JNum 475)])), Do (SetV 1 (Call ''odd'' [Dot (V 0) ''c'', Dot (V 11) ''a''])), Do (SetV 8 (Call ''rdd'' [Dot (V 0) ''c'', Dot (V 11) ''b''])), Do (And (And (Neg (Neg (V 1))) (Neg (Neg (V 8)))) (Call ''Hcd'' [V 1, V 8, Dot (V 11) ''c'']))] [], Do (Call ''cub'' [Dot (V 0) ''b''])]]"

definition code_5925_5930 :: "(string \<times> jfun) list" where
  "code_5925_5930 = [
    fn ''Ujc'' 1 7 [Do (SetV 2 (K JNull)), Do (SetV 7 (K JNull)), Do (SetV 3 (Call ''JD'' [Call ''oNb'' [Dot (V 0) ''b'', Seq (Call ''nyc'' []) (G ''mwc'')], K (JNum 348)])), When (Loose (V 3) (Seq (Call ''IAc'' []) (G ''GAc''))) [Do (SetV 2 (New ''lmb'' [])), Do (SetV 7 (New ''lmb'' []))] [], Do (SetV 6 (New ''Kmb'' [Dot (V 0) ''d''])), Loop (Bin Lt (Dot (V 6) ''a'') (Dot (Dot (Dot (V 6) ''c'') ''c'') ''length'')) [Do (SetV 5 (Call ''JD'' [Call ''Imb'' [V 6], K (JNum 107)])), Do (SetV 4 (Dot (V 5) ''i'')), When (Neg (V 4)) [Continue] [], Switch (Dot (Dot (V 5) ''e'') ''g'') [(Some (JNum 0), [Do (SetV 1 (Call ''JD'' [Call ''Vrb'' [New ''Wrb'' [Dot (V 5) ''b'']], K (JNum 64)])), Do (Cond (And (Loose (V 3) (G ''GAc'')) (Loose (V 1) (Seq (Call ''Bmd'' []) (G ''hmd'')))) (Seq (Call ''qDb'' [Dot (V 2) ''c'', V 5]) (K (JBool True))) (Cond (And (Loose (V 3) (G ''GAc'')) (Loose (V 1) (Seq (Call ''Bmd'' []) (G ''ymd'')))) (Seq (Call ''qDb'' [Dot (V 7) ''c'', V 5]) (K (JBool True))) (Call ''Sjc'' [V 5, V 1]))), Break]), (Some (JNum 1), [Do (Call ''Vjc'' [V 5]), Break]), (Some (JNum 2), []), (Some (JNum 3), [Do (Call ''Wjc'' [V 5]), Break]), (Some (JNum 4), [Do (Call ''Qjc'' [V 5])])]] [], When (V 2) [Do (Or (Loose (Dot (Dot (V 2) ''c'') ''length'') (K (JNum 0))) (Call ''Rjc'' [V 2, Seq (Call ''Bmd'' []) (G ''hmd'')])), Do (Or (Loose (Dot (Dot (V 7) ''c'') ''length'') (K (JNum 0))) (Call ''Rjc'' [V 7, Seq (Call ''Bmd'' []) (G ''ymd'')]))] []],
    fn ''OGc'' 2 4 [Do (SetV 4 (Neg (Loose (Call ''Rvb'' [Dot (V 0) ''d'', K (JNum 1)]) (K (JNum 0))))), Do (SetV 3 (Call ''GGc'' [V 0, V 1])), When (And (Loose (V 3) (K (JNum 0))) (Call ''Rdb'' [Call ''LD'' [Call ''oNb'' [Dot (V 1) ''j'', Seq (Call ''Wrc'' []) (G ''arc'')]]])) [Ret (K (JNum 0))] [], Do (Cond (Or (And (Neg (Call ''Rdb'' [Call ''LD'' [Call ''oNb'' [Dot (V 1) ''j'', Seq (Call ''Wrc'' []) (G ''arc'')]]])) (Neg (Call ''Rdb'' [Call ''LD'' [Call ''oNb'' [Dot (V 1) ''j'', G ''Irc'']]]))) (Same (Call ''XD'' [Call ''oNb'' [Dot (V 1) ''j'', Seq (Call ''nyc'' []) (G ''Ovc'')]]) (Call ''XD'' [Seq (Call ''_zc'' []) (G ''Yzc'')]))) (Meth (Dot (V 1) ''c'') ''kg'' [Dot (V 1) ''e'', V 4]) (SetV 4 (Call ''Rdb'' [Call ''LD'' [Call ''oNb'' [Dot (V 1) ''j'', G ''arc'']]]))), Do (Call ''XGc'' [V 0, V 1, V 4, K (JBool True)]), Do (And (Call ''Rdb'' [Call ''LD'' [Call ''oNb'' [Dot (V 1) ''j'', G ''Irc'']]]) (Call ''rNb'' [Dot (V 1) ''j'', G ''Irc'', Seq (Call ''Qdb'' []) (K (JBool False))])), When (Call ''Rdb'' [Call ''LD'' [Call ''oNb'' [Dot (V 1) ''j'', G ''arc'']]]) [Do (Call ''rNb'' [Dot (V 1) ''j'', G ''arc'', Seq (Call ''Qdb'' []) (K (JBool False))]), Do (Call ''rNb'' [Dot (V 1) ''j'', G ''Irc'', K (JBool True)])] [], Do (SetV 2 (Call ''GGc'' [V 0, V 1])), Loop (K (JBool True)) [Do (Call ''SGc'' [V 0]), When (Loose (V 2) (K (JNum 0))) [Ret (K (JNum 0))] [], Do (SetV 4 (Neg (V 4))), Do (SetV 5 (V 2)), Do (Call ''XGc'' [V 0, V 1, V 4, K (JBool False)]), Do (SetV 2 (Call ''GGc'' [V 0, V 1]))] [When (Bin Gt (V 5) (V 2)) [] [Break]], Ret (V 5)],
    fn ''PGc'' 2 4 [Do (SetV 4 (Neg (Loose (Call ''Rvb'' [Dot (V 0) ''d'', K (JNum 1)]) (K (JNum 0))))), Do (SetV 3 (Call ''FGc'' [V 0, V 1])), When (And (Loose (V 3) (K (JNum 0))) (Call ''Rdb'' [Call ''LD'' [Call ''oNb'' [Dot (V 1) ''j'', Seq (Call ''Wrc'' []) (G ''arc'')]]])) [Ret (K (JNum 0))] [], Do (Cond (Or (And (Neg (Call ''Rdb'' [Call ''LD'' [Call ''oNb'' [Dot (V 1) ''j'', Seq (Call ''Wrc'' []) (G ''arc'')]]])) (Neg (Call ''Rdb'' [Call ''LD'' [Call ''oNb'' [Dot (V 1) ''j'', G ''Irc'']]]))) (Same (Call ''XD'' [Call ''oNb'' [Dot (V 1) ''j'', Seq (Call ''nyc'' []) (G ''Ovc'')]]) (Call ''XD'' [Seq (Call ''_zc'' []) (G ''Yzc'')]))) (Meth (Dot (V 1) ''c'') ''kg'' [Dot (V 1) ''e'', V 4]) (SetV 4 (Call ''Rdb'' [Call ''LD'' [Call ''oNb'' [Dot (V 1) ''j'', G ''arc'']]]))), Do (Call ''XGc'' [V 0, V 1, V 4, K (JBool True)]), Do (And (Call ''Rdb'' [Call ''LD'' [Call ''oNb'' [Dot (V 1) ''j'', G ''Irc'']]]) (Call ''rNb'' [Dot (V 1) ''j'', G ''Irc'', Seq (Call ''Qdb'' []) (K (JBool False))])), When (Call ''Rdb'' [Call ''LD'' [Call ''oNb'' [Dot (V 1) ''j'', G ''arc'']]]) [Do (Call ''rNb'' [Dot (V 1) ''j'', G ''arc'', Seq (Call ''Qdb'' []) (K (JBool False))]), Do (Call ''rNb'' [Dot (V 1) ''j'', G ''Irc'', K (JBool True)])] [], Do (SetV 2 (Call ''FGc'' [V 0, V 1])), Loop (K (JBool True)) [Do (Call ''SGc'' [V 0]), When (Loose (V 2) (K (JNum 0))) [Ret (K (JNum 0))] [], Do (SetV 4 (Neg (V 4))), Do (SetV 5 (V 2)), Do (Call ''XGc'' [V 0, V 1, V 4, K (JBool False)]), Do (SetV 2 (Call ''FGc'' [V 0, V 1]))] [When (Bin Gt (V 5) (V 2)) [] [Break]], Ret (V 5)],
    fn ''sQb'' 3 5 [Do (SetV 3 (Call ''JD'' [Call ''oNb'' [V 0, Seq (Call ''nyc'' []) (G ''Pvc'')], K (JNum 22)])), Do (And (Bin Gt (Dot (V 2) ''a'') (Dot (V 1) ''a'')) (Cond (Meth (V 3) ''Gc'' [Seq (Call ''ohd'' []) (G ''ihd'')]) (Put (Dot (V 0) ''c'') ''a'' (Bin Plus (Dot (Dot (V 0) ''c'') ''a'') (Bin Divide (Bin Minus (Dot (V 2) ''a'') (Dot (V 1) ''a'')) (K (JNum 2))))) (And (Meth (V 3) ''Gc'' [G ''khd'']) (Put (Dot (V 0) ''c'') ''a'' (Bin Plus (Dot (Dot (V 0) ''c'') ''a'') (Bin Minus (Dot (V 2) ''a'') (Dot (V 1) ''a''))))))), Do (And (Bin Gt (Dot (V 2) ''b'') (Dot (V 1) ''b'')) (Cond (Meth (V 3) ''Gc'' [Seq (Call ''ohd'' []) (G ''mhd'')]) (Put (Dot (V 0) ''c'') ''b'' (Bin Plus (Dot (Dot (V 0) ''c'') ''b'') (Bin Divide (Bin Minus (Dot (V 2) ''b'') (Dot (V 1) ''b'')) (K (JNum 2))))) (And (Meth (V 3) ''Gc'' [G ''lhd'']) (Put (Dot (V 0) ''c'') ''b'' (Bin Plus (Dot (Dot (V 0) ''c'') ''b'') (Bin Minus (Dot (V 2) ''b'') (Dot (V 1) ''b''))))))), When (And (Meth (Call ''JD'' [Call ''oNb'' [V 0, Seq (Call ''Wrc'' []) (G ''brc'')], K (JNum 22)]) ''Gc'' [Seq (Call ''Xpc'' []) (G ''Qpc'')]) (Or (Bin Gt (Dot (V 2) ''a'') (Dot (V 1) ''a'')) (Bin Gt (Dot (V 2) ''b'') (Dot (V 1) ''b'')))) [Do (SetV 7 (New ''Kmb'' [Dot (V 0) ''a''])), Loop (Bin Lt (Dot (V 7) ''a'') (Dot (Dot (Dot (V 7) ''c'') ''c'') ''length'')) [Do (SetV 6 (Call ''JD'' [Call ''Imb'' [V 7], K (JNum 9)])), When (Loose (Dot (V 6) ''k'') (Seq (Call ''$Yb'' []) (G ''TYb''))) [Do (SetV 4 (Call ''JD'' [Call ''oNb'' [V 6, G ''$qc''], K (JNum 64)])), Do (Cond (Loose (V 4) (Seq (Call ''Bmd'' []) (G ''gmd''))) (Put (Dot (V 6) ''n'') ''a'' (Bin Plus (Dot (Dot (V 6) ''n'') ''a'') (Bin Minus (Dot (V 2) ''a'') (Dot (V 1) ''a'')))) (And (Loose (V 4) (G ''ymd'')) (Put (Dot (V 6) ''n'') ''b'' (Bin Plus (Dot (Dot (V 6) ''n'') ''b'') (Bin Minus (Dot (V 2) ''b'') (Dot (V 1) ''b''))))))] []] []] [], Do (SetV 5 (Dot (V 0) ''d'')), Do (Put (Dot (V 0) ''f'') ''a'' (Bin Minus (Bin Minus (Dot (V 2) ''a'') (Dot (V 5) ''b'')) (Dot (V 5) ''c''))), Do (Put (Dot (V 0) ''f'') ''b'' (Bin Minus (Bin Minus (Dot (V 2) ''b'') (Dot (V 5) ''d'')) (Dot (V 5) ''a'')))],
    fn ''K2b'' 3 5 [Do (SetV 3 (Call ''JD'' [Call ''oNb'' [V 0, Seq (Call ''nyc'' []) (G ''Pvc'')], K (JNum 22)])), Do (And (Bin Gt (Dot (V 2) ''a'') (Dot (V 1) ''a'')) (Cond (Meth (V 3) ''Gc'' [Seq (Call ''ohd'' []) (G ''ihd'')]) (Put (Dot (V 0) ''c'') ''a'' (Bin Plus (Dot (Dot (V 0) ''c'') ''a'') (Bin Divide (Bin Minus (Dot (V 2) ''a'') (Dot (V 1) ''a'')) (K (JNum 2))))) (And (Meth (V 3) ''Gc'' [G ''khd'']) (Put (Dot (V 0) ''c'') ''a'' (Bin Plus (Dot (Dot (V 0) ''c'') ''a'') (Bin Minus (Dot (V 2) ''a'') (Dot (V 1) ''a''))))))), Do (And (Bin Gt (Dot (V 2) ''b'') (Dot (V 1) ''b'')) (Cond (Meth (V 3) ''Gc'' [Seq (Call ''ohd'' []) (G ''mhd'')]) (Put (Dot (V 0) ''c'') ''b'' (Bin Plus (Dot (Dot (V 0) ''c'') ''b'') (Bin Divide (Bin Minus (Dot (V 2) ''b'') (Dot (V 1) ''b'')) (K (JNum 2))))) (And (Meth (V 3) ''Gc'' [G ''lhd'']) (Put (Dot (V 0) ''c'') ''b'' (Bin Plus (Dot (Dot (V 0) ''c'') ''b'') (Bin Minus (Dot (V 2) ''b'') (Dot (V 1) ''b''))))))), When (And (Meth (Call ''JD'' [Call ''oNb'' [V 0, Seq (Call ''Wrc'' []) (G ''brc'')], K (JNum 22)]) ''Gc'' [Seq (Call ''Xpc'' []) (G ''Qpc'')]) (Or (Bin Gt (Dot (V 2) ''a'') (Dot (V 1) ''a'')) (Bin Gt (Dot (V 2) ''b'') (Dot (V 1) ''b'')))) [Do (SetV 6 (New ''Kmb'' [Dot (V 0) ''a''])), Loop (Bin Lt (Dot (V 6) ''a'') (Dot (Dot (Dot (V 6) ''c'') ''c'') ''length'')) [Do (SetV 5 (Call ''JD'' [Call ''Imb'' [V 6], K (JNum 9)])), When (Loose (Dot (V 5) ''k'') (Seq (Call ''$Yb'' []) (G ''TYb''))) [Do (SetV 4 (Call ''JD'' [Call ''oNb'' [V 5, G ''$qc''], K (JNum 64)])), Do (Cond (Loose (V 4) (Seq (Call ''Bmd'' []) (G ''gmd''))) (Put (Dot (V 5) ''n'') ''a'' (Bin Plus (Dot (Dot (V 5) ''n'') ''a'') (Bin Minus (Dot (V 2) ''a'') (Dot (V 1) ''a'')))) (And (Loose (V 4) (G ''ymd'')) (Put (Dot (V 5) ''n'') ''b'' (Bin Plus (Dot (Dot (V 5) ''n'') ''b'') (Bin Minus (Dot (V 2) ''b'') (Dot (V 1) ''b''))))))] []] []] [], Do (SetV 7 (Dot (V 0) ''d'')), Do (Put (Dot (V 0) ''f'') ''a'' (Bin Minus (Bin Minus (Dot (V 2) ''a'') (Dot (V 7) ''b'')) (Dot (V 7) ''c''))), Do (Put (Dot (V 0) ''f'') ''b'' (Bin Minus (Bin Minus (Dot (V 2) ''b'') (Dot (V 7) ''d'')) (Dot (V 7) ''a'')))],
    fn ''tNc'' 1 12 [Do (SetV 1 (Call ''MNc'' [V 0])), Do (SetV 10 (Seq (SetV 7 (Meth (Meth (Dot (New ''fkb'' [V 1]) ''a'') ''vc'' []) ''Jc'' [])) (New ''lkb'' [V 7]))), Loop (Meth (Dot (V 10) ''a'') ''Ob'' []) [Do (SetV 9 (Seq (SetV 4 (Call ''JD'' [Meth (Dot (V 10) ''a'') ''Pb'' [], K (JNum 45)])) (Call ''JD'' [Meth (V 4) ''jd'' [], K (JNum 9)]))), Do (SetV 11 (K (JNum 0))), Do (SetV 12 (K (JNum 0))), Do (SetV 11 (Dot (Dot (V 9) ''d'') ''d'')), Do (SetV 12 (Bin Plus (Dot (Dot (V 9) ''o'') ''b'') (Dot (Dot (V 9) ''d'') ''a''))), Do (PutIdx (Dot (V 0) ''d'') (Dot (V 9) ''p'') (K (JNum 0))), Do (SetV 2 (V 9)), Loop (Neg (Loose (SetV 5 (Idx (Dot (V 0) ''a'') (Dot (V 2) ''p''))) (V 9))) [Do (SetV 3 (Call ''ONc'' [V 2, V 5])), Do (SetV 8 (K (JNum 0))), Do (Cond (Loose (Dot (V 0) ''c'') (Seq (Call ''fNc'' []) (G ''dNc''))) (SetV 8 (Bin Minus (Bin Minus (Bin Plus (Dot (Dot (Dot (V 3) ''d'') ''n'') ''b'') (Dot (Dot (Dot (V 3) ''d'') ''a'') ''b'')) (Dot (Dot (Dot (V 3) ''c'') ''n'') ''b'')) (Dot (Dot (Dot (V 3) ''c'') ''a'') ''b''))) (SetV 8 (Bin Minus (Bin Minus (Bin Plus (Dot (Dot (Dot (V 3) ''c'') ''n'') ''b'') (Dot (Dot (Dot (V 3) ''c'') ''a'') ''b'')) (Dot (Dot (Dot (V 3) ''d'') ''n'') ''b'')) (Dot (Dot (Dot (V 3) ''d'') ''a'') ''b'')))), Do (SetV 6 (Bin Plus (Call ''Ueb'' [Idx (Dot (V 0) ''d'') (Dot (V 2) ''p'')]) (V 8))), Do (PutIdx (Dot (V 0) ''d'') (Dot (V 5) ''p'') (V 6)), Do (SetV 11 (Meth (Dot (G ''$wnd'') ''Math'') ''max'' [V 11, Bin Minus (Dot (Dot (V 5) ''d'') ''d'') (V 6)])), Do (SetV 12 (Meth (Dot (G ''$wnd'') ''Math'') ''max'' [V 12, Bin Plus (Bin Plus (V 6) (Dot (Dot (V 5) ''o'') ''b'')) (Dot (Dot (V 5) ''d'') ''a'')])), Do (SetV 2 (V 5))] [], Do (SetV 2 (V 9)), Loop (K (JBool True)) [Do (PutIdx (Dot (V 0) ''d'') (Dot (V 2) ''p'') (Bin Plus (Call ''Ueb'' [Idx (Dot (V 0) ''d'') (Dot (V 2) ''p'')]) (V 11))), Do (SetV 2 (Idx (Dot (V 0) ''a'') (Dot (V 2) ''p'')))] [When (Neg (Loose (V 2) (V 9))) [] [Break]], Do (PutIdx (Dot (V 0) ''b'') (Dot (V 9) ''p'') (Bin Plus (V 11) (V 12)))] []]]"

definition code_5932_5933 :: "(string \<times> jfun) list" where
  "code_5932_5933 = [
    fn ''O6c'' 3 10 [Do (SetV 5 (K (JNum 0))), Do (SetV 6 (Dot (V 0) ''t'')), Do (SetV 4 (K (JNum 0))), Do (SetV 3 (K (JNum 0))), Do (SetV 8 (K (JNum 0))), Do (SetV 12 (K (JNum 0))), Do (SetV 11 (K (JNum 0))), When (V 2) [Do (Put (Dot (Dot (V 0) ''n'') ''c'') ''length'' (K (JNum 0))), Do (Call ''_lb'' [Dot (V 0) ''n'', New ''X6c'' [Dot (V 0) ''s'', Dot (V 0) ''t'', Dot (V 0) ''i'']])] [], Do (SetV 7 (K (JNum 0))), Do (SetV 10 (New ''Kmb'' [Dot (V 0) ''b''])), Loop (Bin Lt (Dot (V 10) ''a'') (Dot (Dot (Dot (V 10) ''c'') ''c'') ''length'')) [Do (SetV 9 (Call ''JD'' [Call ''Imb'' [V 10], K (JNum 26)])), When (And (Bin Gt (Bin Plus (Bin Plus (V 5) (Dot (V 9) ''g'')) (Cond (Bin Gt (V 7) (K (JNum 0))) (Dot (V 0) ''i'') (K (JNum 0)))) (V 1)) (Bin Gt (V 8) (K (JNum 0)))) [Do (SetV 5 (K (JNum 0))), Do (SetV 6 (Bin Plus (V 6) (Bin Plus (V 8) (Dot (V 0) ''i'')))), Do (SetV 4 (Meth (Dot (G ''$wnd'') ''Math'') ''max'' [V 4, V 12])), Do (SetV 3 (Bin Plus (V 3) (Bin Plus (V 8) (Dot (V 0) ''i'')))), Do (SetV 8 (K (JNum 0))), Do (SetV 12 (K (JNum 0))), When (V 2) [Do (SetV 11 (Bin Minus (V 11) (K (JNum (- 1))))), Do (Call ''_lb'' [Dot (V 0) ''n'', New ''X6c'' [Dot (V 0) ''s'', V 6, Dot (V 0) ''i'']])] [], Do (SetV 7 (K (JNum 0)))] [], Do (SetV 12 (Bin Plus (V 12) (Bin Plus (Dot (V 9) ''g'') (Cond (Bin Gt (V 7) (K (JNum 0))) (Dot (V 0) ''i'') (K (JNum 0)))))), Do (SetV 8 (Meth (Dot (G ''$wnd'') ''Math'') ''max'' [V 8, Dot (V 9) ''f''])), Do (And (V 2) (Call ''S6c'' [Call ''JD'' [Call ''dmb'' [Dot (V 0) ''n'', V 11], K (JNum 208)], V 9])), Do (SetV 5 (Bin Plus (V 5) (Bin Plus (Dot (V 9) ''g'') (Cond (Bin Gt (V 7) (K (JNum 0))) (Dot (V 0) ''i'') (K (JNum 0)))))), Do (SetV 7 (Bin Minus (V 7) (K (JNum (- 1)))))] [], Do (SetV 4 (Meth (Dot (G ''$wnd'') ''Math'') ''max'' [V 4, V 12])), Do (SetV 3 (Bin Plus (V 3) (V 8))), When (V 2) [Do (Put (V 0) ''r'' (V 4)), Do (Put (V 0) ''d'' (V 3)), Do (Call ''A7c'' [Dot (V 0) ''j''])] [], Ret (New ''Pfd'' [Dot (V 0) ''s'', Dot (V 0) ''t'', V 4, V 3])],
    fn ''S$b'' 1 3 [Do (SetV 2 (Or (Or (Or (Or (Or (Same (Call ''XD'' [Call ''cvd'' [V 0, Seq (Call ''nyc'' []) (G ''_vc'')]]) (Call ''XD'' [Seq (Call ''woc'' []) (G ''toc'')])) (Same (Call ''XD'' [Call ''cvd'' [V 0, G ''_vc'']]) (Call ''XD'' [G ''noc'']))) (Same (Call ''XD'' [Call ''cvd'' [V 0, G ''_vc'']]) (Call ''XD'' [G ''poc'']))) (Same (Call ''XD'' [Call ''cvd'' [V 0, G ''_vc'']]) (Call ''XD'' [G ''roc'']))) (Same (Call ''XD'' [Call ''cvd'' [V 0, G ''_vc'']]) (Call ''XD'' [G ''uoc'']))) (Same (Call ''XD'' [Call ''cvd'' [V 0, G ''_vc'']]) (Call ''XD'' [G ''voc''])))), Do (SetV 3 (Or (Or (Or (Same (Call ''XD'' [Call ''cvd'' [V 0, G ''Kwc'']]) (Call ''XD'' [Seq (Call ''Qyc'' []) (G ''Hyc'')])) (Same (Call ''XD'' [Call ''cvd'' [V 0, G ''Kwc'']]) (Call ''XD'' [G ''Jyc'']))) (Same (Call ''XD'' [Call ''cvd'' [V 0, G ''Jwc'']]) (Call ''XD'' [Seq (Call ''Rzc'' []) (G ''Izc'')]))) (Same (Call ''XD'' [Call ''cvd'' [V 0, G ''Jwc'']]) (Call ''XD'' [Seq (Call ''Rzc'' []) (G ''Jzc'')])))), Do (SetV 1 (Or (Or (Or (Or (Neg (Same (Call ''XD'' [Call ''cvd'' [V 0, G ''Ovc'']]) (Call ''XD'' [Seq (Call ''_zc'' []) (G ''Yzc'')]))) (Call ''Rdb'' [Call ''LD'' [Call ''cvd'' [V 0, G ''Qvc'']]])) (Neg (Same (Call ''XD'' [Call ''cvd'' [V 0, G ''Avc'']]) (Call ''XD'' [Seq (Call ''yUb'' []) (G ''xUb'')])))) (Neg (Loose (Call ''Ueb'' [Call ''MD'' [Call ''cvd'' [V 0, G ''Bvc'']]]) (K (JNum 0))))) (Neg (Loose (Call ''Ueb'' [Call ''MD'' [Call ''cvd'' [V 0, G ''Cvc'']]]) (K (JNum 0)))))), Ret (Or (Or (V 2) (V 3)) (V 1))]]"

definition code_5935_5944 :: "(string \<times> jfun) list" where
  "code_5935_5944 = [
    fn ''U_b'' 1 12 [Do (SetV 7 (Dot (V 0) ''d'')), Do (SetV 11 (Call ''JD'' [Call ''oNb'' [V 0, Seq (Call ''Wrc'' []) (G ''Urc'')], K (JNum 16)])), Do (SetV 1 (Call ''JD'' [Call ''oNb'' [V 0, G ''Lqc''], K (JNum 16)])), When (And (Neg (V 11)) (Neg (V 1))) [Ret (K JUndef)] [], Do (SetV 5 (Call ''Ueb'' [Call ''MD'' [Call ''YAc'' [V 0, Seq (Call ''nyc'' []) (G ''Fxc'')]]])), Do (SetV 6 (Call ''Ueb'' [Call ''MD'' [Call ''YAc'' [V 0, G ''Gxc'']]])), Do (SetV 12 (K (JNum 0))), When (V 11) [Do (SetV 9 (K (JNum 0))), Do (SetV 4 (Meth (V 11) ''Jc'' [])), Loop (Meth (V 4) ''Ob'' []) [Do (SetV 3 (Call ''JD'' [Meth (V 4) ''Pb'' [], K (JNum 9)])), Do (SetV 9 (Meth (Dot (G ''$wnd'') ''Math'') ''max'' [V 9, Dot (Dot (V 3) ''o'') ''b''])), Do (SetV 12 (Bin Plus (V 12) (Dot (Dot (V 3) ''o'') ''a'')))] [], Do (SetV 12 (Bin Plus (V 12) (Bin Times (V 5) (Bin Minus (Meth (V 11) ''gc'' []) (K (JNum 1)))))), Do (Put (V 7) ''d'' (Bin Plus (Dot (V 7) ''d'') (Bin Plus (V 9) (V 6))))] [], Do (SetV 2 (K (JNum 0))), When (V 1) [Do (SetV 9 (K (JNum 0))), Do (SetV 4 (Meth (V 1) ''Jc'' [])), Loop (Meth (V 4) ''Ob'' []) [Do (SetV 3 (Call ''JD'' [Meth (V 4) ''Pb'' [], K (JNum 9)])), Do (SetV 9 (Meth (Dot (G ''$wnd'') ''Math'') ''max'' [V 9, Dot (Dot (V 3) ''o'') ''b''])), Do (SetV 2 (Bin Plus (V 2) (Dot (Dot (V 3) ''o'') ''a'')))] [], Do (SetV 2 (Bin Plus (V 2) (Bin Times (V 5) (Bin Minus (Meth (V 1) ''gc'' []) (K (JNum 1)))))), Do (Put (V 7) ''a'' (Bin Plus (Dot (V 7) ''a'') (Bin Plus (V 9) (V 6))))] [], Do (SetV 8 (Meth (Dot (G ''$wnd'') ''Math'') ''max'' [V 12, V 2])), When (Bin Gt (V 8) (Dot (Dot (V 0) ''o'') ''a'')) [Do (SetV 10 (Bin Divide (Bin Minus (V 8) (Dot (Dot (V 0) ''o'') ''a'')) (K (JNum 2)))), Do (Put (V 7) ''b'' (Meth (Dot (G ''$wnd'') ''Math'') ''max'' [Dot (V 7) ''b'', V 10])), Do (Put (V 7) ''c'' (Meth (Dot (G ''$wnd'') ''Math'') ''max'' [Dot (V 7) ''c'', V 10]))] []],
    fn ''nee'' 4 7 [Do (SetV 10 (Call ''Cie'' [Meth (Dot (V 0) ''e'') ''Ah'' [], V 1])), Do (SetV 4 (K (JNum 0))), Do (SetV 5 (Call ''JD'' [Dot (V 0) ''g'', K (JNum 122)])), Do (SetV 8 (K JNull)), Do (Call ''Aie'' []), When (Meth (Call ''JD'' [V 1, K (JNum 69)]) ''vk'' []) [Do (SetV 7 (K (JNum 0))), Loop (Bin Lt (V 7) (Dot (V 0) ''i'')) [Do (SetV 6 (Idx (V 5) (V 7))), When (Meth (V 10) ''$l'' [Meth (V 6) ''Jk'' []]) [When (Call ''pb'' [V 6, V 2]) [Do (SetV 8 (V 6)), Break] [], Do (SetV 4 (Bin Minus (V 4) (K (JNum (- 1)))))] []] [Do (SetV 7 (Bin Minus (V 7) (K (JNum (- 1)))))]] [When (Neg (Loose (V 2) (K JNull))) [Do (SetV 7 (K (JNum 0))), Loop (Bin Lt (V 7) (Dot (V 0) ''i'')) [Do (SetV 6 (Idx (V 5) (V 7))), When (Meth (V 10) ''$l'' [Meth (V 6) ''Jk'' []]) [When (Call ''pb'' [V 2, Meth (V 6) ''kd'' []]) [Do (SetV 8 (V 6)), Break] [], Do (SetV 4 (Bin Minus (V 4) (K (JNum (- 1)))))] []] [Do (SetV 7 (Bin Minus (V 7) (K (JNum (- 1)))))]] [Do (SetV 7 (K (JNum 0))), Loop (Bin Lt (V 7) (Dot (V 0) ''i'')) [Do (SetV 6 (Idx (V 5) (V 7))), When (Meth (V 10) ''$l'' [Meth (V 6) ''Jk'' []]) [When (Loose (Meth (V 6) ''kd'' []) (K JNull)) [Do (SetV 8 (V 6)), Break] [], Do (SetV 4 (Bin Minus (V 4) (K (JNum (- 1)))))] []] [Do (SetV 7 (Bin Minus (V 7) (K (JNum (- 1)))))]]], When (V 8) [When (Call ''itd'' [Dot (V 0) ''e'']) [Do (SetV 9 (Cond (Meth (V 1) ''Hk'' []) (New ''yje'' [Dot (V 0) ''e'', K (JNum 4), V 1, V 2, K JNull, V 4, K (JBool True)]) (Call ''see'' [V 0, Cond (Meth (V 1) ''rk'' []) (K (JNum 2)) (K (JNum 1)), V 1, V 2, Meth (V 1) ''gk'' [], K (JNum (- 1)), K (JBool True)]))), Do (Cond (V 3) (Meth (V 3) ''lj'' [V 9]) (SetV 3 (V 9)))] [], Do (SetV 3 (Call ''mee'' [V 0, V 8, V 3]))] [], Ret (V 3)],
    fn ''$4c'' 7 9 [Do (SetV 14 (K (JNum 0))), Do (SetV 15 (K (JNum 0))), Do (SetV 8 (Dot (V 4) ''c'')), Do (SetV 7 (Dot (V 4) ''b'')), Do (SetV 10 (Dot (V 2) ''f'')), Do (SetV 13 (Dot (V 2) ''g'')), Switch (Dot (V 1) ''g'') [(Some (JNum 0), [Do (SetV 14 (Bin Plus (Bin Plus (Dot (V 3) ''i'') (Dot (V 3) ''g'')) (V 6))), Do (Cond (Dot (V 0) ''c'') (SetV 15 (Call ''h5c'' [V 14, V 5, V 3, V 6])) (SetV 15 (Dot (V 3) ''j''))), Do (SetV 12 (Meth (Dot (G ''$wnd'') ''Math'') ''max'' [V 8, Bin Plus (V 14) (V 13)])), Do (SetV 9 (Meth (Dot (G ''$wnd'') ''Math'') ''max'' [V 7, Bin Plus (V 15) (V 10)])), Break]), (Some (JNum 1), [Do (SetV 15 (Bin Plus (Bin Plus (Dot (V 3) ''j'') (Dot (V 3) ''f'')) (V 6))), Do (Cond (Dot (V 0) ''c'') (SetV 14 (Call ''g5c'' [V 15, V 5, V 3, V 6])) (SetV 14 (Dot (V 3) ''i''))), Do (SetV 12 (Meth (Dot (G ''$wnd'') ''Math'') ''max'' [V 8, Bin Plus (V 14) (V 13)])), Do (SetV 9 (Meth (Dot (G ''$wnd'') ''Math'') ''max'' [V 7, Bin Plus (V 15) (V 10)])), Break]), (Some (JNum 2), [Do (SetV 14 (Bin Plus (V 8) (V 6))), Do (SetV 15 (K (JNum 0))), Do (SetV 12 (Bin Plus (Bin Plus (V 8) (V 6)) (V 13))), Do (SetV 9 (Meth (Dot (G ''$wnd'') ''Math'') ''max'' [V 7, V 10])), Break]), (Some (JNum 3), [Do (SetV 14 (K (JNum 0))), Do (SetV 15 (Bin Plus (V 7) (V 6))), Do (SetV 12 (Meth (Dot (G ''$wnd'') ''Math'') ''max'' [V 8, V 13])), Do (SetV 9 (Bin Plus (Bin Plus (V 7) (V 6)) (V 10))), Break]), (None, [Raise (Call ''Lcb'' [New ''kfb'' [K (JStr ''IllegalPlacementOption.'')]])])], Do (SetV 11 (New ''i7c'' [Dot (V 0) ''a'', V 12, V 9, V 1, V 14, V 15])), Ret (V 11)],
    fn ''gHd'' 1 8 [Do (SetV 5 (New ''hbd'' [])), Do (Call ''dbd'' [V 5, Seq (Call ''cbd'' []) (G ''_ad'')]), Do (SetV 3 (Seq (SetV 4 (Call ''gC'' [V 0, Call ''SC'' [G ''hJ'', G ''aue'', K (JNum 2), K (JNum 0), K (JNum 6), K (JNum 1)]])) (New ''Njb'' [New ''wnb'' [Dot (New ''uC'' [V 0, V 4]) ''b'']]))), Loop (Bin Lt (Dot (V 3) ''b'') (Meth (Dot (V 3) ''d'') ''gc'' [])) [Do (SetV 2 (Seq (Call ''LDb'' [Bin Lt (Dot (V 3) ''b'') (Meth (Dot (V 3) ''d'') ''gc'' [])]) (Call ''OD'' [Meth (Dot (V 3) ''d'') ''Xb'' [Put (V 3) ''c'' (Bin Minus (Put (V 3) ''b'' (Bin Minus (Dot (V 3) ''b'') (K (JNum (- 1))))) (K (JNum 1)))]]))), Do (SetV 6 (Call ''sdd'' [G ''aHd'', V 2])), When (V 6) [Do (SetV 1 (Call ''iC'' [V 0, V 2])), Do (Cond (Meth (V 1) ''re'' []) (SetV 7 (Dot (Meth (V 1) ''re'' []) ''a'')) (Cond (Meth (V 1) ''oe'' []) (SetV 7 (Bin Plus (K (JStr '''')) (Dot (Meth (V 1) ''oe'' []) ''a''))) (Cond (Meth (V 1) ''pe'' []) (SetV 7 (Bin Plus (K (JStr '''')) (Dot (Meth (V 1) ''pe'' []) ''a''))) (SetV 7 (Meth (V 1) ''Ib'' []))))), Do (SetV 8 (Call ''wed'' [V 6, V 7])), When (Neg (Loose (V 8) (K JNull))) [Do (And (Or (Call ''Krb'' [Dot (V 6) ''j'', Seq (Call ''Ved'' []) (G ''Sed'')]) (Call ''Krb'' [Dot (V 6) ''j'', G ''Ted''])) (Call ''qNb'' [Call ''fbd'' [V 5, G ''T3''], V 6, V 8])), Do (And (Call ''Krb'' [Dot (V 6) ''j'', G ''Qed'']) (Call ''qNb'' [Call ''fbd'' [V 5, G ''Q3''], V 6, V 8])), Do (And (Call ''Krb'' [Dot (V 6) ''j'', G ''Ued'']) (Call ''qNb'' [Call ''fbd'' [V 5, G ''U3''], V 6, V 8])), Do (And (Call ''Krb'' [Dot (V 6) ''j'', G ''Red'']) (Call ''qNb'' [Call ''fbd'' [V 5, G ''S3''], V 6, V 8]))] []] []] [], Ret (V 5)],
    fn ''vee'' 3 8 [Do (SetV 4 (Call ''JD'' [Dot (V 0) ''g'', K (JNum 122)])), When (Call ''Die'' [Dot (V 0) ''e'', V 1]) [Ret (Seq (Call ''Aie'' []) (Cond (Meth (Call ''JD'' [V 1, K (JNum 69)]) ''vk'' []) (New ''Bje'' [V 1, V 0]) (New ''Rie'' [V 1, V 0])))] [Do (SetV 9 (Call ''Cie'' [Meth (Dot (V 0) ''e'') ''Ah'' [], V 1])), Do (SetV 3 (K (JNum 0))), Do (SetV 7 (K (JNum 0))), Loop (Bin Lt (V 7) (Dot (V 0) ''i'')) [Do (SetV 5 (Idx (V 4) (V 7))), Do (SetV 6 (Meth (V 5) ''Jk'' [])), When (Meth (V 9) ''$l'' [V 6]) [Do (Call ''Aie'' []), When (Meth (Call ''JD'' [V 1, K (JNum 69)]) ''vk'' []) [Ret (V 5)] [When (Or (Loose (V 6) (Seq (Call ''Yje'' []) (G ''Wje''))) (Loose (V 6) (G ''Tje''))) [Do (SetV 8 (New ''nhb'' [Call ''tdb'' [Meth (V 5) ''kd'' []]])), Loop (Bin Lt (SetV 7 (Bin Minus (V 7) (K (JNum (- 1))))) (Dot (V 0) ''i'')) [Do (SetV 5 (Idx (V 4) (V 7))), Do (SetV 6 (Meth (V 5) ''Jk'' [])), Do (And (Or (Loose (V 6) (G ''Wje'')) (Loose (V 6) (G ''Tje''))) (Call ''hhb'' [V 8, Call ''tdb'' [Meth (V 5) ''kd'' []]]))] [], Ret (Call ''Vhe'' [Call ''JD'' [Meth (V 1) ''Fk'' [], K (JNum 159)], Dot (V 8) ''a''])] [Do (SetV 10 (Meth (V 5) ''kd'' [])), Do (And (And (And (And (Neg (Loose (V 10) (K JNull))) (V 2)) (Call ''RD'' [V 1, K (JNum 103)])) (Neg (Loose (Bin BitAnd (Dot (Call ''JD'' [V 1, K (JNum 19)]) ''Bb'') (G ''Hve'')) (K (JNum 0))))) (SetV 10 (Call ''Oee'' [V 0, V 1, V 7, V 3, V 10]))), Ret (V 10)]]] [], Do (SetV 3 (Bin Minus (V 3) (K (JNum (- 1)))))] [Do (SetV 7 (Bin Minus (V 7) (K (JNum (- 1)))))], Ret (Meth (V 1) ''gk'' [])]],
    fn ''xmc'' 1 8 [Do (SetV 4 (New ''Kmb'' [Dot (V 0) ''b''])), Loop (Bin Lt (Dot (V 4) ''a'') (Dot (Dot (Dot (V 4) ''c'') ''c'') ''length'')) [Do (SetV 3 (Call ''JD'' [Call ''Imb'' [V 4], K (JNum 25)])), Do (SetV 6 (New ''Kmb'' [Call ''Uu'' [Dot (V 3) ''a'']])), Loop (Bin Lt (Dot (V 6) ''a'') (Dot (Dot (Dot (V 6) ''c'') ''c'') ''length'')) [Do (SetV 5 (Call ''JD'' [Call ''Imb'' [V 6], K (JNum 9)])), When (Call ''nmc'' [V 5]) [Do (SetV 2 (Call ''JD'' [Call ''oNb'' [V 5, Seq (Call ''Wrc'' []) (G ''Mqc'')], K (JNum 318)])), When (And (Neg (Dot (V 2) ''g'')) (Neg (Neg (Dot (V 2) ''d'')))) [Do (SetV 1 (V 2)), Do (SetV 8 (Dot (V 2) ''d'')), Loop (V 8) [Do (Call ''wmc'' [Dot (V 8) ''i'', Dot (V 8) ''k'', K (JBool False), K (JBool True)]), Do (Call ''Emc'' [Dot (V 1) ''a'']), Do (Call ''Emc'' [Dot (V 8) ''i'']), Do (Call ''Emc'' [Dot (V 8) ''k'']), Do (Call ''Emc'' [Dot (V 8) ''b'']), Do (Call ''DWb'' [Dot (V 8) ''c'', Dot (Dot (V 1) ''c'') ''d'']), Do (Call ''DWb'' [Dot (V 1) ''c'', K JNull]), Do (Call ''NYb'' [Dot (V 1) ''a'', K JNull]), Do (Call ''NYb'' [Dot (V 8) ''i'', K JNull]), Do (Call ''NYb'' [Dot (V 8) ''k'', K JNull]), Do (Call ''NYb'' [Dot (V 8) ''b'', K JNull]), Do (SetV 7 (New ''lmc'' [Dot (V 1) ''i'', Dot (V 8) ''a'', Dot (V 1) ''e'', Dot (V 8) ''j'', Dot (V 8) ''f''])), Do (Put (V 7) ''k'' (Dot (V 1) ''k'')), Do (Put (V 7) ''n'' (Dot (V 1) ''n'')), Do (Put (V 7) ''b'' (Dot (V 1) ''b'')), Do (Put (V 7) ''c'' (Dot (V 8) ''c'')), Do (Put (V 7) ''g'' (Dot (V 1) ''g'')), Do (Put (V 7) ''d'' (Dot (V 8) ''d'')), Do (Call ''rNb'' [Dot (V 1) ''i'', G ''Mqc'', V 7]), Do (Call ''rNb'' [Dot (V 8) ''a'', G ''Mqc'', V 7]), Do (SetV 8 (Dot (V 8) ''d'')), Do (SetV 1 (V 7))] []] []] []] []] []],
    fn ''uee'' 4 6 [Do (SetV 8 (Call ''Cie'' [Meth (Dot (V 0) ''e'') ''Ah'' [], V 1])), Do (SetV 5 (Call ''JD'' [Dot (V 0) ''g'', K (JNum 122)])), When (Call ''Die'' [Dot (V 0) ''e'', V 1]) [Do (SetV 4 (K (JNum 0))), Do (SetV 7 (K (JNum 0))), Loop (Bin Lt (V 7) (Dot (V 0) ''i'')) [Do (SetV 6 (Idx (V 5) (V 7))), When (Meth (V 8) ''$l'' [Meth (V 6) ''Jk'' []]) [When (Loose (V 4) (V 2)) [Do (Call ''Aie'' []), When (Meth (Call ''JD'' [V 1, K (JNum 69)]) ''vk'' []) [Ret (V 6)] [Do (SetV 9 (Meth (V 6) ''kd'' [])), Do (And (And (And (And (Neg (Loose (V 9) (K JNull))) (V 3)) (Call ''RD'' [V 1, K (JNum 103)])) (Neg (Loose (Bin BitAnd (Dot (Call ''JD'' [V 1, K (JNum 19)]) ''Bb'') (G ''Hve'')) (K (JNum 0))))) (SetV 9 (Call ''Oee'' [V 0, V 1, V 7, V 4, V 9]))), Ret (V 9)]] [], Do (SetV 4 (Bin Minus (V 4) (K (JNum (- 1)))))] []] [Do (SetV 7 (Bin Minus (V 7) (K (JNum (- 1)))))], Raise (Call ''Lcb'' [New ''Fdb'' [Bin Plus (Bin Plus (Bin Plus (G ''SHe'') (V 2)) (G ''YGe'')) (V 4)]])] [Do (SetV 4 (K (JNum 0))), Do (SetV 7 (K (JNum 0))), Loop (Bin Lt (V 7) (Dot (V 0) ''i'')) [Do (SetV 6 (Idx (V 5) (V 7))), When (Meth (V 8) ''$l'' [Meth (V 6) ''Jk'' []]) [Do (Call ''Aie'' []), When (Meth (Call ''JD'' [V 1, K (JNum 69)]) ''vk'' []) [Ret (V 6)] [Do (SetV 9 (Meth (V 6) ''kd'' [])), Do (And (And (And (And (Neg (Loose (V 9) (K JNull))) (V 3)) (Call ''RD'' [V 1, K (JNum 103)])) (Neg (Loose (Bin BitAnd (Dot (Call ''JD'' [V 1, K (JNum 19)]) ''Bb'') (G ''Hve'')) (K (JNum 0))))) (SetV 9 (Call ''Oee'' [V 0, V 1, V 7, V 4, V 9]))), Ret (V 9)]] [], Do (SetV 4 (Bin Minus (V 4) (K (JNum (- 1)))))] [Do (SetV 7 (Bin Minus (V 7) (K (JNum (- 1)))))], Ret (Meth (V 1) ''gk'' [])]],
    fn ''Hib'' 0 0 [Do (SetG ''Hib'' (G ''qdb'')), Do (SetG ''Fib'' (Call ''WC'' [Call ''OC'' [G ''cE'', K (JNum 1)], G ''bve'', K (JNum 30), K (JNum 15), NewArr [G ''Eue'', K (JNum 1162261467), G ''vue'', K (JNum 1220703125), K (JNum 362797056), K (JNum 1977326743), G ''vue'', K (JNum 387420489), G ''wve'', K (JNum 214358881), K (JNum 429981696), K (JNum 815730721), K (JNum 1475789056), K (JNum 170859375), K (JNum 268435456), K (JNum 410338673), K (JNum 612220032), K (JNum 893871739), K (JNum 1280000000), K (JNum 1801088541), K (JNum 113379904), K (JNum 148035889), K (JNum 191102976), K (JNum 244140625), K (JNum 308915776), K (JNum 387420489), K (JNum 481890304), K (JNum 594823321), K (JNum 729000000), K (JNum 887503681), G ''vue'', K (JNum 1291467969), K (JNum 1544804416), K (JNum 1838265625), K (JNum 60466176)]])), Do (SetG ''Gib'' (Call ''WC'' [Call ''OC'' [G ''cE'', K (JNum 1)], G ''bve'', K (JNum 30), K (JNum 15), NewArr [K (JNum (- 1)), K (JNum (- 1)), K (JNum 31), K (JNum 19), K (JNum 15), K (JNum 13), K (JNum 11), K (JNum 11), K (JNum 10), K (JNum 9), K (JNum 9), K (JNum 8), K (JNum 8), K (JNum 8), K (JNum 8), K (JNum 7), K (JNum 7), K (JNum 7), K (JNum 7), K (JNum 7), K (JNum 7), K (JNum 7), K (JNum 6), K (JNum 6), K (JNum 6), K (JNum 6), K (JNum 6), K (JNum 6), K (JNum 6), K (JNum 6), K (JNum 6), K (JNum 6), K (JNum 6), K (JNum 6), K (JNum 6), K (JNum 6), K (JNum 5)]]))],
    fn ''Qib'' 2 10 [Do (SetV 6 (Dot (V 0) ''e'')), Do (SetV 8 (Dot (V 1) ''e'')), When (Loose (V 8) (K (JNum 0))) [Ret (V 0)] [], When (Loose (V 6) (K (JNum 0))) [Ret (Cond (Loose (Dot (V 1) ''e'') (K (JNum 0))) (V 1) (New ''mib'' [Minus1 (Dot (V 1) ''e''), Dot (V 1) ''d'', Dot (V 1) ''a'']))] [], Do (SetV 5 (Dot (V 0) ''d'')), Do (SetV 7 (Dot (V 1) ''d'')), When (Loose (Bin Plus (V 5) (V 7)) (K (JNum 2))) [Do (SetV 2 (Call ''Ncb'' [Idx (Dot (V 0) ''a'') (K (JNum 0)), G ''Mve''])), Do (SetV 3 (Call ''Ncb'' [Idx (Dot (V 1) ''a'') (K (JNum 0)), G ''Mve''])), Do (And (Bin Lt (V 6) (K (JNum 0))) (SetV 2 (Call ''Zcb'' [V 2]))), Do (And (Bin Lt (V 8) (K (JNum 0))) (SetV 3 (Call ''Zcb'' [V 3]))), Ret (Seq (Call ''Zhb'' []) (Cond (Call ''Ucb'' [Call ''ddb'' [V 2, V 3], K (JNum 0)]) (Call ''tib'' [Call ''ddb'' [V 2, V 3]]) (Call ''fib'' [Call ''tib'' [Call ''Zcb'' [Call ''ddb'' [V 2, V 3]]]])))] [], Do (SetV 4 (Cond (Neg (Loose (V 5) (V 7))) (Cond (Bin Gt (V 5) (V 7)) (K (JNum 1)) (K (JNum (- 1)))) (Call ''Oib'' [Dot (V 0) ''a'', Dot (V 1) ''a'', V 5]))), When (Loose (V 4) (K (JNum (- 1)))) [Do (SetV 11 (Minus1 (V 8))), Do (SetV 10 (Cond (Loose (V 6) (V 8)) (Call ''Rib'' [Dot (V 1) ''a'', V 7, Dot (V 0) ''a'', V 5]) (Call ''Mib'' [Dot (V 1) ''a'', V 7, Dot (V 0) ''a'', V 5])))] [Do (SetV 11 (V 6)), When (Loose (V 6) (V 8)) [When (Loose (V 4) (K (JNum 0))) [Ret (Seq (Call ''Zhb'' []) (G ''Yhb''))] [], Do (SetV 10 (Call ''Rib'' [Dot (V 0) ''a'', V 5, Dot (V 1) ''a'', V 7]))] [Do (SetV 10 (Call ''Mib'' [Dot (V 0) ''a'', V 5, Dot (V 1) ''a'', V 7]))]], Do (SetV 9 (New ''mib'' [V 11, Dot (V 10) ''length'', V 10])), Do (Call ''_hb'' [V 9]), Ret (V 9)],
    fn ''P$b'' 2 4 [Do (SetV 5 (Call ''K$b'' [V 1])), Do (And (Neg (Dot (V 1) ''c'')) (Put (V 1) ''c'' (New ''P3d'' [G ''U3'', V 1, K (JNum 9), K (JNum 9)]))), Do (Call ''YBb'' [New ''jCb'' [K JNull, Seq (And (Neg (Dot (V 1) ''c'')) (Put (V 1) ''c'' (New ''P3d'' [G ''U3'', V 1, K (JNum 9), K (JNum 9)]))) (New ''Zvb'' [Dot (V 1) ''c'', K (JNum 16)])], New ''e_b'' [V 5]]), Do (SetV 4 (Call ''JD'' [Call ''oNb'' [V 5, Seq (Call ''Wrc'' []) (G ''brc'')], K (JNum 22)])), Do (Call ''J$b'' [V 1, V 4]), When (Meth (V 4) ''Gc'' [Seq (Call ''Xpc'' []) (G ''Qpc'')]) [Do (SetV 3 (New ''uKd'' [Seq (And (Neg (Dot (V 1) ''c'')) (Put (V 1) ''c'' (New ''P3d'' [G ''U3'', V 1, K (JNum 9), K (JNum 9)]))) (Dot (V 1) ''c'')])), Loop (Neg (Loose (Dot (V 3) ''e'') (Meth (Dot (V 3) ''i'') ''gc'' []))) [Do (SetV 2 (Call ''JD'' [Call ''sKd'' [V 3], K (JNum 125)])), Do (Call ''U$b'' [V 0, V 1, V 5, V 2])] []] [], Do (And (Neg (Loose (Meth (Call ''JD'' [Call ''cvd'' [V 1, Seq (Call ''nyc'' []) (G ''axc'')], K (JNum 182)]) ''gc'' []) (K (JNum 0)))) (Call ''G$b'' [V 1, V 5])), Do (And (Call ''Rdb'' [Call ''LD'' [Call ''oNb'' [V 5, G ''hxc'']]]) (Meth (V 4) ''Ec'' [G ''Vpc''])), Do (And (Call ''pNb'' [V 5, G ''Exc'']) (Call ''wyc'' [New ''Gyc'' [Call ''Ueb'' [Call ''MD'' [Call ''oNb'' [V 5, G ''Exc'']]]], V 5])), Do (Cond (Same (Call ''XD'' [Call ''cvd'' [V 1, G ''swc'']]) (Call ''XD'' [Seq (Call ''Qkd'' []) (G ''Nkd'')])) (Call ''Q$b'' [V 0, V 1, V 5]) (Call ''O$b'' [V 0, V 1, V 5])), Ret (V 5)]]"

definition code_5946_5950 :: "(string \<times> jfun) list" where
  "code_5946_5950 = [
    fn ''cIc'' 3 3 [When (Or (And (Call ''pNb'' [V 1, Seq (Call ''nyc'' []) (G ''Ewc'')]) (Or (Same (Call ''XD'' [Call ''oNb'' [V 1, G ''Ewc'']]) (Call ''XD'' [Seq (Call ''asc'' []) (G ''Yrc'')])) (Same (Call ''XD'' [Call ''oNb'' [V 1, G ''Ewc'']]) (Call ''XD'' [G ''$rc''])))) (And (Call ''pNb'' [V 2, G ''Ewc'']) (Or (Same (Call ''XD'' [Call ''oNb'' [V 2, G ''Ewc'']]) (Call ''XD'' [Seq (Call ''asc'' []) (G ''Yrc'')])) (Same (Call ''XD'' [Call ''oNb'' [V 2, G ''Ewc'']]) (Call ''XD'' [G ''$rc'']))))) [Ret (K (JNum 0))] [], Do (SetV 3 (Call ''DYb'' [V 1])), Do (SetV 4 (Call ''bIc'' [V 0, V 1, V 2])), When (Neg (Loose (V 4) (K (JNum 0)))) [Ret (V 4)] [], When (And (Call ''pNb'' [V 1, Seq (Call ''Wrc'' []) (G ''trc'')]) (Call ''pNb'' [V 2, G ''trc''])) [Do (SetV 5 (Call ''rfb'' [Call ''slc'' [V 1, V 2, V 3, Dot (Call ''JD'' [Call ''oNb'' [V 3, G ''rrc''], K (JNum 15)]) ''a''], Call ''slc'' [V 2, V 1, V 3, Dot (Call ''JD'' [Call ''oNb'' [V 3, G ''rrc''], K (JNum 15)]) ''a'']])), Do (And (And (Same (Call ''XD'' [Call ''oNb'' [V 3, G ''Hvc'']]) (Call ''XD'' [Seq (Call ''nqc'' []) (G ''mqc'')])) (Neg (Same (Call ''XD'' [Call ''oNb'' [V 1, G ''Jvc'']]) (Call ''XD'' [Call ''oNb'' [V 2, G ''Jvc'']])))) (SetV 5 (K (JNum 0)))), When (Bin Lt (V 5) (K (JNum 0))) [Do (Call ''dIc'' [V 0, V 1, V 2]), Ret (V 5)] [When (Bin Gt (V 5) (K (JNum 0))) [Do (Call ''dIc'' [V 0, V 2, V 1]), Ret (V 5)] []]] [], Ret (Call ''aIc'' [V 0, V 1, V 2])],
    fn ''v2c'' 2 11 [Do (SetV 3 (New ''Yr'' [Call ''Dr'' [Meth (Dot (Call ''SEd'' [V 1]) ''a'') ''Jc'' [], New ''Dl'' []]])), Loop (Call ''Wr'' [V 3]) [Do (SetV 2 (Call ''JD'' [Call ''Xr'' [V 3], K (JNum 85)])), When (Neg (Call ''RD'' [Call ''fGd'' [Seq (And (Neg (Dot (V 2) ''b'')) (Put (V 2) ''b'' (New ''jhe'' [G ''O3'', V 2, K (JNum 4), K (JNum 7)]))) (Dot (V 2) ''b''), K (JNum 0)], K (JNum 193)])) [Do (SetV 8 (Call ''TEd'' [Call ''JD'' [Call ''fGd'' [Seq (And (Neg (Dot (V 2) ''c'')) (Put (V 2) ''c'' (New ''jhe'' [G ''O3'', V 2, K (JNum 5), K (JNum 8)]))) (Dot (V 2) ''c''), K (JNum 0)], K (JNum 84)]])), When (Neg (Call ''Jwd'' [V 2])) [Do (SetV 6 (Bin Plus (Dot (V 1) ''i'') (Bin Divide (Dot (V 1) ''g'') (K (JNum 2))))), Do (SetV 7 (Bin Plus (Dot (V 1) ''j'') (Bin Divide (Dot (V 1) ''f'') (K (JNum 2))))), Do (SetV 10 (Bin Plus (Dot (V 8) ''i'') (Bin Divide (Dot (V 8) ''g'') (K (JNum 2))))), Do (SetV 11 (Bin Plus (Dot (V 8) ''j'') (Bin Divide (Dot (V 8) ''f'') (K (JNum 2))))), Do (SetV 12 (New ''jgd'' [])), Do (Put (V 12) ''a'' (Bin Minus (V 10) (V 6))), Do (Put (V 12) ''b'' (Bin Minus (V 11) (V 7))), Do (SetV 5 (New ''lgd'' [Dot (V 12) ''a'', Dot (V 12) ''b''])), Do (Call ''tfd'' [V 5, Dot (V 1) ''g'', Dot (V 1) ''f'']), Do (Put (V 12) ''a'' (Bin Minus (Dot (V 12) ''a'') (Dot (V 5) ''a''))), Do (Put (V 12) ''b'' (Bin Minus (Dot (V 12) ''b'') (Dot (V 5) ''b''))), Do (SetV 6 (Bin Minus (V 10) (Dot (V 12) ''a''))), Do (SetV 7 (Bin Minus (V 11) (Dot (V 12) ''b''))), Do (SetV 9 (New ''lgd'' [Dot (V 12) ''a'', Dot (V 12) ''b''])), Do (Call ''tfd'' [V 9, Dot (V 8) ''g'', Dot (V 8) ''f'']), Do (Put (V 12) ''a'' (Bin Minus (Dot (V 12) ''a'') (Dot (V 9) ''a''))), Do (Put (V 12) ''b'' (Bin Minus (Dot (V 12) ''b'') (Dot (V 9) ''b''))), Do (SetV 10 (Bin Plus (V 6) (Dot (V 12) ''a''))), Do (SetV 11 (Bin Plus (V 7) (Dot (V 12) ''b''))), Do (SetV 4 (Call ''_Ed'' [V 2])), Do (Call ''ixd'' [V 4, V 6]), Do (Call ''jxd'' [V 4, V 7]), Do (Call ''bxd'' [V 4, V 10]), Do (Call ''cxd'' [V 4, V 11]), Do (Call ''v2c'' [V 0, V 8])] []] []] []],
    fn ''Hre'' 2 5 [Do (SetV 6 (Call ''JD'' [V 1, K (JNum 137)])), Do (Call ''Ire'' [V 0]), Do (Call ''Ire'' [V 6]), When (Loose (Dot (V 6) ''b'') (K JNull)) [Ret (K JUndef)] [], Do (Put (V 0) ''c'' (K (JBool True))), When (Loose (Dot (V 0) ''b'') (K JNull)) [Do (Put (V 0) ''b'' (Call ''SC'' [G ''cE'', G ''bve'', K (JNum 30), Dot (Dot (V 6) ''b'') ''length'', K (JNum 15), K (JNum 1)])), Do (Call ''rhb'' [Dot (V 6) ''b'', K (JNum 0), Dot (V 0) ''b'', K (JNum 0), Dot (Dot (V 6) ''b'') ''length'']), Ret (K JUndef)] [], Do (SetV 5 (Call ''SC'' [G ''cE'', G ''bve'', K (JNum 30), Bin Plus (Dot (Dot (V 0) ''b'') ''length'') (Dot (Dot (V 6) ''b'') ''length''), K (JNum 15), K (JNum 1)])), Do (Seq (Seq (SetV 2 (K (JNum 0))) (SetV 3 (K (JNum 0)))) (SetV 4 (K (JNum 0)))), Loop (Or (Bin Lt (V 2) (Dot (Dot (V 0) ''b'') ''length'')) (Bin Lt (V 3) (Dot (Dot (V 6) ''b'') ''length''))) [When (Bin Ge (V 2) (Dot (Dot (V 0) ''b'') ''length'')) [Do (PutIdx (V 5) (Bin Minus (SetV 4 (Bin Minus (V 4) (K (JNum (- 1))))) (K (JNum 1))) (Idx (Dot (V 6) ''b'') (Bin Minus (SetV 3 (Bin Minus (V 3) (K (JNum (- 1))))) (K (JNum 1))))), Do (PutIdx (V 5) (Bin Minus (SetV 4 (Bin Minus (V 4) (K (JNum (- 1))))) (K (JNum 1))) (Idx (Dot (V 6) ''b'') (Bin Minus (SetV 3 (Bin Minus (V 3) (K (JNum (- 1))))) (K (JNum 1)))))] [When (Bin Ge (V 3) (Dot (Dot (V 6) ''b'') ''length'')) [Do (PutIdx (V 5) (Bin Minus (SetV 4 (Bin Minus (V 4) (K (JNum (- 1))))) (K (JNum 1))) (Idx (Dot (V 0) ''b'') (Bin Minus (SetV 2 (Bin Minus (V 2) (K (JNum (- 1))))) (K (JNum 1))))), Do (PutIdx (V 5) (Bin Minus (SetV 4 (Bin Minus (V 4) (K (JNum (- 1))))) (K (JNum 1))) (Idx (Dot (V 0) ''b'') (Bin Minus (SetV 2 (Bin Minus (V 2) (K (JNum (- 1))))) (K (JNum 1)))))] [When (Or (Bin Lt (Idx (Dot (V 6) ''b'') (V 3)) (Idx (Dot (V 0) ''b'') (V 2))) (And (Same (Idx (Dot (V 6) ''b'') (V 3)) (Idx (Dot (V 0) ''b'') (V 2))) (Bin Lt (Idx (Dot (V 6) ''b'') (Bin Plus (V 3) (K (JNum 1)))) (Idx (Dot (V 0) ''b'') (Bin Plus (V 2) (K (JNum 1))))))) [Do (PutIdx (V 5) (Bin Minus (SetV 4 (Bin Minus (V 4) (K (JNum (- 1))))) (K (JNum 1))) (Idx (Dot (V 6) ''b'') (Bin Minus (SetV 3 (Bin Minus (V 3) (K (JNum (- 1))))) (K (JNum 1))))), Do (PutIdx (V 5) (Bin Minus (SetV 4 (Bin Minus (V 4) (K (JNum (- 1))))) (K (JNum 1))) (Idx (Dot (V 6) ''b'') (Bin Minus (SetV 3 (Bin Minus (V 3) (K (JNum (- 1))))) (K (JNum 1)))))] [Do (PutIdx (V 5) (Bin Minus (SetV 4 (Bin Minus (V 4) (K (JNum (- 1))))) (K (JNum 1))) (Idx (Dot (V 0) ''b'') (Bin Minus (SetV 2 (Bin Minus (V 2) (K (JNum (- 1))))) (K (JNum 1))))), Do (PutIdx (V 5) (Bin Minus (SetV 4 (Bin Minus (V 4) (K (JNum (- 1))))) (K (JNum 1))) (Idx (Dot (V 0) ''b'') (Bin Minus (SetV 2 (Bin Minus (V 2) (K (JNum (- 1))))) (K (JNum 1)))))]]]] [], Do (Put (V 0) ''b'' (V 5))],
    fn ''V3b'' 2 10 [Do (SetV 2 (Call ''Rdb'' [Call ''LD'' [Call ''oNb'' [V 0, Seq (Call ''Wrc'' []) (G ''mrc'')]]])), Do (SetV 7 (Call ''Rdb'' [Call ''LD'' [Call ''oNb'' [V 1, G ''mrc'']]])), Do (SetV 3 (Call ''JD'' [Call ''oNb'' [V 0, G ''nrc''], K (JNum 12)])), Do (SetV 8 (Call ''JD'' [Call ''oNb'' [V 1, G ''nrc''], K (JNum 12)])), Do (SetV 4 (Call ''JD'' [Call ''oNb'' [V 0, G ''orc''], K (JNum 12)])), Do (SetV 9 (Call ''JD'' [Call ''oNb'' [V 1, G ''orc''], K (JNum 12)])), Do (SetV 10 (And (Neg (Neg (V 3))) (Loose (V 3) (V 8)))), Do (SetV 11 (And (Neg (Neg (V 4))) (Loose (V 4) (V 9)))), When (And (Neg (V 2)) (Neg (V 7))) [Ret (New ''a4b'' [Loose (Dot (Call ''JD'' [Call ''Imb'' [New ''Kmb'' [Dot (V 0) ''j'']], K (JNum 12)]) ''p'') (Dot (Call ''JD'' [Call ''Imb'' [New ''Kmb'' [Dot (V 1) ''j'']], K (JNum 12)]) ''p''), V 10, V 11])] [], Do (SetV 5 (And (Or (Neg (Call ''Rdb'' [Call ''LD'' [Call ''oNb'' [V 0, G ''mrc'']]])) (Call ''Rdb'' [Call ''LD'' [Call ''oNb'' [V 0, G ''lrc'']]])) (Or (Neg (Call ''Rdb'' [Call ''LD'' [Call ''oNb'' [V 1, G ''mrc'']]])) (Call ''Rdb'' [Call ''LD'' [Call ''oNb'' [V 1, G ''lrc'']]])))), Do (SetV 6 (And (Or (Neg (Call ''Rdb'' [Call ''LD'' [Call ''oNb'' [V 0, G ''mrc'']]])) (Neg (Call ''Rdb'' [Call ''LD'' [Call ''oNb'' [V 0, G ''lrc'']]]))) (Or (Neg (Call ''Rdb'' [Call ''LD'' [Call ''oNb'' [V 1, G ''mrc'']]])) (Neg (Call ''Rdb'' [Call ''LD'' [Call ''oNb'' [V 1, G ''lrc'']]]))))), Ret (New ''a4b'' [Or (And (V 10) (V 5)) (And (V 11) (V 6)), V 10, V 11])],
    fn ''J6c'' 1 8 [Do (SetV 3 (K (JNum 0))), Do (SetV 2 (K (JNum 0))), Do (SetV 8 (New ''dub'' [])), Do (SetV 1 (K (JNum 0))), Do (SetV 7 (New ''Kmb'' [Dot (V 0) ''n''])), Loop (Bin Lt (Dot (V 7) ''a'') (Dot (Dot (Dot (V 7) ''c'') ''c'') ''length'')) [Do (SetV 6 (Call ''JD'' [Call ''Imb'' [V 7], K (JNum 208)])), When (Loose (Dot (Dot (Dot (V 6) ''c'') ''c'') ''length'') (K (JNum 0))) [Do (Call ''Wtb'' [V 8, V 6, Dot (Dot (V 8) ''c'') ''b'', Dot (V 8) ''c''])] [Do (SetV 3 (Meth (Dot (G ''$wnd'') ''Math'') ''max'' [V 3, Dot (V 6) ''d''])), Do (SetV 2 (Bin Plus (V 2) (Bin Plus (Dot (V 6) ''a'') (Cond (Bin Gt (V 1) (K (JNum 0))) (Dot (V 0) ''i'') (K (JNum 0))))))], Do (SetV 1 (Bin Minus (V 1) (K (JNum (- 1)))))] [], Do (Call ''Be'' [Dot (V 0) ''n'', V 8]), Do (Put (V 0) ''d'' (V 2)), Do (Put (V 0) ''r'' (V 3)), Do (Put (V 0) ''g'' (K (JNum 0))), Do (Put (V 0) ''f'' (K (JNum 0))), Do (Put (V 0) ''e'' (K (JNum 0))), Do (Put (V 0) ''o'' (G ''Cve'')), Do (Put (V 0) ''p'' (G ''Cve'')), Do (SetV 5 (New ''Kmb'' [Dot (V 0) ''b''])), Loop (Bin Lt (Dot (V 5) ''a'') (Dot (Dot (Dot (V 5) ''c'') ''c'') ''length'')) [Do (SetV 4 (Call ''JD'' [Call ''Imb'' [V 5], K (JNum 26)])), Do (Put (V 0) ''p'' (Meth (Dot (G ''$wnd'') ''Math'') ''min'' [Dot (V 0) ''p'', Dot (V 4) ''g''])), Do (Put (V 0) ''g'' (Meth (Dot (G ''$wnd'') ''Math'') ''max'' [Dot (V 0) ''g'', Dot (V 4) ''g''])), Do (Put (V 0) ''f'' (Meth (Dot (G ''$wnd'') ''Math'') ''max'' [Dot (V 0) ''f'', Dot (V 4) ''f''])), Do (Put (V 0) ''o'' (Meth (Dot (G ''$wnd'') ''Math'') ''min'' [Dot (V 0) ''o'', Dot (V 4) ''f''])), Do (Put (V 0) ''e'' (Bin Plus (Dot (V 0) ''e'') (Bin Plus (Dot (V 4) ''f'') (Dot (V 0) ''i''))))] [], Do (Put (V 0) ''a'' (Bin Minus (Bin Divide (Dot (V 0) ''e'') (Dot (Dot (Dot (V 0) ''b'') ''c'') ''length'')) (Bin Times (Dot (V 0) ''i'') (Bin Divide (Bin Minus (Dot (Dot (Dot (V 0) ''b'') ''c'') ''length'') (K (JNum 1))) (Dot (Dot (Dot (V 0) ''b'') ''c'') ''length''))))), Do (Call ''A7c'' [Dot (V 0) ''j''])]]"

definition code_5952_5963 :: "(string \<times> jfun) list" where
  "code_5952_5963 = [
    fn ''c7b'' 2 25 [Do (SetV 21 (Dot (V 0) ''c'')), Do (SetV 22 (Dot (V 1) ''c'')), Do (SetV 2 (Call ''emb'' [Dot (V 21) ''a'', V 0, K (JNum 0)])), Do (SetV 3 (Call ''emb'' [Dot (V 22) ''a'', V 1, K (JNum 0)])), Do (SetV 19 (Call ''JD'' [Meth (Meth (Call ''JYb'' [V 0, Seq (Call ''qAc'' []) (G ''nAc'')]) ''Jc'' []) ''Pb'' [], K (JNum 12)])), Do (SetV 25 (Call ''JD'' [Meth (Meth (Call ''JYb'' [V 0, G ''oAc'']) ''Jc'' []) ''Pb'' [], K (JNum 12)])), Do (SetV 20 (Call ''JD'' [Meth (Meth (Call ''JYb'' [V 1, G ''nAc'']) ''Jc'' []) ''Pb'' [], K (JNum 12)])), Do (SetV 26 (Call ''JD'' [Meth (Meth (Call ''JYb'' [V 1, G ''oAc'']) ''Jc'' []) ''Pb'' [], K (JNum 12)])), Do (SetV 17 (Call ''ZXb'' [Dot (V 19) ''e''])), Do (SetV 23 (Call ''ZXb'' [Dot (V 25) ''g''])), Do (SetV 18 (Call ''ZXb'' [Dot (V 20) ''e''])), Do (SetV 24 (Call ''ZXb'' [Dot (V 26) ''g''])), Do (Call ''MYb'' [V 0, V 3, V 22]), Do (Seq (Seq (SetV 6 (V 18)) (SetV 10 (K (JNum 0)))) (SetV 14 (Dot (V 6) ''length''))), Loop (Bin Lt (V 10) (V 14)) [Do (SetV 4 (Idx (V 6) (V 10))), Do (Call ''DWb'' [V 4, V 19])] [Do (SetV 10 (Bin Minus (V 10) (K (JNum (- 1)))))], Do (Seq (Seq (SetV 7 (V 24)) (SetV 11 (K (JNum 0)))) (SetV 15 (Dot (V 7) ''length''))), Loop (Bin Lt (V 11) (V 15)) [Do (SetV 4 (Idx (V 7) (V 11))), Do (Call ''CWb'' [V 4, V 25])] [Do (SetV 11 (Bin Minus (V 11) (K (JNum (- 1)))))], Do (Call ''MYb'' [V 1, V 2, V 21]), Do (Seq (Seq (SetV 8 (V 17)) (SetV 12 (K (JNum 0)))) (SetV 16 (Dot (V 8) ''length''))), Loop (Bin Lt (V 12) (V 16)) [Do (SetV 4 (Idx (V 8) (V 12))), Do (Call ''DWb'' [V 4, V 20])] [Do (SetV 12 (Bin Minus (V 12) (K (JNum (- 1)))))], Do (Seq (Seq (SetV 5 (V 23)) (SetV 9 (K (JNum 0)))) (SetV 13 (Dot (V 5) ''length''))), Loop (Bin Lt (V 9) (V 13)) [Do (SetV 4 (Idx (V 5) (V 9))), Do (Call ''CWb'' [V 4, V 26])] [Do (SetV 9 (Bin Minus (V 9) (K (JNum (- 1)))))]],
    fn ''J_c'' 1 7 [Do (SetV 6 (Call ''JD'' [Call ''cvd'' [V 0, Seq (Call ''d_c'' []) (G ''c_c'')], K (JNum 26)])), Do (SetV 3 (New ''uKd'' [Seq (And (Neg (Dot (V 6) ''e'')) (Put (V 6) ''e'' (New ''jhe'' [G ''Q3'', V 6, K (JNum 7), K (JNum 4)]))) (Dot (V 6) ''e'')])), Loop (Neg (Loose (Dot (V 3) ''e'') (Meth (Dot (V 3) ''i'') ''gc'' []))) [Do (SetV 2 (Call ''JD'' [Call ''sKd'' [V 3], K (JNum 85)])), Do (SetV 7 (New ''lgd'' [Dot (Call ''JD'' [Call ''fGd'' [Seq (And (Neg (Dot (V 2) ''a'')) (Put (V 2) ''a'' (New ''P3d'' [G ''P3'', V 2, K (JNum 6), K (JNum 6)]))) (Dot (V 2) ''a''), K (JNum 0)], K (JNum 170)]) ''j'', Dot (Call ''JD'' [Call ''fGd'' [Seq (And (Neg (Dot (V 2) ''a'')) (Put (V 2) ''a'' (New ''P3d'' [G ''P3'', V 2, K (JNum 6), K (JNum 6)]))) (Dot (V 2) ''a''), K (JNum 0)], K (JNum 170)]) ''k''])), Do (SetV 5 (New ''lgd'' [Dot (Call ''JD'' [Call ''fGd'' [Seq (And (Neg (Dot (V 2) ''a'')) (Put (V 2) ''a'' (New ''P3d'' [G ''P3'', V 2, K (JNum 6), K (JNum 6)]))) (Dot (V 2) ''a''), K (JNum 0)], K (JNum 170)]) ''b'', Dot (Call ''JD'' [Call ''fGd'' [Seq (And (Neg (Dot (V 2) ''a'')) (Put (V 2) ''a'' (New ''P3d'' [G ''P3'', V 2, K (JNum 6), K (JNum 6)]))) (Dot (V 2) ''a''), K (JNum 0)], K (JNum 170)]) ''c''])), Do (SetV 4 (New ''lgd'' [Bin Minus (Dot (V 5) ''a'') (Dot (V 7) ''a''), Bin Minus (Dot (V 5) ''b'') (Dot (V 7) ''b'')])), Do (SetV 1 (Meth (Dot (G ''$wnd'') ''Math'') ''atan2'' [Dot (V 4) ''b'', Dot (V 4) ''a''])), Do (Meth (Call ''JD'' [Call ''fGd'' [Seq (And (Neg (Dot (V 2) ''c'')) (Put (V 2) ''c'' (New ''jhe'' [G ''O3'', V 2, K (JNum 5), K (JNum 8)]))) (Dot (V 2) ''c''), K (JNum 0)], K (JNum 84)]) ''of'' [Seq (Call ''J1c'' []) (G ''F1c''), V 1])] []],
    fn ''Z2c'' 2 9 [Do (Meth (V 1) ''Tg'' [K (JStr ''Interactive Node Reorderer''), K (JNum 1)]), Do (SetV 10 (Seq (And (Neg (Dot (V 0) ''a'')) (Put (V 0) ''a'' (New ''P3d'' [G ''T3'', V 0, K (JNum 10), K (JNum 11)]))) (Dot (V 0) ''a''))), Do (SetV 7 (New ''lmb'' [])), Do (SetV 4 (New ''uKd'' [V 10])), Loop (Neg (Loose (Dot (V 4) ''e'') (Meth (Dot (V 4) ''i'') ''gc'' []))) [Do (SetV 2 (Call ''JD'' [Call ''sKd'' [V 4], K (JNum 26)])), Do (And (Call ''dvd'' [V 2, Seq (Call ''S4c'' []) (G ''u4c'')]) (Seq (Call ''qDb'' [Dot (V 7) ''c'', V 2]) (K (JBool True))))] [], Do (SetV 5 (New ''Kmb'' [V 7])), Loop (Bin Lt (Dot (V 5) ''a'') (Dot (Dot (Dot (V 5) ''c'') ''c'') ''length'')) [Do (SetV 2 (Call ''JD'' [Call ''Imb'' [V 5], K (JNum 26)])), Do (Call ''uFd'' [V 10, V 2])] [], Do (Call ''Inb'' []), Do (Call ''jmb'' [V 7, New ''b3c'' []]), Do (SetV 6 (New ''Kmb'' [V 7])), Loop (Bin Lt (Dot (V 6) ''a'') (Dot (Dot (Dot (V 6) ''c'') ''c'') ''length'')) [Do (SetV 2 (Call ''JD'' [Call ''Imb'' [V 6], K (JNum 26)])), Do (SetV 9 (Dot (Call ''JD'' [Call ''cvd'' [V 2, Seq (Call ''S4c'' []) (G ''u4c'')], K (JNum 15)]) ''a'')), Do (SetV 9 (Meth (Dot (G ''$wnd'') ''Math'') ''min'' [V 9, Dot (V 10) ''i''])), Do (Call ''kFd'' [V 10, V 9, V 2])] [], Do (SetV 8 (K (JNum 0))), Do (SetV 3 (New ''uKd'' [V 10])), Loop (Neg (Loose (Dot (V 3) ''e'') (Meth (Dot (V 3) ''i'') ''gc'' []))) [Do (SetV 2 (Call ''JD'' [Call ''sKd'' [V 3], K (JNum 26)])), Do (Call ''evd'' [V 2, Seq (Call ''S4c'' []) (G ''t4c''), Call ''Cfb'' [V 8]]), Do (SetV 8 (Bin Minus (V 8) (K (JNum (- 1)))))] [], Do (Meth (V 1) ''Ug'' [])],
    fn ''wKc'' 2 14 [Do (SetV 7 (Call ''SC'' [G ''cE'', G ''bve'', K (JNum 30), Dot (Dot (Dot (V 1) ''b'') ''c'') ''length'', K (JNum 15), K (JNum 1)])), Do (SetV 9 (Call ''SC'' [G ''QP'', G ''xue'', K (JNum 249), Dot (Dot (Dot (V 1) ''b'') ''c'') ''length'', K (JNum 0), K (JNum 1)])), Do (SetV 8 (Call ''SC'' [G ''SP'', G ''Bye'', K (JNum 9), Dot (Dot (Dot (V 1) ''b'') ''c'') ''length'', K (JNum 0), K (JNum 1)])), Do (Seq (Seq (SetV 11 (Dot (V 0) ''a'')) (SetV 12 (K (JNum 0)))) (SetV 13 (Dot (V 11) ''length''))), Loop (Bin Lt (V 12) (V 13)) [Do (SetV 10 (Idx (V 11) (V 12))), Do (SetV 15 (K (JNum 0))), Do (SetV 6 (New ''Kmb'' [Dot (V 10) ''e''])), Loop (Bin Lt (Dot (V 6) ''a'') (Dot (Dot (Dot (V 6) ''c'') ''c'') ''length'')) [Do (SetV 4 (Call ''JD'' [Call ''Imb'' [V 6], K (JNum 9)])), Do (SetV 3 (Call ''x$b'' [Dot (V 4) ''c''])), Do (PutIdx (V 7) (V 3) (Bin Minus (Idx (V 7) (V 3)) (K (JNum (- 1))))), Do (SetV 14 (Call ''Ueb'' [Call ''MD'' [Call ''oNb'' [V 1, Seq (Call ''nyc'' []) (G ''Ixc'')]]])), Do (And (And (Bin Gt (Idx (V 7) (V 3)) (K (JNum 0))) (Neg (Neg (Idx (V 8) (V 3))))) (SetV 14 (Call ''SAc'' [Dot (V 0) ''b'', Idx (V 8) (V 3), V 4]))), Do (SetV 15 (Meth (Dot (G ''$wnd'') ''Math'') ''max'' [V 15, Bin Plus (Dot (Dot (Dot (V 4) ''c'') ''c'') ''b'') (V 14)]))] [], Do (SetV 5 (New ''Kmb'' [Dot (V 10) ''e''])), Loop (Bin Lt (Dot (V 5) ''a'') (Dot (Dot (Dot (V 5) ''c'') ''c'') ''length'')) [Do (SetV 4 (Call ''JD'' [Call ''Imb'' [V 5], K (JNum 9)])), Do (Put (Dot (V 4) ''n'') ''b'' (Bin Plus (V 15) (Dot (Dot (V 4) ''d'') ''d''))), Do (SetV 2 (Dot (V 4) ''c'')), Do (Put (Dot (V 2) ''c'') ''b'' (Bin Plus (Bin Plus (Bin Plus (V 15) (Dot (Dot (V 4) ''d'') ''d'')) (Dot (Dot (V 4) ''o'') ''b'')) (Dot (Dot (V 4) ''d'') ''a''))), Do (PutIdx (V 9) (Call ''emb'' [Dot (Dot (V 2) ''b'') ''b'', V 2, K (JNum 0)]) (Dot (V 4) ''k'')), Do (PutIdx (V 8) (Call ''emb'' [Dot (Dot (V 2) ''b'') ''b'', V 2, K (JNum 0)]) (V 4))] []] [Do (SetV 12 (Bin Minus (V 12) (K (JNum (- 1)))))]],
    fn ''yQc'' 3 8 [When (Or (Bin Lt (Meth (Dot (G ''$wnd'') ''Math'') ''abs'' [Bin Minus (Dot (V 1) ''s'') (Dot (V 1) ''c'')]) (G ''xxe'')) (Bin Lt (Meth (Dot (G ''$wnd'') ''Math'') ''abs'' [Bin Minus (Dot (V 2) ''s'') (Dot (V 2) ''c'')]) (G ''xxe''))) [Ret (K (JNum 0))] [], Do (SetV 3 (Call ''xQc'' [V 0, Dot (V 1) ''j'', Dot (V 2) ''e''])), Do (SetV 4 (Call ''xQc'' [V 0, Dot (V 2) ''j'', Dot (V 1) ''e''])), Do (SetV 5 (Or (Loose (V 3) (K (JNum (- 1)))) (Loose (V 4) (K (JNum (- 1)))))), Do (SetV 6 (K (JNum 0))), When (V 5) [When (Loose (V 3) (K (JNum (- 1)))) [Do (New ''MPc'' [Seq (Call ''QPc'' []) (G ''OPc''), V 2, V 1, K (JNum 1)]), Do (SetV 6 (Bin Minus (V 6) (K (JNum (- 1)))))] [], When (Loose (V 4) (K (JNum (- 1)))) [Do (New ''MPc'' [Seq (Call ''QPc'' []) (G ''OPc''), V 1, V 2, K (JNum 1)]), Do (SetV 6 (Bin Minus (V 6) (K (JNum (- 1)))))] []] [Do (SetV 7 (Call ''EQc'' [Dot (V 1) ''j'', Dot (V 2) ''s'', Dot (V 2) ''c''])), Do (SetV 7 (Bin Plus (V 7) (Call ''EQc'' [Dot (V 2) ''e'', Dot (V 1) ''s'', Dot (V 1) ''c'']))), Do (SetV 8 (Call ''EQc'' [Dot (V 2) ''j'', Dot (V 1) ''s'', Dot (V 1) ''c''])), Do (SetV 8 (Bin Plus (V 8) (Call ''EQc'' [Dot (V 1) ''e'', Dot (V 2) ''s'', Dot (V 2) ''c'']))), Do (SetV 9 (Bin Plus (V 3) (Bin Times (K (JNum 16)) (V 7)))), Do (SetV 10 (Bin Plus (V 4) (Bin Times (K (JNum 16)) (V 8)))), When (Bin Lt (V 9) (V 10)) [Do (New ''MPc'' [Seq (Call ''QPc'' []) (G ''PPc''), V 1, V 2, Bin Minus (V 10) (V 9)])] [When (Bin Gt (V 9) (V 10)) [Do (New ''MPc'' [Seq (Call ''QPc'' []) (G ''PPc''), V 2, V 1, Bin Minus (V 9) (V 10)])] [When (And (Bin Gt (V 9) (K (JNum 0))) (Bin Gt (V 10) (K (JNum 0)))) [Do (New ''MPc'' [Seq (Call ''QPc'' []) (G ''PPc''), V 1, V 2, K (JNum 0)]), Do (New ''MPc'' [G ''PPc'', V 2, V 1, K (JNum 0)])] []]]], Ret (V 6)],
    fn ''$Tc'' 3 3 [Do (Put (V 0) ''a'' (New ''lmb'' [])), Do (SetV 5 (Call ''Ztb'' [Dot (V 1) ''b'', K (JNum 0)])), Loop (Neg (Loose (Dot (V 5) ''b'') (Dot (Dot (V 5) ''d'') ''c''))) [Do (SetV 4 (Call ''JD'' [Call ''lub'' [V 5], K (JNum 40)])), Loop (Bin Gt (Dot (Call ''JD'' [Call ''oNb'' [V 4, Seq (Call ''SXc'' []) (G ''QXc'')], K (JNum 15)]) ''a'') (Bin Minus (Dot (Dot (Dot (V 0) ''a'') ''c'') ''length'') (K (JNum 1)))) [Do (Call ''_lb'' [Dot (V 0) ''a'', New ''prd'' [G ''tCe'', G ''NCe'']])] [], Do (SetV 3 (Dot (Call ''JD'' [Call ''oNb'' [V 4, G ''QXc''], K (JNum 15)]) ''a'')), When (Or (Loose (V 2) (Seq (Call ''Djd'' []) (G ''zjd''))) (Loose (V 2) (G ''Ajd''))) [Do (And (Bin Lt (Dot (Dot (V 4) ''e'') ''a'') (Call ''Ueb'' [Call ''MD'' [Dot (Call ''JD'' [Call ''dmb'' [Dot (V 0) ''a'', V 3], K (JNum 49)]) ''a'']])) (Call ''nrd'' [Call ''JD'' [Call ''dmb'' [Dot (V 0) ''a'', V 3], K (JNum 49)], Dot (Dot (V 4) ''e'') ''a''])), Do (And (Bin Gt (Bin Plus (Dot (Dot (V 4) ''e'') ''a'') (Dot (Dot (V 4) ''f'') ''a'')) (Call ''Ueb'' [Call ''MD'' [Dot (Call ''JD'' [Call ''dmb'' [Dot (V 0) ''a'', V 3], K (JNum 49)]) ''b'']])) (Call ''ord'' [Call ''JD'' [Call ''dmb'' [Dot (V 0) ''a'', V 3], K (JNum 49)], Bin Plus (Dot (Dot (V 4) ''e'') ''a'') (Dot (Dot (V 4) ''f'') ''a'')]))] [Do (And (Bin Lt (Dot (Dot (V 4) ''e'') ''b'') (Call ''Ueb'' [Call ''MD'' [Dot (Call ''JD'' [Call ''dmb'' [Dot (V 0) ''a'', V 3], K (JNum 49)]) ''a'']])) (Call ''nrd'' [Call ''JD'' [Call ''dmb'' [Dot (V 0) ''a'', V 3], K (JNum 49)], Dot (Dot (V 4) ''e'') ''b''])), Do (And (Bin Gt (Bin Plus (Dot (Dot (V 4) ''e'') ''b'') (Dot (Dot (V 4) ''f'') ''b'')) (Call ''Ueb'' [Call ''MD'' [Dot (Call ''JD'' [Call ''dmb'' [Dot (V 0) ''a'', V 3], K (JNum 49)]) ''b'']])) (Call ''ord'' [Call ''JD'' [Call ''dmb'' [Dot (V 0) ''a'', V 3], K (JNum 49)], Bin Plus (Dot (Dot (V 4) ''e'') ''b'') (Dot (Dot (V 4) ''f'') ''b'')]))]] []],
    fn ''NXb'' 4 7 [Do (SetV 5 (Call ''PXb'' [V 3])), Do (SetV 7 (Call ''Rdb'' [Call ''LD'' [Call ''oNb'' [V 3, Seq (Call ''nyc'' []) (G ''Qwc'')]]])), When (And (Or (V 7) (Call ''Rdb'' [Call ''LD'' [Call ''oNb'' [V 0, G ''wwc'']]])) (Neg (Call ''Old'' [Call ''JD'' [Call ''oNb'' [V 0, G ''qxc''], K (JNum 102)]]))) [Do (SetV 4 (Call ''Gmd'' [V 5])), Do (SetV 8 (Call ''XXb'' [V 0, V 2, Cond (Loose (V 2) (Seq (Call ''qAc'' []) (G ''oAc''))) (V 4) (Call ''Dmd'' [V 4])]))] [Do (SetV 8 (New ''yZb'' [])), Do (Call ''wZb'' [V 8, V 0]), When (V 1) [Do (SetV 10 (Dot (V 8) ''n'')), Do (Put (V 10) ''a'' (Bin Minus (Dot (V 1) ''a'') (Dot (Dot (V 0) ''n'') ''a''))), Do (Put (V 10) ''b'' (Bin Minus (Dot (V 1) ''b'') (Dot (Dot (V 0) ''n'') ''b''))), Do (Call ''Wfd'' [V 10, K (JNum 0), K (JNum 0), Dot (Dot (V 0) ''o'') ''a'', Dot (Dot (V 0) ''o'') ''b'']), Do (Call ''xZb'' [V 8, Call ''JXb'' [V 8, V 5]])] [Do (SetV 4 (Call ''Gmd'' [V 5])), Do (Call ''xZb'' [V 8, Cond (Loose (V 2) (Seq (Call ''qAc'' []) (G ''oAc''))) (V 4) (Call ''Dmd'' [V 4])])], Do (SetV 6 (Call ''JD'' [Call ''oNb'' [V 3, Seq (Call ''Wrc'' []) (G ''brc'')], K (JNum 22)])), Do (SetV 9 (Dot (V 8) ''j'')), Switch (Dot (V 5) ''g'') [(Some (JNum 2), []), (Some (JNum 1), [Do (And (Or (Loose (V 9) (Seq (Call ''Bmd'' []) (G ''hmd''))) (Loose (V 9) (G ''ymd''))) (Meth (V 6) ''Ec'' [Seq (Call ''Xpc'' []) (G ''Upc'')])), Break]), (Some (JNum 4), []), (Some (JNum 3), [Do (And (Or (Loose (V 9) (Seq (Call ''Bmd'' []) (G ''gmd''))) (Loose (V 9) (G ''Amd''))) (Meth (V 6) ''Ec'' [Seq (Call ''Xpc'' []) (G ''Upc'')]))])]], Ret (V 8)],
    fn ''zRb'' 2 6 [Do (SetV 6 (New ''Fjb'' [Dot (New ''wjb'' [Dot (Dot (V 0) ''f'') ''b'']) ''a''])), Loop (Dot (V 6) ''b'') [Do (SetV 5 (Call ''Djb'' [V 6])), Do (SetV 4 (Call ''JD'' [Meth (V 5) ''jd'' [], K (JNum 592)])), When (Loose (V 1) (K (JNum 1))) [When (And (Neg (Loose (Meth (V 4) ''yf'' []) (Seq (Call ''Djd'' []) (G ''Cjd'')))) (Neg (Loose (Meth (V 4) ''yf'' []) (G ''yjd'')))) [Continue] []] [When (And (Neg (Loose (Meth (V 4) ''yf'' []) (Seq (Call ''Djd'' []) (G ''zjd'')))) (Neg (Loose (Meth (V 4) ''yf'' []) (G ''Ajd'')))) [Continue] []], Do (SetV 3 (Call ''JD'' [Dot (Call ''JD'' [Meth (V 5) ''kd'' [], K (JNum 49)]) ''b'', K (JNum 82)])), Do (SetV 7 (Call ''JD'' [Dot (Call ''JD'' [Meth (V 5) ''kd'' [], K (JNum 49)]) ''a'', K (JNum 194)])), Do (SetV 2 (Dot (V 7) ''c'')), Switch (Dot (Meth (V 4) ''yf'' []) ''g'') [(Some (JNum 2), [Do (Put (Dot (V 3) ''g'') ''c'' (Dot (Dot (V 0) ''e'') ''a'')), Do (Put (Dot (V 3) ''g'') ''b'' (Meth (Dot (G ''$wnd'') ''Math'') ''max'' [K (JNum 1), Bin Plus (Dot (Dot (V 3) ''g'') ''b'') (V 2)])), Break]), (Some (JNum 1), [Do (Put (Dot (V 3) ''g'') ''c'' (Bin Plus (Dot (Dot (V 3) ''g'') ''c'') (V 2))), Do (Put (Dot (V 3) ''g'') ''b'' (Meth (Dot (G ''$wnd'') ''Math'') ''max'' [K (JNum 1), Bin Minus (Dot (Dot (V 3) ''g'') ''b'') (V 2)])), Break]), (Some (JNum 4), [Do (Put (Dot (V 3) ''g'') ''d'' (Dot (Dot (V 0) ''e'') ''b'')), Do (Put (Dot (V 3) ''g'') ''a'' (Meth (Dot (G ''$wnd'') ''Math'') ''max'' [K (JNum 1), Bin Plus (Dot (Dot (V 3) ''g'') ''a'') (V 2)])), Break]), (Some (JNum 3), [Do (Put (Dot (V 3) ''g'') ''d'' (Bin Plus (Dot (Dot (V 3) ''g'') ''d'') (V 2))), Do (Put (Dot (V 3) ''g'') ''a'' (Meth (Dot (G ''$wnd'') ''Math'') ''max'' [K (JNum 1), Bin Minus (Dot (Dot (V 3) ''g'') ''a'') (V 2)]))])]] []],
    fn ''SMc'' 2 10 [Do (Meth (V 1) ''Tg'' [K (JStr ''Simple node placement''), K (JNum 1)]), Do (SetV 11 (Call ''JD'' [Call ''oNb'' [V 0, Seq (Call ''Wrc'' []) (G ''Krc'')], K (JNum 317)])), Do (SetV 7 (K (JNum 0))), Do (SetV 5 (New ''Kmb'' [Dot (V 0) ''b''])), Loop (Bin Lt (Dot (V 5) ''a'') (Dot (Dot (Dot (V 5) ''c'') ''c'') ''length'')) [Do (SetV 3 (Call ''JD'' [Call ''Imb'' [V 5], K (JNum 25)])), Do (SetV 6 (Dot (V 3) ''c'')), Do (Put (V 6) ''b'' (K (JNum 0))), Do (SetV 2 (K JNull)), Do (SetV 9 (New ''Kmb'' [Dot (V 3) ''a''])), Loop (Bin Lt (Dot (V 9) ''a'') (Dot (Dot (Dot (V 9) ''c'') ''c'') ''length'')) [Do (SetV 8 (Call ''JD'' [Call ''Imb'' [V 9], K (JNum 9)])), Do (And (Neg (Neg (V 2))) (Put (V 6) ''b'' (Bin Plus (Dot (V 6) ''b'') (Call ''QAc'' [V 8, V 2, Dot (V 11) ''c''])))), Do (Put (V 6) ''b'' (Bin Plus (Dot (V 6) ''b'') (Bin Plus (Bin Plus (Dot (Dot (V 8) ''d'') ''d'') (Dot (Dot (V 8) ''o'') ''b'')) (Dot (Dot (V 8) ''d'') ''a'')))), Do (SetV 2 (V 8))] [], Do (SetV 7 (Meth (Dot (G ''$wnd'') ''Math'') ''max'' [V 7, Dot (V 6) ''b'']))] [], Do (SetV 4 (New ''Kmb'' [Dot (V 0) ''b''])), Loop (Bin Lt (Dot (V 4) ''a'') (Dot (Dot (Dot (V 4) ''c'') ''c'') ''length'')) [Do (SetV 3 (Call ''JD'' [Call ''Imb'' [V 4], K (JNum 25)])), Do (SetV 6 (Dot (V 3) ''c'')), Do (SetV 10 (Bin Divide (Bin Minus (V 7) (Dot (V 6) ''b'')) (K (JNum 2)))), Do (SetV 2 (K JNull)), Do (SetV 9 (New ''Kmb'' [Dot (V 3) ''a''])), Loop (Bin Lt (Dot (V 9) ''a'') (Dot (Dot (Dot (V 9) ''c'') ''c'') ''length'')) [Do (SetV 8 (Call ''JD'' [Call ''Imb'' [V 9], K (JNum 9)])), Do (And (Neg (Neg (V 2))) (SetV 10 (Bin Plus (V 10) (Call ''QAc'' [V 8, V 2, Dot (V 11) ''c''])))), Do (SetV 10 (Bin Plus (V 10) (Dot (Dot (V 8) ''d'') ''d''))), Do (Put (Dot (V 8) ''n'') ''b'' (V 10)), Do (SetV 10 (Bin Plus (V 10) (Bin Plus (Dot (Dot (V 8) ''o'') ''b'') (Dot (Dot (V 8) ''d'') ''a'')))), Do (SetV 2 (V 8))] []] [], Do (Meth (V 1) ''Ug'' [])],
    fn ''k9c'' 1 0 [Do (Call ''zdd'' [V 0, New ''Kcd'' [Call ''Vcd'' [Call ''Scd'' [Call ''Ucd'' [Call ''Tcd'' [New ''Xcd'' [], G ''lEe''], K (JStr ''ELK SPOrE Compaction'')], K (JStr ''ShrinkTree is a compaction algorithm that maintains the topology of a layout. The relocation of diagram elements is based on contracting a spanning tree.'')], New ''n9c'' []]]]), Do (Call ''xdd'' [V 0, G ''lEe'', G ''mEe'', Call ''BEd'' [G ''i9c'']]), Do (Call ''xdd'' [V 0, G ''lEe'', G ''nEe'', Call ''BEd'' [G ''f9c'']]), Do (Call ''xdd'' [V 0, G ''lEe'', G ''oEe'', Call ''BEd'' [G ''e9c'']]), Do (Call ''xdd'' [V 0, G ''lEe'', G ''pEe'', Call ''BEd'' [G ''c9c'']]), Do (Call ''xdd'' [V 0, G ''lEe'', G ''qEe'', Call ''BEd'' [G ''d9c'']]), Do (Call ''xdd'' [V 0, G ''lEe'', G ''Jxe'', G ''b9c'']), Do (Call ''xdd'' [V 0, G ''lEe'', G ''Exe'', K (JNum 8)]), Do (Call ''xdd'' [V 0, G ''lEe'', G ''rEe'', Call ''BEd'' [G ''h9c'']]), Do (Call ''xdd'' [V 0, G ''lEe'', G ''sEe'', Call ''BEd'' [G ''Z8c'']]), Do (Call ''xdd'' [V 0, G ''lEe'', G ''tEe'', Call ''BEd'' [G ''$8c'']]), Do (Call ''xdd'' [V 0, G ''lEe'', G ''IBe'', Seq (Call ''Qdb'' []) (K (JBool False))])],
    fn ''Jkc'' 2 4 [Do (Call ''Dkc'' [Dot (Dot (V 1) ''b'') ''j'']), Do (Call ''YBb'' [Call ''ZBb'' [New ''jCb'' [K JNull, New ''Zvb'' [Dot (V 1) ''d'', K (JNum 16)]], New ''Ukc'' []], New ''Wkc'' []]), Do (SetV 5 (New ''Kmb'' [Dot (V 1) ''d''])), Loop (Bin Lt (Dot (V 5) ''a'') (Dot (Dot (Dot (V 5) ''c'') ''c'') ''length'')) [Do (SetV 4 (Call ''JD'' [Call ''Imb'' [V 5], K (JNum 107)])), Switch (Dot (Dot (V 4) ''e'') ''g'') [(Some (JNum 0), [Do (SetV 2 (Dot (Dot (Call ''JD'' [Call ''dmb'' [Dot (V 4) ''j'', K (JNum 0)], K (JNum 113)]) ''d'') ''j'')), Do (Call ''bhc'' [V 4, Call ''JD'' [Call ''Sub'' [Call ''bCb'' [Meth (Call ''JD'' [Call ''Qc'' [Dot (V 4) ''k'', V 2], K (JNum 16)]) ''Mc'' [], G ''Bkc'']], K (JNum 113)]]), Do (Call ''chc'' [V 4, Call ''JD'' [Call ''Sub'' [Call ''aCb'' [Meth (Call ''JD'' [Call ''Qc'' [Dot (V 4) ''k'', V 2], K (JNum 16)]) ''Mc'' [], G ''Bkc'']], K (JNum 113)]]), Break]), (Some (JNum 1), [Do (SetV 3 (Call ''ric'' [V 4])), Do (Call ''bhc'' [V 4, Call ''JD'' [Call ''Sub'' [Call ''bCb'' [Meth (Call ''JD'' [Call ''Qc'' [Dot (V 4) ''k'', Idx (V 3) (K (JNum 0))], K (JNum 16)]) ''Mc'' [], G ''Bkc'']], K (JNum 113)]]), Do (Call ''chc'' [V 4, Call ''JD'' [Call ''Sub'' [Call ''aCb'' [Meth (Call ''JD'' [Call ''Qc'' [Dot (V 4) ''k'', Idx (V 3) (K (JNum 1))], K (JNum 16)]) ''Mc'' [], G ''Bkc'']], K (JNum 113)]]), Break]), (Some (JNum 2), [Do (Call ''Lkc'' [V 0, V 4]), Break]), (Some (JNum 3), [Do (Call ''Kkc'' [V 4]), Break]), (Some (JNum 4), [Do (Call ''Ikc'' [V 0, V 4])])], Do (Call ''Gkc'' [V 4])] [], Do (Put (V 0) ''a'' (K JNull))],
    fn ''hOc'' 3 8 [Do (SetV 3 (Cond (Loose (Dot (Dot (V 0) ''a'') ''o'') (Seq (Call ''nNc'' []) (G ''mNc''))) (G ''Cve'') (G ''Dve''))), Do (SetV 7 (Call ''iOc'' [V 0, New ''gOc'' [V 1, V 2]])), When (And (Neg (Dot (V 7) ''a'')) (Dot (V 7) ''c'')) [Do (Call ''Ttb'' [Dot (V 0) ''d'', V 7]), Ret (V 3)] [When (Dot (V 7) ''a'') [Do (SetV 4 (Dot (Dot (V 7) ''a'') ''c'')), Do (SetV 8 (Dot (Dot (V 7) ''a'') ''d'')), When (V 2) [Do (SetV 9 (Cond (Loose (Dot (Dot (V 0) ''a'') ''c'') (Seq (Call ''fNc'' []) (G ''eNc''))) (V 8) (V 4))), Do (SetV 5 (Cond (Loose (Dot (Dot (V 0) ''a'') ''c'') (G ''eNc'')) (V 4) (V 8))), Do (SetV 6 (Idx (Dot (Dot (V 0) ''a'') ''g'') (Dot (Dot (V 5) ''i'') ''p''))), Do (SetV 10 (Bin Minus (Bin Minus (Bin Minus (Bin Plus (Bin Plus (Bin Plus (Call ''Ueb'' [Idx (Dot (Dot (V 0) ''a'') ''p'') (Dot (V 6) ''p'')]) (Call ''Ueb'' [Idx (Dot (Dot (V 0) ''a'') ''d'') (Dot (Dot (V 5) ''i'') ''p'')])) (Dot (Dot (V 5) ''n'') ''b'')) (Dot (Dot (V 5) ''a'') ''b'')) (Call ''Ueb'' [Idx (Dot (Dot (V 0) ''a'') ''d'') (Dot (Dot (V 9) ''i'') ''p'')])) (Dot (Dot (V 9) ''n'') ''b'')) (Dot (Dot (V 9) ''a'') ''b'')))] [Do (SetV 9 (Cond (Loose (Dot (Dot (V 0) ''a'') ''c'') (Seq (Call ''fNc'' []) (G ''dNc''))) (V 8) (V 4))), Do (SetV 5 (Cond (Loose (Dot (Dot (V 0) ''a'') ''c'') (G ''dNc'')) (V 4) (V 8))), Do (SetV 10 (Bin Minus (Bin Minus (Bin Minus (Bin Plus (Bin Plus (Bin Plus (Call ''Ueb'' [Idx (Dot (Dot (V 0) ''a'') ''p'') (Dot (Idx (Dot (Dot (V 0) ''a'') ''g'') (Dot (Dot (V 5) ''i'') ''p'')) ''p'')]) (Call ''Ueb'' [Idx (Dot (Dot (V 0) ''a'') ''d'') (Dot (Dot (V 5) ''i'') ''p'')])) (Dot (Dot (V 5) ''n'') ''b'')) (Dot (Dot (V 5) ''a'') ''b'')) (Call ''Ueb'' [Idx (Dot (Dot (V 0) ''a'') ''d'') (Dot (Dot (V 9) ''i'') ''p'')])) (Dot (Dot (V 9) ''n'') ''b'')) (Dot (Dot (V 9) ''a'') ''b'')))], Do (PutIdx (Dot (Dot (V 0) ''a'') ''n'') (Dot (Idx (Dot (Dot (V 0) ''a'') ''g'') (Dot (Dot (V 4) ''i'') ''p'')) ''p'') (Seq (Call ''Qdb'' []) (K (JBool True)))), Do (PutIdx (Dot (Dot (V 0) ''a'') ''n'') (Dot (Idx (Dot (Dot (V 0) ''a'') ''g'') (Dot (Dot (V 8) ''i'') ''p'')) ''p'') (K (JBool True))), Ret (V 10)] []], Ret (V 3)]]"

definition code_5964_5975 :: "(string \<times> jfun) list" where
  "code_5964_5975 = [
    fn ''dee'' 4 8 [When (Loose (Meth (V 3) ''gc'' []) (K (JNum 0))) [Ret (K (JBool False))] [], Do (SetV 8 (Seq (Call ''Aie'' []) (Meth (Call ''JD'' [V 1, K (JNum 69)]) ''vk'' []))), Do (SetV 6 (Cond (V 8) (V 3) (New ''oGd'' [Meth (V 3) ''gc'' []]))), When (Call ''Die'' [Dot (V 0) ''e'', V 1]) [When (Meth (V 1) ''Qi'' []) [Do (SetV 10 (Meth (V 3) ''Jc'' [])), Loop (Meth (V 10) ''Ob'' []) [Do (SetV 9 (Meth (V 10) ''Pb'' [])), When (Neg (Call ''qee'' [V 0, V 1, V 9, And (Call ''RD'' [V 1, K (JNum 103)]) (Neg (Loose (Bin BitAnd (Dot (Call ''JD'' [V 1, K (JNum 19)]) ''Bb'') (G ''Hve'')) (K (JNum 0))))])) [Do (SetV 5 (Call ''Bie'' [V 1, V 9])), Do (Meth (V 6) ''Ec'' [V 5])] []] []] [When (Neg (V 8)) [Do (SetV 10 (Meth (V 3) ''Jc'' [])), Loop (Meth (V 10) ''Ob'' []) [Do (SetV 9 (Meth (V 10) ''Pb'' [])), Do (SetV 5 (Call ''Bie'' [V 1, V 9])), Do (Meth (V 6) ''Ec'' [V 5])] []] []]] [Do (SetV 11 (Call ''Cie'' [Meth (Dot (V 0) ''e'') ''Ah'' [], V 1])), Do (SetV 4 (Call ''JD'' [Dot (V 0) ''g'', K (JNum 122)])), Do (SetV 7 (K (JNum 0))), Loop (Bin Lt (V 7) (Dot (V 0) ''i'')) [Do (SetV 5 (Idx (V 4) (V 7))), When (Meth (V 11) ''$l'' [Meth (V 5) ''Jk'' []]) [Raise (Call ''Lcb'' [New ''kfb'' [G ''rJe'']])] []] [Do (SetV 7 (Bin Minus (V 7) (K (JNum (- 1)))))], When (Bin Gt (Meth (V 3) ''gc'' []) (K (JNum 1))) [Raise (Call ''Lcb'' [New ''kfb'' [G ''rJe'']])] [], When (Neg (V 8)) [Do (SetV 5 (Call ''Bie'' [V 1, Meth (Meth (V 3) ''Jc'' []) ''Pb'' []])), Do (Meth (V 6) ''Ec'' [V 5])] []], Ret (Call ''mFd'' [V 0, Call ''tee'' [V 0, V 1, V 2], V 6])],
    fn ''See'' 3 8 [When (Call ''Die'' [Dot (V 0) ''e'', V 1]) [Do (SetV 8 (Seq (Call ''Aie'' []) (Cond (Meth (Call ''JD'' [V 1, K (JNum 69)]) ''vk'' []) (New ''Bje'' [V 1, V 0]) (New ''Rie'' [V 1, V 0])))), Do (Call ''oee'' [Dot (V 8) ''c'', Dot (V 8) ''b'']), Do (Call ''Nie'' [V 8, Call ''JD'' [V 2, K (JNum 18)]])] [Do (SetV 10 (Call ''Cie'' [Meth (Dot (V 0) ''e'') ''Ah'' [], V 1])), Do (SetV 3 (Call ''JD'' [Dot (V 0) ''g'', K (JNum 122)])), Do (SetV 6 (K (JNum 0))), Loop (Bin Lt (V 6) (Dot (V 0) ''i'')) [Do (SetV 4 (Idx (V 3) (V 6))), Do (SetV 5 (Meth (V 4) ''Jk'' [])), When (Meth (V 10) ''$l'' [V 5]) [When (Or (Loose (V 5) (Seq (Call ''Yje'' []) (G ''Wje''))) (Loose (V 5) (G ''Tje''))) [Do (SetV 9 (Call ''Zee'' [V 0, V 1, V 2])), Do (SetV 7 (V 6)), Do (Cond (V 9) (Call ''MJd'' [V 0, V 6]) (SetV 6 (Bin Minus (V 6) (K (JNum (- 1)))))), Loop (Bin Lt (V 6) (Dot (V 0) ''i'')) [Do (SetV 4 (Idx (V 3) (V 6))), Do (SetV 5 (Meth (V 4) ''Jk'' [])), Do (Cond (Or (Loose (V 5) (G ''Wje'')) (Loose (V 5) (G ''Tje''))) (Call ''MJd'' [V 0, V 6]) (SetV 6 (Bin Minus (V 6) (K (JNum (- 1))))))] [], Do (Or (V 9) (Call ''JD'' [Call ''vFd'' [V 0, V 7, Call ''Bie'' [V 1, V 2]], K (JNum 75)]))] [Do (Cond (Call ''Zee'' [V 0, V 1, V 2]) (Call ''MJd'' [V 0, V 6]) (Call ''JD'' [Call ''vFd'' [V 0, V 6, Seq (Call ''Aie'' []) (Cond (Meth (Call ''JD'' [V 1, K (JNum 69)]) ''vk'' []) (Call ''JD'' [V 2, K (JNum 75)]) (Call ''Bie'' [V 1, V 2]))], K (JNum 75)]))], Ret (K JUndef)] []] [Do (SetV 6 (Bin Minus (V 6) (K (JNum (- 1)))))], Do (Or (Call ''Zee'' [V 0, V 1, V 2]) (Call ''lFd'' [V 0, Seq (Call ''Aie'' []) (Cond (Meth (Call ''JD'' [V 1, K (JNum 69)]) ''vk'' []) (Call ''JD'' [V 2, K (JNum 75)]) (Call ''Bie'' [V 1, V 2]))]))]],
    fn ''hKc'' 2 14 [Do (SetV 11 (K (JNum 0))), Loop (Bin Lt (V 11) (Dot (V 1) ''length'')) [Do (SetV 7 (Meth (V 0) ''Jc'' [])), Loop (Meth (V 7) ''Ob'' []) [Do (SetV 5 (Call ''JD'' [Meth (V 7) ''Pb'' [], K (JNum 220)])), Do (Meth (V 5) ''fg'' [V 11, V 1])] [], Do (SetV 12 (K (JNum 0))), Loop (Bin Lt (V 12) (Dot (Idx (V 1) (V 11)) ''length'')) [Do (SetV 8 (Meth (V 0) ''Jc'' [])), Loop (Meth (V 8) ''Ob'' []) [Do (SetV 5 (Call ''JD'' [Meth (V 8) ''Pb'' [], K (JNum 220)])), Do (Meth (V 5) ''gg'' [V 11, V 12, V 1])] [], Do (SetV 15 (Dot (Idx (Idx (V 1) (V 11)) (V 12)) ''j'')), Do (SetV 13 (K (JNum 0))), Loop (Bin Lt (V 13) (Dot (Dot (V 15) ''c'') ''length'')) [Do (SetV 9 (Meth (V 0) ''Jc'' [])), Loop (Meth (V 9) ''Ob'' []) [Do (SetV 5 (Call ''JD'' [Meth (V 9) ''Pb'' [], K (JNum 220)])), Do (Meth (V 5) ''hg'' [V 11, V 12, V 13, V 1])] [], Do (SetV 14 (Seq (Call ''MDb'' [V 13, Dot (Dot (V 15) ''c'') ''length'']) (Call ''JD'' [Idx (Dot (V 15) ''c'') (V 13), K (JNum 12)]))), Do (SetV 2 (K (JNum 0))), Do (SetV 4 (New ''UZb'' [Dot (V 14) ''b''])), Loop (Or (Call ''Hmb'' [Dot (V 4) ''a'']) (Call ''Hmb'' [Dot (V 4) ''b''])) [Do (SetV 3 (Call ''JD'' [Cond (Call ''Hmb'' [Dot (V 4) ''a'']) (Call ''Imb'' [Dot (V 4) ''a'']) (Call ''Imb'' [Dot (V 4) ''b'']), K (JNum 17)])), Do (SetV 10 (Meth (V 0) ''Jc'' [])), Loop (Meth (V 10) ''Ob'' []) [Do (SetV 5 (Call ''JD'' [Meth (V 10) ''Pb'' [], K (JNum 220)])), Do (Meth (V 5) ''eg'' [V 11, V 12, V 13, Bin Minus (SetV 2 (Bin Minus (V 2) (K (JNum (- 1))))) (K (JNum 1)), V 3, V 1])] []] []] [Do (Bin Minus (SetV 13 (Bin Minus (V 13) (K (JNum (- 1))))) (K (JNum 1)))]] [Do (Bin Minus (SetV 12 (Bin Minus (V 12) (K (JNum (- 1))))) (K (JNum 1)))]] [Do (Bin Minus (SetV 11 (Bin Minus (V 11) (K (JNum (- 1))))) (K (JNum 1)))], Do (SetV 6 (Meth (V 0) ''Jc'' [])), Loop (Meth (V 6) ''Ob'' []) [Do (SetV 5 (Call ''JD'' [Meth (V 6) ''Pb'' [], K (JNum 220)])), Do (Meth (V 5) ''dg'' [])] []],
    fn ''TBc'' 3 11 [Do (Meth (V 2) ''Tg'' [G ''nCe'', K (JNum 1)]), Do (SetV 11 (Dot (V 1) ''a'')), Do (SetV 10 (Dot (Dot (V 11) ''c'') ''length'')), Do (Put (V 0) ''c'' (New ''lmb'' [])), Do (Put (V 0) ''d'' (Call ''SC'' [G ''Icb'', G ''Nwe'', K (JNum 30), V 10, K (JNum 16), K (JNum 1)])), Do (Put (V 0) ''a'' (Call ''SC'' [G ''Icb'', G ''Nwe'', K (JNum 30), V 10, K (JNum 16), K (JNum 1)])), Do (Put (V 0) ''b'' (New ''lmb'' [])), Do (SetV 6 (K (JNum 0))), Do (SetV 9 (New ''Kmb'' [V 11])), Loop (Bin Lt (Dot (V 9) ''a'') (Dot (Dot (Dot (V 9) ''c'') ''c'') ''length'')) [Do (SetV 8 (Call ''JD'' [Call ''Imb'' [V 9], K (JNum 9)])), Do (Put (V 8) ''p'' (V 6)), Do (And (Call ''ar'' [Call ''EYb'' [V 8]]) (Call ''_lb'' [Dot (V 0) ''c'', V 8])), Do (SetV 6 (Bin Minus (V 6) (K (JNum (- 1)))))] [], Do (SetV 13 (New ''Kmb'' [Dot (V 0) ''c''])), Loop (Bin Lt (Dot (V 13) ''a'') (Dot (Dot (Dot (V 13) ''c'') ''c'') ''length'')) [Do (SetV 12 (Call ''JD'' [Call ''Imb'' [V 13], K (JNum 9)])), Do (Call ''SBc'' [V 0, V 12])] [], Do (SetV 5 (K (JNum 0))), Loop (Bin Lt (V 5) (V 10)) [When (Neg (Idx (Dot (V 0) ''d'') (V 5))) [Do (SetV 7 (Seq (Call ''MDb'' [V 5, Dot (Dot (V 11) ''c'') ''length'']) (Call ''JD'' [Idx (Dot (V 11) ''c'') (V 5), K (JNum 9)]))), Do (Call ''SBc'' [V 0, V 7])] []] [Do (Bin Minus (SetV 5 (Bin Minus (V 5) (K (JNum (- 1))))) (K (JNum 1)))], Do (SetV 4 (New ''Kmb'' [Dot (V 0) ''b''])), Loop (Bin Lt (Dot (V 4) ''a'') (Dot (Dot (Dot (V 4) ''c'') ''c'') ''length'')) [Do (SetV 3 (Call ''JD'' [Call ''Imb'' [V 4], K (JNum 17)])), Do (Call ''BWb'' [V 3, K (JBool True)]), Do (Call ''rNb'' [V 1, Seq (Call ''Wrc'' []) (G ''Tqc''), Seq (Call ''Qdb'' []) (K (JBool True))])] [], Do (Put (V 0) ''c'' (K JNull)), Do (Put (V 0) ''d'' (K JNull)), Do (Put (V 0) ''a'' (K JNull)), Do (Put (V 0) ''b'' (K JNull)), Do (Meth (V 2) ''Ug'' [])],
    fn ''KBc'' 3 11 [Do (Meth (V 2) ''Tg'' [G ''nCe'', K (JNum 1)]), Do (Put (V 0) ''c'' (V 1)), Do (SetV 11 (Dot (V 1) ''a'')), Do (SetV 10 (Dot (Dot (V 11) ''c'') ''length'')), Do (Put (V 0) ''d'' (New ''lmb'' [])), Do (Put (V 0) ''e'' (Call ''SC'' [G ''Icb'', G ''Nwe'', K (JNum 30), V 10, K (JNum 16), K (JNum 1)])), Do (Put (V 0) ''a'' (Call ''SC'' [G ''Icb'', G ''Nwe'', K (JNum 30), V 10, K (JNum 16), K (JNum 1)])), Do (Put (V 0) ''b'' (New ''lmb'' [])), Do (SetV 6 (K (JNum 0))), Do (SetV 9 (New ''Kmb'' [V 11])), Loop (Bin Lt (Dot (V 9) ''a'') (Dot (Dot (Dot (V 9) ''c'') ''c'') ''length'')) [Do (SetV 8 (Call ''JD'' [Call ''Imb'' [V 9], K (JNum 9)])), Do (Put (V 8) ''p'' (V 6)), Do (And (Call ''ar'' [Call ''EYb'' [V 8]]) (Call ''_lb'' [Dot (V 0) ''d'', V 8])), Do (SetV 6 (Bin Minus (V 6) (K (JNum (- 1)))))] [], Do (SetV 13 (New ''Kmb'' [Dot (V 0) ''d''])), Loop (Bin Lt (Dot (V 13) ''a'') (Dot (Dot (Dot (V 13) ''c'') ''c'') ''length'')) [Do (SetV 12 (Call ''JD'' [Call ''Imb'' [V 13], K (JNum 9)])), Do (Call ''IBc'' [V 0, V 12])] [], Do (SetV 5 (K (JNum 0))), Loop (Bin Lt (V 5) (V 10)) [When (Neg (Idx (Dot (V 0) ''e'') (V 5))) [Do (SetV 7 (Seq (Call ''MDb'' [V 5, Dot (Dot (V 11) ''c'') ''length'']) (Call ''JD'' [Idx (Dot (V 11) ''c'') (V 5), K (JNum 9)]))), Do (Call ''IBc'' [V 0, V 7])] []] [Do (Bin Minus (SetV 5 (Bin Minus (V 5) (K (JNum (- 1))))) (K (JNum 1)))], Do (SetV 4 (New ''Kmb'' [Dot (V 0) ''b''])), Loop (Bin Lt (Dot (V 4) ''a'') (Dot (Dot (Dot (V 4) ''c'') ''c'') ''length'')) [Do (SetV 3 (Call ''JD'' [Call ''Imb'' [V 4], K (JNum 17)])), Do (Call ''BWb'' [V 3, K (JBool True)]), Do (Call ''rNb'' [V 1, Seq (Call ''Wrc'' []) (G ''Tqc''), Seq (Call ''Qdb'' []) (K (JBool True))])] [], Do (Put (V 0) ''d'' (K JNull)), Do (Put (V 0) ''e'' (K JNull)), Do (Put (V 0) ''a'' (K JNull)), Do (Put (V 0) ''b'' (K JNull)), Do (Meth (V 2) ''Ug'' [])],
    fn ''iBd'' 2 14 [Do (SetV 14 (Call ''JD'' [Call ''ejb'' [Dot (V 0) ''d'', V 1], K (JNum 149)])), When (Neg (V 14)) [Raise (Call ''Lcb'' [New ''YAd'' [K (JStr ''Edge did not exist in input.'')]])] [], Do (Call ''XBd'' [V 0, V 1]), Do (SetV 11 (Call ''QAd'' [V 14])), Do (SetV 6 (Call ''rte'' [Seq (And (Neg (Dot (V 1) ''a'')) (Put (V 1) ''a'' (New ''P3d'' [G ''P3'', V 1, K (JNum 6), K (JNum 6)]))) (Dot (V 1) ''a'')])), Do (SetV 8 (Neg (V 6))), When (V 8) [Do (SetV 15 (New ''EB'' [])), Do (SetV 3 (New ''CDd'' [V 0, V 11, V 15, V 1])), Do (Call ''pte'' [Seq (And (Neg (Dot (V 1) ''a'')) (Put (V 1) ''a'' (New ''P3d'' [G ''P3'', V 1, K (JNum 6), K (JNum 6)]))) (Dot (V 1) ''a''), V 3]), Do (Call ''kC'' [V 14, G ''xGe'', K JNull]), Do (Call ''kC'' [V 14, G ''xGe'', V 15])] [], Do (SetV 5 (Call ''dvd'' [V 1, Seq (Call ''vjd'' []) (G ''aid'')])), When (V 5) [Do (SetV 12 (Call ''JD'' [Call ''cvd'' [V 1, G ''aid''], K (JNum 79)])), Do (SetV 7 (Or (Neg (V 12)) (Call ''qte'' [V 12]))), Do (SetV 9 (Neg (V 7))), When (V 9) [Do (SetV 13 (New ''EB'' [])), Do (SetV 4 (New ''LDd'' [V 0, V 1, V 13])), Do (Call ''Hfb'' [V 12, V 4]), Do (Call ''kC'' [V 14, K (JStr ''junctionPoints''), V 13])] []] [], Do (SetV 2 (Call ''mBd'' [V 0, Call ''JD'' [Call ''ejb'' [Dot (V 0) ''e'', V 1], K (JNum 26)]])), Do (SetV 10 (Loose (V 2) (Seq (Call ''Qjd'' []) (G ''Mjd'')))), Do (And (V 10) (Call ''OAd'' [V 14, K (JStr ''container''), Dot (Call ''Gwd'' [V 1]) ''k''])), Ret (K JNull)],
    fn ''M1b'' 2 7 [Do (Put (V 0) ''b'' (Call ''Ueb'' [Call ''MD'' [Call ''oNb'' [V 1, Seq (Call ''nyc'' []) (G ''Jxc'')]]])), Do (Put (V 0) ''c'' (Call ''Ueb'' [Call ''MD'' [Call ''oNb'' [V 1, G ''Mxc'']]])), Do (Put (V 0) ''d'' (Call ''JD'' [Call ''oNb'' [V 1, G ''nwc''], K (JNum 349)])), Do (Put (V 0) ''a'' (Call ''JD'' [Call ''oNb'' [V 1, G ''zvc''], K (JNum 283)])), Do (Call ''K1b'' [V 1]), Do (SetV 7 (Call ''JD'' [Call ''SBb'' [Call ''VBb'' [Call ''VBb'' [Call ''XBb'' [Call ''XBb'' [New ''jCb'' [K JNull, New ''Zvb'' [Dot (V 1) ''b'', K (JNum 16)]], New ''Q1b'' []], New ''S1b'' []], New ''U1b'' []], New ''W1b'' []], Call ''BAb'' [New ''TAb'' [], New ''RAb'' [], New ''ZAb'' [], Call ''WC'' [Call ''OC'' [G ''HL'', K (JNum 1)], G ''xue'', K (JNum 130), K (JNum 0), NewArr [Seq (Call ''FAb'' []) (G ''DAb'')]]]], K (JNum 16)])), Do (SetV 4 (Meth (V 7) ''Jc'' [])), Loop (Meth (V 4) ''Ob'' []) [Do (SetV 2 (Call ''JD'' [Meth (V 4) ''Pb'' [], K (JNum 17)])), Do (SetV 6 (Call ''JD'' [Call ''oNb'' [V 2, Seq (Call ''Wrc'' []) (G ''Nrc'')], K (JNum 16)])), Do (Meth (V 6) ''Ic'' [New ''Y1b'' [V 0]]), Do (Call ''rNb'' [V 2, G ''Nrc'', K JNull])] [], Do (SetV 3 (Meth (V 7) ''Jc'' [])), Loop (Meth (V 3) ''Ob'' []) [Do (SetV 2 (Call ''JD'' [Meth (V 3) ''Pb'' [], K (JNum 17)])), Do (SetV 8 (Call ''JD'' [Call ''oNb'' [V 2, Seq (Call ''Wrc'' []) (G ''Orc'')], K (JNum 17)])), Do (SetV 5 (Call ''JD'' [Call ''oNb'' [V 2, G ''Lrc''], K (JNum 16)])), Do (Call ''E1b'' [V 0, V 5, V 8]), Do (Call ''rNb'' [V 2, G ''Lrc'', K JNull])] []],
    fn ''E0d'' 2 7 [When (Dot (V 0) ''a'') [Do (SetV 7 (Meth (Dot (V 0) ''a'') ''ve'' [])), Do (SetV 8 (K JNull)), When (Neg (Loose (V 7) (K JNull))) [Do (Put (V 1) ''a'' (Bin Plus (Dot (V 1) ''a'') (Bin Plus (K (JStr '''')) (V 7))))] [Do (SetV 6 (Meth (Dot (V 0) ''a'') ''kk'' [])), When (Neg (Loose (V 6) (K JNull))) [Do (SetV 5 (Call ''Agb'' [V 6, Call ''Pgb'' [K (JNum 91)]])), When (Neg (Loose (V 5) (K (JNum (- 1))))) [Do (SetV 8 (Seq (Call ''UDb'' [V 5, Bin Plus (Dot (V 6) ''length'') (K (JNum 1))]) (Meth (V 6) ''substr'' [V 5]))), Do (Put (V 1) ''a'' (Bin Plus (Dot (V 1) ''a'') (Bin Plus (K (JStr '''')) (Call ''Jgb'' [Cond (Loose (V 6) (K JNull)) (G ''Kte'') (Seq (Call ''NDb'' [V 6]) (V 6)), K (JNum 0), V 5]))))] [Do (Put (V 1) ''a'' (Bin Plus (Dot (V 1) ''a'') (Bin Plus (K (JStr '''')) (V 6))))]] []], When (And (Neg (Neg (Dot (V 0) ''d''))) (Neg (Loose (Dot (Dot (V 0) ''d'') ''i'') (K (JNum 0))))) [Do (SetV 4 (K (JBool True))), Do (Put (V 1) ''a'' (Bin Plus (Dot (V 1) ''a'') (K (JStr ''<'')))), Do (SetV 3 (New ''uKd'' [Dot (V 0) ''d''])), Loop (Neg (Loose (Dot (V 3) ''e'') (Meth (Dot (V 3) ''i'') ''gc'' []))) [Do (SetV 2 (Call ''JD'' [Call ''sKd'' [V 3], K (JNum 87)])), Do (Cond (V 4) (SetV 4 (K (JBool False))) (Seq (Put (V 1) ''a'' (Bin Plus (Dot (V 1) ''a'') (G ''Ete''))) (V 1))), Do (Call ''E0d'' [V 2, V 1])] [], Do (Put (V 1) ''a'' (Bin Plus (Dot (V 1) ''a'') (K (JStr ''>''))))] [], Do (And (Neg (Loose (V 8) (K JNull))) (Seq (Put (V 1) ''a'' (Bin Plus (Dot (V 1) ''a'') (Bin Plus (K (JStr '''')) (V 8)))) (V 1)))] [When (Dot (V 0) ''e'') [Do (SetV 7 (Dot (Dot (V 0) ''e'') ''zb'')), Do (And (Neg (Loose (V 7) (K JNull))) (Seq (Put (V 1) ''a'' (Bin Plus (Dot (V 1) ''a'') (Bin Plus (K (JStr '''')) (V 7)))) (V 1)))] [Do (Put (V 1) ''a'' (Bin Plus (Dot (V 1) ''a'') (K (JStr ''?'')))), When (Dot (V 0) ''b'') [Do (Put (V 1) ''a'' (Bin Plus (Dot (V 1) ''a'') (K (JStr '' super '')))), Do (Call ''E0d'' [Dot (V 0) ''b'', V 1])] [When (Dot (V 0) ''f'') [Do (Put (V 1) ''a'' (Bin Plus (Dot (V 1) ''a'') (K (JStr '' extends '')))), Do (Call ''E0d'' [Dot (V 0) ''f'', V 1])] []]]]],
    fn ''f9d'' 1 0 [Do (Put (V 0) ''b'' (K JNull)), Do (Put (V 0) ''a'' (K JNull)), Do (Put (V 0) ''o'' (K JNull)), Do (Put (V 0) ''q'' (K JNull)), Do (Put (V 0) ''v'' (K JNull)), Do (Put (V 0) ''w'' (K JNull)), Do (Put (V 0) ''B'' (K JNull)), Do (Put (V 0) ''p'' (K JNull)), Do (Put (V 0) ''Q'' (K JNull)), Do (Put (V 0) ''R'' (K JNull)), Do (Put (V 0) ''S'' (K JNull)), Do (Put (V 0) ''T'' (K JNull)), Do (Put (V 0) ''U'' (K JNull)), Do (Put (V 0) ''V'' (K JNull)), Do (Put (V 0) ''W'' (K JNull)), Do (Put (V 0) ''bb'' (K JNull)), Do (Put (V 0) ''eb'' (K JNull)), Do (Put (V 0) ''ab'' (K JNull)), Do (Put (V 0) ''H'' (K JNull)), Do (Put (V 0) ''db'' (K JNull)), Do (Put (V 0) ''c'' (K JNull)), Do (Put (V 0) ''d'' (K JNull)), Do (Put (V 0) ''f'' (K JNull)), Do (Put (V 0) ''n'' (K JNull)), Do (Put (V 0) ''r'' (K JNull)), Do (Put (V 0) ''s'' (K JNull)), Do (Put (V 0) ''u'' (K JNull)), Do (Put (V 0) ''G'' (K JNull)), Do (Put (V 0) ''J'' (K JNull)), Do (Put (V 0) ''e'' (K JNull)), Do (Put (V 0) ''j'' (K JNull)), Do (Put (V 0) ''i'' (K JNull)), Do (Put (V 0) ''g'' (K JNull)), Do (Put (V 0) ''k'' (K JNull)), Do (Put (V 0) ''t'' (K JNull)), Do (Put (V 0) ''F'' (K JNull)), Do (Put (V 0) ''I'' (K JNull)), Do (Put (V 0) ''L'' (K JNull)), Do (Put (V 0) ''M'' (K JNull)), Do (Put (V 0) ''O'' (K JNull)), Do (Put (V 0) ''P'' (K JNull)), Do (Put (V 0) ''$'' (K JNull)), Do (Put (V 0) ''N'' (K JNull)), Do (Put (V 0) ''Z'' (K JNull)), Do (Put (V 0) ''cb'' (K JNull)), Do (Put (V 0) ''K'' (K JNull)), Do (Put (V 0) ''D'' (K JNull)), Do (Put (V 0) ''A'' (K JNull)), Do (Put (V 0) ''C'' (K JNull)), Do (Put (V 0) ''_'' (K JNull)), Do (Put (V 0) ''fb'' (K JNull)), Do (Put (V 0) ''X'' (K JNull)), Do (Put (V 0) ''Y'' (K JNull)), Do (Put (V 0) ''gb'' (K (JBool False))), Do (Put (V 0) ''hb'' (K (JBool False)))],
    fn ''Ihb'' 1 4 [Do (SetV 3 (Call ''Kib'' [Seq (And (Neg (Dot (V 0) ''c'')) (Put (V 0) ''c'' (Call ''yib'' [Call ''Scb'' [Dot (V 0) ''f'']]))) (Dot (V 0) ''c''), K (JNum 0)])), When (Or (Loose (Dot (V 0) ''e'') (K (JNum 0))) (And (And (Loose (Dot (V 0) ''a'') (K (JNum 0))) (Neg (Loose (Dot (V 0) ''f'') (K (JNum (- 1)))))) (Bin Lt (Dot (V 0) ''e'') (K (JNum 0))))) [Ret (V 3)] [], Do (SetV 1 (Cond (Bin Lt (Call ''Hhb'' [V 0]) (K (JNum 0))) (K (JNum 1)) (K (JNum 0)))), Do (SetV 2 (Dot (V 0) ''e'')), Do (SetV 4 (Seq (Bin Plus (Bin Plus (Dot (V 3) ''length'') (K (JNum 1))) (Meth (Dot (G ''$wnd'') ''Math'') ''abs'' [Call ''YD'' [Dot (V 0) ''e'']])) (New ''mhb'' []))), Do (And (Loose (V 1) (K (JNum 1))) (Seq (Put (V 4) ''a'' (Bin Plus (Dot (V 4) ''a'') (K (JStr ''-'')))) (V 4))), When (Bin Gt (Dot (V 0) ''e'') (K (JNum 0))) [Do (SetV 2 (Bin Minus (V 2) (Bin Minus (Dot (V 3) ''length'') (V 1)))), When (Bin Ge (V 2) (K (JNum 0))) [Do (Put (V 4) ''a'' (Bin Plus (Dot (V 4) ''a'') (K (JStr ''0.'')))), Loop (Bin Gt (V 2) (Dot (G ''whb'') ''length'')) [Do (Call ''ihb'' [V 4, G ''whb''])] [Do (SetV 2 (Bin Minus (V 2) (Dot (G ''whb'') ''length'')))], Do (Call ''jhb'' [V 4, G ''whb'', Call ''YD'' [V 2]]), Do (Call ''hhb'' [V 4, Seq (Call ''UDb'' [V 1, Bin Plus (Dot (V 3) ''length'') (K (JNum 1))]) (Meth (V 3) ''substr'' [V 1])])] [Do (SetV 2 (Bin Minus (V 1) (V 2))), Do (Call ''hhb'' [V 4, Call ''Jgb'' [V 3, V 1, Call ''YD'' [V 2]]]), Do (Put (V 4) ''a'' (Bin Plus (Dot (V 4) ''a'') (K (JStr ''.'')))), Do (Call ''hhb'' [V 4, Call ''Igb'' [V 3, Call ''YD'' [V 2]]])]] [Do (Call ''hhb'' [V 4, Seq (Call ''UDb'' [V 1, Bin Plus (Dot (V 3) ''length'') (K (JNum 1))]) (Meth (V 3) ''substr'' [V 1])]), Loop (Bin Lt (V 2) (Minus1 (Dot (G ''whb'') ''length''))) [Do (Call ''ihb'' [V 4, G ''whb''])] [Do (SetV 2 (Bin Plus (V 2) (Dot (G ''whb'') ''length'')))], Do (Call ''jhb'' [V 4, G ''whb'', Call ''YD'' [Minus1 (V 2)]])], Ret (Dot (V 4) ''a'')],
    fn ''kLc'' 1 9 [When (Neg (Loose (Dot (V 0) ''k'') (Seq (Call ''$Yb'' []) (G ''XYb'')))) [Ret (K (JBool False))] [], When (Bin Le (Dot (Dot (Dot (V 0) ''j'') ''c'') ''length'') (K (JNum 1))) [Ret (K (JBool False))] [], Do (SetV 5 (Call ''JD'' [Call ''oNb'' [V 0, Seq (Call ''nyc'' []) (G ''qxc'')], K (JNum 102)])), When (Loose (V 5) (Seq (Call ''Mld'' []) (G ''Hld''))) [Ret (K (JBool False))] [], Do (SetV 4 (Seq (Seq (Call ''lzc'' []) (Cond (Meth (Cond (Neg (Dot (V 0) ''q'')) (Seq (Seq (Call ''Inb'' []) (Call ''Inb'' [])) (G ''Gnb'')) (Dot (V 0) ''q'')) ''_b'' [G ''Ywc'']) (SetV 3 (Call ''JD'' [Call ''oNb'' [V 0, G ''Ywc''], K (JNum 203)])) (SetV 3 (Call ''JD'' [Call ''oNb'' [Call ''DYb'' [V 0], G ''Zwc''], K (JNum 203)])))) (V 3))), When (Loose (V 4) (G ''jzc'')) [Ret (K (JBool False))] [], When (Neg (Or (Loose (V 4) (G ''izc'')) (Loose (V 4) (G ''hzc'')))) [Do (SetV 6 (Call ''Ueb'' [Call ''MD'' [Call ''YAc'' [V 0, G ''Wxc'']]])), Do (SetV 1 (Call ''JD'' [Call ''oNb'' [V 0, G ''Vxc''], K (JNum 140)])), Do (And (Neg (V 1)) (SetV 1 (New ''wYb'' [V 6, V 6, V 6, V 6]))), Do (SetV 9 (Call ''IYb'' [V 0, Seq (Call ''Bmd'' []) (G ''Amd'')])), Do (SetV 8 (Bin Plus (Bin Plus (Dot (V 1) ''d'') (Dot (V 1) ''a'')) (Bin Times (Bin Minus (Meth (V 9) ''gc'' []) (K (JNum 1))) (V 6)))), When (Bin Gt (V 8) (Dot (Dot (V 0) ''o'') ''b'')) [Ret (K (JBool False))] [], Do (SetV 2 (Call ''IYb'' [V 0, G ''gmd''])), Do (SetV 7 (Bin Plus (Bin Plus (Dot (V 1) ''d'') (Dot (V 1) ''a'')) (Bin Times (Bin Minus (Meth (V 2) ''gc'' []) (K (JNum 1))) (V 6)))), When (Bin Gt (V 7) (Dot (Dot (V 0) ''o'') ''b'')) [Ret (K (JBool False))] []] [], Ret (K (JBool True))],
    fn ''EOc'' 2 15 [Do (Meth (V 1) ''Tg'' [K (JStr ''Orthogonal edge routing''), K (JNum 1)]), Do (SetV 9 (Call ''Ueb'' [Call ''MD'' [Call ''oNb'' [V 0, Seq (Call ''nyc'' []) (G ''Txc'')]]])), Do (SetV 2 (Call ''Ueb'' [Call ''MD'' [Call ''oNb'' [V 0, G ''Jxc'']]])), Do (SetV 3 (Call ''Ueb'' [Call ''MD'' [Call ''oNb'' [V 0, G ''Mxc'']]])), Do (SetV 12 (New ''CQc'' [K (JNum 0), V 2])), Do (SetV 16 (K (JNum 0))), Do (SetV 6 (New ''Tjb'' [Dot (V 0) ''b'', K (JNum 0)])), Do (SetV 7 (K JNull)), Do (SetV 10 (K JNull)), Do (SetV 8 (K JNull)), Do (SetV 11 (K JNull)), Loop (K (JBool True)) [Do (SetV 10 (Cond (Bin Lt (Dot (V 6) ''b'') (Meth (Dot (V 6) ''d'') ''gc'' [])) (Seq (Call ''LDb'' [Bin Lt (Dot (V 6) ''b'') (Meth (Dot (V 6) ''d'') ''gc'' [])]) (Call ''JD'' [Meth (Dot (V 6) ''d'') ''Xb'' [Put (V 6) ''c'' (Bin Minus (Put (V 6) ''b'' (Bin Minus (Dot (V 6) ''b'') (K (JNum (- 1))))) (K (JNum 1)))], K (JNum 25)])) (K JNull))), Do (SetV 11 (Cond (Neg (V 10)) (K JNull) (Dot (V 10) ''a''))), When (V 7) [Do (Call ''WXb'' [V 7, V 16]), Do (SetV 16 (Bin Plus (V 16) (Dot (Dot (V 7) ''c'') ''a'')))] [], Do (SetV 15 (Cond (Neg (V 7)) (V 16) (Bin Plus (V 16) (V 3)))), Do (SetV 14 (Call ''BQc'' [V 12, V 0, V 8, V 11, V 15])), Do (SetV 4 (Or (Neg (V 7)) (Call ''Wq'' [V 8, Seq (Call ''OOc'' []) (G ''MOc'')]))), Do (SetV 5 (Or (Neg (V 10)) (Call ''Wq'' [V 11, Seq (Call ''OOc'' []) (G ''MOc'')]))), When (Bin Gt (V 14) (K (JNum 0))) [Do (SetV 13 (Bin Times (Bin Minus (V 14) (K (JNum 1))) (V 2))), Do (And (Neg (Neg (V 7))) (SetV 13 (Bin Plus (V 13) (V 3)))), Do (And (Neg (Neg (V 10))) (SetV 13 (Bin Plus (V 13) (V 3)))), Do (And (And (And (Bin Lt (V 13) (V 9)) (Neg (V 4))) (Neg (V 5))) (SetV 13 (V 9))), Do (SetV 16 (Bin Plus (V 16) (V 13)))] [Do (And (And (Neg (V 4)) (Neg (V 5))) (SetV 16 (Bin Plus (V 16) (V 9))))], Do (SetV 7 (V 10)), Do (SetV 8 (V 11))] [When (V 10) [] [Break]], Do (Put (Dot (V 0) ''f'') ''a'' (V 16)), Do (Meth (V 1) ''Ug'' [])]]"

definition object_table26 :: "(string \<times> jfun) list" where
  "object_table26 = code_5907_5919 @ code_5925_5930 @ code_5932_5933 @ code_5935_5944 @ code_5946_5950 @ code_5952_5963 @ code_5964_5975"

text \<open>The names each table declares.\<close>

lemma names_5907_5919 [js_names]: "map fst code_5907_5919 = [
    ''xee'', ''iie'', ''H3b'', ''d6b'', ''c6b'', ''ajb'', ''e3b'', ''Yfc'', ''ePc'', ''E7b'',
    ''GNc'', ''w9b'', ''ydd'']"
  by (simp add: code_5907_5919_def fn_def)

lemma names_5925_5930 [js_names]: "map fst code_5925_5930 = [
    ''Ujc'', ''OGc'', ''PGc'', ''sQb'', ''K2b'', ''tNc'']"
  by (simp add: code_5925_5930_def fn_def)

lemma names_5932_5933 [js_names]: "map fst code_5932_5933 = [
    ''O6c'', ''S$b'']"
  by (simp add: code_5932_5933_def fn_def)

lemma names_5935_5944 [js_names]: "map fst code_5935_5944 = [
    ''U_b'', ''nee'', ''$4c'', ''gHd'', ''vee'', ''xmc'', ''uee'', ''Hib'', ''Qib'', ''P$b'']"
  by (simp add: code_5935_5944_def fn_def)

lemma names_5946_5950 [js_names]: "map fst code_5946_5950 = [
    ''cIc'', ''v2c'', ''Hre'', ''V3b'', ''J6c'']"
  by (simp add: code_5946_5950_def fn_def)

lemma names_5952_5963 [js_names]: "map fst code_5952_5963 = [
    ''c7b'', ''J_c'', ''Z2c'', ''wKc'', ''yQc'', ''$Tc'', ''NXb'', ''zRb'', ''SMc'', ''k9c'',
    ''Jkc'', ''hOc'']"
  by (simp add: code_5952_5963_def fn_def)

lemma names_5964_5975 [js_names]: "map fst code_5964_5975 = [
    ''dee'', ''See'', ''hKc'', ''TBc'', ''KBc'', ''iBd'', ''M1b'', ''E0d'', ''f9d'', ''Ihb'',
    ''kLc'', ''EOc'']"
  by (simp add: code_5964_5975_def fn_def)

end
