(* ===== verification/ObjectTable27.thy ===== *)
theory ObjectTable27
  imports ObjectCode
begin

text \<open>
  Functions of \<open>layout-worker.js\<close>, lines 5976 to 6026, in the order of the file, one per line:
  the algorithms of the layout engine, longer operations of the runtime's collections and of options,
  with their loops, \<open>switch\<close> and \<open>try\<close> statements. An entry has the name, the
  number of parameters, the number of further local variables and the body; parameters and locals
  are numbered from 0, the variable of a \<open>catch\<close> has a number of its own, \<open>x++\<close> is \<open>(x=x+1)-1\<close>. Lines
  with a construct outside \<open>jexp\<close> and \<open>jstm\<close> (closures, \<open>in\<close>, floating-point literals, host objects) are
  left out.
\<close>

definition code_5976_5987 :: "(string \<times> jfun) list" where
  "code_5976_5987 = [
    fn ''Gde'' 2 10 [Do (SetV 10 (K JNull)), Do (And (Neg (Neg (Dot (V 0) ''d''))) (SetV 10 (Call ''JD'' [Call ''fjb'' [Dot (V 0) ''d'', V 1], K (JNum 143)]))), When (Neg (V 10)) [Do (SetV 5 (Meth (Dot (V 0) ''a'') ''si'' [])), Do (SetV 11 (Dot (V 5) ''i'')), When (Or (Neg (Dot (V 0) ''d'')) (Neg (Loose (Call ''ljb'' [Dot (V 0) ''d'']) (V 11)))) [Do (SetV 8 (New ''_rb'' [])), Do (And (Neg (Neg (Dot (V 0) ''d''))) (Call ''Ld'' [V 8, Dot (V 0) ''d''])), Do (SetV 9 (Bin Plus (Dot (Dot (V 8) ''f'') ''c'') (Dot (Dot (V 8) ''i'') ''c''))), Do (SetV 7 (V 9)), Loop (Bin Lt (V 7) (V 11)) [Do (SetV 3 (Call ''JD'' [Call ''fGd'' [V 5, V 7], K (JNum 143)])), Do (SetV 4 (Meth (Call ''_ce'' [Dot (V 0) ''e'', V 3]) ''ve'' [])), Do (SetV 2 (Call ''JD'' [Cond (Loose (V 4) (K JNull)) (Call ''zsb'' [Dot (V 8) ''f'', K JNull, V 3]) (Call ''Tsb'' [Dot (V 8) ''i'', V 4, V 3]), K (JNum 143)])), Do (And (And (Neg (Neg (V 2))) (Neg (Loose (V 2) (V 3)))) (Cond (Loose (V 4) (K JNull)) (Call ''zsb'' [Dot (V 8) ''f'', K JNull, V 2]) (Call ''Tsb'' [Dot (V 8) ''i'', V 4, V 2])))] [Do (SetV 7 (Bin Minus (V 7) (K (JNum (- 1)))))], When (Neg (Loose (Bin Plus (Dot (Dot (V 8) ''f'') ''c'') (Dot (Dot (V 8) ''i'') ''c'')) (V 11))) [Do (SetV 6 (K (JNum 0))), Loop (Bin Lt (V 6) (V 9)) [Do (SetV 3 (Call ''JD'' [Call ''fGd'' [V 5, V 6], K (JNum 143)])), Do (SetV 4 (Meth (Call ''_ce'' [Dot (V 0) ''e'', V 3]) ''ve'' [])), Do (SetV 2 (Call ''JD'' [Cond (Loose (V 4) (K JNull)) (Call ''zsb'' [Dot (V 8) ''f'', K JNull, V 3]) (Call ''Tsb'' [Dot (V 8) ''i'', V 4, V 3]), K (JNum 143)])), Do (And (And (Neg (Neg (V 2))) (Neg (Loose (V 2) (V 3)))) (Cond (Loose (V 4) (K JNull)) (Call ''zsb'' [Dot (V 8) ''f'', K JNull, V 2]) (Call ''Tsb'' [Dot (V 8) ''i'', V 4, V 2])))] [Do (SetV 6 (Bin Minus (V 6) (K (JNum (- 1)))))]] [], Do (Put (V 0) ''d'' (V 8))] [], Do (SetV 10 (Call ''JD'' [Call ''fjb'' [Dot (V 0) ''d'', V 1], K (JNum 143)]))] [], Ret (V 10)],
    fn ''aWb'' 7 7 [Do (SetV 11 (Call ''Rdb'' [Call ''LD'' [Call ''oNb'' [V 1, Seq (Call ''nyc'' []) (G ''Rwc'')]]])), Do (SetV 12 (K JNull)), Do (Cond (And (Loose (V 5) (Seq (Call ''qAc'' []) (G ''nAc''))) (Loose (Dot (Dot (V 3) ''c'') ''i'') (V 2))) (SetV 12 (Dot (V 3) ''c'')) (And (And (Loose (V 5) (G ''oAc'')) (Loose (Dot (Dot (V 3) ''d'') ''i'') (V 2))) (SetV 12 (Dot (V 3) ''d'')))), Do (SetV 9 (V 6)), When (Or (Or (Neg (V 9)) (Neg (V 11))) (Neg (Neg (V 12)))) [Do (SetV 10 (Seq (Call ''Bmd'' []) (G ''zmd''))), Do (Cond (V 12) (SetV 10 (Dot (V 12) ''j'')) (And (Call ''Old'' [Call ''JD'' [Call ''oNb'' [V 2, G ''qxc''], K (JNum 102)]]) (SetV 10 (Cond (Loose (V 5) (G ''nAc'')) (G ''Amd'') (G ''gmd''))))), Do (SetV 8 (Call ''ZVb'' [V 0, V 1, V 2, V 5, V 10, V 3])), Do (SetV 7 (Call ''YVb'' [Seq (Call ''DYb'' [V 2]) (V 3)])), When (Loose (V 5) (G ''nAc'')) [Do (Call ''CWb'' [V 7, Call ''JD'' [Call ''dmb'' [Dot (V 8) ''j'', K (JNum 0)], K (JNum 12)]]), Do (Call ''DWb'' [V 7, V 4])] [Do (Call ''CWb'' [V 7, V 4]), Do (Call ''DWb'' [V 7, Call ''JD'' [Call ''dmb'' [Dot (V 8) ''j'', K (JNum 0)], K (JNum 12)]])], Do (SetV 9 (New ''kWb'' [V 3, V 7, V 8, Call ''JD'' [Call ''oNb'' [V 8, Seq (Call ''Wrc'' []) (G ''urc'')], K (JNum 12)], V 5, Neg (V 12)]))] [Do (Call ''_lb'' [Dot (V 9) ''e'', V 3]), Do (SetV 13 (Meth (Dot (G ''$wnd'') ''Math'') ''max'' [Call ''Ueb'' [Call ''MD'' [Call ''oNb'' [Dot (V 9) ''d'', G ''pwc'']]], Call ''Ueb'' [Call ''MD'' [Call ''oNb'' [V 3, G ''pwc'']]]])), Do (Call ''rNb'' [Dot (V 9) ''d'', G ''pwc'', V 13])], Do (Call ''Rc'' [Dot (V 0) ''a'', V 3, New ''nWb'' [Dot (V 9) ''d'', V 1, V 5]]), Ret (V 9)],
    fn ''tQd'' 0 1 [Do (SetG ''tQd'' (G ''qdb'')), Do (SetG ''sQd'' (New ''ZQd'' [])), Do (SetG ''mQd'' (Call ''SC'' [G ''hJ'', G ''aue'', K (JNum 2), K (JNum 0), K (JNum 6), K (JNum 1)])), Do (SetG ''fQd'' (Call ''_cb'' [Call ''KQd'' [K (JNum 33), K (JNum 58)], Call ''KQd'' [K (JNum 1), K (JNum 26)]])), Do (SetG ''gQd'' (Call ''_cb'' [Call ''KQd'' [K (JNum 97), K (JNum 122)], Call ''KQd'' [K (JNum 65), K (JNum 90)]])), Do (SetG ''hQd'' (Call ''KQd'' [K (JNum 48), K (JNum 57)])), Do (SetG ''dQd'' (Call ''_cb'' [G ''fQd'', K (JNum 0)])), Do (SetG ''eQd'' (Call ''_cb'' [G ''gQd'', G ''hQd''])), Do (SetG ''iQd'' (Call ''_cb'' [Call ''_cb'' [K (JNum 0), Call ''KQd'' [K (JNum 1), K (JNum 6)]], Call ''KQd'' [K (JNum 33), K (JNum 38)]])), Do (SetG ''jQd'' (Call ''_cb'' [Call ''_cb'' [G ''hQd'', Call ''KQd'' [K (JNum 65), K (JNum 70)]], Call ''KQd'' [K (JNum 97), K (JNum 102)]])), Do (SetG ''pQd'' (Call ''_cb'' [G ''dQd'', Call ''IQd'' [K (JStr (''-_.!~*'' @ CHR 0x27 # ''()''))]])), Do (SetG ''qQd'' (Call ''_cb'' [G ''eQd'', Call ''LQd'' [K (JStr (''-_.!~*'' @ CHR 0x27 # ''()''))]])), Do (Call ''IQd'' [G ''XHe'']), Do (Call ''LQd'' [G ''XHe'']), Do (Call ''_cb'' [G ''pQd'', Call ''IQd'' [K (JStr '';:@&=+$,'')]]), Do (Call ''_cb'' [G ''qQd'', Call ''LQd'' [K (JStr '';:@&=+$,'')]]), Do (SetG ''kQd'' (Call ''IQd'' [K (JStr '':/?#'')])), Do (SetG ''lQd'' (Call ''LQd'' [K (JStr '':/?#'')])), Do (SetG ''nQd'' (Call ''IQd'' [K (JStr ''/?#'')])), Do (SetG ''oQd'' (Call ''LQd'' [K (JStr ''/?#'')])), Do (SetV 0 (New ''hsb'' [])), Do (Meth (Dot (V 0) ''a'') ''yc'' [K (JStr ''jar''), V 0]), Do (Meth (Dot (V 0) ''a'') ''yc'' [K (JStr ''zip''), V 0]), Do (Meth (Dot (V 0) ''a'') ''yc'' [K (JStr ''archive''), V 0]), Do (SetG ''rQd'' (Seq (Call ''Inb'' []) (New ''Tpb'' [V 0])))],
    fn ''ZVb'' 6 6 [Do (SetV 6 (K JNull)), Do (SetV 9 (Cond (Loose (V 3) (Seq (Call ''qAc'' []) (G ''nAc''))) (Dot (V 5) ''c'') (Dot (V 5) ''d''))), Do (SetV 8 (Call ''PXb'' [V 1])), When (Loose (Dot (V 9) ''i'') (V 2)) [Do (SetV 6 (Call ''JD'' [Call ''ejb'' [Dot (V 0) ''b'', V 9], K (JNum 9)])), When (Neg (V 6)) [Do (SetV 6 (Call ''MXb'' [V 9, Call ''JD'' [Call ''oNb'' [V 2, Seq (Call ''nyc'' []) (G ''qxc'')], K (JNum 102)], V 4, Call ''VVb'' [V 9], K JNull, Dot (V 9) ''n'', Dot (V 9) ''o'', V 8, V 1])), Do (Call ''rNb'' [V 6, Seq (Call ''Wrc'' []) (G ''urc''), V 9]), Do (Call ''hjb'' [Dot (V 0) ''b'', V 9, V 6])] []] [Do (SetV 6 (Call ''MXb'' [Seq (Seq (Seq (SetV 10 (New ''sNb'' [])) (SetV 11 (Bin Divide (Call ''Ueb'' [Call ''MD'' [Call ''oNb'' [V 1, Seq (Call ''nyc'' []) (G ''Ixc'')]]]) (K (JNum 2))))) (Call ''qNb'' [V 10, G ''pxc'', V 11])) (V 10), Call ''JD'' [Call ''oNb'' [V 2, G ''qxc''], K (JNum 102)], V 4, Cond (Loose (V 3) (G ''nAc'')) (K (JNum (- 1))) (K (JNum 1)), K JNull, New ''jgd'' [], New ''lgd'' [K (JNum 0), K (JNum 0)], V 8, V 1])), Do (SetV 7 (Call ''$Vb'' [V 6, V 2, V 3])), Do (Call ''rNb'' [V 6, Seq (Call ''Wrc'' []) (G ''urc''), V 7]), Do (Call ''hjb'' [Dot (V 0) ''b'', V 7, V 6])], Do (Meth (Call ''JD'' [Call ''oNb'' [V 1, Seq (Call ''Wrc'' []) (G ''brc'')], K (JNum 22)]) ''Ec'' [Seq (Call ''Xpc'' []) (G ''Qpc'')]), Do (Cond (Call ''Old'' [Call ''JD'' [Call ''oNb'' [V 1, Seq (Call ''nyc'' []) (G ''qxc'')], K (JNum 102)]]) (Call ''rNb'' [V 1, G ''qxc'', Seq (Call ''Mld'' []) (G ''Jld'')]) (Call ''rNb'' [V 1, G ''qxc'', Seq (Call ''Mld'' []) (G ''Kld'')])), Ret (V 6)],
    fn ''R8b'' 2 13 [Do (SetV 7 (K (JNum 0))), Do (SetV 14 (K (JNum 0))), Do (SetV 8 (Call ''Pmb'' [Dot (V 0) ''g'', Dot (Dot (V 0) ''g'') ''length''])), Do (SetV 5 (Dot (V 0) ''e'')), Do (SetV 6 (Dot (V 0) ''j'')), Do (SetV 3 (Dot (V 0) ''b'')), Do (SetV 4 (Dot (V 0) ''c'')), Loop (K (JBool True)) [Do (SetV 13 (K (JNum 0))), Do (SetV 10 (New ''Kmb'' [Dot (V 0) ''q''])), Loop (Bin Lt (Dot (V 10) ''a'') (Dot (Dot (Dot (V 10) ''c'') ''c'') ''length'')) [Do (SetV 9 (Call ''JD'' [Call ''Imb'' [V 10], K (JNum 9)])), Do (SetV 12 (Call ''P8b'' [V 0, V 9])), Do (SetV 2 (K (JBool True))), Do (And (Or (Loose (Dot (V 0) ''r'') (Seq (Call ''Rzc'' []) (G ''Kzc''))) (Loose (Dot (V 0) ''r'') (G ''Nzc''))) (SetV 2 (Call ''Rdb'' [Call ''LD'' [Dot (V 12) ''b'']]))), When (And (Bin Lt (Dot (Call ''JD'' [Dot (V 12) ''a'', K (JNum 15)]) ''a'') (K (JNum 0))) (V 2)) [Do (SetV 13 (Bin Minus (V 13) (K (JNum (- 1))))), Do (SetV 8 (Call ''Pmb'' [Dot (V 0) ''g'', Dot (Dot (V 0) ''g'') ''length''])), Do (Put (V 0) ''e'' (Bin Plus (Dot (V 0) ''e'') (Dot (Call ''JD'' [Dot (V 12) ''a'', K (JNum 15)]) ''a''))), Do (SetV 14 (Bin Plus (V 14) (Bin Minus (V 5) (Dot (V 0) ''e'')))), Do (SetV 5 (Bin Plus (Dot (V 0) ''e'') (Dot (Call ''JD'' [Dot (V 12) ''a'', K (JNum 15)]) ''a''))), Do (SetV 6 (Dot (V 0) ''j'')), Do (SetV 3 (Call ''Uu'' [Dot (V 0) ''b''])), Do (SetV 4 (Call ''Uu'' [Dot (V 0) ''c'']))] [Do (Put (V 0) ''g'' (Call ''Pmb'' [V 8, Dot (V 8) ''length''])), Do (Put (V 0) ''e'' (V 5)), Do (Put (V 0) ''b'' (Seq (Call ''Qb'' [V 3]) (Cond (V 3) (New ''nmb'' [V 3]) (Call ''Vu'' [New ''Kmb'' [V 3]])))), Do (Put (V 0) ''c'' (Seq (Call ''Qb'' [V 4]) (Cond (V 4) (New ''nmb'' [V 4]) (Call ''Vu'' [New ''Kmb'' [V 4]])))), Do (Put (V 0) ''j'' (V 6))]] [], Do (SetV 7 (Bin Minus (V 7) (K (JNum (- 1))))), Do (SetV 11 (And (Neg (Loose (V 13) (K (JNum 0)))) (Call ''Rdb'' [Call ''LD'' [Meth (V 1) ''Kb'' [New ''prd'' [Call ''Cfb'' [V 14], Call ''Cfb'' [V 7]]]]])))] [When (V 11) [] [Break]]],
    fn ''_4c'' 4 22 [Do (SetV 6 (Dot (V 0) ''f'')), Do (SetV 12 (Dot (V 1) ''f'')), Do (SetV 7 (Or (Loose (V 6) (Seq (Call ''o7c'' []) (G ''j7c''))) (Loose (V 6) (G ''l7c'')))), Do (SetV 13 (Or (Loose (V 12) (G ''j7c'')) (Loose (V 12) (G ''l7c'')))), Do (SetV 8 (Or (Loose (V 6) (G ''k7c'')) (Loose (V 6) (G ''m7c'')))), Do (SetV 14 (Or (Loose (V 12) (G ''k7c'')) (Loose (V 12) (G ''m7c'')))), Do (SetV 9 (Or (Loose (V 6) (G ''k7c'')) (Loose (V 6) (G ''j7c'')))), Do (SetV 15 (Or (Loose (V 12) (G ''k7c'')) (Loose (V 12) (G ''j7c'')))), When (And (V 7) (V 13)) [Ret (Cond (Loose (Dot (V 0) ''f'') (G ''l7c'')) (V 0) (V 1))] [When (And (V 8) (V 14)) [Ret (Cond (Loose (Dot (V 0) ''f'') (G ''m7c'')) (V 0) (V 1))] [When (And (V 9) (V 15)) [When (Loose (V 6) (G ''k7c'')) [Do (SetV 11 (V 0)), Do (SetV 10 (V 1))] [Do (SetV 11 (V 1)), Do (SetV 10 (V 0))], Do (SetV 5 (Seq (Seq (Seq (Seq (Seq (SetV 16 (Bin Plus (Dot (V 2) ''j'') (Dot (V 2) ''f''))) (SetV 17 (Bin Plus (Dot (V 11) ''e'') (Dot (V 3) ''f'')))) (SetV 18 (Meth (Dot (G ''$wnd'') ''Math'') ''max'' [V 16, V 17]))) (SetV 19 (Bin Minus (V 18) (Meth (Dot (G ''$wnd'') ''Math'') ''min'' [Dot (V 2) ''j'', Dot (V 11) ''e''])))) (SetV 20 (Bin Minus (Bin Plus (Dot (V 11) ''d'') (Dot (V 3) ''g'')) (Dot (V 2) ''i'')))) (Bin Times (V 20) (V 19)))), Do (SetV 4 (Seq (Seq (Seq (Seq (Seq (SetV 21 (Bin Plus (Dot (V 2) ''i'') (Dot (V 2) ''g''))) (SetV 22 (Bin Plus (Dot (V 10) ''d'') (Dot (V 3) ''g'')))) (SetV 23 (Meth (Dot (G ''$wnd'') ''Math'') ''max'' [V 21, V 22]))) (SetV 24 (Bin Minus (V 23) (Meth (Dot (G ''$wnd'') ''Math'') ''min'' [Dot (V 2) ''i'', Dot (V 10) ''d''])))) (SetV 25 (Bin Minus (Bin Plus (Dot (V 10) ''e'') (Dot (V 3) ''f'')) (Dot (V 2) ''j'')))) (Bin Times (V 24) (V 25)))), Ret (Cond (Bin Le (V 5) (V 4)) (Cond (Loose (Dot (V 0) ''f'') (G ''k7c'')) (V 0) (V 1)) (Cond (Loose (Dot (V 0) ''f'') (G ''j7c'')) (V 0) (V 1)))] []]], Ret (V 0)],
    fn ''cZc'' 2 10 [Do (Call ''rNb'' [V 1, Seq (Call ''_Wc'' []) (G ''RWc''), K (JNum 0)]), Do (SetV 8 (Call ''JD'' [Call ''oNb'' [V 1, G ''NWc''], K (JNum 40)])), When (Loose (Dot (Dot (V 1) ''d'') ''b'') (K (JNum 0))) [When (V 8) [Do (SetV 10 (Bin Plus (Bin Plus (Call ''Ueb'' [Call ''MD'' [Call ''oNb'' [V 8, G ''UWc'']]]) (Dot (V 0) ''b'')) (Call ''dZc'' [V 0, V 8, V 1]))), Do (Call ''rNb'' [V 1, G ''UWc'', V 10])] [Do (Call ''rNb'' [V 1, G ''UWc'', K (JNum 0)])]] [Do (SetV 3 (Seq (SetV 5 (Call ''Ztb'' [Dot (Dot (New ''OTc'' [V 1]) ''a'') ''d'', K (JNum 0)])) (New ''RTc'' [V 5]))), Loop (Call ''kub'' [Dot (V 3) ''a'']) [Do (SetV 2 (Dot (Call ''JD'' [Call ''lub'' [Dot (V 3) ''a''], K (JNum 65)]) ''c'')), Do (Call ''cZc'' [V 0, V 2])] [], Do (SetV 7 (Call ''JD'' [Call ''yr'' [Seq (SetV 6 (Call ''Ztb'' [Dot (Dot (New ''OTc'' [V 1]) ''a'') ''d'', K (JNum 0)])) (New ''RTc'' [V 6])], K (JNum 40)])), Do (SetV 11 (Call ''JD'' [Call ''xr'' [Seq (SetV 4 (Call ''Ztb'' [Dot (Dot (New ''OTc'' [V 1]) ''a'') ''d'', K (JNum 0)])) (New ''RTc'' [V 4])], K (JNum 40)])), Do (SetV 9 (Bin Divide (Bin Plus (Call ''Ueb'' [Call ''MD'' [Call ''oNb'' [V 11, G ''UWc'']]]) (Call ''Ueb'' [Call ''MD'' [Call ''oNb'' [V 7, G ''UWc'']]])) (K (JNum 2)))), When (V 8) [Do (SetV 10 (Bin Plus (Bin Plus (Call ''Ueb'' [Call ''MD'' [Call ''oNb'' [V 8, G ''UWc'']]]) (Dot (V 0) ''b'')) (Call ''dZc'' [V 0, V 8, V 1]))), Do (Call ''rNb'' [V 1, G ''UWc'', V 10]), Do (Call ''rNb'' [V 1, G ''RWc'', Bin Minus (Call ''Ueb'' [Call ''MD'' [Call ''oNb'' [V 1, G ''UWc'']]]) (V 9)]), Do (Call ''bZc'' [V 0, V 1])] [Do (Call ''rNb'' [V 1, G ''UWc'', V 9])]]],
    fn ''k3b'' 1 13 [Do (SetV 9 (New ''lmb'' [])), When (Neg (Call ''pNb'' [V 0, Seq (Call ''Wrc'' []) (G ''Yqc'')])) [Ret (V 9)] [], Do (SetV 3 (Meth (Call ''JD'' [Call ''oNb'' [V 0, G ''Yqc''], K (JNum 16)]) ''Jc'' [])), Loop (Meth (V 3) ''Ob'' []) [Do (SetV 1 (Call ''JD'' [Meth (V 3) ''Pb'' [], K (JNum 9)])), Do (Call ''j3b'' [V 1, V 0]), Do (Call ''qDb'' [Dot (V 9) ''c'', V 1])] [], Do (SetV 5 (New ''Kmb'' [Dot (V 0) ''b''])), Loop (Bin Lt (Dot (V 5) ''a'') (Dot (Dot (Dot (V 5) ''c'') ''c'') ''length'')) [Do (SetV 4 (Call ''JD'' [Call ''Imb'' [V 5], K (JNum 25)])), Do (SetV 7 (New ''Kmb'' [Dot (V 4) ''a''])), Loop (Bin Lt (Dot (V 7) ''a'') (Dot (Dot (Dot (V 7) ''c'') ''c'') ''length'')) [Do (SetV 6 (Call ''JD'' [Call ''Imb'' [V 7], K (JNum 9)])), When (Neg (Loose (Dot (V 6) ''k'') (Seq (Call ''$Yb'' []) (G ''TYb'')))) [Continue] [], Do (SetV 8 (Call ''JD'' [Call ''oNb'' [V 6, G ''Zqc''], K (JNum 9)])), Do (And (Neg (Neg (V 8))) (Seq (Seq (Seq (Seq (Seq (Seq (Seq (Seq (SetV 10 (New ''yZb'' [])) (Call ''wZb'' [V 10, V 6])) (SetV 11 (Call ''JD'' [Call ''oNb'' [V 6, G ''$qc''], K (JNum 64)]))) (Call ''xZb'' [V 10, V 11])) (SetV 12 (Call ''JD'' [Call ''dmb'' [Dot (V 8) ''j'', K (JNum 0)], K (JNum 12)]))) (SetV 13 (New ''GWb'' []))) (Call ''CWb'' [V 13, V 10])) (Call ''DWb'' [V 13, V 12])) (K JUndef)))] []] [], Do (SetV 2 (New ''Kmb'' [V 9])), Loop (Bin Lt (Dot (V 2) ''a'') (Dot (Dot (Dot (V 2) ''c'') ''c'') ''length'')) [Do (SetV 1 (Call ''JD'' [Call ''Imb'' [V 2], K (JNum 9)])), Do (Call ''NYb'' [V 1, Call ''JD'' [Call ''dmb'' [Dot (V 0) ''b'', Bin Minus (Dot (Dot (Dot (V 0) ''b'') ''c'') ''length'') (K (JNum 1))], K (JNum 25)]])] [], Ret (V 9)],
    fn ''SGb'' 1 11 [Do (SetV 10 (Dot (Dot (Dot (Dot (V 0) ''e'') ''a'') ''c'') ''length'')), Do (SetV 6 (New ''Kmb'' [Dot (Dot (V 0) ''e'') ''a''])), Loop (Bin Lt (Dot (V 6) ''a'') (Dot (Dot (Dot (V 6) ''c'') ''c'') ''length'')) [Do (SetV 5 (Call ''JD'' [Call ''Imb'' [V 6], K (JNum 124)])), Do (Put (V 5) ''j'' (K (JBool False)))] [], Do (Put (V 0) ''i'' (Call ''SC'' [G ''cE'', G ''bve'', K (JNum 30), V 10, K (JNum 15), K (JNum 1)])), Do (Put (V 0) ''g'' (Call ''SC'' [G ''cE'', G ''bve'', K (JNum 30), V 10, K (JNum 15), K (JNum 1)])), Do (Put (V 0) ''n'' (New ''lmb'' [])), Do (SetV 4 (K (JNum 0))), Do (SetV 11 (New ''lmb'' [])), Do (SetV 8 (New ''Kmb'' [Dot (Dot (V 0) ''e'') ''a''])), Loop (Bin Lt (Dot (V 8) ''a'') (Dot (Dot (Dot (V 8) ''c'') ''c'') ''length'')) [Do (SetV 7 (Call ''JD'' [Call ''Imb'' [V 8], K (JNum 124)])), Do (Put (V 7) ''d'' (Bin Minus (SetV 4 (Bin Minus (V 4) (K (JNum (- 1))))) (K (JNum 1)))), Do (And (Loose (Dot (Dot (Dot (Dot (V 7) ''b'') ''a'') ''c'') ''length'') (K (JNum 0))) (Call ''_lb'' [Dot (V 0) ''n'', V 7])), Do (Call ''bmb'' [V 11, Dot (V 7) ''g''])] [], Do (SetV 1 (K (JNum 0))), Do (SetV 3 (New ''Kmb'' [V 11])), Loop (Bin Lt (Dot (V 3) ''a'') (Dot (Dot (Dot (V 3) ''c'') ''c'') ''length'')) [Do (SetV 2 (Call ''JD'' [Call ''Imb'' [V 3], K (JNum 217)])), Do (Put (V 2) ''c'' (Bin Minus (SetV 1 (Bin Minus (V 1) (K (JNum (- 1))))) (K (JNum 1)))), Do (Put (V 2) ''f'' (K (JBool False)))] [], Do (SetV 9 (Dot (Dot (V 11) ''c'') ''length'')), When (Or (Loose (Dot (V 0) ''b'') (K JNull)) (Bin Lt (Dot (Dot (V 0) ''b'') ''length'') (V 9))) [Do (Put (V 0) ''b'' (Call ''SC'' [G ''aE'', G ''Jve'', K (JNum 30), V 9, K (JNum 15), K (JNum 1)])), Do (Put (V 0) ''c'' (Call ''SC'' [G ''Icb'', G ''Nwe'', K (JNum 30), V 9, K (JNum 16), K (JNum 1)]))] [Do (Call ''Xmb'' [Dot (V 0) ''c''])], Do (Put (V 0) ''d'' (V 11)), Do (Put (V 0) ''p'' (New ''Qtb'' [Call ''Jv'' [Dot (Dot (Dot (V 0) ''d'') ''c'') ''length'']])), Do (Put (V 0) ''j'' (K (JNum 1)))],
    fn ''YPb'' 2 9 [When (Bin Le (Dot (Dot (Dot (V 1) ''e'') ''c'') ''length'') (K (JNum 1))) [Ret (K JUndef)] [], Do (Put (V 0) ''f'' (V 1)), Do (Put (V 0) ''d'' (Call ''JD'' [Call ''oNb'' [Dot (V 0) ''f'', Seq (Call ''HPb'' []) (G ''wPb'')], K (JNum 384)])), Do (Put (V 0) ''g'' (Dot (Call ''JD'' [Call ''oNb'' [Dot (V 0) ''f'', G ''APb''], K (JNum 15)]) ''a'')), Do (Put (V 0) ''e'' (Call ''Ueb'' [Call ''MD'' [Call ''oNb'' [Dot (V 0) ''f'', G ''xPb'']]])), Do (Put (V 0) ''c'' (Call ''Ueb'' [Call ''MD'' [Call ''oNb'' [Dot (V 0) ''f'', G ''vPb'']]])), Do (Call ''rt'' [Dot (V 0) ''b'']), Do (SetV 4 (New ''Kmb'' [Dot (Dot (V 0) ''f'') ''c''])), Loop (Bin Lt (Dot (V 4) ''a'') (Dot (Dot (Dot (V 4) ''c'') ''c'') ''length'')) [Do (SetV 3 (Call ''JD'' [Call ''Imb'' [V 4], K (JNum 291)])), Do (Call ''qt'' [Dot (V 0) ''b'', Dot (V 3) ''c'', V 3, K JNull]), Do (Call ''qt'' [Dot (V 0) ''b'', Dot (V 3) ''d'', V 3, K JNull])] [], Do (SetV 7 (Dot (Dot (Dot (Dot (V 0) ''f'') ''e'') ''c'') ''length'')), Do (Put (V 0) ''a'' (Call ''QC'' [G ''aE'', NewArr [G ''aue'', G ''Jve''], NewArr [K (JNum 108), K (JNum 30)], K (JNum 15), NewArr [V 7, V 7], K (JNum 2)])), Do (SetV 9 (New ''Kmb'' [Dot (Dot (V 0) ''f'') ''e''])), Loop (Bin Lt (Dot (V 9) ''a'') (Dot (Dot (Dot (V 9) ''c'') ''c'') ''length'')) [Do (SetV 8 (Call ''JD'' [Call ''Imb'' [V 9], K (JNum 155)])), Do (Call ''UPb'' [V 0, V 8, Idx (Dot (V 0) ''a'') (Dot (V 8) ''a'')])] [], Do (Put (V 0) ''i'' (Call ''QC'' [G ''aE'', NewArr [G ''aue'', G ''Jve''], NewArr [K (JNum 108), K (JNum 30)], K (JNum 15), NewArr [V 7, V 7], K (JNum 2)])), Do (SetV 5 (K (JNum 0))), Loop (Bin Lt (V 5) (V 7)) [Do (SetV 6 (K (JNum 0))), Loop (Bin Lt (V 6) (V 7)) [Do (SetV 2 (Idx (Idx (Dot (V 0) ''a'') (V 5)) (V 6))), Do (SetV 10 (Bin Divide (K (JNum 1)) (Bin Times (V 2) (V 2)))), Do (PutIdx (Idx (Dot (V 0) ''i'') (V 5)) (V 6) (V 10))] [Do (SetV 6 (Bin Minus (V 6) (K (JNum (- 1)))))]] [Do (SetV 5 (Bin Minus (V 5) (K (JNum (- 1)))))]],
    fn ''qQb'' 2 13 [Do (SetV 7 (Meth (V 1) ''_g'' [])), Do (Or (V 7) (Meth (V 1) ''Tg'' [G ''qxe'', K (JNum 1)])), Do (SetV 2 (Call ''JD'' [Call ''oNb'' [V 0, Seq (Call ''Wrc'' []) (G ''Erc'')], K (JNum 16)])), Do (SetV 6 (Bin Divide (K (JNum 1)) (Meth (V 2) ''gc'' []))), When (Meth (V 1) ''$g'' []) [Do (Meth (V 1) ''ah'' [Bin Plus (Bin Plus (K (JStr ''ELK Layered uses the following '')) (Meth (V 2) ''gc'' [])) (K (JStr '' modules:''))]), Do (SetV 13 (K (JNum 0))), Do (SetV 12 (Meth (V 2) ''Jc'' [])), Loop (Meth (V 12) ''Ob'' []) [Do (SetV 10 (Call ''JD'' [Meth (V 12) ''Pb'' [], K (JNum 43)])), Do (SetV 3 (Bin Plus (Cond (Bin Lt (V 13) (K (JNum 10))) (K (JStr ''0'')) (K (JStr ''''))) (Bin Minus (SetV 13 (Bin Minus (V 13) (K (JNum (- 1))))) (K (JNum 1))))), Do (Meth (V 1) ''ah'' [Bin Plus (Bin Plus (Bin Plus (K (JStr ''   Slot '')) (V 3)) (K (JStr '': ''))) (Call ''xeb'' [Call ''rb'' [V 10]])])] []] [], Do (SetV 14 (K (JNum 0))), Do (SetV 11 (Meth (V 2) ''Jc'' [])), Loop (Meth (V 11) ''Ob'' []) [Do (SetV 10 (Call ''JD'' [Meth (V 11) ''Pb'' [], K (JNum 43)])), When (Meth (V 1) ''Zg'' []) [Ret (K JUndef)] [], Do (Meth (V 10) ''If'' [V 0, Meth (V 1) ''dh'' [V 6]]), Do (SetV 14 (Bin Minus (V 14) (K (JNum (- 1)))))] [], Do (SetV 5 (New ''Kmb'' [Dot (V 0) ''b''])), Loop (Bin Lt (Dot (V 5) ''a'') (Dot (Dot (Dot (V 5) ''c'') ''c'') ''length'')) [Do (SetV 4 (Call ''JD'' [Call ''Imb'' [V 5], K (JNum 25)])), Do (Call ''bmb'' [Dot (V 0) ''a'', Dot (V 4) ''a'']), Do (Put (Dot (Dot (V 4) ''a'') ''c'') ''length'' (K (JNum 0)))] [], Do (SetV 9 (New ''Kmb'' [Dot (V 0) ''a''])), Loop (Bin Lt (Dot (V 9) ''a'') (Dot (Dot (Dot (V 9) ''c'') ''c'') ''length'')) [Do (SetV 8 (Call ''JD'' [Call ''Imb'' [V 9], K (JNum 9)])), Do (Call ''NYb'' [V 8, K JNull])] [], Do (Put (Dot (Dot (V 0) ''b'') ''c'') ''length'' (K (JNum 0))), Do (Or (V 7) (Meth (V 1) ''Ug'' []))],
    fn ''W9b'' 2 9 [When (Call ''pNb'' [Dot (Dot (V 0) ''d'') ''i'', Seq (Call ''nyc'' []) (G ''ixc'')]) [Do (SetV 7 (Call ''JD'' [Call ''oNb'' [Dot (Dot (V 0) ''c'') ''i'', G ''ixc''], K (JNum 15)])), Do (SetV 9 (Call ''JD'' [Call ''oNb'' [Dot (Dot (V 0) ''d'') ''i'', G ''ixc''], K (JNum 15)])), Ret (Bin Gt (Call ''rfb'' [Dot (V 7) ''a'', Dot (V 9) ''a'']) (K (JNum 0)))] [Do (SetV 7 (Dot (Call ''JD'' [Call ''oNb'' [Dot (Dot (V 0) ''c'') ''i'', G ''ixc''], K (JNum 15)]) ''a'')), Do (SetV 5 (Call ''JD'' [Call ''SBb'' [Call ''VBb'' [Meth (V 1) ''Mc'' [], New ''kac'' [V 7]], Call ''BAb'' [New ''TAb'' [], New ''RAb'' [], New ''ZAb'' [], Call ''WC'' [Call ''OC'' [G ''HL'', K (JNum 1)], G ''xue'', K (JNum 130), K (JNum 0), NewArr [Seq (Call ''FAb'' []) (G ''DAb'')]]]], K (JNum 16)])), Do (SetV 6 (New ''dub'' [])), Do (SetV 10 (New ''hsb'' [])), Do (Call ''Ttb'' [V 6, Dot (Dot (V 0) ''c'') ''i'']), Do (Call ''esb'' [V 10, Dot (Dot (V 0) ''c'') ''i'']), Loop (Neg (Loose (Dot (V 6) ''b'') (K (JNum 0)))) [Do (SetV 2 (Call ''JD'' [Cond (Loose (Dot (V 6) ''b'') (K (JNum 0))) (K JNull) (Seq (Call ''LDb'' [Neg (Loose (Dot (V 6) ''b'') (K (JNum 0)))]) (Call ''bub'' [V 6, Dot (Dot (V 6) ''a'') ''a''])), K (JNum 9)])), When (Meth (V 5) ''Gc'' [V 2]) [Ret (K (JBool True))] [], Do (SetV 4 (New ''Yr'' [Call ''Dr'' [Meth (Dot (Call ''HYb'' [V 2]) ''a'') ''Jc'' [], New ''Dl'' []]])), Loop (Call ''Wr'' [V 4]) [Do (SetV 3 (Call ''JD'' [Call ''Xr'' [V 4], K (JNum 17)])), Do (SetV 8 (Dot (Dot (V 3) ''d'') ''i'')), When (Neg (Meth (Dot (V 10) ''a'') ''_b'' [V 8])) [Do (Meth (Dot (V 10) ''a'') ''yc'' [V 8, V 10]), Do (Call ''Wtb'' [V 6, V 8, Dot (Dot (V 6) ''c'') ''b'', Dot (V 6) ''c''])] []] []] [], Ret (K (JBool False))]]]"

definition code_5989_5993 :: "(string \<times> jfun) list" where
  "code_5989_5993 = [
    fn ''Fre'' 1 4 [When (Or (Loose (Dot (V 0) ''b'') (K JNull)) (Bin Le (Dot (Dot (V 0) ''b'') ''length'') (K (JNum 2)))) [Ret (K JUndef)] [], When (Dot (V 0) ''a'') [Ret (K JUndef)] [], Do (SetV 1 (K (JNum 0))), Do (SetV 4 (K (JNum 0))), Loop (Bin Lt (V 4) (Dot (Dot (V 0) ''b'') ''length'')) [When (Neg (Loose (V 1) (V 4))) [Do (PutIdx (Dot (V 0) ''b'') (V 1) (Idx (Dot (V 0) ''b'') (Bin Minus (SetV 4 (Bin Minus (V 4) (K (JNum (- 1))))) (K (JNum 1))))), Do (PutIdx (Dot (V 0) ''b'') (Bin Plus (V 1) (K (JNum 1))) (Idx (Dot (V 0) ''b'') (Bin Minus (SetV 4 (Bin Minus (V 4) (K (JNum (- 1))))) (K (JNum 1)))))] [Do (SetV 4 (Bin Plus (V 4) (K (JNum 2))))], Do (SetV 2 (Idx (Dot (V 0) ''b'') (Bin Plus (V 1) (K (JNum 1))))), Loop (Bin Lt (V 4) (Dot (Dot (V 0) ''b'') ''length'')) [When (Bin Lt (Bin Plus (V 2) (K (JNum 1))) (Idx (Dot (V 0) ''b'') (V 4))) [Break] [], When (Loose (Bin Plus (V 2) (K (JNum 1))) (Idx (Dot (V 0) ''b'') (V 4))) [Do (PutIdx (Dot (V 0) ''b'') (Bin Plus (V 1) (K (JNum 1))) (Idx (Dot (V 0) ''b'') (Bin Plus (V 4) (K (JNum 1))))), Do (SetV 2 (Idx (Dot (V 0) ''b'') (Bin Plus (V 1) (K (JNum 1))))), Do (SetV 4 (Bin Plus (V 4) (K (JNum 2))))] [When (Bin Ge (V 2) (Idx (Dot (V 0) ''b'') (Bin Plus (V 4) (K (JNum 1))))) [Do (SetV 4 (Bin Plus (V 4) (K (JNum 2))))] [When (Bin Lt (V 2) (Idx (Dot (V 0) ''b'') (Bin Plus (V 4) (K (JNum 1))))) [Do (PutIdx (Dot (V 0) ''b'') (Bin Plus (V 1) (K (JNum 1))) (Idx (Dot (V 0) ''b'') (Bin Plus (V 4) (K (JNum 1))))), Do (SetV 2 (Idx (Dot (V 0) ''b'') (Bin Plus (V 1) (K (JNum 1))))), Do (SetV 4 (Bin Plus (V 4) (K (JNum 2))))] [Raise (Call ''Lcb'' [New ''qz'' [Bin Plus (Bin Plus (Bin Plus (Bin Plus (Bin Plus (Bin Plus (Bin Plus (Bin Plus (K (JStr ''Token#compactRanges(): Internel Error: ['')) (Idx (Dot (V 0) ''b'') (V 1))) (K (JStr '',''))) (Idx (Dot (V 0) ''b'') (Bin Plus (V 1) (K (JNum 1))))) (K (JStr ''] [''))) (Idx (Dot (V 0) ''b'') (V 4))) (K (JStr '',''))) (Idx (Dot (V 0) ''b'') (Bin Plus (V 4) (K (JNum 1))))) (K (JStr '']''))]])]]]] [], Do (SetV 1 (Bin Plus (V 1) (K (JNum 2))))] [], When (Neg (Loose (V 1) (Dot (Dot (V 0) ''b'') ''length''))) [Do (SetV 3 (Call ''SC'' [G ''cE'', G ''bve'', K (JNum 30), V 1, K (JNum 15), K (JNum 1)])), Do (Call ''rhb'' [Dot (V 0) ''b'', K (JNum 0), V 3, K (JNum 0), V 1]), Do (Put (V 0) ''b'' (V 3))] [], Do (Put (V 0) ''a'' (K (JBool True)))],
    fn ''bWb'' 2 7 [Do (SetV 6 (Meth (Call ''Ec'' [Dot (V 0) ''a'']) ''Jc'' [])), Loop (Meth (V 6) ''Ob'' []) [Do (SetV 5 (Call ''JD'' [Meth (V 6) ''Pb'' [], K (JNum 17)])), When (Bin Gt (Dot (Dot (Dot (V 5) ''b'') ''c'') ''length'') (K (JNum 0))) [Do (SetV 3 (New ''nmb'' [Call ''JD'' [Call ''Qc'' [Dot (V 0) ''a'', V 5], K (JNum 22)]])), Do (Call ''Inb'' []), Do (Call ''jmb'' [V 3, New ''qWb'' [V 1]]), Do (SetV 4 (New ''Tjb'' [Dot (V 5) ''b'', K (JNum 0)])), Loop (Bin Lt (Dot (V 4) ''b'') (Meth (Dot (V 4) ''d'') ''gc'' [])) [Do (SetV 2 (Seq (Call ''LDb'' [Bin Lt (Dot (V 4) ''b'') (Meth (Dot (V 4) ''d'') ''gc'' [])]) (Call ''JD'' [Meth (Dot (V 4) ''d'') ''Xb'' [Put (V 4) ''c'' (Bin Minus (Put (V 4) ''b'' (Bin Minus (Dot (V 4) ''b'') (K (JNum (- 1))))) (K (JNum 1)))], K (JNum 70)]))), Do (SetV 7 (K (JNum (- 1)))), Switch (Dot (Call ''JD'' [Call ''oNb'' [V 2, Seq (Call ''nyc'' []) (G ''gwc'')], K (JNum 279)]) ''g'') [(Some (JNum 1), [Do (SetV 7 (Bin Minus (Dot (Dot (V 3) ''c'') ''length'') (K (JNum 1)))), Break]), (Some (JNum 0), [Do (SetV 7 (Call ''_Vb'' [V 3])), Break]), (Some (JNum 2), [Do (SetV 7 (K (JNum 0)))])], When (Neg (Loose (V 7) (K (JNum (- 1))))) [Do (SetV 8 (Seq (Call ''MDb'' [V 7, Dot (Dot (V 3) ''c'') ''length'']) (Call ''JD'' [Idx (Dot (V 3) ''c'') (V 7), K (JNum 250)]))), Do (Call ''_lb'' [Dot (Dot (V 8) ''b'') ''b'', V 2]), Do (Meth (Call ''JD'' [Call ''oNb'' [Call ''DYb'' [Dot (Dot (Dot (V 8) ''b'') ''c'') ''i''], Seq (Call ''Wrc'' []) (G ''brc'')], K (JNum 22)]) ''Ec'' [Seq (Call ''Xpc'' []) (G ''Ppc'')]), Do (Meth (Call ''JD'' [Call ''oNb'' [Call ''DYb'' [Dot (Dot (Dot (V 8) ''b'') ''c'') ''i''], G ''brc''], K (JNum 22)]) ''Ec'' [G ''Npc'']), Do (Call ''Mjb'' [V 4]), Do (Call ''rNb'' [V 2, G ''xrc'', V 5])] []] []] [], Do (Call ''CWb'' [V 5, K JNull]), Do (Call ''DWb'' [V 5, K JNull])] []],
    fn ''vIc'' 2 11 [Do (SetV 10 (New ''lmb'' [])), Do (SetV 12 (New ''hsb'' [])), Do (SetV 6 (Dot (V 1) ''b'')), Do (SetV 4 (K (JNum 0))), Loop (Bin Lt (V 4) (Dot (Dot (V 6) ''c'') ''length'')) [Do (SetV 9 (Dot (Seq (Call ''MDb'' [V 4, Dot (Dot (V 6) ''c'') ''length'']) (Call ''JD'' [Idx (Dot (V 6) ''c'') (V 4), K (JNum 25)])) ''a'')), Do (Put (Dot (V 10) ''c'') ''length'' (K (JNum 0))), Do (SetV 5 (K (JNum 0))), Loop (Bin Lt (V 5) (Dot (Dot (V 9) ''c'') ''length'')) [Do (SetV 7 (Idx (Idx (Dot (V 0) ''a'') (V 4)) (V 5))), Do (Put (V 7) ''p'' (V 5)), Do (And (Loose (Dot (V 7) ''k'') (Seq (Call ''$Yb'' []) (G ''YYb''))) (Seq (Call ''qDb'' [Dot (V 10) ''c'', V 7]) (K (JBool True)))), Do (Call ''imb'' [Dot (Call ''JD'' [Call ''dmb'' [Dot (V 1) ''b'', V 4], K (JNum 25)]) ''a'', V 5, V 7]), Do (Put (Dot (Dot (V 7) ''j'') ''c'') ''length'' (K (JNum 0))), Do (Call ''bmb'' [Dot (V 7) ''j'', Call ''JD'' [Meth (Call ''JD'' [Call ''dmb'' [Dot (V 0) ''b'', V 4], K (JNum 16)]) ''Xb'' [V 5], K (JNum 18)]]), Do (Or (Call ''Nld'' [Call ''JD'' [Call ''oNb'' [V 7, Seq (Call ''nyc'' []) (G ''qxc'')], K (JNum 102)]]) (Call ''rNb'' [V 7, G ''qxc'', Seq (Call ''Mld'' []) (G ''Gld'')]))] [Do (Bin Minus (SetV 5 (Bin Minus (V 5) (K (JNum (- 1))))) (K (JNum 1)))], Do (SetV 3 (New ''Kmb'' [V 10])), Loop (Bin Lt (Dot (V 3) ''a'') (Dot (Dot (Dot (V 3) ''c'') ''c'') ''length'')) [Do (SetV 2 (Call ''JD'' [Call ''Imb'' [V 3], K (JNum 9)])), Do (SetV 11 (Call ''tIc'' [V 2])), Do (Meth (Dot (V 12) ''a'') ''yc'' [V 11, V 12]), Do (Meth (Dot (V 12) ''a'') ''yc'' [V 2, V 12])] []] [Do (Bin Minus (SetV 4 (Bin Minus (V 4) (K (JNum (- 1))))) (K (JNum 1)))], Do (SetV 8 (Meth (Meth (Dot (V 12) ''a'') ''ec'' []) ''Jc'' [])), Loop (Meth (V 8) ''Ob'' []) [Do (SetV 7 (Call ''JD'' [Meth (V 8) ''Pb'' [], K (JNum 9)])), Do (Call ''Inb'' []), Do (Call ''jmb'' [Dot (V 7) ''j'', Seq (Call ''sac'' []) (G ''mac'')]), Do (Put (V 7) ''i'' (K (JBool True))), Do (Call ''AYb'' [V 7])] []],
    fn ''x8b'' 2 12 [Do (Meth (V 1) ''Tg'' [K (JStr ''Edge splitting''), K (JNum 1)]), When (Bin Le (Dot (Dot (Dot (V 0) ''b'') ''c'') ''length'') (K (JNum 2))) [Do (Meth (V 1) ''Ug'' []), Ret (K JUndef)] [], Do (SetV 5 (New ''Tjb'' [Dot (V 0) ''b'', K (JNum 0)])), Do (SetV 6 (Seq (Call ''LDb'' [Bin Lt (Dot (V 5) ''b'') (Meth (Dot (V 5) ''d'') ''gc'' [])]) (Call ''JD'' [Meth (Dot (V 5) ''d'') ''Xb'' [Put (V 5) ''c'' (Bin Minus (Put (V 5) ''b'' (Bin Minus (Dot (V 5) ''b'') (K (JNum (- 1))))) (K (JNum 1)))], K (JNum 25)]))), Loop (Bin Lt (Dot (V 5) ''b'') (Meth (Dot (V 5) ''d'') ''gc'' [])) [Do (SetV 4 (V 6)), Do (SetV 6 (Seq (Call ''LDb'' [Bin Lt (Dot (V 5) ''b'') (Meth (Dot (V 5) ''d'') ''gc'' [])]) (Call ''JD'' [Meth (Dot (V 5) ''d'') ''Xb'' [Put (V 5) ''c'' (Bin Minus (Put (V 5) ''b'' (Bin Minus (Dot (V 5) ''b'') (K (JNum (- 1))))) (K (JNum 1)))], K (JNum 25)]))), Do (SetV 8 (New ''Kmb'' [Dot (V 4) ''a''])), Loop (Bin Lt (Dot (V 8) ''a'') (Dot (Dot (Dot (V 8) ''c'') ''c'') ''length'')) [Do (SetV 7 (Call ''JD'' [Call ''Imb'' [V 8], K (JNum 9)])), Do (SetV 10 (New ''Kmb'' [Dot (V 7) ''j''])), Loop (Bin Lt (Dot (V 10) ''a'') (Dot (Dot (Dot (V 10) ''c'') ''c'') ''length'')) [Do (SetV 9 (Call ''JD'' [Call ''Imb'' [V 10], K (JNum 12)])), Do (SetV 3 (New ''Kmb'' [Dot (V 9) ''g''])), Loop (Bin Lt (Dot (V 3) ''a'') (Dot (Dot (Dot (V 3) ''c'') ''c'') ''length'')) [Do (SetV 2 (Call ''JD'' [Call ''Imb'' [V 3], K (JNum 17)])), Do (SetV 12 (Dot (V 2) ''d'')), Do (SetV 11 (Dot (Dot (V 12) ''i'') ''c'')), Do (And (And (Neg (Loose (V 11) (V 4))) (Neg (Loose (V 11) (V 6)))) (Call ''C8b'' [V 2, Seq (Seq (Seq (Seq (Seq (SetV 13 (New ''QYb'' [V 0])) (Call ''OYb'' [V 13, Seq (Call ''$Yb'' []) (G ''VYb'')])) (Call ''rNb'' [V 13, Seq (Call ''Wrc'' []) (G ''urc''), V 2])) (Call ''rNb'' [V 13, Seq (Call ''nyc'' []) (G ''qxc''), Seq (Call ''Mld'' []) (G ''Hld'')])) (Call ''NYb'' [V 13, V 6])) (V 13)]))] []] []] []] [], Do (Meth (V 1) ''Ug'' [])],
    fn ''H$b'' 1 12 [Do (SetV 1 (Call ''gAd'' [V 0])), Do (SetV 5 (Call ''Rdb'' [Call ''LD'' [Call ''cvd'' [V 1, Seq (Call ''nyc'' []) (G ''xwc'')]]])), Do (SetV 10 (K (JNum 0))), Do (SetV 4 (K (JNum 0))), Do (SetV 9 (New ''uKd'' [Seq (And (Neg (Dot (V 0) ''e'')) (Put (V 0) ''e'' (New ''jhe'' [G ''Q3'', V 0, K (JNum 7), K (JNum 4)]))) (Dot (V 0) ''e'')])), Loop (Neg (Loose (Dot (V 9) ''e'') (Meth (Dot (V 9) ''i'') ''gc'' []))) [Do (SetV 8 (Call ''JD'' [Call ''sKd'' [V 9], K (JNum 85)])), Do (SetV 7 (Call ''Kwd'' [V 8])), Do (SetV 6 (And (And (V 7) (V 5)) (Call ''Rdb'' [Call ''LD'' [Call ''cvd'' [V 8, G ''ywc'']]]))), Do (SetV 12 (Call ''TEd'' [Call ''JD'' [Call ''fGd'' [Seq (And (Neg (Dot (V 8) ''c'')) (Put (V 8) ''c'' (New ''jhe'' [G ''O3'', V 8, K (JNum 5), K (JNum 8)]))) (Dot (V 8) ''c''), K (JNum 0)], K (JNum 84)]])), Do (Cond (And (V 7) (V 6)) (SetV 4 (Bin Minus (V 4) (K (JNum (- 1))))) (Cond (And (V 7) (Neg (V 6))) (SetV 10 (Bin Minus (V 10) (K (JNum (- 1))))) (Cond (Or (Loose (Call ''Rzd'' [V 12]) (V 1)) (Loose (V 12) (V 1))) (SetV 4 (Bin Minus (V 4) (K (JNum (- 1))))) (SetV 10 (Bin Minus (V 10) (K (JNum (- 1))))))))] [], Do (SetV 3 (New ''uKd'' [Seq (And (Neg (Dot (V 0) ''d'')) (Put (V 0) ''d'' (New ''jhe'' [G ''Q3'', V 0, K (JNum 8), K (JNum 5)]))) (Dot (V 0) ''d'')])), Loop (Neg (Loose (Dot (V 3) ''e'') (Meth (Dot (V 3) ''i'') ''gc'' []))) [Do (SetV 2 (Call ''JD'' [Call ''sKd'' [V 3], K (JNum 85)])), Do (SetV 7 (Call ''Kwd'' [V 2])), Do (SetV 6 (And (And (V 7) (V 5)) (Call ''Rdb'' [Call ''LD'' [Call ''cvd'' [V 2, G ''ywc'']]]))), Do (SetV 11 (Call ''TEd'' [Call ''JD'' [Call ''fGd'' [Seq (And (Neg (Dot (V 2) ''b'')) (Put (V 2) ''b'' (New ''jhe'' [G ''O3'', V 2, K (JNum 4), K (JNum 7)]))) (Dot (V 2) ''b''), K (JNum 0)], K (JNum 84)]])), Do (Cond (And (V 7) (V 6)) (SetV 10 (Bin Minus (V 10) (K (JNum (- 1))))) (Cond (And (V 7) (Neg (V 6))) (SetV 4 (Bin Minus (V 4) (K (JNum (- 1))))) (Cond (Or (Loose (Call ''Rzd'' [V 11]) (V 1)) (Loose (V 11) (V 1))) (SetV 10 (Bin Minus (V 10) (K (JNum (- 1))))) (SetV 4 (Bin Minus (V 4) (K (JNum (- 1))))))))] [], Ret (Bin Minus (V 10) (V 4))]]"

definition code_5995_6003 :: "(string \<times> jfun) list" where
  "code_5995_6003 = [
    fn ''tKc'' 2 22 [Do (SetV 3 (Call ''Ueb'' [Call ''MD'' [Call ''oNb'' [V 1, Seq (Call ''nyc'' []) (G ''Xwc'')]]])), Do (SetV 21 (Dot (Call ''JD'' [Call ''oNb'' [V 1, G ''Xxc''], K (JNum 15)]) ''a'')), Do (SetV 12 (K (JNum 4))), Do (SetV 4 (K (JNum 3))), Do (SetV 22 (Bin Divide (K (JNum 20)) (V 21))), Do (SetV 13 (K (JBool False))), Do (SetV 8 (K (JNum 0))), Do (SetV 6 (G ''Ate'')), Loop (K (JBool True)) [Do (SetV 5 (Neg (Loose (V 8) (K (JNum 1))))), Do (SetV 11 (Neg (Loose (V 8) (K (JNum 0))))), Do (SetV 23 (K (JNum 0))), Do (Seq (Seq (SetV 16 (Dot (V 0) ''a'')) (SetV 18 (K (JNum 0)))) (SetV 20 (Dot (V 16) ''length''))), Loop (Bin Lt (V 18) (V 20)) [Do (SetV 14 (Idx (V 16) (V 18))), Do (Put (V 14) ''f'' (K JNull)), Do (Call ''uKc'' [V 0, V 14, V 5, V 11, V 3]), Do (SetV 23 (Bin Plus (V 23) (Meth (Dot (G ''$wnd'') ''Math'') ''abs'' [Dot (V 14) ''a''])))] [Do (SetV 18 (Bin Minus (V 18) (K (JNum (- 1)))))], Loop (K (JBool True)) [Do (SetV 7 (Call ''yKc'' [V 0, V 1]))] [When (V 7) [] [Break]], Do (Seq (Seq (SetV 15 (Dot (V 0) ''a'')) (SetV 17 (K (JNum 0)))) (SetV 19 (Dot (V 15) ''length''))), Loop (Bin Lt (V 17) (V 19)) [Do (SetV 14 (Idx (V 15) (V 17))), Do (SetV 2 (Dot (Call ''GKc'' [V 14]) ''a'')), When (Neg (Loose (V 2) (K (JNum 0)))) [Do (SetV 10 (New ''Kmb'' [Dot (V 14) ''e''])), Loop (Bin Lt (Dot (V 10) ''a'') (Dot (Dot (Dot (V 10) ''c'') ''c'') ''length'')) [Do (SetV 9 (Call ''JD'' [Call ''Imb'' [V 10], K (JNum 9)])), Do (Put (Dot (V 9) ''n'') ''b'' (Bin Plus (Dot (Dot (V 9) ''n'') ''b'') (V 2)))] []] []] [Do (SetV 17 (Bin Minus (V 17) (K (JNum (- 1)))))], When (Or (Loose (V 8) (K (JNum 0))) (Loose (V 8) (K (JNum 1)))) [Do (SetV 12 (Bin Minus (V 12) (K (JNum 1)))), When (And (Bin Le (V 12) (K (JNum 0))) (Or (Bin Lt (V 23) (V 6)) (Bin Gt (Minus1 (V 12)) (V 21)))) [Do (SetV 8 (K (JNum 2))), Do (SetV 6 (G ''Ate''))] [When (Loose (V 8) (K (JNum 0))) [Do (SetV 8 (K (JNum 1))), Do (SetV 6 (V 23))] [Do (SetV 8 (K (JNum 0))), Do (SetV 6 (V 23))]]] [Do (SetV 13 (Or (Bin Ge (V 23) (V 6)) (Bin Lt (Bin Minus (V 6) (V 23)) (V 22)))), Do (SetV 6 (V 23)), Do (And (V 13) (SetV 4 (Bin Minus (V 4) (K (JNum 1)))))]] [When (Neg (And (V 13) (Bin Le (V 4) (K (JNum 0))))) [] [Break]]],
    fn ''cEb'' 3 12 [Do (SetV 14 (New ''_rb'' [])), Do (SetV 5 (Meth (Meth (Dot (V 0) ''a'') ''ec'' []) ''Jc'' [])), Loop (Meth (V 5) ''Ob'' []) [Do (SetV 3 (Call ''JD'' [Meth (V 5) ''Pb'' [], K (JNum 177)])), Do (Call ''hjb'' [V 14, V 3, Meth (V 2) ''$e'' [V 3]])] [], Do (SetV 6 (Seq (Call ''Qb'' [V 0]) (Cond (V 0) (New ''nmb'' [V 0]) (Call ''Vu'' [Meth (Meth (Dot (V 0) ''a'') ''ec'' []) ''Jc'' []])))), Do (Call ''jmb'' [V 6, New ''eEb'' [V 14]]), Do (SetV 7 (Call ''Tx'' [V 6])), Do (SetV 8 (New ''rEb'' [V 1])), Do (SetV 13 (New ''_rb'' [])), Do (Call ''zsb'' [Dot (V 13) ''f'', V 1, V 8]), Loop (Neg (Loose (Meth (Dot (V 7) ''a'') ''gc'' []) (K (JNum 0)))) [Do (SetV 9 (K JNull)), Do (SetV 10 (K JNull)), Do (SetV 11 (K JNull)), Do (SetV 4 (Meth (Meth (Dot (V 7) ''a'') ''ec'' []) ''Jc'' [])), Loop (Meth (V 4) ''Ob'' []) [Do (SetV 3 (Call ''JD'' [Meth (V 4) ''Pb'' [], K (JNum 177)])), When (Bin Le (Call ''Ueb'' [Call ''MD'' [Call ''Wd'' [Call ''ysb'' [Dot (V 14) ''f'', V 3]]]]) (G ''Cve'')) [When (And (Call ''cjb'' [V 13, Dot (V 3) ''a'']) (Neg (Call ''cjb'' [V 13, Dot (V 3) ''b'']))) [Do (SetV 10 (Dot (V 3) ''b'')), Do (SetV 11 (Dot (V 3) ''a'')), Do (SetV 9 (V 3)), Break] [], When (Call ''cjb'' [V 13, Dot (V 3) ''b'']) [When (Neg (Call ''cjb'' [V 13, Dot (V 3) ''a''])) [Do (SetV 10 (Dot (V 3) ''a'')), Do (SetV 11 (Dot (V 3) ''b'')), Do (SetV 9 (V 3)), Break] []] []] []] [], When (Neg (V 9)) [Break] [], Do (SetV 12 (New ''rEb'' [V 10])), Do (Call ''_lb'' [Dot (Call ''JD'' [Call ''Wd'' [Call ''ysb'' [Dot (V 13) ''f'', V 11]], K (JNum 225)]) ''a'', V 12]), Do (Call ''zsb'' [Dot (V 13) ''f'', V 10, V 12]), Do (Neg (Loose (Meth (Dot (V 7) ''a'') ''Ac'' [V 9]) (K JNull)))] [], Ret (V 8)],
    fn ''use'' 2 6 [When (Neg (V 1)) [Ret (K JUndef)] [], Do (And (Neg (Dot (V 0) ''a'')) (Put (V 0) ''a'' (New ''nxb'' []))), When (Loose (Dot (V 0) ''e'') (K (JNum 2))) [Do (Call ''kxb'' [Dot (V 0) ''a'', V 1]), Ret (K JUndef)] [], When (Loose (Dot (V 1) ''e'') (K (JNum 1))) [Do (SetV 4 (K (JNum 0))), Loop (Bin Lt (V 4) (Meth (V 1) ''Nm'' [])) [Do (Call ''use'' [V 0, Meth (V 1) ''Jm'' [V 4]])] [Do (Bin Minus (SetV 4 (Bin Minus (V 4) (K (JNum (- 1))))) (K (JNum 1)))], Ret (K JUndef)] [], Do (SetV 7 (Dot (Dot (Dot (Dot (V 0) ''a'') ''a'') ''c'') ''length'')), When (Loose (V 7) (K (JNum 0))) [Do (Call ''kxb'' [Dot (V 0) ''a'', V 1]), Ret (K JUndef)] [], Do (SetV 6 (Call ''JD'' [Call ''lxb'' [Dot (V 0) ''a'', Bin Minus (V 7) (K (JNum 1))], K (JNum 121)])), When (Neg (And (Or (Loose (Dot (V 6) ''e'') (K (JNum 0))) (Loose (Dot (V 6) ''e'') (K (JNum 10)))) (Or (Loose (Dot (V 1) ''e'') (K (JNum 0))) (Loose (Dot (V 1) ''e'') (K (JNum 10)))))) [Do (Call ''kxb'' [Dot (V 0) ''a'', V 1]), Ret (K JUndef)] [], Do (SetV 5 (Cond (Loose (Dot (V 1) ''e'') (K (JNum 0))) (K (JNum 2)) (Dot (Meth (V 1) ''Km'' []) ''length''))), When (Loose (Dot (V 6) ''e'') (K (JNum 0))) [Do (SetV 2 (New ''_gb'' [])), Do (SetV 3 (Meth (V 6) ''Im'' [])), Do (Cond (Bin Ge (V 3) (G ''Hve'')) (Call ''Xgb'' [V 2, Call ''Dqe'' [V 3]]) (Call ''Tgb'' [V 2, Bin BitAnd (V 3) (G ''Pue'')])), Do (SetV 6 (Seq (SetG ''fre'' (Bin Minus (G ''fre'') (K (JNum (- 1))))) (New ''rse'' [K (JNum 10), K JNull, K (JNum 0)]))), Do (Call ''mxb'' [Dot (V 0) ''a'', V 6, Bin Minus (V 7) (K (JNum 1))])] [Do (SetV 2 (Seq (Bin Plus (Dot (Meth (V 6) ''Km'' []) ''length'') (V 5)) (New ''_gb'' []))), Do (Call ''Xgb'' [V 2, Meth (V 6) ''Km'' []])], When (Loose (Dot (V 1) ''e'') (K (JNum 0))) [Do (SetV 3 (Meth (V 1) ''Im'' [])), Do (Cond (Bin Ge (V 3) (G ''Hve'')) (Call ''Xgb'' [V 2, Call ''Dqe'' [V 3]]) (Call ''Tgb'' [V 2, Bin BitAnd (V 3) (G ''Pue'')]))] [Do (Call ''Xgb'' [V 2, Meth (V 1) ''Km'' []])], Do (Put (Call ''JD'' [V 6, K (JNum 518)]) ''b'' (Dot (V 2) ''a''))],
    fn ''snc'' 3 14 [When (Meth (V 2) ''dc'' []) [Ret (K JUndef)] [], Do (SetV 7 (K (JNum 0))), Do (SetV 12 (K (JNum 0))), Do (SetV 3 (Meth (V 2) ''Jc'' [])), Do (SetV 14 (Dot (Call ''JD'' [Meth (V 3) ''Pb'' [], K (JNum 15)]) ''a'')), Loop (Bin Lt (V 7) (Dot (V 1) ''f'')) [When (Loose (V 7) (V 14)) [Do (SetV 12 (K (JNum 0))), Do (Cond (Meth (V 3) ''Ob'' []) (SetV 14 (Dot (Call ''JD'' [Meth (V 3) ''Pb'' [], K (JNum 15)]) ''a'')) (SetV 14 (Bin Plus (Dot (V 1) ''f'') (K (JNum 1)))))] [], When (Neg (Loose (V 7) (V 12))) [Do (SetV 16 (Call ''JD'' [Call ''dmb'' [Dot (V 0) ''b'', V 7], K (JNum 25)])), Do (SetV 13 (Call ''JD'' [Call ''dmb'' [Dot (V 0) ''b'', V 12], K (JNum 25)])), Do (SetV 15 (Call ''Uu'' [Dot (V 16) ''a''])), Do (SetV 11 (New ''Kmb'' [V 15])), Loop (Bin Lt (Dot (V 11) ''a'') (Dot (Dot (Dot (V 11) ''c'') ''c'') ''length'')) [Do (SetV 10 (Call ''JD'' [Call ''Imb'' [V 11], K (JNum 9)])), Do (Call ''MYb'' [V 10, Dot (Dot (Dot (V 13) ''a'') ''c'') ''length'', V 13]), When (Loose (V 12) (K (JNum 0))) [Do (SetV 6 (Call ''Uu'' [Call ''EYb'' [V 10]])), Do (SetV 5 (New ''Kmb'' [V 6])), Loop (Bin Lt (Dot (V 5) ''a'') (Dot (Dot (Dot (V 5) ''c'') ''c'') ''length'')) [Do (SetV 4 (Call ''JD'' [Call ''Imb'' [V 5], K (JNum 17)])), Do (Call ''BWb'' [V 4, K (JBool True)]), Do (Call ''rNb'' [V 0, Seq (Call ''Wrc'' []) (G ''Tqc''), Seq (Call ''Qdb'' []) (K (JBool True))]), Do (Call ''Smc'' [V 0, V 4, K (JNum 1)])] []] []] []] [], Do (SetV 12 (Bin Minus (V 12) (K (JNum (- 1))))), Do (SetV 7 (Bin Minus (V 7) (K (JNum (- 1)))))] [], Do (SetV 8 (New ''Tjb'' [Dot (V 0) ''b'', K (JNum 0)])), Loop (Bin Lt (Dot (V 8) ''b'') (Meth (Dot (V 8) ''d'') ''gc'' [])) [Do (SetV 9 (Seq (Call ''LDb'' [Bin Lt (Dot (V 8) ''b'') (Meth (Dot (V 8) ''d'') ''gc'' [])]) (Call ''JD'' [Meth (Dot (V 8) ''d'') ''Xb'' [Put (V 8) ''c'' (Bin Minus (Put (V 8) ''b'' (Bin Minus (Dot (V 8) ''b'') (K (JNum (- 1))))) (K (JNum 1)))], K (JNum 25)]))), Do (And (Loose (Dot (Dot (Dot (V 9) ''a'') ''c'') ''length'') (K (JNum 0))) (Call ''Mjb'' [V 8]))] []],
    fn ''Ydc'' 3 3 [Do (SetV 4 (Call ''JD'' [Call ''oNb'' [V 1, Seq (Call ''nyc'' []) (G ''zvc'')], K (JNum 283)])), When (Loose (V 4) (Seq (Call ''Hpc'' []) (G ''Fpc''))) [Ret (K JUndef)] [], Do (Meth (V 2) ''Tg'' [K (JStr ''Horizontal Compaction''), K (JNum 1)]), Do (Put (V 0) ''a'' (V 1)), Do (SetV 5 (New ''Eec'' [])), Do (SetV 3 (New ''mFb'' [Seq (Seq (Seq (Seq (Seq (Put (V 5) ''d'' (V 1)) (Put (V 5) ''c'' (Call ''JD'' [Call ''oNb'' [Dot (V 5) ''d'', G ''iwc''], K (JNum 222)]))) (Call ''uec'' [V 5])) (Call ''Cec'' [V 5])) (Call ''Bec'' [V 5])) (Dot (V 5) ''a'')])), Do (Call ''kFb'' [V 3, Dot (V 0) ''b'']), Switch (Dot (Call ''JD'' [Call ''oNb'' [V 1, G ''yvc''], K (JNum 422)]) ''g'') [(Some (JNum 1), [Do (Call ''iFb'' [V 3, New ''Qcc'' [Dot (V 0) ''a'']]), Break]), (None, [Do (Call ''iFb'' [V 3, Seq (Call ''YEb'' []) (G ''WEb'')])])], Switch (Dot (V 4) ''g'') [(Some (JNum 1), [Do (Call ''bFb'' [V 3]), Break]), (Some (JNum 2), [Do (Call ''bFb'' [Call ''aFb'' [V 3, Seq (Call ''Djd'' []) (G ''Ajd'')]]), Break]), (Some (JNum 3), [Do (Call ''bFb'' [Call ''jFb'' [Call ''aFb'' [Call ''bFb'' [V 3], Seq (Call ''Djd'' []) (G ''Ajd'')], New ''gec'' []]]), Break]), (Some (JNum 4), [Do (Call ''bFb'' [Call ''jFb'' [Call ''aFb'' [Call ''bFb'' [V 3], Seq (Call ''Djd'' []) (G ''Ajd'')], New ''iec'' [V 5]]]), Break]), (Some (JNum 5), [Do (Call ''bFb'' [Call ''hFb'' [V 3, G ''Wdc'']])])], Do (Call ''aFb'' [V 3, Seq (Call ''Djd'' []) (G ''zjd'')]), Do (Put (V 3) ''e'' (K (JBool True))), Do (Call ''rec'' [V 5]), Do (Meth (V 2) ''Ug'' [])],
    fn ''rkc'' 2 18 [Do (SetV 6 (Dot (V 1) ''b'')), Do (SetV 10 (Dot (V 6) ''o'')), Do (SetV 8 (Dot (V 6) ''d'')), Do (SetV 3 (Call ''Ueb'' [Call ''MD'' [Call ''RXb'' [V 6, Seq (Call ''nyc'' []) (G ''Ixc'')]]])), Do (SetV 4 (Call ''Ueb'' [Call ''MD'' [Call ''RXb'' [V 6, G ''Kxc'']]])), Do (SetV 9 (Call ''Ueb'' [Call ''MD'' [Call ''RXb'' [V 6, G ''Uxc'']]])), Do (SetV 7 (New ''yYb'' [])), Do (Call ''iYb'' [V 7, Dot (V 8) ''d'', Dot (V 8) ''c'', Dot (V 8) ''a'', Dot (V 8) ''b'']), Do (SetV 12 (Call ''nkc'' [V 1, V 3, V 4, V 9])), Do (SetV 17 (New ''Kmb'' [Dot (V 1) ''d''])), Loop (Bin Lt (Dot (V 17) ''a'') (Dot (Dot (Dot (V 17) ''c'') ''c'') ''length'')) [Do (SetV 16 (Call ''JD'' [Call ''Imb'' [V 17], K (JNum 107)])), Do (SetV 14 (Meth (Meth (Dot (Dot (V 16) ''f'') ''a'') ''ec'' []) ''Jc'' [])), Loop (Meth (V 14) ''Ob'' []) [Do (SetV 13 (Call ''JD'' [Meth (V 14) ''Pb'' [], K (JNum 341)])), Do (SetV 5 (Dot (V 13) ''a'')), Do (SetV 11 (Call ''lkc'' [V 13])), Do (SetV 2 (Seq (Seq (Seq (Seq (SetV 18 (New ''ygd'' [])) (Call ''ikc'' [V 13, Dot (V 13) ''c'', V 12, V 18])) (Call ''hkc'' [V 13, V 11, V 12, V 18])) (Call ''ikc'' [V 13, Dot (V 13) ''d'', V 12, V 18])) (V 18))), Do (SetV 2 (Meth (V 0) ''lg'' [V 13, V 11, V 2])), Do (Call ''cub'' [Dot (V 5) ''a'']), Do (Call ''xe'' [Dot (V 5) ''a'', V 2]), Do (Call ''YBb'' [New ''jCb'' [K JNull, New ''Zvb'' [V 2, K (JNum 16)]], New ''vkc'' [V 10, V 7]])] [], Do (SetV 15 (Dot (V 16) ''i'')), When (V 15) [Do (Call ''qkc'' [V 16, V 15, V 12, V 4]), Do (SetV 19 (New ''mgd'' [Dot (V 15) ''g''])), Do (Call ''skc'' [V 10, V 7, V 19]), Do (Call ''Vfd'' [V 19, Dot (V 15) ''j'']), Do (Call ''skc'' [V 10, V 7, V 19])] []] [], Do (Call ''iYb'' [V 8, Dot (V 7) ''d'', Dot (V 7) ''c'', Dot (V 7) ''a'', Dot (V 7) ''b''])],
    fn ''Ffd'' 2 6 [Do (Call ''qfd'' []), Do (SetV 5 (Bin Minus (Dot (V 1) ''c'') (Bin Plus (Dot (V 0) ''c'') (Dot (V 0) ''b'')))), Do (SetV 4 (Bin Minus (Dot (V 0) ''c'') (Bin Plus (Dot (V 1) ''c'') (Dot (V 1) ''b'')))), Do (SetV 6 (Bin Minus (Dot (V 0) ''d'') (Bin Plus (Dot (V 1) ''d'') (Dot (V 1) ''a'')))), Do (SetV 2 (Bin Minus (Dot (V 1) ''d'') (Bin Plus (Dot (V 0) ''d'') (Dot (V 0) ''a'')))), Do (SetV 3 (Meth (Dot (G ''$wnd'') ''Math'') ''max'' [V 4, V 5])), Do (SetV 7 (Meth (Dot (G ''$wnd'') ''Math'') ''max'' [V 6, V 2])), Do (Call ''Sy'' []), Do (Call ''Wy'' [G ''xCe'']), When (Bin BitXor (Bin Ge (Cond (Or (Or (Bin Le (Meth (Dot (G ''$wnd'') ''Math'') ''abs'' [V 3]) (G ''xCe'')) (Loose (V 3) (K (JNum 0)))) (And (Call ''isNaN'' [V 3]) (Call ''isNaN'' [K (JNum 0)]))) (K (JNum 0)) (Cond (Bin Lt (V 3) (K (JNum 0))) (K (JNum (- 1))) (Cond (Bin Gt (V 3) (K (JNum 0))) (K (JNum 1)) (Call ''Udb'' [Call ''isNaN'' [V 3], Call ''isNaN'' [K (JNum 0)]])))) (K (JNum 0))) (Seq (Seq (K JNull) (Call ''Wy'' [G ''xCe''])) (Bin Ge (Cond (Or (Or (Bin Le (Meth (Dot (G ''$wnd'') ''Math'') ''abs'' [V 7]) (G ''xCe'')) (Loose (V 7) (K (JNum 0)))) (And (Call ''isNaN'' [V 7]) (Call ''isNaN'' [K (JNum 0)]))) (K (JNum 0)) (Cond (Bin Lt (V 7) (K (JNum 0))) (K (JNum (- 1))) (Cond (Bin Gt (V 7) (K (JNum 0))) (K (JNum 1)) (Call ''Udb'' [Call ''isNaN'' [V 7], Call ''isNaN'' [K (JNum 0)]])))) (K (JNum 0))))) [Ret (Meth (Dot (G ''$wnd'') ''Math'') ''max'' [V 7, V 3])] [], Do (Call ''Wy'' [G ''xCe'']), When (Bin Gt (Cond (Or (Or (Bin Le (Meth (Dot (G ''$wnd'') ''Math'') ''abs'' [V 3]) (G ''xCe'')) (Loose (V 3) (K (JNum 0)))) (And (Call ''isNaN'' [V 3]) (Call ''isNaN'' [K (JNum 0)]))) (K (JNum 0)) (Cond (Bin Lt (V 3) (K (JNum 0))) (K (JNum (- 1))) (Cond (Bin Gt (V 3) (K (JNum 0))) (K (JNum 1)) (Call ''Udb'' [Call ''isNaN'' [V 3], Call ''isNaN'' [K (JNum 0)]])))) (K (JNum 0))) [Ret (Meth (Dot (G ''$wnd'') ''Math'') ''sqrt'' [Bin Plus (Bin Times (V 7) (V 7)) (Bin Times (V 3) (V 3))])] [], Ret (Minus1 (Meth (Dot (G ''$wnd'') ''Math'') ''sqrt'' [Bin Plus (Bin Times (V 7) (V 7)) (Bin Times (V 3) (V 3))]))],
    fn ''KKb'' 1 4 [Do (SetV 4 (Dot (V 0) ''o'')), Do (Call ''uKb'' []), When (Or (Meth (Dot (V 0) ''A'') ''dc'' []) (Call ''pb'' [Dot (V 0) ''A'', G ''tKb''])) [Do (SetV 1 (Dot (V 4) ''b''))] [Do (Cond (Dot (V 0) ''D'') (SetV 1 (Meth (Dot (G ''$wnd'') ''Math'') ''max'' [Dot (V 4) ''b'', Call ''BIb'' [Dot (V 0) ''f'']])) (SetV 1 (Call ''BIb'' [Dot (V 0) ''f'']))), When (And (Meth (Dot (V 0) ''A'') ''Gc'' [Seq (Call ''ind'' []) (G ''fnd'')]) (Neg (Meth (Dot (V 0) ''B'') ''Gc'' [Seq (Call ''xnd'' []) (G ''tnd'')]))) [Do (SetV 1 (Meth (Dot (G ''$wnd'') ''Math'') ''max'' [V 1, Call ''BIb'' [Call ''JD'' [Call ''brb'' [Dot (V 0) ''p'', Seq (Call ''Bmd'' []) (G ''gmd'')], K (JNum 253)]]])), Do (SetV 1 (Meth (Dot (G ''$wnd'') ''Math'') ''max'' [V 1, Call ''BIb'' [Call ''JD'' [Call ''brb'' [Dot (V 0) ''p'', G ''Amd''], K (JNum 253)]]]))] [], Do (SetV 2 (Call ''wKb'' [V 0])), Do (And (Neg (Neg (V 2))) (SetV 1 (Meth (Dot (G ''$wnd'') ''Math'') ''max'' [V 1, Dot (V 2) ''b'']))), When (Meth (Dot (V 0) ''A'') ''Gc'' [G ''gnd'']) [When (Or (Loose (Dot (V 0) ''q'') (Seq (Call ''Mld'' []) (G ''Ild''))) (Loose (Dot (V 0) ''q'') (G ''Hld''))) [Do (SetV 1 (Meth (Dot (G ''$wnd'') ''Math'') ''max'' [V 1, Call ''vHb'' [Call ''JD'' [Call ''brb'' [Dot (V 0) ''b'', Seq (Call ''Bmd'' []) (G ''gmd'')], K (JNum 127)]]])), Do (SetV 1 (Meth (Dot (G ''$wnd'') ''Math'') ''max'' [V 1, Call ''vHb'' [Call ''JD'' [Call ''brb'' [Dot (V 0) ''b'', G ''Amd''], K (JNum 127)]]]))] []] []], Do (Cond (Call ''Rdb'' [Call ''LD'' [Meth (Meth (Dot (V 0) ''e'') ''Rf'' []) ''mf'' [Seq (Call ''vjd'' []) (G ''kid'')]]]) (Put (V 4) ''b'' (Meth (Dot (G ''$wnd'') ''Math'') ''max'' [Dot (V 4) ''b'', V 1])) (Put (V 4) ''b'' (V 1))), Do (SetV 3 (Dot (Dot (V 0) ''f'') ''i'')), Do (Put (V 3) ''d'' (K (JNum 0))), Do (Put (V 3) ''a'' (V 1)), Do (Call ''EIb'' [Dot (V 0) ''f''])],
    fn ''a5c'' 8 4 [Do (SetV 8 (Call ''Wu'' [Call ''WC'' [Call ''OC'' [G ''E0'', K (JNum 1)], G ''Gte'', K (JNum 238), K (JNum 0), NewArr [V 1, V 2, V 3, V 4]]])), Do (SetV 11 (K JNull)), Switch (Dot (Dot (V 0) ''b'') ''g'') [(Some (JNum 1), [Do (SetV 11 (Call ''Wu'' [Call ''WC'' [Call ''OC'' [G ''n0'', K (JNum 1)], G ''Gte'', K (JNum 524), K (JNum 0), NewArr [New ''m5c'' [], New ''c5c'' [], New ''e5c'' []]]])), Break]), (Some (JNum 0), [Do (SetV 11 (Call ''Wu'' [Call ''WC'' [Call ''OC'' [G ''n0'', K (JNum 1)], G ''Gte'', K (JNum 524), K (JNum 0), NewArr [New ''e5c'' [], New ''c5c'' [], New ''m5c'' []]]])), Break]), (Some (JNum 2), [Do (SetV 11 (Call ''Wu'' [Call ''WC'' [Call ''OC'' [G ''n0'', K (JNum 1)], G ''Gte'', K (JNum 524), K (JNum 0), NewArr [New ''c5c'' [], New ''m5c'' [], New ''e5c'' []]]]))])], Do (SetV 10 (New ''Kmb'' [V 11])), Loop (Bin Lt (Dot (V 10) ''a'') (Dot (Dot (Dot (V 10) ''c'') ''c'') ''length'')) [Do (SetV 9 (Call ''JD'' [Call ''Imb'' [V 10], K (JNum 524)])), Do (And (Bin Gt (Dot (Dot (V 8) ''c'') ''length'') (K (JNum 1))) (SetV 8 (Meth (V 9) ''Gg'' [V 8, Dot (V 0) ''a'', V 7])))] [], When (Loose (Dot (Dot (V 8) ''c'') ''length'') (K (JNum 1))) [Ret (Call ''JD'' [Call ''dmb'' [V 8, Bin Minus (Dot (Dot (V 8) ''c'') ''length'') (K (JNum 1))], K (JNum 238)])] [], When (Loose (Dot (Dot (V 8) ''c'') ''length'') (K (JNum 2))) [Ret (Call ''_4c'' [Seq (Call ''MDb'' [K (JNum 0), Dot (Dot (V 8) ''c'') ''length'']) (Call ''JD'' [Idx (Dot (V 8) ''c'') (K (JNum 0)), K (JNum 238)]), Seq (Call ''MDb'' [K (JNum 1), Dot (Dot (V 8) ''c'') ''length'']) (Call ''JD'' [Idx (Dot (V 8) ''c'') (K (JNum 1)), K (JNum 238)]), V 6, V 5])] [], Ret (K JNull)]]"

definition code_6005_6009 :: "(string \<times> jfun) list" where
  "code_6005_6009 = [
    fn ''lWc'' 3 7 [Do (Meth (V 2) ''Tg'' [K (JStr ''Find roots''), K (JNum 1)]), Do (Put (Dot (Dot (V 0) ''a'') ''c'') ''length'' (K (JNum 0))), Do (SetV 4 (Call ''Ztb'' [Dot (V 1) ''b'', K (JNum 0)])), Loop (Neg (Loose (Dot (V 4) ''b'') (Dot (Dot (V 4) ''d'') ''c''))) [Do (SetV 3 (Call ''JD'' [Call ''lub'' [V 4], K (JNum 40)])), When (Loose (Dot (Dot (V 3) ''b'') ''b'') (K (JNum 0))) [Do (Call ''rNb'' [V 3, Seq (Call ''_Wc'' []) (G ''YWc''), Seq (Call ''Qdb'' []) (K (JBool True))]), Do (Call ''_lb'' [Dot (V 0) ''a'', V 3])] []] [], Switch (Dot (Dot (Dot (V 0) ''a'') ''c'') ''length'') [(Some (JNum 0), [Do (SetV 5 (New ''MTc'' [K (JNum 0), V 1, K (JStr ''DUMMY_ROOT'')])), Do (Call ''rNb'' [V 5, Seq (Call ''_Wc'' []) (G ''YWc''), Seq (Call ''Qdb'' []) (K (JBool True))]), Do (Call ''rNb'' [V 5, G ''FWc'', K (JBool True)]), Do (Call ''Ttb'' [Dot (V 1) ''b'', V 5]), Break]), (Some (JNum 1), [Break]), (None, [Do (SetV 6 (New ''MTc'' [K (JNum 0), V 1, G ''LCe''])), Do (SetV 8 (New ''Kmb'' [Dot (V 0) ''a''])), Loop (Bin Lt (Dot (V 8) ''a'') (Dot (Dot (Dot (V 8) ''c'') ''c'') ''length'')) [Do (SetV 7 (Call ''JD'' [Call ''Imb'' [V 8], K (JNum 40)])), Do (SetV 9 (New ''FTc'' [V 6, V 7])), Do (Call ''rNb'' [V 9, Seq (Call ''_Wc'' []) (G ''FWc''), Seq (Call ''Qdb'' []) (K (JBool True))]), Do (Call ''Ttb'' [Dot (Dot (V 6) ''a'') ''a'', V 9]), Do (Call ''Ttb'' [Dot (V 6) ''d'', V 9]), Do (Call ''Ttb'' [Dot (V 7) ''b'', V 9]), Do (Call ''rNb'' [V 7, G ''YWc'', K (JBool False)])] [], Do (Call ''rNb'' [V 6, Seq (Call ''_Wc'' []) (G ''YWc''), Seq (Call ''Qdb'' []) (K (JBool True))]), Do (Call ''rNb'' [V 6, G ''FWc'', K (JBool True)]), Do (Call ''Ttb'' [Dot (V 1) ''b'', V 6])])], Do (Meth (V 2) ''Ug'' [])],
    fn ''cMb'' 1 6 [Do (Call ''cmb'' [Dot (V 0) ''a'', New ''iMb'' []]), Do (SetV 2 (New ''Kmb'' [Dot (V 0) ''a''])), Loop (Bin Lt (Dot (V 2) ''a'') (Dot (Dot (Dot (V 2) ''c'') ''c'') ''length'')) [Do (SetV 1 (Call ''JD'' [Call ''Imb'' [V 2], K (JNum 225)])), Do (SetV 3 (Call ''igd'' [Call ''Xfd'' [Dot (Call ''JD'' [Dot (V 0) ''b'', K (JNum 68)]) ''c''], Dot (Call ''JD'' [Dot (V 1) ''b'', K (JNum 68)]) ''c''])), When (G ''$Lb'') [Do (SetV 6 (Dot (Call ''JD'' [Dot (V 0) ''b'', K (JNum 68)]) ''b'')), Do (SetV 5 (Dot (Call ''JD'' [Dot (V 1) ''b'', K (JNum 68)]) ''b'')), When (Bin Ge (Meth (Dot (G ''$wnd'') ''Math'') ''abs'' [Dot (V 3) ''a'']) (Meth (Dot (G ''$wnd'') ''Math'') ''abs'' [Dot (V 3) ''b''])) [Do (Put (V 3) ''b'' (K (JNum 0))), Do (And (And (Bin Gt (Bin Plus (Dot (V 5) ''d'') (Dot (V 5) ''a'')) (Dot (V 6) ''d'')) (Bin Lt (Dot (V 5) ''d'') (Bin Plus (Dot (V 6) ''d'') (Dot (V 6) ''a'')))) (Call ''egd'' [V 3, Meth (Dot (G ''$wnd'') ''Math'') ''max'' [Bin Minus (Dot (V 6) ''c'') (Bin Plus (Dot (V 5) ''c'') (Dot (V 5) ''b'')), Bin Minus (Dot (V 5) ''c'') (Bin Plus (Dot (V 6) ''c'') (Dot (V 6) ''b''))]]))] [Do (Put (V 3) ''a'' (K (JNum 0))), Do (And (And (Bin Gt (Bin Plus (Dot (V 5) ''c'') (Dot (V 5) ''b'')) (Dot (V 6) ''c'')) (Bin Lt (Dot (V 5) ''c'') (Bin Plus (Dot (V 6) ''c'') (Dot (V 6) ''b'')))) (Call ''egd'' [V 3, Meth (Dot (G ''$wnd'') ''Math'') ''max'' [Bin Minus (Dot (V 6) ''d'') (Bin Plus (Dot (V 5) ''d'') (Dot (V 5) ''a'')), Bin Minus (Dot (V 5) ''d'') (Bin Plus (Dot (V 6) ''d'') (Dot (V 6) ''a''))]]))]] [Do (Call ''egd'' [V 3, Call ''uMb'' [Call ''JD'' [Dot (V 0) ''b'', K (JNum 68)], Call ''JD'' [Dot (V 1) ''b'', K (JNum 68)]]])], Do (SetV 4 (Meth (Dot (G ''$wnd'') ''Math'') ''sqrt'' [Bin Plus (Bin Times (Dot (V 3) ''a'') (Dot (V 3) ''a'')) (Bin Times (Dot (V 3) ''b'') (Dot (V 3) ''b''))])), Do (SetV 4 (Call ''eMb'' [G ''_Lb'', V 1, V 4, V 3])), Do (Call ''egd'' [V 3, V 4]), Do (Call ''tMb'' [Call ''JD'' [Dot (V 1) ''b'', K (JNum 68)], V 3]), Do (Call ''cmb'' [Dot (V 1) ''a'', New ''kMb'' [V 3]]), Do (Call ''JD'' [Dot (G ''_Lb'') ''b'', K (JNum 68)]), Do (Call ''dMb'' [G ''_Lb'', G ''aMb'', V 1])] []],
    fn ''cLc'' 1 14 [Do (Put (V 0) ''f'' (New ''fGb'' [])), Do (SetV 9 (K (JNum 0))), Do (SetV 4 (K (JNum 0))), Do (SetV 6 (New ''Kmb'' [Dot (Dot (V 0) ''e'') ''b''])), Loop (Bin Lt (Dot (V 6) ''a'') (Dot (Dot (Dot (V 6) ''c'') ''c'') ''length'')) [Do (SetV 5 (Call ''JD'' [Call ''Imb'' [V 6], K (JNum 25)])), Do (SetV 8 (New ''Kmb'' [Dot (V 5) ''a''])), Loop (Bin Lt (Dot (V 8) ''a'') (Dot (Dot (Dot (V 8) ''c'') ''c'') ''length'')) [Do (SetV 7 (Call ''JD'' [Call ''Imb'' [V 8], K (JNum 9)])), Do (Put (V 7) ''p'' (Bin Minus (SetV 9 (Bin Minus (V 9) (K (JNum (- 1))))) (K (JNum 1)))), Do (SetV 3 (New ''Yr'' [Call ''Dr'' [Meth (Dot (Call ''HYb'' [V 7]) ''a'') ''Jc'' [], New ''Dl'' []]])), Loop (Call ''Wr'' [V 3]) [Do (SetV 2 (Call ''JD'' [Call ''Xr'' [V 3], K (JNum 17)])), Do (Put (V 2) ''p'' (Bin Minus (SetV 4 (Bin Minus (V 4) (K (JNum (- 1))))) (K (JNum 1))))] [], Do (SetV 1 (Call ''kLc'' [V 7])), Do (SetV 12 (New ''Kmb'' [Dot (V 7) ''j''])), Loop (Bin Lt (Dot (V 12) ''a'') (Dot (Dot (Dot (V 12) ''c'') ''c'') ''length'')) [Do (SetV 11 (Call ''JD'' [Call ''Imb'' [V 12], K (JNum 12)])), When (V 1) [Do (SetV 14 (Dot (Dot (V 11) ''a'') ''b'')), When (Neg (Loose (V 14) (Meth (Dot (G ''$wnd'') ''Math'') ''floor'' [V 14]))) [Do (SetV 10 (Bin Minus (V 14) (Call ''fdb'' [Call ''Scb'' [Meth (Dot (G ''$wnd'') ''Math'') ''round'' [V 14]]]))), Do (Put (Dot (V 11) ''a'') ''b'' (Bin Minus (Dot (Dot (V 11) ''a'') ''b'') (V 10)))] []] [], Do (SetV 13 (Bin Plus (Dot (Dot (V 11) ''n'') ''b'') (Dot (Dot (V 11) ''a'') ''b''))), When (Neg (Loose (V 13) (Meth (Dot (G ''$wnd'') ''Math'') ''floor'' [V 13]))) [Do (SetV 10 (Bin Minus (V 13) (Call ''fdb'' [Call ''Scb'' [Meth (Dot (G ''$wnd'') ''Math'') ''round'' [V 13]]]))), Do (Put (Dot (V 11) ''n'') ''b'' (Bin Minus (Dot (Dot (V 11) ''n'') ''b'') (V 10)))] []] []] []] [], Do (Put (V 0) ''g'' (V 9)), Do (Put (V 0) ''b'' (V 4)), Do (Put (V 0) ''i'' (Call ''SC'' [G ''_X'', G ''Gte'', K (JNum 405), V 9, K (JNum 0), K (JNum 1)])), Do (Put (V 0) ''c'' (Call ''SC'' [G ''$X'', G ''Gte'', K (JNum 645), V 4, K (JNum 0), K (JNum 1)])), Do (Meth (Dot (Dot (V 0) ''d'') ''a'') ''$b'' [])],
    fn ''JJd'' 1 9 [When (Meth (V 0) ''Nj'' []) [Do (SetV 8 (Meth (V 0) ''Oj'' [])), When (Bin Gt (Dot (V 0) ''i'') (K (JNum 0))) [Do (SetV 1 (New ''QLd'' [Dot (V 0) ''i'', Dot (V 0) ''g''])), Do (SetV 2 (Dot (V 0) ''i'')), Do (SetV 5 (Cond (Bin Lt (V 2) (K (JNum 100))) (K JNull) (New ''xJd'' [V 2]))), When (Meth (V 0) ''Rj'' []) [Do (SetV 3 (K (JNum 0))), Loop (Bin Lt (V 3) (Dot (V 0) ''i'')) [Do (SetV 6 (Idx (Dot (V 0) ''g'') (V 3))), Do (SetV 5 (Meth (V 0) ''Tj'' [V 6, V 5]))] [Do (SetV 3 (Bin Minus (V 3) (K (JNum (- 1)))))]] [], Do (Call ''dGd'' [V 0]), Do (SetV 4 (Cond (Loose (V 2) (K (JNum 1))) (Meth (V 0) ''Gj'' [K (JNum 4), Call ''fGd'' [V 1, K (JNum 0)], K JNull, K (JNum 0), V 8]) (Meth (V 0) ''Gj'' [K (JNum 6), V 1, K JNull, K (JNum (- 1)), V 8]))), When (Meth (V 0) ''Kj'' []) [Do (SetV 3 (New ''PKd'' [V 1])), Loop (Neg (Loose (Dot (V 3) ''e'') (Meth (Dot (V 3) ''i'') ''gc'' []))) [Do (SetV 5 (Meth (V 0) ''Mj'' [Call ''OKd'' [V 3], V 5]))] [], When (Neg (V 5)) [Do (Meth (V 0) ''Hj'' [V 4])] [Do (Meth (V 5) ''lj'' [V 4]), Do (Meth (V 5) ''mj'' [])]] [When (Neg (V 5)) [Do (Meth (V 0) ''Hj'' [V 4])] [Do (Meth (V 5) ''lj'' [V 4]), Do (Meth (V 5) ''mj'' [])]]] [Do (Call ''dGd'' [V 0]), Do (Meth (V 0) ''Hj'' [Meth (V 0) ''Gj'' [K (JNum 6), Seq (Call ''Inb'' []) (G ''Fnb''), K JNull, K (JNum (- 1)), V 8]])]] [When (Meth (V 0) ''Kj'' []) [When (Bin Gt (Dot (V 0) ''i'') (K (JNum 0))) [Do (SetV 7 (Dot (V 0) ''g'')), Do (SetV 9 (Dot (V 0) ''i'')), Do (Call ''dGd'' [V 0]), Do (SetV 5 (Cond (Bin Lt (V 9) (K (JNum 100))) (K JNull) (New ''xJd'' [V 9]))), Do (SetV 3 (K (JNum 0))), Loop (Bin Lt (V 3) (V 9)) [Do (SetV 6 (Idx (V 7) (V 3))), Do (SetV 5 (Meth (V 0) ''Mj'' [V 6, V 5]))] [Do (SetV 3 (Bin Minus (V 3) (K (JNum (- 1)))))], Do (And (Neg (Neg (V 5))) (Meth (V 5) ''mj'' []))] [Do (Call ''dGd'' [V 0])]] [Do (Call ''dGd'' [V 0])]]],
    fn ''gSc'' 3 10 [Do (Call ''aSc'' [This]), Do (Cond (Loose (V 2) (Seq (Call ''ORc'' []) (G ''MRc''))) (Call ''esb'' [Dot This ''r'', V 0]) (Call ''esb'' [Dot This ''w'', V 0])), Do (SetV 10 (G ''Cve'')), Do (SetV 9 (G ''Dve'')), Do (SetV 6 (Meth (Meth (Dot (V 1) ''a'') ''ec'' []) ''Jc'' [])), Loop (Meth (V 6) ''Ob'' []) [Do (SetV 4 (Call ''JD'' [Meth (V 6) ''Pb'' [], K (JNum 49)])), Do (SetV 7 (Call ''JD'' [Dot (V 4) ''a'', K (JNum 454)])), Do (SetV 3 (Call ''JD'' [Dot (V 4) ''b'', K (JNum 17)])), Do (SetV 8 (Dot (V 3) ''c'')), Do (And (Loose (V 8) (V 0)) (SetV 8 (Dot (V 3) ''d''))), Do (Cond (Loose (V 7) (G ''MRc'')) (Call ''esb'' [Dot This ''r'', V 8]) (Call ''esb'' [Dot This ''w'', V 8])), Do (SetV 12 (Cond (Meth (Seq (Call ''Bmd'' []) (G ''smd'')) ''Gc'' [Dot (V 8) ''j'']) (Call ''Ueb'' [Call ''MD'' [Call ''oNb'' [V 8, Seq (Call ''Wrc'' []) (G ''Mrc'')]]]) (Dot (Call ''rgd'' [Call ''WC'' [Call ''OC'' [G ''r2'', K (JNum 1)], G ''aue'', K (JNum 8), K (JNum 0), NewArr [Dot (Dot (V 8) ''i'') ''n'', Dot (V 8) ''n'', Dot (V 8) ''a'']]]) ''b''))), Do (SetV 10 (Meth (Dot (G ''$wnd'') ''Math'') ''min'' [V 10, V 12])), Do (SetV 9 (Meth (Dot (G ''$wnd'') ''Math'') ''max'' [V 9, V 12]))] [], Do (SetV 11 (Cond (Meth (Seq (Call ''Bmd'' []) (G ''smd'')) ''Gc'' [Dot (V 0) ''j'']) (Call ''Ueb'' [Call ''MD'' [Call ''oNb'' [V 0, Seq (Call ''Wrc'' []) (G ''Mrc'')]]]) (Dot (Call ''rgd'' [Call ''WC'' [Call ''OC'' [G ''r2'', K (JNum 1)], G ''aue'', K (JNum 8), K (JNum 0), NewArr [Dot (Dot (V 0) ''i'') ''n'', Dot (V 0) ''n'', Dot (V 0) ''a'']]]) ''b''))), Do (Call ''eSc'' [This, V 11, V 10, V 9]), Do (SetV 5 (Meth (Meth (Dot (V 1) ''a'') ''ec'' []) ''Jc'' [])), Loop (Meth (V 5) ''Ob'' []) [Do (SetV 4 (Call ''JD'' [Meth (V 5) ''Pb'' [], K (JNum 49)])), Do (Call ''bSc'' [This, Call ''JD'' [Dot (V 4) ''b'', K (JNum 17)]])] [], Do (Put This ''o'' (K (JBool False)))]]"

definition code_6011_6019 :: "(string \<times> jfun) list" where
  "code_6011_6019 = [
    fn ''r4b'' 1 7 [Do (SetV 7 (Call ''JD'' [Call ''dmb'' [Dot (V 0) ''j'', K (JNum 0)], K (JNum 12)])), When (And (Neg (Loose (Dot (Dot (Dot (V 7) ''g'') ''c'') ''length'') (K (JNum 0)))) (Neg (Loose (Dot (Dot (Dot (V 7) ''e'') ''c'') ''length'') (K (JNum 0))))) [Raise (Call ''Lcb'' [New ''nfb'' [K (JStr ''Interactive layout does not support NORTH/SOUTH ports with incoming _and_ outgoing edges.'')]])] [], When (Neg (Loose (Dot (Dot (Dot (V 7) ''g'') ''c'') ''length'') (K (JNum 0)))) [Do (SetV 5 (G ''Cve'')), Do (SetV 2 (New ''Kmb'' [Dot (V 7) ''g''])), Loop (Bin Lt (Dot (V 2) ''a'') (Dot (Dot (Dot (V 2) ''c'') ''c'') ''length'')) [Do (SetV 1 (Call ''JD'' [Call ''Imb'' [V 2], K (JNum 17)])), Do (SetV 6 (Dot (Dot (V 1) ''d'') ''i'')), Do (SetV 3 (Call ''JD'' [Call ''oNb'' [V 6, Seq (Call ''nyc'' []) (G ''Pwc'')], K (JNum 140)])), Do (SetV 5 (Meth (Dot (G ''$wnd'') ''Math'') ''min'' [V 5, Bin Minus (Dot (Dot (V 6) ''n'') ''a'') (Dot (V 3) ''b'')]))] [], Ret (New ''cc'' [Call ''Qb'' [V 5]])] [], When (Neg (Loose (Dot (Dot (Dot (V 7) ''e'') ''c'') ''length'') (K (JNum 0)))) [Do (SetV 4 (G ''Dve'')), Do (SetV 2 (New ''Kmb'' [Dot (V 7) ''e''])), Loop (Bin Lt (Dot (V 2) ''a'') (Dot (Dot (Dot (V 2) ''c'') ''c'') ''length'')) [Do (SetV 1 (Call ''JD'' [Call ''Imb'' [V 2], K (JNum 17)])), Do (SetV 6 (Dot (Dot (V 1) ''c'') ''i'')), Do (SetV 3 (Call ''JD'' [Call ''oNb'' [V 6, Seq (Call ''nyc'' []) (G ''Pwc'')], K (JNum 140)])), Do (SetV 4 (Meth (Dot (G ''$wnd'') ''Math'') ''max'' [V 4, Bin Plus (Bin Plus (Dot (Dot (V 6) ''n'') ''a'') (Dot (Dot (V 6) ''o'') ''a'')) (Dot (V 3) ''c'')]))] [], Ret (New ''cc'' [Call ''Qb'' [V 4]])] [], Ret (Seq (Seq (Call ''wb'' []) (Call ''wb'' [])) (G ''vb''))],
    fn ''lCc'' 3 14 [Do (Meth (V 2) ''Tg'' [K (JStr ''Interactive cycle breaking''), K (JNum 1)]), Do (SetV 11 (New ''lmb'' [])), Do (SetV 13 (New ''Kmb'' [Dot (V 1) ''a''])), Loop (Bin Lt (Dot (V 13) ''a'') (Dot (Dot (Dot (V 13) ''c'') ''c'') ''length'')) [Do (SetV 12 (Call ''JD'' [Call ''Imb'' [V 13], K (JNum 9)])), Do (Put (V 12) ''p'' (K (JNum 1))), Do (SetV 14 (Dot (Call ''GYb'' [V 12]) ''a'')), Do (SetV 10 (Meth (Call ''JYb'' [V 12, Seq (Call ''qAc'' []) (G ''oAc'')]) ''Jc'' [])), Loop (Meth (V 10) ''Ob'' []) [Do (SetV 9 (Call ''JD'' [Meth (V 10) ''Pb'' [], K (JNum 12)])), Do (SetV 5 (New ''Kmb'' [Dot (V 9) ''g''])), Loop (Bin Lt (Dot (V 5) ''a'') (Dot (Dot (Dot (V 5) ''c'') ''c'') ''length'')) [Do (SetV 3 (Call ''JD'' [Call ''Imb'' [V 5], K (JNum 17)])), Do (SetV 15 (Dot (Dot (V 3) ''d'') ''i'')), When (Neg (Loose (V 15) (V 12))) [Do (SetV 16 (Dot (Call ''GYb'' [V 15]) ''a'')), Do (And (Bin Lt (V 16) (V 14)) (Seq (Call ''qDb'' [Dot (V 11) ''c'', V 3]) (K (JBool True))))] []] []] []] [], Do (SetV 6 (New ''Kmb'' [V 11])), Loop (Bin Lt (Dot (V 6) ''a'') (Dot (Dot (Dot (V 6) ''c'') ''c'') ''length'')) [Do (SetV 3 (Call ''JD'' [Call ''Imb'' [V 6], K (JNum 17)])), Do (Call ''BWb'' [V 3, K (JBool True)])] [], Do (Put (Dot (V 11) ''c'') ''length'' (K (JNum 0))), Do (SetV 8 (New ''Kmb'' [Dot (V 1) ''a''])), Loop (Bin Lt (Dot (V 8) ''a'') (Dot (Dot (Dot (V 8) ''c'') ''c'') ''length'')) [Do (SetV 7 (Call ''JD'' [Call ''Imb'' [V 8], K (JNum 9)])), Do (And (Bin Gt (Dot (V 7) ''p'') (K (JNum 0))) (Call ''kCc'' [V 0, V 7, V 11]))] [], Do (SetV 4 (New ''Kmb'' [V 11])), Loop (Bin Lt (Dot (V 4) ''a'') (Dot (Dot (Dot (V 4) ''c'') ''c'') ''length'')) [Do (SetV 3 (Call ''JD'' [Call ''Imb'' [V 4], K (JNum 17)])), Do (Call ''BWb'' [V 3, K (JBool True)])] [], Do (Put (Dot (V 11) ''c'') ''length'' (K (JNum 0))), Do (Meth (V 2) ''Ug'' [])],
    fn ''pXd'' 2 7 [When (Meth (V 0) ''ml'' []) [When (Bin Gt (Dot (V 0) ''i'') (K (JNum 4))) [When (Meth (V 0) ''dk'' [V 1]) [When (Meth (V 0) ''$k'' []) [Do (SetV 4 (Call ''JD'' [V 1, K (JNum 52)])), Do (SetV 3 (Meth (V 4) ''Bh'' [])), Do (SetV 8 (And (Loose (V 3) (Dot (V 0) ''e'')) (Cond (Meth (V 0) ''kl'' []) (Loose (Meth (V 4) ''vh'' [Meth (V 4) ''Ch'' [], Meth (V 0) ''gl'' []]) (Meth (V 0) ''hl'' [])) (Loose (Bin Minus (K (JNum (- 1))) (Meth (V 4) ''Ch'' [])) (Meth (V 0) ''Jj'' []))))), When (And (And (And (Meth (V 0) ''ll'' []) (Neg (V 8))) (Neg (V 3))) (Neg (Neg (Meth (V 4) ''Gh'' [])))) [Do (SetV 5 (K (JNum 0))), Loop (Bin Lt (V 5) (Dot (V 0) ''i'')) [Do (SetV 2 (Meth (V 0) ''nl'' [Call ''JD'' [Idx (Dot (V 0) ''g'') (V 5), K (JNum 57)]])), When (Same (Call ''XD'' [V 2]) (Call ''XD'' [V 1])) [Ret (K (JBool True))] []] [Do (SetV 5 (Bin Minus (V 5) (K (JNum (- 1)))))]] [], Ret (V 8)] [When (And (Meth (V 0) ''kl'' []) (Neg (Meth (V 0) ''jl'' []))) [Do (SetV 6 (Meth (Call ''JD'' [V 1, K (JNum 57)]) ''Jh'' [Call ''k4d'' [Call ''JD'' [Meth (V 0) ''Jk'' [], K (JNum 19)]]])), When (Same (Call ''XD'' [V 6]) (Call ''XD'' [Dot (V 0) ''e''])) [Ret (K (JBool True))] [When (Or (Loose (V 6) (K JNull)) (Neg (Meth (Call ''JD'' [V 6, K (JNum 57)]) ''Sh'' []))) [Ret (K (JBool False))] []]] []]] [Ret (K (JBool False))]] [], Do (SetV 7 (Call ''eGd'' [V 0, V 1])), When (And (Meth (V 0) ''ll'' []) (Neg (V 7))) [Do (SetV 5 (K (JNum 0))), Loop (Bin Lt (V 5) (Dot (V 0) ''i'')) [Do (SetV 4 (Meth (V 0) ''nl'' [Call ''JD'' [Idx (Dot (V 0) ''g'') (V 5), K (JNum 57)]])), When (Same (Call ''XD'' [V 4]) (Call ''XD'' [V 1])) [Ret (K (JBool True))] []] [Do (SetV 5 (Bin Minus (V 5) (K (JNum (- 1)))))]] [], Ret (V 7)] [Ret (Call ''eGd'' [V 0, V 1])]],
    fn ''XIc'' 2 9 [Do (SetV 2 (K (JNum 0))), Do (SetV 10 (New ''lmb'' [])), Do (SetV 7 (New ''Kmb'' [V 1])), Loop (Bin Lt (Dot (V 7) ''a'') (Dot (Dot (Dot (V 7) ''c'') ''c'') ''length'')) [Do (SetV 6 (Call ''JD'' [Call ''Imb'' [V 7], K (JNum 12)])), Do (Call ''JIc'' [Dot (V 0) ''b'', Idx (Dot (V 0) ''d'') (Dot (V 6) ''p'')]), Do (Put (Dot (V 10) ''c'') ''length'' (K (JNum 0))), Switch (Dot (Dot (Dot (V 6) ''i'') ''k'') ''g'') [(Some (JNum 0), [Do (SetV 3 (Call ''JD'' [Call ''oNb'' [V 6, Seq (Call ''Wrc'' []) (G ''Crc'')], K (JNum 9)])), Do (Call ''cmb'' [Dot (V 3) ''j'', New ''GJc'' [V 10]]), Break]), (Some (JNum 1), [Do (Call ''Tub'' [Call ''WBb'' [Call ''VBb'' [New ''jCb'' [K JNull, New ''Zvb'' [Dot (Dot (V 6) ''i'') ''j'', K (JNum 16)]], New ''IJc'' [V 6]]], New ''LJc'' [V 10]]), Break]), (Some (JNum 3), [Do (SetV 4 (Call ''JD'' [Call ''oNb'' [V 6, Seq (Call ''Wrc'' []) (G ''urc'')], K (JNum 12)])), Do (Call ''_lb'' [V 10, New ''prd'' [V 4, Call ''Cfb'' [Bin Plus (Dot (Dot (Dot (V 6) ''e'') ''c'') ''length'') (Dot (Dot (Dot (V 6) ''g'') ''c'') ''length'')]]])])], Do (SetV 9 (New ''Kmb'' [V 10])), Loop (Bin Lt (Dot (V 9) ''a'') (Dot (Dot (Dot (V 9) ''c'') ''c'') ''length'')) [Do (SetV 8 (Call ''JD'' [Call ''Imb'' [V 9], K (JNum 49)])), Do (SetV 5 (Call ''jJc'' [V 0, Call ''JD'' [Dot (V 8) ''a'', K (JNum 12)]])), When (Bin Gt (V 5) (Idx (Dot (V 0) ''d'') (Dot (V 6) ''p''))) [Do (SetV 2 (Bin Plus (V 2) (Bin Times (Call ''IIc'' [Dot (V 0) ''b'', V 5]) (Dot (Call ''JD'' [Dot (V 8) ''b'', K (JNum 15)]) ''a'')))), Do (Call ''rlb'' [Dot (V 0) ''a'', Call ''Cfb'' [V 5]])] []] [], Loop (Neg (Call ''xlb'' [Dot (V 0) ''a''])) [Do (Call ''GIc'' [Dot (V 0) ''b'', Dot (Call ''JD'' [Call ''Clb'' [Dot (V 0) ''a''], K (JNum 15)]) ''a''])] []] [], Ret (V 2)],
    fn ''rCc'' 2 15 [Do (Meth (V 1) ''Tg'' [G ''oCe'', K (JNum 1)]), Do (SetV 13 (New ''lmb'' [])), Do (SetV 10 (Meth (Dot (G ''$wnd'') ''Math'') ''max'' [Dot (Dot (Dot (V 0) ''a'') ''c'') ''length'', Dot (Call ''JD'' [Call ''oNb'' [V 0, Seq (Call ''Wrc'' []) (G ''rrc'')], K (JNum 15)]) ''a''])), Do (SetV 2 (Bin Times (V 10) (Dot (Call ''JD'' [Call ''oNb'' [V 0, G ''Nqc''], K (JNum 15)]) ''a''))), Do (SetV 7 (Same (Call ''XD'' [Call ''oNb'' [V 0, Seq (Call ''nyc'' []) (G ''Dvc'')]]) (Call ''XD'' [Seq (Call ''nqc'' []) (G ''kqc'')]))), Do (SetV 15 (New ''Kmb'' [Dot (V 0) ''a''])), Loop (Bin Lt (Dot (V 15) ''a'') (Dot (Dot (Dot (V 15) ''c'') ''c'') ''length'')) [Do (SetV 14 (Call ''JD'' [Call ''Imb'' [V 15], K (JNum 9)])), Do (SetV 3 (New ''hCc'' [])), Do (SetV 8 (Cond (V 7) (Call ''fCc'' [V 3, V 14, V 2, V 10]) (Call ''gCc'' [V 3, V 14, V 10]))), Do (SetV 12 (Meth (Call ''JYb'' [V 14, Seq (Call ''qAc'' []) (G ''oAc'')]) ''Jc'' [])), Loop (Meth (V 12) ''Ob'' []) [Do (SetV 11 (Call ''JD'' [Meth (V 12) ''Pb'' [], K (JNum 12)])), Do (SetV 6 (New ''Kmb'' [Dot (V 11) ''g''])), Loop (Bin Lt (Dot (V 6) ''a'') (Dot (Dot (Dot (V 6) ''c'') ''c'') ''length'')) [Do (SetV 4 (Call ''JD'' [Call ''Imb'' [V 6], K (JNum 17)])), Do (SetV 16 (Dot (Dot (V 4) ''d'') ''i'')), Do (SetV 9 (Cond (V 7) (Call ''fCc'' [V 3, V 16, V 2, V 10]) (Call ''gCc'' [V 3, V 16, V 10]))), Do (And (Bin Lt (V 9) (V 8)) (Seq (Call ''qDb'' [Dot (V 13) ''c'', V 4]) (K (JBool True))))] []] []] [], Do (SetV 5 (New ''Kmb'' [V 13])), Loop (Bin Lt (Dot (V 5) ''a'') (Dot (Dot (Dot (V 5) ''c'') ''c'') ''length'')) [Do (SetV 4 (Call ''JD'' [Call ''Imb'' [V 5], K (JNum 17)])), Do (Call ''BWb'' [V 4, K (JBool True)]), Do (Call ''rNb'' [V 0, G ''Tqc'', Seq (Call ''Qdb'' []) (K (JBool True))])] [], Do (Put (Dot (V 13) ''c'') ''length'' (K (JNum 0))), Do (Meth (V 1) ''Ug'' [])],
    fn ''hHd'' 1 3 [Do (Call ''tdd'' [G ''aHd'', Call ''WC'' [Call ''OC'' [G ''H1'', K (JNum 1)], G ''Gte'', K (JNum 148), K (JNum 0), NewArr [New ''wjd'' []]]]), Do (SetV 2 (New ''FB'' [V 0])), Do (SetV 3 (K (JNum 0))), Loop (Bin Lt (V 3) (Dot (Dot (V 2) ''a'') ''length'')) [Do (SetV 1 (Dot (Meth (Call ''BB'' [V 2, V 3]) ''re'' []) ''a'')), Do (Cond (Call ''vgb'' [V 1, K (JStr ''layered'')]) (Call ''tdd'' [G ''aHd'', Call ''WC'' [Call ''OC'' [G ''H1'', K (JNum 1)], G ''Gte'', K (JNum 148), K (JNum 0), NewArr [New ''rvc'' []]]]) (Cond (Call ''vgb'' [V 1, K (JStr ''force'')]) (Call ''tdd'' [G ''aHd'', Call ''WC'' [Call ''OC'' [G ''H1'', K (JNum 1)], G ''Gte'', K (JNum 148), K (JNum 0), NewArr [New ''rOb'' []]]]) (Cond (Call ''vgb'' [V 1, K (JStr ''stress'')]) (Call ''tdd'' [G ''aHd'', Call ''WC'' [Call ''OC'' [G ''H1'', K (JNum 1)], G ''Gte'', K (JNum 148), K (JNum 0), NewArr [New ''tPb'' []]]]) (Cond (Call ''vgb'' [V 1, K (JStr ''mrtree'')]) (Call ''tdd'' [G ''aHd'', Call ''WC'' [Call ''OC'' [G ''H1'', K (JNum 1)], G ''Gte'', K (JNum 148), K (JNum 0), NewArr [New ''lXc'' []]]]) (Cond (Call ''vgb'' [V 1, K (JStr ''radial'')]) (Call ''tdd'' [G ''aHd'', Call ''WC'' [Call ''OC'' [G ''H1'', K (JNum 1)], G ''Gte'', K (JNum 148), K (JNum 0), NewArr [New ''n1c'' []]]]) (Cond (Or (Call ''vgb'' [V 1, K (JStr ''sporeOverlap'')]) (Call ''vgb'' [V 1, K (JStr ''sporeCompaction'')])) (Call ''tdd'' [G ''aHd'', Call ''WC'' [Call ''OC'' [G ''H1'', K (JNum 1)], G ''Gte'', K (JNum 148), K (JNum 0), NewArr [New ''H9c'' []]]]) (And (Call ''vgb'' [V 1, K (JStr ''rectpacking'')]) (Call ''tdd'' [G ''aHd'', Call ''WC'' [Call ''OC'' [G ''H1'', K (JNum 1)], G ''Gte'', K (JNum 148), K (JNum 0), NewArr [New ''p4c'' []]]]))))))))] [Do (SetV 3 (Bin Minus (V 3) (K (JNum (- 1)))))]],
    fn ''j3b'' 2 10 [Do (SetV 10 (Call ''JD'' [Call ''oNb'' [V 0, Seq (Call ''Wrc'' []) (G ''$qc'')], K (JNum 64)])), Do (SetV 3 (Call ''JD'' [Call ''dmb'' [Dot (V 0) ''j'', K (JNum 0)], K (JNum 12)])), Do (Cond (Loose (V 10) (Seq (Call ''Bmd'' []) (G ''hmd''))) (Call ''xZb'' [V 3, G ''ymd'']) (And (Loose (V 10) (G ''ymd'')) (Call ''xZb'' [V 3, G ''hmd'']))), When (Meth (Call ''JD'' [Call ''oNb'' [V 1, Seq (Call ''nyc'' []) (G ''axc'')], K (JNum 182)]) ''Gc'' [Seq (Call ''ind'' []) (G ''hnd'')]) [Do (SetV 8 (Call ''Ueb'' [Call ''MD'' [Call ''oNb'' [V 0, G ''Qxc'']]])), Do (SetV 9 (Call ''Ueb'' [Call ''MD'' [Call ''oNb'' [V 0, G ''Rxc'']]])), Do (SetV 6 (Call ''Ueb'' [Call ''MD'' [Call ''oNb'' [V 0, G ''Oxc'']]])), Do (SetV 7 (Call ''JD'' [Call ''oNb'' [V 1, G ''txc''], K (JNum 22)])), When (Meth (V 7) ''Gc'' [Seq (Call ''$ld'' []) (G ''Wld'')]) [Do (SetV 2 (V 9)), Do (SetV 11 (Bin Minus (Bin Divide (Dot (Dot (V 0) ''o'') ''a'') (K (JNum 2))) (Dot (Dot (V 3) ''n'') ''a''))), Do (SetV 5 (New ''Kmb'' [Dot (V 3) ''f''])), Loop (Bin Lt (Dot (V 5) ''a'') (Dot (Dot (Dot (V 5) ''c'') ''c'') ''length'')) [Do (SetV 4 (Call ''JD'' [Call ''Imb'' [V 5], K (JNum 70)])), Do (Put (Dot (V 4) ''n'') ''b'' (V 2)), Do (Put (Dot (V 4) ''n'') ''a'' (Bin Minus (V 11) (Bin Divide (Dot (Dot (V 4) ''o'') ''a'') (K (JNum 2))))), Do (SetV 2 (Bin Plus (V 2) (Bin Plus (Dot (Dot (V 4) ''o'') ''b'') (V 6))))] []] [When (Meth (V 7) ''Gc'' [G ''Yld'']) [Do (SetV 5 (New ''Kmb'' [Dot (V 3) ''f''])), Loop (Bin Lt (Dot (V 5) ''a'') (Dot (Dot (Dot (V 5) ''c'') ''c'') ''length'')) [Do (SetV 4 (Call ''JD'' [Call ''Imb'' [V 5], K (JNum 70)])), Do (Put (Dot (V 4) ''n'') ''a'' (Bin Minus (Bin Plus (V 8) (Dot (Dot (V 0) ''o'') ''a'')) (Dot (Dot (V 3) ''n'') ''a'')))] []] []], Do (Call ''qHb'' [New ''sHb'' [Seq (Call ''OWb'' []) (New ''$Wb'' [V 1, K (JBool False), K (JBool False), New ''GXb'' []])], New ''kXb'' [K JNull, V 0, K (JBool False)]])] []],
    fn ''Aec'' 2 9 [When (Loose (Dot (Dot (V 1) ''c'') ''length'') (K (JNum 0))) [Ret (K JUndef)] [], Do (Call ''Inb'' []), Do (Call ''gnb'' [Dot (V 1) ''c'', Dot (Dot (V 1) ''c'') ''length'', K JNull]), Do (SetV 4 (New ''Kmb'' [V 1])), Do (SetV 3 (Call ''JD'' [Call ''Imb'' [V 4], K (JNum 156)])), Loop (Bin Lt (Dot (V 4) ''a'') (Dot (Dot (Dot (V 4) ''c'') ''c'') ''length'')) [Do (SetV 2 (Call ''JD'' [Call ''Imb'' [V 4], K (JNum 156)])), When (And (Call ''KEb'' [Dot (Dot (V 3) ''e'') ''c'', Dot (Dot (V 2) ''e'') ''c'']) (Neg (Or (Call ''NEb'' [Dot (Call ''Hfd'' [Dot (V 3) ''e'']) ''b'', Dot (Dot (V 2) ''e'') ''d'']) (Call ''NEb'' [Dot (Call ''Hfd'' [Dot (V 2) ''e'']) ''b'', Dot (Dot (V 3) ''e'') ''d''])))) [Do (SetV 3 (Seq (Seq (Seq (Seq (Seq (Seq (Seq (Seq (Seq (Seq (Seq (Seq (Seq (Seq (Seq (Seq (Seq (Call ''bmb'' [Dot (V 3) ''k'', Dot (V 2) ''k'']) (Call ''bmb'' [Dot (V 3) ''b'', Dot (V 2) ''b''])) (Call ''bmb'' [Dot (V 3) ''c'', Dot (V 2) ''c''])) (Call ''xe'' [Dot (V 3) ''i'', Dot (V 2) ''i''])) (Call ''bmb'' [Dot (V 3) ''d'', Dot (V 2) ''d''])) (Call ''bmb'' [Dot (V 3) ''j'', Dot (V 2) ''j''])) (SetV 5 (Meth (Dot (G ''$wnd'') ''Math'') ''min'' [Dot (Dot (V 3) ''e'') ''c'', Dot (Dot (V 2) ''e'') ''c'']))) (SetV 6 (Meth (Dot (G ''$wnd'') ''Math'') ''min'' [Dot (Dot (V 3) ''e'') ''d'', Dot (Dot (V 2) ''e'') ''d'']))) (SetV 7 (Meth (Dot (G ''$wnd'') ''Math'') ''max'' [Bin Plus (Dot (Dot (V 3) ''e'') ''c'') (Dot (Dot (V 3) ''e'') ''b''), Bin Plus (Dot (Dot (V 2) ''e'') ''c'') (Dot (Dot (V 2) ''e'') ''b'')]))) (SetV 8 (Bin Minus (V 7) (V 5)))) (SetV 9 (Meth (Dot (G ''$wnd'') ''Math'') ''max'' [Bin Plus (Dot (Dot (V 3) ''e'') ''d'') (Dot (Dot (V 3) ''e'') ''a''), Bin Plus (Dot (Dot (V 2) ''e'') ''d'') (Dot (Dot (V 2) ''e'') ''a'')]))) (SetV 10 (Bin Minus (V 9) (V 6)))) (Call ''Mfd'' [Dot (V 3) ''e'', V 5, V 6, V 8, V 10])) (Call ''rFb'' [Dot (V 3) ''f'', Dot (V 2) ''f''])) (And (Neg (Dot (V 3) ''a'')) (Put (V 3) ''a'' (Dot (V 2) ''a'')))) (Call ''bmb'' [Dot (V 3) ''g'', Dot (V 2) ''g''])) (Call ''_lb'' [Dot (V 3) ''g'', V 2])) (V 3)))] [Do (Call ''Dec'' [V 0, V 3]), Do (SetV 3 (V 2))]] [], Do (Call ''Dec'' [V 0, V 3])],
    fn ''fWb'' 4 18 [Do (SetV 8 (New ''lmb'' [])), Do (SetV 5 (New ''Kmb'' [Dot (V 1) ''a''])), Loop (Bin Lt (Dot (V 5) ''a'') (Dot (Dot (Dot (V 5) ''c'') ''c'') ''length'')) [Do (SetV 4 (Call ''JD'' [Call ''Imb'' [V 5], K (JNum 9)])), Do (SetV 7 (New ''Kmb'' [Dot (V 4) ''j''])), Loop (Bin Lt (Dot (V 7) ''a'') (Dot (Dot (Dot (V 7) ''c'') ''c'') ''length'')) [Do (SetV 6 (Call ''JD'' [Call ''Imb'' [V 7], K (JNum 12)])), Do (SetV 10 (K JNull)), Do (Seq (Seq (SetV 19 (Call ''ZXb'' [Dot (V 6) ''g''])) (SetV 20 (K (JNum 0)))) (SetV 21 (Dot (V 19) ''length''))), Loop (Bin Lt (V 20) (V 21)) [Do (SetV 18 (Idx (V 19) (V 20))), When (Neg (Call ''UXb'' [Dot (Dot (V 18) ''d'') ''i'', V 2])) [Do (SetV 17 (Call ''aWb'' [V 0, V 1, V 2, V 18, Dot (V 18) ''c'', Seq (Call ''qAc'' []) (G ''oAc''), V 10])), Do (And (Neg (Loose (V 17) (V 10))) (Seq (Call ''qDb'' [Dot (V 8) ''c'', V 17]) (K (JBool True)))), Do (And (Dot (V 17) ''c'') (SetV 10 (V 17)))] []] [Do (SetV 20 (Bin Minus (V 20) (K (JNum (- 1)))))], Do (SetV 9 (K JNull)), Do (Seq (Seq (SetV 14 (Call ''ZXb'' [Dot (V 6) ''e''])) (SetV 15 (K (JNum 0)))) (SetV 16 (Dot (V 14) ''length''))), Loop (Bin Lt (V 15) (V 16)) [Do (SetV 13 (Idx (V 14) (V 15))), When (Neg (Call ''UXb'' [Dot (Dot (V 13) ''c'') ''i'', V 2])) [Do (SetV 17 (Call ''aWb'' [V 0, V 1, V 2, V 13, Dot (V 13) ''d'', Seq (Call ''qAc'' []) (G ''nAc''), V 9])), Do (And (Neg (Loose (V 17) (V 9))) (Seq (Call ''qDb'' [Dot (V 8) ''c'', V 17]) (K (JBool True)))), Do (And (Dot (V 17) ''c'') (SetV 9 (V 17)))] []] [Do (SetV 15 (Bin Minus (V 15) (K (JNum (- 1)))))]] []] [], Do (SetV 12 (New ''Kmb'' [V 8])), Loop (Bin Lt (Dot (V 12) ''a'') (Dot (Dot (Dot (V 12) ''c'') ''c'') ''length'')) [Do (SetV 11 (Call ''JD'' [Call ''Imb'' [V 12], K (JNum 444)])), Do (Or (Neg (Loose (Call ''emb'' [Dot (V 1) ''a'', Dot (V 11) ''a'', K (JNum 0)]) (K (JNum (- 1))))) (Call ''_lb'' [Dot (V 1) ''a'', Dot (V 11) ''a''])), Do (And (Dot (V 11) ''c'') (Seq (Call ''qDb'' [Dot (V 3) ''c'', V 11]) (K (JBool True))))] []]]"

definition code_6022_6026 :: "(string \<times> jfun) list" where
  "code_6022_6026 = [
    fn ''TXb'' 4 6 [Do (SetV 7 (Dot (V 0) ''j'')), When (And (And (Loose (V 7) (Seq (Call ''Bmd'' []) (G ''zmd''))) (Neg (Loose (V 1) (Seq (Call ''Mld'' []) (G ''Kld''))))) (Neg (Loose (V 1) (Seq (Call ''Mld'' []) (G ''Lld''))))) [Do (SetV 7 (Call ''JXb'' [V 0, V 2])), Do (Call ''xZb'' [V 0, V 7]), Do (And (And (And (Neg (Meth (Cond (Neg (Dot (V 0) ''q'')) (Seq (Seq (Call ''Inb'' []) (Call ''Inb'' [])) (G ''Gnb'')) (Dot (V 0) ''q'')) ''_b'' [Seq (Call ''nyc'' []) (G ''pxc'')])) (Neg (Loose (V 7) (G ''zmd'')))) (Or (Neg (Loose (Dot (Dot (V 0) ''n'') ''a'') (K (JNum 0)))) (Neg (Loose (Dot (Dot (V 0) ''n'') ''b'') (K (JNum 0)))))) (Call ''rNb'' [V 0, G ''pxc'', Call ''IXb'' [V 0, V 7]]))] [], When (Loose (V 1) (Seq (Call ''Mld'' []) (G ''Ild''))) [Do (SetV 9 (K (JNum 0))), Switch (Dot (V 7) ''g'') [(Some (JNum 1), []), (Some (JNum 3), [Do (SetV 5 (Dot (Dot (Dot (V 0) ''i'') ''o'') ''a'')), Do (And (Bin Gt (V 5) (K (JNum 0))) (SetV 9 (Bin Divide (Dot (Dot (V 0) ''n'') ''a'') (V 5)))), Break]), (Some (JNum 2), []), (Some (JNum 4), [Do (SetV 4 (Dot (Dot (Dot (V 0) ''i'') ''o'') ''b'')), Do (And (Bin Gt (V 4) (K (JNum 0))) (SetV 9 (Bin Divide (Dot (Dot (V 0) ''n'') ''b'') (V 4))))])], Do (Call ''rNb'' [V 0, Seq (Call ''Wrc'' []) (G ''Drc''), V 9])] [], Do (SetV 8 (Dot (V 0) ''o'')), Do (SetV 6 (Dot (V 0) ''a'')), When (V 3) [Do (Put (V 6) ''a'' (Dot (V 3) ''a'')), Do (Put (V 6) ''b'' (Dot (V 3) ''b'')), Do (Put (V 0) ''d'' (K (JBool True)))] [When (And (And (Neg (Loose (V 1) (G ''Kld''))) (Neg (Loose (V 1) (G ''Lld'')))) (Neg (Loose (V 7) (G ''zmd'')))) [Switch (Dot (V 7) ''g'') [(Some (JNum 1), [Do (Put (V 6) ''a'' (Bin Divide (Dot (V 8) ''a'') (K (JNum 2)))), Break]), (Some (JNum 2), [Do (Put (V 6) ''a'' (Dot (V 8) ''a'')), Do (Put (V 6) ''b'' (Bin Divide (Dot (V 8) ''b'') (K (JNum 2)))), Break]), (Some (JNum 3), [Do (Put (V 6) ''a'' (Bin Divide (Dot (V 8) ''a'') (K (JNum 2)))), Do (Put (V 6) ''b'' (Dot (V 8) ''b'')), Break]), (Some (JNum 4), [Do (Put (V 6) ''b'' (Bin Divide (Dot (V 8) ''b'') (K (JNum 2))))])]] [Do (Put (V 6) ''a'' (Bin Divide (Dot (V 8) ''a'') (K (JNum 2)))), Do (Put (V 6) ''b'' (Bin Divide (Dot (V 8) ''b'') (K (JNum 2))))]]],
    fn ''kId'' 1 10 [When (Meth (V 0) ''Nj'' []) [Do (SetV 10 (Meth (V 0) ''Cj'' [])), Do (SetV 8 (Meth (V 0) ''Oj'' [])), When (Bin Gt (V 10) (K (JNum 0))) [Do (SetV 1 (New ''pGd'' [Meth (V 0) ''nj'' []])), Do (SetV 2 (V 10)), Do (SetV 5 (Cond (Bin Lt (V 2) (K (JNum 100))) (K JNull) (New ''xJd'' [V 2]))), Do (Call ''rHd'' [V 0, V 2, Dot (V 1) ''g'']), Do (SetV 4 (Cond (Loose (V 2) (K (JNum 1))) (Meth (V 0) ''Gj'' [K (JNum 4), Call ''fGd'' [V 1, K (JNum 0)], K JNull, K (JNum 0), V 8]) (Meth (V 0) ''Gj'' [K (JNum 6), V 1, K JNull, K (JNum (- 1)), V 8]))), When (Meth (V 0) ''Kj'' []) [Do (SetV 3 (New ''uKd'' [V 1])), Loop (Neg (Loose (Dot (V 3) ''e'') (Meth (Dot (V 3) ''i'') ''gc'' []))) [Do (SetV 5 (Meth (V 0) ''Mj'' [Call ''sKd'' [V 3], V 5]))] [], When (Neg (V 5)) [Do (Meth (V 0) ''Hj'' [V 4])] [Do (Meth (V 5) ''lj'' [V 4]), Do (Meth (V 5) ''mj'' [])]] [When (Neg (V 5)) [Do (Meth (V 0) ''Hj'' [V 4])] [Do (Meth (V 5) ''lj'' [V 4]), Do (Meth (V 5) ''mj'' [])]]] [Do (Call ''rHd'' [V 0, Meth (V 0) ''Cj'' [], Meth (V 0) ''Dj'' []]), Do (Meth (V 0) ''Hj'' [Meth (V 0) ''Gj'' [K (JNum 6), Seq (Call ''Inb'' []) (G ''Fnb''), K JNull, K (JNum (- 1)), V 8]])]] [When (Meth (V 0) ''Kj'' []) [Do (SetV 10 (Meth (V 0) ''Cj'' [])), When (Bin Gt (V 10) (K (JNum 0))) [Do (SetV 7 (Meth (V 0) ''Dj'' [])), Do (SetV 9 (V 10)), Do (Call ''rHd'' [V 0, V 10, V 7]), Do (SetV 5 (Cond (Bin Lt (V 9) (K (JNum 100))) (K JNull) (New ''xJd'' [V 9]))), Do (SetV 3 (K (JNum 0))), Loop (Bin Lt (V 3) (V 9)) [Do (SetV 6 (Idx (V 7) (V 3))), Do (SetV 5 (Meth (V 0) ''Mj'' [V 6, V 5]))] [Do (SetV 3 (Bin Minus (V 3) (K (JNum (- 1)))))], Do (And (Neg (Neg (V 5))) (Meth (V 5) ''mj'' []))] [Do (Call ''rHd'' [V 0, Meth (V 0) ''Cj'' [], Meth (V 0) ''Dj'' []])]] [Do (Call ''rHd'' [V 0, Meth (V 0) ''Cj'' [], Meth (V 0) ''Dj'' []])]]],
    fn ''Hod'' 5 12 [Do (SetV 7 (Call ''SC'' [G ''aE'', G ''Jve'', K (JNum 30), Dot (Dot (V 0) ''c'') ''length'', K (JNum 15), K (JNum 1)])), Do (SetV 12 (New ''wvb'' [New ''qpd'' []])), Do (Call ''pvb'' [V 12, V 0]), Do (SetV 9 (K (JNum 0))), Do (SetV 15 (New ''lmb'' [])), Loop (Neg (Loose (Dot (Dot (Dot (V 12) ''b'') ''c'') ''length'') (K (JNum 0)))) [Do (SetV 6 (Call ''JD'' [Cond (Loose (Dot (Dot (Dot (V 12) ''b'') ''c'') ''length'') (K (JNum 0))) (K JNull) (Call ''dmb'' [Dot (V 12) ''b'', K (JNum 0)]), K (JNum 167)])), When (And (Bin Gt (V 9) (K (JNum 1))) (Bin Gt (Bin Divide (Bin Times (Call ''Wod'' [V 6]) (Call ''Vod'' [V 6])) (K (JNum 2))) (Idx (V 7) (K (JNum 0))))) [Do (SetV 5 (K (JNum 0))), Loop (And (Bin Lt (V 5) (Bin Minus (Dot (Dot (V 15) ''c'') ''length'') (K (JNum 1)))) (Bin Gt (Bin Divide (Bin Times (Call ''Wod'' [V 6]) (Call ''Vod'' [V 6])) (K (JNum 2))) (Idx (V 7) (V 5)))) [Do (SetV 5 (Bin Minus (V 5) (K (JNum (- 1)))))] [], Do (SetV 14 (New ''_jb'' [V 15, K (JNum 0), Bin Plus (V 5) (K (JNum 1))])), Do (SetV 11 (New ''_od'' [V 14])), Do (SetV 10 (Bin Divide (Call ''Wod'' [V 6]) (Call ''Vod'' [V 6]))), Do (SetV 8 (Call ''Kod'' [V 11, V 1, New ''gZb'' [], V 2, V 3, V 4, V 10])), Do (Call ''Vfd'' [Call ''cgd'' [Dot (V 11) ''e''], V 8]), Do (Call ''SDb'' [Call ''svb'' [V 12, V 11], G ''Pve'']), Do (SetV 13 (New ''_jb'' [V 15, Bin Plus (V 5) (K (JNum 1)), Dot (Dot (V 15) ''c'') ''length''])), Do (Call ''pvb'' [V 12, V 13]), Do (Put (Dot (V 15) ''c'') ''length'' (K (JNum 0))), Do (SetV 9 (K (JNum 0))), Do (Call ''Zmb'' [V 7, Dot (V 7) ''length'', K (JNum 0)])] [Do (SetV 16 (Cond (Loose (Dot (Dot (Dot (V 12) ''b'') ''c'') ''length'') (K (JNum 0))) (K JNull) (Call ''dmb'' [Dot (V 12) ''b'', K (JNum 0)]))), Do (And (Neg (Loose (V 16) (K JNull))) (Call ''vvb'' [V 12, K (JNum 0)])), Do (And (Bin Gt (V 9) (K (JNum 0))) (PutIdx (V 7) (V 9) (Idx (V 7) (Bin Minus (V 9) (K (JNum 1)))))), Do (PutIdx (V 7) (V 9) (Bin Plus (Idx (V 7) (V 9)) (Bin Times (Call ''Wod'' [V 6]) (Call ''Vod'' [V 6])))), Do (SetV 9 (Bin Minus (V 9) (K (JNum (- 1))))), Do (Call ''qDb'' [Dot (V 15) ''c'', V 6])]] [], Ret (V 15)],
    fn ''lic'' 2 4 [Do (SetV 2 (Dot (V 1) ''b'')), Do (SetV 5 (New ''nmb'' [Dot (V 2) ''j''])), Do (SetV 4 (K (JNum 0))), Do (SetV 3 (Dot (V 2) ''j'')), Do (Put (Dot (V 3) ''c'') ''length'' (K (JNum 0))), Do (Call ''Zhc'' [Call ''JD'' [Call ''Yi'' [Dot (V 0) ''b'', Seq (Call ''Bmd'' []) (G ''hmd''), Seq (Call ''vic'' []) (G ''uic'')], K (JNum 16)], V 2]), Do (SetV 4 (Call ''$hc'' [V 5, V 4, New ''Tic'' [], V 3])), Do (Call ''Zhc'' [Call ''JD'' [Call ''Yi'' [Dot (V 0) ''b'', G ''hmd'', G ''tic''], K (JNum 16)], V 2]), Do (SetV 4 (Call ''$hc'' [V 5, V 4, New ''Vic'' [], V 3])), Do (Call ''Zhc'' [Call ''JD'' [Call ''Yi'' [Dot (V 0) ''b'', G ''hmd'', G ''sic''], K (JNum 16)], V 2]), Do (Call ''Zhc'' [Call ''JD'' [Call ''Yi'' [Dot (V 0) ''b'', G ''gmd'', G ''uic''], K (JNum 16)], V 2]), Do (Call ''Zhc'' [Call ''JD'' [Call ''Yi'' [Dot (V 0) ''b'', G ''gmd'', G ''tic''], K (JNum 16)], V 2]), Do (SetV 4 (Call ''$hc'' [V 5, V 4, New ''Xic'' [], V 3])), Do (Call ''Zhc'' [Call ''JD'' [Call ''Yi'' [Dot (V 0) ''b'', G ''gmd'', G ''sic''], K (JNum 16)], V 2]), Do (Call ''Zhc'' [Call ''JD'' [Call ''Yi'' [Dot (V 0) ''b'', G ''ymd'', G ''uic''], K (JNum 16)], V 2]), Do (SetV 4 (Call ''$hc'' [V 5, V 4, New ''Zic'' [], V 3])), Do (Call ''Zhc'' [Call ''JD'' [Call ''Yi'' [Dot (V 0) ''b'', G ''ymd'', G ''tic''], K (JNum 16)], V 2]), Do (SetV 4 (Call ''$hc'' [V 5, V 4, New ''_ic'' [], V 3])), Do (Call ''Zhc'' [Call ''JD'' [Call ''Yi'' [Dot (V 0) ''b'', G ''ymd'', G ''sic''], K (JNum 16)], V 2]), Do (Call ''Zhc'' [Call ''JD'' [Call ''Yi'' [Dot (V 0) ''b'', G ''Amd'', G ''uic''], K (JNum 16)], V 2]), Do (SetV 4 (Call ''$hc'' [V 5, V 4, New ''Fic'' [], V 3])), Do (Call ''Zhc'' [Call ''JD'' [Call ''Yi'' [Dot (V 0) ''b'', G ''Amd'', G ''tic''], K (JNum 16)], V 2]), Do (Call ''Zhc'' [Call ''JD'' [Call ''Yi'' [Dot (V 0) ''b'', G ''Amd'', G ''sic''], K (JNum 16)], V 2])],
    fn ''q8b'' 2 14 [Do (Meth (V 1) ''Tg'' [K (JStr ''Layer size calculation''), K (JNum 1)]), Do (SetV 10 (G ''Cve'')), Do (SetV 9 (G ''Dve'')), Do (SetV 4 (K (JBool False))), Do (SetV 7 (New ''Kmb'' [Dot (V 0) ''b''])), Loop (Bin Lt (Dot (V 7) ''a'') (Dot (Dot (Dot (V 7) ''c'') ''c'') ''length'')) [Do (SetV 6 (Call ''JD'' [Call ''Imb'' [V 7], K (JNum 25)])), Do (SetV 8 (Dot (V 6) ''c'')), Do (Put (V 8) ''a'' (K (JNum 0))), Do (Put (V 8) ''b'' (K (JNum 0))), When (Loose (Dot (Dot (Dot (V 6) ''a'') ''c'') ''length'') (K (JNum 0))) [Continue] [], Do (SetV 4 (K (JBool True))), Do (SetV 12 (New ''Kmb'' [Dot (V 6) ''a''])), Loop (Bin Lt (Dot (V 12) ''a'') (Dot (Dot (Dot (V 12) ''c'') ''c'') ''length'')) [Do (SetV 11 (Call ''JD'' [Call ''Imb'' [V 12], K (JNum 9)])), Do (SetV 14 (Dot (V 11) ''o'')), Do (SetV 13 (Dot (V 11) ''d'')), Do (Put (V 8) ''a'' (Meth (Dot (G ''$wnd'') ''Math'') ''max'' [Dot (V 8) ''a'', Bin Plus (Bin Plus (Dot (V 14) ''a'') (Dot (V 13) ''b'')) (Dot (V 13) ''c'')]))] [], Do (SetV 3 (Call ''JD'' [Call ''dmb'' [Dot (V 6) ''a'', K (JNum 0)], K (JNum 9)])), Do (SetV 15 (Bin Minus (Dot (Dot (V 3) ''n'') ''b'') (Dot (Dot (V 3) ''d'') ''d''))), Do (And (Loose (Dot (V 3) ''k'') (Seq (Call ''$Yb'' []) (G ''TYb''))) (SetV 15 (Bin Minus (V 15) (Dot (Call ''JD'' [Call ''oNb'' [V 0, Seq (Call ''nyc'' []) (G ''Vxc'')], K (JNum 140)]) ''d'')))), Do (SetV 5 (Call ''JD'' [Call ''dmb'' [Dot (V 6) ''a'', Bin Minus (Dot (Dot (Dot (V 6) ''a'') ''c'') ''length'') (K (JNum 1))], K (JNum 9)])), Do (SetV 2 (Bin Plus (Bin Plus (Dot (Dot (V 5) ''n'') ''b'') (Dot (Dot (V 5) ''o'') ''b'')) (Dot (Dot (V 5) ''d'') ''a''))), Do (And (Loose (Dot (V 5) ''k'') (G ''TYb'')) (SetV 2 (Bin Plus (V 2) (Dot (Call ''JD'' [Call ''oNb'' [V 0, Seq (Call ''nyc'' []) (G ''Vxc'')], K (JNum 140)]) ''a'')))), Do (Put (V 8) ''b'' (Bin Minus (V 2) (V 15))), Do (SetV 10 (Meth (Dot (G ''$wnd'') ''Math'') ''min'' [V 10, V 15])), Do (SetV 9 (Meth (Dot (G ''$wnd'') ''Math'') ''max'' [V 9, V 2]))] [], When (Neg (V 4)) [Do (SetV 10 (K (JNum 0))), Do (SetV 9 (K (JNum 0)))] [], Do (Put (Dot (V 0) ''f'') ''b'' (Bin Minus (V 9) (V 10))), Do (Put (Dot (V 0) ''c'') ''b'' (Bin Minus (Dot (Dot (V 0) ''c'') ''b'') (V 10))), Do (Meth (V 1) ''Ug'' [])]]"

definition object_table27 :: "(string \<times> jfun) list" where
  "object_table27 = code_5976_5987 @ code_5989_5993 @ code_5995_6003 @ code_6005_6009 @ code_6011_6019 @ code_6022_6026"

text \<open>The names each table declares.\<close>

lemma names_5976_5987 [js_names]: "map fst code_5976_5987 = [
    ''Gde'', ''aWb'', ''tQd'', ''ZVb'', ''R8b'', ''_4c'', ''cZc'', ''k3b'', ''SGb'', ''YPb'',
    ''qQb'', ''W9b'']"
  by (simp add: code_5976_5987_def fn_def)

lemma names_5989_5993 [js_names]: "map fst code_5989_5993 = [
    ''Fre'', ''bWb'', ''vIc'', ''x8b'', ''H$b'']"
  by (simp add: code_5989_5993_def fn_def)

lemma names_5995_6003 [js_names]: "map fst code_5995_6003 = [
    ''tKc'', ''cEb'', ''use'', ''snc'', ''Ydc'', ''rkc'', ''Ffd'', ''KKb'', ''a5c'']"
  by (simp add: code_5995_6003_def fn_def)

lemma names_6005_6009 [js_names]: "map fst code_6005_6009 = [
    ''lWc'', ''cMb'', ''cLc'', ''JJd'', ''gSc'']"
  by (simp add: code_6005_6009_def fn_def)

lemma names_6011_6019 [js_names]: "map fst code_6011_6019 = [
    ''r4b'', ''lCc'', ''pXd'', ''XIc'', ''rCc'', ''hHd'', ''j3b'', ''Aec'', ''fWb'']"
  by (simp add: code_6011_6019_def fn_def)

lemma names_6022_6026 [js_names]: "map fst code_6022_6026 = [
    ''TXb'', ''kId'', ''Hod'', ''lic'', ''q8b'']"
  by (simp add: code_6022_6026_def fn_def)

end
