(* ===== verification/ObjectTable28.thy ===== *)
theory ObjectTable28
  imports ObjectCode
begin

text \<open>
  Functions of \<open>layout-worker.js\<close>, lines 6030 to 6070, in the order of the file, one per line:
  the algorithms of the layout engine, longer operations of the runtime's collections and of options,
  with their loops, \<open>switch\<close> and \<open>try\<close> statements. An entry has the name, the
  number of parameters, the number of further local variables and the body; parameters and locals
  are numbered from 0, the variable of a \<open>catch\<close> has a number of its own, \<open>x++\<close> is \<open>(x=x+1)-1\<close>. Lines
  with a construct outside \<open>jexp\<close> and \<open>jstm\<close> (closures, \<open>in\<close>, floating-point literals, host objects) are
  left out.
\<close>

definition code_6030_6040 :: "(string \<times> jfun) list" where
  "code_6030_6040 = [
    fn ''Z7b'' 1 5 [Do (SetV 3 (Call ''JD'' [Call ''oNb'' [V 0, Seq (Call ''nyc'' []) (G ''Ewc'')], K (JNum 165)])), When (Loose (V 3) (Seq (Call ''asc'' []) (G ''Yrc''))) [Do (SetV 2 (New ''Yr'' [Call ''Dr'' [Meth (Dot (Call ''EYb'' [V 0]) ''a'') ''Jc'' [], New ''Dl'' []]])), Loop (Call ''Wr'' [V 2]) [Do (SetV 1 (Call ''JD'' [Call ''Xr'' [V 2], K (JNum 17)])), When (Neg (Call ''_7b'' [V 1])) [Raise (Call ''Lcb'' [New ''Ebd'' [Bin Plus (Bin Plus (Bin Plus (G ''Uye'') (Call ''CYb'' [V 0])) (K (JStr (CHR 0x27 # '' has its layer constraint set to FIRST_SEPARATE, but has at least one incoming edge. '')))) (K (JStr ''FIRST_SEPARATE nodes must not have incoming edges.''))]])] []] []] [When (Loose (V 3) (G ''$rc'')) [Do (SetV 5 (New ''Yr'' [Call ''Dr'' [Meth (Dot (Call ''HYb'' [V 0]) ''a'') ''Jc'' [], New ''Dl'' []]])), Loop (Call ''Wr'' [V 5]) [Do (SetV 4 (Call ''JD'' [Call ''Xr'' [V 5], K (JNum 17)])), When (Neg (Call ''_7b'' [V 4])) [Raise (Call ''Lcb'' [New ''Ebd'' [Bin Plus (Bin Plus (Bin Plus (G ''Uye'') (Call ''CYb'' [V 0])) (K (JStr (CHR 0x27 # '' has its layer constraint set to LAST_SEPARATE, but has at least one outgoing edge. '')))) (K (JStr ''LAST_SEPARATE nodes must not have outgoing edges.''))]])] []] []] []]],
    fn ''Lbd'' 2 13 [When (And (Dot (V 0) ''e'') (Bin Lt (Dot (Dot (V 0) ''c'') ''c'') (Dot (V 0) ''f''))) [Raise (Call ''Lcb'' [New ''nfb'' [Bin Plus (Bin Plus (Bin Plus (Bin Plus (K (JStr ''Expected '')) (Dot (V 0) ''f'')) (K (JStr '' phases to be configured; ''))) (K (JStr ''only found ''))) (Dot (Dot (V 0) ''c'') ''c'')]])] [], Do (SetV 10 (Call ''JD'' [Call ''web'' [Dot (V 0) ''g''], K (JNum 10)])), Do (SetV 13 (Call ''Xu'' [Dot (V 0) ''f''])), Do (Seq (Seq (SetV 5 (V 10)) (SetV 7 (K (JNum 0)))) (SetV 9 (Dot (V 5) ''length''))), Loop (Bin Lt (V 7) (V 9)) [Do (SetV 3 (Idx (V 5) (V 7))), Do (SetV 11 (Call ''JD'' [Call ''Hbd'' [V 0, Dot (V 3) ''g''], K (JNum 188)])), Do (Cond (V 11) (Call ''_lb'' [V 13, Call ''JD'' [Call ''Obd'' [V 0, V 11], K (JNum 95)]]) (Seq (Seq (Meth (Dot (V 13) ''c'') ''push'' [K JNull]) (K JUndef)) (K (JBool True))))] [Do (SetV 7 (Bin Minus (V 7) (K (JNum (- 1)))))], Do (SetV 14 (New ''pcd'' [])), Do (Call ''YBb'' [Call ''VBb'' [Call ''ZBb'' [Call ''VBb'' [New ''jCb'' [K JNull, New ''Zvb'' [V 13, K (JNum 16)]], New ''Ubd'' []], New ''Wbd'' [V 1]], New ''Ybd'' []], New ''$bd'' [V 14]]), Do (Call ''jcd'' [V 14, Dot (V 0) ''a'']), Do (SetV 2 (New ''lmb'' [])), Do (Seq (Seq (SetV 4 (V 10)) (SetV 6 (K (JNum 0)))) (SetV 8 (Dot (V 4) ''length''))), Loop (Bin Lt (V 6) (V 8)) [Do (SetV 3 (Idx (V 4) (V 6))), Do (Call ''bmb'' [V 2, Call ''Pbd'' [V 0, Call ''Qx'' [Call ''JD'' [Call ''Hbd'' [V 14, Dot (V 3) ''g''], K (JNum 20)]]]]), Do (SetV 12 (Call ''JD'' [Call ''dmb'' [V 13, Dot (V 3) ''g''], K (JNum 95)])), Do (And (Neg (Neg (V 12))) (Seq (Call ''qDb'' [Dot (V 2) ''c'', V 12]) (K (JBool True))))] [Do (SetV 6 (Bin Minus (V 6) (K (JNum (- 1)))))], Do (Call ''bmb'' [V 2, Call ''Pbd'' [V 0, Call ''Qx'' [Call ''JD'' [Call ''Hbd'' [V 14, Bin Plus (Dot (Idx (V 10) (Bin Minus (Dot (V 10) ''length'') (K (JNum 1)))) ''g'') (K (JNum 1))], K (JNum 20)]]]]), Ret (V 2)],
    fn ''hmc'' 2 19 [Do (SetV 12 (New ''lmb'' [])), Do (SetV 4 (New ''lmb'' [])), Do (SetV 15 (K JNull)), Do (SetV 7 (Meth (V 1) ''Jc'' [])), Loop (Meth (V 7) ''Ob'' []) [Do (SetV 6 (Call ''JD'' [Meth (V 7) ''Pb'' [], K (JNum 15)])), Do (SetV 5 (New ''vmc'' [Dot (V 6) ''a''])), Do (Call ''qDb'' [Dot (V 4) ''c'', V 5]), When (V 15) [Do (Put (V 5) ''d'' (V 15)), Do (Put (V 15) ''e'' (V 5))] [], Do (SetV 15 (V 5))] [], Do (SetV 19 (Call ''gmc'' [V 0])), Do (SetV 10 (K (JNum 0))), Loop (Bin Lt (V 10) (Dot (Dot (V 4) ''c'') ''length'')) [Do (SetV 13 (K JNull)), Do (SetV 16 (Call ''umc'' [Seq (Call ''MDb'' [K (JNum 0), Dot (Dot (V 4) ''c'') ''length'']) (Call ''JD'' [Idx (Dot (V 4) ''c'') (K (JNum 0)), K (JNum 651)])])), Do (SetV 2 (K JNull)), Do (SetV 3 (G ''Cve'')), Do (SetV 11 (K (JNum 1))), Loop (Bin Lt (V 11) (Dot (Dot (Dot (V 0) ''b'') ''c'') ''length'')) [Do (SetV 17 (Cond (V 16) (Meth (Dot (G ''$wnd'') ''Math'') ''abs'' [Bin Minus (Dot (V 16) ''b'') (V 11)]) (Bin Plus (Meth (Dot (G ''$wnd'') ''Math'') ''abs'' [Bin Minus (V 11) (Dot (V 13) ''b'')]) (K (JNum 1))))), Do (SetV 14 (Cond (V 13) (Meth (Dot (G ''$wnd'') ''Math'') ''abs'' [Bin Minus (V 11) (Dot (V 13) ''b'')]) (Bin Plus (V 17) (K (JNum 1))))), When (Bin Lt (V 14) (V 17)) [Do (SetV 9 (V 13)), Do (SetV 8 (V 14))] [Do (SetV 9 (V 16)), Do (SetV 8 (V 17))], Do (SetV 18 (Seq (SetV 20 (Call ''Ueb'' [Call ''MD'' [Call ''oNb'' [V 0, Seq (Call ''nyc'' []) (G ''hyc'')]]])) (Bin Plus (Idx (V 19) (V 11)) (Meth (Dot (G ''$wnd'') ''Math'') ''pow'' [V 8, V 20])))), When (Bin Lt (V 18) (V 3)) [Do (SetV 3 (V 18)), Do (SetV 2 (V 9)), Do (Put (V 2) ''c'' (V 11))] [], When (And (Neg (Neg (V 16))) (Loose (V 11) (Dot (V 16) ''b''))) [Do (SetV 13 (V 16)), Do (SetV 16 (Call ''pmc'' [V 16]))] []] [Do (SetV 11 (Bin Minus (V 11) (K (JNum (- 1)))))], When (V 2) [Do (Call ''_lb'' [V 12, Call ''Cfb'' [Dot (V 2) ''c'']]), Do (Put (V 2) ''a'' (K (JBool True))), Do (Call ''qmc'' [V 2])] []] [Do (SetV 10 (Bin Minus (V 10) (K (JNum (- 1)))))], Do (Call ''Inb'' []), Do (Call ''gnb'' [Dot (V 12) ''c'', Dot (Dot (V 12) ''c'') ''length'', K JNull]), Ret (V 12)],
    fn ''aD'' 3 6 [When (And (And (Loose (Dot (V 1) ''l'') (K (JNum 0))) (Loose (Dot (V 1) ''m'') (K (JNum 0)))) (Loose (Dot (V 1) ''h'') (K (JNum 0)))) [Raise (Call ''Lcb'' [New ''Ddb'' [K (JStr ''divide by zero'')]])] [], When (And (And (Loose (Dot (V 0) ''l'') (K (JNum 0))) (Loose (Dot (V 0) ''m'') (K (JNum 0)))) (Loose (Dot (V 0) ''h'') (K (JNum 0)))) [Do (And (V 2) (SetG ''YC'' (Call ''_C'' [K (JNum 0), K (JNum 0), K (JNum 0)]))), Ret (Call ''_C'' [K (JNum 0), K (JNum 0), K (JNum 0)])] [], When (And (And (Loose (Dot (V 1) ''h'') (G ''tve'')) (Loose (Dot (V 1) ''m'') (K (JNum 0)))) (Loose (Dot (V 1) ''l'') (K (JNum 0)))) [Ret (Call ''bD'' [V 0, V 2])] [], Do (SetV 8 (K (JBool False))), When (Neg (Loose (Bin Shr (Dot (V 1) ''h'') (K (JNum 19))) (K (JNum 0)))) [Do (SetV 1 (Call ''pD'' [V 1])), Do (SetV 8 (Neg (V 8)))] [], Do (SetV 6 (Call ''hD'' [V 1])), Do (SetV 5 (K (JBool False))), Do (SetV 4 (K (JBool False))), Do (SetV 3 (K (JBool False))), When (And (And (Loose (Dot (V 0) ''h'') (G ''tve'')) (Loose (Dot (V 0) ''m'') (K (JNum 0)))) (Loose (Dot (V 0) ''l'') (K (JNum 0)))) [Do (SetV 4 (K (JBool True))), Do (SetV 5 (K (JBool True))), When (Loose (V 6) (K (JNum (- 1)))) [Do (SetV 0 (Call ''$C'' [Seq (Call ''ED'' []) (G ''AD'')])), Do (SetV 3 (K (JBool True))), Do (SetV 8 (Neg (V 8)))] [Do (SetV 7 (Call ''tD'' [V 0, V 6])), Do (And (V 8) (Call ''fD'' [V 7])), Do (And (V 2) (SetG ''YC'' (Call ''_C'' [K (JNum 0), K (JNum 0), K (JNum 0)]))), Ret (V 7)]] [When (Neg (Loose (Bin Shr (Dot (V 0) ''h'') (K (JNum 19))) (K (JNum 0)))) [Do (SetV 5 (K (JBool True))), Do (SetV 0 (Call ''pD'' [V 0])), Do (SetV 3 (K (JBool True))), Do (SetV 8 (Neg (V 8)))] []], When (Neg (Loose (V 6) (K (JNum (- 1))))) [Ret (Call ''cD'' [V 0, V 6, V 8, V 5, V 2])] [], When (Bin Lt (Call ''mD'' [V 0, V 1]) (K (JNum 0))) [Do (And (V 2) (Cond (V 5) (SetG ''YC'' (Call ''pD'' [V 0])) (SetG ''YC'' (Call ''_C'' [Dot (V 0) ''l'', Dot (V 0) ''m'', Dot (V 0) ''h''])))), Ret (Call ''_C'' [K (JNum 0), K (JNum 0), K (JNum 0)])] [], Ret (Call ''dD'' [Cond (V 3) (V 0) (Call ''_C'' [Dot (V 0) ''l'', Dot (V 0) ''m'', Dot (V 0) ''h'']), V 1, V 8, V 5, V 4, V 2])],
    fn ''Lib'' 2 13 [Do (SetV 6 (Dot (V 0) ''e'')), Do (SetV 8 (Dot (V 1) ''e'')), When (Loose (V 6) (K (JNum 0))) [Ret (V 1)] [], When (Loose (V 8) (K (JNum 0))) [Ret (V 0)] [], Do (SetV 5 (Dot (V 0) ''d'')), Do (SetV 7 (Dot (V 1) ''d'')), When (Loose (Bin Plus (V 5) (V 7)) (K (JNum 2))) [Do (SetV 2 (Call ''Ncb'' [Idx (Dot (V 0) ''a'') (K (JNum 0)), G ''Mve''])), Do (SetV 3 (Call ''Ncb'' [Idx (Dot (V 1) ''a'') (K (JNum 0)), G ''Mve''])), When (Loose (V 6) (V 8)) [Do (SetV 10 (Call ''Mcb'' [V 2, V 3])), Do (SetV 14 (Call ''gdb'' [V 10])), Do (SetV 13 (Call ''gdb'' [Call ''cdb'' [V 10, K (JNum 32)]])), Ret (Cond (Loose (V 13) (K (JNum 0))) (New ''kib'' [V 6, V 14]) (New ''mib'' [V 6, K (JNum 2), Call ''WC'' [Call ''OC'' [G ''cE'', K (JNum 1)], G ''bve'', K (JNum 30), K (JNum 15), NewArr [V 14, V 13]]]))] [], Ret (Seq (Call ''Zhb'' []) (Cond (Call ''Ucb'' [Cond (Bin Lt (V 6) (K (JNum 0))) (Call ''ddb'' [V 3, V 2]) (Call ''ddb'' [V 2, V 3]), K (JNum 0)]) (Call ''tib'' [Cond (Bin Lt (V 6) (K (JNum 0))) (Call ''ddb'' [V 3, V 2]) (Call ''ddb'' [V 2, V 3])]) (Call ''fib'' [Call ''tib'' [Call ''Zcb'' [Cond (Bin Lt (V 6) (K (JNum 0))) (Call ''ddb'' [V 3, V 2]) (Call ''ddb'' [V 2, V 3])]]])))] [When (Loose (V 6) (V 8)) [Do (SetV 12 (V 6)), Do (SetV 11 (Cond (Bin Ge (V 5) (V 7)) (Call ''Mib'' [Dot (V 0) ''a'', V 5, Dot (V 1) ''a'', V 7]) (Call ''Mib'' [Dot (V 1) ''a'', V 7, Dot (V 0) ''a'', V 5])))] [Do (SetV 4 (Cond (Neg (Loose (V 5) (V 7))) (Cond (Bin Gt (V 5) (V 7)) (K (JNum 1)) (K (JNum (- 1)))) (Call ''Oib'' [Dot (V 0) ''a'', Dot (V 1) ''a'', V 5]))), When (Loose (V 4) (K (JNum 0))) [Ret (Seq (Call ''Zhb'' []) (G ''Yhb''))] [], When (Loose (V 4) (K (JNum 1))) [Do (SetV 12 (V 6)), Do (SetV 11 (Call ''Rib'' [Dot (V 0) ''a'', V 5, Dot (V 1) ''a'', V 7]))] [Do (SetV 12 (V 8)), Do (SetV 11 (Call ''Rib'' [Dot (V 1) ''a'', V 7, Dot (V 0) ''a'', V 5]))]]], Do (SetV 9 (New ''mib'' [V 12, Dot (V 11) ''length'', V 11])), Do (Call ''_hb'' [V 9]), Ret (V 9)],
    fn ''tRc'' 2 7 [When (Or (Bin Gt (Dot (V 0) ''g'') (Dot (V 1) ''f'')) (Bin Gt (Dot (V 1) ''g'') (Dot (V 0) ''f''))) [Ret (K JUndef)] [], Do (SetV 2 (K (JNum 0))), Do (SetV 3 (K (JNum 0))), Do (SetV 6 (Meth (Meth (Dot (Dot (V 0) ''w'') ''a'') ''ec'' []) ''Jc'' [])), Loop (Meth (V 6) ''Ob'' []) [Do (SetV 4 (Call ''JD'' [Meth (V 6) ''Pb'' [], K (JNum 12)])), Do (And (Call ''jSc'' [Dot (Call ''rgd'' [Call ''WC'' [Call ''OC'' [G ''r2'', K (JNum 1)], G ''aue'', K (JNum 8), K (JNum 0), NewArr [Dot (Dot (V 4) ''i'') ''n'', Dot (V 4) ''n'', Dot (V 4) ''a'']]]) ''b'', Dot (V 1) ''g'', Dot (V 1) ''f'']) (SetV 2 (Bin Minus (V 2) (K (JNum (- 1))))))] [], Do (SetV 7 (Meth (Meth (Dot (Dot (V 0) ''r'') ''a'') ''ec'' []) ''Jc'' [])), Loop (Meth (V 7) ''Ob'' []) [Do (SetV 4 (Call ''JD'' [Meth (V 7) ''Pb'' [], K (JNum 12)])), Do (And (Call ''jSc'' [Dot (Call ''rgd'' [Call ''WC'' [Call ''OC'' [G ''r2'', K (JNum 1)], G ''aue'', K (JNum 8), K (JNum 0), NewArr [Dot (Dot (V 4) ''i'') ''n'', Dot (V 4) ''n'', Dot (V 4) ''a'']]]) ''b'', Dot (V 1) ''g'', Dot (V 1) ''f'']) (SetV 2 (Bin Minus (V 2) (K (JNum 1)))))] [], Do (SetV 8 (Meth (Meth (Dot (Dot (V 1) ''w'') ''a'') ''ec'' []) ''Jc'' [])), Loop (Meth (V 8) ''Ob'' []) [Do (SetV 4 (Call ''JD'' [Meth (V 8) ''Pb'' [], K (JNum 12)])), Do (And (Call ''jSc'' [Dot (Call ''rgd'' [Call ''WC'' [Call ''OC'' [G ''r2'', K (JNum 1)], G ''aue'', K (JNum 8), K (JNum 0), NewArr [Dot (Dot (V 4) ''i'') ''n'', Dot (V 4) ''n'', Dot (V 4) ''a'']]]) ''b'', Dot (V 0) ''g'', Dot (V 0) ''f'']) (SetV 3 (Bin Minus (V 3) (K (JNum (- 1))))))] [], Do (SetV 5 (Meth (Meth (Dot (Dot (V 1) ''r'') ''a'') ''ec'' []) ''Jc'' [])), Loop (Meth (V 5) ''Ob'' []) [Do (SetV 4 (Call ''JD'' [Meth (V 5) ''Pb'' [], K (JNum 12)])), Do (And (Call ''jSc'' [Dot (Call ''rgd'' [Call ''WC'' [Call ''OC'' [G ''r2'', K (JNum 1)], G ''aue'', K (JNum 8), K (JNum 0), NewArr [Dot (Dot (V 4) ''i'') ''n'', Dot (V 4) ''n'', Dot (V 4) ''a'']]]) ''b'', Dot (V 0) ''g'', Dot (V 0) ''f'']) (SetV 3 (Bin Minus (V 3) (K (JNum 1)))))] [], When (Bin Lt (V 2) (V 3)) [Do (New ''KRc'' [V 0, V 1, Bin Minus (V 3) (V 2)])] [When (Bin Lt (V 3) (V 2)) [Do (New ''KRc'' [V 1, V 0, Bin Minus (V 2) (V 3)])] [Do (New ''KRc'' [V 1, V 0, K (JNum 0)]), Do (New ''KRc'' [V 0, V 1, K (JNum 0)])]]],
    fn ''bZd'' 1 10 [Do (SetV 1 (New ''kZd'' [])), Do (SetV 2 (New ''kZd'' [])), Do (SetV 9 (Call ''vgb'' [G ''AIe'', Seq (SetV 4 (Call ''xxd'' [Dot (V 0) ''b'', G ''BIe''])) (Cond (Neg (V 4)) (K JNull) (Call ''OD'' [Call ''pMd'' [Seq (And (Neg (Dot (V 4) ''b'')) (Put (V 4) ''b'' (New ''dUd'' [Seq (Call ''WRd'' []) (G ''SRd''), G ''N7'', V 4]))) (Dot (V 4) ''b''), G ''CIe'']]))])), Do (SetV 8 (K (JNum 0))), Loop (Bin Lt (V 8) (Dot (V 0) ''i'')) [Do (SetV 7 (Call ''JD'' [Idx (Dot (V 0) ''g'') (V 8), K (JNum 179)])), When (Call ''RD'' [V 7, K (JNum 103)]) [Do (SetV 6 (Call ''JD'' [V 7, K (JNum 19)])), Do (Cond (Neg (Loose (Bin BitAnd (Dot (V 6) ''Bb'') (G ''$Fe'')) (K (JNum 0)))) (And (Or (Loose (Bin BitAnd (Dot (V 6) ''Bb'') (G ''bue'')) (K (JNum 0))) (And (Neg (V 9)) (Seq (SetV 5 (Call ''xxd'' [V 6, G ''BIe''])) (Loose (Cond (Neg (V 5)) (K JNull) (Call ''OD'' [Call ''pMd'' [Seq (And (Neg (Dot (V 5) ''b'')) (Put (V 5) ''b'' (New ''dUd'' [Seq (Call ''WRd'' []) (G ''SRd''), G ''N7'', V 5]))) (Dot (V 5) ''b''), G ''QGe'']])) (K JNull))))) (Call ''lFd'' [V 1, V 6])) (Seq (SetV 10 (Call ''k4d'' [V 6])) (Or (And (Neg (Neg (V 10))) (Neg (Loose (Bin BitAnd (Dot (V 10) ''Bb'') (G ''$Fe'')) (K (JNum 0))))) (And (Or (Loose (Bin BitAnd (Dot (V 6) ''Bb'') (G ''bue'')) (K (JNum 0))) (And (Neg (V 9)) (Seq (SetV 3 (Call ''xxd'' [V 6, G ''BIe''])) (Loose (Cond (Neg (V 3)) (K JNull) (Call ''OD'' [Call ''pMd'' [Seq (And (Neg (Dot (V 3) ''b'')) (Put (V 3) ''b'' (New ''dUd'' [Seq (Call ''WRd'' []) (G ''SRd''), G ''N7'', V 3]))) (Dot (V 3) ''b''), G ''QGe'']])) (K JNull))))) (Call ''lFd'' [V 2, V 6])))))] [Do (Call ''Aie'' []), When (Meth (Call ''JD'' [V 7, K (JNum 69)]) ''vk'' []) [When (Neg (Meth (V 7) ''qk'' [])) [Do (Call ''lFd'' [V 1, V 7]), Do (Call ''lFd'' [V 2, V 7])] []] []]] [Do (SetV 8 (Bin Minus (V 8) (K (JNum (- 1)))))], Do (Call ''kGd'' [V 1]), Do (Call ''kGd'' [V 2]), Do (Put (V 0) ''a'' (Call ''JD'' [Dot (V 1) ''g'', K (JNum 255)])), Do (Call ''JD'' [Dot (V 2) ''g'', K (JNum 255)])],
    fn ''Rce'' 3 9 [When (Bin Ge (Call ''OWd'' [V 1, V 2]) (K (JNum 0))) [Ret (V 2)] [], Switch (Call ''Lde'' [Call ''bde'' [V 0, V 2]]) [(Some (JNum 2), [When (Call ''vgb'' [K (JStr ''''), Meth (Call ''_ce'' [V 0, Meth (V 2) ''ok'' []]) ''ve'' []]) [Do (SetV 8 (Call ''Ode'' [Call ''bde'' [V 0, V 2]])), Do (SetV 7 (Call ''Nde'' [Call ''bde'' [V 0, V 2]])), Do (SetV 10 (Call ''cde'' [V 0, V 1, V 8, V 7])), When (V 10) [Ret (V 10)] [], Do (SetV 4 (Call ''Sce'' [V 0, V 1])), Do (Seq (SetV 6 (K (JNum 0))) (SetV 11 (Meth (V 4) ''gc'' []))), Loop (Bin Lt (V 6) (V 11)) [Do (SetV 10 (Call ''JD'' [Meth (V 4) ''Xb'' [V 6], K (JNum 179)])), When (Call ''ide'' [Call ''Pde'' [Call ''bde'' [V 0, V 10]], V 8]) [Ret (V 10)] []] [Do (SetV 6 (Bin Minus (V 6) (K (JNum (- 1)))))]] [], Ret (K JNull)]), (Some (JNum 4), [When (Call ''vgb'' [K (JStr ''''), Meth (Call ''_ce'' [V 0, Meth (V 2) ''ok'' []]) ''ve'' []]) [Do (SetV 3 (V 2)), Loop (V 3) [Do (SetV 9 (Call ''Ode'' [Call ''bde'' [V 0, V 3]])), Do (SetV 7 (Call ''Nde'' [Call ''bde'' [V 0, V 3]])), Do (SetV 10 (Call ''dde'' [V 0, V 1, V 9, V 7])), When (V 10) [Ret (V 10)] []] [Do (SetV 3 (Call ''Kde'' [Call ''bde'' [V 0, V 3]]))], Do (SetV 8 (Call ''Ode'' [Call ''bde'' [V 0, V 2]])), When (Call ''vgb'' [G ''oJe'', V 8]) [Ret (Call ''ede'' [V 0, V 1])] [Do (SetV 5 (Call ''Tce'' [V 0, V 1])), Do (Seq (SetV 6 (K (JNum 0))) (SetV 11 (Meth (V 5) ''gc'' []))), Loop (Bin Lt (V 6) (V 11)) [Do (SetV 10 (Call ''JD'' [Meth (V 5) ''Xb'' [V 6], K (JNum 179)])), When (Call ''ide'' [Call ''Pde'' [Call ''bde'' [V 0, V 10]], V 8]) [Ret (V 10)] []] [Do (SetV 6 (Bin Minus (V 6) (K (JNum (- 1)))))]]] [], Ret (K JNull)]), (None, [Ret (K JNull)])]],
    fn ''eee'' 3 8 [When (Loose (Meth (V 2) ''gc'' []) (K (JNum 0))) [Ret (K (JBool False))] [], Do (SetV 7 (Seq (Call ''Aie'' []) (Meth (Call ''JD'' [V 1, K (JNum 69)]) ''vk'' []))), Do (SetV 5 (Cond (V 7) (V 2) (New ''oGd'' [Meth (V 2) ''gc'' []]))), When (Call ''Die'' [Dot (V 0) ''e'', V 1]) [When (Meth (V 1) ''Qi'' []) [Do (SetV 9 (Meth (V 2) ''Jc'' [])), Loop (Meth (V 9) ''Ob'' []) [Do (SetV 8 (Meth (V 9) ''Pb'' [])), When (Neg (Call ''qee'' [V 0, V 1, V 8, And (Call ''RD'' [V 1, K (JNum 103)]) (Neg (Loose (Bin BitAnd (Dot (Call ''JD'' [V 1, K (JNum 19)]) ''Bb'') (G ''Hve'')) (K (JNum 0))))])) [Do (SetV 4 (Call ''Bie'' [V 1, V 8])), Do (Or (Meth (V 5) ''Gc'' [V 4]) (Meth (V 5) ''Ec'' [V 4]))] []] []] [When (Neg (V 7)) [Do (SetV 9 (Meth (V 2) ''Jc'' [])), Loop (Meth (V 9) ''Ob'' []) [Do (SetV 8 (Meth (V 9) ''Pb'' [])), Do (SetV 4 (Call ''Bie'' [V 1, V 8])), Do (Meth (V 5) ''Ec'' [V 4])] []] []]] [When (Bin Gt (Meth (V 2) ''gc'' []) (K (JNum 1))) [Raise (Call ''Lcb'' [New ''kfb'' [G ''rJe'']])] [], Do (SetV 10 (Call ''Cie'' [Meth (Dot (V 0) ''e'') ''Ah'' [], V 1])), Do (SetV 3 (Call ''JD'' [Dot (V 0) ''g'', K (JNum 122)])), Do (SetV 6 (K (JNum 0))), Loop (Bin Lt (V 6) (Dot (V 0) ''i'')) [Do (SetV 4 (Idx (V 3) (V 6))), When (Meth (V 10) ''$l'' [Meth (V 4) ''Jk'' []]) [When (Meth (V 2) ''Gc'' [Cond (V 7) (V 4) (Meth (V 4) ''kd'' [])]) [Ret (K (JBool False))] [Do (SetV 9 (Meth (V 2) ''Jc'' [])), Loop (Meth (V 9) ''Ob'' []) [Do (SetV 8 (Meth (V 9) ''Pb'' [])), Do (Call ''JD'' [Call ''vFd'' [V 0, V 6, Cond (V 7) (Call ''JD'' [V 8, K (JNum 75)]) (Call ''Bie'' [V 1, V 8])], K (JNum 75)])] [], Ret (K (JBool True))]] []] [Do (SetV 6 (Bin Minus (V 6) (K (JNum (- 1)))))], When (Neg (V 7)) [Do (SetV 4 (Call ''Bie'' [V 1, Meth (Meth (V 2) ''Jc'' []) ''Pb'' []])), Do (Meth (V 5) ''Ec'' [V 4])] []], Ret (Call ''nFd'' [V 0, V 5])],
    fn ''zNc'' 2 9 [Do (SetV 10 (New ''dub'' [])), Do (SetV 7 (Seq (SetV 9 (Meth (Meth (Dot (New ''qkb'' [Dot (V 0) ''c'']) ''a'') ''vc'' []) ''Jc'' [])) (New ''vkb'' [V 9]))), Loop (Meth (Dot (V 7) ''a'') ''Ob'' []) [Do (SetV 5 (Seq (SetV 4 (Call ''JD'' [Meth (Dot (V 7) ''a'') ''Pb'' [], K (JNum 45)])) (Call ''JD'' [Meth (V 4) ''kd'' [], K (JNum 456)]))), Do (And (Loose (Dot (V 5) ''b'') (K (JNum 0))) (Seq (Call ''Wtb'' [V 10, V 5, Dot (Dot (V 10) ''c'') ''b'', Dot (V 10) ''c'']) (K (JBool True))))] [], Loop (Neg (Loose (Dot (V 10) ''b'') (K (JNum 0)))) [Do (SetV 5 (Call ''JD'' [Cond (Loose (Dot (V 10) ''b'') (K (JNum 0))) (K JNull) (Seq (Call ''LDb'' [Neg (Loose (Dot (V 10) ''b'') (K (JNum 0)))]) (Call ''bub'' [V 10, Dot (Dot (V 10) ''a'') ''a''])), K (JNum 456)])), Do (And (Loose (Dot (V 5) ''a'') (K JNull)) (Put (V 5) ''a'' (K (JNum 0)))), Do (SetV 3 (New ''Kmb'' [Dot (V 5) ''d''])), Loop (Bin Lt (Dot (V 3) ''a'') (Dot (Dot (Dot (V 3) ''c'') ''c'') ''length'')) [Do (SetV 2 (Call ''JD'' [Call ''Imb'' [V 3], K (JNum 653)])), Do (Cond (Loose (Dot (Dot (V 2) ''b'') ''a'') (K JNull)) (Put (Dot (V 2) ''b'') ''a'' (Bin Plus (Call ''Ueb'' [Dot (V 5) ''a'']) (Dot (V 2) ''a''))) (Cond (Loose (Dot (V 1) ''o'') (Seq (Call ''nNc'' []) (G ''lNc''))) (Put (Dot (V 2) ''b'') ''a'' (Meth (Dot (G ''$wnd'') ''Math'') ''min'' [Call ''Ueb'' [Dot (Dot (V 2) ''b'') ''a''], Bin Plus (Call ''Ueb'' [Dot (V 5) ''a'']) (Dot (V 2) ''a'')])) (Put (Dot (V 2) ''b'') ''a'' (Meth (Dot (G ''$wnd'') ''Math'') ''max'' [Call ''Ueb'' [Dot (Dot (V 2) ''b'') ''a''], Bin Plus (Call ''Ueb'' [Dot (V 5) ''a'']) (Dot (V 2) ''a'')])))), Do (Put (Dot (V 2) ''b'') ''b'' (Bin Minus (Dot (Dot (V 2) ''b'') ''b'') (K (JNum 1)))), Do (And (Loose (Dot (Dot (V 2) ''b'') ''b'') (K (JNum 0))) (Call ''Ttb'' [V 10, Dot (V 2) ''b'']))] []] [], Do (SetV 6 (Seq (SetV 8 (Meth (Meth (Dot (New ''qkb'' [Dot (V 0) ''c'']) ''a'') ''vc'' []) ''Jc'' [])) (New ''vkb'' [V 8]))), Loop (Meth (Dot (V 6) ''a'') ''Ob'' []) [Do (SetV 5 (Seq (SetV 4 (Call ''JD'' [Meth (Dot (V 6) ''a'') ''Pb'' [], K (JNum 45)])) (Call ''JD'' [Meth (V 4) ''kd'' [], K (JNum 456)]))), Do (PutIdx (Dot (V 1) ''i'') (Dot (Dot (V 5) ''c'') ''p'') (Dot (V 5) ''a''))] []],
    fn ''VOc'' 4 11 [Do (SetV 10 (Bin Plus (V 2) (Dot (Dot (Dot (V 1) ''c'') ''c'') ''a''))), Do (SetV 13 (New ''Kmb'' [Dot (V 1) ''j''])), Loop (Bin Lt (Dot (V 13) ''a'') (Dot (Dot (Dot (V 13) ''c'') ''c'') ''length'')) [Do (SetV 12 (Call ''JD'' [Call ''Imb'' [V 13], K (JNum 12)])), Do (SetV 4 (Call ''rgd'' [Call ''WC'' [Call ''OC'' [G ''r2'', K (JNum 1)], G ''aue'', K (JNum 8), K (JNum 0), NewArr [Dot (Dot (V 12) ''i'') ''n'', Dot (V 12) ''n'', Dot (V 12) ''a'']]])), When (Loose (Dot (V 1) ''k'') (Seq (Call ''$Yb'' []) (G ''YYb''))) [Do (SetV 7 (Call ''JD'' [Call ''oNb'' [V 12, Seq (Call ''Wrc'' []) (G ''urc'')], K (JNum 12)])), Do (Put (V 4) ''a'' (Dot (Call ''rgd'' [Call ''WC'' [Call ''OC'' [G ''r2'', K (JNum 1)], G ''aue'', K (JNum 8), K (JNum 0), NewArr [Dot (Dot (V 7) ''i'') ''n'', Dot (V 7) ''n'', Dot (V 7) ''a'']]]) ''a'')), Do (Put (Dot (V 1) ''n'') ''a'' (Dot (V 4) ''a''))] [], Do (SetV 6 (New ''lgd'' [K (JNum 0), Dot (V 4) ''b''])), When (Loose (Dot (V 12) ''j'') (Seq (Call ''Bmd'' []) (G ''gmd''))) [Do (Put (V 6) ''a'' (V 10))] [When (Loose (Dot (V 12) ''j'') (G ''Amd'')) [Do (Put (V 6) ''a'' (V 2))] [Continue]], Do (SetV 14 (Meth (Dot (G ''$wnd'') ''Math'') ''abs'' [Bin Minus (Dot (V 4) ''a'') (Dot (V 6) ''a'')])), When (And (Bin Le (V 14) (V 3)) (Neg (Call ''SOc'' [V 1]))) [Continue] [], Do (SetV 5 (Bin Gt (Bin Plus (Dot (Dot (Dot (V 12) ''g'') ''c'') ''length'') (Dot (Dot (Dot (V 12) ''e'') ''c'') ''length'')) (K (JNum 1)))), Do (SetV 9 (New ''UZb'' [Dot (V 12) ''b''])), Loop (Or (Call ''Hmb'' [Dot (V 9) ''a'']) (Call ''Hmb'' [Dot (V 9) ''b''])) [Do (SetV 8 (Call ''JD'' [Cond (Call ''Hmb'' [Dot (V 9) ''a'']) (Call ''Imb'' [Dot (V 9) ''a'']) (Call ''Imb'' [Dot (V 9) ''b'']), K (JNum 17)])), Do (SetV 11 (Cond (Loose (Dot (V 8) ''c'') (V 12)) (Dot (V 8) ''d'') (Dot (V 8) ''c''))), Do (And (Bin Gt (Meth (Dot (G ''$wnd'') ''Math'') ''abs'' [Bin Minus (Dot (Call ''rgd'' [Call ''WC'' [Call ''OC'' [G ''r2'', K (JNum 1)], G ''aue'', K (JNum 8), K (JNum 0), NewArr [Dot (Dot (V 11) ''i'') ''n'', Dot (V 11) ''n'', Dot (V 11) ''a'']]]) ''b'') (Dot (V 6) ''b'')]) (K (JNum 1))) (Call ''POc'' [V 0, V 8, V 6, V 5, V 12]))] []] []]]"

definition code_6041_6042 :: "(string \<times> jfun) list" where
  "code_6041_6042 = [
    fn ''eRc'' 1 6 [Do (SetV 4 (New ''Tjb'' [Dot (V 0) ''e'', K (JNum 0)])), Do (SetV 3 (New ''Tjb'' [Dot (V 0) ''a'', K (JNum 0)])), When (Dot (V 0) ''d'') [Do (SetV 2 (K (JNum 0))), Loop (Bin Lt (V 2) (Dot (V 0) ''b'')) [Do (Call ''LDb'' [Bin Lt (Dot (V 4) ''b'') (Meth (Dot (V 4) ''d'') ''gc'' [])]), Do (Meth (Dot (V 4) ''d'') ''Xb'' [Put (V 4) ''c'' (Bin Minus (Put (V 4) ''b'' (Bin Minus (Dot (V 4) ''b'') (K (JNum (- 1))))) (K (JNum 1)))])] [Do (Bin Minus (SetV 2 (Bin Minus (V 2) (K (JNum (- 1))))) (K (JNum 1)))]] [Do (SetV 2 (K (JNum 0))), Loop (Bin Lt (V 2) (Bin Minus (Dot (V 0) ''b'') (K (JNum 1)))) [Do (Call ''LDb'' [Bin Lt (Dot (V 4) ''b'') (Meth (Dot (V 4) ''d'') ''gc'' [])]), Do (Meth (Dot (V 4) ''d'') ''Xb'' [Put (V 4) ''c'' (Bin Minus (Put (V 4) ''b'' (Bin Minus (Dot (V 4) ''b'') (K (JNum (- 1))))) (K (JNum 1)))]), Do (Call ''Mjb'' [V 4])] [Do (Bin Minus (SetV 2 (Bin Minus (V 2) (K (JNum (- 1))))) (K (JNum 1)))]], Do (SetV 1 (Call ''Ueb'' [Seq (Call ''LDb'' [Bin Lt (Dot (V 4) ''b'') (Meth (Dot (V 4) ''d'') ''gc'' [])]) (Call ''MD'' [Meth (Dot (V 4) ''d'') ''Xb'' [Put (V 4) ''c'' (Bin Minus (Put (V 4) ''b'' (Bin Minus (Dot (V 4) ''b'') (K (JNum (- 1))))) (K (JNum 1)))]])])), Loop (Bin Gt (Bin Minus (Dot (V 0) ''f'') (V 1)) (G ''CCe'')) [Do (SetV 5 (V 1)), Do (SetV 6 (K (JNum 0))), Loop (Bin Lt (Meth (Dot (G ''$wnd'') ''Math'') ''abs'' [Bin Minus (V 1) (V 5)]) (G ''CCe'')) [Do (SetV 6 (Bin Minus (V 6) (K (JNum (- 1))))), Do (SetV 1 (Call ''Ueb'' [Seq (Call ''LDb'' [Bin Lt (Dot (V 4) ''b'') (Meth (Dot (V 4) ''d'') ''gc'' [])]) (Call ''MD'' [Meth (Dot (V 4) ''d'') ''Xb'' [Put (V 4) ''c'' (Bin Minus (Put (V 4) ''b'' (Bin Minus (Dot (V 4) ''b'') (K (JNum (- 1))))) (K (JNum 1)))]])])), Do (Call ''LDb'' [Bin Lt (Dot (V 3) ''b'') (Meth (Dot (V 3) ''d'') ''gc'' [])]), Do (Meth (Dot (V 3) ''d'') ''Xb'' [Put (V 3) ''c'' (Bin Minus (Put (V 3) ''b'' (Bin Minus (Dot (V 3) ''b'') (K (JNum (- 1))))) (K (JNum 1)))])] [], When (Bin Lt (V 6) (Dot (V 0) ''b'')) [Do (Call ''LDb'' [Bin Gt (Dot (V 4) ''b'') (K (JNum 0))]), Do (Meth (Dot (V 4) ''a'') ''Xb'' [Put (V 4) ''c'' (Put (V 4) ''b'' (Bin Minus (Dot (V 4) ''b'') (K (JNum 1))))]), Do (Call ''dRc'' [V 0, Bin Minus (Dot (V 0) ''b'') (V 6), V 5, V 3, V 4]), Do (Call ''LDb'' [Bin Lt (Dot (V 4) ''b'') (Meth (Dot (V 4) ''d'') ''gc'' [])]), Do (Meth (Dot (V 4) ''d'') ''Xb'' [Put (V 4) ''c'' (Bin Minus (Put (V 4) ''b'' (Bin Minus (Dot (V 4) ''b'') (K (JNum (- 1))))) (K (JNum 1)))])] [], Do (Call ''LDb'' [Bin Gt (Dot (V 3) ''b'') (K (JNum 0))]), Do (Meth (Dot (V 3) ''a'') ''Xb'' [Put (V 3) ''c'' (Put (V 3) ''b'' (Bin Minus (Dot (V 3) ''b'') (K (JNum 1))))])] [], When (Neg (Dot (V 0) ''d'')) [Do (SetV 2 (K (JNum 0))), Loop (Bin Lt (V 2) (Bin Minus (Dot (V 0) ''b'') (K (JNum 1)))) [Do (Call ''LDb'' [Bin Lt (Dot (V 4) ''b'') (Meth (Dot (V 4) ''d'') ''gc'' [])]), Do (Meth (Dot (V 4) ''d'') ''Xb'' [Put (V 4) ''c'' (Bin Minus (Put (V 4) ''b'' (Bin Minus (Dot (V 4) ''b'') (K (JNum (- 1))))) (K (JNum 1)))]), Do (Call ''Mjb'' [V 4])] [Do (Bin Minus (SetV 2 (Bin Minus (V 2) (K (JNum (- 1))))) (K (JNum 1)))]] [], Do (Put (V 0) ''d'' (K (JBool True))), Do (Put (V 0) ''c'' (K (JBool True)))],
    fn ''Ake'' 0 0 [Do (SetG ''Ake'' (G ''qdb'')), Do (SetG ''cke'' (Dot (Seq (Call ''bke'' []) (G ''ake'')) ''b'')), Do (SetG ''fke'' (Call ''JD'' [Call ''fGd'' [Call ''KWd'' [Dot (G ''ake'') ''b''], K (JNum 0)], K (JNum 38)])), Do (SetG ''dke'' (Call ''JD'' [Call ''fGd'' [Call ''KWd'' [Dot (G ''ake'') ''b''], K (JNum 1)], K (JNum 38)])), Do (SetG ''eke'' (Call ''JD'' [Call ''fGd'' [Call ''KWd'' [Dot (G ''ake'') ''b''], K (JNum 2)], K (JNum 38)])), Do (SetG ''pke'' (Dot (G ''ake'') ''bb'')), Do (Call ''JD'' [Call ''fGd'' [Call ''KWd'' [Dot (G ''ake'') ''bb''], K (JNum 0)], K (JNum 38)]), Do (Call ''JD'' [Call ''fGd'' [Call ''KWd'' [Dot (G ''ake'') ''bb''], K (JNum 1)], K (JNum 38)]), Do (SetG ''rke'' (Dot (G ''ake'') ''fb'')), Do (SetG ''ske'' (Call ''JD'' [Call ''fGd'' [Call ''KWd'' [Dot (G ''ake'') ''fb''], K (JNum 0)], K (JNum 38)])), Do (Call ''JD'' [Call ''fGd'' [Call ''KWd'' [Dot (G ''ake'') ''fb''], K (JNum 1)], K (JNum 38)]), Do (Call ''JD'' [Call ''fGd'' [Call ''KWd'' [Dot (G ''ake'') ''fb''], K (JNum 2)], K (JNum 19)]), Do (SetG ''uke'' (Dot (G ''ake'') ''qb'')), Do (SetG ''xke'' (Call ''JD'' [Call ''fGd'' [Call ''KWd'' [Dot (G ''ake'') ''qb''], K (JNum 0)], K (JNum 38)])), Do (Call ''JD'' [Call ''fGd'' [Call ''KWd'' [Dot (G ''ake'') ''qb''], K (JNum 1)], K (JNum 19)]), Do (Call ''JD'' [Call ''fGd'' [Call ''KWd'' [Dot (G ''ake'') ''qb''], K (JNum 2)], K (JNum 19)]), Do (SetG ''vke'' (Call ''JD'' [Call ''fGd'' [Call ''KWd'' [Dot (G ''ake'') ''qb''], K (JNum 3)], K (JNum 38)])), Do (SetG ''wke'' (Call ''JD'' [Call ''fGd'' [Call ''KWd'' [Dot (G ''ake'') ''qb''], K (JNum 4)], K (JNum 38)])), Do (SetG ''zke'' (Call ''JD'' [Call ''fGd'' [Call ''KWd'' [Dot (G ''ake'') ''qb''], K (JNum 6)], K (JNum 38)])), Do (SetG ''yke'' (Call ''JD'' [Call ''fGd'' [Call ''KWd'' [Dot (G ''ake'') ''qb''], K (JNum 5)], K (JNum 19)])), Do (SetG ''gke'' (Dot (G ''ake'') ''j'')), Do (SetG ''hke'' (Dot (G ''ake'') ''k'')), Do (SetG ''ike'' (Dot (G ''ake'') ''q'')), Do (SetG ''jke'' (Dot (G ''ake'') ''w'')), Do (SetG ''kke'' (Dot (G ''ake'') ''B'')), Do (SetG ''lke'' (Dot (G ''ake'') ''A'')), Do (SetG ''mke'' (Dot (G ''ake'') ''C'')), Do (SetG ''nke'' (Dot (G ''ake'') ''D'')), Do (SetG ''oke'' (Dot (G ''ake'') ''_'')), Do (SetG ''qke'' (Dot (G ''ake'') ''cb'')), Do (SetG ''tke'' (Dot (G ''ake'') ''hb''))]]"

definition code_6044_6053 :: "(string \<times> jfun) list" where
  "code_6044_6053 = [
    fn ''Kle'' 1 0 [Do (Put (V 0) ''b'' (K JNull)), Do (Put (V 0) ''bb'' (K JNull)), Do (Put (V 0) ''fb'' (K JNull)), Do (Put (V 0) ''qb'' (K JNull)), Do (Put (V 0) ''a'' (K JNull)), Do (Put (V 0) ''c'' (K JNull)), Do (Put (V 0) ''d'' (K JNull)), Do (Put (V 0) ''e'' (K JNull)), Do (Put (V 0) ''f'' (K JNull)), Do (Put (V 0) ''n'' (K JNull)), Do (Put (V 0) ''M'' (K JNull)), Do (Put (V 0) ''L'' (K JNull)), Do (Put (V 0) ''Q'' (K JNull)), Do (Put (V 0) ''R'' (K JNull)), Do (Put (V 0) ''K'' (K JNull)), Do (Put (V 0) ''db'' (K JNull)), Do (Put (V 0) ''eb'' (K JNull)), Do (Put (V 0) ''g'' (K JNull)), Do (Put (V 0) ''i'' (K JNull)), Do (Put (V 0) ''j'' (K JNull)), Do (Put (V 0) ''k'' (K JNull)), Do (Put (V 0) ''gb'' (K JNull)), Do (Put (V 0) ''o'' (K JNull)), Do (Put (V 0) ''p'' (K JNull)), Do (Put (V 0) ''q'' (K JNull)), Do (Put (V 0) ''r'' (K JNull)), Do (Put (V 0) ''$'' (K JNull)), Do (Put (V 0) ''ib'' (K JNull)), Do (Put (V 0) ''S'' (K JNull)), Do (Put (V 0) ''T'' (K JNull)), Do (Put (V 0) ''t'' (K JNull)), Do (Put (V 0) ''s'' (K JNull)), Do (Put (V 0) ''u'' (K JNull)), Do (Put (V 0) ''v'' (K JNull)), Do (Put (V 0) ''w'' (K JNull)), Do (Put (V 0) ''B'' (K JNull)), Do (Put (V 0) ''A'' (K JNull)), Do (Put (V 0) ''C'' (K JNull)), Do (Put (V 0) ''D'' (K JNull)), Do (Put (V 0) ''F'' (K JNull)), Do (Put (V 0) ''G'' (K JNull)), Do (Put (V 0) ''H'' (K JNull)), Do (Put (V 0) ''I'' (K JNull)), Do (Put (V 0) ''J'' (K JNull)), Do (Put (V 0) ''P'' (K JNull)), Do (Put (V 0) ''Z'' (K JNull)), Do (Put (V 0) ''U'' (K JNull)), Do (Put (V 0) ''V'' (K JNull)), Do (Put (V 0) ''W'' (K JNull)), Do (Put (V 0) ''X'' (K JNull)), Do (Put (V 0) ''Y'' (K JNull)), Do (Put (V 0) ''_'' (K JNull)), Do (Put (V 0) ''ab'' (K JNull)), Do (Put (V 0) ''cb'' (K JNull)), Do (Put (V 0) ''hb'' (K JNull)), Do (Put (V 0) ''nb'' (K JNull)), Do (Put (V 0) ''lb'' (K JNull)), Do (Put (V 0) ''mb'' (K JNull)), Do (Put (V 0) ''ob'' (K JNull)), Do (Put (V 0) ''pb'' (K JNull)), Do (Put (V 0) ''jb'' (K JNull)), Do (Put (V 0) ''kb'' (K JNull)), Do (Put (V 0) ''N'' (K (JBool False))), Do (Put (V 0) ''O'' (K (JBool False)))],
    fn ''o2b'' 3 4 [Do (Meth (V 2) ''Tg'' [Bin Plus (Bin Plus (K (JStr ''Graph transformation ('')) (Dot (V 0) ''a'')) (K (JStr '')'')), K (JNum 1)]), Do (SetV 6 (Call ''Uu'' [Dot (V 1) ''a''])), Do (SetV 5 (New ''Kmb'' [Dot (V 1) ''b''])), Loop (Bin Lt (Dot (V 5) ''a'') (Dot (Dot (Dot (V 5) ''c'') ''c'') ''length'')) [Do (SetV 4 (Call ''JD'' [Call ''Imb'' [V 5], K (JNum 25)])), Do (Call ''bmb'' [V 6, Dot (V 4) ''a''])] [], Do (SetV 3 (Call ''JD'' [Call ''oNb'' [V 1, Seq (Call ''nyc'' []) (G ''cwc'')], K (JNum 419)])), When (Loose (V 3) (Seq (Call ''Hoc'' []) (G ''Foc''))) [Switch (Dot (Call ''JD'' [Call ''oNb'' [V 1, G ''bwc''], K (JNum 86)]) ''g'') [(Some (JNum 2), [Do (Call ''c2b'' [V 1, V 6]), Break]), (Some (JNum 3), [Do (Call ''s2b'' [V 1, V 6]), Break]), (Some (JNum 4), [When (Loose (Dot (V 0) ''a'') (Seq (Call ''B2b'' []) (G ''A2b''))) [Do (Call ''s2b'' [V 1, V 6]), Do (Call ''d2b'' [V 1, V 6])] [Do (Call ''d2b'' [V 1, V 6]), Do (Call ''s2b'' [V 1, V 6])]])]] [When (Loose (Dot (V 0) ''a'') (Seq (Call ''B2b'' []) (G ''A2b''))) [Switch (Dot (Call ''JD'' [Call ''oNb'' [V 1, G ''bwc''], K (JNum 86)]) ''g'') [(Some (JNum 2), [Do (Call ''c2b'' [V 1, V 6]), Do (Call ''d2b'' [V 1, V 6]), Break]), (Some (JNum 3), [Do (Call ''s2b'' [V 1, V 6]), Do (Call ''c2b'' [V 1, V 6]), Break]), (Some (JNum 4), [Do (Call ''c2b'' [V 1, V 6]), Do (Call ''s2b'' [V 1, V 6])])]] [Switch (Dot (Call ''JD'' [Call ''oNb'' [V 1, G ''bwc''], K (JNum 86)]) ''g'') [(Some (JNum 2), [Do (Call ''c2b'' [V 1, V 6]), Do (Call ''d2b'' [V 1, V 6]), Break]), (Some (JNum 3), [Do (Call ''c2b'' [V 1, V 6]), Do (Call ''s2b'' [V 1, V 6]), Break]), (Some (JNum 4), [Do (Call ''s2b'' [V 1, V 6]), Do (Call ''c2b'' [V 1, V 6])])]]], Do (Meth (V 2) ''Ug'' [])],
    fn ''eRb'' 1 8 [Do (SetV 5 (New ''Kmb'' [Dot (Dot (V 0) ''a'') ''b''])), Loop (Bin Lt (Dot (V 5) ''a'') (Dot (Dot (Dot (V 5) ''c'') ''c'') ''length'')) [Do (SetV 4 (Call ''JD'' [Call ''Imb'' [V 5], K (JNum 82)])), Do (Put (Dot (V 4) ''b'') ''c'' (Dot (Dot (V 4) ''g'') ''c'')), Do (Put (Dot (V 4) ''b'') ''d'' (Dot (Dot (V 4) ''g'') ''d''))] [], Do (SetV 8 (New ''lgd'' [G ''Cve'', G ''Cve''])), Do (SetV 1 (New ''lgd'' [G ''Dve'', G ''Dve''])), Do (SetV 3 (New ''Kmb'' [Dot (Dot (V 0) ''a'') ''b''])), Loop (Bin Lt (Dot (V 3) ''a'') (Dot (Dot (Dot (V 3) ''c'') ''c'') ''length'')) [Do (SetV 2 (Call ''JD'' [Call ''Imb'' [V 3], K (JNum 82)])), Do (Put (V 8) ''a'' (Meth (Dot (G ''$wnd'') ''Math'') ''min'' [Dot (V 8) ''a'', Dot (Dot (V 2) ''g'') ''c''])), Do (Put (V 8) ''b'' (Meth (Dot (G ''$wnd'') ''Math'') ''min'' [Dot (V 8) ''b'', Dot (Dot (V 2) ''g'') ''d''])), Do (Put (V 1) ''a'' (Meth (Dot (G ''$wnd'') ''Math'') ''max'' [Dot (V 1) ''a'', Bin Plus (Dot (Dot (V 2) ''g'') ''c'') (Dot (Dot (V 2) ''g'') ''b'')])), Do (Put (V 1) ''b'' (Meth (Dot (G ''$wnd'') ''Math'') ''max'' [Dot (V 1) ''b'', Bin Plus (Dot (Dot (V 2) ''g'') ''d'') (Dot (Dot (V 2) ''g'') ''a'')]))] [], Do (SetV 7 (Meth (Dot (Call ''Uc'' [Dot (V 0) ''c'']) ''a'') ''nc'' [])), Loop (Meth (V 7) ''Ob'' []) [Do (SetV 6 (Call ''JD'' [Meth (V 7) ''Pb'' [], K (JNum 49)])), Do (SetV 2 (Call ''JD'' [Dot (V 6) ''b'', K (JNum 82)])), Do (Put (V 8) ''a'' (Meth (Dot (G ''$wnd'') ''Math'') ''min'' [Dot (V 8) ''a'', Dot (Dot (V 2) ''g'') ''c''])), Do (Put (V 8) ''b'' (Meth (Dot (G ''$wnd'') ''Math'') ''min'' [Dot (V 8) ''b'', Dot (Dot (V 2) ''g'') ''d''])), Do (Put (V 1) ''a'' (Meth (Dot (G ''$wnd'') ''Math'') ''max'' [Dot (V 1) ''a'', Bin Plus (Dot (Dot (V 2) ''g'') ''c'') (Dot (Dot (V 2) ''g'') ''b'')])), Do (Put (V 1) ''b'' (Meth (Dot (G ''$wnd'') ''Math'') ''max'' [Dot (V 1) ''b'', Bin Plus (Dot (Dot (V 2) ''g'') ''d'') (Dot (Dot (V 2) ''g'') ''a'')]))] [], Do (Put (V 0) ''d'' (Call ''agd'' [New ''lgd'' [Dot (V 8) ''a'', Dot (V 8) ''b'']])), Do (Put (V 0) ''e'' (Call ''igd'' [New ''lgd'' [Dot (V 1) ''a'', Dot (V 1) ''b''], V 8])), Do (Put (Dot (Dot (Dot (V 0) ''a'') ''a'') ''c'') ''length'' (K (JNum 0))), Do (Put (Dot (Dot (Dot (V 0) ''a'') ''b'') ''c'') ''length'' (K (JNum 0)))],
    fn ''pTb'' 1 7 [Do (Call ''gTb'' []), Do (SetV 7 (New ''iTb'' [])), Do (SetV 2 (New ''Kmb'' [V 0])), Loop (Bin Lt (Dot (V 2) ''a'') (Dot (Dot (Dot (V 2) ''c'') ''c'') ''length'')) [Do (SetV 1 (Call ''JD'' [Call ''Imb'' [V 2], K (JNum 146)])), Do (And (Or (Neg (Dot (V 7) ''b'')) (Bin Ge (Dot (V 1) ''c'') (Dot (Dot (V 7) ''b'') ''c''))) (Put (V 7) ''b'' (V 1))), When (Or (Neg (Dot (V 7) ''c'')) (Bin Le (Dot (V 1) ''c'') (Dot (Dot (V 7) ''c'') ''c''))) [Do (Put (V 7) ''d'' (Dot (V 7) ''c'')), Do (Put (V 7) ''c'' (V 1))] [], Do (And (Or (Neg (Dot (V 7) ''e'')) (Bin Ge (Dot (V 1) ''d'') (Dot (Dot (V 7) ''e'') ''d''))) (Put (V 7) ''e'' (V 1))), Do (And (Or (Neg (Dot (V 7) ''f'')) (Bin Le (Dot (V 1) ''d'') (Dot (Dot (V 7) ''f'') ''d''))) (Put (V 7) ''f'' (V 1)))] [], Do (SetV 3 (New ''tTb'' [Seq (Call ''TSb'' []) (G ''PSb'')])), Do (Call ''ZTb'' [V 0, G ''eTb'', New ''wnb'' [Call ''WC'' [Call ''OC'' [G ''dP'', K (JNum 1)], G ''Gte'', K (JNum 377), K (JNum 0), NewArr [V 3]]]]), Do (SetV 6 (New ''tTb'' [G ''SSb''])), Do (Call ''ZTb'' [V 0, G ''dTb'', New ''wnb'' [Call ''WC'' [Call ''OC'' [G ''dP'', K (JNum 1)], G ''Gte'', K (JNum 377), K (JNum 0), NewArr [V 6]]]]), Do (SetV 4 (New ''tTb'' [G ''QSb''])), Do (Call ''ZTb'' [V 0, G ''cTb'', New ''wnb'' [Call ''WC'' [Call ''OC'' [G ''dP'', K (JNum 1)], G ''Gte'', K (JNum 377), K (JNum 0), NewArr [V 4]]]]), Do (SetV 5 (New ''tTb'' [G ''RSb''])), Do (Call ''ZTb'' [V 0, G ''bTb'', New ''wnb'' [Call ''WC'' [Call ''OC'' [G ''dP'', K (JNum 1)], G ''Gte'', K (JNum 377), K (JNum 0), NewArr [V 5]]]]), Do (Call ''jTb'' [Dot (V 3) ''c'', G ''PSb'']), Do (Call ''jTb'' [Dot (V 4) ''c'', G ''QSb'']), Do (Call ''jTb'' [Dot (V 5) ''c'', G ''RSb'']), Do (Call ''jTb'' [Dot (V 6) ''c'', G ''SSb'']), Do (Put (Dot (Dot (V 7) ''a'') ''c'') ''length'' (K (JNum 0))), Do (Call ''bmb'' [Dot (V 7) ''a'', Dot (V 3) ''c'']), Do (Call ''bmb'' [Dot (V 7) ''a'', Call ''$u'' [Dot (V 4) ''c'']]), Do (Call ''bmb'' [Dot (V 7) ''a'', Dot (V 5) ''c'']), Do (Call ''bmb'' [Dot (V 7) ''a'', Call ''$u'' [Dot (V 6) ''c'']]), Ret (V 7)],
    fn ''i6c'' 2 13 [Do (Meth (V 1) ''Tg'' [G ''fEe'', K (JNum 1)]), Do (SetV 13 (Call ''Ueb'' [Call ''MD'' [Call ''cvd'' [V 0, Seq (Call ''P3c'' []) (G ''O3c'')]]])), Do (SetV 6 (Call ''Ueb'' [Call ''MD'' [Call ''cvd'' [V 0, Seq (Call ''S4c'' []) (G ''L4c'')]]])), Do (SetV 7 (Call ''JD'' [Call ''cvd'' [V 0, G ''I4c''], K (JNum 104)])), Do (Call ''x7c'' [Seq (And (Neg (Dot (V 0) ''a'')) (Put (V 0) ''a'' (New ''P3d'' [G ''T3'', V 0, K (JNum 10), K (JNum 11)]))) (Dot (V 0) ''a'')]), Do (SetV 10 (Call ''P5c'' [Seq (And (Neg (Dot (V 0) ''a'')) (Put (V 0) ''a'' (New ''P3d'' [G ''T3'', V 0, K (JNum 10), K (JNum 11)]))) (Dot (V 0) ''a''), V 13, V 6])), Do (And (Neg (Dot (V 0) ''a'')) (Put (V 0) ''a'' (New ''P3d'' [G ''T3'', V 0, K (JNum 10), K (JNum 11)]))), Do (SetV 9 (New ''Kmb'' [V 10])), Loop (Bin Lt (Dot (V 9) ''a'') (Dot (Dot (Dot (V 9) ''c'') ''c'') ''length'')) [Do (SetV 8 (Call ''JD'' [Call ''Imb'' [V 9], K (JNum 186)])), Do (SetV 4 (New ''Kmb'' [Dot (V 8) ''a''])), Loop (Bin Lt (Dot (V 4) ''a'') (Dot (Dot (Dot (V 4) ''c'') ''c'') ''length'')) [Do (SetV 3 (Call ''JD'' [Call ''Imb'' [V 4], K (JNum 173)])), Do (SetV 12 (New ''d7c'' [Dot (V 3) ''s'', Dot (V 3) ''t'', Call ''Ueb'' [Call ''MD'' [Call ''cvd'' [V 0, G ''L4c'']]]])), Do (Call ''Y6c'' [V 12, V 3]), Do (Call ''_lb'' [Dot (V 8) ''d'', V 12])] []] [], Do (SetV 11 (Call ''v7c'' [V 10, V 6])), Do (SetV 14 (Meth (Dot (G ''$wnd'') ''Math'') ''max'' [Dot (V 11) ''a'', Bin Minus (Call ''Ueb'' [Call ''MD'' [Call ''cvd'' [V 0, G ''M3c'']]]) (Bin Plus (Dot (V 7) ''b'') (Dot (V 7) ''c''))])), Do (SetV 5 (Meth (Dot (G ''$wnd'') ''Math'') ''max'' [Dot (V 11) ''b'', Bin Minus (Call ''Ueb'' [Call ''MD'' [Call ''cvd'' [V 0, G ''J3c'']]]) (Bin Plus (Dot (V 7) ''d'') (Dot (V 7) ''a''))])), Do (SetV 2 (Bin Minus (V 5) (Dot (V 11) ''b''))), Do (Call ''evd'' [V 0, G ''E3c'', V 2]), Do (Call ''evd'' [V 0, G ''G3c'', V 14]), Do (Call ''evd'' [V 0, G ''F3c'', Bin Plus (V 5) (V 2)]), Do (Call ''evd'' [V 0, G ''N3c'', V 10]), Do (Meth (V 1) ''Ug'' [])],
    fn ''m3b'' 3 13 [Do (SetV 9 (New ''Ptb'' [])), Do (SetV 10 (New ''Ptb'' [])), Do (SetV 14 (New ''Ptb'' [])), Do (SetV 15 (New ''Ptb'' [])), Do (SetV 8 (Call ''Ueb'' [Call ''MD'' [Call ''oNb'' [V 1, Seq (Call ''nyc'' []) (G ''Sxc'')]]])), Do (SetV 5 (Call ''Ueb'' [Call ''MD'' [Call ''oNb'' [V 1, G ''Ixc'']]])), Do (SetV 7 (New ''Kmb'' [V 2])), Loop (Bin Lt (Dot (V 7) ''a'') (Dot (Dot (Dot (V 7) ''c'') ''c'') ''length'')) [Do (SetV 6 (Call ''JD'' [Call ''Imb'' [V 7], K (JNum 9)])), Do (SetV 11 (Call ''JD'' [Call ''oNb'' [V 6, Seq (Call ''Wrc'' []) (G ''$qc'')], K (JNum 64)])), When (Loose (V 11) (Seq (Call ''Bmd'' []) (G ''hmd''))) [Do (Meth (Dot (V 10) ''a'') ''yc'' [V 6, V 10]), Do (SetV 4 (New ''Yr'' [Call ''Dr'' [Meth (Dot (Call ''EYb'' [V 6]) ''a'') ''Jc'' [], New ''Dl'' []]])), Loop (Call ''Wr'' [V 4]) [Do (SetV 3 (Call ''JD'' [Call ''Xr'' [V 4], K (JNum 17)])), Do (Call ''esb'' [V 9, Dot (Dot (V 3) ''c'') ''i''])] []] [When (Loose (V 11) (G ''ymd'')) [Do (Meth (Dot (V 15) ''a'') ''yc'' [V 6, V 15]), Do (SetV 4 (New ''Yr'' [Call ''Dr'' [Meth (Dot (Call ''EYb'' [V 6]) ''a'') ''Jc'' [], New ''Dl'' []]])), Loop (Call ''Wr'' [V 4]) [Do (SetV 3 (Call ''JD'' [Call ''Xr'' [V 4], K (JNum 17)])), Do (Call ''esb'' [V 14, Dot (Dot (V 3) ''c'') ''i''])] []] []]] [], When (Neg (Loose (Meth (Dot (V 9) ''a'') ''gc'' []) (K (JNum 0)))) [Do (SetV 12 (New ''CQc'' [K (JNum 2), V 5])), Do (SetV 13 (Call ''BQc'' [V 12, V 1, V 9, V 10, Bin Minus (Minus1 (V 8)) (Dot (Dot (V 1) ''c'') ''b'')])), When (Bin Gt (V 13) (K (JNum 0))) [Do (Put (V 0) ''a'' (Bin Plus (V 8) (Bin Times (Bin Minus (V 13) (K (JNum 1))) (V 5)))), Do (Put (Dot (V 1) ''c'') ''b'' (Bin Plus (Dot (Dot (V 1) ''c'') ''b'') (Dot (V 0) ''a''))), Do (Put (Dot (V 1) ''f'') ''b'' (Bin Plus (Dot (Dot (V 1) ''f'') ''b'') (Dot (V 0) ''a'')))] []] [], When (Neg (Loose (Meth (Dot (V 14) ''a'') ''gc'' []) (K (JNum 0)))) [Do (SetV 12 (New ''CQc'' [K (JNum 1), V 5])), Do (SetV 13 (Call ''BQc'' [V 12, V 1, V 14, V 15, Bin Minus (Bin Plus (Dot (Dot (V 1) ''f'') ''b'') (V 8)) (Dot (Dot (V 1) ''c'') ''b'')])), Do (And (Bin Gt (V 13) (K (JNum 0))) (Put (Dot (V 1) ''f'') ''b'' (Bin Plus (Dot (Dot (V 1) ''f'') ''b'') (Bin Plus (V 8) (Bin Times (Bin Minus (V 13) (K (JNum 1))) (V 5))))))] []],
    fn ''Smc'' 3 18 [Do (SetV 10 (Call ''Ueb'' [Call ''MD'' [Call ''oNb'' [V 0, Seq (Call ''nyc'' []) (G ''Lxc'')]]])), Do (SetV 3 (Call ''Ueb'' [Call ''MD'' [Call ''oNb'' [V 0, G ''cyc'']]])), Do (SetV 12 (New ''Fqd'' [])), Do (Call ''rNb'' [V 12, G ''Lxc'', Bin Plus (V 10) (V 3)]), Do (SetV 9 (V 1)), Do (SetV 17 (Dot (V 9) ''d'')), Do (SetV 15 (Dot (Dot (V 9) ''c'') ''i'')), Do (SetV 18 (Dot (Dot (V 9) ''d'') ''i'')), Do (SetV 16 (Call ''x$b'' [Dot (V 15) ''c''])), Do (SetV 19 (Call ''x$b'' [Dot (V 18) ''c''])), Do (SetV 4 (New ''lmb'' [])), Do (SetV 11 (V 16)), Loop (Bin Le (V 11) (V 19)) [Do (SetV 7 (New ''QYb'' [V 0])), Do (Call ''OYb'' [V 7, Seq (Call ''$Yb'' []) (G ''VYb'')]), Do (Call ''rNb'' [V 7, Seq (Call ''Wrc'' []) (G ''urc''), V 9]), Do (Call ''rNb'' [V 7, G ''qxc'', Seq (Call ''Mld'' []) (G ''Hld'')]), Do (Call ''rNb'' [V 7, G ''Nxc'', V 12]), Do (SetV 13 (Call ''JD'' [Call ''dmb'' [Dot (V 0) ''b'', V 11], K (JNum 25)])), Do (Cond (Loose (V 11) (V 16)) (Call ''MYb'' [V 7, Bin Minus (Dot (Dot (Dot (V 13) ''a'') ''c'') ''length'') (V 2), V 13]) (Call ''NYb'' [V 7, V 13])), Do (SetV 20 (Call ''Ueb'' [Call ''MD'' [Call ''oNb'' [V 9, G ''pwc'']]])), When (Bin Lt (V 20) (K (JNum 0))) [Do (SetV 20 (K (JNum 0))), Do (Call ''rNb'' [V 9, G ''pwc'', V 20])] [], Do (Put (Dot (V 7) ''o'') ''b'' (V 20)), Do (SetV 14 (Meth (Dot (G ''$wnd'') ''Math'') ''floor'' [Bin Divide (V 20) (K (JNum 2))])), Do (SetV 6 (New ''yZb'' [])), Do (Call ''xZb'' [V 6, Seq (Call ''Bmd'' []) (G ''Amd'')]), Do (Call ''wZb'' [V 6, V 7]), Do (Put (Dot (V 6) ''n'') ''b'' (V 14)), Do (SetV 8 (New ''yZb'' [])), Do (Call ''xZb'' [V 8, G ''gmd'']), Do (Call ''wZb'' [V 8, V 7]), Do (Put (Dot (V 8) ''n'') ''b'' (V 14)), Do (Call ''DWb'' [V 9, V 6]), Do (SetV 5 (New ''GWb'' [])), Do (Call ''mNb'' [V 5, V 9]), Do (Call ''rNb'' [V 5, G ''Bwc'', K JNull]), Do (Call ''CWb'' [V 5, V 8]), Do (Call ''DWb'' [V 5, V 17]), Do (Call ''Tmc'' [V 7, V 9, V 5]), Do (Call ''qDb'' [Dot (V 4) ''c'', V 5]), Do (SetV 9 (V 5))] [Do (Bin Minus (SetV 11 (Bin Minus (V 11) (K (JNum (- 1))))) (K (JNum 1)))], Ret (V 4)],
    fn ''JNc'' 2 18 [Do (SetV 15 (Dot (Dot (Dot (V 1) ''b'') ''c'') ''length'')), When (Bin Lt (V 15) (K (JNum 3))) [Ret (K JUndef)] [], Do (SetV 13 (Call ''SC'' [G ''cE'', G ''bve'', K (JNum 30), V 15, K (JNum 15), K (JNum 1)])), Do (SetV 11 (K (JNum 0))), Do (SetV 10 (New ''Kmb'' [Dot (V 1) ''b''])), Loop (Bin Lt (Dot (V 10) ''a'') (Dot (Dot (Dot (V 10) ''c'') ''c'') ''length'')) [Do (SetV 9 (Call ''JD'' [Call ''Imb'' [V 10], K (JNum 25)])), Do (PutIdx (V 13) (Bin Minus (SetV 11 (Bin Minus (V 11) (K (JNum (- 1))))) (K (JNum 1))) (Dot (Dot (Dot (V 9) ''a'') ''c'') ''length''))] [], Do (SetV 12 (New ''Tjb'' [Dot (V 1) ''b'', K (JNum 2)])), Do (SetV 3 (K (JNum 1))), Loop (Bin Lt (V 3) (Bin Minus (V 15) (K (JNum 1)))) [Do (SetV 2 (Seq (Call ''LDb'' [Bin Lt (Dot (V 12) ''b'') (Meth (Dot (V 12) ''d'') ''gc'' [])]) (Call ''JD'' [Meth (Dot (V 12) ''d'') ''Xb'' [Put (V 12) ''c'' (Bin Minus (Put (V 12) ''b'' (Bin Minus (Dot (V 12) ''b'') (K (JNum (- 1))))) (K (JNum 1)))], K (JNum 25)]))), Do (SetV 14 (New ''Kmb'' [Dot (V 2) ''a''])), Do (SetV 5 (K (JNum 0))), Do (SetV 7 (K (JNum 0))), Do (SetV 8 (K (JNum 0))), Loop (Bin Lt (V 8) (Idx (V 13) (Bin Plus (V 3) (K (JNum 1))))) [Do (SetV 19 (Call ''JD'' [Call ''Imb'' [V 14], K (JNum 9)])), When (Or (Loose (V 8) (Bin Minus (Idx (V 13) (Bin Plus (V 3) (K (JNum 1)))) (K (JNum 1)))) (Call ''INc'' [V 0, V 19, Bin Plus (V 3) (K (JNum 1)), V 3])) [Do (SetV 6 (Bin Minus (Idx (V 13) (V 3)) (K (JNum 1)))), Do (And (Call ''INc'' [V 0, V 19, Bin Plus (V 3) (K (JNum 1)), V 3]) (SetV 6 (Idx (Dot (Dot (V 0) ''c'') ''e'') (Dot (Call ''JD'' [Dot (Call ''JD'' [Meth (Call ''JD'' [Call ''dmb'' [Dot (Dot (V 0) ''c'') ''b'', Dot (V 19) ''p''], K (JNum 16)]) ''Xb'' [K (JNum 0)], K (JNum 49)]) ''a'', K (JNum 9)]) ''p'')))), Loop (Bin Le (V 7) (V 8)) [Do (SetV 18 (Call ''JD'' [Call ''dmb'' [Dot (V 2) ''a'', V 7], K (JNum 9)])), When (Neg (Call ''INc'' [V 0, V 18, Bin Plus (V 3) (K (JNum 1)), V 3])) [Do (SetV 17 (Meth (Call ''JD'' [Call ''dmb'' [Dot (Dot (V 0) ''c'') ''b'', Dot (V 18) ''p''], K (JNum 16)]) ''Jc'' [])), Loop (Meth (V 17) ''Ob'' []) [Do (SetV 16 (Call ''JD'' [Meth (V 17) ''Pb'' [], K (JNum 49)])), Do (SetV 4 (Idx (Dot (Dot (V 0) ''c'') ''e'') (Dot (Call ''JD'' [Dot (V 16) ''a'', K (JNum 9)]) ''p''))), Do (And (Or (Bin Lt (V 4) (V 5)) (Bin Gt (V 4) (V 6))) (Call ''esb'' [Dot (V 0) ''b'', Call ''JD'' [Dot (V 16) ''b'', K (JNum 17)]]))] []] [], Do (SetV 7 (Bin Minus (V 7) (K (JNum (- 1)))))] [], Do (SetV 5 (V 6))] []] [Do (Bin Minus (SetV 8 (Bin Minus (V 8) (K (JNum (- 1))))) (K (JNum 1)))]] [Do (Bin Minus (SetV 3 (Bin Minus (V 3) (K (JNum (- 1))))) (K (JNum 1)))]],
    fn ''v8b'' 2 18 [Do (SetV 8 (Dot (Call ''JD'' [Meth (Meth (Call ''LYb'' [V 0, Seq (Call ''Bmd'' []) (G ''Amd'')]) ''Jc'' []) ''Pb'' [], K (JNum 12)]) ''e'')), Do (SetV 13 (Dot (Call ''JD'' [Meth (Meth (Call ''LYb'' [V 0, G ''gmd'']) ''Jc'' []) ''Pb'' [], K (JNum 12)]) ''g'')), Do (SetV 7 (Dot (Dot (V 8) ''c'') ''length'')), Do (SetV 19 (Call ''rZb'' [Call ''JD'' [Call ''dmb'' [Dot (V 0) ''j'', K (JNum 0)], K (JNum 12)]])), Loop (Bin Gt (Bin Minus (SetV 7 (Bin Minus (V 7) (K (JNum 1)))) (K (JNum (- 1)))) (K (JNum 0))) [Do (SetV 15 (Seq (Call ''MDb'' [K (JNum 0), Dot (Dot (V 8) ''c'') ''length'']) (Call ''JD'' [Idx (Dot (V 8) ''c'') (K (JNum 0)), K (JNum 17)]))), Do (SetV 4 (Seq (Call ''MDb'' [K (JNum 0), Dot (Dot (V 13) ''c'') ''length'']) (Call ''JD'' [Idx (Dot (V 13) ''c'') (K (JNum 0)), K (JNum 17)]))), Do (SetV 18 (Dot (Dot (V 4) ''d'') ''e'')), Do (SetV 5 (Call ''emb'' [V 18, V 4, K (JNum 0)])), Do (Call ''EWb'' [V 15, Dot (V 4) ''d'', V 5]), Do (Call ''CWb'' [V 4, K JNull]), Do (Call ''DWb'' [V 4, K JNull]), Do (SetV 14 (Dot (V 15) ''a'')), Do (And (V 1) (Call ''Ttb'' [V 14, New ''mgd'' [V 19]])), Do (SetV 3 (Call ''Ztb'' [Dot (V 4) ''a'', K (JNum 0)])), Loop (Neg (Loose (Dot (V 3) ''b'') (Dot (Dot (V 3) ''d'') ''c''))) [Do (SetV 2 (Call ''JD'' [Call ''lub'' [V 3], K (JNum 8)])), Do (Call ''Ttb'' [V 14, New ''mgd'' [V 2]])] [], Do (SetV 17 (Dot (V 15) ''b'')), Do (SetV 12 (New ''Kmb'' [Dot (V 4) ''b''])), Loop (Bin Lt (Dot (V 12) ''a'') (Dot (Dot (Dot (V 12) ''c'') ''c'') ''length'')) [Do (SetV 11 (Call ''JD'' [Call ''Imb'' [V 12], K (JNum 70)])), Do (Call ''qDb'' [Dot (V 17) ''c'', V 11])] [], Do (SetV 16 (Call ''JD'' [Call ''oNb'' [V 15, Seq (Call ''nyc'' []) (G ''Bwc'')], K (JNum 79)])), Do (SetV 6 (Call ''JD'' [Call ''oNb'' [V 4, G ''Bwc''], K (JNum 79)])), When (V 6) [When (Neg (V 16)) [Do (SetV 16 (New ''ygd'' [])), Do (Call ''rNb'' [V 15, G ''Bwc'', V 16])] [], Do (SetV 10 (Call ''Ztb'' [V 6, K (JNum 0)])), Loop (Neg (Loose (Dot (V 10) ''b'') (Dot (Dot (V 10) ''d'') ''c''))) [Do (SetV 9 (Call ''JD'' [Call ''lub'' [V 10], K (JNum 8)])), Do (Call ''Ttb'' [V 16, New ''mgd'' [V 9]])] []] []] []],
    fn ''xcc'' 2 8 [Do (Meth (V 1) ''Tg'' [Bin Plus (K (JStr ''Sort By Input Model '')) (Call ''oNb'' [V 0, Seq (Call ''nyc'' []) (G ''Ovc'')]), K (JNum 1)]), Do (SetV 5 (K (JNum 0))), Do (SetV 4 (New ''Kmb'' [Dot (V 0) ''b''])), Loop (Bin Lt (Dot (V 4) ''a'') (Dot (Dot (Dot (V 4) ''c'') ''c'') ''length'')) [Do (SetV 3 (Call ''JD'' [Call ''Imb'' [V 4], K (JNum 25)])), Do (Put (V 3) ''p'' (V 5)), Do (SetV 9 (Cond (Loose (V 5) (K (JNum 0))) (K (JNum 0)) (Bin Minus (V 5) (K (JNum 1))))), Do (SetV 8 (Call ''JD'' [Call ''dmb'' [Dot (V 0) ''b'', V 9], K (JNum 25)])), Do (SetV 2 (New ''xlc'' [V 0, V 8, Call ''JD'' [Call ''oNb'' [V 0, G ''Ovc''], K (JNum 269)], Call ''JD'' [Call ''oNb'' [V 0, G ''Lvc''], K (JNum 352)], Seq (Call ''JD'' [Call ''oNb'' [V 0, G ''Hvc''], K (JNum 329)]) (K (JBool True))])), Do (Call ''Acc'' [Dot (V 3) ''a'', V 2]), Do (SetV 7 (New ''Kmb'' [Dot (V 3) ''a''])), Loop (Bin Lt (Dot (V 7) ''a'') (Dot (Dot (Dot (V 7) ''c'') ''c'') ''length'')) [Do (SetV 6 (Call ''JD'' [Call ''Imb'' [V 7], K (JNum 9)])), When (And (Neg (Same (Call ''XD'' [Call ''oNb'' [V 6, G ''qxc'']]) (Call ''XD'' [Seq (Call ''Mld'' []) (G ''Gld'')]))) (Neg (Same (Call ''XD'' [Call ''oNb'' [V 6, G ''qxc'']]) (Call ''XD'' [G ''Hld''])))) [Do (Call ''Inb'' []), Do (Call ''jmb'' [Dot (V 6) ''j'', New ''Plc'' [V 0, V 8, Call ''JD'' [Call ''oNb'' [V 0, G ''Ovc''], K (JNum 269)], Call ''Ccc'' [V 6], Call ''Rdb'' [Call ''LD'' [Call ''oNb'' [V 0, G ''Nvc'']]]]]), Do (Meth (V 1) ''ah'' [Bin Plus (Bin Plus (Bin Plus (K (JStr ''Node '')) (V 6)) (K (JStr '' ports: ''))) (Dot (V 6) ''j'')])] []] [], Do (SetV 2 (New ''xlc'' [V 0, V 8, Call ''JD'' [Call ''oNb'' [V 0, G ''Ovc''], K (JNum 269)], Call ''JD'' [Call ''oNb'' [V 0, G ''Lvc''], K (JNum 352)], Seq (Call ''JD'' [Call ''oNb'' [V 0, G ''Hvc''], K (JNum 329)]) (K (JBool False))])), Do (Call ''Acc'' [Dot (V 3) ''a'', V 2]), Do (Meth (V 1) ''ah'' [Bin Plus (Bin Plus (Bin Plus (K (JStr ''Layer '')) (V 5)) (K (JStr '': ''))) (V 3)]), Do (SetV 5 (Bin Minus (V 5) (K (JNum (- 1)))))] [], Do (Meth (V 1) ''Ug'' [])]]"

definition code_6054_6063 :: "(string \<times> jfun) list" where
  "code_6054_6063 = [
    fn ''wed'' 2 4 [When (Or (Loose (V 1) (K JNull)) (Call ''vgb'' [V 1, G ''Kte''])) [Ret (K JNull)] [], When (And (Loose (Dot (V 1) ''length'') (K (JNum 0))) (Neg (Loose (Dot (V 0) ''k'') (Seq (Call ''hfd'' []) (G ''cfd''))))) [Ret (K JNull)] [], Switch (Dot (Dot (V 0) ''k'') ''g'') [(Some (JNum 1), [Ret (Cond (Call ''wgb'' [V 1, G ''JEe'']) (Seq (Call ''Qdb'' []) (G ''Pdb'')) (Cond (Call ''wgb'' [V 1, G ''KEe'']) (Seq (Call ''Qdb'' []) (G ''Odb'')) (K JNull)))]), (Some (JNum 2), [Try [Ret (Call ''Cfb'' [Call ''Ydb'' [V 1, G ''Eue'', G ''Ate'']])] 3 [Do (SetV 3 (Call ''Kcb'' [V 3])), When (Call ''RD'' [V 3, K (JNum 131)]) [Ret (K JNull)] [Raise (Call ''Lcb'' [V 3])]]]), (Some (JNum 4), [Try [Ret (Call ''Xdb'' [V 1])] 4 [Do (SetV 4 (Call ''Kcb'' [V 4])), When (Call ''RD'' [V 4, K (JNum 131)]) [Ret (K JNull)] [Raise (Call ''Lcb'' [V 4])]]]), (Some (JNum 3), [Ret (V 1)]), (Some (JNum 5), [Do (Call ''red'' [V 0]), Ret (Call ''ued'' [V 0, V 1])]), (Some (JNum 6), [Do (Call ''red'' [V 0]), Ret (Call ''ved'' [V 0, Dot (V 0) ''a'', V 1])]), (Some (JNum 7), [Try [Do (SetV 2 (Call ''ted'' [V 0])), Do (Meth (V 2) ''ag'' [V 1]), Ret (V 2)] 5 [Do (SetV 5 (Call ''Kcb'' [V 5])), When (Call ''RD'' [V 5, K (JNum 32)]) [Ret (K JNull)] [Raise (Call ''Lcb'' [V 5])]]]), (None, [Raise (Call ''Lcb'' [New ''nfb'' [K (JStr ''Invalid type set for this layout option.'')]])])]],
    fn ''$Id'' 1 1 [Switch (Dot (V 0) ''d'') [(Some (JNum 1), [When (Meth (V 0) ''Qj'' []) [Ret (Neg (Loose (Dot (V 0) ''o'') (K (JNum (- 2)))))] [], Break]), (Some (JNum 2), [When (Meth (V 0) ''Qj'' []) [Ret (Loose (Dot (V 0) ''o'') (K (JNum (- 2))))] [], Break]), (Some (JNum 3), []), (Some (JNum 5), []), (Some (JNum 4), []), (Some (JNum 6), []), (Some (JNum 7), [Ret (Bin Gt (Dot (V 0) ''o'') (K (JNum (- 2))))]), (None, [Ret (K (JBool False))])], Do (SetV 1 (Meth (V 0) ''Pj'' [])), Switch (Dot (V 0) ''p'') [(Some (JNum 0), [Ret (And (Neg (Loose (V 1) (K JNull))) (Neg (Loose (Call ''Rdb'' [Call ''LD'' [V 1]]) (Call ''$cb'' [Dot (V 0) ''k'', K (JNum 0)]))))]), (Some (JNum 1), [Ret (And (Neg (Loose (V 1) (K JNull))) (Neg (Loose (Dot (Call ''JD'' [V 1, K (JNum 221)]) ''a'') (Bin Shr (Bin Shl (Call ''gdb'' [Dot (V 0) ''k'']) (K (JNum 24))) (K (JNum 24))))))]), (Some (JNum 2), [Ret (And (Neg (Loose (V 1) (K JNull))) (Neg (Loose (Dot (Call ''JD'' [V 1, K (JNum 180)]) ''a'') (Bin BitAnd (Call ''gdb'' [Dot (V 0) ''k'']) (G ''Pue'')))))]), (Some (JNum 6), [Ret (And (Neg (Loose (V 1) (K JNull))) (Call ''$cb'' [Dot (Call ''JD'' [V 1, K (JNum 190)]) ''a'', Dot (V 0) ''k'']))]), (Some (JNum 5), [Ret (And (Neg (Loose (V 1) (K JNull))) (Neg (Loose (Dot (Call ''JD'' [V 1, K (JNum 15)]) ''a'') (Call ''gdb'' [Dot (V 0) ''k'']))))]), (Some (JNum 7), [Ret (And (Neg (Loose (V 1) (K JNull))) (Neg (Loose (Dot (Call ''JD'' [V 1, K (JNum 191)]) ''a'') (Bin Shr (Bin Shl (Call ''gdb'' [Dot (V 0) ''k'']) (K (JNum 16))) (K (JNum 16))))))]), (Some (JNum 3), [Ret (And (Neg (Loose (V 1) (K JNull))) (Neg (Loose (Call ''Ueb'' [Call ''MD'' [V 1]]) (Dot (V 0) ''j''))))]), (Some (JNum 4), [Ret (And (Neg (Loose (V 1) (K JNull))) (Neg (Loose (Dot (Call ''JD'' [V 1, K (JNum 164)]) ''a'') (Dot (V 0) ''j''))))]), (None, [Ret (Cond (Loose (V 1) (K JNull)) (Neg (Loose (Dot (V 0) ''n'') (K JNull))) (Neg (Call ''pb'' [V 1, Dot (V 0) ''n''])))])]],
    fn ''$Zd'' 3 4 [When (And (Meth (V 0) ''ml'' []) (Meth (V 0) ''ll'' [])) [Do (SetV 6 (Call ''_Zd'' [V 0, Call ''JD'' [V 2, K (JNum 57)]])), When (Neg (Same (Call ''XD'' [V 6]) (Call ''XD'' [V 2]))) [Do (Meth (V 0) ''vj'' [V 1]), Do (Meth (V 0) ''Bj'' [V 1, Call ''a$d'' [V 0, V 1, V 6]]), When (Meth (V 0) ''$k'' []) [Do (SetV 5 (Seq (SetV 4 (Call ''JD'' [V 2, K (JNum 52)])) (Cond (Meth (V 0) ''kl'' []) (Cond (Meth (V 0) ''il'' []) (Meth (V 4) ''Qh'' [Dot (V 0) ''b'', Dot (Call ''k4d'' [Call ''JD'' [Call ''IWd'' [Call ''qud'' [Dot (V 0) ''b''], Meth (V 0) ''Jj'' []], K (JNum 19)]]) ''n'', Meth (Call ''JD'' [Meth (Call ''IWd'' [Call ''qud'' [Dot (V 0) ''b''], Meth (V 0) ''Jj'' []]) ''Fk'' [], K (JNum 29)]) ''ik'' [], K JNull]) (Meth (V 4) ''Qh'' [Dot (V 0) ''b'', Call ''OWd'' [Meth (V 4) ''Ah'' [], Call ''k4d'' [Call ''JD'' [Call ''IWd'' [Call ''qud'' [Dot (V 0) ''b''], Meth (V 0) ''Jj'' []], K (JNum 19)]]], K JNull, K JNull])) (Meth (V 4) ''Qh'' [Dot (V 0) ''b'', Bin Minus (K (JNum (- 1))) (Meth (V 0) ''Jj'' []), K JNull, K JNull])))), Do (And (Neg (Meth (Call ''JD'' [V 6, K (JNum 52)]) ''Mh'' [])) (SetV 5 (Seq (SetV 3 (Call ''JD'' [V 6, K (JNum 52)])) (Cond (Meth (V 0) ''kl'' []) (Cond (Meth (V 0) ''il'' []) (Meth (V 3) ''Oh'' [Dot (V 0) ''b'', Dot (Call ''k4d'' [Call ''JD'' [Call ''IWd'' [Call ''qud'' [Dot (V 0) ''b''], Meth (V 0) ''Jj'' []], K (JNum 19)]]) ''n'', Meth (Call ''JD'' [Meth (Call ''IWd'' [Call ''qud'' [Dot (V 0) ''b''], Meth (V 0) ''Jj'' []]) ''Fk'' [], K (JNum 29)]) ''ik'' [], V 5]) (Meth (V 3) ''Oh'' [Dot (V 0) ''b'', Call ''OWd'' [Meth (V 3) ''Ah'' [], Call ''k4d'' [Call ''JD'' [Call ''IWd'' [Call ''qud'' [Dot (V 0) ''b''], Meth (V 0) ''Jj'' []], K (JNum 19)]]], K JNull, V 5])) (Meth (V 3) ''Oh'' [Dot (V 0) ''b'', Bin Minus (K (JNum (- 1))) (Meth (V 0) ''Jj'' []), K JNull, V 5]))))), Do (And (Neg (Neg (V 5))) (Meth (V 5) ''mj'' []))] [], Do (And (Call ''itd'' [Dot (V 0) ''b'']) (Meth (V 0) ''Hj'' [Meth (V 0) ''Gj'' [K (JNum 9), V 2, V 6, V 1, K (JBool False)]])), Ret (V 6)] []] [], Ret (V 2)],
    fn ''NGb'' 1 10 [Do (SetV 3 (New ''lmb'' [])), Do (SetV 6 (New ''Kmb'' [Dot (Dot (V 0) ''e'') ''a''])), Loop (Bin Lt (Dot (V 6) ''a'') (Dot (Dot (Dot (V 6) ''c'') ''c'') ''length'')) [Do (SetV 4 (Call ''JD'' [Call ''Imb'' [V 6], K (JNum 124)])), Do (SetV 10 (K (JNum 0))), Do (Put (Dot (Dot (V 4) ''k'') ''c'') ''length'' (K (JNum 0))), Do (SetV 2 (New ''Kmb'' [Call ''gGb'' [V 4]])), Loop (Bin Lt (Dot (V 2) ''a'') (Dot (Dot (Dot (V 2) ''c'') ''c'') ''length'')) [Do (SetV 1 (Call ''JD'' [Call ''Imb'' [V 2], K (JNum 217)])), When (Dot (V 1) ''f'') [Do (Call ''_lb'' [Dot (V 4) ''k'', V 1]), Do (SetV 10 (Bin Minus (V 10) (K (JNum (- 1)))))] []] [], Do (And (Loose (V 10) (K (JNum 1))) (Seq (Call ''qDb'' [Dot (V 3) ''c'', V 4]) (K (JBool True))))] [], Do (SetV 5 (New ''Kmb'' [V 3])), Loop (Bin Lt (Dot (V 5) ''a'') (Dot (Dot (Dot (V 5) ''c'') ''c'') ''length'')) [Do (SetV 4 (Call ''JD'' [Call ''Imb'' [V 5], K (JNum 124)])), Loop (Loose (Dot (Dot (Dot (V 4) ''k'') ''c'') ''length'') (K (JNum 1))) [Do (SetV 9 (Call ''JD'' [Call ''Imb'' [New ''Kmb'' [Dot (V 4) ''k'']], K (JNum 217)])), Do (PutIdx (Dot (V 0) ''b'') (Dot (V 9) ''c'') (Dot (V 9) ''g'')), Do (SetV 7 (Dot (V 9) ''d'')), Do (SetV 8 (Dot (V 9) ''e'')), Do (SetV 2 (New ''Kmb'' [Call ''gGb'' [V 4]])), Loop (Bin Lt (Dot (V 2) ''a'') (Dot (Dot (Dot (V 2) ''c'') ''c'') ''length'')) [Do (SetV 1 (Call ''JD'' [Call ''Imb'' [V 2], K (JNum 217)])), Do (Or (Call ''pb'' [V 1, V 9]) (Cond (Dot (V 1) ''f'') (Cond (Or (Loose (V 7) (Dot (V 1) ''d'')) (Loose (V 8) (Dot (V 1) ''e''))) (PutIdx (Dot (V 0) ''b'') (Dot (V 9) ''c'') (Bin Minus (Idx (Dot (V 0) ''b'') (Dot (V 9) ''c'')) (Bin Minus (Idx (Dot (V 0) ''b'') (Dot (V 1) ''c'')) (Dot (V 1) ''g'')))) (PutIdx (Dot (V 0) ''b'') (Dot (V 9) ''c'') (Bin Plus (Idx (Dot (V 0) ''b'') (Dot (V 9) ''c'')) (Bin Minus (Idx (Dot (V 0) ''b'') (Dot (V 1) ''c'')) (Dot (V 1) ''g''))))) (Cond (Loose (V 4) (V 7)) (Cond (Loose (Dot (V 1) ''d'') (V 4)) (PutIdx (Dot (V 0) ''b'') (Dot (V 9) ''c'') (Bin Plus (Idx (Dot (V 0) ''b'') (Dot (V 9) ''c'')) (Dot (V 1) ''g''))) (PutIdx (Dot (V 0) ''b'') (Dot (V 9) ''c'') (Bin Minus (Idx (Dot (V 0) ''b'') (Dot (V 9) ''c'')) (Dot (V 1) ''g'')))) (Cond (Loose (Dot (V 1) ''d'') (V 4)) (PutIdx (Dot (V 0) ''b'') (Dot (V 9) ''c'') (Bin Minus (Idx (Dot (V 0) ''b'') (Dot (V 9) ''c'')) (Dot (V 1) ''g''))) (PutIdx (Dot (V 0) ''b'') (Dot (V 9) ''c'') (Bin Plus (Idx (Dot (V 0) ''b'') (Dot (V 9) ''c'')) (Dot (V 1) ''g'')))))))] [], Do (Call ''gmb'' [Dot (V 7) ''k'', V 9]), Do (Call ''gmb'' [Dot (V 8) ''k'', V 9]), Do (Cond (Loose (V 7) (V 4)) (SetV 4 (Dot (V 9) ''e'')) (SetV 4 (Dot (V 9) ''d'')))] []] []],
    fn ''$Jb'' 2 12 [Do (SetV 2 (Call ''JD'' [Call ''brb'' [Dot (V 0) ''b'', V 1], K (JNum 127)])), Do (SetV 8 (Call ''JD'' [Call ''JD'' [Call ''Qc'' [Dot (V 0) ''r'', V 1], K (JNum 22)], K (JNum 83)])), When (Meth (V 8) ''dc'' []) [Do (Put (Dot (V 2) ''n'') ''b'' (K (JNum 0))), Do (Put (Dot (V 2) ''n'') ''c'' (K (JNum 0))), Ret (K JUndef)] [], Do (SetV 9 (Meth (Dot (V 0) ''u'') ''Gc'' [Seq (Call ''$ld'' []) (G ''Wld'')])), Do (SetV 6 (K (JNum 0))), Do (SetV 7 (Meth (V 8) ''Jc'' [])), Do (SetV 10 (K JNull)), Do (SetV 11 (K (JNum 0))), Do (SetV 12 (K (JNum 0))), Loop (Meth (V 7) ''Ob'' []) [Do (SetV 3 (Call ''JD'' [Meth (V 7) ''Pb'' [], K (JNum 115)])), Do (SetV 4 (Call ''Ueb'' [Call ''MD'' [Meth (Dot (V 3) ''b'') ''mf'' [Seq (Call ''YKb'' []) (G ''XKb'')]]])), Do (SetV 5 (Dot (Meth (Dot (V 3) ''b'') ''Kf'' []) ''a'')), Do (And (Meth (Dot (V 0) ''A'') ''Gc'' [Seq (Call ''ind'' []) (G ''hnd'')]) (Call ''eKb'' [V 0, V 1])), When (Neg (V 10)) [Do (And (And (Neg (Neg (Dot (V 0) ''C''))) (Bin Gt (Dot (Dot (V 0) ''C'') ''b'') (K (JNum 0)))) (SetV 6 (Meth (Dot (G ''$wnd'') ''Math'') ''max'' [V 6, Call ''cKb'' [Bin Plus (Dot (Dot (V 0) ''C'') ''b'') (Dot (Dot (V 3) ''d'') ''b''), V 4]])))] [Do (SetV 13 (Bin Plus (Bin Plus (Bin Plus (V 12) (Dot (Dot (V 10) ''d'') ''c'')) (Dot (V 0) ''w'')) (Dot (Dot (V 3) ''d'') ''b''))), Do (SetV 6 (Meth (Dot (G ''$wnd'') ''Math'') ''max'' [V 6, Seq (Seq (Call ''Sy'' []) (Call ''Wy'' [G ''Zwe''])) (Cond (Or (Or (Bin Le (Meth (Dot (G ''$wnd'') ''Math'') ''abs'' [Bin Minus (V 11) (V 4)]) (G ''Zwe'')) (Loose (V 11) (V 4))) (And (Call ''isNaN'' [V 11]) (Call ''isNaN'' [V 4]))) (K (JNum 0)) (Bin Divide (V 13) (Bin Minus (V 4) (V 11))))]))], Do (SetV 10 (V 3)), Do (SetV 11 (V 4)), Do (SetV 12 (V 5))] [], When (And (Neg (Neg (Dot (V 0) ''C''))) (Bin Gt (Dot (Dot (V 0) ''C'') ''c'') (K (JNum 0)))) [Do (SetV 13 (Bin Plus (V 12) (Dot (Dot (V 0) ''C'') ''c''))), Do (And (V 9) (SetV 13 (Bin Plus (V 13) (Dot (Dot (V 10) ''d'') ''c'')))), Do (SetV 6 (Meth (Dot (G ''$wnd'') ''Math'') ''max'' [V 6, Seq (Seq (Call ''Sy'' []) (Call ''Wy'' [G ''Zwe''])) (Cond (Or (Or (Bin Le (Meth (Dot (G ''$wnd'') ''Math'') ''abs'' [Bin Minus (V 11) (K (JNum 1))]) (G ''Zwe'')) (Loose (V 11) (K (JNum 1)))) (And (Call ''isNaN'' [V 11]) (Call ''isNaN'' [K (JNum 1)]))) (K (JNum 0)) (Bin Divide (V 13) (Bin Minus (K (JNum 1)) (V 11))))]))] [], Do (Put (Dot (V 2) ''n'') ''b'' (K (JNum 0))), Do (Put (Dot (V 2) ''a'') ''a'' (V 6))],
    fn ''hLb'' 2 12 [Do (SetV 2 (Call ''JD'' [Call ''brb'' [Dot (V 0) ''b'', V 1], K (JNum 127)])), Do (SetV 8 (Call ''JD'' [Call ''JD'' [Call ''Qc'' [Dot (V 0) ''r'', V 1], K (JNum 22)], K (JNum 83)])), When (Meth (V 8) ''dc'' []) [Do (Put (Dot (V 2) ''n'') ''d'' (K (JNum 0))), Do (Put (Dot (V 2) ''n'') ''a'' (K (JNum 0))), Ret (K JUndef)] [], Do (SetV 9 (Meth (Dot (V 0) ''u'') ''Gc'' [Seq (Call ''$ld'' []) (G ''Wld'')])), Do (SetV 6 (K (JNum 0))), Do (And (Meth (Dot (V 0) ''A'') ''Gc'' [Seq (Call ''ind'' []) (G ''hnd'')]) (Call ''mLb'' [V 0, V 1])), Do (SetV 7 (Meth (V 8) ''Jc'' [])), Do (SetV 10 (K JNull)), Do (SetV 12 (K (JNum 0))), Do (SetV 11 (K (JNum 0))), Loop (Meth (V 7) ''Ob'' []) [Do (SetV 3 (Call ''JD'' [Meth (V 7) ''Pb'' [], K (JNum 115)])), Do (SetV 5 (Call ''Ueb'' [Call ''MD'' [Meth (Dot (V 3) ''b'') ''mf'' [Seq (Call ''YKb'' []) (G ''XKb'')]]])), Do (SetV 4 (Dot (Meth (Dot (V 3) ''b'') ''Kf'' []) ''b'')), When (Neg (V 10)) [Do (And (And (Neg (Neg (Dot (V 0) ''C''))) (Bin Gt (Dot (Dot (V 0) ''C'') ''d'') (K (JNum 0)))) (SetV 6 (Meth (Dot (G ''$wnd'') ''Math'') ''max'' [V 6, Call ''cKb'' [Bin Plus (Dot (Dot (V 0) ''C'') ''d'') (Dot (Dot (V 3) ''d'') ''d''), V 5]])))] [Do (SetV 13 (Bin Plus (Bin Plus (Bin Plus (V 11) (Dot (Dot (V 10) ''d'') ''a'')) (Dot (V 0) ''w'')) (Dot (Dot (V 3) ''d'') ''d''))), Do (SetV 6 (Meth (Dot (G ''$wnd'') ''Math'') ''max'' [V 6, Seq (Seq (Call ''Sy'' []) (Call ''Wy'' [G ''Zwe''])) (Cond (Or (Or (Bin Le (Meth (Dot (G ''$wnd'') ''Math'') ''abs'' [Bin Minus (V 12) (V 5)]) (G ''Zwe'')) (Loose (V 12) (V 5))) (And (Call ''isNaN'' [V 12]) (Call ''isNaN'' [V 5]))) (K (JNum 0)) (Bin Divide (V 13) (Bin Minus (V 5) (V 12))))]))], Do (SetV 10 (V 3)), Do (SetV 12 (V 5)), Do (SetV 11 (V 4))] [], When (And (Neg (Neg (Dot (V 0) ''C''))) (Bin Gt (Dot (Dot (V 0) ''C'') ''a'') (K (JNum 0)))) [Do (SetV 13 (Bin Plus (V 11) (Dot (Dot (V 0) ''C'') ''a''))), Do (And (V 9) (SetV 13 (Bin Plus (V 13) (Dot (Dot (V 10) ''d'') ''a'')))), Do (SetV 6 (Meth (Dot (G ''$wnd'') ''Math'') ''max'' [V 6, Seq (Seq (Call ''Sy'' []) (Call ''Wy'' [G ''Zwe''])) (Cond (Or (Or (Bin Le (Meth (Dot (G ''$wnd'') ''Math'') ''abs'' [Bin Minus (V 12) (K (JNum 1))]) (G ''Zwe'')) (Loose (V 12) (K (JNum 1)))) (And (Call ''isNaN'' [V 12]) (Call ''isNaN'' [K (JNum 1)]))) (K (JNum 0)) (Bin Divide (V 13) (Bin Minus (K (JNum 1)) (V 12))))]))] [], Do (Put (Dot (V 2) ''n'') ''d'' (K (JNum 0))), Do (Put (Dot (V 2) ''a'') ''b'' (V 6))],
    fn ''TFc'' 3 6 [Do (Put This ''g'' (V 0)), Do (SetV 7 (Dot (Dot (V 1) ''d'') ''length'')), Do (SetV 8 (Dot (Dot (V 2) ''d'') ''length'')), Do (Put This ''d'' (Call ''SC'' [G ''SP'', G ''Bye'', K (JNum 9), Bin Plus (V 7) (V 8), K (JNum 0), K (JNum 1)])), Do (SetV 6 (K (JNum 0))), Loop (Bin Lt (V 6) (V 7)) [Do (PutIdx (Dot This ''d'') (V 6) (Idx (Dot (V 1) ''d'') (V 6)))] [Do (Bin Minus (SetV 6 (Bin Minus (V 6) (K (JNum (- 1))))) (K (JNum 1)))], Do (SetV 5 (K (JNum 0))), Loop (Bin Lt (V 5) (V 8)) [Do (PutIdx (Dot This ''d'') (Bin Plus (V 7) (V 5)) (Idx (Dot (V 2) ''d'') (V 5)))] [Do (Bin Minus (SetV 5 (Bin Minus (V 5) (K (JNum (- 1))))) (K (JNum 1)))], When (Dot (V 1) ''e'') [Do (Put This ''e'' (Call ''Zu'' [Dot (V 1) ''e''])), Do (Meth (Dot This ''e'') ''Kc'' [V 2]), When (Dot (V 2) ''e'') [Do (SetV 4 (Meth (Dot (V 2) ''e'') ''Jc'' [])), Loop (Meth (V 4) ''Ob'' []) [Do (SetV 3 (Call ''JD'' [Meth (V 4) ''Pb'' [], K (JNum 239)])), When (Loose (V 3) (V 1)) [Continue] [Do (Cond (Meth (Dot This ''e'') ''Gc'' [V 3]) (Put (V 3) ''c'' (Bin Minus (Dot (V 3) ''c'') (K (JNum 1)))) (Meth (Dot This ''e'') ''Ec'' [V 3]))]] []] []] [When (Dot (V 2) ''e'') [Do (Put This ''e'' (Call ''Zu'' [Dot (V 2) ''e''])), Do (Meth (Dot This ''e'') ''Kc'' [V 1])] []], Do (Put This ''f'' (Bin Plus (Dot (V 1) ''f'') (Dot (V 2) ''f''))), Do (Put This ''a'' (Bin Plus (Dot (V 1) ''a'') (Dot (V 2) ''a''))), Do (Cond (Bin Gt (Dot This ''a'') (K (JNum 0))) (Call ''RFc'' [This, Bin Divide (Dot This ''f'') (Dot This ''a'')]) (Cond (And (Neg (Loose (Dot (Call ''JFc'' [Dot (V 1) ''g'', Idx (Dot (V 1) ''d'') (K (JNum 0))]) ''a'') (K JNull))) (Neg (Loose (Dot (Call ''JFc'' [Dot (V 2) ''g'', Idx (Dot (V 2) ''d'') (K (JNum 0))]) ''a'') (K JNull)))) (Call ''RFc'' [This, Bin Divide (Bin Plus (Call ''Ueb'' [Dot (Call ''JFc'' [Dot (V 1) ''g'', Idx (Dot (V 1) ''d'') (K (JNum 0))]) ''a'']) (Call ''Ueb'' [Dot (Call ''JFc'' [Dot (V 2) ''g'', Idx (Dot (V 2) ''d'') (K (JNum 0))]) ''a''])) (K (JNum 2))]) (Cond (Neg (Loose (Dot (Call ''JFc'' [Dot (V 1) ''g'', Idx (Dot (V 1) ''d'') (K (JNum 0))]) ''a'') (K JNull))) (Call ''RFc'' [This, Dot (Call ''JFc'' [Dot (V 1) ''g'', Idx (Dot (V 1) ''d'') (K (JNum 0))]) ''a'']) (And (Neg (Loose (Dot (Call ''JFc'' [Dot (V 2) ''g'', Idx (Dot (V 2) ''d'') (K (JNum 0))]) ''a'') (K JNull))) (Call ''RFc'' [This, Dot (Call ''JFc'' [Dot (V 2) ''g'', Idx (Dot (V 2) ''d'') (K (JNum 0))]) ''a''])))))],
    fn ''G5c'' 8 10 [Do (SetV 14 (K (JBool False))), Do (SetV 9 (Call ''_6c'' [Dot (V 2) ''q'', Bin Minus (Bin Plus (Dot (V 1) ''f'') (Dot (V 1) ''b'')) (Dot (Dot (V 2) ''q'') ''f'')])), Do (SetV 13 (And (Bin Gt (Dot (V 3) ''f'') (Dot (V 1) ''b'')) (V 7))), Do (SetV 17 (Bin Minus (V 4) (Bin Minus (Bin Plus (Dot (Dot (V 2) ''q'') ''e'') (V 9)) (V 6)))), Do (SetV 11 (Seq (SetV 8 (Call ''O6c'' [V 3, V 17, K (JBool False)])) (Dot (V 8) ''a''))), When (And (V 13) (Bin Gt (V 11) (Dot (V 3) ''f''))) [Ret (K (JBool False))] [], When (V 13) [Do (SetV 12 (K (JNum 0))), Do (SetV 16 (New ''Kmb'' [Dot (V 1) ''d''])), Loop (Bin Lt (Dot (V 16) ''a'') (Dot (Dot (Dot (V 16) ''c'') ''c'') ''length'')) [Do (SetV 15 (Call ''JD'' [Call ''Imb'' [V 16], K (JNum 320)])), Do (SetV 12 (Bin Plus (V 12) (Bin Plus (Call ''_6c'' [V 15, Dot (V 3) ''f'']) (V 6))))] [], Do (SetV 17 (Bin Minus (V 4) (V 12)))] [], When (Bin Lt (V 17) (Dot (V 3) ''g'')) [Ret (K (JBool False))] [], Do (SetV 10 (And (Loose (V 5) (Bin Minus (Dot (Dot (V 0) ''c'') ''length'') (K (JNum 1)))) (Bin Ge (V 17) (Dot (Seq (Call ''MDb'' [V 5, Dot (Dot (V 0) ''c'') ''length'']) (Call ''JD'' [Idx (Dot (V 0) ''c'') (V 5), K (JNum 186)])) ''e'')))), When (And (And (Neg (V 13)) (Bin Gt (V 11) (Dot (V 1) ''b''))) (Neg (V 10))) [Ret (K (JBool False))] [], When (Or (Or (V 10) (V 13)) (Bin Le (V 11) (Dot (V 1) ''b''))) [When (And (V 10) (Bin Gt (V 11) (Dot (V 1) ''b''))) [Do (Put (V 2) ''d'' (V 11)), Do (Call ''M6c'' [V 2, Call ''L6c'' [V 2, V 11]])] [Do (Call ''a7c'' [Dot (V 2) ''q'', V 9]), Do (Put (V 2) ''c'' (K (JBool True)))], Do (Call ''M6c'' [V 3, Bin Minus (V 4) (Bin Plus (Dot (V 2) ''s'') (Dot (V 2) ''r''))]), Do (Call ''Q6c'' [V 3, Bin Plus (Dot (Dot (V 2) ''q'') ''e'') (Dot (Dot (V 2) ''q'') ''d''), Dot (V 1) ''f'']), Do (Call ''y7c'' [V 1, V 3]), When (Bin Gt (Dot (Dot (V 0) ''c'') ''length'') (V 5)) [Do (Call ''B7c'' [Seq (Call ''MDb'' [V 5, Dot (Dot (V 0) ''c'') ''length'']) (Call ''JD'' [Idx (Dot (V 0) ''c'') (V 5), K (JNum 186)]), V 3]), Do (And (Loose (Dot (Dot (Dot (Seq (Call ''MDb'' [V 5, Dot (Dot (V 0) ''c'') ''length'']) (Call ''JD'' [Idx (Dot (V 0) ''c'') (V 5), K (JNum 186)])) ''a'') ''c'') ''length'') (K (JNum 0))) (Call ''fmb'' [V 0, V 5]))] [], Do (SetV 14 (K (JBool True)))] [], Ret (V 14)],
    fn ''hRb'' 2 10 [Do (Put (V 0) ''a'' (New ''LRb'' [Call ''Erb'' [G ''y2'']])), Do (SetV 3 (New ''Kmb'' [Dot (V 1) ''a''])), Loop (Bin Lt (Dot (V 3) ''a'') (Dot (Dot (Dot (V 3) ''c'') ''c'') ''length'')) [Do (SetV 2 (Call ''JD'' [Call ''Imb'' [V 3], K (JNum 840)])), Do (SetV 7 (New ''ORb'' [Call ''WC'' [Call ''OC'' [G ''KO'', K (JNum 1)], G ''Gte'', K (JNum 82), K (JNum 0), NewArr []]])), Do (Call ''_lb'' [Dot (Dot (V 0) ''a'') ''a'', V 7]), Do (SetV 9 (New ''Kmb'' [Dot (V 2) ''d''])), Loop (Bin Lt (Dot (V 9) ''a'') (Dot (Dot (Dot (V 9) ''c'') ''c'') ''length'')) [Do (SetV 8 (Call ''JD'' [Call ''Imb'' [V 9], K (JNum 119)])), Do (SetV 10 (New ''mRb'' [V 0, V 8])), Do (Call ''gRb'' [V 10, Call ''JD'' [Call ''oNb'' [Dot (V 2) ''c'', Seq (Call ''Wrc'' []) (G ''Xqc'')], K (JNum 22)]]), When (Neg (Call ''cjb'' [Dot (V 0) ''g'', V 2])) [Do (Call ''hjb'' [Dot (V 0) ''g'', V 2, New ''lgd'' [Dot (V 8) ''c'', Dot (V 8) ''d'']]), Do (Call ''hjb'' [Dot (V 0) ''f'', V 2, V 10])] [], Do (Call ''_lb'' [Dot (Dot (V 0) ''a'') ''b'', V 10]), Do (Call ''MRb'' [V 7, V 10])] [], Do (SetV 6 (New ''Kmb'' [Dot (V 2) ''b''])), Loop (Bin Lt (Dot (V 6) ''a'') (Dot (Dot (Dot (V 6) ''c'') ''c'') ''length'')) [Do (SetV 5 (Call ''JD'' [Call ''Imb'' [V 6], K (JNum 592)])), Do (SetV 10 (New ''mRb'' [V 0, Meth (V 5) ''Bf'' []])), Do (Call ''hjb'' [Dot (V 0) ''b'', V 5, New ''prd'' [V 7, V 10]]), Do (Call ''gRb'' [V 10, Call ''JD'' [Call ''oNb'' [Dot (V 2) ''c'', Seq (Call ''Wrc'' []) (G ''Xqc'')], K (JNum 22)]]), When (Meth (V 5) ''zf'' []) [Do (SetV 11 (New ''nRb'' [V 0, Meth (V 5) ''zf'' [], K (JNum 1)])), Do (Call ''gRb'' [V 11, Call ''JD'' [Call ''oNb'' [Dot (V 2) ''c'', G ''Xqc''], K (JNum 22)]]), Do (SetV 4 (New ''ORb'' [Call ''WC'' [Call ''OC'' [G ''KO'', K (JNum 1)], G ''Gte'', K (JNum 82), K (JNum 0), NewArr []]])), Do (Call ''MRb'' [V 4, V 11]), Do (Call ''Rc'' [Dot (V 0) ''c'', Meth (V 5) ''yf'' [], New ''prd'' [V 7, V 11]])] []] []] [], Ret (Dot (V 0) ''a'')],
    fn ''CBc'' 3 11 [Do (Meth (V 2) ''Tg'' [K (JStr ''Breadth-first cycle removal''), K (JNum 1)]), Do (Put (V 0) ''c'' (V 1)), Do (SetV 11 (Dot (V 1) ''a'')), Do (Put (V 0) ''a'' (New ''dub'' [])), Do (Put (V 0) ''e'' (New ''hsb'' [])), Do (Put (V 0) ''d'' (New ''hsb'' [])), Do (Put (V 0) ''f'' (Call ''SC'' [G ''Icb'', G ''Nwe'', K (JNum 30), Dot (Dot (V 11) ''c'') ''length'', K (JNum 16), K (JNum 1)])), Do (Put (V 0) ''b'' (New ''lmb'' [])), Do (SetV 7 (K (JNum 0))), Do (SetV 10 (New ''Kmb'' [V 11])), Loop (Bin Lt (Dot (V 10) ''a'') (Dot (Dot (Dot (V 10) ''c'') ''c'') ''length'')) [Do (SetV 9 (Call ''JD'' [Call ''Imb'' [V 10], K (JNum 9)])), Do (Put (V 9) ''p'' (V 7)), Do (And (Call ''ar'' [Call ''EYb'' [V 9]]) (Call ''esb'' [Dot (V 0) ''e'', V 9])), Do (And (Call ''ar'' [Call ''HYb'' [V 9]]) (Call ''esb'' [Dot (V 0) ''d'', V 9])), Do (SetV 7 (Bin Minus (V 7) (K (JNum (- 1)))))] [], Do (SetV 13 (Meth (Meth (Dot (Dot (V 0) ''e'') ''a'') ''ec'' []) ''Jc'' [])), Loop (Meth (V 13) ''Ob'' []) [Do (SetV 12 (Call ''JD'' [Meth (V 13) ''Pb'' [], K (JNum 9)])), Do (Call ''Ttb'' [Dot (V 0) ''a'', V 12]), Do (Call ''BBc'' [V 0])] [], Do (Call ''BBc'' [V 0]), Do (SetV 3 (K (JBool True))), Loop (V 3) [Do (SetV 3 (K (JBool False))), Do (SetV 6 (K (JNum 0))), Loop (Bin Lt (V 6) (Dot (Dot (V 11) ''c'') ''length'')) [When (Neg (Idx (Dot (V 0) ''f'') (V 6))) [Do (SetV 8 (Seq (Call ''MDb'' [V 6, Dot (Dot (V 11) ''c'') ''length'']) (Call ''JD'' [Idx (Dot (V 11) ''c'') (V 6), K (JNum 9)]))), Do (Call ''Ttb'' [Dot (V 0) ''a'', V 8]), Do (SetV 3 (K (JBool True))), Break] []] [Do (Bin Minus (SetV 6 (Bin Minus (V 6) (K (JNum (- 1))))) (K (JNum 1)))], Do (Call ''BBc'' [V 0])] [], Do (SetV 5 (New ''Kmb'' [Dot (V 0) ''b''])), Loop (Bin Lt (Dot (V 5) ''a'') (Dot (Dot (Dot (V 5) ''c'') ''c'') ''length'')) [Do (SetV 4 (Call ''JD'' [Call ''Imb'' [V 5], K (JNum 17)])), Do (Call ''BWb'' [V 4, K (JBool True)]), Do (Call ''rNb'' [V 1, Seq (Call ''Wrc'' []) (G ''Tqc''), Seq (Call ''Qdb'' []) (K (JBool True))])] [], Do (Put (V 0) ''e'' (K JNull)), Do (Put (V 0) ''f'' (K JNull)), Do (Put (V 0) ''a'' (K JNull)), Do (Put (V 0) ''b'' (K JNull)), Do (Meth (V 2) ''Ug'' [])]]"

definition code_6064_6070 :: "(string \<times> jfun) list" where
  "code_6064_6070 = [
    fn ''Mee'' 3 14 [Do (SetV 6 (Meth (V 2) ''Jk'' [])), When (And (Call ''RD'' [V 6, K (JNum 103)]) (Neg (Loose (Bin BitAnd (Dot (Call ''JD'' [V 6, K (JNum 19)]) ''Bb'') (G ''Hve'')) (K (JNum 0))))) [Do (SetV 12 (Call ''JD'' [Meth (V 2) ''kd'' [], K (JNum 52)])), Do (SetV 15 (Call ''rtd'' [Dot (V 0) ''e'', V 12])), When (Neg (Loose (V 15) (V 12))) [Do (SetV 10 (Call ''Bie'' [V 6, V 15])), Do (Call ''bGd'' [V 0, V 1, Call ''efe'' [V 0, V 1, V 10]]), Do (SetV 11 (K JNull)), When (Call ''itd'' [Dot (V 0) ''e'']) [Do (SetV 3 (Call ''Rce'' [Seq (Call ''yie'' []) (G ''wie''), Meth (Dot (V 0) ''e'') ''Ah'' [], V 6])), When (Neg (Loose (V 3) (Call ''IWd'' [Meth (Dot (V 0) ''e'') ''Ah'' [], Dot (V 0) ''c'']))) [Do (SetV 16 (Call ''Cie'' [Meth (Dot (V 0) ''e'') ''Ah'' [], V 6])), Do (SetV 7 (K (JNum 0))), Do (SetV 5 (Call ''JD'' [Dot (V 0) ''g'', K (JNum 122)])), Do (SetV 8 (K (JNum 0))), Loop (Bin Lt (V 8) (V 1)) [Do (SetV 4 (Idx (V 5) (V 8))), Do (And (Meth (V 16) ''$l'' [Meth (V 4) ''Jk'' []]) (SetV 7 (Bin Minus (V 7) (K (JNum (- 1))))))] [Do (SetV 8 (Bin Minus (V 8) (K (JNum (- 1)))))], Do (SetV 11 (New ''yje'' [Dot (V 0) ''e'', K (JNum 9), V 3, V 12, V 15, V 7, K (JBool False)])), Do (Meth (V 11) ''lj'' [New ''a2d'' [Dot (V 0) ''e'', K (JNum 9), Dot (V 0) ''c'', V 2, V 10, V 1, K (JBool False)]])] []] [], Do (SetV 14 (Call ''JD'' [V 6, K (JNum 19)])), Do (SetV 13 (Call ''k4d'' [V 14])), When (V 13) [Do (SetV 11 (Meth (V 12) ''Qh'' [Dot (V 0) ''e'', Call ''OWd'' [Meth (V 12) ''Ah'' [], V 13], K JNull, V 11])), Do (SetV 11 (Meth (Call ''JD'' [V 15, K (JNum 52)]) ''Oh'' [Dot (V 0) ''e'', Call ''OWd'' [Meth (V 15) ''Ah'' [], V 13], K JNull, V 11]))] [When (Neg (Loose (Bin BitAnd (Dot (V 14) ''Bb'') (G ''$Fe'')) (K (JNum 0)))) [Do (SetV 9 (Bin Minus (K (JNum (- 1))) (Call ''OWd'' [Meth (Dot (V 0) ''e'') ''Ah'' [], V 14]))), Do (SetV 11 (Meth (V 12) ''Qh'' [Dot (V 0) ''e'', V 9, K JNull, K JNull])), Do (And (Neg (Meth (Call ''JD'' [V 15, K (JNum 52)]) ''Mh'' [])) (SetV 11 (Meth (Call ''JD'' [V 15, K (JNum 52)]) ''Oh'' [Dot (V 0) ''e'', V 9, K JNull, V 11])))] []], Do (And (Neg (Neg (V 11))) (Meth (V 11) ''mj'' [])), Ret (V 10)] []] [], Ret (V 2)],
    fn ''XAc'' 1 1 [Do (Put This ''a'' (V 0)), Do (SetV 1 (Dot (Seq (Call ''$Yb'' []) (Call ''WC'' [Call ''OC'' [G ''QP'', K (JNum 1)], G ''xue'', K (JNum 249), K (JNum 0), NewArr [G ''XYb'', G ''VYb'', G ''TYb'', G ''YYb'', G ''UYb'', G ''SYb'', G ''ZYb'', G ''WYb'']])) ''length'')), Do (Put This ''b'' (Call ''QC'' [G ''e5'', NewArr [G ''aue'', G ''iCe''], NewArr [K (JNum 591), K (JNum 147)], K (JNum 0), NewArr [V 1, V 1], K (JNum 2)])), Do (Put This ''c'' (Call ''QC'' [G ''e5'', NewArr [G ''aue'', G ''iCe''], NewArr [K (JNum 591), K (JNum 147)], K (JNum 0), NewArr [V 1, V 1], K (JNum 2)])), Do (Call ''WAc'' [This, G ''XYb'', Seq (Call ''nyc'' []) (G ''Sxc''), G ''Txc'']), Do (Call ''UAc'' [This, G ''XYb'', G ''VYb'', G ''Lxc'', G ''Mxc'']), Do (Call ''TAc'' [This, G ''XYb'', G ''YYb'', G ''Lxc'']), Do (Call ''TAc'' [This, G ''XYb'', G ''TYb'', G ''Lxc'']), Do (Call ''UAc'' [This, G ''XYb'', G ''UYb'', G ''Sxc'', G ''Txc'']), Do (Call ''WAc'' [This, G ''VYb'', G ''Ixc'', G ''Jxc'']), Do (Call ''TAc'' [This, G ''VYb'', G ''YYb'', G ''Ixc'']), Do (Call ''TAc'' [This, G ''VYb'', G ''TYb'', G ''Ixc'']), Do (Call ''UAc'' [This, G ''VYb'', G ''UYb'', G ''Lxc'', G ''Mxc'']), Do (Call ''VAc'' [This, G ''YYb'', G ''Ixc'']), Do (Call ''TAc'' [This, G ''YYb'', G ''TYb'', G ''Ixc'']), Do (Call ''TAc'' [This, G ''YYb'', G ''UYb'', G ''Pxc'']), Do (Call ''VAc'' [This, G ''TYb'', G ''Wxc'']), Do (Call ''UAc'' [This, G ''TYb'', G ''UYb'', G ''Rxc'', G ''Qxc'']), Do (Call ''WAc'' [This, G ''UYb'', G ''Ixc'', G ''Ixc'']), Do (Call ''WAc'' [This, G ''SYb'', G ''Ixc'', G ''Jxc'']), Do (Call ''UAc'' [This, G ''SYb'', G ''XYb'', G ''Lxc'', G ''Mxc'']), Do (Call ''UAc'' [This, G ''SYb'', G ''UYb'', G ''Lxc'', G ''Mxc'']), Do (Call ''UAc'' [This, G ''SYb'', G ''VYb'', G ''Lxc'', G ''Mxc''])],
    fn ''VQd'' 6 1 [When (Neg (Or (Loose (V 1) (K JNull)) (Neg (Call ''zQd'' [V 1, G ''kQd'', G ''lQd''])))) [Raise (Call ''Lcb'' [New ''kfb'' [Bin Plus (K (JStr ''invalid scheme: '')) (V 1)]])] [], When (And (Neg (V 0)) (Neg (And (And (And (Neg (Loose (V 2) (K JNull))) (Loose (Call ''Agb'' [V 2, Call ''Pgb'' [K (JNum 35)]]) (K (JNum (- 1))))) (Bin Gt (Dot (V 2) ''length'') (K (JNum 0)))) (Seq (Call ''UDb'' [K (JNum 0), Dot (V 2) ''length'']) (Neg (Loose (Meth (V 2) ''charCodeAt'' [K (JNum 0)]) (K (JNum 47)))))))) [Raise (Call ''Lcb'' [New ''kfb'' [Bin Plus (K (JStr ''invalid opaquePart: '')) (V 2)]])] [], When (And (And (V 0) (Neg (And (Neg (Loose (V 1) (K JNull))) (Call ''Dob'' [G ''rQd'', Meth (V 1) ''toLowerCase'' []])))) (Neg (Or (Loose (V 2) (K JNull)) (Neg (Call ''zQd'' [V 2, G ''nQd'', G ''oQd'']))))) [Raise (Call ''Lcb'' [New ''kfb'' [Bin Plus (G ''YHe'') (V 2)]])] [], When (And (And (And (V 0) (Neg (Loose (V 1) (K JNull)))) (Call ''Dob'' [G ''rQd'', Meth (V 1) ''toLowerCase'' []])) (Neg (Call ''RQd'' [V 2]))) [Raise (Call ''Lcb'' [New ''kfb'' [Bin Plus (G ''YHe'') (V 2)]])] [], When (Neg (Call ''SQd'' [V 3])) [Raise (Call ''Lcb'' [New ''kfb'' [Bin Plus (K (JStr ''invalid device: '')) (V 3)]])] [], When (Neg (Call ''UQd'' [V 4])) [Do (SetV 6 (Cond (Loose (V 4) (K JNull)) (K (JStr ''invalid segments: null'')) (Bin Plus (K (JStr ''invalid segment: '')) (Call ''GQd'' [V 4])))), Raise (Call ''Lcb'' [New ''kfb'' [V 6]])] [], When (Neg (Or (Loose (V 5) (K JNull)) (Loose (Call ''Agb'' [V 5, Call ''Pgb'' [K (JNum 35)]]) (K (JNum (- 1)))))) [Raise (Call ''Lcb'' [New ''kfb'' [Bin Plus (K (JStr ''invalid query: '')) (V 5)]])] []],
    fn ''YXb'' 3 15 [Do (SetV 12 (New ''mgd'' [Dot (V 0) ''o''])), Do (SetV 17 (Bin Divide (Dot (V 1) ''a'') (Dot (V 12) ''a''))), Do (SetV 7 (Bin Divide (Dot (V 1) ''b'') (Dot (V 12) ''b''))), Do (SetV 15 (Bin Minus (Dot (V 1) ''a'') (Dot (V 12) ''a''))), Do (SetV 5 (Bin Minus (Dot (V 1) ''b'') (Dot (V 12) ''b''))), When (V 2) [Do (SetV 4 (Same (Call ''XD'' [Call ''oNb'' [V 0, Seq (Call ''nyc'' []) (G ''qxc'')]]) (Call ''XD'' [Seq (Call ''Mld'' []) (G ''Hld'')]))), Do (SetV 14 (New ''Kmb'' [Dot (V 0) ''j''])), Loop (Bin Lt (Dot (V 14) ''a'') (Dot (Dot (Dot (V 14) ''c'') ''c'') ''length'')) [Do (SetV 13 (Call ''JD'' [Call ''Imb'' [V 14], K (JNum 12)])), Switch (Dot (Dot (V 13) ''j'') ''g'') [(Some (JNum 1), [Do (Or (V 4) (Put (Dot (V 13) ''n'') ''a'' (Bin Times (Dot (Dot (V 13) ''n'') ''a'') (V 17)))), Break]), (Some (JNum 2), [Do (Put (Dot (V 13) ''n'') ''a'' (Bin Plus (Dot (Dot (V 13) ''n'') ''a'') (V 15))), Do (Or (V 4) (Put (Dot (V 13) ''n'') ''b'' (Bin Times (Dot (Dot (V 13) ''n'') ''b'') (V 7)))), Break]), (Some (JNum 3), [Do (Or (V 4) (Put (Dot (V 13) ''n'') ''a'' (Bin Times (Dot (Dot (V 13) ''n'') ''a'') (V 17)))), Do (Put (Dot (V 13) ''n'') ''b'' (Bin Plus (Dot (Dot (V 13) ''n'') ''b'') (V 5))), Break]), (Some (JNum 4), [Do (Or (V 4) (Put (Dot (V 13) ''n'') ''b'' (Bin Times (Dot (Dot (V 13) ''n'') ''b'') (V 7))))])]] []] [], Do (SetV 9 (New ''Kmb'' [Dot (V 0) ''b''])), Loop (Bin Lt (Dot (V 9) ''a'') (Dot (Dot (Dot (V 9) ''c'') ''c'') ''length'')) [Do (SetV 8 (Call ''JD'' [Call ''Imb'' [V 9], K (JNum 70)])), Do (SetV 10 (Bin Plus (Dot (Dot (V 8) ''n'') ''a'') (Bin Divide (Dot (Dot (V 8) ''o'') ''a'') (K (JNum 2))))), Do (SetV 11 (Bin Plus (Dot (Dot (V 8) ''n'') ''b'') (Bin Divide (Dot (Dot (V 8) ''o'') ''b'') (K (JNum 2))))), Do (SetV 16 (Bin Divide (V 10) (Dot (V 12) ''a''))), Do (SetV 6 (Bin Divide (V 11) (Dot (V 12) ''b''))), When (Bin Ge (Bin Plus (V 16) (V 6)) (K (JNum 1))) [When (And (Bin Gt (Bin Minus (V 16) (V 6)) (K (JNum 0))) (Bin Ge (V 11) (K (JNum 0)))) [Do (Put (Dot (V 8) ''n'') ''a'' (Bin Plus (Dot (Dot (V 8) ''n'') ''a'') (V 15))), Do (Put (Dot (V 8) ''n'') ''b'' (Bin Plus (Dot (Dot (V 8) ''n'') ''b'') (Bin Times (V 5) (V 6))))] [When (And (Bin Lt (Bin Minus (V 16) (V 6)) (K (JNum 0))) (Bin Ge (V 10) (K (JNum 0)))) [Do (Put (Dot (V 8) ''n'') ''a'' (Bin Plus (Dot (Dot (V 8) ''n'') ''a'') (Bin Times (V 15) (V 16)))), Do (Put (Dot (V 8) ''n'') ''b'' (Bin Plus (Dot (Dot (V 8) ''n'') ''b'') (V 5)))] []]] []] [], Do (Put (Dot (V 0) ''o'') ''a'' (Dot (V 1) ''a'')), Do (Put (Dot (V 0) ''o'') ''b'' (Dot (V 1) ''b'')), Do (Call ''rNb'' [V 0, Seq (Call ''nyc'' []) (G ''axc''), Seq (Seq (Call ''ind'' []) (SetV 3 (Call ''JD'' [Call ''web'' [G ''Q2''], K (JNum 10)]))) (New ''Nrb'' [V 3, Call ''JD'' [Call ''nDb'' [V 3, Dot (V 3) ''length''], K (JNum 10)], K (JNum 0)])])],
    fn ''oEc'' 3 15 [Do (Meth (V 2) ''Tg'' [K (JStr ''Network simplex layering''), K (JNum 1)]), Do (Put (V 0) ''b'' (V 1)), Do (SetV 17 (Bin Times (Dot (Call ''JD'' [Call ''oNb'' [V 1, Seq (Call ''nyc'' []) (G ''Xxc'')], K (JNum 15)]) ''a'') (K (JNum 4)))), Do (SetV 16 (Dot (Dot (V 0) ''b'') ''a'')), When (Bin Lt (Dot (Dot (V 16) ''c'') ''length'') (K (JNum 1))) [Do (Meth (V 2) ''Ug'' []), Ret (K JUndef)] [], Do (SetV 5 (Call ''kEc'' [V 0, V 16])), Do (SetV 15 (K JNull)), Do (SetV 4 (Call ''Ztb'' [V 5, K (JNum 0)])), Loop (Neg (Loose (Dot (V 4) ''b'') (Dot (Dot (V 4) ''d'') ''c''))) [Do (SetV 3 (Call ''JD'' [Call ''lub'' [V 4], K (JNum 16)])), Do (SetV 7 (Bin Times (V 17) (Call ''YD'' [Meth (Dot (G ''$wnd'') ''Math'') ''sqrt'' [Meth (V 3) ''gc'' []]]))), Do (SetV 6 (Call ''nEc'' [V 3])), Do (Call ''QGb'' [Call ''bHb'' [Call ''dHb'' [Call ''cHb'' [Call ''fHb'' [V 6], V 7], V 15], K (JBool True)], Meth (V 2) ''dh'' [K (JNum 1)]]), Do (SetV 12 (Dot (Dot (V 0) ''b'') ''b'')), Do (SetV 14 (New ''Kmb'' [Dot (V 6) ''a''])), Loop (Bin Lt (Dot (V 14) ''a'') (Dot (Dot (Dot (V 14) ''c'') ''c'') ''length'')) [Do (SetV 13 (Call ''JD'' [Call ''Imb'' [V 14], K (JNum 124)])), Loop (Bin Le (Dot (Dot (V 12) ''c'') ''length'') (Dot (V 13) ''e'')) [Do (Call ''$lb'' [V 12, Dot (Dot (V 12) ''c'') ''length'', New ''y$b'' [Dot (V 0) ''b'']])] [], Do (SetV 10 (Call ''JD'' [Dot (V 13) ''f'', K (JNum 9)])), Do (Call ''NYb'' [V 10, Call ''JD'' [Call ''dmb'' [V 12, Dot (V 13) ''e''], K (JNum 25)]])] [], When (Bin Gt (Dot (V 5) ''b'') (K (JNum 1))) [Do (SetV 15 (Call ''SC'' [G ''cE'', G ''bve'', K (JNum 30), Dot (Dot (Dot (Dot (V 0) ''b'') ''b'') ''c'') ''length'', K (JNum 15), K (JNum 1)])), Do (SetV 11 (K (JNum 0))), Do (SetV 9 (New ''Kmb'' [Dot (Dot (V 0) ''b'') ''b''])), Loop (Bin Lt (Dot (V 9) ''a'') (Dot (Dot (Dot (V 9) ''c'') ''c'') ''length'')) [Do (SetV 8 (Call ''JD'' [Call ''Imb'' [V 9], K (JNum 25)])), Do (PutIdx (V 15) (Bin Minus (SetV 11 (Bin Minus (V 11) (K (JNum (- 1))))) (K (JNum 1))) (Dot (Dot (Dot (V 8) ''a'') ''c'') ''length''))] []] []] [], Do (Put (Dot (V 16) ''c'') ''length'' (K (JNum 0))), Do (Put (V 0) ''a'' (K JNull)), Do (Put (V 0) ''b'' (K JNull)), Do (Put (V 0) ''c'' (K JNull)), Do (Meth (V 2) ''Ug'' [])],
    fn ''cJc'' 2 10 [Do (SetV 10 (New ''lmb'' [])), Do (SetV 11 (New ''Glb'' [])), Do (SetV 5 (K JNull)), Do (SetV 4 (K (JNum 0))), Do (SetV 3 (K (JNum 0))), Loop (Bin Lt (V 3) (Dot (V 1) ''length'')) [Do (SetV 2 (Idx (V 1) (V 3))), Do (And (Call ''eJc'' [V 5, V 2]) (SetV 4 (Call ''ZIc'' [V 0, V 11, V 10, G ''NIc'', V 4]))), Do (And (Call ''pNb'' [V 2, Seq (Call ''Wrc'' []) (G ''grc'')]) (SetV 5 (Call ''JD'' [Call ''oNb'' [V 2, G ''grc''], K (JNum 9)]))), Switch (Dot (Dot (V 2) ''k'') ''g'') [(Some (JNum 0), [Do (SetV 8 (Call ''cr'' [Call ''Zq'' [Call ''IYb'' [V 2, Seq (Call ''Bmd'' []) (G ''hmd'')], New ''PJc'' []]])), Loop (Call ''xc'' [V 8]) [Do (SetV 6 (Call ''JD'' [Call ''yc'' [V 8], K (JNum 12)])), Do (PutIdx (Dot (V 0) ''d'') (Dot (V 6) ''p'') (Bin Minus (SetV 4 (Bin Minus (V 4) (K (JNum (- 1))))) (K (JNum 1)))), Do (Call ''qDb'' [Dot (V 10) ''c'', V 6])] [], Do (SetV 4 (Call ''ZIc'' [V 0, V 11, V 10, G ''NIc'', V 4])), Do (SetV 9 (Call ''cr'' [Call ''Zq'' [Call ''IYb'' [V 2, G ''ymd''], New ''PJc'' []]])), Loop (Call ''xc'' [V 9]) [Do (SetV 6 (Call ''JD'' [Call ''yc'' [V 9], K (JNum 12)])), Do (PutIdx (Dot (V 0) ''d'') (Dot (V 6) ''p'') (Bin Minus (SetV 4 (Bin Minus (V 4) (K (JNum (- 1))))) (K (JNum 1)))), Do (Call ''qDb'' [Dot (V 10) ''c'', V 6])] [], Break]), (Some (JNum 3), [When (Neg (Meth (Call ''IYb'' [V 2, G ''MIc'']) ''dc'' [])) [Do (SetV 6 (Call ''JD'' [Meth (Call ''IYb'' [V 2, G ''MIc'']) ''Xb'' [K (JNum 0)], K (JNum 12)])), Do (PutIdx (Dot (V 0) ''d'') (Dot (V 6) ''p'') (Bin Minus (SetV 4 (Bin Minus (V 4) (K (JNum (- 1))))) (K (JNum 1)))), Do (Call ''qDb'' [Dot (V 10) ''c'', V 6])] [], Do (Or (Meth (Call ''IYb'' [V 2, G ''NIc'']) ''dc'' []) (Call ''rlb'' [V 11, V 2])), Break]), (Some (JNum 1), [Do (SetV 7 (Meth (Call ''IYb'' [V 2, Seq (Call ''Bmd'' []) (G ''Amd'')]) ''Jc'' [])), Loop (Meth (V 7) ''Ob'' []) [Do (SetV 6 (Call ''JD'' [Meth (V 7) ''Pb'' [], K (JNum 12)])), Do (PutIdx (Dot (V 0) ''d'') (Dot (V 6) ''p'') (Bin Minus (SetV 4 (Bin Minus (V 4) (K (JNum (- 1))))) (K (JNum 1)))), Do (Call ''qDb'' [Dot (V 10) ''c'', V 6])] [], Do (Meth (Call ''IYb'' [V 2, G ''gmd'']) ''Ic'' [New ''NJc'' [V 11, V 2]])])]] [Do (SetV 3 (Bin Minus (V 3) (K (JNum (- 1)))))], Do (Call ''ZIc'' [V 0, V 11, V 10, G ''NIc'', V 4]), Ret (V 10)],
    fn ''sdd'' 2 13 [When (Or (Loose (V 1) (K JNull)) (Loose (Dot (V 1) ''length'') (K (JNum 0)))) [Ret (K JNull)] [], Do (SetV 5 (Call ''JD'' [Call ''fjb'' [Dot (V 0) ''f'', V 1], K (JNum 21)])), When (Neg (V 5)) [Do (SetV 4 (Seq (SetV 13 (Meth (Meth (Dot (New ''qkb'' [Dot (V 0) ''d'']) ''a'') ''vc'' []) ''Jc'' [])) (New ''vkb'' [V 13]))), Loop (Meth (Dot (V 4) ''a'') ''Ob'' []) [Do (SetV 2 (Seq (SetV 6 (Call ''JD'' [Meth (Dot (V 4) ''a'') ''Pb'' [], K (JNum 45)])) (Call ''JD'' [Meth (V 6) ''kd'' [], K (JNum 21)]))), Do (SetV 7 (Dot (V 2) ''f'')), Do (SetV 14 (Dot (V 1) ''length'')), When (And (Call ''vgb'' [Meth (V 7) ''substr'' [Bin Minus (Dot (V 7) ''length'') (V 14), V 14], V 1]) (Or (Loose (Dot (V 1) ''length'') (Dot (V 7) ''length'')) (Loose (Call ''sgb'' [V 7, Bin Minus (Bin Minus (Dot (V 7) ''length'') (Dot (V 1) ''length'')) (K (JNum 1))]) (K (JNum 46))))) [When (V 5) [Ret (K JNull)] [], Do (SetV 5 (V 2))] []] [], When (Neg (V 5)) [Do (SetV 3 (Seq (SetV 12 (Meth (Meth (Dot (New ''qkb'' [Dot (V 0) ''d'']) ''a'') ''vc'' []) ''Jc'' [])) (New ''vkb'' [V 12]))), Loop (Meth (Dot (V 3) ''a'') ''Ob'' []) [Do (SetV 2 (Seq (SetV 6 (Call ''JD'' [Meth (Dot (V 3) ''a'') ''Pb'' [], K (JNum 45)])) (Call ''JD'' [Meth (V 6) ''kd'' [], K (JNum 21)]))), Do (SetV 11 (Dot (V 2) ''g'')), When (Neg (Loose (V 11) (K JNull))) [Do (Seq (Seq (SetV 8 (V 11)) (SetV 9 (K (JNum 0)))) (SetV 10 (Dot (V 8) ''length''))), Loop (Bin Lt (V 9) (V 10)) [Do (SetV 7 (Idx (V 8) (V 9))), Do (SetV 14 (Dot (V 1) ''length'')), When (And (Call ''vgb'' [Meth (V 7) ''substr'' [Bin Minus (Dot (V 7) ''length'') (V 14), V 14], V 1]) (Or (Loose (Dot (V 1) ''length'') (Dot (V 7) ''length'')) (Loose (Call ''sgb'' [V 7, Bin Minus (Bin Minus (Dot (V 7) ''length'') (Dot (V 1) ''length'')) (K (JNum 1))]) (K (JNum 46))))) [When (V 5) [Ret (K JNull)] [], Do (SetV 5 (V 2))] []] [Do (SetV 9 (Bin Minus (V 9) (K (JNum (- 1)))))]] []] []] [], Do (And (Neg (Neg (V 5))) (Call ''ijb'' [Dot (V 0) ''f'', V 1, V 5]))] [], Ret (V 5)]]"

definition object_table28 :: "(string \<times> jfun) list" where
  "object_table28 = code_6030_6040 @ code_6041_6042 @ code_6044_6053 @ code_6054_6063 @ code_6064_6070"

text \<open>The names each table declares.\<close>

lemma names_6030_6040 [js_names]: "map fst code_6030_6040 = [
    ''Z7b'', ''Lbd'', ''hmc'', ''aD'', ''Lib'', ''tRc'', ''bZd'', ''Rce'', ''eee'', ''zNc'',
    ''VOc'']"
  by (simp add: code_6030_6040_def fn_def)

lemma names_6041_6042 [js_names]: "map fst code_6041_6042 = [
    ''eRc'', ''Ake'']"
  by (simp add: code_6041_6042_def fn_def)

lemma names_6044_6053 [js_names]: "map fst code_6044_6053 = [
    ''Kle'', ''o2b'', ''eRb'', ''pTb'', ''i6c'', ''m3b'', ''Smc'', ''JNc'', ''v8b'', ''xcc'']"
  by (simp add: code_6044_6053_def fn_def)

lemma names_6054_6063 [js_names]: "map fst code_6054_6063 = [
    ''wed'', ''$Id'', ''$Zd'', ''NGb'', ''$Jb'', ''hLb'', ''TFc'', ''G5c'', ''hRb'', ''CBc'']"
  by (simp add: code_6054_6063_def fn_def)

lemma names_6064_6070 [js_names]: "map fst code_6064_6070 = [
    ''Mee'', ''XAc'', ''VQd'', ''YXb'', ''oEc'', ''cJc'', ''sdd'']"
  by (simp add: code_6064_6070_def fn_def)

end
