(* ===== verification/ObjectTable29.thy ===== *)
theory ObjectTable29
  imports ObjectCode
begin

text \<open>
  Functions of \<open>layout-worker.js\<close>, lines 6072 to 6113, in the order of the file, one per line:
  the algorithms of the layout engine, longer operations of the runtime's collections and of options,
  with their loops, \<open>switch\<close> and \<open>try\<close> statements. An entry has the name, the
  number of parameters, the number of further local variables and the body; parameters and locals
  are numbered from 0, the variable of a \<open>catch\<close> has a number of its own, \<open>x++\<close> is \<open>(x=x+1)-1\<close>. Lines
  with a construct outside \<open>jexp\<close> and \<open>jstm\<close> (closures, \<open>in\<close>, floating-point literals, host objects) are
  left out.
\<close>

definition code_6072_6080 :: "(string \<times> jfun) list" where
  "code_6072_6080 = [
    fn ''cPc'' 5 15 [Do (SetV 19 (Call ''Ux'' [V 0])), Do (SetV 8 (New ''lmb'' [])), Do (SetV 5 (Dot (Dot (V 0) ''c'') ''length'')), Do (SetV 9 (Bin Minus (V 5) (K (JNum 1)))), Do (SetV 10 (Bin Plus (V 5) (K (JNum 1)))), Loop (Neg (Loose (Meth (Dot (V 19) ''a'') ''gc'' []) (K (JNum 0)))) [Loop (Neg (Loose (Dot (V 2) ''b'') (K (JNum 0)))) [Do (SetV 17 (Seq (Call ''LDb'' [Neg (Loose (Dot (V 2) ''b'') (K (JNum 0)))]) (Call ''JD'' [Call ''bub'' [V 2, Dot (Dot (V 2) ''a'') ''a''], K (JNum 116)]))), Do (Neg (Loose (Meth (Dot (V 19) ''a'') ''Ac'' [V 17]) (K JNull))), Do (Put (V 17) ''g'' (Bin Minus (SetV 9 (Bin Minus (V 9) (K (JNum 1)))) (K (JNum (- 1))))), Do (Call ''fPc'' [V 17, V 1, V 2, V 3])] [], Loop (Neg (Loose (Dot (V 1) ''b'') (K (JNum 0)))) [Do (SetV 18 (Seq (Call ''LDb'' [Neg (Loose (Dot (V 1) ''b'') (K (JNum 0)))]) (Call ''JD'' [Call ''bub'' [V 1, Dot (Dot (V 1) ''a'') ''a''], K (JNum 116)]))), Do (Neg (Loose (Meth (Dot (V 19) ''a'') ''Ac'' [V 18]) (K JNull))), Do (Put (V 18) ''g'' (Bin Minus (SetV 10 (Bin Minus (V 10) (K (JNum (- 1))))) (K (JNum 1)))), Do (Call ''fPc'' [V 18, V 1, V 2, V 3])] [], Do (SetV 7 (G ''Eue'')), Do (SetV 15 (Meth (Meth (Dot (V 19) ''a'') ''ec'' []) ''Jc'' [])), Loop (Meth (V 15) ''Ob'' []) [Do (SetV 14 (Call ''JD'' [Meth (V 15) ''Pb'' [], K (JNum 116)])), When (And (And (Neg (V 3)) (Bin Gt (Dot (V 14) ''b'') (K (JNum 0)))) (Bin Le (Dot (V 14) ''a'') (K (JNum 0)))) [Do (Put (Dot (V 8) ''c'') ''length'' (K (JNum 0))), Do (Call ''qDb'' [Dot (V 8) ''c'', V 14]), Break] [], Do (SetV 13 (Bin Minus (Dot (V 14) ''i'') (Dot (V 14) ''d''))), When (Bin Ge (V 13) (V 7)) [When (Bin Gt (V 13) (V 7)) [Do (Put (Dot (V 8) ''c'') ''length'' (K (JNum 0))), Do (SetV 7 (V 13))] [], Do (Call ''qDb'' [Dot (V 8) ''c'', V 14])] []] [], When (Neg (Loose (Dot (Dot (V 8) ''c'') ''length'') (K (JNum 0)))) [Do (SetV 6 (Call ''JD'' [Call ''dmb'' [V 8, Call ''Qvb'' [V 4, Dot (Dot (V 8) ''c'') ''length'']], K (JNum 116)])), Do (Neg (Loose (Meth (Dot (V 19) ''a'') ''Ac'' [V 6]) (K JNull))), Do (Put (V 6) ''g'' (Bin Minus (SetV 10 (Bin Minus (V 10) (K (JNum (- 1))))) (K (JNum 1)))), Do (Call ''fPc'' [V 6, V 1, V 2, V 3]), Do (Put (Dot (V 8) ''c'') ''length'' (K (JNum 0)))] []] [], Do (SetV 16 (Bin Plus (Dot (Dot (V 0) ''c'') ''length'') (K (JNum 1)))), Do (SetV 12 (New ''Kmb'' [V 0])), Loop (Bin Lt (Dot (V 12) ''a'') (Dot (Dot (Dot (V 12) ''c'') ''c'') ''length'')) [Do (SetV 11 (Call ''JD'' [Call ''Imb'' [V 12], K (JNum 116)])), Do (And (Bin Lt (Dot (V 11) ''g'') (V 5)) (Put (V 11) ''g'' (Bin Plus (Dot (V 11) ''g'') (V 16))))] []],
    fn ''MHc'' 3 15 [Do (SetV 9 (G ''uCe'')), Do (SetV 8 (G ''tCe'')), Do (SetV 17 (New ''lmb'' [])), Do (SetV 14 (New ''Kmb'' [V 1])), Loop (Bin Lt (Dot (V 14) ''a'') (Dot (Dot (Dot (V 14) ''c'') ''c'') ''length'')) [Do (SetV 13 (Call ''JD'' [Call ''Imb'' [V 14], K (JNum 9)])), Do (SetV 4 (New ''lmb'' [])), Do (SetV 7 (New ''Yr'' [Call ''Dr'' [Meth (Dot (Call ''EYb'' [V 13]) ''a'') ''Jc'' [], New ''Dl'' []]])), Loop (Call ''Wr'' [V 7]) [Do (SetV 5 (Call ''JD'' [Call ''Xr'' [V 7], K (JNum 17)])), Do (SetV 16 (Dot (Dot (V 5) ''d'') ''i'')), Do (SetV 15 (Dot (Dot (V 5) ''c'') ''i'')), Do (And (Loose (Dot (Dot (V 16) ''c'') ''p'') (V 2)) (Seq (Call ''qDb'' [Dot (V 4) ''c'', V 16]) (K (JBool True)))), Do (And (Loose (Dot (Dot (V 15) ''c'') ''p'') (V 2)) (Seq (Call ''qDb'' [Dot (V 4) ''c'', V 15]) (K (JBool True))))] [], Do (SetV 6 (New ''Yr'' [Call ''Dr'' [Meth (Dot (Call ''HYb'' [V 13]) ''a'') ''Jc'' [], New ''Dl'' []]])), Loop (Call ''Wr'' [V 6]) [Do (SetV 5 (Call ''JD'' [Call ''Xr'' [V 6], K (JNum 17)])), Do (SetV 16 (Dot (Dot (V 5) ''d'') ''i'')), Do (SetV 15 (Dot (Dot (V 5) ''c'') ''i'')), Do (And (Loose (Dot (Dot (V 16) ''c'') ''p'') (V 2)) (Seq (Call ''qDb'' [Dot (V 4) ''c'', V 16]) (K (JBool True)))), Do (And (Loose (Dot (Dot (V 15) ''c'') ''p'') (V 2)) (Seq (Call ''qDb'' [Dot (V 4) ''c'', V 15]) (K (JBool True))))] [], When (Loose (Dot (Dot (V 4) ''c'') ''length'') (K (JNum 0))) [Do (Call ''qDb'' [Dot (V 17) ''c'', V 13])] [Do (Call ''Inb'' []), Do (Call ''jmb'' [V 4, Dot (V 0) ''b'']), Do (SetV 12 (Call ''Ueb'' [Call ''MD'' [Call ''oNb'' [Call ''JD'' [Call ''dmb'' [V 4, Bin DivInt (Dot (Dot (V 4) ''c'') ''length'') (K (JNum 2))], K (JNum 9)], Seq (Call ''Wrc'' []) (G ''Vrc'')]]])), Do (Call ''rNb'' [V 13, G ''Vrc'', V 12]), Do (SetV 9 (Meth (Dot (G ''$wnd'') ''Math'') ''min'' [V 9, V 12])), Do (SetV 8 (Meth (Dot (G ''$wnd'') ''Math'') ''max'' [V 8, V 12]))]] [], Do (SetV 3 (Bin Divide (Bin Plus (V 8) (V 9)) (K (JNum 2)))), Do (SetV 11 (New ''Kmb'' [V 17])), Loop (Bin Lt (Dot (V 11) ''a'') (Dot (Dot (Dot (V 11) ''c'') ''c'') ''length'')) [Do (SetV 10 (Call ''JD'' [Call ''Imb'' [V 11], K (JNum 9)])), Do (Call ''rNb'' [V 10, Seq (Call ''Wrc'' []) (G ''Vrc''), V 3])] []],
    fn ''xNc'' 2 11 [Do (SetV 4 (New ''Kmb'' [Dot (Dot (V 0) ''a'') ''b''])), Loop (Bin Lt (Dot (V 4) ''a'') (Dot (Dot (Dot (V 4) ''c'') ''c'') ''length'')) [Do (SetV 2 (Call ''JD'' [Call ''Imb'' [V 4], K (JNum 25)])), Do (SetV 8 (New ''Kmb'' [Dot (V 2) ''a''])), Loop (Bin Lt (Dot (V 8) ''a'') (Dot (Dot (Dot (V 8) ''c'') ''c'') ''length'')) [Do (SetV 7 (Call ''JD'' [Call ''Imb'' [V 8], K (JNum 9)])), Do (PutIdx (Dot (V 1) ''j'') (Dot (V 7) ''p'') (V 7)), Do (PutIdx (Dot (V 1) ''i'') (Dot (V 7) ''p'') (Cond (Loose (Dot (V 1) ''o'') (Seq (Call ''nNc'' []) (G ''mNc''))) (G ''Dve'') (G ''Cve'')))] []] [], Do (Call ''kjb'' [Dot (V 0) ''c'']), Do (SetV 6 (Dot (Dot (V 0) ''a'') ''b'')), Do (And (Loose (Dot (V 1) ''c'') (Seq (Call ''fNc'' []) (G ''dNc''))) (SetV 6 (Call ''$u'' [V 6]))), Do (Call ''bOc'' [Dot (V 0) ''e'', V 1, Dot (V 0) ''b'']), Do (Call ''Wmb'' [Dot (V 1) ''p'', K JNull]), Do (SetV 5 (Meth (V 6) ''Jc'' [])), Loop (Meth (V 5) ''Ob'' []) [Do (SetV 2 (Call ''JD'' [Meth (V 5) ''Pb'' [], K (JNum 25)])), Do (SetV 9 (Dot (V 2) ''a'')), Do (And (Loose (Dot (V 1) ''o'') (Seq (Call ''nNc'' []) (G ''mNc''))) (SetV 9 (Call ''$u'' [V 9]))), Do (SetV 12 (Meth (V 9) ''Jc'' [])), Loop (Meth (V 12) ''Ob'' []) [Do (SetV 11 (Call ''JD'' [Meth (V 12) ''Pb'' [], K (JNum 9)])), Do (And (Loose (Idx (Dot (V 1) ''g'') (Dot (V 11) ''p'')) (V 11)) (Call ''yNc'' [V 0, V 11, V 1]))] []] [], Do (Call ''zNc'' [V 0, V 1]), Do (SetV 3 (Meth (V 6) ''Jc'' [])), Loop (Meth (V 3) ''Ob'' []) [Do (SetV 2 (Call ''JD'' [Meth (V 3) ''Pb'' [], K (JNum 25)])), Do (SetV 12 (New ''Kmb'' [Dot (V 2) ''a''])), Loop (Bin Lt (Dot (V 12) ''a'') (Dot (Dot (Dot (V 12) ''c'') ''c'') ''length'')) [Do (SetV 11 (Call ''JD'' [Call ''Imb'' [V 12], K (JNum 9)])), Do (PutIdx (Dot (V 1) ''p'') (Dot (V 11) ''p'') (Idx (Dot (V 1) ''p'') (Dot (Idx (Dot (V 1) ''g'') (Dot (V 11) ''p'')) ''p''))), When (Loose (V 11) (Idx (Dot (V 1) ''g'') (Dot (V 11) ''p''))) [Do (SetV 10 (Call ''Ueb'' [Idx (Dot (V 1) ''i'') (Dot (Idx (Dot (V 1) ''j'') (Dot (V 11) ''p'')) ''p'')])), Do (And (Or (And (Loose (Dot (V 1) ''o'') (Seq (Call ''nNc'' []) (G ''mNc''))) (Bin Gt (V 10) (G ''Dve''))) (And (Loose (Dot (V 1) ''o'') (G ''lNc'')) (Bin Lt (V 10) (G ''Cve'')))) (PutIdx (Dot (V 1) ''p'') (Dot (V 11) ''p'') (Bin Plus (Call ''Ueb'' [Idx (Dot (V 1) ''p'') (Dot (V 11) ''p'')]) (V 10))))] []] []] [], Do (Meth (Dot (V 0) ''e'') ''wg'' [])],
    fn ''eWb'' 3 14 [When (Neg (Call ''Rdb'' [Call ''LD'' [Call ''oNb'' [V 2, Seq (Call ''nyc'' []) (G ''xwc'')]]])) [Ret (K JUndef)] [], Do (SetV 7 (New ''Kmb'' [Dot (V 2) ''j''])), Loop (Bin Lt (Dot (V 7) ''a'') (Dot (Dot (Dot (V 7) ''c'') ''c'') ''length'')) [Do (SetV 6 (Call ''JD'' [Call ''Imb'' [V 7], K (JNum 12)])), Do (SetV 12 (Call ''ZXb'' [Dot (V 6) ''g''])), Do (Seq (Seq (SetV 9 (V 12)) (SetV 10 (K (JNum 0)))) (SetV 11 (Dot (V 9) ''length''))), Loop (Bin Lt (V 10) (V 11)) [Do (SetV 8 (Idx (V 9) (V 10))), Do (SetV 5 (Loose (Dot (Dot (V 8) ''d'') ''i'') (V 2))), Do (SetV 4 (And (V 5) (Call ''Rdb'' [Call ''LD'' [Call ''oNb'' [V 8, G ''ywc'']]]))), When (V 4) [Do (SetV 14 (Dot (V 8) ''c'')), Do (SetV 13 (Call ''JD'' [Call ''ejb'' [Dot (V 0) ''b'', V 14], K (JNum 9)])), When (Neg (V 13)) [Do (SetV 13 (Call ''MXb'' [V 14, Seq (Call ''Mld'' []) (G ''Kld''), Dot (V 14) ''j'', K (JNum (- 1)), K JNull, K JNull, Dot (V 14) ''o'', Call ''JD'' [Call ''oNb'' [V 1, G ''bwc''], K (JNum 86)], V 1])), Do (Call ''rNb'' [V 13, Seq (Call ''Wrc'' []) (G ''urc''), V 14]), Do (Call ''hjb'' [Dot (V 0) ''b'', V 14, V 13]), Do (Call ''_lb'' [Dot (V 1) ''a'', V 13])] [], Do (SetV 16 (Dot (V 8) ''d'')), Do (SetV 15 (Call ''JD'' [Call ''ejb'' [Dot (V 0) ''b'', V 16], K (JNum 9)])), When (Neg (V 15)) [Do (SetV 15 (Call ''MXb'' [V 16, Seq (Call ''Mld'' []) (G ''Kld''), Dot (V 16) ''j'', K (JNum 1), K JNull, K JNull, Dot (V 16) ''o'', Call ''JD'' [Call ''oNb'' [V 1, G ''bwc''], K (JNum 86)], V 1])), Do (Call ''rNb'' [V 15, Seq (Call ''Wrc'' []) (G ''urc''), V 16]), Do (Call ''hjb'' [Dot (V 0) ''b'', V 16, V 15]), Do (Call ''_lb'' [Dot (V 1) ''a'', V 15])] [], Do (SetV 3 (Call ''YVb'' [V 8])), Do (Call ''CWb'' [V 3, Call ''JD'' [Call ''dmb'' [Dot (V 13) ''j'', K (JNum 0)], K (JNum 12)]]), Do (Call ''DWb'' [V 3, Call ''JD'' [Call ''dmb'' [Dot (V 15) ''j'', K (JNum 0)], K (JNum 12)]]), Do (Call ''Rc'' [Dot (V 0) ''a'', V 8, New ''nWb'' [V 3, V 1, Seq (Call ''qAc'' []) (G ''oAc'')]]), Do (Meth (Call ''JD'' [Call ''oNb'' [V 1, Seq (Call ''Wrc'' []) (G ''brc'')], K (JNum 22)]) ''Ec'' [Seq (Call ''Xpc'' []) (G ''Qpc'')])] []] [Do (SetV 10 (Bin Minus (V 10) (K (JNum (- 1)))))]] []],
    fn ''dWb'' 5 12 [Do (SetV 5 (New ''lmb'' [])), Do (SetV 9 (New ''Kmb'' [V 3])), Loop (Bin Lt (Dot (V 9) ''a'') (Dot (Dot (Dot (V 9) ''c'') ''c'') ''length'')) [Do (SetV 7 (Call ''JD'' [Call ''Imb'' [V 9], K (JNum 444)])), Do (SetV 6 (K JNull)), When (Loose (Dot (V 7) ''f'') (Seq (Call ''qAc'' []) (G ''oAc''))) [Do (SetV 14 (New ''Kmb'' [Dot (V 7) ''e''])), Loop (Bin Lt (Dot (V 14) ''a'') (Dot (Dot (Dot (V 14) ''c'') ''c'') ''length'')) [Do (SetV 13 (Call ''JD'' [Call ''Imb'' [V 14], K (JNum 17)])), Do (SetV 16 (Dot (Dot (V 13) ''d'') ''i'')), When (Loose (Call ''DYb'' [V 16]) (V 1)) [Do (Call ''WVb'' [V 0, V 1, V 7, V 13, Dot (V 7) ''b'', Dot (V 13) ''d''])] [When (Or (Neg (V 2)) (Call ''UXb'' [V 16, V 2])) [Do (Call ''XVb'' [V 0, V 1, V 7, V 3, V 13])] [Do (SetV 12 (Call ''aWb'' [V 0, V 1, V 2, V 13, Dot (V 7) ''b'', G ''oAc'', V 6])), Do (And (Neg (Loose (V 12) (V 6))) (Seq (Call ''qDb'' [Dot (V 5) ''c'', V 12]) (K (JBool True)))), Do (And (Dot (V 12) ''c'') (SetV 6 (V 12)))]]] []] [Do (SetV 11 (New ''Kmb'' [Dot (V 7) ''e''])), Loop (Bin Lt (Dot (V 11) ''a'') (Dot (Dot (Dot (V 11) ''c'') ''c'') ''length'')) [Do (SetV 10 (Call ''JD'' [Call ''Imb'' [V 11], K (JNum 17)])), Do (SetV 15 (Dot (Dot (V 10) ''c'') ''i'')), When (Loose (Call ''DYb'' [V 15]) (V 1)) [Do (Call ''WVb'' [V 0, V 1, V 7, V 10, Dot (V 10) ''c'', Dot (V 7) ''b''])] [When (Or (Neg (V 2)) (Call ''UXb'' [V 15, V 2])) [Continue] [Do (SetV 12 (Call ''aWb'' [V 0, V 1, V 2, V 10, Dot (V 7) ''b'', G ''nAc'', V 6])), Do (And (Neg (Loose (V 12) (V 6))) (Seq (Call ''qDb'' [Dot (V 5) ''c'', V 12]) (K (JBool True)))), Do (And (Dot (V 12) ''c'') (SetV 6 (V 12)))]]] []]] [], Do (SetV 8 (New ''Kmb'' [V 5])), Loop (Bin Lt (Dot (V 8) ''a'') (Dot (Dot (Dot (V 8) ''c'') ''c'') ''length'')) [Do (SetV 7 (Call ''JD'' [Call ''Imb'' [V 8], K (JNum 444)])), Do (Or (Neg (Loose (Call ''emb'' [Dot (V 1) ''a'', Dot (V 7) ''a'', K (JNum 0)]) (K (JNum (- 1))))) (Call ''_lb'' [Dot (V 1) ''a'', Dot (V 7) ''a''])), Do (And (Dot (V 7) ''c'') (Seq (Call ''qDb'' [Dot (V 4) ''c'', V 7]) (K (JBool True))))] []],
    fn ''xSc'' 1 20 [Do (SetV 4 (Call ''JD'' [Call ''oNb'' [V 0, Seq (Call ''_Wc'' []) (G ''SWc'')], K (JNum 26)])), Do (SetV 9 (G ''Ate'')), Do (SetV 10 (G ''Ate'')), Do (SetV 7 (G ''Eue'')), Do (SetV 8 (G ''Eue'')), Do (SetV 19 (Call ''Ztb'' [Dot (V 0) ''b'', K (JNum 0)])), Loop (Neg (Loose (Dot (V 19) ''b'') (Dot (Dot (V 19) ''d'') ''c''))) [Do (SetV 17 (Call ''JD'' [Call ''lub'' [V 19], K (JNum 40)])), Do (SetV 13 (Dot (V 17) ''e'')), Do (SetV 14 (Dot (V 17) ''f'')), Do (SetV 9 (Meth (Dot (G ''$wnd'') ''Math'') ''min'' [V 9, Bin Minus (Dot (V 13) ''a'') (Bin Divide (Dot (V 14) ''a'') (K (JNum 2)))])), Do (SetV 10 (Meth (Dot (G ''$wnd'') ''Math'') ''min'' [V 10, Bin Minus (Dot (V 13) ''b'') (Bin Divide (Dot (V 14) ''b'') (K (JNum 2)))])), Do (SetV 7 (Meth (Dot (G ''$wnd'') ''Math'') ''max'' [V 7, Bin Plus (Dot (V 13) ''a'') (Bin Divide (Dot (V 14) ''a'') (K (JNum 2)))])), Do (SetV 8 (Meth (Dot (G ''$wnd'') ''Math'') ''max'' [V 8, Bin Plus (Dot (V 13) ''b'') (Bin Divide (Dot (V 14) ''b'') (K (JNum 2)))]))] [], Do (SetV 12 (Call ''JD'' [Call ''cvd'' [V 4, Seq (Call ''SXc'' []) (G ''CXc'')], K (JNum 104)])), Do (SetV 18 (Call ''Ztb'' [Dot (V 0) ''b'', K (JNum 0)])), Loop (Neg (Loose (Dot (V 18) ''b'') (Dot (Dot (V 18) ''d'') ''c''))) [Do (SetV 17 (Call ''JD'' [Call ''lub'' [V 18], K (JNum 40)])), Do (SetV 11 (Call ''oNb'' [V 17, G ''SWc''])), When (Call ''RD'' [V 11, K (JNum 206)]) [Do (SetV 5 (Call ''JD'' [V 11, K (JNum 26)])), Do (Call ''Zvd'' [V 5, Dot (Dot (V 17) ''e'') ''a'', Dot (Dot (V 17) ''e'') ''b'']), Do (Call ''Xud'' [V 5, V 17])] []] [], Do (SetV 16 (Call ''Ztb'' [Dot (V 0) ''a'', K (JNum 0)])), Loop (Neg (Loose (Dot (V 16) ''b'') (Dot (Dot (V 16) ''d'') ''c''))) [Do (SetV 15 (Call ''JD'' [Call ''lub'' [V 16], K (JNum 65)])), Do (SetV 3 (Call ''JD'' [Call ''oNb'' [V 15, G ''SWc''], K (JNum 85)])), When (V 3) [Do (SetV 1 (Dot (V 15) ''a'')), Do (SetV 2 (Call ''_Ed'' [V 3])), Do (Call ''Npd'' [V 1, V 2])] []] [], Do (SetV 20 (Bin Plus (Bin Minus (V 7) (V 9)) (Bin Plus (Dot (V 12) ''b'') (Dot (V 12) ''c'')))), Do (SetV 6 (Bin Plus (Bin Minus (V 8) (V 10)) (Bin Plus (Dot (V 12) ''d'') (Dot (V 12) ''a'')))), Do (Or (Call ''Rdb'' [Call ''LD'' [Call ''cvd'' [V 4, Seq (Call ''vjd'' []) (G ''kid'')]]]) (Call ''eqd'' [V 4, V 20, V 6, K (JBool False), K (JBool False)])), Do (Call ''evd'' [V 4, G ''Chd'', Bin Minus (V 20) (Bin Plus (Dot (V 12) ''b'') (Dot (V 12) ''c''))]), Do (Call ''evd'' [V 4, G ''Bhd'', Bin Minus (V 6) (Bin Plus (Dot (V 12) ''d'') (Dot (V 12) ''a''))])],
    fn ''uRb'' 1 7 [Do (SetV 1 (K (JNum 0))), Do (SetV 5 (New ''Kmb'' [Dot (Dot (V 0) ''b'') ''a''])), Loop (Bin Lt (Dot (V 5) ''a'') (Dot (Dot (Dot (V 5) ''c'') ''c'') ''length'')) [Do (SetV 3 (Call ''JD'' [Call ''Imb'' [V 5], K (JNum 194)])), Do (Put (V 3) ''b'' (K (JNum 0))), Do (Put (V 3) ''c'' (K (JNum 0)))] [], Do (Call ''tRb'' [V 0, K (JNum 0)]), Do (Call ''sRb'' [V 0, Dot (V 0) ''g'']), Do (Call ''$Rb'' [Dot (V 0) ''c'']), Do (Call ''cSb'' [Dot (V 0) ''c'']), Do (SetV 2 (Seq (Call ''Djd'' []) (G ''zjd''))), Do (Call ''aSb'' [Call ''WRb'' [Call ''_Rb'' [Call ''aSb'' [Call ''WRb'' [Call ''_Rb'' [Call ''aSb'' [Call ''_Rb'' [Dot (V 0) ''c'', V 2]], Call ''Gjd'' [V 2]]]], V 2]]]), Do (Call ''_Rb'' [Dot (V 0) ''c'', G ''zjd'']), Do (Call ''xRb'' [V 0, Dot (V 0) ''g'']), Do (Call ''yRb'' [V 0, K (JNum 0)]), Do (Call ''zRb'' [V 0, K (JNum 0)]), Do (Call ''ARb'' [V 0, K (JNum 1)]), Do (Call ''tRb'' [V 0, K (JNum 1)]), Do (Call ''sRb'' [V 0, Dot (V 0) ''d'']), Do (Call ''$Rb'' [Dot (V 0) ''c'']), Do (SetV 6 (New ''Kmb'' [Dot (Dot (V 0) ''b'') ''a''])), Loop (Bin Lt (Dot (V 6) ''a'') (Dot (Dot (Dot (V 6) ''c'') ''c'') ''length'')) [Do (SetV 3 (Call ''JD'' [Call ''Imb'' [V 6], K (JNum 194)])), Do (SetV 1 (Bin Plus (V 1) (Meth (Dot (G ''$wnd'') ''Math'') ''abs'' [Dot (V 3) ''c''])))] [], Do (SetV 7 (New ''Kmb'' [Dot (Dot (V 0) ''b'') ''a''])), Loop (Bin Lt (Dot (V 7) ''a'') (Dot (Dot (Dot (V 7) ''c'') ''c'') ''length'')) [Do (SetV 3 (Call ''JD'' [Call ''Imb'' [V 7], K (JNum 194)])), Do (Put (V 3) ''b'' (K (JNum 0))), Do (Put (V 3) ''c'' (K (JNum 0)))] [], Do (SetV 2 (G ''Cjd'')), Do (Call ''aSb'' [Call ''WRb'' [Call ''_Rb'' [Call ''aSb'' [Call ''WRb'' [Call ''_Rb'' [Call ''aSb'' [Call ''cSb'' [Call ''_Rb'' [Dot (V 0) ''c'', V 2]]], Call ''Gjd'' [V 2]]]], V 2]]]), Do (Call ''_Rb'' [Dot (V 0) ''c'', G ''zjd'']), Do (Call ''xRb'' [V 0, Dot (V 0) ''d'']), Do (Call ''yRb'' [V 0, K (JNum 1)]), Do (Call ''zRb'' [V 0, K (JNum 1)]), Do (Call ''ARb'' [V 0, K (JNum 0)]), Do (Call ''cSb'' [Dot (V 0) ''c'']), Do (SetV 4 (New ''Kmb'' [Dot (Dot (V 0) ''b'') ''a''])), Loop (Bin Lt (Dot (V 4) ''a'') (Dot (Dot (Dot (V 4) ''c'') ''c'') ''length'')) [Do (SetV 3 (Call ''JD'' [Call ''Imb'' [V 4], K (JNum 194)])), Do (SetV 1 (Bin Plus (V 1) (Meth (Dot (G ''$wnd'') ''Math'') ''abs'' [Dot (V 3) ''c''])))] [], Ret (V 1)],
    fn ''n3b'' 2 14 [Do (SetV 2 (Call ''JD'' [Call ''oNb'' [V 0, Seq (Call ''nyc'' []) (G ''qxc'')], K (JNum 102)])), Do (SetV 6 (Dot (V 0) ''f'')), Do (SetV 5 (Dot (V 0) ''d'')), Do (SetV 7 (Bin Plus (Bin Plus (Dot (V 6) ''a'') (Dot (V 5) ''b'')) (Dot (V 5) ''c''))), Do (SetV 8 (Bin Minus (Bin Minus (K (JNum 0)) (Dot (V 5) ''d'')) (Dot (Dot (V 0) ''c'') ''b''))), Do (SetV 10 (Bin Minus (Bin Plus (Bin Plus (Dot (V 6) ''b'') (Dot (V 5) ''d'')) (Dot (V 5) ''a'')) (Dot (Dot (V 0) ''c'') ''b''))), Do (SetV 9 (New ''lmb'' [])), Do (SetV 11 (New ''lmb'' [])), Do (SetV 4 (New ''Kmb'' [V 1])), Loop (Bin Lt (Dot (V 4) ''a'') (Dot (Dot (Dot (V 4) ''c'') ''c'') ''length'')) [Do (SetV 3 (Call ''JD'' [Call ''Imb'' [V 4], K (JNum 9)])), Switch (Dot (V 2) ''g'') [(Some (JNum 1), []), (Some (JNum 2), []), (Some (JNum 3), [Do (Call ''d3b'' [V 3]), Break]), (Some (JNum 4), [Do (SetV 12 (Call ''JD'' [Call ''oNb'' [V 3, G ''oxc''], K (JNum 8)])), Do (SetV 13 (Cond (Neg (V 12)) (K (JNum 0)) (Dot (V 12) ''a''))), Do (Put (Dot (V 3) ''n'') ''a'' (Bin Minus (Bin Times (V 7) (Call ''Ueb'' [Call ''MD'' [Call ''oNb'' [V 3, Seq (Call ''Wrc'' []) (G ''Drc'')]]])) (V 13))), Do (Call ''zYb'' [V 3, K (JBool True), K (JBool False)]), Break]), (Some (JNum 5), [Do (SetV 14 (Call ''JD'' [Call ''oNb'' [V 3, G ''oxc''], K (JNum 8)])), Do (SetV 15 (Cond (Neg (V 14)) (K (JNum 0)) (Dot (V 14) ''a''))), Do (Put (Dot (V 3) ''n'') ''a'' (Bin Minus (Call ''Ueb'' [Call ''MD'' [Call ''oNb'' [V 3, Seq (Call ''Wrc'' []) (G ''Drc'')]]]) (V 15))), Do (Call ''zYb'' [V 3, K (JBool True), K (JBool False)]), Do (Put (V 6) ''a'' (Meth (Dot (G ''$wnd'') ''Math'') ''max'' [Dot (V 6) ''a'', Bin Plus (Dot (Dot (V 3) ''n'') ''a'') (Bin Divide (Dot (Dot (V 3) ''o'') ''a'') (K (JNum 2)))]))])], Switch (Dot (Call ''JD'' [Call ''oNb'' [V 3, Seq (Call ''Wrc'' []) (G ''$qc'')], K (JNum 64)]) ''g'') [(Some (JNum 1), [Do (Put (Dot (V 3) ''n'') ''b'' (V 8)), Do (Call ''qDb'' [Dot (V 9) ''c'', V 3]), Break]), (Some (JNum 3), [Do (Put (Dot (V 3) ''n'') ''b'' (V 10)), Do (Call ''qDb'' [Dot (V 11) ''c'', V 3])])]] [], Switch (Dot (V 2) ''g'') [(Some (JNum 1), []), (Some (JNum 2), [Do (Call ''f3b'' [V 9, V 0]), Do (Call ''f3b'' [V 11, V 0]), Break]), (Some (JNum 3), [Do (Call ''l3b'' [V 9, V 0]), Do (Call ''l3b'' [V 11, V 0])])]],
    fn ''_6b'' 3 12 [Do (Meth (V 2) ''Tg'' [K (JStr ''Label dummy switching''), K (JNum 1)]), Do (SetV 3 (Call ''JD'' [Call ''oNb'' [V 1, Seq (Call ''nyc'' []) (G ''ewc'')], K (JNum 231)])), Do (Call ''O6b'' [V 1]), Do (SetV 4 (Call ''Y6b'' [V 1, V 3])), Do (Put (V 0) ''a'' (Call ''SC'' [G ''aE'', G ''Jve'', K (JNum 30), Dot (Dot (Dot (V 1) ''b'') ''c'') ''length'', K (JNum 15), K (JNum 1)])), Do (Seq (Seq (SetV 7 (Seq (Call ''Fnc'' []) (Call ''WC'' [Call ''OC'' [G ''SV'', K (JNum 1)], G ''xue'', K (JNum 231), K (JNum 0), NewArr [G ''Bnc'', G ''Dnc'', G ''Anc'', G ''Cnc'', G ''Enc'', G ''znc'']]))) (SetV 10 (K (JNum 0)))) (SetV 13 (Dot (V 7) ''length''))), Loop (Bin Lt (V 10) (V 13)) [Do (SetV 5 (Idx (V 7) (V 10))), When (And (Or (Or (Loose (V 5) (G ''Enc'')) (Loose (V 5) (G ''znc''))) (Loose (V 5) (G ''Cnc''))) (Neg (Meth (Call ''JD'' [Cond (Call ''Krb'' [Dot (V 4) ''a'', V 5]) (Idx (Dot (V 4) ''b'') (Dot (V 5) ''g'')) (K JNull), K (JNum 16)]) ''dc'' []))) [Do (Call ''R6b'' [V 0, V 1]), Break] []] [Do (SetV 10 (Bin Minus (V 10) (K (JNum (- 1)))))], Do (Seq (Seq (SetV 8 (Call ''WC'' [Call ''OC'' [G ''SV'', K (JNum 1)], G ''xue'', K (JNum 231), K (JNum 0), NewArr [G ''Bnc'', G ''Dnc'', G ''Anc'', G ''Cnc'', G ''Enc'', G ''znc'']])) (SetV 11 (K (JNum 0)))) (SetV 14 (Dot (V 8) ''length''))), Loop (Bin Lt (V 11) (V 14)) [Do (SetV 5 (Idx (V 8) (V 11))), Do (Or (Or (Or (Loose (V 5) (G ''Enc'')) (Loose (V 5) (G ''znc''))) (Loose (V 5) (G ''Cnc''))) (Call ''a7b'' [V 0, Call ''JD'' [Cond (Call ''Krb'' [Dot (V 4) ''a'', V 5]) (Idx (Dot (V 4) ''b'') (Dot (V 5) ''g'')) (K JNull), K (JNum 16)]]))] [Do (SetV 11 (Bin Minus (V 11) (K (JNum (- 1)))))], Do (Seq (Seq (SetV 6 (Call ''WC'' [Call ''OC'' [G ''SV'', K (JNum 1)], G ''xue'', K (JNum 231), K (JNum 0), NewArr [G ''Bnc'', G ''Dnc'', G ''Anc'', G ''Cnc'', G ''Enc'', G ''znc'']])) (SetV 9 (K (JNum 0)))) (SetV 12 (Dot (V 6) ''length''))), Loop (Bin Lt (V 9) (V 12)) [Do (SetV 5 (Idx (V 6) (V 9))), Do (And (Or (Or (Loose (V 5) (G ''Enc'')) (Loose (V 5) (G ''znc''))) (Loose (V 5) (G ''Cnc''))) (Call ''a7b'' [V 0, Call ''JD'' [Cond (Call ''Krb'' [Dot (V 4) ''a'', V 5]) (Idx (Dot (V 4) ''b'') (Dot (V 5) ''g'')) (K JNull), K (JNum 16)]]))] [Do (SetV 9 (Bin Minus (V 9) (K (JNum (- 1)))))], Do (Put (V 0) ''a'' (K JNull)), Do (Meth (V 2) ''Ug'' [])]]"

definition code_6081_6088 :: "(string \<times> jfun) list" where
  "code_6081_6088 = [
    fn ''Gre'' 2 9 [Do (SetV 9 (V 1)), When (Or (Loose (Dot (V 9) ''b'') (K JNull)) (Loose (Dot (V 0) ''b'') (K JNull))) [Ret (K JUndef)] [], Do (Call ''Ire'' [V 0]), Do (Call ''Fre'' [V 0]), Do (Call ''Ire'' [V 9]), Do (Call ''Fre'' [V 9]), Do (SetV 2 (Call ''SC'' [G ''cE'', G ''bve'', K (JNum 30), Bin Plus (Dot (Dot (V 0) ''b'') ''length'') (Dot (Dot (V 9) ''b'') ''length''), K (JNum 15), K (JNum 1)])), Do (SetV 10 (K (JNum 0))), Do (SetV 3 (K (JNum 0))), Do (SetV 6 (K (JNum 0))), Loop (And (Bin Lt (V 3) (Dot (Dot (V 0) ''b'') ''length'')) (Bin Lt (V 6) (Dot (Dot (V 9) ''b'') ''length''))) [Do (SetV 4 (Idx (Dot (V 0) ''b'') (V 3))), Do (SetV 5 (Idx (Dot (V 0) ''b'') (Bin Plus (V 3) (K (JNum 1))))), Do (SetV 7 (Idx (Dot (V 9) ''b'') (V 6))), Do (SetV 8 (Idx (Dot (V 9) ''b'') (Bin Plus (V 6) (K (JNum 1))))), When (Bin Lt (V 5) (V 7)) [Do (SetV 3 (Bin Plus (V 3) (K (JNum 2))))] [When (And (Bin Ge (V 5) (V 7)) (Bin Le (V 4) (V 8))) [When (And (Bin Le (V 7) (V 4)) (Bin Le (V 5) (V 8))) [Do (PutIdx (V 2) (Bin Minus (SetV 10 (Bin Minus (V 10) (K (JNum (- 1))))) (K (JNum 1))) (V 4)), Do (PutIdx (V 2) (Bin Minus (SetV 10 (Bin Minus (V 10) (K (JNum (- 1))))) (K (JNum 1))) (V 5)), Do (SetV 3 (Bin Plus (V 3) (K (JNum 2))))] [When (Bin Le (V 7) (V 4)) [Do (PutIdx (V 2) (Bin Minus (SetV 10 (Bin Minus (V 10) (K (JNum (- 1))))) (K (JNum 1))) (V 4)), Do (PutIdx (V 2) (Bin Minus (SetV 10 (Bin Minus (V 10) (K (JNum (- 1))))) (K (JNum 1))) (V 8)), Do (PutIdx (Dot (V 0) ''b'') (V 3) (Bin Plus (V 8) (K (JNum 1)))), Do (SetV 6 (Bin Plus (V 6) (K (JNum 2))))] [When (Bin Le (V 5) (V 8)) [Do (PutIdx (V 2) (Bin Minus (SetV 10 (Bin Minus (V 10) (K (JNum (- 1))))) (K (JNum 1))) (V 7)), Do (PutIdx (V 2) (Bin Minus (SetV 10 (Bin Minus (V 10) (K (JNum (- 1))))) (K (JNum 1))) (V 5)), Do (SetV 3 (Bin Plus (V 3) (K (JNum 2))))] [Do (PutIdx (V 2) (Bin Minus (SetV 10 (Bin Minus (V 10) (K (JNum (- 1))))) (K (JNum 1))) (V 7)), Do (PutIdx (V 2) (Bin Minus (SetV 10 (Bin Minus (V 10) (K (JNum (- 1))))) (K (JNum 1))) (V 8)), Do (PutIdx (Dot (V 0) ''b'') (V 3) (Bin Plus (V 8) (K (JNum 1))))]]]] [When (Bin Lt (V 8) (V 4)) [Do (SetV 6 (Bin Plus (V 6) (K (JNum 2))))] [Raise (Call ''Lcb'' [New ''qz'' [Bin Plus (Bin Plus (Bin Plus (Bin Plus (Bin Plus (Bin Plus (Bin Plus (Bin Plus (K (JStr ''Token#intersectRanges(): Internal Error: ['')) (Idx (Dot (V 0) ''b'') (V 3))) (K (JStr '',''))) (Idx (Dot (V 0) ''b'') (Bin Plus (V 3) (K (JNum 1))))) (K (JStr ''] & [''))) (Idx (Dot (V 9) ''b'') (V 6))) (K (JStr '',''))) (Idx (Dot (V 9) ''b'') (Bin Plus (V 6) (K (JNum 1))))) (K (JStr '']''))]])]]]] [], Loop (Bin Lt (V 3) (Dot (Dot (V 0) ''b'') ''length'')) [Do (PutIdx (V 2) (Bin Minus (SetV 10 (Bin Minus (V 10) (K (JNum (- 1))))) (K (JNum 1))) (Idx (Dot (V 0) ''b'') (Bin Minus (SetV 3 (Bin Minus (V 3) (K (JNum (- 1))))) (K (JNum 1))))), Do (PutIdx (V 2) (Bin Minus (SetV 10 (Bin Minus (V 10) (K (JNum (- 1))))) (K (JNum 1))) (Idx (Dot (V 0) ''b'') (Bin Minus (SetV 3 (Bin Minus (V 3) (K (JNum (- 1))))) (K (JNum 1)))))] [], Do (Put (V 0) ''b'' (Call ''SC'' [G ''cE'', G ''bve'', K (JNum 30), V 10, K (JNum 15), K (JNum 1)])), Do (Call ''rhb'' [V 2, K (JNum 0), Dot (V 0) ''b'', K (JNum 0), V 10])],
    fn ''vRb'' 1 7 [Do (SetV 1 (New ''lmb'' [])), Do (Put (V 0) ''g'' (New ''lmb'' [])), Do (Put (V 0) ''d'' (New ''lmb'' [])), Do (SetV 6 (New ''Fjb'' [Dot (New ''wjb'' [Dot (Dot (V 0) ''f'') ''b'']) ''a''])), Loop (Dot (V 6) ''b'') [Do (SetV 5 (Call ''Djb'' [V 6])), Do (Call ''_lb'' [V 1, Call ''JD'' [Dot (Call ''JD'' [Meth (V 5) ''kd'' [], K (JNum 49)]) ''b'', K (JNum 82)]]), Do (Cond (Call ''Ejd'' [Meth (Call ''JD'' [Meth (V 5) ''jd'' [], K (JNum 592)]) ''yf'' []]) (Call ''_lb'' [Dot (V 0) ''d'', Call ''JD'' [Meth (V 5) ''kd'' [], K (JNum 49)]]) (Call ''_lb'' [Dot (V 0) ''g'', Call ''JD'' [Meth (V 5) ''kd'' [], K (JNum 49)]]))] [], Do (Call ''sRb'' [V 0, Dot (V 0) ''d'']), Do (Call ''sRb'' [V 0, Dot (V 0) ''g'']), Do (Put (V 0) ''c'' (New ''iSb'' [Dot (V 0) ''b''])), Do (Call ''gSb'' [Dot (V 0) ''c'', Seq (Call ''dRb'' []) (G ''cRb'')]), Do (Call ''xRb'' [V 0, Dot (V 0) ''d'']), Do (Call ''xRb'' [V 0, Dot (V 0) ''g'']), Do (Call ''bmb'' [V 1, Dot (Dot (Dot (V 0) ''c'') ''a'') ''b'']), Do (Put (V 0) ''e'' (New ''lgd'' [G ''Cve'', G ''Cve''])), Do (Put (V 0) ''a'' (New ''lgd'' [G ''Dve'', G ''Dve''])), Do (SetV 3 (New ''Kmb'' [V 1])), Loop (Bin Lt (Dot (V 3) ''a'') (Dot (Dot (Dot (V 3) ''c'') ''c'') ''length'')) [Do (SetV 2 (Call ''JD'' [Call ''Imb'' [V 3], K (JNum 82)])), Do (Put (Dot (V 0) ''e'') ''a'' (Meth (Dot (G ''$wnd'') ''Math'') ''min'' [Dot (Dot (V 0) ''e'') ''a'', Dot (Dot (V 2) ''g'') ''c''])), Do (Put (Dot (V 0) ''e'') ''b'' (Meth (Dot (G ''$wnd'') ''Math'') ''min'' [Dot (Dot (V 0) ''e'') ''b'', Dot (Dot (V 2) ''g'') ''d''])), Do (Put (Dot (V 0) ''a'') ''a'' (Meth (Dot (G ''$wnd'') ''Math'') ''max'' [Dot (Dot (V 0) ''a'') ''a'', Bin Plus (Dot (Dot (V 2) ''g'') ''c'') (Dot (Dot (V 2) ''g'') ''b'')])), Do (Put (Dot (V 0) ''a'') ''b'' (Meth (Dot (G ''$wnd'') ''Math'') ''max'' [Dot (Dot (V 0) ''a'') ''b'', Bin Plus (Dot (Dot (V 2) ''g'') ''d'') (Dot (Dot (V 2) ''g'') ''a'')]))] [], Do (Call ''fSb'' [Dot (V 0) ''c'', New ''ERb'' []]), Do (SetV 7 (K (JNum 0))), Loop (K (JBool True)) [Do (SetV 4 (Call ''uRb'' [V 0])), Do (SetV 7 (Bin Minus (V 7) (K (JNum (- 1)))))] [When (And (Or (Bin Lt (V 7) (K (JNum 2))) (Bin Gt (V 4) (G ''Due''))) (Bin Lt (V 7) (K (JNum 10)))) [] [Break]], Do (Call ''fSb'' [Dot (V 0) ''c'', New ''HRb'' []]), Do (Call ''uRb'' [V 0]), Do (Call ''bSb'' [Dot (V 0) ''c'']), Do (Call ''eRb'' [Dot (V 0) ''f''])],
    fn ''sGc'' 2 11 [Switch (Dot (Dot (V 0) ''k'') ''g'') [(Some (JNum 1), [Do (SetV 3 (Call ''JD'' [Call ''oNb'' [V 0, Seq (Call ''Wrc'' []) (G ''urc'')], K (JNum 17)])), Do (SetV 2 (Call ''JD'' [Call ''oNb'' [V 3, G ''vrc''], K (JNum 79)])), Do (Cond (Neg (V 2)) (SetV 2 (New ''ygd'' [])) (And (Call ''Rdb'' [Call ''LD'' [Call ''oNb'' [V 3, G ''Hrc'']]]) (SetV 2 (Call ''Cgd'' [V 2])))), Do (SetV 9 (Call ''JD'' [Call ''oNb'' [V 0, G ''nrc''], K (JNum 12)])), When (V 9) [Do (SetV 10 (Call ''rgd'' [Call ''WC'' [Call ''OC'' [G ''r2'', K (JNum 1)], G ''aue'', K (JNum 8), K (JNum 0), NewArr [Dot (Dot (V 9) ''i'') ''n'', Dot (V 9) ''n'', Dot (V 9) ''a'']]])), When (Bin Le (V 1) (Dot (V 10) ''a'')) [Ret (Dot (V 10) ''b'')] [], Do (Call ''Wtb'' [V 2, V 10, Dot (V 2) ''a'', Dot (Dot (V 2) ''a'') ''a''])] [], Do (SetV 11 (Call ''JD'' [Call ''oNb'' [V 0, G ''orc''], K (JNum 12)])), When (V 11) [Do (SetV 12 (Call ''rgd'' [Call ''WC'' [Call ''OC'' [G ''r2'', K (JNum 1)], G ''aue'', K (JNum 8), K (JNum 0), NewArr [Dot (Dot (V 11) ''i'') ''n'', Dot (V 11) ''n'', Dot (V 11) ''a'']]])), When (Bin Le (Dot (V 12) ''a'') (V 1)) [Ret (Dot (V 12) ''b'')] [], Do (Call ''Wtb'' [V 2, V 12, Dot (Dot (V 2) ''c'') ''b'', Dot (V 2) ''c''])] [], When (Bin Ge (Dot (V 2) ''b'') (K (JNum 2))) [Do (SetV 8 (Call ''Ztb'' [V 2, K (JNum 0)])), Do (SetV 6 (Call ''JD'' [Call ''lub'' [V 8], K (JNum 8)])), Do (SetV 7 (Call ''JD'' [Call ''lub'' [V 8], K (JNum 8)])), Loop (And (Bin Lt (Dot (V 7) ''a'') (V 1)) (Neg (Loose (Dot (V 8) ''b'') (Dot (Dot (V 8) ''d'') ''c'')))) [Do (SetV 6 (V 7)), Do (SetV 7 (Call ''JD'' [Call ''lub'' [V 8], K (JNum 8)]))] [], Ret (Bin Plus (Dot (V 6) ''b'') (Bin Times (Bin Divide (Bin Minus (V 1) (Dot (V 6) ''a'')) (Bin Minus (Dot (V 7) ''a'') (Dot (V 6) ''a''))) (Bin Minus (Dot (V 7) ''b'') (Dot (V 6) ''b''))))] [], Break]), (Some (JNum 3), [Do (SetV 5 (Call ''JD'' [Call ''oNb'' [Call ''JD'' [Call ''dmb'' [Dot (V 0) ''j'', K (JNum 0)], K (JNum 12)], Seq (Call ''Wrc'' []) (G ''urc'')], K (JNum 12)])), Do (SetV 4 (Dot (V 5) ''i'')), Switch (Dot (Dot (V 5) ''j'') ''g'') [(Some (JNum 1), [Ret (Dot (Dot (V 4) ''n'') ''b'')]), (Some (JNum 3), [Ret (Bin Plus (Dot (Dot (V 4) ''n'') ''b'') (Dot (Dot (V 4) ''o'') ''b''))])]])], Ret (Dot (Call ''GYb'' [V 0]) ''b'')],
    fn ''Cec'' 1 11 [Do (SetV 6 (New ''Kmb'' [Dot (Dot (V 0) ''d'') ''b''])), Loop (Bin Lt (Dot (V 6) ''a'') (Dot (Dot (Dot (V 6) ''c'') ''c'') ''length'')) [Do (SetV 5 (Call ''JD'' [Call ''Imb'' [V 6], K (JNum 25)])), Do (SetV 8 (New ''Kmb'' [Dot (V 5) ''a''])), Loop (Bin Lt (Dot (V 8) ''a'') (Dot (Dot (Dot (V 8) ''c'') ''c'') ''length'')) [Do (SetV 7 (Call ''JD'' [Call ''Imb'' [V 8], K (JNum 9)])), When (Call ''Rdb'' [Call ''LD'' [Call ''oNb'' [V 7, Seq (Call ''nyc'' []) (G ''wvc'')]]]) [When (Neg (Call ''ar'' [Call ''BYb'' [V 7]])) [Do (SetV 3 (Call ''JD'' [Call ''$q'' [Call ''BYb'' [V 7]], K (JNum 17)])), Do (SetV 10 (Dot (Dot (V 3) ''c'') ''i'')), Do (And (Loose (V 10) (V 7)) (SetV 10 (Dot (Dot (V 3) ''d'') ''i''))), Do (SetV 11 (New ''prd'' [V 10, Call ''igd'' [Call ''Xfd'' [Dot (V 7) ''n''], Dot (V 10) ''n'']])), Do (Call ''hjb'' [Dot (V 0) ''b'', V 7, V 11]), Continue] []] [], Do (SetV 4 (New ''Pfd'' [Bin Minus (Dot (Dot (V 7) ''n'') ''a'') (Dot (Dot (V 7) ''d'') ''b''), Bin Minus (Dot (Dot (V 7) ''n'') ''b'') (Dot (Dot (V 7) ''d'') ''d''), Bin Plus (Bin Plus (Dot (Dot (V 7) ''o'') ''a'') (Dot (Dot (V 7) ''d'') ''b'')) (Dot (Dot (V 7) ''d'') ''c''), Bin Plus (Bin Plus (Dot (Dot (V 7) ''o'') ''b'') (Dot (Dot (V 7) ''d'') ''d'')) (Dot (Dot (V 7) ''d'') ''a'')])), Do (SetV 1 (Call ''FEb'' [Call ''IEb'' [Call ''GEb'' [Call ''HEb'' [New ''JEb'' [], V 7], V 4], G ''kec''], Dot (V 0) ''a''])), Do (Call ''zEb'' [Call ''AEb'' [Call ''BEb'' [New ''CEb'' [], Call ''WC'' [Call ''OC'' [G ''LM'', K (JNum 1)], G ''Gte'', K (JNum 60), K (JNum 0), NewArr [V 1]]], V 1], Dot (V 0) ''a'']), Do (SetV 9 (New ''vFb'' [])), Do (Call ''hjb'' [Dot (V 0) ''e'', V 1, V 9]), Do (SetV 2 (Bin Minus (Call ''Br'' [New ''Yr'' [Call ''Dr'' [Meth (Dot (Call ''EYb'' [V 7]) ''a'') ''Jc'' [], New ''Dl'' []]]]) (Call ''Br'' [New ''Yr'' [Call ''Dr'' [Meth (Dot (Call ''HYb'' [V 7]) ''a'') ''Jc'' [], New ''Dl'' []]]]))), Do (Cond (Bin Lt (V 2) (K (JNum 0))) (Call ''tFb'' [V 9, K (JBool True), Seq (Call ''Djd'' []) (G ''zjd'')]) (And (Bin Gt (V 2) (K (JNum 0))) (Call ''tFb'' [V 9, K (JBool True), Seq (Call ''Djd'' []) (G ''Ajd'')]))), Do (And (Loose (Dot (V 7) ''k'') (Seq (Call ''$Yb'' []) (G ''TYb''))) (Call ''uFb'' [V 9])), Do (Call ''hjb'' [Dot (V 0) ''f'', V 7, V 1])] []] []],
    fn ''E7c'' 2 17 [Do (SetV 9 (G ''Cve'')), Do (SetV 10 (G ''Cve'')), Do (SetV 7 (G ''Dve'')), Do (SetV 8 (G ''Dve'')), Do (SetV 12 (New ''Kmb'' [Dot (V 1) ''i''])), Loop (Bin Lt (Dot (V 12) ''a'') (Dot (Dot (Dot (V 12) ''c'') ''c'') ''length'')) [Do (SetV 11 (Call ''JD'' [Call ''Imb'' [V 12], K (JNum 68)])), Do (SetV 4 (Call ''JD'' [Dot (Call ''JD'' [Call ''ejb'' [Dot (V 0) ''g'', Dot (V 11) ''a''], K (JNum 49)]) ''b'', K (JNum 26)])), Do (Call ''Zvd'' [V 4, Dot (Dot (V 11) ''b'') ''c'', Dot (Dot (V 11) ''b'') ''d'']), Do (SetV 9 (Meth (Dot (G ''$wnd'') ''Math'') ''min'' [V 9, Dot (V 4) ''i''])), Do (SetV 10 (Meth (Dot (G ''$wnd'') ''Math'') ''min'' [V 10, Dot (V 4) ''j''])), Do (SetV 7 (Meth (Dot (G ''$wnd'') ''Math'') ''max'' [V 7, Bin Plus (Dot (V 4) ''i'') (Dot (V 4) ''g'')])), Do (SetV 8 (Meth (Dot (G ''$wnd'') ''Math'') ''max'' [V 8, Bin Plus (Dot (V 4) ''j'') (Dot (V 4) ''f'')]))] [], Do (SetV 13 (Call ''JD'' [Call ''cvd'' [Dot (V 0) ''c'', Seq (Call ''j9c'' []) (G ''a9c'')], K (JNum 104)])), Do (Call ''eqd'' [Dot (V 0) ''c'', Bin Plus (Bin Minus (V 7) (V 9)) (Bin Plus (Dot (V 13) ''b'') (Dot (V 13) ''c'')), Bin Plus (Bin Minus (V 8) (V 10)) (Bin Plus (Dot (V 13) ''d'') (Dot (V 13) ''a'')), K (JBool True), K (JBool True)]), Do (Call ''iqd'' [Dot (V 0) ''c'', Bin Plus (Minus1 (V 9)) (Dot (V 13) ''b''), Bin Plus (Minus1 (V 10)) (Dot (V 13) ''d'')]), Do (SetV 3 (New ''uKd'' [Call ''Qzd'' [Dot (V 0) ''c'']])), Loop (Neg (Loose (Dot (V 3) ''e'') (Meth (Dot (V 3) ''i'') ''gc'' []))) [Do (SetV 2 (Call ''JD'' [Call ''sKd'' [V 3], K (JNum 85)])), Do (SetV 6 (Call ''_Ed'' [V 2])), Do (SetV 14 (Call ''aFd'' [V 2])), Do (SetV 16 (Call ''bFd'' [V 2])), Do (SetV 15 (New ''lgd'' [Bin Plus (Dot (V 14) ''i'') (Bin Divide (Dot (V 14) ''g'') (K (JNum 2))), Bin Plus (Dot (V 14) ''j'') (Bin Divide (Dot (V 14) ''f'') (K (JNum 2)))])), Do (SetV 5 (New ''lgd'' [Bin Plus (Dot (V 16) ''i'') (Bin Divide (Dot (V 16) ''g'') (K (JNum 2))), Bin Plus (Dot (V 16) ''j'') (Bin Divide (Dot (V 16) ''f'') (K (JNum 2)))])), Do (SetV 17 (Call ''igd'' [New ''lgd'' [Dot (V 5) ''a'', Dot (V 5) ''b''], V 15])), Do (Call ''tfd'' [V 17, Dot (V 14) ''g'', Dot (V 14) ''f'']), Do (Call ''Vfd'' [V 15, V 17]), Do (SetV 18 (Call ''igd'' [New ''lgd'' [Dot (V 15) ''a'', Dot (V 15) ''b''], V 5])), Do (Call ''tfd'' [V 18, Dot (V 16) ''g'', Dot (V 16) ''f'']), Do (Call ''Vfd'' [V 5, V 18]), Do (Call ''hxd'' [V 6, Dot (V 15) ''a'', Dot (V 15) ''b'']), Do (Call ''axd'' [V 6, Dot (V 5) ''a'', Dot (V 5) ''b''])] []],
    fn ''P8b'' 2 10 [Do (SetV 8 (K (JBool True))), Do (SetV 4 (K (JNum 0))), Do (SetV 9 (Idx (Dot (V 0) ''g'') (Dot (V 1) ''p''))), Do (SetV 10 (Bin Plus (Dot (Dot (V 1) ''o'') ''b'') (Dot (V 0) ''o''))), Do (SetV 2 (Idx (Idx (Dot (V 0) ''d'') (Dot (V 1) ''p'')) (K (JNum 2)))), Do (Call ''imb'' [Dot (V 0) ''b'', V 9, Call ''Cfb'' [Bin Plus (Bin Minus (Dot (Call ''JD'' [Call ''dmb'' [Dot (V 0) ''b'', V 9], K (JNum 15)]) ''a'') (K (JNum 1))) (V 2)]]), Do (Call ''imb'' [Dot (V 0) ''c'', V 9, Bin Plus (Bin Minus (Call ''Ueb'' [Call ''MD'' [Call ''dmb'' [Dot (V 0) ''c'', V 9]]]) (V 10)) (Bin Times (V 2) (Dot (V 0) ''f''))]), Do (SetV 9 (Bin Minus (V 9) (K (JNum (- 1))))), When (Bin Ge (V 9) (Dot (V 0) ''j'')) [Do (Put (V 0) ''j'' (Bin Minus (Dot (V 0) ''j'') (K (JNum (- 1))))), Do (Call ''_lb'' [Dot (V 0) ''b'', Call ''Cfb'' [K (JNum 1)]]), Do (Call ''_lb'' [Dot (V 0) ''c'', V 10])] [Do (SetV 3 (Idx (Idx (Dot (V 0) ''d'') (Dot (V 1) ''p'')) (K (JNum 1)))), Do (Call ''imb'' [Dot (V 0) ''b'', V 9, Call ''Cfb'' [Bin Minus (Bin Plus (Dot (Call ''JD'' [Call ''dmb'' [Dot (V 0) ''b'', V 9], K (JNum 15)]) ''a'') (K (JNum 1))) (V 3)]]), Do (Call ''imb'' [Dot (V 0) ''c'', V 9, Bin Minus (Bin Plus (Call ''Ueb'' [Call ''MD'' [Call ''dmb'' [Dot (V 0) ''c'', V 9]]]) (V 10)) (Bin Times (V 3) (Dot (V 0) ''f''))])], Do (And (Or (And (Loose (Dot (V 0) ''r'') (Seq (Call ''Rzc'' []) (G ''Kzc''))) (Or (Bin Gt (Dot (Call ''JD'' [Call ''dmb'' [Dot (V 0) ''b'', V 9], K (JNum 15)]) ''a'') (Dot (V 0) ''k'')) (Bin Gt (Dot (Call ''JD'' [Call ''dmb'' [Dot (V 0) ''b'', Bin Minus (V 9) (K (JNum 1))], K (JNum 15)]) ''a'') (Dot (V 0) ''k'')))) (And (Loose (Dot (V 0) ''r'') (G ''Nzc'')) (Or (Bin Gt (Call ''Ueb'' [Call ''MD'' [Call ''dmb'' [Dot (V 0) ''c'', V 9]]]) (Dot (V 0) ''n'')) (Bin Gt (Call ''Ueb'' [Call ''MD'' [Call ''dmb'' [Dot (V 0) ''c'', Bin Minus (V 9) (K (JNum 1))]]]) (Dot (V 0) ''n''))))) (SetV 8 (K (JBool False)))), Do (SetV 6 (New ''Yr'' [Call ''Dr'' [Meth (Dot (Call ''EYb'' [V 1]) ''a'') ''Jc'' [], New ''Dl'' []]])), Loop (Call ''Wr'' [V 6]) [Do (SetV 5 (Call ''JD'' [Call ''Xr'' [V 6], K (JNum 17)])), Do (SetV 7 (Dot (Dot (V 5) ''c'') ''i'')), When (Loose (Idx (Dot (V 0) ''g'') (Dot (V 7) ''p'')) (V 9)) [Do (SetV 11 (Call ''P8b'' [V 0, V 7])), Do (SetV 4 (Bin Plus (V 4) (Dot (Call ''JD'' [Dot (V 11) ''a'', K (JNum 15)]) ''a''))), Do (SetV 8 (And (V 8) (Call ''Rdb'' [Call ''LD'' [Dot (V 11) ''b'']])))] []] [], Do (PutIdx (Dot (V 0) ''g'') (Dot (V 1) ''p'') (V 9)), Do (SetV 4 (Bin Plus (V 4) (Idx (Idx (Dot (V 0) ''d'') (Dot (V 1) ''p'')) (K (JNum 0))))), Ret (New ''prd'' [Call ''Cfb'' [V 4], Seq (Call ''Qdb'' []) (Cond (V 8) (K (JBool True)) (K (JBool False)))])],
    fn ''Wgc'' 3 20 [When (Seq (Seq (SetV 12 (Idx (Dot (V 0) ''c'') (V 1))) (SetV 13 (Idx (Dot (V 0) ''c'') (V 2)))) (Or (Or (Or (Seq (SetV 14 (Call ''JD'' [Call ''oNb'' [V 12, Seq (Call ''Wrc'' []) (G ''hrc'')], K (JNum 16)])) (And (And (Neg (Neg (V 14))) (Neg (Loose (Meth (V 14) ''gc'' []) (K (JNum 0))))) (Meth (V 14) ''Gc'' [V 13]))) (Seq (Seq (Seq (Seq (Seq (Seq (Seq (Seq (Seq (SetV 15 (And (Neg (Loose (Dot (V 12) ''k'') (Seq (Call ''$Yb'' []) (G ''VYb'')))) (Neg (Loose (Dot (V 13) ''k'') (G ''VYb''))))) (SetV 16 (Call ''JD'' [Call ''oNb'' [V 12, G ''grc''], K (JNum 9)]))) (SetV 17 (Call ''JD'' [Call ''oNb'' [V 13, G ''grc''], K (JNum 9)]))) (SetV 18 (Neg (Loose (V 16) (V 17))))) (SetV 19 (Or (And (Neg (Neg (V 16))) (Neg (Loose (V 16) (V 12)))) (And (Neg (Neg (V 17))) (Neg (Loose (V 17) (V 13))))))) (SetV 20 (Call ''Xgc'' [V 12, Seq (Call ''Bmd'' []) (G ''hmd'')]))) (SetV 21 (Call ''Xgc'' [V 13, G ''ymd'']))) (SetV 19 (Bin BitOr (V 19) (Or (Call ''Xgc'' [V 12, G ''ymd'']) (Call ''Xgc'' [V 13, G ''hmd'']))))) (SetV 22 (Or (Or (And (V 19) (V 18)) (V 20)) (V 21)))) (And (V 15) (V 22)))) (And (Loose (Dot (V 12) ''k'') (Seq (Call ''$Yb'' []) (G ''YYb''))) (Loose (Dot (V 13) ''k'') (G ''XYb'')))) (And (Loose (Dot (V 13) ''k'') (Seq (Call ''$Yb'' []) (G ''YYb''))) (Loose (Dot (V 12) ''k'') (G ''XYb''))))) [Ret (K (JBool False))] [], Do (SetV 10 (Idx (Dot (V 0) ''c'') (V 1))), Do (SetV 5 (Idx (Dot (V 0) ''c'') (V 2))), Do (SetV 4 (Call ''UIc'' [Dot (V 0) ''e'', V 10, V 5, Seq (Call ''Bmd'' []) (G ''Amd'')])), Do (SetV 8 (Call ''UIc'' [Dot (V 0) ''i'', V 10, V 5, G ''gmd''])), Do (Call ''Ngc'' [Dot (V 0) ''f'', V 10, V 5]), Do (SetV 9 (Bin Plus (Bin Plus (Bin Plus (Call ''wgc'' [Dot (V 0) ''b'', V 10, V 5]) (Dot (Call ''JD'' [Dot (V 4) ''a'', K (JNum 15)]) ''a'')) (Dot (Call ''JD'' [Dot (V 8) ''a'', K (JNum 15)]) ''a'')) (Dot (Dot (V 0) ''f'') ''d''))), Do (SetV 7 (Bin Plus (Bin Plus (Bin Plus (Call ''wgc'' [Dot (V 0) ''b'', V 5, V 10]) (Dot (Call ''JD'' [Dot (V 4) ''b'', K (JNum 15)]) ''a'')) (Dot (Call ''JD'' [Dot (V 8) ''b'', K (JNum 15)]) ''a'')) (Dot (Dot (V 0) ''f'') ''b''))), When (Dot (V 0) ''a'') [Do (SetV 11 (Call ''JD'' [Call ''oNb'' [V 10, G ''urc''], K (JNum 12)])), Do (SetV 6 (Call ''JD'' [Call ''oNb'' [V 5, G ''urc''], K (JNum 12)])), Do (SetV 3 (Call ''SIc'' [Dot (V 0) ''g'', V 11, V 6])), Do (SetV 9 (Bin Plus (V 9) (Dot (Call ''JD'' [Dot (V 3) ''a'', K (JNum 15)]) ''a''))), Do (SetV 7 (Bin Plus (V 7) (Dot (Call ''JD'' [Dot (V 3) ''b'', K (JNum 15)]) ''a'')))] [], Ret (Bin Gt (V 9) (V 7))],
    fn ''GQb'' 2 5 [Do (SetV 2 (Call ''Ueb'' [Call ''MD'' [Call ''oNb'' [V 1, Seq (Call ''nyc'' []) (G ''Ixc'')]]])), Do (And (Bin Lt (V 2) (K (JNum 2))) (Call ''rNb'' [V 1, G ''Ixc'', K (JNum 2)])), Do (SetV 3 (Call ''JD'' [Call ''oNb'' [V 1, G ''bwc''], K (JNum 86)])), Do (And (Loose (V 3) (Seq (Call ''Djd'' []) (G ''Bjd''))) (Call ''rNb'' [V 1, G ''bwc'', Call ''PXb'' [V 1]])), Do (SetV 4 (Call ''JD'' [Call ''oNb'' [V 1, G ''Cxc''], K (JNum 15)])), Do (Cond (Loose (Dot (V 4) ''a'') (K (JNum 0))) (Call ''rNb'' [V 1, Seq (Call ''Wrc'' []) (G ''Frc''), New ''Vvb'' []]) (Call ''rNb'' [V 1, Seq (Call ''Wrc'' []) (G ''Frc''), New ''Wvb'' [Dot (V 4) ''a'']])), Do (SetV 5 (Call ''LD'' [Call ''oNb'' [V 1, G ''Wwc'']])), Do (And (Loose (V 5) (K JNull)) (Call ''rNb'' [V 1, G ''Wwc'', Seq (Call ''Qdb'' []) (Cond (Same (Call ''XD'' [Call ''oNb'' [V 1, G ''iwc'']]) (Call ''XD'' [Seq (Call ''hkd'' []) (G ''dkd'')])) (K (JBool True)) (K (JBool False)))])), Do (Call ''YBb'' [New ''jCb'' [K JNull, New ''Zvb'' [Dot (V 1) ''a'', K (JNum 16)]], New ''JQb'' [V 0]]), Do (Call ''YBb'' [Call ''XBb'' [New ''jCb'' [K JNull, New ''Zvb'' [Dot (V 1) ''b'', K (JNum 16)]], New ''LQb'' []], New ''NQb'' [V 0]]), Do (SetV 6 (New ''XAc'' [V 1])), Do (Call ''rNb'' [V 1, Seq (Call ''Wrc'' []) (G ''Krc''), V 6]), Do (Call ''Nbd'' [Dot (V 0) ''a'']), Do (Call ''Qbd'' [Dot (V 0) ''a'', Seq (Call ''YQb'' []) (G ''TQb''), Call ''JD'' [Call ''oNb'' [V 1, G ''_vc''], K (JNum 188)]]), Do (Call ''Qbd'' [Dot (V 0) ''a'', G ''UQb'', Call ''JD'' [Call ''oNb'' [V 1, G ''Kwc''], K (JNum 188)]]), Do (Call ''Qbd'' [Dot (V 0) ''a'', G ''VQb'', Call ''JD'' [Call ''oNb'' [V 1, G ''$vc''], K (JNum 188)]]), Do (Call ''Qbd'' [Dot (V 0) ''a'', G ''WQb'', Call ''JD'' [Call ''oNb'' [V 1, G ''_wc''], K (JNum 188)]]), Do (Call ''Qbd'' [Dot (V 0) ''a'', G ''XQb'', Call ''tOc'' [Call ''JD'' [Call ''oNb'' [V 1, G ''iwc''], K (JNum 222)]]]), Do (Call ''Kbd'' [Dot (V 0) ''a'', Call ''FQb'' [V 1]]), Do (Call ''rNb'' [V 1, G ''Erc'', Call ''Lbd'' [Dot (V 0) ''a'', V 1]])]]"

definition code_6090_6098 :: "(string \<times> jfun) list" where
  "code_6090_6098 = [
    fn ''bZc'' 2 19 [Do (SetV 11 (Call ''JD'' [Call ''yr'' [Seq (SetV 6 (Call ''Ztb'' [Dot (Dot (New ''OTc'' [V 1]) ''a'') ''d'', K (JNum 0)])) (New ''RTc'' [V 6])], K (JNum 40)])), Do (SetV 14 (Cond (V 11) (Call ''JD'' [Call ''oNb'' [V 11, Seq (Call ''_Wc'' []) (G ''MWc'')], K (JNum 40)]) (K JNull))), Do (SetV 4 (K (JNum 1))), Loop (And (Neg (Neg (V 11))) (Neg (Neg (V 14)))) [Do (SetV 8 (K (JNum 0))), Do (SetV 20 (K (JNum 0))), Do (SetV 2 (V 11)), Do (SetV 3 (V 14)), Do (SetV 7 (K (JNum 0))), Loop (Bin Lt (V 7) (V 4)) [Do (SetV 2 (Call ''KTc'' [V 2])), Do (SetV 3 (Call ''KTc'' [V 3])), Do (SetV 20 (Bin Plus (V 20) (Call ''Ueb'' [Call ''MD'' [Call ''oNb'' [V 2, Seq (Call ''_Wc'' []) (G ''RWc'')]]]))), Do (SetV 8 (Bin Plus (V 8) (Call ''Ueb'' [Call ''MD'' [Call ''oNb'' [V 3, G ''RWc'']]])))] [Do (Bin Minus (SetV 7 (Bin Minus (V 7) (K (JNum (- 1))))) (K (JNum 1)))], Do (SetV 19 (Call ''Ueb'' [Call ''MD'' [Call ''oNb'' [V 14, Seq (Call ''_Wc'' []) (G ''UWc'')]]])), Do (SetV 18 (Call ''Ueb'' [Call ''MD'' [Call ''oNb'' [V 11, G ''UWc'']]])), Do (SetV 12 (Call ''dZc'' [V 0, V 11, V 14])), Do (SetV 13 (Bin Minus (Bin Minus (Bin Plus (Bin Plus (Bin Plus (V 19) (V 8)) (Dot (V 0) ''b'')) (V 12)) (V 18)) (V 20))), When (Bin Lt (K (JNum 0)) (V 13)) [Do (SetV 9 (V 1)), Do (SetV 10 (K (JNum 0))), Loop (And (Neg (Neg (V 9))) (Neg (Loose (V 9) (V 3)))) [Do (SetV 10 (Bin Minus (V 10) (K (JNum (- 1))))), Do (SetV 9 (Call ''JD'' [Call ''oNb'' [V 9, G ''NWc''], K (JNum 40)]))] [], When (V 9) [Do (SetV 17 (Bin Divide (V 13) (V 10))), Do (SetV 9 (V 1)), Loop (Neg (Loose (V 9) (V 3))) [Do (SetV 16 (Bin Plus (Call ''Ueb'' [Call ''MD'' [Call ''oNb'' [V 9, G ''UWc'']]]) (V 13))), Do (Call ''rNb'' [V 9, G ''UWc'', V 16]), Do (SetV 15 (Bin Plus (Call ''Ueb'' [Call ''MD'' [Call ''oNb'' [V 9, G ''RWc'']]]) (V 13))), Do (Call ''rNb'' [V 9, G ''RWc'', V 15]), Do (SetV 13 (Bin Minus (V 13) (V 17))), Do (SetV 9 (Call ''JD'' [Call ''oNb'' [V 9, G ''NWc''], K (JNum 40)]))] []] [Ret (K JUndef)]] [], Do (SetV 4 (Bin Minus (V 4) (K (JNum (- 1))))), Do (Cond (Loose (Dot (Dot (V 11) ''d'') ''b'') (K (JNum 0))) (SetV 11 (Call ''VSc'' [New ''OTc'' [V 1], V 4])) (SetV 11 (Call ''JD'' [Call ''yr'' [Seq (SetV 5 (Call ''Ztb'' [Dot (Dot (New ''OTc'' [V 11]) ''a'') ''d'', K (JNum 0)])) (New ''RTc'' [V 5])], K (JNum 40)]))), Do (SetV 14 (Cond (V 11) (Call ''JD'' [Call ''oNb'' [V 11, G ''MWc''], K (JNum 40)]) (K JNull)))] []],
    fn ''H6b'' 2 13 [Do (Meth (V 1) ''Tg'' [K (JStr ''Label dummy removal''), K (JNum 1)]), Do (SetV 3 (Call ''Ueb'' [Call ''MD'' [Call ''oNb'' [V 0, Seq (Call ''nyc'' []) (G ''Kxc'')]]])), Do (SetV 4 (Call ''Ueb'' [Call ''MD'' [Call ''oNb'' [V 0, G ''Oxc'']]])), Do (SetV 9 (Call ''JD'' [Call ''oNb'' [V 0, G ''bwc''], K (JNum 86)])), Do (SetV 8 (New ''Kmb'' [Dot (V 0) ''b''])), Loop (Bin Lt (Dot (V 8) ''a'') (Dot (Dot (Dot (V 8) ''c'') ''c'') ''length'')) [Do (SetV 7 (Call ''JD'' [Call ''Imb'' [V 8], K (JNum 25)])), Do (SetV 11 (New ''Tjb'' [Dot (V 7) ''a'', K (JNum 0)])), Loop (Bin Lt (Dot (V 11) ''b'') (Meth (Dot (V 11) ''d'') ''gc'' [])) [Do (SetV 10 (Seq (Call ''LDb'' [Bin Lt (Dot (V 11) ''b'') (Meth (Dot (V 11) ''d'') ''gc'' [])]) (Call ''JD'' [Meth (Dot (V 11) ''d'') ''Xb'' [Put (V 11) ''c'' (Bin Minus (Put (V 11) ''b'' (Bin Minus (Dot (V 11) ''b'') (K (JNum (- 1))))) (K (JNum 1)))], K (JNum 9)]))), When (Loose (Dot (V 10) ''k'') (Seq (Call ''$Yb'' []) (G ''UYb''))) [Do (SetV 12 (Call ''JD'' [Call ''oNb'' [V 10, Seq (Call ''Wrc'' []) (G ''urc'')], K (JNum 17)])), Do (SetV 14 (Call ''Ueb'' [Call ''MD'' [Call ''oNb'' [V 12, G ''pwc'']]])), Do (SetV 6 (Same (Call ''XD'' [Call ''oNb'' [V 10, G ''krc'']]) (Call ''XD'' [Seq (Call ''$kd'' []) (G ''Xkd'')]))), Do (SetV 2 (New ''mgd'' [Dot (V 10) ''n''])), Do (And (V 6) (Put (V 2) ''b'' (Bin Plus (Dot (V 2) ''b'') (Bin Plus (V 14) (V 3))))), Do (SetV 5 (New ''lgd'' [Dot (Dot (V 10) ''o'') ''a'', Bin Plus (Dot (Dot (V 10) ''o'') ''b'') (Cond (And (Loose (Dot (V 10) ''k'') (G ''UYb'')) (Neg (Meth (Call ''hCb'' [Call ''VBb'' [Meth (Call ''JD'' [Call ''oNb'' [V 10, G ''Grc''], K (JNum 16)]) ''Mc'' [], New ''Xzb'' [New ''eZb'' []]]]) ''zd'' [Seq (Call ''QBb'' []) (G ''PBb'')]))) (K (JNum 0)) (Bin Minus (Minus1 (V 14)) (V 3)))])), Do (SetV 13 (Call ''JD'' [Call ''oNb'' [V 10, G ''Grc''], K (JNum 16)])), Do (Cond (Or (Loose (V 9) (Seq (Call ''Djd'' []) (G ''Cjd''))) (Loose (V 9) (G ''yjd''))) (Call ''G6b'' [V 13, V 2, V 4, V 5, V 6, V 9]) (Call ''F6b'' [V 13, V 2, V 4, V 5])), Do (Call ''bmb'' [Dot (V 12) ''b'', V 13]), Do (Call ''v8b'' [V 10, Same (Call ''XD'' [Call ''oNb'' [V 0, G ''iwc'']]) (Call ''XD'' [Seq (Call ''hkd'' []) (G ''ekd'')])]), Do (Call ''Mjb'' [V 11])] []] []] [], Do (Meth (V 1) ''Ug'' [])],
    fn ''tzd'' 1 0 [When (Dot (V 0) ''q'') [Ret (K JUndef)] [], Do (Put (V 0) ''q'' (K (JBool True))), Do (Put (V 0) ''p'' (Call ''Fyd'' [V 0, K (JNum 0)])), Do (Put (V 0) ''a'' (Call ''Fyd'' [V 0, K (JNum 1)])), Do (Call ''Kyd'' [Dot (V 0) ''a'', K (JNum 0)]), Do (Put (V 0) ''f'' (Call ''Fyd'' [V 0, K (JNum 2)])), Do (Call ''Kyd'' [Dot (V 0) ''f'', K (JNum 1)]), Do (Call ''Eyd'' [Dot (V 0) ''f'', K (JNum 2)]), Do (Put (V 0) ''n'' (Call ''Fyd'' [V 0, K (JNum 3)])), Do (Call ''Eyd'' [Dot (V 0) ''n'', K (JNum 3)]), Do (Call ''Eyd'' [Dot (V 0) ''n'', K (JNum 4)]), Do (Call ''Eyd'' [Dot (V 0) ''n'', K (JNum 5)]), Do (Call ''Eyd'' [Dot (V 0) ''n'', K (JNum 6)]), Do (Put (V 0) ''g'' (Call ''Fyd'' [V 0, K (JNum 4)])), Do (Call ''Kyd'' [Dot (V 0) ''g'', K (JNum 7)]), Do (Call ''Eyd'' [Dot (V 0) ''g'', K (JNum 8)]), Do (Put (V 0) ''c'' (Call ''Fyd'' [V 0, K (JNum 5)])), Do (Call ''Kyd'' [Dot (V 0) ''c'', K (JNum 7)]), Do (Call ''Kyd'' [Dot (V 0) ''c'', K (JNum 8)]), Do (Put (V 0) ''i'' (Call ''Fyd'' [V 0, K (JNum 6)])), Do (Call ''Kyd'' [Dot (V 0) ''i'', K (JNum 9)]), Do (Call ''Kyd'' [Dot (V 0) ''i'', K (JNum 10)]), Do (Call ''Kyd'' [Dot (V 0) ''i'', K (JNum 11)]), Do (Call ''Kyd'' [Dot (V 0) ''i'', K (JNum 12)]), Do (Call ''Eyd'' [Dot (V 0) ''i'', K (JNum 13)]), Do (Put (V 0) ''j'' (Call ''Fyd'' [V 0, K (JNum 7)])), Do (Call ''Kyd'' [Dot (V 0) ''j'', K (JNum 9)]), Do (Put (V 0) ''d'' (Call ''Fyd'' [V 0, K (JNum 8)])), Do (Call ''Kyd'' [Dot (V 0) ''d'', K (JNum 3)]), Do (Call ''Kyd'' [Dot (V 0) ''d'', K (JNum 4)]), Do (Call ''Kyd'' [Dot (V 0) ''d'', K (JNum 5)]), Do (Call ''Kyd'' [Dot (V 0) ''d'', K (JNum 6)]), Do (Call ''Eyd'' [Dot (V 0) ''d'', K (JNum 7)]), Do (Call ''Eyd'' [Dot (V 0) ''d'', K (JNum 8)]), Do (Call ''Eyd'' [Dot (V 0) ''d'', K (JNum 9)]), Do (Call ''Eyd'' [Dot (V 0) ''d'', K (JNum 10)]), Do (Put (V 0) ''b'' (Call ''Fyd'' [V 0, K (JNum 9)])), Do (Call ''Eyd'' [Dot (V 0) ''b'', K (JNum 0)]), Do (Call ''Eyd'' [Dot (V 0) ''b'', K (JNum 1)]), Do (Put (V 0) ''e'' (Call ''Fyd'' [V 0, K (JNum 10)])), Do (Call ''Eyd'' [Dot (V 0) ''e'', K (JNum 1)]), Do (Call ''Eyd'' [Dot (V 0) ''e'', K (JNum 2)]), Do (Call ''Eyd'' [Dot (V 0) ''e'', K (JNum 3)]), Do (Call ''Eyd'' [Dot (V 0) ''e'', K (JNum 4)]), Do (Call ''Kyd'' [Dot (V 0) ''e'', K (JNum 5)]), Do (Call ''Kyd'' [Dot (V 0) ''e'', K (JNum 6)]), Do (Call ''Kyd'' [Dot (V 0) ''e'', K (JNum 7)]), Do (Call ''Kyd'' [Dot (V 0) ''e'', K (JNum 8)]), Do (Call ''Kyd'' [Dot (V 0) ''e'', K (JNum 9)]), Do (Call ''Kyd'' [Dot (V 0) ''e'', K (JNum 10)]), Do (Call ''Eyd'' [Dot (V 0) ''e'', K (JNum 11)]), Do (Put (V 0) ''k'' (Call ''Fyd'' [V 0, K (JNum 11)])), Do (Call ''Eyd'' [Dot (V 0) ''k'', K (JNum 0)]), Do (Call ''Eyd'' [Dot (V 0) ''k'', K (JNum 1)]), Do (Put (V 0) ''o'' (Call ''Gyd'' [V 0, K (JNum 12)])), Do (Put (V 0) ''s'' (Call ''Gyd'' [V 0, K (JNum 13)]))],
    fn ''gRb'' 2 0 [Do (And (Meth (V 1) ''dc'' []) (Call ''nSb'' [Dot (V 0) ''j'', K (JBool True), K (JBool True), K (JBool True), K (JBool True)])), Do (And (Call ''pb'' [V 1, Seq (Call ''Bmd'' []) (G ''nmd'')]) (Call ''nSb'' [Dot (V 0) ''j'', K (JBool True), K (JBool True), K (JBool True), K (JBool False)])), Do (And (Call ''pb'' [V 1, G ''imd'']) (Call ''nSb'' [Dot (V 0) ''j'', K (JBool False), K (JBool True), K (JBool True), K (JBool True)])), Do (And (Call ''pb'' [V 1, G ''vmd'']) (Call ''nSb'' [Dot (V 0) ''j'', K (JBool True), K (JBool True), K (JBool False), K (JBool True)])), Do (And (Call ''pb'' [V 1, G ''xmd'']) (Call ''nSb'' [Dot (V 0) ''j'', K (JBool True), K (JBool False), K (JBool True), K (JBool True)])), Do (And (Call ''pb'' [V 1, G ''omd'']) (Call ''nSb'' [Dot (V 0) ''j'', K (JBool False), K (JBool True), K (JBool True), K (JBool False)])), Do (And (Call ''pb'' [V 1, G ''jmd'']) (Call ''nSb'' [Dot (V 0) ''j'', K (JBool False), K (JBool True), K (JBool False), K (JBool True)])), Do (And (Call ''pb'' [V 1, G ''wmd'']) (Call ''nSb'' [Dot (V 0) ''j'', K (JBool True), K (JBool False), K (JBool False), K (JBool True)])), Do (And (Call ''pb'' [V 1, G ''umd'']) (Call ''nSb'' [Dot (V 0) ''j'', K (JBool True), K (JBool False), K (JBool True), K (JBool False)])), Do (And (Call ''pb'' [V 1, G ''smd'']) (Call ''nSb'' [Dot (V 0) ''j'', K (JBool True), K (JBool True), K (JBool True), K (JBool True)])), Do (And (Call ''pb'' [V 1, G ''lmd'']) (Call ''nSb'' [Dot (V 0) ''j'', K (JBool True), K (JBool True), K (JBool True), K (JBool True)])), Do (And (Call ''pb'' [V 1, G ''smd'']) (Call ''nSb'' [Dot (V 0) ''j'', K (JBool True), K (JBool True), K (JBool True), K (JBool True)])), Do (And (Call ''pb'' [V 1, G ''kmd'']) (Call ''nSb'' [Dot (V 0) ''j'', K (JBool True), K (JBool True), K (JBool True), K (JBool True)])), Do (And (Call ''pb'' [V 1, G ''tmd'']) (Call ''nSb'' [Dot (V 0) ''j'', K (JBool True), K (JBool True), K (JBool True), K (JBool True)])), Do (And (Call ''pb'' [V 1, G ''rmd'']) (Call ''nSb'' [Dot (V 0) ''j'', K (JBool True), K (JBool True), K (JBool True), K (JBool True)])), Do (And (Call ''pb'' [V 1, G ''qmd'']) (Call ''nSb'' [Dot (V 0) ''j'', K (JBool True), K (JBool True), K (JBool True), K (JBool True)]))],
    fn ''Pxd'' 3 10 [When (Neg (Loose (Dot (V 0) ''a'') (Meth (V 1) ''hk'' []))) [Raise (Call ''Lcb'' [New ''kfb'' [Bin Plus (Bin Plus (G ''eGe'') (Meth (V 1) ''ve'' [])) (G ''fGe'')]])] [], Do (SetV 3 (Meth (Call ''_ce'' [Seq (Call ''yie'' []) (G ''wie''), V 1]) ''Hl'' [])), When (V 3) [Ret (Meth (Meth (Meth (V 3) ''hk'' []) ''ti'' []) ''oi'' [V 3, V 2])] [], Do (SetV 6 (Meth (Call ''_ce'' [G ''wie'', V 1]) ''Jl'' [])), When (V 6) [When (Loose (V 2) (K JNull)) [Ret (K JNull)] [], Do (SetV 7 (Call ''JD'' [V 2, K (JNum 16)])), When (Meth (V 7) ''dc'' []) [Ret (K (JStr ''''))] [], Do (SetV 11 (New ''$gb'' [])), Do (SetV 5 (Meth (V 7) ''Jc'' [])), Loop (Meth (V 5) ''Ob'' []) [Do (SetV 4 (Meth (V 5) ''Pb'' [])), Do (Call ''Xgb'' [V 11, Meth (Meth (Meth (V 6) ''hk'' []) ''ti'' []) ''oi'' [V 6, V 4]]), Do (Put (V 11) ''a'' (Bin Plus (Dot (V 11) ''a'') (K (JStr '' ''))))] [], Ret (Call ''Adb'' [V 11, Bin Minus (Dot (Dot (V 11) ''a'') ''length'') (K (JNum 1))])] [], Do (SetV 10 (Meth (Call ''_ce'' [G ''wie'', V 1]) ''Kl'' [])), When (Neg (Meth (V 10) ''dc'' [])) [Do (SetV 9 (Meth (V 10) ''Jc'' [])), Loop (Meth (V 9) ''Ob'' []) [Do (SetV 8 (Call ''JD'' [Meth (V 9) ''Pb'' [], K (JNum 159)])), When (Meth (V 8) ''dk'' [V 2]) [Try [Do (SetV 11 (Meth (Meth (Meth (V 8) ''hk'' []) ''ti'' []) ''oi'' [V 8, V 2])), When (Neg (Loose (V 11) (K JNull))) [Ret (V 11)] []] 12 [Do (SetV 12 (Call ''Kcb'' [V 12])), When (Neg (Call ''RD'' [V 12, K (JNum 101)])) [Raise (Call ''Lcb'' [V 12])] []]] []] [], Raise (Call ''Lcb'' [New ''kfb'' [Bin Plus (Bin Plus (Bin Plus (K (JStr (''Invalid value: '' @ CHR 0x27 # ''''))) (V 2)) (K (JStr (CHR 0x27 # '' for datatype :'')))) (Meth (V 1) ''ve'' [])]])] [], Do (Meth (Call ''JD'' [V 1, K (JNum 832)]) ''mk'' []), Ret (Cond (Loose (V 2) (K JNull)) (K JNull) (Cond (Call ''RD'' [V 2, K (JNum 180)]) (Bin Plus (K (JStr '''')) (Dot (Call ''JD'' [V 2, K (JNum 180)]) ''a'')) (Cond (Loose (Call ''rb'' [V 2]) (G ''hK'')) (Call ''n0d'' [Idx (G ''Jxd'') (K (JNum 0)), Call ''JD'' [V 2, K (JNum 205)]]) (Call ''tdb'' [V 2]))))],
    fn ''ZFc'' 3 4 [Do (Put This ''j'' (V 0)), Do (Put This ''e'' (Call ''IWb'' [V 0])), Do (Put This ''o'' (Dot (Dot This ''j'') ''e'')), Do (Put This ''i'' (Neg (Neg (Dot This ''o'')))), Do (Put This ''p'' (Cond (Dot This ''i'') (Call ''JD'' [Call ''dmb'' [V 2, Dot (Call ''DYb'' [Dot This ''o'']) ''p''], K (JNum 218)]) (K JNull))), Do (SetV 4 (Call ''JD'' [Call ''oNb'' [V 0, Seq (Call ''Wrc'' []) (G ''brc'')], K (JNum 22)])), Do (Put This ''g'' (Meth (V 4) ''Gc'' [Seq (Call ''Xpc'' []) (G ''Qpc'')])), Do (Put This ''b'' (New ''lmb'' [])), Do (Put This ''d'' (New ''AIc'' [Dot This ''e''])), Do (SetV 6 (Call ''JD'' [Call ''oNb'' [Dot This ''j'', G ''Frc''], K (JNum 234)])), Do (Put This ''q'' (Call ''oGc'' [V 1, V 6, Dot This ''e''])), Do (Put This ''k'' (New ''uHc'' [This])), Do (SetV 5 (Call ''Wu'' [Call ''WC'' [Call ''OC'' [G ''UX'', K (JNum 1)], G ''Gte'', K (JNum 220), K (JNum 0), NewArr [This, Dot This ''d'', Dot This ''k'', Dot This ''q'']]])), When (And (Loose (V 1) (Seq (Call ''kHc'' []) (G ''gHc''))) (Neg (Call ''Rdb'' [Call ''LD'' [Call ''oNb'' [V 0, Seq (Call ''nyc'' []) (G ''Qvc'')]]]))) [Do (SetV 3 (New ''KFc'' [Dot This ''e''])), Do (Call ''qDb'' [Dot (V 5) ''c'', V 3]), Do (Put This ''c'' (New ''mFc'' [V 3, V 6, Call ''JD'' [Dot This ''q'', K (JNum 406)]]))] [When (And (Loose (V 1) (G ''gHc'')) (Call ''Rdb'' [Call ''LD'' [Call ''oNb'' [V 0, Seq (Call ''nyc'' []) (G ''Qvc'')]]])) [Do (SetV 3 (New ''KFc'' [Dot This ''e''])), Do (Call ''qDb'' [Dot (V 5) ''c'', V 3]), Do (Put This ''c'' (New ''eIc'' [V 3, V 6, Call ''JD'' [Dot This ''q'', K (JNum 406)]]))] [Do (Cond (Loose (V 1) (G ''hHc'')) (Put This ''c'' (New ''NHc'' [V 6])) (Put This ''c'' (New ''Dgc'' [V 1, This])))]], Do (Call ''_lb'' [V 5, Dot This ''c'']), Do (Call ''hKc'' [V 5, Dot This ''e'']), Do (Put This ''s'' (Call ''tHc'' [Dot This ''k'']))],
    fn ''tGc'' 2 16 [Do (Meth (V 1) ''Tg'' [K (JStr ''Interactive crossing minimization''), K (JNum 1)]), Do (SetV 6 (K (JNum 0))), Do (SetV 5 (New ''Kmb'' [Dot (V 0) ''b''])), Loop (Bin Lt (Dot (V 5) ''a'') (Dot (Dot (Dot (V 5) ''c'') ''c'') ''length'')) [Do (SetV 3 (Call ''JD'' [Call ''Imb'' [V 5], K (JNum 25)])), Do (Put (V 3) ''p'' (Bin Minus (SetV 6 (Bin Minus (V 6) (K (JNum (- 1))))) (K (JNum 1))))] [], Do (SetV 12 (Call ''IWb'' [V 0])), Do (SetV 16 (New ''rIc'' [Dot (V 12) ''length''])), Do (Call ''hKc'' [New ''wnb'' [Call ''WC'' [Call ''OC'' [G ''UX'', K (JNum 1)], G ''Gte'', K (JNum 220), K (JNum 0), NewArr [V 16]]], V 12]), Do (SetV 15 (K (JNum 0))), Do (SetV 6 (K (JNum 0))), Do (SetV 4 (New ''Kmb'' [Dot (V 0) ''b''])), Loop (Bin Lt (Dot (V 4) ''a'') (Dot (Dot (Dot (V 4) ''c'') ''c'') ''length'')) [Do (SetV 3 (Call ''JD'' [Call ''Imb'' [V 4], K (JNum 25)])), Do (SetV 2 (K (JNum 0))), Do (SetV 11 (K (JNum 0))), Do (SetV 10 (New ''Kmb'' [Dot (V 3) ''a''])), Loop (Bin Lt (Dot (V 10) ''a'') (Dot (Dot (Dot (V 10) ''c'') ''c'') ''length'')) [Do (SetV 8 (Call ''JD'' [Call ''Imb'' [V 10], K (JNum 9)])), When (Bin Gt (Dot (Dot (V 8) ''n'') ''a'') (K (JNum 0))) [Do (SetV 2 (Bin Plus (V 2) (Bin Plus (Dot (Dot (V 8) ''n'') ''a'') (Bin Divide (Dot (Dot (V 8) ''o'') ''a'') (K (JNum 2)))))), Do (SetV 11 (Bin Minus (V 11) (K (JNum (- 1)))))] [], Do (SetV 14 (New ''Kmb'' [Dot (V 8) ''j''])), Loop (Bin Lt (Dot (V 14) ''a'') (Dot (Dot (Dot (V 14) ''c'') ''c'') ''length'')) [Do (SetV 13 (Call ''JD'' [Call ''Imb'' [V 14], K (JNum 12)])), Do (Put (V 13) ''p'' (Bin Minus (SetV 15 (Bin Minus (V 15) (K (JNum (- 1))))) (K (JNum 1))))] []] [], Do (And (Bin Gt (V 11) (K (JNum 0))) (SetV 2 (Bin Divide (V 2) (V 11)))), Do (SetV 17 (Call ''SC'' [G ''aE'', G ''Jve'', K (JNum 30), Dot (Dot (Dot (V 3) ''a'') ''c'') ''length'', K (JNum 15), K (JNum 1)])), Do (SetV 7 (K (JNum 0))), Do (SetV 9 (New ''Kmb'' [Dot (V 3) ''a''])), Loop (Bin Lt (Dot (V 9) ''a'') (Dot (Dot (Dot (V 9) ''c'') ''c'') ''length'')) [Do (SetV 8 (Call ''JD'' [Call ''Imb'' [V 9], K (JNum 9)])), Do (Put (V 8) ''p'' (Bin Minus (SetV 7 (Bin Minus (V 7) (K (JNum (- 1))))) (K (JNum 1)))), Do (PutIdx (V 17) (Dot (V 8) ''p'') (Call ''sGc'' [V 8, V 2])), Do (And (Loose (Dot (V 8) ''k'') (Seq (Call ''$Yb'' []) (G ''VYb''))) (Call ''rNb'' [V 8, Seq (Call ''Wrc'' []) (G ''wrc''), Idx (V 17) (Dot (V 8) ''p'')]))] [], Do (Call ''Inb'' []), Do (Call ''jmb'' [Dot (V 3) ''a'', New ''yGc'' [V 17]]), Do (Call ''QEc'' [V 16, V 12, V 6, K (JBool True)]), Do (SetV 6 (Bin Minus (V 6) (K (JNum (- 1)))))] [], Do (Meth (V 1) ''Ug'' [])],
    fn ''IRc'' 1 10 [Do (SetV 9 (New ''dub'' [])), Do (SetV 7 (New ''dub'' [])), Do (SetV 5 (New ''Kmb'' [V 0])), Loop (Bin Lt (Dot (V 5) ''a'') (Dot (Dot (Dot (V 5) ''c'') ''c'') ''length'')) [Do (SetV 3 (Call ''JD'' [Call ''Imb'' [V 5], K (JNum 132)])), Do (Put (V 3) ''v'' (K (JNum 0))), Do (Put (V 3) ''n'' (Dot (Dot (Dot (V 3) ''i'') ''c'') ''length'')), Do (Put (V 3) ''u'' (Dot (Dot (Dot (V 3) ''t'') ''c'') ''length'')), Do (And (Loose (Dot (V 3) ''n'') (K (JNum 0))) (Seq (Call ''Wtb'' [V 9, V 3, Dot (Dot (V 9) ''c'') ''b'', Dot (V 9) ''c'']) (K (JBool True)))), Do (And (And (Loose (Dot (V 3) ''u'') (K (JNum 0))) (Loose (Meth (Dot (Dot (V 3) ''r'') ''a'') ''gc'' []) (K (JNum 0)))) (Seq (Call ''Wtb'' [V 7, V 3, Dot (Dot (V 7) ''c'') ''b'', Dot (V 7) ''c'']) (K (JBool True))))] [], Do (SetV 6 (K (JNum (- 1)))), Loop (Neg (Loose (Dot (V 9) ''b'') (K (JNum 0)))) [Do (SetV 3 (Call ''JD'' [Call ''bu'' [V 9, K (JNum 0)], K (JNum 132)])), Do (SetV 2 (New ''Kmb'' [Dot (V 3) ''t''])), Loop (Bin Lt (Dot (V 2) ''a'') (Dot (Dot (Dot (V 2) ''c'') ''c'') ''length'')) [Do (SetV 1 (Call ''JD'' [Call ''Imb'' [V 2], K (JNum 273)])), Do (SetV 10 (Dot (V 1) ''b'')), Do (Put (V 10) ''v'' (Meth (Dot (G ''$wnd'') ''Math'') ''max'' [Dot (V 10) ''v'', Bin Plus (Dot (V 3) ''v'') (K (JNum 1))])), Do (SetV 6 (Meth (Dot (G ''$wnd'') ''Math'') ''max'' [V 6, Dot (V 10) ''v''])), Do (Put (V 10) ''n'' (Bin Minus (Dot (V 10) ''n'') (K (JNum 1)))), Do (And (Loose (Dot (V 10) ''n'') (K (JNum 0))) (Seq (Call ''Wtb'' [V 9, V 10, Dot (Dot (V 9) ''c'') ''b'', Dot (V 9) ''c'']) (K (JBool True))))] []] [], When (Bin Gt (V 6) (K (JNum (- 1)))) [Do (SetV 4 (Call ''Ztb'' [V 7, K (JNum 0)])), Loop (Neg (Loose (Dot (V 4) ''b'') (Dot (Dot (V 4) ''d'') ''c''))) [Do (SetV 3 (Call ''JD'' [Call ''lub'' [V 4], K (JNum 132)])), Do (Put (V 3) ''v'' (V 6))] [], Loop (Neg (Loose (Dot (V 7) ''b'') (K (JNum 0)))) [Do (SetV 3 (Call ''JD'' [Call ''bu'' [V 7, K (JNum 0)], K (JNum 132)])), Do (SetV 2 (New ''Kmb'' [Dot (V 3) ''i''])), Loop (Bin Lt (Dot (V 2) ''a'') (Dot (Dot (Dot (V 2) ''c'') ''c'') ''length'')) [Do (SetV 1 (Call ''JD'' [Call ''Imb'' [V 2], K (JNum 273)])), Do (SetV 8 (Dot (V 1) ''a'')), When (Neg (Loose (Meth (Dot (Dot (V 8) ''r'') ''a'') ''gc'' []) (K (JNum 0)))) [Continue] [], Do (Put (V 8) ''v'' (Meth (Dot (G ''$wnd'') ''Math'') ''min'' [Dot (V 8) ''v'', Bin Minus (Dot (V 3) ''v'') (K (JNum 1))])), Do (Put (V 8) ''u'' (Bin Minus (Dot (V 8) ''u'') (K (JNum 1)))), Do (And (Loose (Dot (V 8) ''u'') (K (JNum 0))) (Seq (Call ''Wtb'' [V 7, V 8, Dot (Dot (V 7) ''c'') ''b'', Dot (V 7) ''c'']) (K (JBool True))))] []] []] []],
    fn ''FQc'' 1 10 [Do (SetV 9 (New ''lmb'' [])), Do (SetV 7 (New ''lmb'' [])), Do (SetV 6 (New ''Kmb'' [V 0])), Loop (Bin Lt (Dot (V 6) ''a'') (Dot (Dot (Dot (V 6) ''c'') ''c'') ''length'')) [Do (SetV 4 (Call ''JD'' [Call ''Imb'' [V 6], K (JNum 116)])), Do (Call ''yPc'' [V 4, Dot (Dot (Dot (V 4) ''f'') ''c'') ''length'']), Do (Call ''zPc'' [V 4, Dot (Dot (Dot (V 4) ''k'') ''c'') ''length'']), Do (And (Loose (Dot (V 4) ''d'') (K (JNum 0))) (Seq (Call ''qDb'' [Dot (V 9) ''c'', V 4]) (K (JBool True)))), Do (And (And (Loose (Dot (V 4) ''i'') (K (JNum 0))) (Loose (Dot (Dot (V 4) ''e'') ''b'') (K (JNum 0)))) (Seq (Call ''qDb'' [Dot (V 7) ''c'', V 4]) (K (JBool True))))] [], Do (SetV 3 (K (JNum (- 1)))), Loop (Neg (Loose (Dot (Dot (V 9) ''c'') ''length'') (K (JNum 0)))) [Do (SetV 4 (Call ''JD'' [Call ''fmb'' [V 9, K (JNum 0)], K (JNum 116)])), Do (SetV 2 (New ''Kmb'' [Dot (V 4) ''k''])), Loop (Bin Lt (Dot (V 2) ''a'') (Dot (Dot (Dot (V 2) ''c'') ''c'') ''length'')) [Do (SetV 1 (Call ''JD'' [Call ''Imb'' [V 2], K (JNum 133)])), Do (SetV 10 (Dot (V 1) ''b'')), Do (Call ''APc'' [V 10, Meth (Dot (G ''$wnd'') ''Math'') ''max'' [Dot (V 10) ''o'', Bin Plus (Dot (V 4) ''o'') (K (JNum 1))]]), Do (SetV 3 (Meth (Dot (G ''$wnd'') ''Math'') ''max'' [V 3, Dot (V 10) ''o''])), Do (Call ''yPc'' [V 10, Bin Minus (Dot (V 10) ''d'') (K (JNum 1))]), Do (And (Loose (Dot (V 10) ''d'') (K (JNum 0))) (Seq (Call ''qDb'' [Dot (V 9) ''c'', V 10]) (K (JBool True))))] []] [], When (Bin Gt (V 3) (K (JNum (- 1)))) [Do (SetV 5 (New ''Kmb'' [V 7])), Loop (Bin Lt (Dot (V 5) ''a'') (Dot (Dot (Dot (V 5) ''c'') ''c'') ''length'')) [Do (SetV 4 (Call ''JD'' [Call ''Imb'' [V 5], K (JNum 116)])), Do (Put (V 4) ''o'' (V 3))] [], Loop (Neg (Loose (Dot (Dot (V 7) ''c'') ''length'') (K (JNum 0)))) [Do (SetV 4 (Call ''JD'' [Call ''fmb'' [V 7, K (JNum 0)], K (JNum 116)])), Do (SetV 2 (New ''Kmb'' [Dot (V 4) ''f''])), Loop (Bin Lt (Dot (V 2) ''a'') (Dot (Dot (Dot (V 2) ''c'') ''c'') ''length'')) [Do (SetV 1 (Call ''JD'' [Call ''Imb'' [V 2], K (JNum 133)])), Do (SetV 8 (Dot (V 1) ''a'')), When (Bin Gt (Dot (Dot (V 8) ''e'') ''b'') (K (JNum 0))) [Continue] [], Do (Call ''APc'' [V 8, Meth (Dot (G ''$wnd'') ''Math'') ''min'' [Dot (V 8) ''o'', Bin Minus (Dot (V 4) ''o'') (K (JNum 1))]]), Do (Call ''zPc'' [V 8, Bin Minus (Dot (V 8) ''i'') (K (JNum 1))]), Do (And (Loose (Dot (V 8) ''i'') (K (JNum 0))) (Seq (Call ''qDb'' [Dot (V 7) ''c'', V 8]) (K (JBool True))))] []] []] []]]"

definition code_6099_6106 :: "(string \<times> jfun) list" where
  "code_6099_6106 = [
    fn ''Gfd'' 5 4 [Do (SetV 8 (G ''Cve'')), Do (SetV 6 (K (JBool False))), Do (SetV 7 (Call ''Bfd'' [V 0, Call ''igd'' [New ''lgd'' [Dot (V 1) ''a'', Dot (V 1) ''b''], V 0], Call ''Vfd'' [New ''lgd'' [Dot (V 2) ''a'', Dot (V 2) ''b''], V 4], Call ''igd'' [New ''lgd'' [Dot (V 3) ''a'', Dot (V 3) ''b''], V 2]])), Do (SetV 5 (And (Neg (Neg (V 7))) (Neg (Or (And (Bin Le (Meth (Dot (G ''$wnd'') ''Math'') ''abs'' [Bin Minus (Dot (V 7) ''a'') (Dot (V 0) ''a'')]) (G ''MEe'')) (Bin Le (Meth (Dot (G ''$wnd'') ''Math'') ''abs'' [Bin Minus (Dot (V 7) ''b'') (Dot (V 0) ''b'')]) (G ''MEe''))) (And (Bin Le (Meth (Dot (G ''$wnd'') ''Math'') ''abs'' [Bin Minus (Dot (V 7) ''a'') (Dot (V 1) ''a'')]) (G ''MEe'')) (Bin Le (Meth (Dot (G ''$wnd'') ''Math'') ''abs'' [Bin Minus (Dot (V 7) ''b'') (Dot (V 1) ''b'')]) (G ''MEe''))))))), Do (SetV 7 (Call ''Bfd'' [V 0, Call ''igd'' [New ''lgd'' [Dot (V 1) ''a'', Dot (V 1) ''b''], V 0], V 2, V 4])), Do (And (Neg (Neg (V 7))) (Cond (Or (Loose (And (Bin Le (Meth (Dot (G ''$wnd'') ''Math'') ''abs'' [Bin Minus (Dot (V 7) ''a'') (Dot (V 0) ''a'')]) (G ''MEe'')) (Bin Le (Meth (Dot (G ''$wnd'') ''Math'') ''abs'' [Bin Minus (Dot (V 7) ''b'') (Dot (V 0) ''b'')]) (G ''MEe''))) (And (Bin Le (Meth (Dot (G ''$wnd'') ''Math'') ''abs'' [Bin Minus (Dot (V 7) ''a'') (Dot (V 1) ''a'')]) (G ''MEe'')) (Bin Le (Meth (Dot (G ''$wnd'') ''Math'') ''abs'' [Bin Minus (Dot (V 7) ''b'') (Dot (V 1) ''b'')]) (G ''MEe'')))) (V 5)) (SetV 8 (Meth (Dot (G ''$wnd'') ''Math'') ''min'' [V 8, Call ''_fd'' [Call ''igd'' [V 7, V 2]]])) (SetV 6 (K (JBool True))))), Do (SetV 7 (Call ''Bfd'' [V 0, Call ''igd'' [New ''lgd'' [Dot (V 1) ''a'', Dot (V 1) ''b''], V 0], V 3, V 4])), Do (And (And (Neg (Neg (V 7))) (Or (Or (V 6) (Loose (And (Bin Le (Meth (Dot (G ''$wnd'') ''Math'') ''abs'' [Bin Minus (Dot (V 7) ''a'') (Dot (V 0) ''a'')]) (G ''MEe'')) (Bin Le (Meth (Dot (G ''$wnd'') ''Math'') ''abs'' [Bin Minus (Dot (V 7) ''b'') (Dot (V 0) ''b'')]) (G ''MEe''))) (And (Bin Le (Meth (Dot (G ''$wnd'') ''Math'') ''abs'' [Bin Minus (Dot (V 7) ''a'') (Dot (V 1) ''a'')]) (G ''MEe'')) (Bin Le (Meth (Dot (G ''$wnd'') ''Math'') ''abs'' [Bin Minus (Dot (V 7) ''b'') (Dot (V 1) ''b'')]) (G ''MEe''))))) (V 5))) (SetV 8 (Meth (Dot (G ''$wnd'') ''Math'') ''min'' [V 8, Call ''_fd'' [Call ''igd'' [V 7, V 3]]]))), Ret (V 8)],
    fn ''IPb'' 1 0 [Do (Call ''zdd'' [V 0, New ''Kcd'' [Call ''Rcd'' [Call ''Vcd'' [Call ''Scd'' [Call ''Ucd'' [Call ''Tcd'' [New ''Xcd'' [], G ''fye''], G ''gye''], K (JStr (''Minimizes the stress within a layout using stress majorization. Stress exists if the euclidean distance between a pair of nodes doesn'' @ CHR 0x27 # ''t match their graph theoretic distance, that is, the shortest path between the two nodes. The method allows to specify individual edge lengths.''))], New ''LPb'' []], G ''Cxe'']]]), Do (Call ''xdd'' [V 0, G ''fye'', G ''Kxe'', Call ''BEd'' [G ''zPb'']]), Do (Call ''xdd'' [V 0, G ''fye'', G ''Mxe'', Seq (Call ''Qdb'' []) (K (JBool True))]), Do (Call ''xdd'' [V 0, G ''fye'', G ''Qxe'', Call ''BEd'' [G ''CPb'']]), Do (Call ''xdd'' [V 0, G ''fye'', G ''hye'', Call ''BEd'' [G ''DPb'']]), Do (Call ''xdd'' [V 0, G ''fye'', G ''Pxe'', Call ''BEd'' [G ''EPb'']]), Do (Call ''xdd'' [V 0, G ''fye'', G ''Rxe'', Call ''BEd'' [G ''BPb'']]), Do (Call ''xdd'' [V 0, G ''fye'', G ''Nxe'', Call ''BEd'' [G ''FPb'']]), Do (Call ''xdd'' [V 0, G ''fye'', G ''Sxe'', Call ''BEd'' [G ''GPb'']]), Do (Call ''xdd'' [V 0, G ''fye'', G ''aye'', Call ''BEd'' [G ''yPb'']]), Do (Call ''xdd'' [V 0, G ''fye'', G ''cye'', Call ''BEd'' [G ''wPb'']]), Do (Call ''xdd'' [V 0, G ''fye'', G ''dye'', Call ''BEd'' [G ''xPb'']]), Do (Call ''xdd'' [V 0, G ''fye'', G ''eye'', Call ''BEd'' [G ''APb'']]), Do (Call ''xdd'' [V 0, G ''fye'', G ''bye'', Call ''BEd'' [G ''vPb'']])],
    fn ''EFc'' 1 8 [Do (SetV 1 (K JNull)), Do (SetV 3 (New ''Kmb'' [V 0])), Loop (Bin Lt (Dot (V 3) ''a'') (Dot (Dot (Dot (V 3) ''c'') ''c'') ''length'')) [Do (SetV 2 (Call ''JD'' [Call ''Imb'' [V 3], K (JNum 239)])), Do (Call ''Ueb'' [Dot (Call ''JFc'' [Dot (V 2) ''g'', Idx (Dot (V 2) ''d'') (K (JNum 0))]) ''a'']), Do (Put (V 2) ''b'' (K JNull)), When (And (And (Neg (Neg (Dot (V 2) ''e''))) (Bin Gt (Meth (Dot (V 2) ''e'') ''gc'' []) (K (JNum 0)))) (Loose (Dot (V 2) ''c'') (K (JNum 0)))) [Do (And (Neg (V 1)) (SetV 1 (New ''lmb'' []))), Do (Call ''qDb'' [Dot (V 1) ''c'', V 2])] []] [], When (V 1) [Loop (Neg (Loose (Dot (Dot (V 1) ''c'') ''length'') (K (JNum 0)))) [Do (SetV 2 (Call ''JD'' [Call ''fmb'' [V 1, K (JNum 0)], K (JNum 239)])), When (And (Neg (Neg (Dot (V 2) ''b''))) (Bin Gt (Dot (Dot (Dot (V 2) ''b'') ''c'') ''length'') (K (JNum 0)))) [Do (SetV 5 (Seq (And (Neg (Dot (V 2) ''b'')) (Put (V 2) ''b'' (New ''lmb'' []))) (New ''Kmb'' [Dot (V 2) ''b'']))), Loop (Bin Lt (Dot (V 5) ''a'') (Dot (Dot (Dot (V 5) ''c'') ''c'') ''length'')) [Do (SetV 4 (Call ''JD'' [Call ''Imb'' [V 5], K (JNum 239)])), When (Loose (Call ''Web'' [Dot (Call ''JFc'' [Dot (V 4) ''g'', Idx (Dot (V 4) ''d'') (K (JNum 0))]) ''a'']) (Call ''Web'' [Dot (Call ''JFc'' [Dot (V 2) ''g'', Idx (Dot (V 2) ''d'') (K (JNum 0))]) ''a''])) [When (Bin Gt (Call ''emb'' [V 0, V 4, K (JNum 0)]) (Call ''emb'' [V 0, V 2, K (JNum 0)])) [Ret (New ''prd'' [V 4, V 2])] []] [When (Bin Gt (Call ''Ueb'' [Dot (Call ''JFc'' [Dot (V 4) ''g'', Idx (Dot (V 4) ''d'') (K (JNum 0))]) ''a'']) (Call ''Ueb'' [Dot (Call ''JFc'' [Dot (V 2) ''g'', Idx (Dot (V 2) ''d'') (K (JNum 0))]) ''a''])) [Ret (New ''prd'' [V 4, V 2])] []]] []] [], Do (SetV 7 (Meth (Seq (And (Neg (Dot (V 2) ''e'')) (Put (V 2) ''e'' (New ''lmb'' []))) (Dot (V 2) ''e'')) ''Jc'' [])), Loop (Meth (V 7) ''Ob'' []) [Do (SetV 6 (Call ''JD'' [Meth (V 7) ''Pb'' [], K (JNum 239)])), Do (SetV 8 (Seq (And (Neg (Dot (V 6) ''b'')) (Put (V 6) ''b'' (New ''lmb'' []))) (Dot (V 6) ''b''))), Do (Call ''PDb'' [K (JNum 0), Dot (Dot (V 8) ''c'') ''length'']), Do (Call ''oDb'' [Dot (V 8) ''c'', K (JNum 0), V 2]), Do (And (Loose (Dot (V 6) ''c'') (Dot (Dot (V 8) ''c'') ''length'')) (Seq (Call ''qDb'' [Dot (V 1) ''c'', V 6]) (K (JBool True))))] []] []] [], Ret (K JNull)],
    fn ''Jre'' 2 9 [When (Loose (Dot (V 1) ''e'') (K (JNum 5))) [Do (Call ''Gre'' [V 0, V 1]), Ret (K JUndef)] [], Do (SetV 9 (V 1)), When (Or (Loose (Dot (V 9) ''b'') (K JNull)) (Loose (Dot (V 0) ''b'') (K JNull))) [Ret (K JUndef)] [], Do (Call ''Ire'' [V 0]), Do (Call ''Fre'' [V 0]), Do (Call ''Ire'' [V 9]), Do (Call ''Fre'' [V 9]), Do (SetV 2 (Call ''SC'' [G ''cE'', G ''bve'', K (JNum 30), Bin Plus (Dot (Dot (V 0) ''b'') ''length'') (Dot (Dot (V 9) ''b'') ''length''), K (JNum 15), K (JNum 1)])), Do (SetV 10 (K (JNum 0))), Do (SetV 3 (K (JNum 0))), Do (SetV 6 (K (JNum 0))), Loop (And (Bin Lt (V 3) (Dot (Dot (V 0) ''b'') ''length'')) (Bin Lt (V 6) (Dot (Dot (V 9) ''b'') ''length''))) [Do (SetV 4 (Idx (Dot (V 0) ''b'') (V 3))), Do (SetV 5 (Idx (Dot (V 0) ''b'') (Bin Plus (V 3) (K (JNum 1))))), Do (SetV 7 (Idx (Dot (V 9) ''b'') (V 6))), Do (SetV 8 (Idx (Dot (V 9) ''b'') (Bin Plus (V 6) (K (JNum 1))))), When (Bin Lt (V 5) (V 7)) [Do (PutIdx (V 2) (Bin Minus (SetV 10 (Bin Minus (V 10) (K (JNum (- 1))))) (K (JNum 1))) (Idx (Dot (V 0) ''b'') (Bin Minus (SetV 3 (Bin Minus (V 3) (K (JNum (- 1))))) (K (JNum 1))))), Do (PutIdx (V 2) (Bin Minus (SetV 10 (Bin Minus (V 10) (K (JNum (- 1))))) (K (JNum 1))) (Idx (Dot (V 0) ''b'') (Bin Minus (SetV 3 (Bin Minus (V 3) (K (JNum (- 1))))) (K (JNum 1)))))] [When (And (Bin Ge (V 5) (V 7)) (Bin Le (V 4) (V 8))) [When (And (Bin Le (V 7) (V 4)) (Bin Le (V 5) (V 8))) [Do (SetV 3 (Bin Plus (V 3) (K (JNum 2))))] [When (Bin Le (V 7) (V 4)) [Do (PutIdx (Dot (V 0) ''b'') (V 3) (Bin Plus (V 8) (K (JNum 1)))), Do (SetV 6 (Bin Plus (V 6) (K (JNum 2))))] [When (Bin Le (V 5) (V 8)) [Do (PutIdx (V 2) (Bin Minus (SetV 10 (Bin Minus (V 10) (K (JNum (- 1))))) (K (JNum 1))) (V 4)), Do (PutIdx (V 2) (Bin Minus (SetV 10 (Bin Minus (V 10) (K (JNum (- 1))))) (K (JNum 1))) (Bin Minus (V 7) (K (JNum 1)))), Do (SetV 3 (Bin Plus (V 3) (K (JNum 2))))] [Do (PutIdx (V 2) (Bin Minus (SetV 10 (Bin Minus (V 10) (K (JNum (- 1))))) (K (JNum 1))) (V 4)), Do (PutIdx (V 2) (Bin Minus (SetV 10 (Bin Minus (V 10) (K (JNum (- 1))))) (K (JNum 1))) (Bin Minus (V 7) (K (JNum 1)))), Do (PutIdx (Dot (V 0) ''b'') (V 3) (Bin Plus (V 8) (K (JNum 1)))), Do (SetV 6 (Bin Plus (V 6) (K (JNum 2))))]]]] [When (Bin Lt (V 8) (V 4)) [Do (SetV 6 (Bin Plus (V 6) (K (JNum 2))))] [Raise (Call ''Lcb'' [New ''qz'' [Bin Plus (Bin Plus (Bin Plus (Bin Plus (Bin Plus (Bin Plus (Bin Plus (Bin Plus (K (JStr ''Token#subtractRanges(): Internal Error: ['')) (Idx (Dot (V 0) ''b'') (V 3))) (K (JStr '',''))) (Idx (Dot (V 0) ''b'') (Bin Plus (V 3) (K (JNum 1))))) (K (JStr ''] - [''))) (Idx (Dot (V 9) ''b'') (V 6))) (K (JStr '',''))) (Idx (Dot (V 9) ''b'') (Bin Plus (V 6) (K (JNum 1))))) (K (JStr '']''))]])]]]] [], Loop (Bin Lt (V 3) (Dot (Dot (V 0) ''b'') ''length'')) [Do (PutIdx (V 2) (Bin Minus (SetV 10 (Bin Minus (V 10) (K (JNum (- 1))))) (K (JNum 1))) (Idx (Dot (V 0) ''b'') (Bin Minus (SetV 3 (Bin Minus (V 3) (K (JNum (- 1))))) (K (JNum 1))))), Do (PutIdx (V 2) (Bin Minus (SetV 10 (Bin Minus (V 10) (K (JNum (- 1))))) (K (JNum 1))) (Idx (Dot (V 0) ''b'') (Bin Minus (SetV 3 (Bin Minus (V 3) (K (JNum (- 1))))) (K (JNum 1)))))] [], Do (Put (V 0) ''b'' (Call ''SC'' [G ''cE'', G ''bve'', K (JNum 30), V 10, K (JNum 15), K (JNum 1)])), Do (Call ''rhb'' [V 2, K (JNum 0), Dot (V 0) ''b'', K (JNum 0), V 10])],
    fn ''PKc'' 1 17 [Do (SetV 3 (New ''Kmb'' [Dot (Dot (V 0) ''e'') ''b''])), Loop (Bin Lt (Dot (V 3) ''a'') (Dot (Dot (Dot (V 3) ''c'') ''c'') ''length'')) [Do (SetV 2 (Call ''JD'' [Call ''Imb'' [V 3], K (JNum 25)])), Do (SetV 5 (New ''Kmb'' [Dot (V 2) ''a''])), Loop (Bin Lt (Dot (V 5) ''a'') (Dot (Dot (Dot (V 5) ''c'') ''c'') ''length'')) [Do (SetV 4 (Call ''JD'' [Call ''Imb'' [V 5], K (JNum 9)])), Do (SetV 13 (Idx (Dot (V 0) ''i'') (Dot (V 4) ''p''))), Do (SetV 9 (Dot (Dot (V 13) ''a'') ''e'')), Do (SetV 8 (Dot (Dot (V 13) ''d'') ''e'')), Do (Put (Dot (V 4) ''n'') ''b'' (V 9)), Do (SetV 17 (Bin Minus (Bin Minus (V 8) (V 9)) (Dot (Dot (V 4) ''o'') ''b''))), Do (SetV 1 (Call ''kLc'' [V 4])), Do (SetV 12 (Seq (Seq (Call ''lzc'' []) (Cond (Meth (Cond (Neg (Dot (V 4) ''q'')) (Seq (Seq (Call ''Inb'' []) (Call ''Inb'' [])) (G ''Gnb'')) (Dot (V 4) ''q'')) ''_b'' [Seq (Call ''nyc'' []) (G ''Ywc'')]) (SetV 11 (Call ''JD'' [Call ''oNb'' [V 4, G ''Ywc''], K (JNum 203)])) (SetV 11 (Call ''JD'' [Call ''oNb'' [Call ''DYb'' [V 4], G ''Zwc''], K (JNum 203)])))) (V 11))), Do (And (And (V 1) (Or (Loose (V 12) (G ''izc'')) (Loose (V 12) (G ''hzc'')))) (Put (Dot (V 4) ''o'') ''b'' (Bin Plus (Dot (Dot (V 4) ''o'') ''b'') (V 17)))), When (And (V 1) (Or (Or (Loose (V 12) (G ''kzc'')) (Loose (V 12) (G ''izc''))) (Loose (V 12) (G ''hzc'')))) [Do (SetV 15 (New ''Kmb'' [Dot (V 4) ''j''])), Loop (Bin Lt (Dot (V 15) ''a'') (Dot (Dot (Dot (V 15) ''c'') ''c'') ''length'')) [Do (SetV 14 (Call ''JD'' [Call ''Imb'' [V 15], K (JNum 12)])), When (Meth (Seq (Call ''Bmd'' []) (G ''lmd'')) ''Gc'' [Dot (V 14) ''j'']) [Do (SetV 10 (Call ''JD'' [Call ''ejb'' [Dot (V 0) ''k'', V 14], K (JNum 124)])), Do (Put (Dot (V 14) ''n'') ''b'' (Bin Minus (Dot (V 10) ''e'') (V 9)))] []] [], Do (SetV 7 (New ''Kmb'' [Dot (V 4) ''b''])), Loop (Bin Lt (Dot (V 7) ''a'') (Dot (Dot (Dot (V 7) ''c'') ''c'') ''length'')) [Do (SetV 6 (Call ''JD'' [Call ''Imb'' [V 7], K (JNum 70)])), Do (SetV 16 (Call ''JD'' [Call ''oNb'' [V 4, G ''Twc''], K (JNum 22)])), Do (Cond (Meth (V 16) ''Gc'' [Seq (Call ''old'' []) (G ''lld'')]) (Put (Dot (V 6) ''n'') ''b'' (Bin Plus (Dot (Dot (V 6) ''n'') ''b'') (V 17))) (And (Meth (V 16) ''Gc'' [G ''mld'']) (Put (Dot (V 6) ''n'') ''b'' (Bin Plus (Dot (Dot (V 6) ''n'') ''b'') (Bin Divide (V 17) (K (JNum 2)))))))] [], Do (And (Or (Loose (V 12) (G ''izc'')) (Loose (V 12) (G ''hzc''))) (Meth (Call ''IYb'' [V 4, Seq (Call ''Bmd'' []) (G ''ymd'')]) ''Ic'' [New ''hMc'' [V 17]]))] []] []] []],
    fn ''XJb'' 1 7 [When (Meth (Dot (V 0) ''A'') ''dc'' []) [Ret (K JUndef)] [], When (Meth (Dot (V 0) ''A'') ''Gc'' [Seq (Call ''ind'' []) (G ''gnd'')]) [Do (Put (Call ''JD'' [Call ''brb'' [Dot (V 0) ''b'', Seq (Call ''Bmd'' []) (G ''hmd'')], K (JNum 127)]) ''k'' (K (JBool True))), Do (Put (Call ''JD'' [Call ''brb'' [Dot (V 0) ''b'', G ''ymd''], K (JNum 127)]) ''k'' (K (JBool True))), Do (SetV 1 (And (Neg (Loose (Dot (V 0) ''q'') (Seq (Call ''Mld'' []) (G ''Ild'')))) (Neg (Loose (Dot (V 0) ''q'') (G ''Hld''))))), Do (Call ''tHb'' [Call ''JD'' [Call ''brb'' [Dot (V 0) ''b'', G ''gmd''], K (JNum 127)], V 1]), Do (Call ''tHb'' [Call ''JD'' [Call ''brb'' [Dot (V 0) ''b'', G ''Amd''], K (JNum 127)], V 1]), Do (Call ''tHb'' [Dot (V 0) ''g'', V 1]), When (Meth (Dot (V 0) ''A'') ''Gc'' [G ''hnd'']) [Do (Put (Call ''JD'' [Call ''brb'' [Dot (V 0) ''b'', G ''hmd''], K (JNum 127)]) ''j'' (K (JBool True))), Do (Put (Call ''JD'' [Call ''brb'' [Dot (V 0) ''b'', G ''ymd''], K (JNum 127)]) ''j'' (K (JBool True))), Do (Put (Call ''JD'' [Call ''brb'' [Dot (V 0) ''b'', G ''gmd''], K (JNum 127)]) ''k'' (K (JBool True))), Do (Put (Call ''JD'' [Call ''brb'' [Dot (V 0) ''b'', G ''Amd''], K (JNum 127)]) ''k'' (K (JBool True))), Do (Put (Dot (V 0) ''g'') ''k'' (K (JBool True)))] []] [], When (Meth (Dot (V 0) ''A'') ''Gc'' [G ''fnd'']) [Do (Put (Dot (V 0) ''a'') ''j'' (K (JBool True))), Do (Put (Dot (V 0) ''a'') ''k'' (K (JBool True))), Do (Put (Dot (V 0) ''g'') ''j'' (K (JBool True))), Do (Put (Dot (V 0) ''g'') ''k'' (K (JBool True))), Do (SetV 7 (Meth (Dot (V 0) ''B'') ''Gc'' [Seq (Call ''xnd'' []) (G ''tnd'')])), Do (Seq (Seq (SetV 4 (Call ''SJb'' [])) (SetV 5 (K (JNum 0)))) (SetV 6 (Dot (V 4) ''length''))), Loop (Bin Lt (V 5) (V 6)) [Do (SetV 3 (Idx (V 4) (V 5))), Do (SetV 2 (Call ''JD'' [Call ''brb'' [Dot (V 0) ''i'', V 3], K (JNum 319)])), When (V 2) [When (Call ''OJb'' [V 3]) [Do (Put (V 2) ''j'' (K (JBool True))), Do (Put (V 2) ''k'' (K (JBool True)))] [Do (Put (V 2) ''j'' (Neg (V 7))), Do (Put (V 2) ''k'' (Neg (V 7)))]] []] [Do (SetV 5 (Bin Minus (V 5) (K (JNum (- 1)))))]] [], When (And (Meth (Dot (V 0) ''A'') ''Gc'' [G ''end'']) (Meth (Dot (V 0) ''B'') ''Gc'' [Seq (Call ''xnd'' []) (G ''snd'')])) [Do (Put (Dot (V 0) ''g'') ''j'' (K (JBool True))), Do (Put (Dot (V 0) ''g'') ''j'' (K (JBool True))), When (Neg (Dot (Dot (V 0) ''a'') ''j'')) [Do (Put (Dot (V 0) ''a'') ''j'' (K (JBool True))), Do (Put (Dot (V 0) ''a'') ''k'' (K (JBool True))), Do (Put (Dot (V 0) ''a'') ''e'' (K (JBool True)))] []] []],
    fn ''_Kc'' 3 10 [Do (SetV 9 (New ''lmb'' [])), Do (SetV 8 (New ''Kmb'' [Dot (V 1) ''a''])), Loop (Bin Lt (Dot (V 8) ''a'') (Dot (Dot (Dot (V 8) ''c'') ''c'') ''length'')) [Do (SetV 6 (Call ''JD'' [Call ''Imb'' [V 8], K (JNum 9)])), Do (SetV 12 (Meth (Call ''IYb'' [V 6, Seq (Call ''Bmd'' []) (G ''gmd'')]) ''Jc'' [])), Loop (Meth (V 12) ''Ob'' []) [Do (SetV 11 (Call ''JD'' [Meth (V 12) ''Pb'' [], K (JNum 12)])), Do (SetV 4 (New ''Kmb'' [Dot (V 11) ''g''])), Loop (Bin Lt (Dot (V 4) ''a'') (Dot (Dot (Dot (V 4) ''c'') ''c'') ''length'')) [Do (SetV 3 (Call ''JD'' [Call ''Imb'' [V 4], K (JNum 17)])), When (Or (Or (And (Neg (Call ''AWb'' [V 3])) (Loose (Dot (Dot (Dot (V 3) ''c'') ''i'') ''c'') (Dot (Dot (Dot (V 3) ''d'') ''i'') ''c''))) (Call ''AWb'' [V 3])) (Neg (Loose (Dot (Dot (Dot (V 3) ''d'') ''i'') ''c'') (V 2)))) [Continue] [], Do (Call ''qDb'' [Dot (V 9) ''c'', V 3])] []] []] [], Do (SetV 7 (Meth (Call ''$u'' [Dot (V 2) ''a'']) ''Jc'' [])), Loop (Meth (V 7) ''Ob'' []) [Do (SetV 6 (Call ''JD'' [Meth (V 7) ''Pb'' [], K (JNum 9)])), Do (SetV 12 (Meth (Call ''IYb'' [V 6, Seq (Call ''Bmd'' []) (G ''Amd'')]) ''Jc'' [])), Loop (Meth (V 12) ''Ob'' []) [Do (SetV 11 (Call ''JD'' [Meth (V 12) ''Pb'' [], K (JNum 12)])), Do (SetV 4 (New ''Kmb'' [Dot (V 11) ''e''])), Loop (Bin Lt (Dot (V 4) ''a'') (Dot (Dot (Dot (V 4) ''c'') ''c'') ''length'')) [Do (SetV 3 (Call ''JD'' [Call ''Imb'' [V 4], K (JNum 17)])), When (Or (Or (And (Neg (Call ''AWb'' [V 3])) (Loose (Dot (Dot (Dot (V 3) ''c'') ''i'') ''c'') (Dot (Dot (Dot (V 3) ''d'') ''i'') ''c''))) (Call ''AWb'' [V 3])) (Neg (Loose (Dot (Dot (Dot (V 3) ''c'') ''i'') ''c'') (V 1)))) [Continue] [], When (Neg (Loose (Dot (Dot (V 9) ''c'') ''length'') (K (JNum 0)))) [Do (SetV 10 (New ''Tjb'' [V 9, Dot (Dot (V 9) ''c'') ''length''])), Do (SetV 5 (Seq (Call ''LDb'' [Bin Gt (Dot (V 10) ''b'') (K (JNum 0))]) (Call ''JD'' [Meth (Dot (V 10) ''a'') ''Xb'' [Put (V 10) ''c'' (Put (V 10) ''b'' (Bin Minus (Dot (V 10) ''b'') (K (JNum 1))))], K (JNum 17)]))), Loop (And (Neg (Loose (V 5) (V 3))) (Bin Gt (Dot (V 10) ''b'') (K (JNum 0)))) [Do (PutIdx (Dot (V 0) ''a'') (Dot (V 5) ''p'') (K (JBool True))), Do (PutIdx (Dot (V 0) ''a'') (Dot (V 3) ''p'') (K (JBool True))), Do (SetV 5 (Seq (Call ''LDb'' [Bin Gt (Dot (V 10) ''b'') (K (JNum 0))]) (Call ''JD'' [Meth (Dot (V 10) ''a'') ''Xb'' [Put (V 10) ''c'' (Put (V 10) ''b'' (Bin Minus (Dot (V 10) ''b'') (K (JNum 1))))], K (JNum 17)])))] [], Do (And (Bin Gt (Dot (V 10) ''b'') (K (JNum 0))) (Call ''Mjb'' [V 10]))] []] []] []] []],
    fn ''hFc'' 3 10 [When (V 2) [Do (SetV 3 (K (JNum (- 1)))), Do (SetV 10 (New ''Tjb'' [V 1, K (JNum 0)])), Loop (Bin Lt (Dot (V 10) ''b'') (Meth (Dot (V 10) ''d'') ''gc'' [])) [Do (SetV 7 (Seq (Call ''LDb'' [Bin Lt (Dot (V 10) ''b'') (Meth (Dot (V 10) ''d'') ''gc'' [])]) (Call ''JD'' [Meth (Dot (V 10) ''d'') ''Xb'' [Put (V 10) ''c'' (Bin Minus (Put (V 10) ''b'' (Bin Minus (Dot (V 10) ''b'') (K (JNum (- 1))))) (K (JNum 1)))], K (JNum 9)]))), Do (SetV 11 (Dot (Idx (Idx (Dot (V 0) ''c'') (Dot (Dot (V 7) ''c'') ''p'')) (Dot (V 7) ''p'')) ''a'')), When (Loose (V 11) (K JNull)) [Do (SetV 6 (Bin Plus (V 3) (K (JNum 1)))), Do (SetV 5 (New ''Tjb'' [V 1, Dot (V 10) ''b''])), Loop (Bin Lt (Dot (V 5) ''b'') (Meth (Dot (V 5) ''d'') ''gc'' [])) [Do (SetV 12 (Dot (Call ''lFc'' [V 0, Seq (Call ''LDb'' [Bin Lt (Dot (V 5) ''b'') (Meth (Dot (V 5) ''d'') ''gc'' [])]) (Call ''JD'' [Meth (Dot (V 5) ''d'') ''Xb'' [Put (V 5) ''c'' (Bin Minus (Put (V 5) ''b'' (Bin Minus (Dot (V 5) ''b'') (K (JNum (- 1))))) (K (JNum 1)))], K (JNum 9)])]) ''a'')), When (Neg (Loose (V 12) (K JNull))) [Do (SetV 6 (Seq (Call ''NDb'' [V 12]) (V 12))), Break] []] [], Do (SetV 11 (Bin Divide (Bin Plus (V 3) (V 6)) (K (JNum 2)))), Do (Put (Idx (Idx (Dot (V 0) ''c'') (Dot (Dot (V 7) ''c'') ''p'')) (Dot (V 7) ''p'')) ''a'' (V 11)), Do (Put (Idx (Idx (Dot (V 0) ''c'') (Dot (Dot (V 7) ''c'') ''p'')) (Dot (V 7) ''p'')) ''d'' (Seq (Call ''NDb'' [V 11]) (V 11))), Do (Put (Idx (Idx (Dot (V 0) ''c'') (Dot (Dot (V 7) ''c'') ''p'')) (Dot (V 7) ''p'')) ''b'' (K (JNum 1)))] [], Do (SetV 3 (Seq (Call ''NDb'' [V 11]) (V 11)))] []] [Do (SetV 4 (K (JNum 0))), Do (SetV 9 (New ''Kmb'' [V 1])), Loop (Bin Lt (Dot (V 9) ''a'') (Dot (Dot (Dot (V 9) ''c'') ''c'') ''length'')) [Do (SetV 7 (Call ''JD'' [Call ''Imb'' [V 9], K (JNum 9)])), Do (And (Neg (Loose (Dot (Idx (Idx (Dot (V 0) ''c'') (Dot (Dot (V 7) ''c'') ''p'')) (Dot (V 7) ''p'')) ''a'') (K JNull))) (SetV 4 (Meth (Dot (G ''$wnd'') ''Math'') ''max'' [V 4, Call ''Ueb'' [Dot (Idx (Idx (Dot (V 0) ''c'') (Dot (Dot (V 7) ''c'') ''p'')) (Dot (V 7) ''p'')) ''a'']])))] [], Do (SetV 4 (Bin Plus (V 4) (K (JNum 2)))), Do (SetV 8 (New ''Kmb'' [V 1])), Loop (Bin Lt (Dot (V 8) ''a'') (Dot (Dot (Dot (V 8) ''c'') ''c'') ''length'')) [Do (SetV 7 (Call ''JD'' [Call ''Imb'' [V 8], K (JNum 9)])), When (Loose (Dot (Idx (Idx (Dot (V 0) ''c'') (Dot (Dot (V 7) ''c'') ''p'')) (Dot (V 7) ''p'')) ''a'') (K JNull)) [Do (SetV 11 (Bin Minus (Bin Times (Bin Times (Call ''Rvb'' [Dot (V 0) ''i'', K (JNum 24)]) (G ''_ve'')) (V 4)) (K (JNum 1)))), Do (Put (Idx (Idx (Dot (V 0) ''c'') (Dot (Dot (V 7) ''c'') ''p'')) (Dot (V 7) ''p'')) ''a'' (V 11)), Do (Put (Idx (Idx (Dot (V 0) ''c'') (Dot (Dot (V 7) ''c'') ''p'')) (Dot (V 7) ''p'')) ''d'' (V 11)), Do (Put (Idx (Idx (Dot (V 0) ''c'') (Dot (Dot (V 7) ''c'') ''p'')) (Dot (V 7) ''p'')) ''b'' (K (JNum 1)))] []] []]]]"

definition code_6107_6107 :: "(string \<times> jfun) list" where
  "code_6107_6107 = [
    fn ''Tfc'' 1 12 [Do (SetV 4 (New ''Kmb'' [Dot (Dot (Dot (V 0) ''a'') ''a'') ''b''])), Loop (Bin Lt (Dot (V 4) ''a'') (Dot (Dot (Dot (V 4) ''c'') ''c'') ''length'')) [Do (SetV 3 (Call ''JD'' [Call ''Imb'' [V 4], K (JNum 60)])), Do (SetV 8 (Meth (Dot (V 3) ''c'') ''Jc'' [])), Loop (Meth (V 8) ''Ob'' []) [Do (SetV 7 (Call ''JD'' [Meth (V 8) ''Pb'' [], K (JNum 60)])), When (Loose (Dot (V 3) ''a'') (Dot (V 7) ''a'')) [Continue] [], Do (Cond (Call ''Ejd'' [Dot (Dot (V 0) ''a'') ''d'']) (SetV 11 (Meth (Dot (Dot (V 0) ''a'') ''g'') ''df'' [V 3, V 7])) (SetV 11 (Meth (Dot (Dot (V 0) ''a'') ''g'') ''ef'' [V 3, V 7]))), Do (SetV 5 (Bin Minus (Bin Plus (Bin Plus (Dot (Dot (V 3) ''b'') ''a'') (Dot (Dot (V 3) ''d'') ''b'')) (V 11)) (Dot (Dot (V 7) ''b'') ''a''))), Do (SetV 5 (Meth (Dot (G ''$wnd'') ''Math'') ''ceil'' [V 5])), Do (SetV 5 (Meth (Dot (G ''$wnd'') ''Math'') ''max'' [K (JNum 0), V 5])), When (Call ''aec'' [V 3, V 7]) [Do (SetV 6 (Call ''JGb'' [New ''LGb'' [], Dot (V 0) ''d''])), Do (SetV 9 (Call ''YD'' [Meth (Dot (G ''$wnd'') ''Math'') ''ceil'' [Bin Minus (Dot (Dot (V 7) ''b'') ''a'') (Dot (Dot (V 3) ''b'') ''a'')]])), Do (SetV 1 (Bin Minus (V 9) (Bin Minus (Dot (Dot (V 7) ''b'') ''a'') (Dot (Dot (V 3) ''b'') ''a'')))), Do (SetV 10 (Dot (Call ''_dc'' [V 3]) ''a'')), Do (SetV 2 (V 3)), When (Neg (V 10)) [Do (SetV 10 (Dot (Call ''_dc'' [V 7]) ''a'')), Do (SetV 1 (Minus1 (V 1))), Do (SetV 2 (V 7))] [], When (V 10) [Do (Put (Dot (V 2) ''b'') ''a'' (Bin Minus (Dot (Dot (V 2) ''b'') ''a'') (V 1))), Do (Put (Dot (V 10) ''n'') ''a'' (Bin Minus (Dot (Dot (V 10) ''n'') ''a'') (V 1)))] [], Do (Call ''XFb'' [Call ''$Fb'' [Call ''ZFb'' [Call ''_Fb'' [Call ''YFb'' [New ''aGb'' [], Meth (Dot (G ''$wnd'') ''Math'') ''max'' [K (JNum 0), V 9]], K (JNum 1)], V 6], Idx (Dot (V 0) ''c'') (Dot (Dot (V 3) ''a'') ''d'')]]), Do (Call ''XFb'' [Call ''$Fb'' [Call ''ZFb'' [Call ''_Fb'' [Call ''YFb'' [New ''aGb'' [], Meth (Dot (G ''$wnd'') ''Math'') ''max'' [K (JNum 0), Minus1 (V 9)]], K (JNum 1)], V 6], Idx (Dot (V 0) ''c'') (Dot (Dot (V 7) ''a'') ''d'')]])] [Do (SetV 12 (K (JNum 1))), Do (And (Or (And (Call ''RD'' [Dot (V 3) ''g'', K (JNum 156)]) (Call ''RD'' [Dot (V 7) ''g'', K (JNum 9)])) (And (Call ''RD'' [Dot (V 7) ''g'', K (JNum 156)]) (Call ''RD'' [Dot (V 3) ''g'', K (JNum 9)]))) (SetV 12 (K (JNum 2)))), Do (Call ''XFb'' [Call ''$Fb'' [Call ''ZFb'' [Call ''_Fb'' [Call ''YFb'' [New ''aGb'' [], Call ''YD'' [V 5]], V 12], Idx (Dot (V 0) ''c'') (Dot (Dot (V 3) ''a'') ''d'')], Idx (Dot (V 0) ''c'') (Dot (Dot (V 7) ''a'') ''d'')]])]] []] []]]"

definition code_6112_6113 :: "(string \<times> jfun) list" where
  "code_6112_6113 = [
    fn ''XVd'' 2 4 [Do (SetV 5 (Dot (V 0) ''F'')), When (Loose (V 1) (K JNull)) [Do (Put (V 0) ''F'' (K JNull)), Do (Call ''LVd'' [V 0, K JNull])] [Do (Put (V 0) ''F'' (Seq (Call ''NDb'' [V 1]) (V 1))), Do (SetV 3 (Call ''Agb'' [V 1, Call ''Pgb'' [K (JNum 60)]])), When (Neg (Loose (V 3) (K (JNum (- 1))))) [Do (SetV 4 (Seq (Call ''TDb'' [K (JNum 0), V 3, Dot (V 1) ''length'']) (Meth (V 1) ''substr'' [K (JNum 0), V 3]))), Do (And (And (And (And (And (And (And (And (And (Loose (Call ''Agb'' [V 1, Call ''Pgb'' [K (JNum 46)]]) (K (JNum (- 1)))) (Neg (Call ''vgb'' [V 4, G ''wte'']))) (Neg (Call ''vgb'' [V 4, G ''oIe'']))) (Neg (Call ''vgb'' [V 4, G ''pIe'']))) (Neg (Call ''vgb'' [V 4, G ''qIe'']))) (Neg (Call ''vgb'' [V 4, G ''rIe'']))) (Neg (Call ''vgb'' [V 4, G ''sIe'']))) (Neg (Call ''vgb'' [V 4, G ''tIe'']))) (Neg (Call ''vgb'' [V 4, G ''uIe'']))) (SetV 4 (G ''vIe''))), Do (SetV 2 (Call ''Dgb'' [V 1, Call ''Pgb'' [K (JNum 62)]])), Do (And (Neg (Loose (V 2) (K (JNum (- 1))))) (SetV 4 (Bin Plus (V 4) (Bin Plus (K (JStr '''')) (Seq (Call ''UDb'' [Bin Plus (V 2) (K (JNum 1)), Bin Plus (Dot (V 1) ''length'') (K (JNum 1))]) (Meth (V 1) ''substr'' [Bin Plus (V 2) (K (JNum 1))])))))), Do (Call ''LVd'' [V 0, V 4])] [Do (SetV 4 (V 1)), When (Loose (Call ''Agb'' [V 1, Call ''Pgb'' [K (JNum 46)]]) (K (JNum (- 1)))) [Do (SetV 3 (Call ''Agb'' [V 1, Call ''Pgb'' [K (JNum 91)]])), Do (And (Neg (Loose (V 3) (K (JNum (- 1))))) (SetV 4 (Seq (Call ''TDb'' [K (JNum 0), V 3, Dot (V 1) ''length'']) (Meth (V 1) ''substr'' [K (JNum 0), V 3])))), When (And (And (And (And (And (And (And (Neg (Call ''vgb'' [V 4, G ''wte''])) (Neg (Call ''vgb'' [V 4, G ''oIe'']))) (Neg (Call ''vgb'' [V 4, G ''pIe'']))) (Neg (Call ''vgb'' [V 4, G ''qIe'']))) (Neg (Call ''vgb'' [V 4, G ''rIe'']))) (Neg (Call ''vgb'' [V 4, G ''sIe'']))) (Neg (Call ''vgb'' [V 4, G ''tIe'']))) (Neg (Call ''vgb'' [V 4, G ''uIe'']))) [Do (SetV 4 (G ''vIe'')), Do (And (Neg (Loose (V 3) (K (JNum (- 1))))) (SetV 4 (Bin Plus (V 4) (Bin Plus (K (JStr '''')) (Seq (Call ''UDb'' [V 3, Bin Plus (Dot (V 1) ''length'') (K (JNum 1))]) (Meth (V 1) ''substr'' [V 3]))))))] [Do (SetV 4 (V 1))]] [], Do (Call ''LVd'' [V 0, V 4]), Do (And (Loose (V 4) (V 1)) (Put (V 0) ''F'' (Dot (V 0) ''D'')))]], Do (And (And (Neg (Loose (Bin BitAnd (Dot (V 0) ''Db'') (K (JNum 4))) (K (JNum 0)))) (Loose (Bin BitAnd (Dot (V 0) ''Db'') (K (JNum 1))) (K (JNum 0)))) (Call ''Osd'' [V 0, New ''$1d'' [V 0, K (JNum 1), K (JNum 5), V 5, V 1]]))],
    fn ''lVb'' 2 13 [Do (Put (V 0) ''c'' (Dot (V 0) ''e'')), Do (SetV 14 (Call ''LD'' [Call ''oNb'' [V 1, Seq (Call ''nyc'' []) (G ''Dxc'')]])), Do (SetV 13 (Or (Loose (V 14) (K JNull)) (Seq (Call ''NDb'' [V 14]) (V 14)))), Do (SetV 5 (Meth (Call ''JD'' [Call ''oNb'' [V 1, Seq (Call ''Wrc'' []) (G ''brc'')], K (JNum 22)]) ''Gc'' [Seq (Call ''Xpc'' []) (G ''Qpc'')])), Do (SetV 4 (Call ''JD'' [Call ''oNb'' [V 1, G ''qxc''], K (JNum 102)])), Do (SetV 2 (Neg (Or (Or (Loose (V 4) (Seq (Call ''Mld'' []) (G ''Gld''))) (Loose (V 4) (G ''Ild''))) (Loose (V 4) (G ''Hld''))))), When (And (V 13) (Or (V 2) (Neg (V 5)))) [Do (SetV 11 (New ''Kmb'' [Dot (V 1) ''a''])), Loop (Bin Lt (Dot (V 11) ''a'') (Dot (Dot (Dot (V 11) ''c'') ''c'') ''length'')) [Do (SetV 9 (Call ''JD'' [Call ''Imb'' [V 11], K (JNum 9)])), Do (Put (V 9) ''p'' (K (JNum 0)))] [], Do (SetV 12 (New ''lmb'' [])), Do (SetV 10 (New ''Kmb'' [Dot (V 1) ''a''])), Loop (Bin Lt (Dot (V 10) ''a'') (Dot (Dot (Dot (V 10) ''c'') ''c'') ''length'')) [Do (SetV 9 (Call ''JD'' [Call ''Imb'' [V 10], K (JNum 9)])), Do (SetV 3 (Call ''kVb'' [V 0, V 9, K JNull])), When (V 3) [Do (SetV 8 (New ''JWb'' [])), Do (Call ''mNb'' [V 8, V 1]), Do (Call ''rNb'' [V 8, G ''Xqc'', Call ''JD'' [Dot (V 3) ''b'', K (JNum 22)]]), Do (Call ''hYb'' [Dot (V 8) ''d'', Dot (V 1) ''d'']), Do (Call ''rNb'' [V 8, G ''cxc'', K JNull]), Do (SetV 7 (Meth (Call ''JD'' [Dot (V 3) ''a'', K (JNum 16)]) ''Jc'' [])), Loop (Meth (V 7) ''Ob'' []) [Do (SetV 6 (Call ''JD'' [Meth (V 7) ''Pb'' [], K (JNum 9)])), Do (Call ''_lb'' [Dot (V 8) ''a'', V 6]), Do (Put (V 6) ''a'' (V 8))] [], Do (Meth (V 12) ''Ec'' [V 8])] []] [], Do (And (V 5) (Cond (Same (Call ''XD'' [Call ''oNb'' [V 1, G ''Avc'']]) (Call ''XD'' [Seq (Call ''yUb'' []) (G ''uUb'')])) (Put (V 0) ''c'' (Dot (V 0) ''b'')) (Cond (Same (Call ''XD'' [Call ''oNb'' [V 1, G ''Avc'']]) (Call ''XD'' [G ''wUb''])) (Put (V 0) ''c'' (Dot (V 0) ''d'')) (Put (V 0) ''c'' (Dot (V 0) ''a'')))))] [Do (SetV 12 (New ''wnb'' [Call ''WC'' [Call ''OC'' [G ''NP'', K (JNum 1)], G ''tye'', K (JNum 36), K (JNum 0), NewArr [V 1]]]))], Do (And (Neg (Same (Call ''XD'' [Call ''oNb'' [V 1, G ''Avc'']]) (Call ''XD'' [Seq (Call ''yUb'' []) (G ''xUb'')]))) (Seq (Call ''Inb'' []) (Meth (V 12) ''gd'' [New ''oVb'' []]))), Ret (V 12)]]"

definition object_table29 :: "(string \<times> jfun) list" where
  "object_table29 = code_6072_6080 @ code_6081_6088 @ code_6090_6098 @ code_6099_6106 @ code_6107_6107 @ code_6112_6113"

text \<open>The names each table declares.\<close>

lemma names_6072_6080 [js_names]: "map fst code_6072_6080 = [
    ''cPc'', ''MHc'', ''xNc'', ''eWb'', ''dWb'', ''xSc'', ''uRb'', ''n3b'', ''_6b'']"
  by (simp add: code_6072_6080_def fn_def)

lemma names_6081_6088 [js_names]: "map fst code_6081_6088 = [
    ''Gre'', ''vRb'', ''sGc'', ''Cec'', ''E7c'', ''P8b'', ''Wgc'', ''GQb'']"
  by (simp add: code_6081_6088_def fn_def)

lemma names_6090_6098 [js_names]: "map fst code_6090_6098 = [
    ''bZc'', ''H6b'', ''tzd'', ''gRb'', ''Pxd'', ''ZFc'', ''tGc'', ''IRc'', ''FQc'']"
  by (simp add: code_6090_6098_def fn_def)

lemma names_6099_6106 [js_names]: "map fst code_6099_6106 = [
    ''Gfd'', ''IPb'', ''EFc'', ''Jre'', ''PKc'', ''XJb'', ''_Kc'', ''hFc'']"
  by (simp add: code_6099_6106_def fn_def)

lemma names_6107_6107 [js_names]: "map fst code_6107_6107 = [
    ''Tfc'']"
  by (simp add: code_6107_6107_def fn_def)

lemma names_6112_6113 [js_names]: "map fst code_6112_6113 = [
    ''XVd'', ''lVb'']"
  by (simp add: code_6112_6113_def fn_def)

end
