(* ===== verification/ObjectTable30.thy ===== *)
theory ObjectTable30
  imports ObjectCode
begin

text \<open>
  Functions of \<open>layout-worker.js\<close>, lines 6115 to 6155, in the order of the file, one per line:
  the algorithms of the layout engine, longer operations of the runtime's collections and of options,
  with their loops, \<open>switch\<close> and \<open>try\<close> statements. An entry has the name, the
  number of parameters, the number of further local variables and the body; parameters and locals
  are numbered from 0, the variable of a \<open>catch\<close> has a number of its own, \<open>x++\<close> is \<open>(x=x+1)-1\<close>. Lines
  with a construct outside \<open>jexp\<close> and \<open>jstm\<close> (closures, \<open>in\<close>, floating-point literals, host objects) are
  left out.
\<close>

definition code_6115_6122 :: "(string \<times> jfun) list" where
  "code_6115_6122 = [
    fn ''x6b'' 2 14 [Do (Meth (V 1) ''Tg'' [K (JStr ''Label dummy insertions''), K (JNum 1)]), Do (SetV 11 (New ''lmb'' [])), Do (SetV 6 (Call ''Ueb'' [Call ''MD'' [Call ''oNb'' [V 0, Seq (Call ''nyc'' []) (G ''Kxc'')]]])), Do (SetV 9 (Call ''Ueb'' [Call ''MD'' [Call ''oNb'' [V 0, G ''Oxc'']]])), Do (SetV 10 (Call ''JD'' [Call ''oNb'' [V 0, G ''bwc''], K (JNum 86)])), Do (SetV 13 (New ''Kmb'' [Dot (V 0) ''a''])), Loop (Bin Lt (Dot (V 13) ''a'') (Dot (Dot (Dot (V 13) ''c'') ''c'') ''length'')) [Do (SetV 12 (Call ''JD'' [Call ''Imb'' [V 13], K (JNum 9)])), Do (SetV 5 (New ''Yr'' [Call ''Dr'' [Meth (Dot (Call ''HYb'' [V 12]) ''a'') ''Jc'' [], New ''Dl'' []]])), Loop (Call ''Wr'' [V 5]) [Do (SetV 4 (Call ''JD'' [Call ''Xr'' [V 5], K (JNum 17)])), When (And (Neg (Loose (Dot (Dot (V 4) ''c'') ''i'') (Dot (Dot (V 4) ''d'') ''i''))) (Call ''Xq'' [Dot (V 4) ''b'', G ''u6b''])) [Do (SetV 15 (Call ''y6b'' [V 4])), Do (SetV 14 (Call ''Xu'' [Dot (Dot (Dot (V 4) ''b'') ''c'') ''length''])), Do (SetV 2 (Call ''w6b'' [V 0, V 4, V 15, V 14])), Do (Call ''qDb'' [Dot (V 11) ''c'', V 2]), Do (SetV 3 (Dot (V 2) ''o'')), Do (SetV 7 (New ''Tjb'' [Dot (V 4) ''b'', K (JNum 0)])), Loop (Bin Lt (Dot (V 7) ''b'') (Meth (Dot (V 7) ''d'') ''gc'' [])) [Do (SetV 8 (Seq (Call ''LDb'' [Bin Lt (Dot (V 7) ''b'') (Meth (Dot (V 7) ''d'') ''gc'' [])]) (Call ''JD'' [Meth (Dot (V 7) ''d'') ''Xb'' [Put (V 7) ''c'' (Bin Minus (Put (V 7) ''b'' (Bin Minus (Dot (V 7) ''b'') (K (JNum (- 1))))) (K (JNum 1)))], K (JNum 70)]))), When (Same (Call ''XD'' [Call ''oNb'' [V 8, G ''gwc'']]) (Call ''XD'' [Seq (Call ''Zjd'' []) (G ''Wjd'')])) [When (Or (Loose (V 10) (Seq (Call ''Djd'' []) (G ''Cjd''))) (Loose (V 10) (G ''yjd''))) [Do (Put (V 3) ''a'' (Bin Plus (Dot (V 3) ''a'') (Bin Plus (Dot (Dot (V 8) ''o'') ''a'') (V 9)))), Do (Put (V 3) ''b'' (Meth (Dot (G ''$wnd'') ''Math'') ''max'' [Dot (V 3) ''b'', Dot (Dot (V 8) ''o'') ''b'']))] [Do (Put (V 3) ''a'' (Meth (Dot (G ''$wnd'') ''Math'') ''max'' [Dot (V 3) ''a'', Dot (Dot (V 8) ''o'') ''a''])), Do (Put (V 3) ''b'' (Bin Plus (Dot (V 3) ''b'') (Bin Plus (Dot (Dot (V 8) ''o'') ''b'') (V 9))))], Do (Call ''qDb'' [Dot (V 14) ''c'', V 8]), Do (Call ''Mjb'' [V 7])] []] [], When (Or (Loose (V 10) (Seq (Call ''Djd'' []) (G ''Cjd''))) (Loose (V 10) (G ''yjd''))) [Do (Put (V 3) ''a'' (Bin Minus (Dot (V 3) ''a'') (V 9))), Do (Put (V 3) ''b'' (Bin Plus (Dot (V 3) ''b'') (Bin Plus (V 6) (V 15))))] [Do (Put (V 3) ''b'' (Bin Plus (Dot (V 3) ''b'') (Bin Plus (Bin Minus (V 6) (V 9)) (V 15))))]] []] []] [], Do (Call ''bmb'' [Dot (V 0) ''a'', V 11]), Do (Meth (V 1) ''Ug'' [])],
    fn ''B0d'' 3 7 [Do (SetV 9 (Dot (V 0) ''c'')), Do (And (Neg (V 1)) (SetV 1 (G ''q0d''))), Do (Put (V 0) ''c'' (V 1)), When (And (Neg (Loose (Bin BitAnd (Dot (V 0) ''Db'') (K (JNum 4))) (K (JNum 0)))) (Loose (Bin BitAnd (Dot (V 0) ''Db'') (K (JNum 1))) (K (JNum 0)))) [Do (SetV 8 (New ''$1d'' [V 0, K (JNum 1), K (JNum 2), V 9, Dot (V 0) ''c''])), Do (Cond (Neg (V 2)) (SetV 2 (V 8)) (Meth (V 2) ''lj'' [V 8]))] [], When (Neg (Loose (V 9) (V 1))) [When (Call ''RD'' [Dot (V 0) ''Cb'', K (JNum 293)]) [When (Loose (Bin Shr (Dot (V 0) ''Db'') (K (JNum 16))) (K (JNum (- 10)))) [Do (SetV 2 (Meth (Call ''JD'' [Dot (V 0) ''Cb'', K (JNum 293)]) ''Wk'' [V 1, V 2]))] [When (Loose (Bin Shr (Dot (V 0) ''Db'') (K (JNum 16))) (K (JNum (- 15)))) [Do (And (Neg (V 1)) (SetV 1 (Seq (Call ''WRd'' []) (G ''JRd'')))), Do (And (Neg (V 9)) (SetV 9 (Seq (Call ''WRd'' []) (G ''JRd'')))), When (Meth (Dot (V 0) ''Cb'') ''Vh'' []) [Do (SetV 8 (New ''a2d'' [Dot (V 0) ''Cb'', K (JNum 1), K (JNum 13), V 9, V 1, Call ''sXd'' [Call ''B2d'' [Call ''JD'' [Dot (V 0) ''Cb'', K (JNum 62)]], V 0], K (JBool False)])), Do (Cond (Neg (V 2)) (SetV 2 (V 8)) (Meth (V 2) ''lj'' [V 8]))] []] []]] [When (Call ''RD'' [Dot (V 0) ''Cb'', K (JNum 88)]) [When (Loose (Bin Shr (Dot (V 0) ''Db'') (K (JNum 16))) (K (JNum (- 23)))) [Do (Or (Call ''RD'' [V 1, K (JNum 88)]) (SetV 1 (Seq (Call ''WRd'' []) (G ''MRd'')))), Do (Or (Call ''RD'' [V 9, K (JNum 88)]) (SetV 9 (Seq (Call ''WRd'' []) (G ''MRd'')))), When (Meth (Dot (V 0) ''Cb'') ''Vh'' []) [Do (SetV 8 (New ''a2d'' [Dot (V 0) ''Cb'', K (JNum 1), K (JNum 10), V 9, V 1, Call ''sXd'' [Call ''GWd'' [Call ''JD'' [Dot (V 0) ''Cb'', K (JNum 29)]], V 0], K (JBool False)])), Do (Cond (Neg (V 2)) (SetV 2 (V 8)) (Meth (V 2) ''lj'' [V 8]))] []] []] [When (Call ''RD'' [Dot (V 0) ''Cb'', K (JNum 446)]) [Do (SetV 7 (Call ''JD'' [Dot (V 0) ''Cb'', K (JNum 835)])), Do (SetV 6 (Seq (And (Neg (Dot (V 7) ''b'')) (Put (V 7) ''b'' (New ''C8d'' [New ''y8d'' []]))) (Dot (V 7) ''b''))), Do (SetV 5 (Seq (SetV 3 (New ''Fjb'' [Dot (New ''wjb'' [Dot (V 6) ''a'']) ''a''])) (New ''K8d'' [V 3]))), Loop (Dot (Dot (V 5) ''a'') ''b'') [Do (SetV 4 (Call ''JD'' [Meth (Call ''Djb'' [Dot (V 5) ''a'']) ''jd'' [], K (JNum 87)])), Do (SetV 2 (Call ''B0d'' [V 4, Call ''x0d'' [V 4, V 7], V 2]))] []] []]]] [], Ret (V 2)],
    fn ''J$b'' 2 11 [Do (SetV 6 (Call ''Rdb'' [Call ''LD'' [Call ''cvd'' [V 0, Seq (Call ''nyc'' []) (G ''xwc'')]]])), Do (SetV 12 (Call ''JD'' [Call ''cvd'' [V 0, G ''txc''], K (JNum 22)])), Do (SetV 8 (K (JBool False))), Do (SetV 9 (K (JBool False))), Do (SetV 11 (New ''uKd'' [Seq (And (Neg (Dot (V 0) ''c'')) (Put (V 0) ''c'' (New ''P3d'' [G ''U3'', V 0, K (JNum 9), K (JNum 9)]))) (Dot (V 0) ''c'')])), Loop (And (Neg (Loose (Dot (V 11) ''e'') (Meth (Dot (V 11) ''i'') ''gc'' []))) (Or (Neg (V 8)) (Neg (V 9)))) [Do (SetV 5 (Call ''JD'' [Call ''sKd'' [V 11], K (JNum 125)])), Do (SetV 7 (K (JNum 0))), Do (SetV 4 (Call ''Gl'' [Call ''yl'' [Call ''WC'' [Call ''OC'' [G ''VI'', K (JNum 1)], G ''Gte'', K (JNum 20), K (JNum 0), NewArr [Seq (And (Neg (Dot (V 5) ''d'')) (Put (V 5) ''d'' (New ''jhe'' [G ''Q3'', V 5, K (JNum 8), K (JNum 5)]))) (Dot (V 5) ''d''), Seq (And (Neg (Dot (V 5) ''e'')) (Put (V 5) ''e'' (New ''jhe'' [G ''Q3'', V 5, K (JNum 7), K (JNum 4)]))) (Dot (V 5) ''e'')]]]])), Loop (Call ''Wr'' [V 4]) [Do (SetV 3 (Call ''JD'' [Call ''Xr'' [V 4], K (JNum 85)])), Do (SetV 10 (And (And (V 6) (Call ''Kwd'' [V 3])) (Call ''Rdb'' [Call ''LD'' [Call ''cvd'' [V 3, G ''ywc'']]]))), Do (SetV 2 (Cond (Call ''pXd'' [Seq (And (Neg (Dot (V 3) ''b'')) (Put (V 3) ''b'' (New ''jhe'' [G ''O3'', V 3, K (JNum 4), K (JNum 7)]))) (Dot (V 3) ''b''), V 5]) (Loose (V 0) (Call ''Rzd'' [Call ''TEd'' [Call ''JD'' [Call ''fGd'' [Seq (And (Neg (Dot (V 3) ''c'')) (Put (V 3) ''c'' (New ''jhe'' [G ''O3'', V 3, K (JNum 5), K (JNum 8)]))) (Dot (V 3) ''c''), K (JNum 0)], K (JNum 84)]]])) (Loose (V 0) (Call ''Rzd'' [Call ''TEd'' [Call ''JD'' [Call ''fGd'' [Seq (And (Neg (Dot (V 3) ''b'')) (Put (V 3) ''b'' (New ''jhe'' [G ''O3'', V 3, K (JNum 4), K (JNum 7)]))) (Dot (V 3) ''b''), K (JNum 0)], K (JNum 84)]]])))), When (Or (V 10) (V 2)) [Do (SetV 7 (Bin Minus (V 7) (K (JNum (- 1))))), When (Bin Gt (V 7) (K (JNum 1))) [Break] []] []] [], Do (Cond (Bin Gt (V 7) (K (JNum 0))) (SetV 8 (K (JBool True))) (And (And (Meth (V 12) ''Gc'' [Seq (Call ''$ld'' []) (G ''Wld'')]) (Bin Gt (Dot (Seq (And (Neg (Dot (V 5) ''n'')) (Put (V 5) ''n'' (New ''P3d'' [G ''S3'', V 5, K (JNum 1), K (JNum 7)]))) (Dot (V 5) ''n'')) ''i'') (K (JNum 0)))) (SetV 8 (K (JBool True))))), Do (And (Bin Gt (V 7) (K (JNum 1))) (SetV 9 (K (JBool True))))] [], Do (And (V 8) (Meth (V 1) ''Ec'' [Seq (Call ''Xpc'' []) (G ''Qpc'')])), Do (And (V 9) (Meth (V 1) ''Ec'' [Seq (Call ''Xpc'' []) (G ''Rpc'')]))],
    fn ''dqd'' 1 12 [Do (SetV 12 (Call ''JD'' [Call ''cvd'' [V 0, Seq (Call ''vjd'' []) (G ''iid'')], K (JNum 22)])), When (Meth (V 12) ''dc'' []) [Ret (K JNull)] [], Do (SetV 7 (K (JNum 0))), Do (SetV 6 (K (JNum 0))), When (Meth (V 12) ''Gc'' [Seq (Call ''ind'' []) (G ''gnd'')]) [Do (SetV 10 (Call ''JD'' [Call ''cvd'' [V 0, G ''Fid''], K (JNum 102)])), Do (SetV 3 (K (JNum 2))), Do (SetV 2 (K (JNum 2))), Do (SetV 4 (K (JNum 2))), Do (SetV 5 (K (JNum 2))), Do (SetV 1 (Cond (Neg (Call ''Rzd'' [V 0])) (Call ''JD'' [Call ''cvd'' [V 0, G ''Hhd''], K (JNum 86)]) (Call ''JD'' [Call ''cvd'' [Call ''Rzd'' [V 0], G ''Hhd''], K (JNum 86)]))), Do (SetV 9 (New ''uKd'' [Seq (And (Neg (Dot (V 0) ''c'')) (Put (V 0) ''c'' (New ''P3d'' [G ''U3'', V 0, K (JNum 9), K (JNum 9)]))) (Dot (V 0) ''c'')])), Loop (Neg (Loose (Dot (V 9) ''e'') (Meth (Dot (V 9) ''i'') ''gc'' []))) [Do (SetV 8 (Call ''JD'' [Call ''sKd'' [V 9], K (JNum 125)])), Do (SetV 11 (Call ''JD'' [Call ''cvd'' [V 8, G ''Mid''], K (JNum 64)])), When (Loose (V 11) (Seq (Call ''Bmd'' []) (G ''zmd''))) [Do (SetV 11 (Call ''Qpd'' [V 8, V 1])), Do (Call ''evd'' [V 8, G ''Mid'', V 11])] [], When (Loose (V 10) (Seq (Call ''Mld'' []) (G ''Hld''))) [Switch (Dot (V 11) ''g'') [(Some (JNum 1), [Do (SetV 3 (Meth (Dot (G ''$wnd'') ''Math'') ''max'' [V 3, Bin Plus (Dot (V 8) ''i'') (Dot (V 8) ''g'')])), Break]), (Some (JNum 2), [Do (SetV 2 (Meth (Dot (G ''$wnd'') ''Math'') ''max'' [V 2, Bin Plus (Dot (V 8) ''j'') (Dot (V 8) ''f'')])), Break]), (Some (JNum 3), [Do (SetV 4 (Meth (Dot (G ''$wnd'') ''Math'') ''max'' [V 4, Bin Plus (Dot (V 8) ''i'') (Dot (V 8) ''g'')])), Break]), (Some (JNum 4), [Do (SetV 5 (Meth (Dot (G ''$wnd'') ''Math'') ''max'' [V 5, Bin Plus (Dot (V 8) ''j'') (Dot (V 8) ''f'')]))])]] [Switch (Dot (V 11) ''g'') [(Some (JNum 1), [Do (SetV 3 (Bin Plus (V 3) (Bin Plus (Dot (V 8) ''g'') (K (JNum 2))))), Break]), (Some (JNum 2), [Do (SetV 2 (Bin Plus (V 2) (Bin Plus (Dot (V 8) ''f'') (K (JNum 2))))), Break]), (Some (JNum 3), [Do (SetV 4 (Bin Plus (V 4) (Bin Plus (Dot (V 8) ''g'') (K (JNum 2))))), Break]), (Some (JNum 4), [Do (SetV 5 (Bin Plus (V 5) (Bin Plus (Dot (V 8) ''f'') (K (JNum 2)))))])]]] [], Do (SetV 7 (Meth (Dot (G ''$wnd'') ''Math'') ''max'' [V 3, V 4])), Do (SetV 6 (Meth (Dot (G ''$wnd'') ''Math'') ''max'' [V 2, V 5]))] [], Ret (Call ''eqd'' [V 0, V 7, V 6, K (JBool True), K (JBool True)])],
    fn ''fLc'' 2 14 [Do (SetV 4 (K JNull)), Do (SetV 3 (New ''Kmb'' [Dot (V 1) ''a''])), Loop (Bin Lt (Dot (V 3) ''a'') (Dot (Dot (Dot (V 3) ''c'') ''c'') ''length'')) [Do (SetV 2 (Call ''JD'' [Call ''Imb'' [V 3], K (JNum 9)])), Do (Cond (Call ''kLc'' [V 2]) (SetV 5 (Seq (Seq (Seq (Seq (Seq (Seq (Seq (Seq (Seq (Seq (Seq (SetV 7 (Call ''JGb'' [Call ''KGb'' [New ''LGb'' [], V 2], Dot (V 0) ''f''])) (SetV 8 (Call ''JGb'' [Call ''KGb'' [New ''LGb'' [], V 2], Dot (V 0) ''f'']))) (SetV 9 (New ''ALc'' [V 2, K (JBool True), V 7, V 8]))) (SetV 10 (Dot (Dot (V 2) ''o'') ''b''))) (SetV 11 (Seq (Seq (Call ''lzc'' []) (Cond (Meth (Cond (Neg (Dot (V 2) ''q'')) (Seq (Seq (Call ''Inb'' []) (Call ''Inb'' [])) (G ''Gnb'')) (Dot (V 2) ''q'')) ''_b'' [Seq (Call ''nyc'' []) (G ''Ywc'')]) (SetV 12 (Call ''JD'' [Call ''oNb'' [V 2, G ''Ywc''], K (JNum 203)])) (SetV 12 (Call ''JD'' [Call ''oNb'' [Call ''DYb'' [V 2], G ''Zwc''], K (JNum 203)])))) (V 12)))) (SetV 13 (K (JNum 10000)))) (And (Loose (V 11) (G ''hzc'')) (SetV 13 (K (JNum 1))))) (SetV 14 (Call ''XFb'' [Call ''$Fb'' [Call ''ZFb'' [Call ''YFb'' [Call ''_Fb'' [New ''aGb'' [], V 13], Call ''YD'' [Meth (Dot (G ''$wnd'') ''Math'') ''ceil'' [V 10]]], V 7], V 8]]))) (And (Loose (V 11) (G ''izc'')) (Call ''esb'' [Dot (V 0) ''d'', V 14]))) (Call ''gLc'' [V 0, Call ''$u'' [Call ''IYb'' [V 2, Seq (Call ''Bmd'' []) (G ''Amd'')]], V 9])) (Call ''gLc'' [V 0, Call ''IYb'' [V 2, G ''gmd''], V 9])) (V 9))) (SetV 5 (Seq (Seq (SetV 15 (Call ''JGb'' [Call ''KGb'' [New ''LGb'' [], V 2], Dot (V 0) ''f''])) (Call ''YBb'' [Call ''VBb'' [New ''jCb'' [K JNull, New ''Zvb'' [Dot (V 2) ''j'', K (JNum 16)]], New ''NLc'' []], New ''PLc'' [V 0, V 15]])) (New ''ALc'' [V 2, K (JBool False), V 15, V 15])))), Do (PutIdx (Dot (V 0) ''i'') (Dot (V 2) ''p'') (V 5)), When (V 4) [Do (SetV 6 (Bin Plus (Bin Plus (Dot (Dot (Dot (V 4) ''c'') ''d'') ''a'') (Call ''SAc'' [Dot (V 0) ''n'', Dot (V 4) ''c'', V 2])) (Dot (Dot (V 2) ''d'') ''d''))), Do (Or (Dot (V 4) ''b'') (SetV 6 (Bin Plus (V 6) (Dot (Dot (Dot (V 4) ''c'') ''o'') ''b'')))), Do (Call ''XFb'' [Call ''$Fb'' [Call ''ZFb'' [Call ''_Fb'' [Call ''YFb'' [New ''aGb'' [], Call ''YD'' [Meth (Dot (G ''$wnd'') ''Math'') ''ceil'' [V 6]]], K (JNum 0)], Dot (V 4) ''d''], Dot (V 5) ''a'']])] [], Do (SetV 4 (V 5))] []],
    fn ''flc'' 5 16 [Do (SetV 18 (Call ''JD'' [Call ''SBb'' [Call ''gCb'' [Call ''VBb'' [New ''jCb'' [K JNull, New ''Zvb'' [Dot (V 1) ''d'', K (JNum 16)]], New ''jlc'' [V 2]], New ''llc'' [V 2]], Call ''BAb'' [New ''TAb'' [], New ''RAb'' [], New ''ZAb'' [], Call ''WC'' [Call ''OC'' [G ''HL'', K (JNum 1)], G ''xue'', K (JNum 130), K (JNum 0), NewArr [Seq (Call ''FAb'' []) (G ''DAb'')]]]], K (JNum 16)])), Do (SetV 11 (G ''Ate'')), Do (SetV 10 (G ''Eue'')), Do (SetV 8 (New ''Kmb'' [Dot (Dot (V 1) ''b'') ''j''])), Loop (Bin Lt (Dot (V 8) ''a'') (Dot (Dot (Dot (V 8) ''c'') ''c'') ''length'')) [Do (SetV 7 (Call ''JD'' [Call ''Imb'' [V 8], K (JNum 12)])), When (Loose (Dot (V 7) ''j'') (V 2)) [Do (SetV 11 (Meth (Dot (G ''$wnd'') ''Math'') ''min'' [V 11, Dot (V 7) ''p''])), Do (SetV 10 (Meth (Dot (G ''$wnd'') ''Math'') ''max'' [V 10, Dot (V 7) ''p'']))] []] [], When (Loose (V 11) (G ''Ate'')) [Do (SetV 6 (K (JNum 0))), Loop (Bin Lt (V 6) (Meth (V 18) ''gc'' [])) [Do (Call ''dhc'' [Call ''JD'' [Meth (V 18) ''Xb'' [V 6], K (JNum 107)], V 2, V 6])] [Do (Bin Minus (SetV 6 (Bin Minus (V 6) (K (JNum (- 1))))) (K (JNum 1)))]] [Do (SetV 19 (Call ''SC'' [G ''cE'', G ''bve'', K (JNum 30), Dot (V 4) ''length'', K (JNum 15), K (JNum 1)])), Do (Call ''$mb'' [V 19, Dot (V 19) ''length'']), Do (SetV 17 (Meth (V 18) ''Jc'' [])), Loop (Meth (V 17) ''Ob'' []) [Do (SetV 16 (Call ''JD'' [Meth (V 17) ''Pb'' [], K (JNum 107)])), Do (SetV 5 (Call ''JD'' [Call ''ejb'' [Dot (V 0) ''b'', V 16], K (JNum 171)])), Do (SetV 9 (K (JNum 0))), Do (SetV 15 (V 11)), Loop (Bin Le (V 15) (V 10)) [Do (And (Idx (V 5) (V 15)) (SetV 9 (Meth (Dot (G ''$wnd'') ''Math'') ''max'' [V 9, Idx (V 3) (V 15)])))] [Do (Bin Minus (SetV 15 (Bin Minus (V 15) (K (JNum (- 1))))) (K (JNum 1)))], When (Dot (V 16) ''i'') [Do (SetV 13 (Dot (Dot (V 16) ''i'') ''c'')), Do (SetV 20 (New ''hsb'' [])), Do (SetV 12 (K (JNum 0))), Loop (Bin Lt (V 12) (Dot (V 4) ''length'')) [Do (And (Idx (Idx (V 4) (V 13)) (V 12)) (Call ''esb'' [V 20, Call ''Cfb'' [Idx (V 19) (V 12)]]))] [Do (Bin Minus (SetV 12 (Bin Minus (V 12) (K (JNum (- 1))))) (K (JNum 1)))], Loop (Call ''fsb'' [V 20, Call ''Cfb'' [V 9]]) [Do (SetV 9 (Bin Minus (V 9) (K (JNum (- 1)))))] []] [], Do (Call ''dhc'' [V 16, V 2, V 9]), Do (SetV 14 (V 11)), Loop (Bin Le (V 14) (V 10)) [Do (And (Idx (V 5) (V 14)) (PutIdx (V 3) (V 14) (Bin Plus (V 9) (K (JNum 1)))))] [Do (Bin Minus (SetV 14 (Bin Minus (V 14) (K (JNum (- 1))))) (K (JNum 1)))], Do (And (Neg (Neg (Dot (V 16) ''i''))) (PutIdx (V 19) (Dot (Dot (V 16) ''i'') ''c'') (V 9)))] []]],
    fn ''D$b'' 2 8 [Do (Call ''rNb'' [V 1, Seq (Call ''Wrc'' []) (G ''Rrc''), Call ''Cfb'' [Dot (V 0) ''b'']]), Do (Call ''rNb'' [V 1, G ''Src'', Call ''Cfb'' [Dot (V 0) ''b'']]), Do (Put (V 0) ''b'' (Bin Minus (Dot (V 0) ''b'') (K (JNum (- 1))))), Do (Call ''Lxb'' [Dot (V 0) ''d'', V 1]), Do (Call ''rNb'' [V 1, G ''Trc'', Seq (Call ''Qdb'' []) (K (JBool True))]), Do (SetV 3 (New ''Yr'' [Call ''Dr'' [Meth (Dot (Call ''BYb'' [V 1]) ''a'') ''Jc'' [], New ''Dl'' []]])), Loop (Call ''Wr'' [V 3]) [Do (SetV 2 (Call ''JD'' [Call ''Xr'' [V 3], K (JNum 17)])), When (And (Neg (Loose (Dot (Dot (V 2) ''c'') ''i'') (V 1))) (Loose (Call ''emb'' [Dot (V 0) ''a'', V 2, K (JNum 0)]) (K (JNum (- 1))))) [Continue] [], When (And (Loose (Dot (Dot (V 2) ''c'') ''i'') (V 1)) (Neg (Loose (Call ''emb'' [Dot (V 0) ''a'', V 2, K (JNum 0)]) (K (JNum (- 1)))))) [Continue] [], Do (SetV 9 (K JNull)), Do (Cond (Loose (Dot (Dot (V 2) ''d'') ''i'') (V 1)) (SetV 9 (Dot (Dot (V 2) ''c'') ''i'')) (SetV 9 (Dot (Dot (V 2) ''d'') ''i''))), When (Loose (Dot (Call ''JD'' [Call ''oNb'' [V 9, G ''Rrc''], K (JNum 15)]) ''a'') (K (JNum (- 1)))) [Do (Call ''D$b'' [V 0, V 9]), Do (Call ''rNb'' [V 1, G ''Src'', Call ''Cfb'' [Meth (Dot (G ''$wnd'') ''Math'') ''min'' [Dot (Call ''JD'' [Call ''oNb'' [V 1, G ''Src''], K (JNum 15)]) ''a'', Dot (Call ''JD'' [Call ''oNb'' [V 9, G ''Src''], K (JNum 15)]) ''a'']]])] [Do (And (Call ''Rdb'' [Call ''LD'' [Call ''oNb'' [V 9, G ''Trc'']]]) (Call ''rNb'' [V 1, G ''Src'', Call ''Cfb'' [Meth (Dot (G ''$wnd'') ''Math'') ''min'' [Dot (Call ''JD'' [Call ''oNb'' [V 1, G ''Src''], K (JNum 15)]) ''a'', Dot (Call ''JD'' [Call ''oNb'' [V 9, G ''Rrc''], K (JNum 15)]) ''a'']]]))]] [], When (Same (Call ''XD'' [Call ''oNb'' [V 1, G ''Src'']]) (Call ''XD'' [Call ''oNb'' [V 1, G ''Rrc'']])) [Do (SetV 8 (New ''hsb'' [])), Do (SetV 5 (K JNull)), Loop (K (JBool True)) [Do (SetV 5 (Call ''JD'' [Call ''Kxb'' [Dot (V 0) ''d''], K (JNum 9)])), Do (Call ''rNb'' [V 5, G ''Trc'', K (JBool False)]), Do (Meth (Dot (V 8) ''a'') ''yc'' [V 5, V 8])] [When (Neg (Loose (V 1) (V 5))) [] [Break]], When (Bin Gt (Meth (Dot (V 8) ''a'') ''gc'' []) (K (JNum 1))) [Do (SetV 4 (Dot (Dot (V 0) ''e'') ''b'')), Do (Call ''Ttb'' [Dot (V 0) ''e'', V 8]), Do (SetV 7 (Meth (Meth (Dot (V 8) ''a'') ''ec'' []) ''Jc'' [])), Loop (Meth (V 7) ''Ob'' []) [Do (SetV 6 (Call ''JD'' [Meth (V 7) ''Pb'' [], K (JNum 9)])), Do (Call ''hjb'' [Dot (V 0) ''c'', V 6, Call ''Cfb'' [V 4]])] []] []] []],
    fn ''NUb'' 4 10 [Do (SetV 5 (New ''ZUb'' [V 1])), Do (SetV 11 (Call ''IUb'' [V 0, V 1, V 5])), Do (SetV 13 (Meth (Dot (G ''$wnd'') ''Math'') ''max'' [Call ''Ueb'' [Call ''MD'' [Call ''oNb'' [V 1, Seq (Call ''nyc'' []) (G ''pwc'')]]], K (JNum 1)])), Do (SetV 10 (New ''Kmb'' [Dot (V 11) ''a''])), Loop (Bin Lt (Dot (V 10) ''a'') (Dot (Dot (Dot (V 10) ''c'') ''c'') ''length'')) [Do (SetV 9 (Call ''JD'' [Call ''Imb'' [V 10], K (JNum 49)])), Do (SetV 8 (Call ''MUb'' [Call ''JD'' [Dot (V 9) ''a'', K (JNum 8)], Call ''JD'' [Dot (V 9) ''b'', K (JNum 8)], V 13])), Do (SetG ''o'' (K (JBool True))), Do (SetG ''o'' (Bin BitAnd (G ''o'') (Call ''RUb'' [V 2, New ''lgd'' [Dot (V 8) ''c'', Dot (V 8) ''d'']]))), Do (SetG ''o'' (Bin BitAnd (G ''o'') (Call ''RUb'' [V 2, Call ''Ufd'' [New ''lgd'' [Dot (V 8) ''c'', Dot (V 8) ''d''], Dot (V 8) ''b'', K (JNum 0)]]))), Do (SetG ''o'' (Bin BitAnd (G ''o'') (Call ''RUb'' [V 2, Call ''Ufd'' [New ''lgd'' [Dot (V 8) ''c'', Dot (V 8) ''d''], K (JNum 0), Dot (V 8) ''a'']]))), Do (Bin BitAnd (G ''o'') (Call ''RUb'' [V 2, Call ''Ufd'' [New ''lgd'' [Dot (V 8) ''c'', Dot (V 8) ''d''], Dot (V 8) ''b'', Dot (V 8) ''a'']]))] [], Do (SetV 12 (Dot (V 5) ''d'')), Do (SetV 7 (Call ''MUb'' [Call ''JD'' [Dot (Dot (V 11) ''b'') ''a'', K (JNum 8)], Call ''JD'' [Dot (Dot (V 11) ''b'') ''b'', K (JNum 8)], V 13])), When (Or (Loose (V 12) (Seq (Call ''Bmd'' []) (G ''Amd''))) (Loose (V 12) (G ''gmd''))) [Do (PutIdx (Dot (V 3) ''c'') (Dot (V 12) ''g'') (Meth (Dot (G ''$wnd'') ''Math'') ''min'' [Idx (Dot (V 3) ''c'') (Dot (V 12) ''g''), Dot (V 7) ''d''])), Do (PutIdx (Dot (V 3) ''b'') (Dot (V 12) ''g'') (Meth (Dot (G ''$wnd'') ''Math'') ''max'' [Idx (Dot (V 3) ''b'') (Dot (V 12) ''g''), Bin Plus (Dot (V 7) ''d'') (Dot (V 7) ''a'')]))] [Do (PutIdx (Dot (V 3) ''c'') (Dot (V 12) ''g'') (Meth (Dot (G ''$wnd'') ''Math'') ''min'' [Idx (Dot (V 3) ''c'') (Dot (V 12) ''g''), Dot (V 7) ''c''])), Do (PutIdx (Dot (V 3) ''b'') (Dot (V 12) ''g'') (Meth (Dot (G ''$wnd'') ''Math'') ''max'' [Idx (Dot (V 3) ''b'') (Dot (V 12) ''g''), Bin Plus (Dot (V 7) ''c'') (Dot (V 7) ''b'')]))], Do (SetV 4 (G ''Dve'')), Do (SetV 6 (Dot (Dot (Dot (V 5) ''c'') ''i'') ''d'')), Switch (Dot (V 12) ''g'') [(Some (JNum 4), [Do (SetV 4 (Dot (V 6) ''c'')), Break]), (Some (JNum 2), [Do (SetV 4 (Dot (V 6) ''b'')), Break]), (Some (JNum 1), [Do (SetV 4 (Dot (V 6) ''a'')), Break]), (Some (JNum 3), [Do (SetV 4 (Dot (V 6) ''d''))])], Do (PutIdx (Dot (V 3) ''a'') (Dot (V 12) ''g'') (Meth (Dot (G ''$wnd'') ''Math'') ''max'' [Idx (Dot (V 3) ''a'') (Dot (V 12) ''g''), V 4])), Ret (V 5)]]"

definition code_6123_6130 :: "(string \<times> jfun) list" where
  "code_6123_6130 = [
    fn ''u_b'' 3 11 [Do (SetV 5 (Call ''JD'' [Call ''oNb'' [V 0, Seq (Call ''Wrc'' []) (G ''urc'')], K (JNum 85)])), When (Neg (V 5)) [Ret (K JUndef)] [], Do (SetV 3 (Dot (V 0) ''a'')), Do (SetV 4 (New ''mgd'' [V 2])), Do (Call ''Vfd'' [V 4, Call ''y_b'' [V 0]]), When (Call ''UXb'' [Dot (Dot (V 0) ''d'') ''i'', Dot (Dot (V 0) ''c'') ''i'']) [Do (SetV 12 (Dot (V 0) ''c'')), Do (SetV 11 (Call ''rgd'' [Call ''WC'' [Call ''OC'' [G ''r2'', K (JNum 1)], G ''aue'', K (JNum 8), K (JNum 0), NewArr [Dot (V 12) ''n'', Dot (V 12) ''a'']]])), Do (Call ''igd'' [V 11, V 2])] [Do (SetV 11 (Call ''rZb'' [Dot (V 0) ''c'']))], Do (Call ''Wtb'' [V 3, V 11, Dot (V 3) ''a'', Dot (Dot (V 3) ''a'') ''a'']), Do (SetV 13 (Call ''rZb'' [Dot (V 0) ''d''])), Do (And (Neg (Loose (Call ''oNb'' [V 0, G ''Qrc'']) (K JNull))) (Call ''Vfd'' [V 13, Call ''JD'' [Call ''oNb'' [V 0, G ''Qrc''], K (JNum 8)]])), Do (Call ''Wtb'' [V 3, V 13, Dot (Dot (V 3) ''c'') ''b'', Dot (V 3) ''c'']), Do (Call ''wgd'' [V 3, V 4]), Do (SetV 6 (Call ''_Ed'' [V 5])), Do (Call ''exd'' [V 6, Call ''JD'' [Call ''fGd'' [Seq (And (Neg (Dot (V 5) ''b'')) (Put (V 5) ''b'' (New ''jhe'' [G ''O3'', V 5, K (JNum 4), K (JNum 7)]))) (Dot (V 5) ''b''), K (JNum 0)], K (JNum 84)]]), Do (Call ''fxd'' [V 6, Call ''JD'' [Call ''fGd'' [Seq (And (Neg (Dot (V 5) ''c'')) (Put (V 5) ''c'' (New ''jhe'' [G ''O3'', V 5, K (JNum 5), K (JNum 8)]))) (Dot (V 5) ''c''), K (JNum 0)], K (JNum 84)]]), Do (Call ''Npd'' [V 3, V 6]), Do (SetV 10 (New ''Kmb'' [Dot (V 0) ''b''])), Loop (Bin Lt (Dot (V 10) ''a'') (Dot (Dot (Dot (V 10) ''c'') ''c'') ''length'')) [Do (SetV 9 (Call ''JD'' [Call ''Imb'' [V 10], K (JNum 70)])), Do (SetV 7 (Call ''JD'' [Call ''oNb'' [V 9, G ''urc''], K (JNum 157)])), Do (Call ''$vd'' [V 7, Dot (Dot (V 9) ''o'') ''a'']), Do (Call ''Yvd'' [V 7, Dot (Dot (V 9) ''o'') ''b'']), Do (Call ''Zvd'' [V 7, Bin Plus (Dot (Dot (V 9) ''n'') ''a'') (Dot (V 4) ''a''), Bin Plus (Dot (Dot (V 9) ''n'') ''b'') (Dot (V 4) ''b'')]), Do (Call ''evd'' [V 7, Seq (Call ''N6b'' []) (G ''M6b''), Call ''LD'' [Call ''oNb'' [V 9, G ''M6b'']]])] [], Do (SetV 8 (Call ''JD'' [Call ''oNb'' [V 0, Seq (Call ''nyc'' []) (G ''Bwc'')], K (JNum 79)])), When (V 8) [Do (Call ''wgd'' [V 8, V 4]), Do (Call ''evd'' [V 5, G ''Bwc'', V 8])] [Do (Call ''evd'' [V 5, G ''Bwc'', K JNull])], Do (Cond (Loose (V 1) (Seq (Call ''hkd'' []) (G ''fkd''))) (Call ''evd'' [V 5, G ''iwc'', G ''fkd'']) (Call ''evd'' [V 5, G ''iwc'', K JNull]))],
    fn ''vKc'' 4 15 [Do (SetV 13 (Dot (Dot (V 1) ''c'') ''length'')), Do (SetV 12 (K (JNum 0))), Do (SetV 11 (New ''Kmb'' [Dot (V 0) ''b''])), Loop (Bin Lt (Dot (V 11) ''a'') (Dot (Dot (Dot (V 11) ''c'') ''c'') ''length'')) [Do (SetV 10 (Call ''JD'' [Call ''Imb'' [V 11], K (JNum 25)])), Do (SetV 17 (Dot (V 10) ''a'')), When (Loose (Dot (Dot (V 17) ''c'') ''length'') (K (JNum 0))) [Continue] [], Do (SetV 16 (New ''Kmb'' [V 17])), Do (SetV 9 (K (JNum 0))), Do (SetV 18 (K JNull)), Do (SetV 4 (Call ''JD'' [Call ''Imb'' [V 16], K (JNum 9)])), Do (SetV 5 (K JNull)), Loop (V 4) [Do (SetV 5 (Call ''JD'' [Call ''dmb'' [V 1, Dot (V 4) ''p''], K (JNum 263)])), When (Bin Ge (Dot (V 5) ''c'') (K (JNum 0))) [Do (SetV 8 (K JNull)), Do (SetV 7 (New ''Tjb'' [Dot (V 10) ''a'', Bin Plus (V 9) (K (JNum 1))])), Loop (Bin Lt (Dot (V 7) ''b'') (Meth (Dot (V 7) ''d'') ''gc'' [])) [Do (SetV 6 (Seq (Call ''LDb'' [Bin Lt (Dot (V 7) ''b'') (Meth (Dot (V 7) ''d'') ''gc'' [])]) (Call ''JD'' [Meth (Dot (V 7) ''d'') ''Xb'' [Put (V 7) ''c'' (Bin Minus (Put (V 7) ''b'' (Bin Minus (Dot (V 7) ''b'') (K (JNum (- 1))))) (K (JNum 1)))], K (JNum 9)]))), Do (SetV 8 (Call ''JD'' [Call ''dmb'' [V 1, Dot (V 6) ''p''], K (JNum 263)])), When (And (Loose (Dot (V 8) ''d'') (Dot (V 5) ''d'')) (Bin Lt (Dot (V 8) ''c'') (Dot (V 5) ''c''))) [Break] [Do (SetV 8 (K JNull))]] [], When (V 8) [When (V 18) [Do (Call ''imb'' [V 3, Dot (V 4) ''p'', Call ''Cfb'' [Bin Minus (Dot (Call ''JD'' [Call ''dmb'' [V 3, Dot (V 4) ''p''], K (JNum 15)]) ''a'') (K (JNum 1))]]), Do (Meth (Call ''JD'' [Call ''dmb'' [V 2, Dot (V 18) ''p''], K (JNum 16)]) ''Kc'' [V 5])] [], Do (SetV 5 (Call ''HKc'' [V 5, V 4, Bin Minus (SetV 13 (Bin Minus (V 13) (K (JNum (- 1))))) (K (JNum 1))])), Do (Call ''qDb'' [Dot (V 1) ''c'', V 5]), Do (Call ''_lb'' [V 2, New ''lmb'' []]), When (V 18) [Do (Meth (Call ''JD'' [Call ''dmb'' [V 2, Dot (V 18) ''p''], K (JNum 16)]) ''Ec'' [V 5]), Do (Call ''_lb'' [V 3, Call ''Cfb'' [K (JNum 1)]])] [Do (Call ''_lb'' [V 3, Call ''Cfb'' [K (JNum 0)]])]] []] [], Do (SetV 14 (K JNull)), When (Bin Lt (Dot (V 16) ''a'') (Dot (Dot (Dot (V 16) ''c'') ''c'') ''length'')) [Do (SetV 14 (Call ''JD'' [Call ''Imb'' [V 16], K (JNum 9)])), Do (SetV 15 (Call ''JD'' [Call ''dmb'' [V 1, Dot (V 14) ''p''], K (JNum 263)])), Do (Meth (Call ''JD'' [Call ''dmb'' [V 2, Dot (V 4) ''p''], K (JNum 16)]) ''Ec'' [V 15]), Do (Call ''imb'' [V 3, Dot (V 14) ''p'', Call ''Cfb'' [Bin Plus (Dot (Call ''JD'' [Call ''dmb'' [V 3, Dot (V 14) ''p''], K (JNum 15)]) ''a'') (K (JNum 1))]])] [], Do (Put (V 5) ''d'' (V 12)), Do (Put (V 5) ''c'' (Bin Minus (SetV 9 (Bin Minus (V 9) (K (JNum (- 1))))) (K (JNum 1)))), Do (SetV 18 (V 4)), Do (SetV 4 (V 14))] [], Do (SetV 12 (Bin Minus (V 12) (K (JNum (- 1)))))] []],
    fn ''I1b'' 2 25 [Do (SetV 7 (Call ''JD'' [Call ''ejb'' [Dot (V 1) ''c'', V 0], K (JNum 457)])), Do (SetV 18 (Dot (Dot (V 1) ''a'') ''c'')), Do (SetV 8 (Bin Plus (Dot (Dot (V 1) ''a'') ''c'') (Dot (Dot (V 1) ''a'') ''b''))), Do (SetV 25 (Dot (V 7) ''f'')), Do (SetV 26 (Dot (V 7) ''a'')), Do (SetV 6 (Bin Lt (V 25) (V 26))), Do (SetV 15 (New ''lgd'' [V 18, V 25])), Do (SetV 19 (New ''lgd'' [V 8, V 26])), Do (SetV 4 (Bin Divide (Bin Plus (V 18) (V 8)) (K (JNum 2)))), Do (SetV 16 (New ''lgd'' [V 4, V 25])), Do (SetV 20 (New ''lgd'' [V 4, V 26])), Do (SetV 5 (Call ''J1b'' [V 0, V 25, V 26])), Do (SetV 22 (Call ''rZb'' [Dot (V 1) ''B''])), Do (SetV 23 (New ''lgd'' [V 4, V 5])), Do (SetV 24 (Call ''rZb'' [Dot (V 1) ''D''])), Do (SetV 2 (Call ''rfd'' [Call ''WC'' [Call ''OC'' [G ''r2'', K (JNum 1)], G ''aue'', K (JNum 8), K (JNum 0), NewArr [V 22, V 23, V 24]]])), Do (SetV 13 (K (JBool False))), Do (SetV 17 (Dot (Dot (V 1) ''B'') ''i'')), When (And (And (Neg (Neg (V 17))) (Neg (Neg (Dot (V 17) ''c'')))) (Dot (V 7) ''d'')) [Do (SetV 9 (Or (And (V 6) (Bin Lt (Dot (V 17) ''p'') (Bin Minus (Dot (Dot (Dot (Dot (V 17) ''c'') ''a'') ''c'') ''length'') (K (JNum 1))))) (And (Neg (V 6)) (Bin Gt (Dot (V 17) ''p'') (K (JNum 0)))))), When (V 9) [When (V 9) [Do (SetV 12 (Dot (V 17) ''p'')), Do (Cond (V 6) (SetV 12 (Bin Minus (V 12) (K (JNum (- 1))))) (SetV 12 (Bin Minus (V 12) (K (JNum 1))))), Do (SetV 11 (Call ''JD'' [Call ''dmb'' [Dot (Dot (V 17) ''c'') ''a'', V 12], K (JNum 9)])), Do (SetV 3 (Call ''L1b'' [V 11])), Do (SetV 13 (Neg (Or (Call ''zfd'' [V 3, V 22, Idx (V 2) (K (JNum 0))]) (Call ''vfd'' [V 3, V 22, Idx (V 2) (K (JNum 0))]))))] []] [Do (SetV 13 (K (JBool True)))]] [], Do (SetV 14 (K (JBool False))), Do (SetV 21 (Dot (Dot (V 1) ''D'') ''i'')), When (And (And (Neg (Neg (V 21))) (Neg (Neg (Dot (V 21) ''c'')))) (Dot (V 7) ''e'')) [Do (SetV 10 (Or (And (V 6) (Bin Gt (Dot (V 21) ''p'') (K (JNum 0)))) (And (Neg (V 6)) (Bin Lt (Dot (V 21) ''p'') (Bin Minus (Dot (Dot (Dot (Dot (V 21) ''c'') ''a'') ''c'') ''length'') (K (JNum 1))))))), When (V 10) [Do (SetV 12 (Dot (V 21) ''p'')), Do (Cond (V 6) (SetV 12 (Bin Minus (V 12) (K (JNum 1)))) (SetV 12 (Bin Minus (V 12) (K (JNum (- 1)))))), Do (SetV 11 (Call ''JD'' [Call ''dmb'' [Dot (Dot (V 21) ''c'') ''a'', V 12], K (JNum 9)])), Do (SetV 3 (Call ''L1b'' [V 11])), Do (SetV 14 (Neg (Or (Call ''zfd'' [V 3, Idx (V 2) (K (JNum 0)), V 24]) (Call ''vfd'' [V 3, Idx (V 2) (K (JNum 0)), V 24]))))] [Do (SetV 14 (K (JBool True)))]] [], Do (And (And (V 13) (V 14)) (Call ''Ttb'' [Dot (V 0) ''a'', V 23])), Do (Or (V 13) (Call ''tgd'' [Dot (V 0) ''a'', Call ''WC'' [Call ''OC'' [G ''r2'', K (JNum 1)], G ''aue'', K (JNum 8), K (JNum 0), NewArr [V 15, V 16]]])), Do (Or (V 14) (Call ''tgd'' [Dot (V 0) ''a'', Call ''WC'' [Call ''OC'' [G ''r2'', K (JNum 1)], G ''aue'', K (JNum 8), K (JNum 0), NewArr [V 20, V 19]]]))],
    fn ''x0c'' 4 21 [When (Neg (Loose (Dot (Dot (V 2) ''c'') ''length'') (K (JNum 0)))) [Do (SetV 14 (New ''lmb'' [])), Do (SetV 13 (New ''Kmb'' [V 2])), Loop (Bin Lt (Dot (V 13) ''a'') (Dot (Dot (Dot (V 13) ''c'') ''c'') ''length'')) [Do (SetV 12 (Call ''JD'' [Call ''Imb'' [V 13], K (JNum 26)])), Do (Call ''_lb'' [V 14, New ''lgd'' [Dot (V 12) ''i'', Dot (V 12) ''j'']])] [], Do (Meth (V 3) ''bh'' [V 1, K (JStr ''Before removing overlaps'')]), Loop (Call ''$_c'' [V 0, V 2]) [Do (Call ''Y_c'' [V 0, V 2, K (JBool False)])] [], Do (Meth (V 3) ''bh'' [V 1, K (JStr ''After removing overlaps'')]), Do (SetV 7 (K (JNum 0))), Do (SetV 8 (K (JNum 0))), Do (SetV 4 (K JNull)), When (Neg (Loose (Dot (Dot (V 2) ''c'') ''length'') (K (JNum 0)))) [Do (SetV 4 (Seq (Call ''MDb'' [K (JNum 0), Dot (Dot (V 2) ''c'') ''length'']) (Call ''JD'' [Idx (Dot (V 2) ''c'') (K (JNum 0)), K (JNum 26)]))), Do (SetV 7 (Bin Minus (Dot (V 4) ''i'') (Dot (Seq (Call ''MDb'' [K (JNum 0), Dot (Dot (V 14) ''c'') ''length'']) (Call ''JD'' [Idx (Dot (V 14) ''c'') (K (JNum 0)), K (JNum 8)])) ''a''))), Do (SetV 8 (Bin Minus (Dot (V 4) ''j'') (Dot (Seq (Call ''MDb'' [K (JNum 0), Dot (Dot (V 14) ''c'') ''length'']) (Call ''JD'' [Idx (Dot (V 14) ''c'') (K (JNum 0)), K (JNum 8)])) ''b'')))] [], Do (SetV 6 (Meth (Dot (G ''$wnd'') ''Math'') ''sqrt'' [Bin Plus (Bin Times (V 7) (V 7)) (Bin Times (V 8) (V 8))])), Do (SetV 11 (Call ''v_c'' [V 2])), Do (SetV 5 (K (JNum 1))), When (Neg (Loose (Meth (Dot (V 11) ''a'') ''gc'' []) (K (JNum 0)))) [Do (SetV 10 (Meth (Meth (Dot (V 11) ''a'') ''ec'' []) ''Jc'' [])), Loop (Meth (V 10) ''Ob'' []) [Do (SetV 9 (Call ''JD'' [Meth (V 10) ''Pb'' [], K (JNum 26)])), Do (SetV 15 (Dot (V 0) ''f'')), Do (SetV 16 (Bin Plus (Dot (V 15) ''i'') (Bin Divide (Dot (V 15) ''g'') (K (JNum 2))))), Do (SetV 17 (Bin Plus (Dot (V 15) ''j'') (Bin Divide (Dot (V 15) ''f'') (K (JNum 2))))), Do (SetV 18 (Bin Plus (Dot (V 9) ''i'') (Bin Divide (Dot (V 9) ''g'') (K (JNum 2))))), Do (SetV 19 (Bin Plus (Dot (V 9) ''j'') (Bin Divide (Dot (V 9) ''f'') (K (JNum 2))))), Do (SetV 20 (Bin Minus (V 18) (V 16))), Do (SetV 21 (Bin Minus (V 19) (V 17))), Do (SetV 22 (Meth (Dot (G ''$wnd'') ''Math'') ''sqrt'' [Bin Plus (Bin Times (V 20) (V 20)) (Bin Times (V 21) (V 21))])), Do (SetV 23 (Bin Divide (V 20) (V 22))), Do (SetV 24 (Bin Divide (V 21) (V 22))), Do (Call ''_vd'' [V 9, Bin Plus (Dot (V 9) ''i'') (Bin Times (V 23) (V 6))]), Do (Call ''awd'' [V 9, Bin Plus (Dot (V 9) ''j'') (Bin Times (V 24) (V 6))])] [], Do (Meth (V 3) ''bh'' [V 1, Bin Plus (K (JStr ''Child movement '')) (V 5)]), Do (SetV 5 (Bin Minus (V 5) (K (JNum (- 1)))))] [], Do (And (Neg (Neg (Dot (V 0) ''a''))) (Meth (Dot (V 0) ''a'') ''Fg'' [New ''nmb'' [V 11]])), Do (Call ''x0c'' [V 0, V 1, New ''nmb'' [V 11], V 3])] []],
    fn ''ABc'' 2 11 [When (Idx (Dot (V 0) ''f'') (Dot (V 1) ''p'')) [Ret (K JUndef)] [], Do (PutIdx (Dot (V 0) ''f'') (Dot (V 1) ''p'') (K (JBool True))), Do (SetV 8 (New ''_rb'' [])), Do (SetV 4 (Same (Call ''XD'' [Call ''oNb'' [Dot (V 0) ''c'', Seq (Call ''nyc'' []) (G ''Dvc'')]]) (Call ''XD'' [Seq (Call ''nqc'' []) (G ''kqc'')]))), Do (SetV 3 (New ''Yr'' [Call ''Dr'' [Meth (Dot (Call ''HYb'' [V 1]) ''a'') ''Jc'' [], New ''Dl'' []]])), Loop (Call ''Wr'' [V 3]) [Do (SetV 2 (Call ''JD'' [Call ''Xr'' [V 3], K (JNum 17)])), When (Call ''pNb'' [Dot (Dot (V 2) ''d'') ''i'', Seq (Call ''Wrc'' []) (G ''trc'')]) [Do (SetV 12 (K (JNum 0))), Do (SetV 11 (Dot (Dot (V 2) ''d'') ''i'')), When (V 4) [Do (SetV 7 (Dot (Call ''JD'' [Call ''oNb'' [Dot (V 0) ''c'', G ''rrc''], K (JNum 15)]) ''a'')), Do (SetV 12 (Bin Plus (Bin Times (V 7) (Dot (Call ''JD'' [Call ''oNb'' [V 11, G ''Kvc''], K (JNum 15)]) ''a'')) (Dot (Call ''JD'' [Call ''oNb'' [V 11, G ''trc''], K (JNum 15)]) ''a'')))] [Do (SetV 12 (Dot (Call ''JD'' [Call ''oNb'' [Dot (Dot (V 2) ''d'') ''i'', G ''trc''], K (JNum 15)]) ''a''))], Do (Cond (Call ''cjb'' [V 8, Call ''Cfb'' [V 12]]) (Call ''esb'' [Call ''JD'' [Call ''ejb'' [V 8, Call ''Cfb'' [V 12]], K (JNum 48)], V 2]) (Call ''hjb'' [V 8, Call ''Cfb'' [V 12], New ''jsb'' [New ''wnb'' [Call ''WC'' [Call ''OC'' [G ''DP'', K (JNum 1)], G ''Aye'', K (JNum 17), K (JNum 0), NewArr [V 2]]]]]))] [Do (Call ''hjb'' [V 8, Call ''Cfb'' [Bin Minus (G ''Ate'') (Bin Plus (Dot (Dot (V 8) ''f'') ''c'') (Dot (Dot (V 8) ''i'') ''c''))], New ''jsb'' [New ''wnb'' [Call ''WC'' [Call ''OC'' [G ''DP'', K (JNum 1)], G ''Aye'', K (JNum 17), K (JNum 0), NewArr [V 2]]]]])]] [], Do (SetV 9 (New ''Fzb'' [New ''fkb'' [V 8]])), Do (SetV 6 (Meth (Meth (Dot (V 9) ''a'') ''ec'' []) ''Jc'' [])), Loop (Meth (V 6) ''Ob'' []) [Do (SetV 5 (Dot (Call ''JD'' [Meth (V 6) ''Pb'' [], K (JNum 15)]) ''a'')), Do (SetV 10 (Call ''JD'' [Meth (Meth (Meth (Dot (Call ''JD'' [Call ''ejb'' [V 8, Call ''Cfb'' [V 5]], K (JNum 48)]) ''a'') ''ec'' []) ''Jc'' []) ''Pb'' [], K (JNum 17)])), When (Call ''AWb'' [V 10]) [Continue] [], Do (SetV 11 (Dot (Dot (V 10) ''d'') ''i'')), Do (Cond (And (And (Idx (Dot (V 0) ''f'') (Dot (V 11) ''p'')) (Neg (Call ''fsb'' [Dot (V 0) ''e'', V 1]))) (Neg (Call ''fsb'' [Dot (V 0) ''d'', V 11]))) (Call ''bmb'' [Dot (V 0) ''b'', Call ''JD'' [Call ''ejb'' [V 8, Call ''Cfb'' [V 5]], K (JNum 18)]]) (Call ''Ttb'' [Dot (V 0) ''a'', V 11]))] []],
    fn ''RVd'' 1 5 [Do (SetV 2 (Cond (Neg (Loose (Dot (V 0) ''D'') (K JNull))) (Dot (V 0) ''D'') (Dot (V 0) ''B''))), Do (SetV 1 (Call ''Agb'' [V 2, Call ''Pgb'' [K (JNum 91)]])), When (Neg (Loose (V 1) (K (JNum (- 1))))) [Do (SetV 3 (Seq (Call ''TDb'' [K (JNum 0), V 1, Dot (V 2) ''length'']) (Meth (V 2) ''substr'' [K (JNum 0), V 1]))), Do (SetV 4 (New ''$gb'' [])), Loop (K (JBool True)) [Do (Put (V 4) ''a'' (Bin Plus (Dot (V 4) ''a'') (K (JStr ''[''))))] [When (Neg (Loose (SetV 1 (Call ''zgb'' [V 2, K (JNum 91), SetV 1 (Bin Minus (V 1) (K (JNum (- 1))))])) (K (JNum (- 1))))) [] [Break]], When (Call ''vgb'' [V 3, G ''wte'']) [Do (Put (V 4) ''a'' (Bin Plus (Dot (V 4) ''a'') (K (JStr ''Z''))))] [When (Call ''vgb'' [V 3, G ''oIe'']) [Do (Put (V 4) ''a'' (Bin Plus (Dot (V 4) ''a'') (K (JStr ''B''))))] [When (Call ''vgb'' [V 3, G ''pIe'']) [Do (Put (V 4) ''a'' (Bin Plus (Dot (V 4) ''a'') (K (JStr ''C''))))] [When (Call ''vgb'' [V 3, G ''qIe'']) [Do (Put (V 4) ''a'' (Bin Plus (Dot (V 4) ''a'') (K (JStr ''D''))))] [When (Call ''vgb'' [V 3, G ''rIe'']) [Do (Put (V 4) ''a'' (Bin Plus (Dot (V 4) ''a'') (K (JStr ''F''))))] [When (Call ''vgb'' [V 3, G ''sIe'']) [Do (Put (V 4) ''a'' (Bin Plus (Dot (V 4) ''a'') (K (JStr ''I''))))] [When (Call ''vgb'' [V 3, G ''tIe'']) [Do (Put (V 4) ''a'' (Bin Plus (Dot (V 4) ''a'') (K (JStr ''J''))))] [When (Call ''vgb'' [V 3, G ''uIe'']) [Do (Put (V 4) ''a'' (Bin Plus (Dot (V 4) ''a'') (K (JStr ''S''))))] [Do (Put (V 4) ''a'' (Bin Plus (Dot (V 4) ''a'') (K (JStr ''L'')))), Do (Put (V 4) ''a'' (Bin Plus (Dot (V 4) ''a'') (Bin Plus (K (JStr '''')) (V 3)))), Do (Put (V 4) ''a'' (Bin Plus (Dot (V 4) ''a'') (K (JStr '';''))))]]]]]]]], Try [Ret (K JNull)] 5 [Do (SetV 5 (Call ''Kcb'' [V 5])), When (Neg (Call ''RD'' [V 5, K (JNum 63)])) [Raise (Call ''Lcb'' [V 5])] []]] [When (Loose (Call ''Agb'' [V 2, Call ''Pgb'' [K (JNum 46)]]) (K (JNum (- 1)))) [When (Call ''vgb'' [V 2, G ''wte'']) [Ret (G ''Icb'')] [When (Call ''vgb'' [V 2, G ''oIe'']) [Ret (G ''$D'')] [When (Call ''vgb'' [V 2, G ''pIe'']) [Ret (G ''_D'')] [When (Call ''vgb'' [V 2, G ''qIe'']) [Ret (G ''aE'')] [When (Call ''vgb'' [V 2, G ''rIe'']) [Ret (G ''bE'')] [When (Call ''vgb'' [V 2, G ''sIe'']) [Ret (G ''cE'')] [When (Call ''vgb'' [V 2, G ''tIe'']) [Ret (G ''dE'')] [When (Call ''vgb'' [V 2, G ''uIe'']) [Ret (G ''Hcb'')] []]]]]]]]] []], Ret (K JNull)],
    fn ''jie'' 1 22 [Do (SetV 11 (New ''Ktb'' [New ''Dtb'' [V 0]])), Loop (Neg (Loose (Dot (V 11) ''c'') (Dot (Dot (Dot (V 11) ''d'') ''a'') ''d''))) [Do (SetV 10 (Call ''Jtb'' [V 11])), Do (SetV 7 (Call ''JD'' [Dot (V 10) ''d'', K (JNum 57)])), Do (SetV 1 (Call ''JD'' [Dot (V 10) ''e'', K (JNum 57)])), Do (SetV 6 (Meth (V 7) ''Ah'' [])), Do (Seq (SetV 15 (K (JNum 0))) (SetV 20 (Dot (Seq (And (Loose (Dot (V 6) ''i'') (K JNull)) (Call ''EWd'' [V 6])) (Dot (V 6) ''i'')) ''length''))), Loop (Bin Lt (V 15) (V 20)) [Do (SetV 9 (Seq (SetV 5 (Seq (And (Loose (Dot (V 6) ''i'') (K JNull)) (Call ''EWd'' [V 6])) (Dot (V 6) ''i''))) (Cond (And (Bin Ge (V 15) (K (JNum 0))) (Bin Lt (V 15) (Dot (V 5) ''length''))) (Idx (V 5) (V 15)) (K JNull)))), When (And (Meth (V 9) ''pk'' []) (Neg (Meth (V 9) ''qk'' []))) [When (Call ''RD'' [V 9, K (JNum 103)]) [Do (SetV 8 (Call ''JD'' [V 9, K (JNum 19)])), Do (And (And (Loose (Bin BitAnd (Dot (V 8) ''Bb'') (G ''$Fe'')) (K (JNum 0))) (Seq (SetV 22 (Call ''k4d'' [V 8])) (Neg (And (Neg (Neg (V 22))) (Neg (Loose (Bin BitAnd (Dot (V 22) ''Bb'') (G ''$Fe'')) (K (JNum 0)))))))) (Call ''iie'' [V 0, V 8, V 7, V 1]))] [Do (Call ''Aie'' []), When (Meth (Call ''JD'' [V 9, K (JNum 69)]) ''vk'' []) [Do (SetV 2 (Seq (SetV 21 (V 9)) (Call ''JD'' [Cond (Neg (V 21)) (K JNull) (Meth (Call ''JD'' [V 1, K (JNum 52)]) ''di'' [V 21]), K (JNum 163)]))), When (V 2) [Do (SetV 13 (Call ''JD'' [Meth (V 7) ''Jh'' [V 9], K (JNum 163)])), Do (SetV 3 (Meth (V 2) ''gc'' [])), Do (Seq (SetV 16 (K (JNum 0))) (SetV 14 (Meth (V 13) ''gc'' []))), Loop (Bin Lt (V 16) (V 14)) [Do (SetV 12 (Meth (V 13) ''Rl'' [V 16])), When (Call ''RD'' [V 12, K (JNum 103)]) [Do (SetV 19 (Meth (V 13) ''Sl'' [V 16])), Do (SetV 4 (Call ''ktb'' [V 0, V 19])), When (And (Loose (V 4) (K JNull)) (Neg (Loose (V 19) (K JNull)))) [Do (SetV 18 (Call ''JD'' [V 12, K (JNum 19)])), When (Or (Or (Neg (Dot (V 0) ''b'')) (Neg (Loose (Bin BitAnd (Dot (V 18) ''Bb'') (G ''$Fe'')) (K (JNum 0))))) (Neg (Neg (Call ''k4d'' [V 18])))) [Continue] [], Do (SetV 4 (V 19))] [], When (Neg (Meth (V 2) ''Ml'' [V 12, V 4])) [Do (SetV 17 (K (JNum 0))), Loop (Bin Lt (V 17) (V 3)) [When (And (Loose (Meth (V 2) ''Rl'' [V 17]) (V 12)) (Same (Call ''XD'' [Meth (V 2) ''Sl'' [V 17]]) (Call ''XD'' [V 4]))) [Do (Meth (V 2) ''Ri'' [Bin Minus (Meth (V 2) ''gc'' []) (K (JNum 1)), V 17]), Do (SetV 3 (Bin Minus (V 3) (K (JNum 1)))), Break] []] [Do (SetV 17 (Bin Minus (V 17) (K (JNum (- 1)))))]] []] [Do (Meth (V 2) ''Ml'' [Meth (V 13) ''Rl'' [V 16], Meth (V 13) ''Sl'' [V 16]])]] [Do (SetV 16 (Bin Minus (V 16) (K (JNum (- 1)))))]] []] []]] []] [Do (SetV 15 (Bin Minus (V 15) (K (JNum (- 1)))))]] []],
    fn ''AEc'' 3 1 [Do (Meth (V 2) ''Tg'' [K (JStr ''StretchWidth layering''), K (JNum 1)]), When (Loose (Dot (Dot (Dot (V 1) ''a'') ''c'') ''length'') (K (JNum 0))) [Do (Meth (V 2) ''Ug'' []), Ret (K JUndef)] [], Do (Put (V 0) ''c'' (V 1)), Do (Put (V 0) ''t'' (K (JNum 0))), Do (Put (V 0) ''u'' (K (JNum 0))), Do (Put (V 0) ''i'' (G ''Cve'')), Do (Put (V 0) ''g'' (G ''Dve'')), Do (Put (V 0) ''d'' (Call ''Ueb'' [Call ''MD'' [Call ''oNb'' [V 1, Seq (Call ''nyc'' []) (G ''Ixc'')]]])), Do (Call ''uEc'' [V 0]), Do (Call ''vEc'' [V 0]), Do (Call ''sEc'' [V 0]), Do (Call ''zEc'' [V 0]), Do (Call ''tEc'' [V 0]), Do (Put (V 0) ''i'' (Meth (Dot (G ''$wnd'') ''Math'') ''max'' [K (JNum 1), Dot (V 0) ''i''])), Do (Put (V 0) ''g'' (Meth (Dot (G ''$wnd'') ''Math'') ''max'' [K (JNum 1), Dot (V 0) ''g''])), Do (Put (V 0) ''d'' (Bin Divide (Dot (V 0) ''d'') (Dot (V 0) ''i''))), Do (Put (V 0) ''f'' (Bin Divide (Dot (V 0) ''g'') (Dot (V 0) ''i''))), Do (Put (V 0) ''s'' (Call ''xEc'' [V 0])), Do (SetV 3 (New ''y$b'' [Dot (V 0) ''c''])), Do (Call ''_lb'' [Dot (Dot (V 0) ''c'') ''b'', V 3]), Do (Put (V 0) ''r'' (Call ''Uu'' [Dot (V 0) ''p''])), Do (Put (V 0) ''n'' (Call ''Pmb'' [Dot (V 0) ''k'', Dot (Dot (V 0) ''k'') ''length''])), Loop (Neg (Loose (Dot (Dot (Dot (V 0) ''r'') ''c'') ''length'') (K (JNum 0)))) [Do (Put (V 0) ''o'' (Call ''BEc'' [V 0])), When (Or (Neg (Dot (V 0) ''o'')) (And (Call ''wEc'' [V 0]) (Neg (Loose (Meth (Dot (Dot (V 0) ''b'') ''a'') ''gc'' []) (K (JNum 0)))))) [Do (Call ''CEc'' [V 0, V 3]), Do (SetV 3 (New ''y$b'' [Dot (V 0) ''c''])), Do (Call ''_lb'' [Dot (Dot (V 0) ''c'') ''b'', V 3]), Do (Call ''xe'' [Dot (V 0) ''a'', Dot (V 0) ''b'']), Do (Meth (Dot (Dot (V 0) ''b'') ''a'') ''$b'' []), Do (Put (V 0) ''t'' (Dot (V 0) ''u'')), Do (Put (V 0) ''u'' (K (JNum 0)))] [When (Call ''wEc'' [V 0]) [Do (Put (Dot (Dot (Dot (V 0) ''c'') ''b'') ''c'') ''length'' (K (JNum 0))), Do (SetV 3 (New ''y$b'' [Dot (V 0) ''c''])), Do (Call ''_lb'' [Dot (Dot (V 0) ''c'') ''b'', V 3]), Do (Put (V 0) ''t'' (K (JNum 0))), Do (Put (V 0) ''u'' (K (JNum 0))), Do (Meth (Dot (Dot (V 0) ''b'') ''a'') ''$b'' []), Do (Meth (Dot (Dot (V 0) ''a'') ''a'') ''$b'' []), Do (Put (V 0) ''f'' (Bin Minus (Dot (V 0) ''f'') (K (JNum (- 1))))), Do (Put (V 0) ''r'' (Call ''Uu'' [Dot (V 0) ''p''])), Do (Put (V 0) ''n'' (Call ''Pmb'' [Dot (V 0) ''k'', Dot (Dot (V 0) ''k'') ''length'']))] [Do (Call ''NYb'' [Dot (V 0) ''o'', V 3]), Do (Call ''gmb'' [Dot (V 0) ''r'', Dot (V 0) ''o'']), Do (Call ''esb'' [Dot (V 0) ''b'', Dot (V 0) ''o'']), Do (Put (V 0) ''t'' (Bin Plus (Bin Minus (Dot (V 0) ''t'') (Bin Times (Idx (Dot (V 0) ''k'') (Dot (Dot (V 0) ''o'') ''p'')) (Dot (V 0) ''d''))) (Idx (Dot (V 0) ''j'') (Dot (Dot (V 0) ''o'') ''p'')))), Do (Put (V 0) ''u'' (Bin Plus (Dot (V 0) ''u'') (Bin Times (Idx (Dot (V 0) ''e'') (Dot (Dot (V 0) ''o'') ''p'')) (Dot (V 0) ''d''))))]]] [], Do (Put (Dot (Dot (V 1) ''a'') ''c'') ''length'' (K (JNum 0))), Do (Call ''Onb'' [Dot (V 1) ''b'']), Do (Meth (V 2) ''Ug'' [])]]"

definition code_6131_6138 :: "(string \<times> jfun) list" where
  "code_6131_6138 = [
    fn ''Afd'' 4 16 [Do (SetV 8 (V 0)), Do (SetV 10 (Call ''igd'' [New ''lgd'' [Dot (V 1) ''a'', Dot (V 1) ''b''], V 0])), Do (SetV 9 (V 2)), Do (SetV 11 (Call ''igd'' [New ''lgd'' [Dot (V 3) ''a'', Dot (V 3) ''b''], V 2])), Do (SetV 12 (Dot (V 8) ''a'')), Do (SetV 16 (Dot (V 8) ''b'')), Do (SetV 14 (Dot (V 9) ''a'')), Do (SetV 18 (Dot (V 9) ''b'')), Do (SetV 13 (Dot (V 10) ''a'')), Do (SetV 17 (Dot (V 10) ''b'')), Do (SetV 15 (Dot (V 11) ''a'')), Do (SetV 19 (Dot (V 11) ''b'')), Do (SetV 4 (Bin Minus (Bin Times (V 15) (V 17)) (Bin Times (V 13) (V 19)))), Do (Call ''Sy'' []), Do (Call ''Wy'' [G ''xCe'']), When (Or (Or (Bin Le (Meth (Dot (G ''$wnd'') ''Math'') ''abs'' [Bin Minus (K (JNum 0)) (V 4)]) (G ''xCe'')) (Loose (K (JNum 0)) (V 4))) (And (Call ''isNaN'' [K (JNum 0)]) (Call ''isNaN'' [V 4]))) [Ret (K (JBool False))] [], Do (SetV 6 (Bin Times (Bin Divide (K (JNum 1)) (V 4)) (Bin Minus (Bin Times (Bin Minus (V 12) (V 14)) (V 17)) (Bin Times (Bin Minus (V 16) (V 18)) (V 13))))), Do (SetV 7 (Bin Times (Bin Divide (K (JNum 1)) (V 4)) (Minus1 (Bin Plus (Bin Times (Minus1 (Bin Minus (V 12) (V 14))) (V 19)) (Bin Times (Bin Minus (V 16) (V 18)) (V 15)))))), Do (SetV 5 (Seq (Seq (K JNull) (Call ''Wy'' [G ''xCe''])) (And (And (And (Bin Lt (Cond (Or (Or (Bin Le (Meth (Dot (G ''$wnd'') ''Math'') ''abs'' [Bin Minus (K (JNum 0)) (V 6)]) (G ''xCe'')) (Loose (K (JNum 0)) (V 6))) (And (Call ''isNaN'' [K (JNum 0)]) (Call ''isNaN'' [V 6]))) (K (JNum 0)) (Cond (Bin Lt (K (JNum 0)) (V 6)) (K (JNum (- 1))) (Cond (Bin Gt (K (JNum 0)) (V 6)) (K (JNum 1)) (Call ''Udb'' [Call ''isNaN'' [K (JNum 0)], Call ''isNaN'' [V 6]])))) (K (JNum 0))) (Seq (Seq (K JNull) (Call ''Wy'' [G ''xCe''])) (Bin Lt (Cond (Or (Or (Bin Le (Meth (Dot (G ''$wnd'') ''Math'') ''abs'' [Bin Minus (V 6) (K (JNum 1))]) (G ''xCe'')) (Loose (V 6) (K (JNum 1)))) (And (Call ''isNaN'' [V 6]) (Call ''isNaN'' [K (JNum 1)]))) (K (JNum 0)) (Cond (Bin Lt (V 6) (K (JNum 1))) (K (JNum (- 1))) (Cond (Bin Gt (V 6) (K (JNum 1))) (K (JNum 1)) (Call ''Udb'' [Call ''isNaN'' [V 6], Call ''isNaN'' [K (JNum 1)]])))) (K (JNum 0))))) (Seq (Seq (K JNull) (Call ''Wy'' [G ''xCe''])) (Bin Lt (Cond (Or (Or (Bin Le (Meth (Dot (G ''$wnd'') ''Math'') ''abs'' [Bin Minus (K (JNum 0)) (V 7)]) (G ''xCe'')) (Loose (K (JNum 0)) (V 7))) (And (Call ''isNaN'' [K (JNum 0)]) (Call ''isNaN'' [V 7]))) (K (JNum 0)) (Cond (Bin Lt (K (JNum 0)) (V 7)) (K (JNum (- 1))) (Cond (Bin Gt (K (JNum 0)) (V 7)) (K (JNum 1)) (Call ''Udb'' [Call ''isNaN'' [K (JNum 0)], Call ''isNaN'' [V 7]])))) (K (JNum 0))))) (Seq (Seq (K JNull) (Call ''Wy'' [G ''xCe''])) (Bin Lt (Cond (Or (Or (Bin Le (Meth (Dot (G ''$wnd'') ''Math'') ''abs'' [Bin Minus (V 7) (K (JNum 1))]) (G ''xCe'')) (Loose (V 7) (K (JNum 1)))) (And (Call ''isNaN'' [V 7]) (Call ''isNaN'' [K (JNum 1)]))) (K (JNum 0)) (Cond (Bin Lt (V 7) (K (JNum 1))) (K (JNum (- 1))) (Cond (Bin Gt (V 7) (K (JNum 1))) (K (JNum 1)) (Call ''Udb'' [Call ''isNaN'' [V 7], Call ''isNaN'' [K (JNum 1)]])))) (K (JNum 0))))))), Ret (V 5)],
    fn ''bLc'' 1 11 [Do (Put (V 0) ''j'' (Call ''SC'' [G ''cE'', G ''bve'', K (JNum 30), Dot (V 0) ''g'', K (JNum 15), K (JNum 1)])), Do (Put (V 0) ''o'' (New ''lmb'' [])), Do (Call ''YBb'' [Call ''XBb'' [New ''jCb'' [K JNull, New ''Zvb'' [Dot (Dot (V 0) ''e'') ''b'', K (JNum 16)]], New ''jMc'' []], New ''lMc'' [V 0]]), Do (Put (V 0) ''a'' (Call ''SC'' [G ''Icb'', G ''Nwe'', K (JNum 30), Dot (V 0) ''b'', K (JNum 16), K (JNum 1)])), Do (Call ''dCb'' [New ''jCb'' [K JNull, New ''Zvb'' [Dot (Dot (V 0) ''e'') ''b'', K (JNum 16)]], New ''AMc'' [V 0]]), Do (SetV 3 (Seq (Seq (SetV 11 (New ''lmb'' [])) (Call ''YBb'' [Call ''VBb'' [Call ''XBb'' [New ''jCb'' [K JNull, New ''Zvb'' [Dot (Dot (V 0) ''e'') ''b'', K (JNum 16)]], New ''qMc'' []], New ''sMc'' [V 0]], New ''uMc'' [V 0, V 11]])) (V 11))), Do (SetV 8 (New ''Kmb'' [V 3])), Loop (Bin Lt (Dot (V 8) ''a'') (Dot (Dot (Dot (V 8) ''c'') ''c'') ''length'')) [Do (SetV 7 (Call ''JD'' [Call ''Imb'' [V 8], K (JNum 501)])), When (Bin Le (Dot (Dot (V 7) ''c'') ''length'') (K (JNum 1))) [Continue] [], When (Loose (Dot (Dot (V 7) ''c'') ''length'') (K (JNum 2))) [Do (Call ''DLc'' [V 7]), Do (Or (Call ''kLc'' [Dot (Dot (Seq (Call ''MDb'' [K (JNum 0), Dot (Dot (V 7) ''c'') ''length'']) (Call ''JD'' [Idx (Dot (V 7) ''c'') (K (JNum 0)), K (JNum 17)])) ''d'') ''i'']) (Call ''_lb'' [Dot (V 0) ''o'', V 7])), Continue] [], When (Or (Call ''CLc'' [V 7]) (Call ''BLc'' [V 7, New ''oMc'' []])) [Continue] [], Do (SetV 9 (New ''Kmb'' [V 7])), Do (SetV 4 (K JNull)), Loop (Bin Lt (Dot (V 9) ''a'') (Dot (Dot (Dot (V 9) ''c'') ''c'') ''length'')) [Do (SetV 1 (Call ''JD'' [Call ''Imb'' [V 9], K (JNum 17)])), Do (SetV 2 (Idx (Dot (V 0) ''c'') (Dot (V 1) ''p''))), Do (Cond (Or (Neg (V 4)) (Bin Ge (Dot (V 9) ''a'') (Dot (Dot (Dot (V 9) ''c'') ''c'') ''length''))) (SetV 10 (Call ''SKc'' [Seq (Call ''$Yb'' []) (G ''XYb''), G ''VYb''])) (SetV 10 (Call ''SKc'' [Seq (Call ''$Yb'' []) (G ''VYb''), G ''VYb'']))), Do (SetV 10 (Bin Times (V 10) (K (JNum 2)))), Do (SetV 5 (Dot (Dot (V 2) ''a'') ''g'')), Do (Put (Dot (V 2) ''a'') ''g'' (Meth (Dot (G ''$wnd'') ''Math'') ''max'' [V 5, Bin Plus (V 5) (Bin Minus (V 10) (V 5))])), Do (SetV 6 (Dot (Dot (V 2) ''b'') ''g'')), Do (Put (Dot (V 2) ''b'') ''g'' (Meth (Dot (G ''$wnd'') ''Math'') ''max'' [V 6, Bin Plus (V 6) (Bin Minus (V 10) (V 6))])), Do (SetV 4 (V 1))] []] []],
    fn ''aFb'' 2 1 [When (Dot (V 0) ''e'') [Raise (Call ''Lcb'' [New ''nfb'' [Seq (Call ''veb'' [G ''PM'']) (Bin Plus (Bin Plus (G ''zwe'') (Dot (G ''PM'') ''k'')) (G ''Awe''))]])] [], When (Neg (Call ''vEb'' [Dot (V 0) ''a'', V 1])) [Raise (Call ''Lcb'' [New ''qz'' [Bin Plus (Bin Plus (G ''Bwe'') (V 1)) (G ''Cwe'')]])] [], When (Loose (V 1) (Dot (V 0) ''d'')) [Ret (V 0)] [], Do (SetV 2 (Dot (V 0) ''d'')), Do (Put (V 0) ''d'' (V 1)), Switch (Dot (V 2) ''g'') [(Some (JNum 0), [Switch (Dot (V 1) ''g'') [(Some (JNum 2), [Do (Call ''ZEb'' [V 0]), Break]), (Some (JNum 1), [Do (Call ''fFb'' [V 0]), Do (Call ''ZEb'' [V 0]), Break]), (Some (JNum 4), [Do (Call ''lFb'' [V 0]), Do (Call ''ZEb'' [V 0]), Break]), (Some (JNum 3), [Do (Call ''lFb'' [V 0]), Do (Call ''fFb'' [V 0]), Do (Call ''ZEb'' [V 0])])], Break]), (Some (JNum 2), [Switch (Dot (V 1) ''g'') [(Some (JNum 1), [Do (Call ''fFb'' [V 0]), Do (Call ''gFb'' [V 0]), Break]), (Some (JNum 4), [Do (Call ''lFb'' [V 0]), Do (Call ''ZEb'' [V 0]), Break]), (Some (JNum 3), [Do (Call ''lFb'' [V 0]), Do (Call ''fFb'' [V 0]), Do (Call ''ZEb'' [V 0])])], Break]), (Some (JNum 1), [Switch (Dot (V 1) ''g'') [(Some (JNum 2), [Do (Call ''fFb'' [V 0]), Do (Call ''gFb'' [V 0]), Break]), (Some (JNum 4), [Do (Call ''fFb'' [V 0]), Do (Call ''lFb'' [V 0]), Do (Call ''ZEb'' [V 0]), Break]), (Some (JNum 3), [Do (Call ''fFb'' [V 0]), Do (Call ''lFb'' [V 0]), Do (Call ''fFb'' [V 0]), Do (Call ''ZEb'' [V 0])])], Break]), (Some (JNum 4), [Switch (Dot (V 1) ''g'') [(Some (JNum 2), [Do (Call ''lFb'' [V 0]), Do (Call ''ZEb'' [V 0]), Break]), (Some (JNum 1), [Do (Call ''lFb'' [V 0]), Do (Call ''fFb'' [V 0]), Do (Call ''ZEb'' [V 0]), Break]), (Some (JNum 3), [Do (Call ''fFb'' [V 0]), Do (Call ''gFb'' [V 0])])], Break]), (Some (JNum 3), [Switch (Dot (V 1) ''g'') [(Some (JNum 2), [Do (Call ''fFb'' [V 0]), Do (Call ''lFb'' [V 0]), Do (Call ''ZEb'' [V 0]), Break]), (Some (JNum 1), [Do (Call ''fFb'' [V 0]), Do (Call ''lFb'' [V 0]), Do (Call ''fFb'' [V 0]), Do (Call ''ZEb'' [V 0]), Break]), (Some (JNum 4), [Do (Call ''fFb'' [V 0]), Do (Call ''gFb'' [V 0])])]])], Ret (V 0)],
    fn ''_Rb'' 2 1 [When (Dot (V 0) ''d'') [Raise (Call ''Lcb'' [New ''nfb'' [Seq (Call ''veb'' [G ''NO'']) (Bin Plus (Bin Plus (G ''zwe'') (Dot (G ''NO'') ''k'')) (G ''Awe''))]])] [], When (Neg (Call ''KRb'' [Dot (V 0) ''a'', V 1])) [Raise (Call ''Lcb'' [New ''qz'' [Bin Plus (Bin Plus (G ''Bwe'') (V 1)) (G ''Cwe'')]])] [], When (Loose (V 1) (Dot (V 0) ''c'')) [Ret (V 0)] [], Do (SetV 2 (Dot (V 0) ''c'')), Do (Put (V 0) ''c'' (V 1)), Switch (Dot (V 2) ''g'') [(Some (JNum 0), [Switch (Dot (V 1) ''g'') [(Some (JNum 2), [Do (Call ''YRb'' [V 0]), Break]), (Some (JNum 1), [Do (Call ''dSb'' [V 0]), Do (Call ''YRb'' [V 0]), Break]), (Some (JNum 4), [Do (Call ''hSb'' [V 0]), Do (Call ''YRb'' [V 0]), Break]), (Some (JNum 3), [Do (Call ''hSb'' [V 0]), Do (Call ''dSb'' [V 0]), Do (Call ''YRb'' [V 0])])], Break]), (Some (JNum 2), [Switch (Dot (V 1) ''g'') [(Some (JNum 1), [Do (Call ''dSb'' [V 0]), Do (Call ''eSb'' [V 0]), Break]), (Some (JNum 4), [Do (Call ''hSb'' [V 0]), Do (Call ''YRb'' [V 0]), Break]), (Some (JNum 3), [Do (Call ''hSb'' [V 0]), Do (Call ''dSb'' [V 0]), Do (Call ''YRb'' [V 0])])], Break]), (Some (JNum 1), [Switch (Dot (V 1) ''g'') [(Some (JNum 2), [Do (Call ''dSb'' [V 0]), Do (Call ''eSb'' [V 0]), Break]), (Some (JNum 4), [Do (Call ''dSb'' [V 0]), Do (Call ''hSb'' [V 0]), Do (Call ''YRb'' [V 0]), Break]), (Some (JNum 3), [Do (Call ''dSb'' [V 0]), Do (Call ''hSb'' [V 0]), Do (Call ''dSb'' [V 0]), Do (Call ''YRb'' [V 0])])], Break]), (Some (JNum 4), [Switch (Dot (V 1) ''g'') [(Some (JNum 2), [Do (Call ''hSb'' [V 0]), Do (Call ''YRb'' [V 0]), Break]), (Some (JNum 1), [Do (Call ''hSb'' [V 0]), Do (Call ''dSb'' [V 0]), Do (Call ''YRb'' [V 0]), Break]), (Some (JNum 3), [Do (Call ''dSb'' [V 0]), Do (Call ''eSb'' [V 0])])], Break]), (Some (JNum 3), [Switch (Dot (V 1) ''g'') [(Some (JNum 2), [Do (Call ''dSb'' [V 0]), Do (Call ''hSb'' [V 0]), Do (Call ''YRb'' [V 0]), Break]), (Some (JNum 1), [Do (Call ''dSb'' [V 0]), Do (Call ''hSb'' [V 0]), Do (Call ''dSb'' [V 0]), Do (Call ''YRb'' [V 0]), Break]), (Some (JNum 4), [Do (Call ''dSb'' [V 0]), Do (Call ''eSb'' [V 0])])]])], Ret (V 0)],
    fn ''Cmc'' 1 19 [Do (SetV 11 (Dot (V 0) ''b'')), Do (SetV 10 (New ''Tjb'' [V 11, K (JNum 0)])), Do (Call ''Sjb'' [V 10, New ''y$b'' [V 0]]), Do (SetV 18 (K (JBool False))), Do (SetV 6 (K (JNum 1))), Loop (Bin Lt (Dot (V 10) ''b'') (Meth (Dot (V 10) ''d'') ''gc'' [])) [Do (SetV 9 (Seq (Call ''LDb'' [Bin Lt (Dot (V 10) ''b'') (Meth (Dot (V 10) ''d'') ''gc'' [])]) (Call ''JD'' [Meth (Dot (V 10) ''d'') ''Xb'' [Put (V 10) ''c'' (Bin Minus (Put (V 10) ''b'' (Bin Minus (Dot (V 10) ''b'') (K (JNum (- 1))))) (K (JNum 1)))], K (JNum 25)]))), Do (SetV 15 (Seq (Call ''MDb'' [V 6, Dot (Dot (V 11) ''c'') ''length'']) (Call ''JD'' [Idx (Dot (V 11) ''c'') (V 6), K (JNum 25)]))), Do (SetV 16 (Call ''Uu'' [Dot (V 9) ''a''])), Do (SetV 17 (Dot (Dot (V 16) ''c'') ''length'')), Do (SetV 14 (New ''Kmb'' [V 16])), Loop (Bin Lt (Dot (V 14) ''a'') (Dot (Dot (Dot (V 14) ''c'') ''c'') ''length'')) [Do (SetV 12 (Call ''JD'' [Call ''Imb'' [V 14], K (JNum 9)])), Do (Call ''NYb'' [V 12, V 15])] [], When (V 18) [Do (SetV 13 (Meth (Call ''$u'' [V 16]) ''Jc'' [])), Loop (Meth (V 13) ''Ob'' []) [Do (SetV 12 (Call ''JD'' [Meth (V 13) ''Pb'' [], K (JNum 9)])), Do (SetV 5 (New ''Kmb'' [Call ''Uu'' [Call ''EYb'' [V 12]]])), Loop (Bin Lt (Dot (V 5) ''a'') (Dot (Dot (Dot (V 5) ''c'') ''c'') ''length'')) [Do (SetV 4 (Call ''JD'' [Call ''Imb'' [V 5], K (JNum 17)])), Do (Call ''BWb'' [V 4, K (JBool True)]), Do (Call ''rNb'' [V 0, Seq (Call ''Wrc'' []) (G ''Tqc''), Seq (Call ''Qdb'' []) (K (JBool True))]), Do (SetV 3 (Call ''Smc'' [V 0, V 4, V 17])), Do (SetV 2 (Call ''JD'' [Call ''oNb'' [V 12, G ''Mqc''], K (JNum 318)])), Do (SetV 19 (Call ''JD'' [Call ''dmb'' [V 3, Bin Minus (Dot (Dot (V 3) ''c'') ''length'') (K (JNum 1))], K (JNum 17)])), Do (Put (V 2) ''k'' (Dot (Dot (V 19) ''c'') ''i'')), Do (Put (V 2) ''n'' (V 19)), Do (Put (V 2) ''b'' (Dot (Dot (V 4) ''d'') ''i'')), Do (Put (V 2) ''c'' (V 4))] []] [], Do (SetV 18 (K (JBool False)))] [When (Neg (Loose (Dot (Dot (V 16) ''c'') ''length'') (K (JNum 0)))) [Do (SetV 1 (Seq (Call ''MDb'' [K (JNum 0), Dot (Dot (V 16) ''c'') ''length'']) (Call ''JD'' [Idx (Dot (V 16) ''c'') (K (JNum 0)), K (JNum 9)]))), When (Loose (Dot (V 1) ''k'') (Seq (Call ''$Yb'' []) (G ''SYb''))) [Do (SetV 18 (K (JBool True))), Do (SetV 6 (K (JNum (- 1))))] []] []], Do (SetV 6 (Bin Minus (V 6) (K (JNum (- 1)))))] [], Do (SetV 7 (New ''Tjb'' [Dot (V 0) ''b'', K (JNum 0)])), Loop (Bin Lt (Dot (V 7) ''b'') (Meth (Dot (V 7) ''d'') ''gc'' [])) [Do (SetV 8 (Seq (Call ''LDb'' [Bin Lt (Dot (V 7) ''b'') (Meth (Dot (V 7) ''d'') ''gc'' [])]) (Call ''JD'' [Meth (Dot (V 7) ''d'') ''Xb'' [Put (V 7) ''c'' (Bin Minus (Put (V 7) ''b'' (Bin Minus (Dot (V 7) ''b'') (K (JNum (- 1))))) (K (JNum 1)))], K (JNum 25)]))), Do (And (Loose (Dot (Dot (Dot (V 8) ''a'') ''c'') ''length'') (K (JNum 0))) (Call ''Mjb'' [V 7]))] []],
    fn ''cqd'' 2 8 [When (Call ''RD'' [Meth (V 0) ''Bh'' [], K (JNum 174)]) [Do (Call ''cqd'' [Call ''JD'' [Meth (V 0) ''Bh'' [], K (JNum 174)], V 1]), Do (Put (V 1) ''a'' (Bin Plus (Dot (V 1) ''a'') (K (JStr '' > ''))))] [Do (Put (V 1) ''a'' (Bin Plus (Dot (V 1) ''a'') (K (JStr ''Root ''))))], Do (SetV 2 (Dot (Meth (V 0) ''Ah'' []) ''zb'')), Do (Cond (Call ''vgb'' [Meth (V 2) ''substr'' [K (JNum 0), K (JNum 3)], K (JStr ''Elk'')]) (Call ''hhb'' [V 1, Seq (Call ''UDb'' [K (JNum 3), Bin Plus (Dot (V 2) ''length'') (K (JNum 1))]) (Meth (V 2) ''substr'' [K (JNum 3)])]) (Seq (Put (V 1) ''a'' (Bin Plus (Dot (V 1) ''a'') (Bin Plus (K (JStr '''')) (V 2)))) (V 1))), Do (SetV 4 (Meth (V 0) ''ih'' [])), When (V 4) [Do (Call ''hhb'' [Seq (Put (V 1) ''a'' (Bin Plus (Dot (V 1) ''a'') (K (JStr '' '')))) (V 1), V 4]), Ret (K JUndef)] [], When (Call ''RD'' [V 0, K (JNum 362)]) [Do (SetV 9 (Dot (Call ''JD'' [V 0, K (JNum 157)]) ''a'')), When (V 9) [Do (Call ''hhb'' [Seq (Put (V 1) ''a'' (Bin Plus (Dot (V 1) ''a'') (K (JStr '' '')))) (V 1), V 9]), Ret (K JUndef)] []] [], Do (SetV 6 (New ''uKd'' [Meth (V 0) ''jh'' []])), Loop (Neg (Loose (Dot (V 6) ''e'') (Meth (Dot (V 6) ''i'') ''gc'' []))) [Do (SetV 5 (Call ''JD'' [Call ''sKd'' [V 6], K (JNum 157)])), Do (SetV 9 (Dot (V 5) ''a'')), When (V 9) [Do (Call ''hhb'' [Seq (Put (V 1) ''a'' (Bin Plus (Dot (V 1) ''a'') (K (JStr '' '')))) (V 1), V 9]), Ret (K JUndef)] []] [], When (Call ''RD'' [V 0, K (JNum 271)]) [Do (SetV 3 (Call ''JD'' [V 0, K (JNum 85)])), Do (And (Neg (Dot (V 3) ''b'')) (Put (V 3) ''b'' (New ''jhe'' [G ''O3'', V 3, K (JNum 4), K (JNum 7)]))), When (And (Neg (Loose (Dot (Dot (V 3) ''b'') ''i'') (K (JNum 0)))) (Seq (And (Neg (Dot (V 3) ''c'')) (Put (V 3) ''c'' (New ''jhe'' [G ''O3'', V 3, K (JNum 5), K (JNum 8)]))) (Neg (Loose (Dot (Dot (V 3) ''c'') ''i'') (K (JNum 0)))))) [Do (Put (V 1) ''a'' (Bin Plus (Dot (V 1) ''a'') (K (JStr '' ('')))), Do (SetV 7 (New ''DKd'' [Seq (And (Neg (Dot (V 3) ''b'')) (Put (V 3) ''b'' (New ''jhe'' [G ''O3'', V 3, K (JNum 4), K (JNum 7)]))) (Dot (V 3) ''b'')])), Loop (Neg (Loose (Dot (V 7) ''e'') (Meth (Dot (V 7) ''i'') ''gc'' []))) [Do (And (Bin Gt (Dot (V 7) ''e'') (K (JNum 0))) (Seq (Put (V 1) ''a'' (Bin Plus (Dot (V 1) ''a'') (G ''Ete''))) (V 1))), Do (Call ''cqd'' [Call ''JD'' [Call ''sKd'' [V 7], K (JNum 174)], V 1])] [], Do (Put (V 1) ''a'' (Bin Plus (Dot (V 1) ''a'') (G ''xye''))), Do (SetV 8 (New ''DKd'' [Seq (And (Neg (Dot (V 3) ''c'')) (Put (V 3) ''c'' (New ''jhe'' [G ''O3'', V 3, K (JNum 5), K (JNum 8)]))) (Dot (V 3) ''c'')])), Loop (Neg (Loose (Dot (V 8) ''e'') (Meth (Dot (V 8) ''i'') ''gc'' []))) [Do (And (Bin Gt (Dot (V 8) ''e'') (K (JNum 0))) (Seq (Put (V 1) ''a'' (Bin Plus (Dot (V 1) ''a'') (G ''Ete''))) (V 1))), Do (Call ''cqd'' [Call ''JD'' [Call ''sKd'' [V 8], K (JNum 174)], V 1])] [], Do (Put (V 1) ''a'' (Bin Plus (Dot (V 1) ''a'') (K (JStr '')''))))] []] []],
    fn ''cNb'' 3 8 [Do (SetV 8 (New ''uKd'' [Seq (And (Neg (Dot (V 0) ''a'')) (Put (V 0) ''a'' (New ''P3d'' [G ''T3'', V 0, K (JNum 10), K (JNum 11)]))) (Dot (V 0) ''a'')])), Loop (Neg (Loose (Dot (V 8) ''e'') (Meth (Dot (V 8) ''i'') ''gc'' []))) [Do (SetV 7 (Call ''JD'' [Call ''sKd'' [V 8], K (JNum 26)])), Do (SetV 4 (New ''Yr'' [Call ''Dr'' [Meth (Dot (Call ''SEd'' [V 7]) ''a'') ''Jc'' [], New ''Dl'' []]])), Loop (Call ''Wr'' [V 4]) [Do (SetV 3 (Call ''JD'' [Call ''Xr'' [V 4], K (JNum 85)])), Do (And (Neg (Dot (V 3) ''b'')) (Put (V 3) ''b'' (New ''jhe'' [G ''O3'', V 3, K (JNum 4), K (JNum 7)]))), When (Neg (And (Bin Le (Dot (Dot (V 3) ''b'') ''i'') (K (JNum 1))) (Seq (And (Neg (Dot (V 3) ''c'')) (Put (V 3) ''c'' (New ''jhe'' [G ''O3'', V 3, K (JNum 5), K (JNum 8)]))) (Bin Le (Dot (Dot (V 3) ''c'') ''i'') (K (JNum 1)))))) [Raise (Call ''Lcb'' [New ''Fbd'' [K (JStr ''Graph must not contain hyperedges.'')]])] [], When (And (Neg (Call ''Jwd'' [V 3])) (Neg (Loose (V 7) (Call ''TEd'' [Call ''JD'' [Call ''fGd'' [Seq (And (Neg (Dot (V 3) ''c'')) (Put (V 3) ''c'' (New ''jhe'' [G ''O3'', V 3, K (JNum 5), K (JNum 8)]))) (Dot (V 3) ''c''), K (JNum 0)], K (JNum 84)]])))) [Do (SetV 9 (New ''GNb'' [])), Do (Call ''mNb'' [V 9, V 3]), Do (Call ''rNb'' [V 9, Seq (Call ''lPb'' []) (G ''jPb''), V 3]), Do (Call ''DNb'' [V 9, Call ''JD'' [Call ''Wd'' [Call ''ysb'' [Dot (V 2) ''f'', V 7]], K (JNum 155)]]), Do (Call ''ENb'' [V 9, Call ''JD'' [Call ''ejb'' [V 2, Call ''TEd'' [Call ''JD'' [Call ''fGd'' [Seq (And (Neg (Dot (V 3) ''c'')) (Put (V 3) ''c'' (New ''jhe'' [G ''O3'', V 3, K (JNum 5), K (JNum 8)]))) (Dot (V 3) ''c''), K (JNum 0)], K (JNum 84)]]], K (JNum 155)]]), Do (Call ''_lb'' [Dot (V 1) ''c'', V 9]), Do (SetV 6 (New ''uKd'' [Seq (And (Neg (Dot (V 3) ''n'')) (Put (V 3) ''n'' (New ''P3d'' [G ''S3'', V 3, K (JNum 1), K (JNum 7)]))) (Dot (V 3) ''n'')])), Loop (Neg (Loose (Dot (V 6) ''e'') (Meth (Dot (V 6) ''i'') ''gc'' []))) [Do (SetV 5 (Call ''JD'' [Call ''sKd'' [V 6], K (JNum 157)])), Do (SetV 10 (New ''MNb'' [V 9, Dot (V 5) ''a''])), Do (Call ''mNb'' [V 10, V 5]), Do (Call ''rNb'' [V 10, G ''jPb'', V 5]), Do (Put (Dot (V 10) ''e'') ''a'' (Meth (Dot (G ''$wnd'') ''Math'') ''max'' [Dot (V 5) ''g'', K (JNum 1)])), Do (Put (Dot (V 10) ''e'') ''b'' (Meth (Dot (G ''$wnd'') ''Math'') ''max'' [Dot (V 5) ''f'', K (JNum 1)])), Do (Call ''LNb'' [V 10]), Do (Call ''_lb'' [Dot (V 1) ''d'', V 10])] []] []] []] []],
    fn ''O8b'' 3 10 [Do (Meth (V 2) ''Tg'' [K (JStr ''Node promotion heuristic''), K (JNum 1)]), Do (Put (V 0) ''i'' (V 1)), Do (Put (V 0) ''r'' (Call ''JD'' [Call ''oNb'' [V 1, Seq (Call ''nyc'' []) (G ''Jwc'')], K (JNum 243)])), Do (Cond (And (Neg (Loose (Dot (V 0) ''r'') (Seq (Call ''Rzc'' []) (G ''Izc'')))) (Neg (Loose (Dot (V 0) ''r'') (G ''Jzc'')))) (Call ''M8b'' [V 0]) (Call ''N8b'' [V 0])), Do (SetV 10 (Dot (Call ''JD'' [Call ''oNb'' [Dot (V 0) ''i'', G ''Iwc''], K (JNum 15)]) ''a'')), Do (SetV 5 (New ''g9b'' [])), Switch (Dot (Dot (V 0) ''r'') ''g'') [(Some (JNum 2), []), (Some (JNum 1), [Do (Call ''R8b'' [V 0, V 5]), Break]), (Some (JNum 3), [Do (Put (V 0) ''r'' (G ''Qzc'')), Do (Call ''R8b'' [V 0, V 5]), Do (SetV 8 (K (JNum 0))), Do (SetV 7 (New ''Kmb'' [Dot (V 0) ''b''])), Loop (Bin Lt (Dot (V 7) ''a'') (Dot (Dot (Dot (V 7) ''c'') ''c'') ''length'')) [Do (SetV 6 (Call ''JD'' [Call ''Imb'' [V 7], K (JNum 15)])), Do (SetV 8 (Meth (Dot (G ''$wnd'') ''Math'') ''max'' [V 8, Dot (V 6) ''a'']))] [], When (Bin Gt (V 8) (Dot (V 0) ''k'')) [Do (Put (V 0) ''r'' (G ''Kzc'')), Do (Call ''R8b'' [V 0, V 5])] [], Break]), (Some (JNum 4), [Do (Put (V 0) ''r'' (G ''Qzc'')), Do (Call ''R8b'' [V 0, V 5]), Do (SetV 9 (K (JNum 0))), Do (SetV 4 (New ''Kmb'' [Dot (V 0) ''c''])), Loop (Bin Lt (Dot (V 4) ''a'') (Dot (Dot (Dot (V 4) ''c'') ''c'') ''length'')) [Do (SetV 3 (Call ''MD'' [Call ''Imb'' [V 4]])), Do (SetV 9 (Meth (Dot (G ''$wnd'') ''Math'') ''max'' [V 9, Seq (Call ''NDb'' [V 3]) (V 3)]))] [], When (Bin Gt (V 9) (Dot (V 0) ''n'')) [Do (Put (V 0) ''r'' (G ''Nzc'')), Do (Call ''R8b'' [V 0, V 5])] [], Break]), (Some (JNum 6), [Do (SetV 12 (Call ''YD'' [Meth (Dot (G ''$wnd'') ''Math'') ''ceil'' [Bin Divide (Bin Times (Dot (Dot (V 0) ''g'') ''length'') (V 10)) (K (JNum 100))]])), Do (Call ''R8b'' [V 0, New ''j9b'' [V 12]]), Break]), (Some (JNum 5), [Do (SetV 11 (Call ''YD'' [Meth (Dot (G ''$wnd'') ''Math'') ''ceil'' [Bin Divide (Bin Times (Dot (V 0) ''e'') (V 10)) (K (JNum 100))]])), Do (Call ''R8b'' [V 0, New ''m9b'' [V 11]]), Break]), (Some (JNum 8), [Do (Call ''L8b'' [V 0, K (JBool True)]), Break]), (Some (JNum 9), [Do (Call ''L8b'' [V 0, K (JBool False)]), Break]), (None, [Do (Call ''R8b'' [V 0, V 5])])], Do (Cond (And (Neg (Loose (Dot (V 0) ''r'') (G ''Izc''))) (Neg (Loose (Dot (V 0) ''r'') (G ''Jzc'')))) (Call ''S8b'' [V 0, V 1]) (Call ''T8b'' [V 0, V 1])), Do (Meth (V 2) ''Ug'' [])]]"

definition code_6139_6142 :: "(string \<times> jfun) list" where
  "code_6139_6142 = [
    fn ''iHb'' 2 18 [Do (SetV 11 (New ''fJb'' [V 0])), Do (Call ''EKb'' [V 11, Neg (Or (Loose (V 1) (Seq (Call ''Djd'' []) (G ''Cjd''))) (Loose (V 1) (G ''yjd'')))]), Do (SetV 10 (Dot (V 11) ''a'')), Do (SetV 12 (New ''gZb'' [])), Do (Seq (Seq (SetV 4 (Seq (Call ''CHb'' []) (Call ''WC'' [Call ''OC'' [G ''hN'', K (JNum 1)], G ''xue'', K (JNum 237), K (JNum 0), NewArr [G ''zHb'', G ''AHb'', G ''BHb'']]))) (SetV 6 (K (JNum 0)))) (SetV 8 (Dot (V 4) ''length''))), Loop (Bin Lt (V 6) (V 8)) [Do (SetV 2 (Idx (V 4) (V 6))), Do (SetV 9 (Call ''THb'' [V 10, G ''zHb'', V 2])), Do (And (Neg (Neg (V 9))) (Put (V 12) ''d'' (Meth (Dot (G ''$wnd'') ''Math'') ''max'' [Dot (V 12) ''d'', Meth (V 9) ''ff'' []])))] [Do (SetV 6 (Bin Minus (V 6) (K (JNum (- 1)))))], Do (Seq (Seq (SetV 3 (Call ''WC'' [Call ''OC'' [G ''hN'', K (JNum 1)], G ''xue'', K (JNum 237), K (JNum 0), NewArr [G ''zHb'', G ''AHb'', G ''BHb'']])) (SetV 5 (K (JNum 0)))) (SetV 7 (Dot (V 3) ''length''))), Loop (Bin Lt (V 5) (V 7)) [Do (SetV 2 (Idx (V 3) (V 5))), Do (SetV 9 (Call ''THb'' [V 10, G ''BHb'', V 2])), Do (And (Neg (Neg (V 9))) (Put (V 12) ''a'' (Meth (Dot (G ''$wnd'') ''Math'') ''max'' [Dot (V 12) ''a'', Meth (V 9) ''ff'' []])))] [Do (SetV 5 (Bin Minus (V 5) (K (JNum (- 1)))))], Do (Seq (Seq (SetV 15 (Call ''WC'' [Call ''OC'' [G ''hN'', K (JNum 1)], G ''xue'', K (JNum 237), K (JNum 0), NewArr [G ''zHb'', G ''AHb'', G ''BHb'']])) (SetV 17 (K (JNum 0)))) (SetV 19 (Dot (V 15) ''length''))), Loop (Bin Lt (V 17) (V 19)) [Do (SetV 13 (Idx (V 15) (V 17))), Do (SetV 9 (Call ''THb'' [V 10, V 13, G ''zHb''])), Do (And (Neg (Neg (V 9))) (Put (V 12) ''b'' (Meth (Dot (G ''$wnd'') ''Math'') ''max'' [Dot (V 12) ''b'', Meth (V 9) ''gf'' []])))] [Do (SetV 17 (Bin Minus (V 17) (K (JNum (- 1)))))], Do (Seq (Seq (SetV 14 (Call ''WC'' [Call ''OC'' [G ''hN'', K (JNum 1)], G ''xue'', K (JNum 237), K (JNum 0), NewArr [G ''zHb'', G ''AHb'', G ''BHb'']])) (SetV 16 (K (JNum 0)))) (SetV 18 (Dot (V 14) ''length''))), Loop (Bin Lt (V 16) (V 18)) [Do (SetV 13 (Idx (V 14) (V 16))), Do (SetV 9 (Call ''THb'' [V 10, V 13, G ''BHb''])), Do (And (Neg (Neg (V 9))) (Put (V 12) ''c'' (Meth (Dot (G ''$wnd'') ''Math'') ''max'' [Dot (V 12) ''c'', Meth (V 9) ''gf'' []])))] [Do (SetV 16 (Bin Minus (V 16) (K (JNum (- 1)))))], When (Bin Gt (Dot (V 12) ''d'') (K (JNum 0))) [Do (Put (V 12) ''d'' (Bin Plus (Dot (V 12) ''d'') (Dot (Dot (V 10) ''n'') ''d''))), Do (Put (V 12) ''d'' (Bin Plus (Dot (V 12) ''d'') (Dot (V 10) ''d'')))] [], When (Bin Gt (Dot (V 12) ''a'') (K (JNum 0))) [Do (Put (V 12) ''a'' (Bin Plus (Dot (V 12) ''a'') (Dot (Dot (V 10) ''n'') ''a''))), Do (Put (V 12) ''a'' (Bin Plus (Dot (V 12) ''a'') (Dot (V 10) ''d'')))] [], When (Bin Gt (Dot (V 12) ''b'') (K (JNum 0))) [Do (Put (V 12) ''b'' (Bin Plus (Dot (V 12) ''b'') (Dot (Dot (V 10) ''n'') ''b''))), Do (Put (V 12) ''b'' (Bin Plus (Dot (V 12) ''b'') (Dot (V 10) ''d'')))] [], When (Bin Gt (Dot (V 12) ''c'') (K (JNum 0))) [Do (Put (V 12) ''c'' (Bin Plus (Dot (V 12) ''c'') (Dot (Dot (V 10) ''n'') ''c''))), Do (Put (V 12) ''c'' (Bin Plus (Dot (V 12) ''c'') (Dot (V 10) ''d'')))] [], Ret (V 12)],
    fn ''g3b'' 3 12 [Do (SetV 12 (Dot (V 2) ''d'')), Do (SetV 11 (Dot (V 2) ''c'')), Do (SetV 5 (New ''lgd'' [Bin Plus (Bin Plus (Dot (Dot (V 2) ''f'') ''a'') (Dot (Dot (V 2) ''d'') ''b'')) (Dot (Dot (V 2) ''d'') ''c''), Bin Plus (Bin Plus (Dot (Dot (V 2) ''f'') ''b'') (Dot (Dot (V 2) ''d'') ''d'')) (Dot (Dot (V 2) ''d'') ''a'')])), Do (SetV 6 (Dot (V 5) ''b'')), Do (SetV 9 (New ''Kmb'' [Dot (V 0) ''a''])), Loop (Bin Lt (Dot (V 9) ''a'') (Dot (Dot (Dot (V 9) ''c'') ''c'') ''length'')) [Do (SetV 7 (Call ''JD'' [Call ''Imb'' [V 9], K (JNum 9)])), When (Neg (Loose (Dot (V 7) ''k'') (Seq (Call ''$Yb'' []) (G ''TYb'')))) [Continue] [], Do (SetV 3 (Call ''JD'' [Call ''oNb'' [V 7, Seq (Call ''Wrc'' []) (G ''$qc'')], K (JNum 64)])), Do (SetV 4 (Call ''JD'' [Call ''oNb'' [V 7, G ''_qc''], K (JNum 8)])), Do (SetV 10 (Dot (V 7) ''n'')), Switch (Dot (V 3) ''g'') [(Some (JNum 2), [Do (Put (V 10) ''a'' (Bin Minus (Bin Plus (Dot (Dot (V 2) ''f'') ''a'') (Dot (V 12) ''c'')) (Dot (V 11) ''a''))), Break]), (Some (JNum 4), [Do (Put (V 10) ''a'' (Bin Minus (Minus1 (Dot (V 11) ''a'')) (Dot (V 12) ''b'')))])], Do (SetV 14 (K (JNum 0))), Switch (Dot (V 3) ''g'') [(Some (JNum 2), []), (Some (JNum 4), [When (Loose (V 1) (Seq (Call ''Mld'' []) (G ''Ild''))) [Do (SetV 13 (Call ''Ueb'' [Call ''MD'' [Call ''oNb'' [V 7, G ''Drc'']]])), Do (Put (V 10) ''b'' (Bin Minus (Bin Times (Dot (V 5) ''b'') (V 13)) (Dot (Call ''JD'' [Call ''oNb'' [V 7, Seq (Call ''nyc'' []) (G ''oxc'')], K (JNum 8)]) ''b''))), Do (SetV 14 (Bin Plus (Dot (V 10) ''b'') (Dot (V 4) ''b''))), Do (Call ''zYb'' [V 7, K (JBool False), K (JBool True)])] [When (Loose (V 1) (G ''Hld'')) [Do (Put (V 10) ''b'' (Bin Minus (Call ''Ueb'' [Call ''MD'' [Call ''oNb'' [V 7, G ''Drc'']]]) (Dot (Call ''JD'' [Call ''oNb'' [V 7, Seq (Call ''nyc'' []) (G ''oxc'')], K (JNum 8)]) ''b''))), Do (SetV 14 (Bin Plus (Dot (V 10) ''b'') (Dot (V 4) ''b''))), Do (Call ''zYb'' [V 7, K (JBool False), K (JBool True)])] []]])], Do (SetV 6 (Meth (Dot (G ''$wnd'') ''Math'') ''max'' [V 6, V 14]))] [], Do (Put (Dot (V 2) ''f'') ''b'' (Bin Plus (Dot (Dot (V 2) ''f'') ''b'') (Bin Minus (V 6) (Dot (V 5) ''b'')))), Do (SetV 8 (New ''Kmb'' [Dot (V 0) ''a''])), Loop (Bin Lt (Dot (V 8) ''a'') (Dot (Dot (Dot (V 8) ''c'') ''c'') ''length'')) [Do (SetV 7 (Call ''JD'' [Call ''Imb'' [V 8], K (JNum 9)])), When (Neg (Loose (Dot (V 7) ''k'') (Seq (Call ''$Yb'' []) (G ''TYb'')))) [Continue] [], Do (SetV 3 (Call ''JD'' [Call ''oNb'' [V 7, Seq (Call ''Wrc'' []) (G ''$qc'')], K (JNum 64)])), Do (SetV 10 (Dot (V 7) ''n'')), Switch (Dot (V 3) ''g'') [(Some (JNum 1), [Do (Put (V 10) ''b'' (Bin Minus (Minus1 (Dot (V 11) ''b'')) (Dot (V 12) ''d''))), Break]), (Some (JNum 3), [Do (Put (V 10) ''b'' (Bin Minus (Bin Plus (Dot (Dot (V 2) ''f'') ''b'') (Dot (V 12) ''a'')) (Dot (V 11) ''b'')))])]] []],
    fn ''SKb'' 2 16 [Do (SetV 10 (Call ''JD'' [Call ''JD'' [Call ''Qc'' [Dot (V 0) ''r'', V 1], K (JNum 22)], K (JNum 83)])), When (Or (Or (Bin Le (Meth (V 10) ''gc'' []) (K (JNum 2))) (Loose (V 1) (Seq (Call ''Bmd'' []) (G ''gmd'')))) (Loose (V 1) (Seq (Call ''Bmd'' []) (G ''Amd'')))) [Do (Call ''WKb'' [V 0, V 1]), Ret (K JUndef)] [], Do (SetV 15 (Meth (Dot (V 0) ''u'') ''Gc'' [Seq (Call ''$ld'' []) (G ''Zld'')])), Do (SetV 2 (Cond (Loose (V 1) (Seq (Call ''Bmd'' []) (G ''hmd''))) (Seq (Call ''RLb'' []) (G ''QLb'')) (Seq (Call ''RLb'' []) (G ''NLb'')))), Do (SetV 17 (Cond (Loose (V 1) (G ''hmd'')) (Seq (Call ''$Ib'' []) (G ''XIb'')) (Seq (Call ''$Ib'' []) (G ''ZIb'')))), Do (SetV 3 (Call ''zLb'' [Call ''ELb'' [V 2], Dot (V 0) ''s''])), Do (SetV 16 (Cond (Loose (V 1) (G ''hmd'')) (G ''Cve'') (G ''Dve''))), Do (SetV 9 (Meth (V 10) ''Jc'' [])), Loop (Meth (V 9) ''Ob'' []) [Do (SetV 7 (Call ''JD'' [Meth (V 9) ''Pb'' [], K (JNum 115)])), When (Or (Neg (Dot (V 7) ''c'')) (Bin Le (Dot (Dot (Dot (Dot (V 7) ''c'') ''d'') ''c'') ''length'') (K (JNum 0)))) [Continue] [], Do (SetV 14 (Meth (Dot (V 7) ''b'') ''Kf'' [])), Do (SetV 13 (Dot (V 7) ''e'')), Do (SetV 11 (Dot (V 7) ''c'')), Do (SetV 12 (Dot (V 11) ''i'')), Do (Put (V 12) ''b'' (Seq (SetV 5 (Dot (V 11) ''n'')) (Bin Plus (Bin Plus (Dot (Dot (V 11) ''e'') ''a'') (Dot (V 5) ''b'')) (Dot (V 5) ''c'')))), Do (Put (V 12) ''a'' (Seq (SetV 6 (Dot (V 11) ''n'')) (Bin Plus (Bin Plus (Dot (Dot (V 11) ''e'') ''b'') (Dot (V 6) ''d'')) (Dot (V 6) ''a'')))), When (V 15) [Do (Put (V 12) ''c'' (Bin Minus (Bin Minus (Dot (V 13) ''a'') (Seq (SetV 4 (Dot (V 11) ''n'')) (Bin Plus (Bin Plus (Dot (Dot (V 11) ''e'') ''a'') (Dot (V 4) ''b'')) (Dot (V 4) ''c'')))) (Dot (V 0) ''s''))), Do (SetV 15 (K (JBool False)))] [Do (Put (V 12) ''c'' (Bin Plus (Bin Plus (Dot (V 13) ''a'') (Dot (V 14) ''a'')) (Dot (V 0) ''s'')))], Do (Call ''Pub'' [V 17, G ''Vwe'']), Do (Put (V 11) ''f'' (V 17)), Do (Call ''uIb'' [V 11, Seq (Call ''hIb'' []) (G ''gIb'')]), Do (Call ''_lb'' [Dot (V 3) ''d'', New ''XLb'' [V 12, Call ''xLb'' [V 3, V 12]]]), Do (SetV 16 (Cond (Loose (V 1) (G ''hmd'')) (Meth (Dot (G ''$wnd'') ''Math'') ''min'' [V 16, Dot (V 13) ''b'']) (Meth (Dot (G ''$wnd'') ''Math'') ''max'' [V 16, Bin Plus (Dot (V 13) ''b'') (Dot (Meth (Dot (V 7) ''b'') ''Kf'' []) ''b'')])))] [], Do (SetV 16 (Bin Plus (V 16) (Cond (Loose (V 1) (G ''hmd'')) (Minus1 (Dot (V 0) ''t'')) (Dot (V 0) ''t'')))), Do (Call ''yLb'' [Seq (Put (V 3) ''e'' (V 16)) (V 3)]), Do (SetV 8 (Meth (V 10) ''Jc'' [])), Loop (Meth (V 8) ''Ob'' []) [Do (SetV 7 (Call ''JD'' [Meth (V 8) ''Pb'' [], K (JNum 115)])), When (Or (Neg (Dot (V 7) ''c'')) (Bin Le (Dot (Dot (Dot (Dot (V 7) ''c'') ''d'') ''c'') ''length'') (K (JNum 0)))) [Continue] [], Do (SetV 12 (Dot (Dot (V 7) ''c'') ''i'')), Do (Put (V 12) ''c'' (Bin Minus (Dot (V 12) ''c'') (Dot (Dot (V 7) ''e'') ''a''))), Do (Put (V 12) ''d'' (Bin Minus (Dot (V 12) ''d'') (Dot (Dot (V 7) ''e'') ''b'')))] []],
    fn ''hWb'' 3 17 [Do (SetV 4 (New ''lmb'' [])), Do (SetV 15 (New ''Kmb'' [Dot (V 1) ''a''])), Loop (Bin Lt (Dot (V 15) ''a'') (Dot (Dot (Dot (V 15) ''c'') ''c'') ''length'')) [Do (SetV 14 (Call ''JD'' [Call ''Imb'' [V 15], K (JNum 9)])), Do (SetV 13 (Dot (V 14) ''e'')), When (V 13) [Do (SetV 3 (Call ''hWb'' [V 0, V 13, V 14])), Do (Call ''bmb'' [V 4, V 3]), Do (Call ''eWb'' [V 0, V 13, V 14]), When (Meth (Call ''JD'' [Call ''oNb'' [V 13, Seq (Call ''Wrc'' []) (G ''brc'')], K (JNum 22)]) ''Gc'' [Seq (Call ''Xpc'' []) (G ''Qpc'')]) [Do (SetV 18 (Call ''JD'' [Call ''oNb'' [V 14, Seq (Call ''nyc'' []) (G ''qxc'')], K (JNum 102)])), Do (SetV 12 (Meth (Call ''JD'' [Call ''oNb'' [V 14, G ''txc''], K (JNum 182)]) ''Gc'' [Seq (Call ''$ld'' []) (G ''Wld'')])), Do (SetV 17 (New ''Kmb'' [Dot (V 14) ''j''])), Loop (Bin Lt (Dot (V 17) ''a'') (Dot (Dot (Dot (V 17) ''c'') ''c'') ''length'')) [Do (SetV 16 (Call ''JD'' [Call ''Imb'' [V 17], K (JNum 12)])), Do (SetV 5 (Call ''JD'' [Call ''ejb'' [Dot (V 0) ''b'', V 16], K (JNum 9)])), When (Neg (V 5)) [Do (SetV 5 (Call ''MXb'' [V 16, V 18, Dot (V 16) ''j'', Minus1 (Bin Minus (Dot (Dot (Dot (V 16) ''e'') ''c'') ''length'') (Dot (Dot (Dot (V 16) ''g'') ''c'') ''length'')), K JNull, New ''jgd'' [], Dot (V 16) ''o'', Call ''JD'' [Call ''oNb'' [V 13, G ''bwc''], K (JNum 86)], V 13])), Do (Call ''rNb'' [V 5, G ''urc'', V 16]), Do (Call ''hjb'' [Dot (V 0) ''b'', V 16, V 5]), Do (Call ''_lb'' [Dot (V 13) ''a'', V 5])] [], Do (SetV 6 (Call ''JD'' [Call ''dmb'' [Dot (V 5) ''j'', K (JNum 0)], K (JNum 12)])), Do (SetV 10 (New ''Kmb'' [Dot (V 16) ''f''])), Loop (Bin Lt (Dot (V 10) ''a'') (Dot (Dot (Dot (V 10) ''c'') ''c'') ''length'')) [Do (SetV 9 (Call ''JD'' [Call ''Imb'' [V 10], K (JNum 70)])), Do (SetV 7 (New ''cYb'' [])), Do (Put (Dot (V 7) ''o'') ''a'' (Dot (Dot (V 9) ''o'') ''a'')), Do (Put (Dot (V 7) ''o'') ''b'' (Dot (Dot (V 9) ''o'') ''b'')), Do (Call ''_lb'' [Dot (V 6) ''f'', V 7]), When (Neg (V 12)) [Do (SetV 19 (Dot (V 16) ''j'')), Do (SetV 11 (K (JNum 0))), Do (And (Call ''amd'' [Call ''JD'' [Call ''oNb'' [V 14, G ''txc''], K (JNum 22)]]) (SetV 11 (Call ''Spd'' [Dot (V 9) ''n'', Dot (V 9) ''o'', Dot (V 16) ''o'', K (JNum 0), V 19]))), Do (Cond (Or (Loose (V 18) (Seq (Call ''Mld'' []) (G ''Kld''))) (Meth (Seq (Call ''Bmd'' []) (G ''lmd'')) ''Gc'' [V 19])) (Put (Dot (V 7) ''o'') ''a'' (V 11)) (Put (Dot (V 7) ''o'') ''b'' (V 11)))] []] []] []] []] []] [], Do (SetV 8 (New ''lmb'' [])), Do (Call ''dWb'' [V 0, V 1, V 2, V 4, V 8]), Do (And (Neg (Neg (V 2))) (Call ''fWb'' [V 0, V 1, V 2, V 8])), Ret (V 8)]]"

definition code_6144_6145 :: "(string \<times> jfun) list" where
  "code_6144_6145 = [
    fn ''p2b'' 1 16 [Do (SetV 14 (New ''Kmb'' [V 0])), Loop (Bin Lt (Dot (V 14) ''a'') (Dot (Dot (Dot (V 14) ''c'') ''c'') ''length'')) [Do (SetV 13 (Call ''JD'' [Call ''Imb'' [V 14], K (JNum 9)])), Do (Call ''q2b'' [Dot (V 13) ''n'']), Do (Call ''q2b'' [Dot (V 13) ''o'']), Do (Call ''r2b'' [Dot (V 13) ''f'']), Do (Call ''u2b'' [V 13]), Do (Call ''w2b'' [V 13]), Do (SetV 16 (New ''Kmb'' [Dot (V 13) ''j''])), Loop (Bin Lt (Dot (V 16) ''a'') (Dot (Dot (Dot (V 16) ''c'') ''c'') ''length'')) [Do (SetV 15 (Call ''JD'' [Call ''Imb'' [V 16], K (JNum 12)])), Do (Call ''q2b'' [Dot (V 15) ''n'']), Do (Call ''q2b'' [Dot (V 15) ''a'']), Do (Call ''q2b'' [Dot (V 15) ''o'']), Do (Call ''xZb'' [V 15, Call ''v2b'' [Dot (V 15) ''j'']]), Do (SetV 5 (Call ''JD'' [Call ''oNb'' [V 15, Seq (Call ''nyc'' []) (G ''rxc'')], K (JNum 15)])), Do (And (Neg (Neg (V 5))) (Call ''rNb'' [V 15, G ''rxc'', Call ''Cfb'' [Minus1 (Dot (V 5) ''a'')]])), Do (SetV 4 (New ''Kmb'' [Dot (V 15) ''g''])), Loop (Bin Lt (Dot (V 4) ''a'') (Dot (Dot (Dot (V 4) ''c'') ''c'') ''length'')) [Do (SetV 3 (Call ''JD'' [Call ''Imb'' [V 4], K (JNum 17)])), Do (SetV 2 (Call ''Ztb'' [Dot (V 3) ''a'', K (JNum 0)])), Loop (Neg (Loose (Dot (V 2) ''b'') (Dot (Dot (V 2) ''d'') ''c''))) [Do (SetV 1 (Call ''JD'' [Call ''lub'' [V 2], K (JNum 8)])), Do (Call ''q2b'' [V 1])] [], Do (SetV 8 (Call ''JD'' [Call ''oNb'' [V 3, G ''Bwc''], K (JNum 79)])), When (V 8) [Do (SetV 7 (Call ''Ztb'' [V 8, K (JNum 0)])), Loop (Neg (Loose (Dot (V 7) ''b'') (Dot (Dot (V 7) ''d'') ''c''))) [Do (SetV 6 (Call ''JD'' [Call ''lub'' [V 7], K (JNum 8)])), Do (Call ''q2b'' [V 6])] []] [], Do (SetV 11 (New ''Kmb'' [Dot (V 3) ''b''])), Loop (Bin Lt (Dot (V 11) ''a'') (Dot (Dot (Dot (V 11) ''c'') ''c'') ''length'')) [Do (SetV 9 (Call ''JD'' [Call ''Imb'' [V 11], K (JNum 70)])), Do (Call ''q2b'' [Dot (V 9) ''n'']), Do (Call ''q2b'' [Dot (V 9) ''o''])] []] [], Do (SetV 12 (New ''Kmb'' [Dot (V 15) ''f''])), Loop (Bin Lt (Dot (V 12) ''a'') (Dot (Dot (Dot (V 12) ''c'') ''c'') ''length'')) [Do (SetV 9 (Call ''JD'' [Call ''Imb'' [V 12], K (JNum 70)])), Do (Call ''q2b'' [Dot (V 9) ''n'']), Do (Call ''q2b'' [Dot (V 9) ''o''])] []] [], When (Loose (Dot (V 13) ''k'') (Seq (Call ''$Yb'' []) (G ''TYb''))) [Do (Call ''rNb'' [V 13, Seq (Call ''Wrc'' []) (G ''$qc''), Call ''v2b'' [Call ''JD'' [Call ''oNb'' [V 13, G ''$qc''], K (JNum 64)]]]), Do (Call ''t2b'' [V 13])] [], Do (SetV 10 (New ''Kmb'' [Dot (V 13) ''b''])), Loop (Bin Lt (Dot (V 10) ''a'') (Dot (Dot (Dot (V 10) ''c'') ''c'') ''length'')) [Do (SetV 9 (Call ''JD'' [Call ''Imb'' [V 10], K (JNum 70)])), Do (Call ''u2b'' [V 9]), Do (Call ''q2b'' [Dot (V 9) ''o'']), Do (Call ''q2b'' [Dot (V 9) ''n''])] []] []],
    fn ''AKb'' 1 7 [Do (Call ''uKb'' []), Do (SetV 3 (Dot (Dot (V 0) ''f'') ''n'')), Do (SetV 6 (Meth (Dot (Call ''ii'' [Dot (V 0) ''r'']) ''a'') ''nc'' [])), Loop (Meth (V 6) ''Ob'' []) [Do (SetV 5 (Call ''JD'' [Meth (V 6) ''Pb'' [], K (JNum 115)])), Do (SetV 4 (K (JNum 0))), When (Meth (Dot (V 5) ''b'') ''nf'' [Seq (Call ''vjd'' []) (G ''Eid'')]) [Do (SetV 4 (Call ''Ueb'' [Call ''MD'' [Meth (Dot (V 5) ''b'') ''mf'' [G ''Eid'']]])), When (Bin Lt (V 4) (K (JNum 0))) [Switch (Dot (Meth (Dot (V 5) ''b'') ''$f'' []) ''g'') [(Some (JNum 1), [Do (Put (V 3) ''d'' (Meth (Dot (G ''$wnd'') ''Math'') ''max'' [Dot (V 3) ''d'', Minus1 (V 4)])), Break]), (Some (JNum 3), [Do (Put (V 3) ''a'' (Meth (Dot (G ''$wnd'') ''Math'') ''max'' [Dot (V 3) ''a'', Minus1 (V 4)])), Break]), (Some (JNum 2), [Do (Put (V 3) ''c'' (Meth (Dot (G ''$wnd'') ''Math'') ''max'' [Dot (V 3) ''c'', Minus1 (V 4)])), Break]), (Some (JNum 4), [Do (Put (V 3) ''b'' (Meth (Dot (G ''$wnd'') ''Math'') ''max'' [Dot (V 3) ''b'', Minus1 (V 4)]))])]] []] [], When (Call ''amd'' [Dot (V 0) ''u'']) [Do (SetV 1 (Call ''Tpd'' [Dot (V 5) ''b'', V 4])), Do (SetV 7 (Neg (Meth (Call ''JD'' [Meth (Dot (V 0) ''e'') ''mf'' [G ''nid''], K (JNum 182)]) ''Gc'' [Seq (Call ''xnd'' []) (G ''ond'')]))), Do (SetV 2 (K (JBool False))), Switch (Dot (Meth (Dot (V 5) ''b'') ''$f'' []) ''g'') [(Some (JNum 1), [Do (SetV 2 (Bin Gt (V 1) (Dot (V 3) ''d''))), Do (Put (V 3) ''d'' (Meth (Dot (G ''$wnd'') ''Math'') ''max'' [Dot (V 3) ''d'', V 1])), When (And (V 7) (V 2)) [Do (Put (V 3) ''d'' (Meth (Dot (G ''$wnd'') ''Math'') ''max'' [Dot (V 3) ''d'', Dot (V 3) ''a''])), Do (Put (V 3) ''a'' (Bin Plus (Dot (V 3) ''d'') (V 4)))] [], Break]), (Some (JNum 3), [Do (SetV 2 (Bin Gt (V 1) (Dot (V 3) ''a''))), Do (Put (V 3) ''a'' (Meth (Dot (G ''$wnd'') ''Math'') ''max'' [Dot (V 3) ''a'', V 1])), When (And (V 7) (V 2)) [Do (Put (V 3) ''a'' (Meth (Dot (G ''$wnd'') ''Math'') ''max'' [Dot (V 3) ''a'', Dot (V 3) ''d''])), Do (Put (V 3) ''d'' (Bin Plus (Dot (V 3) ''a'') (V 4)))] [], Break]), (Some (JNum 2), [Do (SetV 2 (Bin Gt (V 1) (Dot (V 3) ''c''))), Do (Put (V 3) ''c'' (Meth (Dot (G ''$wnd'') ''Math'') ''max'' [Dot (V 3) ''c'', V 1])), When (And (V 7) (V 2)) [Do (Put (V 3) ''c'' (Meth (Dot (G ''$wnd'') ''Math'') ''max'' [Dot (V 3) ''b'', Dot (V 3) ''c''])), Do (Put (V 3) ''b'' (Bin Plus (Dot (V 3) ''c'') (V 4)))] [], Break]), (Some (JNum 4), [Do (SetV 2 (Bin Gt (V 1) (Dot (V 3) ''b''))), Do (Put (V 3) ''b'' (Meth (Dot (G ''$wnd'') ''Math'') ''max'' [Dot (V 3) ''b'', V 1])), When (And (V 7) (V 2)) [Do (Put (V 3) ''b'' (Meth (Dot (G ''$wnd'') ''Math'') ''max'' [Dot (V 3) ''b'', Dot (V 3) ''c''])), Do (Put (V 3) ''c'' (Bin Plus (Dot (V 3) ''b'') (V 4)))] []])]] []] []]]"

definition code_6147_6153 :: "(string \<times> jfun) list" where
  "code_6147_6153 = [
    fn ''o0b'' 1 11 [Do (SetV 9 (New ''Kmb'' [V 0])), Loop (Bin Lt (Dot (V 9) ''a'') (Dot (Dot (Dot (V 9) ''c'') ''c'') ''length'')) [Do (SetV 8 (Call ''JD'' [Call ''Imb'' [V 9], K (JNum 9)])), Do (SetV 6 (Call ''JD'' [Call ''oNb'' [V 8, Seq (Call ''nyc'' []) (G ''Ewc'')], K (JNum 165)])), Do (SetV 5 (K JNull)), Switch (Dot (V 6) ''g'') [(Some (JNum 1), []), (Some (JNum 2), [Do (SetV 5 (Seq (Call ''Qoc'' []) (G ''Poc''))), Break]), (Some (JNum 3), []), (Some (JNum 4), [Do (SetV 5 (Seq (Call ''Qoc'' []) (G ''Noc'')))])], When (V 5) [Do (Call ''rNb'' [V 8, Seq (Call ''Wrc'' []) (G ''Uqc''), Seq (Call ''Qoc'' []) (G ''Poc'')]), Do (Cond (Loose (V 5) (G ''Noc'')) (Call ''r0b'' [V 8, V 6, Seq (Call ''qAc'' []) (G ''nAc'')]) (And (Loose (V 5) (G ''Poc'')) (Call ''r0b'' [V 8, V 6, Seq (Call ''qAc'' []) (G ''oAc'')])))] [When (And (Call ''Old'' [Call ''JD'' [Call ''oNb'' [V 8, G ''qxc''], K (JNum 102)]]) (Neg (Loose (Dot (Dot (Dot (V 8) ''j'') ''c'') ''length'') (K (JNum 0))))) [Do (SetV 1 (K (JBool True))), Do (SetV 11 (New ''Kmb'' [Dot (V 8) ''j''])), Loop (Bin Lt (Dot (V 11) ''a'') (Dot (Dot (Dot (V 11) ''c'') ''c'') ''length'')) [Do (SetV 10 (Call ''JD'' [Call ''Imb'' [V 11], K (JNum 12)])), When (Neg (Or (And (Loose (Dot (V 10) ''j'') (Seq (Call ''Bmd'' []) (G ''gmd''))) (Bin Gt (Bin Minus (Dot (Dot (Dot (V 10) ''e'') ''c'') ''length'') (Dot (Dot (Dot (V 10) ''g'') ''c'') ''length'')) (K (JNum 0)))) (And (Loose (Dot (V 10) ''j'') (G ''Amd'')) (Bin Lt (Bin Minus (Dot (Dot (Dot (V 10) ''e'') ''c'') ''length'') (Dot (Dot (Dot (V 10) ''g'') ''c'') ''length'')) (K (JNum 0)))))) [Do (SetV 1 (K (JBool False))), Break] [], Do (SetV 4 (New ''Kmb'' [Dot (V 10) ''g''])), Loop (Bin Lt (Dot (V 4) ''a'') (Dot (Dot (Dot (V 4) ''c'') ''c'') ''length'')) [Do (SetV 2 (Call ''JD'' [Call ''Imb'' [V 4], K (JNum 17)])), Do (SetV 7 (Call ''JD'' [Call ''oNb'' [Dot (Dot (V 2) ''d'') ''i'', G ''Ewc''], K (JNum 165)])), When (Or (Loose (V 7) (Seq (Call ''asc'' []) (G ''Zrc''))) (Loose (V 7) (G ''$rc''))) [Do (SetV 1 (K (JBool False))), Break] []] [], Do (SetV 3 (New ''Kmb'' [Dot (V 10) ''e''])), Loop (Bin Lt (Dot (V 3) ''a'') (Dot (Dot (Dot (V 3) ''c'') ''c'') ''length'')) [Do (SetV 2 (Call ''JD'' [Call ''Imb'' [V 3], K (JNum 17)])), Do (SetV 7 (Call ''JD'' [Call ''oNb'' [Dot (Dot (V 2) ''c'') ''i'', G ''Ewc''], K (JNum 165)])), When (Or (Loose (V 7) (Seq (Call ''asc'' []) (G ''Xrc''))) (Loose (V 7) (G ''Yrc''))) [Do (SetV 1 (K (JBool False))), Break] []] []] [], Do (And (V 1) (Call ''r0b'' [V 8, V 6, Seq (Call ''qAc'' []) (G ''pAc'')]))] []]] []],
    fn ''uKc'' 5 18 [Do (SetV 22 (K (JNum 0))), Do (SetV 13 (K (JNum 0))), Do (SetV 11 (New ''Kmb'' [Dot (V 1) ''e''])), Loop (Bin Lt (Dot (V 11) ''a'') (Dot (Dot (Dot (V 11) ''c'') ''c'') ''length'')) [Do (SetV 10 (Call ''JD'' [Call ''Imb'' [V 11], K (JNum 9)])), Do (SetV 12 (K (JNum 0))), Do (SetV 7 (K (JNum 0))), Do (SetV 8 (Cond (V 2) (Dot (Call ''JD'' [Call ''oNb'' [V 10, G ''qKc''], K (JNum 15)]) ''a'') (G ''Eue''))), Do (SetV 17 (Cond (V 3) (Dot (Call ''JD'' [Call ''oNb'' [V 10, G ''rKc''], K (JNum 15)]) ''a'') (G ''Eue''))), Do (SetV 9 (Meth (Dot (G ''$wnd'') ''Math'') ''max'' [V 8, V 17])), Do (SetV 19 (New ''Kmb'' [Dot (V 10) ''j''])), Loop (Bin Lt (Dot (V 19) ''a'') (Dot (Dot (Dot (V 19) ''c'') ''c'') ''length'')) [Do (SetV 18 (Call ''JD'' [Call ''Imb'' [V 19], K (JNum 12)])), Do (SetV 20 (Bin Plus (Bin Plus (Dot (Dot (V 10) ''n'') ''b'') (Dot (Dot (V 18) ''n'') ''b'')) (Dot (Dot (V 18) ''a'') ''b''))), When (V 3) [Do (SetV 6 (New ''Kmb'' [Dot (V 18) ''g''])), Loop (Bin Lt (Dot (V 6) ''a'') (Dot (Dot (Dot (V 6) ''c'') ''c'') ''length'')) [Do (SetV 5 (Call ''JD'' [Call ''Imb'' [V 6], K (JNum 17)])), Do (SetV 15 (Dot (V 5) ''d'')), Do (SetV 14 (Dot (V 15) ''i'')), When (Neg (Loose (V 1) (Idx (Dot (V 0) ''a'') (Dot (V 14) ''p'')))) [Do (SetV 16 (Meth (Dot (G ''$wnd'') ''Math'') ''max'' [Dot (Call ''JD'' [Call ''oNb'' [V 14, G ''qKc''], K (JNum 15)]) ''a'', Dot (Call ''JD'' [Call ''oNb'' [V 14, G ''rKc''], K (JNum 15)]) ''a''])), Do (SetV 21 (Dot (Call ''JD'' [Call ''oNb'' [V 5, Seq (Call ''nyc'' []) (G ''Bxc'')], K (JNum 15)]) ''a'')), When (And (Bin Ge (V 21) (V 9)) (Bin Ge (V 21) (V 16))) [Do (SetV 12 (Bin Plus (V 12) (Bin Minus (Bin Plus (Bin Plus (Dot (Dot (V 14) ''n'') ''b'') (Dot (Dot (V 15) ''n'') ''b'')) (Dot (Dot (V 15) ''a'') ''b'')) (V 20)))), Do (SetV 7 (Bin Minus (V 7) (K (JNum (- 1)))))] []] []] []] [], When (V 2) [Do (SetV 6 (New ''Kmb'' [Dot (V 18) ''e''])), Loop (Bin Lt (Dot (V 6) ''a'') (Dot (Dot (Dot (V 6) ''c'') ''c'') ''length'')) [Do (SetV 5 (Call ''JD'' [Call ''Imb'' [V 6], K (JNum 17)])), Do (SetV 15 (Dot (V 5) ''c'')), Do (SetV 14 (Dot (V 15) ''i'')), When (Neg (Loose (V 1) (Idx (Dot (V 0) ''a'') (Dot (V 14) ''p'')))) [Do (SetV 16 (Meth (Dot (G ''$wnd'') ''Math'') ''max'' [Dot (Call ''JD'' [Call ''oNb'' [V 14, G ''qKc''], K (JNum 15)]) ''a'', Dot (Call ''JD'' [Call ''oNb'' [V 14, G ''rKc''], K (JNum 15)]) ''a''])), Do (SetV 21 (Dot (Call ''JD'' [Call ''oNb'' [V 5, Seq (Call ''nyc'' []) (G ''Bxc'')], K (JNum 15)]) ''a'')), When (And (Bin Ge (V 21) (V 9)) (Bin Ge (V 21) (V 16))) [Do (SetV 12 (Bin Plus (V 12) (Bin Minus (Bin Plus (Bin Plus (Dot (Dot (V 14) ''n'') ''b'') (Dot (Dot (V 15) ''n'') ''b'')) (Dot (Dot (V 15) ''a'') ''b'')) (V 20)))), Do (SetV 7 (Bin Minus (V 7) (K (JNum (- 1)))))] []] []] []] []] [], When (Bin Gt (V 7) (K (JNum 0))) [Do (SetV 22 (Bin Plus (V 22) (Bin Divide (V 12) (V 7)))), Do (SetV 13 (Bin Minus (V 13) (K (JNum (- 1)))))] []] [], When (Bin Gt (V 13) (K (JNum 0))) [Do (Put (V 1) ''a'' (Bin Divide (Bin Times (V 4) (V 22)) (V 13))), Do (Put (V 1) ''g'' (V 13))] [Do (Put (V 1) ''a'' (K (JNum 0))), Do (Put (V 1) ''g'' (K (JNum 0)))]],
    fn ''jHb'' 4 5 [Do (SetV 7 (New ''fJb'' [V 1])), Do (Call ''NKb'' [V 7, V 3]), Do (SetV 4 (K (JBool True))), When (And (Neg (Neg (V 0))) (Meth (V 0) ''nf'' [Seq (Call ''vjd'' []) (G ''Hhd'')])) [Do (SetV 5 (Call ''JD'' [Meth (V 0) ''mf'' [Seq (Call ''vjd'' []) (G ''Hhd'')], K (JNum 86)])), Do (SetV 4 (Or (Or (Loose (V 5) (Seq (Call ''Djd'' []) (G ''Bjd''))) (Loose (V 5) (G ''zjd''))) (Loose (V 5) (G ''Ajd''))))] [], Do (Call ''DKb'' [V 7, K (JBool False)]), Do (Call ''cmb'' [Meth (Dot (V 7) ''e'') ''Pf'' [], New ''IKb'' [V 7, K (JBool False), V 4]]), Do (Call ''hKb'' [V 7, Dot (V 7) ''f'', Seq (Call ''CHb'' []) (G ''zHb''), Seq (Call ''Bmd'' []) (G ''hmd'')]), Do (Call ''hKb'' [V 7, Dot (V 7) ''f'', G ''BHb'', G ''ymd'']), Do (Call ''hKb'' [V 7, Dot (V 7) ''g'', G ''zHb'', G ''Amd'']), Do (Call ''hKb'' [V 7, Dot (V 7) ''g'', G ''BHb'', G ''gmd'']), Do (Call ''jKb'' [V 7, G ''hmd'']), Do (Call ''jKb'' [V 7, G ''ymd'']), Do (Call ''iKb'' [V 7, G ''gmd'']), Do (Call ''iKb'' [V 7, G ''Amd'']), Do (Call ''uKb'' []), Do (SetV 6 (Cond (And (Meth (Dot (V 7) ''A'') ''Gc'' [Seq (Call ''ind'' []) (G ''end'')]) (Meth (Dot (V 7) ''B'') ''Gc'' [Seq (Call ''xnd'' []) (G ''snd'')])) (Call ''vKb'' [V 7]) (K JNull))), Do (And (Neg (Neg (V 6))) (Call ''ZHb'' [Dot (V 7) ''a'', V 6])), Do (Call ''AKb'' [V 7]), Do (Call ''aKb'' [V 7]), Do (Call ''jLb'' [V 7]), Do (Call ''XJb'' [V 7]), Do (Call ''LKb'' [V 7]), Do (Call ''bLb'' [V 7]), Do (Call ''TKb'' [V 7, G ''hmd'']), Do (Call ''TKb'' [V 7, G ''ymd'']), Do (Call ''YJb'' [V 7]), Do (Call ''KKb'' [V 7]), When (Neg (V 2)) [Ret (Dot (V 7) ''o'')] [], Do (Call ''yKb'' [V 7]), Do (Call ''fLb'' [V 7]), Do (Call ''TKb'' [V 7, G ''gmd'']), Do (Call ''TKb'' [V 7, G ''Amd'']), Do (SetV 8 (Meth (Dot (V 7) ''B'') ''Gc'' [Seq (Call ''xnd'' []) (G ''tnd'')])), Do (Call ''lKb'' [V 7, V 8, G ''hmd'']), Do (Call ''lKb'' [V 7, V 8, G ''ymd'']), Do (Call ''mKb'' [V 7, V 8, G ''gmd'']), Do (Call ''mKb'' [V 7, V 8, G ''Amd'']), Do (Call ''YBb'' [New ''jCb'' [K JNull, New ''Zvb'' [New ''qkb'' [Dot (V 7) ''i''], K (JNum 0)]], New ''nKb'' []]), Do (Call ''YBb'' [Call ''VBb'' [New ''jCb'' [K JNull, Meth (Dot (Call ''ii'' [Dot (V 7) ''r'']) ''a'') ''oc'' []], New ''pKb'' []], New ''rKb'' []]), Do (Call ''zKb'' [V 7]), Do (Meth (Dot (V 7) ''e'') ''Nf'' [Dot (V 7) ''o'']), Do (Call ''YBb'' [New ''jCb'' [K JNull, Meth (Dot (Call ''ii'' [Dot (V 7) ''r'']) ''a'') ''oc'' []], New ''BKb'' []]), Ret (Dot (V 7) ''o'')],
    fn ''pSb'' 1 15 [Do (SetV 9 (G ''Cve'')), Do (SetV 3 (New ''Kmb'' [Dot (Dot (V 0) ''a'') ''b''])), Loop (Bin Lt (Dot (V 3) ''a'') (Dot (Dot (Dot (V 3) ''c'') ''c'') ''length'')) [Do (SetV 1 (Call ''JD'' [Call ''Imb'' [V 3], K (JNum 82)])), Do (SetV 9 (Meth (Dot (G ''$wnd'') ''Math'') ''min'' [V 9, Bin Plus (Dot (Dot (Dot (Dot (V 1) ''d'') ''f'') ''g'') ''c'') (Dot (Dot (V 1) ''e'') ''a'')]))] [], Do (SetV 13 (New ''dub'' [])), Do (SetV 6 (New ''Kmb'' [Dot (Dot (V 0) ''a'') ''a''])), Loop (Bin Lt (Dot (V 6) ''a'') (Dot (Dot (Dot (V 6) ''c'') ''c'') ''length'')) [Do (SetV 5 (Call ''JD'' [Call ''Imb'' [V 6], K (JNum 194)])), Do (Put (V 5) ''i'' (V 9)), Do (And (Loose (Dot (V 5) ''e'') (K (JNum 0))) (Seq (Call ''Wtb'' [V 13, V 5, Dot (Dot (V 13) ''c'') ''b'', Dot (V 13) ''c'']) (K (JBool True))))] [], Loop (Neg (Loose (Dot (V 13) ''b'') (K (JNum 0)))) [Do (SetV 5 (Call ''JD'' [Cond (Loose (Dot (V 13) ''b'') (K (JNum 0))) (K JNull) (Seq (Call ''LDb'' [Neg (Loose (Dot (V 13) ''b'') (K (JNum 0)))]) (Call ''bub'' [V 13, Dot (Dot (V 13) ''a'') ''a''])), K (JNum 194)])), Do (SetV 4 (Dot (Dot (Dot (V 5) ''f'') ''g'') ''c'')), Do (SetV 12 (Meth (Meth (Dot (Dot (V 5) ''a'') ''a'') ''ec'' []) ''Jc'' [])), Loop (Meth (V 12) ''Ob'' []) [Do (SetV 10 (Call ''JD'' [Meth (V 12) ''Pb'' [], K (JNum 82)])), Do (SetV 15 (Bin Plus (Dot (V 5) ''i'') (Dot (Dot (V 10) ''e'') ''a''))), Do (Cond (Or (Dot (Dot (V 10) ''d'') ''g'') (Bin Lt (Dot (Dot (V 10) ''g'') ''c'') (V 15))) (Put (V 10) ''o'' (V 15)) (Put (V 10) ''o'' (Dot (Dot (V 10) ''g'') ''c'')))] [], Do (SetV 4 (Bin Minus (V 4) (Dot (Dot (V 5) ''f'') ''o''))), Do (Put (V 5) ''b'' (Bin Plus (Dot (V 5) ''b'') (V 4))), Do (Cond (Or (Loose (Dot (V 0) ''c'') (Seq (Call ''Djd'' []) (G ''Ajd''))) (Loose (Dot (V 0) ''c'') (G ''yjd''))) (Put (V 5) ''c'' (Bin Plus (Dot (V 5) ''c'') (V 4))) (Put (V 5) ''c'' (Bin Minus (Dot (V 5) ''c'') (V 4)))), Do (SetV 11 (Meth (Meth (Dot (Dot (V 5) ''a'') ''a'') ''ec'' []) ''Jc'' [])), Loop (Meth (V 11) ''Ob'' []) [Do (SetV 10 (Call ''JD'' [Meth (V 11) ''Pb'' [], K (JNum 82)])), Do (SetV 8 (Meth (Dot (V 10) ''f'') ''Jc'' [])), Loop (Meth (V 8) ''Ob'' []) [Do (SetV 7 (Call ''JD'' [Meth (V 8) ''Pb'' [], K (JNum 82)])), Do (Cond (Call ''Ejd'' [Dot (V 0) ''c'']) (SetV 14 (Meth (Dot (V 0) ''f'') ''wf'' [V 10, V 7])) (SetV 14 (Meth (Dot (V 0) ''f'') ''xf'' [V 10, V 7]))), Do (Put (Dot (V 7) ''d'') ''i'' (Meth (Dot (G ''$wnd'') ''Math'') ''max'' [Dot (Dot (V 7) ''d'') ''i'', Bin Minus (Bin Plus (Bin Plus (Dot (V 10) ''o'') (Dot (Dot (V 10) ''g'') ''b'')) (V 14)) (Dot (Dot (V 7) ''e'') ''a'')])), Do (Or (Dot (V 7) ''k'') (Put (Dot (V 7) ''d'') ''i'' (Meth (Dot (G ''$wnd'') ''Math'') ''max'' [Dot (Dot (V 7) ''d'') ''i'', Bin Minus (Dot (Dot (V 7) ''g'') ''c'') (Dot (Dot (V 7) ''e'') ''a'')]))), Do (Put (Dot (V 7) ''d'') ''e'' (Bin Minus (Dot (Dot (V 7) ''d'') ''e'') (K (JNum 1)))), Do (And (Loose (Dot (Dot (V 7) ''d'') ''e'') (K (JNum 0))) (Call ''Ttb'' [V 13, Dot (V 7) ''d'']))] []] []] [], Do (SetV 2 (New ''Kmb'' [Dot (Dot (V 0) ''a'') ''b''])), Loop (Bin Lt (Dot (V 2) ''a'') (Dot (Dot (Dot (V 2) ''c'') ''c'') ''length'')) [Do (SetV 1 (Call ''JD'' [Call ''Imb'' [V 2], K (JNum 82)])), Do (Put (Dot (V 1) ''g'') ''c'' (Dot (V 1) ''o''))] []],
    fn ''CYc'' 3 20 [Do (Meth (V 2) ''Tg'' [G ''cDe'', K (JNum 1)]), Do (SetV 12 (Seq (Call ''_Wc'' []) (G ''GWc''))), Do (And (Loose (Dot (V 0) ''a'') (Seq (Call ''bYc'' []) (G ''$Xc''))) (SetV 12 (G ''EWc''))), Do (SetV 10 (K (JNum 0))), Do (Call ''Inb'' []), Do (Meth (V 1) ''gd'' [New ''NEd'' [V 12]]), Do (SetV 5 (Meth (V 1) ''gc'' [])), Do (SetV 7 (Meth (V 1) ''dd'' [Meth (V 1) ''gc'' []])), Do (SetV 9 (K (JBool True))), Loop (And (V 9) (Meth (V 7) ''Sb'' [])) [Do (SetV 18 (Call ''JD'' [Meth (V 7) ''Ub'' [], K (JNum 40)])), Do (Cond (Loose (Dot (Call ''JD'' [Call ''oNb'' [V 18, V 12], K (JNum 15)]) ''a'') (K (JNum 0))) (SetV 5 (Bin Minus (V 5) (K (JNum 1)))) (SetV 9 (K (JBool False))))] [], Do (SetV 22 (Meth (V 1) ''hd'' [K (JNum 0), V 5])), Do (SetV 6 (New ''eub'' [V 22])), Do (SetV 22 (Meth (V 1) ''hd'' [V 5, Meth (V 1) ''gc'' []])), Do (SetV 8 (New ''eub'' [V 22])), When (Loose (Dot (V 6) ''b'') (K (JNum 0))) [Do (SetV 15 (Call ''Ztb'' [V 8, K (JNum 0)])), Loop (Neg (Loose (Dot (V 15) ''b'') (Dot (Dot (V 15) ''d'') ''c''))) [Do (SetV 14 (Call ''JD'' [Call ''lub'' [V 15], K (JNum 40)])), Do (Call ''rNb'' [V 14, G ''TWc'', Call ''Cfb'' [Bin Minus (SetV 10 (Bin Minus (V 10) (K (JNum (- 1))))) (K (JNum 1))]])] []] [Do (SetV 11 (Dot (V 6) ''b'')), Do (SetV 21 (Call ''Ztb'' [V 6, K (JNum 0)])), Loop (Neg (Loose (Dot (V 21) ''b'') (Dot (Dot (V 21) ''d'') ''c''))) [Do (SetV 20 (Call ''JD'' [Call ''lub'' [V 21], K (JNum 40)])), Do (Call ''rNb'' [V 20, G ''TWc'', Call ''Cfb'' [Bin Minus (SetV 10 (Bin Minus (V 10) (K (JNum (- 1))))) (K (JNum 1))]]), Do (SetV 3 (Call ''JTc'' [V 20])), Do (Call ''CYc'' [V 0, V 3, Meth (V 2) ''dh'' [Bin DivInt (K (JNum 1)) (V 11)]]), Do (Call ''Bub'' [V 3, Call ''Pnb'' [New ''NEd'' [G ''TWc'']]]), Do (SetV 13 (New ''dub'' [])), Do (SetV 19 (Call ''Ztb'' [V 3, K (JNum 0)])), Loop (Neg (Loose (Dot (V 19) ''b'') (Dot (Dot (V 19) ''d'') ''c''))) [Do (SetV 18 (Call ''JD'' [Call ''lub'' [V 19], K (JNum 40)])), Do (SetV 17 (Call ''Ztb'' [Dot (V 20) ''d'', K (JNum 0)])), Loop (Neg (Loose (Dot (V 17) ''b'') (Dot (Dot (V 17) ''d'') ''c''))) [Do (SetV 16 (Call ''JD'' [Call ''lub'' [V 17], K (JNum 65)])), Do (And (Loose (Dot (V 16) ''c'') (V 18)) (Seq (Call ''Wtb'' [V 13, V 16, Dot (Dot (V 13) ''c'') ''b'', Dot (V 13) ''c'']) (K (JBool True))))] []] [], Do (Call ''cub'' [Dot (V 20) ''d'']), Do (Call ''xe'' [Dot (V 20) ''d'', V 13]), Do (SetV 7 (Call ''Ztb'' [V 8, Dot (V 8) ''b''])), Do (SetV 4 (Dot (Dot (V 20) ''d'') ''b'')), Do (SetV 9 (K (JBool True))), Loop (And (And (Bin Lt (K (JNum 0)) (V 4)) (V 9)) (Meth (V 7) ''Sb'' [])) [Do (SetV 18 (Call ''JD'' [Meth (V 7) ''Ub'' [], K (JNum 40)])), When (Loose (Dot (Call ''JD'' [Call ''oNb'' [V 18, V 12], K (JNum 15)]) ''a'') (K (JNum 0))) [Do (Call ''rNb'' [V 18, G ''TWc'', Call ''Cfb'' [Bin Minus (SetV 10 (Bin Minus (V 10) (K (JNum (- 1))))) (K (JNum 1))]]), Do (SetV 4 (Bin Minus (V 4) (K (JNum 1)))), Do (Meth (V 7) ''Qb'' [])] [Do (SetV 9 (K (JBool False)))]] []] []], Do (Meth (V 2) ''Ug'' [])],
    fn ''W$b'' 3 10 [Do (SetV 10 (New ''QYb'' [V 2])), Do (Call ''mNb'' [V 10, V 1]), Do (Call ''rNb'' [V 10, Seq (Call ''Wrc'' []) (G ''urc''), V 1]), Do (Put (Dot (V 10) ''o'') ''a'' (Dot (V 1) ''g'')), Do (Put (Dot (V 10) ''o'') ''b'' (Dot (V 1) ''f'')), Do (Put (Dot (V 10) ''n'') ''a'' (Dot (V 1) ''i'')), Do (Put (Dot (V 10) ''n'') ''b'' (Dot (V 1) ''j'')), Do (Call ''_lb'' [Dot (V 2) ''a'', V 10]), Do (Call ''hjb'' [Dot (V 0) ''a'', V 1, V 10]), Do (And (Or (Neg (Loose (Dot (Seq (And (Neg (Dot (V 1) ''a'')) (Put (V 1) ''a'' (New ''P3d'' [G ''T3'', V 1, K (JNum 10), K (JNum 11)]))) (Dot (V 1) ''a'')) ''i'') (K (JNum 0)))) (Call ''Rdb'' [Call ''LD'' [Call ''cvd'' [V 1, Seq (Call ''nyc'' []) (G ''xwc'')]]])) (Call ''rNb'' [V 10, G ''Pqc'', Seq (Call ''Qdb'' []) (K (JBool True))])), Do (SetV 9 (Call ''JD'' [Call ''oNb'' [V 2, G ''brc''], K (JNum 22)])), Do (SetV 11 (Call ''JD'' [Call ''oNb'' [V 10, Seq (Call ''nyc'' []) (G ''qxc'')], K (JNum 102)])), Do (Cond (Loose (V 11) (Seq (Call ''Mld'' []) (G ''Lld''))) (Call ''rNb'' [V 10, G ''qxc'', G ''Kld'']) (And (Neg (Loose (V 11) (G ''Kld''))) (Meth (V 9) ''Ec'' [Seq (Call ''Xpc'' []) (G ''Tpc'')]))), Do (SetV 12 (K (JNum 0))), Do (SetV 3 (Call ''JD'' [Call ''oNb'' [V 2, G ''bwc''], K (JNum 86)])), Do (SetV 8 (New ''uKd'' [Seq (And (Neg (Dot (V 1) ''c'')) (Put (V 1) ''c'' (New ''P3d'' [G ''U3'', V 1, K (JNum 9), K (JNum 9)]))) (Dot (V 1) ''c'')])), Loop (Neg (Loose (Dot (V 8) ''e'') (Meth (Dot (V 8) ''i'') ''gc'' []))) [Do (SetV 7 (Call ''JD'' [Call ''sKd'' [V 8], K (JNum 125)])), Do (SetV 4 (Call ''Rzd'' [V 1])), Do (And (And (Call ''S$b'' [V 4]) (Neg (Call ''Rdb'' [Call ''LD'' [Call ''cvd'' [V 1, G ''Mvc'']]]))) (Call ''evd'' [V 7, G ''trc'', Call ''Cfb'' [Bin Minus (SetV 12 (Bin Minus (V 12) (K (JNum (- 1))))) (K (JNum 1))]])), Do (Or (Call ''Rdb'' [Call ''LD'' [Call ''cvd'' [V 7, G ''exc'']]]) (Call ''X$b'' [V 0, V 7, V 10, V 9, V 3, V 11]))] [], Do (SetV 6 (New ''uKd'' [Seq (And (Neg (Dot (V 1) ''n'')) (Put (V 1) ''n'' (New ''P3d'' [G ''S3'', V 1, K (JNum 1), K (JNum 7)]))) (Dot (V 1) ''n'')])), Loop (Neg (Loose (Dot (V 6) ''e'') (Meth (Dot (V 6) ''i'') ''gc'' []))) [Do (SetV 5 (Call ''JD'' [Call ''sKd'' [V 6], K (JNum 157)])), Do (And (And (Neg (Call ''Rdb'' [Call ''LD'' [Call ''cvd'' [V 5, G ''exc'']]])) (Neg (Neg (Dot (V 5) ''a'')))) (Call ''_lb'' [Dot (V 10) ''b'', Call ''V$b'' [V 5]]))] [], Do (And (Call ''Rdb'' [Call ''LD'' [Call ''oNb'' [V 10, G ''wvc'']]]) (Meth (V 9) ''Ec'' [Seq (Call ''Xpc'' []) (G ''Opc'')])), When (Call ''Rdb'' [Call ''LD'' [Call ''oNb'' [V 10, G ''wwc'']]]) [Do (Meth (V 9) ''Ec'' [Seq (Call ''Xpc'' []) (G ''Spc'')]), Do (Meth (V 9) ''Ec'' [G ''Rpc'']), Do (Call ''rNb'' [V 10, G ''qxc'', G ''Kld''])] [], Ret (V 10)],
    fn ''e6b'' 2 18 [Do (Meth (V 1) ''Tg'' [K (JStr ''Inverted port preprocessing''), K (JNum 1)]), Do (SetV 10 (Dot (V 0) ''b'')), Do (SetV 9 (New ''Tjb'' [V 10, K (JNum 0)])), Do (SetV 2 (K JNull)), Do (SetV 19 (New ''lmb'' [])), Loop (Bin Lt (Dot (V 9) ''b'') (Meth (Dot (V 9) ''d'') ''gc'' [])) [Do (SetV 18 (V 2)), Do (SetV 2 (Seq (Call ''LDb'' [Bin Lt (Dot (V 9) ''b'') (Meth (Dot (V 9) ''d'') ''gc'' [])]) (Call ''JD'' [Meth (Dot (V 9) ''d'') ''Xb'' [Put (V 9) ''c'' (Bin Minus (Put (V 9) ''b'' (Bin Minus (Dot (V 9) ''b'') (K (JNum (- 1))))) (K (JNum 1)))], K (JNum 25)]))), Do (SetV 13 (New ''Kmb'' [V 19])), Loop (Bin Lt (Dot (V 13) ''a'') (Dot (Dot (Dot (V 13) ''c'') ''c'') ''length'')) [Do (SetV 11 (Call ''JD'' [Call ''Imb'' [V 13], K (JNum 9)])), Do (Call ''NYb'' [V 11, V 18])] [], Do (Put (Dot (V 19) ''c'') ''length'' (K (JNum 0))), Do (SetV 14 (New ''Kmb'' [Dot (V 2) ''a''])), Loop (Bin Lt (Dot (V 14) ''a'') (Dot (Dot (Dot (V 14) ''c'') ''c'') ''length'')) [Do (SetV 11 (Call ''JD'' [Call ''Imb'' [V 14], K (JNum 9)])), When (Neg (Loose (Dot (V 11) ''k'') (Seq (Call ''$Yb'' []) (G ''XYb'')))) [Continue] [], When (Neg (Call ''Old'' [Call ''JD'' [Call ''oNb'' [V 11, Seq (Call ''nyc'' []) (G ''qxc'')], K (JNum 102)]])) [Continue] [], Do (SetV 17 (Meth (Call ''KYb'' [V 11, Seq (Call ''qAc'' []) (G ''nAc''), Seq (Call ''Bmd'' []) (G ''gmd'')]) ''Jc'' [])), Loop (Meth (V 17) ''Ob'' []) [Do (SetV 15 (Call ''JD'' [Meth (V 17) ''Pb'' [], K (JNum 12)])), Do (SetV 8 (Dot (V 15) ''e'')), Do (SetV 7 (Call ''JD'' [Call ''kmb'' [V 8, Call ''SC'' [G ''DP'', G ''Aye'', K (JNum 17), Dot (Dot (V 8) ''c'') ''length'', K (JNum 0), K (JNum 1)]], K (JNum 324)])), Do (Seq (Seq (SetV 4 (V 7)) (SetV 5 (K (JNum 0)))) (SetV 6 (Dot (V 4) ''length''))), Loop (Bin Lt (V 5) (V 6)) [Do (SetV 3 (Idx (V 4) (V 5))), Do (Call ''c6b'' [V 0, V 15, V 3, V 19])] [Do (SetV 5 (Bin Minus (V 5) (K (JNum (- 1)))))]] [], Do (SetV 16 (Meth (Call ''KYb'' [V 11, G ''oAc'', G ''Amd'']) ''Jc'' [])), Loop (Meth (V 16) ''Ob'' []) [Do (SetV 15 (Call ''JD'' [Meth (V 16) ''Pb'' [], K (JNum 12)])), Do (SetV 8 (Dot (V 15) ''g'')), Do (SetV 7 (Call ''JD'' [Call ''kmb'' [V 8, Call ''SC'' [G ''DP'', G ''Aye'', K (JNum 17), Dot (Dot (V 8) ''c'') ''length'', K (JNum 0), K (JNum 1)]], K (JNum 324)])), Do (Seq (Seq (SetV 4 (V 7)) (SetV 5 (K (JNum 0)))) (SetV 6 (Dot (V 4) ''length''))), Loop (Bin Lt (V 5) (V 6)) [Do (SetV 3 (Idx (V 4) (V 5))), Do (Call ''d6b'' [V 0, V 15, V 3, V 19])] [Do (SetV 5 (Bin Minus (V 5) (K (JNum (- 1)))))]] []] []] [], Do (SetV 12 (New ''Kmb'' [V 19])), Loop (Bin Lt (Dot (V 12) ''a'') (Dot (Dot (Dot (V 12) ''c'') ''c'') ''length'')) [Do (SetV 11 (Call ''JD'' [Call ''Imb'' [V 12], K (JNum 9)])), Do (Call ''NYb'' [V 11, V 2])] [], Do (Meth (V 1) ''Ug'' [])]]"

definition code_6154_6155 :: "(string \<times> jfun) list" where
  "code_6154_6155 = [
    fn ''B0c'' 1 13 [Do (SetV 11 (Call ''Ueb'' [Call ''MD'' [Call ''cvd'' [V 0, Seq (Call ''J1c'' []) (G ''F1c'')]]])), When (Call ''Rdb'' [Call ''LD'' [Call ''cvd'' [V 0, G ''D1c'']]]) [Do (SetV 10 (Call ''JD'' [Call ''cvd'' [V 0, Seq (Call ''d_c'' []) (G ''c_c'')], K (JNum 26)])), Do (SetV 5 (Call ''JD'' [Call ''fGd'' [Call ''Iwd'' [Call ''JD'' [Call ''fGd'' [Seq (And (Neg (Dot (V 10) ''e'')) (Put (V 10) ''e'' (New ''jhe'' [G ''Q3'', V 10, K (JNum 7), K (JNum 4)]))) (Dot (V 10) ''e''), Bin Minus (Dot (Seq (And (Neg (Dot (V 10) ''e'')) (Put (V 10) ''e'' (New ''jhe'' [G ''Q3'', V 10, K (JNum 7), K (JNum 4)]))) (Dot (V 10) ''e'')) ''i'') (K (JNum 1))], K (JNum 85)]], K (JNum 0)], K (JNum 26)])), Do (SetV 3 (Call ''JD'' [Call ''fGd'' [Call ''Iwd'' [Call ''JD'' [Call ''fGd'' [Seq (And (Neg (Dot (V 10) ''e'')) (Put (V 10) ''e'' (New ''jhe'' [G ''Q3'', V 10, K (JNum 7), K (JNum 4)]))) (Dot (V 10) ''e''), K (JNum 0)], K (JNum 85)]], K (JNum 0)], K (JNum 26)])), Do (SetV 6 (New ''lgd'' [Bin Plus (Dot (V 5) ''i'') (Bin Divide (Dot (V 5) ''g'') (K (JNum 2))), Bin Plus (Dot (V 5) ''j'') (Bin Divide (Dot (V 5) ''f'') (K (JNum 2)))])), Do (SetV 4 (New ''lgd'' [Bin Plus (Dot (V 3) ''i'') (Bin Divide (Dot (V 3) ''g'') (K (JNum 2))), Bin Plus (Dot (V 3) ''j'') (Bin Divide (Dot (V 3) ''f'') (K (JNum 2)))])), Do (SetV 2 (V 11)), Do (And (Bin Le (V 2) (K (JNum 0))) (SetV 2 (Bin Plus (V 2) (G ''gDe'')))), Do (SetV 12 (Meth (Dot (G ''$wnd'') ''Math'') ''acos'' [Bin Divide (Bin Plus (Bin Times (Dot (V 6) ''a'') (Dot (V 4) ''a'')) (Bin Times (Dot (V 6) ''b'') (Dot (V 4) ''b''))) (Bin Times (Meth (Dot (G ''$wnd'') ''Math'') ''sqrt'' [Bin Plus (Bin Times (Dot (V 6) ''a'') (Dot (V 6) ''a'')) (Bin Times (Dot (V 6) ''b'') (Dot (V 6) ''b''))]) (Meth (Dot (G ''$wnd'') ''Math'') ''sqrt'' [Bin Plus (Bin Times (Dot (V 4) ''a'') (Dot (V 4) ''a'')) (Bin Times (Dot (V 4) ''b'') (Dot (V 4) ''b''))]))])), Do (And (Bin Le (V 12) (K (JNum 0))) (SetV 12 (Bin Plus (V 12) (G ''gDe'')))), Do (SetV 1 (Meth (Dot (G ''$wnd'') ''Math'') ''atan2'' [Dot (V 6) ''b'', Dot (V 6) ''a''])), Do (And (Bin Le (V 1) (K (JNum 0))) (SetV 1 (Bin Plus (V 1) (G ''gDe'')))), Do (SetV 11 (Bin Minus (G ''ICe'') (Bin Plus (Bin Minus (V 1) (V 2)) (Bin Divide (V 12) (K (JNum 2))))))] [], Do (SetV 8 (New ''uKd'' [Seq (And (Neg (Dot (V 0) ''a'')) (Put (V 0) ''a'' (New ''P3d'' [G ''T3'', V 0, K (JNum 10), K (JNum 11)]))) (Dot (V 0) ''a'')])), Loop (Neg (Loose (Dot (V 8) ''e'') (Meth (Dot (V 8) ''i'') ''gc'' []))) [Do (SetV 7 (Call ''JD'' [Call ''sKd'' [V 8], K (JNum 26)])), Do (SetV 9 (New ''lgd'' [Bin Plus (Dot (V 7) ''i'') (Bin Divide (Dot (V 7) ''g'') (K (JNum 2))), Bin Plus (Dot (V 7) ''j'') (Bin Divide (Dot (V 7) ''f'') (K (JNum 2)))])), Do (SetV 13 (Bin Minus (Bin Times (Dot (V 9) ''a'') (Meth (Dot (G ''$wnd'') ''Math'') ''cos'' [V 11])) (Bin Times (Dot (V 9) ''b'') (Meth (Dot (G ''$wnd'') ''Math'') ''sin'' [V 11])))), Do (Put (V 9) ''b'' (Bin Plus (Bin Times (Dot (V 9) ''a'') (Meth (Dot (G ''$wnd'') ''Math'') ''sin'' [V 11])) (Bin Times (Dot (V 9) ''b'') (Meth (Dot (G ''$wnd'') ''Math'') ''cos'' [V 11])))), Do (Put (V 9) ''a'' (V 13)), Do (Call ''Zvd'' [V 7, Bin Minus (Dot (V 9) ''a'') (Bin Divide (Dot (V 7) ''g'') (K (JNum 2))), Bin Minus (Dot (V 9) ''b'') (Bin Divide (Dot (V 7) ''f'') (K (JNum 2)))])] []],
    fn ''b0b'' 3 15 [Do (SetV 15 (Dot (V 0) ''n'')), Do (SetV 16 (Dot (V 0) ''o'')), Do (SetV 12 (Dot (V 0) ''d'')), Do (SetV 11 (Call ''Ueb'' [Call ''MD'' [Call ''YAc'' [V 0, Seq (Call ''nyc'' []) (G ''Fxc'')]]])), When (V 1) [Do (SetV 10 (Bin Times (V 11) (Bin Minus (Meth (V 1) ''gc'' []) (K (JNum 1))))), Do (SetV 13 (K (JNum 0))), Do (SetV 8 (Meth (V 1) ''Jc'' [])), Loop (Meth (V 8) ''Ob'' []) [Do (SetV 6 (Call ''JD'' [Meth (V 8) ''Pb'' [], K (JNum 9)])), Do (SetV 10 (Bin Plus (V 10) (Dot (Dot (V 6) ''o'') ''a''))), Do (SetV 13 (Meth (Dot (G ''$wnd'') ''Math'') ''max'' [V 13, Dot (Dot (V 6) ''o'') ''b'']))] [], Do (SetV 17 (Bin Minus (Dot (V 15) ''a'') (Bin Divide (Bin Minus (V 10) (Dot (V 16) ''a'')) (K (JNum 2))))), Do (SetV 5 (Bin Plus (Bin Minus (Dot (V 15) ''b'') (Dot (V 12) ''d'')) (V 13))), Do (SetV 3 (Bin Divide (Dot (V 16) ''a'') (Bin Plus (Meth (V 1) ''gc'' []) (K (JNum 1))))), Do (SetV 4 (V 3)), Do (SetV 7 (Meth (V 1) ''Jc'' [])), Loop (Meth (V 7) ''Ob'' []) [Do (SetV 6 (Call ''JD'' [Meth (V 7) ''Pb'' [], K (JNum 9)])), Do (Put (Dot (V 6) ''n'') ''a'' (V 17)), Do (Put (Dot (V 6) ''n'') ''b'' (Bin Minus (V 5) (Dot (Dot (V 6) ''o'') ''b''))), Do (SetV 17 (Bin Plus (V 17) (Bin Plus (Dot (Dot (V 6) ''o'') ''a'') (V 11)))), Do (SetV 9 (Call ''__b'' [V 6])), Do (Put (Dot (V 9) ''n'') ''a'' (Bin Minus (Bin Divide (Dot (Dot (V 6) ''o'') ''a'') (K (JNum 2))) (Dot (Dot (V 9) ''a'') ''a''))), Do (Put (Dot (V 9) ''n'') ''b'' (Dot (Dot (V 6) ''o'') ''b'')), Do (SetV 14 (Call ''JD'' [Call ''oNb'' [V 6, Seq (Call ''Wrc'' []) (G ''Oqc'')], K (JNum 12)])), When (Loose (Bin Plus (Dot (Dot (Dot (V 14) ''e'') ''c'') ''length'') (Dot (Dot (Dot (V 14) ''g'') ''c'') ''length'')) (K (JNum 1))) [Do (Put (Dot (V 14) ''n'') ''a'' (Bin Minus (V 4) (Dot (Dot (V 14) ''a'') ''a''))), Do (Put (Dot (V 14) ''n'') ''b'' (K (JNum 0))), Do (Call ''wZb'' [V 14, V 0])] [], Do (SetV 4 (Bin Plus (V 4) (V 3)))] []] [], When (V 2) [Do (SetV 10 (Bin Times (V 11) (Bin Minus (Meth (V 2) ''gc'' []) (K (JNum 1))))), Do (SetV 13 (K (JNum 0))), Do (SetV 8 (Meth (V 2) ''Jc'' [])), Loop (Meth (V 8) ''Ob'' []) [Do (SetV 6 (Call ''JD'' [Meth (V 8) ''Pb'' [], K (JNum 9)])), Do (SetV 10 (Bin Plus (V 10) (Dot (Dot (V 6) ''o'') ''a''))), Do (SetV 13 (Meth (Dot (G ''$wnd'') ''Math'') ''max'' [V 13, Dot (Dot (V 6) ''o'') ''b'']))] [], Do (SetV 17 (Bin Minus (Dot (V 15) ''a'') (Bin Divide (Bin Minus (V 10) (Dot (V 16) ''a'')) (K (JNum 2))))), Do (SetV 5 (Bin Minus (Bin Plus (Bin Plus (Dot (V 15) ''b'') (Dot (V 16) ''b'')) (Dot (V 12) ''a'')) (V 13))), Do (SetV 3 (Bin Divide (Dot (V 16) ''a'') (Bin Plus (Meth (V 2) ''gc'' []) (K (JNum 1))))), Do (SetV 4 (V 3)), Do (SetV 7 (Meth (V 2) ''Jc'' [])), Loop (Meth (V 7) ''Ob'' []) [Do (SetV 6 (Call ''JD'' [Meth (V 7) ''Pb'' [], K (JNum 9)])), Do (Put (Dot (V 6) ''n'') ''a'' (V 17)), Do (Put (Dot (V 6) ''n'') ''b'' (V 5)), Do (SetV 17 (Bin Plus (V 17) (Bin Plus (Dot (Dot (V 6) ''o'') ''a'') (V 11)))), Do (SetV 9 (Call ''__b'' [V 6])), Do (Put (Dot (V 9) ''n'') ''a'' (Bin Minus (Bin Divide (Dot (Dot (V 6) ''o'') ''a'') (K (JNum 2))) (Dot (Dot (V 9) ''a'') ''a''))), Do (Put (Dot (V 9) ''n'') ''b'' (K (JNum 0))), Do (SetV 14 (Call ''JD'' [Call ''oNb'' [V 6, Seq (Call ''Wrc'' []) (G ''Oqc'')], K (JNum 12)])), When (Loose (Bin Plus (Dot (Dot (Dot (V 14) ''e'') ''c'') ''length'') (Dot (Dot (Dot (V 14) ''g'') ''c'') ''length'')) (K (JNum 1))) [Do (Put (Dot (V 14) ''n'') ''a'' (Bin Minus (V 4) (Dot (Dot (V 14) ''a'') ''a''))), Do (Put (Dot (V 14) ''n'') ''b'' (Dot (V 16) ''b'')), Do (Call ''wZb'' [V 14, V 0])] [], Do (SetV 4 (Bin Plus (V 4) (V 3)))] []] []]]"

definition object_table30 :: "(string \<times> jfun) list" where
  "object_table30 = code_6115_6122 @ code_6123_6130 @ code_6131_6138 @ code_6139_6142 @ code_6144_6145 @ code_6147_6153 @ code_6154_6155"

text \<open>The names each table declares.\<close>

lemma names_6115_6122 [js_names]: "map fst code_6115_6122 = [
    ''x6b'', ''B0d'', ''J$b'', ''dqd'', ''fLc'', ''flc'', ''D$b'', ''NUb'']"
  by (simp add: code_6115_6122_def fn_def)

lemma names_6123_6130 [js_names]: "map fst code_6123_6130 = [
    ''u_b'', ''vKc'', ''I1b'', ''x0c'', ''ABc'', ''RVd'', ''jie'', ''AEc'']"
  by (simp add: code_6123_6130_def fn_def)

lemma names_6131_6138 [js_names]: "map fst code_6131_6138 = [
    ''Afd'', ''bLc'', ''aFb'', ''_Rb'', ''Cmc'', ''cqd'', ''cNb'', ''O8b'']"
  by (simp add: code_6131_6138_def fn_def)

lemma names_6139_6142 [js_names]: "map fst code_6139_6142 = [
    ''iHb'', ''g3b'', ''SKb'', ''hWb'']"
  by (simp add: code_6139_6142_def fn_def)

lemma names_6144_6145 [js_names]: "map fst code_6144_6145 = [
    ''p2b'', ''AKb'']"
  by (simp add: code_6144_6145_def fn_def)

lemma names_6147_6153 [js_names]: "map fst code_6147_6153 = [
    ''o0b'', ''uKc'', ''jHb'', ''pSb'', ''CYc'', ''W$b'', ''e6b'']"
  by (simp add: code_6147_6153_def fn_def)

lemma names_6154_6155 [js_names]: "map fst code_6154_6155 = [
    ''B0c'', ''b0b'']"
  by (simp add: code_6154_6155_def fn_def)

end
