(* ===== verification/ObjectTable31.thy ===== *)
theory ObjectTable31
  imports ObjectCode
begin

text \<open>
  Functions of \<open>layout-worker.js\<close>, lines 6157 to 6188, in the order of the file, one per line:
  the algorithms of the layout engine, longer operations of the runtime's collections and of options,
  with their loops, \<open>switch\<close> and \<open>try\<close> statements. An entry has the name, the
  number of parameters, the number of further local variables and the body; parameters and locals
  are numbered from 0, the variable of a \<open>catch\<close> has a number of its own, \<open>x++\<close> is \<open>(x=x+1)-1\<close>. Lines
  with a construct outside \<open>jexp\<close> and \<open>jstm\<close> (closures, \<open>in\<close>, floating-point literals, host objects) are
  left out.
\<close>

definition code_6157_6164 :: "(string \<times> jfun) list" where
  "code_6157_6164 = [
    fn ''t4b'' 2 6 [When (Neg (Meth (Call ''JD'' [Call ''oNb'' [V 1, Seq (Call ''Wrc'' []) (G ''brc'')], K (JNum 22)]) ''Gc'' [Seq (Call ''Xpc'' []) (G ''Qpc'')])) [Ret (K JUndef)] [], Do (SetV 7 (New ''Kmb'' [Dot (V 1) ''a''])), Loop (Bin Lt (Dot (V 7) ''a'') (Dot (Dot (Dot (V 7) ''c'') ''c'') ''length'')) [Do (SetV 5 (Call ''JD'' [Call ''Imb'' [V 7], K (JNum 9)])), When (Loose (Dot (V 5) ''k'') (Seq (Call ''$Yb'' []) (G ''XYb''))) [Do (SetV 4 (Call ''JD'' [Call ''oNb'' [V 5, Seq (Call ''nyc'' []) (G ''Pwc'')], K (JNum 140)])), Do (Put (V 0) ''c'' (Meth (Dot (G ''$wnd'') ''Math'') ''min'' [Dot (V 0) ''c'', Bin Minus (Dot (Dot (V 5) ''n'') ''a'') (Dot (V 4) ''b'')])), Do (Put (V 0) ''a'' (Meth (Dot (G ''$wnd'') ''Math'') ''max'' [Dot (V 0) ''a'', Bin Plus (Bin Plus (Dot (Dot (V 5) ''n'') ''a'') (Dot (Dot (V 5) ''o'') ''a'')) (Dot (V 4) ''c'')])), Do (Put (V 0) ''d'' (Meth (Dot (G ''$wnd'') ''Math'') ''min'' [Dot (V 0) ''d'', Bin Minus (Dot (Dot (V 5) ''n'') ''b'') (Dot (V 4) ''d'')])), Do (Put (V 0) ''b'' (Meth (Dot (G ''$wnd'') ''Math'') ''max'' [Dot (V 0) ''b'', Bin Plus (Bin Plus (Dot (Dot (V 5) ''n'') ''b'') (Dot (Dot (V 5) ''o'') ''b'')) (Dot (V 4) ''a'')]))] []] [], Do (SetV 6 (New ''Kmb'' [Dot (V 1) ''a''])), Loop (Bin Lt (Dot (V 6) ''a'') (Dot (Dot (Dot (V 6) ''c'') ''c'') ''length'')) [Do (SetV 5 (Call ''JD'' [Call ''Imb'' [V 6], K (JNum 9)])), When (Neg (Loose (Dot (V 5) ''k'') (Seq (Call ''$Yb'' []) (G ''XYb'')))) [Switch (Dot (Dot (V 5) ''k'') ''g'') [(Some (JNum 2), [Do (SetV 3 (Call ''JD'' [Call ''oNb'' [V 5, Seq (Call ''nyc'' []) (G ''Ewc'')], K (JNum 165)])), When (Loose (V 3) (Seq (Call ''asc'' []) (G ''Yrc''))) [Do (Put (Dot (V 5) ''n'') ''a'' (Bin Minus (Dot (V 0) ''c'') (K (JNum 10)))), Do (Meth (Call ''s4b'' [V 5, New ''A4b'' []]) ''Jb'' [New ''D4b'' [V 5]]), Break] [], When (Loose (V 3) (G ''$rc'')) [Do (Put (Dot (V 5) ''n'') ''a'' (Bin Plus (Dot (V 0) ''a'') (K (JNum 10)))), Do (Meth (Call ''s4b'' [V 5, New ''G4b'' []]) ''Jb'' [New ''J4b'' [V 5]]), Break] [], Do (SetV 2 (Call ''JD'' [Call ''oNb'' [V 5, G ''frc''], K (JNum 316)])), When (Loose (V 2) (Seq (Call ''wqc'' []) (G ''vqc''))) [Do (Meth (Call ''r4b'' [V 5]) ''Jb'' [New ''M4b'' [V 5]]), Do (Put (Dot (V 5) ''n'') ''b'' (Bin Minus (Dot (V 0) ''d'') (K (JNum 10)))), Break] [], When (Loose (V 2) (G ''tqc'')) [Do (Meth (Call ''r4b'' [V 5]) ''Jb'' [New ''P4b'' [V 5]]), Do (Put (Dot (V 5) ''n'') ''b'' (Bin Plus (Dot (V 0) ''b'') (K (JNum 10)))), Break] [], Break]), (None, [Raise (Call ''Lcb'' [New ''kfb'' [Bin Plus (Bin Plus (Bin Plus (K (JStr ''The node type '')) (Dot (V 5) ''k'')) (K (JStr '' is not supported by the ''))) (G ''FR'')]])])]] []] []],
    fn ''U$b'' 4 13 [Do (SetV 8 (New ''lgd'' [Bin Plus (Dot (V 3) ''i'') (Bin Divide (Dot (V 3) ''g'') (K (JNum 2))), Bin Plus (Dot (V 3) ''j'') (Bin Divide (Dot (V 3) ''f'') (K (JNum 2)))])), Do (SetV 13 (Call ''H$b'' [V 3])), Do (SetV 14 (Call ''JD'' [Call ''cvd'' [V 1, Seq (Call ''nyc'' []) (G ''qxc'')], K (JNum 102)])), Do (SetV 16 (Call ''JD'' [Call ''cvd'' [V 3, G ''vxc''], K (JNum 64)])), When (Neg (Call ''XNd'' [Call ''bvd'' [V 3], G ''pxc''])) [Do (Cond (And (Loose (Dot (V 3) ''i'') (K (JNum 0))) (Loose (Dot (V 3) ''j'') (K (JNum 0)))) (SetV 15 (K (JNum 0))) (SetV 15 (Call ''Ppd'' [V 3, V 16]))), Do (Call ''evd'' [V 3, G ''pxc'', V 15])] [], Do (SetV 9 (New ''lgd'' [Dot (V 1) ''g'', Dot (V 1) ''f''])), Do (SetV 4 (Call ''MXb'' [V 3, V 14, V 16, V 13, V 9, V 8, New ''lgd'' [Dot (V 3) ''g'', Dot (V 3) ''f''], Call ''JD'' [Call ''oNb'' [V 2, G ''bwc''], K (JNum 86)], V 2])), Do (Call ''rNb'' [V 4, Seq (Call ''Wrc'' []) (G ''urc''), V 3]), Do (SetV 5 (Call ''JD'' [Call ''dmb'' [Dot (V 4) ''j'', K (JNum 0)], K (JNum 12)])), Do (Call ''vZb'' [V 5, Call ''R$b'' [V 3]]), Do (Call ''rNb'' [V 4, G ''txc'', Seq (Call ''$ld'' []) (Call ''Frb'' [G ''Yld''])]), Do (SetV 11 (Meth (Call ''JD'' [Call ''cvd'' [V 1, G ''txc''], K (JNum 182)]) ''Gc'' [G ''Wld''])), Do (SetV 7 (New ''uKd'' [Seq (And (Neg (Dot (V 3) ''n'')) (Put (V 3) ''n'' (New ''P3d'' [G ''S3'', V 3, K (JNum 1), K (JNum 7)]))) (Dot (V 3) ''n'')])), Loop (Neg (Loose (Dot (V 7) ''e'') (Meth (Dot (V 7) ''i'') ''gc'' []))) [Do (SetV 6 (Call ''JD'' [Call ''sKd'' [V 7], K (JNum 157)])), When (And (Neg (Call ''Rdb'' [Call ''LD'' [Call ''cvd'' [V 6, G ''exc'']]])) (Neg (Neg (Dot (V 6) ''a'')))) [Do (SetV 12 (Call ''V$b'' [V 6])), Do (Call ''_lb'' [Dot (V 5) ''f'', V 12]), When (Neg (V 11)) [Do (SetV 10 (K (JNum 0))), Do (And (Call ''amd'' [Call ''JD'' [Call ''cvd'' [V 1, G ''txc''], K (JNum 22)]]) (SetV 10 (Call ''Spd'' [New ''lgd'' [Dot (V 6) ''i'', Dot (V 6) ''j''], New ''lgd'' [Dot (V 6) ''g'', Dot (V 6) ''f''], New ''lgd'' [Dot (V 3) ''g'', Dot (V 3) ''f''], K (JNum 0), V 16]))), Switch (Dot (V 16) ''g'') [(Some (JNum 2), []), (Some (JNum 4), [Do (Put (Dot (V 12) ''o'') ''a'' (V 10)), Break]), (Some (JNum 1), []), (Some (JNum 3), [Do (Put (Dot (V 12) ''o'') ''b'' (V 10))])]] []] []] [], Do (Call ''rNb'' [V 4, G ''Qxc'', Call ''MD'' [Call ''cvd'' [Call ''Rzd'' [V 1], G ''Qxc'']]]), Do (Call ''rNb'' [V 4, G ''Rxc'', Call ''MD'' [Call ''cvd'' [Call ''Rzd'' [V 1], G ''Rxc'']]]), Do (Call ''rNb'' [V 4, G ''Oxc'', Call ''MD'' [Call ''cvd'' [Call ''Rzd'' [V 1], G ''Oxc'']]]), Do (Call ''_lb'' [Dot (V 2) ''a'', V 4]), Do (Call ''hjb'' [Dot (V 0) ''a'', V 3, V 4])],
    fn ''X$b'' 6 6 [Do (SetV 9 (New ''yZb'' [])), Do (Call ''mNb'' [V 9, V 1]), Do (Call ''xZb'' [V 9, Call ''JD'' [Call ''cvd'' [V 1, Seq (Call ''nyc'' []) (G ''vxc'')], K (JNum 64)]]), Do (Call ''rNb'' [V 9, Seq (Call ''Wrc'' []) (G ''urc''), V 1]), Do (Call ''wZb'' [V 9, V 2]), Do (SetV 11 (Dot (V 9) ''o'')), Do (Put (V 11) ''a'' (Dot (V 1) ''g'')), Do (Put (V 11) ''b'' (Dot (V 1) ''f'')), Do (SetV 10 (Dot (V 9) ''n'')), Do (Put (V 10) ''a'' (Dot (V 1) ''i'')), Do (Put (V 10) ''b'' (Dot (V 1) ''j'')), Do (Call ''hjb'' [Dot (V 0) ''a'', V 1, V 9]), Do (SetV 6 (Call ''RBb'' [Call ''ZBb'' [Call ''XBb'' [New ''jCb'' [K JNull, Seq (And (Neg (Dot (V 1) ''e'')) (Put (V 1) ''e'' (New ''jhe'' [G ''Q3'', V 1, K (JNum 7), K (JNum 4)]))) (New ''Zvb'' [Dot (V 1) ''e'', K (JNum 16)])], New ''i_b'' []], New ''a_b'' []], New ''k_b'' [V 1]])), Do (Or (V 6) (SetV 6 (Call ''RBb'' [Call ''ZBb'' [Call ''XBb'' [New ''jCb'' [K JNull, Seq (And (Neg (Dot (V 1) ''d'')) (Put (V 1) ''d'' (New ''jhe'' [G ''Q3'', V 1, K (JNum 8), K (JNum 5)]))) (New ''Zvb'' [Dot (V 1) ''d'', K (JNum 16)])], New ''m_b'' []], New ''c_b'' []], New ''o_b'' [V 1]]))), Do (Or (V 6) (SetV 6 (Call ''RBb'' [New ''jCb'' [K JNull, Seq (And (Neg (Dot (V 1) ''e'')) (Put (V 1) ''e'' (New ''jhe'' [G ''Q3'', V 1, K (JNum 7), K (JNum 4)]))) (New ''Zvb'' [Dot (V 1) ''e'', K (JNum 16)])], New ''q_b'' []]))), Do (Call ''rNb'' [V 9, G ''erc'', Seq (Call ''Qdb'' []) (Cond (V 6) (K (JBool True)) (K (JBool False)))]), Do (Call ''TXb'' [V 9, V 5, V 4, Call ''JD'' [Call ''cvd'' [V 1, G ''oxc''], K (JNum 8)]]), Do (SetV 8 (New ''uKd'' [Seq (And (Neg (Dot (V 1) ''n'')) (Put (V 1) ''n'' (New ''P3d'' [G ''S3'', V 1, K (JNum 1), K (JNum 7)]))) (Dot (V 1) ''n'')])), Loop (Neg (Loose (Dot (V 8) ''e'') (Meth (Dot (V 8) ''i'') ''gc'' []))) [Do (SetV 7 (Call ''JD'' [Call ''sKd'' [V 8], K (JNum 157)])), Do (And (And (Neg (Call ''Rdb'' [Call ''LD'' [Call ''cvd'' [V 7, G ''exc'']]])) (Neg (Neg (Dot (V 7) ''a'')))) (Call ''_lb'' [Dot (V 9) ''f'', Call ''V$b'' [V 7]]))] [], Switch (Dot (V 4) ''g'') [(Some (JNum 2), []), (Some (JNum 1), [Do (And (Or (Loose (Dot (V 9) ''j'') (Seq (Call ''Bmd'' []) (G ''hmd''))) (Loose (Dot (V 9) ''j'') (G ''ymd''))) (Meth (V 3) ''Ec'' [Seq (Call ''Xpc'' []) (G ''Upc'')])), Break]), (Some (JNum 4), []), (Some (JNum 3), [Do (And (Or (Loose (Dot (V 9) ''j'') (Seq (Call ''Bmd'' []) (G ''gmd''))) (Loose (Dot (V 9) ''j'') (G ''Amd''))) (Meth (V 3) ''Ec'' [Seq (Call ''Xpc'' []) (G ''Upc'')]))])], Ret (V 9)],
    fn ''QBd'' 6 24 [Do (SetV 27 (Call ''ejb'' [Dot (V 0) ''g'', V 4])), When (Loose (V 27) (K JNull)) [Do (SetV 27 (New ''mC'' [])), Do (SetV 14 (Call ''JD'' [V 27, K (JNum 149)])), Do (SetV 19 (Bin Plus (V 1) (K (JStr ''_s'')))), Do (SetV 20 (Bin Plus (V 19) (V 5))), Do (SetV 13 (New ''GC'' [V 20])), Do (Call ''kC'' [V 14, G ''FGe'', V 13])] [], Do (SetV 26 (Call ''JD'' [V 27, K (JNum 149)])), Do (Call ''KAd'' [V 2, V 26]), Do (SetV 29 (New ''mC'' [])), Do (Call ''MAd'' [V 29, K (JStr ''x''), Call ''kBd'' [V 0, V 3, Dot (V 4) ''j'']]), Do (Call ''MAd'' [V 29, K (JStr ''y''), Call ''lBd'' [V 0, V 3, Dot (V 4) ''k'']]), Do (Call ''kC'' [V 26, G ''IGe'', V 29]), Do (SetV 24 (New ''mC'' [])), Do (Call ''MAd'' [V 24, K (JStr ''x''), Call ''kBd'' [V 0, V 3, Dot (V 4) ''b'']]), Do (Call ''MAd'' [V 24, K (JStr ''y''), Call ''lBd'' [V 0, V 3, Dot (V 4) ''c'']]), Do (Call ''kC'' [V 26, K (JStr ''endPoint''), V 24]), Do (SetV 12 (Call ''rte'' [Seq (And (Neg (Dot (V 4) ''a'')) (Put (V 4) ''a'' (New ''iYd'' [G ''N3'', V 4, K (JNum 5)]))) (Dot (V 4) ''a'')])), Do (SetV 15 (Neg (V 12))), When (V 15) [Do (SetV 23 (New ''EB'' [])), Do (SetV 6 (New ''DDd'' [V 0, V 3, V 23])), Do (Call ''Hfb'' [Seq (And (Neg (Dot (V 4) ''a'')) (Put (V 4) ''a'' (New ''iYd'' [G ''N3'', V 4, K (JNum 5)]))) (Dot (V 4) ''a''), V 6]), Do (Call ''kC'' [V 26, G ''yGe'', V 23])] [], Do (SetV 9 (Call ''Zwd'' [V 4])), Do (SetV 21 (Neg (Neg (V 9)))), Do (And (V 21) (Call ''NAd'' [Dot (V 0) ''a'', V 26, G ''AGe'', Call ''pBd'' [V 0, Call ''Zwd'' [V 4]]])), Do (SetV 18 (Call ''$wd'' [V 4])), Do (SetV 22 (Neg (Neg (V 18)))), Do (And (V 22) (Call ''NAd'' [Dot (V 0) ''a'', V 26, G ''zGe'', Call ''pBd'' [V 0, Call ''$wd'' [V 4]]])), Do (SetV 10 (Loose (Dot (Seq (And (Neg (Dot (V 4) ''e'')) (Put (V 4) ''e'' (New ''jhe'' [G ''P3'', V 4, K (JNum 10), K (JNum 9)]))) (Dot (V 4) ''e'')) ''i'') (K (JNum 0)))), Do (SetV 16 (Neg (V 10))), When (V 16) [Do (SetV 25 (New ''EB'' [])), Do (SetV 7 (New ''FDd'' [V 0, V 25])), Do (Call ''Hfb'' [Seq (And (Neg (Dot (V 4) ''e'')) (Put (V 4) ''e'' (New ''jhe'' [G ''P3'', V 4, K (JNum 10), K (JNum 9)]))) (Dot (V 4) ''e''), V 7]), Do (Call ''kC'' [V 26, G ''CGe'', V 25])] [], Do (SetV 11 (Loose (Dot (Seq (And (Neg (Dot (V 4) ''g'')) (Put (V 4) ''g'' (New ''jhe'' [G ''P3'', V 4, K (JNum 9), K (JNum 10)]))) (Dot (V 4) ''g'')) ''i'') (K (JNum 0)))), Do (SetV 17 (Neg (V 11))), When (V 17) [Do (SetV 28 (New ''EB'' [])), Do (SetV 8 (New ''JDd'' [V 0, V 28])), Do (Call ''Hfb'' [Seq (And (Neg (Dot (V 4) ''g'')) (Put (V 4) ''g'' (New ''jhe'' [G ''P3'', V 4, K (JNum 9), K (JNum 10)]))) (Dot (V 4) ''g''), V 8]), Do (Call ''kC'' [V 26, G ''BGe'', V 28])] []],
    fn ''e0b'' 2 16 [Do (Meth (V 1) ''Tg'' [K (JStr ''Comment pre-processing''), K (JNum 1)]), Do (SetV 2 (K (JNum 0))), Do (SetV 8 (New ''Kmb'' [Dot (V 0) ''a''])), Loop (Bin Lt (Dot (V 8) ''a'') (Dot (Dot (Dot (V 8) ''c'') ''c'') ''length'')) [Do (SetV 7 (Call ''JD'' [Call ''Imb'' [V 8], K (JNum 9)])), When (Call ''Rdb'' [Call ''LD'' [Call ''oNb'' [V 7, Seq (Call ''nyc'' []) (G ''wvc'')]]]) [Do (SetV 2 (Bin Minus (V 2) (K (JNum (- 1))))), Do (SetV 4 (K (JNum 0))), Do (SetV 3 (K JNull)), Do (SetV 9 (K JNull)), Do (SetV 14 (New ''Kmb'' [Dot (V 7) ''j''])), Loop (Bin Lt (Dot (V 14) ''a'') (Dot (Dot (Dot (V 14) ''c'') ''c'') ''length'')) [Do (SetV 12 (Call ''JD'' [Call ''Imb'' [V 14], K (JNum 12)])), Do (SetV 4 (Bin Plus (V 4) (Bin Plus (Dot (Dot (Dot (V 12) ''e'') ''c'') ''length'') (Dot (Dot (Dot (V 12) ''g'') ''c'') ''length'')))), When (Loose (Dot (Dot (Dot (V 12) ''e'') ''c'') ''length'') (K (JNum 1))) [Do (SetV 3 (Call ''JD'' [Call ''dmb'' [Dot (V 12) ''e'', K (JNum 0)], K (JNum 17)])), Do (SetV 9 (Dot (V 3) ''c''))] [], When (Loose (Dot (Dot (Dot (V 12) ''g'') ''c'') ''length'') (K (JNum 1))) [Do (SetV 3 (Call ''JD'' [Call ''dmb'' [Dot (V 12) ''g'', K (JNum 0)], K (JNum 17)])), Do (SetV 9 (Dot (V 3) ''d''))] []] [], When (And (And (Loose (V 4) (K (JNum 1))) (Loose (Bin Plus (Dot (Dot (Dot (V 9) ''e'') ''c'') ''length'') (Dot (Dot (Dot (V 9) ''g'') ''c'') ''length'')) (K (JNum 1)))) (Neg (Call ''Rdb'' [Call ''LD'' [Call ''oNb'' [Dot (V 9) ''i'', G ''wvc'']]]))) [Do (Call ''f0b'' [V 7, V 3, V 9, Dot (V 9) ''i'']), Do (Call ''Jmb'' [V 8])] [Do (SetV 17 (New ''lmb'' [])), Do (SetV 13 (New ''Kmb'' [Dot (V 7) ''j''])), Loop (Bin Lt (Dot (V 13) ''a'') (Dot (Dot (Dot (V 13) ''c'') ''c'') ''length'')) [Do (SetV 12 (Call ''JD'' [Call ''Imb'' [V 13], K (JNum 12)])), Do (SetV 11 (New ''Kmb'' [Dot (V 12) ''g''])), Loop (Bin Lt (Dot (V 11) ''a'') (Dot (Dot (Dot (V 11) ''c'') ''c'') ''length'')) [Do (SetV 10 (Call ''JD'' [Call ''Imb'' [V 11], K (JNum 17)])), Do (Or (Loose (Dot (Dot (Dot (Dot (V 10) ''d'') ''g'') ''c'') ''length'') (K (JNum 0))) (Seq (Call ''qDb'' [Dot (V 17) ''c'', V 10]) (K (JBool True))))] [], Do (SetV 6 (New ''Kmb'' [Dot (V 12) ''e''])), Loop (Bin Lt (Dot (V 6) ''a'') (Dot (Dot (Dot (V 6) ''c'') ''c'') ''length'')) [Do (SetV 5 (Call ''JD'' [Call ''Imb'' [V 6], K (JNum 17)])), Do (Or (Loose (Dot (Dot (Dot (Dot (V 5) ''c'') ''e'') ''c'') ''length'') (K (JNum 0))) (Seq (Call ''qDb'' [Dot (V 17) ''c'', V 5]) (K (JBool True))))] []] [], Do (SetV 16 (New ''Kmb'' [V 17])), Loop (Bin Lt (Dot (V 16) ''a'') (Dot (Dot (Dot (V 16) ''c'') ''c'') ''length'')) [Do (SetV 15 (Call ''JD'' [Call ''Imb'' [V 16], K (JNum 17)])), Do (Call ''BWb'' [V 15, K (JBool True)])] []]] []] [], Do (And (Meth (V 1) ''$g'' []) (Meth (V 1) ''ah'' [Bin Plus (Bin Plus (K (JStr ''Found '')) (V 2)) (K (JStr '' comment boxes''))])), Do (Meth (V 1) ''Ug'' [])],
    fn ''Brd'' 5 22 [Do (SetV 19 (K (JNum 0))), Do (SetV 14 (K (JNum 0))), Do (SetV 13 (K (JNum 0))), Do (SetV 12 (K (JNum 1))), Do (SetV 18 (New ''uKd'' [Seq (And (Neg (Dot (V 0) ''a'')) (Put (V 0) ''a'' (New ''P3d'' [G ''T3'', V 0, K (JNum 10), K (JNum 11)]))) (Dot (V 0) ''a'')])), Loop (Neg (Loose (Dot (V 18) ''e'') (Meth (Dot (V 18) ''i'') ''gc'' []))) [Do (SetV 16 (Call ''JD'' [Call ''sKd'' [V 18], K (JNum 26)])), Do (SetV 12 (Bin Plus (V 12) (Call ''Br'' [New ''Yr'' [Call ''Dr'' [Meth (Dot (Call ''SEd'' [V 16]) ''a'') ''Jc'' [], New ''Dl'' []]]]))), Do (SetV 24 (Dot (V 16) ''g'')), Do (SetV 14 (Meth (Dot (G ''$wnd'') ''Math'') ''max'' [V 14, V 24])), Do (SetV 11 (Dot (V 16) ''f'')), Do (SetV 13 (Meth (Dot (G ''$wnd'') ''Math'') ''max'' [V 13, V 11])), Do (SetV 19 (Bin Plus (V 19) (Bin Times (V 24) (V 11))))] [], Do (SetV 15 (Dot (Seq (And (Neg (Dot (V 0) ''a'')) (Put (V 0) ''a'' (New ''P3d'' [G ''T3'', V 0, K (JNum 10), K (JNum 11)]))) (Dot (V 0) ''a'')) ''i'')), Do (SetV 6 (Bin Plus (V 19) (Bin Times (Bin Times (Bin Times (Bin Times (K (JNum 2)) (V 3)) (V 3)) (V 12)) (V 15)))), Do (SetV 5 (Meth (Dot (G ''$wnd'') ''Math'') ''sqrt'' [V 6])), Do (SetV 8 (Meth (Dot (G ''$wnd'') ''Math'') ''max'' [Bin Times (V 5) (V 2), V 14])), Do (SetV 7 (Meth (Dot (G ''$wnd'') ''Math'') ''max'' [Bin Divide (V 5) (V 2), V 13])), Do (SetV 17 (New ''uKd'' [Seq (And (Neg (Dot (V 0) ''a'')) (Put (V 0) ''a'' (New ''P3d'' [G ''T3'', V 0, K (JNum 10), K (JNum 11)]))) (Dot (V 0) ''a'')])), Loop (Neg (Loose (Dot (V 17) ''e'') (Meth (Dot (V 17) ''i'') ''gc'' []))) [Do (SetV 16 (Call ''JD'' [Call ''sKd'' [V 17], K (JNum 26)])), Do (SetV 25 (Bin Plus (Dot (V 4) ''b'') (Bin Times (Bin Plus (Bin Times (Call ''Rvb'' [V 1, K (JNum 26)]) (G ''Yve'')) (Bin Times (Call ''Rvb'' [V 1, K (JNum 27)]) (G ''Zve''))) (Bin Minus (V 8) (Dot (V 16) ''g''))))), Do (SetV 26 (Bin Plus (Dot (V 4) ''b'') (Bin Times (Bin Plus (Bin Times (Call ''Rvb'' [V 1, K (JNum 26)]) (G ''Yve'')) (Bin Times (Call ''Rvb'' [V 1, K (JNum 27)]) (G ''Zve''))) (Bin Minus (V 7) (Dot (V 16) ''f''))))), Do (Call ''_vd'' [V 16, V 25]), Do (Call ''awd'' [V 16, V 26])] [], Do (SetV 23 (Bin Plus (V 8) (Bin Plus (Dot (V 4) ''b'') (Dot (V 4) ''c'')))), Do (SetV 22 (Bin Plus (V 7) (Bin Plus (Dot (V 4) ''d'') (Dot (V 4) ''a'')))), Do (SetV 21 (New ''uKd'' [Seq (And (Neg (Dot (V 0) ''a'')) (Put (V 0) ''a'' (New ''P3d'' [G ''T3'', V 0, K (JNum 10), K (JNum 11)]))) (Dot (V 0) ''a'')])), Loop (Neg (Loose (Dot (V 21) ''e'') (Meth (Dot (V 21) ''i'') ''gc'' []))) [Do (SetV 20 (Call ''JD'' [Call ''sKd'' [V 21], K (JNum 26)])), Do (SetV 10 (New ''Yr'' [Call ''Dr'' [Meth (Dot (Call ''SEd'' [V 20]) ''a'') ''Jc'' [], New ''Dl'' []]])), Loop (Call ''Wr'' [V 10]) [Do (SetV 9 (Call ''JD'' [Call ''Xr'' [V 10], K (JNum 85)])), Do (Or (Call ''Jwd'' [V 9]) (Call ''Ard'' [V 9, V 1, V 23, V 22]))] []] [], Do (SetV 23 (Bin Plus (V 23) (Bin Plus (Dot (V 4) ''b'') (Dot (V 4) ''c'')))), Do (SetV 22 (Bin Plus (V 22) (Bin Plus (Dot (V 4) ''d'') (Dot (V 4) ''a'')))), Do (Call ''eqd'' [V 0, V 23, V 22, K (JBool False), K (JBool True)])],
    fn ''rec'' 1 4 [Do (Call ''YBb'' [Call ''VBb'' [New ''jCb'' [K JNull, New ''Zvb'' [Dot (Dot (V 0) ''a'') ''b'', K (JNum 16)]], New ''Tec'' []], New ''Vec'' []]), Do (Call ''pec'' [V 0]), Do (Call ''YBb'' [Call ''VBb'' [New ''jCb'' [K JNull, New ''Zvb'' [Dot (Dot (V 0) ''a'') ''b'', K (JNum 16)]], New ''Xec'' []], New ''Zec'' []]), When (Loose (Dot (V 0) ''c'') (Seq (Call ''hkd'' []) (G ''fkd''))) [Do (Call ''YBb'' [Call ''VBb'' [Call ''XBb'' [New ''jCb'' [K JNull, New ''Zvb'' [New ''fkb'' [Dot (V 0) ''f''], K (JNum 1)]], New ''ffc'' []], New ''hfc'' []], New ''jfc'' [V 0]]), Do (Call ''YBb'' [Call ''VBb'' [Call ''ZBb'' [Call ''XBb'' [Call ''XBb'' [New ''jCb'' [K JNull, New ''Zvb'' [Dot (Dot (V 0) ''d'') ''b'', K (JNum 16)]], New ''nfc'' []], New ''pfc'' []], New ''rfc'' []], New ''tfc'' []], New ''vfc'' [V 0]])] [], Do (Call ''YBb'' [Call ''VBb'' [Call ''XBb'' [New ''jCb'' [K JNull, New ''Zvb'' [New ''fkb'' [Dot (V 0) ''f''], K (JNum 1)]], New ''xfc'' []], New ''zfc'' []], New ''Bfc'' [V 0]]), Do (SetV 4 (New ''lgd'' [G ''Cve'', G ''Cve''])), Do (SetV 1 (New ''lgd'' [G ''Dve'', G ''Dve''])), Do (SetV 3 (New ''Kmb'' [Dot (Dot (V 0) ''a'') ''b''])), Loop (Bin Lt (Dot (V 3) ''a'') (Dot (Dot (Dot (V 3) ''c'') ''c'') ''length'')) [Do (SetV 2 (Call ''JD'' [Call ''Imb'' [V 3], K (JNum 60)])), Do (Put (V 4) ''a'' (Meth (Dot (G ''$wnd'') ''Math'') ''min'' [Dot (V 4) ''a'', Dot (Dot (V 2) ''d'') ''c''])), Do (Put (V 4) ''b'' (Meth (Dot (G ''$wnd'') ''Math'') ''min'' [Dot (V 4) ''b'', Dot (Dot (V 2) ''d'') ''d''])), Do (Put (V 1) ''a'' (Meth (Dot (G ''$wnd'') ''Math'') ''max'' [Dot (V 1) ''a'', Bin Plus (Dot (Dot (V 2) ''d'') ''c'') (Dot (Dot (V 2) ''d'') ''b'')])), Do (Put (V 1) ''b'' (Meth (Dot (G ''$wnd'') ''Math'') ''max'' [Dot (V 1) ''b'', Bin Plus (Dot (Dot (V 2) ''d'') ''d'') (Dot (Dot (V 2) ''d'') ''a'')]))] [], Do (Call ''Vfd'' [Call ''cgd'' [Dot (Dot (V 0) ''d'') ''c''], Call ''agd'' [New ''lgd'' [Dot (V 4) ''a'', Dot (V 4) ''b'']]]), Do (Call ''Vfd'' [Call ''cgd'' [Dot (Dot (V 0) ''d'') ''f''], Call ''igd'' [New ''lgd'' [Dot (V 1) ''a'', Dot (V 1) ''b''], V 4]]), Do (Call ''qec'' [V 0, V 4, V 1]), Do (Call ''kjb'' [Dot (V 0) ''f'']), Do (Call ''kjb'' [Dot (V 0) ''b'']), Do (Call ''kjb'' [Dot (V 0) ''g'']), Do (Call ''kjb'' [Dot (V 0) ''e'']), Do (Put (Dot (Dot (Dot (V 0) ''a'') ''a'') ''c'') ''length'' (K (JNum 0))), Do (Put (Dot (Dot (Dot (V 0) ''a'') ''b'') ''c'') ''length'' (K (JNum 0))), Do (Put (V 0) ''a'' (K JNull)), Do (Put (V 0) ''d'' (K JNull))],
    fn ''Jie'' 2 7 [Do (Call ''Hie'' []), Do (Put This ''a'' (New ''Mie'' [This])), Do (Put This ''b'' (V 0)), Do (Put This ''c'' (V 1)), Do (Put This ''f'' (Call ''Pde'' [Call ''bde'' [Seq (Call ''yie'' []) (G ''wie''), V 1]])), When (Meth (Dot This ''f'') ''dc'' []) [When (Loose (SetV 7 (Call ''ede'' [G ''wie'', V 0])) (V 1)) [Do (Put This ''e'' (K (JBool True))), Do (Put This ''d'' (New ''lmb'' [])), Do (Put This ''f'' (New ''_Qd'' [])), Do (Meth (Dot This ''f'') ''Ec'' [G ''oJe'']), Do (And (Loose (Call ''JD'' [Call ''Gde'' [Call ''ade'' [G ''wie'', Call ''OVd'' [V 0]], K (JStr '''')], K (JNum 29)]) (V 0)) (Meth (Dot This ''f'') ''Ec'' [Call ''fde'' [G ''wie'', Call ''OVd'' [V 0]]])), Do (SetV 4 (Meth (Call ''Tce'' [G ''wie'', V 0]) ''Jc'' [])), Loop (Meth (V 4) ''Ob'' []) [Do (SetV 3 (Call ''JD'' [Meth (V 4) ''Pb'' [], K (JNum 179)])), Switch (Call ''Lde'' [Call ''bde'' [G ''wie'', V 3]]) [(Some (JNum 4), [Do (Meth (Dot This ''d'') ''Ec'' [V 3]), Break]), (Some (JNum 5), [Do (Meth (Dot This ''f'') ''Fc'' [Call ''Pde'' [Call ''bde'' [G ''wie'', V 3]]]), Break])]] []] [Do (Call ''Aie'' []), When (Meth (Call ''JD'' [V 1, K (JNum 69)]) ''vk'' []) [Do (Put This ''e'' (K (JBool True))), Do (Put This ''f'' (K JNull)), Do (Put This ''d'' (New ''lmb'' [])), Do (Seq (SetV 6 (K (JNum 0))) (SetV 8 (Dot (Seq (And (Loose (Dot (V 0) ''i'') (K JNull)) (Call ''EWd'' [V 0])) (Dot (V 0) ''i'')) ''length''))), Loop (Bin Lt (V 6) (V 8)) [Do (SetV 3 (Seq (SetV 2 (Seq (And (Loose (Dot (V 0) ''i'') (K JNull)) (Call ''EWd'' [V 0])) (Dot (V 0) ''i''))) (Cond (And (Bin Ge (V 6) (K (JNum 0))) (Bin Lt (V 6) (Dot (V 2) ''length''))) (Idx (V 2) (V 6)) (K JNull)))), Do (SetV 5 (Call ''Mde'' [Call ''bde'' [G ''wie'', V 3]])), Loop (V 5) [Do (And (Loose (V 5) (V 1)) (Meth (Dot This ''d'') ''Ec'' [V 3]))] [Do (SetV 5 (Call ''Mde'' [Call ''bde'' [G ''wie'', V 5]]))]] [Do (SetV 6 (Bin Minus (V 6) (K (JNum (- 1)))))]] [When (And (Loose (Call ''Lde'' [Call ''bde'' [G ''wie'', V 1]]) (K (JNum 1))) (Neg (Neg (V 7)))) [Do (Put This ''f'' (K JNull)), Do (Put This ''d'' (Seq (Call ''Yje'' []) (G ''Xje'')))] [Do (Put This ''f'' (K JNull)), Do (Put This ''e'' (K (JBool True))), Do (Put This ''d'' (Seq (Call ''Inb'' []) (New ''wob'' [V 1])))]]]] [Do (Put This ''e'' (Loose (Call ''Lde'' [Call ''bde'' [G ''wie'', V 1]]) (K (JNum 5)))), Do (And (Meth (Dot This ''f'') ''Fb'' [G ''Gie'']) (Put This ''f'' (G ''Gie'')))]]]"

definition code_6165_6171 :: "(string \<times> jfun) list" where
  "code_6165_6171 = [
    fn ''VKb'' 2 13 [Do (SetV 2 (K (JNum 0))), Do (SetV 3 (Call ''UKb'' [V 0, V 1])), Do (SetV 12 (Dot (V 0) ''s'')), Do (SetV 13 (Dot (V 0) ''t'')), Do (SetV 9 (Meth (Call ''JD'' [Call ''JD'' [Call ''Qc'' [Dot (V 0) ''r'', V 1], K (JNum 22)], K (JNum 83)]) ''Jc'' [])), Loop (Meth (V 9) ''Ob'' []) [Do (SetV 8 (Call ''JD'' [Meth (V 9) ''Pb'' [], K (JNum 115)])), When (Or (Neg (Dot (V 8) ''c'')) (Bin Le (Dot (Dot (Dot (Dot (V 8) ''c'') ''d'') ''c'') ''length'') (K (JNum 0)))) [Continue] [], Do (SetV 14 (Meth (Dot (V 8) ''b'') ''Kf'' [])), Do (SetV 7 (Cond (Meth (Dot (V 8) ''b'') ''nf'' [Seq (Call ''vjd'' []) (G ''Eid'')]) (Call ''Ueb'' [Call ''MD'' [Meth (Dot (V 8) ''b'') ''mf'' [G ''Eid'']]]) (K (JNum 0)))), Do (SetV 10 (Dot (V 8) ''c'')), Do (SetV 11 (Dot (V 10) ''i'')), Do (Put (V 11) ''b'' (Seq (SetV 6 (Dot (V 10) ''n'')) (Bin Plus (Bin Plus (Dot (Dot (V 10) ''e'') ''a'') (Dot (V 6) ''b'')) (Dot (V 6) ''c'')))), Do (Put (V 11) ''a'' (Seq (SetV 5 (Dot (V 10) ''n'')) (Bin Plus (Bin Plus (Dot (Dot (V 10) ''e'') ''b'') (Dot (V 5) ''d'')) (Dot (V 5) ''a'')))), Switch (Dot (V 1) ''g'') [(Some (JNum 1), [Do (Put (V 11) ''c'' (Cond (Dot (V 8) ''a'') (Bin Divide (Bin Minus (Dot (V 14) ''a'') (Dot (V 11) ''b'')) (K (JNum 2))) (Bin Plus (Dot (V 14) ''a'') (V 12)))), Do (Put (V 11) ''d'' (Bin Plus (Bin Plus (Dot (V 14) ''b'') (V 7)) (V 3))), Do (Call ''uIb'' [V 10, Seq (Call ''hIb'' []) (G ''eIb'')]), Do (Call ''vIb'' [V 10, Seq (Call ''$Ib'' []) (G ''ZIb'')]), Break]), (Some (JNum 3), [Do (Put (V 11) ''c'' (Cond (Dot (V 8) ''a'') (Bin Divide (Bin Minus (Dot (V 14) ''a'') (Dot (V 11) ''b'')) (K (JNum 2))) (Bin Plus (Dot (V 14) ''a'') (V 12)))), Do (Put (V 11) ''d'' (Bin Minus (Bin Minus (Minus1 (V 7)) (V 3)) (Dot (V 11) ''a''))), Do (Call ''uIb'' [V 10, Seq (Call ''hIb'' []) (G ''eIb'')]), Do (Call ''vIb'' [V 10, Seq (Call ''$Ib'' []) (G ''XIb'')]), Break]), (Some (JNum 2), [Do (Put (V 11) ''c'' (Bin Minus (Bin Minus (Minus1 (V 7)) (V 3)) (Dot (V 11) ''b''))), When (Dot (V 8) ''a'') [Do (SetV 4 (Cond (Dot (V 0) ''v'') (Dot (V 11) ''a'') (Dot (Meth (Call ''JD'' [Call ''dmb'' [Dot (V 10) ''d'', K (JNum 0)], K (JNum 187)]) ''Kf'' []) ''b''))), Do (Put (V 11) ''d'' (Bin Divide (Bin Minus (Dot (V 14) ''b'') (V 4)) (K (JNum 2))))] [Do (Put (V 11) ''d'' (Bin Plus (Dot (V 14) ''b'') (V 13)))], Do (Call ''uIb'' [V 10, Seq (Call ''hIb'' []) (G ''gIb'')]), Do (Call ''vIb'' [V 10, Seq (Call ''$Ib'' []) (G ''YIb'')]), Break]), (Some (JNum 4), [Do (Put (V 11) ''c'' (Bin Plus (Bin Plus (Dot (V 14) ''a'') (V 7)) (V 3))), When (Dot (V 8) ''a'') [Do (SetV 4 (Cond (Dot (V 0) ''v'') (Dot (V 11) ''a'') (Dot (Meth (Call ''JD'' [Call ''dmb'' [Dot (V 10) ''d'', K (JNum 0)], K (JNum 187)]) ''Kf'' []) ''b''))), Do (Put (V 11) ''d'' (Bin Divide (Bin Minus (Dot (V 14) ''b'') (V 4)) (K (JNum 2))))] [Do (Put (V 11) ''d'' (Bin Plus (Dot (V 14) ''b'') (V 13)))], Do (Call ''uIb'' [V 10, Seq (Call ''hIb'' []) (G ''fIb'')]), Do (Call ''vIb'' [V 10, Seq (Call ''$Ib'' []) (G ''YIb'')])])], Do (And (Or (Loose (V 1) (Seq (Call ''Bmd'' []) (G ''hmd''))) (Loose (V 1) (G ''ymd''))) (SetV 2 (Meth (Dot (G ''$wnd'') ''Math'') ''max'' [V 2, Dot (V 11) ''a''])))] [], Do (And (Bin Gt (V 2) (K (JNum 0))) (Put (Dot (Call ''JD'' [Call ''brb'' [Dot (V 0) ''b'', V 1], K (JNum 127)]) ''a'') ''b'' (V 2)))],
    fn ''O$b'' 3 15 [Do (SetV 13 (K (JNum 0))), Do (SetV 3 (New ''hsb'' [])), Do (SetV 5 (New ''uKd'' [Seq (And (Neg (Dot (V 1) ''a'')) (Put (V 1) ''a'' (New ''P3d'' [G ''T3'', V 1, K (JNum 10), K (JNum 11)]))) (Dot (V 1) ''a'')])), Loop (Neg (Loose (Dot (V 5) ''e'') (Meth (Dot (V 5) ''i'') ''gc'' []))) [Do (SetV 4 (Call ''JD'' [Call ''sKd'' [V 5], K (JNum 26)])), When (Neg (Call ''Rdb'' [Call ''LD'' [Call ''cvd'' [V 4, Seq (Call ''nyc'' []) (G ''exc'')]]])) [Do (SetV 11 (Call ''Rzd'' [V 4])), When (And (Call ''S$b'' [V 11]) (Neg (Call ''Rdb'' [Call ''LD'' [Call ''cvd'' [V 4, G ''Mvc'']]]))) [Do (Call ''evd'' [V 4, Seq (Call ''Wrc'' []) (G ''trc''), Call ''Cfb'' [V 13]]), Do (SetV 13 (Bin Minus (V 13) (K (JNum (- 1))))), Do (And (Call ''dvd'' [V 4, G ''Kvc'']) (Call ''esb'' [V 3, Call ''JD'' [Call ''cvd'' [V 4, G ''Kvc''], K (JNum 15)]]))] [], Do (Call ''W$b'' [V 0, V 4, V 2])] []] [], Do (Call ''rNb'' [V 2, Seq (Call ''Wrc'' []) (G ''rrc''), Call ''Cfb'' [V 13]]), Do (Call ''rNb'' [V 2, G ''Nqc'', Call ''Cfb'' [Meth (Dot (V 3) ''a'') ''gc'' []]]), Do (SetV 13 (K (JNum 0))), Do (SetV 10 (New ''uKd'' [Seq (And (Neg (Dot (V 1) ''b'')) (Put (V 1) ''b'' (New ''P3d'' [G ''Q3'', V 1, K (JNum 12), K (JNum 3)]))) (Dot (V 1) ''b'')])), Loop (Neg (Loose (Dot (V 10) ''e'') (Meth (Dot (V 10) ''i'') ''gc'' []))) [Do (SetV 8 (Call ''JD'' [Call ''sKd'' [V 10], K (JNum 85)])), When (Call ''S$b'' [V 1]) [Do (Call ''evd'' [V 8, G ''trc'', Call ''Cfb'' [V 13]]), Do (SetV 13 (Bin Minus (V 13) (K (JNum (- 1)))))] [], Do (SetV 16 (Call ''aFd'' [V 8])), Do (SetV 17 (Call ''bFd'' [V 8])), Do (SetV 12 (Call ''Rdb'' [Call ''LD'' [Call ''cvd'' [V 16, Seq (Call ''nyc'' []) (G ''xwc'')]]])), Do (SetV 15 (Neg (Call ''Rdb'' [Call ''LD'' [Call ''cvd'' [V 8, G ''exc'']]]))), Do (SetV 14 (And (And (V 12) (Call ''Kwd'' [V 8])) (Call ''Rdb'' [Call ''LD'' [Call ''cvd'' [V 8, G ''ywc'']]]))), Do (SetV 6 (And (Loose (Call ''Rzd'' [V 16]) (V 1)) (Loose (Call ''Rzd'' [V 16]) (Call ''Rzd'' [V 17])))), Do (SetV 7 (Bin BitXor (And (Loose (Call ''Rzd'' [V 16]) (V 1)) (Loose (V 17) (V 1))) (And (Loose (Call ''Rzd'' [V 17]) (V 1)) (Loose (V 16) (V 1))))), Do (And (And (And (V 15) (Neg (V 14))) (Or (V 7) (V 6))) (Call ''T$b'' [V 0, V 8, V 1, V 2]))] [], When (Call ''Rzd'' [V 1]) [Do (SetV 9 (New ''uKd'' [Call ''Qzd'' [Call ''Rzd'' [V 1]]])), Loop (Neg (Loose (Dot (V 9) ''e'') (Meth (Dot (V 9) ''i'') ''gc'' []))) [Do (SetV 8 (Call ''JD'' [Call ''sKd'' [V 9], K (JNum 85)])), Do (SetV 16 (Call ''aFd'' [V 8])), When (And (Loose (V 16) (V 1)) (Call ''Kwd'' [V 8])) [Do (SetV 14 (And (Call ''Rdb'' [Call ''LD'' [Call ''cvd'' [V 16, Seq (Call ''nyc'' []) (G ''xwc'')]]]) (Call ''Rdb'' [Call ''LD'' [Call ''cvd'' [V 8, G ''ywc'']]]))), Do (And (V 14) (Call ''T$b'' [V 0, V 8, V 1, V 2]))] []] []] []],
    fn ''i3b'' 1 27 [Do (SetV 22 (New ''lmb'' [])), Do (SetV 14 (New ''Kmb'' [Dot (V 0) ''b''])), Loop (Bin Lt (Dot (V 14) ''a'') (Dot (Dot (Dot (V 14) ''c'') ''c'') ''length'')) [Do (SetV 13 (Call ''JD'' [Call ''Imb'' [V 14], K (JNum 25)])), Do (SetV 17 (New ''Kmb'' [Dot (V 13) ''a''])), Loop (Bin Lt (Dot (V 17) ''a'') (Dot (Dot (Dot (V 17) ''c'') ''c'') ''length'')) [Do (SetV 15 (Call ''JD'' [Call ''Imb'' [V 17], K (JNum 9)])), When (Neg (Loose (Dot (V 15) ''k'') (Seq (Call ''$Yb'' []) (G ''TYb'')))) [Continue] [], When (Neg (Call ''pNb'' [V 15, Seq (Call ''Wrc'' []) (G ''Zqc'')])) [Continue] [], Do (SetV 18 (K JNull)), Do (SetV 20 (K JNull)), Do (SetV 19 (K JNull)), Do (SetV 25 (New ''Kmb'' [Dot (V 15) ''j''])), Loop (Bin Lt (Dot (V 25) ''a'') (Dot (Dot (Dot (V 25) ''c'') ''c'') ''length'')) [Do (SetV 24 (Call ''JD'' [Call ''Imb'' [V 25], K (JNum 12)])), Switch (Dot (Dot (V 24) ''j'') ''g'') [(Some (JNum 4), [Do (SetV 18 (V 24)), Break]), (Some (JNum 2), [Do (SetV 20 (V 24)), Break]), (None, [Do (SetV 19 (V 24))])]] [], Do (SetV 21 (Call ''JD'' [Call ''dmb'' [Dot (V 19) ''g'', K (JNum 0)], K (JNum 17)])), Do (SetV 10 (New ''zgd'' [Dot (V 21) ''a''])), Do (SetV 9 (New ''mgd'' [Dot (V 19) ''n''])), Do (Call ''Vfd'' [V 9, Dot (V 15) ''n'']), Do (SetV 11 (Call ''Ztb'' [V 10, K (JNum 0)])), Do (Call ''jub'' [V 11, V 9]), Do (SetV 23 (Call ''Cgd'' [Dot (V 21) ''a''])), Do (SetV 12 (New ''mgd'' [Dot (V 19) ''n''])), Do (Call ''Vfd'' [V 12, Dot (V 15) ''n'']), Do (Call ''Wtb'' [V 23, V 12, Dot (Dot (V 23) ''c'') ''b'', Dot (V 23) ''c'']), Do (SetV 26 (Call ''JD'' [Call ''oNb'' [V 15, G ''Zqc''], K (JNum 9)])), Do (SetV 27 (Call ''JD'' [Call ''dmb'' [Dot (V 26) ''j'', K (JNum 0)], K (JNum 12)])), Do (SetV 8 (Call ''JD'' [Call ''kmb'' [Dot (V 18) ''e'', Call ''SC'' [G ''DP'', G ''Aye'', K (JNum 17), K (JNum 0), K (JNum 0), K (JNum 1)]], K (JNum 324)])), Do (Seq (Seq (SetV 3 (V 8)) (SetV 5 (K (JNum 0)))) (SetV 7 (Dot (V 3) ''length''))), Loop (Bin Lt (V 5) (V 7)) [Do (SetV 1 (Idx (V 3) (V 5))), Do (Call ''DWb'' [V 1, V 27]), Do (Call ''ugd'' [Dot (V 1) ''a'', Dot (Dot (V 1) ''a'') ''b'', V 10])] [Do (SetV 5 (Bin Minus (V 5) (K (JNum (- 1)))))], Do (SetV 8 (Call ''ZXb'' [Dot (V 20) ''g''])), Do (Seq (Seq (SetV 2 (V 8)) (SetV 4 (K (JNum 0)))) (SetV 6 (Dot (V 2) ''length''))), Loop (Bin Lt (V 4) (V 6)) [Do (SetV 1 (Idx (V 2) (V 4))), Do (Call ''CWb'' [V 1, V 27]), Do (Call ''ugd'' [Dot (V 1) ''a'', K (JNum 0), V 23])] [Do (SetV 4 (Bin Minus (V 4) (K (JNum (- 1)))))], Do (Call ''CWb'' [V 21, K JNull]), Do (Call ''DWb'' [V 21, K JNull]), Do (Call ''qDb'' [Dot (V 22) ''c'', V 15])] []] [], Do (SetV 16 (New ''Kmb'' [V 22])), Loop (Bin Lt (Dot (V 16) ''a'') (Dot (Dot (Dot (V 16) ''c'') ''c'') ''length'')) [Do (SetV 15 (Call ''JD'' [Call ''Imb'' [V 16], K (JNum 9)])), Do (Call ''NYb'' [V 15, K JNull])] []],
    fn ''k6b'' 4 12 [Do (SetV 12 (Call ''Ueb'' [Call ''MD'' [Call ''oNb'' [V 0, Seq (Call ''nyc'' []) (G ''Qxc'')]]])), Do (SetV 13 (Call ''Ueb'' [Call ''MD'' [Call ''oNb'' [V 0, G ''Rxc'']]])), Do (SetV 11 (Call ''Ueb'' [Call ''MD'' [Call ''oNb'' [V 0, G ''Oxc'']]])), Do (SetV 7 (Dot (V 0) ''o'')), Do (SetV 5 (Call ''JD'' [Call ''dmb'' [Dot (V 0) ''j'', K (JNum 0)], K (JNum 12)])), Do (SetV 6 (Dot (V 5) ''n'')), Do (SetV 15 (Call ''i6b'' [V 5, V 11])), When (Neg (V 15)) [Ret (K JUndef)] [], When (Meth (V 1) ''Gc'' [Seq (Call ''$ld'' []) (G ''Wld'')]) [Switch (Dot (Call ''JD'' [Call ''oNb'' [V 0, Seq (Call ''Wrc'' []) (G ''$qc'')], K (JNum 64)]) ''g'') [(Some (JNum 1), [Do (Put (V 15) ''c'' (Bin Minus (Bin Divide (Bin Minus (Dot (V 7) ''a'') (Dot (V 15) ''b'')) (K (JNum 2))) (Dot (V 6) ''a''))), Do (Put (V 15) ''d'' (V 13)), Break]), (Some (JNum 3), [Do (Put (V 15) ''c'' (Bin Minus (Bin Divide (Bin Minus (Dot (V 7) ''a'') (Dot (V 15) ''b'')) (K (JNum 2))) (Dot (V 6) ''a''))), Do (Put (V 15) ''d'' (Bin Minus (Minus1 (V 13)) (Dot (V 15) ''a''))), Break]), (Some (JNum 2), [When (And (And (V 2) (Loose (Dot (Dot (Dot (V 5) ''e'') ''c'') ''length'') (K (JNum 0)))) (Loose (Dot (Dot (Dot (V 5) ''g'') ''c'') ''length'') (K (JNum 0)))) [Do (SetV 10 (Cond (V 3) (Dot (V 15) ''a'') (Dot (Dot (Call ''JD'' [Call ''dmb'' [Dot (V 5) ''f'', K (JNum 0)], K (JNum 70)]) ''o'') ''b''))), Do (Put (V 15) ''d'' (Bin Minus (Bin Divide (Bin Minus (Dot (V 7) ''b'') (V 10)) (K (JNum 2))) (Dot (V 6) ''b'')))] [Do (Put (V 15) ''d'' (Bin Minus (Bin Plus (Dot (V 7) ''b'') (V 13)) (Dot (V 6) ''b'')))], Do (Put (V 15) ''c'' (Bin Minus (Minus1 (V 12)) (Dot (V 15) ''b''))), Break]), (Some (JNum 4), [When (And (And (V 2) (Loose (Dot (Dot (Dot (V 5) ''e'') ''c'') ''length'') (K (JNum 0)))) (Loose (Dot (Dot (Dot (V 5) ''g'') ''c'') ''length'') (K (JNum 0)))) [Do (SetV 10 (Cond (V 3) (Dot (V 15) ''a'') (Dot (Dot (Call ''JD'' [Call ''dmb'' [Dot (V 5) ''f'', K (JNum 0)], K (JNum 70)]) ''o'') ''b''))), Do (Put (V 15) ''d'' (Bin Minus (Bin Divide (Bin Minus (Dot (V 7) ''b'') (V 10)) (K (JNum 2))) (Dot (V 6) ''b'')))] [Do (Put (V 15) ''d'' (Bin Minus (Bin Plus (Dot (V 7) ''b'') (V 13)) (Dot (V 6) ''b'')))], Do (Put (V 15) ''c'' (V 12))])]] [When (Meth (V 1) ''Gc'' [G ''Yld'']) [Switch (Dot (Call ''JD'' [Call ''oNb'' [V 0, Seq (Call ''Wrc'' []) (G ''$qc'')], K (JNum 64)]) ''g'') [(Some (JNum 1), []), (Some (JNum 3), [Do (Put (V 15) ''c'' (Bin Plus (Dot (V 6) ''a'') (V 12))), Break]), (Some (JNum 2), []), (Some (JNum 4), [When (And (V 2) (Neg (Dot (V 5) ''c''))) [Do (SetV 10 (Cond (V 3) (Dot (V 15) ''a'') (Dot (Dot (Call ''JD'' [Call ''dmb'' [Dot (V 5) ''f'', K (JNum 0)], K (JNum 70)]) ''o'') ''b''))), Do (Put (V 15) ''d'' (Bin Minus (Bin Divide (Bin Minus (Dot (V 7) ''b'') (V 10)) (K (JNum 2))) (Dot (V 6) ''b'')))] [Do (Put (V 15) ''d'' (Bin Plus (Dot (V 6) ''b'') (V 13)))]])]] []], Do (SetV 4 (Dot (V 15) ''d'')), Do (SetV 9 (New ''Kmb'' [Dot (V 5) ''f''])), Loop (Bin Lt (Dot (V 9) ''a'') (Dot (Dot (Dot (V 9) ''c'') ''c'') ''length'')) [Do (SetV 8 (Call ''JD'' [Call ''Imb'' [V 9], K (JNum 70)])), Do (SetV 14 (Dot (V 8) ''n'')), Do (Put (V 14) ''a'' (Dot (V 15) ''c'')), Do (Put (V 14) ''b'' (V 4)), Do (SetV 4 (Bin Plus (V 4) (Bin Plus (Dot (Dot (V 8) ''o'') ''b'') (V 11))))] []],
    fn ''fJb'' 1 1 [Do (Put This ''r'' (Call ''My'' [New ''iJb'' [], New ''mJb'' []])), Do (Put This ''b'' (New ''frb'' [Call ''JD'' [Call ''Qb'' [G ''M2''], K (JNum 298)]])), Do (Put This ''p'' (New ''frb'' [Call ''JD'' [Call ''Qb'' [G ''M2''], K (JNum 298)]])), Do (Put This ''i'' (New ''frb'' [Call ''JD'' [Call ''Qb'' [G ''vN''], K (JNum 298)]])), Do (Put This ''e'' (V 0)), Do (Put This ''o'' (New ''mgd'' [Meth (V 0) ''Kf'' []])), Do (Put This ''D'' (Call ''Rdb'' [Call ''LD'' [Meth (V 0) ''mf'' [Seq (Call ''vjd'' []) (G ''kjd'')]]])), Do (Put This ''F'' (Or (Meth (V 0) ''Wf'' []) (Call ''Rdb'' [Call ''LD'' [Meth (V 0) ''mf'' [G ''Uhd'']]]))), Do (Put This ''A'' (Call ''JD'' [Meth (V 0) ''mf'' [G ''iid''], K (JNum 22)])), Do (Put This ''B'' (Call ''JD'' [Meth (V 0) ''mf'' [G ''nid''], K (JNum 22)])), Do (Put This ''q'' (Call ''JD'' [Meth (V 0) ''mf'' [G ''Fid''], K (JNum 102)])), Do (Put This ''u'' (Call ''JD'' [Meth (V 0) ''mf'' [G ''Jid''], K (JNum 22)])), When (Neg (Call ''bmd'' [Dot This ''u''])) [Raise (Call ''Lcb'' [New ''Ebd'' [Bin Plus (K (JStr ''Invalid port label placement: '')) (Dot This ''u'')]])] [], Do (Put This ''v'' (Call ''Rdb'' [Call ''LD'' [Meth (V 0) ''mf'' [G ''Lid'']]])), Do (Put This ''j'' (Call ''JD'' [Meth (V 0) ''mf'' [G ''gid''], K (JNum 22)])), When (Neg (Call ''qld'' [Dot This ''j''])) [Raise (Call ''Lcb'' [New ''Ebd'' [Bin Plus (K (JStr ''Invalid node label placement: '')) (Dot This ''j'')]])] [], Do (Put This ''n'' (Call ''JD'' [Call ''Hqd'' [V 0, G ''eid''], K (JNum 104)])), Do (Put This ''k'' (Call ''Ueb'' [Call ''MD'' [Call ''Hqd'' [V 0, G ''ajd'']]])), Do (Put This ''d'' (Call ''Ueb'' [Call ''MD'' [Call ''Hqd'' [V 0, G ''_id'']]])), Do (Put This ''w'' (Call ''Ueb'' [Call ''MD'' [Call ''Hqd'' [V 0, G ''hjd'']]])), Do (Put This ''s'' (Call ''Ueb'' [Call ''MD'' [Call ''Hqd'' [V 0, G ''bjd'']]])), Do (Put This ''t'' (Call ''Ueb'' [Call ''MD'' [Call ''Hqd'' [V 0, G ''cjd'']]])), Do (Put This ''C'' (Call ''JD'' [Call ''Hqd'' [V 0, G ''fjd''], K (JNum 140)])), Do (Put This ''c'' (Bin Times (K (JNum 2)) (Dot This ''d''))), Do (SetV 1 (Neg (Meth (Dot This ''B'') ''Gc'' [Seq (Call ''xnd'' []) (G ''ond'')]))), Do (Put This ''f'' (New ''IIb'' [K (JNum 0), V 1, K (JNum 0)])), Do (Put This ''g'' (New ''IIb'' [K (JNum 1), V 1, K (JNum 0)])), Do (Call ''HIb'' [Dot This ''f'', Seq (Call ''CHb'' []) (G ''AHb''), Dot This ''g''])],
    fn ''Qle'' 0 0 [Do (Call ''cQd'' [G ''ebb'', New ''vme'' []]), Do (Call ''cQd'' [G ''gbb'', New ''ane'' []]), Do (Call ''cQd'' [G ''hbb'', New ''Hne'' []]), Do (Call ''cQd'' [G ''ibb'', New ''moe'' []]), Do (Call ''cQd'' [G ''hJ'', New ''yoe'' []]), Do (Call ''cQd'' [Call ''OC'' [G ''$D'', K (JNum 1)], New ''Boe'' []]), Do (Call ''cQd'' [G ''GI'', New ''Eoe'' []]), Do (Call ''cQd'' [G ''HI'', New ''Hoe'' []]), Do (Call ''cQd'' [G ''hJ'', New ''Tle'' []]), Do (Call ''cQd'' [G ''hJ'', New ''Wle'' []]), Do (Call ''cQd'' [G ''hJ'', New ''Zle'' []]), Do (Call ''cQd'' [G ''LI'', New ''ame'' []]), Do (Call ''cQd'' [G ''hJ'', New ''dme'' []]), Do (Call ''cQd'' [G ''HK'', New ''gme'' []]), Do (Call ''cQd'' [G ''HK'', New ''jme'' []]), Do (Call ''cQd'' [G ''hJ'', New ''mme'' []]), Do (Call ''cQd'' [G ''QI'', New ''pme'' []]), Do (Call ''cQd'' [G ''hJ'', New ''sme'' []]), Do (Call ''cQd'' [G ''hJ'', New ''yme'' []]), Do (Call ''cQd'' [G ''hJ'', New ''Bme'' []]), Do (Call ''cQd'' [G ''hJ'', New ''Eme'' []]), Do (Call ''cQd'' [G ''hJ'', New ''Hme'' []]), Do (Call ''cQd'' [Call ''OC'' [G ''$D'', K (JNum 1)], New ''Kme'' []]), Do (Call ''cQd'' [G ''hJ'', New ''Nme'' []]), Do (Call ''cQd'' [G ''hJ'', New ''Qme'' []]), Do (Call ''cQd'' [G ''HK'', New ''Tme'' []]), Do (Call ''cQd'' [G ''HK'', New ''Wme'' []]), Do (Call ''cQd'' [G ''hJ'', New ''Zme'' []]), Do (Call ''cQd'' [G ''UI'', New ''dne'' []]), Do (Call ''cQd'' [G ''hJ'', New ''gne'' []]), Do (Call ''cQd'' [G ''XI'', New ''jne'' []]), Do (Call ''cQd'' [G ''hJ'', New ''mne'' []]), Do (Call ''cQd'' [G ''hJ'', New ''pne'' []]), Do (Call ''cQd'' [G ''hJ'', New ''sne'' []]), Do (Call ''cQd'' [G ''hJ'', New ''vne'' []]), Do (Call ''cQd'' [G ''HK'', New ''yne'' []]), Do (Call ''cQd'' [G ''HK'', New ''Bne'' []]), Do (Call ''cQd'' [G ''hJ'', New ''Ene'' []]), Do (Call ''cQd'' [G ''hJ'', New ''Kne'' []]), Do (Call ''cQd'' [G ''hJ'', New ''Nne'' []]), Do (Call ''cQd'' [G ''hJ'', New ''Qne'' []]), Do (Call ''cQd'' [G ''hJ'', New ''Tne'' []]), Do (Call ''cQd'' [G ''hJ'', New ''Wne'' []]), Do (Call ''cQd'' [G ''cJ'', New ''Zne'' []]), Do (Call ''cQd'' [G ''hJ'', New ''aoe'' []]), Do (Call ''cQd'' [G ''hJ'', New ''doe'' []]), Do (Call ''cQd'' [G ''hJ'', New ''goe'' []]), Do (Call ''cQd'' [G ''cJ'', New ''joe'' []]), Do (Call ''cQd'' [G ''XI'', New ''poe'' []]), Do (Call ''cQd'' [G ''hJ'', New ''soe'' []]), Do (Call ''cQd'' [G ''UI'', New ''voe'' []])],
    fn ''Nmc'' 2 13 [Do (SetV 10 (New ''ygd'' [])), Switch (Dot (Dot (V 0) ''a'') ''g'') [(Some (JNum 3), [Do (SetV 12 (Call ''JD'' [Call ''oNb'' [Dot (V 1) ''e'', Seq (Call ''Wrc'' []) (G ''Nrc'')], K (JNum 16)])), Do (SetV 13 (Call ''JD'' [Call ''oNb'' [Dot (V 1) ''j'', G ''Nrc''], K (JNum 16)])), Do (SetV 14 (Call ''JD'' [Call ''oNb'' [Dot (V 1) ''f'', G ''Nrc''], K (JNum 16)])), Do (SetV 2 (Call ''JD'' [Call ''oNb'' [Dot (V 1) ''e'', G ''Lrc''], K (JNum 16)])), Do (SetV 3 (Call ''JD'' [Call ''oNb'' [Dot (V 1) ''j'', G ''Lrc''], K (JNum 16)])), Do (SetV 4 (Call ''JD'' [Call ''oNb'' [Dot (V 1) ''f'', G ''Lrc''], K (JNum 16)])), Do (SetV 6 (New ''lmb'' [])), Do (Call ''bmb'' [V 6, V 12]), Do (Meth (V 13) ''Ic'' [New ''Qmc'' []]), Do (Call ''bmb'' [V 6, Call ''$u'' [V 13]]), Do (Call ''bmb'' [V 6, V 14]), Do (SetV 5 (New ''lmb'' [])), Do (Call ''bmb'' [V 5, V 2]), Do (Call ''bmb'' [V 5, Call ''$u'' [V 3]]), Do (Call ''bmb'' [V 5, V 4]), Do (Call ''rNb'' [Dot (V 1) ''f'', G ''Nrc'', V 6]), Do (Call ''rNb'' [Dot (V 1) ''f'', G ''Lrc'', V 5]), Do (Call ''rNb'' [Dot (V 1) ''f'', G ''Orc'', Dot (V 1) ''f'']), Do (Call ''rNb'' [Dot (V 1) ''e'', G ''Nrc'', K JNull]), Do (Call ''rNb'' [Dot (V 1) ''e'', G ''Lrc'', K JNull]), Do (Call ''rNb'' [Dot (V 1) ''j'', G ''Nrc'', K JNull]), Do (Call ''rNb'' [Dot (V 1) ''j'', G ''Lrc'', K JNull]), Break]), (Some (JNum 1), [Do (Call ''xe'' [V 10, Dot (Dot (V 1) ''e'') ''a'']), Do (Call ''Ttb'' [V 10, Dot (Dot (V 1) ''i'') ''n'']), Do (Call ''xe'' [V 10, Call ''$u'' [Dot (Dot (V 1) ''j'') ''a'']]), Do (Call ''Ttb'' [V 10, Dot (Dot (V 1) ''a'') ''n'']), Do (Call ''xe'' [V 10, Dot (Dot (V 1) ''f'') ''a'']), Break]), (None, [Do (Call ''xe'' [V 10, Dot (Dot (V 1) ''e'') ''a'']), Do (Call ''xe'' [V 10, Call ''$u'' [Dot (Dot (V 1) ''j'') ''a'']]), Do (Call ''xe'' [V 10, Dot (Dot (V 1) ''f'') ''a''])])], Do (Call ''cub'' [Dot (Dot (V 1) ''f'') ''a'']), Do (Call ''xe'' [Dot (Dot (V 1) ''f'') ''a'', V 10]), Do (Call ''CWb'' [Dot (V 1) ''f'', Dot (Dot (V 1) ''e'') ''c'']), Do (SetV 7 (Call ''JD'' [Call ''oNb'' [Dot (V 1) ''e'', Seq (Call ''nyc'' []) (G ''Bwc'')], K (JNum 79)])), Do (SetV 9 (Call ''JD'' [Call ''oNb'' [Dot (V 1) ''j'', G ''Bwc''], K (JNum 79)])), Do (SetV 8 (Call ''JD'' [Call ''oNb'' [Dot (V 1) ''f'', G ''Bwc''], K (JNum 79)])), When (Or (Or (Neg (Neg (V 7))) (Neg (Neg (V 9)))) (Neg (Neg (V 8)))) [Do (SetV 11 (New ''ygd'' [])), Do (Call ''Lmc'' [V 11, V 8]), Do (Call ''Lmc'' [V 11, V 9]), Do (Call ''Lmc'' [V 11, V 7]), Do (Call ''rNb'' [Dot (V 1) ''f'', G ''Bwc'', V 11])] [], Do (Call ''CWb'' [Dot (V 1) ''j'', K JNull]), Do (Call ''DWb'' [Dot (V 1) ''j'', K JNull]), Do (Call ''CWb'' [Dot (V 1) ''e'', K JNull]), Do (Call ''DWb'' [Dot (V 1) ''e'', K JNull]), Do (Call ''NYb'' [Dot (V 1) ''a'', K JNull]), Do (Call ''NYb'' [Dot (V 1) ''i'', K JNull]), Do (And (Neg (Neg (Dot (V 1) ''g''))) (Call ''Nmc'' [V 0, Dot (V 1) ''g'']))]]"

definition code_6172_6172 :: "(string \<times> jfun) list" where
  "code_6172_6172 = [
    fn ''Dhb'' 0 3 [Do (SetG ''Dhb'' (G ''qdb'')), Do (New ''Khb'' [K (JNum 1), K (JNum 0)]), Do (New ''Khb'' [K (JNum 10), K (JNum 0)]), Do (New ''Khb'' [K (JNum 0), K (JNum 0)]), Do (SetG ''vhb'' (Call ''SC'' [G ''kJ'', G ''aue'', K (JNum 247), K (JNum 11), K (JNum 0), K (JNum 1)])), Do (SetG ''whb'' (Call ''SC'' [G ''_D'', G ''Nue'', K (JNum 30), K (JNum 100), K (JNum 15), K (JNum 1)])), Do (SetG ''xhb'' (Call ''WC'' [Call ''OC'' [G ''aE'', K (JNum 1)], G ''Jve'', K (JNum 30), K (JNum 15), NewArr [K (JNum 1), K (JNum 5), K (JNum 25), K (JNum 125), K (JNum 625), K (JNum 3125), K (JNum 15625), K (JNum 78125), K (JNum 390625), K (JNum 1953125), K (JNum 9765625), K (JNum 48828125), K (JNum 244140625), K (JNum 1220703125), K (JNum 6103515625), K (JNum 30517578125), K (JNum 152587890625), K (JNum 762939453125), K (JNum 3814697265625), K (JNum 19073486328125), K (JNum 95367431640625), K (JNum 476837158203125), K (JNum 2384185791015625)]])), Do (SetG ''yhb'' (Call ''SC'' [G ''cE'', G ''bve'', K (JNum 30), Dot (G ''xhb'') ''length'', K (JNum 15), K (JNum 1)])), Do (SetG ''zhb'' (Call ''WC'' [Call ''OC'' [G ''aE'', K (JNum 1)], G ''Jve'', K (JNum 30), K (JNum 15), NewArr [K (JNum 1), K (JNum 10), K (JNum 100), G ''Oue'', K (JNum 10000), G ''Kve'', K (JNum 1000000), K (JNum 10000000), K (JNum 100000000), G ''wve'', K (JNum 10000000000), K (JNum 100000000000), K (JNum 1000000000000), K (JNum 10000000000000), K (JNum 100000000000000), K (JNum 1000000000000000), K (JNum 10000000000000000)]])), Do (SetG ''Ahb'' (Call ''SC'' [G ''cE'', G ''bve'', K (JNum 30), Dot (G ''zhb'') ''length'', K (JNum 15), K (JNum 1)])), Do (SetG ''Bhb'' (Call ''SC'' [G ''kJ'', G ''aue'', K (JNum 247), K (JNum 11), K (JNum 0), K (JNum 1)])), Do (SetV 0 (K (JNum 0))), Loop (Bin Lt (V 0) (Dot (G ''Bhb'') ''length'')) [Do (PutIdx (G ''vhb'') (V 0) (New ''Khb'' [V 0, K (JNum 0)])), Do (PutIdx (G ''Bhb'') (V 0) (New ''Khb'' [K (JNum 0), V 0])), Do (PutIdx (G ''whb'') (V 0) (K (JNum 48)))] [Do (Bin Minus (SetV 0 (Bin Minus (V 0) (K (JNum (- 1))))) (K (JNum 1)))], Loop (Bin Lt (V 0) (Dot (G ''whb'') ''length'')) [Do (PutIdx (G ''whb'') (V 0) (K (JNum 48)))] [Do (Bin Minus (SetV 0 (Bin Minus (V 0) (K (JNum (- 1))))) (K (JNum 1)))], Do (SetV 2 (K (JNum 0))), Loop (Bin Lt (V 2) (Dot (G ''yhb'') ''length'')) [Do (PutIdx (G ''yhb'') (V 2) (Call ''Mhb'' [Idx (G ''xhb'') (V 2)]))] [Do (Bin Minus (SetV 2 (Bin Minus (V 2) (K (JNum (- 1))))) (K (JNum 1)))], Do (SetV 1 (K (JNum 0))), Loop (Bin Lt (V 1) (Dot (G ''Ahb'') ''length'')) [Do (PutIdx (G ''Ahb'') (V 1) (Call ''Mhb'' [Idx (G ''zhb'') (V 1)]))] [Do (Bin Minus (SetV 1 (Bin Minus (V 1) (K (JNum (- 1))))) (K (JNum 1)))], Do (Call ''Vib'' [])]]"

definition code_6175_6180 :: "(string \<times> jfun) list" where
  "code_6175_6180 = [
    fn ''_Wc'' 0 0 [Do (SetG ''_Wc'' (G ''qdb'')), Do (SetG ''SWc'' (New ''CEd'' [G ''Yxe''])), Do (New ''CEd'' [G ''Zxe'']), Do (New ''DEd'' [K (JStr ''DEPTH''), Call ''Cfb'' [K (JNum 0)]]), Do (SetG ''GWc'' (New ''DEd'' [K (JStr ''FAN''), Call ''Cfb'' [K (JNum 0)]])), Do (SetG ''EWc'' (New ''DEd'' [G ''TCe'', Call ''Cfb'' [K (JNum 0)]])), Do (SetG ''YWc'' (New ''DEd'' [K (JStr ''ROOT''), Seq (Call ''Qdb'' []) (K (JBool False))])), Do (SetG ''MWc'' (New ''DEd'' [K (JStr ''LEFTNEIGHBOR''), K JNull])), Do (SetG ''WWc'' (New ''DEd'' [K (JStr ''RIGHTNEIGHBOR''), K JNull])), Do (SetG ''NWc'' (New ''DEd'' [K (JStr ''LEFTSIBLING''), K JNull])), Do (SetG ''XWc'' (New ''DEd'' [K (JStr ''RIGHTSIBLING''), K JNull])), Do (SetG ''FWc'' (New ''DEd'' [K (JStr ''DUMMY''), K (JBool False)])), Do (New ''DEd'' [K (JStr ''LEVEL''), Call ''Cfb'' [K (JNum 0)]]), Do (SetG ''VWc'' (New ''DEd'' [K (JStr ''REMOVABLE_EDGES''), New ''dub'' []])), Do (SetG ''ZWc'' (New ''DEd'' [K (JStr ''XCOOR''), Call ''Cfb'' [K (JNum 0)]])), Do (SetG ''$Wc'' (New ''DEd'' [K (JStr ''YCOOR''), Call ''Cfb'' [K (JNum 0)]])), Do (SetG ''OWc'' (New ''DEd'' [K (JStr ''LEVELHEIGHT''), K (JNum 0)])), Do (SetG ''QWc'' (New ''DEd'' [K (JStr ''LEVELMIN''), K (JNum 0)])), Do (SetG ''PWc'' (New ''DEd'' [K (JStr ''LEVELMAX''), K (JNum 0)])), Do (SetG ''IWc'' (New ''DEd'' [K (JStr ''GRAPH_XMIN''), K (JNum 0)])), Do (SetG ''KWc'' (New ''DEd'' [K (JStr ''GRAPH_YMIN''), K (JNum 0)])), Do (SetG ''HWc'' (New ''DEd'' [K (JStr ''GRAPH_XMAX''), K (JNum 0)])), Do (SetG ''JWc'' (New ''DEd'' [K (JStr ''GRAPH_YMAX''), K (JNum 0)])), Do (SetG ''DWc'' (New ''DEd'' [K (JStr ''COMPACT_LEVEL_ASCENSION''), K (JBool False)])), Do (SetG ''CWc'' (New ''DEd'' [K (JStr ''COMPACT_CONSTRAINTS''), New ''lmb'' []])), Do (SetG ''LWc'' (New ''DEd'' [K (JStr ''ID''), K (JStr '''')])), Do (SetG ''TWc'' (New ''DEd'' [K (JStr ''POSITION''), Call ''Cfb'' [K (JNum 0)]])), Do (SetG ''UWc'' (New ''DEd'' [K (JStr ''PRELIM''), K (JNum 0)])), Do (SetG ''RWc'' (New ''DEd'' [K (JStr ''MODIFIER''), K (JNum 0)])), Do (SetG ''BWc'' (New ''CEd'' [G ''$xe''])), Do (SetG ''AWc'' (New ''CEd'' [G ''_xe'']))],
    fn ''Ooe'' 1 16 [Do (Call ''Moe'' []), When (Loose (V 0) (K JNull)) [Ret (K JNull)] [], Do (SetV 11 (Bin Times (Dot (V 0) ''length'') (K (JNum 8)))), When (Loose (V 11) (K (JNum 0))) [Ret (K (JStr ''''))] [], Do (SetV 7 (Bin Modulo (V 11) (K (JNum 24)))), Do (SetV 13 (Bin DivInt (V 11) (K (JNum 24)))), Do (SetV 12 (Cond (Neg (Loose (V 7) (K (JNum 0)))) (Bin Plus (V 13) (K (JNum 1))) (V 13))), Do (SetV 5 (K JNull)), Do (SetV 5 (Call ''SC'' [G ''_D'', G ''Nue'', K (JNum 30), Bin Times (V 12) (K (JNum 4)), K (JNum 15), K (JNum 1)])), Do (SetV 9 (K (JNum 0))), Do (SetV 10 (K (JNum 0))), Do (SetV 1 (K (JNum 0))), Do (SetV 2 (K (JNum 0))), Do (SetV 3 (K (JNum 0))), Do (SetV 6 (K (JNum 0))), Do (SetV 4 (K (JNum 0))), Do (SetV 8 (K (JNum 0))), Loop (Bin Lt (V 8) (V 13)) [Do (SetV 1 (Idx (V 0) (Bin Minus (SetV 4 (Bin Minus (V 4) (K (JNum (- 1))))) (K (JNum 1))))), Do (SetV 2 (Idx (V 0) (Bin Minus (SetV 4 (Bin Minus (V 4) (K (JNum (- 1))))) (K (JNum 1))))), Do (SetV 3 (Idx (V 0) (Bin Minus (SetV 4 (Bin Minus (V 4) (K (JNum (- 1))))) (K (JNum 1))))), Do (SetV 10 (Bin Shr (Bin Shl (Bin BitAnd (V 2) (K (JNum 15))) (K (JNum 24))) (K (JNum 24)))), Do (SetV 9 (Bin Shr (Bin Shl (Bin BitAnd (V 1) (K (JNum 3))) (K (JNum 24))) (K (JNum 24)))), Do (SetV 14 (Cond (Loose (Bin BitAnd (V 1) (K (JNum (- 128)))) (K (JNum 0))) (Bin Shr (Bin Shl (Bin Shr (V 1) (K (JNum 2))) (K (JNum 24))) (K (JNum 24))) (Bin Shr (Bin Shl (Bin BitXor (Bin Shr (V 1) (K (JNum 2))) (K (JNum 192))) (K (JNum 24))) (K (JNum 24))))), Do (SetV 15 (Cond (Loose (Bin BitAnd (V 2) (K (JNum (- 128)))) (K (JNum 0))) (Bin Shr (Bin Shl (Bin Shr (V 2) (K (JNum 4))) (K (JNum 24))) (K (JNum 24))) (Bin Shr (Bin Shl (Bin BitXor (Bin Shr (V 2) (K (JNum 4))) (K (JNum 240))) (K (JNum 24))) (K (JNum 24))))), Do (SetV 16 (Cond (Loose (Bin BitAnd (V 3) (K (JNum (- 128)))) (K (JNum 0))) (Bin Shr (Bin Shl (Bin Shr (V 3) (K (JNum 6))) (K (JNum 24))) (K (JNum 24))) (Bin Shr (Bin Shl (Bin BitXor (Bin Shr (V 3) (K (JNum 6))) (K (JNum 252))) (K (JNum 24))) (K (JNum 24))))), Do (PutIdx (V 5) (Bin Minus (SetV 6 (Bin Minus (V 6) (K (JNum (- 1))))) (K (JNum 1))) (Idx (G ''Loe'') (V 14))), Do (PutIdx (V 5) (Bin Minus (SetV 6 (Bin Minus (V 6) (K (JNum (- 1))))) (K (JNum 1))) (Idx (G ''Loe'') (Bin BitOr (V 15) (Bin Shl (V 9) (K (JNum 4)))))), Do (PutIdx (V 5) (Bin Minus (SetV 6 (Bin Minus (V 6) (K (JNum (- 1))))) (K (JNum 1))) (Idx (G ''Loe'') (Bin BitOr (Bin Shl (V 10) (K (JNum 2))) (V 16)))), Do (PutIdx (V 5) (Bin Minus (SetV 6 (Bin Minus (V 6) (K (JNum (- 1))))) (K (JNum 1))) (Idx (G ''Loe'') (Bin BitAnd (V 3) (K (JNum 63)))))] [Do (Bin Minus (SetV 8 (Bin Minus (V 8) (K (JNum (- 1))))) (K (JNum 1)))], When (Loose (V 7) (K (JNum 8))) [Do (SetV 1 (Idx (V 0) (V 4))), Do (SetV 9 (Bin Shr (Bin Shl (Bin BitAnd (V 1) (K (JNum 3))) (K (JNum 24))) (K (JNum 24)))), Do (SetV 14 (Cond (Loose (Bin BitAnd (V 1) (K (JNum (- 128)))) (K (JNum 0))) (Bin Shr (Bin Shl (Bin Shr (V 1) (K (JNum 2))) (K (JNum 24))) (K (JNum 24))) (Bin Shr (Bin Shl (Bin BitXor (Bin Shr (V 1) (K (JNum 2))) (K (JNum 192))) (K (JNum 24))) (K (JNum 24))))), Do (PutIdx (V 5) (Bin Minus (SetV 6 (Bin Minus (V 6) (K (JNum (- 1))))) (K (JNum 1))) (Idx (G ''Loe'') (V 14))), Do (PutIdx (V 5) (Bin Minus (SetV 6 (Bin Minus (V 6) (K (JNum (- 1))))) (K (JNum 1))) (Idx (G ''Loe'') (Bin Shl (V 9) (K (JNum 4))))), Do (PutIdx (V 5) (Bin Minus (SetV 6 (Bin Minus (V 6) (K (JNum (- 1))))) (K (JNum 1))) (K (JNum 61))), Do (PutIdx (V 5) (Bin Minus (SetV 6 (Bin Minus (V 6) (K (JNum (- 1))))) (K (JNum 1))) (K (JNum 61)))] [When (Loose (V 7) (K (JNum 16))) [Do (SetV 1 (Idx (V 0) (V 4))), Do (SetV 2 (Idx (V 0) (Bin Plus (V 4) (K (JNum 1))))), Do (SetV 10 (Bin Shr (Bin Shl (Bin BitAnd (V 2) (K (JNum 15))) (K (JNum 24))) (K (JNum 24)))), Do (SetV 9 (Bin Shr (Bin Shl (Bin BitAnd (V 1) (K (JNum 3))) (K (JNum 24))) (K (JNum 24)))), Do (SetV 14 (Cond (Loose (Bin BitAnd (V 1) (K (JNum (- 128)))) (K (JNum 0))) (Bin Shr (Bin Shl (Bin Shr (V 1) (K (JNum 2))) (K (JNum 24))) (K (JNum 24))) (Bin Shr (Bin Shl (Bin BitXor (Bin Shr (V 1) (K (JNum 2))) (K (JNum 192))) (K (JNum 24))) (K (JNum 24))))), Do (SetV 15 (Cond (Loose (Bin BitAnd (V 2) (K (JNum (- 128)))) (K (JNum 0))) (Bin Shr (Bin Shl (Bin Shr (V 2) (K (JNum 4))) (K (JNum 24))) (K (JNum 24))) (Bin Shr (Bin Shl (Bin BitXor (Bin Shr (V 2) (K (JNum 4))) (K (JNum 240))) (K (JNum 24))) (K (JNum 24))))), Do (PutIdx (V 5) (Bin Minus (SetV 6 (Bin Minus (V 6) (K (JNum (- 1))))) (K (JNum 1))) (Idx (G ''Loe'') (V 14))), Do (PutIdx (V 5) (Bin Minus (SetV 6 (Bin Minus (V 6) (K (JNum (- 1))))) (K (JNum 1))) (Idx (G ''Loe'') (Bin BitOr (V 15) (Bin Shl (V 9) (K (JNum 4)))))), Do (PutIdx (V 5) (Bin Minus (SetV 6 (Bin Minus (V 6) (K (JNum (- 1))))) (K (JNum 1))) (Idx (G ''Loe'') (Bin Shl (V 10) (K (JNum 2))))), Do (PutIdx (V 5) (Bin Minus (SetV 6 (Bin Minus (V 6) (K (JNum (- 1))))) (K (JNum 1))) (K (JNum 61)))] []], Ret (Call ''Sgb'' [V 5, K (JNum 0), Dot (V 5) ''length''])],
    fn ''uB'' 2 7 [Do (And (And (Loose (Dot (V 0) ''e'') (K (JNum 0))) (Bin Gt (Dot (V 0) ''p'') (K (JNum 0)))) (Put (V 0) ''p'' (Minus1 (Bin Minus (Dot (V 0) ''p'') (K (JNum 1)))))), Do (And (Bin Gt (Dot (V 0) ''p'') (G ''Eue'')) (Call ''lB'' [V 1, Bin Minus (Dot (V 0) ''p'') (G ''ave'')])), Do (SetV 6 (Meth (Dot (V 1) ''q'') ''getDate'' [])), Do (Call ''fB'' [V 1, K (JNum 1)]), Do (And (Bin Ge (Dot (V 0) ''k'') (K (JNum 0))) (Call ''iB'' [V 1, Dot (V 0) ''k''])), When (Bin Ge (Dot (V 0) ''c'') (K (JNum 0))) [Do (Call ''fB'' [V 1, Dot (V 0) ''c''])] [When (Bin Ge (Dot (V 0) ''k'') (K (JNum 0))) [Do (SetV 8 (New ''nB'' [Bin Minus (Meth (Dot (V 1) ''q'') ''getFullYear'' []) (G ''ave''), Meth (Dot (V 1) ''q'') ''getMonth'' [], K (JNum 35)])), Do (SetV 3 (Bin Minus (K (JNum 35)) (Meth (Dot (V 8) ''q'') ''getDate'' []))), Do (Call ''fB'' [V 1, Meth (Dot (G ''$wnd'') ''Math'') ''min'' [V 3, V 6]])] [Do (Call ''fB'' [V 1, V 6])]], Do (And (Bin Lt (Dot (V 0) ''f'') (K (JNum 0))) (Put (V 0) ''f'' (Meth (Dot (V 1) ''q'') ''getHours'' []))), Do (And (And (Bin Gt (Dot (V 0) ''b'') (K (JNum 0))) (Bin Lt (Dot (V 0) ''f'') (K (JNum 12)))) (Put (V 0) ''f'' (Bin Plus (Dot (V 0) ''f'') (K (JNum 12))))), Do (Call ''gB'' [V 1, Cond (And (Loose (Dot (V 0) ''f'') (K (JNum 24))) (Dot (V 0) ''g'')) (K (JNum 0)) (Dot (V 0) ''f'')]), Do (And (Bin Ge (Dot (V 0) ''j'') (K (JNum 0))) (Call ''hB'' [V 1, Dot (V 0) ''j''])), Do (And (Bin Ge (Dot (V 0) ''n'') (K (JNum 0))) (Call ''jB'' [V 1, Dot (V 0) ''n''])), Do (And (Bin Ge (Dot (V 0) ''i'') (K (JNum 0))) (Call ''kB'' [V 1, Call ''Mcb'' [Call ''Ycb'' [Call ''Qcb'' [Call ''Scb'' [Meth (Dot (V 1) ''q'') ''getTime'' []], G ''Oue''], G ''Oue''], Dot (V 0) ''i'']])), When (Dot (V 0) ''a'') [Do (SetV 4 (New ''mB'' [])), Do (Call ''lB'' [V 4, Bin Minus (Bin Minus (Meth (Dot (V 4) ''q'') ''getFullYear'' []) (G ''ave'')) (K (JNum 80))]), Do (And (Call ''Wcb'' [Call ''Scb'' [Meth (Dot (V 1) ''q'') ''getTime'' []], Call ''Scb'' [Meth (Dot (V 4) ''q'') ''getTime'' []]]) (Call ''lB'' [V 1, Bin Plus (Bin Minus (Meth (Dot (V 4) ''q'') ''getFullYear'' []) (G ''ave'')) (K (JNum 100))]))] [], When (Bin Ge (Dot (V 0) ''d'') (K (JNum 0))) [When (Loose (Dot (V 0) ''c'') (K (JNum (- 1)))) [Do (SetV 2 (Bin Modulo (Bin Minus (Bin Plus (K (JNum 7)) (Dot (V 0) ''d'')) (Meth (Dot (V 1) ''q'') ''getDay'' [])) (K (JNum 7)))), Do (And (Bin Gt (V 2) (K (JNum 3))) (SetV 2 (Bin Minus (V 2) (K (JNum 7))))), Do (SetV 7 (Meth (Dot (V 1) ''q'') ''getMonth'' [])), Do (Call ''fB'' [V 1, Bin Plus (Meth (Dot (V 1) ''q'') ''getDate'' []) (V 2)]), Do (And (Neg (Loose (Meth (Dot (V 1) ''q'') ''getMonth'' []) (V 7))) (Call ''fB'' [V 1, Bin Plus (Meth (Dot (V 1) ''q'') ''getDate'' []) (Cond (Bin Gt (V 2) (K (JNum 0))) (K (JNum (- 7))) (K (JNum 7)))]))] [When (Neg (Loose (Meth (Dot (V 1) ''q'') ''getDay'' []) (Dot (V 0) ''d''))) [Ret (K (JBool False))] []]] [], When (Bin Gt (Dot (V 0) ''o'') (G ''Eue'')) [Do (SetV 5 (Meth (Dot (V 1) ''q'') ''getTimezoneOffset'' [])), Do (Call ''kB'' [V 1, Call ''Mcb'' [Call ''Scb'' [Meth (Dot (V 1) ''q'') ''getTime'' []], Bin Times (Bin Times (Bin Minus (Dot (V 0) ''o'') (V 5)) (K (JNum 60))) (G ''Oue'')]])] [], Ret (K (JBool True))],
    fn ''v_b'' 2 19 [Do (SetV 4 (Call ''oNb'' [V 1, Seq (Call ''Wrc'' []) (G ''urc'')])), When (Neg (Call ''RD'' [V 4, K (JNum 206)])) [Ret (K JUndef)] [], Do (SetV 14 (Call ''JD'' [V 4, K (JNum 26)])), Do (SetV 15 (Dot (V 1) ''e'')), Do (SetV 12 (New ''mgd'' [Dot (V 1) ''c''])), Do (SetV 5 (Dot (V 1) ''d'')), Do (Put (V 12) ''a'' (Bin Plus (Dot (V 12) ''a'') (Dot (V 5) ''b''))), Do (Put (V 12) ''b'' (Bin Plus (Dot (V 12) ''b'') (Dot (V 5) ''d''))), Do (SetV 20 (Call ''JD'' [Call ''cvd'' [V 14, Seq (Call ''nyc'' []) (G ''dxc'')], K (JNum 182)])), When (Call ''Krb'' [V 20, Seq (Call ''xnd'' []) (G ''pnd'')]) [Do (SetV 13 (Call ''JD'' [Call ''cvd'' [V 14, G ''fxc''], K (JNum 104)])), Do (Call ''jYb'' [V 13, Dot (V 5) ''a'']), Do (Call ''mYb'' [V 13, Dot (V 5) ''d'']), Do (Call ''kYb'' [V 13, Dot (V 5) ''b'']), Do (Call ''lYb'' [V 13, Dot (V 5) ''c''])] [], Do (SetV 2 (New ''lmb'' [])), Do (SetV 10 (New ''Kmb'' [Dot (V 1) ''a''])), Loop (Bin Lt (Dot (V 10) ''a'') (Dot (Dot (Dot (V 10) ''c'') ''c'') ''length'')) [Do (SetV 8 (Call ''JD'' [Call ''Imb'' [V 10], K (JNum 9)])), When (Call ''RD'' [Call ''oNb'' [V 8, G ''urc''], K (JNum 206)]) [Do (Call ''w_b'' [V 8, V 12])] [When (And (Call ''RD'' [Call ''oNb'' [V 8, G ''urc''], K (JNum 193)]) (Neg (V 15))) [Do (SetV 3 (Call ''JD'' [Call ''oNb'' [V 8, G ''urc''], K (JNum 125)])), Do (SetV 18 (Call ''QXb'' [V 1, V 8, Dot (V 3) ''g'', Dot (V 3) ''f''])), Do (Call ''Zvd'' [V 3, Dot (V 18) ''a'', Dot (V 18) ''b''])] []], Do (SetV 17 (New ''Kmb'' [Dot (V 8) ''j''])), Loop (Bin Lt (Dot (V 17) ''a'') (Dot (Dot (Dot (V 17) ''c'') ''c'') ''length'')) [Do (SetV 16 (Call ''JD'' [Call ''Imb'' [V 17], K (JNum 12)])), Do (Call ''YBb'' [Call ''VBb'' [New ''jCb'' [K JNull, New ''Zvb'' [Dot (V 16) ''g'', K (JNum 16)]], New ''C_b'' [V 8]], New ''E_b'' [V 2]])] []] [], When (V 15) [Do (SetV 17 (New ''Kmb'' [Dot (V 15) ''j''])), Loop (Bin Lt (Dot (V 17) ''a'') (Dot (Dot (Dot (V 17) ''c'') ''c'') ''length'')) [Do (SetV 16 (Call ''JD'' [Call ''Imb'' [V 17], K (JNum 12)])), Do (Call ''YBb'' [Call ''VBb'' [New ''jCb'' [K JNull, New ''Zvb'' [Dot (V 16) ''g'', K (JNum 16)]], New ''G_b'' [V 15]], New ''I_b'' [V 2]])] []] [], Do (SetV 19 (Call ''JD'' [Call ''cvd'' [V 14, G ''iwc''], K (JNum 222)])), Do (SetV 7 (New ''Kmb'' [V 2])), Loop (Bin Lt (Dot (V 7) ''a'') (Dot (Dot (Dot (V 7) ''c'') ''c'') ''length'')) [Do (SetV 6 (Call ''JD'' [Call ''Imb'' [V 7], K (JNum 17)])), Do (Call ''u_b'' [V 6, V 19, V 12])] [], Do (Call ''x_b'' [V 1]), Do (SetV 9 (New ''Kmb'' [Dot (V 1) ''a''])), Loop (Bin Lt (Dot (V 9) ''a'') (Dot (Dot (Dot (V 9) ''c'') ''c'') ''length'')) [Do (SetV 8 (Call ''JD'' [Call ''Imb'' [V 9], K (JNum 9)])), Do (SetV 11 (Dot (V 8) ''e'')), Do (And (Neg (Neg (V 11))) (Call ''v_b'' [V 0, V 11]))] []],
    fn ''aLb'' 2 12 [When (Meth (Call ''JD'' [Call ''JD'' [Call ''Qc'' [Dot (V 0) ''r'', V 1], K (JNum 22)], K (JNum 83)]) ''dc'' []) [Ret (K JUndef)] [], Do (SetV 6 (Call ''JD'' [Call ''brb'' [Dot (V 0) ''b'', V 1], K (JNum 127)])), Do (SetV 8 (Dot (V 6) ''i'')), Do (SetV 7 (Dot (V 6) ''n'')), Do (SetV 10 (Call ''eJb'' [V 0, V 1])), Do (SetV 3 (Bin Minus (Bin Minus (Dot (V 8) ''b'') (Dot (V 7) ''b'')) (Dot (V 7) ''c''))), Do (SetV 4 (Dot (Dot (V 6) ''a'') ''a'')), Do (SetV 5 (Bin Plus (Dot (V 8) ''c'') (Dot (V 7) ''b''))), Do (SetV 13 (Dot (V 0) ''w'')), When (And (Or (Loose (V 10) (Seq (Call ''Ald'' []) (G ''xld''))) (Loose (V 10) (G ''zld''))) (Loose (Meth (Call ''JD'' [Call ''JD'' [Call ''Qc'' [Dot (V 0) ''r'', V 1], K (JNum 22)], K (JNum 83)]) ''gc'' []) (K (JNum 1)))) [Do (SetV 4 (Cond (Loose (V 10) (G ''xld'')) (Bin Minus (V 4) (Bin Times (K (JNum 2)) (Dot (V 0) ''w''))) (V 4))), Do (SetV 10 (G ''wld''))] [], When (And (Bin Lt (V 3) (V 4)) (Neg (Meth (Dot (V 0) ''B'') ''Gc'' [Seq (Call ''xnd'' []) (G ''und'')]))) [When (Loose (V 10) (G ''xld'')) [Do (SetV 13 (Bin Plus (V 13) (Bin Divide (Bin Minus (V 3) (V 4)) (Bin Plus (Meth (Call ''JD'' [Call ''JD'' [Call ''Qc'' [Dot (V 0) ''r'', V 1], K (JNum 22)], K (JNum 83)]) ''gc'' []) (K (JNum 1)))))), Do (SetV 5 (Bin Plus (V 5) (V 13)))] [Do (SetV 13 (Bin Plus (V 13) (Bin Divide (Bin Minus (V 3) (V 4)) (Bin Minus (Meth (Call ''JD'' [Call ''JD'' [Call ''Qc'' [Dot (V 0) ''r'', V 1], K (JNum 22)], K (JNum 83)]) ''gc'' []) (K (JNum 1))))))]] [When (Bin Lt (V 3) (V 4)) [Do (SetV 4 (Cond (Loose (V 10) (G ''xld'')) (Bin Minus (V 4) (Bin Times (K (JNum 2)) (Dot (V 0) ''w''))) (V 4))), Do (SetV 10 (G ''wld''))] [], Switch (Dot (V 10) ''g'') [(Some (JNum 3), [Do (SetV 5 (Bin Plus (V 5) (Bin Divide (Bin Minus (V 3) (V 4)) (K (JNum 2))))), Break]), (Some (JNum 4), [Do (SetV 5 (Bin Plus (V 5) (Bin Minus (V 3) (V 4)))), Break]), (Some (JNum 0), [Do (SetV 2 (Bin Divide (Bin Minus (V 3) (V 4)) (Bin Plus (Meth (Call ''JD'' [Call ''JD'' [Call ''Qc'' [Dot (V 0) ''r'', V 1], K (JNum 22)], K (JNum 83)]) ''gc'' []) (K (JNum 1))))), Do (SetV 13 (Bin Plus (V 13) (Meth (Dot (G ''$wnd'') ''Math'') ''max'' [K (JNum 0), V 2]))), Do (SetV 5 (Bin Plus (V 5) (V 13))), Break]), (Some (JNum 1), [Do (SetV 2 (Bin Divide (Bin Minus (V 3) (V 4)) (Bin Minus (Meth (Call ''JD'' [Call ''JD'' [Call ''Qc'' [Dot (V 0) ''r'', V 1], K (JNum 22)], K (JNum 83)]) ''gc'' []) (K (JNum 1))))), Do (SetV 13 (Bin Plus (V 13) (Meth (Dot (G ''$wnd'') ''Math'') ''max'' [K (JNum 0), V 2])))])]], Do (SetV 12 (Meth (Call ''JD'' [Call ''JD'' [Call ''Qc'' [Dot (V 0) ''r'', V 1], K (JNum 22)], K (JNum 83)]) ''Jc'' [])), Loop (Meth (V 12) ''Ob'' []) [Do (SetV 11 (Call ''JD'' [Meth (V 12) ''Pb'' [], K (JNum 115)])), Do (Put (Dot (V 11) ''e'') ''a'' (Bin Plus (V 5) (Dot (Dot (V 11) ''d'') ''b''))), Do (Put (Dot (V 11) ''e'') ''b'' (Seq (SetV 9 (Dot (V 11) ''b'')) (Cond (Meth (V 9) ''nf'' [Seq (Call ''vjd'' []) (G ''Eid'')]) (Cond (Loose (Meth (V 9) ''$f'' []) (Seq (Call ''Bmd'' []) (G ''hmd''))) (Bin Minus (Minus1 (Dot (Meth (V 9) ''Kf'' []) ''b'')) (Call ''Ueb'' [Call ''MD'' [Meth (V 9) ''mf'' [G ''Eid'']]])) (Call ''Ueb'' [Call ''MD'' [Meth (V 9) ''mf'' [G ''Eid'']]])) (Cond (Loose (Meth (V 9) ''$f'' []) (Seq (Call ''Bmd'' []) (G ''hmd''))) (Minus1 (Dot (Meth (V 9) ''Kf'' []) ''b'')) (K (JNum 0)))))), Do (SetV 5 (Bin Plus (V 5) (Bin Plus (Bin Plus (Bin Plus (Dot (Dot (V 11) ''d'') ''b'') (Dot (Meth (Dot (V 11) ''b'') ''Kf'' []) ''a'')) (Dot (Dot (V 11) ''d'') ''c'')) (V 13))))] []],
    fn ''eLb'' 2 13 [When (Meth (Call ''JD'' [Call ''JD'' [Call ''Qc'' [Dot (V 0) ''r'', V 1], K (JNum 22)], K (JNum 83)]) ''dc'' []) [Ret (K JUndef)] [], Do (SetV 6 (Call ''JD'' [Call ''brb'' [Dot (V 0) ''b'', V 1], K (JNum 127)])), Do (SetV 8 (Dot (V 6) ''i'')), Do (SetV 7 (Dot (V 6) ''n'')), Do (SetV 11 (Call ''eJb'' [V 0, V 1])), Do (SetV 3 (Bin Minus (Bin Minus (Dot (V 8) ''a'') (Dot (V 7) ''d'')) (Dot (V 7) ''a''))), Do (SetV 4 (Dot (Dot (V 6) ''a'') ''b'')), Do (SetV 5 (Bin Plus (Dot (V 8) ''d'') (Dot (V 7) ''d''))), Do (SetV 14 (Dot (V 0) ''w'')), Do (SetV 9 (Dot (Dot (V 0) ''o'') ''a'')), When (And (Or (Loose (V 11) (Seq (Call ''Ald'' []) (G ''xld''))) (Loose (V 11) (G ''zld''))) (Loose (Meth (Call ''JD'' [Call ''JD'' [Call ''Qc'' [Dot (V 0) ''r'', V 1], K (JNum 22)], K (JNum 83)]) ''gc'' []) (K (JNum 1)))) [Do (SetV 4 (Cond (Loose (V 11) (G ''xld'')) (Bin Minus (V 4) (Bin Times (K (JNum 2)) (Dot (V 0) ''w''))) (V 4))), Do (SetV 11 (G ''wld''))] [], When (And (Bin Lt (V 3) (V 4)) (Neg (Meth (Dot (V 0) ''B'') ''Gc'' [Seq (Call ''xnd'' []) (G ''und'')]))) [When (Loose (V 11) (G ''xld'')) [Do (SetV 14 (Bin Plus (V 14) (Bin Divide (Bin Minus (V 3) (V 4)) (Bin Plus (Meth (Call ''JD'' [Call ''JD'' [Call ''Qc'' [Dot (V 0) ''r'', V 1], K (JNum 22)], K (JNum 83)]) ''gc'' []) (K (JNum 1)))))), Do (SetV 5 (Bin Plus (V 5) (V 14)))] [Do (SetV 14 (Bin Plus (V 14) (Bin Divide (Bin Minus (V 3) (V 4)) (Bin Minus (Meth (Call ''JD'' [Call ''JD'' [Call ''Qc'' [Dot (V 0) ''r'', V 1], K (JNum 22)], K (JNum 83)]) ''gc'' []) (K (JNum 1))))))]] [When (Bin Lt (V 3) (V 4)) [Do (SetV 4 (Cond (Loose (V 11) (G ''xld'')) (Bin Minus (V 4) (Bin Times (K (JNum 2)) (Dot (V 0) ''w''))) (V 4))), Do (SetV 11 (G ''wld''))] [], Switch (Dot (V 11) ''g'') [(Some (JNum 3), [Do (SetV 5 (Bin Plus (V 5) (Bin Divide (Bin Minus (V 3) (V 4)) (K (JNum 2))))), Break]), (Some (JNum 4), [Do (SetV 5 (Bin Plus (V 5) (Bin Minus (V 3) (V 4)))), Break]), (Some (JNum 0), [Do (SetV 2 (Bin Divide (Bin Minus (V 3) (V 4)) (Bin Plus (Meth (Call ''JD'' [Call ''JD'' [Call ''Qc'' [Dot (V 0) ''r'', V 1], K (JNum 22)], K (JNum 83)]) ''gc'' []) (K (JNum 1))))), Do (SetV 14 (Bin Plus (V 14) (Meth (Dot (G ''$wnd'') ''Math'') ''max'' [K (JNum 0), V 2]))), Do (SetV 5 (Bin Plus (V 5) (V 14))), Break]), (Some (JNum 1), [Do (SetV 2 (Bin Divide (Bin Minus (V 3) (V 4)) (Bin Minus (Meth (Call ''JD'' [Call ''JD'' [Call ''Qc'' [Dot (V 0) ''r'', V 1], K (JNum 22)], K (JNum 83)]) ''gc'' []) (K (JNum 1))))), Do (SetV 14 (Bin Plus (V 14) (Meth (Dot (G ''$wnd'') ''Math'') ''max'' [K (JNum 0), V 2])))])]], Do (SetV 13 (Meth (Call ''JD'' [Call ''JD'' [Call ''Qc'' [Dot (V 0) ''r'', V 1], K (JNum 22)], K (JNum 83)]) ''Jc'' [])), Loop (Meth (V 13) ''Ob'' []) [Do (SetV 12 (Call ''JD'' [Meth (V 13) ''Pb'' [], K (JNum 115)])), Do (Put (Dot (V 12) ''e'') ''a'' (Seq (SetV 10 (Dot (V 12) ''b'')) (Cond (Meth (V 10) ''nf'' [Seq (Call ''vjd'' []) (G ''Eid'')]) (Cond (Loose (Meth (V 10) ''$f'' []) (Seq (Call ''Bmd'' []) (G ''Amd''))) (Bin Minus (Minus1 (Dot (Meth (V 10) ''Kf'' []) ''a'')) (Call ''Ueb'' [Call ''MD'' [Meth (V 10) ''mf'' [G ''Eid'']]])) (Bin Plus (V 9) (Call ''Ueb'' [Call ''MD'' [Meth (V 10) ''mf'' [G ''Eid'']]]))) (Cond (Loose (Meth (V 10) ''$f'' []) (Seq (Call ''Bmd'' []) (G ''Amd''))) (Minus1 (Dot (Meth (V 10) ''Kf'' []) ''a'')) (V 9))))), Do (Put (Dot (V 12) ''e'') ''b'' (Bin Plus (V 5) (Dot (Dot (V 12) ''d'') ''d''))), Do (SetV 5 (Bin Plus (V 5) (Bin Plus (Bin Plus (Bin Plus (Dot (Dot (V 12) ''d'') ''d'') (Dot (Meth (Dot (V 12) ''b'') ''Kf'' []) ''b'')) (Dot (Dot (V 12) ''d'') ''a'')) (V 14))))] []]]"

definition code_6181_6186 :: "(string \<times> jfun) list" where
  "code_6181_6186 = [
    fn ''MVc'' 2 5 [Do (Meth (V 1) ''Tg'' [K (JStr ''Processor determine the coords for each level''), K (JNum 1)]), Do (SetV 3 (New ''lmb'' [])), Do (SetV 6 (Call ''Ztb'' [Dot (V 0) ''b'', K (JNum 0)])), Loop (Neg (Loose (Dot (V 6) ''b'') (Dot (Dot (V 6) ''d'') ''c''))) [Do (SetV 4 (Call ''JD'' [Call ''lub'' [V 6], K (JNum 40)])), Loop (Bin Gt (Dot (Call ''JD'' [Call ''oNb'' [V 4, Seq (Call ''SXc'' []) (G ''QXc'')], K (JNum 15)]) ''a'') (Bin Minus (Dot (Dot (V 3) ''c'') ''length'') (K (JNum 1)))) [Do (Call ''_lb'' [V 3, New ''prd'' [G ''tCe'', G ''NCe'']])] [], Do (SetV 2 (Dot (Call ''JD'' [Call ''oNb'' [V 4, G ''QXc''], K (JNum 15)]) ''a'')), When (Call ''Ejd'' [Call ''JD'' [Call ''oNb'' [V 0, G ''qXc''], K (JNum 86)]]) [Do (And (Bin Lt (Dot (Dot (V 4) ''e'') ''a'') (Call ''Ueb'' [Call ''MD'' [Dot (Seq (Call ''MDb'' [V 2, Dot (Dot (V 3) ''c'') ''length'']) (Call ''JD'' [Idx (Dot (V 3) ''c'') (V 2), K (JNum 49)])) ''a'']])) (Call ''nrd'' [Seq (Call ''MDb'' [V 2, Dot (Dot (V 3) ''c'') ''length'']) (Call ''JD'' [Idx (Dot (V 3) ''c'') (V 2), K (JNum 49)]), Dot (Dot (V 4) ''e'') ''a''])), Do (And (Bin Gt (Bin Plus (Dot (Dot (V 4) ''e'') ''a'') (Dot (Dot (V 4) ''f'') ''a'')) (Call ''Ueb'' [Call ''MD'' [Dot (Seq (Call ''MDb'' [V 2, Dot (Dot (V 3) ''c'') ''length'']) (Call ''JD'' [Idx (Dot (V 3) ''c'') (V 2), K (JNum 49)])) ''b'']])) (Call ''ord'' [Seq (Call ''MDb'' [V 2, Dot (Dot (V 3) ''c'') ''length'']) (Call ''JD'' [Idx (Dot (V 3) ''c'') (V 2), K (JNum 49)]), Bin Plus (Dot (Dot (V 4) ''e'') ''a'') (Dot (Dot (V 4) ''f'') ''a'')]))] [Do (And (Bin Lt (Dot (Dot (V 4) ''e'') ''b'') (Call ''Ueb'' [Call ''MD'' [Dot (Seq (Call ''MDb'' [V 2, Dot (Dot (V 3) ''c'') ''length'']) (Call ''JD'' [Idx (Dot (V 3) ''c'') (V 2), K (JNum 49)])) ''a'']])) (Call ''nrd'' [Seq (Call ''MDb'' [V 2, Dot (Dot (V 3) ''c'') ''length'']) (Call ''JD'' [Idx (Dot (V 3) ''c'') (V 2), K (JNum 49)]), Dot (Dot (V 4) ''e'') ''b''])), Do (And (Bin Gt (Bin Plus (Dot (Dot (V 4) ''e'') ''b'') (Dot (Dot (V 4) ''f'') ''b'')) (Call ''Ueb'' [Call ''MD'' [Dot (Seq (Call ''MDb'' [V 2, Dot (Dot (V 3) ''c'') ''length'']) (Call ''JD'' [Idx (Dot (V 3) ''c'') (V 2), K (JNum 49)])) ''b'']])) (Call ''ord'' [Seq (Call ''MDb'' [V 2, Dot (Dot (V 3) ''c'') ''length'']) (Call ''JD'' [Idx (Dot (V 3) ''c'') (V 2), K (JNum 49)]), Bin Plus (Dot (Dot (V 4) ''e'') ''b'') (Dot (Dot (V 4) ''f'') ''b'')]))]] [], Do (SetV 5 (Call ''Ztb'' [Dot (V 0) ''b'', K (JNum 0)])), Loop (Neg (Loose (Dot (V 5) ''b'') (Dot (Dot (V 5) ''d'') ''c''))) [Do (SetV 4 (Call ''JD'' [Call ''lub'' [V 5], K (JNum 40)])), Do (SetV 2 (Dot (Call ''JD'' [Call ''oNb'' [V 4, Seq (Call ''SXc'' []) (G ''QXc'')], K (JNum 15)]) ''a'')), Do (Call ''rNb'' [V 4, Seq (Call ''_Wc'' []) (G ''QWc''), Call ''MD'' [Dot (Seq (Call ''MDb'' [V 2, Dot (Dot (V 3) ''c'') ''length'']) (Call ''JD'' [Idx (Dot (V 3) ''c'') (V 2), K (JNum 49)])) ''a'']]), Do (Call ''rNb'' [V 4, G ''PWc'', Call ''MD'' [Dot (Seq (Call ''MDb'' [V 2, Dot (Dot (V 3) ''c'') ''length'']) (Call ''JD'' [Idx (Dot (V 3) ''c'') (V 2), K (JNum 49)])) ''b'']])] [], Do (Meth (V 1) ''Ug'' [])],
    fn ''M8b'' 1 15 [Do (Put (V 0) ''o'' (Call ''Ueb'' [Call ''MD'' [Call ''oNb'' [Dot (V 0) ''i'', Seq (Call ''nyc'' []) (G ''Sxc'')]]])), Do (Put (V 0) ''f'' (Call ''Ueb'' [Call ''MD'' [Call ''oNb'' [Dot (V 0) ''i'', G ''Mxc'']]])), Do (Put (V 0) ''j'' (Dot (Dot (Dot (Dot (V 0) ''i'') ''b'') ''c'') ''length'')), Do (SetV 7 (Bin Minus (Dot (V 0) ''j'') (K (JNum 1)))), Do (SetV 12 (K (JNum 0))), Do (Put (V 0) ''k'' (K (JNum 0))), Do (Put (V 0) ''n'' (K (JNum 0))), Do (Put (V 0) ''b'' (Call ''Wu'' [Call ''SC'' [G ''UI'', G ''aue'', K (JNum 15), Dot (V 0) ''j'', K (JNum 0), K (JNum 1)]])), Do (Put (V 0) ''c'' (Call ''Wu'' [Call ''SC'' [G ''LI'', G ''aue'', K (JNum 346), Dot (V 0) ''j'', K (JNum 7), K (JNum 1)]])), Do (SetV 6 (New ''Kmb'' [Dot (Dot (V 0) ''i'') ''b''])), Loop (Bin Lt (Dot (V 6) ''a'') (Dot (Dot (Dot (V 6) ''c'') ''c'') ''length'')) [Do (SetV 4 (Call ''JD'' [Call ''Imb'' [V 6], K (JNum 25)])), Do (Put (V 4) ''p'' (V 7)), Do (SetV 11 (New ''Kmb'' [Dot (V 4) ''a''])), Loop (Bin Lt (Dot (V 11) ''a'') (Dot (Dot (Dot (V 11) ''c'') ''c'') ''length'')) [Do (SetV 10 (Call ''JD'' [Call ''Imb'' [V 11], K (JNum 9)])), Do (Put (V 10) ''p'' (V 12)), Do (SetV 12 (Bin Minus (V 12) (K (JNum (- 1)))))] [], Do (SetV 7 (Bin Minus (V 7) (K (JNum 1))))] [], Do (Put (V 0) ''g'' (Call ''SC'' [G ''cE'', G ''bve'', K (JNum 30), V 12, K (JNum 15), K (JNum 1)])), Do (Put (V 0) ''d'' (Call ''QC'' [G ''cE'', NewArr [G ''aue'', G ''bve''], NewArr [K (JNum 54), K (JNum 30)], K (JNum 15), NewArr [V 12, K (JNum 3)], K (JNum 2)])), Do (Put (V 0) ''p'' (New ''lmb'' [])), Do (Put (V 0) ''q'' (New ''lmb'' [])), Do (SetV 1 (K (JNum 0))), Do (Put (V 0) ''e'' (K (JNum 0))), Do (SetV 5 (New ''Kmb'' [Dot (Dot (V 0) ''i'') ''b''])), Loop (Bin Lt (Dot (V 5) ''a'') (Dot (Dot (Dot (V 5) ''c'') ''c'') ''length'')) [Do (SetV 4 (Call ''JD'' [Call ''Imb'' [V 5], K (JNum 25)])), Do (SetV 7 (Dot (V 4) ''p'')), Do (SetV 3 (K (JNum 0))), Do (SetV 15 (K (JNum 0))), Do (SetV 8 (Dot (Dot (Dot (V 4) ''a'') ''c'') ''length'')), Do (SetV 9 (K (JNum 0))), Do (SetV 11 (New ''Kmb'' [Dot (V 4) ''a''])), Loop (Bin Lt (Dot (V 11) ''a'') (Dot (Dot (Dot (V 11) ''c'') ''c'') ''length'')) [Do (SetV 10 (Call ''JD'' [Call ''Imb'' [V 11], K (JNum 9)])), Do (SetV 12 (Dot (V 10) ''p'')), Do (PutIdx (Dot (V 0) ''g'') (V 12) (Dot (Dot (V 10) ''c'') ''p'')), Do (SetV 9 (Bin Plus (V 9) (Bin Plus (Dot (Dot (V 10) ''o'') ''b'') (Dot (V 0) ''o'')))), Do (SetV 2 (Call ''Br'' [New ''Yr'' [Call ''Dr'' [Meth (Dot (Call ''EYb'' [V 10]) ''a'') ''Jc'' [], New ''Dl'' []]]])), Do (SetV 14 (Call ''Br'' [New ''Yr'' [Call ''Dr'' [Meth (Dot (Call ''HYb'' [V 10]) ''a'') ''Jc'' [], New ''Dl'' []]]])), Do (PutIdx (Idx (Dot (V 0) ''d'') (V 12)) (K (JNum 0)) (Bin Minus (V 14) (V 2))), Do (PutIdx (Idx (Dot (V 0) ''d'') (V 12)) (K (JNum 1)) (V 2)), Do (PutIdx (Idx (Dot (V 0) ''d'') (V 12)) (K (JNum 2)) (V 14)), Do (SetV 3 (Bin Plus (V 3) (V 2))), Do (SetV 15 (Bin Plus (V 15) (V 14))), Do (And (Bin Gt (V 2) (K (JNum 0))) (Call ''_lb'' [Dot (V 0) ''q'', V 10])), Do (Call ''_lb'' [Dot (V 0) ''p'', V 10])] [], Do (SetV 1 (Bin Minus (V 1) (V 3))), Do (SetV 13 (Bin Plus (V 8) (V 1))), Do (SetV 9 (Bin Plus (V 9) (Bin Times (V 1) (Dot (V 0) ''f'')))), Do (Call ''imb'' [Dot (V 0) ''b'', V 7, Call ''Cfb'' [V 13]]), Do (Call ''imb'' [Dot (V 0) ''c'', V 7, V 9]), Do (Put (V 0) ''k'' (Meth (Dot (G ''$wnd'') ''Math'') ''max'' [Dot (V 0) ''k'', V 13])), Do (Put (V 0) ''n'' (Meth (Dot (G ''$wnd'') ''Math'') ''max'' [Dot (V 0) ''n'', V 9])), Do (Put (V 0) ''e'' (Bin Plus (Dot (V 0) ''e'') (V 1))), Do (SetV 1 (Bin Plus (V 1) (V 15)))] []],
    fn ''cVc'' 2 18 [When (Neg (Loose (Dot (V 1) ''b'') (K (JNum 0)))) [Do (SetV 13 (New ''dub'' [])), Do (SetV 7 (K JNull)), Do (SetV 14 (K JNull)), Do (SetV 3 (Call ''YD'' [Bin Plus (Meth (Dot (G ''$wnd'') ''Math'') ''floor'' [Bin Times (Meth (Dot (G ''$wnd'') ''Math'') ''log'' [Dot (V 1) ''b'']) (Dot (Dot (G ''$wnd'') ''Math'') ''LOG10E'')]) (K (JNum 1))])), Do (SetV 8 (K (JNum 0))), Do (SetV 19 (Call ''Ztb'' [V 1, K (JNum 0)])), Loop (Neg (Loose (Dot (V 19) ''b'') (Dot (Dot (V 19) ''d'') ''c''))) [Do (SetV 17 (Call ''JD'' [Call ''lub'' [V 19], K (JNum 40)])), When (Neg (Same (Call ''XD'' [V 14]) (Call ''XD'' [Call ''oNb'' [V 17, Seq (Call ''_Wc'' []) (G ''LWc'')]]))) [Do (SetV 14 (Call ''OD'' [Call ''oNb'' [V 17, G ''LWc'']])), Do (SetV 8 (K (JNum 0)))] [], Do (Cond (Neg (Loose (V 14) (K JNull))) (SetV 7 (Bin Plus (V 14) (Call ''fVc'' [Bin Minus (SetV 8 (Bin Minus (V 8) (K (JNum (- 1))))) (K (JNum 1)), V 3]))) (SetV 7 (Call ''fVc'' [Bin Minus (SetV 8 (Bin Minus (V 8) (K (JNum (- 1))))) (K (JNum 1)), V 3]))), Do (Call ''rNb'' [V 17, G ''LWc'', V 7]), Do (SetV 16 (Seq (SetV 4 (Call ''Ztb'' [Dot (Dot (New ''OTc'' [V 17]) ''a'') ''d'', K (JNum 0)])) (New ''RTc'' [V 4]))), Loop (Call ''kub'' [Dot (V 16) ''a'']) [Do (SetV 15 (Dot (Call ''JD'' [Call ''lub'' [Dot (V 16) ''a''], K (JNum 65)]) ''c'')), Do (Call ''Wtb'' [V 13, V 15, Dot (Dot (V 13) ''c'') ''b'', Dot (V 13) ''c'']), Do (Call ''rNb'' [V 15, G ''LWc'', V 7])] []] [], Do (SetV 12 (New ''_rb'' [])), Do (SetV 6 (K (JNum 0))), Loop (Bin Lt (V 6) (Bin Minus (Dot (V 7) ''length'') (V 3))) [Do (SetV 18 (Call ''Ztb'' [V 1, K (JNum 0)])), Loop (Neg (Loose (Dot (V 18) ''b'') (Dot (Dot (V 18) ''d'') ''c''))) [Do (SetV 17 (Call ''JD'' [Call ''lub'' [V 18], K (JNum 40)])), Do (SetV 9 (Call ''Jgb'' [Call ''OD'' [Call ''oNb'' [V 17, Seq (Call ''_Wc'' []) (G ''LWc'')]], K (JNum 0), Bin Plus (V 6) (K (JNum 1))])), Do (SetV 2 (Cond (Neg (Loose (Cond (Loose (V 9) (K JNull)) (Call ''Wd'' [Call ''ysb'' [Dot (V 12) ''f'', K JNull]]) (Call ''Ssb'' [Dot (V 12) ''i'', V 9])) (K JNull))) (Bin Plus (Dot (Call ''JD'' [Cond (Loose (V 9) (K JNull)) (Call ''Wd'' [Call ''ysb'' [Dot (V 12) ''f'', K JNull]]) (Call ''Ssb'' [Dot (V 12) ''i'', V 9]), K (JNum 15)]) ''a'') (K (JNum 1))) (K (JNum 1)))), Do (Call ''ijb'' [V 12, V 9, Call ''Cfb'' [V 2]])] []] [Do (Bin Minus (SetV 6 (Bin Minus (V 6) (K (JNum (- 1))))) (K (JNum 1)))], Do (SetV 11 (New ''Fjb'' [Dot (New ''wjb'' [V 12]) ''a''])), Loop (Dot (V 11) ''b'') [Do (SetV 10 (Call ''Djb'' [V 11])), Do (SetV 5 (Call ''Cfb'' [Cond (Neg (Loose (Call ''ejb'' [Dot (V 0) ''a'', Meth (V 10) ''jd'' []]) (K JNull))) (Dot (Call ''JD'' [Call ''ejb'' [Dot (V 0) ''a'', Meth (V 10) ''jd'' []], K (JNum 15)]) ''a'') (K (JNum 0))])), Do (Call ''ijb'' [Dot (V 0) ''a'', Call ''OD'' [Meth (V 10) ''jd'' []], Call ''Cfb'' [Bin Plus (Dot (Call ''JD'' [Meth (V 10) ''kd'' [], K (JNum 15)]) ''a'') (Dot (V 5) ''a'')]]), Do (SetV 5 (Call ''JD'' [Call ''ejb'' [Dot (V 0) ''b'', Meth (V 10) ''jd'' []], K (JNum 15)])), Do (And (Or (Neg (V 5)) (Bin Lt (Dot (V 5) ''a'') (Dot (Call ''JD'' [Meth (V 10) ''kd'' [], K (JNum 15)]) ''a''))) (Call ''ijb'' [Dot (V 0) ''b'', Call ''OD'' [Meth (V 10) ''jd'' []], Call ''JD'' [Meth (V 10) ''kd'' [], K (JNum 15)]]))] [], Do (Call ''cVc'' [V 0, V 13])] []],
    fn ''ICc'' 3 15 [Do (Meth (V 2) ''Tg'' [K (JStr ''Breadth first model order layering''), K (JNum 1)]), Do (Put (V 0) ''a'' (V 1)), Do (SetV 16 (New ''lmb'' [])), Do (SetV 15 (New ''Kmb'' [Dot (Dot (V 0) ''a'') ''a''])), Loop (Bin Lt (Dot (V 15) ''a'') (Dot (Dot (Dot (V 15) ''c'') ''c'') ''length'')) [Do (SetV 13 (Call ''JD'' [Call ''Imb'' [V 15], K (JNum 9)])), Do (And (Loose (Dot (V 13) ''k'') (Seq (Call ''$Yb'' []) (G ''XYb''))) (Seq (Call ''qDb'' [Dot (V 16) ''c'', V 13]) (K (JBool True))))] [], Do (Call ''Inb'' []), Do (Call ''jmb'' [V 16, New ''NCc'' []]), Do (SetV 8 (K (JBool True))), Do (SetV 4 (New ''y$b'' [Dot (V 0) ''a''])), Do (SetV 3 (K JNull)), Do (Call ''_lb'' [Dot (Dot (V 0) ''a'') ''b'', V 4]), Do (SetV 14 (New ''Kmb'' [V 16])), Loop (Bin Lt (Dot (V 14) ''a'') (Dot (Dot (Dot (V 14) ''c'') ''c'') ''length'')) [Do (SetV 13 (Call ''JD'' [Call ''Imb'' [V 14], K (JNum 9)])), When (V 8) [Do (Call ''NYb'' [V 13, V 4]), Do (SetV 8 (K (JBool False)))] [Do (SetV 7 (New ''Yr'' [Call ''Dr'' [Meth (Dot (Call ''EYb'' [V 13]) ''a'') ''Jc'' [], New ''Dl'' []]])), Loop (Call ''Wr'' [V 7]) [Do (SetV 5 (Call ''JD'' [Call ''Xr'' [V 7], K (JNum 17)])), When (Or (And (Loose (Dot (Dot (Dot (V 5) ''c'') ''i'') ''k'') (Seq (Call ''$Yb'' []) (G ''XYb''))) (Loose (Dot (Dot (Dot (V 5) ''c'') ''i'') ''c'') (V 4))) (And (Loose (Dot (Dot (Dot (V 5) ''c'') ''i'') ''k'') (G ''UYb'')) (Loose (Dot (Dot (Dot (Call ''JD'' [Call ''Xr'' [New ''Yr'' [Call ''Dr'' [Meth (Dot (Call ''EYb'' [Dot (Dot (V 5) ''c'') ''i'']) ''a'') ''Jc'' [], New ''Dl'' []]]], K (JNum 17)]) ''c'') ''i'') ''c'') (V 4)))) [Do (SetV 3 (New ''y$b'' [Dot (V 0) ''a''])), Do (Call ''_lb'' [Dot (Dot (V 0) ''a'') ''b'', V 3]), Do (SetV 4 (New ''y$b'' [Dot (V 0) ''a''])), Do (Call ''_lb'' [Dot (Dot (V 0) ''a'') ''b'', V 4])] []] [], Do (SetV 6 (New ''Yr'' [Call ''Dr'' [Meth (Dot (Call ''EYb'' [V 13]) ''a'') ''Jc'' [], New ''Dl'' []]])), Loop (Call ''Wr'' [V 6]) [Do (SetV 5 (Call ''JD'' [Call ''Xr'' [V 6], K (JNum 17)])), Do (And (And (Loose (Dot (Dot (Dot (V 5) ''c'') ''i'') ''k'') (Seq (Call ''$Yb'' []) (G ''UYb''))) (Neg (Dot (Dot (Dot (V 5) ''c'') ''i'') ''c''))) (Call ''NYb'' [Dot (Dot (V 5) ''c'') ''i'', V 3]))] [], Do (Call ''NYb'' [V 13, V 4])]] [], Do (Put (Dot (Dot (Dot (V 0) ''a'') ''a'') ''c'') ''length'' (K (JNum 0))), Do (SetV 17 (New ''lmb'' [])), Do (SetV 11 (New ''Kmb'' [Dot (Dot (V 0) ''a'') ''b''])), Loop (Bin Lt (Dot (V 11) ''a'') (Dot (Dot (Dot (V 11) ''c'') ''c'') ''length'')) [Do (SetV 9 (Call ''JD'' [Call ''Imb'' [V 11], K (JNum 25)])), Do (And (Loose (Dot (Dot (Dot (V 9) ''a'') ''c'') ''length'') (K (JNum 0))) (Seq (Call ''qDb'' [Dot (V 17) ''c'', V 9]) (K (JBool True))))] [], Do (Call ''Be'' [Dot (Dot (V 0) ''a'') ''b'', V 17]), Do (SetV 12 (K (JNum 0))), Do (SetV 10 (New ''Kmb'' [Dot (Dot (V 0) ''a'') ''b''])), Loop (Bin Lt (Dot (V 10) ''a'') (Dot (Dot (Dot (V 10) ''c'') ''c'') ''length'')) [Do (SetV 9 (Call ''JD'' [Call ''Imb'' [V 10], K (JNum 25)])), Do (Put (V 9) ''p'' (V 12)), Do (SetV 12 (Bin Minus (V 12) (K (JNum (- 1)))))] [], Do (Meth (V 2) ''Ug'' [])],
    fn ''Bmd'' 0 1 [Do (SetG ''Bmd'' (G ''qdb'')), Do (SetG ''zmd'' (New ''Fmd'' [G ''Ywe'', K (JNum 0)])), Do (SetG ''hmd'' (New ''Fmd'' [K (JStr ''NORTH''), K (JNum 1)])), Do (SetG ''gmd'' (New ''Fmd'' [K (JStr ''EAST''), K (JNum 2)])), Do (SetG ''ymd'' (New ''Fmd'' [K (JStr ''SOUTH''), K (JNum 3)])), Do (SetG ''Amd'' (New ''Fmd'' [K (JStr ''WEST''), K (JNum 4)])), Do (SetG ''mmd'' (Seq (Call ''Inb'' []) (New ''Tpb'' [Seq (SetV 0 (Call ''JD'' [Call ''web'' [G ''M2''], K (JNum 10)])) (New ''Nrb'' [V 0, Call ''JD'' [Call ''nDb'' [V 0, Dot (V 0) ''length''], K (JNum 10)], K (JNum 0)])]))), Do (SetG ''nmd'' (Call ''$p'' [Call ''Grb'' [G ''hmd'', Call ''WC'' [Call ''OC'' [G ''M2'', K (JNum 1)], G ''sye'', K (JNum 64), K (JNum 0), NewArr []]]])), Do (SetG ''imd'' (Call ''$p'' [Call ''Grb'' [G ''gmd'', Call ''WC'' [Call ''OC'' [G ''M2'', K (JNum 1)], G ''sye'', K (JNum 64), K (JNum 0), NewArr []]]])), Do (SetG ''vmd'' (Call ''$p'' [Call ''Grb'' [G ''ymd'', Call ''WC'' [Call ''OC'' [G ''M2'', K (JNum 1)], G ''sye'', K (JNum 64), K (JNum 0), NewArr []]]])), Do (SetG ''xmd'' (Call ''$p'' [Call ''Grb'' [G ''Amd'', Call ''WC'' [Call ''OC'' [G ''M2'', K (JNum 1)], G ''sye'', K (JNum 64), K (JNum 0), NewArr []]]])), Do (SetG ''smd'' (Call ''$p'' [Call ''Grb'' [G ''hmd'', Call ''WC'' [Call ''OC'' [G ''M2'', K (JNum 1)], G ''sye'', K (JNum 64), K (JNum 0), NewArr [G ''ymd'']]]])), Do (SetG ''lmd'' (Call ''$p'' [Call ''Grb'' [G ''gmd'', Call ''WC'' [Call ''OC'' [G ''M2'', K (JNum 1)], G ''sye'', K (JNum 64), K (JNum 0), NewArr [G ''Amd'']]]])), Do (SetG ''umd'' (Call ''$p'' [Call ''Grb'' [G ''hmd'', Call ''WC'' [Call ''OC'' [G ''M2'', K (JNum 1)], G ''sye'', K (JNum 64), K (JNum 0), NewArr [G ''Amd'']]]])), Do (SetG ''omd'' (Call ''$p'' [Call ''Grb'' [G ''hmd'', Call ''WC'' [Call ''OC'' [G ''M2'', K (JNum 1)], G ''sye'', K (JNum 64), K (JNum 0), NewArr [G ''gmd'']]]])), Do (SetG ''wmd'' (Call ''$p'' [Call ''Grb'' [G ''ymd'', Call ''WC'' [Call ''OC'' [G ''M2'', K (JNum 1)], G ''sye'', K (JNum 64), K (JNum 0), NewArr [G ''Amd'']]]])), Do (SetG ''jmd'' (Call ''$p'' [Call ''Grb'' [G ''gmd'', Call ''WC'' [Call ''OC'' [G ''M2'', K (JNum 1)], G ''sye'', K (JNum 64), K (JNum 0), NewArr [G ''ymd'']]]])), Do (SetG ''rmd'' (Call ''$p'' [Call ''Grb'' [G ''hmd'', Call ''WC'' [Call ''OC'' [G ''M2'', K (JNum 1)], G ''sye'', K (JNum 64), K (JNum 0), NewArr [G ''gmd'', G ''Amd'']]]])), Do (SetG ''kmd'' (Call ''$p'' [Call ''Grb'' [G ''gmd'', Call ''WC'' [Call ''OC'' [G ''M2'', K (JNum 1)], G ''sye'', K (JNum 64), K (JNum 0), NewArr [G ''ymd'', G ''Amd'']]]])), Do (SetG ''tmd'' (Call ''$p'' [Call ''Grb'' [G ''hmd'', Call ''WC'' [Call ''OC'' [G ''M2'', K (JNum 1)], G ''sye'', K (JNum 64), K (JNum 0), NewArr [G ''ymd'', G ''Amd'']]]])), Do (SetG ''pmd'' (Call ''$p'' [Call ''Grb'' [G ''hmd'', Call ''WC'' [Call ''OC'' [G ''M2'', K (JNum 1)], G ''sye'', K (JNum 64), K (JNum 0), NewArr [G ''gmd'', G ''ymd'']]]])), Do (SetG ''qmd'' (Call ''$p'' [Call ''Grb'' [G ''hmd'', Call ''WC'' [Call ''OC'' [G ''M2'', K (JNum 1)], G ''sye'', K (JNum 64), K (JNum 0), NewArr [G ''gmd'', G ''ymd'', G ''Amd'']]]]))],
    fn ''w_b'' 2 14 [Do (SetV 3 (Call ''JD'' [Call ''oNb'' [V 0, Seq (Call ''Wrc'' []) (G ''urc'')], K (JNum 26)])), Do (SetV 14 (Dot (Call ''JD'' [Call ''oNb'' [V 0, Seq (Call ''nyc'' []) (G ''Yvc'')], K (JNum 15)]) ''a'')), Do (SetV 5 (Dot (Call ''JD'' [Call ''oNb'' [V 0, G ''Fwc''], K (JNum 15)]) ''a'')), Do (Call ''evd'' [V 3, G ''Yvc'', Call ''Cfb'' [V 14]]), Do (Call ''evd'' [V 3, G ''Fwc'', Call ''Cfb'' [V 5]]), Do (Call ''_vd'' [V 3, Bin Plus (Dot (Dot (V 0) ''n'') ''a'') (Dot (V 1) ''a'')]), Do (Call ''awd'' [V 3, Bin Plus (Dot (Dot (V 0) ''n'') ''b'') (Dot (V 1) ''b'')]), When (Or (Or (Neg (Loose (Meth (Call ''JD'' [Call ''cvd'' [V 3, G ''axc''], K (JNum 182)]) ''gc'' []) (K (JNum 0)))) (Neg (Neg (Dot (V 0) ''e'')))) (And (Same (Call ''XD'' [Call ''oNb'' [Call ''DYb'' [V 0], G ''_wc'']]) (Call ''XD'' [Seq (Call ''yzc'' []) (G ''wzc'')])) (Call ''mzc'' [Seq (Seq (Call ''lzc'' []) (Cond (Meth (Cond (Neg (Dot (V 0) ''q'')) (Seq (Seq (Call ''Inb'' []) (Call ''Inb'' [])) (G ''Gnb'')) (Dot (V 0) ''q'')) ''_b'' [G ''Ywc'']) (SetV 12 (Call ''JD'' [Call ''oNb'' [V 0, G ''Ywc''], K (JNum 203)])) (SetV 12 (Call ''JD'' [Call ''oNb'' [Call ''DYb'' [V 0], G ''Zwc''], K (JNum 203)])))) (V 12)]))) [Do (Call ''$vd'' [V 3, Dot (Dot (V 0) ''o'') ''a'']), Do (Call ''Yvd'' [V 3, Dot (Dot (V 0) ''o'') ''b''])] [], Do (SetV 11 (New ''Kmb'' [Dot (V 0) ''j''])), Loop (Bin Lt (Dot (V 11) ''a'') (Dot (Dot (Dot (V 11) ''c'') ''c'') ''length'')) [Do (SetV 9 (Call ''JD'' [Call ''Imb'' [V 11], K (JNum 12)])), Do (SetV 15 (Call ''oNb'' [V 9, G ''urc''])), When (Call ''RD'' [V 15, K (JNum 193)]) [Do (SetV 4 (Call ''JD'' [V 15, K (JNum 125)])), Do (Call ''Zvd'' [V 4, Dot (Dot (V 9) ''n'') ''a'', Dot (Dot (V 9) ''n'') ''b'']), Do (Call ''evd'' [V 4, G ''vxc'', Dot (V 9) ''j''])] []] [], Do (SetV 13 (Neg (Loose (Meth (Call ''JD'' [Call ''oNb'' [V 0, G ''Twc''], K (JNum 182)]) ''gc'' []) (K (JNum 0))))), Do (SetV 8 (New ''Kmb'' [Dot (V 0) ''b''])), Loop (Bin Lt (Dot (V 8) ''a'') (Dot (Dot (Dot (V 8) ''c'') ''c'') ''length'')) [Do (SetV 6 (Call ''JD'' [Call ''Imb'' [V 8], K (JNum 70)])), When (Or (V 13) (Neg (Loose (Meth (Call ''JD'' [Call ''oNb'' [V 6, G ''Twc''], K (JNum 182)]) ''gc'' []) (K (JNum 0))))) [Do (SetV 2 (Call ''JD'' [Call ''oNb'' [V 6, G ''urc''], K (JNum 157)])), Do (Call ''Xvd'' [V 2, Dot (Dot (V 6) ''o'') ''a'', Dot (Dot (V 6) ''o'') ''b'']), Do (Call ''Zvd'' [V 2, Dot (Dot (V 6) ''n'') ''a'', Dot (Dot (V 6) ''n'') ''b''])] []] [], When (Neg (Call ''amd'' [Call ''JD'' [Call ''oNb'' [V 0, G ''txc''], K (JNum 22)]])) [Do (SetV 10 (New ''Kmb'' [Dot (V 0) ''j''])), Loop (Bin Lt (Dot (V 10) ''a'') (Dot (Dot (Dot (V 10) ''c'') ''c'') ''length'')) [Do (SetV 9 (Call ''JD'' [Call ''Imb'' [V 10], K (JNum 12)])), Do (SetV 7 (New ''Kmb'' [Dot (V 9) ''f''])), Loop (Bin Lt (Dot (V 7) ''a'') (Dot (Dot (Dot (V 7) ''c'') ''c'') ''length'')) [Do (SetV 6 (Call ''JD'' [Call ''Imb'' [V 7], K (JNum 70)])), Do (SetV 2 (Call ''JD'' [Call ''oNb'' [V 6, G ''urc''], K (JNum 157)])), Do (Call ''$vd'' [V 2, Dot (Dot (V 6) ''o'') ''a'']), Do (Call ''Yvd'' [V 2, Dot (Dot (V 6) ''o'') ''b'']), Do (Call ''Zvd'' [V 2, Dot (Dot (V 6) ''n'') ''a'', Dot (Dot (V 6) ''n'') ''b''])] []] []] []]]"

definition code_6187_6188 :: "(string \<times> jfun) list" where
  "code_6187_6188 = [
    fn ''G_c'' 2 24 [Do (Meth (V 1) ''Tg'' [K (JStr ''Calculate Graph Size''), K (JNum 1)]), Do (Meth (V 1) ''bh'' [V 0, G ''hDe'']), Do (SetV 11 (G ''tCe'')), Do (SetV 12 (G ''tCe'')), Do (SetV 9 (G ''uCe'')), Do (SetV 10 (G ''uCe'')), Do (SetV 15 (New ''uKd'' [Seq (And (Neg (Dot (V 0) ''a'')) (Put (V 0) ''a'' (New ''P3d'' [G ''T3'', V 0, K (JNum 10), K (JNum 11)]))) (Dot (V 0) ''a'')])), Loop (Neg (Loose (Dot (V 15) ''e'') (Meth (Dot (V 15) ''i'') ''gc'' []))) [Do (SetV 13 (Call ''JD'' [Call ''sKd'' [V 15], K (JNum 26)])), Do (SetV 18 (Dot (V 13) ''i'')), Do (SetV 19 (Dot (V 13) ''j'')), Do (SetV 25 (Dot (V 13) ''g'')), Do (SetV 7 (Dot (V 13) ''f'')), Do (SetV 8 (Call ''JD'' [Call ''cvd'' [V 13, Seq (Call ''vjd'' []) (G ''cid'')], K (JNum 140)])), Do (SetV 11 (Meth (Dot (G ''$wnd'') ''Math'') ''min'' [V 11, Bin Minus (V 18) (Dot (V 8) ''b'')])), Do (SetV 12 (Meth (Dot (G ''$wnd'') ''Math'') ''min'' [V 12, Bin Minus (V 19) (Dot (V 8) ''d'')])), Do (SetV 9 (Meth (Dot (G ''$wnd'') ''Math'') ''max'' [V 9, Bin Plus (Bin Plus (V 18) (V 25)) (Dot (V 8) ''c'')])), Do (SetV 10 (Meth (Dot (G ''$wnd'') ''Math'') ''max'' [V 10, Bin Plus (Bin Plus (V 19) (V 7)) (Dot (V 8) ''a'')]))] [], Do (SetV 17 (Call ''JD'' [Call ''cvd'' [V 0, Seq (Call ''vjd'' []) (G ''rid'')], K (JNum 104)])), Do (SetV 16 (New ''lgd'' [Bin Minus (V 11) (Dot (V 17) ''b''), Bin Minus (V 12) (Dot (V 17) ''d'')])), Do (SetV 24 (Bin Plus (Bin Minus (V 9) (V 11)) (Bin Plus (Dot (V 17) ''b'') (Dot (V 17) ''c'')))), Do (SetV 6 (Bin Plus (Bin Minus (V 10) (V 12)) (Bin Plus (Dot (V 17) ''d'') (Dot (V 17) ''a'')))), When (Call ''Rdb'' [Call ''LD'' [Call ''cvd'' [V 0, Seq (Call ''J1c'' []) (G ''p1c'')]]]) [Do (SetV 20 (Call ''JD'' [Call ''cvd'' [V 0, Seq (Call ''d_c'' []) (G ''c_c'')], K (JNum 26)])), Do (SetV 21 (Call ''JD'' [Call ''cvd'' [V 20, G ''cid''], K (JNum 140)])), Do (SetV 22 (Bin Minus (Bin Plus (Bin Plus (Dot (V 20) ''i'') (Bin Divide (Dot (V 20) ''g'') (K (JNum 2)))) (Bin Divide (Bin Plus (Dot (V 21) ''b'') (Dot (V 21) ''c'')) (K (JNum 2)))) (Dot (V 16) ''a''))), Do (SetV 23 (Bin Minus (Bin Plus (Bin Plus (Dot (V 20) ''j'') (Bin Divide (Dot (V 20) ''f'') (K (JNum 2)))) (Bin Divide (Bin Plus (Dot (V 21) ''d'') (Dot (V 21) ''a'')) (K (JNum 2)))) (Dot (V 16) ''b''))), Do (SetV 4 (Bin Minus (V 24) (V 22))), Do (SetV 5 (Bin Minus (V 6) (V 23))), When (Bin Lt (V 4) (Bin Divide (V 24) (K (JNum 2)))) [Do (SetV 2 (Bin Minus (V 4) (V 22))), Do (SetV 24 (Bin Plus (V 24) (V 2))), Do (Put (V 16) ''a'' (Bin Minus (Dot (V 16) ''a'') (V 2)))] [Do (SetV 2 (Bin Minus (V 22) (V 4))), Do (SetV 24 (Bin Plus (V 24) (V 2)))], When (Bin Lt (V 5) (Bin Divide (V 6) (K (JNum 2)))) [Do (SetV 3 (Bin Minus (V 5) (V 23))), Do (SetV 6 (Bin Plus (V 6) (V 3))), Do (Put (V 16) ''b'' (Bin Minus (Dot (V 16) ''b'') (V 3)))] [Do (SetV 3 (Bin Minus (V 23) (V 5))), Do (SetV 6 (Bin Plus (V 6) (V 3)))]] [], Do (SetV 14 (New ''uKd'' [Seq (And (Neg (Dot (V 0) ''a'')) (Put (V 0) ''a'' (New ''P3d'' [G ''T3'', V 0, K (JNum 10), K (JNum 11)]))) (Dot (V 0) ''a'')])), Loop (Neg (Loose (Dot (V 14) ''e'') (Meth (Dot (V 14) ''i'') ''gc'' []))) [Do (SetV 13 (Call ''JD'' [Call ''sKd'' [V 14], K (JNum 26)])), Do (Call ''_vd'' [V 13, Bin Minus (Dot (V 13) ''i'') (Dot (V 16) ''a'')]), Do (Call ''awd'' [V 13, Bin Minus (Dot (V 13) ''j'') (Dot (V 16) ''b'')])] [], When (Neg (Call ''Rdb'' [Call ''LD'' [Call ''cvd'' [V 0, G ''kid'']]])) [Do (Call ''$vd'' [V 0, V 24]), Do (Call ''Yvd'' [V 0, V 6])] [], Do (Call ''evd'' [V 0, G ''Chd'', Bin Minus (V 24) (Bin Plus (Dot (V 17) ''b'') (Dot (V 17) ''c''))]), Do (Call ''evd'' [V 0, G ''Bhd'', Bin Minus (V 6) (Bin Plus (Dot (V 17) ''d'') (Dot (V 17) ''a''))]), Do (Meth (V 1) ''bh'' [V 0, G ''iDe''])],
    fn ''rRc'' 3 11 [Do (Meth (Dot (Dot (V 0) ''e'') ''a'') ''$b'' []), Do (Meth (Dot (Dot (V 0) ''f'') ''a'') ''$b'' []), Do (Put (Dot (Dot (V 0) ''c'') ''c'') ''length'' (K (JNum 0))), Do (Put (Dot (Dot (V 0) ''i'') ''c'') ''length'' (K (JNum 0))), Do (Meth (Dot (Dot (V 0) ''g'') ''a'') ''$b'' []), When (V 1) [Do (SetV 6 (New ''Kmb'' [Dot (V 1) ''a''])), Loop (Bin Lt (Dot (V 6) ''a'') (Dot (Dot (Dot (V 6) ''c'') ''c'') ''length'')) [Do (SetV 5 (Call ''JD'' [Call ''Imb'' [V 6], K (JNum 9)])), Do (SetV 11 (Meth (Call ''LYb'' [V 5, Seq (Call ''Bmd'' []) (G ''gmd'')]) ''Jc'' [])), Loop (Meth (V 11) ''Ob'' []) [Do (SetV 10 (Call ''JD'' [Meth (V 11) ''Pb'' [], K (JNum 12)])), Do (Call ''esb'' [Dot (V 0) ''e'', V 10]), Do (SetV 4 (New ''Kmb'' [Dot (V 10) ''g''])), Loop (Bin Lt (Dot (V 4) ''a'') (Dot (Dot (Dot (V 4) ''c'') ''c'') ''length'')) [Do (SetV 3 (Call ''JD'' [Call ''Imb'' [V 4], K (JNum 17)])), When (Call ''AWb'' [V 3]) [Continue] [], Do (Call ''_lb'' [Dot (V 0) ''c'', V 3]), Do (Call ''xRc'' [V 0, V 3]), Do (SetV 7 (Dot (Dot (Dot (V 3) ''c'') ''i'') ''k'')), Do (And (Or (Or (Or (Loose (V 7) (Seq (Call ''$Yb'' []) (G ''XYb''))) (Loose (V 7) (G ''YYb''))) (Loose (V 7) (G ''TYb''))) (Loose (V 7) (G ''SYb''))) (Call ''_lb'' [Dot (V 0) ''j'', V 3])), Do (SetV 13 (Dot (V 3) ''d'')), Do (SetV 12 (Dot (Dot (V 13) ''i'') ''c'')), Do (Cond (Loose (V 12) (V 2)) (Call ''esb'' [Dot (V 0) ''f'', V 13]) (Cond (Loose (V 12) (V 1)) (Call ''esb'' [Dot (V 0) ''e'', V 13]) (Call ''gmb'' [Dot (V 0) ''c'', V 3])))] []] []] []] [], When (V 2) [Do (SetV 6 (New ''Kmb'' [Dot (V 2) ''a''])), Loop (Bin Lt (Dot (V 6) ''a'') (Dot (Dot (Dot (V 6) ''c'') ''c'') ''length'')) [Do (SetV 5 (Call ''JD'' [Call ''Imb'' [V 6], K (JNum 9)])), Do (SetV 9 (New ''Kmb'' [Dot (V 5) ''j''])), Loop (Bin Lt (Dot (V 9) ''a'') (Dot (Dot (Dot (V 9) ''c'') ''c'') ''length'')) [Do (SetV 8 (Call ''JD'' [Call ''Imb'' [V 9], K (JNum 12)])), Do (SetV 4 (New ''Kmb'' [Dot (V 8) ''g''])), Loop (Bin Lt (Dot (V 4) ''a'') (Dot (Dot (Dot (V 4) ''c'') ''c'') ''length'')) [Do (SetV 3 (Call ''JD'' [Call ''Imb'' [V 4], K (JNum 17)])), Do (And (Call ''AWb'' [V 3]) (Call ''esb'' [Dot (V 0) ''g'', V 3]))] []] [], Do (SetV 11 (Meth (Call ''LYb'' [V 5, Seq (Call ''Bmd'' []) (G ''Amd'')]) ''Jc'' [])), Loop (Meth (V 11) ''Ob'' []) [Do (SetV 10 (Call ''JD'' [Meth (V 11) ''Pb'' [], K (JNum 12)])), Do (Call ''esb'' [Dot (V 0) ''f'', V 10]), Do (SetV 4 (New ''Kmb'' [Dot (V 10) ''g''])), Loop (Bin Lt (Dot (V 4) ''a'') (Dot (Dot (Dot (V 4) ''c'') ''c'') ''length'')) [Do (SetV 3 (Call ''JD'' [Call ''Imb'' [V 4], K (JNum 17)])), When (Call ''AWb'' [V 3]) [Continue] [], Do (Call ''_lb'' [Dot (V 0) ''c'', V 3]), Do (Call ''xRc'' [V 0, V 3]), Do (SetV 7 (Dot (Dot (Dot (V 3) ''c'') ''i'') ''k'')), Do (And (Or (Or (Or (Loose (V 7) (Seq (Call ''$Yb'' []) (G ''XYb''))) (Loose (V 7) (G ''YYb''))) (Loose (V 7) (G ''TYb''))) (Loose (V 7) (G ''SYb''))) (Call ''_lb'' [Dot (V 0) ''j'', V 3])), Do (SetV 13 (Dot (V 3) ''d'')), Do (SetV 12 (Dot (Dot (V 13) ''i'') ''c'')), Do (Cond (Loose (V 12) (V 2)) (Call ''esb'' [Dot (V 0) ''f'', V 13]) (Cond (Loose (V 12) (V 1)) (Call ''esb'' [Dot (V 0) ''e'', V 13]) (Call ''gmb'' [Dot (V 0) ''c'', V 3])))] []] []] []] []]]"

definition object_table31 :: "(string \<times> jfun) list" where
  "object_table31 = code_6157_6164 @ code_6165_6171 @ code_6172_6172 @ code_6175_6180 @ code_6181_6186 @ code_6187_6188"

text \<open>The names each table declares.\<close>

lemma names_6157_6164 [js_names]: "map fst code_6157_6164 = [
    ''t4b'', ''U$b'', ''X$b'', ''QBd'', ''e0b'', ''Brd'', ''rec'', ''Jie'']"
  by (simp add: code_6157_6164_def fn_def)

lemma names_6165_6171 [js_names]: "map fst code_6165_6171 = [
    ''VKb'', ''O$b'', ''i3b'', ''k6b'', ''fJb'', ''Qle'', ''Nmc'']"
  by (simp add: code_6165_6171_def fn_def)

lemma names_6172_6172 [js_names]: "map fst code_6172_6172 = [
    ''Dhb'']"
  by (simp add: code_6172_6172_def fn_def)

lemma names_6175_6180 [js_names]: "map fst code_6175_6180 = [
    ''_Wc'', ''Ooe'', ''uB'', ''v_b'', ''aLb'', ''eLb'']"
  by (simp add: code_6175_6180_def fn_def)

lemma names_6181_6186 [js_names]: "map fst code_6181_6186 = [
    ''MVc'', ''M8b'', ''cVc'', ''ICc'', ''Bmd'', ''w_b'']"
  by (simp add: code_6181_6186_def fn_def)

lemma names_6187_6188 [js_names]: "map fst code_6187_6188 = [
    ''G_c'', ''rRc'']"
  by (simp add: code_6187_6188_def fn_def)

end
