(* ===== verification/ObjectTable32.thy ===== *)
theory ObjectTable32
  imports ObjectCode
begin

text \<open>
  Functions of \<open>layout-worker.js\<close>, lines 6190 to 6224, in the order of the file, one per line:
  the algorithms of the layout engine, longer operations of the runtime's collections and of options,
  with their loops, \<open>switch\<close> and \<open>try\<close> statements. An entry has the name, the
  number of parameters, the number of further local variables and the body; parameters and locals
  are numbered from 0, the variable of a \<open>catch\<close> has a number of its own, \<open>x++\<close> is \<open>(x=x+1)-1\<close>. Lines
  with a construct outside \<open>jexp\<close> and \<open>jstm\<close> (closures, \<open>in\<close>, floating-point literals, host objects) are
  left out.
\<close>

definition code_6190_6194 :: "(string \<times> jfun) list" where
  "code_6190_6194 = [
    fn ''ZEd'' 1 5 [Do (Call ''Pub'' [V 0, G ''TGe'']), Switch (Bin Plus (Dot (Seq (And (Neg (Dot (V 0) ''b'')) (Put (V 0) ''b'' (New ''jhe'' [G ''O3'', V 0, K (JNum 4), K (JNum 7)]))) (Dot (V 0) ''b'')) ''i'') (Dot (Seq (And (Neg (Dot (V 0) ''c'')) (Put (V 0) ''c'' (New ''jhe'' [G ''O3'', V 0, K (JNum 5), K (JNum 8)]))) (Dot (V 0) ''c'')) ''i'')) [(Some (JNum 0), [Raise (Call ''Lcb'' [New ''kfb'' [K (JStr ''The edge must have at least one source or target.'')]])]), (Some (JNum 1), [Ret (Cond (Loose (Dot (Seq (And (Neg (Dot (V 0) ''b'')) (Put (V 0) ''b'' (New ''jhe'' [G ''O3'', V 0, K (JNum 4), K (JNum 7)]))) (Dot (V 0) ''b'')) ''i'') (K (JNum 0))) (Call ''Rzd'' [Call ''TEd'' [Call ''JD'' [Call ''fGd'' [Seq (And (Neg (Dot (V 0) ''c'')) (Put (V 0) ''c'' (New ''jhe'' [G ''O3'', V 0, K (JNum 5), K (JNum 8)]))) (Dot (V 0) ''c''), K (JNum 0)], K (JNum 84)]]]) (Call ''Rzd'' [Call ''TEd'' [Call ''JD'' [Call ''fGd'' [Seq (And (Neg (Dot (V 0) ''b'')) (Put (V 0) ''b'' (New ''jhe'' [G ''O3'', V 0, K (JNum 4), K (JNum 7)]))) (Dot (V 0) ''b''), K (JNum 0)], K (JNum 84)]]]))])], When (And (Loose (Dot (Seq (And (Neg (Dot (V 0) ''b'')) (Put (V 0) ''b'' (New ''jhe'' [G ''O3'', V 0, K (JNum 4), K (JNum 7)]))) (Dot (V 0) ''b'')) ''i'') (K (JNum 1))) (Loose (Dot (Seq (And (Neg (Dot (V 0) ''c'')) (Put (V 0) ''c'' (New ''jhe'' [G ''O3'', V 0, K (JNum 5), K (JNum 8)]))) (Dot (V 0) ''c'')) ''i'') (K (JNum 1)))) [Do (SetV 4 (Call ''TEd'' [Call ''JD'' [Call ''fGd'' [Seq (And (Neg (Dot (V 0) ''b'')) (Put (V 0) ''b'' (New ''jhe'' [G ''O3'', V 0, K (JNum 4), K (JNum 7)]))) (Dot (V 0) ''b''), K (JNum 0)], K (JNum 84)]])), Do (SetV 5 (Call ''TEd'' [Call ''JD'' [Call ''fGd'' [Seq (And (Neg (Dot (V 0) ''c'')) (Put (V 0) ''c'' (New ''jhe'' [G ''O3'', V 0, K (JNum 5), K (JNum 8)]))) (Dot (V 0) ''c''), K (JNum 0)], K (JNum 84)]])), When (Loose (Call ''Rzd'' [V 4]) (Call ''Rzd'' [V 5])) [Ret (Call ''Rzd'' [V 4])] [When (Loose (V 4) (Call ''Rzd'' [V 5])) [Ret (V 4)] [When (Loose (V 5) (Call ''Rzd'' [V 4])) [Ret (V 5)] []]]] [], Do (SetV 3 (Call ''Gl'' [Call ''yl'' [Call ''WC'' [Call ''OC'' [G ''VI'', K (JNum 1)], G ''Gte'', K (JNum 20), K (JNum 0), NewArr [Seq (And (Neg (Dot (V 0) ''b'')) (Put (V 0) ''b'' (New ''jhe'' [G ''O3'', V 0, K (JNum 4), K (JNum 7)]))) (Dot (V 0) ''b''), Seq (And (Neg (Dot (V 0) ''c'')) (Put (V 0) ''c'' (New ''jhe'' [G ''O3'', V 0, K (JNum 5), K (JNum 8)]))) (Dot (V 0) ''c'')]]]])), Do (SetV 1 (Call ''TEd'' [Call ''JD'' [Call ''Xr'' [V 3], K (JNum 84)]])), Loop (Call ''Wr'' [V 3]) [Do (SetV 2 (Call ''TEd'' [Call ''JD'' [Call ''Xr'' [V 3], K (JNum 84)]])), When (And (Neg (Loose (V 2) (V 1))) (Neg (Call ''cFd'' [V 2, V 1]))) [When (Loose (Call ''Rzd'' [V 2]) (Call ''Rzd'' [V 1])) [Do (SetV 1 (Call ''Rzd'' [V 2]))] [Do (SetV 1 (Call ''$Ed'' [V 1, V 2])), When (Neg (V 1)) [Ret (K JNull)] []]] []] [], Ret (V 1)],
    fn ''vxd'' 2 20 [Do (SetV 12 (Dot (V 1) ''length'')), When (Bin Gt (V 12) (K (JNum 0))) [Do (SetV 8 (Seq (Call ''UDb'' [K (JNum 0), Dot (V 1) ''length'']) (Meth (V 1) ''charCodeAt'' [K (JNum 0)]))), When (Neg (Loose (V 8) (K (JNum 64)))) [When (Loose (V 8) (K (JNum 37))) [Do (SetV 11 (Meth (V 1) ''lastIndexOf'' [K (JStr ''%'')])), Do (SetV 9 (K (JBool False))), When (And (Neg (Loose (V 11) (K (JNum 0)))) (Or (Loose (V 11) (Bin Minus (V 12) (K (JNum 1)))) (SetV 9 (Seq (Call ''UDb'' [Bin Plus (V 11) (K (JNum 1)), Dot (V 1) ''length'']) (Loose (Meth (V 1) ''charCodeAt'' [Bin Plus (V 11) (K (JNum 1))]) (K (JNum 46))))))) [Do (SetV 6 (Seq (Call ''TDb'' [K (JNum 1), V 11, Dot (V 1) ''length'']) (Meth (V 1) ''substr'' [K (JNum 1), Bin Minus (V 11) (K (JNum 1))]))), Do (SetV 19 (Cond (Call ''vgb'' [K (JStr ''%''), V 6]) (K JNull) (Call ''BQd'' [V 6]))), Do (SetV 3 (K (JNum 0))), When (V 9) [Try [Do (SetV 3 (Call ''Ydb'' [Seq (Call ''UDb'' [Bin Plus (V 11) (K (JNum 2)), Bin Plus (Dot (V 1) ''length'') (K (JNum 1))]) (Meth (V 1) ''substr'' [Bin Plus (V 11) (K (JNum 2))]), G ''Eue'', G ''Ate'']))] 20 [Do (SetV 20 (Call ''Kcb'' [V 20])), When (Call ''RD'' [V 20, K (JNum 131)]) [Do (SetV 7 (V 20)), Raise (Call ''Lcb'' [New ''cRd'' [V 7]])] [Raise (Call ''Lcb'' [V 20])]]] [], Do (SetV 16 (Call ''a1d'' [Meth (V 0) ''Dh'' []])), Loop (Meth (V 16) ''Ob'' []) [Do (SetV 14 (Call ''x1d'' [V 16])), When (Call ''RD'' [V 14, K (JNum 505)]) [Do (SetV 4 (Call ''JD'' [V 14, K (JNum 588)])), Do (SetV 18 (Dot (V 4) ''d'')), When (And (Cond (Loose (V 19) (K JNull)) (Loose (V 18) (K JNull)) (Call ''vgb'' [V 19, V 18])) (Loose (Bin Minus (SetV 3 (Bin Minus (V 3) (K (JNum 1)))) (K (JNum (- 1)))) (K (JNum 0)))) [Ret (V 4)] []] []] [], Ret (K JNull)] []] [], Do (SetV 10 (Meth (V 1) ''lastIndexOf'' [K (JStr ''.'')])), Do (SetV 13 (Cond (Loose (V 10) (K (JNum (- 1)))) (V 1) (Seq (Call ''TDb'' [K (JNum 0), V 10, Dot (V 1) ''length'']) (Meth (V 1) ''substr'' [K (JNum 0), V 10])))), Do (SetV 2 (K (JNum 0))), When (Neg (Loose (V 10) (K (JNum (- 1))))) [Try [Do (SetV 2 (Call ''Ydb'' [Seq (Call ''UDb'' [Bin Plus (V 10) (K (JNum 1)), Bin Plus (Dot (V 1) ''length'') (K (JNum 1))]) (Meth (V 1) ''substr'' [Bin Plus (V 10) (K (JNum 1))]), G ''Eue'', G ''Ate'']))] 21 [Do (SetV 21 (Call ''Kcb'' [V 21])), When (Call ''RD'' [V 21, K (JNum 131)]) [Do (SetV 13 (V 1))] [Raise (Call ''Lcb'' [V 21])]]] [], Do (SetV 13 (Cond (Call ''vgb'' [K (JStr ''%''), V 13]) (K JNull) (Call ''BQd'' [V 13]))), Do (SetV 15 (Call ''a1d'' [Meth (V 0) ''Dh'' []])), Loop (Meth (V 15) ''Ob'' []) [Do (SetV 14 (Call ''x1d'' [V 15])), When (Call ''RD'' [V 14, K (JNum 197)]) [Do (SetV 5 (Call ''JD'' [V 14, K (JNum 197)])), Do (SetV 17 (Meth (V 5) ''ve'' [])), When (And (Cond (Loose (V 13) (K JNull)) (Loose (V 17) (K JNull)) (Call ''vgb'' [V 13, V 17])) (Loose (Bin Minus (SetV 2 (Bin Minus (V 2) (K (JNum 1)))) (K (JNum (- 1)))) (K (JNum 0)))) [Ret (V 5)] []] []] [], Ret (K JNull)] []] [], Ret (Call ''ltd'' [V 0, V 1])],
    fn ''Sfc'' 1 18 [Do (SetV 10 (New ''_rb'' [])), Do (SetV 8 (New ''Np'' [])), Do (SetV 3 (New ''Kmb'' [Dot (Dot (Dot (V 0) ''a'') ''a'') ''b''])), Loop (Bin Lt (Dot (V 3) ''a'') (Dot (Dot (Dot (V 3) ''c'') ''c'') ''length'')) [Do (SetV 1 (Call ''JD'' [Call ''Imb'' [V 3], K (JNum 60)])), Do (SetV 9 (Call ''$dc'' [V 1])), When (V 9) [Do (Call ''zsb'' [Dot (V 10) ''f'', V 9, V 1])] [Do (SetV 18 (Call ''_dc'' [V 1])), When (V 18) [Do (SetV 5 (New ''Kmb'' [Dot (V 18) ''k''])), Loop (Bin Lt (Dot (V 5) ''a'') (Dot (Dot (Dot (V 5) ''c'') ''c'') ''length'')) [Do (SetV 4 (Call ''JD'' [Call ''Imb'' [V 5], K (JNum 17)])), Do (Call ''Rc'' [V 8, V 4, V 1])] []] []]] [], Do (SetV 2 (New ''Kmb'' [Dot (Dot (Dot (V 0) ''a'') ''a'') ''b''])), Loop (Bin Lt (Dot (V 2) ''a'') (Dot (Dot (Dot (V 2) ''c'') ''c'') ''length'')) [Do (SetV 1 (Call ''JD'' [Call ''Imb'' [V 2], K (JNum 60)])), Do (SetV 9 (Call ''$dc'' [V 1])), When (V 9) [Do (SetV 7 (New ''Yr'' [Call ''Dr'' [Meth (Dot (Call ''HYb'' [V 9]) ''a'') ''Jc'' [], New ''Dl'' []]])), Loop (Call ''Wr'' [V 7]) [Do (SetV 6 (Call ''JD'' [Call ''Xr'' [V 7], K (JNum 17)])), When (Call ''AWb'' [V 6]) [Continue] [], Do (SetV 14 (Dot (V 6) ''c'')), Do (SetV 17 (Dot (V 6) ''d'')), When (And (Meth (Seq (Call ''Bmd'' []) (G ''smd'')) ''Gc'' [Dot (Dot (V 6) ''c'') ''j'']) (Meth (G ''smd'') ''Gc'' [Dot (Dot (V 6) ''d'') ''j''])) [Continue] [], Do (SetV 15 (Call ''JD'' [Call ''ejb'' [V 10, Dot (Dot (V 6) ''d'') ''i''], K (JNum 60)])), Do (Call ''XFb'' [Call ''$Fb'' [Call ''ZFb'' [Call ''_Fb'' [Call ''YFb'' [New ''aGb'' [], K (JNum 0)], K (JNum 100)], Idx (Dot (V 0) ''c'') (Dot (Dot (V 1) ''a'') ''d'')], Idx (Dot (V 0) ''c'') (Dot (Dot (V 15) ''a'') ''d'')]]), When (And (Loose (Dot (V 14) ''j'') (G ''Amd'')) (Call ''c$b'' [Seq (Seq (Call ''qZb'' []) (G ''nZb'')) (V 14)])) [Do (SetV 12 (Meth (Call ''JD'' [Call ''Qc'' [V 8, V 6], K (JNum 22)]) ''Jc'' [])), Loop (Meth (V 12) ''Ob'' []) [Do (SetV 11 (Call ''JD'' [Meth (V 12) ''Pb'' [], K (JNum 60)])), When (Bin Lt (Dot (Dot (V 11) ''d'') ''c'') (Dot (Dot (V 1) ''d'') ''c'')) [Do (SetV 13 (Idx (Dot (V 0) ''c'') (Dot (Dot (V 11) ''a'') ''d''))), Do (SetV 16 (Idx (Dot (V 0) ''c'') (Dot (Dot (V 1) ''a'') ''d''))), When (Loose (V 13) (V 16)) [Continue] [], Do (Call ''XFb'' [Call ''$Fb'' [Call ''ZFb'' [Call ''_Fb'' [Call ''YFb'' [New ''aGb'' [], K (JNum 1)], K (JNum 100)], V 13], V 16]])] []] []] [], When (And (Loose (Dot (V 17) ''j'') (G ''gmd'')) (Call ''ZZb'' [Seq (Seq (Call ''qZb'' []) (G ''lZb'')) (V 17)])) [Do (SetV 12 (Meth (Call ''JD'' [Call ''Qc'' [V 8, V 6], K (JNum 22)]) ''Jc'' [])), Loop (Meth (V 12) ''Ob'' []) [Do (SetV 11 (Call ''JD'' [Meth (V 12) ''Pb'' [], K (JNum 60)])), When (Bin Gt (Dot (Dot (V 11) ''d'') ''c'') (Dot (Dot (V 1) ''d'') ''c'')) [Do (SetV 13 (Idx (Dot (V 0) ''c'') (Dot (Dot (V 1) ''a'') ''d''))), Do (SetV 16 (Idx (Dot (V 0) ''c'') (Dot (Dot (V 11) ''a'') ''d''))), When (Loose (V 13) (V 16)) [Continue] [], Do (Call ''XFb'' [Call ''$Fb'' [Call ''ZFb'' [Call ''_Fb'' [Call ''YFb'' [New ''aGb'' [], K (JNum 1)], K (JNum 100)], V 13], V 16]])] []] []] []] []] []] []],
    fn ''RKb'' 2 21 [Do (SetV 12 (Call ''JD'' [Call ''JD'' [Call ''Qc'' [Dot (V 0) ''r'', V 1], K (JNum 22)], K (JNum 83)])), When (Or (Loose (V 1) (Seq (Call ''Bmd'' []) (G ''gmd''))) (Loose (V 1) (G ''Amd''))) [Do (Call ''VKb'' [V 0, V 1]), Ret (K JUndef)] [], Do (SetV 5 (Cond (Loose (V 1) (G ''hmd'')) (Seq (Call ''RLb'' []) (G ''NLb'')) (Seq (Call ''RLb'' []) (G ''QLb'')))), Do (SetV 20 (Cond (Loose (V 1) (G ''hmd'')) (Seq (Call ''$Ib'' []) (G ''ZIb'')) (Seq (Call ''$Ib'' []) (G ''XIb'')))), Do (SetV 2 (Call ''JD'' [Call ''brb'' [Dot (V 0) ''b'', V 1], K (JNum 127)])), Do (SetV 3 (Dot (V 2) ''i'')), Do (SetV 4 (Bin Plus (Dot (V 3) ''c'') (Call ''Cfd'' [Call ''WC'' [Call ''OC'' [G ''aE'', K (JNum 1)], G ''Jve'', K (JNum 30), K (JNum 15), NewArr [Dot (Dot (V 2) ''n'') ''b'', Dot (Dot (V 0) ''C'') ''b'', Dot (V 0) ''k'']]]))), Do (SetV 17 (Bin Minus (Bin Plus (Dot (V 3) ''c'') (Dot (V 3) ''b'')) (Call ''Cfd'' [Call ''WC'' [Call ''OC'' [G ''aE'', K (JNum 1)], G ''Jve'', K (JNum 30), K (JNum 15), NewArr [Dot (Dot (V 2) ''n'') ''c'', Dot (Dot (V 0) ''C'') ''c'', Dot (V 0) ''k'']]]))), Do (SetV 6 (Call ''zLb'' [Call ''ELb'' [V 5], Dot (V 0) ''t''])), Do (SetV 18 (Cond (Loose (V 1) (G ''hmd'')) (G ''Dve'') (G ''Cve''))), Do (SetV 11 (Meth (V 12) ''Jc'' [])), Loop (Meth (V 11) ''Ob'' []) [Do (SetV 9 (Call ''JD'' [Meth (V 11) ''Pb'' [], K (JNum 115)])), When (Or (Neg (Dot (V 9) ''c'')) (Bin Le (Dot (Dot (Dot (Dot (V 9) ''c'') ''d'') ''c'') ''length'') (K (JNum 0)))) [Continue] [], Do (SetV 16 (Meth (Dot (V 9) ''b'') ''Kf'' [])), Do (SetV 15 (Dot (V 9) ''e'')), Do (SetV 13 (Dot (V 9) ''c'')), Do (SetV 14 (Dot (V 13) ''i'')), Do (Put (V 14) ''b'' (Seq (SetV 8 (Dot (V 13) ''n'')) (Bin Plus (Bin Plus (Dot (Dot (V 13) ''e'') ''a'') (Dot (V 8) ''b'')) (Dot (V 8) ''c'')))), Do (Put (V 14) ''a'' (Seq (SetV 7 (Dot (V 13) ''n'')) (Bin Plus (Bin Plus (Dot (Dot (V 13) ''e'') ''b'') (Dot (V 7) ''d'')) (Dot (V 7) ''a'')))), Do (Call ''Pub'' [V 20, G ''Vwe'']), Do (Put (V 13) ''f'' (V 20)), Do (Call ''uIb'' [V 13, Seq (Call ''hIb'' []) (G ''gIb'')]), Do (Put (V 14) ''c'' (Bin Minus (Dot (V 15) ''a'') (Bin Divide (Bin Minus (Dot (V 14) ''b'') (Dot (V 16) ''a'')) (K (JNum 2))))), Do (SetV 21 (Meth (Dot (G ''$wnd'') ''Math'') ''min'' [V 4, Dot (V 15) ''a''])), Do (SetV 22 (Meth (Dot (G ''$wnd'') ''Math'') ''max'' [V 17, Bin Plus (Dot (V 15) ''a'') (Dot (V 16) ''a'')])), Do (Cond (Bin Lt (Dot (V 14) ''c'') (V 21)) (Put (V 14) ''c'' (V 21)) (And (Bin Gt (Bin Plus (Dot (V 14) ''c'') (Dot (V 14) ''b'')) (V 22)) (Put (V 14) ''c'' (Bin Minus (V 22) (Dot (V 14) ''b''))))), Do (Call ''_lb'' [Dot (V 6) ''d'', New ''XLb'' [V 14, Call ''xLb'' [V 6, V 14]]]), Do (SetV 18 (Cond (Loose (V 1) (G ''hmd'')) (Meth (Dot (G ''$wnd'') ''Math'') ''max'' [V 18, Bin Plus (Dot (V 15) ''b'') (Dot (Meth (Dot (V 9) ''b'') ''Kf'' []) ''b'')]) (Meth (Dot (G ''$wnd'') ''Math'') ''min'' [V 18, Dot (V 15) ''b''])))] [], Do (SetV 18 (Bin Plus (V 18) (Cond (Loose (V 1) (G ''hmd'')) (Dot (V 0) ''t'') (Minus1 (Dot (V 0) ''t''))))), Do (SetV 19 (Call ''yLb'' [Seq (Put (V 6) ''e'' (V 18)) (V 6)])), Do (And (Bin Gt (V 19) (K (JNum 0))) (Put (Dot (Call ''JD'' [Call ''brb'' [Dot (V 0) ''b'', V 1], K (JNum 127)]) ''a'') ''b'' (V 19))), Do (SetV 10 (Meth (V 12) ''Jc'' [])), Loop (Meth (V 10) ''Ob'' []) [Do (SetV 9 (Call ''JD'' [Meth (V 10) ''Pb'' [], K (JNum 115)])), When (Or (Neg (Dot (V 9) ''c'')) (Bin Le (Dot (Dot (Dot (Dot (V 9) ''c'') ''d'') ''c'') ''length'') (K (JNum 0)))) [Continue] [], Do (SetV 14 (Dot (Dot (V 9) ''c'') ''i'')), Do (Put (V 14) ''c'' (Bin Minus (Dot (V 14) ''c'') (Dot (Dot (V 9) ''e'') ''a''))), Do (Put (V 14) ''d'' (Bin Minus (Dot (V 14) ''d'') (Dot (Dot (V 9) ''e'') ''b'')))] []],
    fn ''Jib'' 2 14 [Do (Call ''Hib'' []), Do (SetV 8 (Bin Lt (Call ''Ocb'' [V 0, K (JNum 0)]) (K (JNum 0)))), Do (And (V 8) (SetV 0 (Call ''Zcb'' [V 0]))), When (Loose (Call ''Ocb'' [V 0, K (JNum 0)]) (K (JNum 0))) [Switch (V 1) [(Some (JNum 0), [Ret (K (JStr ''0''))]), (Some (JNum 1), [Ret (G ''Nve'')]), (Some (JNum 2), [Ret (K (JStr ''0.00''))]), (Some (JNum 3), [Ret (K (JStr ''0.000''))]), (Some (JNum 4), [Ret (K (JStr ''0.0000''))]), (Some (JNum 5), [Ret (K (JStr ''0.00000''))]), (Some (JNum 6), [Ret (K (JStr ''0.000000''))]), (None, [Do (SetV 13 (New ''lhb'' [])), Do (Cond (Bin Lt (V 1) (K (JNum 0))) (Seq (Put (V 13) ''a'' (Bin Plus (Dot (V 13) ''a'') (K (JStr ''0E+'')))) (V 13)) (Seq (Put (V 13) ''a'' (Bin Plus (Dot (V 13) ''a'') (K (JStr ''0E'')))) (V 13))), Do (Put (V 13) ''a'' (Bin Plus (Dot (V 13) ''a'') (Cond (Loose (V 1) (G ''Eue'')) (K (JStr ''2147483648'')) (Bin Plus (K (JStr '''')) (Minus1 (V 1)))))), Ret (Dot (V 13) ''a'')])]] [], Do (SetV 10 (K (JNum 18))), Do (SetV 11 (Call ''SC'' [G ''_D'', G ''Nue'', K (JNum 30), Bin Plus (V 10) (K (JNum 1)), K (JNum 15), K (JNum 1)])), Do (SetV 2 (V 10)), Do (SetV 15 (V 0)), Loop (K (JBool True)) [Do (SetV 9 (V 15)), Do (SetV 15 (Call ''Qcb'' [V 15, K (JNum 10)])), Do (PutIdx (V 11) (SetV 2 (Bin Minus (V 2) (K (JNum 1)))) (Bin BitAnd (Call ''gdb'' [Call ''Mcb'' [K (JNum 48), Call ''ddb'' [V 9, Call ''Ycb'' [V 15, K (JNum 10)]]]]) (G ''Pue'')))] [When (Neg (Loose (Call ''Ocb'' [V 15, K (JNum 0)]) (K (JNum 0)))) [] [Break]], Do (SetV 4 (Call ''ddb'' [Call ''ddb'' [Call ''ddb'' [V 10, V 2], V 1], K (JNum 1)])), When (Loose (V 1) (K (JNum 0))) [Do (And (V 8) (PutIdx (V 11) (SetV 2 (Bin Minus (V 2) (K (JNum 1)))) (K (JNum 45)))), Ret (Call ''Sgb'' [V 11, V 2, Bin Minus (V 10) (V 2)])] [], When (And (Bin Gt (V 1) (K (JNum 0))) (Bin Ge (Call ''Ocb'' [V 4, K (JNum (- 6))]) (K (JNum 0)))) [When (Bin Ge (Call ''Ocb'' [V 4, K (JNum 0)]) (K (JNum 0))) [Do (SetV 5 (Bin Plus (V 2) (Call ''gdb'' [V 4]))), Do (SetV 7 (Bin Minus (V 10) (K (JNum 1)))), Loop (Bin Ge (V 7) (V 5)) [Do (PutIdx (V 11) (Bin Plus (V 7) (K (JNum 1))) (Idx (V 11) (V 7)))] [Do (Bin Minus (SetV 7 (Bin Minus (V 7) (K (JNum 1)))) (K (JNum (- 1))))], Do (PutIdx (V 11) (SetV 5 (Bin Minus (V 5) (K (JNum (- 1))))) (K (JNum 46))), Do (And (V 8) (PutIdx (V 11) (SetV 2 (Bin Minus (V 2) (K (JNum 1)))) (K (JNum 45)))), Ret (Call ''Sgb'' [V 11, V 2, Bin Plus (Bin Minus (V 10) (V 2)) (K (JNum 1))])] [], Do (SetV 6 (K (JNum 2))), Loop (Call ''Wcb'' [V 6, Call ''Mcb'' [Call ''Zcb'' [V 4], K (JNum 1)]]) [Do (PutIdx (V 11) (SetV 2 (Bin Minus (V 2) (K (JNum 1)))) (K (JNum 48)))] [Do (Bin Minus (SetV 6 (Bin Minus (V 6) (K (JNum (- 1))))) (K (JNum 1)))], Do (PutIdx (V 11) (SetV 2 (Bin Minus (V 2) (K (JNum 1)))) (K (JNum 46))), Do (PutIdx (V 11) (SetV 2 (Bin Minus (V 2) (K (JNum 1)))) (K (JNum 48))), Do (And (V 8) (PutIdx (V 11) (SetV 2 (Bin Minus (V 2) (K (JNum 1)))) (K (JNum 45)))), Ret (Call ''Sgb'' [V 11, V 2, Bin Minus (V 10) (V 2)])] [], Do (SetV 14 (Bin Plus (V 2) (K (JNum 1)))), Do (SetV 3 (V 10)), Do (SetV 12 (New ''mhb'' [])), Do (And (V 8) (Seq (Put (V 12) ''a'' (Bin Plus (Dot (V 12) ''a'') (K (JStr ''-'')))) (V 12))), When (Bin Ge (Bin Minus (V 3) (V 14)) (K (JNum 1))) [Do (Call ''bhb'' [V 12, Idx (V 11) (V 2)]), Do (Put (V 12) ''a'' (Bin Plus (Dot (V 12) ''a'') (K (JStr ''.'')))), Do (Put (V 12) ''a'' (Bin Plus (Dot (V 12) ''a'') (Call ''Sgb'' [V 11, Bin Plus (V 2) (K (JNum 1)), Bin Minus (Bin Minus (V 10) (V 2)) (K (JNum 1))])))] [Do (Put (V 12) ''a'' (Bin Plus (Dot (V 12) ''a'') (Call ''Sgb'' [V 11, V 2, Bin Minus (V 10) (V 2)])))], Do (Put (V 12) ''a'' (Bin Plus (Dot (V 12) ''a'') (K (JStr ''E'')))), Do (And (Bin Gt (Call ''Ocb'' [V 4, K (JNum 0)]) (K (JNum 0))) (Seq (Put (V 12) ''a'' (Bin Plus (Dot (V 12) ''a'') (K (JStr ''+'')))) (V 12))), Do (Put (V 12) ''a'' (Bin Plus (Dot (V 12) ''a'') (Bin Plus (K (JStr '''')) (Call ''hdb'' [V 4])))), Ret (Dot (V 12) ''a'')]]"

definition code_6201_6206 :: "(string \<times> jfun) list" where
  "code_6201_6206 = [
    fn ''HNc'' 3 22 [Do (SetV 19 (Dot (Dot (V 1) ''c'') ''length'')), Do (SetV 4 (New ''bNc'' [Dot (V 0) ''a'', V 2, K JNull, K JNull])), Do (SetV 24 (Call ''SC'' [G ''aE'', G ''Jve'', K (JNum 30), V 19, K (JNum 15), K (JNum 1)])), Do (SetV 15 (Call ''SC'' [G ''aE'', G ''Jve'', K (JNum 30), V 19, K (JNum 15), K (JNum 1)])), Do (SetV 14 (Call ''SC'' [G ''aE'', G ''Jve'', K (JNum 30), V 19, K (JNum 15), K (JNum 1)])), Do (SetV 16 (K (JNum 0))), Do (SetV 7 (K (JNum 0))), Loop (Bin Lt (V 7) (V 19)) [Do (PutIdx (V 15) (V 7) (G ''Ate'')), Do (PutIdx (V 14) (V 7) (G ''Eue''))] [Do (Bin Minus (SetV 7 (Bin Minus (V 7) (K (JNum (- 1))))) (K (JNum 1)))], Do (SetV 8 (K (JNum 0))), Loop (Bin Lt (V 8) (V 19)) [Do (SetV 3 (Seq (Call ''MDb'' [V 8, Dot (Dot (V 1) ''c'') ''length'']) (Call ''JD'' [Idx (Dot (V 1) ''c'') (V 8), K (JNum 185)]))), Do (PutIdx (V 24) (V 8) (Call ''_Mc'' [V 3])), Do (And (Bin Gt (Idx (V 24) (V 16)) (Idx (V 24) (V 8))) (SetV 16 (V 8))), Do (SetV 11 (New ''Kmb'' [Dot (Dot (V 0) ''a'') ''b''])), Loop (Bin Lt (Dot (V 11) ''a'') (Dot (Dot (Dot (V 11) ''c'') ''c'') ''length'')) [Do (SetV 10 (Call ''JD'' [Call ''Imb'' [V 11], K (JNum 25)])), Do (SetV 18 (New ''Kmb'' [Dot (V 10) ''a''])), Loop (Bin Lt (Dot (V 18) ''a'') (Dot (Dot (Dot (V 18) ''c'') ''c'') ''length'')) [Do (SetV 17 (Call ''JD'' [Call ''Imb'' [V 18], K (JNum 9)])), Do (SetV 22 (Bin Plus (Call ''Ueb'' [Idx (Dot (V 3) ''p'') (Dot (V 17) ''p'')]) (Call ''Ueb'' [Idx (Dot (V 3) ''d'') (Dot (V 17) ''p'')]))), Do (PutIdx (V 15) (V 8) (Meth (Dot (G ''$wnd'') ''Math'') ''min'' [Idx (V 15) (V 8), V 22])), Do (PutIdx (V 14) (V 8) (Meth (Dot (G ''$wnd'') ''Math'') ''max'' [Idx (V 14) (V 8), Bin Plus (V 22) (Dot (Dot (V 17) ''o'') ''b'')]))] []] []] [Do (Bin Minus (SetV 8 (Bin Minus (V 8) (K (JNum (- 1))))) (K (JNum 1)))], Do (SetV 23 (Call ''SC'' [G ''aE'', G ''Jve'', K (JNum 30), V 19, K (JNum 15), K (JNum 1)])), Do (SetV 9 (K (JNum 0))), Loop (Bin Lt (V 9) (V 19)) [Do (Cond (Loose (Dot (Seq (Call ''MDb'' [V 9, Dot (Dot (V 1) ''c'') ''length'']) (Call ''JD'' [Idx (Dot (V 1) ''c'') (V 9), K (JNum 185)])) ''o'') (Seq (Call ''nNc'' []) (G ''lNc''))) (PutIdx (V 23) (V 9) (Bin Minus (Idx (V 15) (V 16)) (Idx (V 15) (V 9)))) (PutIdx (V 23) (V 9) (Bin Minus (Idx (V 14) (V 16)) (Idx (V 14) (V 9)))))] [Do (Bin Minus (SetV 9 (Bin Minus (V 9) (K (JNum (- 1))))) (K (JNum 1)))], Do (SetV 5 (Call ''SC'' [G ''aE'', G ''Jve'', K (JNum 30), V 19, K (JNum 15), K (JNum 1)])), Do (SetV 13 (New ''Kmb'' [Dot (Dot (V 0) ''a'') ''b''])), Loop (Bin Lt (Dot (V 13) ''a'') (Dot (Dot (Dot (V 13) ''c'') ''c'') ''length'')) [Do (SetV 12 (Call ''JD'' [Call ''Imb'' [V 13], K (JNum 25)])), Do (SetV 21 (New ''Kmb'' [Dot (V 12) ''a''])), Loop (Bin Lt (Dot (V 21) ''a'') (Dot (Dot (Dot (V 21) ''c'') ''c'') ''length'')) [Do (SetV 20 (Call ''JD'' [Call ''Imb'' [V 21], K (JNum 9)])), Do (SetV 6 (K (JNum 0))), Loop (Bin Lt (V 6) (V 19)) [Do (PutIdx (V 5) (V 6) (Bin Plus (Bin Plus (Call ''Ueb'' [Idx (Dot (Seq (Call ''MDb'' [V 6, Dot (Dot (V 1) ''c'') ''length'']) (Call ''JD'' [Idx (Dot (V 1) ''c'') (V 6), K (JNum 185)])) ''p'') (Dot (V 20) ''p'')]) (Call ''Ueb'' [Idx (Dot (Seq (Call ''MDb'' [V 6, Dot (Dot (V 1) ''c'') ''length'']) (Call ''JD'' [Idx (Dot (V 1) ''c'') (V 6), K (JNum 185)])) ''d'') (Dot (V 20) ''p'')])) (Idx (V 23) (V 6))))] [Do (Bin Minus (SetV 6 (Bin Minus (V 6) (K (JNum (- 1))))) (K (JNum 1)))], Do (Call ''uDb'' [V 5, Call ''rdb'' [Dot (Dot (G ''snb'') ''prototype'') ''Ke'', G ''snb'', NewArr []]]), Do (PutIdx (Dot (V 4) ''p'') (Dot (V 20) ''p'') (Bin Divide (Bin Plus (Idx (V 5) (K (JNum 1))) (Idx (V 5) (K (JNum 2)))) (K (JNum 2)))), Do (PutIdx (Dot (V 4) ''d'') (Dot (V 20) ''p'') (K (JNum 0)))] []] [], Ret (V 4)],
    fn ''J0b'' 3 5 [Do (SetV 3 (Dot (V 1) ''i'')), Do (SetV 5 (Dot (Dot (V 0) ''i'') ''o'')), Do (SetV 4 (Dot (Dot (V 0) ''i'') ''d'')), Do (SetV 7 (Dot (V 0) ''n'')), Do (SetV 6 (Call ''rgd'' [Call ''WC'' [Call ''OC'' [G ''r2'', K (JNum 1)], G ''aue'', K (JNum 8), K (JNum 0), NewArr [V 7, Dot (V 0) ''a'']]])), Switch (Dot (Dot (V 0) ''j'') ''g'') [(Some (JNum 1), [Do (Call ''vIb'' [V 1, Seq (Call ''$Ib'' []) (G ''XIb'')]), Do (Put (V 3) ''d'' (Bin Minus (Bin Minus (Minus1 (Dot (V 4) ''d'')) (V 2)) (Dot (V 3) ''a''))), When (Loose (Call ''JD'' [Meth (Call ''JD'' [Call ''dmb'' [Dot (V 1) ''d'', K (JNum 0)], K (JNum 187)]) ''mf'' [Seq (Call ''Wrc'' []) (G ''krc'')], K (JNum 292)]) (Seq (Call ''$kd'' []) (G ''Wkd''))) [Do (Call ''uIb'' [V 1, Seq (Call ''hIb'' []) (G ''gIb'')]), Do (Put (V 3) ''c'' (Bin Minus (Bin Minus (Bin Minus (Dot (V 6) ''a'') (Call ''Ueb'' [Call ''MD'' [Call ''oNb'' [V 0, G ''qrc'']]])) (V 2)) (Dot (V 3) ''b'')))] [Do (Call ''uIb'' [V 1, Seq (Call ''hIb'' []) (G ''fIb'')]), Do (Put (V 3) ''c'' (Bin Plus (Bin Plus (Dot (V 6) ''a'') (Call ''Ueb'' [Call ''MD'' [Call ''oNb'' [V 0, G ''qrc'']]])) (V 2)))], Break]), (Some (JNum 2), [Do (Call ''uIb'' [V 1, Seq (Call ''hIb'' []) (G ''fIb'')]), Do (Put (V 3) ''c'' (Bin Plus (Bin Plus (Dot (V 5) ''a'') (Dot (V 4) ''c'')) (V 2))), When (Loose (Call ''JD'' [Meth (Call ''JD'' [Call ''dmb'' [Dot (V 1) ''d'', K (JNum 0)], K (JNum 187)]) ''mf'' [Seq (Call ''Wrc'' []) (G ''krc'')], K (JNum 292)]) (Seq (Call ''$kd'' []) (G ''Wkd''))) [Do (Call ''vIb'' [V 1, Seq (Call ''$Ib'' []) (G ''XIb'')]), Do (Put (V 3) ''d'' (Bin Minus (Bin Minus (Bin Minus (Dot (V 6) ''b'') (Call ''Ueb'' [Call ''MD'' [Call ''oNb'' [V 0, G ''qrc'']]])) (V 2)) (Dot (V 3) ''a'')))] [Do (Call ''vIb'' [V 1, Seq (Call ''$Ib'' []) (G ''ZIb'')]), Do (Put (V 3) ''d'' (Bin Plus (Bin Plus (Dot (V 6) ''b'') (Call ''Ueb'' [Call ''MD'' [Call ''oNb'' [V 0, G ''qrc'']]])) (V 2)))], Break]), (Some (JNum 3), [Do (Call ''vIb'' [V 1, Seq (Call ''$Ib'' []) (G ''ZIb'')]), Do (Put (V 3) ''d'' (Bin Plus (Bin Plus (Dot (V 5) ''b'') (Dot (V 4) ''a'')) (V 2))), When (Loose (Call ''JD'' [Meth (Call ''JD'' [Call ''dmb'' [Dot (V 1) ''d'', K (JNum 0)], K (JNum 187)]) ''mf'' [Seq (Call ''Wrc'' []) (G ''krc'')], K (JNum 292)]) (Seq (Call ''$kd'' []) (G ''Wkd''))) [Do (Call ''uIb'' [V 1, Seq (Call ''hIb'' []) (G ''gIb'')]), Do (Put (V 3) ''c'' (Bin Minus (Bin Minus (Bin Minus (Dot (V 6) ''a'') (Call ''Ueb'' [Call ''MD'' [Call ''oNb'' [V 0, G ''qrc'']]])) (V 2)) (Dot (V 3) ''b'')))] [Do (Call ''uIb'' [V 1, Seq (Call ''hIb'' []) (G ''fIb'')]), Do (Put (V 3) ''c'' (Bin Plus (Bin Plus (Dot (V 6) ''a'') (Call ''Ueb'' [Call ''MD'' [Call ''oNb'' [V 0, G ''qrc'']]])) (V 2)))], Break]), (Some (JNum 4), [Do (Call ''uIb'' [V 1, Seq (Call ''hIb'' []) (G ''gIb'')]), Do (Put (V 3) ''c'' (Bin Minus (Bin Minus (Minus1 (Dot (V 4) ''b'')) (V 2)) (Dot (V 3) ''b''))), When (Loose (Call ''JD'' [Meth (Call ''JD'' [Call ''dmb'' [Dot (V 1) ''d'', K (JNum 0)], K (JNum 187)]) ''mf'' [Seq (Call ''Wrc'' []) (G ''krc'')], K (JNum 292)]) (Seq (Call ''$kd'' []) (G ''Wkd''))) [Do (Call ''vIb'' [V 1, Seq (Call ''$Ib'' []) (G ''XIb'')]), Do (Put (V 3) ''d'' (Bin Minus (Bin Minus (Bin Minus (Dot (V 6) ''b'') (Call ''Ueb'' [Call ''MD'' [Call ''oNb'' [V 0, G ''qrc'']]])) (V 2)) (Dot (V 3) ''a'')))] [Do (Call ''vIb'' [V 1, Seq (Call ''$Ib'' []) (G ''ZIb'')]), Do (Put (V 3) ''d'' (Bin Plus (Bin Plus (Dot (V 6) ''b'') (Call ''Ueb'' [Call ''MD'' [Call ''oNb'' [V 0, G ''qrc'']]])) (V 2)))]])]],
    fn ''zDc'' 2 17 [Do (Meth (V 1) ''Tg'' [K (JStr ''Interactive node layering''), K (JNum 1)]), Do (SetV 2 (New ''lmb'' [])), Do (SetV 12 (New ''Kmb'' [Dot (V 0) ''a''])), Loop (Bin Lt (Dot (V 12) ''a'') (Dot (Dot (Dot (V 12) ''c'') ''c'') ''length'')) [Do (SetV 10 (Call ''JD'' [Call ''Imb'' [V 12], K (JNum 9)])), Do (SetV 8 (Dot (Dot (V 10) ''n'') ''a'')), Do (SetV 7 (Bin Plus (V 8) (Dot (Dot (V 10) ''o'') ''a''))), Do (SetV 7 (Meth (Dot (G ''$wnd'') ''Math'') ''max'' [Bin Plus (V 8) (K (JNum 1)), V 7])), Do (SetV 18 (New ''Tjb'' [V 2, K (JNum 0)])), Do (SetV 3 (K JNull)), Loop (Bin Lt (Dot (V 18) ''b'') (Meth (Dot (V 18) ''d'') ''gc'' [])) [Do (SetV 16 (Seq (Call ''LDb'' [Bin Lt (Dot (V 18) ''b'') (Meth (Dot (V 18) ''d'') ''gc'' [])]) (Call ''JD'' [Meth (Dot (V 18) ''d'') ''Xb'' [Put (V 18) ''c'' (Bin Minus (Put (V 18) ''b'' (Bin Minus (Dot (V 18) ''b'') (K (JNum (- 1))))) (K (JNum 1)))], K (JNum 564)]))), When (Bin Ge (Dot (V 16) ''c'') (V 7)) [Do (Call ''LDb'' [Bin Gt (Dot (V 18) ''b'') (K (JNum 0))]), Do (Meth (Dot (V 18) ''a'') ''Xb'' [Put (V 18) ''c'' (Put (V 18) ''b'' (Bin Minus (Dot (V 18) ''b'') (K (JNum 1))))]), Break] [When (Bin Gt (Dot (V 16) ''a'') (V 8)) [When (Neg (V 3)) [Do (Call ''_lb'' [Dot (V 16) ''b'', V 10]), Do (Put (V 16) ''c'' (Meth (Dot (G ''$wnd'') ''Math'') ''min'' [Dot (V 16) ''c'', V 8])), Do (Put (V 16) ''a'' (Meth (Dot (G ''$wnd'') ''Math'') ''max'' [Dot (V 16) ''a'', V 7])), Do (SetV 3 (V 16))] [Do (Call ''bmb'' [Dot (V 3) ''b'', Dot (V 16) ''b'']), Do (Put (V 3) ''a'' (Meth (Dot (G ''$wnd'') ''Math'') ''max'' [Dot (V 3) ''a'', Dot (V 16) ''a''])), Do (Call ''Mjb'' [V 18])]] []]] [], When (Neg (V 3)) [Do (SetV 3 (New ''DDc'' [])), Do (Put (V 3) ''c'' (V 8)), Do (Put (V 3) ''a'' (V 7)), Do (Call ''Sjb'' [V 18, V 3]), Do (Call ''_lb'' [Dot (V 3) ''b'', V 10])] []] [], Do (SetV 6 (Dot (V 0) ''b'')), Do (SetV 9 (K (JNum 0))), Do (SetV 17 (New ''Kmb'' [V 2])), Loop (Bin Lt (Dot (V 17) ''a'') (Dot (Dot (Dot (V 17) ''c'') ''c'') ''length'')) [Do (SetV 16 (Call ''JD'' [Call ''Imb'' [V 17], K (JNum 564)])), Do (SetV 4 (New ''y$b'' [V 0])), Do (Put (V 4) ''p'' (Bin Minus (SetV 9 (Bin Minus (V 9) (K (JNum (- 1))))) (K (JNum 1)))), Do (Call ''qDb'' [Dot (V 6) ''c'', V 4]), Do (SetV 13 (New ''Kmb'' [Dot (V 16) ''b''])), Loop (Bin Lt (Dot (V 13) ''a'') (Dot (Dot (Dot (V 13) ''c'') ''c'') ''length'')) [Do (SetV 10 (Call ''JD'' [Call ''Imb'' [V 13], K (JNum 9)])), Do (Call ''NYb'' [V 10, V 4]), Do (Put (V 10) ''p'' (K (JNum 0)))] []] [], Do (SetV 11 (New ''Kmb'' [Dot (V 0) ''a''])), Loop (Bin Lt (Dot (V 11) ''a'') (Dot (Dot (Dot (V 11) ''c'') ''c'') ''length'')) [Do (SetV 10 (Call ''JD'' [Call ''Imb'' [V 11], K (JNum 9)])), When (Loose (Dot (V 10) ''p'') (K (JNum 0))) [Do (SetV 15 (Call ''yDc'' [V 10, V 0])), Loop (Neg (Loose (Meth (Dot (V 15) ''a'') ''gc'' []) (K (JNum 0)))) [Do (SetV 14 (Call ''JD'' [Meth (Meth (Meth (Dot (V 15) ''a'') ''ec'' []) ''Jc'' []) ''Pb'' [], K (JNum 9)])), Do (Neg (Loose (Meth (Dot (V 15) ''a'') ''Ac'' [V 14]) (K JNull))), Do (Call ''xe'' [V 15, Call ''yDc'' [V 14, V 0]])] []] []] [], Do (SetV 5 (New ''Tjb'' [V 6, K (JNum 0)])), Loop (Bin Lt (Dot (V 5) ''b'') (Meth (Dot (V 5) ''d'') ''gc'' [])) [Do (And (Loose (Dot (Dot (Dot (Seq (Call ''LDb'' [Bin Lt (Dot (V 5) ''b'') (Meth (Dot (V 5) ''d'') ''gc'' [])]) (Call ''JD'' [Meth (Dot (V 5) ''d'') ''Xb'' [Put (V 5) ''c'' (Bin Minus (Put (V 5) ''b'' (Bin Minus (Dot (V 5) ''b'') (K (JNum (- 1))))) (K (JNum 1)))], K (JNum 25)])) ''a'') ''c'') ''length'') (K (JNum 0))) (Call ''Mjb'' [V 5]))] [], Do (Put (Dot (Dot (V 0) ''a'') ''c'') ''length'' (K (JNum 0))), Do (Meth (V 1) ''Ug'' [])],
    fn ''L5c'' 3 13 [Do (Meth (V 2) ''Tg'' [G ''DDe'', K (JNum 1)]), Do (And (Neg (Dot (V 1) ''a'')) (Put (V 1) ''a'' (New ''P3d'' [G ''T3'', V 1, K (JNum 10), K (JNum 11)]))), Do (SetV 3 (Call ''Ueb'' [Call ''MD'' [Call ''cvd'' [V 1, Seq (Call ''S4c'' []) (G ''r4c'')]]])), Do (SetV 10 (Call ''Ueb'' [Call ''MD'' [Call ''cvd'' [V 1, G ''L4c'']]])), Do (SetV 12 (Call ''JD'' [Call ''cvd'' [V 1, G ''I4c''], K (JNum 104)])), Do (SetV 13 (New ''h6c'' [V 3, V 10])), Do (SetV 5 (Call ''g6c'' [V 13, V 1, V 12])), Do (Call ''K5c'' [V 1, V 13]), Do (SetV 7 (Dot (Call ''JD'' [Call ''cvd'' [V 1, G ''F4c''], K (JNum 15)]) ''a'')), Loop (Bin Gt (V 7) (K (JNum 1))) [Do (SetV 4 (Call ''I5c'' [V 1])), Do (SetV 11 (Dot (V 5) ''g'')), Do (SetV 14 (Call ''JD'' [Call ''cvd'' [V 1, G ''I4c''], K (JNum 104)])), Do (SetV 15 (Call ''Ueb'' [Call ''MD'' [Call ''cvd'' [V 1, G ''r4c'']]])), Do (Cond (And (And (Bin Gt (Dot (Seq (And (Neg (Dot (V 1) ''a'')) (Put (V 1) ''a'' (New ''P3d'' [G ''T3'', V 1, K (JNum 10), K (JNum 11)]))) (Dot (V 1) ''a'')) ''i'') (K (JNum 1))) (Neg (Loose (Call ''Ueb'' [Call ''MD'' [Call ''cvd'' [V 1, Seq (Call ''P3c'' []) (G ''L3c'')]]]) (G ''Cve'')))) (Bin Lt (Bin Divide (Bin Plus (Dot (V 5) ''c'') (Bin Plus (Dot (V 14) ''b'') (Dot (V 14) ''c''))) (Bin Plus (Dot (V 5) ''b'') (Bin Plus (Dot (V 14) ''d'') (Dot (V 14) ''a'')))) (V 15))) (Call ''evd'' [V 4, Seq (Call ''P3c'' []) (G ''O3c''), Bin Plus (Call ''Ueb'' [Call ''MD'' [Call ''cvd'' [V 1, G ''O3c'']]]) (Call ''Ueb'' [Call ''MD'' [Call ''cvd'' [V 1, G ''L3c'']]])]) (And (And (And (Bin Gt (Dot (Seq (And (Neg (Dot (V 1) ''a'')) (Put (V 1) ''a'' (New ''P3d'' [G ''T3'', V 1, K (JNum 10), K (JNum 11)]))) (Dot (V 1) ''a'')) ''i'') (K (JNum 1))) (Neg (Loose (Call ''Ueb'' [Call ''MD'' [Call ''cvd'' [V 1, Seq (Call ''P3c'' []) (G ''K3c'')]]]) (G ''Cve'')))) (Bin Gt (Bin Divide (Bin Plus (Dot (V 5) ''c'') (Bin Plus (Dot (V 14) ''b'') (Dot (V 14) ''c''))) (Bin Plus (Dot (V 5) ''b'') (Bin Plus (Dot (V 14) ''d'') (Dot (V 14) ''a'')))) (V 15))) (Call ''evd'' [V 4, Seq (Call ''P3c'' []) (G ''O3c''), Meth (Dot (G ''$wnd'') ''Math'') ''max'' [Call ''Ueb'' [Call ''MD'' [Call ''cvd'' [V 1, G ''M3c'']]], Bin Minus (Call ''Ueb'' [Call ''MD'' [Call ''cvd'' [V 4, G ''O3c'']]]) (Call ''Ueb'' [Call ''MD'' [Call ''cvd'' [V 1, G ''K3c'']]])]]))), Do (SetV 13 (New ''h6c'' [V 3, V 10])), Do (SetV 8 (Call ''g6c'' [V 13, V 4, V 12])), Do (SetV 9 (Dot (V 8) ''g'')), When (And (Bin Ge (V 9) (V 11)) (Loose (V 9) (V 9))) [Do (SetV 6 (K (JNum 0))), Loop (Bin Lt (V 6) (Dot (Seq (And (Neg (Dot (V 4) ''a'')) (Put (V 4) ''a'' (New ''P3d'' [G ''T3'', V 4, K (JNum 10), K (JNum 11)]))) (Dot (V 4) ''a'')) ''i'')) [Do (Call ''J5c'' [V 0, Call ''JD'' [Call ''fGd'' [Seq (And (Neg (Dot (V 4) ''a'')) (Put (V 4) ''a'' (New ''P3d'' [G ''T3'', V 4, K (JNum 10), K (JNum 11)]))) (Dot (V 4) ''a''), V 6], K (JNum 26)], Call ''JD'' [Call ''fGd'' [Seq (And (Neg (Dot (V 1) ''a'')) (Put (V 1) ''a'' (New ''P3d'' [G ''T3'', V 1, K (JNum 10), K (JNum 11)]))) (Dot (V 1) ''a''), V 6], K (JNum 26)]])] [Do (Bin Minus (SetV 6 (Bin Minus (V 6) (K (JNum (- 1))))) (K (JNum 1)))], Do (Call ''K5c'' [V 1, V 13]), Do (Call ''f7c'' [V 5, Dot (V 8) ''c'']), Do (Call ''e7c'' [V 5, Dot (V 8) ''b''])] [], Do (SetV 7 (Bin Minus (V 7) (K (JNum 1))))] [], Do (Call ''evd'' [V 1, Seq (Call ''P3c'' []) (G ''F3c''), Dot (V 5) ''b'']), Do (Call ''evd'' [V 1, G ''G3c'', Dot (V 5) ''c'']), Do (Meth (V 2) ''Ug'' [])],
    fn ''NVb'' 2 24 [Do (Meth (V 1) ''Tg'' [K (JStr ''Compound graph postprocessor''), K (JNum 1)]), Do (SetV 2 (Call ''Rdb'' [Call ''LD'' [Call ''oNb'' [V 0, Seq (Call ''nyc'' []) (G ''byc'')]]])), Do (SetV 7 (Call ''JD'' [Call ''oNb'' [V 0, Seq (Call ''Wrc'' []) (G ''Sqc'')], K (JNum 229)])), Do (SetV 10 (New ''hsb'' [])), Do (SetV 17 (Meth (Meth (V 7) ''ec'' []) ''Jc'' [])), Loop (Meth (V 17) ''Ob'' []) [Do (SetV 16 (Call ''JD'' [Meth (V 17) ''Pb'' [], K (JNum 17)])), Do (SetV 6 (New ''nmb'' [Meth (V 7) ''cc'' [V 16]])), Do (Call ''Inb'' []), Do (Call ''jmb'' [V 6, New ''qWb'' [V 0]]), Do (SetV 21 (Call ''lWb'' [Seq (Call ''MDb'' [K (JNum 0), Dot (Dot (V 6) ''c'') ''length'']) (Call ''JD'' [Idx (Dot (V 6) ''c'') (K (JNum 0)), K (JNum 250)])])), Do (SetV 23 (Call ''mWb'' [Call ''JD'' [Call ''dmb'' [V 6, Bin Minus (Dot (Dot (V 6) ''c'') ''length'') (K (JNum 1))], K (JNum 250)]])), Do (SetV 19 (Dot (V 21) ''i'')), Do (Cond (Call ''UXb'' [Dot (V 23) ''i'', V 19]) (SetV 18 (Dot (V 19) ''e'')) (SetV 18 (Call ''DYb'' [V 19]))), Do (SetV 11 (Call ''OVb'' [V 16, V 6])), Do (Call ''cub'' [Dot (V 16) ''a'']), Do (SetV 12 (K JNull)), Do (SetV 5 (New ''Kmb'' [V 6])), Loop (Bin Lt (Dot (V 5) ''a'') (Dot (Dot (Dot (V 5) ''c'') ''c'') ''length'')) [Do (SetV 4 (Call ''JD'' [Call ''Imb'' [V 5], K (JNum 250)])), Do (SetV 15 (New ''jgd'' [])), Do (Call ''LXb'' [V 15, Dot (V 4) ''a'', V 18]), Do (SetV 13 (Dot (V 4) ''b'')), Do (SetV 3 (New ''ygd'' [])), Do (Call ''ugd'' [V 3, K (JNum 0), Dot (V 13) ''a'']), Do (Call ''wgd'' [V 3, V 15]), Do (SetV 20 (New ''mgd'' [Call ''rZb'' [Dot (V 13) ''c'']])), Do (SetV 22 (New ''mgd'' [Call ''rZb'' [Dot (V 13) ''d'']])), Do (Call ''Vfd'' [V 20, V 15]), Do (Call ''Vfd'' [V 22, V 15]), When (V 12) [Do (Cond (Loose (Dot (V 3) ''b'') (K (JNum 0))) (SetV 14 (V 22)) (SetV 14 (Seq (Call ''LDb'' [Neg (Loose (Dot (V 3) ''b'') (K (JNum 0)))]) (Call ''JD'' [Dot (Dot (Dot (V 3) ''a'') ''a'') ''c'', K (JNum 8)])))), Do (SetV 24 (Bin Gt (Meth (Dot (G ''$wnd'') ''Math'') ''abs'' [Bin Minus (Dot (V 12) ''a'') (Dot (V 14) ''a'')]) (G ''xxe''))), Do (SetV 25 (Bin Gt (Meth (Dot (G ''$wnd'') ''Math'') ''abs'' [Bin Minus (Dot (V 12) ''b'') (Dot (V 14) ''b'')]) (G ''xxe''))), Do (And (Or (And (And (Neg (V 2)) (V 24)) (V 25)) (And (V 2) (Or (V 24) (V 25)))) (Call ''Ttb'' [Dot (V 16) ''a'', V 20]))] [], Do (Call ''xe'' [Dot (V 16) ''a'', V 3]), Do (Cond (Loose (Dot (V 3) ''b'') (K (JNum 0))) (SetV 12 (V 20)) (SetV 12 (Seq (Call ''LDb'' [Neg (Loose (Dot (V 3) ''b'') (K (JNum 0)))]) (Call ''JD'' [Dot (Dot (Dot (V 3) ''c'') ''b'') ''c'', K (JNum 8)])))), Do (Call ''PVb'' [V 13, V 11, V 15]), When (Loose (Call ''mWb'' [V 4]) (V 23)) [When (Neg (Loose (Call ''DYb'' [Dot (V 23) ''i'']) (Dot (V 4) ''a''))) [Do (SetV 15 (New ''jgd'' [])), Do (Call ''LXb'' [V 15, Call ''DYb'' [Dot (V 23) ''i''], V 18])] [], Do (Call ''rNb'' [V 16, G ''Qrc'', V 15])] [], Do (Call ''QVb'' [V 13, V 16, V 18]), Do (Meth (Dot (V 10) ''a'') ''yc'' [V 13, V 10])] [], Do (Call ''CWb'' [V 16, V 21]), Do (Call ''DWb'' [V 16, V 23])] [], Do (SetV 9 (Meth (Meth (Dot (V 10) ''a'') ''ec'' []) ''Jc'' [])), Loop (Meth (V 9) ''Ob'' []) [Do (SetV 8 (Call ''JD'' [Meth (V 9) ''Pb'' [], K (JNum 17)])), Do (Call ''CWb'' [V 8, K JNull]), Do (Call ''DWb'' [V 8, K JNull])] [], Do (Meth (V 1) ''Ug'' [])],
    fn ''WTc'' 2 11 [Do (SetV 4 (Call ''JD'' [Call ''oNb'' [V 0, Seq (Call ''SXc'' []) (G ''qXc'')], K (JNum 86)])), Do (SetV 10 (Cond (Or (Loose (V 4) (Seq (Call ''Djd'' []) (G ''zjd''))) (Loose (V 4) (G ''Ajd''))) (G ''yjd'') (G ''Ajd''))), Do (SetV 2 (Call ''JD'' [Call ''SBb'' [Call ''VBb'' [New ''jCb'' [K JNull, New ''Zvb'' [Dot (V 0) ''b'', K (JNum 16)]], New ''JUc'' []], Call ''BAb'' [New ''TAb'' [], New ''RAb'' [], New ''ZAb'' [], Call ''WC'' [Call ''OC'' [G ''HL'', K (JNum 1)], G ''xue'', K (JNum 130), K (JNum 0), NewArr [Seq (Call ''FAb'' []) (G ''DAb'')]]]], K (JNum 16)])), Do (SetV 8 (Call ''JD'' [Call ''SBb'' [Call ''ZBb'' [Meth (V 2) ''Mc'' [], New ''LUc'' [V 1]], Call ''BAb'' [New ''TAb'' [], New ''RAb'' [], New ''ZAb'' [], Call ''WC'' [Call ''OC'' [G ''HL'', K (JNum 1)], G ''xue'', K (JNum 130), K (JNum 0), NewArr [G ''DAb'']]]], K (JNum 16)])), Do (Meth (V 8) ''Fc'' [Call ''JD'' [Call ''SBb'' [Call ''ZBb'' [Meth (V 2) ''Mc'' [], New ''NUc'' [V 1]], Call ''BAb'' [New ''TAb'' [], New ''RAb'' [], New ''ZAb'' [], Call ''WC'' [Call ''OC'' [G ''HL'', K (JNum 1)], G ''xue'', K (JNum 130), K (JNum 0), NewArr [G ''DAb'']]]], K (JNum 18)]]), Do (Meth (V 8) ''gd'' [New ''PUc'' [V 10]]), Do (SetV 12 (New ''Gzb'' [New ''TUc'' [V 4]])), Do (SetV 3 (New ''_rb'' [])), Do (SetV 7 (Meth (V 8) ''Jc'' [])), Loop (Meth (V 7) ''Ob'' []) [Do (SetV 6 (Call ''JD'' [Meth (V 7) ''Pb'' [], K (JNum 240)])), Do (SetV 9 (Call ''JD'' [Dot (V 6) ''a'', K (JNum 40)])), When (Call ''Rdb'' [Call ''LD'' [Dot (V 6) ''c'']]) [Do (Loose (Meth (Dot (V 12) ''a'') ''yc'' [V 9, Seq (Call ''Qdb'' []) (G ''Odb'')]) (K JNull)), Do (And (Bin Gt (Meth (Dot (New ''Hzb'' [Meth (Dot (V 12) ''a'') ''Xc'' [V 9, K (JBool False)]]) ''a'') ''gc'' []) (K (JNum 0))) (Call ''hjb'' [V 3, V 9, Call ''JD'' [Meth (Dot (New ''Hzb'' [Meth (Dot (V 12) ''a'') ''Xc'' [V 9, K (JBool False)]]) ''a'') ''Tc'' [], K (JNum 40)]])), Do (And (Bin Gt (Meth (Dot (New ''Hzb'' [Meth (Dot (V 12) ''a'') ''$c'' [V 9, K (JBool True)]]) ''a'') ''gc'' []) (K (JNum 1))) (Call ''hjb'' [V 3, Call ''YTc'' [V 12, V 9], V 9]))] [When (Bin Gt (Meth (Dot (New ''Hzb'' [Meth (Dot (V 12) ''a'') ''Xc'' [V 9, K (JBool False)]]) ''a'') ''gc'' []) (K (JNum 0))) [Do (SetV 5 (Call ''JD'' [Meth (Dot (New ''Hzb'' [Meth (Dot (V 12) ''a'') ''Xc'' [V 9, K (JBool False)]]) ''a'') ''Tc'' [], K (JNum 40)])), Do (And (Same (Call ''XD'' [V 5]) (Call ''XD'' [Call ''Wd'' [Call ''ysb'' [Dot (V 3) ''f'', V 9]]])) (Meth (Call ''JD'' [Call ''oNb'' [V 9, Seq (Call ''_Wc'' []) (G ''CWc'')], K (JNum 16)]) ''Ec'' [V 5]))] [], When (Bin Gt (Meth (Dot (New ''Hzb'' [Meth (Dot (V 12) ''a'') ''$c'' [V 9, K (JBool True)]]) ''a'') ''gc'' []) (K (JNum 1))) [Do (SetV 11 (Call ''YTc'' [V 12, V 9])), Do (And (Same (Call ''XD'' [Call ''Wd'' [Call ''ysb'' [Dot (V 3) ''f'', V 11]]]) (Call ''XD'' [V 9])) (Meth (Call ''JD'' [Call ''oNb'' [V 11, Seq (Call ''_Wc'' []) (G ''CWc'')], K (JNum 16)]) ''Ec'' [V 9]))] [], Do (Neg (Loose (Meth (Dot (V 12) ''a'') ''Ac'' [V 9]) (K JNull)))]] []]]"

definition code_6207_6211 :: "(string \<times> jfun) list" where
  "code_6207_6211 = [
    fn ''UMb'' 1 20 [When (Loose (Meth (V 0) ''gc'' []) (K (JNum 1))) [Ret (Call ''JD'' [Meth (V 0) ''Xb'' [K (JNum 0)], K (JNum 235)])] [When (Bin Le (Meth (V 0) ''gc'' []) (K (JNum 0))) [Ret (New ''KNb'' [])] []], Do (SetV 4 (Meth (V 0) ''Jc'' [])), Loop (Meth (V 4) ''Ob'' []) [Do (SetV 2 (Call ''JD'' [Meth (V 4) ''Pb'' [], K (JNum 235)])), Do (SetV 14 (K (JNum 0))), Do (SetV 10 (G ''Ate'')), Do (SetV 11 (G ''Ate'')), Do (SetV 8 (G ''Eue'')), Do (SetV 9 (G ''Eue'')), Do (SetV 13 (New ''Kmb'' [Dot (V 2) ''e''])), Loop (Bin Lt (Dot (V 13) ''a'') (Dot (Dot (Dot (V 13) ''c'') ''c'') ''length'')) [Do (SetV 12 (Call ''JD'' [Call ''Imb'' [V 13], K (JNum 155)])), Do (SetV 14 (Bin Plus (V 14) (Dot (Call ''JD'' [Call ''oNb'' [V 12, Seq (Call ''aPb'' []) (G ''POb'')], K (JNum 15)]) ''a''))), Do (SetV 10 (Meth (Dot (G ''$wnd'') ''Math'') ''min'' [V 10, Bin Minus (Dot (Dot (V 12) ''d'') ''a'') (Bin Divide (Dot (Dot (V 12) ''e'') ''a'') (K (JNum 2)))])), Do (SetV 11 (Meth (Dot (G ''$wnd'') ''Math'') ''min'' [V 11, Bin Minus (Dot (Dot (V 12) ''d'') ''b'') (Bin Divide (Dot (Dot (V 12) ''e'') ''b'') (K (JNum 2)))])), Do (SetV 8 (Meth (Dot (G ''$wnd'') ''Math'') ''max'' [V 8, Bin Plus (Dot (Dot (V 12) ''d'') ''a'') (Bin Divide (Dot (Dot (V 12) ''e'') ''a'') (K (JNum 2)))])), Do (SetV 9 (Meth (Dot (G ''$wnd'') ''Math'') ''max'' [V 9, Bin Plus (Dot (Dot (V 12) ''d'') ''b'') (Bin Divide (Dot (Dot (V 12) ''e'') ''b'') (K (JNum 2)))]))] [], Do (Call ''rNb'' [V 2, Seq (Call ''aPb'' []) (G ''POb''), Call ''Cfb'' [V 14]]), Do (Call ''rNb'' [V 2, Seq (Call ''lPb'' []) (G ''iPb''), New ''lgd'' [V 10, V 11]]), Do (Call ''rNb'' [V 2, G ''hPb'', New ''lgd'' [V 8, V 9]])] [], Do (Call ''Inb'' []), Do (Meth (V 0) ''gd'' [New ''YMb'' []]), Do (SetV 15 (New ''KNb'' [])), Do (Call ''mNb'' [V 15, Call ''JD'' [Meth (V 0) ''Xb'' [K (JNum 0)], K (JNum 105)]]), Do (SetV 7 (K (JNum 0))), Do (SetV 18 (K (JNum 0))), Do (SetV 5 (Meth (V 0) ''Jc'' [])), Loop (Meth (V 5) ''Ob'' []) [Do (SetV 2 (Call ''JD'' [Meth (V 5) ''Pb'' [], K (JNum 235)])), Do (SetV 16 (Call ''igd'' [Call ''Xfd'' [Call ''JD'' [Call ''oNb'' [V 2, Seq (Call ''lPb'' []) (G ''hPb'')], K (JNum 8)]], Call ''JD'' [Call ''oNb'' [V 2, G ''iPb''], K (JNum 8)]])), Do (SetV 7 (Meth (Dot (G ''$wnd'') ''Math'') ''max'' [V 7, Dot (V 16) ''a''])), Do (SetV 18 (Bin Plus (V 18) (Bin Times (Dot (V 16) ''a'') (Dot (V 16) ''b''))))] [], Do (SetV 7 (Meth (Dot (G ''$wnd'') ''Math'') ''max'' [V 7, Bin Times (Meth (Dot (G ''$wnd'') ''Math'') ''sqrt'' [V 18]) (Call ''Ueb'' [Call ''MD'' [Call ''oNb'' [V 15, Seq (Call ''aPb'' []) (G ''BOb'')]]])])), Do (SetV 17 (Call ''Ueb'' [Call ''MD'' [Call ''oNb'' [V 15, G ''VOb'']]])), Do (SetV 19 (K (JNum 0))), Do (SetV 20 (K (JNum 0))), Do (SetV 6 (K (JNum 0))), Do (SetV 1 (V 17)), Do (SetV 3 (Meth (V 0) ''Jc'' [])), Loop (Meth (V 3) ''Ob'' []) [Do (SetV 2 (Call ''JD'' [Meth (V 3) ''Pb'' [], K (JNum 235)])), Do (SetV 16 (Call ''igd'' [Call ''Xfd'' [Call ''JD'' [Call ''oNb'' [V 2, Seq (Call ''lPb'' []) (G ''hPb'')], K (JNum 8)]], Call ''JD'' [Call ''oNb'' [V 2, G ''iPb''], K (JNum 8)]])), When (Bin Gt (Bin Plus (V 19) (Dot (V 16) ''a'')) (V 7)) [Do (SetV 19 (K (JNum 0))), Do (SetV 20 (Bin Plus (V 20) (Bin Plus (V 6) (V 17)))), Do (SetV 6 (K (JNum 0)))] [], Do (Call ''TMb'' [V 15, V 2, V 19, V 20]), Do (SetV 1 (Meth (Dot (G ''$wnd'') ''Math'') ''max'' [V 1, Bin Plus (V 19) (Dot (V 16) ''a'')])), Do (SetV 6 (Meth (Dot (G ''$wnd'') ''Math'') ''max'' [V 6, Dot (V 16) ''b''])), Do (SetV 19 (Bin Plus (V 19) (Bin Plus (Dot (V 16) ''a'') (V 17))))] [], Ret (V 15)],
    fn ''Noe'' 1 16 [Do (Call ''Moe'' []), When (Loose (V 0) (K JNull)) [Ret (K JNull)] [], Do (SetV 5 (Call ''Kgb'' [V 0])), Do (SetV 14 (Call ''Qoe'' [V 5])), When (Neg (Loose (Bin Modulo (V 14) (K (JNum 4))) (K (JNum 0)))) [Ret (K JNull)] [], Do (SetV 15 (Bin DivInt (V 14) (K (JNum 4)))), When (Loose (V 15) (K (JNum 0))) [Ret (Call ''SC'' [G ''$D'', G ''hGe'', K (JNum 30), K (JNum 0), K (JNum 15), K (JNum 1)])] [], Do (SetV 11 (K JNull)), Do (SetV 1 (K (JNum 0))), Do (SetV 2 (K (JNum 0))), Do (SetV 3 (K (JNum 0))), Do (SetV 4 (K (JNum 0))), Do (SetV 6 (K (JNum 0))), Do (SetV 7 (K (JNum 0))), Do (SetV 8 (K (JNum 0))), Do (SetV 9 (K (JNum 0))), Do (SetV 13 (K (JNum 0))), Do (SetV 12 (K (JNum 0))), Do (SetV 10 (K (JNum 0))), Do (SetV 11 (Call ''SC'' [G ''$D'', G ''hGe'', K (JNum 30), Bin Times (V 15) (K (JNum 3)), K (JNum 15), K (JNum 1)])), Loop (Bin Lt (V 13) (Bin Minus (V 15) (K (JNum 1)))) [When (Or (Or (Or (Neg (Call ''Poe'' [SetV 6 (Idx (V 5) (Bin Minus (SetV 10 (Bin Minus (V 10) (K (JNum (- 1))))) (K (JNum 1))))])) (Neg (Call ''Poe'' [SetV 7 (Idx (V 5) (Bin Minus (SetV 10 (Bin Minus (V 10) (K (JNum (- 1))))) (K (JNum 1))))]))) (Neg (Call ''Poe'' [SetV 8 (Idx (V 5) (Bin Minus (SetV 10 (Bin Minus (V 10) (K (JNum (- 1))))) (K (JNum 1))))]))) (Neg (Call ''Poe'' [SetV 9 (Idx (V 5) (Bin Minus (SetV 10 (Bin Minus (V 10) (K (JNum (- 1))))) (K (JNum 1))))]))) [Ret (K JNull)] [], Do (SetV 1 (Idx (G ''Koe'') (V 6))), Do (SetV 2 (Idx (G ''Koe'') (V 7))), Do (SetV 3 (Idx (G ''Koe'') (V 8))), Do (SetV 4 (Idx (G ''Koe'') (V 9))), Do (PutIdx (V 11) (Bin Minus (SetV 12 (Bin Minus (V 12) (K (JNum (- 1))))) (K (JNum 1))) (Bin Shr (Bin Shl (Bin BitOr (Bin Shl (V 1) (K (JNum 2))) (Bin Shr (V 2) (K (JNum 4)))) (K (JNum 24))) (K (JNum 24)))), Do (PutIdx (V 11) (Bin Minus (SetV 12 (Bin Minus (V 12) (K (JNum (- 1))))) (K (JNum 1))) (Bin Shr (Bin Shl (Bin BitOr (Bin Shl (Bin BitAnd (V 2) (K (JNum 15))) (K (JNum 4))) (Bin BitAnd (Bin Shr (V 3) (K (JNum 2))) (K (JNum 15)))) (K (JNum 24))) (K (JNum 24)))), Do (PutIdx (V 11) (Bin Minus (SetV 12 (Bin Minus (V 12) (K (JNum (- 1))))) (K (JNum 1))) (Bin Shr (Bin Shl (Bin BitOr (Bin Shl (V 3) (K (JNum 6))) (V 4)) (K (JNum 24))) (K (JNum 24))))] [Do (Bin Minus (SetV 13 (Bin Minus (V 13) (K (JNum (- 1))))) (K (JNum 1)))], When (Or (Neg (Call ''Poe'' [SetV 6 (Idx (V 5) (Bin Minus (SetV 10 (Bin Minus (V 10) (K (JNum (- 1))))) (K (JNum 1))))])) (Neg (Call ''Poe'' [SetV 7 (Idx (V 5) (Bin Minus (SetV 10 (Bin Minus (V 10) (K (JNum (- 1))))) (K (JNum 1))))]))) [Ret (K JNull)] [], Do (SetV 1 (Idx (G ''Koe'') (V 6))), Do (SetV 2 (Idx (G ''Koe'') (V 7))), Do (SetV 8 (Idx (V 5) (Bin Minus (SetV 10 (Bin Minus (V 10) (K (JNum (- 1))))) (K (JNum 1))))), Do (SetV 9 (Idx (V 5) (Bin Minus (SetV 10 (Bin Minus (V 10) (K (JNum (- 1))))) (K (JNum 1))))), When (Or (Loose (Idx (G ''Koe'') (V 8)) (K (JNum (- 1)))) (Loose (Idx (G ''Koe'') (V 9)) (K (JNum (- 1))))) [When (And (Loose (V 8) (K (JNum 61))) (Loose (V 9) (K (JNum 61)))) [When (Neg (Loose (Bin BitAnd (V 2) (K (JNum 15))) (K (JNum 0)))) [Ret (K JNull)] [], Do (SetV 16 (Call ''SC'' [G ''$D'', G ''hGe'', K (JNum 30), Bin Plus (Bin Times (V 13) (K (JNum 3))) (K (JNum 1)), K (JNum 15), K (JNum 1)])), Do (Call ''rhb'' [V 11, K (JNum 0), V 16, K (JNum 0), Bin Times (V 13) (K (JNum 3))]), Do (PutIdx (V 16) (V 12) (Bin Shr (Bin Shl (Bin BitOr (Bin Shl (V 1) (K (JNum 2))) (Bin Shr (V 2) (K (JNum 4)))) (K (JNum 24))) (K (JNum 24)))), Ret (V 16)] [When (And (Neg (Loose (V 8) (K (JNum 61)))) (Loose (V 9) (K (JNum 61)))) [Do (SetV 3 (Idx (G ''Koe'') (V 8))), When (Neg (Loose (Bin BitAnd (V 3) (K (JNum 3))) (K (JNum 0)))) [Ret (K JNull)] [], Do (SetV 16 (Call ''SC'' [G ''$D'', G ''hGe'', K (JNum 30), Bin Plus (Bin Times (V 13) (K (JNum 3))) (K (JNum 2)), K (JNum 15), K (JNum 1)])), Do (Call ''rhb'' [V 11, K (JNum 0), V 16, K (JNum 0), Bin Times (V 13) (K (JNum 3))]), Do (PutIdx (V 16) (Bin Minus (SetV 12 (Bin Minus (V 12) (K (JNum (- 1))))) (K (JNum 1))) (Bin Shr (Bin Shl (Bin BitOr (Bin Shl (V 1) (K (JNum 2))) (Bin Shr (V 2) (K (JNum 4)))) (K (JNum 24))) (K (JNum 24)))), Do (PutIdx (V 16) (V 12) (Bin Shr (Bin Shl (Bin BitOr (Bin Shl (Bin BitAnd (V 2) (K (JNum 15))) (K (JNum 4))) (Bin BitAnd (Bin Shr (V 3) (K (JNum 2))) (K (JNum 15)))) (K (JNum 24))) (K (JNum 24)))), Ret (V 16)] [Ret (K JNull)]]] [Do (SetV 3 (Idx (G ''Koe'') (V 8))), Do (SetV 4 (Idx (G ''Koe'') (V 9))), Do (PutIdx (V 11) (Bin Minus (SetV 12 (Bin Minus (V 12) (K (JNum (- 1))))) (K (JNum 1))) (Bin Shr (Bin Shl (Bin BitOr (Bin Shl (V 1) (K (JNum 2))) (Bin Shr (V 2) (K (JNum 4)))) (K (JNum 24))) (K (JNum 24)))), Do (PutIdx (V 11) (Bin Minus (SetV 12 (Bin Minus (V 12) (K (JNum (- 1))))) (K (JNum 1))) (Bin Shr (Bin Shl (Bin BitOr (Bin Shl (Bin BitAnd (V 2) (K (JNum 15))) (K (JNum 4))) (Bin BitAnd (Bin Shr (V 3) (K (JNum 2))) (K (JNum 15)))) (K (JNum 24))) (K (JNum 24)))), Do (PutIdx (V 11) (Bin Minus (SetV 12 (Bin Minus (V 12) (K (JNum (- 1))))) (K (JNum 1))) (Bin Shr (Bin Shl (Bin BitOr (Bin Shl (V 3) (K (JNum 6))) (V 4)) (K (JNum 24))) (K (JNum 24))))], Ret (V 11)],
    fn ''p9b'' 2 20 [Do (Meth (V 1) ''Tg'' [G ''Xye'', K (JNum 1)]), Do (SetV 14 (Call ''JD'' [Call ''oNb'' [V 0, Seq (Call ''nyc'' []) (G ''iwc'')], K (JNum 222)])), Do (SetV 4 (New ''Kmb'' [Dot (V 0) ''b''])), Loop (Bin Lt (Dot (V 4) ''a'') (Dot (Dot (Dot (V 4) ''c'') ''c'') ''length'')) [Do (SetV 3 (Call ''JD'' [Call ''Imb'' [V 4], K (JNum 25)])), Do (SetV 9 (Call ''$Xb'' [Dot (V 3) ''a''])), Do (Seq (Seq (SetV 6 (V 9)) (SetV 7 (K (JNum 0)))) (SetV 8 (Dot (V 6) ''length''))), Loop (Bin Lt (V 7) (V 8)) [Do (SetV 5 (Idx (V 6) (V 7))), When (Neg (Loose (Dot (V 5) ''k'') (Seq (Call ''$Yb'' []) (G ''YYb'')))) [Continue] [], When (Loose (V 14) (Seq (Call ''hkd'' []) (G ''fkd''))) [Do (SetV 11 (New ''Kmb'' [Dot (V 5) ''j''])), Loop (Bin Lt (Dot (V 11) ''a'') (Dot (Dot (Dot (V 11) ''c'') ''c'') ''length'')) [Do (SetV 10 (Call ''JD'' [Call ''Imb'' [V 11], K (JNum 12)])), Do (Or (Loose (Dot (Dot (Dot (V 10) ''e'') ''c'') ''length'') (K (JNum 0))) (Call ''s9b'' [V 10])), Do (Or (Loose (Dot (Dot (Dot (V 10) ''g'') ''c'') ''length'') (K (JNum 0))) (Call ''t9b'' [V 10]))] []] [When (Call ''RD'' [Call ''oNb'' [V 5, Seq (Call ''Wrc'' []) (G ''urc'')], K (JNum 17)]) [Do (SetV 16 (Call ''JD'' [Call ''oNb'' [V 5, G ''urc''], K (JNum 17)])), Do (SetV 17 (Call ''JD'' [Meth (Meth (Call ''LYb'' [V 5, Seq (Call ''Bmd'' []) (G ''Amd'')]) ''Jc'' []) ''Pb'' [], K (JNum 12)])), Do (SetV 18 (Call ''JD'' [Meth (Meth (Call ''LYb'' [V 5, G ''gmd'']) ''Jc'' []) ''Pb'' [], K (JNum 12)])), Do (SetV 19 (Call ''JD'' [Call ''oNb'' [V 17, G ''urc''], K (JNum 12)])), Do (SetV 20 (Call ''JD'' [Call ''oNb'' [V 18, G ''urc''], K (JNum 12)])), Do (Call ''CWb'' [V 16, V 20]), Do (Call ''DWb'' [V 16, V 19]), Do (SetV 21 (New ''mgd'' [Dot (Dot (V 18) ''i'') ''n''])), Do (Put (V 21) ''a'' (Dot (Call ''rgd'' [Call ''WC'' [Call ''OC'' [G ''r2'', K (JNum 1)], G ''aue'', K (JNum 8), K (JNum 0), NewArr [Dot (Dot (V 20) ''i'') ''n'', Dot (V 20) ''n'', Dot (V 20) ''a'']]]) ''a'')), Do (Call ''Ttb'' [Dot (V 16) ''a'', V 21]), Do (SetV 21 (New ''mgd'' [Dot (Dot (V 17) ''i'') ''n''])), Do (Put (V 21) ''a'' (Dot (Call ''rgd'' [Call ''WC'' [Call ''OC'' [G ''r2'', K (JNum 1)], G ''aue'', K (JNum 8), K (JNum 0), NewArr [Dot (Dot (V 19) ''i'') ''n'', Dot (V 19) ''n'', Dot (V 19) ''a'']]]) ''a'')), Do (Call ''Ttb'' [Dot (V 16) ''a'', V 21])] [When (Bin Ge (Dot (Dot (Dot (V 5) ''j'') ''c'') ''length'') (K (JNum 2))) [Do (SetV 15 (K (JBool True))), Do (SetV 12 (New ''Kmb'' [Dot (V 5) ''j''])), Do (SetV 2 (Call ''JD'' [Call ''Imb'' [V 12], K (JNum 12)])), Do (SetV 13 (K JNull)), Loop (Bin Lt (Dot (V 12) ''a'') (Dot (Dot (Dot (V 12) ''c'') ''c'') ''length'')) [Do (SetV 13 (V 2)), Do (SetV 2 (Call ''JD'' [Call ''Imb'' [V 12], K (JNum 12)])), When (Neg (Call ''pb'' [Call ''oNb'' [V 13, G ''urc''], Call ''oNb'' [V 2, G ''urc'']])) [Do (SetV 15 (K (JBool False))), Break] []] []] [Do (SetV 15 (K (JBool False)))], Do (SetV 11 (New ''Kmb'' [Dot (V 5) ''j''])), Loop (Bin Lt (Dot (V 11) ''a'') (Dot (Dot (Dot (V 11) ''c'') ''c'') ''length'')) [Do (SetV 10 (Call ''JD'' [Call ''Imb'' [V 11], K (JNum 12)])), Do (Or (Loose (Dot (Dot (Dot (V 10) ''e'') ''c'') ''length'') (K (JNum 0))) (Call ''q9b'' [V 10, V 15])), Do (Or (Loose (Dot (Dot (Dot (V 10) ''g'') ''c'') ''length'') (K (JNum 0))) (Call ''r9b'' [V 10, V 15]))] []]], Do (Call ''NYb'' [V 5, K JNull])] [Do (SetV 7 (Bin Minus (V 7) (K (JNum (- 1)))))]] [], Do (Meth (V 1) ''Ug'' [])],
    fn ''uNc'' 3 19 [Do (SetV 7 (New ''Kmb'' [Dot (Dot (V 0) ''a'') ''b''])), Loop (Bin Lt (Dot (V 7) ''a'') (Dot (Dot (Dot (V 7) ''c'') ''c'') ''length'')) [Do (SetV 5 (Call ''JD'' [Call ''Imb'' [V 7], K (JNum 25)])), Do (SetV 19 (New ''Kmb'' [Dot (V 5) ''a''])), Loop (Bin Lt (Dot (V 19) ''a'') (Dot (Dot (Dot (V 19) ''c'') ''c'') ''length'')) [Do (SetV 18 (Call ''JD'' [Call ''Imb'' [V 19], K (JNum 9)])), Do (PutIdx (Dot (V 1) ''g'') (Dot (V 18) ''p'') (V 18)), Do (PutIdx (Dot (V 1) ''a'') (Dot (V 18) ''p'') (V 18)), Do (PutIdx (Dot (V 1) ''d'') (Dot (V 18) ''p'') (K (JNum 0)))] []] [], Do (SetV 8 (Dot (Dot (V 0) ''a'') ''b'')), Do (And (Loose (Dot (V 1) ''c'') (Seq (Call ''fNc'' []) (G ''dNc''))) (SetV 8 (Call ''$u'' [V 8]))), Do (SetV 6 (Meth (V 8) ''Jc'' [])), Loop (Meth (V 6) ''Ob'' []) [Do (SetV 5 (Call ''JD'' [Meth (V 6) ''Pb'' [], K (JNum 25)])), Do (SetV 13 (K (JNum (- 1)))), Do (SetV 12 (Dot (V 5) ''a'')), When (Loose (Dot (V 1) ''o'') (Seq (Call ''nNc'' []) (G ''mNc''))) [Do (SetV 13 (G ''Ate'')), Do (SetV 12 (Call ''$u'' [V 12]))] [], Do (SetV 21 (Meth (V 12) ''Jc'' [])), Loop (Meth (V 21) ''Ob'' []) [Do (SetV 20 (Call ''JD'' [Meth (V 21) ''Pb'' [], K (JNum 9)])), Do (SetV 11 (K JNull)), Do (Cond (Loose (Dot (V 1) ''c'') (G ''dNc'')) (SetV 11 (Call ''JD'' [Call ''dmb'' [Dot (Dot (V 0) ''b'') ''f'', Dot (V 20) ''p''], K (JNum 16)])) (SetV 11 (Call ''JD'' [Call ''dmb'' [Dot (Dot (V 0) ''b'') ''b'', Dot (V 20) ''p''], K (JNum 16)]))), When (Bin Gt (Meth (V 11) ''gc'' []) (K (JNum 0))) [Do (SetV 3 (Meth (V 11) ''gc'' [])), Do (SetV 9 (Bin Minus (Call ''YD'' [Meth (Dot (G ''$wnd'') ''Math'') ''floor'' [Bin Divide (Bin Plus (V 3) (K (JNum 1))) (K (JNum 2))]]) (K (JNum 1)))), Do (SetV 4 (Bin Minus (Call ''YD'' [Meth (Dot (G ''$wnd'') ''Math'') ''ceil'' [Bin Divide (Bin Plus (V 3) (K (JNum 1))) (K (JNum 2))]]) (K (JNum 1)))), When (Loose (Dot (V 1) ''o'') (G ''mNc'')) [Do (SetV 10 (V 4)), Loop (Bin Ge (V 10) (V 9)) [When (Loose (Idx (Dot (V 1) ''a'') (Dot (V 20) ''p'')) (V 20)) [Do (SetV 15 (Call ''JD'' [Meth (V 11) ''Xb'' [V 10], K (JNum 49)])), Do (SetV 14 (Call ''JD'' [Dot (V 15) ''a'', K (JNum 9)])), When (And (Neg (Call ''fsb'' [V 2, Dot (V 15) ''b''])) (Bin Gt (V 13) (Idx (Dot (Dot (V 0) ''b'') ''e'') (Dot (V 14) ''p'')))) [Do (PutIdx (Dot (V 1) ''a'') (Dot (V 14) ''p'') (V 20)), Do (PutIdx (Dot (V 1) ''g'') (Dot (V 20) ''p'') (Idx (Dot (V 1) ''g'') (Dot (V 14) ''p''))), Do (PutIdx (Dot (V 1) ''a'') (Dot (V 20) ''p'') (Idx (Dot (V 1) ''g'') (Dot (V 20) ''p''))), Do (PutIdx (Dot (V 1) ''f'') (Dot (Idx (Dot (V 1) ''g'') (Dot (V 20) ''p'')) ''p'') (Seq (Call ''Qdb'' []) (Cond (Bin BitAnd (Call ''Rdb'' [Idx (Dot (V 1) ''f'') (Dot (Idx (Dot (V 1) ''g'') (Dot (V 20) ''p'')) ''p'')]) (Loose (Dot (V 20) ''k'') (Seq (Call ''$Yb'' []) (G ''VYb'')))) (K (JBool True)) (K (JBool False))))), Do (SetV 13 (Idx (Dot (Dot (V 0) ''b'') ''e'') (Dot (V 14) ''p'')))] []] []] [Do (Bin Minus (SetV 10 (Bin Minus (V 10) (K (JNum 1)))) (K (JNum (- 1))))]] [Do (SetV 10 (V 9)), Loop (Bin Le (V 10) (V 4)) [When (Loose (Idx (Dot (V 1) ''a'') (Dot (V 20) ''p'')) (V 20)) [Do (SetV 17 (Call ''JD'' [Meth (V 11) ''Xb'' [V 10], K (JNum 49)])), Do (SetV 16 (Call ''JD'' [Dot (V 17) ''a'', K (JNum 9)])), When (And (Neg (Call ''fsb'' [V 2, Dot (V 17) ''b''])) (Bin Lt (V 13) (Idx (Dot (Dot (V 0) ''b'') ''e'') (Dot (V 16) ''p'')))) [Do (PutIdx (Dot (V 1) ''a'') (Dot (V 16) ''p'') (V 20)), Do (PutIdx (Dot (V 1) ''g'') (Dot (V 20) ''p'') (Idx (Dot (V 1) ''g'') (Dot (V 16) ''p''))), Do (PutIdx (Dot (V 1) ''a'') (Dot (V 20) ''p'') (Idx (Dot (V 1) ''g'') (Dot (V 20) ''p''))), Do (PutIdx (Dot (V 1) ''f'') (Dot (Idx (Dot (V 1) ''g'') (Dot (V 20) ''p'')) ''p'') (Seq (Call ''Qdb'' []) (Cond (Bin BitAnd (Call ''Rdb'' [Idx (Dot (V 1) ''f'') (Dot (Idx (Dot (V 1) ''g'') (Dot (V 20) ''p'')) ''p'')]) (Loose (Dot (V 20) ''k'') (Seq (Call ''$Yb'' []) (G ''VYb'')))) (K (JBool True)) (K (JBool False))))), Do (SetV 13 (Idx (Dot (Dot (V 0) ''b'') ''e'') (Dot (V 16) ''p'')))] []] []] [Do (Bin Minus (SetV 10 (Bin Minus (V 10) (K (JNum (- 1))))) (K (JNum 1)))]]] []] []] []],
    fn ''TKc'' 3 22 [Do (SetV 19 (Idx (Dot (V 0) ''c'') (Dot (Seq (Call ''MDb'' [K (JNum 0), Dot (Dot (V 1) ''c'') ''length'']) (Call ''JD'' [Idx (Dot (V 1) ''c'') (K (JNum 0)), K (JNum 17)])) ''p''))), Do (SetV 23 (Idx (Dot (V 0) ''c'') (Dot (Seq (Call ''MDb'' [K (JNum 1), Dot (Dot (V 1) ''c'') ''length'']) (Call ''JD'' [Idx (Dot (V 1) ''c'') (K (JNum 1)), K (JNum 17)])) ''p''))), When (And (Loose (Bin Minus (Bin Minus (Dot (Dot (Dot (V 19) ''a'') ''e'') ''e'') (Dot (Dot (V 19) ''a'') ''a'')) (Bin Minus (Dot (Dot (Dot (V 19) ''b'') ''e'') ''e'') (Dot (Dot (V 19) ''b'') ''a''))) (K (JNum 0))) (Loose (Bin Minus (Bin Minus (Dot (Dot (Dot (V 23) ''a'') ''e'') ''e'') (Dot (Dot (V 23) ''a'') ''a'')) (Bin Minus (Dot (Dot (Dot (V 23) ''b'') ''e'') ''e'') (Dot (Dot (V 23) ''b'') ''a''))) (K (JNum 0)))) [Ret (K (JBool False))] [], Do (SetV 17 (Dot (Dot (Dot (V 19) ''b'') ''e'') ''f'')), When (Neg (Call ''RD'' [V 17, K (JNum 9)])) [Ret (K (JBool False))] [], Do (SetV 16 (Call ''JD'' [V 17, K (JNum 9)])), Do (SetV 21 (Idx (Dot (V 0) ''i'') (Dot (V 16) ''p''))), Do (SetV 22 (Cond (Neg (Dot (V 16) ''c'')) (K (JNum (- 1))) (Call ''emb'' [Dot (Dot (V 16) ''c'') ''a'', V 16, K (JNum 0)]))), Do (SetV 5 (G ''Cve'')), When (Bin Gt (V 22) (K (JNum 0))) [Do (SetV 4 (Call ''JD'' [Call ''dmb'' [Dot (Dot (V 16) ''c'') ''a'', Bin Minus (V 22) (K (JNum 1))], K (JNum 9)])), Do (SetV 6 (Idx (Dot (V 0) ''i'') (Dot (V 4) ''p''))), Do (SetV 24 (Meth (Dot (G ''$wnd'') ''Math'') ''ceil'' [Call ''SAc'' [Dot (V 0) ''n'', V 4, V 16]])), Do (SetV 5 (Bin Minus (Bin Minus (Bin Minus (Dot (Dot (V 21) ''a'') ''e'') (Dot (Dot (V 16) ''d'') ''d'')) (Bin Plus (Bin Plus (Dot (Dot (V 6) ''a'') ''e'') (Dot (Dot (V 4) ''o'') ''b'')) (Dot (Dot (V 4) ''d'') ''a''))) (V 24)))] [], Do (SetV 9 (G ''Cve'')), When (Bin Lt (V 22) (Bin Minus (Dot (Dot (Dot (Dot (V 16) ''c'') ''a'') ''c'') ''length'') (K (JNum 1)))) [Do (SetV 8 (Call ''JD'' [Call ''dmb'' [Dot (Dot (V 16) ''c'') ''a'', Bin Plus (V 22) (K (JNum 1))], K (JNum 9)])), Do (SetV 10 (Idx (Dot (V 0) ''i'') (Dot (V 8) ''p''))), Do (SetV 24 (Meth (Dot (G ''$wnd'') ''Math'') ''ceil'' [Call ''SAc'' [Dot (V 0) ''n'', V 8, V 16]])), Do (SetV 9 (Bin Minus (Bin Minus (Bin Minus (Dot (Dot (V 10) ''a'') ''e'') (Dot (Dot (V 8) ''d'') ''d'')) (Bin Plus (Bin Plus (Dot (Dot (V 21) ''a'') ''e'') (Dot (Dot (V 16) ''o'') ''b'')) (Dot (Dot (V 16) ''d'') ''a''))) (V 24)))] [], When (And (V 2) (Seq (Seq (Call ''Sy'' []) (Call ''Wy'' [G ''xCe''])) (Or (Or (Bin Le (Meth (Dot (G ''$wnd'') ''Math'') ''abs'' [Bin Minus (V 5) (V 9)]) (G ''xCe'')) (Loose (V 5) (V 9))) (And (Call ''isNaN'' [V 5]) (Call ''isNaN'' [V 9]))))) [Ret (K (JBool True))] [], Do (SetV 3 (Call ''pLc'' [Dot (V 19) ''a''])), Do (SetV 7 (Minus1 (Call ''pLc'' [Dot (V 19) ''b'']))), Do (SetV 11 (Minus1 (Call ''pLc'' [Dot (V 23) ''a'']))), Do (SetV 18 (Call ''pLc'' [Dot (V 23) ''b''])), Do (SetV 15 (And (Bin Gt (Bin Minus (Bin Minus (Dot (Dot (Dot (V 19) ''a'') ''e'') ''e'') (Dot (Dot (V 19) ''a'') ''a'')) (Bin Minus (Dot (Dot (Dot (V 19) ''b'') ''e'') ''e'') (Dot (Dot (V 19) ''b'') ''a''))) (K (JNum 0))) (Bin Lt (Bin Minus (Bin Minus (Dot (Dot (Dot (V 23) ''a'') ''e'') ''e'') (Dot (Dot (V 23) ''a'') ''a'')) (Bin Minus (Dot (Dot (Dot (V 23) ''b'') ''e'') ''e'') (Dot (Dot (V 23) ''b'') ''a''))) (K (JNum 0))))), Do (SetV 14 (And (Bin Lt (Bin Minus (Bin Minus (Dot (Dot (Dot (V 19) ''a'') ''e'') ''e'') (Dot (Dot (V 19) ''a'') ''a'')) (Bin Minus (Dot (Dot (Dot (V 19) ''b'') ''e'') ''e'') (Dot (Dot (V 19) ''b'') ''a''))) (K (JNum 0))) (Bin Gt (Bin Minus (Bin Minus (Dot (Dot (Dot (V 23) ''a'') ''e'') ''e'') (Dot (Dot (V 23) ''a'') ''a'')) (Bin Minus (Dot (Dot (Dot (V 23) ''b'') ''e'') ''e'') (Dot (Dot (V 23) ''b'') ''a''))) (K (JNum 0))))), Do (SetV 13 (Bin Lt (Bin Plus (Dot (Dot (Dot (V 19) ''a'') ''e'') ''e'') (Dot (Dot (V 19) ''b'') ''a'')) (Bin Plus (Dot (Dot (Dot (V 23) ''b'') ''e'') ''e'') (Dot (Dot (V 23) ''a'') ''a'')))), Do (SetV 12 (Bin Gt (Bin Plus (Dot (Dot (Dot (V 19) ''a'') ''e'') ''e'') (Dot (Dot (V 19) ''b'') ''a'')) (Bin Plus (Dot (Dot (Dot (V 23) ''b'') ''e'') ''e'') (Dot (Dot (V 23) ''a'') ''a'')))), Do (SetV 20 (K (JNum 0))), Do (And (And (Neg (V 15)) (Neg (V 14))) (Cond (V 12) (Cond (Bin Gt (Bin Plus (V 5) (V 11)) (K (JNum 0))) (SetV 20 (V 11)) (And (Bin Gt (Bin Minus (V 9) (V 3)) (K (JNum 0))) (SetV 20 (V 3)))) (And (V 13) (Cond (Bin Gt (Bin Plus (V 5) (V 7)) (K (JNum 0))) (SetV 20 (V 7)) (And (Bin Gt (Bin Minus (V 9) (V 18)) (K (JNum 0))) (SetV 20 (V 18))))))), Do (Put (Dot (V 21) ''a'') ''e'' (Bin Plus (Dot (Dot (V 21) ''a'') ''e'') (V 20))), Do (And (Dot (V 21) ''b'') (Put (Dot (V 21) ''d'') ''e'' (Bin Plus (Dot (Dot (V 21) ''d'') ''e'') (V 20)))), Ret (K (JBool False))]]"

definition code_6212_6212 :: "(string \<times> jfun) list" where
  "code_6212_6212 = [
    fn ''rHb'' 3 10 [Do (SetV 3 (New ''Pfd'' [Dot (Meth (V 1) ''Jf'' []) ''a'', Dot (Meth (V 1) ''Jf'' []) ''b'', Dot (Meth (V 1) ''Kf'' []) ''a'', Dot (Meth (V 1) ''Kf'' []) ''b''])), Do (SetV 4 (New ''Ofd'' [])), When (Dot (V 0) ''c'') [Do (SetV 6 (New ''Kmb'' [Meth (V 1) ''Pf'' []])), Loop (Bin Lt (Dot (V 6) ''a'') (Dot (Dot (Dot (V 6) ''c'') ''c'') ''length'')) [Do (SetV 5 (Call ''JD'' [Call ''Imb'' [V 6], K (JNum 187)])), Do (Put (V 4) ''c'' (Bin Plus (Dot (Meth (V 5) ''Jf'' []) ''a'') (Dot (Meth (V 1) ''Jf'' []) ''a''))), Do (Put (V 4) ''d'' (Bin Plus (Dot (Meth (V 5) ''Jf'' []) ''b'') (Dot (Meth (V 1) ''Jf'' []) ''b''))), Do (Put (V 4) ''b'' (Dot (Meth (V 5) ''Kf'' []) ''a'')), Do (Put (V 4) ''a'' (Dot (Meth (V 5) ''Kf'' []) ''b'')), Do (Call ''Nfd'' [V 3, V 4])] []] [], Do (SetV 9 (New ''Kmb'' [Meth (V 1) ''Vf'' []])), Loop (Bin Lt (Dot (V 9) ''a'') (Dot (Dot (Dot (V 9) ''c'') ''c'') ''length'')) [Do (SetV 8 (Call ''JD'' [Call ''Imb'' [V 9], K (JNum 837)])), Do (SetV 10 (Bin Plus (Dot (Meth (V 8) ''Jf'' []) ''a'') (Dot (Meth (V 1) ''Jf'' []) ''a''))), Do (SetV 11 (Bin Plus (Dot (Meth (V 8) ''Jf'' []) ''b'') (Dot (Meth (V 1) ''Jf'' []) ''b''))), When (Dot (V 0) ''e'') [Do (Put (V 4) ''c'' (V 10)), Do (Put (V 4) ''d'' (V 11)), Do (Put (V 4) ''b'' (Dot (Meth (V 8) ''Kf'' []) ''a'')), Do (Put (V 4) ''a'' (Dot (Meth (V 8) ''Kf'' []) ''b'')), Do (Call ''Nfd'' [V 3, V 4])] [], When (Dot (V 0) ''d'') [Do (SetV 6 (New ''Kmb'' [Meth (V 8) ''Pf'' []])), Loop (Bin Lt (Dot (V 6) ''a'') (Dot (Dot (Dot (V 6) ''c'') ''c'') ''length'')) [Do (SetV 5 (Call ''JD'' [Call ''Imb'' [V 6], K (JNum 187)])), Do (Put (V 4) ''c'' (Bin Plus (Dot (Meth (V 5) ''Jf'' []) ''a'') (V 10))), Do (Put (V 4) ''d'' (Bin Plus (Dot (Meth (V 5) ''Jf'' []) ''b'') (V 11))), Do (Put (V 4) ''b'' (Dot (Meth (V 5) ''Kf'' []) ''a'')), Do (Put (V 4) ''a'' (Dot (Meth (V 5) ''Kf'' []) ''b'')), Do (Call ''Nfd'' [V 3, V 4])] []] [], When (Dot (V 0) ''b'') [Do (SetV 12 (New ''lgd'' [Minus1 (V 2), Minus1 (V 2)])), When (Meth (Call ''JD'' [Meth (V 1) ''mf'' [Seq (Call ''vjd'' []) (G ''Jid'')], K (JNum 182)]) ''Gc'' [Seq (Call ''$ld'' []) (G ''Yld'')]) [Do (SetV 6 (New ''Kmb'' [Meth (V 8) ''Pf'' []])), Loop (Bin Lt (Dot (V 6) ''a'') (Dot (Dot (Dot (V 6) ''c'') ''c'') ''length'')) [Do (SetV 5 (Call ''JD'' [Call ''Imb'' [V 6], K (JNum 187)])), Do (Put (V 12) ''a'' (Bin Plus (Dot (V 12) ''a'') (Bin Plus (Dot (Meth (V 5) ''Kf'' []) ''a'') (V 2)))), Do (Put (V 12) ''b'' (Bin Plus (Dot (V 12) ''b'') (Bin Plus (Dot (Meth (V 5) ''Kf'' []) ''b'') (V 2))))] []] [], Do (Put (V 12) ''a'' (Meth (Dot (G ''$wnd'') ''Math'') ''max'' [Dot (V 12) ''a'', K (JNum 0)])), Do (Put (V 12) ''b'' (Meth (Dot (G ''$wnd'') ''Math'') ''max'' [Dot (V 12) ''b'', K (JNum 0)])), Do (Call ''pHb'' [V 3, Meth (V 8) ''Uf'' [], Meth (V 8) ''Sf'' [], V 1, V 8, V 12, V 2])] []] [], Do (And (Dot (V 0) ''b'') (Call ''pHb'' [V 3, Meth (V 1) ''Uf'' [], Meth (V 1) ''Sf'' [], V 1, K JNull, K JNull, V 2])), Do (SetV 7 (New ''xYb'' [Meth (V 1) ''Tf'' []])), Do (Put (V 7) ''d'' (Meth (Dot (G ''$wnd'') ''Math'') ''max'' [K (JNum 0), Bin Minus (Dot (Meth (V 1) ''Jf'' []) ''b'') (Dot (V 3) ''d'')])), Do (Put (V 7) ''a'' (Meth (Dot (G ''$wnd'') ''Math'') ''max'' [K (JNum 0), Bin Minus (Bin Plus (Dot (V 3) ''d'') (Dot (V 3) ''a'')) (Bin Plus (Dot (Meth (V 1) ''Jf'' []) ''b'') (Dot (Meth (V 1) ''Kf'' []) ''b''))])), Do (Put (V 7) ''b'' (Meth (Dot (G ''$wnd'') ''Math'') ''max'' [K (JNum 0), Bin Minus (Dot (Meth (V 1) ''Jf'' []) ''a'') (Dot (V 3) ''c'')])), Do (Put (V 7) ''c'' (Meth (Dot (G ''$wnd'') ''Math'') ''max'' [K (JNum 0), Bin Minus (Bin Plus (Dot (V 3) ''c'') (Dot (V 3) ''b'')) (Bin Plus (Dot (Meth (V 1) ''Jf'' []) ''a'') (Dot (Meth (V 1) ''Kf'' []) ''a''))])), Do (Meth (V 1) ''Xf'' [V 7])]]"

definition code_6214_6218 :: "(string \<times> jfun) list" where
  "code_6214_6218 = [
    fn ''bPb'' 1 0 [Do (Call ''zdd'' [V 0, New ''Kcd'' [Call ''Wcd'' [Call ''Rcd'' [Call ''Vcd'' [Call ''Scd'' [Call ''Ucd'' [Call ''Tcd'' [New ''Xcd'' [], G ''Cxe''], K (JStr ''ELK Force'')], K (JStr ''Force-based algorithm provided by the Eclipse Layout Kernel. Implements methods that follow physical analogies by simulating forces that move the nodes into a balanced distribution. Currently the original Eades model and the Fruchterman - Reingold model are supported.'')], New ''ePb'' []], G ''Cxe''], Call ''Grb'' [Seq (Call ''tEd'' []) (G ''qEd''), Call ''WC'' [Call ''OC'' [G ''c5'', K (JNum 1)], G ''xue'', K (JNum 244), K (JNum 0), NewArr [G ''oEd'']]]]]]), Do (Call ''xdd'' [V 0, G ''Cxe'', G ''Dxe'', Call ''Cfb'' [K (JNum 1)]]), Do (Call ''xdd'' [V 0, G ''Cxe'', G ''Exe'', K (JNum 80)]), Do (Call ''xdd'' [V 0, G ''Cxe'', G ''Fxe'', K (JNum 5)]), Do (Call ''xdd'' [V 0, G ''Cxe'', G ''Gxe'', G ''Bxe'']), Do (Call ''xdd'' [V 0, G ''Cxe'', G ''Hxe'', Call ''Cfb'' [K (JNum 1)]]), Do (Call ''xdd'' [V 0, G ''Cxe'', G ''Ixe'', Seq (Call ''Qdb'' []) (K (JBool True))]), Do (Call ''xdd'' [V 0, G ''Cxe'', G ''Jxe'', G ''MOb'']), Do (Call ''xdd'' [V 0, G ''Cxe'', G ''Kxe'', Call ''BEd'' [G ''DOb'']]), Do (Call ''xdd'' [V 0, G ''Cxe'', G ''Lxe'', Call ''BEd'' [G ''NOb'']]), Do (Call ''xdd'' [V 0, G ''Cxe'', G ''Mxe'', K (JBool False)]), Do (Call ''xdd'' [V 0, G ''Cxe'', G ''Nxe'', Call ''BEd'' [G ''KOb'']]), Do (Call ''xdd'' [V 0, G ''Cxe'', G ''Oxe'', Call ''BEd'' [G ''IOb'']]), Do (Call ''xdd'' [V 0, G ''Cxe'', G ''Pxe'', Call ''BEd'' [G ''JOb'']]), Do (Call ''xdd'' [V 0, G ''Cxe'', G ''Qxe'', Call ''BEd'' [G ''HOb'']]), Do (Call ''xdd'' [V 0, G ''Cxe'', G ''Rxe'', Call ''BEd'' [G ''GOb'']]), Do (Call ''xdd'' [V 0, G ''Cxe'', G ''Sxe'', Call ''BEd'' [G ''OOb'']]), Do (Call ''xdd'' [V 0, G ''Cxe'', G ''txe'', Call ''BEd'' [G ''FOb'']]), Do (Call ''xdd'' [V 0, G ''Cxe'', G ''wxe'', Call ''BEd'' [G ''WOb'']]), Do (Call ''xdd'' [V 0, G ''Cxe'', G ''uxe'', Call ''BEd'' [G ''EOb'']]), Do (Call ''xdd'' [V 0, G ''Cxe'', G ''yxe'', Call ''BEd'' [G ''ROb'']]), Do (Call ''xdd'' [V 0, G ''Cxe'', G ''vxe'', Call ''BEd'' [G ''SOb'']]), Do (Call ''xdd'' [V 0, G ''Cxe'', G ''Txe'', Call ''BEd'' [G ''ZOb'']]), Do (Call ''xdd'' [V 0, G ''Cxe'', G ''Uxe'', Call ''BEd'' [G ''_Ob'']]), Do (Call ''xdd'' [V 0, G ''Cxe'', G ''Vxe'', Call ''BEd'' [G ''YOb'']]), Do (Call ''xdd'' [V 0, G ''Cxe'', G ''Wxe'', Call ''BEd'' [G ''XOb'']]), Do (Call ''xdd'' [V 0, G ''Cxe'', G ''Xxe'', G ''$Ob''])],
    fn ''$lc'' 4 14 [Do (SetV 13 (Call ''JD'' [Call ''dmb'' [Dot (Seq (Call ''MDb'' [K (JNum 0), Dot (Dot (V 1) ''c'') ''length'']) (Call ''JD'' [Idx (Dot (V 1) ''c'') (K (JNum 0)), K (JNum 25)])) ''a'', V 3], K (JNum 9)])), Do (And (Bin Gt (V 2) (K (JNum 0))) (Call ''NYb'' [V 13, Seq (Call ''MDb'' [V 2, Dot (Dot (V 1) ''c'') ''length'']) (Call ''JD'' [Idx (Dot (V 1) ''c'') (V 2), K (JNum 25)])])), Do (SetV 5 (K (JNum 0))), Do (SetV 12 (K (JBool True))), Do (SetV 17 (Call ''$u'' [Call ''Uu'' [Call ''EYb'' [V 13]]])), Do (SetV 8 (Meth (V 17) ''Jc'' [])), Loop (Meth (V 8) ''Ob'' []) [Do (SetV 7 (Call ''JD'' [Meth (V 8) ''Pb'' [], K (JNum 17)])), Do (SetV 12 (K (JBool False))), Do (SetV 11 (V 7)), Do (SetV 9 (K (JNum 0))), Loop (Bin Lt (V 9) (V 2)) [Do (SetV 4 (Call ''Vlc'' [V 0, V 11])), Do (Cond (Bin Gt (Bin Plus (V 3) (V 5)) (Dot (Dot (Dot (Seq (Call ''MDb'' [V 9, Dot (Dot (V 1) ''c'') ''length'']) (Call ''JD'' [Idx (Dot (V 1) ''c'') (V 9), K (JNum 25)])) ''a'') ''c'') ''length'')) (Call ''NYb'' [V 4, Seq (Call ''MDb'' [V 9, Dot (Dot (V 1) ''c'') ''length'']) (Call ''JD'' [Idx (Dot (V 1) ''c'') (V 9), K (JNum 25)])]) (Call ''MYb'' [V 4, Bin Plus (V 3) (V 5), Seq (Call ''MDb'' [V 9, Dot (Dot (V 1) ''c'') ''length'']) (Call ''JD'' [Idx (Dot (V 1) ''c'') (V 9), K (JNum 25)])])), Do (SetV 11 (Call ''C8b'' [V 11, V 4]))] [Do (Bin Minus (SetV 9 (Bin Minus (V 9) (K (JNum (- 1))))) (K (JNum 1)))], Do (And (Bin Gt (V 2) (K (JNum 0))) (SetV 5 (Bin Plus (V 5) (K (JNum 1)))))] [], When (V 12) [Do (SetV 9 (K (JNum 0))), Loop (Bin Lt (V 9) (V 2)) [Do (SetV 4 (New ''QYb'' [V 0])), Do (Call ''OYb'' [V 4, Seq (Call ''$Yb'' []) (G ''ZYb'')]), Do (Cond (Bin Gt (Bin Plus (V 3) (V 5)) (Dot (Dot (Dot (Seq (Call ''MDb'' [V 9, Dot (Dot (V 1) ''c'') ''length'']) (Call ''JD'' [Idx (Dot (V 1) ''c'') (V 9), K (JNum 25)])) ''a'') ''c'') ''length'')) (Call ''NYb'' [V 4, Seq (Call ''MDb'' [V 9, Dot (Dot (V 1) ''c'') ''length'']) (Call ''JD'' [Idx (Dot (V 1) ''c'') (V 9), K (JNum 25)])]) (Call ''MYb'' [V 4, Bin Plus (V 3) (V 5), Seq (Call ''MDb'' [V 9, Dot (Dot (V 1) ''c'') ''length'']) (Call ''JD'' [Idx (Dot (V 1) ''c'') (V 9), K (JNum 25)])]))] [Do (Bin Minus (SetV 9 (Bin Minus (V 9) (K (JNum (- 1))))) (K (JNum 1)))], Do (And (Bin Gt (V 2) (K (JNum 0))) (SetV 5 (Bin Plus (V 5) (K (JNum 1)))))] [], Do (SetV 6 (K (JBool False))), Do (SetV 15 (New ''Yr'' [Call ''Dr'' [Meth (Dot (Call ''HYb'' [V 13]) ''a'') ''Jc'' [], New ''Dl'' []]])), Loop (Call ''Wr'' [V 15]) [Do (SetV 14 (Call ''JD'' [Call ''Xr'' [V 15], K (JNum 17)])), Do (SetV 11 (V 14)), Do (SetV 10 (Bin Plus (V 2) (K (JNum 1)))), Loop (Bin Lt (V 10) (Dot (Dot (V 1) ''c'') ''length'')) [Do (SetV 4 (Call ''Vlc'' [V 0, V 11])), Do (Call ''NYb'' [V 4, Seq (Call ''MDb'' [V 10, Dot (Dot (V 1) ''c'') ''length'']) (Call ''JD'' [Idx (Dot (V 1) ''c'') (V 10), K (JNum 25)])]), Do (SetV 11 (Call ''C8b'' [V 11, V 4]))] [Do (Bin Minus (SetV 10 (Bin Minus (V 10) (K (JNum (- 1))))) (K (JNum 1)))], Do (SetV 9 (K (JNum 0))), Loop (Bin Le (V 9) (V 2)) [When (V 6) [Do (SetV 16 (New ''QYb'' [V 0])), Do (Call ''OYb'' [V 16, Seq (Call ''$Yb'' []) (G ''WYb'')]), Do (Cond (Bin Gt (Bin Plus (V 3) (K (JNum 1))) (Dot (Dot (Dot (Seq (Call ''MDb'' [V 9, Dot (Dot (V 1) ''c'') ''length'']) (Call ''JD'' [Idx (Dot (V 1) ''c'') (V 9), K (JNum 25)])) ''a'') ''c'') ''length'')) (Call ''NYb'' [V 16, Seq (Call ''MDb'' [V 9, Dot (Dot (V 1) ''c'') ''length'']) (Call ''JD'' [Idx (Dot (V 1) ''c'') (V 9), K (JNum 25)])]) (Call ''MYb'' [V 16, Bin Plus (V 3) (K (JNum 1)), Seq (Call ''MDb'' [V 9, Dot (Dot (V 1) ''c'') ''length'']) (Call ''JD'' [Idx (Dot (V 1) ''c'') (V 9), K (JNum 25)])]))] []] [Do (Bin Minus (SetV 9 (Bin Minus (V 9) (K (JNum (- 1))))) (K (JNum 1)))], Do (And (V 6) (SetV 5 (Bin Plus (V 5) (K (JNum 1))))), Do (SetV 6 (K (JBool True)))] [], Ret (Cond (Bin Gt (V 5) (K (JNum 0))) (Bin Minus (V 5) (K (JNum 1))) (K (JNum 0)))],
    fn ''ure'' 2 13 [Do (Call ''gre'' []), When (Loose (Call ''ljb'' [G ''Jqe'']) (K (JNum 0))) [Do (SetV 11 (Call ''SC'' [G ''Bcb'', G ''aue'', K (JNum 121), Dot (G ''Lqe'') ''length'', K (JNum 0), K (JNum 1)])), Do (SetV 6 (K (JNum 0))), Loop (Bin Lt (V 6) (Dot (V 11) ''length'')) [Do (PutIdx (V 11) (V 6) (Seq (SetG ''fre'' (Bin Minus (G ''fre'') (K (JNum (- 1))))) (New ''Kre'' [K (JNum 4)])))] [Do (Bin Minus (SetV 6 (Bin Minus (V 6) (K (JNum (- 1))))) (K (JNum 1)))], Do (SetV 3 (New ''_gb'' [])), Do (SetV 5 (K (JNum 0))), Loop (Bin Lt (V 5) (Dot (G ''Iqe'') ''length'')) [Do (SetV 10 (Seq (SetG ''fre'' (Bin Minus (G ''fre'') (K (JNum (- 1))))) (New ''Kre'' [K (JNum 4)]))), When (Bin Lt (V 5) (K (JNum 84))) [Do (SetV 7 (Bin Times (V 5) (K (JNum 2)))), Do (SetV 13 (Seq (Call ''UDb'' [V 7, Dot (G ''gKe'') ''length'']) (Meth (G ''gKe'') ''charCodeAt'' [V 7]))), Do (SetV 12 (Seq (Call ''UDb'' [Bin Plus (V 7) (K (JNum 1)), Dot (G ''gKe'') ''length'']) (Meth (G ''gKe'') ''charCodeAt'' [Bin Plus (V 7) (K (JNum 1))]))), Do (Call ''Ere'' [V 10, V 13, V 12])] [Do (SetV 7 (Bin Times (Bin Minus (V 5) (K (JNum 84))) (K (JNum 2)))), Do (Call ''Ere'' [V 10, Idx (G ''Mqe'') (V 7), Idx (G ''Mqe'') (Bin Plus (V 7) (K (JNum 1)))])], Do (SetV 8 (Idx (G ''Iqe'') (V 5))), Do (And (Call ''vgb'' [V 8, K (JStr ''Specials'')]) (Call ''Ere'' [V 10, K (JNum 65520), K (JNum 65533)])), When (Call ''vgb'' [V 8, G ''eKe'']) [Do (Call ''Ere'' [V 10, K (JNum 983040), K (JNum 1048573)]), Do (Call ''Ere'' [V 10, K (JNum 1048576), K (JNum 1114109)])] [], Do (Call ''ijb'' [G ''Jqe'', V 8, V 10]), Do (Call ''ijb'' [G ''Kqe'', V 8, Call ''Lre'' [V 10]]), Do (SetV 9 (Dot (Dot (V 3) ''a'') ''length'')), Do (Cond (Bin Lt (K (JNum 0)) (V 9)) (Put (V 3) ''a'' (Call ''Jgb'' [Dot (V 3) ''a'', K (JNum 0), K (JNum 0)])) (And (Bin Gt (K (JNum 0)) (V 9)) (Put (V 3) ''a'' (Bin Plus (Dot (V 3) ''a'') (Call ''Rgb'' [Call ''SC'' [G ''_D'', G ''Nue'', K (JNum 30), Minus1 (V 9), K (JNum 15), K (JNum 1)]]))))), Do (Put (V 3) ''a'' (Bin Plus (Dot (V 3) ''a'') (K (JStr ''Is'')))), When (Bin Ge (Call ''Agb'' [V 8, Call ''Pgb'' [K (JNum 32)]]) (K (JNum 0))) [Do (SetV 4 (K (JNum 0))), Loop (Bin Lt (V 4) (Dot (V 8) ''length'')) [Do (Call ''UDb'' [V 4, Dot (V 8) ''length'']), Do (And (Neg (Loose (Meth (V 8) ''charCodeAt'' [V 4]) (K (JNum 32)))) (Call ''Tgb'' [V 3, Seq (Call ''UDb'' [V 4, Dot (V 8) ''length'']) (Meth (V 8) ''charCodeAt'' [V 4])]))] [Do (Bin Minus (SetV 4 (Bin Minus (V 4) (K (JNum (- 1))))) (K (JNum 1)))]] [Do (Put (V 3) ''a'' (Bin Plus (Dot (V 3) ''a'') (Bin Plus (K (JStr '''')) (V 8))))], Do (Call ''yre'' [Dot (V 3) ''a'', V 8, K (JBool True)])] [Do (Bin Minus (SetV 5 (Bin Minus (V 5) (K (JNum (- 1))))) (K (JNum 1)))], Do (Call ''yre'' [G ''fKe'', K (JStr ''Cn''), K (JBool False)]), Do (Call ''yre'' [G ''hKe'', K (JStr ''Cn''), K (JBool True)]), Do (SetV 2 (Seq (SetG ''fre'' (Bin Minus (G ''fre'') (K (JNum (- 1))))) (New ''Kre'' [K (JNum 4)]))), Do (Call ''Ere'' [V 2, K (JNum 0), G ''XJe'']), Do (Call ''ijb'' [G ''Jqe'', K (JStr ''ALL''), V 2]), Do (Call ''ijb'' [G ''Kqe'', K (JStr ''ALL''), Call ''Lre'' [V 2]]), Do (And (Neg (G ''Nqe'')) (SetG ''Nqe'' (New ''_rb'' []))), Do (Call ''ijb'' [G ''Nqe'', G ''fKe'', G ''fKe'']), Do (And (Neg (G ''Nqe'')) (SetG ''Nqe'' (New ''_rb'' []))), Do (Call ''ijb'' [G ''Nqe'', G ''hKe'', G ''hKe'']), Do (And (Neg (G ''Nqe'')) (SetG ''Nqe'' (New ''_rb'' []))), Do (Call ''ijb'' [G ''Nqe'', K (JStr ''ALL''), K (JStr ''ALL'')])] [], Do (SetV 14 (Cond (V 1) (Call ''JD'' [Call ''fjb'' [G ''Jqe'', V 0], K (JNum 137)]) (Call ''JD'' [Call ''fjb'' [G ''Kqe'', V 0], K (JNum 137)]))), Ret (V 14)],
    fn ''TXc'' 1 0 [Do (Call ''zdd'' [V 0, New ''Kcd'' [Call ''Wcd'' [Call ''Rcd'' [Call ''Vcd'' [Call ''Scd'' [Call ''Ucd'' [Call ''Tcd'' [New ''Xcd'' [], G ''aDe''], K (JStr ''ELK Mr. Tree'')], K (JStr (''Tree-based algorithm provided by the Eclipse Layout Kernel. Computes a spanning tree of the input graph and arranges all nodes according to the resulting parent-children hierarchy. I pity the fool who doesn'' @ CHR 0x27 # ''t use Mr. Tree Layout.''))], New ''WXc'' []], G ''bDe''], Call ''Frb'' [Seq (Call ''tEd'' []) (G ''nEd'')]]]]), Do (Call ''xdd'' [V 0, G ''aDe'', G ''Jxe'', G ''DXc'']), Do (Call ''xdd'' [V 0, G ''aDe'', G ''Exe'', K (JNum 20)]), Do (Call ''xdd'' [V 0, G ''aDe'', G ''xBe'', K (JNum 3)]), Do (Call ''xdd'' [V 0, G ''aDe'', G ''Gxe'', G ''Bxe'']), Do (Call ''xdd'' [V 0, G ''aDe'', G ''Dxe'', Call ''Cfb'' [K (JNum 1)]]), Do (Call ''xdd'' [V 0, G ''aDe'', G ''Ixe'', Seq (Call ''Qdb'' []) (K (JBool True))]), Do (Call ''xdd'' [V 0, G ''aDe'', G ''IBe'', Call ''BEd'' [G ''pXc'']]), Do (Call ''xdd'' [V 0, G ''aDe'', G ''MBe'', G ''rXc'']), Do (Call ''xdd'' [V 0, G ''aDe'', G ''Kxe'', Call ''BEd'' [G ''uXc'']]), Do (Call ''xdd'' [V 0, G ''aDe'', G ''gCe'', Call ''BEd'' [G ''vXc'']]), Do (Call ''xdd'' [V 0, G ''aDe'', G ''Qxe'', Call ''BEd'' [G ''xXc'']]), Do (Call ''xdd'' [V 0, G ''aDe'', G ''Oxe'', Call ''BEd'' [G ''yXc'']]), Do (Call ''xdd'' [V 0, G ''aDe'', G ''hye'', Call ''BEd'' [G ''zXc'']]), Do (Call ''xdd'' [V 0, G ''aDe'', G ''Pxe'', Call ''BEd'' [G ''AXc'']]), Do (Call ''xdd'' [V 0, G ''aDe'', G ''Rxe'', Call ''BEd'' [G ''wXc'']]), Do (Call ''xdd'' [V 0, G ''aDe'', G ''Nxe'', Call ''BEd'' [G ''BXc'']]), Do (Call ''xdd'' [V 0, G ''aDe'', G ''Sxe'', Call ''BEd'' [G ''EXc'']]), Do (Call ''xdd'' [V 0, G ''aDe'', G ''YCe'', Call ''BEd'' [G ''RXc'']]), Do (Call ''xdd'' [V 0, G ''aDe'', G ''$Ce'', Call ''BEd'' [G ''HXc'']]), Do (Call ''xdd'' [V 0, G ''aDe'', G ''Txe'', Call ''BEd'' [G ''NXc'']]), Do (Call ''xdd'' [V 0, G ''aDe'', G ''Uxe'', Call ''BEd'' [G ''PXc'']]), Do (Call ''xdd'' [V 0, G ''aDe'', G ''Vxe'', Call ''BEd'' [G ''MXc'']]), Do (Call ''xdd'' [V 0, G ''aDe'', G ''Wxe'', Call ''BEd'' [G ''LXc'']]), Do (Call ''xdd'' [V 0, G ''aDe'', G ''Xxe'', G ''OXc'']), Do (Call ''xdd'' [V 0, G ''aDe'', G ''XCe'', Call ''BEd'' [G ''FXc'']]), Do (Call ''xdd'' [V 0, G ''aDe'', G ''ZCe'', Call ''BEd'' [G ''tXc'']]), Do (Call ''xdd'' [V 0, G ''aDe'', G ''WCe'', Call ''BEd'' [G ''QXc'']]), Do (Call ''xdd'' [V 0, G ''aDe'', G ''UCe'', Call ''BEd'' [G ''oXc'']]), Do (Call ''xdd'' [V 0, G ''aDe'', G ''VCe'', Call ''BEd'' [G ''sXc'']])],
    fn ''WKb'' 2 11 [Do (SetV 9 (Call ''JD'' [Call ''JD'' [Call ''Qc'' [Dot (V 0) ''r'', V 1], K (JNum 22)], K (JNum 83)])), Do (SetV 6 (Call ''xKb'' [V 0, V 1])), Do (SetV 2 (Meth (Dot (V 0) ''u'') ''Gc'' [Seq (Call ''$ld'' []) (G ''Uld'')])), Do (SetV 8 (Meth (V 9) ''Jc'' [])), Loop (Meth (V 8) ''Ob'' []) [Do (SetV 7 (Call ''JD'' [Meth (V 8) ''Pb'' [], K (JNum 115)])), When (Or (Neg (Dot (V 7) ''c'')) (Bin Le (Dot (Dot (Dot (Dot (V 7) ''c'') ''d'') ''c'') ''length'') (K (JNum 0)))) [Continue] [], Do (SetV 12 (Meth (Dot (V 7) ''b'') ''Kf'' [])), Do (SetV 10 (Dot (V 7) ''c'')), Do (SetV 11 (Dot (V 10) ''i'')), Do (Put (V 11) ''b'' (Seq (SetV 5 (Dot (V 10) ''n'')) (Bin Plus (Bin Plus (Dot (Dot (V 10) ''e'') ''a'') (Dot (V 5) ''b'')) (Dot (V 5) ''c'')))), Do (Put (V 11) ''a'' (Seq (SetV 4 (Dot (V 10) ''n'')) (Bin Plus (Bin Plus (Dot (Dot (V 10) ''e'') ''b'') (Dot (V 4) ''d'')) (Dot (V 4) ''a'')))), Switch (Dot (V 1) ''g'') [(Some (JNum 1), [When (Dot (V 7) ''a'') [Do (Put (V 11) ''c'' (Bin Divide (Bin Minus (Dot (V 12) ''a'') (Dot (V 11) ''b'')) (K (JNum 2)))), Do (Call ''uIb'' [V 10, Seq (Call ''hIb'' []) (G ''eIb'')])] [When (Or (V 6) (V 2)) [Do (Put (V 11) ''c'' (Bin Minus (Minus1 (Dot (V 11) ''b'')) (Dot (V 0) ''s''))), Do (Call ''uIb'' [V 10, Seq (Call ''hIb'' []) (G ''gIb'')])] [Do (Put (V 11) ''c'' (Bin Plus (Dot (V 12) ''a'') (Dot (V 0) ''s''))), Do (Call ''uIb'' [V 10, Seq (Call ''hIb'' []) (G ''fIb'')])]], Do (Put (V 11) ''d'' (Bin Minus (Minus1 (Dot (V 11) ''a'')) (Dot (V 0) ''t''))), Do (Call ''vIb'' [V 10, Seq (Call ''$Ib'' []) (G ''XIb'')]), Break]), (Some (JNum 3), [When (Dot (V 7) ''a'') [Do (Put (V 11) ''c'' (Bin Divide (Bin Minus (Dot (V 12) ''a'') (Dot (V 11) ''b'')) (K (JNum 2)))), Do (Call ''uIb'' [V 10, Seq (Call ''hIb'' []) (G ''eIb'')])] [When (Or (V 6) (V 2)) [Do (Put (V 11) ''c'' (Bin Minus (Minus1 (Dot (V 11) ''b'')) (Dot (V 0) ''s''))), Do (Call ''uIb'' [V 10, Seq (Call ''hIb'' []) (G ''gIb'')])] [Do (Put (V 11) ''c'' (Bin Plus (Dot (V 12) ''a'') (Dot (V 0) ''s''))), Do (Call ''uIb'' [V 10, Seq (Call ''hIb'' []) (G ''fIb'')])]], Do (Put (V 11) ''d'' (Bin Plus (Dot (V 12) ''b'') (Dot (V 0) ''t''))), Do (Call ''vIb'' [V 10, Seq (Call ''$Ib'' []) (G ''ZIb'')]), Break]), (Some (JNum 2), [When (Dot (V 7) ''a'') [Do (SetV 3 (Cond (Dot (V 0) ''v'') (Dot (V 11) ''a'') (Dot (Meth (Call ''JD'' [Call ''dmb'' [Dot (V 10) ''d'', K (JNum 0)], K (JNum 187)]) ''Kf'' []) ''b''))), Do (Put (V 11) ''d'' (Bin Divide (Bin Minus (Dot (V 12) ''b'') (V 3)) (K (JNum 2)))), Do (Call ''vIb'' [V 10, Seq (Call ''$Ib'' []) (G ''YIb'')])] [When (Or (V 6) (V 2)) [Do (Put (V 11) ''d'' (Bin Minus (Minus1 (Dot (V 11) ''a'')) (Dot (V 0) ''t''))), Do (Call ''vIb'' [V 10, Seq (Call ''$Ib'' []) (G ''XIb'')])] [Do (Put (V 11) ''d'' (Bin Plus (Dot (V 12) ''b'') (Dot (V 0) ''t''))), Do (Call ''vIb'' [V 10, Seq (Call ''$Ib'' []) (G ''ZIb'')])]], Do (Put (V 11) ''c'' (Bin Plus (Dot (V 12) ''a'') (Dot (V 0) ''s''))), Do (Call ''uIb'' [V 10, Seq (Call ''hIb'' []) (G ''fIb'')]), Break]), (Some (JNum 4), [When (Dot (V 7) ''a'') [Do (SetV 3 (Cond (Dot (V 0) ''v'') (Dot (V 11) ''a'') (Dot (Meth (Call ''JD'' [Call ''dmb'' [Dot (V 10) ''d'', K (JNum 0)], K (JNum 187)]) ''Kf'' []) ''b''))), Do (Put (V 11) ''d'' (Bin Divide (Bin Minus (Dot (V 12) ''b'') (V 3)) (K (JNum 2)))), Do (Call ''vIb'' [V 10, Seq (Call ''$Ib'' []) (G ''YIb'')])] [When (Or (V 6) (V 2)) [Do (Put (V 11) ''d'' (Bin Minus (Minus1 (Dot (V 11) ''a'')) (Dot (V 0) ''t''))), Do (Call ''vIb'' [V 10, Seq (Call ''$Ib'' []) (G ''XIb'')])] [Do (Put (V 11) ''d'' (Bin Plus (Dot (V 12) ''b'') (Dot (V 0) ''t''))), Do (Call ''vIb'' [V 10, Seq (Call ''$Ib'' []) (G ''ZIb'')])]], Do (Put (V 11) ''c'' (Bin Minus (Minus1 (Dot (V 11) ''b'')) (Dot (V 0) ''s''))), Do (Call ''uIb'' [V 10, Seq (Call ''hIb'' []) (G ''gIb'')])])], Do (SetV 6 (K (JBool False)))] []]]"

definition code_6220_6224 :: "(string \<times> jfun) list" where
  "code_6220_6224 = [
    fn ''$Dc'' 3 28 [Do (Meth (V 2) ''Tg'' [K (JStr ''MinWidth layering''), K (JNum 1)]), Do (SetV 13 (Dot (V 1) ''b'')), Do (SetV 23 (Dot (V 1) ''a'')), Do (SetV 30 (Dot (Call ''JD'' [Call ''oNb'' [V 1, Seq (Call ''nyc'' []) (G ''Gwc'')], K (JNum 15)]) ''a'')), Do (SetV 7 (Dot (Call ''JD'' [Call ''oNb'' [V 1, G ''Hwc''], K (JNum 15)]) ''a'')), Do (Put (V 0) ''b'' (Call ''Ueb'' [Call ''MD'' [Call ''oNb'' [V 1, G ''Ixc'']]])), Do (Put (V 0) ''d'' (G ''Cve'')), Do (SetV 20 (New ''Kmb'' [V 23])), Loop (Bin Lt (Dot (V 20) ''a'') (Dot (Dot (Dot (V 20) ''c'') ''c'') ''length'')) [Do (SetV 18 (Call ''JD'' [Call ''Imb'' [V 20], K (JNum 9)])), When (Neg (Loose (Dot (V 18) ''k'') (Seq (Call ''$Yb'' []) (G ''XYb'')))) [Continue] [], Do (SetV 26 (Dot (Dot (V 18) ''o'') ''b'')), Do (Put (V 0) ''d'' (Meth (Dot (G ''$wnd'') ''Math'') ''min'' [Dot (V 0) ''d'', V 26]))] [], Do (Put (V 0) ''d'' (Meth (Dot (G ''$wnd'') ''Math'') ''max'' [K (JNum 1), Dot (V 0) ''d''])), Do (SetV 24 (Dot (Dot (V 23) ''c'') ''length'')), Do (Put (V 0) ''c'' (Call ''SC'' [G ''cE'', G ''bve'', K (JNum 30), V 24, K (JNum 15), K (JNum 1)])), Do (Put (V 0) ''f'' (Call ''SC'' [G ''cE'', G ''bve'', K (JNum 30), V 24, K (JNum 15), K (JNum 1)])), Do (Put (V 0) ''e'' (Call ''SC'' [G ''aE'', G ''Jve'', K (JNum 30), V 24, K (JNum 15), K (JNum 1)])), Do (SetV 9 (K (JNum 0))), Do (Put (V 0) ''a'' (K (JNum 0))), Do (SetV 21 (New ''Kmb'' [V 23])), Loop (Bin Lt (Dot (V 21) ''a'') (Dot (Dot (Dot (V 21) ''c'') ''c'') ''length'')) [Do (SetV 18 (Call ''JD'' [Call ''Imb'' [V 21], K (JNum 9)])), Do (Put (V 18) ''p'' (Bin Minus (SetV 9 (Bin Minus (V 9) (K (JNum (- 1))))) (K (JNum 1)))), Do (PutIdx (Dot (V 0) ''c'') (Dot (V 18) ''p'') (Call ''YDc'' [Call ''EYb'' [V 18]])), Do (PutIdx (Dot (V 0) ''f'') (Dot (V 18) ''p'') (Call ''YDc'' [Call ''HYb'' [V 18]])), Do (PutIdx (Dot (V 0) ''e'') (Dot (V 18) ''p'') (Bin Divide (Dot (Dot (V 18) ''o'') ''b'') (Dot (V 0) ''d''))), Do (Put (V 0) ''a'' (Bin Plus (Dot (V 0) ''a'') (Idx (Dot (V 0) ''e'') (Dot (V 18) ''p''))))] [], Do (Put (V 0) ''b'' (Bin Divide (Dot (V 0) ''b'') (Dot (V 0) ''d''))), Do (Put (V 0) ''a'' (Bin Divide (Dot (V 0) ''a'') (V 24))), Do (SetV 22 (Call ''ZDc'' [V 23])), Do (Call ''jmb'' [V 23, Call ''Pnb'' [New ''eEc'' [V 0]]]), Do (SetV 15 (G ''Cve'')), Do (SetV 14 (G ''Ate'')), Do (SetV 6 (K JNull)), Do (SetV 29 (V 30)), Do (SetV 28 (V 30)), Do (SetV 5 (V 7)), Do (SetV 4 (V 7)), When (Bin Lt (V 30) (K (JNum 0))) [Do (SetV 29 (Dot (Call ''JD'' [Meth (Dot (G ''VDc'') ''a'') ''Gd'' [], K (JNum 15)]) ''a'')), Do (SetV 28 (Dot (Call ''JD'' [Meth (Dot (G ''VDc'') ''b'') ''Gd'' [], K (JNum 15)]) ''a''))] [], When (Bin Lt (V 7) (K (JNum 0))) [Do (SetV 5 (Dot (Call ''JD'' [Meth (Dot (G ''UDc'') ''a'') ''Gd'' [], K (JNum 15)]) ''a'')), Do (SetV 4 (Dot (Call ''JD'' [Meth (Dot (G ''UDc'') ''b'') ''Gd'' [], K (JNum 15)]) ''a''))] [], Do (SetV 27 (V 29)), Loop (Bin Le (V 27) (V 28)) [Do (SetV 3 (V 5)), Loop (Bin Le (V 3) (V 4)) [Do (SetV 25 (Call ''XDc'' [V 0, V 27, V 3, V 23, V 22])), Do (SetV 17 (Call ''Ueb'' [Call ''MD'' [Dot (V 25) ''a'']])), Do (SetV 12 (Call ''JD'' [Dot (V 25) ''b'', K (JNum 16)])), Do (SetV 16 (Meth (V 12) ''gc'' [])), When (Or (Bin Lt (V 17) (V 15)) (And (Loose (V 17) (V 15)) (Bin Lt (V 16) (V 14)))) [Do (SetV 15 (V 17)), Do (SetV 14 (V 16)), Do (SetV 6 (V 12))] []] [Do (Bin Minus (SetV 3 (Bin Minus (V 3) (K (JNum (- 1))))) (K (JNum 1)))]] [Do (Bin Minus (SetV 27 (Bin Minus (V 27) (K (JNum (- 1))))) (K (JNum 1)))], Do (SetV 11 (Meth (V 6) ''Jc'' [])), Loop (Meth (V 11) ''Ob'' []) [Do (SetV 10 (Call ''JD'' [Meth (V 11) ''Pb'' [], K (JNum 16)])), Do (SetV 8 (New ''y$b'' [V 1])), Do (SetV 19 (Meth (V 10) ''Jc'' [])), Loop (Meth (V 19) ''Ob'' []) [Do (SetV 18 (Call ''JD'' [Meth (V 19) ''Pb'' [], K (JNum 9)])), Do (Call ''NYb'' [V 18, V 8])] [], Do (Call ''qDb'' [Dot (V 13) ''c'', V 8])] [], Do (Call ''Onb'' [V 13]), Do (Put (Dot (V 23) ''c'') ''length'' (K (JNum 0))), Do (Meth (V 2) ''Ug'' [])],
    fn ''A9b'' 2 22 [Do (Meth (V 1) ''Tg'' [G ''Xye'', K (JNum 1)]), Do (SetV 15 (New ''lmb'' [])), Do (SetV 22 (New ''lmb'' [])), Do (SetV 9 (New ''Kmb'' [Dot (V 0) ''b''])), Loop (Bin Lt (Dot (V 9) ''a'') (Dot (Dot (Dot (V 9) ''c'') ''c'') ''length'')) [Do (SetV 8 (Call ''JD'' [Call ''Imb'' [V 9], K (JNum 25)])), Do (SetV 17 (K (JNum (- 1)))), Do (SetV 14 (Call ''$Xb'' [Dot (V 8) ''a''])), Do (Seq (Seq (SetV 11 (V 14)) (SetV 12 (K (JNum 0)))) (SetV 13 (Dot (V 11) ''length''))), Loop (Bin Lt (V 12) (V 13)) [Do (SetV 10 (Idx (V 11) (V 12))), Do (SetV 17 (Bin Minus (V 17) (K (JNum (- 1))))), When (Neg (And (Loose (Dot (V 10) ''k'') (Seq (Call ''$Yb'' []) (G ''XYb''))) (Call ''Old'' [Call ''JD'' [Call ''oNb'' [V 10, Seq (Call ''nyc'' []) (G ''qxc'')], K (JNum 102)]]))) [Continue] [], Do (And (And (Neg (Call ''Nld'' [Call ''JD'' [Call ''oNb'' [V 10, Seq (Call ''nyc'' []) (G ''qxc'')], K (JNum 102)]])) (Same (Call ''XD'' [Call ''oNb'' [Call ''DYb'' [V 10], G ''Ovc'']]) (Call ''XD'' [Seq (Call ''_zc'' []) (G ''Yzc'')]))) (Call ''B9b'' [V 10])), Do (Call ''rNb'' [V 10, Seq (Call ''Wrc'' []) (G ''grc''), V 10]), Do (Put (Dot (V 15) ''c'') ''length'' (K (JNum 0))), Do (Put (Dot (V 22) ''c'') ''length'' (K (JNum 0))), Do (SetV 2 (New ''lmb'' [])), Do (SetV 20 (New ''dub'' [])), Do (Call ''Vq'' [V 20, Call ''LYb'' [V 10, Seq (Call ''Bmd'' []) (G ''hmd'')]]), Do (And (Neg (Same (Call ''XD'' [Call ''oNb'' [Call ''DYb'' [V 10], G ''Ovc'']]) (Call ''XD'' [Seq (Call ''_zc'' []) (G ''Yzc'')]))) (SetV 20 (Call ''z9b'' [V 20]))), Do (Call ''x9b'' [V 0, V 20, V 15, V 22, V 2]), Do (SetV 7 (V 17)), Do (SetV 23 (V 10)), Do (SetV 5 (New ''Kmb'' [V 15])), Loop (Bin Lt (Dot (V 5) ''a'') (Dot (Dot (Dot (V 5) ''c'') ''c'') ''length'')) [Do (SetV 3 (Call ''JD'' [Call ''Imb'' [V 5], K (JNum 9)])), Do (Call ''MYb'' [V 3, V 7, V 8]), Do (SetV 17 (Bin Minus (V 17) (K (JNum (- 1))))), Do (Call ''rNb'' [V 3, G ''grc'', V 10]), Do (SetV 6 (Call ''JD'' [Call ''dmb'' [Dot (V 3) ''j'', K (JNum 0)], K (JNum 12)])), Do (SetV 16 (Call ''JD'' [Call ''oNb'' [V 6, G ''urc''], K (JNum 12)])), Do (Or (Call ''Rdb'' [Call ''LD'' [Call ''oNb'' [V 16, G ''uvc'']]]) (Meth (Call ''JD'' [Call ''oNb'' [V 3, G ''hrc''], K (JNum 16)]) ''Ec'' [V 23]))] [], Do (Call ''cub'' [V 20]), Do (SetV 19 (Meth (Call ''LYb'' [V 10, G ''ymd'']) ''Jc'' [])), Loop (Meth (V 19) ''Ob'' []) [Do (SetV 18 (Call ''JD'' [Meth (V 19) ''Pb'' [], K (JNum 12)])), Do (Call ''Wtb'' [V 20, V 18, Dot (V 20) ''a'', Dot (Dot (V 20) ''a'') ''a''])] [], Do (And (Neg (Same (Call ''XD'' [Call ''oNb'' [Call ''DYb'' [V 10], G ''Ovc'']]) (Call ''XD'' [G ''Yzc'']))) (SetV 20 (Call ''z9b'' [V 20]))), Do (Call ''x9b'' [V 0, V 20, V 22, K JNull, V 2]), Do (SetV 21 (V 10)), Do (SetV 4 (New ''Kmb'' [V 22])), Loop (Bin Lt (Dot (V 4) ''a'') (Dot (Dot (Dot (V 4) ''c'') ''c'') ''length'')) [Do (SetV 3 (Call ''JD'' [Call ''Imb'' [V 4], K (JNum 9)])), Do (Call ''MYb'' [V 3, SetV 17 (Bin Minus (V 17) (K (JNum (- 1)))), V 8]), Do (Call ''rNb'' [V 3, G ''grc'', V 10]), Do (SetV 6 (Call ''JD'' [Call ''dmb'' [Dot (V 3) ''j'', K (JNum 0)], K (JNum 12)])), Do (SetV 16 (Call ''JD'' [Call ''oNb'' [V 6, G ''urc''], K (JNum 12)])), Do (Or (Call ''Rdb'' [Call ''LD'' [Call ''oNb'' [V 16, G ''uvc'']]]) (Meth (Call ''JD'' [Call ''oNb'' [V 21, G ''hrc''], K (JNum 16)]) ''Ec'' [V 3]))] [], Do (Or (Loose (Dot (Dot (V 2) ''c'') ''length'') (K (JNum 0))) (Call ''rNb'' [V 10, G ''Kqc'', V 2]))] [Do (SetV 12 (Bin Minus (V 12) (K (JNum (- 1)))))]] [], Do (Meth (V 1) ''Ug'' [])],
    fn ''Iod'' 7 24 [Do (SetV 13 (K (JNum 0))), Do (SetV 26 (K (JNum 0))), Do (SetV 8 (New ''Kmb'' [V 0])), Loop (Bin Lt (Dot (V 8) ''a'') (Dot (Dot (Dot (V 8) ''c'') ''c'') ''length'')) [Do (SetV 7 (Call ''JD'' [Call ''Imb'' [V 8], K (JNum 26)])), Do (Call ''dqd'' [V 7]), Do (SetV 13 (Meth (Dot (G ''$wnd'') ''Math'') ''max'' [V 13, Dot (V 7) ''g''])), Do (SetV 26 (Bin Plus (V 26) (Bin Times (Dot (V 7) ''g'') (Dot (V 7) ''f''))))] [], Do (SetV 14 (Bin Divide (V 26) (Dot (Dot (V 0) ''c'') ''length''))), Do (SetV 25 (Call ''Cod'' [V 0, V 14])), Do (SetV 26 (Bin Plus (V 26) (Bin Times (Dot (Dot (V 0) ''c'') ''length'') (V 25)))), Do (SetV 26 (Bin Plus (V 26) (Bin Times (Meth (Dot (G ''$wnd'') ''Math'') ''sqrt'' [V 26]) (Bin Plus (Dot (V 2) ''a'') (Dot (V 2) ''d''))))), Do (SetV 26 (Bin Plus (V 26) (Bin Times (Meth (Dot (G ''$wnd'') ''Math'') ''sqrt'' [V 26]) (Dot (V 2) ''c'')))), Do (SetV 13 (Bin Plus (Meth (Dot (G ''$wnd'') ''Math'') ''max'' [V 13, Meth (Dot (G ''$wnd'') ''Math'') ''sqrt'' [Bin Times (V 26) (V 6)]]) (Dot (V 2) ''b''))), Do (SetV 29 (Dot (V 2) ''b'')), Do (SetV 30 (Dot (V 2) ''d'')), Do (SetV 12 (K (JNum 0))), Do (SetV 10 (Bin Plus (Dot (V 2) ''b'') (Dot (V 2) ''c''))), Do (SetV 24 (New ''dub'' [])), Do (Call ''Ttb'' [V 24, Call ''Cfb'' [K (JNum 0)]]), Do (SetV 22 (New ''dub'' [])), Do (SetV 9 (New ''Tjb'' [V 0, K (JNum 0)])), Loop (Bin Lt (Dot (V 9) ''b'') (Meth (Dot (V 9) ''d'') ''gc'' [])) [Do (SetV 7 (Seq (Call ''LDb'' [Bin Lt (Dot (V 9) ''b'') (Meth (Dot (V 9) ''d'') ''gc'' [])]) (Call ''JD'' [Meth (Dot (V 9) ''d'') ''Xb'' [Put (V 9) ''c'' (Bin Minus (Put (V 9) ''b'' (Bin Minus (Dot (V 9) ''b'') (K (JNum (- 1))))) (K (JNum 1)))], K (JNum 26)]))), Do (SetV 28 (Dot (V 7) ''g'')), Do (SetV 11 (Dot (V 7) ''f'')), When (Bin Gt (Bin Plus (V 29) (V 28)) (V 13)) [When (V 5) [Do (Call ''Vtb'' [V 22, V 12]), Do (Call ''Vtb'' [V 24, Call ''Cfb'' [Bin Minus (Dot (V 9) ''b'') (K (JNum 1))]])] [], Do (SetV 29 (Dot (V 2) ''b'')), Do (SetV 30 (Bin Plus (V 30) (Bin Plus (V 12) (V 1)))), Do (SetV 12 (K (JNum 0))), Do (SetV 10 (Meth (Dot (G ''$wnd'') ''Math'') ''max'' [V 10, Bin Plus (Bin Plus (Dot (V 2) ''b'') (Dot (V 2) ''c'')) (V 28)]))] [], Do (Call ''_vd'' [V 7, V 29]), Do (Call ''awd'' [V 7, V 30]), Do (SetV 10 (Meth (Dot (G ''$wnd'') ''Math'') ''max'' [V 10, Bin Plus (Bin Plus (V 29) (V 28)) (Dot (V 2) ''c'')])), Do (SetV 12 (Meth (Dot (G ''$wnd'') ''Math'') ''max'' [V 12, V 11])), Do (SetV 29 (Bin Plus (V 29) (Bin Plus (V 28) (V 1))))] [], Do (SetV 10 (Meth (Dot (G ''$wnd'') ''Math'') ''max'' [V 10, V 3])), Do (SetV 27 (Bin Plus (Bin Plus (V 30) (V 12)) (Dot (V 2) ''a''))), When (Bin Lt (V 27) (V 4)) [Do (SetV 12 (Bin Plus (V 12) (Bin Minus (V 4) (V 27)))), Do (SetV 27 (V 4))] [], When (V 5) [Do (SetV 29 (Dot (V 2) ''b'')), Do (SetV 9 (New ''Tjb'' [V 0, K (JNum 0)])), Do (Call ''Vtb'' [V 24, Call ''Cfb'' [Dot (Dot (V 0) ''c'') ''length'']]), Do (SetV 23 (Call ''Ztb'' [V 24, K (JNum 0)])), Do (SetV 17 (Dot (Call ''JD'' [Call ''lub'' [V 23], K (JNum 15)]) ''a'')), Do (Call ''Vtb'' [V 22, V 12]), Do (SetV 21 (Call ''Ztb'' [V 22, K (JNum 0)])), Do (SetV 20 (K (JNum 0))), Loop (Bin Lt (Dot (V 9) ''b'') (Meth (Dot (V 9) ''d'') ''gc'' [])) [When (Loose (Dot (V 9) ''b'') (V 17)) [Do (SetV 29 (Dot (V 2) ''b'')), Do (SetV 20 (Call ''Ueb'' [Call ''MD'' [Call ''lub'' [V 21]]])), Do (SetV 17 (Dot (Call ''JD'' [Call ''lub'' [V 23], K (JNum 15)]) ''a''))] [], Do (SetV 7 (Seq (Call ''LDb'' [Bin Lt (Dot (V 9) ''b'') (Meth (Dot (V 9) ''d'') ''gc'' [])]) (Call ''JD'' [Meth (Dot (V 9) ''d'') ''Xb'' [Put (V 9) ''c'' (Bin Minus (Put (V 9) ''b'' (Bin Minus (Dot (V 9) ''b'') (K (JNum (- 1))))) (K (JNum 1)))], K (JNum 26)]))), Do (SetV 18 (Dot (V 7) ''f'')), Do (Call ''Yvd'' [V 7, V 20]), Do (SetV 15 (V 20)), When (Loose (Dot (V 9) ''b'') (V 17)) [Do (SetV 16 (Bin Minus (Bin Minus (V 10) (V 29)) (Dot (V 2) ''c''))), Do (SetV 19 (Dot (V 7) ''g'')), Do (Call ''$vd'' [V 7, V 16]), Do (Call ''jqd'' [V 7, New ''lgd'' [V 16, V 15], New ''lgd'' [V 19, V 18]])] [], Do (SetV 29 (Bin Plus (V 29) (Bin Plus (Dot (V 7) ''g'') (V 1))))] []] [], Ret (New ''lgd'' [V 10, V 27])],
    fn ''DRc'' 3 26 [Do (Meth (V 2) ''Tg'' [K (JStr ''Spline edge routing''), K (JNum 1)]), When (Loose (Dot (Dot (Dot (V 1) ''b'') ''c'') ''length'') (K (JNum 0))) [Do (Put (Dot (V 1) ''f'') ''a'' (K (JNum 0))), Do (Meth (V 2) ''Ug'' []), Ret (K JUndef)] [], Do (SetV 18 (Call ''Ueb'' [Call ''MD'' [Call ''oNb'' [V 1, Seq (Call ''nyc'' []) (G ''Txc'')]]])), Do (SetV 7 (Call ''Ueb'' [Call ''MD'' [Call ''oNb'' [V 1, G ''Mxc'']]])), Do (SetV 6 (Call ''Ueb'' [Call ''MD'' [Call ''oNb'' [V 1, G ''Jxc'']]])), Do (SetV 17 (Call ''JD'' [Call ''oNb'' [V 1, G ''nwc''], K (JNum 349)])), Do (SetV 24 (Loose (V 17) (Seq (Call ''aBc'' []) (G ''_Ac'')))), Do (SetV 23 (Call ''Ueb'' [Call ''MD'' [Call ''oNb'' [V 1, G ''owc'']]])), Do (Put (V 0) ''d'' (V 1)), Do (Put (Dot (Dot (V 0) ''j'') ''c'') ''length'' (K (JNum 0))), Do (Put (Dot (Dot (V 0) ''a'') ''c'') ''length'' (K (JNum 0))), Do (Call ''kjb'' [Dot (V 0) ''k'']), Do (SetV 8 (Call ''JD'' [Call ''dmb'' [Dot (V 1) ''b'', K (JNum 0)], K (JNum 25)])), Do (SetV 10 (Call ''Wq'' [Dot (V 8) ''a'', Seq (Call ''OOc'' []) (G ''MOc'')])), Do (SetV 14 (Call ''JD'' [Call ''dmb'' [Dot (V 1) ''b'', Bin Minus (Dot (Dot (Dot (V 1) ''b'') ''c'') ''length'') (K (JNum 1))], K (JNum 25)])), Do (SetV 11 (Call ''Wq'' [Dot (V 14) ''a'', G ''MOc''])), Do (SetV 15 (New ''Kmb'' [Dot (V 1) ''b''])), Do (SetV 16 (K JNull)), Do (SetV 28 (K (JNum 0))), Loop (K (JBool True)) [Do (SetV 19 (Cond (Bin Lt (Dot (V 15) ''a'') (Dot (Dot (Dot (V 15) ''c'') ''c'') ''length'')) (Call ''JD'' [Call ''Imb'' [V 15], K (JNum 25)]) (K JNull))), Do (Call ''rRc'' [V 0, V 16, V 19]), Do (Call ''uRc'' [V 0]), Do (SetV 25 (Call ''jvb'' [Call ''GBb'' [Call ''_Bb'' [Call ''VBb'' [New ''jCb'' [K JNull, New ''Zvb'' [Dot (V 0) ''i'', K (JNum 16)]], New ''URc'' []], New ''WRc'' []]]])), Do (SetV 27 (K (JNum 0))), Do (SetV 20 (V 28)), Do (SetV 12 (Or (Neg (V 16)) (And (V 10) (Loose (V 16) (V 8))))), Do (SetV 13 (Or (Neg (V 19)) (And (V 11) (Loose (V 19) (V 14))))), When (Bin Gt (V 25) (K (JNum 0))) [Do (SetV 9 (K (JNum 0))), Do (And (Neg (Neg (V 16))) (SetV 9 (Bin Plus (V 9) (V 7)))), Do (SetV 9 (Bin Plus (V 9) (Bin Times (Bin Minus (V 25) (K (JNum 1))) (V 6)))), Do (And (Neg (Neg (V 19))) (SetV 9 (Bin Plus (V 9) (V 7)))), Do (And (And (V 24) (Neg (Neg (V 19)))) (SetV 9 (Meth (Dot (G ''$wnd'') ''Math'') ''max'' [V 9, Call ''sRc'' [V 19, V 6, V 18, V 23]]))), When (And (And (Bin Lt (V 9) (V 18)) (Neg (V 12))) (Neg (V 13))) [Do (SetV 27 (Bin Divide (Bin Minus (V 18) (V 9)) (K (JNum 2)))), Do (SetV 9 (V 18))] [], Do (SetV 20 (Bin Plus (V 20) (V 9)))] [Do (And (And (Neg (V 12)) (Neg (V 13))) (SetV 20 (Bin Plus (V 20) (V 18))))], Do (And (Neg (Neg (V 19))) (Call ''WXb'' [V 19, V 20])), Do (SetV 22 (New ''Kmb'' [Dot (V 0) ''i''])), Loop (Bin Lt (Dot (V 22) ''a'') (Dot (Dot (Dot (V 22) ''c'') ''c'') ''length'')) [Do (SetV 21 (Call ''JD'' [Call ''Imb'' [V 22], K (JNum 132)])), Do (Put (Dot (V 21) ''a'') ''c'' (V 28)), Do (Put (Dot (V 21) ''a'') ''b'' (Bin Minus (V 20) (V 28))), Do (Put (V 21) ''F'' (V 27)), Do (Put (V 21) ''p'' (Neg (V 16)))] [], Do (Call ''bmb'' [Dot (V 0) ''a'', Dot (V 0) ''i'']), Do (SetV 28 (V 20)), Do (And (Neg (Neg (V 19))) (SetV 28 (Bin Plus (V 28) (Dot (Dot (V 19) ''c'') ''a'')))), Do (SetV 16 (V 19)), Do (SetV 12 (V 13))] [When (V 19) [] [Break]], Do (SetV 4 (New ''Kmb'' [Dot (V 0) ''j''])), Loop (Bin Lt (Dot (V 4) ''a'') (Dot (Dot (Dot (V 4) ''c'') ''c'') ''length'')) [Do (SetV 3 (Call ''JD'' [Call ''Imb'' [V 4], K (JNum 17)])), Do (SetV 5 (Call ''yRc'' [V 0, V 3])), Do (Call ''rNb'' [V 3, Seq (Call ''Wrc'' []) (G ''Lrc''), V 5]), Do (SetV 26 (Call ''ARc'' [V 0, V 3])), Do (Call ''rNb'' [V 3, G ''Nrc'', V 26])] [], Do (Put (Dot (V 1) ''f'') ''a'' (V 28)), Do (Put (V 0) ''d'' (K JNull)), Do (Meth (V 2) ''Ug'' [])],
    fn ''L3b'' 2 25 [Do (Put (V 0) ''b'' (V 1)), Do (Put (V 0) ''a'' (Dot (Call ''JD'' [Call ''oNb'' [V 1, Seq (Call ''nyc'' []) (G ''twc'')], K (JNum 15)]) ''a'')), Do (Put (V 0) ''c'' (Dot (Call ''JD'' [Call ''oNb'' [V 1, G ''vwc''], K (JNum 15)]) ''a'')), Do (And (Loose (Dot (V 0) ''c'') (K (JNum 0))) (Put (V 0) ''c'' (G ''Ate''))), Do (SetV 16 (New ''Tjb'' [Dot (V 1) ''b'', K (JNum 0)])), Loop (Bin Lt (Dot (V 16) ''b'') (Meth (Dot (V 16) ''d'') ''gc'' [])) [Do (SetV 15 (Seq (Call ''LDb'' [Bin Lt (Dot (V 16) ''b'') (Meth (Dot (V 16) ''d'') ''gc'' [])]) (Call ''JD'' [Meth (Dot (V 16) ''d'') ''Xb'' [Put (V 16) ''c'' (Bin Minus (Put (V 16) ''b'' (Bin Minus (Dot (V 16) ''b'') (K (JNum (- 1))))) (K (JNum 1)))], K (JNum 25)]))), Do (SetV 7 (New ''lmb'' [])), Do (SetV 10 (K (JNum (- 1)))), Do (SetV 20 (K (JNum (- 1)))), Do (SetV 19 (New ''Kmb'' [Dot (V 15) ''a''])), Loop (Bin Lt (Dot (V 19) ''a'') (Dot (Dot (Dot (V 19) ''c'') ''c'') ''length'')) [Do (SetV 18 (Call ''JD'' [Call ''Imb'' [V 19], K (JNum 9)])), When (Bin Ge (Call ''Br'' [Seq (Call ''G3b'' []) (New ''Yr'' [Call ''Dr'' [Meth (Dot (Call ''BYb'' [V 18]) ''a'') ''Jc'' [], New ''Dl'' []]])]) (Dot (V 0) ''a'')) [Do (SetV 3 (Call ''H3b'' [V 0, V 18])), Do (SetV 10 (Meth (Dot (G ''$wnd'') ''Math'') ''max'' [V 10, Dot (V 3) ''b''])), Do (SetV 20 (Meth (Dot (G ''$wnd'') ''Math'') ''max'' [V 20, Dot (V 3) ''d''])), Do (Call ''_lb'' [V 7, New ''prd'' [V 18, V 3]])] []] [], Do (SetV 24 (New ''lmb'' [])), Do (SetV 9 (K (JNum 0))), Loop (Bin Lt (V 9) (V 10)) [Do (Call ''$lb'' [V 24, K (JNum 0), Seq (Seq (Seq (Seq (Seq (Seq (Call ''LDb'' [Bin Gt (Dot (V 16) ''b'') (K (JNum 0))]) (Meth (Dot (V 16) ''a'') ''Xb'' [Put (V 16) ''c'' (Put (V 16) ''b'' (Bin Minus (Dot (V 16) ''b'') (K (JNum 1))))])) (SetV 25 (New ''y$b'' [Dot (V 0) ''b'']))) (Call ''Sjb'' [V 16, V 25])) (Call ''LDb'' [Bin Lt (Dot (V 16) ''b'') (Meth (Dot (V 16) ''d'') ''gc'' [])])) (Meth (Dot (V 16) ''d'') ''Xb'' [Put (V 16) ''c'' (Bin Minus (Put (V 16) ''b'' (Bin Minus (Dot (V 16) ''b'') (K (JNum (- 1))))) (K (JNum 1)))])) (V 25)])] [Do (SetV 9 (Bin Minus (V 9) (K (JNum (- 1)))))], Do (SetV 6 (New ''Kmb'' [V 7])), Loop (Bin Lt (Dot (V 6) ''a'') (Dot (Dot (Dot (V 6) ''c'') ''c'') ''length'')) [Do (SetV 4 (Call ''JD'' [Call ''Imb'' [V 6], K (JNum 49)])), Do (SetV 13 (Dot (Call ''JD'' [Dot (V 4) ''b'', K (JNum 566)]) ''a'')), When (Neg (V 13)) [Continue] [], Do (SetV 12 (New ''Kmb'' [V 13])), Loop (Bin Lt (Dot (V 12) ''a'') (Dot (Dot (Dot (V 12) ''c'') ''c'') ''length'')) [Do (SetV 11 (Call ''JD'' [Call ''Imb'' [V 12], K (JNum 9)])), Do (Call ''K3b'' [V 0, V 11, G ''E3b'', V 24])] []] [], Do (SetV 2 (New ''lmb'' [])), Do (SetV 8 (K (JNum 0))), Loop (Bin Lt (V 8) (V 20)) [Do (Call ''_lb'' [V 2, Seq (Seq (SetV 26 (New ''y$b'' [Dot (V 0) ''b''])) (Call ''Sjb'' [V 16, V 26])) (V 26)])] [Do (SetV 8 (Bin Minus (V 8) (K (JNum (- 1)))))], Do (SetV 5 (New ''Kmb'' [V 7])), Loop (Bin Lt (Dot (V 5) ''a'') (Dot (Dot (Dot (V 5) ''c'') ''c'') ''length'')) [Do (SetV 4 (Call ''JD'' [Call ''Imb'' [V 5], K (JNum 49)])), Do (SetV 23 (Dot (Call ''JD'' [Dot (V 4) ''b'', K (JNum 566)]) ''c'')), When (Neg (V 23)) [Continue] [], Do (SetV 22 (New ''Kmb'' [V 23])), Loop (Bin Lt (Dot (V 22) ''a'') (Dot (Dot (Dot (V 22) ''c'') ''c'') ''length'')) [Do (SetV 21 (Call ''JD'' [Call ''Imb'' [V 22], K (JNum 9)])), Do (Call ''K3b'' [V 0, V 21, G ''F3b'', V 2])] []] []] [], Do (SetV 17 (New ''Tjb'' [Dot (V 1) ''b'', K (JNum 0)])), Loop (Bin Lt (Dot (V 17) ''b'') (Meth (Dot (V 17) ''d'') ''gc'' [])) [Do (SetV 14 (Seq (Call ''LDb'' [Bin Lt (Dot (V 17) ''b'') (Meth (Dot (V 17) ''d'') ''gc'' [])]) (Call ''JD'' [Meth (Dot (V 17) ''d'') ''Xb'' [Put (V 17) ''c'' (Bin Minus (Put (V 17) ''b'' (Bin Minus (Dot (V 17) ''b'') (K (JNum (- 1))))) (K (JNum 1)))], K (JNum 25)]))), Do (And (Loose (Dot (Dot (Dot (V 14) ''a'') ''c'') ''length'') (K (JNum 0))) (Call ''Mjb'' [V 17]))] []]]"

definition object_table32 :: "(string \<times> jfun) list" where
  "object_table32 = code_6190_6194 @ code_6201_6206 @ code_6207_6211 @ code_6212_6212 @ code_6214_6218 @ code_6220_6224"

text \<open>The names each table declares.\<close>

lemma names_6190_6194 [js_names]: "map fst code_6190_6194 = [
    ''ZEd'', ''vxd'', ''Sfc'', ''RKb'', ''Jib'']"
  by (simp add: code_6190_6194_def fn_def)

lemma names_6201_6206 [js_names]: "map fst code_6201_6206 = [
    ''HNc'', ''J0b'', ''zDc'', ''L5c'', ''NVb'', ''WTc'']"
  by (simp add: code_6201_6206_def fn_def)

lemma names_6207_6211 [js_names]: "map fst code_6207_6211 = [
    ''UMb'', ''Noe'', ''p9b'', ''uNc'', ''TKc'']"
  by (simp add: code_6207_6211_def fn_def)

lemma names_6212_6212 [js_names]: "map fst code_6212_6212 = [
    ''rHb'']"
  by (simp add: code_6212_6212_def fn_def)

lemma names_6214_6218 [js_names]: "map fst code_6214_6218 = [
    ''bPb'', ''$lc'', ''ure'', ''TXc'', ''WKb'']"
  by (simp add: code_6214_6218_def fn_def)

lemma names_6220_6224 [js_names]: "map fst code_6220_6224 = [
    ''$Dc'', ''A9b'', ''Iod'', ''DRc'', ''L3b'']"
  by (simp add: code_6220_6224_def fn_def)

end
