(* ===== verification/ObjectTable33.thy ===== *)
theory ObjectTable33
  imports ObjectCode
begin

text \<open>
  Functions of \<open>layout-worker.js\<close>, lines 6226 to 6253, in the order of the file, one per line:
  the algorithms of the layout engine, longer operations of the runtime's collections and of options,
  with their loops, \<open>switch\<close> and \<open>try\<close> statements. An entry has the name, the
  number of parameters, the number of further local variables and the body; parameters and locals
  are numbered from 0, the variable of a \<open>catch\<close> has a number of its own, \<open>x++\<close> is \<open>(x=x+1)-1\<close>. Lines
  with a construct outside \<open>jexp\<close> and \<open>jstm\<close> (closures, \<open>in\<close>, floating-point literals, host objects) are
  left out.
\<close>

definition code_6226_6230 :: "(string \<times> jfun) list" where
  "code_6226_6230 = [
    fn ''OUb'' 2 18 [Do (SetV 2 (New ''VUb'' [V 1])), Do (Or (Dot (V 2) ''a'') (Call ''HUb'' [V 1])), Do (SetV 9 (Call ''GUb'' [V 1])), Do (SetV 8 (New ''Np'' [])), Do (SetV 16 (New ''hVb'' [])), Do (SetV 15 (New ''Kmb'' [Dot (V 1) ''a''])), Loop (Bin Lt (Dot (V 15) ''a'') (Dot (Dot (Dot (V 15) ''c'') ''c'') ''length'')) [Do (SetV 14 (Call ''JD'' [Call ''Imb'' [V 15], K (JNum 9)])), Do (SetV 4 (New ''Yr'' [Call ''Dr'' [Meth (Dot (Call ''HYb'' [V 14]) ''a'') ''Jc'' [], New ''Dl'' []]])), Loop (Call ''Wr'' [V 4]) [Do (SetV 3 (Call ''JD'' [Call ''Xr'' [V 4], K (JNum 17)])), When (Or (Loose (Dot (Dot (Dot (V 3) ''c'') ''i'') ''k'') (Seq (Call ''$Yb'' []) (G ''TYb''))) (Loose (Dot (Dot (Dot (V 3) ''d'') ''i'') ''k'') (G ''TYb''))) [Do (SetV 10 (Call ''NUb'' [V 0, V 3, V 9, V 16])), Do (Call ''Rc'' [V 8, Call ''LUb'' [Dot (V 10) ''d''], Dot (V 10) ''a''])] []] []] [], Do (SetV 6 (New ''lmb'' [])), Do (SetV 19 (Meth (Call ''JD'' [Call ''oNb'' [Dot (V 2) ''c'', Seq (Call ''Wrc'' []) (G ''Xqc'')], K (JNum 22)]) ''Jc'' [])), Loop (Meth (V 19) ''Ob'' []) [Do (SetV 18 (Call ''JD'' [Meth (V 19) ''Pb'' [], K (JNum 64)])), Do (SetV 13 (Idx (Dot (V 16) ''c'') (Dot (V 18) ''g''))), Do (SetV 12 (Idx (Dot (V 16) ''b'') (Dot (V 18) ''g''))), Do (SetV 7 (Idx (Dot (V 16) ''a'') (Dot (V 18) ''g''))), Do (SetV 5 (K JNull)), Do (SetV 17 (K JNull)), Switch (Dot (V 18) ''g'') [(Some (JNum 4), [Do (SetV 5 (New ''Pfd'' [Dot (Dot (V 0) ''d'') ''a'', V 13, Bin Minus (Dot (Dot (V 9) ''b'') ''a'') (Dot (Dot (V 0) ''d'') ''a''), Bin Minus (V 12) (V 13)])), Do (SetV 17 (New ''Pfd'' [Dot (Dot (V 0) ''d'') ''a'', V 13, V 7, Bin Minus (V 12) (V 13)])), Do (Call ''RUb'' [V 9, New ''lgd'' [Bin Plus (Dot (V 5) ''c'') (Dot (V 5) ''b''), Dot (V 5) ''d'']]), Do (Call ''RUb'' [V 9, New ''lgd'' [Bin Plus (Dot (V 5) ''c'') (Dot (V 5) ''b''), Bin Plus (Dot (V 5) ''d'') (Dot (V 5) ''a'')]]), Break]), (Some (JNum 2), [Do (SetV 5 (New ''Pfd'' [Dot (Dot (V 9) ''a'') ''a'', V 13, Bin Minus (Dot (Dot (V 0) ''c'') ''a'') (Dot (Dot (V 9) ''a'') ''a''), Bin Minus (V 12) (V 13)])), Do (SetV 17 (New ''Pfd'' [Bin Minus (Dot (Dot (V 0) ''c'') ''a'') (V 7), V 13, V 7, Bin Minus (V 12) (V 13)])), Do (Call ''RUb'' [V 9, New ''lgd'' [Dot (V 5) ''c'', Dot (V 5) ''d'']]), Do (Call ''RUb'' [V 9, New ''lgd'' [Dot (V 5) ''c'', Bin Plus (Dot (V 5) ''d'') (Dot (V 5) ''a'')]]), Break]), (Some (JNum 1), [Do (SetV 5 (New ''Pfd'' [V 13, Dot (Dot (V 0) ''d'') ''b'', Bin Minus (V 12) (V 13), Bin Minus (Dot (Dot (V 9) ''b'') ''b'') (Dot (Dot (V 0) ''d'') ''b'')])), Do (SetV 17 (New ''Pfd'' [V 13, Dot (Dot (V 0) ''d'') ''b'', Bin Minus (V 12) (V 13), V 7])), Do (Call ''RUb'' [V 9, New ''lgd'' [Dot (V 5) ''c'', Bin Plus (Dot (V 5) ''d'') (Dot (V 5) ''a'')]]), Do (Call ''RUb'' [V 9, New ''lgd'' [Bin Plus (Dot (V 5) ''c'') (Dot (V 5) ''b''), Bin Plus (Dot (V 5) ''d'') (Dot (V 5) ''a'')]]), Break]), (Some (JNum 3), [Do (SetV 5 (New ''Pfd'' [V 13, Dot (Dot (V 9) ''a'') ''b'', Bin Minus (V 12) (V 13), Bin Minus (Dot (Dot (V 0) ''c'') ''b'') (Dot (Dot (V 9) ''a'') ''b'')])), Do (SetV 17 (New ''Pfd'' [V 13, Bin Minus (Dot (Dot (V 0) ''c'') ''b'') (V 7), Bin Minus (V 12) (V 13), V 7])), Do (Call ''RUb'' [V 9, New ''lgd'' [Dot (V 5) ''c'', Dot (V 5) ''d'']]), Do (Call ''RUb'' [V 9, New ''lgd'' [Bin Plus (Dot (V 5) ''c'') (Dot (V 5) ''b''), Dot (V 5) ''d'']])])], When (V 5) [Do (SetV 11 (New ''cVb'' [])), Do (Put (V 11) ''d'' (V 18)), Do (Put (V 11) ''b'' (V 5)), Do (Put (V 11) ''c'' (V 17)), Do (Put (V 11) ''a'' (Call ''Qx'' [Call ''JD'' [Call ''Qc'' [V 8, Call ''LUb'' [V 18]], K (JNum 22)]])), Do (Call ''qDb'' [Dot (V 6) ''c'', V 11])] []] [], Do (Call ''bmb'' [Dot (V 2) ''b'', V 6]), Do (Put (V 2) ''d'' (Call ''hTb'' [Call ''pTb'' [V 9]])), Ret (V 2)],
    fn ''yNc'' 3 13 [When (Neg (Loose (Idx (Dot (V 2) ''p'') (Dot (V 1) ''p'')) (K JNull))) [Ret (K JUndef)] [], Do (SetV 7 (K (JBool True))), Do (PutIdx (Dot (V 2) ''p'') (Dot (V 1) ''p'') (K (JNum 0))), Do (SetV 6 (V 1)), Do (SetV 15 (Cond (Loose (Dot (V 2) ''o'') (Seq (Call ''nNc'' []) (G ''lNc''))) (G ''Dve'') (G ''Cve''))), Loop (K (JBool True)) [Do (SetV 4 (Idx (Dot (Dot (V 0) ''b'') ''e'') (Dot (V 6) ''p''))), Do (SetV 5 (Dot (Dot (Dot (Dot (V 6) ''c'') ''a'') ''c'') ''length'')), When (Or (And (Loose (Dot (V 2) ''o'') (G ''lNc'')) (Bin Gt (V 4) (K (JNum 0)))) (And (Loose (Dot (V 2) ''o'') (G ''mNc'')) (Bin Lt (V 4) (Bin Minus (V 5) (K (JNum 1)))))) [Do (SetV 8 (K JNull)), Do (SetV 9 (K JNull)), Do (Cond (Loose (Dot (V 2) ''o'') (G ''mNc'')) (SetV 8 (Call ''JD'' [Call ''dmb'' [Dot (Dot (V 6) ''c'') ''a'', Bin Plus (V 4) (K (JNum 1))], K (JNum 9)])) (SetV 8 (Call ''JD'' [Call ''dmb'' [Dot (Dot (V 6) ''c'') ''a'', Bin Minus (V 4) (K (JNum 1))], K (JNum 9)]))), Do (SetV 9 (Idx (Dot (V 2) ''g'') (Dot (V 8) ''p''))), Do (Call ''yNc'' [V 0, V 9, V 2]), Do (SetV 15 (Meth (Dot (V 0) ''e'') ''vg'' [V 15, V 1, V 6])), Do (And (Loose (Idx (Dot (V 2) ''j'') (Dot (V 1) ''p'')) (V 1)) (PutIdx (Dot (V 2) ''j'') (Dot (V 1) ''p'') (Idx (Dot (V 2) ''j'') (Dot (V 9) ''p'')))), When (Loose (Idx (Dot (V 2) ''j'') (Dot (V 1) ''p'')) (Idx (Dot (V 2) ''j'') (Dot (V 9) ''p''))) [Do (SetV 14 (Call ''SAc'' [Dot (V 0) ''d'', V 6, V 8])), When (Loose (Dot (V 2) ''o'') (G ''mNc'')) [Do (SetV 3 (Call ''Ueb'' [Idx (Dot (V 2) ''p'') (Dot (V 1) ''p'')])), Do (SetV 11 (Bin Minus (Bin Minus (Bin Minus (Bin Minus (Bin Minus (Bin Plus (Call ''Ueb'' [Idx (Dot (V 2) ''p'') (Dot (V 9) ''p'')]) (Call ''Ueb'' [Idx (Dot (V 2) ''d'') (Dot (V 8) ''p'')])) (Dot (Dot (V 8) ''d'') ''d'')) (V 14)) (Dot (Dot (V 6) ''d'') ''a'')) (Dot (Dot (V 6) ''o'') ''b'')) (Call ''Ueb'' [Idx (Dot (V 2) ''d'') (Dot (V 6) ''p'')]))), When (V 7) [Do (SetV 7 (K (JBool False))), Do (PutIdx (Dot (V 2) ''p'') (Dot (V 1) ''p'') (Meth (Dot (G ''$wnd'') ''Math'') ''min'' [V 11, V 15]))] [Do (PutIdx (Dot (V 2) ''p'') (Dot (V 1) ''p'') (Meth (Dot (G ''$wnd'') ''Math'') ''min'' [V 3, Meth (Dot (G ''$wnd'') ''Math'') ''min'' [V 11, V 15]]))]] [Do (SetV 3 (Call ''Ueb'' [Idx (Dot (V 2) ''p'') (Dot (V 1) ''p'')])), Do (SetV 11 (Bin Minus (Bin Plus (Bin Plus (Bin Plus (Bin Plus (Bin Plus (Call ''Ueb'' [Idx (Dot (V 2) ''p'') (Dot (V 9) ''p'')]) (Call ''Ueb'' [Idx (Dot (V 2) ''d'') (Dot (V 8) ''p'')])) (Dot (Dot (V 8) ''o'') ''b'')) (Dot (Dot (V 8) ''d'') ''a'')) (V 14)) (Dot (Dot (V 6) ''d'') ''d'')) (Call ''Ueb'' [Idx (Dot (V 2) ''d'') (Dot (V 6) ''p'')]))), When (V 7) [Do (SetV 7 (K (JBool False))), Do (PutIdx (Dot (V 2) ''p'') (Dot (V 1) ''p'') (Meth (Dot (G ''$wnd'') ''Math'') ''max'' [V 11, V 15]))] [Do (PutIdx (Dot (V 2) ''p'') (Dot (V 1) ''p'') (Meth (Dot (G ''$wnd'') ''Math'') ''max'' [V 3, Meth (Dot (G ''$wnd'') ''Math'') ''max'' [V 11, V 15]]))]]] [Do (SetV 14 (Call ''Ueb'' [Call ''MD'' [Call ''oNb'' [Dot (V 0) ''a'', Seq (Call ''nyc'' []) (G ''Sxc'')]]])), Do (SetV 13 (Call ''wNc'' [V 0, Idx (Dot (V 2) ''j'') (Dot (V 1) ''p'')])), Do (SetV 10 (Call ''wNc'' [V 0, Idx (Dot (V 2) ''j'') (Dot (V 9) ''p'')])), When (Loose (Dot (V 2) ''o'') (G ''mNc'')) [Do (SetV 12 (Bin Minus (Bin Plus (Bin Plus (Bin Plus (Bin Plus (Call ''Ueb'' [Idx (Dot (V 2) ''p'') (Dot (V 1) ''p'')]) (Call ''Ueb'' [Idx (Dot (V 2) ''d'') (Dot (V 6) ''p'')])) (Dot (Dot (V 6) ''o'') ''b'')) (Dot (Dot (V 6) ''d'') ''a'')) (V 14)) (Bin Minus (Bin Plus (Call ''Ueb'' [Idx (Dot (V 2) ''p'') (Dot (V 9) ''p'')]) (Call ''Ueb'' [Idx (Dot (V 2) ''d'') (Dot (V 8) ''p'')])) (Dot (Dot (V 8) ''d'') ''d'')))), Do (Call ''CNc'' [V 13, V 10, V 12])] [Do (SetV 12 (Bin Minus (Bin Minus (Bin Minus (Bin Minus (Bin Minus (Bin Minus (Bin Plus (Call ''Ueb'' [Idx (Dot (V 2) ''p'') (Dot (V 1) ''p'')]) (Call ''Ueb'' [Idx (Dot (V 2) ''d'') (Dot (V 6) ''p'')])) (Dot (Dot (V 6) ''d'') ''d'')) (Call ''Ueb'' [Idx (Dot (V 2) ''p'') (Dot (V 9) ''p'')])) (Call ''Ueb'' [Idx (Dot (V 2) ''d'') (Dot (V 8) ''p'')])) (Dot (Dot (V 8) ''o'') ''b'')) (Dot (Dot (V 8) ''d'') ''a'')) (V 14))), Do (Call ''CNc'' [V 13, V 10, V 12])]]] [Do (SetV 15 (Meth (Dot (V 0) ''e'') ''vg'' [V 15, V 1, V 6]))], Do (SetV 6 (Idx (Dot (V 2) ''a'') (Dot (V 6) ''p'')))] [When (Neg (Loose (V 6) (V 1))) [] [Break]], Do (Call ''_Nc'' [Dot (V 0) ''e'', V 1])],
    fn ''tHc'' 1 25 [Do (SetV 2 (Call ''Ueb'' [Call ''MD'' [Call ''oNb'' [Dot (Dot (V 0) ''a'') ''j'', Seq (Call ''nyc'' []) (G ''Uvc'')]]])), When (Or (Or (Or (Bin Lt (V 2) (K (JNum (- 1)))) (Neg (Dot (Dot (V 0) ''a'') ''i''))) (Call ''Nld'' [Call ''JD'' [Call ''oNb'' [Dot (Dot (V 0) ''a'') ''o'', G ''qxc''], K (JNum 102)]])) (And (Bin Lt (Meth (Call ''IYb'' [Dot (Dot (V 0) ''a'') ''o'', Seq (Call ''Bmd'' []) (G ''gmd'')]) ''gc'' []) (K (JNum 2))) (Bin Lt (Meth (Call ''IYb'' [Dot (Dot (V 0) ''a'') ''o'', G ''Amd'']) ''gc'' []) (K (JNum 2))))) [Ret (K (JBool True))] [], When (Meth (Dot (Dot (V 0) ''a'') ''c'') ''ig'' []) [Ret (K (JBool False))] [], Do (SetV 21 (K (JNum 0))), Do (SetV 20 (K (JNum 0))), Do (SetV 19 (New ''lmb'' [])), Do (Seq (Seq (SetV 8 (Dot (Dot (V 0) ''a'') ''e'')) (SetV 9 (K (JNum 0)))) (SetV 10 (Dot (V 8) ''length''))), Loop (Bin Lt (V 9) (V 10)) [Do (SetV 7 (Idx (V 8) (V 9))), Do (Seq (Seq (SetV 12 (V 7)) (SetV 13 (K (JNum 0)))) (SetV 15 (Dot (V 12) ''length''))), Loop (Bin Lt (V 13) (V 15)) [Do (SetV 11 (Idx (V 12) (V 13))), When (Loose (Dot (V 11) ''k'') (Seq (Call ''$Yb'' []) (G ''YYb''))) [Do (Call ''qDb'' [Dot (V 19) ''c'', V 11]), Continue] [], Do (SetV 3 (Idx (Idx (Dot (V 0) ''b'') (Dot (Dot (V 11) ''c'') ''p'')) (Dot (V 11) ''p''))), When (Loose (Dot (V 11) ''k'') (G ''TYb'')) [Do (Put (V 3) ''b'' (K (JNum 1))), Do (And (Loose (Dot (Call ''JD'' [Call ''oNb'' [V 11, Seq (Call ''Wrc'' []) (G ''urc'')], K (JNum 12)]) ''j'') (Seq (Call ''Bmd'' []) (G ''gmd''))) (SetV 20 (Bin Plus (V 20) (Dot (V 3) ''a''))))] [Do (SetV 25 (Call ''IYb'' [V 11, Seq (Call ''Bmd'' []) (G ''Amd'')])), Do (Cond (Or (Meth (V 25) ''dc'' []) (Neg (Call ''Xq'' [V 25, New ''GHc'' []]))) (Put (V 3) ''c'' (K (JNum 1))) (Seq (SetV 4 (Call ''IYb'' [V 11, G ''gmd''])) (And (Or (Meth (V 4) ''dc'' []) (Neg (Call ''Xq'' [V 4, New ''CHc'' []]))) (SetV 21 (Bin Plus (V 21) (Dot (V 3) ''a''))))))], Do (SetV 6 (New ''Yr'' [Call ''Dr'' [Meth (Dot (Call ''HYb'' [V 11]) ''a'') ''Jc'' [], New ''Dl'' []]])), Loop (Call ''Wr'' [V 6]) [Do (SetV 5 (Call ''JD'' [Call ''Xr'' [V 6], K (JNum 17)])), Do (SetV 21 (Bin Plus (V 21) (Dot (V 3) ''c''))), Do (SetV 20 (Bin Plus (V 20) (Dot (V 3) ''b''))), Do (SetV 24 (Dot (Dot (V 5) ''d'') ''i'')), Do (Call ''sHc'' [V 0, V 3, V 24])] [], Do (SetV 17 (Call ''yl'' [Call ''WC'' [Call ''OC'' [G ''VI'', K (JNum 1)], G ''Gte'', K (JNum 20), K (JNum 0), NewArr [Call ''IYb'' [V 11, Seq (Call ''Bmd'' []) (G ''hmd'')], Call ''IYb'' [V 11, G ''ymd'']]]])), Do (SetV 23 (New ''Yr'' [New ''Jl'' [Dot (Dot (V 17) ''a'') ''length'', Dot (V 17) ''a'']])), Loop (Call ''Wr'' [V 23]) [Do (SetV 22 (Call ''JD'' [Call ''Xr'' [V 23], K (JNum 12)])), Do (SetV 18 (Call ''JD'' [Call ''oNb'' [V 22, Seq (Call ''Wrc'' []) (G ''Crc'')], K (JNum 9)])), When (V 18) [Do (SetV 21 (Bin Plus (V 21) (Dot (V 3) ''c''))), Do (SetV 20 (Bin Plus (V 20) (Dot (V 3) ''b''))), Do (Call ''sHc'' [V 0, V 3, V 18])] []] []] [Do (SetV 13 (Bin Minus (V 13) (K (JNum (- 1)))))], Do (SetV 14 (New ''Kmb'' [V 19])), Loop (Bin Lt (Dot (V 14) ''a'') (Dot (Dot (Dot (V 14) ''c'') ''c'') ''length'')) [Do (SetV 11 (Call ''JD'' [Call ''Imb'' [V 14], K (JNum 9)])), Do (SetV 3 (Idx (Idx (Dot (V 0) ''b'') (Dot (Dot (V 11) ''c'') ''p'')) (Dot (V 11) ''p''))), Do (SetV 6 (New ''Yr'' [Call ''Dr'' [Meth (Dot (Call ''HYb'' [V 11]) ''a'') ''Jc'' [], New ''Dl'' []]])), Loop (Call ''Wr'' [V 6]) [Do (SetV 5 (Call ''JD'' [Call ''Xr'' [V 6], K (JNum 17)])), Do (SetV 21 (Bin Plus (V 21) (Dot (V 3) ''c''))), Do (SetV 20 (Bin Plus (V 20) (Dot (V 3) ''b''))), Do (SetV 24 (Dot (Dot (V 5) ''d'') ''i'')), Do (Call ''sHc'' [V 0, V 3, V 24])] []] [], Do (Put (Dot (V 19) ''c'') ''length'' (K (JNum 0)))] [Do (SetV 9 (Bin Minus (V 9) (K (JNum (- 1)))))], Do (SetV 1 (Bin Plus (V 21) (V 20))), Do (SetV 16 (Cond (Loose (V 1) (K (JNum 0))) (G ''Cve'') (Bin Divide (Bin Minus (V 21) (V 20)) (V 1)))), Ret (Bin Ge (V 16) (V 2))],
    fn ''zKc'' 1 26 [Do (Seq (Seq (SetV 19 (Dot (V 0) ''a'')) (SetV 20 (K (JNum 0)))) (SetV 21 (Dot (V 19) ''length''))), Loop (Bin Lt (V 20) (V 21)) [Do (SetV 18 (Idx (V 19) (V 20))), Do (SetV 9 (G ''Ate'')), Do (SetV 10 (G ''Ate'')), Do (SetV 14 (New ''Kmb'' [Dot (V 18) ''e''])), Loop (Bin Lt (Dot (V 14) ''a'') (Dot (Dot (Dot (V 14) ''c'') ''c'') ''length'')) [Do (SetV 12 (Call ''JD'' [Call ''Imb'' [V 14], K (JNum 9)])), Do (SetV 6 (Cond (Neg (Dot (V 12) ''c'')) (K (JNum (- 1))) (Call ''emb'' [Dot (Dot (V 12) ''c'') ''a'', V 12, K (JNum 0)]))), When (Bin Gt (V 6) (K (JNum 0))) [Do (SetV 11 (Call ''JD'' [Call ''dmb'' [Dot (Dot (V 12) ''c'') ''a'', Bin Minus (V 6) (K (JNum 1))], K (JNum 9)])), Do (SetV 24 (Call ''SAc'' [Dot (V 0) ''b'', V 12, V 11])), Do (SetV 16 (Bin Minus (Bin Minus (Dot (Dot (V 12) ''n'') ''b'') (Dot (Dot (V 12) ''d'') ''d'')) (Bin Plus (Bin Plus (Bin Plus (Dot (Dot (V 11) ''n'') ''b'') (Dot (Dot (V 11) ''o'') ''b'')) (Dot (Dot (V 11) ''d'') ''a'')) (V 24))))] [Do (SetV 16 (Bin Minus (Dot (Dot (V 12) ''n'') ''b'') (Dot (Dot (V 12) ''d'') ''d'')))], Do (SetV 9 (Meth (Dot (G ''$wnd'') ''Math'') ''min'' [V 16, V 9])), When (Bin Lt (V 6) (Bin Minus (Dot (Dot (Dot (Dot (V 12) ''c'') ''a'') ''c'') ''length'') (K (JNum 1)))) [Do (SetV 11 (Call ''JD'' [Call ''dmb'' [Dot (Dot (V 12) ''c'') ''a'', Bin Plus (V 6) (K (JNum 1))], K (JNum 9)])), Do (SetV 24 (Call ''SAc'' [Dot (V 0) ''b'', V 12, V 11])), Do (SetV 17 (Bin Minus (Bin Minus (Dot (Dot (V 11) ''n'') ''b'') (Dot (Dot (V 11) ''d'') ''d'')) (Bin Plus (Bin Plus (Bin Plus (Dot (Dot (V 12) ''n'') ''b'') (Dot (Dot (V 12) ''o'') ''b'')) (Dot (Dot (V 12) ''d'') ''a'')) (V 24))))] [Do (SetV 17 (Bin Times (K (JNum 2)) (Dot (Dot (V 12) ''n'') ''b'')))], Do (SetV 10 (Meth (Dot (G ''$wnd'') ''Math'') ''min'' [V 17, V 10]))] [], Do (SetV 8 (G ''Ate'')), Do (SetV 5 (K (JBool False))), Do (SetV 4 (Call ''JD'' [Call ''dmb'' [Dot (V 18) ''e'', K (JNum 0)], K (JNum 9)])), Do (SetV 26 (New ''Kmb'' [Dot (V 4) ''j''])), Loop (Bin Lt (Dot (V 26) ''a'') (Dot (Dot (Dot (V 26) ''c'') ''c'') ''length'')) [Do (SetV 25 (Call ''JD'' [Call ''Imb'' [V 26], K (JNum 12)])), Do (SetV 15 (Bin Plus (Bin Plus (Dot (Dot (V 4) ''n'') ''b'') (Dot (Dot (V 25) ''n'') ''b'')) (Dot (Dot (V 25) ''a'') ''b''))), Do (SetV 3 (New ''Kmb'' [Dot (V 25) ''e''])), Loop (Bin Lt (Dot (V 3) ''a'') (Dot (Dot (Dot (V 3) ''c'') ''c'') ''length'')) [Do (SetV 2 (Call ''JD'' [Call ''Imb'' [V 3], K (JNum 17)])), Do (SetV 22 (Dot (V 2) ''c'')), Do (SetV 1 (Bin Minus (Bin Plus (Bin Plus (Dot (Dot (Dot (V 22) ''i'') ''n'') ''b'') (Dot (Dot (V 22) ''n'') ''b'')) (Dot (Dot (V 22) ''a'') ''b'')) (V 15))), When (And (Bin Lt (Meth (Dot (G ''$wnd'') ''Math'') ''abs'' [V 1]) (Meth (Dot (G ''$wnd'') ''Math'') ''abs'' [V 8])) (Bin Lt (Meth (Dot (G ''$wnd'') ''Math'') ''abs'' [V 1]) (Cond (Bin Lt (V 1) (K (JNum 0))) (V 9) (V 10)))) [Do (SetV 8 (V 1)), Do (SetV 5 (K (JBool True)))] []] []] [], Do (SetV 7 (Call ''JD'' [Call ''dmb'' [Dot (V 18) ''e'', Bin Minus (Dot (Dot (Dot (V 18) ''e'') ''c'') ''length'') (K (JNum 1))], K (JNum 9)])), Do (SetV 23 (New ''Kmb'' [Dot (V 7) ''j''])), Loop (Bin Lt (Dot (V 23) ''a'') (Dot (Dot (Dot (V 23) ''c'') ''c'') ''length'')) [Do (SetV 22 (Call ''JD'' [Call ''Imb'' [V 23], K (JNum 12)])), Do (SetV 15 (Bin Plus (Bin Plus (Dot (Dot (V 7) ''n'') ''b'') (Dot (Dot (V 22) ''n'') ''b'')) (Dot (Dot (V 22) ''a'') ''b''))), Do (SetV 3 (New ''Kmb'' [Dot (V 22) ''g''])), Loop (Bin Lt (Dot (V 3) ''a'') (Dot (Dot (Dot (V 3) ''c'') ''c'') ''length'')) [Do (SetV 2 (Call ''JD'' [Call ''Imb'' [V 3], K (JNum 17)])), Do (SetV 25 (Dot (V 2) ''d'')), Do (SetV 1 (Bin Minus (Bin Plus (Bin Plus (Dot (Dot (Dot (V 25) ''i'') ''n'') ''b'') (Dot (Dot (V 25) ''n'') ''b'')) (Dot (Dot (V 25) ''a'') ''b'')) (V 15))), When (And (Bin Lt (Meth (Dot (G ''$wnd'') ''Math'') ''abs'' [V 1]) (Meth (Dot (G ''$wnd'') ''Math'') ''abs'' [V 8])) (Bin Lt (Meth (Dot (G ''$wnd'') ''Math'') ''abs'' [V 1]) (Cond (Bin Lt (V 1) (K (JNum 0))) (V 9) (V 10)))) [Do (SetV 8 (V 1)), Do (SetV 5 (K (JBool True)))] []] []] [], When (And (V 5) (Neg (Loose (V 8) (K (JNum 0))))) [Do (SetV 13 (New ''Kmb'' [Dot (V 18) ''e''])), Loop (Bin Lt (Dot (V 13) ''a'') (Dot (Dot (Dot (V 13) ''c'') ''c'') ''length'')) [Do (SetV 12 (Call ''JD'' [Call ''Imb'' [V 13], K (JNum 9)])), Do (Put (Dot (V 12) ''n'') ''b'' (Bin Plus (Dot (Dot (V 12) ''n'') ''b'') (V 8)))] []] []] [Do (SetV 20 (Bin Minus (V 20) (K (JNum (- 1)))))]],
    fn ''jCd'' 3 26 [Do (SetV 19 (V 1)), Do (SetV 18 (New ''Np'' [])), Do (SetV 20 (New ''Np'' [])), Do (SetV 10 (Call ''SAd'' [V 19, G ''xGe''])), Do (SetV 3 (New ''DCd'' [V 0, V 2, V 18, V 20])), Do (Call ''wBd'' [Dot (V 3) ''a'', Dot (V 3) ''b'', Dot (V 3) ''c'', Dot (V 3) ''d'', V 10]), Do (SetV 8 (Seq (SetV 23 (Dot (V 18) ''i'')) (Cond (Neg (V 23)) (Put (V 18) ''i'' (New ''xf'' [V 18, Dot (V 18) ''c''])) (V 23)))), Do (SetV 25 (Meth (V 8) ''Jc'' [])), Loop (Meth (V 25) ''Ob'' []) [Do (SetV 24 (Call ''JD'' [Meth (V 25) ''Pb'' [], K (JNum 170)])), Do (SetV 4 (Call ''JD'' [Call ''Qc'' [V 18, V 24], K (JNum 22)])), Do (SetV 15 (Meth (V 4) ''Jc'' [])), Loop (Meth (V 15) ''Ob'' []) [Do (SetV 14 (Meth (V 15) ''Pb'' [])), Do (SetV 21 (Call ''JD'' [Call ''uo'' [Dot (V 0) ''f'', V 14], K (JNum 170)])), When (V 21) [Do (SetV 7 (Seq (And (Neg (Dot (V 24) ''e'')) (Put (V 24) ''e'' (New ''jhe'' [G ''P3'', V 24, K (JNum 10), K (JNum 9)]))) (Dot (V 24) ''e''))), Do (Call ''lFd'' [V 7, V 21])] [Do (SetV 6 (Call ''VAd'' [V 19, G ''FGe''])), Do (SetV 12 (Bin Plus (Bin Plus (Bin Plus (G ''LGe'') (V 14)) (G ''MGe'')) (V 6))), Do (SetV 13 (Bin Plus (V 12) (G ''KGe''))), Raise (Call ''Lcb'' [New ''YAd'' [V 13]])]] []] [], Do (SetV 9 (Seq (SetV 22 (Dot (V 20) ''i'')) (Cond (Neg (V 22)) (Put (V 20) ''i'' (New ''xf'' [V 20, Dot (V 20) ''c''])) (V 22)))), Do (SetV 27 (Meth (V 9) ''Jc'' [])), Loop (Meth (V 27) ''Ob'' []) [Do (SetV 26 (Call ''JD'' [Meth (V 27) ''Pb'' [], K (JNum 170)])), Do (SetV 5 (Call ''JD'' [Call ''Qc'' [V 20, V 26], K (JNum 22)])), Do (SetV 17 (Meth (V 5) ''Jc'' [])), Loop (Meth (V 17) ''Ob'' []) [Do (SetV 16 (Meth (V 17) ''Pb'' [])), Do (SetV 21 (Call ''JD'' [Call ''uo'' [Dot (V 0) ''f'', V 16], K (JNum 170)])), When (V 21) [Do (SetV 11 (Seq (And (Neg (Dot (V 26) ''g'')) (Put (V 26) ''g'' (New ''jhe'' [G ''P3'', V 26, K (JNum 9), K (JNum 10)]))) (Dot (V 26) ''g''))), Do (Call ''lFd'' [V 11, V 21])] [Do (SetV 6 (Call ''VAd'' [V 19, G ''FGe''])), Do (SetV 12 (Bin Plus (Bin Plus (Bin Plus (G ''LGe'') (V 16)) (G ''MGe'')) (V 6))), Do (SetV 13 (Bin Plus (V 12) (G ''KGe''))), Raise (Call ''Lcb'' [New ''YAd'' [V 13]])]] []] [], Do (And (Neg (Dot (V 2) ''b'')) (Put (V 2) ''b'' (New ''jhe'' [G ''O3'', V 2, K (JNum 4), K (JNum 7)]))), When (And (And (And (Neg (Loose (Dot (Dot (V 2) ''b'') ''i'') (K (JNum 0)))) (Seq (And (Neg (Dot (V 2) ''c'')) (Put (V 2) ''c'' (New ''jhe'' [G ''O3'', V 2, K (JNum 5), K (JNum 8)]))) (Neg (Loose (Dot (Dot (V 2) ''c'') ''i'') (K (JNum 0)))))) (Seq (And (Neg (Dot (V 2) ''b'')) (Put (V 2) ''b'' (New ''jhe'' [G ''O3'', V 2, K (JNum 4), K (JNum 7)]))) (And (Bin Le (Dot (Dot (V 2) ''b'') ''i'') (K (JNum 1))) (Seq (And (Neg (Dot (V 2) ''c'')) (Put (V 2) ''c'' (New ''jhe'' [G ''O3'', V 2, K (JNum 5), K (JNum 8)]))) (Bin Le (Dot (Dot (V 2) ''c'') ''i'') (K (JNum 1))))))) (Loose (Dot (Seq (And (Neg (Dot (V 2) ''a'')) (Put (V 2) ''a'' (New ''P3d'' [G ''P3'', V 2, K (JNum 6), K (JNum 6)]))) (Dot (V 2) ''a'')) ''i'') (K (JNum 1)))) [Do (SetV 28 (Call ''JD'' [Call ''fGd'' [Seq (And (Neg (Dot (V 2) ''a'')) (Put (V 2) ''a'' (New ''P3d'' [G ''P3'', V 2, K (JNum 6), K (JNum 6)]))) (Dot (V 2) ''a''), K (JNum 0)], K (JNum 170)])), When (And (Neg (Call ''Zwd'' [V 28])) (Neg (Call ''$wd'' [V 28]))) [Do (Call ''exd'' [V 28, Call ''JD'' [Call ''fGd'' [Seq (And (Neg (Dot (V 2) ''b'')) (Put (V 2) ''b'' (New ''jhe'' [G ''O3'', V 2, K (JNum 4), K (JNum 7)]))) (Dot (V 2) ''b''), K (JNum 0)], K (JNum 84)]]), Do (Call ''fxd'' [V 28, Call ''JD'' [Call ''fGd'' [Seq (And (Neg (Dot (V 2) ''c'')) (Put (V 2) ''c'' (New ''jhe'' [G ''O3'', V 2, K (JNum 5), K (JNum 8)]))) (Dot (V 2) ''c''), K (JNum 0)], K (JNum 84)]])] []] []]]"

definition code_6231_6231 :: "(string \<times> jfun) list" where
  "code_6231_6231 = [
    fn ''h4b'' 3 15 [Do (SetV 3 (New ''lmb'' [])), Do (SetV 4 (G ''Ate'')), Do (SetV 5 (G ''Ate'')), Do (SetV 6 (G ''Ate'')), When (V 2) [Do (SetV 4 (Dot (Dot (V 0) ''f'') ''a'')), Do (SetV 15 (New ''Kmb'' [Dot (V 1) ''j''])), Loop (Bin Lt (Dot (V 15) ''a'') (Dot (Dot (Dot (V 15) ''c'') ''c'') ''length'')) [Do (SetV 14 (Call ''JD'' [Call ''Imb'' [V 15], K (JNum 12)])), Do (SetV 8 (New ''Kmb'' [Dot (V 14) ''g''])), Loop (Bin Lt (Dot (V 8) ''a'') (Dot (Dot (Dot (V 8) ''c'') ''c'') ''length'')) [Do (SetV 7 (Call ''JD'' [Call ''Imb'' [V 8], K (JNum 17)])), When (Neg (Loose (Dot (Dot (V 7) ''a'') ''b'') (K (JNum 0)))) [Do (SetV 10 (Call ''JD'' [Call ''Xtb'' [Dot (V 7) ''a''], K (JNum 8)])), When (Bin Lt (Dot (V 10) ''a'') (V 4)) [Do (SetV 5 (Bin Minus (V 4) (Dot (V 10) ''a''))), Do (SetV 6 (G ''Ate'')), Do (Put (Dot (V 3) ''c'') ''length'' (K (JNum 0))), Do (SetV 4 (Dot (V 10) ''a''))] [], When (Bin Le (Dot (V 10) ''a'') (V 4)) [Do (Call ''qDb'' [Dot (V 3) ''c'', V 7]), Do (And (Bin Gt (Dot (Dot (V 7) ''a'') ''b'') (K (JNum 1))) (SetV 6 (Meth (Dot (G ''$wnd'') ''Math'') ''min'' [V 6, Meth (Dot (G ''$wnd'') ''Math'') ''abs'' [Bin Minus (Dot (Call ''JD'' [Call ''au'' [Dot (V 7) ''a'', K (JNum 1)], K (JNum 8)]) ''b'') (Dot (V 10) ''b'')]])))] []] []] []] []] [Do (SetV 15 (New ''Kmb'' [Dot (V 1) ''j''])), Loop (Bin Lt (Dot (V 15) ''a'') (Dot (Dot (Dot (V 15) ''c'') ''c'') ''length'')) [Do (SetV 14 (Call ''JD'' [Call ''Imb'' [V 15], K (JNum 12)])), Do (SetV 8 (New ''Kmb'' [Dot (V 14) ''e''])), Loop (Bin Lt (Dot (V 8) ''a'') (Dot (Dot (Dot (V 8) ''c'') ''c'') ''length'')) [Do (SetV 7 (Call ''JD'' [Call ''Imb'' [V 8], K (JNum 17)])), When (Neg (Loose (Dot (Dot (V 7) ''a'') ''b'') (K (JNum 0)))) [Do (SetV 12 (Call ''JD'' [Call ''Ytb'' [Dot (V 7) ''a''], K (JNum 8)])), When (Bin Gt (Dot (V 12) ''a'') (V 4)) [Do (SetV 5 (Bin Minus (Dot (V 12) ''a'') (V 4))), Do (SetV 6 (G ''Ate'')), Do (Put (Dot (V 3) ''c'') ''length'' (K (JNum 0))), Do (SetV 4 (Dot (V 12) ''a''))] [], When (Bin Ge (Dot (V 12) ''a'') (V 4)) [Do (Call ''qDb'' [Dot (V 3) ''c'', V 7]), Do (And (Bin Gt (Dot (Dot (V 7) ''a'') ''b'') (K (JNum 1))) (SetV 6 (Meth (Dot (G ''$wnd'') ''Math'') ''min'' [V 6, Meth (Dot (G ''$wnd'') ''Math'') ''abs'' [Bin Minus (Dot (Call ''JD'' [Call ''au'' [Dot (V 7) ''a'', Bin Minus (Dot (Dot (V 7) ''a'') ''b'') (K (JNum 2))], K (JNum 8)]) ''b'') (Dot (V 12) ''b'')]])))] []] []] []] []], When (And (And (Neg (Loose (Dot (Dot (V 3) ''c'') ''length'') (K (JNum 0)))) (Bin Gt (V 5) (Bin Divide (Dot (Dot (V 1) ''o'') ''a'') (K (JNum 2))))) (Bin Gt (V 6) (Bin Divide (Dot (Dot (V 1) ''o'') ''b'') (K (JNum 2))))) [Do (SetV 13 (New ''yZb'' [])), Do (Call ''wZb'' [V 13, V 1]), Do (Call ''xZb'' [V 13, Seq (Call ''Bmd'' []) (G ''hmd'')]), Do (Put (Dot (V 13) ''n'') ''a'' (Bin Divide (Dot (Dot (V 1) ''o'') ''a'') (K (JNum 2)))), Do (SetV 17 (New ''yZb'' [])), Do (Call ''wZb'' [V 17, V 1]), Do (Call ''xZb'' [V 17, G ''ymd'']), Do (Put (Dot (V 17) ''n'') ''a'' (Bin Divide (Dot (Dot (V 1) ''o'') ''a'') (K (JNum 2)))), Do (Put (Dot (V 17) ''n'') ''b'' (Dot (Dot (V 1) ''o'') ''b'')), Do (SetV 8 (New ''Kmb'' [V 3])), Loop (Bin Lt (Dot (V 8) ''a'') (Dot (Dot (Dot (V 8) ''c'') ''c'') ''length'')) [Do (SetV 7 (Call ''JD'' [Call ''Imb'' [V 8], K (JNum 17)])), When (V 2) [Do (SetV 9 (Call ''JD'' [Call ''_tb'' [Dot (V 7) ''a''], K (JNum 8)])), Do (SetV 16 (Cond (Loose (Dot (Dot (V 7) ''a'') ''b'') (K (JNum 0))) (Call ''rZb'' [Dot (V 7) ''d'']) (Call ''JD'' [Call ''Xtb'' [Dot (V 7) ''a''], K (JNum 8)]))), Do (Cond (Bin Ge (Dot (V 16) ''b'') (Dot (V 9) ''b'')) (Call ''CWb'' [V 7, V 17]) (Call ''CWb'' [V 7, V 13]))] [Do (SetV 9 (Call ''JD'' [Call ''aub'' [Dot (V 7) ''a''], K (JNum 8)])), Do (SetV 16 (Cond (Loose (Dot (Dot (V 7) ''a'') ''b'') (K (JNum 0))) (Call ''rZb'' [Dot (V 7) ''c'']) (Call ''JD'' [Call ''Ytb'' [Dot (V 7) ''a''], K (JNum 8)]))), Do (Cond (Bin Ge (Dot (V 16) ''b'') (Dot (V 9) ''b'')) (Call ''DWb'' [V 7, V 17]) (Call ''DWb'' [V 7, V 13]))], Do (SetV 11 (Call ''JD'' [Call ''oNb'' [V 7, Seq (Call ''nyc'' []) (G ''Bwc'')], K (JNum 79)])), Do (And (Neg (Neg (V 11))) (Call ''ye'' [V 11, V 9, K (JBool True)]))] [], Do (Put (Dot (V 1) ''n'') ''a'' (Bin Minus (V 4) (Bin Divide (Dot (Dot (V 1) ''o'') ''a'') (K (JNum 2)))))] []]]"

definition code_6237_6241 :: "(string \<times> jfun) list" where
  "code_6237_6241 = [
    fn ''Kod'' 7 24 [Do (SetV 15 (K (JNum 0))), Do (SetV 26 (K (JNum 0))), Do (SetV 9 (New ''Kmb'' [Dot (V 0) ''b''])), Loop (Bin Lt (Dot (V 9) ''a'') (Dot (Dot (Dot (V 9) ''c'') ''c'') ''length'')) [Do (SetV 8 (Call ''JD'' [Call ''Imb'' [V 9], K (JNum 167)])), Do (And (Neg (Neg (Dot (V 8) ''c''))) (Call ''dqd'' [Dot (V 8) ''c''])), Do (SetV 15 (Meth (Dot (G ''$wnd'') ''Math'') ''max'' [V 15, Call ''Wod'' [V 8]])), Do (SetV 26 (Bin Plus (V 26) (Bin Times (Call ''Wod'' [V 8]) (Call ''Vod'' [V 8]))))] [], Do (SetV 16 (Bin Divide (V 26) (Dot (Dot (Dot (V 0) ''b'') ''c'') ''length''))), Do (SetV 25 (Call ''Dod'' [Dot (V 0) ''b'', V 16])), Do (SetV 26 (Bin Plus (V 26) (Bin Times (Dot (Dot (Dot (V 0) ''b'') ''c'') ''length'') (V 25)))), Do (SetV 15 (Bin Plus (Meth (Dot (G ''$wnd'') ''Math'') ''max'' [V 15, Meth (Dot (G ''$wnd'') ''Math'') ''sqrt'' [Bin Times (V 26) (V 6)]]) (Dot (V 2) ''b''))), Do (SetV 29 (Dot (V 2) ''b'')), Do (SetV 30 (Dot (V 2) ''d'')), Do (SetV 13 (K (JNum 0))), Do (SetV 11 (Bin Plus (Dot (V 2) ''b'') (Dot (V 2) ''c''))), Do (SetV 24 (New ''dub'' [])), Do (Call ''Ttb'' [V 24, Call ''Cfb'' [K (JNum 0)]]), Do (SetV 22 (New ''dub'' [])), Do (SetV 10 (New ''Tjb'' [Dot (V 0) ''b'', K (JNum 0)])), Do (SetV 14 (K JNull)), Do (SetV 7 (New ''lmb'' [])), Loop (Bin Lt (Dot (V 10) ''b'') (Meth (Dot (V 10) ''d'') ''gc'' [])) [Do (SetV 8 (Seq (Call ''LDb'' [Bin Lt (Dot (V 10) ''b'') (Meth (Dot (V 10) ''d'') ''gc'' [])]) (Call ''JD'' [Meth (Dot (V 10) ''d'') ''Xb'' [Put (V 10) ''c'' (Bin Minus (Put (V 10) ''b'' (Bin Minus (Dot (V 10) ''b'') (K (JNum (- 1))))) (K (JNum 1)))], K (JNum 167)]))), Do (SetV 28 (Call ''Wod'' [V 8])), Do (SetV 12 (Call ''Vod'' [V 8])), When (Bin Gt (Bin Plus (V 29) (V 28)) (V 15)) [When (V 5) [Do (Call ''Vtb'' [V 22, V 13]), Do (Call ''Vtb'' [V 24, Call ''Cfb'' [Bin Minus (Dot (V 10) ''b'') (K (JNum 1))]]), Do (Call ''_lb'' [Dot (V 0) ''d'', V 14]), Do (Put (Dot (V 7) ''c'') ''length'' (K (JNum 0)))] [], Do (SetV 29 (Dot (V 2) ''b'')), Do (SetV 30 (Bin Plus (V 30) (Bin Plus (V 13) (V 1)))), Do (SetV 13 (K (JNum 0))), Do (SetV 11 (Meth (Dot (G ''$wnd'') ''Math'') ''max'' [V 11, Bin Plus (Bin Plus (Dot (V 2) ''b'') (Dot (V 2) ''c'')) (V 28)]))] [], Do (Call ''qDb'' [Dot (V 7) ''c'', V 8]), Do (Call ''Zod'' [V 8, V 29, V 30]), Do (SetV 11 (Meth (Dot (G ''$wnd'') ''Math'') ''max'' [V 11, Bin Plus (Bin Plus (V 29) (V 28)) (Dot (V 2) ''c'')])), Do (SetV 13 (Meth (Dot (G ''$wnd'') ''Math'') ''max'' [V 13, V 12])), Do (SetV 29 (Bin Plus (V 29) (Bin Plus (V 28) (V 1)))), Do (SetV 14 (V 8))] [], Do (Call ''bmb'' [Dot (V 0) ''a'', V 7]), Do (Call ''_lb'' [Dot (V 0) ''d'', Call ''JD'' [Call ''dmb'' [V 7, Bin Minus (Dot (Dot (V 7) ''c'') ''length'') (K (JNum 1))], K (JNum 167)]]), Do (SetV 11 (Meth (Dot (G ''$wnd'') ''Math'') ''max'' [V 11, V 3])), Do (SetV 27 (Bin Plus (Bin Plus (V 30) (V 13)) (Dot (V 2) ''a''))), When (Bin Lt (V 27) (V 4)) [Do (SetV 13 (Bin Plus (V 13) (Bin Minus (V 4) (V 27)))), Do (SetV 27 (V 4))] [], When (V 5) [Do (SetV 29 (Dot (V 2) ''b'')), Do (SetV 10 (New ''Tjb'' [Dot (V 0) ''b'', K (JNum 0)])), Do (Call ''Vtb'' [V 24, Call ''Cfb'' [Dot (Dot (Dot (V 0) ''b'') ''c'') ''length'']]), Do (SetV 23 (Call ''Ztb'' [V 24, K (JNum 0)])), Do (SetV 18 (Dot (Call ''JD'' [Call ''lub'' [V 23], K (JNum 15)]) ''a'')), Do (Call ''Vtb'' [V 22, V 13]), Do (SetV 21 (Call ''Ztb'' [V 22, K (JNum 0)])), Do (SetV 20 (K (JNum 0))), Loop (Bin Lt (Dot (V 10) ''b'') (Meth (Dot (V 10) ''d'') ''gc'' [])) [When (Loose (Dot (V 10) ''b'') (V 18)) [Do (SetV 29 (Dot (V 2) ''b'')), Do (SetV 20 (Call ''Ueb'' [Call ''MD'' [Call ''lub'' [V 21]]])), Do (SetV 18 (Dot (Call ''JD'' [Call ''lub'' [V 23], K (JNum 15)]) ''a''))] [], Do (SetV 8 (Seq (Call ''LDb'' [Bin Lt (Dot (V 10) ''b'') (Meth (Dot (V 10) ''d'') ''gc'' [])]) (Call ''JD'' [Meth (Dot (V 10) ''d'') ''Xb'' [Put (V 10) ''c'' (Bin Minus (Put (V 10) ''b'' (Bin Minus (Dot (V 10) ''b'') (K (JNum (- 1))))) (K (JNum 1)))], K (JNum 167)]))), Do (Call ''Xod'' [V 8, V 20]), When (Loose (Dot (V 10) ''b'') (V 18)) [Do (SetV 17 (Bin Minus (Bin Minus (V 11) (V 29)) (Dot (V 2) ''c''))), Do (SetV 19 (Call ''Wod'' [V 8])), Do (Call ''Yod'' [V 8, V 17]), Do (Call ''$od'' [V 8, Bin Divide (Bin Minus (V 17) (V 19)) (K (JNum 2)), K (JNum 0)])] [], Do (SetV 29 (Bin Plus (V 29) (Bin Plus (Call ''Wod'' [V 8]) (V 1))))] []] [], Ret (New ''lgd'' [V 11, V 27])],
    fn ''Mle'' 1 0 [When (Dot (V 0) ''N'') [Ret (K JUndef)] [], Do (Put (V 0) ''N'' (K (JBool True))), Do (Put (V 0) ''b'' (Call ''Fyd'' [V 0, K (JNum 0)])), Do (Call ''Eyd'' [Dot (V 0) ''b'', K (JNum 0)]), Do (Call ''Eyd'' [Dot (V 0) ''b'', K (JNum 1)]), Do (Call ''Eyd'' [Dot (V 0) ''b'', K (JNum 2)]), Do (Put (V 0) ''bb'' (Call ''Fyd'' [V 0, K (JNum 1)])), Do (Call ''Eyd'' [Dot (V 0) ''bb'', K (JNum 0)]), Do (Call ''Eyd'' [Dot (V 0) ''bb'', K (JNum 1)]), Do (Put (V 0) ''fb'' (Call ''Fyd'' [V 0, K (JNum 2)])), Do (Call ''Eyd'' [Dot (V 0) ''fb'', K (JNum 3)]), Do (Call ''Eyd'' [Dot (V 0) ''fb'', K (JNum 4)]), Do (Call ''Kyd'' [Dot (V 0) ''fb'', K (JNum 5)]), Do (Put (V 0) ''qb'' (Call ''Fyd'' [V 0, K (JNum 3)])), Do (Call ''Eyd'' [Dot (V 0) ''qb'', K (JNum 0)]), Do (Call ''Kyd'' [Dot (V 0) ''qb'', K (JNum 1)]), Do (Call ''Kyd'' [Dot (V 0) ''qb'', K (JNum 2)]), Do (Call ''Eyd'' [Dot (V 0) ''qb'', K (JNum 3)]), Do (Call ''Eyd'' [Dot (V 0) ''qb'', K (JNum 4)]), Do (Call ''Kyd'' [Dot (V 0) ''qb'', K (JNum 5)]), Do (Call ''Eyd'' [Dot (V 0) ''qb'', K (JNum 6)]), Do (Put (V 0) ''a'' (Call ''Gyd'' [V 0, K (JNum 4)])), Do (Put (V 0) ''c'' (Call ''Gyd'' [V 0, K (JNum 5)])), Do (Put (V 0) ''d'' (Call ''Gyd'' [V 0, K (JNum 6)])), Do (Put (V 0) ''e'' (Call ''Gyd'' [V 0, K (JNum 7)])), Do (Put (V 0) ''f'' (Call ''Gyd'' [V 0, K (JNum 8)])), Do (Put (V 0) ''g'' (Call ''Gyd'' [V 0, K (JNum 9)])), Do (Put (V 0) ''i'' (Call ''Gyd'' [V 0, K (JNum 10)])), Do (Put (V 0) ''j'' (Call ''Gyd'' [V 0, K (JNum 11)])), Do (Put (V 0) ''k'' (Call ''Gyd'' [V 0, K (JNum 12)])), Do (Put (V 0) ''n'' (Call ''Gyd'' [V 0, K (JNum 13)])), Do (Put (V 0) ''o'' (Call ''Gyd'' [V 0, K (JNum 14)])), Do (Put (V 0) ''p'' (Call ''Gyd'' [V 0, K (JNum 15)])), Do (Put (V 0) ''q'' (Call ''Gyd'' [V 0, K (JNum 16)])), Do (Put (V 0) ''s'' (Call ''Gyd'' [V 0, K (JNum 17)])), Do (Put (V 0) ''r'' (Call ''Gyd'' [V 0, K (JNum 18)])), Do (Put (V 0) ''t'' (Call ''Gyd'' [V 0, K (JNum 19)])), Do (Put (V 0) ''u'' (Call ''Gyd'' [V 0, K (JNum 20)])), Do (Put (V 0) ''v'' (Call ''Gyd'' [V 0, K (JNum 21)])), Do (Put (V 0) ''w'' (Call ''Gyd'' [V 0, K (JNum 22)])), Do (Put (V 0) ''B'' (Call ''Gyd'' [V 0, K (JNum 23)])), Do (Put (V 0) ''A'' (Call ''Gyd'' [V 0, K (JNum 24)])), Do (Put (V 0) ''C'' (Call ''Gyd'' [V 0, K (JNum 25)])), Do (Put (V 0) ''D'' (Call ''Gyd'' [V 0, K (JNum 26)])), Do (Put (V 0) ''F'' (Call ''Gyd'' [V 0, K (JNum 27)])), Do (Put (V 0) ''G'' (Call ''Gyd'' [V 0, K (JNum 28)])), Do (Put (V 0) ''H'' (Call ''Gyd'' [V 0, K (JNum 29)])), Do (Put (V 0) ''J'' (Call ''Gyd'' [V 0, K (JNum 30)])), Do (Put (V 0) ''I'' (Call ''Gyd'' [V 0, K (JNum 31)])), Do (Put (V 0) ''K'' (Call ''Gyd'' [V 0, K (JNum 32)])), Do (Put (V 0) ''M'' (Call ''Gyd'' [V 0, K (JNum 33)])), Do (Put (V 0) ''L'' (Call ''Gyd'' [V 0, K (JNum 34)])), Do (Put (V 0) ''P'' (Call ''Gyd'' [V 0, K (JNum 35)])), Do (Put (V 0) ''Q'' (Call ''Gyd'' [V 0, K (JNum 36)])), Do (Put (V 0) ''R'' (Call ''Gyd'' [V 0, K (JNum 37)])), Do (Put (V 0) ''S'' (Call ''Gyd'' [V 0, K (JNum 38)])), Do (Put (V 0) ''T'' (Call ''Gyd'' [V 0, K (JNum 39)])), Do (Put (V 0) ''U'' (Call ''Gyd'' [V 0, K (JNum 40)])), Do (Put (V 0) ''V'' (Call ''Gyd'' [V 0, K (JNum 41)])), Do (Put (V 0) ''X'' (Call ''Gyd'' [V 0, K (JNum 42)])), Do (Put (V 0) ''W'' (Call ''Gyd'' [V 0, K (JNum 43)])), Do (Put (V 0) ''Y'' (Call ''Gyd'' [V 0, K (JNum 44)])), Do (Put (V 0) ''Z'' (Call ''Gyd'' [V 0, K (JNum 45)])), Do (Put (V 0) ''$'' (Call ''Gyd'' [V 0, K (JNum 46)])), Do (Put (V 0) ''_'' (Call ''Gyd'' [V 0, K (JNum 47)])), Do (Put (V 0) ''ab'' (Call ''Gyd'' [V 0, K (JNum 48)])), Do (Put (V 0) ''cb'' (Call ''Gyd'' [V 0, K (JNum 49)])), Do (Put (V 0) ''db'' (Call ''Gyd'' [V 0, K (JNum 50)])), Do (Put (V 0) ''eb'' (Call ''Gyd'' [V 0, K (JNum 51)])), Do (Put (V 0) ''gb'' (Call ''Gyd'' [V 0, K (JNum 52)])), Do (Put (V 0) ''hb'' (Call ''Gyd'' [V 0, K (JNum 53)])), Do (Put (V 0) ''ib'' (Call ''Gyd'' [V 0, K (JNum 54)])), Do (Put (V 0) ''jb'' (Call ''Gyd'' [V 0, K (JNum 55)])), Do (Put (V 0) ''kb'' (Call ''Gyd'' [V 0, K (JNum 56)])), Do (Put (V 0) ''lb'' (Call ''Gyd'' [V 0, K (JNum 57)])), Do (Put (V 0) ''mb'' (Call ''Gyd'' [V 0, K (JNum 58)])), Do (Put (V 0) ''nb'' (Call ''Gyd'' [V 0, K (JNum 59)])), Do (Put (V 0) ''ob'' (Call ''Gyd'' [V 0, K (JNum 60)])), Do (Put (V 0) ''pb'' (Call ''Gyd'' [V 0, K (JNum 61)]))],
    fn ''i2b'' 2 19 [Do (SetV 18 (K (JNum 0))), When (Loose (Dot (Dot (V 1) ''f'') ''a'') (K (JNum 0))) [Do (SetV 16 (New ''Kmb'' [V 0])), Loop (Bin Lt (Dot (V 16) ''a'') (Dot (Dot (Dot (V 16) ''c'') ''c'') ''length'')) [Do (SetV 14 (Call ''JD'' [Call ''Imb'' [V 16], K (JNum 9)])), Do (SetV 18 (Meth (Dot (G ''$wnd'') ''Math'') ''max'' [V 18, Bin Plus (Bin Plus (Dot (Dot (V 14) ''n'') ''a'') (Dot (Dot (V 14) ''o'') ''a'')) (Dot (Dot (V 14) ''d'') ''c'')]))] []] [Do (SetV 18 (Bin Minus (Dot (Dot (V 1) ''f'') ''a'') (Dot (Dot (V 1) ''c'') ''a'')))], Do (SetV 18 (Bin Minus (V 18) (Dot (Dot (V 1) ''c'') ''a''))), Do (SetV 15 (New ''Kmb'' [V 0])), Loop (Bin Lt (Dot (V 15) ''a'') (Dot (Dot (Dot (V 15) ''c'') ''c'') ''length'')) [Do (SetV 14 (Call ''JD'' [Call ''Imb'' [V 15], K (JNum 9)])), Do (Call ''j2b'' [Dot (V 14) ''n'', Bin Minus (V 18) (Dot (Dot (V 14) ''o'') ''a'')]), Do (Call ''k2b'' [Dot (V 14) ''f'']), Do (Call ''g2b'' [V 14]), Do (And (Meth (Cond (Neg (Dot (V 14) ''q'')) (Seq (Seq (Call ''Inb'' []) (Call ''Inb'' [])) (G ''Gnb'')) (Dot (V 14) ''q'')) ''_b'' [Seq (Call ''nyc'' []) (G ''xxc'')]) (Call ''j2b'' [Call ''JD'' [Call ''oNb'' [V 14, G ''xxc''], K (JNum 8)], Bin Minus (V 18) (Dot (Dot (V 14) ''o'') ''a'')])), Switch (Dot (Call ''JD'' [Call ''oNb'' [V 14, G ''tvc''], K (JNum 256)]) ''g'') [(Some (JNum 1), [Do (Call ''rNb'' [V 14, G ''tvc'', Seq (Call ''Lgd'' []) (G ''Jgd'')]), Break]), (Some (JNum 2), [Do (Call ''rNb'' [V 14, G ''tvc'', Seq (Call ''Lgd'' []) (G ''Igd'')])])], Do (SetV 17 (Dot (V 14) ''o'')), Do (SetV 20 (New ''Kmb'' [Dot (V 14) ''j''])), Loop (Bin Lt (Dot (V 20) ''a'') (Dot (Dot (Dot (V 20) ''c'') ''c'') ''length'')) [Do (SetV 19 (Call ''JD'' [Call ''Imb'' [V 20], K (JNum 12)])), Do (Call ''j2b'' [Dot (V 19) ''n'', Bin Minus (Dot (V 17) ''a'') (Dot (Dot (V 19) ''o'') ''a'')]), Do (Call ''j2b'' [Dot (V 19) ''a'', Dot (Dot (V 19) ''o'') ''a'']), Do (Call ''xZb'' [V 19, Call ''a2b'' [Dot (V 19) ''j'']]), Do (SetV 6 (Call ''JD'' [Call ''oNb'' [V 19, G ''rxc''], K (JNum 15)])), Do (And (Neg (Neg (V 6))) (Call ''rNb'' [V 19, G ''rxc'', Call ''Cfb'' [Minus1 (Dot (V 6) ''a'')]])), Do (SetV 5 (New ''Kmb'' [Dot (V 19) ''g''])), Loop (Bin Lt (Dot (V 5) ''a'') (Dot (Dot (Dot (V 5) ''c'') ''c'') ''length'')) [Do (SetV 4 (Call ''JD'' [Call ''Imb'' [V 5], K (JNum 17)])), Do (SetV 3 (Call ''Ztb'' [Dot (V 4) ''a'', K (JNum 0)])), Loop (Neg (Loose (Dot (V 3) ''b'') (Dot (Dot (V 3) ''d'') ''c''))) [Do (SetV 2 (Call ''JD'' [Call ''lub'' [V 3], K (JNum 8)])), Do (Put (V 2) ''a'' (Bin Minus (V 18) (Dot (V 2) ''a'')))] [], Do (SetV 9 (Call ''JD'' [Call ''oNb'' [V 4, G ''Bwc''], K (JNum 79)])), When (V 9) [Do (SetV 8 (Call ''Ztb'' [V 9, K (JNum 0)])), Loop (Neg (Loose (Dot (V 8) ''b'') (Dot (Dot (V 8) ''d'') ''c''))) [Do (SetV 7 (Call ''JD'' [Call ''lub'' [V 8], K (JNum 8)])), Do (Put (V 7) ''a'' (Bin Minus (V 18) (Dot (V 7) ''a'')))] []] [], Do (SetV 12 (New ''Kmb'' [Dot (V 4) ''b''])), Loop (Bin Lt (Dot (V 12) ''a'') (Dot (Dot (Dot (V 12) ''c'') ''c'') ''length'')) [Do (SetV 10 (Call ''JD'' [Call ''Imb'' [V 12], K (JNum 70)])), Do (Call ''j2b'' [Dot (V 10) ''n'', Bin Minus (V 18) (Dot (Dot (V 10) ''o'') ''a'')])] []] [], Do (SetV 13 (New ''Kmb'' [Dot (V 19) ''f''])), Loop (Bin Lt (Dot (V 13) ''a'') (Dot (Dot (Dot (V 13) ''c'') ''c'') ''length'')) [Do (SetV 10 (Call ''JD'' [Call ''Imb'' [V 13], K (JNum 70)])), Do (Call ''j2b'' [Dot (V 10) ''n'', Bin Minus (Dot (Dot (V 19) ''o'') ''a'') (Dot (Dot (V 10) ''o'') ''a'')])] []] [], When (Loose (Dot (V 14) ''k'') (Seq (Call ''$Yb'' []) (G ''TYb''))) [Do (Call ''rNb'' [V 14, Seq (Call ''Wrc'' []) (G ''$qc''), Call ''a2b'' [Call ''JD'' [Call ''oNb'' [V 14, G ''$qc''], K (JNum 64)]]]), Do (Call ''f2b'' [V 14])] [], Do (SetV 11 (New ''Kmb'' [Dot (V 14) ''b''])), Loop (Bin Lt (Dot (V 11) ''a'') (Dot (Dot (Dot (V 11) ''c'') ''c'') ''length'')) [Do (SetV 10 (Call ''JD'' [Call ''Imb'' [V 11], K (JNum 70)])), Do (Call ''g2b'' [V 10]), Do (Call ''j2b'' [Dot (V 10) ''n'', Bin Minus (Dot (V 17) ''a'') (Dot (Dot (V 10) ''o'') ''a'')])] []] []],
    fn ''l2b'' 2 19 [Do (SetV 18 (K (JNum 0))), When (Loose (Dot (Dot (V 1) ''f'') ''b'') (K (JNum 0))) [Do (SetV 16 (New ''Kmb'' [V 0])), Loop (Bin Lt (Dot (V 16) ''a'') (Dot (Dot (Dot (V 16) ''c'') ''c'') ''length'')) [Do (SetV 14 (Call ''JD'' [Call ''Imb'' [V 16], K (JNum 9)])), Do (SetV 18 (Meth (Dot (G ''$wnd'') ''Math'') ''max'' [V 18, Bin Plus (Bin Plus (Dot (Dot (V 14) ''n'') ''b'') (Dot (Dot (V 14) ''o'') ''b'')) (Dot (Dot (V 14) ''d'') ''a'')]))] []] [Do (SetV 18 (Bin Minus (Dot (Dot (V 1) ''f'') ''b'') (Dot (Dot (V 1) ''c'') ''b'')))], Do (SetV 18 (Bin Minus (V 18) (Dot (Dot (V 1) ''c'') ''b''))), Do (SetV 15 (New ''Kmb'' [V 0])), Loop (Bin Lt (Dot (V 15) ''a'') (Dot (Dot (Dot (V 15) ''c'') ''c'') ''length'')) [Do (SetV 14 (Call ''JD'' [Call ''Imb'' [V 15], K (JNum 9)])), Do (Call ''m2b'' [Dot (V 14) ''n'', Bin Minus (V 18) (Dot (Dot (V 14) ''o'') ''b'')]), Do (Call ''n2b'' [Dot (V 14) ''f'']), Do (Call ''h2b'' [V 14]), Do (And (Meth (Cond (Neg (Dot (V 14) ''q'')) (Seq (Seq (Call ''Inb'' []) (Call ''Inb'' [])) (G ''Gnb'')) (Dot (V 14) ''q'')) ''_b'' [Seq (Call ''nyc'' []) (G ''xxc'')]) (Call ''m2b'' [Call ''JD'' [Call ''oNb'' [V 14, G ''xxc''], K (JNum 8)], Bin Minus (V 18) (Dot (Dot (V 14) ''o'') ''b'')])), Switch (Dot (Call ''JD'' [Call ''oNb'' [V 14, G ''tvc''], K (JNum 256)]) ''g'') [(Some (JNum 3), [Do (Call ''rNb'' [V 14, G ''tvc'', Seq (Call ''Lgd'' []) (G ''Ggd'')]), Break]), (Some (JNum 4), [Do (Call ''rNb'' [V 14, G ''tvc'', Seq (Call ''Lgd'' []) (G ''Kgd'')])])], Do (SetV 17 (Dot (V 14) ''o'')), Do (SetV 20 (New ''Kmb'' [Dot (V 14) ''j''])), Loop (Bin Lt (Dot (V 20) ''a'') (Dot (Dot (Dot (V 20) ''c'') ''c'') ''length'')) [Do (SetV 19 (Call ''JD'' [Call ''Imb'' [V 20], K (JNum 12)])), Do (Call ''m2b'' [Dot (V 19) ''n'', Bin Minus (Dot (V 17) ''b'') (Dot (Dot (V 19) ''o'') ''b'')]), Do (Call ''m2b'' [Dot (V 19) ''a'', Dot (Dot (V 19) ''o'') ''b'']), Do (Call ''xZb'' [V 19, Call ''b2b'' [Dot (V 19) ''j'']]), Do (SetV 6 (Call ''JD'' [Call ''oNb'' [V 19, G ''rxc''], K (JNum 15)])), Do (And (Neg (Neg (V 6))) (Call ''rNb'' [V 19, G ''rxc'', Call ''Cfb'' [Minus1 (Dot (V 6) ''a'')]])), Do (SetV 5 (New ''Kmb'' [Dot (V 19) ''g''])), Loop (Bin Lt (Dot (V 5) ''a'') (Dot (Dot (Dot (V 5) ''c'') ''c'') ''length'')) [Do (SetV 4 (Call ''JD'' [Call ''Imb'' [V 5], K (JNum 17)])), Do (SetV 3 (Call ''Ztb'' [Dot (V 4) ''a'', K (JNum 0)])), Loop (Neg (Loose (Dot (V 3) ''b'') (Dot (Dot (V 3) ''d'') ''c''))) [Do (SetV 2 (Call ''JD'' [Call ''lub'' [V 3], K (JNum 8)])), Do (Put (V 2) ''b'' (Bin Minus (V 18) (Dot (V 2) ''b'')))] [], Do (SetV 9 (Call ''JD'' [Call ''oNb'' [V 4, G ''Bwc''], K (JNum 79)])), When (V 9) [Do (SetV 8 (Call ''Ztb'' [V 9, K (JNum 0)])), Loop (Neg (Loose (Dot (V 8) ''b'') (Dot (Dot (V 8) ''d'') ''c''))) [Do (SetV 7 (Call ''JD'' [Call ''lub'' [V 8], K (JNum 8)])), Do (Put (V 7) ''b'' (Bin Minus (V 18) (Dot (V 7) ''b'')))] []] [], Do (SetV 12 (New ''Kmb'' [Dot (V 4) ''b''])), Loop (Bin Lt (Dot (V 12) ''a'') (Dot (Dot (Dot (V 12) ''c'') ''c'') ''length'')) [Do (SetV 10 (Call ''JD'' [Call ''Imb'' [V 12], K (JNum 70)])), Do (Call ''m2b'' [Dot (V 10) ''n'', Bin Minus (V 18) (Dot (Dot (V 10) ''o'') ''b'')])] []] [], Do (SetV 13 (New ''Kmb'' [Dot (V 19) ''f''])), Loop (Bin Lt (Dot (V 13) ''a'') (Dot (Dot (Dot (V 13) ''c'') ''c'') ''length'')) [Do (SetV 10 (Call ''JD'' [Call ''Imb'' [V 13], K (JNum 70)])), Do (Call ''m2b'' [Dot (V 10) ''n'', Bin Minus (Dot (Dot (V 19) ''o'') ''b'') (Dot (Dot (V 10) ''o'') ''b'')])] []] [], When (Loose (Dot (V 14) ''k'') (Seq (Call ''$Yb'' []) (G ''TYb''))) [Do (Call ''rNb'' [V 14, Seq (Call ''Wrc'' []) (G ''$qc''), Call ''b2b'' [Call ''JD'' [Call ''oNb'' [V 14, G ''$qc''], K (JNum 64)]]]), Do (Call ''e2b'' [V 14])] [], Do (SetV 11 (New ''Kmb'' [Dot (V 14) ''b''])), Loop (Bin Lt (Dot (V 11) ''a'') (Dot (Dot (Dot (V 11) ''c'') ''c'') ''length'')) [Do (SetV 10 (Call ''JD'' [Call ''Imb'' [V 11], K (JNum 70)])), Do (Call ''h2b'' [V 10]), Do (Call ''m2b'' [Dot (V 10) ''n'', Bin Minus (Dot (V 17) ''b'') (Dot (Dot (V 10) ''o'') ''b'')])] []] []],
    fn ''fmc'' 2 28 [Do (SetV 18 (New ''Tjb'' [Dot (V 0) ''b'', K (JNum 0)])), Do (SetV 10 (Meth (V 1) ''Jc'' [])), Do (SetV 14 (K (JNum 0))), Do (SetV 9 (Dot (Call ''JD'' [Meth (V 10) ''Pb'' [], K (JNum 15)]) ''a'')), Do (SetV 21 (K (JNum 0))), Do (SetV 2 (New ''hsb'' [])), Do (SetV 23 (New ''Ptb'' [])), Loop (Bin Lt (Dot (V 18) ''b'') (Meth (Dot (V 18) ''d'') ''gc'' [])) [Do (SetV 17 (Seq (Call ''LDb'' [Bin Lt (Dot (V 18) ''b'') (Meth (Dot (V 18) ''d'') ''gc'' [])]) (Call ''JD'' [Meth (Dot (V 18) ''d'') ''Xb'' [Put (V 18) ''c'' (Bin Minus (Put (V 18) ''b'' (Bin Minus (Dot (V 18) ''b'') (K (JNum (- 1))))) (K (JNum 1)))], K (JNum 25)]))), Do (SetV 20 (New ''Kmb'' [Dot (V 17) ''a''])), Loop (Bin Lt (Dot (V 20) ''a'') (Dot (Dot (Dot (V 20) ''c'') ''c'') ''length'')) [Do (SetV 19 (Call ''JD'' [Call ''Imb'' [V 20], K (JNum 9)])), Do (SetV 13 (New ''Yr'' [Call ''Dr'' [Meth (Dot (Call ''HYb'' [V 19]) ''a'') ''Jc'' [], New ''Dl'' []]])), Loop (Call ''Wr'' [V 13]) [Do (SetV 11 (Call ''JD'' [Call ''Xr'' [V 13], K (JNum 17)])), Do (Meth (Dot (V 23) ''a'') ''yc'' [V 11, V 23])] [], Do (SetV 12 (New ''Yr'' [Call ''Dr'' [Meth (Dot (Call ''EYb'' [V 19]) ''a'') ''Jc'' [], New ''Dl'' []]])), Loop (Call ''Wr'' [V 12]) [Do (SetV 11 (Call ''JD'' [Call ''Xr'' [V 12], K (JNum 17)])), Do (Neg (Loose (Meth (Dot (V 23) ''a'') ''Ac'' [V 11]) (K JNull)))] []] [], When (Loose (Bin Plus (V 14) (K (JNum 1))) (V 9)) [Do (SetV 4 (New ''y$b'' [V 0])), Do (Call ''Sjb'' [V 18, V 4]), Do (SetV 5 (New ''y$b'' [V 0])), Do (Call ''Sjb'' [V 18, V 5]), Do (SetV 25 (Meth (Meth (Dot (V 23) ''a'') ''ec'' []) ''Jc'' [])), Loop (Meth (V 25) ''Ob'' []) [Do (SetV 24 (Call ''JD'' [Meth (V 25) ''Pb'' [], K (JNum 17)])), When (Neg (Meth (Dot (V 2) ''a'') ''_b'' [V 24])) [Do (SetV 21 (Bin Minus (V 21) (K (JNum (- 1))))), Do (Meth (Dot (V 2) ''a'') ''yc'' [V 24, V 2])] [], Do (SetV 6 (New ''QYb'' [V 0])), Do (Call ''rNb'' [V 6, Seq (Call ''nyc'' []) (G ''qxc''), Seq (Call ''Mld'' []) (G ''Jld'')]), Do (Call ''NYb'' [V 6, V 4]), Do (Call ''OYb'' [V 6, Seq (Call ''$Yb'' []) (G ''SYb'')]), Do (SetV 15 (New ''yZb'' [])), Do (Call ''wZb'' [V 15, V 6]), Do (Call ''xZb'' [V 15, Seq (Call ''Bmd'' []) (G ''Amd'')]), Do (SetV 26 (New ''yZb'' [])), Do (Call ''wZb'' [V 26, V 6]), Do (Call ''xZb'' [V 26, G ''gmd'']), Do (SetV 3 (New ''QYb'' [V 0])), Do (Call ''rNb'' [V 3, G ''qxc'', G ''Jld'']), Do (Call ''NYb'' [V 3, V 5]), Do (Call ''OYb'' [V 3, G ''SYb'']), Do (SetV 16 (New ''yZb'' [])), Do (Call ''wZb'' [V 16, V 3]), Do (Call ''xZb'' [V 16, G ''Amd'']), Do (SetV 27 (New ''yZb'' [])), Do (Call ''wZb'' [V 27, V 3]), Do (Call ''xZb'' [V 27, G ''gmd'']), Do (SetV 22 (New ''GWb'' [])), Do (Call ''CWb'' [V 22, Dot (V 24) ''c'']), Do (Call ''DWb'' [V 22, V 15]), Do (Call ''rNb'' [V 22, Seq (Call ''Wrc'' []) (G ''trc''), Call ''JD'' [Call ''oNb'' [V 24, G ''trc''], K (JNum 15)]]), Do (SetV 29 (New ''GWb'' [])), Do (Call ''CWb'' [V 29, V 26]), Do (Call ''DWb'' [V 29, V 16]), Do (Call ''rNb'' [V 29, G ''trc'', Call ''JD'' [Call ''oNb'' [V 24, G ''trc''], K (JNum 15)]]), Do (Call ''CWb'' [V 24, V 27]), Do (SetV 7 (New ''lmc'' [V 6, V 3, V 22, V 29, V 24])), Do (Call ''rNb'' [V 6, G ''Mqc'', V 7]), Do (Call ''rNb'' [V 3, G ''Mqc'', V 7]), Do (SetV 28 (Dot (Dot (V 22) ''c'') ''i'')), When (Loose (Dot (V 28) ''k'') (G ''SYb'')) [Do (SetV 8 (Call ''JD'' [Call ''oNb'' [V 28, G ''Mqc''], K (JNum 318)])), Do (Put (V 8) ''d'' (V 7)), Do (Put (V 7) ''g'' (V 8))] []] [], When (Meth (V 10) ''Ob'' []) [Do (SetV 9 (Dot (Call ''JD'' [Meth (V 10) ''Pb'' [], K (JNum 15)]) ''a''))] [Break]] [], Do (SetV 14 (Bin Minus (V 14) (K (JNum (- 1)))))] [], Ret (Call ''Cfb'' [V 21])]]"

definition code_6242_6242 :: "(string \<times> jfun) list" where
  "code_6242_6242 = [
    fn ''sec'' 1 16 [Do (SetV 15 (New ''lmb'' [])), Do (SetV 12 (New ''Kmb'' [Dot (Dot (V 0) ''d'') ''b''])), Loop (Bin Lt (Dot (V 12) ''a'') (Dot (Dot (Dot (V 12) ''c'') ''c'') ''length'')) [Do (SetV 11 (Call ''JD'' [Call ''Imb'' [V 12], K (JNum 25)])), Do (SetV 14 (New ''Kmb'' [Dot (V 11) ''a''])), Loop (Bin Lt (Dot (V 14) ''a'') (Dot (Dot (Dot (V 14) ''c'') ''c'') ''length'')) [Do (SetV 13 (Call ''JD'' [Call ''Imb'' [V 14], K (JNum 9)])), Do (SetV 4 (Call ''JD'' [Call ''ejb'' [Dot (V 0) ''f'', V 13], K (JNum 60)])), Do (SetV 8 (New ''Yr'' [Call ''Dr'' [Meth (Dot (Call ''HYb'' [V 13]) ''a'') ''Jc'' [], New ''Dl'' []]])), Loop (Call ''Wr'' [V 8]) [Do (SetV 6 (Call ''JD'' [Call ''Xr'' [V 8], K (JNum 17)])), Do (SetV 3 (Call ''Ztb'' [Dot (V 6) ''a'', K (JNum 0)])), Do (SetV 9 (K (JBool True))), Do (SetV 10 (K JNull)), When (Neg (Loose (Dot (V 3) ''b'') (Dot (Dot (V 3) ''d'') ''c''))) [Do (SetV 1 (Call ''JD'' [Call ''lub'' [V 3], K (JNum 8)])), Do (SetV 2 (K JNull)), When (Loose (Dot (Dot (V 6) ''c'') ''j'') (Seq (Call ''Bmd'' []) (G ''hmd''))) [Do (SetV 16 (New ''Yfc'' [V 1, New ''lgd'' [Dot (V 1) ''a'', Dot (Dot (V 4) ''d'') ''d''], V 4, V 6])), Do (Put (Dot (V 16) ''f'') ''a'' (K (JBool True))), Do (Put (V 16) ''a'' (Dot (V 6) ''c'')), Do (Call ''qDb'' [Dot (V 15) ''c'', V 16])] [], When (Loose (Dot (Dot (V 6) ''c'') ''j'') (G ''ymd'')) [Do (SetV 16 (New ''Yfc'' [V 1, New ''lgd'' [Dot (V 1) ''a'', Bin Plus (Dot (Dot (V 4) ''d'') ''d'') (Dot (Dot (V 4) ''d'') ''a'')], V 4, V 6])), Do (Put (Dot (V 16) ''f'') ''d'' (K (JBool True))), Do (Put (V 16) ''a'' (Dot (V 6) ''c'')), Do (Call ''qDb'' [Dot (V 15) ''c'', V 16])] [], Loop (Neg (Loose (Dot (V 3) ''b'') (Dot (Dot (V 3) ''d'') ''c''))) [Do (SetV 2 (Call ''JD'' [Call ''lub'' [V 3], K (JNum 8)])), When (Neg (Call ''KEb'' [Dot (V 1) ''b'', Dot (V 2) ''b''])) [Do (SetV 10 (New ''Yfc'' [V 1, V 2, K JNull, V 6])), Do (Call ''qDb'' [Dot (V 15) ''c'', V 10]), When (V 9) [Do (SetV 9 (K (JBool False))), When (Bin Lt (Dot (V 2) ''b'') (Dot (Dot (V 4) ''d'') ''d'')) [Do (Put (Dot (V 10) ''f'') ''a'' (K (JBool True)))] [When (Bin Gt (Dot (V 2) ''b'') (Bin Plus (Dot (Dot (V 4) ''d'') ''d'') (Dot (Dot (V 4) ''d'') ''a''))) [Do (Put (Dot (V 10) ''f'') ''d'' (K (JBool True)))] [Do (Put (Dot (V 10) ''f'') ''d'' (K (JBool True))), Do (Put (Dot (V 10) ''f'') ''a'' (K (JBool True)))]]] []] [], Do (And (Neg (Loose (Dot (V 3) ''b'') (Dot (Dot (V 3) ''d'') ''c''))) (SetV 1 (V 2)))] [], When (V 10) [Do (SetV 5 (Call ''JD'' [Call ''ejb'' [Dot (V 0) ''f'', Dot (Dot (V 6) ''d'') ''i''], K (JNum 60)])), When (Bin Lt (Dot (V 1) ''b'') (Dot (Dot (V 5) ''d'') ''d'')) [Do (Put (Dot (V 10) ''f'') ''a'' (K (JBool True)))] [When (Bin Gt (Dot (V 1) ''b'') (Bin Plus (Dot (Dot (V 5) ''d'') ''d'') (Dot (Dot (V 5) ''d'') ''a''))) [Do (Put (Dot (V 10) ''f'') ''d'' (K (JBool True)))] [Do (Put (Dot (V 10) ''f'') ''d'' (K (JBool True))), Do (Put (Dot (V 10) ''f'') ''a'' (K (JBool True)))]]] []] []] [], Do (SetV 7 (New ''Yr'' [Call ''Dr'' [Meth (Dot (Call ''EYb'' [V 13]) ''a'') ''Jc'' [], New ''Dl'' []]])), Loop (Call ''Wr'' [V 7]) [Do (SetV 6 (Call ''JD'' [Call ''Xr'' [V 7], K (JNum 17)])), When (Neg (Loose (Dot (Dot (V 6) ''a'') ''b'') (K (JNum 0)))) [Do (SetV 1 (Call ''JD'' [Call ''Ytb'' [Dot (V 6) ''a''], K (JNum 8)])), When (Loose (Dot (Dot (V 6) ''d'') ''j'') (Seq (Call ''Bmd'' []) (G ''hmd''))) [Do (SetV 16 (New ''Yfc'' [V 1, New ''lgd'' [Dot (V 1) ''a'', Dot (Dot (V 4) ''d'') ''d''], V 4, V 6])), Do (Put (Dot (V 16) ''f'') ''a'' (K (JBool True))), Do (Put (V 16) ''a'' (Dot (V 6) ''d'')), Do (Call ''qDb'' [Dot (V 15) ''c'', V 16])] [], When (Loose (Dot (Dot (V 6) ''d'') ''j'') (G ''ymd'')) [Do (SetV 16 (New ''Yfc'' [V 1, New ''lgd'' [Dot (V 1) ''a'', Bin Plus (Dot (Dot (V 4) ''d'') ''d'') (Dot (Dot (V 4) ''d'') ''a'')], V 4, V 6])), Do (Put (Dot (V 16) ''f'') ''d'' (K (JBool True))), Do (Put (V 16) ''a'' (Dot (V 6) ''d'')), Do (Call ''qDb'' [Dot (V 15) ''c'', V 16])] []] []] []] []] [], Ret (V 15)]]"

definition code_6244_6248 :: "(string \<times> jfun) list" where
  "code_6244_6248 = [
    fn ''_oe'' 1 5 [Do (SetV 1 (Dot (V 0) ''c'')), Do (SetV 5 (K JNull)), Switch (V 1) [(Some (JNum 6), [Ret (Meth (V 0) ''Cm'' [])]), (Some (JNum 13), [Ret (Meth (V 0) ''Dm'' [])]), (Some (JNum 23), [Ret (Meth (V 0) ''um'' [])]), (Some (JNum 22), [Ret (Meth (V 0) ''zm'' [])]), (Some (JNum 18), [Ret (Meth (V 0) ''wm'' [])]), (Some (JNum 8), [Do (Call ''Zoe'' [V 0]), Do (SetV 5 (Seq (Call ''gre'' []) (G ''Qqe''))), Break]), (Some (JNum 9), [Ret (Meth (V 0) ''cm'' [K (JBool True)])]), (Some (JNum 19), [Ret (Meth (V 0) ''dm'' [])]), (Some (JNum 10), [Switch (Dot (V 0) ''a'') [(Some (JNum 100), []), (Some (JNum 68), []), (Some (JNum 119), []), (Some (JNum 87), []), (Some (JNum 115), []), (Some (JNum 83), [Do (SetV 5 (Meth (V 0) ''bm'' [Dot (V 0) ''a''])), Do (Call ''Zoe'' [V 0]), Ret (V 5)]), (Some (JNum 101), []), (Some (JNum 102), []), (Some (JNum 110), []), (Some (JNum 114), []), (Some (JNum 116), []), (Some (JNum 117), []), (Some (JNum 118), []), (Some (JNum 120), [Do (SetV 2 (Meth (V 0) ''am'' [])), Do (Cond (Bin Lt (V 2) (G ''Hve'')) (SetV 5 (Seq (Seq (Seq (Call ''gre'' []) (Call ''gre'' [])) (SetG ''fre'' (Bin Minus (G ''fre'') (K (JNum (- 1)))))) (New ''Ure'' [K (JNum 0), V 2]))) (SetV 5 (Call ''pre'' [Call ''Dqe'' [V 2]]))), Break]), (Some (JNum 99), [Ret (Meth (V 0) ''mm'' [])]), (Some (JNum 67), [Ret (Meth (V 0) ''hm'' [])]), (Some (JNum 105), [Ret (Meth (V 0) ''pm'' [])]), (Some (JNum 73), [Ret (Meth (V 0) ''im'' [])]), (Some (JNum 103), [Ret (Meth (V 0) ''nm'' [])]), (Some (JNum 88), [Ret (Meth (V 0) ''jm'' [])]), (Some (JNum 49), []), (Some (JNum 50), []), (Some (JNum 51), []), (Some (JNum 52), []), (Some (JNum 53), []), (Some (JNum 54), []), (Some (JNum 55), []), (Some (JNum 56), []), (Some (JNum 57), [Ret (Meth (V 0) ''em'' [])]), (Some (JNum 80), []), (Some (JNum 112), [Do (SetV 5 (Call ''dpe'' [V 0, Dot (V 0) ''a''])), When (Neg (V 5)) [Raise (Call ''Lcb'' [New ''Yoe'' [Call ''iHd'' [Seq (Call ''Ube'' []) (G ''sHe'')]]])] [], Break]), (None, [Do (SetV 5 (Call ''jre'' [Dot (V 0) ''a'']))])], Do (Call ''Zoe'' [V 0]), Break]), (Some (JNum 0), [When (Or (Or (Loose (Dot (V 0) ''a'') (K (JNum 93))) (Loose (Dot (V 0) ''a'') (K (JNum 123)))) (Loose (Dot (V 0) ''a'') (K (JNum 125)))) [Raise (Call ''Lcb'' [New ''Yoe'' [Call ''iHd'' [Seq (Call ''Ube'' []) (G ''rHe'')]]])] [], Do (SetV 5 (Call ''jre'' [Dot (V 0) ''a''])), Do (SetV 3 (Dot (V 0) ''a'')), Do (Call ''Zoe'' [V 0]), When (And (And (Loose (Bin BitAnd (V 3) (K (JNum 64512))) (G ''Ive'')) (Loose (Dot (V 0) ''c'') (K (JNum 0)))) (Loose (Bin BitAnd (Dot (V 0) ''a'') (K (JNum 64512))) (K (JNum 56320)))) [Do (SetV 4 (Call ''SC'' [G ''_D'', G ''Nue'', K (JNum 30), K (JNum 2), K (JNum 15), K (JNum 1)])), Do (PutIdx (V 4) (K (JNum 0)) (Bin BitAnd (V 3) (G ''Pue''))), Do (PutIdx (V 4) (K (JNum 1)) (Bin BitAnd (Dot (V 0) ''a'') (G ''Pue''))), Do (SetV 5 (Call ''ore'' [Call ''pre'' [Call ''Sgb'' [V 4, K (JNum 0), Dot (V 4) ''length'']], K (JNum 0)])), Do (Call ''Zoe'' [V 0])] [], Break]), (None, [Raise (Call ''Lcb'' [New ''Yoe'' [Call ''iHd'' [Seq (Call ''Ube'' []) (G ''rHe'')]]])])], Ret (V 5)],
    fn ''FRc'' 2 26 [Do (SetV 25 (New ''dub'' [])), Do (SetV 22 (New ''dub'' [])), Do (SetV 16 (K (JNum (- 1)))), Do (SetV 8 (New ''Kmb'' [V 0])), Loop (Bin Lt (Dot (V 8) ''a'') (Dot (Dot (Dot (V 8) ''c'') ''c'') ''length'')) [Do (SetV 6 (Call ''JD'' [Call ''Imb'' [V 8], K (JNum 132)])), Do (Put (V 6) ''s'' (Bin Minus (SetV 16 (Bin Minus (V 16) (K (JNum 1)))) (K (JNum (- 1))))), Do (SetV 10 (K (JNum 0))), Do (SetV 19 (K (JNum 0))), Do (SetV 5 (New ''Kmb'' [Dot (V 6) ''t''])), Loop (Bin Lt (Dot (V 5) ''a'') (Dot (Dot (Dot (V 5) ''c'') ''c'') ''length'')) [Do (SetV 3 (Call ''JD'' [Call ''Imb'' [V 5], K (JNum 273)])), Do (SetV 19 (Bin Plus (V 19) (Dot (V 3) ''c'')))] [], Do (SetV 4 (New ''Kmb'' [Dot (V 6) ''i''])), Loop (Bin Lt (Dot (V 4) ''a'') (Dot (Dot (Dot (V 4) ''c'') ''c'') ''length'')) [Do (SetV 3 (Call ''JD'' [Call ''Imb'' [V 4], K (JNum 273)])), Do (SetV 10 (Bin Plus (V 10) (Dot (V 3) ''c'')))] [], Do (Put (V 6) ''n'' (V 10)), Do (Put (V 6) ''u'' (V 19)), Do (Cond (Loose (V 19) (K (JNum 0))) (Seq (Call ''Wtb'' [V 22, V 6, Dot (Dot (V 22) ''c'') ''b'', Dot (V 22) ''c'']) (K (JBool True))) (And (Loose (V 10) (K (JNum 0))) (Seq (Call ''Wtb'' [V 25, V 6, Dot (Dot (V 25) ''c'') ''b'', Dot (V 25) ''c'']) (K (JBool True)))))] [], Do (SetV 27 (Call ''Tx'' [V 0])), Do (SetV 11 (Dot (Dot (V 0) ''c'') ''length'')), Do (SetV 15 (Bin Plus (V 11) (K (JNum 1)))), Do (SetV 17 (Bin Minus (V 11) (K (JNum 1)))), Do (SetV 13 (New ''lmb'' [])), Loop (Neg (Loose (Meth (Dot (V 27) ''a'') ''gc'' []) (K (JNum 0)))) [Loop (Neg (Loose (Dot (V 22) ''b'') (K (JNum 0)))) [Do (SetV 21 (Seq (Call ''LDb'' [Neg (Loose (Dot (V 22) ''b'') (K (JNum 0)))]) (Call ''JD'' [Call ''bub'' [V 22, Dot (Dot (V 22) ''a'') ''a''], K (JNum 132)]))), Do (Neg (Loose (Meth (Dot (V 27) ''a'') ''Ac'' [V 21]) (K JNull))), Do (Put (V 21) ''s'' (Bin Minus (SetV 17 (Bin Minus (V 17) (K (JNum 1)))) (K (JNum (- 1))))), Do (Call ''JRc'' [V 21, V 25, V 22])] [], Loop (Neg (Loose (Dot (V 25) ''b'') (K (JNum 0)))) [Do (SetV 23 (Seq (Call ''LDb'' [Neg (Loose (Dot (V 25) ''b'') (K (JNum 0)))]) (Call ''JD'' [Call ''bub'' [V 25, Dot (Dot (V 25) ''a'') ''a''], K (JNum 132)]))), Do (Neg (Loose (Meth (Dot (V 27) ''a'') ''Ac'' [V 23]) (K JNull))), Do (Put (V 23) ''s'' (Bin Minus (SetV 15 (Bin Minus (V 15) (K (JNum (- 1))))) (K (JNum 1)))), Do (Call ''JRc'' [V 23, V 25, V 22])] [], Do (SetV 14 (G ''Eue'')), Do (SetV 9 (Meth (Meth (Dot (V 27) ''a'') ''ec'' []) ''Jc'' [])), Loop (Meth (V 9) ''Ob'' []) [Do (SetV 6 (Call ''JD'' [Meth (V 9) ''Pb'' [], K (JNum 132)])), Do (SetV 18 (Bin Minus (Dot (V 6) ''u'') (Dot (V 6) ''n''))), When (Bin Ge (V 18) (V 14)) [When (Bin Gt (V 18) (V 14)) [Do (Put (Dot (V 13) ''c'') ''length'' (K (JNum 0))), Do (SetV 14 (V 18))] [], Do (Call ''qDb'' [Dot (V 13) ''c'', V 6])] []] [], When (Neg (Loose (Dot (Dot (V 13) ''c'') ''length'') (K (JNum 0)))) [Do (SetV 12 (Call ''JD'' [Call ''dmb'' [V 13, Call ''Qvb'' [V 1, Dot (Dot (V 13) ''c'') ''length'']], K (JNum 132)])), Do (Neg (Loose (Meth (Dot (V 27) ''a'') ''Ac'' [V 12]) (K JNull))), Do (Put (V 12) ''s'' (Bin Minus (SetV 15 (Bin Minus (V 15) (K (JNum (- 1))))) (K (JNum 1)))), Do (Call ''JRc'' [V 12, V 25, V 22]), Do (Put (Dot (V 13) ''c'') ''length'' (K (JNum 0)))] []] [], Do (SetV 20 (Bin Plus (Dot (Dot (V 0) ''c'') ''length'') (K (JNum 1)))), Do (SetV 7 (New ''Kmb'' [V 0])), Loop (Bin Lt (Dot (V 7) ''a'') (Dot (Dot (Dot (V 7) ''c'') ''c'') ''length'')) [Do (SetV 6 (Call ''JD'' [Call ''Imb'' [V 7], K (JNum 132)])), Do (And (Bin Lt (Dot (V 6) ''s'') (V 11)) (Put (V 6) ''s'' (Bin Plus (Dot (V 6) ''s'') (V 20))))] [], Do (SetV 24 (New ''Kmb'' [V 0])), Loop (Bin Lt (Dot (V 24) ''a'') (Dot (Dot (Dot (V 24) ''c'') ''c'') ''length'')) [Do (SetV 23 (Call ''JD'' [Call ''Imb'' [V 24], K (JNum 132)])), Do (SetV 2 (New ''Tjb'' [Dot (V 23) ''t'', K (JNum 0)])), Loop (Bin Lt (Dot (V 2) ''b'') (Meth (Dot (V 2) ''d'') ''gc'' [])) [Do (SetV 3 (Seq (Call ''LDb'' [Bin Lt (Dot (V 2) ''b'') (Meth (Dot (V 2) ''d'') ''gc'' [])]) (Call ''JD'' [Meth (Dot (V 2) ''d'') ''Xb'' [Put (V 2) ''c'' (Bin Minus (Put (V 2) ''b'' (Bin Minus (Dot (V 2) ''b'') (K (JNum (- 1))))) (K (JNum 1)))], K (JNum 273)]))), Do (SetV 26 (Dot (V 3) ''b'')), When (Bin Gt (Dot (V 23) ''s'') (Dot (V 26) ''s'')) [Do (Call ''Mjb'' [V 2]), Do (Call ''gmb'' [Dot (V 26) ''i'', V 3]), When (Bin Gt (Dot (V 3) ''c'') (K (JNum 0))) [Do (Put (V 3) ''a'' (V 26)), Do (Call ''_lb'' [Dot (V 26) ''t'', V 3]), Do (Put (V 3) ''b'' (V 23)), Do (Call ''_lb'' [Dot (V 23) ''i'', V 3])] []] []] []] []],
    fn ''x9b'' 5 23 [Do (SetV 15 (New ''mmb'' [Dot (V 1) ''b''])), Do (SetV 20 (New ''mmb'' [Dot (V 1) ''b''])), Do (SetV 12 (New ''mmb'' [Dot (V 1) ''b''])), Do (SetV 24 (New ''mmb'' [Dot (V 1) ''b''])), Do (SetV 16 (New ''mmb'' [Dot (V 1) ''b''])), Do (SetV 23 (Call ''Ztb'' [V 1, K (JNum 0)])), Loop (Neg (Loose (Dot (V 23) ''b'') (Dot (Dot (V 23) ''d'') ''c''))) [Do (SetV 21 (Call ''JD'' [Call ''lub'' [V 23], K (JNum 12)])), Do (SetV 7 (New ''Kmb'' [Dot (V 21) ''g''])), Loop (Bin Lt (Dot (V 7) ''a'') (Dot (Dot (Dot (V 7) ''c'') ''c'') ''length'')) [Do (SetV 5 (Call ''JD'' [Call ''Imb'' [V 7], K (JNum 17)])), When (Loose (Dot (Dot (V 5) ''c'') ''i'') (Dot (Dot (V 5) ''d'') ''i'')) [When (Loose (Dot (V 21) ''j'') (Dot (Dot (V 5) ''d'') ''j'')) [Do (Call ''qDb'' [Dot (V 24) ''c'', V 5]), Continue] [When (And (Loose (Dot (V 21) ''j'') (Seq (Call ''Bmd'' []) (G ''hmd''))) (Loose (Dot (Dot (V 5) ''d'') ''j'') (G ''ymd''))) [Do (Call ''qDb'' [Dot (V 16) ''c'', V 5]), Continue] []]] []] []] [], Do (SetV 8 (New ''Kmb'' [V 16])), Loop (Bin Lt (Dot (V 8) ''a'') (Dot (Dot (Dot (V 8) ''c'') ''c'') ''length'')) [Do (SetV 5 (Call ''JD'' [Call ''Imb'' [V 8], K (JNum 17)])), Do (Call ''y9b'' [V 0, V 5, V 2, V 3, Seq (Call ''Bmd'' []) (G ''gmd'')])] [], Do (SetV 6 (New ''Kmb'' [V 24])), Loop (Bin Lt (Dot (V 6) ''a'') (Dot (Dot (Dot (V 6) ''c'') ''c'') ''length'')) [Do (SetV 5 (Call ''JD'' [Call ''Imb'' [V 6], K (JNum 17)])), Do (SetV 25 (New ''QYb'' [V 0])), Do (Call ''OYb'' [V 25, Seq (Call ''$Yb'' []) (G ''YYb'')]), Do (Call ''rNb'' [V 25, Seq (Call ''nyc'' []) (G ''qxc''), Seq (Call ''Mld'' []) (G ''Hld'')]), Do (Call ''rNb'' [V 25, Seq (Call ''Wrc'' []) (G ''urc''), V 5]), Do (SetV 26 (New ''yZb'' [])), Do (Call ''rNb'' [V 26, G ''urc'', Dot (V 5) ''d'']), Do (Call ''xZb'' [V 26, Seq (Call ''Bmd'' []) (G ''Amd'')]), Do (Call ''wZb'' [V 26, V 25]), Do (SetV 27 (New ''yZb'' [])), Do (Call ''rNb'' [V 27, G ''urc'', Dot (V 5) ''c'']), Do (Call ''xZb'' [V 27, G ''gmd'']), Do (Call ''wZb'' [V 27, V 25]), Do (Call ''rNb'' [Dot (V 5) ''c'', G ''Crc'', V 25]), Do (Call ''rNb'' [Dot (V 5) ''d'', G ''Crc'', V 25]), Do (Call ''CWb'' [V 5, K JNull]), Do (Call ''DWb'' [V 5, K JNull]), Do (Call ''qDb'' [Dot (V 2) ''c'', V 25]), Do (Call ''rNb'' [V 25, G ''Rqc'', Call ''Cfb'' [K (JNum 2)]])] [], Do (SetV 22 (Call ''Ztb'' [V 1, K (JNum 0)])), Loop (Neg (Loose (Dot (V 22) ''b'') (Dot (Dot (V 22) ''d'') ''c''))) [Do (SetV 21 (Call ''JD'' [Call ''lub'' [V 22], K (JNum 12)])), Do (SetV 9 (Bin Gt (Dot (Dot (Dot (V 21) ''e'') ''c'') ''length'') (K (JNum 0)))), Do (SetV 17 (Bin Gt (Dot (Dot (Dot (V 21) ''g'') ''c'') ''length'') (K (JNum 0)))), Do (Cond (And (V 9) (V 17)) (Seq (Call ''qDb'' [Dot (V 12) ''c'', V 21]) (K (JBool True))) (Cond (V 9) (Seq (Call ''qDb'' [Dot (V 15) ''c'', V 21]) (K (JBool True))) (And (V 17) (Seq (Call ''qDb'' [Dot (V 20) ''c'', V 21]) (K (JBool True))))))] [], Do (SetV 14 (New ''Kmb'' [V 15])), Loop (Bin Lt (Dot (V 14) ''a'') (Dot (Dot (Dot (V 14) ''c'') ''c'') ''length'')) [Do (SetV 13 (Call ''JD'' [Call ''Imb'' [V 14], K (JNum 12)])), Do (Call ''_lb'' [V 4, Call ''w9b'' [V 0, V 13, K JNull, V 2]])] [], Do (SetV 19 (New ''Kmb'' [V 20])), Loop (Bin Lt (Dot (V 19) ''a'') (Dot (Dot (Dot (V 19) ''c'') ''c'') ''length'')) [Do (SetV 18 (Call ''JD'' [Call ''Imb'' [V 19], K (JNum 12)])), Do (Call ''_lb'' [V 4, Call ''w9b'' [V 0, K JNull, V 18, V 2]])] [], Do (SetV 11 (New ''Kmb'' [V 12])), Loop (Bin Lt (Dot (V 11) ''a'') (Dot (Dot (Dot (V 11) ''c'') ''c'') ''length'')) [Do (SetV 10 (Call ''JD'' [Call ''Imb'' [V 11], K (JNum 12)])), Do (Call ''_lb'' [V 4, Call ''w9b'' [V 0, V 10, V 10, V 2]])] []],
    fn ''Rpd'' 1 19 [Do (SetV 12 (G ''Cve'')), Do (SetV 13 (G ''Cve'')), Do (SetV 10 (K (JNum 0))), Do (SetV 11 (K (JNum 0))), Do (SetV 8 (New ''lmb'' [])), Do (SetV 7 (New ''uKd'' [Seq (And (Neg (Dot (V 0) ''b'')) (Put (V 0) ''b'' (New ''P3d'' [G ''Q3'', V 0, K (JNum 12), K (JNum 3)]))) (Dot (V 0) ''b'')])), Loop (Neg (Loose (Dot (V 7) ''e'') (Meth (Dot (V 7) ''i'') ''gc'' []))) [Do (SetV 5 (Call ''JD'' [Call ''sKd'' [V 7], K (JNum 85)])), Do (SetV 8 (Call ''yl'' [Call ''WC'' [Call ''OC'' [G ''VI'', K (JNum 1)], G ''Gte'', K (JNum 20), K (JNum 0), NewArr [V 8, Seq (And (Neg (Dot (V 5) ''n'')) (Put (V 5) ''n'' (New ''P3d'' [G ''S3'', V 5, K (JNum 1), K (JNum 7)]))) (Dot (V 5) ''n'')]]]))] [], Do (SetV 19 (Call ''Gl'' [Call ''yl'' [Call ''WC'' [Call ''OC'' [G ''VI'', K (JNum 1)], G ''Gte'', K (JNum 20), K (JNum 0), NewArr [Seq (And (Neg (Dot (V 0) ''n'')) (Put (V 0) ''n'' (New ''P3d'' [G ''S3'', V 0, K (JNum 1), K (JNum 7)]))) (Dot (V 0) ''n''), Seq (And (Neg (Dot (V 0) ''a'')) (Put (V 0) ''a'' (New ''P3d'' [G ''T3'', V 0, K (JNum 10), K (JNum 11)]))) (Dot (V 0) ''a''), V 8]]]])), Loop (Call ''Wr'' [V 19]) [Do (SetV 18 (Call ''JD'' [Call ''Xr'' [V 19], K (JNum 276)])), Do (SetV 9 (Call ''JD'' [Meth (V 18) ''mf'' [Seq (Call ''vjd'' []) (G ''cid'')], K (JNum 140)])), Do (And (Bin Gt (V 12) (Bin Minus (Meth (V 18) ''mh'' []) (Dot (V 9) ''b''))) (SetV 12 (Bin Minus (Meth (V 18) ''mh'' []) (Dot (V 9) ''b'')))), Do (And (Bin Gt (V 13) (Bin Minus (Meth (V 18) ''nh'' []) (Dot (V 9) ''d''))) (SetV 13 (Bin Minus (Meth (V 18) ''nh'' []) (Dot (V 9) ''d'')))), Do (And (Bin Lt (V 10) (Bin Plus (Bin Plus (Meth (V 18) ''mh'' []) (Meth (V 18) ''lh'' [])) (Dot (V 9) ''c''))) (SetV 10 (Bin Plus (Bin Plus (Meth (V 18) ''mh'' []) (Meth (V 18) ''lh'' [])) (Dot (V 9) ''c'')))), Do (And (Bin Lt (V 11) (Bin Plus (Bin Plus (Meth (V 18) ''nh'' []) (Meth (V 18) ''kh'' [])) (Dot (V 9) ''a''))) (SetV 11 (Bin Plus (Bin Plus (Meth (V 18) ''nh'' []) (Meth (V 18) ''kh'' [])) (Dot (V 9) ''a''))))] [], Do (SetV 6 (New ''uKd'' [Seq (And (Neg (Dot (V 0) ''b'')) (Put (V 0) ''b'' (New ''P3d'' [G ''Q3'', V 0, K (JNum 12), K (JNum 3)]))) (Dot (V 0) ''b'')])), Loop (Neg (Loose (Dot (V 6) ''e'') (Meth (Dot (V 6) ''i'') ''gc'' []))) [Do (SetV 5 (Call ''JD'' [Call ''sKd'' [V 6], K (JNum 85)])), Do (SetV 17 (New ''uKd'' [Seq (And (Neg (Dot (V 5) ''a'')) (Put (V 5) ''a'' (New ''P3d'' [G ''P3'', V 5, K (JNum 6), K (JNum 6)]))) (Dot (V 5) ''a'')])), Loop (Neg (Loose (Dot (V 17) ''e'') (Meth (Dot (V 17) ''i'') ''gc'' []))) [Do (SetV 16 (Call ''JD'' [Call ''sKd'' [V 17], K (JNum 170)])), Do (SetV 14 (Dot (V 16) ''j'')), Do (SetV 3 (Dot (V 16) ''b'')), Do (SetV 15 (Dot (V 16) ''k'')), Do (SetV 4 (Dot (V 16) ''c'')), Do (SetV 12 (Meth (Dot (G ''$wnd'') ''Math'') ''min'' [V 12, V 14])), Do (SetV 12 (Meth (Dot (G ''$wnd'') ''Math'') ''min'' [V 12, V 3])), Do (SetV 10 (Meth (Dot (G ''$wnd'') ''Math'') ''max'' [V 10, V 14])), Do (SetV 10 (Meth (Dot (G ''$wnd'') ''Math'') ''max'' [V 10, V 3])), Do (SetV 13 (Meth (Dot (G ''$wnd'') ''Math'') ''min'' [V 13, V 15])), Do (SetV 13 (Meth (Dot (G ''$wnd'') ''Math'') ''min'' [V 13, V 4])), Do (SetV 11 (Meth (Dot (G ''$wnd'') ''Math'') ''max'' [V 11, V 15])), Do (SetV 11 (Meth (Dot (G ''$wnd'') ''Math'') ''max'' [V 11, V 4])), Do (SetV 2 (New ''uKd'' [Seq (And (Neg (Dot (V 16) ''a'')) (Put (V 16) ''a'' (New ''iYd'' [G ''N3'', V 16, K (JNum 5)]))) (Dot (V 16) ''a'')])), Loop (Neg (Loose (Dot (V 2) ''e'') (Meth (Dot (V 2) ''i'') ''gc'' []))) [Do (SetV 1 (Call ''JD'' [Call ''sKd'' [V 2], K (JNum 372)])), Do (SetV 12 (Meth (Dot (G ''$wnd'') ''Math'') ''min'' [V 12, Dot (V 1) ''a''])), Do (SetV 10 (Meth (Dot (G ''$wnd'') ''Math'') ''max'' [V 10, Dot (V 1) ''a''])), Do (SetV 13 (Meth (Dot (G ''$wnd'') ''Math'') ''min'' [V 13, Dot (V 1) ''b''])), Do (SetV 11 (Meth (Dot (G ''$wnd'') ''Math'') ''max'' [V 11, Dot (V 1) ''b'']))] []] []] [], Do (Call ''evd'' [V 0, Seq (Call ''vjd'' []) (G ''Chd''), Bin Minus (V 10) (V 12)]), Do (Call ''evd'' [V 0, G ''Bhd'', Bin Minus (V 11) (V 13)])],
    fn ''aNb'' 1 30 [Do (SetV 13 (Call ''JD'' [Call ''oNb'' [V 0, Seq (Call ''lPb'' []) (G ''jPb'')], K (JNum 26)])), Do (SetV 19 (G ''Ate'')), Do (SetV 20 (G ''Ate'')), Do (SetV 17 (G ''Eue'')), Do (SetV 18 (G ''Eue'')), Do (SetV 22 (New ''Kmb'' [Dot (V 0) ''e''])), Loop (Bin Lt (Dot (V 22) ''a'') (Dot (Dot (Dot (V 22) ''c'') ''c'') ''length'')) [Do (SetV 21 (Call ''JD'' [Call ''Imb'' [V 22], K (JNum 155)])), Do (SetV 27 (Dot (V 21) ''d'')), Do (SetV 28 (Dot (V 21) ''e'')), Do (SetV 19 (Meth (Dot (G ''$wnd'') ''Math'') ''min'' [V 19, Bin Minus (Dot (V 27) ''a'') (Bin Divide (Dot (V 28) ''a'') (K (JNum 2)))])), Do (SetV 20 (Meth (Dot (G ''$wnd'') ''Math'') ''min'' [V 20, Bin Minus (Dot (V 27) ''b'') (Bin Divide (Dot (V 28) ''b'') (K (JNum 2)))])), Do (SetV 17 (Meth (Dot (G ''$wnd'') ''Math'') ''max'' [V 17, Bin Plus (Dot (V 27) ''a'') (Bin Divide (Dot (V 28) ''a'') (K (JNum 2)))])), Do (SetV 18 (Meth (Dot (G ''$wnd'') ''Math'') ''max'' [V 18, Bin Plus (Dot (V 27) ''b'') (Bin Divide (Dot (V 28) ''b'') (K (JNum 2)))]))] [], Do (SetV 2 (New ''Kmb'' [Dot (V 0) ''b''])), Loop (Bin Lt (Dot (V 2) ''a'') (Dot (Dot (Dot (V 2) ''c'') ''c'') ''length'')) [Do (SetV 1 (Call ''JD'' [Call ''Imb'' [V 2], K (JNum 251)])), Do (SetV 27 (Dot (V 1) ''d'')), Do (SetV 28 (Dot (V 1) ''e'')), Do (SetV 19 (Meth (Dot (G ''$wnd'') ''Math'') ''min'' [V 19, Bin Minus (Dot (V 27) ''a'') (Bin Divide (Dot (V 28) ''a'') (K (JNum 2)))])), Do (SetV 20 (Meth (Dot (G ''$wnd'') ''Math'') ''min'' [V 20, Bin Minus (Dot (V 27) ''b'') (Bin Divide (Dot (V 28) ''b'') (K (JNum 2)))])), Do (SetV 17 (Meth (Dot (G ''$wnd'') ''Math'') ''max'' [V 17, Bin Plus (Dot (V 27) ''a'') (Bin Divide (Dot (V 28) ''a'') (K (JNum 2)))])), Do (SetV 18 (Meth (Dot (G ''$wnd'') ''Math'') ''max'' [V 18, Bin Plus (Dot (V 27) ''b'') (Bin Divide (Dot (V 28) ''b'') (K (JNum 2)))]))] [], Do (SetV 26 (Call ''JD'' [Call ''cvd'' [V 13, Seq (Call ''aPb'' []) (G ''LOb'')], K (JNum 104)])), Do (SetV 25 (New ''lgd'' [Bin Minus (Dot (V 26) ''b'') (V 19), Bin Minus (Dot (V 26) ''d'') (V 20)])), Do (SetV 9 (New ''Kmb'' [Dot (V 0) ''e''])), Loop (Bin Lt (Dot (V 9) ''a'') (Dot (Dot (Dot (V 9) ''c'') ''c'') ''length'')) [Do (SetV 8 (Call ''JD'' [Call ''Imb'' [V 9], K (JNum 155)])), Do (SetV 24 (Call ''oNb'' [V 8, G ''jPb''])), When (Call ''RD'' [V 24, K (JNum 206)]) [Do (SetV 15 (Call ''JD'' [V 24, K (JNum 26)])), Do (SetV 23 (Call ''Vfd'' [New ''mgd'' [Dot (V 8) ''d''], V 25])), Do (Call ''Zvd'' [V 15, Bin Minus (Dot (V 23) ''a'') (Bin Divide (Dot (V 15) ''g'') (K (JNum 2))), Bin Minus (Dot (V 23) ''b'') (Bin Divide (Dot (V 15) ''f'') (K (JNum 2)))])] []] [], Do (SetV 5 (New ''Kmb'' [Dot (V 0) ''c''])), Loop (Bin Lt (Dot (V 5) ''a'') (Dot (Dot (Dot (V 5) ''c'') ''c'') ''length'')) [Do (SetV 4 (Call ''JD'' [Call ''Imb'' [V 5], K (JNum 291)])), Do (SetV 11 (Call ''JD'' [Call ''oNb'' [V 4, G ''jPb''], K (JNum 85)])), Do (SetV 12 (Call ''_Ed'' [V 11])), Do (SetV 29 (New ''mgd'' [Call ''BNb'' [V 4]])), Do (Call ''Vfd'' [V 29, V 25]), Do (Call ''hxd'' [V 12, Dot (V 29) ''a'', Dot (V 29) ''b'']), Do (Call ''cmb'' [Dot (V 4) ''a'', New ''fNb'' [V 25, V 12]]), Do (SetV 3 (New ''mgd'' [Call ''CNb'' [V 4]])), Do (Call ''Vfd'' [V 3, V 25]), Do (Call ''axd'' [V 12, Dot (V 3) ''a'', Dot (V 3) ''b''])] [], Do (SetV 7 (New ''Kmb'' [Dot (V 0) ''d''])), Loop (Bin Lt (Dot (V 7) ''a'') (Dot (Dot (Dot (V 7) ''c'') ''c'') ''length'')) [Do (SetV 6 (Call ''JD'' [Call ''Imb'' [V 7], K (JNum 445)])), Do (SetV 14 (Call ''JD'' [Call ''oNb'' [V 6, G ''jPb''], K (JNum 157)])), Do (SetV 16 (Call ''Vfd'' [New ''mgd'' [Dot (V 6) ''d''], V 25])), Do (Call ''Zvd'' [V 14, Dot (V 16) ''a'', Dot (V 16) ''b''])] [], Do (SetV 30 (Bin Plus (Bin Minus (V 17) (V 19)) (Bin Plus (Dot (V 26) ''b'') (Dot (V 26) ''c'')))), Do (SetV 10 (Bin Plus (Bin Minus (V 18) (V 20)) (Bin Plus (Dot (V 26) ''d'') (Dot (V 26) ''a'')))), Do (Or (Call ''Rdb'' [Call ''LD'' [Call ''cvd'' [V 13, Seq (Call ''vjd'' []) (G ''kid'')]]]) (Call ''eqd'' [V 13, V 30, V 10, K (JBool False), K (JBool True)])), Do (Call ''evd'' [V 13, G ''Chd'', Bin Minus (V 30) (Bin Plus (Dot (V 26) ''b'') (Dot (V 26) ''c''))]), Do (Call ''evd'' [V 13, G ''Bhd'', Bin Minus (V 10) (Bin Plus (Dot (V 26) ''d'') (Dot (V 26) ''a''))])]]"

definition code_6249_6253 :: "(string \<times> jfun) list" where
  "code_6249_6253 = [
    fn ''pDc'' 3 17 [Do (Meth (V 2) ''Tg'' [K (JStr ''Depth first model order layering''), K (JNum 1)]), Do (Put (V 0) ''d'' (V 1)), Do (SetV 16 (New ''lmb'' [])), Do (SetV 15 (New ''Kmb'' [Dot (Dot (V 0) ''d'') ''a''])), Loop (Bin Lt (Dot (V 15) ''a'') (Dot (Dot (Dot (V 15) ''c'') ''c'') ''length'')) [Do (SetV 13 (Call ''JD'' [Call ''Imb'' [V 15], K (JNum 9)])), Do (And (Loose (Dot (V 13) ''k'') (Seq (Call ''$Yb'' []) (G ''XYb''))) (Seq (Call ''qDb'' [Dot (V 16) ''c'', V 13]) (K (JBool True))))] [], Do (Call ''Inb'' []), Do (Call ''jmb'' [V 16, New ''uDc'' []]), Do (SetV 6 (K (JBool True))), Do (Put (V 0) ''b'' (New ''y$b'' [Dot (V 0) ''d''])), Do (Put (V 0) ''a'' (K JNull)), Do (Call ''_lb'' [Dot (Dot (V 0) ''d'') ''b'', Dot (V 0) ''b'']), Do (Put (Dot (V 0) ''b'') ''p'' (K (JNum 0))), Do (Put (V 0) ''c'' (K (JNum 0))), Do (Put (V 0) ''f'' (New ''dub'' [])), Do (SetV 14 (New ''Kmb'' [V 16])), Loop (Bin Lt (Dot (V 14) ''a'') (Dot (Dot (Dot (V 14) ''c'') ''c'') ''length'')) [Do (SetV 13 (Call ''JD'' [Call ''Imb'' [V 14], K (JNum 9)])), When (V 6) [Do (Call ''NYb'' [V 13, Dot (V 0) ''b'']), Do (SetV 6 (K (JBool False)))] [When (Call ''nDc'' [V 0, V 13]) [Do (SetV 12 (Dot (V 0) ''c'')), Do (SetV 12 (Call ''mDc'' [V 12, V 13])), Do (SetV 3 (Bin Plus (V 12) (K (JNum 2)))), Do (SetV 10 (Bin Minus (V 12) (Dot (V 0) ''c''))), When (Loose (Dot (Dot (V 0) ''f'') ''b'') (K (JNum 0))) [Do (Call ''lDc'' [V 0, V 3, V 13])] [When (Bin Gt (V 10) (K (JNum 0))) [Do (SetV 19 (Call ''Ztb'' [Dot (V 0) ''f'', K (JNum 0)])), Loop (Neg (Loose (Dot (V 19) ''b'') (Dot (Dot (V 19) ''d'') ''c''))) [Do (SetV 18 (Call ''JD'' [Call ''lub'' [V 19], K (JNum 9)])), Do (Put (V 18) ''p'' (Bin Plus (Dot (V 18) ''p'') (Bin Minus (V 12) (Dot (V 0) ''e''))))] [], Do (Call ''oDc'' [V 0]), Do (Call ''cub'' [Dot (V 0) ''f'']), Do (Call ''lDc'' [V 0, V 3, V 13])] [Do (Call ''Ttb'' [Dot (V 0) ''f'', V 13]), Do (Put (V 13) ''p'' (V 3)), Do (Put (V 0) ''e'' (Meth (Dot (G ''$wnd'') ''Math'') ''max'' [Dot (V 0) ''e'', V 3])), Do (SetV 5 (New ''Yr'' [Call ''Dr'' [Meth (Dot (Call ''EYb'' [V 13]) ''a'') ''Jc'' [], New ''Dl'' []]])), Loop (Call ''Wr'' [V 5]) [Do (SetV 4 (Call ''JD'' [Call ''Xr'' [V 5], K (JNum 17)])), When (And (Neg (Dot (Dot (Dot (V 4) ''c'') ''i'') ''c'')) (Loose (Dot (Dot (Dot (V 4) ''c'') ''i'') ''k'') (Seq (Call ''$Yb'' []) (G ''UYb'')))) [Do (Call ''Ttb'' [Dot (V 0) ''f'', Dot (Dot (V 4) ''c'') ''i'']), Do (Put (Dot (Dot (V 4) ''c'') ''i'') ''p'' (Bin Minus (V 3) (K (JNum 1))))] []] [], Do (Put (V 0) ''c'' (V 3))]]] [Do (Call ''oDc'' [V 0]), Do (Call ''cub'' [Dot (V 0) ''f'']), Do (SetV 3 (K (JNum 0))), When (Call ''Wr'' [New ''Yr'' [Call ''Dr'' [Meth (Dot (Call ''EYb'' [V 13]) ''a'') ''Jc'' [], New ''Dl'' []]]]) [Do (SetV 12 (K (JNum 0))), Do (SetV 12 (Call ''mDc'' [V 12, V 13])), Do (SetV 3 (Bin Plus (V 12) (K (JNum 2)))), Do (Call ''lDc'' [V 0, V 3, V 13])] [Do (Call ''Ttb'' [Dot (V 0) ''f'', V 13]), Do (Put (V 13) ''p'' (K (JNum 0))), Do (Put (V 0) ''e'' (Meth (Dot (G ''$wnd'') ''Math'') ''max'' [Dot (V 0) ''e'', K (JNum 0)])), Do (Put (V 0) ''b'' (Call ''JD'' [Call ''dmb'' [Dot (Dot (V 0) ''d'') ''b'', K (JNum 0)], K (JNum 25)])), Do (Put (V 0) ''c'' (K (JNum 0)))]]]] [], Do (Or (Loose (Dot (Dot (V 0) ''f'') ''b'') (K (JNum 0))) (Call ''oDc'' [V 0])), Do (Put (Dot (Dot (Dot (V 0) ''d'') ''a'') ''c'') ''length'' (K (JNum 0))), Do (SetV 17 (New ''lmb'' [])), Do (SetV 9 (New ''Kmb'' [Dot (Dot (V 0) ''d'') ''b''])), Loop (Bin Lt (Dot (V 9) ''a'') (Dot (Dot (Dot (V 9) ''c'') ''c'') ''length'')) [Do (SetV 7 (Call ''JD'' [Call ''Imb'' [V 9], K (JNum 25)])), Do (And (Loose (Dot (Dot (Dot (V 7) ''a'') ''c'') ''length'') (K (JNum 0))) (Seq (Call ''qDb'' [Dot (V 17) ''c'', V 7]) (K (JBool True))))] [], Do (Call ''Be'' [Dot (Dot (V 0) ''d'') ''b'', V 17]), Do (SetV 11 (K (JNum 0))), Do (SetV 8 (New ''Kmb'' [Dot (Dot (V 0) ''d'') ''b''])), Loop (Bin Lt (Dot (V 8) ''a'') (Dot (Dot (Dot (V 8) ''c'') ''c'') ''length'')) [Do (SetV 7 (Call ''JD'' [Call ''Imb'' [V 8], K (JNum 25)])), Do (Put (V 7) ''p'' (V 11)), Do (SetV 11 (Bin Minus (V 11) (K (JNum (- 1)))))] [], Do (Meth (V 2) ''Ug'' [])],
    fn ''dLc'' 3 9 [Do (Meth (V 2) ''Tg'' [K (JStr ''Network simplex node placement''), K (JNum 1)]), Do (Put (V 0) ''e'' (V 1)), Do (Put (V 0) ''n'' (Call ''JD'' [Call ''oNb'' [V 1, Seq (Call ''Wrc'' []) (G ''Krc'')], K (JNum 317)])), Do (Call ''cLc'' [V 0]), Do (Call ''QKc'' [V 0]), Do (Call ''YBb'' [Call ''XBb'' [New ''jCb'' [K JNull, New ''Zvb'' [Dot (Dot (V 0) ''e'') ''b'', K (JNum 16)]], New ''TLc'' []], New ''VLc'' [V 0]]), Do (Call ''YBb'' [Call ''VBb'' [Call ''XBb'' [Call ''VBb'' [Call ''XBb'' [New ''jCb'' [K JNull, New ''Zvb'' [Dot (Dot (V 0) ''e'') ''b'', K (JNum 16)]], New ''IMc'' []], New ''KMc'' []], New ''MMc'' []], New ''OMc'' []], New ''RLc'' [V 0]]), When (Call ''Rdb'' [Call ''LD'' [Call ''oNb'' [Dot (V 0) ''e'', Seq (Call ''nyc'' []) (G ''Wwc'')]]]) [Do (SetV 6 (Meth (V 2) ''dh'' [K (JNum 1)])), Do (Meth (V 6) ''Tg'' [K (JStr ''Straight Edges Pre-Processing''), K (JNum 1)]), Do (Call ''bLc'' [V 0]), Do (Meth (V 6) ''Ug'' [])] [], Do (Call ''eGb'' [Dot (V 0) ''f'']), Do (SetV 5 (Bin Times (Dot (Call ''JD'' [Call ''oNb'' [V 1, G ''Xxc''], K (JNum 15)]) ''a'') (Dot (Dot (Dot (Dot (V 0) ''f'') ''a'') ''c'') ''length''))), Do (Call ''QGb'' [Call ''bHb'' [Call ''cHb'' [Call ''fHb'' [Dot (V 0) ''f''], V 5], K (JBool False)], Meth (V 2) ''dh'' [K (JNum 1)]]), When (Neg (Loose (Meth (Dot (Dot (V 0) ''d'') ''a'') ''gc'' []) (K (JNum 0)))) [Do (SetV 6 (Meth (V 2) ''dh'' [K (JNum 1)])), Do (Meth (V 6) ''Tg'' [K (JStr ''Flexible Where Space Processing''), K (JNum 1)]), Do (SetV 7 (Dot (Call ''JD'' [Call ''Sub'' [Call ''bCb'' [Call ''ZBb'' [New ''jCb'' [K JNull, New ''Zvb'' [Dot (Dot (V 0) ''f'') ''a'', K (JNum 16)]], New ''XLc'' []], New ''rLc'' []]], K (JNum 15)]) ''a'')), Do (SetV 8 (Dot (Call ''JD'' [Call ''Sub'' [Call ''aCb'' [Call ''ZBb'' [New ''jCb'' [K JNull, New ''Zvb'' [Dot (Dot (V 0) ''f'') ''a'', K (JNum 16)]], New ''ZLc'' []], New ''vLc'' []]], K (JNum 15)]) ''a'')), Do (SetV 9 (Bin Minus (V 8) (V 7))), Do (SetV 10 (Call ''JGb'' [New ''LGb'' [], Dot (V 0) ''f''])), Do (SetV 11 (Call ''JGb'' [New ''LGb'' [], Dot (V 0) ''f''])), Do (Call ''XFb'' [Call ''$Fb'' [Call ''ZFb'' [Call ''YFb'' [Call ''_Fb'' [New ''aGb'' [], K (JNum 20000)], V 9], V 10], V 11]]), Do (Call ''YBb'' [Call ''VBb'' [Call ''VBb'' [Call ''jnb'' [Dot (V 0) ''i''], New ''_Lc'' []], New ''bMc'' []], New ''dMc'' [V 7, V 10, V 9, V 11]]), Do (SetV 4 (Meth (Meth (Dot (Dot (V 0) ''d'') ''a'') ''ec'' []) ''Jc'' [])), Loop (Meth (V 4) ''Ob'' []) [Do (SetV 3 (Call ''JD'' [Meth (V 4) ''Pb'' [], K (JNum 217)])), Do (Put (V 3) ''g'' (K (JNum 1)))] [], Do (Call ''QGb'' [Call ''bHb'' [Call ''cHb'' [Call ''fHb'' [Dot (V 0) ''f''], V 5], K (JBool False)], Meth (V 6) ''dh'' [K (JNum 1)]]), Do (Meth (V 6) ''Ug'' [])] [], When (Call ''Rdb'' [Call ''LD'' [Call ''oNb'' [V 1, G ''Wwc'']]]) [Do (SetV 6 (Meth (V 2) ''dh'' [K (JNum 1)])), Do (Meth (V 6) ''Tg'' [K (JStr ''Straight Edges Post-Processing''), K (JNum 1)]), Do (Call ''aLc'' [V 0]), Do (Meth (V 6) ''Ug'' [])] [], Do (Call ''PKc'' [V 0]), Do (Put (V 0) ''e'' (K JNull)), Do (Put (V 0) ''f'' (K JNull)), Do (Put (V 0) ''i'' (K JNull)), Do (Put (V 0) ''c'' (K JNull)), Do (Call ''kjb'' [Dot (V 0) ''k'']), Do (Put (V 0) ''j'' (K JNull)), Do (Put (V 0) ''a'' (K JNull)), Do (Put (V 0) ''o'' (K JNull)), Do (Meth (Dot (Dot (V 0) ''d'') ''a'') ''$b'' []), Do (Meth (V 2) ''Ug'' [])],
    fn ''jUb'' 2 25 [Do (SetV 11 (Call ''lUb'' [Call ''fUb'' [V 0, Seq (Call ''Bmd'' []) (G ''mmd'')], V 1])), Do (SetV 14 (Call ''kUb'' [Call ''fUb'' [V 0, G ''nmd''], V 1])), Do (SetV 20 (Call ''kUb'' [Call ''fUb'' [V 0, G ''vmd''], V 1])), Do (SetV 24 (Call ''mUb'' [Call ''fUb'' [V 0, G ''xmd''], V 1])), Do (SetV 12 (Call ''mUb'' [Call ''fUb'' [V 0, G ''imd''], V 1])), Do (SetV 18 (Call ''kUb'' [Call ''fUb'' [V 0, G ''umd''], V 1])), Do (SetV 15 (Call ''kUb'' [Call ''fUb'' [V 0, G ''omd''], V 1])), Do (SetV 22 (Call ''kUb'' [Call ''fUb'' [V 0, G ''wmd''], V 1])), Do (SetV 21 (Call ''kUb'' [Call ''fUb'' [V 0, G ''jmd''], V 1])), Do (SetV 25 (Call ''mUb'' [Call ''fUb'' [V 0, G ''lmd''], V 1])), Do (SetV 17 (Call ''kUb'' [Call ''fUb'' [V 0, G ''smd''], V 1])), Do (SetV 19 (Call ''kUb'' [Call ''fUb'' [V 0, G ''rmd''], V 1])), Do (SetV 23 (Call ''kUb'' [Call ''fUb'' [V 0, G ''kmd''], V 1])), Do (SetV 26 (Call ''mUb'' [Call ''fUb'' [V 0, G ''tmd''], V 1])), Do (SetV 13 (Call ''mUb'' [Call ''fUb'' [V 0, G ''pmd''], V 1])), Do (SetV 16 (Call ''kUb'' [Call ''fUb'' [V 0, G ''qmd''], V 1])), Do (SetV 2 (Call ''Cfd'' [Call ''WC'' [Call ''OC'' [G ''aE'', K (JNum 1)], G ''Jve'', K (JNum 30), K (JNum 15), NewArr [Dot (V 18) ''a'', Dot (V 24) ''a'', Dot (V 22) ''a'', Dot (V 26) ''a'']]])), Do (SetV 3 (Call ''Cfd'' [Call ''WC'' [Call ''OC'' [G ''aE'', K (JNum 1)], G ''Jve'', K (JNum 30), K (JNum 15), NewArr [Dot (V 14) ''a'', Dot (V 11) ''a'', Dot (V 20) ''a'', Dot (V 16) ''a'']]])), Do (SetV 4 (Dot (V 17) ''a'')), Do (SetV 5 (Call ''Cfd'' [Call ''WC'' [Call ''OC'' [G ''aE'', K (JNum 1)], G ''Jve'', K (JNum 30), K (JNum 15), NewArr [Dot (V 15) ''a'', Dot (V 12) ''a'', Dot (V 21) ''a'', Dot (V 13) ''a'']]])), Do (SetV 9 (Call ''Cfd'' [Call ''WC'' [Call ''OC'' [G ''aE'', K (JNum 1)], G ''Jve'', K (JNum 30), K (JNum 15), NewArr [Dot (V 18) ''b'', Dot (V 14) ''b'', Dot (V 15) ''b'', Dot (V 19) ''b'']]])), Do (SetV 8 (Call ''Cfd'' [Call ''WC'' [Call ''OC'' [G ''aE'', K (JNum 1)], G ''Jve'', K (JNum 30), K (JNum 15), NewArr [Dot (V 24) ''b'', Dot (V 11) ''b'', Dot (V 12) ''b'', Dot (V 16) ''b'']]])), Do (SetV 10 (Dot (V 25) ''b'')), Do (SetV 7 (Call ''Cfd'' [Call ''WC'' [Call ''OC'' [G ''aE'', K (JNum 1)], G ''Jve'', K (JNum 30), K (JNum 15), NewArr [Dot (V 22) ''b'', Dot (V 20) ''b'', Dot (V 21) ''b'', Dot (V 23) ''b'']]])), Do (Call ''bUb'' [Call ''fUb'' [V 0, G ''mmd''], Bin Plus (V 2) (V 4), Bin Plus (V 9) (V 10)]), Do (Call ''bUb'' [Call ''fUb'' [V 0, G ''qmd''], Bin Plus (V 2) (V 4), Bin Plus (V 9) (V 10)]), Do (Call ''bUb'' [Call ''fUb'' [V 0, G ''nmd''], Bin Plus (V 2) (V 4), K (JNum 0)]), Do (Call ''bUb'' [Call ''fUb'' [V 0, G ''vmd''], Bin Plus (V 2) (V 4), Bin Plus (Bin Plus (V 9) (V 10)) (V 8)]), Do (Call ''bUb'' [Call ''fUb'' [V 0, G ''xmd''], K (JNum 0), Bin Plus (V 9) (V 10)]), Do (Call ''bUb'' [Call ''fUb'' [V 0, G ''imd''], Bin Plus (Bin Plus (V 2) (V 4)) (V 3), Bin Plus (V 9) (V 10)]), Do (Call ''bUb'' [Call ''fUb'' [V 0, G ''omd''], Bin Plus (Bin Plus (V 2) (V 4)) (V 3), K (JNum 0)]), Do (Call ''bUb'' [Call ''fUb'' [V 0, G ''wmd''], K (JNum 0), Bin Plus (Bin Plus (V 9) (V 10)) (V 8)]), Do (Call ''bUb'' [Call ''fUb'' [V 0, G ''jmd''], Bin Plus (Bin Plus (V 2) (V 4)) (V 3), Bin Plus (Bin Plus (V 9) (V 10)) (V 8)]), Do (Call ''bUb'' [Call ''fUb'' [V 0, G ''lmd''], K (JNum 0), V 9]), Do (Call ''bUb'' [Call ''fUb'' [V 0, G ''smd''], V 2, K (JNum 0)]), Do (Call ''bUb'' [Call ''fUb'' [V 0, G ''kmd''], K (JNum 0), Bin Plus (Bin Plus (V 9) (V 10)) (V 8)]), Do (Call ''bUb'' [Call ''fUb'' [V 0, G ''pmd''], Bin Plus (Bin Plus (V 2) (V 4)) (V 3), K (JNum 0)]), Do (SetV 6 (New ''jgd'' [])), Do (Put (V 6) ''a'' (Call ''Cfd'' [Call ''WC'' [Call ''OC'' [G ''aE'', K (JNum 1)], G ''Jve'', K (JNum 30), K (JNum 15), NewArr [Bin Plus (Bin Plus (Bin Plus (V 2) (V 3)) (V 4)) (V 5), Dot (V 25) ''a'', Dot (V 19) ''a'', Dot (V 23) ''a'']]])), Do (Put (V 6) ''b'' (Call ''Cfd'' [Call ''WC'' [Call ''OC'' [G ''aE'', K (JNum 1)], G ''Jve'', K (JNum 30), K (JNum 15), NewArr [Bin Plus (Bin Plus (Bin Plus (V 9) (V 8)) (V 10)) (V 7), Dot (V 17) ''b'', Dot (V 26) ''b'', Dot (V 13) ''b'']]])), Ret (V 6)],
    fn ''oCd'' 3 30 [Do (SetV 26 (K JNull)), Do (SetV 28 (V 1)), Do (SetV 27 (Call ''ZBd'' [V 0, Call ''WEd'' [V 2], V 28])), Do (Call ''Hvd'' [V 27, Call ''VAd'' [V 28, G ''FGe'']]), Do (SetV 29 (Call ''JD'' [Call ''uo'' [Dot (V 0) ''n'', Call ''PAd'' [Call ''iC'' [V 28, G ''mGe'']]], K (JNum 26)])), Do (SetV 12 (Call ''iC'' [V 28, K (JStr ''sourcePort'')])), Do (SetV 3 (K JNull)), Do (And (Neg (Neg (V 12))) (SetV 3 (Call ''PAd'' [V 12]))), Do (SetV 30 (Call ''JD'' [Call ''uo'' [Dot (V 0) ''p'', V 3], K (JNum 125)])), When (Neg (V 29)) [Do (SetV 7 (Call ''QAd'' [V 28])), Do (SetV 14 (Bin Plus (K (JStr (''An edge must have a source node (edge id: '' @ CHR 0x27 # ''''))) (V 7))), Do (SetV 15 (Bin Plus (V 14) (G ''KGe''))), Raise (Call ''Lcb'' [New ''YAd'' [V 15]])] [], When (And (Neg (Neg (V 30))) (Neg (Call ''Mub'' [Call ''gAd'' [V 30], V 29]))) [Do (SetV 8 (Call ''VAd'' [V 28, G ''FGe''])), Do (SetV 16 (Bin Plus (K (JStr (''The source port of an edge must be a port of the edge'' @ CHR 0x27 # ''s source node (edge id: '' @ CHR 0x27 # ''''))) (V 8))), Do (SetV 17 (Bin Plus (V 16) (G ''KGe''))), Raise (Call ''Lcb'' [New ''YAd'' [V 17]])] [], Do (SetV 24 (Seq (And (Neg (Dot (V 27) ''b'')) (Put (V 27) ''b'' (New ''jhe'' [G ''O3'', V 27, K (JNum 4), K (JNum 7)]))) (Dot (V 27) ''b''))), Do (SetV 5 (K JNull)), Do (Cond (V 30) (SetV 5 (V 30)) (SetV 5 (V 29))), Do (Call ''lFd'' [V 24, V 5]), Do (SetV 31 (Call ''JD'' [Call ''uo'' [Dot (V 0) ''n'', Call ''PAd'' [Call ''iC'' [V 28, G ''NGe'']]], K (JNum 26)])), Do (SetV 13 (Call ''iC'' [V 28, K (JStr ''targetPort'')])), Do (SetV 4 (K JNull)), Do (And (Neg (Neg (V 13))) (SetV 4 (Call ''PAd'' [V 13]))), Do (SetV 32 (Call ''JD'' [Call ''uo'' [Dot (V 0) ''p'', V 4], K (JNum 125)])), When (Neg (V 31)) [Do (SetV 11 (Call ''QAd'' [V 28])), Do (SetV 18 (Bin Plus (K (JStr (''An edge must have a target node (edge id: '' @ CHR 0x27 # ''''))) (V 11))), Do (SetV 19 (Bin Plus (V 18) (G ''KGe''))), Raise (Call ''Lcb'' [New ''YAd'' [V 19]])] [], When (And (Neg (Neg (V 32))) (Neg (Call ''Mub'' [Call ''gAd'' [V 32], V 31]))) [Do (SetV 9 (Call ''VAd'' [V 28, G ''FGe''])), Do (SetV 20 (Bin Plus (K (JStr (''The target port of an edge must be a port of the edge'' @ CHR 0x27 # ''s target node (edge id: '' @ CHR 0x27 # ''''))) (V 9))), Do (SetV 21 (Bin Plus (V 20) (G ''KGe''))), Raise (Call ''Lcb'' [New ''YAd'' [V 21]])] [], Do (SetV 25 (Seq (And (Neg (Dot (V 27) ''c'')) (Put (V 27) ''c'' (New ''jhe'' [G ''O3'', V 27, K (JNum 5), K (JNum 8)]))) (Dot (V 27) ''c''))), Do (SetV 6 (K JNull)), Do (Cond (V 32) (SetV 6 (V 32)) (SetV 6 (V 31))), Do (Call ''lFd'' [V 25, V 6]), When (Or (Loose (Dot (Seq (And (Neg (Dot (V 27) ''b'')) (Put (V 27) ''b'' (New ''jhe'' [G ''O3'', V 27, K (JNum 4), K (JNum 7)]))) (Dot (V 27) ''b'')) ''i'') (K (JNum 0))) (Loose (Dot (Seq (And (Neg (Dot (V 27) ''c'')) (Put (V 27) ''c'' (New ''jhe'' [G ''O3'', V 27, K (JNum 5), K (JNum 8)]))) (Dot (V 27) ''c'')) ''i'') (K (JNum 0)))) [Do (SetV 10 (Call ''VAd'' [V 28, G ''FGe''])), Do (SetV 22 (Bin Plus (G ''JGe'') (V 10))), Do (SetV 23 (Bin Plus (V 22) (G ''KGe''))), Raise (Call ''Lcb'' [New ''YAd'' [V 23]])] [], Do (Call ''qCd'' [V 28, V 27]), Do (Call ''pCd'' [V 28, V 27]), Do (SetV 26 (Call ''mCd'' [V 0, V 28, V 27])), Ret (V 26)],
    fn ''XDb'' 1 26 [Do (SetV 18 (New ''lgd'' [G ''Cve'', G ''Cve''])), Do (SetV 1 (New ''lgd'' [G ''Dve'', G ''Dve''])), Do (SetV 24 (New ''Kmb'' [V 0])), Loop (Bin Lt (Dot (V 24) ''a'') (Dot (Dot (Dot (V 24) ''c'') ''c'') ''length'')) [Do (SetV 23 (Call ''JD'' [Call ''Imb'' [V 24], K (JNum 8)])), Do (Put (V 18) ''a'' (Meth (Dot (G ''$wnd'') ''Math'') ''min'' [Dot (V 18) ''a'', Dot (V 23) ''a''])), Do (Put (V 18) ''b'' (Meth (Dot (G ''$wnd'') ''Math'') ''min'' [Dot (V 18) ''b'', Dot (V 23) ''b''])), Do (Put (V 1) ''a'' (Meth (Dot (G ''$wnd'') ''Math'') ''max'' [Dot (V 1) ''a'', Dot (V 23) ''a''])), Do (Put (V 1) ''b'' (Meth (Dot (G ''$wnd'') ''Math'') ''max'' [Dot (V 1) ''b'', Dot (V 23) ''b'']))] [], Do (SetV 12 (New ''lgd'' [Bin Minus (Dot (V 1) ''a'') (Dot (V 18) ''a''), Bin Minus (Dot (V 1) ''b'') (Dot (V 18) ''b'')])), Do (SetV 9 (New ''lgd'' [Bin Minus (Dot (V 18) ''a'') (K (JNum 50)), Bin Minus (Bin Minus (Dot (V 18) ''b'') (Dot (V 12) ''a'')) (K (JNum 50))])), Do (SetV 10 (New ''lgd'' [Bin Minus (Dot (V 18) ''a'') (K (JNum 50)), Bin Plus (Bin Plus (Dot (V 1) ''b'') (Dot (V 12) ''a'')) (K (JNum 50))])), Do (SetV 11 (New ''lgd'' [Bin Plus (Bin Plus (Dot (V 1) ''a'') (Bin Divide (Dot (V 12) ''b'') (K (JNum 2)))) (K (JNum 50)), Bin Plus (Dot (V 18) ''b'') (Bin Divide (Dot (V 12) ''b'') (K (JNum 2)))])), Do (SetV 13 (New ''oEb'' [V 9, V 10, V 11])), Do (SetV 22 (New ''hsb'' [])), Do (SetV 5 (New ''lmb'' [])), Do (SetV 2 (New ''lmb'' [])), Do (Meth (Dot (V 22) ''a'') ''yc'' [V 13, V 22]), Do (SetV 26 (New ''Kmb'' [V 0])), Loop (Bin Lt (Dot (V 26) ''a'') (Dot (Dot (Dot (V 26) ''c'') ''c'') ''length'')) [Do (SetV 25 (Call ''JD'' [Call ''Imb'' [V 26], K (JNum 8)])), Do (Put (Dot (V 5) ''c'') ''length'' (K (JNum 0))), Do (SetV 21 (Meth (Meth (Dot (V 22) ''a'') ''ec'' []) ''Jc'' [])), Loop (Meth (V 21) ''Ob'' []) [Do (SetV 19 (Call ''JD'' [Meth (V 21) ''Pb'' [], K (JNum 322)])), Do (SetV 3 (Dot (V 19) ''d'')), Do (Call ''Yfd'' [V 3, Dot (V 19) ''a'']), Do (And (Bin Lt (Call ''Ty'' [Call ''Yfd'' [Dot (V 19) ''d'', V 25], Call ''Yfd'' [Dot (V 19) ''d'', Dot (V 19) ''a'']]) (K (JNum 0))) (Seq (Call ''qDb'' [Dot (V 5) ''c'', V 19]) (K (JBool True))))] [], Do (Put (Dot (V 2) ''c'') ''length'' (K (JNum 0))), Do (SetV 20 (New ''Kmb'' [V 5])), Loop (Bin Lt (Dot (V 20) ''a'') (Dot (Dot (Dot (V 20) ''c'') ''c'') ''length'')) [Do (SetV 19 (Call ''JD'' [Call ''Imb'' [V 20], K (JNum 322)])), Do (SetV 16 (New ''Kmb'' [Dot (V 19) ''e''])), Loop (Bin Lt (Dot (V 16) ''a'') (Dot (Dot (Dot (V 16) ''c'') ''c'') ''length'')) [Do (SetV 14 (Call ''JD'' [Call ''Imb'' [V 16], K (JNum 177)])), Do (SetV 6 (K (JBool True))), Do (SetV 8 (New ''Kmb'' [V 5])), Loop (Bin Lt (Dot (V 8) ''a'') (Dot (Dot (Dot (V 8) ''c'') ''c'') ''length'')) [Do (SetV 7 (Call ''JD'' [Call ''Imb'' [V 8], K (JNum 322)])), Do (And (And (Neg (Loose (V 7) (V 19))) (Or (Or (Call ''Mub'' [V 14, Call ''dmb'' [Dot (V 7) ''e'', K (JNum 0)]]) (Call ''Mub'' [V 14, Call ''dmb'' [Dot (V 7) ''e'', K (JNum 1)]])) (Call ''Mub'' [V 14, Call ''dmb'' [Dot (V 7) ''e'', K (JNum 2)]]))) (SetV 6 (K (JBool False))))] [], Do (And (V 6) (Seq (Call ''qDb'' [Dot (V 2) ''c'', V 14]) (K (JBool True))))] []] [], Do (Call ''Te'' [V 22, V 5]), Do (Call ''Hfb'' [V 22, New ''YDb'' []]), Do (SetV 15 (New ''Kmb'' [V 2])), Loop (Bin Lt (Dot (V 15) ''a'') (Dot (Dot (Dot (V 15) ''c'') ''c'') ''length'')) [Do (SetV 14 (Call ''JD'' [Call ''Imb'' [V 15], K (JNum 177)])), Do (Call ''esb'' [V 22, New ''oEb'' [V 25, Dot (V 14) ''a'', Dot (V 14) ''b'']])] []] [], Do (SetV 17 (New ''hsb'' [])), Do (Call ''Hfb'' [V 22, New ''$Db'' [V 17]]), Do (SetV 4 (Meth (Meth (Dot (V 17) ''a'') ''ec'' []) ''Jc'' [])), Loop (Meth (V 4) ''Ob'' []) [Do (SetV 14 (Call ''JD'' [Meth (V 4) ''Pb'' [], K (JNum 177)])), Do (And (Or (Call ''nEb'' [V 13, Dot (V 14) ''a'']) (Call ''nEb'' [V 13, Dot (V 14) ''b''])) (Meth (V 4) ''Qb'' []))] [], Do (Call ''Hfb'' [V 17, New ''aEb'' []]), Ret (V 17)]]"

definition object_table33 :: "(string \<times> jfun) list" where
  "object_table33 = code_6226_6230 @ code_6231_6231 @ code_6237_6241 @ code_6242_6242 @ code_6244_6248 @ code_6249_6253"

text \<open>The names each table declares.\<close>

lemma names_6226_6230 [js_names]: "map fst code_6226_6230 = [
    ''OUb'', ''yNc'', ''tHc'', ''zKc'', ''jCd'']"
  by (simp add: code_6226_6230_def fn_def)

lemma names_6231_6231 [js_names]: "map fst code_6231_6231 = [
    ''h4b'']"
  by (simp add: code_6231_6231_def fn_def)

lemma names_6237_6241 [js_names]: "map fst code_6237_6241 = [
    ''Kod'', ''Mle'', ''i2b'', ''l2b'', ''fmc'']"
  by (simp add: code_6237_6241_def fn_def)

lemma names_6242_6242 [js_names]: "map fst code_6242_6242 = [
    ''sec'']"
  by (simp add: code_6242_6242_def fn_def)

lemma names_6244_6248 [js_names]: "map fst code_6244_6248 = [
    ''_oe'', ''FRc'', ''x9b'', ''Rpd'', ''aNb'']"
  by (simp add: code_6244_6248_def fn_def)

lemma names_6249_6253 [js_names]: "map fst code_6249_6253 = [
    ''pDc'', ''dLc'', ''jUb'', ''oCd'', ''XDb'']"
  by (simp add: code_6249_6253_def fn_def)

end
