(* ===== verification/ObjectTable34.thy ===== *)
theory ObjectTable34
  imports ObjectCode
begin

text \<open>
  Functions of \<open>layout-worker.js\<close>, lines 6254 to 6282, in the order of the file, one per line:
  the algorithms of the layout engine, longer operations of the runtime's collections and of options,
  with their loops, \<open>switch\<close> and \<open>try\<close> statements. An entry has the name, the
  number of parameters, the number of further local variables and the body; parameters and locals
  are numbered from 0, the variable of a \<open>catch\<close> has a number of its own, \<open>x++\<close> is \<open>(x=x+1)-1\<close>. Lines
  with a construct outside \<open>jexp\<close> and \<open>jstm\<close> (closures, \<open>in\<close>, floating-point literals, host objects) are
  left out.
\<close>

definition code_6254_6258 :: "(string \<times> jfun) list" where
  "code_6254_6258 = [
    fn ''Nsd'' 0 0 [Do (SetG ''Nsd'' (G ''qdb'')), Do (Call ''Bsd'' []), Do (SetG ''Msd'' (Dot (G ''Asd'') ''a'')), Do (Call ''JD'' [Call ''fGd'' [Call ''KWd'' [Dot (G ''Asd'') ''a''], K (JNum 0)], K (JNum 19)]), Do (SetG ''Gsd'' (Dot (G ''Asd'') ''f'')), Do (Call ''JD'' [Call ''fGd'' [Call ''KWd'' [Dot (G ''Asd'') ''f''], K (JNum 0)], K (JNum 19)]), Do (Call ''JD'' [Call ''fGd'' [Call ''KWd'' [Dot (G ''Asd'') ''f''], K (JNum 1)], K (JNum 38)]), Do (SetG ''Lsd'' (Dot (G ''Asd'') ''n'')), Do (Call ''JD'' [Call ''fGd'' [Call ''KWd'' [Dot (G ''Asd'') ''n''], K (JNum 0)], K (JNum 38)]), Do (Call ''JD'' [Call ''fGd'' [Call ''KWd'' [Dot (G ''Asd'') ''n''], K (JNum 1)], K (JNum 38)]), Do (Call ''JD'' [Call ''fGd'' [Call ''KWd'' [Dot (G ''Asd'') ''n''], K (JNum 2)], K (JNum 38)]), Do (Call ''JD'' [Call ''fGd'' [Call ''KWd'' [Dot (G ''Asd'') ''n''], K (JNum 3)], K (JNum 38)]), Do (SetG ''Hsd'' (Dot (G ''Asd'') ''g'')), Do (Call ''JD'' [Call ''fGd'' [Call ''KWd'' [Dot (G ''Asd'') ''g''], K (JNum 0)], K (JNum 19)]), Do (Call ''JD'' [Call ''fGd'' [Call ''KWd'' [Dot (G ''Asd'') ''g''], K (JNum 1)], K (JNum 38)]), Do (SetG ''Dsd'' (Dot (G ''Asd'') ''c'')), Do (Call ''JD'' [Call ''fGd'' [Call ''KWd'' [Dot (G ''Asd'') ''c''], K (JNum 0)], K (JNum 19)]), Do (Call ''JD'' [Call ''fGd'' [Call ''KWd'' [Dot (G ''Asd'') ''c''], K (JNum 1)], K (JNum 19)]), Do (SetG ''Isd'' (Dot (G ''Asd'') ''i'')), Do (Call ''JD'' [Call ''fGd'' [Call ''KWd'' [Dot (G ''Asd'') ''i''], K (JNum 0)], K (JNum 19)]), Do (Call ''JD'' [Call ''fGd'' [Call ''KWd'' [Dot (G ''Asd'') ''i''], K (JNum 1)], K (JNum 19)]), Do (Call ''JD'' [Call ''fGd'' [Call ''KWd'' [Dot (G ''Asd'') ''i''], K (JNum 2)], K (JNum 19)]), Do (Call ''JD'' [Call ''fGd'' [Call ''KWd'' [Dot (G ''Asd'') ''i''], K (JNum 3)], K (JNum 19)]), Do (Call ''JD'' [Call ''fGd'' [Call ''KWd'' [Dot (G ''Asd'') ''i''], K (JNum 4)], K (JNum 38)]), Do (SetG ''Jsd'' (Dot (G ''Asd'') ''j'')), Do (Call ''JD'' [Call ''fGd'' [Call ''KWd'' [Dot (G ''Asd'') ''j''], K (JNum 0)], K (JNum 19)]), Do (SetG ''Esd'' (Dot (G ''Asd'') ''d'')), Do (Call ''JD'' [Call ''fGd'' [Call ''KWd'' [Dot (G ''Asd'') ''d''], K (JNum 0)], K (JNum 19)]), Do (Call ''JD'' [Call ''fGd'' [Call ''KWd'' [Dot (G ''Asd'') ''d''], K (JNum 1)], K (JNum 19)]), Do (Call ''JD'' [Call ''fGd'' [Call ''KWd'' [Dot (G ''Asd'') ''d''], K (JNum 2)], K (JNum 19)]), Do (Call ''JD'' [Call ''fGd'' [Call ''KWd'' [Dot (G ''Asd'') ''d''], K (JNum 3)], K (JNum 19)]), Do (Call ''JD'' [Call ''fGd'' [Call ''KWd'' [Dot (G ''Asd'') ''d''], K (JNum 4)], K (JNum 38)]), Do (Call ''JD'' [Call ''fGd'' [Call ''KWd'' [Dot (G ''Asd'') ''d''], K (JNum 5)], K (JNum 38)]), Do (Call ''JD'' [Call ''fGd'' [Call ''KWd'' [Dot (G ''Asd'') ''d''], K (JNum 6)], K (JNum 38)]), Do (Call ''JD'' [Call ''fGd'' [Call ''KWd'' [Dot (G ''Asd'') ''d''], K (JNum 7)], K (JNum 38)]), Do (SetG ''Csd'' (Dot (G ''Asd'') ''b'')), Do (Call ''JD'' [Call ''fGd'' [Call ''KWd'' [Dot (G ''Asd'') ''b''], K (JNum 0)], K (JNum 38)]), Do (Call ''JD'' [Call ''fGd'' [Call ''KWd'' [Dot (G ''Asd'') ''b''], K (JNum 1)], K (JNum 38)]), Do (SetG ''Fsd'' (Dot (G ''Asd'') ''e'')), Do (Call ''JD'' [Call ''fGd'' [Call ''KWd'' [Dot (G ''Asd'') ''e''], K (JNum 0)], K (JNum 38)]), Do (Call ''JD'' [Call ''fGd'' [Call ''KWd'' [Dot (G ''Asd'') ''e''], K (JNum 1)], K (JNum 38)]), Do (Call ''JD'' [Call ''fGd'' [Call ''KWd'' [Dot (G ''Asd'') ''e''], K (JNum 2)], K (JNum 38)]), Do (Call ''JD'' [Call ''fGd'' [Call ''KWd'' [Dot (G ''Asd'') ''e''], K (JNum 3)], K (JNum 38)]), Do (Call ''JD'' [Call ''fGd'' [Call ''KWd'' [Dot (G ''Asd'') ''e''], K (JNum 4)], K (JNum 19)]), Do (Call ''JD'' [Call ''fGd'' [Call ''KWd'' [Dot (G ''Asd'') ''e''], K (JNum 5)], K (JNum 19)]), Do (Call ''JD'' [Call ''fGd'' [Call ''KWd'' [Dot (G ''Asd'') ''e''], K (JNum 6)], K (JNum 19)]), Do (Call ''JD'' [Call ''fGd'' [Call ''KWd'' [Dot (G ''Asd'') ''e''], K (JNum 7)], K (JNum 19)]), Do (Call ''JD'' [Call ''fGd'' [Call ''KWd'' [Dot (G ''Asd'') ''e''], K (JNum 8)], K (JNum 19)]), Do (Call ''JD'' [Call ''fGd'' [Call ''KWd'' [Dot (G ''Asd'') ''e''], K (JNum 9)], K (JNum 19)]), Do (Call ''JD'' [Call ''fGd'' [Call ''KWd'' [Dot (G ''Asd'') ''e''], K (JNum 10)], K (JNum 38)]), Do (SetG ''Ksd'' (Dot (G ''Asd'') ''k'')), Do (Call ''JD'' [Call ''fGd'' [Call ''KWd'' [Dot (G ''Asd'') ''k''], K (JNum 0)], K (JNum 38)]), Do (Call ''JD'' [Call ''fGd'' [Call ''KWd'' [Dot (G ''Asd'') ''k''], K (JNum 1)], K (JNum 38)])],
    fn ''ape'' 1 5 [Do (SetV 1 (Dot (V 0) ''c'')), Switch (V 1) [(Some (JNum 11), [Ret (Meth (V 0) ''tm'' [])]), (Some (JNum 12), [Ret (Meth (V 0) ''vm'' [])]), (Some (JNum 14), [Ret (Meth (V 0) ''xm'' [])]), (Some (JNum 15), [Ret (Meth (V 0) ''Am'' [])]), (Some (JNum 16), [Ret (Meth (V 0) ''ym'' [])]), (Some (JNum 17), [Ret (Meth (V 0) ''Bm'' [])]), (Some (JNum 21), [Do (Call ''Zoe'' [V 0]), Ret (Seq (Seq (Call ''gre'' []) (Call ''gre'' [])) (G ''Rqe''))]), (Some (JNum 10), [Switch (Dot (V 0) ''a'') [(Some (JNum 65), [Ret (Meth (V 0) ''fm'' [])]), (Some (JNum 90), [Ret (Meth (V 0) ''km'' [])]), (Some (JNum 122), [Ret (Meth (V 0) ''rm'' [])]), (Some (JNum 98), [Ret (Meth (V 0) ''lm'' [])]), (Some (JNum 66), [Ret (Meth (V 0) ''gm'' [])]), (Some (JNum 60), [Ret (Meth (V 0) ''qm'' [])]), (Some (JNum 62), [Ret (Meth (V 0) ''om'' [])])]])], Do (SetV 5 (Call ''_oe'' [V 0])), Do (SetV 1 (Dot (V 0) ''c'')), Switch (V 1) [(Some (JNum 3), [Ret (Meth (V 0) ''Gm'' [V 5])]), (Some (JNum 4), [Ret (Meth (V 0) ''Em'' [V 5])]), (Some (JNum 5), [Ret (Meth (V 0) ''Fm'' [V 5])]), (Some (JNum 0), [When (And (Loose (Dot (V 0) ''a'') (K (JNum 123))) (Bin Lt (Dot (V 0) ''d'') (Dot (V 0) ''j''))) [Do (SetV 4 (Dot (V 0) ''d'')), Do (SetV 3 (K (JNum 0))), Do (SetV 2 (K (JNum (- 1)))), When (And (Bin Ge (SetV 1 (Call ''sgb'' [Dot (V 0) ''i'', Bin Minus (SetV 4 (Bin Minus (V 4) (K (JNum (- 1))))) (K (JNum 1))])) (K (JNum 48))) (Bin Le (V 1) (K (JNum 57)))) [Do (SetV 3 (Bin Minus (V 1) (K (JNum 48)))), Loop (And (And (Bin Lt (V 4) (Dot (V 0) ''j'')) (Bin Ge (SetV 1 (Call ''sgb'' [Dot (V 0) ''i'', Bin Minus (SetV 4 (Bin Minus (V 4) (K (JNum (- 1))))) (K (JNum 1))])) (K (JNum 48)))) (Bin Le (V 1) (K (JNum 57)))) [Do (SetV 3 (Bin Minus (Bin Plus (Bin Times (V 3) (K (JNum 10))) (V 1)) (K (JNum 48)))), When (Bin Lt (V 3) (K (JNum 0))) [Raise (Call ''Lcb'' [New ''Yoe'' [Call ''iHd'' [Seq (Call ''Ube'' []) (G ''NHe'')]]])] []] []] [Raise (Call ''Lcb'' [New ''Yoe'' [Call ''iHd'' [Seq (Call ''Ube'' []) (G ''JHe'')]]])], Do (SetV 2 (V 3)), When (Loose (V 1) (K (JNum 44))) [When (Bin Ge (V 4) (Dot (V 0) ''j'')) [Raise (Call ''Lcb'' [New ''Yoe'' [Call ''iHd'' [Seq (Call ''Ube'' []) (G ''LHe'')]]])] [When (And (Bin Ge (SetV 1 (Call ''sgb'' [Dot (V 0) ''i'', Bin Minus (SetV 4 (Bin Minus (V 4) (K (JNum (- 1))))) (K (JNum 1))])) (K (JNum 48))) (Bin Le (V 1) (K (JNum 57)))) [Do (SetV 2 (Bin Minus (V 1) (K (JNum 48)))), Loop (And (And (Bin Lt (V 4) (Dot (V 0) ''j'')) (Bin Ge (SetV 1 (Call ''sgb'' [Dot (V 0) ''i'', Bin Minus (SetV 4 (Bin Minus (V 4) (K (JNum (- 1))))) (K (JNum 1))])) (K (JNum 48)))) (Bin Le (V 1) (K (JNum 57)))) [Do (SetV 2 (Bin Minus (Bin Plus (Bin Times (V 2) (K (JNum 10))) (V 1)) (K (JNum 48)))), When (Bin Lt (V 2) (K (JNum 0))) [Raise (Call ''Lcb'' [New ''Yoe'' [Call ''iHd'' [Seq (Call ''Ube'' []) (G ''NHe'')]]])] []] [], When (Bin Gt (V 3) (V 2)) [Raise (Call ''Lcb'' [New ''Yoe'' [Call ''iHd'' [Seq (Call ''Ube'' []) (G ''MHe'')]]])] []] [Do (SetV 2 (K (JNum (- 1))))]]] [], When (Neg (Loose (V 1) (K (JNum 125)))) [Raise (Call ''Lcb'' [New ''Yoe'' [Call ''iHd'' [Seq (Call ''Ube'' []) (G ''KHe'')]]])] [], When (Meth (V 0) ''_l'' [V 4]) [Do (SetV 5 (Seq (Seq (Seq (Call ''gre'' []) (Call ''gre'' [])) (SetG ''fre'' (Bin Minus (G ''fre'') (K (JNum (- 1)))))) (New ''Xre'' [K (JNum 9), V 5]))), Do (Put (V 0) ''d'' (Bin Plus (V 4) (K (JNum 1))))] [Do (SetV 5 (Seq (Seq (Seq (Call ''gre'' []) (Call ''gre'' [])) (SetG ''fre'' (Bin Minus (G ''fre'') (K (JNum (- 1)))))) (New ''Xre'' [K (JNum 3), V 5]))), Do (Put (V 0) ''d'' (V 4))], Do (Meth (V 5) ''Mm'' [V 3]), Do (Meth (V 5) ''Lm'' [V 2]), Do (Call ''Zoe'' [V 0])] []])], Ret (V 5)],
    fn ''Zlc'' 1 21 [Do (SetV 4 (K (JNum 1))), Do (SetV 13 (New ''lmb'' [])), Do (SetV 3 (K (JNum 0))), Loop (Bin Lt (V 3) (Dot (Dot (Dot (V 0) ''b'') ''c'') ''length'')) [Do (SetV 1 (Call ''Wlc'' [Call ''JD'' [Call ''dmb'' [Dot (V 0) ''b'', V 3], K (JNum 25)]])), Do (SetV 19 (Call ''Ylc'' [Call ''JD'' [Call ''dmb'' [Dot (V 0) ''b'', V 3], K (JNum 25)]])), Do (SetV 10 (Call ''Xlc'' [Call ''JD'' [Call ''dmb'' [Dot (V 0) ''b'', V 3], K (JNum 25)]])), When (V 10) [Do (SetV 9 (K (JNum 0))), Do (SetV 2 (K (JNum 0))), Do (SetV 15 (New ''Kmb'' [Dot (Call ''JD'' [Call ''dmb'' [Dot (V 0) ''b'', V 3], K (JNum 25)]) ''a''])), Loop (Bin Lt (Dot (V 15) ''a'') (Dot (Dot (Dot (V 15) ''c'') ''c'') ''length'')) [Do (SetV 14 (Call ''JD'' [Call ''Imb'' [V 15], K (JNum 9)])), Do (SetV 9 (Meth (Dot (G ''$wnd'') ''Math'') ''max'' [V 9, Dot (Dot (V 14) ''o'') ''a''])), Do (SetV 2 (Bin Plus (V 2) (Dot (Dot (V 14) ''o'') ''b'')))] [], Do (SetV 2 (Bin Divide (V 2) (Dot (Dot (Dot (Call ''JD'' [Call ''dmb'' [Dot (V 0) ''b'', V 3], K (JNum 25)]) ''a'') ''c'') ''length''))), Do (SetV 9 (Bin Plus (V 9) (Meth (Dot (G ''$wnd'') ''Math'') ''max'' [Bin Times (K (JNum 2)) (Call ''Ueb'' [Call ''MD'' [Call ''oNb'' [V 0, Seq (Call ''nyc'' []) (G ''Mxc'')]]]), Meth (Dot (G ''$wnd'') ''Math'') ''max'' [Bin Times (Dot (Dot (Dot (Call ''JD'' [Call ''dmb'' [Dot (V 0) ''b'', V 3], K (JNum 25)]) ''a'') ''c'') ''length'') (Call ''Ueb'' [Call ''MD'' [Call ''oNb'' [V 0, G ''Jxc'']]]), Call ''Ueb'' [Call ''MD'' [Call ''oNb'' [V 0, G ''Txc'']]]]]))), Do (SetV 2 (Bin Plus (V 2) (Meth (Dot (G ''$wnd'') ''Math'') ''max'' [Call ''Ueb'' [Call ''MD'' [Call ''oNb'' [V 0, G ''Sxc'']]], Call ''Ueb'' [Call ''MD'' [Call ''oNb'' [V 0, G ''Lxc'']]]]))), When (Bin Ge (Bin Divide (V 9) (V 2)) (Bin Divide (Dot (Dot (Dot (Call ''JD'' [Call ''dmb'' [Dot (V 0) ''b'', V 3], K (JNum 25)]) ''a'') ''c'') ''length'') (K (JNum 4)))) [Continue] []] [], When (Bin Ge (Dot (Dot (Dot (Call ''JD'' [Call ''dmb'' [Dot (V 0) ''b'', V 3], K (JNum 25)]) ''a'') ''c'') ''length'') (V 1)) [Do (SetV 20 (New ''lmb'' [])), Do (Call ''_lb'' [V 20, Call ''JD'' [Call ''dmb'' [Dot (V 0) ''b'', V 3], K (JNum 25)]]), Do (SetV 6 (K (JNum 0))), Loop (Bin Lt (V 6) (Bin Minus (V 1) (K (JNum 1)))) [Do (SetV 11 (New ''y$b'' [V 0])), Do (Call ''_lb'' [V 13, New ''prd'' [V 11, Call ''Cfb'' [Bin Plus (Bin Plus (V 3) (V 6)) (V 4)]]]), Do (Call ''qDb'' [Dot (V 20) ''c'', V 11])] [Do (Bin Minus (SetV 6 (Bin Minus (V 6) (K (JNum (- 1))))) (K (JNum 1)))], Do (SetV 4 (Bin Plus (V 4) (Bin Minus (V 1) (K (JNum 1))))), Do (SetV 18 (Dot (Dot (Dot (Seq (Call ''MDb'' [K (JNum 0), Dot (Dot (V 20) ''c'') ''length'']) (Call ''JD'' [Idx (Dot (V 20) ''c'') (K (JNum 0)), K (JNum 25)])) ''a'') ''c'') ''length'')), Do (Seq (Seq (SetV 5 (K (JNum 0))) (SetV 16 (K (JNum 0)))) (SetV 21 (K (JNum 0)))), Loop (Bin Lt (V 5) (V 18)) [Do (SetV 14 (Call ''JD'' [Call ''dmb'' [Dot (Seq (Call ''MDb'' [K (JNum 0), Dot (Dot (V 20) ''c'') ''length'']) (Call ''JD'' [Idx (Dot (V 20) ''c'') (K (JNum 0)), K (JNum 25)])) ''a'', V 16], K (JNum 9)])), When (Neg (Loose (Dot (V 14) ''k'') (Seq (Call ''$Yb'' []) (G ''WYb'')))) [Do (SetV 16 (Bin Plus (V 16) (Call ''$lc'' [V 0, V 20, Bin Modulo (V 21) (V 1), V 16])))] [Do (SetV 5 (Bin Minus (V 5) (K (JNum 1)))), Do (SetV 21 (Bin Minus (V 21) (K (JNum 1))))], Do (And (And (V 19) (Loose (Dot (V 14) ''k'') (G ''VYb''))) (SetV 21 (K (JNum (- 1)))))] [Do (Seq (Seq (SetV 5 (Bin Minus (V 5) (K (JNum (- 1))))) (SetV 16 (Bin Minus (V 16) (K (JNum (- 1)))))) (Bin Minus (SetV 21 (Bin Minus (V 21) (K (JNum (- 1))))) (K (JNum 1))))]] []] [Do (Bin Minus (SetV 3 (Bin Minus (V 3) (K (JNum (- 1))))) (K (JNum 1)))], Do (SetV 12 (New ''Kmb'' [V 13])), Loop (Bin Lt (Dot (V 12) ''a'') (Dot (Dot (Dot (V 12) ''c'') ''c'') ''length'')) [Do (SetV 11 (Call ''JD'' [Call ''Imb'' [V 12], K (JNum 49)])), Do (Call ''$lb'' [Dot (V 0) ''b'', Dot (Call ''JD'' [Dot (V 11) ''b'', K (JNum 15)]) ''a'', Call ''JD'' [Dot (V 11) ''a'', K (JNum 25)]])] [], Do (SetV 8 (New ''Kmb'' [Dot (V 0) ''b''])), Loop (Bin Lt (Dot (V 8) ''a'') (Dot (Dot (Dot (V 8) ''c'') ''c'') ''length'')) [Do (SetV 7 (Call ''JD'' [Call ''Imb'' [V 8], K (JNum 25)])), Do (SetV 17 (New ''Tjb'' [Dot (V 7) ''a'', K (JNum 0)])), Loop (Bin Lt (Dot (V 17) ''b'') (Meth (Dot (V 17) ''d'') ''gc'' [])) [Do (SetV 14 (Seq (Call ''LDb'' [Bin Lt (Dot (V 17) ''b'') (Meth (Dot (V 17) ''d'') ''gc'' [])]) (Call ''JD'' [Meth (Dot (V 17) ''d'') ''Xb'' [Put (V 17) ''c'' (Bin Minus (Put (V 17) ''b'' (Bin Minus (Dot (V 17) ''b'') (K (JNum (- 1))))) (K (JNum 1)))], K (JNum 9)]))), Do (And (Or (Loose (Dot (V 14) ''k'') (Seq (Call ''$Yb'' []) (G ''ZYb''))) (Loose (Dot (V 14) ''k'') (G ''WYb''))) (Call ''Mjb'' [V 17]))] []] []],
    fn ''Qxd'' 3 17 [When (Loose (V 2) (K JNull)) [Ret (K JNull)] [], When (Neg (Loose (Dot (V 0) ''a'') (Meth (V 1) ''hk'' []))) [Raise (Call ''Lcb'' [New ''kfb'' [Bin Plus (Bin Plus (G ''eGe'') (Meth (V 1) ''ve'' [])) (G ''fGe'')]])] [], When (Call ''RD'' [V 1, K (JNum 459)]) [Do (SetV 16 (Call ''M_d'' [Call ''JD'' [V 1, K (JNum 675)], V 2])), When (Neg (V 16)) [Raise (Call ''Lcb'' [New ''kfb'' [Bin Plus (Bin Plus (Bin Plus (Bin Plus (G ''gGe'') (V 2)) (K (JStr (CHR 0x27 # '' is not a valid enumerator of '' @ CHR 0x27 # '''')))) (Meth (V 1) ''ve'' [])) (K (JStr (CHR 0x27 # '''')))]])] [], Ret (V 16)] [], Switch (Meth (Call ''_ce'' [Seq (Call ''yie'' []) (G ''wie''), V 1]) ''Ll'' []) [(Some (JNum 2), [Do (SetV 2 (Call ''Ase'' [V 2, K (JBool False)])), Break]), (Some (JNum 3), [Do (SetV 2 (Call ''Ase'' [V 2, K (JBool True)])), Break])], Do (SetV 3 (Meth (Call ''_ce'' [G ''wie'', V 1]) ''Hl'' [])), When (V 3) [Ret (Meth (Meth (Meth (V 3) ''hk'' []) ''ti'' []) ''qi'' [V 3, V 2])] [], Do (SetV 12 (Meth (Call ''_ce'' [G ''wie'', V 1]) ''Jl'' [])), When (V 12) [Do (SetV 16 (New ''lmb'' [])), Do (Seq (Seq (SetV 9 (Call ''Txd'' [V 2])) (SetV 10 (K (JNum 0)))) (SetV 11 (Dot (V 9) ''length''))), Loop (Bin Lt (V 10) (V 11)) [Do (SetV 8 (Idx (V 9) (V 10))), Do (Call ''_lb'' [V 16, Meth (Meth (Meth (V 12) ''hk'' []) ''ti'' []) ''qi'' [V 12, V 8]])] [Do (SetV 10 (Bin Minus (V 10) (K (JNum (- 1)))))], Ret (V 16)] [], Do (SetV 15 (Meth (Call ''_ce'' [G ''wie'', V 1]) ''Kl'' [])), When (Neg (Meth (V 15) ''dc'' [])) [Do (SetV 14 (Meth (V 15) ''Jc'' [])), Loop (Meth (V 14) ''Ob'' []) [Do (SetV 13 (Call ''JD'' [Meth (V 14) ''Pb'' [], K (JNum 159)])), Try [Do (SetV 16 (Meth (Meth (Meth (V 13) ''hk'' []) ''ti'' []) ''qi'' [V 13, V 2])), When (Neg (Loose (V 16) (K JNull))) [Ret (V 16)] []] 17 [Do (SetV 17 (Call ''Kcb'' [V 17])), When (Neg (Call ''RD'' [V 17, K (JNum 63)])) [Raise (Call ''Lcb'' [V 17])] []]] [], Raise (Call ''Lcb'' [New ''kfb'' [Bin Plus (Bin Plus (Bin Plus (Bin Plus (G ''gGe'') (V 2)) (K (JStr (CHR 0x27 # '' does not match any member types of the union datatype '' @ CHR 0x27 # '''')))) (Meth (V 1) ''ve'' [])) (K (JStr (CHR 0x27 # '''')))]])] [], Do (Meth (Call ''JD'' [V 1, K (JNum 832)]) ''mk'' []), Do (SetV 4 (Call ''bie'' [Meth (V 1) ''ik'' []])), When (Neg (V 4)) [Ret (K JNull)] [], When (Loose (V 4) (G ''II'')) [Do (SetV 6 (K (JNum 0))), Try [Do (SetV 6 (Bin BitAnd (Call ''Ydb'' [V 2, G ''Eue'', G ''Ate'']) (G ''Pue'')))] 18 [Do (SetV 18 (Call ''Kcb'' [V 18])), When (Call ''RD'' [V 18, K (JNum 131)]) [Do (SetV 5 (Call ''Kgb'' [V 2])), Do (SetV 6 (Idx (V 5) (K (JNum 0))))] [Raise (Call ''Lcb'' [V 18])]], Ret (Call ''reb'' [V 6])] [], When (Loose (V 4) (G ''hK'')) [Do (SetV 7 (K (JNum 0))), Loop (Bin Lt (V 7) (Dot (G ''Jxd'') ''length'')) [Try [Ret (Call ''o0d'' [Idx (G ''Jxd'') (V 7), V 2])] 19 [Do (SetV 19 (Call ''Kcb'' [V 19])), When (Neg (Call ''RD'' [V 19, K (JNum 32)])) [Raise (Call ''Lcb'' [V 19])] []]] [Do (SetV 7 (Bin Minus (V 7) (K (JNum (- 1)))))], Raise (Call ''Lcb'' [New ''kfb'' [Bin Plus (Bin Plus (G ''gGe'') (V 2)) (K (JStr (CHR 0x27 # '' is not a date formatted string of the form yyyy-MM-dd'' @ CHR 0x27 # ''T'' @ CHR 0x27 # ''HH:mm:ss'' @ CHR 0x27 # ''.'' @ CHR 0x27 # ''SSSZ or a valid subset thereof'')))]])] [], Raise (Call ''Lcb'' [New ''kfb'' [Bin Plus (Bin Plus (G ''gGe'') (V 2)) (K (JStr (CHR 0x27 # '' is invalid. '')))]])],
    fn ''dUb'' 0 0 [Do (SetG ''dUb'' (G ''qdb'')), Do (SetG ''cUb'' (New ''Np'' [])), Do (Call ''Rc'' [G ''cUb'', Seq (Call ''Bmd'' []) (G ''mmd''), G ''qmd'']), Do (Call ''Rc'' [G ''cUb'', G ''xmd'', G ''qmd'']), Do (Call ''Rc'' [G ''cUb'', G ''xmd'', G ''tmd'']), Do (Call ''Rc'' [G ''cUb'', G ''imd'', G ''pmd'']), Do (Call ''Rc'' [G ''cUb'', G ''imd'', G ''qmd'']), Do (Call ''Rc'' [G ''cUb'', G ''nmd'', G ''qmd'']), Do (Call ''Rc'' [G ''cUb'', G ''nmd'', G ''rmd'']), Do (Call ''Rc'' [G ''cUb'', G ''vmd'', G ''kmd'']), Do (Call ''Rc'' [G ''cUb'', G ''vmd'', G ''qmd'']), Do (Call ''Rc'' [G ''cUb'', G ''smd'', G ''lmd'']), Do (Call ''Rc'' [G ''cUb'', G ''smd'', G ''qmd'']), Do (Call ''Rc'' [G ''cUb'', G ''smd'', G ''rmd'']), Do (Call ''Rc'' [G ''cUb'', G ''smd'', G ''kmd'']), Do (Call ''Rc'' [G ''cUb'', G ''lmd'', G ''smd'']), Do (Call ''Rc'' [G ''cUb'', G ''lmd'', G ''tmd'']), Do (Call ''Rc'' [G ''cUb'', G ''lmd'', G ''pmd'']), Do (Call ''Rc'' [G ''cUb'', G ''lmd'', G ''qmd'']), Do (Call ''Rc'' [G ''cUb'', G ''umd'', G ''umd'']), Do (Call ''Rc'' [G ''cUb'', G ''umd'', G ''rmd'']), Do (Call ''Rc'' [G ''cUb'', G ''umd'', G ''tmd'']), Do (Call ''Rc'' [G ''cUb'', G ''omd'', G ''omd'']), Do (Call ''Rc'' [G ''cUb'', G ''omd'', G ''rmd'']), Do (Call ''Rc'' [G ''cUb'', G ''omd'', G ''pmd'']), Do (Call ''Rc'' [G ''cUb'', G ''wmd'', G ''wmd'']), Do (Call ''Rc'' [G ''cUb'', G ''wmd'', G ''kmd'']), Do (Call ''Rc'' [G ''cUb'', G ''wmd'', G ''tmd'']), Do (Call ''Rc'' [G ''cUb'', G ''jmd'', G ''jmd'']), Do (Call ''Rc'' [G ''cUb'', G ''jmd'', G ''kmd'']), Do (Call ''Rc'' [G ''cUb'', G ''jmd'', G ''pmd'']), Do (Call ''Rc'' [G ''cUb'', G ''rmd'', G ''nmd'']), Do (Call ''Rc'' [G ''cUb'', G ''rmd'', G ''smd'']), Do (Call ''Rc'' [G ''cUb'', G ''rmd'', G ''umd'']), Do (Call ''Rc'' [G ''cUb'', G ''rmd'', G ''omd'']), Do (Call ''Rc'' [G ''cUb'', G ''rmd'', G ''qmd'']), Do (Call ''Rc'' [G ''cUb'', G ''rmd'', G ''rmd'']), Do (Call ''Rc'' [G ''cUb'', G ''rmd'', G ''tmd'']), Do (Call ''Rc'' [G ''cUb'', G ''rmd'', G ''pmd'']), Do (Call ''Rc'' [G ''cUb'', G ''kmd'', G ''vmd'']), Do (Call ''Rc'' [G ''cUb'', G ''kmd'', G ''smd'']), Do (Call ''Rc'' [G ''cUb'', G ''kmd'', G ''wmd'']), Do (Call ''Rc'' [G ''cUb'', G ''kmd'', G ''jmd'']), Do (Call ''Rc'' [G ''cUb'', G ''kmd'', G ''kmd'']), Do (Call ''Rc'' [G ''cUb'', G ''kmd'', G ''tmd'']), Do (Call ''Rc'' [G ''cUb'', G ''kmd'', G ''pmd'']), Do (Call ''Rc'' [G ''cUb'', G ''kmd'', G ''qmd'']), Do (Call ''Rc'' [G ''cUb'', G ''tmd'', G ''xmd'']), Do (Call ''Rc'' [G ''cUb'', G ''tmd'', G ''lmd'']), Do (Call ''Rc'' [G ''cUb'', G ''tmd'', G ''umd'']), Do (Call ''Rc'' [G ''cUb'', G ''tmd'', G ''wmd'']), Do (Call ''Rc'' [G ''cUb'', G ''tmd'', G ''rmd'']), Do (Call ''Rc'' [G ''cUb'', G ''tmd'', G ''kmd'']), Do (Call ''Rc'' [G ''cUb'', G ''tmd'', G ''tmd'']), Do (Call ''Rc'' [G ''cUb'', G ''tmd'', G ''qmd'']), Do (Call ''Rc'' [G ''cUb'', G ''pmd'', G ''imd'']), Do (Call ''Rc'' [G ''cUb'', G ''pmd'', G ''lmd'']), Do (Call ''Rc'' [G ''cUb'', G ''pmd'', G ''omd'']), Do (Call ''Rc'' [G ''cUb'', G ''pmd'', G ''jmd'']), Do (Call ''Rc'' [G ''cUb'', G ''pmd'', G ''rmd'']), Do (Call ''Rc'' [G ''cUb'', G ''pmd'', G ''kmd'']), Do (Call ''Rc'' [G ''cUb'', G ''pmd'', G ''pmd'']), Do (Call ''Rc'' [G ''cUb'', G ''pmd'', G ''qmd'']), Do (Call ''Rc'' [G ''cUb'', G ''qmd'', G ''mmd'']), Do (Call ''Rc'' [G ''cUb'', G ''qmd'', G ''xmd'']), Do (Call ''Rc'' [G ''cUb'', G ''qmd'', G ''imd'']), Do (Call ''Rc'' [G ''cUb'', G ''qmd'', G ''nmd'']), Do (Call ''Rc'' [G ''cUb'', G ''qmd'', G ''vmd'']), Do (Call ''Rc'' [G ''cUb'', G ''qmd'', G ''smd'']), Do (Call ''Rc'' [G ''cUb'', G ''qmd'', G ''lmd'']), Do (Call ''Rc'' [G ''cUb'', G ''qmd'', G ''rmd'']), Do (Call ''Rc'' [G ''cUb'', G ''qmd'', G ''kmd'']), Do (Call ''Rc'' [G ''cUb'', G ''qmd'', G ''tmd'']), Do (Call ''Rc'' [G ''cUb'', G ''qmd'', G ''pmd'']), Do (Call ''Rc'' [G ''cUb'', G ''qmd'', G ''qmd''])]]"

definition code_6259_6259 :: "(string \<times> jfun) list" where
  "code_6259_6259 = [
    fn ''FUb'' 3 22 [Do (Put (V 0) ''d'' (New ''lgd'' [G ''Cve'', G ''Cve''])), Do (Put (V 0) ''c'' (New ''lgd'' [G ''Dve'', G ''Dve''])), Do (SetV 12 (Meth (V 1) ''Jc'' [])), Loop (Meth (V 12) ''Ob'' []) [Do (SetV 10 (Call ''JD'' [Meth (V 12) ''Pb'' [], K (JNum 36)])), Do (SetV 19 (New ''Kmb'' [Dot (V 10) ''a''])), Loop (Bin Lt (Dot (V 19) ''a'') (Dot (Dot (Dot (V 19) ''c'') ''c'') ''length'')) [Do (SetV 18 (Call ''JD'' [Call ''Imb'' [V 19], K (JNum 9)])), Do (Put (Dot (V 0) ''d'') ''a'' (Meth (Dot (G ''$wnd'') ''Math'') ''min'' [Dot (Dot (V 0) ''d'') ''a'', Bin Minus (Dot (Dot (V 18) ''n'') ''a'') (Dot (Dot (V 18) ''d'') ''b'')])), Do (Put (Dot (V 0) ''d'') ''b'' (Meth (Dot (G ''$wnd'') ''Math'') ''min'' [Dot (Dot (V 0) ''d'') ''b'', Bin Minus (Dot (Dot (V 18) ''n'') ''b'') (Dot (Dot (V 18) ''d'') ''d'')])), Do (Put (Dot (V 0) ''c'') ''a'' (Meth (Dot (G ''$wnd'') ''Math'') ''max'' [Dot (Dot (V 0) ''c'') ''a'', Bin Plus (Bin Plus (Dot (Dot (V 18) ''n'') ''a'') (Dot (Dot (V 18) ''o'') ''a'')) (Dot (Dot (V 18) ''d'') ''c'')])), Do (Put (Dot (V 0) ''c'') ''b'' (Meth (Dot (G ''$wnd'') ''Math'') ''max'' [Dot (Dot (V 0) ''c'') ''b'', Bin Plus (Bin Plus (Dot (Dot (V 18) ''n'') ''b'') (Dot (Dot (V 18) ''o'') ''b'')) (Dot (Dot (V 18) ''d'') ''a'')]))] []] [], Do (SetV 7 (New ''WUb'' [])), Do (SetV 11 (Meth (V 1) ''Jc'' [])), Loop (Meth (V 11) ''Ob'' []) [Do (SetV 10 (Call ''JD'' [Meth (V 11) ''Pb'' [], K (JNum 36)])), Do (SetV 3 (Call ''OUb'' [V 0, V 10])), Do (Call ''_lb'' [Dot (V 7) ''a'', V 3]), Do (Put (V 3) ''a'' (Bin BitOr (Dot (V 3) ''a'') (Neg (Meth (Call ''JD'' [Call ''oNb'' [Dot (V 3) ''c'', Seq (Call ''Wrc'' []) (G ''Xqc'')], K (JNum 22)]) ''dc'' []))))] [], Do (Put (V 0) ''b'' (Seq (Seq (Seq (Seq (Call ''rRb'' []) (SetV 24 (New ''BRb'' []))) (Put (V 24) ''f'' (New ''iRb'' [V 2]))) (Put (V 24) ''b'' (Call ''hRb'' [Dot (V 24) ''f'', V 7]))) (V 24))), Do (Call ''vRb'' [Seq (Seq (SetV 14 (Dot (V 0) ''b'')) (New ''ood'' [])) (V 14)]), Do (Put (V 0) ''e'' (New ''jgd'' [])), Do (Put (V 0) ''a'' (Dot (Dot (Dot (V 0) ''b'') ''f'') ''e'')), Do (SetV 6 (New ''Kmb'' [Dot (V 7) ''a''])), Loop (Bin Lt (Dot (V 6) ''a'') (Dot (Dot (Dot (V 6) ''c'') ''c'') ''length'')) [Do (SetV 4 (Call ''JD'' [Call ''Imb'' [V 6], K (JNum 840)])), Do (SetV 20 (Call ''wRb'' [Dot (V 0) ''b'', V 4])), Do (Call ''VXb'' [Dot (V 4) ''c'', Dot (V 20) ''a'', Dot (V 20) ''b'']), Do (SetV 16 (New ''Kmb'' [Dot (Dot (V 4) ''c'') ''a''])), Loop (Bin Lt (Dot (V 16) ''a'') (Dot (Dot (Dot (V 16) ''c'') ''c'') ''length'')) [Do (SetV 15 (Call ''JD'' [Call ''Imb'' [V 16], K (JNum 9)])), When (Loose (Dot (V 15) ''k'') (Seq (Call ''$Yb'' []) (G ''TYb''))) [Do (SetV 17 (Call ''JUb'' [V 0, Dot (V 15) ''n'', Call ''JD'' [Call ''oNb'' [V 15, Seq (Call ''Wrc'' []) (G ''$qc'')], K (JNum 64)]])), Do (Call ''Vfd'' [Call ''cgd'' [Dot (V 15) ''n''], V 17])] []] []] [], Do (SetV 5 (New ''Kmb'' [Dot (V 7) ''a''])), Loop (Bin Lt (Dot (V 5) ''a'') (Dot (Dot (Dot (V 5) ''c'') ''c'') ''length'')) [Do (SetV 4 (Call ''JD'' [Call ''Imb'' [V 5], K (JNum 840)])), Do (SetV 9 (New ''Kmb'' [Call ''UUb'' [V 4]])), Loop (Bin Lt (Dot (V 9) ''a'') (Dot (Dot (Dot (V 9) ''c'') ''c'') ''length'')) [Do (SetV 8 (Call ''JD'' [Call ''Imb'' [V 9], K (JNum 17)])), Do (SetV 23 (New ''zgd'' [Dot (V 8) ''a''])), Do (Call ''$t'' [V 23, K (JNum 0), Call ''rZb'' [Dot (V 8) ''c'']]), Do (Call ''Ttb'' [V 23, Call ''rZb'' [Dot (V 8) ''d'']]), Do (SetV 13 (K JNull)), Do (SetV 22 (Call ''Ztb'' [V 23, K (JNum 0)])), Loop (Neg (Loose (Dot (V 22) ''b'') (Dot (Dot (V 22) ''d'') ''c''))) [Do (SetV 21 (Call ''JD'' [Call ''lub'' [V 22], K (JNum 8)])), When (Neg (V 13)) [Do (SetV 13 (V 21)), Continue] [], When (Call ''Uy'' [Dot (V 13) ''a'', Dot (V 21) ''a'']) [Do (Put (Dot (V 0) ''e'') ''a'' (Meth (Dot (G ''$wnd'') ''Math'') ''min'' [Dot (Dot (V 0) ''e'') ''a'', Dot (V 13) ''a''])), Do (Put (Dot (V 0) ''a'') ''a'' (Meth (Dot (G ''$wnd'') ''Math'') ''max'' [Dot (Dot (V 0) ''a'') ''a'', Dot (V 13) ''a'']))] [When (Call ''Uy'' [Dot (V 13) ''b'', Dot (V 21) ''b'']) [Do (Put (Dot (V 0) ''e'') ''b'' (Meth (Dot (G ''$wnd'') ''Math'') ''min'' [Dot (Dot (V 0) ''e'') ''b'', Dot (V 13) ''b''])), Do (Put (Dot (V 0) ''a'') ''b'' (Meth (Dot (G ''$wnd'') ''Math'') ''max'' [Dot (Dot (V 0) ''a'') ''b'', Dot (V 13) ''b'']))] []], Do (SetV 13 (V 21))] []] []] [], Do (Call ''agd'' [Dot (V 0) ''e'']), Do (Call ''Vfd'' [Dot (V 0) ''a'', Dot (V 0) ''e''])]]"

definition code_6267_6270 :: "(string \<times> jfun) list" where
  "code_6267_6270 = [
    fn ''ZBc'' 3 31 [Do (Meth (V 2) ''Tg'' [K (JStr ''Greedy cycle removal''), K (JNum 1)]), Do (Put (V 0) ''b'' (V 1)), Do (SetV 19 (Dot (V 1) ''a'')), Do (SetV 33 (Dot (Dot (V 19) ''c'') ''length'')), Do (Put (V 0) ''a'' (Call ''SC'' [G ''cE'', G ''bve'', K (JNum 30), V 33, K (JNum 15), K (JNum 1)])), Do (Put (V 0) ''d'' (Call ''SC'' [G ''cE'', G ''bve'', K (JNum 30), V 33, K (JNum 15), K (JNum 1)])), Do (Put (V 0) ''c'' (Call ''SC'' [G ''cE'', G ''bve'', K (JNum 30), V 33, K (JNum 15), K (JNum 1)])), Do (SetV 9 (K (JNum 0))), Do (SetV 17 (New ''Kmb'' [V 19])), Loop (Bin Lt (Dot (V 17) ''a'') (Dot (Dot (Dot (V 17) ''c'') ''c'') ''length'')) [Do (SetV 15 (Call ''JD'' [Call ''Imb'' [V 17], K (JNum 9)])), Do (Put (V 15) ''p'' (V 9)), Do (SetV 25 (New ''Kmb'' [Dot (V 15) ''j''])), Loop (Bin Lt (Dot (V 25) ''a'') (Dot (Dot (Dot (V 25) ''c'') ''c'') ''length'')) [Do (SetV 22 (Call ''JD'' [Call ''Imb'' [V 25], K (JNum 12)])), Do (SetV 7 (New ''Kmb'' [Dot (V 22) ''e''])), Loop (Bin Lt (Dot (V 7) ''a'') (Dot (Dot (Dot (V 7) ''c'') ''c'') ''length'')) [Do (SetV 3 (Call ''JD'' [Call ''Imb'' [V 7], K (JNum 17)])), When (Loose (Dot (Dot (V 3) ''c'') ''i'') (V 15)) [Continue] [], Do (SetV 28 (Dot (Call ''JD'' [Call ''oNb'' [V 3, Seq (Call ''nyc'' []) (G ''zxc'')], K (JNum 15)]) ''a'')), Do (PutIdx (Dot (V 0) ''a'') (V 9) (Bin Plus (Idx (Dot (V 0) ''a'') (V 9)) (Cond (Bin Gt (V 28) (K (JNum 0))) (Bin Plus (V 28) (K (JNum 1))) (K (JNum 1)))))] [], Do (SetV 6 (New ''Kmb'' [Dot (V 22) ''g''])), Loop (Bin Lt (Dot (V 6) ''a'') (Dot (Dot (Dot (V 6) ''c'') ''c'') ''length'')) [Do (SetV 3 (Call ''JD'' [Call ''Imb'' [V 6], K (JNum 17)])), When (Loose (Dot (Dot (V 3) ''d'') ''i'') (V 15)) [Continue] [], Do (SetV 28 (Dot (Call ''JD'' [Call ''oNb'' [V 3, Seq (Call ''nyc'' []) (G ''zxc'')], K (JNum 15)]) ''a'')), Do (PutIdx (Dot (V 0) ''d'') (V 9) (Bin Plus (Idx (Dot (V 0) ''d'') (V 9)) (Cond (Bin Gt (V 28) (K (JNum 0))) (Bin Plus (V 28) (K (JNum 1))) (K (JNum 1)))))] []] [], Do (Cond (Loose (Idx (Dot (V 0) ''d'') (V 9)) (K (JNum 0))) (Call ''Ttb'' [Dot (V 0) ''f'', V 15]) (And (Loose (Idx (Dot (V 0) ''a'') (V 9)) (K (JNum 0))) (Call ''Ttb'' [Dot (V 0) ''g'', V 15]))), Do (SetV 9 (Bin Minus (V 9) (K (JNum (- 1)))))] [], Do (SetV 14 (K (JNum (- 1)))), Do (SetV 13 (K (JNum 1))), Do (SetV 11 (New ''lmb'' [])), Do (Put (V 0) ''e'' (Call ''JD'' [Call ''oNb'' [V 1, Seq (Call ''Wrc'' []) (G ''Frc'')], K (JNum 234)])), Loop (Bin Gt (V 33) (K (JNum 0))) [Loop (Neg (Loose (Dot (Dot (V 0) ''f'') ''b'') (K (JNum 0)))) [Do (SetV 30 (Call ''JD'' [Call ''_tb'' [Dot (V 0) ''f''], K (JNum 9)])), Do (PutIdx (Dot (V 0) ''c'') (Dot (V 30) ''p'') (Bin Minus (SetV 14 (Bin Minus (V 14) (K (JNum 1)))) (K (JNum (- 1))))), Do (Call ''$Bc'' [V 0, V 30]), Do (SetV 33 (Bin Minus (V 33) (K (JNum 1))))] [], Loop (Neg (Loose (Dot (Dot (V 0) ''g'') ''b'') (K (JNum 0)))) [Do (SetV 31 (Call ''JD'' [Call ''_tb'' [Dot (V 0) ''g''], K (JNum 9)])), Do (PutIdx (Dot (V 0) ''c'') (Dot (V 31) ''p'') (Bin Minus (SetV 13 (Bin Minus (V 13) (K (JNum (- 1))))) (K (JNum 1)))), Do (Call ''$Bc'' [V 0, V 31]), Do (SetV 33 (Bin Minus (V 33) (K (JNum 1))))] [], When (Bin Gt (V 33) (K (JNum 0))) [Do (SetV 12 (G ''Eue'')), Do (SetV 18 (New ''Kmb'' [V 19])), Loop (Bin Lt (Dot (V 18) ''a'') (Dot (Dot (Dot (V 18) ''c'') ''c'') ''length'')) [Do (SetV 15 (Call ''JD'' [Call ''Imb'' [V 18], K (JNum 9)])), When (Loose (Idx (Dot (V 0) ''c'') (Dot (V 15) ''p'')) (K (JNum 0))) [Do (SetV 20 (Bin Minus (Idx (Dot (V 0) ''d'') (Dot (V 15) ''p'')) (Idx (Dot (V 0) ''a'') (Dot (V 15) ''p'')))), When (Bin Ge (V 20) (V 12)) [When (Bin Gt (V 20) (V 12)) [Do (Put (Dot (V 11) ''c'') ''length'' (K (JNum 0))), Do (SetV 12 (V 20))] [], Do (Call ''qDb'' [Dot (V 11) ''c'', V 15])] []] []] [], Do (SetV 10 (Meth (V 0) ''qg'' [V 11])), Do (PutIdx (Dot (V 0) ''c'') (Dot (V 10) ''p'') (Bin Minus (SetV 13 (Bin Minus (V 13) (K (JNum (- 1))))) (K (JNum 1)))), Do (Call ''$Bc'' [V 0, V 10]), Do (SetV 33 (Bin Minus (V 33) (K (JNum 1))))] []] [], Do (SetV 29 (Bin Plus (Dot (Dot (V 19) ''c'') ''length'') (K (JNum 1)))), Do (SetV 9 (K (JNum 0))), Loop (Bin Lt (V 9) (Dot (Dot (V 19) ''c'') ''length'')) [Do (And (Bin Lt (Idx (Dot (V 0) ''c'') (V 9)) (K (JNum 0))) (PutIdx (Dot (V 0) ''c'') (V 9) (Bin Plus (Idx (Dot (V 0) ''c'') (V 9)) (V 29))))] [Do (Bin Minus (SetV 9 (Bin Minus (V 9) (K (JNum (- 1))))) (K (JNum 1)))], Do (SetV 16 (New ''Kmb'' [V 19])), Loop (Bin Lt (Dot (V 16) ''a'') (Dot (Dot (Dot (V 16) ''c'') ''c'') ''length'')) [Do (SetV 15 (Call ''JD'' [Call ''Imb'' [V 16], K (JNum 9)])), Do (SetV 27 (Call ''_Xb'' [Dot (V 15) ''j''])), Do (Seq (Seq (SetV 23 (V 27)) (SetV 24 (K (JNum 0)))) (SetV 26 (Dot (V 23) ''length''))), Loop (Bin Lt (V 24) (V 26)) [Do (SetV 22 (Idx (V 23) (V 24))), Do (SetV 21 (Call ''ZXb'' [Dot (V 22) ''g''])), Do (Seq (Seq (SetV 4 (V 21)) (SetV 5 (K (JNum 0)))) (SetV 8 (Dot (V 4) ''length''))), Loop (Bin Lt (V 5) (V 8)) [Do (SetV 3 (Idx (V 4) (V 5))), Do (SetV 32 (Dot (Dot (Dot (V 3) ''d'') ''i'') ''p'')), When (Bin Gt (Idx (Dot (V 0) ''c'') (Dot (V 15) ''p'')) (Idx (Dot (V 0) ''c'') (V 32))) [Do (Call ''BWb'' [V 3, K (JBool True)]), Do (Call ''rNb'' [V 1, G ''Tqc'', Seq (Call ''Qdb'' []) (K (JBool True))])] []] [Do (SetV 5 (Bin Minus (V 5) (K (JNum (- 1)))))]] [Do (SetV 24 (Bin Minus (V 24) (K (JNum (- 1)))))]] [], Do (Put (V 0) ''a'' (K JNull)), Do (Put (V 0) ''d'' (K JNull)), Do (Put (V 0) ''c'' (K JNull)), Do (Call ''cub'' [Dot (V 0) ''g'']), Do (Call ''cub'' [Dot (V 0) ''f'']), Do (Meth (V 2) ''Ug'' [])],
    fn ''Wpd'' 3 20 [Do (SetV 21 (Call ''JD'' [Call ''fGd'' [Seq (And (Neg (Dot (V 0) ''a'')) (Put (V 0) ''a'' (New ''P3d'' [G ''P3'', V 0, K (JNum 6), K (JNum 6)]))) (Dot (V 0) ''a''), K (JNum 0)], K (JNum 170)])), Do (SetV 10 (New ''ygd'' [])), Do (SetV 20 (New ''_rb'' [])), Do (SetV 22 (Call ''Zpd'' [V 21])), Do (Call ''zsb'' [Dot (V 20) ''f'', V 21, V 22]), Do (SetV 12 (New ''_rb'' [])), Do (SetV 3 (New ''dub'' [])), Do (SetV 14 (Call ''Gl'' [Call ''yl'' [Call ''WC'' [Call ''OC'' [G ''VI'', K (JNum 1)], G ''Gte'', K (JNum 20), K (JNum 0), NewArr [Seq (And (Neg (Dot (V 1) ''d'')) (Put (V 1) ''d'' (New ''jhe'' [G ''Q3'', V 1, K (JNum 8), K (JNum 5)]))) (Dot (V 1) ''d''), Seq (And (Neg (Dot (V 1) ''e'')) (Put (V 1) ''e'' (New ''jhe'' [G ''Q3'', V 1, K (JNum 7), K (JNum 4)]))) (Dot (V 1) ''e'')]]]])), Loop (Call ''Wr'' [V 14]) [Do (SetV 13 (Call ''JD'' [Call ''Xr'' [V 14], K (JNum 85)])), When (Neg (Loose (Dot (Seq (And (Neg (Dot (V 0) ''a'')) (Put (V 0) ''a'' (New ''P3d'' [G ''P3'', V 0, K (JNum 6), K (JNum 6)]))) (Dot (V 0) ''a'')) ''i'') (K (JNum 1)))) [Raise (Call ''Lcb'' [New ''kfb'' [Bin Plus (G ''DFe'') (Dot (Seq (And (Neg (Dot (V 0) ''a'')) (Put (V 0) ''a'' (New ''P3d'' [G ''P3'', V 0, K (JNum 6), K (JNum 6)]))) (Dot (V 0) ''a'')) ''i'')]])] [], When (Neg (Loose (V 13) (V 0))) [Do (SetV 16 (Call ''JD'' [Call ''fGd'' [Seq (And (Neg (Dot (V 13) ''a'')) (Put (V 13) ''a'' (New ''P3d'' [G ''P3'', V 13, K (JNum 6), K (JNum 6)]))) (Dot (V 13) ''a''), K (JNum 0)], K (JNum 170)])), Do (Call ''Wtb'' [V 3, V 16, Dot (Dot (V 3) ''c'') ''b'', Dot (V 3) ''c'']), Do (SetV 15 (Call ''JD'' [Call ''Wd'' [Call ''ysb'' [Dot (V 20) ''f'', V 16]], K (JNum 13)])), When (Neg (V 15)) [Do (SetV 15 (Call ''Zpd'' [V 16])), Do (Call ''zsb'' [Dot (V 20) ''f'', V 16, V 15])] [], Do (SetV 11 (Cond (V 2) (Call ''igd'' [New ''mgd'' [Call ''JD'' [Call ''dmb'' [V 22, Bin Minus (Dot (Dot (V 22) ''c'') ''length'') (K (JNum 1))], K (JNum 8)]], Call ''JD'' [Call ''dmb'' [V 15, Bin Minus (Dot (Dot (V 15) ''c'') ''length'') (K (JNum 1))], K (JNum 8)]]) (Call ''igd'' [New ''mgd'' [Seq (Call ''MDb'' [K (JNum 0), Dot (Dot (V 22) ''c'') ''length'']) (Call ''JD'' [Idx (Dot (V 22) ''c'') (K (JNum 0)), K (JNum 8)])], Seq (Call ''MDb'' [K (JNum 0), Dot (Dot (V 15) ''c'') ''length'']) (Call ''JD'' [Idx (Dot (V 15) ''c'') (K (JNum 0)), K (JNum 8)])]))), Do (Call ''zsb'' [Dot (V 12) ''f'', V 16, V 11])] []] [], When (Neg (Loose (Dot (V 3) ''b'') (K (JNum 0)))) [Do (SetV 17 (Call ''JD'' [Call ''dmb'' [V 22, Cond (V 2) (Bin Minus (Dot (Dot (V 22) ''c'') ''length'') (K (JNum 1))) (K (JNum 0))], K (JNum 8)])), Do (SetV 9 (K (JNum 1))), Loop (Bin Lt (V 9) (Dot (Dot (V 22) ''c'') ''length'')) [Do (SetV 18 (Call ''JD'' [Call ''dmb'' [V 22, Cond (V 2) (Bin Minus (Bin Minus (Dot (Dot (V 22) ''c'') ''length'') (K (JNum 1))) (V 9)) (V 9)], K (JNum 8)])), Do (SetV 4 (Call ''Ztb'' [V 3, K (JNum 0)])), Loop (Neg (Loose (Dot (V 4) ''b'') (Dot (Dot (V 4) ''d'') ''c''))) [Do (SetV 16 (Call ''JD'' [Call ''lub'' [V 4], K (JNum 170)])), Do (SetV 15 (Call ''JD'' [Call ''Wd'' [Call ''ysb'' [Dot (V 20) ''f'', V 16]], K (JNum 13)])), When (Bin Le (Dot (Dot (V 15) ''c'') ''length'') (V 9)) [Do (Call ''nub'' [V 4])] [Do (SetV 19 (Call ''Vfd'' [New ''mgd'' [Call ''JD'' [Call ''dmb'' [V 15, Cond (V 2) (Bin Minus (Bin Minus (Dot (Dot (V 15) ''c'') ''length'') (K (JNum 1))) (V 9)) (V 9)], K (JNum 8)]], Call ''JD'' [Call ''Wd'' [Call ''ysb'' [Dot (V 12) ''f'', V 16]], K (JNum 8)]])), When (Or (Neg (Loose (Dot (V 18) ''a'') (Dot (V 19) ''a''))) (Neg (Loose (Dot (V 18) ''b'') (Dot (V 19) ''b'')))) [Do (SetV 5 (Bin Minus (Dot (V 18) ''a'') (Dot (V 17) ''a''))), Do (SetV 7 (Bin Minus (Dot (V 18) ''b'') (Dot (V 17) ''b''))), Do (SetV 6 (Bin Minus (Dot (V 19) ''a'') (Dot (V 17) ''a''))), Do (SetV 8 (Bin Minus (Dot (V 19) ''b'') (Dot (V 17) ''b''))), Do (Cond (And (And (Loose (Bin Times (V 6) (V 7)) (Bin Times (V 8) (V 5))) (Loose (Cond (Or (Loose (V 5) (K (JNum 0))) (Call ''isNaN'' [V 5])) (V 5) (Cond (Bin Lt (V 5) (K (JNum 0))) (K (JNum (- 1))) (K (JNum 1)))) (Cond (Or (Loose (V 6) (K (JNum 0))) (Call ''isNaN'' [V 6])) (V 6) (Cond (Bin Lt (V 6) (K (JNum 0))) (K (JNum (- 1))) (K (JNum 1)))))) (Loose (Cond (Or (Loose (V 7) (K (JNum 0))) (Call ''isNaN'' [V 7])) (V 7) (Cond (Bin Lt (V 7) (K (JNum 0))) (K (JNum (- 1))) (K (JNum 1)))) (Cond (Or (Loose (V 8) (K (JNum 0))) (Call ''isNaN'' [V 8])) (V 8) (Cond (Bin Lt (V 8) (K (JNum 0))) (K (JNum (- 1))) (K (JNum 1)))))) (And (Or (Bin Lt (Meth (Dot (G ''$wnd'') ''Math'') ''abs'' [V 5]) (Meth (Dot (G ''$wnd'') ''Math'') ''abs'' [V 6])) (Bin Lt (Meth (Dot (G ''$wnd'') ''Math'') ''abs'' [V 7]) (Meth (Dot (G ''$wnd'') ''Math'') ''abs'' [V 8]))) (Seq (Call ''Wtb'' [V 10, V 18, Dot (Dot (V 10) ''c'') ''b'', Dot (V 10) ''c'']) (K (JBool True)))) (And (Bin Gt (V 9) (K (JNum 1))) (Seq (Call ''Wtb'' [V 10, V 17, Dot (Dot (V 10) ''c'') ''b'', Dot (V 10) ''c'']) (K (JBool True))))), Do (Call ''nub'' [V 4])] []]] [], Do (SetV 17 (V 18))] [Do (Bin Minus (SetV 9 (Bin Minus (V 9) (K (JNum (- 1))))) (K (JNum 1)))]] [], Ret (V 10)],
    fn ''FQb'' 1 5 [Do (SetV 2 (Call ''JD'' [Call ''oNb'' [V 0, Seq (Call ''Wrc'' []) (G ''brc'')], K (JNum 22)])), Do (SetV 1 (Call ''qcd'' [G ''AQb''])), Do (SetV 4 (Call ''JD'' [Call ''oNb'' [V 0, Seq (Call ''nyc'' []) (G ''swc'')], K (JNum 347)])), Do (And (Loose (V 4) (Seq (Call ''Qkd'' []) (G ''Nkd''))) (Call ''jcd'' [V 1, G ''BQb''])), Do (Cond (Call ''Rdb'' [Call ''LD'' [Call ''oNb'' [V 0, G ''qwc'']]]) (Call ''kcd'' [V 1, Seq (Call ''YQb'' []) (G ''TQb''), Seq (Call ''X5b'' []) (G ''N5b'')]) (Call ''kcd'' [V 1, Seq (Call ''YQb'' []) (G ''VQb''), Seq (Call ''X5b'' []) (G ''N5b'')])), Do (And (Neg (Loose (Call ''oNb'' [V 0, Seq (Call ''ofd'' []) (G ''nfd'')]) (K JNull))) (Call ''jcd'' [V 1, G ''CQb''])), Do (And (Or (Call ''Rdb'' [Call ''LD'' [Call ''oNb'' [V 0, G ''zwc'']]]) (Call ''Rdb'' [Call ''LD'' [Call ''oNb'' [V 0, G ''rwc'']]])) (Call ''icd'' [V 1, Seq (Call ''YQb'' []) (G ''XQb''), Seq (Call ''X5b'' []) (G ''$4b'')])), Switch (Dot (Call ''JD'' [Call ''oNb'' [V 0, G ''bwc''], K (JNum 86)]) ''g'') [(Some (JNum 2), []), (Some (JNum 3), []), (Some (JNum 4), [Do (Call ''icd'' [Call ''kcd'' [V 1, Seq (Call ''YQb'' []) (G ''TQb''), Seq (Call ''X5b'' []) (G ''a5b'')], G ''XQb'', G ''_4b''])])], Do (And (Meth (V 2) ''Gc'' [Seq (Call ''Xpc'' []) (G ''Opc'')]) (Call ''icd'' [Call ''kcd'' [Call ''kcd'' [V 1, Seq (Call ''YQb'' []) (G ''TQb''), Seq (Call ''X5b'' []) (G ''Z4b'')], G ''WQb'', G ''X4b''], G ''XQb'', G ''Y4b''])), Do (And (Neg (Same (Call ''XD'' [Call ''oNb'' [V 0, G ''Jwc'']]) (Call ''XD'' [Seq (Call ''Rzc'' []) (G ''Pzc'')]))) (Call ''kcd'' [V 1, Seq (Call ''YQb'' []) (G ''VQb''), Seq (Call ''X5b'' []) (G ''F5b'')])), When (Meth (V 2) ''Gc'' [G ''Vpc'']) [Do (Call ''kcd'' [V 1, Seq (Call ''YQb'' []) (G ''TQb''), Seq (Call ''X5b'' []) (G ''L5b'')]), Do (Call ''kcd'' [V 1, G ''UQb'', G ''J5b'']), Do (Call ''kcd'' [V 1, G ''VQb'', G ''K5b''])] [], Do (And (And (Neg (Same (Call ''XD'' [Call ''oNb'' [V 0, G ''zvc'']]) (Call ''XD'' [Seq (Call ''Hpc'' []) (G ''Fpc'')]))) (Neg (Same (Call ''XD'' [Call ''oNb'' [V 0, G ''iwc'']]) (Call ''XD'' [Seq (Call ''hkd'' []) (G ''ekd'')])))) (Call ''icd'' [V 1, Seq (Call ''YQb'' []) (G ''XQb''), Seq (Call ''X5b'' []) (G ''n5b'')])), Do (And (Call ''Rdb'' [Call ''LD'' [Call ''oNb'' [V 0, G ''uwc'']]]) (Call ''kcd'' [V 1, Seq (Call ''YQb'' []) (G ''VQb''), Seq (Call ''X5b'' []) (G ''m5b'')])), Do (And (Call ''Rdb'' [Call ''LD'' [Call ''oNb'' [V 0, G ''Zvc'']]]) (Call ''kcd'' [V 1, Seq (Call ''YQb'' []) (G ''VQb''), Seq (Call ''X5b'' []) (G ''T5b'')])), When (Call ''IQb'' [V 0]) [Do (Cond (Same (Call ''XD'' [Call ''oNb'' [V 0, G ''swc'']]) (Call ''XD'' [G ''Nkd''])) (SetV 3 (Call ''JD'' [Call ''oNb'' [V 0, G ''Svc''], K (JNum 302)])) (SetV 3 (Call ''JD'' [Call ''oNb'' [V 0, G ''Tvc''], K (JNum 302)]))), Do (SetV 5 (Cond (Loose (V 3) (Seq (Call ''eqc'' []) (G ''cqc''))) (Seq (Call ''X5b'' []) (G ''I5b'')) (Seq (Call ''X5b'' []) (G ''W5b'')))), Do (Call ''kcd'' [V 1, Seq (Call ''YQb'' []) (G ''WQb''), V 5])] [], Do (And (Loose (Dot (Call ''JD'' [Call ''oNb'' [V 0, G ''Owc''], K (JNum 423)]) ''g'') (K (JNum 1))) (Call ''kcd'' [V 1, Seq (Call ''YQb'' []) (G ''WQb''), Seq (Call ''X5b'' []) (G ''S4b'')])), Switch (Dot (Call ''JD'' [Call ''oNb'' [V 0, G ''kyc''], K (JNum 382)]) ''g'') [(Some (JNum 1), [Do (Call ''kcd'' [V 1, Seq (Call ''YQb'' []) (G ''WQb''), Seq (Call ''X5b'' []) (G ''U5b'')]), Break]), (Some (JNum 2), [Do (Call ''icd'' [Call ''kcd'' [Call ''kcd'' [V 1, Seq (Call ''YQb'' []) (G ''VQb''), Seq (Call ''X5b'' []) (G ''T4b'')], G ''WQb'', G ''U4b''], G ''XQb'', G ''V4b''])])], Do (And (Neg (Same (Call ''XD'' [Call ''oNb'' [V 0, G ''Ovc'']]) (Call ''XD'' [Seq (Call ''_zc'' []) (G ''Yzc'')]))) (Call ''kcd'' [V 1, Seq (Call ''YQb'' []) (G ''VQb''), Seq (Call ''X5b'' []) (G ''V5b'')])), Do (And (And (Call ''RBb'' [New ''jCb'' [K JNull, New ''Zvb'' [Dot (V 0) ''a'', K (JNum 16)]], New ''PQb'' []]) (Call ''pNb'' [V 0, G ''$wc''])) (Call ''icd'' [V 1, Seq (Call ''YQb'' []) (G ''WQb''), Seq (Call ''X5b'' []) (G ''E5b'')])), Ret (V 1)],
    fn ''BYc'' 3 24 [Do (Meth (V 2) ''Tg'' [G ''cDe'', K (JNum 1)]), Do (SetV 26 (Call ''JD'' [Call ''SBb'' [Call ''VBb'' [New ''jCb'' [K JNull, New ''Zvb'' [V 1, K (JNum 16)]], New ''PYc'' []], Call ''BAb'' [New ''TAb'' [], New ''RAb'' [], New ''ZAb'' [], Call ''WC'' [Call ''OC'' [G ''HL'', K (JNum 1)], G ''xue'', K (JNum 130), K (JNum 0), NewArr [Seq (Call ''FAb'' []) (G ''DAb'')]]]], K (JNum 16)])), Do (SetV 10 (Call ''JD'' [Call ''SBb'' [Call ''VBb'' [New ''jCb'' [K JNull, New ''Zvb'' [V 1, K (JNum 16)]], New ''RYc'' [V 1]], Call ''BAb'' [New ''TAb'' [], New ''RAb'' [], New ''ZAb'' [], Call ''WC'' [Call ''OC'' [G ''HL'', K (JNum 1)], G ''xue'', K (JNum 130), K (JNum 0), NewArr [G ''DAb'']]]], K (JNum 16)])), Do (SetV 14 (Call ''JD'' [Call ''SBb'' [Call ''VBb'' [New ''jCb'' [K JNull, New ''Zvb'' [V 1, K (JNum 16)]], New ''TYc'' [V 1]], Call ''BAb'' [New ''TAb'' [], New ''RAb'' [], New ''ZAb'' [], Call ''WC'' [Call ''OC'' [G ''HL'', K (JNum 1)], G ''xue'', K (JNum 130), K (JNum 0), NewArr [G ''DAb'']]]], K (JNum 16)])), Do (SetV 15 (Call ''SC'' [G ''b$'', G ''QCe'', K (JNum 40), Meth (V 1) ''gc'' [], K (JNum 0), K (JNum 1)])), Do (SetV 6 (K (JNum 0))), Loop (Bin Lt (V 6) (Meth (V 10) ''gc'' [])) [Do (SetV 4 (Call ''JD'' [Meth (V 10) ''Xb'' [V 6], K (JNum 40)])), Do (SetV 25 (Dot (Call ''JD'' [Call ''oNb'' [V 4, Seq (Call ''SXc'' []) (G ''FXc'')], K (JNum 15)]) ''a'')), When (And (And (Bin Ge (V 25) (K (JNum 0))) (Bin Lt (V 25) (Meth (V 10) ''gc'' []))) (Neg (Idx (V 15) (V 25)))) [Do (PutIdx (V 15) (V 25) (V 4)), Do (Meth (V 10) ''ed'' [V 6]), Do (SetV 6 (Bin Minus (V 6) (K (JNum 1))))] []] [Do (Bin Minus (SetV 6 (Bin Minus (V 6) (K (JNum (- 1))))) (K (JNum 1)))], Do (SetV 7 (K (JNum 0))), Loop (Bin Lt (V 7) (Meth (V 10) ''gc'' [])) [Do (SetV 4 (Call ''JD'' [Meth (V 10) ''Xb'' [V 7], K (JNum 40)])), Do (SetV 25 (Dot (Call ''JD'' [Call ''oNb'' [V 4, Seq (Call ''SXc'' []) (G ''FXc'')], K (JNum 15)]) ''a'')), Do (SetV 12 (K (JNum 0))), Loop (K (JBool True)) [Do (SetV 13 (Bin Plus (V 25) (V 12))), When (And (And (Bin Lt (V 13) (Dot (V 15) ''length'')) (Bin Ge (V 13) (K (JNum 0)))) (Neg (Idx (V 15) (V 13)))) [Do (PutIdx (V 15) (V 13) (V 4)), Do (Meth (V 10) ''ed'' [V 7]), Do (SetV 7 (Bin Minus (V 7) (K (JNum 1)))), Break] [], Do (SetV 13 (Bin Minus (V 25) (V 12))), When (And (And (Bin Lt (V 13) (Dot (V 15) ''length'')) (Bin Ge (V 13) (K (JNum 0)))) (Neg (Idx (V 15) (V 13)))) [Do (PutIdx (V 15) (V 13) (V 4)), Do (Meth (V 10) ''ed'' [V 7]), Do (SetV 7 (Bin Minus (V 7) (K (JNum 1)))), Break] []] [Do (Bin Minus (SetV 12 (Bin Minus (V 12) (K (JNum (- 1))))) (K (JNum 1)))]] [Do (Bin Minus (SetV 7 (Bin Minus (V 7) (K (JNum (- 1))))) (K (JNum 1)))], Do (Meth (V 14) ''gd'' [New ''VYc'' []]), Do (SetV 8 (Bin Minus (Dot (V 15) ''length'') (K (JNum 1)))), Loop (Bin Ge (V 8) (K (JNum 0))) [When (And (Neg (Idx (V 15) (V 8))) (Neg (Meth (V 14) ''dc'' []))) [Do (PutIdx (V 15) (V 8) (Call ''JD'' [Meth (V 14) ''Xb'' [K (JNum 0)], K (JNum 40)])), Do (Meth (V 14) ''ed'' [K (JNum 0)])] []] [Do (Bin Minus (SetV 8 (Bin Minus (V 8) (K (JNum 1)))) (K (JNum (- 1))))], Do (SetV 9 (K (JNum 0))), Loop (Bin Lt (V 9) (Dot (V 15) ''length'')) [When (And (Neg (Idx (V 15) (V 9))) (Neg (Meth (V 26) ''dc'' []))) [Do (PutIdx (V 15) (V 9) (Call ''JD'' [Meth (V 26) ''Xb'' [K (JNum 0)], K (JNum 40)])), Do (Meth (V 26) ''ed'' [K (JNum 0)])] []] [Do (Bin Minus (SetV 9 (Bin Minus (V 9) (K (JNum (- 1))))) (K (JNum 1)))], Do (SetV 5 (K (JNum 0))), Loop (Bin Lt (V 5) (Dot (V 15) ''length'')) [Do (Call ''rNb'' [Idx (V 15) (V 5), Seq (Call ''_Wc'' []) (G ''TWc''), Call ''Cfb'' [V 5]])] [Do (Bin Minus (SetV 5 (Bin Minus (V 5) (K (JNum (- 1))))) (K (JNum 1)))], Do (SetV 11 (Call ''JD'' [Call ''iCb'' [Call ''VBb'' [New ''jCb'' [K JNull, New ''Zvb'' [V 1, K (JNum 16)]], New ''ZYc'' []], New ''LYc'' []], K (JNum 523)])), Do (Seq (Seq (SetV 22 (V 11)) (SetV 23 (K (JNum 0)))) (SetV 24 (Dot (V 22) ''length''))), Loop (Bin Lt (V 23) (V 24)) [Do (SetV 21 (Idx (V 22) (V 23))), Do (SetV 3 (Call ''JTc'' [V 21])), Do (Call ''BYc'' [V 0, V 3, Meth (V 2) ''dh'' [Bin DivInt (K (JNum 1)) (Dot (V 11) ''length'')]]), Do (Call ''Inb'' []), Do (Call ''Bub'' [V 3, New ''NEd'' [Seq (Call ''_Wc'' []) (G ''TWc'')]]), Do (SetV 16 (New ''dub'' [])), Do (SetV 20 (Call ''Ztb'' [V 3, K (JNum 0)])), Loop (Neg (Loose (Dot (V 20) ''b'') (Dot (Dot (V 20) ''d'') ''c''))) [Do (SetV 19 (Call ''JD'' [Call ''lub'' [V 20], K (JNum 40)])), Do (SetV 18 (Call ''Ztb'' [Dot (V 21) ''d'', K (JNum 0)])), Loop (Neg (Loose (Dot (V 18) ''b'') (Dot (Dot (V 18) ''d'') ''c''))) [Do (SetV 17 (Call ''JD'' [Call ''lub'' [V 18], K (JNum 65)])), Do (And (Loose (Dot (V 17) ''c'') (V 19)) (Seq (Call ''Wtb'' [V 16, V 17, Dot (Dot (V 16) ''c'') ''b'', Dot (V 16) ''c'']) (K (JBool True))))] []] [], Do (Call ''cub'' [Dot (V 21) ''d'']), Do (Call ''xe'' [Dot (V 21) ''d'', V 16])] [Do (SetV 23 (Bin Minus (V 23) (K (JNum (- 1)))))], Do (Meth (V 2) ''Ug'' [])]]"

definition code_6271_6273 :: "(string \<times> jfun) list" where
  "code_6271_6273 = [
    fn ''g6c'' 3 18 [Do (SetV 19 (Call ''Ueb'' [Call ''MD'' [Call ''cvd'' [V 1, Seq (Call ''P3c'' []) (G ''O3c'')]]])), Do (SetV 13 (Call ''Ueb'' [Call ''MD'' [Call ''cvd'' [V 1, G ''M3c'']]])), Do (SetV 12 (Call ''Ueb'' [Call ''MD'' [Call ''cvd'' [V 1, G ''J3c'']]])), Do (Call ''x7c'' [Seq (And (Neg (Dot (V 1) ''a'')) (Put (V 1) ''a'' (New ''P3d'' [G ''T3'', V 1, K (JNum 10), K (JNum 11)]))) (Dot (V 1) ''a'')]), Do (SetV 17 (Call ''P5c'' [Seq (And (Neg (Dot (V 1) ''a'')) (Put (V 1) ''a'' (New ''P3d'' [G ''T3'', V 1, K (JNum 10), K (JNum 11)]))) (Dot (V 1) ''a''), V 19, Dot (V 0) ''b''])), Do (SetV 16 (K (JNum 0))), Loop (Bin Lt (V 16) (Dot (Dot (V 17) ''c'') ''length'')) [Do (SetV 8 (Seq (Call ''MDb'' [V 16, Dot (Dot (V 17) ''c'') ''length'']) (Call ''JD'' [Idx (Dot (V 17) ''c'') (V 16), K (JNum 186)]))), When (Neg (Loose (V 16) (K (JNum 0)))) [Do (SetV 14 (Seq (Call ''MDb'' [Bin Minus (V 16) (K (JNum 1)), Dot (Dot (V 17) ''c'') ''length'']) (Call ''JD'' [Idx (Dot (V 17) ''c'') (Bin Minus (V 16) (K (JNum 1))), K (JNum 186)]))), Do (Call ''C7c'' [V 8, Bin Plus (Bin Plus (Dot (V 14) ''f'') (Dot (V 14) ''b'')) (Dot (V 0) ''b'')])] [], Do (SetV 15 (Call ''E5c'' [V 16, V 17, V 19, Dot (V 0) ''b'', Call ''Rdb'' [Call ''LD'' [Call ''cvd'' [V 1, Seq (Call ''S4c'' []) (G ''G4c'')]]]])), When (Call ''Rdb'' [Call ''LD'' [Dot (V 15) ''b'']]) [Do (SetV 5 (New ''Kmb'' [Dot (V 8) ''a''])), Loop (Bin Lt (Dot (V 5) ''a'') (Dot (Dot (Dot (V 5) ''c'') ''c'') ''length'')) [Do (SetV 4 (Call ''JD'' [Call ''Imb'' [V 5], K (JNum 173)])), Do (Put (V 4) ''c'' (K (JBool False))), Do (Put (V 4) ''k'' (K (JBool False))), Do (Call ''J6c'' [V 4])] [], Do (Put (V 8) ''d'' (New ''lmb'' [])), Do (Put (V 8) ''e'' (V 19)), Do (SetV 16 (Bin Minus (V 16) (K (JNum 1))))] [Do (Call ''f6c'' [V 0, V 8]), When (Bin Lt (Bin Plus (V 16) (K (JNum 1))) (Dot (Dot (V 17) ''c'') ''length'')) [Do (Put (V 0) ''e'' (Meth (Dot (G ''$wnd'') ''Math'') ''max'' [Bin Minus (Bin Plus (Bin Plus (Dot (V 8) ''e'') (Dot (V 0) ''b'')) (Dot (Call ''JD'' [Call ''dmb'' [Dot (Seq (Call ''MDb'' [Bin Plus (V 16) (K (JNum 1)), Dot (Dot (V 17) ''c'') ''length'']) (Call ''JD'' [Idx (Dot (V 17) ''c'') (Bin Plus (V 16) (K (JNum 1))), K (JNum 186)])) ''a'', K (JNum 0)], K (JNum 173)]) ''r'')) (V 19), Dot (V 0) ''c''])), Do (Put (V 0) ''f'' (Meth (Dot (G ''$wnd'') ''Math'') ''min'' [Bin Minus (Bin Plus (Bin Plus (Dot (V 8) ''e'') (Dot (V 0) ''b'')) (Dot (Call ''JD'' [Call ''dmb'' [Dot (Seq (Call ''MDb'' [Bin Plus (V 16) (K (JNum 1)), Dot (Dot (V 17) ''c'') ''length'']) (Call ''JD'' [Idx (Dot (V 17) ''c'') (Bin Plus (V 16) (K (JNum 1))), K (JNum 186)])) ''a'', K (JNum 0)], K (JNum 173)]) ''r'')) (V 19), Dot (V 0) ''d''])), When (Neg (Loose (Dot (Dot (Dot (V 8) ''d'') ''c'') ''length'') (K (JNum 0)))) [Do (Put (V 0) ''c'' (Meth (Dot (G ''$wnd'') ''Math'') ''max'' [Dot (V 0) ''c'', Bin Plus (Dot (Call ''JD'' [Call ''dmb'' [Dot (V 8) ''d'', Bin Minus (Dot (Dot (Dot (V 8) ''d'') ''c'') ''length'') (K (JNum 1))], K (JNum 320)]) ''d'') (Cond (Bin Le (Dot (Dot (Dot (V 8) ''d'') ''c'') ''length'') (K (JNum 1))) (K (JNum 0)) (Dot (V 0) ''b''))])), Do (Put (V 0) ''d'' (Meth (Dot (G ''$wnd'') ''Math'') ''min'' [Dot (V 0) ''c'', Bin Plus (Dot (Call ''JD'' [Call ''dmb'' [Dot (V 8) ''d'', Bin Minus (Dot (Dot (Dot (V 8) ''d'') ''c'') ''length'') (K (JNum 1))], K (JNum 320)]) ''d'') (Cond (Bin Le (Dot (Dot (Dot (V 8) ''d'') ''c'') ''length'') (K (JNum 1))) (K (JNum 0)) (Dot (V 0) ''b''))]))] []] [], When (Loose (Dot (Dot (V 17) ''c'') ''length'') (K (JNum 1))) [Do (SetV 11 (Call ''JD'' [Call ''dmb'' [Dot (V 8) ''d'', Bin Minus (Dot (Dot (Dot (V 8) ''d'') ''c'') ''length'') (K (JNum 1))], K (JNum 320)])), Do (SetV 10 (Call ''JD'' [Call ''dmb'' [Dot (V 11) ''a'', Bin Minus (Dot (Dot (Dot (V 11) ''a'') ''c'') ''length'') (K (JNum 1))], K (JNum 173)])), Do (SetV 7 (New ''Kmb'' [Dot (V 10) ''n''])), Loop (Bin Lt (Dot (V 7) ''a'') (Dot (Dot (Dot (V 7) ''c'') ''c'') ''length'')) [Do (SetV 6 (Call ''JD'' [Call ''Imb'' [V 7], K (JNum 208)])), Do (Put (V 0) ''c'' (Meth (Dot (G ''$wnd'') ''Math'') ''max'' [Dot (V 0) ''c'', Bin Minus (Dot (V 10) ''r'') (Dot (V 6) ''d'')])), Do (Put (V 0) ''d'' (Meth (Dot (G ''$wnd'') ''Math'') ''min'' [Dot (V 0) ''d'', Bin Minus (Dot (V 10) ''r'') (Dot (V 6) ''d'')])), Do (Put (V 0) ''e'' (Meth (Dot (G ''$wnd'') ''Math'') ''max'' [Dot (V 0) ''e'', Bin Plus (Dot (V 6) ''d'') (Dot (V 0) ''b'')])), Do (Put (V 0) ''f'' (Meth (Dot (G ''$wnd'') ''Math'') ''min'' [Dot (V 0) ''f'', Bin Plus (Dot (V 6) ''d'') (Dot (V 0) ''b'')]))] []] []]] [Do (Bin Minus (SetV 16 (Bin Minus (V 16) (K (JNum (- 1))))) (K (JNum 1)))], Do (SetV 18 (Call ''v7c'' [V 17, Dot (V 0) ''b''])), Do (SetV 20 (Meth (Dot (G ''$wnd'') ''Math'') ''max'' [Dot (V 18) ''a'', Bin Minus (V 13) (Bin Plus (Dot (V 2) ''b'') (Dot (V 2) ''c''))])), Do (SetV 9 (Meth (Dot (G ''$wnd'') ''Math'') ''max'' [Dot (V 18) ''b'', Bin Minus (V 12) (Bin Plus (Dot (V 2) ''d'') (Dot (V 2) ''a''))])), Do (SetV 3 (Bin Minus (V 9) (Dot (V 18) ''b''))), Do (Call ''evd'' [V 1, G ''E3c'', V 3]), Do (Call ''evd'' [V 1, G ''N3c'', V 17]), Ret (New ''h7c'' [Dot (V 0) ''a'', V 20, Bin Plus (Dot (V 18) ''b'') (V 3), Seq (Call ''o7c'' []) (G ''n7c'')])],
    fn ''S2b'' 1 28 [Do (SetV 23 (Call ''JD'' [Call ''oNb'' [V 0, Seq (Call ''nyc'' []) (G ''qxc'')], K (JNum 102)])), When (Neg (And (Neg (Loose (V 23) (Seq (Call ''Mld'' []) (G ''Kld'')))) (Neg (Loose (V 23) (G ''Lld''))))) [Ret (K JUndef)] [], Do (SetV 14 (Dot (V 0) ''b'')), Do (SetV 13 (Dot (Dot (V 14) ''c'') ''length'')), Do (SetV 10 (New ''mmb'' [Seq (Call ''bk'' [Bin Plus (V 13) (K (JNum 2)), G ''zue'']) (Call ''Xy'' [Call ''Mcb'' [Call ''Mcb'' [K (JNum 5), Bin Plus (V 13) (K (JNum 2))], Bin DivInt (Bin Plus (V 13) (K (JNum 2))) (K (JNum 10))]])])), Do (SetV 15 (New ''mmb'' [Seq (Call ''bk'' [Bin Plus (V 13) (K (JNum 2)), G ''zue'']) (Call ''Xy'' [Call ''Mcb'' [Call ''Mcb'' [K (JNum 5), Bin Plus (V 13) (K (JNum 2))], Bin DivInt (Bin Plus (V 13) (K (JNum 2))) (K (JNum 10))]])])), Do (Call ''_lb'' [V 10, New ''_rb'' []]), Do (Call ''_lb'' [V 10, New ''_rb'' []]), Do (Call ''_lb'' [V 15, New ''lmb'' []]), Do (Call ''_lb'' [V 15, New ''lmb'' []]), Do (SetV 22 (New ''lmb'' [])), Do (SetV 1 (K (JNum 0))), Loop (Bin Lt (V 1) (V 13)) [Do (SetV 2 (Seq (Call ''MDb'' [V 1, Dot (Dot (V 14) ''c'') ''length'']) (Call ''JD'' [Idx (Dot (V 14) ''c'') (V 1), K (JNum 25)]))), Do (SetV 24 (Seq (Call ''MDb'' [V 1, Dot (Dot (V 10) ''c'') ''length'']) (Call ''JD'' [Idx (Dot (V 10) ''c'') (V 1), K (JNum 92)]))), Do (SetV 16 (New ''_rb'' [])), Do (Call ''qDb'' [Dot (V 10) ''c'', V 16]), Do (SetV 26 (Seq (Call ''MDb'' [V 1, Dot (Dot (V 15) ''c'') ''length'']) (Call ''JD'' [Idx (Dot (V 15) ''c'') (V 1), K (JNum 16)]))), Do (SetV 18 (New ''lmb'' [])), Do (Call ''qDb'' [Dot (V 15) ''c'', V 18]), Do (SetV 4 (New ''Kmb'' [Dot (V 2) ''a''])), Loop (Bin Lt (Dot (V 4) ''a'') (Dot (Dot (Dot (V 4) ''c'') ''c'') ''length'')) [Do (SetV 3 (Call ''JD'' [Call ''Imb'' [V 4], K (JNum 9)])), When (Call ''O2b'' [V 3]) [Do (Call ''qDb'' [Dot (V 22) ''c'', V 3]), Continue] [], Do (SetV 9 (New ''Yr'' [Call ''Dr'' [Meth (Dot (Call ''EYb'' [V 3]) ''a'') ''Jc'' [], New ''Dl'' []]])), Loop (Call ''Wr'' [V 9]) [Do (SetV 7 (Call ''JD'' [Call ''Xr'' [V 9], K (JNum 17)])), Do (SetV 27 (Dot (Dot (V 7) ''c'') ''i'')), When (Neg (Call ''O2b'' [V 27])) [Continue] [], Do (SetV 25 (Call ''JD'' [Meth (V 24) ''xc'' [Call ''oNb'' [V 27, Seq (Call ''Wrc'' []) (G ''urc'')]], K (JNum 9)])), When (Neg (V 25)) [Do (SetV 25 (Call ''N2b'' [V 0, V 27])), Do (Meth (V 24) ''yc'' [Call ''oNb'' [V 27, G ''urc''], V 25]), Do (Meth (V 26) ''Ec'' [V 25])] [], Do (Call ''CWb'' [V 7, Call ''JD'' [Call ''dmb'' [Dot (V 25) ''j'', K (JNum 1)], K (JNum 12)]])] [], Do (SetV 8 (New ''Yr'' [Call ''Dr'' [Meth (Dot (Call ''HYb'' [V 3]) ''a'') ''Jc'' [], New ''Dl'' []]])), Loop (Call ''Wr'' [V 8]) [Do (SetV 7 (Call ''JD'' [Call ''Xr'' [V 8], K (JNum 17)])), Do (SetV 28 (Dot (Dot (V 7) ''d'') ''i'')), When (Neg (Call ''O2b'' [V 28])) [Continue] [], Do (SetV 17 (Call ''JD'' [Call ''ejb'' [V 16, Call ''oNb'' [V 28, Seq (Call ''Wrc'' []) (G ''urc'')]], K (JNum 9)])), When (Neg (V 17)) [Do (SetV 17 (Call ''N2b'' [V 0, V 28])), Do (Call ''hjb'' [V 16, Call ''oNb'' [V 28, G ''urc''], V 17]), Do (Call ''qDb'' [Dot (V 18) ''c'', V 17])] [], Do (Call ''DWb'' [V 7, Call ''JD'' [Call ''dmb'' [Dot (V 17) ''j'', K (JNum 0)], K (JNum 12)]])] []] []] [Do (Bin Minus (SetV 1 (Bin Minus (V 1) (K (JNum (- 1))))) (K (JNum 1)))], Do (SetV 11 (K (JNum 0))), Loop (Bin Lt (V 11) (Dot (Dot (V 15) ''c'') ''length'')) [Do (SetV 19 (Seq (Call ''MDb'' [V 11, Dot (Dot (V 15) ''c'') ''length'']) (Call ''JD'' [Idx (Dot (V 15) ''c'') (V 11), K (JNum 16)]))), When (Meth (V 19) ''dc'' []) [Continue] [], Do (SetV 12 (K JNull)), When (Loose (V 11) (K (JNum 0))) [Do (SetV 12 (New ''y$b'' [V 0])), Do (Call ''PDb'' [K (JNum 0), Dot (Dot (V 14) ''c'') ''length'']), Do (Call ''oDb'' [Dot (V 14) ''c'', K (JNum 0), V 12])] [When (Loose (V 11) (Bin Minus (Dot (Dot (V 10) ''c'') ''length'') (K (JNum 1)))) [Do (SetV 12 (New ''y$b'' [V 0])), Do (Call ''qDb'' [Dot (V 14) ''c'', V 12])] [Do (SetV 12 (Seq (Call ''MDb'' [Bin Minus (V 11) (K (JNum 1)), Dot (Dot (V 14) ''c'') ''length'']) (Call ''JD'' [Idx (Dot (V 14) ''c'') (Bin Minus (V 11) (K (JNum 1))), K (JNum 25)])))]], Do (SetV 6 (Meth (V 19) ''Jc'' [])), Loop (Meth (V 6) ''Ob'' []) [Do (SetV 5 (Call ''JD'' [Meth (V 6) ''Pb'' [], K (JNum 9)])), Do (Call ''NYb'' [V 5, V 12])] []] [Do (Bin Minus (SetV 11 (Bin Minus (V 11) (K (JNum (- 1))))) (K (JNum 1)))], Do (SetV 21 (New ''Kmb'' [V 22])), Loop (Bin Lt (Dot (V 21) ''a'') (Dot (Dot (Dot (V 21) ''c'') ''c'') ''length'')) [Do (SetV 20 (Call ''JD'' [Call ''Imb'' [V 21], K (JNum 9)])), Do (Call ''NYb'' [V 20, K JNull])] [], Do (Call ''rNb'' [V 0, Seq (Call ''Wrc'' []) (G ''Yqc''), V 22])],
    fn ''BKc'' 2 31 [Do (SetV 30 (New ''lmb'' [])), Do (SetV 14 (New ''Kmb'' [Dot (V 1) ''b''])), Loop (Bin Lt (Dot (V 14) ''a'') (Dot (Dot (Dot (V 14) ''c'') ''c'') ''length'')) [Do (SetV 12 (Call ''JD'' [Call ''Imb'' [V 14], K (JNum 25)])), Do (SetV 21 (New ''Kmb'' [Dot (V 12) ''a''])), Loop (Bin Lt (Dot (V 21) ''a'') (Dot (Dot (Dot (V 21) ''c'') ''c'') ''length'')) [Do (SetV 20 (Call ''JD'' [Call ''Imb'' [V 21], K (JNum 9)])), Do (Put (V 20) ''p'' (K (JNum (- 1)))), Do (SetV 11 (G ''Eue'')), Do (SetV 24 (G ''Eue'')), Do (SetV 26 (New ''Kmb'' [Dot (V 20) ''j''])), Loop (Bin Lt (Dot (V 26) ''a'') (Dot (Dot (Dot (V 26) ''c'') ''c'') ''length'')) [Do (SetV 25 (Call ''JD'' [Call ''Imb'' [V 26], K (JNum 12)])), Do (SetV 4 (New ''Kmb'' [Dot (V 25) ''e''])), Loop (Bin Lt (Dot (V 4) ''a'') (Dot (Dot (Dot (V 4) ''c'') ''c'') ''length'')) [Do (SetV 2 (Call ''JD'' [Call ''Imb'' [V 4], K (JNum 17)])), Do (SetV 27 (Dot (Call ''JD'' [Call ''oNb'' [V 2, Seq (Call ''nyc'' []) (G ''Bxc'')], K (JNum 15)]) ''a'')), Do (SetV 11 (Meth (Dot (G ''$wnd'') ''Math'') ''max'' [V 11, V 27]))] [], Do (SetV 3 (New ''Kmb'' [Dot (V 25) ''g''])), Loop (Bin Lt (Dot (V 3) ''a'') (Dot (Dot (Dot (V 3) ''c'') ''c'') ''length'')) [Do (SetV 2 (Call ''JD'' [Call ''Imb'' [V 3], K (JNum 17)])), Do (SetV 27 (Dot (Call ''JD'' [Call ''oNb'' [V 2, Seq (Call ''nyc'' []) (G ''Bxc'')], K (JNum 15)]) ''a'')), Do (SetV 24 (Meth (Dot (G ''$wnd'') ''Math'') ''max'' [V 24, V 27]))] []] [], Do (Call ''rNb'' [V 20, G ''qKc'', Call ''Cfb'' [V 11]]), Do (Call ''rNb'' [V 20, G ''rKc'', Call ''Cfb'' [V 24]])] []] [], Do (SetV 17 (K (JNum 0))), Do (SetV 13 (New ''Kmb'' [Dot (V 1) ''b''])), Loop (Bin Lt (Dot (V 13) ''a'') (Dot (Dot (Dot (V 13) ''c'') ''c'') ''length'')) [Do (SetV 12 (Call ''JD'' [Call ''Imb'' [V 13], K (JNum 25)])), Do (SetV 21 (New ''Kmb'' [Dot (V 12) ''a''])), Loop (Bin Lt (Dot (V 21) ''a'') (Dot (Dot (Dot (V 21) ''c'') ''c'') ''length'')) [Do (SetV 20 (Call ''JD'' [Call ''Imb'' [V 21], K (JNum 9)])), When (Bin Lt (Dot (V 20) ''p'') (K (JNum 0))) [Do (SetV 29 (New ''IKc'' [])), Do (Put (V 29) ''b'' (Bin Minus (SetV 17 (Bin Minus (V 17) (K (JNum (- 1))))) (K (JNum 1)))), Do (Call ''xKc'' [V 0, V 20, V 29]), Do (Call ''qDb'' [Dot (V 30) ''c'', V 29])] []] []] [], Do (SetV 23 (Call ''Xu'' [Dot (Dot (V 30) ''c'') ''length''])), Do (SetV 10 (Call ''Xu'' [Dot (Dot (V 30) ''c'') ''length''])), Do (SetV 6 (K (JNum 0))), Loop (Bin Lt (V 6) (Dot (Dot (V 30) ''c'') ''length'')) [Do (Call ''_lb'' [V 23, New ''lmb'' []]), Do (Call ''_lb'' [V 10, Call ''Cfb'' [K (JNum 0)]])] [Do (Bin Minus (SetV 6 (Bin Minus (V 6) (K (JNum (- 1))))) (K (JNum 1)))], Do (Call ''vKc'' [V 1, V 30, V 23, V 10]), Do (SetV 31 (Call ''JD'' [Call ''kmb'' [V 30, Call ''SC'' [G ''WX'', G ''wCe'', K (JNum 263), Dot (Dot (V 30) ''c'') ''length'', K (JNum 0), K (JNum 1)]], K (JNum 839)])), Do (SetV 22 (Call ''JD'' [Call ''kmb'' [V 23, Call ''SC'' [G ''HK'', G ''fxe'', K (JNum 16), Dot (Dot (V 23) ''c'') ''length'', K (JNum 0), K (JNum 1)]], K (JNum 198)])), Do (SetV 9 (Call ''SC'' [G ''cE'', G ''bve'', K (JNum 30), Dot (Dot (V 10) ''c'') ''length'', K (JNum 15), K (JNum 1)])), Do (SetV 7 (K (JNum 0))), Loop (Bin Lt (V 7) (Dot (V 9) ''length'')) [Do (PutIdx (V 9) (V 7) (Dot (Seq (Call ''MDb'' [V 7, Dot (Dot (V 10) ''c'') ''length'']) (Call ''JD'' [Idx (Dot (V 10) ''c'') (V 7), K (JNum 15)])) ''a''))] [Do (Bin Minus (SetV 7 (Bin Minus (V 7) (K (JNum (- 1))))) (K (JNum 1)))], Do (SetV 18 (K (JNum 0))), Do (SetV 19 (New ''lmb'' [])), Do (SetV 8 (K (JNum 0))), Loop (Bin Lt (V 8) (Dot (V 31) ''length'')) [Do (And (Loose (Idx (V 9) (V 8)) (K (JNum 0))) (Seq (Call ''qDb'' [Dot (V 19) ''c'', Idx (V 31) (V 8)]) (K (JBool True))))] [Do (Bin Minus (SetV 8 (Bin Minus (V 8) (K (JNum (- 1))))) (K (JNum 1)))], Do (SetV 16 (Call ''SC'' [G ''cE'', G ''bve'', K (JNum 30), Dot (V 31) ''length'', K (JNum 15), K (JNum 1)])), Loop (Neg (Loose (Dot (Dot (V 19) ''c'') ''length'') (K (JNum 0)))) [Do (SetV 29 (Call ''JD'' [Call ''fmb'' [V 19, K (JNum 0)], K (JNum 263)])), Do (PutIdx (V 16) (Dot (V 29) ''b'') (Bin Minus (SetV 18 (Bin Minus (V 18) (K (JNum (- 1))))) (K (JNum 1)))), Loop (Neg (Meth (Idx (V 22) (Dot (V 29) ''b'')) ''dc'' [])) [Do (SetV 32 (Call ''JD'' [Meth (Idx (V 22) (Dot (V 29) ''b'')) ''ed'' [K (JNum 0)], K (JNum 263)])), Do (PutIdx (V 9) (Dot (V 32) ''b'') (Bin Minus (Idx (V 9) (Dot (V 32) ''b'')) (K (JNum 1)))), Do (And (Loose (Idx (V 9) (Dot (V 32) ''b'')) (K (JNum 0))) (Seq (Call ''qDb'' [Dot (V 19) ''c'', V 32]) (K (JBool True))))] []] [], Do (Put (V 0) ''a'' (Call ''SC'' [G ''WX'', G ''wCe'', K (JNum 263), Dot (V 31) ''length'', K (JNum 0), K (JNum 1)])), Do (SetV 5 (K (JNum 0))), Loop (Bin Lt (V 5) (Dot (V 31) ''length'')) [Do (SetV 15 (Idx (V 31) (V 5))), Do (SetV 28 (Idx (V 16) (V 5))), Do (PutIdx (Dot (V 0) ''a'') (V 28) (V 15)), Do (Put (V 15) ''b'' (V 28)), Do (SetV 21 (New ''Kmb'' [Dot (V 15) ''e''])), Loop (Bin Lt (Dot (V 21) ''a'') (Dot (Dot (Dot (V 21) ''c'') ''c'') ''length'')) [Do (SetV 20 (Call ''JD'' [Call ''Imb'' [V 21], K (JNum 9)])), Do (Put (V 20) ''p'' (V 28))] []] [Do (Bin Minus (SetV 5 (Bin Minus (V 5) (K (JNum (- 1))))) (K (JNum 1)))], Ret (Dot (V 0) ''a'')]]"

definition code_6275_6278 :: "(string \<times> jfun) list" where
  "code_6275_6278 = [
    fn ''Zoe'' 1 3 [When (Bin Ge (Dot (V 0) ''d'') (Dot (V 0) ''j'')) [Do (Put (V 0) ''a'' (K (JNum (- 1)))), Do (Put (V 0) ''c'' (K (JNum 1))), Ret (K JUndef)] [], Do (SetV 1 (Call ''sgb'' [Dot (V 0) ''i'', Bin Minus (Put (V 0) ''d'' (Bin Minus (Dot (V 0) ''d'') (K (JNum (- 1))))) (K (JNum 1))])), Do (Put (V 0) ''a'' (V 1)), When (Loose (Dot (V 0) ''b'') (K (JNum 1))) [Switch (V 1) [(Some (JNum 92), [Do (SetV 3 (K (JNum 10))), When (Bin Ge (Dot (V 0) ''d'') (Dot (V 0) ''j'')) [Raise (Call ''Lcb'' [New ''Yoe'' [Call ''iHd'' [Seq (Call ''Ube'' []) (G ''eHe'')]]])] [], Do (Put (V 0) ''a'' (Call ''sgb'' [Dot (V 0) ''i'', Bin Minus (Put (V 0) ''d'' (Bin Minus (Dot (V 0) ''d'') (K (JNum (- 1))))) (K (JNum 1))])), Break]), (Some (JNum 45), [When (And (And (Loose (Bin BitAnd (Dot (V 0) ''e'') (K (JNum 512))) (K (JNum 512))) (Bin Lt (Dot (V 0) ''d'') (Dot (V 0) ''j''))) (Loose (Call ''sgb'' [Dot (V 0) ''i'', Dot (V 0) ''d'']) (K (JNum 91)))) [Do (Put (V 0) ''d'' (Bin Minus (Dot (V 0) ''d'') (K (JNum (- 1))))), Do (SetV 3 (K (JNum 24)))] [Do (SetV 3 (K (JNum 0)))], Break]), (Some (JNum 91), [When (And (And (Neg (Loose (Bin BitAnd (Dot (V 0) ''e'') (K (JNum 512))) (K (JNum 512)))) (Bin Lt (Dot (V 0) ''d'') (Dot (V 0) ''j''))) (Loose (Call ''sgb'' [Dot (V 0) ''i'', Dot (V 0) ''d'']) (K (JNum 58)))) [Do (Put (V 0) ''d'' (Bin Minus (Dot (V 0) ''d'') (K (JNum (- 1))))), Do (SetV 3 (K (JNum 20))), Break] []]), (None, [When (And (Loose (Bin BitAnd (V 1) (K (JNum 64512))) (G ''Ive'')) (Bin Lt (Dot (V 0) ''d'') (Dot (V 0) ''j''))) [Do (SetV 2 (Call ''sgb'' [Dot (V 0) ''i'', Dot (V 0) ''d''])), When (Loose (Bin BitAnd (V 2) (K (JNum 64512))) (K (JNum 56320))) [Do (Put (V 0) ''a'' (Bin Minus (Bin Plus (Bin Plus (G ''Hve'') (Bin Shl (Bin Minus (V 1) (G ''Ive'')) (K (JNum 10)))) (V 2)) (K (JNum 56320)))), Do (Put (V 0) ''d'' (Bin Minus (Dot (V 0) ''d'') (K (JNum (- 1)))))] []] [], Do (SetV 3 (K (JNum 0)))])], Do (Put (V 0) ''c'' (V 3)), Ret (K JUndef)] [], Switch (V 1) [(Some (JNum 124), [Do (SetV 3 (K (JNum 2))), Break]), (Some (JNum 42), [Do (SetV 3 (K (JNum 3))), Break]), (Some (JNum 43), [Do (SetV 3 (K (JNum 4))), Break]), (Some (JNum 63), [Do (SetV 3 (K (JNum 5))), Break]), (Some (JNum 41), [Do (SetV 3 (K (JNum 7))), Break]), (Some (JNum 46), [Do (SetV 3 (K (JNum 8))), Break]), (Some (JNum 91), [Do (SetV 3 (K (JNum 9))), Break]), (Some (JNum 94), [Do (SetV 3 (K (JNum 11))), Break]), (Some (JNum 36), [Do (SetV 3 (K (JNum 12))), Break]), (Some (JNum 40), [Do (SetV 3 (K (JNum 6))), When (Bin Ge (Dot (V 0) ''d'') (Dot (V 0) ''j'')) [Break] [], When (Neg (Loose (Call ''sgb'' [Dot (V 0) ''i'', Dot (V 0) ''d'']) (K (JNum 63)))) [Break] [], When (Bin Ge (Put (V 0) ''d'' (Bin Minus (Dot (V 0) ''d'') (K (JNum (- 1))))) (Dot (V 0) ''j'')) [Raise (Call ''Lcb'' [New ''Yoe'' [Call ''iHd'' [Seq (Call ''Ube'' []) (G ''fHe'')]]])] [], Do (SetV 1 (Call ''sgb'' [Dot (V 0) ''i'', Bin Minus (Put (V 0) ''d'' (Bin Minus (Dot (V 0) ''d'') (K (JNum (- 1))))) (K (JNum 1))])), Switch (V 1) [(Some (JNum 58), [Do (SetV 3 (K (JNum 13))), Break]), (Some (JNum 61), [Do (SetV 3 (K (JNum 14))), Break]), (Some (JNum 33), [Do (SetV 3 (K (JNum 15))), Break]), (Some (JNum 91), [Do (SetV 3 (K (JNum 19))), Break]), (Some (JNum 62), [Do (SetV 3 (K (JNum 18))), Break]), (Some (JNum 60), [When (Bin Ge (Dot (V 0) ''d'') (Dot (V 0) ''j'')) [Raise (Call ''Lcb'' [New ''Yoe'' [Call ''iHd'' [Seq (Call ''Ube'' []) (G ''fHe'')]]])] [], Do (SetV 1 (Call ''sgb'' [Dot (V 0) ''i'', Bin Minus (Put (V 0) ''d'' (Bin Minus (Dot (V 0) ''d'') (K (JNum (- 1))))) (K (JNum 1))])), When (Loose (V 1) (K (JNum 61))) [Do (SetV 3 (K (JNum 16)))] [When (Loose (V 1) (K (JNum 33))) [Do (SetV 3 (K (JNum 17)))] [Raise (Call ''Lcb'' [New ''Yoe'' [Call ''iHd'' [Seq (Call ''Ube'' []) (G ''gHe'')]]])]], Break]), (Some (JNum 35), [Loop (Bin Lt (Dot (V 0) ''d'') (Dot (V 0) ''j'')) [Do (SetV 1 (Call ''sgb'' [Dot (V 0) ''i'', Bin Minus (Put (V 0) ''d'' (Bin Minus (Dot (V 0) ''d'') (K (JNum (- 1))))) (K (JNum 1))])), When (Loose (V 1) (K (JNum 41))) [Break] []] [], When (Neg (Loose (V 1) (K (JNum 41)))) [Raise (Call ''Lcb'' [New ''Yoe'' [Call ''iHd'' [Seq (Call ''Ube'' []) (G ''hHe'')]]])] [], Do (SetV 3 (K (JNum 21))), Break]), (None, [When (Or (Or (Loose (V 1) (K (JNum 45))) (And (Bin Le (K (JNum 97)) (V 1)) (Bin Le (V 1) (K (JNum 122))))) (And (Bin Le (K (JNum 65)) (V 1)) (Bin Le (V 1) (K (JNum 90))))) [Do (Put (V 0) ''d'' (Bin Minus (Dot (V 0) ''d'') (K (JNum 1)))), Do (SetV 3 (K (JNum 22))), Break] [When (Loose (V 1) (K (JNum 40))) [Do (SetV 3 (K (JNum 23))), Break] []], Raise (Call ''Lcb'' [New ''Yoe'' [Call ''iHd'' [Seq (Call ''Ube'' []) (G ''fHe'')]]])])], Break]), (Some (JNum 92), [Do (SetV 3 (K (JNum 10))), When (Bin Ge (Dot (V 0) ''d'') (Dot (V 0) ''j'')) [Raise (Call ''Lcb'' [New ''Yoe'' [Call ''iHd'' [Seq (Call ''Ube'' []) (G ''eHe'')]]])] [], Do (Put (V 0) ''a'' (Call ''sgb'' [Dot (V 0) ''i'', Bin Minus (Put (V 0) ''d'' (Bin Minus (Dot (V 0) ''d'') (K (JNum (- 1))))) (K (JNum 1))])), Break]), (None, [Do (SetV 3 (K (JNum 0)))])], Do (Put (V 0) ''c'' (V 3))],
    fn ''ZTc'' 3 14 [Do (Meth (V 2) ''Tg'' [K (JStr ''Process compaction''), K (JNum 1)]), When (Neg (Call ''Rdb'' [Call ''LD'' [Call ''oNb'' [V 1, Seq (Call ''SXc'' []) (G ''oXc'')]]])) [Ret (K JUndef)] [], Do (SetV 4 (Call ''JD'' [Call ''oNb'' [V 1, G ''qXc''], K (JNum 86)])), Do (SetV 13 (Call ''Ueb'' [Call ''MD'' [Call ''oNb'' [V 1, G ''KXc'']]])), Do (Call ''$Tc'' [V 0, V 1, V 4]), Do (Call ''WTc'' [V 1, Bin Divide (Bin Divide (V 13) (K (JNum 2))) (K (JNum 2))]), Do (SetV 14 (Dot (V 1) ''b'')), Do (Call ''Bub'' [V 14, New ''nUc'' [V 4]]), Do (SetV 9 (Call ''Ztb'' [V 14, K (JNum 0)])), Loop (Neg (Loose (Dot (V 9) ''b'') (Dot (Dot (V 9) ''d'') ''c''))) [Do (SetV 8 (Call ''JD'' [Call ''lub'' [V 9], K (JNum 40)])), When (Neg (Call ''Rdb'' [Call ''LD'' [Call ''oNb'' [V 8, Seq (Call ''_Wc'' []) (G ''YWc'')]]])) [Do (SetV 3 (Call ''XTc'' [V 8, V 4])), Do (SetV 15 (Call ''WSc'' [V 8, V 1])), Do (SetV 11 (K (JNum 0))), Do (SetV 12 (K (JNum 0))), When (V 3) [Do (SetV 16 (Dot (V 3) ''e'')), Switch (Dot (V 4) ''g'') [(Some (JNum 2), [Do (SetV 11 (Bin Minus (Bin Minus (Dot (V 16) ''a'') (V 13)) (Dot (Dot (V 8) ''f'') ''a''))), Do (And (Bin Lt (Bin Minus (Bin Minus (Dot (Dot (V 15) ''e'') ''a'') (V 13)) (Dot (Dot (V 8) ''f'') ''a'')) (V 11)) (SetV 11 (Bin Minus (Bin Minus (Dot (Dot (V 15) ''e'') ''a'') (V 13)) (Dot (Dot (V 8) ''f'') ''a'')))), Do (SetV 12 (Bin Plus (V 11) (Dot (Dot (V 8) ''f'') ''a''))), Break]), (Some (JNum 1), [Do (SetV 11 (Bin Plus (Bin Plus (Dot (V 16) ''a'') (Dot (Dot (V 3) ''f'') ''a'')) (V 13))), Do (And (Bin Gt (Bin Plus (Dot (Dot (V 15) ''e'') ''a'') (V 13)) (V 11)) (SetV 11 (Bin Plus (Bin Plus (Dot (Dot (V 15) ''e'') ''a'') (Dot (Dot (V 15) ''f'') ''a'')) (V 13)))), Do (SetV 12 (Bin Plus (V 11) (Dot (Dot (V 8) ''f'') ''a''))), Break]), (Some (JNum 4), [Do (SetV 11 (Bin Minus (Bin Minus (Dot (V 16) ''b'') (V 13)) (Dot (Dot (V 8) ''f'') ''b''))), Do (And (Bin Lt (Bin Minus (Bin Minus (Dot (Dot (V 15) ''e'') ''b'') (V 13)) (Dot (Dot (V 8) ''f'') ''b'')) (V 11)) (SetV 11 (Bin Minus (Bin Minus (Dot (Dot (V 15) ''e'') ''b'') (V 13)) (Dot (Dot (V 8) ''f'') ''b'')))), Do (SetV 12 (Bin Plus (V 11) (Dot (Dot (V 8) ''f'') ''b''))), Break]), (Some (JNum 3), [Do (SetV 11 (Bin Plus (Bin Plus (Dot (V 16) ''b'') (Dot (Dot (V 3) ''f'') ''b'')) (V 13))), Do (And (Bin Gt (Bin Plus (Dot (Dot (V 15) ''e'') ''b'') (V 13)) (V 11)) (SetV 11 (Bin Plus (Bin Plus (Dot (Dot (V 15) ''e'') ''b'') (Dot (Dot (V 15) ''f'') ''b'')) (V 13)))), Do (SetV 12 (Bin Plus (V 11) (Dot (Dot (V 8) ''f'') ''b'')))])]] [When (V 15) [Switch (Dot (V 4) ''g'') [(Some (JNum 2), [Do (SetV 11 (Bin Minus (Bin Minus (Dot (Dot (V 15) ''e'') ''a'') (V 13)) (Dot (Dot (V 8) ''f'') ''a''))), Do (SetV 12 (Bin Plus (V 11) (Dot (Dot (V 8) ''f'') ''a''))), Break]), (Some (JNum 1), [Do (SetV 11 (Bin Plus (Bin Plus (Dot (Dot (V 15) ''e'') ''a'') (Dot (Dot (V 15) ''f'') ''a'')) (V 13))), Do (SetV 12 (Bin Plus (V 11) (Dot (Dot (V 8) ''f'') ''a''))), Break]), (Some (JNum 4), [Do (SetV 11 (Bin Minus (Bin Minus (Dot (Dot (V 15) ''e'') ''b'') (V 13)) (Dot (Dot (V 8) ''f'') ''b''))), Do (SetV 12 (Bin Plus (V 11) (Dot (Dot (V 8) ''f'') ''b''))), Break]), (Some (JNum 3), [Do (SetV 11 (Bin Plus (Bin Plus (Dot (Dot (V 15) ''e'') ''b'') (Dot (Dot (V 15) ''f'') ''b'')) (V 13))), Do (SetV 12 (Bin Plus (V 11) (Dot (Dot (V 8) ''f'') ''b'')))])]] []], When (Same (Call ''XD'' [Call ''oNb'' [V 1, G ''tXc'']]) (Call ''XD'' [Seq (Call ''uWc'' []) (G ''rWc'')])) [Do (SetV 5 (V 11)), Do (SetV 6 (V 12)), Do (SetV 7 (Call ''WBb'' [Call ''VBb'' [New ''jCb'' [K JNull, New ''Zvb'' [Dot (V 0) ''a'', K (JNum 16)]], New ''rUc'' [V 5, V 6]]])), When (Neg (Loose (Dot (V 7) ''a'') (K JNull))) [Do (Cond (Or (Loose (V 4) (Seq (Call ''Djd'' []) (G ''zjd''))) (Loose (V 4) (G ''Ajd''))) (Put (Dot (V 8) ''e'') ''a'' (V 11)) (Put (Dot (V 8) ''e'') ''b'' (V 11)))] [Do (Cond (Or (Loose (V 4) (Seq (Call ''Djd'' []) (G ''zjd''))) (Loose (V 4) (G ''Cjd''))) (SetV 7 (Call ''WBb'' [Call ''VBb'' [Call ''eCb'' [New ''jCb'' [K JNull, New ''Zvb'' [Dot (V 0) ''a'', K (JNum 16)]]], New ''FUc'' [V 5]]])) (SetV 7 (Call ''WBb'' [Call ''VBb'' [Call ''eCb'' [New ''jCb'' [K JNull, New ''Zvb'' [Dot (V 0) ''a'', K (JNum 16)]]], New ''HUc'' [V 5]]]))), Do (And (Neg (Loose (Dot (V 7) ''a'') (K JNull))) (Cond (Or (Loose (V 4) (G ''zjd'')) (Loose (V 4) (G ''Ajd''))) (Put (Dot (V 8) ''e'') ''a'' (Call ''Ueb'' [Call ''MD'' [Dot (Seq (Call ''LDb'' [Neg (Loose (Dot (V 7) ''a'') (K JNull))]) (Call ''JD'' [Dot (V 7) ''a'', K (JNum 49)])) ''a'']])) (Put (Dot (V 8) ''e'') ''b'' (Call ''Ueb'' [Call ''MD'' [Dot (Seq (Call ''LDb'' [Neg (Loose (Dot (V 7) ''a'') (K JNull))]) (Call ''JD'' [Dot (V 7) ''a'', K (JNum 49)])) ''a'']]))))], When (Neg (Loose (Dot (V 7) ''a'') (K JNull))) [Do (SetV 10 (Call ''emb'' [Dot (V 0) ''a'', Seq (Call ''LDb'' [Neg (Loose (Dot (V 7) ''a'') (K JNull))]) (Dot (V 7) ''a''), K (JNum 0)])), When (And (Bin Gt (V 10) (K (JNum 0))) (Neg (Loose (V 10) (Dot (Call ''JD'' [Call ''oNb'' [V 8, G ''QXc''], K (JNum 15)]) ''a'')))) [Do (Call ''rNb'' [V 8, G ''DWc'', Seq (Call ''Qdb'' []) (K (JBool True))]), Do (Call ''rNb'' [V 8, G ''QXc'', Call ''Cfb'' [V 10]])] []] []] [Do (Cond (Or (Loose (V 4) (Seq (Call ''Djd'' []) (G ''zjd''))) (Loose (V 4) (G ''Ajd''))) (Put (Dot (V 8) ''e'') ''a'' (V 11)) (Put (Dot (V 8) ''e'') ''b'' (V 11)))]] []] [], Do (Meth (V 2) ''Ug'' [])],
    fn ''YCc'' 3 19 [Do (Meth (V 2) ''Tg'' [K (JStr ''Coffman-Graham Layering''), K (JNum 1)]), When (Loose (Dot (Dot (Dot (V 1) ''a'') ''c'') ''length'') (K (JNum 0))) [Do (Meth (V 2) ''Ug'' []), Ret (K JUndef)] [], Do (SetV 21 (Dot (Call ''JD'' [Call ''oNb'' [V 1, Seq (Call ''nyc'' []) (G ''Cwc'')], K (JNum 15)]) ''a'')), Do (SetV 8 (K (JNum 0))), Do (SetV 6 (K (JNum 0))), Do (SetV 12 (New ''Kmb'' [Dot (V 1) ''a''])), Loop (Bin Lt (Dot (V 12) ''a'') (Dot (Dot (Dot (V 12) ''c'') ''c'') ''length'')) [Do (SetV 11 (Call ''JD'' [Call ''Imb'' [V 12], K (JNum 9)])), Do (Put (V 11) ''p'' (Bin Minus (SetV 8 (Bin Minus (V 8) (K (JNum (- 1))))) (K (JNum 1)))), Do (SetV 5 (New ''Yr'' [Call ''Dr'' [Meth (Dot (Call ''HYb'' [V 11]) ''a'') ''Jc'' [], New ''Dl'' []]])), Loop (Call ''Wr'' [V 5]) [Do (SetV 4 (Call ''JD'' [Call ''Xr'' [V 5], K (JNum 17)])), Do (Put (V 4) ''p'' (Bin Minus (SetV 6 (Bin Minus (V 6) (K (JNum (- 1))))) (K (JNum 1))))] []] [], Do (Put (V 0) ''d'' (Call ''SC'' [G ''Icb'', G ''Nwe'', K (JNum 30), V 8, K (JNum 16), K (JNum 1)])), Do (Put (V 0) ''a'' (Call ''SC'' [G ''Icb'', G ''Nwe'', K (JNum 30), V 6, K (JNum 16), K (JNum 1)])), Do (Put (V 0) ''b'' (Call ''SC'' [G ''cE'', G ''bve'', K (JNum 30), V 8, K (JNum 15), K (JNum 1)])), Do (Put (V 0) ''e'' (Call ''SC'' [G ''cE'', G ''bve'', K (JNum 30), V 8, K (JNum 15), K (JNum 1)])), Do (Put (V 0) ''f'' (Call ''SC'' [G ''cE'', G ''bve'', K (JNum 30), V 8, K (JNum 15), K (JNum 1)])), Do (Call ''Nc'' [Dot (V 0) ''c'']), Do (Call ''ZCc'' [V 0, V 1]), Do (SetV 14 (New ''wvb'' [New ''bDc'' [V 0]])), Do (SetV 20 (New ''Kmb'' [Dot (V 1) ''a''])), Loop (Bin Lt (Dot (V 20) ''a'') (Dot (Dot (Dot (V 20) ''c'') ''c'') ''length'')) [Do (SetV 18 (Call ''JD'' [Call ''Imb'' [V 20], K (JNum 9)])), Do (SetV 5 (New ''Yr'' [Call ''Dr'' [Meth (Dot (Call ''EYb'' [V 18]) ''a'') ''Jc'' [], New ''Dl'' []]])), Loop (Call ''Wr'' [V 5]) [Do (SetV 4 (Call ''JD'' [Call ''Xr'' [V 5], K (JNum 17)])), Do (Or (Idx (Dot (V 0) ''a'') (Dot (V 4) ''p'')) (PutIdx (Dot (V 0) ''b'') (Dot (V 18) ''p'') (Bin Minus (Idx (Dot (V 0) ''b'') (Dot (V 18) ''p'')) (K (JNum (- 1))))))] [], Do (And (Loose (Idx (Dot (V 0) ''b'') (Dot (V 18) ''p'')) (K (JNum 0))) (Seq (Call ''SDb'' [Call ''svb'' [V 14, V 18], G ''Pve'']) (K (JBool True))))] [], Do (SetV 7 (K (JNum 0))), Loop (Neg (Loose (Dot (Dot (Dot (V 14) ''b'') ''c'') ''length'') (K (JNum 0)))) [Do (SetV 18 (Call ''JD'' [Call ''tvb'' [V 14], K (JNum 9)])), Do (PutIdx (Dot (V 0) ''f'') (Dot (V 18) ''p'') (Bin Minus (SetV 7 (Bin Minus (V 7) (K (JNum (- 1))))) (K (JNum 1)))), Do (SetV 5 (New ''Yr'' [Call ''Dr'' [Meth (Dot (Call ''HYb'' [V 18]) ''a'') ''Jc'' [], New ''Dl'' []]])), Loop (Call ''Wr'' [V 5]) [Do (SetV 4 (Call ''JD'' [Call ''Xr'' [V 5], K (JNum 17)])), When (Idx (Dot (V 0) ''a'') (Dot (V 4) ''p'')) [Continue] [], Do (SetV 16 (Dot (Dot (V 4) ''d'') ''i'')), Do (PutIdx (Dot (V 0) ''b'') (Dot (V 16) ''p'') (Bin Minus (Idx (Dot (V 0) ''b'') (Dot (V 16) ''p'')) (K (JNum 1)))), Do (Call ''Rc'' [Dot (V 0) ''c'', V 16, Call ''Cfb'' [Idx (Dot (V 0) ''f'') (Dot (V 18) ''p'')]]), Do (And (Loose (Idx (Dot (V 0) ''b'') (Dot (V 16) ''p'')) (K (JNum 0))) (Seq (Call ''SDb'' [Call ''svb'' [V 14, V 16], G ''Pve'']) (K (JBool True))))] []] [], Do (SetV 13 (New ''wvb'' [New ''fDc'' [V 0]])), Do (SetV 19 (New ''Kmb'' [Dot (V 1) ''a''])), Loop (Bin Lt (Dot (V 19) ''a'') (Dot (Dot (Dot (V 19) ''c'') ''c'') ''length'')) [Do (SetV 18 (Call ''JD'' [Call ''Imb'' [V 19], K (JNum 9)])), Do (SetV 5 (New ''Yr'' [Call ''Dr'' [Meth (Dot (Call ''HYb'' [V 18]) ''a'') ''Jc'' [], New ''Dl'' []]])), Loop (Call ''Wr'' [V 5]) [Do (SetV 4 (Call ''JD'' [Call ''Xr'' [V 5], K (JNum 17)])), Do (Or (Idx (Dot (V 0) ''a'') (Dot (V 4) ''p'')) (PutIdx (Dot (V 0) ''e'') (Dot (V 18) ''p'') (Bin Minus (Idx (Dot (V 0) ''e'') (Dot (V 18) ''p'')) (K (JNum (- 1))))))] [], Do (And (Loose (Idx (Dot (V 0) ''e'') (Dot (V 18) ''p'')) (K (JNum 0))) (Seq (Call ''SDb'' [Call ''svb'' [V 13, V 18], G ''Pve'']) (K (JBool True))))] [], Do (SetV 10 (New ''lmb'' [])), Do (SetV 3 (Call ''VCc'' [V 1, V 10])), Loop (Neg (Loose (Dot (Dot (Dot (V 13) ''b'') ''c'') ''length'') (K (JNum 0)))) [Do (SetV 17 (Call ''JD'' [Call ''tvb'' [V 13], K (JNum 9)])), Do (And (Or (Bin Ge (Dot (Dot (Dot (V 3) ''a'') ''c'') ''length'') (V 21)) (Neg (Call ''TCc'' [V 17, V 3]))) (SetV 3 (Call ''VCc'' [V 1, V 10]))), Do (Call ''NYb'' [V 17, V 3]), Do (SetV 5 (New ''Yr'' [Call ''Dr'' [Meth (Dot (Call ''EYb'' [V 17]) ''a'') ''Jc'' [], New ''Dl'' []]])), Loop (Call ''Wr'' [V 5]) [Do (SetV 4 (Call ''JD'' [Call ''Xr'' [V 5], K (JNum 17)])), When (Idx (Dot (V 0) ''a'') (Dot (V 4) ''p'')) [Continue] [], Do (SetV 15 (Dot (Dot (V 4) ''c'') ''i'')), Do (PutIdx (Dot (V 0) ''e'') (Dot (V 15) ''p'') (Bin Minus (Idx (Dot (V 0) ''e'') (Dot (V 15) ''p'')) (K (JNum 1)))), Do (And (Loose (Idx (Dot (V 0) ''e'') (Dot (V 15) ''p'')) (K (JNum 0))) (Seq (Call ''SDb'' [Call ''svb'' [V 13, V 15], G ''Pve'']) (K (JBool True))))] []] [], Do (SetV 9 (Bin Minus (Dot (Dot (V 10) ''c'') ''length'') (K (JNum 1)))), Loop (Bin Ge (V 9) (K (JNum 0))) [Do (Call ''_lb'' [Dot (V 1) ''b'', Seq (Call ''MDb'' [V 9, Dot (Dot (V 10) ''c'') ''length'']) (Call ''JD'' [Idx (Dot (V 10) ''c'') (V 9), K (JNum 25)])])] [Do (SetV 9 (Bin Minus (V 9) (K (JNum 1))))], Do (Put (Dot (Dot (V 1) ''a'') ''c'') ''length'' (K (JNum 0))), Do (Meth (V 2) ''Ug'' [])],
    fn ''Spe'' 1 9 [Do (Put (V 0) ''b'' (K (JNum 1))), Do (Call ''Zoe'' [V 0]), Do (SetV 1 (K JNull)), When (And (Loose (Dot (V 0) ''c'') (K (JNum 0))) (Loose (Dot (V 0) ''a'') (K (JNum 94)))) [Do (Call ''Zoe'' [V 0]), Do (SetV 1 (Seq (Seq (Seq (Call ''gre'' []) (Call ''gre'' [])) (SetG ''fre'' (Bin Minus (G ''fre'') (K (JNum (- 1)))))) (New ''Kre'' [K (JNum 4)]))), Do (Call ''Ere'' [V 1, K (JNum 0), G ''XJe'']), Do (SetV 7 (Seq (Seq (K JNull) (SetG ''fre'' (Bin Minus (G ''fre'') (K (JNum (- 1)))))) (New ''Kre'' [K (JNum 4)])))] [Do (SetV 7 (Seq (Seq (Seq (Call ''gre'' []) (Call ''gre'' [])) (SetG ''fre'' (Bin Minus (G ''fre'') (K (JNum (- 1)))))) (New ''Kre'' [K (JNum 4)])))], Do (SetV 4 (K (JBool True))), Loop (Neg (Loose (SetV 9 (Dot (V 0) ''c'')) (K (JNum 1)))) [When (And (And (Loose (V 9) (K (JNum 0))) (Loose (Dot (V 0) ''a'') (K (JNum 93)))) (Neg (V 4))) [When (V 1) [Do (Call ''Jre'' [V 1, V 7]), Do (SetV 7 (V 1))] [], Break] [], Do (SetV 2 (Dot (V 0) ''a'')), Do (SetV 3 (K (JBool False))), When (Loose (V 9) (K (JNum 10))) [Switch (V 2) [(Some (JNum 100), []), (Some (JNum 68), []), (Some (JNum 119), []), (Some (JNum 87), []), (Some (JNum 115), []), (Some (JNum 83), [Do (Call ''Hre'' [V 7, Call ''Rpe'' [V 2]]), Do (SetV 3 (K (JBool True))), Break]), (Some (JNum 105), []), (Some (JNum 73), []), (Some (JNum 99), []), (Some (JNum 67), [Do (SetV 2 (Seq (Call ''Hre'' [V 7, Call ''Rpe'' [V 2]]) (K (JNum (- 1))))), Do (And (Bin Lt (V 2) (K (JNum 0))) (SetV 3 (K (JBool True)))), Break]), (Some (JNum 112), []), (Some (JNum 80), [Do (SetV 8 (Call ''dpe'' [V 0, V 2])), When (Neg (V 8)) [Raise (Call ''Lcb'' [New ''Yoe'' [Call ''iHd'' [Seq (Call ''Ube'' []) (G ''sHe'')]]])] [], Do (Call ''Hre'' [V 7, V 8]), Do (SetV 3 (K (JBool True))), Break]), (None, [Do (SetV 2 (Call ''Qpe'' [V 0]))])]] [When (And (Loose (V 9) (K (JNum 24))) (Neg (V 4))) [When (V 1) [Do (Call ''Jre'' [V 1, V 7]), Do (SetV 7 (V 1))] [], Do (SetV 5 (Call ''Spe'' [V 0])), Do (Call ''Jre'' [V 7, V 5]), When (Or (Neg (Loose (Dot (V 0) ''c'') (K (JNum 0)))) (Neg (Loose (Dot (V 0) ''a'') (K (JNum 93))))) [Raise (Call ''Lcb'' [New ''Yoe'' [Call ''iHd'' [Seq (Call ''Ube'' []) (G ''wHe'')]]])] [], Break] []], Do (Call ''Zoe'' [V 0]), When (Neg (V 3)) [When (Loose (V 9) (K (JNum 0))) [When (Loose (V 2) (K (JNum 91))) [Raise (Call ''Lcb'' [New ''Yoe'' [Call ''iHd'' [Seq (Call ''Ube'' []) (G ''xHe'')]]])] [], When (Loose (V 2) (K (JNum 93))) [Raise (Call ''Lcb'' [New ''Yoe'' [Call ''iHd'' [Seq (Call ''Ube'' []) (G ''yHe'')]]])] [], When (And (And (Loose (V 2) (K (JNum 45))) (Neg (V 4))) (Neg (Loose (Dot (V 0) ''a'') (K (JNum 93))))) [Raise (Call ''Lcb'' [New ''Yoe'' [Call ''iHd'' [Seq (Call ''Ube'' []) (G ''zHe'')]]])] []] [], When (Or (Or (Neg (Loose (Dot (V 0) ''c'') (K (JNum 0)))) (Neg (Loose (Dot (V 0) ''a'') (K (JNum 45))))) (And (Loose (V 2) (K (JNum 45))) (V 4))) [Do (Call ''Ere'' [V 7, V 2, V 2])] [Do (Call ''Zoe'' [V 0]), When (Loose (SetV 9 (Dot (V 0) ''c'')) (K (JNum 1))) [Raise (Call ''Lcb'' [New ''Yoe'' [Call ''iHd'' [Seq (Call ''Ube'' []) (G ''uHe'')]]])] [], When (And (Loose (V 9) (K (JNum 0))) (Loose (Dot (V 0) ''a'') (K (JNum 93)))) [Do (Call ''Ere'' [V 7, V 2, V 2]), Do (Call ''Ere'' [V 7, K (JNum 45), K (JNum 45)])] [When (Or (And (Loose (V 9) (K (JNum 0))) (Loose (Dot (V 0) ''a'') (K (JNum 93)))) (Loose (V 9) (K (JNum 24)))) [Raise (Call ''Lcb'' [New ''Yoe'' [Call ''iHd'' [Seq (Call ''Ube'' []) (G ''zHe'')]]])] [Do (SetV 6 (Dot (V 0) ''a'')), When (Loose (V 9) (K (JNum 0))) [When (Loose (V 6) (K (JNum 91))) [Raise (Call ''Lcb'' [New ''Yoe'' [Call ''iHd'' [Seq (Call ''Ube'' []) (G ''xHe'')]]])] [], When (Loose (V 6) (K (JNum 93))) [Raise (Call ''Lcb'' [New ''Yoe'' [Call ''iHd'' [Seq (Call ''Ube'' []) (G ''yHe'')]]])] [], When (Loose (V 6) (K (JNum 45))) [Raise (Call ''Lcb'' [New ''Yoe'' [Call ''iHd'' [Seq (Call ''Ube'' []) (G ''zHe'')]]])] []] [Do (And (Loose (V 9) (K (JNum 10))) (SetV 6 (Call ''Qpe'' [V 0])))], Do (Call ''Zoe'' [V 0]), When (Bin Gt (V 2) (V 6)) [Raise (Call ''Lcb'' [New ''Yoe'' [Call ''iHd'' [Seq (Call ''Ube'' []) (G ''CHe'')]]])] [], Do (Call ''Ere'' [V 7, V 2, V 6])]]]] [], Do (SetV 4 (K (JBool False)))] [], When (Loose (Dot (V 0) ''c'') (K (JNum 1))) [Raise (Call ''Lcb'' [New ''Yoe'' [Call ''iHd'' [Seq (Call ''Ube'' []) (G ''uHe'')]]])] [], Do (Call ''Ire'' [V 7]), Do (Call ''Fre'' [V 7]), Do (Put (V 0) ''b'' (K (JNum 0))), Do (Call ''Zoe'' [V 0]), Ret (V 7)]]"

definition code_6279_6282 :: "(string \<times> jfun) list" where
  "code_6279_6282 = [
    fn ''L8b'' 2 19 [Do (SetV 20 (K (JBool False))), Loop (K (JBool True)) [Do (SetV 20 (K (JBool False))), Do (SetV 5 (Cond (V 1) (Bin Minus (Meth (Dot (New ''fkb'' [Dot (Dot (V 0) ''a'') ''b'']) ''a'') ''gc'' []) (K (JNum 2))) (K (JNum 1)))), Loop (Cond (V 1) (Bin Ge (V 5) (K (JNum 0))) (Bin Lt (V 5) (Meth (Dot (New ''fkb'' [Dot (Dot (V 0) ''a'') ''b'']) ''a'') ''gc'' []))) [Do (SetV 4 (Call ''N_b'' [Dot (V 0) ''a'', Call ''Cfb'' [V 5]])), Do (SetV 13 (K (JNum 0))), Loop (Bin Lt (V 13) (Dot (V 4) ''b'')) [Do (SetV 11 (Call ''JD'' [Call ''au'' [V 4, V 13], K (JNum 9)])), When (Neg (Call ''pNb'' [V 11, Seq (Call ''Wrc'' []) (G ''trc'')])) [Continue] [], When (Or (And (Call ''O_b'' [Dot (V 0) ''a'', Call ''Cfb'' [V 5]]) (Loose (Dot (V 0) ''r'') (Seq (Call ''Rzc'' []) (G ''Izc'')))) (And (Call ''P_b'' [Dot (V 0) ''a'', Call ''Cfb'' [V 5]]) (Loose (Dot (V 0) ''r'') (Seq (Call ''Rzc'' []) (G ''Jzc''))))) [Continue] [], Do (SetV 19 (K (JBool True))), Do (SetV 17 (K (JNum 0))), Loop (Bin Lt (V 17) (Dot (V 4) ''b'')) [Do (SetV 16 (Call ''JD'' [Call ''au'' [V 4, V 17], K (JNum 9)])), Do (And (And (Call ''pNb'' [V 16, G ''trc'']) (Or (And (V 1) (Bin Lt (Dot (Call ''JD'' [Call ''oNb'' [V 11, G ''trc''], K (JNum 15)]) ''a'') (Dot (Call ''JD'' [Call ''oNb'' [V 16, G ''trc''], K (JNum 15)]) ''a''))) (And (Neg (V 1)) (Bin Gt (Dot (Call ''JD'' [Call ''oNb'' [V 11, G ''trc''], K (JNum 15)]) ''a'') (Dot (Call ''JD'' [Call ''oNb'' [V 16, G ''trc''], K (JNum 15)]) ''a''))))) (SetV 19 (K (JBool False))))] [Do (Bin Minus (SetV 17 (Bin Minus (V 17) (K (JNum (- 1))))) (K (JNum 1)))], When (Neg (V 19)) [Continue] [], Do (SetV 8 (Cond (V 1) (Bin Plus (V 5) (K (JNum 1))) (Bin Minus (V 5) (K (JNum 1))))), Do (SetV 7 (Call ''N_b'' [Dot (V 0) ''a'', Call ''Cfb'' [V 8]])), Do (SetV 6 (K (JBool False))), Do (SetV 18 (K (JBool True))), Do (SetV 3 (K (JBool False))), Do (SetV 10 (Call ''Ztb'' [V 7, K (JNum 0)])), Loop (Neg (Loose (Dot (V 10) ''b'') (Dot (Dot (V 10) ''d'') ''c''))) [Do (SetV 9 (Call ''JD'' [Call ''lub'' [V 10], K (JNum 9)])), When (Call ''pNb'' [V 9, G ''trc'']) [When (Neg (Loose (Dot (V 9) ''p'') (Dot (V 11) ''p''))) [Do (SetV 6 (Bin BitOr (V 6) (Cond (V 1) (Bin Lt (Dot (Call ''JD'' [Call ''oNb'' [V 9, G ''trc''], K (JNum 15)]) ''a'') (Dot (Call ''JD'' [Call ''oNb'' [V 11, G ''trc''], K (JNum 15)]) ''a'')) (Bin Gt (Dot (Call ''JD'' [Call ''oNb'' [V 9, G ''trc''], K (JNum 15)]) ''a'') (Dot (Call ''JD'' [Call ''oNb'' [V 11, G ''trc''], K (JNum 15)]) ''a''))))), Do (SetV 18 (K (JBool False)))] []] [When (And (Neg (V 6)) (V 18)) [When (Loose (Dot (V 9) ''k'') (Seq (Call ''$Yb'' []) (G ''UYb''))) [Do (SetV 3 (K (JBool True))), Do (Cond (V 1) (SetV 12 (Dot (Dot (Call ''JD'' [Call ''Xr'' [New ''Yr'' [Call ''Dr'' [Meth (Dot (Call ''EYb'' [V 9]) ''a'') ''Jc'' [], New ''Dl'' []]]], K (JNum 17)]) ''c'') ''i'')) (SetV 12 (Dot (Dot (Call ''JD'' [Call ''Xr'' [New ''Yr'' [Call ''Dr'' [Meth (Dot (Call ''HYb'' [V 9]) ''a'') ''Jc'' [], New ''Dl'' []]]], K (JNum 17)]) ''d'') ''i''))), When (Loose (V 12) (V 11)) [Do (Cond (V 1) (SetV 2 (Dot (Dot (Call ''JD'' [Call ''Xr'' [New ''Yr'' [Call ''Dr'' [Meth (Dot (Call ''HYb'' [V 9]) ''a'') ''Jc'' [], New ''Dl'' []]]], K (JNum 17)]) ''d'') ''i'')) (SetV 2 (Dot (Dot (Call ''JD'' [Call ''Xr'' [New ''Yr'' [Call ''Dr'' [Meth (Dot (Call ''EYb'' [V 9]) ''a'') ''Jc'' [], New ''Dl'' []]]], K (JNum 17)]) ''c'') ''i''))), Do (And (Bin Le (Cond (V 1) (Bin Minus (Dot (Call ''JD'' [Call ''M_b'' [Dot (V 0) ''a'', V 2], K (JNum 15)]) ''a'') (Dot (Call ''JD'' [Call ''M_b'' [Dot (V 0) ''a'', V 12], K (JNum 15)]) ''a'')) (Bin Minus (Dot (Call ''JD'' [Call ''M_b'' [Dot (V 0) ''a'', V 12], K (JNum 15)]) ''a'') (Dot (Call ''JD'' [Call ''M_b'' [Dot (V 0) ''a'', V 2], K (JNum 15)]) ''a''))) (K (JNum 2))) (SetV 18 (K (JBool False))))] []] []] []]] [], When (And (V 3) (V 18)) [Do (Cond (V 1) (SetV 2 (Dot (Dot (Call ''JD'' [Call ''Xr'' [New ''Yr'' [Call ''Dr'' [Meth (Dot (Call ''HYb'' [V 11]) ''a'') ''Jc'' [], New ''Dl'' []]]], K (JNum 17)]) ''d'') ''i'')) (SetV 2 (Dot (Dot (Call ''JD'' [Call ''Xr'' [New ''Yr'' [Call ''Dr'' [Meth (Dot (Call ''EYb'' [V 11]) ''a'') ''Jc'' [], New ''Dl'' []]]], K (JNum 17)]) ''c'') ''i''))), Do (And (And (Bin Le (Cond (V 1) (Bin Minus (Dot (Call ''JD'' [Call ''M_b'' [Dot (V 0) ''a'', V 2], K (JNum 15)]) ''a'') (Dot (Call ''JD'' [Call ''M_b'' [Dot (V 0) ''a'', V 11], K (JNum 15)]) ''a'')) (Bin Minus (Dot (Call ''JD'' [Call ''M_b'' [Dot (V 0) ''a'', V 11], K (JNum 15)]) ''a'') (Dot (Call ''JD'' [Call ''M_b'' [Dot (V 0) ''a'', V 2], K (JNum 15)]) ''a''))) (K (JNum 2))) (Loose (Dot (V 2) ''k'') (Seq (Call ''$Yb'' []) (G ''XYb'')))) (SetV 18 (K (JBool False))))] [], When (Or (V 6) (V 18)) [Do (SetV 15 (Call ''Q8b'' [V 0, V 11, V 1])), Loop (Neg (Loose (Meth (Dot (V 15) ''a'') ''gc'' []) (K (JNum 0)))) [Do (SetV 14 (Call ''JD'' [Meth (Meth (Meth (Dot (V 15) ''a'') ''ec'' []) ''Jc'' []) ''Pb'' [], K (JNum 9)])), Do (Neg (Loose (Meth (Dot (V 15) ''a'') ''Ac'' [V 14]) (K JNull))), Do (Call ''xe'' [V 15, Call ''Q8b'' [V 0, V 14, V 1]])] [], Do (SetV 13 (Bin Minus (V 13) (K (JNum 1)))), Do (SetV 20 (K (JBool True)))] []] [Do (Bin Minus (SetV 13 (Bin Minus (V 13) (K (JNum (- 1))))) (K (JNum 1)))]] [Do (SetV 5 (Bin Plus (V 5) (Cond (V 1) (K (JNum (- 1))) (K (JNum 1)))))]] [When (V 20) [] [Break]]],
    fn ''i9d'' 1 0 [Do (Call ''vyd'' [Dot (V 0) ''c'', G ''BIe'', Call ''WC'' [Call ''OC'' [G ''hJ'', K (JNum 1)], G ''aue'', K (JNum 2), K (JNum 6), NewArr [G ''OIe'', K (JStr ''http://www.w3.org/2001/XMLSchema#decimal'')]]]), Do (Call ''vyd'' [Dot (V 0) ''d'', G ''BIe'', Call ''WC'' [Call ''OC'' [G ''hJ'', K (JNum 1)], G ''aue'', K (JNum 2), K (JNum 6), NewArr [G ''OIe'', K (JStr ''http://www.w3.org/2001/XMLSchema#integer'')]]]), Do (Call ''vyd'' [Dot (V 0) ''e'', G ''BIe'', Call ''WC'' [Call ''OC'' [G ''hJ'', K (JNum 1)], G ''aue'', K (JNum 2), K (JNum 6), NewArr [G ''OIe'', K (JStr ''http://www.w3.org/2001/XMLSchema#boolean'')]]]), Do (Call ''vyd'' [Dot (V 0) ''f'', G ''BIe'', Call ''WC'' [Call ''OC'' [G ''hJ'', K (JNum 1)], G ''aue'', K (JNum 2), K (JNum 6), NewArr [G ''OIe'', K (JStr ''EBoolean''), G ''RGe'', K (JStr ''EBoolean:Object'')]]]), Do (Call ''vyd'' [Dot (V 0) ''i'', G ''BIe'', Call ''WC'' [Call ''OC'' [G ''hJ'', K (JNum 1)], G ''aue'', K (JNum 2), K (JNum 6), NewArr [G ''OIe'', K (JStr ''http://www.w3.org/2001/XMLSchema#byte'')]]]), Do (Call ''vyd'' [Dot (V 0) ''g'', G ''BIe'', Call ''WC'' [Call ''OC'' [G ''hJ'', K (JNum 1)], G ''aue'', K (JNum 2), K (JNum 6), NewArr [G ''OIe'', K (JStr ''http://www.w3.org/2001/XMLSchema#hexBinary'')]]]), Do (Call ''vyd'' [Dot (V 0) ''j'', G ''BIe'', Call ''WC'' [Call ''OC'' [G ''hJ'', K (JNum 1)], G ''aue'', K (JNum 2), K (JNum 6), NewArr [G ''OIe'', K (JStr ''EByte''), G ''RGe'', K (JStr ''EByte:Object'')]]]), Do (Call ''vyd'' [Dot (V 0) ''n'', G ''BIe'', Call ''WC'' [Call ''OC'' [G ''hJ'', K (JNum 1)], G ''aue'', K (JNum 2), K (JNum 6), NewArr [G ''OIe'', K (JStr ''EChar''), G ''RGe'', K (JStr ''EChar:Object'')]]]), Do (Call ''vyd'' [Dot (V 0) ''t'', G ''BIe'', Call ''WC'' [Call ''OC'' [G ''hJ'', K (JNum 1)], G ''aue'', K (JNum 2), K (JNum 6), NewArr [G ''OIe'', K (JStr ''http://www.w3.org/2001/XMLSchema#double'')]]]), Do (Call ''vyd'' [Dot (V 0) ''u'', G ''BIe'', Call ''WC'' [Call ''OC'' [G ''hJ'', K (JNum 1)], G ''aue'', K (JNum 2), K (JNum 6), NewArr [G ''OIe'', K (JStr ''EDouble''), G ''RGe'', K (JStr ''EDouble:Object'')]]]), Do (Call ''vyd'' [Dot (V 0) ''F'', G ''BIe'', Call ''WC'' [Call ''OC'' [G ''hJ'', K (JNum 1)], G ''aue'', K (JNum 2), K (JNum 6), NewArr [G ''OIe'', K (JStr ''http://www.w3.org/2001/XMLSchema#float'')]]]), Do (Call ''vyd'' [Dot (V 0) ''G'', G ''BIe'', Call ''WC'' [Call ''OC'' [G ''hJ'', K (JNum 1)], G ''aue'', K (JNum 2), K (JNum 6), NewArr [G ''OIe'', K (JStr ''EFloat''), G ''RGe'', K (JStr ''EFloat:Object'')]]]), Do (Call ''vyd'' [Dot (V 0) ''I'', G ''BIe'', Call ''WC'' [Call ''OC'' [G ''hJ'', K (JNum 1)], G ''aue'', K (JNum 2), K (JNum 6), NewArr [G ''OIe'', K (JStr ''http://www.w3.org/2001/XMLSchema#int'')]]]), Do (Call ''vyd'' [Dot (V 0) ''J'', G ''BIe'', Call ''WC'' [Call ''OC'' [G ''hJ'', K (JNum 1)], G ''aue'', K (JNum 2), K (JNum 6), NewArr [G ''OIe'', K (JStr ''EInt''), G ''RGe'', K (JStr ''EInt:Object'')]]]), Do (Call ''vyd'' [Dot (V 0) ''N'', G ''BIe'', Call ''WC'' [Call ''OC'' [G ''hJ'', K (JNum 1)], G ''aue'', K (JNum 2), K (JNum 6), NewArr [G ''OIe'', K (JStr ''http://www.w3.org/2001/XMLSchema#long'')]]]), Do (Call ''vyd'' [Dot (V 0) ''O'', G ''BIe'', Call ''WC'' [Call ''OC'' [G ''hJ'', K (JNum 1)], G ''aue'', K (JNum 2), K (JNum 6), NewArr [G ''OIe'', K (JStr ''ELong''), G ''RGe'', K (JStr ''ELong:Object'')]]]), Do (Call ''vyd'' [Dot (V 0) ''Z'', G ''BIe'', Call ''WC'' [Call ''OC'' [G ''hJ'', K (JNum 1)], G ''aue'', K (JNum 2), K (JNum 6), NewArr [G ''OIe'', K (JStr ''http://www.w3.org/2001/XMLSchema#short'')]]]), Do (Call ''vyd'' [Dot (V 0) ''$'', G ''BIe'', Call ''WC'' [Call ''OC'' [G ''hJ'', K (JNum 1)], G ''aue'', K (JNum 2), K (JNum 6), NewArr [G ''OIe'', K (JStr ''EShort''), G ''RGe'', K (JStr ''EShort:Object'')]]]), Do (Call ''vyd'' [Dot (V 0) ''_'', G ''BIe'', Call ''WC'' [Call ''OC'' [G ''hJ'', K (JNum 1)], G ''aue'', K (JNum 2), K (JNum 6), NewArr [G ''OIe'', K (JStr ''http://www.w3.org/2001/XMLSchema#string'')]]])],
    fn ''lZc'' 7 8 [Do (SetV 12 (Dot (Call ''JD'' [Dot (V 3) ''a'', K (JNum 15)]) ''a'')), Do (SetV 13 (Dot (Call ''JD'' [Dot (V 3) ''b'', K (JNum 15)]) ''a'')), Do (SetV 11 (Dot (V 0) ''b'')), Do (SetV 14 (Dot (V 0) ''c'')), Do (SetV 7 (K (JNum 0))), Do (SetV 10 (K (JNum 0))), When (Or (Loose (V 1) (Seq (Call ''Djd'' []) (G ''zjd''))) (Loose (V 1) (G ''Ajd''))) [Do (SetV 10 (Call ''_ub'' [Call ''hBb'' [Call ''$Bb'' [Call ''ZBb'' [New ''jCb'' [K JNull, New ''Zvb'' [Dot (V 2) ''b'', K (JNum 16)]], New ''M$c'' []], New ''MZc'' []]]])), When (Bin Gt (Bin Plus (Dot (Dot (V 11) ''e'') ''b'') (Bin Divide (Dot (Dot (V 11) ''f'') ''b'') (K (JNum 2)))) (V 10)) [Do (SetV 9 (SetV 13 (Bin Minus (V 13) (K (JNum (- 1)))))), Do (SetV 7 (Call ''Ueb'' [Call ''MD'' [Call ''Sub'' [Call ''aCb'' [Call ''ZBb'' [New ''jCb'' [K JNull, New ''Zvb'' [Dot (V 2) ''b'', K (JNum 16)]], New ''O$c'' [V 4, V 9]], New ''OZc'' []]]]]))] [Do (SetV 8 (SetV 12 (Bin Minus (V 12) (K (JNum (- 1)))))), Do (SetV 7 (Call ''Ueb'' [Call ''MD'' [Call ''Sub'' [Call ''bCb'' [Call ''ZBb'' [New ''jCb'' [K JNull, New ''Zvb'' [Dot (V 2) ''b'', K (JNum 16)]], New ''Q$c'' [V 4, V 8]], New ''SZc'' []]]]]))]] [Do (SetV 10 (Call ''_ub'' [Call ''hBb'' [Call ''$Bb'' [Call ''ZBb'' [New ''jCb'' [K JNull, New ''Zvb'' [Dot (V 2) ''b'', K (JNum 16)]], New ''g$c'' []], New ''WZc'' []]]])), When (Bin Gt (Bin Plus (Dot (Dot (V 11) ''e'') ''a'') (Bin Divide (Dot (Dot (V 11) ''f'') ''a'') (K (JNum 2)))) (V 10)) [Do (SetV 9 (SetV 13 (Bin Minus (V 13) (K (JNum (- 1)))))), Do (SetV 7 (Call ''Ueb'' [Call ''MD'' [Call ''Sub'' [Call ''aCb'' [Call ''ZBb'' [New ''jCb'' [K JNull, New ''Zvb'' [Dot (V 2) ''b'', K (JNum 16)]], New ''i$c'' [V 4, V 9]], New ''YZc'' []]]]]))] [Do (SetV 8 (SetV 12 (Bin Minus (V 12) (K (JNum (- 1)))))), Do (SetV 7 (Call ''Ueb'' [Call ''MD'' [Call ''Sub'' [Call ''bCb'' [Call ''ZBb'' [New ''jCb'' [K JNull, New ''Zvb'' [Dot (V 2) ''b'', K (JNum 16)]], New ''k$c'' [V 4, V 8]], New ''a$c'' []]]]]))]], When (Loose (V 1) (G ''zjd'')) [Do (Call ''Vtb'' [Dot (V 0) ''a'', New ''lgd'' [Bin Minus (Call ''Ueb'' [Call ''MD'' [Call ''oNb'' [V 11, Seq (Call ''_Wc'' []) (G ''QWc'')]]]) (V 4), V 7]]), Do (Call ''Vtb'' [Dot (V 0) ''a'', New ''lgd'' [Bin Plus (Bin Plus (Bin Plus (Dot (Dot (V 14) ''e'') ''a'') (Dot (Dot (V 14) ''f'') ''a'')) (V 4)) (V 5), V 7]]), Do (Call ''Vtb'' [Dot (V 0) ''a'', New ''lgd'' [Bin Plus (Bin Plus (Bin Plus (Dot (Dot (V 14) ''e'') ''a'') (Dot (Dot (V 14) ''f'') ''a'')) (V 4)) (V 5), Bin Plus (Dot (Dot (V 14) ''e'') ''b'') (Bin Divide (Dot (Dot (V 14) ''f'') ''b'') (K (JNum 2)))]]), Do (Call ''Vtb'' [Dot (V 0) ''a'', New ''lgd'' [Bin Plus (Dot (Dot (V 14) ''e'') ''a'') (Dot (Dot (V 14) ''f'') ''a''), Bin Plus (Dot (Dot (V 14) ''e'') ''b'') (Bin Divide (Dot (Dot (V 14) ''f'') ''b'') (K (JNum 2)))]])] [When (Loose (V 1) (G ''Ajd'')) [Do (Call ''Vtb'' [Dot (V 0) ''a'', New ''lgd'' [Bin Plus (Call ''Ueb'' [Call ''MD'' [Call ''oNb'' [V 11, Seq (Call ''_Wc'' []) (G ''PWc'')]]]) (V 4), Bin Plus (Dot (Dot (V 11) ''e'') ''b'') (Bin Divide (Dot (Dot (V 11) ''f'') ''b'') (K (JNum 2)))]]), Do (Call ''Vtb'' [Dot (V 0) ''a'', New ''lgd'' [Bin Plus (Bin Plus (Dot (Dot (V 11) ''e'') ''a'') (Dot (Dot (V 11) ''f'') ''a'')) (V 4), V 7]]), Do (Call ''Vtb'' [Dot (V 0) ''a'', New ''lgd'' [Bin Minus (Bin Minus (Dot (Dot (V 14) ''e'') ''a'') (V 4)) (V 5), V 7]]), Do (Call ''Vtb'' [Dot (V 0) ''a'', New ''lgd'' [Bin Minus (Bin Minus (Dot (Dot (V 14) ''e'') ''a'') (V 4)) (V 5), Bin Plus (Dot (Dot (V 14) ''e'') ''b'') (Bin Divide (Dot (Dot (V 14) ''f'') ''b'') (K (JNum 2)))]]), Do (Call ''Vtb'' [Dot (V 0) ''a'', New ''lgd'' [Dot (Dot (V 14) ''e'') ''a'', Bin Plus (Dot (Dot (V 14) ''e'') ''b'') (Bin Divide (Dot (Dot (V 14) ''f'') ''b'') (K (JNum 2)))]])] [When (Loose (V 1) (G ''Cjd'')) [Do (Call ''Vtb'' [Dot (V 0) ''a'', New ''lgd'' [V 7, Bin Minus (Call ''Ueb'' [Call ''MD'' [Call ''oNb'' [V 11, Seq (Call ''_Wc'' []) (G ''QWc'')]]]) (V 4)]]), Do (Call ''Vtb'' [Dot (V 0) ''a'', New ''lgd'' [V 7, Bin Plus (Bin Plus (Bin Plus (Dot (Dot (V 14) ''e'') ''b'') (Dot (Dot (V 14) ''f'') ''b'')) (V 4)) (V 5)]]), Do (Call ''Vtb'' [Dot (V 0) ''a'', New ''lgd'' [Bin Plus (Dot (Dot (V 14) ''e'') ''a'') (Bin Divide (Dot (Dot (V 14) ''f'') ''a'') (K (JNum 2))), Bin Plus (Bin Plus (Bin Plus (Dot (Dot (V 14) ''e'') ''b'') (Dot (Dot (V 14) ''f'') ''b'')) (V 4)) (V 5)]]), Do (Call ''Vtb'' [Dot (V 0) ''a'', New ''lgd'' [Bin Plus (Dot (Dot (V 14) ''e'') ''a'') (Bin Divide (Dot (Dot (V 14) ''f'') ''a'') (K (JNum 2))), Bin Plus (Bin Plus (Dot (Dot (V 14) ''e'') ''b'') (Dot (Dot (V 14) ''f'') ''b'')) (V 4)]])] [Do (Or (Loose (Dot (Dot (V 0) ''a'') ''b'') (K (JNum 0))) (Put (Call ''JD'' [Call ''Ytb'' [Dot (V 0) ''a''], K (JNum 8)]) ''b'' (Bin Plus (Call ''Ueb'' [Call ''MD'' [Call ''oNb'' [V 11, Seq (Call ''_Wc'' []) (G ''PWc'')]]]) (Bin Times (V 4) (Dot (Call ''JD'' [Dot (V 6) ''b'', K (JNum 15)]) ''a''))))), Do (Call ''Vtb'' [Dot (V 0) ''a'', New ''lgd'' [V 7, Bin Plus (Call ''Ueb'' [Call ''MD'' [Call ''oNb'' [V 11, Seq (Call ''_Wc'' []) (G ''PWc'')]]]) (Bin Times (V 4) (Dot (Call ''JD'' [Dot (V 6) ''b'', K (JNum 15)]) ''a''))]]), Do (Call ''Vtb'' [Dot (V 0) ''a'', New ''lgd'' [V 7, Bin Minus (Bin Minus (Dot (Dot (V 14) ''e'') ''b'') (Bin Times (V 4) (Dot (Call ''JD'' [Dot (V 6) ''a'', K (JNum 15)]) ''a''))) (V 5)]])]]], Ret (New ''prd'' [Call ''Cfb'' [V 12], Call ''Cfb'' [V 13]])],
    fn ''nyc'' 0 0 [Do (SetG ''nyc'' (G ''qdb'')), Do (SetG ''Fxc'' (Seq (Call ''vjd'' []) (G ''Uid''))), Do (SetG ''Gxc'' (G ''Vid'')), Do (SetG ''Hxc'' (G ''Wid'')), Do (SetG ''Ixc'' (G ''Xid'')), Do (SetG ''Kxc'' (G ''Yid'')), Do (SetG ''Lxc'' (G ''Zid'')), Do (SetG ''Oxc'' (G ''_id'')), Do (SetG ''Qxc'' (G ''bjd'')), Do (SetG ''Rxc'' (G ''cjd'')), Do (SetG ''Pxc'' (G ''ajd'')), Do (SetG ''Sxc'' (G ''djd'')), Do (SetG ''Uxc'' (G ''ejd'')), Do (SetG ''Wxc'' (G ''hjd'')), Do (SetG ''Nxc'' (G ''$id'')), Do (SetG ''Exc'' (Seq (Call ''qvc'' []) (G ''Iuc''))), Do (SetG ''Jxc'' (G ''Juc'')), Do (SetG ''Mxc'' (G ''Kuc'')), Do (SetG ''Txc'' (G ''Luc'')), Do (SetG ''yxc'' (New ''FEd'' [G ''Pid'', Call ''Cfb'' [K (JNum 0)]])), Do (SetG ''zxc'' (G ''Fuc'')), Do (SetG ''Axc'' (G ''Guc'')), Do (SetG ''Bxc'' (G ''Huc'')), Do (SetG ''kyc'' (G ''hvc'')), Do (SetG ''cyc'' (G ''Ouc'')), Do (SetG ''dyc'' (G ''Ruc'')), Do (SetG ''gyc'' (G ''Zuc'')), Do (SetG ''eyc'' (G ''Uuc'')), Do (SetG ''fyc'' (G ''Wuc'')), Do (SetG ''myc'' (G ''mvc'')), Do (SetG ''lyc'' (G ''jvc'')), Do (SetG ''iyc'' (G ''dvc'')), Do (SetG ''hyc'' (G ''bvc'')), Do (SetG ''jyc'' (G ''fvc'')), Do (SetG ''Owc'' (G ''fuc'')), Do (SetG ''Mwc'' (G ''auc'')), Do (SetG ''Lwc'' (G ''$tc'')), Do (SetG ''Nwc'' (G ''cuc'')), Do (SetG ''Ywc'' (G ''uuc'')), Do (SetG ''Zwc'' (G ''vuc'')), Do (SetG ''$wc'' (G ''zuc'')), Do (SetG ''nwc'' (G ''wtc'')), Do (SetG ''owc'' (G ''ztc'')), Do (SetG ''$xc'' (G ''kjd'')), Do (SetG ''ayc'' (G ''ojd'')), Do (SetG ''Zxc'' (G ''jjd'')), Do (SetG ''Yxc'' (G ''ijd'')), Do (SetG ''_xc'' (Seq (Call ''Gnd'' []) (G ''Dnd''))), Do (New ''FEd'' [G ''ljd'', G ''_xc'']), Do (SetG ''gxc'' (New ''hZb'' [K (JNum 12)])), Do (SetG ''fxc'' (New ''FEd'' [G ''rid'', G ''gxc''])), Do (SetG ''jwc'' (Seq (Call ''hkd'' []) (G ''dkd''))), Do (SetG ''iwc'' (New ''FEd'' [G ''Mhd'', G ''jwc''])), Do (SetG ''pxc'' (New ''FEd'' [G ''Eid'', K (JNum 0)])), Do (SetG ''Cxc'' (New ''FEd'' [G ''Qid'', Call ''Cfb'' [K (JNum 1)]])), Do (SetG ''vvc'' (New ''FEd'' [G ''xhd'', G ''Bxe''])), Do (SetG ''exc'' (G ''pid'')), Do (SetG ''qxc'' (G ''Fid'')), Do (SetG ''vxc'' (G ''Mid'')), Do (SetG ''awc'' (G ''Ghd'')), Do (SetG ''tvc'' (G ''vhd'')), Do (SetG ''swc'' (G ''Rhd'')), Do (SetG ''Dxc'' (New ''FEd'' [G ''Tid'', Seq (Call ''Qdb'' []) (K (JBool True))])), Do (SetG ''xwc'' (G ''Uhd'')), Do (SetG ''ywc'' (G ''Vhd'')), Do (SetG ''axc'' (G ''iid'')), Do (SetG ''dxc'' (G ''nid'')), Do (SetG ''bxc'' (G ''kid'')), Do (SetG ''dwc'' (Seq (Call ''Djd'' []) (G ''Bjd''))), Do (SetG ''bwc'' (New ''FEd'' [G ''Hhd'', G ''dwc''])), Do (SetG ''Twc'' (G ''gid'')), Do (SetG ''Swc'' (G ''eid'')), Do (SetG ''txc'' (G ''Jid'')), Do (SetG ''sxc'' (G ''Iid'')), Do (SetG ''uxc'' (G ''Lid'')), Do (SetG ''jxc'' (Seq (Call ''Ald'' []) (G ''zld''))), Do (New ''FEd'' [G ''xid'', G ''jxc'']), Do (SetG ''lxc'' (G ''Aid'')), Do (SetG ''mxc'' (G ''Bid'')), Do (SetG ''nxc'' (G ''Cid'')), Do (SetG ''kxc'' (G ''zid'')), Do (SetG ''byc'' (G ''Nuc'')), Do (SetG ''Kwc'' (G ''Ytc'')), Do (SetG ''Jwc'' (G ''Wtc'')), Do (SetG ''Xxc'' (G ''Muc'')), Do (SetG ''Ewc'' (G ''Otc'')), Do (SetG ''_vc'' (G ''itc'')), Do (SetG ''$vc'' (G ''gtc'')), Do (SetG ''Qvc'' (G ''Rsc'')), Do (SetG ''Rvc'' (G ''Ssc'')), Do (SetG ''Tvc'' (G ''Xsc'')), Do (SetG ''Svc'' (G ''Tsc'')), Do (SetG ''Zvc'' (G ''etc'')), Do (SetG ''Qwc'' (G ''huc'')), Do (SetG ''Rwc'' (G ''iuc'')), Do (SetG ''Awc'' (G ''Htc'')), Do (SetG ''_wc'' (G ''Buc'')), Do (SetG ''Vwc'' (G ''muc'')), Do (SetG ''qwc'' (G ''Ctc'')), Do (SetG ''Xwc'' (G ''suc'')), Do (SetG ''lwc'' (G ''stc'')), Do (SetG ''mwc'' (G ''utc'')), Do (SetG ''Pvc'' (G ''Ehd'')), Do (SetG ''Uwc'' (G ''juc'')), Do (SetG ''zvc'' (G ''ssc'')), Do (SetG ''yvc'' (G ''qsc'')), Do (SetG ''xvc'' (G ''psc'')), Do (SetG ''uwc'' (G ''Ftc'')), Do (SetG ''twc'' (G ''Etc'')), Do (SetG ''vwc'' (G ''Gtc'')), Do (SetG ''cxc'' (G ''lid'')), Do (SetG ''Bwc'' (G ''aid'')), Do (SetG ''pwc'' (G ''Ohd'')), Do (SetG ''gwc'' (G ''Khd'')), Do (SetG ''fwc'' (G ''Jhd'')), Do (SetG ''Uvc'' (G ''$sc'')), Do (SetG ''rxc'' (G ''Hid'')), Do (SetG ''wvc'' (G ''Dhd'')), Do (SetG ''wwc'' (G ''Thd'')), Do (SetG ''oxc'' (G ''Did'')), Do (SetG ''hxc'' (G ''tid'')), Do (SetG ''ixc'' (G ''vid'')), Do (SetG ''Gwc'' (G ''Rtc'')), Do (SetG ''Hwc'' (G ''Ttc'')), Do (SetG ''xxc'' (G ''Oid'')), Do (SetG ''uvc'' (G ''osc'')), Do (SetG ''Iwc'' (G ''Vtc'')), Do (SetG ''hwc'' (G ''otc'')), Do (SetG ''ewc'' (G ''mtc'')), Do (SetG ''Pwc'' (G ''cid'')), Do (SetG ''Cwc'' (G ''Ltc'')), Do (SetG ''Wwc'' (G ''puc'')), Do (SetG ''Vxc'' (G ''fjd'')), Do (SetG ''cwc'' (G ''ktc'')), Do (SetG ''wxc'' (G ''Duc'')), Do (SetG ''kwc'' (G ''qtc'')), Do (SetG ''Vvc'' (G ''atc'')), Do (SetG ''Wvc'' (G ''btc'')), Do (SetG ''Dwc'' (G ''Ntc'')), Do (SetG ''Xvc'' (G ''ctc'')), Do (SetG ''zwc'' (G ''Xhd'')), Do (SetG ''Fwc'' (G ''Qtc'')), Do (SetG ''Yvc'' (G ''dtc'')), Do (SetG ''Ovc'' (G ''Psc'')), Do (SetG ''Lvc'' (G ''Lsc'')), Do (SetG ''Bvc'' (G ''wsc'')), Do (SetG ''Cvc'' (G ''xsc'')), Do (SetG ''Mvc'' (G ''Nsc'')), Do (SetG ''Avc'' (G ''usc'')), Do (SetG ''Nvc'' (G ''Osc'')), Do (SetG ''Kvc'' (G ''Ksc'')), Do (SetG ''Jvc'' (G ''Jsc'')), Do (SetG ''Ivc'' (G ''Isc'')), Do (SetG ''Dvc'' (G ''ysc'')), Do (SetG ''Hvc'' (G ''Gsc'')), Do (SetG ''Gvc'' (G ''Esc'')), Do (SetG ''Evc'' (G ''Asc'')), Do (SetG ''Fvc'' (G ''Csc'')), Do (SetG ''rwc'' (G ''Dtc''))]]"

definition object_table34 :: "(string \<times> jfun) list" where
  "object_table34 = code_6254_6258 @ code_6259_6259 @ code_6267_6270 @ code_6271_6273 @ code_6275_6278 @ code_6279_6282"

text \<open>The names each table declares.\<close>

lemma names_6254_6258 [js_names]: "map fst code_6254_6258 = [
    ''Nsd'', ''ape'', ''Zlc'', ''Qxd'', ''dUb'']"
  by (simp add: code_6254_6258_def fn_def)

lemma names_6259_6259 [js_names]: "map fst code_6259_6259 = [
    ''FUb'']"
  by (simp add: code_6259_6259_def fn_def)

lemma names_6267_6270 [js_names]: "map fst code_6267_6270 = [
    ''ZBc'', ''Wpd'', ''FQb'', ''BYc'']"
  by (simp add: code_6267_6270_def fn_def)

lemma names_6271_6273 [js_names]: "map fst code_6271_6273 = [
    ''g6c'', ''S2b'', ''BKc'']"
  by (simp add: code_6271_6273_def fn_def)

lemma names_6275_6278 [js_names]: "map fst code_6275_6278 = [
    ''Zoe'', ''ZTc'', ''YCc'', ''Spe'']"
  by (simp add: code_6275_6278_def fn_def)

lemma names_6279_6282 [js_names]: "map fst code_6279_6282 = [
    ''L8b'', ''i9d'', ''lZc'', ''nyc'']"
  by (simp add: code_6279_6282_def fn_def)

end
