(* ===== verification/ObjectTable35.thy ===== *)
theory ObjectTable35
  imports ObjectCode
begin

text \<open>
  Functions of \<open>layout-worker.js\<close>, lines 6283 to 6303, in the order of the file, one per line:
  the algorithms of the layout engine, longer operations of the runtime's collections and of options,
  with their loops, \<open>switch\<close> and \<open>try\<close> statements. An entry has the name, the
  number of parameters, the number of further local variables and the body; parameters and locals
  are numbered from 0, the variable of a \<open>catch\<close> has a number of its own, \<open>x++\<close> is \<open>(x=x+1)-1\<close>. Lines
  with a construct outside \<open>jexp\<close> and \<open>jstm\<close> (closures, \<open>in\<close>, floating-point literals, host objects) are
  left out.
\<close>

definition code_6283_6286 :: "(string \<times> jfun) list" where
  "code_6283_6286 = [
    fn ''NQd'' 1 13 [Do (SetV 6 (K (JBool True))), Do (SetV 11 (K JNull)), Do (SetV 3 (K JNull)), Do (SetV 4 (K JNull)), Do (SetV 1 (K (JBool False))), Do (SetV 13 (G ''mQd'')), Do (SetV 9 (K JNull)), Do (SetV 5 (K JNull)), Do (SetV 7 (K (JNum 0))), Do (SetV 8 (Call ''FQd'' [V 0, V 7, G ''kQd'', G ''lQd''])), When (And (Bin Lt (V 8) (Dot (V 0) ''length'')) (Seq (Call ''UDb'' [V 8, Dot (V 0) ''length'']) (Loose (Meth (V 0) ''charCodeAt'' [V 8]) (K (JNum 58))))) [Do (SetV 11 (Seq (Call ''TDb'' [V 7, V 8, Dot (V 0) ''length'']) (Meth (V 0) ''substr'' [V 7, Bin Minus (V 8) (V 7)]))), Do (SetV 7 (Bin Plus (V 8) (K (JNum 1))))] [], Do (SetV 2 (And (Neg (Loose (V 11) (K JNull))) (Call ''Dob'' [G ''rQd'', Meth (V 11) ''toLowerCase'' []]))), When (V 2) [Do (SetV 8 (Meth (V 0) ''lastIndexOf'' [K (JStr ''!/'')])), When (Loose (V 8) (K (JNum (- 1)))) [Raise (Call ''Lcb'' [New ''kfb'' [K (JStr ''no archive separator'')]])] [], Do (SetV 6 (K (JBool True))), Do (SetV 3 (Call ''Jgb'' [V 0, V 7, SetV 8 (Bin Minus (V 8) (K (JNum (- 1))))])), Do (SetV 7 (V 8))] [When (And (Bin Ge (V 7) (K (JNum 0))) (Call ''vgb'' [Meth (V 0) ''substr'' [V 7, Dot (K (JStr ''//'')) ''length''], K (JStr ''//'')])) [Do (SetV 7 (Bin Plus (V 7) (K (JNum 2)))), Do (SetV 8 (Call ''FQd'' [V 0, V 7, G ''nQd'', G ''oQd''])), Do (SetV 3 (Seq (Call ''TDb'' [V 7, V 8, Dot (V 0) ''length'']) (Meth (V 0) ''substr'' [V 7, Bin Minus (V 8) (V 7)]))), Do (SetV 7 (V 8))] [When (And (Neg (Loose (V 11) (K JNull))) (Or (Loose (V 7) (Dot (V 0) ''length'')) (Seq (Call ''UDb'' [V 7, Dot (V 0) ''length'']) (Neg (Loose (Meth (V 0) ''charCodeAt'' [V 7]) (K (JNum 47))))))) [Do (SetV 6 (K (JBool False))), Do (SetV 8 (Call ''Bgb'' [V 0, Call ''Pgb'' [K (JNum 35)], V 7])), Do (And (Loose (V 8) (K (JNum (- 1)))) (SetV 8 (Dot (V 0) ''length''))), Do (SetV 3 (Seq (Call ''TDb'' [V 7, V 8, Dot (V 0) ''length'']) (Meth (V 0) ''substr'' [V 7, Bin Minus (V 8) (V 7)]))), Do (SetV 7 (V 8))] []]], When (And (And (Neg (V 2)) (Bin Lt (V 7) (Dot (V 0) ''length''))) (Seq (Call ''UDb'' [V 7, Dot (V 0) ''length'']) (Loose (Meth (V 0) ''charCodeAt'' [V 7]) (K (JNum 47))))) [Do (SetV 8 (Call ''FQd'' [V 0, Bin Plus (V 7) (K (JNum 1)), G ''nQd'', G ''oQd''])), Do (SetV 10 (Seq (Call ''TDb'' [Bin Plus (V 7) (K (JNum 1)), V 8, Dot (V 0) ''length'']) (Meth (V 0) ''substr'' [Bin Plus (V 7) (K (JNum 1)), Bin Minus (V 8) (Bin Plus (V 7) (K (JNum 1)))]))), When (And (Bin Gt (Dot (V 10) ''length'') (K (JNum 0))) (Loose (Call ''sgb'' [V 10, Bin Minus (Dot (V 10) ''length'') (K (JNum 1))]) (K (JNum 58)))) [Do (SetV 4 (V 10)), Do (SetV 7 (V 8))] []] [], When (And (Bin Lt (V 7) (Dot (V 0) ''length'')) (Seq (Call ''UDb'' [V 7, Dot (V 0) ''length'']) (Loose (Meth (V 0) ''charCodeAt'' [V 7]) (K (JNum 47))))) [Do (SetV 7 (Bin Minus (V 7) (K (JNum (- 1))))), Do (SetV 1 (K (JBool True)))] [], When (And (And (Bin Lt (V 7) (Dot (V 0) ''length'')) (Seq (Call ''UDb'' [V 7, Dot (V 0) ''length'']) (Neg (Loose (Meth (V 0) ''charCodeAt'' [V 7]) (K (JNum 63)))))) (Seq (Call ''UDb'' [V 7, Dot (V 0) ''length'']) (Neg (Loose (Meth (V 0) ''charCodeAt'' [V 7]) (K (JNum 35)))))) [Do (SetV 12 (New ''lmb'' [])), Loop (And (And (Bin Lt (V 7) (Dot (V 0) ''length'')) (Seq (Call ''UDb'' [V 7, Dot (V 0) ''length'']) (Neg (Loose (Meth (V 0) ''charCodeAt'' [V 7]) (K (JNum 63)))))) (Seq (Call ''UDb'' [V 7, Dot (V 0) ''length'']) (Neg (Loose (Meth (V 0) ''charCodeAt'' [V 7]) (K (JNum 35)))))) [Do (SetV 8 (Call ''FQd'' [V 0, V 7, G ''nQd'', G ''oQd''])), Do (Call ''_lb'' [V 12, Seq (Call ''TDb'' [V 7, V 8, Dot (V 0) ''length'']) (Meth (V 0) ''substr'' [V 7, Bin Minus (V 8) (V 7)])]), Do (SetV 7 (V 8)), Do (And (And (Bin Lt (V 7) (Dot (V 0) ''length'')) (Seq (Call ''UDb'' [V 7, Dot (V 0) ''length'']) (Loose (Meth (V 0) ''charCodeAt'' [V 7]) (K (JNum 47))))) (Or (Call ''OQd'' [V 0, SetV 7 (Bin Minus (V 7) (K (JNum (- 1))))]) (Seq (Seq (Meth (Dot (V 12) ''c'') ''push'' [K (JStr '''')]) (K JUndef)) (K (JBool True)))))] [], Do (SetV 13 (Call ''SC'' [G ''hJ'', G ''aue'', K (JNum 2), Dot (Dot (V 12) ''c'') ''length'', K (JNum 6), K (JNum 1)])), Do (Call ''kmb'' [V 12, V 13])] [], When (And (Bin Lt (V 7) (Dot (V 0) ''length'')) (Seq (Call ''UDb'' [V 7, Dot (V 0) ''length'']) (Loose (Meth (V 0) ''charCodeAt'' [V 7]) (K (JNum 63))))) [Do (SetV 8 (Call ''zgb'' [V 0, K (JNum 35), SetV 7 (Bin Minus (V 7) (K (JNum (- 1))))])), Do (And (Loose (V 8) (K (JNum (- 1)))) (SetV 8 (Dot (V 0) ''length''))), Do (SetV 9 (Seq (Call ''TDb'' [V 7, V 8, Dot (V 0) ''length'']) (Meth (V 0) ''substr'' [V 7, Bin Minus (V 8) (V 7)]))), Do (SetV 7 (V 8))] [], Do (And (Bin Lt (V 7) (Dot (V 0) ''length'')) (SetV 5 (Call ''Igb'' [V 0, SetV 7 (Bin Minus (V 7) (K (JNum (- 1))))]))), Do (Call ''VQd'' [V 6, V 11, V 3, V 4, V 13, V 9]), Ret (New ''yQd'' [V 6, V 11, V 3, V 4, V 1, V 13, V 9, V 5])],
    fn ''tlc'' 3 18 [When (Call ''cjb'' [Dot (V 0) ''b'', V 1]) [When (Call ''fsb'' [Call ''JD'' [Call ''ejb'' [Dot (V 0) ''b'', V 1], K (JNum 48)], V 2]) [Ret (K (JNum 1))] []] [Do (Call ''hjb'' [Dot (V 0) ''b'', V 1, New ''hsb'' []])], When (Call ''cjb'' [Dot (V 0) ''b'', V 2]) [When (Call ''fsb'' [Call ''JD'' [Call ''ejb'' [Dot (V 0) ''b'', V 2], K (JNum 48)], V 1]) [Ret (K (JNum (- 1)))] []] [Do (Call ''hjb'' [Dot (V 0) ''b'', V 2, New ''hsb'' []])], When (Call ''cjb'' [Dot (V 0) ''g'', V 1]) [When (Call ''fsb'' [Call ''JD'' [Call ''ejb'' [Dot (V 0) ''g'', V 1], K (JNum 48)], V 2]) [Ret (K (JNum (- 1)))] []] [Do (Call ''hjb'' [Dot (V 0) ''g'', V 1, New ''hsb'' []])], When (Call ''cjb'' [Dot (V 0) ''g'', V 2]) [When (Call ''fsb'' [Call ''JD'' [Call ''ejb'' [Dot (V 0) ''b'', V 2], K (JNum 48)], V 1]) [Ret (K (JNum 1))] []] [Do (Call ''hjb'' [Dot (V 0) ''g'', V 2, New ''hsb'' []])], When (Or (Or (Loose (Dot (V 0) ''e'') (Seq (Call ''_zc'' []) (G ''Zzc''))) (Neg (Call ''pNb'' [V 1, Seq (Call ''Wrc'' []) (G ''trc'')]))) (Neg (Call ''pNb'' [V 2, Seq (Call ''Wrc'' []) (G ''trc'')]))) [Do (SetV 12 (K JNull)), Do (SetV 10 (New ''Kmb'' [Dot (V 1) ''j''])), Loop (Bin Lt (Dot (V 10) ''a'') (Dot (Dot (Dot (V 10) ''c'') ''c'') ''length'')) [Do (SetV 8 (Call ''JD'' [Call ''Imb'' [V 10], K (JNum 12)])), When (Neg (Loose (Dot (Dot (Dot (V 8) ''e'') ''c'') ''length'') (K (JNum 0)))) [When (Loose (Dot (Dot (Dot (Dot (Call ''JD'' [Call ''dmb'' [Dot (V 8) ''e'', K (JNum 0)], K (JNum 17)]) ''c'') ''i'') ''c'') ''p'') (Bin Minus (Dot (Dot (V 1) ''c'') ''p'') (K (JNum 1)))) [Do (SetV 12 (Dot (Call ''JD'' [Call ''dmb'' [Dot (V 8) ''e'', K (JNum 0)], K (JNum 17)]) ''c'')), Break] []] []] [], Do (SetV 14 (K JNull)), Do (SetV 9 (New ''Kmb'' [Dot (V 2) ''j''])), Loop (Bin Lt (Dot (V 9) ''a'') (Dot (Dot (Dot (V 9) ''c'') ''c'') ''length'')) [Do (SetV 8 (Call ''JD'' [Call ''Imb'' [V 9], K (JNum 12)])), When (Neg (Loose (Dot (Dot (Dot (V 8) ''e'') ''c'') ''length'') (K (JNum 0)))) [When (Loose (Dot (Dot (Dot (Dot (Call ''JD'' [Call ''dmb'' [Dot (V 8) ''e'', K (JNum 0)], K (JNum 17)]) ''c'') ''i'') ''c'') ''p'') (Bin Minus (Dot (Dot (V 2) ''c'') ''p'') (K (JNum 1)))) [Do (SetV 14 (Dot (Call ''JD'' [Call ''dmb'' [Dot (V 8) ''e'', K (JNum 0)], K (JNum 17)]) ''c'')), Break] []] []] [], When (And (Neg (Neg (V 12))) (Neg (Neg (V 14)))) [Do (SetV 11 (Dot (V 12) ''i'')), Do (SetV 13 (Dot (V 14) ''i'')), When (And (Neg (Neg (V 11))) (Loose (V 11) (V 13))) [Do (SetV 16 (New ''Kmb'' [Dot (V 11) ''j''])), Loop (Bin Lt (Dot (V 16) ''a'') (Dot (Dot (Dot (V 16) ''c'') ''c'') ''length'')) [Do (SetV 15 (Call ''JD'' [Call ''Imb'' [V 16], K (JNum 12)])), When (Loose (V 15) (V 12)) [Do (Call ''wlc'' [V 0, V 2, V 1]), Ret (K (JNum (- 1)))] [When (Loose (V 15) (V 14)) [Do (Call ''wlc'' [V 0, V 1, V 2]), Ret (K (JNum 1))] []]] [], Do (SetV 4 (Call ''ulc'' [V 0, V 1])), Do (SetV 6 (Call ''ulc'' [V 0, V 2])), When (Bin Gt (V 4) (V 6)) [Do (Call ''wlc'' [V 0, V 1, V 2]), Ret (K (JNum 1))] [Do (Call ''wlc'' [V 0, V 2, V 1]), Ret (K (JNum (- 1)))]] [], Do (Seq (Seq (SetV 18 (Dot (V 0) ''f'')) (SetV 19 (K (JNum 0)))) (SetV 20 (Dot (V 18) ''length''))), Loop (Bin Lt (V 19) (V 20)) [Do (SetV 17 (Idx (V 18) (V 19))), When (Loose (V 17) (V 11)) [Do (Call ''wlc'' [V 0, V 2, V 1]), Ret (K (JNum (- 1)))] [When (Loose (V 17) (V 13)) [Do (Call ''wlc'' [V 0, V 1, V 2]), Ret (K (JNum 1))] []]] [Do (SetV 19 (Bin Minus (V 19) (K (JNum (- 1)))))]] [], When (Or (And (Neg (Neg (V 12))) (Neg (V 14))) (And (Neg (V 12)) (Neg (Neg (V 14))))) [Do (SetV 3 (Call ''vlc'' [V 0, V 1, V 2])), When (Neg (Loose (V 3) (K (JNum 0)))) [Do (Cond (Bin Gt (V 3) (K (JNum 0))) (Call ''wlc'' [V 0, V 1, V 2]) (Call ''wlc'' [V 0, V 2, V 1])), Ret (V 3)] [], When (Or (Neg (Call ''pNb'' [V 1, Seq (Call ''Wrc'' []) (G ''trc'')])) (Neg (Call ''pNb'' [V 2, G ''trc'']))) [Do (SetV 5 (Call ''ulc'' [V 0, V 1])), Do (SetV 7 (Call ''ulc'' [V 0, V 2])), When (Bin Gt (V 5) (V 7)) [Do (Call ''wlc'' [V 0, V 1, V 2]), Ret (K (JNum 1))] [Do (Call ''wlc'' [V 0, V 2, V 1]), Ret (K (JNum (- 1)))]] []] [], When (And (Neg (V 12)) (Neg (V 14))) [Do (SetV 3 (Call ''vlc'' [V 0, V 1, V 2])), When (Neg (Loose (V 3) (K (JNum 0)))) [Do (Cond (Bin Gt (V 3) (K (JNum 0))) (Call ''wlc'' [V 0, V 1, V 2]) (Call ''wlc'' [V 0, V 2, V 1])), Ret (V 3)] []] []] [], When (And (Call ''pNb'' [V 1, Seq (Call ''Wrc'' []) (G ''trc'')]) (Call ''pNb'' [V 2, G ''trc''])) [Do (SetV 5 (Call ''slc'' [V 1, V 2, Dot (V 0) ''c'', Dot (Call ''JD'' [Call ''oNb'' [Dot (V 0) ''c'', G ''rrc''], K (JNum 15)]) ''a''])), Do (SetV 7 (Call ''slc'' [V 2, V 1, Dot (V 0) ''c'', Dot (Call ''JD'' [Call ''oNb'' [Dot (V 0) ''c'', G ''rrc''], K (JNum 15)]) ''a''])), When (Bin Gt (V 5) (V 7)) [Do (Call ''wlc'' [V 0, V 1, V 2]), Ret (K (JNum 1))] [Do (Call ''wlc'' [V 0, V 2, V 1]), Ret (K (JNum (- 1)))]] [Do (Call ''wlc'' [V 0, V 2, V 1]), Ret (K (JNum (- 1)))]],
    fn ''tVb'' 0 0 [Do (SetG ''tVb'' (G ''qdb'')), Do (Call ''dUb'' []), Do (SetG ''sVb'' (New ''Np'' [])), Do (Call ''Rc'' [G ''sVb'', Seq (Call ''Bmd'' []) (G ''nmd''), G ''mmd'']), Do (Call ''Rc'' [G ''sVb'', G ''xmd'', G ''mmd'']), Do (Call ''Rc'' [G ''sVb'', G ''omd'', G ''mmd'']), Do (Call ''Rc'' [G ''sVb'', G ''umd'', G ''mmd'']), Do (Call ''Rc'' [G ''sVb'', G ''tmd'', G ''mmd'']), Do (Call ''Rc'' [G ''sVb'', G ''rmd'', G ''mmd'']), Do (Call ''Rc'' [G ''sVb'', G ''umd'', G ''nmd'']), Do (Call ''Rc'' [G ''sVb'', G ''mmd'', G ''imd'']), Do (Call ''Rc'' [G ''sVb'', G ''nmd'', G ''imd'']), Do (Call ''Rc'' [G ''sVb'', G ''xmd'', G ''imd'']), Do (Call ''Rc'' [G ''sVb'', G ''omd'', G ''imd'']), Do (Call ''Rc'' [G ''sVb'', G ''smd'', G ''imd'']), Do (Call ''Rc'' [G ''sVb'', G ''umd'', G ''imd'']), Do (Call ''Rc'' [G ''sVb'', G ''tmd'', G ''imd'']), Do (Call ''Rc'' [G ''sVb'', G ''rmd'', G ''imd'']), Do (Call ''Rc'' [G ''sVb'', G ''lmd'', G ''imd'']), Do (Call ''Rc'' [G ''sVb'', G ''mmd'', G ''vmd'']), Do (Call ''Rc'' [G ''sVb'', G ''nmd'', G ''vmd'']), Do (Call ''Rc'' [G ''sVb'', G ''imd'', G ''vmd'']), Do (Call ''Rc'' [G ''sVb'', G ''xmd'', G ''vmd'']), Do (Call ''Rc'' [G ''sVb'', G ''omd'', G ''vmd'']), Do (Call ''Rc'' [G ''sVb'', G ''smd'', G ''vmd'']), Do (Call ''Rc'' [G ''sVb'', G ''umd'', G ''vmd'']), Do (Call ''Rc'' [G ''sVb'', G ''lmd'', G ''vmd'']), Do (Call ''Rc'' [G ''sVb'', G ''wmd'', G ''vmd'']), Do (Call ''Rc'' [G ''sVb'', G ''tmd'', G ''vmd'']), Do (Call ''Rc'' [G ''sVb'', G ''pmd'', G ''vmd'']), Do (Call ''Rc'' [G ''sVb'', G ''rmd'', G ''vmd'']), Do (Call ''Rc'' [G ''sVb'', G ''nmd'', G ''xmd'']), Do (Call ''Rc'' [G ''sVb'', G ''omd'', G ''xmd'']), Do (Call ''Rc'' [G ''sVb'', G ''umd'', G ''xmd'']), Do (Call ''Rc'' [G ''sVb'', G ''rmd'', G ''xmd'']), Do (Call ''Rc'' [G ''sVb'', G ''nmd'', G ''omd'']), Do (Call ''Rc'' [G ''sVb'', G ''xmd'', G ''omd'']), Do (Call ''Rc'' [G ''sVb'', G ''umd'', G ''omd'']), Do (Call ''Rc'' [G ''sVb'', G ''omd'', G ''omd'']), Do (Call ''Rc'' [G ''sVb'', G ''tmd'', G ''omd'']), Do (Call ''Rc'' [G ''sVb'', G ''mmd'', G ''jmd'']), Do (Call ''Rc'' [G ''sVb'', G ''nmd'', G ''jmd'']), Do (Call ''Rc'' [G ''sVb'', G ''imd'', G ''jmd'']), Do (Call ''Rc'' [G ''sVb'', G ''vmd'', G ''jmd'']), Do (Call ''Rc'' [G ''sVb'', G ''xmd'', G ''jmd'']), Do (Call ''Rc'' [G ''sVb'', G ''omd'', G ''jmd'']), Do (Call ''Rc'' [G ''sVb'', G ''smd'', G ''jmd'']), Do (Call ''Rc'' [G ''sVb'', G ''umd'', G ''jmd'']), Do (Call ''Rc'' [G ''sVb'', G ''wmd'', G ''jmd'']), Do (Call ''Rc'' [G ''sVb'', G ''lmd'', G ''jmd'']), Do (Call ''Rc'' [G ''sVb'', G ''rmd'', G ''jmd'']), Do (Call ''Rc'' [G ''sVb'', G ''tmd'', G ''jmd'']), Do (Call ''Rc'' [G ''sVb'', G ''qmd'', G ''jmd'']), Do (Call ''Rc'' [G ''sVb'', G ''mmd'', G ''wmd'']), Do (Call ''Rc'' [G ''sVb'', G ''nmd'', G ''wmd'']), Do (Call ''Rc'' [G ''sVb'', G ''imd'', G ''wmd'']), Do (Call ''Rc'' [G ''sVb'', G ''xmd'', G ''wmd'']), Do (Call ''Rc'' [G ''sVb'', G ''omd'', G ''wmd'']), Do (Call ''Rc'' [G ''sVb'', G ''smd'', G ''wmd'']), Do (Call ''Rc'' [G ''sVb'', G ''umd'', G ''wmd'']), Do (Call ''Rc'' [G ''sVb'', G ''lmd'', G ''wmd'']), Do (Call ''Rc'' [G ''sVb'', G ''rmd'', G ''wmd'']), Do (Call ''Rc'' [G ''sVb'', G ''pmd'', G ''wmd'']), Do (Call ''Rc'' [G ''sVb'', G ''qmd'', G ''wmd'']), Do (Call ''Rc'' [G ''sVb'', G ''nmd'', G ''lmd'']), Do (Call ''Rc'' [G ''sVb'', G ''xmd'', G ''lmd'']), Do (Call ''Rc'' [G ''sVb'', G ''omd'', G ''lmd'']), Do (Call ''Rc'' [G ''sVb'', G ''umd'', G ''lmd'']), Do (Call ''Rc'' [G ''sVb'', G ''wmd'', G ''lmd'']), Do (Call ''Rc'' [G ''sVb'', G ''rmd'', G ''lmd'']), Do (Call ''Rc'' [G ''sVb'', G ''tmd'', G ''lmd'']), Do (Call ''Rc'' [G ''sVb'', G ''mmd'', G ''kmd'']), Do (Call ''Rc'' [G ''sVb'', G ''nmd'', G ''kmd'']), Do (Call ''Rc'' [G ''sVb'', G ''imd'', G ''kmd'']), Do (Call ''Rc'' [G ''sVb'', G ''xmd'', G ''kmd'']), Do (Call ''Rc'' [G ''sVb'', G ''omd'', G ''kmd'']), Do (Call ''Rc'' [G ''sVb'', G ''smd'', G ''kmd'']), Do (Call ''Rc'' [G ''sVb'', G ''umd'', G ''kmd'']), Do (Call ''Rc'' [G ''sVb'', G ''lmd'', G ''kmd'']), Do (Call ''Rc'' [G ''sVb'', G ''rmd'', G ''kmd'']), Do (Call ''Rc'' [G ''sVb'', G ''nmd'', G ''tmd'']), Do (Call ''Rc'' [G ''sVb'', G ''imd'', G ''tmd'']), Do (Call ''Rc'' [G ''sVb'', G ''vmd'', G ''tmd'']), Do (Call ''Rc'' [G ''sVb'', G ''omd'', G ''tmd'']), Do (Call ''Rc'' [G ''sVb'', G ''mmd'', G ''pmd'']), Do (Call ''Rc'' [G ''sVb'', G ''nmd'', G ''pmd'']), Do (Call ''Rc'' [G ''sVb'', G ''vmd'', G ''pmd'']), Do (Call ''Rc'' [G ''sVb'', G ''xmd'', G ''pmd'']), Do (Call ''Rc'' [G ''sVb'', G ''omd'', G ''pmd'']), Do (Call ''Rc'' [G ''sVb'', G ''smd'', G ''pmd'']), Do (Call ''Rc'' [G ''sVb'', G ''umd'', G ''pmd'']), Do (Call ''Rc'' [G ''sVb'', G ''umd'', G ''qmd'']), Do (Call ''Rc'' [G ''sVb'', G ''omd'', G ''qmd'']), Do (Call ''Rc'' [G ''sVb'', G ''lmd'', G ''mmd'']), Do (Call ''Rc'' [G ''sVb'', G ''lmd'', G ''xmd'']), Do (Call ''Rc'' [G ''sVb'', G ''lmd'', G ''imd'']), Do (Call ''Rc'' [G ''sVb'', G ''smd'', G ''mmd'']), Do (Call ''Rc'' [G ''sVb'', G ''smd'', G ''nmd'']), Do (Call ''Rc'' [G ''sVb'', G ''smd'', G ''vmd''])],
    fn ''KNc'' 3 20 [Do (Meth (V 2) ''Tg'' [K (JStr ''Brandes & Koepf node placement''), K (JNum 1)]), Do (Put (V 0) ''a'' (V 1)), Do (Put (V 0) ''c'' (Call ''TNc'' [V 1])), Do (SetV 3 (Call ''JD'' [Call ''oNb'' [V 1, Seq (Call ''nyc'' []) (G ''Vwc'')], K (JNum 282)])), Do (SetV 13 (Call ''Rdb'' [Call ''LD'' [Call ''oNb'' [V 1, G ''Wwc'']]])), Do (Put (V 0) ''d'' (Or (And (Loose (V 3) (Seq (Call ''vpc'' []) (G ''spc''))) (Neg (V 13))) (Loose (V 3) (G ''ppc'')))), Do (Call ''JNc'' [V 0, V 1]), Do (SetV 21 (K JNull)), Do (SetV 22 (K JNull)), Do (SetV 17 (K JNull)), Do (SetV 18 (K JNull)), Do (SetV 16 (Seq (Call ''bk'' [K (JNum 4), G ''wue'']) (New ''mmb'' [K (JNum 4)]))), Switch (Dot (Call ''JD'' [Call ''oNb'' [V 1, G ''Vwc''], K (JNum 282)]) ''g'') [(Some (JNum 3), [Do (SetV 17 (New ''bNc'' [V 1, Dot (Dot (V 0) ''c'') ''d'', Seq (Call ''nNc'' []) (G ''lNc''), Seq (Call ''fNc'' []) (G ''dNc'')])), Do (Call ''qDb'' [Dot (V 16) ''c'', V 17]), Break]), (Some (JNum 1), [Do (SetV 18 (New ''bNc'' [V 1, Dot (Dot (V 0) ''c'') ''d'', Seq (Call ''nNc'' []) (G ''mNc''), Seq (Call ''fNc'' []) (G ''dNc'')])), Do (Call ''qDb'' [Dot (V 16) ''c'', V 18]), Break]), (Some (JNum 4), [Do (SetV 21 (New ''bNc'' [V 1, Dot (Dot (V 0) ''c'') ''d'', Seq (Call ''nNc'' []) (G ''lNc''), Seq (Call ''fNc'' []) (G ''eNc'')])), Do (Call ''qDb'' [Dot (V 16) ''c'', V 21]), Break]), (Some (JNum 2), [Do (SetV 22 (New ''bNc'' [V 1, Dot (Dot (V 0) ''c'') ''d'', Seq (Call ''nNc'' []) (G ''mNc''), Seq (Call ''fNc'' []) (G ''eNc'')])), Do (Call ''qDb'' [Dot (V 16) ''c'', V 22]), Break]), (None, [Do (SetV 17 (New ''bNc'' [V 1, Dot (Dot (V 0) ''c'') ''d'', Seq (Call ''nNc'' []) (G ''lNc''), Seq (Call ''fNc'' []) (G ''dNc'')])), Do (SetV 18 (New ''bNc'' [V 1, Dot (Dot (V 0) ''c'') ''d'', G ''mNc'', G ''dNc''])), Do (SetV 21 (New ''bNc'' [V 1, Dot (Dot (V 0) ''c'') ''d'', G ''lNc'', G ''eNc''])), Do (SetV 22 (New ''bNc'' [V 1, Dot (Dot (V 0) ''c'') ''d'', G ''mNc'', G ''eNc''])), Do (Call ''qDb'' [Dot (V 16) ''c'', V 21]), Do (Call ''qDb'' [Dot (V 16) ''c'', V 22]), Do (Call ''qDb'' [Dot (V 16) ''c'', V 17]), Do (Call ''qDb'' [Dot (V 16) ''c'', V 18])])], Do (SetV 4 (New ''vNc'' [V 1, Dot (V 0) ''c''])), Do (SetV 7 (New ''Kmb'' [V 16])), Loop (Bin Lt (Dot (V 7) ''a'') (Dot (Dot (Dot (V 7) ''c'') ''c'') ''length'')) [Do (SetV 5 (Call ''JD'' [Call ''Imb'' [V 7], K (JNum 185)])), Do (Call ''uNc'' [V 4, V 5, Dot (V 0) ''b'']), Do (Call ''tNc'' [V 5])] [], Do (SetV 12 (New ''ANc'' [V 1, Dot (V 0) ''c''])), Do (SetV 8 (New ''Kmb'' [V 16])), Loop (Bin Lt (Dot (V 8) ''a'') (Dot (Dot (Dot (V 8) ''c'') ''c'') ''length'')) [Do (SetV 5 (Call ''JD'' [Call ''Imb'' [V 8], K (JNum 185)])), Do (Call ''xNc'' [V 12, V 5])] [], When (Meth (V 2) ''$g'' []) [Do (SetV 9 (New ''Kmb'' [V 16])), Loop (Bin Lt (Dot (V 9) ''a'') (Dot (Dot (Dot (V 9) ''c'') ''c'') ''length'')) [Do (SetV 5 (Call ''JD'' [Call ''Imb'' [V 9], K (JNum 185)])), Do (Meth (V 2) ''ah'' [Bin Plus (Bin Plus (V 5) (K (JStr '' size is ''))) (Call ''_Mc'' [V 5])])] []] [], Do (SetV 11 (K JNull)), When (Dot (V 0) ''d'') [Do (SetV 10 (Call ''HNc'' [V 0, V 16, Dot (Dot (V 0) ''c'') ''d''])), Do (And (Call ''GNc'' [V 1, V 10, V 2]) (SetV 11 (V 10)))] [], When (Neg (V 11)) [Do (SetV 9 (New ''Kmb'' [V 16])), Loop (Bin Lt (Dot (V 9) ''a'') (Dot (Dot (Dot (V 9) ''c'') ''c'') ''length'')) [Do (SetV 5 (Call ''JD'' [Call ''Imb'' [V 9], K (JNum 185)])), Do (And (And (Call ''GNc'' [V 1, V 5, V 2]) (Or (Neg (V 11)) (Bin Gt (Call ''_Mc'' [V 11]) (Call ''_Mc'' [V 5])))) (SetV 11 (V 5)))] []] [], Do (And (Neg (V 11)) (SetV 11 (Seq (Call ''MDb'' [K (JNum 0), Dot (Dot (V 16) ''c'') ''length'']) (Call ''JD'' [Idx (Dot (V 16) ''c'') (K (JNum 0)), K (JNum 185)])))), Do (SetV 15 (New ''Kmb'' [Dot (V 1) ''b''])), Loop (Bin Lt (Dot (V 15) ''a'') (Dot (Dot (Dot (V 15) ''c'') ''c'') ''length'')) [Do (SetV 14 (Call ''JD'' [Call ''Imb'' [V 15], K (JNum 25)])), Do (SetV 20 (New ''Kmb'' [Dot (V 14) ''a''])), Loop (Bin Lt (Dot (V 20) ''a'') (Dot (Dot (Dot (V 20) ''c'') ''c'') ''length'')) [Do (SetV 19 (Call ''JD'' [Call ''Imb'' [V 20], K (JNum 9)])), Do (Put (Dot (V 19) ''n'') ''b'' (Bin Plus (Call ''Ueb'' [Idx (Dot (V 11) ''p'') (Dot (V 19) ''p'')]) (Call ''Ueb'' [Idx (Dot (V 11) ''d'') (Dot (V 19) ''p'')])))] []] [], When (Meth (V 2) ''$g'' []) [Do (Meth (V 2) ''ah'' [Bin Plus (K (JStr ''Chosen node placement: '')) (V 11)]), Do (Meth (V 2) ''ah'' [Bin Plus (K (JStr ''Blocks: '')) (Call ''MNc'' [V 11])]), Do (Meth (V 2) ''ah'' [Bin Plus (K (JStr ''Classes: '')) (Call ''NNc'' [V 11, V 2])]), Do (Meth (V 2) ''ah'' [Bin Plus (K (JStr ''Marked edges: '')) (Dot (V 0) ''b'')])] [], Do (SetV 6 (New ''Kmb'' [V 16])), Loop (Bin Lt (Dot (V 6) ''a'') (Dot (Dot (Dot (V 6) ''c'') ''c'') ''length'')) [Do (SetV 5 (Call ''JD'' [Call ''Imb'' [V 6], K (JNum 185)])), Do (Put (V 5) ''g'' (K JNull)), Do (Put (V 5) ''b'' (K JNull)), Do (Put (V 5) ''a'' (K JNull)), Do (Put (V 5) ''d'' (K JNull)), Do (Put (V 5) ''j'' (K JNull)), Do (Put (V 5) ''i'' (K JNull)), Do (Put (V 5) ''p'' (K JNull))] [], Do (Call ''RNc'' [Dot (V 0) ''c'']), Do (Meth (Dot (Dot (V 0) ''b'') ''a'') ''$b'' []), Do (Meth (V 2) ''Ug'' [])]]"

definition code_6287_6287 :: "(string \<times> jfun) list" where
  "code_6287_6287 = [
    fn ''vlc'' 3 24 [When (And (Loose (Dot (V 1) ''k'') (Seq (Call ''$Yb'' []) (G ''VYb''))) (Loose (Dot (V 2) ''k'') (G ''XYb''))) [Do (SetV 5 (Dot (Call ''JD'' [Call ''dmb'' [Dot (Call ''JD'' [Call ''Uub'' [Call ''WBb'' [Call ''VBb'' [New ''jCb'' [K JNull, New ''Zvb'' [Dot (V 1) ''j'', K (JNum 16)]], New ''Flc'' []]]], K (JNum 12)]) ''e'', K (JNum 0)], K (JNum 17)]) ''c'')), Do (SetV 4 (Dot (V 5) ''i'')), Do (SetV 7 (Dot (Call ''JD'' [Call ''dmb'' [Dot (Call ''JD'' [Call ''Uub'' [Call ''WBb'' [Call ''VBb'' [New ''jCb'' [K JNull, New ''Zvb'' [Dot (V 1) ''j'', K (JNum 16)]], New ''Hlc'' []]]], K (JNum 12)]) ''g'', K (JNum 0)], K (JNum 17)]) ''d'')), Do (SetV 6 (Dot (V 7) ''i'')), Do (SetV 3 (Dot (Dot (V 1) ''c'') ''p'')), When (And (Neg (Loose (Dot (Dot (V 4) ''c'') ''p'') (V 3))) (Neg (Loose (Dot (Dot (V 6) ''c'') ''p'') (V 3)))) [Ret (K (JNum 0))] [], When (Loose (V 4) (V 2)) [Do (Call ''wlc'' [V 0, V 1, V 2]), Ret (K (JNum 1))] [When (Loose (V 6) (V 2)) [Do (Call ''wlc'' [V 0, V 1, V 2]), Ret (K (JNum 1))] [], Ret (Call ''tlc'' [V 0, V 4, V 2])]] [When (And (Loose (Dot (V 1) ''k'') (G ''XYb'')) (Loose (Dot (V 2) ''k'') (G ''VYb''))) [Do (SetV 5 (Dot (Call ''JD'' [Call ''dmb'' [Dot (Call ''JD'' [Call ''Uub'' [Call ''WBb'' [Call ''VBb'' [New ''jCb'' [K JNull, New ''Zvb'' [Dot (V 2) ''j'', K (JNum 16)]], New ''Flc'' []]]], K (JNum 12)]) ''e'', K (JNum 0)], K (JNum 17)]) ''c'')), Do (SetV 4 (Dot (V 5) ''i'')), Do (SetV 7 (Dot (Call ''JD'' [Call ''dmb'' [Dot (Call ''JD'' [Call ''Uub'' [Call ''WBb'' [Call ''VBb'' [New ''jCb'' [K JNull, New ''Zvb'' [Dot (V 2) ''j'', K (JNum 16)]], New ''Hlc'' []]]], K (JNum 12)]) ''g'', K (JNum 0)], K (JNum 17)]) ''d'')), Do (SetV 6 (Dot (V 7) ''i'')), Do (SetV 3 (Dot (Dot (V 1) ''c'') ''p'')), When (And (Neg (Loose (Dot (Dot (V 4) ''c'') ''p'') (V 3))) (Neg (Loose (Dot (Dot (V 6) ''c'') ''p'') (V 3)))) [Ret (K (JNum 0))] [], When (Loose (V 4) (V 1)) [Do (Call ''wlc'' [V 0, V 2, V 1]), Ret (K (JNum (- 1)))] [When (Loose (V 6) (V 1)) [Do (Call ''wlc'' [V 0, V 2, V 1]), Ret (K (JNum (- 1)))] [], Ret (Call ''tlc'' [V 0, V 1, V 4])]] [When (And (Loose (Dot (V 1) ''k'') (G ''VYb'')) (Loose (Dot (V 2) ''k'') (G ''VYb''))) [Do (SetV 12 (Dot (Call ''JD'' [Call ''dmb'' [Dot (Call ''JD'' [Call ''Uub'' [Call ''WBb'' [Call ''VBb'' [New ''jCb'' [K JNull, New ''Zvb'' [Dot (V 1) ''j'', K (JNum 16)]], New ''Flc'' []]]], K (JNum 12)]) ''e'', K (JNum 0)], K (JNum 17)]) ''c'')), Do (SetV 13 (Dot (Call ''JD'' [Call ''dmb'' [Dot (Call ''JD'' [Call ''Uub'' [Call ''WBb'' [Call ''VBb'' [New ''jCb'' [K JNull, New ''Zvb'' [Dot (V 1) ''j'', K (JNum 16)]], New ''Hlc'' []]]], K (JNum 12)]) ''g'', K (JNum 0)], K (JNum 17)]) ''d'')), Do (SetV 14 (Dot (V 12) ''i'')), Do (SetV 15 (Dot (V 13) ''i'')), Do (SetV 8 (Dot (Dot (V 1) ''c'') ''p'')), Do (SetV 10 (K (JBool False))), Do (SetV 11 (K (JBool False))), Do (SetV 20 (Dot (Call ''JD'' [Call ''dmb'' [Dot (Call ''JD'' [Call ''Uub'' [Call ''WBb'' [Call ''VBb'' [New ''jCb'' [K JNull, New ''Zvb'' [Dot (V 2) ''j'', K (JNum 16)]], New ''Flc'' []]]], K (JNum 12)]) ''e'', K (JNum 0)], K (JNum 17)]) ''c'')), Do (SetV 21 (Dot (Call ''JD'' [Call ''dmb'' [Dot (Call ''JD'' [Call ''Uub'' [Call ''WBb'' [Call ''VBb'' [New ''jCb'' [K JNull, New ''Zvb'' [Dot (V 2) ''j'', K (JNum 16)]], New ''Hlc'' []]]], K (JNum 12)]) ''g'', K (JNum 0)], K (JNum 17)]) ''d'')), Do (SetV 22 (Dot (V 20) ''i'')), Do (SetV 23 (Dot (V 21) ''i'')), Do (SetV 16 (Dot (Dot (V 2) ''c'') ''p'')), Do (SetV 18 (K (JBool False))), Do (SetV 19 (K (JBool False))), Do (SetV 9 (V 1)), Do (SetV 17 (V 2)), When (Loose (Dot (Dot (V 14) ''c'') ''p'') (V 8)) [Do (SetV 10 (K (JBool True))), Do (SetV 9 (V 14))] [When (Loose (Dot (Dot (V 15) ''c'') ''p'') (V 8)) [Do (SetV 11 (K (JBool True))), Do (SetV 9 (V 15))] []], When (Loose (Dot (Dot (V 22) ''c'') ''p'') (V 16)) [Do (SetV 18 (K (JBool True))), Do (SetV 17 (V 22))] [When (Loose (Dot (Dot (V 23) ''c'') ''p'') (V 16)) [Do (SetV 19 (K (JBool True))), Do (SetV 17 (V 23))] []], When (Loose (V 9) (V 17)) [When (Dot (V 0) ''a'') [When (And (V 10) (V 18)) [Do (SetV 26 (Call ''Nlc'' [New ''Qlc'' [Dot (V 0) ''c'', Dot (V 0) ''f'', Dot (V 0) ''e'', K JNull, V 19], V 12, V 20])), When (Bin Gt (V 26) (K (JNum 0))) [Do (Call ''wlc'' [V 0, V 2, V 1]), Ret (K (JNum 1))] [Do (Call ''wlc'' [V 0, V 1, V 2]), Ret (K (JNum (- 1)))]] [When (And (V 10) (V 19)) [Do (Call ''wlc'' [V 0, V 2, V 1]), Ret (K (JNum 1))] [When (And (V 11) (V 18)) [Do (Call ''wlc'' [V 0, V 1, V 2]), Ret (K (JNum (- 1)))] [When (And (V 11) (V 19)) [Ret (K (JNum 0))] []]]]] [Do (SetV 25 (New ''Kmb'' [Dot (V 9) ''j''])), Loop (Bin Lt (Dot (V 25) ''a'') (Dot (Dot (Dot (V 25) ''c'') ''c'') ''length'')) [Do (SetV 24 (Call ''JD'' [Call ''Imb'' [V 25], K (JNum 12)])), When (Loose (V 12) (V 24)) [Do (Call ''wlc'' [V 0, V 2, V 1]), Ret (K (JNum (- 1)))] [When (Loose (V 20) (V 24)) [Do (Call ''wlc'' [V 0, V 1, V 2]), Ret (K (JNum 1))] []]] []]] [], Ret (Call ''tlc'' [V 0, V 9, V 17])] [Ret (K (JNum 0))]]]]]"

definition code_6289_6291 :: "(string \<times> jfun) list" where
  "code_6289_6291 = [
    fn ''s5d'' 2 0 [Switch (Dot (V 0) ''e'') [(Some (JNum 0), []), (Some (JNum 2), []), (Some (JNum 4), []), (Some (JNum 6), []), (Some (JNum 42), []), (Some (JNum 44), []), (Some (JNum 46), []), (Some (JNum 48), []), (Some (JNum 8), []), (Some (JNum 10), []), (Some (JNum 12), []), (Some (JNum 14), []), (Some (JNum 16), []), (Some (JNum 18), []), (Some (JNum 20), []), (Some (JNum 22), []), (Some (JNum 24), []), (Some (JNum 26), []), (Some (JNum 28), []), (Some (JNum 30), []), (Some (JNum 32), []), (Some (JNum 34), []), (Some (JNum 36), []), (Some (JNum 38), [Ret (New ''Fhe'' [Dot (V 0) ''b'', Dot (V 0) ''a'', V 1, Dot (V 0) ''c''])]), (Some (JNum 1), [Ret (New ''mYd'' [Dot (V 0) ''a'', V 1, Call ''OWd'' [Meth (V 1) ''Ah'' [], Dot (V 0) ''c'']])]), (Some (JNum 43), [Ret (New ''yge'' [Dot (V 0) ''a'', V 1, Call ''OWd'' [Meth (V 1) ''Ah'' [], Dot (V 0) ''c'']])]), (Some (JNum 3), [Ret (New ''iYd'' [Dot (V 0) ''a'', V 1, Call ''OWd'' [Meth (V 1) ''Ah'' [], Dot (V 0) ''c'']])]), (Some (JNum 45), [Ret (New ''vge'' [Dot (V 0) ''a'', V 1, Call ''OWd'' [Meth (V 1) ''Ah'' [], Dot (V 0) ''c'']])]), (Some (JNum 41), [Ret (New ''QTd'' [Call ''JD'' [Call ''hUd'' [Dot (V 0) ''c''], K (JNum 29)], Dot (V 0) ''a'', V 1, Call ''OWd'' [Meth (V 1) ''Ah'' [], Dot (V 0) ''c'']])]), (Some (JNum 50), [Ret (New ''Phe'' [Call ''JD'' [Call ''hUd'' [Dot (V 0) ''c''], K (JNum 29)], Dot (V 0) ''a'', V 1, Call ''OWd'' [Meth (V 1) ''Ah'' [], Dot (V 0) ''c'']])]), (Some (JNum 5), [Ret (New ''Bge'' [Dot (V 0) ''a'', V 1, Call ''OWd'' [Meth (V 1) ''Ah'' [], Dot (V 0) ''c''], Dot (Dot (V 0) ''d'') ''n''])]), (Some (JNum 47), [Ret (New ''Fge'' [Dot (V 0) ''a'', V 1, Call ''OWd'' [Meth (V 1) ''Ah'' [], Dot (V 0) ''c''], Dot (Dot (V 0) ''d'') ''n''])]), (Some (JNum 7), [Ret (New ''P3d'' [Dot (V 0) ''a'', V 1, Call ''OWd'' [Meth (V 1) ''Ah'' [], Dot (V 0) ''c''], Dot (Dot (V 0) ''d'') ''n''])]), (Some (JNum 49), [Ret (New ''T3d'' [Dot (V 0) ''a'', V 1, Call ''OWd'' [Meth (V 1) ''Ah'' [], Dot (V 0) ''c''], Dot (Dot (V 0) ''d'') ''n''])]), (Some (JNum 9), [Ret (New ''tge'' [Dot (V 0) ''a'', V 1, Call ''OWd'' [Meth (V 1) ''Ah'' [], Dot (V 0) ''c'']])]), (Some (JNum 11), [Ret (New ''rge'' [Dot (V 0) ''a'', V 1, Call ''OWd'' [Meth (V 1) ''Ah'' [], Dot (V 0) ''c'']])]), (Some (JNum 13), [Ret (New ''nge'' [Dot (V 0) ''a'', V 1, Call ''OWd'' [Meth (V 1) ''Ah'' [], Dot (V 0) ''c'']])]), (Some (JNum 15), [Ret (New ''Xde'' [Dot (V 0) ''a'', V 1, Call ''OWd'' [Meth (V 1) ''Ah'' [], Dot (V 0) ''c'']])]), (Some (JNum 17), [Ret (New ''Pge'' [Dot (V 0) ''a'', V 1, Call ''OWd'' [Meth (V 1) ''Ah'' [], Dot (V 0) ''c'']])]), (Some (JNum 19), [Ret (New ''Mge'' [Dot (V 0) ''a'', V 1, Call ''OWd'' [Meth (V 1) ''Ah'' [], Dot (V 0) ''c'']])]), (Some (JNum 21), [Ret (New ''Ige'' [Dot (V 0) ''a'', V 1, Call ''OWd'' [Meth (V 1) ''Ah'' [], Dot (V 0) ''c'']])]), (Some (JNum 23), [Ret (New ''aYd'' [Dot (V 0) ''a'', V 1, Call ''OWd'' [Meth (V 1) ''Ah'' [], Dot (V 0) ''c'']])]), (Some (JNum 25), [Ret (New ''ohe'' [Dot (V 0) ''a'', V 1, Call ''OWd'' [Meth (V 1) ''Ah'' [], Dot (V 0) ''c''], Dot (Dot (V 0) ''d'') ''n''])]), (Some (JNum 27), [Ret (New ''jhe'' [Dot (V 0) ''a'', V 1, Call ''OWd'' [Meth (V 1) ''Ah'' [], Dot (V 0) ''c''], Dot (Dot (V 0) ''d'') ''n''])]), (Some (JNum 29), [Ret (New ''ehe'' [Dot (V 0) ''a'', V 1, Call ''OWd'' [Meth (V 1) ''Ah'' [], Dot (V 0) ''c''], Dot (Dot (V 0) ''d'') ''n''])]), (Some (JNum 31), [Ret (New ''$ge'' [Dot (V 0) ''a'', V 1, Call ''OWd'' [Meth (V 1) ''Ah'' [], Dot (V 0) ''c''], Dot (Dot (V 0) ''d'') ''n''])]), (Some (JNum 33), [Ret (New ''lhe'' [Dot (V 0) ''a'', V 1, Call ''OWd'' [Meth (V 1) ''Ah'' [], Dot (V 0) ''c''], Dot (Dot (V 0) ''d'') ''n''])]), (Some (JNum 35), [Ret (New ''ghe'' [Dot (V 0) ''a'', V 1, Call ''OWd'' [Meth (V 1) ''Ah'' [], Dot (V 0) ''c''], Dot (Dot (V 0) ''d'') ''n''])]), (Some (JNum 37), [Ret (New ''ahe'' [Dot (V 0) ''a'', V 1, Call ''OWd'' [Meth (V 1) ''Ah'' [], Dot (V 0) ''c''], Dot (Dot (V 0) ''d'') ''n''])]), (Some (JNum 39), [Ret (New ''Vge'' [Dot (V 0) ''a'', V 1, Call ''OWd'' [Meth (V 1) ''Ah'' [], Dot (V 0) ''c''], Dot (Dot (V 0) ''d'') ''n''])]), (Some (JNum 40), [Ret (New ''ffe'' [V 1, Call ''OWd'' [Meth (V 1) ''Ah'' [], Dot (V 0) ''c'']])]), (None, [Raise (Call ''Lcb'' [New ''qz'' [Bin Plus (K (JStr ''Unknown feature style: '')) (Dot (V 0) ''e'')]])])]],
    fn ''Q$b'' 3 27 [Do (SetV 7 (New ''dub'' [])), Do (SetV 23 (Call ''JD'' [Call ''oNb'' [V 2, Seq (Call ''nyc'' []) (G ''bwc'')], K (JNum 86)])), Do (SetV 16 (K (JNum 0))), Do (SetV 3 (New ''hsb'' [])), Do (Call ''xe'' [V 7, Seq (And (Neg (Dot (V 1) ''a'')) (Put (V 1) ''a'' (New ''P3d'' [G ''T3'', V 1, K (JNum 10), K (JNum 11)]))) (Dot (V 1) ''a'')]), Loop (Neg (Loose (Dot (V 7) ''b'') (K (JNum 0)))) [Do (SetV 11 (Call ''JD'' [Cond (Loose (Dot (V 7) ''b'') (K (JNum 0))) (K JNull) (Seq (Call ''LDb'' [Neg (Loose (Dot (V 7) ''b'') (K (JNum 0)))]) (Call ''bub'' [V 7, Dot (Dot (V 7) ''a'') ''a''])), K (JNum 26)])), Do (SetV 10 (Call ''Rzd'' [V 11])), When (And (Call ''S$b'' [V 10]) (Neg (Call ''Rdb'' [Call ''LD'' [Call ''cvd'' [V 11, G ''Mvc'']]]))) [Do (Call ''evd'' [V 11, Seq (Call ''Wrc'' []) (G ''trc''), Call ''Cfb'' [Bin Minus (SetV 16 (Bin Minus (V 16) (K (JNum (- 1))))) (K (JNum 1))]]), Do (And (Call ''dvd'' [V 11, G ''Kvc'']) (Call ''esb'' [V 3, Call ''JD'' [Call ''cvd'' [V 11, G ''Kvc''], K (JNum 15)]]))] [], Do (SetV 18 (Neg (Call ''Rdb'' [Call ''LD'' [Call ''cvd'' [V 11, G ''exc'']]]))), When (V 18) [Do (SetV 13 (Neg (Loose (Dot (Seq (And (Neg (Dot (V 11) ''a'')) (Put (V 11) ''a'' (New ''P3d'' [G ''T3'', V 11, K (JNum 10), K (JNum 11)]))) (Dot (V 11) ''a'')) ''i'') (K (JNum 0))))), Do (SetV 15 (Call ''N$b'' [V 11])), Do (SetV 14 (Same (Call ''XD'' [Call ''cvd'' [V 11, G ''swc'']]) (Call ''XD'' [Seq (Call ''Qkd'' []) (G ''Nkd'')]))), Do (SetV 29 (Or (Neg (Call ''dvd'' [V 11, Seq (Call ''vjd'' []) (G ''uhd'')])) (Call ''ugb'' [Call ''OD'' [Call ''cvd'' [V 11, G ''uhd'']]]))), Do (SetV 21 (K JNull)), When (And (And (V 29) (V 14)) (Or (V 13) (V 15))) [Do (SetV 21 (Call ''K$b'' [V 11])), Do (Call ''rNb'' [V 21, G ''bwc'', V 23]), Do (And (Call ''pNb'' [V 21, G ''Exc'']) (Call ''wyc'' [New ''Gyc'' [Call ''Ueb'' [Call ''MD'' [Call ''oNb'' [V 21, G ''Exc'']]]], V 21])), When (Neg (Loose (Meth (Call ''JD'' [Call ''cvd'' [V 11, G ''axc''], K (JNum 182)]) ''gc'' []) (K (JNum 0)))) [Do (SetV 12 (V 21)), Do (Call ''YBb'' [New ''jCb'' [K JNull, Seq (And (Neg (Dot (V 11) ''c'')) (Put (V 11) ''c'' (New ''P3d'' [G ''U3'', V 11, K (JNum 9), K (JNum 9)]))) (New ''Zvb'' [Dot (V 11) ''c'', K (JNum 16)])], New ''g_b'' [V 12]]), Do (Call ''G$b'' [V 11, V 21])] []] [], Do (SetV 24 (V 2)), Do (SetV 25 (Call ''JD'' [Call ''ejb'' [Dot (V 0) ''a'', Call ''Rzd'' [V 11]], K (JNum 9)])), Do (And (Neg (Neg (V 25))) (SetV 24 (Dot (V 25) ''e''))), Do (SetV 20 (Call ''W$b'' [V 0, V 11, V 24])), When (V 21) [Do (Put (V 20) ''e'' (V 21)), Do (Put (V 21) ''e'' (V 20)), Do (Call ''xe'' [V 7, Seq (And (Neg (Dot (V 11) ''a'')) (Put (V 11) ''a'' (New ''P3d'' [G ''T3'', V 11, K (JNum 10), K (JNum 11)]))) (Dot (V 11) ''a'')])] []] []] [], Do (Call ''rNb'' [V 2, Seq (Call ''Wrc'' []) (G ''rrc''), Call ''Cfb'' [V 16]]), Do (Call ''rNb'' [V 2, G ''Nqc'', Call ''Cfb'' [Meth (Dot (V 3) ''a'') ''gc'' []]]), Do (SetV 16 (K (JNum 0))), Do (Call ''Wtb'' [V 7, V 1, Dot (Dot (V 7) ''c'') ''b'', Dot (V 7) ''c'']), Loop (Neg (Loose (Dot (V 7) ''b'') (K (JNum 0)))) [Do (SetV 6 (Call ''JD'' [Cond (Loose (Dot (V 7) ''b'') (K (JNum 0))) (K JNull) (Seq (Call ''LDb'' [Neg (Loose (Dot (V 7) ''b'') (K (JNum 0)))]) (Call ''bub'' [V 7, Dot (Dot (V 7) ''a'') ''a''])), K (JNum 26)])), Do (SetV 9 (New ''uKd'' [Seq (And (Neg (Dot (V 6) ''b'')) (Put (V 6) ''b'' (New ''P3d'' [G ''Q3'', V 6, K (JNum 12), K (JNum 3)]))) (Dot (V 6) ''b'')])), Loop (Neg (Loose (Dot (V 9) ''e'') (Meth (Dot (V 9) ''i'') ''gc'' []))) [Do (SetV 8 (Call ''JD'' [Call ''sKd'' [V 9], K (JNum 85)])), Do (Call ''I$b'' [V 8]), Do (And (Call ''S$b'' [V 1]) (Call ''evd'' [V 8, G ''trc'', Call ''Cfb'' [Bin Minus (SetV 16 (Bin Minus (V 16) (K (JNum (- 1))))) (K (JNum 1))]])), Do (SetV 27 (Call ''TEd'' [Call ''JD'' [Call ''fGd'' [Seq (And (Neg (Dot (V 8) ''b'')) (Put (V 8) ''b'' (New ''jhe'' [G ''O3'', V 8, K (JNum 4), K (JNum 7)]))) (Dot (V 8) ''b''), K (JNum 0)], K (JNum 84)]])), Do (SetV 28 (Call ''TEd'' [Call ''JD'' [Call ''fGd'' [Seq (And (Neg (Dot (V 8) ''c'')) (Put (V 8) ''c'' (New ''jhe'' [G ''O3'', V 8, K (JNum 5), K (JNum 8)]))) (Dot (V 8) ''c''), K (JNum 0)], K (JNum 84)]])), When (Or (Or (Call ''Rdb'' [Call ''LD'' [Call ''cvd'' [V 8, G ''exc'']]]) (Call ''Rdb'' [Call ''LD'' [Call ''cvd'' [V 27, G ''exc'']]])) (Call ''Rdb'' [Call ''LD'' [Call ''cvd'' [V 28, G ''exc'']]])) [Continue] [], Do (SetV 17 (And (And (Call ''Kwd'' [V 8]) (Call ''Rdb'' [Call ''LD'' [Call ''cvd'' [V 27, G ''xwc'']]])) (Call ''Rdb'' [Call ''LD'' [Call ''cvd'' [V 8, G ''ywc'']]]))), Do (SetV 22 (V 6)), Do (Cond (Or (V 17) (Call ''cFd'' [V 28, V 27])) (SetV 22 (V 27)) (And (Call ''cFd'' [V 27, V 28]) (SetV 22 (V 28)))), Do (SetV 24 (V 2)), Do (SetV 25 (Call ''JD'' [Call ''ejb'' [Dot (V 0) ''a'', V 22], K (JNum 9)])), Do (And (Neg (Neg (V 25))) (SetV 24 (Dot (V 25) ''e''))), Do (SetV 19 (Call ''T$b'' [V 0, V 8, V 22, V 24])), Do (Call ''rNb'' [V 19, G ''Qqc'', Call ''M$b'' [V 0, V 8, V 1, V 2]])] [], Do (SetV 14 (Same (Call ''XD'' [Call ''cvd'' [V 6, G ''swc'']]) (Call ''XD'' [Seq (Call ''Qkd'' []) (G ''Nkd'')]))), When (V 14) [Do (SetV 5 (New ''uKd'' [Seq (And (Neg (Dot (V 6) ''a'')) (Put (V 6) ''a'' (New ''P3d'' [G ''T3'', V 6, K (JNum 10), K (JNum 11)]))) (Dot (V 6) ''a'')])), Loop (Neg (Loose (Dot (V 5) ''e'') (Meth (Dot (V 5) ''i'') ''gc'' []))) [Do (SetV 4 (Call ''JD'' [Call ''sKd'' [V 5], K (JNum 26)])), Do (SetV 29 (Or (Neg (Call ''dvd'' [V 4, Seq (Call ''vjd'' []) (G ''uhd'')])) (Call ''ugb'' [Call ''OD'' [Call ''cvd'' [V 4, G ''uhd'']]]))), Do (SetV 26 (Same (Call ''XD'' [Call ''cvd'' [V 4, G ''swc'']]) (Call ''XD'' [G ''Nkd'']))), Do (And (And (V 29) (V 26)) (Seq (Call ''Wtb'' [V 7, V 4, Dot (Dot (V 7) ''c'') ''b'', Dot (V 7) ''c'']) (K (JBool True))))] []] []] []],
    fn ''S$c'' 1 8 [Do (SetV 5 (K (JNum 0))), Do (SetV 4 (Dot (Dot (V 0) ''a'') ''b'')), Do (SetV 8 (Call ''Ztb'' [Dot (V 0) ''a'', K (JNum 0)])), Loop (Neg (Loose (Dot (V 8) ''b'') (Dot (Dot (V 8) ''d'') ''c''))) [Do (SetV 7 (Call ''JD'' [Call ''lub'' [V 8], K (JNum 240)])), Do (SetV 6 (Bin Divide (Bin Plus (V 5) (K (JNum 1))) (Bin Plus (V 4) (K (JNum 1))))), When (And (Neg (Dot (V 0) ''c'')) (Neg (Dot (V 0) ''d''))) [Ret (K JUndef)] [When (And (Neg (Neg (Dot (V 0) ''c''))) (Neg (Dot (V 0) ''d''))) [Do (Put (V 0) ''g'' (K (JBool True))), When (Loose (Dot (V 0) ''b'') (Seq (Call ''Djd'' []) (G ''zjd''))) [Do (SetV 3 (Bin Plus (Bin Plus (Dot (Dot (Dot (V 0) ''c'') ''e'') ''b'') (Dot (Dot (Dot (V 0) ''c'') ''f'') ''b'')) (Bin Times (Dot (V 0) ''e'') (Bin Plus (V 5) (K (JNum 1)))))), Do (SetV 1 (New ''lgd'' [Bin Plus (Call ''Ueb'' [Call ''MD'' [Call ''oNb'' [Dot (V 0) ''c'', Seq (Call ''_Wc'' []) (G ''PWc'')]]]) (Dot (V 0) ''e''), V 3])), Do (SetV 2 (New ''lgd'' [Bin Minus (Call ''Ueb'' [Call ''MD'' [Call ''oNb'' [Dot (V 0) ''c'', G ''QWc'']]]) (Dot (V 0) ''e''), V 3]))] [When (Loose (Dot (V 0) ''b'') (G ''Ajd'')) [Do (SetV 3 (Bin Plus (Bin Plus (Dot (Dot (Dot (V 0) ''c'') ''e'') ''b'') (Dot (Dot (Dot (V 0) ''c'') ''f'') ''b'')) (Bin Times (Dot (V 0) ''e'') (Bin Plus (V 5) (K (JNum 1)))))), Do (SetV 1 (New ''lgd'' [Bin Minus (Call ''Ueb'' [Call ''MD'' [Call ''oNb'' [Dot (V 0) ''c'', Seq (Call ''_Wc'' []) (G ''QWc'')]]]) (Dot (V 0) ''e''), V 3])), Do (SetV 2 (New ''lgd'' [Bin Plus (Call ''Ueb'' [Call ''MD'' [Call ''oNb'' [Dot (V 0) ''c'', G ''PWc'']]]) (Dot (V 0) ''e''), V 3]))] [When (Loose (Dot (V 0) ''b'') (G ''Cjd'')) [Do (SetV 3 (Bin Plus (Bin Plus (Dot (Dot (Dot (V 0) ''c'') ''e'') ''a'') (Dot (Dot (Dot (V 0) ''c'') ''f'') ''a'')) (Bin Times (Dot (V 0) ''e'') (Bin Plus (V 5) (K (JNum 1)))))), Do (SetV 1 (New ''lgd'' [V 3, Bin Plus (Call ''Ueb'' [Call ''MD'' [Call ''oNb'' [Dot (V 0) ''c'', Seq (Call ''_Wc'' []) (G ''PWc'')]]]) (Dot (V 0) ''e'')])), Do (SetV 2 (New ''lgd'' [V 3, Bin Minus (Call ''Ueb'' [Call ''MD'' [Call ''oNb'' [Dot (V 0) ''c'', G ''QWc'']]]) (Dot (V 0) ''e'')]))] [Do (SetV 3 (Bin Plus (Bin Plus (Dot (Dot (Dot (V 0) ''c'') ''e'') ''a'') (Dot (Dot (Dot (V 0) ''c'') ''f'') ''a'')) (Bin Times (Dot (V 0) ''e'') (Bin Plus (V 5) (K (JNum 1)))))), Do (SetV 1 (New ''lgd'' [V 3, Bin Minus (Call ''Ueb'' [Call ''MD'' [Call ''oNb'' [Dot (V 0) ''c'', Seq (Call ''_Wc'' []) (G ''QWc'')]]]) (Dot (V 0) ''e'')])), Do (SetV 2 (New ''lgd'' [V 3, Bin Plus (Call ''Ueb'' [Call ''MD'' [Call ''oNb'' [Dot (V 0) ''c'', G ''PWc'']]]) (Dot (V 0) ''e'')]))]]]] [When (And (Neg (Neg (Dot (V 0) ''c''))) (Neg (Neg (Dot (V 0) ''d'')))) [When (Loose (Dot (V 0) ''b'') (Seq (Call ''Djd'' []) (G ''zjd''))) [Do (SetV 3 (Bin Plus (Bin Times (Dot (Dot (Dot (V 0) ''d'') ''e'') ''b'') (V 6)) (Bin Times (Bin Plus (Dot (Dot (Dot (V 0) ''c'') ''e'') ''b'') (Dot (Dot (Dot (V 0) ''c'') ''f'') ''b'')) (Bin Minus (K (JNum 1)) (V 6))))), Do (SetV 1 (New ''lgd'' [Bin Plus (Call ''Ueb'' [Call ''MD'' [Call ''oNb'' [Dot (V 0) ''c'', Seq (Call ''_Wc'' []) (G ''PWc'')]]]) (Dot (V 0) ''e''), V 3])), Do (SetV 2 (New ''lgd'' [Bin Minus (Call ''Ueb'' [Call ''MD'' [Call ''oNb'' [Dot (V 0) ''c'', G ''QWc'']]]) (Dot (V 0) ''e''), V 3]))] [When (Loose (Dot (V 0) ''b'') (G ''Ajd'')) [Do (SetV 3 (Bin Plus (Bin Times (Dot (Dot (Dot (V 0) ''d'') ''e'') ''b'') (V 6)) (Bin Times (Bin Plus (Dot (Dot (Dot (V 0) ''c'') ''e'') ''b'') (Dot (Dot (Dot (V 0) ''c'') ''f'') ''b'')) (Bin Minus (K (JNum 1)) (V 6))))), Do (SetV 1 (New ''lgd'' [Bin Minus (Call ''Ueb'' [Call ''MD'' [Call ''oNb'' [Dot (V 0) ''c'', Seq (Call ''_Wc'' []) (G ''QWc'')]]]) (Dot (V 0) ''e''), V 3])), Do (SetV 2 (New ''lgd'' [Bin Plus (Call ''Ueb'' [Call ''MD'' [Call ''oNb'' [Dot (V 0) ''c'', G ''PWc'']]]) (Dot (V 0) ''e''), V 3]))] [When (Loose (Dot (V 0) ''b'') (G ''Cjd'')) [Do (SetV 3 (Bin Plus (Bin Times (Dot (Dot (Dot (V 0) ''d'') ''e'') ''a'') (V 6)) (Bin Times (Bin Plus (Dot (Dot (Dot (V 0) ''c'') ''e'') ''a'') (Dot (Dot (Dot (V 0) ''c'') ''f'') ''a'')) (Bin Minus (K (JNum 1)) (V 6))))), Do (SetV 1 (New ''lgd'' [V 3, Bin Plus (Call ''Ueb'' [Call ''MD'' [Call ''oNb'' [Dot (V 0) ''c'', Seq (Call ''_Wc'' []) (G ''PWc'')]]]) (Dot (V 0) ''e'')])), Do (SetV 2 (New ''lgd'' [V 3, Bin Minus (Call ''Ueb'' [Call ''MD'' [Call ''oNb'' [Dot (V 0) ''c'', G ''QWc'']]]) (Dot (V 0) ''e'')]))] [Do (SetV 3 (Bin Plus (Bin Times (Dot (Dot (Dot (V 0) ''d'') ''e'') ''a'') (V 6)) (Bin Times (Bin Plus (Dot (Dot (Dot (V 0) ''c'') ''e'') ''a'') (Dot (Dot (Dot (V 0) ''c'') ''f'') ''a'')) (Bin Minus (K (JNum 1)) (V 6))))), Do (SetV 1 (New ''lgd'' [V 3, Bin Minus (Call ''Ueb'' [Call ''MD'' [Call ''oNb'' [Dot (V 0) ''c'', Seq (Call ''_Wc'' []) (G ''QWc'')]]]) (Dot (V 0) ''e'')])), Do (SetV 2 (New ''lgd'' [V 3, Bin Plus (Call ''Ueb'' [Call ''MD'' [Call ''oNb'' [Dot (V 0) ''c'', G ''PWc'']]]) (Dot (V 0) ''e'')]))]]]] [Do (Put (V 0) ''f'' (K (JBool True))), When (Loose (Dot (V 0) ''b'') (Seq (Call ''Djd'' []) (G ''zjd''))) [Do (SetV 3 (Bin Minus (Dot (Dot (Dot (V 0) ''d'') ''e'') ''b'') (Bin Times (Dot (V 0) ''e'') (Bin Plus (V 5) (K (JNum 1)))))), Do (SetV 1 (New ''lgd'' [Bin Plus (Call ''Ueb'' [Call ''MD'' [Call ''oNb'' [Dot (V 0) ''d'', Seq (Call ''_Wc'' []) (G ''PWc'')]]]) (Dot (V 0) ''e''), V 3])), Do (SetV 2 (New ''lgd'' [Bin Minus (Call ''Ueb'' [Call ''MD'' [Call ''oNb'' [Dot (V 0) ''d'', G ''QWc'']]]) (Dot (V 0) ''e''), V 3]))] [When (Loose (Dot (V 0) ''b'') (G ''Ajd'')) [Do (SetV 3 (Bin Minus (Dot (Dot (Dot (V 0) ''d'') ''e'') ''b'') (Bin Times (Dot (V 0) ''e'') (Bin Plus (V 5) (K (JNum 1)))))), Do (SetV 1 (New ''lgd'' [Bin Minus (Call ''Ueb'' [Call ''MD'' [Call ''oNb'' [Dot (V 0) ''d'', Seq (Call ''_Wc'' []) (G ''QWc'')]]]) (Dot (V 0) ''e''), V 3])), Do (SetV 2 (New ''lgd'' [Bin Plus (Call ''Ueb'' [Call ''MD'' [Call ''oNb'' [Dot (V 0) ''d'', G ''PWc'']]]) (Dot (V 0) ''e''), V 3]))] [When (Loose (Dot (V 0) ''b'') (G ''Cjd'')) [Do (SetV 3 (Bin Minus (Dot (Dot (Dot (V 0) ''d'') ''e'') ''a'') (Bin Times (Dot (V 0) ''e'') (Bin Plus (V 5) (K (JNum 1)))))), Do (SetV 1 (New ''lgd'' [V 3, Bin Plus (Call ''Ueb'' [Call ''MD'' [Call ''oNb'' [Dot (V 0) ''d'', Seq (Call ''_Wc'' []) (G ''PWc'')]]]) (Dot (V 0) ''e'')])), Do (SetV 2 (New ''lgd'' [V 3, Bin Minus (Call ''Ueb'' [Call ''MD'' [Call ''oNb'' [Dot (V 0) ''d'', G ''QWc'']]]) (Dot (V 0) ''e'')]))] [Do (SetV 3 (Bin Minus (Dot (Dot (Dot (V 0) ''d'') ''e'') ''a'') (Bin Times (Dot (V 0) ''e'') (Bin Plus (V 5) (K (JNum 1)))))), Do (SetV 1 (New ''lgd'' [V 3, Bin Minus (Call ''Ueb'' [Call ''MD'' [Call ''oNb'' [Dot (V 0) ''d'', Seq (Call ''_Wc'' []) (G ''QWc'')]]]) (Dot (V 0) ''e'')])), Do (SetV 2 (New ''lgd'' [V 3, Bin Plus (Call ''Ueb'' [Call ''MD'' [Call ''oNb'' [Dot (V 0) ''d'', G ''PWc'']]]) (Dot (V 0) ''e'')]))]]]]]], Do (Put (Call ''JD'' [Dot (V 7) ''a'', K (JNum 8)]) ''a'' (Dot (V 1) ''a'')), Do (Put (Call ''JD'' [Dot (V 7) ''a'', K (JNum 8)]) ''b'' (Dot (V 1) ''b'')), Do (Put (Dot (V 7) ''b'') ''a'' (Dot (V 2) ''a'')), Do (Put (Dot (V 7) ''b'') ''b'' (Dot (V 2) ''b'')), Do (SetV 5 (Bin Minus (V 5) (K (JNum (- 1)))))] []]]"

definition code_6292_6294 :: "(string \<times> jfun) list" where
  "code_6292_6294 = [
    fn ''DA'' 6 12 [Switch (V 1) [(Some (JNum 71), [Do (SetV 7 (Cond (Bin Ge (Bin Minus (Meth (Dot (V 3) ''q'') ''getFullYear'' []) (G ''ave'')) (K (JNum (- 1900)))) (K (JNum 1)) (K (JNum 0)))), Do (Cond (Bin Ge (V 2) (K (JNum 4))) (Call ''hhb'' [V 0, Idx (Call ''WC'' [Call ''OC'' [G ''hJ'', K (JNum 1)], G ''aue'', K (JNum 2), K (JNum 6), NewArr [G ''cve'', G ''dve'']]) (V 7)]) (Call ''hhb'' [V 0, Idx (Call ''WC'' [Call ''OC'' [G ''hJ'', K (JNum 1)], G ''aue'', K (JNum 2), K (JNum 6), NewArr [K (JStr ''BC''), K (JStr ''AD'')]]) (V 7)])), Break]), (Some (JNum 121), [Do (Call ''sA'' [V 0, V 2, V 3]), Break]), (Some (JNum 77), [Do (Call ''rA'' [V 0, V 2, V 3]), Break]), (Some (JNum 107), [Do (SetV 8 (Meth (Dot (V 4) ''q'') ''getHours'' [])), Do (Cond (Loose (V 8) (K (JNum 0))) (Call ''MA'' [V 0, K (JNum 24), V 2]) (Call ''MA'' [V 0, V 8, V 2])), Break]), (Some (JNum 83), [Do (Call ''qA'' [V 0, V 2, V 4]), Break]), (Some (JNum 69), [Do (SetV 10 (Meth (Dot (V 3) ''q'') ''getDay'' [])), Do (Cond (Loose (V 2) (K (JNum 5))) (Call ''hhb'' [V 0, Idx (Call ''WC'' [Call ''OC'' [G ''hJ'', K (JNum 1)], G ''aue'', K (JNum 2), K (JNum 6), NewArr [K (JStr ''S''), K (JStr ''M''), K (JStr ''T''), K (JStr ''W''), K (JStr ''T''), K (JStr ''F''), K (JStr ''S'')]]) (V 10)]) (Cond (Loose (V 2) (K (JNum 4))) (Call ''hhb'' [V 0, Idx (Call ''WC'' [Call ''OC'' [G ''hJ'', K (JNum 1)], G ''aue'', K (JNum 2), K (JNum 6), NewArr [G ''eve'', G ''fve'', G ''gve'', G ''hve'', G ''ive'', G ''jve'', G ''kve'']]) (V 10)]) (Call ''hhb'' [V 0, Idx (Call ''WC'' [Call ''OC'' [G ''hJ'', K (JNum 1)], G ''aue'', K (JNum 2), K (JNum 6), NewArr [K (JStr ''Sun''), K (JStr ''Mon''), K (JStr ''Tue''), K (JStr ''Wed''), K (JStr ''Thu''), K (JStr ''Fri''), K (JStr ''Sat'')]]) (V 10)]))), Break]), (Some (JNum 97), [Do (Cond (And (Bin Ge (Meth (Dot (V 4) ''q'') ''getHours'' []) (K (JNum 12))) (Bin Lt (Meth (Dot (V 4) ''q'') ''getHours'' []) (K (JNum 24)))) (Call ''hhb'' [V 0, Idx (Call ''WC'' [Call ''OC'' [G ''hJ'', K (JNum 1)], G ''aue'', K (JNum 2), K (JNum 6), NewArr [K (JStr ''AM''), K (JStr ''PM'')]]) (K (JNum 1))]) (Call ''hhb'' [V 0, Idx (Call ''WC'' [Call ''OC'' [G ''hJ'', K (JNum 1)], G ''aue'', K (JNum 2), K (JNum 6), NewArr [K (JStr ''AM''), K (JStr ''PM'')]]) (K (JNum 0))])), Break]), (Some (JNum 104), [Do (SetV 11 (Bin Modulo (Meth (Dot (V 4) ''q'') ''getHours'' []) (K (JNum 12)))), Do (Cond (Loose (V 11) (K (JNum 0))) (Call ''MA'' [V 0, K (JNum 12), V 2]) (Call ''MA'' [V 0, V 11, V 2])), Break]), (Some (JNum 75), [Do (SetV 12 (Bin Modulo (Meth (Dot (V 4) ''q'') ''getHours'' []) (K (JNum 12)))), Do (Call ''MA'' [V 0, V 12, V 2]), Break]), (Some (JNum 72), [Do (SetV 13 (Meth (Dot (V 4) ''q'') ''getHours'' [])), Do (Call ''MA'' [V 0, V 13, V 2]), Break]), (Some (JNum 99), [Do (SetV 14 (Meth (Dot (V 3) ''q'') ''getDay'' [])), Do (Cond (Loose (V 2) (K (JNum 5))) (Call ''hhb'' [V 0, Idx (Call ''WC'' [Call ''OC'' [G ''hJ'', K (JNum 1)], G ''aue'', K (JNum 2), K (JNum 6), NewArr [K (JStr ''S''), K (JStr ''M''), K (JStr ''T''), K (JStr ''W''), K (JStr ''T''), K (JStr ''F''), K (JStr ''S'')]]) (V 14)]) (Cond (Loose (V 2) (K (JNum 4))) (Call ''hhb'' [V 0, Idx (Call ''WC'' [Call ''OC'' [G ''hJ'', K (JNum 1)], G ''aue'', K (JNum 2), K (JNum 6), NewArr [G ''eve'', G ''fve'', G ''gve'', G ''hve'', G ''ive'', G ''jve'', G ''kve'']]) (V 14)]) (Cond (Loose (V 2) (K (JNum 3))) (Call ''hhb'' [V 0, Idx (Call ''WC'' [Call ''OC'' [G ''hJ'', K (JNum 1)], G ''aue'', K (JNum 2), K (JNum 6), NewArr [K (JStr ''Sun''), K (JStr ''Mon''), K (JStr ''Tue''), K (JStr ''Wed''), K (JStr ''Thu''), K (JStr ''Fri''), K (JStr ''Sat'')]]) (V 14)]) (Call ''MA'' [V 0, V 14, K (JNum 1)])))), Break]), (Some (JNum 76), [Do (SetV 15 (Meth (Dot (V 3) ''q'') ''getMonth'' [])), Do (Cond (Loose (V 2) (K (JNum 5))) (Call ''hhb'' [V 0, Idx (Call ''WC'' [Call ''OC'' [G ''hJ'', K (JNum 1)], G ''aue'', K (JNum 2), K (JNum 6), NewArr [K (JStr ''J''), K (JStr ''F''), K (JStr ''M''), K (JStr ''A''), K (JStr ''M''), K (JStr ''J''), K (JStr ''J''), K (JStr ''A''), K (JStr ''S''), K (JStr ''O''), K (JStr ''N''), K (JStr ''D'')]]) (V 15)]) (Cond (Loose (V 2) (K (JNum 4))) (Call ''hhb'' [V 0, Idx (Call ''WC'' [Call ''OC'' [G ''hJ'', K (JNum 1)], G ''aue'', K (JNum 2), K (JNum 6), NewArr [G ''Que'', G ''Rue'', G ''Sue'', G ''Tue'', G ''Uue'', G ''Vue'', G ''Wue'', G ''Xue'', G ''Yue'', G ''Zue'', G ''$ue'', G ''_ue'']]) (V 15)]) (Cond (Loose (V 2) (K (JNum 3))) (Call ''hhb'' [V 0, Idx (Call ''WC'' [Call ''OC'' [G ''hJ'', K (JNum 1)], G ''aue'', K (JNum 2), K (JNum 6), NewArr [K (JStr ''Jan''), K (JStr ''Feb''), K (JStr ''Mar''), K (JStr ''Apr''), G ''Uue'', K (JStr ''Jun''), K (JStr ''Jul''), K (JStr ''Aug''), K (JStr ''Sep''), K (JStr ''Oct''), K (JStr ''Nov''), K (JStr ''Dec'')]]) (V 15)]) (Call ''MA'' [V 0, Bin Plus (V 15) (K (JNum 1)), V 2])))), Break]), (Some (JNum 81), [Do (SetV 16 (Bin DivInt (Meth (Dot (V 3) ''q'') ''getMonth'' []) (K (JNum 3)))), Do (Cond (Bin Lt (V 2) (K (JNum 4))) (Call ''hhb'' [V 0, Idx (Call ''WC'' [Call ''OC'' [G ''hJ'', K (JNum 1)], G ''aue'', K (JNum 2), K (JNum 6), NewArr [K (JStr ''Q1''), K (JStr ''Q2''), K (JStr ''Q3''), K (JStr ''Q4'')]]) (V 16)]) (Call ''hhb'' [V 0, Idx (Call ''WC'' [Call ''OC'' [G ''hJ'', K (JNum 1)], G ''aue'', K (JNum 2), K (JNum 6), NewArr [K (JStr ''1st quarter''), K (JStr ''2nd quarter''), K (JStr ''3rd quarter''), K (JStr ''4th quarter'')]]) (V 16)])), Break]), (Some (JNum 100), [Do (SetV 17 (Meth (Dot (V 3) ''q'') ''getDate'' [])), Do (Call ''MA'' [V 0, V 17, V 2]), Break]), (Some (JNum 109), [Do (SetV 9 (Meth (Dot (V 4) ''q'') ''getMinutes'' [])), Do (Call ''MA'' [V 0, V 9, V 2]), Break]), (Some (JNum 115), [Do (SetV 6 (Meth (Dot (V 4) ''q'') ''getSeconds'' [])), Do (Call ''MA'' [V 0, V 6, V 2]), Break]), (Some (JNum 122), [Do (Cond (Bin Lt (V 2) (K (JNum 4))) (Call ''hhb'' [V 0, Idx (Dot (V 5) ''c'') (K (JNum 0))]) (Call ''hhb'' [V 0, Idx (Dot (V 5) ''c'') (K (JNum 1))])), Break]), (Some (JNum 118), [Do (Call ''hhb'' [V 0, Dot (V 5) ''b'']), Break]), (Some (JNum 90), [Do (Cond (Bin Lt (V 2) (K (JNum 3))) (Call ''hhb'' [V 0, Call ''WA'' [V 5]]) (Cond (Loose (V 2) (K (JNum 3))) (Call ''hhb'' [V 0, Call ''VA'' [V 5]]) (Call ''hhb'' [V 0, Call ''YA'' [Dot (V 5) ''a'']]))), Break]), (None, [Ret (K (JBool False))])], Ret (K (JBool True))],
    fn ''T$b'' 4 26 [Do (Call ''I$b'' [V 1]), Do (SetV 8 (Call ''JD'' [Call ''fGd'' [Seq (And (Neg (Dot (V 1) ''b'')) (Put (V 1) ''b'' (New ''jhe'' [G ''O3'', V 1, K (JNum 4), K (JNum 7)]))) (Dot (V 1) ''b''), K (JNum 0)], K (JNum 84)])), Do (SetV 10 (Call ''JD'' [Call ''fGd'' [Seq (And (Neg (Dot (V 1) ''c'')) (Put (V 1) ''c'' (New ''jhe'' [G ''O3'', V 1, K (JNum 5), K (JNum 8)]))) (Dot (V 1) ''c''), K (JNum 0)], K (JNum 84)])), Do (SetV 7 (Call ''TEd'' [V 8])), Do (SetV 9 (Call ''TEd'' [V 10])), Do (SetV 6 (Cond (Loose (Dot (Seq (And (Neg (Dot (V 1) ''a'')) (Put (V 1) ''a'' (New ''P3d'' [G ''P3'', V 1, K (JNum 6), K (JNum 6)]))) (Dot (V 1) ''a'')) ''i'') (K (JNum 0))) (K JNull) (Call ''JD'' [Call ''fGd'' [Seq (And (Neg (Dot (V 1) ''a'')) (Put (V 1) ''a'' (New ''P3d'' [G ''P3'', V 1, K (JNum 6), K (JNum 6)]))) (Dot (V 1) ''a''), K (JNum 0)], K (JNum 170)]))), Do (SetV 23 (Call ''JD'' [Call ''ejb'' [Dot (V 0) ''a'', V 7], K (JNum 9)])), Do (SetV 27 (Call ''JD'' [Call ''ejb'' [Dot (V 0) ''a'', V 9], K (JNum 9)])), Do (SetV 24 (K JNull)), Do (SetV 28 (K JNull)), When (Call ''RD'' [V 8, K (JNum 193)]) [Do (SetV 22 (Call ''JD'' [Call ''ejb'' [Dot (V 0) ''a'', V 8], K (JNum 246)])), When (Call ''RD'' [V 22, K (JNum 12)]) [Do (SetV 24 (Call ''JD'' [V 22, K (JNum 12)]))] [When (Call ''RD'' [V 22, K (JNum 9)]) [Do (SetV 23 (Call ''JD'' [V 22, K (JNum 9)])), Do (SetV 24 (Call ''JD'' [Call ''dmb'' [Dot (V 23) ''j'', K (JNum 0)], K (JNum 12)]))] []]] [], When (Call ''RD'' [V 10, K (JNum 193)]) [Do (SetV 26 (Call ''JD'' [Call ''ejb'' [Dot (V 0) ''a'', V 10], K (JNum 246)])), When (Call ''RD'' [V 26, K (JNum 12)]) [Do (SetV 28 (Call ''JD'' [V 26, K (JNum 12)]))] [When (Call ''RD'' [V 26, K (JNum 9)]) [Do (SetV 27 (Call ''JD'' [V 26, K (JNum 9)])), Do (SetV 28 (Call ''JD'' [Call ''dmb'' [Dot (V 27) ''j'', K (JNum 0)], K (JNum 12)]))] []]] [], When (Or (Neg (V 23)) (Neg (V 27))) [Raise (Call ''Lcb'' [New ''Fbd'' [Bin Plus (Bin Plus (Bin Plus (Bin Plus (Bin Plus (Bin Plus (K (JStr ''The source or the target of edge '')) (V 1)) (K (JStr '' could not be found. ''))) (K (JStr ''This usually happens when an edge connects a node laid out by ELK Layered to a node in ''))) (K (JStr ''another level of hierarchy laid out by either another instance of ELK Layered or another ''))) (K (JStr ''layout algorithm alltogether. The former can be solved by setting the hierarchyHandling ''))) (K (JStr ''option to INCLUDE_CHILDREN.''))]])] [], Do (SetV 15 (New ''GWb'' [])), Do (Call ''mNb'' [V 15, V 1]), Do (Call ''rNb'' [V 15, Seq (Call ''Wrc'' []) (G ''urc''), V 1]), Do (Call ''rNb'' [V 15, Seq (Call ''nyc'' []) (G ''Bwc''), K JNull]), Do (SetV 13 (Call ''JD'' [Call ''oNb'' [V 3, G ''brc''], K (JNum 22)])), Do (And (Loose (V 23) (V 27)) (Meth (V 13) ''Ec'' [Seq (Call ''Xpc'' []) (G ''Wpc'')])), When (Neg (V 24)) [Do (SetV 21 (Seq (Call ''qAc'' []) (G ''oAc''))), Do (SetV 25 (K JNull)), When (And (Neg (Neg (V 6))) (Call ''Old'' [Call ''JD'' [Call ''oNb'' [V 23, G ''qxc''], K (JNum 102)]])) [Do (SetV 25 (New ''lgd'' [Dot (V 6) ''j'', Dot (V 6) ''k''])), Do (Call ''fqd'' [V 25, Call ''Gwd'' [V 1]]), Do (Call ''gqd'' [V 25, V 2]), When (Call ''cFd'' [V 9, V 7]) [Do (SetV 21 (G ''nAc'')), Do (Call ''Vfd'' [V 25, Dot (V 23) ''n''])] []] [], Do (SetV 24 (Call ''NXb'' [V 23, V 25, V 21, V 3]))] [], When (Neg (V 28)) [Do (SetV 21 (Seq (Call ''qAc'' []) (G ''nAc''))), Do (SetV 29 (K JNull)), When (And (Neg (Neg (V 6))) (Call ''Old'' [Call ''JD'' [Call ''oNb'' [V 27, G ''qxc''], K (JNum 102)]])) [Do (SetV 29 (New ''lgd'' [Dot (V 6) ''b'', Dot (V 6) ''c''])), Do (Call ''fqd'' [V 29, Call ''Gwd'' [V 1]]), Do (Call ''gqd'' [V 29, V 2])] [], Do (SetV 28 (Call ''NXb'' [V 27, V 29, V 21, Call ''DYb'' [V 27]]))] [], Do (Call ''CWb'' [V 15, V 24]), Do (Call ''DWb'' [V 15, V 28]), Do (And (Or (Or (Or (Bin Gt (Dot (Dot (Dot (V 24) ''e'') ''c'') ''length'') (K (JNum 1))) (Bin Gt (Dot (Dot (Dot (V 24) ''g'') ''c'') ''length'') (K (JNum 1)))) (Bin Gt (Dot (Dot (Dot (V 28) ''e'') ''c'') ''length'') (K (JNum 1)))) (Bin Gt (Dot (Dot (Dot (V 28) ''g'') ''c'') ''length'') (K (JNum 1)))) (Meth (V 13) ''Ec'' [Seq (Call ''Xpc'' []) (G ''Rpc'')])), Do (SetV 12 (New ''uKd'' [Seq (And (Neg (Dot (V 1) ''n'')) (Put (V 1) ''n'' (New ''P3d'' [G ''S3'', V 1, K (JNum 1), K (JNum 7)]))) (Dot (V 1) ''n'')])), Loop (Neg (Loose (Dot (V 12) ''e'') (Meth (Dot (V 12) ''i'') ''gc'' []))) [Do (SetV 11 (Call ''JD'' [Call ''sKd'' [V 12], K (JNum 157)])), When (And (Neg (Call ''Rdb'' [Call ''LD'' [Call ''cvd'' [V 11, G ''exc'']]])) (Neg (Neg (Dot (V 11) ''a'')))) [Do (SetV 16 (Call ''V$b'' [V 11])), Do (Call ''_lb'' [Dot (V 15) ''b'', V 16]), Switch (Dot (Call ''JD'' [Call ''oNb'' [V 16, G ''gwc''], K (JNum 279)]) ''g'') [(Some (JNum 1), []), (Some (JNum 2), [Do (Meth (V 13) ''Ec'' [Seq (Call ''Xpc'' []) (G ''Ppc'')]), Break]), (Some (JNum 0), [Do (Meth (V 13) ''Ec'' [Seq (Call ''Xpc'' []) (G ''Npc'')]), Do (Call ''rNb'' [V 16, G ''gwc'', Seq (Call ''Zjd'' []) (G ''Wjd'')])])]] []] [], Do (SetV 5 (Call ''JD'' [Call ''oNb'' [V 3, G ''$vc''], K (JNum 301)])), Do (SetV 17 (Call ''JD'' [Call ''oNb'' [V 3, G ''_wc''], K (JNum 303)])), Do (SetV 4 (Or (Loose (V 5) (Seq (Call ''Xnc'' []) (G ''Tnc''))) (Loose (V 17) (Seq (Call ''yzc'' []) (G ''uzc''))))), When (And (And (Neg (Neg (V 6))) (Neg (Loose (Dot (Seq (And (Neg (Dot (V 6) ''a'')) (Put (V 6) ''a'' (New ''iYd'' [G ''N3'', V 6, K (JNum 5)]))) (Dot (V 6) ''a'')) ''i'') (K (JNum 0))))) (V 4)) [Do (SetV 18 (Call ''Upd'' [V 6])), Do (SetV 14 (New ''ygd'' [])), Do (SetV 20 (Call ''Ztb'' [V 18, K (JNum 0)])), Loop (Neg (Loose (Dot (V 20) ''b'') (Dot (Dot (V 20) ''d'') ''c''))) [Do (SetV 19 (Call ''JD'' [Call ''lub'' [V 20], K (JNum 8)])), Do (Call ''Ttb'' [V 14, New ''mgd'' [V 19]])] [], Do (Call ''rNb'' [V 15, G ''vrc'', V 14])] [], Ret (V 15)],
    fn ''oZc'' 4 27 [Do (SetV 25 (K (JNum 0))), Do (SetV 26 (K (JNum 0))), Do (SetV 23 (New ''_rb'' [])), Do (SetV 21 (Bin Plus (Dot (Call ''JD'' [Call ''Sub'' [Call ''aCb'' [Call ''ZBb'' [New ''jCb'' [K JNull, New ''Zvb'' [Dot (V 0) ''b'', K (JNum 16)]], New ''e$c'' []], New ''IZc'' []]], K (JNum 15)]) ''a'') (K (JNum 1)))), Do (SetV 24 (Call ''SC'' [G ''cE'', G ''bve'', K (JNum 30), V 21, K (JNum 15), K (JNum 1)])), Do (SetV 16 (Call ''SC'' [G ''cE'', G ''bve'', K (JNum 30), V 21, K (JNum 15), K (JNum 1)])), Do (SetV 15 (K (JNum 0))), Loop (Bin Lt (V 15) (V 21)) [Do (PutIdx (V 24) (V 15) (K (JNum 0))), Do (PutIdx (V 16) (V 15) (K (JNum 0)))] [Do (Bin Minus (SetV 15 (Bin Minus (V 15) (K (JNum (- 1))))) (K (JNum 1)))], Do (SetV 8 (Call ''JD'' [Call ''SBb'' [Call ''UBb'' [New ''jCb'' [K JNull, New ''Zvb'' [Dot (V 0) ''a'', K (JNum 16)]]], Call ''BAb'' [New ''TAb'' [], New ''RAb'' [], New ''ZAb'' [], Call ''WC'' [Call ''OC'' [G ''HL'', K (JNum 1)], G ''xue'', K (JNum 130), K (JNum 0), NewArr [Seq (Call ''FAb'' []) (G ''DAb'')]]]], K (JNum 16)])), Do (SetV 10 (Meth (V 8) ''Jc'' [])), Loop (Meth (V 10) ''Ob'' []) [Do (SetV 9 (Call ''JD'' [Meth (V 10) ''Pb'' [], K (JNum 65)])), Do (SetV 28 (Dot (Call ''JD'' [Call ''oNb'' [Dot (V 9) ''b'', Seq (Call ''SXc'' []) (G ''QXc'')], K (JNum 15)]) ''a'')), Do (SetV 30 (Dot (Call ''JD'' [Call ''oNb'' [Dot (V 9) ''c'', G ''QXc''], K (JNum 15)]) ''a'')), Do (SetV 20 (Bin Minus (V 30) (V 28))), When (Bin Gt (V 20) (K (JNum 1))) [Do (SetV 7 (Bin Plus (V 28) (K (JNum 1)))), Loop (Bin Lt (V 7) (V 30)) [Do (SetV 11 (V 7)), Do (SetV 22 (Call ''JD'' [Call ''SBb'' [Call ''VBb'' [New ''jCb'' [K JNull, New ''Zvb'' [Dot (V 0) ''b'', K (JNum 16)]], New ''y$c'' [V 11]], Call ''BAb'' [New ''TAb'' [], New ''RAb'' [], New ''ZAb'' [], Call ''WC'' [Call ''OC'' [G ''HL'', K (JNum 1)], G ''xue'', K (JNum 130), K (JNum 0), NewArr [G ''DAb'']]]], K (JNum 16)])), Do (SetV 14 (K (JNum 0))), When (Or (Loose (V 1) (Seq (Call ''Djd'' []) (G ''zjd''))) (Loose (V 1) (G ''Ajd''))) [Do (Meth (V 22) ''gd'' [New ''E$c'' []]), Do (SetV 14 (K (JNum 0))), Loop (Bin Lt (V 14) (Meth (V 22) ''gc'' [])) [Do (SetV 17 (Bin Divide (Bin Minus (V 7) (V 28)) (Bin Minus (V 30) (V 28)))), When (Bin Gt (Dot (Dot (Call ''JD'' [Meth (V 22) ''Xb'' [V 14], K (JNum 40)]) ''e'') ''b'') (Bin Plus (Bin Times (Dot (Dot (Dot (V 9) ''b'') ''e'') ''b'') (Bin Minus (K (JNum 1)) (V 17))) (Bin Times (Dot (Dot (Dot (V 9) ''c'') ''e'') ''b'') (V 17)))) [Break] []] [Do (Bin Minus (SetV 14 (Bin Minus (V 14) (K (JNum (- 1))))) (K (JNum 1)))], When (Bin Gt (Meth (V 22) ''gc'' []) (K (JNum 0))) [Do (SetV 29 (Cond (Loose (Dot (Dot (V 9) ''a'') ''b'') (K (JNum 0))) (Call ''Xfd'' [Dot (Dot (V 9) ''b'') ''e'']) (Call ''JD'' [Call ''Ytb'' [Dot (V 9) ''a''], K (JNum 8)]))), Do (SetV 19 (Call ''Vfd'' [Call ''Xfd'' [Dot (Call ''JD'' [Meth (V 22) ''Xb'' [Bin Minus (Meth (V 22) ''gc'' []) (K (JNum 1))], K (JNum 40)]) ''e''], Dot (Call ''JD'' [Meth (V 22) ''Xb'' [Bin Minus (Meth (V 22) ''gc'' []) (K (JNum 1))], K (JNum 40)]) ''f''])), Do (SetV 12 (Call ''Vfd'' [Call ''Xfd'' [Dot (Call ''JD'' [Meth (V 22) ''Xb'' [K (JNum 0)], K (JNum 40)]) ''e''], Dot (Call ''JD'' [Meth (V 22) ''Xb'' [K (JNum 0)], K (JNum 40)]) ''f''])), When (And (And (Bin Ge (V 14) (Bin Minus (Meth (V 22) ''gc'' []) (K (JNum 1)))) (Bin Gt (Dot (V 29) ''b'') (Dot (V 19) ''b''))) (Bin Gt (Dot (Dot (Dot (V 9) ''c'') ''e'') ''b'') (Dot (V 19) ''b''))) [Continue] [], When (And (And (Bin Le (V 14) (K (JNum 0))) (Bin Lt (Dot (V 29) ''b'') (Dot (V 12) ''a''))) (Bin Lt (Dot (Dot (Dot (V 9) ''c'') ''e'') ''b'') (Dot (V 12) ''b''))) [Continue] []] []] [Do (Meth (V 22) ''gd'' [New ''I$c'' []]), Do (SetV 14 (K (JNum 0))), Loop (Bin Lt (V 14) (Meth (V 22) ''gc'' [])) [Do (SetV 17 (Bin Divide (Bin Minus (V 7) (V 28)) (Bin Minus (V 30) (V 28)))), When (Bin Gt (Dot (Dot (Call ''JD'' [Meth (V 22) ''Xb'' [V 14], K (JNum 40)]) ''e'') ''a'') (Bin Plus (Bin Times (Dot (Dot (Dot (V 9) ''b'') ''e'') ''a'') (Bin Minus (K (JNum 1)) (V 17))) (Bin Times (Dot (Dot (Dot (V 9) ''c'') ''e'') ''a'') (V 17)))) [Break] []] [Do (Bin Minus (SetV 14 (Bin Minus (V 14) (K (JNum (- 1))))) (K (JNum 1)))], When (Bin Gt (Meth (V 22) ''gc'' []) (K (JNum 0))) [Do (SetV 29 (Cond (Loose (Dot (Dot (V 9) ''a'') ''b'') (K (JNum 0))) (Call ''Xfd'' [Dot (Dot (V 9) ''b'') ''e'']) (Call ''JD'' [Call ''Ytb'' [Dot (V 9) ''a''], K (JNum 8)]))), Do (SetV 19 (Call ''Vfd'' [Call ''Xfd'' [Dot (Call ''JD'' [Meth (V 22) ''Xb'' [Bin Minus (Meth (V 22) ''gc'' []) (K (JNum 1))], K (JNum 40)]) ''e''], Dot (Call ''JD'' [Meth (V 22) ''Xb'' [Bin Minus (Meth (V 22) ''gc'' []) (K (JNum 1))], K (JNum 40)]) ''f''])), Do (SetV 12 (Call ''Vfd'' [Call ''Xfd'' [Dot (Call ''JD'' [Meth (V 22) ''Xb'' [K (JNum 0)], K (JNum 40)]) ''e''], Dot (Call ''JD'' [Meth (V 22) ''Xb'' [K (JNum 0)], K (JNum 40)]) ''f''])), When (And (And (Bin Ge (V 14) (Bin Minus (Meth (V 22) ''gc'' []) (K (JNum 1)))) (Bin Gt (Dot (V 29) ''a'') (Dot (V 19) ''a''))) (Bin Gt (Dot (Dot (Dot (V 9) ''c'') ''e'') ''a'') (Dot (V 19) ''a''))) [Continue] [], When (And (And (Bin Le (V 14) (K (JNum 0))) (Bin Lt (Dot (V 29) ''a'') (Dot (V 12) ''a''))) (Bin Lt (Dot (Dot (Dot (V 9) ''c'') ''e'') ''a'') (Dot (V 12) ''a''))) [Continue] []] []], Do (SetV 4 (New ''jgd'' [])), Do (SetV 5 (New ''jgd'' [])), Do (Call ''Ttb'' [Dot (V 9) ''a'', V 4]), Do (Call ''Ttb'' [Dot (V 9) ''a'', V 5]), Do (SetV 6 (New ''Erd'' [V 4, V 5, V 9])), Do (SetV 18 (Call ''_cb'' [Call ''adb'' [V 7, K (JNum 32)], Call ''Ncb'' [V 14, G ''Mve'']])), When (Call ''cjb'' [V 23, Call ''Rfb'' [V 18]]) [Do (SetV 13 (Call ''JD'' [Call ''ejb'' [V 23, Call ''Rfb'' [V 18]], K (JNum 662)])), Do (Call ''Ttb'' [Dot (V 13) ''a'', V 6]), Do (Cond (Call ''Ejd'' [Dot (V 13) ''b'']) (Call ''Bub'' [Dot (V 13) ''a'', New ''W$c'' []]) (Call ''Bub'' [Dot (V 13) ''a'', New ''$$c'' []])), Do (Call ''S$c'' [V 13])] [Do (SetV 13 (New ''T$c'' [Cond (Loose (V 14) (K (JNum 0))) (K JNull) (Call ''JD'' [Meth (V 22) ''Xb'' [Bin Minus (V 14) (K (JNum 1))], K (JNum 40)]), Cond (Loose (V 14) (Meth (V 22) ''gc'' [])) (K JNull) (Call ''JD'' [Meth (V 22) ''Xb'' [V 14], K (JNum 40)]), V 6, V 0])), Do (Call ''hjb'' [V 23, Call ''Rfb'' [V 18], V 13])], When (Or (Loose (V 1) (G ''zjd'')) (Loose (V 1) (G ''Ajd''))) [Do (And (And (Dot (V 13) ''f'') (Bin Le (Dot (Dot (Dot (V 13) ''d'') ''e'') ''b'') (Call ''Ueb'' [Call ''MD'' [Call ''oNb'' [V 0, Seq (Call ''_Wc'' []) (G ''KWc'')]]]))) (SetV 25 (Bin Minus (V 25) (K (JNum (- 1)))))), Do (And (And (Dot (V 13) ''g'') (Bin Ge (Bin Plus (Dot (Dot (Dot (V 13) ''c'') ''e'') ''b'') (Dot (Dot (Dot (V 13) ''c'') ''f'') ''b'')) (Call ''Ueb'' [Call ''MD'' [Call ''oNb'' [V 0, Seq (Call ''_Wc'' []) (G ''JWc'')]]]))) (SetV 26 (Bin Minus (V 26) (K (JNum (- 1))))))] [Do (And (And (Dot (V 13) ''f'') (Bin Le (Dot (Dot (Dot (V 13) ''d'') ''e'') ''a'') (Call ''Ueb'' [Call ''MD'' [Call ''oNb'' [V 0, Seq (Call ''_Wc'' []) (G ''IWc'')]]]))) (SetV 25 (Bin Minus (V 25) (K (JNum (- 1)))))), Do (And (And (Dot (V 13) ''g'') (Bin Ge (Bin Plus (Dot (Dot (Dot (V 13) ''c'') ''e'') ''a'') (Dot (Dot (Dot (V 13) ''c'') ''f'') ''a'')) (Call ''Ueb'' [Call ''MD'' [Call ''oNb'' [V 0, Seq (Call ''_Wc'' []) (G ''HWc'')]]]))) (SetV 26 (Bin Minus (V 26) (K (JNum (- 1))))))]] [Do (Bin Minus (SetV 7 (Bin Minus (V 7) (K (JNum (- 1))))) (K (JNum 1)))]] [When (Loose (V 20) (K (JNum 0))) [Do (Call ''qZc'' [V 9])] [When (Bin Lt (V 20) (K (JNum 0))) [Do (PutIdx (V 24) (V 28) (Bin Minus (Idx (V 24) (V 28)) (K (JNum (- 1))))), Do (PutIdx (V 16) (V 30) (Bin Minus (Idx (V 16) (V 30)) (K (JNum (- 1))))), Do (SetV 27 (Call ''lZc'' [V 9, V 1, V 0, New ''prd'' [Call ''Cfb'' [V 25], Call ''Cfb'' [V 26]], V 2, V 3, New ''prd'' [Call ''Cfb'' [Idx (V 16) (V 30)], Call ''Cfb'' [Idx (V 24) (V 28)]]])), Do (SetV 25 (Dot (Call ''JD'' [Dot (V 27) ''a'', K (JNum 15)]) ''a'')), Do (SetV 26 (Dot (Call ''JD'' [Dot (V 27) ''b'', K (JNum 15)]) ''a''))] []]]] []]]"

definition code_6295_6295 :: "(string \<times> jfun) list" where
  "code_6295_6295 = [
    fn ''j9d'' 1 0 [When (Dot (V 0) ''gb'') [Ret (K JUndef)] [], Do (Put (V 0) ''gb'' (K (JBool True))), Do (Put (V 0) ''b'' (Call ''Fyd'' [V 0, K (JNum 0)])), Do (Call ''Eyd'' [Dot (V 0) ''b'', K (JNum 18)]), Do (Call ''Kyd'' [Dot (V 0) ''b'', K (JNum 19)]), Do (Put (V 0) ''a'' (Call ''Fyd'' [V 0, K (JNum 1)])), Do (Call ''Eyd'' [Dot (V 0) ''a'', K (JNum 1)]), Do (Call ''Kyd'' [Dot (V 0) ''a'', K (JNum 2)]), Do (Call ''Kyd'' [Dot (V 0) ''a'', K (JNum 3)]), Do (Call ''Kyd'' [Dot (V 0) ''a'', K (JNum 4)]), Do (Call ''Kyd'' [Dot (V 0) ''a'', K (JNum 5)]), Do (Put (V 0) ''o'' (Call ''Fyd'' [V 0, K (JNum 2)])), Do (Call ''Eyd'' [Dot (V 0) ''o'', K (JNum 8)]), Do (Call ''Eyd'' [Dot (V 0) ''o'', K (JNum 9)]), Do (Call ''Kyd'' [Dot (V 0) ''o'', K (JNum 10)]), Do (Call ''Kyd'' [Dot (V 0) ''o'', K (JNum 11)]), Do (Call ''Kyd'' [Dot (V 0) ''o'', K (JNum 12)]), Do (Call ''Kyd'' [Dot (V 0) ''o'', K (JNum 13)]), Do (Call ''Kyd'' [Dot (V 0) ''o'', K (JNum 14)]), Do (Call ''Kyd'' [Dot (V 0) ''o'', K (JNum 15)]), Do (Call ''Kyd'' [Dot (V 0) ''o'', K (JNum 16)]), Do (Call ''Kyd'' [Dot (V 0) ''o'', K (JNum 17)]), Do (Call ''Kyd'' [Dot (V 0) ''o'', K (JNum 18)]), Do (Call ''Kyd'' [Dot (V 0) ''o'', K (JNum 19)]), Do (Call ''Kyd'' [Dot (V 0) ''o'', K (JNum 20)]), Do (Call ''Kyd'' [Dot (V 0) ''o'', K (JNum 21)]), Do (Call ''Kyd'' [Dot (V 0) ''o'', K (JNum 22)]), Do (Call ''Kyd'' [Dot (V 0) ''o'', K (JNum 23)]), Do (Call ''Jyd'' [Dot (V 0) ''o'']), Do (Call ''Jyd'' [Dot (V 0) ''o'']), Do (Call ''Jyd'' [Dot (V 0) ''o'']), Do (Call ''Jyd'' [Dot (V 0) ''o'']), Do (Call ''Jyd'' [Dot (V 0) ''o'']), Do (Call ''Jyd'' [Dot (V 0) ''o'']), Do (Call ''Jyd'' [Dot (V 0) ''o'']), Do (Call ''Jyd'' [Dot (V 0) ''o'']), Do (Call ''Jyd'' [Dot (V 0) ''o'']), Do (Call ''Jyd'' [Dot (V 0) ''o'']), Do (Put (V 0) ''p'' (Call ''Fyd'' [V 0, K (JNum 3)])), Do (Call ''Eyd'' [Dot (V 0) ''p'', K (JNum 2)]), Do (Call ''Eyd'' [Dot (V 0) ''p'', K (JNum 3)]), Do (Call ''Eyd'' [Dot (V 0) ''p'', K (JNum 4)]), Do (Call ''Eyd'' [Dot (V 0) ''p'', K (JNum 5)]), Do (Call ''Kyd'' [Dot (V 0) ''p'', K (JNum 6)]), Do (Call ''Kyd'' [Dot (V 0) ''p'', K (JNum 7)]), Do (Call ''Jyd'' [Dot (V 0) ''p'']), Do (Call ''Jyd'' [Dot (V 0) ''p'']), Do (Put (V 0) ''q'' (Call ''Fyd'' [V 0, K (JNum 4)])), Do (Call ''Eyd'' [Dot (V 0) ''q'', K (JNum 8)]), Do (Put (V 0) ''v'' (Call ''Fyd'' [V 0, K (JNum 5)])), Do (Call ''Kyd'' [Dot (V 0) ''v'', K (JNum 9)]), Do (Call ''Jyd'' [Dot (V 0) ''v'']), Do (Call ''Jyd'' [Dot (V 0) ''v'']), Do (Call ''Jyd'' [Dot (V 0) ''v'']), Do (Put (V 0) ''w'' (Call ''Fyd'' [V 0, K (JNum 6)])), Do (Call ''Eyd'' [Dot (V 0) ''w'', K (JNum 2)]), Do (Call ''Eyd'' [Dot (V 0) ''w'', K (JNum 3)]), Do (Call ''Eyd'' [Dot (V 0) ''w'', K (JNum 4)]), Do (Call ''Kyd'' [Dot (V 0) ''w'', K (JNum 5)]), Do (Put (V 0) ''B'' (Call ''Fyd'' [V 0, K (JNum 7)])), Do (Call ''Kyd'' [Dot (V 0) ''B'', K (JNum 1)]), Do (Call ''Jyd'' [Dot (V 0) ''B'']), Do (Call ''Jyd'' [Dot (V 0) ''B'']), Do (Call ''Jyd'' [Dot (V 0) ''B'']), Do (Put (V 0) ''Q'' (Call ''Fyd'' [V 0, K (JNum 8)])), Do (Call ''Kyd'' [Dot (V 0) ''Q'', K (JNum 0)]), Do (Call ''Jyd'' [Dot (V 0) ''Q'']), Do (Put (V 0) ''R'' (Call ''Fyd'' [V 0, K (JNum 9)])), Do (Call ''Eyd'' [Dot (V 0) ''R'', K (JNum 1)]), Do (Put (V 0) ''S'' (Call ''Fyd'' [V 0, K (JNum 10)])), Do (Call ''Jyd'' [Dot (V 0) ''S'']), Do (Call ''Jyd'' [Dot (V 0) ''S'']), Do (Call ''Jyd'' [Dot (V 0) ''S'']), Do (Call ''Jyd'' [Dot (V 0) ''S'']), Do (Call ''Jyd'' [Dot (V 0) ''S'']), Do (Call ''Jyd'' [Dot (V 0) ''S'']), Do (Call ''Jyd'' [Dot (V 0) ''S'']), Do (Call ''Jyd'' [Dot (V 0) ''S'']), Do (Call ''Jyd'' [Dot (V 0) ''S'']), Do (Call ''Jyd'' [Dot (V 0) ''S'']), Do (Call ''Jyd'' [Dot (V 0) ''S'']), Do (Call ''Jyd'' [Dot (V 0) ''S'']), Do (Call ''Jyd'' [Dot (V 0) ''S'']), Do (Call ''Jyd'' [Dot (V 0) ''S'']), Do (Call ''Jyd'' [Dot (V 0) ''S'']), Do (Put (V 0) ''T'' (Call ''Fyd'' [V 0, K (JNum 11)])), Do (Call ''Kyd'' [Dot (V 0) ''T'', K (JNum 10)]), Do (Call ''Kyd'' [Dot (V 0) ''T'', K (JNum 11)]), Do (Call ''Kyd'' [Dot (V 0) ''T'', K (JNum 12)]), Do (Call ''Kyd'' [Dot (V 0) ''T'', K (JNum 13)]), Do (Call ''Kyd'' [Dot (V 0) ''T'', K (JNum 14)]), Do (Call ''Jyd'' [Dot (V 0) ''T'']), Do (Call ''Jyd'' [Dot (V 0) ''T'']), Do (Put (V 0) ''U'' (Call ''Fyd'' [V 0, K (JNum 12)])), Do (Call ''Eyd'' [Dot (V 0) ''U'', K (JNum 2)]), Do (Call ''Eyd'' [Dot (V 0) ''U'', K (JNum 3)]), Do (Call ''Kyd'' [Dot (V 0) ''U'', K (JNum 4)]), Do (Call ''Kyd'' [Dot (V 0) ''U'', K (JNum 5)]), Do (Call ''Kyd'' [Dot (V 0) ''U'', K (JNum 6)]), Do (Call ''Kyd'' [Dot (V 0) ''U'', K (JNum 7)]), Do (Call ''Jyd'' [Dot (V 0) ''U'']), Do (Put (V 0) ''V'' (Call ''Fyd'' [V 0, K (JNum 13)])), Do (Call ''Kyd'' [Dot (V 0) ''V'', K (JNum 10)]), Do (Put (V 0) ''W'' (Call ''Fyd'' [V 0, K (JNum 14)])), Do (Call ''Eyd'' [Dot (V 0) ''W'', K (JNum 18)]), Do (Call ''Eyd'' [Dot (V 0) ''W'', K (JNum 19)]), Do (Call ''Eyd'' [Dot (V 0) ''W'', K (JNum 20)]), Do (Call ''Kyd'' [Dot (V 0) ''W'', K (JNum 21)]), Do (Call ''Kyd'' [Dot (V 0) ''W'', K (JNum 22)]), Do (Call ''Kyd'' [Dot (V 0) ''W'', K (JNum 23)]), Do (Put (V 0) ''bb'' (Call ''Fyd'' [V 0, K (JNum 15)])), Do (Call ''Eyd'' [Dot (V 0) ''bb'', K (JNum 10)]), Do (Call ''Eyd'' [Dot (V 0) ''bb'', K (JNum 11)]), Do (Call ''Eyd'' [Dot (V 0) ''bb'', K (JNum 12)]), Do (Call ''Eyd'' [Dot (V 0) ''bb'', K (JNum 13)]), Do (Call ''Eyd'' [Dot (V 0) ''bb'', K (JNum 14)]), Do (Call ''Eyd'' [Dot (V 0) ''bb'', K (JNum 15)]), Do (Call ''Eyd'' [Dot (V 0) ''bb'', K (JNum 16)]), Do (Call ''Kyd'' [Dot (V 0) ''bb'', K (JNum 17)]), Do (Call ''Jyd'' [Dot (V 0) ''bb'']), Do (Call ''Jyd'' [Dot (V 0) ''bb'']), Do (Put (V 0) ''eb'' (Call ''Fyd'' [V 0, K (JNum 16)])), Do (Call ''Eyd'' [Dot (V 0) ''eb'', K (JNum 2)]), Do (Call ''Eyd'' [Dot (V 0) ''eb'', K (JNum 3)]), Do (Call ''Eyd'' [Dot (V 0) ''eb'', K (JNum 4)]), Do (Call ''Eyd'' [Dot (V 0) ''eb'', K (JNum 5)]), Do (Call ''Eyd'' [Dot (V 0) ''eb'', K (JNum 6)]), Do (Call ''Eyd'' [Dot (V 0) ''eb'', K (JNum 7)]), Do (Call ''Kyd'' [Dot (V 0) ''eb'', K (JNum 8)]), Do (Call ''Kyd'' [Dot (V 0) ''eb'', K (JNum 9)]), Do (Put (V 0) ''ab'' (Call ''Fyd'' [V 0, K (JNum 17)])), Do (Call ''Eyd'' [Dot (V 0) ''ab'', K (JNum 0)]), Do (Call ''Eyd'' [Dot (V 0) ''ab'', K (JNum 1)]), Do (Put (V 0) ''H'' (Call ''Fyd'' [V 0, K (JNum 18)])), Do (Call ''Kyd'' [Dot (V 0) ''H'', K (JNum 0)]), Do (Call ''Kyd'' [Dot (V 0) ''H'', K (JNum 1)]), Do (Call ''Kyd'' [Dot (V 0) ''H'', K (JNum 2)]), Do (Call ''Kyd'' [Dot (V 0) ''H'', K (JNum 3)]), Do (Call ''Kyd'' [Dot (V 0) ''H'', K (JNum 4)]), Do (Call ''Kyd'' [Dot (V 0) ''H'', K (JNum 5)]), Do (Call ''Jyd'' [Dot (V 0) ''H'']), Do (Put (V 0) ''db'' (Call ''Fyd'' [V 0, K (JNum 19)])), Do (Call ''Kyd'' [Dot (V 0) ''db'', K (JNum 2)]), Do (Put (V 0) ''c'' (Call ''Gyd'' [V 0, K (JNum 20)])), Do (Put (V 0) ''d'' (Call ''Gyd'' [V 0, K (JNum 21)])), Do (Put (V 0) ''e'' (Call ''Gyd'' [V 0, K (JNum 22)])), Do (Put (V 0) ''f'' (Call ''Gyd'' [V 0, K (JNum 23)])), Do (Put (V 0) ''i'' (Call ''Gyd'' [V 0, K (JNum 24)])), Do (Put (V 0) ''g'' (Call ''Gyd'' [V 0, K (JNum 25)])), Do (Put (V 0) ''j'' (Call ''Gyd'' [V 0, K (JNum 26)])), Do (Put (V 0) ''k'' (Call ''Gyd'' [V 0, K (JNum 27)])), Do (Put (V 0) ''n'' (Call ''Gyd'' [V 0, K (JNum 28)])), Do (Put (V 0) ''r'' (Call ''Gyd'' [V 0, K (JNum 29)])), Do (Put (V 0) ''s'' (Call ''Gyd'' [V 0, K (JNum 30)])), Do (Put (V 0) ''t'' (Call ''Gyd'' [V 0, K (JNum 31)])), Do (Put (V 0) ''u'' (Call ''Gyd'' [V 0, K (JNum 32)])), Do (Put (V 0) ''fb'' (Call ''Gyd'' [V 0, K (JNum 33)])), Do (Put (V 0) ''A'' (Call ''Gyd'' [V 0, K (JNum 34)])), Do (Put (V 0) ''C'' (Call ''Gyd'' [V 0, K (JNum 35)])), Do (Put (V 0) ''D'' (Call ''Gyd'' [V 0, K (JNum 36)])), Do (Put (V 0) ''F'' (Call ''Gyd'' [V 0, K (JNum 37)])), Do (Put (V 0) ''G'' (Call ''Gyd'' [V 0, K (JNum 38)])), Do (Put (V 0) ''I'' (Call ''Gyd'' [V 0, K (JNum 39)])), Do (Put (V 0) ''J'' (Call ''Gyd'' [V 0, K (JNum 40)])), Do (Put (V 0) ''L'' (Call ''Gyd'' [V 0, K (JNum 41)])), Do (Put (V 0) ''M'' (Call ''Gyd'' [V 0, K (JNum 42)])), Do (Put (V 0) ''N'' (Call ''Gyd'' [V 0, K (JNum 43)])), Do (Put (V 0) ''O'' (Call ''Gyd'' [V 0, K (JNum 44)])), Do (Put (V 0) ''P'' (Call ''Gyd'' [V 0, K (JNum 45)])), Do (Put (V 0) ''X'' (Call ''Gyd'' [V 0, K (JNum 46)])), Do (Put (V 0) ''Y'' (Call ''Gyd'' [V 0, K (JNum 47)])), Do (Put (V 0) ''Z'' (Call ''Gyd'' [V 0, K (JNum 48)])), Do (Put (V 0) ''$'' (Call ''Gyd'' [V 0, K (JNum 49)])), Do (Put (V 0) ''_'' (Call ''Gyd'' [V 0, K (JNum 50)])), Do (Put (V 0) ''cb'' (Call ''Gyd'' [V 0, K (JNum 51)])), Do (Put (V 0) ''K'' (Call ''Gyd'' [V 0, K (JNum 52)]))]]"

definition code_6297_6298 :: "(string \<times> jfun) list" where
  "code_6297_6298 = [
    fn ''Nlc'' 3 20 [Do (SetV 6 (V 1)), Do (SetV 12 (V 2)), When (Call ''cjb'' [Dot (V 0) ''a'', V 6]) [When (Call ''fsb'' [Call ''JD'' [Call ''ejb'' [Dot (V 0) ''a'', V 6], K (JNum 48)], V 12]) [Ret (K (JNum 1))] []] [Do (Call ''hjb'' [Dot (V 0) ''a'', V 6, New ''hsb'' []])], When (Call ''cjb'' [Dot (V 0) ''a'', V 12]) [When (Call ''fsb'' [Call ''JD'' [Call ''ejb'' [Dot (V 0) ''a'', V 12], K (JNum 48)], V 6]) [Ret (K (JNum (- 1)))] []] [Do (Call ''hjb'' [Dot (V 0) ''a'', V 12, New ''hsb'' []])], When (Call ''cjb'' [Dot (V 0) ''e'', V 6]) [When (Call ''fsb'' [Call ''JD'' [Call ''ejb'' [Dot (V 0) ''e'', V 6], K (JNum 48)], V 12]) [Ret (K (JNum (- 1)))] []] [Do (Call ''hjb'' [Dot (V 0) ''e'', V 6, New ''hsb'' []])], When (Call ''cjb'' [Dot (V 0) ''e'', V 12]) [When (Call ''fsb'' [Call ''JD'' [Call ''ejb'' [Dot (V 0) ''a'', V 12], K (JNum 48)], V 6]) [Ret (K (JNum 1))] []] [Do (Call ''hjb'' [Dot (V 0) ''e'', V 12, New ''hsb'' []])], When (Neg (Loose (Dot (V 6) ''j'') (Dot (V 12) ''j''))) [Do (SetV 21 (Call ''Ulc'' [Dot (V 6) ''j'', Dot (V 12) ''j''])), Do (Cond (Bin Gt (V 21) (K (JNum 0))) (Call ''Olc'' [V 0, V 6, V 12, K (JNum 1)]) (Call ''Olc'' [V 0, V 12, V 6, K (JNum 1)])), Ret (V 21)] [], Do (SetV 22 (K (JNum 1))), When (And (Neg (Loose (Dot (Dot (Dot (V 6) ''e'') ''c'') ''length'') (K (JNum 0)))) (Neg (Loose (Dot (Dot (Dot (V 12) ''e'') ''c'') ''length'') (K (JNum 0))))) [Do (And (Or (Or (And (Loose (Dot (V 6) ''j'') (Seq (Call ''Bmd'' []) (G ''Amd''))) (Loose (Dot (V 12) ''j'') (G ''Amd''))) (And (Loose (Dot (V 6) ''j'') (G ''hmd'')) (Loose (Dot (V 12) ''j'') (G ''hmd'')))) (And (Loose (Dot (V 6) ''j'') (G ''ymd'')) (Loose (Dot (V 12) ''j'') (G ''ymd'')))) (SetV 22 (Minus1 (V 22)))), Do (SetV 10 (Dot (Call ''JD'' [Call ''dmb'' [Dot (V 6) ''e'', K (JNum 0)], K (JNum 17)]) ''c'')), Do (SetV 16 (Dot (Call ''JD'' [Call ''dmb'' [Dot (V 12) ''e'', K (JNum 0)], K (JNum 17)]) ''c'')), Do (SetV 8 (Dot (V 10) ''i'')), Do (SetV 14 (Dot (V 16) ''i'')), When (Loose (V 8) (V 14)) [Do (SetV 19 (New ''Kmb'' [Dot (V 8) ''j''])), Loop (Bin Lt (Dot (V 19) ''a'') (Dot (Dot (Dot (V 19) ''c'') ''c'') ''length'')) [Do (SetV 18 (Call ''JD'' [Call ''Imb'' [V 19], K (JNum 12)])), When (Loose (V 10) (V 18)) [Do (Call ''Olc'' [V 0, V 12, V 6, V 22]), Ret (Minus1 (V 22))] [When (Loose (V 16) (V 18)) [Do (Call ''Olc'' [V 0, V 6, V 12, V 22]), Ret (V 22)] []]] []] [], When (And (And (And (Loose (Dot (Dot (V 10) ''i'') ''k'') (Seq (Call ''$Yb'' []) (G ''VYb''))) (Loose (Dot (Dot (V 16) ''i'') ''k'') (G ''VYb''))) (Loose (Dot (Dot (V 8) ''c'') ''p'') (Dot (Dot (V 14) ''c'') ''p''))) (Loose (Dot (Dot (V 8) ''c'') ''p'') (Dot (Dot (Dot (V 6) ''i'') ''c'') ''p''))) [Do (SetV 20 (Dot (V 8) ''c'')), Do (SetV 4 (Call ''Llc'' [V 20, V 8, V 14])), When (Neg (Loose (V 4) (K (JNum 0)))) [Do (And (And (Loose (Dot (V 6) ''j'') (G ''gmd'')) (Loose (Dot (V 12) ''j'') (G ''gmd''))) (SetV 22 (Minus1 (V 22)))), When (Bin Gt (V 4) (K (JNum 0))) [Do (Call ''Olc'' [V 0, V 6, V 12, V 22]), Ret (V 22)] [Do (Call ''Olc'' [V 0, V 12, V 6, V 22]), Ret (Minus1 (V 22))]] []] [], Do (SetV 3 (Call ''Llc'' [Call ''JD'' [Call ''SBb'' [Call ''jnb'' [Dot (V 0) ''d''], Call ''BAb'' [New ''TAb'' [], New ''RAb'' [], New ''ZAb'' [], Call ''WC'' [Call ''OC'' [G ''HL'', K (JNum 1)], G ''xue'', K (JNum 130), K (JNum 0), NewArr [Seq (Call ''FAb'' []) (G ''DAb'')]]]], K (JNum 20)], V 8, V 14])), When (Neg (Loose (V 3) (K (JNum 0)))) [When (Bin Gt (V 3) (K (JNum 0))) [Do (Call ''Olc'' [V 0, V 6, V 12, V 22]), Ret (V 22)] [Do (Call ''Olc'' [V 0, V 12, V 6, V 22]), Ret (Minus1 (V 22))]] [], When (Dot (V 0) ''c'') [Do (SetV 21 (Call ''Klc'' [V 0, V 6, V 12])), When (Neg (Loose (V 21) (K (JNum 0)))) [When (Bin Gt (V 21) (K (JNum 0))) [Do (Call ''Olc'' [V 0, V 6, V 12, V 22]), Ret (V 22)] [Do (Call ''Olc'' [V 0, V 12, V 6, V 22]), Ret (Minus1 (V 22))]] []] []] [], When (And (Neg (Loose (Dot (Dot (Dot (V 6) ''g'') ''c'') ''length'') (K (JNum 0)))) (Neg (Loose (Dot (Dot (Dot (V 12) ''g'') ''c'') ''length'') (K (JNum 0))))) [Do (And (Or (And (Loose (Dot (V 6) ''j'') (Seq (Call ''Bmd'' []) (G ''Amd''))) (Loose (Dot (V 12) ''j'') (G ''Amd''))) (And (Loose (Dot (V 6) ''j'') (G ''ymd'')) (Loose (Dot (V 12) ''j'') (G ''ymd'')))) (SetV 22 (Minus1 (V 22)))), Do (SetV 11 (Call ''JD'' [Call ''oNb'' [V 6, Seq (Call ''Wrc'' []) (G ''prc'')], K (JNum 9)])), Do (SetV 17 (Call ''JD'' [Call ''oNb'' [V 12, G ''prc''], K (JNum 9)])), When (And (And (And (And (Loose (Dot (V 0) ''f'') (Seq (Call ''_zc'' []) (G ''$zc''))) (Neg (Neg (V 11)))) (Neg (Neg (V 17)))) (Call ''pNb'' [V 11, G ''trc''])) (Call ''pNb'' [V 17, G ''trc''])) [Do (SetV 7 (Call ''slc'' [V 11, V 17, Dot (V 0) ''b'', Dot (Call ''JD'' [Call ''oNb'' [Dot (V 0) ''b'', G ''rrc''], K (JNum 15)]) ''a''])), Do (SetV 13 (Call ''slc'' [V 17, V 11, Dot (V 0) ''b'', Dot (Call ''JD'' [Call ''oNb'' [Dot (V 0) ''b'', G ''rrc''], K (JNum 15)]) ''a''])), When (Bin Gt (V 7) (V 13)) [Do (Call ''Olc'' [V 0, V 6, V 12, V 22]), Ret (V 22)] [Do (Call ''Olc'' [V 0, V 12, V 6, V 22]), Ret (Minus1 (V 22))]] [], When (Dot (V 0) ''c'') [Do (SetV 21 (Call ''Klc'' [V 0, V 6, V 12])), When (Neg (Loose (V 21) (K (JNum 0)))) [When (Bin Gt (V 21) (K (JNum 0))) [Do (Call ''Olc'' [V 0, V 6, V 12, V 22]), Ret (V 22)] [Do (Call ''Olc'' [V 0, V 12, V 6, V 22]), Ret (Minus1 (V 22))]] []] [], Do (SetV 9 (K (JNum 0))), Do (SetV 15 (K (JNum 0))), Do (And (Call ''pNb'' [Call ''JD'' [Call ''dmb'' [Dot (V 6) ''g'', K (JNum 0)], K (JNum 17)], G ''trc'']) (SetV 9 (Call ''slc'' [Call ''JD'' [Call ''dmb'' [Dot (V 6) ''g'', K (JNum 0)], K (JNum 246)], Call ''JD'' [Call ''dmb'' [Dot (V 12) ''g'', K (JNum 0)], K (JNum 246)], Dot (V 0) ''b'', Bin Plus (Dot (Dot (Dot (V 6) ''g'') ''c'') ''length'') (Dot (Dot (Dot (V 6) ''e'') ''c'') ''length'')]))), Do (And (Call ''pNb'' [Call ''JD'' [Call ''dmb'' [Dot (V 12) ''g'', K (JNum 0)], K (JNum 17)], G ''trc'']) (SetV 15 (Call ''slc'' [Call ''JD'' [Call ''dmb'' [Dot (V 12) ''g'', K (JNum 0)], K (JNum 246)], Call ''JD'' [Call ''dmb'' [Dot (V 6) ''g'', K (JNum 0)], K (JNum 246)], Dot (V 0) ''b'', Bin Plus (Dot (Dot (Dot (V 12) ''g'') ''c'') ''length'') (Dot (Dot (Dot (V 12) ''e'') ''c'') ''length'')]))), When (And (Neg (Neg (V 11))) (Loose (V 11) (V 17))) [When (Bin Gt (V 9) (V 15)) [Do (Call ''Olc'' [V 0, V 6, V 12, V 22]), Ret (V 22)] [Do (Call ''Olc'' [V 0, V 12, V 6, V 22]), Ret (Minus1 (V 22))]] [], When (Dot (V 0) ''g'') [Do (And (Meth (Dot (V 0) ''g'') ''_b'' [V 11]) (SetV 9 (Dot (Call ''JD'' [Meth (Dot (V 0) ''g'') ''xc'' [V 11], K (JNum 15)]) ''a''))), Do (And (Meth (Dot (V 0) ''g'') ''_b'' [V 17]) (SetV 15 (Dot (Call ''JD'' [Meth (Dot (V 0) ''g'') ''xc'' [V 17], K (JNum 15)]) ''a'')))] [], When (Bin Gt (V 9) (V 15)) [Do (Call ''Olc'' [V 0, V 6, V 12, V 22]), Ret (V 22)] [Do (Call ''Olc'' [V 0, V 12, V 6, V 22]), Ret (Minus1 (V 22))]] [], When (And (Neg (Loose (Dot (Dot (Dot (V 6) ''e'') ''c'') ''length'') (K (JNum 0)))) (Neg (Loose (Dot (Dot (Dot (V 12) ''g'') ''c'') ''length'') (K (JNum 0))))) [Do (Call ''Olc'' [V 0, V 6, V 12, V 22]), Ret (K (JNum 1))] [When (And (Neg (Loose (Dot (Dot (Dot (V 6) ''g'') ''c'') ''length'') (K (JNum 0)))) (Neg (Loose (Dot (Dot (Dot (V 12) ''e'') ''c'') ''length'') (K (JNum 0))))) [Do (Call ''Olc'' [V 0, V 12, V 6, V 22]), Ret (K (JNum (- 1)))] [When (And (Call ''pNb'' [V 6, Seq (Call ''Wrc'' []) (G ''trc'')]) (Call ''pNb'' [V 12, G ''trc''])) [Do (SetV 5 (Dot (Dot (Dot (Dot (V 6) ''i'') ''j'') ''c'') ''length'')), Do (SetV 7 (Call ''slc'' [V 6, V 12, Dot (V 0) ''b'', V 5])), Do (SetV 13 (Call ''slc'' [V 12, V 6, Dot (V 0) ''b'', V 5])), Do (And (Or (And (Loose (Dot (V 6) ''j'') (Seq (Call ''Bmd'' []) (G ''Amd''))) (Loose (Dot (V 12) ''j'') (G ''Amd''))) (And (Loose (Dot (V 6) ''j'') (G ''ymd'')) (Loose (Dot (V 12) ''j'') (G ''ymd'')))) (SetV 22 (Minus1 (V 22)))), When (Bin Gt (V 7) (V 13)) [Do (Call ''Olc'' [V 0, V 6, V 12, V 22]), Ret (V 22)] [Do (Call ''Olc'' [V 0, V 12, V 6, V 22]), Ret (Minus1 (V 22))]] [Do (Call ''Olc'' [V 0, V 12, V 6, V 22]), Ret (Minus1 (V 22))]]]],
    fn ''Wrc'' 0 2 [Do (SetG ''Wrc'' (G ''qdb'')), Do (SetG ''urc'' (New ''CEd'' [G ''Yxe''])), Do (SetG ''Qqc'' (New ''CEd'' [K (JStr ''coordinateOrigin'')])), Do (SetG ''Erc'' (New ''CEd'' [K (JStr ''processors'')])), Do (SetG ''Pqc'' (New ''DEd'' [K (JStr ''compoundNode''), Seq (Call ''Qdb'' []) (K (JBool False))])), Do (SetG ''erc'' (New ''DEd'' [K (JStr ''insideConnections''), K (JBool False)])), Do (SetG ''vrc'' (New ''CEd'' [K (JStr ''originalBendpoints'')])), Do (SetG ''wrc'' (New ''CEd'' [K (JStr ''originalDummyNodePosition'')])), Do (SetG ''xrc'' (New ''CEd'' [K (JStr ''originalLabelEdge'')])), Do (SetG ''Grc'' (New ''CEd'' [K (JStr ''representedLabels'')])), Do (SetG ''Vqc'' (New ''CEd'' [K (JStr ''endLabels'')])), Do (SetG ''Wqc'' (New ''CEd'' [K (JStr ''endLabel.origin'')])), Do (SetG ''krc'' (New ''DEd'' [K (JStr ''labelSide''), Seq (Call ''$kd'' []) (G ''Zkd'')])), Do (SetG ''qrc'' (New ''DEd'' [K (JStr ''maxEdgeThickness''), K (JNum 0)])), Do (SetG ''Hrc'' (New ''DEd'' [K (JStr ''reversed''), K (JBool False)])), Do (SetG ''Frc'' (New ''CEd'' [G ''Zxe''])), Do (SetG ''nrc'' (New ''DEd'' [K (JStr ''longEdgeSource''), K JNull])), Do (SetG ''orc'' (New ''DEd'' [K (JStr ''longEdgeTarget''), K JNull])), Do (SetG ''mrc'' (New ''DEd'' [K (JStr ''longEdgeHasLabelDummies''), K (JBool False)])), Do (SetG ''lrc'' (New ''DEd'' [K (JStr ''longEdgeBeforeLabelDummy''), K (JBool False)])), Do (SetG ''Uqc'' (New ''DEd'' [K (JStr ''edgeConstraint''), Seq (Call ''Qoc'' []) (G ''Ooc'')])), Do (SetG ''grc'' (New ''CEd'' [K (JStr ''inLayerLayoutUnit'')])), Do (SetG ''frc'' (New ''DEd'' [K (JStr ''inLayerConstraint''), Seq (Call ''wqc'' []) (G ''uqc'')])), Do (SetG ''hrc'' (New ''DEd'' [K (JStr ''inLayerSuccessorConstraint''), New ''lmb'' []])), Do (SetG ''irc'' (New ''DEd'' [K (JStr ''inLayerSuccessorConstraintBetweenNonDummies''), K (JBool False)])), Do (SetG ''Crc'' (New ''CEd'' [K (JStr ''portDummy'')])), Do (SetG ''Rqc'' (New ''DEd'' [K (JStr ''crossingHint''), Call ''Cfb'' [K (JNum 0)]])), Do (SetG ''brc'' (New ''DEd'' [K (JStr ''graphProperties''), Seq (SetV 1 (Call ''JD'' [Call ''web'' [G ''bW''], K (JNum 10)])) (New ''Nrb'' [V 1, Call ''JD'' [Call ''nDb'' [V 1, Dot (V 1) ''length''], K (JNum 10)], K (JNum 0)])])), Do (SetG ''$qc'' (New ''DEd'' [K (JStr ''externalPortSide''), Seq (Call ''Bmd'' []) (G ''zmd'')])), Do (SetG ''_qc'' (New ''DEd'' [K (JStr ''externalPortSize''), New ''jgd'' []])), Do (SetG ''Yqc'' (New ''CEd'' [K (JStr ''externalPortReplacedDummies'')])), Do (SetG ''Zqc'' (New ''CEd'' [K (JStr ''externalPortReplacedDummy'')])), Do (SetG ''Xqc'' (New ''DEd'' [K (JStr ''externalPortConnections''), Seq (SetV 0 (Call ''JD'' [Call ''web'' [G ''M2''], K (JNum 10)])) (New ''Nrb'' [V 0, Call ''JD'' [Call ''nDb'' [V 0, Dot (V 0) ''length''], K (JNum 10)], K (JNum 0)])])), Do (SetG ''Drc'' (New ''DEd'' [G ''bxe'', K (JNum 0)])), Do (SetG ''Kqc'' (New ''CEd'' [K (JStr ''barycenterAssociates'')])), Do (SetG ''Urc'' (New ''CEd'' [K (JStr ''TopSideComments'')])), Do (SetG ''Lqc'' (New ''CEd'' [K (JStr ''BottomSideComments'')])), Do (SetG ''Oqc'' (New ''CEd'' [K (JStr ''CommentConnectionPort'')])), Do (SetG ''drc'' (New ''DEd'' [K (JStr ''inputCollect''), K (JBool False)])), Do (SetG ''Arc'' (New ''DEd'' [K (JStr ''outputCollect''), K (JBool False)])), Do (SetG ''Tqc'' (New ''DEd'' [K (JStr ''cyclic''), K (JBool False)])), Do (SetG ''Sqc'' (New ''CEd'' [K (JStr ''crossHierarchyMap'')])), Do (SetG ''Qrc'' (New ''CEd'' [K (JStr ''targetOffset'')])), Do (New ''DEd'' [K (JStr ''splineLabelSize''), New ''jgd'' []]), Do (SetG ''Krc'' (New ''CEd'' [K (JStr ''spacings'')])), Do (SetG ''Brc'' (New ''DEd'' [K (JStr ''partitionConstraint''), K (JBool False)])), Do (SetG ''Mqc'' (New ''CEd'' [K (JStr ''breakingPoint.info'')])), Do (SetG ''Orc'' (New ''CEd'' [K (JStr ''splines.survivingEdge'')])), Do (SetG ''Nrc'' (New ''CEd'' [K (JStr ''splines.route.start'')])), Do (SetG ''Lrc'' (New ''CEd'' [K (JStr ''splines.edgeChain'')])), Do (SetG ''zrc'' (New ''CEd'' [K (JStr ''originalPortConstraints'')])), Do (SetG ''Jrc'' (New ''CEd'' [K (JStr ''selfLoopHolder'')])), Do (SetG ''Mrc'' (New ''CEd'' [K (JStr ''splines.nsPortY'')])), Do (SetG ''trc'' (New ''CEd'' [K (JStr ''modelOrder'')])), Do (SetG ''rrc'' (New ''CEd'' [K (JStr ''modelOrder.maximum'')])), Do (SetG ''Nqc'' (New ''CEd'' [K (JStr ''modelOrderGroups.cb.number'')])), Do (SetG ''prc'' (New ''CEd'' [K (JStr ''longEdgeTargetNode'')])), Do (SetG ''arc'' (New ''DEd'' [G ''lze'', K (JBool False)])), Do (SetG ''Irc'' (New ''DEd'' [G ''lze'', K (JBool False)])), Do (SetG ''crc'' (New ''CEd'' [K (JStr ''layerConstraints.hiddenNodes'')])), Do (SetG ''yrc'' (New ''CEd'' [K (JStr ''layerConstraints.opposidePort'')])), Do (SetG ''Prc'' (New ''CEd'' [K (JStr ''targetNode.modelOrder'')])), Do (SetG ''Src'' (New ''DEd'' [K (JStr ''tarjan.lowlink''), Call ''Cfb'' [G ''Ate'']])), Do (SetG ''Rrc'' (New ''DEd'' [K (JStr ''tarjan.id''), Call ''Cfb'' [K (JNum (- 1))]])), Do (SetG ''Trc'' (New ''DEd'' [K (JStr ''tarjan.onstack''), K (JBool False)])), Do (SetG ''jrc'' (New ''DEd'' [K (JStr ''partOfCycle''), K (JBool False)])), Do (SetG ''Vrc'' (New ''CEd'' [K (JStr ''medianHeuristic.weight'')]))]]"

definition code_6302_6303 :: "(string \<times> jfun) list" where
  "code_6302_6303 = [
    fn ''gre'' 0 0 [Do (SetG ''gre'' (G ''qdb'')), Do (SetG ''Rqe'' (New ''hre'' [K (JNum 7)])), Do (SetG ''Tqe'' (Seq (SetG ''fre'' (Bin Minus (G ''fre'') (K (JNum (- 1))))) (New ''Ure'' [K (JNum 8), K (JNum 94)]))), Do (SetG ''fre'' (Bin Minus (G ''fre'') (K (JNum (- 1))))), Do (New ''Ure'' [K (JNum 8), K (JNum 64)]), Do (SetG ''Uqe'' (Seq (SetG ''fre'' (Bin Minus (G ''fre'') (K (JNum (- 1))))) (New ''Ure'' [K (JNum 8), K (JNum 36)]))), Do (SetG ''$qe'' (Seq (SetG ''fre'' (Bin Minus (G ''fre'') (K (JNum (- 1))))) (New ''Ure'' [K (JNum 8), K (JNum 65)]))), Do (SetG ''_qe'' (Seq (SetG ''fre'' (Bin Minus (G ''fre'') (K (JNum (- 1))))) (New ''Ure'' [K (JNum 8), K (JNum 122)]))), Do (SetG ''are'' (Seq (SetG ''fre'' (Bin Minus (G ''fre'') (K (JNum (- 1))))) (New ''Ure'' [K (JNum 8), K (JNum 90)]))), Do (SetG ''dre'' (Seq (SetG ''fre'' (Bin Minus (G ''fre'') (K (JNum (- 1))))) (New ''Ure'' [K (JNum 8), K (JNum 98)]))), Do (SetG ''Yqe'' (Seq (SetG ''fre'' (Bin Minus (G ''fre'') (K (JNum (- 1))))) (New ''Ure'' [K (JNum 8), K (JNum 66)]))), Do (SetG ''bre'' (Seq (SetG ''fre'' (Bin Minus (G ''fre'') (K (JNum (- 1))))) (New ''Ure'' [K (JNum 8), K (JNum 60)]))), Do (SetG ''ere'' (Seq (SetG ''fre'' (Bin Minus (G ''fre'') (K (JNum (- 1))))) (New ''Ure'' [K (JNum 8), K (JNum 62)]))), Do (SetG ''Qqe'' (New ''hre'' [K (JNum 11)])), Do (SetG ''Oqe'' (Seq (SetG ''fre'' (Bin Minus (G ''fre'') (K (JNum (- 1))))) (New ''Kre'' [K (JNum 4)]))), Do (Call ''Ere'' [G ''Oqe'', K (JNum 48), K (JNum 57)]), Do (SetG ''cre'' (Seq (SetG ''fre'' (Bin Minus (G ''fre'') (K (JNum (- 1))))) (New ''Kre'' [K (JNum 4)]))), Do (Call ''Ere'' [G ''cre'', K (JNum 48), K (JNum 57)]), Do (Call ''Ere'' [G ''cre'', K (JNum 65), K (JNum 90)]), Do (Call ''Ere'' [G ''cre'', K (JNum 95), K (JNum 95)]), Do (Call ''Ere'' [G ''cre'', K (JNum 97), K (JNum 122)]), Do (SetG ''Zqe'' (Seq (SetG ''fre'' (Bin Minus (G ''fre'') (K (JNum (- 1))))) (New ''Kre'' [K (JNum 4)]))), Do (Call ''Ere'' [G ''Zqe'', K (JNum 9), K (JNum 9)]), Do (Call ''Ere'' [G ''Zqe'', K (JNum 10), K (JNum 10)]), Do (Call ''Ere'' [G ''Zqe'', K (JNum 12), K (JNum 12)]), Do (Call ''Ere'' [G ''Zqe'', K (JNum 13), K (JNum 13)]), Do (Call ''Ere'' [G ''Zqe'', K (JNum 32), K (JNum 32)]), Do (SetG ''Vqe'' (Call ''Lre'' [G ''Oqe''])), Do (SetG ''Xqe'' (Call ''Lre'' [G ''cre''])), Do (SetG ''Wqe'' (Call ''Lre'' [G ''Zqe''])), Do (SetG ''Jqe'' (New ''_rb'' [])), Do (SetG ''Kqe'' (New ''_rb'' [])), Do (SetG ''Lqe'' (Call ''WC'' [Call ''OC'' [G ''hJ'', K (JNum 1)], G ''aue'', K (JNum 2), K (JNum 6), NewArr [K (JStr ''Cn''), K (JStr ''Lu''), K (JStr ''Ll''), K (JStr ''Lt''), K (JStr ''Lm''), K (JStr ''Lo''), K (JStr ''Mn''), K (JStr ''Me''), K (JStr ''Mc''), K (JStr ''Nd''), K (JStr ''Nl''), K (JStr ''No''), K (JStr ''Zs''), K (JStr ''Zl''), K (JStr ''Zp''), K (JStr ''Cc''), K (JStr ''Cf''), K JNull, K (JStr ''Co''), K (JStr ''Cs''), K (JStr ''Pd''), K (JStr ''Ps''), K (JStr ''Pe''), K (JStr ''Pc''), K (JStr ''Po''), K (JStr ''Sm''), K (JStr ''Sc''), K (JStr ''Sk''), K (JStr ''So''), K (JStr ''Pi''), K (JStr ''Pf''), K (JStr ''L''), K (JStr ''M''), K (JStr ''N''), K (JStr ''Z''), K (JStr ''C''), K (JStr ''P''), K (JStr ''S'')]])), Do (SetG ''Iqe'' (Call ''WC'' [Call ''OC'' [G ''hJ'', K (JNum 1)], G ''aue'', K (JNum 2), K (JNum 6), NewArr [K (JStr ''Basic Latin''), K (JStr ''Latin-1 Supplement''), K (JStr ''Latin Extended-A''), K (JStr ''Latin Extended-B''), K (JStr ''IPA Extensions''), K (JStr ''Spacing Modifier Letters''), K (JStr ''Combining Diacritical Marks''), K (JStr ''Greek''), K (JStr ''Cyrillic''), K (JStr ''Armenian''), K (JStr ''Hebrew''), K (JStr ''Arabic''), K (JStr ''Syriac''), K (JStr ''Thaana''), K (JStr ''Devanagari''), K (JStr ''Bengali''), K (JStr ''Gurmukhi''), K (JStr ''Gujarati''), K (JStr ''Oriya''), K (JStr ''Tamil''), K (JStr ''Telugu''), K (JStr ''Kannada''), K (JStr ''Malayalam''), K (JStr ''Sinhala''), K (JStr ''Thai''), K (JStr ''Lao''), K (JStr ''Tibetan''), K (JStr ''Myanmar''), K (JStr ''Georgian''), K (JStr ''Hangul Jamo''), K (JStr ''Ethiopic''), K (JStr ''Cherokee''), K (JStr ''Unified Canadian Aboriginal Syllabics''), K (JStr ''Ogham''), K (JStr ''Runic''), K (JStr ''Khmer''), K (JStr ''Mongolian''), K (JStr ''Latin Extended Additional''), K (JStr ''Greek Extended''), K (JStr ''General Punctuation''), K (JStr ''Superscripts and Subscripts''), K (JStr ''Currency Symbols''), K (JStr ''Combining Marks for Symbols''), K (JStr ''Letterlike Symbols''), K (JStr ''Number Forms''), K (JStr ''Arrows''), K (JStr ''Mathematical Operators''), K (JStr ''Miscellaneous Technical''), K (JStr ''Control Pictures''), K (JStr ''Optical Character Recognition''), K (JStr ''Enclosed Alphanumerics''), K (JStr ''Box Drawing''), K (JStr ''Block Elements''), K (JStr ''Geometric Shapes''), K (JStr ''Miscellaneous Symbols''), K (JStr ''Dingbats''), K (JStr ''Braille Patterns''), K (JStr ''CJK Radicals Supplement''), K (JStr ''Kangxi Radicals''), K (JStr ''Ideographic Description Characters''), K (JStr ''CJK Symbols and Punctuation''), K (JStr ''Hiragana''), K (JStr ''Katakana''), K (JStr ''Bopomofo''), K (JStr ''Hangul Compatibility Jamo''), K (JStr ''Kanbun''), K (JStr ''Bopomofo Extended''), K (JStr ''Enclosed CJK Letters and Months''), K (JStr ''CJK Compatibility''), K (JStr ''CJK Unified Ideographs Extension A''), K (JStr ''CJK Unified Ideographs''), K (JStr ''Yi Syllables''), K (JStr ''Yi Radicals''), K (JStr ''Hangul Syllables''), G ''eKe'', K (JStr ''CJK Compatibility Ideographs''), K (JStr ''Alphabetic Presentation Forms''), K (JStr ''Arabic Presentation Forms-A''), K (JStr ''Combining Half Marks''), K (JStr ''CJK Compatibility Forms''), K (JStr ''Small Form Variants''), K (JStr ''Arabic Presentation Forms-B''), K (JStr ''Specials''), K (JStr ''Halfwidth and Fullwidth Forms''), K (JStr ''Old Italic''), K (JStr ''Gothic''), K (JStr ''Deseret''), K (JStr ''Byzantine Musical Symbols''), K (JStr ''Musical Symbols''), K (JStr ''Mathematical Alphanumeric Symbols''), K (JStr ''CJK Unified Ideographs Extension B''), K (JStr ''CJK Compatibility Ideographs Supplement''), K (JStr ''Tags'')]])), Do (SetG ''Mqe'' (Call ''WC'' [Call ''OC'' [G ''cE'', K (JNum 1)], G ''bve'', K (JNum 30), K (JNum 15), NewArr [K (JNum 66304), K (JNum 66351), K (JNum 66352), K (JNum 66383), K (JNum 66560), K (JNum 66639), K (JNum 118784), K (JNum 119039), K (JNum 119040), K (JNum 119295), K (JNum 119808), K (JNum 120831), K (JNum 131072), K (JNum 173782), K (JNum 194560), K (JNum 195103), K (JNum 917504), K (JNum 917631)]]))],
    fn ''MJb'' 0 0 [Do (SetG ''MJb'' (G ''qdb'')), Do (SetG ''JJb'' (New ''PJb'' [K (JStr ''OUT_T_L''), K (JNum 0), Seq (Call ''hIb'' []) (G ''fIb''), Seq (Call ''$Ib'' []) (G ''XIb''), Seq (Call ''CHb'' []) (G ''zHb''), G ''zHb'', Call ''WC'' [Call ''OC'' [G ''UK'', K (JNum 1)], G ''Gte'', K (JNum 22), K (JNum 0), NewArr [Call ''Grb'' [Seq (Call ''old'' []) (G ''kld''), Call ''WC'' [Call ''OC'' [G ''I2'', K (JNum 1)], G ''xue'', K (JNum 96), K (JNum 0), NewArr [G ''nld'', G ''gld'']]]]]])), Do (SetG ''IJb'' (New ''PJb'' [K (JStr ''OUT_T_C''), K (JNum 1), G ''eIb'', G ''XIb'', G ''zHb'', G ''AHb'', Call ''WC'' [Call ''OC'' [G ''UK'', K (JNum 1)], G ''Gte'', K (JNum 22), K (JNum 0), NewArr [Call ''Grb'' [G ''kld'', Call ''WC'' [Call ''OC'' [G ''I2'', K (JNum 1)], G ''xue'', K (JNum 96), K (JNum 0), NewArr [G ''nld'', G ''fld'']]], Call ''Grb'' [G ''kld'', Call ''WC'' [Call ''OC'' [G ''I2'', K (JNum 1)], G ''xue'', K (JNum 96), K (JNum 0), NewArr [G ''nld'', G ''fld'', G ''hld'']]]]]])), Do (SetG ''KJb'' (New ''PJb'' [K (JStr ''OUT_T_R''), K (JNum 2), G ''gIb'', G ''XIb'', G ''zHb'', G ''BHb'', Call ''WC'' [Call ''OC'' [G ''UK'', K (JNum 1)], G ''Gte'', K (JNum 22), K (JNum 0), NewArr [Call ''Grb'' [G ''kld'', Call ''WC'' [Call ''OC'' [G ''I2'', K (JNum 1)], G ''xue'', K (JNum 96), K (JNum 0), NewArr [G ''nld'', G ''ild'']]]]]])), Do (SetG ''AJb'' (New ''PJb'' [K (JStr ''OUT_B_L''), K (JNum 3), G ''fIb'', G ''ZIb'', G ''BHb'', G ''zHb'', Call ''WC'' [Call ''OC'' [G ''UK'', K (JNum 1)], G ''Gte'', K (JNum 22), K (JNum 0), NewArr [Call ''Grb'' [G ''kld'', Call ''WC'' [Call ''OC'' [G ''I2'', K (JNum 1)], G ''xue'', K (JNum 96), K (JNum 0), NewArr [G ''lld'', G ''gld'']]]]]])), Do (SetG ''zJb'' (New ''PJb'' [K (JStr ''OUT_B_C''), K (JNum 4), G ''eIb'', G ''ZIb'', G ''BHb'', G ''AHb'', Call ''WC'' [Call ''OC'' [G ''UK'', K (JNum 1)], G ''Gte'', K (JNum 22), K (JNum 0), NewArr [Call ''Grb'' [G ''kld'', Call ''WC'' [Call ''OC'' [G ''I2'', K (JNum 1)], G ''xue'', K (JNum 96), K (JNum 0), NewArr [G ''lld'', G ''fld'']]], Call ''Grb'' [G ''kld'', Call ''WC'' [Call ''OC'' [G ''I2'', K (JNum 1)], G ''xue'', K (JNum 96), K (JNum 0), NewArr [G ''lld'', G ''fld'', G ''hld'']]]]]])), Do (SetG ''BJb'' (New ''PJb'' [K (JStr ''OUT_B_R''), K (JNum 5), G ''gIb'', G ''ZIb'', G ''BHb'', G ''BHb'', Call ''WC'' [Call ''OC'' [G ''UK'', K (JNum 1)], G ''Gte'', K (JNum 22), K (JNum 0), NewArr [Call ''Grb'' [G ''kld'', Call ''WC'' [Call ''OC'' [G ''I2'', K (JNum 1)], G ''xue'', K (JNum 96), K (JNum 0), NewArr [G ''lld'', G ''ild'']]]]]])), Do (SetG ''EJb'' (New ''PJb'' [K (JStr ''OUT_L_T''), K (JNum 6), G ''gIb'', G ''ZIb'', G ''zHb'', G ''zHb'', Call ''WC'' [Call ''OC'' [G ''UK'', K (JNum 1)], G ''Gte'', K (JNum 22), K (JNum 0), NewArr [Call ''Grb'' [G ''kld'', Call ''WC'' [Call ''OC'' [G ''I2'', K (JNum 1)], G ''xue'', K (JNum 96), K (JNum 0), NewArr [G ''gld'', G ''nld'', G ''hld'']]]]]])), Do (SetG ''DJb'' (New ''PJb'' [K (JStr ''OUT_L_C''), K (JNum 7), G ''gIb'', G ''YIb'', G ''AHb'', G ''zHb'', Call ''WC'' [Call ''OC'' [G ''UK'', K (JNum 1)], G ''Gte'', K (JNum 22), K (JNum 0), NewArr [Call ''Grb'' [G ''kld'', Call ''WC'' [Call ''OC'' [G ''I2'', K (JNum 1)], G ''xue'', K (JNum 96), K (JNum 0), NewArr [G ''gld'', G ''mld'']]], Call ''Grb'' [G ''kld'', Call ''WC'' [Call ''OC'' [G ''I2'', K (JNum 1)], G ''xue'', K (JNum 96), K (JNum 0), NewArr [G ''gld'', G ''mld'', G ''hld'']]]]]])), Do (SetG ''CJb'' (New ''PJb'' [K (JStr ''OUT_L_B''), K (JNum 8), G ''gIb'', G ''XIb'', G ''BHb'', G ''zHb'', Call ''WC'' [Call ''OC'' [G ''UK'', K (JNum 1)], G ''Gte'', K (JNum 22), K (JNum 0), NewArr [Call ''Grb'' [G ''kld'', Call ''WC'' [Call ''OC'' [G ''I2'', K (JNum 1)], G ''xue'', K (JNum 96), K (JNum 0), NewArr [G ''gld'', G ''lld'', G ''hld'']]]]]])), Do (SetG ''HJb'' (New ''PJb'' [K (JStr ''OUT_R_T''), K (JNum 9), G ''fIb'', G ''ZIb'', G ''zHb'', G ''BHb'', Call ''WC'' [Call ''OC'' [G ''UK'', K (JNum 1)], G ''Gte'', K (JNum 22), K (JNum 0), NewArr [Call ''Grb'' [G ''kld'', Call ''WC'' [Call ''OC'' [G ''I2'', K (JNum 1)], G ''xue'', K (JNum 96), K (JNum 0), NewArr [G ''ild'', G ''nld'', G ''hld'']]]]]])), Do (SetG ''GJb'' (New ''PJb'' [K (JStr ''OUT_R_C''), K (JNum 10), G ''fIb'', G ''YIb'', G ''AHb'', G ''BHb'', Call ''WC'' [Call ''OC'' [G ''UK'', K (JNum 1)], G ''Gte'', K (JNum 22), K (JNum 0), NewArr [Call ''Grb'' [G ''kld'', Call ''WC'' [Call ''OC'' [G ''I2'', K (JNum 1)], G ''xue'', K (JNum 96), K (JNum 0), NewArr [G ''ild'', G ''mld'']]], Call ''Grb'' [G ''kld'', Call ''WC'' [Call ''OC'' [G ''I2'', K (JNum 1)], G ''xue'', K (JNum 96), K (JNum 0), NewArr [G ''ild'', G ''mld'', G ''hld'']]]]]])), Do (SetG ''FJb'' (New ''PJb'' [K (JStr ''OUT_R_B''), K (JNum 11), G ''fIb'', G ''XIb'', G ''BHb'', G ''BHb'', Call ''WC'' [Call ''OC'' [G ''UK'', K (JNum 1)], G ''Gte'', K (JNum 22), K (JNum 0), NewArr [Call ''Grb'' [G ''kld'', Call ''WC'' [Call ''OC'' [G ''I2'', K (JNum 1)], G ''xue'', K (JNum 96), K (JNum 0), NewArr [G ''ild'', G ''lld'', G ''hld'']]]]]])), Do (SetG ''xJb'' (New ''PJb'' [K (JStr ''IN_T_L''), K (JNum 12), G ''fIb'', G ''ZIb'', G ''zHb'', G ''zHb'', Call ''WC'' [Call ''OC'' [G ''UK'', K (JNum 1)], G ''Gte'', K (JNum 22), K (JNum 0), NewArr [Call ''Grb'' [G ''jld'', Call ''WC'' [Call ''OC'' [G ''I2'', K (JNum 1)], G ''xue'', K (JNum 96), K (JNum 0), NewArr [G ''nld'', G ''gld'']]], Call ''Grb'' [G ''jld'', Call ''WC'' [Call ''OC'' [G ''I2'', K (JNum 1)], G ''xue'', K (JNum 96), K (JNum 0), NewArr [G ''nld'', G ''gld'', G ''hld'']]]]]])), Do (SetG ''wJb'' (New ''PJb'' [K (JStr ''IN_T_C''), K (JNum 13), G ''eIb'', G ''ZIb'', G ''zHb'', G ''AHb'', Call ''WC'' [Call ''OC'' [G ''UK'', K (JNum 1)], G ''Gte'', K (JNum 22), K (JNum 0), NewArr [Call ''Grb'' [G ''jld'', Call ''WC'' [Call ''OC'' [G ''I2'', K (JNum 1)], G ''xue'', K (JNum 96), K (JNum 0), NewArr [G ''nld'', G ''fld'']]], Call ''Grb'' [G ''jld'', Call ''WC'' [Call ''OC'' [G ''I2'', K (JNum 1)], G ''xue'', K (JNum 96), K (JNum 0), NewArr [G ''nld'', G ''fld'', G ''hld'']]]]]])), Do (SetG ''yJb'' (New ''PJb'' [K (JStr ''IN_T_R''), K (JNum 14), G ''gIb'', G ''ZIb'', G ''zHb'', G ''BHb'', Call ''WC'' [Call ''OC'' [G ''UK'', K (JNum 1)], G ''Gte'', K (JNum 22), K (JNum 0), NewArr [Call ''Grb'' [G ''jld'', Call ''WC'' [Call ''OC'' [G ''I2'', K (JNum 1)], G ''xue'', K (JNum 96), K (JNum 0), NewArr [G ''nld'', G ''ild'']]], Call ''Grb'' [G ''jld'', Call ''WC'' [Call ''OC'' [G ''I2'', K (JNum 1)], G ''xue'', K (JNum 96), K (JNum 0), NewArr [G ''nld'', G ''ild'', G ''hld'']]]]]])), Do (SetG ''uJb'' (New ''PJb'' [K (JStr ''IN_C_L''), K (JNum 15), G ''fIb'', G ''YIb'', G ''AHb'', G ''zHb'', Call ''WC'' [Call ''OC'' [G ''UK'', K (JNum 1)], G ''Gte'', K (JNum 22), K (JNum 0), NewArr [Call ''Grb'' [G ''jld'', Call ''WC'' [Call ''OC'' [G ''I2'', K (JNum 1)], G ''xue'', K (JNum 96), K (JNum 0), NewArr [G ''mld'', G ''gld'']]], Call ''Grb'' [G ''jld'', Call ''WC'' [Call ''OC'' [G ''I2'', K (JNum 1)], G ''xue'', K (JNum 96), K (JNum 0), NewArr [G ''mld'', G ''gld'', G ''hld'']]]]]])), Do (SetG ''tJb'' (New ''PJb'' [K (JStr ''IN_C_C''), K (JNum 16), G ''eIb'', G ''YIb'', G ''AHb'', G ''AHb'', Call ''WC'' [Call ''OC'' [G ''UK'', K (JNum 1)], G ''Gte'', K (JNum 22), K (JNum 0), NewArr [Call ''Grb'' [G ''jld'', Call ''WC'' [Call ''OC'' [G ''I2'', K (JNum 1)], G ''xue'', K (JNum 96), K (JNum 0), NewArr [G ''mld'', G ''fld'']]], Call ''Grb'' [G ''jld'', Call ''WC'' [Call ''OC'' [G ''I2'', K (JNum 1)], G ''xue'', K (JNum 96), K (JNum 0), NewArr [G ''mld'', G ''fld'', G ''hld'']]]]]])), Do (SetG ''vJb'' (New ''PJb'' [K (JStr ''IN_C_R''), K (JNum 17), G ''gIb'', G ''YIb'', G ''AHb'', G ''BHb'', Call ''WC'' [Call ''OC'' [G ''UK'', K (JNum 1)], G ''Gte'', K (JNum 22), K (JNum 0), NewArr [Call ''Grb'' [G ''jld'', Call ''WC'' [Call ''OC'' [G ''I2'', K (JNum 1)], G ''xue'', K (JNum 96), K (JNum 0), NewArr [G ''mld'', G ''ild'']]], Call ''Grb'' [G ''jld'', Call ''WC'' [Call ''OC'' [G ''I2'', K (JNum 1)], G ''xue'', K (JNum 96), K (JNum 0), NewArr [G ''mld'', G ''ild'', G ''hld'']]]]]])), Do (SetG ''rJb'' (New ''PJb'' [K (JStr ''IN_B_L''), K (JNum 18), G ''fIb'', G ''XIb'', G ''BHb'', G ''zHb'', Call ''WC'' [Call ''OC'' [G ''UK'', K (JNum 1)], G ''Gte'', K (JNum 22), K (JNum 0), NewArr [Call ''Grb'' [G ''jld'', Call ''WC'' [Call ''OC'' [G ''I2'', K (JNum 1)], G ''xue'', K (JNum 96), K (JNum 0), NewArr [G ''lld'', G ''gld'']]], Call ''Grb'' [G ''jld'', Call ''WC'' [Call ''OC'' [G ''I2'', K (JNum 1)], G ''xue'', K (JNum 96), K (JNum 0), NewArr [G ''lld'', G ''gld'', G ''hld'']]]]]])), Do (SetG ''qJb'' (New ''PJb'' [K (JStr ''IN_B_C''), K (JNum 19), G ''eIb'', G ''XIb'', G ''BHb'', G ''AHb'', Call ''WC'' [Call ''OC'' [G ''UK'', K (JNum 1)], G ''Gte'', K (JNum 22), K (JNum 0), NewArr [Call ''Grb'' [G ''jld'', Call ''WC'' [Call ''OC'' [G ''I2'', K (JNum 1)], G ''xue'', K (JNum 96), K (JNum 0), NewArr [G ''lld'', G ''fld'']]], Call ''Grb'' [G ''jld'', Call ''WC'' [Call ''OC'' [G ''I2'', K (JNum 1)], G ''xue'', K (JNum 96), K (JNum 0), NewArr [G ''lld'', G ''fld'', G ''hld'']]]]]])), Do (SetG ''sJb'' (New ''PJb'' [K (JStr ''IN_B_R''), K (JNum 20), G ''gIb'', G ''XIb'', G ''BHb'', G ''BHb'', Call ''WC'' [Call ''OC'' [G ''UK'', K (JNum 1)], G ''Gte'', K (JNum 22), K (JNum 0), NewArr [Call ''Grb'' [G ''jld'', Call ''WC'' [Call ''OC'' [G ''I2'', K (JNum 1)], G ''xue'', K (JNum 96), K (JNum 0), NewArr [G ''lld'', G ''ild'']]], Call ''Grb'' [G ''jld'', Call ''WC'' [Call ''OC'' [G ''I2'', K (JNum 1)], G ''xue'', K (JNum 96), K (JNum 0), NewArr [G ''lld'', G ''ild'', G ''hld'']]]]]])), Do (SetG ''LJb'' (New ''PJb'' [G ''Ywe'', K (JNum 21), K JNull, K JNull, K JNull, K JNull, Call ''WC'' [Call ''OC'' [G ''UK'', K (JNum 1)], G ''Gte'', K (JNum 22), K (JNum 0), NewArr []]]))]]"

definition object_table35 :: "(string \<times> jfun) list" where
  "object_table35 = code_6283_6286 @ code_6287_6287 @ code_6289_6291 @ code_6292_6294 @ code_6295_6295 @ code_6297_6298 @ code_6302_6303"

text \<open>The names each table declares.\<close>

lemma names_6283_6286 [js_names]: "map fst code_6283_6286 = [
    ''NQd'', ''tlc'', ''tVb'', ''KNc'']"
  by (simp add: code_6283_6286_def fn_def)

lemma names_6287_6287 [js_names]: "map fst code_6287_6287 = [
    ''vlc'']"
  by (simp add: code_6287_6287_def fn_def)

lemma names_6289_6291 [js_names]: "map fst code_6289_6291 = [
    ''s5d'', ''Q$b'', ''S$c'']"
  by (simp add: code_6289_6291_def fn_def)

lemma names_6292_6294 [js_names]: "map fst code_6292_6294 = [
    ''DA'', ''T$b'', ''oZc'']"
  by (simp add: code_6292_6294_def fn_def)

lemma names_6295_6295 [js_names]: "map fst code_6295_6295 = [
    ''j9d'']"
  by (simp add: code_6295_6295_def fn_def)

lemma names_6297_6298 [js_names]: "map fst code_6297_6298 = [
    ''Nlc'', ''Wrc'']"
  by (simp add: code_6297_6298_def fn_def)

lemma names_6302_6303 [js_names]: "map fst code_6302_6303 = [
    ''gre'', ''MJb'']"
  by (simp add: code_6302_6303_def fn_def)

end
