(* ===== verification/ObjectTable36.thy ===== *)
theory ObjectTable36
  imports ObjectCode
begin

text \<open>
  Functions of \<open>layout-worker.js\<close>, lines 6305 to 6313, in the order of the file, one per line:
  the algorithms of the layout engine, longer operations of the runtime's collections and of options,
  with their loops, \<open>switch\<close> and \<open>try\<close> statements. An entry has the name, the
  number of parameters, the number of further local variables and the body; parameters and locals
  are numbered from 0, the variable of a \<open>catch\<close> has a number of its own, \<open>x++\<close> is \<open>(x=x+1)-1\<close>. Lines
  with a construct outside \<open>jexp\<close> and \<open>jstm\<close> (closures, \<open>in\<close>, floating-point literals, host objects) are
  left out.
\<close>

definition code_6305_6305 :: "(string \<times> jfun) list" where
  "code_6305_6305 = [
    fn ''WRd'' 0 0 [Do (SetG ''WRd'' (G ''qdb'')), Do (SetG ''ARd'' (Dot (Seq (Call ''yRd'' []) (G ''xRd'')) ''b'')), Do (Call ''JD'' [Call ''fGd'' [Call ''KWd'' [Dot (G ''xRd'') ''b''], K (JNum 0)], K (JNum 38)]), Do (Call ''JD'' [Call ''fGd'' [Call ''KWd'' [Dot (G ''xRd'') ''b''], K (JNum 1)], K (JNum 19)]), Do (SetG ''zRd'' (Dot (G ''xRd'') ''a'')), Do (Call ''JD'' [Call ''fGd'' [Call ''KWd'' [Dot (G ''xRd'') ''a''], K (JNum 0)], K (JNum 38)]), Do (Call ''JD'' [Call ''fGd'' [Call ''KWd'' [Dot (G ''xRd'') ''a''], K (JNum 1)], K (JNum 19)]), Do (Call ''JD'' [Call ''fGd'' [Call ''KWd'' [Dot (G ''xRd'') ''a''], K (JNum 2)], K (JNum 19)]), Do (Call ''JD'' [Call ''fGd'' [Call ''KWd'' [Dot (G ''xRd'') ''a''], K (JNum 3)], K (JNum 19)]), Do (Call ''JD'' [Call ''fGd'' [Call ''KWd'' [Dot (G ''xRd'') ''a''], K (JNum 4)], K (JNum 19)]), Do (SetG ''BRd'' (Dot (G ''xRd'') ''o'')), Do (Call ''JD'' [Call ''fGd'' [Call ''KWd'' [Dot (G ''xRd'') ''o''], K (JNum 0)], K (JNum 38)]), Do (Call ''JD'' [Call ''fGd'' [Call ''KWd'' [Dot (G ''xRd'') ''o''], K (JNum 1)], K (JNum 38)]), Do (SetG ''DRd'' (Call ''JD'' [Call ''fGd'' [Call ''KWd'' [Dot (G ''xRd'') ''o''], K (JNum 2)], K (JNum 19)])), Do (Call ''JD'' [Call ''fGd'' [Call ''KWd'' [Dot (G ''xRd'') ''o''], K (JNum 3)], K (JNum 19)]), Do (Call ''JD'' [Call ''fGd'' [Call ''KWd'' [Dot (G ''xRd'') ''o''], K (JNum 4)], K (JNum 19)]), Do (Call ''JD'' [Call ''fGd'' [Call ''KWd'' [Dot (G ''xRd'') ''o''], K (JNum 5)], K (JNum 19)]), Do (Call ''JD'' [Call ''fGd'' [Call ''KWd'' [Dot (G ''xRd'') ''o''], K (JNum 6)], K (JNum 19)]), Do (Call ''JD'' [Call ''fGd'' [Call ''KWd'' [Dot (G ''xRd'') ''o''], K (JNum 7)], K (JNum 19)]), Do (Call ''JD'' [Call ''fGd'' [Call ''KWd'' [Dot (G ''xRd'') ''o''], K (JNum 8)], K (JNum 19)]), Do (Call ''JD'' [Call ''fGd'' [Call ''KWd'' [Dot (G ''xRd'') ''o''], K (JNum 9)], K (JNum 19)]), Do (Call ''JD'' [Call ''fGd'' [Call ''KWd'' [Dot (G ''xRd'') ''o''], K (JNum 10)], K (JNum 19)]), Do (Call ''JD'' [Call ''fGd'' [Call ''KWd'' [Dot (G ''xRd'') ''o''], K (JNum 11)], K (JNum 19)]), Do (Call ''JD'' [Call ''fGd'' [Call ''KWd'' [Dot (G ''xRd'') ''o''], K (JNum 12)], K (JNum 19)]), Do (Call ''JD'' [Call ''fGd'' [Call ''KWd'' [Dot (G ''xRd'') ''o''], K (JNum 13)], K (JNum 19)]), Do (Call ''JD'' [Call ''fGd'' [Call ''KWd'' [Dot (G ''xRd'') ''o''], K (JNum 14)], K (JNum 19)]), Do (Call ''JD'' [Call ''fGd'' [Call ''KWd'' [Dot (G ''xRd'') ''o''], K (JNum 15)], K (JNum 19)]), Do (Call ''JD'' [Call ''fGd'' [Call ''HWd'' [Dot (G ''xRd'') ''o''], K (JNum 0)], K (JNum 62)]), Do (Call ''JD'' [Call ''fGd'' [Call ''HWd'' [Dot (G ''xRd'') ''o''], K (JNum 1)], K (JNum 62)]), Do (Call ''JD'' [Call ''fGd'' [Call ''HWd'' [Dot (G ''xRd'') ''o''], K (JNum 2)], K (JNum 62)]), Do (Call ''JD'' [Call ''fGd'' [Call ''HWd'' [Dot (G ''xRd'') ''o''], K (JNum 3)], K (JNum 62)]), Do (Call ''JD'' [Call ''fGd'' [Call ''HWd'' [Dot (G ''xRd'') ''o''], K (JNum 4)], K (JNum 62)]), Do (Call ''JD'' [Call ''fGd'' [Call ''HWd'' [Dot (G ''xRd'') ''o''], K (JNum 5)], K (JNum 62)]), Do (Call ''JD'' [Call ''fGd'' [Call ''HWd'' [Dot (G ''xRd'') ''o''], K (JNum 6)], K (JNum 62)]), Do (Call ''JD'' [Call ''fGd'' [Call ''HWd'' [Dot (G ''xRd'') ''o''], K (JNum 7)], K (JNum 62)]), Do (Call ''JD'' [Call ''fGd'' [Call ''HWd'' [Dot (G ''xRd'') ''o''], K (JNum 8)], K (JNum 62)]), Do (Call ''JD'' [Call ''fGd'' [Call ''HWd'' [Dot (G ''xRd'') ''o''], K (JNum 9)], K (JNum 62)]), Do (SetG ''CRd'' (Dot (G ''xRd'') ''p'')), Do (Call ''JD'' [Call ''fGd'' [Call ''KWd'' [Dot (G ''xRd'') ''p''], K (JNum 0)], K (JNum 38)]), Do (Call ''JD'' [Call ''fGd'' [Call ''KWd'' [Dot (G ''xRd'') ''p''], K (JNum 1)], K (JNum 38)]), Do (Call ''JD'' [Call ''fGd'' [Call ''KWd'' [Dot (G ''xRd'') ''p''], K (JNum 2)], K (JNum 38)]), Do (Call ''JD'' [Call ''fGd'' [Call ''KWd'' [Dot (G ''xRd'') ''p''], K (JNum 3)], K (JNum 38)]), Do (Call ''JD'' [Call ''fGd'' [Call ''KWd'' [Dot (G ''xRd'') ''p''], K (JNum 4)], K (JNum 19)]), Do (Call ''JD'' [Call ''fGd'' [Call ''KWd'' [Dot (G ''xRd'') ''p''], K (JNum 5)], K (JNum 19)]), Do (Call ''JD'' [Call ''fGd'' [Call ''HWd'' [Dot (G ''xRd'') ''p''], K (JNum 0)], K (JNum 62)]), Do (Call ''JD'' [Call ''fGd'' [Call ''HWd'' [Dot (G ''xRd'') ''p''], K (JNum 1)], K (JNum 62)]), Do (SetG ''ERd'' (Dot (G ''xRd'') ''q'')), Do (Call ''JD'' [Call ''fGd'' [Call ''KWd'' [Dot (G ''xRd'') ''q''], K (JNum 0)], K (JNum 38)]), Do (SetG ''FRd'' (Dot (G ''xRd'') ''v'')), Do (Call ''JD'' [Call ''fGd'' [Call ''KWd'' [Dot (G ''xRd'') ''v''], K (JNum 0)], K (JNum 19)]), Do (Call ''JD'' [Call ''fGd'' [Call ''HWd'' [Dot (G ''xRd'') ''v''], K (JNum 0)], K (JNum 62)]), Do (Call ''JD'' [Call ''fGd'' [Call ''HWd'' [Dot (G ''xRd'') ''v''], K (JNum 1)], K (JNum 62)]), Do (Call ''JD'' [Call ''fGd'' [Call ''HWd'' [Dot (G ''xRd'') ''v''], K (JNum 2)], K (JNum 62)]), Do (SetG ''GRd'' (Dot (G ''xRd'') ''w'')), Do (Call ''JD'' [Call ''fGd'' [Call ''KWd'' [Dot (G ''xRd'') ''w''], K (JNum 0)], K (JNum 38)]), Do (Call ''JD'' [Call ''fGd'' [Call ''KWd'' [Dot (G ''xRd'') ''w''], K (JNum 1)], K (JNum 38)]), Do (Call ''JD'' [Call ''fGd'' [Call ''KWd'' [Dot (G ''xRd'') ''w''], K (JNum 2)], K (JNum 38)]), Do (Call ''JD'' [Call ''fGd'' [Call ''KWd'' [Dot (G ''xRd'') ''w''], K (JNum 3)], K (JNum 19)]), Do (SetG ''HRd'' (Dot (G ''xRd'') ''B'')), Do (Call ''JD'' [Call ''fGd'' [Call ''KWd'' [Dot (G ''xRd'') ''B''], K (JNum 0)], K (JNum 19)]), Do (Call ''JD'' [Call ''fGd'' [Call ''HWd'' [Dot (G ''xRd'') ''B''], K (JNum 0)], K (JNum 62)]), Do (Call ''JD'' [Call ''fGd'' [Call ''HWd'' [Dot (G ''xRd'') ''B''], K (JNum 1)], K (JNum 62)]), Do (Call ''JD'' [Call ''fGd'' [Call ''HWd'' [Dot (G ''xRd'') ''B''], K (JNum 2)], K (JNum 62)]), Do (SetG ''KRd'' (Dot (G ''xRd'') ''Q'')), Do (Call ''JD'' [Call ''fGd'' [Call ''KWd'' [Dot (G ''xRd'') ''Q''], K (JNum 0)], K (JNum 19)]), Do (Call ''JD'' [Call ''fGd'' [Call ''HWd'' [Dot (G ''xRd'') ''Q''], K (JNum 0)], K (JNum 62)]), Do (SetG ''LRd'' (Dot (G ''xRd'') ''R'')), Do (Call ''JD'' [Call ''fGd'' [Call ''KWd'' [Dot (G ''xRd'') ''R''], K (JNum 0)], K (JNum 38)]), Do (SetG ''MRd'' (Dot (G ''xRd'') ''S'')), Do (Call ''JD'' [Call ''fGd'' [Call ''HWd'' [Dot (G ''xRd'') ''S''], K (JNum 0)], K (JNum 62)]), Do (Call ''JD'' [Call ''fGd'' [Call ''HWd'' [Dot (G ''xRd'') ''S''], K (JNum 1)], K (JNum 62)]), Do (Call ''JD'' [Call ''fGd'' [Call ''HWd'' [Dot (G ''xRd'') ''S''], K (JNum 2)], K (JNum 62)]), Do (Call ''JD'' [Call ''fGd'' [Call ''HWd'' [Dot (G ''xRd'') ''S''], K (JNum 3)], K (JNum 62)]), Do (Call ''JD'' [Call ''fGd'' [Call ''HWd'' [Dot (G ''xRd'') ''S''], K (JNum 4)], K (JNum 62)]), Do (Call ''JD'' [Call ''fGd'' [Call ''HWd'' [Dot (G ''xRd'') ''S''], K (JNum 5)], K (JNum 62)]), Do (Call ''JD'' [Call ''fGd'' [Call ''HWd'' [Dot (G ''xRd'') ''S''], K (JNum 6)], K (JNum 62)]), Do (Call ''JD'' [Call ''fGd'' [Call ''HWd'' [Dot (G ''xRd'') ''S''], K (JNum 7)], K (JNum 62)]), Do (Call ''JD'' [Call ''fGd'' [Call ''HWd'' [Dot (G ''xRd'') ''S''], K (JNum 8)], K (JNum 62)]), Do (Call ''JD'' [Call ''fGd'' [Call ''HWd'' [Dot (G ''xRd'') ''S''], K (JNum 9)], K (JNum 62)]), Do (Call ''JD'' [Call ''fGd'' [Call ''HWd'' [Dot (G ''xRd'') ''S''], K (JNum 10)], K (JNum 62)]), Do (Call ''JD'' [Call ''fGd'' [Call ''HWd'' [Dot (G ''xRd'') ''S''], K (JNum 11)], K (JNum 62)]), Do (Call ''JD'' [Call ''fGd'' [Call ''HWd'' [Dot (G ''xRd'') ''S''], K (JNum 12)], K (JNum 62)]), Do (Call ''JD'' [Call ''fGd'' [Call ''HWd'' [Dot (G ''xRd'') ''S''], K (JNum 13)], K (JNum 62)]), Do (Call ''JD'' [Call ''fGd'' [Call ''HWd'' [Dot (G ''xRd'') ''S''], K (JNum 14)], K (JNum 62)]), Do (SetG ''NRd'' (Dot (G ''xRd'') ''T'')), Do (Call ''JD'' [Call ''fGd'' [Call ''KWd'' [Dot (G ''xRd'') ''T''], K (JNum 0)], K (JNum 19)]), Do (Call ''JD'' [Call ''fGd'' [Call ''KWd'' [Dot (G ''xRd'') ''T''], K (JNum 2)], K (JNum 19)]), Do (SetG ''ORd'' (Call ''JD'' [Call ''fGd'' [Call ''KWd'' [Dot (G ''xRd'') ''T''], K (JNum 3)], K (JNum 19)])), Do (Call ''JD'' [Call ''fGd'' [Call ''KWd'' [Dot (G ''xRd'') ''T''], K (JNum 4)], K (JNum 19)]), Do (Call ''JD'' [Call ''fGd'' [Call ''HWd'' [Dot (G ''xRd'') ''T''], K (JNum 0)], K (JNum 62)]), Do (Call ''JD'' [Call ''fGd'' [Call ''HWd'' [Dot (G ''xRd'') ''T''], K (JNum 1)], K (JNum 62)]), Do (Call ''JD'' [Call ''fGd'' [Call ''KWd'' [Dot (G ''xRd'') ''T''], K (JNum 1)], K (JNum 19)]), Do (SetG ''PRd'' (Dot (G ''xRd'') ''U'')), Do (Call ''JD'' [Call ''fGd'' [Call ''KWd'' [Dot (G ''xRd'') ''U''], K (JNum 0)], K (JNum 38)]), Do (Call ''JD'' [Call ''fGd'' [Call ''KWd'' [Dot (G ''xRd'') ''U''], K (JNum 1)], K (JNum 38)]), Do (Call ''JD'' [Call ''fGd'' [Call ''KWd'' [Dot (G ''xRd'') ''U''], K (JNum 2)], K (JNum 19)]), Do (Call ''JD'' [Call ''fGd'' [Call ''KWd'' [Dot (G ''xRd'') ''U''], K (JNum 3)], K (JNum 19)]), Do (Call ''JD'' [Call ''fGd'' [Call ''KWd'' [Dot (G ''xRd'') ''U''], K (JNum 4)], K (JNum 19)]), Do (Call ''JD'' [Call ''fGd'' [Call ''KWd'' [Dot (G ''xRd'') ''U''], K (JNum 5)], K (JNum 19)]), Do (Call ''JD'' [Call ''fGd'' [Call ''HWd'' [Dot (G ''xRd'') ''U''], K (JNum 0)], K (JNum 62)]), Do (SetG ''QRd'' (Dot (G ''xRd'') ''V'')), Do (Call ''JD'' [Call ''fGd'' [Call ''KWd'' [Dot (G ''xRd'') ''V''], K (JNum 0)], K (JNum 19)]), Do (SetG ''RRd'' (Dot (G ''xRd'') ''W'')), Do (Call ''JD'' [Call ''fGd'' [Call ''KWd'' [Dot (G ''xRd'') ''W''], K (JNum 0)], K (JNum 38)]), Do (Call ''JD'' [Call ''fGd'' [Call ''KWd'' [Dot (G ''xRd'') ''W''], K (JNum 1)], K (JNum 38)]), Do (Call ''JD'' [Call ''fGd'' [Call ''KWd'' [Dot (G ''xRd'') ''W''], K (JNum 2)], K (JNum 38)]), Do (Call ''JD'' [Call ''fGd'' [Call ''KWd'' [Dot (G ''xRd'') ''W''], K (JNum 3)], K (JNum 19)]), Do (Call ''JD'' [Call ''fGd'' [Call ''KWd'' [Dot (G ''xRd'') ''W''], K (JNum 4)], K (JNum 19)]), Do (Call ''JD'' [Call ''fGd'' [Call ''KWd'' [Dot (G ''xRd'') ''W''], K (JNum 5)], K (JNum 19)]), Do (SetG ''TRd'' (Dot (G ''xRd'') ''bb'')), Do (Call ''JD'' [Call ''fGd'' [Call ''KWd'' [Dot (G ''xRd'') ''bb''], K (JNum 0)], K (JNum 38)]), Do (Call ''JD'' [Call ''fGd'' [Call ''KWd'' [Dot (G ''xRd'') ''bb''], K (JNum 1)], K (JNum 38)]), Do (Call ''JD'' [Call ''fGd'' [Call ''KWd'' [Dot (G ''xRd'') ''bb''], K (JNum 2)], K (JNum 38)]), Do (Call ''JD'' [Call ''fGd'' [Call ''KWd'' [Dot (G ''xRd'') ''bb''], K (JNum 3)], K (JNum 38)]), Do (Call ''JD'' [Call ''fGd'' [Call ''KWd'' [Dot (G ''xRd'') ''bb''], K (JNum 4)], K (JNum 38)]), Do (Call ''JD'' [Call ''fGd'' [Call ''KWd'' [Dot (G ''xRd'') ''bb''], K (JNum 5)], K (JNum 38)]), Do (Call ''JD'' [Call ''fGd'' [Call ''KWd'' [Dot (G ''xRd'') ''bb''], K (JNum 6)], K (JNum 38)]), Do (Call ''JD'' [Call ''fGd'' [Call ''KWd'' [Dot (G ''xRd'') ''bb''], K (JNum 7)], K (JNum 19)]), Do (Call ''JD'' [Call ''fGd'' [Call ''HWd'' [Dot (G ''xRd'') ''bb''], K (JNum 0)], K (JNum 62)]), Do (Call ''JD'' [Call ''fGd'' [Call ''HWd'' [Dot (G ''xRd'') ''bb''], K (JNum 1)], K (JNum 62)]), Do (SetG ''URd'' (Dot (G ''xRd'') ''eb'')), Do (Call ''JD'' [Call ''fGd'' [Call ''KWd'' [Dot (G ''xRd'') ''eb''], K (JNum 0)], K (JNum 38)]), Do (Call ''JD'' [Call ''fGd'' [Call ''KWd'' [Dot (G ''xRd'') ''eb''], K (JNum 1)], K (JNum 38)]), Do (Call ''JD'' [Call ''fGd'' [Call ''KWd'' [Dot (G ''xRd'') ''eb''], K (JNum 2)], K (JNum 38)]), Do (Call ''JD'' [Call ''fGd'' [Call ''KWd'' [Dot (G ''xRd'') ''eb''], K (JNum 3)], K (JNum 38)]), Do (Call ''JD'' [Call ''fGd'' [Call ''KWd'' [Dot (G ''xRd'') ''eb''], K (JNum 4)], K (JNum 38)]), Do (Call ''JD'' [Call ''fGd'' [Call ''KWd'' [Dot (G ''xRd'') ''eb''], K (JNum 5)], K (JNum 38)]), Do (Call ''JD'' [Call ''fGd'' [Call ''KWd'' [Dot (G ''xRd'') ''eb''], K (JNum 6)], K (JNum 19)]), Do (Call ''JD'' [Call ''fGd'' [Call ''KWd'' [Dot (G ''xRd'') ''eb''], K (JNum 7)], K (JNum 19)]), Do (SetG ''SRd'' (Dot (G ''xRd'') ''ab'')), Do (Call ''JD'' [Call ''fGd'' [Call ''KWd'' [Dot (G ''xRd'') ''ab''], K (JNum 0)], K (JNum 38)]), Do (Call ''JD'' [Call ''fGd'' [Call ''KWd'' [Dot (G ''xRd'') ''ab''], K (JNum 1)], K (JNum 38)]), Do (SetG ''IRd'' (Dot (G ''xRd'') ''H'')), Do (Call ''JD'' [Call ''fGd'' [Call ''KWd'' [Dot (G ''xRd'') ''H''], K (JNum 0)], K (JNum 19)]), Do (Call ''JD'' [Call ''fGd'' [Call ''KWd'' [Dot (G ''xRd'') ''H''], K (JNum 1)], K (JNum 19)]), Do (Call ''JD'' [Call ''fGd'' [Call ''KWd'' [Dot (G ''xRd'') ''H''], K (JNum 2)], K (JNum 19)]), Do (Call ''JD'' [Call ''fGd'' [Call ''KWd'' [Dot (G ''xRd'') ''H''], K (JNum 3)], K (JNum 19)]), Do (Call ''JD'' [Call ''fGd'' [Call ''KWd'' [Dot (G ''xRd'') ''H''], K (JNum 4)], K (JNum 19)]), Do (Call ''JD'' [Call ''fGd'' [Call ''KWd'' [Dot (G ''xRd'') ''H''], K (JNum 5)], K (JNum 19)]), Do (Call ''JD'' [Call ''fGd'' [Call ''HWd'' [Dot (G ''xRd'') ''H''], K (JNum 0)], K (JNum 62)]), Do (SetG ''VRd'' (Dot (G ''xRd'') ''db'')), Do (Call ''JD'' [Call ''fGd'' [Call ''KWd'' [Dot (G ''xRd'') ''db''], K (JNum 0)], K (JNum 19)]), Do (SetG ''JRd'' (Dot (G ''xRd'') ''M''))]]"

definition code_6306_6306 :: "(string \<times> jfun) list" where
  "code_6306_6306 = [
    fn ''Nle'' 1 1 [When (Dot (V 0) ''O'') [Ret (K JUndef)] [], Do (Put (V 0) ''O'' (K (JBool True))), Do (Call ''jyd'' [V 0, K (JStr ''type'')]), Do (Call ''Yyd'' [V 0, K (JStr ''ecore.xml.type'')]), Do (Call ''Zyd'' [V 0, G ''oJe'']), Do (SetV 1 (Call ''JD'' [Call ''$3d'' [Seq (Call ''jRd'' []) (G ''iRd''), G ''oJe''], K (JNum 2009)])), Do (Call ''lFd'' [Call ''MWd'' [Dot (V 0) ''fb''], Dot (V 0) ''b'']), Do (Call ''Ryd'' [Dot (V 0) ''b'', G ''ebb'', K (JStr ''AnyType''), K (JBool False), K (JBool False), K (JBool True)]), Do (Call ''Pyd'' [Call ''JD'' [Call ''fGd'' [Call ''KWd'' [Dot (V 0) ''b''], K (JNum 0)], K (JNum 38)], Dot (Dot (V 0) ''wb'') ''D'', G ''AIe'', K JNull, K (JNum 0), K (JNum (- 1)), G ''ebb'', K (JBool False), K (JBool False), K (JBool True), K (JBool False), K (JBool False), K (JBool False)]), Do (Call ''Pyd'' [Call ''JD'' [Call ''fGd'' [Call ''KWd'' [Dot (V 0) ''b''], K (JNum 1)], K (JNum 38)], Dot (Dot (V 0) ''wb'') ''D'', K (JStr ''any''), K JNull, K (JNum 0), K (JNum (- 1)), G ''ebb'', K (JBool True), K (JBool True), K (JBool True), K (JBool False), K (JBool False), K (JBool True)]), Do (Call ''Pyd'' [Call ''JD'' [Call ''fGd'' [Call ''KWd'' [Dot (V 0) ''b''], K (JNum 2)], K (JNum 38)], Dot (Dot (V 0) ''wb'') ''D'', K (JStr ''anyAttribute''), K JNull, K (JNum 0), K (JNum (- 1)), G ''ebb'', K (JBool False), K (JBool False), K (JBool True), K (JBool False), K (JBool False), K (JBool False)]), Do (Call ''Ryd'' [Dot (V 0) ''bb'', G ''gbb'', G ''tJe'', K (JBool False), K (JBool False), K (JBool True)]), Do (Call ''Pyd'' [Call ''JD'' [Call ''fGd'' [Call ''KWd'' [Dot (V 0) ''bb''], K (JNum 0)], K (JNum 38)], Dot (V 0) ''gb'', K (JStr ''data''), K JNull, K (JNum 0), K (JNum 1), G ''gbb'', K (JBool False), K (JBool False), K (JBool True), K (JBool False), K (JBool True), K (JBool False)]), Do (Call ''Pyd'' [Call ''JD'' [Call ''fGd'' [Call ''KWd'' [Dot (V 0) ''bb''], K (JNum 1)], K (JNum 38)], Dot (V 0) ''gb'', G ''NGe'', K JNull, K (JNum 1), K (JNum 1), G ''gbb'', K (JBool False), K (JBool False), K (JBool True), K (JBool False), K (JBool True), K (JBool False)]), Do (Call ''Ryd'' [Dot (V 0) ''fb'', G ''hbb'', G ''uJe'', K (JBool False), K (JBool False), K (JBool True)]), Do (Call ''Pyd'' [Call ''JD'' [Call ''fGd'' [Call ''KWd'' [Dot (V 0) ''fb''], K (JNum 0)], K (JNum 38)], Dot (V 1) ''gb'', K (JStr ''rawValue''), K JNull, K (JNum 0), K (JNum 1), G ''hbb'', K (JBool True), K (JBool True), K (JBool True), K (JBool False), K (JBool True), K (JBool True)]), Do (Call ''Pyd'' [Call ''JD'' [Call ''fGd'' [Call ''KWd'' [Dot (V 0) ''fb''], K (JNum 1)], K (JNum 38)], Dot (V 1) ''a'', G ''lGe'', K JNull, K (JNum 0), K (JNum 1), G ''hbb'', K (JBool True), K (JBool True), K (JBool True), K (JBool False), K (JBool True), K (JBool True)]), Do (Call ''Vyd'' [Call ''JD'' [Call ''fGd'' [Call ''KWd'' [Dot (V 0) ''fb''], K (JNum 2)], K (JNum 19)], Dot (Dot (V 0) ''wb'') ''q'', K JNull, K (JStr ''instanceType''), K (JNum 1), K (JNum 1), G ''hbb'', K (JBool False), K (JBool False), K (JBool True), K (JBool False), K (JBool False), K (JBool False), K (JBool False)]), Do (Call ''Ryd'' [Dot (V 0) ''qb'', G ''ibb'', G ''vJe'', K (JBool False), K (JBool False), K (JBool True)]), Do (Call ''Pyd'' [Call ''JD'' [Call ''fGd'' [Call ''KWd'' [Dot (V 0) ''qb''], K (JNum 0)], K (JNum 38)], Dot (Dot (V 0) ''wb'') ''D'', G ''AIe'', K JNull, K (JNum 0), K (JNum (- 1)), K JNull, K (JBool False), K (JBool False), K (JBool True), K (JBool False), K (JBool False), K (JBool False)]), Do (Call ''Vyd'' [Call ''JD'' [Call ''fGd'' [Call ''KWd'' [Dot (V 0) ''qb''], K (JNum 1)], K (JNum 19)], Dot (Dot (V 0) ''wb'') ''ab'', K JNull, K (JStr ''xMLNSPrefixMap''), K (JNum 0), K (JNum (- 1)), K JNull, K (JBool True), K (JBool False), K (JBool True), K (JBool True), K (JBool False), K (JBool False), K (JBool False)]), Do (Call ''Vyd'' [Call ''JD'' [Call ''fGd'' [Call ''KWd'' [Dot (V 0) ''qb''], K (JNum 2)], K (JNum 19)], Dot (Dot (V 0) ''wb'') ''ab'', K JNull, K (JStr ''xSISchemaLocation''), K (JNum 0), K (JNum (- 1)), K JNull, K (JBool True), K (JBool False), K (JBool True), K (JBool True), K (JBool False), K (JBool False), K (JBool False)]), Do (Call ''Pyd'' [Call ''JD'' [Call ''fGd'' [Call ''KWd'' [Dot (V 0) ''qb''], K (JNum 3)], K (JNum 38)], Dot (V 0) ''gb'', K (JStr ''cDATA''), K JNull, K (JNum 0), K (JNum (- 2)), K JNull, K (JBool True), K (JBool True), K (JBool True), K (JBool False), K (JBool False), K (JBool True)]), Do (Call ''Pyd'' [Call ''JD'' [Call ''fGd'' [Call ''KWd'' [Dot (V 0) ''qb''], K (JNum 4)], K (JNum 38)], Dot (V 0) ''gb'', K (JStr ''comment''), K JNull, K (JNum 0), K (JNum (- 2)), K JNull, K (JBool True), K (JBool True), K (JBool True), K (JBool False), K (JBool False), K (JBool True)]), Do (Call ''Vyd'' [Call ''JD'' [Call ''fGd'' [Call ''KWd'' [Dot (V 0) ''qb''], K (JNum 5)], K (JNum 19)], Dot (V 0) ''bb'', K JNull, G ''VJe'', K (JNum 0), K (JNum (- 2)), K JNull, K (JBool True), K (JBool True), K (JBool True), K (JBool True), K (JBool False), K (JBool False), K (JBool True)]), Do (Call ''Pyd'' [Call ''JD'' [Call ''fGd'' [Call ''KWd'' [Dot (V 0) ''qb''], K (JNum 6)], K (JNum 38)], Dot (V 0) ''gb'', G ''sGe'', K JNull, K (JNum 0), K (JNum (- 2)), K JNull, K (JBool True), K (JBool True), K (JBool True), K (JBool False), K (JBool False), K (JBool True)]), Do (Call ''Tyd'' [Dot (V 0) ''a'', G ''aJ'', K (JStr ''AnySimpleType''), K (JBool True)]), Do (Call ''Tyd'' [Dot (V 0) ''c'', G ''hJ'', K (JStr ''AnyURI''), K (JBool True)]), Do (Call ''Tyd'' [Dot (V 0) ''d'', Call ''OC'' [G ''$D'', K (JNum 1)], K (JStr ''Base64Binary''), K (JBool True)]), Do (Call ''Tyd'' [Dot (V 0) ''e'', G ''Icb'', K (JStr ''Boolean''), K (JBool True)]), Do (Call ''Tyd'' [Dot (V 0) ''f'', G ''GI'', K (JStr ''BooleanObject''), K (JBool True)]), Do (Call ''Tyd'' [Dot (V 0) ''g'', G ''$D'', K (JStr ''Byte''), K (JBool True)]), Do (Call ''Tyd'' [Dot (V 0) ''i'', G ''HI'', K (JStr ''ByteObject''), K (JBool True)]), Do (Call ''Tyd'' [Dot (V 0) ''j'', G ''hJ'', K (JStr ''Date''), K (JBool True)]), Do (Call ''Tyd'' [Dot (V 0) ''k'', G ''hJ'', K (JStr ''DateTime''), K (JBool True)]), Do (Call ''Tyd'' [Dot (V 0) ''n'', G ''kJ'', K (JStr ''Decimal''), K (JBool True)]), Do (Call ''Tyd'' [Dot (V 0) ''o'', G ''aE'', K (JStr ''Double''), K (JBool True)]), Do (Call ''Tyd'' [Dot (V 0) ''p'', G ''LI'', K (JStr ''DoubleObject''), K (JBool True)]), Do (Call ''Tyd'' [Dot (V 0) ''q'', G ''hJ'', K (JStr ''Duration''), K (JBool True)]), Do (Call ''Tyd'' [Dot (V 0) ''s'', G ''HK'', K (JStr ''ENTITIES''), K (JBool True)]), Do (Call ''Tyd'' [Dot (V 0) ''r'', G ''HK'', K (JStr ''ENTITIESBase''), K (JBool True)]), Do (Call ''Tyd'' [Dot (V 0) ''t'', G ''hJ'', G ''BJe'', K (JBool True)]), Do (Call ''Tyd'' [Dot (V 0) ''u'', G ''bE'', K (JStr ''Float''), K (JBool True)]), Do (Call ''Tyd'' [Dot (V 0) ''v'', G ''QI'', K (JStr ''FloatObject''), K (JBool True)]), Do (Call ''Tyd'' [Dot (V 0) ''w'', G ''hJ'', K (JStr ''GDay''), K (JBool True)]), Do (Call ''Tyd'' [Dot (V 0) ''B'', G ''hJ'', K (JStr ''GMonth''), K (JBool True)]), Do (Call ''Tyd'' [Dot (V 0) ''A'', G ''hJ'', K (JStr ''GMonthDay''), K (JBool True)]), Do (Call ''Tyd'' [Dot (V 0) ''C'', G ''hJ'', K (JStr ''GYear''), K (JBool True)]), Do (Call ''Tyd'' [Dot (V 0) ''D'', G ''hJ'', K (JStr ''GYearMonth''), K (JBool True)]), Do (Call ''Tyd'' [Dot (V 0) ''F'', Call ''OC'' [G ''$D'', K (JNum 1)], K (JStr ''HexBinary''), K (JBool True)]), Do (Call ''Tyd'' [Dot (V 0) ''G'', G ''hJ'', K (JStr ''ID''), K (JBool True)]), Do (Call ''Tyd'' [Dot (V 0) ''H'', G ''hJ'', K (JStr ''IDREF''), K (JBool True)]), Do (Call ''Tyd'' [Dot (V 0) ''J'', G ''HK'', K (JStr ''IDREFS''), K (JBool True)]), Do (Call ''Tyd'' [Dot (V 0) ''I'', G ''HK'', K (JStr ''IDREFSBase''), K (JBool True)]), Do (Call ''Tyd'' [Dot (V 0) ''K'', G ''cE'', K (JStr ''Int''), K (JBool True)]), Do (Call ''Tyd'' [Dot (V 0) ''M'', G ''lJ'', K (JStr ''Integer''), K (JBool True)]), Do (Call ''Tyd'' [Dot (V 0) ''L'', G ''UI'', K (JStr ''IntObject''), K (JBool True)]), Do (Call ''Tyd'' [Dot (V 0) ''P'', G ''hJ'', K (JStr ''Language''), K (JBool True)]), Do (Call ''Tyd'' [Dot (V 0) ''Q'', G ''dE'', K (JStr ''Long''), K (JBool True)]), Do (Call ''Tyd'' [Dot (V 0) ''R'', G ''XI'', K (JStr ''LongObject''), K (JBool True)]), Do (Call ''Tyd'' [Dot (V 0) ''S'', G ''hJ'', K (JStr ''Name''), K (JBool True)]), Do (Call ''Tyd'' [Dot (V 0) ''T'', G ''hJ'', G ''CJe'', K (JBool True)]), Do (Call ''Tyd'' [Dot (V 0) ''U'', G ''lJ'', K (JStr ''NegativeInteger''), K (JBool True)]), Do (Call ''Tyd'' [Dot (V 0) ''V'', G ''hJ'', G ''MJe'', K (JBool True)]), Do (Call ''Tyd'' [Dot (V 0) ''X'', G ''HK'', K (JStr ''NMTOKENS''), K (JBool True)]), Do (Call ''Tyd'' [Dot (V 0) ''W'', G ''HK'', K (JStr ''NMTOKENSBase''), K (JBool True)]), Do (Call ''Tyd'' [Dot (V 0) ''Y'', G ''lJ'', K (JStr ''NonNegativeInteger''), K (JBool True)]), Do (Call ''Tyd'' [Dot (V 0) ''Z'', G ''lJ'', K (JStr ''NonPositiveInteger''), K (JBool True)]), Do (Call ''Tyd'' [Dot (V 0) ''$'', G ''hJ'', K (JStr ''NormalizedString''), K (JBool True)]), Do (Call ''Tyd'' [Dot (V 0) ''_'', G ''hJ'', K (JStr ''NOTATION''), K (JBool True)]), Do (Call ''Tyd'' [Dot (V 0) ''ab'', G ''hJ'', K (JStr ''PositiveInteger''), K (JBool True)]), Do (Call ''Tyd'' [Dot (V 0) ''cb'', G ''hJ'', K (JStr ''QName''), K (JBool True)]), Do (Call ''Tyd'' [Dot (V 0) ''db'', G ''Hcb'', K (JStr ''Short''), K (JBool True)]), Do (Call ''Tyd'' [Dot (V 0) ''eb'', G ''cJ'', K (JStr ''ShortObject''), K (JBool True)]), Do (Call ''Tyd'' [Dot (V 0) ''gb'', G ''hJ'', G ''Iue'', K (JBool True)]), Do (Call ''Tyd'' [Dot (V 0) ''hb'', G ''hJ'', K (JStr ''Time''), K (JBool True)]), Do (Call ''Tyd'' [Dot (V 0) ''ib'', G ''hJ'', K (JStr ''Token''), K (JBool True)]), Do (Call ''Tyd'' [Dot (V 0) ''jb'', G ''Hcb'', K (JStr ''UnsignedByte''), K (JBool True)]), Do (Call ''Tyd'' [Dot (V 0) ''kb'', G ''cJ'', K (JStr ''UnsignedByteObject''), K (JBool True)]), Do (Call ''Tyd'' [Dot (V 0) ''lb'', G ''dE'', K (JStr ''UnsignedInt''), K (JBool True)]), Do (Call ''Tyd'' [Dot (V 0) ''mb'', G ''XI'', K (JStr ''UnsignedIntObject''), K (JBool True)]), Do (Call ''Tyd'' [Dot (V 0) ''nb'', G ''lJ'', K (JStr ''UnsignedLong''), K (JBool True)]), Do (Call ''Tyd'' [Dot (V 0) ''ob'', G ''cE'', K (JStr ''UnsignedShort''), K (JBool True)]), Do (Call ''Tyd'' [Dot (V 0) ''pb'', G ''UI'', K (JStr ''UnsignedShortObject''), K (JBool True)]), Do (Call ''Lyd'' [V 0, G ''oJe'']), Do (Call ''Lle'' [V 0])]]"

definition code_6307_6307 :: "(string \<times> jfun) list" where
  "code_6307_6307 = [
    fn ''Abd'' 4 47 [When (Meth (V 3) ''Zg'' []) [Ret (Seq (Seq (Call ''Inb'' []) (Call ''Inb'' [])) (G ''Fnb''))] [], When (Call ''Rdb'' [Call ''LD'' [Call ''cvd'' [V 1, Seq (Call ''vjd'' []) (G ''pid'')]]]) [Ret (Seq (Seq (Call ''Inb'' []) (Call ''Inb'' [])) (G ''Fnb''))] [], Do (SetV 23 (Neg (Loose (Dot (Seq (And (Neg (Dot (V 1) ''a'')) (Put (V 1) ''a'' (New ''P3d'' [G ''T3'', V 1, K (JNum 10), K (JNum 11)]))) (Dot (V 1) ''a'')) ''i'') (K (JNum 0))))), Do (SetV 25 (Call ''ybd'' [V 1])), Do (SetV 24 (Neg (Meth (V 25) ''dc'' []))), When (Or (V 23) (V 24)) [Do (SetV 4 (Call ''JD'' [Call ''cvd'' [V 1, G ''Rid''], K (JNum 144)])), When (Neg (V 4)) [Raise (Call ''Lcb'' [New ''Ebd'' [K (JStr ''Resolved algorithm is not set; apply a LayoutAlgorithmResolver before computing layout.'')]])] [], Do (SetV 47 (Call ''Jcd'' [V 4, Seq (Call ''tEd'' []) (G ''pEd'')])), Do (Call ''wbd'' [V 1]), When (And (And (Neg (V 23)) (V 24)) (Neg (V 47))) [Ret (Seq (Seq (Call ''Inb'' []) (Call ''Inb'' [])) (G ''Fnb''))] [], Do (SetV 19 (New ''lmb'' [])), When (And (Same (Call ''XD'' [Call ''cvd'' [V 1, G ''Rhd'']]) (Call ''XD'' [Seq (Call ''Qkd'' []) (G ''Nkd'')])) (Or (Call ''Jcd'' [V 4, G ''mEd'']) (Call ''Jcd'' [V 4, G ''lEd'']))) [When (Call ''Rdb'' [Call ''LD'' [Call ''cvd'' [V 1, G ''kjd'']]]) [Raise (Call ''Lcb'' [New ''Ebd'' [K (JStr ''Topdown layout cannot be used together with hierarchy handling.'')]])] [], Do (SetV 34 (Call ''vbd'' [V 0, V 1])), Do (SetV 35 (New ''dub'' [])), Do (Call ''xe'' [V 35, Seq (And (Neg (Dot (V 1) ''a'')) (Put (V 1) ''a'' (New ''P3d'' [G ''T3'', V 1, K (JNum 10), K (JNum 11)]))) (Dot (V 1) ''a'')]), Loop (Neg (Loose (Dot (V 35) ''b'') (K (JNum 0)))) [Do (SetV 32 (Call ''JD'' [Cond (Loose (Dot (V 35) ''b'') (K (JNum 0))) (K JNull) (Seq (Call ''LDb'' [Neg (Loose (Dot (V 35) ''b'') (K (JNum 0)))]) (Call ''bub'' [V 35, Dot (Dot (V 35) ''a'') ''a''])), K (JNum 26)])), Do (Call ''wbd'' [V 32]), Do (SetV 46 (Same (Call ''XD'' [Call ''cvd'' [V 32, G ''Rhd'']]) (Call ''XD'' [G ''Pkd'']))), When (Or (V 46) (And (Call ''dvd'' [V 32, G ''uhd'']) (Neg (Call ''Icd'' [V 4, Call ''cvd'' [V 32, G ''Rid'']])))) [Do (SetV 16 (Call ''Abd'' [V 0, V 32, V 2, V 3])), Do (Call ''bmb'' [V 19, V 16]), Do (Call ''evd'' [V 32, G ''Rhd'', G ''Pkd'']), Do (Call ''Mpd'' [V 32])] [Do (Call ''xe'' [V 35, Seq (And (Neg (Dot (V 32) ''a'')) (Put (V 32) ''a'' (New ''P3d'' [G ''T3'', V 32, K (JNum 10), K (JNum 11)]))) (Dot (V 32) ''a'')])]] []] [Do (SetV 34 (Dot (Seq (And (Neg (Dot (V 1) ''a'')) (Put (V 1) ''a'' (New ''P3d'' [G ''T3'', V 1, K (JNum 10), K (JNum 11)]))) (Dot (V 1) ''a'')) ''i'')), When (Call ''Rdb'' [Call ''LD'' [Call ''cvd'' [V 1, G ''kjd'']]]) [Do (SetV 48 (Meth (V 3) ''dh'' [K (JNum 1)])), Do (Meth (V 48) ''Tg'' [G ''CEe'', K (JNum 1)]), When (Loose (Call ''cvd'' [V 1, G ''ljd'']) (K JNull)) [Raise (Call ''Lcb'' [New ''Ebd'' [Bin Plus (Dot (V 1) ''k'') (K (JStr '' has not been assigned a top-down node type.''))]])] [], When (Or (Loose (Call ''JD'' [Call ''cvd'' [V 1, G ''ljd''], K (JNum 281)]) (Seq (Call ''Gnd'' []) (G ''Dnd''))) (Loose (Call ''JD'' [Call ''cvd'' [V 1, G ''ljd''], K (JNum 281)]) (G ''Fnd''))) [Do (SetV 18 (New ''uKd'' [Seq (And (Neg (Dot (V 1) ''a'')) (Put (V 1) ''a'' (New ''P3d'' [G ''T3'', V 1, K (JNum 10), K (JNum 11)]))) (Dot (V 1) ''a'')])), Loop (Neg (Loose (Dot (V 18) ''e'') (Meth (Dot (V 18) ''i'') ''gc'' []))) [Do (SetV 17 (Call ''JD'' [Call ''sKd'' [V 18], K (JNum 26)])), Do (SetV 31 (Call ''JD'' [Call ''cvd'' [V 17, G ''Rid''], K (JNum 144)])), Do (SetV 37 (Call ''JD'' [Call ''cvd'' [V 17, G ''rid''], K (JNum 104)])), When (And (Bin Gt (Dot (Seq (And (Neg (Dot (V 17) ''a'')) (Put (V 17) ''a'' (New ''P3d'' [G ''T3'', V 17, K (JNum 10), K (JNum 11)]))) (Dot (V 17) ''a'')) ''i'') (K (JNum 0))) (Seq (Call ''Nqd'' [Dot (V 31) ''f'']) (K (JBool False)))) [When (Loose (Call ''JD'' [Call ''cvd'' [V 17, G ''ljd''], K (JNum 281)]) (G ''Dnd'')) [Raise (Call ''Lcb'' [New ''Ebd'' [K (JStr ''Topdown Layout Providers should only be used on parallel nodes.'')]])] [], Do (Call ''ZD'' [Call ''Nqd'' [Dot (V 31) ''f'']]), Do (Meth (K JNull) ''Sm'' []), Do (Call ''Xvd'' [V 17, Meth (Dot (G ''$wnd'') ''Math'') ''max'' [Dot (V 17) ''g'', Dot (K JNull) ''Tm''], Meth (Dot (G ''$wnd'') ''Math'') ''max'' [Dot (V 17) ''f'', Dot (K JNull) ''Tm'']])] [When (And (And (Neg (Loose (Call ''cvd'' [V 17, G ''qjd'']) (K JNull))) (Seq (And (Neg (Dot (V 17) ''a'')) (Put (V 17) ''a'' (New ''P3d'' [G ''T3'', V 17, K (JNum 10), K (JNum 11)]))) (Neg (Neg (Dot (V 17) ''a''))))) (Bin Gt (Dot (Seq (And (Neg (Dot (V 17) ''a'')) (Put (V 17) ''a'' (New ''P3d'' [G ''T3'', V 17, K (JNum 10), K (JNum 11)]))) (Dot (V 17) ''a'')) ''i'') (K (JNum 0)))) [Do (SetV 7 (Call ''JD'' [Call ''cvd'' [V 17, G ''qjd''], K (JNum 522)])), Do (SetV 45 (Meth (V 7) ''Sg'' [V 17])), Do (Call ''Xvd'' [V 17, Meth (Dot (G ''$wnd'') ''Math'') ''max'' [Dot (V 17) ''g'', Bin Plus (Bin Plus (Dot (V 45) ''a'') (Dot (V 37) ''b'')) (Dot (V 37) ''c'')], Meth (Dot (G ''$wnd'') ''Math'') ''max'' [Dot (V 17) ''f'', Bin Plus (Bin Plus (Dot (V 45) ''b'') (Dot (V 37) ''d'')) (Dot (V 37) ''a'')]])] [When (Neg (Loose (Dot (Seq (And (Neg (Dot (V 17) ''a'')) (Put (V 17) ''a'' (New ''P3d'' [G ''T3'', V 17, K (JNum 10), K (JNum 11)]))) (Dot (V 17) ''a'')) ''i'') (K (JNum 0)))) [Do (SetV 45 (New ''lgd'' [Call ''Ueb'' [Call ''MD'' [Call ''cvd'' [V 17, G ''jjd'']]], Bin Divide (Call ''Ueb'' [Call ''MD'' [Call ''cvd'' [V 17, G ''jjd'']]]) (Call ''Ueb'' [Call ''MD'' [Call ''cvd'' [V 17, G ''ijd'']]])])), Do (Call ''Xvd'' [V 17, Meth (Dot (G ''$wnd'') ''Math'') ''max'' [Dot (V 17) ''g'', Bin Plus (Bin Plus (Dot (V 45) ''a'') (Dot (V 37) ''b'')) (Dot (V 37) ''c'')], Meth (Dot (G ''$wnd'') ''Math'') ''max'' [Dot (V 17) ''f'', Bin Plus (Bin Plus (Dot (V 45) ''b'') (Dot (V 37) ''d'')) (Dot (V 37) ''a'')]])] []]]] []] [], Do (SetV 36 (Call ''JD'' [Call ''cvd'' [V 1, G ''rid''], K (JNum 104)])), Do (SetV 13 (Bin Minus (Dot (V 1) ''g'') (Bin Plus (Dot (V 36) ''b'') (Dot (V 36) ''c'')))), Do (SetV 12 (Bin Minus (Dot (V 1) ''f'') (Bin Plus (Dot (V 36) ''d'') (Dot (V 36) ''a'')))), Do (Meth (V 48) ''ah'' [Bin Plus (Bin Plus (Bin Plus (Bin Plus (K (JStr ''Available Child Area: ('')) (V 13)) (K (JStr ''|''))) (V 12)) (K (JStr '')''))]), Do (Call ''evd'' [V 1, G ''xhd'', Bin Divide (V 13) (V 12)]), Do (Call ''xbd'' [V 1, V 4, Meth (V 3) ''dh'' [V 34]]), When (Loose (Call ''JD'' [Call ''cvd'' [V 1, G ''ljd''], K (JNum 281)]) (G ''Fnd'')) [Do (Call ''Rpd'' [V 1]), Do (Call ''Xvd'' [V 1, Bin Plus (Bin Plus (Dot (V 36) ''b'') (Call ''Ueb'' [Call ''MD'' [Call ''cvd'' [V 1, G ''Chd'']]])) (Dot (V 36) ''c''), Bin Plus (Bin Plus (Dot (V 36) ''d'') (Call ''Ueb'' [Call ''MD'' [Call ''cvd'' [V 1, G ''Bhd'']]])) (Dot (V 36) ''a'')])] [], Do (Meth (V 48) ''ah'' [Bin Plus (Bin Plus (Bin Plus (K (JStr ''Executed layout algorithm: '')) (Call ''OD'' [Call ''cvd'' [V 1, G ''uhd'']])) (K (JStr '' on node ''))) (Dot (V 1) ''k'')]), When (Loose (Call ''JD'' [Call ''cvd'' [V 1, G ''ljd''], K (JNum 281)]) (G ''Dnd'')) [When (Or (Bin Lt (V 13) (K (JNum 0))) (Bin Lt (V 12) (K (JNum 0)))) [Raise (Call ''Lcb'' [New ''Ebd'' [Bin Plus (K (JStr ''The size defined by the parent parallel node is too small for the space provided by the paddings of the child hierarchical node. '')) (Dot (V 1) ''k'')]])] [], Do (Or (Or (Call ''dvd'' [V 1, G ''Chd'']) (Call ''dvd'' [V 1, G ''Bhd''])) (Call ''Rpd'' [V 1])), Do (SetV 15 (Call ''Ueb'' [Call ''MD'' [Call ''cvd'' [V 1, G ''Chd'']]])), Do (SetV 14 (Call ''Ueb'' [Call ''MD'' [Call ''cvd'' [V 1, G ''Bhd'']]])), Do (Meth (V 48) ''ah'' [Bin Plus (Bin Plus (Bin Plus (Bin Plus (K (JStr ''Desired Child Area: ('')) (V 15)) (K (JStr ''|''))) (V 14)) (K (JStr '')''))]), Do (SetV 39 (Bin Divide (V 13) (V 15))), Do (SetV 40 (Bin Divide (V 12) (V 14))), Do (SetV 38 (Meth (Dot (G ''$wnd'') ''Math'') ''min'' [V 39, Meth (Dot (G ''$wnd'') ''Math'') ''min'' [V 40, Call ''Ueb'' [Call ''MD'' [Call ''cvd'' [V 1, G ''mjd'']]]]])), Do (Call ''evd'' [V 1, G ''ojd'', V 38]), Do (Meth (V 48) ''ah'' [Bin Plus (Bin Plus (Bin Plus (Bin Plus (Bin Plus (Dot (V 1) ''k'') (K (JStr '' -- Local Scale Factor (X|Y): (''))) (V 39)) (K (JStr ''|''))) (V 40)) (K (JStr '')''))]), Do (SetV 20 (Call ''JD'' [Call ''cvd'' [V 1, G ''Ehd''], K (JNum 22)])), Do (SetV 5 (K (JNum 0))), Do (SetV 6 (K (JNum 0))), Do (And (Bin Lt (V 38) (V 39)) (Cond (Meth (V 20) ''Gc'' [Seq (Call ''ohd'' []) (G ''ihd'')]) (SetV 5 (Bin Divide (Bin Minus (Bin Divide (V 13) (K (JNum 2))) (Bin Divide (Bin Times (V 15) (V 38)) (K (JNum 2)))) (V 38))) (And (Meth (V 20) ''Gc'' [G ''khd'']) (SetV 5 (Bin Divide (Bin Minus (V 13) (Bin Times (V 15) (V 38))) (V 38)))))), Do (And (Bin Lt (V 38) (V 40)) (Cond (Meth (V 20) ''Gc'' [Seq (Call ''ohd'' []) (G ''mhd'')]) (SetV 6 (Bin Divide (Bin Minus (Bin Divide (V 12) (K (JNum 2))) (Bin Divide (Bin Times (V 14) (V 38)) (K (JNum 2)))) (V 38))) (And (Meth (V 20) ''Gc'' [G ''lhd'']) (SetV 6 (Bin Divide (Bin Minus (V 12) (Bin Times (V 14) (V 38))) (V 38)))))), Do (SetV 49 (Bin Plus (V 5) (Bin Minus (Bin Divide (Dot (V 36) ''b'') (V 38)) (Dot (V 36) ''b'')))), Do (SetV 50 (Bin Plus (V 6) (Bin Minus (Bin Divide (Dot (V 36) ''d'') (V 38)) (Dot (V 36) ''d'')))), Do (Meth (V 48) ''ah'' [Bin Plus (Bin Plus (Bin Plus (Bin Plus (K (JStr ''Shift: ('')) (V 49)) (K (JStr ''|''))) (V 50)) (K (JStr '')''))]), Do (SetV 33 (New ''uKd'' [Seq (And (Neg (Dot (V 1) ''a'')) (Put (V 1) ''a'' (New ''P3d'' [G ''T3'', V 1, K (JNum 10), K (JNum 11)]))) (Dot (V 1) ''a'')])), Loop (Neg (Loose (Dot (V 33) ''e'') (Meth (Dot (V 33) ''i'') ''gc'' []))) [Do (SetV 32 (Call ''JD'' [Call ''sKd'' [V 33], K (JNum 26)])), Do (Call ''_vd'' [V 32, Bin Plus (Dot (V 32) ''i'') (V 49)]), Do (Call ''awd'' [V 32, Bin Plus (Dot (V 32) ''j'') (V 50)])] [], Do (SetV 22 (New ''uKd'' [Seq (And (Neg (Dot (V 1) ''b'')) (Put (V 1) ''b'' (New ''P3d'' [G ''Q3'', V 1, K (JNum 12), K (JNum 3)]))) (Dot (V 1) ''b'')])), Loop (Neg (Loose (Dot (V 22) ''e'') (Meth (Dot (V 22) ''i'') ''gc'' []))) [Do (SetV 21 (Call ''JD'' [Call ''sKd'' [V 22], K (JNum 85)])), Do (SetV 42 (New ''uKd'' [Seq (And (Neg (Dot (V 21) ''a'')) (Put (V 21) ''a'' (New ''P3d'' [G ''P3'', V 21, K (JNum 6), K (JNum 6)]))) (Dot (V 21) ''a'')])), Loop (Neg (Loose (Dot (V 42) ''e'') (Meth (Dot (V 42) ''i'') ''gc'' []))) [Do (SetV 41 (Call ''JD'' [Call ''sKd'' [V 42], K (JNum 170)])), Do (Call ''hxd'' [V 41, Bin Plus (Dot (V 41) ''j'') (V 49), Bin Plus (Dot (V 41) ''k'') (V 50)]), Do (Call ''axd'' [V 41, Bin Plus (Dot (V 41) ''b'') (V 49), Bin Plus (Dot (V 41) ''c'') (V 50)]), Do (SetV 9 (New ''uKd'' [Seq (And (Neg (Dot (V 41) ''a'')) (Put (V 41) ''a'' (New ''iYd'' [G ''N3'', V 41, K (JNum 5)]))) (Dot (V 41) ''a'')])), Loop (Neg (Loose (Dot (V 9) ''e'') (Meth (Dot (V 9) ''i'') ''gc'' []))) [Do (SetV 8 (Call ''JD'' [Call ''sKd'' [V 9], K (JNum 372)])), Do (Call ''qvd'' [V 8, Bin Plus (Dot (V 8) ''a'') (V 49), Bin Plus (Dot (V 8) ''b'') (V 50)])] []] [], Do (SetV 30 (New ''uKd'' [Seq (And (Neg (Dot (V 21) ''n'')) (Put (V 21) ''n'' (New ''P3d'' [G ''S3'', V 21, K (JNum 1), K (JNum 7)]))) (Dot (V 21) ''n'')])), Loop (Neg (Loose (Dot (V 30) ''e'') (Meth (Dot (V 30) ''i'') ''gc'' []))) [Do (SetV 29 (Call ''JD'' [Call ''sKd'' [V 30], K (JNum 157)])), Do (Call ''Zvd'' [V 29, Bin Plus (Dot (V 29) ''i'') (V 49), Bin Plus (Dot (V 29) ''j'') (V 50)])] [], Do (SetV 28 (Call ''JD'' [Call ''cvd'' [V 21, G ''aid''], K (JNum 79)])), Do (SetV 27 (Call ''Ztb'' [V 28, K (JNum 0)])), Loop (Neg (Loose (Dot (V 27) ''b'') (Dot (Dot (V 27) ''d'') ''c''))) [Do (SetV 26 (Call ''JD'' [Call ''lub'' [V 27], K (JNum 8)])), Do (Put (V 26) ''a'' (Bin Plus (Dot (V 26) ''a'') (V 49))), Do (Put (V 26) ''b'' (Bin Plus (Dot (V 26) ''b'') (V 50)))] [], Do (Call ''evd'' [V 21, G ''aid'', V 28])] []] [], Do (Meth (V 48) ''Ug'' [])] [], Do (SetV 11 (New ''uKd'' [Seq (And (Neg (Dot (V 1) ''a'')) (Put (V 1) ''a'' (New ''P3d'' [G ''T3'', V 1, K (JNum 10), K (JNum 11)]))) (Dot (V 1) ''a'')])), Loop (Neg (Loose (Dot (V 11) ''e'') (Meth (Dot (V 11) ''i'') ''gc'' []))) [Do (SetV 10 (Call ''JD'' [Call ''sKd'' [V 11], K (JNum 26)])), Do (SetV 16 (Call ''Abd'' [V 0, V 10, V 2, V 3])), Do (Call ''bmb'' [V 19, V 16]), Do (Call ''Mpd'' [V 10])] []], When (Meth (V 3) ''Zg'' []) [Ret (Seq (Seq (Call ''Inb'' []) (Call ''Inb'' [])) (G ''Fnb''))] [], Do (SetV 44 (New ''Kmb'' [V 19])), Loop (Bin Lt (Dot (V 44) ''a'') (Dot (Dot (Dot (V 44) ''c'') ''c'') ''length'')) [Do (SetV 43 (Call ''JD'' [Call ''Imb'' [V 44], K (JNum 85)])), Do (Call ''evd'' [V 43, G ''pid'', Seq (Call ''Qdb'' []) (K (JBool True))])] [], Do (Or (Call ''Rdb'' [Call ''LD'' [Call ''cvd'' [V 1, G ''kjd'']]]) (Call ''xbd'' [V 1, V 4, Meth (V 3) ''dh'' [V 34]])), Do (Call ''Bbd'' [V 19]), Ret (Cond (And (V 24) (V 47)) (V 25) (Seq (Seq (Call ''Inb'' []) (Call ''Inb'' [])) (G ''Fnb'')))] [Ret (Seq (Seq (Call ''Inb'' []) (Call ''Inb'' [])) (G ''Fnb''))]]]"

definition code_6312_6312 :: "(string \<times> jfun) list" where
  "code_6312_6312 = [
    fn ''uzd'' 1 15 [When (Dot (V 0) ''r'') [Ret (K JUndef)] [], Do (Put (V 0) ''r'' (K (JBool True))), Do (Call ''jyd'' [V 0, K (JStr ''graph'')]), Do (Call ''Yyd'' [V 0, K (JStr ''graph'')]), Do (Call ''Zyd'' [V 0, G ''jGe'']), Do (Call ''Ayd'' [Dot (V 0) ''o'', K (JStr ''T'')]), Do (Call ''lFd'' [Call ''MWd'' [Dot (V 0) ''a''], Dot (V 0) ''p'']), Do (Call ''lFd'' [Call ''MWd'' [Dot (V 0) ''f''], Dot (V 0) ''a'']), Do (Call ''lFd'' [Call ''MWd'' [Dot (V 0) ''n''], Dot (V 0) ''f'']), Do (Call ''lFd'' [Call ''MWd'' [Dot (V 0) ''g''], Dot (V 0) ''n'']), Do (Call ''lFd'' [Call ''MWd'' [Dot (V 0) ''c''], Dot (V 0) ''n'']), Do (Call ''lFd'' [Call ''MWd'' [Dot (V 0) ''i''], Dot (V 0) ''c'']), Do (Call ''lFd'' [Call ''MWd'' [Dot (V 0) ''j''], Dot (V 0) ''c'']), Do (Call ''lFd'' [Call ''MWd'' [Dot (V 0) ''d''], Dot (V 0) ''f'']), Do (Call ''lFd'' [Call ''MWd'' [Dot (V 0) ''e''], Dot (V 0) ''a'']), Do (Call ''Ryd'' [Dot (V 0) ''p'', G ''d5'', G ''oxe'', K (JBool True), K (JBool True), K (JBool False)]), Do (SetV 14 (Call ''xyd'' [Dot (V 0) ''p'', Dot (V 0) ''p'', K (JStr ''setProperty'')])), Do (SetV 15 (Call ''Byd'' [V 14])), Do (SetV 9 (Call ''Hyd'' [Dot (V 0) ''o''])), Do (SetV 10 (Seq (SetV 2 (Seq (SetV 3 (New ''F0d'' [])) (V 3))) (V 2))), Do (Call ''lFd'' [Seq (And (Neg (Dot (V 9) ''d'')) (Put (V 9) ''d'' (New ''iYd'' [G ''z6'', V 9, K (JNum 1)]))) (Dot (V 9) ''d''), V 10]), Do (SetV 11 (Call ''Iyd'' [V 15])), Do (Call ''A0d'' [V 10, V 11]), Do (Call ''zyd'' [V 14, V 9, G ''kGe'']), Do (SetV 9 (Call ''Iyd'' [V 15])), Do (Call ''zyd'' [V 14, V 9, G ''lGe'']), Do (SetV 14 (Call ''xyd'' [Dot (V 0) ''p'', K JNull, K (JStr ''getProperty'')])), Do (SetV 15 (Call ''Byd'' [V 14])), Do (SetV 9 (Call ''Hyd'' [Dot (V 0) ''o''])), Do (SetV 10 (Call ''Iyd'' [V 15])), Do (Call ''lFd'' [Seq (And (Neg (Dot (V 9) ''d'')) (Put (V 9) ''d'' (New ''iYd'' [G ''z6'', V 9, K (JNum 1)]))) (Dot (V 9) ''d''), V 10]), Do (Call ''zyd'' [V 14, V 9, G ''kGe'']), Do (SetV 9 (Call ''Iyd'' [V 15])), Do (SetV 13 (Call ''iUd'' [V 14, V 9, K JNull])), Do (And (Neg (Neg (V 13))) (Meth (V 13) ''mj'' [])), Do (SetV 14 (Call ''xyd'' [Dot (V 0) ''p'', Dot (Dot (V 0) ''wb'') ''e'', K (JStr ''hasProperty'')])), Do (SetV 9 (Call ''Hyd'' [Dot (V 0) ''o''])), Do (SetV 10 (Seq (SetV 4 (Seq (SetV 5 (New ''F0d'' [])) (V 5))) (V 4))), Do (Call ''lFd'' [Seq (And (Neg (Dot (V 9) ''d'')) (Put (V 9) ''d'' (New ''iYd'' [G ''z6'', V 9, K (JNum 1)]))) (Dot (V 9) ''d''), V 10]), Do (Call ''zyd'' [V 14, V 9, G ''kGe'']), Do (SetV 14 (Call ''xyd'' [Dot (V 0) ''p'', Dot (V 0) ''p'', K (JStr ''copyProperties'')])), Do (Call ''yyd'' [V 14, Dot (V 0) ''p'', G ''mGe'']), Do (SetV 14 (Call ''xyd'' [Dot (V 0) ''p'', K JNull, K (JStr ''getAllProperties'')])), Do (SetV 9 (Call ''Hyd'' [Dot (Dot (V 0) ''wb'') ''P''])), Do (SetV 10 (Call ''Hyd'' [Dot (V 0) ''o''])), Do (Call ''lFd'' [Seq (And (Neg (Dot (V 9) ''d'')) (Put (V 9) ''d'' (New ''iYd'' [G ''z6'', V 9, K (JNum 1)]))) (Dot (V 9) ''d''), V 10]), Do (SetV 11 (Seq (SetV 6 (Seq (SetV 7 (New ''F0d'' [])) (V 7))) (V 6))), Do (Call ''lFd'' [Seq (And (Neg (Dot (V 10) ''d'')) (Put (V 10) ''d'' (New ''iYd'' [G ''z6'', V 10, K (JNum 1)]))) (Dot (V 10) ''d''), V 11]), Do (SetV 10 (Call ''Hyd'' [Dot (Dot (V 0) ''wb'') ''M''])), Do (Call ''lFd'' [Seq (And (Neg (Dot (V 9) ''d'')) (Put (V 9) ''d'' (New ''iYd'' [G ''z6'', V 9, K (JNum 1)]))) (Dot (V 9) ''d''), V 10]), Do (SetV 12 (Call ''iUd'' [V 14, V 9, K JNull])), Do (And (Neg (Neg (V 12))) (Meth (V 12) ''mj'' [])), Do (Call ''Ryd'' [Dot (V 0) ''a'', G ''M3'', G ''HFe'', K (JBool True), K (JBool False), K (JBool True)]), Do (Call ''Vyd'' [Call ''JD'' [Call ''fGd'' [Call ''KWd'' [Dot (V 0) ''a''], K (JNum 0)], K (JNum 19)], Dot (V 0) ''k'', K JNull, G ''nGe'', K (JNum 0), K (JNum (- 1)), G ''M3'', K (JBool False), K (JBool False), K (JBool True), K (JBool True), K (JBool False), K (JBool False), K (JBool False)]), Do (Call ''Ryd'' [Dot (V 0) ''f'', G ''R3'', G ''JFe'', K (JBool True), K (JBool False), K (JBool True)]), Do (Call ''Vyd'' [Call ''JD'' [Call ''fGd'' [Call ''KWd'' [Dot (V 0) ''f''], K (JNum 0)], K (JNum 19)], Dot (V 0) ''g'', Call ''JD'' [Call ''fGd'' [Call ''KWd'' [Dot (V 0) ''g''], K (JNum 0)], K (JNum 19)], K (JStr ''labels''), K (JNum 0), K (JNum (- 1)), G ''R3'', K (JBool False), K (JBool False), K (JBool True), K (JBool True), K (JBool False), K (JBool False), K (JBool False)]), Do (Call ''Pyd'' [Call ''JD'' [Call ''fGd'' [Call ''KWd'' [Dot (V 0) ''f''], K (JNum 1)], K (JNum 38)], Dot (Dot (V 0) ''wb'') ''_'', G ''oGe'', K JNull, K (JNum 0), K (JNum 1), G ''R3'', K (JBool False), K (JBool False), K (JBool True), K (JBool False), K (JBool True), K (JBool False)]), Do (Call ''Ryd'' [Dot (V 0) ''n'', G ''V3'', K (JStr ''ElkShape''), K (JBool True), K (JBool False), K (JBool True)]), Do (Call ''Pyd'' [Call ''JD'' [Call ''fGd'' [Call ''KWd'' [Dot (V 0) ''n''], K (JNum 0)], K (JNum 38)], Dot (Dot (V 0) ''wb'') ''t'', G ''pGe'', G ''Nve'', K (JNum 1), K (JNum 1), G ''V3'', K (JBool False), K (JBool False), K (JBool True), K (JBool False), K (JBool True), K (JBool False)]), Do (Call ''Pyd'' [Call ''JD'' [Call ''fGd'' [Call ''KWd'' [Dot (V 0) ''n''], K (JNum 1)], K (JNum 38)], Dot (Dot (V 0) ''wb'') ''t'', G ''qGe'', G ''Nve'', K (JNum 1), K (JNum 1), G ''V3'', K (JBool False), K (JBool False), K (JBool True), K (JBool False), K (JBool True), K (JBool False)]), Do (Call ''Pyd'' [Call ''JD'' [Call ''fGd'' [Call ''KWd'' [Dot (V 0) ''n''], K (JNum 2)], K (JNum 38)], Dot (Dot (V 0) ''wb'') ''t'', K (JStr ''x''), G ''Nve'', K (JNum 1), K (JNum 1), G ''V3'', K (JBool False), K (JBool False), K (JBool True), K (JBool False), K (JBool True), K (JBool False)]), Do (Call ''Pyd'' [Call ''JD'' [Call ''fGd'' [Call ''KWd'' [Dot (V 0) ''n''], K (JNum 3)], K (JNum 38)], Dot (Dot (V 0) ''wb'') ''t'', K (JStr ''y''), G ''Nve'', K (JNum 1), K (JNum 1), G ''V3'', K (JBool False), K (JBool False), K (JBool True), K (JBool False), K (JBool True), K (JBool False)]), Do (SetV 14 (Call ''xyd'' [Dot (V 0) ''n'', K JNull, K (JStr ''setDimensions'')])), Do (Call ''yyd'' [V 14, Dot (Dot (V 0) ''wb'') ''t'', G ''qGe'']), Do (Call ''yyd'' [V 14, Dot (Dot (V 0) ''wb'') ''t'', G ''pGe'']), Do (SetV 14 (Call ''xyd'' [Dot (V 0) ''n'', K JNull, K (JStr ''setLocation'')])), Do (Call ''yyd'' [V 14, Dot (Dot (V 0) ''wb'') ''t'', K (JStr ''x'')]), Do (Call ''yyd'' [V 14, Dot (Dot (V 0) ''wb'') ''t'', K (JStr ''y'')]), Do (Call ''Ryd'' [Dot (V 0) ''g'', G ''S3'', G ''PFe'', K (JBool False), K (JBool False), K (JBool True)]), Do (Call ''Vyd'' [Call ''JD'' [Call ''fGd'' [Call ''KWd'' [Dot (V 0) ''g''], K (JNum 0)], K (JNum 19)], Dot (V 0) ''f'', Call ''JD'' [Call ''fGd'' [Call ''KWd'' [Dot (V 0) ''f''], K (JNum 0)], K (JNum 19)], G ''rGe'', K (JNum 0), K (JNum 1), G ''S3'', K (JBool False), K (JBool False), K (JBool True), K (JBool False), K (JBool False), K (JBool False), K (JBool False)]), Do (Call ''Pyd'' [Call ''JD'' [Call ''fGd'' [Call ''KWd'' [Dot (V 0) ''g''], K (JNum 1)], K (JNum 38)], Dot (Dot (V 0) ''wb'') ''_'', G ''sGe'', K (JStr ''''), K (JNum 0), K (JNum 1), G ''S3'', K (JBool False), K (JBool False), K (JBool True), K (JBool False), K (JBool True), K (JBool False)]), Do (Call ''Ryd'' [Dot (V 0) ''c'', G ''O3'', G ''KFe'', K (JBool True), K (JBool False), K (JBool True)]), Do (Call ''Vyd'' [Call ''JD'' [Call ''fGd'' [Call ''KWd'' [Dot (V 0) ''c''], K (JNum 0)], K (JNum 19)], Dot (V 0) ''d'', Call ''JD'' [Call ''fGd'' [Call ''KWd'' [Dot (V 0) ''d''], K (JNum 1)], K (JNum 19)], K (JStr ''outgoingEdges''), K (JNum 0), K (JNum (- 1)), G ''O3'', K (JBool False), K (JBool False), K (JBool True), K (JBool False), K (JBool True), K (JBool False), K (JBool False)]), Do (Call ''Vyd'' [Call ''JD'' [Call ''fGd'' [Call ''KWd'' [Dot (V 0) ''c''], K (JNum 1)], K (JNum 19)], Dot (V 0) ''d'', Call ''JD'' [Call ''fGd'' [Call ''KWd'' [Dot (V 0) ''d''], K (JNum 2)], K (JNum 19)], K (JStr ''incomingEdges''), K (JNum 0), K (JNum (- 1)), G ''O3'', K (JBool False), K (JBool False), K (JBool True), K (JBool False), K (JBool True), K (JBool False), K (JBool False)]), Do (Call ''Ryd'' [Dot (V 0) ''i'', G ''T3'', G ''QFe'', K (JBool False), K (JBool False), K (JBool True)]), Do (Call ''Vyd'' [Call ''JD'' [Call ''fGd'' [Call ''KWd'' [Dot (V 0) ''i''], K (JNum 0)], K (JNum 19)], Dot (V 0) ''j'', Call ''JD'' [Call ''fGd'' [Call ''KWd'' [Dot (V 0) ''j''], K (JNum 0)], K (JNum 19)], K (JStr ''ports''), K (JNum 0), K (JNum (- 1)), G ''T3'', K (JBool False), K (JBool False), K (JBool True), K (JBool True), K (JBool False), K (JBool False), K (JBool False)]), Do (Call ''Vyd'' [Call ''JD'' [Call ''fGd'' [Call ''KWd'' [Dot (V 0) ''i''], K (JNum 1)], K (JNum 19)], Dot (V 0) ''i'', Call ''JD'' [Call ''fGd'' [Call ''KWd'' [Dot (V 0) ''i''], K (JNum 2)], K (JNum 19)], G ''tGe'', K (JNum 0), K (JNum (- 1)), G ''T3'', K (JBool False), K (JBool False), K (JBool True), K (JBool True), K (JBool False), K (JBool False), K (JBool False)]), Do (Call ''Vyd'' [Call ''JD'' [Call ''fGd'' [Call ''KWd'' [Dot (V 0) ''i''], K (JNum 2)], K (JNum 19)], Dot (V 0) ''i'', Call ''JD'' [Call ''fGd'' [Call ''KWd'' [Dot (V 0) ''i''], K (JNum 1)], K (JNum 19)], G ''rGe'', K (JNum 0), K (JNum 1), G ''T3'', K (JBool False), K (JBool False), K (JBool True), K (JBool False), K (JBool False), K (JBool False), K (JBool False)]), Do (Call ''Vyd'' [Call ''JD'' [Call ''fGd'' [Call ''KWd'' [Dot (V 0) ''i''], K (JNum 3)], K (JNum 19)], Dot (V 0) ''d'', Call ''JD'' [Call ''fGd'' [Call ''KWd'' [Dot (V 0) ''d''], K (JNum 0)], K (JNum 19)], K (JStr ''containedEdges''), K (JNum 0), K (JNum (- 1)), G ''T3'', K (JBool False), K (JBool False), K (JBool True), K (JBool True), K (JBool False), K (JBool False), K (JBool False)]), Do (Call ''Pyd'' [Call ''JD'' [Call ''fGd'' [Call ''KWd'' [Dot (V 0) ''i''], K (JNum 4)], K (JNum 38)], Dot (Dot (V 0) ''wb'') ''e'', G ''uGe'', K JNull, K (JNum 0), K (JNum 1), G ''T3'', K (JBool True), K (JBool True), K (JBool False), K (JBool False), K (JBool True), K (JBool True)]), Do (Call ''Ryd'' [Dot (V 0) ''j'', G ''U3'', G ''RFe'', K (JBool False), K (JBool False), K (JBool True)]), Do (Call ''Vyd'' [Call ''JD'' [Call ''fGd'' [Call ''KWd'' [Dot (V 0) ''j''], K (JNum 0)], K (JNum 19)], Dot (V 0) ''i'', Call ''JD'' [Call ''fGd'' [Call ''KWd'' [Dot (V 0) ''i''], K (JNum 0)], K (JNum 19)], G ''rGe'', K (JNum 0), K (JNum 1), G ''U3'', K (JBool False), K (JBool False), K (JBool True), K (JBool False), K (JBool False), K (JBool False), K (JBool False)]), Do (Call ''Ryd'' [Dot (V 0) ''d'', G ''Q3'', G ''LFe'', K (JBool False), K (JBool False), K (JBool True)]), Do (Call ''Vyd'' [Call ''JD'' [Call ''fGd'' [Call ''KWd'' [Dot (V 0) ''d''], K (JNum 0)], K (JNum 19)], Dot (V 0) ''i'', Call ''JD'' [Call ''fGd'' [Call ''KWd'' [Dot (V 0) ''i''], K (JNum 3)], K (JNum 19)], K (JStr ''containingNode''), K (JNum 0), K (JNum 1), G ''Q3'', K (JBool False), K (JBool False), K (JBool True), K (JBool False), K (JBool False), K (JBool False), K (JBool False)]), Do (Call ''Vyd'' [Call ''JD'' [Call ''fGd'' [Call ''KWd'' [Dot (V 0) ''d''], K (JNum 1)], K (JNum 19)], Dot (V 0) ''c'', Call ''JD'' [Call ''fGd'' [Call ''KWd'' [Dot (V 0) ''c''], K (JNum 0)], K (JNum 19)], G ''vGe'', K (JNum 0), K (JNum (- 1)), G ''Q3'', K (JBool False), K (JBool False), K (JBool True), K (JBool False), K (JBool True), K (JBool False), K (JBool False)]), Do (Call ''Vyd'' [Call ''JD'' [Call ''fGd'' [Call ''KWd'' [Dot (V 0) ''d''], K (JNum 2)], K (JNum 19)], Dot (V 0) ''c'', Call ''JD'' [Call ''fGd'' [Call ''KWd'' [Dot (V 0) ''c''], K (JNum 1)], K (JNum 19)], G ''wGe'', K (JNum 0), K (JNum (- 1)), G ''Q3'', K (JBool False), K (JBool False), K (JBool True), K (JBool False), K (JBool True), K (JBool False), K (JBool False)]), Do (Call ''Vyd'' [Call ''JD'' [Call ''fGd'' [Call ''KWd'' [Dot (V 0) ''d''], K (JNum 3)], K (JNum 19)], Dot (V 0) ''e'', Call ''JD'' [Call ''fGd'' [Call ''KWd'' [Dot (V 0) ''e''], K (JNum 5)], K (JNum 19)], G ''xGe'', K (JNum 0), K (JNum (- 1)), G ''Q3'', K (JBool False), K (JBool False), K (JBool True), K (JBool True), K (JBool False), K (JBool False), K (JBool False)]), Do (Call ''Pyd'' [Call ''JD'' [Call ''fGd'' [Call ''KWd'' [Dot (V 0) ''d''], K (JNum 4)], K (JNum 38)], Dot (Dot (V 0) ''wb'') ''e'', K (JStr ''hyperedge''), K JNull, K (JNum 0), K (JNum 1), G ''Q3'', K (JBool True), K (JBool True), K (JBool False), K (JBool False), K (JBool True), K (JBool True)]), Do (Call ''Pyd'' [Call ''JD'' [Call ''fGd'' [Call ''KWd'' [Dot (V 0) ''d''], K (JNum 5)], K (JNum 38)], Dot (Dot (V 0) ''wb'') ''e'', G ''uGe'', K JNull, K (JNum 0), K (JNum 1), G ''Q3'', K (JBool True), K (JBool True), K (JBool False), K (JBool False), K (JBool True), K (JBool True)]), Do (Call ''Pyd'' [Call ''JD'' [Call ''fGd'' [Call ''KWd'' [Dot (V 0) ''d''], K (JNum 6)], K (JNum 38)], Dot (Dot (V 0) ''wb'') ''e'', K (JStr ''selfloop''), K JNull, K (JNum 0), K (JNum 1), G ''Q3'', K (JBool True), K (JBool True), K (JBool False), K (JBool False), K (JBool True), K (JBool True)]), Do (Call ''Pyd'' [Call ''JD'' [Call ''fGd'' [Call ''KWd'' [Dot (V 0) ''d''], K (JNum 7)], K (JNum 38)], Dot (Dot (V 0) ''wb'') ''e'', K (JStr ''connected''), K JNull, K (JNum 0), K (JNum 1), G ''Q3'', K (JBool True), K (JBool True), K (JBool False), K (JBool False), K (JBool True), K (JBool True)]), Do (Call ''Ryd'' [Dot (V 0) ''b'', G ''N3'', G ''IFe'', K (JBool False), K (JBool False), K (JBool True)]), Do (Call ''Pyd'' [Call ''JD'' [Call ''fGd'' [Call ''KWd'' [Dot (V 0) ''b''], K (JNum 0)], K (JNum 38)], Dot (Dot (V 0) ''wb'') ''t'', K (JStr ''x''), G ''Nve'', K (JNum 1), K (JNum 1), G ''N3'', K (JBool False), K (JBool False), K (JBool True), K (JBool False), K (JBool True), K (JBool False)]), Do (Call ''Pyd'' [Call ''JD'' [Call ''fGd'' [Call ''KWd'' [Dot (V 0) ''b''], K (JNum 1)], K (JNum 38)], Dot (Dot (V 0) ''wb'') ''t'', K (JStr ''y''), G ''Nve'', K (JNum 1), K (JNum 1), G ''N3'', K (JBool False), K (JBool False), K (JBool True), K (JBool False), K (JBool True), K (JBool False)]), Do (SetV 14 (Call ''xyd'' [Dot (V 0) ''b'', K JNull, K (JStr ''set'')])), Do (Call ''yyd'' [V 14, Dot (Dot (V 0) ''wb'') ''t'', K (JStr ''x'')]), Do (Call ''yyd'' [V 14, Dot (Dot (V 0) ''wb'') ''t'', K (JStr ''y'')]), Do (Call ''Ryd'' [Dot (V 0) ''e'', G ''P3'', G ''MFe'', K (JBool False), K (JBool False), K (JBool True)]), Do (Call ''Pyd'' [Call ''JD'' [Call ''fGd'' [Call ''KWd'' [Dot (V 0) ''e''], K (JNum 0)], K (JNum 38)], Dot (Dot (V 0) ''wb'') ''t'', K (JStr ''startX''), K JNull, K (JNum 0), K (JNum 1), G ''P3'', K (JBool False), K (JBool False), K (JBool True), K (JBool False), K (JBool True), K (JBool False)]), Do (Call ''Pyd'' [Call ''JD'' [Call ''fGd'' [Call ''KWd'' [Dot (V 0) ''e''], K (JNum 1)], K (JNum 38)], Dot (Dot (V 0) ''wb'') ''t'', K (JStr ''startY''), K JNull, K (JNum 0), K (JNum 1), G ''P3'', K (JBool False), K (JBool False), K (JBool True), K (JBool False), K (JBool True), K (JBool False)]), Do (Call ''Pyd'' [Call ''JD'' [Call ''fGd'' [Call ''KWd'' [Dot (V 0) ''e''], K (JNum 2)], K (JNum 38)], Dot (Dot (V 0) ''wb'') ''t'', K (JStr ''endX''), K JNull, K (JNum 0), K (JNum 1), G ''P3'', K (JBool False), K (JBool False), K (JBool True), K (JBool False), K (JBool True), K (JBool False)]), Do (Call ''Pyd'' [Call ''JD'' [Call ''fGd'' [Call ''KWd'' [Dot (V 0) ''e''], K (JNum 3)], K (JNum 38)], Dot (Dot (V 0) ''wb'') ''t'', K (JStr ''endY''), K JNull, K (JNum 0), K (JNum 1), G ''P3'', K (JBool False), K (JBool False), K (JBool True), K (JBool False), K (JBool True), K (JBool False)]), Do (Call ''Vyd'' [Call ''JD'' [Call ''fGd'' [Call ''KWd'' [Dot (V 0) ''e''], K (JNum 4)], K (JNum 19)], Dot (V 0) ''b'', K JNull, G ''yGe'', K (JNum 0), K (JNum (- 1)), G ''P3'', K (JBool False), K (JBool False), K (JBool True), K (JBool True), K (JBool False), K (JBool False), K (JBool False)]), Do (Call ''Vyd'' [Call ''JD'' [Call ''fGd'' [Call ''KWd'' [Dot (V 0) ''e''], K (JNum 5)], K (JNum 19)], Dot (V 0) ''d'', Call ''JD'' [Call ''fGd'' [Call ''KWd'' [Dot (V 0) ''d''], K (JNum 3)], K (JNum 19)], G ''rGe'', K (JNum 0), K (JNum 1), G ''P3'', K (JBool False), K (JBool False), K (JBool True), K (JBool False), K (JBool False), K (JBool False), K (JBool False)]), Do (Call ''Vyd'' [Call ''JD'' [Call ''fGd'' [Call ''KWd'' [Dot (V 0) ''e''], K (JNum 6)], K (JNum 19)], Dot (V 0) ''c'', K JNull, G ''zGe'', K (JNum 0), K (JNum 1), G ''P3'', K (JBool False), K (JBool False), K (JBool True), K (JBool False), K (JBool True), K (JBool False), K (JBool False)]), Do (Call ''Vyd'' [Call ''JD'' [Call ''fGd'' [Call ''KWd'' [Dot (V 0) ''e''], K (JNum 7)], K (JNum 19)], Dot (V 0) ''c'', K JNull, G ''AGe'', K (JNum 0), K (JNum 1), G ''P3'', K (JBool False), K (JBool False), K (JBool True), K (JBool False), K (JBool True), K (JBool False), K (JBool False)]), Do (Call ''Vyd'' [Call ''JD'' [Call ''fGd'' [Call ''KWd'' [Dot (V 0) ''e''], K (JNum 8)], K (JNum 19)], Dot (V 0) ''e'', Call ''JD'' [Call ''fGd'' [Call ''KWd'' [Dot (V 0) ''e''], K (JNum 9)], K (JNum 19)], G ''BGe'', K (JNum 0), K (JNum (- 1)), G ''P3'', K (JBool False), K (JBool False), K (JBool True), K (JBool False), K (JBool True), K (JBool False), K (JBool False)]), Do (Call ''Vyd'' [Call ''JD'' [Call ''fGd'' [Call ''KWd'' [Dot (V 0) ''e''], K (JNum 9)], K (JNum 19)], Dot (V 0) ''e'', Call ''JD'' [Call ''fGd'' [Call ''KWd'' [Dot (V 0) ''e''], K (JNum 8)], K (JNum 19)], G ''CGe'', K (JNum 0), K (JNum (- 1)), G ''P3'', K (JBool False), K (JBool False), K (JBool True), K (JBool False), K (JBool True), K (JBool False), K (JBool False)]), Do (Call ''Pyd'' [Call ''JD'' [Call ''fGd'' [Call ''KWd'' [Dot (V 0) ''e''], K (JNum 10)], K (JNum 38)], Dot (Dot (V 0) ''wb'') ''_'', G ''oGe'', K JNull, K (JNum 0), K (JNum 1), G ''P3'', K (JBool False), K (JBool False), K (JBool True), K (JBool False), K (JBool True), K (JBool False)]), Do (SetV 14 (Call ''xyd'' [Dot (V 0) ''e'', K JNull, K (JStr ''setStartLocation'')])), Do (Call ''yyd'' [V 14, Dot (Dot (V 0) ''wb'') ''t'', K (JStr ''x'')]), Do (Call ''yyd'' [V 14, Dot (Dot (V 0) ''wb'') ''t'', K (JStr ''y'')]), Do (SetV 14 (Call ''xyd'' [Dot (V 0) ''e'', K JNull, K (JStr ''setEndLocation'')])), Do (Call ''yyd'' [V 14, Dot (Dot (V 0) ''wb'') ''t'', K (JStr ''x'')]), Do (Call ''yyd'' [V 14, Dot (Dot (V 0) ''wb'') ''t'', K (JStr ''y'')]), Do (Call ''Ryd'' [Dot (V 0) ''k'', G ''LK'', K (JStr ''ElkPropertyToValueMapEntry''), K (JBool False), K (JBool False), K (JBool False)]), Do (SetV 9 (Call ''Hyd'' [Dot (V 0) ''o''])), Do (SetV 10 (Seq (SetV 8 (Seq (SetV 1 (New ''F0d'' [])) (V 1))) (V 8))), Do (Call ''lFd'' [Seq (And (Neg (Dot (V 9) ''d'')) (Put (V 9) ''d'' (New ''iYd'' [G ''z6'', V 9, K (JNum 1)]))) (Dot (V 9) ''d''), V 10]), Do (Call ''Qyd'' [Call ''JD'' [Call ''fGd'' [Call ''KWd'' [Dot (V 0) ''k''], K (JNum 0)], K (JNum 38)], V 9, K (JStr ''key''), G ''LK'', K (JBool False), K (JBool False), K (JBool True), K (JBool False)]), Do (Call ''Pyd'' [Call ''JD'' [Call ''fGd'' [Call ''KWd'' [Dot (V 0) ''k''], K (JNum 1)], K (JNum 38)], Dot (V 0) ''s'', G ''lGe'', K JNull, K (JNum 0), K (JNum 1), G ''LK'', K (JBool False), K (JBool False), K (JBool True), K (JBool False), K (JBool True), K (JBool False)]), Do (Call ''Tyd'' [Dot (V 0) ''o'', G ''e5'', K (JStr ''IProperty''), K (JBool True)]), Do (Call ''Tyd'' [Dot (V 0) ''s'', G ''aJ'', K (JStr ''PropertyValue''), K (JBool True)]), Do (Call ''Lyd'' [V 0, G ''jGe''])]]"

definition code_6313_6313 :: "(string \<times> jfun) list" where
  "code_6313_6313 = [
    fn ''Xoe'' 0 0 [Do (SetG ''Xoe'' (G ''qdb'')), Do (SetG ''Woe'' (Call ''SC'' [G ''$D'', G ''hGe'', K (JNum 30), G ''Hve'', K (JNum 15), K (JNum 1)])), Do (PutIdx (G ''Woe'') (K (JNum 9)) (K (JNum 35))), Do (PutIdx (G ''Woe'') (K (JNum 10)) (K (JNum 19))), Do (PutIdx (G ''Woe'') (K (JNum 13)) (K (JNum 19))), Do (PutIdx (G ''Woe'') (K (JNum 32)) (K (JNum 51))), Do (PutIdx (G ''Woe'') (K (JNum 33)) (K (JNum 49))), Do (PutIdx (G ''Woe'') (K (JNum 34)) (K (JNum 33))), Do (Call ''Umb'' [G ''Woe'', K (JNum 35), K (JNum 38), K (JNum 49)]), Do (PutIdx (G ''Woe'') (K (JNum 38)) (K (JNum 1))), Do (Call ''Umb'' [G ''Woe'', K (JNum 39), K (JNum 45), K (JNum 49)]), Do (Call ''Umb'' [G ''Woe'', K (JNum 45), K (JNum 47), K (JNum (- 71))]), Do (PutIdx (G ''Woe'') (K (JNum 47)) (K (JNum 49))), Do (Call ''Umb'' [G ''Woe'', K (JNum 48), K (JNum 58), K (JNum (- 71))]), Do (PutIdx (G ''Woe'') (K (JNum 58)) (K (JNum 61))), Do (PutIdx (G ''Woe'') (K (JNum 59)) (K (JNum 49))), Do (PutIdx (G ''Woe'') (K (JNum 60)) (K (JNum 1))), Do (PutIdx (G ''Woe'') (K (JNum 61)) (K (JNum 49))), Do (PutIdx (G ''Woe'') (K (JNum 62)) (K (JNum 33))), Do (Call ''Umb'' [G ''Woe'', K (JNum 63), K (JNum 65), K (JNum 49)]), Do (Call ''Umb'' [G ''Woe'', K (JNum 65), K (JNum 91), K (JNum (- 3))]), Do (Call ''Umb'' [G ''Woe'', K (JNum 91), K (JNum 93), K (JNum 33)]), Do (PutIdx (G ''Woe'') (K (JNum 93)) (K (JNum 1))), Do (PutIdx (G ''Woe'') (K (JNum 94)) (K (JNum 33))), Do (PutIdx (G ''Woe'') (K (JNum 95)) (K (JNum (- 3)))), Do (PutIdx (G ''Woe'') (K (JNum 96)) (K (JNum 33))), Do (Call ''Umb'' [G ''Woe'', K (JNum 97), K (JNum 123), K (JNum (- 3))]), Do (Call ''Umb'' [G ''Woe'', K (JNum 123), K (JNum 183), K (JNum 33)]), Do (PutIdx (G ''Woe'') (K (JNum 183)) (K (JNum (- 87)))), Do (Call ''Umb'' [G ''Woe'', K (JNum 184), K (JNum 192), K (JNum 33)]), Do (Call ''Umb'' [G ''Woe'', K (JNum 192), K (JNum 215), K (JNum (- 19))]), Do (PutIdx (G ''Woe'') (K (JNum 215)) (K (JNum 33))), Do (Call ''Umb'' [G ''Woe'', K (JNum 216), K (JNum 247), K (JNum (- 19))]), Do (PutIdx (G ''Woe'') (K (JNum 247)) (K (JNum 33))), Do (Call ''Umb'' [G ''Woe'', K (JNum 248), K (JNum 306), K (JNum (- 19))]), Do (Call ''Umb'' [G ''Woe'', K (JNum 306), K (JNum 308), K (JNum 33)]), Do (Call ''Umb'' [G ''Woe'', K (JNum 308), K (JNum 319), K (JNum (- 19))]), Do (Call ''Umb'' [G ''Woe'', K (JNum 319), K (JNum 321), K (JNum 33)]), Do (Call ''Umb'' [G ''Woe'', K (JNum 321), K (JNum 329), K (JNum (- 19))]), Do (PutIdx (G ''Woe'') (K (JNum 329)) (K (JNum 33))), Do (Call ''Umb'' [G ''Woe'', K (JNum 330), K (JNum 383), K (JNum (- 19))]), Do (PutIdx (G ''Woe'') (K (JNum 383)) (K (JNum 33))), Do (Call ''Umb'' [G ''Woe'', K (JNum 384), K (JNum 452), K (JNum (- 19))]), Do (Call ''Umb'' [G ''Woe'', K (JNum 452), K (JNum 461), K (JNum 33)]), Do (Call ''Umb'' [G ''Woe'', K (JNum 461), K (JNum 497), K (JNum (- 19))]), Do (Call ''Umb'' [G ''Woe'', K (JNum 497), K (JNum 500), K (JNum 33)]), Do (Call ''Umb'' [G ''Woe'', K (JNum 500), K (JNum 502), K (JNum (- 19))]), Do (Call ''Umb'' [G ''Woe'', K (JNum 502), K (JNum 506), K (JNum 33)]), Do (Call ''Umb'' [G ''Woe'', K (JNum 506), K (JNum 536), K (JNum (- 19))]), Do (Call ''Umb'' [G ''Woe'', K (JNum 536), K (JNum 592), K (JNum 33)]), Do (Call ''Umb'' [G ''Woe'', K (JNum 592), K (JNum 681), K (JNum (- 19))]), Do (Call ''Umb'' [G ''Woe'', K (JNum 681), K (JNum 699), K (JNum 33)]), Do (Call ''Umb'' [G ''Woe'', K (JNum 699), K (JNum 706), K (JNum (- 19))]), Do (Call ''Umb'' [G ''Woe'', K (JNum 706), K (JNum 720), K (JNum 33)]), Do (Call ''Umb'' [G ''Woe'', K (JNum 720), K (JNum 722), K (JNum (- 87))]), Do (Call ''Umb'' [G ''Woe'', K (JNum 722), K (JNum 768), K (JNum 33)]), Do (Call ''Umb'' [G ''Woe'', K (JNum 768), K (JNum 838), K (JNum (- 87))]), Do (Call ''Umb'' [G ''Woe'', K (JNum 838), K (JNum 864), K (JNum 33)]), Do (Call ''Umb'' [G ''Woe'', K (JNum 864), K (JNum 866), K (JNum (- 87))]), Do (Call ''Umb'' [G ''Woe'', K (JNum 866), K (JNum 902), K (JNum 33)]), Do (PutIdx (G ''Woe'') (K (JNum 902)) (K (JNum (- 19)))), Do (PutIdx (G ''Woe'') (K (JNum 903)) (K (JNum (- 87)))), Do (Call ''Umb'' [G ''Woe'', K (JNum 904), K (JNum 907), K (JNum (- 19))]), Do (PutIdx (G ''Woe'') (K (JNum 907)) (K (JNum 33))), Do (PutIdx (G ''Woe'') (K (JNum 908)) (K (JNum (- 19)))), Do (PutIdx (G ''Woe'') (K (JNum 909)) (K (JNum 33))), Do (Call ''Umb'' [G ''Woe'', K (JNum 910), K (JNum 930), K (JNum (- 19))]), Do (PutIdx (G ''Woe'') (K (JNum 930)) (K (JNum 33))), Do (Call ''Umb'' [G ''Woe'', K (JNum 931), K (JNum 975), K (JNum (- 19))]), Do (PutIdx (G ''Woe'') (K (JNum 975)) (K (JNum 33))), Do (Call ''Umb'' [G ''Woe'', K (JNum 976), K (JNum 983), K (JNum (- 19))]), Do (Call ''Umb'' [G ''Woe'', K (JNum 983), K (JNum 986), K (JNum 33)]), Do (PutIdx (G ''Woe'') (K (JNum 986)) (K (JNum (- 19)))), Do (PutIdx (G ''Woe'') (K (JNum 987)) (K (JNum 33))), Do (PutIdx (G ''Woe'') (K (JNum 988)) (K (JNum (- 19)))), Do (PutIdx (G ''Woe'') (K (JNum 989)) (K (JNum 33))), Do (PutIdx (G ''Woe'') (K (JNum 990)) (K (JNum (- 19)))), Do (PutIdx (G ''Woe'') (K (JNum 991)) (K (JNum 33))), Do (PutIdx (G ''Woe'') (K (JNum 992)) (K (JNum (- 19)))), Do (PutIdx (G ''Woe'') (K (JNum 993)) (K (JNum 33))), Do (Call ''Umb'' [G ''Woe'', K (JNum 994), K (JNum 1012), K (JNum (- 19))]), Do (Call ''Umb'' [G ''Woe'', K (JNum 1012), K (JNum 1025), K (JNum 33)]), Do (Call ''Umb'' [G ''Woe'', K (JNum 1025), K (JNum 1037), K (JNum (- 19))]), Do (PutIdx (G ''Woe'') (K (JNum 1037)) (K (JNum 33))), Do (Call ''Umb'' [G ''Woe'', K (JNum 1038), K (JNum 1104), K (JNum (- 19))]), Do (PutIdx (G ''Woe'') (K (JNum 1104)) (K (JNum 33))), Do (Call ''Umb'' [G ''Woe'', K (JNum 1105), K (JNum 1117), K (JNum (- 19))]), Do (PutIdx (G ''Woe'') (K (JNum 1117)) (K (JNum 33))), Do (Call ''Umb'' [G ''Woe'', K (JNum 1118), K (JNum 1154), K (JNum (- 19))]), Do (PutIdx (G ''Woe'') (K (JNum 1154)) (K (JNum 33))), Do (Call ''Umb'' [G ''Woe'', K (JNum 1155), K (JNum 1159), K (JNum (- 87))]), Do (Call ''Umb'' [G ''Woe'', K (JNum 1159), K (JNum 1168), K (JNum 33)]), Do (Call ''Umb'' [G ''Woe'', K (JNum 1168), K (JNum 1221), K (JNum (- 19))]), Do (Call ''Umb'' [G ''Woe'', K (JNum 1221), K (JNum 1223), K (JNum 33)]), Do (Call ''Umb'' [G ''Woe'', K (JNum 1223), K (JNum 1225), K (JNum (- 19))]), Do (Call ''Umb'' [G ''Woe'', K (JNum 1225), K (JNum 1227), K (JNum 33)]), Do (Call ''Umb'' [G ''Woe'', K (JNum 1227), K (JNum 1229), K (JNum (- 19))]), Do (Call ''Umb'' [G ''Woe'', K (JNum 1229), K (JNum 1232), K (JNum 33)]), Do (Call ''Umb'' [G ''Woe'', K (JNum 1232), K (JNum 1260), K (JNum (- 19))]), Do (Call ''Umb'' [G ''Woe'', K (JNum 1260), K (JNum 1262), K (JNum 33)]), Do (Call ''Umb'' [G ''Woe'', K (JNum 1262), K (JNum 1270), K (JNum (- 19))]), Do (Call ''Umb'' [G ''Woe'', K (JNum 1270), K (JNum 1272), K (JNum 33)]), Do (Call ''Umb'' [G ''Woe'', K (JNum 1272), K (JNum 1274), K (JNum (- 19))]), Do (Call ''Umb'' [G ''Woe'', K (JNum 1274), K (JNum 1329), K (JNum 33)]), Do (Call ''Umb'' [G ''Woe'', K (JNum 1329), K (JNum 1367), K (JNum (- 19))]), Do (Call ''Umb'' [G ''Woe'', K (JNum 1367), K (JNum 1369), K (JNum 33)]), Do (PutIdx (G ''Woe'') (K (JNum 1369)) (K (JNum (- 19)))), Do (Call ''Umb'' [G ''Woe'', K (JNum 1370), K (JNum 1377), K (JNum 33)]), Do (Call ''Umb'' [G ''Woe'', K (JNum 1377), K (JNum 1415), K (JNum (- 19))]), Do (Call ''Umb'' [G ''Woe'', K (JNum 1415), K (JNum 1425), K (JNum 33)]), Do (Call ''Umb'' [G ''Woe'', K (JNum 1425), K (JNum 1442), K (JNum (- 87))]), Do (PutIdx (G ''Woe'') (K (JNum 1442)) (K (JNum 33))), Do (Call ''Umb'' [G ''Woe'', K (JNum 1443), K (JNum 1466), K (JNum (- 87))]), Do (PutIdx (G ''Woe'') (K (JNum 1466)) (K (JNum 33))), Do (Call ''Umb'' [G ''Woe'', K (JNum 1467), K (JNum 1470), K (JNum (- 87))]), Do (PutIdx (G ''Woe'') (K (JNum 1470)) (K (JNum 33))), Do (PutIdx (G ''Woe'') (K (JNum 1471)) (K (JNum (- 87)))), Do (PutIdx (G ''Woe'') (K (JNum 1472)) (K (JNum 33))), Do (Call ''Umb'' [G ''Woe'', K (JNum 1473), K (JNum 1475), K (JNum (- 87))]), Do (PutIdx (G ''Woe'') (K (JNum 1475)) (K (JNum 33))), Do (PutIdx (G ''Woe'') (K (JNum 1476)) (K (JNum (- 87)))), Do (Call ''Umb'' [G ''Woe'', K (JNum 1477), K (JNum 1488), K (JNum 33)]), Do (Call ''Umb'' [G ''Woe'', K (JNum 1488), K (JNum 1515), K (JNum (- 19))]), Do (Call ''Umb'' [G ''Woe'', K (JNum 1515), K (JNum 1520), K (JNum 33)]), Do (Call ''Umb'' [G ''Woe'', K (JNum 1520), K (JNum 1523), K (JNum (- 19))]), Do (Call ''Umb'' [G ''Woe'', K (JNum 1523), K (JNum 1569), K (JNum 33)]), Do (Call ''Umb'' [G ''Woe'', K (JNum 1569), K (JNum 1595), K (JNum (- 19))]), Do (Call ''Umb'' [G ''Woe'', K (JNum 1595), K (JNum 1600), K (JNum 33)]), Do (PutIdx (G ''Woe'') (K (JNum 1600)) (K (JNum (- 87)))), Do (Call ''Umb'' [G ''Woe'', K (JNum 1601), K (JNum 1611), K (JNum (- 19))]), Do (Call ''Umb'' [G ''Woe'', K (JNum 1611), K (JNum 1619), K (JNum (- 87))]), Do (Call ''Umb'' [G ''Woe'', K (JNum 1619), K (JNum 1632), K (JNum 33)]), Do (Call ''Umb'' [G ''Woe'', K (JNum 1632), K (JNum 1642), K (JNum (- 87))]), Do (Call ''Umb'' [G ''Woe'', K (JNum 1642), K (JNum 1648), K (JNum 33)]), Do (PutIdx (G ''Woe'') (K (JNum 1648)) (K (JNum (- 87)))), Do (Call ''Umb'' [G ''Woe'', K (JNum 1649), K (JNum 1720), K (JNum (- 19))]), Do (Call ''Umb'' [G ''Woe'', K (JNum 1720), K (JNum 1722), K (JNum 33)]), Do (Call ''Umb'' [G ''Woe'', K (JNum 1722), K (JNum 1727), K (JNum (- 19))]), Do (PutIdx (G ''Woe'') (K (JNum 1727)) (K (JNum 33))), Do (Call ''Umb'' [G ''Woe'', K (JNum 1728), K (JNum 1743), K (JNum (- 19))]), Do (PutIdx (G ''Woe'') (K (JNum 1743)) (K (JNum 33))), Do (Call ''Umb'' [G ''Woe'', K (JNum 1744), K (JNum 1748), K (JNum (- 19))]), Do (PutIdx (G ''Woe'') (K (JNum 1748)) (K (JNum 33))), Do (PutIdx (G ''Woe'') (K (JNum 1749)) (K (JNum (- 19)))), Do (Call ''Umb'' [G ''Woe'', K (JNum 1750), K (JNum 1765), K (JNum (- 87))]), Do (Call ''Umb'' [G ''Woe'', K (JNum 1765), K (JNum 1767), K (JNum (- 19))]), Do (Call ''Umb'' [G ''Woe'', K (JNum 1767), K (JNum 1769), K (JNum (- 87))]), Do (PutIdx (G ''Woe'') (K (JNum 1769)) (K (JNum 33))), Do (Call ''Umb'' [G ''Woe'', K (JNum 1770), K (JNum 1774), K (JNum (- 87))]), Do (Call ''Umb'' [G ''Woe'', K (JNum 1774), K (JNum 1776), K (JNum 33)]), Do (Call ''Umb'' [G ''Woe'', K (JNum 1776), K (JNum 1786), K (JNum (- 87))]), Do (Call ''Umb'' [G ''Woe'', K (JNum 1786), K (JNum 2305), K (JNum 33)]), Do (Call ''Umb'' [G ''Woe'', K (JNum 2305), K (JNum 2308), K (JNum (- 87))]), Do (PutIdx (G ''Woe'') (K (JNum 2308)) (K (JNum 33))), Do (Call ''Umb'' [G ''Woe'', K (JNum 2309), K (JNum 2362), K (JNum (- 19))]), Do (Call ''Umb'' [G ''Woe'', K (JNum 2362), K (JNum 2364), K (JNum 33)]), Do (PutIdx (G ''Woe'') (K (JNum 2364)) (K (JNum (- 87)))), Do (PutIdx (G ''Woe'') (K (JNum 2365)) (K (JNum (- 19)))), Do (Call ''Umb'' [G ''Woe'', K (JNum 2366), K (JNum 2382), K (JNum (- 87))]), Do (Call ''Umb'' [G ''Woe'', K (JNum 2382), K (JNum 2385), K (JNum 33)]), Do (Call ''Umb'' [G ''Woe'', K (JNum 2385), K (JNum 2389), K (JNum (- 87))]), Do (Call ''Umb'' [G ''Woe'', K (JNum 2389), K (JNum 2392), K (JNum 33)]), Do (Call ''Umb'' [G ''Woe'', K (JNum 2392), K (JNum 2402), K (JNum (- 19))]), Do (Call ''Umb'' [G ''Woe'', K (JNum 2402), K (JNum 2404), K (JNum (- 87))]), Do (Call ''Umb'' [G ''Woe'', K (JNum 2404), K (JNum 2406), K (JNum 33)]), Do (Call ''Umb'' [G ''Woe'', K (JNum 2406), K (JNum 2416), K (JNum (- 87))]), Do (Call ''Umb'' [G ''Woe'', K (JNum 2416), K (JNum 2433), K (JNum 33)]), Do (Call ''Umb'' [G ''Woe'', K (JNum 2433), K (JNum 2436), K (JNum (- 87))]), Do (PutIdx (G ''Woe'') (K (JNum 2436)) (K (JNum 33))), Do (Call ''Umb'' [G ''Woe'', K (JNum 2437), K (JNum 2445), K (JNum (- 19))]), Do (Call ''Umb'' [G ''Woe'', K (JNum 2445), K (JNum 2447), K (JNum 33)]), Do (Call ''Umb'' [G ''Woe'', K (JNum 2447), K (JNum 2449), K (JNum (- 19))]), Do (Call ''Umb'' [G ''Woe'', K (JNum 2449), K (JNum 2451), K (JNum 33)]), Do (Call ''Umb'' [G ''Woe'', K (JNum 2451), K (JNum 2473), K (JNum (- 19))]), Do (PutIdx (G ''Woe'') (K (JNum 2473)) (K (JNum 33))), Do (Call ''Umb'' [G ''Woe'', K (JNum 2474), K (JNum 2481), K (JNum (- 19))]), Do (PutIdx (G ''Woe'') (K (JNum 2481)) (K (JNum 33))), Do (PutIdx (G ''Woe'') (K (JNum 2482)) (K (JNum (- 19)))), Do (Call ''Umb'' [G ''Woe'', K (JNum 2483), K (JNum 2486), K (JNum 33)]), Do (Call ''Umb'' [G ''Woe'', K (JNum 2486), K (JNum 2490), K (JNum (- 19))]), Do (Call ''Umb'' [G ''Woe'', K (JNum 2490), K (JNum 2492), K (JNum 33)]), Do (PutIdx (G ''Woe'') (K (JNum 2492)) (K (JNum (- 87)))), Do (PutIdx (G ''Woe'') (K (JNum 2493)) (K (JNum 33))), Do (Call ''Umb'' [G ''Woe'', K (JNum 2494), K (JNum 2501), K (JNum (- 87))]), Do (Call ''Umb'' [G ''Woe'', K (JNum 2501), K (JNum 2503), K (JNum 33)]), Do (Call ''Umb'' [G ''Woe'', K (JNum 2503), K (JNum 2505), K (JNum (- 87))]), Do (Call ''Umb'' [G ''Woe'', K (JNum 2505), K (JNum 2507), K (JNum 33)]), Do (Call ''Umb'' [G ''Woe'', K (JNum 2507), K (JNum 2510), K (JNum (- 87))]), Do (Call ''Umb'' [G ''Woe'', K (JNum 2510), K (JNum 2519), K (JNum 33)]), Do (PutIdx (G ''Woe'') (K (JNum 2519)) (K (JNum (- 87)))), Do (Call ''Umb'' [G ''Woe'', K (JNum 2520), K (JNum 2524), K (JNum 33)]), Do (Call ''Umb'' [G ''Woe'', K (JNum 2524), K (JNum 2526), K (JNum (- 19))]), Do (PutIdx (G ''Woe'') (K (JNum 2526)) (K (JNum 33))), Do (Call ''Umb'' [G ''Woe'', K (JNum 2527), K (JNum 2530), K (JNum (- 19))]), Do (Call ''Umb'' [G ''Woe'', K (JNum 2530), K (JNum 2532), K (JNum (- 87))]), Do (Call ''Umb'' [G ''Woe'', K (JNum 2532), K (JNum 2534), K (JNum 33)]), Do (Call ''Umb'' [G ''Woe'', K (JNum 2534), K (JNum 2544), K (JNum (- 87))]), Do (Call ''Umb'' [G ''Woe'', K (JNum 2544), K (JNum 2546), K (JNum (- 19))]), Do (Call ''Umb'' [G ''Woe'', K (JNum 2546), K (JNum 2562), K (JNum 33)]), Do (PutIdx (G ''Woe'') (K (JNum 2562)) (K (JNum (- 87)))), Do (Call ''Umb'' [G ''Woe'', K (JNum 2563), K (JNum 2565), K (JNum 33)]), Do (Call ''Umb'' [G ''Woe'', K (JNum 2565), K (JNum 2571), K (JNum (- 19))]), Do (Call ''Umb'' [G ''Woe'', K (JNum 2571), K (JNum 2575), K (JNum 33)]), Do (Call ''Umb'' [G ''Woe'', K (JNum 2575), K (JNum 2577), K (JNum (- 19))]), Do (Call ''Umb'' [G ''Woe'', K (JNum 2577), K (JNum 2579), K (JNum 33)]), Do (Call ''Umb'' [G ''Woe'', K (JNum 2579), K (JNum 2601), K (JNum (- 19))]), Do (PutIdx (G ''Woe'') (K (JNum 2601)) (K (JNum 33))), Do (Call ''Umb'' [G ''Woe'', K (JNum 2602), K (JNum 2609), K (JNum (- 19))]), Do (PutIdx (G ''Woe'') (K (JNum 2609)) (K (JNum 33))), Do (Call ''Umb'' [G ''Woe'', K (JNum 2610), K (JNum 2612), K (JNum (- 19))]), Do (PutIdx (G ''Woe'') (K (JNum 2612)) (K (JNum 33))), Do (Call ''Umb'' [G ''Woe'', K (JNum 2613), K (JNum 2615), K (JNum (- 19))]), Do (PutIdx (G ''Woe'') (K (JNum 2615)) (K (JNum 33))), Do (Call ''Umb'' [G ''Woe'', K (JNum 2616), K (JNum 2618), K (JNum (- 19))]), Do (Call ''Umb'' [G ''Woe'', K (JNum 2618), K (JNum 2620), K (JNum 33)]), Do (PutIdx (G ''Woe'') (K (JNum 2620)) (K (JNum (- 87)))), Do (PutIdx (G ''Woe'') (K (JNum 2621)) (K (JNum 33))), Do (Call ''Umb'' [G ''Woe'', K (JNum 2622), K (JNum 2627), K (JNum (- 87))]), Do (Call ''Umb'' [G ''Woe'', K (JNum 2627), K (JNum 2631), K (JNum 33)]), Do (Call ''Umb'' [G ''Woe'', K (JNum 2631), K (JNum 2633), K (JNum (- 87))]), Do (Call ''Umb'' [G ''Woe'', K (JNum 2633), K (JNum 2635), K (JNum 33)]), Do (Call ''Umb'' [G ''Woe'', K (JNum 2635), K (JNum 2638), K (JNum (- 87))]), Do (Call ''Umb'' [G ''Woe'', K (JNum 2638), K (JNum 2649), K (JNum 33)]), Do (Call ''Umb'' [G ''Woe'', K (JNum 2649), K (JNum 2653), K (JNum (- 19))]), Do (PutIdx (G ''Woe'') (K (JNum 2653)) (K (JNum 33))), Do (PutIdx (G ''Woe'') (K (JNum 2654)) (K (JNum (- 19)))), Do (Call ''Umb'' [G ''Woe'', K (JNum 2655), K (JNum 2662), K (JNum 33)]), Do (Call ''Umb'' [G ''Woe'', K (JNum 2662), K (JNum 2674), K (JNum (- 87))]), Do (Call ''Umb'' [G ''Woe'', K (JNum 2674), K (JNum 2677), K (JNum (- 19))]), Do (Call ''Umb'' [G ''Woe'', K (JNum 2677), K (JNum 2689), K (JNum 33)]), Do (Call ''Umb'' [G ''Woe'', K (JNum 2689), K (JNum 2692), K (JNum (- 87))]), Do (PutIdx (G ''Woe'') (K (JNum 2692)) (K (JNum 33))), Do (Call ''Umb'' [G ''Woe'', K (JNum 2693), K (JNum 2700), K (JNum (- 19))]), Do (PutIdx (G ''Woe'') (K (JNum 2700)) (K (JNum 33))), Do (PutIdx (G ''Woe'') (K (JNum 2701)) (K (JNum (- 19)))), Do (PutIdx (G ''Woe'') (K (JNum 2702)) (K (JNum 33))), Do (Call ''Umb'' [G ''Woe'', K (JNum 2703), K (JNum 2706), K (JNum (- 19))]), Do (PutIdx (G ''Woe'') (K (JNum 2706)) (K (JNum 33))), Do (Call ''Umb'' [G ''Woe'', K (JNum 2707), K (JNum 2729), K (JNum (- 19))]), Do (PutIdx (G ''Woe'') (K (JNum 2729)) (K (JNum 33))), Do (Call ''Umb'' [G ''Woe'', K (JNum 2730), K (JNum 2737), K (JNum (- 19))]), Do (PutIdx (G ''Woe'') (K (JNum 2737)) (K (JNum 33))), Do (Call ''Umb'' [G ''Woe'', K (JNum 2738), K (JNum 2740), K (JNum (- 19))]), Do (PutIdx (G ''Woe'') (K (JNum 2740)) (K (JNum 33))), Do (Call ''Umb'' [G ''Woe'', K (JNum 2741), K (JNum 2746), K (JNum (- 19))]), Do (Call ''Umb'' [G ''Woe'', K (JNum 2746), K (JNum 2748), K (JNum 33)]), Do (PutIdx (G ''Woe'') (K (JNum 2748)) (K (JNum (- 87)))), Do (PutIdx (G ''Woe'') (K (JNum 2749)) (K (JNum (- 19)))), Do (Call ''Umb'' [G ''Woe'', K (JNum 2750), K (JNum 2758), K (JNum (- 87))]), Do (PutIdx (G ''Woe'') (K (JNum 2758)) (K (JNum 33))), Do (Call ''Umb'' [G ''Woe'', K (JNum 2759), K (JNum 2762), K (JNum (- 87))]), Do (PutIdx (G ''Woe'') (K (JNum 2762)) (K (JNum 33))), Do (Call ''Umb'' [G ''Woe'', K (JNum 2763), K (JNum 2766), K (JNum (- 87))]), Do (Call ''Umb'' [G ''Woe'', K (JNum 2766), K (JNum 2784), K (JNum 33)]), Do (PutIdx (G ''Woe'') (K (JNum 2784)) (K (JNum (- 19)))), Do (Call ''Umb'' [G ''Woe'', K (JNum 2785), K (JNum 2790), K (JNum 33)]), Do (Call ''Umb'' [G ''Woe'', K (JNum 2790), K (JNum 2800), K (JNum (- 87))]), Do (Call ''Umb'' [G ''Woe'', K (JNum 2800), K (JNum 2817), K (JNum 33)]), Do (Call ''Umb'' [G ''Woe'', K (JNum 2817), K (JNum 2820), K (JNum (- 87))]), Do (PutIdx (G ''Woe'') (K (JNum 2820)) (K (JNum 33))), Do (Call ''Umb'' [G ''Woe'', K (JNum 2821), K (JNum 2829), K (JNum (- 19))]), Do (Call ''Umb'' [G ''Woe'', K (JNum 2829), K (JNum 2831), K (JNum 33)]), Do (Call ''Umb'' [G ''Woe'', K (JNum 2831), K (JNum 2833), K (JNum (- 19))]), Do (Call ''Umb'' [G ''Woe'', K (JNum 2833), K (JNum 2835), K (JNum 33)]), Do (Call ''Umb'' [G ''Woe'', K (JNum 2835), K (JNum 2857), K (JNum (- 19))]), Do (PutIdx (G ''Woe'') (K (JNum 2857)) (K (JNum 33))), Do (Call ''Umb'' [G ''Woe'', K (JNum 2858), K (JNum 2865), K (JNum (- 19))]), Do (PutIdx (G ''Woe'') (K (JNum 2865)) (K (JNum 33))), Do (Call ''Umb'' [G ''Woe'', K (JNum 2866), K (JNum 2868), K (JNum (- 19))]), Do (Call ''Umb'' [G ''Woe'', K (JNum 2868), K (JNum 2870), K (JNum 33)]), Do (Call ''Umb'' [G ''Woe'', K (JNum 2870), K (JNum 2874), K (JNum (- 19))]), Do (Call ''Umb'' [G ''Woe'', K (JNum 2874), K (JNum 2876), K (JNum 33)]), Do (PutIdx (G ''Woe'') (K (JNum 2876)) (K (JNum (- 87)))), Do (PutIdx (G ''Woe'') (K (JNum 2877)) (K (JNum (- 19)))), Do (Call ''Umb'' [G ''Woe'', K (JNum 2878), K (JNum 2884), K (JNum (- 87))]), Do (Call ''Umb'' [G ''Woe'', K (JNum 2884), K (JNum 2887), K (JNum 33)]), Do (Call ''Umb'' [G ''Woe'', K (JNum 2887), K (JNum 2889), K (JNum (- 87))]), Do (Call ''Umb'' [G ''Woe'', K (JNum 2889), K (JNum 2891), K (JNum 33)]), Do (Call ''Umb'' [G ''Woe'', K (JNum 2891), K (JNum 2894), K (JNum (- 87))]), Do (Call ''Umb'' [G ''Woe'', K (JNum 2894), K (JNum 2902), K (JNum 33)]), Do (Call ''Umb'' [G ''Woe'', K (JNum 2902), K (JNum 2904), K (JNum (- 87))]), Do (Call ''Umb'' [G ''Woe'', K (JNum 2904), K (JNum 2908), K (JNum 33)]), Do (Call ''Umb'' [G ''Woe'', K (JNum 2908), K (JNum 2910), K (JNum (- 19))]), Do (PutIdx (G ''Woe'') (K (JNum 2910)) (K (JNum 33))), Do (Call ''Umb'' [G ''Woe'', K (JNum 2911), K (JNum 2914), K (JNum (- 19))]), Do (Call ''Umb'' [G ''Woe'', K (JNum 2914), K (JNum 2918), K (JNum 33)]), Do (Call ''Umb'' [G ''Woe'', K (JNum 2918), K (JNum 2928), K (JNum (- 87))]), Do (Call ''Umb'' [G ''Woe'', K (JNum 2928), K (JNum 2946), K (JNum 33)]), Do (Call ''Umb'' [G ''Woe'', K (JNum 2946), K (JNum 2948), K (JNum (- 87))]), Do (PutIdx (G ''Woe'') (K (JNum 2948)) (K (JNum 33))), Do (Call ''Umb'' [G ''Woe'', K (JNum 2949), K (JNum 2955), K (JNum (- 19))]), Do (Call ''Umb'' [G ''Woe'', K (JNum 2955), K (JNum 2958), K (JNum 33)]), Do (Call ''Umb'' [G ''Woe'', K (JNum 2958), K (JNum 2961), K (JNum (- 19))]), Do (PutIdx (G ''Woe'') (K (JNum 2961)) (K (JNum 33))), Do (Call ''Umb'' [G ''Woe'', K (JNum 2962), K (JNum 2966), K (JNum (- 19))]), Do (Call ''Umb'' [G ''Woe'', K (JNum 2966), K (JNum 2969), K (JNum 33)]), Do (Call ''Umb'' [G ''Woe'', K (JNum 2969), K (JNum 2971), K (JNum (- 19))]), Do (PutIdx (G ''Woe'') (K (JNum 2971)) (K (JNum 33))), Do (PutIdx (G ''Woe'') (K (JNum 2972)) (K (JNum (- 19)))), Do (PutIdx (G ''Woe'') (K (JNum 2973)) (K (JNum 33))), Do (Call ''Umb'' [G ''Woe'', K (JNum 2974), K (JNum 2976), K (JNum (- 19))]), Do (Call ''Umb'' [G ''Woe'', K (JNum 2976), K (JNum 2979), K (JNum 33)]), Do (Call ''Umb'' [G ''Woe'', K (JNum 2979), K (JNum 2981), K (JNum (- 19))]), Do (Call ''Umb'' [G ''Woe'', K (JNum 2981), K (JNum 2984), K (JNum 33)]), Do (Call ''Umb'' [G ''Woe'', K (JNum 2984), K (JNum 2987), K (JNum (- 19))]), Do (Call ''Umb'' [G ''Woe'', K (JNum 2987), K (JNum 2990), K (JNum 33)]), Do (Call ''Umb'' [G ''Woe'', K (JNum 2990), K (JNum 2998), K (JNum (- 19))]), Do (PutIdx (G ''Woe'') (K (JNum 2998)) (K (JNum 33))), Do (Call ''Umb'' [G ''Woe'', K (JNum 2999), K (JNum 3002), K (JNum (- 19))]), Do (Call ''Umb'' [G ''Woe'', K (JNum 3002), K (JNum 3006), K (JNum 33)]), Do (Call ''Umb'' [G ''Woe'', K (JNum 3006), K (JNum 3011), K (JNum (- 87))]), Do (Call ''Umb'' [G ''Woe'', K (JNum 3011), K (JNum 3014), K (JNum 33)]), Do (Call ''Umb'' [G ''Woe'', K (JNum 3014), K (JNum 3017), K (JNum (- 87))]), Do (PutIdx (G ''Woe'') (K (JNum 3017)) (K (JNum 33))), Do (Call ''Umb'' [G ''Woe'', K (JNum 3018), K (JNum 3022), K (JNum (- 87))]), Do (Call ''Umb'' [G ''Woe'', K (JNum 3022), K (JNum 3031), K (JNum 33)]), Do (PutIdx (G ''Woe'') (K (JNum 3031)) (K (JNum (- 87)))), Do (Call ''Umb'' [G ''Woe'', K (JNum 3032), K (JNum 3047), K (JNum 33)]), Do (Call ''Umb'' [G ''Woe'', K (JNum 3047), K (JNum 3056), K (JNum (- 87))]), Do (Call ''Umb'' [G ''Woe'', K (JNum 3056), K (JNum 3073), K (JNum 33)]), Do (Call ''Umb'' [G ''Woe'', K (JNum 3073), K (JNum 3076), K (JNum (- 87))]), Do (PutIdx (G ''Woe'') (K (JNum 3076)) (K (JNum 33))), Do (Call ''Umb'' [G ''Woe'', K (JNum 3077), K (JNum 3085), K (JNum (- 19))]), Do (PutIdx (G ''Woe'') (K (JNum 3085)) (K (JNum 33))), Do (Call ''Umb'' [G ''Woe'', K (JNum 3086), K (JNum 3089), K (JNum (- 19))]), Do (PutIdx (G ''Woe'') (K (JNum 3089)) (K (JNum 33))), Do (Call ''Umb'' [G ''Woe'', K (JNum 3090), K (JNum 3113), K (JNum (- 19))]), Do (PutIdx (G ''Woe'') (K (JNum 3113)) (K (JNum 33))), Do (Call ''Umb'' [G ''Woe'', K (JNum 3114), K (JNum 3124), K (JNum (- 19))]), Do (PutIdx (G ''Woe'') (K (JNum 3124)) (K (JNum 33))), Do (Call ''Umb'' [G ''Woe'', K (JNum 3125), K (JNum 3130), K (JNum (- 19))]), Do (Call ''Umb'' [G ''Woe'', K (JNum 3130), K (JNum 3134), K (JNum 33)]), Do (Call ''Umb'' [G ''Woe'', K (JNum 3134), K (JNum 3141), K (JNum (- 87))]), Do (PutIdx (G ''Woe'') (K (JNum 3141)) (K (JNum 33))), Do (Call ''Umb'' [G ''Woe'', K (JNum 3142), K (JNum 3145), K (JNum (- 87))]), Do (PutIdx (G ''Woe'') (K (JNum 3145)) (K (JNum 33))), Do (Call ''Umb'' [G ''Woe'', K (JNum 3146), K (JNum 3150), K (JNum (- 87))]), Do (Call ''Umb'' [G ''Woe'', K (JNum 3150), K (JNum 3157), K (JNum 33)]), Do (Call ''Umb'' [G ''Woe'', K (JNum 3157), K (JNum 3159), K (JNum (- 87))]), Do (Call ''Umb'' [G ''Woe'', K (JNum 3159), K (JNum 3168), K (JNum 33)]), Do (Call ''Umb'' [G ''Woe'', K (JNum 3168), K (JNum 3170), K (JNum (- 19))]), Do (Call ''Umb'' [G ''Woe'', K (JNum 3170), K (JNum 3174), K (JNum 33)]), Do (Call ''Umb'' [G ''Woe'', K (JNum 3174), K (JNum 3184), K (JNum (- 87))]), Do (Call ''Umb'' [G ''Woe'', K (JNum 3184), K (JNum 3202), K (JNum 33)]), Do (Call ''Umb'' [G ''Woe'', K (JNum 3202), K (JNum 3204), K (JNum (- 87))]), Do (PutIdx (G ''Woe'') (K (JNum 3204)) (K (JNum 33))), Do (Call ''Umb'' [G ''Woe'', K (JNum 3205), K (JNum 3213), K (JNum (- 19))]), Do (PutIdx (G ''Woe'') (K (JNum 3213)) (K (JNum 33))), Do (Call ''Umb'' [G ''Woe'', K (JNum 3214), K (JNum 3217), K (JNum (- 19))]), Do (PutIdx (G ''Woe'') (K (JNum 3217)) (K (JNum 33))), Do (Call ''Umb'' [G ''Woe'', K (JNum 3218), K (JNum 3241), K (JNum (- 19))]), Do (PutIdx (G ''Woe'') (K (JNum 3241)) (K (JNum 33))), Do (Call ''Umb'' [G ''Woe'', K (JNum 3242), K (JNum 3252), K (JNum (- 19))]), Do (PutIdx (G ''Woe'') (K (JNum 3252)) (K (JNum 33))), Do (Call ''Umb'' [G ''Woe'', K (JNum 3253), K (JNum 3258), K (JNum (- 19))]), Do (Call ''Umb'' [G ''Woe'', K (JNum 3258), K (JNum 3262), K (JNum 33)]), Do (Call ''Umb'' [G ''Woe'', K (JNum 3262), K (JNum 3269), K (JNum (- 87))]), Do (PutIdx (G ''Woe'') (K (JNum 3269)) (K (JNum 33))), Do (Call ''Umb'' [G ''Woe'', K (JNum 3270), K (JNum 3273), K (JNum (- 87))]), Do (PutIdx (G ''Woe'') (K (JNum 3273)) (K (JNum 33))), Do (Call ''Umb'' [G ''Woe'', K (JNum 3274), K (JNum 3278), K (JNum (- 87))]), Do (Call ''Umb'' [G ''Woe'', K (JNum 3278), K (JNum 3285), K (JNum 33)]), Do (Call ''Umb'' [G ''Woe'', K (JNum 3285), K (JNum 3287), K (JNum (- 87))]), Do (Call ''Umb'' [G ''Woe'', K (JNum 3287), K (JNum 3294), K (JNum 33)]), Do (PutIdx (G ''Woe'') (K (JNum 3294)) (K (JNum (- 19)))), Do (PutIdx (G ''Woe'') (K (JNum 3295)) (K (JNum 33))), Do (Call ''Umb'' [G ''Woe'', K (JNum 3296), K (JNum 3298), K (JNum (- 19))]), Do (Call ''Umb'' [G ''Woe'', K (JNum 3298), K (JNum 3302), K (JNum 33)]), Do (Call ''Umb'' [G ''Woe'', K (JNum 3302), K (JNum 3312), K (JNum (- 87))]), Do (Call ''Umb'' [G ''Woe'', K (JNum 3312), K (JNum 3330), K (JNum 33)]), Do (Call ''Umb'' [G ''Woe'', K (JNum 3330), K (JNum 3332), K (JNum (- 87))]), Do (PutIdx (G ''Woe'') (K (JNum 3332)) (K (JNum 33))), Do (Call ''Umb'' [G ''Woe'', K (JNum 3333), K (JNum 3341), K (JNum (- 19))]), Do (PutIdx (G ''Woe'') (K (JNum 3341)) (K (JNum 33))), Do (Call ''Umb'' [G ''Woe'', K (JNum 3342), K (JNum 3345), K (JNum (- 19))]), Do (PutIdx (G ''Woe'') (K (JNum 3345)) (K (JNum 33))), Do (Call ''Umb'' [G ''Woe'', K (JNum 3346), K (JNum 3369), K (JNum (- 19))]), Do (PutIdx (G ''Woe'') (K (JNum 3369)) (K (JNum 33))), Do (Call ''Umb'' [G ''Woe'', K (JNum 3370), K (JNum 3386), K (JNum (- 19))]), Do (Call ''Umb'' [G ''Woe'', K (JNum 3386), K (JNum 3390), K (JNum 33)]), Do (Call ''Umb'' [G ''Woe'', K (JNum 3390), K (JNum 3396), K (JNum (- 87))]), Do (Call ''Umb'' [G ''Woe'', K (JNum 3396), K (JNum 3398), K (JNum 33)]), Do (Call ''Umb'' [G ''Woe'', K (JNum 3398), K (JNum 3401), K (JNum (- 87))]), Do (PutIdx (G ''Woe'') (K (JNum 3401)) (K (JNum 33))), Do (Call ''Umb'' [G ''Woe'', K (JNum 3402), K (JNum 3406), K (JNum (- 87))]), Do (Call ''Umb'' [G ''Woe'', K (JNum 3406), K (JNum 3415), K (JNum 33)]), Do (PutIdx (G ''Woe'') (K (JNum 3415)) (K (JNum (- 87)))), Do (Call ''Umb'' [G ''Woe'', K (JNum 3416), K (JNum 3424), K (JNum 33)]), Do (Call ''Umb'' [G ''Woe'', K (JNum 3424), K (JNum 3426), K (JNum (- 19))]), Do (Call ''Umb'' [G ''Woe'', K (JNum 3426), K (JNum 3430), K (JNum 33)]), Do (Call ''Umb'' [G ''Woe'', K (JNum 3430), K (JNum 3440), K (JNum (- 87))]), Do (Call ''Umb'' [G ''Woe'', K (JNum 3440), K (JNum 3585), K (JNum 33)]), Do (Call ''Umb'' [G ''Woe'', K (JNum 3585), K (JNum 3631), K (JNum (- 19))]), Do (PutIdx (G ''Woe'') (K (JNum 3631)) (K (JNum 33))), Do (PutIdx (G ''Woe'') (K (JNum 3632)) (K (JNum (- 19)))), Do (PutIdx (G ''Woe'') (K (JNum 3633)) (K (JNum (- 87)))), Do (Call ''Umb'' [G ''Woe'', K (JNum 3634), K (JNum 3636), K (JNum (- 19))]), Do (Call ''Umb'' [G ''Woe'', K (JNum 3636), K (JNum 3643), K (JNum (- 87))]), Do (Call ''Umb'' [G ''Woe'', K (JNum 3643), K (JNum 3648), K (JNum 33)]), Do (Call ''Umb'' [G ''Woe'', K (JNum 3648), K (JNum 3654), K (JNum (- 19))]), Do (Call ''Umb'' [G ''Woe'', K (JNum 3654), K (JNum 3663), K (JNum (- 87))]), Do (PutIdx (G ''Woe'') (K (JNum 3663)) (K (JNum 33))), Do (Call ''Umb'' [G ''Woe'', K (JNum 3664), K (JNum 3674), K (JNum (- 87))]), Do (Call ''Umb'' [G ''Woe'', K (JNum 3674), K (JNum 3713), K (JNum 33)]), Do (Call ''Umb'' [G ''Woe'', K (JNum 3713), K (JNum 3715), K (JNum (- 19))]), Do (PutIdx (G ''Woe'') (K (JNum 3715)) (K (JNum 33))), Do (PutIdx (G ''Woe'') (K (JNum 3716)) (K (JNum (- 19)))), Do (Call ''Umb'' [G ''Woe'', K (JNum 3717), K (JNum 3719), K (JNum 33)]), Do (Call ''Umb'' [G ''Woe'', K (JNum 3719), K (JNum 3721), K (JNum (- 19))]), Do (PutIdx (G ''Woe'') (K (JNum 3721)) (K (JNum 33))), Do (PutIdx (G ''Woe'') (K (JNum 3722)) (K (JNum (- 19)))), Do (Call ''Umb'' [G ''Woe'', K (JNum 3723), K (JNum 3725), K (JNum 33)]), Do (PutIdx (G ''Woe'') (K (JNum 3725)) (K (JNum (- 19)))), Do (Call ''Umb'' [G ''Woe'', K (JNum 3726), K (JNum 3732), K (JNum 33)]), Do (Call ''Umb'' [G ''Woe'', K (JNum 3732), K (JNum 3736), K (JNum (- 19))]), Do (PutIdx (G ''Woe'') (K (JNum 3736)) (K (JNum 33))), Do (Call ''Umb'' [G ''Woe'', K (JNum 3737), K (JNum 3744), K (JNum (- 19))]), Do (PutIdx (G ''Woe'') (K (JNum 3744)) (K (JNum 33))), Do (Call ''Umb'' [G ''Woe'', K (JNum 3745), K (JNum 3748), K (JNum (- 19))]), Do (PutIdx (G ''Woe'') (K (JNum 3748)) (K (JNum 33))), Do (PutIdx (G ''Woe'') (K (JNum 3749)) (K (JNum (- 19)))), Do (PutIdx (G ''Woe'') (K (JNum 3750)) (K (JNum 33))), Do (PutIdx (G ''Woe'') (K (JNum 3751)) (K (JNum (- 19)))), Do (Call ''Umb'' [G ''Woe'', K (JNum 3752), K (JNum 3754), K (JNum 33)]), Do (Call ''Umb'' [G ''Woe'', K (JNum 3754), K (JNum 3756), K (JNum (- 19))]), Do (PutIdx (G ''Woe'') (K (JNum 3756)) (K (JNum 33))), Do (Call ''Umb'' [G ''Woe'', K (JNum 3757), K (JNum 3759), K (JNum (- 19))]), Do (PutIdx (G ''Woe'') (K (JNum 3759)) (K (JNum 33))), Do (PutIdx (G ''Woe'') (K (JNum 3760)) (K (JNum (- 19)))), Do (PutIdx (G ''Woe'') (K (JNum 3761)) (K (JNum (- 87)))), Do (Call ''Umb'' [G ''Woe'', K (JNum 3762), K (JNum 3764), K (JNum (- 19))]), Do (Call ''Umb'' [G ''Woe'', K (JNum 3764), K (JNum 3770), K (JNum (- 87))]), Do (PutIdx (G ''Woe'') (K (JNum 3770)) (K (JNum 33))), Do (Call ''Umb'' [G ''Woe'', K (JNum 3771), K (JNum 3773), K (JNum (- 87))]), Do (PutIdx (G ''Woe'') (K (JNum 3773)) (K (JNum (- 19)))), Do (Call ''Umb'' [G ''Woe'', K (JNum 3774), K (JNum 3776), K (JNum 33)]), Do (Call ''Umb'' [G ''Woe'', K (JNum 3776), K (JNum 3781), K (JNum (- 19))]), Do (PutIdx (G ''Woe'') (K (JNum 3781)) (K (JNum 33))), Do (PutIdx (G ''Woe'') (K (JNum 3782)) (K (JNum (- 87)))), Do (PutIdx (G ''Woe'') (K (JNum 3783)) (K (JNum 33))), Do (Call ''Umb'' [G ''Woe'', K (JNum 3784), K (JNum 3790), K (JNum (- 87))]), Do (Call ''Umb'' [G ''Woe'', K (JNum 3790), K (JNum 3792), K (JNum 33)]), Do (Call ''Umb'' [G ''Woe'', K (JNum 3792), K (JNum 3802), K (JNum (- 87))]), Do (Call ''Umb'' [G ''Woe'', K (JNum 3802), K (JNum 3864), K (JNum 33)]), Do (Call ''Umb'' [G ''Woe'', K (JNum 3864), K (JNum 3866), K (JNum (- 87))]), Do (Call ''Umb'' [G ''Woe'', K (JNum 3866), K (JNum 3872), K (JNum 33)]), Do (Call ''Umb'' [G ''Woe'', K (JNum 3872), K (JNum 3882), K (JNum (- 87))]), Do (Call ''Umb'' [G ''Woe'', K (JNum 3882), K (JNum 3893), K (JNum 33)]), Do (PutIdx (G ''Woe'') (K (JNum 3893)) (K (JNum (- 87)))), Do (PutIdx (G ''Woe'') (K (JNum 3894)) (K (JNum 33))), Do (PutIdx (G ''Woe'') (K (JNum 3895)) (K (JNum (- 87)))), Do (PutIdx (G ''Woe'') (K (JNum 3896)) (K (JNum 33))), Do (PutIdx (G ''Woe'') (K (JNum 3897)) (K (JNum (- 87)))), Do (Call ''Umb'' [G ''Woe'', K (JNum 3898), K (JNum 3902), K (JNum 33)]), Do (Call ''Umb'' [G ''Woe'', K (JNum 3902), K (JNum 3904), K (JNum (- 87))]), Do (Call ''Umb'' [G ''Woe'', K (JNum 3904), K (JNum 3912), K (JNum (- 19))]), Do (PutIdx (G ''Woe'') (K (JNum 3912)) (K (JNum 33))), Do (Call ''Umb'' [G ''Woe'', K (JNum 3913), K (JNum 3946), K (JNum (- 19))]), Do (Call ''Umb'' [G ''Woe'', K (JNum 3946), K (JNum 3953), K (JNum 33)]), Do (Call ''Umb'' [G ''Woe'', K (JNum 3953), K (JNum 3973), K (JNum (- 87))]), Do (PutIdx (G ''Woe'') (K (JNum 3973)) (K (JNum 33))), Do (Call ''Umb'' [G ''Woe'', K (JNum 3974), K (JNum 3980), K (JNum (- 87))]), Do (Call ''Umb'' [G ''Woe'', K (JNum 3980), K (JNum 3984), K (JNum 33)]), Do (Call ''Umb'' [G ''Woe'', K (JNum 3984), K (JNum 3990), K (JNum (- 87))]), Do (PutIdx (G ''Woe'') (K (JNum 3990)) (K (JNum 33))), Do (PutIdx (G ''Woe'') (K (JNum 3991)) (K (JNum (- 87)))), Do (PutIdx (G ''Woe'') (K (JNum 3992)) (K (JNum 33))), Do (Call ''Umb'' [G ''Woe'', K (JNum 3993), K (JNum 4014), K (JNum (- 87))]), Do (Call ''Umb'' [G ''Woe'', K (JNum 4014), K (JNum 4017), K (JNum 33)]), Do (Call ''Umb'' [G ''Woe'', K (JNum 4017), K (JNum 4024), K (JNum (- 87))]), Do (PutIdx (G ''Woe'') (K (JNum 4024)) (K (JNum 33))), Do (PutIdx (G ''Woe'') (K (JNum 4025)) (K (JNum (- 87)))), Do (Call ''Umb'' [G ''Woe'', K (JNum 4026), K (JNum 4256), K (JNum 33)]), Do (Call ''Umb'' [G ''Woe'', K (JNum 4256), K (JNum 4294), K (JNum (- 19))]), Do (Call ''Umb'' [G ''Woe'', K (JNum 4294), K (JNum 4304), K (JNum 33)]), Do (Call ''Umb'' [G ''Woe'', K (JNum 4304), K (JNum 4343), K (JNum (- 19))]), Do (Call ''Umb'' [G ''Woe'', K (JNum 4343), K (JNum 4352), K (JNum 33)]), Do (PutIdx (G ''Woe'') (K (JNum 4352)) (K (JNum (- 19)))), Do (PutIdx (G ''Woe'') (K (JNum 4353)) (K (JNum 33))), Do (Call ''Umb'' [G ''Woe'', K (JNum 4354), K (JNum 4356), K (JNum (- 19))]), Do (PutIdx (G ''Woe'') (K (JNum 4356)) (K (JNum 33))), Do (Call ''Umb'' [G ''Woe'', K (JNum 4357), K (JNum 4360), K (JNum (- 19))]), Do (PutIdx (G ''Woe'') (K (JNum 4360)) (K (JNum 33))), Do (PutIdx (G ''Woe'') (K (JNum 4361)) (K (JNum (- 19)))), Do (PutIdx (G ''Woe'') (K (JNum 4362)) (K (JNum 33))), Do (Call ''Umb'' [G ''Woe'', K (JNum 4363), K (JNum 4365), K (JNum (- 19))]), Do (PutIdx (G ''Woe'') (K (JNum 4365)) (K (JNum 33))), Do (Call ''Umb'' [G ''Woe'', K (JNum 4366), K (JNum 4371), K (JNum (- 19))]), Do (Call ''Umb'' [G ''Woe'', K (JNum 4371), K (JNum 4412), K (JNum 33)]), Do (PutIdx (G ''Woe'') (K (JNum 4412)) (K (JNum (- 19)))), Do (PutIdx (G ''Woe'') (K (JNum 4413)) (K (JNum 33))), Do (PutIdx (G ''Woe'') (K (JNum 4414)) (K (JNum (- 19)))), Do (PutIdx (G ''Woe'') (K (JNum 4415)) (K (JNum 33))), Do (PutIdx (G ''Woe'') (K (JNum 4416)) (K (JNum (- 19)))), Do (Call ''Umb'' [G ''Woe'', K (JNum 4417), K (JNum 4428), K (JNum 33)]), Do (PutIdx (G ''Woe'') (K (JNum 4428)) (K (JNum (- 19)))), Do (PutIdx (G ''Woe'') (K (JNum 4429)) (K (JNum 33))), Do (PutIdx (G ''Woe'') (K (JNum 4430)) (K (JNum (- 19)))), Do (PutIdx (G ''Woe'') (K (JNum 4431)) (K (JNum 33))), Do (PutIdx (G ''Woe'') (K (JNum 4432)) (K (JNum (- 19)))), Do (Call ''Umb'' [G ''Woe'', K (JNum 4433), K (JNum 4436), K (JNum 33)]), Do (Call ''Umb'' [G ''Woe'', K (JNum 4436), K (JNum 4438), K (JNum (- 19))]), Do (Call ''Umb'' [G ''Woe'', K (JNum 4438), K (JNum 4441), K (JNum 33)]), Do (PutIdx (G ''Woe'') (K (JNum 4441)) (K (JNum (- 19)))), Do (Call ''Umb'' [G ''Woe'', K (JNum 4442), K (JNum 4447), K (JNum 33)]), Do (Call ''Umb'' [G ''Woe'', K (JNum 4447), K (JNum 4450), K (JNum (- 19))]), Do (PutIdx (G ''Woe'') (K (JNum 4450)) (K (JNum 33))), Do (PutIdx (G ''Woe'') (K (JNum 4451)) (K (JNum (- 19)))), Do (PutIdx (G ''Woe'') (K (JNum 4452)) (K (JNum 33))), Do (PutIdx (G ''Woe'') (K (JNum 4453)) (K (JNum (- 19)))), Do (PutIdx (G ''Woe'') (K (JNum 4454)) (K (JNum 33))), Do (PutIdx (G ''Woe'') (K (JNum 4455)) (K (JNum (- 19)))), Do (PutIdx (G ''Woe'') (K (JNum 4456)) (K (JNum 33))), Do (PutIdx (G ''Woe'') (K (JNum 4457)) (K (JNum (- 19)))), Do (Call ''Umb'' [G ''Woe'', K (JNum 4458), K (JNum 4461), K (JNum 33)]), Do (Call ''Umb'' [G ''Woe'', K (JNum 4461), K (JNum 4463), K (JNum (- 19))]), Do (Call ''Umb'' [G ''Woe'', K (JNum 4463), K (JNum 4466), K (JNum 33)]), Do (Call ''Umb'' [G ''Woe'', K (JNum 4466), K (JNum 4468), K (JNum (- 19))]), Do (PutIdx (G ''Woe'') (K (JNum 4468)) (K (JNum 33))), Do (PutIdx (G ''Woe'') (K (JNum 4469)) (K (JNum (- 19)))), Do (Call ''Umb'' [G ''Woe'', K (JNum 4470), K (JNum 4510), K (JNum 33)]), Do (PutIdx (G ''Woe'') (K (JNum 4510)) (K (JNum (- 19)))), Do (Call ''Umb'' [G ''Woe'', K (JNum 4511), K (JNum 4520), K (JNum 33)]), Do (PutIdx (G ''Woe'') (K (JNum 4520)) (K (JNum (- 19)))), Do (Call ''Umb'' [G ''Woe'', K (JNum 4521), K (JNum 4523), K (JNum 33)]), Do (PutIdx (G ''Woe'') (K (JNum 4523)) (K (JNum (- 19)))), Do (Call ''Umb'' [G ''Woe'', K (JNum 4524), K (JNum 4526), K (JNum 33)]), Do (Call ''Umb'' [G ''Woe'', K (JNum 4526), K (JNum 4528), K (JNum (- 19))]), Do (Call ''Umb'' [G ''Woe'', K (JNum 4528), K (JNum 4535), K (JNum 33)]), Do (Call ''Umb'' [G ''Woe'', K (JNum 4535), K (JNum 4537), K (JNum (- 19))]), Do (PutIdx (G ''Woe'') (K (JNum 4537)) (K (JNum 33))), Do (PutIdx (G ''Woe'') (K (JNum 4538)) (K (JNum (- 19)))), Do (PutIdx (G ''Woe'') (K (JNum 4539)) (K (JNum 33))), Do (Call ''Umb'' [G ''Woe'', K (JNum 4540), K (JNum 4547), K (JNum (- 19))]), Do (Call ''Umb'' [G ''Woe'', K (JNum 4547), K (JNum 4587), K (JNum 33)]), Do (PutIdx (G ''Woe'') (K (JNum 4587)) (K (JNum (- 19)))), Do (Call ''Umb'' [G ''Woe'', K (JNum 4588), K (JNum 4592), K (JNum 33)]), Do (PutIdx (G ''Woe'') (K (JNum 4592)) (K (JNum (- 19)))), Do (Call ''Umb'' [G ''Woe'', K (JNum 4593), K (JNum 4601), K (JNum 33)]), Do (PutIdx (G ''Woe'') (K (JNum 4601)) (K (JNum (- 19)))), Do (Call ''Umb'' [G ''Woe'', K (JNum 4602), K (JNum 7680), K (JNum 33)]), Do (Call ''Umb'' [G ''Woe'', K (JNum 7680), K (JNum 7836), K (JNum (- 19))]), Do (Call ''Umb'' [G ''Woe'', K (JNum 7836), K (JNum 7840), K (JNum 33)]), Do (Call ''Umb'' [G ''Woe'', K (JNum 7840), K (JNum 7930), K (JNum (- 19))]), Do (Call ''Umb'' [G ''Woe'', K (JNum 7930), K (JNum 7936), K (JNum 33)]), Do (Call ''Umb'' [G ''Woe'', K (JNum 7936), K (JNum 7958), K (JNum (- 19))]), Do (Call ''Umb'' [G ''Woe'', K (JNum 7958), K (JNum 7960), K (JNum 33)]), Do (Call ''Umb'' [G ''Woe'', K (JNum 7960), K (JNum 7966), K (JNum (- 19))]), Do (Call ''Umb'' [G ''Woe'', K (JNum 7966), K (JNum 7968), K (JNum 33)]), Do (Call ''Umb'' [G ''Woe'', K (JNum 7968), K (JNum 8006), K (JNum (- 19))]), Do (Call ''Umb'' [G ''Woe'', K (JNum 8006), K (JNum 8008), K (JNum 33)]), Do (Call ''Umb'' [G ''Woe'', K (JNum 8008), K (JNum 8014), K (JNum (- 19))]), Do (Call ''Umb'' [G ''Woe'', K (JNum 8014), K (JNum 8016), K (JNum 33)]), Do (Call ''Umb'' [G ''Woe'', K (JNum 8016), K (JNum 8024), K (JNum (- 19))]), Do (PutIdx (G ''Woe'') (K (JNum 8024)) (K (JNum 33))), Do (PutIdx (G ''Woe'') (K (JNum 8025)) (K (JNum (- 19)))), Do (PutIdx (G ''Woe'') (K (JNum 8026)) (K (JNum 33))), Do (PutIdx (G ''Woe'') (K (JNum 8027)) (K (JNum (- 19)))), Do (PutIdx (G ''Woe'') (K (JNum 8028)) (K (JNum 33))), Do (PutIdx (G ''Woe'') (K (JNum 8029)) (K (JNum (- 19)))), Do (PutIdx (G ''Woe'') (K (JNum 8030)) (K (JNum 33))), Do (Call ''Umb'' [G ''Woe'', K (JNum 8031), K (JNum 8062), K (JNum (- 19))]), Do (Call ''Umb'' [G ''Woe'', K (JNum 8062), K (JNum 8064), K (JNum 33)]), Do (Call ''Umb'' [G ''Woe'', K (JNum 8064), K (JNum 8117), K (JNum (- 19))]), Do (PutIdx (G ''Woe'') (K (JNum 8117)) (K (JNum 33))), Do (Call ''Umb'' [G ''Woe'', K (JNum 8118), K (JNum 8125), K (JNum (- 19))]), Do (PutIdx (G ''Woe'') (K (JNum 8125)) (K (JNum 33))), Do (PutIdx (G ''Woe'') (K (JNum 8126)) (K (JNum (- 19)))), Do (Call ''Umb'' [G ''Woe'', K (JNum 8127), K (JNum 8130), K (JNum 33)]), Do (Call ''Umb'' [G ''Woe'', K (JNum 8130), K (JNum 8133), K (JNum (- 19))]), Do (PutIdx (G ''Woe'') (K (JNum 8133)) (K (JNum 33))), Do (Call ''Umb'' [G ''Woe'', K (JNum 8134), K (JNum 8141), K (JNum (- 19))]), Do (Call ''Umb'' [G ''Woe'', K (JNum 8141), K (JNum 8144), K (JNum 33)]), Do (Call ''Umb'' [G ''Woe'', K (JNum 8144), K (JNum 8148), K (JNum (- 19))]), Do (Call ''Umb'' [G ''Woe'', K (JNum 8148), K (JNum 8150), K (JNum 33)]), Do (Call ''Umb'' [G ''Woe'', K (JNum 8150), K (JNum 8156), K (JNum (- 19))]), Do (Call ''Umb'' [G ''Woe'', K (JNum 8156), K (JNum 8160), K (JNum 33)]), Do (Call ''Umb'' [G ''Woe'', K (JNum 8160), K (JNum 8173), K (JNum (- 19))]), Do (Call ''Umb'' [G ''Woe'', K (JNum 8173), K (JNum 8178), K (JNum 33)]), Do (Call ''Umb'' [G ''Woe'', K (JNum 8178), K (JNum 8181), K (JNum (- 19))]), Do (PutIdx (G ''Woe'') (K (JNum 8181)) (K (JNum 33))), Do (Call ''Umb'' [G ''Woe'', K (JNum 8182), K (JNum 8189), K (JNum (- 19))]), Do (Call ''Umb'' [G ''Woe'', K (JNum 8189), K (JNum 8400), K (JNum 33)]), Do (Call ''Umb'' [G ''Woe'', K (JNum 8400), K (JNum 8413), K (JNum (- 87))]), Do (Call ''Umb'' [G ''Woe'', K (JNum 8413), K (JNum 8417), K (JNum 33)]), Do (PutIdx (G ''Woe'') (K (JNum 8417)) (K (JNum (- 87)))), Do (Call ''Umb'' [G ''Woe'', K (JNum 8418), K (JNum 8486), K (JNum 33)]), Do (PutIdx (G ''Woe'') (K (JNum 8486)) (K (JNum (- 19)))), Do (Call ''Umb'' [G ''Woe'', K (JNum 8487), K (JNum 8490), K (JNum 33)]), Do (Call ''Umb'' [G ''Woe'', K (JNum 8490), K (JNum 8492), K (JNum (- 19))]), Do (Call ''Umb'' [G ''Woe'', K (JNum 8492), K (JNum 8494), K (JNum 33)]), Do (PutIdx (G ''Woe'') (K (JNum 8494)) (K (JNum (- 19)))), Do (Call ''Umb'' [G ''Woe'', K (JNum 8495), K (JNum 8576), K (JNum 33)]), Do (Call ''Umb'' [G ''Woe'', K (JNum 8576), K (JNum 8579), K (JNum (- 19))]), Do (Call ''Umb'' [G ''Woe'', K (JNum 8579), K (JNum 12293), K (JNum 33)]), Do (PutIdx (G ''Woe'') (K (JNum 12293)) (K (JNum (- 87)))), Do (PutIdx (G ''Woe'') (K (JNum 12294)) (K (JNum 33))), Do (PutIdx (G ''Woe'') (K (JNum 12295)) (K (JNum (- 19)))), Do (Call ''Umb'' [G ''Woe'', K (JNum 12296), K (JNum 12321), K (JNum 33)]), Do (Call ''Umb'' [G ''Woe'', K (JNum 12321), K (JNum 12330), K (JNum (- 19))]), Do (Call ''Umb'' [G ''Woe'', K (JNum 12330), K (JNum 12336), K (JNum (- 87))]), Do (PutIdx (G ''Woe'') (K (JNum 12336)) (K (JNum 33))), Do (Call ''Umb'' [G ''Woe'', K (JNum 12337), K (JNum 12342), K (JNum (- 87))]), Do (Call ''Umb'' [G ''Woe'', K (JNum 12342), K (JNum 12353), K (JNum 33)]), Do (Call ''Umb'' [G ''Woe'', K (JNum 12353), K (JNum 12437), K (JNum (- 19))]), Do (Call ''Umb'' [G ''Woe'', K (JNum 12437), K (JNum 12441), K (JNum 33)]), Do (Call ''Umb'' [G ''Woe'', K (JNum 12441), K (JNum 12443), K (JNum (- 87))]), Do (Call ''Umb'' [G ''Woe'', K (JNum 12443), K (JNum 12445), K (JNum 33)]), Do (Call ''Umb'' [G ''Woe'', K (JNum 12445), K (JNum 12447), K (JNum (- 87))]), Do (Call ''Umb'' [G ''Woe'', K (JNum 12447), K (JNum 12449), K (JNum 33)]), Do (Call ''Umb'' [G ''Woe'', K (JNum 12449), K (JNum 12539), K (JNum (- 19))]), Do (PutIdx (G ''Woe'') (K (JNum 12539)) (K (JNum 33))), Do (Call ''Umb'' [G ''Woe'', K (JNum 12540), K (JNum 12543), K (JNum (- 87))]), Do (Call ''Umb'' [G ''Woe'', K (JNum 12543), K (JNum 12549), K (JNum 33)]), Do (Call ''Umb'' [G ''Woe'', K (JNum 12549), K (JNum 12589), K (JNum (- 19))]), Do (Call ''Umb'' [G ''Woe'', K (JNum 12589), K (JNum 19968), K (JNum 33)]), Do (Call ''Umb'' [G ''Woe'', K (JNum 19968), K (JNum 40870), K (JNum (- 19))]), Do (Call ''Umb'' [G ''Woe'', K (JNum 40870), K (JNum 44032), K (JNum 33)]), Do (Call ''Umb'' [G ''Woe'', K (JNum 44032), K (JNum 55204), K (JNum (- 19))]), Do (Call ''Umb'' [G ''Woe'', K (JNum 55204), G ''Ive'', K (JNum 33)]), Do (Call ''Umb'' [G ''Woe'', K (JNum 57344), K (JNum 65534), K (JNum 33)])]]"

definition object_table36 :: "(string \<times> jfun) list" where
  "object_table36 = code_6305_6305 @ code_6306_6306 @ code_6307_6307 @ code_6312_6312 @ code_6313_6313"

text \<open>The names each table declares.\<close>

lemma names_6305_6305 [js_names]: "map fst code_6305_6305 = [
    ''WRd'']"
  by (simp add: code_6305_6305_def fn_def)

lemma names_6306_6306 [js_names]: "map fst code_6306_6306 = [
    ''Nle'']"
  by (simp add: code_6306_6306_def fn_def)

lemma names_6307_6307 [js_names]: "map fst code_6307_6307 = [
    ''Abd'']"
  by (simp add: code_6307_6307_def fn_def)

lemma names_6312_6312 [js_names]: "map fst code_6312_6312 = [
    ''uzd'']"
  by (simp add: code_6312_6312_def fn_def)

lemma names_6313_6313 [js_names]: "map fst code_6313_6313 = [
    ''Xoe'']"
  by (simp add: code_6313_6313_def fn_def)

end
