(* ===== verification/ObjectTable37.thy ===== *)
theory ObjectTable37
  imports ObjectCode
begin

text \<open>
  Functions of \<open>layout-worker.js\<close>, lines 6314 to 6314, in the order of the file, one per line:
  the algorithms of the layout engine, longer operations of the runtime's collections and of options,
  with their loops, \<open>switch\<close> and \<open>try\<close> statements. An entry has the name, the
  number of parameters, the number of further local variables and the body; parameters and locals
  are numbered from 0, the variable of a \<open>catch\<close> has a number of its own, \<open>x++\<close> is \<open>(x=x+1)-1\<close>. Lines
  with a construct outside \<open>jexp\<close> and \<open>jstm\<close> (closures, \<open>in\<close>, floating-point literals, host objects) are
  left out.
\<close>

definition code_6314_6314 :: "(string \<times> jfun) list" where
  "code_6314_6314 = [
    fn ''k9d'' 1 7 [When (Dot (V 0) ''hb'') [Ret (K JUndef)] [], Do (Put (V 0) ''hb'' (K (JBool True))), Do (Call ''jyd'' [V 0, K (JStr ''ecore'')]), Do (Call ''Yyd'' [V 0, K (JStr ''ecore'')]), Do (Call ''Zyd'' [V 0, G ''LIe'']), Do (Call ''Ayd'' [Dot (V 0) ''fb'', K (JStr ''E'')]), Do (Call ''Ayd'' [Dot (V 0) ''L'', K (JStr ''T'')]), Do (Call ''Ayd'' [Dot (V 0) ''P'', K (JStr ''K'')]), Do (Call ''Ayd'' [Dot (V 0) ''P'', K (JStr ''V'')]), Do (Call ''Ayd'' [Dot (V 0) ''cb'', K (JStr ''E'')]), Do (Call ''lFd'' [Call ''MWd'' [Dot (V 0) ''b''], Dot (V 0) ''bb'']), Do (Call ''lFd'' [Call ''MWd'' [Dot (V 0) ''a''], Dot (V 0) ''Q'']), Do (Call ''lFd'' [Call ''MWd'' [Dot (V 0) ''o''], Dot (V 0) ''p'']), Do (Call ''lFd'' [Call ''MWd'' [Dot (V 0) ''p''], Dot (V 0) ''R'']), Do (Call ''lFd'' [Call ''MWd'' [Dot (V 0) ''q''], Dot (V 0) ''p'']), Do (Call ''lFd'' [Call ''MWd'' [Dot (V 0) ''v''], Dot (V 0) ''q'']), Do (Call ''lFd'' [Call ''MWd'' [Dot (V 0) ''w''], Dot (V 0) ''R'']), Do (Call ''lFd'' [Call ''MWd'' [Dot (V 0) ''B''], Dot (V 0) ''Q'']), Do (Call ''lFd'' [Call ''MWd'' [Dot (V 0) ''R''], Dot (V 0) ''Q'']), Do (Call ''lFd'' [Call ''MWd'' [Dot (V 0) ''T''], Dot (V 0) ''eb'']), Do (Call ''lFd'' [Call ''MWd'' [Dot (V 0) ''U''], Dot (V 0) ''R'']), Do (Call ''lFd'' [Call ''MWd'' [Dot (V 0) ''V''], Dot (V 0) ''eb'']), Do (Call ''lFd'' [Call ''MWd'' [Dot (V 0) ''W''], Dot (V 0) ''bb'']), Do (Call ''lFd'' [Call ''MWd'' [Dot (V 0) ''bb''], Dot (V 0) ''eb'']), Do (Call ''lFd'' [Call ''MWd'' [Dot (V 0) ''eb''], Dot (V 0) ''R'']), Do (Call ''lFd'' [Call ''MWd'' [Dot (V 0) ''db''], Dot (V 0) ''R'']), Do (Call ''Ryd'' [Dot (V 0) ''b'', G ''r6'', G ''aIe'', K (JBool False), K (JBool False), K (JBool True)]), Do (Call ''Pyd'' [Call ''JD'' [Call ''fGd'' [Call ''KWd'' [Dot (V 0) ''b''], K (JNum 0)], K (JNum 38)], Dot (V 0) ''e'', K (JStr ''iD''), K JNull, K (JNum 0), K (JNum 1), G ''r6'', K (JBool False), K (JBool False), K (JBool True), K (JBool False), K (JBool True), K (JBool False)]), Do (Call ''Vyd'' [Call ''JD'' [Call ''fGd'' [Call ''KWd'' [Dot (V 0) ''b''], K (JNum 1)], K (JNum 19)], Dot (V 0) ''q'', K JNull, K (JStr ''eAttributeType''), K (JNum 1), K (JNum 1), G ''r6'', K (JBool True), K (JBool True), K (JBool False), K (JBool False), K (JBool True), K (JBool False), K (JBool True)]), Do (Call ''Ryd'' [Dot (V 0) ''a'', G ''q6'', G ''ZHe'', K (JBool False), K (JBool False), K (JBool True)]), Do (Call ''Pyd'' [Call ''JD'' [Call ''fGd'' [Call ''KWd'' [Dot (V 0) ''a''], K (JNum 0)], K (JNum 38)], Dot (V 0) ''_'', G ''mGe'', K JNull, K (JNum 0), K (JNum 1), G ''q6'', K (JBool False), K (JBool False), K (JBool True), K (JBool False), K (JBool True), K (JBool False)]), Do (Call ''Vyd'' [Call ''JD'' [Call ''fGd'' [Call ''KWd'' [Dot (V 0) ''a''], K (JNum 1)], K (JNum 19)], Dot (V 0) ''ab'', K JNull, K (JStr ''details''), K (JNum 0), K (JNum (- 1)), G ''q6'', K (JBool False), K (JBool False), K (JBool True), K (JBool True), K (JBool False), K (JBool False), K (JBool False)]), Do (Call ''Vyd'' [Call ''JD'' [Call ''fGd'' [Call ''KWd'' [Dot (V 0) ''a''], K (JNum 2)], K (JNum 19)], Dot (V 0) ''Q'', Call ''JD'' [Call ''fGd'' [Call ''KWd'' [Dot (V 0) ''Q''], K (JNum 0)], K (JNum 19)], K (JStr ''eModelElement''), K (JNum 0), K (JNum 1), G ''q6'', K (JBool True), K (JBool False), K (JBool True), K (JBool False), K (JBool False), K (JBool False), K (JBool False)]), Do (Call ''Vyd'' [Call ''JD'' [Call ''fGd'' [Call ''KWd'' [Dot (V 0) ''a''], K (JNum 3)], K (JNum 19)], Dot (V 0) ''S'', K JNull, K (JStr ''contents''), K (JNum 0), K (JNum (- 1)), G ''q6'', K (JBool False), K (JBool False), K (JBool True), K (JBool True), K (JBool False), K (JBool False), K (JBool False)]), Do (Call ''Vyd'' [Call ''JD'' [Call ''fGd'' [Call ''KWd'' [Dot (V 0) ''a''], K (JNum 4)], K (JNum 19)], Dot (V 0) ''S'', K JNull, K (JStr ''references''), K (JNum 0), K (JNum (- 1)), G ''q6'', K (JBool False), K (JBool False), K (JBool True), K (JBool False), K (JBool True), K (JBool False), K (JBool False)]), Do (Call ''Ryd'' [Dot (V 0) ''o'', G ''s6'', K (JStr ''EClass''), K (JBool False), K (JBool False), K (JBool True)]), Do (Call ''Pyd'' [Call ''JD'' [Call ''fGd'' [Call ''KWd'' [Dot (V 0) ''o''], K (JNum 0)], K (JNum 38)], Dot (V 0) ''e'', K (JStr ''abstract''), K JNull, K (JNum 0), K (JNum 1), G ''s6'', K (JBool False), K (JBool False), K (JBool True), K (JBool False), K (JBool True), K (JBool False)]), Do (Call ''Pyd'' [Call ''JD'' [Call ''fGd'' [Call ''KWd'' [Dot (V 0) ''o''], K (JNum 1)], K (JNum 38)], Dot (V 0) ''e'', K (JStr ''interface''), K JNull, K (JNum 0), K (JNum 1), G ''s6'', K (JBool False), K (JBool False), K (JBool True), K (JBool False), K (JBool True), K (JBool False)]), Do (Call ''Vyd'' [Call ''JD'' [Call ''fGd'' [Call ''KWd'' [Dot (V 0) ''o''], K (JNum 2)], K (JNum 19)], Dot (V 0) ''o'', K JNull, K (JStr ''eSuperTypes''), K (JNum 0), K (JNum (- 1)), G ''s6'', K (JBool False), K (JBool False), K (JBool True), K (JBool False), K (JBool True), K (JBool True), K (JBool False)]), Do (Call ''Vyd'' [Call ''JD'' [Call ''fGd'' [Call ''KWd'' [Dot (V 0) ''o''], K (JNum 3)], K (JNum 19)], Dot (V 0) ''T'', Call ''JD'' [Call ''fGd'' [Call ''KWd'' [Dot (V 0) ''T''], K (JNum 0)], K (JNum 19)], K (JStr ''eOperations''), K (JNum 0), K (JNum (- 1)), G ''s6'', K (JBool False), K (JBool False), K (JBool True), K (JBool True), K (JBool False), K (JBool False), K (JBool False)]), Do (Call ''Vyd'' [Call ''JD'' [Call ''fGd'' [Call ''KWd'' [Dot (V 0) ''o''], K (JNum 4)], K (JNum 19)], Dot (V 0) ''b'', K JNull, K (JStr ''eAllAttributes''), K (JNum 0), K (JNum (- 1)), G ''s6'', K (JBool True), K (JBool True), K (JBool False), K (JBool False), K (JBool True), K (JBool False), K (JBool True)]), Do (Call ''Vyd'' [Call ''JD'' [Call ''fGd'' [Call ''KWd'' [Dot (V 0) ''o''], K (JNum 5)], K (JNum 19)], Dot (V 0) ''W'', K JNull, K (JStr ''eAllReferences''), K (JNum 0), K (JNum (- 1)), G ''s6'', K (JBool True), K (JBool True), K (JBool False), K (JBool False), K (JBool True), K (JBool False), K (JBool True)]), Do (Call ''Vyd'' [Call ''JD'' [Call ''fGd'' [Call ''KWd'' [Dot (V 0) ''o''], K (JNum 6)], K (JNum 19)], Dot (V 0) ''W'', K JNull, K (JStr ''eReferences''), K (JNum 0), K (JNum (- 1)), G ''s6'', K (JBool True), K (JBool True), K (JBool False), K (JBool False), K (JBool True), K (JBool False), K (JBool True)]), Do (Call ''Vyd'' [Call ''JD'' [Call ''fGd'' [Call ''KWd'' [Dot (V 0) ''o''], K (JNum 7)], K (JNum 19)], Dot (V 0) ''b'', K JNull, K (JStr ''eAttributes''), K (JNum 0), K (JNum (- 1)), G ''s6'', K (JBool True), K (JBool True), K (JBool False), K (JBool False), K (JBool True), K (JBool False), K (JBool True)]), Do (Call ''Vyd'' [Call ''JD'' [Call ''fGd'' [Call ''KWd'' [Dot (V 0) ''o''], K (JNum 8)], K (JNum 19)], Dot (V 0) ''W'', K JNull, K (JStr ''eAllContainments''), K (JNum 0), K (JNum (- 1)), G ''s6'', K (JBool True), K (JBool True), K (JBool False), K (JBool False), K (JBool True), K (JBool False), K (JBool True)]), Do (Call ''Vyd'' [Call ''JD'' [Call ''fGd'' [Call ''KWd'' [Dot (V 0) ''o''], K (JNum 9)], K (JNum 19)], Dot (V 0) ''T'', K JNull, K (JStr ''eAllOperations''), K (JNum 0), K (JNum (- 1)), G ''s6'', K (JBool True), K (JBool True), K (JBool False), K (JBool False), K (JBool True), K (JBool False), K (JBool True)]), Do (Call ''Vyd'' [Call ''JD'' [Call ''fGd'' [Call ''KWd'' [Dot (V 0) ''o''], K (JNum 10)], K (JNum 19)], Dot (V 0) ''bb'', K JNull, K (JStr ''eAllStructuralFeatures''), K (JNum 0), K (JNum (- 1)), G ''s6'', K (JBool True), K (JBool True), K (JBool False), K (JBool False), K (JBool True), K (JBool False), K (JBool True)]), Do (Call ''Vyd'' [Call ''JD'' [Call ''fGd'' [Call ''KWd'' [Dot (V 0) ''o''], K (JNum 11)], K (JNum 19)], Dot (V 0) ''o'', K JNull, K (JStr ''eAllSuperTypes''), K (JNum 0), K (JNum (- 1)), G ''s6'', K (JBool True), K (JBool True), K (JBool False), K (JBool False), K (JBool True), K (JBool False), K (JBool True)]), Do (Call ''Vyd'' [Call ''JD'' [Call ''fGd'' [Call ''KWd'' [Dot (V 0) ''o''], K (JNum 12)], K (JNum 19)], Dot (V 0) ''b'', K JNull, K (JStr ''eIDAttribute''), K (JNum 0), K (JNum 1), G ''s6'', K (JBool True), K (JBool True), K (JBool False), K (JBool False), K (JBool False), K (JBool False), K (JBool True)]), Do (Call ''Vyd'' [Call ''JD'' [Call ''fGd'' [Call ''KWd'' [Dot (V 0) ''o''], K (JNum 13)], K (JNum 19)], Dot (V 0) ''bb'', Call ''JD'' [Call ''fGd'' [Call ''KWd'' [Dot (V 0) ''bb''], K (JNum 7)], K (JNum 19)], K (JStr ''eStructuralFeatures''), K (JNum 0), K (JNum (- 1)), G ''s6'', K (JBool False), K (JBool False), K (JBool True), K (JBool True), K (JBool False), K (JBool False), K (JBool False)]), Do (Call ''Vyd'' [Call ''JD'' [Call ''fGd'' [Call ''KWd'' [Dot (V 0) ''o''], K (JNum 14)], K (JNum 19)], Dot (V 0) ''H'', K JNull, K (JStr ''eGenericSuperTypes''), K (JNum 0), K (JNum (- 1)), G ''s6'', K (JBool False), K (JBool False), K (JBool True), K (JBool True), K (JBool False), K (JBool True), K (JBool False)]), Do (Call ''Vyd'' [Call ''JD'' [Call ''fGd'' [Call ''KWd'' [Dot (V 0) ''o''], K (JNum 15)], K (JNum 19)], Dot (V 0) ''H'', K JNull, K (JStr ''eAllGenericSuperTypes''), K (JNum 0), K (JNum (- 1)), G ''s6'', K (JBool True), K (JBool True), K (JBool False), K (JBool False), K (JBool True), K (JBool False), K (JBool True)]), Do (SetV 7 (Call ''Uyd'' [Call ''JD'' [Call ''fGd'' [Call ''HWd'' [Dot (V 0) ''o''], K (JNum 0)], K (JNum 62)], Dot (V 0) ''e'', K (JStr ''isSuperTypeOf'')])), Do (Call ''yyd'' [V 7, Dot (V 0) ''o'', K (JStr ''someClass'')]), Do (Call ''Uyd'' [Call ''JD'' [Call ''fGd'' [Call ''HWd'' [Dot (V 0) ''o''], K (JNum 1)], K (JNum 62)], Dot (V 0) ''I'', K (JStr ''getFeatureCount'')]), Do (SetV 7 (Call ''Uyd'' [Call ''JD'' [Call ''fGd'' [Call ''HWd'' [Dot (V 0) ''o''], K (JNum 2)], K (JNum 62)], Dot (V 0) ''bb'', G ''PIe''])), Do (Call ''yyd'' [V 7, Dot (V 0) ''I'', K (JStr ''featureID'')]), Do (SetV 7 (Call ''Uyd'' [Call ''JD'' [Call ''fGd'' [Call ''HWd'' [Dot (V 0) ''o''], K (JNum 3)], K (JNum 62)], Dot (V 0) ''I'', G ''QIe''])), Do (Call ''yyd'' [V 7, Dot (V 0) ''bb'', G ''RIe'']), Do (SetV 7 (Call ''Uyd'' [Call ''JD'' [Call ''fGd'' [Call ''HWd'' [Dot (V 0) ''o''], K (JNum 4)], K (JNum 62)], Dot (V 0) ''bb'', G ''PIe''])), Do (Call ''yyd'' [V 7, Dot (V 0) ''_'', K (JStr ''featureName'')]), Do (Call ''Uyd'' [Call ''JD'' [Call ''fGd'' [Call ''HWd'' [Dot (V 0) ''o''], K (JNum 5)], K (JNum 62)], Dot (V 0) ''I'', K (JStr ''getOperationCount'')]), Do (SetV 7 (Call ''Uyd'' [Call ''JD'' [Call ''fGd'' [Call ''HWd'' [Dot (V 0) ''o''], K (JNum 6)], K (JNum 62)], Dot (V 0) ''T'', K (JStr ''getEOperation'')])), Do (Call ''yyd'' [V 7, Dot (V 0) ''I'', K (JStr ''operationID'')]), Do (SetV 7 (Call ''Uyd'' [Call ''JD'' [Call ''fGd'' [Call ''HWd'' [Dot (V 0) ''o''], K (JNum 7)], K (JNum 62)], Dot (V 0) ''I'', G ''SIe''])), Do (Call ''yyd'' [V 7, Dot (V 0) ''T'', G ''TIe'']), Do (SetV 7 (Call ''Uyd'' [Call ''JD'' [Call ''fGd'' [Call ''HWd'' [Dot (V 0) ''o''], K (JNum 8)], K (JNum 62)], Dot (V 0) ''T'', K (JStr ''getOverride'')])), Do (Call ''yyd'' [V 7, Dot (V 0) ''T'', G ''TIe'']), Do (SetV 7 (Call ''Uyd'' [Call ''JD'' [Call ''fGd'' [Call ''HWd'' [Dot (V 0) ''o''], K (JNum 9)], K (JNum 62)], Dot (V 0) ''H'', K (JStr ''getFeatureType'')])), Do (Call ''yyd'' [V 7, Dot (V 0) ''bb'', G ''RIe'']), Do (Call ''Ryd'' [Dot (V 0) ''p'', G ''t6'', G ''bIe'', K (JBool True), K (JBool False), K (JBool True)]), Do (Call ''Pyd'' [Call ''JD'' [Call ''fGd'' [Call ''KWd'' [Dot (V 0) ''p''], K (JNum 0)], K (JNum 38)], Dot (V 0) ''_'', K (JStr ''instanceClassName''), K JNull, K (JNum 0), K (JNum 1), G ''t6'', K (JBool False), K (JBool True), K (JBool True), K (JBool True), K (JBool True), K (JBool False)]), Do (SetV 1 (Call ''Hyd'' [Dot (V 0) ''L''])), Do (SetV 2 (Call ''g9d'' [])), Do (Call ''lFd'' [Seq (And (Neg (Dot (V 1) ''d'')) (Put (V 1) ''d'' (New ''iYd'' [G ''z6'', V 1, K (JNum 1)]))) (Dot (V 1) ''d''), V 2]), Do (Call ''Qyd'' [Call ''JD'' [Call ''fGd'' [Call ''KWd'' [Dot (V 0) ''p''], K (JNum 1)], K (JNum 38)], V 1, K (JStr ''instanceClass''), G ''t6'', K (JBool True), K (JBool True), K (JBool False), K (JBool True)]), Do (Call ''Pyd'' [Call ''JD'' [Call ''fGd'' [Call ''KWd'' [Dot (V 0) ''p''], K (JNum 2)], K (JNum 38)], Dot (V 0) ''M'', G ''UIe'', K JNull, K (JNum 0), K (JNum 1), G ''t6'', K (JBool True), K (JBool True), K (JBool False), K (JBool False), K (JBool True), K (JBool True)]), Do (Call ''Pyd'' [Call ''JD'' [Call ''fGd'' [Call ''KWd'' [Dot (V 0) ''p''], K (JNum 3)], K (JNum 38)], Dot (V 0) ''_'', K (JStr ''instanceTypeName''), K JNull, K (JNum 0), K (JNum 1), G ''t6'', K (JBool False), K (JBool True), K (JBool True), K (JBool True), K (JBool True), K (JBool False)]), Do (Call ''Vyd'' [Call ''JD'' [Call ''fGd'' [Call ''KWd'' [Dot (V 0) ''p''], K (JNum 4)], K (JNum 19)], Dot (V 0) ''U'', Call ''JD'' [Call ''fGd'' [Call ''KWd'' [Dot (V 0) ''U''], K (JNum 3)], K (JNum 19)], K (JStr ''ePackage''), K (JNum 0), K (JNum 1), G ''t6'', K (JBool True), K (JBool False), K (JBool False), K (JBool False), K (JBool True), K (JBool False), K (JBool False)]), Do (Call ''Vyd'' [Call ''JD'' [Call ''fGd'' [Call ''KWd'' [Dot (V 0) ''p''], K (JNum 5)], K (JNum 19)], Dot (V 0) ''db'', K JNull, G ''VIe'', K (JNum 0), K (JNum (- 1)), G ''t6'', K (JBool False), K (JBool False), K (JBool True), K (JBool True), K (JBool True), K (JBool False), K (JBool False)]), Do (SetV 7 (Call ''Uyd'' [Call ''JD'' [Call ''fGd'' [Call ''HWd'' [Dot (V 0) ''p''], K (JNum 0)], K (JNum 62)], Dot (V 0) ''e'', G ''WIe''])), Do (Call ''yyd'' [V 7, Dot (V 0) ''M'', G ''vte'']), Do (Call ''Uyd'' [Call ''JD'' [Call ''fGd'' [Call ''HWd'' [Dot (V 0) ''p''], K (JNum 1)], K (JNum 62)], Dot (V 0) ''I'', K (JStr ''getClassifierID'')]), Do (Call ''Ryd'' [Dot (V 0) ''q'', G ''v6'', K (JStr ''EDataType''), K (JBool False), K (JBool False), K (JBool True)]), Do (Call ''Pyd'' [Call ''JD'' [Call ''fGd'' [Call ''KWd'' [Dot (V 0) ''q''], K (JNum 0)], K (JNum 38)], Dot (V 0) ''e'', K (JStr ''serializable''), G ''JEe'', K (JNum 0), K (JNum 1), G ''v6'', K (JBool False), K (JBool False), K (JBool True), K (JBool False), K (JBool True), K (JBool False)]), Do (Call ''Ryd'' [Dot (V 0) ''v'', G ''x6'', K (JStr ''EEnum''), K (JBool False), K (JBool False), K (JBool True)]), Do (Call ''Vyd'' [Call ''JD'' [Call ''fGd'' [Call ''KWd'' [Dot (V 0) ''v''], K (JNum 0)], K (JNum 19)], Dot (V 0) ''w'', Call ''JD'' [Call ''fGd'' [Call ''KWd'' [Dot (V 0) ''w''], K (JNum 3)], K (JNum 19)], K (JStr ''eLiterals''), K (JNum 0), K (JNum (- 1)), G ''x6'', K (JBool False), K (JBool False), K (JBool True), K (JBool True), K (JBool False), K (JBool False), K (JBool False)]), Do (SetV 7 (Call ''Uyd'' [Call ''JD'' [Call ''fGd'' [Call ''HWd'' [Dot (V 0) ''v''], K (JNum 0)], K (JNum 62)], Dot (V 0) ''w'', G ''XIe''])), Do (Call ''yyd'' [V 7, Dot (V 0) ''_'', G ''RGe'']), Do (SetV 7 (Call ''Uyd'' [Call ''JD'' [Call ''fGd'' [Call ''HWd'' [Dot (V 0) ''v''], K (JNum 1)], K (JNum 62)], Dot (V 0) ''w'', G ''XIe''])), Do (Call ''yyd'' [V 7, Dot (V 0) ''I'', G ''lGe'']), Do (SetV 7 (Call ''Uyd'' [Call ''JD'' [Call ''fGd'' [Call ''HWd'' [Dot (V 0) ''v''], K (JNum 2)], K (JNum 62)], Dot (V 0) ''w'', K (JStr ''getEEnumLiteralByLiteral'')])), Do (Call ''yyd'' [V 7, Dot (V 0) ''_'', K (JStr ''literal'')]), Do (Call ''Ryd'' [Dot (V 0) ''w'', G ''w6'', G ''cIe'', K (JBool False), K (JBool False), K (JBool True)]), Do (Call ''Pyd'' [Call ''JD'' [Call ''fGd'' [Call ''KWd'' [Dot (V 0) ''w''], K (JNum 0)], K (JNum 38)], Dot (V 0) ''I'', G ''lGe'', K JNull, K (JNum 0), K (JNum 1), G ''w6'', K (JBool False), K (JBool False), K (JBool True), K (JBool False), K (JBool True), K (JBool False)]), Do (Call ''Pyd'' [Call ''JD'' [Call ''fGd'' [Call ''KWd'' [Dot (V 0) ''w''], K (JNum 1)], K (JNum 38)], Dot (V 0) ''A'', K (JStr ''instance''), K JNull, K (JNum 0), K (JNum 1), G ''w6'', K (JBool True), K (JBool False), K (JBool True), K (JBool False), K (JBool True), K (JBool False)]), Do (Call ''Pyd'' [Call ''JD'' [Call ''fGd'' [Call ''KWd'' [Dot (V 0) ''w''], K (JNum 2)], K (JNum 38)], Dot (V 0) ''_'', K (JStr ''literal''), K JNull, K (JNum 0), K (JNum 1), G ''w6'', K (JBool False), K (JBool False), K (JBool True), K (JBool False), K (JBool True), K (JBool False)]), Do (Call ''Vyd'' [Call ''JD'' [Call ''fGd'' [Call ''KWd'' [Dot (V 0) ''w''], K (JNum 3)], K (JNum 19)], Dot (V 0) ''v'', Call ''JD'' [Call ''fGd'' [Call ''KWd'' [Dot (V 0) ''v''], K (JNum 0)], K (JNum 19)], K (JStr ''eEnum''), K (JNum 0), K (JNum 1), G ''w6'', K (JBool True), K (JBool False), K (JBool False), K (JBool False), K (JBool False), K (JBool False), K (JBool False)]), Do (Call ''Ryd'' [Dot (V 0) ''B'', G ''y6'', K (JStr ''EFactory''), K (JBool False), K (JBool False), K (JBool True)]), Do (Call ''Vyd'' [Call ''JD'' [Call ''fGd'' [Call ''KWd'' [Dot (V 0) ''B''], K (JNum 0)], K (JNum 19)], Dot (V 0) ''U'', Call ''JD'' [Call ''fGd'' [Call ''KWd'' [Dot (V 0) ''U''], K (JNum 2)], K (JNum 19)], K (JStr ''ePackage''), K (JNum 1), K (JNum 1), G ''y6'', K (JBool True), K (JBool False), K (JBool True), K (JBool False), K (JBool False), K (JBool False), K (JBool False)]), Do (SetV 7 (Call ''Uyd'' [Call ''JD'' [Call ''fGd'' [Call ''HWd'' [Dot (V 0) ''B''], K (JNum 0)], K (JNum 62)], Dot (V 0) ''S'', K (JStr ''create'')])), Do (Call ''yyd'' [V 7, Dot (V 0) ''o'', K (JStr ''eClass'')]), Do (SetV 7 (Call ''Uyd'' [Call ''JD'' [Call ''fGd'' [Call ''HWd'' [Dot (V 0) ''B''], K (JNum 1)], K (JNum 62)], Dot (V 0) ''M'', K (JStr ''createFromString'')])), Do (Call ''yyd'' [V 7, Dot (V 0) ''q'', K (JStr ''eDataType'')]), Do (Call ''yyd'' [V 7, Dot (V 0) ''_'', K (JStr ''literalValue'')]), Do (SetV 7 (Call ''Uyd'' [Call ''JD'' [Call ''fGd'' [Call ''HWd'' [Dot (V 0) ''B''], K (JNum 2)], K (JNum 62)], Dot (V 0) ''_'', K (JStr ''convertToString'')])), Do (Call ''yyd'' [V 7, Dot (V 0) ''q'', K (JStr ''eDataType'')]), Do (Call ''yyd'' [V 7, Dot (V 0) ''M'', K (JStr ''instanceValue'')]), Do (Call ''Ryd'' [Dot (V 0) ''Q'', G ''A6'', G ''NFe'', K (JBool True), K (JBool False), K (JBool True)]), Do (Call ''Vyd'' [Call ''JD'' [Call ''fGd'' [Call ''KWd'' [Dot (V 0) ''Q''], K (JNum 0)], K (JNum 19)], Dot (V 0) ''a'', Call ''JD'' [Call ''fGd'' [Call ''KWd'' [Dot (V 0) ''a''], K (JNum 2)], K (JNum 19)], K (JStr ''eAnnotations''), K (JNum 0), K (JNum (- 1)), G ''A6'', K (JBool False), K (JBool False), K (JBool True), K (JBool True), K (JBool False), K (JBool False), K (JBool False)]), Do (SetV 7 (Call ''Uyd'' [Call ''JD'' [Call ''fGd'' [Call ''HWd'' [Dot (V 0) ''Q''], K (JNum 0)], K (JNum 62)], Dot (V 0) ''a'', K (JStr ''getEAnnotation'')])), Do (Call ''yyd'' [V 7, Dot (V 0) ''_'', G ''mGe'']), Do (Call ''Ryd'' [Dot (V 0) ''R'', G ''B6'', G ''OFe'', K (JBool True), K (JBool False), K (JBool True)]), Do (Call ''Pyd'' [Call ''JD'' [Call ''fGd'' [Call ''KWd'' [Dot (V 0) ''R''], K (JNum 0)], K (JNum 38)], Dot (V 0) ''_'', G ''RGe'', K JNull, K (JNum 0), K (JNum 1), G ''B6'', K (JBool False), K (JBool False), K (JBool True), K (JBool False), K (JBool True), K (JBool False)]), Do (Call ''Ryd'' [Dot (V 0) ''S'', G ''C6'', K (JStr ''EObject''), K (JBool False), K (JBool False), K (JBool True)]), Do (Call ''Uyd'' [Call ''JD'' [Call ''fGd'' [Call ''HWd'' [Dot (V 0) ''S''], K (JNum 0)], K (JNum 62)], Dot (V 0) ''o'', K (JStr ''eClass'')]), Do (Call ''Uyd'' [Call ''JD'' [Call ''fGd'' [Call ''HWd'' [Dot (V 0) ''S''], K (JNum 1)], K (JNum 62)], Dot (V 0) ''e'', K (JStr ''eIsProxy'')]), Do (Call ''Uyd'' [Call ''JD'' [Call ''fGd'' [Call ''HWd'' [Dot (V 0) ''S''], K (JNum 2)], K (JNum 62)], Dot (V 0) ''X'', K (JStr ''eResource'')]), Do (Call ''Uyd'' [Call ''JD'' [Call ''fGd'' [Call ''HWd'' [Dot (V 0) ''S''], K (JNum 3)], K (JNum 62)], Dot (V 0) ''S'', K (JStr ''eContainer'')]), Do (Call ''Uyd'' [Call ''JD'' [Call ''fGd'' [Call ''HWd'' [Dot (V 0) ''S''], K (JNum 4)], K (JNum 62)], Dot (V 0) ''bb'', K (JStr ''eContainingFeature'')]), Do (Call ''Uyd'' [Call ''JD'' [Call ''fGd'' [Call ''HWd'' [Dot (V 0) ''S''], K (JNum 5)], K (JNum 62)], Dot (V 0) ''W'', K (JStr ''eContainmentFeature'')]), Do (SetV 7 (Call ''Uyd'' [Call ''JD'' [Call ''fGd'' [Call ''HWd'' [Dot (V 0) ''S''], K (JNum 6)], K (JNum 62)], K JNull, K (JStr ''eContents'')])), Do (SetV 1 (Call ''Hyd'' [Dot (V 0) ''fb''])), Do (SetV 2 (Call ''Hyd'' [Dot (V 0) ''S''])), Do (Call ''lFd'' [Seq (And (Neg (Dot (V 1) ''d'')) (Put (V 1) ''d'' (New ''iYd'' [G ''z6'', V 1, K (JNum 1)]))) (Dot (V 1) ''d''), V 2]), Do (SetV 4 (Call ''iUd'' [V 7, V 1, K JNull])), Do (And (Neg (Neg (V 4))) (Meth (V 4) ''mj'' [])), Do (SetV 7 (Call ''Uyd'' [Call ''JD'' [Call ''fGd'' [Call ''HWd'' [Dot (V 0) ''S''], K (JNum 7)], K (JNum 62)], K JNull, K (JStr ''eAllContents'')])), Do (SetV 1 (Call ''Hyd'' [Dot (V 0) ''cb''])), Do (SetV 2 (Call ''Hyd'' [Dot (V 0) ''S''])), Do (Call ''lFd'' [Seq (And (Neg (Dot (V 1) ''d'')) (Put (V 1) ''d'' (New ''iYd'' [G ''z6'', V 1, K (JNum 1)]))) (Dot (V 1) ''d''), V 2]), Do (SetV 5 (Call ''iUd'' [V 7, V 1, K JNull])), Do (And (Neg (Neg (V 5))) (Meth (V 5) ''mj'' [])), Do (SetV 7 (Call ''Uyd'' [Call ''JD'' [Call ''fGd'' [Call ''HWd'' [Dot (V 0) ''S''], K (JNum 8)], K (JNum 62)], K JNull, K (JStr ''eCrossReferences'')])), Do (SetV 1 (Call ''Hyd'' [Dot (V 0) ''fb''])), Do (SetV 2 (Call ''Hyd'' [Dot (V 0) ''S''])), Do (Call ''lFd'' [Seq (And (Neg (Dot (V 1) ''d'')) (Put (V 1) ''d'' (New ''iYd'' [G ''z6'', V 1, K (JNum 1)]))) (Dot (V 1) ''d''), V 2]), Do (SetV 6 (Call ''iUd'' [V 7, V 1, K JNull])), Do (And (Neg (Neg (V 6))) (Meth (V 6) ''mj'' [])), Do (SetV 7 (Call ''Uyd'' [Call ''JD'' [Call ''fGd'' [Call ''HWd'' [Dot (V 0) ''S''], K (JNum 9)], K (JNum 62)], Dot (V 0) ''M'', K (JStr ''eGet'')])), Do (Call ''yyd'' [V 7, Dot (V 0) ''bb'', G ''RIe'']), Do (SetV 7 (Call ''Uyd'' [Call ''JD'' [Call ''fGd'' [Call ''HWd'' [Dot (V 0) ''S''], K (JNum 10)], K (JNum 62)], Dot (V 0) ''M'', K (JStr ''eGet'')])), Do (Call ''yyd'' [V 7, Dot (V 0) ''bb'', G ''RIe'']), Do (Call ''yyd'' [V 7, Dot (V 0) ''e'', K (JStr ''resolve'')]), Do (SetV 7 (Call ''Uyd'' [Call ''JD'' [Call ''fGd'' [Call ''HWd'' [Dot (V 0) ''S''], K (JNum 11)], K (JNum 62)], K JNull, K (JStr ''eSet'')])), Do (Call ''yyd'' [V 7, Dot (V 0) ''bb'', G ''RIe'']), Do (Call ''yyd'' [V 7, Dot (V 0) ''M'', K (JStr ''newValue'')]), Do (SetV 7 (Call ''Uyd'' [Call ''JD'' [Call ''fGd'' [Call ''HWd'' [Dot (V 0) ''S''], K (JNum 12)], K (JNum 62)], Dot (V 0) ''e'', K (JStr ''eIsSet'')])), Do (Call ''yyd'' [V 7, Dot (V 0) ''bb'', G ''RIe'']), Do (SetV 7 (Call ''Uyd'' [Call ''JD'' [Call ''fGd'' [Call ''HWd'' [Dot (V 0) ''S''], K (JNum 13)], K (JNum 62)], K JNull, K (JStr ''eUnset'')])), Do (Call ''yyd'' [V 7, Dot (V 0) ''bb'', G ''RIe'']), Do (SetV 7 (Call ''Uyd'' [Call ''JD'' [Call ''fGd'' [Call ''HWd'' [Dot (V 0) ''S''], K (JNum 14)], K (JNum 62)], Dot (V 0) ''M'', K (JStr ''eInvoke'')])), Do (Call ''yyd'' [V 7, Dot (V 0) ''T'', G ''TIe'']), Do (SetV 1 (Call ''Hyd'' [Dot (V 0) ''fb''])), Do (SetV 2 (Call ''g9d'' [])), Do (Call ''lFd'' [Seq (And (Neg (Dot (V 1) ''d'')) (Put (V 1) ''d'' (New ''iYd'' [G ''z6'', V 1, K (JNum 1)]))) (Dot (V 1) ''d''), V 2]), Do (Call ''zyd'' [V 7, V 1, K (JStr ''arguments'')]), Do (Call ''wyd'' [V 7, Dot (V 0) ''K'']), Do (Call ''Ryd'' [Dot (V 0) ''T'', G ''D6'', G ''eIe'', K (JBool False), K (JBool False), K (JBool True)]), Do (Call ''Vyd'' [Call ''JD'' [Call ''fGd'' [Call ''KWd'' [Dot (V 0) ''T''], K (JNum 0)], K (JNum 19)], Dot (V 0) ''o'', Call ''JD'' [Call ''fGd'' [Call ''KWd'' [Dot (V 0) ''o''], K (JNum 3)], K (JNum 19)], G ''YIe'', K (JNum 0), K (JNum 1), G ''D6'', K (JBool True), K (JBool False), K (JBool False), K (JBool False), K (JBool False), K (JBool False), K (JBool False)]), Do (Call ''Vyd'' [Call ''JD'' [Call ''fGd'' [Call ''KWd'' [Dot (V 0) ''T''], K (JNum 1)], K (JNum 19)], Dot (V 0) ''db'', K JNull, G ''VIe'', K (JNum 0), K (JNum (- 1)), G ''D6'', K (JBool False), K (JBool False), K (JBool True), K (JBool True), K (JBool True), K (JBool False), K (JBool False)]), Do (Call ''Vyd'' [Call ''JD'' [Call ''fGd'' [Call ''KWd'' [Dot (V 0) ''T''], K (JNum 2)], K (JNum 19)], Dot (V 0) ''V'', Call ''JD'' [Call ''fGd'' [Call ''KWd'' [Dot (V 0) ''V''], K (JNum 0)], K (JNum 19)], K (JStr ''eParameters''), K (JNum 0), K (JNum (- 1)), G ''D6'', K (JBool False), K (JBool False), K (JBool True), K (JBool True), K (JBool False), K (JBool False), K (JBool False)]), Do (Call ''Vyd'' [Call ''JD'' [Call ''fGd'' [Call ''KWd'' [Dot (V 0) ''T''], K (JNum 3)], K (JNum 19)], Dot (V 0) ''p'', K JNull, K (JStr ''eExceptions''), K (JNum 0), K (JNum (- 1)), G ''D6'', K (JBool False), K (JBool False), K (JBool True), K (JBool False), K (JBool True), K (JBool True), K (JBool False)]), Do (Call ''Vyd'' [Call ''JD'' [Call ''fGd'' [Call ''KWd'' [Dot (V 0) ''T''], K (JNum 4)], K (JNum 19)], Dot (V 0) ''H'', K JNull, K (JStr ''eGenericExceptions''), K (JNum 0), K (JNum (- 1)), G ''D6'', K (JBool False), K (JBool False), K (JBool True), K (JBool True), K (JBool False), K (JBool True), K (JBool False)]), Do (Call ''Uyd'' [Call ''JD'' [Call ''fGd'' [Call ''HWd'' [Dot (V 0) ''T''], K (JNum 0)], K (JNum 62)], Dot (V 0) ''I'', G ''SIe'']), Do (SetV 7 (Call ''Uyd'' [Call ''JD'' [Call ''fGd'' [Call ''HWd'' [Dot (V 0) ''T''], K (JNum 1)], K (JNum 62)], Dot (V 0) ''e'', K (JStr ''isOverrideOf'')])), Do (Call ''yyd'' [V 7, Dot (V 0) ''T'', K (JStr ''someOperation'')]), Do (Call ''Ryd'' [Dot (V 0) ''U'', G ''E6'', K (JStr ''EPackage''), K (JBool False), K (JBool False), K (JBool True)]), Do (Call ''Pyd'' [Call ''JD'' [Call ''fGd'' [Call ''KWd'' [Dot (V 0) ''U''], K (JNum 0)], K (JNum 38)], Dot (V 0) ''_'', K (JStr ''nsURI''), K JNull, K (JNum 0), K (JNum 1), G ''E6'', K (JBool False), K (JBool False), K (JBool True), K (JBool False), K (JBool True), K (JBool False)]), Do (Call ''Pyd'' [Call ''JD'' [Call ''fGd'' [Call ''KWd'' [Dot (V 0) ''U''], K (JNum 1)], K (JNum 38)], Dot (V 0) ''_'', K (JStr ''nsPrefix''), K JNull, K (JNum 0), K (JNum 1), G ''E6'', K (JBool False), K (JBool False), K (JBool True), K (JBool False), K (JBool True), K (JBool False)]), Do (Call ''Vyd'' [Call ''JD'' [Call ''fGd'' [Call ''KWd'' [Dot (V 0) ''U''], K (JNum 2)], K (JNum 19)], Dot (V 0) ''B'', Call ''JD'' [Call ''fGd'' [Call ''KWd'' [Dot (V 0) ''B''], K (JNum 0)], K (JNum 19)], K (JStr ''eFactoryInstance''), K (JNum 1), K (JNum 1), G ''E6'', K (JBool True), K (JBool False), K (JBool True), K (JBool False), K (JBool False), K (JBool False), K (JBool False)]), Do (Call ''Vyd'' [Call ''JD'' [Call ''fGd'' [Call ''KWd'' [Dot (V 0) ''U''], K (JNum 3)], K (JNum 19)], Dot (V 0) ''p'', Call ''JD'' [Call ''fGd'' [Call ''KWd'' [Dot (V 0) ''p''], K (JNum 4)], K (JNum 19)], K (JStr ''eClassifiers''), K (JNum 0), K (JNum (- 1)), G ''E6'', K (JBool False), K (JBool False), K (JBool True), K (JBool True), K (JBool True), K (JBool False), K (JBool False)]), Do (Call ''Vyd'' [Call ''JD'' [Call ''fGd'' [Call ''KWd'' [Dot (V 0) ''U''], K (JNum 4)], K (JNum 19)], Dot (V 0) ''U'', Call ''JD'' [Call ''fGd'' [Call ''KWd'' [Dot (V 0) ''U''], K (JNum 5)], K (JNum 19)], K (JStr ''eSubpackages''), K (JNum 0), K (JNum (- 1)), G ''E6'', K (JBool False), K (JBool False), K (JBool True), K (JBool True), K (JBool True), K (JBool False), K (JBool False)]), Do (Call ''Vyd'' [Call ''JD'' [Call ''fGd'' [Call ''KWd'' [Dot (V 0) ''U''], K (JNum 5)], K (JNum 19)], Dot (V 0) ''U'', Call ''JD'' [Call ''fGd'' [Call ''KWd'' [Dot (V 0) ''U''], K (JNum 4)], K (JNum 19)], K (JStr ''eSuperPackage''), K (JNum 0), K (JNum 1), G ''E6'', K (JBool True), K (JBool False), K (JBool False), K (JBool False), K (JBool True), K (JBool False), K (JBool False)]), Do (SetV 7 (Call ''Uyd'' [Call ''JD'' [Call ''fGd'' [Call ''HWd'' [Dot (V 0) ''U''], K (JNum 0)], K (JNum 62)], Dot (V 0) ''p'', K (JStr ''getEClassifier'')])), Do (Call ''yyd'' [V 7, Dot (V 0) ''_'', G ''RGe'']), Do (Call ''Ryd'' [Dot (V 0) ''V'', G ''F6'', G ''fIe'', K (JBool False), K (JBool False), K (JBool True)]), Do (Call ''Vyd'' [Call ''JD'' [Call ''fGd'' [Call ''KWd'' [Dot (V 0) ''V''], K (JNum 0)], K (JNum 19)], Dot (V 0) ''T'', Call ''JD'' [Call ''fGd'' [Call ''KWd'' [Dot (V 0) ''T''], K (JNum 2)], K (JNum 19)], K (JStr ''eOperation''), K (JNum 0), K (JNum 1), G ''F6'', K (JBool True), K (JBool False), K (JBool False), K (JBool False), K (JBool False), K (JBool False), K (JBool False)]), Do (Call ''Ryd'' [Dot (V 0) ''W'', G ''G6'', G ''gIe'', K (JBool False), K (JBool False), K (JBool True)]), Do (Call ''Pyd'' [Call ''JD'' [Call ''fGd'' [Call ''KWd'' [Dot (V 0) ''W''], K (JNum 0)], K (JNum 38)], Dot (V 0) ''e'', K (JStr ''containment''), K JNull, K (JNum 0), K (JNum 1), G ''G6'', K (JBool False), K (JBool False), K (JBool True), K (JBool False), K (JBool True), K (JBool False)]), Do (Call ''Pyd'' [Call ''JD'' [Call ''fGd'' [Call ''KWd'' [Dot (V 0) ''W''], K (JNum 1)], K (JNum 38)], Dot (V 0) ''e'', K (JStr ''container''), K JNull, K (JNum 0), K (JNum 1), G ''G6'', K (JBool True), K (JBool True), K (JBool False), K (JBool False), K (JBool True), K (JBool True)]), Do (Call ''Pyd'' [Call ''JD'' [Call ''fGd'' [Call ''KWd'' [Dot (V 0) ''W''], K (JNum 2)], K (JNum 38)], Dot (V 0) ''e'', K (JStr ''resolveProxies''), G ''JEe'', K (JNum 0), K (JNum 1), G ''G6'', K (JBool False), K (JBool False), K (JBool True), K (JBool False), K (JBool True), K (JBool False)]), Do (Call ''Vyd'' [Call ''JD'' [Call ''fGd'' [Call ''KWd'' [Dot (V 0) ''W''], K (JNum 3)], K (JNum 19)], Dot (V 0) ''W'', K JNull, K (JStr ''eOpposite''), K (JNum 0), K (JNum 1), G ''G6'', K (JBool False), K (JBool False), K (JBool True), K (JBool False), K (JBool True), K (JBool False), K (JBool False)]), Do (Call ''Vyd'' [Call ''JD'' [Call ''fGd'' [Call ''KWd'' [Dot (V 0) ''W''], K (JNum 4)], K (JNum 19)], Dot (V 0) ''o'', K JNull, K (JStr ''eReferenceType''), K (JNum 1), K (JNum 1), G ''G6'', K (JBool True), K (JBool True), K (JBool False), K (JBool False), K (JBool True), K (JBool False), K (JBool True)]), Do (Call ''Vyd'' [Call ''JD'' [Call ''fGd'' [Call ''KWd'' [Dot (V 0) ''W''], K (JNum 5)], K (JNum 19)], Dot (V 0) ''b'', K JNull, K (JStr ''eKeys''), K (JNum 0), K (JNum (- 1)), G ''G6'', K (JBool False), K (JBool False), K (JBool True), K (JBool False), K (JBool True), K (JBool False), K (JBool False)]), Do (Call ''Ryd'' [Dot (V 0) ''bb'', G ''J6'', G ''_He'', K (JBool True), K (JBool False), K (JBool True)]), Do (Call ''Pyd'' [Call ''JD'' [Call ''fGd'' [Call ''KWd'' [Dot (V 0) ''bb''], K (JNum 0)], K (JNum 38)], Dot (V 0) ''e'', K (JStr ''changeable''), G ''JEe'', K (JNum 0), K (JNum 1), G ''J6'', K (JBool False), K (JBool False), K (JBool True), K (JBool False), K (JBool True), K (JBool False)]), Do (Call ''Pyd'' [Call ''JD'' [Call ''fGd'' [Call ''KWd'' [Dot (V 0) ''bb''], K (JNum 1)], K (JNum 38)], Dot (V 0) ''e'', K (JStr ''volatile''), K JNull, K (JNum 0), K (JNum 1), G ''J6'', K (JBool False), K (JBool False), K (JBool True), K (JBool False), K (JBool True), K (JBool False)]), Do (Call ''Pyd'' [Call ''JD'' [Call ''fGd'' [Call ''KWd'' [Dot (V 0) ''bb''], K (JNum 2)], K (JNum 38)], Dot (V 0) ''e'', K (JStr ''transient''), K JNull, K (JNum 0), K (JNum 1), G ''J6'', K (JBool False), K (JBool False), K (JBool True), K (JBool False), K (JBool True), K (JBool False)]), Do (Call ''Pyd'' [Call ''JD'' [Call ''fGd'' [Call ''KWd'' [Dot (V 0) ''bb''], K (JNum 3)], K (JNum 38)], Dot (V 0) ''_'', K (JStr ''defaultValueLiteral''), K JNull, K (JNum 0), K (JNum 1), G ''J6'', K (JBool False), K (JBool False), K (JBool True), K (JBool False), K (JBool True), K (JBool False)]), Do (Call ''Pyd'' [Call ''JD'' [Call ''fGd'' [Call ''KWd'' [Dot (V 0) ''bb''], K (JNum 4)], K (JNum 38)], Dot (V 0) ''M'', G ''UIe'', K JNull, K (JNum 0), K (JNum 1), G ''J6'', K (JBool True), K (JBool True), K (JBool False), K (JBool False), K (JBool True), K (JBool True)]), Do (Call ''Pyd'' [Call ''JD'' [Call ''fGd'' [Call ''KWd'' [Dot (V 0) ''bb''], K (JNum 5)], K (JNum 38)], Dot (V 0) ''e'', K (JStr ''unsettable''), K JNull, K (JNum 0), K (JNum 1), G ''J6'', K (JBool False), K (JBool False), K (JBool True), K (JBool False), K (JBool True), K (JBool False)]), Do (Call ''Pyd'' [Call ''JD'' [Call ''fGd'' [Call ''KWd'' [Dot (V 0) ''bb''], K (JNum 6)], K (JNum 38)], Dot (V 0) ''e'', K (JStr ''derived''), K JNull, K (JNum 0), K (JNum 1), G ''J6'', K (JBool False), K (JBool False), K (JBool True), K (JBool False), K (JBool True), K (JBool False)]), Do (Call ''Vyd'' [Call ''JD'' [Call ''fGd'' [Call ''KWd'' [Dot (V 0) ''bb''], K (JNum 7)], K (JNum 19)], Dot (V 0) ''o'', Call ''JD'' [Call ''fGd'' [Call ''KWd'' [Dot (V 0) ''o''], K (JNum 13)], K (JNum 19)], G ''YIe'', K (JNum 0), K (JNum 1), G ''J6'', K (JBool True), K (JBool False), K (JBool False), K (JBool False), K (JBool False), K (JBool False), K (JBool False)]), Do (Call ''Uyd'' [Call ''JD'' [Call ''fGd'' [Call ''HWd'' [Dot (V 0) ''bb''], K (JNum 0)], K (JNum 62)], Dot (V 0) ''I'', G ''QIe'']), Do (SetV 7 (Call ''Uyd'' [Call ''JD'' [Call ''fGd'' [Call ''HWd'' [Dot (V 0) ''bb''], K (JNum 1)], K (JNum 62)], K JNull, K (JStr ''getContainerClass'')])), Do (SetV 1 (Call ''Hyd'' [Dot (V 0) ''L''])), Do (SetV 2 (Call ''g9d'' [])), Do (Call ''lFd'' [Seq (And (Neg (Dot (V 1) ''d'')) (Put (V 1) ''d'' (New ''iYd'' [G ''z6'', V 1, K (JNum 1)]))) (Dot (V 1) ''d''), V 2]), Do (SetV 3 (Call ''iUd'' [V 7, V 1, K JNull])), Do (And (Neg (Neg (V 3))) (Meth (V 3) ''mj'' [])), Do (Call ''Ryd'' [Dot (V 0) ''eb'', G ''L6'', G ''$He'', K (JBool True), K (JBool False), K (JBool True)]), Do (Call ''Pyd'' [Call ''JD'' [Call ''fGd'' [Call ''KWd'' [Dot (V 0) ''eb''], K (JNum 0)], K (JNum 38)], Dot (V 0) ''e'', K (JStr ''ordered''), G ''JEe'', K (JNum 0), K (JNum 1), G ''L6'', K (JBool False), K (JBool False), K (JBool True), K (JBool False), K (JBool True), K (JBool False)]), Do (Call ''Pyd'' [Call ''JD'' [Call ''fGd'' [Call ''KWd'' [Dot (V 0) ''eb''], K (JNum 1)], K (JNum 38)], Dot (V 0) ''e'', K (JStr ''unique''), G ''JEe'', K (JNum 0), K (JNum 1), G ''L6'', K (JBool False), K (JBool False), K (JBool True), K (JBool False), K (JBool True), K (JBool False)]), Do (Call ''Pyd'' [Call ''JD'' [Call ''fGd'' [Call ''KWd'' [Dot (V 0) ''eb''], K (JNum 2)], K (JNum 38)], Dot (V 0) ''I'', K (JStr ''lowerBound''), K JNull, K (JNum 0), K (JNum 1), G ''L6'', K (JBool False), K (JBool False), K (JBool True), K (JBool False), K (JBool True), K (JBool False)]), Do (Call ''Pyd'' [Call ''JD'' [Call ''fGd'' [Call ''KWd'' [Dot (V 0) ''eb''], K (JNum 3)], K (JNum 38)], Dot (V 0) ''I'', K (JStr ''upperBound''), K (JStr ''1''), K (JNum 0), K (JNum 1), G ''L6'', K (JBool False), K (JBool False), K (JBool True), K (JBool False), K (JBool True), K (JBool False)]), Do (Call ''Pyd'' [Call ''JD'' [Call ''fGd'' [Call ''KWd'' [Dot (V 0) ''eb''], K (JNum 4)], K (JNum 38)], Dot (V 0) ''e'', K (JStr ''many''), K JNull, K (JNum 0), K (JNum 1), G ''L6'', K (JBool True), K (JBool True), K (JBool False), K (JBool False), K (JBool True), K (JBool True)]), Do (Call ''Pyd'' [Call ''JD'' [Call ''fGd'' [Call ''KWd'' [Dot (V 0) ''eb''], K (JNum 5)], K (JNum 38)], Dot (V 0) ''e'', K (JStr ''required''), K JNull, K (JNum 0), K (JNum 1), G ''L6'', K (JBool True), K (JBool True), K (JBool False), K (JBool False), K (JBool True), K (JBool True)]), Do (Call ''Vyd'' [Call ''JD'' [Call ''fGd'' [Call ''KWd'' [Dot (V 0) ''eb''], K (JNum 6)], K (JNum 19)], Dot (V 0) ''p'', K JNull, K (JStr ''eType''), K (JNum 0), K (JNum 1), G ''L6'', K (JBool False), K (JBool True), K (JBool True), K (JBool False), K (JBool True), K (JBool True), K (JBool False)]), Do (Call ''Vyd'' [Call ''JD'' [Call ''fGd'' [Call ''KWd'' [Dot (V 0) ''eb''], K (JNum 7)], K (JNum 19)], Dot (V 0) ''H'', K JNull, K (JStr ''eGenericType''), K (JNum 0), K (JNum 1), G ''L6'', K (JBool False), K (JBool True), K (JBool True), K (JBool True), K (JBool False), K (JBool True), K (JBool False)]), Do (Call ''Ryd'' [Dot (V 0) ''ab'', G ''LK'', K (JStr ''EStringToStringMapEntry''), K (JBool False), K (JBool False), K (JBool False)]), Do (Call ''Pyd'' [Call ''JD'' [Call ''fGd'' [Call ''KWd'' [Dot (V 0) ''ab''], K (JNum 0)], K (JNum 38)], Dot (V 0) ''_'', K (JStr ''key''), K JNull, K (JNum 0), K (JNum 1), G ''LK'', K (JBool False), K (JBool False), K (JBool True), K (JBool False), K (JBool True), K (JBool False)]), Do (Call ''Pyd'' [Call ''JD'' [Call ''fGd'' [Call ''KWd'' [Dot (V 0) ''ab''], K (JNum 1)], K (JNum 38)], Dot (V 0) ''_'', G ''lGe'', K JNull, K (JNum 0), K (JNum 1), G ''LK'', K (JBool False), K (JBool False), K (JBool True), K (JBool False), K (JBool True), K (JBool False)]), Do (Call ''Ryd'' [Dot (V 0) ''H'', G ''z6'', G ''dIe'', K (JBool False), K (JBool False), K (JBool True)]), Do (Call ''Vyd'' [Call ''JD'' [Call ''fGd'' [Call ''KWd'' [Dot (V 0) ''H''], K (JNum 0)], K (JNum 19)], Dot (V 0) ''H'', K JNull, K (JStr ''eUpperBound''), K (JNum 0), K (JNum 1), G ''z6'', K (JBool False), K (JBool False), K (JBool True), K (JBool True), K (JBool False), K (JBool False), K (JBool False)]), Do (Call ''Vyd'' [Call ''JD'' [Call ''fGd'' [Call ''KWd'' [Dot (V 0) ''H''], K (JNum 1)], K (JNum 19)], Dot (V 0) ''H'', K JNull, K (JStr ''eTypeArguments''), K (JNum 0), K (JNum (- 1)), G ''z6'', K (JBool False), K (JBool False), K (JBool True), K (JBool True), K (JBool False), K (JBool False), K (JBool False)]), Do (Call ''Vyd'' [Call ''JD'' [Call ''fGd'' [Call ''KWd'' [Dot (V 0) ''H''], K (JNum 2)], K (JNum 19)], Dot (V 0) ''p'', K JNull, K (JStr ''eRawType''), K (JNum 1), K (JNum 1), G ''z6'', K (JBool True), K (JBool False), K (JBool False), K (JBool False), K (JBool True), K (JBool False), K (JBool True)]), Do (Call ''Vyd'' [Call ''JD'' [Call ''fGd'' [Call ''KWd'' [Dot (V 0) ''H''], K (JNum 3)], K (JNum 19)], Dot (V 0) ''H'', K JNull, K (JStr ''eLowerBound''), K (JNum 0), K (JNum 1), G ''z6'', K (JBool False), K (JBool False), K (JBool True), K (JBool True), K (JBool False), K (JBool False), K (JBool False)]), Do (Call ''Vyd'' [Call ''JD'' [Call ''fGd'' [Call ''KWd'' [Dot (V 0) ''H''], K (JNum 4)], K (JNum 19)], Dot (V 0) ''db'', K JNull, K (JStr ''eTypeParameter''), K (JNum 0), K (JNum 1), G ''z6'', K (JBool False), K (JBool False), K (JBool True), K (JBool False), K (JBool False), K (JBool False), K (JBool False)]), Do (Call ''Vyd'' [Call ''JD'' [Call ''fGd'' [Call ''KWd'' [Dot (V 0) ''H''], K (JNum 5)], K (JNum 19)], Dot (V 0) ''p'', K JNull, K (JStr ''eClassifier''), K (JNum 0), K (JNum 1), G ''z6'', K (JBool False), K (JBool False), K (JBool True), K (JBool False), K (JBool True), K (JBool False), K (JBool False)]), Do (SetV 7 (Call ''Uyd'' [Call ''JD'' [Call ''fGd'' [Call ''HWd'' [Dot (V 0) ''H''], K (JNum 0)], K (JNum 62)], Dot (V 0) ''e'', G ''WIe''])), Do (Call ''yyd'' [V 7, Dot (V 0) ''M'', G ''vte'']), Do (Call ''Ryd'' [Dot (V 0) ''db'', G ''K6'', G ''iIe'', K (JBool False), K (JBool False), K (JBool True)]), Do (Call ''Vyd'' [Call ''JD'' [Call ''fGd'' [Call ''KWd'' [Dot (V 0) ''db''], K (JNum 0)], K (JNum 19)], Dot (V 0) ''H'', K JNull, K (JStr ''eBounds''), K (JNum 0), K (JNum (- 1)), G ''K6'', K (JBool False), K (JBool False), K (JBool True), K (JBool True), K (JBool False), K (JBool False), K (JBool False)]), Do (Call ''Tyd'' [Dot (V 0) ''c'', G ''kJ'', K (JStr ''EBigDecimal''), K (JBool True)]), Do (Call ''Tyd'' [Dot (V 0) ''d'', G ''lJ'', K (JStr ''EBigInteger''), K (JBool True)]), Do (Call ''Tyd'' [Dot (V 0) ''e'', G ''Icb'', K (JStr ''EBoolean''), K (JBool True)]), Do (Call ''Tyd'' [Dot (V 0) ''f'', G ''GI'', K (JStr ''EBooleanObject''), K (JBool True)]), Do (Call ''Tyd'' [Dot (V 0) ''i'', G ''$D'', K (JStr ''EByte''), K (JBool True)]), Do (Call ''Tyd'' [Dot (V 0) ''g'', Call ''OC'' [G ''$D'', K (JNum 1)], K (JStr ''EByteArray''), K (JBool True)]), Do (Call ''Tyd'' [Dot (V 0) ''j'', G ''HI'', K (JStr ''EByteObject''), K (JBool True)]), Do (Call ''Tyd'' [Dot (V 0) ''k'', G ''_D'', K (JStr ''EChar''), K (JBool True)]), Do (Call ''Tyd'' [Dot (V 0) ''n'', G ''II'', K (JStr ''ECharacterObject''), K (JBool True)]), Do (Call ''Tyd'' [Dot (V 0) ''r'', G ''hK'', K (JStr ''EDate''), K (JBool True)]), Do (Call ''Tyd'' [Dot (V 0) ''s'', G ''c6'', K (JStr ''EDiagnosticChain''), K (JBool False)]), Do (Call ''Tyd'' [Dot (V 0) ''t'', G ''aE'', K (JStr ''EDouble''), K (JBool True)]), Do (Call ''Tyd'' [Dot (V 0) ''u'', G ''LI'', K (JStr ''EDoubleObject''), K (JBool True)]), Do (Call ''Tyd'' [Dot (V 0) ''fb'', G ''h6'', K (JStr ''EEList''), K (JBool False)]), Do (Call ''Tyd'' [Dot (V 0) ''A'', G ''i6'', K (JStr ''EEnumerator''), K (JBool False)]), Do (Call ''Tyd'' [Dot (V 0) ''C'', G ''cbb'', K (JStr ''EFeatureMap''), K (JBool False)]), Do (Call ''Tyd'' [Dot (V 0) ''D'', G ''Uab'', K (JStr ''EFeatureMapEntry''), K (JBool False)]), Do (Call ''Tyd'' [Dot (V 0) ''F'', G ''bE'', K (JStr ''EFloat''), K (JBool True)]), Do (Call ''Tyd'' [Dot (V 0) ''G'', G ''QI'', K (JStr ''EFloatObject''), K (JBool True)]), Do (Call ''Tyd'' [Dot (V 0) ''I'', G ''cE'', K (JStr ''EInt''), K (JBool True)]), Do (Call ''Tyd'' [Dot (V 0) ''J'', G ''UI'', K (JStr ''EIntegerObject''), K (JBool True)]), Do (Call ''Tyd'' [Dot (V 0) ''L'', G ''KI'', K (JStr ''EJavaClass''), K (JBool True)]), Do (Call ''Tyd'' [Dot (V 0) ''M'', G ''aJ'', K (JStr ''EJavaObject''), K (JBool True)]), Do (Call ''Tyd'' [Dot (V 0) ''N'', G ''dE'', K (JStr ''ELong''), K (JBool True)]), Do (Call ''Tyd'' [Dot (V 0) ''O'', G ''XI'', K (JStr ''ELongObject''), K (JBool True)]), Do (Call ''Tyd'' [Dot (V 0) ''P'', G ''MK'', K (JStr ''EMap''), K (JBool False)]), Do (Call ''Tyd'' [Dot (V 0) ''X'', G ''L9'', K (JStr ''EResource''), K (JBool False)]), Do (Call ''Tyd'' [Dot (V 0) ''Y'', G ''K9'', K (JStr ''EResourceSet''), K (JBool False)]), Do (Call ''Tyd'' [Dot (V 0) ''Z'', G ''Hcb'', K (JStr ''EShort''), K (JBool True)]), Do (Call ''Tyd'' [Dot (V 0) ''$'', G ''cJ'', K (JStr ''EShortObject''), K (JBool True)]), Do (Call ''Tyd'' [Dot (V 0) ''_'', G ''hJ'', K (JStr ''EString''), K (JBool True)]), Do (Call ''Tyd'' [Dot (V 0) ''cb'', G ''l6'', K (JStr ''ETreeIterator''), K (JBool False)]), Do (Call ''Tyd'' [Dot (V 0) ''K'', G ''j6'', K (JStr ''EInvocationTargetException''), K (JBool False)]), Do (Call ''Lyd'' [V 0, G ''LIe''])]]"

definition object_table37 :: "(string \<times> jfun) list" where
  "object_table37 = code_6314_6314"

text \<open>The names each table declares.\<close>

lemma names_6314_6314 [js_names]: "map fst code_6314_6314 = [
    ''k9d'']"
  by (simp add: code_6314_6314_def fn_def)

end
