(* ===== verification/ObjectTable38.thy ===== *)
theory ObjectTable38
  imports ObjectCode
begin

text \<open>
  Functions of \<open>layout-worker.js\<close>, lines 2549 to 6111, in the order of the file, one per line:
  the algorithms of the layout engine, longer operations of the runtime's collections and of options,
  with their loops, \<open>switch\<close> and \<open>try\<close> statements. An entry has the name, the
  number of parameters, the number of further local variables and the body; parameters and locals
  are numbered from 0, the variable of a \<open>catch\<close> has a number of its own, \<open>x++\<close> is \<open>(x=x+1)-1\<close>. Lines
  with a construct outside \<open>jexp\<close> and \<open>jstm\<close> (closures, \<open>in\<close>, floating-point literals, host objects) are
  left out.
\<close>

definition code_2549_2549 :: "(string \<times> jfun) list" where
  "code_2549_2549 = [
    fn ''UC'' 1 0 [Ret (And (IsArr (V 0)) (Same (Dot (V 0) ''Rm'') (G ''udb'')))]]"

definition code_2599_2599 :: "(string \<times> jfun) list" where
  "code_2599_2599 = [
    fn ''QD'' 1 0 [Ret (And (Neg (IsArr (V 0))) (Same (Dot (V 0) ''Rm'') (G ''udb'')))]]"

definition code_3746_3746 :: "(string \<times> jfun) list" where
  "code_3746_3746 = [
    fn ''KD'' 1 1 [Do (Call ''VDb'' [Or (Loose (V 0) (K JNull)) (And (IsArr (V 0)) (Seq (SetV 1 (Call ''PC'' [V 0])) (Neg (And (Bin Ge (V 1) (K (JNum 14))) (Bin Le (V 1) (K (JNum 16)))))))]), Ret (V 0)]]"

definition code_4159_4159 :: "(string \<times> jfun) list" where
  "code_4159_4159 = [
    fn ''rb'' 1 0 [Ret (Cond (Call ''VD'' [V 0]) (G ''hJ'') (Cond (Call ''TD'' [V 0]) (G ''LI'') (Cond (Call ''SD'' [V 0]) (G ''GI'') (Cond (Call ''QD'' [V 0]) (Dot (V 0) ''Pm'') (Cond (Call ''UC'' [V 0]) (Dot (V 0) ''Pm'') (Or (Or (Dot (V 0) ''Pm'') (And (IsArr (V 0)) (Call ''OC'' [G ''ZH'', K (JNum 1)]))) (G ''ZH'')))))))]]"

definition code_4377_4377 :: "(string \<times> jfun) list" where
  "code_4377_4377 = [
    fn ''tdb'' 1 1 [When (And (IsArr (V 0)) (Same (Dot (V 0) ''Rm'') (G ''udb''))) [Ret (Bin Plus (Bin Plus (Call ''xeb'' [Call ''rb'' [V 0]]) (K (JStr ''@''))) (Seq (SetV 1 (Bin Ushr (Call ''tb'' [V 0]) (K (JNum 0)))) (Meth (V 1) ''toString'' [K (JNum 16)])))] [], Ret (Meth (V 0) ''toString'' [])]]"

definition code_5820_5820 :: "(string \<times> jfun) list" where
  "code_5820_5820 = [
    fn ''NC'' 2 1 [Switch (Call ''PC'' [V 0]) [(Some (JNum 6), [Ret (Call ''VD'' [V 1])]), (Some (JNum 7), [Ret (Call ''TD'' [V 1])]), (Some (JNum 8), [Ret (Call ''SD'' [V 1])]), (Some (JNum 3), [Ret (And (IsArr (V 1)) (Seq (SetV 2 (Call ''PC'' [V 1])) (Neg (And (Bin Ge (V 2) (K (JNum 14))) (Bin Le (V 2) (K (JNum 16)))))))]), (Some (JNum 11), [Ret (And (Neg (Loose (V 1) (K JNull))) (Same (Typeof (V 1)) (G ''zte'')))]), (Some (JNum 12), [Ret (And (Neg (Loose (V 1) (K JNull))) (Or (Same (Typeof (V 1)) (G ''vte'')) (Loose (Typeof (V 1)) (G ''zte''))))]), (Some (JNum 0), [Ret (Call ''ID'' [V 1, Dot (V 0) ''__elementTypeId$''])]), (Some (JNum 2), [Ret (And (Call ''WD'' [V 1]) (Neg (Same (Dot (V 1) ''Rm'') (G ''udb''))))]), (Some (JNum 1), [Ret (Or (And (Call ''WD'' [V 1]) (Neg (Same (Dot (V 1) ''Rm'') (G ''udb'')))) (Call ''ID'' [V 1, Dot (V 0) ''__elementTypeId$'']))]), (None, [Ret (K (JBool True))])]]]"

definition code_6111_6111 :: "(string \<times> jfun) list" where
  "code_6111_6111 = [
    fn ''Smb'' 2 9 [When (Loose (V 0) (K JNull)) [Ret (G ''Kte'')] [], Do (SetV 8 (Meth (Dot (V 1) ''a'') ''yc'' [V 0, V 1])), When (Neg (Loose (V 8) (K JNull))) [Ret (K (JStr ''[...]''))] [], Do (SetV 2 (New ''Qxb'' [G ''Ete'', K (JStr ''[''), K (JStr '']'')])), Do (Seq (Seq (SetV 4 (V 0)) (SetV 5 (K (JNum 0)))) (SetV 6 (Dot (V 4) ''length''))), Loop (Bin Lt (V 5) (V 6)) [Do (SetV 3 (Idx (V 4) (V 5))), When (And (Neg (Loose (V 3) (K JNull))) (Neg (Loose (Bin BitAnd (Dot (Call ''rb'' [V 3]) ''i'') (K (JNum 4))) (K (JNum 0))))) [When (And (IsArr (V 3)) (Seq (SetV 10 (Call ''PC'' [V 3])) (Neg (And (Bin Ge (V 10) (K (JNum 14))) (Bin Le (V 10) (K (JNum 16))))))) [When (Meth (Dot (V 1) ''a'') ''_b'' [V 3]) [Do (Cond (Neg (Dot (V 2) ''a'')) (Put (V 2) ''a'' (New ''nhb'' [Dot (V 2) ''d''])) (Call ''hhb'' [Dot (V 2) ''a'', Dot (V 2) ''b''])), Do (Call ''ehb'' [Dot (V 2) ''a'', K (JStr ''[...]'')])] [Do (SetV 7 (Call ''KD'' [V 3])), Do (SetV 9 (New ''jsb'' [V 1])), Do (Call ''Nxb'' [V 2, Call ''Smb'' [V 7, V 9]])]] [Do (Cond (Call ''RD'' [V 3, K (JNum 171)]) (Call ''Nxb'' [V 2, Call ''rnb'' [Call ''JD'' [V 3, K (JNum 171)]]]) (Cond (Call ''RD'' [V 3, K (JNum 195)]) (Call ''Nxb'' [V 2, Call ''knb'' [Call ''JD'' [V 3, K (JNum 195)]]]) (Cond (Call ''RD'' [V 3, K (JNum 201)]) (Call ''Nxb'' [V 2, Call ''lnb'' [Call ''JD'' [V 3, K (JNum 201)]]]) (Cond (Call ''RD'' [V 3, K (JNum 2076)]) (Call ''Nxb'' [V 2, Call ''qnb'' [Call ''JD'' [V 3, K (JNum 2076)]]]) (Cond (Call ''RD'' [V 3, K (JNum 54)]) (Call ''Nxb'' [V 2, Call ''onb'' [Call ''JD'' [V 3, K (JNum 54)]]]) (Cond (Call ''RD'' [V 3, K (JNum 585)]) (Call ''Nxb'' [V 2, Call ''pnb'' [Call ''JD'' [V 3, K (JNum 585)]]]) (Cond (Call ''RD'' [V 3, K (JNum 831)]) (Call ''Nxb'' [V 2, Call ''nnb'' [Call ''JD'' [V 3, K (JNum 831)]]]) (And (Call ''RD'' [V 3, K (JNum 108)]) (Call ''Nxb'' [V 2, Call ''mnb'' [Call ''JD'' [V 3, K (JNum 108)]]])))))))))]] [Do (Call ''Nxb'' [V 2, Cond (Loose (V 3) (K JNull)) (G ''Kte'') (Call ''tdb'' [V 3])])]] [Do (SetV 5 (Bin Minus (V 5) (K (JNum (- 1)))))], Ret (Cond (Neg (Dot (V 2) ''a'')) (Dot (V 2) ''c'') (Cond (Loose (Dot (Dot (V 2) ''e'') ''length'') (K (JNum 0))) (Dot (Dot (V 2) ''a'') ''a'') (Bin Plus (Dot (Dot (V 2) ''a'') ''a'') (Bin Plus (K (JStr '''')) (Dot (V 2) ''e'')))))]]"

definition object_table38 :: "(string \<times> jfun) list" where
  "object_table38 = code_2549_2549 @ code_2599_2599 @ code_3746_3746 @ code_4159_4159 @ code_4377_4377 @ code_5820_5820 @ code_6111_6111"

text \<open>The names each table declares.\<close>

lemma names_2549_2549 [js_names]: "map fst code_2549_2549 = [
    ''UC'']"
  by (simp add: code_2549_2549_def fn_def)

lemma names_2599_2599 [js_names]: "map fst code_2599_2599 = [
    ''QD'']"
  by (simp add: code_2599_2599_def fn_def)

lemma names_3746_3746 [js_names]: "map fst code_3746_3746 = [
    ''KD'']"
  by (simp add: code_3746_3746_def fn_def)

lemma names_4159_4159 [js_names]: "map fst code_4159_4159 = [
    ''rb'']"
  by (simp add: code_4159_4159_def fn_def)

lemma names_4377_4377 [js_names]: "map fst code_4377_4377 = [
    ''tdb'']"
  by (simp add: code_4377_4377_def fn_def)

lemma names_5820_5820 [js_names]: "map fst code_5820_5820 = [
    ''NC'']"
  by (simp add: code_5820_5820_def fn_def)

lemma names_6111_6111 [js_names]: "map fst code_6111_6111 = [
    ''Smb'']"
  by (simp add: code_6111_6111_def fn_def)

end
