(* ===== verification/ObjectLayer.thy ===== *)
theory ObjectLayer
  imports JsLibrary ObjectTable1 ObjectTable2 ObjectTable3 ObjectTable4 ObjectTable5 ObjectTable6
    ObjectTable7 ObjectTable8 ObjectTable9 ObjectTable10 ObjectTable11 ObjectTable12
    ObjectTable13 ObjectTable14 ObjectTable15 ObjectTable16 ObjectTable17 ObjectTable18
    ObjectTable19 ObjectTable20 ObjectTable21 ObjectTable22 ObjectTable23 ObjectTable24
    ObjectTable25 ObjectTable26 ObjectTable27 ObjectTable28 ObjectTable29 ObjectTable30
    ObjectTable31 ObjectTable32 ObjectTable33 ObjectTable34 ObjectTable35 ObjectTable36
    ObjectTable37 ObjectTable38
begin

text \<open>
  The tables of the worker's object layer linked to one program, and what holds of every function of
  it: the fuel only bounds the depth of calls (\<open>run_mono\<close>), a run never loses an object or changes
  the class of one (\<open>run_store\<close>, from the interface \<open>store_relation\<close>), accessors leave the store as
  it is (\<open>pure_run\<close>), and constructors that only store their arguments give a fresh object with
  exactly these fields (\<open>plain_new\<close>).
\<close>

definition worker_table :: "(string \<times> jfun) list" where
  "worker_table = object_table1 @ object_table2 @ object_table3 @ object_table4 @ object_table5 @
    object_table6 @ object_table7 @ object_table8 @ object_table9 @ object_table10 @
    object_table11 @ object_table12 @ object_table13 @ object_table14 @ object_table15 @
    object_table16 @ object_table17 @ object_table18 @ object_table19 @ object_table20 @
    object_table21 @ object_table22 @ object_table23 @ object_table24 @ object_table25 @
    object_table26 @ object_table27 @ object_table28 @ object_table29 @ object_table30 @
    object_table31 @ object_table32 @ object_table33 @ object_table34 @ object_table35 @
    object_table36 @ object_table37 @ object_table38"

definition worker_prog :: "(string \<Rightarrow> string \<Rightarrow> jval option) \<Rightarrow> jprog" where
  "worker_prog proto = \<lparr>p_fun = (\<lambda>x. find_fn x (worker_table @ js_library)), p_proto = with_arrays proto\<rparr>"

subsection \<open>Fuel\<close>

definition approx :: "('a, 's) outcome \<Rightarrow> ('a, 's) outcome \<Rightarrow> bool" where
  "approx x y \<longleftrightarrow> x = NoFuel \<or> x = y"

lemma approx_refl [simp, intro]: "approx x x"
  by (simp add: approx_def)

lemma bnd_approx [intro]:
  "approx x y \<Longrightarrow> (\<And>a s. approx (k a s) (l a s)) \<Longrightarrow> approx (bnd x k) (bnd y l)"
  by (cases x; cases y; simp add: approx_def; blast)

lemma on_st_approx [intro]: "approx (f (snd e)) (g (snd e)) \<Longrightarrow> approx (on_st f e) (on_st g e)"
  by (auto simp: approx_def on_st_def)

lemma split_approx [intro]:
  "(\<And>u v. z = (u, v) \<Longrightarrow> approx (k u v) (l u v)) \<Longrightarrow> approx (case z of (u, v) \<Rightarrow> k u v) (case z of (u, v) \<Rightarrow> l u v)"
  by (cases z) simp

lemma if_approx [intro]:
  "(b \<Longrightarrow> approx x x') \<Longrightarrow> (\<not> b \<Longrightarrow> approx y y') \<Longrightarrow> approx (if b then x else y) (if b then x' else y')"
  by simp

lemma opt_approx [intro]:
  "(z = None \<Longrightarrow> approx x x') \<Longrightarrow> (\<And>v. z = Some v \<Longrightarrow> approx (k v) (k' v)) \<Longrightarrow>
   approx (case z of None \<Rightarrow> x | Some v \<Rightarrow> k v) (case z of None \<Rightarrow> x' | Some v \<Rightarrow> k' v)"
  by (cases z) simp_all

text \<open>A call behaviour that agrees with another wherever that one has enough fuel.\<close>

locale better_call =
  fixes c d :: jcall
  assumes better: "\<And>f t as s. approx (c f t as s) (d f t as s)"
begin

lemma call_val_approx: "approx (call_val c g t vs e) (call_val d g t vs e)"
  using better by (cases g) (auto simp: call_val_def)

lemma new_val_approx: "approx (new_val c g vs e) (new_val d g vs e)"
  unfolding new_val_def Let_def
  by (cases g) (auto intro!: bnd_approx on_st_approx better split: prod.split)

end

text \<open>The induction runs over all call behaviours, hence outside the interface.\<close>

lemma ev_better:
  "better_call c d \<Longrightarrow> approx (ev p c t a e) (ev p d t a e)"
  "better_call c d \<Longrightarrow> approx (evs p c t as e) (evs p d t as e)"
  "better_call c d \<Longrightarrow> approx (evf p c t fs e) (evf p d t fs e)"
proof (induction p c t a e and p c t as e and p c t fs e rule: ev_evs_evf.induct)
qed (simp_all only: ev.simps evs.simps evf.simps,
     (rule approx_refl bnd_approx if_approx better_call.call_val_approx better_call.new_val_approx | simp)+)

lemma iter_approx: "n \<le> m \<Longrightarrow> (\<And>e. approx (f e) (g e)) \<Longrightarrow> approx (iter n f e) (iter m g e)"
proof (induction n arbitrary: m e)
  case 0
  then show ?case by (simp add: approx_def)
next
  case (Suc n)
  then obtain k where k: "m = Suc k" "n \<le> k" by (cases m) auto
  show ?case unfolding k(1) iter.simps
    by (rule bnd_approx [OF Suc.prems(2)], rule opt_approx [OF Suc.IH [OF k(2) Suc.prems(2)]], rule approx_refl)
qed

lemma caught_approx:
  "approx x y \<Longrightarrow> (\<And>e. approx (h e) (g e)) \<Longrightarrow> approx (caught x i h) (caught y i g)"
  unfolding approx_def [of x y] by (elim disjE; cases y) (simp_all add: approx_def caught_def)

lemma after_approx: "(\<And>e. approx (f e) (g e)) \<Longrightarrow> approx (after_body k f e) (after_body k g e)"
  by (cases k) (simp_all add: after_body_def bnd_approx)

lemma rest_approx: "(\<And>e. approx (f e) (g e)) \<Longrightarrow> approx (then_rest k f e) (then_rest k g e)"
  by (simp add: then_rest_def)

lemma exs_better:
  "better_call c d \<Longrightarrow> n \<le> m \<Longrightarrow> approx (exs p c n t ss e) (exs p d m t ss e)"
  "better_call c d \<Longrightarrow> n \<le> m \<Longrightarrow> approx (excs p c n t w b cs e) (excs p d m t w b cs e)"
proof (induction p c n t ss e and p c n t w b cs e rule: exs_excs.induct)
qed (simp_all only: exs.simps excs.simps,
     (rule approx_refl ev_better bnd_approx iter_approx caught_approx after_approx rest_approx if_approx | assumption | simp)+)

context better_call
begin

lemma run_body_approx: "n \<le> m \<Longrightarrow> approx (run_body p c n f t args s) (run_body p d m f t args s)"
  using exs_better(1) [OF better_call_axioms, of n m p t "f_body f" "(init_vars f args, s)"]
  by (auto simp: approx_def run_body_def)

end

lemma run_Suc_approx: "approx (run p n f t args s) (run p (Suc n) f t args s)"
proof (induction n arbitrary: f t args s)
  case 0
  show ?case by (simp add: approx_def)
next
  case (Suc n)
  then have bc: "better_call (run p n) (run p (Suc n))" by unfold_locales
  show ?case using better_call.run_body_approx [OF bc, of n "Suc n" p]
    by (auto split: option.split)
qed

interpretation more_fuel: better_call "run p n" "run p (Suc n)" for p n
  by unfold_locales (rule run_Suc_approx)

lemma run_mono:
  assumes "run p n f t args s \<noteq> NoFuel"
  shows "run p (n + k) f t args s = run p n f t args s"
proof (induction k)
  case (Suc k)
  with assms run_Suc_approx [of p "n + k" f t args s] show ?case
    unfolding approx_def add_Suc_right by metis
qed simp

subsection \<open>What a run does to the store\<close>

definition leads :: "('s \<Rightarrow> 's \<Rightarrow> bool) \<Rightarrow> 's \<Rightarrow> ('a, 's) outcome \<Rightarrow> bool" where
  "leads R s x = (case x of Ok _ t \<Rightarrow> R s t | Thrown _ t \<Rightarrow> R s t | _ \<Rightarrow> True)"

text \<open>A relation that every primitive change of the store keeps holds of every run.\<close>

locale store_relation =
  fixes R :: "jst \<Rightarrow> jst \<Rightarrow> bool"
  assumes R_refl: "R s s"
    and R_trans: "R s t \<Longrightarrow> R t u \<Longrightarrow> R s u"
    and R_alloc: "R s (snd (alloc c s))"
    and R_field: "j_heap s r = Some ob \<Longrightarrow>
          R s (s\<lparr>j_heap := (j_heap s)(r \<mapsto> ob\<lparr>j_flds := fl\<rparr>)\<rparr>)"
    and R_glob: "R s (s\<lparr>j_glob := gl\<rparr>)"
begin

definition env_rel :: "jenv \<Rightarrow> jenv \<Rightarrow> bool" where
  "env_rel e e' = R (snd e) (snd e')"

definition good_call :: "jcall \<Rightarrow> bool" where
  "good_call c \<longleftrightarrow> (\<forall>f t as s. leads R s (c f t as s))"

lemma bnd_leads:
  assumes "leads R s x" "\<And>a t. x = Ok a t \<Longrightarrow> leads R t (k a t)"
  shows "leads R s (bnd x k)"
  using assms by (cases x) (auto simp: leads_def intro: R_trans split: outcome.splits)

lemma bnd_env:
  assumes "leads env_rel e x" "\<And>a t. x = Ok a t \<Longrightarrow> leads env_rel t (k a t)"
  shows "leads env_rel e (bnd x k)"
  using assms by (cases x) (auto simp: leads_def env_rel_def intro: R_trans split: outcome.splits)

lemma on_st_leads: "leads R (snd e) (f (snd e)) \<Longrightarrow> leads env_rel e (on_st f e)"
  by (auto simp: on_st_def leads_def env_rel_def split: outcome.splits)

lemma ok_env: "R (snd e) (snd e') \<Longrightarrow> leads env_rel e (Ok v e')"
  by (simp add: leads_def env_rel_def)

lemma lift_env: "leads env_rel e (lift_opt x e)"
  by (auto simp: lift_opt_def leads_def env_rel_def R_refl split: option.split)

lemma get_leads: "leads R s (get_prop p v f s)"
  by (auto simp: get_prop_def leads_def R_refl split: jval.split option.split)

lemma get_idx_leads: "leads R s (get_idx p v i s)"
  using get_leads by (auto simp: get_idx_def leads_def R_refl split: jval.split option.split)

lemma put_leads: "leads R s (put_prop v f w s)"
  by (auto simp: put_prop_def leads_def R_refl intro: R_field split: jval.split option.split)

lemma put_idx_leads: "leads R s (put_idx v i w s)"
  unfolding put_idx_def
  by (auto simp: leads_def [of R s "Thrown _ _"] leads_def [of R s Stuck] R_refl
      intro!: bnd_leads put_leads split: jval.split option.split)
     (auto simp: leads_def R_refl)

lemma put_all_leads: "leads R s (put_all_props v fs s)"
proof (induction fs arbitrary: s)
  case (Cons a fs)
  then show ?case by (cases a) (auto intro: bnd_leads put_leads)
qed (simp add: leads_def R_refl)

lemma call_val_leads: "good_call c \<Longrightarrow> leads env_rel e (call_val c g t vs e)"
  by (cases g) (auto simp: call_val_def good_call_def intro!: on_st_leads simp: leads_def [of _ _ Stuck])

lemma alloc_env: "alloc c (snd e) = (r, s) \<Longrightarrow> leads env_rel (fst e, s) x \<Longrightarrow> leads env_rel e x"
  using R_alloc [of "snd e" c] by (auto simp: leads_def env_rel_def intro: R_trans split: outcome.splits)

lemma new_val_leads:
  assumes "good_call c"
  shows "leads env_rel e (new_val c g vs e)"
proof (cases g)
  case (JFun f)
  obtain r s where a: "alloc f (snd e) = (r, s)" by fastforce
  have "leads env_rel (fst e, s) (bnd (on_st (c f (JRef r) vs) (fst e, s))
      (\<lambda>v e'. Ok (case v of JRef q \<Rightarrow> JRef q | _ \<Rightarrow> JRef r) e'))"
    using assms by (auto simp: good_call_def R_refl intro!: bnd_env on_st_leads ok_env)
  from alloc_env [OF a this] show ?thesis using JFun a by (simp add: new_val_def)
qed (simp_all add: new_val_def leads_def)

end

context store_relation
begin

lemma lit_leads:
  "leads env_rel e (let (r, s) = alloc c (snd e) in on_st (put_all_props (JRef r) vs) (fst e, s))"
proof -
  obtain r s where a: "alloc c (snd e) = (r, s)" by fastforce
  have "leads env_rel (fst e, s) (on_st (put_all_props (JRef r) vs) (fst e, s))"
    by (rule on_st_leads) (simp add: put_all_leads)
  from alloc_env [OF a this] show ?thesis using a by simp
qed

lemma lit_leads':
  "leads env_rel (vs', s') (case alloc c s' of (r, s) \<Rightarrow> on_st (put_all_props (JRef r) vs) (vs', s))"
  using lit_leads [of "(vs', s')" c vs] by simp

lemma ev_leads:
  "good_call c \<Longrightarrow> leads env_rel e (ev p c t a e)"
  "good_call c \<Longrightarrow> leads env_rel e (evs p c t as e)"
  "good_call c \<Longrightarrow> leads env_rel e (evf p c t fs e)"
proof (induction p c t a e and p c t as e and p c t fs e rule: ev_evs_evf.induct)
qed (auto simp: R_refl R_glob get_leads put_leads get_idx_leads put_idx_leads leads_def [of _ _ Stuck]
       intro!: bnd_env lit_leads' lift_env ok_env call_val_leads new_val_leads on_st_leads
       split: jval.split if_split)

lemma iter_leads: "(\<And>e. leads env_rel e (f e)) \<Longrightarrow> leads env_rel e (iter n f e)"
proof (induction n arbitrary: e)
  case (Suc n)
  have "leads env_rel e (case r of None \<Rightarrow> iter n f e | Some k \<Rightarrow> Ok k e)" for r e
    by (cases r) (simp_all add: Suc ok_env R_refl)
  then show ?case unfolding iter.simps by (rule bnd_env [OF Suc.prems])
qed (simp add: leads_def)

lemma if_leads: "(b \<Longrightarrow> leads R' e x) \<Longrightarrow> (\<not> b \<Longrightarrow> leads R' e y) \<Longrightarrow> leads R' e (if b then x else y)"
  by simp

lemma caught_leads:
  "leads env_rel e x \<Longrightarrow> (\<And>e. leads env_rel e (h e)) \<Longrightarrow> leads env_rel e (caught x i h)"
proof (cases x)
  case (Thrown v t)
  assume "leads env_rel e x" and h: "\<And>e. leads env_rel e (h e)"
  with Thrown have "R (snd e) (snd t)" by (simp add: leads_def env_rel_def)
  with h [of "((fst t)[i := v], snd t)"] Thrown show ?thesis
    by (auto simp: caught_def leads_def env_rel_def intro: R_trans split: outcome.splits)
qed (simp_all add: caught_def)

lemma after_leads: "(\<And>e. leads env_rel e (f e)) \<Longrightarrow> leads env_rel e (after_body k f e)"
  by (cases k) (simp_all add: after_body_def R_refl bnd_env ok_env)

lemma rest_leads: "(\<And>e. leads env_rel e (f e)) \<Longrightarrow> leads env_rel e (then_rest k f e)"
  by (simp add: then_rest_def R_refl ok_env)

lemma thrown_leads: "leads env_rel e (Thrown v e)"
  by (simp add: leads_def env_rel_def R_refl)

lemma exs_leads:
  "good_call c \<Longrightarrow> leads env_rel e (exs p c n t ss e)"
  "good_call c \<Longrightarrow> leads env_rel e (excs p c n t w b cs e)"
proof (induction p c n t ss e and p c n t w b cs e rule: exs_excs.induct)
qed (simp_all only: exs.simps excs.simps,
     (rule bnd_env iter_leads caught_leads after_leads rest_leads thrown_leads ev_leads if_leads ok_env R_refl
      | assumption | simp only: simp_thms)+)

lemma run_good: "good_call (run p n)"
proof (induction n)
  case (Suc n)
  have "leads R s (run_body p (run p n) n fd t args s)" for fd t args s
    using exs_leads(1) [OF Suc, of "(init_vars fd args, s)" p n t "f_body fd"]
    by (auto simp: run_body_def leads_def env_rel_def split: outcome.splits jend.splits)
  then show ?case by (auto simp: good_call_def leads_def [of _ _ Stuck] split: option.split)
qed (simp add: good_call_def leads_def)

lemma run_leads: "leads R s (run p n f t args s)"
  using run_good by (simp add: good_call_def)

end

text \<open>
  The store grows: addresses below the next free one are the objects, they all stay, and each keeps
  the class of its constructor.
\<close>

definition wf_st :: "jst \<Rightarrow> bool" where
  "wf_st s \<longleftrightarrow> (\<forall>r. j_heap s r = None \<longleftrightarrow> j_next s \<le> r)"

definition grows :: "jst \<Rightarrow> jst \<Rightarrow> bool" where
  "grows s t \<longleftrightarrow> (wf_st s \<longrightarrow> wf_st t \<and> j_next s \<le> j_next t \<and>
     (\<forall>r < j_next s. map_option j_cls (j_heap t r) = map_option j_cls (j_heap s r)))"

interpretation growing: store_relation grows
proof
  fix s t u c r ob fl gl
  show "grows s s" by (simp add: grows_def)
  show "grows s t \<Longrightarrow> grows t u \<Longrightarrow> grows s u" by (auto simp: grows_def)
  show "grows s (snd (alloc c s))" by (auto simp: grows_def wf_st_def alloc_def)
  show "j_heap s r = Some ob \<Longrightarrow> grows s (s\<lparr>j_heap := (j_heap s)(r \<mapsto> ob\<lparr>j_flds := fl\<rparr>)\<rparr>)"
  proof -
    assume ob: "j_heap s r = Some ob"
    have "\<not> j_next s \<le> r" if "wf_st s" using that ob unfolding wf_st_def by (metis option.distinct(1))
    with ob show ?thesis by (auto simp: grows_def wf_st_def)
  qed
  show "grows s (s\<lparr>j_glob := gl\<rparr>)" by (simp add: grows_def wf_st_def)
qed

text \<open>
  Whatever function of the worker's object layer runs, with whatever receiver, arguments and
  fuel, whether it returns or raises: the store stays well-formed, no object is lost and none changes
  its class.
\<close>

theorem run_store:
  "wf_st s \<Longrightarrow>
   (case run (worker_prog proto) n f this args s of
      Ok _ t \<Rightarrow> wf_st t \<and> j_next s \<le> j_next t \<and>
        (\<forall>r < j_next s. map_option j_cls (j_heap t r) = map_option j_cls (j_heap s r))
    | Thrown _ t \<Rightarrow> wf_st t \<and> j_next s \<le> j_next t \<and>
        (\<forall>r < j_next s. map_option j_cls (j_heap t r) = map_option j_cls (j_heap s r))
    | _ \<Rightarrow> True)"
  using growing.run_leads [of s "worker_prog proto" n f this args]
  by (auto simp: leads_def grows_def split: outcome.splits)

text \<open>
  More fuel never changes the outcome of a run that had enough.
\<close>

theorem run_fuel:
  "run (worker_prog proto) n f this args s \<noteq> NoFuel \<Longrightarrow>
   run (worker_prog proto) (n + k) f this args s = run (worker_prog proto) n f this args s"
  by (rule run_mono)

subsection \<open>Accessors\<close>

fun pure_exp :: "jexp \<Rightarrow> bool" where
  "pure_exp (V i) = True"
| "pure_exp This = True"
| "pure_exp (G x) = True"
| "pure_exp (K v) = True"
| "pure_exp (Dot a f) = pure_exp a"
| "pure_exp (Idx a b) = (pure_exp a \<and> pure_exp b)"
| "pure_exp (Neg a) = pure_exp a"
| "pure_exp (Minus1 a) = pure_exp a"
| "pure_exp (Compl a) = pure_exp a"
| "pure_exp (And a b) = (pure_exp a \<and> pure_exp b)"
| "pure_exp (Or a b) = (pure_exp a \<and> pure_exp b)"
| "pure_exp (Cond a b c) = (pure_exp a \<and> pure_exp b \<and> pure_exp c)"
| "pure_exp (Seq a b) = (pure_exp a \<and> pure_exp b)"
| "pure_exp (Same a b) = (pure_exp a \<and> pure_exp b)"
| "pure_exp (Loose a b) = (pure_exp a \<and> pure_exp b)"
| "pure_exp (Bin b' a b) = (pure_exp a \<and> pure_exp b)"
| "pure_exp (Typeof a) = pure_exp a"
| "pure_exp (IsArr a) = pure_exp a"
| "pure_exp _ = False"

definition stays :: "'s \<Rightarrow> ('a, 's) outcome \<Rightarrow> bool" where
  "stays s x = (case x of Ok _ t \<Rightarrow> t = s | Thrown _ t \<Rightarrow> t = s | Stuck \<Rightarrow> True | NoFuel \<Rightarrow> False)"

lemma bnd_stays:
  "stays s x \<Longrightarrow> (\<And>a. x = Ok a s \<Longrightarrow> stays s (k a s)) \<Longrightarrow> stays s (bnd x k)"
  by (cases x) (auto simp: stays_def)

lemma on_st_stays: "stays (snd e) (f (snd e)) \<Longrightarrow> stays e (on_st f e)"
  by (auto simp: on_st_def stays_def split: outcome.splits)

lemma get_stays: "stays s (get_prop p v f s)" "stays s (get_idx p v i s)"
  by (auto simp: get_idx_def get_prop_def stays_def split: jval.split option.split)

lemma ev_stays: "pure_exp a \<Longrightarrow> stays e (ev p c t a e)"
proof (induction a)
qed (auto simp: stays_def [of _ "Ok _ _"] stays_def [of _ Stuck] lift_opt_def get_stays
       intro!: bnd_stays on_st_stays split: option.split jval.split)

fun getter_body :: "jstm list \<Rightarrow> bool" where
  "getter_body [Ret a] = pure_exp a"
| "getter_body _ = False"

definition getter :: "jfun \<Rightarrow> bool" where
  "getter fd = getter_body (f_body fd)"

lemma getter_stays:
  assumes "getter fd"
  shows "stays s (run_body p c n fd t args s)"
proof -
  from assms obtain a where a: "f_body fd = [Ret a]" "pure_exp a"
    unfolding getter_def by (cases "f_body fd" rule: getter_body.cases) auto
  let ?e = "(init_vars fd args, s)"
  from ev_stays [OF a(2), of ?e p c t] show ?thesis
    by (cases "ev p c t a ?e") (auto simp: run_body_def a(1) stays_def)
qed

text \<open>
  A function of the worker whose body returns a call-free, assignment-free expression never
  changes the store and never needs more than one level of fuel.
\<close>

theorem getter_pure:
  "p_fun (worker_prog proto) f = Some fd \<Longrightarrow> getter fd \<Longrightarrow>
   (case run (worker_prog proto) (Suc n) f this args s of
      Ok _ t \<Rightarrow> t = s | Thrown _ t \<Rightarrow> t = s | Stuck \<Rightarrow> True | NoFuel \<Rightarrow> False)"
  using getter_stays [of fd s "worker_prog proto" "run (worker_prog proto) n" n this args]
  by (simp add: stays_def)

subsection \<open>Constructors that store their arguments\<close>

fun plain_stm :: "nat \<Rightarrow> jstm \<Rightarrow> bool" where
  "plain_stm n (Do (Put This f (V i))) = (i < n)"
| "plain_stm n (Do (Put This f (K v))) = True"
| "plain_stm n _ = False"

definition plain :: "jfun \<Rightarrow> bool" where
  "plain fd \<longleftrightarrow> list_all (plain_stm (f_params fd)) (f_body fd)"

fun store_stm :: "jval list \<Rightarrow> jstm \<Rightarrow> (string \<Rightarrow> jval option) \<Rightarrow> (string \<Rightarrow> jval option)" where
  "store_stm vs (Do (Put This f (V i))) m = m(f \<mapsto> vs ! i)"
| "store_stm vs (Do (Put This f (K v))) m = m(f \<mapsto> v)"
| "store_stm vs _ m = m"

definition ctor_fields :: "jfun \<Rightarrow> jval list \<Rightarrow> string \<Rightarrow> jval option" where
  "ctor_fields fd args = fold (store_stm (init_vars fd args)) (f_body fd) (\<lambda>_. None)"

lemma length_init_vars: "length (init_vars fd args) = f_params fd + f_locals fd"
  by (simp add: init_vars_def)

lemma plain_exs:
  assumes "list_all (plain_stm n) ss" "n \<le> length vs" "j_heap s r = Some \<lparr>j_cls = c, j_flds = m\<rparr>"
  shows "exs p call k (JRef r) ss (vs, s) =
    Ok Next (vs, s\<lparr>j_heap := (j_heap s)(r \<mapsto> \<lparr>j_cls = c, j_flds = fold (store_stm vs) ss m\<rparr>)\<rparr>)"
  using assms
proof (induction ss arbitrary: s m)
  case Nil
  have "s = s\<lparr>j_heap := (j_heap s)(r \<mapsto> \<lparr>j_cls = c, j_flds = m\<rparr>)\<rparr>"
    using Nil(3) by (simp add: fun_upd_idem)
  then show ?case unfolding exs.simps fold_simps by metis
next
  case (Cons st ss)
  from Cons.prems(1) obtain f v where st: "\<And>m. store_stm vs st m = m(f \<mapsto> v)"
      "\<And>e. snd e = s \<Longrightarrow> fst e = vs \<Longrightarrow> \<exists>a. st = Do (Put This f a) \<and> ev p call (JRef r) a e = Ok v e"
    using Cons.prems(2) by (cases "(n, st)" rule: plain_stm.cases) auto
  then obtain a where a: "st = Do (Put This f a)" "ev p call (JRef r) a (vs, s) = Ok v (vs, s)" by force
  let ?s = "s\<lparr>j_heap := (j_heap s)(r \<mapsto> \<lparr>j_cls = c, j_flds = m(f \<mapsto> v)\<rparr>)\<rparr>"
  have "exs p call k (JRef r) (st # ss) (vs, s) = exs p call k (JRef r) ss (vs, ?s)"
    using a Cons.prems(3) by (simp add: on_st_def put_prop_def)
  also have "\<dots> = Ok Next (vs, ?s\<lparr>j_heap := (j_heap ?s)(r \<mapsto>
      \<lparr>j_cls = c, j_flds = fold (store_stm vs) ss (m(f \<mapsto> v))\<rparr>)\<rparr>)"
    using Cons.prems by (intro Cons.IH) auto
  finally show ?case by (simp add: st(1) fun_upd_def cong: if_cong)
qed

lemma plain_new:
  assumes "p_fun p f = Some fd" "plain fd"
  shows "new_val (run p (Suc n)) (JFun f) args (vs, s) =
    Ok (JRef (j_next s)) (vs, s\<lparr>j_heap := (j_heap s)(j_next s \<mapsto> \<lparr>j_cls = f, j_flds = ctor_fields fd args\<rparr>),
                               j_next := Suc (j_next s)\<rparr>)"
proof -
  let ?s = "snd (alloc f s)"
  have "j_heap ?s (j_next s) = Some \<lparr>j_cls = f, j_flds = (\<lambda>_. None)\<rparr>" by (simp add: alloc_def)
  from plain_exs [OF assms(2) [unfolded plain_def] _ this, of "init_vars fd args" p "run p n" n]
  have "run p (Suc n) f (JRef (j_next s)) args ?s = Ok JUndef (s\<lparr>j_heap := (j_heap s)(j_next s \<mapsto>
      \<lparr>j_cls = f, j_flds = ctor_fields fd args\<rparr>), j_next := Suc (j_next s)\<rparr>)"
    using assms(1) by (simp add: run_body_def length_init_vars alloc_def ctor_fields_def)
  then show ?thesis using assms(1) by (simp add: new_val_def alloc_def on_st_def)
qed

text \<open>
  \<open>new\<close> of a constructor of the worker that only stores arguments and literals returns a fresh
  object of that constructor, with exactly the fields the constructor names and the values it was
  given; every other object and every static variable is untouched.
\<close>

theorem plain_constructor:
  "p_fun (worker_prog proto) f = Some fd \<Longrightarrow> plain fd \<Longrightarrow>
   new_val (run (worker_prog proto) (Suc n)) (JFun f) args (vs, s) =
     Ok (JRef (j_next s))
       (vs, s\<lparr>j_heap := (j_heap s)(j_next s \<mapsto> \<lparr>j_cls = f, j_flds = ctor_fields fd args\<rparr>),
             j_next := Suc (j_next s)\<rparr>)"
  by (rule plain_new)

subsection \<open>Static singletons made on first use\<close>

text \<open>
  The compiler's idiom \<open>function X(){X=qdb;y=new C}\<close>: the first call replaces the function by the
  empty function \<open>qdb\<close> and makes the value.
\<close>

definition lazy_body :: "string \<Rightarrow> string \<Rightarrow> string \<Rightarrow> jfun" where
  "lazy_body x y c = \<lparr>f_params = 0, f_locals = 0,
     f_body = [Do (SetG x (G ''qdb'')), Do (SetG y (New c []))]\<rparr>"

lemma lazy_run:
  assumes x: "p_fun p x = Some (lazy_body x y c)" and c: "p_fun p c = Some fd" "plain fd"
    and q: "p_fun p ''qdb'' = Some \<lparr>f_params = 0, f_locals = 0, f_body = []\<rparr>"
    and g: "j_glob s x = None" "j_glob s ''qdb'' = None" "j_glob s c = None"
    and ne: "c \<noteq> x" "y \<noteq> x" "y \<noteq> ''qdb''"
    and first: "ev p (run p (Suc (Suc n))) t (Call x []) (vs, s) = r"
  shows "\<exists>s'. r = Ok JUndef (vs, s') \<and> j_glob s' y = Some (JRef (j_next s)) \<and>
     j_heap s' (j_next s) = Some \<lparr>j_cls = c, j_flds = ctor_fields fd []\<rparr> \<and>
     ev p (run p (Suc m)) t (Call x []) (vs, s') = Ok JUndef (vs, s')"
proof (cases "x = ''qdb''")
  case True
  with x q show ?thesis by (simp add: lazy_body_def)
next
  case False
  let ?s1 = "s\<lparr>j_glob := (j_glob s)(x \<mapsto> JFun ''qdb'')\<rparr>"
  let ?s2 = "?s1\<lparr>j_heap := (j_heap s)(j_next s \<mapsto> \<lparr>j_cls = c, j_flds = ctor_fields fd []\<rparr>),
      j_next := Suc (j_next s)\<rparr>"
  let ?s3 = "?s2\<lparr>j_glob := (j_glob ?s2)(y \<mapsto> JRef (j_next s))\<rparr>"
  have new: "new_val (run p (Suc n)) (JFun c) [] ([], ?s1) = Ok (JRef (j_next s)) ([], ?s2)"
    using plain_new [OF c, of n "[]" "[]" ?s1] by simp
  have "run p (Suc (Suc n)) x JUndef [] s = run_body p (run p (Suc n)) (Suc n) (lazy_body x y c) JUndef [] s"
    using x by (simp del: run.simps(2) add: run.simps(2) [of p "Suc n"])
  then have "run p (Suc (Suc n)) x JUndef [] s = Ok JUndef ?s3"
    using q g c(1) ne new False
    by (simp add: run_body_def lazy_body_def init_vars_def glob_val_def lift_opt_def del: run.simps)
  then have r: "r = Ok JUndef (vs, ?s3)"
    using first g x by (simp add: glob_val_def lift_opt_def call_val_def on_st_def del: run.simps)
  moreover have "ev p (run p (Suc m)) t (Call x []) (vs, ?s3) = Ok JUndef (vs, ?s3)"
    using ne q by (simp add: glob_val_def lift_opt_def call_val_def on_st_def run_body_def init_vars_def)
  ultimately show ?thesis by simp
qed

text \<open>
  A static singleton of this form is made once: when the first call returns, the static variable
  holds a fresh object of the class, and every later call, with any receiver and fuel, returns at
  once and changes nothing.
\<close>

theorem lazy_singleton_once:
  "p_fun (worker_prog proto) x = Some (lazy_body x y c) \<Longrightarrow>
   p_fun (worker_prog proto) c = Some fd \<Longrightarrow> plain fd \<Longrightarrow>
   p_fun (worker_prog proto) ''qdb'' = Some \<lparr>f_params = 0, f_locals = 0, f_body = []\<rparr> \<Longrightarrow>
   j_glob s x = None \<Longrightarrow> j_glob s ''qdb'' = None \<Longrightarrow> j_glob s c = None \<Longrightarrow>
   c \<noteq> x \<Longrightarrow> y \<noteq> x \<Longrightarrow> y \<noteq> ''qdb'' \<Longrightarrow>
   \<exists>s'. ev (worker_prog proto) (run (worker_prog proto) (Suc (Suc n))) t (Call x []) (vs, s) =
          Ok JUndef (vs, s') \<and>
        j_glob s' y = Some (JRef (j_next s)) \<and>
        j_heap s' (j_next s) = Some \<lparr>j_cls = c, j_flds = ctor_fields fd []\<rparr> \<and>
        ev (worker_prog proto) (run (worker_prog proto) (Suc m)) t (Call x []) (vs, s') =
          Ok JUndef (vs, s')"
  using lazy_run [of "worker_prog proto" x y c fd s n t vs] by blast

subsection \<open>Concrete functions\<close>

text \<open>Looking a function up in the linked tables.\<close>

lemmas worker_tables = object_table1_defs object_table2_defs object_table3_defs object_table4_defs

lemma worker_found: "find_fn x worker_table = Some fd \<Longrightarrow> p_fun (worker_prog proto) x = Some fd"
  by (simp add: worker_prog_def find_fn_hit)

lemmas table_defs = object_table1_def object_table2_def object_table3_def object_table4_def object_table5_def
  object_table6_def object_table7_def object_table8_def object_table9_def object_table10_def
  object_table11_def object_table12_def object_table13_def object_table14_def
  object_table15_def object_table16_def object_table17_def object_table18_def
  object_table19_def object_table20_def object_table21_def object_table22_def
  object_table23_def object_table24_def object_table25_def object_table26_def
  object_table27_def object_table28_def object_table29_def object_table30_def
  object_table31_def object_table32_def object_table33_def object_table34_def
  object_table35_def object_table36_def object_table37_def object_table38_def

lemma worker_table_flat: "worker_table =
    code_19_159 @ code_160_300 @ code_301_441 @ code_442_582 @ code_583_723 @ code_724_864 @
    code_865_1005 @ code_1006_1146 @ code_1147_1282 @ code_1284_1363 @ code_1366_1510 @
    code_1512_1630 @ code_1632_1758 @ code_1759_1885 @ code_1886_2012 @ code_2013_2137 @
    code_2139_2260 @ code_2261_2382 @ code_2383_2503 @
    code_2504_2548 @ code_2550_2598 @ code_2600_2681 @ code_2683_2703 @
    code_2705_2717 @ code_2719_2743 @ code_2746_2795 @ code_2797_2898 @
    code_2900_2933 @ code_2935_2974 @ code_2976_2995 @ code_2998_3112 @
    code_3114_3197 @ code_3199_3210 @ code_3213_3276 @ code_3278_3304 @
    code_3306_3310 @ code_3313_3378 @ code_3380_3487 @ code_3488_3590 @
    code_3592_3644 @ code_3646_3700 @ code_3706_3731 @ code_3733_3744 @
    code_3747_3773 @ code_3775_3786 @ code_3788_3810 @ code_3812_3856 @
    code_3858_3896 @ code_3898_3972 @ code_3974_4053 @ code_4054_4077 @
    code_4079_4090 @ code_4092_4158 @ code_4160_4227 @ code_4228_4288 @
    code_4289_4300 @ code_4302_4355 @ code_4357_4367 @ code_4372_4376 @
    code_4378_4404 @ code_4406_4417 @ code_4420_4476 @ code_4477_4485 @
    code_4487_4499 @ code_4502_4516 @ code_4518_4529 @ code_4531_4544 @
    code_4546_4599 @ code_4600_4600 @
    code_4601_4638 @ code_4640_4686 @ code_4687_4733 @ code_4734_4734 @
    code_4736_4782 @ code_4783_4827 @ code_4828_4838 @ code_4840_4857 @
    code_4859_4893 @ code_4896_4904 @ code_4908_4948 @ code_4950_4962 @
    code_4964_4971 @ code_4973_4989 @ code_4993_5000 @ code_5011_5011 @
    code_5176_5176 @ code_5201_5201 @ code_5586_5586 @ code_6010_6010 @
    code_6108_6108 @
    code_5001_5010 @ code_5012_5043 @ code_5045_5060 @ code_5063_5070 @ code_5072_5086 @
    code_5088_5090 @ code_5092_5110 @ code_5112_5144 @ code_5145_5154 @ code_5156_5160 @
    code_5162_5175 @ code_5177_5185 @ code_5187_5188 @ code_5191_5200 @ code_5202_5218 @
    code_5220_5248 @ code_5250_5279 @ code_5280_5283 @ code_5286_5313 @ code_5314_5336 @
    code_5338_5339 @ code_5341_5348 @ code_5350_5365 @ code_5367_5378 @ code_5380_5393 @
    code_5395_5413 @ code_5416_5420 @ code_5423_5427 @ code_5429_5455 @ code_5456_5457 @
    code_5459_5483 @ code_5484_5485 @ code_5487_5510 @ code_5511_5516 @ code_5518_5540 @
    code_5541_5545 @ code_5547_5568 @ code_5570_5585 @ code_5588_5596 @ code_5598_5608 @
    code_5610_5622 @ code_5624_5629 @ code_5632_5635 @ code_5637_5638 @ code_5640_5642 @
    code_5644_5665 @ code_5666_5685 @ code_5686_5694 @ code_5696_5697 @ code_5700_5717 @
    code_5719_5728 @ code_5730_5743 @ code_5746_5761 @ code_5762_5778 @ code_5779_5779 @
    code_5781_5786 @ code_5788_5803 @ code_5804_5814 @ code_5816_5819 @ code_5821_5835 @
    code_5837_5850 @ code_5851_5852 @ code_5854_5861 @ code_5863_5870 @ code_5872_5874 @
    code_5879_5892 @ code_5893_5895 @ code_5897_5900 @ code_5902_5905 @ code_5907_5919 @
    code_5925_5930 @ code_5932_5933 @ code_5935_5944 @ code_5946_5950 @ code_5952_5963 @
    code_5964_5975 @ code_5976_5987 @ code_5989_5993 @ code_5995_6003 @ code_6005_6009 @
    code_6011_6019 @ code_6022_6026 @ code_6030_6040 @ code_6041_6042 @ code_6044_6053 @
    code_6054_6063 @ code_6064_6070 @ code_6072_6080 @ code_6081_6088 @ code_6090_6098 @
    code_6099_6106 @ code_6107_6107 @ code_6112_6113 @ code_6115_6122 @ code_6123_6130 @
    code_6131_6138 @ code_6139_6142 @ code_6144_6145 @ code_6147_6153 @ code_6154_6155 @
    code_6157_6164 @ code_6165_6171 @ code_6172_6172 @ code_6175_6180 @ code_6181_6186 @
    code_6187_6188 @ code_6190_6194 @ code_6201_6206 @ code_6207_6211 @ code_6212_6212 @
    code_6214_6218 @ code_6220_6224 @ code_6226_6230 @ code_6231_6231 @ code_6237_6241 @
    code_6242_6242 @ code_6244_6248 @ code_6249_6253 @ code_6254_6258 @ code_6259_6259 @
    code_6267_6270 @ code_6271_6273 @ code_6275_6278 @ code_6279_6282 @ code_6283_6286 @
    code_6287_6287 @ code_6289_6291 @ code_6292_6294 @ code_6295_6295 @ code_6297_6298 @
    code_6302_6303 @ code_6305_6305 @ code_6306_6306 @ code_6307_6307 @ code_6312_6312 @
    code_6313_6313 @ code_6314_6314 @ code_2549_2549 @ code_2599_2599 @
    code_3746_3746 @ code_4159_4159 @ code_4377_4377 @ code_5820_5820 @ code_6111_6111"
  by (simp add: worker_table_def table_defs)

lemma find_qdb: "find_fn ''qdb'' worker_table = Some \<lparr>f_params = 0, f_locals = 0, f_body = []\<rparr>"
  unfolding worker_table_flat
  by (rule find_fn_hit) (simp add: code_19_159_def find_fn_Cons del: find_fn.simps(2))

lemma find_jgd: "find_fn ''jgd'' worker_table = Some \<lparr>f_params = 0, f_locals = 0,
    f_body = [Do (Put This ''a'' (K (JNum 0))), Do (Put This ''b'' (K (JNum 0)))]\<rparr>"
proof -
  have "find_fn ''jgd'' code_1284_1363 = Some \<lparr>f_params = 0, f_locals = 0,
      f_body = [Do (Put This ''a'' (K (JNum 0))), Do (Put This ''b'' (K (JNum 0)))]\<rparr>"
    by (simp add: code_1284_1363_def find_fn_Cons del: find_fn.simps(2))
  note hit = find_fn_hit [OF this]
  show ?thesis unfolding worker_table_flat
    by (simp add: find_fn_skip js_names hit)
qed

lemma find_Yb: "find_fn ''Yb'' worker_table = Some \<lparr>f_params = 1, f_locals = 0,
    f_body = [Do (Put This ''a'' (V 0))]\<rparr>"
proof -
  have "find_fn ''Yb'' code_724_864 = Some \<lparr>f_params = 1, f_locals = 0, f_body = [Do (Put This ''a'' (V 0))]\<rparr>"
    by (simp add: code_724_864_def find_fn_Cons del: find_fn.simps(2))
  note hit = find_fn_hit [OF this]
  show ?thesis unfolding worker_table_flat by (simp add: find_fn_skip js_names hit)
qed

lemma find_t_b: "find_fn ''t_b'' worker_table = Some (lazy_body ''t_b'' ''s_b'' ''jgd'')"
proof -
  have "find_fn ''t_b'' code_1366_1510 = Some (lazy_body ''t_b'' ''s_b'' ''jgd'')"
    by (simp add: code_1366_1510_def lazy_body_def find_fn_Cons del: find_fn.simps(2))
  note hit = find_fn_hit [OF this]
  show ?thesis unfolding worker_table_flat by (simp add: find_fn_skip js_names hit)
qed

text \<open>\<open>kub\<close>, the \<open>hasNext\<close> of the list iterator: \<open>return a.b!=a.d.c\<close>.\<close>

definition kub_fun :: jfun where
  "kub_fun = \<lparr>f_params = 1, f_locals = 0,
     f_body = [Ret (Neg (Loose (Dot (V 0) ''b'') (Dot (Dot (V 0) ''d'') ''c'')))]\<rparr>"

lemma find_kub: "find_fn ''kub'' worker_table = Some kub_fun"
proof -
  have "find_fn ''kub'' code_1366_1510 = Some kub_fun"
    by (simp add: code_1366_1510_def kub_fun_def find_fn_Cons del: find_fn.simps(2))
  note hit = find_fn_hit [OF this]
  show ?thesis unfolding worker_table_flat by (simp add: find_fn_skip js_names hit)
qed

lemma wf_empty: "wf_st empty_st"
  by (simp add: wf_st_def empty_st_def)

abbreviation bare_prog :: jprog where
  "bare_prog \<equiv> worker_prog (\<lambda>_ _. None)"

theorem run_store_witness:
  "\<exists>t. run bare_prog 1 ''Yb'' (JRef 0) [JNum 5] (snd (alloc ''Yb'' empty_st)) = Ok JUndef t \<and>
     map_option j_cls (j_heap t 0) = Some ''Yb''"
proof -
  let ?s = "snd (alloc ''Yb'' empty_st)"
  have wf: "wf_st ?s" by (simp add: wf_st_def alloc_def empty_st_def)
  have run: "\<exists>t. run bare_prog 1 ''Yb'' (JRef 0) [JNum 5] ?s = Ok JUndef t"
    using worker_found [OF find_Yb] by (simp add: run_body_def init_vars_def on_st_def put_prop_def alloc_def empty_st_def)
  have "j_next ?s = 1" "map_option j_cls (j_heap ?s 0) = Some ''Yb''"
    by (simp_all add: alloc_def empty_st_def)
  with run run_store [OF wf, of "\<lambda>_ _. None" 1 "''Yb''" "JRef 0" "[JNum 5]"] show ?thesis by fastforce
qed

theorem run_fuel_witness:
  "run bare_prog 7 ''qdb'' JUndef [] empty_st = Ok JUndef empty_st"
proof -
  have "run bare_prog 1 ''qdb'' JUndef [] empty_st = Ok JUndef empty_st"
    using worker_found [OF find_qdb] by (simp add: run_body_def init_vars_def)
  then show ?thesis using run_fuel [of "\<lambda>_ _. None" 1 "''qdb''" JUndef "[]" empty_st 6] by simp
qed

theorem getter_pure_witness:
  "case run bare_prog 1 ''kub'' JUndef [JNull] empty_st of
     Ok _ t \<Rightarrow> t = empty_st | Thrown _ t \<Rightarrow> t = empty_st | Stuck \<Rightarrow> True | NoFuel \<Rightarrow> False"
  using getter_pure [where proto = "\<lambda>_ _. None" and f = "''kub''" and fd = kub_fun and n = 0
      and this = JUndef and args = "[JNull]" and s = empty_st] worker_found [OF find_kub]
  by (simp add: getter_def kub_fun_def)

theorem plain_constructor_witness:
  "new_val (run bare_prog 1) (JFun ''Yb'') [JNum 5] ([], empty_st) =
     Ok (JRef 0) ([], empty_st\<lparr>j_heap := [0 \<mapsto> \<lparr>j_cls = ''Yb'', j_flds = [''a'' \<mapsto> JNum 5]\<rparr>], j_next := 1\<rparr>)"
  using plain_constructor [of "\<lambda>_ _. None" "''Yb''" _ 0 "[JNum 5]" "[]" empty_st] worker_found [OF find_Yb]
  by (simp add: plain_def ctor_fields_def init_vars_def empty_st_def)

theorem lazy_singleton_once_witness:
  "\<exists>s'. ev bare_prog (run bare_prog 2) JUndef (Call ''t_b'' []) ([], empty_st) = Ok JUndef ([], s') \<and>
     j_glob s' ''s_b'' = Some (JRef 0) \<and>
     ev bare_prog (run bare_prog 1) JUndef (Call ''t_b'' []) ([], s') = Ok JUndef ([], s')"
proof -
  let ?jgd = "\<lparr>f_params = 0, f_locals = 0,
    f_body = [Do (Put This ''a'' (K (JNum 0))), Do (Put This ''b'' (K (JNum 0)))]\<rparr>"
  have p: "p_fun bare_prog ''t_b'' = Some (lazy_body ''t_b'' ''s_b'' ''jgd'')"
    "p_fun bare_prog ''jgd'' = Some ?jgd"
    "p_fun bare_prog ''qdb'' = Some \<lparr>f_params = 0, f_locals = 0, f_body = []\<rparr>"
    using worker_found [OF find_t_b] worker_found [OF find_jgd] worker_found [OF find_qdb] by simp_all
  have "plain ?jgd" by (simp add: plain_def)
  from lazy_singleton_once [OF p(1,2) this p(3), of empty_st 0 JUndef "[]" 0]
  show ?thesis by (auto simp: empty_st_def numeral_2_eq_2)
qed

end
