(* ===== verification/CodeRun.thy ===== *)
theory CodeRun
  imports ObjectCode
begin

text \<open>
  What the proofs about running single functions share: the unfolding of one call, the field view of
  the store and the effect of storing one field, arrays of two elements, and the exactness of 32-bit
  results.
\<close>

subsection \<open>One call\<close>

lemma run_fun: "p_fun p f = Some fd \<Longrightarrow> run p (Suc n) f t as s = run_body p (run p n) n fd t as s"
  by simp

lemmas exec = on_st_def lift_opt_def call_val_def binop_def arith_def
  run_body_def init_vars_def bits32_def Let_def then_rest_def after_body_def

lemma replicate_few: "replicate 2 x = [x, x]" "replicate 3 x = [x, x, x]"
  by (simp_all add: eval_nat_numeral)

subsection \<open>Fields\<close>

definition fld :: "jst \<Rightarrow> nat \<Rightarrow> string \<Rightarrow> jval option" where
  "fld s n f = Option.bind (j_heap s n) (\<lambda>ob. j_flds ob f)"

definition set_fld :: "jst \<Rightarrow> nat \<Rightarrow> string \<Rightarrow> jval \<Rightarrow> jst" where
  "set_fld s n f w = (case j_heap s n of None \<Rightarrow> s
     | Some ob \<Rightarrow> s\<lparr>j_heap := (j_heap s)(n \<mapsto> ob\<lparr>j_flds := (j_flds ob)(f \<mapsto> w)\<rparr>)\<rparr>)"

definition cls :: "jst \<Rightarrow> nat \<Rightarrow> string option" where
  "cls s n = map_option j_cls (j_heap s n)"

lemma fld_cls: "fld s n f = Some v \<Longrightarrow> cls s n \<noteq> None"
  by (auto simp: fld_def cls_def split: Option.bind_splits)

lemma cls_upd [simp]: "cls (set_fld s n f w) = cls s"
  by (auto simp: cls_def set_fld_def fun_eq_iff split: option.split)

lemma fld_upd: "cls s n \<noteq> None \<Longrightarrow> fld (set_fld s n f w) m g = (if m = n \<and> g = f then Some w else fld s m g)"
  by (auto simp: cls_def fld_def set_fld_def split: option.split)

lemma fld_upd_other [simp]: "m \<noteq> n \<or> g \<noteq> f \<Longrightarrow> fld (set_fld s n f w) m g = fld s m g"
  by (auto simp: fld_def set_fld_def split: option.split)

lemma upd_rest [simp]: "j_next (set_fld s n f w) = j_next s" "j_glob (set_fld s n f w) = j_glob s"
  by (simp_all add: set_fld_def split: option.split)

lemma glob_upd [simp]: "glob_val p x (set_fld s n f w) = glob_val p x s"
  by (simp add: glob_val_def)

lemma get_fld: "fld s n f = Some v \<Longrightarrow> get_prop p (JRef n) f s = Ok v s"
  by (auto simp: fld_def get_prop_def split: Option.bind_splits)

lemma put_fld: "cls s n \<noteq> None \<Longrightarrow> put_prop (JRef n) f w s = Ok w (set_fld s n f w)"
  by (auto simp: cls_def put_prop_def set_fld_def split: option.split)

lemma prop_null [simp]: "get_prop p JNull f s = Thrown type_error s" "get_prop p JUndef f s = Thrown type_error s"
  "put_prop JNull f w s = Thrown type_error s" "put_prop JUndef f w s = Thrown type_error s"
  by (simp_all add: get_prop_def put_prop_def)

text \<open>Two stores that differ at most in the fields of the objects in \<open>A\<close>.\<close>

definition same_out :: "nat set \<Rightarrow> jst \<Rightarrow> jst \<Rightarrow> bool" where
  "same_out A s s' \<longleftrightarrow> (\<forall>n. n \<notin> A \<longrightarrow> fld s' n = fld s n) \<and> cls s' = cls s \<and> j_next s' = j_next s \<and> j_glob s' = j_glob s"

lemma same_out_refl [simp, intro]: "same_out A s s"
  by (simp add: same_out_def)

lemma same_out_upd: "n \<in> A \<Longrightarrow> same_out A s s' \<Longrightarrow> same_out A s (set_fld s' n f w)"
  unfolding same_out_def by (metis cls_upd fld_upd_other ext upd_rest)

lemma same_out_trans: "same_out A s s' \<Longrightarrow> same_out B s' s'' \<Longrightarrow> A \<subseteq> C \<Longrightarrow> B \<subseteq> C \<Longrightarrow> same_out C s s''"
  unfolding same_out_def by (metis subsetD)

lemma same_out_mono: "same_out A s s' \<Longrightarrow> A \<subseteq> C \<Longrightarrow> same_out C s s'"
  by (rule same_out_trans [of A s s' A s']) auto

lemma same_outD: "same_out A s s' \<Longrightarrow> n \<notin> A \<Longrightarrow> fld s' n = fld s n" "same_out A s s' \<Longrightarrow> cls s' = cls s"
  "same_out A s s' \<Longrightarrow> j_next s' = j_next s" "same_out A s s' \<Longrightarrow> j_glob s' = j_glob s"
  by (simp_all add: same_out_def)

lemma glob_same: "same_out A s s' \<Longrightarrow> glob_val p x s' = glob_val p x s"
  by (simp add: same_out_def glob_val_def)

subsection \<open>Arrays of two elements\<close>

text \<open>A direction is the index 0 or 1, as in \<open>GwtTree\<close>. An element that was never stored is \<open>undefined\<close>.\<close>

definition ix :: "bool \<Rightarrow> int" where
  "ix d = (if d then 1 else 0)"

definition key_of :: "bool \<Rightarrow> string" where
  "key_of d = (if d then ''1'' else ''0'')"

definition pair_at :: "jst \<Rightarrow> nat \<Rightarrow> bool" where
  "pair_at s a \<longleftrightarrow> cls s a = Some ''Array'' \<and> fld s a ''length'' = Some (JNum 2)"

definition elem :: "jst \<Rightarrow> nat \<Rightarrow> bool \<Rightarrow> jval" where
  "elem s a d = (case fld s a (key_of d) of None \<Rightarrow> JUndef | Some v \<Rightarrow> v)"

lemma ix_simps [simp]: "1 - ix d = ix (\<not> d)" "0 \<le> ix d" "\<not> 2 \<le> ix d" "ix d < 2"
  "exact (ix d)" "ix d = 0 \<longleftrightarrow> \<not> d"
  by (auto simp: ix_def exact_def)

lemma show_01: "show_int 0 = ''0''" "show_int 1 = ''1''"
  by code_simp+

lemma show_ix [simp]: "show_int (ix d) = key_of d"
  by (simp add: ix_def key_of_def show_01)

lemma key_of_simps [simp]: "key_of d \<noteq> ''length''" "key_of d = key_of e \<longleftrightarrow> d = e" "key_of d \<noteq> ''a''" "key_of d \<noteq> ''b''"
    "key_of d \<noteq> ''d''" "key_of d \<noteq> ''e''" "''a'' \<noteq> key_of d" "''b'' \<noteq> key_of d" "''d'' \<noteq> key_of d" "''e'' \<noteq> key_of d"
    "''length'' \<noteq> key_of d"
  by (simp_all add: key_of_def)

lemma pair_cls: "pair_at s a \<Longrightarrow> cls s a \<noteq> None"
  by (simp add: pair_at_def)

lemma pair_len: "pair_at s a \<Longrightarrow> array_len (JRef a) s = Some 2"
  by (auto simp: pair_at_def cls_def fld_def array_len_def split: Option.bind_splits)

lemma pair_upd: "f \<noteq> ''length'' \<or> n \<noteq> a \<Longrightarrow> pair_at (set_fld s n f w) a = pair_at s a"
  by (auto simp: pair_at_def)

lemma get_elem:
  assumes "pair_at s a" "p_proto p ''Array'' (key_of d) = None"
  shows "get_idx p (JRef a) (JNum (ix d)) s = Ok (elem s a d) s"
  using assms pair_len [OF assms(1)]
  by (auto simp: get_idx_def get_prop_def elem_def pair_at_def cls_def fld_def split: Option.bind_splits option.split)

lemma put_elem:
  assumes "pair_at s a"
  shows "put_idx (JRef a) (JNum (ix d)) w s = Ok w (set_fld s a (key_of d) w)"
  using assms pair_len [OF assms] by (simp add: put_idx_def put_fld pair_cls)

lemma get_elem_01:
  assumes "pair_at s a" "p_proto p ''Array'' ''0'' = None" "p_proto p ''Array'' ''1'' = None"
  shows "get_idx p (JRef a) (JNum 0) s = Ok (elem s a False) s" "get_idx p (JRef a) (JNum 1) s = Ok (elem s a True) s"
  using get_elem [OF assms(1), of p False] get_elem [OF assms(1), of p True] assms(2,3)
  by (simp_all add: ix_def key_of_def)

lemma put_elem_01:
  assumes "pair_at s a"
  shows "put_idx (JRef a) (JNum 0) w s = Ok w (set_fld s a (key_of False) w)"
    "put_idx (JRef a) (JNum 1) w s = Ok w (set_fld s a (key_of True) w)"
  using put_elem [OF assms, of False] put_elem [OF assms, of True] by (simp_all add: ix_def)

lemma elem_upd [simp]: "m \<noteq> a \<Longrightarrow> elem (set_fld s m f w) a d = elem s a d"
  "f \<noteq> ''0'' \<Longrightarrow> f \<noteq> ''1'' \<Longrightarrow> elem (set_fld s m f w) a d = elem s a d"
  by (auto simp: elem_def key_of_def)

lemma elem_put: "cls s a \<noteq> None \<Longrightarrow> elem (set_fld s a (key_of e) w) a d = (if d = e then w else elem s a d)"
  by (simp add: elem_def fld_upd)

subsection \<open>Calls of a comparator\<close>

text \<open>An object with a comparator in its field \<open>a\<close>, which is an object of class \<open>cc\<close>.\<close>

definition map_at :: "string \<Rightarrow> jst \<Rightarrow> nat \<Rightarrow> nat \<Rightarrow> bool" where
  "map_at cc s m cr \<longleftrightarrow> fld s m ''a'' = Some (JRef cr) \<and> cls s cr = Some cc \<and> fld s cr ''Le'' = None"

text \<open>
  A program whose objects of class \<open>cc\<close> compare: their method \<open>Le\<close> is the function \<open>le\<close>, which answers
  \<open>cmp\<close> on the values that are a \<open>key\<close> and leaves the store alone.
\<close>

locale comparator_code =
  fixes p :: jprog and le cc :: string and key :: "jst \<Rightarrow> jval \<Rightarrow> bool"
    and cmp :: "jst \<Rightarrow> jval \<Rightarrow> jval \<Rightarrow> int" and lf :: nat
  assumes le_proto: "p_proto p cc ''Le'' = Some (JFun le)"
    and le_run: "lf \<le> n \<Longrightarrow> key s x \<Longrightarrow> key s y \<Longrightarrow> run p n le t [x, y] s = Ok (JNum (cmp s x y)) s"
begin

lemma get_le: "map_at cc s m cr \<Longrightarrow> get_prop p (JRef cr) ''Le'' s = Ok (JFun le) s"
  using le_proto by (auto simp: map_at_def cls_def fld_def get_prop_def split: option.split)

lemma get_cmp: "map_at cc s m cr \<Longrightarrow> get_prop p (JRef m) ''a'' s = Ok (JRef cr) s"
  by (simp add: map_at_def get_fld)

lemma map_at_out: "same_out A s s' \<Longrightarrow> m \<notin> A \<Longrightarrow> cr \<notin> A \<Longrightarrow> map_at cc s' m cr = map_at cc s m cr"
  by (simp add: map_at_def same_out_def)

end

end
