(* ===== verification/GwtLong.thy ===== *)
theory GwtLong
  imports JsNumber
begin

text \<open>
  The 64-bit integers of the layout worker (\<open>layout-worker.js\<close>, emulated by the GWT runtime). A
  long is either a JavaScript number of magnitude below \<open>2^44\<close> or an object with 22, 22 and 20 bits in
  \<open>l\<close>, \<open>m\<close> and \<open>h\<close>. The operations on the objects and the mixed operations are translated one by one,
  and each is shown to compute what 64-bit machine arithmetic computes.
\<close>

subsection \<open>Objects of three parts\<close>

record blong =
  bl_l :: int
  bl_m :: int
  bl_h :: int

definition C_create :: "int \<Rightarrow> int \<Rightarrow> int \<Rightarrow> blong" where
  "C_create a b c = \<lparr>bl_l = a, bl_m = b, bl_h = c\<rparr>"

text \<open>\<open>ZC\<close>: from a 32-bit integer.\<close>

definition ZC :: "int \<Rightarrow> blong" where
  "ZC a = (let b = js_and a 4194303; c = js_and (js_shr a 22) 4194303;
               d = (if a < 0 then 1048575 else 0)
           in C_create b c d)"

definition kD :: "blong \<Rightarrow> blong \<Rightarrow> blong" where
  "kD a b = (let c = bl_l a + bl_l b; d = bl_m a + bl_m b + js_shr c 22; e = bl_h a + bl_h b + js_shr d 22
             in C_create (js_and c 4194303) (js_and d 4194303) (js_and e 1048575))"

definition vD :: "blong \<Rightarrow> blong \<Rightarrow> blong" where
  "vD a b = (let c = bl_l a - bl_l b; d = bl_m a - bl_m b + js_shr c 22; e = bl_h a - bl_h b + js_shr d 22
             in C_create (js_and c 4194303) (js_and d 4194303) (js_and e 1048575))"

definition pD :: "blong \<Rightarrow> blong" where
  "pD a = (let b = js_and (js_not (bl_l a) + 1) 4194303;
               c = js_and (js_not (bl_m a) + (if b = 0 then 1 else 0)) 4194303;
               d = js_and (js_not (bl_h a) + (if b = 0 \<and> c = 0 then 1 else 0)) 1048575
           in C_create b c d)"

definition qD :: "blong \<Rightarrow> blong" where
  "qD a = C_create (js_and (js_not (bl_l a)) 4194303) (js_and (js_not (bl_m a)) 4194303)
            (js_and (js_not (bl_h a)) 1048575)"

definition lD :: "blong \<Rightarrow> blong \<Rightarrow> blong" where
  "lD a b = C_create (js_and (bl_l a) (bl_l b)) (js_and (bl_m a) (bl_m b)) (js_and (bl_h a) (bl_h b))"

definition rD :: "blong \<Rightarrow> blong \<Rightarrow> blong" where
  "rD a b = C_create (js_bor (bl_l a) (bl_l b)) (js_bor (bl_m a) (bl_m b)) (js_bor (bl_h a) (bl_h b))"

definition zD :: "blong \<Rightarrow> blong \<Rightarrow> blong" where
  "zD a b = C_create (js_xor (bl_l a) (bl_l b)) (js_xor (bl_m a) (bl_m b)) (js_xor (bl_h a) (bl_h b))"

text \<open>\<open>mD\<close>: the comparison; only the sign of the result counts.\<close>

definition mD :: "blong \<Rightarrow> blong \<Rightarrow> int" where
  "mD a b = (let i = js_shr (bl_h a) 19; j = js_shr (bl_h b) 19
             in if i \<noteq> j then j - i
                else if bl_h a \<noteq> bl_h b then bl_h a - bl_h b
                else if bl_m a \<noteq> bl_m b then bl_m a - bl_m b
                else bl_l a - bl_l b)"

text \<open>\<open>jD\<close>: subtract in place when the result is not negative. The pair is the result and \<open>a\<close> after.\<close>

definition jD :: "blong \<Rightarrow> blong \<Rightarrow> bool \<times> blong" where
  "jD a b =
     (let e = bl_h a - bl_h b
      in if e < 0 then (False, a)
         else let c = bl_l a - bl_l b; d = bl_m a - bl_m b + js_shr c 22; e' = e + js_shr d 22
              in if e' < 0 then (False, a)
                 else (True, C_create (js_and c 4194303) (js_and d 4194303) (js_and e' 1048575)))"

text \<open>\<open>xD\<close>, \<open>iD\<close>: the low 32 bits as an int, and the exact value of a positive long.\<close>

definition xD :: "blong \<Rightarrow> int" where
  "xD a = js_bor (bl_l a) (js_shl (bl_m a) 22)"

definition iD :: "blong \<Rightarrow> int" where
  "iD a = bl_l a + bl_m a * 4194304 + bl_h a * 17592186044416"

subsection \<open>What a long stands for\<close>

definition bl_ok :: "blong \<Rightarrow> bool" where
  "bl_ok a \<longleftrightarrow> 0 \<le> bl_l a \<and> bl_l a < 4194304 \<and> 0 \<le> bl_m a \<and> bl_m a < 4194304 \<and>
             0 \<le> bl_h a \<and> bl_h a < 1048576"

definition bl_word :: "blong \<Rightarrow> 64 word" where
  "bl_word a = word_of_int (iD a)"

named_theorems bl_simps \<open>fields of the long objects\<close>

lemma create_fields [simp, bl_simps]:
  "bl_l (C_create a b c) = a" "bl_m (C_create a b c) = b" "bl_h (C_create a b c) = c"
  by (simp_all add: C_create_def)

lemma bl_eqI: "bl_l a = bl_l b \<Longrightarrow> bl_m a = bl_m b \<Longrightarrow> bl_h a = bl_h b \<Longrightarrow> a = (b :: blong)"
  by (cases a, cases b) simp

lemma iD_range:
  assumes "bl_ok a"
  shows "0 \<le> iD a" "iD a < 2 ^ 64"
  using assms by (simp_all add: bl_ok_def iD_def)

lemma uint_bl_word:
  assumes "bl_ok a"
  shows "uint (bl_word a) = iD a"
  using iD_range [OF assms] by (simp add: bl_word_def uint_word_of_int_eq take_bit_int_eq_self)

lemma bl_word_inject:
  assumes "bl_ok a" "bl_ok b" "bl_word a = bl_word b"
  shows "a = b"
proof -
  from assms have eq: "iD a = iD b" by (metis uint_bl_word)
  have parts: "bl_l x = iD x mod 4194304" "bl_m x = iD x div 4194304 mod 4194304"
    "bl_h x = iD x div 4194304 div 4194304" if "bl_ok x" for x
  proof -
    define q where "q = bl_m x + 4194304 * bl_h x"
    have i: "iD x = bl_l x + 4194304 * q" by (simp add: iD_def q_def)
    have "iD x mod 4194304 = bl_l x" "iD x div 4194304 = q"
      using that unfolding i bl_ok_def by simp_all
    then show "bl_l x = iD x mod 4194304" "bl_m x = iD x div 4194304 mod 4194304"
      "bl_h x = iD x div 4194304 div 4194304" using that by (simp_all add: bl_ok_def q_def)
  qed
  show ?thesis by (rule bl_eqI) (simp_all only: parts [OF assms(1)] parts [OF assms(2)] eq)
qed

lemma word_of_int_mod64: "(word_of_int x :: 64 word) = word_of_int y \<longleftrightarrow> x mod 2 ^ 64 = y mod 2 ^ 64"
  by (simp add: word_of_int_eq_iff take_bit_eq_mod)

lemma word_cong:
  assumes "x = y + k * 18446744073709551616"
  shows "(word_of_int x :: 64 word) = word_of_int y"
  unfolding word_of_int_mod64 assms by simp

subsection \<open>Sums\<close>

text \<open>The three-part carry chain that addition, subtraction and \<open>jD\<close> share.\<close>

definition chain :: "int \<Rightarrow> int \<Rightarrow> int \<Rightarrow> blong" where
  "chain c d e =
     (let d' = d + js_shr c 22; e' = e + js_shr d' 22
      in C_create (js_and c 4194303) (js_and d' 4194303) (js_and e' 1048575))"

lemma shr22: "- 1073741824 \<le> x \<Longrightarrow> x \<le> 1073741824 \<Longrightarrow> js_shr x 22 = x div 4194304"
  by (simp add: js_shr_id)

lemma chain_ok: "bl_ok (chain c d e)"
  by (simp add: chain_def Let_def bl_ok_def js_masks)

lemma chain_word:
  assumes "\<bar>c\<bar> \<le> 536870912" "\<bar>d\<bar> \<le> 536870912"
  shows "bl_word (chain c d e) = word_of_int (c + d * 4194304 + e * 17592186044416)"
proof -
  define c1 where "c1 = c div 4194304"
  define d1 where "d1 = (d + c1) div 4194304"
  define e1 where "e1 = (e + d1) div 1048576"
  have c1: "js_shr c 22 = c1" using assms by (simp add: c1_def shr22)
  have "- 536870912 div 4194304 \<le> c1" "c1 \<le> 536870912 div 4194304"
    using assms(1) unfolding c1_def by (intro zdiv_mono1; simp)+
  then have "\<bar>c1\<bar> \<le> 128" by simp
  then have d1: "js_shr (d + c1) 22 = d1" using assms(2) by (simp add: d1_def shr22)
  have m: "c mod 4194304 = c - c1 * 4194304" "(d + c1) mod 4194304 = d + c1 - d1 * 4194304"
    "(e + d1) mod 1048576 = e + d1 - e1 * 1048576"
    unfolding c1_def d1_def e1_def by (simp_all add: minus_div_mult_eq_mod [symmetric])
  have "iD (chain c d e) = (c + d * 4194304 + e * 17592186044416) + (- e1) * 18446744073709551616"
    unfolding chain_def Let_def c1 d1 iD_def create_fields js_masks m by (simp add: algebra_simps)
  then show ?thesis unfolding bl_word_def by (rule word_cong)
qed

lemma kD_chain: "kD a b = chain (bl_l a + bl_l b) (bl_m a + bl_m b) (bl_h a + bl_h b)"
  by (simp add: kD_def chain_def Let_def)

lemma vD_chain: "vD a b = chain (bl_l a - bl_l b) (bl_m a - bl_m b) (bl_h a - bl_h b)"
  by (simp add: vD_def chain_def Let_def)

lemma kD_word:
  assumes "bl_ok a" "bl_ok b"
  shows "bl_ok (kD a b)" "bl_word (kD a b) = bl_word a + bl_word b"
proof -
  show "bl_ok (kD a b)" by (simp add: kD_chain chain_ok)
  have "bl_word (kD a b) = word_of_int (iD a + iD b)"
    unfolding kD_chain using assms by (subst chain_word) (auto simp: bl_ok_def iD_def algebra_simps)
  then show "bl_word (kD a b) = bl_word a + bl_word b" by (simp add: bl_word_def)
qed

lemma vD_word:
  assumes "bl_ok a" "bl_ok b"
  shows "bl_ok (vD a b)" "bl_word (vD a b) = bl_word a - bl_word b"
proof -
  show "bl_ok (vD a b)" by (simp add: vD_chain chain_ok)
  have "bl_word (vD a b) = word_of_int (iD a - iD b)"
    unfolding vD_chain using assms by (subst chain_word) (auto simp: bl_ok_def iD_def algebra_simps)
  then show "bl_word (vD a b) = bl_word a - bl_word b" by (simp add: bl_word_def)
qed

subsection \<open>Complement and negation\<close>

lemma neg_mod_pos: "0 \<le> x \<Longrightarrow> x < K \<Longrightarrow> (- x - 1) mod K = K - 1 - (x::int)"
  using mod_pos_pos_trivial [of "K - 1 - x" K] mod_add_self2 [of "- x - 1" K] by (simp add: algebra_simps)

lemma js_not_mask:
  "js_and (js_not x) 4194303 = (- x - 1) mod 4194304" "js_and (js_not x) 1048575 = (- x - 1) mod 1048576"
proof -
  have "(- to_int32 x - 1) mod 2 ^ n = (- x - 1) mod 2 ^ n" if "n \<le> 32" for n
  proof -
    have "(- to_int32 x - 1) mod 2 ^ n = (- (to_int32 x mod 2 ^ n) - 1) mod 2 ^ n"
      by (metis mod_diff_left_eq mod_minus_eq)
    also have "\<dots> = (- x - 1) mod 2 ^ n" unfolding to_int32_mod [OF that]
      by (metis mod_diff_left_eq mod_minus_eq)
    finally show ?thesis .
  qed
  from this [of 22] this [of 20]
  show "js_and (js_not x) 4194303 = (- x - 1) mod 4194304"
    "js_and (js_not x) 1048575 = (- x - 1) mod 1048576"
    by (simp_all add: js_masks js_not_def)
qed

lemma qD_word:
  assumes "bl_ok a"
  shows "bl_ok (qD a)" "bl_word (qD a) = Bit_Operations.not (bl_word a)"
proof -
  have neg: "(- x - 1) mod K = K - 1 - x" if "0 \<le> x" "x < K" for x K :: int
    using that by (rule neg_mod_pos)
  have q: "qD a = C_create (4194303 - bl_l a) (4194303 - bl_m a) (1048575 - bl_h a)"
    using assms by (simp add: qD_def js_not_mask neg bl_ok_def)
  show "bl_ok (qD a)" using assms by (simp add: q bl_ok_def)
  have "iD (qD a) = (- iD a - 1) + 1 * 18446744073709551616" by (simp add: q iD_def)
  then have "bl_word (qD a) = word_of_int (- iD a - 1)" unfolding bl_word_def by (rule word_cong)
  also have "\<dots> = - bl_word a - 1" by (simp add: bl_word_def)
  finally show "bl_word (qD a) = Bit_Operations.not (bl_word a)" by (simp only: not_eq_complement)
qed

lemma not_plus_mask:
  "js_and (js_not x + y) 4194303 = (- x - 1 + y) mod 4194304"
  "js_and (js_not x + y) 1048575 = (- x - 1 + y) mod 1048576"
  using js_not_mask [of x] unfolding js_masks by (metis mod_add_left_eq)+

lemma pD_word:
  assumes "bl_ok a"
  shows "bl_ok (pD a)" "bl_word (pD a) = - bl_word a"
proof -
  have neg: "(- x) mod K = (if x = 0 then 0 else K - x)" if "0 \<le> x" "x < K" for x K :: int
    using that by (auto simp: zmod_zminus1_eq_if)
  from assms have r: "0 \<le> bl_l a" "bl_l a < 4194304" "0 \<le> bl_m a" "bl_m a < 4194304"
    "0 \<le> bl_h a" "bl_h a < 1048576" by (simp_all add: bl_ok_def)
  have l: "js_and (js_not (bl_l a) + 1) 4194303 = (if bl_l a = 0 then 0 else 4194304 - bl_l a)"
    using neg [OF r(1,2)] by (simp add: not_plus_mask)
  have m: "js_and (js_not (bl_m a) + 1) 4194303 = (if bl_m a = 0 then 0 else 4194304 - bl_m a)"
      "js_and (js_not (bl_m a) + 0) 4194303 = 4194303 - bl_m a"
    using neg [OF r(3,4)] neg_mod_pos [OF r(3,4)] by (simp_all add: not_plus_mask js_not_mask)
  have h: "js_and (js_not (bl_h a) + 1) 1048575 = (if bl_h a = 0 then 0 else 1048576 - bl_h a)"
      "js_and (js_not (bl_h a) + 0) 1048575 = 1048575 - bl_h a"
    using neg [OF r(5,6)] neg_mod_pos [OF r(5,6)] by (simp_all add: not_plus_mask js_not_mask)
  have p: "pD a =
      (if bl_l a \<noteq> 0 then C_create (4194304 - bl_l a) (4194303 - bl_m a) (1048575 - bl_h a)
       else if bl_m a \<noteq> 0 then C_create 0 (4194304 - bl_m a) (1048575 - bl_h a)
       else C_create 0 0 (if bl_h a = 0 then 0 else 1048576 - bl_h a))"
  proof -
    have m_if: "js_and (js_not (bl_m a) + (if P then 1 else 0)) 4194303 =
        (if P then if bl_m a = 0 then 0 else 4194304 - bl_m a else 4194303 - bl_m a)" for P
      by (cases P) (simp_all only: m if_True if_False)
    have h_if: "js_and (js_not (bl_h a) + (if P then 1 else 0)) 1048575 =
        (if P then if bl_h a = 0 then 0 else 1048576 - bl_h a else 1048575 - bl_h a)" for P
      by (cases P) (simp_all only: h if_True if_False)
    show ?thesis using r unfolding pD_def Let_def l m_if h_if by simp
  qed
  show "bl_ok (pD a)" using assms by (simp add: p bl_ok_def)
  have "iD (pD a) = - iD a + (if a = C_create 0 0 0 then 0 else 1) * 18446744073709551616"
    using p by (cases a) (simp add: iD_def C_create_def)
  then have "bl_word (pD a) = word_of_int (- iD a)" unfolding bl_word_def by (rule word_cong)
  then show "bl_word (pD a) = - bl_word a" by (simp add: bl_word_def)
qed

subsection \<open>Bitwise operations\<close>

lemma iD_concat:
  assumes "bl_ok a"
  shows "iD a = concat_bit 22 (bl_l a) (concat_bit 22 (bl_m a) (bl_h a))"
proof -
  have "take_bit 22 (bl_l a) = bl_l a" "take_bit 22 (bl_m a) = bl_m a"
    using assms by (simp_all add: bl_ok_def take_bit_int_eq_self)
  then show ?thesis by (simp add: iD_def concat_bit_eq push_bit_eq_mult)
qed

lemma part_ops:
  assumes "0 \<le> x" "x < 2 ^ n" "0 \<le> y" "y < 2 ^ n" "n \<le> 31"
  shows "js_and x y = Bit_Operations.and x y" "js_bor x y = Bit_Operations.or x y"
    "js_xor x y = Bit_Operations.xor x y"
    "0 \<le> js_and x y" "js_and x y < 2 ^ n" "0 \<le> js_bor x y" "js_bor x y < 2 ^ n"
    "0 \<le> js_xor x y" "js_xor x y < 2 ^ n"
proof -
  have "(2::int) ^ n \<le> 2 ^ 31" using assms(5) by (intro power_increasing) simp_all
  then have id: "to_int32 x = x" "to_int32 y = y" using assms by (auto intro!: to_int32_id)
  show eq: "js_and x y = Bit_Operations.and x y" "js_bor x y = Bit_Operations.or x y"
    "js_xor x y = Bit_Operations.xor x y" by (simp_all add: js_and_def js_bor_def js_xor_def id)
  have t: "take_bit n x = x" "take_bit n y = y" using assms by (simp_all add: take_bit_int_eq_self)
  have "take_bit n (Bit_Operations.and x y) = Bit_Operations.and x y"
    "take_bit n (Bit_Operations.or x y) = Bit_Operations.or x y"
    "take_bit n (Bit_Operations.xor x y) = Bit_Operations.xor x y" by (simp_all add: t)
  then show "0 \<le> js_and x y" "js_and x y < 2 ^ n" "0 \<le> js_bor x y" "js_bor x y < 2 ^ n"
    "0 \<le> js_xor x y" "js_xor x y < 2 ^ n"
    unfolding eq by (metis take_bit_nonnegative take_bit_int_less_exp)+
qed

lemma bitwise_ok:
  assumes "bl_ok a" "bl_ok b"
  shows "bl_ok (lD a b)" "bl_ok (rD a b)" "bl_ok (zD a b)"
  using assms part_ops [of "bl_l a" 22 "bl_l b"] part_ops [of "bl_m a" 22 "bl_m b"]
    part_ops [of "bl_h a" 20 "bl_h b"]
  by (simp_all add: bl_ok_def lD_def rD_def zD_def)

lemma bitwise_word:
  assumes "bl_ok a" "bl_ok b"
  shows "bl_word (lD a b) = Bit_Operations.and (bl_word a) (bl_word b)"
    "bl_word (rD a b) = Bit_Operations.or (bl_word a) (bl_word b)"
    "bl_word (zD a b) = Bit_Operations.xor (bl_word a) (bl_word b)"
proof -
  note parts = part_ops [of "bl_l a" 22 "bl_l b"] part_ops [of "bl_m a" 22 "bl_m b"]
    part_ops [of "bl_h a" 20 "bl_h b"]
  have "iD (lD a b) = Bit_Operations.and (iD a) (iD b)" "iD (rD a b) = Bit_Operations.or (iD a) (iD b)"
    "iD (zD a b) = Bit_Operations.xor (iD a) (iD b)"
    unfolding iD_concat [OF assms(1)] iD_concat [OF assms(2)] iD_concat [OF bitwise_ok(1) [OF assms]]
      iD_concat [OF bitwise_ok(2) [OF assms]] iD_concat [OF bitwise_ok(3) [OF assms]]
    using assms parts
    by (auto simp: bl_ok_def lD_def rD_def zD_def bit_concat_bit_iff bit_and_iff bit_or_iff bit_xor_iff
        intro!: bit_eqI)
  then show "bl_word (lD a b) = Bit_Operations.and (bl_word a) (bl_word b)"
    "bl_word (rD a b) = Bit_Operations.or (bl_word a) (bl_word b)"
    "bl_word (zD a b) = Bit_Operations.xor (bl_word a) (bl_word b)"
    by (auto simp: bl_word_def bit_word_of_int_iff bit_and_iff bit_or_iff bit_xor_iff intro!: bit_word_eqI)
qed

subsection \<open>Comparison\<close>

definition bl_sint :: "blong \<Rightarrow> int" where
  "bl_sint a = (if bl_h a < 524288 then iD a else iD a - 18446744073709551616)"

lemma sint_bl_word:
  assumes "bl_ok a"
  shows "sint (bl_word a) = bl_sint a"
proof -
  have "bl_word a = word_of_int (bl_sint a)"
    unfolding bl_word_def by (rule word_cong [where k = "if bl_h a < 524288 then 0 else 1"])
      (simp add: bl_sint_def)
  moreover have "- (2 ^ 63) \<le> bl_sint a" "bl_sint a < 2 ^ 63"
    using assms by (simp_all add: bl_sint_def bl_ok_def iD_def)
  moreover have "sint (word_of_int k :: 64 word) = signed_take_bit 63 k" for k
    by transfer simp
  ultimately show ?thesis by (simp add: signed_take_bit_int_eq_self)
qed

lemma mD_sign:
  assumes "bl_ok a" "bl_ok b"
  shows "mD a b < 0 \<longleftrightarrow> bl_sint a < bl_sint b" "mD a b = 0 \<longleftrightarrow> a = b"
proof -
  have h: "js_shr (bl_h x) 19 = (if bl_h x < 524288 then 0 else 1)" if "bl_ok x" for x
    using that by (auto simp: bl_ok_def js_shr_id)
  from assms show "mD a b < 0 \<longleftrightarrow> bl_sint a < bl_sint b"
    unfolding mD_def Let_def h [OF assms(1)] h [OF assms(2)] bl_sint_def iD_def bl_ok_def by auto
  show "mD a b = 0 \<longleftrightarrow> a = b"
    unfolding mD_def Let_def h [OF assms(1)] h [OF assms(2)] by (auto intro: bl_eqI)
qed

text \<open>\<open>jD\<close> subtracts exactly when the result is not negative.\<close>

lemma jD_sub:
  assumes "bl_ok a" "bl_ok b"
  shows "fst (jD a b) = (iD b \<le> iD a)" "bl_ok (snd (jD a b))"
    "iD (snd (jD a b)) = (if iD b \<le> iD a then iD a - iD b else iD a)"
proof -
  define c where "c = bl_l a - bl_l b"
  define c1 where "c1 = c div 4194304"
  define d where "d = bl_m a - bl_m b + c1"
  define d1 where "d1 = d div 4194304"
  define e where "e = bl_h a - bl_h b + d1"
  have c: "\<bar>c\<bar> < 4194304" using assms by (auto simp: bl_ok_def c_def)
  then have c1: "- 1 \<le> c1" "c1 \<le> 0" by (simp_all add: c1_def)
  have d: "- 4194304 \<le> d" "d < 4194304" using assms c1 by (auto simp: bl_ok_def d_def)
  then have d1: "- 1 \<le> d1" "d1 \<le> 0" by (simp_all add: d1_def)
  have sh: "js_shr c 22 = c1" "js_shr d 22 = d1" using c d by (simp_all add: c1_def d1_def shr22)
  have m: "c mod 4194304 = c - c1 * 4194304" "d mod 4194304 = d - d1 * 4194304"
    unfolding c1_def d1_def by (simp_all add: minus_div_mult_eq_mod [symmetric])
  have low: "0 \<le> c - c1 * 4194304" "c - c1 * 4194304 < 4194304" "0 \<le> d - d1 * 4194304" "d - d1 * 4194304 < 4194304"
    unfolding m [symmetric] by simp_all
  have diff: "iD a - iD b = (c - c1 * 4194304) + (d - d1 * 4194304) * 4194304 + e * 17592186044416"
    by (simp add: iD_def c_def d_def e_def)
  have sign: "e < 0 \<longleftrightarrow> iD a < iD b" using diff low by auto
  have top: "bl_h a - bl_h b < 0 \<Longrightarrow> e < 0" using d1 by (simp add: e_def)
  have small: "e < 1048576" using assms d1 by (auto simp: bl_ok_def e_def)
  have sub: "jD a b = (if e < 0 then (False, a) else (True, C_create (c - c1 * 4194304) (d - d1 * 4194304) e))"
    using top small by (simp add: jD_def Let_def c_def [symmetric] sh(1) d_def [symmetric] sh(2) e_def [symmetric] js_masks m)
  show "fst (jD a b) = (iD b \<le> iD a)" "bl_ok (snd (jD a b))"
    "iD (snd (jD a b)) = (if iD b \<le> iD a then iD a - iD b else iD a)"
    unfolding sub using assms sign low small diff by (auto simp: bl_ok_def iD_def [of "C_create _ _ _"])
qed

subsection \<open>Multiplication\<close>

text \<open>\<open>oD\<close>: 13-bit digits of both factors, column sums, and the carries put back together.\<close>

definition oD :: "blong \<Rightarrow> blong \<Rightarrow> blong" where
  "oD a b =
     (let c = js_and (bl_l a) 8191;
          d = js_bor (js_shr (bl_l a) 13) (js_shl (js_and (bl_m a) 15) 9);
          e = js_and (js_shr (bl_m a) 4) 8191;
          f = js_bor (js_shr (bl_m a) 17) (js_shl (js_and (bl_h a) 255) 5);
          g = js_shr (js_and (bl_h a) 1048320) 8;
          h = js_and (bl_l b) 8191;
          i = js_bor (js_shr (bl_l b) 13) (js_shl (js_and (bl_m b) 15) 9);
          j = js_and (js_shr (bl_m b) 4) 8191;
          k = js_bor (js_shr (bl_m b) 17) (js_shl (js_and (bl_h b) 255) 5);
          l = js_shr (js_and (bl_h b) 1048320) 8;
          B = c * h; C = d * h; D = e * h; F = f * h; G = g * h;
          C = (if i \<noteq> 0 then C + c * i else C); D = (if i \<noteq> 0 then D + d * i else D);
          F = (if i \<noteq> 0 then F + e * i else F); G = (if i \<noteq> 0 then G + f * i else G);
          D = (if j \<noteq> 0 then D + c * j else D); F = (if j \<noteq> 0 then F + d * j else F);
          G = (if j \<noteq> 0 then G + e * j else G);
          F = (if k \<noteq> 0 then F + c * k else F); G = (if k \<noteq> 0 then G + d * k else G);
          G = (if l \<noteq> 0 then G + c * l else G);
          n = js_and B 4194303; p' = js_shl (js_and C 511) 13; m = n + p';
          q = js_shr B 22; r = js_shr C 9; s = js_shl (js_and D 262143) 4; t = js_shl (js_and F 31) 17;
          p = q + r + s + t;
          v = js_shr D 18; w = js_shr F 5; A = js_shl (js_and G 4095) 8;
          u = v + w + A;
          p = p + js_shr m 22; m = js_and m 4194303; u = u + js_shr p 22; p = js_and p 4194303;
          u = js_and u 1048575
      in C_create m p u)"

text \<open>The digits of a part.\<close>

lemma or_disjoint: "0 \<le> x \<Longrightarrow> x < 2 ^ n \<Longrightarrow> Bit_Operations.or x (2 ^ n * y) = x + 2 ^ n * (y::int)"
  using concat_bit_eq [of n x y] concat_bit_def [of n x y]
  by (simp add: take_bit_int_eq_self push_bit_eq_mult mult.commute)

definition dig0 :: "blong \<Rightarrow> int" where "dig0 a = bl_l a mod 8192"
definition dig1 :: "blong \<Rightarrow> int" where "dig1 a = bl_l a div 8192 + bl_m a mod 16 * 512"
definition dig2 :: "blong \<Rightarrow> int" where "dig2 a = bl_m a div 16 mod 8192"
definition dig3 :: "blong \<Rightarrow> int" where "dig3 a = bl_m a div 131072 + bl_h a mod 256 * 32"
definition dig4 :: "blong \<Rightarrow> int" where "dig4 a = bl_h a div 256"

lemmas dig_defs = dig0_def dig1_def dig2_def dig3_def dig4_def

lemma dig_range:
  assumes "bl_ok a"
  shows "0 \<le> dig0 a" "dig0 a < 8192" "0 \<le> dig1 a" "dig1 a < 8192" "0 \<le> dig2 a" "dig2 a < 8192"
    "0 \<le> dig3 a" "dig3 a < 8192" "0 \<le> dig4 a" "dig4 a < 4096"
proof -
  have "0 \<le> bl_l a div 8192" "bl_l a div 8192 < 512" "0 \<le> bl_m a div 131072" "bl_m a div 131072 < 32"
    "0 \<le> bl_h a div 256" "bl_h a div 256 < 4096"
    using assms by (auto simp: bl_ok_def pos_imp_zdiv_nonneg_iff int_div_less_self intro!: div_less_mono)
  moreover have "0 \<le> bl_m a mod 16" "bl_m a mod 16 < 16" "0 \<le> bl_h a mod 256" "bl_h a mod 256 < 256" by simp_all
  moreover have "0 \<le> x + y * 512 \<and> x + y * 512 < 8192" if "0 \<le> x" "x < 512" "0 \<le> y" "y < 16" for x y :: int
    using that by linarith
  moreover have "0 \<le> x + y * 32 \<and> x + y * 32 < 8192" if "0 \<le> x" "x < 32" "0 \<le> y" "y < 256" for x y :: int
    using that by linarith
  ultimately have "0 \<le> dig1 a \<and> dig1 a < 8192" "0 \<le> dig3 a \<and> dig3 a < 8192" "0 \<le> dig4 a \<and> dig4 a < 4096"
    unfolding dig_defs by blast+
  then show "0 \<le> dig0 a" "dig0 a < 8192" "0 \<le> dig1 a" "dig1 a < 8192" "0 \<le> dig2 a" "dig2 a < 8192"
    "0 \<le> dig3 a" "dig3 a < 8192" "0 \<le> dig4 a" "dig4 a < 4096"
    by (simp_all add: dig0_def dig2_def)
qed

lemma dig_sum:
  "iD a = dig0 a + dig1 a * 8192 + dig2 a * 67108864 + dig3 a * 549755813888 + dig4 a * 4503599627370496"
proof -
  have l: "bl_l a = bl_l a div 8192 * 8192 + bl_l a mod 8192" by simp
  have m: "bl_m a = bl_m a div 16 * 16 + bl_m a mod 16" by simp
  have m2: "bl_m a div 16 = bl_m a div 131072 * 8192 + bl_m a div 16 mod 8192"
    using div_mult_mod_eq [of "bl_m a div 16" 8192] by (simp add: zdiv_zmult2_eq [symmetric])
  have h: "bl_h a = bl_h a div 256 * 256 + bl_h a mod 256" by simp
  have sum: "l + m * 4194304 + h * 17592186044416 =
      l0 + (l1 + m0 * 512) * 8192 + m1 * 67108864 + (m2 + h0 * 32) * 549755813888 + h1 * 4503599627370496"
    if "l = l1 * 8192 + l0" "m = (m2 * 8192 + m1) * 16 + m0" "h = h1 * 256 + h0"
    for l m h l0 l1 m0 m1 m2 h0 h1 :: int
    unfolding that by (simp add: algebra_simps)
  show ?thesis unfolding iD_def dig_defs by (rule sum [OF l _ h]) (use m m2 in metis)
qed

lemma js_digits:
  assumes "bl_ok a"
  shows "js_and (bl_l a) 8191 = dig0 a"
    "js_bor (js_shr (bl_l a) 13) (js_shl (js_and (bl_m a) 15) 9) = dig1 a"
    "js_and (js_shr (bl_m a) 4) 8191 = dig2 a"
    "js_bor (js_shr (bl_m a) 17) (js_shl (js_and (bl_h a) 255) 5) = dig3 a"
    "js_shr (js_and (bl_h a) 1048320) 8 = dig4 a"
proof -
  note r = assms [unfolded bl_ok_def]
  have shr: "js_shr (bl_l a) 13 = bl_l a div 8192" "js_shr (bl_m a) 4 = bl_m a div 16"
    "js_shr (bl_m a) 17 = bl_m a div 131072"
    using r by (simp_all add: js_shr_id)
  show "js_and (bl_l a) 8191 = dig0 a" "js_and (js_shr (bl_m a) 4) 8191 = dig2 a"
    by (simp_all add: shr js_masks dig_defs)
  have m: "0 \<le> bl_m a mod 16" "bl_m a mod 16 < 16" "0 \<le> bl_h a mod 256" "bl_h a mod 256 < 256" by simp_all
  have shl: "js_shl (bl_m a mod 16) 9 = 2 ^ 9 * (bl_m a mod 16)" "js_shl (bl_h a mod 256) 5 = 2 ^ 5 * (bl_h a mod 256)"
    using js_shl_id [of "bl_m a mod 16" 9] js_shl_id [of "bl_h a mod 256" 5] m by simp_all
  have orr: "js_bor x (2 ^ n * y) = x + 2 ^ n * y" if "0 \<le> x" "x < 2 ^ n" "0 \<le> y" "2 ^ n * y < 2 ^ 31" "n < 31" for x y n
  proof -
    have "(2::int) ^ n \<le> 2 ^ 31" using that(5) by (intro power_increasing) simp_all
    then have "to_int32 x = x" "to_int32 (2 ^ n * y) = 2 ^ n * y"
      using that by (auto intro!: to_int32_id intro: order_trans [of _ 0])
    then show ?thesis using or_disjoint that by (simp add: js_bor_def)
  qed
  have b: "0 \<le> bl_l a div 8192" "bl_l a div 8192 < 512" "0 \<le> bl_m a div 131072" "bl_m a div 131072 < 32"
    using r by (auto simp: pos_imp_zdiv_nonneg_iff intro!: div_less_mono)
  show "js_bor (js_shr (bl_l a) 13) (js_shl (js_and (bl_m a) 15) 9) = dig1 a"
    using orr [of "bl_l a div 8192" 9 "bl_m a mod 16"] b m by (simp add: shr js_masks shl dig_defs)
  show "js_bor (js_shr (bl_m a) 17) (js_shl (js_and (bl_h a) 255) 5) = dig3 a"
    using orr [of "bl_m a div 131072" 5 "bl_h a mod 256"] b m by (simp add: shr js_masks shl dig_defs)
  have k: "1048320 = push_bit 8 (mask 12 :: int)" by (simp add: push_bit_eq_mult mask_eq_exp_minus_1)
  have "Bit_Operations.and x (push_bit 8 (mask 12)) = push_bit 8 (take_bit 12 (drop_bit 8 x))" for x :: int
    by (rule bit_eqI) (auto simp: bit_simps)
  then have "js_and (bl_h a) 1048320 = push_bit 8 (take_bit 12 (drop_bit 8 (bl_h a)))"
    unfolding k [symmetric] using r by (simp add: js_and_def to_int32_id)
  moreover have "0 \<le> bl_h a div 256" "bl_h a div 256 < 4096"
    using r by (auto simp: pos_imp_zdiv_nonneg_iff intro!: div_less_mono)
  moreover from this have "take_bit 12 (drop_bit 8 (bl_h a)) = bl_h a div 256"
    by (simp add: drop_bit_eq_div take_bit_int_eq_self)
  ultimately show "js_shr (js_and (bl_h a) 1048320) 8 = dig4 a"
    by (simp add: push_bit_eq_mult js_shr_id dig_defs)
qed

text \<open>The columns of the product put back into three parts.\<close>

definition recombine :: "int \<Rightarrow> int \<Rightarrow> int \<Rightarrow> int \<Rightarrow> int \<Rightarrow> blong" where
  "recombine B C D F G =
     chain (js_and B 4194303 + js_shl (js_and C 511) 13)
       (js_shr B 22 + js_shr C 9 + js_shl (js_and D 262143) 4 + js_shl (js_and F 31) 17)
       (js_shr D 18 + js_shr F 5 + js_shl (js_and G 4095) 8)"

lemma oD_columns:
  assumes "bl_ok a" "bl_ok b"
  shows "oD a b = recombine (dig0 a * dig0 b) (dig1 a * dig0 b + dig0 a * dig1 b)
     (dig2 a * dig0 b + dig1 a * dig1 b + dig0 a * dig2 b)
     (dig3 a * dig0 b + dig2 a * dig1 b + dig1 a * dig2 b + dig0 a * dig3 b)
     (dig4 a * dig0 b + dig3 a * dig1 b + dig2 a * dig2 b + dig1 a * dig3 b + dig0 a * dig4 b)"
proof -
  have z: "(if y \<noteq> 0 then s + x * y else s) = s + x * y" for x y s :: int by simp
  show ?thesis
    unfolding oD_def js_digits [OF assms(1)] js_digits [OF assms(2)] Let_def z recombine_def chain_def
    by (rule refl)
qed

lemma shl_mask:
  "js_shl (x mod 512) 13 = x mod 512 * 8192" "js_shl (x mod 262144) 4 = x mod 262144 * 16"
  "js_shl (x mod 32) 17 = x mod 32 * 131072" "js_shl (x mod 4096) 8 = x mod 4096 * 256"
proof -
  have b: "0 \<le> x mod 512" "x mod 512 < 512" "0 \<le> x mod 262144" "x mod 262144 < 262144"
    "0 \<le> x mod 32" "x mod 32 < 32" "0 \<le> x mod 4096" "x mod 4096 < 4096" by simp_all
  show "js_shl (x mod 512) 13 = x mod 512 * 8192" using js_shl_id [of "x mod 512" 13] b by simp
  show "js_shl (x mod 262144) 4 = x mod 262144 * 16" using js_shl_id [of "x mod 262144" 4] b by simp
  show "js_shl (x mod 32) 17 = x mod 32 * 131072" using js_shl_id [of "x mod 32" 17] b by simp
  show "js_shl (x mod 4096) 8 = x mod 4096 * 256" using js_shl_id [of "x mod 4096" 8] b by simp
qed

lemma recombine_word:
  assumes "0 \<le> B" "B < 536870912" "0 \<le> C" "C < 536870912" "0 \<le> D" "D < 536870912"
    "0 \<le> F" "F < 536870912" "0 \<le> G" "G < 536870912"
  shows "bl_word (recombine B C D F G) =
    word_of_int (B + C * 8192 + D * 67108864 + F * 549755813888 + G * 4503599627370496)"
proof -
  define B1 where "B1 = B div 4194304" define B0 where "B0 = B mod 4194304"
  define C1 where "C1 = C div 512" define C0 where "C0 = C mod 512"
  define D1 where "D1 = D div 262144" define D0 where "D0 = D mod 262144"
  define F1 where "F1 = F div 32" define F0 where "F0 = F mod 32"
  define G1 where "G1 = G div 4096" define G0 where "G0 = G mod 4096"
  have eq: "B = B1 * 4194304 + B0" "C = C1 * 512 + C0" "D = D1 * 262144 + D0" "F = F1 * 32 + F0"
    "G = G1 * 4096 + G0"
    unfolding B1_def C1_def D1_def F1_def G1_def B0_def C0_def D0_def F0_def G0_def by simp_all
  have lo: "0 \<le> B0" "B0 < 4194304" "0 \<le> C0" "C0 < 512" "0 \<le> D0" "D0 < 262144" "0 \<le> F0" "F0 < 32"
    unfolding B0_def C0_def D0_def F0_def by simp_all
  have hi: "0 \<le> B1" "B1 < 128" "0 \<le> C1" "C1 < 1048576"
    using assms eq lo by linarith+
  have r: "recombine B C D F G = chain (B0 + C0 * 8192) (B1 + C1 + D0 * 16 + F0 * 131072) (D1 + F1 + G0 * 256)"
    unfolding recombine_def js_masks shl_mask B1_def C1_def D1_def F1_def B0_def C0_def D0_def F0_def G0_def
    using assms by (simp add: js_shr_id)
  have "bl_word (recombine B C D F G) = word_of_int ((B0 + C0 * 8192) +
      (B1 + C1 + D0 * 16 + F0 * 131072) * 4194304 + (D1 + F1 + G0 * 256) * 17592186044416)"
    unfolding r using lo hi by (intro chain_word) linarith+
  also have "\<dots> = word_of_int (B + C * 8192 + D * 67108864 + F * 549755813888 + G * 4503599627370496)"
    by (rule word_cong [where k = "- G1"]) (simp add: eq algebra_simps)
  finally show ?thesis .
qed

lemma oD_word:
  assumes "bl_ok a" "bl_ok b"
  shows "bl_ok (oD a b)" "bl_word (oD a b) = bl_word a * bl_word b"
proof -
  show "bl_ok (oD a b)" unfolding oD_columns [OF assms] recombine_def by (rule chain_ok)
  note ra = dig_range [OF assms(1)] note rb = dig_range [OF assms(2)]
  have pr: "0 \<le> x * y \<and> x * y \<le> 8191 * 8191" if "0 \<le> x" "x < 8192" "0 \<le> y" "y < 8192" for x y :: int
  proof -
    have "x * y \<le> 8191 * 8191" using that by (intro mult_mono) auto
    with that show ?thesis by simp
  qed
  have ra4: "dig4 a < 8192" and rb4: "dig4 b < 8192" using ra(10) rb(10) by simp_all
  have "bl_word (oD a b) = word_of_int (iD a * iD b)" (is "_ = ?w")
  proof -
    have "bl_word (oD a b) = word_of_int (dig0 a * dig0 b + (dig1 a * dig0 b + dig0 a * dig1 b) * 8192 +
      (dig2 a * dig0 b + dig1 a * dig1 b + dig0 a * dig2 b) * 67108864 +
      (dig3 a * dig0 b + dig2 a * dig1 b + dig1 a * dig2 b + dig0 a * dig3 b) * 549755813888 +
      (dig4 a * dig0 b + dig3 a * dig1 b + dig2 a * dig2 b + dig1 a * dig3 b + dig0 a * dig4 b) * 4503599627370496)"
      unfolding oD_columns [OF assms]
      using pr [OF ra(1,2) rb(1,2)] pr [OF ra(3,4) rb(1,2)] pr [OF ra(1,2) rb(3,4)] pr [OF ra(5,6) rb(1,2)]
        pr [OF ra(3,4) rb(3,4)] pr [OF ra(1,2) rb(5,6)] pr [OF ra(7,8) rb(1,2)] pr [OF ra(5,6) rb(3,4)]
        pr [OF ra(3,4) rb(5,6)] pr [OF ra(1,2) rb(7,8)] pr [OF ra(9) ra4 rb(1,2)] pr [OF ra(7,8) rb(3,4)]
        pr [OF ra(5,6) rb(5,6)] pr [OF ra(3,4) rb(7,8)] pr [OF ra(1,2) rb(9) rb4]
      by (intro recombine_word) linarith+
    also have "\<dots> = ?w"
      unfolding dig_sum [of a] dig_sum [of b]
      by (rule word_cong [where k = "- (dig4 a * dig1 b + dig3 a * dig2 b + dig2 a * dig3 b + dig1 a * dig4 b) * 2
          - (dig4 a * dig2 b + dig3 a * dig3 b + dig2 a * dig4 b) * 16384
          - (dig4 a * dig3 b + dig3 a * dig4 b) * 134217728 - dig4 a * dig4 b * 1099511627776"])
        (simp add: algebra_simps)
    finally show ?thesis .
  qed
  then show "bl_word (oD a b) = bl_word a * bl_word b" by (simp add: bl_word_def)
qed

subsection \<open>Longs as numbers or objects\<close>

text \<open>
  A long in the worker: a JavaScript number (\<open>typeof a==='number'\<close>) or an object. The arithmetic on
  two numbers runs in doubles and is kept when the result lies strictly between \<open>-2^44\<close> and \<open>2^44\<close>;
  there the exact integer result is what the double holds (a result outside, exact or rounded, is
  never inside), so the model computes with integers.
\<close>

datatype glong = Small int | Big blong

text \<open>\<open>YD\<close>: a number clamped to 32 bits and truncated; its operand is a quotient here.\<close>

definition YD :: "int \<Rightarrow> int" where
  "YD x = to_int32 (max (min x 2147483647) (- 2147483648))"

definition edb :: "int \<Rightarrow> blong" where
  "edb a = (let e = (if a < 0 then a + 17592186044416 else a); d = (if a < 0 then 1048575 else 0);
                c = YD (e div 4194304); b = YD (e - c * 4194304)
            in C_create b c d)"

definition Pcb :: "blong \<Rightarrow> glong" where
  "Pcb a = (if bl_h a = 0 then Small (bl_l a + bl_m a * 4194304)
            else if bl_h a = 1048575 then Small (bl_l a + bl_m a * 4194304 - 17592186044416)
            else Big a)"

fun big_of :: "glong \<Rightarrow> blong" where
  "big_of (Small a) = edb a"
| "big_of (Big a) = a"

definition fast :: "(int \<Rightarrow> int \<Rightarrow> int) \<Rightarrow> (blong \<Rightarrow> blong \<Rightarrow> blong) \<Rightarrow> glong \<Rightarrow> glong \<Rightarrow> glong" where
  "fast f slow a b =
     (case (a, b) of
        (Small x, Small y) \<Rightarrow>
          (if - 17592186044416 < f x y \<and> f x y < 17592186044416 then Small (f x y)
           else Pcb (slow (edb x) (edb y)))
      | _ \<Rightarrow> Pcb (slow (big_of a) (big_of b)))"

definition Mcb :: "glong \<Rightarrow> glong \<Rightarrow> glong" where "Mcb = fast (+) kD"
definition ddb :: "glong \<Rightarrow> glong \<Rightarrow> glong" where "ddb = fast (-) vD"
definition Ycb :: "glong \<Rightarrow> glong \<Rightarrow> glong" where "Ycb = fast (*) oD"

definition Ncb :: "glong \<Rightarrow> glong \<Rightarrow> glong" where
  "Ncb a b = Pcb (lD (big_of a) (big_of b))"

definition cb_or :: "glong \<Rightarrow> glong \<Rightarrow> glong" where
  "cb_or a b = Pcb (rD (big_of a) (big_of b))"

definition idb :: "glong \<Rightarrow> glong \<Rightarrow> glong" where
  "idb a b = Pcb (zD (big_of a) (big_of b))"

definition Zcb :: "glong \<Rightarrow> glong" where
  "Zcb a = (case a of Small x \<Rightarrow> Small (0 - x) | Big b \<Rightarrow> Pcb (pD b))"

definition Ocb :: "glong \<Rightarrow> glong \<Rightarrow> int" where
  "Ocb a b = (case (a, b) of (Small x, Small y) \<Rightarrow> x - y | _ \<Rightarrow> mD (big_of a) (big_of b))"

definition Wcb :: "glong \<Rightarrow> glong \<Rightarrow> bool" where "Wcb a b \<longleftrightarrow> Ocb a b < 0"
definition Rcb :: "glong \<Rightarrow> glong \<Rightarrow> bool" where "Rcb a b \<longleftrightarrow> Ocb a b = 0"

definition gdb :: "glong \<Rightarrow> int" where
  "gdb a = (case a of Small x \<Rightarrow> to_int32 x | Big b \<Rightarrow> xD b)"

text \<open>The longs that the operations make: small numbers, and objects that are no small number.\<close>

fun gl_ok :: "glong \<Rightarrow> bool" where
  "gl_ok (Small x) = (- 17592186044416 \<le> x \<and> x < 17592186044416)"
| "gl_ok (Big a) = (bl_ok a \<and> bl_h a \<noteq> 0 \<and> bl_h a \<noteq> 1048575)"

fun gl_word :: "glong \<Rightarrow> 64 word" where
  "gl_word (Small x) = word_of_int x"
| "gl_word (Big a) = bl_word a"

lemma YD_id: "0 \<le> x \<Longrightarrow> x < 2147483648 \<Longrightarrow> YD x = x"
  by (simp add: YD_def to_int32_id)

lemma edb_word:
  assumes "- 17592186044416 \<le> a" "a < 17592186044416"
  shows "bl_ok (edb a)" "bl_word (edb a) = word_of_int a" "Pcb (edb a) = Small a"
proof -
  define e where "e = (if a < 0 then a + 17592186044416 else a)"
  define c where "c = e div 4194304"
  define b where "b = e mod 4194304"
  have e: "0 \<le> e" "e < 17592186044416" using assms by (auto simp: e_def)
  have "0 \<le> c" "c < 4194304" using e unfolding c_def by (auto simp: pos_imp_zdiv_nonneg_iff intro!: div_less_mono)
  have b: "0 \<le> b" "b < 4194304" "e = c * 4194304 + b" unfolding b_def c_def by simp_all
  have "YD c = c" "YD (e - c * 4194304) = b" using \<open>0 \<le> c\<close> \<open>c < 4194304\<close> b by (simp_all add: YD_id)
  then have edb: "edb a = C_create b c (if a < 0 then 1048575 else 0)"
    by (simp add: edb_def Let_def flip: e_def c_def)
  show "bl_ok (edb a)" using \<open>0 \<le> c\<close> \<open>c < 4194304\<close> b by (simp add: edb bl_ok_def)
  have "iD (edb a) = a + (if a < 0 then 1 else 0) * 18446744073709551616"
    unfolding edb iD_def using b(3) by (simp add: e_def split: if_splits)
  then show "bl_word (edb a) = word_of_int a" unfolding bl_word_def by (rule word_cong)
  show "Pcb (edb a) = Small a" unfolding edb Pcb_def using b(3) by (simp add: e_def split: if_splits)
qed

lemma big_of_word: "gl_ok a \<Longrightarrow> bl_ok (big_of a)" "gl_ok a \<Longrightarrow> bl_word (big_of a) = gl_word a"
  by (cases a; simp add: edb_word)+

lemma Pcb_word:
  assumes "bl_ok a"
  shows "gl_ok (Pcb a)" "gl_word (Pcb a) = bl_word a"
proof -
  show "gl_ok (Pcb a)" using assms by (simp add: Pcb_def bl_ok_def)
  have "iD a = (bl_l a + bl_m a * 4194304 - 17592186044416) + 1 * 18446744073709551616" if "bl_h a = 1048575"
    using that by (simp add: iD_def)
  note word_cong [OF this]
  then show "gl_word (Pcb a) = bl_word a" by (simp add: Pcb_def bl_word_def iD_def)
qed

lemma fast_word:
  assumes "gl_ok a" "gl_ok b"
    and "\<And>x y. bl_ok x \<Longrightarrow> bl_ok y \<Longrightarrow> bl_ok (slow x y) \<and> bl_word (slow x y) = g (bl_word x) (bl_word y)"
    and "\<And>x y. word_of_int (f x y) = g (word_of_int x) (word_of_int y)"
  shows "gl_ok (fast f slow a b) \<and> gl_word (fast f slow a b) = g (gl_word a) (gl_word b)"
proof -
  have slow: "gl_ok (Pcb (slow (big_of a) (big_of b))) \<and>
      gl_word (Pcb (slow (big_of a) (big_of b))) = g (gl_word a) (gl_word b)"
    using assms(3) [OF big_of_word(1) big_of_word(1), OF assms(1,2)] Pcb_word big_of_word(2) assms(1,2) by simp
  show ?thesis
  proof (cases "\<exists>x y. a = Small x \<and> b = Small y")
    case True
    then obtain x y where xy: "a = Small x" "b = Small y" by blast
    show ?thesis using slow assms(4) [of x y] unfolding xy fast_def by simp
  next
    case False
    then have "fast f slow a b = Pcb (slow (big_of a) (big_of b))"
      by (auto simp: fast_def split: glong.splits)
    with slow show ?thesis by simp
  qed
qed

lemma sint_small:
  assumes "- 17592186044416 \<le> x" "x < 17592186044416"
  shows "sint (word_of_int x :: 64 word) = x"
proof -
  have "sint (word_of_int k :: 64 word) = signed_take_bit 63 k" for k by transfer simp
  with assms show ?thesis by (simp add: signed_take_bit_int_eq_self)
qed

lemma compare_word:
  assumes "gl_ok a" "gl_ok b"
  shows "Ocb a b < 0 \<longleftrightarrow> sint (gl_word a) < sint (gl_word b)" "Ocb a b = 0 \<longleftrightarrow> gl_word a = gl_word b"
proof -
  have slow: "mD (big_of a) (big_of b) < 0 \<longleftrightarrow> sint (gl_word a) < sint (gl_word b)"
    "mD (big_of a) (big_of b) = 0 \<longleftrightarrow> gl_word a = gl_word b"
    using mD_sign [OF big_of_word(1) big_of_word(1), OF assms] sint_bl_word [OF big_of_word(1), OF assms(1)]
      sint_bl_word [OF big_of_word(1), OF assms(2)] big_of_word(2) [OF assms(1)] big_of_word(2) [OF assms(2)]
      bl_word_inject [OF big_of_word(1) big_of_word(1), OF assms] by auto
  have "Ocb a b < 0 \<longleftrightarrow> sint (gl_word a) < sint (gl_word b) \<and> True" if "a = Small x" "b = Small y" for x y
    using assms that by (simp add: Ocb_def sint_small)
  moreover have "Ocb a b = 0 \<longleftrightarrow> gl_word a = gl_word b" if "a = Small x" "b = Small y" for x y
  proof -
    have "x = y" if "(word_of_int x :: 64 word) = word_of_int y"
      using sint_small [of x] sint_small [of y] assms \<open>a = Small x\<close> \<open>b = Small y\<close> that by (metis gl_ok.simps(1))
    with that show ?thesis by (auto simp: Ocb_def)
  qed
  ultimately show "Ocb a b < 0 \<longleftrightarrow> sint (gl_word a) < sint (gl_word b)" "Ocb a b = 0 \<longleftrightarrow> gl_word a = gl_word b"
    using slow by (cases a; cases b; simp add: Ocb_def)+
qed

text \<open>
  Claim C12. Addition, subtraction and multiplication of the worker's longs are those of 64-bit machine
  words, with wrap-around, in every mixture of numbers and objects, and the results are in the form
  that the operations expect.
\<close>

theorem long_arithmetic:
  "gl_ok a \<Longrightarrow> gl_ok b \<Longrightarrow>
     gl_ok (Mcb a b) \<and> gl_word (Mcb a b) = gl_word a + gl_word b \<and>
     gl_ok (ddb a b) \<and> gl_word (ddb a b) = gl_word a - gl_word b \<and>
     gl_ok (Ycb a b) \<and> gl_word (Ycb a b) = gl_word a * gl_word b"
  unfolding Mcb_def ddb_def Ycb_def
  using fast_word [of a b kD "(+)" "(+)"] fast_word [of a b vD "(-)" "(-)"] fast_word [of a b oD "(*)" "(*)"]
    kD_word vD_word oD_word by simp

theorem long_arithmetic_witness:
  "gl_word (Ycb (Small 17592186044415) (Small 17592186044415)) =
     (word_of_int 17592186044415 * word_of_int 17592186044415 :: 64 word)"
  using long_arithmetic [of "Small 17592186044415" "Small 17592186044415"] by simp

text \<open>
  The bitwise operations of the worker's longs are those of 64-bit words.
\<close>

theorem long_bitwise:
  "gl_ok a \<Longrightarrow> gl_ok b \<Longrightarrow>
     gl_ok (Ncb a b) \<and> gl_word (Ncb a b) = Bit_Operations.and (gl_word a) (gl_word b) \<and>
     gl_ok (cb_or a b) \<and> gl_word (cb_or a b) = Bit_Operations.or (gl_word a) (gl_word b) \<and>
     gl_ok (idb a b) \<and> gl_word (idb a b) = Bit_Operations.xor (gl_word a) (gl_word b)"
  unfolding Ncb_def cb_or_def idb_def
  using big_of_word bitwise_ok [of "big_of a" "big_of b"] bitwise_word [of "big_of a" "big_of b"] Pcb_word by simp

theorem long_bitwise_witness:
  "gl_word (Ncb (Small (- 1)) (Small 12)) = Bit_Operations.and (word_of_int (- 1)) (word_of_int 12)"
  using long_bitwise [of "Small (- 1)" "Small 12"] by simp

text \<open>
  The comparisons of the worker's longs are those of signed 64-bit integers.
\<close>

theorem long_compare:
  "gl_ok a \<Longrightarrow> gl_ok b \<Longrightarrow>
     Wcb a b = (sint (gl_word a) < sint (gl_word b)) \<and> Rcb a b = (gl_word a = gl_word b)"
  unfolding Wcb_def Rcb_def using compare_word by blast

theorem long_compare_witness:
  "Wcb (Small (- 5)) (Big (C_create 0 0 1)) =
     (sint (word_of_int (- 5) :: 64 word) < sint (bl_word (C_create 0 0 1)))"
  using long_compare [of "Small (- 5)" "Big (C_create 0 0 1)"] by (simp add: bl_ok_def)

text \<open>
  Claim C38. Negation is that of 64-bit words, but its result leaves the expected form for exactly one
  operand: \<open>-2^44\<close>, which addition does produce as a number; and a bitwise operation on the result
  then loses its only bit.
\<close>

theorem long_negation:
  "(\<forall>a. gl_ok a \<longrightarrow> gl_word (Zcb a) = - gl_word a \<and> (gl_ok (Zcb a) \<longleftrightarrow> a \<noteq> Small (- 17592186044416))) \<and>
   Mcb (Small (- 1)) (Small (- 17592186044415)) = Small (- 17592186044416) \<and>
   Ncb (Zcb (Small (- 17592186044416))) (Small (- 1)) = Small 0"
proof -
  have neg: "gl_word (Zcb a) = - gl_word a \<and> (gl_ok (Zcb a) \<longleftrightarrow> a \<noteq> Small (- 17592186044416))"
    if "gl_ok a" for a
    using that by (cases a) (auto simp: Zcb_def pD_word Pcb_word)
  have add: "Mcb (Small (- 1)) (Small (- 17592186044415)) = Small (- 17592186044416)"
    by (simp add: Mcb_def fast_def kD_def Let_def edb_def YD_def to_int32_def js_masks js_shr_def
        Pcb_def)
  have "js_and 4194304 4194303 = 0" "js_and 0 4194303 = 0" "js_and 0 1048575 = 0" by (simp_all add: js_masks)
  then have "Ncb (Zcb (Small (- 17592186044416))) (Small (- 1)) = Small 0"
    by (simp add: Ncb_def Zcb_def edb_def YD_def to_int32_def lD_def Pcb_def Let_def)
  with neg add show ?thesis by blast
qed

theorem long_negation_witness:
  "gl_word (Zcb (Small 7)) = - gl_word (Small 7)"
proof -
  from long_negation have "gl_ok (Small 7) \<longrightarrow> gl_word (Zcb (Small 7)) = - gl_word (Small 7)" by blast
  then show ?thesis by (rule mp) simp
qed

end
