(* ===== verification/LongCode.thy ===== *)
theory LongCode
  imports CodeRun GwtLong
begin

text \<open>
  The code of the 64-bit integers, as the tables have it, runs as the functions of \<open>GwtLong\<close> say: on
  two long objects of a store an operation returns a fresh object that holds the value, and changes
  nothing else. The interface \<open>long_code\<close> is a program with these functions; \<open>CodeLinks\<close> shows that
  the worker is one.
\<close>

subsection \<open>The functions\<close>

definition C_fun :: jfun where
  "C_fun = \<lparr>f_params = 3, f_locals = 0, f_body =
     [Ret (NewLit [(''l'', V 0), (''m'', V 1), (''h'', V 2)])]\<rparr>"

definition kD_fun :: jfun where
  "kD_fun = \<lparr>f_params = 2, f_locals = 3, f_body =
     [Do (SetV 2 (Bin Plus (Dot (V 0) ''l'') (Dot (V 1) ''l''))), Do (SetV 3 (Bin Plus (Bin Plus
     (Dot (V 0) ''m'') (Dot (V 1) ''m'')) (Bin Shr (V 2) (K (JNum 22))))), Do (SetV 4 (Bin Plus (Bin
     Plus (Dot (V 0) ''h'') (Dot (V 1) ''h'')) (Bin Shr (V 3) (K (JNum 22))))), Ret (Call ''_C''
     [Bin BitAnd (V 2) (G ''rve''), Bin BitAnd (V 3) (G ''rve''), Bin BitAnd (V 4) (G ''sve'')])]\<rparr>"

definition vD_fun :: jfun where
  "vD_fun = \<lparr>f_params = 2, f_locals = 3, f_body =
     [Do (SetV 2 (Bin Minus (Dot (V 0) ''l'') (Dot (V 1) ''l''))), Do (SetV 3 (Bin Plus (Bin Minus
     (Dot (V 0) ''m'') (Dot (V 1) ''m'')) (Bin Shr (V 2) (K (JNum 22))))), Do (SetV 4 (Bin Plus (Bin
     Minus (Dot (V 0) ''h'') (Dot (V 1) ''h'')) (Bin Shr (V 3) (K (JNum 22))))), Ret (Call ''_C''
     [Bin BitAnd (V 2) (G ''rve''), Bin BitAnd (V 3) (G ''rve''), Bin BitAnd (V 4) (G ''sve'')])]\<rparr>"

definition pD_fun :: jfun where
  "pD_fun = \<lparr>f_params = 1, f_locals = 3, f_body =
     [Do (SetV 1 (Bin BitAnd (Bin Plus (Compl (Dot (V 0) ''l'')) (K (JNum 1))) (G ''rve''))), Do
     (SetV 2 (Bin BitAnd (Bin Plus (Compl (Dot (V 0) ''m'')) (Cond (Loose (V 1) (K (JNum 0))) (K
     (JNum 1)) (K (JNum 0)))) (G ''rve''))), Do (SetV 3 (Bin BitAnd (Bin Plus (Compl (Dot (V 0)
     ''h'')) (Cond (And (Loose (V 1) (K (JNum 0))) (Loose (V 2) (K (JNum 0)))) (K (JNum 1)) (K (JNum
     0)))) (G ''sve''))), Ret (Call ''_C'' [V 1, V 2, V 3])]\<rparr>"

definition qD_fun :: jfun where
  "qD_fun = \<lparr>f_params = 1, f_locals = 0, f_body =
     [Ret (Call ''_C'' [Bin BitAnd (Compl (Dot (V 0) ''l'')) (G ''rve''), Bin BitAnd (Compl (Dot (V
     0) ''m'')) (G ''rve''), Bin BitAnd (Compl (Dot (V 0) ''h'')) (G ''sve'')])]\<rparr>"

definition lD_fun :: jfun where
  "lD_fun = \<lparr>f_params = 2, f_locals = 0, f_body =
     [Ret (Call ''_C'' [Bin BitAnd (Dot (V 0) ''l'') (Dot (V 1) ''l''), Bin BitAnd (Dot (V 0) ''m'')
     (Dot (V 1) ''m''), Bin BitAnd (Dot (V 0) ''h'') (Dot (V 1) ''h'')])]\<rparr>"

definition rD_fun :: jfun where
  "rD_fun = \<lparr>f_params = 2, f_locals = 0, f_body =
     [Ret (Call ''_C'' [Bin BitOr (Dot (V 0) ''l'') (Dot (V 1) ''l''), Bin BitOr (Dot (V 0) ''m'')
     (Dot (V 1) ''m''), Bin BitOr (Dot (V 0) ''h'') (Dot (V 1) ''h'')])]\<rparr>"

definition zD_fun :: jfun where
  "zD_fun = \<lparr>f_params = 2, f_locals = 0, f_body =
     [Ret (Call ''_C'' [Bin BitXor (Dot (V 0) ''l'') (Dot (V 1) ''l''), Bin BitXor (Dot (V 0) ''m'')
     (Dot (V 1) ''m''), Bin BitXor (Dot (V 0) ''h'') (Dot (V 1) ''h'')])]\<rparr>"

definition mD_fun :: jfun where
  "mD_fun = \<lparr>f_params = 2, f_locals = 8, f_body =
     [Do (SetV 8 (Bin Shr (Dot (V 0) ''h'') (K (JNum 19)))), Do (SetV 9 (Bin Shr (Dot (V 1) ''h'')
     (K (JNum 19)))), When (Neg (Loose (V 8) (V 9))) [Ret (Bin Minus (V 9) (V 8))] [], Do (SetV 4
     (Dot (V 0) ''h'')), Do (SetV 7 (Dot (V 1) ''h'')), When (Neg (Loose (V 4) (V 7))) [Ret (Bin
     Minus (V 4) (V 7))] [], Do (SetV 3 (Dot (V 0) ''m'')), Do (SetV 6 (Dot (V 1) ''m'')), When (Neg
     (Loose (V 3) (V 6))) [Ret (Bin Minus (V 3) (V 6))] [], Do (SetV 2 (Dot (V 0) ''l'')), Do (SetV
     5 (Dot (V 1) ''l'')), Ret (Bin Minus (V 2) (V 5))]\<rparr>"

definition jD_fun :: jfun where
  "jD_fun = \<lparr>f_params = 2, f_locals = 3, f_body =
     [Do (SetV 4 (Bin Minus (Dot (V 0) ''h'') (Dot (V 1) ''h''))), When (Bin Lt (V 4) (K (JNum 0)))
     [Ret (K (JBool False))] [], Do (SetV 2 (Bin Minus (Dot (V 0) ''l'') (Dot (V 1) ''l''))), Do
     (SetV 3 (Bin Plus (Bin Minus (Dot (V 0) ''m'') (Dot (V 1) ''m'')) (Bin Shr (V 2) (K (JNum
     22))))), Do (SetV 4 (Bin Plus (V 4) (Bin Shr (V 3) (K (JNum 22))))), When (Bin Lt (V 4) (K
     (JNum 0))) [Ret (K (JBool False))] [], Do (Put (V 0) ''l'' (Bin BitAnd (V 2) (G ''rve''))), Do
     (Put (V 0) ''m'' (Bin BitAnd (V 3) (G ''rve''))), Do (Put (V 0) ''h'' (Bin BitAnd (V 4) (G
     ''sve''))), Ret (K (JBool True))]\<rparr>"

subsection \<open>Longs in the store\<close>

definition long_obj :: "blong \<Rightarrow> jobj" where
  "long_obj x = \<lparr>j_cls = ''Object'', j_flds =
     [''l'' \<mapsto> JNum (bl_l x), ''m'' \<mapsto> JNum (bl_m x), ''h'' \<mapsto> JNum (bl_h x)]\<rparr>"

definition long_at :: "jst \<Rightarrow> nat \<Rightarrow> blong \<Rightarrow> bool" where
  "long_at s r x \<longleftrightarrow> j_heap s r = Some (long_obj x) \<and> bl_ok x"

text \<open>The store with one more long.\<close>

definition with_long :: "jst \<Rightarrow> blong \<Rightarrow> jst" where
  "with_long s x = s\<lparr>j_heap := (j_heap s)(j_next s \<mapsto> long_obj x), j_next := Suc (j_next s)\<rparr>"

text \<open>The masks are globals of the worker, and no global hides the constructor.\<close>

definition masks_set :: "jst \<Rightarrow> bool" where
  "masks_set s \<longleftrightarrow> j_glob s ''rve'' = Some (JNum 4194303) \<and> j_glob s ''sve'' = Some (JNum 1048575) \<and>
     j_glob s ''_C'' = None"

subsection \<open>Evaluation of 32-bit operations\<close>

lemma signed_range: "- (2 ^ 31) \<le> x \<Longrightarrow> x < 2 ^ 31 \<Longrightarrow> signed_take_bit 31 x = (x::int)"
  by (simp add: signed_take_bit_int_eq_self_iff)

lemma range_signed: "signed_take_bit 31 x = (x::int) \<Longrightarrow> - (2 ^ 31) \<le> x \<and> x < 2 ^ 31"
  by (simp add: signed_take_bit_int_eq_self_iff)

lemma signed_bits:
  "signed_take_bit n (Bit_Operations.and x y) = Bit_Operations.and (signed_take_bit n x) (signed_take_bit n (y::int))"
  "signed_take_bit n (Bit_Operations.or x y) = Bit_Operations.or (signed_take_bit n x) (signed_take_bit n (y::int))"
  "signed_take_bit n (Bit_Operations.xor x y) = Bit_Operations.xor (signed_take_bit n x) (signed_take_bit n (y::int))"
  by (rule bit_eqI, simp add: bit_simps)+

lemma bits_range:
  "- (2 ^ 31) \<le> js_and x y \<and> js_and x y < 2 ^ 31"
  "- (2 ^ 31) \<le> js_bor x y \<and> js_bor x y < 2 ^ 31"
  "- (2 ^ 31) \<le> js_xor x y \<and> js_xor x y < 2 ^ 31"
proof -
  have s: "signed_take_bit 31 (to_int32 z) = to_int32 z" for z
    by (intro signed_range to_int32_range)
  show "- (2 ^ 31) \<le> js_and x y \<and> js_and x y < 2 ^ 31" "- (2 ^ 31) \<le> js_bor x y \<and> js_bor x y < 2 ^ 31"
    "- (2 ^ 31) \<le> js_xor x y \<and> js_xor x y < 2 ^ 31"
    unfolding js_and_def js_bor_def js_xor_def by (rule range_signed, simp only: s signed_bits)+
qed

lemma div_range:
  fixes K x d :: int
  assumes "- K \<le> x" "x < K" "0 < d"
  shows "- K \<le> x div d \<and> x div d < K"
proof -
  have "x div d < K" if "0 \<le> x" using that assms(2) zdiv_mono2 [of x 1 d] assms(3) by simp
  moreover have "x div d < K" if "x < 0" using that assms pos_imp_zdiv_neg_iff [of d x] by linarith
  moreover have "- K \<le> x div d" if "0 \<le> x" using that assms pos_imp_zdiv_nonneg_iff [of d x] by linarith
  moreover have "- K \<le> x div d" if "x < 0" using that assms zdiv_mono2_neg [of x 1 d] by simp
  ultimately show ?thesis by linarith
qed

lemma shr_range: "- (2 ^ 31) \<le> js_shr x k \<and> js_shr x k < 2 ^ 31"
  unfolding js_shr_def by (intro div_range to_int32_range) simp

text \<open>A 32-bit result, and a sum of a few parts, is always exact.\<close>

lemma exact_bits [simp]: "exact (js_and x y)" "exact (js_bor x y)" "exact (js_xor x y)" "exact (js_shr x k)"
  using bits_range [of x y] shr_range [of x k] by (auto simp: exact_def)

lemma exact_small: "\<bar>x\<bar> \<le> 8589934592 \<Longrightarrow> exact x"
  by (simp add: exact_def)

lemma shr_abs: "\<bar>js_shr x k\<bar> \<le> 2147483648"
  using shr_range [of x k] by auto

lemma part_exact:
  assumes "bl_ok x" "bl_ok y"
  shows "exact (bl_l x + bl_l y)" "exact (bl_m x + bl_m y)" "exact (bl_h x + bl_h y)"
    "exact (bl_l x - bl_l y)" "exact (bl_m x - bl_m y)" "exact (bl_h x - bl_h y)"
    "exact (bl_m x + bl_m y + js_shr z k)" "exact (bl_h x + bl_h y + js_shr z k)"
    "exact (bl_m x - bl_m y + js_shr z k)" "exact (bl_h x - bl_h y + js_shr z k)"
  using assms shr_abs [of z k] by (auto intro!: exact_small simp: bl_ok_def abs_le_iff)

lemma shr_diff_exact: "exact (js_shr w k - js_shr z k)"
  using shr_abs [of z k] shr_abs [of w k] by (intro exact_small) linarith

lemma not_exact: "exact (- to_int32 x)" "exact (- to_int32 x - 1)" "exact 0"
  using to_int32_range [of x] by (simp_all add: exact_def)

lemma js_not_eq: "- to_int32 x - 1 = js_not x"
  by (simp add: js_not_def)

lemma heap_same: "j_heap s r = Some ob \<Longrightarrow> s\<lparr>j_heap := (j_heap s)(r \<mapsto> ob)\<rparr> = s"
  by (cases s) (simp add: fun_upd_idem)

lemma masks_heap [simp]: "masks_set (s\<lparr>j_heap := h\<rparr>) = masks_set s"
  by (simp add: masks_set_def)

lemma long_overwrite:
  "[''l'' \<mapsto> a, ''m'' \<mapsto> b, ''h'' \<mapsto> c, ''l'' \<mapsto> d, ''m'' \<mapsto> e, ''h'' \<mapsto> f] = [''l'' \<mapsto> d, ''m'' \<mapsto> e, ''h'' \<mapsto> f]"
  by (simp add: fun_eq_iff)

text \<open>A call that leaves one fresh long of a given 64-bit value, and nothing else.\<close>

definition gives_long :: "jst \<Rightarrow> (jval, jst) outcome \<Rightarrow> 64 word \<Rightarrow> bool" where
  "gives_long s r w \<longleftrightarrow> (\<exists>z. r = Ok (JRef (j_next s)) (with_long s z) \<and> bl_ok z \<and> bl_word z = w)"

locale long_code =
  fixes p :: jprog
  assumes fun_C: "p_fun p ''_C'' = Some C_fun"
    and fun_kD: "p_fun p ''kD'' = Some kD_fun"
    and fun_vD: "p_fun p ''vD'' = Some vD_fun"
    and fun_pD: "p_fun p ''pD'' = Some pD_fun"
    and fun_qD: "p_fun p ''qD'' = Some qD_fun"
    and fun_lD: "p_fun p ''lD'' = Some lD_fun"
    and fun_rD: "p_fun p ''rD'' = Some rD_fun"
    and fun_zD: "p_fun p ''zD'' = Some zD_fun"
    and fun_mD: "p_fun p ''mD'' = Some mD_fun"
    and fun_jD: "p_fun p ''jD'' = Some jD_fun"
begin

lemma glob_C: "masks_set s \<Longrightarrow> glob_val p ''_C'' s = Some (JFun ''_C'')"
  by (simp add: masks_set_def glob_val_def fun_C)

lemma glob_masks: "masks_set s \<Longrightarrow> glob_val p ''rve'' s = Some (JNum 4194303)"
  "masks_set s \<Longrightarrow> glob_val p ''sve'' s = Some (JNum 1048575)"
  by (simp_all add: masks_set_def glob_val_def)

lemma run_C:
  "run p (Suc n) ''_C'' t [JNum a, JNum b, JNum c] s = Ok (JRef (j_next s)) (with_long s (C_create a b c))"
  by (simp add: fun_C C_fun_def run_body_def init_vars_def alloc_def put_prop_def on_st_def with_long_def
      long_obj_def C_create_def fun_upd_def cong: if_cong)

lemma run_kD:
  assumes "masks_set s" "long_at s r x" "long_at s q y"
  shows "run p (Suc (Suc n)) ''kD'' t [JRef r, JRef q] s = Ok (JRef (j_next s)) (with_long s (kD x y))"
  using assms by (simp add: run_fun [OF fun_kD] kD_fun_def exec get_prop_def long_at_def long_obj_def
      part_exact glob_C glob_masks run_C kD_def del: run.simps)

lemma run_vD:
  assumes "masks_set s" "long_at s r x" "long_at s q y"
  shows "run p (Suc (Suc n)) ''vD'' t [JRef r, JRef q] s = Ok (JRef (j_next s)) (with_long s (vD x y))"
  using assms by (simp add: run_fun [OF fun_vD] vD_fun_def exec get_prop_def long_at_def long_obj_def
      part_exact glob_C glob_masks run_C vD_def del: run.simps)

lemma run_bits:
  assumes "masks_set s" "long_at s r x" "long_at s q y"
  shows "run p (Suc (Suc n)) ''lD'' t [JRef r, JRef q] s = Ok (JRef (j_next s)) (with_long s (lD x y))"
    "run p (Suc (Suc n)) ''rD'' t [JRef r, JRef q] s = Ok (JRef (j_next s)) (with_long s (rD x y))"
    "run p (Suc (Suc n)) ''zD'' t [JRef r, JRef q] s = Ok (JRef (j_next s)) (with_long s (zD x y))"
  using assms by (simp_all add: run_fun [OF fun_lD] run_fun [OF fun_rD] run_fun [OF fun_zD] lD_fun_def
      rD_fun_def zD_fun_def exec get_prop_def long_at_def long_obj_def glob_C run_C lD_def rD_def zD_def del: run.simps)

lemma run_qD:
  assumes "masks_set s" "long_at s r x"
  shows "run p (Suc (Suc n)) ''qD'' t [JRef r] s = Ok (JRef (j_next s)) (with_long s (qD x))"
  using assms by (simp add: run_fun [OF fun_qD] qD_fun_def exec get_prop_def long_at_def long_obj_def
      glob_C glob_masks run_C qD_def js_not_def del: run.simps)

lemma run_pD:
  assumes "masks_set s" "long_at s r x"
  shows "run p (Suc (Suc n)) ''pD'' t [JRef r] s = Ok (JRef (j_next s)) (with_long s (pD x))"
  using assms by (simp add: run_fun [OF fun_pD] pD_fun_def exec get_prop_def long_at_def long_obj_def
      glob_C glob_masks run_C pD_def js_not_def not_exact del: run.simps)

lemma run_mD:
  assumes "long_at s r x" "long_at s q y"
  shows "run p (Suc n) ''mD'' t [JRef r, JRef q] s = Ok (JNum (mD x y)) s"
  using assms by (simp add: run_fun [OF fun_mD] mD_fun_def exec get_prop_def long_at_def long_obj_def
      part_exact shr_diff_exact mD_def del: run.simps)

text \<open>\<open>jD\<close> subtracts in place, and leaves its first argument alone when the result would be negative.\<close>

lemma run_jD:
  assumes "masks_set s" "long_at s r x" "long_at s q y"
  shows "run p (Suc n) ''jD'' t [JRef r, JRef q] s =
    Ok (JBool (fst (jD x y))) (s\<lparr>j_heap := (j_heap s)(r \<mapsto> long_obj (snd (jD x y)))\<rparr>)"
  using assms by (simp add: run_fun [OF fun_jD] jD_fun_def exec get_prop_def long_at_def long_obj_def
      part_exact glob_masks jD_def put_prop_def heap_same long_overwrite del: run.simps)

lemma code_words:
  assumes "masks_set s" "long_at s r x" "long_at s q y"
  shows "gives_long s (run p (Suc (Suc n)) ''kD'' t [JRef r, JRef q] s) (bl_word x + bl_word y)"
    "gives_long s (run p (Suc (Suc n)) ''vD'' t [JRef r, JRef q] s) (bl_word x - bl_word y)"
    "gives_long s (run p (Suc (Suc n)) ''lD'' t [JRef r, JRef q] s) (Bit_Operations.and (bl_word x) (bl_word y))"
    "gives_long s (run p (Suc (Suc n)) ''rD'' t [JRef r, JRef q] s) (Bit_Operations.or (bl_word x) (bl_word y))"
    "gives_long s (run p (Suc (Suc n)) ''zD'' t [JRef r, JRef q] s) (Bit_Operations.xor (bl_word x) (bl_word y))"
    "gives_long s (run p (Suc (Suc n)) ''pD'' t [JRef r] s) (- bl_word x)"
    "gives_long s (run p (Suc (Suc n)) ''qD'' t [JRef r] s) (Bit_Operations.not (bl_word x))"
proof -
  have ok: "bl_ok x" "bl_ok y" using assms by (simp_all add: long_at_def)
  note run = run_kD [OF assms] run_vD [OF assms] run_bits [OF assms] run_pD [OF assms(1,2)] run_qD [OF assms(1,2)]
  note word = kD_word [OF ok] vD_word [OF ok] bitwise_ok [OF ok] bitwise_word [OF ok] pD_word [OF ok(1)] qD_word [OF ok(1)]
  show "gives_long s (run p (Suc (Suc n)) ''kD'' t [JRef r, JRef q] s) (bl_word x + bl_word y)"
    "gives_long s (run p (Suc (Suc n)) ''vD'' t [JRef r, JRef q] s) (bl_word x - bl_word y)"
    "gives_long s (run p (Suc (Suc n)) ''lD'' t [JRef r, JRef q] s) (Bit_Operations.and (bl_word x) (bl_word y))"
    "gives_long s (run p (Suc (Suc n)) ''rD'' t [JRef r, JRef q] s) (Bit_Operations.or (bl_word x) (bl_word y))"
    "gives_long s (run p (Suc (Suc n)) ''zD'' t [JRef r, JRef q] s) (Bit_Operations.xor (bl_word x) (bl_word y))"
    "gives_long s (run p (Suc (Suc n)) ''pD'' t [JRef r] s) (- bl_word x)"
    "gives_long s (run p (Suc (Suc n)) ''qD'' t [JRef r] s) (Bit_Operations.not (bl_word x))"
    unfolding gives_long_def run using word by blast+
qed

text \<open>The subtraction in place and the comparison, on what the longs stand for.\<close>

lemma code_in_place:
  assumes "masks_set s" "long_at s r x" "long_at s q y"
  shows "\<exists>s' z. run p (Suc n) ''jD'' t [JRef r, JRef q] s = Ok (JBool (bl_word y \<le> bl_word x)) s' \<and> long_at s' r z \<and>
      bl_word z = (if bl_word y \<le> bl_word x then bl_word x - bl_word y else bl_word x) \<and>
      (\<forall>i. i \<noteq> r \<longrightarrow> j_heap s' i = j_heap s i)"
    "\<exists>c. run p (Suc n) ''mD'' t [JRef r, JRef q] s = Ok (JNum c) s \<and>
      (c < 0 \<longleftrightarrow> sint (bl_word x) < sint (bl_word y)) \<and> (c = 0 \<longleftrightarrow> bl_word x = bl_word y)"
proof -
  have ok: "bl_ok x" "bl_ok y" using assms by (simp_all add: long_at_def)
  note sub = jD_sub [OF ok]
  have le: "bl_word y \<le> bl_word x \<longleftrightarrow> iD y \<le> iD x" by (simp add: word_le_def uint_bl_word ok)
  show "\<exists>s' z. run p (Suc n) ''jD'' t [JRef r, JRef q] s = Ok (JBool (bl_word y \<le> bl_word x)) s' \<and> long_at s' r z \<and>
      bl_word z = (if bl_word y \<le> bl_word x then bl_word x - bl_word y else bl_word x) \<and>
      (\<forall>i. i \<noteq> r \<longrightarrow> j_heap s' i = j_heap s i)"
    unfolding run_jD [OF assms] sub(1) le
    by (intro exI [of _ "s\<lparr>j_heap := (j_heap s)(r \<mapsto> long_obj (snd (jD x y)))\<rparr>"] exI [of _ "snd (jD x y)"])
      (simp add: long_at_def sub bl_word_def)
  show "\<exists>c. run p (Suc n) ''mD'' t [JRef r, JRef q] s = Ok (JNum c) s \<and>
      (c < 0 \<longleftrightarrow> sint (bl_word x) < sint (bl_word y)) \<and> (c = 0 \<longleftrightarrow> bl_word x = bl_word y)"
    unfolding run_mD [OF assms(2,3)] using mD_sign [OF ok] sint_bl_word [OF ok(1)] sint_bl_word [OF ok(2)] bl_word_inject [OF ok] by auto
qed

end

end
