(* ===== verification/GwtSort.thy ===== *)
theory GwtSort
  imports JsNumber
begin

text \<open>
  The sorting of the layout worker (\<open>layout-worker.js\<close>): the insertion sort \<open>cnb\<close>, the merge \<open>dnb\<close>
  and the merge sort \<open>fnb\<close> of two arrays that swap roles at every level, called by \<open>enb\<close> and \<open>hnb\<close>;
  and the integer comparison \<open>rfb\<close>. An array is a list that is updated in place; the check of the
  element type in a store (\<open>VC\<close>) is left out here; \<open>SortCode\<close> runs it. The result
  is shown to be the stable sort \<open>js_sort\<close> of the prelude.
\<close>

subsection \<open>Comparison of integers\<close>

definition rfb :: "int \<Rightarrow> int \<Rightarrow> int" where
  "rfb a b = (if a < b then - 1 else if a > b then 1 else 0)"

interpretation int_compare: comparator rfb
  by unfold_locales (auto simp: rfb_def split: if_splits)

interpretation int_order: comparator_sgn rfb
  by unfold_locales (auto simp: rfb_def)

lemma rfb_le: "rfb a b \<le> 0 \<longleftrightarrow> a \<le> b"
  by (simp add: rfb_def)

subsection \<open>The code\<close>

text \<open>The inner loop of \<open>cnb\<close>: swap the element at \<open>f\<close> down to its place.\<close>

fun cnb_inner :: "('a \<Rightarrow> 'a \<Rightarrow> int) \<Rightarrow> 'a list \<Rightarrow> nat \<Rightarrow> nat \<Rightarrow> 'a list" where
  "cnb_inner cmp a b 0 = a"
| "cnb_inner cmp a b (Suc f) =
     (if b < Suc f \<and> cmp (a ! f) (a ! Suc f) > 0
      then cnb_inner cmp (a[Suc f := a ! f, f := a ! Suc f]) b f else a)"

function cnb_outer :: "('a \<Rightarrow> 'a \<Rightarrow> int) \<Rightarrow> 'a list \<Rightarrow> nat \<Rightarrow> nat \<Rightarrow> nat \<Rightarrow> 'a list" where
  "cnb_outer cmp a b c e = (if e < c then cnb_outer cmp (cnb_inner cmp a b e) b c (Suc e) else a)"
  by pat_completeness auto
termination by (relation "measure (\<lambda>(cmp, a, b, c, e). c - e)") auto

declare cnb_outer.simps [simp del]

definition cnb :: "('a \<Rightarrow> 'a \<Rightarrow> int) \<Rightarrow> 'a list \<Rightarrow> nat \<Rightarrow> nat \<Rightarrow> 'a list" where
  "cnb cmp a b c = cnb_outer cmp a b c (Suc b)"

text \<open>\<open>dnb\<close>: merge \<open>a[b..c)\<close> and \<open>a[i..d)\<close> into \<open>e[f..g)\<close>.\<close>

function dnb :: "('a \<Rightarrow> 'a \<Rightarrow> int) \<Rightarrow> 'a list \<Rightarrow> nat \<Rightarrow> nat \<Rightarrow> nat \<Rightarrow> nat \<Rightarrow> 'a list \<Rightarrow> nat \<Rightarrow> nat \<Rightarrow> 'a list"
where
  "dnb cmp a b c i d e f g =
     (if f < g
      then if i \<ge> d \<or> b < c \<and> cmp (a ! b) (a ! i) \<le> 0
           then dnb cmp a (Suc b) c i d (e[f := a ! b]) (Suc f) g
           else dnb cmp a b c (Suc i) d (e[f := a ! i]) (Suc f) g
      else e)"
  by pat_completeness auto
termination by (relation "measure (\<lambda>(cmp, a, b, c, i, d, e, f, g). g - f)") auto

declare dnb.simps [simp del]

text \<open>The copying loop of \<open>fnb\<close>: \<open>while(c<d){b[c++]=a[i++]}\<close>.\<close>

function copy_loop :: "'a list \<Rightarrow> nat \<Rightarrow> 'a list \<Rightarrow> nat \<Rightarrow> nat \<Rightarrow> 'a list" where
  "copy_loop a i b c d = (if c < d then copy_loop a (Suc i) (b[c := a ! i]) (Suc c) d else b)"
  by pat_completeness auto
termination by (relation "measure (\<lambda>(a, i, b, c, d). d - c)") auto

declare copy_loop.simps [simp del]

lemma nat_shift_diff: "h = nat (int d + e) \<Longrightarrow> i = nat (int c + e) \<Longrightarrow> h - i \<le> d - c"
  by arith

text \<open>\<open>fnb\<close>: sort \<open>b[c..d)\<close>, with \<open>a[c+e..d+e)\<close> a copy of it; both arrays afterwards.\<close>

function fnb :: "('a \<Rightarrow> 'a \<Rightarrow> int) \<Rightarrow> 'a list \<Rightarrow> 'a list \<Rightarrow> nat \<Rightarrow> nat \<Rightarrow> int \<Rightarrow> 'a list \<times> 'a list" where
  "fnb cmp a b c d e =
     (if d - c < 7 then (a, cnb cmp b c d)
      else (let i = nat (int c + e); h = nat (int d + e); j = i + (h - i) div 2;
                (b1, a1) = fnb cmp b a i j (- e);
                (b2, a2) = fnb cmp b1 a1 j h (- e)
            in if cmp (a2 ! (j - 1)) (a2 ! j) \<le> 0 then (a2, copy_loop a2 i b2 c d)
               else (a2, dnb cmp a2 i j j h b2 c d)))"
  by pat_completeness auto
termination
proof (relation "measure (\<lambda>(cmp, a, b, c, d, e). d - c)", goal_cases)
  case (2 cmp a b c d e i h j)
  then have "h - i \<le> d - c" using nat_shift_diff by blast
  moreover from 2 have "\<not> d - c < 7" by simp
  ultimately have "(h - i) div 2 < d - c" by linarith
  with 2 show ?case by simp
next
  case (3 cmp a b c d e i h j z b1 a1)
  then have "h - i \<le> d - c" using nat_shift_diff by blast
  moreover from 3 have "\<not> d - c < 7" by simp
  ultimately have "h - (i + (h - i) div 2) < d - c" by linarith
  with 3 show ?case by simp
qed simp

declare fnb.simps [simp del]

definition enb :: "('a \<Rightarrow> 'a \<Rightarrow> int) \<Rightarrow> 'a list \<Rightarrow> nat \<Rightarrow> nat \<Rightarrow> 'a list" where
  "enb cmp a b c = snd (fnb cmp (take (c - b) (drop b a)) a b c (- int b))"

definition hnb :: "('a \<Rightarrow> 'a \<Rightarrow> int) \<Rightarrow> 'a list \<Rightarrow> 'a list" where
  "hnb cmp a = enb cmp a 0 (length a)"

subsection \<open>Insertion sort\<close>

text \<open>Arrays are cut into the part before, the segment and the part after.\<close>

lemma nth_seg: "length xs = n \<Longrightarrow> (xs @ y # ys) ! n = y"
  by (simp add: nth_append)

lemma nth_mid: "k < length ys \<Longrightarrow> (xs @ ys @ zs) ! (length xs + k) = ys ! k"
  by (simp add: nth_append)

lemma update_seg: "length xs = n \<Longrightarrow> (xs @ y # ys)[n := z] = xs @ z # ys"
  by (simp add: list_update_append)

text \<open>Insertion from the right end of a sorted list.\<close>

fun merge :: "('a \<Rightarrow> 'a \<Rightarrow> int) \<Rightarrow> 'a list \<Rightarrow> 'a list \<Rightarrow> 'a list" where
  "merge cmp [] bs = bs"
| "merge cmp as [] = as"
| "merge cmp (a # as) (b # bs) =
     (if cmp a b \<le> 0 then a # merge cmp as (b # bs) else b # merge cmp (a # as) bs)"

lemma merge_Nil2 [simp]: "merge cmp as [] = as"
  by (cases as) simp_all

lemma length_merge [simp]: "length (merge cmp as bs) = length as + length bs"
  by (induction cmp as bs rule: merge.induct) auto

lemma set_merge [simp]: "set (merge cmp as bs) = set as \<union> set bs"
  by (induction cmp as bs rule: merge.induct) auto

context comparator
begin

lemma insert_merge:
  "sorted_wrt le_cmp as \<Longrightarrow> sorted_wrt le_cmp bs \<Longrightarrow>
   js_insert cmp x (merge cmp as bs) = merge cmp (js_insert cmp x as) bs"
proof (induction "length as + length bs" arbitrary: as bs rule: less_induct)
  case less
  show ?case
  proof (cases as)
    case Nil
    show ?thesis
    proof (cases bs)
      case (Cons b bs')
      then have "js_insert cmp x bs' = merge cmp [x] bs'"
        using less.hyps [of "[]" bs'] less.prems Nil by simp
      then show ?thesis using Nil Cons less.prems by (auto simp: js_insert_le)
    qed (simp add: Nil)
  next
    case (Cons a as')
    note as = this
    show ?thesis
    proof (cases bs)
      case (Cons b bs')
      have "cmp x b \<le> 0" if "cmp x a \<le> 0" "cmp a b \<le> 0" using that cmp_trans by blast
      moreover have "\<not> cmp x b \<le> 0" if "\<not> cmp x a \<le> 0" "\<not> cmp a b \<le> 0"
        using that cmp_trans cmp_total by blast
      moreover have "js_insert cmp x (merge cmp as' bs) = merge cmp (js_insert cmp x as') bs"
        "js_insert cmp x (merge cmp as bs') = merge cmp (js_insert cmp x as) bs'"
        using less.hyps less.prems as Cons by auto
      ultimately show ?thesis using as Cons by auto
    qed simp
  qed
qed

lemma js_sort_append: "js_sort cmp (xs @ ys) = merge cmp (js_sort cmp xs) (js_sort cmp ys)"
  by (induction xs) (auto simp: insert_merge sorted_js_sort)

lemma merge_append:
  "(\<And>a b. a \<in> set as \<Longrightarrow> b \<in> set bs \<Longrightarrow> cmp a b \<le> 0) \<Longrightarrow> merge cmp as bs = as @ bs"
  by (induction cmp as bs rule: merge.induct) auto

end

context comparator
begin

text \<open>The inner loop moves the last element of a segment whose rest is sorted.\<close>

lemma cnb_inner_seg:
  assumes "sorted_wrt le_cmp S" "length P = b"
  shows "cnb_inner cmp (P @ S @ x # Q) b (b + length S) = P @ merge cmp S [x] @ Q"
  using assms(1)
proof (induction S arbitrary: Q rule: rev_induct)
  case Nil
  show ?case by (cases b) auto
next
  case (snoc y S)
  have srt: "sorted_wrt le_cmp S" and le: "\<And>z. z \<in> set S \<Longrightarrow> cmp z y \<le> 0"
    using snoc.prems by (auto simp: sorted_wrt_append)
  have nth: "(P @ (S @ [y]) @ x # Q) ! (b + length S) = y"
    "(P @ (S @ [y]) @ x # Q) ! Suc (b + length S) = x"
    using assms(2) nth_seg [of "P @ S" "b + length S" y "x # Q"]
      nth_seg [of "P @ S @ [y]" "Suc (b + length S)" x Q] by simp_all
  show ?case
  proof (cases "cmp y x > 0")
    case True
    have swap: "(P @ (S @ [y]) @ x # Q)[Suc (b + length S) := y, b + length S := x] = P @ S @ x # y # Q"
      using assms(2) update_seg [of "P @ S @ [y]" "Suc (b + length S)" x Q y]
        update_seg [of "P @ S" "b + length S" y "y # Q" x] by simp
    have "cnb_inner cmp (P @ (S @ [y]) @ x # Q) b (b + length (S @ [y])) =
        cnb_inner cmp (P @ S @ x # y # Q) b (b + length S)"
      using True nth swap by simp
    also have "\<dots> = P @ merge cmp S [x] @ y # Q" by (rule snoc.IH [OF srt])
    also have "merge cmp (S @ [y]) [x] = merge cmp S [x] @ [y]"
      using True le by (induction S) auto
    then have "P @ merge cmp S [x] @ y # Q = P @ merge cmp (S @ [y]) [x] @ Q" by simp
    finally show ?thesis .
  next
    case False
    then have "merge cmp (S @ [y]) [x] = S @ [y, x]"
      using le cmp_trans by (subst merge_append) fastforce+
    then show ?thesis using False nth by simp
  qed
qed

lemma cnb_outer_seg:
  assumes "length P = b"
  shows "cnb_outer cmp (P @ js_sort cmp S @ R @ Q) b (b + length S + length R) (b + length S) =
    P @ js_sort cmp (S @ R) @ Q"
proof (induction R arbitrary: S)
  case Nil
  show ?case by (simp add: cnb_outer.simps)
next
  case (Cons x R)
  have "cnb_outer cmp (P @ js_sort cmp S @ (x # R) @ Q) b (b + length S + length (x # R)) (b + length S) =
      cnb_outer cmp (P @ merge cmp (js_sort cmp S) [x] @ R @ Q) b (b + length S + length (x # R)) (Suc (b + length S))"
    using cnb_inner_seg [OF sorted_js_sort assms, of S x "R @ Q"]
    by (subst cnb_outer.simps) simp
  also have "\<dots> = cnb_outer cmp (P @ js_sort cmp (S @ [x]) @ R @ Q) b
      (b + length (S @ [x]) + length R) (b + length (S @ [x]))"
    by (simp add: js_sort_append)
  also have "\<dots> = P @ js_sort cmp (S @ x # R) @ Q" using Cons.IH [of "S @ [x]"] by simp
  finally show ?case .
qed

lemma cnb_seg:
  assumes "length P = b" "c = b + length S"
  shows "cnb cmp (P @ S @ Q) b c = P @ js_sort cmp S @ Q"
proof (cases S)
  case Nil
  with assms show ?thesis by (simp add: cnb_def cnb_outer.simps)
next
  case (Cons x R)
  with cnb_outer_seg [OF assms(1), of "[x]" R Q] assms(2) show ?thesis by (simp add: cnb_def)
qed

text \<open>The merging loop.\<close>

lemma dnb_seg:
  "length P = f \<Longrightarrow> length old = length S + length T \<Longrightarrow> g = f + length old \<Longrightarrow>
   (\<And>k. k < length S \<Longrightarrow> A ! (b + k) = S ! k) \<Longrightarrow> (\<And>k. k < length T \<Longrightarrow> A ! (i + k) = T ! k) \<Longrightarrow>
   c = b + length S \<Longrightarrow> d = i + length T \<Longrightarrow>
   dnb cmp A b c i d (P @ old @ Q) f g = P @ merge cmp S T @ Q"
proof (induction "length S + length T" arbitrary: S T P old b i f)
  case 0
  then show ?case by (subst dnb.simps) simp
next
  case (Suc n)
  from Suc.prems Suc.hyps(2) obtain o1 old' where old: "old = o1 # old'" by (cases old) auto
  have upd: "(P @ o1 # old' @ Q)[f := z] = P @ z # old' @ Q" for z
    using Suc.prems(1) by (rule update_seg)
  show ?case
  proof (cases "T = [] \<or> S \<noteq> [] \<and> cmp (S ! 0) (T ! 0) \<le> 0")
    case True
    with Suc.hyps(2) obtain s S' where S: "S = s # S'" by (cases S) auto
    have "dnb cmp A b c i d (P @ old @ Q) f g = dnb cmp A (Suc b) c i d ((P @ [s]) @ old' @ Q) (Suc f) g"
      using True Suc.prems(4) [of 0] Suc.prems(5) [of 0] Suc.prems(3,6,7) S old
      by (subst dnb.simps) (auto simp: upd)
    also have "\<dots> = (P @ [s]) @ merge cmp S' T @ Q"
    proof (rule Suc.hyps(1))
      show "A ! (Suc b + k) = S' ! k" if "k < length S'" for k
        using Suc.prems(4) [of "Suc k"] that S by simp
    qed (use Suc.prems Suc.hyps(2) S old in auto)
    finally show ?thesis using True S by (cases T) auto
  next
    case False
    then obtain t T' where T: "T = t # T'" by (cases T) auto
    have "dnb cmp A b c i d (P @ old @ Q) f g = dnb cmp A b c (Suc i) d ((P @ [t]) @ old' @ Q) (Suc f) g"
      using False Suc.prems(4) [of 0] Suc.prems(5) [of 0] Suc.prems(3,6,7) T old
      by (subst dnb.simps) (auto simp: upd)
    also have "\<dots> = (P @ [t]) @ merge cmp S T' @ Q"
    proof (rule Suc.hyps(1))
      show "A ! (Suc i + k) = T' ! k" if "k < length T'" for k
        using Suc.prems(5) [of "Suc k"] that T by simp
    qed (use Suc.prems Suc.hyps(2) T old in auto)
    finally show ?thesis using False T by (cases S) auto
  qed
qed

end

lemma copy_loop_seg:
  "length P = c \<Longrightarrow> length old = length S \<Longrightarrow> d = c + length S \<Longrightarrow>
   (\<And>k. k < length S \<Longrightarrow> A ! (i + k) = S ! k) \<Longrightarrow>
   copy_loop A i (P @ old @ Q) c d = P @ S @ Q"
proof (induction S arbitrary: P old i c)
  case Nil
  then show ?case by (subst copy_loop.simps) simp
next
  case (Cons s S)
  then obtain o1 old' where old: "old = o1 # old'" by (cases old) auto
  have upd: "(P @ o1 # old' @ Q)[c := s] = P @ s # old' @ Q" using Cons.prems(1) by (rule update_seg)
  have "copy_loop A i (P @ old @ Q) c d = copy_loop A (Suc i) ((P @ [s]) @ old' @ Q) (Suc c) d"
    using Cons.prems(3) Cons.prems(4) [of 0] old upd by (subst copy_loop.simps) simp
  also have "\<dots> = (P @ [s]) @ S @ Q"
  proof (rule Cons.IH)
    show "A ! (Suc i + k) = S ! k" if "k < length S" for k using Cons.prems(4) [of "Suc k"] that by simp
  qed (use Cons.prems old in auto)
  finally show ?case by simp
qed

context comparator
begin

lemma sorted_ends:
  assumes "sorted_wrt le_cmp S" "sorted_wrt le_cmp T" "S \<noteq> []" "T \<noteq> []"
    and "cmp (last S) (hd T) \<le> 0"
  shows "merge cmp S T = S @ T"
proof (rule merge_append)
  fix x y assume xy: "x \<in> set S" "y \<in> set T"
  have refl: "cmp z z \<le> 0" for z using cmp_total [of z z] by simp
  have "cmp x (last S) \<le> 0"
    using assms(1,3) xy(1) by (induction S) (auto simp: refl split: if_splits)
  moreover have "cmp (hd T) y \<le> 0" using assms(2,4) xy(2) by (cases T) (auto simp: refl)
  ultimately show "cmp x y \<le> 0" using assms(5) cmp_trans by blast
qed

lemma fnb_seg:
  "length B1 = c \<Longrightarrow> d = c + length S \<Longrightarrow> int (length A1) = int c + e \<Longrightarrow>
   \<exists>S'. length S' = length S \<and> fnb cmp (A1 @ S @ A2) (B1 @ S @ B2) c d e = (A1 @ S' @ A2, B1 @ js_sort cmp S @ B2)"
proof (induction "length S" arbitrary: S A1 A2 B1 B2 c d e rule: less_induct)
  case less
  show ?case
  proof (cases "length S < 7")
    case True
    then show ?thesis using less.prems cnb_seg [of B1 c d S B2]
      by (intro exI [of _ S]) (subst fnb.simps, simp)
  next
    case False
    define n where "n = length S div 2"
    define S1 where "S1 = take n S"
    define S2 where "S2 = drop n S"
    have S: "S = S1 @ S2" by (simp add: S1_def S2_def)
    have n: "0 < n" "n < length S" using False by (auto simp: n_def)
    have len: "length S1 = n" "length S2 = length S - n" "length S1 < length S" "length S2 < length S"
      using n by (simp_all add: S1_def S2_def)
    define i where "i = length A1"
    define j where "j = i + n"
    define h where "h = i + length S"
    have ih: "nat (int c + e) = i" "nat (int d + e) = h" "(h - i) div 2 = n"
      using less.prems by (auto simp: i_def h_def n_def)
    obtain S1' where s1: "length S1' = length S1"
      "fnb cmp (B1 @ S1 @ S2 @ B2) (A1 @ S1 @ S2 @ A2) i j (- e) =
        (B1 @ S1' @ S2 @ B2, A1 @ js_sort cmp S1 @ S2 @ A2)"
      using less.hyps [OF len(3), of A1 i j B1 "- e" "S2 @ B2" "S2 @ A2"] less.prems len
      by (auto simp: i_def j_def)
    obtain S2' where s2: "length S2' = length S2"
      "fnb cmp ((B1 @ S1') @ S2 @ B2) ((A1 @ js_sort cmp S1) @ S2 @ A2) j h (- e) =
        ((B1 @ S1') @ S2' @ B2, (A1 @ js_sort cmp S1) @ js_sort cmp S2 @ A2)"
      using less.hyps [OF len(4), of "A1 @ js_sort cmp S1" j h "B1 @ S1'" "- e" B2 A2] less.prems len s1(1) n
      by (auto simp: i_def j_def h_def)
    let ?A = "A1 @ (js_sort cmp S1 @ js_sort cmp S2) @ A2"
    have nthA: "?A ! (i + k) = (js_sort cmp S1 @ js_sort cmp S2) ! k" if "k < length S" for k
      unfolding i_def using that len n by (intro nth_mid) simp
    have ends: "?A ! (j - 1) = last (js_sort cmp S1)" "?A ! j = hd (js_sort cmp S2)"
    proof -
      have ne: "js_sort cmp S1 \<noteq> []" "js_sort cmp S2 \<noteq> []" using len n by (auto simp flip: length_greater_0_conv)
      have "j - 1 = i + (n - 1)" using n by (simp add: j_def)
      then show "?A ! (j - 1) = last (js_sort cmp S1)"
        using nthA [of "n - 1"] n len ne by (simp add: nth_append last_conv_nth)
      show "?A ! j = hd (js_sort cmp S2)"
        using nthA [of n] n len ne by (simp add: j_def nth_append hd_conv_nth)
    qed
    have sorted: "js_sort cmp S = merge cmp (js_sort cmp S1) (js_sort cmp S2)" by (simp add: S js_sort_append)
    have unfold: "fnb cmp (A1 @ S @ A2) (B1 @ S @ B2) c d e =
       (if cmp (last (js_sort cmp S1)) (hd (js_sort cmp S2)) \<le> 0
        then (?A, copy_loop ?A i (B1 @ (S1' @ S2') @ B2) c d)
        else (?A, dnb cmp ?A i j j h (B1 @ (S1' @ S2') @ B2) c d))"
    proof -
      have long: "\<not> d - c < 7" using False less.prems(2) by simp
      have step: "fnb cmp A B c d e =
          (let (b1, a1) = fnb cmp B A i j (- e); (b2, a2) = fnb cmp b1 a1 j h (- e)
           in if cmp (a2 ! (j - 1)) (a2 ! j) \<le> 0 then (a2, copy_loop a2 i b2 c d)
              else (a2, dnb cmp a2 i j j h b2 c d))" for A B
        by (subst fnb.simps, simp only: long if_False Let_def ih j_def [symmetric])
      show ?thesis unfolding step using s1(2) s2(2) ends by (simp add: S)
    qed
    have "copy_loop ?A i (B1 @ (S1' @ S2') @ B2) c d = B1 @ js_sort cmp S @ B2"
      if le: "cmp (last (js_sort cmp S1)) (hd (js_sort cmp S2)) \<le> 0"
    proof -
      have "js_sort cmp S1 \<noteq> []" "js_sort cmp S2 \<noteq> []" using len n by (auto simp flip: length_greater_0_conv)
      then have "js_sort cmp S = js_sort cmp S1 @ js_sort cmp S2"
        using sorted sorted_ends [OF sorted_js_sort sorted_js_sort _ _ le] by simp
      then show ?thesis using nthA len s1(1) s2(1) less.prems n by (intro copy_loop_seg) auto
    qed
    moreover have "dnb cmp ?A i j j h (B1 @ (S1' @ S2') @ B2) c d = B1 @ js_sort cmp S @ B2"
      unfolding sorted
    proof (rule dnb_seg)
      show "?A ! (i + k) = js_sort cmp S1 ! k" if "k < length (js_sort cmp S1)" for k
        using nthA [of k] that len by (simp add: nth_append)
      show "?A ! (j + k) = js_sort cmp S2 ! k" if "k < length (js_sort cmp S2)" for k
        using nthA [of "n + k"] that len n by (simp add: nth_append j_def add.assoc)
    qed (use less.prems len s1(1) s2(1) n in \<open>auto simp: j_def h_def\<close>)
    ultimately show ?thesis using unfold len
      by (intro exI [of _ "js_sort cmp S1 @ js_sort cmp S2"]) auto
  qed
qed

end

lemma enb_sorts:
  assumes "comparator cmp" "b \<le> c" "c \<le> length a"
  shows "enb cmp a b c = take b a @ js_sort cmp (take (c - b) (drop b a)) @ drop c a"
proof -
  let ?S = "take (c - b) (drop b a)"
  have a: "a = take b a @ ?S @ drop c a"
    using assms(2,3) by (metis append_take_drop_id drop_drop le_add_diff_inverse2)
  have len: "length (take b a) = b" "length ?S = c - b" using assms(2,3) by simp_all
  obtain S' where "fnb cmp ([] @ ?S @ []) (take b a @ ?S @ drop c a) b c (- int b) =
      ([] @ S' @ [], take b a @ js_sort cmp ?S @ drop c a)"
    using comparator.fnb_seg [OF assms(1), of "take b a" b c ?S "[]" "- int b" "[]" "drop c a"] len assms(2) by auto
  then show ?thesis using a by (simp add: enb_def)
qed

text \<open>
  Claim C14. For every comparator that is total and transitive, the worker's merge sort of a range of
  an array returns the stable sort of that range and leaves the rest of the array as it was.
\<close>

theorem enb_stable_sort:
  "comparator cmp \<Longrightarrow> b \<le> c \<Longrightarrow> c \<le> length a \<Longrightarrow>
   enb cmp a b c = take b a @ js_sort cmp (take (c - b) (drop b a)) @ drop c a"
  by (rule enb_sorts)

theorem enb_stable_sort_witness:
  "enb rfb [9, 3, 2, 1, 0] 1 4 = [9, 1, 2, 3, 0]"
  using enb_stable_sort [OF int_compare.comparator_axioms, of 1 4 "[9, 3, 2, 1, 0]"]
  by (simp add: rfb_def numeral_eq_Suc)

text \<open>
  Sorting an array of integers with the worker's comparison of integers gives the sorted
  array of the same integers.
\<close>

theorem hnb_sorts_integers:
  "sorted (hnb rfb xs) \<and> mset (hnb rfb xs) = mset xs"
proof -
  have "hnb rfb xs = js_sort rfb xs"
    using enb_sorts [OF int_compare.comparator_axioms, of 0 "length xs" xs] by (simp add: hnb_def)
  moreover have "sorted_wrt (\<le>) (js_sort rfb xs)"
    using int_compare.sorted_js_sort [of xs] by (simp add: rfb_le)
  ultimately show ?thesis by (simp add: sorted_wrt_iff_nth_less)
qed

end
