(* ===== verification/GwtTree.thy ===== *)
theory GwtTree
  imports GwtSort
begin

text \<open>
  \<open>java.util.TreeMap\<close> of the layout worker (\<open>layout-worker.js\<close>): a red-black tree of entries. \<open>xb_ins\<close>
  (\<open>_xb\<close>) inserts, \<open>hyb\<close> and \<open>gyb\<close> rotate once and twice, \<open>byb\<close> is \<open>put\<close>, \<open>Txb\<close> finds an entry,
  \<open>Wxb\<close> and \<open>Xxb\<close> find the next entry above and below a key, \<open>Uxb\<close> and \<open>Vxb\<close> the first and the last,
  \<open>Zxb\<close> lists the entries in order. A rotation that reads a field of \<open>null\<close> raises; that is \<open>None\<close>.
\<close>

subsection \<open>The code\<close>

text \<open>
  A node has the field \<open>b\<close> (it is red), \<open>d\<close> (the key), \<open>e\<close> (the value) and the array \<open>a\<close> of two
  children. A direction is \<open>False\<close> for index 0 and \<open>True\<close> for index 1.
\<close>

datatype ('k, 'v) tree = Tip | Node bool 'k 'v "('k, 'v) tree" "('k, 'v) tree"

fun ayb :: "('k, 'v) tree \<Rightarrow> bool" where
  "ayb Tip = False"
| "ayb (Node c k v l r) = c"

fun kid :: "('k, 'v) tree \<Rightarrow> bool \<Rightarrow> ('k, 'v) tree" where
  "kid Tip d = Tip"
| "kid (Node c k v l r) d = (if d then r else l)"

fun set_kid :: "('k, 'v) tree \<Rightarrow> bool \<Rightarrow> ('k, 'v) tree \<Rightarrow> ('k, 'v) tree" where
  "set_kid Tip d t = Tip"
| "set_kid (Node c k v l r) d t = (if d then Node c k v l t else Node c k v t r)"

fun set_red :: "bool \<Rightarrow> ('k, 'v) tree \<Rightarrow> ('k, 'v) tree" where
  "set_red c Tip = Tip"
| "set_red c (Node c' k v l r) = Node c k v l r"

definition hyb :: "('k, 'v) tree \<Rightarrow> bool \<Rightarrow> ('k, 'v) tree option" where
  "hyb a b = (if a = Tip \<or> kid a (\<not> b) = Tip then None
              else let d = kid a (\<not> b)
                   in Some (set_red False (set_kid d b (set_red True (set_kid a (\<not> b) (kid d b))))))"

definition gyb :: "('k, 'v) tree \<Rightarrow> bool \<Rightarrow> ('k, 'v) tree option" where
  "gyb a b = (case hyb (kid a (\<not> b)) (\<not> b) of None \<Rightarrow> None | Some c \<Rightarrow> hyb (set_kid a (\<not> b) c) b)"

text \<open>The part of \<open>_xb\<close> after the recursive call, which has already replaced child \<open>f\<close>.\<close>

definition fix_ins :: "('k, 'v) tree \<Rightarrow> bool \<Rightarrow> ('k, 'v) tree option" where
  "fix_ins b f =
     (if ayb (kid b f)
      then if ayb (kid b (\<not> f))
           then Some (set_kid (set_kid (set_red True b) False (set_red False (kid b False))) True (set_red False (kid b True)))
           else if ayb (kid (kid b f) f) then hyb b (\<not> f)
           else if ayb (kid (kid b f) (\<not> f)) then gyb b (\<not> f)
           else Some b
      else Some b)"

text \<open>The state argument of \<open>_xb\<close> becomes a result: the value that was replaced, if the key was found.\<close>

fun xb_ins :: "('k \<Rightarrow> 'k \<Rightarrow> int) \<Rightarrow> ('k, 'v) tree \<Rightarrow> 'k \<Rightarrow> 'v \<Rightarrow> (('k, 'v) tree \<times> 'v option) option" where
  "xb_ins cmp Tip k v = Some (Node True k v Tip Tip, None)"
| "xb_ins cmp (Node c bk bv l r) k v =
     (let e = cmp k bk
      in if e = 0 then Some (Node c bk v l r, Some bv)
         else if e < 0
         then case xb_ins cmp l k v of None \<Rightarrow> None
              | Some (s, st) \<Rightarrow> map_option (\<lambda>t. (t, st)) (fix_ins (Node c bk bv s r) False)
         else case xb_ins cmp r k v of None \<Rightarrow> None
              | Some (s, st) \<Rightarrow> map_option (\<lambda>t. (t, st)) (fix_ins (Node c bk bv l s) True))"

record ('k, 'v) tree_map =
  tm_root :: "('k, 'v) tree"
  tm_size :: nat

definition byb :: "('k \<Rightarrow> 'k \<Rightarrow> int) \<Rightarrow> ('k, 'v) tree_map \<Rightarrow> 'k \<Rightarrow> 'v \<Rightarrow> (('k, 'v) tree_map \<times> 'v option) option" where
  "byb cmp m k v =
     map_option (\<lambda>(t, st). (\<lparr>tm_root = set_red False t, tm_size = (if st = None then Suc (tm_size m) else tm_size m)\<rparr>, st))
       (xb_ins cmp (tm_root m) k v)"

fun Txb :: "('k \<Rightarrow> 'k \<Rightarrow> int) \<Rightarrow> ('k, 'v) tree \<Rightarrow> 'k \<Rightarrow> ('k \<times> 'v) option" where
  "Txb cmp Tip k = None"
| "Txb cmp (Node c ek ev l r) k =
     (let e = cmp k ek in if e = 0 then Some (ek, ev) else if e < 0 then Txb cmp l k else Txb cmp r k)"

text \<open>\<open>Wxb\<close> and \<open>Xxb\<close>: the flag allows the key itself, the last argument is the best entry so far.\<close>

fun Wxb_loop :: "('k \<Rightarrow> 'k \<Rightarrow> int) \<Rightarrow> ('k, 'v) tree \<Rightarrow> 'k \<Rightarrow> bool \<Rightarrow> ('k \<times> 'v) option \<Rightarrow> ('k \<times> 'v) option" where
  "Wxb_loop cmp Tip k c e = e"
| "Wxb_loop cmp (Node rd fk fv l r) k c e =
     (let d = cmp k fk
      in if c \<and> d = 0 then Some (fk, fv)
         else if d \<ge> 0 then Wxb_loop cmp r k c e else Wxb_loop cmp l k c (Some (fk, fv)))"

definition Wxb :: "('k \<Rightarrow> 'k \<Rightarrow> int) \<Rightarrow> ('k, 'v) tree \<Rightarrow> 'k \<Rightarrow> bool \<Rightarrow> ('k \<times> 'v) option" where
  "Wxb cmp t k c = Wxb_loop cmp t k c None"

fun Xxb_loop :: "('k \<Rightarrow> 'k \<Rightarrow> int) \<Rightarrow> ('k, 'v) tree \<Rightarrow> 'k \<Rightarrow> bool \<Rightarrow> ('k \<times> 'v) option \<Rightarrow> ('k \<times> 'v) option" where
  "Xxb_loop cmp Tip k c e = e"
| "Xxb_loop cmp (Node rd fk fv l r) k c e =
     (let d = cmp k fk
      in if c \<and> d = 0 then Some (fk, fv)
         else if d \<le> 0 then Xxb_loop cmp l k c e else Xxb_loop cmp r k c (Some (fk, fv)))"

definition Xxb :: "('k \<Rightarrow> 'k \<Rightarrow> int) \<Rightarrow> ('k, 'v) tree \<Rightarrow> 'k \<Rightarrow> bool \<Rightarrow> ('k \<times> 'v) option" where
  "Xxb cmp t k c = Xxb_loop cmp t k c None"

fun Uxb :: "('k, 'v) tree \<Rightarrow> ('k \<times> 'v) option" where
  "Uxb Tip = None"
| "Uxb (Node c k v l r) = (if l = Tip then Some (k, v) else Uxb l)"

fun Vxb :: "('k, 'v) tree \<Rightarrow> ('k \<times> 'v) option" where
  "Vxb Tip = None"
| "Vxb (Node c k v l r) = (if r = Tip then Some (k, v) else Vxb r)"

text \<open>The listing keeps the entries whose key is in the range of the submap.\<close>

fun Zxb :: "('k \<Rightarrow> bool) \<Rightarrow> ('k, 'v) tree \<Rightarrow> ('k \<times> 'v) list \<Rightarrow> ('k \<times> 'v) list" where
  "Zxb p Tip acc = acc"
| "Zxb p (Node c k v l r) acc =
     (let b = Zxb p l acc; b' = (if p k then b @ [(k, v)] else b) in Zxb p r b')"

subsection \<open>Entries in order\<close>

fun inorder :: "('k, 'v) tree \<Rightarrow> ('k \<times> 'v) list" where
  "inorder Tip = []"
| "inorder (Node c k v l r) = inorder l @ (k, v) # inorder r"

lemma inorder_set_red [simp]: "inorder (set_red c t) = inorder t"
  by (cases t) simp_all

lemma set_red_Tip [simp]: "set_red c t = Tip \<longleftrightarrow> t = Tip"
  by (cases t) simp_all

lemma hyb_Node [simp]:
  "hyb (Node c k v l (Node c' k' v' l' r')) False = Some (Node False k' v' (Node True k v l l') r')"
  "hyb (Node c k v (Node c' k' v' l' r') r) True = Some (Node False k' v' l' (Node True k v r' r))"
  "hyb (Node c k v l Tip) False = None" "hyb (Node c k v Tip r) True = None" "hyb Tip d = None"
  by (simp_all add: hyb_def)

lemma inorder_hyb: "hyb t d = Some t' \<Longrightarrow> inorder t' = inorder t"
  by (cases t; cases "kid t (\<not> d)"; cases d) (auto simp: hyb_def)

lemma inorder_set_kid: "inorder (kid t d) = inorder s \<Longrightarrow> inorder (set_kid t d s) = inorder t"
  by (cases t; cases d) simp_all

lemma inorder_gyb: "gyb t d = Some t' \<Longrightarrow> inorder t' = inorder t"
  by (auto simp: gyb_def inorder_set_kid dest!: inorder_hyb split: option.splits)

lemma inorder_fix_ins: "fix_ins t f = Some t' \<Longrightarrow> inorder t' = inorder t"
  by (cases t) (auto simp: fix_ins_def dest!: inorder_hyb inorder_gyb split: if_splits)

text \<open>What \<open>put\<close> does to the list of entries, and the search in it.\<close>

fun upd :: "('k \<Rightarrow> 'k \<Rightarrow> int) \<Rightarrow> 'k \<Rightarrow> 'v \<Rightarrow> ('k \<times> 'v) list \<Rightarrow> ('k \<times> 'v) list" where
  "upd cmp k v [] = [(k, v)]"
| "upd cmp k v ((x, w) # es) =
     (if cmp k x < 0 then (k, v) # (x, w) # es else if cmp k x = 0 then (x, v) # es else (x, w) # upd cmp k v es)"

definition entry_at :: "('k \<Rightarrow> 'k \<Rightarrow> int) \<Rightarrow> 'k \<Rightarrow> ('k \<times> 'v) list \<Rightarrow> ('k \<times> 'v) option" where
  "entry_at cmp k es = find (\<lambda>e. cmp k (fst e) = 0) es"

abbreviation ascending :: "('k \<Rightarrow> 'k \<Rightarrow> int) \<Rightarrow> ('k \<times> 'v) list \<Rightarrow> bool" where
  "ascending cmp \<equiv> sorted_wrt (\<lambda>a b. cmp (fst a) (fst b) < 0)"

lemma find_append: "find p (xs @ ys) = (case find p xs of None \<Rightarrow> find p ys | r \<Rightarrow> r)"
  by (induction xs) simp_all

lemma entry_at_simps [simp]:
  "entry_at cmp k [] = None" "entry_at cmp k (e # es) = (if cmp k (fst e) = 0 then Some e else entry_at cmp k es)"
  "entry_at cmp k (xs @ ys) = (case entry_at cmp k xs of None \<Rightarrow> entry_at cmp k ys | r \<Rightarrow> r)"
  by (simp_all add: entry_at_def find_append split: option.split)

lemma entry_at_None: "entry_at cmp k es = None \<longleftrightarrow> (\<forall>e \<in> set es. cmp k (fst e) \<noteq> 0)"
  by (auto simp: entry_at_def find_None_iff)

context comparator_sgn
begin

lemma upd_mid:
  "ascending cmp (xs @ (x, w) # ys) \<Longrightarrow>
   upd cmp k v (xs @ (x, w) # ys) =
     (if cmp k x < 0 then upd cmp k v xs @ (x, w) # ys
      else if cmp k x = 0 then xs @ (x, v) # ys else xs @ (x, w) # upd cmp k v ys)"
proof (induction xs)
  case (Cons e xs)
  obtain y u where e: "e = (y, u)" by (cases e)
  from Cons.prems have yx: "cmp y x < 0" by (simp add: e)
  have "cmp k y \<le> 0 \<Longrightarrow> cmp k x < 0" using lt_trans2 yx by blast
  with Cons show ?case by (auto simp: e)
qed auto

lemma entry_at_less: "ascending cmp (xs @ (x, w) # ys) \<Longrightarrow> cmp k x < 0 \<Longrightarrow> entry_at cmp k ys = None"
  unfolding entry_at_None
proof
  fix e assume a: "ascending cmp (xs @ (x, w) # ys)" "cmp k x < 0" "e \<in> set ys"
  then have "cmp x (fst e) < 0" by (auto simp: sorted_wrt_append)
  then show "cmp k (fst e) \<noteq> 0" using lt_trans [OF a(2), of "fst e"] by simp
qed

lemma entry_at_greater: "ascending cmp (xs @ (x, w) # ys) \<Longrightarrow> cmp k x \<ge> 0 \<Longrightarrow> entry_at cmp k xs = None"
  unfolding entry_at_None
proof
  fix e assume a: "ascending cmp (xs @ (x, w) # ys)" "cmp k x \<ge> 0" "e \<in> set xs"
  then have ex: "cmp (fst e) x < 0" by (auto simp: sorted_wrt_append)
  show "cmp k (fst e) \<noteq> 0"
  proof
    assume "cmp k (fst e) = 0"
    then have "cmp k x < 0" using lt_trans2 [OF _ ex, of k] by simp
    with a(2) show False by simp
  qed
qed

lemma upd_keys: "e \<in> set (upd cmp k v es) \<Longrightarrow> fst e = k \<or> fst e \<in> fst ` set es"
  by (induction cmp k v es rule: upd.induct) (auto split: if_splits)

lemma ascending_upd: "ascending cmp es \<Longrightarrow> ascending cmp (upd cmp k v es)"
proof (induction es)
  case (Cons e es)
  obtain x w where e: "e = (x, w)" by (cases e)
  from Cons.prems have x: "\<forall>e \<in> set es. cmp x (fst e) < 0" by (simp add: e)
  then have "\<forall>e \<in> set es. cmp k (fst e) < 0" if "cmp k x < 0" using that lt_trans less_imp_le by blast
  moreover have "\<forall>e \<in> set (upd cmp k v es). cmp x (fst e) < 0" if "cmp k x > 0"
    using x that upd_keys [of _ k v es] cmp_sgn [of x k] by fastforce
  ultimately show ?case using Cons x by (auto simp: e)
qed simp

lemma inorder_ins:
  "ascending cmp (inorder t) \<Longrightarrow> xb_ins cmp t k v = Some (t', st) \<Longrightarrow>
   inorder t' = upd cmp k v (inorder t) \<and> st = map_option snd (entry_at cmp k (inorder t))"
proof (induction t arbitrary: t')
  case (Node c x w l r)
  have asc: "ascending cmp (inorder l)" "ascending cmp (inorder r)"
    using Node.prems(1) by (simp_all add: sorted_wrt_append)
  note [simp] = upd_mid [OF Node.prems(1) [simplified]] entry_at_less [OF Node.prems(1) [simplified]]
    entry_at_greater [OF Node.prems(1) [simplified]]
  consider "cmp k x = 0" | "cmp k x < 0" | "cmp k x > 0" by linarith
  then show ?case
  proof cases
    case 1
    with Node.prems(2) show ?thesis by (auto simp: Let_def)
  next
    case 2
    with Node.prems(2) obtain s where s: "xb_ins cmp l k v = Some (s, st)" "fix_ins (Node c x w s r) False = Some t'"
      by (auto simp: Let_def split: option.splits)
    from Node.IH(1) [OF asc(1) s(1)] inorder_fix_ins [OF s(2)] 2 show ?thesis by (simp split: option.split)
  next
    case 3
    with Node.prems(2) obtain s where s: "xb_ins cmp r k v = Some (s, st)" "fix_ins (Node c x w l s) True = Some t'"
      by (auto simp: Let_def split: option.splits)
    from Node.IH(2) [OF asc(2) s(1)] inorder_fix_ins [OF s(2)] 3 show ?thesis by simp
  qed
qed auto

lemma Txb_at: "ascending cmp (inorder t) \<Longrightarrow> Txb cmp t k = entry_at cmp k (inorder t)"
proof (induction t)
  case (Node c x w l r)
  have "ascending cmp (inorder l)" "ascending cmp (inorder r)"
    using Node.prems by (simp_all add: sorted_wrt_append)
  with Node.IH entry_at_less [OF Node.prems [simplified], of k] entry_at_greater [OF Node.prems [simplified], of k]
  show ?case by (auto simp: Let_def split: option.split)
qed simp

end

subsection \<open>The next entry above and below, the first, the last and all\<close>

abbreviation above :: "('k \<Rightarrow> 'k \<Rightarrow> int) \<Rightarrow> 'k \<Rightarrow> bool \<Rightarrow> 'k \<times> 'v \<Rightarrow> bool" where
  "above cmp k c e \<equiv> cmp k (fst e) < 0 \<or> c \<and> cmp k (fst e) = 0"

abbreviation under :: "('k \<Rightarrow> 'k \<Rightarrow> int) \<Rightarrow> 'k \<Rightarrow> bool \<Rightarrow> 'k \<times> 'v \<Rightarrow> bool" where
  "under cmp k c e \<equiv> cmp k (fst e) > 0 \<or> c \<and> cmp k (fst e) = 0"

context comparator_sgn
begin

lemma ascending_rev: "ascending cmp es \<Longrightarrow> sorted_wrt (\<lambda>a b. cmp (fst a) (fst b) > 0) (rev es)"
  unfolding sorted_wrt_rev by (rule sorted_wrt_mono_rel) (use cmp_sgn in auto)

lemma find_above_none: "ascending cmp (xs @ (x, w) # ys) \<Longrightarrow> cmp k x \<ge> 0 \<Longrightarrow> find (above cmp k c) xs = None"
  unfolding find_None_iff
proof
  assume a: "ascending cmp (xs @ (x, w) # ys)" "cmp k x \<ge> 0" "\<exists>e. e \<in> set xs \<and> above cmp k c e"
  then obtain e where e: "e \<in> set xs" "cmp k (fst e) \<le> 0" by (force split: if_splits)
  with a(1) have "cmp (fst e) x < 0" by (auto simp: sorted_wrt_append)
  with lt_trans2 [OF e(2) this] a(2) show False by simp
qed

lemma find_under_none:
  "ascending cmp (xs @ (x, w) # ys) \<Longrightarrow> cmp k x \<le> 0 \<Longrightarrow> find (under cmp k c) (rev ys) = None"
  unfolding find_None_iff
proof
  assume a: "ascending cmp (xs @ (x, w) # ys)" "cmp k x \<le> 0" "\<exists>e. e \<in> set (rev ys) \<and> under cmp k c e"
  then obtain e where e: "e \<in> set ys" "cmp k (fst e) \<ge> 0" by (force split: if_splits)
  with a(1) have "cmp x (fst e) < 0" by (auto simp: sorted_wrt_append)
  with lt_trans2 [OF a(2) this] e(2) show False by simp
qed

lemma Wxb_loop_find:
  "ascending cmp (inorder t) \<Longrightarrow>
   Wxb_loop cmp t k c e = (case find (above cmp k c) (inorder t) of None \<Rightarrow> e | r \<Rightarrow> r)"
proof (induction t arbitrary: e)
  case (Node rd x w l r)
  have "ascending cmp (inorder l)" "ascending cmp (inorder r)"
    using Node.prems by (simp_all add: sorted_wrt_append)
  with Node.IH find_above_none [OF Node.prems [simplified], of k c] show ?case
    by (auto simp: Let_def find_append split: option.split)
qed simp

lemma Xxb_loop_find:
  "ascending cmp (inorder t) \<Longrightarrow>
   Xxb_loop cmp t k c e = (case find (under cmp k c) (rev (inorder t)) of None \<Rightarrow> e | r \<Rightarrow> r)"
proof (induction t arbitrary: e)
  case (Node rd x w l r)
  have "ascending cmp (inorder l)" "ascending cmp (inorder r)"
    using Node.prems by (simp_all add: sorted_wrt_append)
  with Node.IH find_under_none [OF Node.prems [simplified], of k c] show ?case
    by (auto simp: Let_def find_append split: option.split)
qed simp

lemma Wxb_find: "ascending cmp (inorder t) \<Longrightarrow> Wxb cmp t k c = find (above cmp k c) (inorder t)"
  by (simp add: Wxb_def Wxb_loop_find split: option.split)

lemma Xxb_find: "ascending cmp (inorder t) \<Longrightarrow> Xxb cmp t k c = find (under cmp k c) (rev (inorder t))"
  by (simp add: Xxb_def Xxb_loop_find split: option.split)

end

lemma inorder_Nil [simp]: "inorder t = [] \<longleftrightarrow> t = Tip"
  by (cases t) simp_all

lemma Uxb_first: "Uxb t = (case inorder t of [] \<Rightarrow> None | e # es \<Rightarrow> Some e)"
proof (induction t)
  case (Node c k v l r)
  then show ?case by (cases "inorder l") (auto split: list.splits)
qed simp

lemma Vxb_last: "Vxb t = (case rev (inorder t) of [] \<Rightarrow> None | e # es \<Rightarrow> Some e)"
proof (induction t)
  case (Node c k v l r)
  then show ?case by (cases "rev (inorder r)") (auto split: list.splits)
qed simp

lemma Zxb_filter: "Zxb p t acc = acc @ filter (p \<circ> fst) (inorder t)"
  by (induction t arbitrary: acc) (simp_all add: Let_def)

subsection \<open>Red-black trees\<close>

fun bh :: "('k, 'v) tree \<Rightarrow> nat" where
  "bh Tip = 0"
| "bh (Node c k v l r) = bh l + (if c then 0 else 1)"

fun invh :: "('k, 'v) tree \<Rightarrow> bool" where
  "invh Tip = True"
| "invh (Node c k v l r) = (bh l = bh r \<and> invh l \<and> invh r)"

text \<open>No red node has a red child; in \<open>invc2\<close> a red root may have one.\<close>

fun invc :: "('k, 'v) tree \<Rightarrow> bool" where
  "invc Tip = True"
| "invc (Node c k v l r) = ((c \<longrightarrow> \<not> ayb l \<and> \<not> ayb r) \<and> invc l \<and> invc r)"

fun invc2 :: "('k, 'v) tree \<Rightarrow> bool" where
  "invc2 Tip = True"
| "invc2 (Node c k v l r) = (invc l \<and> invc r \<and> \<not> (c \<and> ayb l \<and> ayb r))"

lemma invc_invc2 [simp]: "invc t \<Longrightarrow> invc2 t"
  by (cases t) simp_all

lemma invc2_cases: "invc2 t \<Longrightarrow> ayb t \<longrightarrow> (\<forall>d. \<not> ayb (kid t d)) \<Longrightarrow> invc t"
  by (cases t) (auto split: if_splits)

lemma fix_ins_rb:
  assumes "invh (Node c k v l r)" "invc (kid (Node c k v l r) (\<not> f))"
    and "invc2 (kid (Node c k v l r) f)" "c \<longrightarrow> \<not> ayb (kid (Node c k v l r) (\<not> f)) \<and> invc (kid (Node c k v l r) f)"
  shows "\<exists>t. fix_ins (Node c k v l r) f = Some t \<and> invh t \<and> bh t = bh (Node c k v l r) \<and> t \<noteq> Tip \<and>
    (if c then invc2 t else invc t)"
proof -
  let ?s = "kid (Node c k v l r) f"
  consider "\<not> ayb ?s" | "ayb ?s" "ayb (kid (Node c k v l r) (\<not> f))" | "ayb ?s" "\<not> ayb (kid (Node c k v l r) (\<not> f))"
    by blast
  then show ?thesis
  proof cases
    case 1
    then have "invc ?s" using assms(3) invc2_cases by blast
    with 1 assms show ?thesis by (cases f) (auto simp: fix_ins_def)
  next
    case 2
    then obtain lk lv ll lr where l: "l = Node True lk lv ll lr" by (cases l; cases f) auto
    from 2 obtain rk rv rl rr where r: "r = Node True rk rv rl rr" by (cases r; cases f) auto
    from 2 assms l r show ?thesis by (cases f) (auto simp: fix_ins_def)
  next
    case 3
    show ?thesis
    proof (cases f)
      case True
      with 3 obtain rk rv rl rr where r: "r = Node True rk rv rl rr" by (cases r) auto
      show ?thesis using assms 3 True r
        by (cases rl; cases rr) (auto simp: fix_ins_def gyb_def split: if_splits)
    next
      case False
      with 3 obtain lk lv ll lr where l: "l = Node True lk lv ll lr" by (cases l) auto
      show ?thesis using assms 3 False l
        by (cases ll; cases lr) (auto simp: fix_ins_def gyb_def split: if_splits)
    qed
  qed
qed

lemma xb_ins_rb:
  "invc t \<Longrightarrow> invh t \<Longrightarrow>
   \<exists>s st. xb_ins cmp t k v = Some (s, st) \<and> invh s \<and> bh s = bh t \<and> s \<noteq> Tip \<and> (if ayb t then invc2 s else invc s)"
proof (induction t)
  case (Node c x w l r)
  consider "cmp k x = 0" | "cmp k x < 0" | "cmp k x > 0" by linarith
  then show ?case
  proof cases
    case 1
    with Node.prems show ?thesis by auto
  next
    case 2
    obtain s st where s: "xb_ins cmp l k v = Some (s, st)" "invh s" "bh s = bh l" "if ayb l then invc2 s else invc s"
      using Node by auto
    have "\<exists>t. fix_ins (Node c x w s r) False = Some t \<and> invh t \<and> bh t = bh (Node c x w s r) \<and> t \<noteq> Tip \<and>
        (if c then invc2 t else invc t)"
      by (rule fix_ins_rb) (use s Node.prems in \<open>auto split: if_splits\<close>)
    with s 2 show ?thesis by auto
  next
    case 3
    obtain s st where s: "xb_ins cmp r k v = Some (s, st)" "invh s" "bh s = bh r" "if ayb r then invc2 s else invc s"
      using Node by auto
    have "\<exists>t. fix_ins (Node c x w l s) True = Some t \<and> invh t \<and> bh t = bh (Node c x w l s) \<and> t \<noteq> Tip \<and>
        (if c then invc2 t else invc t)"
      by (rule fix_ins_rb) (use s Node.prems in \<open>auto split: if_splits\<close>)
    with s 3 show ?thesis by (auto simp: Let_def)
  qed
qed auto

subsection \<open>The map\<close>

abbreviation entries :: "('k, 'v) tree_map \<Rightarrow> ('k \<times> 'v) list" where
  "entries m \<equiv> inorder (tm_root m)"

definition tm_ok :: "('k \<Rightarrow> 'k \<Rightarrow> int) \<Rightarrow> ('k, 'v) tree_map \<Rightarrow> bool" where
  "tm_ok cmp m \<longleftrightarrow> ascending cmp (entries m) \<and> invc (tm_root m) \<and> invh (tm_root m) \<and> \<not> ayb (tm_root m) \<and>
     tm_size m = length (entries m)"

lemma invc2_black: "invc2 t \<Longrightarrow> invc (set_red False t)"
  by (cases t) simp_all

lemma invh_set_red [simp]: "invh (set_red c t) = invh t"
  by (cases t) simp_all

lemma ayb_set_red [simp]: "ayb (set_red c t) \<longleftrightarrow> c \<and> t \<noteq> Tip"
  by (cases t) simp_all

context comparator_sgn
begin

lemma length_upd:
  "ascending cmp es \<Longrightarrow> length (upd cmp k v es) = (if entry_at cmp k es = None then Suc (length es) else length es)"
proof (induction es)
  case (Cons e es)
  obtain x w where e: "e = (x, w)" by (cases e)
  have "entry_at cmp k es = None" if "cmp k x < 0" using entry_at_less [of "[]" x w es k] Cons.prems that e by simp
  with Cons show ?case by (auto simp: e)
qed simp

lemma byb_put:
  assumes "tm_ok cmp m"
  shows "\<exists>m'. byb cmp m k v = Some (m', map_option snd (entry_at cmp k (entries m))) \<and> tm_ok cmp m' \<and>
    entries m' = upd cmp k v (entries m)"
proof -
  from assms have ok: "ascending cmp (entries m)" "invc (tm_root m)" "invh (tm_root m)" "\<not> ayb (tm_root m)"
    "tm_size m = length (entries m)"
    by (simp_all add: tm_ok_def)
  obtain s st where s: "xb_ins cmp (tm_root m) k v = Some (s, st)" "invh s" "invc2 s"
    using xb_ins_rb [OF ok(2,3), of cmp k v] ok(4) by auto
  from inorder_ins [OF ok(1) s(1)]
  have "inorder s = upd cmp k v (entries m)" "st = map_option snd (entry_at cmp k (entries m))" by simp_all
  moreover have "tm_ok cmp \<lparr>tm_root = set_red False s, tm_size = (if st = None then Suc (tm_size m) else tm_size m)\<rparr>"
    using ok s calculation ascending_upd [OF ok(1)] length_upd [OF ok(1), of k v]
    by (auto simp: tm_ok_def invc2_black)
  ultimately show ?thesis using s(1) by (simp add: byb_def)
qed

end

subsection \<open>The height\<close>

fun height :: "('k, 'v) tree \<Rightarrow> nat" where
  "height Tip = 0"
| "height (Node c k v l r) = Suc (max (height l) (height r))"

lemma height_bh: "invc t \<Longrightarrow> invh t \<Longrightarrow> height t \<le> 2 * bh t + (if ayb t then 1 else 0)"
proof (induction t)
  case (Node c k v l r)
  then have "height l \<le> 2 * bh l + (if ayb l then 1 else 0)" "height r \<le> 2 * bh r + (if ayb r then 1 else 0)"
    by simp_all
  with Node.prems show ?case by (auto split: if_splits)
qed simp

lemma bh_size: "invh t \<Longrightarrow> 2 ^ bh t \<le> length (inorder t) + 1"
proof (induction t)
  case (Node c k v l r)
  then have "2 ^ bh l \<le> length (inorder l) + 1" "2 ^ bh r \<le> length (inorder r) + 1" "bh l = bh r" by simp_all
  then show ?case by simp
qed simp

lemma tm_height:
  assumes "tm_ok cmp m"
  shows "2 ^ height (tm_root m) \<le> (tm_size m + 1) ^ 2"
proof -
  have "height (tm_root m) \<le> 2 * bh (tm_root m)"
    using height_bh [of "tm_root m"] assms by (simp add: tm_ok_def)
  then have "(2::nat) ^ height (tm_root m) \<le> (2 ^ bh (tm_root m)) ^ 2"
    by (simp add: power_increasing flip: power_mult power_mult [of _ _ 2] mult.commute [of 2])
  also have "\<dots> \<le> (tm_size m + 1) ^ 2"
    using bh_size [of "tm_root m"] assms by (intro power_mono) (simp_all add: tm_ok_def)
  finally show ?thesis .
qed

end
