(* ===== verification/TreeCode.thy ===== *)
theory TreeCode
  imports CodeRun GwtTree
begin

text \<open>
  The code of the red-black tree, as the tables have it, on trees that lie in the store. A tree of
  \<open>GwtTree\<close> whose keys carry the addresses of their node and of its array of children describes a part
  of the store (\<open>tree_at\<close>); the code then computes the functions of \<open>GwtTree\<close>: the rotations, the
  insertion and the searches, with the same nodes in the same places, touching nothing else. The
  interface \<open>tree_code\<close> is a program with these functions and a comparator; \<open>CodeLinks\<close> shows that the
  worker is one.
\<close>

subsection \<open>The functions\<close>

definition ayb_fun :: jfun where
  "ayb_fun = \<lparr>f_params = 1, f_locals = 0, f_body =
     [Ret (And (Neg (Neg (V 0))) (Dot (V 0) ''b''))]\<rparr>"

definition hyb_fun :: jfun where
  "hyb_fun = \<lparr>f_params = 2, f_locals = 2, f_body =
     [Do (SetV 2 (Bin Minus (K (JNum 1)) (V 1))), Do (SetV 3 (Idx (Dot (V 0) ''a'') (V 2))), Do
     (PutIdx (Dot (V 0) ''a'') (V 2) (Idx (Dot (V 3) ''a'') (V 1))), Do (PutIdx (Dot (V 3) ''a'') (V
     1) (V 0)), Do (Put (V 0) ''b'' (K (JBool True))), Do (Put (V 3) ''b'' (K (JBool False))), Ret
     (V 3)]\<rparr>"

definition gyb_fun :: jfun where
  "gyb_fun = \<lparr>f_params = 2, f_locals = 1, f_body =
     [Do (SetV 2 (Bin Minus (K (JNum 1)) (V 1))), Do (PutIdx (Dot (V 0) ''a'') (V 2) (Call ''hyb''
     [Idx (Dot (V 0) ''a'') (V 2), V 2])), Ret (Call ''hyb'' [V 0, V 1])]\<rparr>"

definition Akb_fun :: jfun where
  "Akb_fun = \<lparr>f_params = 2, f_locals = 1, f_body =
     [Do (SetV 2 (Dot (V 0) ''e'')), Do (Put (V 0) ''e'' (V 1)), Ret (V 2)]\<rparr>"

definition xb_fix :: jstm where
  "xb_fix =
     When (Call ''ayb'' [Idx (Dot (V 1) ''a'') (V 5)]) [When (Call ''ayb'' [Idx (Dot (V 1) ''a'')
     (Bin Minus (K (JNum 1)) (V 5))]) [Do (Put (V 1) ''b'' (K (JBool True))), Do (Put (Idx (Dot (V
     1) ''a'') (K (JNum 0))) ''b'' (K (JBool False))), Do (Put (Idx (Dot (V 1) ''a'') (K (JNum 1)))
     ''b'' (K (JBool False)))] [Do (Cond (Call ''ayb'' [Idx (Dot (Idx (Dot (V 1) ''a'') (V 5))
     ''a'') (V 5)]) (SetV 1 (Call ''hyb'' [V 1, Bin Minus (K (JNum 1)) (V 5)])) (And (Call ''ayb''
     [Idx (Dot (Idx (Dot (V 1) ''a'') (V 5)) ''a'') (Bin Minus (K (JNum 1)) (V 5))]) (SetV 1 (Call
     ''gyb'' [V 1, Bin Minus (K (JNum 1)) (V 5)]))))]] []"

definition xb_fun :: jfun where
  "xb_fun = \<lparr>f_params = 4, f_locals = 2, f_body =
     [When (Neg (V 1)) [Ret (V 2)] [Do (SetV 4 (Meth (Dot (V 0) ''a'') ''Le'' [Dot (V 2) ''d'', Dot
     (V 1) ''d''])), When (Loose (V 4) (K (JNum 0))) [Do (Put (V 3) ''d'' (Call ''Akb'' [V 1, Dot (V
     2) ''e''])), Do (Put (V 3) ''b'' (K (JBool True))), Ret (V 1)] [], Do (SetV 5 (Cond (Bin Lt (V
     4) (K (JNum 0))) (K (JNum 0)) (K (JNum 1)))), Do (PutIdx (Dot (V 1) ''a'') (V 5) (Call ''_xb''
     [V 0, Idx (Dot (V 1) ''a'') (V 5), V 2, V 3])), xb_fix], Ret (V 1)]\<rparr>"

definition Txb_body :: "jstm list" where
  "Txb_body =
     [Do (SetV 2 (Meth (Dot (V 0) ''a'') ''Le'' [V 1, Dot (V 4) ''d''])), When (Loose (V 2) (K (JNum
     0))) [Ret (V 4)] [], Do (SetV 3 (Cond (Bin Lt (V 2) (K (JNum 0))) (K (JNum 0)) (K (JNum 1)))),
     Do (SetV 4 (Idx (Dot (V 4) ''a'') (V 3)))]"

definition Txb_fun :: jfun where
  "Txb_fun = \<lparr>f_params = 2, f_locals = 3, f_body =
     [Do (SetV 4 (Dot (V 0) ''b'')), Loop (V 4) Txb_body [], Ret (K JNull)]\<rparr>"

definition Wxb_body :: "jstm list" where
  "Wxb_body =
     [Do (SetV 3 (Meth (Dot (V 0) ''a'') ''Le'' [V 1, Dot (V 5) ''d''])), When (And (V 2) (Loose (V
     3) (K (JNum 0)))) [Ret (V 5)] [], When (Bin Ge (V 3) (K (JNum 0))) [Do (SetV 5 (Idx (Dot (V 5)
     ''a'') (K (JNum 1))))] [Do (SetV 4 (V 5)), Do (SetV 5 (Idx (Dot (V 5) ''a'') (K (JNum 0))))]]"

definition Wxb_fun :: jfun where
  "Wxb_fun = \<lparr>f_params = 3, f_locals = 3, f_body =
     [Do (SetV 4 (K JNull)), Do (SetV 5 (Dot (V 0) ''b'')), Loop (V 5) Wxb_body [], Ret (V 4)]\<rparr>"

definition Xxb_body :: "jstm list" where
  "Xxb_body =
     [Do (SetV 3 (Meth (Dot (V 0) ''a'') ''Le'' [V 1, Dot (V 5) ''d''])), When (And (V 2) (Loose (V
     3) (K (JNum 0)))) [Ret (V 5)] [], When (Bin Le (V 3) (K (JNum 0))) [Do (SetV 5 (Idx (Dot (V 5)
     ''a'') (K (JNum 0))))] [Do (SetV 4 (V 5)), Do (SetV 5 (Idx (Dot (V 5) ''a'') (K (JNum 1))))]]"

definition Xxb_fun :: jfun where
  "Xxb_fun = \<lparr>f_params = 3, f_locals = 3, f_body =
     [Do (SetV 4 (K JNull)), Do (SetV 5 (Dot (V 0) ''b'')), Loop (V 5) Xxb_body [], Ret (V 4)]\<rparr>"

subsection \<open>Trees in the store\<close>

text \<open>A key with the address of its node and the address of the array of the node's children.\<close>

type_synonym akey = "jval \<times> nat \<times> nat"
type_synonym jtree = "(akey, jval) tree"

definition cmpk :: "(jval \<Rightarrow> jval \<Rightarrow> int) \<Rightarrow> akey \<Rightarrow> akey \<Rightarrow> int" where
  "cmpk cmp x y = cmp (fst x) (fst y)"

fun addrs :: "jtree \<Rightarrow> nat list" where
  "addrs Tip = []"
| "addrs (Node c k v l r) = fst (snd k) # snd (snd k) # addrs l @ addrs r"

text \<open>The value of a variable or element that holds a tree: an empty one is \<open>null\<close> or \<open>undefined\<close>.\<close>

fun slot :: "jtree \<Rightarrow> jval \<Rightarrow> bool" where
  "slot Tip w = (w = JNull \<or> w = JUndef)"
| "slot (Node c k v l r) w = (w = JRef (fst (snd k)))"

fun tree_at :: "jst \<Rightarrow> jtree \<Rightarrow> bool" where
  "tree_at s Tip = True"
| "tree_at s (Node c (k, n, a) v l r) =
     (fld s n ''b'' = Some (JBool c) \<and> fld s n ''d'' = Some k \<and> fld s n ''e'' = Some v \<and>
      fld s n ''a'' = Some (JRef a) \<and> pair_at s a \<and>
      slot l (elem s a False) \<and> slot r (elem s a True) \<and> tree_at s l \<and> tree_at s r)"

text \<open>All the keys of a tree are keys of the comparator.\<close>

fun keys_ok :: "(jval \<Rightarrow> bool) \<Rightarrow> jtree \<Rightarrow> bool" where
  "keys_ok key Tip = True"
| "keys_ok key (Node c k v l r) = (key (fst k) \<and> keys_ok key l \<and> keys_ok key r)"

lemma tree_at_cong:
  "(\<And>x. x \<in> set (addrs t) \<Longrightarrow> fld s' x = fld s x) \<Longrightarrow> cls s' = cls s \<Longrightarrow> tree_at s' t = tree_at s t"
  by (induction t rule: addrs.induct) (auto simp: elem_def pair_at_def)

lemma tree_at_upd: "x \<notin> set (addrs t) \<Longrightarrow> tree_at (set_fld s x f w) t = tree_at s t"
  by (rule tree_at_cong) (auto intro!: ext fld_upd_other)

lemma tree_at_kid:
  "tree_at s (Node c (k, n, a) v l r) \<Longrightarrow> tree_at s (if d then r else l) \<and> slot (if d then r else l) (elem s a d)"
  by simp

lemma tree_at_out: "same_out A s s' \<Longrightarrow> A \<inter> set (addrs t) = {} \<Longrightarrow> tree_at s' t = tree_at s t"
  by (rule tree_at_cong) (auto simp: same_out_def)

lemma truthy_slot: "slot t w \<Longrightarrow> truthy_val w \<longleftrightarrow> t \<noteq> Tip"
  by (cases t) auto

lemma addrs_hyb: "hyb t d = Some t' \<Longrightarrow> mset (addrs t') = mset (addrs t)"
  by (cases t; cases "kid t (\<not> d)"; cases d) (auto simp: hyb_def)

lemma mset_addrs_kid: "t \<noteq> Tip \<Longrightarrow>
    mset (addrs (set_kid t d s)) + mset (addrs (kid t d)) = mset (addrs t) + mset (addrs s)"
  by (cases t; cases d) auto

lemma addrs_gyb: "gyb t d = Some t' \<Longrightarrow> mset (addrs t') = mset (addrs t)"
proof -
  assume g: "gyb t d = Some t'"
  then obtain c where c: "hyb (kid t (\<not> d)) (\<not> d) = Some c" "hyb (set_kid t (\<not> d) c) d = Some t'"
    by (auto simp: gyb_def split: option.splits)
  then have "t \<noteq> Tip" by (cases t) auto
  with mset_addrs_kid [OF this, of "\<not> d" c] addrs_hyb [OF c(1)] addrs_hyb [OF c(2)] show ?thesis by simp
qed

lemma addrs_recolour:
  "mset (addrs (set_kid (set_kid (set_red e t) False (set_red f (kid t False))) True (set_red g (kid t True)))) = mset (addrs t)"
proof (cases t)
  case (Node c k v l r)
  then show ?thesis by (cases l; cases r) auto
qed simp

lemma addrs_fix: "fix_ins t f = Some t' \<Longrightarrow> mset (addrs t') = mset (addrs t)"
  by (auto simp: fix_ins_def addrs_recolour dest!: addrs_hyb addrs_gyb split: if_splits)

text \<open>The entries of a tree without the addresses.\<close>

definition plain :: "jtree \<Rightarrow> (jval \<times> jval) list" where
  "plain t = map (\<lambda>e. (fst (fst e), snd e)) (inorder t)"

lemma ascending_plain: "ascending (cmpk cmp) (inorder t) \<longleftrightarrow> ascending cmp (plain t)"
  by (simp add: plain_def sorted_wrt_map cmpk_def)

lemma plain_upd:
  "map (\<lambda>e. (fst (fst e), snd e)) (GwtTree.upd (cmpk cmp) k v es) = GwtTree.upd cmp (fst k) v (map (\<lambda>e. (fst (fst e), snd e)) es)"
  by (induction es) (auto simp: cmpk_def)

lemma comparator_cmpk: "comparator_sgn cmp \<Longrightarrow> comparator_sgn (cmpk cmp)"
  unfolding comparator_sgn_def comparator_def comparator_sgn_axioms_def cmpk_def by blast

text \<open>A value that is the node of an entry, or \<open>null\<close> when there is none.\<close>

fun node_of :: "jst \<Rightarrow> (jval \<times> jval) option \<Rightarrow> jval \<Rightarrow> bool" where
  "node_of s None r = (r = JNull)"
| "node_of s (Some (k, v)) r = (case r of JRef n \<Rightarrow> fld s n ''d'' = Some k \<and> fld s n ''e'' = Some v | _ \<Rightarrow> False)"

lemma tree_at_entry: "tree_at s t \<Longrightarrow> ((k, n, a), v) \<in> set (inorder t) \<Longrightarrow> fld s n ''d'' = Some k \<and> fld s n ''e'' = Some v"
  by (induction t rule: addrs.induct) auto

lemma find_plain: "find P (plain t) = map_option (\<lambda>e. (fst (fst e), snd e)) (find (\<lambda>e. P (fst (fst e), snd e)) (inorder t))"
    "find P (rev (plain t)) = map_option (\<lambda>e. (fst (fst e), snd e)) (find (\<lambda>e. P (fst (fst e), snd e)) (rev (inorder t)))"
proof -
  have *: "find P (map g xs) = map_option g (find (\<lambda>e. P (g e)) xs)" for g :: "akey \<times> jval \<Rightarrow> jval \<times> jval" and xs
    by (induction xs) auto
  show "find P (plain t) = map_option (\<lambda>e. (fst (fst e), snd e)) (find (\<lambda>e. P (fst (fst e), snd e)) (inorder t))"
    "find P (rev (plain t)) = map_option (\<lambda>e. (fst (fst e), snd e)) (find (\<lambda>e. P (fst (fst e), snd e)) (rev (inorder t)))"
    unfolding plain_def rev_map by (rule *)+
qed

subsection \<open>The code\<close>

text \<open>No global hides the functions.\<close>

definition free :: "jst \<Rightarrow> bool" where
  "free s \<longleftrightarrow> (\<forall>x \<in> {''ayb'', ''hyb'', ''gyb'', ''Akb'', ''_xb''}. j_glob s x = None)"

text \<open>What the insertion leaves: the old value of the key in the state object, or one more node.\<close>

definition xb_left :: "jst \<Rightarrow> jst \<Rightarrow> jtree \<Rightarrow> jtree \<Rightarrow> nat \<Rightarrow> nat \<Rightarrow> nat \<Rightarrow> jval option \<Rightarrow> bool" where
  "xb_left s s' t t' nn na st res \<longleftrightarrow>
     (case res of
        None \<Rightarrow> fld s' st = fld s st \<and> mset (addrs t') = mset (nn # na # addrs t)
      | Some old \<Rightarrow> fld s' st ''d'' = Some old \<and> fld s' st ''b'' = Some (JBool True) \<and> mset (addrs t') = mset (addrs t))"

lemma two_more:
  "mset ys = mset xs \<or> mset ys = mset (x # y # xs) \<Longrightarrow> distinct (x # y # xs) \<Longrightarrow>
   distinct ys \<and> set ys \<subseteq> set (x # y # xs)"
  using mset_eq_setD [of ys xs] mset_eq_setD [of ys "x # y # xs"] mset_eq_imp_distinct_iff [of ys xs]
    mset_eq_imp_distinct_iff [of ys "x # y # xs"] by auto

text \<open>Where the new node, the state object and the map lie: outside of the tree and apart from each other.\<close>

definition apart :: "jtree \<Rightarrow> nat \<Rightarrow> nat \<Rightarrow> nat \<Rightarrow> nat \<Rightarrow> nat \<Rightarrow> bool" where
  "apart t nn na st m cr \<longleftrightarrow> distinct (nn # na # st # addrs t) \<and>
     m \<notin> set (nn # na # st # addrs t) \<and> cr \<notin> set (nn # na # st # addrs t)"

text \<open>The loops of the searches. The node found is the one whose address its key carries.\<close>

definition node_ref :: "(akey \<times> jval) option \<Rightarrow> jval" where
  "node_ref e = (case e of None \<Rightarrow> JNull | Some (k, v) \<Rightarrow> JRef (fst (snd k)))"


locale tree_code = comparator_code p le cc key cmp lf
  for p :: jprog and le cc :: string and key :: "jst \<Rightarrow> jval \<Rightarrow> bool"
    and cmp :: "jst \<Rightarrow> jval \<Rightarrow> jval \<Rightarrow> int" and lf :: nat +
  assumes funs: "p_fun p ''ayb'' = Some ayb_fun" "p_fun p ''hyb'' = Some hyb_fun" "p_fun p ''gyb'' = Some gyb_fun"
      "p_fun p ''Akb'' = Some Akb_fun" "p_fun p ''_xb'' = Some xb_fun" "p_fun p ''Txb'' = Some Txb_fun"
      "p_fun p ''Wxb'' = Some Wxb_fun" "p_fun p ''Xxb'' = Some Xxb_fun"
    and array_proto: "p_proto p ''Array'' ''0'' = None" "p_proto p ''Array'' ''1'' = None"
begin

lemma globs:
  assumes "free s"
  shows "glob_val p ''ayb'' s = Some (JFun ''ayb'')" "glob_val p ''hyb'' s = Some (JFun ''hyb'')"
    "glob_val p ''gyb'' s = Some (JFun ''gyb'')" "glob_val p ''Akb'' s = Some (JFun ''Akb'')"
    "glob_val p ''_xb'' s = Some (JFun ''_xb'')"
  using assms by (simp_all add: free_def glob_val_def funs)

lemma free_out: "same_out A s s' \<Longrightarrow> free s' = free s"
  by (simp add: free_def same_out_def)

lemma free_upd [simp]: "free (set_fld s x f w) = free s"
  by (simp add: free_def)

lemma proto_key: "p_proto p ''Array'' (key_of d) = None"
  by (simp add: key_of_def array_proto)

lemmas elems = get_elem [OF _ proto_key] get_elem_01 [OF _ array_proto] put_elem put_elem_01

lemma run_ayb:
  assumes "tree_at s t" "slot t w"
  shows "run p (Suc n) ''ayb'' th [w] s = Ok (JBool (ayb t)) s"
proof (cases t)
  case (Node c k v l r)
  with assms show ?thesis
    by (cases k) (simp add: run_fun [OF funs(1)] ayb_fun_def exec get_fld del: run.simps)
qed (use assms in \<open>auto simp: run_fun [OF funs(1)] ayb_fun_def exec simp del: run.simps\<close>)

lemma run_hyb_raw:
  assumes "fld s n ''a'' = Some (JRef a)" "pair_at s a" "elem s a (\<not> d) = JRef n'"
    "fld s n' ''a'' = Some (JRef a')" "pair_at s a'"
  shows "run p (Suc m) ''hyb'' th [JRef n, JNum (ix d)] s = Ok (JRef n')
    (set_fld (set_fld (set_fld (set_fld s a (key_of (\<not> d)) (elem s a' d)) a' (key_of d) (JRef n)) n ''b'' (JBool True)) n' ''b'' (JBool False))"
  using assms by (simp add: run_fun [OF funs(2)] hyb_fun_def exec get_fld elems pair_upd put_fld
      fld_cls [of s n "''a''"] fld_cls [of s n' "''a''"] del: run.simps)

lemma run_hyb:
  assumes "tree_at s t" "distinct (addrs t)" "slot t w" "hyb t d = Some t'"
  shows "\<exists>s' w'. run p (Suc m) ''hyb'' th [w, JNum (ix d)] s = Ok w' s' \<and> slot t' w' \<and> tree_at s' t' \<and>
    same_out (set (addrs t)) s s'"
proof -
  obtain c k n a v l r where t: "t = Node c (k, n, a) v l r"
    using assms(4) by (cases t) auto
  obtain c' k' n' a' v' l' r' where kid: "(if d then l else r) = Node c' (k', n', a') v' l' r'"
    using assms(4) unfolding t by (cases d; cases l; cases r) auto
  let ?s = "set_fld (set_fld (set_fld (set_fld s a (key_of (\<not> d)) (elem s a' d)) a' (key_of d) (JRef n)) n ''b'' (JBool True)) n' ''b'' (JBool False)"
  have k: "tree_at s (if d then l else r)" "slot (if d then l else r) (elem s a (\<not> d))"
    using tree_at_kid [of s c k n a v l r "\<not> d"] assms(1) by (auto simp: t)
  have run: "run p (Suc m) ''hyb'' th [w, JNum (ix d)] s = Ok (JRef n') ?s"
    using run_hyb_raw [of s n a d n' a' m th] assms(1,3) k unfolding kid t by simp
  have alloc: "cls s a \<noteq> None" "cls s a' \<noteq> None" "cls s n \<noteq> None" "cls s n' \<noteq> None"
    using assms(1) k(1) fld_cls [of s n "''a''"] fld_cls [of s n' "''a''"] pair_cls unfolding kid t by simp_all
  have out: "same_out (set (addrs t)) s ?s"
    using kid by (cases d) (auto intro!: same_out_upd simp: t)
  have "tree_at ?s t' \<and> slot t' (JRef n')"
    using assms kid alloc unfolding t
    by (cases d) (auto simp: tree_at_upd fld_upd pair_upd elem_put)
  with run out show ?thesis by blast
qed

text \<open>Replacing a child after a call that may have changed the child's part of the store.\<close>

lemma tree_at_set_kid:
  assumes "tree_at s (Node c (k, n, a) v l r)" "n \<notin> A" "a \<notin> A" "A \<inter> set (addrs o') = {}"
    "same_out A s s1" "tree_at s1 t'" "slot t' w" "a \<notin> set (addrs t')" "a \<noteq> n" "a \<notin> set (addrs o')"
    "o' = kid (Node c (k, n, a) v l r) (\<not> d)"
  shows "tree_at (set_fld s1 a (key_of d) w) (set_kid (Node c (k, n, a) v l r) d t')"
proof -
  note out = same_outD(1) [OF assms(5)] same_outD(2) [OF assms(5)]
  have "cls s1 a \<noteq> None" using assms(1) pair_cls by (simp add: out)
  moreover have "elem s1 a e = elem s a e" "pair_at s1 a = pair_at s a" for e
    using assms(3) by (simp_all add: elem_def pair_at_def out)
  ultimately show ?thesis using assms tree_at_out [OF assms(5), of l] tree_at_out [OF assms(5), of r]
    by (cases d) (auto simp: out tree_at_upd pair_upd elem_put)
qed

lemma run_gyb:
  assumes "tree_at s t" "distinct (addrs t)" "slot t w" "gyb t d = Some t'" "free s"
  shows "\<exists>s' w'. run p (Suc (Suc m)) ''gyb'' th [w, JNum (ix d)] s = Ok w' s' \<and> slot t' w' \<and> tree_at s' t' \<and>
    same_out (set (addrs t)) s s'"
proof -
  obtain u where u: "hyb (kid t (\<not> d)) (\<not> d) = Some u" "hyb (set_kid t (\<not> d) u) d = Some t'"
    using assms(4) by (auto simp: gyb_def split: option.splits)
  obtain c k n a v l r where t: "t = Node c (k, n, a) v l r"
    using u by (cases t) auto
  define x where "x = kid t (\<not> d)"
  have x: "tree_at s x" "slot x (elem s a (\<not> d))" "distinct (addrs x)" "n \<notin> set (addrs x)" "a \<notin> set (addrs x)" "a \<noteq> n"
    "a \<notin> set (addrs (kid t d))" "set (addrs x) \<inter> set (addrs (kid t d)) = {}"
    using assms(1,2) by (auto simp: t x_def)
  obtain s1 w1 where s1: "run p (Suc m) ''hyb'' JUndef [elem s a (\<not> d), JNum (ix (\<not> d))] s = Ok w1 s1"
      "slot u w1" "tree_at s1 u" "same_out (set (addrs x)) s s1"
    using run_hyb [OF x(1,3,2), of "\<not> d" u m JUndef] u(1) unfolding x_def by blast
  have mu: "mset (addrs u) = mset (addrs x)" using addrs_hyb u(1) by (simp add: x_def)
  then have su: "set (addrs u) = set (addrs x)" by (metis set_mset_mset)
  let ?s2 = "set_fld s1 a (key_of (\<not> d)) w1" and ?t2 = "set_kid t (\<not> d) u"
  have t2: "tree_at ?s2 ?t2"
    unfolding t using assms(1) x s1 su
    by (intro tree_at_set_kid [where A = "set (addrs x)" and o' = "kid t d"]) (simp_all add: t)
  have "mset (addrs ?t2) = mset (addrs t)"
    using mset_addrs_kid [of t "\<not> d" u] mu by (simp add: t x_def)
  then have d2: "distinct (addrs ?t2)" and set2: "set (addrs ?t2) = set (addrs t)"
    using assms(2) mset_eq_imp_distinct_iff mset_eq_setD by blast+
  obtain s' w' where s': "run p (Suc m) ''hyb'' JUndef [JRef n, JNum (ix d)] ?s2 = Ok w' s'"
      "slot t' w'" "tree_at s' t'" "same_out (set (addrs ?t2)) ?s2 s'"
    using run_hyb [OF t2 d2 _ u(2), of "JRef n" m JUndef] by (cases d) (auto simp: t)
  have xa: "set (addrs x) \<subseteq> set (addrs t)" by (auto simp: t x_def)
  have "same_out (set (addrs t)) s ?s2"
    using same_out_mono [OF s1(4) xa] by (auto intro: same_out_upd simp: t)
  then have "same_out (set (addrs t)) s s'"
    using same_out_trans [OF _ s'(4)] set2 by auto
  moreover have "run p (Suc (Suc m)) ''gyb'' th [w, JNum (ix d)] s = Ok w' s'"
    using assms(1,3,5) s1(1) s'(1) same_outD(2) [OF s1(4)] same_outD(1) [OF s1(4)] x(4,5) globs [OF assms(5)]
      glob_same [OF s1(4)]
    by (simp add: t run_fun [OF funs(3)] gyb_fun_def exec get_fld elems pair_at_def del: run.simps)
  ultimately show ?thesis using s' by blast
qed

text \<open>The part of \<open>_xb\<close> after the recursive call.\<close>

lemma exec_recolour:
  assumes "tree_at s t" "distinct (addrs t)" "slot t w" "ayb (kid t False)" "ayb (kid t True)"
  shows "\<exists>s'. exs p c m th [Do (Put (V 1) ''b'' (K (JBool True))), Do (Put (Idx (Dot (V 1) ''a'') (K (JNum 0))) ''b'' (K (JBool False))),
      Do (Put (Idx (Dot (V 1) ''a'') (K (JNum 1))) ''b'' (K (JBool False)))] ([x0, w, x2, x3, x4, x5], s) =
      Ok Next ([x0, w, x2, x3, x4, x5], s') \<and>
    tree_at s' (set_kid (set_kid (set_red True t) False (set_red False (kid t False))) True (set_red False (kid t True))) \<and>
    same_out (set (addrs t)) s s'"
proof -
  obtain c k n a v c1 k1 n1 a1 v1 l1 r1 c2 k2 n2 a2 v2 l2 r2 where
    t: "t = Node c (k, n, a) v (Node c1 (k1, n1, a1) v1 l1 r1) (Node c2 (k2, n2, a2) v2 l2 r2)"
    using assms(4,5) by (cases t; cases "kid t False"; cases "kid t True") auto
  have alloc: "cls s n \<noteq> None" "cls s n1 \<noteq> None" "cls s n2 \<noteq> None"
    using assms(1) fld_cls [of s _ "''a''"] by (auto simp: t)
  let ?s = "set_fld (set_fld (set_fld s n ''b'' (JBool True)) n1 ''b'' (JBool False)) n2 ''b'' (JBool False)"
  have "same_out (set (addrs t)) s ?s" by (auto intro!: same_out_upd simp: t)
  moreover have "tree_at ?s (set_kid (set_kid (set_red True t) False (set_red False (kid t False))) True (set_red False (kid t True)))"
    using assms(1,2) alloc by (auto simp: t tree_at_upd fld_upd pair_upd)
  ultimately show ?thesis
    using assms(1,3) alloc by (intro exI [of _ ?s]) (simp add: t exec get_fld put_fld elems pair_upd)
qed

lemma exec_fix:
  assumes "tree_at s t" "distinct (addrs t)" "slot t w" "t \<noteq> Tip" "fix_ins t f = Some t'" "free s"
  shows "\<exists>s' w'. exs p (run p (Suc (Suc m))) k th [xb_fix] ([x0, w, x2, x3, x4, JNum (ix f)], s) =
      Ok Next ([x0, w', x2, x3, x4, JNum (ix f)], s') \<and> slot t' w' \<and> tree_at s' t' \<and> same_out (set (addrs t)) s s'"
proof -
  obtain c kk n a v l r where t: "t = Node c (kk, n, a) v l r" using assms(4) by (cases t) auto
  have kid: "tree_at s (kid t d)" "slot (kid t d) (elem s a d)" for d using assms(1) by (auto simp: t)
  have base: "fld s n ''a'' = Some (JRef a)" "pair_at s a" "w = JRef n" using assms(1,3) by (simp_all add: t)
  note ev = exec get_fld elems globs [OF assms(6)] base run_ayb [OF kid]
  show ?thesis
  proof (cases "ayb (kid t f)")
    case False
    then have "t' = t" using assms(5) by (simp add: fix_ins_def)
    with False assms show ?thesis
      by (intro exI [of _ s] exI [of _ w]) (simp add: xb_fix_def ev del: run.simps)
  next
    case red: True
    show ?thesis
    proof (cases "ayb (kid t (\<not> f))")
      case True
      with red have both: "ayb (kid t False)" "ayb (kid t True)" by (cases f; simp)+
      from True red assms(5) have t': "t' = set_kid (set_kid (set_red True t) False (set_red False (kid t False))) True (set_red False (kid t True))"
        by (simp add: fix_ins_def)
      have "slot t' w" using assms(3) by (simp add: t t')
      then show ?thesis using exec_recolour [OF assms(1-3) both, of "run p (Suc (Suc m))" k th x0 x2 x3 x4 "JNum (ix f)"] red True
        by (auto simp: t' xb_fix_def ev simp del: run.simps exs.simps(2) intro!: exI [of _ w])
    next
      case black: False
      obtain c1 k1 n1 a1 v1 l1 r1 where x: "kid t f = Node c1 (k1, n1, a1) v1 l1 r1"
        using red by (cases "kid t f") auto
      have grand: "tree_at s (kid (kid t f) d)" "slot (kid (kid t f) d) (elem s a1 d)" for d
        using kid(1) [of f] by (auto simp: x)
      have sub: "elem s a f = JRef n1" "fld s n1 ''a'' = Some (JRef a1)" "pair_at s a1"
        using kid [of f] by (simp_all add: x)
      have "slot (kid t f) (JRef n1)" by (simp add: x)
      note ev2 = ev sub run_ayb [OF grand] run_ayb [OF kid(1) [of f] this]
      consider "ayb (kid (kid t f) f)" | "\<not> ayb (kid (kid t f) f)" "ayb (kid (kid t f) (\<not> f))"
        | "\<not> ayb (kid (kid t f) f)" "\<not> ayb (kid (kid t f) (\<not> f))" by blast
      then show ?thesis
      proof cases
        case 1
        then have "hyb t (\<not> f) = Some t'" using assms(5) red black by (simp add: fix_ins_def)
        from run_hyb [OF assms(1-3) this, of "Suc m" JUndef] 1 red black show ?thesis
          by (auto simp: xb_fix_def ev2 simp del: run.simps)
      next
        case 2
        then have "gyb t (\<not> f) = Some t'" using assms(5) red black by (simp add: fix_ins_def)
        from run_gyb [OF assms(1-3) this assms(6), of m JUndef] 2 red black show ?thesis
          by (auto simp: xb_fix_def ev2 simp del: run.simps)
      next
        case 3
        then have "t' = t" using assms(5) red black by (simp add: fix_ins_def)
        with 3 red black assms show ?thesis
          by (intro exI [of _ s] exI [of _ w]) (simp add: xb_fix_def ev2 del: run.simps)
      qed
    qed
  qed
qed

lemma xb_ins_step:
  assumes "cmp' k bk \<noteq> 0"
  shows "xb_ins cmp' (Node c bk bv l r) k v =
    (case xb_ins cmp' (kid (Node c bk bv l r) (cmp' k bk > 0)) k v of None \<Rightarrow> None
     | Some (s, st) \<Rightarrow> map_option (\<lambda>t. (t, st)) (fix_ins (set_kid (Node c bk bv l r) (cmp' k bk > 0) s) (cmp' k bk > 0)))"
  using assms by (auto simp: Let_def split: option.split)

lemma run_xb_hit:
  assumes "tree_at s (Node c (bk, n, a) bv l r)" "fld s nn ''d'' = Some k" "fld s nn ''e'' = Some v" "map_at cc s m cr"
    "cls s st \<noteq> None" "lf + 2 \<le> q" "key s k" "key s bk" "cmp s k bk = 0" "free s" "st \<noteq> n" "distinct (addrs (Node c (bk, n, a) bv l r))"
    "st \<notin> set (addrs (Node c (bk, n, a) bv l r))"
  shows "\<exists>s'. run p (Suc q) ''_xb'' th [JRef m, JRef n, JRef nn, JRef st] s = Ok (JRef n) s' \<and>
    tree_at s' (Node c (bk, n, a) v l r) \<and> fld s' st ''d'' = Some bv \<and> fld s' st ''b'' = Some (JBool True) \<and>
    same_out {n, st} s s'"
proof -
  obtain q' where q: "q = Suc q'" using assms(6) by (cases q) auto
  have n: "cls s n \<noteq> None" using assms(1) fld_cls [of s n "''a''"] by simp
  let ?s = "set_fld (set_fld (set_fld s n ''e'' v) st ''d'' bv) st ''b'' (JBool True)"
  have "same_out {n, st} s ?s" by (auto intro!: same_out_upd)
  moreover have "tree_at ?s (Node c (bk, n, a) v l r)" using assms n by (auto simp: fld_upd pair_upd tree_at_upd)
  moreover have "run p (Suc q) ''_xb'' th [JRef m, JRef n, JRef nn, JRef st] s = Ok (JRef n) ?s"
    using assms n by (simp add: run_fun [OF funs(5)] run_fun [OF funs(4)] xb_fun_def Akb_fun_def exec get_fld
        get_le [OF assms(4)] get_cmp [OF assms(4)] le_run globs put_fld q del: run.simps)
  ultimately show ?thesis using assms(5,11) n by (intro exI [of _ ?s]) (simp add: fld_upd)
qed

lemma run_xb_down:
  assumes t: "t = Node c (bk, n, a) bv l r"
    and at: "tree_at s t" "fld s nn ''d'' = Some k" "map_at cc s m cr" "free s"
    and keys: "key s k" "key s bk" "cmp s k bk \<noteq> 0" and d: "d = (cmp s k bk > 0)"
    and fuel: "lf + 2 \<le> q"
    and sub: "run p q ''_xb'' JUndef [JRef m, elem s a d, JRef nn, JRef st] s = Ok w1 s1" "slot x w1" "tree_at s1 x"
      "same_out A s s1" "n \<notin> A" "a \<notin> A" "a \<noteq> n" "A \<inter> set (addrs (kid t (\<not> d))) = {}"
    and x: "distinct (addrs (set_kid t d x))" "fix_ins (set_kid t d x) d = Some t'"
  shows "\<exists>s' w'. run p (Suc q) ''_xb'' th [JRef m, JRef n, JRef nn, JRef st] s = Ok w' s' \<and> slot t' w' \<and>
    tree_at s' t' \<and> same_out (set (addrs (set_kid t d x))) s1 s'"
proof -
  obtain q' where q: "q = Suc (Suc q')" using fuel by (cases q; cases "q - 1") auto
  let ?s2 = "set_fld s1 a (key_of d) w1" and ?t2 = "set_kid t d x"
  have a_out: "a \<notin> set (addrs x)" "a \<notin> set (addrs (kid t (\<not> d)))" using x(1) by (cases d; auto simp: t)+
  have t2: "tree_at ?s2 ?t2"
    unfolding t using at(1) sub a_out
    by (intro tree_at_set_kid [where A = A and o' = "kid t (\<not> d)"]) (simp_all add: t)
  have "slot ?t2 (JRef n)" "?t2 \<noteq> Tip" by (cases d; simp add: t)+
  moreover have free2: "free ?s2" using free_out [OF sub(4)] at(4) by simp
  moreover have "a \<in> set (addrs ?t2)" by (cases d) (auto simp: t)
  then have o2: "same_out (set (addrs ?t2)) s1 ?s2" by (intro same_out_upd) simp_all
  ultimately obtain s' w' where s': "exs p (run p q) q th [xb_fix] ([JRef m, JRef n, JRef nn, JRef st, JNum (cmp s k bk), JNum (ix d)], ?s2) =
      Ok Next ([JRef m, w', JRef nn, JRef st, JNum (cmp s k bk), JNum (ix d)], s')" "slot t' w'" "tree_at s' t'"
      "same_out (set (addrs ?t2)) ?s2 s'"
    using exec_fix [OF t2 x(1) _ _ x(2), of "JRef n" q' q th "JRef m" "JRef nn" "JRef st" "JNum (cmp s k bk)"] unfolding q by blast
  have f: "fld s n ''a'' = Some (JRef a)" "fld s n ''d'' = Some bk" "pair_at s a" using at(1) by (simp_all add: t)
  have p1: "pair_at s1 a" using f(3) same_outD(1) [OF sub(4,6)] same_outD(2) [OF sub(4)] by (simp add: pair_at_def)
  have "run p (Suc q) ''_xb'' th [JRef m, JRef n, JRef nn, JRef st] s = Ok w' s'"
    using keys fuel at(2) f p1 sub(1) s'(1) d
    by (cases d) (simp_all add: ix_def replicate_few run_fun [OF funs(5)] xb_fun_def exec get_fld get_le [OF at(3)] get_cmp [OF at(3)] le_run
        globs [OF at(4)] elems del: run.simps)
  then show ?thesis using s' same_out_trans [OF o2 s'(4)] by blast
qed

lemma apart_kid: "apart t nn na st m cr \<Longrightarrow> apart (kid t d) nn na st m cr"
  by (cases t; cases d) (auto simp: apart_def)

lemma run_xb:
  assumes "tree_at s t" "slot t w" "keys_ok (key s) t" "tree_at s (Node True (k, nn, na) v Tip Tip)" "key s k"
    "map_at cc s m cr" "cls s st \<noteq> None" "apart t nn na st m cr" "free s" "lf + height t + 3 \<le> q"
    "xb_ins (cmpk (cmp s)) t (k, nn, na) v = Some (t', res)"
  shows "\<exists>s' w'. run p q ''_xb'' th [JRef m, w, JRef nn, JRef st] s = Ok w' s' \<and> slot t' w' \<and> tree_at s' t' \<and>
    xb_left s s' t t' nn na st res \<and> same_out (set (st # nn # na # addrs t)) s s'"
  using assms
proof (induction t arbitrary: s w q t' th)
  case Tip
  obtain q' where "q = Suc q'" using Tip.prems(10) by (cases q) auto
  then have "run p q ''_xb'' th [JRef m, w, JRef nn, JRef st] s = Ok (JRef nn) s"
    using Tip.prems(2) by (auto simp: run_fun [OF funs(5)] xb_fun_def exec simp del: run.simps)
  with Tip.prems show ?case
    by (intro exI [of _ s] exI [of _ "JRef nn"]) (auto simp: xb_left_def)
next
  case (Node c kk bv l r)
  obtain bk n a where kk: "kk = (bk, n, a)" by (cases kk)
  let ?t = "Node c (bk, n, a) bv l r"
  obtain q' where q: "q = Suc q'" using Node.prems(10) by (cases q) auto
  have w: "w = JRef n" and new: "fld s nn ''d'' = Some k" "fld s nn ''e'' = Some v" and bk: "key s bk"
    using Node.prems by (simp_all add: kk)
  have ap: "distinct (addrs ?t)" "st \<notin> set (addrs ?t)" "nn \<notin> set (addrs ?t)" "na \<notin> set (addrs ?t)" "nn \<noteq> na" "nn \<noteq> st" "na \<noteq> st"
    using Node.prems(8) by (auto simp: apart_def kk)
  show ?case
  proof (cases "cmp s k bk = 0")
    case True
    have t': "t' = Node c (bk, n, a) v l r" "res = Some bv"
      using Node.prems(11) True by (auto simp: kk cmpk_def)
    from run_xb_hit [OF Node.prems(1) [unfolded kk] new Node.prems(6,7) _ Node.prems(5) bk True Node.prems(9) _ ap(1,2), of q' th]
    obtain s' where "run p q ''_xb'' th [JRef m, JRef n, JRef nn, JRef st] s = Ok (JRef n) s'" "tree_at s' t'"
      "fld s' st ''d'' = Some bv" "fld s' st ''b'' = Some (JBool True)" "same_out {n, st} s s'"
      using Node.prems(10) ap(2) unfolding q t' by auto
    then show ?thesis
      by (intro exI [of _ s'] exI [of _ "JRef n"]) (auto simp: t' kk w xb_left_def intro: same_out_mono)
  next
    case False
    define d where "d = (cmp s k bk > 0)"
    let ?x = "kid ?t d" and ?o = "kid ?t (\<not> d)"
    have step: "cmpk (cmp s) (k, nn, na) (bk, n, a) \<noteq> 0" "(cmpk (cmp s) (k, nn, na) (bk, n, a) > 0) = d"
      using False by (simp_all add: cmpk_def d_def)
    from xb_ins_step [where cmp' = "cmpk (cmp s)" and k = "(k, nn, na)" and bk = "(bk, n, a)", OF step(1), of c bv l r v] Node.prems(11) obtain x where
      x: "xb_ins (cmpk (cmp s)) ?x (k, nn, na) v = Some (x, res)" "fix_ins (set_kid ?t d x) d = Some t'"
      unfolding step(2) kk by (auto split: option.splits)
    let ?A = "set (st # nn # na # addrs ?x)"
    have "\<exists>s1 w1. run p q' ''_xb'' JUndef [JRef m, elem s a d, JRef nn, JRef st] s = Ok w1 s1 \<and> slot x w1 \<and> tree_at s1 x \<and>
      xb_left s s1 ?x x nn na st res \<and> same_out ?A s s1"
      using Node.prems Node.IH x(1) apart_kid [OF Node.prems(8), of d] unfolding kk q by (cases d) (force simp: max_def split: if_splits)+
    then obtain s1 w1 where s1: "run p q' ''_xb'' JUndef [JRef m, elem s a d, JRef nn, JRef st] s = Ok w1 s1"
      "slot x w1" "tree_at s1 x" "xb_left s s1 ?x x nn na st res" "same_out ?A s s1" by blast
    have mx: "mset (addrs (set_kid ?t d x)) + mset (addrs ?x) = mset (addrs ?t) + mset (addrs x)"
      using mset_addrs_kid [of ?t d x] by simp
    let ?m = "mset (addrs (set_kid ?t d x))"
    have m: "?m = mset (addrs ?t) \<or> ?m = mset (nn # na # addrs ?t)"
      using s1(4) mx by (auto simp: xb_left_def split: option.splits)
    have "distinct (nn # na # addrs ?t)" using ap by simp
    note more = two_more [OF m this]
    then have dist: "distinct (addrs (set_kid ?t d x))" and sub: "set (addrs (set_kid ?t d x)) \<subseteq> set (nn # na # addrs ?t)"
      by blast+
    have sx: "set (addrs ?x) \<subseteq> set (addrs ?t)" by (cases d) auto
    have out: "n \<notin> ?A" "a \<notin> ?A" "a \<noteq> n" "?A \<inter> set (addrs ?o) = {}"
      using ap by (cases d; auto)+
    from run_xb_down [OF refl Node.prems(1) [unfolded kk] new(1) Node.prems(6,9,5) bk False d_def _ s1(1-3,5) out dist x(2), of th]
    obtain s' w' where s': "run p q ''_xb'' th [JRef m, JRef n, JRef nn, JRef st] s = Ok w' s'" "slot t' w'" "tree_at s' t'"
      "same_out (set (addrs (set_kid ?t d x))) s1 s'"
      using Node.prems(10) unfolding q by auto
    have mt: "mset (addrs t') = ?m" using addrs_fix [OF x(2)] .
    have "st \<notin> set (nn # na # addrs ?t)" using ap by simp
    then have "st \<notin> set (addrs (set_kid ?t d x))" using sub by blast
    then have st: "fld s' st = fld s1 st" using same_outD(1) [OF s'(4)] by simp
    have "xb_left s s' ?t t' nn na st res"
      using s1(4) mx mt st by (auto simp: xb_left_def split: option.splits)
    moreover have "same_out (set (st # nn # na # addrs ?t)) s s'"
    proof (rule same_out_trans [OF s1(5) s'(4)])
      show "?A \<subseteq> set (st # nn # na # addrs ?t)" using sx unfolding list.set by blast
      show "set (addrs (set_kid ?t d x)) \<subseteq> set (st # nn # na # addrs ?t)" using sub unfolding list.set by blast
    qed
    ultimately show ?thesis using s' unfolding w kk by blast
  qed
qed

abbreviation loop_of :: "nat \<Rightarrow> jval \<Rightarrow> nat \<Rightarrow> jstm list \<Rightarrow> jenv \<Rightarrow> (jend option, jenv) outcome" where
  "loop_of q th i xs \<equiv> (\<lambda>e. bnd (ev p (run p q) th (V i) e)
     (\<lambda>v e. if truthy_val v then bnd (exs p (run p q) q th xs e) (\<lambda>k e. after_body k (exs p (run p q) q th []) e)
            else Ok (Some Next) e))"

lemma Txb_step:
  assumes "tree_at s (Node c (bk, n, a) bv l r)" "map_at cc s m cr" "key s k" "key s bk" "lf \<le> q"
  shows "loop_of q th 4 Txb_body ([JRef m, k, y2, y3, JRef n], s) =
    (if cmp s k bk = 0 then Ok (Some (Return (JRef n))) ([JRef m, k, JNum 0, y3, JRef n], s)
     else Ok None ([JRef m, k, JNum (cmp s k bk), JNum (ix (cmp s k bk > 0)), elem s a (cmp s k bk > 0)], s))"
  using assms by (auto simp: Txb_body_def exec get_fld get_le [OF assms(2)] get_cmp [OF assms(2)] le_run elems ix_def
      simp del: run.simps)

lemma Txb_iter:
  assumes "tree_at s t" "slot t w" "keys_ok (key s) t" "key s k" "map_at cc s m cr" "lf \<le> q" "height t < j"
  shows "\<exists>vs. iter j (loop_of q th 4 Txb_body) ([JRef m, k, y2, y3, w], s) =
    Ok (case Txb (cmpk (cmp s)) t (k, x) of None \<Rightarrow> Next | e \<Rightarrow> Return (node_ref e)) (vs, s)"
  using assms
proof (induction t arbitrary: w y2 y3 j)
  case Tip
  then obtain j' where "j = Suc j'" by (cases j) auto
  with Tip show ?case by auto
next
  case (Node c kk bv l r)
  obtain bk n a where kk: "kk = (bk, n, a)" by (cases kk)
  from Node.prems obtain j' where j: "j = Suc j'" "height l < j'" "height r < j'" by (cases j) auto
  have w: "w = JRef n" and bk: "key s bk" using Node.prems by (simp_all add: kk)
  note step = Txb_step [OF Node.prems(1) [unfolded kk] Node.prems(5,4) bk Node.prems(6), of th y2 y3]
  consider "cmp s k bk = 0" | "cmp s k bk > 0" | "cmp s k bk < 0" by linarith
  then show ?case
  proof cases
    case 1
    then show ?thesis unfolding j(1) w by (simp add: step cmpk_def kk node_ref_def del: ev.simps)
  next
    case 2
    then show ?thesis using Node.IH(2) [of "elem s a True" j' "JNum (cmp s k bk)" "JNum (ix True)"] Node.prems j
      unfolding j(1) w by (simp add: step cmpk_def kk Let_def del: ev.simps)
  next
    case 3
    then show ?thesis using Node.IH(1) [of "elem s a False" j' "JNum (cmp s k bk)" "JNum (ix False)"] Node.prems j
      unfolding j(1) w by (simp add: step cmpk_def kk Let_def del: ev.simps)
  qed
qed

lemma run_Txb:
  assumes "tree_at s t" "slot t w" "keys_ok (key s) t" "key s k" "map_at cc s m cr" "fld s m ''b'' = Some w" "lf + height t < q"
  shows "run p (Suc q) ''Txb'' th [JRef m, k] s = Ok (node_ref (Txb (cmpk (cmp s)) t (k, x))) s"
proof -
  obtain vs where "iter q (loop_of q th 4 Txb_body) ([JRef m, k, JUndef, JUndef, w], s) =
    Ok (case Txb (cmpk (cmp s)) t (k, x) of None \<Rightarrow> Next | e \<Rightarrow> Return (node_ref e)) (vs, s)"
    using Txb_iter [OF assms(1-5), of q q th JUndef JUndef x] assms(7) by auto
  then show ?thesis
    using assms(6) by (auto simp: run_fun [OF funs(6)] Txb_fun_def exec get_fld replicate_few node_ref_def
      simp del: run.simps split: option.split)
qed

lemma Wxb_step:
  assumes "tree_at s (Node c' (bk, n, a) bv l r)" "map_at cc s m cr" "key s k" "key s bk" "lf \<le> q"
  shows "loop_of q th 5 Wxb_body ([JRef m, k, JBool c, y3, y4, JRef n], s) =
    (if c \<and> cmp s k bk = 0 then Ok (Some (Return (JRef n))) ([JRef m, k, JBool c, JNum 0, y4, JRef n], s)
     else if cmp s k bk \<ge> 0 then Ok None ([JRef m, k, JBool c, JNum (cmp s k bk), y4, elem s a True], s)
     else Ok None ([JRef m, k, JBool c, JNum (cmp s k bk), JRef n, elem s a False], s))"
  using assms by (auto simp: Wxb_body_def exec get_fld get_le [OF assms(2)] get_cmp [OF assms(2)] le_run elems
      simp del: run.simps)

lemma Wxb_iter:
  assumes "tree_at s t" "slot t w" "keys_ok (key s) t" "key s k" "map_at cc s m cr" "lf \<le> q" "height t < j"
  shows "\<exists>kk vs. iter j (loop_of q th 5 Wxb_body) ([JRef m, k, JBool c, y3, node_ref e, w], s) = Ok kk (vs, s) \<and>
    (kk = Return (node_ref (Wxb_loop (cmpk (cmp s)) t (k, x) c e)) \<or>
     kk = Next \<and> length vs = 6 \<and> vs ! 4 = node_ref (Wxb_loop (cmpk (cmp s)) t (k, x) c e))"
  using assms
proof (induction t arbitrary: w y3 j e)
  case Tip
  then obtain j' where "j = Suc j'" by (cases j) auto
  with Tip show ?case by auto
next
  case (Node c' kk bv l r)
  obtain bk n a where kk: "kk = (bk, n, a)" by (cases kk)
  from Node.prems obtain j' where j: "j = Suc j'" "height l < j'" "height r < j'" by (cases j) auto
  have w: "w = JRef n" and bk: "key s bk" using Node.prems by (simp_all add: kk)
  note step = Wxb_step [OF Node.prems(1) [unfolded kk] Node.prems(5,4) bk Node.prems(6), of th c y3 "node_ref e"]
  have ref: "node_ref (Some ((bk, n, a), bv)) = JRef n" by (simp add: node_ref_def)
  consider "c \<and> cmp s k bk = 0" | "\<not> (c \<and> cmp s k bk = 0)" "cmp s k bk \<ge> 0" | "\<not> cmp s k bk \<ge> 0" by blast
  then show ?case
  proof cases
    case 1
    then have "loop_of q th 5 Wxb_body ([JRef m, k, JBool c, y3, node_ref e, JRef n], s) =
        Ok (Some (Return (JRef n))) ([JRef m, k, JBool c, JNum 0, node_ref e, JRef n], s)"
      "Wxb_loop (cmpk (cmp s)) (Node c' kk bv l r) (k, x) c e = Some ((bk, n, a), bv)"
      using step by (simp_all add: cmpk_def kk)
    then show ?thesis unfolding j(1) w by (simp add: ref del: ev.simps)
  next
    case 2
    then show ?thesis using Node.IH(2) [of "elem s a True" j' "JNum (cmp s k bk)" e] Node.prems j
      unfolding j(1) w by (auto simp: step cmpk_def kk Let_def simp del: ev.simps)
  next
    case 3
    with ref show ?thesis using Node.IH(1) [of "elem s a False" j' "JNum (cmp s k bk)" "Some ((bk, n, a), bv)"] Node.prems j
      unfolding j(1) w by (auto simp: step cmpk_def kk Let_def simp del: ev.simps)
  qed
qed

lemma run_Wxb:
  assumes "tree_at s t" "slot t w" "keys_ok (key s) t" "key s k" "map_at cc s m cr" "fld s m ''b'' = Some w" "lf + height t < q"
  shows "run p (Suc q) ''Wxb'' th [JRef m, k, JBool c] s = Ok (node_ref (Wxb (cmpk (cmp s)) t (k, x) c)) s"
proof -
  obtain kk vs where "iter q (loop_of q th 5 Wxb_body) ([JRef m, k, JBool c, JUndef, JNull, w], s) = Ok kk (vs, s)"
    "kk = Return (node_ref (Wxb (cmpk (cmp s)) t (k, x) c)) \<or> kk = Next \<and> length vs = 6 \<and> vs ! 4 = node_ref (Wxb (cmpk (cmp s)) t (k, x) c)"
    using Wxb_iter [OF assms(1-5), of q q th c JUndef None x] assms(7) by (auto simp: node_ref_def [of None] Wxb_def)
  then show ?thesis
    using assms(6) by (auto simp: run_fun [OF funs(7)] Wxb_fun_def exec get_fld replicate_few simp del: run.simps)
qed

lemma Xxb_step:
  assumes "tree_at s (Node c' (bk, n, a) bv l r)" "map_at cc s m cr" "key s k" "key s bk" "lf \<le> q"
  shows "loop_of q th 5 Xxb_body ([JRef m, k, JBool c, y3, y4, JRef n], s) =
    (if c \<and> cmp s k bk = 0 then Ok (Some (Return (JRef n))) ([JRef m, k, JBool c, JNum 0, y4, JRef n], s)
     else if cmp s k bk \<le> 0 then Ok None ([JRef m, k, JBool c, JNum (cmp s k bk), y4, elem s a False], s)
     else Ok None ([JRef m, k, JBool c, JNum (cmp s k bk), JRef n, elem s a True], s))"
  using assms by (auto simp: Xxb_body_def exec get_fld get_le [OF assms(2)] get_cmp [OF assms(2)] le_run elems
      simp del: run.simps)

lemma Xxb_iter:
  assumes "tree_at s t" "slot t w" "keys_ok (key s) t" "key s k" "map_at cc s m cr" "lf \<le> q" "height t < j"
  shows "\<exists>kk vs. iter j (loop_of q th 5 Xxb_body) ([JRef m, k, JBool c, y3, node_ref e, w], s) = Ok kk (vs, s) \<and>
    (kk = Return (node_ref (Xxb_loop (cmpk (cmp s)) t (k, x) c e)) \<or>
     kk = Next \<and> length vs = 6 \<and> vs ! 4 = node_ref (Xxb_loop (cmpk (cmp s)) t (k, x) c e))"
  using assms
proof (induction t arbitrary: w y3 j e)
  case Tip
  then obtain j' where "j = Suc j'" by (cases j) auto
  with Tip show ?case by auto
next
  case (Node c' kk bv l r)
  obtain bk n a where kk: "kk = (bk, n, a)" by (cases kk)
  from Node.prems obtain j' where j: "j = Suc j'" "height l < j'" "height r < j'" by (cases j) auto
  have w: "w = JRef n" and bk: "key s bk" using Node.prems by (simp_all add: kk)
  note step = Xxb_step [OF Node.prems(1) [unfolded kk] Node.prems(5,4) bk Node.prems(6), of th c y3 "node_ref e"]
  have ref: "node_ref (Some ((bk, n, a), bv)) = JRef n" by (simp add: node_ref_def)
  consider "c \<and> cmp s k bk = 0" | "\<not> (c \<and> cmp s k bk = 0)" "cmp s k bk \<le> 0" | "\<not> cmp s k bk \<le> 0" by blast
  then show ?case
  proof cases
    case 1
    then have "loop_of q th 5 Xxb_body ([JRef m, k, JBool c, y3, node_ref e, JRef n], s) =
        Ok (Some (Return (JRef n))) ([JRef m, k, JBool c, JNum 0, node_ref e, JRef n], s)"
      "Xxb_loop (cmpk (cmp s)) (Node c' kk bv l r) (k, x) c e = Some ((bk, n, a), bv)"
      using step by (simp_all add: cmpk_def kk)
    then show ?thesis unfolding j(1) w by (simp add: ref del: ev.simps)
  next
    case 2
    then show ?thesis using Node.IH(1) [of "elem s a False" j' "JNum (cmp s k bk)" e] Node.prems j
      unfolding j(1) w by (auto simp: step cmpk_def kk Let_def simp del: ev.simps)
  next
    case 3
    with ref show ?thesis using Node.IH(2) [of "elem s a True" j' "JNum (cmp s k bk)" "Some ((bk, n, a), bv)"] Node.prems j
      unfolding j(1) w by (auto simp: step cmpk_def kk Let_def simp del: ev.simps)
  qed
qed

lemma run_Xxb:
  assumes "tree_at s t" "slot t w" "keys_ok (key s) t" "key s k" "map_at cc s m cr" "fld s m ''b'' = Some w" "lf + height t < q"
  shows "run p (Suc q) ''Xxb'' th [JRef m, k, JBool c] s = Ok (node_ref (Xxb (cmpk (cmp s)) t (k, x) c)) s"
proof -
  obtain kk vs where "iter q (loop_of q th 5 Xxb_body) ([JRef m, k, JBool c, JUndef, JNull, w], s) = Ok kk (vs, s)"
    "kk = Return (node_ref (Xxb (cmpk (cmp s)) t (k, x) c)) \<or> kk = Next \<and> length vs = 6 \<and> vs ! 4 = node_ref (Xxb (cmpk (cmp s)) t (k, x) c)"
    using Xxb_iter [OF assms(1-5), of q q th c JUndef None x] assms(7) by (auto simp: node_ref_def [of None] Xxb_def)
  then show ?thesis
    using assms(6) by (auto simp: run_fun [OF funs(8)] Xxb_fun_def exec get_fld replicate_few simp del: run.simps)
qed

lemma node_ref_of:
  "tree_at s t \<Longrightarrow> (\<And>e. r = Some e \<Longrightarrow> e \<in> set (inorder t)) \<Longrightarrow>
   node_of s (map_option (\<lambda>e. (fst (fst e), snd e)) r) (node_ref r)"
  using tree_at_entry by (cases r) (force simp: node_ref_def)+

text \<open>Together with what \<open>GwtTree\<close> proves of the functions.\<close>

theorem insert_refines:
  assumes "comparator_sgn (cmp s)" "ascending (cmp s) (plain t)" "invc t" "invh t"
    "tree_at s t" "slot t w" "keys_ok (key s) t" "tree_at s (Node True (k, nn, na) v Tip Tip)" "key s k"
    "map_at cc s m cr" "cls s st \<noteq> None" "apart t nn na st m cr" "free s" "lf + height t + 3 \<le> q"
  shows "\<exists>s' w' t'. run p q ''_xb'' th [JRef m, w, JRef nn, JRef st] s = Ok w' s' \<and> slot t' w' \<and> tree_at s' t' \<and>
    plain t' = GwtTree.upd (cmp s) k v (plain t) \<and> invh t' \<and> bh t' = bh t \<and> invc2 t' \<and>
    same_out (set (st # nn # na # addrs t)) s s'"
proof -
  obtain t' res where t': "xb_ins (cmpk (cmp s)) t (k, nn, na) v = Some (t', res)" "invh t'" "bh t' = bh t"
    "if ayb t then invc2 t' else invc t'"
    using xb_ins_rb [OF assms(3,4), of "cmpk (cmp s)" "(k, nn, na)" v] by blast
  have "inorder t' = GwtTree.upd (cmpk (cmp s)) (k, nn, na) v (inorder t)"
    using comparator_sgn.inorder_ins [OF comparator_cmpk [OF assms(1)] _ t'(1)] assms(2) by (simp add: ascending_plain)
  then have "plain t' = GwtTree.upd (cmp s) k v (plain t)" by (simp add: plain_def plain_upd)
  moreover have "invc2 t'" using t'(4) by (simp split: if_splits)
  ultimately show ?thesis using run_xb [OF assms(5-14) t'(1), of th] t'(2,3) by blast
qed

theorem search_finds:
  assumes "comparator_sgn (cmp s)" "ascending (cmp s) (plain t)"
    "tree_at s t" "slot t w" "keys_ok (key s) t" "key s k" "map_at cc s m cr" "fld s m ''b'' = Some w" "lf + height t < q"
  shows "\<exists>r. run p (Suc q) ''Txb'' th [JRef m, k] s = Ok r s \<and> node_of s (entry_at (cmp s) k (plain t)) r"
    "\<exists>r. run p (Suc q) ''Wxb'' th [JRef m, k, JBool c] s = Ok r s \<and> node_of s (find (above (cmp s) k c) (plain t)) r"
    "\<exists>r. run p (Suc q) ''Xxb'' th [JRef m, k, JBool c] s = Ok r s \<and> node_of s (find (under (cmp s) k c) (rev (plain t))) r"
proof -
  let ?k = "(k, 0, 0) :: akey"
  have asc: "ascending (cmpk (cmp s)) (inorder t)" using assms(2) by (simp add: ascending_plain)
  note law = comparator_sgn.Txb_at [OF comparator_cmpk [OF assms(1)] asc, of ?k]
    comparator_sgn.Wxb_find [OF comparator_cmpk [OF assms(1)] asc, of ?k c]
    comparator_sgn.Xxb_find [OF comparator_cmpk [OF assms(1)] asc, of ?k c]
  note mem = find_Some_iff [THEN iffD1]
  note run = run_Txb [OF assms(3-9), of th "(0, 0)"] run_Wxb [OF assms(3-9), of th c "(0, 0)"] run_Xxb [OF assms(3-9), of th c "(0, 0)"]
  have "node_of s (map_option (\<lambda>e. (fst (fst e), snd e)) (find Q xs)) (node_ref (find Q xs))" if "set xs = set (inorder t)" for Q xs
    by (rule node_ref_of [OF assms(3)]) (use that in \<open>auto simp: find_Some_iff\<close>)
  note nodes = this [OF refl] this [OF set_rev]
  show "\<exists>r. run p (Suc q) ''Txb'' th [JRef m, k] s = Ok r s \<and> node_of s (entry_at (cmp s) k (plain t)) r"
    "\<exists>r. run p (Suc q) ''Wxb'' th [JRef m, k, JBool c] s = Ok r s \<and> node_of s (find (above (cmp s) k c) (plain t)) r"
    "\<exists>r. run p (Suc q) ''Xxb'' th [JRef m, k, JBool c] s = Ok r s \<and> node_of s (find (under (cmp s) k c) (rev (plain t))) r"
    using run law nodes by (simp_all add: entry_at_def find_plain cmpk_def)
qed

text \<open>A rotation that lacks the child it needs raises, before it has changed anything.\<close>

lemma run_hyb_error:
  assumes "tree_at s t" "slot t w" "hyb t d = None"
  shows "run p (Suc m) ''hyb'' th [w, JNum (ix d)] s = Thrown type_error s"
proof (cases t)
  case Tip
  with assms(2) show ?thesis by (auto simp: run_fun [OF funs(2)] hyb_fun_def exec simp del: run.simps)
next
  case (Node c k v l r)
  obtain bk n a where k: "k = (bk, n, a)" by (cases k)
  have tip: "kid t (\<not> d) = Tip" using assms(3) Node by (simp add: hyb_def Let_def del: kid.simps split: if_splits)
  have kid: "slot (kid t (\<not> d)) (elem s a (\<not> d))" using assms(1) by (auto simp: Node k)
  then have "elem s a (\<not> d) = JNull \<or> elem s a (\<not> d) = JUndef" unfolding tip by simp
  with assms(1,2) show ?thesis
    by (auto simp: Node k run_fun [OF funs(2)] hyb_fun_def exec get_fld elems simp del: run.simps)
qed

end

end
