(* ===== verification/ArrayCode.thy ===== *)
theory ArrayCode
  imports CodeRun JsLibrary
begin

text \<open>
  Arrays and array lists in the store. An array of the store holds a list of values (\<open>arr_at\<close>); reading,
  storing, pushing and removing an element of the code are the list operations. The locale \<open>array_code\<close>
  is a program with the array methods and with the functions of \<open>java.util.ArrayList\<close> that the runtime of
  the worker uses: \<open>dmb\<close> is \<open>get\<close>, \<open>imb\<close> is \<open>set\<close>, \<open>_lb\<close> is \<open>add\<close> and \<open>fmb\<close> is \<open>remove\<close> at an index.
\<close>

subsection \<open>Keys of elements\<close>

lemma digit_char_inj: "m < 10 \<Longrightarrow> n < 10 \<Longrightarrow> digit_char m = digit_char n \<longleftrightarrow> m = n"
  by (auto simp: digit_char_def char_of_eq_iff of_char_of take_bit_eq_mod dest!: arg_cong [of _ _ "of_char :: char \<Rightarrow> nat"])

lemma show_num_ne: "show_num n \<noteq> []"
  by (subst show_num.simps) simp

lemma show_num_last: "last (show_num n) = digit_char (n mod 10)"
  by (subst show_num.simps) simp

lemma show_num_butlast: "butlast (show_num n) = (if n < 10 then [] else show_num (n div 10))"
  by (subst show_num.simps) (simp add: butlast_append)

lemma show_num_inj: "show_num m = show_num n \<Longrightarrow> m = n"
proof (induction m arbitrary: n rule: less_induct)
  case (less m)
  have l: "m mod 10 = n mod 10"
    using arg_cong [OF less.prems, of last] by (simp add: show_num_last digit_char_inj)
  have b: "(if m < 10 then [] else show_num (m div 10)) = (if n < 10 then [] else show_num (n div 10))"
    using arg_cong [OF less.prems, of butlast] by (simp add: show_num_butlast)
  show ?case
  proof (cases "m < 10")
    case True
    with b have "n < 10" using show_num_ne [of "n div 10"] by (auto split: if_splits)
    with True l show ?thesis by simp
  next
    case False
    with b have n: "\<not> n < 10" using show_num_ne [of "m div 10"] by (auto split: if_splits)
    with b False have "show_num (m div 10) = show_num (n div 10)" by simp
    from less.IH [OF _ this] False have "m div 10 = n div 10" by simp
    with l show ?thesis by (metis mult_div_mod_eq)
  qed
qed

definition key :: "nat \<Rightarrow> string" where
  "key i = show_int (int i)"

lemma key_eq [simp]: "key i = key j \<longleftrightarrow> i = j"
  using show_num_inj by (auto simp: key_def show_int_def)

lemma show_num_digits: "c \<in> set (show_num n) \<Longrightarrow> \<exists>m < 10. c = digit_char m"
proof (induction n rule: less_induct)
  case (less n)
  show ?case
  proof (cases "n < 10")
    case True
    with less.prems show ?thesis by (auto simp: show_num.simps [of n])
  next
    case False
    have "c \<in> set (show_num (n div 10)) \<or> c = digit_char (n mod 10)"
      using less.prems False by (subst (asm) show_num.simps) auto
    moreover have "n mod 10 < 10" by simp
    ultimately show ?thesis using less.IH [of "n div 10"] False by fastforce
  qed
qed

lemma key_no_name: "x # xs = key i \<Longrightarrow> \<exists>m < 10. x = digit_char m"
  using show_num_digits [of x i] by (metis key_def list.set_intros(1) nat_int of_nat_less_0_iff show_int_def)

lemma letter_no_key: "58 \<le> (of_char x :: nat) \<Longrightarrow> x # xs \<noteq> key i"
proof
  assume "58 \<le> (of_char x :: nat)" "x # xs = key i"
  with key_no_name obtain m :: nat where "m < 10" "x = digit_char m" by blast
  with \<open>58 \<le> of_char x\<close> show False by (simp add: digit_char_def of_char_of)
qed

lemma key_names [simp]: "key i \<noteq> ''length''" "''length'' \<noteq> key i" "key i \<noteq> ''push''" "key i \<noteq> ''splice''"
  "''push'' \<noteq> key i" "''splice'' \<noteq> key i"
  using letter_no_key [of "CHR ''l''" "''ength''" i] letter_no_key [of "CHR ''p''" "''ush''" i]
    letter_no_key [of "CHR ''s''" "''plice''" i] by auto

subsection \<open>Arrays of the store\<close>

definition arr_at :: "jst \<Rightarrow> nat \<Rightarrow> jval list \<Rightarrow> bool" where
  "arr_at s a vs \<longleftrightarrow> cls s a = Some ''Array'' \<and> fld s a ''push'' = None \<and> fld s a ''splice'' = None \<and> fld s a ''length'' = Some (JNum (int (length vs))) \<and>
     (\<forall>i < length vs. fld s a (key i) = Some (vs ! i))"

definition set_elem :: "jst \<Rightarrow> nat \<Rightarrow> nat \<Rightarrow> jval \<Rightarrow> jst" where
  "set_elem s a i w = set_fld s a (key i) w"

definition set_len :: "jst \<Rightarrow> nat \<Rightarrow> nat \<Rightarrow> jst" where
  "set_len s a n = set_fld s a ''length'' (JNum (int n))"

lemma arr_cls: "arr_at s a vs \<Longrightarrow> cls s a = Some ''Array''"
  by (simp add: arr_at_def)

lemma arr_len: "arr_at s a vs \<Longrightarrow> array_len (JRef a) s = Some (int (length vs))"
  by (auto simp: arr_at_def cls_def fld_def array_len_def split: Option.bind_splits)

lemma get_len: "arr_at s a vs \<Longrightarrow> get_prop p (JRef a) ''length'' s = Ok (JNum (int (length vs))) s"
  by (simp add: arr_at_def get_fld)

lemma get_arr: "arr_at s a vs \<Longrightarrow> i < length vs \<Longrightarrow> get_idx p (JRef a) (JNum (int i)) s = Ok (vs ! i) s"
  by (simp add: get_idx_def arr_len) (simp add: arr_at_def key_def [symmetric] get_fld)

lemma put_arr: "arr_at s a vs \<Longrightarrow> i < length vs \<Longrightarrow> put_idx (JRef a) (JNum (int i)) w s = Ok w (set_elem s a i w)"
  by (simp add: put_idx_def arr_len key_def [symmetric] put_fld arr_cls set_elem_def)

lemma push_arr: "arr_at s a vs \<Longrightarrow>
    put_idx (JRef a) (JNum (int (length vs))) w s = Ok w (set_len (set_elem s a (length vs) w) a (Suc (length vs)))"
  by (simp add: put_idx_def arr_len key_def [symmetric] put_fld arr_cls set_elem_def set_len_def add.commute)

lemma put_len: "arr_at s a vs \<Longrightarrow> put_prop (JRef a) ''length'' (JNum (int n)) s = Ok (JNum (int n)) (set_len s a n)"
  by (simp add: put_fld arr_cls set_len_def)

lemma arr_set: "arr_at s a vs \<Longrightarrow> arr_at (set_elem s a i w) a (vs[i := w])"
  by (auto simp: arr_at_def set_elem_def fld_upd nth_list_update)

lemma arr_push: "arr_at s a vs \<Longrightarrow> arr_at (set_len (set_elem s a (length vs) w) a (Suc (length vs))) a (vs @ [w])"
  by (auto simp: arr_at_def set_elem_def set_len_def fld_upd nth_append)

lemma arr_take: "arr_at s a vs \<Longrightarrow> n \<le> length vs \<Longrightarrow> arr_at (set_len s a n) a (take n vs)"
  by (auto simp: arr_at_def set_len_def fld_upd)

lemma same_set [simp, intro]: "same_out {a} s (set_elem s a i w)" "same_out {a} s (set_len s a n)"
  by (simp_all add: set_elem_def set_len_def same_out_upd)

lemma same_out_comp: "same_out A s t \<Longrightarrow> same_out A t u \<Longrightarrow> same_out A s u"
  by (rule same_out_trans) auto

lemma same_set_of: "same_out {a} s t \<Longrightarrow> same_out {a} s (set_elem t a i w)" "same_out {a} s t \<Longrightarrow> same_out {a} s (set_len t a n)"
  by (blast intro: same_out_comp)+

lemma arr_at_out: "same_out A s s' \<Longrightarrow> a \<notin> A \<Longrightarrow> arr_at s' a vs = arr_at s a vs"
  by (simp add: arr_at_def same_out_def)

lemma glob_set [simp]: "glob_val p x (set_elem s a i w) = glob_val p x s" "glob_val p x (set_len s a n) = glob_val p x s"
  by (simp_all add: set_elem_def set_len_def)

subsection \<open>Loops and arithmetic\<close>

definition turn :: "jprog \<Rightarrow> nat \<Rightarrow> jval \<Rightarrow> jexp \<Rightarrow> jstm list \<Rightarrow> jstm list \<Rightarrow> jenv \<Rightarrow> (jend option, jenv) outcome" where
  "turn p q th c xs ps = (\<lambda>e. bnd (ev p (run p q) th c e)
     (\<lambda>v e. if truthy_val v then bnd (exs p (run p q) q th xs e) (\<lambda>k e. after_body k (exs p (run p q) q th ps) e)
            else Ok (Some Next) e))"

lemma exs_Loop: "exs p (run p q) q th (Loop c xs ps # ss) e =
    bnd (iter q (turn p q th c xs ps) e) (\<lambda>k e. then_rest k (exs p (run p q) q th ss) e)"
  by (simp add: turn_def)

declare exs.simps(6) [simp del]

lemma iter_next: "f e = Ok None e' \<Longrightarrow> 0 < n \<Longrightarrow> iter n f e = iter (n - 1) f e'"
  by (cases n) simp_all

lemma iter_end: "f e = Ok (Some k) e' \<Longrightarrow> 0 < n \<Longrightarrow> iter n f e = Ok k e'"
  by (cases n) simp_all

text \<open>Numbers small enough for every index computation.\<close>

lemma exact_index [simp]: "n \<le> 2 ^ 32 \<Longrightarrow> - (2 ^ 32) \<le> n \<Longrightarrow> exact n"
  by (simp add: exact_def)

lemma binops [simp]:
  "exact (m + n) \<Longrightarrow> binop Plus (JNum m) (JNum n) = Some (JNum (m + n))"
  "exact (m - n) \<Longrightarrow> binop Minus (JNum m) (JNum n) = Some (JNum (m - n))"
  "exact (m * n) \<Longrightarrow> binop Times (JNum m) (JNum n) = Some (JNum (m * n))"
  "binop Lt (JNum m) (JNum n) = Some (JBool (m < n))"
  "binop Le (JNum m) (JNum n) = Some (JBool (m \<le> n))"
  "binop Gt (JNum m) (JNum n) = Some (JBool (m > n))"
  "binop Ge (JNum m) (JNum n) = Some (JBool (m \<ge> n))"
  "\<lbrakk>0 \<le> m; m < 2 ^ 31; 0 < n; n < 2 ^ 31\<rbrakk> \<Longrightarrow> binop DivInt (JNum m) (JNum n) = Some (JNum (m div n))"
  by (auto simp: binop_def arith_def Let_def sgn_if)

subsection \<open>Array lists\<close>

definition MDb_fun :: jfun where
  "MDb_fun = \<lparr>f_params = 2, f_locals = 0, f_body =
     [When (Or (Bin Lt (V 0) (K (JNum 0))) (Bin Ge (V 0) (V 1))) [Raise (Call ''Lcb'' [New ''Fdb''
     [Bin Plus (Bin Plus (Bin Plus (G ''qwe'') (V 0)) (G ''rwe'')) (V 1)]])] []]\<rparr>"

definition dmb_fun :: jfun where
  "dmb_fun = \<lparr>f_params = 2, f_locals = 0, f_body =
     [Do (Call ''MDb'' [V 1, Dot (Dot (V 0) ''c'') ''length'']), Ret (Idx (Dot (V 0) ''c'') (V 1))]\<rparr>"

definition imb_fun :: jfun where
  "imb_fun = \<lparr>f_params = 3, f_locals = 1, f_body =
     [Do (SetV 3 (Seq (Call ''MDb'' [V 1, Dot (Dot (V 0) ''c'') ''length'']) (Idx (Dot (V 0) ''c'')
     (V 1)))), Do (PutIdx (Dot (V 0) ''c'') (V 1) (V 2)), Ret (V 3)]\<rparr>"

definition lb_fun :: jfun where
  "lb_fun = \<lparr>f_params = 2, f_locals = 0, f_body =
     [Do (Call ''qDb'' [Dot (V 0) ''c'', V 1]), Ret (K (JBool True))]\<rparr>"

definition fmb_fun :: jfun where
  "fmb_fun = \<lparr>f_params = 2, f_locals = 1, f_body =
     [Do (SetV 2 (Seq (Call ''MDb'' [V 1, Dot (Dot (V 0) ''c'') ''length'']) (Idx (Dot (V 0) ''c'')
     (V 1)))), Do (Call ''rDb'' [Dot (V 0) ''c'', V 1, K (JNum 1)]), Ret (V 2)]\<rparr>"

definition qDb_fun :: jfun where
  "qDb_fun = \<lparr>f_params = 2, f_locals = 0, f_body =
     [Do (Meth (V 0) ''push'' [V 1])]\<rparr>"

definition rDb_fun :: jfun where
  "rDb_fun = \<lparr>f_params = 3, f_locals = 0, f_body =
     [Do (Meth (V 0) ''splice'' [V 1, V 2])]\<rparr>"

text \<open>A list object with its array. No global hides a function of it.\<close>

definition list_at :: "jst \<Rightarrow> nat \<Rightarrow> nat \<Rightarrow> jval list \<Rightarrow> bool" where
  "list_at s l a vs \<longleftrightarrow> fld s l ''c'' = Some (JRef a) \<and> arr_at s a vs"

definition list_free :: "jst \<Rightarrow> bool" where
  "list_free s \<longleftrightarrow> (\<forall>x \<in> {''MDb'', ''dmb'', ''imb'', ''_lb'', ''fmb'', ''qDb'', ''rDb''}. j_glob s x = None)"

definition removed :: "nat \<Rightarrow> 'a list \<Rightarrow> 'a list" where
  "removed i vs = take i vs @ drop (Suc i) vs"

lemma length_removed [simp]: "i < length vs \<Longrightarrow> length (removed i vs) = length vs - 1"
  by (simp add: removed_def)

lemma removed_last: "vs \<noteq> [] \<Longrightarrow> removed (length vs - 1) vs = butlast vs"
  by (simp add: removed_def butlast_conv_take)

lemma nth_removed: "i < length vs \<Longrightarrow> j < length vs - 1 \<Longrightarrow> removed i vs ! j = (if j < i then vs ! j else vs ! Suc j)"
  by (auto simp: removed_def nth_append min_def)

text \<open>The array while \<open>splice\<close> moves the elements behind \<open>i\<close> down, up to \<open>j\<close>.\<close>

definition moved :: "nat \<Rightarrow> nat \<Rightarrow> 'a list \<Rightarrow> 'a list" where
  "moved i j vs = take j (removed i vs) @ drop j vs"

lemma length_moved [simp]: "i < length vs \<Longrightarrow> j < length vs \<Longrightarrow> length (moved i j vs) = length vs"
  by (simp add: moved_def)

lemma moved_start: "i < length vs \<Longrightarrow> moved i i vs = vs"
  by (simp add: moved_def removed_def)

lemma moved_end: "i < length vs \<Longrightarrow> take (length vs - 1) (moved i (length vs - 1) vs) = removed i vs"
  by (simp add: moved_def)

lemma moved_nth: "i < length vs \<Longrightarrow> Suc j < length vs \<Longrightarrow> moved i j vs ! Suc j = vs ! Suc j"
  by (simp add: moved_def nth_append)

lemma moved_step:
  assumes "i \<le> j" "Suc j < length vs"
  shows "(moved i j vs)[j := vs ! Suc j] = moved i (Suc j) vs"
proof (rule nth_equalityI)
  fix k assume "k < length ((moved i j vs)[j := vs ! Suc j])"
  then have "k < length vs" using assms by simp
  then show "(moved i j vs)[j := vs ! Suc j] ! k = moved i (Suc j) vs ! k"
    using assms by (auto simp: moved_def nth_list_update nth_append nth_removed)
qed (use assms in simp)

locale array_code =
  fixes p :: jprog
  assumes array_funs: "p_fun p ''Array.push'' = Some push_fun" "p_fun p ''Array.splice'' = Some splice_fun"
      "p_fun p ''MDb'' = Some MDb_fun" "p_fun p ''dmb'' = Some dmb_fun" "p_fun p ''imb'' = Some imb_fun"
      "p_fun p ''_lb'' = Some lb_fun" "p_fun p ''fmb'' = Some fmb_fun" "p_fun p ''qDb'' = Some qDb_fun"
      "p_fun p ''rDb'' = Some rDb_fun"
    and push_proto: "p_proto p ''Array'' ''push'' = Some (JFun ''Array.push'')"
    and splice_proto: "p_proto p ''Array'' ''splice'' = Some (JFun ''Array.splice'')"
begin

lemma list_globs:
  assumes "list_free s"
  shows "glob_val p ''MDb'' s = Some (JFun ''MDb'')" "glob_val p ''dmb'' s = Some (JFun ''dmb'')"
    "glob_val p ''imb'' s = Some (JFun ''imb'')" "glob_val p ''_lb'' s = Some (JFun ''_lb'')"
    "glob_val p ''fmb'' s = Some (JFun ''fmb'')" "glob_val p ''qDb'' s = Some (JFun ''qDb'')"
    "glob_val p ''rDb'' s = Some (JFun ''rDb'')"
  using assms by (simp_all add: list_free_def glob_val_def array_funs)

lemma list_free_out: "same_out A s s' \<Longrightarrow> list_free s' = list_free s"
  by (simp add: list_free_def same_out_def)

lemma list_at_out: "same_out {a} s s' \<Longrightarrow> list_at s l a vs \<Longrightarrow> arr_at s' a ws \<Longrightarrow> l \<noteq> a \<Longrightarrow> list_at s' l a ws"
  by (simp add: list_at_def same_out_def)

lemma list_atD: "list_at s l a vs \<Longrightarrow> fld s l ''c'' = Some (JRef a)" "list_at s l a vs \<Longrightarrow> arr_at s a vs"
  by (simp_all add: list_at_def)

lemma get_methods:
  "arr_at s a vs \<Longrightarrow> get_prop p (JRef a) ''push'' s = Ok (JFun ''Array.push'') s"
  "arr_at s a vs \<Longrightarrow> get_prop p (JRef a) ''splice'' s = Ok (JFun ''Array.splice'') s"
  using push_proto splice_proto
  by (auto simp: arr_at_def cls_def fld_def get_prop_def split: Option.bind_splits option.split)

lemmas run_defs = on_st_def lift_opt_def call_val_def run_body_def init_vars_def then_rest_def after_body_def replicate_few

lemma run_push:
  assumes "arr_at s a vs" "length vs < 2 ^ 30"
  shows "run p (Suc q) ''Array.push'' (JRef a) [w] s = Ok (JNum (int (Suc (length vs))))
    (set_len (set_elem s a (length vs) w) a (Suc (length vs)))"
  using assms by (simp add: run_fun [OF array_funs(1)] push_fun_def run_defs get_len push_arr get_len [OF arr_push] del: run.simps)

lemma run_MDb: "0 \<le> i \<Longrightarrow> i < n \<Longrightarrow> run p (Suc q) ''MDb'' th [JNum i, JNum n] s = Ok JUndef s"
  by (simp add: run_fun [OF array_funs(3)] MDb_fun_def run_defs del: run.simps)

lemma run_dmb:
  assumes "list_at s l a vs" "i < length vs" "list_free s"
  shows "run p (Suc (Suc q)) ''dmb'' th [JRef l, JNum (int i)] s = Ok (vs ! i) s"
  using list_atD [OF assms(1)] assms(2,3) by (simp add: run_fun [OF array_funs(4)] dmb_fun_def run_defs get_fld get_len get_arr list_globs run_MDb
      del: run.simps)

lemma run_imb:
  assumes "list_at s l a vs" "i < length vs" "list_free s"
  shows "run p (Suc (Suc q)) ''imb'' th [JRef l, JNum (int i), w] s = Ok (vs ! i) (set_elem s a i w)"
  using list_atD [OF assms(1)] assms(2,3) by (simp add: run_fun [OF array_funs(5)] imb_fun_def run_defs get_fld get_len get_arr put_arr list_globs run_MDb
      del: run.simps)

lemma run_lb:
  assumes "list_at s l a vs" "length vs < 2 ^ 30" "list_free s"
  shows "run p (Suc (Suc (Suc q))) ''_lb'' th [JRef l, w] s = Ok (JBool True) (set_len (set_elem s a (length vs) w) a (Suc (length vs)))"
proof -
  have a: "arr_at s a vs" "fld s l ''c'' = Some (JRef a)" using assms(1) by (simp_all add: list_at_def)
  have "run p (Suc (Suc q)) ''qDb'' JUndef [JRef a, w] s = Ok JUndef (set_len (set_elem s a (length vs) w) a (Suc (length vs)))"
    using a assms(2) by (simp add: run_fun [OF array_funs(8)] qDb_fun_def run_defs get_methods run_push del: run.simps)
  then show ?thesis
    using a assms(3) by (simp add: run_fun [OF array_funs(6)] lb_fun_def run_defs get_fld list_globs del: run.simps)
qed

definition shift_loop :: "nat \<Rightarrow> nat \<Rightarrow> jenv \<Rightarrow> (jend option, jenv) outcome" where
  "shift_loop q a = turn p q (JRef a) (Bin Lt (Bin Plus (V 4) (V 1)) (V 3)) [Do (PutIdx This (V 4) (Idx This (Bin Plus (V 4) (V 1))))]
        [Do (SetV 4 (Bin Plus (V 4) (K (JNum 1))))]"

lemma shift_turn:
  assumes "arr_at s a vs" "j < length vs" "length vs < 2 ^ 30" "n = int (length vs)"
  shows "shift_loop q a ([x0, JNum 1, x2, JNum n, JNum (int j)], s) =
    (if Suc j < length vs then Ok None ([x0, JNum 1, x2, JNum n, JNum (int (Suc j))], set_elem s a j (vs ! Suc j))
     else Ok (Some Next) ([x0, JNum 1, x2, JNum n, JNum (int j)], s))"
  using assms get_arr [OF assms(1), of "Suc j" p]
  by (simp add: shift_loop_def turn_def run_defs put_arr add.commute del: run.simps)

lemma shift_runs:
  assumes "arr_at s a (moved i j vs)" "i \<le> j" "j < length vs" "length vs - j \<le> m" "length vs < 2 ^ 30"
  shows "\<exists>s'. iter m (shift_loop q a) ([x0, JNum 1, x2, JNum (int (length vs)), JNum (int j)], s) =
      Ok Next ([x0, JNum 1, x2, JNum (int (length vs)), JNum (int (length vs - 1))], s') \<and>
    arr_at s' a (moved i (length vs - 1) vs) \<and> same_out {a} s s'"
  using assms
proof (induction m arbitrary: j s)
  case (Suc m)
  have len: "length (moved i j vs) = length vs" using Suc.prems by simp
  note turn = shift_turn [OF Suc.prems(1), of j "int (length vs)" q x0 x2, unfolded len]
  show ?case
  proof (cases "Suc j < length vs")
    case True
    let ?s = "set_elem s a j (vs ! Suc j)"
    have "moved i j vs ! Suc j = vs ! Suc j" using Suc.prems(2) True by (simp add: moved_nth)
    then have step: "iter (Suc m) (shift_loop q a) ([x0, JNum 1, x2, JNum (int (length vs)), JNum (int j)], s) =
        iter m (shift_loop q a) ([x0, JNum 1, x2, JNum (int (length vs)), JNum (int (Suc j))], ?s)"
      using turn Suc.prems True by simp
    have "arr_at ?s a (moved i (Suc j) vs)"
      using arr_set [OF Suc.prems(1), of j "vs ! Suc j"] moved_step [OF Suc.prems(2) True] by simp
    note IH = Suc.IH [OF this]
    have "i \<le> Suc j" "length vs - Suc j \<le> m" using Suc.prems by simp_all
    from IH [OF this(1) True this(2) Suc.prems(5)] obtain s' where
      "iter m (shift_loop q a) ([x0, JNum 1, x2, JNum (int (length vs)), JNum (int (Suc j))], ?s) =
        Ok Next ([x0, JNum 1, x2, JNum (int (length vs)), JNum (int (length vs - 1))], s')"
      "arr_at s' a (moved i (length vs - 1) vs)" "same_out {a} ?s s'" by blast
    then show ?thesis unfolding step using same_out_comp [OF same_set(1)] by blast
  next
    case False
    then have "j = length vs - 1" using Suc.prems(3) by simp
    with turn Suc.prems False show ?thesis by auto
  qed
qed simp

text \<open>After the elements have moved, the last one is forgotten and the array gets shorter.\<close>

lemma forget_turn:
  assumes "arr_at s a vs" "j < length vs" "length vs < 2 ^ 30" "n = int (length vs)"
  shows "turn p q (JRef a) (Bin Lt (V 4) (V 3)) [Do (PutIdx This (V 4) (K JUndef))] [Do (SetV 4 (Bin Plus (V 4) (K (JNum 1))))]
      ([x0, x1, x2, JNum n, JNum (int j)], s) = Ok None ([x0, x1, x2, JNum n, JNum (int j + 1)], set_elem s a j JUndef)"
    "turn p q (JRef a) (Bin Lt (V 4) (V 3)) [Do (PutIdx This (V 4) (K JUndef))] [Do (SetV 4 (Bin Plus (V 4) (K (JNum 1))))]
      ([x0, x1, x2, JNum n, JNum n], s) = Ok (Some Next) ([x0, x1, x2, JNum n, JNum n], s)"
  using assms by (simp_all add: turn_def run_defs put_arr del: run.simps)

lemma run_splice:
  assumes "arr_at s a vs" "i < length vs" "length vs < 2 ^ 30" "length vs + 1 < q"
  shows "\<exists>s'. run p (Suc q) ''Array.splice'' (JRef a) [JNum (int i), JNum 1] s = Ok JUndef s' \<and>
    arr_at s' a (removed i vs) \<and> same_out {a} s s'"
proof -
  let ?n = "int (length vs)"
  have "arr_at s a (moved i i vs)" using assms(1,2) by (simp add: moved_start)
  have "length vs - i \<le> q" using assms(4) by simp
  from shift_runs [OF \<open>arr_at s a (moved i i vs)\<close> le_refl assms(2) this assms(3), of q "JNum (int i)" JUndef] obtain s1 where
    s1: "iter q (shift_loop q a) ([JNum (int i), JNum 1, JUndef, JNum ?n, JNum (int i)], s) =
      Ok Next ([JNum (int i), JNum 1, JUndef, JNum ?n, JNum (int (length vs - 1))], s1)"
      "arr_at s1 a (moved i (length vs - 1) vs)" "same_out {a} s s1" by blast
  let ?s2 = "set_elem s1 a (length vs - 1) JUndef"
  have len: "length (moved i (length vs - 1) vs) = length vs" using assms(2) by simp
  have a2: "arr_at ?s2 a ((moved i (length vs - 1) vs)[length vs - 1 := JUndef])" by (rule arr_set) (rule s1(2))
  have len2: "length ((moved i (length vs - 1) vs)[length vs - 1 := JUndef]) = length vs" using len by simp
  obtain q' where q: "q = Suc (Suc q')" using assms(4) by (cases q; cases "q - 1") auto
  have j: "length vs - 1 < length vs" "int (length vs - 1) + 1 = ?n" using assms(2) by auto
  note t1 = forget_turn(1) [OF s1(2), unfolded len, OF j(1) assms(3) refl, unfolded j(2)]
  note t2 = forget_turn(2) [OF a2, unfolded len2, OF j(1) assms(3) refl]
  have loop2: "iter q (turn p q (JRef a) (Bin Lt (V 4) (V 3)) [Do (PutIdx This (V 4) (K JUndef))] [Do (SetV 4 (Bin Plus (V 4) (K (JNum 1))))])
      ([JNum (int i), JNum 1, JUndef, JNum ?n, JNum (int (length vs - 1))], s1) =
      Ok Next ([JNum (int i), JNum 1, JUndef, JNum ?n, JNum ?n], ?s2)"
    unfolding q by (simp only: iter.simps t1 [unfolded q] t2 [unfolded q] bnd.simps option.simps)
  let ?s3 = "set_len ?s2 a (length vs - 1)"
  have "arr_at ?s3 a (removed i vs)"
    using arr_take [OF a2, unfolded len2, of "length vs - 1"] moved_end [OF assms(2)] by simp
  moreover have "same_out {a} s ?s3" by (intro same_set_of s1(3))
  moreover have "run p (Suc q) ''Array.splice'' (JRef a) [JNum (int i), JNum 1] s = Ok JUndef ?s3"
    using assms(2,3) get_len [OF assms(1), of p] s1(1) [unfolded shift_loop_def] loop2 put_len [OF a2, of "length vs - 1"]
    by (simp add: run_fun [OF array_funs(2)] splice_fun_def run_defs exs_Loop of_nat_diff del: run.simps)
  ultimately show ?thesis by blast
qed

lemma run_fmb:
  assumes "list_at s l a vs" "i < length vs" "length vs < 2 ^ 30" "length vs + 3 < q" "list_free s" "l \<noteq> a"
  shows "\<exists>s'. run p (Suc q) ''fmb'' th [JRef l, JNum (int i)] s = Ok (vs ! i) s' \<and>
    list_at s' l a (removed i vs) \<and> same_out {a} s s'"
proof -
  note a = list_atD [OF assms(1)]
  obtain q' where q: "q = Suc (Suc q')" using assms(4) by (cases q; cases "q - 1") auto
  from run_splice [OF a(2) assms(2,3), of q'] assms(4) obtain s' where
    s': "run p (Suc q') ''Array.splice'' (JRef a) [JNum (int i), JNum 1] s = Ok JUndef s'" "arr_at s' a (removed i vs)" "same_out {a} s s'"
    unfolding q by auto
  have "run p (Suc (Suc q')) ''rDb'' JUndef [JRef a, JNum (int i), JNum 1] s = Ok JUndef s'"
    using a s'(1) by (simp add: run_fun [OF array_funs(9)] rDb_fun_def run_defs get_methods del: run.simps)
  then have "run p (Suc q) ''fmb'' th [JRef l, JNum (int i)] s = Ok (vs ! i) s'"
    using a assms(2,5) unfolding q
    by (simp add: run_fun [OF array_funs(7)] fmb_fun_def run_defs get_fld get_len get_arr list_globs run_MDb del: run.simps)
  then show ?thesis using s' list_at_out [OF s'(3) assms(1) s'(2) assms(6)] by blast
qed

end

text \<open>A comparator that does not look into the arrays that change, on values other than \<open>null\<close>.\<close>

locale array_comparator = comparator_code p le cc key cmp lf
  for p :: jprog and le cc :: string and key :: "jst \<Rightarrow> jval \<Rightarrow> bool"
    and cmp :: "jst \<Rightarrow> jval \<Rightarrow> jval \<Rightarrow> int" and lf :: nat +
  assumes no_array: "same_out A s s' \<Longrightarrow> (\<forall>a \<in> A. cls s a = Some ''Array'') \<Longrightarrow> key s' = key s \<and> cmp s' = cmp s"
    and key_value: "key s v \<Longrightarrow> v \<noteq> JNull \<and> v \<noteq> JUndef"
begin

lemma nonnull_loose: "key s v \<Longrightarrow> loose_eq v JNull = Some False"
  using key_value [of s v] by (cases v) auto

end

end
