(* ===== verification/GwtHeap.thy ===== *)
theory GwtHeap
  imports GwtSort
begin

text \<open>
  \<open>java.util.PriorityQueue\<close> of the layout worker (\<open>layout-worker.js\<close>): a binary heap in an array
  list. \<open>svb\<close> is \<open>offer\<close>, \<open>rvb\<close> sifts down (\<open>mergeHeaps\<close>), \<open>vvb\<close> removes at an index, \<open>tvb\<close> is
  \<open>poll\<close>, \<open>uvb\<close> is \<open>remove\<close>, \<open>qvb\<close> makes a heap of a subtree and \<open>pvb\<close> is \<open>addAll\<close>.
\<close>

subsection \<open>The code\<close>

function sift_up :: "('a \<Rightarrow> 'a \<Rightarrow> int) \<Rightarrow> 'a list \<Rightarrow> 'a \<Rightarrow> nat \<Rightarrow> 'a list" where
  "sift_up cmp h x d =
     (if d = 0 then h[0 := x]
      else let p = (d - 1) div 2
           in if cmp (h ! p) x \<le> 0 then h[d := x] else sift_up cmp (h[d := h ! p]) x p)"
  by pat_completeness auto
termination by (relation "measure (\<lambda>(cmp, h, x, d). d)") auto

declare sift_up.simps [simp del]

definition svb :: "('a \<Rightarrow> 'a \<Rightarrow> int) \<Rightarrow> 'a list \<Rightarrow> 'a \<Rightarrow> 'a list" where
  "svb cmp h x = sift_up cmp (h @ [x]) x (length h)"

text \<open>The smaller child of \<open>b\<close>.\<close>

definition child :: "('a \<Rightarrow> 'a \<Rightarrow> int) \<Rightarrow> 'a list \<Rightarrow> nat \<Rightarrow> nat" where
  "child cmp h b = (let f = 2 * b + 1; g = f + 1
                    in if g < length h \<and> cmp (h ! g) (h ! f) < 0 then g else f)"

function sift_down :: "('a \<Rightarrow> 'a \<Rightarrow> int) \<Rightarrow> 'a list \<Rightarrow> 'a \<Rightarrow> nat \<Rightarrow> 'a list" where
  "sift_down cmp h e b =
     (if b * 2 + 1 < length h
      then let d = child cmp h b
           in if cmp e (h ! d) < 0 then h[b := e] else sift_down cmp (h[b := h ! d]) e d
      else h[b := e])"
  by pat_completeness auto
termination
  by (relation "measure (\<lambda>(cmp, h, e, b). length h - b)") (auto simp: child_def Let_def)

declare sift_down.simps [simp del]

definition rvb :: "('a \<Rightarrow> 'a \<Rightarrow> int) \<Rightarrow> 'a list \<Rightarrow> nat \<Rightarrow> 'a list" where
  "rvb cmp h b = sift_down cmp h (h ! b) b"

text \<open>\<open>vvb\<close> for an index of the heap.\<close>

definition vvb :: "('a \<Rightarrow> 'a \<Rightarrow> int) \<Rightarrow> 'a list \<Rightarrow> nat \<Rightarrow> 'a list" where
  "vvb cmp h b = (let c = last h; h' = butlast h
                  in if b < length h' then rvb cmp (h'[b := c]) b else h')"

definition tvb :: "('a \<Rightarrow> 'a \<Rightarrow> int) \<Rightarrow> 'a list \<Rightarrow> 'a option \<times> 'a list" where
  "tvb cmp h = (if h = [] then (None, h) else (Some (h ! 0), vvb cmp h 0))"

text \<open>\<open>indexOf\<close> from a start index (\<open>emb\<close>), then \<open>remove\<close>.\<close>

fun index_of :: "'a \<Rightarrow> 'a list \<Rightarrow> nat option" where
  "index_of x [] = None"
| "index_of x (y # ys) = (if x = y then Some 0 else map_option Suc (index_of x ys))"

definition uvb :: "('a \<Rightarrow> 'a \<Rightarrow> int) \<Rightarrow> 'a list \<Rightarrow> 'a \<Rightarrow> bool \<times> 'a list" where
  "uvb cmp h x = (case index_of x h of None \<Rightarrow> (False, h) | Some c \<Rightarrow> (True, vvb cmp h c))"

lemma length_sift_down [simp]: "length (sift_down cmp h e b) = length h"
proof (induction cmp h e b rule: sift_down.induct)
  case (1 cmp h e b)
  then show ?case by (subst sift_down.simps) (simp add: Let_def)
qed

lemma length_rvb [simp]: "length (rvb cmp h b) = length h"
  by (simp add: rvb_def)

function qvb :: "('a \<Rightarrow> 'a \<Rightarrow> int) \<Rightarrow> 'a list \<Rightarrow> nat \<Rightarrow> nat \<Rightarrow> 'a list" where
  "qvb cmp h n b =
     (if b * 2 + 1 \<ge> n then h
      else let h1 = qvb cmp h n (2 * b + 1); c = 2 * b + 2;
               h2 = (if c < n then qvb cmp h1 n c else h1)
           in rvb cmp h2 b)"
  by pat_completeness auto
termination by (relation "measure (\<lambda>(cmp, h, n, b). n - b)") auto

declare qvb.simps [simp del]

definition pvb :: "('a \<Rightarrow> 'a \<Rightarrow> int) \<Rightarrow> 'a list \<Rightarrow> 'a list \<Rightarrow> bool \<times> 'a list" where
  "pvb cmp h xs = (if xs = [] then (False, h) else (True, qvb cmp (h @ xs) (length h + length xs) 0))"

subsection \<open>Heap order\<close>

abbreviation par :: "nat \<Rightarrow> nat" where
  "par i \<equiv> (i - 1) div 2"

lemma par_less [simp]: "0 < i \<Longrightarrow> (i - Suc 0) div 2 < i"
  by linarith

text \<open>\<open>i\<close> lies in the subtree below \<open>r\<close>.\<close>

function below :: "nat \<Rightarrow> nat \<Rightarrow> bool" where
  "below r i = (if i = r then True else if r < i then below r (par i) else False)"
  by pat_completeness auto
termination by (relation "measure snd") auto

declare below.simps [simp del]

lemma below_iff: "below r i \<longleftrightarrow> i = r \<or> r < i \<and> below r (par i)"
  by (subst below.simps) simp

definition sub_heap :: "('a \<Rightarrow> 'a \<Rightarrow> int) \<Rightarrow> 'a list \<Rightarrow> nat \<Rightarrow> bool" where
  "sub_heap cmp h r \<longleftrightarrow> (\<forall>i. 0 < i \<and> i < length h \<and> below r (par i) \<longrightarrow> cmp (h ! par i) (h ! i) \<le> 0)"

definition heap :: "('a \<Rightarrow> 'a \<Rightarrow> int) \<Rightarrow> 'a list \<Rightarrow> bool" where
  "heap cmp h \<longleftrightarrow> (\<forall>i. 0 < i \<and> i < length h \<longrightarrow> cmp (h ! par i) (h ! i) \<le> 0)"

lemma below_0: "below 0 i"
proof (induction i rule: less_induct)
  case (less i)
  then show ?case by (cases "i = 0") (subst below_iff, auto)+
qed

lemma sub_heap_0: "sub_heap cmp h 0 = heap cmp h"
  by (simp add: sub_heap_def heap_def below_0)

lemma below_refl [simp]: "below r r"
  by (subst below_iff) simp

lemma below_ge: "below r i \<Longrightarrow> r \<le> i"
  by (subst (asm) below_iff) auto

lemma below_step: "0 < i \<Longrightarrow> below r (par i) \<Longrightarrow> below r i"
  using below_ge [of r "par i"] by (subst below_iff) auto

lemma below_child: "below r i \<Longrightarrow> i \<noteq> r \<Longrightarrow> below (2 * r + 1) i \<or> below (2 * r + 2) i"
proof (induction i rule: less_induct)
  case (less i)
  then have i: "r < i" "below r (par i)" by (auto simp: below_iff [of r i])
  show ?case
  proof (cases "par i = r")
    case True
    then have "i = 2 * r + 1 \<or> i = 2 * r + 2" using i(1) by linarith
    then show ?thesis by auto
  next
    case False
    have "par i < i" using i by simp
    from less.IH [OF this i(2) False] show ?thesis using i(1) by (auto intro: below_step)
  qed
qed

lemma below_disjoint: "below (2 * r + 1) i \<Longrightarrow> \<not> below (2 * r + 2) i"
proof (induction i rule: less_induct)
  case (less i)
  show ?case
  proof
    assume b: "below (2 * r + 2) i"
    have "i \<noteq> 2 * r + 1" using below_ge [OF b] by simp
    with less.prems have 1: "below (2 * r + 1) (par i)" "2 * r + 1 < i"
      using below_iff [of "2 * r + 1" i] by auto
    have "i \<noteq> 2 * r + 2" using below_ge [OF 1(1)] by auto
    with b have "below (2 * r + 2) (par i)" using below_iff [of "2 * r + 2" i] by auto
    with less.IH [of "par i"] 1 show False by auto
  qed
qed

subsection \<open>Sifting up\<close>

lemma mset_set: "i < length h \<Longrightarrow> mset (h[i := x]) = add_mset x (mset h - {#h ! i#})"
  by (simp add: mset_update)

lemma mset_sift_up: "d < length h \<Longrightarrow> mset (sift_up cmp h x d) = add_mset x (mset h - {#h ! d#})"
proof (induction cmp h x d rule: sift_up.induct)
  case (1 cmp h x d)
  show ?case
  proof (cases "d = 0 \<or> cmp (h ! par d) x \<le> 0")
    case True
    then show ?thesis using 1 by (subst sift_up.simps) (auto simp: Let_def mset_set)
  next
    case False
    then have p: "par d < d" by simp
    have "mset (sift_up cmp h x d) = mset (sift_up cmp (h[d := h ! par d]) x (par d))"
      using False by (subst sift_up.simps) (simp add: Let_def)
    also have "\<dots> = add_mset x (mset (h[d := h ! par d]) - {#h[d := h ! par d] ! par d#})"
      using 1 False p by auto
    also have "\<dots> = add_mset x (mset h - {#h ! d#})" using p 1(2) by (simp add: mset_set)
    finally show ?thesis .
  qed
qed

context comparator_sgn
begin

text \<open>The heap order with the element \<open>x\<close> still to be put at the hole \<open>d\<close>.\<close>

definition up_inv :: "'a list \<Rightarrow> 'a \<Rightarrow> nat \<Rightarrow> bool" where
  "up_inv h x d \<longleftrightarrow> d < length h \<and>
     (\<forall>i. 0 < i \<and> i < length h \<and> i \<noteq> d \<and> par i \<noteq> d \<longrightarrow> cmp (h ! par i) (h ! i) \<le> 0) \<and>
     (\<forall>i. 0 < i \<and> i < length h \<and> par i = d \<and> i \<noteq> d \<longrightarrow>
        cmp x (h ! i) \<le> 0 \<and> (0 < d \<longrightarrow> cmp (h ! par d) (h ! i) \<le> 0))"

lemma up_inv_step:
  assumes inv: "up_inv h x d" and d: "0 < d" and x: "\<not> cmp (h ! par d) x \<le> 0"
  shows "up_inv (h[d := h ! par d]) x (par d)"
proof -
  let ?p = "par d"
  have p: "?p < d" using d by simp
  have xp: "cmp x (h ! ?p) \<le> 0" using x cmp_total by blast
  from inv have i1: "\<And>i. 0 < i \<Longrightarrow> i < length h \<Longrightarrow> i \<noteq> d \<Longrightarrow> par i \<noteq> d \<Longrightarrow> cmp (h ! par i) (h ! i) \<le> 0"
    and i2: "\<And>i. 0 < i \<Longrightarrow> i < length h \<Longrightarrow> par i = d \<Longrightarrow> i \<noteq> d \<Longrightarrow> cmp (h ! ?p) (h ! i) \<le> 0"
    and len: "d < length h" using d unfolding up_inv_def by blast+
  show ?thesis unfolding up_inv_def
  proof (intro conjI allI impI; (elim conjE)?)
    show "?p < length (h[d := h ! ?p])" using p len by simp
  next
    fix i assume i: "0 < i" "i < length (h[d := h ! ?p])" "i \<noteq> ?p" "par i \<noteq> ?p"
    show "cmp (h[d := h ! ?p] ! par i) (h[d := h ! ?p] ! i) \<le> 0"
      using i i1 [of i] i2 [of i] len p by (cases "par i = d"; cases "i = d") auto
  next
    fix i assume i: "0 < i" "i < length (h[d := h ! ?p])" "par i = ?p" "i \<noteq> ?p"
    show "cmp x (h[d := h ! ?p] ! i) \<le> 0"
    proof (cases "i = d")
      case False
      then have "cmp (h ! ?p) (h ! i) \<le> 0" using i1 [of i] i p by simp
      then have "cmp x (h ! i) \<le> 0" using xp cmp_trans by blast
      with False show ?thesis by simp
    qed (use xp len in simp)
  next
    fix i assume i: "0 < i" "i < length (h[d := h ! ?p])" "par i = ?p" "i \<noteq> ?p" "0 < ?p"
    have pp: "cmp (h ! par ?p) (h ! ?p) \<le> 0" using i1 [of ?p] i(5) p len by simp
    have ne: "par ?p \<noteq> d" using p by simp
    show "cmp (h[d := h ! ?p] ! par ?p) (h[d := h ! ?p] ! i) \<le> 0"
    proof (cases "i = d")
      case False
      have "?p \<noteq> d" using p by simp
      with False have "cmp (h ! ?p) (h ! i) \<le> 0" using i1 [of i] i by simp
      then have "cmp (h ! par ?p) (h ! i) \<le> 0" using pp cmp_trans by blast
      with False ne show ?thesis by simp
    qed (use pp len ne in simp)
  qed
qed

lemma up_inv_heap: "up_inv h x d \<Longrightarrow> heap cmp (sift_up cmp h x d)"
proof (induction d arbitrary: h rule: less_induct)
  case (less d)
  show ?case
  proof (cases "d = 0 \<or> cmp (h ! par d) x \<le> 0")
    case True
    then have eq: "sift_up cmp h x d = h[d := x]" by (subst sift_up.simps) (auto simp: Let_def)
    show ?thesis unfolding eq heap_def
    proof (intro allI impI, elim conjE)
      fix i assume i: "0 < i" "i < length (h[d := x])"
      have "par i \<noteq> i" using par_less [of i] i(1) by auto
      then show "cmp (h[d := x] ! par i) (h[d := x] ! i) \<le> 0"
        using less.prems True i unfolding up_inv_def by (cases "i = d"; cases "par i = d") auto
    qed
  next
    case False
    then have "sift_up cmp h x d = sift_up cmp (h[d := h ! par d]) x (par d)"
      by (subst sift_up.simps) (simp add: Let_def)
    with less.IH [of "par d"] up_inv_step [OF less.prems] False show ?thesis by simp
  qed
qed

lemma svb_heap:
  assumes "heap cmp h"
  shows "heap cmp (svb cmp h x)" "mset (svb cmp h x) = add_mset x (mset h)"
proof -
  have "up_inv (h @ [x]) x (length h)"
    unfolding up_inv_def
  proof (intro conjI allI impI; (elim conjE)?)
    fix i assume i: "0 < i" "i < length (h @ [x])" "i \<noteq> length h" "par i \<noteq> length h"
    then have "i < length h" "par i < length h" using par_less [of i] by simp_all
    with assms i show "cmp ((h @ [x]) ! par i) ((h @ [x]) ! i) \<le> 0" by (simp add: heap_def nth_append)
  next
    fix i assume i: "0 < i" "i < length (h @ [x])" "par i = length h"
    with par_less [of i] have False by simp
    then show "cmp x ((h @ [x]) ! i) \<le> 0" "cmp ((h @ [x]) ! par (length h)) ((h @ [x]) ! i) \<le> 0" by simp_all
  qed simp
  then show "heap cmp (svb cmp h x)" unfolding svb_def by (rule up_inv_heap)
  show "mset (svb cmp h x) = add_mset x (mset h)" by (simp add: svb_def mset_sift_up)
qed

end

subsection \<open>Sifting down\<close>

lemma mset_sift_down: "b < length h \<Longrightarrow> mset (sift_down cmp h e b) = add_mset e (mset h - {#h ! b#})"
proof (induction cmp h e b rule: sift_down.induct)
  case (1 cmp h e b)
  let ?d = "child cmp h b"
  show ?case
  proof (cases "b * 2 + 1 < length h \<and> \<not> cmp e (h ! ?d) < 0")
    case True
    then have d: "b < ?d" "?d < length h" by (auto simp: child_def Let_def)
    have "mset (sift_down cmp h e b) = mset (sift_down cmp (h[b := h ! ?d]) e ?d)"
      using True by (subst sift_down.simps) (simp add: Let_def)
    also have "\<dots> = add_mset e (mset (h[b := h ! ?d]) - {#h[b := h ! ?d] ! ?d#})"
      using 1 True d by auto
    also have "\<dots> = add_mset e (mset h - {#h ! b#})" using d 1(2) by (simp add: mset_set)
    finally show ?thesis .
  next
    case False
    then have "sift_down cmp h e b = h[b := e]" by (subst sift_down.simps) (auto simp: Let_def)
    then show ?thesis using 1(2) by (simp add: mset_set)
  qed
qed

lemma below_up:
  assumes "par d = b" "0 < d"
  shows "below d i \<Longrightarrow> below b i"
proof (induction i rule: less_induct)
  case (less i)
  consider "i = d" | "d < i" "below d (par i)" using iffD1 [OF below_iff less.prems] by blast
  then show ?case
  proof cases
    case 1
    have "below b (par d)" using assms(1) by simp
    from below_step [OF assms(2) this] show ?thesis unfolding 1 .
  next
    case 2
    have "par i < i" using 2(1) by simp
    from less.IH [OF this 2(2)] 2(1) show ?thesis using below_step [of i b] by simp
  qed
qed

lemma sift_down_frame: "\<not> below b i \<Longrightarrow> sift_down cmp h e b ! i = h ! i"
proof (induction cmp h e b rule: sift_down.induct)
  case (1 cmp h e b)
  let ?d = "child cmp h b"
  have ib: "i \<noteq> b" using 1(2) by auto
  show ?case
  proof (cases "b * 2 + 1 < length h \<and> \<not> cmp e (h ! ?d) < 0")
    case True
    have "par ?d = b" "0 < ?d" by (auto simp: child_def Let_def)
    have "\<not> below ?d i"
    proof
      assume "below ?d i"
      then have "below b i" using below_up \<open>par ?d = b\<close> \<open>0 < ?d\<close> by blast
      with 1(2) show False by simp
    qed
    with 1(1) [OF _ refl] True ib have "sift_down cmp (h[b := h ! ?d]) e ?d ! i = h ! i" by auto
    with True show ?thesis by (subst sift_down.simps) (simp add: Let_def)
  next
    case False
    then have "sift_down cmp h e b = h[b := e]" by (subst sift_down.simps) (auto simp: Let_def)
    then show ?thesis using ib by simp
  qed
qed

context comparator_sgn
begin

text \<open>The heap order below \<open>r\<close> with the element \<open>e\<close> still to be put at the hole \<open>b\<close>.\<close>

definition down_inv :: "nat \<Rightarrow> 'a list \<Rightarrow> 'a \<Rightarrow> nat \<Rightarrow> bool" where
  "down_inv r h e b \<longleftrightarrow> below r b \<and> b < length h \<and>
     (\<forall>i. 0 < i \<and> i < length h \<and> below r (par i) \<and> par i \<noteq> b \<and> i \<noteq> b \<longrightarrow> cmp (h ! par i) (h ! i) \<le> 0) \<and>
     (b \<noteq> r \<longrightarrow> cmp (h ! par b) e \<le> 0 \<and>
        (\<forall>i. 0 < i \<and> i < length h \<and> par i = b \<longrightarrow> cmp (h ! par b) (h ! i) \<le> 0))"

lemma child_least:
  assumes "b * 2 + 1 < length h" "0 < i" "i < length h" "par i = b"
  shows "cmp (h ! child cmp h b) (h ! i) \<le> 0"
proof -
  from assms have "i = 2 * b + 1 \<or> i = 2 * b + 2" by linarith
  moreover have "cmp (h ! (2 * b + 2)) (h ! (2 * b + 1)) \<le> 0" if "cmp (h ! (2 * b + 2)) (h ! (2 * b + 1)) < 0"
    using that by simp
  ultimately show ?thesis using assms(3) cmp_refl not_lt_le [of "h ! (2 * b + 2)" "h ! (2 * b + 1)"]
    by (auto simp: child_def Let_def)
qed

lemma child_bounds:
  assumes "b * 2 + 1 < length h"
  shows "child cmp h b < length h" "par (child cmp h b) = b" "b < child cmp h b"
  using assms by (auto simp: child_def Let_def)

lemma down_inv_step:
  assumes inv: "down_inv r h e b" and b: "b * 2 + 1 < length h" and e: "\<not> cmp e (h ! child cmp h b) < 0"
  shows "down_inv r (h[b := h ! child cmp h b]) e (child cmp h b)"
proof -
  let ?d = "child cmp h b" and ?h = "h[b := h ! child cmp h b]"
  note d = child_bounds [OF b]
  from inv have rb: "below r b" and len: "b < length h"
    and i1: "\<And>i. 0 < i \<Longrightarrow> i < length h \<Longrightarrow> below r (par i) \<Longrightarrow> par i \<noteq> b \<Longrightarrow> i \<noteq> b \<Longrightarrow> cmp (h ! par i) (h ! i) \<le> 0"
    and i2: "\<And>i. b \<noteq> r \<Longrightarrow> 0 < i \<Longrightarrow> i < length h \<Longrightarrow> par i = b \<Longrightarrow> cmp (h ! par b) (h ! i) \<le> 0"
    unfolding down_inv_def by blast+
  have d0: "0 < ?d" using d(3) by simp
  have rd: "below r ?d" using below_step [OF d0, of r] d(2) rb by simp
  have "r \<le> b" using below_ge [OF rb] .
  show ?thesis unfolding down_inv_def
  proof (intro conjI allI impI; (elim conjE)?)
    fix i assume i: "0 < i" "i < length ?h" "below r (par i)" "par i \<noteq> ?d" "i \<noteq> ?d"
    have "par i \<noteq> i" using par_less [OF i(1)] by simp
    show "cmp (?h ! par i) (?h ! i) \<le> 0"
    proof (cases "i = b")
      case True
      then have "b \<noteq> r" using i(1,3) below_ge par_less [OF i(1)] by fastforce
      with True show ?thesis using i2 [of ?d] d d0 len \<open>par i \<noteq> i\<close> by simp
    next
      case False
      show ?thesis
      proof (cases "par i = b")
        case True
        with False show ?thesis using child_least [OF b i(1) _ True] i(2) len by simp
      next
        case par: False
        with False show ?thesis using i1 [of i] i by simp
      qed
    qed
  next
    assume "?d \<noteq> r"
    have "?h ! par ?d = h ! ?d" using d(2) len by simp
    then show "cmp (?h ! par ?d) e \<le> 0" using not_lt_le [OF e] by simp
    fix i assume i: "0 < i" "i < length ?h" "par i = ?d"
    have "i \<noteq> b" using par_less [OF i(1)] i(3) d(3) by auto
    then show "cmp (?h ! par ?d) (?h ! i) \<le> 0"
      using \<open>?h ! par ?d = h ! ?d\<close> i1 [of i] i rd d(3) by simp
  qed (use rd d in simp_all)
qed

lemma down_inv_heap: "down_inv r h e b \<Longrightarrow> sub_heap cmp (sift_down cmp h e b) r"
proof (induction "length h - b" arbitrary: h b rule: less_induct)
  case less
  let ?d = "child cmp h b"
  show ?case
  proof (cases "b * 2 + 1 < length h \<and> \<not> cmp e (h ! ?d) < 0")
    case True
    then have "sift_down cmp h e b = sift_down cmp (h[b := h ! ?d]) e ?d"
      by (subst sift_down.simps) (simp add: Let_def)
    moreover have "length h - ?d < length h - b" using True child_bounds [of b h] by auto
    ultimately show ?thesis using less.hyps [of "h[b := h ! ?d]" ?d] down_inv_step [OF less.prems] True by simp
  next
    case False
    then have eq: "sift_down cmp h e b = h[b := e]" by (subst sift_down.simps) (auto simp: Let_def)
    show ?thesis unfolding eq sub_heap_def
    proof (intro allI impI, elim conjE)
      fix i assume i: "0 < i" "i < length (h[b := e])" "below r (par i)"
      have ne: "par i \<noteq> i" using par_less [of i] i(1) by auto
      have len: "b < length h" using less.prems by (simp add: down_inv_def)
      show "cmp (h[b := e] ! par i) (h[b := e] ! i) \<le> 0"
      proof (cases "par i = b")
        case True
        then have "b * 2 + 1 < length h" using i by auto
        with False have "cmp e (h ! ?d) \<le> 0" by simp
        moreover have "cmp (h ! ?d) (h ! i) \<le> 0" using child_least [OF \<open>b * 2 + 1 < length h\<close>] i True by simp
        ultimately have "cmp e (h ! i) \<le> 0" using cmp_trans by blast
        then show ?thesis using True ne len i by simp
      next
        case par: False
        show ?thesis
        proof (cases "i = b")
          case True
          then have "b \<noteq> r" using i(1,3) below_ge par_less [OF i(1)] by fastforce
          then show ?thesis using less.prems True ne len unfolding down_inv_def by simp
        next
          case False
          then show ?thesis using less.prems par i unfolding down_inv_def by simp
        qed
      qed
    qed
  qed
qed

lemma rvb_sub_heap:
  assumes "b < length h" "sub_heap cmp h (2 * b + 1)" "sub_heap cmp h (2 * b + 2)"
  shows "sub_heap cmp (rvb cmp h b) b"
proof -
  have "down_inv b h (h ! b) b"
    unfolding down_inv_def
  proof (intro conjI allI impI; (elim conjE)?)
    fix i assume i: "0 < i" "i < length h" "below b (par i)" "par i \<noteq> b" "i \<noteq> b"
    then show "cmp (h ! par i) (h ! i) \<le> 0"
      using below_child [OF i(3,4)] assms(2,3) unfolding sub_heap_def by blast
  qed (use assms(1) in simp_all)
  then show ?thesis unfolding rvb_def by (rule down_inv_heap)
qed

lemma heap_sub_heap: "heap cmp h \<Longrightarrow> sub_heap cmp h r"
  by (simp add: heap_def sub_heap_def)

end

lemma mset_rvb: "b < length h \<Longrightarrow> mset (rvb cmp h b) = mset h"
  by (simp add: rvb_def mset_sift_down)

lemma rvb_frame: "\<not> below b i \<Longrightarrow> rvb cmp h b ! i = h ! i"
  by (simp add: rvb_def sift_down_frame)

lemma par_below: "below r (par i) \<Longrightarrow> 0 < i \<Longrightarrow> i \<noteq> r \<and> below r i"
  using below_step [of i r] below_ge [of r "par i"] par_less [of i] by auto

lemma sub_heap_frame:
  assumes "sub_heap cmp h r" "length h' = length h" "\<And>i. below r i \<Longrightarrow> h' ! i = h ! i"
  shows "sub_heap cmp h' r"
  using assms unfolding sub_heap_def by (metis par_below)

lemma sub_heap_beyond: "length h \<le> r \<Longrightarrow> sub_heap cmp h r"
  unfolding sub_heap_def using below_ge par_less by fastforce

subsection \<open>Polling and making a heap\<close>

lemma butlast_nonempty: "butlast h \<noteq> [] \<Longrightarrow> Suc 0 < length h" for h :: "'b list"
  by (cases h; cases "tl h") auto

context comparator_sgn
begin

lemma heap_min:
  assumes "heap cmp h" "i < length h"
  shows "cmp (h ! 0) (h ! i) \<le> 0"
  using assms(2)
proof (induction i rule: less_induct)
  case (less i)
  show ?case
  proof (cases "i = 0")
    case True
    then show ?thesis using cmp_refl by simp
  next
    case False
    then have "par i < i" by simp
    with less have "cmp (h ! 0) (h ! par i) \<le> 0" by simp
    moreover have "cmp (h ! par i) (h ! i) \<le> 0" using assms(1) less.prems False by (simp add: heap_def)
    ultimately show ?thesis using cmp_trans by blast
  qed
qed

lemma heap_butlast: "heap cmp h \<Longrightarrow> heap cmp (butlast h)"
  unfolding heap_def
proof (intro allI impI, elim conjE)
  fix i assume h: "\<forall>i. 0 < i \<and> i < length h \<longrightarrow> cmp (h ! par i) (h ! i) \<le> 0" and i: "0 < i" "i < length (butlast h)"
  have "par i < length (butlast h)" using i par_less [of i] by auto
  with h i show "cmp (butlast h ! par i) (butlast h ! i) \<le> 0" by (simp add: nth_butlast)
qed

lemma vvb_0_heap:
  assumes "heap cmp h"
  shows "heap cmp (vvb cmp h 0)"
proof (cases "butlast h = []")
  case True
  then show ?thesis by (simp add: vvb_def heap_def)
next
  case False
  let ?g = "(butlast h)[0 := last h]"
  have sub: "sub_heap cmp ?g (2 * 0 + 1)" "sub_heap cmp ?g (2 * 0 + 2)"
    by (rule sub_heap_frame [OF heap_sub_heap [OF heap_butlast [OF assms]]]; use below_ge in fastforce)+
  have "sub_heap cmp (rvb cmp ?g 0) 0" by (rule rvb_sub_heap [OF _ sub]) (use butlast_nonempty [OF False] in simp)
  with False show ?thesis by (simp add: vvb_def Let_def sub_heap_0)
qed

end

lemma mset_butlast: "h \<noteq> [] \<Longrightarrow> add_mset (last h) (mset (butlast h)) = mset h"
  by (metis add_mset_add_single append_butlast_last_id mset.simps mset_append)

lemma mset_vvb_0:
  assumes "h \<noteq> []"
  shows "add_mset (h ! 0) (mset (vvb cmp h 0)) = mset h"
proof (cases "butlast h = []")
  case True
  with assms obtain x where "h = [x]" by (cases h rule: rev_cases) auto
  then show ?thesis by (simp add: vvb_def)
next
  case False
  let ?g = "(butlast h)[0 := last h]"
  have "mset (rvb cmp ?g 0) = mset ?g" by (rule mset_rvb) (use butlast_nonempty [OF False] in simp)
  then have "mset (vvb cmp h 0) = add_mset (last h) (mset (butlast h) - {#h ! 0#})"
    using False butlast_nonempty [OF False] by (simp add: vvb_def Let_def mset_set nth_butlast)
  moreover have "h ! 0 \<in># mset (butlast h)" using False by (metis length_greater_0_conv nth_butlast nth_mem set_mset_mset)
  ultimately show ?thesis using mset_butlast [OF assms] by (metis add_mset_commute insert_DiffM)
qed

definition tree_spec :: "('a \<Rightarrow> 'a \<Rightarrow> int) \<Rightarrow> 'a list \<Rightarrow> nat \<Rightarrow> 'a list \<Rightarrow> bool" where
  "tree_spec cmp h b h' \<longleftrightarrow> length h' = length h \<and> mset h' = mset h \<and> sub_heap cmp h' b \<and>
     (\<forall>i. \<not> below b i \<longrightarrow> h' ! i = h ! i)"

context comparator_sgn
begin

lemma rvb_tree:
  assumes "b < length h" "tree_spec cmp h (2 * b + 1) h1" "tree_spec cmp h1 (2 * b + 2) h2"
  shows "tree_spec cmp h b (rvb cmp h2 b)"
proof -
  have len: "b < length h2" using assms by (simp add: tree_spec_def)
  have "sub_heap cmp h2 (2 * b + 1)"
    by (rule sub_heap_frame [of cmp h1]) (use assms(2,3) below_disjoint in \<open>auto simp: tree_spec_def\<close>)
  then have "sub_heap cmp (rvb cmp h2 b) b"
    by (rule rvb_sub_heap [OF len]) (use assms(3) in \<open>simp add: tree_spec_def\<close>)
  moreover have "rvb cmp h2 b ! i = h ! i" if i: "\<not> below b i" for i
  proof -
    have "\<not> below (2 * b + 1) i" "\<not> below (2 * b + 2) i"
      using i below_up [of "2 * b + 1" b i] below_up [of "2 * b + 2" b i] by auto
    then have "h1 ! i = h ! i" "h2 ! i = h1 ! i" using assms(2,3) unfolding tree_spec_def by blast+
    then show ?thesis using rvb_frame [OF i, of cmp h2] by simp
  qed
  ultimately show ?thesis using assms(2,3) mset_rvb [OF len] by (simp add: tree_spec_def)
qed

lemma qvb_tree: "n = length h \<Longrightarrow> tree_spec cmp h b (qvb cmp h n b)"
proof (induction "n - b" arbitrary: b h rule: less_induct)
  case less
  note n = less.prems
  show ?case
  proof (cases "b * 2 + 1 \<ge> n")
    case True
    have "sub_heap cmp h b"
      unfolding sub_heap_def using True n below_ge by fastforce
    with True show ?thesis by (subst qvb.simps) (simp add: tree_spec_def)
  next
    case False
    define h1 where "h1 = qvb cmp h n (2 * b + 1)"
    define h2 where "h2 = (if 2 * b + 2 < n then qvb cmp h1 n (2 * b + 2) else h1)"
    have 1: "tree_spec cmp h (2 * b + 1) h1" unfolding h1_def using less.hyps n False by auto
    then have n1: "n = length h1" using n by (simp add: tree_spec_def)
    have "tree_spec cmp h1 (2 * b + 2) h2"
    proof (cases "2 * b + 2 < n")
      case True
      then show ?thesis unfolding h2_def using less.hyps n1 by auto
    next
      case False
      then show ?thesis using n1 by (simp add: h2_def tree_spec_def sub_heap_beyond)
    qed
    then have "tree_spec cmp h b (rvb cmp h2 b)" using rvb_tree [OF _ 1] False n by simp
    with False show ?thesis by (subst qvb.simps) (cases "2 * b + 2 < n", simp_all add: h1_def h2_def Let_def)
  qed
qed

lemma pvb_heap:
  assumes "heap cmp h"
  shows "heap cmp (snd (pvb cmp h xs))" "mset (snd (pvb cmp h xs)) = mset h + mset xs"
  using assms qvb_tree [of "length h + length xs" "h @ xs" 0]
  by (auto simp: pvb_def tree_spec_def sub_heap_0)

end

subsection \<open>What a priority queue promises\<close>

text \<open>
  The abstract queue is a multiset: an offer adds an element, a poll takes one that no other element
  precedes, and nothing when the queue is empty. \<open>drain\<close> is the loop of the clients of the worker
  that poll until the queue is empty.
\<close>

datatype 'a queue_op = Offer 'a | OfferAll "'a list" | Poll

inductive spec_run :: "('a \<Rightarrow> 'a \<Rightarrow> int) \<Rightarrow> 'a queue_op list \<Rightarrow> 'a multiset \<Rightarrow> 'a option list \<Rightarrow> 'a multiset \<Rightarrow> bool"
  for cmp where
  spec_done: "spec_run cmp [] m [] m"
| spec_offer: "spec_run cmp ops (add_mset x m) rs m' \<Longrightarrow> spec_run cmp (Offer x # ops) m rs m'"
| spec_offer_all: "spec_run cmp ops (m + mset xs) rs m' \<Longrightarrow> spec_run cmp (OfferAll xs # ops) m rs m'"
| spec_poll: "x \<in># m \<Longrightarrow> \<forall>y \<in># m. cmp x y \<le> 0 \<Longrightarrow> spec_run cmp ops (m - {#x#}) rs m' \<Longrightarrow>
    spec_run cmp (Poll # ops) m (Some x # rs) m'"
| spec_poll_empty: "spec_run cmp ops {#} rs m' \<Longrightarrow> spec_run cmp (Poll # ops) {#} (None # rs) m'"

inductive_cases spec_doneE: "spec_run cmp [] m rs m'"
inductive_cases spec_offer_allE: "spec_run cmp (OfferAll xs # ops) m rs m'"
inductive_cases spec_pollE: "spec_run cmp (Poll # ops) m rs m'"

fun queue_run :: "('a \<Rightarrow> 'a \<Rightarrow> int) \<Rightarrow> 'a queue_op list \<Rightarrow> 'a list \<Rightarrow> 'a option list \<times> 'a list" where
  "queue_run cmp [] h = ([], h)"
| "queue_run cmp (Offer x # ops) h = queue_run cmp ops (svb cmp h x)"
| "queue_run cmp (OfferAll xs # ops) h = queue_run cmp ops (snd (pvb cmp h xs))"
| "queue_run cmp (Poll # ops) h = (let (r, h') = tvb cmp h; (rs, h'') = queue_run cmp ops h' in (r # rs, h''))"

locale min_queue = comparator_sgn cmp for cmp :: "'a \<Rightarrow> 'a \<Rightarrow> int" +
  fixes inv :: "'s \<Rightarrow> bool" and items :: "'s \<Rightarrow> 'a multiset"
    and offer :: "'s \<Rightarrow> 'a \<Rightarrow> 's" and poll :: "'s \<Rightarrow> 'a option \<times> 's"
  assumes offer_inv: "inv s \<Longrightarrow> inv (offer s x)"
    and offer_items: "inv s \<Longrightarrow> items (offer s x) = add_mset x (items s)"
    and poll_empty: "inv s \<Longrightarrow> items s = {#} \<Longrightarrow> poll s = (None, s)"
    and poll_item: "inv s \<Longrightarrow> items s \<noteq> {#} \<Longrightarrow>
      \<exists>x s'. poll s = (Some x, s') \<and> inv s' \<and> items s = add_mset x (items s') \<and> (\<forall>y \<in># items s. cmp x y \<le> 0)"
begin

fun drain :: "nat \<Rightarrow> 's \<Rightarrow> 'a list" where
  "drain 0 s = []"
| "drain (Suc n) s = (case poll s of (None, _) \<Rightarrow> [] | (Some x, s') \<Rightarrow> x # drain n s')"

lemma drain_sorted:
  "inv s \<Longrightarrow> size (items s) \<le> n \<Longrightarrow>
   mset (drain n s) = items s \<and> sorted_wrt (\<lambda>x y. cmp x y \<le> 0) (drain n s)"
proof (induction n arbitrary: s)
  case (Suc n)
  show ?case
  proof (cases "items s = {#}")
    case True
    then show ?thesis using Suc.prems(1) by (simp add: poll_empty)
  next
    case False
    then obtain x s' where p: "poll s = (Some x, s')" "inv s'" "items s = add_mset x (items s')"
      "\<forall>y \<in># items s. cmp x y \<le> 0"
      using poll_item Suc.prems(1) by blast
    then have IH: "mset (drain n s') = items s'" "sorted_wrt (\<lambda>x y. cmp x y \<le> 0) (drain n s')"
      using Suc.IH [of s'] Suc.prems(2) by simp_all
    from IH(1) have "set (drain n s') = set_mset (items s')" by (metis set_mset_mset)
    then show ?thesis using p IH by simp
  qed
qed simp

lemma offer_all_items: "inv s \<Longrightarrow> inv (foldl offer s xs) \<and> items (foldl offer s xs) = items s + mset xs"
  by (induction xs arbitrary: s) (simp_all add: offer_inv offer_items)

end

context comparator_sgn
begin

lemma tvb_heap:
  assumes "heap cmp h" "h \<noteq> []"
  shows "tvb cmp h = (Some (h ! 0), vvb cmp h 0)" "heap cmp (vvb cmp h 0)"
    "mset h = add_mset (h ! 0) (mset (vvb cmp h 0))" "\<forall>y \<in># mset h. cmp (h ! 0) y \<le> 0"
  using assms vvb_0_heap mset_vvb_0 [of h cmp] heap_min [of h]
  by (auto simp: tvb_def in_set_conv_nth)

lemma queue_run_refines:
  "heap cmp h \<Longrightarrow> queue_run cmp ops h = (rs, h') \<Longrightarrow> heap cmp h' \<and> spec_run cmp ops (mset h) rs (mset h')"
proof (induction ops arbitrary: h rs)
  case Nil
  then show ?case by (auto intro: spec_run.intros)
next
  case (Cons a ops)
  show ?case
  proof (cases a)
    case (Offer x)
    with Cons.prems Cons.IH [of "svb cmp h x" rs] svb_heap [of h x] show ?thesis by (auto intro: spec_run.intros)
  next
    case (OfferAll xs)
    with Cons.prems Cons.IH [of "snd (pvb cmp h xs)" rs] pvb_heap [of h xs] show ?thesis
      by (auto intro: spec_run.intros)
  next
    case Poll
    obtain rs' where run: "queue_run cmp ops (snd (tvb cmp h)) = (rs', h')" "rs = fst (tvb cmp h) # rs'"
      using Cons.prems(2) Poll by (auto split: prod.splits)
    show ?thesis
    proof (cases "h = []")
      case True
      with run Cons.IH [of h rs'] Cons.prems(1) Poll show ?thesis by (auto simp: tvb_def intro: spec_run.intros)
    next
      case False
      note t = tvb_heap [OF Cons.prems(1) False]
      from Cons.IH [OF t(2), of rs'] run t(1)
      have "heap cmp h'" "spec_run cmp ops (mset (vvb cmp h 0)) rs' (mset h')" by simp_all
      moreover have "mset (vvb cmp h 0) = mset h - {#h ! 0#}" "h ! 0 \<in># mset h" using t(3) by simp_all
      ultimately show ?thesis using t(1,4) run(2) Poll by (auto intro: spec_poll)
    qed
  qed
qed

end

sublocale comparator_sgn \<subseteq> queue: min_queue cmp "heap cmp" mset "svb cmp" "tvb cmp"
proof unfold_locales
  fix h assume h: "heap cmp h" "mset h \<noteq> {#}"
  then have "h \<noteq> []" by simp
  from tvb_heap [OF h(1) this]
  show "\<exists>x s'. tvb cmp h = (Some x, s') \<and> heap cmp s' \<and> mset h = add_mset x (mset s') \<and> (\<forall>y \<in># mset h. cmp x y \<le> 0)"
    by blast
qed (simp_all add: svb_heap tvb_def)

interpretation int_queue: min_queue rfb "heap rfb" mset "svb rfb" "tvb rfb"
  by unfold_locales

subsection \<open>Removing an element\<close>

lemma mset_vvb:
  assumes "b < length h"
  shows "add_mset (h ! b) (mset (vvb cmp h b)) = mset h"
proof (cases "b < length (butlast h)")
  case True
  let ?g = "(butlast h)[b := last h]"
  have "h \<noteq> []" using assms by auto
  have "mset (rvb cmp ?g b) = mset ?g" by (rule mset_rvb) (use True in simp)
  then have "mset (vvb cmp h b) = add_mset (last h) (mset (butlast h) - {#h ! b#})"
    using True by (simp add: vvb_def Let_def mset_set nth_butlast)
  moreover have "h ! b \<in># mset (butlast h)" using True by (metis nth_butlast nth_mem set_mset_mset)
  ultimately show ?thesis using mset_butlast [OF \<open>h \<noteq> []\<close>] by (metis add_mset_commute insert_DiffM)
next
  case False
  then have "h \<noteq> []" "b = length h - 1" using assms by auto
  then have "h ! b = last h" by (simp add: last_conv_nth)
  with False mset_butlast [OF \<open>h \<noteq> []\<close>] show ?thesis by (simp add: vvb_def Let_def)
qed

lemma index_of_None: "index_of x h = None \<longleftrightarrow> x \<notin> set h"
  by (induction h) auto

lemma index_of_Some: "index_of x h = Some c \<Longrightarrow> c < length h \<and> h ! c = x"
  by (induction h arbitrary: c) (auto split: if_splits)

text \<open>
  Removing an element takes one occurrence of it out of the queue and answers whether
  there was one.
\<close>

theorem uvb_removes:
  "fst (uvb cmp h x) = (x \<in> set h) \<and> mset (snd (uvb cmp h x)) = mset h - {#x#}"
proof (cases "index_of x h")
  case None
  then have "x \<notin> set h" by (simp add: index_of_None)
  then show ?thesis unfolding uvb_def None by simp
next
  case (Some c)
  with index_of_Some [OF Some] mset_vvb [of c h cmp] show ?thesis
    by (metis (no_types) add_mset_remove_trivial fst_conv in_multiset_in_set mset_vvb nth_mem option.simps(5) snd_conv uvb_def)
qed

lemma spec_run_polls:
  fixes m :: "int multiset"
  assumes "spec_run rfb (replicate (size m) Poll) m rs m'"
  shows "rs = map Some (sorted_list_of_multiset m) \<and> m' = {#}"
  using assms
proof (induction "size m" arbitrary: m rs)
  case 0
  then show ?case by (auto elim: spec_doneE)
next
  case (Suc n)
  from Suc.hyps(2) have "m \<noteq> {#}" by auto
  moreover have "spec_run rfb (Poll # replicate n Poll) m rs m'" using Suc.prems by (simp flip: Suc.hyps(2))
  ultimately obtain x rs' where x: "x \<in># m" "\<forall>y \<in># m. rfb x y \<le> 0" "rs = Some x # rs'"
    "spec_run rfb (replicate n Poll) (m - {#x#}) rs' m'"
    by (auto elim: spec_pollE)
  from x(1) obtain k where m: "m = add_mset x k" by (metis mset_add)
  then have "n = size k" "m - {#x#} = k" using Suc.hyps(2) by simp_all
  with Suc.hyps(1) [OF \<open>n = size k\<close>] x(4)
  have IH: "rs' = map Some (sorted_list_of_multiset k)" "m' = {#}" by simp_all
  have "\<forall>y \<in># k. x \<le> y" using x(2) unfolding m by (simp add: rfb_le)
  then have "insort x (sorted_list_of_multiset k) = x # sorted_list_of_multiset k"
    by (intro insort_is_Cons) simp
  with IH x(3) m show ?case by simp
qed

definition heap_upto :: "('a \<Rightarrow> 'a \<Rightarrow> int) \<Rightarrow> 'a list \<Rightarrow> bool" where
  "heap_upto cmp h = list_all (\<lambda>i. cmp (h ! ((i - 1) div 2)) (h ! i) \<le> 0) [1..<length h]"

lemma heap_upto: "heap cmp h = heap_upto cmp h"
  by (auto simp: heap_def heap_upto_def list_all_iff)

text \<open>
  Claim C13. An array in heap order run through any offers, bulk offers and polls stays in heap order
  and answers as the abstract queue of its elements does: every poll takes an element that none of
  the others precedes.
\<close>

theorem queue_refines:
  "comparator_sgn cmp \<Longrightarrow> heap cmp h \<Longrightarrow> queue_run cmp ops h = (rs, h') \<Longrightarrow>
   heap cmp h' \<and> spec_run cmp ops (mset h) rs (mset h')"
  by (rule comparator_sgn.queue_run_refines)

theorem queue_refines_witness:
  "heap rfb [3, 5] \<and> spec_run rfb [OfferAll [5, 3, 2], Poll, Offer 1, Poll] {#} [Some 2, Some 1] (mset [3, 5])"
proof -
  have "queue_run rfb [OfferAll [5, 3, 2], Poll, Offer 1, Poll] [] = ([Some 2, Some 1], [3, 5])"
    by code_simp
  from queue_refines [OF int_order.comparator_sgn_axioms _ this] show ?thesis by (simp add: heap_def)
qed

text \<open>
  Adding integers to the empty queue in one go and polling as often as there are integers
  gives them in ascending order and leaves the queue empty.
\<close>

theorem queue_sorts:
  "queue_run rfb (OfferAll xs # replicate (length xs) Poll) [] = (map Some (sort xs), [])"
proof -
  obtain rs h where run: "queue_run rfb (OfferAll xs # replicate (length xs) Poll) [] = (rs, h)"
    by fastforce
  have "heap rfb []" by (simp add: heap_def)
  from int_order.queue_run_refines [OF this run]
  have "spec_run rfb (replicate (length xs) Poll) (mset xs) rs (mset h)"
    by (auto elim: spec_offer_allE)
  then have "spec_run rfb (replicate (size (mset xs)) Poll) (mset xs) rs (mset h)" by simp
  from spec_run_polls [OF this] run show ?thesis by simp
qed

text \<open>
  Claim C39. Removal moves the last element of the array into the gap and only sifts it down, never up:
  after one \<open>remove\<close> on an array in heap order the order is lost and a later poll answers 10 before 8.
\<close>

theorem uvb_breaks_order:
  "heap rfb [1, 10, 2, 20, 12, 3, 4, 21, 22, 13, 14, 5, 6, 7, 8] \<and>
   \<not> heap rfb (snd (uvb rfb [1, 10, 2, 20, 12, 3, 4, 21, 22, 13, 14, 5, 6, 7, 8] 20)) \<and>
   fst (queue_run rfb (replicate 9 Poll) (snd (uvb rfb [1, 10, 2, 20, 12, 3, 4, 21, 22, 13, 14, 5, 6, 7, 8] 20))) =
     map Some [1, 2, 3, 4, 5, 6, 7, 10, 8]"
  (is "heap _ ?h \<and> \<not> heap _ (snd ?r) \<and> fst (queue_run _ ?ops _) = ?rs")
proof -
  have eq: "?r = (True, [1, 10, 2, 8, 12, 3, 4, 21, 22, 13, 14, 5, 6, 7])" by code_simp
  have "heap_upto rfb ?h = True" by code_simp
  moreover have "heap_upto rfb (snd ?r) = False" unfolding eq by code_simp
  moreover have "fst (queue_run rfb ?ops (snd ?r)) = ?rs" unfolding eq by code_simp
  ultimately show ?thesis by (simp only: heap_upto) simp
qed

end
