(* ===== verification/HeapCode.thy ===== *)
theory HeapCode
  imports ArrayCode GwtHeap
begin

text \<open>
  The code of \<open>java.util.PriorityQueue\<close>, as the tables have it, on a queue that lies in the store: an
  object with a comparator and an array list. The code of \<open>svb\<close> (\<open>offer\<close>), \<open>rvb\<close> (sift down), \<open>vvb\<close>
  (remove at an index), \<open>tvb\<close> (\<open>poll\<close>) and \<open>qvb\<close> (make a heap) computes the functions of \<open>GwtHeap\<close> on the
  list that the array holds and changes nothing but the array.
\<close>

subsection \<open>The functions\<close>

definition NDb_fun :: jfun where
  "NDb_fun = \<lparr>f_params = 1, f_locals = 0, f_body =
     [When (Loose (V 0) (K JNull)) [Raise (Call ''Lcb'' [New ''Xfb'' []])] [], Ret (V 0)]\<rparr>"

definition svb_fun :: jfun where
  "svb_fun = \<lparr>f_params = 2, f_locals = 2, f_body =
     [Do (Call ''NDb'' [V 1]), Do (SetV 3 (Dot (Dot (Dot (V 0) ''b'') ''c'') ''length'')), Do (Call
     ''_lb'' [Dot (V 0) ''b'', V 1]), Loop (Bin Gt (V 3) (K (JNum 0))) [Do (SetV 2 (V 3)), Do (SetV
     3 (Bin DivInt (Bin Minus (V 3) (K (JNum 1))) (K (JNum 2)))), When (Bin Le (Meth (Dot (V 0)
     ''a'') ''Le'' [Call ''dmb'' [Dot (V 0) ''b'', V 3], V 1]) (K (JNum 0))) [Do (Call ''imb'' [Dot
     (V 0) ''b'', V 2, V 1]), Ret (K (JBool True))] [], Do (Call ''imb'' [Dot (V 0) ''b'', V 2, Call
     ''dmb'' [Dot (V 0) ''b'', V 3]])] [], Do (Call ''imb'' [Dot (V 0) ''b'', V 3, V 1]), Ret (K
     (JBool True))]\<rparr>"

definition rvb_fun :: jfun where
  "rvb_fun = \<lparr>f_params = 2, f_locals = 6, f_body =
     [Do (SetV 2 (Dot (Dot (Dot (V 0) ''b'') ''c'') ''length'')), Do (SetV 4 (Call ''dmb'' [Dot (V
     0) ''b'', V 1])), Loop (Bin Lt (Bin Plus (Bin Times (V 1) (K (JNum 2))) (K (JNum 1))) (V 2))
     [Do (SetV 3 (Seq (Seq (Seq (Seq (SetV 5 (Bin Plus (Bin Times (K (JNum 2)) (V 1)) (K (JNum 1))))
     (SetV 6 (Bin Plus (V 5) (K (JNum 1))))) (SetV 7 (V 5))) (And (And (Bin Lt (V 6) (V 2)) (Bin Lt
     (Meth (Dot (V 0) ''a'') ''Le'' [Call ''dmb'' [Dot (V 0) ''b'', V 6], Call ''dmb'' [Dot (V 0)
     ''b'', V 5]]) (K (JNum 0)))) (SetV 7 (V 6)))) (V 7))), When (Bin Lt (Meth (Dot (V 0) ''a'')
     ''Le'' [V 4, Call ''dmb'' [Dot (V 0) ''b'', V 3]]) (K (JNum 0))) [Break] [], Do (Call ''imb''
     [Dot (V 0) ''b'', V 1, Call ''dmb'' [Dot (V 0) ''b'', V 3]]), Do (SetV 1 (V 3))] [], Do (Call
     ''imb'' [Dot (V 0) ''b'', V 1, V 4])]\<rparr>"

definition vvb_fun :: jfun where
  "vvb_fun = \<lparr>f_params = 2, f_locals = 1, f_body =
     [Do (SetV 2 (Call ''fmb'' [Dot (V 0) ''b'', Bin Minus (Dot (Dot (Dot (V 0) ''b'') ''c'')
     ''length'') (K (JNum 1))])), When (Bin Lt (V 1) (Dot (Dot (Dot (V 0) ''b'') ''c'') ''length''))
     [Do (Call ''imb'' [Dot (V 0) ''b'', V 1, V 2]), Do (Call ''rvb'' [V 0, V 1])] []]\<rparr>"

definition tvb_fun :: jfun where
  "tvb_fun = \<lparr>f_params = 1, f_locals = 1, f_body =
     [Do (SetV 1 (Cond (Loose (Dot (Dot (Dot (V 0) ''b'') ''c'') ''length'') (K (JNum 0))) (K JNull)
     (Call ''dmb'' [Dot (V 0) ''b'', K (JNum 0)]))), Do (And (Neg (Loose (V 1) (K JNull))) (Call
     ''vvb'' [V 0, K (JNum 0)])), Ret (V 1)]\<rparr>"

definition qvb_fun :: jfun where
  "qvb_fun = \<lparr>f_params = 2, f_locals = 1, f_body =
     [When (Bin Ge (Bin Plus (Bin Times (V 1) (K (JNum 2))) (K (JNum 1))) (Dot (Dot (Dot (V 0)
     ''b'') ''c'') ''length'')) [Ret (K JUndef)] [], Do (Call ''qvb'' [V 0, Bin Plus (Bin Times (K
     (JNum 2)) (V 1)) (K (JNum 1))]), Do (SetV 2 (Bin Plus (Bin Times (K (JNum 2)) (V 1)) (K (JNum
     2)))), Do (And (Bin Lt (V 2) (Dot (Dot (Dot (V 0) ''b'') ''c'') ''length'')) (Call ''qvb'' [V
     0, V 2])), Do (Call ''rvb'' [V 0, V 1])]\<rparr>"

text \<open>The conditions and bodies of the two loops.\<close>

definition svb_test :: jexp where
  "svb_test = Bin Gt (V 3) (K (JNum 0))"

definition svb_turn :: "jstm list" where
  "svb_turn = [Do (SetV 2 (V 3)), Do (SetV
     3 (Bin DivInt (Bin Minus (V 3) (K (JNum 1))) (K (JNum 2)))), When (Bin Le (Meth (Dot (V 0)
     ''a'') ''Le'' [Call ''dmb'' [Dot (V 0) ''b'', V 3], V 1]) (K (JNum 0))) [Do (Call ''imb'' [Dot
     (V 0) ''b'', V 2, V 1]), Ret (K (JBool True))] [], Do (Call ''imb'' [Dot (V 0) ''b'', V 2, Call
     ''dmb'' [Dot (V 0) ''b'', V 3]])]"

definition rvb_test :: jexp where
  "rvb_test = Bin Lt (Bin Plus (Bin Times (V 1) (K (JNum 2))) (K (JNum 1))) (V 2)"

definition rvb_child :: jexp where
  "rvb_child = Seq (Seq (Seq (Seq (SetV 5 (Bin Plus (Bin Times (K (JNum 2)) (V 1)) (K (JNum 1))))
     (SetV 6 (Bin Plus (V 5) (K (JNum 1))))) (SetV 7 (V 5))) (And (And (Bin Lt (V 6) (V 2)) (Bin Lt
     (Meth (Dot (V 0) ''a'') ''Le'' [Call ''dmb'' [Dot (V 0) ''b'', V 6], Call ''dmb'' [Dot (V 0)
     ''b'', V 5]]) (K (JNum 0)))) (SetV 7 (V 6)))) (V 7)"

definition rvb_turn :: "jstm list" where
  "rvb_turn = [Do (SetV 3 rvb_child), When (Bin Lt (Meth (Dot (V 0) ''a'')
     ''Le'' [V 4, Call ''dmb'' [Dot (V 0) ''b'', V 3]]) (K (JNum 0))) [Break] [], Do (Call ''imb''
     [Dot (V 0) ''b'', V 1, Call ''dmb'' [Dot (V 0) ''b'', V 3]]), Do (SetV 1 (V 3))]"

subsection \<open>Queues in the store\<close>

definition queue_at :: "string \<Rightarrow> jst \<Rightarrow> nat \<Rightarrow> nat \<Rightarrow> nat \<Rightarrow> nat \<Rightarrow> jval list \<Rightarrow> bool" where
  "queue_at cc s q cr l a vs \<longleftrightarrow> map_at cc s q cr \<and> fld s q ''b'' = Some (JRef l) \<and> list_at s l a vs \<and> a \<notin> {q, cr, l}"

definition queue_free :: "jst \<Rightarrow> bool" where
  "queue_free s \<longleftrightarrow> list_free s \<and> (\<forall>x \<in> {''NDb'', ''rvb'', ''vvb'', ''qvb''}. j_glob s x = None)"

text \<open>Offers (\<open>Some\<close>) and polls (\<open>None\<close>) run by the code, with the answers of the polls.\<close>

fun code_run :: "jprog \<Rightarrow> nat \<Rightarrow> nat \<Rightarrow> jval option list \<Rightarrow> jst \<Rightarrow> (jval list, jst) outcome" where
  "code_run p n q [] s = Ok [] s"
| "code_run p n q (Some x # ops) s = bnd (run p n ''svb'' JUndef [JRef q, x] s) (\<lambda>_. code_run p n q ops)"
| "code_run p n q (None # ops) s = bnd (run p n ''tvb'' JUndef [JRef q] s)
     (\<lambda>r s. bnd (code_run p n q ops s) (\<lambda>rs. Ok (r # rs)))"

definition op_of :: "jval option \<Rightarrow> jval queue_op" where
  "op_of x = (case x of Some v \<Rightarrow> Offer v | None \<Rightarrow> Poll)"

lemma op_of_simps [simp]: "op_of (Some v) = Offer v" "op_of None = Poll"
  by (simp_all add: op_of_def)

definition answer :: "jval option \<Rightarrow> jval" where
  "answer r = (case r of Some v \<Rightarrow> v | None \<Rightarrow> JNull)"

lemma length_sift_up [simp]: "length (sift_up cm h x d) = length h"
proof (induction cm h x d rule: sift_up.induct)
  case (1 cm h x d)
  then show ?case by (subst sift_up.simps) (simp add: Let_def)
qed

lemma set_svb: "set (svb cm h x) = insert x (set h)"
  using arg_cong [OF mset_sift_up [of "length h" "h @ [x]" cm x], of set_mset] by (simp add: svb_def)

lemma length_svb [simp]: "length (svb cm h x) = Suc (length h)"
  by (simp add: svb_def)

lemma length_vvb [simp]: "h \<noteq> [] \<Longrightarrow> length (vvb cm h b) = length h - 1"
  by (simp add: vvb_def Let_def)

lemma set_vvb: "b < length h \<Longrightarrow> set (vvb cm h b) \<subseteq> set h"
  using arg_cong [OF mset_vvb [of b h cm], of set_mset] by auto

lemma qvb_mset: "n = length h \<Longrightarrow> mset (qvb cm h n b) = mset h"
proof (induction cm h n b rule: qvb.induct)
  case (1 cm h n b)
  show ?case
  proof (cases "b * 2 + 1 \<ge> n")
    case True
    then show ?thesis by (subst qvb.simps) simp
  next
    case False
    define h1 where "h1 = qvb cm h n (2 * b + 1)"
    define h2 where "h2 = (if 2 * b + 2 < n then qvb cm h1 n (2 * b + 2) else h1)"
    have h1: "mset h1 = mset h" unfolding h1_def by (rule 1) (use False 1 in auto)
    have "mset h2 = mset h1" unfolding h2_def
      using 1(2) [OF False h1_def refl] mset_eq_length [OF h1] 1(3) by auto
    then have "mset (rvb cm h2 b) = mset h"
      using h1 False 1(3) mset_eq_length [of h2 h] mset_rvb [of b h2 cm] by simp
    moreover have "qvb cm h n b = rvb cm h2 b"
      by (subst qvb.simps) (use False in \<open>simp add: h2_def h1_def Let_def\<close>)
    ultimately show ?thesis by simp
  qed
qed

locale heap_code = array_code p + array_comparator p le cc key cmp lf
  for p :: jprog and le cc :: string and key :: "jst \<Rightarrow> jval \<Rightarrow> bool"
    and cmp :: "jst \<Rightarrow> jval \<Rightarrow> jval \<Rightarrow> int" and lf :: nat +
  assumes heap_funs: "p_fun p ''NDb'' = Some NDb_fun" "p_fun p ''svb'' = Some svb_fun" "p_fun p ''rvb'' = Some rvb_fun"
      "p_fun p ''vvb'' = Some vvb_fun" "p_fun p ''tvb'' = Some tvb_fun" "p_fun p ''qvb'' = Some qvb_fun"
begin

lemma heap_globs:
  assumes "queue_free s"
  shows "glob_val p ''NDb'' s = Some (JFun ''NDb'')" "glob_val p ''rvb'' s = Some (JFun ''rvb'')"
    "glob_val p ''vvb'' s = Some (JFun ''vvb'')" "glob_val p ''qvb'' s = Some (JFun ''qvb'')"
  using assms by (simp_all add: queue_free_def glob_val_def heap_funs)

lemma queue_free_out: "same_out A s s' \<Longrightarrow> queue_free s' = queue_free s"
  by (simp add: queue_free_def list_free_out) (simp add: same_out_def)

lemma queue_list_free: "queue_free s \<Longrightarrow> list_free s"
  by (simp add: queue_free_def)

lemma queue_atD:
  assumes "queue_at cc s q cr l a vs"
  shows "map_at cc s q cr" "fld s q ''b'' = Some (JRef l)" "list_at s l a vs" "fld s l ''c'' = Some (JRef a)" "arr_at s a vs"
    "a \<noteq> q" "a \<noteq> cr" "a \<noteq> l"
  using assms by (auto simp: queue_at_def list_at_def)

lemma queue_at_out:
  "same_out {a} s s' \<Longrightarrow> queue_at cc s q cr l a vs \<Longrightarrow> arr_at s' a ws \<Longrightarrow> queue_at cc s' q cr l a ws"
  by (auto simp: queue_at_def map_at_out list_at_def same_outD(1))

lemma queue_at_set: "queue_at cc s q cr l a vs \<Longrightarrow> queue_at cc (set_elem s a i w) q cr l a (vs[i := w])"
  by (rule queue_at_out [OF same_set(1)]) (auto intro: arr_set queue_atD(5))

lemma same_key: "same_out {a} s s' \<Longrightarrow> queue_at cc s q cr l a vs \<Longrightarrow> key s' = key s \<and> cmp s' = cmp s"
  by (rule no_array [of "{a}"]) (auto dest: queue_atD(5) arr_cls)

lemma run_NDb: "key s v \<Longrightarrow> run p (Suc n) ''NDb'' th [v] s = Ok v s"
  by (simp add: run_fun [OF heap_funs(1)] NDb_fun_def run_defs nonnull_loose del: run.simps)

text \<open>A comparison with an element of the queue.\<close>

lemma run_le: "lf \<le> n \<Longrightarrow> key s x \<Longrightarrow> key s y \<Longrightarrow> run p n le t [x, y] s = Ok (JNum (cmp s x y)) s"
  by (rule le_run)

lemma svb_step:
  assumes q: "queue_at cc s q cr l a h" "queue_free s" and d: "d < length h" "length h < 2 ^ 30"
    and keys: "key s x" "\<forall>v \<in> set h. key s v" and n: "lf + 2 \<le> n"
  shows "turn p n th svb_test svb_turn [] ([JRef q, x, y2, JNum (int d)], s) =
    (if d = 0 then Ok (Some Next) ([JRef q, x, y2, JNum 0], s)
     else if cmp s (h ! ((d - 1) div 2)) x \<le> 0
     then Ok (Some (Return (JBool True))) ([JRef q, x, JNum (int d), JNum (int ((d - 1) div 2))], set_elem s a d x)
     else Ok None ([JRef q, x, JNum (int d), JNum (int ((d - 1) div 2))], set_elem s a d (h ! ((d - 1) div 2))))"
proof (cases "d = 0")
  case False
  define r where "r = (d - 1) div 2"
  obtain n' where n': "n = Suc (Suc n')" using n by (cases n; cases "n - 1") auto
  have r: "r < length h" using d(1) unfolding r_def by linarith
  then have k: "key s (h ! r)" using keys(2) by simp
  have i: "(int d - 1) div 2 = int r" using False by (simp add: r_def of_nat_diff zdiv_int)
  note a = queue_atD [OF q(1)] and f = queue_list_free [OF q(2)]
  have le: "run p n le t [h ! r, x] s = Ok (JNum (cmp s (h ! r) x)) s" for t using n keys(1) k by (simp add: le_run)
  show ?thesis using False d unfolding r_def [symmetric]
    by (simp add: turn_def svb_test_def svb_turn_def run_defs i get_fld a(2) get_cmp [OF a(1)] get_le [OF a(1)]
        list_globs [OF f] run_dmb [OF a(3) r f] run_imb [OF a(3) d(1) f] le [unfolded n'] n' del: run.simps)
qed (simp add: turn_def svb_test_def run_defs)

lemma svb_loop:
  assumes "queue_at cc s q cr l a h" "queue_free s" "d < length h" "length h < 2 ^ 30" "key s x" "\<forall>v \<in> set h. key s v"
    "lf + 2 \<le> n" "d < m"
  shows "\<exists>k y2' d' s' h'. iter m (turn p n th svb_test svb_turn []) ([JRef q, x, y2, JNum (int d)], s) = Ok k ([JRef q, x, y2', JNum (int d')], s') \<and>
    same_out {a} s s' \<and> queue_at cc s' q cr l a h' \<and> length h' = length h \<and>
    (k = Return (JBool True) \<and> h' = sift_up (cmp s) h x d \<or> k = Next \<and> d' = 0 \<and> h'[0 := x] = sift_up (cmp s) h x d)"
  using assms
proof (induction d arbitrary: s h m y2 rule: less_induct)
  case (less d)
  obtain m' where m: "m = Suc m'" using less.prems(8) by (cases m) auto
  define r where "r = (d - 1) div 2"
  note step = svb_step [OF less.prems(1-7), of th y2]
  note up = sift_up.simps [of "cmp s" h x d]
  show ?case
  proof (cases "d = 0")
    case True
    then show ?thesis using step up less.prems(1) unfolding m by auto
  next
    case False
    then have r: "r < d" unfolding r_def by linarith
    show ?thesis
    proof (cases "cmp s (h ! r) x \<le> 0")
      case True
      then have "iter m (turn p n th svb_test svb_turn []) ([JRef q, x, y2, JNum (int d)], s) =
          Ok (Return (JBool True)) ([JRef q, x, JNum (int d), JNum (int r)], set_elem s a d x)"
        using step False unfolding m r_def by simp
      moreover have "sift_up (cmp s) h x d = h[d := x]" using up True False unfolding r_def by (simp add: Let_def)
      ultimately show ?thesis using queue_at_set [OF less.prems(1), of d x] by (metis length_list_update same_set(1))
    next
      case go: False
      let ?s = "set_elem s a d (h ! r)" and ?h = "h[d := h ! r]"
      have out: "same_out {a} s ?s" by simp
      note same = same_key [OF out less.prems(1)]
      have q: "queue_at cc ?s q cr l a ?h" by (rule queue_at_set [OF less.prems(1)])
      have keys: "\<forall>v \<in> set ?h. key ?s v"
        using less.prems(3,6) r same set_update_subset_insert [of h d "h ! r"] by auto
      have free: "queue_free ?s" using less.prems(2) queue_free_out [OF out] by simp
      have IH: "\<exists>k y2' d' s' h'. iter m' (turn p n th svb_test svb_turn []) ([JRef q, x, JNum (int d), JNum (int r)], ?s) = Ok k ([JRef q, x, y2', JNum (int d')], s') \<and>
        same_out {a} ?s s' \<and> queue_at cc s' q cr l a h' \<and> length h' = length ?h \<and>
        (k = Return (JBool True) \<and> h' = sift_up (cmp ?s) ?h x r \<or> k = Next \<and> d' = 0 \<and> h'[0 := x] = sift_up (cmp ?s) ?h x r)"
        by (rule less.IH [OF r q free]) (use less.prems keys same r m in auto)
      have nx: "iter m (turn p n th svb_test svb_turn []) ([JRef q, x, y2, JNum (int d)], s) =
          iter m' (turn p n th svb_test svb_turn []) ([JRef q, x, JNum (int d), JNum (int r)], ?s)"
        using step False go unfolding m r_def by simp
      have "sift_up (cmp s) h x d = sift_up (cmp ?s) ?h x r" using up go False same unfolding r_def by (simp add: Let_def)
      then show ?thesis using IH same_out_comp [OF out] unfolding nx by (metis length_list_update)
    qed
  qed
qed

lemma run_svb:
  assumes "queue_at cc s q cr l a h" "queue_free s" "Suc (length h) < 2 ^ 30" "key s x" "\<forall>v \<in> set h. key s v"
    "lf + length h + 4 \<le> n"
  shows "\<exists>s'. run p (Suc n) ''svb'' th [JRef q, x] s = Ok (JBool True) s' \<and> queue_at cc s' q cr l a (svb (cmp s) h x) \<and> same_out {a} s s'"
proof -
  let ?n = "length h"
  obtain n' where n': "n = Suc (Suc (Suc n'))" using assms(6) by (cases n; cases "n - 1"; cases "n - 2") auto
  note a = queue_atD [OF assms(1)] and f = queue_list_free [OF assms(2)]
  let ?s = "set_len (set_elem s a ?n x) a (Suc ?n)"
  have out: "same_out {a} s ?s" by (intro same_set_of same_set)
  note same = same_key [OF out assms(1)]
  have q: "queue_at cc ?s q cr l a (h @ [x])" by (rule queue_at_out [OF out assms(1) arr_push [OF a(5)]])
  have free: "queue_free ?s" using assms(2) queue_free_out [OF out] by simp
  have keys: "\<forall>v \<in> set (h @ [x]). key ?s v" "key ?s x" using assms(4,5) same by auto
  obtain k y2' d' s' h' where loop: "iter n (turn p n th svb_test svb_turn []) ([JRef q, x, JUndef, JNum (int ?n)], ?s) = Ok k ([JRef q, x, y2', JNum (int d')], s')"
    "same_out {a} ?s s'" "queue_at cc s' q cr l a h'" "length h' = Suc ?n"
    "k = Return (JBool True) \<and> h' = svb (cmp s) h x \<or> k = Next \<and> d' = 0 \<and> h'[0 := x] = svb (cmp s) h x"
    using svb_loop [OF q free _ _ keys(2,1), of ?n n n th JUndef] assms(3,6) same unfolding svb_def by auto
  have add: "run p n ''_lb'' JUndef [JRef l, x] s = Ok (JBool True) ?s"
    unfolding n' by (rule run_lb [OF a(3) _ f]) (use assms(3) in simp)
  have NDb: "run p n ''NDb'' JUndef [x] s = Ok x s" unfolding n' by (rule run_NDb [OF assms(4)])
  have out': "same_out {a} s s'" by (rule same_out_comp [OF out loop(2)])
  have f': "list_free s'" using f list_free_out [OF out'] by simp
  show ?thesis
  proof (cases "k = Next")
    case False
    then have "run p (Suc n) ''svb'' th [JRef q, x] s = Ok (JBool True) s'"
      using loop(5) loop(1) [unfolded svb_turn_def svb_test_def]
      by (simp add: run_fun [OF heap_funs(2)] svb_fun_def run_defs heap_globs [OF assms(2)] list_globs [OF f] NDb add get_fld a(2,4) get_len [OF a(5)]
        exs_Loop del: run.simps)
    then show ?thesis using loop(3,5) False out' by blast
  next
    case True
    note b = queue_atD [OF loop(3)]
    let ?t = "set_elem s' a 0 x"
    have set: "run p n ''imb'' JUndef [JRef l, JNum 0, x] s' = Ok (h' ! 0) ?t"
      using run_imb [OF b(3) _ f', of 0] loop(4) unfolding n' by simp
    have "run p (Suc n) ''svb'' th [JRef q, x] s = Ok (JBool True) ?t"
      using loop(5) True loop(1) [unfolded svb_turn_def svb_test_def]
      by (simp add: run_fun [OF heap_funs(2)] svb_fun_def run_defs heap_globs [OF assms(2)] list_globs [OF f] list_globs [OF f'] NDb add set
        get_fld a(2,4) b(2,4) get_len [OF a(5)] exs_Loop del: run.simps)
    moreover have "queue_at cc ?t q cr l a (svb (cmp s) h x)"
      using queue_at_set [OF loop(3), of 0 x] loop(5) True by simp
    ultimately show ?thesis using same_set_of(1) [OF out'] by blast
  qed
qed

lemma rvb_step:
  assumes q: "queue_at cc s q cr l a h" "queue_free s" and b: "b < length h" "length h < 2 ^ 30"
    and keys: "key s e" "\<forall>v \<in> set h. key s v" and n: "lf + 2 \<le> n"
  shows "\<exists>x5 x6 x7. turn p n th rvb_test rvb_turn [] ([JRef q, JNum (int b), JNum (int (length h)), y3, e, y5, y6, y7], s) =
    (if b * 2 + 1 < length h
     then if cmp s e (h ! child (cmp s) h b) < 0
       then Ok (Some Next) ([JRef q, JNum (int b), JNum (int (length h)), JNum (int (child (cmp s) h b)), e, x5, x6, x7], s)
       else Ok None ([JRef q, JNum (int (child (cmp s) h b)), JNum (int (length h)), JNum (int (child (cmp s) h b)), e, x5, x6, x7],
              set_elem s a b (h ! child (cmp s) h b))
     else Ok (Some Next) ([JRef q, JNum (int b), JNum (int (length h)), y3, e, y5, y6, y7], s))"
proof (cases "b * 2 + 1 < length h")
  case True
  define f where "f = 2 * b + 1"
  define g where "g = f + 1"
  define d where "d = child (cmp s) h b"
  obtain n' where n': "n = Suc (Suc n')" using n by (cases n; cases "n - 1") auto
  have fl: "f < length h" "f < 2 ^ 31" using True b(2) by (simp_all add: f_def)
  have if': "2 * int b + 1 = int f" "int b * 2 + 1 = int f" by (simp_all add: f_def)
  have d': "d = (if g < length h \<and> cmp s (h ! g) (h ! f) < 0 then g else f)"
    by (simp add: d_def child_def f_def g_def Let_def)
  have dl: "d < length h" using fl(1) d' by (auto split: if_splits)
  note a = queue_atD [OF q(1)] and fr = queue_list_free [OF q(2)]
  have le: "run p n le t [x, y] s = Ok (JNum (cmp s x y)) s" if "key s x" "key s y" for t x y using n that by (simp add: le_run)
  have k: "key s (h ! f)" "key s (h ! d)" "g < length h \<Longrightarrow> key s (h ! g)" using keys(2) fl dl by auto
  have dmb: "run p n ''dmb'' t [JRef l, JNum (int i)] s = Ok (h ! i) s" if "i < length h" for t i
    unfolding n' by (rule run_dmb [OF a(3) that fr])
  have imb: "run p n ''imb'' t [JRef l, JNum (int b), w] s = Ok (h ! b) (set_elem s a b w)" for t w
    unfolding n' by (rule run_imb [OF a(3) b(1) fr])
  have if1: "binop Plus (JNum (int f)) (JNum 1) = Some (JNum (int g))" using fl(2) by (simp add: g_def add.commute)
  note ev = turn_def rvb_test_def rvb_turn_def run_defs get_fld a(2) get_cmp [OF a(1)] get_le [OF a(1)] list_globs [OF fr] if'
  have pick: "ev p (run p n) th rvb_child ([JRef q, JNum (int b), JNum (int (length h)), y3, e, y5, y6, y7], s) =
     Ok (JNum (int d)) ([JRef q, JNum (int b), JNum (int (length h)), y3, e, JNum (int f), JNum (int g), JNum (int d)], s)"
    using fl(2) b k dmb [OF fl(1)] dmb [of g] d'
    by (auto simp: rvb_child_def ev le if1 simp del: run.simps)
  show ?thesis using True fl b
    unfolding d_def [symmetric]
    by (simp add: turn_def rvb_test_def rvb_turn_def run_defs get_fld a(2) get_cmp [OF a(1)] get_le [OF a(1)] list_globs [OF fr] if'
        pick dmb [OF dl] imb le [OF keys(1) k(2)] del: run.simps)
qed (use b in \<open>simp add: turn_def rvb_test_def run_defs\<close>)

lemma rvb_loop:
  assumes "queue_at cc s q cr l a h" "queue_free s" "b < length h" "length h < 2 ^ 30" "key s e" "\<forall>v \<in> set h. key s v"
    "lf + 2 \<le> n" "length h - b \<le> m"
  shows "\<exists>b' x3 x5 x6 x7 s' h'. iter m (turn p n th rvb_test rvb_turn [])
      ([JRef q, JNum (int b), JNum (int (length h)), y3, e, y5, y6, y7], s) =
      Ok Next ([JRef q, JNum (int b'), JNum (int (length h)), x3, e, x5, x6, x7], s') \<and>
    same_out {a} s s' \<and> queue_at cc s' q cr l a h' \<and> length h' = length h \<and> b' < length h \<and>
    h'[b' := e] = sift_down (cmp s) h e b"
  using assms
proof (induction "length h - b" arbitrary: s h m b y3 y5 y6 y7 rule: less_induct)
  case less
  obtain m' where m: "m = Suc m'" using less.prems(3,8) by (cases m) auto
  define d where "d = child (cmp s) h b"
  obtain x5 x6 x7 where step: "turn p n th rvb_test rvb_turn [] ([JRef q, JNum (int b), JNum (int (length h)), y3, e, y5, y6, y7], s) =
    (if b * 2 + 1 < length h
     then if cmp s e (h ! d) < 0
       then Ok (Some Next) ([JRef q, JNum (int b), JNum (int (length h)), JNum (int d), e, x5, x6, x7], s)
       else Ok None ([JRef q, JNum (int d), JNum (int (length h)), JNum (int d), e, x5, x6, x7], set_elem s a b (h ! d))
     else Ok (Some Next) ([JRef q, JNum (int b), JNum (int (length h)), y3, e, y5, y6, y7], s))"
    using rvb_step [OF less.prems(1-7), of th y3 y5 y6 y7] unfolding d_def by blast
  note down = sift_down.simps [of "cmp s" h e b]
  show ?case
  proof (cases "b * 2 + 1 < length h \<and> \<not> cmp s e (h ! d) < 0")
    case False
    then have "sift_down (cmp s) h e b = h[b := e]" using down unfolding d_def by (auto simp: Let_def)
    moreover have "\<exists>x3 x5 x6 x7. iter m (turn p n th rvb_test rvb_turn []) ([JRef q, JNum (int b), JNum (int (length h)), y3, e, y5, y6, y7], s) =
        Ok Next ([JRef q, JNum (int b), JNum (int (length h)), x3, e, x5, x6, x7], s)"
      using step False unfolding m by auto
    ultimately show ?thesis using less.prems(1,3) same_out_refl by metis
  next
    case True
    let ?s = "set_elem s a b (h ! d)" and ?h = "h[b := h ! d]"
    have d: "b < d" "d < length h" using True by (auto simp: d_def child_def Let_def)
    have out: "same_out {a} s ?s" by simp
    note same = same_key [OF out less.prems(1)]
    have q: "queue_at cc ?s q cr l a ?h" by (rule queue_at_set [OF less.prems(1)])
    have keys: "\<forall>v \<in> set ?h. key ?s v"
      using less.prems(6) d(2) same set_update_subset_insert [of h b "h ! d"] by auto
    have free: "queue_free ?s" using less.prems(2) queue_free_out [OF out] by simp
    have "\<exists>b' x3 y5 y6 y7 s' h'. iter m' (turn p n th rvb_test rvb_turn [])
      ([JRef q, JNum (int d), JNum (int (length ?h)), JNum (int d), e, x5, x6, x7], ?s) =
      Ok Next ([JRef q, JNum (int b'), JNum (int (length ?h)), x3, e, y5, y6, y7], s') \<and>
      same_out {a} ?s s' \<and> queue_at cc s' q cr l a h' \<and> length h' = length ?h \<and> b' < length ?h \<and>
      h'[b' := e] = sift_down (cmp ?s) ?h e d"
      by (rule less.hyps [OF _ q free]) (use less.prems keys same d m in auto)
    moreover have "iter m (turn p n th rvb_test rvb_turn []) ([JRef q, JNum (int b), JNum (int (length h)), y3, e, y5, y6, y7], s) =
        iter m' (turn p n th rvb_test rvb_turn []) ([JRef q, JNum (int d), JNum (int (length h)), JNum (int d), e, x5, x6, x7], ?s)"
      using step True unfolding m by simp
    moreover have "sift_down (cmp s) h e b = sift_down (cmp ?s) ?h e d" using down True same unfolding d_def by (simp add: Let_def)
    ultimately show ?thesis using same_out_comp [OF out] by (metis length_list_update)
  qed
qed

lemma run_rvb:
  assumes "queue_at cc s q cr l a h" "queue_free s" "b < length h" "length h < 2 ^ 30" "\<forall>v \<in> set h. key s v"
    "lf + length h + 4 \<le> n"
  shows "\<exists>s'. run p (Suc n) ''rvb'' th [JRef q, JNum (int b)] s = Ok JUndef s' \<and> queue_at cc s' q cr l a (rvb (cmp s) h b) \<and> same_out {a} s s'"
proof -
  obtain n' where n': "n = Suc (Suc n')" using assms(6) by (cases n; cases "n - 1") auto
  note a = queue_atD [OF assms(1)] and f = queue_list_free [OF assms(2)]
  let ?e = "h ! b"
  have ke: "key s ?e" and fu: "lf + 2 \<le> n" "length h - b \<le> n" using assms(3,5,6) by simp_all
  from rvb_loop [OF assms(1-4) ke assms(5) fu, of th JUndef JUndef JUndef JUndef]
  obtain b' x3 x5 x6 x7 s' h' where loop: "iter n (turn p n th rvb_test rvb_turn [])
      ([JRef q, JNum (int b), JNum (int (length h)), JUndef, ?e, JUndef, JUndef, JUndef], s) =
      Ok Next ([JRef q, JNum (int b'), JNum (int (length h)), x3, ?e, x5, x6, x7], s')"
    "same_out {a} s s'" "queue_at cc s' q cr l a h'" "length h' = length h" "b' < length h"
    "h'[b' := ?e] = rvb (cmp s) h b" unfolding rvb_def by blast
  have f': "list_free s'" using f list_free_out [OF loop(2)] by simp
  note b = queue_atD [OF loop(3)]
  let ?t = "set_elem s' a b' ?e"
  have get: "run p n ''dmb'' JUndef [JRef l, JNum (int b)] s = Ok ?e s" unfolding n' by (rule run_dmb [OF a(3) assms(3) f])
  have set: "run p n ''imb'' JUndef [JRef l, JNum (int b'), ?e] s' = Ok (h' ! b') ?t"
    unfolding n' by (rule run_imb [OF b(3) _ f']) (use loop(4,5) in simp)
  have six: "replicate 6 JUndef = [JUndef, JUndef, JUndef, JUndef, JUndef, JUndef]" by (simp add: eval_nat_numeral)
  have "run p (Suc n) ''rvb'' th [JRef q, JNum (int b)] s = Ok JUndef ?t"
    using loop(1) [unfolded rvb_turn_def rvb_test_def rvb_child_def]
    by (simp add: run_fun [OF heap_funs(3)] rvb_fun_def run_defs six list_globs [OF f] list_globs [OF f'] get set
        get_fld a(2,4) b(2,4) get_len [OF a(5)] exs_Loop del: run.simps)
  moreover have "queue_at cc ?t q cr l a (rvb (cmp s) h b)" using queue_at_set [OF loop(3), of b' ?e] loop(6) by simp
  ultimately show ?thesis using same_set_of(1) [OF loop(2)] by blast
qed

lemma run_vvb:
  assumes "queue_at cc s q cr l a h" "queue_free s" "b < length h" "length h < 2 ^ 30" "\<forall>v \<in> set h. key s v"
    "lf + length h + 5 \<le> n"
  shows "\<exists>r s'. run p (Suc n) ''vvb'' th [JRef q, JNum (int b)] s = Ok r s' \<and> queue_at cc s' q cr l a (vvb (cmp s) h b) \<and> same_out {a} s s'"
proof -
  let ?n = "length h - 1"
  obtain n' where n': "n = Suc (Suc n')" using assms(6) by (cases n; cases "n - 1") auto
  note a = queue_atD [OF assms(1)] and f = queue_list_free [OF assms(2)]
  have ne: "h \<noteq> []" "?n < length h" using assms(3) by auto
  obtain s1 where s1: "run p n ''fmb'' JUndef [JRef l, JNum (int ?n)] s = Ok (h ! ?n) s1"
      "list_at s1 l a (removed ?n h)" "same_out {a} s s1"
    using run_fmb [OF a(3) ne(2) assms(4) _ f a(8) [symmetric], of "Suc n'" JUndef] assms(6) unfolding n' by auto
  have last: "h ! ?n = last h" "removed ?n h = butlast h" using removed_last [OF ne(1)] last_conv_nth [OF ne(1)] by simp_all
  have i: "int ?n = int (length h) - 1" "binop Minus (JNum (int (length h))) (JNum 1) = Some (JNum (int (length h) - 1))"
    using assms(3,4) by (simp_all add: of_nat_diff)
  have arr1: "arr_at s1 a (butlast h)" using list_atD(2) [OF s1(2)] last by simp
  have q1: "queue_at cc s1 q cr l a (butlast h)" by (rule queue_at_out [OF s1(3) assms(1) arr1])
  note b = queue_atD [OF q1]
  have free1: "queue_free s1" using assms(2) queue_free_out [OF s1(3)] by simp
  note f1 = queue_list_free [OF free1]
  note ev = run_fun [OF heap_funs(4)] vvb_fun_def run_defs list_globs [OF f] list_globs [OF f1] heap_globs [OF free1] i(2) s1(1) [unfolded i(1) last(1)]
        get_fld a(2,4) b(2,4) get_len [OF a(5)] get_len [OF b(5)]
  have c: "int b < int (length h) - 1 \<longleftrightarrow> b < length (butlast h)" using assms(3) by auto
  show ?thesis
  proof (cases "b < length (butlast h)")
    case False
    then have "run p (Suc n) ''vvb'' th [JRef q, JNum (int b)] s = Ok JUndef s1"
      using assms(3) c by (simp add: ev del: run.simps)
    moreover have "vvb (cmp s) h b = butlast h" using False by (simp add: vvb_def)
    ultimately show ?thesis using q1 s1(3) by metis
  next
    case True
    let ?s2 = "set_elem s1 a b (last h)"
    have out2: "same_out {a} s1 ?s2" by simp
    have q2: "queue_at cc ?s2 q cr l a ((butlast h)[b := last h])" by (rule queue_at_set [OF q1])
    have free2: "queue_free ?s2" using free1 queue_free_out [OF out2] by simp
    have "set ((butlast h)[b := last h]) \<subseteq> set h"
      using set_update_subset_insert [of "butlast h" b "last h"] ne(1) in_set_butlastD last_in_set by fastforce
    moreover have same: "key ?s2 = key s" "cmp ?s2 = cmp s"
      using same_key [OF s1(3) assms(1)] same_key [OF out2 q1] by auto
    ultimately have keys: "\<forall>v \<in> set ((butlast h)[b := last h]). key ?s2 v" using assms(5) by auto
    have "\<exists>s'. run p (Suc (Suc n')) ''rvb'' JUndef [JRef q, JNum (int b)] ?s2 = Ok JUndef s' \<and>
      queue_at cc s' q cr l a (rvb (cmp ?s2) ((butlast h)[b := last h]) b) \<and> same_out {a} ?s2 s'"
      by (rule run_rvb [OF q2 free2 _ _ keys]) (use True assms(4,6) n' in auto)
    then obtain s' where s': "run p n ''rvb'' JUndef [JRef q, JNum (int b)] ?s2 = Ok JUndef s'"
      "queue_at cc s' q cr l a (vvb (cmp s) h b)" "same_out {a} ?s2 s'"
      using True unfolding n' same(2) vvb_def by (auto simp: Let_def)
    have set: "run p n ''imb'' JUndef [JRef l, JNum (int b), last h] s1 = Ok (butlast h ! b) ?s2"
      unfolding n' by (rule run_imb [OF b(3) True f1])
    have "run p (Suc n) ''vvb'' th [JRef q, JNum (int b)] s = Ok JUndef s'"
      using True s'(1) c by (simp add: ev set heap_globs [OF free2] del: run.simps)
    then show ?thesis using s'(2) same_out_comp [OF same_out_comp [OF s1(3) out2] s'(3)] by blast
  qed
qed

lemma run_tvb:
  assumes "queue_at cc s q cr l a h" "queue_free s" "length h < 2 ^ 30" "\<forall>v \<in> set h. key s v" "lf + length h + 6 \<le> n"
  shows "\<exists>s'. run p (Suc n) ''tvb'' th [JRef q] s = Ok (answer (fst (tvb (cmp s) h))) s' \<and>
    queue_at cc s' q cr l a (snd (tvb (cmp s) h)) \<and> same_out {a} s s'"
proof -
  obtain n' where n': "n = Suc (Suc n')" using assms(5) by (cases n; cases "n - 1") auto
  note a = queue_atD [OF assms(1)] and f = queue_list_free [OF assms(2)]
  note ev = run_fun [OF heap_funs(5)] tvb_fun_def run_defs list_globs [OF f] heap_globs [OF assms(2)] get_fld a(2,4) get_len [OF a(5)]
  show ?thesis
  proof (cases "h = []")
    case True
    then have "run p (Suc n) ''tvb'' th [JRef q] s = Ok JNull s" by (simp add: ev del: run.simps)
    then show ?thesis using assms(1) True by (auto simp: tvb_def answer_def)
  next
    case False
    then have h0: "0 < length h" and k0: "key s (h ! 0)" using assms(4) by simp_all
    obtain r s' where s': "run p n ''vvb'' JUndef [JRef q, JNum (int 0)] s = Ok r s'"
      "queue_at cc s' q cr l a (vvb (cmp s) h 0)" "same_out {a} s s'"
      using run_vvb [OF assms(1,2) h0 assms(3,4), of "Suc n'" JUndef] assms(5) unfolding n' by auto
    have get: "run p n ''dmb'' JUndef [JRef l, JNum (int 0)] s = Ok (h ! 0) s" unfolding n' by (rule run_dmb [OF a(3) h0 f])
    have "run p (Suc n) ''tvb'' th [JRef q] s = Ok (h ! 0) s'"
      using False s'(1) get nonnull_loose [OF k0] by (simp add: ev del: run.simps)
    then show ?thesis using False s'(2,3) by (auto simp: tvb_def answer_def)
  qed
qed

lemma run_qvb:
  assumes "queue_at cc s q cr l a h" "queue_free s" "length h < 2 ^ 30" "\<forall>v \<in> set h. key s v" "b < length h \<or> b = 0"
    "lf + length h + 6 + (length h - b) \<le> n"
  shows "\<exists>s'. run p n ''qvb'' th [JRef q, JNum (int b)] s = Ok JUndef s' \<and>
    queue_at cc s' q cr l a (qvb (cmp s) h (length h) b) \<and> same_out {a} s s'"
  using assms
proof (induction "length h - b" arbitrary: s h b n th rule: less_induct)
  case less
  obtain n1 where n1: "n = Suc n1" using less.prems(6) by (cases n) auto
  note a = queue_atD [OF less.prems(1)] and f = queue_list_free [OF less.prems(2)]
  note q = qvb.simps [of "cmp s" h "length h" b]
  define c1 c2 where c: "c1 = 2 * b + 1" "c2 = 2 * b + 2"
  have b: "b < 2 ^ 30" using less.prems(3,5) by auto
  have bn: "binop Plus (JNum (2 * int b)) (JNum 2) = Some (JNum (int c2))" "binop Plus (JNum (2 * int b)) (JNum 1) = Some (JNum (int c1))"
    "binop Plus (JNum (int b * 2)) (JNum 1) = Some (JNum (int c1))"
    using b by (simp_all add: c)
  show ?case
  proof (cases "b * 2 + 1 \<ge> length h")
    case True
    then have "run p n ''qvb'' th [JRef q, JNum (int b)] s = Ok JUndef s"
      using b by (simp add: n1 run_fun [OF heap_funs(6)] qvb_fun_def run_defs get_fld a(2,4) get_len [OF a(5)] del: run.simps)
    then show ?thesis using less.prems(1) q True by auto
  next
    case False
    then have c1: "b < c1" "c1 < length h" by (simp_all add: c)
    have "\<exists>s'. run p n1 ''qvb'' JUndef [JRef q, JNum (int c1)] s = Ok JUndef s' \<and>
      queue_at cc s' q cr l a (qvb (cmp s) h (length h) c1) \<and> same_out {a} s s'"
      by (rule less.hyps) (use less.prems c1 n1 in auto)
    then obtain s1 where s1: "run p n1 ''qvb'' JUndef [JRef q, JNum (int c1)] s = Ok JUndef s1"
      "queue_at cc s1 q cr l a (qvb (cmp s) h (length h) c1)" "same_out {a} s s1" by blast
    let ?h1 = "qvb (cmp s) h (length h) c1"
    have same1: "key s1 = key s" "cmp s1 = cmp s" using same_key [OF s1(3) less.prems(1)] by auto
    have h1: "length ?h1 = length h" "set ?h1 = set h"
      using qvb_mset [of "length h" h "cmp s" c1] by (auto dest: mset_eq_length mset_eq_setD)
    have free1: "queue_free s1" using less.prems(2) queue_free_out [OF s1(3)] by simp
    define h2 where "h2 = (if c2 < length h then qvb (cmp s) ?h1 (length h) c2 else ?h1)"
    have "\<exists>s2. (if c2 < length h then run p n1 ''qvb'' JUndef [JRef q, JNum (int c2)] s1 = Ok JUndef s2 else s2 = s1) \<and>
      queue_at cc s2 q cr l a h2 \<and> same_out {a} s1 s2"
    proof (cases "c2 < length h")
      case True
      have "\<exists>s'. run p n1 ''qvb'' JUndef [JRef q, JNum (int c2)] s1 = Ok JUndef s' \<and>
        queue_at cc s' q cr l a (qvb (cmp s1) ?h1 (length ?h1) c2) \<and> same_out {a} s1 s'"
        by (rule less.hyps [OF _ s1(2) free1]) (use less.prems c1 n1 True same1 h1 c in auto)
      then show ?thesis using True unfolding h1(1) same1(2) h2_def by simp
    qed (use s1(2) in \<open>simp add: h2_def\<close>)
    then obtain s2 where s2: "if c2 < length h then run p n1 ''qvb'' JUndef [JRef q, JNum (int c2)] s1 = Ok JUndef s2 else s2 = s1"
      "queue_at cc s2 q cr l a h2" "same_out {a} s1 s2" by blast
    have h2: "length h2 = length h" "set h2 = set h"
      using h1 qvb_mset [of "length h" ?h1 "cmp s" c2] unfolding h2_def by (auto dest: mset_eq_length mset_eq_setD)
    have same2: "key s2 = key s" "cmp s2 = cmp s" using same_key [OF s2(3) s1(2)] same1 by auto
    have free2: "queue_free s2" using free1 queue_free_out [OF s2(3)] by simp
    obtain n2 where n2: "n1 = Suc n2" using less.prems(6) n1 by (cases n1) auto
    have "\<exists>s'. run p (Suc n2) ''rvb'' JUndef [JRef q, JNum (int b)] s2 = Ok JUndef s' \<and>
      queue_at cc s' q cr l a (rvb (cmp s2) h2 b) \<and> same_out {a} s2 s'"
      by (rule run_rvb [OF s2(2) free2]) (use less.prems c1 h2 same2 n1 n2 in auto)
    then obtain s' where s': "run p n1 ''rvb'' JUndef [JRef q, JNum (int b)] s2 = Ok JUndef s'"
      "queue_at cc s' q cr l a (rvb (cmp s) h2 b)" "same_out {a} s2 s'" unfolding n2 same2(2) by blast
    note b1 = queue_atD [OF s1(2)]
    have "run p n ''qvb'' th [JRef q, JNum (int b)] s = Ok JUndef s'"
      using False b c1(2) s1(1) s2(1) s'(1)
      by (cases "c2 < length h")
        (simp_all add: n1 run_fun [OF heap_funs(6)] qvb_fun_def run_defs get_fld a(2,4) b1(2,4) get_len [OF a(5)] get_len [OF b1(5)] h1(1) bn heap_globs [OF less.prems(2)] heap_globs [OF free1] heap_globs [OF free2] del: run.simps)
    moreover have "qvb (cmp s) h (length h) b = rvb (cmp s) h2 b" using q False by (simp add: h2_def c Let_def)
    ultimately show ?thesis using s'(2) same_out_comp [OF same_out_comp [OF s1(3) s2(3)] s'(3)] by auto
  qed
qed

lemma run_ops:
  assumes "queue_at cc s q cr l a h" "queue_free s" "length h + length ops < 2 ^ 30"
    "\<forall>v \<in> set h. key s v" "\<forall>v. Some v \<in> set ops \<longrightarrow> key s v" "lf + length h + length ops + 7 \<le> n"
  shows "\<exists>s'. code_run p n q ops s = Ok (map answer (fst (queue_run (cmp s) (map op_of ops) h))) s' \<and>
    queue_at cc s' q cr l a (snd (queue_run (cmp s) (map op_of ops) h)) \<and> same_out {a} s s'"
  using assms
proof (induction ops arbitrary: s h)
  case (Cons x ops)
  obtain n' where n': "n = Suc n'" using Cons.prems(6) by (cases n) auto
  show ?case
  proof (cases x)
    case (Some v)
    have kv: "key s v" using Cons.prems(5) Some by simp
    have "\<exists>s'. run p (Suc n') ''svb'' JUndef [JRef q, v] s = Ok (JBool True) s' \<and> queue_at cc s' q cr l a (svb (cmp s) h v) \<and> same_out {a} s s'"
      by (rule run_svb [OF Cons.prems(1,2) _ kv Cons.prems(4)]) (use Cons.prems n' in auto)
    then obtain s1 where s1: "run p n ''svb'' JUndef [JRef q, v] s = Ok (JBool True) s1"
      "queue_at cc s1 q cr l a (svb (cmp s) h v)" "same_out {a} s s1" unfolding n' by blast
    have same: "key s1 = key s" "cmp s1 = cmp s" using same_key [OF s1(3) Cons.prems(1)] by auto
    have free: "queue_free s1" using Cons.prems(2) queue_free_out [OF s1(3)] by simp
    from Cons.IH [OF s1(2) free] Cons.prems same kv obtain s' where
      "code_run p n q ops s1 = Ok (map answer (fst (queue_run (cmp s) (map op_of ops) (svb (cmp s) h v)))) s'"
      "queue_at cc s' q cr l a (snd (queue_run (cmp s) (map op_of ops) (svb (cmp s) h v)))" "same_out {a} s1 s'"
      by (auto simp: set_svb)
    then show ?thesis using Some s1(1) same_out_comp [OF s1(3)] by auto
  next
    case None
    have "\<exists>s'. run p (Suc n') ''tvb'' JUndef [JRef q] s = Ok (answer (fst (tvb (cmp s) h))) s' \<and>
      queue_at cc s' q cr l a (snd (tvb (cmp s) h)) \<and> same_out {a} s s'"
      by (rule run_tvb [OF Cons.prems(1,2) _ Cons.prems(4)]) (use Cons.prems n' in auto)
    then obtain s1 where s1: "run p n ''tvb'' JUndef [JRef q] s = Ok (answer (fst (tvb (cmp s) h))) s1"
      "queue_at cc s1 q cr l a (snd (tvb (cmp s) h))" "same_out {a} s s1" unfolding n' by blast
    have same: "key s1 = key s" "cmp s1 = cmp s" using same_key [OF s1(3) Cons.prems(1)] by auto
    have free: "queue_free s1" using Cons.prems(2) queue_free_out [OF s1(3)] by simp
    have sub: "set (snd (tvb (cmp s) h)) \<subseteq> set h" "length (snd (tvb (cmp s) h)) \<le> length h"
      using set_vvb [of 0 h "cmp s"] by (auto simp: tvb_def)
    have k: "\<forall>v \<in> set (snd (tvb (cmp s) h)). key s1 v" "\<forall>v. Some v \<in> set ops \<longrightarrow> key s1 v"
      using Cons.prems(4,5) sub(1) same by auto
    have "\<exists>s'. code_run p n q ops s1 = Ok (map answer (fst (queue_run (cmp s1) (map op_of ops) (snd (tvb (cmp s) h))))) s' \<and>
      queue_at cc s' q cr l a (snd (queue_run (cmp s1) (map op_of ops) (snd (tvb (cmp s) h)))) \<and> same_out {a} s1 s'"
      by (rule Cons.IH [OF s1(2) free _ k]) (use Cons.prems sub(2) in auto)
    then obtain s' where s': "code_run p n q ops s1 = Ok (map answer (fst (queue_run (cmp s) (map op_of ops) (snd (tvb (cmp s) h))))) s'"
      "queue_at cc s' q cr l a (snd (queue_run (cmp s) (map op_of ops) (snd (tvb (cmp s) h))))" "same_out {a} s1 s'"
      unfolding same(2) by blast
    show ?thesis using None s1(1) s' same_out_comp [OF s1(3) s'(3)]
      by (auto simp: case_prod_unfold Let_def)
  qed
qed auto

text \<open>So the code is a priority queue.\<close>

lemma code_refines_queue:
  assumes "comparator_sgn (cmp s)" "heap (cmp s) h"
    "queue_at cc s q cr l a h" "queue_free s" "length h + length ops < 2 ^ 30"
    "\<forall>v \<in> set h. key s v" "\<forall>v. Some v \<in> set ops \<longrightarrow> key s v" "lf + length h + length ops + 7 \<le> n"
  shows "\<exists>rs s' h'. code_run p n q ops s = Ok (map answer rs) s' \<and> queue_at cc s' q cr l a h' \<and> heap (cmp s) h' \<and>
    spec_run (cmp s) (map op_of ops) (mset h) rs (mset h') \<and> same_out {a} s s'"
proof -
  obtain rs h' where r: "queue_run (cmp s) (map op_of ops) h = (rs, h')" by fastforce
  with run_ops [OF assms(3-8)] comparator_sgn.queue_run_refines [OF assms(1,2) r] show ?thesis by auto
qed

text \<open>Making a heap of an array in any order.\<close>

lemma code_heapifies:
  assumes "comparator_sgn (cmp s)" "queue_at cc s q cr l a h" "queue_free s" "length h < 2 ^ 30"
    "\<forall>v \<in> set h. key s v" "lf + 2 * length h + 6 \<le> n"
  shows "\<exists>s' h'. run p n ''qvb'' th [JRef q, JNum 0] s = Ok JUndef s' \<and> queue_at cc s' q cr l a h' \<and>
    heap (cmp s) h' \<and> mset h' = mset h \<and> same_out {a} s s'"
proof -
  have "tree_spec (cmp s) h 0 (qvb (cmp s) h (length h) 0)" by (rule comparator_sgn.qvb_tree [OF assms(1) refl])
  then have "heap (cmp s) (qvb (cmp s) h (length h) 0) \<and> mset (qvb (cmp s) h (length h) 0) = mset h"
    by (simp add: tree_spec_def sub_heap_0)
  then show ?thesis using run_qvb [OF assms(2-5), of 0 n th] assms(6) by auto
qed

end

end
