(* ===== verification/SortCode.thy ===== *)
theory SortCode
  imports ArrayCode GwtSort
begin

text \<open>
  The code of the merge sort of \<open>java.util.Arrays\<close>, as the tables have it, on arrays that lie in the
  store: \<open>cnb\<close> (insertion sort of a range), \<open>dnb\<close> (merge), \<open>fnb\<close> (merge sort of two arrays that swap
  roles), \<open>enb\<close> and \<open>hnb\<close> (which copy the range and call \<open>fnb\<close>). The code computes the functions of \<open>GwtSort\<close> on the lists that the arrays hold, changes
  nothing but the arrays, and its typed store \<open>VC\<close> accepts every element.
\<close>

subsection \<open>The functions\<close>

definition VC_fun :: jfun where
  "VC_fun = \<lparr>f_params = 3, f_locals = 0, f_body =
     [Do (Call ''IDb'' [Or (Loose (V 2) (K JNull)) (Call ''NC'' [V 0, V 2])]), Ret (PutIdx (V 0) (V
     1) (V 2))]\<rparr>"

definition NC_fun :: jfun where
  "NC_fun = \<lparr>f_params = 2, f_locals = 1, f_body =
     [Switch (Call ''PC'' [V 0]) [(Some (JNum 6), [Ret (Call ''VD'' [V 1])]), (Some (JNum 7), [Ret
     (Call ''TD'' [V 1])]), (Some (JNum 8), [Ret (Call ''SD'' [V 1])]), (Some (JNum 3), [Ret (And
     (IsArr (V 1)) (Seq (SetV 2 (Call ''PC'' [V 1])) (Neg (And (Bin Ge (V 2) (K (JNum 14))) (Bin Le
     (V 2) (K (JNum 16)))))))]), (Some (JNum 11), [Ret (And (Neg (Loose (V 1) (K JNull))) (Same
     (Typeof (V 1)) (G ''zte'')))]), (Some (JNum 12), [Ret (And (Neg (Loose (V 1) (K JNull))) (Or
     (Same (Typeof (V 1)) (G ''vte'')) (Loose (Typeof (V 1)) (G ''zte''))))]), (Some (JNum 0), [Ret
     (Call ''ID'' [V 1, Dot (V 0) ''__elementTypeId$''])]), (Some (JNum 2), [Ret (And (Call ''WD''
     [V 1]) (Neg (Same (Dot (V 1) ''Rm'') (G ''udb''))))]), (Some (JNum 1), [Ret (Or (And (Call
     ''WD'' [V 1]) (Neg (Same (Dot (V 1) ''Rm'') (G ''udb'')))) (Call ''ID'' [V 1, Dot (V 0)
     ''__elementTypeId$'']))]), (None, [Ret (K (JBool True))])]]\<rparr>"

definition PC_fun :: jfun where
  "PC_fun = \<lparr>f_params = 1, f_locals = 0, f_body =
     [Ret (Cond (Loose (Dot (V 0) ''__elementTypeCategory$'') (K JNull)) (K (JNum 10)) (Dot (V 0)
     ''__elementTypeCategory$''))]\<rparr>"

definition IDb_fun :: jfun where
  "IDb_fun = \<lparr>f_params = 1, f_locals = 0, f_body =
     [When (Neg (V 0)) [Raise (Call ''Lcb'' [New ''Idb'' []])] []]\<rparr>"

definition cnb_fun :: jfun where
  "cnb_fun = \<lparr>f_params = 4, f_locals = 3, f_body =
     [Do (SetV 4 (Bin Plus (V 1) (K (JNum 1)))), Loop (Bin Lt (V 4) (V 2)) [Do (SetV 5 (V 4)), Loop
     (And (Bin Gt (V 5) (V 1)) (Bin Gt (Meth (V 3) ''Le'' [Idx (V 0) (Bin Minus (V 5) (K (JNum 1))),
     Idx (V 0) (V 5)]) (K (JNum 0)))) [Do (SetV 6 (Idx (V 0) (V 5))), Do (Call ''VC'' [V 0, V 5, Idx
     (V 0) (Bin Minus (V 5) (K (JNum 1)))]), Do (Call ''VC'' [V 0, Bin Minus (V 5) (K (JNum 1)), V
     6])] [Do (SetV 5 (Bin Minus (V 5) (K (JNum 1))))]] [Do (SetV 4 (Bin Minus (V 4) (K (JNum (-
     1)))))]]\<rparr>"

definition dnb_fun :: jfun where
  "dnb_fun = \<lparr>f_params = 8, f_locals = 1, f_body =
     [Do (SetV 8 (V 2)), Loop (Bin Lt (V 5) (V 6)) [Do (Cond (Or (Bin Ge (V 8) (V 3)) (And (Bin Lt
     (V 1) (V 2)) (Bin Le (Meth (V 7) ''Le'' [Idx (V 0) (V 1), Idx (V 0) (V 8)]) (K (JNum 0)))))
     (Call ''VC'' [V 4, Bin Minus (SetV 5 (Bin Minus (V 5) (K (JNum (- 1))))) (K (JNum 1)), Idx (V
     0) (Bin Minus (SetV 1 (Bin Minus (V 1) (K (JNum (- 1))))) (K (JNum 1)))]) (Call ''VC'' [V 4,
     Bin Minus (SetV 5 (Bin Minus (V 5) (K (JNum (- 1))))) (K (JNum 1)), Idx (V 0) (Bin Minus (SetV
     8 (Bin Minus (V 8) (K (JNum (- 1))))) (K (JNum 1)))]))] []]\<rparr>"

definition fnb_fun :: jfun where
  "fnb_fun = \<lparr>f_params = 6, f_locals = 4, f_body =
     [Do (SetV 6 (Bin Minus (V 3) (V 2))), When (Bin Lt (V 6) (K (JNum 7))) [Do (Call ''cnb'' [V 1,
     V 2, V 3, V 5]), Ret (K JUndef)] [], Do (SetV 8 (Bin Plus (V 2) (V 4))), Do (SetV 7 (Bin Plus
     (V 3) (V 4))), Do (SetV 9 (Bin Plus (V 8) (Bin Shr (Bin Minus (V 7) (V 8)) (K (JNum 1))))), Do
     (Call ''fnb'' [V 1, V 0, V 8, V 9, Minus1 (V 4), V 5]), Do (Call ''fnb'' [V 1, V 0, V 9, V 7,
     Minus1 (V 4), V 5]), When (Bin Le (Meth (V 5) ''Le'' [Idx (V 0) (Bin Minus (V 9) (K (JNum 1))),
     Idx (V 0) (V 9)]) (K (JNum 0))) [Loop (Bin Lt (V 2) (V 3)) [Do (Call ''VC'' [V 1, Bin Minus
     (SetV 2 (Bin Minus (V 2) (K (JNum (- 1))))) (K (JNum 1)), Idx (V 0) (Bin Minus (SetV 8 (Bin
     Minus (V 8) (K (JNum (- 1))))) (K (JNum 1)))])] [], Ret (K JUndef)] [], Do (Call ''dnb'' [V 0,
     V 8, V 9, V 7, V 1, V 2, V 3, V 5])]\<rparr>"

text \<open>The conditions and bodies of the loops.\<close>

definition in_test :: jexp where
  "in_test = And (Bin Gt (V 5) (V 1)) (Bin Gt (Meth (V 3) ''Le'' [Idx (V 0) (Bin Minus (V 5) (K (JNum 1))),
     Idx (V 0) (V 5)]) (K (JNum 0)))"

definition in_turn :: "jstm list" where
  "in_turn = [Do (SetV 6 (Idx (V 0) (V 5))), Do (Call ''VC'' [V 0, V 5, Idx
     (V 0) (Bin Minus (V 5) (K (JNum 1)))]), Do (Call ''VC'' [V 0, Bin Minus (V 5) (K (JNum 1)), V 6])]"

definition in_next :: "jstm list" where
  "in_next = [Do (SetV 5 (Bin Minus (V 5) (K (JNum 1))))]"

definition out_test :: jexp where
  "out_test = Bin Lt (V 4) (V 2)"

definition out_turn :: "jstm list" where
  "out_turn = [Do (SetV 5 (V 4)), Loop in_test in_turn in_next]"

definition out_next :: "jstm list" where
  "out_next = [Do (SetV 4 (Bin Minus (V 4) (K (JNum (- 1)))))]"

definition merge_test :: jexp where
  "merge_test = Bin Lt (V 5) (V 6)"

definition merge_turn :: "jstm list" where
  "merge_turn = [Do (Cond (Or (Bin Ge (V 8) (V 3)) (And (Bin Lt
     (V 1) (V 2)) (Bin Le (Meth (V 7) ''Le'' [Idx (V 0) (V 1), Idx (V 0) (V 8)]) (K (JNum 0)))))
     (Call ''VC'' [V 4, Bin Minus (SetV 5 (Bin Minus (V 5) (K (JNum (- 1))))) (K (JNum 1)), Idx (V
     0) (Bin Minus (SetV 1 (Bin Minus (V 1) (K (JNum (- 1))))) (K (JNum 1)))]) (Call ''VC'' [V 4,
     Bin Minus (SetV 5 (Bin Minus (V 5) (K (JNum (- 1))))) (K (JNum 1)), Idx (V 0) (Bin Minus (SetV
     8 (Bin Minus (V 8) (K (JNum (- 1))))) (K (JNum 1)))]))]"

definition copy_test :: jexp where
  "copy_test = Bin Lt (V 2) (V 3)"

definition copy_turn :: "jstm list" where
  "copy_turn = [Do (Call ''VC'' [V 1, Bin Minus
     (SetV 2 (Bin Minus (V 2) (K (JNum (- 1))))) (K (JNum 1)), Idx (V 0) (Bin Minus (SetV 8 (Bin
     Minus (V 8) (K (JNum (- 1))))) (K (JNum 1)))])]"

definition fnb_join :: "jstm list" where
  "fnb_join = [When (Bin Le (Meth (V 5) ''Le'' [Idx (V 0) (Bin Minus (V 9) (K (JNum 1))),
     Idx (V 0) (V 9)]) (K (JNum 0))) [Loop copy_test copy_turn [], Ret (K JUndef)] [], Do (Call ''dnb'' [V 0,
     V 8, V 9, V 7, V 1, V 2, V 3, V 5])]"

subsection \<open>Arrays without an element type\<close>

definition plain_at :: "jst \<Rightarrow> nat \<Rightarrow> jval list \<Rightarrow> bool" where
  "plain_at s a vs \<longleftrightarrow> arr_at s a vs \<and> fld s a ''__elementTypeCategory$'' = None"

definition cmp_at :: "string \<Rightarrow> jst \<Rightarrow> nat \<Rightarrow> bool" where
  "cmp_at cc s r \<longleftrightarrow> cls s r = Some cc \<and> fld s r ''Le'' = None"

definition sort_free :: "jst \<Rightarrow> bool" where
  "sort_free s \<longleftrightarrow> (\<forall>x \<in> {''VC'', ''NC'', ''PC'', ''IDb'', ''cnb'', ''dnb'', ''fnb''}. j_glob s x = None)"

lemma category_no_key [simp]: "key i \<noteq> ''__elementTypeCategory$''" "''__elementTypeCategory$'' \<noteq> key i"
  using letter_no_key [of "CHR ''_''" "''_elementTypeCategory$''" i] by auto

lemma plain_arr: "plain_at s a vs \<Longrightarrow> arr_at s a vs"
  by (simp add: plain_at_def)

lemma plain_set: "plain_at s a vs \<Longrightarrow> plain_at (set_elem s a i w) a (vs[i := w])"
  by (simp add: plain_at_def arr_set) (simp add: set_elem_def)

lemma plain_other: "a \<noteq> b \<Longrightarrow> plain_at (set_elem s a i w) b vs = plain_at s b vs"
  by (simp add: plain_at_def arr_at_out [OF same_set(1)]) (simp add: set_elem_def)

lemma sort_free_out: "same_out A s s' \<Longrightarrow> sort_free s' = sort_free s"
  by (simp add: sort_free_def same_out_def)

lemma cmp_at_out: "same_out A s s' \<Longrightarrow> cmp_at cc s r \<Longrightarrow> r \<notin> A \<Longrightarrow> cmp_at cc s' r"
  by (simp add: cmp_at_def same_out_def)

text \<open>The sorts permute.\<close>

lemma mset_cnb_inner: "f < length h \<Longrightarrow> mset (cnb_inner cm h b f) = mset h"
proof (induction f arbitrary: h)
  case (Suc f)
  then show ?case using mset_swap [of f h "Suc f"] by simp
qed simp

lemma mset_cnb_outer: "c \<le> length h \<Longrightarrow> mset (cnb_outer cm h b c e) = mset h"
proof (induction cm h b c e rule: cnb_outer.induct)
  case (1 cm h b c e)
  show ?case
  proof (cases "e < c")
    case True
    then have m: "mset (cnb_inner cm h b e) = mset h" using 1 by (intro mset_cnb_inner) simp
    have "mset (cnb_outer cm (cnb_inner cm h b e) b c (Suc e)) = mset (cnb_inner cm h b e)"
      by (rule 1(1) [OF True]) (use mset_eq_length [OF m] 1(2) in simp)
    with m show ?thesis using True by (subst cnb_outer.simps) simp
  qed (subst cnb_outer.simps, simp)
qed

lemma length_dnb [simp]: "length (dnb cm a b c i d e f g) = length e"
  by (induction cm a b c i d e f g rule: dnb.induct) (subst dnb.simps, simp)

lemma length_copy [simp]: "length (copy_loop a i b c d) = length b"
  by (induction a i b c d rule: copy_loop.induct) (subst copy_loop.simps, simp)

lemma set_update_in: "x \<in> S \<Longrightarrow> set e \<subseteq> S \<Longrightarrow> set (e[f := x]) \<subseteq> S"
  using set_update_subset_insert [of e f x] by auto

lemma set_dnb:
  "c \<le> length a \<Longrightarrow> d \<le> length a \<Longrightarrow> b \<le> c \<Longrightarrow> i \<le> d \<Longrightarrow> g - f = (c - b) + (d - i) \<Longrightarrow> set a \<union> set e \<subseteq> S \<Longrightarrow>
   set (dnb cm a b c i d e f g) \<subseteq> S"
proof (induction cm a b c i d e f g rule: dnb.induct)
  case (1 cm a b c i d e f g)
  show ?case
  proof (cases "f < g")
    case f: True
    show ?thesis
    proof (cases "i \<ge> d \<or> b < c \<and> cm (a ! b) (a ! i) \<le> 0")
      case True
      have bc: "b < c" using True f 1(5-7) by auto
      then have "a ! b \<in> S" using 1(3,8) by (meson le_sup_iff less_le_trans nth_mem subsetD)
      then have "set (dnb cm a (Suc b) c i d (e[f := a ! b]) (Suc f) g) \<subseteq> S"
        using 1(3-8) bc f set_update_in [of "a ! b" S e f] by (intro 1(1) [OF f True]) auto
      then show ?thesis using f True by (subst dnb.simps) simp
    next
      case False
      then have id: "i < d" by simp
      then have "a ! i \<in> S" using 1(4,8) by (meson le_sup_iff less_le_trans nth_mem subsetD)
      then have "set (dnb cm a b c (Suc i) d (e[f := a ! i]) (Suc f) g) \<subseteq> S"
        using 1(3-8) id f set_update_in [of "a ! i" S e f] by (intro 1(2) [OF f False]) auto
      then show ?thesis by (subst dnb.simps) (simp only: f False if_True if_False)
    qed
  next
    case False
    then show ?thesis using 1(8) by (subst dnb.simps) simp
  qed
qed

lemma set_copy: "d - c \<le> length a - i \<Longrightarrow> set a \<union> set b \<subseteq> S \<Longrightarrow> set (copy_loop a i b c d) \<subseteq> S"
proof (induction a i b c d rule: copy_loop.induct)
  case (1 a i b c d)
  show ?case
  proof (cases "c < d")
    case True
    then have "a ! i \<in> S" using 1(2,3) by (intro subsetD [OF _ nth_mem]) auto
    then have "set (copy_loop a (Suc i) (b[c := a ! i]) (Suc c) d) \<subseteq> S"
      using 1(2,3) True set_update_in [of "a ! i" S b c] by (intro 1(1) [OF True]) auto
    then show ?thesis using True by (subst copy_loop.simps) simp
  next
    case False
    then show ?thesis using 1(3) by (subst copy_loop.simps) simp
  qed
qed

lemma perm_facts: "mset xs = mset ys \<Longrightarrow> set xs = set ys \<and> length xs = length ys"
  by (auto dest: mset_eq_setD mset_eq_length)

text \<open>The merge sort keeps the lengths of the two arrays and takes their elements from the two.\<close>

lemma perm_cnb: "c \<le> length h \<Longrightarrow> set (cnb cm h b c) = set h \<and> length (cnb cm h b c) = length h"
  using mset_cnb_outer [of c h cm b "Suc b"] by (auto simp: cnb_def dest: mset_eq_setD mset_eq_length)

text \<open>One level of the merge sort: the bounds of the halves and the last step.\<close>

definition join :: "('a \<Rightarrow> 'a \<Rightarrow> int) \<Rightarrow> 'a list \<Rightarrow> 'a list \<Rightarrow> nat \<Rightarrow> nat \<Rightarrow> nat \<Rightarrow> nat \<Rightarrow> nat \<Rightarrow> 'a list" where
  "join cm a b c d i j h = (if cm (a ! (j - 1)) (a ! j) \<le> 0 then copy_loop a i b c d else dnb cm a i j j h b c d)"

lemma fnb_short: "d - c < 7 \<Longrightarrow> fnb cm a b c d e = (a, cnb cm b c d)"
  by (subst fnb.simps) simp

lemma fnb_long:
  assumes "\<not> d - c < 7" "int i = int c + e" "int h = int d + e" "j = i + (h - i) div 2"
    "fnb cm b a i j (- e) = (b1, a1)" "fnb cm b1 a1 j h (- e) = (b2, a2)"
  shows "fnb cm a b c d e = (a2, join cm a2 b2 c d i j h)"
proof -
  have "nat (int c + e) = i" "nat (int d + e) = h" using assms(2,3) by linarith+
  then show ?thesis using assms(1,4-6) by (subst fnb.simps) (simp add: join_def Let_def)
qed

lemma middle:
  assumes "\<not> d - c < 7" "int i = int c + e" "int h = int d + e" "j = i + (h - i) div 2"
  shows "i < j" "j < h" "j - i < d - c" "h - j < d - c" "int j + - e \<le> int d" "int i + - e = int c" "int h + - e = int d"
    "0 \<le> int j + - e" "h - i = d - c" "h - i = (j - i) + (h - j)"
proof -
  have "h - i = d - c" using assms(1-3) by linarith
  then show "i < j" "j < h" "j - i < d - c" "h - j < d - c" "int j + - e \<le> int d" "int i + - e = int c" "int h + - e = int d"
    "0 \<le> int j + - e" "h - i = d - c" "h - i = (j - i) + (h - j)" using assms by linarith+
qed

lemma join_shape:
  assumes "d - c = h - i" "c \<le> d" "i \<le> j" "j \<le> h" "h \<le> length a" "set a \<union> set b \<subseteq> S"
  shows "length (join cm a b c d i j h) = length b \<and> set (join cm a b c d i j h) \<subseteq> S"
proof (cases "cm (a ! (j - 1)) (a ! j) \<le> 0")
  case True
  then show ?thesis using assms set_copy [of d c a i b S] by (simp add: join_def)
next
  case False
  have "d - c = (j - i) + (h - j)" using assms by simp
  then show ?thesis using False assms set_dnb [of j a h i j d c b S cm] by (simp add: join_def)
qed

lemma fnb_shape:
  "\<lbrakk>fnb cm a b c d e = (a', b'); c \<le> d; d \<le> length b; 0 \<le> int c + e; int d + e \<le> int (length a); set a \<union> set b \<subseteq> S\<rbrakk> \<Longrightarrow>
   length a' = length a \<and> length b' = length b \<and> set a' \<union> set b' \<subseteq> S"
proof (induction "d - c" arbitrary: a b c d e a' b' rule: less_induct)
  case less
  show ?case
  proof (cases "d - c < 7")
    case True
    then show ?thesis using less.prems perm_cnb [of d b cm c] by (auto simp: fnb_short)
  next
    case False
    define i h where ih: "i = nat (int c + e)" "h = nat (int d + e)"
    define j where "j = i + (h - i) div 2"
    have ie: "int i = int c + e" "int h = int d + e" using less.prems(2,4) by (simp_all add: ih)
    note m = middle [OF False ie j_def]
    obtain b1 a1 where f1: "fnb cm b a i j (- e) = (b1, a1)" by fastforce
    obtain b2 a2 where f2: "fnb cm b1 a1 j h (- e) = (b2, a2)" by fastforce
    have bd: "i \<le> j" "j \<le> length a" "0 \<le> int i + - e" "int j + - e \<le> int (length b)"
      "j \<le> h" "h \<le> length a" "0 \<le> int j + - e" "int h + - e \<le> int (length b)" "d - c = h - i"
      using less.prems(2-5) m ie by linarith+
    have "set b \<union> set a \<subseteq> S" using less.prems(6) by blast
    note s1 = less.hyps [OF m(3) f1 bd(1-4) this]
    have l1: "h \<le> length a1" "int h + - e \<le> int (length b1)" "set b1 \<union> set a1 \<subseteq> S" using s1 bd by simp_all
    note s2 = less.hyps [OF m(4) f2 bd(5) l1(1) bd(7) l1(2,3)]
    have l2: "h \<le> length a2" "set a2 \<union> set b2 \<subseteq> S" using s2 l1 by auto
    note s3 = join_shape [OF bd(9) less.prems(2) bd(1,5) l2, of cm]
    show ?thesis using s1 s2 s3 fnb_long [OF False ie j_def f1 f2] less.prems(1) by simp
  qed
qed

locale sort_code = array_comparator p le cc key cmp lf
  for p :: jprog and le cc :: string and key :: "jst \<Rightarrow> jval \<Rightarrow> bool"
    and cmp :: "jst \<Rightarrow> jval \<Rightarrow> jval \<Rightarrow> int" and lf :: nat +
  assumes sort_funs: "p_fun p ''VC'' = Some VC_fun" "p_fun p ''NC'' = Some NC_fun" "p_fun p ''PC'' = Some PC_fun"
      "p_fun p ''IDb'' = Some IDb_fun" "p_fun p ''cnb'' = Some cnb_fun" "p_fun p ''dnb'' = Some dnb_fun" "p_fun p ''fnb'' = Some fnb_fun"
    and no_category: "p_proto p ''Array'' ''__elementTypeCategory$'' = None"
begin

lemma sort_globs:
  assumes "sort_free s"
  shows "glob_val p ''VC'' s = Some (JFun ''VC'')" "glob_val p ''NC'' s = Some (JFun ''NC'')" "glob_val p ''PC'' s = Some (JFun ''PC'')"
    "glob_val p ''IDb'' s = Some (JFun ''IDb'')" "glob_val p ''cnb'' s = Some (JFun ''cnb'')" "glob_val p ''dnb'' s = Some (JFun ''dnb'')"
    "glob_val p ''fnb'' s = Some (JFun ''fnb'')"
  using assms by (simp_all add: sort_free_def glob_val_def sort_funs)

lemmas run_defs = on_st_def lift_opt_def call_val_def run_body_def init_vars_def then_rest_def after_body_def replicate_few

lemma get_Le: "cmp_at cc s r \<Longrightarrow> get_prop p (JRef r) ''Le'' s = Ok (JFun le) s"
  using le_proto by (auto simp: cmp_at_def cls_def fld_def get_prop_def split: option.split)

lemma get_category: "plain_at s a vs \<Longrightarrow> get_prop p (JRef a) ''__elementTypeCategory$'' s = Ok JUndef s"
  using no_category by (auto simp: plain_at_def arr_at_def cls_def fld_def get_prop_def split: option.split)

lemma run_VC:
  assumes "plain_at s a vs" "i < length vs" "key s v" "sort_free s" "3 \<le> n"
  shows "run p n ''VC'' th [JRef a, JNum (int i), v] s = Ok v (set_elem s a i v)"
proof -
  obtain q where n: "n = Suc (Suc (Suc q))" using assms(5) by (cases n; cases "n - 1"; cases "n - 2") auto
  note g = sort_globs [OF assms(4)]
  have "run p (Suc q) ''PC'' JUndef [JRef a] s = Ok (JNum 10) s"
    using get_category [OF assms(1)] by (simp add: run_fun [OF sort_funs(3)] PC_fun_def run_defs del: run.simps)
  then have "run p (Suc (Suc q)) ''NC'' JUndef [JRef a, v] s = Ok (JBool True) s"
    by (simp add: run_fun [OF sort_funs(2)] NC_fun_def run_defs g target_def del: run.simps)
  moreover have "run p (Suc (Suc q)) ''IDb'' JUndef [JBool True] s = Ok JUndef s"
    by (simp add: run_fun [OF sort_funs(4)] IDb_fun_def run_defs del: run.simps)
  ultimately show ?thesis unfolding n
    by (simp add: run_fun [OF sort_funs(1)] VC_fun_def run_defs g nonnull_loose [OF assms(3)] put_arr [OF plain_arr [OF assms(1)] assms(2)]
        del: run.simps)
qed

text \<open>The insertion sort.\<close>

lemma in_step:
  assumes "plain_at s a h" "sort_free s" "cmp_at cc s r" "f < length h" "length h < 2 ^ 30" "\<forall>v \<in> set h. key s v" "lf + 3 \<le> n"
    "a \<noteq> r"
  shows "turn p n th in_test in_turn in_next ([JRef a, JNum (int b), x2, JRef r, x4, JNum (int f), x6], s) =
    (if b < f \<and> cmp s (h ! (f - 1)) (h ! f) > 0
     then Ok None ([JRef a, JNum (int b), x2, JRef r, x4, JNum (int (f - 1)), h ! f], set_elem (set_elem s a f (h ! (f - 1))) a (f - 1) (h ! f))
     else Ok (Some Next) ([JRef a, JNum (int b), x2, JRef r, x4, JNum (int f), x6], s))"
proof (cases "b < f")
  case True
  define e where "e = f - 1"
  have e: "e < length h" "int f - 1 = int e" "int b < int f" using assms(4) True by (simp_all add: e_def of_nat_diff)
  have bm: "binop Minus (JNum (int f)) (JNum 1) = Some (JNum (int e))" using e assms(4,5) by simp
  have k: "key s (h ! e)" "key s (h ! f)" using assms(4,6) e(1) by simp_all
  let ?s = "set_elem s a f (h ! e)"
  have out: "same_out {a} s ?s" by simp
  have k': "key ?s (h ! f)" using no_array [OF out] k(2) arr_cls [OF plain_arr [OF assms(1)]] by simp
  have p1: "plain_at ?s a (h[f := h ! e])" by (rule plain_set [OF assms(1)])
  have free: "sort_free ?s" using assms(2) sort_free_out [OF out] by simp
  note arr = plain_arr [OF assms(1)] plain_arr [OF p1]
  have le: "run p n le t [h ! e, h ! f] s = Ok (JNum (cmp s (h ! e) (h ! f))) s" for t using assms(7) k by (simp add: le_run)
  have v1: "run p n ''VC'' t [JRef a, JNum (int f), h ! e] s = Ok (h ! e) ?s" for t
    by (rule run_VC [OF assms(1,4) k(1) assms(2)]) (use assms(7) in simp)
  have v2: "run p n ''VC'' t [JRef a, JNum (int e), h ! f] ?s = Ok (h ! f) (set_elem ?s a e (h ! f))" for t
    by (rule run_VC [OF p1 _ k' free]) (use assms(7) e(1) in simp_all)
  show ?thesis using True e(3) unfolding e_def [symmetric]
    by (simp add: turn_def in_test_def in_turn_def in_next_def run_defs get_arr [OF arr(1) e(1)] get_arr [OF arr(1) assms(4)] bm
        get_Le [OF assms(3)] le v1 v2 sort_globs [OF assms(2)] sort_globs [OF free] del: run.simps)
qed (simp add: turn_def in_test_def run_defs)

lemma same_key: "same_out {a} s s' \<Longrightarrow> plain_at s a vs \<Longrightarrow> key s' = key s \<and> cmp s' = cmp s"
  by (rule no_array [of "{a}"]) (auto dest: plain_arr arr_cls)

lemma in_loop:
  assumes "plain_at s a h" "sort_free s" "cmp_at cc s r" "f < length h" "length h < 2 ^ 30" "\<forall>v \<in> set h. key s v" "lf + 3 \<le> n"
    "a \<noteq> r" "f < m"
  shows "\<exists>f' x6' s'. iter m (turn p n th in_test in_turn in_next) ([JRef a, JNum (int b), x2, JRef r, x4, JNum (int f), x6], s) =
      Ok Next ([JRef a, JNum (int b), x2, JRef r, x4, JNum (int f'), x6'], s') \<and>
    plain_at s' a (cnb_inner (cmp s) h b f) \<and> same_out {a} s s'"
  using assms
proof (induction f arbitrary: s h m x6)
  case 0
  then show ?case using in_step [OF 0(1-8), of th b x2 x4 x6] by (cases m) auto
next
  case (Suc f)
  obtain m' where m: "m = Suc m'" using Suc.prems(9) by (cases m) auto
  note step = in_step [OF Suc.prems(1-8), of th b x2 x4 x6]
  show ?case
  proof (cases "b < Suc f \<and> cmp s (h ! f) (h ! Suc f) > 0")
    case False
    then have "iter m (turn p n th in_test in_turn in_next) ([JRef a, JNum (int b), x2, JRef r, x4, JNum (int (Suc f)), x6], s) =
        Ok Next ([JRef a, JNum (int b), x2, JRef r, x4, JNum (int (Suc f)), x6], s)" "cnb_inner (cmp s) h b (Suc f) = h"
      using step unfolding m by auto
    then show ?thesis using Suc.prems(1) same_out_refl by metis
  next
    case True
    let ?s = "set_elem (set_elem s a (Suc f) (h ! f)) a f (h ! Suc f)" and ?h = "h[Suc f := h ! f, f := h ! Suc f]"
    have out: "same_out {a} s ?s" by (intro same_set_of same_set)
    note same = same_key [OF out Suc.prems(1)]
    have q: "plain_at ?s a ?h" by (intro plain_set Suc.prems(1))
    have "mset ?h = mset h" using mset_swap [of f h "Suc f"] Suc.prems(4) by simp
    then have keys: "\<forall>v \<in> set ?h. key ?s v" using Suc.prems(6) same perm_facts by metis
    have "\<exists>f' x6' s'. iter m' (turn p n th in_test in_turn in_next) ([JRef a, JNum (int b), x2, JRef r, x4, JNum (int f), h ! Suc f], ?s) =
      Ok Next ([JRef a, JNum (int b), x2, JRef r, x4, JNum (int f'), x6'], s') \<and>
      plain_at s' a (cnb_inner (cmp ?s) ?h b f) \<and> same_out {a} ?s s'"
      by (rule Suc.IH [OF q])
        (use Suc.prems keys m sort_free_out [OF out] cmp_at_out [OF out Suc.prems(3)] in auto)
    moreover have "iter m (turn p n th in_test in_turn in_next) ([JRef a, JNum (int b), x2, JRef r, x4, JNum (int (Suc f)), x6], s) =
        iter m' (turn p n th in_test in_turn in_next) ([JRef a, JNum (int b), x2, JRef r, x4, JNum (int f), h ! Suc f], ?s)"
      using step True unfolding m by simp
    moreover have "cnb_inner (cmp s) h b (Suc f) = cnb_inner (cmp ?s) ?h b f" using True same by simp
    ultimately show ?thesis using same_out_comp [OF out] by metis
  qed
qed

lemma out_step:
  assumes "plain_at s a h" "sort_free s" "cmp_at cc s r" "c \<le> length h" "length h < 2 ^ 30" "\<forall>v \<in> set h. key s v"
    "lf + length h + 3 \<le> n" "a \<noteq> r" "e < c"
  shows "\<exists>x5' x6' s'. turn p n th out_test out_turn out_next ([JRef a, JNum (int b), JNum (int c), JRef r, JNum (int e), x5, x6], s) =
      Ok None ([JRef a, JNum (int b), JNum (int c), JRef r, JNum (int (Suc e)), x5', x6'], s') \<and>
    plain_at s' a (cnb_inner (cmp s) h b e) \<and> same_out {a} s s'"
proof -
  have ex: "e < length h" "lf + 3 \<le> n" "e < n" using assms by simp_all
  have bm: "binop Minus (JNum (int e)) (JNum (- 1)) = Some (JNum (int (Suc e)))" using ex(1) assms(5) by simp
  from in_loop [OF assms(1-3) ex(1) assms(5,6) ex(2) assms(8) ex(3), of th b "JNum (int c)" "JNum (int e)" x6] obtain f' x6' s' where
    "iter n (turn p n th in_test in_turn in_next) ([JRef a, JNum (int b), JNum (int c), JRef r, JNum (int e), JNum (int e), x6], s) =
      Ok Next ([JRef a, JNum (int b), JNum (int c), JRef r, JNum (int e), JNum (int f'), x6'], s')"
    "plain_at s' a (cnb_inner (cmp s) h b e)" "same_out {a} s s'" by blast
  then show ?thesis using assms(9) unfolding turn_def [of p n th out_test]
    unfolding out_test_def out_turn_def out_next_def
    by (simp add: run_defs exs_Loop bm)
qed

lemma out_loop:
  assumes "plain_at s a h" "sort_free s" "cmp_at cc s r" "c \<le> length h" "length h < 2 ^ 30" "\<forall>v \<in> set h. key s v"
    "lf + length h + 3 \<le> n" "a \<noteq> r" "c - e < m"
  shows "\<exists>e' x5' x6' s'. iter m (turn p n th out_test out_turn out_next) ([JRef a, JNum (int b), JNum (int c), JRef r, JNum (int e), x5, x6], s) =
      Ok Next ([JRef a, JNum (int b), JNum (int c), JRef r, JNum (int e'), x5', x6'], s') \<and>
    plain_at s' a (cnb_outer (cmp s) h b c e) \<and> same_out {a} s s'"
  using assms
proof (induction "c - e" arbitrary: s h m x5 x6 e)
  case 0
  then have "\<not> e < c" "0 < m" by simp_all
  then have "iter m (turn p n th out_test out_turn out_next) ([JRef a, JNum (int b), JNum (int c), JRef r, JNum (int e), x5, x6], s) =
      Ok Next ([JRef a, JNum (int b), JNum (int c), JRef r, JNum (int e), x5, x6], s)"
    by (cases m) (simp_all add: turn_def out_test_def run_defs)
  then show ?case using 0(2) \<open>\<not> e < c\<close> by (subst cnb_outer.simps) auto
next
  case (Suc k)
  obtain m' where m: "m = Suc m'" using Suc.prems(9) by (cases m) auto
  have e: "e < c" using Suc.hyps(2) by simp
  from out_step [OF Suc.prems(1-8) e, of th b x5 x6] obtain x5' x6' s1 where
    s1: "turn p n th out_test out_turn out_next ([JRef a, JNum (int b), JNum (int c), JRef r, JNum (int e), x5, x6], s) =
      Ok None ([JRef a, JNum (int b), JNum (int c), JRef r, JNum (int (Suc e)), x5', x6'], s1)"
    "plain_at s1 a (cnb_inner (cmp s) h b e)" "same_out {a} s s1" by blast
  note same = same_key [OF s1(3) Suc.prems(1)]
  have pm: "set (cnb_inner (cmp s) h b e) = set h \<and> length (cnb_inner (cmp s) h b e) = length h"
    using e Suc.prems(4) by (intro perm_facts mset_cnb_inner) simp
  have "\<exists>e' x5'' x6'' s'. iter m' (turn p n th out_test out_turn out_next) ([JRef a, JNum (int b), JNum (int c), JRef r, JNum (int (Suc e)), x5', x6'], s1) =
      Ok Next ([JRef a, JNum (int b), JNum (int c), JRef r, JNum (int e'), x5'', x6''], s') \<and>
    plain_at s' a (cnb_outer (cmp s1) (cnb_inner (cmp s) h b e) b c (Suc e)) \<and> same_out {a} s1 s'"
    by (rule Suc.hyps(1) [OF _ s1(2)])
      (use Suc.prems Suc.hyps(2) m pm same sort_free_out [OF s1(3)] cmp_at_out [OF s1(3) Suc.prems(3)] in auto)
  moreover have "cnb_outer (cmp s) h b c e = cnb_outer (cmp s1) (cnb_inner (cmp s) h b e) b c (Suc e)"
    using e same by (subst cnb_outer.simps) simp
  ultimately show ?case using s1(1) same_out_comp [OF s1(3)] unfolding m by auto
qed

lemma run_cnb:
  assumes "plain_at s a h" "sort_free s" "cmp_at cc s r" "b \<le> c" "c \<le> length h" "length h < 2 ^ 30" "\<forall>v \<in> set h. key s v"
    "lf + length h + 3 \<le> n" "a \<noteq> r"
  shows "\<exists>s'. run p (Suc n) ''cnb'' th [JRef a, JNum (int b), JNum (int c), JRef r] s = Ok JUndef s' \<and>
    plain_at s' a (cnb (cmp s) h b c) \<and> same_out {a} s s'"
proof -
  have bm: "binop Plus (JNum (int b)) (JNum 1) = Some (JNum (int (Suc b)))" using assms(4-6) by simp
  have fu: "c - Suc b < n" using assms(5,8) by simp
  from out_loop [OF assms(1-3,5-9) fu, of th b JUndef JUndef] obtain e' x5' x6' s' where
    "iter n (turn p n th out_test out_turn out_next) ([JRef a, JNum (int b), JNum (int c), JRef r, JNum (int (Suc b)), JUndef, JUndef], s) =
      Ok Next ([JRef a, JNum (int b), JNum (int c), JRef r, JNum (int e'), x5', x6'], s')"
    "plain_at s' a (cnb_outer (cmp s) h b c (Suc b))" "same_out {a} s s'" by blast
  then show ?thesis
    by (simp add: run_fun [OF sort_funs(5)] cnb_fun_def run_defs exs_Loop bm cnb_def
        out_test_def out_turn_def out_next_def in_test_def in_turn_def in_next_def del: run.simps)
qed

text \<open>The merge and the copy.\<close>

lemma merge_step:
  assumes pa: "plain_at s a ha" "plain_at s e he" "a \<noteq> e" and free: "sort_free s" and r: "cmp_at cc s r"
    and l: "c \<le> length ha" "d \<le> length ha" "f < g" "g \<le> length he" "length ha < 2 ^ 30" "length he < 2 ^ 30"
    and inv: "b \<le> c" "i \<le> d" "g - f = (c - b) + (d - i)"
    and keys: "\<forall>v \<in> set ha. key s v" and n: "lf + 3 \<le> n"
  shows "turn p n th merge_test merge_turn [] ([JRef a, JNum (int b), JNum (int c), JNum (int d), JRef e, JNum (int f), JNum (int g), JRef r, JNum (int i)], s) =
    (if i \<ge> d \<or> b < c \<and> cmp s (ha ! b) (ha ! i) \<le> 0
     then Ok None ([JRef a, JNum (int (Suc b)), JNum (int c), JNum (int d), JRef e, JNum (int (Suc f)), JNum (int g), JRef r, JNum (int i)], set_elem s e f (ha ! b))
     else Ok None ([JRef a, JNum (int b), JNum (int c), JNum (int d), JRef e, JNum (int (Suc f)), JNum (int g), JRef r, JNum (int (Suc i))], set_elem s e f (ha ! i)))"
proof -
  have fl: "f < length he" using l by simp
  have bl: "b < c \<Longrightarrow> b < length ha \<and> key s (ha ! b)" and il: "i < d \<Longrightarrow> i < length ha \<and> key s (ha ! i)" using l keys by auto
  have le: "run p n le t [x, y] s = Ok (JNum (cmp s x y)) s" if "key s x" "key s y" for t x y using n that by (simp add: le_run)
  have vc: "run p n ''VC'' t [JRef e, JNum (int f), v] s = Ok v (set_elem s e f v)" if "key s v" for t v
    by (rule run_VC [OF pa(2) fl that free]) (use n in simp)
  have ga: "get_idx p (JRef a) (JNum (int k)) s = Ok (ha ! k) s" if "k < length ha" for k
    by (rule get_arr [OF plain_arr [OF pa(1)] that])
  have small: "b < 2 ^ 30" "i < 2 ^ 30" "f < 2 ^ 30" using l inv by auto
  note ev = turn_def merge_test_def merge_turn_def run_defs get_Le [OF r] sort_globs [OF free]
  consider "d \<le> i" "b < c" | "i < d" "b < c" | "i < d" "\<not> b < c" using inv l(3) by linarith
  then show ?thesis
  proof cases
    case 1
    with bl small l(3) show ?thesis by (simp add: ev ga vc del: run.simps)
  next
    case 2
    with bl il small l(3) show ?thesis by (cases "cmp s (ha ! b) (ha ! i) \<le> 0") (simp_all add: ev ga vc le del: run.simps)
  next
    case 3
    with il small l(3) show ?thesis by (simp add: ev ga vc del: run.simps)
  qed
qed

lemma merge_loop:
  assumes "plain_at s a ha" "plain_at s e he" "a \<noteq> e" "sort_free s" "cmp_at cc s r" "r \<noteq> e"
    "c \<le> length ha" "d \<le> length ha" "f \<le> g" "g \<le> length he" "length ha < 2 ^ 30" "length he < 2 ^ 30"
    "b \<le> c" "i \<le> d" "g - f = (c - b) + (d - i)" "\<forall>v \<in> set ha. key s v" "lf + 3 \<le> n" "g - f < m"
  shows "\<exists>vs s'. iter m (turn p n th merge_test merge_turn [])
      ([JRef a, JNum (int b), JNum (int c), JNum (int d), JRef e, JNum (int f), JNum (int g), JRef r, JNum (int i)], s) = Ok Next (vs, s') \<and>
    plain_at s' e (dnb (cmp s) ha b c i d he f g) \<and> same_out {e} s s'"
  using assms
proof (induction "g - f" arbitrary: s he b i f m)
  case 0
  then have "\<not> f < g" "0 < m" by simp_all
  then have "iter m (turn p n th merge_test merge_turn []) ([JRef a, JNum (int b), JNum (int c), JNum (int d), JRef e, JNum (int f), JNum (int g), JRef r, JNum (int i)], s) =
      Ok Next ([JRef a, JNum (int b), JNum (int c), JNum (int d), JRef e, JNum (int f), JNum (int g), JRef r, JNum (int i)], s)"
    by (cases m) (simp_all add: turn_def merge_test_def run_defs)
  then show ?case using 0(3) \<open>\<not> f < g\<close> by (subst dnb.simps) auto
next
  case (Suc k)
  obtain m' where m: "m = Suc m'" using Suc.prems(18) by (cases m) auto
  have f: "f < g" using Suc.hyps(2) by simp
  define left where "left \<longleftrightarrow> i \<ge> d \<or> b < c \<and> cmp s (ha ! b) (ha ! i) \<le> 0"
  define b' i' v where bi: "b' = (if left then Suc b else b)" "i' = (if left then i else Suc i)" "v = ha ! (if left then b else i)"
  let ?s = "set_elem s e f v" and ?he = "he[f := v]"
  have step: "turn p n th merge_test merge_turn [] ([JRef a, JNum (int b), JNum (int c), JNum (int d), JRef e, JNum (int f), JNum (int g), JRef r, JNum (int i)], s) =
    Ok None ([JRef a, JNum (int b'), JNum (int c), JNum (int d), JRef e, JNum (int (Suc f)), JNum (int g), JRef r, JNum (int i')], ?s)"
    using merge_step [OF Suc.prems(1-5,7,8) f Suc.prems(10-17), of th] unfolding bi left_def [symmetric] by simp
  have out: "same_out {e} s ?s" by simp
  note same = same_key [OF out Suc.prems(2)]
  have pa: "plain_at ?s a ha" "plain_at ?s e ?he" using Suc.prems(1-3) plain_set plain_other by auto
  have inv: "b' \<le> c" "i' \<le> d" "g - Suc f = (c - b') + (d - i')"
    using Suc.prems(13-15) f unfolding bi left_def by (auto split: if_splits)
  have "\<exists>vs s'. iter m' (turn p n th merge_test merge_turn [])
      ([JRef a, JNum (int b'), JNum (int c), JNum (int d), JRef e, JNum (int (Suc f)), JNum (int g), JRef r, JNum (int i')], ?s) = Ok Next (vs, s') \<and>
    plain_at s' e (dnb (cmp ?s) ha b' c i' d ?he (Suc f) g) \<and> same_out {e} ?s s'"
    by (rule Suc.hyps(1) [OF _ pa Suc.prems(3)])
      (use Suc.prems Suc.hyps(2) f m inv same sort_free_out [OF out] cmp_at_out [OF out Suc.prems(5)] in auto)
  moreover have "dnb (cmp s) ha b c i d he f g = dnb (cmp ?s) ha b' c i' d ?he (Suc f) g"
    using f same unfolding bi by (subst dnb.simps) (simp add: left_def)
  ultimately show ?case using step same_out_comp [OF out] unfolding m by auto
qed

lemma run_dnb:
  assumes "plain_at s a ha" "plain_at s e he" "a \<noteq> e" "sort_free s" "cmp_at cc s r" "r \<noteq> e"
    "c \<le> length ha" "d \<le> length ha" "f \<le> g" "g \<le> length he" "length ha < 2 ^ 30" "length he < 2 ^ 30"
    "b \<le> c" "c \<le> d" "g - f = d - b" "\<forall>v \<in> set ha. key s v" "lf + length he + 3 \<le> n"
  shows "\<exists>s'. run p (Suc n) ''dnb'' th [JRef a, JNum (int b), JNum (int c), JNum (int d), JRef e, JNum (int f), JNum (int g), JRef r] s = Ok JUndef s' \<and>
    plain_at s' e (dnb (cmp s) ha b c c d he f g) \<and> same_out {e} s s'"
proof -
  have x: "g - f = (c - b) + (d - c)" "lf + 3 \<le> n" "g - f < n" using assms by simp_all
  from merge_loop [OF assms(1-14) x(1) assms(16) x(2,3), of th] obtain vs s' where
    "iter n (turn p n th merge_test merge_turn [])
      ([JRef a, JNum (int b), JNum (int c), JNum (int d), JRef e, JNum (int f), JNum (int g), JRef r, JNum (int c)], s) = Ok Next (vs, s')"
    "plain_at s' e (dnb (cmp s) ha b c c d he f g)" "same_out {e} s s'" by blast
  then show ?thesis
    by (simp add: run_fun [OF sort_funs(6)] dnb_fun_def run_defs exs_Loop merge_test_def merge_turn_def eval_nat_numeral del: run.simps)
qed

lemma copy_step:
  assumes "plain_at s a la" "plain_at s b lb" "sort_free s" "c < d" "d \<le> length lb" "i < length la"
    "length la < 2 ^ 30" "length lb < 2 ^ 30" "\<forall>v \<in> set la. key s v" "3 \<le> n"
  shows "turn p n th copy_test copy_turn [] ([JRef a, JRef b, JNum (int c), JNum (int d), x4, x5, x6, x7, JNum (int i), x9], s) =
    Ok None ([JRef a, JRef b, JNum (int (Suc c)), JNum (int d), x4, x5, x6, x7, JNum (int (Suc i)), x9], set_elem s b c (la ! i))"
proof -
  have ga: "get_idx p (JRef a) (JNum (int i)) s = Ok (la ! i) s" by (rule get_arr [OF plain_arr [OF assms(1)] assms(6)])
  have vc: "run p n ''VC'' t [JRef b, JNum (int c), la ! i] s = Ok (la ! i) (set_elem s b c (la ! i))" for t
    by (rule run_VC [OF assms(2) _ _ assms(3,10)]) (use assms in auto)
  have small: "c < 2 ^ 30" "i < 2 ^ 30" using assms by simp_all
  then show ?thesis using assms(4)
    by (simp add: turn_def copy_test_def copy_turn_def run_defs sort_globs [OF assms(3)] ga vc del: run.simps)
qed

lemma copy_loop_runs:
  assumes "plain_at s a la" "plain_at s b lb" "a \<noteq> b" "sort_free s" "d \<le> length lb" "d - c \<le> length la - i"
    "length la < 2 ^ 30" "length lb < 2 ^ 30" "\<forall>v \<in> set la. key s v" "3 \<le> n" "d - c < m"
  shows "\<exists>vs s'. iter m (turn p n th copy_test copy_turn [])
      ([JRef a, JRef b, JNum (int c), JNum (int d), x4, x5, x6, x7, JNum (int i), x9], s) = Ok Next (vs, s') \<and>
    plain_at s' b (copy_loop la i lb c d) \<and> same_out {b} s s'"
  using assms
proof (induction "d - c" arbitrary: s lb c i m)
  case 0
  then have "\<not> c < d" "0 < m" by simp_all
  then have "iter m (turn p n th copy_test copy_turn []) ([JRef a, JRef b, JNum (int c), JNum (int d), x4, x5, x6, x7, JNum (int i), x9], s) =
      Ok Next ([JRef a, JRef b, JNum (int c), JNum (int d), x4, x5, x6, x7, JNum (int i), x9], s)"
    by (cases m) (simp_all add: turn_def copy_test_def run_defs)
  then show ?case using 0(3) \<open>\<not> c < d\<close> by (subst copy_loop.simps) auto
next
  case (Suc k)
  obtain m' where m: "m = Suc m'" using Suc.prems(11) by (cases m) auto
  have cd: "c < d" and i: "i < length la" using Suc.hyps(2) Suc.prems(6) by simp_all
  let ?s = "set_elem s b c (la ! i)" and ?lb = "lb[c := la ! i]"
  note step = copy_step [OF Suc.prems(1,2,4) cd Suc.prems(5) i Suc.prems(7-10), of th x4 x5 x6 x7 x9]
  have out: "same_out {b} s ?s" by simp
  note same = same_key [OF out Suc.prems(2)]
  have pa: "plain_at ?s a la" "plain_at ?s b ?lb" using Suc.prems(1-3) plain_set plain_other by auto
  have "\<exists>vs s'. iter m' (turn p n th copy_test copy_turn [])
      ([JRef a, JRef b, JNum (int (Suc c)), JNum (int d), x4, x5, x6, x7, JNum (int (Suc i)), x9], ?s) = Ok Next (vs, s') \<and>
    plain_at s' b (copy_loop la (Suc i) ?lb (Suc c) d) \<and> same_out {b} ?s s'"
    by (rule Suc.hyps(1) [OF _ pa Suc.prems(3)])
      (use Suc.prems Suc.hyps(2) m same sort_free_out [OF out] in auto)
  moreover have "copy_loop la i lb c d = copy_loop la (Suc i) ?lb (Suc c) d" using cd by (subst copy_loop.simps) simp
  ultimately show ?case using step same_out_comp [OF out] unfolding m by auto
qed

lemma join_runs:
  assumes "plain_at s a la" "plain_at s b lb" "a \<noteq> b" "sort_free s" "cmp_at cc s r" "r \<noteq> b"
    "c \<le> d" "d \<le> length lb" "d - c = h - i" "i < j" "j < h" "h \<le> length la"
    "length la < 2 ^ 30" "length lb < 2 ^ 30" "\<forall>v \<in> set la. key s v" "lf + length lb + 4 \<le> n"
  shows "\<exists>k vs s'. exs p (run p n) n th fnb_join
      ([JRef a, JRef b, JNum (int c), JNum (int d), x4, JRef r, x6, JNum (int h), JNum (int i), JNum (int j)], s) = Ok k (vs, s') \<and>
    k \<in> {Next, Return JUndef} \<and> plain_at s' b (join (cmp s) la lb c d i j h) \<and> same_out {b} s s'"
proof -
  define m where "m = j - 1"
  have jn: "join (cmp s) la lb c d i j h = (if cmp s (la ! m) (la ! j) \<le> 0 then copy_loop la i lb c d else dnb (cmp s) la i j j h lb c d)"
    by (simp add: join_def m_def)
  have jl: "m < length la" "j < length la" "int j - 1 = int m" "j < 2 ^ 30" unfolding m_def using assms(10-13) by auto
  have ks: "key s (la ! m)" "key s (la ! j)" using jl assms(15) by simp_all
  have ga: "get_idx p (JRef a) (JNum (int k)) s = Ok (la ! k) s" if "k < length la" for k
    by (rule get_arr [OF plain_arr [OF assms(1)] that])
  have le: "run p n le t [la ! m, la ! j] s = Ok (JNum (cmp s (la ! m) (la ! j))) s" for t
    using assms(16) ks by (simp add: le_run)
  have bm: "binop Minus (JNum (int j)) (JNum 1) = Some (JNum (int m))" using jl by simp
  note ev = fnb_join_def run_defs get_Le [OF assms(5)] sort_globs [OF assms(4)] ga [OF jl(1)] ga [OF jl(2)] le bm exs_Loop
  show ?thesis
  proof (cases "cmp s (la ! m) (la ! j) \<le> 0")
    case True
    have "d - c \<le> length la - i" "3 \<le> n" "d - c < n" using assms by simp_all
    from copy_loop_runs [OF assms(1-4,8) this(1) assms(13-15) this(2,3), of th x4 "JRef r" x6 "JNum (int h)" "JNum (int j)"]
    show ?thesis using True jl(4) by (auto simp: ev jn simp del: run.simps)
  next
    case False
    obtain n' where n: "n = Suc n'" "lf + length lb + 3 \<le> n'" using assms(16) by (cases n) auto
    have x: "j \<le> length la" "i \<le> j" "j \<le> h" "d - c = h - i" using assms by simp_all
    from run_dnb [OF assms(1-6) x(1) assms(12,7,8,13,14) x(2,3,4) assms(15) n(2)]
    obtain s' where "\<And>t. run p n ''dnb'' JUndef [JRef a, JNum (int i), JNum (int j), JNum (int h), JRef b, JNum (int c), JNum (int d), JRef r] s = Ok JUndef s'"
      "plain_at s' b (dnb (cmp s) la i j j h lb c d)" "same_out {b} s s'" unfolding n(1) by blast
    then show ?thesis using False jl(4) by (simp add: ev jn del: run.simps)
  qed
qed

lemma fnb_body: "f_body fnb_fun = [Do (SetV 6 (Bin Minus (V 3) (V 2))), When (Bin Lt (V 6) (K (JNum 7)))
     [Do (Call ''cnb'' [V 1, V 2, V 3, V 5]), Ret (K JUndef)] [],
     Do (SetV 8 (Bin Plus (V 2) (V 4))), Do (SetV 7 (Bin Plus (V 3) (V 4))),
     Do (SetV 9 (Bin Plus (V 8) (Bin Shr (Bin Minus (V 7) (V 8)) (K (JNum 1))))),
     Do (Call ''fnb'' [V 1, V 0, V 8, V 9, Minus1 (V 4), V 5]), Do (Call ''fnb'' [V 1, V 0, V 9, V 7, Minus1 (V 4), V 5])] @ fnb_join"
  by (simp add: fnb_fun_def fnb_join_def copy_test_def copy_turn_def)

lemma fnb_vars: "init_vars fnb_fun [u, v, w, x, y, z] = [u, v, w, x, y, z, JUndef, JUndef, JUndef, JUndef]"
  by (simp add: init_vars_def fnb_fun_def eval_nat_numeral)

lemma same_two: "same_out {a, b} s s' \<Longrightarrow> plain_at s a la \<Longrightarrow> plain_at s b lb \<Longrightarrow> key s' = key s \<and> cmp s' = cmp s"
  by (rule no_array [of "{a, b}"]) (auto dest: plain_arr arr_cls)

lemma fnb_short_run:
  assumes "plain_at s a la" "plain_at s b lb" "sort_free s" "cmp_at cc s r" "r \<noteq> b" "c \<le> d" "d \<le> length lb" "length lb < 2 ^ 30"
    "\<forall>v \<in> set lb. key s v" "lf + length lb + 4 \<le> n" "d - c < 7"
  shows "\<exists>s'. run p (Suc n) ''fnb'' th [JRef a, JRef b, JNum (int c), JNum (int d), JNum e, JRef r] s = Ok JUndef s' \<and>
    plain_at s' b (cnb (cmp s) lb c d) \<and> same_out {b} s s'"
proof -
  obtain n' where n: "n = Suc n'" "lf + length lb + 3 \<le> n'" using assms(10) by (cases n) auto
  have br: "b \<noteq> r" using assms(5) by simp
  have bm: "binop Minus (JNum (int d)) (JNum (int c)) = Some (JNum (int (d - c)))" "int (d - c) < 7"
    using assms(6-8,11) by (simp_all add: of_nat_diff)
  from run_cnb [OF assms(2-4,6-9) n(2) br, of JUndef] obtain s' where
    s': "run p n ''cnb'' JUndef [JRef b, JNum (int c), JNum (int d), JRef r] s = Ok JUndef s'"
    "plain_at s' b (cnb (cmp s) lb c d)" "same_out {b} s s'" unfolding n(1) by blast
  then show ?thesis
    by (simp add: run_fun [OF sort_funs(7)] fnb_body fnb_vars on_st_def lift_opt_def call_val_def run_body_def then_rest_def bm
        assms(11) sort_globs [OF assms(3)] del: run.simps of_nat_diff)
qed

lemma fnb_long_run:
  assumes "\<not> d - c < 7" "int i = int c + e" "int h = int d + e" "j = i + (h - i) div 2" "c < 2 ^ 30" "d < 2 ^ 30" "h < 2 ^ 30"
    and "run p n ''fnb'' JUndef [JRef b, JRef a, JNum (int i), JNum (int j), JNum (- e), JRef r] s = Ok JUndef s1"
    and "run p n ''fnb'' JUndef [JRef b, JRef a, JNum (int j), JNum (int h), JNum (- e), JRef r] s1 = Ok JUndef s2"
    and "exs p (run p n) n th fnb_join ([JRef a, JRef b, JNum (int c), JNum (int d), JNum e, JRef r, JNum (int (d - c)),
        JNum (int h), JNum (int i), JNum (int j)], s2) = Ok k (vs, s')" "k \<in> {Next, Return JUndef}"
    and "sort_free s" "sort_free s1"
  shows "run p (Suc n) ''fnb'' th [JRef a, JRef b, JNum (int c), JNum (int d), JNum e, JRef r] s = Ok JUndef s'"
proof -
  define k' where "k' = (h - i) div 2"
  note m = middle [OF assms(1-4)]
  have sum: "binop Plus (JNum x) (JNum y) = Some (JNum (int z))" if "x + y = int z" "z < 2 ^ 30" for x y z using that by simp
  have diff: "binop Minus (JNum (int x)) (JNum (int y)) = Some (JNum (int (x - y)))" if "y \<le> x" "x < 2 ^ 30" for x y
    using that by (simp add: of_nat_diff)
  have bd: "c \<le> d" "i \<le> h" "i < 2 ^ 30" "j < 2 ^ 30" "i + k' = j" using assms(1,4,7) m(1,2) unfolding k'_def by linarith+
  have bm: "binop Minus (JNum (int d)) (JNum (int c)) = Some (JNum (int (d - c)))" "\<not> int (d - c) < 7"
    "binop Plus (JNum (int c)) (JNum e) = Some (JNum (int i))" "binop Plus (JNum (int d)) (JNum e) = Some (JNum (int h))"
    "binop Minus (JNum (int h)) (JNum (int i)) = Some (JNum (int (h - i)))"
    "binop Plus (JNum (int i)) (JNum (int k')) = Some (JNum (int j))"
    using assms(1) bd by (auto intro!: diff sum assms(2,3) [symmetric] assms(6,7) simp del: binops of_nat_diff simp flip: of_nat_add)
  have sh: "binop Shr (JNum (int (h - i))) (JNum 1) = Some (JNum (int k'))"
    using assms(7) by (simp add: binop_def arith_def bits32_def js_shr_id k'_def zdiv_int)
  show ?thesis using assms(1,8-11) sort_globs [OF assms(12)] sort_globs [OF assms(13)]
    by (auto simp add: run_fun [OF sort_funs(7)] fnb_body fnb_vars on_st_def lift_opt_def call_val_def run_body_def then_rest_def
        bm sh simp del: run.simps of_nat_diff)
qed

text \<open>The merge sort: by induction on the length of the range, with the two arrays in either role.\<close>

definition both_at :: "jst \<Rightarrow> nat \<Rightarrow> nat \<Rightarrow> nat \<Rightarrow> jval list \<Rightarrow> jval list \<Rightarrow> bool" where
  "both_at s a b r la lb \<longleftrightarrow> plain_at s a la \<and> plain_at s b lb \<and> a \<noteq> b \<and> r \<notin> {a, b} \<and> sort_free s \<and> cmp_at cc s r \<and>
     (\<forall>v \<in> set la \<union> set lb. key s v)"

lemma both_atD:
  assumes "both_at s a b r la lb"
  shows "plain_at s a la" "plain_at s b lb" "a \<noteq> b" "sort_free s" "cmp_at cc s r" "r \<noteq> b" "\<forall>v \<in> set la. key s v" "\<forall>v \<in> set lb. key s v"
  using assms by (simp_all add: both_at_def)

lemma both_swap: "both_at s a b r la lb \<Longrightarrow> both_at s b a r lb la"
  by (auto simp: both_at_def)

lemma both_same: "both_at s a b r la lb \<Longrightarrow> same_out {a, b} s s' \<Longrightarrow> cmp s' = cmp s"
  using same_two [of a b s s' la lb] by (simp add: both_at_def)

lemma both_out:
  assumes "both_at s a b r la lb" "same_out {a, b} s s'" "plain_at s' a la'" "plain_at s' b lb'" "set la' \<union> set lb' \<subseteq> set la \<union> set lb"
  shows "both_at s' a b r la' lb'"
proof -
  have "key s' = key s" using assms(1,2) same_two [of a b s s' la lb] by (simp add: both_at_def)
  moreover have "cmp_at cc s' r" "sort_free s'" using assms(1,2) cmp_at_out [OF assms(2)] sort_free_out [OF assms(2)] by (simp_all add: both_at_def)
  ultimately show ?thesis using assms by (auto simp: both_at_def)
qed

lemma run_fnb:
  "\<lbrakk>both_at s a b r la lb; c \<le> d; d \<le> length lb; 0 \<le> int c + e; int d + e \<le> int (length la);
    length la \<le> M; length lb \<le> M; M < 2 ^ 30; lf + M + 5 + (d - c) \<le> n\<rbrakk> \<Longrightarrow>
   \<exists>s'. run p n ''fnb'' th [JRef a, JRef b, JNum (int c), JNum (int d), JNum e, JRef r] s = Ok JUndef s' \<and>
     both_at s' a b r (fst (fnb (cmp s) la lb c d e)) (snd (fnb (cmp s) la lb c d e)) \<and> same_out {a, b} s s'"
proof (induction "d - c" arbitrary: s a b la lb c d e n th rule: less_induct)
  case less
  note D = both_atD [OF less.prems(1)]
  obtain n' where n: "n = Suc n'" "lf + M + 4 + (d - c) \<le> n'" using less.prems(9) by (cases n) auto
  have ll: "length la < 2 ^ 30" "length lb < 2 ^ 30" "c < 2 ^ 30" "d < 2 ^ 30" using less.prems(2-8) by linarith+
  show ?case
  proof (cases "d - c < 7")
    case True
    have nl: "lf + length lb + 4 \<le> n'" using n(2) less.prems(7) by linarith
    from fnb_short_run [OF D(1,2,4-6) less.prems(2,3) ll(2) D(8) nl True] obtain s' where
      s': "run p n ''fnb'' th [JRef a, JRef b, JNum (int c), JNum (int d), JNum e, JRef r] s = Ok JUndef s'"
      "plain_at s' b (cnb (cmp s) lb c d)" "same_out {b} s s'" unfolding n(1) by blast
    have out: "same_out {a, b} s s'" by (rule same_out_mono [OF s'(3)]) simp
    have "plain_at s' a la" using D(1,3) s'(3) by (auto simp: plain_at_def arr_at_out same_outD(1))
    then have "both_at s' a b r la (cnb (cmp s) lb c d)"
      using perm_cnb [OF less.prems(3), of "cmp s" c] by (intro both_out [OF less.prems(1) out _ s'(2)]) auto
    then show ?thesis using s'(1) out by (auto simp: fnb_short [OF True])
  next
    case False
    define i h where ih: "i = nat (int c + e)" "h = nat (int d + e)"
    define j where "j = i + (h - i) div 2"
    have ie: "int i = int c + e" "int h = int d + e" using less.prems(2,4) by (simp_all add: ih)
    note m = middle [OF False ie j_def]
    have bd: "i \<le> j" "j \<le> length la" "0 \<le> int i + - e" "int j + - e \<le> int (length lb)"
      "j \<le> h" "h \<le> length la" "0 \<le> int j + - e" "int h + - e \<le> int (length lb)" "d - c = h - i" "h < 2 ^ 30"
      "lf + M + 5 + (j - i) \<le> n'" "lf + M + 5 + (h - j) \<le> n'"
      using less.prems(2-8) n(2) m ie by linarith+
    obtain lb1 la1 where f1: "fnb (cmp s) lb la i j (- e) = (lb1, la1)" by fastforce
    obtain lb2 la2 where f2: "fnb (cmp s) lb1 la1 j h (- e) = (lb2, la2)" by fastforce
    from less.hyps [OF m(3) both_swap [OF less.prems(1)] bd(1-4) less.prems(7,6,8) bd(11), of JUndef] obtain s1 where
      s1: "run p n' ''fnb'' JUndef [JRef b, JRef a, JNum (int i), JNum (int j), JNum (- e), JRef r] s = Ok JUndef s1"
      "both_at s1 b a r lb1 la1" "same_out {a, b} s s1" by (auto simp: f1 insert_commute)
    note sh1 = fnb_shape [OF f1 bd(1-4) subset_refl]
    have l1: "h \<le> length la1" "int h + - e \<le> int (length lb1)" "length lb1 \<le> M" "length la1 \<le> M" using sh1 bd less.prems by simp_all
    have cm1: "cmp s1 = cmp s" by (rule both_same [OF less.prems(1) s1(3)])
    from less.hyps [OF m(4) s1(2) bd(5) l1(1) bd(7) l1(2,3,4) less.prems(8) bd(12), of JUndef] obtain s2 where
      s2: "run p n' ''fnb'' JUndef [JRef b, JRef a, JNum (int j), JNum (int h), JNum (- e), JRef r] s1 = Ok JUndef s2"
      "both_at s2 b a r lb2 la2" "same_out {a, b} s1 s2" by (auto simp: f2 cm1 insert_commute)
    note sh2 = fnb_shape [OF f2 bd(5) l1(1) bd(7) l1(2) subset_refl]
    note B2 = both_swap [OF s2(2)]
    note D2 = both_atD [OF B2]
    have cm2: "cmp s2 = cmp s" using both_same [OF both_swap [OF s1(2)] s2(3)] cm1 by simp
    have l2: "d \<le> length lb2" "h \<le> length la2" "length la2 < 2 ^ 30" "length lb2 < 2 ^ 30" "lf + length lb2 + 4 \<le> n'"
      using sh1 sh2 bd less.prems n(2) by simp_all
    from join_runs [OF D2(1-6) less.prems(2) l2(1) bd(9) m(1,2) l2(2,3,4) D2(7) l2(5), of th "JNum e" "JNum (int (d - c))"] obtain k vs s' where
      s': "exs p (run p n') n' th fnb_join ([JRef a, JRef b, JNum (int c), JNum (int d), JNum e, JRef r, JNum (int (d - c)),
        JNum (int h), JNum (int i), JNum (int j)], s2) = Ok k (vs, s')" "k \<in> {Next, Return JUndef}"
      "plain_at s' b (join (cmp s) la2 lb2 c d i j h)" "same_out {b} s2 s'" unfolding cm2 by blast
    have R: "run p n ''fnb'' th [JRef a, JRef b, JNum (int c), JNum (int d), JNum e, JRef r] s = Ok JUndef s'"
      unfolding n(1)
      by (rule fnb_long_run [OF False ie j_def ll(3,4) bd(10) s1(1) s2(1) s'(1,2) D(4) both_atD(4) [OF s1(2)]])
    have out: "same_out {a, b} s2 s'" by (rule same_out_mono [OF s'(4)]) simp
    have "plain_at s' a la2" using D2(1,3) s'(4) by (auto simp: plain_at_def arr_at_out same_outD(1))
    moreover have "set (join (cmp s) la2 lb2 c d i j h) \<subseteq> set la2 \<union> set lb2"
      using join_shape [OF bd(9) less.prems(2) bd(1,5) l2(2) subset_refl] by blast
    ultimately have "both_at s' a b r la2 (join (cmp s) la2 lb2 c d i j h)"
      by (intro both_out [OF B2 out _ s'(3)]) auto
    moreover have "same_out {a, b} s s'" by (rule same_out_comp [OF s1(3) same_out_comp [OF s2(3) out]])
    ultimately show ?thesis using R fnb_long [OF False ie j_def f1 f2] by auto
  qed
qed

text \<open>With the two copies of a range in place, the code of the merge sort leaves the stable sort in the second array.\<close>

lemma sort_range:
  assumes "both_at s a b r (take (d - c) (drop c lb)) lb" "comparator (cmp s)" "c \<le> d" "d \<le> length lb" "length lb < 2 ^ 30"
    "lf + length lb + 5 + (d - c) \<le> n"
  shows "\<exists>s'. run p n ''fnb'' th [JRef a, JRef b, JNum (int c), JNum (int d), JNum (- int c), JRef r] s = Ok JUndef s' \<and>
    plain_at s' b (take c lb @ js_sort (cmp s) (take (d - c) (drop c lb)) @ drop d lb) \<and> same_out {a, b} s s'"
proof -
  let ?S = "take (d - c) (drop c lb)"
  have x: "0 \<le> int c + - int c" "int d + - int c \<le> int (length ?S)" "length ?S \<le> length lb" using assms(3,4) by auto
  from run_fnb [OF assms(1,3,4) x le_refl assms(5,6), of th] enb_sorts [OF assms(2-4)] show ?thesis
    by (auto simp: enb_def dest: both_atD(2))
qed

end

subsection \<open>The sort of an array\<close>

text \<open>The store with a new empty array, and what \<open>slice\<close> copies into it.\<close>

definition new_arr :: "jst \<Rightarrow> jst" where
  "new_arr s = set_fld (snd (alloc ''Array'' s)) (j_next s) ''length'' (JNum 0)"

definition slice_test :: jexp where
  "slice_test = Bin Lt (V 3) (V 1)"

definition slice_turn :: "jstm list" where
  "slice_turn = [Do (PutIdx (V 2) (Bin Minus (V 3) (V 0)) (Idx This (V 3)))]"

definition slice_next :: "jstm list" where
  "slice_next = [Do (SetV 3 (Bin Plus (V 3) (K (JNum 1))))]"

definition fresh :: "jst \<Rightarrow> bool" where
  "fresh s \<longleftrightarrow> j_heap s (j_next s) = None"

lemma new_flds: "fld (new_arr s) m = (if m = j_next s then (\<lambda>_. None)(''length'' := Some (JNum 0)) else fld s m)"
  "cls (new_arr s) m = (if m = j_next s then Some ''Array'' else cls s m)" "j_glob (new_arr s) = j_glob s"
  by (auto simp: new_arr_def alloc_def set_fld_def fld_def cls_def fun_eq_iff)

lemma new_arr_at: "plain_at (new_arr s) (j_next s) []"
  by (simp add: plain_at_def arr_at_def new_flds)

lemma fresh_arr: "fresh s \<Longrightarrow> arr_at s a vs \<Longrightarrow> a \<noteq> j_next s"
  by (auto simp: fresh_def arr_at_def cls_def)

lemma fresh_cls: "fresh s \<Longrightarrow> cls s m = Some c \<Longrightarrow> m \<noteq> j_next s"
  by (auto simp: fresh_def cls_def)

lemma arr_at_new: "m \<noteq> j_next s \<Longrightarrow> arr_at (new_arr s) m vs = arr_at s m vs"
  by (simp add: arr_at_def new_flds)

lemma ev_NewArr: "ev p c th (NewArr []) (vs, s) = Ok (JRef (j_next s)) (vs, new_arr s)"
  by (simp add: array_props_def on_st_def alloc_def put_fld cls_def new_arr_def)

lemma slice_step:
  assumes "arr_at s a la" "arr_at s e (take (i - b) (drop b la))" "b \<le> i" "i < c" "c \<le> length la" "length la < 2 ^ 30"
  shows "turn p n (JRef a) slice_test slice_turn slice_next ([JNum (int b), JNum (int c), JRef e, JNum (int i)], s) =
    Ok None ([JNum (int b), JNum (int c), JRef e, JNum (int (Suc i))],
      set_len (set_elem s e (i - b) (la ! i)) e (Suc (i - b)))"
proof -
  have len: "length (take (i - b) (drop b la)) = i - b" using assms(3-5) by simp
  have bm: "binop Minus (JNum (int i)) (JNum (int b)) = Some (JNum (int (i - b)))"
    "binop Plus (JNum (int i)) (JNum 1) = Some (JNum (int (Suc i)))" using assms(3-6) by (simp_all add: of_nat_diff)
  have il: "i < length la" using assms(4,5) by simp
  show ?thesis using assms(4) push_arr [OF assms(2), unfolded len] get_arr [OF assms(1) il, of p]
    by (simp add: turn_def slice_test_def slice_turn_def slice_next_def on_st_def lift_opt_def then_rest_def after_body_def bm del: of_nat_diff of_nat_Suc)
qed

lemma plain_push: "plain_at s a vs \<Longrightarrow> plain_at (set_len (set_elem s a (length vs) w) a (Suc (length vs))) a (vs @ [w])"
  by (simp add: plain_at_def arr_push) (simp add: set_elem_def set_len_def)

lemma slice_loop:
  assumes "arr_at s a la" "plain_at s e (take (i - b) (drop b la))" "a \<noteq> e" "b \<le> i" "i \<le> c" "c \<le> length la" "length la < 2 ^ 30" "c - i < m"
  shows "\<exists>s'. iter m (turn p n (JRef a) slice_test slice_turn slice_next) ([JNum (int b), JNum (int c), JRef e, JNum (int i)], s) =
      Ok Next ([JNum (int b), JNum (int c), JRef e, JNum (int c)], s') \<and>
    plain_at s' e (take (c - b) (drop b la)) \<and> same_out {e} s s'"
  using assms
proof (induction "c - i" arbitrary: s i m)
  case 0
  then have "i = c" "0 < m" by simp_all
  then have "iter m (turn p n (JRef a) slice_test slice_turn slice_next) ([JNum (int b), JNum (int c), JRef e, JNum (int i)], s) =
      Ok Next ([JNum (int b), JNum (int c), JRef e, JNum (int c)], s)"
    by (cases m) (simp_all add: turn_def slice_test_def lift_opt_def)
  then show ?case using 0(3) \<open>i = c\<close> by auto
next
  case (Suc k)
  obtain m' where m: "m = Suc m'" using Suc.prems(8) by (cases m) auto
  have ic: "i < c" using Suc.hyps(2) by simp
  have len: "length (take (i - b) (drop b la)) = i - b" using Suc.prems by simp
  let ?s = "set_len (set_elem s e (i - b) (la ! i)) e (Suc (i - b))"
  note step = slice_step [OF Suc.prems(1) plain_arr [OF Suc.prems(2)] Suc.prems(4) ic Suc.prems(6,7), of p n]
  have out: "same_out {e} s ?s" by (intro same_set_of same_set)
  have "take (Suc i - b) (drop b la) = take (i - b) (drop b la) @ [la ! i]"
    using Suc.prems(4,6) ic by (simp add: Suc_diff_le take_Suc_conv_app_nth)
  then have e: "plain_at ?s e (take (Suc i - b) (drop b la))" using plain_push [OF Suc.prems(2), unfolded len] by simp
  have a: "arr_at ?s a la" using Suc.prems(1,3) arr_at_out [OF out, of a la] by simp
  have "\<exists>s'. iter m' (turn p n (JRef a) slice_test slice_turn slice_next) ([JNum (int b), JNum (int c), JRef e, JNum (int (Suc i))], ?s) =
      Ok Next ([JNum (int b), JNum (int c), JRef e, JNum (int c)], s') \<and>
    plain_at s' e (take (c - b) (drop b la)) \<and> same_out {e} ?s s'"
    by (rule Suc.hyps(1) [OF _ a e Suc.prems(3)]) (use Suc.prems Suc.hyps(2) ic m in auto)
  then show ?case using step same_out_comp [OF out] unfolding m by auto
qed

definition enb_fun :: jfun where
  "enb_fun = \<lparr>f_params = 4, f_locals = 1, f_body =
     [Do (SetV 3 (Seq (Call ''Cqb'' []) (Cond (Neg (V 3)) (G ''zqb'') (V 3)))), Do (SetV 4 (Meth (V
     0) ''slice'' [V 1, V 2])), Do (Call ''fnb'' [V 4, V 0, V 1, V 2, Minus1 (V 1), V 3])]\<rparr>"

definition hnb_fun :: jfun where
  "hnb_fun = \<lparr>f_params = 2, f_locals = 0, f_body =
     [Do (Call ''enb'' [V 0, K (JNum 0), Dot (V 0) ''length'', V 1])]\<rparr>"

definition qdb_fun :: jfun where
  "qdb_fun = \<lparr>f_params = 0, f_locals = 0, f_body =
     []\<rparr>"

text \<open>
  The class of the comparators has been initialised, so that \<open>Cqb\<close> is the empty function \<open>qdb\<close>, and no
  global hides \<open>enb\<close>.
\<close>

definition ready :: "jst \<Rightarrow> bool" where
  "ready s \<longleftrightarrow> sort_free s \<and> j_glob s ''Cqb'' = Some (JFun ''qdb'') \<and> j_glob s ''enb'' = None"

locale array_sort_code = sort_code p le cc key cmp lf
  for p :: jprog and le cc :: string and key :: "jst \<Rightarrow> jval \<Rightarrow> bool"
    and cmp :: "jst \<Rightarrow> jval \<Rightarrow> jval \<Rightarrow> int" and lf :: nat +
  assumes slice_funs: "p_fun p ''Array.slice'' = Some slice_fun" "p_fun p ''enb'' = Some enb_fun"
      "p_fun p ''hnb'' = Some hnb_fun" "p_fun p ''qdb'' = Some qdb_fun"
    and slice_proto: "p_proto p ''Array'' ''slice'' = Some (JFun ''Array.slice'')"
    and new_key: "fresh s \<Longrightarrow> key (new_arr s) = key s \<and> cmp (new_arr s) = cmp s"
begin

lemma get_slice: "arr_at s a vs \<Longrightarrow> fld s a ''slice'' = None \<Longrightarrow> get_prop p (JRef a) ''slice'' s = Ok (JFun ''Array.slice'') s"
  using slice_proto by (auto simp: arr_at_def cls_def fld_def get_prop_def split: option.split Option.bind_splits)

lemma run_slice:
  assumes "arr_at s a la" "b \<le> c" "c \<le> length la" "length la < 2 ^ 30" "fresh s" "length la < n"
  shows "\<exists>s'. run p (Suc n) ''Array.slice'' (JRef a) [JNum (int b), JNum (int c)] s = Ok (JRef (j_next s)) s' \<and>
    plain_at s' (j_next s) (take (c - b) (drop b la)) \<and> same_out {j_next s} (new_arr s) s'"
proof -
  let ?e = "j_next s"
  have ne: "a \<noteq> ?e" by (rule fresh_arr [OF assms(5,1)])
  have a: "arr_at (new_arr s) a la" using assms(1) ne by (simp add: arr_at_new)
  have e: "plain_at (new_arr s) ?e (take (b - b) (drop b la))" using new_arr_at by simp
  have "c - b < n" using assms(3,6) by simp
  from slice_loop [OF a e ne le_refl assms(2,3,4) this, of p n] obtain s' where
    s': "iter n (turn p n (JRef a) slice_test slice_turn slice_next) ([JNum (int b), JNum (int c), JRef ?e, JNum (int b)], new_arr s) =
      Ok Next ([JNum (int b), JNum (int c), JRef ?e, JNum (int c)], s')"
    "plain_at s' ?e (take (c - b) (drop b la))" "same_out {?e} (new_arr s) s'" by blast
  have "run p (Suc n) ''Array.slice'' (JRef a) [JNum (int b), JNum (int c)] s = Ok (JRef ?e) s'"
    using s'(1) assms(3) get_len [OF assms(1), of p] unfolding slice_test_def slice_turn_def slice_next_def
    by (simp add: run_fun [OF slice_funs(1)] slice_fun_def run_defs exs_Loop ev_NewArr del: run.simps ev.simps(9))
  then show ?thesis using s'(2,3) by blast
qed

text \<open>\<open>enb\<close> sorts a range with a new array; nothing else changes but the array and the store of globals stays.\<close>

lemma run_enb:
  assumes p: "plain_at s a vs" "fld s a ''slice'' = None" "ready s" "fresh s" "cmp_at cc s r" "r \<noteq> a" "\<forall>v \<in> set vs. key s v"
    and c: "comparator (cmp s)" and b: "b \<le> c" "c \<le> length vs" "length vs < 2 ^ 30" "lf + length vs + 5 + (c - b) < n"
  shows "\<exists>s'. run p n ''enb'' th [JRef a, JNum (int b), JNum (int c), JRef r] s = Ok JUndef s' \<and>
    plain_at s' a (enb (cmp s) vs b c) \<and> same_out {j_next s, a} (new_arr s) s'"
proof -
  let ?e = "j_next s" and ?S = "take (c - b) (drop b vs)"
  obtain n' where n: "n = Suc n'" "lf + length vs + 5 + (c - b) \<le> n'" using b(4) by (cases n) auto
  obtain n'' where n'': "n' = Suc n''" "length vs < n''" using n(2) by (cases n') auto
  have "?e \<noteq> a" using fresh_arr [OF p(4) plain_arr [OF p(1)]] by simp
  have "?e \<noteq> r" using fresh_cls [OF p(4), of r] p(5) by (auto simp: cmp_at_def)
  from run_slice [OF plain_arr [OF p(1)] b(1-3) p(4) n''(2)] obtain s1 where
    s1: "run p n' ''Array.slice'' (JRef a) [JNum (int b), JNum (int c)] s = Ok (JRef ?e) s1"
    "plain_at s1 ?e ?S" "same_out {?e} (new_arr s) s1" unfolding n'' by blast
  have "key (new_arr s) = key s \<and> cmp (new_arr s) = cmp s" by (rule new_key [OF p(4)])
  moreover have "key s1 = key (new_arr s) \<and> cmp s1 = cmp (new_arr s)" by (rule no_array [OF s1(3)]) (simp add: new_flds)
  ultimately have same: "key s1 = key s" "cmp s1 = cmp s" by simp_all
  have f1: "fld s1 m = fld s m \<and> cls s1 m = cls s m" if "m \<noteq> ?e" for m using s1(3) that by (simp add: same_out_def new_flds)
  have g1: "j_glob s1 = j_glob s" using s1(3) by (simp add: same_out_def new_flds)
  have "plain_at s1 a vs" "cmp_at cc s1 r" "sort_free s1"
    using p(1,3,5) f1 \<open>?e \<noteq> a\<close> \<open>?e \<noteq> r\<close> g1 by (simp_all add: plain_at_def arr_at_def cmp_at_def ready_def sort_free_def)
  moreover have "\<forall>v \<in> set ?S \<union> set vs. key s v" using p(7) by (auto dest: in_set_takeD in_set_dropD)
  ultimately have both: "both_at s1 ?e a r ?S vs"
    using s1(2) same p(6) \<open>?e \<noteq> a\<close> \<open>?e \<noteq> r\<close> by (simp add: both_at_def)
  from sort_range [OF both _ b(1-3) n(2), of JUndef] c enb_sorts [OF c b(1,2)] obtain s' where
    s': "run p n' ''fnb'' JUndef [JRef ?e, JRef a, JNum (int b), JNum (int c), JNum (- int b), JRef r] s1 = Ok JUndef s'"
    "plain_at s' a (enb (cmp s) vs b c)" "same_out {?e, a} s1 s'" by (auto simp: same)
  have "run p n' ''qdb'' JUndef [] s = Ok JUndef s" unfolding n''
    by (simp add: run_fun [OF slice_funs(4)] qdb_fun_def run_defs del: run.simps)
  moreover have "glob_val p ''Cqb'' s = Some (JFun ''qdb'')" "glob_val p ''fnb'' s1 = Some (JFun ''fnb'')"
    using p(3) g1 by (simp_all add: ready_def glob_val_def sort_free_def sort_funs)
  ultimately have "run p n ''enb'' th [JRef a, JNum (int b), JNum (int c), JRef r] s = Ok JUndef s'"
    unfolding n(1) using s1(1) s'(1) get_slice [OF plain_arr [OF p(1)] p(2)]
    by (simp add: run_fun [OF slice_funs(2)] enb_fun_def run_defs del: run.simps)
  moreover have "same_out {?e, a} (new_arr s) s'"
    by (rule same_out_comp [OF same_out_mono [OF s1(3)] s'(3)]) simp
  ultimately show ?thesis using s'(2) by blast
qed

lemma run_hnb:
  assumes "plain_at s a vs" "fld s a ''slice'' = None" "ready s" "fresh s" "cmp_at cc s r" "r \<noteq> a" "\<forall>v \<in> set vs. key s v"
    "comparator (cmp s)" "length vs < 2 ^ 30" "lf + 2 * length vs + 5 < n"
  shows "\<exists>s'. run p (Suc n) ''hnb'' th [JRef a, JRef r] s = Ok JUndef s' \<and>
    plain_at s' a (hnb (cmp s) vs) \<and> same_out {j_next s, a} (new_arr s) s'"
proof -
  have "lf + length vs + 5 + (length vs - 0) < n" using assms(10) by simp
  from run_enb [OF assms(1-8) le0 le_refl assms(9) this, of JUndef] obtain s' where
    "run p n ''enb'' JUndef [JRef a, JNum 0, JNum (int (length vs)), JRef r] s = Ok JUndef s'"
    "plain_at s' a (hnb (cmp s) vs)" "same_out {j_next s, a} (new_arr s) s'" by (auto simp: hnb_def)
  moreover have "glob_val p ''enb'' s = Some (JFun ''enb'')" using assms(3) by (simp add: ready_def glob_val_def slice_funs)
  ultimately show ?thesis using get_len [OF plain_arr [OF assms(1)], of p]
    by (simp add: run_fun [OF slice_funs(3)] hnb_fun_def run_defs del: run.simps)
qed

end

end
