(* ===== verification/CodeLinks.thy ===== *)
theory CodeLinks
  imports ObjectLayer LongCode TreeCode
begin

text \<open>
  The functions of \<open>LongCode\<close> and \<open>TreeCode\<close> are functions of the worker: each is found under its name
  in the linked tables. So the worker is a \<open>long_code\<close>, and with a comparator a \<open>tree_code\<close>, and what
  these interfaces prove holds of the code of the worker.
\<close>

subsection \<open>Looking the functions up\<close>

text \<open>The comparison of integers, \<open>rfb\<close>, serves as the comparator of a tree of numbers.\<close>

definition rfb_fun :: jfun where
  "rfb_fun = \<lparr>f_params = 2, f_locals = 0, f_body =
     [Ret (Cond (Bin Lt (V 0) (V 1)) (K (JNum (- 1))) (Cond (Bin Gt (V 0) (V 1)) (K (JNum 1)) (K
     (JNum 0))))]\<rparr>"

lemma find_C: "p_fun (worker_prog proto) ''_C'' = Some C_fun"
proof -
  have "find_fn ''_C'' code_1759_1885 = Some C_fun"
    by (simp add: code_1759_1885_def C_fun_def find_fn_Cons del: find_fn.simps(2))
  note hit = find_fn_hit [OF this]
  show ?thesis by (rule worker_found, unfold worker_table_flat, simp add: find_fn_skip js_names hit)
qed

lemma find_kD: "p_fun (worker_prog proto) ''kD'' = Some kD_fun"
proof -
  have "find_fn ''kD'' code_3974_4053 = Some kD_fun"
    by (simp add: code_3974_4053_def kD_fun_def find_fn_Cons del: find_fn.simps(2))
  note hit = find_fn_hit [OF this]
  show ?thesis by (rule worker_found, unfold worker_table_flat, simp add: find_fn_skip js_names hit)
qed

lemma find_vD: "p_fun (worker_prog proto) ''vD'' = Some vD_fun"
proof -
  have "find_fn ''vD'' code_3974_4053 = Some vD_fun"
    by (simp add: code_3974_4053_def vD_fun_def find_fn_Cons del: find_fn.simps(2))
  note hit = find_fn_hit [OF this]
  show ?thesis by (rule worker_found, unfold worker_table_flat, simp add: find_fn_skip js_names hit)
qed

lemma find_pD: "p_fun (worker_prog proto) ''pD'' = Some pD_fun"
proof -
  have "find_fn ''pD'' code_4079_4090 = Some pD_fun"
    by (simp add: code_4079_4090_def pD_fun_def find_fn_Cons del: find_fn.simps(2))
  note hit = find_fn_hit [OF this]
  show ?thesis by (rule worker_found, unfold worker_table_flat, simp add: find_fn_skip js_names hit)
qed

lemma find_qD: "p_fun (worker_prog proto) ''qD'' = Some qD_fun"
proof -
  have "find_fn ''qD'' code_2600_2681 = Some qD_fun"
    by (simp add: code_2600_2681_def qD_fun_def find_fn_Cons del: find_fn.simps(2))
  note hit = find_fn_hit [OF this]
  show ?thesis by (rule worker_found, unfold worker_table_flat, simp add: find_fn_skip js_names hit)
qed

lemma find_lD: "p_fun (worker_prog proto) ''lD'' = Some lD_fun"
proof -
  have "find_fn ''lD'' code_2550_2598 = Some lD_fun"
    by (simp add: code_2550_2598_def lD_fun_def find_fn_Cons del: find_fn.simps(2))
  note hit = find_fn_hit [OF this]
  show ?thesis by (rule worker_found, unfold worker_table_flat, simp add: find_fn_skip js_names hit)
qed

lemma find_rD: "p_fun (worker_prog proto) ''rD'' = Some rD_fun"
proof -
  have "find_fn ''rD'' code_2550_2598 = Some rD_fun"
    by (simp add: code_2550_2598_def rD_fun_def find_fn_Cons del: find_fn.simps(2))
  note hit = find_fn_hit [OF this]
  show ?thesis by (rule worker_found, unfold worker_table_flat, simp add: find_fn_skip js_names hit)
qed

lemma find_zD: "p_fun (worker_prog proto) ''zD'' = Some zD_fun"
proof -
  have "find_fn ''zD'' code_2550_2598 = Some zD_fun"
    by (simp add: code_2550_2598_def zD_fun_def find_fn_Cons del: find_fn.simps(2))
  note hit = find_fn_hit [OF this]
  show ?thesis by (rule worker_found, unfold worker_table_flat, simp add: find_fn_skip js_names hit)
qed

lemma find_mD: "p_fun (worker_prog proto) ''mD'' = Some mD_fun"
proof -
  have "find_fn ''mD'' code_4783_4827 = Some mD_fun"
    by (simp add: code_4783_4827_def mD_fun_def find_fn_Cons del: find_fn.simps(2))
  note hit = find_fn_hit [OF this]
  show ?thesis by (rule worker_found, unfold worker_table_flat, simp add: find_fn_skip js_names hit)
qed

lemma find_jD: "p_fun (worker_prog proto) ''jD'' = Some jD_fun"
proof -
  have "find_fn ''jD'' code_4736_4782 = Some jD_fun"
    by (simp add: code_4736_4782_def jD_fun_def find_fn_Cons del: find_fn.simps(2))
  note hit = find_fn_hit [OF this]
  show ?thesis by (rule worker_found, unfold worker_table_flat, simp add: find_fn_skip js_names hit)
qed

lemma find_ayb: "p_fun (worker_prog proto) ''ayb'' = Some ayb_fun"
proof -
  have "find_fn ''ayb'' code_1147_1282 = Some ayb_fun"
    by (simp add: code_1147_1282_def ayb_fun_def find_fn_Cons del: find_fn.simps(2))
  note hit = find_fn_hit [OF this]
  show ?thesis by (rule worker_found, unfold worker_table_flat, simp add: find_fn_skip js_names hit)
qed

lemma find_hyb: "p_fun (worker_prog proto) ''hyb'' = Some hyb_fun"
proof -
  have "find_fn ''hyb'' code_3858_3896 = Some hyb_fun"
    by (simp add: code_3858_3896_def hyb_fun_def find_fn_Cons del: find_fn.simps(2))
  note hit = find_fn_hit [OF this]
  show ?thesis by (rule worker_found, unfold worker_table_flat, simp add: find_fn_skip js_names hit)
qed

lemma find_gyb: "p_fun (worker_prog proto) ''gyb'' = Some gyb_fun"
proof -
  have "find_fn ''gyb'' code_3114_3197 = Some gyb_fun"
    by (simp add: code_3114_3197_def gyb_fun_def find_fn_Cons del: find_fn.simps(2))
  note hit = find_fn_hit [OF this]
  show ?thesis by (rule worker_found, unfold worker_table_flat, simp add: find_fn_skip js_names hit)
qed

lemma find_Akb: "p_fun (worker_prog proto) ''Akb'' = Some Akb_fun"
proof -
  have "find_fn ''Akb'' code_2139_2260 = Some Akb_fun"
    by (simp add: code_2139_2260_def Akb_fun_def find_fn_Cons del: find_fn.simps(2))
  note hit = find_fn_hit [OF this]
  show ?thesis by (rule worker_found, unfold worker_table_flat, simp add: find_fn_skip js_names hit)
qed

lemma find_xb: "p_fun (worker_prog proto) ''_xb'' = Some xb_fun"
proof -
  have "find_fn ''_xb'' code_5586_5586 = Some xb_fun"
    by (simp add: code_5586_5586_def xb_fun_def xb_fix_def find_fn_Cons del: find_fn.simps(2))
  note hit = find_fn_hit [OF this]
  show ?thesis by (rule worker_found, unfold worker_table_flat, simp add: find_fn_skip js_names hit)
qed

lemma find_Txb: "p_fun (worker_prog proto) ''Txb'' = Some Txb_fun"
proof -
  have "find_fn ''Txb'' code_4092_4158 = Some Txb_fun"
    by (simp add: code_4092_4158_def Txb_fun_def Txb_body_def find_fn_Cons del: find_fn.simps(2))
  note hit = find_fn_hit [OF this]
  show ?thesis by (rule worker_found, unfold worker_table_flat, simp add: find_fn_skip js_names hit)
qed

lemma find_Wxb: "p_fun (worker_prog proto) ''Wxb'' = Some Wxb_fun"
proof -
  have "find_fn ''Wxb'' code_4477_4485 = Some Wxb_fun"
    by (simp add: code_4477_4485_def Wxb_fun_def Wxb_body_def find_fn_Cons del: find_fn.simps(2))
  note hit = find_fn_hit [OF this]
  show ?thesis by (rule worker_found, unfold worker_table_flat, simp add: find_fn_skip js_names hit)
qed

lemma find_Xxb: "p_fun (worker_prog proto) ''Xxb'' = Some Xxb_fun"
proof -
  have "find_fn ''Xxb'' code_4477_4485 = Some Xxb_fun"
    by (simp add: code_4477_4485_def Xxb_fun_def Xxb_body_def find_fn_Cons del: find_fn.simps(2))
  note hit = find_fn_hit [OF this]
  show ?thesis by (rule worker_found, unfold worker_table_flat, simp add: find_fn_skip js_names hit)
qed

lemma find_rfb: "p_fun (worker_prog proto) ''rfb'' = Some rfb_fun"
proof -
  have "find_fn ''rfb'' code_1759_1885 = Some rfb_fun"
    by (simp add: code_1759_1885_def rfb_fun_def find_fn_Cons del: find_fn.simps(2))
  note hit = find_fn_hit [OF this]
  show ?thesis by (rule worker_found, unfold worker_table_flat, simp add: find_fn_skip js_names hit)
qed

text \<open>A plain call of a function of the worker.\<close>

abbreviation worker_run :: "(string \<Rightarrow> string \<Rightarrow> jval option) \<Rightarrow> nat \<Rightarrow> string \<Rightarrow> jval list \<Rightarrow> jst \<Rightarrow> (jval, jst) outcome" where
  "worker_run proto n f args s \<equiv> run (worker_prog proto) n f JUndef args s"

subsection \<open>The worker is a long_code\<close>

interpretation worker_long: long_code "worker_prog proto" for proto
  by unfold_locales (fact find_C find_kD find_vD find_pD find_qD find_lD find_rD find_zD find_mD find_jD)+

definition two_longs :: jst where
  "two_longs = \<lparr>j_heap = [0 \<mapsto> long_obj (C_create 7 0 0), 1 \<mapsto> long_obj (C_create 5 0 0)], j_next = 2,
     j_glob = [''rve'' \<mapsto> JNum 4194303, ''sve'' \<mapsto> JNum 1048575]\<rparr>"

lemma two_longs_ready: "masks_set two_longs" "long_at two_longs 0 (C_create 7 0 0)" "long_at two_longs 1 (C_create 5 0 0)"
  by (simp_all add: two_longs_def masks_set_def long_at_def bl_ok_def)

text \<open>
  Claim C10. The functions of the worker that add, subtract, negate and combine longs bitwise, run on two long
  objects of a store, return a fresh object that holds what 64-bit machine words give, and change nothing else.
\<close>

theorem long_code_words:
  assumes "masks_set s" "long_at s r x" "long_at s q y"
  shows "gives_long s (worker_run proto (Suc (Suc n)) ''kD'' [JRef r, JRef q] s) (bl_word x + bl_word y) \<and>
    gives_long s (worker_run proto (Suc (Suc n)) ''vD'' [JRef r, JRef q] s) (bl_word x - bl_word y) \<and>
    gives_long s (worker_run proto (Suc (Suc n)) ''pD'' [JRef r] s) (- bl_word x) \<and>
    gives_long s (worker_run proto (Suc (Suc n)) ''qD'' [JRef r] s) (Bit_Operations.not (bl_word x)) \<and>
    gives_long s (worker_run proto (Suc (Suc n)) ''lD'' [JRef r, JRef q] s) (Bit_Operations.and (bl_word x) (bl_word y)) \<and>
    gives_long s (worker_run proto (Suc (Suc n)) ''rD'' [JRef r, JRef q] s) (Bit_Operations.or (bl_word x) (bl_word y)) \<and>
    gives_long s (worker_run proto (Suc (Suc n)) ''zD'' [JRef r, JRef q] s) (Bit_Operations.xor (bl_word x) (bl_word y))"
  by (intro conjI worker_long.code_words [OF assms])

theorem long_code_words_witness:
  "gives_long two_longs (worker_run (\<lambda>_ _. None) (Suc (Suc 0)) ''vD'' [JRef 0, JRef 1] two_longs) 2"
  using long_code_words [OF two_longs_ready, of "\<lambda>_ _. None" 0] by (simp add: bl_word_def iD_def)

text \<open>
  Claim C27. \<open>jD\<close> of the worker subtracts in place exactly when the result is not negative, says whether it
  did, and touches no other object; \<open>mD\<close> compares as signed 64-bit numbers and changes nothing.
\<close>

theorem long_code_in_place:
  assumes "masks_set s" "long_at s r x" "long_at s q y"
  shows "(\<exists>s' z. worker_run proto (Suc n) ''jD'' [JRef r, JRef q] s = Ok (JBool (bl_word y \<le> bl_word x)) s' \<and>
      long_at s' r z \<and> bl_word z = (if bl_word y \<le> bl_word x then bl_word x - bl_word y else bl_word x) \<and>
      (\<forall>i. j_heap s' i = (if i = r then Some (long_obj z) else j_heap s i))) \<and>
    (\<exists>c. worker_run proto (Suc n) ''mD'' [JRef r, JRef q] s = Ok (JNum c) s \<and>
      (c < 0 \<longleftrightarrow> sint (bl_word x) < sint (bl_word y)) \<and> (c = 0 \<longleftrightarrow> bl_word x = bl_word y))"
  using worker_long.code_in_place [OF assms, of proto n JUndef] unfolding long_at_def by auto

theorem long_code_in_place_witness:
  "\<exists>s' z. worker_run (\<lambda>_ _. None) (Suc 0) ''jD'' [JRef 0, JRef 1] two_longs = Ok (JBool True) s' \<and>
     long_at s' 0 z \<and> bl_word z = 2"
proof -
  have "bl_word (C_create 5 0 0) \<le> bl_word (C_create 7 0 0)" "bl_word (C_create 7 0 0) - bl_word (C_create 5 0 0) = 2"
    by (simp_all add: bl_word_def iD_def)
  with long_code_in_place [OF two_longs_ready, of "\<lambda>_ _. None" 0] show ?thesis by auto
qed

subsection \<open>Numbers as keys\<close>

definition num_of :: "jval \<Rightarrow> int" where
  "num_of v = (case v of JNum n \<Rightarrow> n | _ \<Rightarrow> 0)"

definition int_key :: "jst \<Rightarrow> jval \<Rightarrow> bool" where
  "int_key s v = (case v of JNum n \<Rightarrow> True | _ \<Rightarrow> False)"

definition int_cmp :: "jst \<Rightarrow> jval \<Rightarrow> jval \<Rightarrow> int" where
  "int_cmp s x y = rfb (num_of x) (num_of y)"

definition int_proto :: "string \<Rightarrow> string \<Rightarrow> jval option" where
  "int_proto c f = (if c = ''Comparator'' \<and> f = ''Le'' then Some (JFun ''rfb'') else None)"

lemma int_cmp_comparator: "comparator_sgn (int_cmp s)"
  using int_order.comparator_sgn_axioms
  unfolding comparator_sgn_def comparator_def comparator_sgn_axioms_def int_cmp_def by blast

text \<open>A small store: a map with one entry, a node to be inserted, and a state object.\<close>

definition obj :: "string \<Rightarrow> (string \<times> jval) list \<Rightarrow> jobj option" where
  "obj c fs = Some \<lparr>j_cls = c, j_flds = map_of fs\<rparr>"

definition small_heap :: "nat \<Rightarrow> jobj option" where
  "small_heap n =
     (if n = 0 then obj ''Sxb'' [(''a'', JRef 1), (''b'', JRef 2), (''c'', JNum 1)]
      else if n = 1 then obj ''Comparator'' []
      else if n = 2 then obj ''Myb'' [(''a'', JRef 3), (''b'', JBool False), (''d'', JNum 5), (''e'', JStr ''five'')]
      else if n = 3 then obj ''Array'' [(''length'', JNum 2)]
      else if n = 4 then obj ''Myb'' [(''a'', JRef 5), (''b'', JBool True), (''d'', JNum 3), (''e'', JStr ''three'')]
      else if n = 5 then obj ''Array'' [(''length'', JNum 2)]
      else if n = 6 then obj ''Nyb'' []
      else None)"

definition small_st :: jst where
  "small_st = \<lparr>j_heap = small_heap, j_next = 7, j_glob = (\<lambda>_. None)\<rparr>"

definition small_tree :: jtree where
  "small_tree = Node False (JNum 5, 2, 3) (JStr ''five'') Tip Tip"

lemmas small_eval = small_st_def small_heap_def small_tree_def obj_def fld_def cls_def pair_at_def elem_def key_of_def
  int_key_def map_at_def apart_def free_def plain_def int_cmp_def num_of_def rfb_def

lemma small_ready:
  "tree_at small_st small_tree" "slot small_tree (JRef 2)" "keys_ok (int_key small_st) small_tree"
  "tree_at small_st (Node True (JNum 3, 4, 5) (JStr ''three'') Tip Tip)" "int_key small_st (JNum 3)"
  "map_at ''Comparator'' small_st 0 1" "cls small_st 6 \<noteq> None" "apart small_tree 4 5 6 0 1" "free small_st"
  "ascending (int_cmp small_st) (plain small_tree)" "invc small_tree" "invh small_tree"
  "fld small_st 0 ''b'' = Some (JRef 2)" "height small_tree = 1"
  by (simp_all add: small_eval)

subsection \<open>The worker is a tree_code\<close>

lemma rfb_run: "p_fun p ''rfb'' = Some rfb_fun \<Longrightarrow> 1 \<le> n \<Longrightarrow> int_key s x \<Longrightarrow> int_key s y \<Longrightarrow>
    run p n ''rfb'' t [x, y] s = Ok (JNum (int_cmp s x y)) s"
  by (cases n) (auto simp: run_fun rfb_fun_def exec int_key_def int_cmp_def num_of_def rfb_def
      simp del: run.simps split: jval.splits)

lemma proto_int: "p_proto (worker_prog int_proto) c f = with_arrays int_proto c f"
  by (simp add: worker_prog_def)

interpretation worker_tree: tree_code "worker_prog int_proto" "''rfb''" "''Comparator''" int_key int_cmp 1
  by unfold_locales (fact find_ayb find_hyb find_gyb find_Akb find_xb find_Txb find_Wxb find_Xxb
      rfb_run [OF find_rfb] | simp add: proto_int with_arrays_def array_methods_def int_proto_def)+

text \<open>
  Claim C6. \<open>_xb\<close> of the worker, run on a red-black tree of numbers that lies in the store, returns the root
  of a tree in the store whose entries are those of the old one with the new entry in its place; the tree keeps
  its black height and its order, and no object outside the tree, the new node and the state object changes.
\<close>

theorem insert_code_refines:
  assumes "tree_at s t" "slot t w" "keys_ok (int_key s) t" "ascending (int_cmp s) (plain t)" "invc t" "invh t"
    "tree_at s (Node True (k, nn, na) v Tip Tip)" "int_key s k" "map_at ''Comparator'' s m cr" "cls s st \<noteq> None"
    "apart t nn na st m cr" "free s" "height t + 4 \<le> q"
  shows "\<exists>s' w' t'. worker_run int_proto q ''_xb'' [JRef m, w, JRef nn, JRef st] s = Ok w' s' \<and>
    slot t' w' \<and> tree_at s' t' \<and> plain t' = GwtTree.upd (int_cmp s) k v (plain t) \<and> invh t' \<and> bh t' = bh t \<and>
    invc2 t' \<and> same_out (set (st # nn # na # addrs t)) s s'"
  by (rule worker_tree.insert_refines [OF int_cmp_comparator assms(4-6,1-3,7-12)]) (use assms(13) in simp)

theorem insert_code_refines_witness:
  "\<exists>s' w' t'. worker_run int_proto 5 ''_xb'' [JRef 0, JRef 2, JRef 4, JRef 6] small_st = Ok w' s' \<and>
     tree_at s' t' \<and> plain t' = [(JNum 3, JStr ''three''), (JNum 5, JStr ''five'')]"
proof -
  have "GwtTree.upd (int_cmp small_st) (JNum 3) (JStr ''three'') (plain small_tree) =
      [(JNum 3, JStr ''three''), (JNum 5, JStr ''five'')]" by (simp add: small_eval)
  with insert_code_refines [OF small_ready(1-3,10-12,4-9), of 5] show ?thesis by (simp add: small_ready(14)) blast
qed

text \<open>
  Claim C9. The searches of the worker, run on an ordered tree of numbers in the store, return the node of the
  entry with the key, of the least entry above it and of the greatest below it, or \<open>null\<close> when there is none,
  and change nothing.
\<close>

theorem search_code_finds:
  assumes "tree_at s t" "slot t w" "keys_ok (int_key s) t" "ascending (int_cmp s) (plain t)" "int_key s k"
    "map_at ''Comparator'' s m cr" "fld s m ''b'' = Some w" "height t + 1 < q"
  shows "(\<exists>r. worker_run int_proto (Suc q) ''Txb'' [JRef m, k] s = Ok r s \<and> node_of s (entry_at (int_cmp s) k (plain t)) r) \<and>
    (\<exists>r. worker_run int_proto (Suc q) ''Wxb'' [JRef m, k, JBool c] s = Ok r s \<and> node_of s (find (above (int_cmp s) k c) (plain t)) r) \<and>
    (\<exists>r. worker_run int_proto (Suc q) ''Xxb'' [JRef m, k, JBool c] s = Ok r s \<and> node_of s (find (under (int_cmp s) k c) (rev (plain t))) r)"
proof -
  have "1 + height t < q" using assms(8) by simp
  from worker_tree.search_finds [OF int_cmp_comparator assms(4,1-3,5-7) this] show ?thesis by blast
qed

theorem search_code_finds_witness:
  "\<exists>r. worker_run int_proto 4 ''Wxb'' [JRef 0, JNum 4, JBool False] small_st = Ok r small_st \<and>
     node_of small_st (Some (JNum 5, JStr ''five'')) r"
proof -
  have "find (above (int_cmp small_st) (JNum 4) False) (plain small_tree) = Some (JNum 5, JStr ''five'')"
    "int_key small_st (JNum 4)" by (simp_all add: small_eval)
  with search_code_finds [OF small_ready(1-3,10) _ small_ready(6,13), of "JNum 4" 3 False] show ?thesis
    by (simp add: small_ready(14))
qed

text \<open>
  Claim C26. A rotation of a tree in the store computes the rotation of \<open>GwtTree\<close> with the same nodes and
  touches nothing but them; when the child it needs is missing it raises a \<open>TypeError\<close> and has changed nothing.
\<close>

theorem rotation_code:
  assumes "tree_at s t" "distinct (addrs t)" "slot t w"
  shows "case hyb t d of
      None \<Rightarrow> worker_run int_proto (Suc n) ''hyb'' [w, JNum (ix d)] s = Thrown type_error s
    | Some t' \<Rightarrow> \<exists>s' w'. worker_run int_proto (Suc n) ''hyb'' [w, JNum (ix d)] s = Ok w' s' \<and> slot t' w' \<and> tree_at s' t' \<and> same_out (set (addrs t)) s s'"
  using worker_tree.run_hyb [OF assms(1-3), of d _ n JUndef] worker_tree.run_hyb_error [OF assms(1,3), of d n JUndef]
  by (auto split: option.split)

theorem rotation_code_witness:
  "worker_run int_proto (Suc 0) ''hyb'' [JRef 2, JNum 0] small_st = Thrown type_error small_st"
  using rotation_code [OF small_ready(1) _ small_ready(2), of 0 False] by (simp add: small_tree_def hyb_def ix_def)

end
