(* ===== verification/QueueLinks.thy ===== *)
theory QueueLinks
  imports CodeLinks HeapCode SortCode
begin

text \<open>
  The functions of \<open>ArrayCode\<close>, \<open>HeapCode\<close> and \<open>SortCode\<close> are functions of the worker: each is found under
  its name in the linked tables. So the worker is an \<open>array_code\<close>, and with the comparison of integers a
  \<open>heap_code\<close> and an \<open>array_sort_code\<close>, and what these interfaces prove holds of the code of the worker.
\<close>

subsection \<open>Looking the functions up\<close>

lemma find_MDb: "p_fun (worker_prog proto) ''MDb'' = Some MDb_fun"
proof -
  have "find_fn ''MDb'' code_2998_3112 = Some MDb_fun"
    by (simp add: code_2998_3112_def MDb_fun_def find_fn_Cons del: find_fn.simps(2))
  note hit = find_fn_hit [OF this]
  show ?thesis by (rule worker_found, unfold worker_table_flat, simp add: find_fn_skip js_names hit)
qed

lemma find_dmb: "p_fun (worker_prog proto) ''dmb'' = Some dmb_fun"
proof -
  have "find_fn ''dmb'' code_2383_2503 = Some dmb_fun"
    by (simp add: code_2383_2503_def dmb_fun_def find_fn_Cons del: find_fn.simps(2))
  note hit = find_fn_hit [OF this]
  show ?thesis by (rule worker_found, unfold worker_table_flat, simp add: find_fn_skip js_names hit)
qed

lemma find_imb: "p_fun (worker_prog proto) ''imb'' = Some imb_fun"
proof -
  have "find_fn ''imb'' code_3313_3378 = Some imb_fun"
    by (simp add: code_3313_3378_def imb_fun_def find_fn_Cons del: find_fn.simps(2))
  note hit = find_fn_hit [OF this]
  show ?thesis by (rule worker_found, unfold worker_table_flat, simp add: find_fn_skip js_names hit)
qed

lemma find_lb: "p_fun (worker_prog proto) ''_lb'' = Some lb_fun"
proof -
  have "find_fn ''_lb'' code_1886_2012 = Some lb_fun"
    by (simp add: code_1886_2012_def lb_fun_def find_fn_Cons del: find_fn.simps(2))
  note hit = find_fn_hit [OF this]
  show ?thesis by (rule worker_found, unfold worker_table_flat, simp add: find_fn_skip js_names hit)
qed

lemma find_fmb: "p_fun (worker_prog proto) ''fmb'' = Some fmb_fun"
proof -
  have "find_fn ''fmb'' code_3380_3487 = Some fmb_fun"
    by (simp add: code_3380_3487_def fmb_fun_def find_fn_Cons del: find_fn.simps(2))
  note hit = find_fn_hit [OF this]
  show ?thesis by (rule worker_found, unfold worker_table_flat, simp add: find_fn_skip js_names hit)
qed

lemma find_qDb: "p_fun (worker_prog proto) ''qDb'' = Some qDb_fun"
proof -
  have "find_fn ''qDb'' code_1006_1146 = Some qDb_fun"
    by (simp add: code_1006_1146_def qDb_fun_def find_fn_Cons del: find_fn.simps(2))
  note hit = find_fn_hit [OF this]
  show ?thesis by (rule worker_found, unfold worker_table_flat, simp add: find_fn_skip js_names hit)
qed

lemma find_rDb: "p_fun (worker_prog proto) ''rDb'' = Some rDb_fun"
proof -
  have "find_fn ''rDb'' code_1366_1510 = Some rDb_fun"
    by (simp add: code_1366_1510_def rDb_fun_def find_fn_Cons del: find_fn.simps(2))
  note hit = find_fn_hit [OF this]
  show ?thesis by (rule worker_found, unfold worker_table_flat, simp add: find_fn_skip js_names hit)
qed

lemma find_NDb: "p_fun (worker_prog proto) ''NDb'' = Some NDb_fun"
proof -
  have "find_fn ''NDb'' code_2746_2795 = Some NDb_fun"
    by (simp add: code_2746_2795_def NDb_fun_def find_fn_Cons del: find_fn.simps(2))
  note hit = find_fn_hit [OF this]
  show ?thesis by (rule worker_found, unfold worker_table_flat, simp add: find_fn_skip js_names hit)
qed

lemma find_svb: "p_fun (worker_prog proto) ''svb'' = Some svb_fun"
proof -
  have "find_fn ''svb'' code_4993_5000 = Some svb_fun"
    by (simp add: code_4993_5000_def svb_fun_def find_fn_Cons del: find_fn.simps(2))
  note hit = find_fn_hit [OF this]
  show ?thesis by (rule worker_found, unfold worker_table_flat, simp add: find_fn_skip js_names hit)
qed

lemma find_rvb: "p_fun (worker_prog proto) ''rvb'' = Some rvb_fun"
proof -
  have "find_fn ''rvb'' code_5201_5201 = Some rvb_fun"
    by (simp add: code_5201_5201_def rvb_fun_def find_fn_Cons del: find_fn.simps(2))
  note hit = find_fn_hit [OF this]
  show ?thesis by (rule worker_found, unfold worker_table_flat, simp add: find_fn_skip js_names hit)
qed

lemma find_vvb: "p_fun (worker_prog proto) ''vvb'' = Some vvb_fun"
proof -
  have "find_fn ''vvb'' code_3858_3896 = Some vvb_fun"
    by (simp add: code_3858_3896_def vvb_fun_def find_fn_Cons del: find_fn.simps(2))
  note hit = find_fn_hit [OF this]
  show ?thesis by (rule worker_found, unfold worker_table_flat, simp add: find_fn_skip js_names hit)
qed

lemma find_tvb: "p_fun (worker_prog proto) ''tvb'' = Some tvb_fun"
proof -
  have "find_fn ''tvb'' code_3592_3644 = Some tvb_fun"
    by (simp add: code_3592_3644_def tvb_fun_def find_fn_Cons del: find_fn.simps(2))
  note hit = find_fn_hit [OF this]
  show ?thesis by (rule worker_found, unfold worker_table_flat, simp add: find_fn_skip js_names hit)
qed

lemma find_qvb: "p_fun (worker_prog proto) ''qvb'' = Some qvb_fun"
proof -
  have "find_fn ''qvb'' code_4092_4158 = Some qvb_fun"
    by (simp add: code_4092_4158_def qvb_fun_def find_fn_Cons del: find_fn.simps(2))
  note hit = find_fn_hit [OF this]
  show ?thesis by (rule worker_found, unfold worker_table_flat, simp add: find_fn_skip js_names hit)
qed

lemma find_VC: "p_fun (worker_prog proto) ''VC'' = Some VC_fun"
proof -
  have "find_fn ''VC'' code_2705_2717 = Some VC_fun"
    by (simp add: code_2705_2717_def VC_fun_def find_fn_Cons del: find_fn.simps(2))
  note hit = find_fn_hit [OF this]
  show ?thesis by (rule worker_found, unfold worker_table_flat, simp add: find_fn_skip js_names hit)
qed

lemma find_NC: "p_fun (worker_prog proto) ''NC'' = Some NC_fun"
proof -
  have "find_fn ''NC'' code_5820_5820 = Some NC_fun"
    by (simp add: code_5820_5820_def NC_fun_def find_fn_Cons del: find_fn.simps(2))
  note hit = find_fn_hit [OF this]
  show ?thesis by (rule worker_found, unfold worker_table_flat, simp add: find_fn_skip js_names hit)
qed

lemma find_PC: "p_fun (worker_prog proto) ''PC'' = Some PC_fun"
proof -
  have "find_fn ''PC'' code_3646_3700 = Some PC_fun"
    by (simp add: code_3646_3700_def PC_fun_def find_fn_Cons del: find_fn.simps(2))
  note hit = find_fn_hit [OF this]
  show ?thesis by (rule worker_found, unfold worker_table_flat, simp add: find_fn_skip js_names hit)
qed

lemma find_IDb: "p_fun (worker_prog proto) ''IDb'' = Some IDb_fun"
proof -
  have "find_fn ''IDb'' code_2013_2137 = Some IDb_fun"
    by (simp add: code_2013_2137_def IDb_fun_def find_fn_Cons del: find_fn.simps(2))
  note hit = find_fn_hit [OF this]
  show ?thesis by (rule worker_found, unfold worker_table_flat, simp add: find_fn_skip js_names hit)
qed

lemma find_cnb: "p_fun (worker_prog proto) ''cnb'' = Some cnb_fun"
proof -
  have "find_fn ''cnb'' code_4372_4376 = Some cnb_fun"
    by (simp add: code_4372_4376_def cnb_fun_def find_fn_Cons del: find_fn.simps(2))
  note hit = find_fn_hit [OF this]
  show ?thesis by (rule worker_found, unfold worker_table_flat, simp add: find_fn_skip js_names hit)
qed

lemma find_dnb: "p_fun (worker_prog proto) ''dnb'' = Some dnb_fun"
proof -
  have "find_fn ''dnb'' code_4228_4288 = Some dnb_fun"
    by (simp add: code_4228_4288_def dnb_fun_def find_fn_Cons del: find_fn.simps(2))
  note hit = find_fn_hit [OF this]
  show ?thesis by (rule worker_found, unfold worker_table_flat, simp add: find_fn_skip js_names hit)
qed

lemma find_fnb: "p_fun (worker_prog proto) ''fnb'' = Some fnb_fun"
proof -
  have "find_fn ''fnb'' code_5176_5176 = Some fnb_fun"
    by (simp add: code_5176_5176_def fnb_fun_def find_fn_Cons del: find_fn.simps(2))
  note hit = find_fn_hit [OF this]
  show ?thesis by (rule worker_found, unfold worker_table_flat, simp add: find_fn_skip js_names hit)
qed

lemma find_enb: "p_fun (worker_prog proto) ''enb'' = Some enb_fun"
proof -
  have "find_fn ''enb'' code_3488_3590 = Some enb_fun"
    by (simp add: code_3488_3590_def enb_fun_def find_fn_Cons del: find_fn.simps(2))
  note hit = find_fn_hit [OF this]
  show ?thesis by (rule worker_found, unfold worker_table_flat, simp add: find_fn_skip js_names hit)
qed

lemma find_hnb: "p_fun (worker_prog proto) ''hnb'' = Some hnb_fun"
proof -
  have "find_fn ''hnb'' code_1759_1885 = Some hnb_fun"
    by (simp add: code_1759_1885_def hnb_fun_def find_fn_Cons del: find_fn.simps(2))
  note hit = find_fn_hit [OF this]
  show ?thesis by (rule worker_found, unfold worker_table_flat, simp add: find_fn_skip js_names hit)
qed

lemma find_array_methods:
  "p_fun (worker_prog proto) ''Array.push'' = Some push_fun" "p_fun (worker_prog proto) ''Array.splice'' = Some splice_fun"
  "p_fun (worker_prog proto) ''Array.slice'' = Some slice_fun"
  by (simp_all add: worker_prog_def worker_table_flat find_fn_skip js_names find_library)

lemma find_Cqb_end: "p_fun (worker_prog proto) ''qdb'' = Some qdb_fun"
  using worker_found [OF find_qdb] by (simp add: qdb_fun_def)

subsection \<open>The worker implements the interfaces\<close>

lemma array_protos:
  "p_proto (worker_prog proto) ''Array'' ''push'' = Some (JFun ''Array.push'')"
  "p_proto (worker_prog proto) ''Array'' ''splice'' = Some (JFun ''Array.splice'')"
  "p_proto (worker_prog proto) ''Array'' ''slice'' = Some (JFun ''Array.slice'')"
  "p_proto (worker_prog proto) ''Array'' ''__elementTypeCategory$'' = None"
  by (simp_all add: worker_prog_def with_arrays_def array_methods_def)

lemma le_int: "p_proto (worker_prog int_proto) ''Comparator'' ''Le'' = Some (JFun ''rfb'')"
  by (simp add: proto_int with_arrays_def int_proto_def)

text \<open>Neither the numbers nor their comparison depend on the store.\<close>

lemma int_key_same: "int_key s' = int_key s" "int_cmp s' = int_cmp s"
  by (simp_all add: int_key_def int_cmp_def fun_eq_iff)

lemma int_key_value: "int_key s v \<Longrightarrow> v \<noteq> JNull \<and> v \<noteq> JUndef"
  by (auto simp: int_key_def)

interpretation worker_array: array_code "worker_prog proto" for proto
  by unfold_locales (fact find_array_methods find_MDb find_dmb find_imb find_lb find_fmb find_qDb find_rDb array_protos)+

interpretation worker_cmp: array_comparator "worker_prog int_proto" "''rfb''" "''Comparator''" int_key int_cmp 1
  by unfold_locales (fact le_int rfb_run [OF find_rfb] int_key_value | simp add: int_key_same [of s' s for s' s])+

interpretation worker_heap: heap_code "worker_prog int_proto" "''rfb''" "''Comparator''" int_key int_cmp 1
  by unfold_locales (fact find_NDb find_svb find_rvb find_vvb find_tvb find_qvb)+

interpretation worker_sort: array_sort_code "worker_prog int_proto" "''rfb''" "''Comparator''" int_key int_cmp 1
  by unfold_locales (fact find_VC find_NC find_PC find_IDb find_cnb find_dnb find_fnb find_array_methods find_enb find_hnb
      find_Cqb_end array_protos | simp add: int_key_same [of s' s for s' s])+

subsection \<open>A queue in a store\<close>

text \<open>A queue with a comparator and a list whose array holds two numbers, and a store ready to sort that array.\<close>

definition queue_heap :: "int \<Rightarrow> int \<Rightarrow> nat \<Rightarrow> jobj option" where
  "queue_heap x y n =
     (if n = 0 then obj ''uvb'' [(''a'', JRef 1), (''b'', JRef 2)]
      else if n = 1 then obj ''Comparator'' []
      else if n = 2 then obj ''kmb'' [(''c'', JRef 3)]
      else if n = 3 then obj ''Array'' [(''length'', JNum 2), (''0'', JNum x), (''1'', JNum y)]
      else None)"

definition queue_st :: "int \<Rightarrow> int \<Rightarrow> jst" where
  "queue_st x y = \<lparr>j_heap = queue_heap x y, j_next = 4, j_glob = [''Cqb'' \<mapsto> JFun ''qdb'']\<rparr>"

lemma key_01: "key 0 = ''0''" "key (Suc 0) = ''1''"
  using show_01 by (simp_all add: ArrayCode.key_def)

lemmas queue_eval = queue_st_def queue_heap_def obj_def fld_def cls_def

lemma queue_arr: "arr_at (queue_st x y) 3 [JNum x, JNum y]"
  by (auto simp: arr_at_def less_Suc_eq key_01) (simp_all add: queue_eval)

lemma queue_ready:
  "list_at (queue_st x y) 2 3 [JNum x, JNum y]" "list_free (queue_st x y)" "queue_free (queue_st x y)"
  "queue_at ''Comparator'' (queue_st x y) 0 1 2 3 [JNum x, JNum y]"
  "plain_at (queue_st x y) 3 [JNum x, JNum y]" "fld (queue_st x y) 3 ''slice'' = None" "ready (queue_st x y)" "fresh (queue_st x y)"
  "cmp_at ''Comparator'' (queue_st x y) 1"
  using queue_arr
  by (simp_all add: list_at_def list_free_def queue_free_def queue_at_def map_at_def plain_at_def ready_def sort_free_def fresh_def cmp_at_def)
    (simp_all add: queue_eval)

text \<open>
  Claim C24. The operations of an array list of the worker, run on a list in the store, are those of a list:
  \<open>dmb\<close> answers the element at an index, \<open>imb\<close> replaces it and answers the old one, \<open>_lb\<close> appends and
  \<open>fmb\<close> takes the element at an index out. They change nothing but the array.
\<close>

theorem list_code:
  assumes "list_at s l a vs" "list_free s" "l \<noteq> a" "i < length vs" "length vs < 2 ^ 30" "length vs + 4 < q"
  shows "worker_run proto q ''dmb'' [JRef l, JNum (int i)] s = Ok (vs ! i) s \<and>
    (\<exists>s'. worker_run proto q ''imb'' [JRef l, JNum (int i), w] s = Ok (vs ! i) s' \<and> list_at s' l a (vs[i := w]) \<and> same_out {a} s s') \<and>
    (\<exists>s'. worker_run proto q ''_lb'' [JRef l, w] s = Ok (JBool True) s' \<and> list_at s' l a (vs @ [w]) \<and> same_out {a} s s') \<and>
    (\<exists>s'. worker_run proto q ''fmb'' [JRef l, JNum (int i)] s = Ok (vs ! i) s' \<and> list_at s' l a (removed i vs) \<and> same_out {a} s s')"
proof -
  obtain q' where q: "q = Suc (Suc (Suc q'))" using assms(6) by (cases q; cases "q - 1"; cases "q - 2") auto
  have q3: "length vs + 3 < Suc (Suc q')" using assms(6) unfolding q by simp
  have out: "same_out {a} s (set_len (set_elem s a (length vs) w) a (Suc (length vs)))" by (intro same_set_of same_set)
  have "arr_at s a vs" using assms(1) by (simp add: list_at_def)
  then have lists: "list_at (set_elem s a i w) l a (vs[i := w])"
    "list_at (set_len (set_elem s a (length vs) w) a (Suc (length vs))) l a (vs @ [w])"
    by (auto intro: worker_array.list_at_out [OF _ assms(1) _ assms(3)] arr_set arr_push out)
  show ?thesis unfolding q
    using worker_array.run_dmb [OF assms(1,4,2)] worker_array.run_imb [OF assms(1,4,2)] worker_array.run_lb [OF assms(1,5,2)]
      worker_array.run_fmb [OF assms(1,4,5) q3 assms(2,3), of proto JUndef] lists out by blast
qed

theorem list_code_witness:
  "\<exists>s'. worker_run int_proto 7 ''fmb'' [JRef 2, JNum 0] (queue_st 5 3) = Ok (JNum 5) s' \<and> list_at s' 2 3 [JNum 3]"
  using list_code [OF queue_ready(1,2) [of 5 3], where i = 0 and q = 7 and proto = int_proto] by (auto simp: removed_def)

text \<open>
  Claim C8. Offers and polls of numbers, run by the code of the worker on a priority queue in the store,
  answer as a queue of a multiset that gives a least element first, and leave a heap in the array.
\<close>

theorem queue_code_refines:
  assumes "heap (int_cmp s) h" "queue_at ''Comparator'' s q cr l a h" "queue_free s" "length h + length ops < 2 ^ 30"
    "\<forall>v \<in> set h. int_key s v" "\<forall>v. Some v \<in> set ops \<longrightarrow> int_key s v" "length h + length ops + 8 \<le> n"
  shows "\<exists>rs s' h'. code_run (worker_prog int_proto) n q ops s = Ok (map answer rs) s' \<and> queue_at ''Comparator'' s' q cr l a h' \<and>
    heap (int_cmp s) h' \<and> spec_run (int_cmp s) (map op_of ops) (mset h) rs (mset h') \<and> same_out {a} s s'"
  by (rule worker_heap.code_refines_queue [OF int_cmp_comparator assms(1-6)]) (use assms(7) in simp)

theorem queue_code_refines_witness:
  "\<exists>rs s' h'. code_run (worker_prog int_proto) 12 0 [Some (JNum 4), None] (queue_st 3 5) = Ok (map answer rs) s' \<and>
     spec_run (int_cmp (queue_st 3 5)) [Offer (JNum 4), Poll] {#JNum 3, JNum 5#} rs (mset h')"
proof -
  have "heap (int_cmp (queue_st 3 5)) [JNum 3, JNum 5]" 
    by (auto simp: heap_def less_Suc_eq int_cmp_def num_of_def rfb_def)
  from queue_code_refines [OF this queue_ready(4,3), where ops = "[Some (JNum 4), None]" and n = 12] show ?thesis
    by (simp add: int_key_def add_mset_commute) blast
qed

text \<open>
  Claim C23. \<open>qvb\<close> of the worker makes a heap of the array of a queue in any order, with the same elements, and
  changes nothing else.
\<close>

theorem heapify_code:
  assumes "queue_at ''Comparator'' s q cr l a h" "queue_free s" "length h < 2 ^ 30" "\<forall>v \<in> set h. int_key s v" "2 * length h + 7 \<le> n"
  shows "\<exists>s' h'. worker_run int_proto n ''qvb'' [JRef q, JNum 0] s = Ok JUndef s' \<and> queue_at ''Comparator'' s' q cr l a h' \<and>
    heap (int_cmp s) h' \<and> mset h' = mset h \<and> same_out {a} s s'"
  by (rule worker_heap.code_heapifies [OF int_cmp_comparator assms(1-4)]) (use assms(5) in simp)

theorem heapify_code_witness:
  "\<exists>s' h'. worker_run int_proto 11 ''qvb'' [JRef 0, JNum 0] (queue_st 5 3) = Ok JUndef s' \<and>
     queue_at ''Comparator'' s' 0 1 2 3 h' \<and> heap (int_cmp (queue_st 5 3)) h' \<and> mset h' = {#JNum 3, JNum 5#}"
  using heapify_code [OF queue_ready(4,3) [of 5 3], where n = 11] by (simp add: int_key_def add_mset_commute) blast

lemma sort_numbers: "js_sort (int_cmp s) (map JNum xs) = map JNum (sort xs)"
proof -
  have ins: "js_insert (int_cmp s) (JNum x) (map JNum ys) = map JNum (js_insert rfb x ys)" for x ys
    by (induction ys) (auto simp: int_cmp_def num_of_def)
  have "js_sort (int_cmp s) (map JNum xs) = map JNum (js_sort rfb xs)" by (induction xs) (simp_all add: ins)
  moreover have "sorted (js_sort rfb xs)" using int_compare.sorted_js_sort [of xs] by (simp add: rfb_le)
  then have "js_sort rfb xs = sort xs" by (intro properties_for_sort [symmetric]) simp_all
  ultimately show ?thesis by simp
qed

text \<open>
  Claim C7. \<open>hnb\<close> of the worker, run on an array of numbers in the store, sorts the array: afterwards it holds
  the same numbers in ascending order. Nothing changes but the array and a new array that the code makes.
\<close>

theorem sort_code_sorts:
  assumes "plain_at s a (map JNum xs)" "fld s a ''slice'' = None" "ready s" "fresh s" "cmp_at ''Comparator'' s r" "r \<noteq> a"
    "length xs < 2 ^ 30" "2 * length xs + 7 < n"
  shows "\<exists>s'. worker_run int_proto n ''hnb'' [JRef a, JRef r] s = Ok JUndef s' \<and>
    plain_at s' a (map JNum (sort xs)) \<and> same_out {j_next s, a} (new_arr s) s'"
proof -
  let ?vs = "map JNum xs"
  have c: "comparator (int_cmp s)" using int_cmp_comparator by (rule comparator_sgn.axioms(1))
  have k: "\<forall>v \<in> set ?vs. int_key s v" by (simp add: int_key_def)
  obtain n' where n: "n = Suc n'" "1 + 2 * length ?vs + 5 < n'" using assms(8) by (cases n) auto
  have "hnb (int_cmp s) ?vs = map JNum (sort xs)"
    using enb_sorts [OF c, of 0 "length ?vs" ?vs] by (simp add: hnb_def sort_numbers)
  moreover have "length ?vs < 2 ^ 30" using assms(7) by simp
  ultimately show ?thesis using worker_sort.run_hnb [OF assms(1-6) k c _ n(2), of JUndef] unfolding n(1) by simp
qed

theorem sort_code_sorts_witness:
  "\<exists>s'. worker_run int_proto 12 ''hnb'' [JRef 3, JRef 1] (queue_st 5 3) = Ok JUndef s' \<and> plain_at s' 3 [JNum 3, JNum 5]"
proof -
  have "sort [5, 3 :: int] = [3, 5]" by simp
  with sort_code_sorts [of "queue_st 5 3" 3 "[5, 3]" 1 12] queue_ready(5-9) [of 5 3] show ?thesis by auto
qed

end
