(* ===== verification/GwtLongShift.thy ===== *)
theory GwtLongShift
  imports GwtLong
begin

text \<open>
  The shifts of the 64-bit integers of the layout worker: \<open>sD\<close> (left), \<open>tD\<close> (right, with the sign) and
  \<open>uD\<close> (right, with zeros) on objects of three parts, and \<open>adb\<close>, \<open>bdb\<close>, \<open>cdb\<close> on both kinds of longs.
  Only the low six bits of the count matter, as in Java. They are the shifts of 64-bit words.
\<close>

subsection \<open>The code\<close>

definition sD :: "blong \<Rightarrow> int \<Rightarrow> blong" where
  "sD a b =
     (let b = js_and b 63;
          (c, d, e) =
            (if b < 22 then (js_shl (bl_l a) b, js_bor (js_shl (bl_m a) b) (js_shr (bl_l a) (22 - b)),
               js_bor (js_shl (bl_h a) b) (js_shr (bl_m a) (22 - b)))
             else if b < 44 then (0, js_shl (bl_l a) (b - 22), js_bor (js_shl (bl_m a) (b - 22)) (js_shr (bl_l a) (44 - b)))
             else (0, 0, js_shl (bl_l a) (b - 44)))
      in C_create (js_and c 4194303) (js_and d 4194303) (js_and e 1048575))"

definition tD :: "blong \<Rightarrow> int \<Rightarrow> blong" where
  "tD a b =
     (let b = js_and b 63; d = js_and (bl_h a) 524288 \<noteq> 0;
          c = (if d then js_bor (bl_h a) (- 1048576) else bl_h a);
          (g, f, e) =
            (if b < 22 then (js_shr c b, js_bor (js_shr (bl_m a) b) (js_shl c (22 - b)),
               js_bor (js_shr (bl_l a) b) (js_shl (bl_m a) (22 - b)))
             else if b < 44 then (if d then 1048575 else 0, js_shr c (b - 22), js_bor (js_shr (bl_m a) (b - 22)) (js_shl c (44 - b)))
             else (if d then 1048575 else 0, if d then 4194303 else 0, js_shr c (b - 44)))
      in C_create (js_and e 4194303) (js_and f 4194303) (js_and g 1048575))"

definition uD :: "blong \<Rightarrow> int \<Rightarrow> blong" where
  "uD a b =
     (let b = js_and b 63; c = js_and (bl_h a) 1048575;
          (f, e, d) =
            (if b < 22 then (js_ushr c b, js_bor (js_shr (bl_m a) b) (js_shl c (22 - b)),
               js_bor (js_shr (bl_l a) b) (js_shl (bl_m a) (22 - b)))
             else if b < 44 then (0, js_ushr c (b - 22), js_bor (js_shr (bl_m a) (b - 22)) (js_shl (bl_h a) (44 - b)))
             else (0, 0, js_ushr c (b - 44)))
      in C_create (js_and d 4194303) (js_and e 4194303) (js_and f 1048575))"

definition adb :: "glong \<Rightarrow> int \<Rightarrow> glong" where
  "adb a b = Pcb (sD (big_of a) b)"

definition bdb :: "glong \<Rightarrow> int \<Rightarrow> glong" where
  "bdb a b = Pcb (tD (big_of a) b)"

definition cdb :: "glong \<Rightarrow> int \<Rightarrow> glong" where
  "cdb a b = Pcb (uD (big_of a) b)"

subsection \<open>Bits of 32-bit results\<close>

lemma to_int32_signed: "to_int32 x = signed_take_bit 31 x"
  by (simp add: to_int32_def signed_take_bit_eq_take_bit_shift take_bit_eq_mod)

lemma bit_to_int32: "bit (to_int32 x) i = bit x (min 31 i)"
  by (auto simp: to_int32_signed bit_signed_take_bit_iff min_def)

lemma bit_js_bor: "i < 31 \<Longrightarrow> bit (js_bor x y) i \<longleftrightarrow> bit x i \<or> bit y i"
  by (simp add: js_bor_def bit_or_iff bit_to_int32)

lemma js_shl_push: "k < 32 \<Longrightarrow> js_shl x (int k) = to_int32 (push_bit k (to_int32 x))"
  by (simp add: js_shl_def push_bit_eq_mult)

lemma js_shr_drop: "k < 32 \<Longrightarrow> js_shr x (int k) = drop_bit k (to_int32 x)"
  by (simp add: js_shr_def drop_bit_eq_div)

lemma js_ushr_drop: "k < 32 \<Longrightarrow> js_ushr x (int k) = drop_bit k (take_bit 32 x)"
  by (simp add: js_ushr_def drop_bit_eq_div take_bit_eq_mod)

lemma bit_js_shl: "k < 32 \<Longrightarrow> i < 31 \<Longrightarrow> bit (js_shl x (int k)) i \<longleftrightarrow> k \<le> i \<and> bit x (i - k)"
  by (simp add: js_shl_push bit_to_int32 bit_push_bit_iff_int)

lemma bit_js_shr: "k < 32 \<Longrightarrow> bit (js_shr x (int k)) i \<longleftrightarrow> bit x (min 31 (k + i))"
  by (simp add: js_shr_drop bit_to_int32 bit_drop_bit_eq)

text \<open>Of a part of a long the bits are shifted down and nothing comes from above.\<close>

definition part :: "int \<Rightarrow> bool" where
  "part x \<longleftrightarrow> (\<forall>i \<ge> 22. \<not> bit x i)"

lemma part_js_shr: "part x \<Longrightarrow> k < 32 \<Longrightarrow> bit (js_shr x (int k)) i \<longleftrightarrow> bit x (k + i)"
  by (cases "k + i \<le> 31") (simp_all add: bit_js_shr part_def min_def)

lemma part_js_ushr: "part x \<Longrightarrow> k < 32 \<Longrightarrow> bit (js_ushr x (int k)) i \<longleftrightarrow> bit x (k + i)"
  by (cases "k + i < 32") (simp_all add: js_ushr_drop bit_drop_bit_eq bit_take_bit_iff part_def)

text \<open>The bits of a long are those of its parts.\<close>

lemma part_bit: "0 \<le> x \<Longrightarrow> x < 2 ^ n \<Longrightarrow> n \<le> i \<Longrightarrow> \<not> bit (x :: int) i"
  using take_bit_int_eq_self [of x n] bit_take_bit_iff [of n x i] by simp

definition part_of :: "int \<Rightarrow> int \<Rightarrow> int \<Rightarrow> nat \<Rightarrow> bool" where
  "part_of l m h i \<longleftrightarrow> (if i < 22 then bit l i else if i < 44 then bit m (i - 22) else bit h (i - 44))"

lemma bit_word_parts: "bl_ok a \<Longrightarrow> i < 64 \<Longrightarrow> bit (bl_word a) i = part_of (bl_l a) (bl_m a) (bl_h a) i"
  by (auto simp: bl_word_def bit_word_of_int_iff iD_concat bit_concat_bit_iff part_of_def)

lemma masked_ok: "bl_ok (C_create (js_and c 4194303) (js_and d 4194303) (js_and e 1048575))"
  by (simp add: bl_ok_def js_masks)

lemma bit_masked:
  assumes "i < 64"
  shows "bit (bl_word (C_create (js_and c 4194303) (js_and d 4194303) (js_and e 1048575))) i = part_of c d e i"
proof -
  have "bit (x mod 4194304) j \<longleftrightarrow> j < 22 \<and> bit x j" "bit (x mod 1048576) j \<longleftrightarrow> j < 20 \<and> bit x j" for x :: int and j
    using bit_take_bit_iff [of 22 x j] bit_take_bit_iff [of 20 x j] by (simp_all add: take_bit_eq_mod)
  moreover have "i < 44 \<Longrightarrow> i - 22 < 22" "i - 44 < 20" using assms by linarith+
  ultimately show ?thesis unfolding bit_word_parts [OF masked_ok assms] by (simp add: part_of_def js_masks)
qed

text \<open>An index is below 22, or 22 or 44 more than a smaller one.\<close>

lemma count_cases:
  assumes "n < (64::nat)"
  obtains "n < 22" | k where "n = 22 + k" "k < 22" | k where "n = 44 + k" "k < 20"
  using assms by (cases "n < 22"; cases "n < 44") (auto dest!: le_Suc_ex simp: not_less)

lemma masked_result:
  assumes "r = C_create (js_and c 4194303) (js_and d 4194303) (js_and e 1048575)"
    and "\<And>i. i < 22 \<Longrightarrow> bit c i = bit w i" "\<And>j. j < 22 \<Longrightarrow> bit d j = bit w (22 + j)" "\<And>j. j < 20 \<Longrightarrow> bit e j = bit w (44 + j)"
  shows "bl_ok r \<and> bl_word r = w"
proof -
  have "part_of c d e i = bit w i" if "i < 64" for i
  proof -
    from that show ?thesis by (cases rule: count_cases) (use assms(2-4) in \<open>auto simp: part_of_def\<close>)
  qed
  then show ?thesis unfolding assms(1) by (auto simp: masked_ok bit_masked intro!: bit_word_eqI)
qed

lemma part_of_at: "i < 22 \<Longrightarrow> part_of l m h i = bit l i" "j < 22 \<Longrightarrow> part_of l m h (22 + j) = bit m j"
  "part_of l m h (44 + j) = bit h j"
  by (simp_all add: part_of_def)

lemma bl_parts:
  assumes "bl_ok a"
  shows "part (bl_l a)" "part (bl_m a)" "part (bl_h a)"
  using assms part_bit [of "bl_l a" 22] part_bit [of "bl_m a" 22] part_bit [of "bl_h a" 22] by (auto simp: bl_ok_def part_def)

lemma count_nat: "js_and b 63 = int (nat (b mod 64))" "nat (b mod 64) < 64"
  by (simp_all add: js_masks nat_less_iff)

subsection \<open>The shifts are those of words\<close>

lemma part_of_down: "n \<le> j \<Longrightarrow> j < 22 \<Longrightarrow> part_of l m h (22 + j - n) = bit m (j - n)"
  "n \<le> j \<Longrightarrow> part_of l m h (44 + j - n) = bit h (j - n)"
  "n < 22 \<Longrightarrow> j < n \<Longrightarrow> part_of l m h (44 + j - n) = bit m (22 + j - n)"
  using part_of_at(2) [of "j - n" l m h] part_of_at(3) [of l m h "j - n"] part_of_at(2) [of "22 + j - n" l m h] by simp_all

text \<open>A part that is filled from its neighbour.\<close>

lemma fill_left:
  assumes "part y" "n \<le> 22" "i < 22"
  shows "bit (js_bor (js_shl x (int n)) (js_shr y (int (22 - n)))) i = (if n \<le> i then bit x (i - n) else bit y (22 + i - n))"
proof -
  have e: "22 - n + i = 22 + i - n" using assms(2) by simp
  have "n \<le> i \<Longrightarrow> \<not> bit y (22 + i - n)" using assms(1) by (simp add: part_def)
  then show ?thesis using assms by (simp add: bit_js_bor bit_js_shl part_js_shr e del: of_nat_diff)
qed

lemma fill_right:
  assumes "part x" "n < 22" "i < 22"
  shows "bit (js_bor (js_shr x (int n)) (js_shl y (int (22 - n)))) i = (if i + n < 22 then bit x (i + n) else bit y (i + n - 22))"
proof -
  have "\<not> i + n < 22 \<Longrightarrow> \<not> bit x (i + n)" using assms(1) by (simp add: part_def)
  moreover have "i - (22 - n) = i + n - 22" using assms(2) by simp
  moreover have "22 - n \<le> i \<longleftrightarrow> \<not> i + n < 22" by arith
  ultimately show ?thesis using assms by (simp add: bit_js_bor bit_js_shl part_js_shr add.commute del: of_nat_diff)
qed

lemma sD_parts:
  assumes "bl_ok a" "n < 64" "js_and b 63 = int n"
  shows "bl_ok (sD a b) \<and> bl_word (sD a b) = push_bit n (bl_word a)"
proof -
  note P = bl_parts [OF assms(1)]
  have R: "bit (push_bit m (bl_word a)) i \<longleftrightarrow> m \<le> i \<and> part_of (bl_l a) (bl_m a) (bl_h a) (i - m)" if "i < 64" for i m
    using that by (auto simp: bit_push_bit_iff bit_word_parts [OF assms(1)])
  from assms(2) show ?thesis
  proof (cases rule: count_cases)
    case 1
    then have "22 - int n = int (22 - n)" by simp
    then have "sD a b = C_create (js_and (js_shl (bl_l a) (int n)) 4194303)
        (js_and (js_bor (js_shl (bl_m a) (int n)) (js_shr (bl_l a) (int (22 - n)))) 4194303)
        (js_and (js_bor (js_shl (bl_h a) (int n)) (js_shr (bl_m a) (int (22 - n)))) 1048575)"
      using 1 by (simp add: sD_def assms(3) Let_def del: of_nat_diff)
    then show ?thesis
    proof (rule masked_result)
      fix j :: nat assume j: "j < 22"
      show "bit (js_bor (js_shl (bl_m a) (int n)) (js_shr (bl_l a) (int (22 - n)))) j = bit (push_bit n (bl_word a)) (22 + j)"
        using 1 j P by (cases "n \<le> j") (simp_all add: fill_left R part_of_at part_of_down del: of_nat_diff)
    next
      fix j :: nat assume j: "j < 20"
      show "bit (js_bor (js_shl (bl_h a) (int n)) (js_shr (bl_m a) (int (22 - n)))) j = bit (push_bit n (bl_word a)) (44 + j)"
        using 1 j P by (cases "n \<le> j") (simp_all add: fill_left R part_of_at part_of_down del: of_nat_diff)
    qed (use 1 in \<open>simp add: R bit_js_shl part_of_at\<close>)
  next
    case (2 k)
    then have "44 - int n = int (22 - k)" by simp
    then have "sD a b = C_create (js_and 0 4194303) (js_and (js_shl (bl_l a) (int k)) 4194303)
        (js_and (js_bor (js_shl (bl_m a) (int k)) (js_shr (bl_l a) (int (22 - k)))) 1048575)"
      using 2 by (simp add: sD_def assms(3) Let_def del: of_nat_diff)
    then show ?thesis
    proof (rule masked_result)
      fix j :: nat assume j: "j < 20"
      then show "bit (js_bor (js_shl (bl_m a) (int k)) (js_shr (bl_l a) (int (22 - k)))) j = bit (push_bit n (bl_word a)) (44 + j)"
        using 2 P by (cases "k \<le> j") (simp_all add: fill_left R part_of_at part_of_down del: of_nat_diff)
    qed (use 2 in \<open>simp_all add: R bit_js_shl part_of_at\<close>)
  next
    case (3 k)
    then have "sD a b = C_create (js_and 0 4194303) (js_and 0 4194303) (js_and (js_shl (bl_l a) (int k)) 1048575)"
      by (simp add: sD_def assms(3) Let_def)
    then show ?thesis by (rule masked_result) (use 3 in \<open>simp_all add: R bit_js_shl part_of_at\<close>)
  qed
qed

lemma part_of_up:
  "j < 22 \<Longrightarrow> n < 22 \<Longrightarrow> part_of l m h (n + j) = (if j + n < 22 then bit l (j + n) else bit m (j + n - 22))"
  "j < 22 \<Longrightarrow> n < 22 \<Longrightarrow> part_of l m h (n + (22 + j)) = (if j + n < 22 then bit m (j + n) else bit h (j + n - 22))"
  "part_of l m h (n + (44 + j)) = bit h (n + j)"
  by (auto simp: part_of_def add.commute)

lemma fill_right_part:
  assumes "part l" "n < 22" "j < 22"
  shows "bit (js_bor (js_shr l (int n)) (js_shl m (int (22 - n)))) j = part_of l m h (n + j)"
    "bit (js_bor (js_shr l (int n)) (js_shl m (int (22 - n)))) j = part_of x l m (n + (22 + j))"
  using fill_right [OF assms, of m] part_of_up(1) [OF assms(3,2), of l m h] part_of_up(2) [OF assms(3,2), of x l m] by simp_all

lemma high_bits: "bl_ok a \<Longrightarrow> 20 \<le> i \<Longrightarrow> \<not> bit (bl_h a) i"
  using part_bit [of "bl_h a" 20 i] by (simp add: bl_ok_def)

lemma bit_bl_word: "bl_ok a \<Longrightarrow> bit (bl_word a) i = part_of (bl_l a) (bl_m a) (bl_h a) i"
  by (cases "i < 64") (auto simp: bit_word_parts part_of_def high_bits dest: bit_imp_le_length)

lemma uD_parts:
  assumes "bl_ok a" "n < 64" "js_and b 63 = int n"
  shows "bl_ok (uD a b) \<and> bl_word (uD a b) = drop_bit n (bl_word a)"
proof -
  note P = bl_parts [OF assms(1)]
  have R: "bit (drop_bit m (bl_word a)) i = part_of (bl_l a) (bl_m a) (bl_h a) (m + i)" for i m
    by (simp add: bit_drop_bit_eq bit_bl_word [OF assms(1)])
  have c: "js_and (bl_h a) 1048575 = bl_h a" using assms(1) by (simp add: js_masks bl_ok_def)
  from assms(2) show ?thesis
  proof (cases rule: count_cases)
    case 1
    then have "22 - int n = int (22 - n)" by simp
    then have "uD a b = C_create
        (js_and (js_bor (js_shr (bl_l a) (int n)) (js_shl (bl_m a) (int (22 - n)))) 4194303)
        (js_and (js_bor (js_shr (bl_m a) (int n)) (js_shl (bl_h a) (int (22 - n)))) 4194303)
        (js_and (js_ushr (bl_h a) (int n)) 1048575)"
      using 1 by (simp add: uD_def assms(3) c Let_def del: of_nat_diff)
    then show ?thesis
      by (rule masked_result) (use 1 P in \<open>simp_all add: R fill_right_part part_of_up(3) part_js_ushr del: of_nat_diff\<close>)
  next
    case (2 k)
    then have "44 - int n = int (22 - k)" by simp
    then have "uD a b = C_create
        (js_and (js_bor (js_shr (bl_m a) (int k)) (js_shl (bl_h a) (int (22 - k)))) 4194303)
        (js_and (js_ushr (bl_h a) (int k)) 4194303) (js_and 0 1048575)"
      using 2 by (simp add: uD_def assms(3) c Let_def del: of_nat_diff)
    then show ?thesis
      by (rule masked_result) (use 2 P in \<open>simp_all add: R fill_right part_of_def add.commute high_bits [OF assms(1)] part_js_ushr del: of_nat_diff\<close>)
  next
    case (3 k)
    then have "uD a b = C_create (js_and (js_ushr (bl_h a) (int k)) 4194303) (js_and 0 4194303) (js_and 0 1048575)"
      by (simp add: uD_def assms(3) c Let_def)
    then show ?thesis
      by (rule masked_result) (use 3 P in \<open>simp_all add: R part_of_def high_bits [OF assms(1)] part_js_ushr\<close>)
  qed
qed

text \<open>The high part with the sign: above bit 19 all bits are bit 19.\<close>

definition signed_high :: "blong \<Rightarrow> int" where
  "signed_high a = (if js_and (bl_h a) 524288 \<noteq> 0 then js_bor (bl_h a) (- 1048576) else bl_h a)"

lemma sign_bit: "bl_ok a \<Longrightarrow> js_and (bl_h a) 524288 \<noteq> 0 \<longleftrightarrow> bit (bl_h a) 19"
  using and_exp_eq_0_iff_not_bit [of "bl_h a" 19] by (simp add: js_and_def to_int32_id bl_ok_def)

lemma bit_signed_high:
  assumes "bl_ok a"
  shows "bit (signed_high a) i = bit (bl_h a) (min 19 i)"
proof -
  have m: "- 1048576 = Bit_Operations.not (mask 20 :: int)" by (simp add: minus_exp_eq_not_mask [symmetric])
  have "bit (- 1048576 :: int) j \<longleftrightarrow> 20 \<le> j" for j unfolding m by (simp add: bit_not_iff bit_mask_iff not_less)
  moreover have "bit (bl_h a) (min 31 i) = bit (bl_h a) i"
    using high_bits [OF assms, of i] high_bits [OF assms, of 31] by (cases "i \<le> 31") (simp_all add: min_def)
  ultimately have "bit (js_bor (bl_h a) (- 1048576)) i \<longleftrightarrow> bit (bl_h a) i \<or> 20 \<le> i"
    by (auto simp: js_bor_def bit_or_iff bit_to_int32)
  then show ?thesis using high_bits [OF assms, of i] sign_bit [OF assms]
    by (cases "i < 20"; cases "i = 19") (auto simp: signed_high_def min_def)
qed

lemma signed_high_shr: "bl_ok a \<Longrightarrow> k < 32 \<Longrightarrow> bit (js_shr (signed_high a) (int k)) i = bit (signed_high a) (k + i)"
  by (simp add: bit_js_shr bit_signed_high) (simp add: min_def)

lemma ones: "i < 22 \<Longrightarrow> bit (4194303 :: int) i" "i < 20 \<Longrightarrow> bit (1048575 :: int) i"
  using bit_mask_iff [of 22 i, where 'a = int] bit_mask_iff [of 20 i, where 'a = int] by (simp_all add: mask_eq_exp_minus_1)

lemma tD_parts:
  assumes "bl_ok a" "n < 64" "js_and b 63 = int n"
  shows "bl_ok (tD a b) \<and> bl_word (tD a b) = signed_drop_bit n (bl_word a)"
proof -
  note P = bl_parts [OF assms(1)]
  let ?c = "signed_high a" and ?d = "js_and (bl_h a) 524288 \<noteq> 0"
  have above: "19 \<le> i \<Longrightarrow> bit ?c i = ?d" for i by (simp add: bit_signed_high assms(1) sign_bit min_def)
  have R: "bit (signed_drop_bit m (bl_word a)) i = part_of (bl_l a) (bl_m a) ?c (m + i)" if "m < 64" "i < 64" for i m
  proof (cases "64 - m \<le> i")
    case True
    then have "44 + 19 \<le> m + i" using that by simp
    then show ?thesis using True above [of "m + i - 44"] that
      by (simp add: bit_signed_drop_bit_iff bit_bl_word [OF assms(1)] part_of_def sign_bit [OF assms(1)])
  next
    case False
    then have "m + i - 44 < 20" using that by simp
    then show ?thesis using False
      by (simp add: bit_signed_drop_bit_iff bit_bl_word [OF assms(1)] part_of_def bit_signed_high [OF assms(1)])
  qed
  have c: "(if ?d then js_bor (bl_h a) (- 1048576) else bl_h a) = ?c" by (simp add: signed_high_def)
  from assms(2) show ?thesis
  proof (cases rule: count_cases)
    case 1
    then have "22 - int n = int (22 - n)" by simp
    then have "tD a b = C_create
        (js_and (js_bor (js_shr (bl_l a) (int n)) (js_shl (bl_m a) (int (22 - n)))) 4194303)
        (js_and (js_bor (js_shr (bl_m a) (int n)) (js_shl ?c (int (22 - n)))) 4194303)
        (js_and (js_shr ?c (int n)) 1048575)"
      using 1 by (simp add: tD_def assms(3) c Let_def del: of_nat_diff)
    then show ?thesis
      by (rule masked_result) (use 1 P in \<open>simp_all add: R fill_right_part part_of_up(3) signed_high_shr [OF assms(1)] del: of_nat_diff\<close>)
  next
    case (2 k)
    then have "44 - int n = int (22 - k)" by simp
    then have "tD a b = C_create
        (js_and (js_bor (js_shr (bl_m a) (int k)) (js_shl ?c (int (22 - k)))) 4194303)
        (js_and (js_shr ?c (int k)) 4194303) (js_and (if ?d then 1048575 else 0) 1048575)"
      using 2 by (simp add: tD_def assms(3) c Let_def del: of_nat_diff)
    then show ?thesis
      by (rule masked_result) (use 2 P in \<open>simp_all add: R fill_right part_of_def add.commute above ones signed_high_shr [OF assms(1)] del: of_nat_diff\<close>)
  next
    case (3 k)
    then have "tD a b = C_create (js_and (js_shr ?c (int k)) 4194303) (js_and (if ?d then 4194303 else 0) 4194303)
        (js_and (if ?d then 1048575 else 0) 1048575)"
      by (simp add: tD_def assms(3) c Let_def)
    then show ?thesis
      by (rule masked_result) (use 3 P in \<open>simp_all add: R part_of_def above ones signed_high_shr [OF assms(1)]\<close>)
  qed
qed

lemma shift_words:
  assumes "bl_ok a"
  shows "bl_ok (sD a b) \<and> bl_word (sD a b) = push_bit (nat (b mod 64)) (bl_word a)"
    "bl_ok (tD a b) \<and> bl_word (tD a b) = signed_drop_bit (nat (b mod 64)) (bl_word a)"
    "bl_ok (uD a b) \<and> bl_word (uD a b) = drop_bit (nat (b mod 64)) (bl_word a)"
  by (rule sD_parts tD_parts uD_parts; rule assms count_nat)+

text \<open>The shifts of both kinds of longs are those of 64-bit words by the count modulo 64.\<close>

lemma long_shift:
  "gl_ok a \<Longrightarrow> gl_ok (adb a b) \<and> gl_word (adb a b) = push_bit (nat (b mod 64)) (gl_word a) \<and>
     gl_ok (bdb a b) \<and> gl_word (bdb a b) = signed_drop_bit (nat (b mod 64)) (gl_word a) \<and>
     gl_ok (cdb a b) \<and> gl_word (cdb a b) = drop_bit (nat (b mod 64)) (gl_word a)"
  unfolding adb_def bdb_def cdb_def
  using big_of_word [of a] shift_words [of "big_of a" b] Pcb_word by simp

end
