(* ===== verification/ShiftCode.thy ===== *)
theory ShiftCode
  imports LongCode GwtLongShift
begin

text \<open>
  The code of the shifts of longs, as the tables have it, runs as the functions of \<open>GwtLongShift\<close> say.
  The interface \<open>shift_code\<close> adds the three functions to \<open>long_code\<close>.
\<close>

definition sD_fun :: jfun where
  "sD_fun = \<lparr>f_params = 2, f_locals = 3, f_body =
     [Do (SetV 1 (Bin BitAnd (V 1) (K (JNum 63)))), When (Bin Lt (V 1) (K (JNum 22))) [Do (SetV 2
     (Bin Shl (Dot (V 0) ''l'') (V 1))), Do (SetV 3 (Bin BitOr (Bin Shl (Dot (V 0) ''m'') (V 1))
     (Bin Shr (Dot (V 0) ''l'') (Bin Minus (K (JNum 22)) (V 1))))), Do (SetV 4 (Bin BitOr (Bin Shl
     (Dot (V 0) ''h'') (V 1)) (Bin Shr (Dot (V 0) ''m'') (Bin Minus (K (JNum 22)) (V 1)))))] [When
     (Bin Lt (V 1) (K (JNum 44))) [Do (SetV 2 (K (JNum 0))), Do (SetV 3 (Bin Shl (Dot (V 0) ''l'')
     (Bin Minus (V 1) (K (JNum 22))))), Do (SetV 4 (Bin BitOr (Bin Shl (Dot (V 0) ''m'') (Bin Minus
     (V 1) (K (JNum 22)))) (Bin Shr (Dot (V 0) ''l'') (Bin Minus (K (JNum 44)) (V 1)))))] [Do (SetV
     2 (K (JNum 0))), Do (SetV 3 (K (JNum 0))), Do (SetV 4 (Bin Shl (Dot (V 0) ''l'') (Bin Minus (V
     1) (K (JNum 44)))))]], Ret (Call ''_C'' [Bin BitAnd (V 2) (G ''rve''), Bin BitAnd (V 3) (G
     ''rve''), Bin BitAnd (V 4) (G ''sve'')])]\<rparr>"

definition tD_fun :: jfun where
  "tD_fun = \<lparr>f_params = 2, f_locals = 5, f_body =
     [Do (SetV 1 (Bin BitAnd (V 1) (K (JNum 63)))), Do (SetV 2 (Dot (V 0) ''h'')), Do (SetV 3 (Neg
     (Loose (Bin BitAnd (V 2) (G ''tve'')) (K (JNum 0))))), Do (And (V 3) (SetV 2 (Bin BitOr (V 2)
     (K (JNum (- 1048576)))))), When (Bin Lt (V 1) (K (JNum 22))) [Do (SetV 6 (Bin Shr (V 2) (V
     1))), Do (SetV 5 (Bin BitOr (Bin Shr (Dot (V 0) ''m'') (V 1)) (Bin Shl (V 2) (Bin Minus (K
     (JNum 22)) (V 1))))), Do (SetV 4 (Bin BitOr (Bin Shr (Dot (V 0) ''l'') (V 1)) (Bin Shl (Dot (V
     0) ''m'') (Bin Minus (K (JNum 22)) (V 1)))))] [When (Bin Lt (V 1) (K (JNum 44))) [Do (SetV 6
     (Cond (V 3) (G ''sve'') (K (JNum 0)))), Do (SetV 5 (Bin Shr (V 2) (Bin Minus (V 1) (K (JNum
     22))))), Do (SetV 4 (Bin BitOr (Bin Shr (Dot (V 0) ''m'') (Bin Minus (V 1) (K (JNum 22)))) (Bin
     Shl (V 2) (Bin Minus (K (JNum 44)) (V 1)))))] [Do (SetV 6 (Cond (V 3) (G ''sve'') (K (JNum
     0)))), Do (SetV 5 (Cond (V 3) (G ''rve'') (K (JNum 0)))), Do (SetV 4 (Bin Shr (V 2) (Bin Minus
     (V 1) (K (JNum 44)))))]], Ret (Call ''_C'' [Bin BitAnd (V 4) (G ''rve''), Bin BitAnd (V 5) (G
     ''rve''), Bin BitAnd (V 6) (G ''sve'')])]\<rparr>"

definition uD_fun :: jfun where
  "uD_fun = \<lparr>f_params = 2, f_locals = 4, f_body =
     [Do (SetV 1 (Bin BitAnd (V 1) (K (JNum 63)))), Do (SetV 2 (Bin BitAnd (Dot (V 0) ''h'') (G
     ''sve''))), When (Bin Lt (V 1) (K (JNum 22))) [Do (SetV 5 (Bin Ushr (V 2) (V 1))), Do (SetV 4
     (Bin BitOr (Bin Shr (Dot (V 0) ''m'') (V 1)) (Bin Shl (V 2) (Bin Minus (K (JNum 22)) (V 1))))),
     Do (SetV 3 (Bin BitOr (Bin Shr (Dot (V 0) ''l'') (V 1)) (Bin Shl (Dot (V 0) ''m'') (Bin Minus
     (K (JNum 22)) (V 1)))))] [When (Bin Lt (V 1) (K (JNum 44))) [Do (SetV 5 (K (JNum 0))), Do (SetV
     4 (Bin Ushr (V 2) (Bin Minus (V 1) (K (JNum 22))))), Do (SetV 3 (Bin BitOr (Bin Shr (Dot (V 0)
     ''m'') (Bin Minus (V 1) (K (JNum 22)))) (Bin Shl (Dot (V 0) ''h'') (Bin Minus (K (JNum 44)) (V
     1)))))] [Do (SetV 5 (K (JNum 0))), Do (SetV 4 (K (JNum 0))), Do (SetV 3 (Bin Ushr (V 2) (Bin
     Minus (V 1) (K (JNum 44)))))]], Ret (Call ''_C'' [Bin BitAnd (V 3) (G ''rve''), Bin BitAnd (V
     4) (G ''rve''), Bin BitAnd (V 5) (G ''sve'')])]\<rparr>"

text \<open>The mask of the sign bit is a global of the worker too.\<close>

definition shift_masks :: "jst \<Rightarrow> bool" where
  "shift_masks s \<longleftrightarrow> masks_set s \<and> j_glob s ''tve'' = Some (JNum 524288)"

lemma count_range: "0 \<le> js_and b 63" "js_and b 63 < 64"
  by (simp_all add: js_masks)

lemma count_exact: "exact (22 - js_and b 63)" "exact (44 - js_and b 63)" "exact (js_and b 63 - 22)" "exact (js_and b 63 - 44)"
  using count_range [of b] by (auto intro!: exact_small)

lemma shl_exact [simp]: "exact (js_shl x k)"
  using to_int32_range [of "to_int32 x * 2 ^ nat (k mod 32)"] by (simp add: js_shl_def exact_def)

lemma ushr_exact [simp]: "exact (js_ushr x k)"
proof -
  have "- (2 ^ 32) \<le> x mod 2 ^ 32" by (rule order_trans [of _ 0]) simp_all
  then have "- (2 ^ 32) \<le> js_ushr x k \<and> js_ushr x k < 2 ^ 32" unfolding js_ushr_def by (rule div_range) simp_all
  then show ?thesis by (auto simp: exact_def)
qed

locale shift_code = long_code +
  assumes fun_sD: "p_fun p ''sD'' = Some sD_fun"
    and fun_tD: "p_fun p ''tD'' = Some tD_fun"
    and fun_uD: "p_fun p ''uD'' = Some uD_fun"
begin

lemma run_sD:
  assumes "masks_set s" "long_at s r x"
  shows "run p (Suc (Suc n)) ''sD'' t [JRef r, JNum k] s = Ok (JRef (j_next s)) (with_long s (sD x k))"
  using assms by (simp add: run_fun [OF fun_sD] sD_fun_def exec get_prop_def long_at_def long_obj_def
      glob_C glob_masks run_C sD_def count_exact del: run.simps)

lemma run_uD:
  assumes "masks_set s" "long_at s r x"
  shows "run p (Suc (Suc n)) ''uD'' t [JRef r, JNum k] s = Ok (JRef (j_next s)) (with_long s (uD x k))"
  using assms by (simp add: run_fun [OF fun_uD] uD_fun_def exec get_prop_def long_at_def long_obj_def
      glob_C glob_masks run_C uD_def count_exact del: run.simps)

lemma run_tD:
  assumes "shift_masks s" "long_at s r x"
  shows "run p (Suc (Suc n)) ''tD'' t [JRef r, JNum k] s = Ok (JRef (j_next s)) (with_long s (tD x k))"
proof -
  have "glob_val p ''tve'' s = Some (JNum 524288)" "masks_set s" using assms(1) by (simp_all add: shift_masks_def glob_val_def)
  then show ?thesis using assms(2) by (simp add: run_fun [OF fun_tD] tD_fun_def exec get_prop_def long_at_def long_obj_def
      glob_C glob_masks run_C tD_def count_exact del: run.simps)
qed

lemma code_shifts:
  assumes "shift_masks s" "long_at s r x"
  shows "gives_long s (run p (Suc (Suc n)) ''sD'' t [JRef r, JNum k] s) (push_bit (nat (k mod 64)) (bl_word x))"
    "gives_long s (run p (Suc (Suc n)) ''tD'' t [JRef r, JNum k] s) (signed_drop_bit (nat (k mod 64)) (bl_word x))"
    "gives_long s (run p (Suc (Suc n)) ''uD'' t [JRef r, JNum k] s) (drop_bit (nat (k mod 64)) (bl_word x))"
proof -
  have m: "masks_set s" "bl_ok x" using assms by (simp_all add: shift_masks_def long_at_def)
  show "gives_long s (run p (Suc (Suc n)) ''sD'' t [JRef r, JNum k] s) (push_bit (nat (k mod 64)) (bl_word x))"
    "gives_long s (run p (Suc (Suc n)) ''tD'' t [JRef r, JNum k] s) (signed_drop_bit (nat (k mod 64)) (bl_word x))"
    "gives_long s (run p (Suc (Suc n)) ''uD'' t [JRef r, JNum k] s) (drop_bit (nat (k mod 64)) (bl_word x))"
    unfolding gives_long_def run_sD [OF m(1) assms(2)] run_tD [OF assms] run_uD [OF m(1) assms(2)]
    using shift_words [OF m(2)] by blast+
qed

end

end
