(* ===== verification/ShiftLinks.thy ===== *)
theory ShiftLinks
  imports CodeLinks ShiftCode
begin

text \<open>
  The shifts of \<open>ShiftCode\<close> are functions of the worker, so the worker is a \<open>shift_code\<close>.
\<close>

lemma find_sD: "p_fun (worker_prog proto) ''sD'' = Some sD_fun"
proof -
  have "find_fn ''sD'' code_5045_5060 = Some sD_fun"
    by (simp add: code_5045_5060_def sD_fun_def find_fn_Cons del: find_fn.simps(2))
  note hit = find_fn_hit [OF this]
  show ?thesis by (rule worker_found, unfold worker_table_flat, simp add: find_fn_skip js_names hit)
qed

lemma find_tD: "p_fun (worker_prog proto) ''tD'' = Some tD_fun"
proof -
  have "find_fn ''tD'' code_5341_5348 = Some tD_fun"
    by (simp add: code_5341_5348_def tD_fun_def find_fn_Cons del: find_fn.simps(2))
  note hit = find_fn_hit [OF this]
  show ?thesis by (rule worker_found, unfold worker_table_flat, simp add: find_fn_skip js_names hit)
qed

lemma find_uD: "p_fun (worker_prog proto) ''uD'' = Some uD_fun"
proof -
  have "find_fn ''uD'' code_5092_5110 = Some uD_fun"
    by (simp add: code_5092_5110_def uD_fun_def find_fn_Cons del: find_fn.simps(2))
  note hit = find_fn_hit [OF this]
  show ?thesis by (rule worker_found, unfold worker_table_flat, simp add: find_fn_skip js_names hit)
qed

interpretation worker_shift: shift_code "worker_prog proto" for proto
  by unfold_locales (fact find_sD find_tD find_uD)+

text \<open>
  Claim C25. The functions of the worker that shift a long left, right with the sign and right with zeros, run
  on a long object of a store and any count, return a fresh object that holds the shift of the 64-bit word by
  the count modulo 64, and change nothing else.
\<close>

theorem shift_code_words:
  assumes "shift_masks s" "long_at s r x"
  shows "gives_long s (worker_run proto (Suc (Suc n)) ''sD'' [JRef r, JNum k] s) (push_bit (nat (k mod 64)) (bl_word x)) \<and>
    gives_long s (worker_run proto (Suc (Suc n)) ''tD'' [JRef r, JNum k] s) (signed_drop_bit (nat (k mod 64)) (bl_word x)) \<and>
    gives_long s (worker_run proto (Suc (Suc n)) ''uD'' [JRef r, JNum k] s) (drop_bit (nat (k mod 64)) (bl_word x))"
  by (intro conjI worker_shift.code_shifts [OF assms])

definition shift_st :: jst where
  "shift_st = two_longs\<lparr>j_glob := (j_glob two_longs)(''tve'' \<mapsto> JNum 524288)\<rparr>"

theorem shift_code_words_witness:
  "gives_long shift_st (worker_run (\<lambda>_ _. None) (Suc (Suc 0)) ''sD'' [JRef 0, JNum 66] shift_st) 28"
proof -
  have "shift_masks shift_st" "long_at shift_st 0 (C_create 7 0 0)"
    by (simp_all add: shift_st_def two_longs_def shift_masks_def masks_set_def long_at_def bl_ok_def)
  from shift_code_words [OF this, of "\<lambda>_ _. None" 0 66] show ?thesis by (simp add: bl_word_def iD_def push_bit_eq_mult)
qed

end
