(* ===== verification/GwtLongDivide.thy ===== *)
theory GwtLongDivide
  imports GwtLongShift "HOL-Library.Signed_Division"
begin

text \<open>
  The division of the 64-bit integers of the layout worker: \<open>aD\<close> with its cases \<open>bD\<close> (the divisor is the
  least number), \<open>cD\<close> (a power of two) and \<open>dD\<close> (long division bit by bit), and \<open>Qcb\<close> and \<open>Xcb\<close> on both
  kinds of longs. The remainder that \<open>aD\<close> leaves in the global \<open>YC\<close> is a second result. The results are the
  quotient truncated towards zero and its remainder, modulo \<open>2 ^ 64\<close>, as in Java.
\<close>

subsection \<open>Helpers of the division\<close>

text \<open>\<open>xfb\<close>: the number of leading zeros of a 32-bit integer.\<close>

definition xfb :: "int \<Rightarrow> int" where
  "xfb a =
     (if a < 0 then 0 else if a = 0 then 32
      else let d = - js_shr a 16; b = js_and (js_shr d 16) 16; c = 16 - b; a = js_shr a b;
               d = a - 256; b = js_and (js_shr d 16) 8; c = c + b; a = js_shl a b;
               d = a - 4096; b = js_and (js_shr d 16) 4; c = c + b; a = js_shl a b;
               d = a - 16384; b = js_and (js_shr d 16) 2; c = c + b; a = js_shl a b;
               d = js_shr a 14; b = js_and d (js_not (js_shr d 1))
           in c + 2 - b)"

text \<open>\<open>yfb\<close>: the number of trailing zeros. The loop does not end when no bit is found in 32 turns.\<close>

fun yfb_loop :: "nat \<Rightarrow> int \<Rightarrow> int \<Rightarrow> int \<Rightarrow> int option" where
  "yfb_loop 0 a b c = None"
| "yfb_loop (Suc n) a b c = (if js_and b a = 0 then yfb_loop n a (js_shl b 1) (c + 1) else Some c)"

definition yfb :: "int \<Rightarrow> int option" where
  "yfb a = (if a = 0 then Some 32 else yfb_loop 32 a 1 0)"

definition is_zero :: "blong \<Rightarrow> bool" where
  "is_zero a \<longleftrightarrow> bl_l a = 0 \<and> bl_m a = 0 \<and> bl_h a = 0"

definition is_least :: "blong \<Rightarrow> bool" where
  "is_least a \<longleftrightarrow> bl_h a = 524288 \<and> bl_m a = 0 \<and> bl_l a = 0"

definition gD :: "blong \<Rightarrow> int" where
  "gD a = (let c = xfb (bl_h a)
           in if c = 32 then let b = xfb (bl_m a) in if b = 32 then xfb (bl_l a) + 32 else b + 20 - 10
              else c - 12)"

text \<open>\<open>hD\<close>: the exponent of a power of two, or -1.\<close>

definition hD :: "blong \<Rightarrow> int option" where
  "hD a =
     (let c = bl_l a; d = bl_m a; b = bl_h a
      in if js_and c (c - 1) \<noteq> 0 then Some (- 1) else if js_and d (d - 1) \<noteq> 0 then Some (- 1)
         else if js_and b (b - 1) \<noteq> 0 then Some (- 1)
         else if b = 0 \<and> d = 0 \<and> c = 0 then Some (- 1)
         else if b = 0 \<and> d = 0 \<and> c \<noteq> 0 then yfb c
         else if b = 0 \<and> d \<noteq> 0 \<and> c = 0 then map_option (\<lambda>k. k + 22) (yfb d)
         else if b \<noteq> 0 \<and> d = 0 \<and> c = 0 then map_option (\<lambda>k. k + 44) (yfb b)
         else Some (- 1))"

text \<open>\<open>fD\<close> negates in place.\<close>

definition fD :: "blong \<Rightarrow> blong" where
  "fD a = (let b = js_and (js_not (bl_l a) + 1) 4194303;
               c = js_and (js_not (bl_m a) + (if b = 0 then 1 else 0)) 4194303;
               d = js_and (js_not (bl_h a) + (if b = 0 \<and> c = 0 then 1 else 0)) 1048575
           in C_create b c d)"

definition eD :: "blong \<Rightarrow> int \<Rightarrow> blong" where
  "eD a b =
     (if b \<le> 22 then C_create (js_and (bl_l a) (js_shl 1 b - 1)) 0 0
      else if b \<le> 44 then C_create (bl_l a) (js_and (bl_m a) (js_shl 1 (b - 22) - 1)) 0
      else C_create (bl_l a) (bl_m a) (js_and (bl_h a) (js_shl 1 (b - 44) - 1)))"

subsection \<open>The division\<close>

text \<open>The results of the cases are the quotient and what \<open>YC\<close> is set to.\<close>

definition bD :: "blong \<Rightarrow> bool \<Rightarrow> blong \<times> blong option" where
  "bD a b = (if is_least a then (ZC 1, if b then Some (C_create 0 0 0) else None)
             else (C_create 0 0 0, if b then Some a else None))"

definition cD :: "blong \<Rightarrow> int \<Rightarrow> bool \<Rightarrow> bool \<Rightarrow> bool \<Rightarrow> blong \<times> blong option" where
  "cD a b c d e = (let f = tD a b; f = (if c then fD f else f); a = eD a b
                   in (f, if e then Some (if d then pD a else a) else None))"

definition mark :: "int \<Rightarrow> blong \<Rightarrow> blong" where
  "mark j i = (if j < 22 then C_create (js_bor (bl_l i) (js_shl 1 j)) (bl_m i) (bl_h i)
               else if j < 44 then C_create (bl_l i) (js_bor (bl_m i) (js_shl 1 (j - 22))) (bl_h i)
               else C_create (bl_l i) (bl_m i) (js_bor (bl_h i) (js_shl 1 (j - 44))))"

definition halve :: "blong \<Rightarrow> blong" where
  "halve g = C_create (js_bor (js_ushr (bl_l g) 1) (js_shl (js_and (bl_m g) 1) 21))
               (js_bor (js_ushr (bl_m g) 1) (js_shl (js_and (bl_h g) 1) 21)) (js_ushr (bl_h g) 1)"

text \<open>The loop of \<open>dD\<close>, with \<open>j + 1\<close> turns left. The result is \<open>a\<close> and \<open>i\<close> afterwards.\<close>

fun dD_loop :: "nat \<Rightarrow> blong \<Rightarrow> blong \<Rightarrow> blong \<Rightarrow> blong \<times> blong" where
  "dD_loop 0 a g i = (a, i)"
| "dD_loop (Suc j) a g i =
     (let (h, a) = jD a g; i = (if h then mark (int j) i else i)
      in if h \<and> is_zero a then (a, i) else dD_loop j a (halve g) i)"

definition dD :: "blong \<Rightarrow> blong \<Rightarrow> bool \<Rightarrow> bool \<Rightarrow> bool \<Rightarrow> bool \<Rightarrow> blong \<times> blong option" where
  "dD a b c d e f =
     (let j = gD b - gD a; g = sD b j; (a, i) = dD_loop (nat (j + 1)) a g (C_create 0 0 0); i = (if c then fD i else i)
      in (i, if f then Some (if d then if e then vD (pD a) (ZC 1) else pD a else a) else None))"

datatype division = DivideByZero | Divided blong "blong option"

definition divided :: "blong \<times> blong option \<Rightarrow> division" where
  "divided r = Divided (fst r) (snd r)"

definition aD :: "blong \<Rightarrow> blong \<Rightarrow> bool \<Rightarrow> division option" where
  "aD a b c =
     (if is_zero b then Some DivideByZero
      else if is_zero a then Some (Divided (C_create 0 0 0) (if c then Some (C_create 0 0 0) else None))
      else if is_least b then Some (divided (bD a c))
      else
        (let bneg = js_shr (bl_h b) 19 \<noteq> 0; b = (if bneg then pD b else b); i = bneg
         in Option.bind (hD b) (\<lambda>g.
           if is_least a
           then if g = - 1
                then (let a = C_create 4194303 4194303 524287; i = (\<not> i)
                      in if mD a b < 0 then Some (Divided (C_create 0 0 0) (if c then Some (pD a) else None))
                         else Some (divided (dD a b i True True c)))
                else (let h = tD a g; h = (if i then fD h else h)
                      in Some (Divided h (if c then Some (C_create 0 0 0) else None)))
           else
             (let aneg = js_shr (bl_h a) 19 \<noteq> 0; a = (if aneg then pD a else a); i = (if aneg then \<not> i else i)
              in if g \<noteq> - 1 then Some (divided (cD a g i aneg c))
                 else if mD a b < 0 then Some (Divided (C_create 0 0 0) (if c then Some (if aneg then pD a else a) else None))
                 else Some (divided (dD a b i aneg False c))))))"

subsection \<open>Leading and trailing zeros\<close>

text \<open>The position of the first bit.\<close>

definition top_bit :: "int \<Rightarrow> nat \<Rightarrow> bool" where
  "top_bit a k \<longleftrightarrow> 2 ^ k \<le> a \<and> a < 2 ^ Suc k"

lemma top_bit_unique:
  assumes "top_bit a k"
  shows "2 ^ m \<le> a \<longleftrightarrow> m \<le> k"
proof (cases "m \<le> k")
  case True
  then have "(2::int) ^ m \<le> 2 ^ k" by simp
  then show ?thesis using True assms unfolding top_bit_def by linarith
next
  case False
  then have "(2::int) ^ Suc k \<le> 2 ^ m" by (intro power_increasing) simp_all
  then show ?thesis using False assms unfolding top_bit_def by linarith
qed

lemma top_bit_exists:
  assumes "0 < a"
  shows "\<exists>k. top_bit a k"
proof -
  have "1 \<le> nat a" using assms by simp
  from ex_power_ivl1 [OF order_refl this] obtain k :: nat where "2 ^ k \<le> nat a" "nat a < 2 ^ (k + 1)" by blast
  then have "int (2 ^ k) \<le> a" "a < int (2 ^ (k + 1))" using assms by linarith+
  then show ?thesis by (auto simp: top_bit_def)
qed

lemma top_bit_shift: "top_bit a k \<Longrightarrow> top_bit (a * 2 ^ n) (k + n)"
  by (simp add: top_bit_def power_add)

lemma top_bit_div:
  assumes "top_bit a (k + n)"
  shows "top_bit (a div 2 ^ n) k"
proof -
  have "2 ^ k * 2 ^ n \<le> a" "a < 2 ^ Suc k * 2 ^ n" using assms by (simp_all add: top_bit_def power_add)
  then have "(2 ^ k * 2 ^ n) div 2 ^ n \<le> a div 2 ^ n" by (intro zdiv_mono1) simp_all
  moreover have "a div 2 ^ n < 2 ^ Suc k"
  proof (rule ccontr)
    assume "\<not> a div 2 ^ n < 2 ^ Suc k"
    then have "2 ^ Suc k * 2 ^ n \<le> a div 2 ^ n * 2 ^ n" by (intro mult_right_mono) simp_all
    moreover have "0 \<le> a mod 2 ^ n" by simp
    then have "a div 2 ^ n * 2 ^ n \<le> a" using minus_mod_eq_div_mult [of a "2 ^ n"] by linarith
    ultimately show False using \<open>a < 2 ^ Suc k * 2 ^ n\<close> by linarith
  qed
  ultimately show ?thesis by (simp add: top_bit_def)
qed

lemma top_bit_le: "top_bit a k \<Longrightarrow> a < 2 ^ n \<Longrightarrow> k < n"
  using top_bit_unique [of a k n] by (meson linorder_not_less)

lemma neg_div: "- 65536 \<le> x \<Longrightarrow> x < 0 \<Longrightarrow> x div 65536 = (- 1 :: int)"
  by (rule int_div_pos_eq [of _ _ _ "x + 65536"]) simp_all

text \<open>A step of \<open>xfb\<close>: when the bit is below position \<open>q\<close> the number moves up by \<open>n\<close>.\<close>

lemma xfb_step:
  assumes "top_bit a k" "k < 16" "q < 16" "n = 8 \<or> n = 4 \<or> n = (2::nat)" "q + n \<le> 16"
  shows "js_and (js_shr (a - 2 ^ q) 16) (int n) = (if k < q then int n else 0)"
    "top_bit (if k < q then js_shl a (int n) else a) (if k < q then k + n else k)"
proof -
  have "(2::int) ^ Suc k \<le> 2 ^ 16" using assms(2) by (intro power_increasing) simp_all
  then have a: "0 < a" "a < 65536" using assms(1) by (auto simp: top_bit_def intro: less_le_trans [of 0 "2 ^ k"])
  have "(2::int) ^ q \<le> 2 ^ 15" using assms(3) by (intro power_increasing) simp_all
  then have "(2::int) ^ q \<le> 32768" by simp
  moreover have "(0::int) < 2 ^ q" by simp
  ultimately have d: "- 65536 \<le> a - 2 ^ q" "a - 2 ^ q < 65536" using a by linarith+
  have "k < q \<longleftrightarrow> a - 2 ^ q < 0" using top_bit_unique [OF assms(1), of q] by auto
  moreover have "js_shr (a - 2 ^ q) 16 = (if a - 2 ^ q < 0 then - 1 else 0)" using d by (simp add: js_shr_id neg_div)
  moreover have "js_and (- 1) (int n) = int n" "js_and 0 (int n) = 0" using assms(4) by (auto simp: js_and_def to_int32_def)
  ultimately show "js_and (js_shr (a - 2 ^ q) 16) (int n) = (if k < q then int n else 0)" by simp
  have "js_shl a (int n) = a * 2 ^ n" using a assms(4) by (auto simp: js_shl_id)
  then show "top_bit (if k < q then js_shl a (int n) else a) (if k < q then k + n else k)"
    using assms(1) top_bit_shift by simp
qed

lemma xfb_top:
  assumes "top_bit a k" "k < 31"
  shows "xfb a = 31 - int k"
proof -
  have "(2::int) ^ Suc k \<le> 2 ^ 31" using assms(2) by (intro power_increasing) simp_all
  then have a: "0 < a" "a < 2 ^ 31" using assms(1) by (auto simp: top_bit_def intro: less_le_trans [of 0 "2 ^ k"])
  define b1 where "b1 = js_and (js_shr (- js_shr a 16) 16) 16"
  define a1 where "a1 = js_shr a b1"
  define k1 where "k1 = (if 16 \<le> k then k - 16 else k)"
  have "js_shr a 16 = a div 65536" using a by (simp add: js_shr_id)
  moreover have "a div 65536 = 0 \<longleftrightarrow> k < 16" "0 \<le> a div 65536" "a div 65536 < 2 ^ 15"
    using a top_bit_unique [OF assms(1), of 16] by auto
  moreover have "- x div 65536 = - 1" if "0 < x" "x < 2 ^ 15" for x :: int using that neg_div [of "- x"] by simp
  moreover have "js_and (- 1) 16 = 16" "js_and 0 16 = 0" by (simp_all add: js_and_def to_int32_def)
  ultimately have b1: "b1 = (if k < 16 then 0 else 16)" unfolding b1_def
    by (cases "k < 16") (simp_all add: js_shr_id)
  have t1: "top_bit a1 k1" "k1 < 16"
  proof -
    have "a1 = (if k < 16 then a else a div 2 ^ 16)" using a by (simp add: a1_def b1 js_shr_id)
    then show "top_bit a1 k1" using assms top_bit_div [of a "k - 16" 16] by (auto simp: k1_def)
    show "k1 < 16" using assms(2) unfolding k1_def by arith
  qed
  define b2 where "b2 = js_and (js_shr (a1 - 256) 16) 8"
  define a2 where "a2 = js_shl a1 b2"
  define k2 where "k2 = (if k1 < 8 then k1 + 8 else k1)"
  define b3 where "b3 = js_and (js_shr (a2 - 4096) 16) 4"
  define a3 where "a3 = js_shl a2 b3"
  define k3 where "k3 = (if k2 < 12 then k2 + 4 else k2)"
  define b4 where "b4 = js_and (js_shr (a3 - 16384) 16) 2"
  define a4 where "a4 = js_shl a3 b4"
  define k4 where "k4 = (if k3 < 14 then k3 + 2 else k3)"
  have k: "8 \<le> k2" "k2 < 16" "12 \<le> k3" "k3 < 16" "14 \<le> k4" "k4 < 16"
    using t1(2) unfolding k4_def k3_def k2_def by (simp_all split: if_splits)
  have z: "js_shl x 0 = x" if "top_bit x m" "m < 16" for x m
  proof -
    have "(2::int) ^ Suc m \<le> 2 ^ 16" using that(2) by (intro power_increasing) simp_all
    then have "0 \<le> x" "x < 2 ^ 31" using that(1) by (auto simp: top_bit_def intro: order_trans [of 0 "2 ^ m"])
    then show ?thesis by (simp add: js_shl_id)
  qed
  note s2 = xfb_step [OF t1, of 8 8, simplified]
  have b2: "b2 = (if k1 < 8 then 8 else 0)" using s2(1) by (simp add: b2_def)
  have t2: "top_bit a2 k2" using s2(2) z [OF t1] by (simp add: a2_def b2 k2_def split: if_splits)
  note s3 = xfb_step [OF t2 k(2), of 12 4, simplified]
  have b3: "b3 = (if k2 < 12 then 4 else 0)" using s3(1) by (simp add: b3_def)
  have t3: "top_bit a3 k3" using s3(2) z [OF t2 k(2)] by (simp add: a3_def b3 k3_def split: if_splits)
  note s4 = xfb_step [OF t3 k(4), of 14 2, simplified]
  have b4: "b4 = (if k3 < 14 then 2 else 0)" using s4(1) by (simp add: b4_def)
  have t4: "top_bit a4 k4" using s4(2) z [OF t3 k(4)] by (simp add: a4_def b4 k4_def split: if_splits)
  have "k4 = 14 \<or> k4 = 15" using k(5,6) by linarith
  then have "js_and (js_shr a4 14) (js_not (js_shr (js_shr a4 14) 1)) = int k4 - 13"
  proof
    assume "k4 = 14"
    then have "a4 div 16384 = 1" using t4 by (intro int_div_pos_eq [of _ _ _ "a4 - 16384"]) (simp_all add: top_bit_def)
    then have "js_shr a4 14 = 1" using t4 \<open>k4 = 14\<close> by (simp add: top_bit_def js_shr_id)
    with \<open>k4 = 14\<close> show ?thesis by (simp add: js_and_def js_not_def js_shr_def to_int32_def)
  next
    assume "k4 = 15"
    then have r: "32768 \<le> a4" "a4 < 65536" using t4 by (simp_all add: top_bit_def)
    then have "a4 div 16384 = (if a4 < 49152 then 2 else 3)"
      by (intro int_div_pos_eq [of _ _ _ "if a4 < 49152 then a4 - 32768 else a4 - 49152"]) simp_all
    then have "js_shr a4 14 = 2 \<or> js_shr a4 14 = 3" using r by (simp add: js_shr_id)
    with \<open>k4 = 15\<close> show ?thesis by (auto simp: js_and_def js_not_def js_shr_def to_int32_def)
  qed
  then have "xfb a = (16 - b1) + b2 + b3 + b4 + 2 - (int k4 - 13)" using a
    by (simp add: xfb_def Let_def b1_def [symmetric] a1_def [symmetric] b2_def [symmetric] a2_def [symmetric]
        b3_def [symmetric] a3_def [symmetric] b4_def [symmetric] a4_def [symmetric])
  then show ?thesis unfolding b1 b2 b3 b4 k4_def k3_def k2_def k1_def by (simp split: if_splits)
qed

lemma top_bit_eq: "top_bit a k \<Longrightarrow> top_bit a m \<Longrightarrow> k = m"
  using top_bit_unique [of a k m] top_bit_unique [of a m k] by (auto simp: top_bit_def)

lemma top_bit_low:
  assumes "top_bit h m" "0 \<le> r" "r < 2 ^ n"
  shows "top_bit (r + h * 2 ^ n) (n + m)"
proof -
  have "2 ^ m * 2 ^ n \<le> h * 2 ^ n" using assms(1) by (intro mult_right_mono) (simp_all add: top_bit_def)
  moreover have "(h + 1) * 2 ^ n \<le> 2 ^ Suc m * 2 ^ n" using assms(1) by (intro mult_right_mono) (simp_all add: top_bit_def)
  then have "h * 2 ^ n + 2 ^ n \<le> 2 * (2 ^ m * 2 ^ n)" by (simp add: algebra_simps)
  ultimately have "2 ^ m * 2 ^ n \<le> r + h * 2 ^ n" "r + h * 2 ^ n < 2 * (2 ^ m * 2 ^ n)" using assms(2,3) by linarith+
  then show ?thesis by (simp add: top_bit_def power_add mult.commute)
qed

lemma gD_top:
  assumes "bl_ok a" "top_bit (iD a) k"
  shows "gD a = 63 - int k"
proof -
  from assms(1) have r: "0 \<le> bl_l a" "bl_l a < 2 ^ 22" "0 \<le> bl_m a" "bl_m a < 2 ^ 22" "0 \<le> bl_h a" "bl_h a < 2 ^ 20"
    by (simp_all add: bl_ok_def)
  have i: "iD a = (bl_l a + bl_m a * 2 ^ 22) + bl_h a * 2 ^ 44" by (simp add: iD_def)
  have zero: "xfb 0 = 32" by (simp add: xfb_def)
  have "0 < iD a" using assms(2) by (auto simp: top_bit_def intro: less_le_trans [of 0 "2 ^ k"])
  then consider "0 < bl_h a" | "bl_h a = 0" "0 < bl_m a" | "bl_h a = 0" "bl_m a = 0" "0 < bl_l a"
    using r unfolding i by fastforce
  then show ?thesis
  proof cases
    case 1
    then obtain m where m: "top_bit (bl_h a) m" using top_bit_exists by blast
    have "m < 20" by (rule top_bit_le [OF m r(6)])
    moreover have "top_bit (iD a) (44 + m)" unfolding i using r by (intro top_bit_low [OF m]) simp_all
    ultimately show ?thesis using xfb_top [OF m] top_bit_eq [OF assms(2)] by (simp add: gD_def)
  next
    case 2
    then obtain m where m: "top_bit (bl_m a) m" using top_bit_exists by blast
    have "m < 22" by (rule top_bit_le [OF m r(4)])
    moreover have "top_bit (bl_l a + bl_m a * 2 ^ 22) (22 + m)" using r by (intro top_bit_low [OF m]) simp_all
    ultimately show ?thesis using xfb_top [OF m] top_bit_eq [OF assms(2)] 2 zero by (simp add: gD_def i)
  next
    case 3
    then obtain m where m: "top_bit (bl_l a) m" using top_bit_exists by blast
    have "m < 22" by (rule top_bit_le [OF m r(2)])
    then show ?thesis using xfb_top [OF m] top_bit_eq [OF assms(2)] m 3 zero by (simp add: gD_def i)
  qed
qed

subsection \<open>Long division\<close>

lemma or_low: "0 \<le> x \<Longrightarrow> x < 2 ^ n \<Longrightarrow> n \<le> 30 \<Longrightarrow> 0 \<le> y \<Longrightarrow> y \<le> 1 \<Longrightarrow> js_bor x (js_shl y (int n)) = x + y * 2 ^ n"
proof -
  assume a: "0 \<le> x" "x < 2 ^ n" "n \<le> 30" "0 \<le> y" "y \<le> 1"
  have "(2::int) ^ n \<le> 2 ^ 30" using a(3) by (intro power_increasing) simp_all
  moreover have "y = 0 \<or> y = 1" using a by linarith
  ultimately have b: "y * 2 ^ n < 2 ^ 31" "x < 2 ^ 31" "0 \<le> y * 2 ^ n" using a by auto
  have "to_int32 (y * 2 ^ n) = y * 2 ^ n" by (rule to_int32_id) (use b in linarith)+
  moreover have "js_shl y (int n) = y * 2 ^ n" using b a(3,4) by (intro js_shl_id [of y "int n", simplified]) simp_all
  moreover have "to_int32 x = x" by (rule to_int32_id) (use b a(1) in linarith)+
  ultimately show ?thesis using a or_disjoint [of x n y] by (simp add: js_bor_def mult.commute)
qed

lemma halve_sum: "l = 2 * ld + lm \<Longrightarrow> m = 2 * md + mm \<Longrightarrow> h = 2 * hq + hm \<Longrightarrow>
    l + m * 4194304 + h * 17592186044416 =
      2 * (ld + mm * 2097152 + (md + hm * 2097152) * 4194304 + hq * 17592186044416) + (lm :: int)"
  by simp

lemma halve_half:
  assumes "bl_ok g"
  shows "bl_ok (halve g)" "iD (halve g) = iD g div 2"
proof -
  from assms have r: "0 \<le> bl_l g" "bl_l g < 4194304" "0 \<le> bl_m g" "bl_m g < 4194304" "0 \<le> bl_h g" "bl_h g < 1048576"
    by (simp_all add: bl_ok_def)
  have u: "js_ushr x 1 = x div 2" if "0 \<le> x" "x < 4194304" for x using that by (simp add: js_ushr_def)
  have o: "js_and x 1 = x mod 2" for x using js_and_mask [of 1 x] by simp
  have b: "js_bor (x div 2) (js_shl (y mod 2) 21) = x div 2 + y mod 2 * 2097152" if "0 \<le> x" "x < 4194304" for x y
    using or_low [of "x div 2" 21 "y mod 2"] that by simp
  have h: "halve g = C_create (bl_l g div 2 + bl_m g mod 2 * 2097152) (bl_m g div 2 + bl_h g mod 2 * 2097152) (bl_h g div 2)"
    using r by (simp add: halve_def u o b)
  have split: "x = 2 * (x div 2) + x mod 2" "0 \<le> x mod 2" "x mod 2 \<le> 1" for x :: int by simp_all
  have d: "0 \<le> bl_l g div 2" "bl_l g div 2 < 2097152" "0 \<le> bl_m g div 2" "bl_m g div 2 < 2097152" "0 \<le> bl_h g div 2" "bl_h g div 2 < 1048576"
    using r by simp_all
  then show "bl_ok (halve g)" using split(2,3) [of "bl_m g"] split(2,3) [of "bl_h g"] unfolding h bl_ok_def create_fields by linarith
  have "iD g = 2 * iD (halve g) + bl_l g mod 2" unfolding h iD_def create_fields
    by (rule halve_sum; rule split(1))
  then show "iD (halve g) = iD g div 2" by simp
qed

text \<open>Setting the next bit of the quotient.\<close>

lemma set_low:
  assumes "0 \<le> x" "x < 2 ^ n" "k < n" "n \<le> 30" "2 ^ Suc k dvd x"
  shows "js_bor x (js_shl 1 (int k)) = x + 2 ^ k" "x + 2 ^ k < 2 ^ n"
proof -
  from assms(5) obtain y where y: "x = 2 ^ Suc k * y" by blast
  have "(2::int) ^ n = 2 ^ Suc k * 2 ^ (n - Suc k)" using assms(3) by (simp flip: power_Suc power_add)
  then have "2 ^ Suc k * y < 2 ^ Suc k * 2 ^ (n - Suc k)" using assms(2) y by simp
  then have "y + 1 \<le> 2 ^ (n - Suc k)" by simp
  then have "2 ^ Suc k * (y + 1) \<le> 2 ^ Suc k * 2 ^ (n - Suc k)" by (intro mult_left_mono) simp_all
  then have top: "x + 2 ^ Suc k \<le> 2 ^ n" using y \<open>(2::int) ^ n = _\<close> by (simp add: algebra_simps)
  then show "x + 2 ^ k < 2 ^ n" by (simp add: algebra_simps) (use zero_less_power [of "2::int" k] in linarith)
  have "(2::int) ^ n \<le> 2 ^ 30" using assms(4) by (intro power_increasing) simp_all
  moreover have "(2::int) ^ k \<le> 2 ^ 30" using assms(3,4) by (intro power_increasing) simp_all
  moreover have "(0::int) < 2 ^ k" by simp
  ultimately have b: "x < 2 ^ 31" "(2::int) ^ k < 2 ^ 31" using assms(2) by (simp_all; linarith)+
  have "js_shl 1 (int k) = 2 ^ k" using assms(3,4) b(2) js_shl_id [of 1 "int k"] by simp
  moreover have "to_int32 x = x" "to_int32 (2 ^ k) = 2 ^ k"
    using b assms(1) \<open>(0::int) < 2 ^ k\<close> by (intro to_int32_id; linarith)+
  moreover have "Bit_Operations.or x (2 ^ k) = x + 2 ^ k"
    using or_disjoint [of "2 ^ k" "Suc k" y] y by (simp add: or.commute add.commute)
  ultimately show "js_bor x (js_shl 1 (int k)) = x + 2 ^ k" by (simp add: js_bor_def)
qed

lemma mark_adds:
  assumes "bl_ok i" "2 ^ Suc j dvd iD i" "j < 64"
  shows "bl_ok (mark (int j) i)" "iD (mark (int j) i) = iD i + 2 ^ j"
proof -
  from assms(1) have r: "0 \<le> bl_l i" "bl_l i < 2 ^ 22" "0 \<le> bl_m i" "bl_m i < 2 ^ 22" "0 \<le> bl_h i" "bl_h i < 2 ^ 20"
    by (simp_all add: bl_ok_def)
  have i: "iD i = bl_l i + 2 ^ 22 * (bl_m i + 2 ^ 22 * bl_h i)" by (simp add: iD_def)
  have low: "2 ^ n dvd x" if "2 ^ n dvd x + 2 ^ k * y" "n \<le> k" for n k and x y :: int
  proof -
    have "(2::int) ^ n dvd 2 ^ k * y" using that(2) by (intro dvd_mult2 le_imp_power_dvd)
    then show ?thesis using that(1) by (simp add: dvd_add_left_iff)
  qed
  have zero: "x = 0" if "2 ^ n dvd x" "0 \<le> x" "x < 2 ^ n" for n and x :: int
    using that zdvd_not_zless [of x "2 ^ n"] by fastforce
  have up: "2 ^ (n - k) dvd y" if "2 ^ n dvd 2 ^ k * y" "k \<le> n" for n k and y :: int
  proof -
    have "(2::int) ^ n = 2 ^ k * 2 ^ (n - k)" using that(2) by (simp flip: power_add)
    then show ?thesis using that(1) by simp
  qed
  have "bl_ok (mark (int j) i) \<and> iD (mark (int j) i) = iD i + 2 ^ j"
  proof -
    consider "j < 22" | k where "j = 22 + k" "k < 22" | k where "j = 44 + k" "k < 20"
      using assms(3) by (rule count_cases)
    then show ?thesis
    proof cases
      case 1
      then have "2 ^ Suc j dvd bl_l i" by (intro low [OF assms(2) [unfolded i]]) simp
      from set_low [OF r(1,2) 1 _ this] show ?thesis using r 1 by (simp add: mark_def bl_ok_def iD_def)
    next
      case (2 k)
      have "2 ^ 22 dvd bl_l i" using 2 by (intro low [OF power_le_dvd [OF assms(2) [unfolded i]]]) simp_all
      then have l: "bl_l i = 0" using zero r(1,2) by blast
      have "2 ^ (Suc j - 22) dvd bl_m i + 2 ^ 22 * bl_h i" by (rule up) (use assms(2) [unfolded i l] 2 in simp_all)
      then have s: "2 ^ Suc k dvd bl_m i + 2 ^ 22 * bl_h i" using 2 by (simp add: Suc_diff_le del: power_Suc)
      have "2 ^ Suc k dvd bl_m i" using 2 by (intro low [OF s]) simp
      from set_low [OF r(3,4) 2(2) _ this] show ?thesis using r 2 by (simp add: mark_def bl_ok_def iD_def power_add algebra_simps)
    next
      case (3 k)
      have "2 ^ 22 dvd bl_l i" using 3 by (intro low [OF power_le_dvd [OF assms(2) [unfolded i]]]) simp_all
      then have l: "bl_l i = 0" using zero r(1,2) by blast
      have "2 ^ (Suc j - 22) dvd bl_m i + 2 ^ 22 * bl_h i" by (rule up) (use assms(2) [unfolded i l] 3 in simp_all)
      then have s: "2 ^ (22 + Suc k) dvd bl_m i + 2 ^ 22 * bl_h i" using 3 by (simp add: Suc_diff_le del: power_Suc)
      have "2 ^ 22 dvd bl_m i" by (intro low [OF power_le_dvd [OF s]]) simp_all
      then have m: "bl_m i = 0" using zero r(3,4) by blast
      have "2 ^ (22 + Suc k - 22) dvd bl_h i" by (rule up) (use s [unfolded m] in simp_all)
      then have "2 ^ Suc k dvd bl_h i" by simp
      from set_low [OF r(5,6) 3(2) _ this] show ?thesis using r 3 l m by (simp add: mark_def bl_ok_def iD_def power_add algebra_simps)
    qed
  qed
  then show "bl_ok (mark (int j) i)" "iD (mark (int j) i) = iD i + 2 ^ j" by simp_all
qed

lemma iD_zero: "bl_ok a \<Longrightarrow> is_zero a \<longleftrightarrow> iD a = 0"
  by (auto simp: is_zero_def iD_def bl_ok_def)

lemma dD_loop_divides:
  assumes "bl_ok a" "bl_ok g" "bl_ok i" "n \<le> 64" "0 < B" "n > 0 \<Longrightarrow> iD g = B * 2 ^ (n - 1)" "iD a < B * 2 ^ n" "2 ^ n dvd iD i"
    "dD_loop n a g i = (a', i')"
  shows "bl_ok a' \<and> bl_ok i' \<and> iD a' = iD a mod B \<and> iD i' = iD i + iD a div B"
  using assms
proof (induction n a g i rule: dD_loop.induct)
  case (1 a g i)
  then show ?case using iD_range(1) [of a] by simp
next
  case (2 j a g i)
  obtain h a1 where ja: "jD a g = (h, a1)" by fastforce
  define i1 where "i1 = (if h then mark (int j) i else i)"
  have g: "iD g = B * 2 ^ j" using 2(7) by simp
  have j: "h = (iD g \<le> iD a)" "bl_ok a1" "iD a1 = (if h then iD a - iD g else iD a)"
    using jD_sub [OF 2(2,3)] by (simp_all add: ja)
  have i1: "bl_ok i1" "iD i1 = (if h then iD i + 2 ^ j else iD i)"
    using mark_adds [OF 2(4,9)] 2(4,5) by (auto simp: i1_def)
  have lt: "iD a1 < B * 2 ^ j" using 2(8) g j(1,3) by (cases h) simp_all
  have split: "iD a mod B = iD a1 mod B" "iD a div B = iD a1 div B + (if h then 2 ^ j else 0)"
  proof -
    have "iD a = iD a1 + (if h then 2 ^ j else 0) * B" using j(3) g by (simp add: mult.commute)
    then show "iD a mod B = iD a1 mod B" "iD a div B = iD a1 div B + (if h then 2 ^ j else 0)" using 2(6) by (simp_all del: mult_eq_0_iff)
  qed
  have unf: "dD_loop (Suc j) a g i = (if h \<and> is_zero a1 then (a1, i1) else dD_loop j a1 (halve g) i1)"
    by (simp add: ja i1_def Let_def)
  show ?case
  proof (cases "h \<and> is_zero a1")
    case True
    then have "a' = a1" "i' = i1" using 2(10) unfolding unf by simp_all
    moreover have "iD a1 = 0" using True iD_zero [OF j(2)] by simp
    ultimately show ?thesis using True split j(2) i1 by simp
  next
    case False
    have dv: "2 ^ j dvd iD i1" using 2(9) i1(2) by (auto intro: dvd_add dest: power_le_dvd [of _ "Suc j" _ j])
    have hv: "0 < j \<Longrightarrow> iD (halve g) = B * 2 ^ (j - 1)"
      using halve_half(2) [OF 2(3)] g by (cases j) simp_all
    have "bl_ok a' \<and> bl_ok i' \<and> iD a' = iD a1 mod B \<and> iD i' = iD i1 + iD a1 div B"
      using 2(1) [OF refl ja [symmetric] i1_def False j(2) halve_half(1) [OF 2(3)] i1(1) _ 2(6) hv lt dv] 2(5,10) False
      unfolding unf by simp
    then show ?thesis using split i1(2) by simp
  qed
qed

lemma sD_exact: "bl_ok b \<Longrightarrow> n < 64 \<Longrightarrow> iD b * 2 ^ n < 2 ^ 64 \<Longrightarrow> bl_ok (sD b (int n)) \<and> iD (sD b (int n)) = iD b * 2 ^ n"
proof -
  assume a: "bl_ok b" "n < 64" "iD b * 2 ^ n < 2 ^ 64"
  have s: "bl_ok (sD b (int n))" "bl_word (sD b (int n)) = push_bit n (bl_word b)"
    using sD_parts [OF a(1,2), of "int n"] a(2) by (simp_all add: js_masks)
  have "bl_word (sD b (int n)) = word_of_int (iD b * 2 ^ n)" unfolding s(2) by (simp add: bl_word_def push_bit_eq_mult)
  moreover have "uint (word_of_int (iD b * 2 ^ n) :: 64 word) = iD b * 2 ^ n"
    unfolding uint_word_of_int_eq by (rule take_bit_int_eq_self) (use a(3) iD_range(1) [OF a(1)] in simp_all)
  ultimately show ?thesis using s(1) uint_bl_word [OF s(1)] by simp
qed

lemma dD_start:
  assumes "bl_ok a" "bl_ok b" "0 < iD b" "iD b \<le> iD a"
    "dD_loop (nat (gD b - gD a + 1)) a (sD b (gD b - gD a)) (C_create 0 0 0) = (a', i')"
  shows "bl_ok a'" "bl_ok i'" "iD a' = iD a mod iD b" "iD i' = iD a div iD b"
proof -
  obtain k where k: "top_bit (iD a) k" using top_bit_exists [of "iD a"] assms(3,4) by auto
  obtain m where m: "top_bit (iD b) m" using top_bit_exists assms(3) by blast
  have "k < 64" by (rule top_bit_le [OF k iD_range(2) [OF assms(1)]])
  have mk: "m \<le> k" using top_bit_unique [OF k, of m] m assms(4) unfolding top_bit_def by linarith
  define j where "j = k - m"
  have j: "gD b - gD a = int j" "j < 64" using mk \<open>k < 64\<close> by (simp_all add: gD_top [OF assms(1) k] gD_top [OF assms(2) m] j_def)
  have km: "k = m + j" using mk by (simp add: j_def)
  have t: "top_bit (iD b * 2 ^ j) k" unfolding km by (rule top_bit_shift [OF m])
  have "(2::int) ^ Suc k \<le> 2 ^ 64" using \<open>k < 64\<close> by (intro power_increasing) simp_all
  then have "iD b * 2 ^ j < 2 ^ 64" using t by (simp add: top_bit_def)
  note s = sD_exact [OF assms(2) j(2) this]
  have lt: "iD a < iD b * 2 ^ Suc j" using k t unfolding top_bit_def by simp
  have "nat (int j + 1) = Suc j" by simp
  then have run: "dD_loop (Suc j) a (sD b (int j)) (C_create 0 0 0) = (a', i')" using assms(5) unfolding j(1) by simp
  have "bl_ok a' \<and> bl_ok i' \<and> iD a' = iD a mod iD b \<and> iD i' = iD (C_create 0 0 0) + iD a div iD b"
    using j(2) s lt by (intro dD_loop_divides [OF assms(1) _ _ _ assms(3) _ _ _ run]) (simp_all add: bl_ok_def iD_def)
  then show "bl_ok a'" "bl_ok i'" "iD a' = iD a mod iD b" "iD i' = iD a div iD b" by (simp_all add: iD_def)
qed

subsection \<open>Powers of two\<close>

lemma and_pred: "0 < x \<Longrightarrow> Bit_Operations.and x (x - 1) = 0 \<longleftrightarrow> (\<exists>k. x = 2 ^ k)" for x :: int
proof (induction "nat x" arbitrary: x rule: less_induct)
  case less
  show ?case
  proof (cases "even x")
    case True
    then obtain y where y: "x = 2 * y" by blast
    have "Bit_Operations.and x (x - 1) = 2 * Bit_Operations.and y (y - 1)"
    proof -
      have "x - 1 = 2 * (y - 1) + 1" using y by simp
      then have "(x - 1) div 2 = y - 1" "x div 2 = y" using y by simp_all
      then show ?thesis using True by (subst and_rec) simp
    qed
    moreover have "(\<exists>k. x = 2 ^ k) \<longleftrightarrow> (\<exists>k. y = 2 ^ k)"
    proof
      assume "\<exists>k. x = 2 ^ k"
      then obtain k where "2 * y = 2 ^ k" using y by auto
      then show "\<exists>k. y = 2 ^ k" by (cases k) (simp_all; presburger)+
    next
      assume "\<exists>k. y = 2 ^ k"
      then show "\<exists>k. x = 2 ^ k" using y by (metis power_Suc)
    qed
    ultimately show ?thesis using less.hyps [of y] less.prems y by simp
  next
    case False
    then have "Bit_Operations.and x (x - 1) = x - 1"
      by (intro bit_eqI) (auto simp: bit_and_iff even_bit_succ_iff [of "x - 1", simplified])
    moreover have "(\<exists>k. x = 2 ^ k) \<longleftrightarrow> x = 1" using False by (auto simp: even_power elim!: exE) (metis power_0)
    ultimately show ?thesis by simp
  qed
qed

lemma yfb_power: "k < 31 \<Longrightarrow> yfb (2 ^ k) = Some (int k)"
proof -
  assume k: "k < 31"
  have small: "(2::int) ^ c < 2 ^ 31" if "c < 31" for c using that by (intro power_strict_increasing) simp_all
  have id: "to_int32 (2 ^ c) = 2 ^ c" if "c < 31" for c using small [OF that] by (intro to_int32_id) (auto intro: order_trans [of _ 0])
  have loop: "yfb_loop n (2 ^ k) (2 ^ c) (int c) = Some (int k)" if "c \<le> k" "k - c < n" for c n
    using that
  proof (induction n arbitrary: c)
    case (Suc n)
    show ?case
    proof (cases "c = k")
      case True
      then show ?thesis using k by (simp add: js_and_def id)
    next
      case False
      then have c: "c < k" using Suc.prems by simp
      have "Bit_Operations.and (2 ^ c) (2 ^ k) = (0 :: int)" using c by (auto intro!: bit_eqI simp: bit_and_iff bit_exp_iff)
      moreover have "js_shl (2 ^ c) 1 = 2 ^ Suc c" using c k small [of "Suc c"] js_shl_id [of "2 ^ c" 1] by (simp add: mult.commute)
      ultimately show ?thesis using Suc.IH [of "Suc c"] Suc.prems c k by (simp add: js_and_def id add.commute)
    qed
  qed simp
  show ?thesis using loop [of 0 32] k by (simp add: yfb_def)
qed

lemma part_test:
  assumes "0 \<le> x" "x < 4194304"
  shows "js_and x (x - 1) = 0 \<longleftrightarrow> x = 0 \<or> (\<exists>k < 22. x = 2 ^ k)"
proof (cases "x = 0")
  case False
  then have "js_and x (x - 1) = Bit_Operations.and x (x - 1)" using assms by (simp add: js_and_def to_int32_id)
  moreover have "k < 22" if "x = 2 ^ k" for k using assms(2) that top_bit_le [of x k 22] by (simp add: top_bit_def)
  ultimately show ?thesis using False assms and_pred [of x] by auto
qed (simp add: js_and_def to_int32_def)

lemma iD_inject: "bl_ok a \<Longrightarrow> bl_ok b \<Longrightarrow> iD a = iD b \<Longrightarrow> a = b"
  by (rule bl_word_inject) (simp_all add: bl_word_def)

lemma power_parts:
  assumes "bl_ok b" "iD b = 2 ^ k"
  obtains "k < 22" "b = C_create (2 ^ k) 0 0" | j where "k = 22 + j" "j < 22" "b = C_create 0 (2 ^ j) 0"
    | j where "k = 44 + j" "j < 20" "b = C_create 0 0 (2 ^ j)"
proof -
  have p: "(2::int) ^ m < 2 ^ n" if "m < n" for m n :: nat using that by simp
  have "k < 64" using top_bit_le [of "iD b" k 64] iD_range(2) [OF assms(1)] assms(2) by (simp add: top_bit_def)
  then show thesis
  proof (cases rule: count_cases)
    case 1
    then have "b = C_create (2 ^ k) 0 0"
      by (intro iD_inject [OF assms(1)]) (use p [OF 1] assms(2) in \<open>simp_all add: bl_ok_def iD_def\<close>)
    then show thesis using that(1) 1 by blast
  next
    case (2 j)
    then have "b = C_create 0 (2 ^ j) 0"
      by (intro iD_inject [OF assms(1)]) (use p [OF 2(2)] assms(2) in \<open>simp_all add: bl_ok_def iD_def power_add\<close>)
    then show thesis using that(2) 2 by blast
  next
    case (3 j)
    then have "b = C_create 0 0 (2 ^ j)"
      by (intro iD_inject [OF assms(1)]) (use p [OF 3(2)] assms(2) in \<open>simp_all add: bl_ok_def iD_def power_add\<close>)
    then show thesis using that(3) 3 by blast
  qed
qed

lemma hD_power:
  assumes "bl_ok b" "iD b = 2 ^ k"
  shows "hD b = Some (int k)"
proof -
  have t: "js_and (2 ^ j) (2 ^ j - 1) = 0" if "j < 22" for j :: nat
  proof -
    have "(2::int) ^ j < 2 ^ 22" using that by (intro power_strict_increasing) simp_all
    then have "(2::int) ^ j < 4194304" by simp
    then show ?thesis using part_test [of "2 ^ j"] that by auto
  qed
  have z: "js_and 0 (- 1) = 0" by (simp add: js_and_def to_int32_def)
  from assms show ?thesis
  proof (cases rule: power_parts)
    case 1
    then show ?thesis by (simp add: hD_def t z yfb_power)
  next
    case (2 j)
    then show ?thesis by (simp add: hD_def t z yfb_power)
  next
    case (3 j)
    then show ?thesis by (simp add: hD_def t z yfb_power)
  qed
qed

lemma hD_other:
  assumes "bl_ok b" "\<not> (\<exists>k. iD b = 2 ^ k)"
  shows "hD b = Some (- 1)"
proof (rule ccontr)
  assume not: "hD b \<noteq> Some (- 1)"
  from assms(1) have r: "0 \<le> bl_l b" "bl_l b < 4194304" "0 \<le> bl_m b" "bl_m b < 4194304" "0 \<le> bl_h b" "bl_h b < 4194304"
    by (simp_all add: bl_ok_def)
  note T = part_test [OF r(1,2)] part_test [OF r(3,4)] part_test [OF r(5,6)]
  have "js_and (bl_l b) (bl_l b - 1) = 0" "js_and (bl_m b) (bl_m b - 1) = 0" "js_and (bl_h b) (bl_h b - 1) = 0"
    and one: "bl_l b \<noteq> 0 \<and> bl_m b = 0 \<and> bl_h b = 0 \<or> bl_l b = 0 \<and> bl_m b \<noteq> 0 \<and> bl_h b = 0 \<or> bl_l b = 0 \<and> bl_m b = 0 \<and> bl_h b \<noteq> 0"
    using not by (auto simp: hD_def Let_def split: if_splits)
  with T have P: "bl_l b = 0 \<or> (\<exists>k. bl_l b = 2 ^ k)" "bl_m b = 0 \<or> (\<exists>k. bl_m b = 2 ^ k)" "bl_h b = 0 \<or> (\<exists>k. bl_h b = 2 ^ k)" by auto
  from one have "\<exists>k. iD b = 2 ^ k"
  proof (elim disjE)
    assume "bl_l b \<noteq> 0 \<and> bl_m b = 0 \<and> bl_h b = 0"
    then show ?thesis using P(1) by (auto simp: iD_def)
  next
    assume "bl_l b = 0 \<and> bl_m b \<noteq> 0 \<and> bl_h b = 0"
    then obtain k where "bl_m b = 2 ^ k" "bl_l b = 0" "bl_h b = 0" using P(2) by auto
    then have "iD b = 2 ^ (k + 22)" by (simp add: iD_def power_add)
    then show ?thesis by blast
  next
    assume "bl_l b = 0 \<and> bl_m b = 0 \<and> bl_h b \<noteq> 0"
    then obtain k where "bl_h b = 2 ^ k" "bl_l b = 0" "bl_m b = 0" using P(3) by auto
    then have "iD b = 2 ^ (k + 44)" by (simp add: iD_def power_add)
    then show ?thesis by blast
  qed
  then show False using assms(2) by blast
qed

lemma fD_pD: "fD a = pD a"
  by (simp add: fD_def pD_def)

lemma eD_mod:
  assumes "bl_ok a" "n < 64"
  shows "bl_ok (eD a (int n)) \<and> iD (eD a (int n)) = iD a mod 2 ^ n"
proof -
  from assms(1) have r: "0 \<le> bl_l a" "bl_l a < 2 ^ 22" "0 \<le> bl_m a" "bl_m a < 2 ^ 22" "0 \<le> bl_h a" "bl_h a < 2 ^ 20"
    by (simp_all add: bl_ok_def)
  have i: "iD a = bl_l a + 2 ^ 22 * (bl_m a + 2 ^ 22 * bl_h a)" by (simp add: iD_def)
  have m: "js_and x (js_shl 1 (int k) - 1) = x mod 2 ^ k" if "k \<le> 22" for k x
  proof -
    have "(2::int) ^ k \<le> 2 ^ 22" using that by (intro power_increasing) simp_all
    then have "js_shl 1 (int k) = 2 ^ k" using that js_shl_id [of 1 "int k"] by simp
    then show ?thesis using js_and_mask [of k x] that by simp
  qed
  have lo: "(x + 2 ^ 22 * y) mod 2 ^ k = x mod 2 ^ k" if "k \<le> 22" for x y :: int and k
  proof -
    have "(2::int) ^ k dvd 2 ^ 22 * y" using that by (intro dvd_mult2 le_imp_power_dvd)
    then show ?thesis by (metis add.right_neutral dvd_eq_mod_eq_0 mod_add_right_eq)
  qed
  have up: "(x + 2 ^ 22 * y) mod 2 ^ (22 + k) = x + 2 ^ 22 * (y mod 2 ^ k)" if "0 \<le> x" "x < 2 ^ 22" for x y :: int and k
  proof -
    have "(x + 2 ^ 22 * y) mod (2 ^ 22 * 2 ^ k) = 2 ^ 22 * ((x + 2 ^ 22 * y) div 2 ^ 22 mod 2 ^ k) + (x + 2 ^ 22 * y) mod 2 ^ 22"
      by (rule zmod_zmult2_eq) simp
    moreover have "(x + 2 ^ 22 * y) div 2 ^ 22 = y" "(x + 2 ^ 22 * y) mod 2 ^ 22 = x" using that by simp_all
    ultimately show ?thesis by (simp add: power_add)
  qed
  have le: "0 \<le> x mod 2 ^ k \<and> x mod 2 ^ k \<le> x" if "0 \<le> x" for x :: int and k using that by (simp add: zmod_le_nonneg_dividend)
  consider "n \<le> 22" | k where "n = 22 + k" "0 < k" "k \<le> 22" | k where "n = 44 + k" "0 < k" "k < 20"
  proof (cases "n \<le> 22"; cases "n \<le> 44")
    assume "\<not> n \<le> 22" "n \<le> 44"
    then show thesis using that(2) [of "n - 22"] by simp
  next
    assume "\<not> n \<le> 22" "\<not> n \<le> 44"
    then show thesis using that(3) [of "n - 44"] assms(2) by simp
  qed (rule that(1))
  then show ?thesis
  proof cases
    case 1
    then have "eD a (int n) = C_create (bl_l a mod 2 ^ n) 0 0" by (simp add: eD_def m)
    moreover have "iD a mod 2 ^ n = bl_l a mod 2 ^ n" unfolding i by (rule lo [OF 1])
    ultimately show ?thesis using r le [OF r(1), of n] by (simp add: bl_ok_def iD_def)
  next
    case (2 k)
    then have "eD a (int n) = C_create (bl_l a) (bl_m a mod 2 ^ k) 0" by (simp add: eD_def m)
    moreover have "iD a mod 2 ^ n = bl_l a + 2 ^ 22 * (bl_m a mod 2 ^ k)" unfolding i 2 up [OF r(1,2)] lo [OF 2(3)] ..
    ultimately show ?thesis using r le [OF r(3), of k] by (simp add: bl_ok_def iD_def)
  next
    case (3 k)
    then have "eD a (int n) = C_create (bl_l a) (bl_m a) (bl_h a mod 2 ^ k)" by (simp add: eD_def m)
    moreover have n: "n = 22 + (22 + k)" using 3 by simp
    have "iD a mod 2 ^ n = bl_l a + 2 ^ 22 * (bl_m a + 2 ^ 22 * (bl_h a mod 2 ^ k))"
      unfolding i n up [OF r(1,2)] up [OF r(3,4)] ..
    ultimately show ?thesis using r le [OF r(5), of k] by (simp add: bl_ok_def iD_def)
  qed
qed

subsection \<open>Signs\<close>

definition means :: "blong \<Rightarrow> int \<Rightarrow> bool" where
  "means q x \<longleftrightarrow> bl_ok q \<and> bl_word q = word_of_int x"

text \<open>A division with this quotient and, when it is asked for, this remainder.\<close>

definition gives :: "bool \<Rightarrow> int \<Rightarrow> int \<Rightarrow> division \<Rightarrow> bool" where
  "gives c x y d \<longleftrightarrow> (\<exists>q z. d = Divided q z \<and> means q x \<and> (if c then \<exists>r. z = Some r \<and> means r y else z = None))"

lemma means_iD: "bl_ok a \<Longrightarrow> means a (iD a)"
  by (simp add: means_def bl_word_def)

lemma means_zero: "means (C_create 0 0 0) 0"
  by (simp add: means_def bl_ok_def bl_word_def iD_def)

lemma means_neg: "means q x \<Longrightarrow> means (pD q) (- x)"
  by (simp add: means_def pD_word)

lemma means_sign: "means q x \<Longrightarrow> means (if i then pD q else q) (if i then - x else x)"
  by (simp add: means_neg)

lemma means_one: "means (ZC 1) 1"
proof -
  have "ZC 1 = C_create 1 0 0" by (simp add: ZC_def js_masks js_shr_def to_int32_def)
  then show ?thesis by (simp add: means_def bl_ok_def bl_word_def iD_def)
qed

lemma means_less: "means q x \<Longrightarrow> means (vD q (ZC 1)) (x - 1)"
proof -
  assume q: "means q x"
  then show ?thesis using means_one vD_word [of q "ZC 1"] by (simp add: means_def)
qed

lemma sint_means: "bl_ok a \<Longrightarrow> means a (bl_sint a)"
  by (simp add: means_def sint_bl_word [symmetric])

lemma sint_sign:
  assumes "bl_ok a"
  shows "js_shr (bl_h a) 19 \<noteq> 0 \<longleftrightarrow> bl_sint a < 0" "is_least a \<longleftrightarrow> bl_sint a = - (2 ^ 63)" "- (2 ^ 63) \<le> bl_sint a" "bl_sint a < 2 ^ 63"
    "is_zero a \<longleftrightarrow> bl_sint a = 0" "0 \<le> bl_sint a \<Longrightarrow> iD a = bl_sint a" "iD a < 2 ^ 63 \<Longrightarrow> bl_sint a = iD a"
proof -
  have r: "0 \<le> bl_l a" "bl_l a < 4194304" "0 \<le> bl_m a" "bl_m a < 4194304" "0 \<le> bl_h a" "bl_h a < 1048576"
    using assms by (simp_all add: bl_ok_def)
  then show "js_shr (bl_h a) 19 \<noteq> 0 \<longleftrightarrow> bl_sint a < 0" by (simp add: js_shr_id bl_sint_def iD_def) linarith
  show "is_least a \<longleftrightarrow> bl_sint a = - (2 ^ 63)" using r by (auto simp: is_least_def bl_sint_def iD_def)
  show "- (2 ^ 63) \<le> bl_sint a" "bl_sint a < 2 ^ 63" "is_zero a \<longleftrightarrow> bl_sint a = 0" "0 \<le> bl_sint a \<Longrightarrow> iD a = bl_sint a"
    "iD a < 2 ^ 63 \<Longrightarrow> bl_sint a = iD a"
    using r by (auto simp: is_zero_def bl_sint_def iD_def split: if_splits)
qed

lemma magnitude:
  assumes "bl_ok a"
  shows "bl_ok (if bl_sint a < 0 then pD a else a)" "iD (if bl_sint a < 0 then pD a else a) = \<bar>bl_sint a\<bar>"
proof -
  show "bl_ok (if bl_sint a < 0 then pD a else a)" using assms pD_word by simp
  show "iD (if bl_sint a < 0 then pD a else a) = \<bar>bl_sint a\<bar>"
  proof (cases "bl_sint a < 0")
    case True
    have m: "means (pD a) (- bl_sint a)" by (rule means_neg [OF sint_means [OF assms]])
    then have "iD (pD a) = uint (word_of_int (- bl_sint a) :: 64 word)" using uint_bl_word [of "pD a"] by (simp add: means_def)
    also have "\<dots> = - bl_sint a" unfolding uint_word_of_int_eq
      by (rule take_bit_int_eq_self) (use True sint_sign(3) [OF assms] in simp_all)
    finally show ?thesis using True by simp
  qed (use sint_sign(6) [OF assms] in simp)
qed

subsection \<open>The cases of the division\<close>

lemma dD_gives:
  assumes "bl_ok a" "bl_ok b" "0 < iD b" "iD b \<le> iD a"
  shows "gives f (if c then - (iD a div iD b) else iD a div iD b)
    (if d then - (iD a mod iD b) - (if e then 1 else 0) else iD a mod iD b) (divided (dD a b c d e f))"
proof -
  obtain a' i' where l: "dD_loop (nat (gD b - gD a + 1)) a (sD b (gD b - gD a)) (C_create 0 0 0) = (a', i')" by fastforce
  note s = dD_start [OF assms l]
  have q: "means i' (iD a div iD b)" "means a' (iD a mod iD b)" using s means_iD by metis+
  have r: "means (if d then if e then vD (pD a') (ZC 1) else pD a' else a')
      (if d then - (iD a mod iD b) - (if e then 1 else 0) else iD a mod iD b)"
    using means_less [OF means_neg [OF q(2)]] means_neg [OF q(2)] q(2) by simp
  have "divided (dD a b c d e f) = Divided (if c then pD i' else i')
      (if f then Some (if d then if e then vD (pD a') (ZC 1) else pD a' else a') else None)"
    by (simp add: dD_def divided_def Let_def l fD_pD)
  then show ?thesis using r means_sign [OF q(1), of c] by (simp add: gives_def)
qed

lemma tD_means:
  assumes "bl_ok a" "n < 64"
  shows "means (tD a (int n)) (bl_sint a div 2 ^ n)"
proof -
  have "js_and (int n) 63 = int n" using assms(2) by (simp add: js_masks)
  note t = tD_parts [OF assms this]
  have "sint (bl_word (tD a (int n))) = bl_sint a div 2 ^ n"
    using t by (simp add: sint_signed_drop_bit_eq sint_bl_word [OF assms(1)] drop_bit_eq_div)
  moreover have "bl_word (tD a (int n)) = word_of_int (sint (bl_word (tD a (int n))))" by simp
  ultimately have "bl_word (tD a (int n)) = word_of_int (bl_sint a div 2 ^ n)" by simp
  then show ?thesis using t by (simp add: means_def)
qed

lemma cD_gives:
  assumes "bl_ok a" "n < 64" "iD a < 2 ^ 63"
  shows "gives f (if c then - (iD a div 2 ^ n) else iD a div 2 ^ n) (if d then - (iD a mod 2 ^ n) else iD a mod 2 ^ n)
    (divided (cD a (int n) c d f))"
proof -
  have q: "means (tD a (int n)) (iD a div 2 ^ n)" using tD_means [OF assms(1,2)] sint_sign(7) [OF assms(1,3)] by simp
  have r: "means (eD a (int n)) (iD a mod 2 ^ n)" using eD_mod [OF assms(1,2)] means_iD by metis
  have "divided (cD a (int n) c d f) = Divided (if c then pD (tD a (int n)) else tD a (int n))
      (if f then Some (if d then pD (eD a (int n)) else eD a (int n)) else None)"
    by (simp add: cD_def divided_def Let_def fD_pD)
  then show ?thesis using means_sign [OF q, of c] means_sign [OF r, of d] by (simp add: gives_def)
qed

lemma small_gives:
  assumes "bl_ok a" "bl_ok b" "0 < iD b" "iD a < iD b"
  shows "gives c (iD a div iD b) (if f then - (iD a mod iD b) else iD a mod iD b)
    (Divided (C_create 0 0 0) (if c then Some (if f then pD a else a) else None))"
proof -
  have "iD a div iD b = 0" "iD a mod iD b = iD a" using assms(4) iD_range(1) [OF assms(1)] by simp_all
  then show ?thesis using means_zero means_sign [OF means_iD [OF assms(1)], of f] by (cases f) (simp_all add: gives_def)
qed

lemma power_divisor: "B dvd 2 ^ n \<Longrightarrow> 0 < B \<Longrightarrow> \<exists>k. B = 2 ^ k" for B :: int
proof (induction n arbitrary: B)
  case (Suc n)
  show ?case
  proof (cases "even B")
    case True
    then obtain C where C: "B = 2 * C" by blast
    then have "C dvd 2 ^ n" "0 < C" using Suc.prems by simp_all
    from Suc.IH [OF this] show ?thesis using C by (metis power_Suc)
  next
    case False
    then have "coprime B 2" by simp
    then have "B dvd 2 ^ n" using Suc.prems(1) by (simp add: coprime_dvd_mult_right_iff)
    then show ?thesis using Suc.IH Suc.prems(2) by blast
  qed
qed (rule exI [of _ 0], simp)

text \<open>The least number, divided by a number that is no power of two, through its predecessor in size.\<close>

lemma least_parts:
  assumes "0 < B" "\<not> (\<exists>k. B = 2 ^ k)"
  shows "2 ^ 63 div B = (2 ^ 63 - 1) div (B :: int)" "2 ^ 63 mod B = (2 ^ 63 - 1) mod B + 1"
proof -
  let ?q = "(2 ^ 63 - 1) div B" and ?r = "(2 ^ 63 - 1) mod B"
  have e: "(2 ^ 63 :: int) = B * ?q + (?r + 1)" using mult_div_mod_eq [of B "2 ^ 63 - 1"] by linarith
  have "?r + 1 \<noteq> B"
  proof
    assume "?r + 1 = B"
    then have "(2 ^ 63 :: int) = B * (?q + 1)" using e by (simp add: algebra_simps)
    then have "B dvd 2 ^ 63" by (metis dvd_triv_left)
    then show False using power_divisor assms by blast
  qed
  moreover have "0 \<le> ?r" "?r < B" using assms(1) by simp_all
  ultimately have r: "0 \<le> ?r + 1" "?r + 1 < B" by linarith+
  show "2 ^ 63 div B = ?q" by (rule int_div_pos_eq [OF e r])
  show "2 ^ 63 mod B = ?r + 1" by (rule int_mod_pos_eq [OF e r])
qed

lemma trunc_parts: "x sdiv y = (if (x < 0) \<noteq> (y < 0) then - (\<bar>x\<bar> div \<bar>y\<bar>) else \<bar>x\<bar> div \<bar>y\<bar>)"
  "x smod y = (if x < 0 then - (\<bar>x\<bar> mod \<bar>y\<bar>) else \<bar>x\<bar> mod \<bar>y\<bar>)" if "y \<noteq> 0" for x y :: int
  using that by (auto simp: signed_divide_int_def signed_modulo_int_def sgn_if)

lemma aD_unfold:
  assumes "bl_ok a" "bl_ok b" "bl_sint b \<noteq> 0" "bl_sint a \<noteq> 0" "bl_sint b \<noteq> - (2 ^ 63)"
    and "b' = (if bl_sint b < 0 then pD b else b)" "a' = (if bl_sint a < 0 then pD a else a)" "hD b' = Some g"
  shows "aD a b c =
    (if bl_sint a = - (2 ^ 63)
     then if g = - 1
          then if mD (C_create 4194303 4194303 524287) b' < 0
               then Some (Divided (C_create 0 0 0) (if c then Some (pD (C_create 4194303 4194303 524287)) else None))
               else Some (divided (dD (C_create 4194303 4194303 524287) b' (\<not> bl_sint b < 0) True True c))
          else Some (Divided (if bl_sint b < 0 then pD (tD a g) else tD a g) (if c then Some (C_create 0 0 0) else None))
     else if g \<noteq> - 1 then Some (divided (cD a' g ((bl_sint a < 0) \<noteq> (bl_sint b < 0)) (bl_sint a < 0) c))
     else if mD a' b' < 0 then Some (Divided (C_create 0 0 0) (if c then Some (if bl_sint a < 0 then pD a' else a') else None))
     else Some (divided (dD a' b' ((bl_sint a < 0) \<noteq> (bl_sint b < 0)) (bl_sint a < 0) False c)))"
proof -
  note A = sint_sign(1,2,5) [OF assms(1)] and B = sint_sign(1,2,5) [OF assms(2)]
  have i: "(if P then \<not> Q else Q) = (P \<noteq> Q)" for P Q by auto
  show ?thesis using assms(3-5,8) unfolding aD_def A B fD_pD Let_def assms(6) [symmetric] assms(7) [symmetric] i by simp
qed

theorem aD_divides:
  assumes "bl_ok a" "bl_ok b"
  shows "if bl_sint b = 0 then aD a b c = Some DivideByZero
    else \<exists>d. aD a b c = Some d \<and> gives c (bl_sint a sdiv bl_sint b) (bl_sint a smod bl_sint b) d"
proof -
  let ?x = "bl_sint a" and ?y = "bl_sint b" and ?M = "C_create 4194303 4194303 524287"
  note A = sint_sign [OF assms(1)] and B = sint_sign [OF assms(2)]
  define b' where b': "b' = (if ?y < 0 then pD b else b)"
  define a' where a': "a' = (if ?x < 0 then pD a else a)"
  have mb: "bl_ok b'" "iD b' = \<bar>?y\<bar>" unfolding b' using magnitude [OF assms(2)] by simp_all
  have ma: "bl_ok a'" "iD a' = \<bar>?x\<bar>" unfolding a' using magnitude [OF assms(1)] by simp_all
  consider "?y = 0" | "?y \<noteq> 0" "?x = 0" | "?y \<noteq> 0" "?x \<noteq> 0" "?y = - (2 ^ 63)" | "?y \<noteq> 0" "?x \<noteq> 0" "?y \<noteq> - (2 ^ 63)" by blast
  then show ?thesis
  proof cases
    case 1
    then show ?thesis by (simp add: aD_def B)
  next
    case 2
    then show ?thesis using means_zero by (simp add: aD_def A B gives_def trunc_parts)
  next
    case 3
    have d: "aD a b c = Some (divided (bD a c))" using 3 by (simp add: aD_def A B)
    show ?thesis
    proof (cases "?x = - (2 ^ 63)")
      case True
      then have "gives c 1 0 (divided (bD a c))" using means_one means_zero by (simp add: bD_def A divided_def gives_def)
      then show ?thesis using 3 True d by (simp add: trunc_parts)
    next
      case False
      then have "\<bar>?x\<bar> < 2 ^ 63" using A(3,4) by auto
      then have "?x sdiv ?y = 0" "?x smod ?y = ?x" using 3 by (simp_all add: trunc_parts)
      moreover have "gives c 0 ?x (divided (bD a c))" using False means_zero sint_means [OF assms(1)] by (simp add: bD_def A divided_def gives_def)
      ultimately show ?thesis using 3 d by simp
    qed
  next
    case 4
    have y: "0 < \<bar>?y\<bar>" "\<bar>?y\<bar> < 2 ^ 63" using 4 B(3,4) by auto
    have sb: "bl_sint b' = \<bar>?y\<bar>" using sint_sign(7) [OF mb(1)] mb(2) y(2) by simp
    have "\<exists>d. aD a b c = Some d \<and> gives c (?x sdiv ?y) (?x smod ?y) d"
    proof (cases "\<exists>k. \<bar>?y\<bar> = 2 ^ k")
      case True
      then obtain k where k: "\<bar>?y\<bar> = 2 ^ k" by blast
      then have k63: "k < 63" using y(2) top_bit_le [of "\<bar>?y\<bar>" k 63] by (simp add: top_bit_def)
      have "hD b' = Some (int k)" using hD_power [OF mb(1)] mb(2) k by simp
      note u = aD_unfold [OF assms 4(1,2,3) b' a' this, of c]
      show ?thesis
      proof (cases "?x = - (2 ^ 63)")
        case least: True
        define Q :: int where "Q = 2 ^ 63 div 2 ^ k"
        have dv: "(2::int) ^ k dvd 2 ^ 63" using k63 by (intro le_imp_power_dvd) simp
        have x: "?x < 0" "\<bar>?x\<bar> = 2 ^ 63" using least by simp_all
        have "?x sdiv ?y = (if ?y < 0 then Q else - Q)" "?x smod ?y = - (2 ^ 63 mod 2 ^ k)"
          using x unfolding trunc_parts [OF 4(1)] k Q_def by (cases "?y < 0"; simp only: if_True if_False refl simp_thms)+
        then have sd: "?x sdiv ?y = (if ?y < 0 then - (- Q) else - Q)" "?x smod ?y = 0"
          using dvd_imp_mod_0 [OF dv] by simp_all
        have "means (tD a (int k)) (?x div 2 ^ k)" using k63 by (intro tD_means [OF assms(1)]) simp
        then have "means (tD a (int k)) (- Q)" unfolding least Q_def dvd_neg_div [OF dv] .
        from means_sign [OF this, of "?y < 0"] have "gives c (?x sdiv ?y) (?x smod ?y)
            (Divided (if ?y < 0 then pD (tD a (int k)) else tD a (int k)) (if c then Some (C_create 0 0 0) else None))"
          unfolding sd using means_zero by (simp only: gives_def) (cases c; simp)
        then show ?thesis using u least by simp
      next
        case False
        then have x: "\<bar>?x\<bar> < 2 ^ 63" using A(3,4) by auto
        have "iD a' < 2 ^ 63" "k < 64" using x ma(2) k63 by simp_all
        note g = cD_gives [OF ma(1) this(2,1), of c "(?x < 0) \<noteq> (?y < 0)" "?x < 0"]
        show ?thesis using u False g unfolding trunc_parts [OF 4(1)] ma(2) k by simp
      qed
    next
      case False
      have "hD b' = Some (- 1)" using hD_other [OF mb(1)] mb(2) False by simp
      note u = aD_unfold [OF assms 4(1,2,3) b' a' this, of c]
      show ?thesis
      proof (cases "?x = - (2 ^ 63)")
        case least: True
        have M: "bl_ok ?M" "iD ?M = 2 ^ 63 - 1" "bl_sint ?M = 2 ^ 63 - 1" by (simp_all add: bl_ok_def iD_def bl_sint_def)
        have "\<not> mD ?M b' < 0" using mD_sign(1) [OF M(1) mb(1)] M(3) sb y(2) by simp
        moreover have le: "iD b' \<le> iD ?M" "0 < iD b'" using M(2) mb(2) y by simp_all
        have x: "?x < 0" "\<bar>?x\<bar> = 2 ^ 63" using least by simp_all
        have "?x sdiv ?y = (if \<not> ?y < 0 then - (iD ?M div iD b') else iD ?M div iD b')" "?x smod ?y = - (iD ?M mod iD b') - 1"
          using x unfolding trunc_parts [OF 4(1)] M(2) mb(2) x(2) least_parts [OF y(1) False] by (cases "?y < 0"; simp only: if_True if_False simp_thms; simp)+
        then have "gives c (?x sdiv ?y) (?x smod ?y) (divided (dD ?M b' (\<not> ?y < 0) True True c))"
          using dD_gives [OF M(1) mb(1) le(2,1), of c "\<not> ?y < 0" True True] by simp
        ultimately show ?thesis using u least by simp
      next
        case nl: False
        then have x: "\<bar>?x\<bar> < 2 ^ 63" using A(3,4) by auto
        have sa: "bl_sint a' = \<bar>?x\<bar>" using sint_sign(7) [OF ma(1)] ma(2) x by simp
        have lt: "mD a' b' < 0 \<longleftrightarrow> iD a' < iD b'" using mD_sign(1) [OF ma(1) mb(1)] sa sb ma(2) mb(2) by simp
        show ?thesis
        proof (cases "iD a' < iD b'")
          case True
          have "\<bar>?x\<bar> div \<bar>?y\<bar> = 0" using True ma(2) mb(2) by simp
          then have "?x sdiv ?y = iD a' div iD b'" "?x smod ?y = (if ?x < 0 then - (iD a' mod iD b') else iD a' mod iD b')"
            unfolding trunc_parts [OF 4(1)] ma(2) mb(2) by simp_all
          then have "gives c (?x sdiv ?y) (?x smod ?y) (Divided (C_create 0 0 0) (if c then Some (if ?x < 0 then pD a' else a') else None))"
            using small_gives [OF ma(1) mb(1) _ True, of c "?x < 0"] y(1) mb(2) by simp
          then show ?thesis using u nl lt True by simp
        next
          case ge: False
          have le: "0 < iD b'" "iD b' \<le> iD a'" using ge y(1) mb(2) by simp_all
          have "(if d then - m - (if False then 1 else 0) else m) = (if d then - m else m)" for d and m :: int by simp
          note g = dD_gives [OF ma(1) mb(1) le, of c "(?x < 0) \<noteq> (?y < 0)" "?x < 0" False, unfolded this ma(2) mb(2), folded trunc_parts [OF 4(1)]]
          show ?thesis using u nl lt ge g by simp
        qed
      qed
    qed
    then show ?thesis using 4(1) by simp
  qed
qed

subsection \<open>Division of both kinds of longs\<close>

text \<open>
  Two numbers are divided and truncated as numbers; a quotient of integers below \<open>2 ^ 53\<close> is rounded to less
  than the distance to the next integer, so the result is that of exact division. By zero this is no
  number and the objects are divided. \<open>YC\<close> is the remainder for \<open>Xcb\<close>. A result \<open>Some None\<close> is an
  exception, \<open>None\<close> would be a division that does not end. A number \<open>-0\<close> counts as 0.
\<close>

definition Qcb :: "glong \<Rightarrow> glong \<Rightarrow> (glong option) option" where
  "Qcb a b =
     (let slow = Option.bind (aD (big_of a) (big_of b) False)
            (\<lambda>d. case d of DivideByZero \<Rightarrow> Some None | Divided q _ \<Rightarrow> Some (Some (Pcb q)))
      in case (a, b) of
           (Small x, Small y) \<Rightarrow>
             (if y \<noteq> 0 \<and> \<bar>x\<bar> < 17592186044416 * \<bar>y\<bar> then Some (Some (Small (x sdiv y))) else slow)
         | _ \<Rightarrow> slow)"

definition Xcb :: "glong \<Rightarrow> glong \<Rightarrow> (glong option) option" where
  "Xcb a b =
     (let slow = Option.bind (aD (big_of a) (big_of b) True)
            (\<lambda>d. case d of Divided _ (Some r) \<Rightarrow> Some (Some (Pcb r)) | _ \<Rightarrow> Some None)
      in case (a, b) of
           (Small x, Small y) \<Rightarrow>
             (if y \<noteq> 0 \<and> - 17592186044416 < x smod y \<and> x smod y < 17592186044416 then Some (Some (Small (x smod y))) else slow)
         | _ \<Rightarrow> slow)"

text \<open>The number a long stands for.\<close>

definition gl_int :: "glong \<Rightarrow> int" where
  "gl_int a = sint (gl_word a)"

lemma big_of_sint: "gl_ok a \<Longrightarrow> bl_sint (big_of a) = gl_int a"
  using big_of_word [of a] sint_bl_word [of "big_of a"] by (simp add: gl_int_def)

lemma gl_int_small: "gl_ok (Small x) \<Longrightarrow> gl_int (Small x) = x"
  using sint_small [of x] by (simp add: gl_int_def)

lemma sdiv_small:
  assumes "y \<noteq> 0" "\<bar>x\<bar> < 17592186044416 * \<bar>y\<bar>"
  shows "- 17592186044416 < x sdiv y" "x sdiv y < (17592186044416 :: int)"
proof -
  have "\<bar>x\<bar> div \<bar>y\<bar> < 17592186044416"
  proof (rule ccontr)
    assume "\<not> \<bar>x\<bar> div \<bar>y\<bar> < 17592186044416"
    then have "17592186044416 * \<bar>y\<bar> \<le> \<bar>x\<bar> div \<bar>y\<bar> * \<bar>y\<bar>" by (intro mult_right_mono) simp_all
    moreover have "0 \<le> \<bar>x\<bar> mod \<bar>y\<bar>" using assms(1) by simp
    then have "\<bar>x\<bar> div \<bar>y\<bar> * \<bar>y\<bar> \<le> \<bar>x\<bar>" using minus_mod_eq_div_mult [of "\<bar>x\<bar>" "\<bar>y\<bar>"] by linarith
    ultimately show False using assms(2) by linarith
  qed
  moreover have "0 \<le> \<bar>x\<bar> div \<bar>y\<bar>" using assms(1) by (simp add: pos_imp_zdiv_nonneg_iff)
  ultimately show "- 17592186044416 < x sdiv y" "x sdiv y < 17592186044416" unfolding trunc_parts [OF assms(1)] by (auto split: if_splits)
qed

text \<open>
  Claim C11. Division and remainder of the worker's longs are those of signed 64-bit integers: the quotient is
  truncated towards zero, the remainder has the sign of the dividend, the quotient of the least number and -1
  wraps around; division by zero raises, and the division always ends.
\<close>

theorem long_division:
  assumes "gl_ok a" "gl_ok b"
  shows "if gl_int b = 0 then Qcb a b = Some None \<and> Xcb a b = Some None
    else \<exists>q r. Qcb a b = Some (Some q) \<and> Xcb a b = Some (Some r) \<and> gl_ok q \<and> gl_ok r \<and>
      gl_word q = word_of_int (gl_int a sdiv gl_int b) \<and> gl_word r = word_of_int (gl_int a smod gl_int b)"
proof (cases "gl_int b = 0")
  case True
  have "aD (big_of a) (big_of b) c = Some DivideByZero" for c
    using aD_divides [OF big_of_word(1) [OF assms(1)] big_of_word(1) [OF assms(2)], of c] True by (simp add: big_of_sint [OF assms(2)])
  moreover have "y = 0" if "b = Small y" for y using gl_int_small [of y] assms(2) that True by simp
  ultimately show ?thesis using True by (simp add: Qcb_def Xcb_def Let_def split: glong.split)
next
  case False
  have aD: "\<exists>d. aD (big_of a) (big_of b) c = Some d \<and> gives c (gl_int a sdiv gl_int b) (gl_int a smod gl_int b) d" for c
    using aD_divides [OF big_of_word(1) [OF assms(1)] big_of_word(1) [OF assms(2)], of c] False
    unfolding big_of_sint [OF assms(1)] big_of_sint [OF assms(2)] by simp
  have slow: "\<exists>q. aD (big_of a) (big_of b) False = Some (Divided q None) \<and> means q (gl_int a sdiv gl_int b)"
    using aD [of False] by (auto simp: gives_def)
  have slow_mod: "\<exists>q r. aD (big_of a) (big_of b) True = Some (Divided q (Some r)) \<and> means r (gl_int a smod gl_int b)"
    using aD [of True] by (auto simp: gives_def)
  have pcb: "gl_ok (Pcb q) \<and> gl_word (Pcb q) = word_of_int x" if "means q x" for q x
    using that Pcb_word [of q] by (simp add: means_def)
  have "\<exists>q. Qcb a b = Some (Some q) \<and> gl_ok q \<and> gl_word q = word_of_int (gl_int a sdiv gl_int b)"
  proof (cases "\<exists>x y. a = Small x \<and> b = Small y \<and> y \<noteq> 0 \<and> \<bar>x\<bar> < 17592186044416 * \<bar>y\<bar>")
    case True
    then obtain x y where xy: "a = Small x" "b = Small y" "y \<noteq> 0" "\<bar>x\<bar> < 17592186044416 * \<bar>y\<bar>" by blast
    then have "gl_int a = x" "gl_int b = y" using assms gl_int_small by simp_all
    then show ?thesis using xy sdiv_small [OF xy(3,4)] by (simp add: Qcb_def Let_def)
  next
    case False
    then show ?thesis using slow pcb by (auto simp: Qcb_def Let_def split: glong.split)
  qed
  moreover have "\<exists>r. Xcb a b = Some (Some r) \<and> gl_ok r \<and> gl_word r = word_of_int (gl_int a smod gl_int b)"
  proof (cases "\<exists>x y. a = Small x \<and> b = Small y \<and> y \<noteq> 0 \<and> - 17592186044416 < x smod y \<and> x smod y < 17592186044416")
    case True
    then obtain x y where xy: "a = Small x" "b = Small y" "y \<noteq> 0" "- 17592186044416 < x smod y" "x smod y < 17592186044416" by blast
    then have "gl_int a = x" "gl_int b = y" using assms gl_int_small by simp_all
    then show ?thesis using xy by (simp add: Xcb_def Let_def)
  next
    case False
    then show ?thesis using slow_mod pcb by (auto simp: Xcb_def Let_def split: glong.split)
  qed
  ultimately show ?thesis using False by auto
qed

theorem long_division_witness:
  "\<exists>q r. Qcb (Big (C_create 0 0 524288)) (Small 3) = Some (Some q) \<and> Xcb (Big (C_create 0 0 524288)) (Small 3) = Some (Some r) \<and>
     gl_word q = word_of_int (- 3074457345618258602) \<and> gl_word r = word_of_int (- 2)"
proof -
  have i: "gl_int (Big (C_create 0 0 524288)) = - 9223372036854775808" "gl_int (Small 3) = 3"
    using gl_int_small [of 3] sint_bl_word [of "C_create 0 0 524288"] by (simp_all add: gl_int_def bl_ok_def bl_sint_def iD_def)
  then show ?thesis using long_division [of "Big (C_create 0 0 524288)" "Small 3"]
    by (simp add: bl_ok_def trunc_parts) blast
qed

end
