(* ===== verification/GwtTreeRemove.thy ===== *)
theory GwtTreeRemove
  imports GwtTree
begin

text \<open>
  Removal from \<open>java.util.TreeMap\<close> (\<open>layout-worker.js\<close>, \<open>eyb\<close>, \<open>fyb\<close>, \<open>cyb\<close>, \<open>dyb\<close>), in one pass from the
  root down that keeps the current node or its next child red. The variables \<open>l\<close> (current node), \<open>m\<close>
  and \<open>h\<close> (its parent and grandparent) of the code are the focus and the first frames of a zipper; the
  sentinel \<open>i\<close> above the root is the empty list of frames. The nodes of a tree have different keys, so
  the code's comparison of node references is one of keys here.
\<close>

subsection \<open>The code\<close>

datatype ('k, 'v) frame =
  Frame (fr_red: bool) (fr_dir: bool) (fr_key: 'k) (fr_val: 'v) (fr_other: "('k, 'v) tree")

fun fill :: "('k, 'v) frame \<Rightarrow> ('k, 'v) tree \<Rightarrow> ('k, 'v) tree" where
  "fill (Frame c d k v s) t = (if d then Node c k v s t else Node c k v t s)"

fun plug :: "('k, 'v) frame list \<Rightarrow> ('k, 'v) tree \<Rightarrow> ('k, 'v) tree" where
  "plug [] t = t"
| "plug (f # fs) t = plug fs (fill f t)"

text \<open>\<open>m=l;l=l.a[e]\<close>\<close>

fun down :: "('k, 'v) frame list \<Rightarrow> ('k, 'v) tree \<Rightarrow> bool \<Rightarrow> (('k, 'v) frame list \<times> ('k, 'v) tree) option" where
  "down fs Tip e = None"
| "down fs (Node c k v l r) e = Some (Frame c e k v (if e then l else r) # fs, if e then r else l)"

text \<open>The fields \<open>b\<close> set by the branch of \<open>eyb\<close> that rotates at the grandparent.\<close>

definition recolour :: "('k, 'v) tree \<Rightarrow> ('k, 'v) tree" where
  "recolour q = set_kid (set_kid (set_red True q) False (set_red False (kid q False))) True (set_red False (kid q True))"

definition push_red ::
  "('k, 'v) frame list \<Rightarrow> ('k, 'v) tree \<Rightarrow> bool \<Rightarrow> (('k, 'v) frame list \<times> ('k, 'v) tree) option"
where
  "push_red fs l e =
     (if \<not> ayb l \<and> \<not> ayb (kid l e)
      then if ayb (kid l (\<not> e)) then Option.bind (hyb l e) (\<lambda>p. down fs p e)
           else (case fs of
                   [] \<Rightarrow> Some (fs, l)
                 | m # h \<Rightarrow>
                     (let j = fr_dir m; n = fr_other m
                      in if n = Tip then Some (fs, l)
                         else if \<not> ayb (kid n (\<not> j)) \<and> \<not> ayb (kid n j)
                         then Some (Frame False j (fr_key m) (fr_val m) (set_red True n) # h, set_red True l)
                         else Option.bind
                                (if ayb (kid n j) then gyb (fill m (set_red True l)) j else hyb (fill m (set_red True l)) j)
                                (\<lambda>q. Option.bind (down h (recolour q) j) (\<lambda>(h', t). down h' t j))))
      else Some (fs, l))"

lemma down_kid: "down fs t e = Some (fs', t') \<Longrightarrow> t' = kid t e \<and> t \<noteq> Tip"
  by (cases t) auto

lemma hyb_kid: "hyb t d = Some t' \<Longrightarrow> kid t' d = set_red True (set_kid t (\<not> d) (kid (kid t (\<not> d)) d))"
  by (cases t; cases "kid t (\<not> d)"; cases d) (auto simp: hyb_def)

lemma kid_set_red [simp]: "kid (set_red c t) d = kid t d"
  by (cases t) simp_all

lemma kid_set_kid [simp]: "kid (set_kid t d s) (\<not> d) = kid t (\<not> d)" "kid (set_kid t (\<not> d) s) d = kid t d"
  by (cases t; simp)+

lemma kid_set_kid_same: "t \<noteq> Tip \<Longrightarrow> kid (set_kid t d s) d = s"
  by (cases t) simp_all

lemma kid_recolour: "kid (recolour q) d = set_red False (kid q d)"
  by (cases q) (auto simp: recolour_def)

lemma gyb_kid: "gyb t d = Some t' \<Longrightarrow> kid (kid t' d) d = kid t d"
  by (auto simp: gyb_def dest!: hyb_kid split: option.splits)

lemma kid_fill [simp]: "kid (fill f t) (fr_dir f) = t"
  by (cases f) simp

lemma push_kid: "push_red fs l e = Some (fs', l') \<Longrightarrow> kid l' e = kid l e"
  by (auto simp: push_red_def Let_def kid_recolour dest!: down_kid hyb_kid gyb_kid
      split: if_splits list.splits Option.bind_splits prod.splits)

lemma size_kid: "t \<noteq> Tip \<Longrightarrow> size (kid t d) < size t"
  by (cases t) simp_all

lemma step_size: "push_red fs l e = Some (fs', l') \<Longrightarrow> down fs' l' e = Some (fs'', t) \<Longrightarrow> l \<noteq> Tip \<Longrightarrow> size t < size l"
  using push_kid [of fs l e fs' l'] down_kid [of fs' l' e fs'' t] size_kid [of l e] by simp

text \<open>The loop of \<open>eyb\<close>; \<open>mv\<close> is the value to match (\<open>c.c\<close>, \<open>c.d\<close>), \<open>g\<close> the entry found so far.\<close>

function rm_loop ::
  "('k \<Rightarrow> 'k \<Rightarrow> int) \<Rightarrow> 'k \<Rightarrow> 'v option \<Rightarrow> ('k, 'v) frame list \<Rightarrow> ('k, 'v) tree \<Rightarrow> ('k \<times> 'v) option \<Rightarrow>
     (('k, 'v) frame list \<times> ('k, 'v) tree \<times> ('k \<times> 'v) option) option"
where
  "rm_loop cmp k mv fs Tip g = None"
| "rm_loop cmp k mv fs (Node c x w a b) g =
     (let d = cmp k x; e = (\<not> d < 0);
          g' = (if d = 0 \<and> (mv = None \<or> mv = Some w) then Some (x, w) else g)
      in case push_red fs (Node c x w a b) e of
           None \<Rightarrow> None
         | Some (fs', l') \<Rightarrow>
             (if kid l' e = Tip then Some (fs', l', g')
              else case down fs' l' e of
                     None \<Rightarrow> None
                   | Some (fs'', t) \<Rightarrow> rm_loop cmp k mv fs'' t g'))"
  by pat_completeness auto
termination
proof (relation "measure (\<lambda>(cmp, k, mv, fs, l, g). size l)", goal_cases)
  case (2 cmp k mv fs c x w a b g d e g' p fs' l' q fs'' t)
  then show ?case using step_size [of fs "Node c x w a b" e fs' l' fs'' t] by simp
qed simp

text \<open>\<open>replaceNode\<close>: the node of key \<open>gk\<close> gives its place and colour to a new node.\<close>

fun fyb :: "('k \<Rightarrow> 'k \<Rightarrow> int) \<Rightarrow> ('k, 'v) tree \<Rightarrow> 'k \<Rightarrow> 'k \<Rightarrow> 'v \<Rightarrow> ('k, 'v) tree option" where
  "fyb cmp Tip gk x w = None"
| "fyb cmp (Node c fk fv l r) gk x w =
     (if cmp gk fk = 0 then Some (Node c x w l r)
      else if cmp gk fk > 0 then map_option (\<lambda>s. Node c fk fv l s) (fyb cmp r gk x w)
      else map_option (\<lambda>s. Node c fk fv s r) (fyb cmp l gk x w))"

fun put_at :: "('k, 'v) tree \<Rightarrow> bool list \<Rightarrow> ('k, 'v) tree \<Rightarrow> ('k, 'v) tree" where
  "put_at t [] s = s"
| "put_at t (d # p) s = set_kid t d (put_at (kid t d) p s)"

definition eyb ::
  "('k \<Rightarrow> 'k \<Rightarrow> int) \<Rightarrow> ('k, 'v) tree_map \<Rightarrow> 'k \<Rightarrow> 'v option \<Rightarrow> (('k, 'v) tree_map \<times> 'v option) option"
where
  "eyb cmp m k mv =
     (if tm_root m = Tip then Some (m, None)
      else case rm_loop cmp k mv [] (tm_root m) None of
        None \<Rightarrow> None
      | Some (fs, Tip, g) \<Rightarrow> None
      | Some (fs, Node c x w a b, None) \<Rightarrow> Some (m\<lparr>tm_root := set_red False (plug fs (Node c x w a b))\<rparr>, None)
      | Some (fs, Node c x w a b, Some (gk, gv)) \<Rightarrow>
          (let t = plug fs (Node c x w a b)
           in map_option (\<lambda>t'. (\<lparr>tm_root = set_red False (put_at t' (rev (map fr_dir fs)) (kid (Node c x w a b) (a = Tip))),
                                 tm_size = tm_size m - 1\<rparr>, Some gv))
                (if cmp x gk \<noteq> 0 then fyb cmp t gk x w else Some t)))"

definition cyb :: "('k \<Rightarrow> 'k \<Rightarrow> int) \<Rightarrow> ('k, 'v) tree_map \<Rightarrow> 'k \<Rightarrow> (('k, 'v) tree_map \<times> 'v option) option" where
  "cyb cmp m k = eyb cmp m k None"

definition dyb :: "('k \<Rightarrow> 'k \<Rightarrow> int) \<Rightarrow> ('k, 'v) tree_map \<Rightarrow> 'k \<times> 'v \<Rightarrow> (('k, 'v) tree_map \<times> bool) option" where
  "dyb cmp m e = map_option (\<lambda>(m', st). (m', st \<noteq> None)) (eyb cmp m (fst e) (Some (snd e)))"

subsection \<open>Zippers\<close>

fun pre :: "('k, 'v) frame list \<Rightarrow> ('k \<times> 'v) list" where
  "pre [] = []"
| "pre (Frame c d k v s # fs) = pre fs @ (if d then inorder s @ [(k, v)] else [])"

fun post :: "('k, 'v) frame list \<Rightarrow> ('k \<times> 'v) list" where
  "post [] = []"
| "post (Frame c d k v s # fs) = (if d then [] else (k, v) # inorder s) @ post fs"

fun ctx_ok :: "('k, 'v) frame list \<Rightarrow> bool \<Rightarrow> nat \<Rightarrow> bool" where
  "ctx_ok [] c h = True"
| "ctx_ok (Frame fr d k v s # fs) c h =
     ((fr \<longrightarrow> \<not> c \<and> \<not> ayb s) \<and> invc s \<and> invh s \<and> bh s = h \<and> ctx_ok fs fr (h + (if fr then 0 else 1)))"

lemma inorder_plug: "inorder (plug fs t) = pre fs @ inorder t @ post fs"
proof (induction fs t rule: plug.induct)
  case (2 f fs t)
  then show ?case by (cases f) simp
qed simp

lemma rb_plug: "invc (plug fs t) \<and> invh (plug fs t) \<longleftrightarrow> invc t \<and> invh t \<and> ctx_ok fs (ayb t) (bh t)"
proof (induction fs t rule: plug.induct)
  case (2 f fs t)
  show ?case
  proof (cases f)
    case (Frame c d k v s)
    with 2 show ?thesis by (cases d) auto
  qed
qed simp

lemma plug_append: "plug (fs @ gs) t = plug gs (plug fs t)"
  by (induction fs t rule: plug.induct) simp_all

lemma put_at_plug: "put_at (plug fs t) (rev (map fr_dir fs)) s = plug fs s"
proof (induction fs arbitrary: t s rule: rev_induct)
  case (snoc f fs)
  then show ?case by (cases f) (auto simp: plug_append)
qed simp

text \<open>The step changes neither the entries nor the current one; it keeps the tree red-black and makes
  the current node or its next child red, unless the current node is the root.\<close>

definition focus_ok :: "('k, 'v) frame list \<Rightarrow> ('k, 'v) tree \<Rightarrow> bool" where
  "focus_ok fs l \<longleftrightarrow> invc l \<and> invh l \<and> ctx_ok fs (ayb l) (bh l)"

definition same_focus :: "bool \<Rightarrow> ('k, 'v) frame list \<Rightarrow> ('k, 'v) tree \<Rightarrow> ('k, 'v) frame list \<Rightarrow> ('k, 'v) tree \<Rightarrow> bool" where
  "same_focus e fs l fs' l' \<longleftrightarrow>
     (\<exists>c k v a b c' a' b'. l = Node c k v a b \<and> l' = Node c' k v a' b' \<and>
        (if e then b' = b \<and> post fs' = post fs \<and> pre fs' @ inorder a' = pre fs @ inorder a
         else a' = a \<and> pre fs' = pre fs \<and> inorder b' @ post fs' = inorder b @ post fs))"

definition guarded :: "('k, 'v) frame list \<Rightarrow> ('k, 'v) tree \<Rightarrow> bool" where
  "guarded fs l \<longleftrightarrow> fs = [] \<or> fr_red (hd fs) \<or> ayb l \<or> tl fs = [] \<and> \<not> ayb (fr_other (hd fs))"

lemma ctx_ok_black: "ctx_ok fs c h \<Longrightarrow> ctx_ok fs False h"
  by (cases "(fs, c, h)" rule: ctx_ok.cases) auto

lemma push_rb:
  assumes "l = Node c k v a b" "focus_ok fs l" "guarded fs l"
  shows "\<exists>fs' l'. push_red fs l e = Some (fs', l') \<and> focus_ok fs' l' \<and> same_focus e fs l fs' l' \<and>
    (ayb l' \<or> ayb (kid l' e) \<or> fs' = [] \<and> \<not> ayb (kid l' (\<not> e)))"
proof -
  consider (red) "ayb l \<or> ayb (kid l e)" | (rotate) "\<not> ayb l" "\<not> ayb (kid l e)" "ayb (kid l (\<not> e))"
    | (root) "\<not> ayb l" "\<not> ayb (kid l e)" "\<not> ayb (kid l (\<not> e))" "fs = []"
    | (sibling) m h where "\<not> ayb l" "\<not> ayb (kid l e)" "\<not> ayb (kid l (\<not> e))" "fs = m # h"
    by (cases fs) blast+
  then show ?thesis
  proof cases
    case red
    with assms show ?thesis by (auto simp: push_red_def same_focus_def)
  next
    case rotate
    then show ?thesis
      using assms(1,2) by (cases "kid l (\<not> e)"; cases e) (auto simp: push_red_def same_focus_def focus_ok_def)
  next
    case root
    with assms show ?thesis by (auto simp: push_red_def same_focus_def)
  next
    case sibling
    obtain mc j mk mv s where m: "m = Frame mc j mk mv s" by (cases m)
    have g: "mc \<or> h = []" "\<not> ayb s" using assms(2,3) sibling(1,4) m by (auto simp: guarded_def focus_ok_def)
    have "bh s = bh l" using assms(2) sibling(4) m by (simp add: focus_ok_def)
    then obtain sk sv s0 s1 where s: "s = Node False sk sv s0 s1"
      using sibling(1) assms(1) g(2) by (cases s) auto
    have c: "\<not> c" using sibling(1) assms(1) by simp
    have ok: "focus_ok (Frame mc j mk mv s # h) (Node False k v a b)" using assms(1,2) sibling(4) m c by simp
    have "ctx_ok h False n" if "ctx_ok h mc n" for n using that ctx_ok_black by blast
    with g ok sibling(2,3) show ?thesis
      unfolding assms(1) sibling(4) m s
      apply (cases s0; cases s1; cases j; cases e)
      apply (auto simp: push_red_def same_focus_def focus_ok_def gyb_def recolour_def c split: if_splits)
      done
  qed
qed

lemma push_down:
  assumes "focus_ok fs (Node c k v a b)" "ayb (Node c k v a b) \<or> ayb (kid (Node c k v a b) e) \<or> fs = [] \<and> \<not> ayb (kid (Node c k v a b) (\<not> e))"
    and "down fs (Node c k v a b) e = Some (fs', t)"
  shows "focus_ok fs' t" "guarded fs' t" "plug fs' t = plug fs (Node c k v a b)"
  using assms by (cases e; auto simp: focus_ok_def guarded_def)+

definition hit :: "('k \<Rightarrow> 'k \<Rightarrow> int) \<Rightarrow> 'k \<Rightarrow> 'v option \<Rightarrow> 'k \<times> 'v \<Rightarrow> bool" where
  "hit cmp k mv y \<longleftrightarrow> cmp k (fst y) = 0 \<and> (mv = None \<or> mv = Some (snd y))"

text \<open>The entries to the left of the focus are not above \<open>k\<close>, those to the right are, and the entry found
  is the last one to the left.\<close>

definition srch :: "('k \<Rightarrow> 'k \<Rightarrow> int) \<Rightarrow> 'k \<Rightarrow> 'v option \<Rightarrow> ('k \<times> 'v) list \<Rightarrow> ('k \<times> 'v) list \<Rightarrow> ('k \<times> 'v) option \<Rightarrow> bool" where
  "srch cmp k mv ls rs g \<longleftrightarrow>
     (\<forall>y \<in> set ls. cmp k (fst y) \<ge> 0) \<and> (\<forall>y \<in> set rs. cmp k (fst y) < 0) \<and>
     (case g of None \<Rightarrow> \<forall>y \<in> set ls. \<not> hit cmp k mv y | Some y \<Rightarrow> hit cmp k mv y \<and> (\<exists>A. ls = A @ [y]))"

definition srch_done :: "('k \<Rightarrow> 'k \<Rightarrow> int) \<Rightarrow> 'k \<Rightarrow> 'v option \<Rightarrow> ('k, 'v) frame list \<Rightarrow> ('k, 'v) tree \<Rightarrow> ('k \<times> 'v) option \<Rightarrow> bool" where
  "srch_done cmp k mv fs l g \<longleftrightarrow>
     (\<exists>c x w a b. l = Node c x w a b \<and>
       (case g of None \<Rightarrow> \<forall>y \<in> set (inorder (plug fs l)). \<not> hit cmp k mv y
        | Some y \<Rightarrow> hit cmp k mv y \<and> (y = (x, w) \<and> b = Tip \<or> a = Tip \<and> cmp x (fst y) \<noteq> 0 \<and> (\<exists>A. pre fs = A @ [y]))))"

context comparator_sgn
begin

lemma srch_right:
  assumes asc: "ascending cmp (ls @ A @ (x, w) # rs)" and s: "srch cmp k mv ls rs g" and x: "\<not> cmp k x < 0"
  shows "srch cmp k mv (ls @ A @ [(x, w)]) rs (if cmp k x = 0 \<and> (mv = None \<or> mv = Some w) then Some (x, w) else g)"
    "\<not> hit cmp k mv (x, w) \<Longrightarrow> g = None"
proof -
  have less: "cmp (fst y) x < 0" if "y \<in> set (ls @ A)" for y using asc that by (auto simp: sorted_wrt_append)
  have A: "cmp k (fst y) > 0" if "y \<in> set (ls @ A)" for y
  proof (rule ccontr)
    assume "\<not> cmp k (fst y) > 0"
    then have "cmp k x < 0" using lt_trans2 [OF _ less [OF that], of k] by simp
    with x show False by simp
  qed
  show g: "g = None" if "\<not> hit cmp k mv (x, w)"
  proof (cases g)
    case (Some y)
    with s have "cmp k (fst y) = 0" "y \<in> set ls" by (auto simp: srch_def hit_def)
    with A [of y] show ?thesis by simp
  qed
  have "\<not> hit cmp k mv y" if "y \<in> set (ls @ A)" for y using A [OF that] by (simp add: hit_def)
  with s x A g show "srch cmp k mv (ls @ A @ [(x, w)]) rs (if cmp k x = 0 \<and> (mv = None \<or> mv = Some w) then Some (x, w) else g)"
    by (auto simp: srch_def hit_def less_imp_le split: option.splits)
qed

lemma srch_left:
  assumes asc: "ascending cmp ((x, w) # B @ rs)" and s: "srch cmp k mv ls rs g" and x: "cmp k x < 0"
  shows "srch cmp k mv ls ((x, w) # B @ rs) g"
proof -
  have "cmp k (fst y) < 0" if "y \<in> set B" for y
    using asc that lt_trans [OF x, of "fst y"] by (auto simp: sorted_wrt_append less_imp_le)
  with s x show ?thesis by (auto simp: srch_def split: option.splits)
qed

lemma srch_none:
  "srch cmp k mv ls rs None \<Longrightarrow> y \<in> set ls \<union> set rs \<Longrightarrow> \<not> hit cmp k mv y"
  by (auto simp: srch_def hit_def)

end

context comparator_sgn
begin

lemma ascending_parts:
  "ascending cmp (ls @ A @ (x, w) # B @ rs) \<Longrightarrow> ascending cmp ((x, w) # B @ rs)"
  by (simp add: sorted_wrt_append)

lemma rm_loop_done:
  assumes asc: "ascending cmp (pre fs @ inorder a @ (x, w) # inorder b @ post fs)"
    and s: "srch cmp k mv (pre fs) (post fs) g"
    and sf: "same_focus (\<not> cmp k x < 0) fs (Node c x w a b) fs' l'"
    and tip: "kid l' (\<not> cmp k x < 0) = Tip"
  shows "srch_done cmp k mv fs' l' (if cmp k x = 0 \<and> (mv = None \<or> mv = Some w) then Some (x, w) else g)"
proof (cases "cmp k x < 0")
  case True
  with sf tip obtain c' b' where l': "l' = Node c' x w Tip b'" "a = Tip" "pre fs' = pre fs"
    "inorder b' @ post fs' = inorder b @ post fs"
    by (auto simp: same_focus_def)
  have left: "srch cmp k mv (pre fs) ((x, w) # inorder b' @ post fs') g"
    unfolding l'(4) by (rule srch_left [OF ascending_parts [OF asc] s True])
  show ?thesis
  proof (cases g)
    case None
    with True show ?thesis using srch_none [OF left [unfolded None]] l' unfolding srch_done_def
      by (auto simp: inorder_plug)
  next
    case (Some y)
    with left True obtain A where A: "pre fs = A @ [y]" "hit cmp k mv y" by (auto simp: srch_def)
    then have "cmp x (fst y) \<noteq> 0" using asc cmp_zero_sym [of x "fst y"] by (auto simp: sorted_wrt_append)
    with A Some True l' show ?thesis by (simp add: srch_done_def)
  qed
next
  case False
  with sf tip obtain c' a' where l': "l' = Node c' x w a' Tip" "b = Tip" "post fs' = post fs"
    "pre fs' @ inorder a' = pre fs @ inorder a"
    by (auto simp: same_focus_def)
  have asc': "ascending cmp (pre fs @ inorder a @ (x, w) # post fs)" using asc l'(2) by simp
  note right = srch_right [OF asc' s False]
  show ?thesis
  proof (cases "hit cmp k mv (x, w)")
    case True
    then show ?thesis using l' by (auto simp: srch_done_def hit_def)
  next
    case h: False
    with right(2) have g: "g = None" by simp
    have "\<not> hit cmp k mv y" if "y \<in> set (inorder (plug fs' l'))" for y
    proof -
      have "set (pre fs') \<union> set (inorder a') = set (pre fs) \<union> set (inorder a)"
        using arg_cong [OF l'(4), of set] by simp
      moreover have "set (inorder (plug fs' l')) = set (pre fs') \<union> set (inorder a') \<union> insert (x, w) (set (post fs))"
        by (auto simp: inorder_plug l')
      ultimately have "set (inorder (plug fs' l')) = set (pre fs @ inorder a @ [(x, w)]) \<union> set (post fs)" by auto
      then show ?thesis using srch_none [of k mv "pre fs @ inorder a @ [(x, w)]" "post fs"] right(1) g h that
        by (auto simp: hit_def split: if_splits)
    qed
    with g h l' show ?thesis by (auto simp: srch_done_def hit_def)
  qed
qed

lemma rm_loop_next:
  assumes asc: "ascending cmp (pre fs @ inorder a @ (x, w) # inorder b @ post fs)"
    and s: "srch cmp k mv (pre fs) (post fs) g"
    and sf: "same_focus (\<not> cmp k x < 0) fs (Node c x w a b) fs' l'"
    and d: "down fs' l' (\<not> cmp k x < 0) = Some (fs'', t)"
  shows "srch cmp k mv (pre fs'') (post fs'') (if cmp k x = 0 \<and> (mv = None \<or> mv = Some w) then Some (x, w) else g)"
proof (cases "cmp k x < 0")
  case True
  with sf obtain c' b' where l': "l' = Node c' x w a b'" "pre fs' = pre fs"
    "inorder b' @ post fs' = inorder b @ post fs"
    by (auto simp: same_focus_def)
  have "srch cmp k mv (pre fs) ((x, w) # inorder b' @ post fs') g"
    unfolding l'(3) by (rule srch_left [OF ascending_parts [OF asc] s True])
  moreover have "pre fs'' = pre fs" "post fs'' = (x, w) # inorder b' @ post fs'" using d True l' by auto
  ultimately show ?thesis using True by simp
next
  case False
  with sf obtain c' a' where l': "l' = Node c' x w a' b" "post fs' = post fs"
    "pre fs' @ inorder a' = pre fs @ inorder a"
    by (auto simp: same_focus_def)
  have "pre fs'' = (pre fs' @ inorder a') @ [(x, w)]" "post fs'' = post fs" using d False l' by auto
  then have eq: "pre fs'' = pre fs @ inorder a @ [(x, w)]" "post fs'' = post fs" using l'(3) by simp_all
  show ?thesis unfolding eq by (rule srch_right(1) [of _ _ _ _ "post fs"]) (use asc s False in \<open>auto simp: sorted_wrt_append\<close>)
qed

end

subsection \<open>The loop\<close>

context comparator_sgn
begin

lemma rm_loop_spec:
  "focus_ok fs l \<Longrightarrow> guarded fs l \<Longrightarrow> ascending cmp (inorder (plug fs l)) \<Longrightarrow>
   srch cmp k mv (pre fs) (post fs) g \<Longrightarrow> l \<noteq> Tip \<Longrightarrow>
   \<exists>fs' l' g'. rm_loop cmp k mv fs l g = Some (fs', l', g') \<and> focus_ok fs' l' \<and> (ayb l' \<or> fs' = []) \<and>
     inorder (plug fs' l') = inorder (plug fs l) \<and> srch_done cmp k mv fs' l' g'"
proof (induction "size l" arbitrary: fs l g rule: less_induct)
  case less
  obtain c x w a b where l: "l = Node c x w a b" using less.prems(5) by (cases l) auto
  define e where "e = (\<not> cmp k x < 0)"
  define g' where "g' = (if cmp k x = 0 \<and> (mv = None \<or> mv = Some w) then Some (x, w) else g)"
  obtain fs' l' where p: "push_red fs l e = Some (fs', l')" "focus_ok fs' l'" "same_focus e fs l fs' l'"
    "ayb l' \<or> ayb (kid l' e) \<or> fs' = [] \<and> \<not> ayb (kid l' (\<not> e))"
    using push_rb [OF l less.prems(1,2), of e] by blast
  obtain c' a' b' where l': "l' = Node c' x w a' b'" using p(3) l by (auto simp: same_focus_def)
  have asc: "ascending cmp (pre fs @ inorder a @ (x, w) # inorder b @ post fs)"
    using less.prems(3) by (simp add: inorder_plug l)
  have same: "inorder (plug fs' l') = inorder (plug fs l)"
  proof (cases e)
    case True
    with p(3) l l' have "pre fs' @ inorder a' = pre fs @ inorder a" "b' = b" "post fs' = post fs"
      by (auto simp: same_focus_def)
    then show ?thesis using arg_cong [OF \<open>pre fs' @ inorder a' = pre fs @ inorder a\<close>, of "\<lambda>es. es @ (x, w) # inorder b @ post fs"]
      by (simp add: inorder_plug l l')
  qed (use p(3) l l' in \<open>auto simp: same_focus_def inorder_plug\<close>)
  show ?case
  proof (cases "kid l' e = Tip")
    case True
    with p(1) have "rm_loop cmp k mv fs l g = Some (fs', l', g')" by (simp add: l e_def g'_def Let_def)
    moreover have "srch_done cmp k mv fs' l' g'"
      using rm_loop_done [OF asc less.prems(4) p(3) [unfolded e_def l] True [unfolded e_def]] by (simp add: g'_def)
    moreover have "ayb l' \<or> fs' = []" using p(4) True by auto
    ultimately show ?thesis using p(2) same by blast
  next
    case False
    obtain fs'' where d: "down fs' l' e = Some (fs'', kid l' e)" using l' by simp
    have eq: "rm_loop cmp k mv fs l g = rm_loop cmp k mv fs'' (kid l' e) g'"
      using p(1) d False by (simp add: l e_def g'_def Let_def)
    have s: "srch cmp k mv (pre fs'') (post fs'') g'"
      using rm_loop_next [OF asc less.prems(4) p(3) [unfolded e_def l] d [unfolded e_def]] by (simp add: g'_def)
    note f = push_down [OF p(2) [unfolded l'] p(4) [unfolded l'] d [unfolded l']]
    have "size (kid l' e) < size l" using step_size [OF p(1) d less.prems(5)] .
    from less.hyps [OF this, of fs'' g'] f s False less.prems(3) same l' eq show ?thesis by simp
  qed
qed

end

subsection \<open>Replacing an ancestor\<close>

definition upd_frame :: "('k \<Rightarrow> 'k \<Rightarrow> int) \<Rightarrow> 'k \<Rightarrow> 'k \<Rightarrow> 'v \<Rightarrow> ('k, 'v) frame \<Rightarrow> ('k, 'v) frame" where
  "upd_frame cmp gk x w f = (if cmp gk (fr_key f) = 0 then Frame (fr_red f) (fr_dir f) x w (fr_other f) else f)"

lemma upd_Frame [simp]:
  "upd_frame cmp gk x w (Frame c d k v s) = (if cmp gk k = 0 then Frame c d x w s else Frame c d k v s)"
  by (simp add: upd_frame_def)

lemma frame_in: "f \<in> set fs \<Longrightarrow> (fr_key f, fr_val f) \<in> set (pre fs) \<union> set (post fs)"
proof (induction fs)
  case (Cons g gs)
  then show ?case by (cases g) auto
qed simp

lemma upd_frames_id: "\<forall>e \<in> set (pre fs) \<union> set (post fs). cmp gk (fst e) \<noteq> 0 \<Longrightarrow> map (upd_frame cmp gk x w) fs = fs"
proof (intro map_idI)
  fix f assume neq: "\<forall>e \<in> set (pre fs) \<union> set (post fs). cmp gk (fst e) \<noteq> 0" and f: "f \<in> set fs"
  from bspec [OF neq frame_in [OF f]] have "cmp gk (fr_key f) \<noteq> 0" by simp
  then show "upd_frame cmp gk x w f = f" by (simp add: upd_frame_def)
qed

lemma ctx_ok_upd: "ctx_ok (map (upd_frame cmp gk x w) fs) c h = ctx_ok fs c h"
  by (induction fs c h rule: ctx_ok.induct) simp_all

lemma dirs_upd [simp]: "map fr_dir (map (upd_frame cmp gk x w) fs) = map fr_dir fs"
  by (simp add: upd_frame_def)

lemma pre_last: "pre fs = A @ [y] \<Longrightarrow> \<exists>f \<in> set fs. (fr_key f, fr_val f) = y"
proof (induction fs)
  case (Cons f fs)
  then show ?case by (cases f) (auto split: if_splits)
qed simp

context comparator_sgn
begin

lemma ascending_neq: "ascending cmp (A @ y # B) \<Longrightarrow> cmp k (fst y) = 0 \<Longrightarrow> e \<in> set A \<union> set B \<Longrightarrow> cmp k (fst e) \<noteq> 0"
  using entry_at_less [of "A" "fst y" "snd y" B] lt_trans2 [of k "fst y" "fst e"] lt_trans2 [of k "fst e" "fst y"]
  by (auto simp: sorted_wrt_append)

lemma pre_post_upd:
  "pre fs = A @ [y] \<Longrightarrow> ascending cmp (pre fs @ post fs) \<Longrightarrow> cmp gk (fst y) = 0 \<Longrightarrow>
   pre (map (upd_frame cmp gk x w) fs) = A @ [(x, w)] \<and> post (map (upd_frame cmp gk x w) fs) = post fs"
proof (induction fs)
  case (Cons f fs)
  obtain c d k v s where f: "f = Frame c d k v s" by (cases f)
  show ?case
  proof (cases d)
    case True
    with Cons.prems have y: "A = pre fs @ inorder s" "y = (k, v)" by (auto simp: f)
    have "map (upd_frame cmp gk x w) fs = fs"
      by (rule upd_frames_id) (use ascending_neq [of A y "post fs" gk] Cons.prems y True f in auto)
    then show ?thesis using True y Cons.prems(3) by (simp add: f)
  next
    case False
    have "upd_frame cmp gk x w f = f"
      using ascending_neq [of A y "post (f # fs)" gk "(k, v)"] Cons.prems False by (auto simp: f)
    then show ?thesis using Cons False by (simp add: f sorted_wrt_append)
  qed
qed simp

lemma fyb_plug:
  "ascending cmp (inorder (plug fs l)) \<Longrightarrow> f \<in> set fs \<Longrightarrow> cmp gk (fr_key f) = 0 \<Longrightarrow>
   fyb cmp (plug fs l) gk x w = Some (plug (map (upd_frame cmp gk x w) fs) l)"
proof (induction fs rule: rev_induct)
  case (snoc h fs)
  obtain c d k v s where h: "h = Frame c d k v s" by (cases h)
  let ?t = "plug fs l"
  have asc: "ascending cmp (inorder (fill h ?t))" using snoc.prems(1) by (simp add: plug_append)
  then have asct: "ascending cmp (inorder ?t)" by (cases d) (simp_all add: h sorted_wrt_append)
  have in_t: "(fr_key f', fr_val f') \<in> set (inorder ?t)" if "f' \<in> set fs" for f'
    using frame_in [OF that] by (auto simp: inorder_plug)
  show ?case
  proof (cases "cmp gk k = 0")
    case True
    have "cmp gk (fst e) \<noteq> 0" if "e \<in> set (inorder ?t)" for e
      using asc that True
        ascending_neq [of "if d then inorder s else inorder ?t" "(k, v)" "if d then inorder ?t else inorder s" gk e]
      by (cases d) (auto simp: h)
    then have "map (upd_frame cmp gk x w) fs = fs" by (intro upd_frames_id) (auto simp: inorder_plug)
    then show ?thesis using True by (simp add: plug_append h)
  next
    case False
    then have f: "f \<in> set fs" using snoc.prems(2,3) by (auto simp: h)
    note IH = snoc.IH [OF asct f snoc.prems(3)]
    have "cmp gk k > 0 \<longleftrightarrow> d"
    proof (cases d)
      case True
      then have "cmp k (fr_key f) < 0" using asc in_t [OF f] by (auto simp: h sorted_wrt_append)
      then have "cmp k gk < 0" using lt_trans [of k "fr_key f" gk] snoc.prems(3) cmp_zero_sym [of gk "fr_key f"] by simp
      with True show ?thesis using cmp_sgn by simp
    next
      case d: False
      then have "cmp (fr_key f) k < 0" using asc in_t [OF f] by (auto simp: h sorted_wrt_append)
      then have "cmp gk k < 0" using lt_trans2 [of gk "fr_key f" k] snoc.prems(3) by simp
      with d show ?thesis by simp
    qed
    with False IH show ?thesis by (simp add: plug_append h)
  qed
qed simp

end

subsection \<open>Removing an entry\<close>

context comparator_sgn
begin

lemma hit_split:
  assumes asc: "ascending cmp (A @ y # B)" and y: "hit cmp k mv y"
  shows "filter (\<lambda>e. \<not> hit cmp k mv e) (A @ y # B) = A @ B" "find (hit cmp k mv) (A @ y # B) = Some y"
proof -
  have "\<not> hit cmp k mv e" if "e \<in> set A \<union> set B" for e
    using ascending_neq [OF asc _ that, of k] y by (auto simp: hit_def)
  moreover from this have "find (hit cmp k mv) A = None" by (simp add: find_None_iff)
  ultimately show "filter (\<lambda>e. \<not> hit cmp k mv e) (A @ y # B) = A @ B" "find (hit cmp k mv) (A @ y # B) = Some y"
    using y by (auto simp: find_append filter_id_conv)
qed

lemma hit_none:
  assumes "\<forall>y \<in> set es. \<not> hit cmp k mv y"
  shows "filter (\<lambda>e. \<not> hit cmp k mv e) es = es" "find (hit cmp k mv) es = None"
  using assms by (auto simp: filter_id_conv find_None_iff)

lemma eyb_found:
  "tm_root m \<noteq> Tip \<Longrightarrow> rm_loop cmp k mv [] (tm_root m) None = Some (fs, Node c x w a b, Some y) \<Longrightarrow>
   (if cmp x (fst y) \<noteq> 0 then fyb cmp (plug fs (Node c x w a b)) (fst y) x w else Some (plug fs (Node c x w a b))) = Some t' \<Longrightarrow>
   eyb cmp m k mv = Some (\<lparr>tm_root = set_red False (put_at t' (rev (map fr_dir fs)) (kid (Node c x w a b) (a = Tip))),
     tm_size = tm_size m - 1\<rparr>, Some (snd y))"
  by (cases y; cases "cmp x (fst y) = 0") (simp_all add: eyb_def Let_def)

lemma bh_0: "invh t \<Longrightarrow> bh t = 0 \<Longrightarrow> \<not> ayb t \<Longrightarrow> t = Tip"
  by (cases t) auto

lemma cut_rb:
  assumes "focus_ok fs (Node c x w a b)" "ayb (Node c x w a b) \<or> fs = []" "a = Tip \<or> b = Tip"
  shows "focus_ok fs (kid (Node c x w a b) (a = Tip))"
  using assms bh_0 [of a] bh_0 [of b] by (cases c) (auto simp: focus_ok_def intro: ctx_ok_black)

lemma eyb_removes:
  assumes ok: "tm_ok cmp m"
  shows "\<exists>m'. eyb cmp m k mv = Some (m', map_option snd (find (hit cmp k mv) (entries m))) \<and> tm_ok cmp m' \<and>
    entries m' = filter (\<lambda>e. \<not> hit cmp k mv e) (entries m)"
proof (cases "tm_root m = Tip")
  case True
  with ok show ?thesis by (simp add: eyb_def)
next
  case False
  from ok have r: "ascending cmp (entries m)" "invc (tm_root m)" "invh (tm_root m)" "tm_size m = length (entries m)"
    by (simp_all add: tm_ok_def)
  obtain fs l g where loop: "rm_loop cmp k mv [] (tm_root m) None = Some (fs, l, g)" "focus_ok fs l" "ayb l \<or> fs = []"
    "inorder (plug fs l) = entries m" "srch_done cmp k mv fs l g"
    using rm_loop_spec [of "[]" "tm_root m" k mv None] r False
    by (auto simp: focus_ok_def guarded_def srch_def)
  obtain c x w a b where l: "l = Node c x w a b" using loop(5) by (auto simp: srch_done_def)
  have rb: "invc2 (plug fs' t) \<and> invh (plug fs' t)" if "focus_ok fs' t" for fs' and t :: "('a, 'b) tree"
    using rb_plug [of fs' t] that by (simp add: focus_ok_def)
  have es: "entries m = pre fs @ inorder a @ (x, w) # inorder b @ post fs"
    using loop(4) by (simp add: inorder_plug l)
  note asc = r(1) [unfolded es]
  show ?thesis
  proof (cases g)
    case None
    with loop(4,5) l have "\<forall>y \<in> set (entries m). \<not> hit cmp k mv y" by (auto simp: srch_done_def)
    moreover have "eyb cmp m k mv = Some (m\<lparr>tm_root := set_red False (plug fs l)\<rparr>, None)"
      using False loop(1) None by (simp add: eyb_def l)
    moreover have "tm_ok cmp (m\<lparr>tm_root := set_red False (plug fs l)\<rparr>)"
      using r rb [OF loop(2)] loop(4) by (simp add: tm_ok_def invc2_black)
    ultimately show ?thesis using hit_none loop(4) by simp
  next
    case (Some y)
    let ?fs = "if cmp x (fst y) \<noteq> 0 then map (upd_frame cmp (fst y) x w) fs else fs"
    let ?t = "plug ?fs (kid l (a = Tip))"
    from Some loop(5) l have y: "hit cmp k mv y" "y = (x, w) \<and> b = Tip \<or> a = Tip \<and> cmp x (fst y) \<noteq> 0 \<and> (\<exists>A. pre fs = A @ [y])"
      by (auto simp: srch_done_def)
    have t': "(if cmp x (fst y) \<noteq> 0 then fyb cmp (plug fs l) (fst y) x w else Some (plug fs l)) = Some (plug ?fs l)"
    proof (cases "cmp x (fst y) = 0")
      case f: False
      with y(2) obtain A where "pre fs = A @ [y]" by auto
      from pre_last [OF this] obtain f where f: "f \<in> set fs" "cmp (fst y) (fr_key f) = 0" by fastforce
      show ?thesis using fyb_plug [OF _ f, of l x w] r(1) loop(4) f(1) \<open>cmp x (fst y) \<noteq> 0\<close> by simp
    qed simp
    have put: "put_at (plug ?fs l) (rev (map fr_dir fs)) s = plug ?fs s" for s
      using put_at_plug [of ?fs l s] dirs_upd [of cmp "fst y" x w fs] by (simp del: map_map split: if_splits)
    have eyb: "eyb cmp m k mv = Some (\<lparr>tm_root = set_red False ?t, tm_size = tm_size m - 1\<rparr>, Some (snd y))"
      using eyb_found [OF False loop(1) [unfolded l Some] t' [unfolded l]] put unfolding l by (simp only:)
    have parts: "\<exists>A B. entries m = A @ y # B \<and> inorder ?t = A @ B"
    proof (cases "y = (x, w) \<and> b = Tip")
      case True
      then have "inorder ?t = (pre fs @ inorder a) @ post fs" by (auto simp: l inorder_plug)
      with True es show ?thesis by (metis append.assoc append_Cons inorder.simps(1) append_Nil)
    next
      case f: False
      with y(2) obtain A where A: "a = Tip" "cmp x (fst y) \<noteq> 0" "pre fs = A @ [y]" by blast
      have "ascending cmp (pre fs @ post fs)" using asc by (simp add: sorted_wrt_append)
      from pre_post_upd [OF A(3) this cmp_self, of x w] A
      have "inorder ?t = A @ (x, w) # inorder b @ post fs" by (simp add: l inorder_plug)
      moreover have "entries m = A @ y # (x, w) # inorder b @ post fs" using es A by simp
      ultimately show ?thesis by blast
    qed
    then obtain A B where AB: "entries m = A @ y # B" "inorder ?t = A @ B" by blast
    have "focus_ok ?fs (kid l (a = Tip))"
      using cut_rb [of fs c x w a b] loop(2,3) y(2) by (auto simp: l focus_ok_def ctx_ok_upd)
    from rb [OF this] have "invc2 ?t \<and> invh ?t" .
    moreover have "ascending cmp (A @ B)" using r(1) AB(1) by (simp add: sorted_wrt_append)
    ultimately have "tm_ok cmp \<lparr>tm_root = set_red False ?t, tm_size = tm_size m - 1\<rparr>"
      using AB r(4) by (simp add: tm_ok_def invc2_black)
    with eyb hit_split [OF r(1) [unfolded AB(1)] y(1)] AB show ?thesis by simp
  qed
qed

end

end
