(* ===== verification/GwtTreeMap.thy ===== *)
theory GwtTreeMap
  imports GwtTreeRemove
begin

text \<open>
  What \<open>java.util.TreeMap\<close> of the layout worker promises. The operations of \<open>GwtTree\<close> and
  \<open>GwtTreeRemove\<close> together refine an ascending list of entries, none of them raises, and the tree stays
  balanced. The interface that a client of a sorted dictionary needs is the locale \<open>sorted_dict\<close>.
\<close>

subsection \<open>A dictionary over a comparator\<close>

locale sorted_dict = comparator_sgn cmp for cmp :: "'k \<Rightarrow> 'k \<Rightarrow> int" +
  fixes good :: "'s \<Rightarrow> bool" and get :: "'s \<Rightarrow> 'k \<Rightarrow> 'v option"
    and put :: "'s \<Rightarrow> 'k \<Rightarrow> 'v \<Rightarrow> ('s \<times> 'v option) option" and del :: "'s \<Rightarrow> 'k \<Rightarrow> ('s \<times> 'v option) option"
  assumes put_law: "good s \<Longrightarrow> \<exists>s'. put s k v = Some (s', get s k) \<and> good s' \<and>
      (\<forall>k'. get s' k' = (if cmp k' k = 0 then Some v else get s k'))"
    and del_law: "good s \<Longrightarrow> \<exists>s'. del s k = Some (s', get s k) \<and> good s' \<and>
      (\<forall>k'. get s' k' = (if cmp k' k = 0 then None else get s k'))"
begin

text \<open>A loop that puts one entry after the other.\<close>

fun put_all :: "'s \<Rightarrow> ('k \<times> 'v) list \<Rightarrow> 's option" where
  "put_all s [] = Some s"
| "put_all s ((k, v) # es) = Option.bind (put s k v) (\<lambda>(s', _). put_all s' es)"

lemma put_all_get:
  "good s \<Longrightarrow> \<exists>s'. put_all s es = Some s' \<and> good s' \<and>
     (\<forall>k. get s' k = (case find (\<lambda>e. cmp k (fst e) = 0) (rev es) of None \<Rightarrow> get s k | Some e \<Rightarrow> Some (snd e)))"
proof (induction es arbitrary: s)
  case (Cons e es)
  obtain k v where e: "e = (k, v)" by (cases e)
  obtain s1 where s1: "put s k v = Some (s1, get s k)" "good s1"
    "\<forall>k'. get s1 k' = (if cmp k' k = 0 then Some v else get s k')"
    using put_law [OF Cons.prems, of k v] by blast
  obtain s' where s': "put_all s1 es = Some s'" "good s'"
    "\<forall>k. get s' k = (case find (\<lambda>e. cmp k (fst e) = 0) (rev es) of None \<Rightarrow> get s1 k | Some e \<Rightarrow> Some (snd e))"
    using Cons.IH [OF s1(2)] by blast
  then show ?case using s1 by (auto simp: e find_append split: option.split)
qed simp

text \<open>A deleted entry is gone, and deleting it again changes nothing more.\<close>

lemma del_twice:
  assumes "good s"
  shows "\<exists>s1 s2. del s k = Some (s1, get s k) \<and> del s1 k = Some (s2, None) \<and> good s2 \<and> get s2 = get s1"
proof -
  obtain s1 where s1: "del s k = Some (s1, get s k)" "good s1" "\<forall>k'. get s1 k' = (if cmp k' k = 0 then None else get s k')"
    using del_law [OF assms, of k] by blast
  obtain s2 where "del s1 k = Some (s2, get s1 k)" "good s2" "\<forall>k'. get s2 k' = (if cmp k' k = 0 then None else get s1 k')"
    using del_law [OF s1(2), of k] by blast
  with s1 show ?thesis by fastforce
qed

end

definition tree_get :: "('k \<Rightarrow> 'k \<Rightarrow> int) \<Rightarrow> ('k, 'v) tree_map \<Rightarrow> 'k \<Rightarrow> 'v option" where
  "tree_get cmp m k = map_option snd (Txb cmp (tm_root m) k)"

context comparator_sgn
begin

lemma cmp_zero_iff: "cmp x y = 0 \<longleftrightarrow> cmp x y \<le> 0 \<and> cmp y x \<le> 0"
  using cmp_sgn [of x y] cmp_sgn [of y x] by linarith

lemma cmp_cong: "cmp k k' = 0 \<Longrightarrow> cmp k x = 0 \<longleftrightarrow> cmp k' x = 0"
  unfolding cmp_zero_iff by (meson cmp_trans)

lemma cmp_neq: "cmp k' k \<noteq> 0 \<Longrightarrow> cmp k x = 0 \<Longrightarrow> cmp k' x \<noteq> 0"
  using cmp_cong [of k x k'] cmp_zero_sym [of k k'] cmp_zero_sym [of x k'] by blast

lemma entry_at_upd:
  "map_option snd (entry_at cmp k' (upd cmp k v es)) =
     (if cmp k' k = 0 then Some v else map_option snd (entry_at cmp k' es))"
proof (cases "cmp k' k = 0")
  case True
  then show ?thesis by (induction es) (use cmp_cong [OF True] in auto)
next
  case False
  then show ?thesis by (induction es) (use cmp_neq [OF False] in auto)
qed

lemma entry_at_filter:
  "entry_at cmp k' (filter (\<lambda>e. cmp k (fst e) \<noteq> 0) es) = (if cmp k' k = 0 then None else entry_at cmp k' es)"
proof (cases "cmp k' k = 0")
  case True
  then show ?thesis by (induction es) (use cmp_cong [OF True] in auto)
next
  case False
  then show ?thesis by (induction es) (use cmp_neq [OF False] in auto)
qed

lemma hit_all: "hit cmp k None y \<longleftrightarrow> cmp k (fst y) = 0"
  by (simp add: hit_def)

lemma find_hit: "find (hit cmp k None) es = entry_at cmp k es"
  by (induction es) (simp_all add: hit_all)

lemma hit_value: "hit cmp k (Some v) y \<longleftrightarrow> cmp k (fst y) = 0 \<and> snd y = v"
  by (auto simp: hit_def)

lemma find_hit_value: "find (hit cmp k (Some v)) es = None \<longleftrightarrow> (\<forall>e \<in> set es. \<not> (cmp k (fst e) = 0 \<and> snd e = v))"
  by (auto simp: find_None_iff hit_value)

lemma tree_get_at: "tm_ok cmp m \<Longrightarrow> tree_get cmp m k = map_option snd (entry_at cmp k (entries m))"
  by (simp add: tree_get_def Txb_at tm_ok_def)

lemma tree_put_law:
  assumes "tm_ok cmp m"
  shows "\<exists>m'. byb cmp m k v = Some (m', tree_get cmp m k) \<and> tm_ok cmp m' \<and>
    (\<forall>k'. tree_get cmp m' k' = (if cmp k' k = 0 then Some v else tree_get cmp m k'))"
  using byb_put [OF assms, of k v] assms by (auto simp: tree_get_at entry_at_upd)

lemma tree_del_law:
  assumes "tm_ok cmp m"
  shows "\<exists>m'. cyb cmp m k = Some (m', tree_get cmp m k) \<and> tm_ok cmp m' \<and>
    (\<forall>k'. tree_get cmp m' k' = (if cmp k' k = 0 then None else tree_get cmp m k'))"
  using eyb_removes [OF assms, of k None] assms
  by (auto simp: cyb_def tree_get_at hit_all find_hit entry_at_filter)

end

sublocale comparator_sgn \<subseteq> tree: sorted_dict cmp "tm_ok cmp" "tree_get cmp" "byb cmp" "cyb cmp"
  by unfold_locales (fact tree_put_law tree_del_law)+

interpretation int_tree: sorted_dict rfb "tm_ok rfb" "tree_get rfb" "byb rfb" "cyb rfb"
  by unfold_locales

subsection \<open>Refinement of an ascending list of entries\<close>

datatype ('k, 'v) map_op =
  Put 'k 'v | Remove 'k | RemoveEntry 'k 'v | Get 'k | Ceiling 'k bool | Floor 'k bool | First | Last

datatype ('k, 'v) map_answer = Val "'v option" | Flag bool | Entry "('k \<times> 'v) option"

fun tree_op :: "('k \<Rightarrow> 'k \<Rightarrow> int) \<Rightarrow> ('k, 'v) map_op \<Rightarrow> ('k, 'v) tree_map \<Rightarrow> (('k, 'v) tree_map \<times> ('k, 'v) map_answer) option" where
  "tree_op cmp (Put k v) m = map_option (\<lambda>(m', st). (m', Val st)) (byb cmp m k v)"
| "tree_op cmp (Remove k) m = map_option (\<lambda>(m', st). (m', Val st)) (cyb cmp m k)"
| "tree_op cmp (RemoveEntry k v) m = map_option (\<lambda>(m', b). (m', Flag b)) (dyb cmp m (k, v))"
| "tree_op cmp (Get k) m = Some (m, Entry (Txb cmp (tm_root m) k))"
| "tree_op cmp (Ceiling k c) m = Some (m, Entry (Wxb cmp (tm_root m) k c))"
| "tree_op cmp (Floor k c) m = Some (m, Entry (Xxb cmp (tm_root m) k c))"
| "tree_op cmp First m = Some (m, Entry (Uxb (tm_root m)))"
| "tree_op cmp Last m = Some (m, Entry (Vxb (tm_root m)))"

fun list_op :: "('k \<Rightarrow> 'k \<Rightarrow> int) \<Rightarrow> ('k, 'v) map_op \<Rightarrow> ('k \<times> 'v) list \<Rightarrow> ('k \<times> 'v) list \<times> ('k, 'v) map_answer" where
  "list_op cmp (Put k v) es = (upd cmp k v es, Val (map_option snd (find (\<lambda>e. cmp k (fst e) = 0) es)))"
| "list_op cmp (Remove k) es =
     (filter (\<lambda>e. cmp k (fst e) \<noteq> 0) es, Val (map_option snd (find (\<lambda>e. cmp k (fst e) = 0) es)))"
| "list_op cmp (RemoveEntry k v) es =
     (filter (\<lambda>e. \<not> (cmp k (fst e) = 0 \<and> snd e = v)) es, Flag (\<exists>e \<in> set es. cmp k (fst e) = 0 \<and> snd e = v))"
| "list_op cmp (Get k) es = (es, Entry (find (\<lambda>e. cmp k (fst e) = 0) es))"
| "list_op cmp (Ceiling k c) es = (es, Entry (find (\<lambda>e. cmp k (fst e) < 0 \<or> c \<and> cmp k (fst e) = 0) es))"
| "list_op cmp (Floor k c) es = (es, Entry (find (\<lambda>e. cmp k (fst e) > 0 \<or> c \<and> cmp k (fst e) = 0) (rev es)))"
| "list_op cmp First es = (es, Entry (if es = [] then None else Some (hd es)))"
| "list_op cmp Last es = (es, Entry (if es = [] then None else Some (last es)))"

fun tree_run where
  "tree_run cmp [] m = Some (m, [])"
| "tree_run cmp (op # ops) m =
     Option.bind (tree_op cmp op m) (\<lambda>(m', a). map_option (\<lambda>(m'', as). (m'', a # as)) (tree_run cmp ops m'))"

fun list_run where
  "list_run cmp [] es = (es, [])"
| "list_run cmp (op # ops) es =
     (let (es', a) = list_op cmp op es; (es'', as) = list_run cmp ops es' in (es'', a # as))"

lemma Uxb_hd: "Uxb t = (if inorder t = [] then None else Some (hd (inorder t)))"
  by (simp add: Uxb_first split: list.split)

lemma Vxb_hd: "Vxb t = (if inorder t = [] then None else Some (last (inorder t)))"
  by (cases "inorder t" rule: rev_cases) (simp_all add: Vxb_last)

context comparator_sgn
begin

lemma tree_op_refines:
  assumes ok: "tm_ok cmp m"
  shows "\<exists>m'. tree_op cmp op m = Some (m', snd (list_op cmp op (entries m))) \<and> tm_ok cmp m' \<and>
    entries m' = fst (list_op cmp op (entries m))"
proof -
  have asc: "ascending cmp (entries m)" using ok by (simp add: tm_ok_def)
  show ?thesis
  proof (cases op)
    case (Put k v)
    then show ?thesis using byb_put [OF ok, of k v] by (auto simp: entry_at_def)
  next
    case (Remove k)
    then show ?thesis using eyb_removes [OF ok, of k None] by (auto simp: cyb_def hit_all find_hit entry_at_def)
  next
    case (RemoveEntry k v)
    then show ?thesis using eyb_removes [OF ok, of k "Some v"]
      by (auto simp: dyb_def hit_value find_hit_value simp del: not_None_eq)
  next
    case (Get k)
    then show ?thesis using ok asc by (simp add: Txb_at entry_at_def)
  next
    case (Ceiling k c)
    then show ?thesis using ok asc by (simp add: Wxb_find)
  next
    case (Floor k c)
    then show ?thesis using ok asc by (simp add: Xxb_find)
  next
    case First
    then show ?thesis using ok by (simp add: Uxb_hd)
  next
    case Last
    then show ?thesis using ok by (simp add: Vxb_hd)
  qed
qed

lemma tree_run_refines:
  "tm_ok cmp m \<Longrightarrow> \<exists>m'. tree_run cmp ops m = Some (m', snd (list_run cmp ops (entries m))) \<and> tm_ok cmp m' \<and>
     entries m' = fst (list_run cmp ops (entries m))"
proof (induction ops arbitrary: m)
  case (Cons op ops)
  obtain m1 where "tree_op cmp op m = Some (m1, snd (list_op cmp op (entries m)))" "tm_ok cmp m1"
    "entries m1 = fst (list_op cmp op (entries m))"
    using tree_op_refines [OF Cons.prems, of op] by blast
  with Cons.IH [of m1] show ?case by (auto simp: case_prod_beta Let_def)
qed simp

end

definition kyb :: "('k, 'v) tree_map" where
  "kyb = \<lparr>tm_root = Tip, tm_size = 0\<rparr>"

lemma kyb_ok: "tm_ok cmp kyb"
  by (simp add: kyb_def tm_ok_def)

text \<open>
  Claim C5. From the empty map every sequence of insertions, removals (by key, by key and value) and
  searches (exact, next above, next below, first, last) runs without raising, and gives the answers
  and the entries of the same sequence on an ascending list. The tree that it leaves is a search tree
  with equal black heights, no red node below a red one and a black root, and its size is right.
\<close>

theorem tree_map_refines:
  "comparator_sgn cmp \<Longrightarrow>
   \<exists>m. tree_run cmp ops kyb = Some (m, snd (list_run cmp ops [])) \<and> tm_ok cmp m \<and>
       inorder (tm_root m) = fst (list_run cmp ops [])"
  using comparator_sgn.tree_run_refines [OF _ kyb_ok, of cmp ops] by (simp add: kyb_def)

theorem tree_map_refines_witness:
  "\<exists>m. tree_run rfb [Put 2 ''b'', Put 1 ''a'', Remove 2, Ceiling 0 True, Last] kyb =
      Some (m, [Val None, Val None, Val (Some ''b''), Entry (Some (1, ''a'')), Entry (Some (1, ''a''))]) \<and>
    tm_ok rfb m \<and> inorder (tm_root m) = [(1, ''a'')]"
  using tree_map_refines [OF int_order.comparator_sgn_axioms,
      of "[Put 2 ''b'', Put 1 ''a'', Remove 2, Ceiling 0 True, Last]"]
  by (simp add: rfb_def)

text \<open>
  Claim C22. The tree that any sequence of insertions and removals leaves is balanced: two to its
  height is at most the square of one more than its size.
\<close>

theorem tree_map_balanced:
  "comparator_sgn cmp \<Longrightarrow> tree_run cmp ops kyb = Some (m, as) \<Longrightarrow> 2 ^ height (tm_root m) \<le> (tm_size m + 1) ^ 2"
  using comparator_sgn.tree_run_refines [OF _ kyb_ok, of cmp ops] tm_height [of cmp m] by auto

theorem tree_map_balanced_witness:
  "2 ^ height (Node False 2 () (Node True (1::int) () Tip Tip) Tip) \<le> ((2::nat) + 1) ^ 2"
proof -
  have "tree_run rfb [Put 1 (), Put 2 (), Put 3 (), Remove 3] kyb =
      Some (\<lparr>tm_root = Node False 2 () (Node True 1 () Tip Tip) Tip, tm_size = 2\<rparr>, [Val None, Val None, Val None, Val (Some ())])"
    by code_simp
  from tree_map_balanced [OF int_order.comparator_sgn_axioms this] show ?thesis by simp
qed

end
