(* ===== verification/Spec2Isabelle.thy ===== *)
theory Spec2Isabelle
  imports ExplorerGraph ExplorerRender ExplorerDom ExplorerNavigator ExplorerPaging ExplorerState
    ExplorerLoads ExplorerRequests LayoutProtocol ExplorerInspector ExplorerViewport
    ExplorerServer BuildText JsLibrary ObjectLayer CodeRun LongCode TreeCode ArrayCode
    HeapCode SortCode CodeLinks QueueLinks ShiftCode ShiftLinks GwtLong GwtLongShift
    GwtLongDivide GwtSort GwtHeap GwtTree GwtTreeRemove GwtTreeMap
begin

text \<open>
  A verification library for the JavaScript of dagrail: the explorer of the web user interface and
  the layout worker it drives.

  \<^bold>\<open>The program.\<close> \<open>src/internal/ui/web/app.ts\<close> is the explorer. It fetches a project map and topology
  pages from the Go server, builds a graph for the layout engine, sends it to a web worker, and draws
  the result. \<open>src/internal/ui/static/layout-worker.js\<close> is the worker: a dispatcher for messages and a
  layout engine compiled from Java by GWT, one function of the source per line, with the Java runtime
  it needs (longs, sorting, collections) and a table of classes at the end. \<open>src/internal/ui/web/build.mjs\<close>
  makes both files.

  \<^bold>\<open>Shared.\<close> \<open>Prelude\<close> holds optional values and truthiness, sorting with a comparator (locales
  \<open>comparator\<close> and \<open>comparator_sgn\<close>), and the insertion-ordered \<open>Map\<close> (locale \<open>keyed_store\<close>).

  \<^bold>\<open>The explorer.\<close>

  \<^item> \<open>ExplorerGraph\<close>: \<open>projectMapToTopology\<close>, \<open>visibleTopology\<close>, \<open>refID\<close>, \<open>safeClass\<close>, \<open>elkNodeForGroup\<close> and
  \<open>buildELKGraph\<close>. Records mirror the JSON; a missing field is \<open>None\<close>. The recursion over groups
  carries fuel, \<open>None\<close> is a recursion that does not return; the number of groups is enough for every
  input with distinct nonempty identifiers, whatever the parent links. Shown: for acyclic parent links every
  visible node and group is handed to the engine exactly once, directly under its parent
  (\<open>graph_places\<close>); the edges are exactly the usable ones.

  \<^item> \<open>ExplorerRender\<close>: \<open>flatten\<close>, \<open>renderEdges\<close>, the spotlight and the zoom, over any ordered field.

  \<^item> \<open>ExplorerDom\<close>: the elements that \<open>renderNodes\<close>, \<open>renderGroup\<close>, \<open>renderNode\<close> and \<open>renderMinimap\<close> create,
  as values, and \<open>updateSpotlight\<close> on them. Shown: elements stand where \<open>flatten\<close> puts them, and the
  spotlight recomputed from the page is the one that was drawn from the data, unless the selection is not in
  the layout.

  \<^item> \<open>ExplorerNavigator\<close>: \<open>renderNavigator\<close>. The recursion \<open>branch\<close> has fuel as above; the lemmas compare
  it with \<open>elkNodeForGroup\<close> to reuse the forest of \<open>ExplorerGraph\<close>.

  \<^item> \<open>ExplorerPaging\<close>: the cursor loops of \<open>neighborhoodEdges\<close> and \<open>loadGroupTopology\<close> against the page
  arithmetic of the Go function \<open>aggregateEdgeViews\<close>; the locale \<open>paged_api\<close> states what the client
  relies on, the Go model interprets it. Shown: every edge of the focus arrives, each once, within one request
  per hundred edges and one more, which is the fuel.

  \<^item> \<open>ExplorerState\<close>: address and theme.

  \<^item> \<open>ExplorerLoads\<close>: overlapping calls of \<open>loadProject\<close>, their abort controllers and the busy flag, as a
  step relation over the page, with the invariant that holds in every reachable state.

  \<^item> \<open>ExplorerRequests\<close>: \<open>switchView\<close> with \<open>renderAudit\<close>, and the search box with \<open>locate\<close>, which do not
  guard against overtaking responses. The locale \<open>ordered_panel\<close> says what holds when responses keep
  their order; the theorems show what happens when they do not.

  \<^item> \<open>ExplorerInspector\<close>: the lists of the inspector, and selecting nodes, closing, group changes, navigating the
  address, the effects of loads and the answers of the server as a step relation over the requests on their way.
  Shown: from a selection on, and until the address is navigated, the inspector is on the selected node; a refresh does not
  renew its details; after a close a late answer opens it again; an address with a node does not open it.

  \<^item> \<open>ExplorerViewport\<close>: the scroll position of the canvas, the box on the minimap, the click on it, and the
  pointer listeners that drag the canvas. Where the browser draws a point of the layout on the minimap is the rule of
  SVG for a \<open>viewBox\<close> (\<open>meet_scale\<close>), against which the conversion of a click is measured.

  \<^item> \<open>ExplorerServer\<close>: \<open>api\<close> and its messages, the status line, and the timers of \<open>scheduleRefresh\<close> and
  \<open>pollHead\<close> as a step relation whose invariant keeps the automatic refresh alive.

  \<^bold>\<open>The worker.\<close>

  \<^item> \<open>LayoutProtocol\<close>: the dispatcher (\<open>dHd\<close>, \<open>hHd\<close>) and \<open>layoutGraph\<close> of the page, message by message. The
  engine is a parameter, a total function: an engine that does not return is not modelled. Shown: promises resolve only
  with their own graph, and without superseding and error events every maximal run of a call settles it.

  \<^item> \<open>ObjectCode\<close>, \<open>JsLibrary\<close>, \<open>ObjectTable1\<close> and the tables after it, \<open>ObjectLayer\<close>: the functions of the
  worker (lines 19 to 6314 of the file, about 95 of 100: constructors, accessors, forwarding calls, static
  initialisers, the operations of collections and the algorithms of the layout engine) as terms of a small
  language whose evaluator is \<open>run\<close>, with fuel for the depth of calls and the turns of a loop; more fuel never
  changes an outcome. \<open>JsLibrary\<close> has the array methods that they use, in the same language. The locale
  \<open>store_relation\<close> carries a relation on stores through every construct of the language.

  \<^item> \<open>JsNumber\<close>, \<open>GwtLong\<close>, \<open>GwtLongShift\<close>, \<open>GwtLongDivide\<close>: JavaScript's bitwise operators on 32 bits, and
  64-bit longs emulated by three parts or by a number; arithmetic, shifts, long division with remainder and
  comparison are those of machine words. The loop that counts trailing zeros has 32 turns, after which it
  would not end; it is shown to end for every divisor.

  \<^item> \<open>GwtSort\<close>: the merge sort of \<open>java.util.Arrays\<close>, equal to a stable insertion sort.

  \<^item> \<open>GwtHeap\<close>: \<open>java.util.PriorityQueue\<close>, refining a multiset with a least element (locale \<open>min_queue\<close>).

  \<^item> \<open>GwtTree\<close>, \<open>GwtTreeRemove\<close>, \<open>GwtTreeMap\<close>: \<open>java.util.TreeMap\<close>, a red-black tree with top-down removal,
  refining an ascending list of entries (locale \<open>sorted_dict\<close>). A read of a field of \<open>null\<close> is \<open>None\<close>
  and is shown not to happen.

  \<^item> \<open>CodeRun\<close>, \<open>LongCode\<close>, \<open>TreeCode\<close>, \<open>CodeLinks\<close>: the code of the tables against the functions above. A
  long is an object of the store (\<open>long_at\<close>), a red-black tree is a set of nodes and arrays of children
  (\<open>tree_at\<close>; the keys of the tree carry the addresses). Running the code of the operations on longs, of
  the rotations, of the insertion \<open>_xb\<close> and of the searches \<open>Txb\<close>, \<open>Wxb\<close>, \<open>Xxb\<close> computes the functions
  of \<open>GwtLong\<close> and \<open>GwtTree\<close> and touches nothing else; fuel a little above the height of the tree is
  enough. The locales \<open>long_code\<close> and \<open>tree_code\<close> (an extension of \<open>comparator_code\<close>) state what a
  program has to provide, and \<open>CodeLinks\<close> interprets them with the worker. \<open>ShiftCode\<close> and \<open>ShiftLinks\<close> add
  the shifts (locale \<open>shift_code\<close>, an extension of \<open>long_code\<close>).

  \<^item> \<open>ArrayCode\<close>, \<open>HeapCode\<close>, \<open>SortCode\<close>, \<open>QueueLinks\<close>: the same for arrays, \<open>java.util.ArrayList\<close>,
  the priority queue and the sort. An array of the store holds a list (\<open>arr_at\<close>), a queue is an object with a
  comparator and an array list (\<open>queue_at\<close>). Running the code of \<open>svb\<close>, \<open>tvb\<close>, \<open>qvb\<close> and of \<open>hnb\<close> with
  \<open>enb\<close>, \<open>fnb\<close>, \<open>dnb\<close>, \<open>cnb\<close> computes the functions of \<open>GwtHeap\<close> and \<open>GwtSort\<close> on those lists and
  touches nothing but the array (and the copy that \<open>enb\<close> makes); fuel of the length of the array, twice it for
  the sort, and a constant is enough, for arrays shorter than \<open>2 ^ 30\<close>. The locales are \<open>array_code\<close>,
  \<open>array_comparator\<close>, \<open>heap_code\<close>, \<open>sort_code\<close> and \<open>array_sort_code\<close>; \<open>QueueLinks\<close> interprets
  them with the worker and the comparison of integers.

  \<^bold>\<open>Not modelled.\<close> The tool bars with their icons, \<open>fetch\<close> and the worker object
  themselves (their effects are steps or parameters), floating-point rounding (geometry is over an
  ordered field), the functions of the worker with
  closures, labelled loops, floating-point literals or host objects, the table of classes at its end, and
  the Go server apart from the page arithmetic.
\<close>

end
